(* ===== verification/Prelude.thy ===== *)
theory Prelude
  imports Main "HOL-Library.Word"
begin

text \<open>
  What the components share: generic lemmas on lists, options and integer rounding that no component
  owns. The named collections of rules stand where their rules begin.
\<close>

subsection \<open>Rounding up to a multiple\<close>

definition align_up :: "int \<Rightarrow> int \<Rightarrow> int" where
  "align_up p a = (p + a - 1) div a * a"

lemma align_up_dvd [simp, intro]: "a dvd align_up p a"
  by (simp add: align_up_def)

lemma align_up_ge:
  assumes "0 < a"
  shows "p \<le> align_up p a"
proof -
  have "p + a - 1 = (p + a - 1) div a * a + (p + a - 1) mod a" by simp
  moreover have "(p + a - 1) mod a < a" using assms by simp
  ultimately show ?thesis unfolding align_up_def by linarith
qed

lemma align_up_less:
  assumes "0 < a"
  shows "align_up p a < p + a"
proof -
  have "p + a - 1 = (p + a - 1) div a * a + (p + a - 1) mod a" by simp
  moreover have "0 \<le> (p + a - 1) mod a" using assms by simp
  ultimately show ?thesis unfolding align_up_def by linarith
qed

lemma align_up_id: "0 < a \<Longrightarrow> a dvd p \<Longrightarrow> align_up p a = p"
proof -
  assume a: "0 < a" and "a dvd p"
  then obtain k where k: "p = k * a" by (auto simp: dvd_def mult.commute)
  have "(k * a + (a - 1)) div a = k"
    using a by (simp add: div_mult_self3 div_pos_pos_trivial)
  then show ?thesis by (simp add: align_up_def k add_diff_eq)
qed

lemma dvd_power_two_max:
  fixes a b :: int
  assumes "a dvd b \<or> b dvd a" and "0 < a" and "0 < b"
  shows "a dvd max a b" and "b dvd max a b"
  using assms by (auto simp: max_def dest: zdvd_imp_le)

subsection \<open>Lists\<close>

text \<open>\<open>all_true (map P xs)\<close> is \<open>list_all P xs\<close> in the form that evaluates one element at a
  time.\<close>

fun all_true :: "bool list \<Rightarrow> bool" where
  "all_true [] = True"
| "all_true (b # bs) = (b \<and> all_true bs)"

lemma all_true_map: "all_true (map P xs) = list_all P xs"
  by (induction xs) auto

lemma list_all_nth: "list_all P xs \<Longrightarrow> i < length xs \<Longrightarrow> P (xs ! i)"
  by (simp add: list_all_length)

end
