(* ===== verification/CLayout.thy ===== *)
theory CLayout
  imports Prelude
begin

text \<open>
  The memory layout of the C structs the location messages are decoded into: sizes,
  alignments and member offsets of scalar types, enumerations, arrays and structs, with the
  natural alignment of the LP64 ABIs the code is built for. \<open>csize\<close> is C's \<open>sizeof\<close> and
  \<open>offsetof\<close> its \<open>offsetof\<close>. The lemmas show that the members of a struct are aligned, lie
  inside it and do not overlap, whatever the struct.
\<close>

section \<open>C types\<close>

datatype cprim =
    CChar | CInt8 | CUint8 | CInt16 | CUint16 | CInt32 | CUint32 | CFloat
  | CInt64 | CUint64 | CDouble

text \<open>An enumeration keeps its enumerators and their values: the ABI gives it the size of
  \<open>int\<close>. Struct members are listed in the order of the declaration.\<close>

datatype cty =
    CPrim cprim
  | CEnum "(string \<times> int) list"
  | CArr cty int
  | CStruct "(string \<times> cty) list"

fun prim_size :: "cprim \<Rightarrow> int" where
  "prim_size CChar = 1"
| "prim_size CInt8 = 1"
| "prim_size CUint8 = 1"
| "prim_size CInt16 = 2"
| "prim_size CUint16 = 2"
| "prim_size CInt32 = 4"
| "prim_size CUint32 = 4"
| "prim_size CFloat = 4"
| "prim_size CInt64 = 8"
| "prim_size CUint64 = 8"
| "prim_size CDouble = 8"

fun calign :: "cty \<Rightarrow> int" and falign :: "(string \<times> cty) list \<Rightarrow> int" where
  "calign (CPrim p) = prim_size p"
| "calign (CEnum es) = 4"
| "calign (CArr t n) = calign t"
| "calign (CStruct fs) = falign fs"
| "falign [] = 1"
| "falign ((f, t) # fs) = max (calign t) (falign fs)"

fun csize :: "cty \<Rightarrow> int" and fend :: "int \<Rightarrow> (string \<times> cty) list \<Rightarrow> int" where
  "csize (CPrim p) = prim_size p"
| "csize (CEnum es) = 4"
| "csize (CArr t n) = n * csize t"
| "csize (CStruct fs) = align_up (fend 0 fs) (falign fs)"
| "fend p [] = p"
| "fend p ((f, t) # fs) = fend (align_up p (calign t) + csize t) fs"

text \<open>The members with their offsets, from a running position: \<open>place\<close> puts one member at a
  position that is already aligned.\<close>

fun layout :: "int \<Rightarrow> (string \<times> cty) list \<Rightarrow> (string \<times> int \<times> cty) list"
and place :: "int \<Rightarrow> string \<Rightarrow> cty \<Rightarrow> (string \<times> cty) list \<Rightarrow> (string \<times> int \<times> cty) list" where
  "layout p [] = []"
| "layout p ((f, t) # fs) = place (align_up p (calign t)) f t fs"
| "place p f t fs = (f, p, t) # layout (p + csize t) fs"

fun members :: "cty \<Rightarrow> (string \<times> cty) list" where
  "members (CStruct fs) = fs"
| "members _ = []"

fun names_offsets :: "(string \<times> int \<times> cty) list \<Rightarrow> (string \<times> int) list" where
  "names_offsets [] = []"
| "names_offsets ((f, p, t) # ms) = (f, p) # names_offsets ms"

fun find_offset :: "(string \<times> int) list \<Rightarrow> string \<Rightarrow> int"
and pick_offset :: "bool \<Rightarrow> int \<Rightarrow> (string \<times> int) list \<Rightarrow> string \<Rightarrow> int" where
  "find_offset [] g = -1"
| "find_offset ((f, p) # ms) g = pick_offset (f = g) p ms g"
| "pick_offset True p ms g = p"
| "pick_offset False p ms g = find_offset ms g"

definition struct_layout :: "cty \<Rightarrow> (string \<times> int \<times> cty) list" where
  "struct_layout t = layout 0 (members t)"

definition offsetof :: "cty \<Rightarrow> string \<Rightarrow> int" where
  "offsetof t = find_offset (names_offsets (struct_layout t))"

text \<open>The leaves of a type, with the counts of its arrays: what a byte copy can tell apart.\<close>

fun shape :: "cty \<Rightarrow> int list" and fshape :: "(string \<times> cty) list \<Rightarrow> int list" where
  "shape (CPrim p) = [prim_size p]"
| "shape (CEnum es) = [4]"
| "shape (CArr t n) = - n # shape t"
| "shape (CStruct fs) = fshape fs @ [0]"
| "fshape [] = []"
| "fshape ((f, t) # fs) = shape t @ fshape fs"

section \<open>Facts about every layout\<close>

fun wf_cty :: "cty \<Rightarrow> bool" and wf_members :: "(string \<times> cty) list \<Rightarrow> bool" where
  "wf_cty (CPrim p) = True"
| "wf_cty (CEnum es) = True"
| "wf_cty (CArr t n) = (0 < n \<and> wf_cty t)"
| "wf_cty (CStruct fs) = wf_members fs"
| "wf_members [] = True"
| "wf_members ((f, t) # fs) = (wf_cty t \<and> wf_members fs)"

lemma prim_size_pos [simp]: "0 < prim_size p"
  by (cases p) auto

lemma calign_pos [simp]: "0 < calign t"
  and falign_pos [simp]: "0 < falign fs"
  by (induction t and fs rule: calign_falign.induct) auto

lemmas align_up_calign_ge = align_up_ge [OF calign_pos]
lemmas align_up_falign_ge = align_up_ge [OF falign_pos]

lemma csize_nonneg: "wf_cty t \<Longrightarrow> 0 \<le> csize t"
  and fend_ge: "wf_members fs \<Longrightarrow> p \<le> fend p fs"
proof (induction t and p fs rule: csize_fend.induct)
  case (4 fs)
  then have "0 \<le> fend 0 fs" by simp
  also have "\<dots> \<le> align_up (fend 0 fs) (falign fs)" by (rule align_up_falign_ge)
  finally show ?case by simp
next
  case (6 p f t fs)
  have "p \<le> align_up p (calign t)" by (rule align_up_calign_ge)
  also have "\<dots> \<le> align_up p (calign t) + csize t" using 6 by simp
  also have "\<dots> \<le> fend \<dots> fs" using 6 by simp
  finally show ?case by simp
qed (auto simp: less_imp_le [OF prim_size_pos])

lemma csize_pos_struct: "wf_cty t \<Longrightarrow> 0 \<le> csize t"
  by (rule csize_nonneg)

text \<open>A member of a layout lies between the position the layout starts from and its end.\<close>

lemma layout_bounds:
  assumes "wf_members fs" and "(f, q, t) \<in> set (layout p fs)"
  shows "p \<le> q \<and> q + csize t \<le> fend p fs"
  using assms
proof (induction fs arbitrary: p)
  case Nil
  then show ?case by simp
next
  case (Cons m fs)
  obtain g u where m: "m = (g, u)" by (cases m)
  let ?q = "align_up p (calign u)"
  have p: "p \<le> ?q" by (rule align_up_calign_ge)
  have u: "0 \<le> csize u" and wf: "wf_members fs"
    using Cons.prems(1) m by (auto intro: csize_nonneg)
  have e: "?q + csize u \<le> fend (?q + csize u) fs" using wf by (rule fend_ge)
  show ?case
  proof (cases "(f, q, t) = (g, ?q, u)")
    case True
    with p e show ?thesis by (simp add: m)
  next
    case False
    with Cons.prems(2) have "(f, q, t) \<in> set (layout (?q + csize u) fs)"
      by (auto simp: m)
    from Cons.IH [OF wf this] p u show ?thesis by (simp add: m)
  qed
qed

lemma layout_aligned: "(f, q, t) \<in> set (layout p fs) \<Longrightarrow> calign t dvd q"
  by (induction fs arbitrary: p) auto

text \<open>Two members of a layout at different positions of the list occupy disjoint bytes.\<close>

lemma layout_disjoint:
  assumes "wf_members fs" and "i < j" and "j < length (layout p fs)"
    and "layout p fs ! i = (f, q, t)" and "layout p fs ! j = (g, r, u)"
  shows "q + csize t \<le> r"
  using assms
proof (induction fs arbitrary: p i j)
  case Nil
  then show ?case by simp
next
  case (Cons m fs)
  obtain h v where m: "m = (h, v)" by (cases m)
  let ?q = "align_up p (calign v)"
  let ?rest = "layout (?q + csize v) fs"
  have wf: "wf_members fs" using Cons.prems(1) m by simp
  obtain j' where j': "j = Suc j'" using Cons.prems(2) by (cases j) auto
  have r: "?rest ! j' = (g, r, u)" and len: "j' < length ?rest"
    using Cons.prems(3,5) m j' by auto
  show ?case
  proof (cases i)
    case 0
    then have q: "q = ?q" "t = v" using Cons.prems(4) m by auto
    have "(g, r, u) \<in> set ?rest" using r len by (metis nth_mem)
    from layout_bounds [OF wf this] show ?thesis by (simp add: q)
  next
    case (Suc i')
    then have "?rest ! i' = (f, q, t)" and "i' < j'"
      using Cons.prems(2,4) m j' by auto
    then show ?thesis using Cons.IH wf len r by blast
  qed
qed

lemma length_layout [simp]: "length (layout p fs) = length fs"
  by (induction fs arbitrary: p) auto

lemma fend_le_csize: "fend 0 fs \<le> csize (CStruct fs)"
  by (simp add: align_up_falign_ge)

lemma csize_dvd: "wf_cty t \<Longrightarrow> calign t dvd csize t"
proof (induction t)
  case (CArr t n)
  then show ?case by (auto intro: dvd_mult)
qed auto

lemma find_offset_hit:
  "distinct (map fst ms) \<Longrightarrow> (f, q) \<in> set ms \<Longrightarrow> find_offset ms f = q"
proof (induction ms)
  case (Cons m ms)
  obtain g r where m: "m = (g, r)" by (cases m)
  show ?case
  proof (cases "g = f")
    case True
    then have "(f, q) \<notin> set ms" using Cons.prems(1) by (force simp: m)
    then show ?thesis using Cons.prems(2) True by (simp add: m)
  next
    case False
    then show ?thesis using Cons by (auto simp: m)
  qed
qed simp

lemma names_offsets_eq: "names_offsets ms = map (\<lambda>(f, p, t). (f, p)) ms"
  by (induction ms rule: names_offsets.induct) auto

lemma map_fst_layout: "map fst (layout p fs) = map fst fs"
  by (induction fs arbitrary: p) auto

text \<open>\<open>offsetof\<close> of a member is where the layout puts it.\<close>

lemma offsetof_layout:
  assumes "distinct (map fst fs)" and "(f, q, t) \<in> set (layout 0 fs)"
  shows "offsetof (CStruct fs) f = q"
proof -
  have "map fst (names_offsets (layout 0 fs)) = map fst fs"
    by (simp add: names_offsets_eq o_def case_prod_beta flip: map_fst_layout [of 0])
  with assms show ?thesis
    unfolding offsetof_def struct_layout_def members.simps
    by (intro find_offset_hit) (force simp: names_offsets_eq)+
qed

end
