(* ===== verification/QmiIdl.thy ===== *)
theory QmiIdl
  imports CLayout "HOL-Library.Monad_Syntax"
begin

unbundle bit_operations_syntax

text \<open>
  The message description tables of the QMI location service: the macros of
  \<open>loc_api/loc_api_v02/qmi_idl_lib_internal.h\<close> the tables are written with, the table entries,
  and what it means that a table describes a C struct. The bytes of a table are \<open>int\<close>s in
  \<open>0..255\<close>: an initializer that does not fit is reduced as the store into \<open>uint8_t\<close> does.
\<close>

section \<open>Macros of the tables\<close>

definition QMI_IDL_FLAGS_OFFSET_IS_16 :: int where "QMI_IDL_FLAGS_OFFSET_IS_16 = 0x80"
definition QMI_IDL_FLAGS_IS_ARRAY :: int where "QMI_IDL_FLAGS_IS_ARRAY = 0x40"
definition QMI_IDL_FLAGS_SZ_IS_16 :: int where "QMI_IDL_FLAGS_SZ_IS_16 = 0x20"
definition QMI_IDL_FLAGS_IS_VARIABLE_LEN :: int where "QMI_IDL_FLAGS_IS_VARIABLE_LEN = 0x10"
definition QMI_IDL_FLAG_END_VALUE :: int where "QMI_IDL_FLAG_END_VALUE = 0x20"
definition QMI_IDL_TLV_FLAGS_LAST_TLV :: int where "QMI_IDL_TLV_FLAGS_LAST_TLV = 0x80"
definition QMI_IDL_TLV_FLAGS_OPTIONAL :: int where "QMI_IDL_TLV_FLAGS_OPTIONAL = 0x40"
definition QMI_IDL_GENERIC_1_BYTE :: int where "QMI_IDL_GENERIC_1_BYTE = 0"
definition QMI_IDL_GENERIC_2_BYTE :: int where "QMI_IDL_GENERIC_2_BYTE = 1"
definition QMI_IDL_GENERIC_4_BYTE :: int where "QMI_IDL_GENERIC_4_BYTE = 2"
definition QMI_IDL_GENERIC_8_BYTE :: int where "QMI_IDL_GENERIC_8_BYTE = 3"
definition QMI_IDL_STRING :: int where "QMI_IDL_STRING = 6"
definition QMI_IDL_AGGREGATE :: int where "QMI_IDL_AGGREGATE = 7"

text \<open>\<open>off\<close> is \<open>offsetof\<close> of the struct the macro names.\<close>

definition QMI_IDL_OFFSET8 :: "(string \<Rightarrow> int) \<Rightarrow> string \<Rightarrow> int" where
  "QMI_IDL_OFFSET8 off f = off f mod 256"

definition QMI_IDL_OFFSET16RELATIVE :: "(string \<Rightarrow> int) \<Rightarrow> string \<Rightarrow> int" where
  "QMI_IDL_OFFSET16RELATIVE off f = off f"

definition QMI_IDL_OFFSET16ARRAY :: "(string \<Rightarrow> int) \<Rightarrow> string \<Rightarrow> int list" where
  "QMI_IDL_OFFSET16ARRAY off f = [off f mod 256, off f div 256 mod 256]"

definition QMI_IDL_TYPE16 :: "int \<Rightarrow> int \<Rightarrow> int" where
  "QMI_IDL_TYPE16 table type = push_bit 12 table OR type"

definition QMI_IDL_TYPE88 :: "int \<Rightarrow> int \<Rightarrow> int list" where
  "QMI_IDL_TYPE88 table type = [type AND 0xFF, drop_bit 4 (type AND 0xFF00) OR table]"

text \<open>The array initializer: each value is stored into a \<open>uint8_t\<close>.\<close>

definition uint8_array :: "int list \<Rightarrow> int list" where
  "uint8_array = map (\<lambda>x. x mod 256)"

section \<open>Table entries\<close>

text \<open>\<open>sizeof(T)\<close> and a data pointer, as the struct \<open>T\<close> and the bytes; a null pointer is \<open>None\<close>.\<close>

type_synonym qmi_idl_type_table_entry = "cty \<times> int list"
type_synonym qmi_idl_message_table_entry = "cty \<times> int list option"

record qmi_idl_service_message_table_entry =
  qmi_message_id :: int
  message_table_message_id :: int
  max_msg_len :: int

definition service_entry :: "int \<Rightarrow> int \<Rightarrow> int \<Rightarrow> qmi_idl_service_message_table_entry" where
  "service_entry i t n = \<lparr>qmi_message_id = i, message_table_message_id = t, max_msg_len = n\<rparr>"

section \<open>The entries a table encodes\<close>

datatype idl_kind = Generic int | IdlString | Aggregate int int

text \<open>What the description of one value holds: its kind, the member's offset, the element count
  of an array, whether the array has a run time length, and how far before the member its
  length is stored.\<close>

datatype idl_elem =
  IdlElem (kind: idl_kind) (off: int) (count: "int option") (variable: bool) (len_rel: "int option")

text \<open>A TLV: its type, and for an optional one how far before the member its valid flag is.\<close>

datatype idl_tlv = Tlv (tlv_type: int) (valid_rel: "int option") (tlv_elem: idl_elem)

fun take8 :: "int list \<Rightarrow> (int \<times> int list) option" where
  "take8 [] = None"
| "take8 (b # bs) = Some (b, bs)"

fun take16 :: "int list \<Rightarrow> (int \<times> int list) option" where
  "take16 (l # h # bs) = Some (l + 256 * h, bs)"
| "take16 _ = None"

definition has_flag :: "int \<Rightarrow> int \<Rightarrow> bool" where
  "has_flag b fl = (b AND fl \<noteq> 0)"

definition read_if :: "bool \<Rightarrow> (int list \<Rightarrow> (int \<times> int list) option) \<Rightarrow> int list
    \<Rightarrow> (int option \<times> int list) option" where
  "read_if c rd bs = (if c then map_option (map_prod Some id) (rd bs) else Some (None, bs))"

definition read_kind :: "int \<Rightarrow> int list \<Rightarrow> (idl_kind \<times> int list) option" where
  "read_kind c bs =
     (if c = QMI_IDL_GENERIC_1_BYTE then Some (Generic 1, bs)
      else if c = QMI_IDL_GENERIC_2_BYTE then Some (Generic 2, bs)
      else if c = QMI_IDL_GENERIC_4_BYTE then Some (Generic 4, bs)
      else if c = QMI_IDL_GENERIC_8_BYTE then Some (Generic 8, bs)
      else if c = QMI_IDL_STRING then Some (IdlString, bs)
      else if c = QMI_IDL_AGGREGATE then
        map_option (\<lambda>(r, bs'). (Aggregate (r div 256 mod 16) (r mod 256 + 256 * (r div 4096)), bs'))
          (take16 bs)
      else None)"

definition parse_elem :: "int list \<Rightarrow> (idl_elem \<times> int list) option" where
  "parse_elem bs0 = do {
     (b, bs1) \<leftarrow> take8 bs0;
     (q, bs2) \<leftarrow> (if has_flag b QMI_IDL_FLAGS_OFFSET_IS_16 then take16 bs1 else take8 bs1);
     (n, bs3) \<leftarrow> read_if (has_flag b QMI_IDL_FLAGS_IS_ARRAY)
       (if has_flag b QMI_IDL_FLAGS_SZ_IS_16 then take16 else take8) bs2;
     (l, bs4) \<leftarrow> read_if (has_flag b QMI_IDL_FLAGS_IS_ARRAY \<and>
       has_flag b QMI_IDL_FLAGS_IS_VARIABLE_LEN \<and> b AND 15 \<noteq> QMI_IDL_STRING) take8 bs3;
     (k, bs5) \<leftarrow> read_kind (b AND 15) bs4;
     Some (IdlElem k q n (has_flag b QMI_IDL_FLAGS_IS_VARIABLE_LEN) l, bs5)
   }"

lemma take8_shorter: "take8 bs = Some (b, bs') \<Longrightarrow> length bs = Suc (length bs')"
  by (cases bs) auto

lemma take16_shorter: "take16 bs = Some (b, bs') \<Longrightarrow> length bs = length bs' + 2"
  by (cases bs rule: take16.cases) auto

lemma read_if_shorter:
  assumes "read_if c rd bs = Some (n, bs')"
    and "\<And>xs x ys. rd xs = Some (x, ys) \<Longrightarrow> length ys \<le> length xs"
  shows "length bs' \<le> length bs"
  using assms by (auto simp: read_if_def split: if_splits)

lemma read_kind_shorter: "read_kind c bs = Some (k, bs') \<Longrightarrow> length bs' \<le> length bs"
  by (auto simp: read_kind_def split: if_splits dest: take16_shorter)

lemma parse_elem_shorter:
  assumes "parse_elem bs = Some (e, bs')"
  shows "length bs' < length bs"
proof -
  from assms obtain b bs1 q bs2 n bs3 l bs4 k where
    1: "take8 bs = Some (b, bs1)" and
    2: "(if has_flag b QMI_IDL_FLAGS_OFFSET_IS_16 then take16 bs1 else take8 bs1) = Some (q, bs2)" and
    3: "read_if (has_flag b QMI_IDL_FLAGS_IS_ARRAY)
         (if has_flag b QMI_IDL_FLAGS_SZ_IS_16 then take16 else take8) bs2 = Some (n, bs3)" and
    4: "read_if (has_flag b QMI_IDL_FLAGS_IS_ARRAY \<and>
         has_flag b QMI_IDL_FLAGS_IS_VARIABLE_LEN \<and> b AND 15 \<noteq> QMI_IDL_STRING) take8 bs3
         = Some (l, bs4)" and
    5: "read_kind (b AND 15) bs4 = Some (k, bs')"
    by (auto simp: parse_elem_def split: Option.bind_splits)
  have "length bs3 \<le> length bs2" using 3
    by (rule read_if_shorter) (auto split: if_splits dest: take8_shorter take16_shorter)
  moreover have "length bs4 \<le> length bs3" using 4
    by (rule read_if_shorter) (auto dest: take8_shorter)
  moreover have "length bs2 \<le> length bs1" using 2
    by (auto split: if_splits dest: take8_shorter take16_shorter)
  ultimately show ?thesis
    using take8_shorter [OF 1] read_kind_shorter [OF 5] by simp
qed

text \<open>The members of a type entry, up to the end value, which is the last byte.\<close>

function parse_members :: "int list \<Rightarrow> idl_elem list option" where
  "parse_members bs =
     (if bs = [QMI_IDL_FLAG_END_VALUE] then Some []
      else case parse_elem bs of
        None \<Rightarrow> None
      | Some (e, bs') \<Rightarrow> map_option ((#) e) (parse_members bs'))"
  by pat_completeness auto
termination
  by (relation "measure length") (auto dest: parse_elem_shorter)

definition parse_tlv :: "int list \<Rightarrow> (bool \<times> idl_tlv \<times> int list) option" where
  "parse_tlv bs0 = do {
     (b, bs1) \<leftarrow> take8 bs0;
     (ty, bs2) \<leftarrow> (if has_flag b QMI_IDL_TLV_FLAGS_OPTIONAL then take8 bs1 else Some (b AND 63, bs1));
     (e, bs3) \<leftarrow> parse_elem bs2;
     Some (has_flag b QMI_IDL_TLV_FLAGS_LAST_TLV,
       Tlv ty (if has_flag b QMI_IDL_TLV_FLAGS_OPTIONAL then Some (b AND 63) else None) e, bs3)
   }"

lemma parse_tlv_shorter: "parse_tlv bs = Some (l, t, bs') \<Longrightarrow> length bs' < length bs"
  by (auto simp: parse_tlv_def split: Option.bind_splits if_splits
      dest!: take8_shorter parse_elem_shorter)

function parse_tlvs :: "int list \<Rightarrow> idl_tlv list option" where
  "parse_tlvs bs =
     (case parse_tlv bs of
        None \<Rightarrow> None
      | Some (True, t, bs') \<Rightarrow> (if bs' = [] then Some [t] else None)
      | Some (False, t, bs') \<Rightarrow> map_option ((#) t) (parse_tlvs bs'))"
  by pat_completeness auto
termination
  by (relation "measure length") (auto dest: parse_tlv_shorter)

declare parse_members.simps [simp del] parse_tlvs.simps [simp del]

section \<open>When an entry describes a struct\<close>

text \<open>What is known of an aggregate type: its C size, its longest wire form and its shape.\<close>

datatype type_info = TypeInfo (info_csize: int) (info_wire: int) (info_shape: "int list")

text \<open>Aggregates are found by type table and index: table 0 is the service's own, table 1 the
  common one it references, which is outside this repository.\<close>

type_synonym type_lookup = "int \<Rightarrow> int \<Rightarrow> type_info option"

fun nth_int :: "'a list \<Rightarrow> int \<Rightarrow> 'a option"
and nth_pick :: "bool \<Rightarrow> 'a \<Rightarrow> 'a list \<Rightarrow> int \<Rightarrow> 'a option" where
  "nth_int [] i = None"
| "nth_int (x # xs) i = nth_pick (i = 0) x xs i"
| "nth_pick True x xs i = Some x"
| "nth_pick False x xs i = nth_int xs (i - 1)"

lemma nth_int_Some:
  "nth_int xs i = Some x \<longleftrightarrow> 0 \<le> i \<and> nat i < length xs \<and> xs ! nat i = x"
proof (induction xs arbitrary: i)
  case (Cons y ys)
  show ?case
  proof (cases "i = 0")
    case False
    then have "nat i = Suc (nat (i - 1))" if "0 \<le> i" using that by simp
    then show ?thesis using False Cons.IH [of "i - 1"] by (cases "0 \<le> i") auto
  qed auto
qed simp

definition types_before :: "int \<Rightarrow> type_lookup \<Rightarrow> type_lookup" where
  "types_before k info tab i = (if tab = 0 \<and> k \<le> i then None else info tab i)"

fun guard :: "bool \<Rightarrow> 'a \<Rightarrow> 'a option" where
  "guard True x = Some x"
| "guard False x = None"

lemma guard_eq_Some [simp]: "guard c x = Some y \<longleftrightarrow> c \<and> x = y"
  by (cases c) auto

fun is_scalar :: "cty \<Rightarrow> bool" where
  "is_scalar (CPrim p) = True"
| "is_scalar (CEnum es) = True"
| "is_scalar _ = False"

fun info_agrees :: "type_info option \<Rightarrow> cty \<Rightarrow> bool" where
  "info_agrees None t = False"
| "info_agrees (Some info) t = (info_csize info = csize t \<and> info_shape info = shape t)"

text \<open>The C type of one element agrees with its kind.\<close>

fun elem_type_ok :: "type_lookup \<Rightarrow> idl_kind \<Rightarrow> cty \<Rightarrow> bool" where
  "elem_type_ok info (Generic k) t = (is_scalar t \<and> csize t = k)"
| "elem_type_ok info IdlString t = (csize t = 1)"
| "elem_type_ok info (Aggregate tab i) t = info_agrees (info tab i) t"

text \<open>An array member has as many elements as its description says; a string member has room
  for the terminating null byte.\<close>

fun member_type_ok :: "type_lookup \<Rightarrow> idl_kind \<Rightarrow> int option \<Rightarrow> cty \<Rightarrow> bool" where
  "member_type_ok info k None t = (k \<noteq> IdlString \<and> elem_type_ok info k t)"
| "member_type_ok info k (Some n) (CArr t m) =
     (m = (if k = IdlString then n + 1 else n) \<and> elem_type_ok info k t)"
| "member_type_ok info k (Some n) _ = False"

fun name_at :: "int \<Rightarrow> (string \<times> int \<times> cty) list \<Rightarrow> string option"
and pick_name :: "bool \<Rightarrow> string \<Rightarrow> int \<Rightarrow> (string \<times> int \<times> cty) list \<Rightarrow> string option" where
  "name_at q [] = None"
| "name_at q ((f, p, t) # ms) = pick_name (p = q) f q ms"
| "pick_name True f q ms = Some f"
| "pick_name False f q ms = name_at q ms"

text \<open>The valid flag and the length of a member come right before it, under its name with a
  suffix.\<close>

fun drop_helper :: "string \<Rightarrow> cprim \<Rightarrow> int option \<Rightarrow> int \<Rightarrow> string
    \<Rightarrow> (string \<times> int \<times> cty) list option \<Rightarrow> (string \<times> int \<times> cty) list option" where
  "drop_helper sfx ty None q f ms = ms"
| "drop_helper sfx ty (Some r) q f (Some ((g, p, t) # ms)) =
     guard (p = q - r \<and> t = CPrim ty \<and> g = f @ sfx) ms"
| "drop_helper sfx ty (Some r) q f _ = None"

fun take_member :: "type_lookup \<Rightarrow> idl_elem \<Rightarrow> (string \<times> int \<times> cty) list option
    \<Rightarrow> (string \<times> int \<times> cty) list option" where
  "take_member info e (Some ((g, p, t) # ms)) =
     guard (p = off e \<and> member_type_ok info (kind e) (count e) t) ms"
| "take_member info e _ = None"

fun match_named :: "type_lookup \<Rightarrow> int option \<Rightarrow> idl_elem \<Rightarrow> string option
    \<Rightarrow> (string \<times> int \<times> cty) list \<Rightarrow> (string \<times> int \<times> cty) list option" where
  "match_named info v e None ms = None"
| "match_named info v e (Some f) ms =
     take_member info e (drop_helper ''_len'' CUint32 (len_rel e) (off e) f
       (drop_helper ''_valid'' CUint8 v (off e) f (Some ms)))"

definition match_elem :: "type_lookup \<Rightarrow> int option \<Rightarrow> idl_elem
    \<Rightarrow> (string \<times> int \<times> cty) list \<Rightarrow> (string \<times> int \<times> cty) list option" where
  "match_elem info v e ms = match_named info v e (name_at (off e) ms) ms"

fun match_elems :: "type_lookup \<Rightarrow> (int option \<times> idl_elem) list
    \<Rightarrow> (string \<times> int \<times> cty) list \<Rightarrow> bool"
and match_rest :: "type_lookup \<Rightarrow> (int option \<times> idl_elem) list
    \<Rightarrow> (string \<times> int \<times> cty) list option \<Rightarrow> bool" where
  "match_elems info [] ms = (ms = [])"
| "match_elems info ((v, e) # es) ms = match_rest info es (match_elem info v e ms)"
| "match_rest info es None = False"
| "match_rest info es (Some ms) = match_elems info es ms"

section \<open>Bytes written and bytes on the wire\<close>

text \<open>The bytes of the C struct that decoding one element of a kind fills.\<close>

fun kind_csize :: "type_lookup \<Rightarrow> idl_kind \<Rightarrow> int" where
  "kind_csize info (Generic k) = k"
| "kind_csize info IdlString = 1"
| "kind_csize info (Aggregate tab i) = (case info tab i of None \<Rightarrow> 0 | Some ti \<Rightarrow> info_csize ti)"

definition elem_extent :: "type_lookup \<Rightarrow> idl_elem \<Rightarrow> int" where
  "elem_extent info e =
     (case count e of
        None \<Rightarrow> kind_csize info (kind e)
      | Some n \<Rightarrow> (if kind e = IdlString then n + 1 else n) * kind_csize info (kind e))"

text \<open>All stores of one described value, as offset and size: the valid flag, the run time
  length, the value.\<close>

definition elem_writes :: "type_lookup \<Rightarrow> int option \<times> idl_elem \<Rightarrow> (int \<times> int) list" where
  "elem_writes info ve =
     (case ve of (v, e) \<Rightarrow>
        (case v of None \<Rightarrow> [] | Some r \<Rightarrow> [(off e - r, 1)])
      @ (case len_rel e of None \<Rightarrow> [] | Some r \<Rightarrow> [(off e - r, 4)])
      @ [(off e, elem_extent info e)])"

definition tlv_elems :: "idl_tlv list \<Rightarrow> (int option \<times> idl_elem) list" where
  "tlv_elems ts = map (\<lambda>t. (valid_rel t, tlv_elem t)) ts"

definition writes :: "type_lookup \<Rightarrow> (int option \<times> idl_elem) list \<Rightarrow> (int \<times> int) list" where
  "writes info es = concat (map (elem_writes info) es)"

definition extents :: "(string \<times> int \<times> cty) list \<Rightarrow> (int \<times> int) list" where
  "extents ms = map (\<lambda>(f, p, t). (p, csize t)) ms"

lemma drop_helper_SomeE:
  assumes "drop_helper sfx ty v q f (Some ms) = Some ms'"
  obtains "v = None" "ms' = ms"
  | r where "v = Some r" "ms = (f @ sfx, q - r, CPrim ty) # ms'"
  using assms by (cases "(sfx, ty, v, q, f, Some ms)" rule: drop_helper.cases) auto

lemma drop_helper_None [simp]: "drop_helper sfx ty v q f None = None"
  by (cases v) auto

lemma take_member_SomeE:
  assumes "take_member info e ms = Some ms'"
  obtains g t where "ms = Some ((g, off e, t) # ms')" "member_type_ok info (kind e) (count e) t"
  using assms by (cases "(info, e, ms)" rule: take_member.cases) auto

lemma elem_type_ok_csize: "elem_type_ok info k t \<Longrightarrow> kind_csize info k = csize t"
  by (cases "(info, k, t)" rule: elem_type_ok.cases) (auto elim!: info_agrees.elims)

lemma member_type_ok_extent:
  "member_type_ok info (kind e) (count e) t \<Longrightarrow> elem_extent info e = csize t"
  by (cases "(info, kind e, count e, t)" rule: member_type_ok.cases)
    (auto simp: elem_extent_def dest: elem_type_ok_csize)

lemma match_elem_extents:
  assumes "match_elem info v e ms = Some ms'"
  shows "extents ms = elem_writes info (v, e) @ extents ms'"
proof -
  obtain f where f: "name_at (off e) ms = Some f"
    using assms by (cases "name_at (off e) ms") (auto simp: match_elem_def)
  define ms1 where "ms1 = drop_helper ''_valid'' CUint8 v (off e) f (Some ms)"
  obtain g t where ms2: "drop_helper ''_len'' CUint32 (len_rel e) (off e) f ms1
      = Some ((g, off e, t) # ms')"
    and ok: "member_type_ok info (kind e) (count e) t"
    using assms f by (auto simp: match_elem_def ms1_def elim: take_member_SomeE)
  then obtain ms1' where "ms1 = Some ms1'" by (cases ms1) auto
  with ms2 show ?thesis
    using member_type_ok_extent [OF ok]
    by (auto simp: ms1_def elem_writes_def extents_def elim!: drop_helper_SomeE)
qed

text \<open>Decoding a matching description stores exactly to the members of the struct.\<close>

lemma match_elems_writes: "match_elems info es ms \<Longrightarrow> writes info es = extents ms"
  and match_rest_writes: "match_rest info es (Some ms') \<Longrightarrow> writes info es = extents ms'"
proof (induction es arbitrary: ms ms')
  case Nil
  { case 1 then show ?case by (simp add: writes_def extents_def) }
  { case 2 then show ?case by (simp add: writes_def extents_def) }
next
  case (Cons ve es)
  obtain v e where ve: "ve = (v, e)" by (cases ve)
  have *: "writes info (ve # es) = extents ms" if "match_elems info (ve # es) ms" for ms
  proof -
    from that obtain ms' where "match_elem info v e ms = Some ms'" and "match_elems info es ms'"
      by (cases "match_elem info v e ms") (auto simp: ve)
    with Cons.IH(1) show ?thesis by (simp add: writes_def match_elem_extents ve)
  qed
  { case 1 then show ?case by (rule *) }
  { case 2 then show ?case by (simp add: *) }
qed

text \<open>The longest encoding of a value: an array of run time length is preceded by its length,
  except for a string that is a TLV of its own, whose length is that of the TLV.\<close>

fun kind_wire :: "type_lookup \<Rightarrow> idl_kind \<Rightarrow> int" where
  "kind_wire info (Generic k) = k"
| "kind_wire info IdlString = 1"
| "kind_wire info (Aggregate tab i) = (case info tab i of None \<Rightarrow> 0 | Some ti \<Rightarrow> info_wire ti)"

definition elem_wire :: "type_lookup \<Rightarrow> bool \<Rightarrow> idl_elem \<Rightarrow> int" where
  "elem_wire info in_tlv e =
     (case count e of
        None \<Rightarrow> kind_wire info (kind e)
      | Some n \<Rightarrow> n * kind_wire info (kind e)
          + (if variable e \<and> \<not> (in_tlv \<and> kind e = IdlString) then (if 255 < n then 2 else 1) else 0))"

text \<open>A type entry: \<open>None\<close> if it does not describe its struct.\<close>

fun members_info :: "type_lookup \<Rightarrow> cty \<Rightarrow> idl_elem list option \<Rightarrow> type_info option" where
  "members_info info t None = None"
| "members_info info t (Some es) =
     guard (match_elems info (map (Pair None) es) (struct_layout t))
       (TypeInfo (csize t) (sum_list (map (elem_wire info False) es)) (shape t))"

fun type_entry_info :: "type_lookup \<Rightarrow> qmi_idl_type_table_entry \<Rightarrow> type_info option" where
  "type_entry_info info (t, bs) = members_info info t (parse_members bs)"

text \<open>The entries from index \<open>k\<close> on are described by the lookup, each with the types before it
  only: a decoder that follows the references ends.\<close>

definition type_row_ok :: "type_lookup \<Rightarrow> int \<Rightarrow> qmi_idl_type_table_entry \<Rightarrow> bool" where
  "type_row_ok info k ent =
     (info 0 k \<noteq> None \<and> type_entry_info (types_before k info) ent = info 0 k)"

fun types_described :: "type_lookup \<Rightarrow> int \<Rightarrow> qmi_idl_type_table_entry list \<Rightarrow> bool"
and types_then :: "bool \<Rightarrow> type_lookup \<Rightarrow> int \<Rightarrow> qmi_idl_type_table_entry list \<Rightarrow> bool" where
  "types_described info k [] = True"
| "types_described info k (ent # ents) = types_then (type_row_ok info k ent) info (k + 1) ents"
| "types_then True info k ents = types_described info k ents"
| "types_then False info k ents = False"

lemma types_described_Cons:
  "types_described info k (ent # ents) \<longleftrightarrow>
     type_row_ok info k ent \<and> types_described info (k + 1) ents"
  by (cases "type_row_ok info k ent") auto

declare types_described.simps(2) [simp del]

lemma types_described_append:
  "types_described info k (xs @ ys) \<longleftrightarrow>
     types_described info k xs \<and> types_described info (k + int (length xs)) ys"
  by (induction xs arbitrary: k) (auto simp: types_described_Cons ac_simps)

text \<open>A described type refers, directly, only to types before it in the table, which are
  described too.\<close>

lemma types_described_nth:
  "types_described info k ents \<Longrightarrow> i < length ents \<Longrightarrow> type_row_ok info (k + int i) (ents ! i)"
proof (induction ents arbitrary: k i)
  case (Cons ent ents)
  show ?case
  proof (cases i)
    case 0
    then show ?thesis using Cons.prems by (simp add: types_described_Cons)
  next
    case (Suc j)
    have "type_row_ok info (k + 1 + int j) (ents ! j)"
      using Cons.prems Suc by (intro Cons.IH) (auto simp: types_described_Cons)
    then show ?thesis by (simp add: Suc ac_simps)
  qed
qed simp

definition empty_struct :: "cty \<Rightarrow> bool" where
  "empty_struct t = (members t = [(''__placeholder'', CPrim CChar)])"

fun increasing :: "int list \<Rightarrow> bool" where
  "increasing (x # y # xs) = (x < y \<and> increasing (y # xs))"
| "increasing _ = True"

text \<open>A message entry: the length of its longest encoding, three bytes of type and length for
  every TLV and the value; \<open>None\<close> if it does not describe its struct. A null data pointer
  describes the placeholder struct.\<close>

fun tlvs_len :: "type_lookup \<Rightarrow> cty \<Rightarrow> idl_tlv list option \<Rightarrow> int option" where
  "tlvs_len info t None = None"
| "tlvs_len info t (Some ts) =
     guard (increasing (map tlv_type ts) \<and> match_elems info (tlv_elems ts) (struct_layout t))
       (sum_list (map (\<lambda>x. 3 + elem_wire info True (tlv_elem x)) ts))"

fun message_entry_len :: "type_lookup \<Rightarrow> qmi_idl_message_table_entry \<Rightarrow> int option" where
  "message_entry_len info (t, None) = guard (empty_struct t) 0"
| "message_entry_len info (t, Some bs) = tlvs_len info t (parse_tlvs bs)"

definition message_writes :: "type_lookup \<Rightarrow> qmi_idl_message_table_entry \<Rightarrow> (int \<times> int) list" where
  "message_writes info ent =
     (case Option.bind (snd ent) parse_tlvs of
        None \<Rightarrow> []
      | Some ts \<Rightarrow> writes info (tlv_elems ts))"

lemma message_writes_members:
  assumes "message_entry_len info (t, Some bs) = Some n"
  shows "message_writes info (t, Some bs) = extents (struct_layout t)"
  using assms
  by (cases "parse_tlvs bs") (auto simp: message_writes_def match_elems_writes)

text \<open>So every store of the decoder is inside the struct, and no two of them overlap.\<close>

lemma message_writes_inside:
  assumes "message_entry_len info (CStruct fs, bs) = Some n" and "wf_members fs"
    and "(q, k) \<in> set (message_writes info (CStruct fs, bs))"
  shows "0 \<le> q \<and> q + k \<le> csize (CStruct fs)"
proof (cases bs)
  case None
  with assms(3) show ?thesis by (simp add: message_writes_def)
next
  case (Some b)
  with assms have "(q, k) \<in> set (extents (layout 0 fs))"
    by (simp add: message_writes_members struct_layout_def)
  then obtain f t where "(f, q, t) \<in> set (layout 0 fs)" and k: "k = csize t"
    by (auto simp: extents_def)
  from layout_bounds [OF assms(2) this(1)] fend_le_csize [of fs]
  show ?thesis by (simp add: k)
qed

lemma message_writes_disjoint:
  assumes "message_entry_len info (CStruct fs, bs) = Some n" and "wf_members fs"
  shows "sorted_wrt (\<lambda>(p, k) (q, m). p + k \<le> q) (message_writes info (CStruct fs, bs))"
proof (cases bs)
  case None
  then show ?thesis by (simp add: message_writes_def)
next
  case (Some b)
  with assms(1) have eq: "message_writes info (CStruct fs, bs) = extents (layout 0 fs)"
    by (simp add: message_writes_members struct_layout_def)
  show ?thesis
    unfolding eq extents_def sorted_wrt_map
    by (auto simp: sorted_wrt_iff_nth_less split: prod.splits
        intro: layout_disjoint [OF assms(2)])
qed

section \<open>The service object\<close>

record qmi_idl_service_object =
  library_version :: int
  idl_version :: int
  service_id :: int
  service_max_msg_len :: int
  msgid_to_msg :: "qmi_idl_service_message_table_entry list list"
  idl_minor_version :: int

text \<open>A row of a service table: the message it names and its longest encoding. Rows of the
  common table are described outside this repository.\<close>

definition entry_table :: "qmi_idl_service_message_table_entry \<Rightarrow> int" where
  "entry_table r = drop_bit 12 (message_table_message_id r)"

definition entry_index :: "qmi_idl_service_message_table_entry \<Rightarrow> int" where
  "entry_index r = message_table_message_id r AND 0xFFF"

definition service_row_ok :: "(int \<Rightarrow> int option option) \<Rightarrow> qmi_idl_service_message_table_entry \<Rightarrow> bool" where
  "service_row_ok len r =
     (entry_table r = 1 \<or>
      entry_table r = 0 \<and> len (entry_index r) = Some (Some (max_msg_len r)))"

fun longest :: "int \<Rightarrow> int list \<Rightarrow> int" where
  "longest n [] = n"
| "longest n (m # ms) = longest (if n < m then m else n) ms"

lemma longest_ge_start: "n \<le> longest n ms"
proof (induction ms arbitrary: n)
  case (Cons m ms)
  have "n \<le> (if n < m then m else n)" by simp
  also have "\<dots> \<le> longest (if n < m then m else n) ms" by (rule Cons.IH)
  finally show ?case by simp
qed simp

lemma longest_ge: "m \<in> set ms \<Longrightarrow> m \<le> longest n ms"
proof (induction ms arbitrary: n)
  case (Cons k ms)
  from Cons.prems consider "m = k" | "m \<in> set ms" by auto
  then show ?case
  proof cases
    case 1
    then have "m \<le> (if n < k then k else n)" by simp
    also have "\<dots> \<le> longest (if n < k then k else n) ms" by (rule longest_ge_start)
    finally show ?thesis by simp
  next
    case 2
    then show ?thesis using Cons.IH by simp
  qed
qed simp

lemma longest_in: "longest n ms = n \<or> longest n ms \<in> set ms"
proof (induction ms arbitrary: n)
  case (Cons m ms)
  from Cons.IH [of "if n < m then m else n"] show ?case by auto
qed simp

end
