(* ===== verification/LocIds.thy ===== *)
theory LocIds
  imports Prelude
begin

text \<open>
  The constants of \<open>loc_api/loc_api_v02/location_service_v02.h\<close> that the message structs, the
  description tables and the client are written with: the bounds of arrays and strings, the
  versions of the interface, and the message identifiers (a request, its response and its
  indication share a number).
\<close>

definition LOC_V02_IDL_MAJOR_VERS :: int where "LOC_V02_IDL_MAJOR_VERS = 0x02"
definition LOC_V02_IDL_MINOR_VERS :: int where "LOC_V02_IDL_MINOR_VERS = 0xB1"
definition LOC_V02_IDL_TOOL_VERS :: int where "LOC_V02_IDL_TOOL_VERS = 0x06"
definition QMI_LOC_MAX_CLIENT_ID_STRING_LENGTH_V02 :: int where "QMI_LOC_MAX_CLIENT_ID_STRING_LENGTH_V02 = 4"
definition QMI_LOC_MAX_APP_ID_PROVIDER_LENGTH_V02 :: int where "QMI_LOC_MAX_APP_ID_PROVIDER_LENGTH_V02 = 24"
definition QMI_LOC_MAX_APP_ID_NAME_LENGTH_V02 :: int where "QMI_LOC_MAX_APP_ID_NAME_LENGTH_V02 = 32"
definition QMI_LOC_MAX_APP_ID_VERSION_LENGTH_V02 :: int where "QMI_LOC_MAX_APP_ID_VERSION_LENGTH_V02 = 8"
definition QMI_LOC_MAX_SV_USED_LIST_LENGTH_V02 :: int where "QMI_LOC_MAX_SV_USED_LIST_LENGTH_V02 = 80"
definition QMI_LOC_EXPANDED_SV_INFO_LIST_MAX_SIZE_V02 :: int where "QMI_LOC_EXPANDED_SV_INFO_LIST_MAX_SIZE_V02 = 176"
definition QMI_LOC_MAX_GNSS_SIGNAL_TYPE_V02 :: int where "QMI_LOC_MAX_GNSS_SIGNAL_TYPE_V02 = 19"
definition QMI_LOC_MAX_GNSS_SIGNAL_TYPE_EXT_V02 :: int where "QMI_LOC_MAX_GNSS_SIGNAL_TYPE_EXT_V02 = 64"
definition QMI_LOC_ENU_ARRAY_LENGTH_V02 :: int where "QMI_LOC_ENU_ARRAY_LENGTH_V02 = 3"
definition QMI_LOC_DGNSS_STATION_ID_ARRAY_LENGTH_V02 :: int where "QMI_LOC_DGNSS_STATION_ID_ARRAY_LENGTH_V02 = 3"
definition QMI_LOC_ENV_AIDING_CORRECTION_MAX_SV_USED_V02 :: int where "QMI_LOC_ENV_AIDING_CORRECTION_MAX_SV_USED_V02 = 60"
definition QMI_LOC_SV_INFO_LIST_MAX_SIZE_V02 :: int where "QMI_LOC_SV_INFO_LIST_MAX_SIZE_V02 = 80"
definition QMI_LOC_NMEA_STRING_MAX_LENGTH_V02 :: int where "QMI_LOC_NMEA_STRING_MAX_LENGTH_V02 = 200"
definition QMI_LOC_EXPANDED_NMEA_STRING_MAX_LENGTH_V02 :: int where "QMI_LOC_EXPANDED_NMEA_STRING_MAX_LENGTH_V02 = 4095"
definition QMI_LOC_NI_MAX_REQUESTOR_ID_LENGTH_V02 :: int where "QMI_LOC_NI_MAX_REQUESTOR_ID_LENGTH_V02 = 200"
definition QMI_LOC_NI_SUPL_SLP_SESSION_ID_BYTE_LENGTH_V02 :: int where "QMI_LOC_NI_SUPL_SLP_SESSION_ID_BYTE_LENGTH_V02 = 4"
definition QMI_LOC_NI_MAX_CLIENT_NAME_LENGTH_V02 :: int where "QMI_LOC_NI_MAX_CLIENT_NAME_LENGTH_V02 = 64"
definition QMI_LOC_MAX_SERVER_ADDR_LENGTH_V02 :: int where "QMI_LOC_MAX_SERVER_ADDR_LENGTH_V02 = 255"
definition QMI_LOC_IPV6_ADDR_LENGTH_V02 :: int where "QMI_LOC_IPV6_ADDR_LENGTH_V02 = 8"
definition QMI_LOC_NI_SUPL_HASH_LENGTH_V02 :: int where "QMI_LOC_NI_SUPL_HASH_LENGTH_V02 = 8"
definition QMI_LOC_NI_MAX_EXT_CLIENT_ADDRESS_V02 :: int where "QMI_LOC_NI_MAX_EXT_CLIENT_ADDRESS_V02 = 20"
definition QMI_LOC_NI_CODEWORD_MAX_LENGTH_V02 :: int where "QMI_LOC_NI_CODEWORD_MAX_LENGTH_V02 = 20"
definition QMI_LOC_MAX_NTP_SERVERS_V02 :: int where "QMI_LOC_MAX_NTP_SERVERS_V02 = 3"
definition QMI_LOC_MAX_PREDICTED_ORBITS_SERVERS_V02 :: int where "QMI_LOC_MAX_PREDICTED_ORBITS_SERVERS_V02 = 3"
definition QMI_LOC_MAX_GEOFENCE_ID_CONTINUOUS_LIST_LENGTH_V02 :: int where "QMI_LOC_MAX_GEOFENCE_ID_CONTINUOUS_LIST_LENGTH_V02 = 80"
definition QMI_LOC_MAX_GEOFENCE_ID_DISCRETE_LIST_LENGTH_V02 :: int where "QMI_LOC_MAX_GEOFENCE_ID_DISCRETE_LIST_LENGTH_V02 = 80"
definition QMI_LOC_MAX_GDT_PATH_LEN_V02 :: int where "QMI_LOC_MAX_GDT_PATH_LEN_V02 = 255"
definition QMI_LOC_MAX_GTP_CL_INFO_LEN_V02 :: int where "QMI_LOC_MAX_GTP_CL_INFO_LEN_V02 = 1500"
definition QMI_LOC_MAX_GTP_MSD_LEN_V02 :: int where "QMI_LOC_MAX_GTP_MSD_LEN_V02 = 4000"
definition QMI_LOC_GNSS_ME_VERSION_STRING_MAX_LENGTH_V02 :: int where "QMI_LOC_GNSS_ME_VERSION_STRING_MAX_LENGTH_V02 = 127"
definition QMI_LOC_GNSS_HOSTED_SW_VERSION_STRING_MAX_LENGTH_V02 :: int where "QMI_LOC_GNSS_HOSTED_SW_VERSION_STRING_MAX_LENGTH_V02 = 127"
definition QMI_LOC_GNSS_SW_VERSION_STRING_MAX_LENGTH_V02 :: int where "QMI_LOC_GNSS_SW_VERSION_STRING_MAX_LENGTH_V02 = 255"
definition QMI_LOC_MAX_PREDICTED_ORBITS_PART_LEN_V02 :: int where "QMI_LOC_MAX_PREDICTED_ORBITS_PART_LEN_V02 = 1024"
definition QMI_LOC_DELETE_MAX_SV_INFO_LENGTH_V02 :: int where "QMI_LOC_DELETE_MAX_SV_INFO_LENGTH_V02 = 128"
definition QMI_LOC_DELETE_MAX_BDS_SV_INFO_LENGTH_V02 :: int where "QMI_LOC_DELETE_MAX_BDS_SV_INFO_LENGTH_V02 = 37"
definition QMI_LOC_DELETE_MAX_GAL_SV_INFO_LENGTH_V02 :: int where "QMI_LOC_DELETE_MAX_GAL_SV_INFO_LENGTH_V02 = 36"
definition QMI_LOC_WIFI_MAC_ADDR_LENGTH_V02 :: int where "QMI_LOC_WIFI_MAC_ADDR_LENGTH_V02 = 6"
definition QMI_LOC_MAX_WIFI_AP_SSID_STR_LENGTH_V02 :: int where "QMI_LOC_MAX_WIFI_AP_SSID_STR_LENGTH_V02 = 32"
definition QMI_LOC_WIFI_MAX_REPORTED_APS_PER_MSG_V02 :: int where "QMI_LOC_WIFI_MAX_REPORTED_APS_PER_MSG_V02 = 50"
definition QMI_LOC_SENSOR_DATA_MAX_SAMPLES_V02 :: int where "QMI_LOC_SENSOR_DATA_MAX_SAMPLES_V02 = 50"
definition QMI_LOC_MAX_APN_NAME_LENGTH_V02 :: int where "QMI_LOC_MAX_APN_NAME_LENGTH_V02 = 100"
definition QMI_LOC_MAX_SUPL_CERT_LENGTH_V02 :: int where "QMI_LOC_MAX_SUPL_CERT_LENGTH_V02 = 2000"
definition QMI_LOC_GEOFENCE_MAX_MOTION_STATES_V02 :: int where "QMI_LOC_GEOFENCE_MAX_MOTION_STATES_V02 = 20"
definition QMI_LOC_MAX_NI_GEOFENCE_ID_LIST_LENGTH_V02 :: int where "QMI_LOC_MAX_NI_GEOFENCE_ID_LIST_LENGTH_V02 = 16"
definition QMI_LOC_MAX_INJECTED_NETWORK_INITIATED_MESSAGE_LENGTH_V02 :: int where "QMI_LOC_MAX_INJECTED_NETWORK_INITIATED_MESSAGE_LENGTH_V02 = 1024"
definition QMI_LOC_READ_FROM_BATCH_MAX_SIZE_V02 :: int where "QMI_LOC_READ_FROM_BATCH_MAX_SIZE_V02 = 5"
definition QMI_LOC_VEHICLE_SENSOR_DATA_MAX_SAMPLES_V02 :: int where "QMI_LOC_VEHICLE_SENSOR_DATA_MAX_SAMPLES_V02 = 65"
definition QMI_LOC_VEHICLE_SENSOR_DATA_MAX_AXES_V02 :: int where "QMI_LOC_VEHICLE_SENSOR_DATA_MAX_AXES_V02 = 3"
definition QMI_LOC_VEHICLE_ODOMETRY_MAX_MEASUREMENTS_V02 :: int where "QMI_LOC_VEHICLE_ODOMETRY_MAX_MEASUREMENTS_V02 = 3"
definition QMI_LOC_SV_MEAS_LIST_MAX_SIZE_V02 :: int where "QMI_LOC_SV_MEAS_LIST_MAX_SIZE_V02 = 16"
definition QMI_LOC_EXT_SV_MEAS_LIST_MAX_SIZE_V02 :: int where "QMI_LOC_EXT_SV_MEAS_LIST_MAX_SIZE_V02 = 8"
definition QMI_LOC_SV_MEAS_OTHER_CODE_TYPE_NAME_MAX_LEN_V02 :: int where "QMI_LOC_SV_MEAS_OTHER_CODE_TYPE_NAME_MAX_LEN_V02 = 8"
definition QMI_LOC_DGNSS_SV_MEAS_LIST_MAX_SIZE_V02 :: int where "QMI_LOC_DGNSS_SV_MEAS_LIST_MAX_SIZE_V02 = 24"
definition QMI_LOC_ML_INFER_SV_MEAS_LIST_MAX_SIZE_V02 :: int where "QMI_LOC_ML_INFER_SV_MEAS_LIST_MAX_SIZE_V02 = 24"
definition QMI_LOC_SV_POLY_VELOCITY_COEF_SIZE_V02 :: int where "QMI_LOC_SV_POLY_VELOCITY_COEF_SIZE_V02 = 12"
definition QMI_LOC_SV_POLY_XYZ_0_TH_ORDER_COEFF_SIZE_V02 :: int where "QMI_LOC_SV_POLY_XYZ_0_TH_ORDER_COEFF_SIZE_V02 = 3"
definition QMI_LOC_SV_POLY_XYZ_N_TH_ORDER_COEFF_SIZE_V02 :: int where "QMI_LOC_SV_POLY_XYZ_N_TH_ORDER_COEFF_SIZE_V02 = 9"
definition QMI_LOC_SV_POLY_SV_CLKBIAS_COEFF_SIZE_V02 :: int where "QMI_LOC_SV_POLY_SV_CLKBIAS_COEFF_SIZE_V02 = 4"
definition QMI_LOC_SV_POLY_SV_CLKBIAS_COEFF_SIZE_MAX_V02 :: int where "QMI_LOC_SV_POLY_SV_CLKBIAS_COEFF_SIZE_MAX_V02 = 6"
definition QMI_LOC_SV_POLY_XYZ_COEFF_SIZE_MAX_V02 :: int where "QMI_LOC_SV_POLY_XYZ_COEFF_SIZE_MAX_V02 = 18"
definition QMI_LOC_MAX_IBEACON_UUID_STR_LENGTH_V02 :: int where "QMI_LOC_MAX_IBEACON_UUID_STR_LENGTH_V02 = 32"
definition QMI_LOC_WIFI_AREA_ID_LIST_LENGTH_V02 :: int where "QMI_LOC_WIFI_AREA_ID_LIST_LENGTH_V02 = 20"
definition QMI_LOC_CELL_ID_LIST_LENGTH_V02 :: int where "QMI_LOC_CELL_ID_LIST_LENGTH_V02 = 20"
definition QMI_LOC_IBEACON_LIST_LENGTH_V02 :: int where "QMI_LOC_IBEACON_LIST_LENGTH_V02 = 20"
definition QMI_LOC_MAX_GTP_WWAN_CLIENT_DOWNLOADED_DATA_LEN_V02 :: int where "QMI_LOC_MAX_GTP_WWAN_CLIENT_DOWNLOADED_DATA_LEN_V02 = 512"
definition QMI_LOC_MAX_OEM_ID_LEN_V02 :: int where "QMI_LOC_MAX_OEM_ID_LEN_V02 = 256"
definition QMI_LOC_MAX_MODEL_ID_LEN_V02 :: int where "QMI_LOC_MAX_MODEL_ID_LEN_V02 = 256"
definition QMI_LOC_MAX_GTP_RLI_LEN_V02 :: int where "QMI_LOC_MAX_GTP_RLI_LEN_V02 = 256"
definition QMI_LOC_SECURE_GET_AVAILABLE_POS_REQUEST_ENCRYPTED_MAX_V02 :: int where "QMI_LOC_SECURE_GET_AVAILABLE_POS_REQUEST_ENCRYPTED_MAX_V02 = 256"
definition QMI_LOC_SECURE_GET_AVAILABLE_POSITION_IND_ENCRYPTED_MAX_V02 :: int where "QMI_LOC_SECURE_GET_AVAILABLE_POSITION_IND_ENCRYPTED_MAX_V02 = 1024"
definition QMI_LOC_APCACHE_DATA_MAX_SAMPLES_V02 :: int where "QMI_LOC_APCACHE_DATA_MAX_SAMPLES_V02 = 80"
definition QMI_LOC_MAX_XTRA_PART_LEN_V02 :: int where "QMI_LOC_MAX_XTRA_PART_LEN_V02 = 1024"
definition QMI_LOC_SUPPORTED_FEATURE_LENGTH_V02 :: int where "QMI_LOC_SUPPORTED_FEATURE_LENGTH_V02 = 100"
definition QMI_LOC_INTERNAL_STATUS_REPORT_DATA_LENGTH_V02 :: int where "QMI_LOC_INTERNAL_STATUS_REPORT_DATA_LENGTH_V02 = 56"
definition QMI_LOC_INTERNAL_STATUS_MAX_LIST_SIZE_V02 :: int where "QMI_LOC_INTERNAL_STATUS_MAX_LIST_SIZE_V02 = 67"
definition QMI_LOC_SRN_MAX_REPORTED_APS_PER_MSG_V02 :: int where "QMI_LOC_SRN_MAX_REPORTED_APS_PER_MSG_V02 = 64"
definition QMI_LOC_SRN_MAC_ADDR_LENGTH_V02 :: int where "QMI_LOC_SRN_MAC_ADDR_LENGTH_V02 = 6"
definition QMI_LOC_MAX_WIFI_CROWDSOURCING_SERVER_CONFIG_LEN_V02 :: int where "QMI_LOC_MAX_WIFI_CROWDSOURCING_SERVER_CONFIG_LEN_V02 = 512"
definition QMI_LOC_MAX_CROWDSOURCING_MODEM_CLIENT_INFO_LEN_V02 :: int where "QMI_LOC_MAX_CROWDSOURCING_MODEM_CLIENT_INFO_LEN_V02 = 512"
definition QMI_LOC_FDCL_BS_LIST_MAX_SIZE_V02 :: int where "QMI_LOC_FDCL_BS_LIST_MAX_SIZE_V02 = 100"
definition QMI_LOC_FDCL_CELL_POS_LIST_LENGTH_V02 :: int where "QMI_LOC_FDCL_CELL_POS_LIST_LENGTH_V02 = 20"
definition QMI_LOC_INJECT_FDCL_DATA_ERROR_MSG_LEN_V02 :: int where "QMI_LOC_INJECT_FDCL_DATA_ERROR_MSG_LEN_V02 = 255"
definition QMI_LOC_MAX_DCREPORT_LEN_V02 :: int where "QMI_LOC_MAX_DCREPORT_LEN_V02 = 64"
definition QMI_LOC_EPHEMERIS_LIST_MAX_SIZE_V02 :: int where "QMI_LOC_EPHEMERIS_LIST_MAX_SIZE_V02 = 8"
definition QMI_LOC_MAX_REQUESTOR_ID_STRING_LENGTH_V02 :: int where "QMI_LOC_MAX_REQUESTOR_ID_STRING_LENGTH_V02 = 20"
definition QMI_LOC_FILTER_ELEMENT_SIZE_SEVENTEEN_V02 :: int where "QMI_LOC_FILTER_ELEMENT_SIZE_SEVENTEEN_V02 = 17"
definition QMI_LOC_FILTER_ELEMENT_SIZE_SIX_V02 :: int where "QMI_LOC_FILTER_ELEMENT_SIZE_SIX_V02 = 6"
definition QMI_LOC_FILTER_ELEMENT_SIZE_THREE_V02 :: int where "QMI_LOC_FILTER_ELEMENT_SIZE_THREE_V02 = 3"
definition QMI_LOC_FILTER_ELEMENT_SIZE_FOUR_V02 :: int where "QMI_LOC_FILTER_ELEMENT_SIZE_FOUR_V02 = 4"
definition QMI_LOC_IPM_ELEMENT_SIZE_THREE_V02 :: int where "QMI_LOC_IPM_ELEMENT_SIZE_THREE_V02 = 3"
definition QMI_LOC_IPM_ELEMENT_SIZE_NINE_V02 :: int where "QMI_LOC_IPM_ELEMENT_SIZE_NINE_V02 = 9"
definition QMI_LOC_INS_ELEMENT_SIZE_THREE_V02 :: int where "QMI_LOC_INS_ELEMENT_SIZE_THREE_V02 = 3"
definition QMI_LOC_INS_ELEMENT_SIZE_TWO_V02 :: int where "QMI_LOC_INS_ELEMENT_SIZE_TWO_V02 = 2"
definition QMI_LOC_MAX_COUNTRY_STR_LENGTH_V02 :: int where "QMI_LOC_MAX_COUNTRY_STR_LENGTH_V02 = 2"
definition QMI_LOC_MAX_SUBDIV_A1_STR_LENGTH_V02 :: int where "QMI_LOC_MAX_SUBDIV_A1_STR_LENGTH_V02 = 32"
definition QMI_LOC_MAX_SUBDIV_A2_STR_LENGTH_V02 :: int where "QMI_LOC_MAX_SUBDIV_A2_STR_LENGTH_V02 = 32"
definition QMI_LOC_MAX_CITY_STR_LENGTH_V02 :: int where "QMI_LOC_MAX_CITY_STR_LENGTH_V02 = 32"
definition QMI_LOC_MAX_CITYDIV_STR_LENGTH_V02 :: int where "QMI_LOC_MAX_CITYDIV_STR_LENGTH_V02 = 32"
definition QMI_LOC_MAX_NEIGHBORHOOD_STR_LENGTH_V02 :: int where "QMI_LOC_MAX_NEIGHBORHOOD_STR_LENGTH_V02 = 32"
definition QMI_LOC_MAX_STREET_STR_LENGTH_V02 :: int where "QMI_LOC_MAX_STREET_STR_LENGTH_V02 = 64"
definition QMI_LOC_MAX_LEADING_STREET_DIR_STR_LENGTH_V02 :: int where "QMI_LOC_MAX_LEADING_STREET_DIR_STR_LENGTH_V02 = 2"
definition QMI_LOC_MAX_TRAILING_STREET_SUFFIX_STR_LENGTH_V02 :: int where "QMI_LOC_MAX_TRAILING_STREET_SUFFIX_STR_LENGTH_V02 = 2"
definition QMI_LOC_MAX_STREET_SUFFIX_STR_LENGTH_V02 :: int where "QMI_LOC_MAX_STREET_SUFFIX_STR_LENGTH_V02 = 16"
definition QMI_LOC_MAX_HOUSE_NUMBER_STR_LENGTH_V02 :: int where "QMI_LOC_MAX_HOUSE_NUMBER_STR_LENGTH_V02 = 16"
definition QMI_LOC_MAX_HOUSE_NUMBER_SUFFIX_STR_LENGTH_V02 :: int where "QMI_LOC_MAX_HOUSE_NUMBER_SUFFIX_STR_LENGTH_V02 = 16"
definition QMI_LOC_MAX_LANDMARK_STR_LENGTH_V02 :: int where "QMI_LOC_MAX_LANDMARK_STR_LENGTH_V02 = 32"
definition QMI_LOC_MAX_ADDITIONAL_LOC_INFO_STR_LENGTH_V02 :: int where "QMI_LOC_MAX_ADDITIONAL_LOC_INFO_STR_LENGTH_V02 = 32"
definition QMI_LOC_MAX_FLOOR_STR_LENGTH_V02 :: int where "QMI_LOC_MAX_FLOOR_STR_LENGTH_V02 = 4"
definition QMI_LOC_MAX_NAME_STR_LENGTH_V02 :: int where "QMI_LOC_MAX_NAME_STR_LENGTH_V02 = 32"
definition QMI_LOC_MAX_POSTAL_CODE_STR_LENGTH_V02 :: int where "QMI_LOC_MAX_POSTAL_CODE_STR_LENGTH_V02 = 16"
definition QMI_LOC_MAX_POSITIONING_METHOD_STR_LENGTH_V02 :: int where "QMI_LOC_MAX_POSITIONING_METHOD_STR_LENGTH_V02 = 16"
definition QMI_LOC_MAX_BUILDING_STR_LENGTH_V02 :: int where "QMI_LOC_MAX_BUILDING_STR_LENGTH_V02 = 64"
definition QMI_LOC_MAX_UNIT_STR_LENGTH_V02 :: int where "QMI_LOC_MAX_UNIT_STR_LENGTH_V02 = 8"
definition QMI_LOC_MAX_ROOM_STR_LENGTH_V02 :: int where "QMI_LOC_MAX_ROOM_STR_LENGTH_V02 = 8"
definition QMI_LOC_MAX_PLACE_TYPE_STR_LENGTH_V02 :: int where "QMI_LOC_MAX_PLACE_TYPE_STR_LENGTH_V02 = 16"
definition QMI_LOC_MAX_POSTAL_COMM_TYPE_STR_LENGTH_V02 :: int where "QMI_LOC_MAX_POSTAL_COMM_TYPE_STR_LENGTH_V02 = 32"
definition QMI_LOC_MAX_POST_OFFICE_BOX_STR_LENGTH_V02 :: int where "QMI_LOC_MAX_POST_OFFICE_BOX_STR_LENGTH_V02 = 8"
definition QMI_LOC_MAX_ADDITIONAL_CODE_STR_LENGTH_V02 :: int where "QMI_LOC_MAX_ADDITIONAL_CODE_STR_LENGTH_V02 = 16"
definition QMI_LOC_MAX_SEAT_STR_LENGTH_V02 :: int where "QMI_LOC_MAX_SEAT_STR_LENGTH_V02 = 8"
definition QMI_LOC_MAX_PRIMARY_ROAD_STR_LENGTH_V02 :: int where "QMI_LOC_MAX_PRIMARY_ROAD_STR_LENGTH_V02 = 64"
definition QMI_LOC_MAX_ROAD_SECTION_STR_LENGTH_V02 :: int where "QMI_LOC_MAX_ROAD_SECTION_STR_LENGTH_V02 = 16"
definition QMI_LOC_MAX_ROAD_BRANCH_STR_LENGTH_V02 :: int where "QMI_LOC_MAX_ROAD_BRANCH_STR_LENGTH_V02 = 16"
definition QMI_LOC_MAX_ROAD_SUB_BRANCH_STR_LENGTH_V02 :: int where "QMI_LOC_MAX_ROAD_SUB_BRANCH_STR_LENGTH_V02 = 16"
definition QMI_LOC_MAX_ROAD_PRE_MODIFIER_STR_LENGTH_V02 :: int where "QMI_LOC_MAX_ROAD_PRE_MODIFIER_STR_LENGTH_V02 = 16"
definition QMI_LOC_MAX_ROAD_POST_MODIFIER_STR_LENGTH_V02 :: int where "QMI_LOC_MAX_ROAD_POST_MODIFIER_STR_LENGTH_V02 = 16"
definition QMI_LOC_MAX_RAW_DATA_PART_LEN_V02 :: int where "QMI_LOC_MAX_RAW_DATA_PART_LEN_V02 = 4000"
definition QMI_LOC_MAX_APP_HASH_LEN_V02 :: int where "QMI_LOC_MAX_APP_HASH_LEN_V02 = 64"
definition QMI_LOC_MERKLE_TREE_HASH_ARRAY_LENGTH_V02 :: int where "QMI_LOC_MERKLE_TREE_HASH_ARRAY_LENGTH_V02 = 32"
definition QMI_LOC_MERKLE_TREE_KEY_LENGTH_V02 :: int where "QMI_LOC_MERKLE_TREE_KEY_LENGTH_V02 = 67"
definition QMI_LOC_MERKLE_TREE_NODE_ARRAY_LENGTH_V02 :: int where "QMI_LOC_MERKLE_TREE_NODE_ARRAY_LENGTH_V02 = 4"
definition QMI_LOC_SET_GNSS_CONSTELL_REPORT_CONFIG_V02 :: int where "QMI_LOC_SET_GNSS_CONSTELL_REPORT_CONFIG_V02 = 0x0088"
definition QMI_LOC_GET_SUPPORTED_MSGS_REQ_V02 :: int where "QMI_LOC_GET_SUPPORTED_MSGS_REQ_V02 = 0x001E"
definition QMI_LOC_GET_SUPPORTED_MSGS_RESP_V02 :: int where "QMI_LOC_GET_SUPPORTED_MSGS_RESP_V02 = 0x001E"
definition QMI_LOC_GET_SUPPORTED_FIELDS_REQ_V02 :: int where "QMI_LOC_GET_SUPPORTED_FIELDS_REQ_V02 = 0x001F"
definition QMI_LOC_GET_SUPPORTED_FIELDS_RESP_V02 :: int where "QMI_LOC_GET_SUPPORTED_FIELDS_RESP_V02 = 0x001F"
definition QMI_LOC_INFORM_CLIENT_REVISION_REQ_V02 :: int where "QMI_LOC_INFORM_CLIENT_REVISION_REQ_V02 = 0x0020"
definition QMI_LOC_INFORM_CLIENT_REVISION_RESP_V02 :: int where "QMI_LOC_INFORM_CLIENT_REVISION_RESP_V02 = 0x0020"
definition QMI_LOC_REG_EVENTS_REQ_V02 :: int where "QMI_LOC_REG_EVENTS_REQ_V02 = 0x0021"
definition QMI_LOC_REG_EVENTS_RESP_V02 :: int where "QMI_LOC_REG_EVENTS_RESP_V02 = 0x0021"
definition QMI_LOC_START_REQ_V02 :: int where "QMI_LOC_START_REQ_V02 = 0x0022"
definition QMI_LOC_START_RESP_V02 :: int where "QMI_LOC_START_RESP_V02 = 0x0022"
definition QMI_LOC_STOP_REQ_V02 :: int where "QMI_LOC_STOP_REQ_V02 = 0x0023"
definition QMI_LOC_STOP_RESP_V02 :: int where "QMI_LOC_STOP_RESP_V02 = 0x0023"
definition QMI_LOC_EVENT_POSITION_REPORT_IND_V02 :: int where "QMI_LOC_EVENT_POSITION_REPORT_IND_V02 = 0x0024"
definition QMI_LOC_EVENT_GNSS_SV_INFO_IND_V02 :: int where "QMI_LOC_EVENT_GNSS_SV_INFO_IND_V02 = 0x0025"
definition QMI_LOC_EVENT_NMEA_IND_V02 :: int where "QMI_LOC_EVENT_NMEA_IND_V02 = 0x0026"
definition QMI_LOC_EVENT_NI_NOTIFY_VERIFY_REQ_IND_V02 :: int where "QMI_LOC_EVENT_NI_NOTIFY_VERIFY_REQ_IND_V02 = 0x0027"
definition QMI_LOC_EVENT_INJECT_TIME_REQ_IND_V02 :: int where "QMI_LOC_EVENT_INJECT_TIME_REQ_IND_V02 = 0x0028"
definition QMI_LOC_EVENT_INJECT_PREDICTED_ORBITS_REQ_IND_V02 :: int where "QMI_LOC_EVENT_INJECT_PREDICTED_ORBITS_REQ_IND_V02 = 0x0029"
definition QMI_LOC_EVENT_INJECT_POSITION_REQ_IND_V02 :: int where "QMI_LOC_EVENT_INJECT_POSITION_REQ_IND_V02 = 0x002A"
definition QMI_LOC_EVENT_ENGINE_STATE_IND_V02 :: int where "QMI_LOC_EVENT_ENGINE_STATE_IND_V02 = 0x002B"
definition QMI_LOC_EVENT_FIX_SESSION_STATE_IND_V02 :: int where "QMI_LOC_EVENT_FIX_SESSION_STATE_IND_V02 = 0x002C"
definition QMI_LOC_EVENT_WIFI_REQ_IND_V02 :: int where "QMI_LOC_EVENT_WIFI_REQ_IND_V02 = 0x002D"
definition QMI_LOC_EVENT_SENSOR_STREAMING_READY_STATUS_IND_V02 :: int where "QMI_LOC_EVENT_SENSOR_STREAMING_READY_STATUS_IND_V02 = 0x002E"
definition QMI_LOC_EVENT_TIME_SYNC_REQ_IND_V02 :: int where "QMI_LOC_EVENT_TIME_SYNC_REQ_IND_V02 = 0x002F"
definition QMI_LOC_EVENT_SET_SPI_STREAMING_REPORT_IND_V02 :: int where "QMI_LOC_EVENT_SET_SPI_STREAMING_REPORT_IND_V02 = 0x0030"
definition QMI_LOC_EVENT_LOCATION_SERVER_CONNECTION_REQ_IND_V02 :: int where "QMI_LOC_EVENT_LOCATION_SERVER_CONNECTION_REQ_IND_V02 = 0x0031"
definition QMI_LOC_GET_SERVICE_REVISION_REQ_V02 :: int where "QMI_LOC_GET_SERVICE_REVISION_REQ_V02 = 0x0032"
definition QMI_LOC_GET_SERVICE_REVISION_RESP_V02 :: int where "QMI_LOC_GET_SERVICE_REVISION_RESP_V02 = 0x0032"
definition QMI_LOC_GET_SERVICE_REVISION_IND_V02 :: int where "QMI_LOC_GET_SERVICE_REVISION_IND_V02 = 0x0032"
definition QMI_LOC_GET_FIX_CRITERIA_REQ_V02 :: int where "QMI_LOC_GET_FIX_CRITERIA_REQ_V02 = 0x0033"
definition QMI_LOC_GET_FIX_CRITERIA_RESP_V02 :: int where "QMI_LOC_GET_FIX_CRITERIA_RESP_V02 = 0x0033"
definition QMI_LOC_GET_FIX_CRITERIA_IND_V02 :: int where "QMI_LOC_GET_FIX_CRITERIA_IND_V02 = 0x0033"
definition QMI_LOC_NI_USER_RESPONSE_REQ_V02 :: int where "QMI_LOC_NI_USER_RESPONSE_REQ_V02 = 0x0034"
definition QMI_LOC_NI_USER_RESPONSE_RESP_V02 :: int where "QMI_LOC_NI_USER_RESPONSE_RESP_V02 = 0x0034"
definition QMI_LOC_NI_USER_RESPONSE_IND_V02 :: int where "QMI_LOC_NI_USER_RESPONSE_IND_V02 = 0x0034"
definition QMI_LOC_INJECT_PREDICTED_ORBITS_DATA_REQ_V02 :: int where "QMI_LOC_INJECT_PREDICTED_ORBITS_DATA_REQ_V02 = 0x0035"
definition QMI_LOC_INJECT_PREDICTED_ORBITS_DATA_RESP_V02 :: int where "QMI_LOC_INJECT_PREDICTED_ORBITS_DATA_RESP_V02 = 0x0035"
definition QMI_LOC_INJECT_PREDICTED_ORBITS_DATA_IND_V02 :: int where "QMI_LOC_INJECT_PREDICTED_ORBITS_DATA_IND_V02 = 0x0035"
definition QMI_LOC_GET_PREDICTED_ORBITS_DATA_SOURCE_REQ_V02 :: int where "QMI_LOC_GET_PREDICTED_ORBITS_DATA_SOURCE_REQ_V02 = 0x0036"
definition QMI_LOC_GET_PREDICTED_ORBITS_DATA_SOURCE_RESP_V02 :: int where "QMI_LOC_GET_PREDICTED_ORBITS_DATA_SOURCE_RESP_V02 = 0x0036"
definition QMI_LOC_GET_PREDICTED_ORBITS_DATA_SOURCE_IND_V02 :: int where "QMI_LOC_GET_PREDICTED_ORBITS_DATA_SOURCE_IND_V02 = 0x0036"
definition QMI_LOC_GET_PREDICTED_ORBITS_DATA_VALIDITY_REQ_V02 :: int where "QMI_LOC_GET_PREDICTED_ORBITS_DATA_VALIDITY_REQ_V02 = 0x0037"
definition QMI_LOC_GET_PREDICTED_ORBITS_DATA_VALIDITY_RESP_V02 :: int where "QMI_LOC_GET_PREDICTED_ORBITS_DATA_VALIDITY_RESP_V02 = 0x0037"
definition QMI_LOC_GET_PREDICTED_ORBITS_DATA_VALIDITY_IND_V02 :: int where "QMI_LOC_GET_PREDICTED_ORBITS_DATA_VALIDITY_IND_V02 = 0x0037"
definition QMI_LOC_INJECT_UTC_TIME_REQ_V02 :: int where "QMI_LOC_INJECT_UTC_TIME_REQ_V02 = 0x0038"
definition QMI_LOC_INJECT_UTC_TIME_RESP_V02 :: int where "QMI_LOC_INJECT_UTC_TIME_RESP_V02 = 0x0038"
definition QMI_LOC_INJECT_UTC_TIME_IND_V02 :: int where "QMI_LOC_INJECT_UTC_TIME_IND_V02 = 0x0038"
definition QMI_LOC_INJECT_POSITION_REQ_V02 :: int where "QMI_LOC_INJECT_POSITION_REQ_V02 = 0x0039"
definition QMI_LOC_INJECT_POSITION_RESP_V02 :: int where "QMI_LOC_INJECT_POSITION_RESP_V02 = 0x0039"
definition QMI_LOC_INJECT_POSITION_IND_V02 :: int where "QMI_LOC_INJECT_POSITION_IND_V02 = 0x0039"
definition QMI_LOC_SET_ENGINE_LOCK_REQ_V02 :: int where "QMI_LOC_SET_ENGINE_LOCK_REQ_V02 = 0x003A"
definition QMI_LOC_SET_ENGINE_LOCK_RESP_V02 :: int where "QMI_LOC_SET_ENGINE_LOCK_RESP_V02 = 0x003A"
definition QMI_LOC_SET_ENGINE_LOCK_IND_V02 :: int where "QMI_LOC_SET_ENGINE_LOCK_IND_V02 = 0x003A"
definition QMI_LOC_GET_ENGINE_LOCK_REQ_V02 :: int where "QMI_LOC_GET_ENGINE_LOCK_REQ_V02 = 0x003B"
definition QMI_LOC_GET_ENGINE_LOCK_RESP_V02 :: int where "QMI_LOC_GET_ENGINE_LOCK_RESP_V02 = 0x003B"
definition QMI_LOC_GET_ENGINE_LOCK_IND_V02 :: int where "QMI_LOC_GET_ENGINE_LOCK_IND_V02 = 0x003B"
definition QMI_LOC_SET_SBAS_CONFIG_REQ_V02 :: int where "QMI_LOC_SET_SBAS_CONFIG_REQ_V02 = 0x003C"
definition QMI_LOC_SET_SBAS_CONFIG_RESP_V02 :: int where "QMI_LOC_SET_SBAS_CONFIG_RESP_V02 = 0x003C"
definition QMI_LOC_SET_SBAS_CONFIG_IND_V02 :: int where "QMI_LOC_SET_SBAS_CONFIG_IND_V02 = 0x003C"
definition QMI_LOC_GET_SBAS_CONFIG_REQ_V02 :: int where "QMI_LOC_GET_SBAS_CONFIG_REQ_V02 = 0x003D"
definition QMI_LOC_GET_SBAS_CONFIG_RESP_V02 :: int where "QMI_LOC_GET_SBAS_CONFIG_RESP_V02 = 0x003D"
definition QMI_LOC_GET_SBAS_CONFIG_IND_V02 :: int where "QMI_LOC_GET_SBAS_CONFIG_IND_V02 = 0x003D"
definition QMI_LOC_SET_NMEA_TYPES_REQ_V02 :: int where "QMI_LOC_SET_NMEA_TYPES_REQ_V02 = 0x003E"
definition QMI_LOC_SET_NMEA_TYPES_RESP_V02 :: int where "QMI_LOC_SET_NMEA_TYPES_RESP_V02 = 0x003E"
definition QMI_LOC_SET_NMEA_TYPES_IND_V02 :: int where "QMI_LOC_SET_NMEA_TYPES_IND_V02 = 0x003E"
definition QMI_LOC_GET_NMEA_TYPES_REQ_V02 :: int where "QMI_LOC_GET_NMEA_TYPES_REQ_V02 = 0x003F"
definition QMI_LOC_GET_NMEA_TYPES_RESP_V02 :: int where "QMI_LOC_GET_NMEA_TYPES_RESP_V02 = 0x003F"
definition QMI_LOC_GET_NMEA_TYPES_IND_V02 :: int where "QMI_LOC_GET_NMEA_TYPES_IND_V02 = 0x003F"
definition QMI_LOC_SET_LOW_POWER_MODE_REQ_V02 :: int where "QMI_LOC_SET_LOW_POWER_MODE_REQ_V02 = 0x0040"
definition QMI_LOC_SET_LOW_POWER_MODE_RESP_V02 :: int where "QMI_LOC_SET_LOW_POWER_MODE_RESP_V02 = 0x0040"
definition QMI_LOC_SET_LOW_POWER_MODE_IND_V02 :: int where "QMI_LOC_SET_LOW_POWER_MODE_IND_V02 = 0x0040"
definition QMI_LOC_GET_LOW_POWER_MODE_REQ_V02 :: int where "QMI_LOC_GET_LOW_POWER_MODE_REQ_V02 = 0x0041"
definition QMI_LOC_GET_LOW_POWER_MODE_RESP_V02 :: int where "QMI_LOC_GET_LOW_POWER_MODE_RESP_V02 = 0x0041"
definition QMI_LOC_GET_LOW_POWER_MODE_IND_V02 :: int where "QMI_LOC_GET_LOW_POWER_MODE_IND_V02 = 0x0041"
definition QMI_LOC_SET_SERVER_REQ_V02 :: int where "QMI_LOC_SET_SERVER_REQ_V02 = 0x0042"
definition QMI_LOC_SET_SERVER_RESP_V02 :: int where "QMI_LOC_SET_SERVER_RESP_V02 = 0x0042"
definition QMI_LOC_SET_SERVER_IND_V02 :: int where "QMI_LOC_SET_SERVER_IND_V02 = 0x0042"
definition QMI_LOC_GET_SERVER_REQ_V02 :: int where "QMI_LOC_GET_SERVER_REQ_V02 = 0x0043"
definition QMI_LOC_GET_SERVER_RESP_V02 :: int where "QMI_LOC_GET_SERVER_RESP_V02 = 0x0043"
definition QMI_LOC_GET_SERVER_IND_V02 :: int where "QMI_LOC_GET_SERVER_IND_V02 = 0x0043"
definition QMI_LOC_DELETE_ASSIST_DATA_REQ_V02 :: int where "QMI_LOC_DELETE_ASSIST_DATA_REQ_V02 = 0x0044"
definition QMI_LOC_DELETE_ASSIST_DATA_RESP_V02 :: int where "QMI_LOC_DELETE_ASSIST_DATA_RESP_V02 = 0x0044"
definition QMI_LOC_DELETE_ASSIST_DATA_IND_V02 :: int where "QMI_LOC_DELETE_ASSIST_DATA_IND_V02 = 0x0044"
definition QMI_LOC_SET_XTRA_T_SESSION_CONTROL_REQ_V02 :: int where "QMI_LOC_SET_XTRA_T_SESSION_CONTROL_REQ_V02 = 0x0045"
definition QMI_LOC_SET_XTRA_T_SESSION_CONTROL_RESP_V02 :: int where "QMI_LOC_SET_XTRA_T_SESSION_CONTROL_RESP_V02 = 0x0045"
definition QMI_LOC_SET_XTRA_T_SESSION_CONTROL_IND_V02 :: int where "QMI_LOC_SET_XTRA_T_SESSION_CONTROL_IND_V02 = 0x0045"
definition QMI_LOC_GET_XTRA_T_SESSION_CONTROL_REQ_V02 :: int where "QMI_LOC_GET_XTRA_T_SESSION_CONTROL_REQ_V02 = 0x0046"
definition QMI_LOC_GET_XTRA_T_SESSION_CONTROL_RESP_V02 :: int where "QMI_LOC_GET_XTRA_T_SESSION_CONTROL_RESP_V02 = 0x0046"
definition QMI_LOC_GET_XTRA_T_SESSION_CONTROL_IND_V02 :: int where "QMI_LOC_GET_XTRA_T_SESSION_CONTROL_IND_V02 = 0x0046"
definition QMI_LOC_INJECT_WIFI_POSITION_REQ_V02 :: int where "QMI_LOC_INJECT_WIFI_POSITION_REQ_V02 = 0x0047"
definition QMI_LOC_INJECT_WIFI_POSITION_RESP_V02 :: int where "QMI_LOC_INJECT_WIFI_POSITION_RESP_V02 = 0x0047"
definition QMI_LOC_INJECT_WIFI_POSITION_IND_V02 :: int where "QMI_LOC_INJECT_WIFI_POSITION_IND_V02 = 0x0047"
definition QMI_LOC_NOTIFY_WIFI_STATUS_REQ_V02 :: int where "QMI_LOC_NOTIFY_WIFI_STATUS_REQ_V02 = 0x0048"
definition QMI_LOC_NOTIFY_WIFI_STATUS_RESP_V02 :: int where "QMI_LOC_NOTIFY_WIFI_STATUS_RESP_V02 = 0x0048"
definition QMI_LOC_NOTIFY_WIFI_STATUS_IND_V02 :: int where "QMI_LOC_NOTIFY_WIFI_STATUS_IND_V02 = 0x0048"
definition QMI_LOC_GET_REGISTERED_EVENTS_REQ_V02 :: int where "QMI_LOC_GET_REGISTERED_EVENTS_REQ_V02 = 0x0049"
definition QMI_LOC_GET_REGISTERED_EVENTS_RESP_V02 :: int where "QMI_LOC_GET_REGISTERED_EVENTS_RESP_V02 = 0x0049"
definition QMI_LOC_GET_REGISTERED_EVENTS_IND_V02 :: int where "QMI_LOC_GET_REGISTERED_EVENTS_IND_V02 = 0x0049"
definition QMI_LOC_SET_OPERATION_MODE_REQ_V02 :: int where "QMI_LOC_SET_OPERATION_MODE_REQ_V02 = 0x004A"
definition QMI_LOC_SET_OPERATION_MODE_RESP_V02 :: int where "QMI_LOC_SET_OPERATION_MODE_RESP_V02 = 0x004A"
definition QMI_LOC_SET_OPERATION_MODE_IND_V02 :: int where "QMI_LOC_SET_OPERATION_MODE_IND_V02 = 0x004A"
definition QMI_LOC_GET_OPERATION_MODE_REQ_V02 :: int where "QMI_LOC_GET_OPERATION_MODE_REQ_V02 = 0x004B"
definition QMI_LOC_GET_OPERATION_MODE_RESP_V02 :: int where "QMI_LOC_GET_OPERATION_MODE_RESP_V02 = 0x004B"
definition QMI_LOC_GET_OPERATION_MODE_IND_V02 :: int where "QMI_LOC_GET_OPERATION_MODE_IND_V02 = 0x004B"
definition QMI_LOC_SET_SPI_STATUS_REQ_V02 :: int where "QMI_LOC_SET_SPI_STATUS_REQ_V02 = 0x004C"
definition QMI_LOC_SET_SPI_STATUS_RESP_V02 :: int where "QMI_LOC_SET_SPI_STATUS_RESP_V02 = 0x004C"
definition QMI_LOC_SET_SPI_STATUS_IND_V02 :: int where "QMI_LOC_SET_SPI_STATUS_IND_V02 = 0x004C"
definition QMI_LOC_INJECT_SENSOR_DATA_REQ_V02 :: int where "QMI_LOC_INJECT_SENSOR_DATA_REQ_V02 = 0x004D"
definition QMI_LOC_INJECT_SENSOR_DATA_RESP_V02 :: int where "QMI_LOC_INJECT_SENSOR_DATA_RESP_V02 = 0x004D"
definition QMI_LOC_INJECT_SENSOR_DATA_IND_V02 :: int where "QMI_LOC_INJECT_SENSOR_DATA_IND_V02 = 0x004D"
definition QMI_LOC_INJECT_TIME_SYNC_DATA_REQ_V02 :: int where "QMI_LOC_INJECT_TIME_SYNC_DATA_REQ_V02 = 0x004E"
definition QMI_LOC_INJECT_TIME_SYNC_DATA_RESP_V02 :: int where "QMI_LOC_INJECT_TIME_SYNC_DATA_RESP_V02 = 0x004E"
definition QMI_LOC_INJECT_TIME_SYNC_DATA_IND_V02 :: int where "QMI_LOC_INJECT_TIME_SYNC_DATA_IND_V02 = 0x004E"
definition QMI_LOC_SET_CRADLE_MOUNT_CONFIG_REQ_V02 :: int where "QMI_LOC_SET_CRADLE_MOUNT_CONFIG_REQ_V02 = 0x004F"
definition QMI_LOC_SET_CRADLE_MOUNT_CONFIG_RESP_V02 :: int where "QMI_LOC_SET_CRADLE_MOUNT_CONFIG_RESP_V02 = 0x004F"
definition QMI_LOC_SET_CRADLE_MOUNT_CONFIG_IND_V02 :: int where "QMI_LOC_SET_CRADLE_MOUNT_CONFIG_IND_V02 = 0x004F"
definition QMI_LOC_GET_CRADLE_MOUNT_CONFIG_REQ_V02 :: int where "QMI_LOC_GET_CRADLE_MOUNT_CONFIG_REQ_V02 = 0x0050"
definition QMI_LOC_GET_CRADLE_MOUNT_CONFIG_RESP_V02 :: int where "QMI_LOC_GET_CRADLE_MOUNT_CONFIG_RESP_V02 = 0x0050"
definition QMI_LOC_GET_CRADLE_MOUNT_CONFIG_IND_V02 :: int where "QMI_LOC_GET_CRADLE_MOUNT_CONFIG_IND_V02 = 0x0050"
definition QMI_LOC_SET_EXTERNAL_POWER_CONFIG_REQ_V02 :: int where "QMI_LOC_SET_EXTERNAL_POWER_CONFIG_REQ_V02 = 0x0051"
definition QMI_LOC_SET_EXTERNAL_POWER_CONFIG_RESP_V02 :: int where "QMI_LOC_SET_EXTERNAL_POWER_CONFIG_RESP_V02 = 0x0051"
definition QMI_LOC_SET_EXTERNAL_POWER_CONFIG_IND_V02 :: int where "QMI_LOC_SET_EXTERNAL_POWER_CONFIG_IND_V02 = 0x0051"
definition QMI_LOC_GET_EXTERNAL_POWER_CONFIG_REQ_V02 :: int where "QMI_LOC_GET_EXTERNAL_POWER_CONFIG_REQ_V02 = 0x0052"
definition QMI_LOC_GET_EXTERNAL_POWER_CONFIG_RESP_V02 :: int where "QMI_LOC_GET_EXTERNAL_POWER_CONFIG_RESP_V02 = 0x0052"
definition QMI_LOC_GET_EXTERNAL_POWER_CONFIG_IND_V02 :: int where "QMI_LOC_GET_EXTERNAL_POWER_CONFIG_IND_V02 = 0x0052"
definition QMI_LOC_INFORM_LOCATION_SERVER_CONN_STATUS_REQ_V02 :: int where "QMI_LOC_INFORM_LOCATION_SERVER_CONN_STATUS_REQ_V02 = 0x0053"
definition QMI_LOC_INFORM_LOCATION_SERVER_CONN_STATUS_RESP_V02 :: int where "QMI_LOC_INFORM_LOCATION_SERVER_CONN_STATUS_RESP_V02 = 0x0053"
definition QMI_LOC_INFORM_LOCATION_SERVER_CONN_STATUS_IND_V02 :: int where "QMI_LOC_INFORM_LOCATION_SERVER_CONN_STATUS_IND_V02 = 0x0053"
definition QMI_LOC_SET_PROTOCOL_CONFIG_PARAMETERS_REQ_V02 :: int where "QMI_LOC_SET_PROTOCOL_CONFIG_PARAMETERS_REQ_V02 = 0x0054"
definition QMI_LOC_SET_PROTOCOL_CONFIG_PARAMETERS_RESP_V02 :: int where "QMI_LOC_SET_PROTOCOL_CONFIG_PARAMETERS_RESP_V02 = 0x0054"
definition QMI_LOC_SET_PROTOCOL_CONFIG_PARAMETERS_IND_V02 :: int where "QMI_LOC_SET_PROTOCOL_CONFIG_PARAMETERS_IND_V02 = 0x0054"
definition QMI_LOC_GET_PROTOCOL_CONFIG_PARAMETERS_REQ_V02 :: int where "QMI_LOC_GET_PROTOCOL_CONFIG_PARAMETERS_REQ_V02 = 0x0055"
definition QMI_LOC_GET_PROTOCOL_CONFIG_PARAMETERS_RESP_V02 :: int where "QMI_LOC_GET_PROTOCOL_CONFIG_PARAMETERS_RESP_V02 = 0x0055"
definition QMI_LOC_GET_PROTOCOL_CONFIG_PARAMETERS_IND_V02 :: int where "QMI_LOC_GET_PROTOCOL_CONFIG_PARAMETERS_IND_V02 = 0x0055"
definition QMI_LOC_SET_SENSOR_CONTROL_CONFIG_REQ_V02 :: int where "QMI_LOC_SET_SENSOR_CONTROL_CONFIG_REQ_V02 = 0x0056"
definition QMI_LOC_SET_SENSOR_CONTROL_CONFIG_RESP_V02 :: int where "QMI_LOC_SET_SENSOR_CONTROL_CONFIG_RESP_V02 = 0x0056"
definition QMI_LOC_SET_SENSOR_CONTROL_CONFIG_IND_V02 :: int where "QMI_LOC_SET_SENSOR_CONTROL_CONFIG_IND_V02 = 0x0056"
definition QMI_LOC_GET_SENSOR_CONTROL_CONFIG_REQ_V02 :: int where "QMI_LOC_GET_SENSOR_CONTROL_CONFIG_REQ_V02 = 0x0057"
definition QMI_LOC_GET_SENSOR_CONTROL_CONFIG_RESP_V02 :: int where "QMI_LOC_GET_SENSOR_CONTROL_CONFIG_RESP_V02 = 0x0057"
definition QMI_LOC_GET_SENSOR_CONTROL_CONFIG_IND_V02 :: int where "QMI_LOC_GET_SENSOR_CONTROL_CONFIG_IND_V02 = 0x0057"
definition QMI_LOC_SET_SENSOR_PROPERTIES_REQ_V02 :: int where "QMI_LOC_SET_SENSOR_PROPERTIES_REQ_V02 = 0x0058"
definition QMI_LOC_SET_SENSOR_PROPERTIES_RESP_V02 :: int where "QMI_LOC_SET_SENSOR_PROPERTIES_RESP_V02 = 0x0058"
definition QMI_LOC_SET_SENSOR_PROPERTIES_IND_V02 :: int where "QMI_LOC_SET_SENSOR_PROPERTIES_IND_V02 = 0x0058"
definition QMI_LOC_GET_SENSOR_PROPERTIES_REQ_V02 :: int where "QMI_LOC_GET_SENSOR_PROPERTIES_REQ_V02 = 0x0059"
definition QMI_LOC_GET_SENSOR_PROPERTIES_RESP_V02 :: int where "QMI_LOC_GET_SENSOR_PROPERTIES_RESP_V02 = 0x0059"
definition QMI_LOC_GET_SENSOR_PROPERTIES_IND_V02 :: int where "QMI_LOC_GET_SENSOR_PROPERTIES_IND_V02 = 0x0059"
definition QMI_LOC_SET_SENSOR_PERFORMANCE_CONTROL_CONFIGURATION_REQ_V02 :: int where "QMI_LOC_SET_SENSOR_PERFORMANCE_CONTROL_CONFIGURATION_REQ_V02 = 0x005A"
definition QMI_LOC_SET_SENSOR_PERFORMANCE_CONTROL_CONFIGURATION_RESP_V02 :: int where "QMI_LOC_SET_SENSOR_PERFORMANCE_CONTROL_CONFIGURATION_RESP_V02 = 0x005A"
definition QMI_LOC_SET_SENSOR_PERFORMANCE_CONTROL_CONFIGURATION_IND_V02 :: int where "QMI_LOC_SET_SENSOR_PERFORMANCE_CONTROL_CONFIGURATION_IND_V02 = 0x005A"
definition QMI_LOC_GET_SENSOR_PERFORMANCE_CONTROL_CONFIGURATION_REQ_V02 :: int where "QMI_LOC_GET_SENSOR_PERFORMANCE_CONTROL_CONFIGURATION_REQ_V02 = 0x005B"
definition QMI_LOC_GET_SENSOR_PERFORMANCE_CONTROL_CONFIGURATION_RESP_V02 :: int where "QMI_LOC_GET_SENSOR_PERFORMANCE_CONTROL_CONFIGURATION_RESP_V02 = 0x005B"
definition QMI_LOC_GET_SENSOR_PERFORMANCE_CONTROL_CONFIGURATION_IND_V02 :: int where "QMI_LOC_GET_SENSOR_PERFORMANCE_CONTROL_CONFIGURATION_IND_V02 = 0x005B"
definition QMI_LOC_INJECT_SUPL_CERTIFICATE_REQ_V02 :: int where "QMI_LOC_INJECT_SUPL_CERTIFICATE_REQ_V02 = 0x005C"
definition QMI_LOC_INJECT_SUPL_CERTIFICATE_RESP_V02 :: int where "QMI_LOC_INJECT_SUPL_CERTIFICATE_RESP_V02 = 0x005C"
definition QMI_LOC_INJECT_SUPL_CERTIFICATE_IND_V02 :: int where "QMI_LOC_INJECT_SUPL_CERTIFICATE_IND_V02 = 0x005C"
definition QMI_LOC_DELETE_SUPL_CERTIFICATE_REQ_V02 :: int where "QMI_LOC_DELETE_SUPL_CERTIFICATE_REQ_V02 = 0x005D"
definition QMI_LOC_DELETE_SUPL_CERTIFICATE_RESP_V02 :: int where "QMI_LOC_DELETE_SUPL_CERTIFICATE_RESP_V02 = 0x005D"
definition QMI_LOC_DELETE_SUPL_CERTIFICATE_IND_V02 :: int where "QMI_LOC_DELETE_SUPL_CERTIFICATE_IND_V02 = 0x005D"
definition QMI_LOC_SET_POSITION_ENGINE_CONFIG_PARAMETERS_REQ_V02 :: int where "QMI_LOC_SET_POSITION_ENGINE_CONFIG_PARAMETERS_REQ_V02 = 0x005E"
definition QMI_LOC_SET_POSITION_ENGINE_CONFIG_PARAMETERS_RESP_V02 :: int where "QMI_LOC_SET_POSITION_ENGINE_CONFIG_PARAMETERS_RESP_V02 = 0x005E"
definition QMI_LOC_SET_POSITION_ENGINE_CONFIG_PARAMETERS_IND_V02 :: int where "QMI_LOC_SET_POSITION_ENGINE_CONFIG_PARAMETERS_IND_V02 = 0x005E"
definition QMI_LOC_GET_POSITION_ENGINE_CONFIG_PARAMETERS_REQ_V02 :: int where "QMI_LOC_GET_POSITION_ENGINE_CONFIG_PARAMETERS_REQ_V02 = 0x005F"
definition QMI_LOC_GET_POSITION_ENGINE_CONFIG_PARAMETERS_RESP_V02 :: int where "QMI_LOC_GET_POSITION_ENGINE_CONFIG_PARAMETERS_RESP_V02 = 0x005F"
definition QMI_LOC_GET_POSITION_ENGINE_CONFIG_PARAMETERS_IND_V02 :: int where "QMI_LOC_GET_POSITION_ENGINE_CONFIG_PARAMETERS_IND_V02 = 0x005F"
definition QMI_LOC_EVENT_NI_GEOFENCE_NOTIFICATION_IND_V02 :: int where "QMI_LOC_EVENT_NI_GEOFENCE_NOTIFICATION_IND_V02 = 0x0060"
definition QMI_LOC_EVENT_GEOFENCE_GEN_ALERT_IND_V02 :: int where "QMI_LOC_EVENT_GEOFENCE_GEN_ALERT_IND_V02 = 0x0061"
definition QMI_LOC_EVENT_GEOFENCE_BREACH_NOTIFICATION_IND_V02 :: int where "QMI_LOC_EVENT_GEOFENCE_BREACH_NOTIFICATION_IND_V02 = 0x0062"
definition QMI_LOC_ADD_CIRCULAR_GEOFENCE_REQ_V02 :: int where "QMI_LOC_ADD_CIRCULAR_GEOFENCE_REQ_V02 = 0x0063"
definition QMI_LOC_ADD_CIRCULAR_GEOFENCE_RESP_V02 :: int where "QMI_LOC_ADD_CIRCULAR_GEOFENCE_RESP_V02 = 0x0063"
definition QMI_LOC_ADD_CIRCULAR_GEOFENCE_IND_V02 :: int where "QMI_LOC_ADD_CIRCULAR_GEOFENCE_IND_V02 = 0x0063"
definition QMI_LOC_DELETE_GEOFENCE_REQ_V02 :: int where "QMI_LOC_DELETE_GEOFENCE_REQ_V02 = 0x0064"
definition QMI_LOC_DELETE_GEOFENCE_RESP_V02 :: int where "QMI_LOC_DELETE_GEOFENCE_RESP_V02 = 0x0064"
definition QMI_LOC_DELETE_GEOFENCE_IND_V02 :: int where "QMI_LOC_DELETE_GEOFENCE_IND_V02 = 0x0064"
definition QMI_LOC_QUERY_GEOFENCE_REQ_V02 :: int where "QMI_LOC_QUERY_GEOFENCE_REQ_V02 = 0x0065"
definition QMI_LOC_QUERY_GEOFENCE_RESP_V02 :: int where "QMI_LOC_QUERY_GEOFENCE_RESP_V02 = 0x0065"
definition QMI_LOC_QUERY_GEOFENCE_IND_V02 :: int where "QMI_LOC_QUERY_GEOFENCE_IND_V02 = 0x0065"
definition QMI_LOC_EDIT_GEOFENCE_REQ_V02 :: int where "QMI_LOC_EDIT_GEOFENCE_REQ_V02 = 0x0066"
definition QMI_LOC_EDIT_GEOFENCE_RESP_V02 :: int where "QMI_LOC_EDIT_GEOFENCE_RESP_V02 = 0x0066"
definition QMI_LOC_EDIT_GEOFENCE_IND_V02 :: int where "QMI_LOC_EDIT_GEOFENCE_IND_V02 = 0x0066"
definition QMI_LOC_GET_BEST_AVAILABLE_POSITION_REQ_V02 :: int where "QMI_LOC_GET_BEST_AVAILABLE_POSITION_REQ_V02 = 0x0067"
definition QMI_LOC_GET_BEST_AVAILABLE_POSITION_RESP_V02 :: int where "QMI_LOC_GET_BEST_AVAILABLE_POSITION_RESP_V02 = 0x0067"
definition QMI_LOC_GET_BEST_AVAILABLE_POSITION_IND_V02 :: int where "QMI_LOC_GET_BEST_AVAILABLE_POSITION_IND_V02 = 0x0067"
definition QMI_LOC_INJECT_MOTION_DATA_REQ_V02 :: int where "QMI_LOC_INJECT_MOTION_DATA_REQ_V02 = 0x0068"
definition QMI_LOC_INJECT_MOTION_DATA_RESP_V02 :: int where "QMI_LOC_INJECT_MOTION_DATA_RESP_V02 = 0x0068"
definition QMI_LOC_INJECT_MOTION_DATA_IND_V02 :: int where "QMI_LOC_INJECT_MOTION_DATA_IND_V02 = 0x0068"
definition QMI_LOC_GET_NI_GEOFENCE_ID_LIST_REQ_V02 :: int where "QMI_LOC_GET_NI_GEOFENCE_ID_LIST_REQ_V02 = 0x0069"
definition QMI_LOC_GET_NI_GEOFENCE_ID_LIST_RESP_V02 :: int where "QMI_LOC_GET_NI_GEOFENCE_ID_LIST_RESP_V02 = 0x0069"
definition QMI_LOC_GET_NI_GEOFENCE_ID_LIST_IND_V02 :: int where "QMI_LOC_GET_NI_GEOFENCE_ID_LIST_IND_V02 = 0x0069"
definition QMI_LOC_INJECT_GSM_CELL_INFO_REQ_V02 :: int where "QMI_LOC_INJECT_GSM_CELL_INFO_REQ_V02 = 0x006A"
definition QMI_LOC_INJECT_GSM_CELL_INFO_RESP_V02 :: int where "QMI_LOC_INJECT_GSM_CELL_INFO_RESP_V02 = 0x006A"
definition QMI_LOC_INJECT_GSM_CELL_INFO_IND_V02 :: int where "QMI_LOC_INJECT_GSM_CELL_INFO_IND_V02 = 0x006A"
definition QMI_LOC_INJECT_NETWORK_INITIATED_MESSAGE_REQ_V02 :: int where "QMI_LOC_INJECT_NETWORK_INITIATED_MESSAGE_REQ_V02 = 0x006B"
definition QMI_LOC_INJECT_NETWORK_INITIATED_MESSAGE_RESP_V02 :: int where "QMI_LOC_INJECT_NETWORK_INITIATED_MESSAGE_RESP_V02 = 0x006B"
definition QMI_LOC_INJECT_NETWORK_INITIATED_MESSAGE_IND_V02 :: int where "QMI_LOC_INJECT_NETWORK_INITIATED_MESSAGE_IND_V02 = 0x006B"
definition QMI_LOC_WWAN_OUT_OF_SERVICE_NOTIFICATION_REQ_V02 :: int where "QMI_LOC_WWAN_OUT_OF_SERVICE_NOTIFICATION_REQ_V02 = 0x006C"
definition QMI_LOC_WWAN_OUT_OF_SERVICE_NOTIFICATION_RESP_V02 :: int where "QMI_LOC_WWAN_OUT_OF_SERVICE_NOTIFICATION_RESP_V02 = 0x006C"
definition QMI_LOC_WWAN_OUT_OF_SERVICE_NOTIFICATION_IND_V02 :: int where "QMI_LOC_WWAN_OUT_OF_SERVICE_NOTIFICATION_IND_V02 = 0x006C"
definition QMI_LOC_EVENT_PEDOMETER_CONTROL_IND_V02 :: int where "QMI_LOC_EVENT_PEDOMETER_CONTROL_IND_V02 = 0x006D"
definition QMI_LOC_EVENT_MOTION_DATA_CONTROL_IND_V02 :: int where "QMI_LOC_EVENT_MOTION_DATA_CONTROL_IND_V02 = 0x006E"
definition QMI_LOC_PEDOMETER_REPORT_REQ_V02 :: int where "QMI_LOC_PEDOMETER_REPORT_REQ_V02 = 0x006F"
definition QMI_LOC_PEDOMETER_REPORT_RESP_V02 :: int where "QMI_LOC_PEDOMETER_REPORT_RESP_V02 = 0x006F"
definition QMI_LOC_PEDOMETER_REPORT_IND_V02 :: int where "QMI_LOC_PEDOMETER_REPORT_IND_V02 = 0x006F"
definition QMI_LOC_INJECT_WCDMA_CELL_INFO_REQ_V02 :: int where "QMI_LOC_INJECT_WCDMA_CELL_INFO_REQ_V02 = 0x0070"
definition QMI_LOC_INJECT_WCDMA_CELL_INFO_RESP_V02 :: int where "QMI_LOC_INJECT_WCDMA_CELL_INFO_RESP_V02 = 0x0070"
definition QMI_LOC_INJECT_WCDMA_CELL_INFO_IND_V02 :: int where "QMI_LOC_INJECT_WCDMA_CELL_INFO_IND_V02 = 0x0070"
definition QMI_LOC_INJECT_TDSCDMA_CELL_INFO_REQ_V02 :: int where "QMI_LOC_INJECT_TDSCDMA_CELL_INFO_REQ_V02 = 0x0071"
definition QMI_LOC_INJECT_TDSCDMA_CELL_INFO_RESP_V02 :: int where "QMI_LOC_INJECT_TDSCDMA_CELL_INFO_RESP_V02 = 0x0071"
definition QMI_LOC_INJECT_TDSCDMA_CELL_INFO_IND_V02 :: int where "QMI_LOC_INJECT_TDSCDMA_CELL_INFO_IND_V02 = 0x0071"
definition QMI_LOC_INJECT_SUBSCRIBER_ID_REQ_V02 :: int where "QMI_LOC_INJECT_SUBSCRIBER_ID_REQ_V02 = 0x0072"
definition QMI_LOC_INJECT_SUBSCRIBER_ID_RESP_V02 :: int where "QMI_LOC_INJECT_SUBSCRIBER_ID_RESP_V02 = 0x0072"
definition QMI_LOC_INJECT_SUBSCRIBER_ID_IND_V02 :: int where "QMI_LOC_INJECT_SUBSCRIBER_ID_IND_V02 = 0x0072"
definition QMI_LOC_SET_GEOFENCE_ENGINE_CONFIG_REQ_V02 :: int where "QMI_LOC_SET_GEOFENCE_ENGINE_CONFIG_REQ_V02 = 0x0073"
definition QMI_LOC_SET_GEOFENCE_ENGINE_CONFIG_RESP_V02 :: int where "QMI_LOC_SET_GEOFENCE_ENGINE_CONFIG_RESP_V02 = 0x0073"
definition QMI_LOC_SET_GEOFENCE_ENGINE_CONFIG_IND_V02 :: int where "QMI_LOC_SET_GEOFENCE_ENGINE_CONFIG_IND_V02 = 0x0073"
definition QMI_LOC_GET_GEOFENCE_ENGINE_CONFIG_REQ_V02 :: int where "QMI_LOC_GET_GEOFENCE_ENGINE_CONFIG_REQ_V02 = 0x0074"
definition QMI_LOC_GET_GEOFENCE_ENGINE_CONFIG_RESP_V02 :: int where "QMI_LOC_GET_GEOFENCE_ENGINE_CONFIG_RESP_V02 = 0x0074"
definition QMI_LOC_GET_GEOFENCE_ENGINE_CONFIG_IND_V02 :: int where "QMI_LOC_GET_GEOFENCE_ENGINE_CONFIG_IND_V02 = 0x0074"
definition QMI_LOC_GET_BATCH_SIZE_REQ_V02 :: int where "QMI_LOC_GET_BATCH_SIZE_REQ_V02 = 0x0075"
definition QMI_LOC_GET_BATCH_SIZE_RESP_V02 :: int where "QMI_LOC_GET_BATCH_SIZE_RESP_V02 = 0x0075"
definition QMI_LOC_GET_BATCH_SIZE_IND_V02 :: int where "QMI_LOC_GET_BATCH_SIZE_IND_V02 = 0x0075"
definition QMI_LOC_START_BATCHING_REQ_V02 :: int where "QMI_LOC_START_BATCHING_REQ_V02 = 0x0076"
definition QMI_LOC_START_BATCHING_RESP_V02 :: int where "QMI_LOC_START_BATCHING_RESP_V02 = 0x0076"
definition QMI_LOC_START_BATCHING_IND_V02 :: int where "QMI_LOC_START_BATCHING_IND_V02 = 0x0076"
definition QMI_LOC_EVENT_BATCH_FULL_NOTIFICATION_IND_V02 :: int where "QMI_LOC_EVENT_BATCH_FULL_NOTIFICATION_IND_V02 = 0x0077"
definition QMI_LOC_EVENT_LIVE_BATCHED_POSITION_REPORT_IND_V02 :: int where "QMI_LOC_EVENT_LIVE_BATCHED_POSITION_REPORT_IND_V02 = 0x0078"
definition QMI_LOC_READ_FROM_BATCH_REQ_V02 :: int where "QMI_LOC_READ_FROM_BATCH_REQ_V02 = 0x0079"
definition QMI_LOC_READ_FROM_BATCH_RESP_V02 :: int where "QMI_LOC_READ_FROM_BATCH_RESP_V02 = 0x0079"
definition QMI_LOC_READ_FROM_BATCH_IND_V02 :: int where "QMI_LOC_READ_FROM_BATCH_IND_V02 = 0x0079"
definition QMI_LOC_STOP_BATCHING_REQ_V02 :: int where "QMI_LOC_STOP_BATCHING_REQ_V02 = 0x007A"
definition QMI_LOC_STOP_BATCHING_RESP_V02 :: int where "QMI_LOC_STOP_BATCHING_RESP_V02 = 0x007A"
definition QMI_LOC_STOP_BATCHING_IND_V02 :: int where "QMI_LOC_STOP_BATCHING_IND_V02 = 0x007A"
definition QMI_LOC_RELEASE_BATCH_REQ_V02 :: int where "QMI_LOC_RELEASE_BATCH_REQ_V02 = 0x007B"
definition QMI_LOC_RELEASE_BATCH_RESP_V02 :: int where "QMI_LOC_RELEASE_BATCH_RESP_V02 = 0x007B"
definition QMI_LOC_RELEASE_BATCH_IND_V02 :: int where "QMI_LOC_RELEASE_BATCH_IND_V02 = 0x007B"
definition QMI_LOC_EVENT_INJECT_WIFI_AP_DATA_REQ_IND_V02 :: int where "QMI_LOC_EVENT_INJECT_WIFI_AP_DATA_REQ_IND_V02 = 0x007C"
definition QMI_LOC_INJECT_WIFI_AP_DATA_REQ_V02 :: int where "QMI_LOC_INJECT_WIFI_AP_DATA_REQ_V02 = 0x007D"
definition QMI_LOC_INJECT_WIFI_AP_DATA_RESP_V02 :: int where "QMI_LOC_INJECT_WIFI_AP_DATA_RESP_V02 = 0x007D"
definition QMI_LOC_INJECT_WIFI_AP_DATA_IND_V02 :: int where "QMI_LOC_INJECT_WIFI_AP_DATA_IND_V02 = 0x007D"
definition QMI_LOC_NOTIFY_WIFI_ATTACHMENT_STATUS_REQ_V02 :: int where "QMI_LOC_NOTIFY_WIFI_ATTACHMENT_STATUS_REQ_V02 = 0x007E"
definition QMI_LOC_NOTIFY_WIFI_ATTACHMENT_STATUS_RESP_V02 :: int where "QMI_LOC_NOTIFY_WIFI_ATTACHMENT_STATUS_RESP_V02 = 0x007E"
definition QMI_LOC_NOTIFY_WIFI_ATTACHMENT_STATUS_IND_V02 :: int where "QMI_LOC_NOTIFY_WIFI_ATTACHMENT_STATUS_IND_V02 = 0x007E"
definition QMI_LOC_NOTIFY_WIFI_ENABLED_STATUS_REQ_V02 :: int where "QMI_LOC_NOTIFY_WIFI_ENABLED_STATUS_REQ_V02 = 0x007F"
definition QMI_LOC_NOTIFY_WIFI_ENABLED_STATUS_RESP_V02 :: int where "QMI_LOC_NOTIFY_WIFI_ENABLED_STATUS_RESP_V02 = 0x007F"
definition QMI_LOC_NOTIFY_WIFI_ENABLED_STATUS_IND_V02 :: int where "QMI_LOC_NOTIFY_WIFI_ENABLED_STATUS_IND_V02 = 0x007F"
definition QMI_LOC_EVENT_GEOFENCE_BATCHED_BREACH_NOTIFICATION_IND_V02 :: int where "QMI_LOC_EVENT_GEOFENCE_BATCHED_BREACH_NOTIFICATION_IND_V02 = 0x0080"
definition QMI_LOC_EVENT_VEHICLE_DATA_READY_STATUS_IND_V02 :: int where "QMI_LOC_EVENT_VEHICLE_DATA_READY_STATUS_IND_V02 = 0x0081"
definition QMI_LOC_INJECT_VEHICLE_SENSOR_DATA_REQ_V02 :: int where "QMI_LOC_INJECT_VEHICLE_SENSOR_DATA_REQ_V02 = 0x0082"
definition QMI_LOC_INJECT_VEHICLE_SENSOR_DATA_RESP_V02 :: int where "QMI_LOC_INJECT_VEHICLE_SENSOR_DATA_RESP_V02 = 0x0082"
definition QMI_LOC_INJECT_VEHICLE_SENSOR_DATA_IND_V02 :: int where "QMI_LOC_INJECT_VEHICLE_SENSOR_DATA_IND_V02 = 0x0082"
definition QMI_LOC_GET_AVAILABLE_WWAN_POSITION_REQ_V02 :: int where "QMI_LOC_GET_AVAILABLE_WWAN_POSITION_REQ_V02 = 0x0083"
definition QMI_LOC_GET_AVAILABLE_WWAN_POSITION_RESP_V02 :: int where "QMI_LOC_GET_AVAILABLE_WWAN_POSITION_RESP_V02 = 0x0083"
definition QMI_LOC_GET_AVAILABLE_WWAN_POSITION_IND_V02 :: int where "QMI_LOC_GET_AVAILABLE_WWAN_POSITION_IND_V02 = 0x0083"
definition QMI_LOC_SET_PREMIUM_SERVICES_CONFIG_REQ_V02 :: int where "QMI_LOC_SET_PREMIUM_SERVICES_CONFIG_REQ_V02 = 0x0084"
definition QMI_LOC_SET_PREMIUM_SERVICES_CONFIG_RESP_V02 :: int where "QMI_LOC_SET_PREMIUM_SERVICES_CONFIG_RESP_V02 = 0x0084"
definition QMI_LOC_SET_PREMIUM_SERVICES_CONFIG_IND_V02 :: int where "QMI_LOC_SET_PREMIUM_SERVICES_CONFIG_IND_V02 = 0x0084"
definition QMI_LOC_SET_XTRA_VERSION_CHECK_REQ_V02 :: int where "QMI_LOC_SET_XTRA_VERSION_CHECK_REQ_V02 = 0x0085"
definition QMI_LOC_SET_XTRA_VERSION_CHECK_RESP_V02 :: int where "QMI_LOC_SET_XTRA_VERSION_CHECK_RESP_V02 = 0x0085"
definition QMI_LOC_SET_XTRA_VERSION_CHECK_IND_V02 :: int where "QMI_LOC_SET_XTRA_VERSION_CHECK_IND_V02 = 0x0085"
definition QMI_LOC_EVENT_GNSS_MEASUREMENT_REPORT_IND_V02 :: int where "QMI_LOC_EVENT_GNSS_MEASUREMENT_REPORT_IND_V02 = 0x0086"
definition QMI_LOC_EVENT_SV_POLYNOMIAL_REPORT_IND_V02 :: int where "QMI_LOC_EVENT_SV_POLYNOMIAL_REPORT_IND_V02 = 0x0087"
definition QMI_LOC_SET_GNSS_CONSTELL_REPORT_CONFIG_RESP_V02 :: int where "QMI_LOC_SET_GNSS_CONSTELL_REPORT_CONFIG_RESP_V02 = 0x0088"
definition QMI_LOC_SET_GNSS_CONSTELL_REPORT_CONFIG_IND_V02 :: int where "QMI_LOC_SET_GNSS_CONSTELL_REPORT_CONFIG_IND_V02 = 0x0088"
definition QMI_LOC_ADD_GEOFENCE_CONTEXT_REQ_V02 :: int where "QMI_LOC_ADD_GEOFENCE_CONTEXT_REQ_V02 = 0x0089"
definition QMI_LOC_ADD_GEOFENCE_CONTEXT_RESP_V02 :: int where "QMI_LOC_ADD_GEOFENCE_CONTEXT_RESP_V02 = 0x0089"
definition QMI_LOC_ADD_GEOFENCE_CONTEXT_IND_V02 :: int where "QMI_LOC_ADD_GEOFENCE_CONTEXT_IND_V02 = 0x0089"
definition QMI_LOC_SET_GEOFENCE_ENGINE_CONTEXT_REQ_V02 :: int where "QMI_LOC_SET_GEOFENCE_ENGINE_CONTEXT_REQ_V02 = 0x008A"
definition QMI_LOC_SET_GEOFENCE_ENGINE_CONTEXT_RESP_V02 :: int where "QMI_LOC_SET_GEOFENCE_ENGINE_CONTEXT_RESP_V02 = 0x008A"
definition QMI_LOC_SET_GEOFENCE_ENGINE_CONTEXT_IND_V02 :: int where "QMI_LOC_SET_GEOFENCE_ENGINE_CONTEXT_IND_V02 = 0x008A"
definition QMI_LOC_DELETE_GEOFENCE_CONTEXT_REQ_V02 :: int where "QMI_LOC_DELETE_GEOFENCE_CONTEXT_REQ_V02 = 0x008B"
definition QMI_LOC_DELETE_GEOFENCE_CONTEXT_RESP_V02 :: int where "QMI_LOC_DELETE_GEOFENCE_CONTEXT_RESP_V02 = 0x008B"
definition QMI_LOC_DELETE_GEOFENCE_CONTEXT_IND_V02 :: int where "QMI_LOC_DELETE_GEOFENCE_CONTEXT_IND_V02 = 0x008B"
definition QMI_LOC_EVENT_GEOFENCE_PROXIMITY_NOTIFICATION_IND_V02 :: int where "QMI_LOC_EVENT_GEOFENCE_PROXIMITY_NOTIFICATION_IND_V02 = 0x008C"
definition QMI_LOC_INJECT_GTP_CLIENT_DOWNLOADED_DATA_REQ_V02 :: int where "QMI_LOC_INJECT_GTP_CLIENT_DOWNLOADED_DATA_REQ_V02 = 0x008D"
definition QMI_LOC_INJECT_GTP_CLIENT_DOWNLOADED_DATA_RESP_V02 :: int where "QMI_LOC_INJECT_GTP_CLIENT_DOWNLOADED_DATA_RESP_V02 = 0x008D"
definition QMI_LOC_INJECT_GTP_CLIENT_DOWNLOADED_DATA_IND_V02 :: int where "QMI_LOC_INJECT_GTP_CLIENT_DOWNLOADED_DATA_IND_V02 = 0x008D"
definition QMI_LOC_GDT_UPLOAD_BEGIN_STATUS_REQ_V02 :: int where "QMI_LOC_GDT_UPLOAD_BEGIN_STATUS_REQ_V02 = 0x008E"
definition QMI_LOC_GDT_UPLOAD_BEGIN_STATUS_RESP_V02 :: int where "QMI_LOC_GDT_UPLOAD_BEGIN_STATUS_RESP_V02 = 0x008E"
definition QMI_LOC_GDT_UPLOAD_BEGIN_STATUS_IND_V02 :: int where "QMI_LOC_GDT_UPLOAD_BEGIN_STATUS_IND_V02 = 0x008E"
definition QMI_LOC_GDT_UPLOAD_END_REQ_V02 :: int where "QMI_LOC_GDT_UPLOAD_END_REQ_V02 = 0x008F"
definition QMI_LOC_GDT_UPLOAD_END_RESP_V02 :: int where "QMI_LOC_GDT_UPLOAD_END_RESP_V02 = 0x008F"
definition QMI_LOC_GDT_UPLOAD_END_IND_V02 :: int where "QMI_LOC_GDT_UPLOAD_END_IND_V02 = 0x008F"
definition QMI_LOC_EVENT_GDT_UPLOAD_BEGIN_STATUS_REQ_IND_V02 :: int where "QMI_LOC_EVENT_GDT_UPLOAD_BEGIN_STATUS_REQ_IND_V02 = 0x0090"
definition QMI_LOC_EVENT_GDT_UPLOAD_END_REQ_IND_V02 :: int where "QMI_LOC_EVENT_GDT_UPLOAD_END_REQ_IND_V02 = 0x0091"
definition QMI_LOC_START_DBT_REQ_V02 :: int where "QMI_LOC_START_DBT_REQ_V02 = 0x0092"
definition QMI_LOC_START_DBT_RESP_V02 :: int where "QMI_LOC_START_DBT_RESP_V02 = 0x0092"
definition QMI_LOC_START_DBT_IND_V02 :: int where "QMI_LOC_START_DBT_IND_V02 = 0x0092"
definition QMI_LOC_EVENT_DBT_POSITION_REPORT_IND_V02 :: int where "QMI_LOC_EVENT_DBT_POSITION_REPORT_IND_V02 = 0x0093"
definition QMI_LOC_EVENT_DBT_SESSION_STATUS_IND_V02 :: int where "QMI_LOC_EVENT_DBT_SESSION_STATUS_IND_V02 = 0x0094"
definition QMI_LOC_STOP_DBT_REQ_V02 :: int where "QMI_LOC_STOP_DBT_REQ_V02 = 0x0095"
definition QMI_LOC_STOP_DBT_RESP_V02 :: int where "QMI_LOC_STOP_DBT_RESP_V02 = 0x0095"
definition QMI_LOC_STOP_DBT_IND_V02 :: int where "QMI_LOC_STOP_DBT_IND_V02 = 0x0095"
definition QMI_LOC_SECURE_GET_AVAILABLE_POSITION_REQ_V02 :: int where "QMI_LOC_SECURE_GET_AVAILABLE_POSITION_REQ_V02 = 0x0096"
definition QMI_LOC_SECURE_GET_AVAILABLE_POSITION_RESP_V02 :: int where "QMI_LOC_SECURE_GET_AVAILABLE_POSITION_RESP_V02 = 0x0096"
definition QMI_LOC_SECURE_GET_AVAILABLE_POSITION_IND_V02 :: int where "QMI_LOC_SECURE_GET_AVAILABLE_POSITION_IND_V02 = 0x0096"
definition QMI_LOC_EVENT_GEOFENCE_BATCHED_DWELL_NOTIFICATION_IND_V02 :: int where "QMI_LOC_EVENT_GEOFENCE_BATCHED_DWELL_NOTIFICATION_IND_V02 = 0x0097"
definition QMI_LOC_EVENT_GET_TIME_ZONE_INFO_IND_V02 :: int where "QMI_LOC_EVENT_GET_TIME_ZONE_INFO_IND_V02 = 0x0098"
definition QMI_LOC_INJECT_TIME_ZONE_INFO_REQ_V02 :: int where "QMI_LOC_INJECT_TIME_ZONE_INFO_REQ_V02 = 0x0099"
definition QMI_LOC_INJECT_TIME_ZONE_INFO_RESP_V02 :: int where "QMI_LOC_INJECT_TIME_ZONE_INFO_RESP_V02 = 0x0099"
definition QMI_LOC_INJECT_TIME_ZONE_INFO_IND_V02 :: int where "QMI_LOC_INJECT_TIME_ZONE_INFO_IND_V02 = 0x0099"
definition QMI_LOC_INJECT_APCACHE_DATA_REQ_V02 :: int where "QMI_LOC_INJECT_APCACHE_DATA_REQ_V02 = 0x009A"
definition QMI_LOC_INJECT_APCACHE_DATA_RESP_V02 :: int where "QMI_LOC_INJECT_APCACHE_DATA_RESP_V02 = 0x009A"
definition QMI_LOC_INJECT_APCACHE_DATA_IND_V02 :: int where "QMI_LOC_INJECT_APCACHE_DATA_IND_V02 = 0x009A"
definition QMI_LOC_INJECT_APDONOTCACHE_DATA_REQ_V02 :: int where "QMI_LOC_INJECT_APDONOTCACHE_DATA_REQ_V02 = 0x009B"
definition QMI_LOC_INJECT_APDONOTCACHE_DATA_RESP_V02 :: int where "QMI_LOC_INJECT_APDONOTCACHE_DATA_RESP_V02 = 0x009B"
definition QMI_LOC_INJECT_APDONOTCACHE_DATA_IND_V02 :: int where "QMI_LOC_INJECT_APDONOTCACHE_DATA_IND_V02 = 0x009B"
definition QMI_LOC_EVENT_BATCHING_STATUS_IND_V02 :: int where "QMI_LOC_EVENT_BATCHING_STATUS_IND_V02 = 0x009C"
definition QMI_LOC_QUERY_AON_CONFIG_REQ_V02 :: int where "QMI_LOC_QUERY_AON_CONFIG_REQ_V02 = 0x009D"
definition QMI_LOC_QUERY_AON_CONFIG_RESP_V02 :: int where "QMI_LOC_QUERY_AON_CONFIG_RESP_V02 = 0x009D"
definition QMI_LOC_QUERY_AON_CONFIG_IND_V02 :: int where "QMI_LOC_QUERY_AON_CONFIG_IND_V02 = 0x009D"
definition QMI_LOC_GTP_AP_STATUS_REQ_V02 :: int where "QMI_LOC_GTP_AP_STATUS_REQ_V02 = 0x009E"
definition QMI_LOC_GTP_AP_STATUS_RESP_V02 :: int where "QMI_LOC_GTP_AP_STATUS_RESP_V02 = 0x009E"
definition QMI_LOC_GTP_AP_STATUS_IND_V02 :: int where "QMI_LOC_GTP_AP_STATUS_IND_V02 = 0x009E"
definition QMI_LOC_GDT_DOWNLOAD_BEGIN_STATUS_REQ_V02 :: int where "QMI_LOC_GDT_DOWNLOAD_BEGIN_STATUS_REQ_V02 = 0x009F"
definition QMI_LOC_GDT_DOWNLOAD_BEGIN_STATUS_RESP_V02 :: int where "QMI_LOC_GDT_DOWNLOAD_BEGIN_STATUS_RESP_V02 = 0x009F"
definition QMI_LOC_GDT_DOWNLOAD_BEGIN_STATUS_IND_V02 :: int where "QMI_LOC_GDT_DOWNLOAD_BEGIN_STATUS_IND_V02 = 0x009F"
definition QMI_LOC_GDT_DOWNLOAD_READY_STATUS_REQ_V02 :: int where "QMI_LOC_GDT_DOWNLOAD_READY_STATUS_REQ_V02 = 0x00A0"
definition QMI_LOC_GDT_DOWNLOAD_READY_STATUS_RESP_V02 :: int where "QMI_LOC_GDT_DOWNLOAD_READY_STATUS_RESP_V02 = 0x00A0"
definition QMI_LOC_GDT_DOWNLOAD_READY_STATUS_IND_V02 :: int where "QMI_LOC_GDT_DOWNLOAD_READY_STATUS_IND_V02 = 0x00A0"
definition QMI_LOC_GDT_RECEIVE_DONE_STATUS_REQ_V02 :: int where "QMI_LOC_GDT_RECEIVE_DONE_STATUS_REQ_V02 = 0x00A1"
definition QMI_LOC_GDT_RECEIVE_DONE_STATUS_RESP_V02 :: int where "QMI_LOC_GDT_RECEIVE_DONE_STATUS_RESP_V02 = 0x00A1"
definition QMI_LOC_GDT_RECEIVE_DONE_STATUS_IND_V02 :: int where "QMI_LOC_GDT_RECEIVE_DONE_STATUS_IND_V02 = 0x00A1"
definition QMI_LOC_GDT_DOWNLOAD_END_STATUS_REQ_V02 :: int where "QMI_LOC_GDT_DOWNLOAD_END_STATUS_REQ_V02 = 0x00A2"
definition QMI_LOC_GDT_DOWNLOAD_END_STATUS_RESP_V02 :: int where "QMI_LOC_GDT_DOWNLOAD_END_STATUS_RESP_V02 = 0x00A2"
definition QMI_LOC_GDT_DOWNLOAD_END_STATUS_IND_V02 :: int where "QMI_LOC_GDT_DOWNLOAD_END_STATUS_IND_V02 = 0x00A2"
definition QMI_LOC_EVENT_GDT_DOWNLOAD_BEGIN_REQ_IND_V02 :: int where "QMI_LOC_EVENT_GDT_DOWNLOAD_BEGIN_REQ_IND_V02 = 0x00A3"
definition QMI_LOC_EVENT_GDT_RECEIVE_DONE_IND_V02 :: int where "QMI_LOC_EVENT_GDT_RECEIVE_DONE_IND_V02 = 0x00A4"
definition QMI_LOC_EVENT_GDT_DOWNLOAD_END_REQ_IND_V02 :: int where "QMI_LOC_EVENT_GDT_DOWNLOAD_END_REQ_IND_V02 = 0x00A5"
definition QMI_LOC_DELETE_GNSS_SERVICE_DATA_REQ_V02 :: int where "QMI_LOC_DELETE_GNSS_SERVICE_DATA_REQ_V02 = 0x00A6"
definition QMI_LOC_DELETE_GNSS_SERVICE_DATA_RESP_V02 :: int where "QMI_LOC_DELETE_GNSS_SERVICE_DATA_RESP_V02 = 0x00A6"
definition QMI_LOC_DELETE_GNSS_SERVICE_DATA_IND_V02 :: int where "QMI_LOC_DELETE_GNSS_SERVICE_DATA_IND_V02 = 0x00A6"
definition QMI_LOC_INJECT_XTRA_DATA_REQ_V02 :: int where "QMI_LOC_INJECT_XTRA_DATA_REQ_V02 = 0x00A7"
definition QMI_LOC_INJECT_XTRA_DATA_RESP_V02 :: int where "QMI_LOC_INJECT_XTRA_DATA_RESP_V02 = 0x00A7"
definition QMI_LOC_INJECT_XTRA_DATA_IND_V02 :: int where "QMI_LOC_INJECT_XTRA_DATA_IND_V02 = 0x00A7"
definition QMI_LOC_INJECT_XTRA_PCID_REQ_V02 :: int where "QMI_LOC_INJECT_XTRA_PCID_REQ_V02 = 0x00A8"
definition QMI_LOC_INJECT_XTRA_PCID_RESP_V02 :: int where "QMI_LOC_INJECT_XTRA_PCID_RESP_V02 = 0x00A8"
definition QMI_LOC_INJECT_XTRA_PCID_IND_V02 :: int where "QMI_LOC_INJECT_XTRA_PCID_IND_V02 = 0x00A8"
definition QMI_LOC_GET_SUPPORTED_FEATURE_REQ_V02 :: int where "QMI_LOC_GET_SUPPORTED_FEATURE_REQ_V02 = 0x00A9"
definition QMI_LOC_GET_SUPPORTED_FEATURE_RESP_V02 :: int where "QMI_LOC_GET_SUPPORTED_FEATURE_RESP_V02 = 0x00A9"
definition QMI_LOC_GET_SUPPORTED_FEATURE_IND_V02 :: int where "QMI_LOC_GET_SUPPORTED_FEATURE_IND_V02 = 0x00A9"
definition QMI_LOC_SET_INTERNAL_STATUS_CONFIG_REQ_V02 :: int where "QMI_LOC_SET_INTERNAL_STATUS_CONFIG_REQ_V02 = 0x00AA"
definition QMI_LOC_SET_INTERNAL_STATUS_CONFIG_RESP_V02 :: int where "QMI_LOC_SET_INTERNAL_STATUS_CONFIG_RESP_V02 = 0x00AA"
definition QMI_LOC_SET_INTERNAL_STATUS_CONFIG_IND_V02 :: int where "QMI_LOC_SET_INTERNAL_STATUS_CONFIG_IND_V02 = 0x00AA"
definition QMI_LOC_EVENT_INTERNAL_STATUS_REPORT_IND_V02 :: int where "QMI_LOC_EVENT_INTERNAL_STATUS_REPORT_IND_V02 = 0x00AB"
definition QMI_LOC_EVENT_INJECT_SRN_AP_DATA_REQ_IND_V02 :: int where "QMI_LOC_EVENT_INJECT_SRN_AP_DATA_REQ_IND_V02 = 0x00AC"
definition QMI_LOC_INJECT_SRN_AP_DATA_REQ_V02 :: int where "QMI_LOC_INJECT_SRN_AP_DATA_REQ_V02 = 0x00AD"
definition QMI_LOC_INJECT_SRN_AP_DATA_RESP_V02 :: int where "QMI_LOC_INJECT_SRN_AP_DATA_RESP_V02 = 0x00AD"
definition QMI_LOC_INJECT_SRN_AP_DATA_IND_V02 :: int where "QMI_LOC_INJECT_SRN_AP_DATA_IND_V02 = 0x00AD"
definition QMI_LOC_CROWDSOURCE_MANAGER_CONTROL_REQ_V02 :: int where "QMI_LOC_CROWDSOURCE_MANAGER_CONTROL_REQ_V02 = 0x00AE"
definition QMI_LOC_CROWDSOURCE_MANAGER_CONTROL_RESP_V02 :: int where "QMI_LOC_CROWDSOURCE_MANAGER_CONTROL_RESP_V02 = 0x00AE"
definition QMI_LOC_CROWDSOURCE_MANAGER_CONTROL_IND_V02 :: int where "QMI_LOC_CROWDSOURCE_MANAGER_CONTROL_IND_V02 = 0x00AE"
definition QMI_LOC_CROWDSOURCE_MANAGER_READ_DATA_REQ_V02 :: int where "QMI_LOC_CROWDSOURCE_MANAGER_READ_DATA_REQ_V02 = 0x00AF"
definition QMI_LOC_CROWDSOURCE_MANAGER_READ_DATA_RESP_V02 :: int where "QMI_LOC_CROWDSOURCE_MANAGER_READ_DATA_RESP_V02 = 0x00AF"
definition QMI_LOC_QUERY_XTRA_INFO_REQ_V02 :: int where "QMI_LOC_QUERY_XTRA_INFO_REQ_V02 = 0x00B0"
definition QMI_LOC_QUERY_XTRA_INFO_RESP_V02 :: int where "QMI_LOC_QUERY_XTRA_INFO_RESP_V02 = 0x00B0"
definition QMI_LOC_QUERY_XTRA_INFO_IND_V02 :: int where "QMI_LOC_QUERY_XTRA_INFO_IND_V02 = 0x00B0"
definition QMI_LOC_START_OUTDOOR_TRIP_BATCHING_REQ_V02 :: int where "QMI_LOC_START_OUTDOOR_TRIP_BATCHING_REQ_V02 = 0x00B1"
definition QMI_LOC_START_OUTDOOR_TRIP_BATCHING_RESP_V02 :: int where "QMI_LOC_START_OUTDOOR_TRIP_BATCHING_RESP_V02 = 0x00B1"
definition QMI_LOC_START_OUTDOOR_TRIP_BATCHING_IND_V02 :: int where "QMI_LOC_START_OUTDOOR_TRIP_BATCHING_IND_V02 = 0x00B1"
definition QMI_LOC_QUERY_OTB_ACCUMULATED_DISTANCE_REQ_V02 :: int where "QMI_LOC_QUERY_OTB_ACCUMULATED_DISTANCE_REQ_V02 = 0x00B2"
definition QMI_LOC_QUERY_OTB_ACCUMULATED_DISTANCE_RESP_V02 :: int where "QMI_LOC_QUERY_OTB_ACCUMULATED_DISTANCE_RESP_V02 = 0x00B2"
definition QMI_LOC_QUERY_OTB_ACCUMULATED_DISTANCE_IND_V02 :: int where "QMI_LOC_QUERY_OTB_ACCUMULATED_DISTANCE_IND_V02 = 0x00B2"
definition QMI_LOC_EVENT_FDCL_SERVICE_REQ_IND_V02 :: int where "QMI_LOC_EVENT_FDCL_SERVICE_REQ_IND_V02 = 0x00B3"
definition QMI_LOC_GET_FDCL_BS_LIST_REQ_V02 :: int where "QMI_LOC_GET_FDCL_BS_LIST_REQ_V02 = 0x00B4"
definition QMI_LOC_GET_FDCL_BS_LIST_RESP_V02 :: int where "QMI_LOC_GET_FDCL_BS_LIST_RESP_V02 = 0x00B4"
definition QMI_LOC_GET_FDCL_BS_LIST_IND_V02 :: int where "QMI_LOC_GET_FDCL_BS_LIST_IND_V02 = 0x00B4"
definition QMI_LOC_INJECT_FDCL_DATA_REQ_V02 :: int where "QMI_LOC_INJECT_FDCL_DATA_REQ_V02 = 0x00B5"
definition QMI_LOC_INJECT_FDCL_DATA_RESP_V02 :: int where "QMI_LOC_INJECT_FDCL_DATA_RESP_V02 = 0x00B5"
definition QMI_LOC_INJECT_FDCL_DATA_IND_V02 :: int where "QMI_LOC_INJECT_FDCL_DATA_IND_V02 = 0x00B5"
definition QMI_LOC_SET_BLACKLIST_SV_REQ_V02 :: int where "QMI_LOC_SET_BLACKLIST_SV_REQ_V02 = 0x00B6"
definition QMI_LOC_SET_BLACKLIST_SV_RESP_V02 :: int where "QMI_LOC_SET_BLACKLIST_SV_RESP_V02 = 0x00B6"
definition QMI_LOC_SET_BLACKLIST_SV_IND_V02 :: int where "QMI_LOC_SET_BLACKLIST_SV_IND_V02 = 0x00B6"
definition QMI_LOC_GET_BLACKLIST_SV_REQ_V02 :: int where "QMI_LOC_GET_BLACKLIST_SV_REQ_V02 = 0x00B7"
definition QMI_LOC_GET_BLACKLIST_SV_RESP_V02 :: int where "QMI_LOC_GET_BLACKLIST_SV_RESP_V02 = 0x00B7"
definition QMI_LOC_GET_BLACKLIST_SV_IND_V02 :: int where "QMI_LOC_GET_BLACKLIST_SV_IND_V02 = 0x00B7"
definition QMI_LOC_SET_CONSTELLATION_CONTROL_REQ_V02 :: int where "QMI_LOC_SET_CONSTELLATION_CONTROL_REQ_V02 = 0x00B8"
definition QMI_LOC_SET_CONSTELLATION_CONTROL_RESP_V02 :: int where "QMI_LOC_SET_CONSTELLATION_CONTROL_RESP_V02 = 0x00B8"
definition QMI_LOC_SET_CONSTELLATION_CONTROL_IND_V02 :: int where "QMI_LOC_SET_CONSTELLATION_CONTROL_IND_V02 = 0x00B8"
definition QMI_LOC_DC_REPORT_IND_V02 :: int where "QMI_LOC_DC_REPORT_IND_V02 = 0x00B9"
definition QMI_LOC_REGISTER_MASTER_CLIENT_REQ_V02 :: int where "QMI_LOC_REGISTER_MASTER_CLIENT_REQ_V02 = 0x00BA"
definition QMI_LOC_REGISTER_MASTER_CLIENT_RESP_V02 :: int where "QMI_LOC_REGISTER_MASTER_CLIENT_RESP_V02 = 0x00BA"
definition QMI_LOC_REGISTER_MASTER_CLIENT_IND_V02 :: int where "QMI_LOC_REGISTER_MASTER_CLIENT_IND_V02 = 0x00BA"
definition QMI_LOC_EVENT_ENGINE_LOCK_STATE_IND_V02 :: int where "QMI_LOC_EVENT_ENGINE_LOCK_STATE_IND_V02 = 0x00BB"
definition QMI_LOC_START_LISTEN_POSITION_REQ_V02 :: int where "QMI_LOC_START_LISTEN_POSITION_REQ_V02 = 0x00BC"
definition QMI_LOC_START_LISTEN_POSITION_RESP_V02 :: int where "QMI_LOC_START_LISTEN_POSITION_RESP_V02 = 0x00BC"
definition QMI_LOC_STOP_LISTEN_POSITION_REQ_V02 :: int where "QMI_LOC_STOP_LISTEN_POSITION_REQ_V02 = 0x00BD"
definition QMI_LOC_STOP_LISTEN_POSITION_RESP_V02 :: int where "QMI_LOC_STOP_LISTEN_POSITION_RESP_V02 = 0x00BD"
definition QMI_LOC_SYSTEM_INFO_REQ_V02 :: int where "QMI_LOC_SYSTEM_INFO_REQ_V02 = 0x00BE"
definition QMI_LOC_SYSTEM_INFO_RESP_V02 :: int where "QMI_LOC_SYSTEM_INFO_RESP_V02 = 0x00BE"
definition QMI_LOC_SYSTEM_INFO_IND_V02 :: int where "QMI_LOC_SYSTEM_INFO_IND_V02 = 0x00BE"
definition QMI_LOC_GET_CONSTELLATION_CONTROL_REQ_V02 :: int where "QMI_LOC_GET_CONSTELLATION_CONTROL_REQ_V02 = 0x00BF"
definition QMI_LOC_GET_CONSTELLATION_CONTROL_RESP_V02 :: int where "QMI_LOC_GET_CONSTELLATION_CONTROL_RESP_V02 = 0x00BF"
definition QMI_LOC_GET_CONSTELLATION_CONTROL_IND_V02 :: int where "QMI_LOC_GET_CONSTELLATION_CONTROL_IND_V02 = 0x00BF"
definition QMI_LOC_EVENT_UNPROPAGATED_POSITION_REPORT_IND_V02 :: int where "QMI_LOC_EVENT_UNPROPAGATED_POSITION_REPORT_IND_V02 = 0x00C0"
definition QMI_LOC_ENABLE_POSITION_INJECTION_TEST_MODE_REQ_V02 :: int where "QMI_LOC_ENABLE_POSITION_INJECTION_TEST_MODE_REQ_V02 = 0x00C1"
definition QMI_LOC_ENABLE_POSITION_INJECTION_TEST_MODE_RESP_V02 :: int where "QMI_LOC_ENABLE_POSITION_INJECTION_TEST_MODE_RESP_V02 = 0x00C1"
definition QMI_LOC_ENABLE_POSITION_INJECTION_TEST_MODE_IND_V02 :: int where "QMI_LOC_ENABLE_POSITION_INJECTION_TEST_MODE_IND_V02 = 0x00C1"
definition QMI_LOC_INJECT_TEST_POSITION_REQ_V02 :: int where "QMI_LOC_INJECT_TEST_POSITION_REQ_V02 = 0x00C2"
definition QMI_LOC_INJECT_TEST_POSITION_RESP_V02 :: int where "QMI_LOC_INJECT_TEST_POSITION_RESP_V02 = 0x00C2"
definition QMI_LOC_INJECT_TEST_POSITION_IND_V02 :: int where "QMI_LOC_INJECT_TEST_POSITION_IND_V02 = 0x00C2"
definition QMI_LOC_EVENT_BS_OBS_DATA_SERVICE_REQ_IND_V02 :: int where "QMI_LOC_EVENT_BS_OBS_DATA_SERVICE_REQ_IND_V02 = 0x00C3"
definition QMI_LOC_GET_BS_OBS_DATA_REQ_V02 :: int where "QMI_LOC_GET_BS_OBS_DATA_REQ_V02 = 0x00C4"
definition QMI_LOC_GET_BS_OBS_DATA_RESP_V02 :: int where "QMI_LOC_GET_BS_OBS_DATA_RESP_V02 = 0x00C4"
definition QMI_LOC_GET_BS_OBS_DATA_IND_V02 :: int where "QMI_LOC_GET_BS_OBS_DATA_IND_V02 = 0x00C4"
definition QMI_LOC_EVENT_GPS_EPHEMERIS_REPORT_IND_V02 :: int where "QMI_LOC_EVENT_GPS_EPHEMERIS_REPORT_IND_V02 = 0x00C5"
definition QMI_LOC_EVENT_GLONASS_EPHEMERIS_REPORT_IND_V02 :: int where "QMI_LOC_EVENT_GLONASS_EPHEMERIS_REPORT_IND_V02 = 0x00C6"
definition QMI_LOC_EVENT_BDS_EPHEMERIS_REPORT_IND_V02 :: int where "QMI_LOC_EVENT_BDS_EPHEMERIS_REPORT_IND_V02 = 0x00C7"
definition QMI_LOC_EVENT_GALILEO_EPHEMERIS_REPORT_IND_V02 :: int where "QMI_LOC_EVENT_GALILEO_EPHEMERIS_REPORT_IND_V02 = 0x00C8"
definition QMI_LOC_EVENT_QZSS_EPHEMERIS_REPORT_IND_V02 :: int where "QMI_LOC_EVENT_QZSS_EPHEMERIS_REPORT_IND_V02 = 0x00C9"
definition QMI_LOC_SET_CONSTRAINED_TUNC_MODE_REQ_V02 :: int where "QMI_LOC_SET_CONSTRAINED_TUNC_MODE_REQ_V02 = 0x00CA"
definition QMI_LOC_SET_CONSTRAINED_TUNC_MODE_RESP_V02 :: int where "QMI_LOC_SET_CONSTRAINED_TUNC_MODE_RESP_V02 = 0x00CA"
definition QMI_LOC_SET_CONSTRAINED_TUNC_MODE_IND_V02 :: int where "QMI_LOC_SET_CONSTRAINED_TUNC_MODE_IND_V02 = 0x00CA"
definition QMI_LOC_ENABLE_POSITION_ASSISTED_CLOCK_EST_REQ_V02 :: int where "QMI_LOC_ENABLE_POSITION_ASSISTED_CLOCK_EST_REQ_V02 = 0x00CB"
definition QMI_LOC_ENABLE_POSITION_ASSISTED_CLOCK_EST_RESP_V02 :: int where "QMI_LOC_ENABLE_POSITION_ASSISTED_CLOCK_EST_RESP_V02 = 0x00CB"
definition QMI_LOC_ENABLE_POSITION_ASSISTED_CLOCK_EST_IND_V02 :: int where "QMI_LOC_ENABLE_POSITION_ASSISTED_CLOCK_EST_IND_V02 = 0x00CB"
definition QMI_LOC_QUERY_GNSS_ENERGY_CONSUMED_REQ_V02 :: int where "QMI_LOC_QUERY_GNSS_ENERGY_CONSUMED_REQ_V02 = 0x00CC"
definition QMI_LOC_QUERY_GNSS_ENERGY_CONSUMED_RESP_V02 :: int where "QMI_LOC_QUERY_GNSS_ENERGY_CONSUMED_RESP_V02 = 0x00CC"
definition QMI_LOC_QUERY_GNSS_ENERGY_CONSUMED_IND_V02 :: int where "QMI_LOC_QUERY_GNSS_ENERGY_CONSUMED_IND_V02 = 0x00CC"
definition QMI_LOC_EVENT_REPORT_IND_V02 :: int where "QMI_LOC_EVENT_REPORT_IND_V02 = 0x00CD"
definition QMI_LOC_GET_BAND_MEASUREMENT_METRICS_IND_V02 :: int where "QMI_LOC_GET_BAND_MEASUREMENT_METRICS_IND_V02 = 0x00CE"
definition QMI_LOC_LOCATION_REQUEST_NOTIFICATION_IND_V02 :: int where "QMI_LOC_LOCATION_REQUEST_NOTIFICATION_IND_V02 = 0x00CF"
definition QMI_LOC_INJECT_PLATFORM_POWER_STATE_REQ_V02 :: int where "QMI_LOC_INJECT_PLATFORM_POWER_STATE_REQ_V02 = 0x00D0"
definition QMI_LOC_INJECT_PLATFORM_POWER_STATE_RESP_V02 :: int where "QMI_LOC_INJECT_PLATFORM_POWER_STATE_RESP_V02 = 0x00D0"
definition QMI_LOC_INJECT_PLATFORM_POWER_STATE_IND_V02 :: int where "QMI_LOC_INJECT_PLATFORM_POWER_STATE_IND_V02 = 0x00D0"
definition QMI_LOC_SET_ROBUST_LOCATION_CONFIG_REQ_V02 :: int where "QMI_LOC_SET_ROBUST_LOCATION_CONFIG_REQ_V02 = 0x00D1"
definition QMI_LOC_SET_ROBUST_LOCATION_CONFIG_RESP_V02 :: int where "QMI_LOC_SET_ROBUST_LOCATION_CONFIG_RESP_V02 = 0x00D1"
definition QMI_LOC_SET_ROBUST_LOCATION_CONFIG_IND_V02 :: int where "QMI_LOC_SET_ROBUST_LOCATION_CONFIG_IND_V02 = 0x00D1"
definition QMI_LOC_GET_ROBUST_LOCATION_CONFIG_REQ_V02 :: int where "QMI_LOC_GET_ROBUST_LOCATION_CONFIG_REQ_V02 = 0x00D2"
definition QMI_LOC_GET_ROBUST_LOCATION_CONFIG_RESP_V02 :: int where "QMI_LOC_GET_ROBUST_LOCATION_CONFIG_RESP_V02 = 0x00D2"
definition QMI_LOC_GET_ROBUST_LOCATION_CONFIG_IND_V02 :: int where "QMI_LOC_GET_ROBUST_LOCATION_CONFIG_IND_V02 = 0x00D2"
definition QMI_LOC_INJECT_ENV_AIDING_REQ_V02 :: int where "QMI_LOC_INJECT_ENV_AIDING_REQ_V02 = 0x00D3"
definition QMI_LOC_INJECT_ENV_AIDING_RESP_V02 :: int where "QMI_LOC_INJECT_ENV_AIDING_RESP_V02 = 0x00D3"
definition QMI_LOC_INJECT_ENV_AIDING_IND_V02 :: int where "QMI_LOC_INJECT_ENV_AIDING_IND_V02 = 0x00D3"
definition QMI_LOC_SET_MIN_GPS_WEEK_NUMBER_REQ_V02 :: int where "QMI_LOC_SET_MIN_GPS_WEEK_NUMBER_REQ_V02 = 0x00D4"
definition QMI_LOC_SET_MIN_GPS_WEEK_NUMBER_RESP_V02 :: int where "QMI_LOC_SET_MIN_GPS_WEEK_NUMBER_RESP_V02 = 0x00D4"
definition QMI_LOC_SET_MIN_GPS_WEEK_NUMBER_IND_V02 :: int where "QMI_LOC_SET_MIN_GPS_WEEK_NUMBER_IND_V02 = 0x00D4"
definition QMI_LOC_GET_MIN_GPS_WEEK_NUMBER_REQ_V02 :: int where "QMI_LOC_GET_MIN_GPS_WEEK_NUMBER_REQ_V02 = 0x00D5"
definition QMI_LOC_GET_MIN_GPS_WEEK_NUMBER_RESP_V02 :: int where "QMI_LOC_GET_MIN_GPS_WEEK_NUMBER_RESP_V02 = 0x00D5"
definition QMI_LOC_GET_MIN_GPS_WEEK_NUMBER_IND_V02 :: int where "QMI_LOC_GET_MIN_GPS_WEEK_NUMBER_IND_V02 = 0x00D5"
definition QMI_LOC_EVENT_QUERY_XTRA_INFO_REQ_IND_V02 :: int where "QMI_LOC_EVENT_QUERY_XTRA_INFO_REQ_IND_V02 = 0x00D6"
definition QMI_LOC_SET_PARAMETER_REQ_V02 :: int where "QMI_LOC_SET_PARAMETER_REQ_V02 = 0x00D7"
definition QMI_LOC_SET_PARAMETER_RESP_V02 :: int where "QMI_LOC_SET_PARAMETER_RESP_V02 = 0x00D7"
definition QMI_LOC_SET_PARAMETER_IND_V02 :: int where "QMI_LOC_SET_PARAMETER_IND_V02 = 0x00D7"
definition QMI_LOC_GET_PARAMETER_REQ_V02 :: int where "QMI_LOC_GET_PARAMETER_REQ_V02 = 0x00D8"
definition QMI_LOC_GET_PARAMETER_RESP_V02 :: int where "QMI_LOC_GET_PARAMETER_RESP_V02 = 0x00D8"
definition QMI_LOC_GET_PARAMETER_IND_V02 :: int where "QMI_LOC_GET_PARAMETER_IND_V02 = 0x00D8"
definition QMI_LOC_SET_STATISTICS_CONFIG_REQ_V02 :: int where "QMI_LOC_SET_STATISTICS_CONFIG_REQ_V02 = 0x00D9"
definition QMI_LOC_SET_STATISTICS_CONFIG_RESP_V02 :: int where "QMI_LOC_SET_STATISTICS_CONFIG_RESP_V02 = 0x00D9"
definition QMI_LOC_SET_STATISTICS_CONFIG_IND_V02 :: int where "QMI_LOC_SET_STATISTICS_CONFIG_IND_V02 = 0x00D9"
definition QMI_LOC_GET_STATISTICS_CONFIG_REQ_V02 :: int where "QMI_LOC_GET_STATISTICS_CONFIG_REQ_V02 = 0x00DA"
definition QMI_LOC_GET_STATISTICS_CONFIG_RESP_V02 :: int where "QMI_LOC_GET_STATISTICS_CONFIG_RESP_V02 = 0x00DA"
definition QMI_LOC_GET_STATISTICS_CONFIG_IND_V02 :: int where "QMI_LOC_GET_STATISTICS_CONFIG_IND_V02 = 0x00DA"
definition QMI_LOC_GNSS_STATISTICS_REPORT_IND_V02 :: int where "QMI_LOC_GNSS_STATISTICS_REPORT_IND_V02 = 0x00DB"
definition QMI_LOC_SET_GNSS_PDR_MODE_REQ_V02 :: int where "QMI_LOC_SET_GNSS_PDR_MODE_REQ_V02 = 0x00DC"
definition QMI_LOC_SET_GNSS_PDR_MODE_RESP_V02 :: int where "QMI_LOC_SET_GNSS_PDR_MODE_RESP_V02 = 0x00DC"
definition QMI_LOC_SET_GNSS_PDR_MODE_IND_V02 :: int where "QMI_LOC_SET_GNSS_PDR_MODE_IND_V02 = 0x00DC"
definition QMI_LOC_GET_GNSS_PDR_MODE_REQ_V02 :: int where "QMI_LOC_GET_GNSS_PDR_MODE_REQ_V02 = 0x00DD"
definition QMI_LOC_GET_GNSS_PDR_MODE_RESP_V02 :: int where "QMI_LOC_GET_GNSS_PDR_MODE_RESP_V02 = 0x00DD"
definition QMI_LOC_GET_GNSS_PDR_MODE_IND_V02 :: int where "QMI_LOC_GET_GNSS_PDR_MODE_IND_V02 = 0x00DD"
definition QMI_LOC_GET_MAG_CAL_STATE_PDR_REQ_V02 :: int where "QMI_LOC_GET_MAG_CAL_STATE_PDR_REQ_V02 = 0x00DE"
definition QMI_LOC_GET_MAG_CAL_STATE_PDR_RESP_V02 :: int where "QMI_LOC_GET_MAG_CAL_STATE_PDR_RESP_V02 = 0x00DE"
definition QMI_LOC_GET_MAG_CAL_STATE_PDR_IND_V02 :: int where "QMI_LOC_GET_MAG_CAL_STATE_PDR_IND_V02 = 0x00DE"
definition QMI_LOC_EVENT_SAP_INS_PARAMETERS_IND_V02 :: int where "QMI_LOC_EVENT_SAP_INS_PARAMETERS_IND_V02 = 0x00DF"
definition QMI_LOC_SET_MULTIBAND_CONFIG_REQ_V02 :: int where "QMI_LOC_SET_MULTIBAND_CONFIG_REQ_V02 = 0x00E0"
definition QMI_LOC_SET_MULTIBAND_CONFIG_RESP_V02 :: int where "QMI_LOC_SET_MULTIBAND_CONFIG_RESP_V02 = 0x00E0"
definition QMI_LOC_SET_MULTIBAND_CONFIG_IND_V02 :: int where "QMI_LOC_SET_MULTIBAND_CONFIG_IND_V02 = 0x00E0"
definition QMI_LOC_GET_MULTIBAND_CONFIG_REQ_V02 :: int where "QMI_LOC_GET_MULTIBAND_CONFIG_REQ_V02 = 0x00E1"
definition QMI_LOC_GET_MULTIBAND_CONFIG_RESP_V02 :: int where "QMI_LOC_GET_MULTIBAND_CONFIG_RESP_V02 = 0x00E1"
definition QMI_LOC_GET_MULTIBAND_CONFIG_IND_V02 :: int where "QMI_LOC_GET_MULTIBAND_CONFIG_IND_V02 = 0x00E1"
definition QMI_LOC_LATENCY_INFORMATION_IND_V02 :: int where "QMI_LOC_LATENCY_INFORMATION_IND_V02 = 0x00E2"
definition QMI_LOC_INJECT_LOCATION_CIVIC_ADDRESS_REQ_V02 :: int where "QMI_LOC_INJECT_LOCATION_CIVIC_ADDRESS_REQ_V02 = 0x00E3"
definition QMI_LOC_INJECT_LOCATION_CIVIC_ADDRESS_RESP_V02 :: int where "QMI_LOC_INJECT_LOCATION_CIVIC_ADDRESS_RESP_V02 = 0x00E3"
definition QMI_LOC_INJECT_LOCATION_CIVIC_ADDRESS_IND_V02 :: int where "QMI_LOC_INJECT_LOCATION_CIVIC_ADDRESS_IND_V02 = 0x00E3"
definition QMI_LOC_EVENT_PLATFORM_POWER_STATE_CHANGED_IND_V02 :: int where "QMI_LOC_EVENT_PLATFORM_POWER_STATE_CHANGED_IND_V02 = 0x00E4"
definition QMI_LOC_INJECT_RAW_DATA_REQ_V02 :: int where "QMI_LOC_INJECT_RAW_DATA_REQ_V02 = 0x00E5"
definition QMI_LOC_INJECT_RAW_DATA_RESP_V02 :: int where "QMI_LOC_INJECT_RAW_DATA_RESP_V02 = 0x00E5"
definition QMI_LOC_INJECT_RAW_DATA_IND_V02 :: int where "QMI_LOC_INJECT_RAW_DATA_IND_V02 = 0x00E5"
definition QMI_LOC_ENGINE_DEBUG_DATA_IND_V02 :: int where "QMI_LOC_ENGINE_DEBUG_DATA_IND_V02 = 0x00E6"
definition QMI_LOC_SET_TRIBAND_STATE_REQ_V02 :: int where "QMI_LOC_SET_TRIBAND_STATE_REQ_V02 = 0x00E7"
definition QMI_LOC_SET_TRIBAND_STATE_RESP_V02 :: int where "QMI_LOC_SET_TRIBAND_STATE_RESP_V02 = 0x00E7"
definition QMI_LOC_SET_TRIBAND_STATE_IND_V02 :: int where "QMI_LOC_SET_TRIBAND_STATE_IND_V02 = 0x00E7"
definition QMI_LOC_GET_TRIBAND_STATE_REQ_V02 :: int where "QMI_LOC_GET_TRIBAND_STATE_REQ_V02 = 0x00E8"
definition QMI_LOC_GET_TRIBAND_STATE_RESP_V02 :: int where "QMI_LOC_GET_TRIBAND_STATE_RESP_V02 = 0x00E8"
definition QMI_LOC_GET_TRIBAND_STATE_IND_V02 :: int where "QMI_LOC_GET_TRIBAND_STATE_IND_V02 = 0x00E8"
definition QMI_LOC_SET_SDK_FEATURE_CONFIG_REQ_V02 :: int where "QMI_LOC_SET_SDK_FEATURE_CONFIG_REQ_V02 = 0x00E9"
definition QMI_LOC_SET_SDK_FEATURE_CONFIG_RESP_V02 :: int where "QMI_LOC_SET_SDK_FEATURE_CONFIG_RESP_V02 = 0x00E9"
definition QMI_LOC_SET_SDK_FEATURE_CONFIG_IND_V02 :: int where "QMI_LOC_SET_SDK_FEATURE_CONFIG_IND_V02 = 0x00E9"
definition QMI_LOC_GNSS_BANDS_SUPPORTED_IND_V02 :: int where "QMI_LOC_GNSS_BANDS_SUPPORTED_IND_V02 = 0x00EA"
definition QMI_LOC_OSNMA_PUBLIC_KEY_MERKLE_TREE_REQ_V02 :: int where "QMI_LOC_OSNMA_PUBLIC_KEY_MERKLE_TREE_REQ_V02 = 0x00EB"
definition QMI_LOC_OSNMA_PUBLIC_KEY_MERKLE_TREE_RESP_V02 :: int where "QMI_LOC_OSNMA_PUBLIC_KEY_MERKLE_TREE_RESP_V02 = 0x00EB"
definition QMI_LOC_OSNMA_PUBLIC_KEY_MERKLE_TREE_IND_V02 :: int where "QMI_LOC_OSNMA_PUBLIC_KEY_MERKLE_TREE_IND_V02 = 0x00EB"
definition QMI_LOC_SET_OSNMA_STATE_REQ_V02 :: int where "QMI_LOC_SET_OSNMA_STATE_REQ_V02 = 0x00EC"
definition QMI_LOC_SET_OSNMA_STATE_RESP_V02 :: int where "QMI_LOC_SET_OSNMA_STATE_RESP_V02 = 0x00EC"
definition QMI_LOC_SET_OSNMA_STATE_IND_V02 :: int where "QMI_LOC_SET_OSNMA_STATE_IND_V02 = 0x00EC"
definition QMI_LOC_SET_NTN_STATUS_REQ_V02 :: int where "QMI_LOC_SET_NTN_STATUS_REQ_V02 = 0x00ED"
definition QMI_LOC_SET_NTN_STATUS_RESP_V02 :: int where "QMI_LOC_SET_NTN_STATUS_RESP_V02 = 0x00ED"
definition QMI_LOC_SET_NTN_STATUS_IND_V02 :: int where "QMI_LOC_SET_NTN_STATUS_IND_V02 = 0x00ED"
definition QMI_LOC_GET_NTN_STATUS_REQ_V02 :: int where "QMI_LOC_GET_NTN_STATUS_REQ_V02 = 0x00EE"
definition QMI_LOC_GET_NTN_STATUS_RESP_V02 :: int where "QMI_LOC_GET_NTN_STATUS_RESP_V02 = 0x00EE"
definition QMI_LOC_GET_NTN_STATUS_IND_V02 :: int where "QMI_LOC_GET_NTN_STATUS_IND_V02 = 0x00EE"
definition QMI_LOC_NTN_CONFIG_UPDATE_IND_V02 :: int where "QMI_LOC_NTN_CONFIG_UPDATE_IND_V02 = 0x00EF"
definition QMI_LOC_EVENT_DBH_POSITION_IND_V02 :: int where "QMI_LOC_EVENT_DBH_POSITION_IND_V02 = 0x00F0"
definition QMI_LOC_SET_PRECISE_SESSION_CONFIG_REQ_V02 :: int where "QMI_LOC_SET_PRECISE_SESSION_CONFIG_REQ_V02 = 0x00F1"
definition QMI_LOC_SET_PRECISE_SESSION_CONFIG_RESP_V02 :: int where "QMI_LOC_SET_PRECISE_SESSION_CONFIG_RESP_V02 = 0x00F1"
definition QMI_LOC_SET_PRECISE_SESSION_CONFIG_IND_V02 :: int where "QMI_LOC_SET_PRECISE_SESSION_CONFIG_IND_V02 = 0x00F1"

end
