(* ===== verification/LocTypes1.thy ===== *)
theory LocTypes1
  imports QmiIdl LocIds
begin

text \<open>
  C types of \<open>loc_api/loc_api_v02/location_service_v02.h\<close>, in the order of the header (part 1 of
  4): masks are the integer types they name, enumerations list their enumerators, structs their
  members. Message structs end in \<open>MsgT_v02\<close>.
\<close>

text \<open>The response header of \<open>loc_api/loc_api_v02/common_v01.h\<close>.\<close>

definition qmi_result_type_v01 :: cty where
  "qmi_result_type_v01 = CEnum [(''QMI_RESULT_SUCCESS_V01'', 0), (''QMI_RESULT_FAILURE_V01'', 1)]"

definition qmi_error_type_v01 :: cty where
  "qmi_error_type_v01 = CEnum [
    (''QMI_ERR_MALFORMED_MSG_V01'', 0x0001),
    (''QMI_ERR_DEVICE_IN_USE_V01'', 0x0017),
    (''QMI_ERR_INVALID_ARG_V01'', 0x0030),
    (''QMI_ERR_INVALID_MESSAGE_ID_V01'', 0x0039),
    (''QMI_ERR_SESSION_OWNERSHIP_V01'', 0x0043),
    (''QMI_ERR_NOT_SUPPORTED_V01'', 0x005E)]"

definition qmi_response_type_v01 :: cty where
  "qmi_response_type_v01 = CStruct [
    (''result'', qmi_result_type_v01),
    (''error'', qmi_error_type_v01)]"

definition qmiLocStatusEnumT_v02 :: cty where
  "qmiLocStatusEnumT_v02 = CEnum [
    (''QMILOCSTATUSENUMT_MIN_ENUM_VAL_V02'', -2147483647),
    (''eQMI_LOC_SUCCESS_V02'', 0),
    (''eQMI_LOC_GENERAL_FAILURE_V02'', 1),
    (''eQMI_LOC_UNSUPPORTED_V02'', 2),
    (''eQMI_LOC_INVALID_PARAMETER_V02'', 3),
    (''eQMI_LOC_ENGINE_BUSY_V02'', 4),
    (''eQMI_LOC_PHONE_OFFLINE_V02'', 5),
    (''eQMI_LOC_TIMEOUT_V02'', 6),
    (''eQMI_LOC_CONFIG_NOT_SUPPORTED_V02'', 7),
    (''eQMI_LOC_INSUFFICIENT_MEMORY_V02'', 8),
    (''eQMI_LOC_MAX_GEOFENCE_PROGRAMMED_V02'', 9),
    (''eQMI_LOC_XTRA_VERSION_CHECK_FAILURE_V02'', 10),
    (''eQMI_LOC_GNSS_DISABLED_V02'', 11),
    (''QMILOCSTATUSENUMT_MAX_ENUM_VAL_V02'', 2147483647)]"

definition qmiLocGenReqMsgT_v02 :: cty where
  "qmiLocGenReqMsgT_v02 = CStruct [
    (''__placeholder'', CPrim CChar)]"

definition qmiLocGenRespMsgT_v02 :: cty where
  "qmiLocGenRespMsgT_v02 = CStruct [
    (''resp'', qmi_response_type_v01)]"

definition qmiLocGenReqStatusIndMsgT_v02 :: cty where
  "qmiLocGenReqStatusIndMsgT_v02 = CStruct [
    (''status'', qmiLocStatusEnumT_v02)]"

definition qmiLocInformClientRevisionReqMsgT_v02 :: cty where
  "qmiLocInformClientRevisionReqMsgT_v02 = CStruct [
    (''revision'', CPrim CUint32)]"

definition qmiLocEventRegMaskT_v02 :: cty where "qmiLocEventRegMaskT_v02 = CPrim CUint64"

definition qmiLocClientTypeEnumT_v02 :: cty where
  "qmiLocClientTypeEnumT_v02 = CEnum [
    (''QMILOCCLIENTTYPEENUMT_MIN_ENUM_VAL_V02'', -2147483647),
    (''eQMI_LOC_CLIENT_AFW_V02'', 1),
    (''eQMI_LOC_CLIENT_NFW_V02'', 2),
    (''eQMI_LOC_CLIENT_PRIVILEGED_V02'', 3),
    (''eQMI_LOC_CLIENT_AFW_PROXY_V02'', 4),
    (''QMILOCCLIENTTYPEENUMT_MAX_ENUM_VAL_V02'', 2147483647)]"

definition qmiLocRegEventsReqMsgT_v02 :: cty where
  "qmiLocRegEventsReqMsgT_v02 = CStruct [
    (''eventRegMask'', qmiLocEventRegMaskT_v02),
    (''clientStrId_valid'', CPrim CUint8),
    (''clientStrId'', CArr (CPrim CChar) (QMI_LOC_MAX_CLIENT_ID_STRING_LENGTH_V02 + 1)),
    (''clientType_valid'', CPrim CUint8),
    (''clientType'', qmiLocClientTypeEnumT_v02),
    (''enablePosRequestNotification_valid'', CPrim CUint8),
    (''enablePosRequestNotification'', CPrim CUint8)]"

definition qmiLocFixRecurrenceEnumT_v02 :: cty where
  "qmiLocFixRecurrenceEnumT_v02 = CEnum [
    (''QMILOCFIXRECURRENCEENUMT_MIN_ENUM_VAL_V02'', -2147483647),
    (''eQMI_LOC_RECURRENCE_PERIODIC_V02'', 1),
    (''eQMI_LOC_RECURRENCE_SINGLE_V02'', 2),
    (''QMILOCFIXRECURRENCEENUMT_MAX_ENUM_VAL_V02'', 2147483647)]"

definition qmiLocAccuracyLevelEnumT_v02 :: cty where
  "qmiLocAccuracyLevelEnumT_v02 = CEnum [
    (''QMILOCACCURACYLEVELENUMT_MIN_ENUM_VAL_V02'', -2147483647),
    (''eQMI_LOC_ACCURACY_LOW_V02'', 1),
    (''eQMI_LOC_ACCURACY_MED_V02'', 2),
    (''eQMI_LOC_ACCURACY_HIGH_V02'', 3),
    (''QMILOCACCURACYLEVELENUMT_MAX_ENUM_VAL_V02'', 2147483647)]"

definition qmiLocIntermediateReportStateEnumT_v02 :: cty where
  "qmiLocIntermediateReportStateEnumT_v02 = CEnum [
    (''QMILOCINTERMEDIATEREPORTSTATEENUMT_MIN_ENUM_VAL_V02'', -2147483647),
    (''eQMI_LOC_INTERMEDIATE_REPORTS_ON_V02'', 1),
    (''eQMI_LOC_INTERMEDIATE_REPORTS_OFF_V02'', 2),
    (''QMILOCINTERMEDIATEREPORTSTATEENUMT_MAX_ENUM_VAL_V02'', 2147483647)]"

definition qmiLocConfigIncludeAltitudeAssumedInGnssSvInfoEnumT_v02 :: cty where
  "qmiLocConfigIncludeAltitudeAssumedInGnssSvInfoEnumT_v02 = CEnum [
    (''QMILOCCONFIGINCLUDEALTITUDEASSUMEDINGNSSSVINFOENUMT_MIN_ENUM_VAL_V02'', -2147483647),
    (''eQMI_LOC_ALTITUDE_ASSUMED_IN_GNSS_SV_INFO_ENABLED_V02'', 1),
    (''eQMI_LOC_ALTITUDE_ASSUMED_IN_GNSS_SV_INFO_DISABLED_V02'', 2),
    (''QMILOCCONFIGINCLUDEALTITUDEASSUMEDINGNSSSVINFOENUMT_MAX_ENUM_VAL_V02'', 2147483647)]"

definition qmiLocApplicationIdStructT_v02 :: cty where
  "qmiLocApplicationIdStructT_v02 = CStruct [
    (''applicationProvider'', CArr (CPrim CChar) (QMI_LOC_MAX_APP_ID_PROVIDER_LENGTH_V02 + 1)),
    (''applicationName'', CArr (CPrim CChar) (QMI_LOC_MAX_APP_ID_NAME_LENGTH_V02 + 1)),
    (''applicationVersion_valid'', CPrim CUint8),
    (''applicationVersion'', CArr (CPrim CChar) (QMI_LOC_MAX_APP_ID_VERSION_LENGTH_V02 + 1))]"

definition qmiLocPowerModeEnumT_v02 :: cty where
  "qmiLocPowerModeEnumT_v02 = CEnum [
    (''QMILOCPOWERMODEENUMT_MIN_ENUM_VAL_V02'', -2147483647),
    (''eQMI_LOC_POWER_MODE_IMPROVED_ACCURACY_V02'', 1),
    (''eQMI_LOC_POWER_MODE_NORMAL_V02'', 2),
    (''eQMI_LOC_POWER_MODE_BACKGROUND_DEFINED_POWER_V02'', 3),
    (''eQMI_LOC_POWER_MODE_BACKGROUND_DEFINED_TIME_V02'', 4),
    (''eQMI_LOC_POWER_MODE_BACKGROUND_KEEP_WARM_V02'', 5),
    (''QMILOCPOWERMODEENUMT_MAX_ENUM_VAL_V02'', 2147483647)]"

definition qmiLocPowerModeStructT_v02 :: cty where
  "qmiLocPowerModeStructT_v02 = CStruct [
    (''powerMode'', qmiLocPowerModeEnumT_v02),
    (''timeBetweenMeasurement'', CPrim CUint32)]"

definition qmiLocSpecialReqEnumT_v02 :: cty where
  "qmiLocSpecialReqEnumT_v02 = CEnum [
    (''QMILOCSPECIALREQENUMT_MIN_ENUM_VAL_V02'', -2147483647),
    (''eQMI_LOC_SPECIAL_REQUEST_SHORT_CODE_V02'', 1),
    (''QMILOCSPECIALREQENUMT_MAX_ENUM_VAL_V02'', 2147483647)]"

definition qmiLocStartReqMsgT_v02 :: cty where
  "qmiLocStartReqMsgT_v02 = CStruct [
    (''sessionId'', CPrim CUint8),
    (''fixRecurrence_valid'', CPrim CUint8),
    (''fixRecurrence'', qmiLocFixRecurrenceEnumT_v02),
    (''horizontalAccuracyLevel_valid'', CPrim CUint8),
    (''horizontalAccuracyLevel'', qmiLocAccuracyLevelEnumT_v02),
    (''intermediateReportState_valid'', CPrim CUint8),
    (''intermediateReportState'', qmiLocIntermediateReportStateEnumT_v02),
    (''minInterval_valid'', CPrim CUint8),
    (''minInterval'', CPrim CUint32),
    (''applicationId_valid'', CPrim CUint8),
    (''applicationId'', qmiLocApplicationIdStructT_v02),
    (''configAltitudeAssumed_valid'', CPrim CUint8),
    (''configAltitudeAssumed'', qmiLocConfigIncludeAltitudeAssumedInGnssSvInfoEnumT_v02),
    (''minIntermediatePositionReportInterval_valid'', CPrim CUint8),
    (''minIntermediatePositionReportInterval'', CPrim CUint32),
    (''positionReportTimeout_valid'', CPrim CUint8),
    (''positionReportTimeout'', CPrim CUint32),
    (''sharePosition_valid'', CPrim CUint8),
    (''sharePosition'', CPrim CUint8),
    (''reportGnssOnlyPosition_valid'', CPrim CUint8),
    (''reportGnssOnlyPosition'', CPrim CUint8),
    (''powerMode_valid'', CPrim CUint8),
    (''powerMode'', qmiLocPowerModeStructT_v02),
    (''specialReqType_valid'', CPrim CUint8),
    (''specialReqType'', qmiLocSpecialReqEnumT_v02)]"

definition qmiLocStopReqMsgT_v02 :: cty where
  "qmiLocStopReqMsgT_v02 = CStruct [
    (''sessionId'', CPrim CUint8)]"

definition qmiLocPosTechMaskT_v02 :: cty where "qmiLocPosTechMaskT_v02 = CPrim CUint32"

definition qmiLocSessionStatusEnumT_v02 :: cty where
  "qmiLocSessionStatusEnumT_v02 = CEnum [
    (''QMILOCSESSIONSTATUSENUMT_MIN_ENUM_VAL_V02'', -2147483647),
    (''eQMI_LOC_SESS_STATUS_SUCCESS_V02'', 0),
    (''eQMI_LOC_SESS_STATUS_IN_PROGRESS_V02'', 1),
    (''eQMI_LOC_SESS_STATUS_GENERAL_FAILURE_V02'', 2),
    (''eQMI_LOC_SESS_STATUS_TIMEOUT_V02'', 3),
    (''eQMI_LOC_SESS_STATUS_USER_END_V02'', 4),
    (''eQMI_LOC_SESS_STATUS_BAD_PARAMETER_V02'', 5),
    (''eQMI_LOC_SESS_STATUS_PHONE_OFFLINE_V02'', 6),
    (''eQMI_LOC_SESS_STATUS_ENGINE_LOCKED_V02'', 7),
    (''eQMI_LOC_SESS_STATUS_BACKGROUND_ENGAGE_ERR_V02'', 8),
    (''QMILOCSESSIONSTATUSENUMT_MAX_ENUM_VAL_V02'', 2147483647)]"

definition qmiLocGPSTimeStructT_v02 :: cty where
  "qmiLocGPSTimeStructT_v02 = CStruct [
    (''gpsWeek'', CPrim CUint16),
    (''gpsTimeOfWeekMs'', CPrim CUint32)]"

definition qmiLocDOPStructT_v02 :: cty where
  "qmiLocDOPStructT_v02 = CStruct [
    (''PDOP'', CPrim CFloat),
    (''HDOP'', CPrim CFloat),
    (''VDOP'', CPrim CFloat)]"

definition qmiLocExtDOPStructT_v02 :: cty where
  "qmiLocExtDOPStructT_v02 = CStruct [
    (''PDOP'', CPrim CFloat),
    (''HDOP'', CPrim CFloat),
    (''VDOP'', CPrim CFloat),
    (''GDOP'', CPrim CFloat),
    (''TDOP'', CPrim CFloat)]"

definition qmiLocSensorUsageMaskT_v02 :: cty where "qmiLocSensorUsageMaskT_v02 = CPrim CUint32"

definition qmiLocSensorAidedMaskT_v02 :: cty where "qmiLocSensorAidedMaskT_v02 = CPrim CUint32"

definition qmiLocSensorUsageIndicatorStructT_v02 :: cty where
  "qmiLocSensorUsageIndicatorStructT_v02 = CStruct [
    (''usageMask'', qmiLocSensorUsageMaskT_v02),
    (''aidingIndicatorMask'', qmiLocSensorAidedMaskT_v02)]"

definition qmiLocTimeSourceEnumT_v02 :: cty where
  "qmiLocTimeSourceEnumT_v02 = CEnum [
    (''QMILOCTIMESOURCEENUMT_MIN_ENUM_VAL_V02'', -2147483647),
    (''eQMI_LOC_TIME_SRC_INVALID_V02'', 0),
    (''eQMI_LOC_TIME_SRC_NETWORK_TIME_TRANSFER_V02'', 1),
    (''eQMI_LOC_TIME_SRC_NETWORK_TIME_TAGGING_V02'', 2),
    (''eQMI_LOC_TIME_SRC_EXTERNAL_INPUT_V02'', 3),
    (''eQMI_LOC_TIME_SRC_TOW_DECODE_V02'', 4),
    (''eQMI_LOC_TIME_SRC_TOW_CONFIRMED_V02'', 5),
    (''eQMI_LOC_TIME_SRC_TOW_AND_WEEK_CONFIRMED_V02'', 6),
    (''eQMI_LOC_TIME_SRC_NAV_SOLUTION_V02'', 7),
    (''eQMI_LOC_TIME_SRC_SOLVE_FOR_TIME_V02'', 8),
    (''eQMI_LOC_TIME_SRC_GLO_TOW_DECODE_V02'', 9),
    (''eQMI_LOC_TIME_SRC_TIME_TRANSFORM_V02'', 10),
    (''eQMI_LOC_TIME_SRC_WCDMA_SLEEP_TIME_TAGGING_V02'', 11),
    (''eQMI_LOC_TIME_SRC_GSM_SLEEP_TIME_TAGGING_V02'', 12),
    (''eQMI_LOC_TIME_SRC_UNKNOWN_V02'', 13),
    (''eQMI_LOC_TIME_SRC_SYSTEM_TIMETICK_V02'', 14),
    (''eQMI_LOC_TIME_SRC_QZSS_TOW_DECODE_V02'', 15),
    (''eQMI_LOC_TIME_SRC_BDS_TOW_DECODE_V02'', 16),
    (''eQMI_LOC_TIME_SRC_GAL_TOW_DECODE_V02'', 17),
    (''eQMI_LOC_TIME_SRC_NAVIC_TOW_DECODE_V02'', 18),
    (''QMILOCTIMESOURCEENUMT_MAX_ENUM_VAL_V02'', 2147483647)]"

definition qmiLocReliabilityEnumT_v02 :: cty where
  "qmiLocReliabilityEnumT_v02 = CEnum [
    (''QMILOCRELIABILITYENUMT_MIN_ENUM_VAL_V02'', -2147483647),
    (''eQMI_LOC_RELIABILITY_NOT_SET_V02'', 0),
    (''eQMI_LOC_RELIABILITY_VERY_LOW_V02'', 1),
    (''eQMI_LOC_RELIABILITY_LOW_V02'', 2),
    (''eQMI_LOC_RELIABILITY_MEDIUM_V02'', 3),
    (''eQMI_LOC_RELIABILITY_HIGH_V02'', 4),
    (''QMILOCRELIABILITYENUMT_MAX_ENUM_VAL_V02'', 2147483647)]"

definition qmiLocNavSolutionMaskT_v02 :: cty where "qmiLocNavSolutionMaskT_v02 = CPrim CUint64"

definition qmiLocSensorSubTechnologyMaskT_v02 :: cty where "qmiLocSensorSubTechnologyMaskT_v02 = CPrim CUint32"

definition qmiLocSpoofMaskT_v02 :: cty where "qmiLocSpoofMaskT_v02 = CPrim CUint64"

definition qmiLocGnssSignalTypeMaskT_v02 :: cty where "qmiLocGnssSignalTypeMaskT_v02 = CPrim CUint64"

definition qmiLocGnssSignalTypeEnumT_v02 :: cty where
  "qmiLocGnssSignalTypeEnumT_v02 = CEnum [
    (''QMILOCGNSSSIGNALTYPEENUMT_MIN_ENUM_VAL_V02'', -2147483647),
    (''eQMI_LOC_GNSS_SIGNAL_TYPE_INVALID_V02'', 0),
    (''eQMI_LOC_GNSS_SIGNAL_TYPE_GPS_L1CA_V02'', 1),
    (''eQMI_LOC_GNSS_SIGNAL_TYPE_GPS_L1C_V02'', 2),
    (''eQMI_LOC_GNSS_SIGNAL_TYPE_GPS_L2C_L_V02'', 3),
    (''eQMI_LOC_GNSS_SIGNAL_TYPE_GPS_L5_Q_V02'', 4),
    (''eQMI_LOC_GNSS_SIGNAL_TYPE_GLONASS_G1_V02'', 5),
    (''eQMI_LOC_GNSS_SIGNAL_TYPE_GLONASS_G2_V02'', 6),
    (''eQMI_LOC_GNSS_SIGNAL_TYPE_GALILEO_E1_C_V02'', 7),
    (''eQMI_LOC_GNSS_SIGNAL_TYPE_GALILEO_E5A_Q_V02'', 8),
    (''eQMI_LOC_GNSS_SIGNAL_TYPE_GALILEO_E5B_Q_V02'', 9),
    (''eQMI_LOC_GNSS_SIGNAL_TYPE_BEIDOU_B1_I_V02'', 10),
    (''eQMI_LOC_GNSS_SIGNAL_TYPE_BEIDOU_B1C_V02'', 11),
    (''eQMI_LOC_GNSS_SIGNAL_TYPE_BEIDOU_B2_I_V02'', 12),
    (''eQMI_LOC_GNSS_SIGNAL_TYPE_BEIDOU_B2A_I_V02'', 13),
    (''eQMI_LOC_GNSS_SIGNAL_TYPE_QZSS_L1CA_V02'', 14),
    (''eQMI_LOC_GNSS_SIGNAL_TYPE_QZSS_L1S_V02'', 15),
    (''eQMI_LOC_GNSS_SIGNAL_TYPE_QZSS_L2C_L_V02'', 16),
    (''eQMI_LOC_GNSS_SIGNAL_TYPE_QZSS_L5_Q_V02'', 17),
    (''eQMI_LOC_GNSS_SIGNAL_TYPE_SBAS_L1_CA_V02'', 18),
    (''eQMI_LOC_GNSS_SIGNAL_TYPE_NAVIC_L5_V02'', 19),
    (''eQMI_LOC_GNSS_SIGNAL_TYPE_BEIDOU_B2A_Q_V02'', 20),
    (''eQMI_LOC_GNSS_SIGNAL_TYPE_BEIDOU_B2B_I_V02'', 21),
    (''eQMI_LOC_GNSS_SIGNAL_TYPE_BEIDOU_B2B_Q_V02'', 22),
    (''eQMI_LOC_GNSS_SIGNAL_TYPE_NAVIC_L1_V02'', 23),
    (''eQMI_LOC_GNSS_SIGNAL_TYPE_QZSS_L1_CB_V02'', 24),
    (''QMILOCGNSSSIGNALTYPEENUMT_MAX_ENUM_VAL_V02'', 2147483647)]"

definition qmiLocJammerIndicatorStructT_v02 :: cty where
  "qmiLocJammerIndicatorStructT_v02 = CStruct [
    (''agcMetricDb'', CPrim CInt32),
    (''bpMetricDb'', CPrim CInt32)]"

definition qmiLocJammerIndicatorExtStructT_v02 :: cty where
  "qmiLocJammerIndicatorExtStructT_v02 = CStruct [
    (''gnssSignalType'', qmiLocGnssSignalTypeMaskT_v02),
    (''agcMetricDb'', CPrim CInt32),
    (''bpMetricDb'', CPrim CInt32)]"

definition qmiLocGNSSConstellEnumT_v02 :: cty where "qmiLocGNSSConstellEnumT_v02 = CPrim CUint64"

definition qmiLocDgnssCorrectionSourceTypeEnumT_v02 :: cty where
  "qmiLocDgnssCorrectionSourceTypeEnumT_v02 = CEnum [
    (''QMILOCDGNSSCORRECTIONSOURCETYPEENUMT_MIN_ENUM_VAL_V02'', -2147483647),
    (''eQMI_LOC_DGNSS_CORR_SOURCE_TYPE_INVALID_V02'', 0),
    (''eQMI_LOC_DGNSS_CORR_SOURCE_TYPE_RTCM_V02'', 1),
    (''eQMI_LOC_DGNSS_CORR_SOURCE_TYPE_3GPP_V02'', 2),
    (''QMILOCDGNSSCORRECTIONSOURCETYPEENUMT_MAX_ENUM_VAL_V02'', 2147483647)]"

definition qmiLocSvSystemEnumT_v02 :: cty where
  "qmiLocSvSystemEnumT_v02 = CEnum [
    (''QMILOCSVSYSTEMENUMT_MIN_ENUM_VAL_V02'', -2147483647),
    (''eQMI_LOC_SV_SYSTEM_GPS_V02'', 1),
    (''eQMI_LOC_SV_SYSTEM_GALILEO_V02'', 2),
    (''eQMI_LOC_SV_SYSTEM_SBAS_V02'', 3),
    (''eQMI_LOC_SV_SYSTEM_COMPASS_V02'', 4),
    (''eQMI_LOC_SV_SYSTEM_GLONASS_V02'', 5),
    (''eQMI_LOC_SV_SYSTEM_BDS_V02'', 6),
    (''eQMI_LOC_SV_SYSTEM_QZSS_V02'', 7),
    (''eQMI_LOC_SV_SYSTEM_NAVIC_V02'', 8),
    (''QMILOCSVSYSTEMENUMT_MAX_ENUM_VAL_V02'', 2147483647)]"

definition qmiLocGnssTimeStructT_v02 :: cty where
  "qmiLocGnssTimeStructT_v02 = CStruct [
    (''system'', qmiLocSvSystemEnumT_v02),
    (''systemWeek'', CPrim CUint16),
    (''systemMsec'', CPrim CUint32),
    (''systemClkTimeBias'', CPrim CFloat),
    (''systemClkTimeUncMs'', CPrim CFloat)]"

definition qmiLocEventPositionReportIndMsgT_v02 :: cty where
  "qmiLocEventPositionReportIndMsgT_v02 = CStruct [
    (''sessionStatus'', qmiLocSessionStatusEnumT_v02),
    (''sessionId'', CPrim CUint8),
    (''latitude_valid'', CPrim CUint8),
    (''latitude'', CPrim CDouble),
    (''longitude_valid'', CPrim CUint8),
    (''longitude'', CPrim CDouble),
    (''horUncCircular_valid'', CPrim CUint8),
    (''horUncCircular'', CPrim CFloat),
    (''horUncEllipseSemiMinor_valid'', CPrim CUint8),
    (''horUncEllipseSemiMinor'', CPrim CFloat),
    (''horUncEllipseSemiMajor_valid'', CPrim CUint8),
    (''horUncEllipseSemiMajor'', CPrim CFloat),
    (''horUncEllipseOrientAzimuth_valid'', CPrim CUint8),
    (''horUncEllipseOrientAzimuth'', CPrim CFloat),
    (''horConfidence_valid'', CPrim CUint8),
    (''horConfidence'', CPrim CUint8),
    (''horReliability_valid'', CPrim CUint8),
    (''horReliability'', qmiLocReliabilityEnumT_v02),
    (''speedHorizontal_valid'', CPrim CUint8),
    (''speedHorizontal'', CPrim CFloat),
    (''speedUnc_valid'', CPrim CUint8),
    (''speedUnc'', CPrim CFloat),
    (''altitudeWrtEllipsoid_valid'', CPrim CUint8),
    (''altitudeWrtEllipsoid'', CPrim CFloat),
    (''altitudeWrtMeanSeaLevel_valid'', CPrim CUint8),
    (''altitudeWrtMeanSeaLevel'', CPrim CFloat),
    (''vertUnc_valid'', CPrim CUint8),
    (''vertUnc'', CPrim CFloat),
    (''vertConfidence_valid'', CPrim CUint8),
    (''vertConfidence'', CPrim CUint8),
    (''vertReliability_valid'', CPrim CUint8),
    (''vertReliability'', qmiLocReliabilityEnumT_v02),
    (''speedVertical_valid'', CPrim CUint8),
    (''speedVertical'', CPrim CFloat),
    (''heading_valid'', CPrim CUint8),
    (''heading'', CPrim CFloat),
    (''headingUnc_valid'', CPrim CUint8),
    (''headingUnc'', CPrim CFloat),
    (''magneticDeviation_valid'', CPrim CUint8),
    (''magneticDeviation'', CPrim CFloat),
    (''technologyMask_valid'', CPrim CUint8),
    (''technologyMask'', qmiLocPosTechMaskT_v02),
    (''DOP_valid'', CPrim CUint8),
    (''DOP'', qmiLocDOPStructT_v02),
    (''timestampUtc_valid'', CPrim CUint8),
    (''timestampUtc'', CPrim CUint64),
    (''leapSeconds_valid'', CPrim CUint8),
    (''leapSeconds'', CPrim CUint8),
    (''gpsTime_valid'', CPrim CUint8),
    (''gpsTime'', qmiLocGPSTimeStructT_v02),
    (''timeUnc_valid'', CPrim CUint8),
    (''timeUnc'', CPrim CFloat),
    (''timeSrc_valid'', CPrim CUint8),
    (''timeSrc'', qmiLocTimeSourceEnumT_v02),
    (''sensorDataUsage_valid'', CPrim CUint8),
    (''sensorDataUsage'', qmiLocSensorUsageIndicatorStructT_v02),
    (''fixId_valid'', CPrim CUint8),
    (''fixId'', CPrim CUint32),
    (''gnssSvUsedList_valid'', CPrim CUint8),
    (''gnssSvUsedList_len'', CPrim CUint32),
    (''gnssSvUsedList'', CArr (CPrim CUint16) (QMI_LOC_MAX_SV_USED_LIST_LENGTH_V02)),
    (''altitudeAssumed_valid'', CPrim CUint8),
    (''altitudeAssumed'', CPrim CUint8),
    (''velEnu_valid'', CPrim CUint8),
    (''velEnu'', CArr (CPrim CFloat) (QMI_LOC_ENU_ARRAY_LENGTH_V02)),
    (''velUncEnu_valid'', CPrim CUint8),
    (''velUncEnu'', CArr (CPrim CFloat) (QMI_LOC_ENU_ARRAY_LENGTH_V02)),
    (''navSolutionMask_valid'', CPrim CUint8),
    (''navSolutionMask'', qmiLocNavSolutionMaskT_v02),
    (''sensorSubTechnologyMask_valid'', CPrim CUint8),
    (''sensorSubTechnologyMask'', qmiLocSensorSubTechnologyMaskT_v02),
    (''gnssOnlyPosition_valid'', CPrim CUint8),
    (''gnssOnlyPosition'', CPrim CUint8),
    (''extDOP_valid'', CPrim CUint8),
    (''extDOP'', qmiLocExtDOPStructT_v02),
    (''dgnssStationId_valid'', CPrim CUint8),
    (''dgnssStationId_len'', CPrim CUint32),
    (''dgnssStationId'', CArr (CPrim CUint16) (QMI_LOC_DGNSS_STATION_ID_ARRAY_LENGTH_V02)),
    (''spoofReportMask_valid'', CPrim CUint8),
    (''spoofReportMask'', qmiLocSpoofMaskT_v02),
    (''expandedGnssSvUsedList_valid'', CPrim CUint8),
    (''expandedGnssSvUsedList_len'', CPrim CUint32),
    (''expandedGnssSvUsedList'', CArr (CPrim CUint16) (QMI_LOC_EXPANDED_SV_INFO_LIST_MAX_SIZE_V02)),
    (''gnssSvUsedSignalTypeList_valid'', CPrim CUint8),
    (''gnssSvUsedSignalTypeList_len'', CPrim CUint32),
    (''gnssSvUsedSignalTypeList'', CArr qmiLocGnssSignalTypeMaskT_v02 (QMI_LOC_EXPANDED_SV_INFO_LIST_MAX_SIZE_V02)),
    (''jammerIndicatorList_valid'', CPrim CUint8),
    (''jammerIndicatorList_len'', CPrim CUint32),
    (''jammerIndicatorList'', CArr qmiLocJammerIndicatorStructT_v02 (QMI_LOC_MAX_GNSS_SIGNAL_TYPE_V02)),
    (''dgnssCorrectionSource_valid'', CPrim CUint8),
    (''dgnssCorrectionSource'', qmiLocDgnssCorrectionSourceTypeEnumT_v02),
    (''dgnssCorrectionSourceID_valid'', CPrim CUint8),
    (''dgnssCorrectionSourceID'', CPrim CUint32),
    (''dgnssConstellationUsage_valid'', CPrim CUint8),
    (''dgnssConstellationUsage'', qmiLocGNSSConstellEnumT_v02),
    (''dgnssRefStationId_valid'', CPrim CUint8),
    (''dgnssRefStationId'', CPrim CUint16),
    (''dgnssDataAgeMsec_valid'', CPrim CUint8),
    (''dgnssDataAgeMsec'', CPrim CUint32),
    (''conformityIndex_valid'', CPrim CUint8),
    (''conformityIndex'', CPrim CFloat),
    (''systemTick_valid'', CPrim CUint8),
    (''systemTick'', CPrim CUint64),
    (''systemTickUnc_valid'', CPrim CUint8),
    (''systemTickUnc'', CPrim CFloat),
    (''systemClkTimeBias_valid'', CPrim CUint8),
    (''systemClkTimeBias'', CPrim CFloat),
    (''systemClkTimeBiasUnc_valid'', CPrim CUint8),
    (''systemClkTimeBiasUnc'', CPrim CFloat),
    (''payload_valid'', CPrim CUint8),
    (''payload_len'', CPrim CUint32),
    (''payload'', CArr (CPrim CUint8) (4096)),
    (''jammerIndicatorListExt_valid'', CPrim CUint8),
    (''jammerIndicatorListExt_len'', CPrim CUint32),
    (''jammerIndicatorListExt'', CArr qmiLocJammerIndicatorExtStructT_v02 (QMI_LOC_MAX_GNSS_SIGNAL_TYPE_EXT_V02)),
    (''gnssTime_valid'', CPrim CUint8),
    (''gnssTime'', qmiLocGnssTimeStructT_v02),
    (''leapSecUnc_valid'', CPrim CUint8),
    (''leapSecUnc'', CPrim CUint8)]"

definition qmiLocSvStatusEnumT_v02 :: cty where
  "qmiLocSvStatusEnumT_v02 = CEnum [
    (''QMILOCSVSTATUSENUMT_MIN_ENUM_VAL_V02'', -2147483647),
    (''eQMI_LOC_SV_STATUS_IDLE_V02'', 1),
    (''eQMI_LOC_SV_STATUS_SEARCH_V02'', 2),
    (''eQMI_LOC_SV_STATUS_TRACK_V02'', 3),
    (''QMILOCSVSTATUSENUMT_MAX_ENUM_VAL_V02'', 2147483647)]"

definition qmiLocSvInfoValidMaskT_v02 :: cty where "qmiLocSvInfoValidMaskT_v02 = CPrim CUint32"

definition qmiLocSvInfoMaskT_v02 :: cty where "qmiLocSvInfoMaskT_v02 = CPrim CUint8"

definition qmiLocSvInfoStructT_v02 :: cty where
  "qmiLocSvInfoStructT_v02 = CStruct [
    (''validMask'', qmiLocSvInfoValidMaskT_v02),
    (''system'', qmiLocSvSystemEnumT_v02),
    (''gnssSvId'', CPrim CUint16),
    (''healthStatus'', CPrim CUint8),
    (''svStatus'', qmiLocSvStatusEnumT_v02),
    (''svInfoMask'', qmiLocSvInfoMaskT_v02),
    (''elevation'', CPrim CFloat),
    (''azimuth'', CPrim CFloat),
    (''snr'', CPrim CFloat)]"

definition qmiLocExpandedSvInfoStructT_v02 :: cty where
  "qmiLocExpandedSvInfoStructT_v02 = CStruct [
    (''svInfo'', qmiLocSvInfoStructT_v02),
    (''gloFrequency'', CPrim CUint8)]"

definition qmiLocEventGnssSvInfoIndMsgT_v02 :: cty where
  "qmiLocEventGnssSvInfoIndMsgT_v02 = CStruct [
    (''altitudeAssumed'', CPrim CUint8),
    (''svList_valid'', CPrim CUint8),
    (''svList_len'', CPrim CUint32),
    (''svList'', CArr qmiLocSvInfoStructT_v02 (QMI_LOC_SV_INFO_LIST_MAX_SIZE_V02)),
    (''expandedSvList_valid'', CPrim CUint8),
    (''expandedSvList_len'', CPrim CUint32),
    (''expandedSvList'', CArr qmiLocExpandedSvInfoStructT_v02 (QMI_LOC_EXPANDED_SV_INFO_LIST_MAX_SIZE_V02)),
    (''gnssSignalTypeList_valid'', CPrim CUint8),
    (''gnssSignalTypeList_len'', CPrim CUint32),
    (''gnssSignalTypeList'', CArr qmiLocGnssSignalTypeMaskT_v02 (QMI_LOC_EXPANDED_SV_INFO_LIST_MAX_SIZE_V02)),
    (''rfLoss_valid'', CPrim CUint8),
    (''rfLoss_len'', CPrim CUint32),
    (''rfLoss'', CArr (CPrim CFloat) (QMI_LOC_EXPANDED_SV_INFO_LIST_MAX_SIZE_V02))]"

definition qmiLocEventNmeaIndMsgT_v02 :: cty where
  "qmiLocEventNmeaIndMsgT_v02 = CStruct [
    (''nmea'', CArr (CPrim CChar) (QMI_LOC_NMEA_STRING_MAX_LENGTH_V02 + 1)),
    (''expandedNmea_valid'', CPrim CUint8),
    (''expandedNmea'', CArr (CPrim CChar) (QMI_LOC_EXPANDED_NMEA_STRING_MAX_LENGTH_V02 + 1))]"

definition qmiLocNiNotifyVerifyEnumT_v02 :: cty where
  "qmiLocNiNotifyVerifyEnumT_v02 = CEnum [
    (''QMILOCNINOTIFYVERIFYENUMT_MIN_ENUM_VAL_V02'', -2147483647),
    (''eQMI_LOC_NI_USER_NO_NOTIFY_NO_VERIFY_V02'', 1),
    (''eQMI_LOC_NI_USER_NOTIFY_ONLY_V02'', 2),
    (''eQMI_LOC_NI_USER_NOTIFY_VERIFY_ALLOW_NO_RESP_V02'', 3),
    (''eQMI_LOC_NI_USER_NOTIFY_VERIFY_NOT_ALLOW_NO_RESP_V02'', 4),
    (''eQMI_LOC_NI_USER_NOTIFY_VERIFY_PRIVACY_OVERRIDE_V02'', 5),
    (''QMILOCNINOTIFYVERIFYENUMT_MAX_ENUM_VAL_V02'', 2147483647)]"

definition qmiLocNiVxPosModeEnumT_v02 :: cty where
  "qmiLocNiVxPosModeEnumT_v02 = CEnum [
    (''QMILOCNIVXPOSMODEENUMT_MIN_ENUM_VAL_V02'', -2147483647),
    (''eQMI_LOC_NI_VX_MS_ASSISTED_ONLY_V02'', 1),
    (''eQMI_LOC_NI_VX_MS_BASED_ONLY_V02'', 2),
    (''eQMI_LOC_NI_VX_MS_ASSISTED_PREFERRED_MS_BASED_ALLOWED_V02'', 3),
    (''eQMI_LOC_NI_VX_MS_BASED_PREFERRED_MS_ASSISTED_ALLOWED_V02'', 4),
    (''QMILOCNIVXPOSMODEENUMT_MAX_ENUM_VAL_V02'', 2147483647)]"

definition qmiLocNiVxRequestorIdEncodingSchemeEnumT_v02 :: cty where
  "qmiLocNiVxRequestorIdEncodingSchemeEnumT_v02 = CEnum [
    (''QMILOCNIVXREQUESTORIDENCODINGSCHEMEENUMT_MIN_ENUM_VAL_V02'', -2147483647),
    (''eQMI_LOC_NI_VX_OCTET_V02'', 0),
    (''eQMI_LOC_NI_VX_EXN_PROTOCOL_MSG_V02'', 1),
    (''eQMI_LOC_NI_VX_ASCII_V02'', 2),
    (''eQMI_LOC_NI_VX_IA5_V02'', 3),
    (''eQMI_LOC_NI_VX_UNICODE_V02'', 4),
    (''eQMI_LOC_NI_VX_SHIFT_JIS_V02'', 5),
    (''eQMI_LOC_NI_VX_KOREAN_V02'', 6),
    (''eQMI_LOC_NI_VX_LATIN_HEBREW_V02'', 7),
    (''eQMI_LOC_NI_VX_LATIN_V02'', 8),
    (''eQMI_LOC_NI_VX_GSM_V02'', 9),
    (''QMILOCNIVXREQUESTORIDENCODINGSCHEMEENUMT_MAX_ENUM_VAL_V02'', 2147483647)]"

definition qmiLocNiVxNotifyVerifyStructT_v02 :: cty where
  "qmiLocNiVxNotifyVerifyStructT_v02 = CStruct [
    (''posQosIncl'', CPrim CUint8),
    (''posQos'', CPrim CUint8),
    (''numFixes'', CPrim CUint32),
    (''timeBetweenFixes'', CPrim CUint32),
    (''posMode'', qmiLocNiVxPosModeEnumT_v02),
    (''encodingScheme'', qmiLocNiVxRequestorIdEncodingSchemeEnumT_v02),
    (''requestorId_len'', CPrim CUint32),
    (''requestorId'', CArr (CPrim CUint8) (QMI_LOC_NI_MAX_REQUESTOR_ID_LENGTH_V02)),
    (''userRespTimerInSeconds'', CPrim CUint16)]"

definition qmiLocNiSuplPosMethodEnumT_v02 :: cty where
  "qmiLocNiSuplPosMethodEnumT_v02 = CEnum [
    (''QMILOCNISUPLPOSMETHODENUMT_MIN_ENUM_VAL_V02'', -2147483647),
    (''eQMI_LOC_NI_SUPL_POSMETHOD_AGPS_SETASSISTED_V02'', 1),
    (''eQMI_LOC_NI_SUPL_POSMETHOD_AGPS_SETBASED_V02'', 2),
    (''eQMI_LOC_NI_SUPL_POSMETHOD_AGPS_SETASSISTED_PREF_V02'', 3),
    (''eQMI_LOC_NI_SUPL_POSMETHOD_AGPS_SETBASED_PREF_V02'', 4),
    (''eQMI_LOC_NI_SUPL_POSMETHOD_AUTONOMOUS_GPS_V02'', 5),
    (''eQMI_LOC_NI_SUPL_POSMETHOD_AFLT_V02'', 6),
    (''eQMI_LOC_NI_SUPL_POSMETHOD_ECID_V02'', 7),
    (''eQMI_LOC_NI_SUPL_POSMETHOD_EOTD_V02'', 8),
    (''eQMI_LOC_NI_SUPL_POSMETHOD_OTDOA_V02'', 9),
    (''eQMI_LOC_NI_SUPL_POSMETHOD_NO_POSITION_V02'', 10),
    (''QMILOCNISUPLPOSMETHODENUMT_MAX_ENUM_VAL_V02'', 2147483647)]"

definition qmiLocNiDataCodingSchemeEnumT_v02 :: cty where
  "qmiLocNiDataCodingSchemeEnumT_v02 = CEnum [
    (''QMILOCNIDATACODINGSCHEMEENUMT_MIN_ENUM_VAL_V02'', -2147483647),
    (''eQMI_LOC_NI_SS_GERMAN_V02'', 12),
    (''eQMI_LOC_NI_SS_ENGLISH_V02'', 13),
    (''eQMI_LOC_NI_SS_ITALIAN_V02'', 14),
    (''eQMI_LOC_NI_SS_FRENCH_V02'', 15),
    (''eQMI_LOC_NI_SS_SPANISH_V02'', 16),
    (''eQMI_LOC_NI_SS_DUTCH_V02'', 17),
    (''eQMI_LOC_NI_SS_SWEDISH_V02'', 18),
    (''eQMI_LOC_NI_SS_DANISH_V02'', 19),
    (''eQMI_LOC_NI_SS_PORTUGUESE_V02'', 20),
    (''eQMI_LOC_NI_SS_FINNISH_V02'', 21),
    (''eQMI_LOC_NI_SS_NORWEGIAN_V02'', 22),
    (''eQMI_LOC_NI_SS_GREEK_V02'', 23),
    (''eQMI_LOC_NI_SS_TURKISH_V02'', 24),
    (''eQMI_LOC_NI_SS_HUNGARIAN_V02'', 25),
    (''eQMI_LOC_NI_SS_POLISH_V02'', 26),
    (''eQMI_LOC_NI_SS_LANGUAGE_UNSPEC_V02'', 27),
    (''eQMI_LOC_NI_SUPL_UTF8_V02'', 28),
    (''eQMI_LOC_NI_SUPL_UCS2_V02'', 29),
    (''eQMI_LOC_NI_SUPL_GSM_DEFAULT_V02'', 30),
    (''QMILOCNIDATACODINGSCHEMEENUMT_MAX_ENUM_VAL_V02'', 2147483647)]"

definition qmiLocNiSuplFormatEnumType_v02 :: cty where
  "qmiLocNiSuplFormatEnumType_v02 = CEnum [
    (''QMILOCNISUPLFORMATENUMTYPE_MIN_ENUM_VAL_V02'', -2147483647),
    (''eQMI_LOC_NI_SUPL_FORMAT_LOGICAL_NAME_V02'', 0),
    (''eQMI_LOC_NI_SUPL_FORMAT_EMAIL_ADDRESS_V02'', 1),
    (''eQMI_LOC_NI_SUPL_FORMAT_MSISDN_V02'', 2),
    (''eQMI_LOC_NI_SUPL_FORMAT_URL_V02'', 3),
    (''eQMI_LOC_NI_SUPL_FORMAT_SIP_URL_V02'', 4),
    (''eQMI_LOC_NI_SUPL_FORMAT_MIN_V02'', 5),
    (''eQMI_LOC_NI_SUPL_FORMAT_MDN_V02'', 6),
    (''eQMI_LOC_NI_SUPL_FORMAT_IMSPUBLIC_IDENTITY_V02'', 7),
    (''eQMI_LOC_NI_SUPL_FORMAT_OSS_UNKNOWN_V02'', 2147483647),
    (''QMILOCNISUPLFORMATENUMTYPE_MAX_ENUM_VAL_V02'', 2147483647)]"

definition qmiLocNiSuplFormattedStringStructT_v02 :: cty where
  "qmiLocNiSuplFormattedStringStructT_v02 = CStruct [
    (''formatType'', qmiLocNiSuplFormatEnumType_v02),
    (''formattedString_len'', CPrim CUint32),
    (''formattedString'', CArr (CPrim CUint8) (QMI_LOC_NI_MAX_CLIENT_NAME_LENGTH_V02))]"

definition qmiLocSuplQopValidMaskT_v02 :: cty where "qmiLocSuplQopValidMaskT_v02 = CPrim CUint8"

definition qmiLocNiSuplQopStructT_v02 :: cty where
  "qmiLocNiSuplQopStructT_v02 = CStruct [
    (''validMask'', qmiLocSuplQopValidMaskT_v02),
    (''horizontalAccuracy'', CPrim CUint8),
    (''verticalAccuracy'', CPrim CUint8),
    (''maxLocAge'', CPrim CUint16),
    (''delay'', CPrim CUint8)]"

definition qmiLocServerAddrTypeMaskT_v02 :: cty where "qmiLocServerAddrTypeMaskT_v02 = CPrim CUint8"

definition qmiLocIpV4AddrStructType_v02 :: cty where
  "qmiLocIpV4AddrStructType_v02 = CStruct [
    (''addr'', CPrim CUint32),
    (''port'', CPrim CUint16)]"

definition qmiLocIpV6AddrStructType_v02 :: cty where
  "qmiLocIpV6AddrStructType_v02 = CStruct [
    (''addr'', CArr (CPrim CUint16) (QMI_LOC_IPV6_ADDR_LENGTH_V02)),
    (''port'', CPrim CUint32)]"

definition qmiLocNiSuplServerInfoStructT_v02 :: cty where
  "qmiLocNiSuplServerInfoStructT_v02 = CStruct [
    (''suplServerAddrTypeMask'', qmiLocServerAddrTypeMaskT_v02),
    (''ipv4Addr'', qmiLocIpV4AddrStructType_v02),
    (''ipv6Addr'', qmiLocIpV6AddrStructType_v02),
    (''urlAddr'', CArr (CPrim CChar) (QMI_LOC_MAX_SERVER_ADDR_LENGTH_V02 + 1))]"

definition qmiLocNiSuplNotifyVerifyValidMaskT_v02 :: cty where "qmiLocNiSuplNotifyVerifyValidMaskT_v02 = CPrim CUint32"

definition qmiLocNiSuplNotifyVerifyStructT_v02 :: cty where
  "qmiLocNiSuplNotifyVerifyStructT_v02 = CStruct [
    (''valid_flags'', qmiLocNiSuplNotifyVerifyValidMaskT_v02),
    (''suplServerInfo'', qmiLocNiSuplServerInfoStructT_v02),
    (''suplSessionId'', CArr (CPrim CUint8) (QMI_LOC_NI_SUPL_SLP_SESSION_ID_BYTE_LENGTH_V02)),
    (''suplHash'', CArr (CPrim CUint8) (QMI_LOC_NI_SUPL_HASH_LENGTH_V02)),
    (''posMethod'', qmiLocNiSuplPosMethodEnumT_v02),
    (''dataCodingScheme'', qmiLocNiDataCodingSchemeEnumT_v02),
    (''requestorId'', qmiLocNiSuplFormattedStringStructT_v02),
    (''clientName'', qmiLocNiSuplFormattedStringStructT_v02),
    (''suplQop'', qmiLocNiSuplQopStructT_v02),
    (''userResponseTimer'', CPrim CUint16)]"

definition qmiLocNiLocationTypeEnumT_v02 :: cty where
  "qmiLocNiLocationTypeEnumT_v02 = CEnum [
    (''QMILOCNILOCATIONTYPEENUMT_MIN_ENUM_VAL_V02'', -2147483647),
    (''eQMI_LOC_NI_LOCATIONTYPE_CURRENT_LOCATION_V02'', 1),
    (''eQMI_LOC_NI_LOCATIONTYPE_CURRENT_OR_LAST_KNOWN_LOCATION_V02'', 2),
    (''eQMI_LOC_NI_LOCATIONTYPE_INITIAL_LOCATION_V02'', 3),
    (''QMILOCNILOCATIONTYPEENUMT_MAX_ENUM_VAL_V02'', 2147483647)]"

definition qmiLocNiUmtsCpCodedStringStructT_v02 :: cty where
  "qmiLocNiUmtsCpCodedStringStructT_v02 = CStruct [
    (''dataCodingScheme'', qmiLocNiDataCodingSchemeEnumT_v02),
    (''codedString_len'', CPrim CUint32),
    (''codedString'', CArr (CPrim CUint8) (QMI_LOC_NI_CODEWORD_MAX_LENGTH_V02))]"

definition qmiLocNiUmtsCpNotifyVerifyValidMaskT_v02 :: cty where "qmiLocNiUmtsCpNotifyVerifyValidMaskT_v02 = CPrim CUint16"

definition qmiLocNiUmtsCpNotifyVerifyStructT_v02 :: cty where
  "qmiLocNiUmtsCpNotifyVerifyStructT_v02 = CStruct [
    (''valid_flags'', qmiLocNiUmtsCpNotifyVerifyValidMaskT_v02),
    (''invokeId'', CPrim CUint8),
    (''dataCodingScheme'', qmiLocNiDataCodingSchemeEnumT_v02),
    (''notificationText_len'', CPrim CUint32),
    (''notificationText'', CArr (CPrim CUint8) (QMI_LOC_NI_MAX_CLIENT_NAME_LENGTH_V02)),
    (''clientAddress_len'', CPrim CUint32),
    (''clientAddress'', CArr (CPrim CUint8) (QMI_LOC_NI_MAX_EXT_CLIENT_ADDRESS_V02)),
    (''locationType'', qmiLocNiLocationTypeEnumT_v02),
    (''requestorId'', qmiLocNiUmtsCpCodedStringStructT_v02),
    (''codewordString'', qmiLocNiUmtsCpCodedStringStructT_v02),
    (''lcsServiceTypeId'', CPrim CUint8),
    (''userResponseTimer'', CPrim CUint16)]"

definition qmiLocNiServiceInteractionEnumT_v02 :: cty where
  "qmiLocNiServiceInteractionEnumT_v02 = CEnum [
    (''QMILOCNISERVICEINTERACTIONENUMT_MIN_ENUM_VAL_V02'', -2147483647),
    (''eQMI_LOC_NI_SERVICE_INTERACTION_ONGOING_NI_INCOMING_MO_V02'', 1),
    (''QMILOCNISERVICEINTERACTIONENUMT_MAX_ENUM_VAL_V02'', 2147483647)]"

definition qmiLocNiVxServiceInteractionStructT_v02 :: cty where
  "qmiLocNiVxServiceInteractionStructT_v02 = CStruct [
    (''niVxReq'', qmiLocNiVxNotifyVerifyStructT_v02),
    (''serviceInteractionType'', qmiLocNiServiceInteractionEnumT_v02)]"

definition qmiLocNiSuplVer2ExtSupportedNetworksMaskT_v02 :: cty where "qmiLocNiSuplVer2ExtSupportedNetworksMaskT_v02 = CPrim CUint16"

definition qmiLocNiSuplVer2ExtTriggerTypeEnumT_v02 :: cty where
  "qmiLocNiSuplVer2ExtTriggerTypeEnumT_v02 = CEnum [
    (''QMILOCNISUPLVER2EXTTRIGGERTYPEENUMT_MIN_ENUM_VAL_V02'', -2147483647),
    (''eQMI_LOC_SUPL_VER_2_EXT_TRIGGER_TYPE_SINGLE_SHOT_V02'', -1),
    (''eQMI_LOC_SUPL_VER_2_EXT_TRIGGER_TYPE_PERIODIC_V02'', 0),
    (''eQMI_LOC_SUPL_VER_2_EXT_TRIGGER_TYPE_AREA_EVENT_V02'', 1),
    (''QMILOCNISUPLVER2EXTTRIGGERTYPEENUMT_MAX_ENUM_VAL_V02'', 2147483647)]"

definition qmiLocNiSuplVer2ExtGnssTypeMaskT_v02 :: cty where "qmiLocNiSuplVer2ExtGnssTypeMaskT_v02 = CPrim CUint16"

definition qmiLocNiSuplVer2ExtStructT_v02 :: cty where
  "qmiLocNiSuplVer2ExtStructT_v02 = CStruct [
    (''supportedNetworksMask'', qmiLocNiSuplVer2ExtSupportedNetworksMaskT_v02),
    (''triggerType'', qmiLocNiSuplVer2ExtTriggerTypeEnumT_v02),
    (''gnssType'', qmiLocNiSuplVer2ExtGnssTypeMaskT_v02)]"

definition qmiLocEmergencyNotificationStructT_v02 :: cty where
  "qmiLocEmergencyNotificationStructT_v02 = CStruct [
    (''eslpUrl'', CArr (CPrim CChar) (QMI_LOC_MAX_SERVER_ADDR_LENGTH_V02 + 1))]"

definition qmiLocEventNiNotifyVerifyReqIndMsgT_v02 :: cty where
  "qmiLocEventNiNotifyVerifyReqIndMsgT_v02 = CStruct [
    (''notificationType'', qmiLocNiNotifyVerifyEnumT_v02),
    (''NiVxInd_valid'', CPrim CUint8),
    (''NiVxInd'', qmiLocNiVxNotifyVerifyStructT_v02),
    (''NiSuplInd_valid'', CPrim CUint8),
    (''NiSuplInd'', qmiLocNiSuplNotifyVerifyStructT_v02),
    (''NiUmtsCpInd_valid'', CPrim CUint8),
    (''NiUmtsCpInd'', qmiLocNiUmtsCpNotifyVerifyStructT_v02),
    (''NiVxServiceInteractionInd_valid'', CPrim CUint8),
    (''NiVxServiceInteractionInd'', qmiLocNiVxServiceInteractionStructT_v02),
    (''NiSuplVer2ExtInd_valid'', CPrim CUint8),
    (''NiSuplVer2ExtInd'', qmiLocNiSuplVer2ExtStructT_v02),
    (''suplEmergencyNotification_valid'', CPrim CUint8),
    (''suplEmergencyNotification'', qmiLocEmergencyNotificationStructT_v02),
    (''isInEmergencySession_valid'', CPrim CUint8),
    (''isInEmergencySession'', CPrim CUint8)]"

definition qmiLocGnssAidingDlCauseEnumT_v02 :: cty where
  "qmiLocGnssAidingDlCauseEnumT_v02 = CEnum [
    (''QMILOCGNSSAIDINGDLCAUSEENUMT_MIN_ENUM_VAL_V02'', -2147483647),
    (''eQMI_LOC_GNSS_AIDING_DL_CAUSE_LEGACY_V02'', 1),
    (''eQMI_LOC_GNSS_AIDING_DL_CAUSE_EMERGENCY_V02'', 2),
    (''QMILOCGNSSAIDINGDLCAUSEENUMT_MAX_ENUM_VAL_V02'', 2147483647)]"

definition qmiLocAssistanceServerUrlStructT_v02 :: cty where
  "qmiLocAssistanceServerUrlStructT_v02 = CStruct [
    (''serverUrl'', CArr (CPrim CChar) (QMI_LOC_MAX_SERVER_ADDR_LENGTH_V02 + 1))]"

definition qmiLocTimeServerListStructT_v02 :: cty where
  "qmiLocTimeServerListStructT_v02 = CStruct [
    (''delayThreshold'', CPrim CUint32),
    (''timeServerList_len'', CPrim CUint32),
    (''timeServerList'', CArr qmiLocAssistanceServerUrlStructT_v02 (QMI_LOC_MAX_NTP_SERVERS_V02))]"

definition qmiLocEventInjectTimeReqIndMsgT_v02 :: cty where
  "qmiLocEventInjectTimeReqIndMsgT_v02 = CStruct [
    (''timeServerInfo_valid'', CPrim CUint8),
    (''timeServerInfo'', qmiLocTimeServerListStructT_v02),
    (''dlCause_valid'', CPrim CUint8),
    (''dlCause'', qmiLocGnssAidingDlCauseEnumT_v02)]"

definition qmiLocServerParamUpdateMaskT_v02 :: cty where "qmiLocServerParamUpdateMaskT_v02 = CPrim CUint64"

definition qmiLocInjectedOrbitUpdateTypeEnumT_v02 :: cty where
  "qmiLocInjectedOrbitUpdateTypeEnumT_v02 = CEnum [
    (''QMILOCINJECTEDORBITUPDATETYPEENUMT_MIN_ENUM_VAL_V02'', -2147483647),
    (''eQMI_LOC_INJECTED_ORBIT_RATE_UPDATE_V02'', 1),
    (''eQMI_LOC_INTEGRITY_RATE_UPDATE_V02'', 2),
    (''QMILOCINJECTEDORBITUPDATETYPEENUMT_MAX_ENUM_VAL_V02'', 2147483647)]"

definition qmiLocInjectedOrbitSpecialFileTypeEnumT_v02 :: cty where
  "qmiLocInjectedOrbitSpecialFileTypeEnumT_v02 = CEnum [
    (''QMILOCINJECTEDORBITSPECIALFILETYPEENUMT_MIN_ENUM_VAL_V02'', -2147483647),
    (''eQMI_LOC_INJECTED_ORBIT_FILE_XTRA_V02'', 1),
    (''eQMI_LOC_INJECTED_ORBIT_FILE_NAVIC_V02'', 2),
    (''QMILOCINJECTEDORBITSPECIALFILETYPEENUMT_MAX_ENUM_VAL_V02'', 2147483647)]"

definition qmiLocPredictedOrbitsAllowedSizesStructT_v02 :: cty where
  "qmiLocPredictedOrbitsAllowedSizesStructT_v02 = CStruct [
    (''maxFileSizeInBytes'', CPrim CUint32),
    (''maxPartSize'', CPrim CUint32)]"

definition qmiLocPredictedOrbitsServerListStructT_v02 :: cty where
  "qmiLocPredictedOrbitsServerListStructT_v02 = CStruct [
    (''serverList_len'', CPrim CUint32),
    (''serverList'', CArr qmiLocAssistanceServerUrlStructT_v02 (QMI_LOC_MAX_PREDICTED_ORBITS_SERVERS_V02))]"

definition qmiLocPredictedOrbitsSpecialFileTypeStructT_v02 :: cty where
  "qmiLocPredictedOrbitsSpecialFileTypeStructT_v02 = CStruct [
    (''fileType'', qmiLocInjectedOrbitSpecialFileTypeEnumT_v02),
    (''downloadInterval'', CPrim CUint32)]"

definition qmiLocEventInjectPredictedOrbitsReqIndMsgT_v02 :: cty where
  "qmiLocEventInjectPredictedOrbitsReqIndMsgT_v02 = CStruct [
    (''allowedSizes'', qmiLocPredictedOrbitsAllowedSizesStructT_v02),
    (''serverList_valid'', CPrim CUint8),
    (''serverList'', qmiLocPredictedOrbitsServerListStructT_v02),
    (''serverUpdateMask_valid'', CPrim CUint8),
    (''serverUpdateMask'', qmiLocServerParamUpdateMaskT_v02),
    (''updateType_valid'', CPrim CUint8),
    (''updateType'', qmiLocInjectedOrbitUpdateTypeEnumT_v02),
    (''updateRate_valid'', CPrim CUint8),
    (''updateRate'', CPrim CUint32),
    (''fileInfo_valid'', CPrim CUint8),
    (''fileInfo'', qmiLocPredictedOrbitsSpecialFileTypeStructT_v02),
    (''dlCause_valid'', CPrim CUint8),
    (''dlCause'', qmiLocGnssAidingDlCauseEnumT_v02)]"

definition qmiLocEventInjectPositionReqIndMsgT_v02 :: cty where
  "qmiLocEventInjectPositionReqIndMsgT_v02 = CStruct [
    (''latitude'', CPrim CDouble),
    (''longitude'', CPrim CDouble),
    (''horUncCircular'', CPrim CFloat),
    (''timestampUtc'', CPrim CUint64)]"

definition qmiLocEngineStateEnumT_v02 :: cty where
  "qmiLocEngineStateEnumT_v02 = CEnum [
    (''QMILOCENGINESTATEENUMT_MIN_ENUM_VAL_V02'', -2147483647),
    (''eQMI_LOC_ENGINE_STATE_ON_V02'', 1),
    (''eQMI_LOC_ENGINE_STATE_OFF_V02'', 2),
    (''QMILOCENGINESTATEENUMT_MAX_ENUM_VAL_V02'', 2147483647)]"

definition qmiLocEventEngineStateIndMsgT_v02 :: cty where
  "qmiLocEventEngineStateIndMsgT_v02 = CStruct [
    (''engineState'', qmiLocEngineStateEnumT_v02)]"

definition qmiLocFixSessionStateEnumT_v02 :: cty where
  "qmiLocFixSessionStateEnumT_v02 = CEnum [
    (''QMILOCFIXSESSIONSTATEENUMT_MIN_ENUM_VAL_V02'', -2147483647),
    (''eQMI_LOC_FIX_SESSION_STARTED_V02'', 1),
    (''eQMI_LOC_FIX_SESSION_FINISHED_V02'', 2),
    (''QMILOCFIXSESSIONSTATEENUMT_MAX_ENUM_VAL_V02'', 2147483647)]"

definition qmiLocEventFixSessionStateIndMsgT_v02 :: cty where
  "qmiLocEventFixSessionStateIndMsgT_v02 = CStruct [
    (''sessionState'', qmiLocFixSessionStateEnumT_v02),
    (''sessionId_valid'', CPrim CUint8),
    (''sessionId'', CPrim CUint8)]"

definition qmiLocWifiRequestEnumT_v02 :: cty where
  "qmiLocWifiRequestEnumT_v02 = CEnum [
    (''QMILOCWIFIREQUESTENUMT_MIN_ENUM_VAL_V02'', -2147483647),
    (''eQMI_LOC_WIFI_START_PERIODIC_HI_FREQ_FIXES_V02'', 0),
    (''eQMI_LOC_WIFI_START_PERIODIC_KEEP_WARM_V02'', 1),
    (''eQMI_LOC_WIFI_STOP_PERIODIC_FIXES_V02'', 2),
    (''QMILOCWIFIREQUESTENUMT_MAX_ENUM_VAL_V02'', 2147483647)]"

definition qmiLocEventWifiReqIndMsgT_v02 :: cty where
  "qmiLocEventWifiReqIndMsgT_v02 = CStruct [
    (''requestType'', qmiLocWifiRequestEnumT_v02),
    (''tbfInMs_valid'', CPrim CUint8),
    (''tbfInMs'', CPrim CUint16),
    (''e911Mode_valid'', CPrim CUint8),
    (''e911Mode'', CPrim CUint8),
    (''civicAddressNeeded_valid'', CPrim CUint8),
    (''civicAddressNeeded'', CPrim CUint8)]"

definition qmiLocSensorControlConfigSamplingSpecStructT_v02 :: cty where
  "qmiLocSensorControlConfigSamplingSpecStructT_v02 = CStruct [
    (''samplesPerBatch'', CPrim CUint16),
    (''batchesPerSecond'', CPrim CUint16)]"

definition qmiLocSensorReadyStatusStructT_v02 :: cty where
  "qmiLocSensorReadyStatusStructT_v02 = CStruct [
    (''injectEnable'', CPrim CUint8),
    (''dataFrequency'', qmiLocSensorControlConfigSamplingSpecStructT_v02)]"

definition qmiLocEventSensorStreamingReadyStatusIndMsgT_v02 :: cty where
  "qmiLocEventSensorStreamingReadyStatusIndMsgT_v02 = CStruct [
    (''accelReady_valid'', CPrim CUint8),
    (''accelReady'', qmiLocSensorReadyStatusStructT_v02),
    (''gyroReady_valid'', CPrim CUint8),
    (''gyroReady'', qmiLocSensorReadyStatusStructT_v02),
    (''accelTemperatureReady_valid'', CPrim CUint8),
    (''accelTemperatureReady'', qmiLocSensorReadyStatusStructT_v02),
    (''gyroTemperatureReady_valid'', CPrim CUint8),
    (''gyroTemperatureReady'', qmiLocSensorReadyStatusStructT_v02),
    (''calibratedMagReady_valid'', CPrim CUint8),
    (''calibratedMagReady'', qmiLocSensorReadyStatusStructT_v02),
    (''uncalibratedMagReady_valid'', CPrim CUint8),
    (''uncalibratedMagReady'', qmiLocSensorReadyStatusStructT_v02)]"

definition qmiLocEventTimeSyncReqIndMsgT_v02 :: cty where
  "qmiLocEventTimeSyncReqIndMsgT_v02 = CStruct [
    (''refCounter'', CPrim CUint32)]"

definition qmiLocEventSetSpiStreamingReportIndMsgT_v02 :: cty where
  "qmiLocEventSetSpiStreamingReportIndMsgT_v02 = CStruct [
    (''enable'', CPrim CUint8)]"

definition qmiLocWWANTypeEnumT_v02 :: cty where
  "qmiLocWWANTypeEnumT_v02 = CEnum [
    (''QMILOCWWANTYPEENUMT_MIN_ENUM_VAL_V02'', -2147483647),
    (''eQMI_LOC_WWAN_TYPE_INTERNET_V02'', 0),
    (''eQMI_LOC_WWAN_TYPE_AGNSS_V02'', 1),
    (''eQMI_LOC_WWAN_TYPE_AGNSS_EMERGENCY_V02'', 2),
    (''QMILOCWWANTYPEENUMT_MAX_ENUM_VAL_V02'', 2147483647)]"

definition qmiLocServerRequestEnumT_v02 :: cty where
  "qmiLocServerRequestEnumT_v02 = CEnum [
    (''QMILOCSERVERREQUESTENUMT_MIN_ENUM_VAL_V02'', -2147483647),
    (''eQMI_LOC_SERVER_REQUEST_OPEN_V02'', 1),
    (''eQMI_LOC_SERVER_REQUEST_CLOSE_V02'', 2),
    (''QMILOCSERVERREQUESTENUMT_MAX_ENUM_VAL_V02'', 2147483647)]"

definition qmiLocBearerTypeEnumT_v02 :: cty where
  "qmiLocBearerTypeEnumT_v02 = CEnum [
    (''QMILOCBEARERTYPEENUMT_MIN_ENUM_VAL_V02'', -2147483647),
    (''eQMI_LOC_BEARER_TYPE_WWAN_V02'', 1),
    (''eQMI_LOC_BEARER_TYPE_WLAN_V02'', 2),
    (''eQMI_LOC_BEARER_TYPE_ANY_V02'', 3),
    (''QMILOCBEARERTYPEENUMT_MAX_ENUM_VAL_V02'', 2147483647)]"

definition qmiLocSysModemAsIdTypeEnumT_v02 :: cty where
  "qmiLocSysModemAsIdTypeEnumT_v02 = CEnum [
    (''QMILOCSYSMODEMASIDTYPEENUMT_MIN_ENUM_VAL_V02'', -2147483647),
    (''eQMI_LOC_SYS_MODEM_AS_ID_1_V02'', 0),
    (''eQMI_LOC_SYS_MODEM_AS_ID_2_V02'', 1),
    (''eQMI_LOC_SYS_MODEM_AS_ID_3_V02'', 2),
    (''QMILOCSYSMODEMASIDTYPEENUMT_MAX_ENUM_VAL_V02'', 2147483647)]"

definition qmiLocApnTypeMaskT_v02 :: cty where "qmiLocApnTypeMaskT_v02 = CPrim CUint64"

definition qmiLocEventLocationServerConnectionReqIndMsgT_v02 :: cty where
  "qmiLocEventLocationServerConnectionReqIndMsgT_v02 = CStruct [
    (''connHandle'', CPrim CUint32),
    (''requestType'', qmiLocServerRequestEnumT_v02),
    (''wwanType'', qmiLocWWANTypeEnumT_v02),
    (''bearerType_valid'', CPrim CUint8),
    (''bearerType'', qmiLocBearerTypeEnumT_v02),
    (''apnTypeMask_valid'', CPrim CUint8),
    (''apnTypeMask'', qmiLocApnTypeMaskT_v02),
    (''subId_valid'', CPrim CUint8),
    (''subId'', qmiLocSysModemAsIdTypeEnumT_v02),
    (''connectionRequestTimeout_valid'', CPrim CUint8),
    (''connectionRequestTimeout'', CPrim CUint32)]"

definition qmiLocNiGeofenceOperationEnumT_v02 :: cty where
  "qmiLocNiGeofenceOperationEnumT_v02 = CEnum [
    (''QMILOCNIGEOFENCEOPERATIONENUMT_MIN_ENUM_VAL_V02'', -2147483647),
    (''eQMI_LOC_NI_GEOFENCE_ADDED_V02'', 1),
    (''eQMI_LOC_NI_GEOFENCE_DELETED_V02'', 2),
    (''eQMI_LOC_NI_GEOFENCE_EDITED_V02'', 3),
    (''QMILOCNIGEOFENCEOPERATIONENUMT_MAX_ENUM_VAL_V02'', 2147483647)]"

definition qmiLocEventNiGeofenceNotificationIndMsgT_v02 :: cty where
  "qmiLocEventNiGeofenceNotificationIndMsgT_v02 = CStruct [
    (''geofenceId'', CPrim CUint32),
    (''operationType'', qmiLocNiGeofenceOperationEnumT_v02)]"

definition qmiLocGeofenceGenAlertEnumT_v02 :: cty where
  "qmiLocGeofenceGenAlertEnumT_v02 = CEnum [
    (''QMILOCGEOFENCEGENALERTENUMT_MIN_ENUM_VAL_V02'', -2147483647),
    (''eQMI_LOC_GEOFENCE_GEN_ALERT_GNSS_UNAVAILABLE_V02'', 1),
    (''eQMI_LOC_GEOFENCE_GEN_ALERT_GNSS_AVAILABLE_V02'', 2),
    (''eQMI_LOC_GEOFENCE_GEN_ALERT_OOS_V02'', 3),
    (''eQMI_LOC_GEOFENCE_GEN_ALERT_TIME_INVALID_V02'', 4),
    (''eQMI_LOC_GEOFENCE_GEN_ALERT_GNSS_SESS_START_V02'', 5),
    (''eQMI_LOC_GEOFENCE_GEN_ALERT_CPI_START_V02'', 6),
    (''QMILOCGEOFENCEGENALERTENUMT_MAX_ENUM_VAL_V02'', 2147483647)]"

definition qmiLocEventGeofenceGenAlertIndMsgT_v02 :: cty where
  "qmiLocEventGeofenceGenAlertIndMsgT_v02 = CStruct [
    (''geofenceAlert'', qmiLocGeofenceGenAlertEnumT_v02)]"

definition qmiLocGeofenceBreachTypeEnumT_v02 :: cty where
  "qmiLocGeofenceBreachTypeEnumT_v02 = CEnum [
    (''QMILOCGEOFENCEBREACHTYPEENUMT_MIN_ENUM_VAL_V02'', -2147483647),
    (''eQMI_LOC_GEOFENCE_BREACH_TYPE_ENTERING_V02'', 1),
    (''eQMI_LOC_GEOFENCE_BREACH_TYPE_LEAVING_V02'', 2),
    (''QMILOCGEOFENCEBREACHTYPEENUMT_MAX_ENUM_VAL_V02'', 2147483647)]"

definition qmiLocGeofencePositionStructT_v02 :: cty where
  "qmiLocGeofencePositionStructT_v02 = CStruct [
    (''timestampUtc'', CPrim CUint64),
    (''latitude'', CPrim CDouble),
    (''longitude'', CPrim CDouble),
    (''horUncEllipseSemiMinor'', CPrim CFloat),
    (''horUncEllipseSemiMajor'', CPrim CFloat),
    (''horUncEllipseOrientAzimuth'', CPrim CFloat),
    (''speedHorizontal_valid'', CPrim CUint8),
    (''speedHorizontal'', CPrim CFloat),
    (''altitudeWrtEllipsoid_valid'', CPrim CUint8),
    (''altitudeWrtEllipsoid'', CPrim CFloat),
    (''vertUnc_valid'', CPrim CUint8),
    (''vertUnc'', CPrim CFloat),
    (''speedVertical_valid'', CPrim CUint8),
    (''speedVertical'', CPrim CFloat),
    (''heading_valid'', CPrim CUint8),
    (''heading'', CPrim CFloat)]"

definition qmiLocGeofenceConfidenceEnumT_v02 :: cty where
  "qmiLocGeofenceConfidenceEnumT_v02 = CEnum [
    (''QMILOCGEOFENCECONFIDENCEENUMT_MIN_ENUM_VAL_V02'', -2147483647),
    (''eQMI_LOC_GEOFENCE_CONFIDENCE_LOW_V02'', 1),
    (''eQMI_LOC_GEOFENCE_CONFIDENCE_MED_V02'', 2),
    (''eQMI_LOC_GEOFENCE_CONFIDENCE_HIGH_V02'', 3),
    (''QMILOCGEOFENCECONFIDENCEENUMT_MAX_ENUM_VAL_V02'', 2147483647)]"

definition qmiLocEventGeofenceBreachIndMsgT_v02 :: cty where
  "qmiLocEventGeofenceBreachIndMsgT_v02 = CStruct [
    (''geofenceId'', CPrim CUint32),
    (''breachType'', qmiLocGeofenceBreachTypeEnumT_v02),
    (''geofencePosition_valid'', CPrim CUint8),
    (''geofencePosition'', qmiLocGeofencePositionStructT_v02),
    (''breachConfidence_valid'', CPrim CUint8),
    (''breachConfidence'', qmiLocGeofenceConfidenceEnumT_v02)]"

definition qmiLocEventPedometerControlIndMsgT_v02 :: cty where
  "qmiLocEventPedometerControlIndMsgT_v02 = CStruct [
    (''requestPedometerData'', CPrim CUint8),
    (''resetStepCount_valid'', CPrim CUint8),
    (''resetStepCount'', CPrim CUint8),
    (''stepCountThreshold_valid'', CPrim CUint8),
    (''stepCountThreshold'', CPrim CUint32)]"

definition qmiLocEventMotionDataControlIndMsgT_v02 :: cty where
  "qmiLocEventMotionDataControlIndMsgT_v02 = CStruct [
    (''requestMotionData'', CPrim CUint8)]"

definition qmiLocGeofenceIdContinuousStructT_v02 :: cty where
  "qmiLocGeofenceIdContinuousStructT_v02 = CStruct [
    (''idLow'', CPrim CUint32),
    (''idHigh'', CPrim CUint32)]"

definition qmiLocEventGeofenceBatchedBreachIndMsgT_v02 :: cty where
  "qmiLocEventGeofenceBatchedBreachIndMsgT_v02 = CStruct [
    (''breachType'', qmiLocGeofenceBreachTypeEnumT_v02),
    (''geofenceIdContinuousList_valid'', CPrim CUint8),
    (''geofenceIdContinuousList_len'', CPrim CUint32),
    (''geofenceIdContinuousList'', CArr qmiLocGeofenceIdContinuousStructT_v02 (QMI_LOC_MAX_GEOFENCE_ID_CONTINUOUS_LIST_LENGTH_V02)),
    (''geofenceIdDiscreteList_valid'', CPrim CUint8),
    (''geofenceIdDiscreteList_len'', CPrim CUint32),
    (''geofenceIdDiscreteList'', CArr (CPrim CUint32) (QMI_LOC_MAX_GEOFENCE_ID_DISCRETE_LIST_LENGTH_V02)),
    (''geofencePosition_valid'', CPrim CUint8),
    (''geofencePosition'', qmiLocGeofencePositionStructT_v02),
    (''breachConfidence_valid'', CPrim CUint8),
    (''breachConfidence'', qmiLocGeofenceConfidenceEnumT_v02),
    (''headingUnc_valid'', CPrim CUint8),
    (''headingUnc'', CPrim CFloat),
    (''vertUnc_valid'', CPrim CUint8),
    (''vertUnc'', CPrim CFloat),
    (''speedUnc_valid'', CPrim CUint8),
    (''speedUnc'', CPrim CFloat),
    (''horConfidence_valid'', CPrim CUint8),
    (''horConfidence'', CPrim CUint8),
    (''vertConfidence_valid'', CPrim CUint8),
    (''vertConfidence'', CPrim CUint8),
    (''DOP_valid'', CPrim CUint8),
    (''DOP'', qmiLocDOPStructT_v02),
    (''gnssSvUsedList_valid'', CPrim CUint8),
    (''gnssSvUsedList_len'', CPrim CUint32),
    (''gnssSvUsedList'', CArr (CPrim CUint16) (QMI_LOC_MAX_SV_USED_LIST_LENGTH_V02)),
    (''extDOP_valid'', CPrim CUint8),
    (''extDOP'', qmiLocExtDOPStructT_v02),
    (''expandedGnssSvUsedList_valid'', CPrim CUint8),
    (''expandedGnssSvUsedList_len'', CPrim CUint32),
    (''expandedGnssSvUsedList'', CArr (CPrim CUint16) (QMI_LOC_EXPANDED_SV_INFO_LIST_MAX_SIZE_V02)),
    (''gnssSvUsedSignalTypeList_valid'', CPrim CUint8),
    (''gnssSvUsedSignalTypeList_len'', CPrim CUint32),
    (''gnssSvUsedSignalTypeList'', CArr qmiLocGnssSignalTypeMaskT_v02 (QMI_LOC_EXPANDED_SV_INFO_LIST_MAX_SIZE_V02))]"

definition qmiLocGeofenceProximityTypeEnumT_v02 :: cty where
  "qmiLocGeofenceProximityTypeEnumT_v02 = CEnum [
    (''QMILOCGEOFENCEPROXIMITYTYPEENUMT_MIN_ENUM_VAL_V02'', -2147483647),
    (''eQMI_LOC_GEOFENCE_PROXIMITY_TYPE_IN_V02'', 1),
    (''eQMI_LOC_GEOFENCE_PROXIMITY_TYPE_OUT_V02'', 2),
    (''QMILOCGEOFENCEPROXIMITYTYPEENUMT_MAX_ENUM_VAL_V02'', 2147483647)]"

definition qmiLocEventGeofenceProximityIndMsgT_v02 :: cty where
  "qmiLocEventGeofenceProximityIndMsgT_v02 = CStruct [
    (''proximityType'', qmiLocGeofenceProximityTypeEnumT_v02),
    (''geofenceId'', CPrim CUint32),
    (''contextId_valid'', CPrim CUint8),
    (''contextId'', CPrim CUint32)]"

definition qmiLocGeofenceDwellTypeEnumT_v02 :: cty where
  "qmiLocGeofenceDwellTypeEnumT_v02 = CEnum [
    (''QMILOCGEOFENCEDWELLTYPEENUMT_MIN_ENUM_VAL_V02'', -2147483647),
    (''eQMI_LOC_GEOFENCE_DWELL_TYPE_INSIDE_V02'', 1),
    (''eQMI_LOC_GEOFENCE_DWELL_TYPE_OUTSIDE_V02'', 2),
    (''QMILOCGEOFENCEDWELLTYPEENUMT_MAX_ENUM_VAL_V02'', 2147483647)]"

definition qmiLocEventGeofenceBatchedDwellIndMsgT_v02 :: cty where
  "qmiLocEventGeofenceBatchedDwellIndMsgT_v02 = CStruct [
    (''dwellType'', qmiLocGeofenceDwellTypeEnumT_v02),
    (''geofenceIdContinuousList_valid'', CPrim CUint8),
    (''geofenceIdContinuousList_len'', CPrim CUint32),
    (''geofenceIdContinuousList'', CArr qmiLocGeofenceIdContinuousStructT_v02 (QMI_LOC_MAX_GEOFENCE_ID_CONTINUOUS_LIST_LENGTH_V02)),
    (''geofenceIdDiscreteList_valid'', CPrim CUint8),
    (''geofenceIdDiscreteList_len'', CPrim CUint32),
    (''geofenceIdDiscreteList'', CArr (CPrim CUint32) (QMI_LOC_MAX_GEOFENCE_ID_DISCRETE_LIST_LENGTH_V02)),
    (''geofencePosition_valid'', CPrim CUint8),
    (''geofencePosition'', qmiLocGeofencePositionStructT_v02),
    (''headingUnc_valid'', CPrim CUint8),
    (''headingUnc'', CPrim CFloat),
    (''vertUnc_valid'', CPrim CUint8),
    (''vertUnc'', CPrim CFloat),
    (''speedUnc_valid'', CPrim CUint8),
    (''speedUnc'', CPrim CFloat),
    (''horConfidence_valid'', CPrim CUint8),
    (''horConfidence'', CPrim CUint8),
    (''vertConfidence_valid'', CPrim CUint8),
    (''vertConfidence'', CPrim CUint8),
    (''DOP_valid'', CPrim CUint8),
    (''DOP'', qmiLocDOPStructT_v02),
    (''gnssSvUsedList_valid'', CPrim CUint8),
    (''gnssSvUsedList_len'', CPrim CUint32),
    (''gnssSvUsedList'', CArr (CPrim CUint16) (QMI_LOC_MAX_SV_USED_LIST_LENGTH_V02)),
    (''extDOP_valid'', CPrim CUint8),
    (''extDOP'', qmiLocExtDOPStructT_v02),
    (''expandedGnssSvUsedList_valid'', CPrim CUint8),
    (''expandedGnssSvUsedList_len'', CPrim CUint32),
    (''expandedGnssSvUsedList'', CArr (CPrim CUint16) (QMI_LOC_EXPANDED_SV_INFO_LIST_MAX_SIZE_V02)),
    (''gnssSvUsedSignalTypeList_valid'', CPrim CUint8),
    (''gnssSvUsedSignalTypeList_len'', CPrim CUint32),
    (''gnssSvUsedSignalTypeList'', CArr qmiLocGnssSignalTypeMaskT_v02 (QMI_LOC_EXPANDED_SV_INFO_LIST_MAX_SIZE_V02))]"

definition qmiLocGdtServiceIdEnumT_v02 :: cty where
  "qmiLocGdtServiceIdEnumT_v02 = CEnum [
    (''QMILOCGDTSERVICEIDENUMT_MIN_ENUM_VAL_V02'', -2147483647),
    (''eQMI_LOC_GDT_SERVICE_WWAN_V02'', 1),
    (''eQMI_LOC_GDT_SERVICE_WWAN_DL_V02'', 2),
    (''eQMI_LOC_GDT_SERVICE_CSM_UL_V02'', 3),
    (''QMILOCGDTSERVICEIDENUMT_MAX_ENUM_VAL_V02'', 2147483647)]"

definition qmiLocGdtAccessStatusEnumT_v02 :: cty where
  "qmiLocGdtAccessStatusEnumT_v02 = CEnum [
    (''QMILOCGDTACCESSSTATUSENUMT_MIN_ENUM_VAL_V02'', -2147483647),
    (''eQMI_LOC_GDT_ACCESS_ALLOWED_V02'', 1),
    (''eQMI_LOC_GDT_ACCESS_FAILED_V02'', 2),
    (''eQMI_LOC_GDT_ACCESS_NOT_ALLOWED_V02'', 3),
    (''QMILOCGDTACCESSSTATUSENUMT_MAX_ENUM_VAL_V02'', 2147483647)]"

definition qmiLocEventGdtUploadBeginStatusReqIndMsgT_v02 :: cty where
  "qmiLocEventGdtUploadBeginStatusReqIndMsgT_v02 = CStruct [
    (''serviceId'', qmiLocGdtServiceIdEnumT_v02),
    (''sessionId'', CPrim CUint32),
    (''filePath_len'', CPrim CUint32),
    (''filePath'', CArr (CPrim CChar) (QMI_LOC_MAX_GDT_PATH_LEN_V02))]"

definition qmiLocGdtEndStatusEnumT_v02 :: cty where
  "qmiLocGdtEndStatusEnumT_v02 = CEnum [
    (''QMILOCGDTENDSTATUSENUMT_MIN_ENUM_VAL_V02'', -2147483647),
    (''eQMI_LOC_GDT_SUCCESS_V02'', 1),
    (''eQMI_LOC_GDT_FAILED_V02'', 2),
    (''eQMI_LOC_GDT_INVALID_V02'', 3),
    (''QMILOCGDTENDSTATUSENUMT_MAX_ENUM_VAL_V02'', 2147483647)]"

definition qmiLocEventGdtUploadEndReqIndMsgT_v02 :: cty where
  "qmiLocEventGdtUploadEndReqIndMsgT_v02 = CStruct [
    (''serviceId'', qmiLocGdtServiceIdEnumT_v02),
    (''sessionId'', CPrim CUint32),
    (''endStatus'', qmiLocGdtEndStatusEnumT_v02)]"

definition qmiLocGdtDownloadReqMaskT_v02 :: cty where "qmiLocGdtDownloadReqMaskT_v02 = CPrim CUint32"

definition qmiLocEventGdtDownloadBeginReqIndMsgT_v02 :: cty where
  "qmiLocEventGdtDownloadBeginReqIndMsgT_v02 = CStruct [
    (''serviceId'', qmiLocGdtServiceIdEnumT_v02),
    (''sessionId'', CPrim CUint32),
    (''respTimeoutInterval'', CPrim CUint32),
    (''clientInfo_len'', CPrim CUint32),
    (''clientInfo'', CArr (CPrim CUint8) (QMI_LOC_MAX_GTP_CL_INFO_LEN_V02)),
    (''mobileStatusData_len'', CPrim CUint32),
    (''mobileStatusData'', CArr (CPrim CUint8) (QMI_LOC_MAX_GTP_MSD_LEN_V02)),
    (''filePath_len'', CPrim CUint32),
    (''filePath'', CArr (CPrim CChar) (QMI_LOC_MAX_GDT_PATH_LEN_V02)),
    (''powerBudgetInfo_valid'', CPrim CUint8),
    (''powerBudgetInfo'', CPrim CUint32),
    (''powerBudgetAllowance_valid'', CPrim CUint8),
    (''powerBudgetAllowance'', CPrim CUint32),
    (''downloadRequestMask_valid'', CPrim CUint8),
    (''downloadRequestMask'', qmiLocGdtDownloadReqMaskT_v02)]"

definition qmiLocGdtReceiveStatusEnumT_v02 :: cty where
  "qmiLocGdtReceiveStatusEnumT_v02 = CEnum [
    (''QMILOCGDTRECEIVESTATUSENUMT_MIN_ENUM_VAL_V02'', -2147483647),
    (''eQMI_LOC_GTP_RCV_STATUS_CONTINUE_V02'', 1),
    (''eQMI_LOC_GTP_RCV_STATUS_DONE_V02'', 2),
    (''QMILOCGDTRECEIVESTATUSENUMT_MAX_ENUM_VAL_V02'', 2147483647)]"

definition qmiLocEventGdtReceiveDoneIndMsgT_v02 :: cty where
  "qmiLocEventGdtReceiveDoneIndMsgT_v02 = CStruct [
    (''serviceId'', qmiLocGdtServiceIdEnumT_v02),
    (''sessionId'', CPrim CUint32),
    (''status'', qmiLocGdtReceiveStatusEnumT_v02)]"

definition qmiLocEventGdtDownloadEndReqIndMsgT_v02 :: cty where
  "qmiLocEventGdtDownloadEndReqIndMsgT_v02 = CStruct [
    (''serviceId'', qmiLocGdtServiceIdEnumT_v02),
    (''sessionId'', CPrim CUint32),
    (''status'', qmiLocStatusEnumT_v02)]"

definition qmiLocGetServiceRevisionReqMsgT_v02 :: cty where
  "qmiLocGetServiceRevisionReqMsgT_v02 = CStruct [
    (''__placeholder'', CPrim CChar)]"

definition qmiLocGetServiceRevisionIndMsgT_v02 :: cty where
  "qmiLocGetServiceRevisionIndMsgT_v02 = CStruct [
    (''status'', qmiLocStatusEnumT_v02),
    (''revision'', CPrim CUint32),
    (''gnssMeFWVerString_valid'', CPrim CUint8),
    (''gnssMeFWVerString'', CArr (CPrim CChar) (QMI_LOC_GNSS_ME_VERSION_STRING_MAX_LENGTH_V02 + 1)),
    (''gnssHostSWVerString_valid'', CPrim CUint8),
    (''gnssHostSWVerString'', CArr (CPrim CChar) (QMI_LOC_GNSS_HOSTED_SW_VERSION_STRING_MAX_LENGTH_V02 + 1)),
    (''gnssSWVerString_valid'', CPrim CUint8),
    (''gnssSWVerString'', CArr (CPrim CChar) (QMI_LOC_GNSS_SW_VERSION_STRING_MAX_LENGTH_V02 + 1))]"

definition qmiLocGetFixCriteriaReqMsgT_v02 :: cty where
  "qmiLocGetFixCriteriaReqMsgT_v02 = CStruct [
    (''__placeholder'', CPrim CChar)]"

definition qmiLocGetFixCriteriaIndMsgT_v02 :: cty where
  "qmiLocGetFixCriteriaIndMsgT_v02 = CStruct [
    (''status'', qmiLocStatusEnumT_v02),
    (''horizontalAccuracyLevel_valid'', CPrim CUint8),
    (''horizontalAccuracyLevel'', qmiLocAccuracyLevelEnumT_v02),
    (''intermediateReportState_valid'', CPrim CUint8),
    (''intermediateReportState'', qmiLocIntermediateReportStateEnumT_v02),
    (''minInterval_valid'', CPrim CUint8),
    (''minInterval'', CPrim CUint32),
    (''applicationId_valid'', CPrim CUint8),
    (''applicationId'', qmiLocApplicationIdStructT_v02),
    (''configAltitudeAssumed_valid'', CPrim CUint8),
    (''configAltitudeAssumed'', qmiLocConfigIncludeAltitudeAssumedInGnssSvInfoEnumT_v02),
    (''minIntermediatePositionReportInterval_valid'', CPrim CUint8),
    (''minIntermediatePositionReportInterval'', CPrim CUint32),
    (''positionReportTimeout_valid'', CPrim CUint8),
    (''positionReportTimeout'', CPrim CUint32),
    (''sharePosition_valid'', CPrim CUint8),
    (''sharePosition'', CPrim CUint8),
    (''powerMode_valid'', CPrim CUint8),
    (''powerMode'', qmiLocPowerModeStructT_v02)]"

definition qmiLocNiUserRespEnumT_v02 :: cty where
  "qmiLocNiUserRespEnumT_v02 = CEnum [
    (''QMILOCNIUSERRESPENUMT_MIN_ENUM_VAL_V02'', -2147483647),
    (''eQMI_LOC_NI_LCS_NOTIFY_VERIFY_ACCEPT_V02'', 1),
    (''eQMI_LOC_NI_LCS_NOTIFY_VERIFY_DENY_V02'', 2),
    (''eQMI_LOC_NI_LCS_NOTIFY_VERIFY_NORESP_V02'', 3),
    (''QMILOCNIUSERRESPENUMT_MAX_ENUM_VAL_V02'', 2147483647)]"

definition qmiLocNiUserRespReqMsgT_v02 :: cty where
  "qmiLocNiUserRespReqMsgT_v02 = CStruct [
    (''userResp'', qmiLocNiUserRespEnumT_v02),
    (''notificationType'', qmiLocNiNotifyVerifyEnumT_v02),
    (''NiVxPayload_valid'', CPrim CUint8),
    (''NiVxPayload'', qmiLocNiVxNotifyVerifyStructT_v02),
    (''NiSuplPayload_valid'', CPrim CUint8),
    (''NiSuplPayload'', qmiLocNiSuplNotifyVerifyStructT_v02),
    (''NiUmtsCpPayload_valid'', CPrim CUint8),
    (''NiUmtsCpPayload'', qmiLocNiUmtsCpNotifyVerifyStructT_v02),
    (''NiVxServiceInteractionPayload_valid'', CPrim CUint8),
    (''NiVxServiceInteractionPayload'', qmiLocNiVxServiceInteractionStructT_v02),
    (''NiSuplVer2ExtPayload_valid'', CPrim CUint8),
    (''NiSuplVer2ExtPayload'', qmiLocNiSuplVer2ExtStructT_v02),
    (''suplEmergencyNotification_valid'', CPrim CUint8),
    (''suplEmergencyNotification'', qmiLocEmergencyNotificationStructT_v02)]"

definition qmiLocNiUserRespIndMsgT_v02 :: cty where
  "qmiLocNiUserRespIndMsgT_v02 = CStruct [
    (''status'', qmiLocStatusEnumT_v02)]"

definition qmiLocPredictedOrbitsDataFormatEnumT_v02 :: cty where
  "qmiLocPredictedOrbitsDataFormatEnumT_v02 = CEnum [
    (''QMILOCPREDICTEDORBITSDATAFORMATENUMT_MIN_ENUM_VAL_V02'', -2147483647),
    (''eQMI_LOC_PREDICTED_ORBITS_XTRA_V02'', 0),
    (''QMILOCPREDICTEDORBITSDATAFORMATENUMT_MAX_ENUM_VAL_V02'', 2147483647)]"

definition qmiLocInjectPredictedOrbitsDataReqMsgT_v02 :: cty where
  "qmiLocInjectPredictedOrbitsDataReqMsgT_v02 = CStruct [
    (''totalSize'', CPrim CUint32),
    (''totalParts'', CPrim CUint16),
    (''partNum'', CPrim CUint16),
    (''partData_len'', CPrim CUint32),
    (''partData'', CArr (CPrim CChar) (QMI_LOC_MAX_PREDICTED_ORBITS_PART_LEN_V02)),
    (''formatType_valid'', CPrim CUint8),
    (''formatType'', qmiLocPredictedOrbitsDataFormatEnumT_v02)]"

definition qmiLocInjectPredictedOrbitsDataIndMsgT_v02 :: cty where
  "qmiLocInjectPredictedOrbitsDataIndMsgT_v02 = CStruct [
    (''status'', qmiLocStatusEnumT_v02),
    (''partNum_valid'', CPrim CUint8),
    (''partNum'', CPrim CUint16)]"

definition qmiLocGetPredictedOrbitsDataSourceReqMsgT_v02 :: cty where
  "qmiLocGetPredictedOrbitsDataSourceReqMsgT_v02 = CStruct [
    (''__placeholder'', CPrim CChar)]"

definition qmiLocGetPredictedOrbitsDataSourceIndMsgT_v02 :: cty where
  "qmiLocGetPredictedOrbitsDataSourceIndMsgT_v02 = CStruct [
    (''status'', qmiLocStatusEnumT_v02),
    (''allowedSizes_valid'', CPrim CUint8),
    (''allowedSizes'', qmiLocPredictedOrbitsAllowedSizesStructT_v02),
    (''serverList_valid'', CPrim CUint8),
    (''serverList'', qmiLocPredictedOrbitsServerListStructT_v02)]"

definition qmiLocGetPredictedOrbitsDataValidityReqMsgT_v02 :: cty where
  "qmiLocGetPredictedOrbitsDataValidityReqMsgT_v02 = CStruct [
    (''__placeholder'', CPrim CChar)]"

definition qmiLocPredictedOrbitsDataValidityStructT_v02 :: cty where
  "qmiLocPredictedOrbitsDataValidityStructT_v02 = CStruct [
    (''startTimeInUTC'', CPrim CUint64),
    (''durationHours'', CPrim CUint16)]"

definition qmiLocGetPredictedOrbitsDataValidityIndMsgT_v02 :: cty where
  "qmiLocGetPredictedOrbitsDataValidityIndMsgT_v02 = CStruct [
    (''status'', qmiLocStatusEnumT_v02),
    (''validityInfo_valid'', CPrim CUint8),
    (''validityInfo'', qmiLocPredictedOrbitsDataValidityStructT_v02)]"

definition qmiLocCoarseTimeEnumT_v02 :: cty where
  "qmiLocCoarseTimeEnumT_v02 = CEnum [
    (''QMILOCCOARSETIMEENUMT_MIN_ENUM_VAL_V02'', -2147483647),
    (''eQMI_LOC_COARSE_TIME_UNKNOWN_V02'', 0),
    (''eQMI_LOC_COARSE_TIME_AP_V02'', 1),
    (''eQMI_LOC_COARSE_TIME_NTP_XTRA_V02'', 2),
    (''eQMI_LOC_COARSE_TIME_NTS_XTRA_V02'', 3),
    (''QMILOCCOARSETIMEENUMT_MAX_ENUM_VAL_V02'', 2147483647)]"

definition qmiLocInjectUtcTimeReqMsgT_v02 :: cty where
  "qmiLocInjectUtcTimeReqMsgT_v02 = CStruct [
    (''timeUtc'', CPrim CUint64),
    (''timeUnc'', CPrim CUint32),
    (''timeSrc_valid'', CPrim CUint8),
    (''timeSrc'', qmiLocCoarseTimeEnumT_v02)]"

definition qmiLocInjectUtcTimeIndMsgT_v02 :: cty where
  "qmiLocInjectUtcTimeIndMsgT_v02 = CStruct [
    (''status'', qmiLocStatusEnumT_v02)]"

definition qmiLocAltSrcEnumT_v02 :: cty where
  "qmiLocAltSrcEnumT_v02 = CEnum [
    (''QMILOCALTSRCENUMT_MIN_ENUM_VAL_V02'', -2147483647),
    (''eQMI_LOC_ALT_SRC_UNKNOWN_V02'', 0),
    (''eQMI_LOC_ALT_SRC_GPS_V02'', 1),
    (''eQMI_LOC_ALT_SRC_CELL_ID_V02'', 2),
    (''eQMI_LOC_ALT_SRC_ENHANCED_CELL_ID_V02'', 3),
    (''eQMI_LOC_ALT_SRC_WIFI_V02'', 4),
    (''eQMI_LOC_ALT_SRC_TERRESTRIAL_V02'', 5),
    (''eQMI_LOC_ALT_SRC_TERRESTRIAL_HYBRID_V02'', 6),
    (''eQMI_LOC_ALT_SRC_ALTITUDE_DATABASE_V02'', 7),
    (''eQMI_LOC_ALT_SRC_BAROMETRIC_ALTIMETER_V02'', 8),
    (''eQMI_LOC_ALT_SRC_OTHER_V02'', 9),
    (''QMILOCALTSRCENUMT_MAX_ENUM_VAL_V02'', 2147483647)]"

definition qmiLocAltSrcLinkageEnumT_v02 :: cty where
  "qmiLocAltSrcLinkageEnumT_v02 = CEnum [
    (''QMILOCALTSRCLINKAGEENUMT_MIN_ENUM_VAL_V02'', -2147483647),
    (''eQMI_LOC_ALT_SRC_LINKAGE_NOT_SPECIFIED_V02'', 0),
    (''eQMI_LOC_ALT_SRC_LINKAGE_FULLY_INTERDEPENDENT_V02'', 1),
    (''eQMI_LOC_ALT_SRC_LINKAGE_DEPENDS_ON_LAT_LONG_V02'', 2),
    (''eQMI_LOC_ALT_SRC_LINKAGE_FULLY_INDEPENDENT_V02'', 3),
    (''QMILOCALTSRCLINKAGEENUMT_MAX_ENUM_VAL_V02'', 2147483647)]"

definition qmiLocAltSrcUncertaintyCoverageEnumT_v02 :: cty where
  "qmiLocAltSrcUncertaintyCoverageEnumT_v02 = CEnum [
    (''QMILOCALTSRCUNCERTAINTYCOVERAGEENUMT_MIN_ENUM_VAL_V02'', -2147483647),
    (''eQMI_LOC_ALT_UNCERTAINTY_NOT_SPECIFIED_V02'', 0),
    (''eQMI_LOC_ALT_UNCERTAINTY_POINT_V02'', 1),
    (''eQMI_LOC_ALT_UNCERTAINTY_FULL_V02'', 2),
    (''QMILOCALTSRCUNCERTAINTYCOVERAGEENUMT_MAX_ENUM_VAL_V02'', 2147483647)]"

definition qmiLocAltitudeSrcInfoStructT_v02 :: cty where
  "qmiLocAltitudeSrcInfoStructT_v02 = CStruct [
    (''source'', qmiLocAltSrcEnumT_v02),
    (''linkage'', qmiLocAltSrcLinkageEnumT_v02),
    (''coverage'', qmiLocAltSrcUncertaintyCoverageEnumT_v02)]"

definition qmiLocPositionSrcEnumT_v02 :: cty where
  "qmiLocPositionSrcEnumT_v02 = CEnum [
    (''QMILOCPOSITIONSRCENUMT_MIN_ENUM_VAL_V02'', -2147483647),
    (''eQMI_LOC_POSITION_SRC_GNSS_V02'', 0),
    (''eQMI_LOC_POSITION_SRC_CELLID_V02'', 1),
    (''eQMI_LOC_POSITION_SRC_ENH_CELLID_V02'', 2),
    (''eQMI_LOC_POSITION_SRC_WIFI_V02'', 3),
    (''eQMI_LOC_POSITION_SRC_TERRESTRIAL_V02'', 4),
    (''eQMI_LOC_POSITION_SRC_GNSS_TERRESTRIAL_HYBRID_V02'', 5),
    (''eQMI_LOC_POSITION_SRC_OTHER_V02'', 6),
    (''eQMI_LOC_POSITION_SRC_DRE_V02'', 7),
    (''eQMI_LOC_POSITION_SRC_FLP_V02'', 8),
    (''eQMI_LOC_POSITION_SRC_NLP_V02'', 9),
    (''eQMI_LOC_POSITION_SRC_FLP_ALE_V02'', 10),
    (''QMILOCPOSITIONSRCENUMT_MAX_ENUM_VAL_V02'', 2147483647)]"

definition qmiLocPositionSrcProviderEnumT_v02 :: cty where
  "qmiLocPositionSrcProviderEnumT_v02 = CEnum [
    (''QMILOCPOSITIONSRCPROVIDERENUMT_MIN_ENUM_VAL_V02'', -2147483647),
    (''eQMI_LOC_POSITION_SRC_PROVIDER_EXTERNAL_V02'', 0),
    (''eQMI_LOC_POSITION_SRC_PROVIDER_INTERNAL_V02'', 1),
    (''QMILOCPOSITIONSRCPROVIDERENUMT_MAX_ENUM_VAL_V02'', 2147483647)]"

definition qmiLocInjectPositionReqMsgT_v02 :: cty where
  "qmiLocInjectPositionReqMsgT_v02 = CStruct [
    (''latitude_valid'', CPrim CUint8),
    (''latitude'', CPrim CDouble),
    (''longitude_valid'', CPrim CUint8),
    (''longitude'', CPrim CDouble),
    (''horUncCircular_valid'', CPrim CUint8),
    (''horUncCircular'', CPrim CFloat),
    (''horConfidence_valid'', CPrim CUint8),
    (''horConfidence'', CPrim CUint8),
    (''horReliability_valid'', CPrim CUint8),
    (''horReliability'', qmiLocReliabilityEnumT_v02),
    (''altitudeWrtEllipsoid_valid'', CPrim CUint8),
    (''altitudeWrtEllipsoid'', CPrim CFloat),
    (''altitudeWrtMeanSeaLevel_valid'', CPrim CUint8),
    (''altitudeWrtMeanSeaLevel'', CPrim CFloat),
    (''vertUnc_valid'', CPrim CUint8),
    (''vertUnc'', CPrim CFloat),
    (''vertConfidence_valid'', CPrim CUint8),
    (''vertConfidence'', CPrim CUint8),
    (''vertReliability_valid'', CPrim CUint8),
    (''vertReliability'', qmiLocReliabilityEnumT_v02),
    (''altSourceInfo_valid'', CPrim CUint8),
    (''altSourceInfo'', qmiLocAltitudeSrcInfoStructT_v02),
    (''timestampUtc_valid'', CPrim CUint8),
    (''timestampUtc'', CPrim CUint64),
    (''timestampAge_valid'', CPrim CUint8),
    (''timestampAge'', CPrim CInt32),
    (''positionSrc_valid'', CPrim CUint8),
    (''positionSrc'', qmiLocPositionSrcEnumT_v02),
    (''rawHorUncCircular_valid'', CPrim CUint8),
    (''rawHorUncCircular'', CPrim CFloat),
    (''rawHorConfidence_valid'', CPrim CUint8),
    (''rawHorConfidence'', CPrim CUint8),
    (''onDemandCpi_valid'', CPrim CUint8),
    (''onDemandCpi'', CPrim CUint8),
    (''positionSrcProvider_valid'', CPrim CUint8),
    (''positionSrcProvider'', qmiLocPositionSrcProviderEnumT_v02),
    (''gpsTime_valid'', CPrim CUint8),
    (''gpsTime'', qmiLocGPSTimeStructT_v02),
    (''timeUnc_valid'', CPrim CUint8),
    (''timeUnc'', CPrim CFloat),
    (''velEnu_valid'', CPrim CUint8),
    (''velEnu'', CArr (CPrim CFloat) (QMI_LOC_ENU_ARRAY_LENGTH_V02)),
    (''velUncEnu_valid'', CPrim CUint8),
    (''velUncEnu'', CArr (CPrim CFloat) (QMI_LOC_ENU_ARRAY_LENGTH_V02)),
    (''expandedGnssSvUsedList_valid'', CPrim CUint8),
    (''expandedGnssSvUsedList_len'', CPrim CUint32),
    (''expandedGnssSvUsedList'', CArr (CPrim CUint16) (QMI_LOC_EXPANDED_SV_INFO_LIST_MAX_SIZE_V02)),
    (''numSvInFix_valid'', CPrim CUint8),
    (''numSvInFix'', CPrim CUint8)]"

definition qmiLocInjectPositionIndMsgT_v02 :: cty where
  "qmiLocInjectPositionIndMsgT_v02 = CStruct [
    (''status'', qmiLocStatusEnumT_v02)]"

definition qmiLocLockEnumT_v02 :: cty where
  "qmiLocLockEnumT_v02 = CEnum [
    (''QMILOCLOCKENUMT_MIN_ENUM_VAL_V02'', -2147483647),
    (''eQMI_LOC_LOCK_NONE_V02'', 1),
    (''eQMI_LOC_LOCK_MI_V02'', 2),
    (''eQMI_LOC_LOCK_MT_V02'', 3),
    (''eQMI_LOC_LOCK_ALL_V02'', 4),
    (''QMILOCLOCKENUMT_MAX_ENUM_VAL_V02'', 2147483647)]"

definition qmiLocLockSubInfoEnumT_v02 :: cty where
  "qmiLocLockSubInfoEnumT_v02 = CEnum [
    (''QMILOCLOCKSUBINFOENUMT_MIN_ENUM_VAL_V02'', -2147483647),
    (''eQMI_LOC_LOCK_DV_SUB_V02'', 1),
    (''eQMI_LOC_LOCK_DD_SUB_V02'', 2),
    (''eQMI_LOC_LOCK_ALL_SUB_V02'', 3),
    (''QMILOCLOCKSUBINFOENUMT_MAX_ENUM_VAL_V02'', 2147483647)]"

definition qmiLocLockClientMaskT_v02 :: cty where "qmiLocLockClientMaskT_v02 = CPrim CUint64"

definition qmiLocClientsMaskT_v02 :: cty where "qmiLocClientsMaskT_v02 = CPrim CUint64"

definition qmiLocSetEngineLockReqMsgT_v02 :: cty where
  "qmiLocSetEngineLockReqMsgT_v02 = CStruct [
    (''lockType'', qmiLocLockEnumT_v02),
    (''subType_valid'', CPrim CUint8),
    (''subType'', qmiLocLockSubInfoEnumT_v02),
    (''lockClient_valid'', CPrim CUint8),
    (''lockClient'', qmiLocLockClientMaskT_v02),
    (''clientsConfig_valid'', CPrim CUint8),
    (''clientsConfig'', qmiLocClientsMaskT_v02)]"

definition qmiLocSetEngineLockIndMsgT_v02 :: cty where
  "qmiLocSetEngineLockIndMsgT_v02 = CStruct [
    (''status'', qmiLocStatusEnumT_v02)]"

definition qmiLocEngineLockStateEnumT_v02 :: cty where
  "qmiLocEngineLockStateEnumT_v02 = CEnum [
    (''QMILOCENGINELOCKSTATEENUMT_MIN_ENUM_VAL_V02'', -2147483647),
    (''eQMI_LOC_ENGINE_LOCK_STATE_ENABLED_V02'', 1),
    (''eQMI_LOC_ENGINE_LOCK_STATE_DISABLED_V02'', 2),
    (''QMILOCENGINELOCKSTATEENUMT_MAX_ENUM_VAL_V02'', 2147483647)]"

definition qmiLocGetEngineLockReqMsgT_v02 :: cty where
  "qmiLocGetEngineLockReqMsgT_v02 = CStruct [
    (''subType_valid'', CPrim CUint8),
    (''subType'', qmiLocLockSubInfoEnumT_v02)]"

definition qmiLocGetEngineLockIndMsgT_v02 :: cty where
  "qmiLocGetEngineLockIndMsgT_v02 = CStruct [
    (''status'', qmiLocStatusEnumT_v02),
    (''lockType_valid'', CPrim CUint8),
    (''lockType'', qmiLocLockEnumT_v02),
    (''subType_valid'', CPrim CUint8),
    (''subType'', qmiLocLockSubInfoEnumT_v02),
    (''lockClient_valid'', CPrim CUint8),
    (''lockClient'', qmiLocLockClientMaskT_v02),
    (''clientsConfig_valid'', CPrim CUint8),
    (''clientsConfig'', qmiLocClientsMaskT_v02),
    (''engineLockState_valid'', CPrim CUint8),
    (''engineLockState'', qmiLocEngineLockStateEnumT_v02)]"

definition qmiLocSetSbasConfigReqMsgT_v02 :: cty where
  "qmiLocSetSbasConfigReqMsgT_v02 = CStruct [
    (''sbasConfig'', CPrim CUint8),
    (''qzssL1sConfig_valid'', CPrim CUint8),
    (''qzssL1sConfig'', CPrim CUint8)]"

definition qmiLocSetSbasConfigIndMsgT_v02 :: cty where
  "qmiLocSetSbasConfigIndMsgT_v02 = CStruct [
    (''status'', qmiLocStatusEnumT_v02)]"

definition qmiLocGetSbasConfigReqMsgT_v02 :: cty where
  "qmiLocGetSbasConfigReqMsgT_v02 = CStruct [
    (''__placeholder'', CPrim CChar)]"

definition qmiLocGetSbasConfigIndMsgT_v02 :: cty where
  "qmiLocGetSbasConfigIndMsgT_v02 = CStruct [
    (''status'', qmiLocStatusEnumT_v02),
    (''sbasConfig_valid'', CPrim CUint8),
    (''sbasConfig'', CPrim CUint8)]"

definition qmiLocNmeaSentenceMaskT_v02 :: cty where "qmiLocNmeaSentenceMaskT_v02 = CPrim CUint32"

definition qmiLocSetNmeaTypesReqMsgT_v02 :: cty where
  "qmiLocSetNmeaTypesReqMsgT_v02 = CStruct [
    (''nmeaSentenceType'', qmiLocNmeaSentenceMaskT_v02)]"

definition qmiLocSetNmeaTypesIndMsgT_v02 :: cty where
  "qmiLocSetNmeaTypesIndMsgT_v02 = CStruct [
    (''status'', qmiLocStatusEnumT_v02)]"

definition qmiLocGetNmeaTypesReqMsgT_v02 :: cty where
  "qmiLocGetNmeaTypesReqMsgT_v02 = CStruct [
    (''__placeholder'', CPrim CChar)]"

definition qmiLocGetNmeaTypesIndMsgT_v02 :: cty where
  "qmiLocGetNmeaTypesIndMsgT_v02 = CStruct [
    (''status'', qmiLocStatusEnumT_v02),
    (''nmeaSentenceType_valid'', CPrim CUint8),
    (''nmeaSentenceType'', qmiLocNmeaSentenceMaskT_v02)]"

definition qmiLocSetLowPowerModeReqMsgT_v02 :: cty where
  "qmiLocSetLowPowerModeReqMsgT_v02 = CStruct [
    (''lowPowerMode'', CPrim CUint8)]"

definition qmiLocSetLowPowerModeIndMsgT_v02 :: cty where
  "qmiLocSetLowPowerModeIndMsgT_v02 = CStruct [
    (''status'', qmiLocStatusEnumT_v02)]"

definition qmiLocGetLowPowerModeReqMsgT_v02 :: cty where
  "qmiLocGetLowPowerModeReqMsgT_v02 = CStruct [
    (''__placeholder'', CPrim CChar)]"

definition qmiLocGetLowPowerModeIndMsgT_v02 :: cty where
  "qmiLocGetLowPowerModeIndMsgT_v02 = CStruct [
    (''status'', qmiLocStatusEnumT_v02),
    (''lowPowerMode_valid'', CPrim CUint8),
    (''lowPowerMode'', CPrim CUint8)]"

definition qmiLocServerTypeEnumT_v02 :: cty where
  "qmiLocServerTypeEnumT_v02 = CEnum [
    (''QMILOCSERVERTYPEENUMT_MIN_ENUM_VAL_V02'', -2147483647),
    (''eQMI_LOC_SERVER_TYPE_CDMA_PDE_V02'', 1),
    (''eQMI_LOC_SERVER_TYPE_CDMA_MPC_V02'', 2),
    (''eQMI_LOC_SERVER_TYPE_UMTS_SLP_V02'', 3),
    (''eQMI_LOC_SERVER_TYPE_CUSTOM_PDE_V02'', 4),
    (''eQMI_LOC_SERVER_TYPE_CUSTOM_SLP_V02'', 5),
    (''QMILOCSERVERTYPEENUMT_MAX_ENUM_VAL_V02'', 2147483647)]"

definition qmiLocSetServerReqMsgT_v02 :: cty where
  "qmiLocSetServerReqMsgT_v02 = CStruct [
    (''serverType'', qmiLocServerTypeEnumT_v02),
    (''ipv4Addr_valid'', CPrim CUint8),
    (''ipv4Addr'', qmiLocIpV4AddrStructType_v02),
    (''ipv6Addr_valid'', CPrim CUint8),
    (''ipv6Addr'', qmiLocIpV6AddrStructType_v02),
    (''urlAddr_valid'', CPrim CUint8),
    (''urlAddr'', CArr (CPrim CChar) (QMI_LOC_MAX_SERVER_ADDR_LENGTH_V02 + 1))]"

definition qmiLocSetServerIndMsgT_v02 :: cty where
  "qmiLocSetServerIndMsgT_v02 = CStruct [
    (''status'', qmiLocStatusEnumT_v02)]"

definition qmiLocGetServerReqMsgT_v02 :: cty where
  "qmiLocGetServerReqMsgT_v02 = CStruct [
    (''serverType'', qmiLocServerTypeEnumT_v02),
    (''serverAddrTypeMask_valid'', CPrim CUint8),
    (''serverAddrTypeMask'', qmiLocServerAddrTypeMaskT_v02)]"

definition qmiLocGetServerIndMsgT_v02 :: cty where
  "qmiLocGetServerIndMsgT_v02 = CStruct [
    (''status'', qmiLocStatusEnumT_v02),
    (''serverType'', qmiLocServerTypeEnumT_v02),
    (''ipv4Addr_valid'', CPrim CUint8),
    (''ipv4Addr'', qmiLocIpV4AddrStructType_v02),
    (''ipv6Addr_valid'', CPrim CUint8),
    (''ipv6Addr'', qmiLocIpV6AddrStructType_v02),
    (''urlAddr_valid'', CPrim CUint8),
    (''urlAddr'', CArr (CPrim CChar) (QMI_LOC_MAX_SERVER_ADDR_LENGTH_V02 + 1))]"

definition qmiLocDeleteGnssDataMaskT_v02 :: cty where "qmiLocDeleteGnssDataMaskT_v02 = CPrim CUint64"

definition qmiLocDeleteCelldbDataMaskT_v02 :: cty where "qmiLocDeleteCelldbDataMaskT_v02 = CPrim CUint32"

definition qmiLocDeleteClockInfoMaskT_v02 :: cty where "qmiLocDeleteClockInfoMaskT_v02 = CPrim CUint32"

definition qmiLocExtDeleteClockInfoMaskT_v02 :: cty where "qmiLocExtDeleteClockInfoMaskT_v02 = CPrim CUint64"

definition qmiLocDeleteSvInfoMaskT_v02 :: cty where "qmiLocDeleteSvInfoMaskT_v02 = CPrim CUint8"

definition qmiLocDeleteSvInfoStructT_v02 :: cty where
  "qmiLocDeleteSvInfoStructT_v02 = CStruct [
    (''gnssSvId'', CPrim CUint16),
    (''system'', qmiLocSvSystemEnumT_v02),
    (''deleteSvInfoMask'', qmiLocDeleteSvInfoMaskT_v02)]"

definition qmiLocDeleteBDSSvInfoStructT_v02 :: cty where
  "qmiLocDeleteBDSSvInfoStructT_v02 = CStruct [
    (''gnssSvId'', CPrim CUint16),
    (''deleteSvInfoMask'', qmiLocDeleteSvInfoMaskT_v02)]"

definition qmiLocDeleteGALSvInfoStructT_v02 :: cty where
  "qmiLocDeleteGALSvInfoStructT_v02 = CStruct [
    (''gnssSvId'', CPrim CUint16),
    (''deleteSvInfoMask'', qmiLocDeleteSvInfoMaskT_v02)]"

definition qmiLocDeleteAssistDataReqMsgT_v02 :: cty where
  "qmiLocDeleteAssistDataReqMsgT_v02 = CStruct [
    (''deleteAllFlag'', CPrim CUint8),
    (''deleteSvInfoList_valid'', CPrim CUint8),
    (''deleteSvInfoList_len'', CPrim CUint32),
    (''deleteSvInfoList'', CArr qmiLocDeleteSvInfoStructT_v02 (QMI_LOC_DELETE_MAX_SV_INFO_LENGTH_V02)),
    (''deleteGnssDataMask_valid'', CPrim CUint8),
    (''deleteGnssDataMask'', qmiLocDeleteGnssDataMaskT_v02),
    (''deleteCellDbDataMask_valid'', CPrim CUint8),
    (''deleteCellDbDataMask'', qmiLocDeleteCelldbDataMaskT_v02),
    (''deleteClockInfoMask_valid'', CPrim CUint8),
    (''deleteClockInfoMask'', qmiLocDeleteClockInfoMaskT_v02),
    (''deleteBdsSvInfoList_valid'', CPrim CUint8),
    (''deleteBdsSvInfoList_len'', CPrim CUint32),
    (''deleteBdsSvInfoList'', CArr qmiLocDeleteBDSSvInfoStructT_v02 (QMI_LOC_DELETE_MAX_BDS_SV_INFO_LENGTH_V02)),
    (''deleteGalSvInfoList_valid'', CPrim CUint8),
    (''deleteGalSvInfoList_len'', CPrim CUint32),
    (''deleteGalSvInfoList'', CArr qmiLocDeleteGALSvInfoStructT_v02 (QMI_LOC_DELETE_MAX_GAL_SV_INFO_LENGTH_V02)),
    (''deleteQzssL1sDataFlag_valid'', CPrim CUint8),
    (''deleteQzssL1sDataFlag'', CPrim CUint8)]"

definition qmiLocDeleteAssistDataIndMsgT_v02 :: cty where
  "qmiLocDeleteAssistDataIndMsgT_v02 = CStruct [
    (''status'', qmiLocStatusEnumT_v02)]"

definition qmiLocSetXtraTSessionControlReqMsgT_v02 :: cty where
  "qmiLocSetXtraTSessionControlReqMsgT_v02 = CStruct [
    (''xtraTSessionControl'', CPrim CUint8)]"

definition qmiLocSetXtraTSessionControlIndMsgT_v02 :: cty where
  "qmiLocSetXtraTSessionControlIndMsgT_v02 = CStruct [
    (''status'', qmiLocStatusEnumT_v02)]"

definition qmiLocGetXtraTSessionControlReqMsgT_v02 :: cty where
  "qmiLocGetXtraTSessionControlReqMsgT_v02 = CStruct [
    (''__placeholder'', CPrim CChar)]"

definition qmiLocGetXtraTSessionControlIndMsgT_v02 :: cty where
  "qmiLocGetXtraTSessionControlIndMsgT_v02 = CStruct [
    (''status'', qmiLocStatusEnumT_v02),
    (''xtraTSessionControl_valid'', CPrim CUint8),
    (''xtraTSessionControl'', CPrim CUint8)]"

definition qmiLocWifiFixTimeStructT_v02 :: cty where
  "qmiLocWifiFixTimeStructT_v02 = CStruct [
    (''wifiPositionTime'', CPrim CUint32)]"

definition qmiLocWifiFixErrorCodeEnumT_v02 :: cty where
  "qmiLocWifiFixErrorCodeEnumT_v02 = CEnum [
    (''QMILOCWIFIFIXERRORCODEENUMT_MIN_ENUM_VAL_V02'', -2147483647),
    (''eQMI_LOC_WIFI_FIX_ERROR_SUCCESS_V02'', 0),
    (''eQMI_LOC_WIFI_FIX_ERROR_WIFI_NOT_AVAILABLE_V02'', 1),
    (''eQMI_LOC_WIFI_FIX_ERROR_NO_AP_FOUND_V02'', 2),
    (''eQMI_LOC_WIFI_FIX_ERROR_UNAUTHORIZED_V02'', 3),
    (''eQMI_LOC_WIFI_FIX_ERROR_SERVER_UNAVAILABLE_V02'', 4),
    (''eQMI_LOC_WIFI_FIX_ERROR_LOCATION_CANNOT_BE_DETERMINED_V02'', 5),
    (''eQMI_LOC_WIFI_FIX_ERROR_UNKNOWN_V02'', 6),
    (''QMILOCWIFIFIXERRORCODEENUMT_MAX_ENUM_VAL_V02'', 2147483647)]"

definition qmiLocWifiFixPosStructT_v02 :: cty where
  "qmiLocWifiFixPosStructT_v02 = CStruct [
    (''lat'', CPrim CDouble),
    (''lon'', CPrim CDouble),
    (''hepe'', CPrim CUint16),
    (''numApsUsed'', CPrim CUint8),
    (''fixErrorCode'', qmiLocWifiFixErrorCodeEnumT_v02)]"

definition qmiLocWifiApQualifierMaskT_v02 :: cty where "qmiLocWifiApQualifierMaskT_v02 = CPrim CUint8"

definition qmiLocWifiApInfoStructT_v02 :: cty where
  "qmiLocWifiApInfoStructT_v02 = CStruct [
    (''macAddr'', CArr (CPrim CUint8) (QMI_LOC_WIFI_MAC_ADDR_LENGTH_V02)),
    (''rssi'', CPrim CInt32),
    (''channel'', CPrim CUint16),
    (''apQualifier'', qmiLocWifiApQualifierMaskT_v02)]"

definition qmiLocWifiApSsidStructT_v02 :: cty where
  "qmiLocWifiApSsidStructT_v02 = CStruct [
    (''ssid'', CArr (CPrim CChar) (QMI_LOC_MAX_WIFI_AP_SSID_STR_LENGTH_V02 + 1))]"

definition qmiLocInjectWifiPositionReqMsgT_v02 :: cty where
  "qmiLocInjectWifiPositionReqMsgT_v02 = CStruct [
    (''wifiFixTime_valid'', CPrim CUint8),
    (''wifiFixTime'', qmiLocWifiFixTimeStructT_v02),
    (''wifiFixPosition_valid'', CPrim CUint8),
    (''wifiFixPosition'', qmiLocWifiFixPosStructT_v02),
    (''apInfo_valid'', CPrim CUint8),
    (''apInfo_len'', CPrim CUint32),
    (''apInfo'', CArr qmiLocWifiApInfoStructT_v02 (QMI_LOC_WIFI_MAX_REPORTED_APS_PER_MSG_V02)),
    (''horizontalReliability_valid'', CPrim CUint8),
    (''horizontalReliability'', qmiLocReliabilityEnumT_v02),
    (''rawHepe_valid'', CPrim CUint8),
    (''rawHepe'', CPrim CUint16),
    (''wifiApSsidInfo_valid'', CPrim CUint8),
    (''wifiApSsidInfo_len'', CPrim CUint32),
    (''wifiApSsidInfo'', CArr qmiLocWifiApSsidStructT_v02 (QMI_LOC_WIFI_MAX_REPORTED_APS_PER_MSG_V02))]"

definition qmiLocInjectWifiPositionIndMsgT_v02 :: cty where
  "qmiLocInjectWifiPositionIndMsgT_v02 = CStruct [
    (''status'', qmiLocStatusEnumT_v02)]"

end
