(* ===== verification/LocTypes2.thy ===== *)
theory LocTypes2
  imports LocTypes1
begin

text \<open>
  C types of \<open>loc_api/loc_api_v02/location_service_v02.h\<close>, in the order of the header (part 2 of
  4): masks are the integer types they name, enumerations list their enumerators, structs their
  members. Message structs end in \<open>MsgT_v02\<close>.
\<close>

definition qmiLocWifiStatusEnumT_v02 :: cty where
  "qmiLocWifiStatusEnumT_v02 = CEnum [
    (''QMILOCWIFISTATUSENUMT_MIN_ENUM_VAL_V02'', -2147483647),
    (''eQMI_LOC_WIFI_STATUS_AVAILABLE_V02'', 1),
    (''eQMI_LOC_WIFI_STATUS_UNAVAILABLE_V02'', 2),
    (''QMILOCWIFISTATUSENUMT_MAX_ENUM_VAL_V02'', 2147483647)]"

definition qmiLocNotifyWifiStatusReqMsgT_v02 :: cty where
  "qmiLocNotifyWifiStatusReqMsgT_v02 = CStruct [
    (''wifiStatus'', qmiLocWifiStatusEnumT_v02)]"

definition qmiLocNotifyWifiStatusIndMsgT_v02 :: cty where
  "qmiLocNotifyWifiStatusIndMsgT_v02 = CStruct [
    (''status'', qmiLocStatusEnumT_v02)]"

definition qmiLocGetRegisteredEventsReqMsgT_v02 :: cty where
  "qmiLocGetRegisteredEventsReqMsgT_v02 = CStruct [
    (''__placeholder'', CPrim CChar)]"

definition qmiLocGetRegisteredEventsIndMsgT_v02 :: cty where
  "qmiLocGetRegisteredEventsIndMsgT_v02 = CStruct [
    (''status'', qmiLocStatusEnumT_v02),
    (''eventRegMask_valid'', CPrim CUint8),
    (''eventRegMask'', qmiLocEventRegMaskT_v02)]"

definition qmiLocOperationModeEnumT_v02 :: cty where
  "qmiLocOperationModeEnumT_v02 = CEnum [
    (''QMILOCOPERATIONMODEENUMT_MIN_ENUM_VAL_V02'', -2147483647),
    (''eQMI_LOC_OPER_MODE_DEFAULT_V02'', 1),
    (''eQMI_LOC_OPER_MODE_MSB_V02'', 2),
    (''eQMI_LOC_OPER_MODE_MSA_V02'', 3),
    (''eQMI_LOC_OPER_MODE_STANDALONE_V02'', 4),
    (''eQMI_LOC_OPER_MODE_CELL_ID_V02'', 5),
    (''eQMI_LOC_OPER_MODE_WWAN_V02'', 6),
    (''QMILOCOPERATIONMODEENUMT_MAX_ENUM_VAL_V02'', 2147483647)]"

definition qmiLocSetOperationModeReqMsgT_v02 :: cty where
  "qmiLocSetOperationModeReqMsgT_v02 = CStruct [
    (''operationMode'', qmiLocOperationModeEnumT_v02),
    (''minInterval_valid'', CPrim CUint8),
    (''minInterval'', CPrim CUint32)]"

definition qmiLocSetOperationModeIndMsgT_v02 :: cty where
  "qmiLocSetOperationModeIndMsgT_v02 = CStruct [
    (''status'', qmiLocStatusEnumT_v02)]"

definition qmiLocGetOperationModeReqMsgT_v02 :: cty where
  "qmiLocGetOperationModeReqMsgT_v02 = CStruct [
    (''__placeholder'', CPrim CChar)]"

definition qmiLocGetOperationModeIndMsgT_v02 :: cty where
  "qmiLocGetOperationModeIndMsgT_v02 = CStruct [
    (''status'', qmiLocStatusEnumT_v02),
    (''operationMode_valid'', CPrim CUint8),
    (''operationMode'', qmiLocOperationModeEnumT_v02)]"

definition qmiLocSetSpiStatusReqMsgT_v02 :: cty where
  "qmiLocSetSpiStatusReqMsgT_v02 = CStruct [
    (''stationary'', CPrim CUint8),
    (''confidenceStationary_valid'', CPrim CUint8),
    (''confidenceStationary'', CPrim CUint8)]"

definition qmiLocSetSpiStatusIndMsgT_v02 :: cty where
  "qmiLocSetSpiStatusIndMsgT_v02 = CStruct [
    (''status'', qmiLocStatusEnumT_v02)]"

definition qmiLocSensorDataFlagMaskT_v02 :: cty where "qmiLocSensorDataFlagMaskT_v02 = CPrim CUint8"

definition qmiLocSensorDataTimeSourceEnumT_v02 :: cty where
  "qmiLocSensorDataTimeSourceEnumT_v02 = CEnum [
    (''QMILOCSENSORDATATIMESOURCEENUMT_MIN_ENUM_VAL_V02'', -2147483647),
    (''eQMI_LOC_SENSOR_TIME_SOURCE_UNSPECIFIED_V02'', 0),
    (''eQMI_LOC_SENSOR_TIME_SOURCE_COMMON_V02'', 1),
    (''QMILOCSENSORDATATIMESOURCEENUMT_MAX_ENUM_VAL_V02'', 2147483647)]"

definition qmiLoc3AxisSensorSampleStructT_v02 :: cty where
  "qmiLoc3AxisSensorSampleStructT_v02 = CStruct [
    (''timeOffset'', CPrim CUint16),
    (''xAxis'', CPrim CFloat),
    (''yAxis'', CPrim CFloat),
    (''zAxis'', CPrim CFloat)]"

definition qmiLoc3AxisSensorSampleListStructT_v02 :: cty where
  "qmiLoc3AxisSensorSampleListStructT_v02 = CStruct [
    (''timeOfFirstSample'', CPrim CUint32),
    (''flags'', qmiLocSensorDataFlagMaskT_v02),
    (''sensorData_len'', CPrim CUint32),
    (''sensorData'', CArr qmiLoc3AxisSensorSampleStructT_v02 (QMI_LOC_SENSOR_DATA_MAX_SAMPLES_V02))]"

definition qmiLocSensorTemperatureSampleStructT_v02 :: cty where
  "qmiLocSensorTemperatureSampleStructT_v02 = CStruct [
    (''timeOffset'', CPrim CUint16),
    (''temperature'', CPrim CFloat)]"

definition qmiLocSensorTemperatureSampleListStructT_v02 :: cty where
  "qmiLocSensorTemperatureSampleListStructT_v02 = CStruct [
    (''timeSource'', qmiLocSensorDataTimeSourceEnumT_v02),
    (''timeOfFirstSample'', CPrim CUint32),
    (''temperatureData_len'', CPrim CUint32),
    (''temperatureData'', CArr qmiLocSensorTemperatureSampleStructT_v02 (QMI_LOC_SENSOR_DATA_MAX_SAMPLES_V02))]"

definition qmiLocInjectSensorDataReqMsgT_v02 :: cty where
  "qmiLocInjectSensorDataReqMsgT_v02 = CStruct [
    (''opaqueIdentifier_valid'', CPrim CUint8),
    (''opaqueIdentifier'', CPrim CUint32),
    (''threeAxisAccelData_valid'', CPrim CUint8),
    (''threeAxisAccelData'', qmiLoc3AxisSensorSampleListStructT_v02),
    (''threeAxisGyroData_valid'', CPrim CUint8),
    (''threeAxisGyroData'', qmiLoc3AxisSensorSampleListStructT_v02),
    (''threeAxisAccelDataTimeSource_valid'', CPrim CUint8),
    (''threeAxisAccelDataTimeSource'', qmiLocSensorDataTimeSourceEnumT_v02),
    (''threeAxisGyroDataTimeSource_valid'', CPrim CUint8),
    (''threeAxisGyroDataTimeSource'', qmiLocSensorDataTimeSourceEnumT_v02),
    (''accelTemperatureData_valid'', CPrim CUint8),
    (''accelTemperatureData'', qmiLocSensorTemperatureSampleListStructT_v02),
    (''gyroTemperatureData_valid'', CPrim CUint8),
    (''gyroTemperatureData'', qmiLocSensorTemperatureSampleListStructT_v02),
    (''threeAxisMagData_valid'', CPrim CUint8),
    (''threeAxisMagData'', qmiLoc3AxisSensorSampleListStructT_v02),
    (''threeAxisMagDataTimeSource_valid'', CPrim CUint8),
    (''threeAxisMagDataTimeSource'', qmiLocSensorDataTimeSourceEnumT_v02)]"

definition qmiLocInjectSensorDataIndMsgT_v02 :: cty where
  "qmiLocInjectSensorDataIndMsgT_v02 = CStruct [
    (''status'', qmiLocStatusEnumT_v02),
    (''opaqueIdentifier_valid'', CPrim CUint8),
    (''opaqueIdentifier'', CPrim CUint32),
    (''threeAxisAccelSamplesAccepted_valid'', CPrim CUint8),
    (''threeAxisAccelSamplesAccepted'', CPrim CUint8),
    (''threeAxisGyroSamplesAccepted_valid'', CPrim CUint8),
    (''threeAxisGyroSamplesAccepted'', CPrim CUint8),
    (''accelTemperatureSamplesAccepted_valid'', CPrim CUint8),
    (''accelTemperatureSamplesAccepted'', CPrim CUint8),
    (''gyroTemperatureSamplesAccepted_valid'', CPrim CUint8),
    (''gyroTemperatureSamplesAccepted'', CPrim CUint8),
    (''threeAxisMagSamplesAccepted_valid'', CPrim CUint8),
    (''threeAxisMagSamplesAccepted'', CPrim CUint8)]"

definition qmiLocInjectTimeSyncDataReqMsgT_v02 :: cty where
  "qmiLocInjectTimeSyncDataReqMsgT_v02 = CStruct [
    (''refCounter'', CPrim CUint32),
    (''sensorProcRxTime'', CPrim CUint32),
    (''sensorProcTxTime'', CPrim CUint32)]"

definition qmiLocInjectTimeSyncDataIndMsgT_v02 :: cty where
  "qmiLocInjectTimeSyncDataIndMsgT_v02 = CStruct [
    (''status'', qmiLocStatusEnumT_v02)]"

definition qmiLocCradleMountStateEnumT_v02 :: cty where
  "qmiLocCradleMountStateEnumT_v02 = CEnum [
    (''QMILOCCRADLEMOUNTSTATEENUMT_MIN_ENUM_VAL_V02'', -2147483647),
    (''eQMI_LOC_CRADLE_STATE_NOT_MOUNTED_V02'', 0),
    (''eQMI_LOC_CRADLE_STATE_MOUNTED_V02'', 1),
    (''eQMI_LOC_CRADLE_STATE_UNKNOWN_V02'', 2),
    (''QMILOCCRADLEMOUNTSTATEENUMT_MAX_ENUM_VAL_V02'', 2147483647)]"

definition qmiLocGetCradleMountConfigReqMsgT_v02 :: cty where
  "qmiLocGetCradleMountConfigReqMsgT_v02 = CStruct [
    (''__placeholder'', CPrim CChar)]"

definition qmiLocGetCradleMountConfigIndMsgT_v02 :: cty where
  "qmiLocGetCradleMountConfigIndMsgT_v02 = CStruct [
    (''status'', qmiLocStatusEnumT_v02),
    (''cradleMountState_valid'', CPrim CUint8),
    (''cradleMountState'', qmiLocCradleMountStateEnumT_v02),
    (''confidenceCradleMountState_valid'', CPrim CUint8),
    (''confidenceCradleMountState'', CPrim CUint8)]"

definition qmiLocSetCradleMountConfigReqMsgT_v02 :: cty where
  "qmiLocSetCradleMountConfigReqMsgT_v02 = CStruct [
    (''cradleMountState'', qmiLocCradleMountStateEnumT_v02),
    (''confidenceCradleMountState_valid'', CPrim CUint8),
    (''confidenceCradleMountState'', CPrim CUint8)]"

definition qmiLocSetCradleMountConfigIndMsgT_v02 :: cty where
  "qmiLocSetCradleMountConfigIndMsgT_v02 = CStruct [
    (''status'', qmiLocStatusEnumT_v02)]"

definition qmiLocExternalPowerConfigEnumT_v02 :: cty where
  "qmiLocExternalPowerConfigEnumT_v02 = CEnum [
    (''QMILOCEXTERNALPOWERCONFIGENUMT_MIN_ENUM_VAL_V02'', -2147483647),
    (''eQMI_LOC_EXTERNAL_POWER_NOT_CONNECTED_V02'', 0),
    (''eQMI_LOC_EXTERNAL_POWER_CONNECTED_V02'', 1),
    (''eQMI_LOC_EXTERNAL_POWER_UNKNOWN_V02'', 2),
    (''QMILOCEXTERNALPOWERCONFIGENUMT_MAX_ENUM_VAL_V02'', 2147483647)]"

definition qmiLocGetExternalPowerConfigReqMsgT_v02 :: cty where
  "qmiLocGetExternalPowerConfigReqMsgT_v02 = CStruct [
    (''__placeholder'', CPrim CChar)]"

definition qmiLocGetExternalPowerConfigIndMsgT_v02 :: cty where
  "qmiLocGetExternalPowerConfigIndMsgT_v02 = CStruct [
    (''status'', qmiLocStatusEnumT_v02),
    (''externalPowerState_valid'', CPrim CUint8),
    (''externalPowerState'', qmiLocExternalPowerConfigEnumT_v02)]"

definition qmiLocBatteryLevelEnumT_v02 :: cty where
  "qmiLocBatteryLevelEnumT_v02 = CEnum [
    (''QMILOCBATTERYLEVELENUMT_MIN_ENUM_VAL_V02'', -2147483647),
    (''eQMI_LOC_BATTERY_LEVEL_UNKNOWN_V02'', 0),
    (''eQMI_LOC_BATTERY_LEVEL_VERY_HIGH_V02'', 1),
    (''eQMI_LOC_BATTERY_LEVEL_HIGH_V02'', 2),
    (''eQMI_LOC_BATTERY_LEVEL_MEDIUM_V02'', 3),
    (''eQMI_LOC_BATTERY_LEVEL_LOW_V02'', 4),
    (''QMILOCBATTERYLEVELENUMT_MAX_ENUM_VAL_V02'', 2147483647)]"

definition qmiLocSetExternalPowerConfigReqMsgT_v02 :: cty where
  "qmiLocSetExternalPowerConfigReqMsgT_v02 = CStruct [
    (''externalPowerState'', qmiLocExternalPowerConfigEnumT_v02),
    (''batteryLevel_valid'', CPrim CUint8),
    (''batteryLevel'', qmiLocBatteryLevelEnumT_v02)]"

definition qmiLocSetExternalPowerConfigIndMsgT_v02 :: cty where
  "qmiLocSetExternalPowerConfigIndMsgT_v02 = CStruct [
    (''status'', qmiLocStatusEnumT_v02)]"

definition qmiLocServerPDNEnumT_v02 :: cty where
  "qmiLocServerPDNEnumT_v02 = CEnum [
    (''QMILOCSERVERPDNENUMT_MIN_ENUM_VAL_V02'', -2147483647),
    (''eQMI_LOC_APN_PROFILE_PDN_TYPE_IPV4_V02'', 1),
    (''eQMI_LOC_APN_PROFILE_PDN_TYPE_IPV6_V02'', 2),
    (''eQMI_LOC_APN_PROFILE_PDN_TYPE_IPV4V6_V02'', 3),
    (''eQMI_LOC_APN_PROFILE_PDN_TYPE_PPP_V02'', 4),
    (''QMILOCSERVERPDNENUMT_MAX_ENUM_VAL_V02'', 2147483647)]"

definition qmiLocApnProfilesStructT_v02 :: cty where
  "qmiLocApnProfilesStructT_v02 = CStruct [
    (''pdnType'', qmiLocServerPDNEnumT_v02),
    (''apnName'', CArr (CPrim CChar) (QMI_LOC_MAX_APN_NAME_LENGTH_V02 + 1))]"

definition qmiLocServerReqStatusEnumT_v02 :: cty where
  "qmiLocServerReqStatusEnumT_v02 = CEnum [
    (''QMILOCSERVERREQSTATUSENUMT_MIN_ENUM_VAL_V02'', -2147483647),
    (''eQMI_LOC_SERVER_REQ_STATUS_SUCCESS_V02'', 1),
    (''eQMI_LOC_SERVER_REQ_STATUS_FAILURE_V02'', 2),
    (''QMILOCSERVERREQSTATUSENUMT_MAX_ENUM_VAL_V02'', 2147483647)]"

definition qmiLocInformLocationServerConnStatusReqMsgT_v02 :: cty where
  "qmiLocInformLocationServerConnStatusReqMsgT_v02 = CStruct [
    (''connHandle'', CPrim CUint32),
    (''requestType'', qmiLocServerRequestEnumT_v02),
    (''statusType'', qmiLocServerReqStatusEnumT_v02),
    (''apnProfile_valid'', CPrim CUint8),
    (''apnProfile'', qmiLocApnProfilesStructT_v02),
    (''apnTypeMask_valid'', CPrim CUint8),
    (''apnTypeMask'', qmiLocApnTypeMaskT_v02)]"

definition qmiLocInformLocationServerConnStatusIndMsgT_v02 :: cty where
  "qmiLocInformLocationServerConnStatusIndMsgT_v02 = CStruct [
    (''status'', qmiLocStatusEnumT_v02)]"

definition qmiLocVxVersionEnumT_v02 :: cty where
  "qmiLocVxVersionEnumT_v02 = CEnum [
    (''QMILOCVXVERSIONENUMT_MIN_ENUM_VAL_V02'', -2147483647),
    (''eQMI_LOC_VX_VERSION_V1_ONLY_V02'', 1),
    (''eQMI_LOC_VX_VERSION_V2_ONLY_V02'', 2),
    (''QMILOCVXVERSIONENUMT_MAX_ENUM_VAL_V02'', 2147483647)]"

definition qmiLocSuplVersionEnumT_v02 :: cty where
  "qmiLocSuplVersionEnumT_v02 = CEnum [
    (''QMILOCSUPLVERSIONENUMT_MIN_ENUM_VAL_V02'', -2147483647),
    (''eQMI_LOC_SUPL_VERSION_1_0_V02'', 1),
    (''eQMI_LOC_SUPL_VERSION_2_0_V02'', 2),
    (''eQMI_LOC_SUPL_VERSION_2_0_2_V02'', 3),
    (''eQMI_LOC_SUPL_VERSION_2_0_4_V02'', 4),
    (''QMILOCSUPLVERSIONENUMT_MAX_ENUM_VAL_V02'', 2147483647)]"

definition qmiLocLppConfigMaskT_v02 :: cty where "qmiLocLppConfigMaskT_v02 = CPrim CUint32"

definition qmiLocAssistedGlonassProtocolMaskT_v02 :: cty where "qmiLocAssistedGlonassProtocolMaskT_v02 = CPrim CUint32"

definition qmiLocSuplHashAlgoEnumT_v02 :: cty where
  "qmiLocSuplHashAlgoEnumT_v02 = CEnum [
    (''QMILOCSUPLHASHALGOENUMT_MIN_ENUM_VAL_V02'', -2147483647),
    (''eQMI_LOC_SUPL_HASH_ALGO_SHA1_V02'', 0),
    (''eQMI_LOC_SUPL_HASH_ALGO_SHA256_V02'', 1),
    (''QMILOCSUPLHASHALGOENUMT_MAX_ENUM_VAL_V02'', 2147483647)]"

definition qmiLocSuplTlsVersionEnumT_v02 :: cty where
  "qmiLocSuplTlsVersionEnumT_v02 = CEnum [
    (''QMILOCSUPLTLSVERSIONENUMT_MIN_ENUM_VAL_V02'', -2147483647),
    (''eQMI_LOC_SUPL_TLS_VERSION_1_0_V02'', 0),
    (''eQMI_LOC_SUPL_TLS_VERSION_1_1_V02'', 1),
    (''eQMI_LOC_SUPL_TLS_VERSION_1_2_V02'', 2),
    (''QMILOCSUPLTLSVERSIONENUMT_MAX_ENUM_VAL_V02'', 2147483647)]"

definition qmiLocEmergencyProtocolEnumT_v02 :: cty where
  "qmiLocEmergencyProtocolEnumT_v02 = CEnum [
    (''QMILOCEMERGENCYPROTOCOLENUMT_MIN_ENUM_VAL_V02'', -2147483647),
    (''eQMI_LOC_EMERGENCY_PROTOCOL_WCDMA_CP_V02'', 0),
    (''eQMI_LOC_EMERGENCY_PROTOCOL_WCDMA_UP_V02'', 1),
    (''QMILOCEMERGENCYPROTOCOLENUMT_MAX_ENUM_VAL_V02'', 2147483647)]"

definition qmiLocLppeUpAuxTechMaskT_v02 :: cty where "qmiLocLppeUpAuxTechMaskT_v02 = CPrim CUint64"

definition qmiLocLppeCpAuxTechMaskT_v02 :: cty where "qmiLocLppeCpAuxTechMaskT_v02 = CPrim CUint64"

definition qmiLocSetProtocolConfigParametersReqMsgT_v02 :: cty where
  "qmiLocSetProtocolConfigParametersReqMsgT_v02 = CStruct [
    (''suplSecurity_valid'', CPrim CUint8),
    (''suplSecurity'', CPrim CUint8),
    (''vxVersion_valid'', CPrim CUint8),
    (''vxVersion'', qmiLocVxVersionEnumT_v02),
    (''suplVersion_valid'', CPrim CUint8),
    (''suplVersion'', qmiLocSuplVersionEnumT_v02),
    (''lppConfig_valid'', CPrim CUint8),
    (''lppConfig'', qmiLocLppConfigMaskT_v02),
    (''assistedGlonassProtocolMask_valid'', CPrim CUint8),
    (''assistedGlonassProtocolMask'', qmiLocAssistedGlonassProtocolMaskT_v02),
    (''suplHashAlgo_valid'', CPrim CUint8),
    (''suplHashAlgo'', qmiLocSuplHashAlgoEnumT_v02),
    (''suplTlsVersion_valid'', CPrim CUint8),
    (''suplTlsVersion'', qmiLocSuplTlsVersionEnumT_v02),
    (''emergencyProtocol_valid'', CPrim CUint8),
    (''emergencyProtocol'', qmiLocEmergencyProtocolEnumT_v02),
    (''wifiScanInjectTimeout_valid'', CPrim CUint8),
    (''wifiScanInjectTimeout'', CPrim CUint8),
    (''lppeUpConfig_valid'', CPrim CUint8),
    (''lppeUpConfig'', qmiLocLppeUpAuxTechMaskT_v02),
    (''lppeCpConfig_valid'', CPrim CUint8),
    (''lppeCpConfig'', qmiLocLppeCpAuxTechMaskT_v02),
    (''emergencyCallbackWindow_valid'', CPrim CUint8),
    (''emergencyCallbackWindow'', CPrim CUint32)]"

definition qmiLocProtocolConfigParamMaskT_v02 :: cty where "qmiLocProtocolConfigParamMaskT_v02 = CPrim CUint64"

definition qmiLocSetProtocolConfigParametersIndMsgT_v02 :: cty where
  "qmiLocSetProtocolConfigParametersIndMsgT_v02 = CStruct [
    (''status'', qmiLocStatusEnumT_v02),
    (''failedProtocolConfigParamMask_valid'', CPrim CUint8),
    (''failedProtocolConfigParamMask'', qmiLocProtocolConfigParamMaskT_v02)]"

definition qmiLocGetProtocolConfigParametersReqMsgT_v02 :: cty where
  "qmiLocGetProtocolConfigParametersReqMsgT_v02 = CStruct [
    (''getProtocolConfigParamMask'', qmiLocProtocolConfigParamMaskT_v02)]"

definition qmiLocGetProtocolConfigParametersIndMsgT_v02 :: cty where
  "qmiLocGetProtocolConfigParametersIndMsgT_v02 = CStruct [
    (''status'', qmiLocStatusEnumT_v02),
    (''suplSecurity_valid'', CPrim CUint8),
    (''suplSecurity'', CPrim CUint8),
    (''vxVersion_valid'', CPrim CUint8),
    (''vxVersion'', qmiLocVxVersionEnumT_v02),
    (''suplVersion_valid'', CPrim CUint8),
    (''suplVersion'', qmiLocSuplVersionEnumT_v02),
    (''lppConfig_valid'', CPrim CUint8),
    (''lppConfig'', qmiLocLppConfigMaskT_v02),
    (''assistedGlonassProtocolMask_valid'', CPrim CUint8),
    (''assistedGlonassProtocolMask'', qmiLocAssistedGlonassProtocolMaskT_v02),
    (''suplHashAlgo_valid'', CPrim CUint8),
    (''suplHashAlgo'', qmiLocSuplHashAlgoEnumT_v02),
    (''suplTlsVersion_valid'', CPrim CUint8),
    (''suplTlsVersion'', qmiLocSuplTlsVersionEnumT_v02),
    (''emergencyProtocol_valid'', CPrim CUint8),
    (''emergencyProtocol'', qmiLocEmergencyProtocolEnumT_v02),
    (''wifiScanInjectTimeout_valid'', CPrim CUint8),
    (''wifiScanInjectTimeout'', CPrim CUint8),
    (''lppeUpConfig_valid'', CPrim CUint8),
    (''lppeUpConfig'', qmiLocLppeUpAuxTechMaskT_v02),
    (''lppeCpConfig_valid'', CPrim CUint8),
    (''lppeCpConfig'', qmiLocLppeCpAuxTechMaskT_v02),
    (''emergencyCallbackWindow_valid'', CPrim CUint8),
    (''emergencyCallbackWindow'', CPrim CUint32)]"

definition qmiLocSensorsControlConfigSensorUseEnumT_v02 :: cty where
  "qmiLocSensorsControlConfigSensorUseEnumT_v02 = CEnum [
    (''QMILOCSENSORSCONTROLCONFIGSENSORUSEENUMT_MIN_ENUM_VAL_V02'', -2147483647),
    (''eQMI_LOC_SENSOR_CONFIG_SENSOR_USE_ENABLE_V02'', 0),
    (''eQMI_LOC_SENSOR_CONFIG_SENSOR_USE_DISABLE_V02'', 1),
    (''QMILOCSENSORSCONTROLCONFIGSENSORUSEENUMT_MAX_ENUM_VAL_V02'', 2147483647)]"

definition qmiLocSensorsControlConfigSensorProviderEnumT_v02 :: cty where
  "qmiLocSensorsControlConfigSensorProviderEnumT_v02 = CEnum [
    (''QMILOCSENSORSCONTROLCONFIGSENSORPROVIDERENUMT_MIN_ENUM_VAL_V02'', -2147483647),
    (''eQMI_LOC_SENSOR_CONFIG_USE_PROVIDER_SSC_V02'', 0),
    (''eQMI_LOC_SENSOR_CONFIG_USE_PROVIDER_NATIVE_V02'', 1),
    (''QMILOCSENSORSCONTROLCONFIGSENSORPROVIDERENUMT_MAX_ENUM_VAL_V02'', 2147483647)]"

definition qmiLocSetSensorControlConfigReqMsgT_v02 :: cty where
  "qmiLocSetSensorControlConfigReqMsgT_v02 = CStruct [
    (''sensorsUsage_valid'', CPrim CUint8),
    (''sensorsUsage'', qmiLocSensorsControlConfigSensorUseEnumT_v02),
    (''sensorProvider_valid'', CPrim CUint8),
    (''sensorProvider'', qmiLocSensorsControlConfigSensorProviderEnumT_v02)]"

definition qmiLocSetSensorControlConfigIndMsgT_v02 :: cty where
  "qmiLocSetSensorControlConfigIndMsgT_v02 = CStruct [
    (''status'', qmiLocStatusEnumT_v02)]"

definition qmiLocGetSensorControlConfigReqMsgT_v02 :: cty where
  "qmiLocGetSensorControlConfigReqMsgT_v02 = CStruct [
    (''__placeholder'', CPrim CChar)]"

definition qmiLocGetSensorControlConfigIndMsgT_v02 :: cty where
  "qmiLocGetSensorControlConfigIndMsgT_v02 = CStruct [
    (''status'', qmiLocStatusEnumT_v02),
    (''sensorsUsage_valid'', CPrim CUint8),
    (''sensorsUsage'', qmiLocSensorsControlConfigSensorUseEnumT_v02),
    (''sensorProvider_valid'', CPrim CUint8),
    (''sensorProvider'', qmiLocSensorsControlConfigSensorProviderEnumT_v02)]"

definition qmiLocSensorPropertiesMaskT_v02 :: cty where "qmiLocSensorPropertiesMaskT_v02 = CPrim CUint32"

definition qmiLocVehicleDataUseControlMaskT_v02 :: cty where "qmiLocVehicleDataUseControlMaskT_v02 = CPrim CUint64"

definition qmiLocSetSensorPropertiesReqMsgT_v02 :: cty where
  "qmiLocSetSensorPropertiesReqMsgT_v02 = CStruct [
    (''gyroBiasVarianceRandomWalk_valid'', CPrim CUint8),
    (''gyroBiasVarianceRandomWalk'', CPrim CFloat),
    (''velocityRandomWalkSpectralDensity_valid'', CPrim CUint8),
    (''velocityRandomWalkSpectralDensity'', CPrim CFloat),
    (''accelerationRandomWalkSpectralDensity_valid'', CPrim CUint8),
    (''accelerationRandomWalkSpectralDensity'', CPrim CFloat),
    (''angleRandomWalkSpectralDensity_valid'', CPrim CUint8),
    (''angleRandomWalkSpectralDensity'', CPrim CFloat),
    (''rateRandomWalkSpectralDensity_valid'', CPrim CUint8),
    (''rateRandomWalkSpectralDensity'', CPrim CFloat),
    (''vehicleDataUse_valid'', CPrim CUint8),
    (''vehicleDataUse'', qmiLocVehicleDataUseControlMaskT_v02),
    (''vehicleVelocityRandomWalkSpectralDensity_valid'', CPrim CUint8),
    (''vehicleVelocityRandomWalkSpectralDensity'', CPrim CFloat),
    (''vehicleAccelRandomWalkSpectralDensity_valid'', CPrim CUint8),
    (''vehicleAccelRandomWalkSpectralDensity'', CPrim CFloat),
    (''vehicleAngleRandomWalkSpectralDensity_valid'', CPrim CUint8),
    (''vehicleAngleRandomWalkSpectralDensity'', CPrim CFloat),
    (''vehicleAngularRateRandomWalkSpectralDensity_valid'', CPrim CUint8),
    (''vehicleAngularRateRandomWalkSpectralDensity'', CPrim CFloat),
    (''vehicleOdometryScaleFactorRandomWalkSpectralDensity_valid'', CPrim CUint8),
    (''vehicleOdometryScaleFactorRandomWalkSpectralDensity'', CPrim CFloat),
    (''vehicleOdometryVariance_valid'', CPrim CUint8),
    (''vehicleOdometryVariance'', CPrim CFloat)]"

definition qmiLocSetSensorPropertiesIndMsgT_v02 :: cty where
  "qmiLocSetSensorPropertiesIndMsgT_v02 = CStruct [
    (''status'', qmiLocStatusEnumT_v02),
    (''failedSensorPropertiesMask_valid'', CPrim CUint8),
    (''failedSensorPropertiesMask'', qmiLocSensorPropertiesMaskT_v02)]"

definition qmiLocGetSensorPropertiesReqMsgT_v02 :: cty where
  "qmiLocGetSensorPropertiesReqMsgT_v02 = CStruct [
    (''getSensorPropertiesMask'', qmiLocSensorPropertiesMaskT_v02)]"

definition qmiLocGetSensorPropertiesIndMsgT_v02 :: cty where
  "qmiLocGetSensorPropertiesIndMsgT_v02 = CStruct [
    (''status'', qmiLocStatusEnumT_v02),
    (''gyroBiasVarianceRandomWalk_valid'', CPrim CUint8),
    (''gyroBiasVarianceRandomWalk'', CPrim CFloat),
    (''velocityRandomWalkSpectralDensity_valid'', CPrim CUint8),
    (''velocityRandomWalkSpectralDensity'', CPrim CFloat),
    (''accelerationRandomWalkSpectralDensity_valid'', CPrim CUint8),
    (''accelerationRandomWalkSpectralDensity'', CPrim CFloat),
    (''angleRandomWalkSpectralDensity_valid'', CPrim CUint8),
    (''angleRandomWalkSpectralDensity'', CPrim CFloat),
    (''rateRandomWalkSpectralDensity_valid'', CPrim CUint8),
    (''rateRandomWalkSpectralDensity'', CPrim CFloat),
    (''vehicleDataUse_valid'', CPrim CUint8),
    (''vehicleDataUse'', qmiLocVehicleDataUseControlMaskT_v02),
    (''vehicleVelocityRandomWalkSpectralDensity_valid'', CPrim CUint8),
    (''vehicleVelocityRandomWalkSpectralDensity'', CPrim CFloat),
    (''vehicleAccelRandomWalkSpectralDensity_valid'', CPrim CUint8),
    (''vehicleAccelRandomWalkSpectralDensity'', CPrim CFloat),
    (''vehicleAngleRandomWalkSpectralDensity_valid'', CPrim CUint8),
    (''vehicleAngleRandomWalkSpectralDensity'', CPrim CFloat),
    (''vehicleAngularRateRandomWalkSpectralDensity_valid'', CPrim CUint8),
    (''vehicleAngularRateRandomWalkSpectralDensity'', CPrim CFloat),
    (''vehicleOdometryScaleFactorRandomWalkSpectralDensity_valid'', CPrim CUint8),
    (''vehicleOdometryScaleFactorRandomWalkSpectralDensity'', CPrim CFloat),
    (''vehicleOdometryVariance_valid'', CPrim CUint8),
    (''vehicleOdometryVariance'', CPrim CFloat)]"

definition qmiLocSensorPerformanceControlModeEnumT_v02 :: cty where
  "qmiLocSensorPerformanceControlModeEnumT_v02 = CEnum [
    (''QMILOCSENSORPERFORMANCECONTROLMODEENUMT_MIN_ENUM_VAL_V02'', -2147483647),
    (''eQMI_LOC_SENSOR_PERFORMANCE_CONTROL_MODE_AUTO_V02'', 0),
    (''eQMI_LOC_SENSOR_PERFORMANCE_CONTROL_MODE_FORCED_V02'', 1),
    (''QMILOCSENSORPERFORMANCECONTROLMODEENUMT_MAX_ENUM_VAL_V02'', 2147483647)]"

definition qmiLocSensorAlgorithmMaskT_v02 :: cty where "qmiLocSensorAlgorithmMaskT_v02 = CPrim CUint32"

definition qmiLocSetSensorPerformanceControlConfigReqMsgT_v02 :: cty where
  "qmiLocSetSensorPerformanceControlConfigReqMsgT_v02 = CStruct [
    (''performanceControlMode_valid'', CPrim CUint8),
    (''performanceControlMode'', qmiLocSensorPerformanceControlModeEnumT_v02),
    (''accelSamplingSpec_valid'', CPrim CUint8),
    (''accelSamplingSpec'', qmiLocSensorControlConfigSamplingSpecStructT_v02),
    (''gyroSamplingSpec_valid'', CPrim CUint8),
    (''gyroSamplingSpec'', qmiLocSensorControlConfigSamplingSpecStructT_v02),
    (''algorithmConfig_valid'', CPrim CUint8),
    (''algorithmConfig'', qmiLocSensorAlgorithmMaskT_v02),
    (''accelSamplingSpecHigh_valid'', CPrim CUint8),
    (''accelSamplingSpecHigh'', qmiLocSensorControlConfigSamplingSpecStructT_v02),
    (''gyroSamplingSpecHigh_valid'', CPrim CUint8),
    (''gyroSamplingSpecHigh'', qmiLocSensorControlConfigSamplingSpecStructT_v02)]"

definition qmiLocSensorPerformanceControlConfigFailureMaskT_v02 :: cty where "qmiLocSensorPerformanceControlConfigFailureMaskT_v02 = CPrim CUint32"

definition qmiLocSetSensorPerformanceControlConfigIndMsgT_v02 :: cty where
  "qmiLocSetSensorPerformanceControlConfigIndMsgT_v02 = CStruct [
    (''status'', qmiLocStatusEnumT_v02),
    (''failedConfiguration_valid'', CPrim CUint8),
    (''failedConfiguration'', qmiLocSensorPerformanceControlConfigFailureMaskT_v02)]"

definition qmiLocGetSensorPerformanceControlConfigReqMsgT_v02 :: cty where
  "qmiLocGetSensorPerformanceControlConfigReqMsgT_v02 = CStruct [
    (''__placeholder'', CPrim CChar)]"

definition qmiLocGetSensorPerformanceControlConfigIndMsgT_v02 :: cty where
  "qmiLocGetSensorPerformanceControlConfigIndMsgT_v02 = CStruct [
    (''status'', qmiLocStatusEnumT_v02),
    (''performanceControlMode_valid'', CPrim CUint8),
    (''performanceControlMode'', qmiLocSensorPerformanceControlModeEnumT_v02),
    (''accelSamplingSpec_valid'', CPrim CUint8),
    (''accelSamplingSpec'', qmiLocSensorControlConfigSamplingSpecStructT_v02),
    (''gyroSamplingSpec_valid'', CPrim CUint8),
    (''gyroSamplingSpec'', qmiLocSensorControlConfigSamplingSpecStructT_v02),
    (''algorithmConfig_valid'', CPrim CUint8),
    (''algorithmConfig'', qmiLocSensorAlgorithmMaskT_v02),
    (''accelSamplingSpecHigh_valid'', CPrim CUint8),
    (''accelSamplingSpecHigh'', qmiLocSensorControlConfigSamplingSpecStructT_v02),
    (''gyroSamplingSpecHigh_valid'', CPrim CUint8),
    (''gyroSamplingSpecHigh'', qmiLocSensorControlConfigSamplingSpecStructT_v02)]"

definition qmiLocInjectSuplCertificateReqMsgT_v02 :: cty where
  "qmiLocInjectSuplCertificateReqMsgT_v02 = CStruct [
    (''suplCertId'', CPrim CUint8),
    (''suplCertData_len'', CPrim CUint32),
    (''suplCertData'', CArr (CPrim CUint8) (QMI_LOC_MAX_SUPL_CERT_LENGTH_V02))]"

definition qmiLocInjectSuplCertificateIndMsgT_v02 :: cty where
  "qmiLocInjectSuplCertificateIndMsgT_v02 = CStruct [
    (''status'', qmiLocStatusEnumT_v02)]"

definition qmiLocDeleteSuplCertificateReqMsgT_v02 :: cty where
  "qmiLocDeleteSuplCertificateReqMsgT_v02 = CStruct [
    (''suplCertId_valid'', CPrim CUint8),
    (''suplCertId'', CPrim CUint8)]"

definition qmiLocDeleteSuplCertificateIndMsgT_v02 :: cty where
  "qmiLocDeleteSuplCertificateIndMsgT_v02 = CStruct [
    (''status'', qmiLocStatusEnumT_v02)]"

definition qmiLocPositionEngineConfigParamMaskT_v02 :: cty where "qmiLocPositionEngineConfigParamMaskT_v02 = CPrim CUint32"

definition qmiLocSetPositionEngineConfigParametersReqMsgT_v02 :: cty where
  "qmiLocSetPositionEngineConfigParametersReqMsgT_v02 = CStruct [
    (''injectedPositionControl_valid'', CPrim CUint8),
    (''injectedPositionControl'', CPrim CUint8),
    (''filterSvUsage_valid'', CPrim CUint8),
    (''filterSvUsage'', CPrim CUint8),
    (''storeAssistData_valid'', CPrim CUint8),
    (''storeAssistData'', CPrim CUint8),
    (''enableFasterTTFF_valid'', CPrim CUint8),
    (''enableFasterTTFF'', CPrim CUint8)]"

definition qmiLocSetPositionEngineConfigParametersIndMsgT_v02 :: cty where
  "qmiLocSetPositionEngineConfigParametersIndMsgT_v02 = CStruct [
    (''status'', qmiLocStatusEnumT_v02),
    (''failedPositionEngineConfigParamMask_valid'', CPrim CUint8),
    (''failedPositionEngineConfigParamMask'', qmiLocPositionEngineConfigParamMaskT_v02)]"

definition qmiLocGetPositionEngineConfigParametersReqMsgT_v02 :: cty where
  "qmiLocGetPositionEngineConfigParametersReqMsgT_v02 = CStruct [
    (''getPositionEngineConfigParamMask'', qmiLocPositionEngineConfigParamMaskT_v02)]"

definition qmiLocGetPositionEngineConfigParametersIndMsgT_v02 :: cty where
  "qmiLocGetPositionEngineConfigParametersIndMsgT_v02 = CStruct [
    (''status'', qmiLocStatusEnumT_v02),
    (''injectedPositionControl_valid'', CPrim CUint8),
    (''injectedPositionControl'', CPrim CUint8),
    (''filterSvUsage_valid'', CPrim CUint8),
    (''filterSvUsage'', CPrim CUint8),
    (''storeAssistData_valid'', CPrim CUint8),
    (''storeAssistData'', CPrim CUint8),
    (''enableFasterTTFF_valid'', CPrim CUint8),
    (''enableFasterTTFF'', CPrim CUint8)]"

definition qmiLocGeofenceBreachMaskT_v02 :: cty where "qmiLocGeofenceBreachMaskT_v02 = CPrim CUint8"

definition qmiLocGeofenceResponsivenessEnumT_v02 :: cty where
  "qmiLocGeofenceResponsivenessEnumT_v02 = CEnum [
    (''QMILOCGEOFENCERESPONSIVENESSENUMT_MIN_ENUM_VAL_V02'', -2147483647),
    (''eQMI_LOC_GEOFENCE_RESPONSIVENESS_LOW_V02'', 1),
    (''eQMI_LOC_GEOFENCE_RESPONSIVENESS_MED_V02'', 2),
    (''eQMI_LOC_GEOFENCE_RESPONSIVENESS_HIGH_V02'', 3),
    (''eQMI_LOC_GEOFENCE_RESPONSIVENESS_ULTRA_HIGH_V02'', 4),
    (''eQMI_LOC_GEOFENCE_RESPONSIVENESS_CUSTOM_V02'', 5),
    (''QMILOCGEOFENCERESPONSIVENESSENUMT_MAX_ENUM_VAL_V02'', 2147483647)]"

definition qmiLocCircularGeofenceArgsStructT_v02 :: cty where
  "qmiLocCircularGeofenceArgsStructT_v02 = CStruct [
    (''latitude'', CPrim CDouble),
    (''longitude'', CPrim CDouble),
    (''radius'', CPrim CUint32)]"

definition qmiLocGeofencePositionEnumT_v02 :: cty where
  "qmiLocGeofencePositionEnumT_v02 = CEnum [
    (''QMILOCGEOFENCEPOSITIONENUMT_MIN_ENUM_VAL_V02'', -2147483647),
    (''eQMI_LOC_GEOFENCE_POSITION_INSIDE_V02'', 1),
    (''eQMI_LOC_GEOFENCE_POSITION_OUTSIDE_V02'', 2),
    (''QMILOCGEOFENCEPOSITIONENUMT_MAX_ENUM_VAL_V02'', 2147483647)]"

definition qmiLocGeofenceDwellTypeMaskT_v02 :: cty where "qmiLocGeofenceDwellTypeMaskT_v02 = CPrim CUint8"

definition qmiLocAddCircularGeofenceReqMsgT_v02 :: cty where
  "qmiLocAddCircularGeofenceReqMsgT_v02 = CStruct [
    (''transactionId'', CPrim CUint32),
    (''circularGeofenceArgs'', qmiLocCircularGeofenceArgsStructT_v02),
    (''breachMask'', qmiLocGeofenceBreachMaskT_v02),
    (''includePosition'', CPrim CUint8),
    (''responsiveness_valid'', CPrim CUint8),
    (''responsiveness'', qmiLocGeofenceResponsivenessEnumT_v02),
    (''confidence_valid'', CPrim CUint8),
    (''confidence'', qmiLocGeofenceConfidenceEnumT_v02),
    (''customResponsivenessValue_valid'', CPrim CUint8),
    (''customResponsivenessValue'', CPrim CUint32),
    (''dwellTime_valid'', CPrim CUint8),
    (''dwellTime'', CPrim CUint32),
    (''dwellTypeMask_valid'', CPrim CUint8),
    (''dwellTypeMask'', qmiLocGeofenceDwellTypeMaskT_v02)]"

definition qmiLocAddCircularGeofenceIndMsgT_v02 :: cty where
  "qmiLocAddCircularGeofenceIndMsgT_v02 = CStruct [
    (''status'', qmiLocStatusEnumT_v02),
    (''transactionId_valid'', CPrim CUint8),
    (''transactionId'', CPrim CUint32),
    (''geofenceId_valid'', CPrim CUint8),
    (''geofenceId'', CPrim CUint32)]"

definition qmiLocDeleteGeofenceReqMsgT_v02 :: cty where
  "qmiLocDeleteGeofenceReqMsgT_v02 = CStruct [
    (''geofenceId'', CPrim CUint32),
    (''transactionId'', CPrim CUint32)]"

definition qmiLocDeleteGeofenceIndMsgT_v02 :: cty where
  "qmiLocDeleteGeofenceIndMsgT_v02 = CStruct [
    (''status'', qmiLocStatusEnumT_v02),
    (''geofenceId_valid'', CPrim CUint8),
    (''geofenceId'', CPrim CUint32),
    (''transactionId_valid'', CPrim CUint8),
    (''transactionId'', CPrim CUint32)]"

definition qmiLocGeofenceOriginEnumT_v02 :: cty where
  "qmiLocGeofenceOriginEnumT_v02 = CEnum [
    (''QMILOCGEOFENCEORIGINENUMT_MIN_ENUM_VAL_V02'', -2147483647),
    (''eQMI_LOC_GEOFENCE_ORIGIN_NETWORK_V02'', 1),
    (''eQMI_LOC_GEOFENCE_ORIGIN_DEVICE_V02'', 2),
    (''QMILOCGEOFENCEORIGINENUMT_MAX_ENUM_VAL_V02'', 2147483647)]"

definition qmiLocGeofenceStateEnumT_v02 :: cty where
  "qmiLocGeofenceStateEnumT_v02 = CEnum [
    (''QMILOCGEOFENCESTATEENUMT_MIN_ENUM_VAL_V02'', -2147483647),
    (''eQMI_LOC_GEOFENCE_STATE_ACTIVE_V02'', 1),
    (''eQMI_LOC_GEOFENCE_STATE_SUSPEND_V02'', 2),
    (''QMILOCGEOFENCESTATEENUMT_MAX_ENUM_VAL_V02'', 2147483647)]"

definition qmiLocQueryGeofenceReqMsgT_v02 :: cty where
  "qmiLocQueryGeofenceReqMsgT_v02 = CStruct [
    (''geofenceId'', CPrim CUint32),
    (''transactionId'', CPrim CUint32)]"

definition qmiLocQueryGeofenceIndMsgT_v02 :: cty where
  "qmiLocQueryGeofenceIndMsgT_v02 = CStruct [
    (''status'', qmiLocStatusEnumT_v02),
    (''geofenceId_valid'', CPrim CUint8),
    (''geofenceId'', CPrim CUint32),
    (''transactionId_valid'', CPrim CUint8),
    (''transactionId'', CPrim CUint32),
    (''geofenceOrigin_valid'', CPrim CUint8),
    (''geofenceOrigin'', qmiLocGeofenceOriginEnumT_v02),
    (''posWrtGeofence_valid'', CPrim CUint8),
    (''posWrtGeofence'', qmiLocGeofencePositionEnumT_v02),
    (''circularGeofenceArgs_valid'', CPrim CUint8),
    (''circularGeofenceArgs'', qmiLocCircularGeofenceArgsStructT_v02),
    (''geofenceState_valid'', CPrim CUint8),
    (''geofenceState'', qmiLocGeofenceStateEnumT_v02)]"

definition qmiLocMotionDetectionSourceMaskT_v02 :: cty where "qmiLocMotionDetectionSourceMaskT_v02 = CPrim CUint32"

definition qmiLocGeofenceMotionStatesEnumT_v02 :: cty where
  "qmiLocGeofenceMotionStatesEnumT_v02 = CEnum [
    (''QMILOCGEOFENCEMOTIONSTATESENUMT_MIN_ENUM_VAL_V02'', -2147483647),
    (''eQMI_LOC_GEOFENCE_MOTION_STATE_STATIONARY_V02'', 0),
    (''eQMI_LOC_GEOFENCE_MOTION_STATE_FIDDLE_V02'', 1),
    (''eQMI_LOC_GEOFENCE_MOTION_STATE_WALK_V02'', 2),
    (''eQMI_LOC_GEOFENCE_MOTION_STATE_RUN_V02'', 3),
    (''eQMI_LOC_GEOFENCE_MOTION_STATE_DRIVE_V02'', 4),
    (''QMILOCGEOFENCEMOTIONSTATESENUMT_MAX_ENUM_VAL_V02'', 2147483647)]"

definition qmiLocGeofenceMotionStateConfigStructT_v02 :: cty where
  "qmiLocGeofenceMotionStateConfigStructT_v02 = CStruct [
    (''motionState'', qmiLocGeofenceMotionStatesEnumT_v02),
    (''motionStateSpeed'', CPrim CFloat)]"

definition qmiLocSetGeofenceEngineConfigReqMsgT_v02 :: cty where
  "qmiLocSetGeofenceEngineConfigReqMsgT_v02 = CStruct [
    (''transactionId'', CPrim CUint32),
    (''gnssUnavailableIndicationTimeout_valid'', CPrim CUint8),
    (''gnssUnavailableIndicationTimeout'', CPrim CUint32),
    (''maxGeofences_valid'', CPrim CUint8),
    (''maxGeofences'', CPrim CUint32),
    (''enableMotionDetectionSources_valid'', CPrim CUint8),
    (''enableMotionDetectionSources'', qmiLocMotionDetectionSourceMaskT_v02),
    (''enableCpiUsage_valid'', CPrim CUint8),
    (''enableCpiUsage'', CPrim CUint8),
    (''gnssPositionSessionTimeout_valid'', CPrim CUint8),
    (''gnssPositionSessionTimeout'', CPrim CUint32),
    (''gnssPositionMaxPuncAcceptable_valid'', CPrim CUint8),
    (''gnssPositionMaxPuncAcceptable'', CPrim CUint32),
    (''mediumResponsivenessValue_valid'', CPrim CUint8),
    (''mediumResponsivenessValue'', CPrim CUint32),
    (''chalGnssEnvMinCpiWaitInterval_valid'', CPrim CUint8),
    (''chalGnssEnvMinCpiWaitInterval'', CPrim CUint32),
    (''motionStateInfo_valid'', CPrim CUint8),
    (''motionStateInfo_len'', CPrim CUint32),
    (''motionStateInfo'', CArr qmiLocGeofenceMotionStateConfigStructT_v02 (QMI_LOC_GEOFENCE_MAX_MOTION_STATES_V02))]"

definition qmiLocSetGeofenceEngineConfigIndMsgT_v02 :: cty where
  "qmiLocSetGeofenceEngineConfigIndMsgT_v02 = CStruct [
    (''status'', qmiLocStatusEnumT_v02),
    (''transactionId_valid'', CPrim CUint8),
    (''transactionId'', CPrim CUint32)]"

definition qmiLocGetGeofenceEngineConfigReqMsgT_v02 :: cty where
  "qmiLocGetGeofenceEngineConfigReqMsgT_v02 = CStruct [
    (''transactionId'', CPrim CUint32)]"

definition qmiLocGetGeofenceEngineConfigIndMsgT_v02 :: cty where
  "qmiLocGetGeofenceEngineConfigIndMsgT_v02 = CStruct [
    (''status'', qmiLocStatusEnumT_v02),
    (''transactionId_valid'', CPrim CUint8),
    (''transactionId'', CPrim CUint32),
    (''gnssUnavailableIndicationTimeout_valid'', CPrim CUint8),
    (''gnssUnavailableIndicationTimeout'', CPrim CUint32),
    (''maxGeofences_valid'', CPrim CUint8),
    (''maxGeofences'', CPrim CUint32),
    (''enabledMotionDetectionSources_valid'', CPrim CUint8),
    (''enabledMotionDetectionSources'', qmiLocMotionDetectionSourceMaskT_v02),
    (''enabledCpiUsage_valid'', CPrim CUint8),
    (''enabledCpiUsage'', CPrim CUint8)]"

definition qmiLocEditGeofenceReqMsgT_v02 :: cty where
  "qmiLocEditGeofenceReqMsgT_v02 = CStruct [
    (''geofenceId'', CPrim CUint32),
    (''transactionId'', CPrim CUint32),
    (''geofenceState_valid'', CPrim CUint8),
    (''geofenceState'', qmiLocGeofenceStateEnumT_v02),
    (''breachMask_valid'', CPrim CUint8),
    (''breachMask'', qmiLocGeofenceBreachMaskT_v02),
    (''responsiveness_valid'', CPrim CUint8),
    (''responsiveness'', qmiLocGeofenceResponsivenessEnumT_v02)]"

definition qmiLocGeofenceConfigParamMaskT_v02 :: cty where "qmiLocGeofenceConfigParamMaskT_v02 = CPrim CUint32"

definition qmiLocEditGeofenceIndMsgT_v02 :: cty where
  "qmiLocEditGeofenceIndMsgT_v02 = CStruct [
    (''status'', qmiLocStatusEnumT_v02),
    (''geofenceId_valid'', CPrim CUint8),
    (''geofenceId'', CPrim CUint32),
    (''transactionId_valid'', CPrim CUint8),
    (''transactionId'', CPrim CUint32),
    (''failedParams_valid'', CPrim CUint8),
    (''failedParams'', qmiLocGeofenceConfigParamMaskT_v02)]"

definition qmiLocEventGetTimeZoneReqIndMsgT_v02 :: cty where
  "qmiLocEventGetTimeZoneReqIndMsgT_v02 = CStruct [
    (''status'', qmiLocStatusEnumT_v02)]"

definition qmiLocTimeZoneStructT_v02 :: cty where
  "qmiLocTimeZoneStructT_v02 = CStruct [
    (''dstOffset'', CPrim CUint64),
    (''rawOffset'', CPrim CUint64)]"

definition qmiLocInjectTimeZoneInfoReqMsgT_v02 :: cty where
  "qmiLocInjectTimeZoneInfoReqMsgT_v02 = CStruct [
    (''timeUtc'', CPrim CUint64),
    (''timeZone'', qmiLocTimeZoneStructT_v02)]"

definition qmiLocInjectTimeZoneInfoIndMsgT_v02 :: cty where
  "qmiLocInjectTimeZoneInfoIndMsgT_v02 = CStruct [
    (''status'', qmiLocStatusEnumT_v02)]"

definition qmiLocGetBestAvailablePositionReqMsgT_v02 :: cty where
  "qmiLocGetBestAvailablePositionReqMsgT_v02 = CStruct [
    (''transactionId'', CPrim CUint32),
    (''specialReqType_valid'', CPrim CUint8),
    (''specialReqType'', qmiLocSpecialReqEnumT_v02)]"

definition qmiLocGetBestAvailablePositionIndMsgT_v02 :: cty where
  "qmiLocGetBestAvailablePositionIndMsgT_v02 = CStruct [
    (''status'', qmiLocStatusEnumT_v02),
    (''transactionId_valid'', CPrim CUint8),
    (''transactionId'', CPrim CUint32),
    (''latitude_valid'', CPrim CUint8),
    (''latitude'', CPrim CDouble),
    (''longitude_valid'', CPrim CUint8),
    (''longitude'', CPrim CDouble),
    (''horUncCircular_valid'', CPrim CUint8),
    (''horUncCircular'', CPrim CFloat),
    (''altitudeWrtEllipsoid_valid'', CPrim CUint8),
    (''altitudeWrtEllipsoid'', CPrim CFloat),
    (''vertUnc_valid'', CPrim CUint8),
    (''vertUnc'', CPrim CFloat),
    (''timestampUtc_valid'', CPrim CUint8),
    (''timestampUtc'', CPrim CUint64),
    (''timeUnc_valid'', CPrim CUint8),
    (''timeUnc'', CPrim CFloat),
    (''horUncEllipseSemiMinor_valid'', CPrim CUint8),
    (''horUncEllipseSemiMinor'', CPrim CFloat),
    (''horUncEllipseSemiMajor_valid'', CPrim CUint8),
    (''horUncEllipseSemiMajor'', CPrim CFloat),
    (''horUncEllipseOrientAzimuth_valid'', CPrim CUint8),
    (''horUncEllipseOrientAzimuth'', CPrim CFloat),
    (''horCircularConfidence_valid'', CPrim CUint8),
    (''horCircularConfidence'', CPrim CUint8),
    (''horEllipticalConfidence_valid'', CPrim CUint8),
    (''horEllipticalConfidence'', CPrim CUint8),
    (''horReliability_valid'', CPrim CUint8),
    (''horReliability'', qmiLocReliabilityEnumT_v02),
    (''horSpeed_valid'', CPrim CUint8),
    (''horSpeed'', CPrim CFloat),
    (''horSpeedUnc_valid'', CPrim CUint8),
    (''horSpeedUnc'', CPrim CFloat),
    (''altitudeWrtMeanSeaLevel_valid'', CPrim CUint8),
    (''altitudeWrtMeanSeaLevel'', CPrim CFloat),
    (''vertConfidence_valid'', CPrim CUint8),
    (''vertConfidence'', CPrim CUint8),
    (''vertReliability_valid'', CPrim CUint8),
    (''vertReliability'', qmiLocReliabilityEnumT_v02),
    (''vertSpeed_valid'', CPrim CUint8),
    (''vertSpeed'', CPrim CFloat),
    (''vertSpeedUnc_valid'', CPrim CUint8),
    (''vertSpeedUnc'', CPrim CFloat),
    (''heading_valid'', CPrim CUint8),
    (''heading'', CPrim CFloat),
    (''headingUnc_valid'', CPrim CUint8),
    (''headingUnc'', CPrim CFloat),
    (''magneticDeviation_valid'', CPrim CUint8),
    (''magneticDeviation'', CPrim CFloat),
    (''technologyMask_valid'', CPrim CUint8),
    (''technologyMask'', qmiLocPosTechMaskT_v02),
    (''DOP_valid'', CPrim CUint8),
    (''DOP'', qmiLocDOPStructT_v02),
    (''gpsTime_valid'', CPrim CUint8),
    (''gpsTime'', qmiLocGPSTimeStructT_v02),
    (''timeSrc_valid'', CPrim CUint8),
    (''timeSrc'', qmiLocTimeSourceEnumT_v02),
    (''sensorDataUsage_valid'', CPrim CUint8),
    (''sensorDataUsage'', qmiLocSensorUsageIndicatorStructT_v02),
    (''gnssSvUsedList_valid'', CPrim CUint8),
    (''gnssSvUsedList_len'', CPrim CUint32),
    (''gnssSvUsedList'', CArr (CPrim CUint16) (QMI_LOC_MAX_SV_USED_LIST_LENGTH_V02)),
    (''extDOP_valid'', CPrim CUint8),
    (''extDOP'', qmiLocExtDOPStructT_v02),
    (''spoofReportMask_valid'', CPrim CUint8),
    (''spoofReportMask'', qmiLocSpoofMaskT_v02),
    (''expandedGnssSvUsedList_valid'', CPrim CUint8),
    (''expandedGnssSvUsedList_len'', CPrim CUint32),
    (''expandedGnssSvUsedList'', CArr (CPrim CUint16) (QMI_LOC_EXPANDED_SV_INFO_LIST_MAX_SIZE_V02)),
    (''gnssSvUsedSignalTypeList_valid'', CPrim CUint8),
    (''gnssSvUsedSignalTypeList_len'', CPrim CUint32),
    (''gnssSvUsedSignalTypeList'', CArr qmiLocGnssSignalTypeMaskT_v02 (QMI_LOC_EXPANDED_SV_INFO_LIST_MAX_SIZE_V02)),
    (''conformityIndex_valid'', CPrim CUint8),
    (''conformityIndex'', CPrim CFloat),
    (''gnssTime_valid'', CPrim CUint8),
    (''gnssTime'', qmiLocGnssTimeStructT_v02)]"

definition qmiLocMotionStateEnumT_v02 :: cty where
  "qmiLocMotionStateEnumT_v02 = CEnum [
    (''QMILOCMOTIONSTATEENUMT_MIN_ENUM_VAL_V02'', -2147483647),
    (''eQMI_LOC_MOTION_STATE_UNKNOWN_V02'', 0),
    (''eQMI_LOC_MOTION_STATE_STATIONARY_V02'', 1),
    (''eQMI_LOC_MOTION_STATE_IN_MOTION_V02'', 2),
    (''QMILOCMOTIONSTATEENUMT_MAX_ENUM_VAL_V02'', 2147483647)]"

definition qmiLocMotionModeEnumT_v02 :: cty where
  "qmiLocMotionModeEnumT_v02 = CEnum [
    (''QMILOCMOTIONMODEENUMT_MIN_ENUM_VAL_V02'', -2147483647),
    (''eQMI_LOC_MOTION_MODE_UNKNOWN_V02'', 0),
    (''eQMI_LOC_MOTION_MODE_STATIONARY_V02'', 1),
    (''eQMI_LOC_MOTION_MODE_PEDESTRIAN_UNKNOWN_V02'', 200),
    (''eQMI_LOC_MOTION_MODE_PEDESTRIAN_WALKING_V02'', 201),
    (''eQMI_LOC_MOTION_MODE_PEDESTRIAN_RUNNING_V02'', 202),
    (''eQMI_LOC_MOTION_MODE_VEHICLE_UNKNOWN_V02'', 300),
    (''QMILOCMOTIONMODEENUMT_MAX_ENUM_VAL_V02'', 2147483647)]"

definition qmiLocMotionDataStructT_v02 :: cty where
  "qmiLocMotionDataStructT_v02 = CStruct [
    (''motion_state'', qmiLocMotionStateEnumT_v02),
    (''motion_mode'', qmiLocMotionModeEnumT_v02),
    (''probability_of_state'', CPrim CFloat),
    (''age'', CPrim CUint16),
    (''timeout'', CPrim CUint16)]"

definition qmiLocInjectMotionDataReqMsgT_v02 :: cty where
  "qmiLocInjectMotionDataReqMsgT_v02 = CStruct [
    (''motion_data'', qmiLocMotionDataStructT_v02)]"

definition qmiLocInjectMotionDataIndMsgT_v02 :: cty where
  "qmiLocInjectMotionDataIndMsgT_v02 = CStruct [
    (''status'', qmiLocStatusEnumT_v02)]"

definition qmiLocGetNiGeofenceIdListReqMsgT_v02 :: cty where
  "qmiLocGetNiGeofenceIdListReqMsgT_v02 = CStruct [
    (''transactionId'', CPrim CUint32)]"

definition qmiLocGetNiGeofenceIdListIndMsgT_v02 :: cty where
  "qmiLocGetNiGeofenceIdListIndMsgT_v02 = CStruct [
    (''status'', qmiLocStatusEnumT_v02),
    (''transactionId_valid'', CPrim CUint8),
    (''transactionId'', CPrim CUint32),
    (''niGeofenceIdList_valid'', CPrim CUint8),
    (''niGeofenceIdList_len'', CPrim CUint32),
    (''niGeofenceIdList'', CArr (CPrim CUint32) (QMI_LOC_MAX_NI_GEOFENCE_ID_LIST_LENGTH_V02))]"

definition qmiLocGSMCellIdStructT_v02 :: cty where
  "qmiLocGSMCellIdStructT_v02 = CStruct [
    (''MCC'', CPrim CUint32),
    (''MNC'', CPrim CUint32),
    (''LAC'', CPrim CUint32),
    (''CID'', CPrim CUint32)]"

definition qmiLocInjectGSMCellInfoReqMsgT_v02 :: cty where
  "qmiLocInjectGSMCellInfoReqMsgT_v02 = CStruct [
    (''gsmCellId'', qmiLocGSMCellIdStructT_v02),
    (''roamingStatus'', CPrim CUint8),
    (''timingAdvance_valid'', CPrim CUint8),
    (''timingAdvance'', CPrim CUint32)]"

definition qmiLocInjectGSMCellInfoIndMsgT_v02 :: cty where
  "qmiLocInjectGSMCellInfoIndMsgT_v02 = CStruct [
    (''status'', qmiLocStatusEnumT_v02)]"

definition qmiLocRoamingStatusEnumT_v02 :: cty where
  "qmiLocRoamingStatusEnumT_v02 = CEnum [
    (''QMILOCROAMINGSTATUSENUMT_MIN_ENUM_VAL_V02'', -2147483647),
    (''eQMI_LOC_PHONE_NOT_ROAMING_V02'', 1),
    (''eQMI_LOC_PHONE_ROAMING_V02'', 2),
    (''QMILOCROAMINGSTATUSENUMT_MAX_ENUM_VAL_V02'', 2147483647)]"

definition qmiLocWCDMACellIdStructT_v02 :: cty where
  "qmiLocWCDMACellIdStructT_v02 = CStruct [
    (''mcc'', CPrim CUint32),
    (''mnc'', CPrim CUint32),
    (''cid'', CPrim CUint32)]"

definition qmiLocInjectWCDMACellInfoReqMsgT_v02 :: cty where
  "qmiLocInjectWCDMACellInfoReqMsgT_v02 = CStruct [
    (''wcdmaCellId'', qmiLocWCDMACellIdStructT_v02),
    (''roamingStatus'', qmiLocRoamingStatusEnumT_v02),
    (''freq_valid'', CPrim CUint8),
    (''freq'', CPrim CUint32),
    (''psc_valid'', CPrim CUint8),
    (''psc'', CPrim CUint32)]"

definition qmiLocInjectWCDMACellInfoIndMsgT_v02 :: cty where
  "qmiLocInjectWCDMACellInfoIndMsgT_v02 = CStruct [
    (''status'', qmiLocStatusEnumT_v02)]"

definition qmiLocTDSCDMACellIdStructT_v02 :: cty where
  "qmiLocTDSCDMACellIdStructT_v02 = CStruct [
    (''mcc'', CPrim CUint32),
    (''mnc'', CPrim CUint32),
    (''cid'', CPrim CUint32),
    (''lac'', CPrim CUint32)]"

definition qmiLocInjectTDSCDMACellInfoReqMsgT_v02 :: cty where
  "qmiLocInjectTDSCDMACellInfoReqMsgT_v02 = CStruct [
    (''tdscdmaCellId'', qmiLocTDSCDMACellIdStructT_v02),
    (''roamingStatus'', qmiLocRoamingStatusEnumT_v02),
    (''freq_valid'', CPrim CUint8),
    (''freq'', CPrim CUint32)]"

definition qmiLocInjectTDSCDMACellInfoIndMsgT_v02 :: cty where
  "qmiLocInjectTDSCDMACellInfoIndMsgT_v02 = CStruct [
    (''status'', qmiLocStatusEnumT_v02)]"

definition qmiLocInjectSubscriberIDReqMsgT_v02 :: cty where
  "qmiLocInjectSubscriberIDReqMsgT_v02 = CStruct [
    (''preferredIMSI_valid'', CPrim CUint8),
    (''preferredIMSI'', CPrim CUint64),
    (''preferredMSISDN_valid'', CPrim CUint8),
    (''preferredMSISDN'', CPrim CUint64)]"

definition qmiLocInjectSubscriberIDIndMsgT_v02 :: cty where
  "qmiLocInjectSubscriberIDIndMsgT_v02 = CStruct [
    (''status'', qmiLocStatusEnumT_v02)]"

definition qmiLocInjectedNetworkInitiatedMessageTypeEnumT_v02 :: cty where
  "qmiLocInjectedNetworkInitiatedMessageTypeEnumT_v02 = CEnum [
    (''QMILOCINJECTEDNETWORKINITIATEDMESSAGETYPEENUMT_MIN_ENUM_VAL_V02'', -2147483647),
    (''eQMI_LOC_INJECTED_NETWORK_INITIATED_MESSAGE_TYPE_SUPL_V02'', 0),
    (''QMILOCINJECTEDNETWORKINITIATEDMESSAGETYPEENUMT_MAX_ENUM_VAL_V02'', 2147483647)]"

definition qmiLocInjectNetworkInitiatedMessageReqMsgT_v02 :: cty where
  "qmiLocInjectNetworkInitiatedMessageReqMsgT_v02 = CStruct [
    (''injectedNIMessageType'', qmiLocInjectedNetworkInitiatedMessageTypeEnumT_v02),
    (''injectedNIMessage_len'', CPrim CUint32),
    (''injectedNIMessage'', CArr (CPrim CUint8) (QMI_LOC_MAX_INJECTED_NETWORK_INITIATED_MESSAGE_LENGTH_V02)),
    (''subId_valid'', CPrim CUint8),
    (''subId'', qmiLocSysModemAsIdTypeEnumT_v02)]"

definition qmiLocInjectNetworkInitiatedMessageIndMsgT_v02 :: cty where
  "qmiLocInjectNetworkInitiatedMessageIndMsgT_v02 = CStruct [
    (''status'', qmiLocStatusEnumT_v02)]"

definition qmiLocWWANOutOfServiceNotificationReqMsgT_v02 :: cty where
  "qmiLocWWANOutOfServiceNotificationReqMsgT_v02 = CStruct [
    (''__placeholder'', CPrim CChar)]"

definition qmiLocWWANOutOfServiceNotificationIndMsgT_v02 :: cty where
  "qmiLocWWANOutOfServiceNotificationIndMsgT_v02 = CStruct [
    (''status'', qmiLocStatusEnumT_v02)]"

definition qmiLocPedometerReportReqMsgT_v02 :: cty where
  "qmiLocPedometerReportReqMsgT_v02 = CStruct [
    (''timeSource'', qmiLocSensorDataTimeSourceEnumT_v02),
    (''timestamp'', CPrim CUint32),
    (''timeInterval'', CPrim CUint32),
    (''stepCount'', CPrim CUint32),
    (''stepConfidence_valid'', CPrim CUint8),
    (''stepConfidence'', CPrim CUint8),
    (''stepCountUncertainty_valid'', CPrim CUint8),
    (''stepCountUncertainty'', CPrim CFloat),
    (''stepRate_valid'', CPrim CUint8),
    (''stepRate'', CPrim CFloat)]"

definition qmiLocPedometerReportIndMsgT_v02 :: cty where
  "qmiLocPedometerReportIndMsgT_v02 = CStruct [
    (''status'', qmiLocStatusEnumT_v02)]"

definition qmiLocBatchingTypeEnumT_v02 :: cty where
  "qmiLocBatchingTypeEnumT_v02 = CEnum [
    (''QMILOCBATCHINGTYPEENUMT_MIN_ENUM_VAL_V02'', -2147483647),
    (''eQMI_LOC_LOCATION_BATCHING_V02'', 1),
    (''eQMI_LOC_OUTDOOR_TRIP_BATCHING_V02'', 2),
    (''QMILOCBATCHINGTYPEENUMT_MAX_ENUM_VAL_V02'', 2147483647)]"

definition qmiLocGetBatchSizeReqMsgT_v02 :: cty where
  "qmiLocGetBatchSizeReqMsgT_v02 = CStruct [
    (''transactionId'', CPrim CUint32),
    (''batchSize'', CPrim CUint32),
    (''batchType_valid'', CPrim CUint8),
    (''batchType'', qmiLocBatchingTypeEnumT_v02)]"

definition qmiLocGetBatchSizeIndMsgT_v02 :: cty where
  "qmiLocGetBatchSizeIndMsgT_v02 = CStruct [
    (''status'', qmiLocStatusEnumT_v02),
    (''transactionId'', CPrim CUint32),
    (''batchSize'', CPrim CUint32)]"

definition qmiLocStartBatchingReqMsgT_v02 :: cty where
  "qmiLocStartBatchingReqMsgT_v02 = CStruct [
    (''minInterval_valid'', CPrim CUint8),
    (''minInterval'', CPrim CUint32),
    (''horizontalAccuracyLevel_valid'', CPrim CUint8),
    (''horizontalAccuracyLevel'', qmiLocAccuracyLevelEnumT_v02),
    (''fixSessionTimeout_valid'', CPrim CUint8),
    (''fixSessionTimeout'', CPrim CUint32),
    (''minDistance_valid'', CPrim CUint8),
    (''minDistance'', CPrim CUint32),
    (''batchAllPos_valid'', CPrim CUint8),
    (''batchAllPos'', CPrim CUint8),
    (''requestId_valid'', CPrim CUint8),
    (''requestId'', CPrim CUint32)]"

definition qmiLocStartBatchingIndMsgT_v02 :: cty where
  "qmiLocStartBatchingIndMsgT_v02 = CStruct [
    (''status'', qmiLocStatusEnumT_v02),
    (''requestId_valid'', CPrim CUint8),
    (''requestId'', CPrim CUint32)]"

definition qmiLocEventBatchFullIndMsgT_v02 :: cty where
  "qmiLocEventBatchFullIndMsgT_v02 = CStruct [
    (''batchCount'', CPrim CUint32),
    (''batchType_valid'', CPrim CUint8),
    (''batchType'', qmiLocBatchingTypeEnumT_v02),
    (''accumulatedDistance_valid'', CPrim CUint8),
    (''accumulatedDistance'', CPrim CUint32),
    (''batchedPosition_valid'', CPrim CUint8),
    (''batchedPosition'', CPrim CUint32)]"

definition qmiLocBatchedReportValidFieldsMaskT_v02 :: cty where "qmiLocBatchedReportValidFieldsMaskT_v02 = CPrim CUint64"

definition qmiLocBatchedReportStructT_v02 :: cty where
  "qmiLocBatchedReportStructT_v02 = CStruct [
    (''fixId'', CPrim CUint32),
    (''validFields'', qmiLocBatchedReportValidFieldsMaskT_v02),
    (''latitude'', CPrim CDouble),
    (''longitude'', CPrim CDouble),
    (''horUncCircular'', CPrim CFloat),
    (''speedHorizontal'', CPrim CFloat),
    (''speedUnc'', CPrim CFloat),
    (''altitudeWrtEllipsoid'', CPrim CFloat),
    (''speedVertical'', CPrim CFloat),
    (''heading'', CPrim CFloat),
    (''headingUnc'', CPrim CFloat),
    (''technologyMask'', qmiLocPosTechMaskT_v02),
    (''timestampUtc'', CPrim CUint64),
    (''timeUnc'', CPrim CFloat),
    (''magneticDeviation'', CPrim CFloat),
    (''vertUnc'', CPrim CFloat),
    (''horConfidence'', CPrim CUint8),
    (''gpsTime'', qmiLocGPSTimeStructT_v02)]"

definition qmiLocEventLiveBatchedPositionReportIndMsgT_v02 :: cty where
  "qmiLocEventLiveBatchedPositionReportIndMsgT_v02 = CStruct [
    (''liveBatchedReport'', qmiLocBatchedReportStructT_v02)]"

definition qmiLocReadFromBatchReqMsgT_v02 :: cty where
  "qmiLocReadFromBatchReqMsgT_v02 = CStruct [
    (''numberOfEntries'', CPrim CUint32),
    (''transactionId'', CPrim CUint32),
    (''batchType_valid'', CPrim CUint8),
    (''batchType'', qmiLocBatchingTypeEnumT_v02)]"

definition qmiLocReadFromBatchIndMsgT_v02 :: cty where
  "qmiLocReadFromBatchIndMsgT_v02 = CStruct [
    (''status'', qmiLocStatusEnumT_v02),
    (''transactionId'', CPrim CUint32),
    (''numberOfEntries_valid'', CPrim CUint8),
    (''numberOfEntries'', CPrim CUint32),
    (''batchedReportList_valid'', CPrim CUint8),
    (''batchedReportList_len'', CPrim CUint32),
    (''batchedReportList'', CArr qmiLocBatchedReportStructT_v02 (QMI_LOC_READ_FROM_BATCH_MAX_SIZE_V02))]"

definition qmiLocStopBatchingReqMsgT_v02 :: cty where
  "qmiLocStopBatchingReqMsgT_v02 = CStruct [
    (''transactionId'', CPrim CUint32),
    (''requestId_valid'', CPrim CUint8),
    (''requestId'', CPrim CUint32),
    (''batchType_valid'', CPrim CUint8),
    (''batchType'', qmiLocBatchingTypeEnumT_v02)]"

definition qmiLocStopBatchingIndMsgT_v02 :: cty where
  "qmiLocStopBatchingIndMsgT_v02 = CStruct [
    (''status'', qmiLocStatusEnumT_v02),
    (''transactionId'', CPrim CUint32),
    (''requestId_valid'', CPrim CUint8),
    (''requestId'', CPrim CUint32)]"

definition qmiLocReleaseBatchReqMsgT_v02 :: cty where
  "qmiLocReleaseBatchReqMsgT_v02 = CStruct [
    (''transactionId'', CPrim CUint32),
    (''batchType_valid'', CPrim CUint8),
    (''batchType'', qmiLocBatchingTypeEnumT_v02)]"

definition qmiLocReleaseBatchIndMsgT_v02 :: cty where
  "qmiLocReleaseBatchIndMsgT_v02 = CStruct [
    (''status'', qmiLocStatusEnumT_v02),
    (''transactionId'', CPrim CUint32)]"

definition qmiLocEventInjectWifiApDataReqIndMsgT_v02 :: cty where
  "qmiLocEventInjectWifiApDataReqIndMsgT_v02 = CStruct [
    (''e911Mode_valid'', CPrim CUint8),
    (''e911Mode'', CPrim CUint8)]"

definition qmiLocWifiApDataDeviceTypeEnumT_v02 :: cty where
  "qmiLocWifiApDataDeviceTypeEnumT_v02 = CEnum [
    (''QMILOCWIFIAPDATADEVICETYPEENUMT_MIN_ENUM_VAL_V02'', -2147483647),
    (''eQMI_LOC_WIFI_AP_DATA_DEVICE_TYPE_WLAN_802_11_A_V02'', 0),
    (''eQMI_LOC_WIFI_AP_DATA_DEVICE_TYPE_WLAN_802_11_B_V02'', 1),
    (''eQMI_LOC_WIFI_AP_DATA_DEVICE_TYPE_WLAN_802_11_G_V02'', 2),
    (''QMILOCWIFIAPDATADEVICETYPEENUMT_MAX_ENUM_VAL_V02'', 2147483647)]"

definition qmiLocWifiApDataRtdUnitTypeEnumT_v02 :: cty where
  "qmiLocWifiApDataRtdUnitTypeEnumT_v02 = CEnum [
    (''QMILOCWIFIAPDATARTDUNITTYPEENUMT_MIN_ENUM_VAL_V02'', -2147483647),
    (''eQMI_LOC_WIFI_AP_DATA_RTD_UNIT_MICROSEC_V02'', 0),
    (''eQMI_LOC_WIFI_AP_DATA_RTD_UNIT_HUNDREDS_OF_NANOSEC_V02'', 1),
    (''eQMI_LOC_WIFI_AP_DATA_RTD_UNIT_TENS_OF_NANOSEC_V02'', 2),
    (''eQMI_LOC_WIFI_AP_DATA_RTD_UNIT_NANOSEC_V02'', 3),
    (''eQMI_LOC_WIFI_AP_DATA_RTD_UNIT_TENTH_OF_NANOSEC_V02'', 4),
    (''QMILOCWIFIAPDATARTDUNITTYPEENUMT_MAX_ENUM_VAL_V02'', 2147483647)]"

definition qmiLocWifiApDataMaskT_v02 :: cty where "qmiLocWifiApDataMaskT_v02 = CPrim CUint32"

definition qmiLocWifiApDataStructT_v02 :: cty where
  "qmiLocWifiApDataStructT_v02 = CStruct [
    (''wifiApDataMask'', qmiLocWifiApDataMaskT_v02),
    (''macAddress'', CArr (CPrim CUint8) (QMI_LOC_WIFI_MAC_ADDR_LENGTH_V02)),
    (''apTransmitPower'', CPrim CInt32),
    (''apAntennaGain'', CPrim CInt32),
    (''apSignalToNoise'', CPrim CInt32),
    (''apDeviceType'', qmiLocWifiApDataDeviceTypeEnumT_v02),
    (''apRssi'', CPrim CInt32),
    (''apChannel'', CPrim CUint16),
    (''apRoundTripDelay'', CPrim CUint32),
    (''apRoundTripDelayUnit'', qmiLocWifiApDataRtdUnitTypeEnumT_v02),
    (''apRoundTripDelayAccuracy'', CPrim CUint8),
    (''mobileSignalToNoise'', CPrim CInt32),
    (''mobileRssi'', CPrim CInt32)]"

definition qmiLocWifiApAdditionalDataStructT_v02 :: cty where
  "qmiLocWifiApAdditionalDataStructT_v02 = CStruct [
    (''rssiTimestamp'', CPrim CInt64),
    (''measAge'', CPrim CInt32),
    (''servingAccessPoint'', CPrim CUint8),
    (''channelFrequency'', CPrim CUint32),
    (''ssid'', CArr (CPrim CChar) (QMI_LOC_MAX_WIFI_AP_SSID_STR_LENGTH_V02 + 1)),
    (''apHighResolutionRssi'', CPrim CInt32)]"

definition qmiLocWlanApErrEnumT_v02 :: cty where
  "qmiLocWlanApErrEnumT_v02 = CEnum [
    (''QMILOCWLANAPERRENUMT_MIN_ENUM_VAL_V02'', -2147483647),
    (''eQMI_LOC_WLAN_AP_ERR_UNKNOWN_V02'', 0),
    (''eQMI_LOC_WLAN_AP_ERR_NO_REQ_MEAS_AVAILABLE_V02'', 1),
    (''eQMI_LOC_WLAN_AP_ERR_WIFI_OFF_V02'', 2),
    (''QMILOCWLANAPERRENUMT_MAX_ENUM_VAL_V02'', 2147483647)]"

definition qmiLocInjectWifiApDataReqMsgT_v02 :: cty where
  "qmiLocInjectWifiApDataReqMsgT_v02 = CStruct [
    (''wifiApInfo_len'', CPrim CUint32),
    (''wifiApInfo'', CArr qmiLocWifiApDataStructT_v02 (QMI_LOC_WIFI_MAX_REPORTED_APS_PER_MSG_V02)),
    (''errorCause_valid'', CPrim CUint8),
    (''errorCause'', qmiLocWlanApErrEnumT_v02),
    (''requestTimestamp_valid'', CPrim CUint8),
    (''requestTimestamp'', CPrim CInt64),
    (''receiveTimestamp_valid'', CPrim CUint8),
    (''receiveTimestamp'', CPrim CInt64),
    (''onDemandScan_valid'', CPrim CUint8),
    (''onDemandScan'', CPrim CUint8),
    (''wifiApInfoA_valid'', CPrim CUint8),
    (''wifiApInfoA_len'', CPrim CUint32),
    (''wifiApInfoA'', CArr qmiLocWifiApAdditionalDataStructT_v02 (QMI_LOC_WIFI_MAX_REPORTED_APS_PER_MSG_V02)),
    (''ueMacAddress_valid'', CPrim CUint8),
    (''ueMacAddress'', CArr (CPrim CUint8) (QMI_LOC_WIFI_MAC_ADDR_LENGTH_V02))]"

definition qmiLocInjectWifiApDataIndMsgT_v02 :: cty where
  "qmiLocInjectWifiApDataIndMsgT_v02 = CStruct [
    (''status'', qmiLocStatusEnumT_v02)]"

definition qmiLocWifiAccessPointAttachStatesEnumT_v02 :: cty where
  "qmiLocWifiAccessPointAttachStatesEnumT_v02 = CEnum [
    (''QMILOCWIFIACCESSPOINTATTACHSTATESENUMT_MIN_ENUM_VAL_V02'', -2147483647),
    (''eQMI_LOC_WIFI_ACCESS_POINT_ATTACHED_V02'', 0),
    (''eQMI_LOC_WIFI_ACCESS_POINT_DETACHED_V02'', 1),
    (''eQMI_LOC_WIFI_ACCESS_POINT_HANDOVER_V02'', 2),
    (''QMILOCWIFIACCESSPOINTATTACHSTATESENUMT_MAX_ENUM_VAL_V02'', 2147483647)]"

definition qmiLocNotifyWifiAttachmentStatusReqMsgT_v02 :: cty where
  "qmiLocNotifyWifiAttachmentStatusReqMsgT_v02 = CStruct [
    (''attachState'', qmiLocWifiAccessPointAttachStatesEnumT_v02),
    (''accessPointMacAddress_valid'', CPrim CUint8),
    (''accessPointMacAddress'', CArr (CPrim CUint8) (QMI_LOC_WIFI_MAC_ADDR_LENGTH_V02)),
    (''wifiApSsid_valid'', CPrim CUint8),
    (''wifiApSsid'', CArr (CPrim CChar) (QMI_LOC_MAX_WIFI_AP_SSID_STR_LENGTH_V02 + 1))]"

definition qmiLocNotifyWifiAttachmentStatusIndMsgT_v02 :: cty where
  "qmiLocNotifyWifiAttachmentStatusIndMsgT_v02 = CStruct [
    (''status'', qmiLocStatusEnumT_v02)]"

definition qmiLocWifiEnabledStatusEnumT_v02 :: cty where
  "qmiLocWifiEnabledStatusEnumT_v02 = CEnum [
    (''QMILOCWIFIENABLEDSTATUSENUMT_MIN_ENUM_VAL_V02'', -2147483647),
    (''eQMI_LOC_WIFI_ENABLED_FALSE_V02'', 0),
    (''eQMI_LOC_WIFI_ENABLED_TRUE_V02'', 1),
    (''QMILOCWIFIENABLEDSTATUSENUMT_MAX_ENUM_VAL_V02'', 2147483647)]"

definition qmiLocNotifyWifiEnabledStatusReqMsgT_v02 :: cty where
  "qmiLocNotifyWifiEnabledStatusReqMsgT_v02 = CStruct [
    (''enabledStatus'', qmiLocWifiEnabledStatusEnumT_v02)]"

definition qmiLocNotifyWifiEnabledStatusIndMsgT_v02 :: cty where
  "qmiLocNotifyWifiEnabledStatusIndMsgT_v02 = CStruct [
    (''status'', qmiLocStatusEnumT_v02)]"

definition qmiLocEventVehicleDataReadyIndMsgT_v02 :: cty where
  "qmiLocEventVehicleDataReadyIndMsgT_v02 = CStruct [
    (''vehicleAccelReadyStatus_valid'', CPrim CUint8),
    (''vehicleAccelReadyStatus'', CPrim CUint8),
    (''vehicleAngularRateReadyStatus_valid'', CPrim CUint8),
    (''vehicleAngularRateReadyStatus'', CPrim CUint8),
    (''vehicleOdometryReadyStatus_valid'', CPrim CUint8),
    (''vehicleOdometryReadyStatus'', CPrim CUint8)]"

definition qmiLocVehicleSensorSampleStructT_v02 :: cty where
  "qmiLocVehicleSensorSampleStructT_v02 = CStruct [
    (''timeOffset'', CPrim CUint32),
    (''axisSample_len'', CPrim CUint32),
    (''axisSample'', CArr (CPrim CFloat) (QMI_LOC_VEHICLE_SENSOR_DATA_MAX_AXES_V02))]"

definition qmiLocAxesMaskT_v02 :: cty where "qmiLocAxesMaskT_v02 = CPrim CUint8"

definition qmiLocVehicleSensorSampleListStructType_v02 :: cty where
  "qmiLocVehicleSensorSampleListStructType_v02 = CStruct [
    (''sampleTimeBase'', CPrim CUint32),
    (''axesValidity'', qmiLocAxesMaskT_v02),
    (''sensorData_len'', CPrim CUint32),
    (''sensorData'', CArr qmiLocVehicleSensorSampleStructT_v02 (QMI_LOC_VEHICLE_SENSOR_DATA_MAX_SAMPLES_V02))]"

definition qmiLocVehicleOdometryMeasDeviationMaskType_v02 :: cty where "qmiLocVehicleOdometryMeasDeviationMaskType_v02 = CPrim CUint32"

definition qmiLocVehicleOdometryWheelFlagsMaskT_v02 :: cty where "qmiLocVehicleOdometryWheelFlagsMaskT_v02 = CPrim CUint32"

definition qmiLocVehicleOdometrySampleStructT_v02 :: cty where
  "qmiLocVehicleOdometrySampleStructT_v02 = CStruct [
    (''timeOffset'', CPrim CUint32),
    (''distanceTravelled_len'', CPrim CUint32),
    (''distanceTravelled'', CArr (CPrim CUint32) (QMI_LOC_VEHICLE_ODOMETRY_MAX_MEASUREMENTS_V02))]"

definition qmiLocVehicleOdometrySampleListStructT_v02 :: cty where
  "qmiLocVehicleOdometrySampleListStructT_v02 = CStruct [
    (''sampleTimeBase'', CPrim CUint32),
    (''flags'', qmiLocVehicleOdometryMeasDeviationMaskType_v02),
    (''wheelFlags'', qmiLocVehicleOdometryWheelFlagsMaskT_v02),
    (''distanceTravelledBase'', CPrim CUint32),
    (''odometryData_len'', CPrim CUint32),
    (''odometryData'', CArr qmiLocVehicleOdometrySampleStructT_v02 (QMI_LOC_VEHICLE_SENSOR_DATA_MAX_SAMPLES_V02))]"

definition qmiLocInjectVehicleSensorDataReqMsgT_v02 :: cty where
  "qmiLocInjectVehicleSensorDataReqMsgT_v02 = CStruct [
    (''accelData_valid'', CPrim CUint8),
    (''accelData'', qmiLocVehicleSensorSampleListStructType_v02),
    (''angRotationData_valid'', CPrim CUint8),
    (''angRotationData'', qmiLocVehicleSensorSampleListStructType_v02),
    (''odometryData_valid'', CPrim CUint8),
    (''odometryData'', qmiLocVehicleOdometrySampleListStructT_v02),
    (''changeInTimeScales_valid'', CPrim CUint8),
    (''changeInTimeScales'', CPrim CInt32)]"

definition qmiLocInjectVehicleSensorDataIndMsgT_v02 :: cty where
  "qmiLocInjectVehicleSensorDataIndMsgT_v02 = CStruct [
    (''status'', qmiLocStatusEnumT_v02)]"

definition qmiLocGetAvailWwanPositionReqMsgT_v02 :: cty where
  "qmiLocGetAvailWwanPositionReqMsgT_v02 = CStruct [
    (''transactionId'', CPrim CUint32)]"

definition qmiLocGetAvailWwanPositionIndMsgT_v02 :: cty where
  "qmiLocGetAvailWwanPositionIndMsgT_v02 = CStruct [
    (''status'', qmiLocStatusEnumT_v02),
    (''transactionId_valid'', CPrim CUint8),
    (''transactionId'', CPrim CUint32),
    (''latitude_valid'', CPrim CUint8),
    (''latitude'', CPrim CDouble),
    (''longitude_valid'', CPrim CUint8),
    (''longitude'', CPrim CDouble),
    (''horUncCircular_valid'', CPrim CUint8),
    (''horUncCircular'', CPrim CFloat),
    (''altitudeWrtEllipsoid_valid'', CPrim CUint8),
    (''altitudeWrtEllipsoid'', CPrim CFloat),
    (''vertUnc_valid'', CPrim CUint8),
    (''vertUnc'', CPrim CFloat),
    (''timestampUtc_valid'', CPrim CUint8),
    (''timestampUtc'', CPrim CUint64),
    (''timeUnc_valid'', CPrim CUint8),
    (''timeUnc'', CPrim CFloat),
    (''horUncEllipseSemiMinor_valid'', CPrim CUint8),
    (''horUncEllipseSemiMinor'', CPrim CFloat),
    (''horUncEllipseSemiMajor_valid'', CPrim CUint8),
    (''horUncEllipseSemiMajor'', CPrim CFloat),
    (''horUncEllipseOrientAzimuth_valid'', CPrim CUint8),
    (''horUncEllipseOrientAzimuth'', CPrim CFloat),
    (''horCircularConfidence_valid'', CPrim CUint8),
    (''horCircularConfidence'', CPrim CUint8),
    (''horEllipticalConfidence_valid'', CPrim CUint8),
    (''horEllipticalConfidence'', CPrim CUint8),
    (''horReliability_valid'', CPrim CUint8),
    (''horReliability'', qmiLocReliabilityEnumT_v02),
    (''altitudeWrtMeanSeaLevel_valid'', CPrim CUint8),
    (''altitudeWrtMeanSeaLevel'', CPrim CFloat),
    (''vertConfidence_valid'', CPrim CUint8),
    (''vertConfidence'', CPrim CUint8),
    (''vertReliability_valid'', CPrim CUint8),
    (''vertReliability'', qmiLocReliabilityEnumT_v02),
    (''gpsTime_valid'', CPrim CUint8),
    (''gpsTime'', qmiLocGPSTimeStructT_v02),
    (''timeSrc_valid'', CPrim CUint8),
    (''timeSrc'', qmiLocTimeSourceEnumT_v02),
    (''gnssTime_valid'', CPrim CUint8),
    (''gnssTime'', qmiLocGnssTimeStructT_v02)]"

definition qmiLocPremiumServiceEnumT_v02 :: cty where
  "qmiLocPremiumServiceEnumT_v02 = CEnum [
    (''QMILOCPREMIUMSERVICEENUMT_MIN_ENUM_VAL_V02'', -2147483647),
    (''eQMI_LOC_PREMIUM_SERVICE_GTP_CELL_V02'', 0),
    (''eQMI_LOC_PREMIUM_SERVICE_SAP_V02'', 1),
    (''eQMI_LOC_PREMIUM_SERVICE_GTP_ENH_CELL_V02'', 2),
    (''eQMI_LOC_PREMIUM_SERVICE_GTP_WIFI_V02'', 3),
    (''QMILOCPREMIUMSERVICEENUMT_MAX_ENUM_VAL_V02'', 2147483647)]"

definition qmiLocPremiumServiceCfgEnumT_v02 :: cty where
  "qmiLocPremiumServiceCfgEnumT_v02 = CEnum [
    (''QMILOCPREMIUMSERVICECFGENUMT_MIN_ENUM_VAL_V02'', -2147483647),
    (''eQMI_LOC_PREMIUM_SERVICE_DISABLED_V02'', 0),
    (''eQMI_LOC_PREMIUM_SERVICE_ENABLED_BASIC_V02'', 1),
    (''eQMI_LOC_PREMIUM_SERVICE_ENABLED_PREMIUM_V02'', 2),
    (''eQMI_LOC_PREMIUM_SERVICE_ENABLED_THIRDPARTY_V02'', 3),
    (''QMILOCPREMIUMSERVICECFGENUMT_MAX_ENUM_VAL_V02'', 2147483647)]"

definition qmiLocSetPremiumServicesCfgReqMsgT_v02 :: cty where
  "qmiLocSetPremiumServicesCfgReqMsgT_v02 = CStruct [
    (''premiumServiceType'', qmiLocPremiumServiceEnumT_v02),
    (''premiumServiceCfg'', qmiLocPremiumServiceCfgEnumT_v02)]"

definition qmiLocSetPremiumServicesCfgIndMsgT_v02 :: cty where
  "qmiLocSetPremiumServicesCfgIndMsgT_v02 = CStruct [
    (''status'', qmiLocStatusEnumT_v02)]"

definition qmiLocXtraVersionCheckEnumT_v02 :: cty where
  "qmiLocXtraVersionCheckEnumT_v02 = CEnum [
    (''QMILOCXTRAVERSIONCHECKENUMT_MIN_ENUM_VAL_V02'', -2147483647),
    (''eQMI_LOC_XTRA_VERSION_CHECK_DISABLE_V02'', 0),
    (''eQMI_LOC_XTRA_VERSION_CHECK_AUTO_V02'', 1),
    (''eQMI_LOC_XTRA_VERSION_CHECK_XTRA2_V02'', 2),
    (''eQMI_LOC_XTRA_VERSION_CHECK_XTRA3_V02'', 3),
    (''eQMI_LOC_XTRA_VERSION_CHECK_XTRA3_1_V02'', 4),
    (''QMILOCXTRAVERSIONCHECKENUMT_MAX_ENUM_VAL_V02'', 2147483647)]"

definition qmiLocSetXtraVersionCheckReqMsgT_v02 :: cty where
  "qmiLocSetXtraVersionCheckReqMsgT_v02 = CStruct [
    (''xtraVersionCheckMode'', qmiLocXtraVersionCheckEnumT_v02)]"

definition qmiLocSetXtraVersionCheckIndMsgT_v02 :: cty where
  "qmiLocSetXtraVersionCheckIndMsgT_v02 = CStruct [
    (''status'', qmiLocStatusEnumT_v02)]"

definition qmiLocSetGNSSConstRepConfigReqMsgT_v02 :: cty where
  "qmiLocSetGNSSConstRepConfigReqMsgT_v02 = CStruct [
    (''measReportConfig_valid'', CPrim CUint8),
    (''measReportConfig'', qmiLocGNSSConstellEnumT_v02),
    (''svPolyReportConfig_valid'', CPrim CUint8),
    (''svPolyReportConfig'', qmiLocGNSSConstellEnumT_v02),
    (''reportFullEphemerisDb_valid'', CPrim CUint8),
    (''reportFullEphemerisDb'', CPrim CUint8),
    (''reportFullSvPolyDb_valid'', CPrim CUint8),
    (''reportFullSvPolyDb'', CPrim CUint8),
    (''reportFullIonoDb_valid'', CPrim CUint8),
    (''reportFullIonoDb'', CPrim CUint8)]"

definition qmiLocSetGNSSConstRepConfigIndMsgT_v02 :: cty where
  "qmiLocSetGNSSConstRepConfigIndMsgT_v02 = CStruct [
    (''status'', qmiLocStatusEnumT_v02)]"

definition qmiLocSourceofFreqEnumT_v02 :: cty where
  "qmiLocSourceofFreqEnumT_v02 = CEnum [
    (''QMILOCSOURCEOFFREQENUMT_MIN_ENUM_VAL_V02'', -2147483647),
    (''eQMI_LOC_FREQ_SOURCE_INVALID_V02'', 0),
    (''eQMI_LOC_FREQ_SOURCE_EXTERNAL_V02'', 1),
    (''eQMI_LOC_FREQ_SOURCE_PE_CLK_REPORT_V02'', 2),
    (''eQMI_LOC_FREQ_SOURCE_UNKNOWN_V02'', 3),
    (''QMILOCSOURCEOFFREQENUMT_MAX_ENUM_VAL_V02'', 2147483647)]"

definition qmiLocMeasurementCodeTypeEnumT_v02 :: cty where
  "qmiLocMeasurementCodeTypeEnumT_v02 = CEnum [
    (''QMILOCMEASUREMENTCODETYPEENUMT_MIN_ENUM_VAL_V02'', -2147483647),
    (''eQMI_LOC_GNSS_CODE_TYPE_A_V02'', 0),
    (''eQMI_LOC_GNSS_CODE_TYPE_B_V02'', 1),
    (''eQMI_LOC_GNSS_CODE_TYPE_C_V02'', 2),
    (''eQMI_LOC_GNSS_CODE_TYPE_I_V02'', 3),
    (''eQMI_LOC_GNSS_CODE_TYPE_L_V02'', 4),
    (''eQMI_LOC_GNSS_CODE_TYPE_M_V02'', 5),
    (''eQMI_LOC_GNSS_CODE_TYPE_P_V02'', 6),
    (''eQMI_LOC_GNSS_CODE_TYPE_Q_V02'', 7),
    (''eQMI_LOC_GNSS_CODE_TYPE_S_V02'', 8),
    (''eQMI_LOC_GNSS_CODE_TYPE_W_V02'', 9),
    (''eQMI_LOC_GNSS_CODE_TYPE_X_V02'', 10),
    (''eQMI_LOC_GNSS_CODE_TYPE_Y_V02'', 11),
    (''eQMI_LOC_GNSS_CODE_TYPE_Z_V02'', 12),
    (''eQMI_LOC_GNSS_CODE_TYPE_N_V02'', 13),
    (''eQMI_LOC_GNSS_CODE_TYPE_D_V02'', 14),
    (''eQMI_LOC_GNSS_CODE_TYPE_E_V02'', 15),
    (''eQMI_LOC_GNSS_CODE_TYPE_OTHER_V02'', 255),
    (''QMILOCMEASUREMENTCODETYPEENUMT_MAX_ENUM_VAL_V02'', 2147483647)]"

definition qmiLocAgcStatusEnumT_v02 :: cty where
  "qmiLocAgcStatusEnumT_v02 = CEnum [
    (''QMILOCAGCSTATUSENUMT_MIN_ENUM_VAL_V02'', -2147483647),
    (''eQMI_LOC_NO_SATURATION_V02'', 0),
    (''eQMI_LOC_FRONT_END_GAIN_MAXIMUM_SATURATION_V02'', 1),
    (''eQMI_LOC_FRONT_END_GAIN_MINIMUM_SATURATION_V02'', 2),
    (''QMILOCAGCSTATUSENUMT_MAX_ENUM_VAL_V02'', 2147483647)]"

definition qmiLocRcvrClockFrequencyInfoStructT_v02 :: cty where
  "qmiLocRcvrClockFrequencyInfoStructT_v02 = CStruct [
    (''clockDrift'', CPrim CFloat),
    (''clockDriftUnc'', CPrim CFloat),
    (''sourceOfFreq'', qmiLocSourceofFreqEnumT_v02)]"

definition qmiLocLeapSecondInfoStructT_v02 :: cty where
  "qmiLocLeapSecondInfoStructT_v02 = CStruct [
    (''leapSec'', CPrim CUint8),
    (''leapSecUnc'', CPrim CUint8)]"

definition qmiLocInterSystemBiasValidMaskT_v02 :: cty where "qmiLocInterSystemBiasValidMaskT_v02 = CPrim CUint8"

definition qmiLocInterSystemBiasStructT_v02 :: cty where
  "qmiLocInterSystemBiasStructT_v02 = CStruct [
    (''validMask'', qmiLocInterSystemBiasValidMaskT_v02),
    (''timeBias'', CPrim CFloat),
    (''timeBiasUnc'', CPrim CFloat)]"

definition qmiLocGloTimeStructT_v02 :: cty where
  "qmiLocGloTimeStructT_v02 = CStruct [
    (''gloFourYear'', CPrim CUint8),
    (''gloDays'', CPrim CUint16),
    (''gloMsec'', CPrim CUint32),
    (''gloClkTimeBias'', CPrim CFloat),
    (''gloClkTimeUncMs'', CPrim CFloat)]"

definition qmiLocGnssTimeExtStructT_v02 :: cty where
  "qmiLocGnssTimeExtStructT_v02 = CStruct [
    (''refFCount'', CPrim CUint32),
    (''systemRtc_valid'', CPrim CUint8),
    (''systemRtcMs'', CPrim CUint64),
    (''sourceOfTime'', qmiLocTimeSourceEnumT_v02)]"

definition qmiLocSvMeasStatusValidMaskT_v02 :: cty where "qmiLocSvMeasStatusValidMaskT_v02 = CPrim CUint64"

definition qmiLocSvMeasStatusMaskT_v02 :: cty where "qmiLocSvMeasStatusMaskT_v02 = CPrim CUint64"

definition qmiLocSVTimeSpeedStructT_v02 :: cty where
  "qmiLocSVTimeSpeedStructT_v02 = CStruct [
    (''svTimeMs'', CPrim CUint32),
    (''svTimeSubMs'', CPrim CFloat),
    (''svTimeUncMs'', CPrim CFloat),
    (''dopplerShift'', CPrim CFloat),
    (''dopplerShiftUnc'', CPrim CFloat),
    (''dopplerAccel_valid'', CPrim CUint8),
    (''dopplerAccel'', CPrim CFloat)]"

definition qmiLocMeasFieldsValidMaskT_v02 :: cty where "qmiLocMeasFieldsValidMaskT_v02 = CPrim CUint16"

definition qmiLocSVMeasurementStructT_v02 :: cty where
  "qmiLocSVMeasurementStructT_v02 = CStruct [
    (''gnssSvId'', CPrim CUint16),
    (''gloFrequency'', CPrim CUint8),
    (''svStatus'', qmiLocSvStatusEnumT_v02),
    (''validMask'', qmiLocMeasFieldsValidMaskT_v02),
    (''healthStatus'', CPrim CUint8),
    (''svInfoMask'', qmiLocSvInfoMaskT_v02),
    (''validMeasStatusMask'', qmiLocSvMeasStatusValidMaskT_v02),
    (''measurementStatus'', qmiLocSvMeasStatusMaskT_v02),
    (''CNo'', CPrim CUint16),
    (''gloRfLoss'', CPrim CUint16),
    (''measLatency'', CPrim CInt32),
    (''svTimeSpeed'', qmiLocSVTimeSpeedStructT_v02),
    (''lossOfLock'', CPrim CUint8),
    (''multipathEstimate'', CPrim CFloat),
    (''fineSpeed'', CPrim CFloat),
    (''fineSpeedUnc'', CPrim CFloat),
    (''carrierPhase'', CPrim CDouble),
    (''cycleSlipCount'', CPrim CUint8),
    (''svAzimuth'', CPrim CFloat),
    (''svElevation'', CPrim CFloat)]"

definition qmiLocSvDgnssMeasStatusMaskT_v02 :: cty where "qmiLocSvDgnssMeasStatusMaskT_v02 = CPrim CUint64"

definition qmiLocDgnssSVMeasurementStructT_v02 :: cty where
  "qmiLocDgnssSVMeasurementStructT_v02 = CStruct [
    (''dgnssMeasStatus'', qmiLocSvDgnssMeasStatusMaskT_v02),
    (''diffDataEpochTimeMsec'', CPrim CUint32),
    (''prCorrMeters'', CPrim CFloat),
    (''prrCorrMetersPerSec'', CPrim CFloat)]"

definition qmiLocMlInferSVMeasurementStructT_v02 :: cty where
  "qmiLocMlInferSVMeasurementStructT_v02 = CStruct [
    (''mlInfer_valid'', CPrim CUint8),
    (''mlInfer'', CPrim CFloat)]"

definition qmiLocEventGnssSvMeasInfoIndMsgT_v02 :: cty where
  "qmiLocEventGnssSvMeasInfoIndMsgT_v02 = CStruct [
    (''seqNum'', CPrim CUint8),
    (''maxMessageNum'', CPrim CUint8),
    (''system'', qmiLocSvSystemEnumT_v02),
    (''rcvrClockFrequencyInfo_valid'', CPrim CUint8),
    (''rcvrClockFrequencyInfo'', qmiLocRcvrClockFrequencyInfoStructT_v02),
    (''leapSecondInfo_valid'', CPrim CUint8),
    (''leapSecondInfo'', qmiLocLeapSecondInfoStructT_v02),
    (''gpsGloInterSystemBias_valid'', CPrim CUint8),
    (''gpsGloInterSystemBias'', qmiLocInterSystemBiasStructT_v02),
    (''gpsBdsInterSystemBias_valid'', CPrim CUint8),
    (''gpsBdsInterSystemBias'', qmiLocInterSystemBiasStructT_v02),
    (''gpsGalInterSystemBias_valid'', CPrim CUint8),
    (''gpsGalInterSystemBias'', qmiLocInterSystemBiasStructT_v02),
    (''bdsGloInterSystemBias_valid'', CPrim CUint8),
    (''bdsGloInterSystemBias'', qmiLocInterSystemBiasStructT_v02),
    (''galGloInterSystemBias_valid'', CPrim CUint8),
    (''galGloInterSystemBias'', qmiLocInterSystemBiasStructT_v02),
    (''galBdsInterSystemBias_valid'', CPrim CUint8),
    (''galBdsInterSystemBias'', qmiLocInterSystemBiasStructT_v02),
    (''systemTime_valid'', CPrim CUint8),
    (''systemTime'', qmiLocGnssTimeStructT_v02),
    (''gloTime_valid'', CPrim CUint8),
    (''gloTime'', qmiLocGloTimeStructT_v02),
    (''systemTimeExt_valid'', CPrim CUint8),
    (''systemTimeExt'', qmiLocGnssTimeExtStructT_v02),
    (''svMeasurement_valid'', CPrim CUint8),
    (''svMeasurement_len'', CPrim CUint32),
    (''svMeasurement'', CArr qmiLocSVMeasurementStructT_v02 (QMI_LOC_SV_MEAS_LIST_MAX_SIZE_V02)),
    (''numClockResets_valid'', CPrim CUint8),
    (''numClockResets'', CPrim CUint32),
    (''svCarrierPhaseUncertainty_valid'', CPrim CUint8),
    (''svCarrierPhaseUncertainty_len'', CPrim CUint32),
    (''svCarrierPhaseUncertainty'', CArr (CPrim CFloat) (QMI_LOC_SV_MEAS_LIST_MAX_SIZE_V02)),
    (''gnssSignalType_valid'', CPrim CUint8),
    (''gnssSignalType'', qmiLocGnssSignalTypeMaskT_v02),
    (''jammerIndicator_valid'', CPrim CUint8),
    (''jammerIndicator'', qmiLocJammerIndicatorStructT_v02),
    (''GpsL1L2cTimeBias_valid'', CPrim CUint8),
    (''GpsL1L2cTimeBias'', qmiLocInterSystemBiasStructT_v02),
    (''GpsL1L5TimeBias_valid'', CPrim CUint8),
    (''GpsL1L5TimeBias'', qmiLocInterSystemBiasStructT_v02),
    (''GloG1G2TimeBias_valid'', CPrim CUint8),
    (''GloG1G2TimeBias'', qmiLocInterSystemBiasStructT_v02),
    (''BdsB1iB2aTimeBias_valid'', CPrim CUint8),
    (''BdsB1iB2aTimeBias'', qmiLocInterSystemBiasStructT_v02),
    (''BdsB1iB1cTimeBias_valid'', CPrim CUint8),
    (''BdsB1iB1cTimeBias'', qmiLocInterSystemBiasStructT_v02),
    (''GalE1E5aTimeBias_valid'', CPrim CUint8),
    (''GalE1E5aTimeBias'', qmiLocInterSystemBiasStructT_v02),
    (''GalE1E5bTimeBias_valid'', CPrim CUint8),
    (''GalE1E5bTimeBias'', qmiLocInterSystemBiasStructT_v02),
    (''nHzMeasurement_valid'', CPrim CUint8),
    (''nHzMeasurement'', CPrim CUint8),
    (''measurementCodeType_valid'', CPrim CUint8),
    (''measurementCodeType'', qmiLocMeasurementCodeTypeEnumT_v02),
    (''otherCodeTypeName_valid'', CPrim CUint8),
    (''otherCodeTypeName_len'', CPrim CUint32),
    (''otherCodeTypeName'', CArr (CPrim CChar) (QMI_LOC_SV_MEAS_OTHER_CODE_TYPE_NAME_MAX_LEN_V02)),
    (''gpsNavicInterSystemBias_valid'', CPrim CUint8),
    (''gpsNavicInterSystemBias'', qmiLocInterSystemBiasStructT_v02),
    (''galNavicInterSystemBias_valid'', CPrim CUint8),
    (''galNavicInterSystemBias'', qmiLocInterSystemBiasStructT_v02),
    (''gloNavicInterSystemBias_valid'', CPrim CUint8),
    (''gloNavicInterSystemBias'', qmiLocInterSystemBiasStructT_v02),
    (''bdsNavicInterSystemBias_valid'', CPrim CUint8),
    (''bdsNavicInterSystemBias'', qmiLocInterSystemBiasStructT_v02),
    (''extSvMeasurement_valid'', CPrim CUint8),
    (''extSvMeasurement_len'', CPrim CUint32),
    (''extSvMeasurement'', CArr qmiLocSVMeasurementStructT_v02 (QMI_LOC_EXT_SV_MEAS_LIST_MAX_SIZE_V02)),
    (''extSvCarrierPhaseUncertainty_valid'', CPrim CUint8),
    (''extSvCarrierPhaseUncertainty_len'', CPrim CUint32),
    (''extSvCarrierPhaseUncertainty'', CArr (CPrim CFloat) (QMI_LOC_EXT_SV_MEAS_LIST_MAX_SIZE_V02)),
    (''refCountTicks_valid'', CPrim CUint8),
    (''refCountTicks'', CPrim CUint64),
    (''dgnssCorrectionSourceT_valid'', CPrim CUint8),
    (''dgnssCorrectionSourceT'', qmiLocDgnssCorrectionSourceTypeEnumT_v02),
    (''dgnssCorrectionSourceID_valid'', CPrim CUint8),
    (''dgnssCorrectionSourceID'', CPrim CUint32),
    (''dgnssRefStationId_valid'', CPrim CUint8),
    (''dgnssRefStationId'', CPrim CUint16),
    (''dgnssSvMeasurement_valid'', CPrim CUint8),
    (''dgnssSvMeasurement_len'', CPrim CUint32),
    (''dgnssSvMeasurement'', CArr qmiLocDgnssSVMeasurementStructT_v02 (QMI_LOC_DGNSS_SV_MEAS_LIST_MAX_SIZE_V02)),
    (''refCountTicksUnc_valid'', CPrim CUint8),
    (''refCountTicksUnc'', CPrim CFloat),
    (''subSeqNum_valid'', CPrim CUint8),
    (''subSeqNum'', CPrim CUint8),
    (''maxSubSeqNum_valid'', CPrim CUint8),
    (''maxSubSeqNum'', CPrim CUint8),
    (''payload_valid'', CPrim CUint8),
    (''payload_len'', CPrim CUint32),
    (''payload'', CArr (CPrim CUint8) (2048)),
    (''gpsBdsB1cInterSystemBias_valid'', CPrim CUint8),
    (''gpsBdsB1cInterSystemBias'', qmiLocInterSystemBiasStructT_v02),
    (''bdsB1cGloInterSystemBias_valid'', CPrim CUint8),
    (''bdsB1cGloInterSystemBias'', qmiLocInterSystemBiasStructT_v02),
    (''galBdsB1cInterSystemBias_valid'', CPrim CUint8),
    (''galBdsB1cInterSystemBias'', qmiLocInterSystemBiasStructT_v02),
    (''BdsB1cB2aTimeBias_valid'', CPrim CUint8),
    (''BdsB1cB2aTimeBias'', qmiLocInterSystemBiasStructT_v02),
    (''bdsB1cNavicInterSystemBias_valid'', CPrim CUint8),
    (''bdsB1cNavicInterSystemBias'', qmiLocInterSystemBiasStructT_v02),
    (''BdsB1iB2biTimeBias_valid'', CPrim CUint8),
    (''BdsB1iB2biTimeBias'', qmiLocInterSystemBiasStructT_v02),
    (''jammedSignalsMask_valid'', CPrim CUint8),
    (''jammedSignalsMask'', qmiLocGnssSignalTypeMaskT_v02),
    (''gnssLeapSecond_valid'', CPrim CUint8),
    (''gnssLeapSecond'', CPrim CUint8),
    (''gnssLeapSecondUnc_valid'', CPrim CUint8),
    (''gnssLeapSecondUnc'', CPrim CUint8),
    (''mlInferSvMeasurement_valid'', CPrim CUint8),
    (''mlInferSvMeasurement_len'', CPrim CUint32),
    (''mlInferSvMeasurement'', CArr qmiLocMlInferSVMeasurementStructT_v02 (QMI_LOC_ML_INFER_SV_MEAS_LIST_MAX_SIZE_V02)),
    (''agcStatus_valid'', CPrim CUint8),
    (''agcStatus'', qmiLocAgcStatusEnumT_v02),
    (''navicL5L1TimeBias_valid'', CPrim CUint8),
    (''navicL5L1TimeBias'', qmiLocInterSystemBiasStructT_v02)]"

definition qmiLocSvPolyStatusMaskT_v02 :: cty where "qmiLocSvPolyStatusMaskT_v02 = CPrim CUint16"

definition qmiLocSvPolyStatusMaskValidityT_v02 :: cty where "qmiLocSvPolyStatusMaskValidityT_v02 = CPrim CUint16"

definition qmiLocSignalHealthMaskT_v02 :: cty where "qmiLocSignalHealthMaskT_v02 = CPrim CUint64"

definition qmiLocEphemerisSourceEnumT_v02 :: cty where
  "qmiLocEphemerisSourceEnumT_v02 = CEnum [
    (''QMILOCEPHEMERISSOURCEENUMT_MIN_ENUM_VAL_V02'', -2147483647),
    (''eQMI_LOC_EPHEMERIS_SOURCE_OTA_V02'', 1),
    (''eQMI_LOC_EPHEMERIS_SOURCE_XTRA_V02'', 2),
    (''eQMI_LOC_EPHEMERIS_SOURCE_NETWORK_INJECTED_V02'', 3),
    (''eQMI_LOC_EPHEMERIS_SOURCE_EFS_V02'', 4),
    (''QMILOCEPHEMERISSOURCEENUMT_MAX_ENUM_VAL_V02'', 2147483647)]"

end
