(* ===== verification/LocTypes3.thy ===== *)
theory LocTypes3
  imports LocTypes2
begin

text \<open>
  C types of \<open>loc_api/loc_api_v02/location_service_v02.h\<close>, in the order of the header (part 3 of
  4): masks are the integer types they name, enumerations list their enumerators, structs their
  members. Message structs end in \<open>MsgT_v02\<close>.
\<close>

definition qmiLocEventGnssSvPolyIndMsgT_v02 :: cty where
  "qmiLocEventGnssSvPolyIndMsgT_v02 = CStruct [
    (''gnssSvId'', CPrim CUint16),
    (''T0'', CPrim CDouble),
    (''svPolyFlagValid'', qmiLocSvPolyStatusMaskValidityT_v02),
    (''svPolyFlags'', qmiLocSvPolyStatusMaskT_v02),
    (''polyCoeffXYZ0_valid'', CPrim CUint8),
    (''polyCoeffXYZ0'', CArr (CPrim CDouble) (QMI_LOC_SV_POLY_XYZ_0_TH_ORDER_COEFF_SIZE_V02)),
    (''polyCoefXYZN_valid'', CPrim CUint8),
    (''polyCoefXYZN'', CArr (CPrim CDouble) (QMI_LOC_SV_POLY_XYZ_N_TH_ORDER_COEFF_SIZE_V02)),
    (''polyCoefClockBias_valid'', CPrim CUint8),
    (''polyCoefClockBias'', CArr (CPrim CFloat) (QMI_LOC_SV_POLY_SV_CLKBIAS_COEFF_SIZE_V02)),
    (''gloFrequency_valid'', CPrim CUint8),
    (''gloFrequency'', CPrim CUint8),
    (''IODE_valid'', CPrim CUint8),
    (''IODE'', CPrim CUint16),
    (''enhancedIOD_valid'', CPrim CUint8),
    (''enhancedIOD'', CPrim CUint32),
    (''svPosUnc_valid'', CPrim CUint8),
    (''svPosUnc'', CPrim CFloat),
    (''ionoDelay_valid'', CPrim CUint8),
    (''ionoDelay'', CPrim CFloat),
    (''ionoDot_valid'', CPrim CUint8),
    (''ionoDot'', CPrim CFloat),
    (''sbasIonoDelay_valid'', CPrim CUint8),
    (''sbasIonoDelay'', CPrim CFloat),
    (''sbasIonoDot_valid'', CPrim CUint8),
    (''sbasIonoDot'', CPrim CFloat),
    (''tropoDelay_valid'', CPrim CUint8),
    (''tropoDelay'', CPrim CFloat),
    (''elevation_valid'', CPrim CUint8),
    (''elevation'', CPrim CFloat),
    (''elevationDot_valid'', CPrim CUint8),
    (''elevationDot'', CPrim CFloat),
    (''elenationUnc_valid'', CPrim CUint8),
    (''elenationUnc'', CPrim CFloat),
    (''velCoef_valid'', CPrim CUint8),
    (''velCoef'', CArr (CPrim CDouble) (QMI_LOC_SV_POLY_VELOCITY_COEF_SIZE_V02)),
    (''gpsIscL1ca_valid'', CPrim CUint8),
    (''gpsIscL1ca'', CPrim CFloat),
    (''gpsIscL2c_valid'', CPrim CUint8),
    (''gpsIscL2c'', CPrim CFloat),
    (''gpsIscL5I5_valid'', CPrim CUint8),
    (''gpsIscL5I5'', CPrim CFloat),
    (''gpsIscL5Q5_valid'', CPrim CUint8),
    (''gpsIscL5Q5'', CPrim CFloat),
    (''gpsTgd_valid'', CPrim CUint8),
    (''gpsTgd'', CPrim CFloat),
    (''gloTgdG1G2_valid'', CPrim CUint8),
    (''gloTgdG1G2'', CPrim CFloat),
    (''bdsTgdB1_valid'', CPrim CUint8),
    (''bdsTgdB1'', CPrim CFloat),
    (''bdsTgdB2_valid'', CPrim CUint8),
    (''bdsTgdB2'', CPrim CFloat),
    (''bdsTgdB2a_valid'', CPrim CUint8),
    (''bdsTgdB2a'', CPrim CFloat),
    (''bdsIscB2a_valid'', CPrim CUint8),
    (''bdsIscB2a'', CPrim CFloat),
    (''galBgdE1E5a_valid'', CPrim CUint8),
    (''galBgdE1E5a'', CPrim CFloat),
    (''galBgdE1E5b_valid'', CPrim CUint8),
    (''galBgdE1E5b'', CPrim CFloat),
    (''navicTgdL5_valid'', CPrim CUint8),
    (''navicTgdL5'', CPrim CFloat),
    (''bdsTgdB1c_valid'', CPrim CUint8),
    (''bdsTgdB1c'', CPrim CFloat),
    (''bdsIscB1c_valid'', CPrim CUint8),
    (''bdsIscB1c'', CPrim CFloat),
    (''multibandHealth_valid'', CPrim CUint8),
    (''multibandHealth'', qmiLocSignalHealthMaskT_v02),
    (''bdsTgdB2bi_valid'', CPrim CUint8),
    (''bdsTgdB2bi'', CPrim CFloat),
    (''bdsIscB2bi_valid'', CPrim CUint8),
    (''bdsIscB2bi'', CPrim CFloat),
    (''toc_valid'', CPrim CUint8),
    (''toc'', CPrim CUint32),
    (''IODC_valid'', CPrim CUint8),
    (''IODC'', CPrim CUint16),
    (''toe_valid'', CPrim CUint8),
    (''toe'', CPrim CUint32),
    (''ephemerisSrc_valid'', CPrim CUint8),
    (''ephemerisSrc'', qmiLocEphemerisSourceEnumT_v02),
    (''polyOrder_valid'', CPrim CUint8),
    (''polyOrder'', CPrim CUint8),
    (''validDuration_valid'', CPrim CUint8),
    (''validDuration'', CPrim CUint16),
    (''polyCoeffXYZ_valid'', CPrim CUint8),
    (''polyCoeffXYZ_len'', CPrim CUint32),
    (''polyCoeffXYZ'', CArr (CPrim CDouble) (QMI_LOC_SV_POLY_XYZ_COEFF_SIZE_MAX_V02)),
    (''polyClockBias_valid'', CPrim CUint8),
    (''polyClockBias_len'', CPrim CUint32),
    (''polyClockBias'', CArr (CPrim CDouble) (QMI_LOC_SV_POLY_SV_CLKBIAS_COEFF_SIZE_MAX_V02)),
    (''navicTgdL1_valid'', CPrim CUint8),
    (''navicTgdL1'', CPrim CFloat),
    (''navicIscL1D_valid'', CPrim CUint8),
    (''navicIscL1D'', CPrim CFloat),
    (''navicIscL1P_valid'', CPrim CUint8),
    (''navicIscL1P'', CPrim CFloat),
    (''sbasCorrUnc_valid'', CPrim CUint8),
    (''sbasCorrUnc'', CPrim CFloat)]"

definition qmiLocWifiApMacAddressStructT_v02 :: cty where
  "qmiLocWifiApMacAddressStructT_v02 = CStruct [
    (''wifiApMacAddress'', CArr (CPrim CUint8) (QMI_LOC_WIFI_MAC_ADDR_LENGTH_V02))]"

definition qmiLocIBeaconIdStructT_v02 :: cty where
  "qmiLocIBeaconIdStructT_v02 = CStruct [
    (''uuid'', CArr (CPrim CChar) (QMI_LOC_MAX_IBEACON_UUID_STR_LENGTH_V02 + 1)),
    (''majorNumber'', CPrim CUint32),
    (''minorNumber'', CPrim CUint32)]"

definition qmiLocAddGeofenceContextReqMsgT_v02 :: cty where
  "qmiLocAddGeofenceContextReqMsgT_v02 = CStruct [
    (''transactionId'', CPrim CUint32),
    (''geofenceId_valid'', CPrim CUint8),
    (''geofenceId'', CPrim CUint32),
    (''wifiApSsidInfo_valid'', CPrim CUint8),
    (''wifiApSsidInfo_len'', CPrim CUint32),
    (''wifiApSsidInfo'', CArr qmiLocWifiApSsidStructT_v02 (QMI_LOC_WIFI_AREA_ID_LIST_LENGTH_V02)),
    (''wifiApMacAddressList_valid'', CPrim CUint8),
    (''wifiApMacAddressList_len'', CPrim CUint32),
    (''wifiApMacAddressList'', CArr qmiLocWifiApMacAddressStructT_v02 (QMI_LOC_WIFI_AREA_ID_LIST_LENGTH_V02)),
    (''tdsCdmaCellIDList_valid'', CPrim CUint8),
    (''tdsCdmaCellIDList'', CArr qmiLocTDSCDMACellIdStructT_v02 (QMI_LOC_CELL_ID_LIST_LENGTH_V02)),
    (''wcdmaCellIDList_valid'', CPrim CUint8),
    (''wcdmaCellIDList_len'', CPrim CUint32),
    (''wcdmaCellIDList'', CArr qmiLocWCDMACellIdStructT_v02 (QMI_LOC_CELL_ID_LIST_LENGTH_V02)),
    (''gsmCellIDList_valid'', CPrim CUint8),
    (''gsmCellIDList_len'', CPrim CUint32),
    (''gsmCellIDList'', CArr qmiLocGSMCellIdStructT_v02 (QMI_LOC_CELL_ID_LIST_LENGTH_V02)),
    (''iBeaconList_valid'', CPrim CUint8),
    (''iBeaconList_len'', CPrim CUint32),
    (''iBeaconList'', CArr qmiLocIBeaconIdStructT_v02 (QMI_LOC_IBEACON_LIST_LENGTH_V02))]"

definition qmiLocAddGeofenceContextIndMsgT_v02 :: cty where
  "qmiLocAddGeofenceContextIndMsgT_v02 = CStruct [
    (''status'', qmiLocStatusEnumT_v02),
    (''transactionId_valid'', CPrim CUint8),
    (''transactionId'', CPrim CUint32),
    (''geofenceId_valid'', CPrim CUint8),
    (''geofenceId'', CPrim CUint32),
    (''contextId_valid'', CPrim CUint8),
    (''contextId'', CPrim CUint32)]"

definition qmiLocSetGeofenceEngineContextReqMsgT_v02 :: cty where
  "qmiLocSetGeofenceEngineContextReqMsgT_v02 = CStruct [
    (''transactionId'', CPrim CUint32),
    (''utcTimeOfDay_valid'', CPrim CUint8),
    (''utcTimeOfDay'', CPrim CUint64),
    (''temperature_valid'', CPrim CUint8),
    (''temperature'', CPrim CInt32)]"

definition qmiLocSetGeofenceEngineContextIndMsgT_v02 :: cty where
  "qmiLocSetGeofenceEngineContextIndMsgT_v02 = CStruct [
    (''status'', qmiLocStatusEnumT_v02),
    (''transactionId_valid'', CPrim CUint8),
    (''transactionId'', CPrim CUint32)]"

definition qmiLocDeleteGeofenceContextReqMsgT_v02 :: cty where
  "qmiLocDeleteGeofenceContextReqMsgT_v02 = CStruct [
    (''transactionId'', CPrim CUint32),
    (''geofenceId'', CPrim CUint32),
    (''contextId_valid'', CPrim CUint8),
    (''contextId'', CPrim CUint32)]"

definition qmiLocDeleteGeofenceContextIndMsgT_v02 :: cty where
  "qmiLocDeleteGeofenceContextIndMsgT_v02 = CStruct [
    (''status'', qmiLocStatusEnumT_v02),
    (''transactionId_valid'', CPrim CUint8),
    (''transactionId'', CPrim CUint32),
    (''geofenceId_valid'', CPrim CUint8),
    (''geofenceId'', CPrim CUint32),
    (''contextId_valid'', CPrim CUint8),
    (''contextId'', CPrim CUint32)]"

definition qmiLocInjectGtpClientDownloadedDataReqMsgT_v02 :: cty where
  "qmiLocInjectGtpClientDownloadedDataReqMsgT_v02 = CStruct [
    (''ClientDownloadedData_len'', CPrim CUint32),
    (''ClientDownloadedData'', CArr (CPrim CChar) (QMI_LOC_MAX_GTP_WWAN_CLIENT_DOWNLOADED_DATA_LEN_V02))]"

definition qmiLocInjectGtpClientDownloadedDataIndMsgT_v02 :: cty where
  "qmiLocInjectGtpClientDownloadedDataIndMsgT_v02 = CStruct [
    (''status'', qmiLocStatusEnumT_v02)]"

definition qmiLocGdtUploadBeginStatusReqMsgT_v02 :: cty where
  "qmiLocGdtUploadBeginStatusReqMsgT_v02 = CStruct [
    (''serviceId'', qmiLocGdtServiceIdEnumT_v02),
    (''sessionId'', CPrim CUint32),
    (''gdtAccessStatus'', qmiLocGdtAccessStatusEnumT_v02)]"

definition qmiLocGdtUploadBeginStatusIndMsgT_v02 :: cty where
  "qmiLocGdtUploadBeginStatusIndMsgT_v02 = CStruct [
    (''status'', qmiLocStatusEnumT_v02)]"

definition qmiLocGdtEndAckEnumT_v02 :: cty where
  "qmiLocGdtEndAckEnumT_v02 = CEnum [
    (''QMILOCGDTENDACKENUMT_MIN_ENUM_VAL_V02'', -2147483647),
    (''eQMI_LOC_GDT_ACK_SUCCESS_V02'', 1),
    (''eQMI_LOC_GDT_ACK_FAILED_V02'', 2),
    (''eQMI_LOC_GDT_ACK_INVALID_V02'', 3),
    (''QMILOCGDTENDACKENUMT_MAX_ENUM_VAL_V02'', 2147483647)]"

definition qmiLocGdtUploadEndReqMsgT_v02 :: cty where
  "qmiLocGdtUploadEndReqMsgT_v02 = CStruct [
    (''serviceId'', qmiLocGdtServiceIdEnumT_v02),
    (''sessionId'', CPrim CUint32),
    (''gdtEndStatus'', qmiLocGdtEndAckEnumT_v02)]"

definition qmiLocGdtUploadEndIndMsgT_v02 :: cty where
  "qmiLocGdtUploadEndIndMsgT_v02 = CStruct [
    (''status'', qmiLocStatusEnumT_v02)]"

definition qmiLocGtpApStatusEnumT_v02 :: cty where
  "qmiLocGtpApStatusEnumT_v02 = CEnum [
    (''QMILOCGTPAPSTATUSENUMT_MIN_ENUM_VAL_V02'', -2147483647),
    (''eQMI_LOC_GTP_AP_STATUS_DB_READY_V02'', 1),
    (''eQMI_LOC_GTP_AP_STATUS_DB_REFRESHED_V02'', 2),
    (''eQMI_LOC_GTP_AP_STATUS_DB_DELETED_V02'', 3),
    (''QMILOCGTPAPSTATUSENUMT_MAX_ENUM_VAL_V02'', 2147483647)]"

definition qmiLocGtpApStatusReqMsgT_v02 :: cty where
  "qmiLocGtpApStatusReqMsgT_v02 = CStruct [
    (''gtpApDbStatus'', qmiLocGtpApStatusEnumT_v02),
    (''gtpApPcid64_valid'', CPrim CUint8),
    (''gtpApPcid64'', CPrim CUint64),
    (''oemId_valid'', CPrim CUint8),
    (''oemId_len'', CPrim CUint32),
    (''oemId'', CArr (CPrim CChar) (QMI_LOC_MAX_OEM_ID_LEN_V02)),
    (''modelId_valid'', CPrim CUint8),
    (''modelId_len'', CPrim CUint32),
    (''modelId'', CArr (CPrim CChar) (QMI_LOC_MAX_MODEL_ID_LEN_V02))]"

definition qmiLocGtpAsnVerStructT_v02 :: cty where
  "qmiLocGtpAsnVerStructT_v02 = CStruct [
    (''asnMajorVersion'', CPrim CUint8),
    (''asnMinorVersion'', CPrim CUint8),
    (''asnPointVersion'', CPrim CUint8)]"

definition qmiLocGtpApStatusIndMsgT_v02 :: cty where
  "qmiLocGtpApStatusIndMsgT_v02 = CStruct [
    (''status'', qmiLocStatusEnumT_v02),
    (''clientSoftwareVersion'', CPrim CUint16),
    (''asnVersion'', qmiLocGtpAsnVerStructT_v02)]"

definition qmiLocGtpProcessStatusEnumT_v02 :: cty where
  "qmiLocGtpProcessStatusEnumT_v02 = CEnum [
    (''QMILOCGTPPROCESSSTATUSENUMT_MIN_ENUM_VAL_V02'', -2147483647),
    (''eQMI_LOC_GTP_PROCESS_SUCCESS_FROM_LOCAL_V02'', 1),
    (''eQMI_LOC_GTP_PROCESS_SUCCESS_FROM_SERVER_V02'', 2),
    (''eQMI_LOC_GTP_PROCESS_NOT_ALLOWED_AP_NOT_READY_V02'', 3),
    (''eQMI_LOC_GTP_PROCESS_NOT_ALLOWED_AP_TIMEOUT_V02'', 4),
    (''eQMI_LOC_GTP_PROCESS_NOT_ALLOWED_NO_CONNECTIVITY_V02'', 5),
    (''eQMI_LOC_GTP_PROCESS_NOT_ALLOWED_THROTTLED_V02'', 6),
    (''eQMI_LOC_GTP_PROCESS_NOT_ALLOWED_OTHER_V02'', 7),
    (''eQMI_LOC_GTP_PROCESS_FAILED_UNSPECIFIED_V02'', 8),
    (''QMILOCGTPPROCESSSTATUSENUMT_MAX_ENUM_VAL_V02'', 2147483647)]"

definition qmiLocGdtDownloadBeginStatusReqMsgT_v02 :: cty where
  "qmiLocGdtDownloadBeginStatusReqMsgT_v02 = CStruct [
    (''serviceId'', qmiLocGdtServiceIdEnumT_v02),
    (''sessionId'', CPrim CUint32),
    (''processingStatus'', qmiLocGtpProcessStatusEnumT_v02),
    (''wwanDownloadFlag_valid'', CPrim CUint8),
    (''wwanDownloadFlag'', CPrim CUint16),
    (''respLocInfo_valid'', CPrim CUint8),
    (''respLocInfo_len'', CPrim CUint32),
    (''respLocInfo'', CArr (CPrim CUint8) (QMI_LOC_MAX_GTP_RLI_LEN_V02)),
    (''apRemainingThrottleTime_valid'', CPrim CUint8),
    (''apRemainingThrottleTime'', CPrim CUint32)]"

definition qmiLocGdtDownloadBeginStatusIndMsgT_v02 :: cty where
  "qmiLocGdtDownloadBeginStatusIndMsgT_v02 = CStruct [
    (''status'', qmiLocStatusEnumT_v02)]"

definition qmiLocGdtDownloadReadyStatusReqMsgT_v02 :: cty where
  "qmiLocGdtDownloadReadyStatusReqMsgT_v02 = CStruct [
    (''serviceId'', qmiLocGdtServiceIdEnumT_v02),
    (''sessionId'', CPrim CUint32),
    (''status'', qmiLocStatusEnumT_v02),
    (''filePath_len'', CPrim CUint32),
    (''filePath'', CArr (CPrim CChar) (QMI_LOC_MAX_GDT_PATH_LEN_V02))]"

definition qmiLocGdtDownloadReadyStatusIndMsgT_v02 :: cty where
  "qmiLocGdtDownloadReadyStatusIndMsgT_v02 = CStruct [
    (''status'', qmiLocStatusEnumT_v02)]"

definition qmiLocGdtReceiveDoneStatusReqMsgT_v02 :: cty where
  "qmiLocGdtReceiveDoneStatusReqMsgT_v02 = CStruct [
    (''serviceId'', qmiLocGdtServiceIdEnumT_v02),
    (''sessionId'', CPrim CUint32),
    (''status'', qmiLocStatusEnumT_v02)]"

definition qmiLocGdtReceiveDoneStatusIndMsgT_v02 :: cty where
  "qmiLocGdtReceiveDoneStatusIndMsgT_v02 = CStruct [
    (''status'', qmiLocStatusEnumT_v02)]"

definition qmiLocGdtDownloadEndStatusReqMsgT_v02 :: cty where
  "qmiLocGdtDownloadEndStatusReqMsgT_v02 = CStruct [
    (''serviceId'', qmiLocGdtServiceIdEnumT_v02),
    (''sessionId'', CPrim CUint32),
    (''status'', qmiLocStatusEnumT_v02)]"

definition qmiLocGdtDownloadEndStatusIndMsgT_v02 :: cty where
  "qmiLocGdtDownloadEndStatusIndMsgT_v02 = CStruct [
    (''status'', qmiLocStatusEnumT_v02)]"

definition qmiLocDbtUsageEnumT_v02 :: cty where
  "qmiLocDbtUsageEnumT_v02 = CEnum [
    (''QMILOCDBTUSAGEENUMT_MIN_ENUM_VAL_V02'', -2147483647),
    (''eQMI_LOC_DBT_USAGE_NAVIGATION_V02'', 1),
    (''QMILOCDBTUSAGEENUMT_MAX_ENUM_VAL_V02'', 2147483647)]"

definition qmiLocDbDistanceTypeEnumT_v02 :: cty where
  "qmiLocDbDistanceTypeEnumT_v02 = CEnum [
    (''QMILOCDBDISTANCETYPEENUMT_MIN_ENUM_VAL_V02'', -2147483647),
    (''eQMI_LOC_DBT_DISTANCE_TYPE_STRAIGHT_LINE_V02'', 1),
    (''QMILOCDBDISTANCETYPEENUMT_MAX_ENUM_VAL_V02'', 2147483647)]"

definition qmiLocStartDbtReqMsgT_v02 :: cty where
  "qmiLocStartDbtReqMsgT_v02 = CStruct [
    (''reqId'', CPrim CUint8),
    (''minDistance'', CPrim CUint32),
    (''distanceType'', qmiLocDbDistanceTypeEnumT_v02),
    (''needOriginLocation'', CPrim CUint8),
    (''maxLatency_valid'', CPrim CUint8),
    (''maxLatency'', CPrim CUint32),
    (''usageType_valid'', CPrim CUint8),
    (''usageType'', qmiLocDbtUsageEnumT_v02)]"

definition qmiLocStartDbtIndMsgT_v02 :: cty where
  "qmiLocStartDbtIndMsgT_v02 = CStruct [
    (''status'', qmiLocStatusEnumT_v02),
    (''reqId_valid'', CPrim CUint8),
    (''reqId'', CPrim CUint8)]"

definition qmiLocStopDbtReqMsgT_v02 :: cty where
  "qmiLocStopDbtReqMsgT_v02 = CStruct [
    (''reqId'', CPrim CUint8)]"

definition qmiLocStopDbtIndMsgT_v02 :: cty where
  "qmiLocStopDbtIndMsgT_v02 = CStruct [
    (''status'', qmiLocStatusEnumT_v02),
    (''reqId_valid'', CPrim CUint8),
    (''reqId'', CPrim CUint8)]"

definition qmiLocDbtPositionTypeEnumT_v02 :: cty where
  "qmiLocDbtPositionTypeEnumT_v02 = CEnum [
    (''QMILOCDBTPOSITIONTYPEENUMT_MIN_ENUM_VAL_V02'', -2147483647),
    (''eQMI_LOC_DBT_POSITION_TYPE_ORIGIN_V02'', 1),
    (''eQMI_LOC_DBT_POSITION_TYPE_TRACKING_V02'', 2),
    (''QMILOCDBTPOSITIONTYPEENUMT_MAX_ENUM_VAL_V02'', 2147483647)]"

definition qmiLocDbtPositionStructT_v02 :: cty where
  "qmiLocDbtPositionStructT_v02 = CStruct [
    (''timestampUtc'', CPrim CUint64),
    (''latitude'', CPrim CDouble),
    (''longitude'', CPrim CDouble),
    (''horUncEllipseSemiMinor'', CPrim CFloat),
    (''horUncEllipseSemiMajor'', CPrim CFloat),
    (''horUncEllipseOrientAzimuth'', CPrim CFloat),
    (''speedHorizontal_valid'', CPrim CUint8),
    (''speedHorizontal'', CPrim CFloat),
    (''altitudeWrtEllipsoid_valid'', CPrim CUint8),
    (''altitudeWrtEllipsoid'', CPrim CFloat),
    (''vertUnc_valid'', CPrim CUint8),
    (''vertUnc'', CPrim CFloat),
    (''speedVertical_valid'', CPrim CUint8),
    (''speedVertical'', CPrim CFloat),
    (''heading_valid'', CPrim CUint8),
    (''heading'', CPrim CFloat)]"

definition qmiLocEventDbtPositionReportIndMsgT_v02 :: cty where
  "qmiLocEventDbtPositionReportIndMsgT_v02 = CStruct [
    (''reqId'', CPrim CUint8),
    (''dbtPosition'', qmiLocDbtPositionStructT_v02),
    (''positionType'', qmiLocDbtPositionTypeEnumT_v02),
    (''headingUnc_valid'', CPrim CUint8),
    (''headingUnc'', CPrim CFloat),
    (''speedUnc_valid'', CPrim CUint8),
    (''speedUnc'', CPrim CFloat),
    (''horConfidence_valid'', CPrim CUint8),
    (''horConfidence'', CPrim CUint8),
    (''vertConfidence_valid'', CPrim CUint8),
    (''vertConfidence'', CPrim CUint8),
    (''DOP_valid'', CPrim CUint8),
    (''DOP'', qmiLocDOPStructT_v02),
    (''gnssSvUsedList_valid'', CPrim CUint8),
    (''gnssSvUsedList_len'', CPrim CUint32),
    (''gnssSvUsedList'', CArr (CPrim CUint16) (QMI_LOC_MAX_SV_USED_LIST_LENGTH_V02)),
    (''positionSrc_valid'', CPrim CUint8),
    (''positionSrc'', qmiLocPositionSrcEnumT_v02),
    (''extDOP_valid'', CPrim CUint8),
    (''extDOP'', qmiLocExtDOPStructT_v02),
    (''expandedGnssSvUsedList_valid'', CPrim CUint8),
    (''expandedGnssSvUsedList_len'', CPrim CUint32),
    (''expandedGnssSvUsedList'', CArr (CPrim CUint16) (QMI_LOC_EXPANDED_SV_INFO_LIST_MAX_SIZE_V02)),
    (''gnssSvUsedSignalTypeList_valid'', CPrim CUint8),
    (''gnssSvUsedSignalTypeList_len'', CPrim CUint32),
    (''gnssSvUsedSignalTypeList'', CArr qmiLocGnssSignalTypeMaskT_v02 (QMI_LOC_EXPANDED_SV_INFO_LIST_MAX_SIZE_V02))]"

definition qmiLocDbtSessionStatusEnumT_v02 :: cty where
  "qmiLocDbtSessionStatusEnumT_v02 = CEnum [
    (''QMILOCDBTSESSIONSTATUSENUMT_MIN_ENUM_VAL_V02'', -2147483647),
    (''eQMI_LOC_DBT_UNABLE_TO_TRACK_V02'', 1),
    (''eQMI_LOC_DBT_ABLE_TO_TRACK_V02'', 2),
    (''QMILOCDBTSESSIONSTATUSENUMT_MAX_ENUM_VAL_V02'', 2147483647)]"

definition qmiLocEventDbtSessionStatusIndMsgT_v02 :: cty where
  "qmiLocEventDbtSessionStatusIndMsgT_v02 = CStruct [
    (''dbtSessionStatus'', qmiLocDbtSessionStatusEnumT_v02),
    (''reqId_valid'', CPrim CUint8),
    (''reqId'', CPrim CUint8)]"

definition qmiLocPositionSourceEnumT_v02 :: cty where
  "qmiLocPositionSourceEnumT_v02 = CEnum [
    (''QMILOCPOSITIONSOURCEENUMT_MIN_ENUM_VAL_V02'', -2147483647),
    (''eQMI_LOC_POS_SRC_GNSS_V02'', 1),
    (''QMILOCPOSITIONSOURCEENUMT_MAX_ENUM_VAL_V02'', 2147483647)]"

definition qmiLocPositionRptPropagationEnumT_v02 :: cty where
  "qmiLocPositionRptPropagationEnumT_v02 = CEnum [
    (''QMILOCPOSITIONRPTPROPAGATIONENUMT_MIN_ENUM_VAL_V02'', -2147483647),
    (''eQMI_LOC_POS_REPORT_PROPAGATED_TO_CURRENT_UTC_V02'', 1),
    (''QMILOCPOSITIONRPTPROPAGATIONENUMT_MAX_ENUM_VAL_V02'', 2147483647)]"

definition qmiLocSecureLocDataModeEnumT_v02 :: cty where
  "qmiLocSecureLocDataModeEnumT_v02 = CEnum [
    (''QMILOCSECURELOCDATAMODEENUMT_MIN_ENUM_VAL_V02'', -2147483647),
    (''eQMI_LOC_SECURE_LOC_DATA_ENCRYPTED_V02'', 1),
    (''eQMI_LOC_SECURE_LOC_DATA_UNENCRYPTED_V02'', 2),
    (''QMILOCSECURELOCDATAMODEENUMT_MAX_ENUM_VAL_V02'', 2147483647)]"

definition qmiLocSecureGetAvailablePosParameterIDEnumT_v02 :: cty where
  "qmiLocSecureGetAvailablePosParameterIDEnumT_v02 = CEnum [
    (''QMILOCSECUREGETAVAILABLEPOSPARAMETERIDENUMT_MIN_ENUM_VAL_V02'', -2147483647),
    (''eQMI_LOC_SECURE_GET_AVAILABLE_POS_PARAM_TRANSACTION_ID_V02'', 1),
    (''eQMI_LOC_SECURE_GET_AVAILABLE_POS_PARAM_NONCE_V02'', 2),
    (''eQMI_LOC_SECURE_GET_AVAILABLE_POS_PARAM_SOURCE_V02'', 3),
    (''eQMI_LOC_SECURE_GET_AVAILABLE_POS_PARAM_REPORT_DATA_SECURITY_MODE_V02'', 4),
    (''eQMI_LOC_SECURE_GET_AVAILABLE_POS_PARAM_REPORT_DATA_TIME_PROPAGATION_V02'', 5),
    (''QMILOCSECUREGETAVAILABLEPOSPARAMETERIDENUMT_MAX_ENUM_VAL_V02'', 2147483647)]"

definition qmiLocSecureMessageDataTypeEnumT_v02 :: cty where
  "qmiLocSecureMessageDataTypeEnumT_v02 = CEnum [
    (''QMILOCSECUREMESSAGEDATATYPEENUMT_MIN_ENUM_VAL_V02'', -2147483647),
    (''eQMI_LOC_SECURE_DATA_TYPE_BYTE_8_V02'', 1),
    (''eQMI_LOC_SECURE_DATA_TYPE_CHAR_8_V02'', 2),
    (''eQMI_LOC_SECURE_DATA_TYPE_UNSIGNED_CHAR_8_V02'', 3),
    (''eQMI_LOC_SECURE_DATA_TYPE_INT_8_V02'', 4),
    (''eQMI_LOC_SECURE_DATA_TYPE_UNSIGNED_INT_8_V02'', 5),
    (''eQMI_LOC_SECURE_DATA_TYPE_INT_16_V02'', 6),
    (''eQMI_LOC_SECURE_DATA_TYPE_UNSIGNED_INT_16_V02'', 7),
    (''eQMI_LOC_SECURE_DATA_TYPE_INT_32_V02'', 8),
    (''eQMI_LOC_SECURE_DATA_TYPE_UNSIGNED_INT_32_V02'', 9),
    (''eQMI_LOC_SECURE_DATA_TYPE_INT_64_V02'', 10),
    (''eQMI_LOC_SECURE_DATA_TYPE_UNSIGNED_INT_64_V02'', 11),
    (''eQMI_LOC_SECURE_DATA_TYPE_BOOL_8_V02'', 12),
    (''eQMI_LOC_SECURE_DATA_TYPE_DOUBLE_64_V02'', 13),
    (''eQMI_LOC_SECURE_DATA_TYPE_FLOAT_32_V02'', 14),
    (''QMILOCSECUREMESSAGEDATATYPEENUMT_MAX_ENUM_VAL_V02'', 2147483647)]"

definition qmiLocSecureGetAvailablePositionReqMsgT_v02 :: cty where
  "qmiLocSecureGetAvailablePositionReqMsgT_v02 = CStruct [
    (''secureLocDataMode'', qmiLocSecureLocDataModeEnumT_v02),
    (''qmilocSecureGetAvailablePositionRequestData_len'', CPrim CUint32),
    (''qmilocSecureGetAvailablePositionRequestData'', CArr (CPrim CUint8) (QMI_LOC_SECURE_GET_AVAILABLE_POS_REQUEST_ENCRYPTED_MAX_V02))]"

definition qmiLocSecureGetAvailablePositionIndParamIDEnumT_v02 :: cty where
  "qmiLocSecureGetAvailablePositionIndParamIDEnumT_v02 = CEnum [
    (''QMILOCSECUREGETAVAILABLEPOSITIONINDPARAMIDENUMT_MIN_ENUM_VAL_V02'', -2147483647),
    (''eQMI_LOC_SECURE_GET_AVAILABLE_POS_REP_PARAM_TRANSACTION_ID_V02'', 1),
    (''eQMI_LOC_SECURE_GET_AVAILABLE_POS_REP_PARAM_NONCE_V02'', 2),
    (''eQMI_LOC_SECURE_GET_AVAILABLE_POS_REP_PARAM_LATITUDE_V02'', 3),
    (''eQMI_LOC_SECURE_GET_AVAILABLE_POS_REP_PARAM_LONGITUDE_V02'', 4),
    (''eQMI_LOC_SECURE_GET_AVAILABLE_POS_REP_PARAM_HORIZ_UNC_CIRCULAR_V02'', 5),
    (''eQMI_LOC_SECURE_GET_AVAILABLE_POS_REP_PARAM_ALTITUDE_WRT_ELP_V02'', 6),
    (''eQMI_LOC_SECURE_GET_AVAILABLE_POS_REP_PARAM_VERTICAL_UNC_V02'', 7),
    (''eQMI_LOC_SECURE_GET_AVAILABLE_POS_REP_PARAM_TIME_STAMP_UTC_V02'', 8),
    (''eQMI_LOC_SECURE_GET_AVAILABLE_POS_REP_PARAM_TIME_UNC_V02'', 9),
    (''eQMI_LOC_SECURE_GET_AVAILABLE_POS_REP_PARAM_HORIZ_UNC_ELP_SEMIMINOR_V02'', 10),
    (''eQMI_LOC_SECURE_GET_AVAILABLE_POS_REP_PARAM_HORIZ_UNC_ELP_SEMIMAJOR_V02'', 11),
    (''eQMI_LOC_SECURE_GET_AVAILABLE_POS_REP_PARAM_HORIZ_UNC_ELP_ORIENT_AZIMUTH_V02'', 12),
    (''eQMI_LOC_SECURE_GET_AVAILABLE_POS_REP_PARAM_HORIZ_CONFIDENCE_V02'', 13),
    (''eQMI_LOC_SECURE_GET_AVAILABLE_POS_REP_PARAM_HORIZ_ELLIP_CONFIDENCE_V02'', 14),
    (''eQMI_LOC_SECURE_GET_AVAILABLE_POS_REP_PARAM_HORIZ_RELIABILITY_V02'', 15),
    (''eQMI_LOC_SECURE_GET_AVAILABLE_POS_REP_PARAM_SPEED_HORIZ_V02'', 16),
    (''eQMI_LOC_SECURE_GET_AVAILABLE_POS_REP_PARAM_SPEED_HORIZ_UNC_V02'', 17),
    (''eQMI_LOC_SECURE_GET_AVAILABLE_POS_REP_PARAM_ALTITUDE_WRT_MSA_V02'', 18),
    (''eQMI_LOC_SECURE_GET_AVAILABLE_POS_REP_PARAM_VERTICAL_CONF_V02'', 19),
    (''eQMI_LOC_SECURE_GET_AVAILABLE_POS_REP_PARAM_VERT_RELIABILITY_V02'', 20),
    (''eQMI_LOC_SECURE_GET_AVAILABLE_POS_REP_PARAM_SPEED_VERTICAL_V02'', 21),
    (''eQMI_LOC_SECURE_GET_AVAILABLE_POS_REP_PARAM_SPEED_VERTICAL_UNC_V02'', 22),
    (''eQMI_LOC_SECURE_GET_AVAILABLE_POS_REP_PARAM_HEADING_V02'', 23),
    (''eQMI_LOC_SECURE_GET_AVAILABLE_POS_REP_PARAM_HEADING_UNC_V02'', 24),
    (''eQMI_LOC_SECURE_GET_AVAILABLE_POS_REP_PARAM_MAGNETIC_DEVIATION_V02'', 25),
    (''eQMI_LOC_SECURE_GET_AVAILABLE_POS_REP_PARAM_TECH_MASK_V02'', 26),
    (''eQMI_LOC_SECURE_GET_AVAILABLE_POS_REP_PARAM_PDOP_V02'', 27),
    (''eQMI_LOC_SECURE_GET_AVAILABLE_POS_REP_PARAM_HDOP_V02'', 28),
    (''eQMI_LOC_SECURE_GET_AVAILABLE_POS_REP_PARAM_VDOP_V02'', 29),
    (''eQMI_LOC_SECURE_GET_AVAILABLE_POS_REP_PARAM_GPS_WEEK_V02'', 30),
    (''eQMI_LOC_SECURE_GET_AVAILABLE_POS_REP_PARAM_GPS_TIMEOFWEEKMS_V02'', 31),
    (''eQMI_LOC_SECURE_GET_AVAILABLE_POS_REP_PARAM_TIME_SRC_V02'', 32),
    (''eQMI_LOC_SECURE_GET_AVAILABLE_POS_REP_SENSOR_USAGE_MASK_V02'', 33),
    (''eQMI_LOC_SECURE_GET_AVAILABLE_POS_REP_AIDING_IND_MASK_V02'', 34),
    (''eQMI_LOC_SECURE_GET_AVAILABLE_POS_REP_PARAM_SV_USED_V02'', 35),
    (''eQMI_LOC_SECURE_GET_AVAILABLE_POS_REP_PARAM_TDOP_V02'', 36),
    (''eQMI_LOC_SECURE_GET_AVAILABLE_POS_REP_PARAM_GDOP_V02'', 37),
    (''QMILOCSECUREGETAVAILABLEPOSITIONINDPARAMIDENUMT_MAX_ENUM_VAL_V02'', 2147483647)]"

definition qmiLocSecureGetAvailablePositionIndMsgT_v02 :: cty where
  "qmiLocSecureGetAvailablePositionIndMsgT_v02 = CStruct [
    (''sessionStatus'', qmiLocSessionStatusEnumT_v02),
    (''secureLocDataMode'', qmiLocSecureLocDataModeEnumT_v02),
    (''qmilocSecureGetAvailablePositionInd_valid'', CPrim CUint8),
    (''qmilocSecureGetAvailablePositionInd_len'', CPrim CUint32),
    (''qmilocSecureGetAvailablePositionInd'', CArr (CPrim CUint8) (QMI_LOC_SECURE_GET_AVAILABLE_POSITION_IND_ENCRYPTED_MAX_V02))]"

definition qmiLocApReliabilityEnumT_v02 :: cty where
  "qmiLocApReliabilityEnumT_v02 = CEnum [
    (''QMILOCAPRELIABILITYENUMT_MIN_ENUM_VAL_V02'', -2147483647),
    (''eQMI_LOC_AP_RELIABILITY_NOT_SET_V02'', 0),
    (''eQMI_LOC_AP_RELIABILITY_LEVEL_1_V02'', 1),
    (''eQMI_LOC_AP_RELIABILITY_LEVEL_2_V02'', 2),
    (''eQMI_LOC_AP_RELIABILITY_LEVEL_3_V02'', 3),
    (''eQMI_LOC_AP_RELIABILITY_LEVEL_4_V02'', 4),
    (''eQMI_LOC_AP_RELIABILITY_LEVEL_5_V02'', 5),
    (''eQMI_LOC_AP_RELIABILITY_LEVEL_6_V02'', 6),
    (''eQMI_LOC_AP_RELIABILITY_LEVEL_7_V02'', 7),
    (''QMILOCAPRELIABILITYENUMT_MAX_ENUM_VAL_V02'', 2147483647)]"

definition qmiLocApCacheStructT_v02 :: cty where
  "qmiLocApCacheStructT_v02 = CStruct [
    (''macAddress'', CPrim CUint64),
    (''xLat'', CPrim CFloat),
    (''yLon'', CPrim CFloat),
    (''mar'', CPrim CFloat)]"

definition qmiLocApCacheHepeRelStructT_v02 :: cty where
  "qmiLocApCacheHepeRelStructT_v02 = CStruct [
    (''hepeValid'', CPrim CUint8),
    (''hepe'', CPrim CUint16),
    (''apReliability'', qmiLocApReliabilityEnumT_v02)]"

definition qmiLocInjectApCacheDataReqMsgT_v02 :: cty where
  "qmiLocInjectApCacheDataReqMsgT_v02 = CStruct [
    (''versionNumber'', CPrim CUint8),
    (''partNumber'', CPrim CUint8),
    (''totalParts'', CPrim CUint8),
    (''apCacheData_len'', CPrim CUint32),
    (''apCacheData'', CArr qmiLocApCacheStructT_v02 (QMI_LOC_APCACHE_DATA_MAX_SAMPLES_V02)),
    (''apCacheHepeRelData_valid'', CPrim CUint8),
    (''apCacheHepeRelData_len'', CPrim CUint32),
    (''apCacheHepeRelData'', CArr qmiLocApCacheHepeRelStructT_v02 (QMI_LOC_APCACHE_DATA_MAX_SAMPLES_V02))]"

definition qmiLocInjectApCacheDataIndMsgT_v02 :: cty where
  "qmiLocInjectApCacheDataIndMsgT_v02 = CStruct [
    (''status'', qmiLocStatusEnumT_v02),
    (''apCacheSize_valid'', CPrim CUint8),
    (''apCacheSize'', CPrim CUint32),
    (''apDoNotCacheSize_valid'', CPrim CUint8),
    (''apDoNotCacheSize'', CPrim CUint32),
    (''apCacheHits_valid'', CPrim CUint8),
    (''apCacheHits'', CPrim CUint32),
    (''apDoNotCacheHits_valid'', CPrim CUint8),
    (''apDoNotCacheHits'', CPrim CUint32),
    (''unknownAps_valid'', CPrim CUint8),
    (''unknownAps'', CPrim CUint32),
    (''asyncScans_valid'', CPrim CUint8),
    (''asyncScans'', CPrim CUint32),
    (''asyncFixes_valid'', CPrim CUint8),
    (''asyncFixes'', CPrim CUint32),
    (''syncScans_valid'', CPrim CUint8),
    (''syncScans'', CPrim CUint32),
    (''syncFixes_valid'', CPrim CUint8),
    (''syncFixes'', CPrim CUint32)]"

definition qmiLocApDoNotCacheStructT_v02 :: cty where
  "qmiLocApDoNotCacheStructT_v02 = CStruct [
    (''macAddress'', CPrim CUint64)]"

definition qmiLocInjectApDoNotCacheDataReqMsgT_v02 :: cty where
  "qmiLocInjectApDoNotCacheDataReqMsgT_v02 = CStruct [
    (''versionNumber'', CPrim CUint8),
    (''partNumber'', CPrim CUint8),
    (''totalParts'', CPrim CUint8),
    (''apDoNotCacheData_len'', CPrim CUint32),
    (''apDoNotCacheData'', CArr qmiLocApDoNotCacheStructT_v02 (QMI_LOC_APCACHE_DATA_MAX_SAMPLES_V02))]"

definition qmiLocInjectApDoNotCacheDataIndMsgT_v02 :: cty where
  "qmiLocInjectApDoNotCacheDataIndMsgT_v02 = CStruct [
    (''status'', qmiLocStatusEnumT_v02)]"

definition qmiLocBatchingStatusEnumT_v02 :: cty where
  "qmiLocBatchingStatusEnumT_v02 = CEnum [
    (''QMILOCBATCHINGSTATUSENUMT_MIN_ENUM_VAL_V02'', -2147483647),
    (''eQMI_LOC_BATCH_POS_UNAVAILABLE_V02'', 1),
    (''eQMI_LOC_BATCH_POS_AVAILABLE_V02'', 2),
    (''QMILOCBATCHINGSTATUSENUMT_MAX_ENUM_VAL_V02'', 2147483647)]"

definition qmiLocEventBatchingStatusIndMsgT_v02 :: cty where
  "qmiLocEventBatchingStatusIndMsgT_v02 = CStruct [
    (''batchingStatus'', qmiLocBatchingStatusEnumT_v02)]"

definition qmiLocAonCapabilityMaskT_v02 :: cty where "qmiLocAonCapabilityMaskT_v02 = CPrim CUint32"

definition qmiLocQueryAonConfigReqMsgT_v02 :: cty where
  "qmiLocQueryAonConfigReqMsgT_v02 = CStruct [
    (''transactionId'', CPrim CUint32)]"

definition qmiLocQueryAonConfigIndMsgT_v02 :: cty where
  "qmiLocQueryAonConfigIndMsgT_v02 = CStruct [
    (''status'', qmiLocStatusEnumT_v02),
    (''transactionId_valid'', CPrim CUint8),
    (''transactionId'', CPrim CUint32),
    (''aonCapability_valid'', CPrim CUint8),
    (''aonCapability'', qmiLocAonCapabilityMaskT_v02)]"

definition qmiLocDeleteCommonDataMaskT_v02 :: cty where "qmiLocDeleteCommonDataMaskT_v02 = CPrim CUint32"

definition qmiLocDeleteSatelliteDataMaskT_v02 :: cty where "qmiLocDeleteSatelliteDataMaskT_v02 = CPrim CUint32"

definition qmiLocGNSSConstellMaskT_v02 :: cty where "qmiLocGNSSConstellMaskT_v02 = CPrim CUint32"

definition qmiLocDeleteSatelliteDataStructT_v02 :: cty where
  "qmiLocDeleteSatelliteDataStructT_v02 = CStruct [
    (''system'', qmiLocGNSSConstellMaskT_v02),
    (''deleteSatelliteDataMask'', qmiLocDeleteSatelliteDataMaskT_v02)]"

definition qmiLocDeleteGNSSServiceDataReqMsgT_v02 :: cty where
  "qmiLocDeleteGNSSServiceDataReqMsgT_v02 = CStruct [
    (''deleteAllFlag'', CPrim CUint8),
    (''deleteClockInfoMask_valid'', CPrim CUint8),
    (''deleteClockInfoMask'', qmiLocDeleteClockInfoMaskT_v02),
    (''deleteCellDbDataMask_valid'', CPrim CUint8),
    (''deleteCellDbDataMask'', qmiLocDeleteCelldbDataMaskT_v02),
    (''deleteCommonDataMask_valid'', CPrim CUint8),
    (''deleteCommonDataMask'', qmiLocDeleteCommonDataMaskT_v02),
    (''deleteSatelliteData_valid'', CPrim CUint8),
    (''deleteSatelliteData'', qmiLocDeleteSatelliteDataStructT_v02),
    (''deleteExtClockInfoMask_valid'', CPrim CUint8),
    (''deleteExtClockInfoMask'', qmiLocExtDeleteClockInfoMaskT_v02)]"

definition qmiLocDeleteGNSSServiceDataIndMsgT_v02 :: cty where
  "qmiLocDeleteGNSSServiceDataIndMsgT_v02 = CStruct [
    (''status'', qmiLocStatusEnumT_v02)]"

definition qmiLocXtraDataFormatEnumT_v02 :: cty where
  "qmiLocXtraDataFormatEnumT_v02 = CEnum [
    (''QMILOCXTRADATAFORMATENUMT_MIN_ENUM_VAL_V02'', -2147483647),
    (''eQMI_LOC_XTRA_DATA_V02'', 0),
    (''QMILOCXTRADATAFORMATENUMT_MAX_ENUM_VAL_V02'', 2147483647)]"

definition qmiLocInjectXtraDataReqMsgT_v02 :: cty where
  "qmiLocInjectXtraDataReqMsgT_v02 = CStruct [
    (''totalSize'', CPrim CUint32),
    (''totalParts'', CPrim CUint16),
    (''partNum'', CPrim CUint16),
    (''partData_len'', CPrim CUint32),
    (''partData'', CArr (CPrim CUint8) (QMI_LOC_MAX_XTRA_PART_LEN_V02)),
    (''formatType_valid'', CPrim CUint8),
    (''formatType'', qmiLocXtraDataFormatEnumT_v02),
    (''fileInfo_valid'', CPrim CUint8),
    (''fileInfo'', qmiLocPredictedOrbitsSpecialFileTypeStructT_v02)]"

definition qmiLocInjectXtraDataIndMsgT_v02 :: cty where
  "qmiLocInjectXtraDataIndMsgT_v02 = CStruct [
    (''status'', qmiLocStatusEnumT_v02),
    (''partNum_valid'', CPrim CUint8),
    (''partNum'', CPrim CUint16),
    (''ConstellationMask_valid'', CPrim CUint8),
    (''ConstellationMask'', qmiLocGNSSConstellEnumT_v02)]"

definition qmiLocInjectXtraPcidReqMsgT_v02 :: cty where
  "qmiLocInjectXtraPcidReqMsgT_v02 = CStruct [
    (''xtraPcid'', CPrim CUint64)]"

definition qmiLocInjectXtraPcidIndMsgT_v02 :: cty where
  "qmiLocInjectXtraPcidIndMsgT_v02 = CStruct [
    (''status'', qmiLocStatusEnumT_v02)]"

definition qmiLocGetSupportedFeatureReqMsgT_v02 :: cty where
  "qmiLocGetSupportedFeatureReqMsgT_v02 = CStruct [
    (''__placeholder'', CPrim CChar)]"

definition qmiLocSupportedFeatureEnumT_v02 :: cty where
  "qmiLocSupportedFeatureEnumT_v02 = CEnum [
    (''QMILOCSUPPORTEDFEATUREENUMT_MIN_ENUM_VAL_V02'', -2147483647),
    (''eQMI_LOC_SUPPORTED_FEATURE_ODCPI_2_V02'', 0),
    (''eQMI_LOC_SUPPORTED_FEATURE_WIFI_AP_DATA_INJECT_2_V02'', 1),
    (''eQMI_LOC_SUPPORTED_FEATURE_DEBUG_NMEA_V02'', 2),
    (''eQMI_LOC_SUPPORTED_FEATURE_GNSS_ONLY_POSITION_REPORT_V02'', 3),
    (''eQMI_LOC_SUPPORTED_FEATURE_FDCL_V02'', 4),
    (''eQMI_LOC_SUPPORTED_FEATURE_CONSTELLATION_ENABLEMENT_V02'', 5),
    (''eQMI_LOC_SUPPORTED_FEATURE_AGPM_V02'', 6),
    (''eQMI_LOC_SUPPORTED_FEATURE_XTRA_INTEGRITY_V02'', 7),
    (''eQMI_LOC_SUPPORTED_FEATURE_FDCL_2_V02'', 8),
    (''eQMI_LOC_SUPPORTED_FEATURE_LOCATION_PRIVACY_V02'', 9),
    (''eQMI_LOC_SUPPORTED_FEATURE_NAVIC_V02'', 10),
    (''eQMI_LOC_SUPPORTED_FEATURE_ENV_AIDING_V02'', 11),
    (''eQMI_LOC_SUPPORTED_FEATURE_ROBUST_LOCATION_V02'', 12),
    (''eQMI_LOC_SUPPORTED_FEATURE_EDGNSS_V02'', 13),
    (''eQMI_LOC_SUPPORTED_FEATURE_MULTIBAND_CONFIG_V02'', 14),
    (''eQMI_LOC_SUPPORTED_FEATURE_QMI_AGNSS_CONFIG_DISABLED_V02'', 15),
    (''eQMI_LOC_SUPPORTED_FEATURE_MULTIPLE_ATTRIBUTION_APPS_V02'', 16),
    (''eQMI_LOC_SUPPORTED_FEATURE_FLP_NLP_SOURCE_V02'', 17),
    (''eQMI_LOC_SUPPORTED_FEATURE_ENGINE_DEBUG_DATA_V02'', 18),
    (''eQMI_LOC_SUPPORTED_FEATURE_DYNAMIC_FEATURE_STATUS_V02'', 19),
    (''eQMI_LOC_SUPPORTED_FEATURE_GNSS_BANDS_SUPPORTED_V02'', 20),
    (''eQMI_LOC_SUPPORTED_FEATURE_GNSS_CONSTELLATION_DISABLEMENT_V02'', 21),
    (''QMILOCSUPPORTEDFEATUREENUMT_MAX_ENUM_VAL_V02'', 2147483647)]"

definition qmiLocFeaturesStatusMaskT_v02 :: cty where "qmiLocFeaturesStatusMaskT_v02 = CPrim CUint64"

definition qmiLocGetSupportedFeatureIndMsgT_v02 :: cty where
  "qmiLocGetSupportedFeatureIndMsgT_v02 = CStruct [
    (''status'', qmiLocStatusEnumT_v02),
    (''feature_len'', CPrim CUint32),
    (''feature'', CArr (CPrim CUint8) (QMI_LOC_SUPPORTED_FEATURE_LENGTH_V02)),
    (''featureStatusReport_valid'', CPrim CUint8),
    (''featureStatusReport'', qmiLocFeaturesStatusMaskT_v02)]"

definition qmiLocSetInternalStatusConfigReqMsgT_v02 :: cty where
  "qmiLocSetInternalStatusConfigReqMsgT_v02 = CStruct [
    (''config'', CPrim CUint8)]"

definition qmiLocSetInternalStatusConfigIndMsgT_v02 :: cty where
  "qmiLocSetInternalStatusConfigIndMsgT_v02 = CStruct [
    (''status'', qmiLocStatusEnumT_v02)]"

definition qmiLocInternalStatusReportDataStructT_v02 :: cty where
  "qmiLocInternalStatusReportDataStructT_v02 = CStruct [
    (''data'', CArr (CPrim CUint8) (QMI_LOC_INTERNAL_STATUS_REPORT_DATA_LENGTH_V02))]"

definition qmiLocEventInternalStatusReportIndMsgT_v02 :: cty where
  "qmiLocEventInternalStatusReportIndMsgT_v02 = CStruct [
    (''reportData_len'', CPrim CUint32),
    (''reportData'', CArr qmiLocInternalStatusReportDataStructT_v02 (QMI_LOC_INTERNAL_STATUS_MAX_LIST_SIZE_V02))]"

definition qmiLocSrnApDataDeviceTypeMaskT_v02 :: cty where "qmiLocSrnApDataDeviceTypeMaskT_v02 = CPrim CUint32"

definition qmiLocSrnApDataMacAddrTypeEnumT_v02 :: cty where
  "qmiLocSrnApDataMacAddrTypeEnumT_v02 = CEnum [
    (''QMILOCSRNAPDATAMACADDRTYPEENUMT_MIN_ENUM_VAL_V02'', -2147483647),
    (''eQMI_LOC_SRN_AP_DATA_PUBLIC_MAC_ADDR_V02'', 0),
    (''eQMI_LOC_SRN_AP_DATA_PRIVATE_MAC_ADDR_V02'', 1),
    (''eQMI_LOC_SRN_AP_DATA_OTHER_MAC_ADDR_V02'', 2),
    (''QMILOCSRNAPDATAMACADDRTYPEENUMT_MAX_ENUM_VAL_V02'', 2147483647)]"

definition qmiLocEventInjectSrnApDataReqIndMsgT_v02 :: cty where
  "qmiLocEventInjectSrnApDataReqIndMsgT_v02 = CStruct [
    (''srnTechMask'', qmiLocSrnApDataDeviceTypeMaskT_v02),
    (''srnRequest'', CPrim CUint8),
    (''e911Mode_valid'', CPrim CUint8),
    (''e911Mode'', CPrim CUint8),
    (''srnApMacAddrType_valid'', CPrim CUint8),
    (''srnApMacAddrType'', qmiLocSrnApDataMacAddrTypeEnumT_v02)]"

definition qmiLocSrnApDataTechTypeEnumT_v02 :: cty where
  "qmiLocSrnApDataTechTypeEnumT_v02 = CEnum [
    (''QMILOCSRNAPDATATECHTYPEENUMT_MIN_ENUM_VAL_V02'', -2147483647),
    (''eQMI_LOC_SRN_AP_DATA_TECH_TYPE_BT_V02'', 0),
    (''eQMI_LOC_SRN_AP_DATA_TECH_TYPE_BTLE_V02'', 1),
    (''eQMI_LOC_SRN_AP_DATA_TECH_TYPE_NFC_V02'', 2),
    (''eQMI_LOC_SRN_AP_DATA_TECH_TYPE_MOBILE_CODE_V02'', 3),
    (''eQMI_LOC_SRN_AP_DATA_TECH_TYPE_OTHER_V02'', 4),
    (''QMILOCSRNAPDATATECHTYPEENUMT_MAX_ENUM_VAL_V02'', 2147483647)]"

definition qmiLocSrnApDataMaskT_v02 :: cty where "qmiLocSrnApDataMaskT_v02 = CPrim CUint32"

definition qmiLocSrnApErrEnumT_v02 :: cty where
  "qmiLocSrnApErrEnumT_v02 = CEnum [
    (''QMILOCSRNAPERRENUMT_MIN_ENUM_VAL_V02'', -2147483647),
    (''eQMI_LOC_SRN_AP_ERR_UNKNOWN_V02'', 0),
    (''eQMI_LOC_SRN_AP_ERR_NO_REQ_MEAS_AVAILABLE_V02'', 1),
    (''eQMI_LOC_SRN_AP_ERR_SENSOR_OFF_V02'', 2),
    (''QMILOCSRNAPERRENUMT_MAX_ENUM_VAL_V02'', 2147483647)]"

definition qmiLocSrnBtleApDeviceDataStructT_v02 :: cty where
  "qmiLocSrnBtleApDeviceDataStructT_v02 = CStruct [
    (''srnApDataMask'', qmiLocSrnApDataMaskT_v02),
    (''macAddress'', CArr (CPrim CUint8) (QMI_LOC_SRN_MAC_ADDR_LENGTH_V02)),
    (''apSrnRssi'', CPrim CInt32),
    (''apSrnTimestamp'', CPrim CInt64)]"

definition qmiLocInjectSrnApDataReqMsgT_v02 :: cty where
  "qmiLocInjectSrnApDataReqMsgT_v02 = CStruct [
    (''apDeviceTechType'', qmiLocSrnApDataTechTypeEnumT_v02),
    (''srnBtleApInfo_valid'', CPrim CUint8),
    (''srnBtleApInfo_len'', CPrim CUint32),
    (''srnBtleApInfo'', CArr qmiLocSrnBtleApDeviceDataStructT_v02 (QMI_LOC_SRN_MAX_REPORTED_APS_PER_MSG_V02)),
    (''requestTimestamp_valid'', CPrim CUint8),
    (''requestTimestamp'', CPrim CInt64),
    (''receiveTimestamp_valid'', CPrim CUint8),
    (''receiveTimestamp'', CPrim CInt64),
    (''errorCause_valid'', CPrim CUint8),
    (''errorCause'', qmiLocSrnApErrEnumT_v02)]"

definition qmiLocInjectSrnApDataIndMsgT_v02 :: cty where
  "qmiLocInjectSrnApDataIndMsgT_v02 = CStruct [
    (''status'', qmiLocStatusEnumT_v02)]"

definition qmiLocCrowdSourcingTechnologyMaskT_v02 :: cty where "qmiLocCrowdSourcingTechnologyMaskT_v02 = CPrim CUint32"

definition qmiLocCrowdSourcingSourceMaskT_v02 :: cty where "qmiLocCrowdSourcingSourceMaskT_v02 = CPrim CUint32"

definition qmiLocWifiCrowdSourcingLocalConfigStructT_v02 :: cty where
  "qmiLocWifiCrowdSourcingLocalConfigStructT_v02 = CStruct [
    (''enableCrowdSourcingOnDemand'', CPrim CUint8),
    (''enableCrowdSourcingOnUnsolicitedGnss'', CPrim CUint8),
    (''enableBatteryLevelBasedThrottling'', CPrim CUint8),
    (''enableRttCrowdSourcing'', CPrim CUint8),
    (''enableRtt3CrowdSourcing'', CPrim CUint8),
    (''rttSignalDbmThresh'', CPrim CInt32),
    (''maxDataTransferFormatVersionSupported'', CPrim CUint16)]"

definition qmiLocCrowdSourceManagerControlReqMsgT_v02 :: cty where
  "qmiLocCrowdSourceManagerControlReqMsgT_v02 = CStruct [
    (''enableCrowdSourcingMask_valid'', CPrim CUint8),
    (''enableCrowdSourcingMask'', qmiLocCrowdSourcingTechnologyMaskT_v02),
    (''wifiCrowdSourcingLocalConfig_valid'', CPrim CUint8),
    (''wifiCrowdSourcingLocalConfig'', qmiLocWifiCrowdSourcingLocalConfigStructT_v02),
    (''wifiCrowdSourcingServerConfig_valid'', CPrim CUint8),
    (''wifiCrowdSourcingServerConfig_len'', CPrim CUint32),
    (''wifiCrowdSourcingServerConfig'', CArr (CPrim CChar) (QMI_LOC_MAX_WIFI_CROWDSOURCING_SERVER_CONFIG_LEN_V02)),
    (''enableSourceMask_valid'', CPrim CUint8),
    (''enableSourceMask'', qmiLocCrowdSourcingSourceMaskT_v02)]"

definition qmiLocWifiCrowdSourcingCapabilityStructT_v02 :: cty where
  "qmiLocWifiCrowdSourcingCapabilityStructT_v02 = CStruct [
    (''onDemandCrowdSourcingSupported'', CPrim CUint8),
    (''UnsolicitedGnssCrowdSourcingSupported'', CPrim CUint8),
    (''majorVersionSupported'', CPrim CUint8),
    (''minorVersionSupported'', CPrim CUint8),
    (''maxDataTransferFormatVersionSupported'', CPrim CUint16)]"

definition qmiLocCrowdSourceManagerControlIndMsgT_v02 :: cty where
  "qmiLocCrowdSourceManagerControlIndMsgT_v02 = CStruct [
    (''status'', qmiLocStatusEnumT_v02),
    (''supportedCrowdSourcingMask_valid'', CPrim CUint8),
    (''supportedCrowdSourcingMask'', qmiLocCrowdSourcingTechnologyMaskT_v02),
    (''wifiCrowdSourcingCapabaility_valid'', CPrim CUint8),
    (''wifiCrowdSourcingCapabaility'', qmiLocWifiCrowdSourcingCapabilityStructT_v02),
    (''modemClientInfo_valid'', CPrim CUint8),
    (''modemClientInfo_len'', CPrim CUint32),
    (''modemClientInfo'', CArr (CPrim CUint8) (QMI_LOC_MAX_CROWDSOURCING_MODEM_CLIENT_INFO_LEN_V02))]"

definition qmiLocCrowdSourceManagerReadDataReqMsgT_v02 :: cty where
  "qmiLocCrowdSourceManagerReadDataReqMsgT_v02 = CStruct [
    (''crowdSourcingTechMask_valid'', CPrim CUint8),
    (''crowdSourcingTechMask'', qmiLocCrowdSourcingTechnologyMaskT_v02)]"

definition qmiLocXtraConfigMaskT_v02 :: cty where "qmiLocXtraConfigMaskT_v02 = CPrim CUint32"

definition qmiLocXtraInfoMaskT_v02 :: cty where "qmiLocXtraInfoMaskT_v02 = CPrim CUint32"

definition qmiLocXtraInfoStructT_v02 :: cty where
  "qmiLocXtraInfoStructT_v02 = CStruct [
    (''reportMask'', qmiLocXtraInfoMaskT_v02),
    (''absAgeHrs'', CPrim CUint16),
    (''relAgeInUTC'', CPrim CUint64),
    (''xtraServerInfo'', qmiLocPredictedOrbitsServerListStructT_v02),
    (''ntpServerInfo'', qmiLocTimeServerListStructT_v02),
    (''timeRequest'', CPrim CUint8),
    (''preferedValidAgeHrs'', CPrim CUint16)]"

definition qmiLocVersionStructT_v02 :: cty where
  "qmiLocVersionStructT_v02 = CStruct [
    (''majorVersion'', CPrim CUint8),
    (''minorVersion'', CPrim CUint8)]"

definition qmiLocQueryXtraInfoReqMsgT_v02 :: cty where
  "qmiLocQueryXtraInfoReqMsgT_v02 = CStruct [
    (''xtraConfig'', qmiLocXtraConfigMaskT_v02),
    (''xcVersion_valid'', CPrim CUint8),
    (''xcVersion'', qmiLocVersionStructT_v02)]"

definition qmiLocQueryXtraInfoIndMsgT_v02 :: cty where
  "qmiLocQueryXtraInfoIndMsgT_v02 = CStruct [
    (''status'', qmiLocStatusEnumT_v02),
    (''xtraInfo'', qmiLocXtraInfoStructT_v02),
    (''mpVersion_valid'', CPrim CUint8),
    (''mpVersion'', qmiLocVersionStructT_v02),
    (''usableConstellationConfig_valid'', CPrim CUint8),
    (''usableConstellationConfig'', qmiLocGNSSConstellEnumT_v02),
    (''forcedEnableConfig_valid'', CPrim CUint8),
    (''forcedEnableConfig'', qmiLocGNSSConstellEnumT_v02),
    (''multibandEnabled_valid'', CPrim CUint8),
    (''multibandEnabled'', CPrim CUint8),
    (''xtraFileVersion_valid'', CPrim CUint8),
    (''xtraFileVersion'', qmiLocVersionStructT_v02),
    (''mccPrimarySimSlot_valid'', CPrim CUint8),
    (''mccPrimarySimSlot'', CPrim CUint16),
    (''mccSecondarySimSlot_valid'', CPrim CUint8),
    (''mccSecondarySimSlot'', CPrim CUint16),
    (''mccTertiarySimSlot_valid'', CPrim CUint8),
    (''mccTertiarySimSlot'', CPrim CUint16),
    (''xtraFileGenerationTime_valid'', CPrim CUint8),
    (''xtraFileGenerationTime'', CPrim CUint64),
    (''xtraRemValidDuration_valid'', CPrim CUint8),
    (''xtraRemValidDuration'', CPrim CUint32)]"

definition qmiLocStartOutdoorTripBatchingReqMsgT_v02 :: cty where
  "qmiLocStartOutdoorTripBatchingReqMsgT_v02 = CStruct [
    (''batchDistance'', CPrim CUint32),
    (''minTimeInterval'', CPrim CUint32),
    (''fixSessionTimeout_valid'', CPrim CUint8),
    (''fixSessionTimeout'', CPrim CUint32),
    (''batchAllPos_valid'', CPrim CUint8),
    (''batchAllPos'', CPrim CUint8)]"

definition qmiLocStartOutdoorTripBatchingIndMsgT_v02 :: cty where
  "qmiLocStartOutdoorTripBatchingIndMsgT_v02 = CStruct [
    (''status'', qmiLocStatusEnumT_v02)]"

definition qmiLocQueryOTBAccumulatedDistanceReqMsgT_v02 :: cty where
  "qmiLocQueryOTBAccumulatedDistanceReqMsgT_v02 = CStruct [
    (''__placeholder'', CPrim CChar)]"

definition qmiLocQueryOTBAccumulatedDistanceIndMsgT_v02 :: cty where
  "qmiLocQueryOTBAccumulatedDistanceIndMsgT_v02 = CStruct [
    (''status'', qmiLocStatusEnumT_v02),
    (''accumulatedDistance'', CPrim CUint32),
    (''batchedPosition'', CPrim CUint32)]"

definition qmiLocGtpClientSwVerStructT_v02 :: cty where
  "qmiLocGtpClientSwVerStructT_v02 = CStruct [
    (''gtpClientSwMajorVersion'', CPrim CUint8),
    (''gtpClientSwMinorVersion'', CPrim CUint8)]"

definition qmiLocHomeCarrierIdStructT_v02 :: cty where
  "qmiLocHomeCarrierIdStructT_v02 = CStruct [
    (''homeMncValid'', CPrim CUint8),
    (''homeMcc'', CPrim CUint32),
    (''homeMnc'', CPrim CUint32)]"

definition qmiLocPositionSourceStructT_v02 :: cty where
  "qmiLocPositionSourceStructT_v02 = CStruct [
    (''unspecifiedInternal'', CPrim CUint8),
    (''unspecifiedExternal'', CPrim CUint8),
    (''gnss'', CPrim CUint8),
    (''sensors'', CPrim CUint8),
    (''wifi'', CPrim CUint8),
    (''wwan'', CPrim CUint8)]"

definition qmiLocBsBestPositionStructT_v02 :: cty where
  "qmiLocBsBestPositionStructT_v02 = CStruct [
    (''latitude'', CPrim CDouble),
    (''longitude'', CPrim CDouble),
    (''horizontalUnc'', CPrim CFloat),
    (''altitude'', CPrim CFloat),
    (''altitudeUnc'', CPrim CFloat),
    (''latestPositionSources'', qmiLocPositionSourceStructT_v02)]"

definition qmiLocFdclAirInterfaceTypeEnumT_v02 :: cty where
  "qmiLocFdclAirInterfaceTypeEnumT_v02 = CEnum [
    (''QMILOCFDCLAIRINTERFACETYPEENUMT_MIN_ENUM_VAL_V02'', -2147483647),
    (''eQMI_LOC_FDCL_AIR_INTERFACE_TYPE_CDMA_V02'', 0),
    (''eQMI_LOC_FDCL_AIR_INTERFACE_TYPE_GSM_V02'', 1),
    (''eQMI_LOC_FDCL_AIR_INTERFACE_TYPE_WCDMA_V02'', 2),
    (''eQMI_LOC_FDCL_AIR_INTERFACE_TYPE_LTE_V02'', 3),
    (''eQMI_LOC_FDCL_AIR_INTERFACE_TYPE_LTE_M1_V02'', 4),
    (''eQMI_LOC_FDCL_AIR_INTERFACE_TYPE_LTE_NB1_V02'', 5),
    (''eQMI_LOC_FDCL_AIR_INTERFACE_TYPE_LTE_M1_MODE_A_V02'', 6),
    (''eQMI_LOC_FDCL_AIR_INTERFACE_TYPE_LTE_M1_MODE_B_V02'', 7),
    (''eQMI_LOC_FDCL_AIR_INTERFACE_TYPE_LTE_UNKNOWN_V02'', 8),
    (''QMILOCFDCLAIRINTERFACETYPEENUMT_MAX_ENUM_VAL_V02'', 2147483647)]"

definition qmiLocFdclCellIdStructT_v02 :: cty where
  "qmiLocFdclCellIdStructT_v02 = CStruct [
    (''airInterfaceType'', qmiLocFdclAirInterfaceTypeEnumT_v02),
    (''id1'', CPrim CUint32),
    (''id2'', CPrim CUint32),
    (''id3'', CPrim CUint32),
    (''id4'', CPrim CUint32)]"

definition qmiLocEventFdclServiceReqIndMsgT_v02 :: cty where
  "qmiLocEventFdclServiceReqIndMsgT_v02 = CStruct [
    (''gtpClientSwVer_valid'', CPrim CUint8),
    (''gtpClientSwVer'', qmiLocGtpClientSwVerStructT_v02),
    (''modemSwVersion_valid'', CPrim CUint8),
    (''modemSwVersion'', CArr (CPrim CChar) (QMI_LOC_GNSS_SW_VERSION_STRING_MAX_LENGTH_V02 + 1)),
    (''homeCarrierId_valid'', CPrim CUint8),
    (''homeCarrierId'', qmiLocHomeCarrierIdStructT_v02),
    (''cdmaRealm_valid'', CPrim CUint8),
    (''cdmaRealm'', CArr (CPrim CChar) (QMI_LOC_GNSS_SW_VERSION_STRING_MAX_LENGTH_V02 + 1)),
    (''gtpMaxNumRecordsAccepted_valid'', CPrim CUint8),
    (''gtpMaxNumRecordsAccepted'', CPrim CUint16),
    (''gpsWeek_valid'', CPrim CUint8),
    (''gpsWeek'', CPrim CUint16),
    (''gpsMilliseconds_valid'', CPrim CUint8),
    (''gpsMilliseconds'', CPrim CUint32),
    (''bsBestPosition_valid'', CPrim CUint8),
    (''bsBestPosition'', qmiLocBsBestPositionStructT_v02),
    (''currentCellId_valid'', CPrim CUint8),
    (''currentCellId'', qmiLocFdclCellIdStructT_v02),
    (''requestedDataTypes_valid'', CPrim CUint8),
    (''requestedDataTypes'', CPrim CUint8),
    (''restrictedRegionVersion_valid'', CPrim CUint8),
    (''restrictedRegionVersion'', CPrim CUint8)]"

definition qmiLocGetFdclBsListReqMsgT_v02 :: cty where
  "qmiLocGetFdclBsListReqMsgT_v02 = CStruct [
    (''expireInDays_valid'', CPrim CUint8),
    (''expireInDays'', CPrim CUint32),
    (''timestampUtc_valid'', CPrim CUint8),
    (''timestampUtc'', CPrim CUint64),
    (''maxNumBs_valid'', CPrim CUint8),
    (''maxNumBs'', CPrim CUint16)]"

definition qmiLocCellRecordTypeEnumT_v02 :: cty where
  "qmiLocCellRecordTypeEnumT_v02 = CEnum [
    (''QMILOCCELLRECORDTYPEENUMT_MIN_ENUM_VAL_V02'', -2147483647),
    (''eQMI_LOC_CELL_RECORD_TYPE_INVALID_V02'', 0),
    (''eQMI_LOC_CELL_RECORD_TYPE_L1_REGION_WITH_POSITION_V02'', 1),
    (''eQMI_LOC_CELL_RECORD_TYPE_L2_REGION_WITH_POSITION_V02'', 2),
    (''eQMI_LOC_CELL_RECORD_TYPE_L3_REGION_WITH_POSITION_V02'', 3),
    (''eQMI_LOC_CELL_RECORD_TYPE_L4_CELL_RECORD_WITH_POSITION_V02'', 4),
    (''eQMI_LOC_CELL_RECORD_TYPE_L4_CELL_RECORD_NOT_RESOLVED_V02'', 5),
    (''eQMI_LOC_CELL_RECORD_TYPE_L4_CELL_RECORD_NO_INFO_V02'', 6),
    (''QMILOCCELLRECORDTYPEENUMT_MAX_ENUM_VAL_V02'', 2147483647)]"

definition qmiLocGetFdclBsListIndMsgT_v02 :: cty where
  "qmiLocGetFdclBsListIndMsgT_v02 = CStruct [
    (''status'', qmiLocStatusEnumT_v02),
    (''BsList_len'', CPrim CUint32),
    (''BsList'', CArr qmiLocFdclCellIdStructT_v02 (QMI_LOC_FDCL_BS_LIST_MAX_SIZE_V02)),
    (''moreBsAvailable_valid'', CPrim CUint8),
    (''moreBsAvailable'', CPrim CUint8),
    (''bsLocalTimestampList_valid'', CPrim CUint8),
    (''bsLocalTimestampList_len'', CPrim CUint32),
    (''bsLocalTimestampList'', CArr (CPrim CUint32) (QMI_LOC_FDCL_BS_LIST_MAX_SIZE_V02)),
    (''bsBestPosition_valid'', CPrim CUint8),
    (''bsBestPosition'', qmiLocBsBestPositionStructT_v02)]"

definition qmiLocFdclCellPosValidMaskT_v02 :: cty where "qmiLocFdclCellPosValidMaskT_v02 = CPrim CUint32"

definition qmiLocFdclCellPosStructT_v02 :: cty where
  "qmiLocFdclCellPosStructT_v02 = CStruct [
    (''validMask'', qmiLocFdclCellPosValidMaskT_v02),
    (''cellId'', qmiLocFdclCellIdStructT_v02),
    (''latitude'', CPrim CDouble),
    (''longitude'', CPrim CDouble),
    (''horCoverageRadius'', CPrim CFloat),
    (''horConfidence'', CPrim CUint8),
    (''horReliability'', qmiLocReliabilityEnumT_v02),
    (''altitude'', CPrim CFloat),
    (''altUnc'', CPrim CFloat),
    (''altConfidence'', CPrim CUint8),
    (''altReliability'', qmiLocReliabilityEnumT_v02)]"

definition qmiLocInjectFdclDataReqMsgT_v02 :: cty where
  "qmiLocInjectFdclDataReqMsgT_v02 = CStruct [
    (''cellPosList_len'', CPrim CUint32),
    (''cellPosList'', CArr qmiLocFdclCellPosStructT_v02 (QMI_LOC_FDCL_CELL_POS_LIST_LENGTH_V02)),
    (''daysValid'', CPrim CUint32),
    (''timestampUtc_valid'', CPrim CUint8),
    (''timestampUtc'', CPrim CUint64),
    (''cellRecordTypeList_valid'', CPrim CUint8),
    (''cellRecordTypeList_len'', CPrim CUint32),
    (''cellRecordTypeList'', CArr qmiLocCellRecordTypeEnumT_v02 (QMI_LOC_FDCL_CELL_POS_LIST_LENGTH_V02)),
    (''moreBsAvailable_valid'', CPrim CUint8),
    (''moreBsAvailable'', CPrim CUint8),
    (''clientControls_valid'', CPrim CUint8),
    (''clientControls'', CPrim CUint16),
    (''maxNumCellsToUpload_valid'', CPrim CUint8),
    (''maxNumCellsToUpload'', CPrim CUint16),
    (''minSecsBtwRequests_valid'', CPrim CUint8),
    (''minSecsBtwRequests'', CPrim CUint16),
    (''restrictedRegionVersion_valid'', CPrim CUint8),
    (''restrictedRegionVersion'', CPrim CUint8),
    (''restrictedRegions_valid'', CPrim CUint8),
    (''restrictedRegions_len'', CPrim CUint32),
    (''restrictedRegions'', CArr qmiLocHomeCarrierIdStructT_v02 (QMI_LOC_FDCL_BS_LIST_MAX_SIZE_V02))]"

definition qmiLocInjectFdclDataStatusEnumT_v02 :: cty where
  "qmiLocInjectFdclDataStatusEnumT_v02 = CEnum [
    (''QMILOCINJECTFDCLDATASTATUSENUMT_MIN_ENUM_VAL_V02'', -2147483647),
    (''eQMI_LOC_INJECT_FDCL_DATA_SUCCESS_V02'', 0),
    (''eQMI_LOC_INJECT_FDCL_DATA_FAILURE_GENERAL_V02'', 1),
    (''eQMI_LOC_INJECT_FDCL_DATA_FAILURE_NO_CELLS_INJECTED_V02'', 2),
    (''QMILOCINJECTFDCLDATASTATUSENUMT_MAX_ENUM_VAL_V02'', 2147483647)]"

definition qmiLocInjectFdclDataIndMsgT_v02 :: cty where
  "qmiLocInjectFdclDataIndMsgT_v02 = CStruct [
    (''status'', qmiLocStatusEnumT_v02),
    (''inject_status'', qmiLocInjectFdclDataStatusEnumT_v02),
    (''errorMsg_valid'', CPrim CUint8),
    (''errorMsg'', CArr (CPrim CChar) (QMI_LOC_INJECT_FDCL_DATA_ERROR_MSG_LEN_V02 + 1))]"

definition qmiLocSetBlacklistSvReqMsgT_v02 :: cty where
  "qmiLocSetBlacklistSvReqMsgT_v02 = CStruct [
    (''glo_persist_blacklist_sv_valid'', CPrim CUint8),
    (''glo_persist_blacklist_sv'', CPrim CUint64),
    (''glo_clear_persist_blacklist_sv_valid'', CPrim CUint8),
    (''glo_clear_persist_blacklist_sv'', CPrim CUint64),
    (''bds_persist_blacklist_sv_valid'', CPrim CUint8),
    (''bds_persist_blacklist_sv'', CPrim CUint64),
    (''bds_clear_persist_blacklist_sv_valid'', CPrim CUint8),
    (''bds_clear_persist_blacklist_sv'', CPrim CUint64),
    (''qzss_persist_blacklist_sv_valid'', CPrim CUint8),
    (''qzss_persist_blacklist_sv'', CPrim CUint64),
    (''qzss_clear_persist_blacklist_sv_valid'', CPrim CUint8),
    (''qzss_clear_persist_blacklist_sv'', CPrim CUint64),
    (''gal_persist_blacklist_sv_valid'', CPrim CUint8),
    (''gal_persist_blacklist_sv'', CPrim CUint64),
    (''gal_clear_persist_blacklist_sv_valid'', CPrim CUint8),
    (''gal_clear_persist_blacklist_sv'', CPrim CUint64),
    (''sbas_persist_blacklist_sv_valid'', CPrim CUint8),
    (''sbas_persist_blacklist_sv'', CPrim CUint64),
    (''sbas_clear_persist_blacklist_sv_valid'', CPrim CUint8),
    (''sbas_clear_persist_blacklist_sv'', CPrim CUint64),
    (''navic_persist_blacklist_sv_valid'', CPrim CUint8),
    (''navic_persist_blacklist_sv'', CPrim CUint64),
    (''navic_clear_persist_blacklist_sv_valid'', CPrim CUint8),
    (''navic_clear_persist_blacklist_sv'', CPrim CUint64),
    (''gps_persist_blacklist_sv_valid'', CPrim CUint8),
    (''gps_persist_blacklist_sv'', CPrim CUint64),
    (''gps_clear_persist_blacklist_sv_valid'', CPrim CUint8),
    (''gps_clear_persist_blacklist_sv'', CPrim CUint64)]"

definition qmiLocGetBlacklistSvIndMsgT_v02 :: cty where
  "qmiLocGetBlacklistSvIndMsgT_v02 = CStruct [
    (''status'', qmiLocStatusEnumT_v02),
    (''glo_persist_blacklist_sv_valid'', CPrim CUint8),
    (''glo_persist_blacklist_sv'', CPrim CUint64),
    (''bds_persist_blacklist_sv_valid'', CPrim CUint8),
    (''bds_persist_blacklist_sv'', CPrim CUint64),
    (''qzss_persist_blacklist_sv_valid'', CPrim CUint8),
    (''qzss_persist_blacklist_sv'', CPrim CUint64),
    (''gal_persist_blacklist_sv_valid'', CPrim CUint8),
    (''gal_persist_blacklist_sv'', CPrim CUint64),
    (''sbas_persist_blacklist_sv_valid'', CPrim CUint8),
    (''sbas_persist_blacklist_sv'', CPrim CUint64),
    (''navic_persist_blacklist_sv_valid'', CPrim CUint8),
    (''navic_persist_blacklist_sv'', CPrim CUint64),
    (''gps_persist_blacklist_sv_valid'', CPrim CUint8),
    (''gps_persist_blacklist_sv'', CPrim CUint64)]"

definition qmiLocConstellationMaskT_v02 :: cty where "qmiLocConstellationMaskT_v02 = CPrim CUint64"

definition qmiLocSetConstellationConfigReqMsgT_v02 :: cty where
  "qmiLocSetConstellationConfigReqMsgT_v02 = CStruct [
    (''resetConstellations'', CPrim CUint8),
    (''enableMask_valid'', CPrim CUint8),
    (''enableMask'', qmiLocConstellationMaskT_v02),
    (''disableMask_valid'', CPrim CUint8),
    (''disableMask'', qmiLocConstellationMaskT_v02)]"

definition qmiLocDcReportMsgTypeEnumT_v02 :: cty where
  "qmiLocDcReportMsgTypeEnumT_v02 = CEnum [
    (''QMILOCDCREPORTMSGTYPEENUMT_MIN_ENUM_VAL_V02'', -2147483647),
    (''eQMI_LOC_QZSS_JMA_DISASTER_PREVENTION_INFO_V02'', 43),
    (''eQMI_LOC_QZSS_NON_JMA_DISASTER_PREVENTION_INFO_V02'', 44),
    (''QMILOCDCREPORTMSGTYPEENUMT_MAX_ENUM_VAL_V02'', 2147483647)]"

definition qmiLocEventDcReportIndMsgT_v02 :: cty where
  "qmiLocEventDcReportIndMsgT_v02 = CStruct [
    (''msgType_valid'', CPrim CUint8),
    (''msgType'', qmiLocDcReportMsgTypeEnumT_v02),
    (''numValidBits_valid'', CPrim CUint8),
    (''numValidBits'', CPrim CUint16),
    (''dcReportData_valid'', CPrim CUint8),
    (''dcReportData_len'', CPrim CUint32),
    (''dcReportData'', CArr (CPrim CUint8) (QMI_LOC_MAX_DCREPORT_LEN_V02)),
    (''prn_valid'', CPrim CUint8),
    (''prn'', CPrim CUint8)]"

definition qmiLocRegisterMasterClientReqMsgT_v02 :: cty where
  "qmiLocRegisterMasterClientReqMsgT_v02 = CStruct [
    (''key'', CPrim CUint32)]"

definition qmiLocRegisterMasterClientStatusEnumT_v02 :: cty where
  "qmiLocRegisterMasterClientStatusEnumT_v02 = CEnum [
    (''QMILOCREGISTERMASTERCLIENTSTATUSENUMT_MIN_ENUM_VAL_V02'', -2147483647),
    (''eQMI_LOC_REGISTER_MASTER_CLIENT_SUCCESS_V02'', 0),
    (''eQMI_LOC_REGISTER_MASTER_CLIENT_INVALID_KEY_V02'', 1),
    (''eQMI_LOC_REGISTER_MASTER_CLIENT_ALREADY_HAVE_MASTER_CLIENT_V02'', 2),
    (''eQMI_LOC_REGISTER_MASTER_CLIENT_INTERNAL_FAILURE_V02'', 3),
    (''QMILOCREGISTERMASTERCLIENTSTATUSENUMT_MAX_ENUM_VAL_V02'', 2147483647)]"

definition qmiLocRegisterMasterClientIndMsgT_v02 :: cty where
  "qmiLocRegisterMasterClientIndMsgT_v02 = CStruct [
    (''status'', qmiLocRegisterMasterClientStatusEnumT_v02)]"

definition qmiLocEventEngineLockStateIndMsgT_v02 :: cty where
  "qmiLocEventEngineLockStateIndMsgT_v02 = CStruct [
    (''engineLockState'', qmiLocEngineLockStateEnumT_v02),
    (''subType_valid'', CPrim CUint8),
    (''subType'', qmiLocLockSubInfoEnumT_v02),
    (''lockClient_valid'', CPrim CUint8),
    (''lockClient'', qmiLocLockClientMaskT_v02)]"

definition qmiLocStartListenPositionReqMsgT_v02 :: cty where
  "qmiLocStartListenPositionReqMsgT_v02 = CStruct [
    (''__placeholder'', CPrim CChar)]"

definition qmiLocStopListenPositionReqMsgT_v02 :: cty where
  "qmiLocStopListenPositionReqMsgT_v02 = CStruct [
    (''__placeholder'', CPrim CChar)]"

definition qmiLocSystemInfoEnumT_v02 :: cty where
  "qmiLocSystemInfoEnumT_v02 = CEnum [
    (''QMILOCSYSTEMINFOENUMT_MIN_ENUM_VAL_V02'', -2147483647),
    (''eQMI_LOC_UNDEFINED_INFO_V02'', 0),
    (''eQMI_LOC_NEXT_LEAP_SECOND_INFO_V02'', 1),
    (''eQMI_LOC_DWELL_TIME_ALIGNMENT_INFO_V02'', 2),
    (''QMILOCSYSTEMINFOENUMT_MAX_ENUM_VAL_V02'', 2147483647)]"

definition qmiLocNextLeapSecondInfoStructT_v02 :: cty where
  "qmiLocNextLeapSecondInfoStructT_v02 = CStruct [
    (''gpsTimeCurrent_valid'', CPrim CUint8),
    (''gpsTimeCurrent'', qmiLocGPSTimeStructT_v02),
    (''leapSecondsCurrent_valid'', CPrim CUint8),
    (''leapSecondsCurrent'', CPrim CUint8),
    (''gpsTimeNextLsEvent_valid'', CPrim CUint8),
    (''gpsTimeNextLsEvent'', qmiLocGPSTimeStructT_v02),
    (''leapSecondsNext_valid'', CPrim CUint8),
    (''leapSecondsNext'', CPrim CUint8)]"

definition qmiLocSystemInfoReqMsgT_v02 :: cty where
  "qmiLocSystemInfoReqMsgT_v02 = CStruct [
    (''systemInfo'', qmiLocSystemInfoEnumT_v02)]"

definition qmiLocSystemInfoIndMsgT_v02 :: cty where
  "qmiLocSystemInfoIndMsgT_v02 = CStruct [
    (''systemInfo'', qmiLocSystemInfoEnumT_v02),
    (''nextLeapSecondInfo_valid'', CPrim CUint8),
    (''nextLeapSecondInfo'', qmiLocNextLeapSecondInfoStructT_v02),
    (''system_valid'', CPrim CUint8),
    (''system'', qmiLocSvSystemEnumT_v02),
    (''gnssWeekCurrent_valid'', CPrim CUint8),
    (''gnssWeekCurrent'', CPrim CUint16),
    (''gnssTimeOfWeekCurrentMs_valid'', CPrim CUint8),
    (''gnssTimeOfWeekCurrentMs'', CPrim CUint32),
    (''gnssWeekNextLSEvent_valid'', CPrim CUint8),
    (''gnssWeekNextLSEvent'', CPrim CUint16),
    (''gnssTimeOfWeekNextLSEventMs_valid'', CPrim CUint8),
    (''gnssTimeOfWeekNextLSEventMs'', CPrim CUint32),
    (''gnssleapSecondsNext_valid'', CPrim CUint8),
    (''gnssleapSecondsNext'', CPrim CUint8),
    (''gnssleapSecondsCurrent_valid'', CPrim CUint8),
    (''gnssleapSecondsCurrent'', CPrim CUint8),
    (''dwellAlignTimeMs_valid'', CPrim CUint8),
    (''dwellAlignTimeMs'', CPrim CUint32)]"

definition qmiLocConstellationStatusEnumT_v02 :: cty where
  "qmiLocConstellationStatusEnumT_v02 = CEnum [
    (''QMILOCCONSTELLATIONSTATUSENUMT_MIN_ENUM_VAL_V02'', -2147483647),
    (''eQMI_LOC_CONSTELLATION_ENABLED_MANDATORY_V02'', 0),
    (''eQMI_LOC_CONSTELLATION_ENABLED_INTERNALLY_V02'', 1),
    (''eQMI_LOC_CONSTELLATION_ENABLED_BY_CLIENT_V02'', 2),
    (''eQMI_LOC_CONSTELLATION_DISABLED_NOT_SUPPORTED_V02'', 100),
    (''eQMI_LOC_CONSTELLATION_DISABLED_INTERNALLY_V02'', 101),
    (''eQMI_LOC_CONSTELLATION_DISABLED_BY_CLIENT_V02'', 102),
    (''eQMI_LOC_CONSTELLATION_DISABLED_NO_MEMORY_V02'', 103),
    (''QMILOCCONSTELLATIONSTATUSENUMT_MAX_ENUM_VAL_V02'', 2147483647)]"

definition qmiLocGetConstellationConfigIndMsgT_v02 :: cty where
  "qmiLocGetConstellationConfigIndMsgT_v02 = CStruct [
    (''status'', qmiLocStatusEnumT_v02),
    (''gps_status_valid'', CPrim CUint8),
    (''gps_status'', qmiLocConstellationStatusEnumT_v02),
    (''glonass_status_valid'', CPrim CUint8),
    (''glonass_status'', qmiLocConstellationStatusEnumT_v02),
    (''bds_status_valid'', CPrim CUint8),
    (''bds_status'', qmiLocConstellationStatusEnumT_v02),
    (''qzss_status_valid'', CPrim CUint8),
    (''qzss_status'', qmiLocConstellationStatusEnumT_v02),
    (''galileo_status_valid'', CPrim CUint8),
    (''galileo_status'', qmiLocConstellationStatusEnumT_v02),
    (''navic_status_valid'', CPrim CUint8),
    (''navic_status'', qmiLocConstellationStatusEnumT_v02)]"

definition qmiLocEnablePositionInjectionTestModeReqMsgT_v02 :: cty where
  "qmiLocEnablePositionInjectionTestModeReqMsgT_v02 = CStruct [
    (''enableTestMode'', CPrim CUint8)]"

definition qmiLocEnablePositionInjectionTestModeEnumT_v02 :: cty where
  "qmiLocEnablePositionInjectionTestModeEnumT_v02 = CEnum [
    (''QMILOCENABLEPOSITIONINJECTIONTESTMODEENUMT_MIN_ENUM_VAL_V02'', -2147483647),
    (''eQMI_LOC_TEST_MODE_UNKNOWN_V02'', 0),
    (''eQMI_LOC_TEST_MODE_ENABLED_V02'', 1),
    (''eQMI_LOC_TEST_MODE_DISABLED_V02'', 2),
    (''eQMI_LOC_TEST_MODE_ALREADY_ENABLED_V02'', 3),
    (''eQMI_LOC_TEST_MODE_ALREADY_DISABLED_V02'', 4),
    (''QMILOCENABLEPOSITIONINJECTIONTESTMODEENUMT_MAX_ENUM_VAL_V02'', 2147483647)]"

definition qmiLocEnablePositionInjectionTestModeIndMsgT_v02 :: cty where
  "qmiLocEnablePositionInjectionTestModeIndMsgT_v02 = CStruct [
    (''status'', qmiLocStatusEnumT_v02),
    (''testModeState_valid'', CPrim CUint8),
    (''testModeState'', qmiLocEnablePositionInjectionTestModeEnumT_v02)]"

definition qmiLocInjectTestPositionReqMsgT_v02 :: cty where
  "qmiLocInjectTestPositionReqMsgT_v02 = CStruct [
    (''latitude'', CPrim CDouble),
    (''longitude'', CPrim CDouble),
    (''horUncCircular'', CPrim CFloat),
    (''timestampUtc'', CPrim CUint64),
    (''positionSource_valid'', CPrim CUint8),
    (''positionSource'', qmiLocPositionSourceEnumT_v02)]"

definition qmiLocInjectTestPositionIndMsgT_v02 :: cty where
  "qmiLocInjectTestPositionIndMsgT_v02 = CStruct [
    (''status'', qmiLocStatusEnumT_v02)]"

definition qmiLocEventBsObsDataServiceReqIndMsgT_v02 :: cty where
  "qmiLocEventBsObsDataServiceReqIndMsgT_v02 = CStruct [
    (''numCellsAvailable'', CPrim CUint16)]"

definition qmiLocGetBsObsDataReqMsgT_v02 :: cty where
  "qmiLocGetBsObsDataReqMsgT_v02 = CStruct [
    (''timestampUtc_valid'', CPrim CUint8),
    (''timestampUtc'', CPrim CUint64),
    (''numCellsUpload_valid'', CPrim CUint8),
    (''numCellsUpload'', CPrim CUint16)]"

definition qmiLocBsObservedDataValidMaskT_v02 :: cty where "qmiLocBsObservedDataValidMaskT_v02 = CPrim CUint64"

definition qmiLocBsObservedDataStructT_v02 :: cty where
  "qmiLocBsObservedDataStructT_v02 = CStruct [
    (''validMask'', qmiLocBsObservedDataValidMaskT_v02),
    (''cellId'', qmiLocFdclCellIdStructT_v02),
    (''gpsWeek'', CPrim CUint16),
    (''gpsMilliseconds'', CPrim CUint32),
    (''bsLocalTimestamp'', CPrim CUint32),
    (''posDeltaTime'', CPrim CInt32),
    (''speed'', CPrim CFloat),
    (''speedUnc'', CPrim CFloat),
    (''heading'', CPrim CDouble),
    (''headingUnc'', CPrim CDouble),
    (''bsBestPosition'', qmiLocBsBestPositionStructT_v02)]"

definition qmiLocGetBsObsDataIndMsgT_v02 :: cty where
  "qmiLocGetBsObsDataIndMsgT_v02 = CStruct [
    (''status'', qmiLocStatusEnumT_v02),
    (''bsData_len'', CPrim CUint32),
    (''bsData'', CArr qmiLocBsObservedDataStructT_v02 (QMI_LOC_FDCL_BS_LIST_MAX_SIZE_V02)),
    (''moreBsAvailable_valid'', CPrim CUint8),
    (''moreBsAvailable'', CPrim CUint8)]"

definition qmiLocEphUpdateActionEnumT_v02 :: cty where
  "qmiLocEphUpdateActionEnumT_v02 = CEnum [
    (''QMILOCEPHUPDATEACTIONENUMT_MIN_ENUM_VAL_V02'', -2147483647),
    (''eQMI_LOC_UPDATE_EPH_SRC_UNKNOWN_V02'', 0),
    (''eQMI_LOC_UPDATE_EPH_SRC_OTA_V02'', 1),
    (''eQMI_LOC_UPDATE_EPH_SRC_NETWORK_V02'', 2),
    (''eQMI_LOC_UPDATE_EPH_SRC_MAX_V02'', 999),
    (''eQMI_LOC_DELETE_EPH_SRC_UNKNOWN_V02'', 1000),
    (''eQMI_LOC_DELETE_EPH_SRC_NETWORK_V02'', 1001),
    (''eQMI_LOC_DELETE_EPH_SRC_OTA_V02'', 1002),
    (''eQMI_LOC_DELETE_EPH_SRC_MAX_V02'', 1999),
    (''QMILOCEPHUPDATEACTIONENUMT_MAX_ENUM_VAL_V02'', 2147483647)]"

definition qmiLocEphGnssDataStructT_v02 :: cty where
  "qmiLocEphGnssDataStructT_v02 = CStruct [
    (''gnssSvId'', CPrim CUint16),
    (''updateAction'', qmiLocEphUpdateActionEnumT_v02),
    (''IODE'', CPrim CUint16),
    (''aSqrt'', CPrim CDouble),
    (''deltaN'', CPrim CDouble),
    (''m0'', CPrim CDouble),
    (''eccentricity'', CPrim CDouble),
    (''omega0'', CPrim CDouble),
    (''i0'', CPrim CDouble),
    (''omega'', CPrim CDouble),
    (''omegaDot'', CPrim CDouble),
    (''iDot'', CPrim CDouble),
    (''cUc'', CPrim CDouble),
    (''cUs'', CPrim CDouble),
    (''cRc'', CPrim CDouble),
    (''cRs'', CPrim CDouble),
    (''cIc'', CPrim CDouble),
    (''cIs'', CPrim CDouble),
    (''toe'', CPrim CUint32),
    (''toc'', CPrim CUint32),
    (''af0'', CPrim CDouble),
    (''af1'', CPrim CDouble),
    (''af2'', CPrim CDouble)]"

definition qmiLocGpsEphemerisT_v02 :: cty where
  "qmiLocGpsEphemerisT_v02 = CStruct [
    (''commonEphemerisData'', qmiLocEphGnssDataStructT_v02),
    (''signalHealth'', CPrim CUint8),
    (''URAI'', CPrim CUint8),
    (''codeL2'', CPrim CUint8),
    (''dataFlagL2P'', CPrim CUint8),
    (''tgd'', CPrim CDouble),
    (''fitInterval'', CPrim CUint8),
    (''IODC'', CPrim CUint16)]"

definition qmiLocGpsExtEphemerisT_v02 :: cty where
  "qmiLocGpsExtEphemerisT_v02 = CStruct [
    (''gnssSvId'', CPrim CUint16),
    (''validityMask'', CPrim CUint16),
    (''iscL1ca'', CPrim CFloat),
    (''iscL2c'', CPrim CFloat),
    (''iscL5I5'', CPrim CFloat),
    (''iscL5Q5'', CPrim CFloat),
    (''alert'', CPrim CUint8),
    (''uraNed0'', CPrim CUint8),
    (''uraNed1'', CPrim CUint8),
    (''uraNed2'', CPrim CUint8),
    (''top'', CPrim CDouble),
    (''topClock'', CPrim CUint16),
    (''validityPeriod'', CPrim CUint32),
    (''deltaNdot'', CPrim CDouble),
    (''deltaA'', CPrim CDouble),
    (''adot'', CPrim CDouble)]"

definition qmiLocGpsEphemerisReportIndMsgT_v02 :: cty where
  "qmiLocGpsEphemerisReportIndMsgT_v02 = CStruct [
    (''gpsEphemerisList_len'', CPrim CUint32),
    (''gpsEphemerisList'', CArr qmiLocGpsEphemerisT_v02 (QMI_LOC_EPHEMERIS_LIST_MAX_SIZE_V02)),
    (''gpsSystemTime_valid'', CPrim CUint8),
    (''gpsSystemTime'', qmiLocGnssTimeStructT_v02),
    (''dataSourceSignal_valid'', CPrim CUint8),
    (''dataSourceSignal'', qmiLocGnssSignalTypeEnumT_v02),
    (''gpsEphemerisListExt_valid'', CPrim CUint8),
    (''gpsEphemerisListExt_len'', CPrim CUint32),
    (''gpsEphemerisListExt'', CArr qmiLocGpsExtEphemerisT_v02 (QMI_LOC_EPHEMERIS_LIST_MAX_SIZE_V02))]"

definition qmiLocGloEphemerisT_v02 :: cty where
  "qmiLocGloEphemerisT_v02 = CStruct [
    (''gnssSvId'', CPrim CUint16),
    (''updateAction'', qmiLocEphUpdateActionEnumT_v02),
    (''bnHealth'', CPrim CUint8),
    (''lnHealth'', CPrim CUint8),
    (''tb'', CPrim CUint8),
    (''ft'', CPrim CUint8),
    (''gloM'', CPrim CUint8),
    (''enAge'', CPrim CUint8),
    (''gloFrequency'', CPrim CUint8),
    (''p1'', CPrim CUint8),
    (''p2'', CPrim CUint8),
    (''deltaTau'', CPrim CFloat),
    (''position'', CArr (CPrim CDouble) (3)),
    (''velocity'', CArr (CPrim CDouble) (3)),
    (''acceleration'', CArr (CPrim CDouble) (3)),
    (''tauN'', CPrim CFloat),
    (''gamma'', CPrim CFloat),
    (''toe'', CPrim CDouble),
    (''nt'', CPrim CUint16)]"

definition qmiLocGloEphemerisReportIndMsgT_v02 :: cty where
  "qmiLocGloEphemerisReportIndMsgT_v02 = CStruct [
    (''gloEphemerisList_len'', CPrim CUint32),
    (''gloEphemerisList'', CArr qmiLocGloEphemerisT_v02 (QMI_LOC_EPHEMERIS_LIST_MAX_SIZE_V02)),
    (''gpsSystemTime_valid'', CPrim CUint8),
    (''gpsSystemTime'', qmiLocGnssTimeStructT_v02)]"

definition qmiLocBdsEphemerisT_v02 :: cty where
  "qmiLocBdsEphemerisT_v02 = CStruct [
    (''commonEphemerisData'', qmiLocEphGnssDataStructT_v02),
    (''svHealth'', CPrim CUint8),
    (''AODC'', CPrim CUint8),
    (''tgd1'', CPrim CDouble),
    (''tgd2'', CPrim CDouble),
    (''URAI'', CPrim CUint8)]"

definition qmiLocBdsExtEphemerisT_v02 :: cty where
  "qmiLocBdsExtEphemerisT_v02 = CStruct [
    (''gnssSvId'', CPrim CUint16),
    (''validityMask'', CPrim CUint16),
    (''tgdB2a'', CPrim CFloat),
    (''iscB2a'', CPrim CFloat),
    (''tgdB1c'', CPrim CFloat),
    (''iscB1c'', CPrim CFloat),
    (''svType'', CPrim CUint8),
    (''validityPeriod'', CPrim CUint32),
    (''integrityFlags'', CPrim CUint8),
    (''deltaNdot'', CPrim CDouble),
    (''deltaA'', CPrim CDouble),
    (''adot'', CPrim CDouble)]"

definition qmiLocBdsEphemerisReportIndMsgT_v02 :: cty where
  "qmiLocBdsEphemerisReportIndMsgT_v02 = CStruct [
    (''bdsEphemerisList_len'', CPrim CUint32),
    (''bdsEphemerisList'', CArr qmiLocBdsEphemerisT_v02 (QMI_LOC_EPHEMERIS_LIST_MAX_SIZE_V02)),
    (''gpsSystemTime_valid'', CPrim CUint8),
    (''gpsSystemTime'', qmiLocGnssTimeStructT_v02),
    (''dataSourceSignal_valid'', CPrim CUint8),
    (''dataSourceSignal'', qmiLocGnssSignalTypeEnumT_v02),
    (''bdsEphemerisListExt_valid'', CPrim CUint8),
    (''bdsEphemerisListExt_len'', CPrim CUint32),
    (''bdsEphemerisListExt'', CArr qmiLocBdsExtEphemerisT_v02 (QMI_LOC_EPHEMERIS_LIST_MAX_SIZE_V02))]"

definition qmiLocGalEphSourceSignal_v02 :: cty where
  "qmiLocGalEphSourceSignal_v02 = CEnum [
    (''QMILOCGALEPHSOURCESIGNAL_MIN_ENUM_VAL_V02'', -2147483647),
    (''eQMI_LOC_GAL_EPH_SIGNAL_SRC_UNKNOWN_V02'', 0),
    (''eQMI_LOC_GAL_EPH_SIGNAL_SRC_E1B_V02'', 1),
    (''eQMI_LOC_GAL_EPH_SIGNAL_SRC_E5A_V02'', 2),
    (''eQMI_LOC_GAL_EPH_SIGNAL_SRC_E5B_V02'', 3),
    (''QMILOCGALEPHSOURCESIGNAL_MAX_ENUM_VAL_V02'', 2147483647)]"

definition qmiLocGalEphemerisT_v02 :: cty where
  "qmiLocGalEphemerisT_v02 = CStruct [
    (''commonEphemerisData'', qmiLocEphGnssDataStructT_v02),
    (''dataSourceSignal'', qmiLocGalEphSourceSignal_v02),
    (''sisIndex'', CPrim CUint8),
    (''bgdE1E5a'', CPrim CDouble),
    (''bgdE1E5b'', CPrim CDouble),
    (''svHealth'', CPrim CUint8)]"

definition qmiLocGalEphemerisReportIndMsgT_v02 :: cty where
  "qmiLocGalEphemerisReportIndMsgT_v02 = CStruct [
    (''galEphemerisList_len'', CPrim CUint32),
    (''galEphemerisList'', CArr qmiLocGalEphemerisT_v02 (QMI_LOC_EPHEMERIS_LIST_MAX_SIZE_V02)),
    (''gpsSystemTime_valid'', CPrim CUint8),
    (''gpsSystemTime'', qmiLocGnssTimeStructT_v02)]"

definition qmiLocQzssEphemerisReportIndMsgT_v02 :: cty where
  "qmiLocQzssEphemerisReportIndMsgT_v02 = CStruct [
    (''qzssEphemerisList_len'', CPrim CUint32),
    (''qzssEphemerisList'', CArr qmiLocGpsEphemerisT_v02 (QMI_LOC_EPHEMERIS_LIST_MAX_SIZE_V02)),
    (''gpsSystemTime_valid'', CPrim CUint8),
    (''gpsSystemTime'', qmiLocGnssTimeStructT_v02),
    (''dataSourceSignal_valid'', CPrim CUint8),
    (''dataSourceSignal'', qmiLocGnssSignalTypeEnumT_v02),
    (''qzssEphemerisListExt_valid'', CPrim CUint8),
    (''qzssEphemerisListExt_len'', CPrim CUint32),
    (''qzssEphemerisListExt'', CArr qmiLocGpsExtEphemerisT_v02 (QMI_LOC_EPHEMERIS_LIST_MAX_SIZE_V02))]"

definition qmiLocSetConstrainedTuncModeReqMsgT_v02 :: cty where
  "qmiLocSetConstrainedTuncModeReqMsgT_v02 = CStruct [
    (''tuncConstraintOn'', CPrim CUint8),
    (''tuncConstraint_valid'', CPrim CUint8),
    (''tuncConstraint'', CPrim CFloat),
    (''energyBudget_valid'', CPrim CUint8),
    (''energyBudget'', CPrim CUint32)]"

definition qmiLocSetConstrainedTuncModeIndMsgT_v02 :: cty where
  "qmiLocSetConstrainedTuncModeIndMsgT_v02 = CStruct [
    (''status'', qmiLocStatusEnumT_v02)]"

definition qmiLocEnablePositionAssistedClockEstReqMsgT_v02 :: cty where
  "qmiLocEnablePositionAssistedClockEstReqMsgT_v02 = CStruct [
    (''enablePositionAssistedClockEst'', CPrim CUint8)]"

definition qmiLocEnablePositionAssistedClockEstIndMsgT_v02 :: cty where
  "qmiLocEnablePositionAssistedClockEstIndMsgT_v02 = CStruct [
    (''status'', qmiLocStatusEnumT_v02)]"

definition qmiLocQueryGNSSEnergyConsumedReqMsgT_v02 :: cty where
  "qmiLocQueryGNSSEnergyConsumedReqMsgT_v02 = CStruct [
    (''__placeholder'', CPrim CChar)]"

definition qmiLocQueryGNSSEnergyConsumedIndMsgT_v02 :: cty where
  "qmiLocQueryGNSSEnergyConsumedIndMsgT_v02 = CStruct [
    (''energyConsumedSinceLastBoot'', CPrim CUint64),
    (''energyConsumedSinceFirstBoot'', CPrim CUint64)]"

definition qmiLocEventReportMaskT_v02 :: cty where "qmiLocEventReportMaskT_v02 = CPrim CUint64"

definition qmiLocKlobucharIonoModelT_v02 :: cty where
  "qmiLocKlobucharIonoModelT_v02 = CStruct [
    (''dataSource'', qmiLocSvSystemEnumT_v02),
    (''alpha0'', CPrim CFloat),
    (''alpha1'', CPrim CFloat),
    (''alpha2'', CPrim CFloat),
    (''alpha3'', CPrim CFloat),
    (''beta0'', CPrim CFloat),
    (''beta1'', CPrim CFloat),
    (''beta2'', CPrim CFloat),
    (''beta3'', CPrim CFloat)]"

definition qmiLocKlobucharIonoModelLimitsT_v02 :: cty where
  "qmiLocKlobucharIonoModelLimitsT_v02 = CStruct [
    (''signalType'', qmiLocGnssSignalTypeEnumT_v02),
    (''maxLonLimit'', CPrim CFloat),
    (''minLonLimit'', CPrim CFloat),
    (''maxLatLimit'', CPrim CFloat),
    (''minLatLimit'', CPrim CFloat)]"

definition qmiLocEventReportIndMsgT_v02 :: cty where
  "qmiLocEventReportIndMsgT_v02 = CStruct [
    (''eventReport'', qmiLocEventReportMaskT_v02),
    (''gpsSystemTime_valid'', CPrim CUint8),
    (''gpsSystemTime'', qmiLocGnssTimeStructT_v02),
    (''klobucharIonoModel_valid'', CPrim CUint8),
    (''klobucharIonoModel'', qmiLocKlobucharIonoModelT_v02),
    (''tauC_valid'', CPrim CUint8),
    (''tauC'', CPrim CDouble),
    (''leapSec_valid'', CPrim CUint8),
    (''leapSec'', CPrim CInt8),
    (''featureStatusReport_valid'', CPrim CUint8),
    (''featureStatusReport'', qmiLocFeaturesStatusMaskT_v02),
    (''klobucharIonoModelLimits_valid'', CPrim CUint8),
    (''klobucharIonoModelLimits'', qmiLocKlobucharIonoModelLimitsT_v02)]"

definition qmiLocMePerGnssRfStructType_v02 :: cty where
  "qmiLocMePerGnssRfStructType_v02 = CStruct [
    (''bpAmpI'', CPrim CUint16),
    (''bpAmpQ'', CPrim CUint16),
    (''jammerPwrDb'', CPrim CInt32)]"

definition qmiLocGetBandMeasurementMetricsIndMsgT_v02 :: cty where
  "qmiLocGetBandMeasurementMetricsIndMsgT_v02 = CStruct [
    (''systemTick'', CPrim CUint64),
    (''band1PgaGainDb'', CPrim CInt32),
    (''gpsL1caRfStats_valid'', CPrim CUint8),
    (''gpsL1caRfStats'', qmiLocMePerGnssRfStructType_v02),
    (''gloG1RfStats_valid'', CPrim CUint8),
    (''gloG1RfStats'', qmiLocMePerGnssRfStructType_v02),
    (''bdsB1RfStats_valid'', CPrim CUint8),
    (''bdsB1RfStats'', qmiLocMePerGnssRfStructType_v02),
    (''galE1RfStats_valid'', CPrim CUint8),
    (''galE1RfStats'', qmiLocMePerGnssRfStructType_v02),
    (''gpsL2cRfStats_valid'', CPrim CUint8),
    (''gpsL2cRfStats'', qmiLocMePerGnssRfStructType_v02),
    (''gloG2RfStats_valid'', CPrim CUint8),
    (''gloG2RfStats'', qmiLocMePerGnssRfStructType_v02),
    (''bdsB2RfStats_valid'', CPrim CUint8),
    (''bdsB2RfStats'', qmiLocMePerGnssRfStructType_v02),
    (''band5PgaGainDb_valid'', CPrim CUint8),
    (''band5PgaGainDb'', CPrim CInt32),
    (''gpsL5RfStats_valid'', CPrim CUint8),
    (''gpsL5RfStats'', qmiLocMePerGnssRfStructType_v02),
    (''galE5ARfStats_valid'', CPrim CUint8),
    (''galE5ARfStats'', qmiLocMePerGnssRfStructType_v02)]"

definition qmiLocRequestProtocolEnumT_v02 :: cty where
  "qmiLocRequestProtocolEnumT_v02 = CEnum [
    (''QMILOCREQUESTPROTOCOLENUMT_MIN_ENUM_VAL_V02'', -2147483647),
    (''eQMI_LOC_CTRL_PLANE_V02'', 0),
    (''eQMI_LOC_SUPL_V02'', 1),
    (''eQMI_LOC_IMS_V02'', 2),
    (''eQMI_LOC_SIM_V02'', 3),
    (''eQMI_LOC_MDT_V02'', 4),
    (''eQMI_LOC_TLOC_V02'', 5),
    (''eQMI_LOC_OTHER_V02'', 6),
    (''eQMI_LOC_RLOC_V02'', 7),
    (''eQMI_LOC_V2X_V02'', 8),
    (''eQMI_LOC_R1_V02'', 9),
    (''eQMI_LOC_R2_V02'', 10),
    (''eQMI_LOC_R3_V02'', 11),
    (''eQMI_LOC_NTN_V02'', 12),
    (''eQMI_LOC_ECALL_V02'', 13),
    (''QMILOCREQUESTPROTOCOLENUMT_MAX_ENUM_VAL_V02'', 2147483647)]"

end
