(* ===== verification/LocTypes4.thy ===== *)
theory LocTypes4
  imports LocTypes3
begin

text \<open>
  C types of \<open>loc_api/loc_api_v02/location_service_v02.h\<close>, in the order of the header (part 4 of
  4): masks are the integer types they name, enumerations list their enumerators, structs their
  members. Message structs end in \<open>MsgT_v02\<close>.
\<close>

definition qmiLocRequestorEnumT_v02 :: cty where
  "qmiLocRequestorEnumT_v02 = CEnum [
    (''QMILOCREQUESTORENUMT_MIN_ENUM_VAL_V02'', -2147483647),
    (''eQMI_LOC_REQUESTOR_CARRIER_V02'', 0),
    (''eQMI_LOC_REQUESTOR_OEM_V02'', 1),
    (''eQMI_LOC_REQUESTOR_MODEM_CHIPSET_VENDOR_V02'', 2),
    (''eQMI_LOC_REQUESTOR_GNSS_CHIPSET_VENDOR_V02'', 3),
    (''eQMI_LOC_REQUESTOR_OTHER_CHIPSET_VENDOR_V02'', 4),
    (''eQMI_LOC_REQUESTOR_AUTOMOBILE_CLIENT_V02'', 5),
    (''eQMI_LOC_REQUESTOR_OTHER_V02'', 6),
    (''QMILOCREQUESTORENUMT_MAX_ENUM_VAL_V02'', 2147483647)]"

definition qmiLocRequestResponseTypeEnumT_v02 :: cty where
  "qmiLocRequestResponseTypeEnumT_v02 = CEnum [
    (''QMILOCREQUESTRESPONSETYPEENUMT_MIN_ENUM_VAL_V02'', -2147483647),
    (''eQMI_LOC_REJECTED_V02'', 0),
    (''eQMI_LOC_ACCEPTED_NO_LOCATION_PROVIDED_V02'', 1),
    (''eQMI_LOC_ACCEPTED_LOCATION_PROVIDED_V02'', 2),
    (''QMILOCREQUESTRESPONSETYPEENUMT_MAX_ENUM_VAL_V02'', 2147483647)]"

definition qmiLocResponseLocProtocolMaskT_v02 :: cty where "qmiLocResponseLocProtocolMaskT_v02 = CPrim CUint32"

definition qmiLocLocationRequestNotificationIndMsgT_v02 :: cty where
  "qmiLocLocationRequestNotificationIndMsgT_v02 = CStruct [
    (''protocolStack'', qmiLocRequestProtocolEnumT_v02),
    (''requestor'', qmiLocRequestorEnumT_v02),
    (''requestorId'', CArr (CPrim CChar) (QMI_LOC_MAX_REQUESTOR_ID_STRING_LENGTH_V02 + 1)),
    (''responseType'', qmiLocRequestResponseTypeEnumT_v02),
    (''responseProtocol'', qmiLocResponseLocProtocolMaskT_v02),
    (''inEmergencyMode'', CPrim CUint8),
    (''isCachedLocation'', CPrim CUint8),
    (''clientStrId_valid'', CPrim CUint8),
    (''clientStrId'', CArr (CPrim CChar) (QMI_LOC_MAX_CLIENT_ID_STRING_LENGTH_V02 + 1))]"

definition qmiLocPlatformPowerStateEnumT_v02 :: cty where
  "qmiLocPlatformPowerStateEnumT_v02 = CEnum [
    (''QMILOCPLATFORMPOWERSTATEENUMT_MIN_ENUM_VAL_V02'', -2147483647),
    (''eQMI_LOC_POWER_STATE_UNKNOWN_V02'', 0),
    (''eQMI_LOC_POWER_STATE_SUSPENDED_V02'', 1),
    (''eQMI_LOC_POWER_STATE_RESUME_V02'', 2),
    (''eQMI_LOC_POWER_STATE_SHUTDOWN_V02'', 3),
    (''eQMI_LOC_POWER_STATE_DEEP_SLEEP_ENTRY_V02'', 4),
    (''eQMI_LOC_POWER_STATE_DEEP_SLEEP_EXIT_V02'', 5),
    (''QMILOCPLATFORMPOWERSTATEENUMT_MAX_ENUM_VAL_V02'', 2147483647)]"

definition qmiLocInjectPlatformPowerStateReqMsgT_v02 :: cty where
  "qmiLocInjectPlatformPowerStateReqMsgT_v02 = CStruct [
    (''powerState'', qmiLocPlatformPowerStateEnumT_v02)]"

definition qmiLocInjectPlatformPowerStateIndMsgT_v02 :: cty where
  "qmiLocInjectPlatformPowerStateIndMsgT_v02 = CStruct [
    (''status'', qmiLocStatusEnumT_v02)]"

definition qmiLocSetRobustLocationReqMsgT_v02 :: cty where
  "qmiLocSetRobustLocationReqMsgT_v02 = CStruct [
    (''enable'', CPrim CUint8),
    (''enableForE911_valid'', CPrim CUint8),
    (''enableForE911'', CPrim CUint8)]"

definition qmiLocRobustLocationVersionT_v02 :: cty where
  "qmiLocRobustLocationVersionT_v02 = CStruct [
    (''major'', CPrim CUint8),
    (''minor'', CPrim CUint16)]"

definition qmiLocGetRobustLocationConfigIndMsgT_v02 :: cty where
  "qmiLocGetRobustLocationConfigIndMsgT_v02 = CStruct [
    (''status'', qmiLocStatusEnumT_v02),
    (''isEnabled_valid'', CPrim CUint8),
    (''isEnabled'', CPrim CUint8),
    (''isEnabledForE911_valid'', CPrim CUint8),
    (''isEnabledForE911'', CPrim CUint8),
    (''robustLocationVersion_valid'', CPrim CUint8),
    (''robustLocationVersion'', qmiLocRobustLocationVersionT_v02)]"

definition qmiLocEnvAidingSvCorrectionValidMaskT_v02 :: cty where "qmiLocEnvAidingSvCorrectionValidMaskT_v02 = CPrim CUint64"

definition qmiLocEnvAidingReflectingPlaneStructT_v02 :: cty where
  "qmiLocEnvAidingReflectingPlaneStructT_v02 = CStruct [
    (''latitudeDegrees'', CPrim CDouble),
    (''longitudeDegrees'', CPrim CDouble),
    (''altitudeMeters'', CPrim CDouble),
    (''azimuthDegrees'', CPrim CDouble)]"

definition qmiLocEnvAidingSVCorrectionStructT_v02 :: cty where
  "qmiLocEnvAidingSVCorrectionStructT_v02 = CStruct [
    (''svCorrectionFlags'', qmiLocEnvAidingSvCorrectionValidMaskT_v02),
    (''constellation'', qmiLocSvSystemEnumT_v02),
    (''svid'', CPrim CUint16),
    (''carrierFrequencyHz'', CPrim CFloat),
    (''probabilitySvIsLineofSight'', CPrim CFloat),
    (''excessPathLengthMeters'', CPrim CFloat),
    (''excessPathLengthUncMeters'', CPrim CFloat),
    (''reflectingPlane'', qmiLocEnvAidingReflectingPlaneStructT_v02)]"

definition qmiLocEventInjectEnvAidingReqMsgT_v02 :: cty where
  "qmiLocEventInjectEnvAidingReqMsgT_v02 = CStruct [
    (''seqNum'', CPrim CUint8),
    (''maxMessageNum'', CPrim CUint8),
    (''envBearingValidity_valid'', CPrim CUint8),
    (''envBearingValidity'', CPrim CUint8),
    (''envBearingDegrees_valid'', CPrim CUint8),
    (''envBearingDegrees'', CPrim CFloat),
    (''envBearingUncDegrees_valid'', CPrim CUint8),
    (''envBearingUncDegrees'', CPrim CFloat),
    (''latitudeDegrees_valid'', CPrim CUint8),
    (''latitudeDegrees'', CPrim CDouble),
    (''longitudeDegrees_valid'', CPrim CUint8),
    (''longitudeDegrees'', CPrim CDouble),
    (''horizontalPositionUncMeters_valid'', CPrim CUint8),
    (''horizontalPositionUncMeters'', CPrim CDouble),
    (''altitudeMeters_valid'', CPrim CUint8),
    (''altitudeMeters'', CPrim CDouble),
    (''altitudeUncMeters_valid'', CPrim CUint8),
    (''altitudeUncMeters'', CPrim CDouble),
    (''toaGpsNanosecondsOfWeek_valid'', CPrim CUint8),
    (''toaGpsNanosecondsOfWeek'', CPrim CUint64),
    (''svCorrection_valid'', CPrim CUint8),
    (''svCorrection_len'', CPrim CUint32),
    (''svCorrection'', CArr qmiLocEnvAidingSVCorrectionStructT_v02 (QMI_LOC_ENV_AIDING_CORRECTION_MAX_SV_USED_V02))]"

definition qmiLocSetMinGpsWeekNumberReqMsgT_v02 :: cty where
  "qmiLocSetMinGpsWeekNumberReqMsgT_v02 = CStruct [
    (''minGpsWeekNumber'', CPrim CUint16)]"

definition qmiLocGetMinGpsWeekNumberIndMsgT_v02 :: cty where
  "qmiLocGetMinGpsWeekNumberIndMsgT_v02 = CStruct [
    (''status'', qmiLocStatusEnumT_v02),
    (''minGpsWeekNumber_valid'', CPrim CUint8),
    (''minGpsWeekNumber'', CPrim CUint16)]"

definition qmiLocSapInsParamsIndMsgT_v02 :: cty where
  "qmiLocSapInsParamsIndMsgT_v02 = CStruct [
    (''status'', CPrim CUint8),
    (''fixStatus'', CPrim CUint8),
    (''systemTime'', qmiLocGnssTimeStructT_v02),
    (''state_valid'', CPrim CUint8),
    (''state'', CArr (CPrim CDouble) (QMI_LOC_FILTER_ELEMENT_SIZE_SEVENTEEN_V02)),
    (''var_valid'', CPrim CUint8),
    (''var'', CArr (CPrim CDouble) (QMI_LOC_FILTER_ELEMENT_SIZE_SEVENTEEN_V02)),
    (''rel1_valid'', CPrim CUint8),
    (''rel1'', CPrim CUint8),
    (''rel2_valid'', CPrim CUint8),
    (''rel2'', CPrim CUint8),
    (''residual1_valid'', CPrim CUint8),
    (''residual1'', CPrim CDouble),
    (''obs1_valid'', CPrim CUint8),
    (''obs1'', CArr (CPrim CDouble) (QMI_LOC_FILTER_ELEMENT_SIZE_SIX_V02)),
    (''var1_valid'', CPrim CUint8),
    (''var1'', CPrim CDouble),
    (''result1_valid'', CPrim CUint8),
    (''result1'', CPrim CUint8),
    (''residual2_valid'', CPrim CUint8),
    (''residual2'', CPrim CDouble),
    (''obs2_valid'', CPrim CUint8),
    (''obs2'', CArr (CPrim CDouble) (QMI_LOC_FILTER_ELEMENT_SIZE_SIX_V02)),
    (''var2_valid'', CPrim CUint8),
    (''var2'', CPrim CDouble),
    (''result2_valid'', CPrim CUint8),
    (''result2'', CPrim CUint8),
    (''residual3_valid'', CPrim CUint8),
    (''residual3'', CArr (CPrim CDouble) (QMI_LOC_FILTER_ELEMENT_SIZE_THREE_V02)),
    (''var3_valid'', CPrim CUint8),
    (''var3'', CArr (CPrim CDouble) (QMI_LOC_FILTER_ELEMENT_SIZE_THREE_V02)),
    (''result3_valid'', CPrim CUint8),
    (''result3'', CArr (CPrim CUint8) (QMI_LOC_FILTER_ELEMENT_SIZE_THREE_V02)),
    (''residual4_valid'', CPrim CUint8),
    (''residual4'', CArr (CPrim CDouble) (QMI_LOC_FILTER_ELEMENT_SIZE_THREE_V02)),
    (''var4_valid'', CPrim CUint8),
    (''var4'', CArr (CPrim CDouble) (QMI_LOC_FILTER_ELEMENT_SIZE_THREE_V02)),
    (''result4_valid'', CPrim CUint8),
    (''result4'', CArr (CPrim CUint8) (QMI_LOC_FILTER_ELEMENT_SIZE_THREE_V02)),
    (''acc_valid'', CPrim CUint8),
    (''acc'', CArr (CPrim CDouble) (QMI_LOC_FILTER_ELEMENT_SIZE_THREE_V02)),
    (''quat_valid'', CPrim CUint8),
    (''quat'', CArr (CPrim CDouble) (QMI_LOC_FILTER_ELEMENT_SIZE_FOUR_V02)),
    (''biasM1_valid'', CPrim CUint8),
    (''biasM1'', CArr (CPrim CFloat) (QMI_LOC_IPM_ELEMENT_SIZE_THREE_V02)),
    (''biasV1_valid'', CPrim CUint8),
    (''biasV1'', CArr (CPrim CFloat) (QMI_LOC_IPM_ELEMENT_SIZE_THREE_V02)),
    (''biasM2_valid'', CPrim CUint8),
    (''biasM2'', CArr (CPrim CFloat) (QMI_LOC_IPM_ELEMENT_SIZE_THREE_V02)),
    (''biasV2_valid'', CPrim CUint8),
    (''biasV2'', CArr (CPrim CFloat) (QMI_LOC_IPM_ELEMENT_SIZE_THREE_V02)),
    (''rMat1_valid'', CPrim CUint8),
    (''rMat1'', CArr (CPrim CDouble) (QMI_LOC_IPM_ELEMENT_SIZE_NINE_V02)),
    (''rMat1Count_valid'', CPrim CUint8),
    (''rMat1Count'', CPrim CUint32),
    (''rMat2_valid'', CPrim CUint8),
    (''rMat2'', CArr (CPrim CDouble) (QMI_LOC_IPM_ELEMENT_SIZE_NINE_V02)),
    (''det1Reset_valid'', CPrim CUint8),
    (''det1Reset'', CPrim CUint8),
    (''det2Status_valid'', CPrim CUint8),
    (''det2Status'', CPrim CUint8),
    (''det2Position_valid'', CPrim CUint8),
    (''det2Position'', CArr (CPrim CDouble) (QMI_LOC_INS_ELEMENT_SIZE_THREE_V02)),
    (''det2PositionUnc_valid'', CPrim CUint8),
    (''det2PositionUnc'', CArr (CPrim CFloat) (QMI_LOC_INS_ELEMENT_SIZE_TWO_V02)),
    (''det3Status_valid'', CPrim CUint8),
    (''det3Status'', CPrim CUint8),
    (''det3Variance1_valid'', CPrim CUint8),
    (''det3Variance1'', CArr (CPrim CFloat) (QMI_LOC_INS_ELEMENT_SIZE_THREE_V02)),
    (''det3Variance2_valid'', CPrim CUint8),
    (''det3Variance2'', CArr (CPrim CFloat) (QMI_LOC_INS_ELEMENT_SIZE_THREE_V02)),
    (''det4Status_valid'', CPrim CUint8),
    (''det4Status'', CPrim CUint8),
    (''det4Position_valid'', CPrim CUint8),
    (''det4Position'', CArr (CPrim CDouble) (QMI_LOC_INS_ELEMENT_SIZE_THREE_V02)),
    (''det5Status_valid'', CPrim CUint8),
    (''det5Status'', CPrim CUint8),
    (''det6Status_valid'', CPrim CUint8),
    (''det6Status'', CPrim CFloat),
    (''gnssSvId_valid'', CPrim CUint8),
    (''gnssSvId_len'', CPrim CUint32),
    (''gnssSvId'', CArr (CPrim CUint16) (QMI_LOC_EXPANDED_SV_INFO_LIST_MAX_SIZE_V02)),
    (''measType_valid'', CPrim CUint8),
    (''measType_len'', CPrim CUint32),
    (''measType'', CArr qmiLocGnssSignalTypeMaskT_v02 (QMI_LOC_EXPANDED_SV_INFO_LIST_MAX_SIZE_V02)),
    (''measVar1_valid'', CPrim CUint8),
    (''measVar1_len'', CPrim CUint32),
    (''measVar1'', CArr (CPrim CFloat) (QMI_LOC_EXPANDED_SV_INFO_LIST_MAX_SIZE_V02)),
    (''measUse1_valid'', CPrim CUint8),
    (''measUse1_len'', CPrim CUint32),
    (''measUse1'', CArr (CPrim CUint32) (QMI_LOC_EXPANDED_SV_INFO_LIST_MAX_SIZE_V02)),
    (''measVar2_valid'', CPrim CUint8),
    (''measVar2_len'', CPrim CUint32),
    (''measVar2'', CArr (CPrim CFloat) (QMI_LOC_EXPANDED_SV_INFO_LIST_MAX_SIZE_V02)),
    (''measUse2_valid'', CPrim CUint8),
    (''measUse2_len'', CPrim CUint32),
    (''measUse2'', CArr (CPrim CUint32) (QMI_LOC_EXPANDED_SV_INFO_LIST_MAX_SIZE_V02))]"

definition qmiLocEventQueryXtraInfoReqIndMsgT_v02 :: cty where
  "qmiLocEventQueryXtraInfoReqIndMsgT_v02 = CStruct [
    (''usableConstellationConfig_valid'', CPrim CUint8),
    (''usableConstellationConfig'', qmiLocGNSSConstellEnumT_v02),
    (''forcedEnableConfig_valid'', CPrim CUint8),
    (''forcedEnableConfig'', qmiLocGNSSConstellEnumT_v02),
    (''multibandEnabled_valid'', CPrim CUint8),
    (''multibandEnabled'', CPrim CUint8),
    (''xtraFileVersion_valid'', CPrim CUint8),
    (''xtraFileVersion'', qmiLocVersionStructT_v02),
    (''mccPrimarySimSlot_valid'', CPrim CUint8),
    (''mccPrimarySimSlot'', CPrim CUint16),
    (''mccSecondarySimSlot_valid'', CPrim CUint8),
    (''mccSecondarySimSlot'', CPrim CUint16),
    (''mccTertiarySimSlot_valid'', CPrim CUint8),
    (''mccTertiarySimSlot'', CPrim CUint16),
    (''xtraFileGenerationTime_valid'', CPrim CUint8),
    (''xtraFileGenerationTime'', CPrim CUint64),
    (''xtraRemValidDuration_valid'', CPrim CUint8),
    (''xtraRemValidDuration'', CPrim CUint32),
    (''preciseXtraStatus_valid'', CPrim CUint8),
    (''preciseXtraStatus'', CPrim CUint8)]"

definition qmiLocParameterTypeEnumT_v02 :: cty where
  "qmiLocParameterTypeEnumT_v02 = CEnum [
    (''QMILOCPARAMETERTYPEENUMT_MIN_ENUM_VAL_V02'', -2147483647),
    (''eQMI_LOC_PARAMETER_TYPE_RESERVED_V02'', 0),
    (''eQMI_LOC_PARAMETER_TYPE_MINIMUM_SV_ELEVATION_V02'', 1),
    (''eQMI_LOC_PARAMETER_TYPE_CONSTELLATION_DISABLE_CONFIG_V02'', 2),
    (''QMILOCPARAMETERTYPEENUMT_MAX_ENUM_VAL_V02'', 2147483647)]"

definition qmiLocSetParameterReqMsgT_v02 :: cty where
  "qmiLocSetParameterReqMsgT_v02 = CStruct [
    (''paramType'', qmiLocParameterTypeEnumT_v02),
    (''minSvElevation_valid'', CPrim CUint8),
    (''minSvElevation'', CPrim CUint8),
    (''constellationConfig_valid'', CPrim CUint8),
    (''constellationConfig'', qmiLocGNSSConstellEnumT_v02)]"

definition qmiLocGetParameterReqMsgT_v02 :: cty where
  "qmiLocGetParameterReqMsgT_v02 = CStruct [
    (''paramType'', qmiLocParameterTypeEnumT_v02)]"

definition qmiLocGetParameterIndMsgT_v02 :: cty where
  "qmiLocGetParameterIndMsgT_v02 = CStruct [
    (''status'', qmiLocStatusEnumT_v02),
    (''paramType'', qmiLocParameterTypeEnumT_v02),
    (''minSvElevation_valid'', CPrim CUint8),
    (''minSvElevation'', CPrim CUint8),
    (''constellationConfig_valid'', CPrim CUint8),
    (''constellationConfig'', qmiLocGNSSConstellEnumT_v02)]"

definition qmiLocStatsReportingConfigEnumT_v02 :: cty where
  "qmiLocStatsReportingConfigEnumT_v02 = CEnum [
    (''QMILOCSTATSREPORTINGCONFIGENUMT_MIN_ENUM_VAL_V02'', -2147483647),
    (''eQMI_LOC_REPORT_CURRENT_STATUS_V02'', 0),
    (''eQMI_LOC_REPORTING_INTERVAL_10_SEC_V02'', 1),
    (''eQMI_LOC_REPORTING_INTERVAL_20_SEC_V02'', 2),
    (''eQMI_LOC_REPORTING_INTERVAL_30_SEC_V02'', 3),
    (''eQMI_LOC_REPORTING_INTERVAL_60_SEC_V02'', 4),
    (''eQMI_LOC_REPORTING_INTERVAL_SESSION_V02'', 5),
    (''QMILOCSTATSREPORTINGCONFIGENUMT_MAX_ENUM_VAL_V02'', 2147483647)]"

definition qmiLocSetStatisticsConfigReqMsgT_v02 :: cty where
  "qmiLocSetStatisticsConfigReqMsgT_v02 = CStruct [
    (''enable'', CPrim CUint8),
    (''interval_valid'', CPrim CUint8),
    (''interval'', qmiLocStatsReportingConfigEnumT_v02)]"

definition qmiLocGetStatisticsConfigIndMsgT_v02 :: cty where
  "qmiLocGetStatisticsConfigIndMsgT_v02 = CStruct [
    (''status'', qmiLocStatusEnumT_v02),
    (''enabled_valid'', CPrim CUint8),
    (''enabled'', CPrim CUint8),
    (''interval_valid'', CPrim CUint8),
    (''interval'', qmiLocStatsReportingConfigEnumT_v02)]"

definition qmiLocGnssStatisticsReportIndMsgT_v02 :: cty where
  "qmiLocGnssStatisticsReportIndMsgT_v02 = CStruct [
    (''absValidAge_valid'', CPrim CUint8),
    (''absValidAge'', CPrim CUint32),
    (''averagePowerConsumed_valid'', CPrim CUint8),
    (''averagePowerConsumed'', CPrim CFloat),
    (''powerConsumptionDuration_valid'', CPrim CUint8),
    (''powerConsumptionDuration'', CPrim CUint32),
    (''latitude_valid'', CPrim CUint8),
    (''latitude'', CPrim CDouble),
    (''longitude_valid'', CPrim CUint8),
    (''longitude'', CPrim CDouble),
    (''altitudeWrtEllipsoid_valid'', CPrim CUint8),
    (''altitudeWrtEllipsoid'', CPrim CFloat),
    (''altitudeWrtMeanSeaLevel_valid'', CPrim CUint8),
    (''altitudeWrtMeanSeaLevel'', CPrim CFloat),
    (''horUncCircular_valid'', CPrim CUint8),
    (''horUncCircular'', CPrim CFloat),
    (''vertUnc_valid'', CPrim CUint8),
    (''vertUnc'', CPrim CFloat),
    (''horUncEllipseSemiMinor_valid'', CPrim CUint8),
    (''horUncEllipseSemiMinor'', CPrim CFloat),
    (''horUncEllipseSemiMajor_valid'', CPrim CUint8),
    (''horUncEllipseSemiMajor'', CPrim CFloat),
    (''horCircularConfidence_valid'', CPrim CUint8),
    (''horCircularConfidence'', CPrim CUint8),
    (''horReliability_valid'', CPrim CUint8),
    (''horReliability'', qmiLocReliabilityEnumT_v02),
    (''horSpeed_valid'', CPrim CUint8),
    (''horSpeed'', CPrim CFloat),
    (''horSpeedUnc_valid'', CPrim CUint8),
    (''horSpeedUnc'', CPrim CFloat),
    (''vertConfidence_valid'', CPrim CUint8),
    (''vertConfidence'', CPrim CUint8),
    (''vertReliability_valid'', CPrim CUint8),
    (''vertReliability'', qmiLocReliabilityEnumT_v02),
    (''vertSpeed_valid'', CPrim CUint8),
    (''vertSpeed'', CPrim CFloat),
    (''vertSpeedUnc_valid'', CPrim CUint8),
    (''vertSpeedUnc'', CPrim CFloat),
    (''gpsWeek_valid'', CPrim CUint8),
    (''gpsWeek'', CPrim CUint16),
    (''gpsMsec_valid'', CPrim CUint8),
    (''gpsMsec'', CPrim CUint32),
    (''clkTimeBias_valid'', CPrim CUint8),
    (''clkTimeBias'', CPrim CFloat),
    (''clkTimeBiasUnc_valid'', CPrim CUint8),
    (''clkTimeBiasUnc'', CPrim CFloat),
    (''pdrEngagementRate_valid'', CPrim CUint8),
    (''pdrEngagementRate'', CPrim CUint8)]"

definition qmiLocGnssPdrModeEnumT_v02 :: cty where
  "qmiLocGnssPdrModeEnumT_v02 = CEnum [
    (''QMILOCGNSSPDRMODEENUMT_MIN_ENUM_VAL_V02'', -2147483647),
    (''eQMI_LOC_GNSS_PDR_CASUAL_MODE_V02'', 0),
    (''eQMI_LOC_GNSS_PDR_FITNESS_MODE_V02'', 1),
    (''QMILOCGNSSPDRMODEENUMT_MAX_ENUM_VAL_V02'', 2147483647)]"

definition qmiLocSetGnssPdrModeReqMsgT_v02 :: cty where
  "qmiLocSetGnssPdrModeReqMsgT_v02 = CStruct [
    (''mode_valid'', CPrim CUint8),
    (''mode'', qmiLocGnssPdrModeEnumT_v02)]"

definition qmiLocGetGnssPdrModeIndMsgT_v02 :: cty where
  "qmiLocGetGnssPdrModeIndMsgT_v02 = CStruct [
    (''status'', qmiLocStatusEnumT_v02),
    (''mode_valid'', CPrim CUint8),
    (''mode'', qmiLocGnssPdrModeEnumT_v02)]"

definition qmiLocGetMagCalStatePdrIndMsgT_v02 :: cty where
  "qmiLocGetMagCalStatePdrIndMsgT_v02 = CStruct [
    (''status'', qmiLocStatusEnumT_v02),
    (''isCalibrated_valid'', CPrim CUint8),
    (''isCalibrated'', CPrim CUint8)]"

definition qmiLocSetMultibandConfigReqMsgT_v02 :: cty where
  "qmiLocSetMultibandConfigReqMsgT_v02 = CStruct [
    (''secondaryGnssConfig_valid'', CPrim CUint8),
    (''secondaryGnssConfig'', qmiLocGNSSConstellEnumT_v02)]"

definition qmiLocGetMultibandConfigIndMsgT_v02 :: cty where
  "qmiLocGetMultibandConfigIndMsgT_v02 = CStruct [
    (''status'', qmiLocStatusEnumT_v02),
    (''secondaryGnssConfig_valid'', CPrim CUint8),
    (''secondaryGnssConfig'', qmiLocGNSSConstellEnumT_v02)]"

definition qmiLocLatencyInfoTypeEnumT_v02 :: cty where
  "qmiLocLatencyInfoTypeEnumT_v02 = CEnum [
    (''QMILOCLATENCYINFOTYPEENUMT_MIN_ENUM_VAL_V02'', -2147483647),
    (''eQMI_LOC_LATENCY_INFO_TYPE_INVALID_V02'', 0),
    (''eQMI_LOC_LATENCY_INFO_TYPE_MEASUREMENT_V02'', 1),
    (''QMILOCLATENCYINFOTYPEENUMT_MAX_ENUM_VAL_V02'', 2147483647)]"

definition qmiLocLatencyInformationIndMsgT_v02 :: cty where
  "qmiLocLatencyInformationIndMsgT_v02 = CStruct [
    (''latencyInfo'', qmiLocLatencyInfoTypeEnumT_v02),
    (''sysTickAtChkPt1_valid'', CPrim CUint8),
    (''sysTickAtChkPt1'', CPrim CUint64),
    (''sysTickAtChkPt2_valid'', CPrim CUint8),
    (''sysTickAtChkPt2'', CPrim CUint64),
    (''sysTickAtChkPt3_valid'', CPrim CUint8),
    (''sysTickAtChkPt3'', CPrim CUint64),
    (''sysTickAtChkPt4_valid'', CPrim CUint8),
    (''sysTickAtChkPt4'', CPrim CUint64),
    (''sysTickAtChkPt5_valid'', CPrim CUint8),
    (''sysTickAtChkPt5'', CPrim CUint64),
    (''sysTickAtChkPt6_valid'', CPrim CUint8),
    (''sysTickAtChkPt6'', CPrim CUint64),
    (''sysTickAtChkPt7_valid'', CPrim CUint8),
    (''sysTickAtChkPt7'', CPrim CUint64),
    (''sysTickAtChkPt8_valid'', CPrim CUint8),
    (''sysTickAtChkPt8'', CPrim CUint64),
    (''sysTickAtChkPt9_valid'', CPrim CUint8),
    (''sysTickAtChkPt9'', CPrim CUint64),
    (''sysTickAtChkPt10_valid'', CPrim CUint8),
    (''sysTickAtChkPt10'', CPrim CUint64),
    (''fCountOfMeasBlk_valid'', CPrim CUint8),
    (''fCountOfMeasBlk'', CPrim CUint32)]"

definition qmiLocInjectLocationCivicAddressReqMsgT_v02 :: cty where
  "qmiLocInjectLocationCivicAddressReqMsgT_v02 = CStruct [
    (''latitude_valid'', CPrim CUint8),
    (''latitude'', CPrim CDouble),
    (''longitude_valid'', CPrim CUint8),
    (''longitude'', CPrim CDouble),
    (''horUncCircular_valid'', CPrim CUint8),
    (''horUncCircular'', CPrim CFloat),
    (''horConfidence_valid'', CPrim CUint8),
    (''horConfidence'', CPrim CUint8),
    (''altitudeWrtEllipsoid_valid'', CPrim CUint8),
    (''altitudeWrtEllipsoid'', CPrim CFloat),
    (''altitudeWrtMeanSeaLevel_valid'', CPrim CUint8),
    (''altitudeWrtMeanSeaLevel'', CPrim CFloat),
    (''vertUnc_valid'', CPrim CUint8),
    (''vertUnc'', CPrim CFloat),
    (''vertConfidence_valid'', CPrim CUint8),
    (''vertConfidence'', CPrim CUint8),
    (''source_valid'', CPrim CUint8),
    (''source'', qmiLocAltSrcEnumT_v02),
    (''timestampUtc_valid'', CPrim CUint8),
    (''timestampUtc'', CPrim CUint64),
    (''timestampAge_valid'', CPrim CUint8),
    (''timestampAge'', CPrim CInt32),
    (''positionSrc_valid'', CPrim CUint8),
    (''positionSrc'', qmiLocPositionSrcEnumT_v02),
    (''country_valid'', CPrim CUint8),
    (''country'', CArr (CPrim CChar) (QMI_LOC_MAX_COUNTRY_STR_LENGTH_V02 + 1)),
    (''subdivA1_valid'', CPrim CUint8),
    (''subdivA1'', CArr (CPrim CChar) (QMI_LOC_MAX_SUBDIV_A1_STR_LENGTH_V02 + 1)),
    (''subdivA2_valid'', CPrim CUint8),
    (''subdivA2'', CArr (CPrim CChar) (QMI_LOC_MAX_SUBDIV_A2_STR_LENGTH_V02 + 1)),
    (''city_valid'', CPrim CUint8),
    (''city'', CArr (CPrim CChar) (QMI_LOC_MAX_CITY_STR_LENGTH_V02 + 1)),
    (''cityDiv_valid'', CPrim CUint8),
    (''cityDiv'', CArr (CPrim CChar) (QMI_LOC_MAX_CITYDIV_STR_LENGTH_V02 + 1)),
    (''neighborhood_valid'', CPrim CUint8),
    (''neighborhood'', CArr (CPrim CChar) (QMI_LOC_MAX_NEIGHBORHOOD_STR_LENGTH_V02 + 1)),
    (''street_valid'', CPrim CUint8),
    (''street'', CArr (CPrim CChar) (QMI_LOC_MAX_STREET_STR_LENGTH_V02 + 1)),
    (''leadingStreetDirection_valid'', CPrim CUint8),
    (''leadingStreetDirection'', CArr (CPrim CChar) (QMI_LOC_MAX_LEADING_STREET_DIR_STR_LENGTH_V02 + 1)),
    (''trailingStreetSuffix_valid'', CPrim CUint8),
    (''trailingStreetSuffix'', CArr (CPrim CChar) (QMI_LOC_MAX_TRAILING_STREET_SUFFIX_STR_LENGTH_V02 + 1)),
    (''streetSuffix_valid'', CPrim CUint8),
    (''streetSuffix'', CArr (CPrim CChar) (QMI_LOC_MAX_STREET_SUFFIX_STR_LENGTH_V02 + 1)),
    (''houseNumber_valid'', CPrim CUint8),
    (''houseNumber'', CArr (CPrim CChar) (QMI_LOC_MAX_HOUSE_NUMBER_STR_LENGTH_V02 + 1)),
    (''houserNumberSuffix_valid'', CPrim CUint8),
    (''houserNumberSuffix'', CArr (CPrim CChar) (QMI_LOC_MAX_HOUSE_NUMBER_SUFFIX_STR_LENGTH_V02 + 1)),
    (''landmark_valid'', CPrim CUint8),
    (''landmark'', CArr (CPrim CChar) (QMI_LOC_MAX_LANDMARK_STR_LENGTH_V02 + 1)),
    (''additionalLocInfo_valid'', CPrim CUint8),
    (''additionalLocInfo'', CArr (CPrim CChar) (QMI_LOC_MAX_ADDITIONAL_LOC_INFO_STR_LENGTH_V02 + 1)),
    (''floor_valid'', CPrim CUint8),
    (''floor'', CArr (CPrim CChar) (QMI_LOC_MAX_FLOOR_STR_LENGTH_V02 + 1)),
    (''name_valid'', CPrim CUint8),
    (''name'', CArr (CPrim CChar) (QMI_LOC_MAX_NAME_STR_LENGTH_V02 + 1)),
    (''postalCode_valid'', CPrim CUint8),
    (''postalCode'', CArr (CPrim CChar) (QMI_LOC_MAX_POSTAL_CODE_STR_LENGTH_V02 + 1)),
    (''positioningMethod_valid'', CPrim CUint8),
    (''positioningMethod'', CArr (CPrim CChar) (QMI_LOC_MAX_POSITIONING_METHOD_STR_LENGTH_V02 + 1)),
    (''building_valid'', CPrim CUint8),
    (''building'', CArr (CPrim CChar) (QMI_LOC_MAX_BUILDING_STR_LENGTH_V02 + 1)),
    (''unit_valid'', CPrim CUint8),
    (''unit'', CArr (CPrim CChar) (QMI_LOC_MAX_UNIT_STR_LENGTH_V02 + 1)),
    (''room_valid'', CPrim CUint8),
    (''room'', CArr (CPrim CChar) (QMI_LOC_MAX_ROOM_STR_LENGTH_V02 + 1)),
    (''placeType_valid'', CPrim CUint8),
    (''placeType'', CArr (CPrim CChar) (QMI_LOC_MAX_PLACE_TYPE_STR_LENGTH_V02 + 1)),
    (''postalCommunityName_valid'', CPrim CUint8),
    (''postalCommunityName'', CArr (CPrim CChar) (QMI_LOC_MAX_POSTAL_COMM_TYPE_STR_LENGTH_V02 + 1)),
    (''poBox_valid'', CPrim CUint8),
    (''poBox'', CArr (CPrim CChar) (QMI_LOC_MAX_POST_OFFICE_BOX_STR_LENGTH_V02 + 1)),
    (''additionalCode_valid'', CPrim CUint8),
    (''additionalCode'', CArr (CPrim CChar) (QMI_LOC_MAX_ADDITIONAL_CODE_STR_LENGTH_V02 + 1)),
    (''seat_valid'', CPrim CUint8),
    (''seat'', CArr (CPrim CChar) (QMI_LOC_MAX_SEAT_STR_LENGTH_V02 + 1)),
    (''primaryRoad_valid'', CPrim CUint8),
    (''primaryRoad'', CArr (CPrim CChar) (QMI_LOC_MAX_PRIMARY_ROAD_STR_LENGTH_V02 + 1)),
    (''roadSection_valid'', CPrim CUint8),
    (''roadSection'', CArr (CPrim CChar) (QMI_LOC_MAX_ROAD_SECTION_STR_LENGTH_V02 + 1)),
    (''roadBranch_valid'', CPrim CUint8),
    (''roadBranch'', CArr (CPrim CChar) (QMI_LOC_MAX_ROAD_BRANCH_STR_LENGTH_V02 + 1)),
    (''roadSubBranch_valid'', CPrim CUint8),
    (''roadSubBranch'', CArr (CPrim CChar) (QMI_LOC_MAX_ROAD_SUB_BRANCH_STR_LENGTH_V02 + 1)),
    (''roadPreModifier_valid'', CPrim CUint8),
    (''roadPreModifier'', CArr (CPrim CChar) (QMI_LOC_MAX_ROAD_PRE_MODIFIER_STR_LENGTH_V02 + 1)),
    (''roadPostModifier_valid'', CPrim CUint8),
    (''roadPostModifier'', CArr (CPrim CChar) (QMI_LOC_MAX_ROAD_POST_MODIFIER_STR_LENGTH_V02 + 1))]"

definition qmiLocPlatformPowerStateChangedIndMsgT_v02 :: cty where
  "qmiLocPlatformPowerStateChangedIndMsgT_v02 = CStruct [
    (''powerStateOld_valid'', CPrim CUint8),
    (''powerStateOld'', qmiLocPlatformPowerStateEnumT_v02),
    (''powerStateNew_valid'', CPrim CUint8),
    (''powerStateNew'', qmiLocPlatformPowerStateEnumT_v02)]"

definition qmiLocInjectRawDataEnumT_v02 :: cty where
  "qmiLocInjectRawDataEnumT_v02 = CEnum [
    (''QMILOCINJECTRAWDATAENUMT_MIN_ENUM_VAL_V02'', -2147483647),
    (''eQMI_LOC_MAP_AIDING_DATA_V02'', 1),
    (''QMILOCINJECTRAWDATAENUMT_MAX_ENUM_VAL_V02'', 2147483647)]"

definition qmiLocInjectRawDataReqMsgT_v02 :: cty where
  "qmiLocInjectRawDataReqMsgT_v02 = CStruct [
    (''injectionType'', qmiLocInjectRawDataEnumT_v02),
    (''totalSize'', CPrim CUint32),
    (''totalParts'', CPrim CUint16),
    (''partNum'', CPrim CUint16),
    (''partData_len'', CPrim CUint32),
    (''partData'', CArr (CPrim CUint8) (QMI_LOC_MAX_RAW_DATA_PART_LEN_V02))]"

definition qmiLocInjectRawDataIndMsgT_v02 :: cty where
  "qmiLocInjectRawDataIndMsgT_v02 = CStruct [
    (''status'', qmiLocStatusEnumT_v02),
    (''partNum_valid'', CPrim CUint8),
    (''partNum'', CPrim CUint16)]"

definition qmiLocNavDataStructT_v02 :: cty where
  "qmiLocNavDataStructT_v02 = CStruct [
    (''gnssSvId'', CPrim CUint16),
    (''type'', CPrim CUint8),
    (''src'', CPrim CUint8),
    (''age'', CPrim CInt32)]"

definition qmiLocTimeStructT_v02 :: cty where
  "qmiLocTimeStructT_v02 = CStruct [
    (''hours'', CPrim CUint32),
    (''mins'', CPrim CUint32),
    (''secs'', CPrim CFloat)]"

definition qmiLocEngineResetReasonEnumT_v02 :: cty where
  "qmiLocEngineResetReasonEnumT_v02 = CEnum [
    (''QMILOCENGINERESETREASONENUMT_MIN_ENUM_VAL_V02'', -2147483647),
    (''eQMI_LOC_RESET_REASON_NONE_V02'', 0),
    (''eQMI_LOC_RESET_REASON_RESET_POSITION_ENGINE_V02'', 1),
    (''eQMI_LOC_RESET_REASON_RESET_BACKGROUND_SCAN_V02'', 2),
    (''eQMI_LOC_RESET_REASON_RESET_CLOCK_INCONSISTENCY_V02'', 3),
    (''eQMI_LOC_RESET_REASON_RESET_GPS_SUBFRAME_ALIGNMENT_V02'', 4),
    (''eQMI_LOC_RESET_REASON_RESET_DECODED_TIME_INCONSISTENCY_V02'', 5),
    (''eQMI_LOC_RESET_REASON_RESET_MEASUREMENT_INCONSISTENCY_V02'', 6),
    (''eQMI_LOC_RESET_REASON_RESET_INTMS_INCONSISTENCY_V02'', 7),
    (''eQMI_LOC_RESET_REASON_RESET_RF_FAILURE_V02'', 8),
    (''eQMI_LOC_RESET_REASON_RESET_SOFT_RESET_V02'', 9),
    (''eQMI_LOC_RESET_REASON_RESET_HARD_RESET_V02'', 10),
    (''eQMI_LOC_RESET_REASON_RESET_UTCOFFSET_INCONSISTENCY_V02'', 11),
    (''eQMI_LOC_RESET_REASON_RESET_GARAGEMODE_GPS_FASTSCAN_V02'', 12),
    (''eQMI_LOC_RESET_REASON_RESET_TICK_MISSING_V02'', 13),
    (''eQMI_LOC_RESET_REASON_RESET_ENGINE_STATE_MISMATCH_V02'', 14),
    (''eQMI_LOC_RESET_REASON_RESET_GARAGEMODE_GNSS_FASTSCAN_V02'', 15),
    (''eQMI_LOC_RESET_REASON_RESET_BDS_SUBFRAME_ALIGNMENT_V02'', 16),
    (''eQMI_LOC_RESET_REASON_RESET_WEEK_MISMATCH_V02'', 17),
    (''eQMI_LOC_RESET_REASON_RESET_ACQUISITION_ASST_REJECT_V02'', 18),
    (''eQMI_LOC_RESET_REASON_RESET_STRATEGY_STUCK_IN_FLUSH_V02'', 19),
    (''eQMI_LOC_RESET_REASON_RESET_SEVERE_BLANKING_OUTAGE_V02'', 20),
    (''eQMI_LOC_RESET_REASON_RESET_XO_OFFSET_ERROR_V02'', 21),
    (''eQMI_LOC_RESET_REASON_RESET_GAL_SIGNAL_OUTAGE_V02'', 22),
    (''eQMI_LOC_RESET_REASON_RESET_TICK_IN_DPO_V02'', 23),
    (''QMILOCENGINERESETREASONENUMT_MAX_ENUM_VAL_V02'', 2147483647)]"

definition qmiLocXoCalibrationStateEnumT_v02 :: cty where
  "qmiLocXoCalibrationStateEnumT_v02 = CEnum [
    (''QMILOCXOCALIBRATIONSTATEENUMT_MIN_ENUM_VAL_V02'', -2147483647),
    (''eQMI_LOC_FACTORY_CALIBRATION_FAILED_V02'', 0),
    (''eQMI_LOC_FACTORY_CALIBRATION_NOT_PERFORMED_V02'', 1),
    (''eQMI_LOC_FACTORY_CALIBRATION_INTERMEDIATE_V02'', 2),
    (''eQMI_LOC_FACTORY_CALIBRATION_DEFAULT_V02'', 3),
    (''eQMI_LOC_CALIBRATION_STATE_DEFAULT_WIDE_BINS_V02'', 4),
    (''eQMI_LOC_CALIBRATION_STATE_COARSE_V02'', 5),
    (''eQMI_LOC_CALIBRATION_STATE_IFC_V02'', 6),
    (''eQMI_LOC_CALIBRATION_STATE_FINE_V02'', 7),
    (''eQMI_LOC_CALIBRATION_STATE_FT1_V02'', 8),
    (''eQMI_LOC_CALIBRATION_STATE_OLD_RGS_V02'', 9),
    (''eQMI_LOC_CALIBRATION_STATE_INTERPOLATED_V02'', 10),
    (''eQMI_LOC_CALIBRATION_STATE_FT2_V02'', 11),
    (''eQMI_LOC_CALIBRATION_STATE_EXACT_V02'', 12),
    (''eQMI_LOC_CALIBRATION_STATE_RGS_V02'', 13),
    (''eQMI_LOC_CALIBRATION_STATE_RGS_RECENT_V02'', 14),
    (''eQMI_LOC_CALIBRATION_STATE_LAST_V02'', 15),
    (''QMILOCXOCALIBRATIONSTATEENUMT_MAX_ENUM_VAL_V02'', 2147483647)]"

definition qmiLocEngineDebugDataIndMsgT_v02 :: cty where
  "qmiLocEngineDebugDataIndMsgT_v02 = CStruct [
    (''week_valid'', CPrim CUint8),
    (''week'', CPrim CUint16),
    (''timeOfWeek_valid'', CPrim CUint8),
    (''timeOfWeek'', CPrim CUint32),
    (''sourceOfTime_valid'', CPrim CUint8),
    (''sourceOfTime'', qmiLocTimeSourceEnumT_v02),
    (''clkTimeUnc_valid'', CPrim CUint8),
    (''clkTimeUnc'', CPrim CFloat),
    (''clkFreqBias_valid'', CPrim CUint8),
    (''clkFreqBias'', CPrim CInt32),
    (''clkFreqUnc_valid'', CPrim CUint8),
    (''clkFreqUnc'', CPrim CInt32),
    (''xoState_valid'', CPrim CUint8),
    (''xoState'', qmiLocXoCalibrationStateEnumT_v02),
    (''rcvrErrRecovery_valid'', CPrim CUint8),
    (''rcvrErrRecovery'', qmiLocEngineResetReasonEnumT_v02),
    (''leapSecondInfo_valid'', CPrim CUint8),
    (''leapSecondInfo'', qmiLocLeapSecondInfoStructT_v02),
    (''jammedSignalsMask_valid'', CPrim CUint8),
    (''jammedSignalsMask'', qmiLocGnssSignalTypeMaskT_v02),
    (''jammerIndicatorList_valid'', CPrim CUint8),
    (''jammerIndicatorList_len'', CPrim CUint32),
    (''jammerIndicatorList'', CArr qmiLocJammerIndicatorExtStructT_v02 (QMI_LOC_MAX_GNSS_SIGNAL_TYPE_EXT_V02)),
    (''epiTime_valid'', CPrim CUint8),
    (''epiTime'', qmiLocTimeStructT_v02),
    (''epiLat_valid'', CPrim CUint8),
    (''epiLat'', CPrim CFloat),
    (''epiLon_valid'', CPrim CUint8),
    (''epiLon'', CPrim CFloat),
    (''epiAlt_valid'', CPrim CUint8),
    (''epiAlt'', CPrim CFloat),
    (''epiHepe_valid'', CPrim CUint8),
    (''epiHepe'', CPrim CFloat),
    (''epiAltUnc_valid'', CPrim CUint8),
    (''epiAltUnc'', CPrim CFloat),
    (''epiSrc_valid'', CPrim CUint8),
    (''epiSrc'', CPrim CUint8),
    (''bestPosTime_valid'', CPrim CUint8),
    (''bestPosTime'', qmiLocTimeStructT_v02),
    (''bestPosLat_valid'', CPrim CUint8),
    (''bestPosLat'', CPrim CFloat),
    (''bestPosLon_valid'', CPrim CUint8),
    (''bestPosLon'', CPrim CFloat),
    (''bestPosAlt_valid'', CPrim CUint8),
    (''bestPosAlt'', CPrim CFloat),
    (''bestPosHepe_valid'', CPrim CUint8),
    (''bestPosHepe'', CPrim CFloat),
    (''bestPosAltUnc_valid'', CPrim CUint8),
    (''bestPosAltUnc'', CPrim CFloat),
    (''xtraInfoTime_valid'', CPrim CUint8),
    (''xtraInfoTime'', qmiLocTimeStructT_v02),
    (''gpsXtraAge_valid'', CPrim CUint8),
    (''gpsXtraAge'', CPrim CUint32),
    (''gloXtraAge_valid'', CPrim CUint8),
    (''gloXtraAge'', CPrim CUint32),
    (''bdsXtraAge_valid'', CPrim CUint8),
    (''bdsXtraAge'', CPrim CUint32),
    (''galXtraAge_valid'', CPrim CUint8),
    (''galXtraAge'', CPrim CUint32),
    (''qzssXtraAge_valid'', CPrim CUint8),
    (''qzssXtraAge'', CPrim CUint32),
    (''navicXtraAge_valid'', CPrim CUint8),
    (''navicXtraAge'', CPrim CUint32),
    (''gpsXtraMask_valid'', CPrim CUint8),
    (''gpsXtraMask'', CPrim CUint32),
    (''gloXtraMask_valid'', CPrim CUint8),
    (''gloXtraMask'', CPrim CUint32),
    (''bdsXtraMask_valid'', CPrim CUint8),
    (''bdsXtraMask'', CPrim CUint64),
    (''galXtraMask_valid'', CPrim CUint8),
    (''galXtraMask'', CPrim CUint64),
    (''qzssXtraMask_valid'', CPrim CUint8),
    (''qzssXtraMask'', CPrim CUint8),
    (''navicXtraMask_valid'', CPrim CUint8),
    (''navicXtraMask'', CPrim CUint32),
    (''ephInfoTime_valid'', CPrim CUint8),
    (''ephInfoTime'', qmiLocTimeStructT_v02),
    (''gpsEphMask_valid'', CPrim CUint8),
    (''gpsEphMask'', CPrim CUint32),
    (''gloEphMask_valid'', CPrim CUint8),
    (''gloEphMask'', CPrim CUint32),
    (''bdsEphMask_valid'', CPrim CUint8),
    (''bdsEphMask'', CPrim CUint64),
    (''galEphMask_valid'', CPrim CUint8),
    (''galEphMask'', CPrim CUint64),
    (''qzssEphMask_valid'', CPrim CUint8),
    (''qzssEphMask'', CPrim CUint8),
    (''navicEphMask_valid'', CPrim CUint8),
    (''navicEphMask'', CPrim CUint32),
    (''healthInfoTime_valid'', CPrim CUint8),
    (''healthInfoTime'', qmiLocTimeStructT_v02),
    (''gpsHealthUnknownMask_valid'', CPrim CUint8),
    (''gpsHealthUnknownMask'', CPrim CUint32),
    (''gloHealthUnknownMask_valid'', CPrim CUint8),
    (''gloHealthUnknownMask'', CPrim CUint32),
    (''bdsHealthUnknownMask_valid'', CPrim CUint8),
    (''bdsHealthUnknownMask'', CPrim CUint64),
    (''galHealthUnknownMask_valid'', CPrim CUint8),
    (''galHealthUnknownMask'', CPrim CUint64),
    (''qzssHealthUnknownMask_valid'', CPrim CUint8),
    (''qzssHealthUnknownMask'', CPrim CUint8),
    (''navicHealthUnknownMask_valid'', CPrim CUint8),
    (''navicHealthUnknownMask'', CPrim CUint32),
    (''gpsHealthGoodMask_valid'', CPrim CUint8),
    (''gpsHealthGoodMask'', CPrim CUint32),
    (''gloHealthGoodMask_valid'', CPrim CUint8),
    (''gloHealthGoodMask'', CPrim CUint32),
    (''bdsHealthGoodMask_valid'', CPrim CUint8),
    (''bdsHealthGoodMask'', CPrim CUint64),
    (''galHealthGoodMask_valid'', CPrim CUint8),
    (''galHealthGoodMask'', CPrim CUint64),
    (''qzssHealthGoodMask_valid'', CPrim CUint8),
    (''qzssHealthGoodMask'', CPrim CUint8),
    (''navicHealthGoodMask_valid'', CPrim CUint8),
    (''navicHealthGoodMask'', CPrim CUint32),
    (''gpsHealthBadMask_valid'', CPrim CUint8),
    (''gpsHealthBadMask'', CPrim CUint32),
    (''gloHealthBadMask_valid'', CPrim CUint8),
    (''gloHealthBadMask'', CPrim CUint32),
    (''bdsHealthBadMask_valid'', CPrim CUint8),
    (''bdsHealthBadMask'', CPrim CUint64),
    (''galHealthBadMask_valid'', CPrim CUint8),
    (''galHealthBadMask'', CPrim CUint64),
    (''qzssHealthBadMask_valid'', CPrim CUint8),
    (''qzssHealthBadMask'', CPrim CUint8),
    (''navicHealthBadMask_valid'', CPrim CUint8),
    (''navicHealthBadMask'', CPrim CUint32),
    (''fixInfoTime_valid'', CPrim CUint8),
    (''fixInfoTime'', qmiLocTimeStructT_v02),
    (''fixInfoMask_valid'', CPrim CUint8),
    (''fixInfoMask'', CPrim CUint32),
    (''navDataTime_valid'', CPrim CUint8),
    (''navDataTime'', qmiLocTimeStructT_v02),
    (''navData_valid'', CPrim CUint8),
    (''navData_len'', CPrim CUint32),
    (''navData'', CArr qmiLocNavDataStructT_v02 (QMI_LOC_EXPANDED_SV_INFO_LIST_MAX_SIZE_V02)),
    (''fixStatusTime_valid'', CPrim CUint8),
    (''fixStatusTime'', qmiLocTimeStructT_v02),
    (''fixStatusMask_valid'', CPrim CUint8),
    (''fixStatusMask'', CPrim CUint32),
    (''fixHepeLimit_valid'', CPrim CUint8),
    (''fixHepeLimit'', CPrim CUint32),
    (''gnssTime_valid'', CPrim CUint8),
    (''gnssTime'', qmiLocGnssTimeStructT_v02),
    (''gnssLeapSecond_valid'', CPrim CUint8),
    (''gnssLeapSecond'', CPrim CUint8),
    (''gnssLeapSecondUnc_valid'', CPrim CUint8),
    (''gnssLeapSecondUnc'', CPrim CUint8),
    (''agcStatusL1_valid'', CPrim CUint8),
    (''agcStatusL1'', qmiLocAgcStatusEnumT_v02),
    (''agcStatusL2_valid'', CPrim CUint8),
    (''agcStatusL2'', qmiLocAgcStatusEnumT_v02),
    (''agcStatusL5_valid'', CPrim CUint8),
    (''agcStatusL5'', qmiLocAgcStatusEnumT_v02)]"

definition qmiLocSetTribandStateReqMsgT_v02 :: cty where
  "qmiLocSetTribandStateReqMsgT_v02 = CStruct [
    (''activate_valid'', CPrim CUint8),
    (''activate'', CPrim CUint8)]"

definition qmiLocGetTribandStateIndMsgT_v02 :: cty where
  "qmiLocGetTribandStateIndMsgT_v02 = CStruct [
    (''status'', qmiLocStatusEnumT_v02),
    (''activate_valid'', CPrim CUint8),
    (''activate'', CPrim CUint8)]"

definition qmiLocSdkFeatureConfigEnumT_v02 :: cty where
  "qmiLocSdkFeatureConfigEnumT_v02 = CEnum [
    (''QMILOCSDKFEATURECONFIGENUMT_MIN_ENUM_VAL_V02'', -2147483647),
    (''eQMI_LOC_SDK_FEATURE_CONFIG_ENABLE_V02'', 0),
    (''eQMI_LOC_SDK_FEATURE_CONFIG_DISABLE_V02'', 1),
    (''eQMI_LOC_SDK_FEATURE_CONFIG_SUSPEND_V02'', 2),
    (''eQMI_LOC_SDK_FEATURE_CONFIG_RESUME_V02'', 3),
    (''QMILOCSDKFEATURECONFIGENUMT_MAX_ENUM_VAL_V02'', 2147483647)]"

definition qmiLocSetSdkFeatureConfigReqMsgT_v02 :: cty where
  "qmiLocSetSdkFeatureConfigReqMsgT_v02 = CStruct [
    (''featureConfig_valid'', CPrim CUint8),
    (''featureConfig'', qmiLocSdkFeatureConfigEnumT_v02),
    (''appHash_valid'', CPrim CUint8),
    (''appHash_len'', CPrim CUint32),
    (''appHash'', CArr (CPrim CUint8) (QMI_LOC_MAX_APP_HASH_LEN_V02)),
    (''featureStatusReport_valid'', CPrim CUint8),
    (''featureStatusReport'', qmiLocFeaturesStatusMaskT_v02),
    (''licenseBuffer_valid'', CPrim CUint8),
    (''licenseBuffer_len'', CPrim CUint32),
    (''licenseBuffer'', CArr (CPrim CUint8) (12288))]"

definition qmiLocSetSdkFeatureConfigIndMsgT_v02 :: cty where
  "qmiLocSetSdkFeatureConfigIndMsgT_v02 = CStruct [
    (''status'', qmiLocStatusEnumT_v02),
    (''featureStatusReport_valid'', CPrim CUint8),
    (''featureStatusReport'', qmiLocFeaturesStatusMaskT_v02)]"

definition qmiLocGnssBandsSupportedIndMsgT_v02 :: cty where
  "qmiLocGnssBandsSupportedIndMsgT_v02 = CStruct [
    (''primaryGnssSignalType_valid'', CPrim CUint8),
    (''primaryGnssSignalType'', qmiLocGnssSignalTypeMaskT_v02),
    (''gnssSupportedSignals_valid'', CPrim CUint8),
    (''gnssSupportedSignals'', qmiLocGnssSignalTypeMaskT_v02)]"

definition qmiLocPublicKeyTypeEnumT_v02 :: cty where
  "qmiLocPublicKeyTypeEnumT_v02 = CEnum [
    (''QMILOCPUBLICKEYTYPEENUMT_MIN_ENUM_VAL_V02'', -2147483647),
    (''eQMI_LOC_OSNMA_NPKT_RESERVED0_V02'', 0),
    (''eQMI_LOC_OSNMA_NPKT_ECDSA_P_256_V02'', 1),
    (''eQMI_LOC_OSNMA_NPKT_RESERVED2_V02'', 2),
    (''eQMI_LOC_OSNMA_NPKT_ECDSA_P_521_V02'', 3),
    (''eQMI_LOC_OSNMA_NPKT_ALERT_V02'', 4),
    (''QMILOCPUBLICKEYTYPEENUMT_MAX_ENUM_VAL_V02'', 2147483647)]"

definition qmiLocHashFunctionTypeEnumT_v02 :: cty where
  "qmiLocHashFunctionTypeEnumT_v02 = CEnum [
    (''QMILOCHASHFUNCTIONTYPEENUMT_MIN_ENUM_VAL_V02'', -2147483647),
    (''eQMI_LOC_OSNMA_HF_SHA_256_V02'', 0),
    (''eQMI_LOC_OSNMA_HF_RESERVED1_V02'', 1),
    (''eQMI_LOC_OSNMA_HF_SHA3_256_V02'', 2),
    (''eQMI_LOC_OSNMA_HF_RESERVED3_V02'', 3),
    (''QMILOCHASHFUNCTIONTYPEENUMT_MAX_ENUM_VAL_V02'', 2147483647)]"

definition qmiLocOsnmaTreeNodeT_v02 :: cty where
  "qmiLocOsnmaTreeNodeT_v02 = CStruct [
    (''height'', CPrim CUint8),
    (''position'', CPrim CUint8),
    (''hash_len'', CPrim CUint32),
    (''hash'', CArr (CPrim CUint8) (QMI_LOC_MERKLE_TREE_HASH_ARRAY_LENGTH_V02))]"

definition qmiLocOsnmaPublicKeyMerkleTreeReqMsgT_v02 :: cty where
  "qmiLocOsnmaPublicKeyMerkleTreeReqMsgT_v02 = CStruct [
    (''publicKeyType_valid'', CPrim CUint8),
    (''publicKeyType'', qmiLocPublicKeyTypeEnumT_v02),
    (''publicKeyId_valid'', CPrim CUint8),
    (''publicKeyId'', CPrim CUint8),
    (''publicKey_valid'', CPrim CUint8),
    (''publicKey_len'', CPrim CUint32),
    (''publicKey'', CArr (CPrim CUint8) (QMI_LOC_MERKLE_TREE_KEY_LENGTH_V02)),
    (''hashFunctionType_valid'', CPrim CUint8),
    (''hashFunctionType'', qmiLocHashFunctionTypeEnumT_v02),
    (''intermediateNodes_valid'', CPrim CUint8),
    (''intermediateNodes'', CArr qmiLocOsnmaTreeNodeT_v02 (QMI_LOC_MERKLE_TREE_NODE_ARRAY_LENGTH_V02)),
    (''rootNode_valid'', CPrim CUint8),
    (''rootNode'', qmiLocOsnmaTreeNodeT_v02)]"

definition qmiLocSetOsnmaStateReqMsgT_v02 :: cty where
  "qmiLocSetOsnmaStateReqMsgT_v02 = CStruct [
    (''enable'', CPrim CUint8)]"

definition qmiLocSetNtnStatusReqMsgT_v02 :: cty where
  "qmiLocSetNtnStatusReqMsgT_v02 = CStruct [
    (''signalType'', qmiLocGnssSignalTypeMaskT_v02)]"

definition qmiLocSetNtnStatusIndMsgT_v02 :: cty where
  "qmiLocSetNtnStatusIndMsgT_v02 = CStruct [
    (''status'', qmiLocStatusEnumT_v02),
    (''signalType'', qmiLocGnssSignalTypeMaskT_v02)]"

definition qmiLocGetNtnStatusIndMsgT_v02 :: cty where
  "qmiLocGetNtnStatusIndMsgT_v02 = CStruct [
    (''status'', qmiLocStatusEnumT_v02),
    (''signalType'', qmiLocGnssSignalTypeMaskT_v02)]"

definition qmiLocNtnConfigUpdateIndMsgT_v02 :: cty where
  "qmiLocNtnConfigUpdateIndMsgT_v02 = CStruct [
    (''signalType'', qmiLocGnssSignalTypeMaskT_v02)]"

definition qmiLocEventDbhPositionIndMsgT_v02 :: cty where
  "qmiLocEventDbhPositionIndMsgT_v02 = CStruct [
    (''latitude_valid'', CPrim CUint8),
    (''latitude'', CPrim CDouble),
    (''longitude_valid'', CPrim CUint8),
    (''longitude'', CPrim CDouble),
    (''horUncCircular_valid'', CPrim CUint8),
    (''horUncCircular'', CPrim CFloat),
    (''horConfidence_valid'', CPrim CUint8),
    (''horConfidence'', CPrim CUint8),
    (''horReliability_valid'', CPrim CUint8),
    (''horReliability'', qmiLocReliabilityEnumT_v02),
    (''altitudeWrtEllipsoid_valid'', CPrim CUint8),
    (''altitudeWrtEllipsoid'', CPrim CFloat),
    (''altitudeWrtMeanSeaLevel_valid'', CPrim CUint8),
    (''altitudeWrtMeanSeaLevel'', CPrim CFloat),
    (''vertUnc_valid'', CPrim CUint8),
    (''vertUnc'', CPrim CFloat),
    (''vertConfidence_valid'', CPrim CUint8),
    (''vertConfidence'', CPrim CUint8),
    (''vertReliability_valid'', CPrim CUint8),
    (''vertReliability'', qmiLocReliabilityEnumT_v02),
    (''altSourceInfo_valid'', CPrim CUint8),
    (''altSourceInfo'', qmiLocAltitudeSrcInfoStructT_v02),
    (''timestampUtc_valid'', CPrim CUint8),
    (''timestampUtc'', CPrim CUint64),
    (''timestampAge_valid'', CPrim CUint8),
    (''timestampAge'', CPrim CInt32),
    (''positionSrc_valid'', CPrim CUint8),
    (''positionSrc'', qmiLocPositionSrcEnumT_v02),
    (''rawHorUncCircular_valid'', CPrim CUint8),
    (''rawHorUncCircular'', CPrim CFloat),
    (''rawHorConfidence_valid'', CPrim CUint8),
    (''rawHorConfidence'', CPrim CUint8),
    (''onDemandCpi_valid'', CPrim CUint8),
    (''onDemandCpi'', CPrim CUint8),
    (''positionSrcProvider_valid'', CPrim CUint8),
    (''positionSrcProvider'', qmiLocPositionSrcProviderEnumT_v02),
    (''gpsTime_valid'', CPrim CUint8),
    (''gpsTime'', qmiLocGPSTimeStructT_v02),
    (''timeUnc_valid'', CPrim CUint8),
    (''timeUnc'', CPrim CFloat),
    (''velEnu_valid'', CPrim CUint8),
    (''velEnu'', CArr (CPrim CFloat) (QMI_LOC_ENU_ARRAY_LENGTH_V02)),
    (''velUncEnu_valid'', CPrim CUint8),
    (''velUncEnu'', CArr (CPrim CFloat) (QMI_LOC_ENU_ARRAY_LENGTH_V02)),
    (''expandedGnssSvUsedList_valid'', CPrim CUint8),
    (''expandedGnssSvUsedList_len'', CPrim CUint32),
    (''expandedGnssSvUsedList'', CArr (CPrim CUint16) (QMI_LOC_EXPANDED_SV_INFO_LIST_MAX_SIZE_V02)),
    (''numSvInFix_valid'', CPrim CUint8),
    (''numSvInFix'', CPrim CUint8)]"

definition qmiLocPreciseSessionStatusEnumT_v02 :: cty where
  "qmiLocPreciseSessionStatusEnumT_v02 = CEnum [
    (''QMILOCPRECISESESSIONSTATUSENUMT_MIN_ENUM_VAL_V02'', -2147483647),
    (''eQMI_LOC_PRECISE_SESSION_STOP_V02'', 0),
    (''eQMI_LOC_PRECISE_SESSION_START_V02'', 1),
    (''QMILOCPRECISESESSIONSTATUSENUMT_MAX_ENUM_VAL_V02'', 2147483647)]"

definition qmiLocPreciseSessionTypeEnumT_v02 :: cty where
  "qmiLocPreciseSessionTypeEnumT_v02 = CEnum [
    (''QMILOCPRECISESESSIONTYPEENUMT_MIN_ENUM_VAL_V02'', -2147483647),
    (''eQMI_LOC_PRECISE_SESSION_TYPE_EDGNSS_V02'', 0),
    (''eQMI_LOC_PRECISE_SESSION_TYPE_RTK_V02'', 1),
    (''eQMI_LOC_PRECISE_SESSION_TYPE_WOCS_V02'', 2),
    (''QMILOCPRECISESESSIONTYPEENUMT_MAX_ENUM_VAL_V02'', 2147483647)]"

definition qmiLocSetPreciseSessionConfigReqMsgT_v02 :: cty where
  "qmiLocSetPreciseSessionConfigReqMsgT_v02 = CStruct [
    (''sessionCmd_valid'', CPrim CUint8),
    (''sessionCmd'', qmiLocPreciseSessionStatusEnumT_v02),
    (''sessionType_valid'', CPrim CUint8),
    (''sessionType'', qmiLocPreciseSessionTypeEnumT_v02)]"

end
