(* ===== verification/LocTypeTable.thy ===== *)
theory LocTypeTable
  imports LocTypes4
begin

text \<open>
  The type table of \<open>loc_api/loc_api_v02/location_service_v02.c\<close>: for every aggregate type the
  bytes that describe its members, and the table that pairs them with the C structs.
\<close>

unbundle bit_operations_syntax

definition qmiLocApplicationIdStructT_data_v02 :: "int list" where
  "qmiLocApplicationIdStructT_data_v02 =
    (let off = offsetof qmiLocApplicationIdStructT_v02 in uint8_array (
      [QMI_IDL_FLAGS_IS_ARRAY OR QMI_IDL_FLAGS_IS_VARIABLE_LEN OR QMI_IDL_STRING, QMI_IDL_OFFSET8 off ''applicationProvider'', QMI_LOC_MAX_APP_ID_PROVIDER_LENGTH_V02,
       QMI_IDL_FLAGS_IS_ARRAY OR QMI_IDL_FLAGS_IS_VARIABLE_LEN OR QMI_IDL_STRING, QMI_IDL_OFFSET8 off ''applicationName'', QMI_LOC_MAX_APP_ID_NAME_LENGTH_V02,
       QMI_IDL_GENERIC_1_BYTE, QMI_IDL_OFFSET8 off ''applicationVersion_valid'',
       QMI_IDL_FLAGS_IS_ARRAY OR QMI_IDL_FLAGS_IS_VARIABLE_LEN OR QMI_IDL_STRING, QMI_IDL_OFFSET8 off ''applicationVersion'', QMI_LOC_MAX_APP_ID_VERSION_LENGTH_V02,
       QMI_IDL_FLAG_END_VALUE]))"

definition qmiLocPowerModeStructT_data_v02 :: "int list" where
  "qmiLocPowerModeStructT_data_v02 =
    (let off = offsetof qmiLocPowerModeStructT_v02 in uint8_array (
      [QMI_IDL_GENERIC_4_BYTE, QMI_IDL_OFFSET8 off ''powerMode'',
       QMI_IDL_GENERIC_4_BYTE, QMI_IDL_OFFSET8 off ''timeBetweenMeasurement'',
       QMI_IDL_FLAG_END_VALUE]))"

definition qmiLocGPSTimeStructT_data_v02 :: "int list" where
  "qmiLocGPSTimeStructT_data_v02 =
    (let off = offsetof qmiLocGPSTimeStructT_v02 in uint8_array (
      [QMI_IDL_GENERIC_2_BYTE, QMI_IDL_OFFSET8 off ''gpsWeek'',
       QMI_IDL_GENERIC_4_BYTE, QMI_IDL_OFFSET8 off ''gpsTimeOfWeekMs'',
       QMI_IDL_FLAG_END_VALUE]))"

definition qmiLocDOPStructT_data_v02 :: "int list" where
  "qmiLocDOPStructT_data_v02 =
    (let off = offsetof qmiLocDOPStructT_v02 in uint8_array (
      [QMI_IDL_GENERIC_4_BYTE, QMI_IDL_OFFSET8 off ''PDOP'',
       QMI_IDL_GENERIC_4_BYTE, QMI_IDL_OFFSET8 off ''HDOP'',
       QMI_IDL_GENERIC_4_BYTE, QMI_IDL_OFFSET8 off ''VDOP'',
       QMI_IDL_FLAG_END_VALUE]))"

definition qmiLocExtDOPStructT_data_v02 :: "int list" where
  "qmiLocExtDOPStructT_data_v02 =
    (let off = offsetof qmiLocExtDOPStructT_v02 in uint8_array (
      [QMI_IDL_GENERIC_4_BYTE, QMI_IDL_OFFSET8 off ''PDOP'',
       QMI_IDL_GENERIC_4_BYTE, QMI_IDL_OFFSET8 off ''HDOP'',
       QMI_IDL_GENERIC_4_BYTE, QMI_IDL_OFFSET8 off ''VDOP'',
       QMI_IDL_GENERIC_4_BYTE, QMI_IDL_OFFSET8 off ''GDOP'',
       QMI_IDL_GENERIC_4_BYTE, QMI_IDL_OFFSET8 off ''TDOP'',
       QMI_IDL_FLAG_END_VALUE]))"

definition qmiLocSensorUsageIndicatorStructT_data_v02 :: "int list" where
  "qmiLocSensorUsageIndicatorStructT_data_v02 =
    (let off = offsetof qmiLocSensorUsageIndicatorStructT_v02 in uint8_array (
      [QMI_IDL_GENERIC_4_BYTE, QMI_IDL_OFFSET8 off ''usageMask'',
       QMI_IDL_GENERIC_4_BYTE, QMI_IDL_OFFSET8 off ''aidingIndicatorMask'',
       QMI_IDL_FLAG_END_VALUE]))"

definition qmiLocJammerIndicatorStructT_data_v02 :: "int list" where
  "qmiLocJammerIndicatorStructT_data_v02 =
    (let off = offsetof qmiLocJammerIndicatorStructT_v02 in uint8_array (
      [QMI_IDL_GENERIC_4_BYTE, QMI_IDL_OFFSET8 off ''agcMetricDb'',
       QMI_IDL_GENERIC_4_BYTE, QMI_IDL_OFFSET8 off ''bpMetricDb'',
       QMI_IDL_FLAG_END_VALUE]))"

definition qmiLocJammerIndicatorExtStructT_data_v02 :: "int list" where
  "qmiLocJammerIndicatorExtStructT_data_v02 =
    (let off = offsetof qmiLocJammerIndicatorExtStructT_v02 in uint8_array (
      [QMI_IDL_GENERIC_8_BYTE, QMI_IDL_OFFSET8 off ''gnssSignalType'',
       QMI_IDL_GENERIC_4_BYTE, QMI_IDL_OFFSET8 off ''agcMetricDb'',
       QMI_IDL_GENERIC_4_BYTE, QMI_IDL_OFFSET8 off ''bpMetricDb'',
       QMI_IDL_FLAG_END_VALUE]))"

definition qmiLocGnssTimeStructT_data_v02 :: "int list" where
  "qmiLocGnssTimeStructT_data_v02 =
    (let off = offsetof qmiLocGnssTimeStructT_v02 in uint8_array (
      [QMI_IDL_GENERIC_4_BYTE, QMI_IDL_OFFSET8 off ''system'',
       QMI_IDL_GENERIC_2_BYTE, QMI_IDL_OFFSET8 off ''systemWeek'',
       QMI_IDL_GENERIC_4_BYTE, QMI_IDL_OFFSET8 off ''systemMsec'',
       QMI_IDL_GENERIC_4_BYTE, QMI_IDL_OFFSET8 off ''systemClkTimeBias'',
       QMI_IDL_GENERIC_4_BYTE, QMI_IDL_OFFSET8 off ''systemClkTimeUncMs'',
       QMI_IDL_FLAG_END_VALUE]))"

definition qmiLocSvInfoStructT_data_v02 :: "int list" where
  "qmiLocSvInfoStructT_data_v02 =
    (let off = offsetof qmiLocSvInfoStructT_v02 in uint8_array (
      [QMI_IDL_GENERIC_4_BYTE, QMI_IDL_OFFSET8 off ''validMask'',
       QMI_IDL_GENERIC_4_BYTE, QMI_IDL_OFFSET8 off ''system'',
       QMI_IDL_GENERIC_2_BYTE, QMI_IDL_OFFSET8 off ''gnssSvId'',
       QMI_IDL_GENERIC_1_BYTE, QMI_IDL_OFFSET8 off ''healthStatus'',
       QMI_IDL_GENERIC_4_BYTE, QMI_IDL_OFFSET8 off ''svStatus'',
       QMI_IDL_GENERIC_1_BYTE, QMI_IDL_OFFSET8 off ''svInfoMask'',
       QMI_IDL_GENERIC_4_BYTE, QMI_IDL_OFFSET8 off ''elevation'',
       QMI_IDL_GENERIC_4_BYTE, QMI_IDL_OFFSET8 off ''azimuth'',
       QMI_IDL_GENERIC_4_BYTE, QMI_IDL_OFFSET8 off ''snr'',
       QMI_IDL_FLAG_END_VALUE]))"

definition qmiLocExpandedSvInfoStructT_data_v02 :: "int list" where
  "qmiLocExpandedSvInfoStructT_data_v02 =
    (let off = offsetof qmiLocExpandedSvInfoStructT_v02 in uint8_array (
      [QMI_IDL_AGGREGATE, QMI_IDL_OFFSET8 off ''svInfo''] @ QMI_IDL_TYPE88 0 9 @
      [QMI_IDL_GENERIC_1_BYTE, QMI_IDL_OFFSET8 off ''gloFrequency'',
       QMI_IDL_FLAG_END_VALUE]))"

definition qmiLocNiVxNotifyVerifyStructT_data_v02 :: "int list" where
  "qmiLocNiVxNotifyVerifyStructT_data_v02 =
    (let off = offsetof qmiLocNiVxNotifyVerifyStructT_v02 in uint8_array (
      [QMI_IDL_GENERIC_1_BYTE, QMI_IDL_OFFSET8 off ''posQosIncl'',
       QMI_IDL_GENERIC_1_BYTE, QMI_IDL_OFFSET8 off ''posQos'',
       QMI_IDL_GENERIC_4_BYTE, QMI_IDL_OFFSET8 off ''numFixes'',
       QMI_IDL_GENERIC_4_BYTE, QMI_IDL_OFFSET8 off ''timeBetweenFixes'',
       QMI_IDL_GENERIC_4_BYTE, QMI_IDL_OFFSET8 off ''posMode'',
       QMI_IDL_GENERIC_4_BYTE, QMI_IDL_OFFSET8 off ''encodingScheme'',
       QMI_IDL_FLAGS_IS_ARRAY OR QMI_IDL_FLAGS_IS_VARIABLE_LEN OR QMI_IDL_GENERIC_1_BYTE, QMI_IDL_OFFSET8 off ''requestorId'', QMI_LOC_NI_MAX_REQUESTOR_ID_LENGTH_V02, QMI_IDL_OFFSET8 off ''requestorId'' - QMI_IDL_OFFSET8 off ''requestorId_len'',
       QMI_IDL_FLAGS_OFFSET_IS_16 OR QMI_IDL_GENERIC_2_BYTE] @ QMI_IDL_OFFSET16ARRAY off ''userRespTimerInSeconds'' @
      [QMI_IDL_FLAG_END_VALUE]))"

definition qmiLocNiSuplFormattedStringStructT_data_v02 :: "int list" where
  "qmiLocNiSuplFormattedStringStructT_data_v02 =
    (let off = offsetof qmiLocNiSuplFormattedStringStructT_v02 in uint8_array (
      [QMI_IDL_GENERIC_4_BYTE, QMI_IDL_OFFSET8 off ''formatType'',
       QMI_IDL_FLAGS_IS_ARRAY OR QMI_IDL_FLAGS_IS_VARIABLE_LEN OR QMI_IDL_GENERIC_1_BYTE, QMI_IDL_OFFSET8 off ''formattedString'', QMI_LOC_NI_MAX_CLIENT_NAME_LENGTH_V02, QMI_IDL_OFFSET8 off ''formattedString'' - QMI_IDL_OFFSET8 off ''formattedString_len'',
       QMI_IDL_FLAG_END_VALUE]))"

definition qmiLocNiSuplQopStructT_data_v02 :: "int list" where
  "qmiLocNiSuplQopStructT_data_v02 =
    (let off = offsetof qmiLocNiSuplQopStructT_v02 in uint8_array (
      [QMI_IDL_GENERIC_1_BYTE, QMI_IDL_OFFSET8 off ''validMask'',
       QMI_IDL_GENERIC_1_BYTE, QMI_IDL_OFFSET8 off ''horizontalAccuracy'',
       QMI_IDL_GENERIC_1_BYTE, QMI_IDL_OFFSET8 off ''verticalAccuracy'',
       QMI_IDL_GENERIC_2_BYTE, QMI_IDL_OFFSET8 off ''maxLocAge'',
       QMI_IDL_GENERIC_1_BYTE, QMI_IDL_OFFSET8 off ''delay'',
       QMI_IDL_FLAG_END_VALUE]))"

definition qmiLocIpV4AddrStructType_data_v02 :: "int list" where
  "qmiLocIpV4AddrStructType_data_v02 =
    (let off = offsetof qmiLocIpV4AddrStructType_v02 in uint8_array (
      [QMI_IDL_GENERIC_4_BYTE, QMI_IDL_OFFSET8 off ''addr'',
       QMI_IDL_GENERIC_2_BYTE, QMI_IDL_OFFSET8 off ''port'',
       QMI_IDL_FLAG_END_VALUE]))"

definition qmiLocIpV6AddrStructType_data_v02 :: "int list" where
  "qmiLocIpV6AddrStructType_data_v02 =
    (let off = offsetof qmiLocIpV6AddrStructType_v02 in uint8_array (
      [QMI_IDL_FLAGS_IS_ARRAY OR QMI_IDL_GENERIC_2_BYTE, QMI_IDL_OFFSET8 off ''addr'', QMI_LOC_IPV6_ADDR_LENGTH_V02,
       QMI_IDL_GENERIC_4_BYTE, QMI_IDL_OFFSET8 off ''port'',
       QMI_IDL_FLAG_END_VALUE]))"

definition qmiLocNiSuplServerInfoStructT_data_v02 :: "int list" where
  "qmiLocNiSuplServerInfoStructT_data_v02 =
    (let off = offsetof qmiLocNiSuplServerInfoStructT_v02 in uint8_array (
      [QMI_IDL_GENERIC_1_BYTE, QMI_IDL_OFFSET8 off ''suplServerAddrTypeMask'',
       QMI_IDL_AGGREGATE, QMI_IDL_OFFSET8 off ''ipv4Addr''] @ QMI_IDL_TYPE88 0 14 @
      [QMI_IDL_AGGREGATE, QMI_IDL_OFFSET8 off ''ipv6Addr''] @ QMI_IDL_TYPE88 0 15 @
      [QMI_IDL_FLAGS_IS_ARRAY OR QMI_IDL_FLAGS_IS_VARIABLE_LEN OR QMI_IDL_STRING, QMI_IDL_OFFSET8 off ''urlAddr'', QMI_LOC_MAX_SERVER_ADDR_LENGTH_V02,
       QMI_IDL_FLAG_END_VALUE]))"

definition qmiLocNiSuplNotifyVerifyStructT_data_v02 :: "int list" where
  "qmiLocNiSuplNotifyVerifyStructT_data_v02 =
    (let off = offsetof qmiLocNiSuplNotifyVerifyStructT_v02 in uint8_array (
      [QMI_IDL_GENERIC_4_BYTE, QMI_IDL_OFFSET8 off ''valid_flags'',
       QMI_IDL_AGGREGATE, QMI_IDL_OFFSET8 off ''suplServerInfo''] @ QMI_IDL_TYPE88 0 16 @
      [QMI_IDL_FLAGS_OFFSET_IS_16 OR QMI_IDL_FLAGS_IS_ARRAY OR QMI_IDL_GENERIC_1_BYTE] @ QMI_IDL_OFFSET16ARRAY off ''suplSessionId'' @
      [QMI_LOC_NI_SUPL_SLP_SESSION_ID_BYTE_LENGTH_V02,
       QMI_IDL_FLAGS_OFFSET_IS_16 OR QMI_IDL_FLAGS_IS_ARRAY OR QMI_IDL_GENERIC_1_BYTE] @ QMI_IDL_OFFSET16ARRAY off ''suplHash'' @
      [QMI_LOC_NI_SUPL_HASH_LENGTH_V02,
       QMI_IDL_FLAGS_OFFSET_IS_16 OR QMI_IDL_GENERIC_4_BYTE] @ QMI_IDL_OFFSET16ARRAY off ''posMethod'' @
      [QMI_IDL_FLAGS_OFFSET_IS_16 OR QMI_IDL_GENERIC_4_BYTE] @ QMI_IDL_OFFSET16ARRAY off ''dataCodingScheme'' @
      [QMI_IDL_FLAGS_OFFSET_IS_16 OR QMI_IDL_AGGREGATE] @ QMI_IDL_OFFSET16ARRAY off ''requestorId'' @ QMI_IDL_TYPE88 0 12 @
      [QMI_IDL_FLAGS_OFFSET_IS_16 OR QMI_IDL_AGGREGATE] @ QMI_IDL_OFFSET16ARRAY off ''clientName'' @ QMI_IDL_TYPE88 0 12 @
      [QMI_IDL_FLAGS_OFFSET_IS_16 OR QMI_IDL_AGGREGATE] @ QMI_IDL_OFFSET16ARRAY off ''suplQop'' @ QMI_IDL_TYPE88 0 13 @
      [QMI_IDL_FLAGS_OFFSET_IS_16 OR QMI_IDL_GENERIC_2_BYTE] @ QMI_IDL_OFFSET16ARRAY off ''userResponseTimer'' @
      [QMI_IDL_FLAG_END_VALUE]))"

definition qmiLocNiUmtsCpCodedStringStructT_data_v02 :: "int list" where
  "qmiLocNiUmtsCpCodedStringStructT_data_v02 =
    (let off = offsetof qmiLocNiUmtsCpCodedStringStructT_v02 in uint8_array (
      [QMI_IDL_GENERIC_4_BYTE, QMI_IDL_OFFSET8 off ''dataCodingScheme'',
       QMI_IDL_FLAGS_IS_ARRAY OR QMI_IDL_FLAGS_IS_VARIABLE_LEN OR QMI_IDL_GENERIC_1_BYTE, QMI_IDL_OFFSET8 off ''codedString'', QMI_LOC_NI_CODEWORD_MAX_LENGTH_V02, QMI_IDL_OFFSET8 off ''codedString'' - QMI_IDL_OFFSET8 off ''codedString_len'',
       QMI_IDL_FLAG_END_VALUE]))"

definition qmiLocNiUmtsCpNotifyVerifyStructT_data_v02 :: "int list" where
  "qmiLocNiUmtsCpNotifyVerifyStructT_data_v02 =
    (let off = offsetof qmiLocNiUmtsCpNotifyVerifyStructT_v02 in uint8_array (
      [QMI_IDL_GENERIC_2_BYTE, QMI_IDL_OFFSET8 off ''valid_flags'',
       QMI_IDL_GENERIC_1_BYTE, QMI_IDL_OFFSET8 off ''invokeId'',
       QMI_IDL_GENERIC_4_BYTE, QMI_IDL_OFFSET8 off ''dataCodingScheme'',
       QMI_IDL_FLAGS_IS_ARRAY OR QMI_IDL_FLAGS_IS_VARIABLE_LEN OR QMI_IDL_GENERIC_1_BYTE, QMI_IDL_OFFSET8 off ''notificationText'', QMI_LOC_NI_MAX_CLIENT_NAME_LENGTH_V02, QMI_IDL_OFFSET8 off ''notificationText'' - QMI_IDL_OFFSET8 off ''notificationText_len'',
       QMI_IDL_FLAGS_IS_ARRAY OR QMI_IDL_FLAGS_IS_VARIABLE_LEN OR QMI_IDL_GENERIC_1_BYTE, QMI_IDL_OFFSET8 off ''clientAddress'', QMI_LOC_NI_MAX_EXT_CLIENT_ADDRESS_V02, QMI_IDL_OFFSET8 off ''clientAddress'' - QMI_IDL_OFFSET8 off ''clientAddress_len'',
       QMI_IDL_GENERIC_4_BYTE, QMI_IDL_OFFSET8 off ''locationType'',
       QMI_IDL_AGGREGATE, QMI_IDL_OFFSET8 off ''requestorId''] @ QMI_IDL_TYPE88 0 18 @
      [QMI_IDL_AGGREGATE, QMI_IDL_OFFSET8 off ''codewordString''] @ QMI_IDL_TYPE88 0 18 @
      [QMI_IDL_GENERIC_1_BYTE, QMI_IDL_OFFSET8 off ''lcsServiceTypeId'',
       QMI_IDL_GENERIC_2_BYTE, QMI_IDL_OFFSET8 off ''userResponseTimer'',
       QMI_IDL_FLAG_END_VALUE]))"

definition qmiLocNiVxServiceInteractionStructT_data_v02 :: "int list" where
  "qmiLocNiVxServiceInteractionStructT_data_v02 =
    (let off = offsetof qmiLocNiVxServiceInteractionStructT_v02 in uint8_array (
      [QMI_IDL_AGGREGATE, QMI_IDL_OFFSET8 off ''niVxReq''] @ QMI_IDL_TYPE88 0 11 @
      [QMI_IDL_FLAGS_OFFSET_IS_16 OR QMI_IDL_GENERIC_4_BYTE] @ QMI_IDL_OFFSET16ARRAY off ''serviceInteractionType'' @
      [QMI_IDL_FLAG_END_VALUE]))"

definition qmiLocNiSuplVer2ExtStructT_data_v02 :: "int list" where
  "qmiLocNiSuplVer2ExtStructT_data_v02 =
    (let off = offsetof qmiLocNiSuplVer2ExtStructT_v02 in uint8_array (
      [QMI_IDL_GENERIC_2_BYTE, QMI_IDL_OFFSET8 off ''supportedNetworksMask'',
       QMI_IDL_GENERIC_4_BYTE, QMI_IDL_OFFSET8 off ''triggerType'',
       QMI_IDL_GENERIC_2_BYTE, QMI_IDL_OFFSET8 off ''gnssType'',
       QMI_IDL_FLAG_END_VALUE]))"

definition qmiLocEmergencyNotificationStructT_data_v02 :: "int list" where
  "qmiLocEmergencyNotificationStructT_data_v02 =
    (let off = offsetof qmiLocEmergencyNotificationStructT_v02 in uint8_array (
      [QMI_IDL_FLAGS_IS_ARRAY OR QMI_IDL_FLAGS_IS_VARIABLE_LEN OR QMI_IDL_STRING, QMI_IDL_OFFSET8 off ''eslpUrl'', QMI_LOC_MAX_SERVER_ADDR_LENGTH_V02,
       QMI_IDL_FLAG_END_VALUE]))"

definition qmiLocAssistanceServerUrlStructT_data_v02 :: "int list" where
  "qmiLocAssistanceServerUrlStructT_data_v02 =
    (let off = offsetof qmiLocAssistanceServerUrlStructT_v02 in uint8_array (
      [QMI_IDL_FLAGS_IS_ARRAY OR QMI_IDL_FLAGS_IS_VARIABLE_LEN OR QMI_IDL_STRING, QMI_IDL_OFFSET8 off ''serverUrl'', QMI_LOC_MAX_SERVER_ADDR_LENGTH_V02,
       QMI_IDL_FLAG_END_VALUE]))"

definition qmiLocTimeServerListStructT_data_v02 :: "int list" where
  "qmiLocTimeServerListStructT_data_v02 =
    (let off = offsetof qmiLocTimeServerListStructT_v02 in uint8_array (
      [QMI_IDL_GENERIC_4_BYTE, QMI_IDL_OFFSET8 off ''delayThreshold'',
       QMI_IDL_FLAGS_IS_ARRAY OR QMI_IDL_FLAGS_IS_VARIABLE_LEN OR QMI_IDL_AGGREGATE, QMI_IDL_OFFSET8 off ''timeServerList'', QMI_LOC_MAX_NTP_SERVERS_V02, QMI_IDL_OFFSET8 off ''timeServerList'' - QMI_IDL_OFFSET8 off ''timeServerList_len''] @ QMI_IDL_TYPE88 0 23 @
      [QMI_IDL_FLAG_END_VALUE]))"

definition qmiLocPredictedOrbitsAllowedSizesStructT_data_v02 :: "int list" where
  "qmiLocPredictedOrbitsAllowedSizesStructT_data_v02 =
    (let off = offsetof qmiLocPredictedOrbitsAllowedSizesStructT_v02 in uint8_array (
      [QMI_IDL_GENERIC_4_BYTE, QMI_IDL_OFFSET8 off ''maxFileSizeInBytes'',
       QMI_IDL_GENERIC_4_BYTE, QMI_IDL_OFFSET8 off ''maxPartSize'',
       QMI_IDL_FLAG_END_VALUE]))"

definition qmiLocPredictedOrbitsServerListStructT_data_v02 :: "int list" where
  "qmiLocPredictedOrbitsServerListStructT_data_v02 =
    (let off = offsetof qmiLocPredictedOrbitsServerListStructT_v02 in uint8_array (
      [QMI_IDL_FLAGS_IS_ARRAY OR QMI_IDL_FLAGS_IS_VARIABLE_LEN OR QMI_IDL_AGGREGATE, QMI_IDL_OFFSET8 off ''serverList'', QMI_LOC_MAX_PREDICTED_ORBITS_SERVERS_V02, QMI_IDL_OFFSET8 off ''serverList'' - QMI_IDL_OFFSET8 off ''serverList_len''] @ QMI_IDL_TYPE88 0 23 @
      [QMI_IDL_FLAG_END_VALUE]))"

definition qmiLocPredictedOrbitsSpecialFileTypeStructT_data_v02 :: "int list" where
  "qmiLocPredictedOrbitsSpecialFileTypeStructT_data_v02 =
    (let off = offsetof qmiLocPredictedOrbitsSpecialFileTypeStructT_v02 in uint8_array (
      [QMI_IDL_GENERIC_4_BYTE, QMI_IDL_OFFSET8 off ''fileType'',
       QMI_IDL_GENERIC_4_BYTE, QMI_IDL_OFFSET8 off ''downloadInterval'',
       QMI_IDL_FLAG_END_VALUE]))"

definition qmiLocSensorControlConfigSamplingSpecStructT_data_v02 :: "int list" where
  "qmiLocSensorControlConfigSamplingSpecStructT_data_v02 =
    (let off = offsetof qmiLocSensorControlConfigSamplingSpecStructT_v02 in uint8_array (
      [QMI_IDL_GENERIC_2_BYTE, QMI_IDL_OFFSET8 off ''samplesPerBatch'',
       QMI_IDL_GENERIC_2_BYTE, QMI_IDL_OFFSET8 off ''batchesPerSecond'',
       QMI_IDL_FLAG_END_VALUE]))"

definition qmiLocSensorReadyStatusStructT_data_v02 :: "int list" where
  "qmiLocSensorReadyStatusStructT_data_v02 =
    (let off = offsetof qmiLocSensorReadyStatusStructT_v02 in uint8_array (
      [QMI_IDL_GENERIC_1_BYTE, QMI_IDL_OFFSET8 off ''injectEnable'',
       QMI_IDL_AGGREGATE, QMI_IDL_OFFSET8 off ''dataFrequency''] @ QMI_IDL_TYPE88 0 28 @
      [QMI_IDL_FLAG_END_VALUE]))"

definition qmiLocGeofencePositionStructT_data_v02 :: "int list" where
  "qmiLocGeofencePositionStructT_data_v02 =
    (let off = offsetof qmiLocGeofencePositionStructT_v02 in uint8_array (
      [QMI_IDL_GENERIC_8_BYTE, QMI_IDL_OFFSET8 off ''timestampUtc'',
       QMI_IDL_GENERIC_8_BYTE, QMI_IDL_OFFSET8 off ''latitude'',
       QMI_IDL_GENERIC_8_BYTE, QMI_IDL_OFFSET8 off ''longitude'',
       QMI_IDL_GENERIC_4_BYTE, QMI_IDL_OFFSET8 off ''horUncEllipseSemiMinor'',
       QMI_IDL_GENERIC_4_BYTE, QMI_IDL_OFFSET8 off ''horUncEllipseSemiMajor'',
       QMI_IDL_GENERIC_4_BYTE, QMI_IDL_OFFSET8 off ''horUncEllipseOrientAzimuth'',
       QMI_IDL_GENERIC_1_BYTE, QMI_IDL_OFFSET8 off ''speedHorizontal_valid'',
       QMI_IDL_GENERIC_4_BYTE, QMI_IDL_OFFSET8 off ''speedHorizontal'',
       QMI_IDL_GENERIC_1_BYTE, QMI_IDL_OFFSET8 off ''altitudeWrtEllipsoid_valid'',
       QMI_IDL_GENERIC_4_BYTE, QMI_IDL_OFFSET8 off ''altitudeWrtEllipsoid'',
       QMI_IDL_GENERIC_1_BYTE, QMI_IDL_OFFSET8 off ''vertUnc_valid'',
       QMI_IDL_GENERIC_4_BYTE, QMI_IDL_OFFSET8 off ''vertUnc'',
       QMI_IDL_GENERIC_1_BYTE, QMI_IDL_OFFSET8 off ''speedVertical_valid'',
       QMI_IDL_GENERIC_4_BYTE, QMI_IDL_OFFSET8 off ''speedVertical'',
       QMI_IDL_GENERIC_1_BYTE, QMI_IDL_OFFSET8 off ''heading_valid'',
       QMI_IDL_GENERIC_4_BYTE, QMI_IDL_OFFSET8 off ''heading'',
       QMI_IDL_FLAG_END_VALUE]))"

definition qmiLocGeofenceIdContinuousStructT_data_v02 :: "int list" where
  "qmiLocGeofenceIdContinuousStructT_data_v02 =
    (let off = offsetof qmiLocGeofenceIdContinuousStructT_v02 in uint8_array (
      [QMI_IDL_GENERIC_4_BYTE, QMI_IDL_OFFSET8 off ''idLow'',
       QMI_IDL_GENERIC_4_BYTE, QMI_IDL_OFFSET8 off ''idHigh'',
       QMI_IDL_FLAG_END_VALUE]))"

definition qmiLocPredictedOrbitsDataValidityStructT_data_v02 :: "int list" where
  "qmiLocPredictedOrbitsDataValidityStructT_data_v02 =
    (let off = offsetof qmiLocPredictedOrbitsDataValidityStructT_v02 in uint8_array (
      [QMI_IDL_GENERIC_8_BYTE, QMI_IDL_OFFSET8 off ''startTimeInUTC'',
       QMI_IDL_GENERIC_2_BYTE, QMI_IDL_OFFSET8 off ''durationHours'',
       QMI_IDL_FLAG_END_VALUE]))"

definition qmiLocAltitudeSrcInfoStructT_data_v02 :: "int list" where
  "qmiLocAltitudeSrcInfoStructT_data_v02 =
    (let off = offsetof qmiLocAltitudeSrcInfoStructT_v02 in uint8_array (
      [QMI_IDL_GENERIC_4_BYTE, QMI_IDL_OFFSET8 off ''source'',
       QMI_IDL_GENERIC_4_BYTE, QMI_IDL_OFFSET8 off ''linkage'',
       QMI_IDL_GENERIC_4_BYTE, QMI_IDL_OFFSET8 off ''coverage'',
       QMI_IDL_FLAG_END_VALUE]))"

definition qmiLocDeleteSvInfoStructT_data_v02 :: "int list" where
  "qmiLocDeleteSvInfoStructT_data_v02 =
    (let off = offsetof qmiLocDeleteSvInfoStructT_v02 in uint8_array (
      [QMI_IDL_GENERIC_2_BYTE, QMI_IDL_OFFSET8 off ''gnssSvId'',
       QMI_IDL_GENERIC_4_BYTE, QMI_IDL_OFFSET8 off ''system'',
       QMI_IDL_GENERIC_1_BYTE, QMI_IDL_OFFSET8 off ''deleteSvInfoMask'',
       QMI_IDL_FLAG_END_VALUE]))"

definition qmiLocDeleteBDSSvInfoStructT_data_v02 :: "int list" where
  "qmiLocDeleteBDSSvInfoStructT_data_v02 =
    (let off = offsetof qmiLocDeleteBDSSvInfoStructT_v02 in uint8_array (
      [QMI_IDL_GENERIC_2_BYTE, QMI_IDL_OFFSET8 off ''gnssSvId'',
       QMI_IDL_GENERIC_1_BYTE, QMI_IDL_OFFSET8 off ''deleteSvInfoMask'',
       QMI_IDL_FLAG_END_VALUE]))"

definition qmiLocDeleteGALSvInfoStructT_data_v02 :: "int list" where
  "qmiLocDeleteGALSvInfoStructT_data_v02 =
    (let off = offsetof qmiLocDeleteGALSvInfoStructT_v02 in uint8_array (
      [QMI_IDL_GENERIC_2_BYTE, QMI_IDL_OFFSET8 off ''gnssSvId'',
       QMI_IDL_GENERIC_1_BYTE, QMI_IDL_OFFSET8 off ''deleteSvInfoMask'',
       QMI_IDL_FLAG_END_VALUE]))"

definition qmiLocWifiFixTimeStructT_data_v02 :: "int list" where
  "qmiLocWifiFixTimeStructT_data_v02 =
    (let off = offsetof qmiLocWifiFixTimeStructT_v02 in uint8_array (
      [QMI_IDL_GENERIC_4_BYTE, QMI_IDL_OFFSET8 off ''wifiPositionTime'',
       QMI_IDL_FLAG_END_VALUE]))"

definition qmiLocWifiFixPosStructT_data_v02 :: "int list" where
  "qmiLocWifiFixPosStructT_data_v02 =
    (let off = offsetof qmiLocWifiFixPosStructT_v02 in uint8_array (
      [QMI_IDL_GENERIC_8_BYTE, QMI_IDL_OFFSET8 off ''lat'',
       QMI_IDL_GENERIC_8_BYTE, QMI_IDL_OFFSET8 off ''lon'',
       QMI_IDL_GENERIC_2_BYTE, QMI_IDL_OFFSET8 off ''hepe'',
       QMI_IDL_GENERIC_1_BYTE, QMI_IDL_OFFSET8 off ''numApsUsed'',
       QMI_IDL_GENERIC_4_BYTE, QMI_IDL_OFFSET8 off ''fixErrorCode'',
       QMI_IDL_FLAG_END_VALUE]))"

definition qmiLocWifiApInfoStructT_data_v02 :: "int list" where
  "qmiLocWifiApInfoStructT_data_v02 =
    (let off = offsetof qmiLocWifiApInfoStructT_v02 in uint8_array (
      [QMI_IDL_FLAGS_IS_ARRAY OR QMI_IDL_GENERIC_1_BYTE, QMI_IDL_OFFSET8 off ''macAddr'', QMI_LOC_WIFI_MAC_ADDR_LENGTH_V02,
       QMI_IDL_GENERIC_4_BYTE, QMI_IDL_OFFSET8 off ''rssi'',
       QMI_IDL_GENERIC_2_BYTE, QMI_IDL_OFFSET8 off ''channel'',
       QMI_IDL_GENERIC_1_BYTE, QMI_IDL_OFFSET8 off ''apQualifier'',
       QMI_IDL_FLAG_END_VALUE]))"

definition qmiLocWifiApSsidStructT_data_v02 :: "int list" where
  "qmiLocWifiApSsidStructT_data_v02 =
    (let off = offsetof qmiLocWifiApSsidStructT_v02 in uint8_array (
      [QMI_IDL_FLAGS_IS_ARRAY OR QMI_IDL_FLAGS_IS_VARIABLE_LEN OR QMI_IDL_STRING, QMI_IDL_OFFSET8 off ''ssid'', QMI_LOC_MAX_WIFI_AP_SSID_STR_LENGTH_V02,
       QMI_IDL_FLAG_END_VALUE]))"

definition qmiLoc3AxisSensorSampleStructT_data_v02 :: "int list" where
  "qmiLoc3AxisSensorSampleStructT_data_v02 =
    (let off = offsetof qmiLoc3AxisSensorSampleStructT_v02 in uint8_array (
      [QMI_IDL_GENERIC_2_BYTE, QMI_IDL_OFFSET8 off ''timeOffset'',
       QMI_IDL_GENERIC_4_BYTE, QMI_IDL_OFFSET8 off ''xAxis'',
       QMI_IDL_GENERIC_4_BYTE, QMI_IDL_OFFSET8 off ''yAxis'',
       QMI_IDL_GENERIC_4_BYTE, QMI_IDL_OFFSET8 off ''zAxis'',
       QMI_IDL_FLAG_END_VALUE]))"

definition qmiLoc3AxisSensorSampleListStructT_data_v02 :: "int list" where
  "qmiLoc3AxisSensorSampleListStructT_data_v02 =
    (let off = offsetof qmiLoc3AxisSensorSampleListStructT_v02 in uint8_array (
      [QMI_IDL_GENERIC_4_BYTE, QMI_IDL_OFFSET8 off ''timeOfFirstSample'',
       QMI_IDL_GENERIC_1_BYTE, QMI_IDL_OFFSET8 off ''flags'',
       QMI_IDL_FLAGS_IS_ARRAY OR QMI_IDL_FLAGS_IS_VARIABLE_LEN OR QMI_IDL_AGGREGATE, QMI_IDL_OFFSET8 off ''sensorData'', QMI_LOC_SENSOR_DATA_MAX_SAMPLES_V02, QMI_IDL_OFFSET8 off ''sensorData'' - QMI_IDL_OFFSET8 off ''sensorData_len''] @ QMI_IDL_TYPE88 0 41 @
      [QMI_IDL_FLAG_END_VALUE]))"

definition qmiLocSensorTemperatureSampleStructT_data_v02 :: "int list" where
  "qmiLocSensorTemperatureSampleStructT_data_v02 =
    (let off = offsetof qmiLocSensorTemperatureSampleStructT_v02 in uint8_array (
      [QMI_IDL_GENERIC_2_BYTE, QMI_IDL_OFFSET8 off ''timeOffset'',
       QMI_IDL_GENERIC_4_BYTE, QMI_IDL_OFFSET8 off ''temperature'',
       QMI_IDL_FLAG_END_VALUE]))"

definition qmiLocSensorTemperatureSampleListStructT_data_v02 :: "int list" where
  "qmiLocSensorTemperatureSampleListStructT_data_v02 =
    (let off = offsetof qmiLocSensorTemperatureSampleListStructT_v02 in uint8_array (
      [QMI_IDL_GENERIC_4_BYTE, QMI_IDL_OFFSET8 off ''timeSource'',
       QMI_IDL_GENERIC_4_BYTE, QMI_IDL_OFFSET8 off ''timeOfFirstSample'',
       QMI_IDL_FLAGS_IS_ARRAY OR QMI_IDL_FLAGS_IS_VARIABLE_LEN OR QMI_IDL_AGGREGATE, QMI_IDL_OFFSET8 off ''temperatureData'', QMI_LOC_SENSOR_DATA_MAX_SAMPLES_V02, QMI_IDL_OFFSET8 off ''temperatureData'' - QMI_IDL_OFFSET8 off ''temperatureData_len''] @ QMI_IDL_TYPE88 0 43 @
      [QMI_IDL_FLAG_END_VALUE]))"

definition qmiLocApnProfilesStructT_data_v02 :: "int list" where
  "qmiLocApnProfilesStructT_data_v02 =
    (let off = offsetof qmiLocApnProfilesStructT_v02 in uint8_array (
      [QMI_IDL_GENERIC_4_BYTE, QMI_IDL_OFFSET8 off ''pdnType'',
       QMI_IDL_FLAGS_IS_ARRAY OR QMI_IDL_FLAGS_IS_VARIABLE_LEN OR QMI_IDL_STRING, QMI_IDL_OFFSET8 off ''apnName'', QMI_LOC_MAX_APN_NAME_LENGTH_V02,
       QMI_IDL_FLAG_END_VALUE]))"

definition qmiLocCircularGeofenceArgsStructT_data_v02 :: "int list" where
  "qmiLocCircularGeofenceArgsStructT_data_v02 =
    (let off = offsetof qmiLocCircularGeofenceArgsStructT_v02 in uint8_array (
      [QMI_IDL_GENERIC_8_BYTE, QMI_IDL_OFFSET8 off ''latitude'',
       QMI_IDL_GENERIC_8_BYTE, QMI_IDL_OFFSET8 off ''longitude'',
       QMI_IDL_GENERIC_4_BYTE, QMI_IDL_OFFSET8 off ''radius'',
       QMI_IDL_FLAG_END_VALUE]))"

definition qmiLocGeofenceMotionStateConfigStructT_data_v02 :: "int list" where
  "qmiLocGeofenceMotionStateConfigStructT_data_v02 =
    (let off = offsetof qmiLocGeofenceMotionStateConfigStructT_v02 in uint8_array (
      [QMI_IDL_GENERIC_4_BYTE, QMI_IDL_OFFSET8 off ''motionState'',
       QMI_IDL_GENERIC_4_BYTE, QMI_IDL_OFFSET8 off ''motionStateSpeed'',
       QMI_IDL_FLAG_END_VALUE]))"

definition qmiLocTimeZoneStructT_data_v02 :: "int list" where
  "qmiLocTimeZoneStructT_data_v02 =
    (let off = offsetof qmiLocTimeZoneStructT_v02 in uint8_array (
      [QMI_IDL_GENERIC_8_BYTE, QMI_IDL_OFFSET8 off ''dstOffset'',
       QMI_IDL_GENERIC_8_BYTE, QMI_IDL_OFFSET8 off ''rawOffset'',
       QMI_IDL_FLAG_END_VALUE]))"

definition qmiLocMotionDataStructT_data_v02 :: "int list" where
  "qmiLocMotionDataStructT_data_v02 =
    (let off = offsetof qmiLocMotionDataStructT_v02 in uint8_array (
      [QMI_IDL_GENERIC_4_BYTE, QMI_IDL_OFFSET8 off ''motion_state'',
       QMI_IDL_GENERIC_4_BYTE, QMI_IDL_OFFSET8 off ''motion_mode'',
       QMI_IDL_GENERIC_4_BYTE, QMI_IDL_OFFSET8 off ''probability_of_state'',
       QMI_IDL_GENERIC_2_BYTE, QMI_IDL_OFFSET8 off ''age'',
       QMI_IDL_GENERIC_2_BYTE, QMI_IDL_OFFSET8 off ''timeout'',
       QMI_IDL_FLAG_END_VALUE]))"

definition qmiLocGSMCellIdStructT_data_v02 :: "int list" where
  "qmiLocGSMCellIdStructT_data_v02 =
    (let off = offsetof qmiLocGSMCellIdStructT_v02 in uint8_array (
      [QMI_IDL_GENERIC_4_BYTE, QMI_IDL_OFFSET8 off ''MCC'',
       QMI_IDL_GENERIC_4_BYTE, QMI_IDL_OFFSET8 off ''MNC'',
       QMI_IDL_GENERIC_4_BYTE, QMI_IDL_OFFSET8 off ''LAC'',
       QMI_IDL_GENERIC_4_BYTE, QMI_IDL_OFFSET8 off ''CID'',
       QMI_IDL_FLAG_END_VALUE]))"

definition qmiLocWCDMACellIdStructT_data_v02 :: "int list" where
  "qmiLocWCDMACellIdStructT_data_v02 =
    (let off = offsetof qmiLocWCDMACellIdStructT_v02 in uint8_array (
      [QMI_IDL_GENERIC_4_BYTE, QMI_IDL_OFFSET8 off ''mcc'',
       QMI_IDL_GENERIC_4_BYTE, QMI_IDL_OFFSET8 off ''mnc'',
       QMI_IDL_GENERIC_4_BYTE, QMI_IDL_OFFSET8 off ''cid'',
       QMI_IDL_FLAG_END_VALUE]))"

definition qmiLocTDSCDMACellIdStructT_data_v02 :: "int list" where
  "qmiLocTDSCDMACellIdStructT_data_v02 =
    (let off = offsetof qmiLocTDSCDMACellIdStructT_v02 in uint8_array (
      [QMI_IDL_GENERIC_4_BYTE, QMI_IDL_OFFSET8 off ''mcc'',
       QMI_IDL_GENERIC_4_BYTE, QMI_IDL_OFFSET8 off ''mnc'',
       QMI_IDL_GENERIC_4_BYTE, QMI_IDL_OFFSET8 off ''cid'',
       QMI_IDL_GENERIC_4_BYTE, QMI_IDL_OFFSET8 off ''lac'',
       QMI_IDL_FLAG_END_VALUE]))"

definition qmiLocBatchedReportStructT_data_v02 :: "int list" where
  "qmiLocBatchedReportStructT_data_v02 =
    (let off = offsetof qmiLocBatchedReportStructT_v02 in uint8_array (
      [QMI_IDL_GENERIC_4_BYTE, QMI_IDL_OFFSET8 off ''fixId'',
       QMI_IDL_GENERIC_8_BYTE, QMI_IDL_OFFSET8 off ''validFields'',
       QMI_IDL_GENERIC_8_BYTE, QMI_IDL_OFFSET8 off ''latitude'',
       QMI_IDL_GENERIC_8_BYTE, QMI_IDL_OFFSET8 off ''longitude'',
       QMI_IDL_GENERIC_4_BYTE, QMI_IDL_OFFSET8 off ''horUncCircular'',
       QMI_IDL_GENERIC_4_BYTE, QMI_IDL_OFFSET8 off ''speedHorizontal'',
       QMI_IDL_GENERIC_4_BYTE, QMI_IDL_OFFSET8 off ''speedUnc'',
       QMI_IDL_GENERIC_4_BYTE, QMI_IDL_OFFSET8 off ''altitudeWrtEllipsoid'',
       QMI_IDL_GENERIC_4_BYTE, QMI_IDL_OFFSET8 off ''speedVertical'',
       QMI_IDL_GENERIC_4_BYTE, QMI_IDL_OFFSET8 off ''heading'',
       QMI_IDL_GENERIC_4_BYTE, QMI_IDL_OFFSET8 off ''headingUnc'',
       QMI_IDL_GENERIC_4_BYTE, QMI_IDL_OFFSET8 off ''technologyMask'',
       QMI_IDL_GENERIC_8_BYTE, QMI_IDL_OFFSET8 off ''timestampUtc'',
       QMI_IDL_GENERIC_4_BYTE, QMI_IDL_OFFSET8 off ''timeUnc'',
       QMI_IDL_GENERIC_4_BYTE, QMI_IDL_OFFSET8 off ''magneticDeviation'',
       QMI_IDL_GENERIC_4_BYTE, QMI_IDL_OFFSET8 off ''vertUnc'',
       QMI_IDL_GENERIC_1_BYTE, QMI_IDL_OFFSET8 off ''horConfidence'',
       QMI_IDL_AGGREGATE, QMI_IDL_OFFSET8 off ''gpsTime''] @ QMI_IDL_TYPE88 0 2 @
      [QMI_IDL_FLAG_END_VALUE]))"

definition qmiLocWifiApDataStructT_data_v02 :: "int list" where
  "qmiLocWifiApDataStructT_data_v02 =
    (let off = offsetof qmiLocWifiApDataStructT_v02 in uint8_array (
      [QMI_IDL_GENERIC_4_BYTE, QMI_IDL_OFFSET8 off ''wifiApDataMask'',
       QMI_IDL_FLAGS_IS_ARRAY OR QMI_IDL_GENERIC_1_BYTE, QMI_IDL_OFFSET8 off ''macAddress'', QMI_LOC_WIFI_MAC_ADDR_LENGTH_V02,
       QMI_IDL_GENERIC_4_BYTE, QMI_IDL_OFFSET8 off ''apTransmitPower'',
       QMI_IDL_GENERIC_4_BYTE, QMI_IDL_OFFSET8 off ''apAntennaGain'',
       QMI_IDL_GENERIC_4_BYTE, QMI_IDL_OFFSET8 off ''apSignalToNoise'',
       QMI_IDL_GENERIC_4_BYTE, QMI_IDL_OFFSET8 off ''apDeviceType'',
       QMI_IDL_GENERIC_4_BYTE, QMI_IDL_OFFSET8 off ''apRssi'',
       QMI_IDL_GENERIC_2_BYTE, QMI_IDL_OFFSET8 off ''apChannel'',
       QMI_IDL_GENERIC_4_BYTE, QMI_IDL_OFFSET8 off ''apRoundTripDelay'',
       QMI_IDL_GENERIC_4_BYTE, QMI_IDL_OFFSET8 off ''apRoundTripDelayUnit'',
       QMI_IDL_GENERIC_1_BYTE, QMI_IDL_OFFSET8 off ''apRoundTripDelayAccuracy'',
       QMI_IDL_GENERIC_4_BYTE, QMI_IDL_OFFSET8 off ''mobileSignalToNoise'',
       QMI_IDL_GENERIC_4_BYTE, QMI_IDL_OFFSET8 off ''mobileRssi'',
       QMI_IDL_FLAG_END_VALUE]))"

definition qmiLocWifiApAdditionalDataStructT_data_v02 :: "int list" where
  "qmiLocWifiApAdditionalDataStructT_data_v02 =
    (let off = offsetof qmiLocWifiApAdditionalDataStructT_v02 in uint8_array (
      [QMI_IDL_GENERIC_8_BYTE, QMI_IDL_OFFSET8 off ''rssiTimestamp'',
       QMI_IDL_GENERIC_4_BYTE, QMI_IDL_OFFSET8 off ''measAge'',
       QMI_IDL_GENERIC_1_BYTE, QMI_IDL_OFFSET8 off ''servingAccessPoint'',
       QMI_IDL_GENERIC_4_BYTE, QMI_IDL_OFFSET8 off ''channelFrequency'',
       QMI_IDL_FLAGS_IS_ARRAY OR QMI_IDL_FLAGS_IS_VARIABLE_LEN OR QMI_IDL_STRING, QMI_IDL_OFFSET8 off ''ssid'', QMI_LOC_MAX_WIFI_AP_SSID_STR_LENGTH_V02,
       QMI_IDL_GENERIC_4_BYTE, QMI_IDL_OFFSET8 off ''apHighResolutionRssi'',
       QMI_IDL_FLAG_END_VALUE]))"

definition qmiLocVehicleSensorSampleStructT_data_v02 :: "int list" where
  "qmiLocVehicleSensorSampleStructT_data_v02 =
    (let off = offsetof qmiLocVehicleSensorSampleStructT_v02 in uint8_array (
      [QMI_IDL_GENERIC_4_BYTE, QMI_IDL_OFFSET8 off ''timeOffset'',
       QMI_IDL_FLAGS_IS_ARRAY OR QMI_IDL_FLAGS_IS_VARIABLE_LEN OR QMI_IDL_GENERIC_4_BYTE, QMI_IDL_OFFSET8 off ''axisSample'', QMI_LOC_VEHICLE_SENSOR_DATA_MAX_AXES_V02, QMI_IDL_OFFSET8 off ''axisSample'' - QMI_IDL_OFFSET8 off ''axisSample_len'',
       QMI_IDL_FLAG_END_VALUE]))"

definition qmiLocVehicleSensorSampleListStructType_data_v02 :: "int list" where
  "qmiLocVehicleSensorSampleListStructType_data_v02 =
    (let off = offsetof qmiLocVehicleSensorSampleListStructType_v02 in uint8_array (
      [QMI_IDL_GENERIC_4_BYTE, QMI_IDL_OFFSET8 off ''sampleTimeBase'',
       QMI_IDL_GENERIC_1_BYTE, QMI_IDL_OFFSET8 off ''axesValidity'',
       QMI_IDL_FLAGS_IS_ARRAY OR QMI_IDL_FLAGS_IS_VARIABLE_LEN OR QMI_IDL_AGGREGATE, QMI_IDL_OFFSET8 off ''sensorData'', QMI_LOC_VEHICLE_SENSOR_DATA_MAX_SAMPLES_V02, QMI_IDL_OFFSET8 off ''sensorData'' - QMI_IDL_OFFSET8 off ''sensorData_len''] @ QMI_IDL_TYPE88 0 56 @
      [QMI_IDL_FLAG_END_VALUE]))"

definition qmiLocVehicleOdometrySampleStructT_data_v02 :: "int list" where
  "qmiLocVehicleOdometrySampleStructT_data_v02 =
    (let off = offsetof qmiLocVehicleOdometrySampleStructT_v02 in uint8_array (
      [QMI_IDL_GENERIC_4_BYTE, QMI_IDL_OFFSET8 off ''timeOffset'',
       QMI_IDL_FLAGS_IS_ARRAY OR QMI_IDL_FLAGS_IS_VARIABLE_LEN OR QMI_IDL_GENERIC_4_BYTE, QMI_IDL_OFFSET8 off ''distanceTravelled'', QMI_LOC_VEHICLE_ODOMETRY_MAX_MEASUREMENTS_V02, QMI_IDL_OFFSET8 off ''distanceTravelled'' - QMI_IDL_OFFSET8 off ''distanceTravelled_len'',
       QMI_IDL_FLAG_END_VALUE]))"

definition qmiLocVehicleOdometrySampleListStructT_data_v02 :: "int list" where
  "qmiLocVehicleOdometrySampleListStructT_data_v02 =
    (let off = offsetof qmiLocVehicleOdometrySampleListStructT_v02 in uint8_array (
      [QMI_IDL_GENERIC_4_BYTE, QMI_IDL_OFFSET8 off ''sampleTimeBase'',
       QMI_IDL_GENERIC_4_BYTE, QMI_IDL_OFFSET8 off ''flags'',
       QMI_IDL_GENERIC_4_BYTE, QMI_IDL_OFFSET8 off ''wheelFlags'',
       QMI_IDL_GENERIC_4_BYTE, QMI_IDL_OFFSET8 off ''distanceTravelledBase'',
       QMI_IDL_FLAGS_IS_ARRAY OR QMI_IDL_FLAGS_IS_VARIABLE_LEN OR QMI_IDL_AGGREGATE, QMI_IDL_OFFSET8 off ''odometryData'', QMI_LOC_VEHICLE_SENSOR_DATA_MAX_SAMPLES_V02, QMI_IDL_OFFSET8 off ''odometryData'' - QMI_IDL_OFFSET8 off ''odometryData_len''] @ QMI_IDL_TYPE88 0 58 @
      [QMI_IDL_FLAG_END_VALUE]))"

definition qmiLocRcvrClockFrequencyInfoStructT_data_v02 :: "int list" where
  "qmiLocRcvrClockFrequencyInfoStructT_data_v02 =
    (let off = offsetof qmiLocRcvrClockFrequencyInfoStructT_v02 in uint8_array (
      [QMI_IDL_GENERIC_4_BYTE, QMI_IDL_OFFSET8 off ''clockDrift'',
       QMI_IDL_GENERIC_4_BYTE, QMI_IDL_OFFSET8 off ''clockDriftUnc'',
       QMI_IDL_GENERIC_4_BYTE, QMI_IDL_OFFSET8 off ''sourceOfFreq'',
       QMI_IDL_FLAG_END_VALUE]))"

definition qmiLocLeapSecondInfoStructT_data_v02 :: "int list" where
  "qmiLocLeapSecondInfoStructT_data_v02 =
    (let off = offsetof qmiLocLeapSecondInfoStructT_v02 in uint8_array (
      [QMI_IDL_GENERIC_1_BYTE, QMI_IDL_OFFSET8 off ''leapSec'',
       QMI_IDL_GENERIC_1_BYTE, QMI_IDL_OFFSET8 off ''leapSecUnc'',
       QMI_IDL_FLAG_END_VALUE]))"

definition qmiLocInterSystemBiasStructT_data_v02 :: "int list" where
  "qmiLocInterSystemBiasStructT_data_v02 =
    (let off = offsetof qmiLocInterSystemBiasStructT_v02 in uint8_array (
      [QMI_IDL_GENERIC_1_BYTE, QMI_IDL_OFFSET8 off ''validMask'',
       QMI_IDL_GENERIC_4_BYTE, QMI_IDL_OFFSET8 off ''timeBias'',
       QMI_IDL_GENERIC_4_BYTE, QMI_IDL_OFFSET8 off ''timeBiasUnc'',
       QMI_IDL_FLAG_END_VALUE]))"

definition qmiLocGloTimeStructT_data_v02 :: "int list" where
  "qmiLocGloTimeStructT_data_v02 =
    (let off = offsetof qmiLocGloTimeStructT_v02 in uint8_array (
      [QMI_IDL_GENERIC_1_BYTE, QMI_IDL_OFFSET8 off ''gloFourYear'',
       QMI_IDL_GENERIC_2_BYTE, QMI_IDL_OFFSET8 off ''gloDays'',
       QMI_IDL_GENERIC_4_BYTE, QMI_IDL_OFFSET8 off ''gloMsec'',
       QMI_IDL_GENERIC_4_BYTE, QMI_IDL_OFFSET8 off ''gloClkTimeBias'',
       QMI_IDL_GENERIC_4_BYTE, QMI_IDL_OFFSET8 off ''gloClkTimeUncMs'',
       QMI_IDL_FLAG_END_VALUE]))"

definition qmiLocGnssTimeExtStructT_data_v02 :: "int list" where
  "qmiLocGnssTimeExtStructT_data_v02 =
    (let off = offsetof qmiLocGnssTimeExtStructT_v02 in uint8_array (
      [QMI_IDL_GENERIC_4_BYTE, QMI_IDL_OFFSET8 off ''refFCount'',
       QMI_IDL_GENERIC_1_BYTE, QMI_IDL_OFFSET8 off ''systemRtc_valid'',
       QMI_IDL_GENERIC_8_BYTE, QMI_IDL_OFFSET8 off ''systemRtcMs'',
       QMI_IDL_GENERIC_4_BYTE, QMI_IDL_OFFSET8 off ''sourceOfTime'',
       QMI_IDL_FLAG_END_VALUE]))"

definition qmiLocSVTimeSpeedStructT_data_v02 :: "int list" where
  "qmiLocSVTimeSpeedStructT_data_v02 =
    (let off = offsetof qmiLocSVTimeSpeedStructT_v02 in uint8_array (
      [QMI_IDL_GENERIC_4_BYTE, QMI_IDL_OFFSET8 off ''svTimeMs'',
       QMI_IDL_GENERIC_4_BYTE, QMI_IDL_OFFSET8 off ''svTimeSubMs'',
       QMI_IDL_GENERIC_4_BYTE, QMI_IDL_OFFSET8 off ''svTimeUncMs'',
       QMI_IDL_GENERIC_4_BYTE, QMI_IDL_OFFSET8 off ''dopplerShift'',
       QMI_IDL_GENERIC_4_BYTE, QMI_IDL_OFFSET8 off ''dopplerShiftUnc'',
       QMI_IDL_GENERIC_1_BYTE, QMI_IDL_OFFSET8 off ''dopplerAccel_valid'',
       QMI_IDL_GENERIC_4_BYTE, QMI_IDL_OFFSET8 off ''dopplerAccel'',
       QMI_IDL_FLAG_END_VALUE]))"

definition qmiLocSVMeasurementStructT_data_v02 :: "int list" where
  "qmiLocSVMeasurementStructT_data_v02 =
    (let off = offsetof qmiLocSVMeasurementStructT_v02 in uint8_array (
      [QMI_IDL_GENERIC_2_BYTE, QMI_IDL_OFFSET8 off ''gnssSvId'',
       QMI_IDL_GENERIC_1_BYTE, QMI_IDL_OFFSET8 off ''gloFrequency'',
       QMI_IDL_GENERIC_4_BYTE, QMI_IDL_OFFSET8 off ''svStatus'',
       QMI_IDL_GENERIC_2_BYTE, QMI_IDL_OFFSET8 off ''validMask'',
       QMI_IDL_GENERIC_1_BYTE, QMI_IDL_OFFSET8 off ''healthStatus'',
       QMI_IDL_GENERIC_1_BYTE, QMI_IDL_OFFSET8 off ''svInfoMask'',
       QMI_IDL_GENERIC_8_BYTE, QMI_IDL_OFFSET8 off ''validMeasStatusMask'',
       QMI_IDL_GENERIC_8_BYTE, QMI_IDL_OFFSET8 off ''measurementStatus'',
       QMI_IDL_GENERIC_2_BYTE, QMI_IDL_OFFSET8 off ''CNo'',
       QMI_IDL_GENERIC_2_BYTE, QMI_IDL_OFFSET8 off ''gloRfLoss'',
       QMI_IDL_GENERIC_4_BYTE, QMI_IDL_OFFSET8 off ''measLatency'',
       QMI_IDL_AGGREGATE, QMI_IDL_OFFSET8 off ''svTimeSpeed''] @ QMI_IDL_TYPE88 0 65 @
      [QMI_IDL_GENERIC_1_BYTE, QMI_IDL_OFFSET8 off ''lossOfLock'',
       QMI_IDL_GENERIC_4_BYTE, QMI_IDL_OFFSET8 off ''multipathEstimate'',
       QMI_IDL_GENERIC_4_BYTE, QMI_IDL_OFFSET8 off ''fineSpeed'',
       QMI_IDL_GENERIC_4_BYTE, QMI_IDL_OFFSET8 off ''fineSpeedUnc'',
       QMI_IDL_GENERIC_8_BYTE, QMI_IDL_OFFSET8 off ''carrierPhase'',
       QMI_IDL_GENERIC_1_BYTE, QMI_IDL_OFFSET8 off ''cycleSlipCount'',
       QMI_IDL_GENERIC_4_BYTE, QMI_IDL_OFFSET8 off ''svAzimuth'',
       QMI_IDL_GENERIC_4_BYTE, QMI_IDL_OFFSET8 off ''svElevation'',
       QMI_IDL_FLAG_END_VALUE]))"

definition qmiLocDgnssSVMeasurementStructT_data_v02 :: "int list" where
  "qmiLocDgnssSVMeasurementStructT_data_v02 =
    (let off = offsetof qmiLocDgnssSVMeasurementStructT_v02 in uint8_array (
      [QMI_IDL_GENERIC_8_BYTE, QMI_IDL_OFFSET8 off ''dgnssMeasStatus'',
       QMI_IDL_GENERIC_4_BYTE, QMI_IDL_OFFSET8 off ''diffDataEpochTimeMsec'',
       QMI_IDL_GENERIC_4_BYTE, QMI_IDL_OFFSET8 off ''prCorrMeters'',
       QMI_IDL_GENERIC_4_BYTE, QMI_IDL_OFFSET8 off ''prrCorrMetersPerSec'',
       QMI_IDL_FLAG_END_VALUE]))"

definition qmiLocMlInferSVMeasurementStructT_data_v02 :: "int list" where
  "qmiLocMlInferSVMeasurementStructT_data_v02 =
    (let off = offsetof qmiLocMlInferSVMeasurementStructT_v02 in uint8_array (
      [QMI_IDL_GENERIC_1_BYTE, QMI_IDL_OFFSET8 off ''mlInfer_valid'',
       QMI_IDL_GENERIC_4_BYTE, QMI_IDL_OFFSET8 off ''mlInfer'',
       QMI_IDL_FLAG_END_VALUE]))"

definition qmiLocWifiApMacAddressStructT_data_v02 :: "int list" where
  "qmiLocWifiApMacAddressStructT_data_v02 =
    (let off = offsetof qmiLocWifiApMacAddressStructT_v02 in uint8_array (
      [QMI_IDL_FLAGS_IS_ARRAY OR QMI_IDL_GENERIC_1_BYTE, QMI_IDL_OFFSET8 off ''wifiApMacAddress'', QMI_LOC_WIFI_MAC_ADDR_LENGTH_V02,
       QMI_IDL_FLAG_END_VALUE]))"

definition qmiLocIBeaconIdStructT_data_v02 :: "int list" where
  "qmiLocIBeaconIdStructT_data_v02 =
    (let off = offsetof qmiLocIBeaconIdStructT_v02 in uint8_array (
      [QMI_IDL_FLAGS_IS_ARRAY OR QMI_IDL_FLAGS_IS_VARIABLE_LEN OR QMI_IDL_STRING, QMI_IDL_OFFSET8 off ''uuid'', QMI_LOC_MAX_IBEACON_UUID_STR_LENGTH_V02,
       QMI_IDL_GENERIC_4_BYTE, QMI_IDL_OFFSET8 off ''majorNumber'',
       QMI_IDL_GENERIC_4_BYTE, QMI_IDL_OFFSET8 off ''minorNumber'',
       QMI_IDL_FLAG_END_VALUE]))"

definition qmiLocGtpAsnVerStructT_data_v02 :: "int list" where
  "qmiLocGtpAsnVerStructT_data_v02 =
    (let off = offsetof qmiLocGtpAsnVerStructT_v02 in uint8_array (
      [QMI_IDL_GENERIC_1_BYTE, QMI_IDL_OFFSET8 off ''asnMajorVersion'',
       QMI_IDL_GENERIC_1_BYTE, QMI_IDL_OFFSET8 off ''asnMinorVersion'',
       QMI_IDL_GENERIC_1_BYTE, QMI_IDL_OFFSET8 off ''asnPointVersion'',
       QMI_IDL_FLAG_END_VALUE]))"

definition qmiLocDbtPositionStructT_data_v02 :: "int list" where
  "qmiLocDbtPositionStructT_data_v02 =
    (let off = offsetof qmiLocDbtPositionStructT_v02 in uint8_array (
      [QMI_IDL_GENERIC_8_BYTE, QMI_IDL_OFFSET8 off ''timestampUtc'',
       QMI_IDL_GENERIC_8_BYTE, QMI_IDL_OFFSET8 off ''latitude'',
       QMI_IDL_GENERIC_8_BYTE, QMI_IDL_OFFSET8 off ''longitude'',
       QMI_IDL_GENERIC_4_BYTE, QMI_IDL_OFFSET8 off ''horUncEllipseSemiMinor'',
       QMI_IDL_GENERIC_4_BYTE, QMI_IDL_OFFSET8 off ''horUncEllipseSemiMajor'',
       QMI_IDL_GENERIC_4_BYTE, QMI_IDL_OFFSET8 off ''horUncEllipseOrientAzimuth'',
       QMI_IDL_GENERIC_1_BYTE, QMI_IDL_OFFSET8 off ''speedHorizontal_valid'',
       QMI_IDL_GENERIC_4_BYTE, QMI_IDL_OFFSET8 off ''speedHorizontal'',
       QMI_IDL_GENERIC_1_BYTE, QMI_IDL_OFFSET8 off ''altitudeWrtEllipsoid_valid'',
       QMI_IDL_GENERIC_4_BYTE, QMI_IDL_OFFSET8 off ''altitudeWrtEllipsoid'',
       QMI_IDL_GENERIC_1_BYTE, QMI_IDL_OFFSET8 off ''vertUnc_valid'',
       QMI_IDL_GENERIC_4_BYTE, QMI_IDL_OFFSET8 off ''vertUnc'',
       QMI_IDL_GENERIC_1_BYTE, QMI_IDL_OFFSET8 off ''speedVertical_valid'',
       QMI_IDL_GENERIC_4_BYTE, QMI_IDL_OFFSET8 off ''speedVertical'',
       QMI_IDL_GENERIC_1_BYTE, QMI_IDL_OFFSET8 off ''heading_valid'',
       QMI_IDL_GENERIC_4_BYTE, QMI_IDL_OFFSET8 off ''heading'',
       QMI_IDL_FLAG_END_VALUE]))"

definition qmiLocApCacheStructT_data_v02 :: "int list" where
  "qmiLocApCacheStructT_data_v02 =
    (let off = offsetof qmiLocApCacheStructT_v02 in uint8_array (
      [QMI_IDL_GENERIC_8_BYTE, QMI_IDL_OFFSET8 off ''macAddress'',
       QMI_IDL_GENERIC_4_BYTE, QMI_IDL_OFFSET8 off ''xLat'',
       QMI_IDL_GENERIC_4_BYTE, QMI_IDL_OFFSET8 off ''yLon'',
       QMI_IDL_GENERIC_4_BYTE, QMI_IDL_OFFSET8 off ''mar'',
       QMI_IDL_FLAG_END_VALUE]))"

definition qmiLocApCacheHepeRelStructT_data_v02 :: "int list" where
  "qmiLocApCacheHepeRelStructT_data_v02 =
    (let off = offsetof qmiLocApCacheHepeRelStructT_v02 in uint8_array (
      [QMI_IDL_GENERIC_1_BYTE, QMI_IDL_OFFSET8 off ''hepeValid'',
       QMI_IDL_GENERIC_2_BYTE, QMI_IDL_OFFSET8 off ''hepe'',
       QMI_IDL_GENERIC_4_BYTE, QMI_IDL_OFFSET8 off ''apReliability'',
       QMI_IDL_FLAG_END_VALUE]))"

definition qmiLocApDoNotCacheStructT_data_v02 :: "int list" where
  "qmiLocApDoNotCacheStructT_data_v02 =
    (let off = offsetof qmiLocApDoNotCacheStructT_v02 in uint8_array (
      [QMI_IDL_GENERIC_8_BYTE, QMI_IDL_OFFSET8 off ''macAddress'',
       QMI_IDL_FLAG_END_VALUE]))"

definition qmiLocDeleteSatelliteDataStructT_data_v02 :: "int list" where
  "qmiLocDeleteSatelliteDataStructT_data_v02 =
    (let off = offsetof qmiLocDeleteSatelliteDataStructT_v02 in uint8_array (
      [QMI_IDL_GENERIC_4_BYTE, QMI_IDL_OFFSET8 off ''system'',
       QMI_IDL_GENERIC_4_BYTE, QMI_IDL_OFFSET8 off ''deleteSatelliteDataMask'',
       QMI_IDL_FLAG_END_VALUE]))"

definition qmiLocInternalStatusReportDataStructT_data_v02 :: "int list" where
  "qmiLocInternalStatusReportDataStructT_data_v02 =
    (let off = offsetof qmiLocInternalStatusReportDataStructT_v02 in uint8_array (
      [QMI_IDL_FLAGS_IS_ARRAY OR QMI_IDL_GENERIC_1_BYTE, QMI_IDL_OFFSET8 off ''data'', QMI_LOC_INTERNAL_STATUS_REPORT_DATA_LENGTH_V02,
       QMI_IDL_FLAG_END_VALUE]))"

definition qmiLocSrnBtleApDeviceDataStructT_data_v02 :: "int list" where
  "qmiLocSrnBtleApDeviceDataStructT_data_v02 =
    (let off = offsetof qmiLocSrnBtleApDeviceDataStructT_v02 in uint8_array (
      [QMI_IDL_GENERIC_4_BYTE, QMI_IDL_OFFSET8 off ''srnApDataMask'',
       QMI_IDL_FLAGS_IS_ARRAY OR QMI_IDL_GENERIC_1_BYTE, QMI_IDL_OFFSET8 off ''macAddress'', QMI_LOC_SRN_MAC_ADDR_LENGTH_V02,
       QMI_IDL_GENERIC_4_BYTE, QMI_IDL_OFFSET8 off ''apSrnRssi'',
       QMI_IDL_GENERIC_8_BYTE, QMI_IDL_OFFSET8 off ''apSrnTimestamp'',
       QMI_IDL_FLAG_END_VALUE]))"

definition qmiLocWifiCrowdSourcingLocalConfigStructT_data_v02 :: "int list" where
  "qmiLocWifiCrowdSourcingLocalConfigStructT_data_v02 =
    (let off = offsetof qmiLocWifiCrowdSourcingLocalConfigStructT_v02 in uint8_array (
      [QMI_IDL_GENERIC_1_BYTE, QMI_IDL_OFFSET8 off ''enableCrowdSourcingOnDemand'',
       QMI_IDL_GENERIC_1_BYTE, QMI_IDL_OFFSET8 off ''enableCrowdSourcingOnUnsolicitedGnss'',
       QMI_IDL_GENERIC_1_BYTE, QMI_IDL_OFFSET8 off ''enableBatteryLevelBasedThrottling'',
       QMI_IDL_GENERIC_1_BYTE, QMI_IDL_OFFSET8 off ''enableRttCrowdSourcing'',
       QMI_IDL_GENERIC_1_BYTE, QMI_IDL_OFFSET8 off ''enableRtt3CrowdSourcing'',
       QMI_IDL_GENERIC_4_BYTE, QMI_IDL_OFFSET8 off ''rttSignalDbmThresh'',
       QMI_IDL_GENERIC_2_BYTE, QMI_IDL_OFFSET8 off ''maxDataTransferFormatVersionSupported'',
       QMI_IDL_FLAG_END_VALUE]))"

definition qmiLocWifiCrowdSourcingCapabilityStructT_data_v02 :: "int list" where
  "qmiLocWifiCrowdSourcingCapabilityStructT_data_v02 =
    (let off = offsetof qmiLocWifiCrowdSourcingCapabilityStructT_v02 in uint8_array (
      [QMI_IDL_GENERIC_1_BYTE, QMI_IDL_OFFSET8 off ''onDemandCrowdSourcingSupported'',
       QMI_IDL_GENERIC_1_BYTE, QMI_IDL_OFFSET8 off ''UnsolicitedGnssCrowdSourcingSupported'',
       QMI_IDL_GENERIC_1_BYTE, QMI_IDL_OFFSET8 off ''majorVersionSupported'',
       QMI_IDL_GENERIC_1_BYTE, QMI_IDL_OFFSET8 off ''minorVersionSupported'',
       QMI_IDL_GENERIC_2_BYTE, QMI_IDL_OFFSET8 off ''maxDataTransferFormatVersionSupported'',
       QMI_IDL_FLAG_END_VALUE]))"

definition qmiLocXtraInfoStructT_data_v02 :: "int list" where
  "qmiLocXtraInfoStructT_data_v02 =
    (let off = offsetof qmiLocXtraInfoStructT_v02 in uint8_array (
      [QMI_IDL_GENERIC_4_BYTE, QMI_IDL_OFFSET8 off ''reportMask'',
       QMI_IDL_GENERIC_2_BYTE, QMI_IDL_OFFSET8 off ''absAgeHrs'',
       QMI_IDL_GENERIC_8_BYTE, QMI_IDL_OFFSET8 off ''relAgeInUTC'',
       QMI_IDL_AGGREGATE, QMI_IDL_OFFSET8 off ''xtraServerInfo''] @ QMI_IDL_TYPE88 0 26 @
      [QMI_IDL_FLAGS_OFFSET_IS_16 OR QMI_IDL_AGGREGATE] @ QMI_IDL_OFFSET16ARRAY off ''ntpServerInfo'' @ QMI_IDL_TYPE88 0 24 @
      [QMI_IDL_FLAGS_OFFSET_IS_16 OR QMI_IDL_GENERIC_1_BYTE] @ QMI_IDL_OFFSET16ARRAY off ''timeRequest'' @
      [QMI_IDL_FLAGS_OFFSET_IS_16 OR QMI_IDL_GENERIC_2_BYTE] @ QMI_IDL_OFFSET16ARRAY off ''preferedValidAgeHrs'' @
      [QMI_IDL_FLAG_END_VALUE]))"

definition qmiLocVersionStructT_data_v02 :: "int list" where
  "qmiLocVersionStructT_data_v02 =
    (let off = offsetof qmiLocVersionStructT_v02 in uint8_array (
      [QMI_IDL_GENERIC_1_BYTE, QMI_IDL_OFFSET8 off ''majorVersion'',
       QMI_IDL_GENERIC_1_BYTE, QMI_IDL_OFFSET8 off ''minorVersion'',
       QMI_IDL_FLAG_END_VALUE]))"

definition qmiLocGtpClientSwVerStructT_data_v02 :: "int list" where
  "qmiLocGtpClientSwVerStructT_data_v02 =
    (let off = offsetof qmiLocGtpClientSwVerStructT_v02 in uint8_array (
      [QMI_IDL_GENERIC_1_BYTE, QMI_IDL_OFFSET8 off ''gtpClientSwMajorVersion'',
       QMI_IDL_GENERIC_1_BYTE, QMI_IDL_OFFSET8 off ''gtpClientSwMinorVersion'',
       QMI_IDL_FLAG_END_VALUE]))"

definition qmiLocHomeCarrierIdStructT_data_v02 :: "int list" where
  "qmiLocHomeCarrierIdStructT_data_v02 =
    (let off = offsetof qmiLocHomeCarrierIdStructT_v02 in uint8_array (
      [QMI_IDL_GENERIC_1_BYTE, QMI_IDL_OFFSET8 off ''homeMncValid'',
       QMI_IDL_GENERIC_4_BYTE, QMI_IDL_OFFSET8 off ''homeMcc'',
       QMI_IDL_GENERIC_4_BYTE, QMI_IDL_OFFSET8 off ''homeMnc'',
       QMI_IDL_FLAG_END_VALUE]))"

definition qmiLocPositionSourceStructT_data_v02 :: "int list" where
  "qmiLocPositionSourceStructT_data_v02 =
    (let off = offsetof qmiLocPositionSourceStructT_v02 in uint8_array (
      [QMI_IDL_GENERIC_1_BYTE, QMI_IDL_OFFSET8 off ''unspecifiedInternal'',
       QMI_IDL_GENERIC_1_BYTE, QMI_IDL_OFFSET8 off ''unspecifiedExternal'',
       QMI_IDL_GENERIC_1_BYTE, QMI_IDL_OFFSET8 off ''gnss'',
       QMI_IDL_GENERIC_1_BYTE, QMI_IDL_OFFSET8 off ''sensors'',
       QMI_IDL_GENERIC_1_BYTE, QMI_IDL_OFFSET8 off ''wifi'',
       QMI_IDL_GENERIC_1_BYTE, QMI_IDL_OFFSET8 off ''wwan'',
       QMI_IDL_FLAG_END_VALUE]))"

definition qmiLocBsBestPositionStructT_data_v02 :: "int list" where
  "qmiLocBsBestPositionStructT_data_v02 =
    (let off = offsetof qmiLocBsBestPositionStructT_v02 in uint8_array (
      [QMI_IDL_GENERIC_8_BYTE, QMI_IDL_OFFSET8 off ''latitude'',
       QMI_IDL_GENERIC_8_BYTE, QMI_IDL_OFFSET8 off ''longitude'',
       QMI_IDL_GENERIC_4_BYTE, QMI_IDL_OFFSET8 off ''horizontalUnc'',
       QMI_IDL_GENERIC_4_BYTE, QMI_IDL_OFFSET8 off ''altitude'',
       QMI_IDL_GENERIC_4_BYTE, QMI_IDL_OFFSET8 off ''altitudeUnc'',
       QMI_IDL_AGGREGATE, QMI_IDL_OFFSET8 off ''latestPositionSources''] @ QMI_IDL_TYPE88 0 85 @
      [QMI_IDL_FLAG_END_VALUE]))"

definition qmiLocFdclCellIdStructT_data_v02 :: "int list" where
  "qmiLocFdclCellIdStructT_data_v02 =
    (let off = offsetof qmiLocFdclCellIdStructT_v02 in uint8_array (
      [QMI_IDL_GENERIC_4_BYTE, QMI_IDL_OFFSET8 off ''airInterfaceType'',
       QMI_IDL_GENERIC_4_BYTE, QMI_IDL_OFFSET8 off ''id1'',
       QMI_IDL_GENERIC_4_BYTE, QMI_IDL_OFFSET8 off ''id2'',
       QMI_IDL_GENERIC_4_BYTE, QMI_IDL_OFFSET8 off ''id3'',
       QMI_IDL_GENERIC_4_BYTE, QMI_IDL_OFFSET8 off ''id4'',
       QMI_IDL_FLAG_END_VALUE]))"

definition qmiLocFdclCellPosStructT_data_v02 :: "int list" where
  "qmiLocFdclCellPosStructT_data_v02 =
    (let off = offsetof qmiLocFdclCellPosStructT_v02 in uint8_array (
      [QMI_IDL_GENERIC_4_BYTE, QMI_IDL_OFFSET8 off ''validMask'',
       QMI_IDL_AGGREGATE, QMI_IDL_OFFSET8 off ''cellId''] @ QMI_IDL_TYPE88 0 87 @
      [QMI_IDL_GENERIC_8_BYTE, QMI_IDL_OFFSET8 off ''latitude'',
       QMI_IDL_GENERIC_8_BYTE, QMI_IDL_OFFSET8 off ''longitude'',
       QMI_IDL_GENERIC_4_BYTE, QMI_IDL_OFFSET8 off ''horCoverageRadius'',
       QMI_IDL_GENERIC_1_BYTE, QMI_IDL_OFFSET8 off ''horConfidence'',
       QMI_IDL_GENERIC_4_BYTE, QMI_IDL_OFFSET8 off ''horReliability'',
       QMI_IDL_GENERIC_4_BYTE, QMI_IDL_OFFSET8 off ''altitude'',
       QMI_IDL_GENERIC_4_BYTE, QMI_IDL_OFFSET8 off ''altUnc'',
       QMI_IDL_GENERIC_1_BYTE, QMI_IDL_OFFSET8 off ''altConfidence'',
       QMI_IDL_GENERIC_4_BYTE, QMI_IDL_OFFSET8 off ''altReliability'',
       QMI_IDL_FLAG_END_VALUE]))"

definition qmiLocNextLeapSecondInfoStructT_data_v02 :: "int list" where
  "qmiLocNextLeapSecondInfoStructT_data_v02 =
    (let off = offsetof qmiLocNextLeapSecondInfoStructT_v02 in uint8_array (
      [QMI_IDL_GENERIC_1_BYTE, QMI_IDL_OFFSET8 off ''gpsTimeCurrent_valid'',
       QMI_IDL_AGGREGATE, QMI_IDL_OFFSET8 off ''gpsTimeCurrent''] @ QMI_IDL_TYPE88 0 2 @
      [QMI_IDL_GENERIC_1_BYTE, QMI_IDL_OFFSET8 off ''leapSecondsCurrent_valid'',
       QMI_IDL_GENERIC_1_BYTE, QMI_IDL_OFFSET8 off ''leapSecondsCurrent'',
       QMI_IDL_GENERIC_1_BYTE, QMI_IDL_OFFSET8 off ''gpsTimeNextLsEvent_valid'',
       QMI_IDL_AGGREGATE, QMI_IDL_OFFSET8 off ''gpsTimeNextLsEvent''] @ QMI_IDL_TYPE88 0 2 @
      [QMI_IDL_GENERIC_1_BYTE, QMI_IDL_OFFSET8 off ''leapSecondsNext_valid'',
       QMI_IDL_GENERIC_1_BYTE, QMI_IDL_OFFSET8 off ''leapSecondsNext'',
       QMI_IDL_FLAG_END_VALUE]))"

definition qmiLocBsObservedDataStructT_data_v02 :: "int list" where
  "qmiLocBsObservedDataStructT_data_v02 =
    (let off = offsetof qmiLocBsObservedDataStructT_v02 in uint8_array (
      [QMI_IDL_GENERIC_8_BYTE, QMI_IDL_OFFSET8 off ''validMask'',
       QMI_IDL_AGGREGATE, QMI_IDL_OFFSET8 off ''cellId''] @ QMI_IDL_TYPE88 0 87 @
      [QMI_IDL_GENERIC_2_BYTE, QMI_IDL_OFFSET8 off ''gpsWeek'',
       QMI_IDL_GENERIC_4_BYTE, QMI_IDL_OFFSET8 off ''gpsMilliseconds'',
       QMI_IDL_GENERIC_4_BYTE, QMI_IDL_OFFSET8 off ''bsLocalTimestamp'',
       QMI_IDL_GENERIC_4_BYTE, QMI_IDL_OFFSET8 off ''posDeltaTime'',
       QMI_IDL_GENERIC_4_BYTE, QMI_IDL_OFFSET8 off ''speed'',
       QMI_IDL_GENERIC_4_BYTE, QMI_IDL_OFFSET8 off ''speedUnc'',
       QMI_IDL_GENERIC_8_BYTE, QMI_IDL_OFFSET8 off ''heading'',
       QMI_IDL_GENERIC_8_BYTE, QMI_IDL_OFFSET8 off ''headingUnc'',
       QMI_IDL_AGGREGATE, QMI_IDL_OFFSET8 off ''bsBestPosition''] @ QMI_IDL_TYPE88 0 86 @
      [QMI_IDL_FLAG_END_VALUE]))"

definition qmiLocEphGnssDataStructT_data_v02 :: "int list" where
  "qmiLocEphGnssDataStructT_data_v02 =
    (let off = offsetof qmiLocEphGnssDataStructT_v02 in uint8_array (
      [QMI_IDL_GENERIC_2_BYTE, QMI_IDL_OFFSET8 off ''gnssSvId'',
       QMI_IDL_GENERIC_4_BYTE, QMI_IDL_OFFSET8 off ''updateAction'',
       QMI_IDL_GENERIC_2_BYTE, QMI_IDL_OFFSET8 off ''IODE'',
       QMI_IDL_GENERIC_8_BYTE, QMI_IDL_OFFSET8 off ''aSqrt'',
       QMI_IDL_GENERIC_8_BYTE, QMI_IDL_OFFSET8 off ''deltaN'',
       QMI_IDL_GENERIC_8_BYTE, QMI_IDL_OFFSET8 off ''m0'',
       QMI_IDL_GENERIC_8_BYTE, QMI_IDL_OFFSET8 off ''eccentricity'',
       QMI_IDL_GENERIC_8_BYTE, QMI_IDL_OFFSET8 off ''omega0'',
       QMI_IDL_GENERIC_8_BYTE, QMI_IDL_OFFSET8 off ''i0'',
       QMI_IDL_GENERIC_8_BYTE, QMI_IDL_OFFSET8 off ''omega'',
       QMI_IDL_GENERIC_8_BYTE, QMI_IDL_OFFSET8 off ''omegaDot'',
       QMI_IDL_GENERIC_8_BYTE, QMI_IDL_OFFSET8 off ''iDot'',
       QMI_IDL_GENERIC_8_BYTE, QMI_IDL_OFFSET8 off ''cUc'',
       QMI_IDL_GENERIC_8_BYTE, QMI_IDL_OFFSET8 off ''cUs'',
       QMI_IDL_GENERIC_8_BYTE, QMI_IDL_OFFSET8 off ''cRc'',
       QMI_IDL_GENERIC_8_BYTE, QMI_IDL_OFFSET8 off ''cRs'',
       QMI_IDL_GENERIC_8_BYTE, QMI_IDL_OFFSET8 off ''cIc'',
       QMI_IDL_GENERIC_8_BYTE, QMI_IDL_OFFSET8 off ''cIs'',
       QMI_IDL_GENERIC_4_BYTE, QMI_IDL_OFFSET8 off ''toe'',
       QMI_IDL_GENERIC_4_BYTE, QMI_IDL_OFFSET8 off ''toc'',
       QMI_IDL_GENERIC_8_BYTE, QMI_IDL_OFFSET8 off ''af0'',
       QMI_IDL_GENERIC_8_BYTE, QMI_IDL_OFFSET8 off ''af1'',
       QMI_IDL_GENERIC_8_BYTE, QMI_IDL_OFFSET8 off ''af2'',
       QMI_IDL_FLAG_END_VALUE]))"

definition qmiLocGpsEphemerisT_data_v02 :: "int list" where
  "qmiLocGpsEphemerisT_data_v02 =
    (let off = offsetof qmiLocGpsEphemerisT_v02 in uint8_array (
      [QMI_IDL_AGGREGATE, QMI_IDL_OFFSET8 off ''commonEphemerisData''] @ QMI_IDL_TYPE88 0 91 @
      [QMI_IDL_GENERIC_1_BYTE, QMI_IDL_OFFSET8 off ''signalHealth'',
       QMI_IDL_GENERIC_1_BYTE, QMI_IDL_OFFSET8 off ''URAI'',
       QMI_IDL_GENERIC_1_BYTE, QMI_IDL_OFFSET8 off ''codeL2'',
       QMI_IDL_GENERIC_1_BYTE, QMI_IDL_OFFSET8 off ''dataFlagL2P'',
       QMI_IDL_GENERIC_8_BYTE, QMI_IDL_OFFSET8 off ''tgd'',
       QMI_IDL_GENERIC_1_BYTE, QMI_IDL_OFFSET8 off ''fitInterval'',
       QMI_IDL_GENERIC_2_BYTE, QMI_IDL_OFFSET8 off ''IODC'',
       QMI_IDL_FLAG_END_VALUE]))"

definition qmiLocGpsExtEphemerisT_data_v02 :: "int list" where
  "qmiLocGpsExtEphemerisT_data_v02 =
    (let off = offsetof qmiLocGpsExtEphemerisT_v02 in uint8_array (
      [QMI_IDL_GENERIC_2_BYTE, QMI_IDL_OFFSET8 off ''gnssSvId'',
       QMI_IDL_GENERIC_2_BYTE, QMI_IDL_OFFSET8 off ''validityMask'',
       QMI_IDL_GENERIC_4_BYTE, QMI_IDL_OFFSET8 off ''iscL1ca'',
       QMI_IDL_GENERIC_4_BYTE, QMI_IDL_OFFSET8 off ''iscL2c'',
       QMI_IDL_GENERIC_4_BYTE, QMI_IDL_OFFSET8 off ''iscL5I5'',
       QMI_IDL_GENERIC_4_BYTE, QMI_IDL_OFFSET8 off ''iscL5Q5'',
       QMI_IDL_GENERIC_1_BYTE, QMI_IDL_OFFSET8 off ''alert'',
       QMI_IDL_GENERIC_1_BYTE, QMI_IDL_OFFSET8 off ''uraNed0'',
       QMI_IDL_GENERIC_1_BYTE, QMI_IDL_OFFSET8 off ''uraNed1'',
       QMI_IDL_GENERIC_1_BYTE, QMI_IDL_OFFSET8 off ''uraNed2'',
       QMI_IDL_GENERIC_8_BYTE, QMI_IDL_OFFSET8 off ''top'',
       QMI_IDL_GENERIC_2_BYTE, QMI_IDL_OFFSET8 off ''topClock'',
       QMI_IDL_GENERIC_4_BYTE, QMI_IDL_OFFSET8 off ''validityPeriod'',
       QMI_IDL_GENERIC_8_BYTE, QMI_IDL_OFFSET8 off ''deltaNdot'',
       QMI_IDL_GENERIC_8_BYTE, QMI_IDL_OFFSET8 off ''deltaA'',
       QMI_IDL_GENERIC_8_BYTE, QMI_IDL_OFFSET8 off ''adot'',
       QMI_IDL_FLAG_END_VALUE]))"

definition qmiLocGloEphemerisT_data_v02 :: "int list" where
  "qmiLocGloEphemerisT_data_v02 =
    (let off = offsetof qmiLocGloEphemerisT_v02 in uint8_array (
      [QMI_IDL_GENERIC_2_BYTE, QMI_IDL_OFFSET8 off ''gnssSvId'',
       QMI_IDL_GENERIC_4_BYTE, QMI_IDL_OFFSET8 off ''updateAction'',
       QMI_IDL_GENERIC_1_BYTE, QMI_IDL_OFFSET8 off ''bnHealth'',
       QMI_IDL_GENERIC_1_BYTE, QMI_IDL_OFFSET8 off ''lnHealth'',
       QMI_IDL_GENERIC_1_BYTE, QMI_IDL_OFFSET8 off ''tb'',
       QMI_IDL_GENERIC_1_BYTE, QMI_IDL_OFFSET8 off ''ft'',
       QMI_IDL_GENERIC_1_BYTE, QMI_IDL_OFFSET8 off ''gloM'',
       QMI_IDL_GENERIC_1_BYTE, QMI_IDL_OFFSET8 off ''enAge'',
       QMI_IDL_GENERIC_1_BYTE, QMI_IDL_OFFSET8 off ''gloFrequency'',
       QMI_IDL_GENERIC_1_BYTE, QMI_IDL_OFFSET8 off ''p1'',
       QMI_IDL_GENERIC_1_BYTE, QMI_IDL_OFFSET8 off ''p2'',
       QMI_IDL_GENERIC_4_BYTE, QMI_IDL_OFFSET8 off ''deltaTau'',
       QMI_IDL_FLAGS_IS_ARRAY OR QMI_IDL_GENERIC_8_BYTE, QMI_IDL_OFFSET8 off ''position'', 3,
       QMI_IDL_FLAGS_IS_ARRAY OR QMI_IDL_GENERIC_8_BYTE, QMI_IDL_OFFSET8 off ''velocity'', 3,
       QMI_IDL_FLAGS_IS_ARRAY OR QMI_IDL_GENERIC_8_BYTE, QMI_IDL_OFFSET8 off ''acceleration'', 3,
       QMI_IDL_GENERIC_4_BYTE, QMI_IDL_OFFSET8 off ''tauN'',
       QMI_IDL_GENERIC_4_BYTE, QMI_IDL_OFFSET8 off ''gamma'',
       QMI_IDL_GENERIC_8_BYTE, QMI_IDL_OFFSET8 off ''toe'',
       QMI_IDL_GENERIC_2_BYTE, QMI_IDL_OFFSET8 off ''nt'',
       QMI_IDL_FLAG_END_VALUE]))"

definition qmiLocBdsEphemerisT_data_v02 :: "int list" where
  "qmiLocBdsEphemerisT_data_v02 =
    (let off = offsetof qmiLocBdsEphemerisT_v02 in uint8_array (
      [QMI_IDL_AGGREGATE, QMI_IDL_OFFSET8 off ''commonEphemerisData''] @ QMI_IDL_TYPE88 0 91 @
      [QMI_IDL_GENERIC_1_BYTE, QMI_IDL_OFFSET8 off ''svHealth'',
       QMI_IDL_GENERIC_1_BYTE, QMI_IDL_OFFSET8 off ''AODC'',
       QMI_IDL_GENERIC_8_BYTE, QMI_IDL_OFFSET8 off ''tgd1'',
       QMI_IDL_GENERIC_8_BYTE, QMI_IDL_OFFSET8 off ''tgd2'',
       QMI_IDL_GENERIC_1_BYTE, QMI_IDL_OFFSET8 off ''URAI'',
       QMI_IDL_FLAG_END_VALUE]))"

definition qmiLocBdsExtEphemerisT_data_v02 :: "int list" where
  "qmiLocBdsExtEphemerisT_data_v02 =
    (let off = offsetof qmiLocBdsExtEphemerisT_v02 in uint8_array (
      [QMI_IDL_GENERIC_2_BYTE, QMI_IDL_OFFSET8 off ''gnssSvId'',
       QMI_IDL_GENERIC_2_BYTE, QMI_IDL_OFFSET8 off ''validityMask'',
       QMI_IDL_GENERIC_4_BYTE, QMI_IDL_OFFSET8 off ''tgdB2a'',
       QMI_IDL_GENERIC_4_BYTE, QMI_IDL_OFFSET8 off ''iscB2a'',
       QMI_IDL_GENERIC_4_BYTE, QMI_IDL_OFFSET8 off ''tgdB1c'',
       QMI_IDL_GENERIC_4_BYTE, QMI_IDL_OFFSET8 off ''iscB1c'',
       QMI_IDL_GENERIC_1_BYTE, QMI_IDL_OFFSET8 off ''svType'',
       QMI_IDL_GENERIC_4_BYTE, QMI_IDL_OFFSET8 off ''validityPeriod'',
       QMI_IDL_GENERIC_1_BYTE, QMI_IDL_OFFSET8 off ''integrityFlags'',
       QMI_IDL_GENERIC_8_BYTE, QMI_IDL_OFFSET8 off ''deltaNdot'',
       QMI_IDL_GENERIC_8_BYTE, QMI_IDL_OFFSET8 off ''deltaA'',
       QMI_IDL_GENERIC_8_BYTE, QMI_IDL_OFFSET8 off ''adot'',
       QMI_IDL_FLAG_END_VALUE]))"

definition qmiLocGalEphemerisT_data_v02 :: "int list" where
  "qmiLocGalEphemerisT_data_v02 =
    (let off = offsetof qmiLocGalEphemerisT_v02 in uint8_array (
      [QMI_IDL_AGGREGATE, QMI_IDL_OFFSET8 off ''commonEphemerisData''] @ QMI_IDL_TYPE88 0 91 @
      [QMI_IDL_GENERIC_4_BYTE, QMI_IDL_OFFSET8 off ''dataSourceSignal'',
       QMI_IDL_GENERIC_1_BYTE, QMI_IDL_OFFSET8 off ''sisIndex'',
       QMI_IDL_GENERIC_8_BYTE, QMI_IDL_OFFSET8 off ''bgdE1E5a'',
       QMI_IDL_GENERIC_8_BYTE, QMI_IDL_OFFSET8 off ''bgdE1E5b'',
       QMI_IDL_GENERIC_1_BYTE, QMI_IDL_OFFSET8 off ''svHealth'',
       QMI_IDL_FLAG_END_VALUE]))"

definition qmiLocKlobucharIonoModelT_data_v02 :: "int list" where
  "qmiLocKlobucharIonoModelT_data_v02 =
    (let off = offsetof qmiLocKlobucharIonoModelT_v02 in uint8_array (
      [QMI_IDL_GENERIC_4_BYTE, QMI_IDL_OFFSET8 off ''dataSource'',
       QMI_IDL_GENERIC_4_BYTE, QMI_IDL_OFFSET8 off ''alpha0'',
       QMI_IDL_GENERIC_4_BYTE, QMI_IDL_OFFSET8 off ''alpha1'',
       QMI_IDL_GENERIC_4_BYTE, QMI_IDL_OFFSET8 off ''alpha2'',
       QMI_IDL_GENERIC_4_BYTE, QMI_IDL_OFFSET8 off ''alpha3'',
       QMI_IDL_GENERIC_4_BYTE, QMI_IDL_OFFSET8 off ''beta0'',
       QMI_IDL_GENERIC_4_BYTE, QMI_IDL_OFFSET8 off ''beta1'',
       QMI_IDL_GENERIC_4_BYTE, QMI_IDL_OFFSET8 off ''beta2'',
       QMI_IDL_GENERIC_4_BYTE, QMI_IDL_OFFSET8 off ''beta3'',
       QMI_IDL_FLAG_END_VALUE]))"

definition qmiLocKlobucharIonoModelLimitsT_data_v02 :: "int list" where
  "qmiLocKlobucharIonoModelLimitsT_data_v02 =
    (let off = offsetof qmiLocKlobucharIonoModelLimitsT_v02 in uint8_array (
      [QMI_IDL_GENERIC_4_BYTE, QMI_IDL_OFFSET8 off ''signalType'',
       QMI_IDL_GENERIC_4_BYTE, QMI_IDL_OFFSET8 off ''maxLonLimit'',
       QMI_IDL_GENERIC_4_BYTE, QMI_IDL_OFFSET8 off ''minLonLimit'',
       QMI_IDL_GENERIC_4_BYTE, QMI_IDL_OFFSET8 off ''maxLatLimit'',
       QMI_IDL_GENERIC_4_BYTE, QMI_IDL_OFFSET8 off ''minLatLimit'',
       QMI_IDL_FLAG_END_VALUE]))"

definition qmiLocMePerGnssRfStructType_data_v02 :: "int list" where
  "qmiLocMePerGnssRfStructType_data_v02 =
    (let off = offsetof qmiLocMePerGnssRfStructType_v02 in uint8_array (
      [QMI_IDL_GENERIC_2_BYTE, QMI_IDL_OFFSET8 off ''bpAmpI'',
       QMI_IDL_GENERIC_2_BYTE, QMI_IDL_OFFSET8 off ''bpAmpQ'',
       QMI_IDL_GENERIC_4_BYTE, QMI_IDL_OFFSET8 off ''jammerPwrDb'',
       QMI_IDL_FLAG_END_VALUE]))"

definition qmiLocRobustLocationVersionT_data_v02 :: "int list" where
  "qmiLocRobustLocationVersionT_data_v02 =
    (let off = offsetof qmiLocRobustLocationVersionT_v02 in uint8_array (
      [QMI_IDL_GENERIC_1_BYTE, QMI_IDL_OFFSET8 off ''major'',
       QMI_IDL_GENERIC_2_BYTE, QMI_IDL_OFFSET8 off ''minor'',
       QMI_IDL_FLAG_END_VALUE]))"

definition qmiLocEnvAidingReflectingPlaneStructT_data_v02 :: "int list" where
  "qmiLocEnvAidingReflectingPlaneStructT_data_v02 =
    (let off = offsetof qmiLocEnvAidingReflectingPlaneStructT_v02 in uint8_array (
      [QMI_IDL_GENERIC_8_BYTE, QMI_IDL_OFFSET8 off ''latitudeDegrees'',
       QMI_IDL_GENERIC_8_BYTE, QMI_IDL_OFFSET8 off ''longitudeDegrees'',
       QMI_IDL_GENERIC_8_BYTE, QMI_IDL_OFFSET8 off ''altitudeMeters'',
       QMI_IDL_GENERIC_8_BYTE, QMI_IDL_OFFSET8 off ''azimuthDegrees'',
       QMI_IDL_FLAG_END_VALUE]))"

definition qmiLocEnvAidingSVCorrectionStructT_data_v02 :: "int list" where
  "qmiLocEnvAidingSVCorrectionStructT_data_v02 =
    (let off = offsetof qmiLocEnvAidingSVCorrectionStructT_v02 in uint8_array (
      [QMI_IDL_GENERIC_8_BYTE, QMI_IDL_OFFSET8 off ''svCorrectionFlags'',
       QMI_IDL_GENERIC_4_BYTE, QMI_IDL_OFFSET8 off ''constellation'',
       QMI_IDL_GENERIC_2_BYTE, QMI_IDL_OFFSET8 off ''svid'',
       QMI_IDL_GENERIC_4_BYTE, QMI_IDL_OFFSET8 off ''carrierFrequencyHz'',
       QMI_IDL_GENERIC_4_BYTE, QMI_IDL_OFFSET8 off ''probabilitySvIsLineofSight'',
       QMI_IDL_GENERIC_4_BYTE, QMI_IDL_OFFSET8 off ''excessPathLengthMeters'',
       QMI_IDL_GENERIC_4_BYTE, QMI_IDL_OFFSET8 off ''excessPathLengthUncMeters'',
       QMI_IDL_AGGREGATE, QMI_IDL_OFFSET8 off ''reflectingPlane''] @ QMI_IDL_TYPE88 0 102 @
      [QMI_IDL_FLAG_END_VALUE]))"

definition qmiLocNavDataStructT_data_v02 :: "int list" where
  "qmiLocNavDataStructT_data_v02 =
    (let off = offsetof qmiLocNavDataStructT_v02 in uint8_array (
      [QMI_IDL_GENERIC_2_BYTE, QMI_IDL_OFFSET8 off ''gnssSvId'',
       QMI_IDL_GENERIC_1_BYTE, QMI_IDL_OFFSET8 off ''type'',
       QMI_IDL_GENERIC_1_BYTE, QMI_IDL_OFFSET8 off ''src'',
       QMI_IDL_GENERIC_4_BYTE, QMI_IDL_OFFSET8 off ''age'',
       QMI_IDL_FLAG_END_VALUE]))"

definition qmiLocTimeStructT_data_v02 :: "int list" where
  "qmiLocTimeStructT_data_v02 =
    (let off = offsetof qmiLocTimeStructT_v02 in uint8_array (
      [QMI_IDL_GENERIC_4_BYTE, QMI_IDL_OFFSET8 off ''hours'',
       QMI_IDL_GENERIC_4_BYTE, QMI_IDL_OFFSET8 off ''mins'',
       QMI_IDL_GENERIC_4_BYTE, QMI_IDL_OFFSET8 off ''secs'',
       QMI_IDL_FLAG_END_VALUE]))"

definition qmiLocOsnmaTreeNodeT_data_v02 :: "int list" where
  "qmiLocOsnmaTreeNodeT_data_v02 =
    (let off = offsetof qmiLocOsnmaTreeNodeT_v02 in uint8_array (
      [QMI_IDL_GENERIC_1_BYTE, QMI_IDL_OFFSET8 off ''height'',
       QMI_IDL_GENERIC_1_BYTE, QMI_IDL_OFFSET8 off ''position'',
       QMI_IDL_FLAGS_IS_ARRAY OR QMI_IDL_FLAGS_IS_VARIABLE_LEN OR QMI_IDL_GENERIC_1_BYTE, QMI_IDL_OFFSET8 off ''hash'', QMI_LOC_MERKLE_TREE_HASH_ARRAY_LENGTH_V02, QMI_IDL_OFFSET8 off ''hash'' - QMI_IDL_OFFSET8 off ''hash_len'',
       QMI_IDL_FLAG_END_VALUE]))"

definition loc_type_table_v02_0 :: "qmi_idl_type_table_entry list" where
  "loc_type_table_v02_0 = [
    (qmiLocApplicationIdStructT_v02, qmiLocApplicationIdStructT_data_v02),
    (qmiLocPowerModeStructT_v02, qmiLocPowerModeStructT_data_v02),
    (qmiLocGPSTimeStructT_v02, qmiLocGPSTimeStructT_data_v02),
    (qmiLocDOPStructT_v02, qmiLocDOPStructT_data_v02),
    (qmiLocExtDOPStructT_v02, qmiLocExtDOPStructT_data_v02),
    (qmiLocSensorUsageIndicatorStructT_v02, qmiLocSensorUsageIndicatorStructT_data_v02),
    (qmiLocJammerIndicatorStructT_v02, qmiLocJammerIndicatorStructT_data_v02),
    (qmiLocJammerIndicatorExtStructT_v02, qmiLocJammerIndicatorExtStructT_data_v02),
    (qmiLocGnssTimeStructT_v02, qmiLocGnssTimeStructT_data_v02),
    (qmiLocSvInfoStructT_v02, qmiLocSvInfoStructT_data_v02),
    (qmiLocExpandedSvInfoStructT_v02, qmiLocExpandedSvInfoStructT_data_v02),
    (qmiLocNiVxNotifyVerifyStructT_v02, qmiLocNiVxNotifyVerifyStructT_data_v02),
    (qmiLocNiSuplFormattedStringStructT_v02, qmiLocNiSuplFormattedStringStructT_data_v02),
    (qmiLocNiSuplQopStructT_v02, qmiLocNiSuplQopStructT_data_v02),
    (qmiLocIpV4AddrStructType_v02, qmiLocIpV4AddrStructType_data_v02),
    (qmiLocIpV6AddrStructType_v02, qmiLocIpV6AddrStructType_data_v02),
    (qmiLocNiSuplServerInfoStructT_v02, qmiLocNiSuplServerInfoStructT_data_v02),
    (qmiLocNiSuplNotifyVerifyStructT_v02, qmiLocNiSuplNotifyVerifyStructT_data_v02),
    (qmiLocNiUmtsCpCodedStringStructT_v02, qmiLocNiUmtsCpCodedStringStructT_data_v02),
    (qmiLocNiUmtsCpNotifyVerifyStructT_v02, qmiLocNiUmtsCpNotifyVerifyStructT_data_v02),
    (qmiLocNiVxServiceInteractionStructT_v02, qmiLocNiVxServiceInteractionStructT_data_v02),
    (qmiLocNiSuplVer2ExtStructT_v02, qmiLocNiSuplVer2ExtStructT_data_v02),
    (qmiLocEmergencyNotificationStructT_v02, qmiLocEmergencyNotificationStructT_data_v02),
    (qmiLocAssistanceServerUrlStructT_v02, qmiLocAssistanceServerUrlStructT_data_v02),
    (qmiLocTimeServerListStructT_v02, qmiLocTimeServerListStructT_data_v02),
    (qmiLocPredictedOrbitsAllowedSizesStructT_v02, qmiLocPredictedOrbitsAllowedSizesStructT_data_v02),
    (qmiLocPredictedOrbitsServerListStructT_v02, qmiLocPredictedOrbitsServerListStructT_data_v02),
    (qmiLocPredictedOrbitsSpecialFileTypeStructT_v02, qmiLocPredictedOrbitsSpecialFileTypeStructT_data_v02),
    (qmiLocSensorControlConfigSamplingSpecStructT_v02, qmiLocSensorControlConfigSamplingSpecStructT_data_v02),
    (qmiLocSensorReadyStatusStructT_v02, qmiLocSensorReadyStatusStructT_data_v02),
    (qmiLocGeofencePositionStructT_v02, qmiLocGeofencePositionStructT_data_v02),
    (qmiLocGeofenceIdContinuousStructT_v02, qmiLocGeofenceIdContinuousStructT_data_v02),
    (qmiLocPredictedOrbitsDataValidityStructT_v02, qmiLocPredictedOrbitsDataValidityStructT_data_v02),
    (qmiLocAltitudeSrcInfoStructT_v02, qmiLocAltitudeSrcInfoStructT_data_v02),
    (qmiLocDeleteSvInfoStructT_v02, qmiLocDeleteSvInfoStructT_data_v02),
    (qmiLocDeleteBDSSvInfoStructT_v02, qmiLocDeleteBDSSvInfoStructT_data_v02)]"

definition loc_type_table_v02_1 :: "qmi_idl_type_table_entry list" where
  "loc_type_table_v02_1 = [
    (qmiLocDeleteGALSvInfoStructT_v02, qmiLocDeleteGALSvInfoStructT_data_v02),
    (qmiLocWifiFixTimeStructT_v02, qmiLocWifiFixTimeStructT_data_v02),
    (qmiLocWifiFixPosStructT_v02, qmiLocWifiFixPosStructT_data_v02),
    (qmiLocWifiApInfoStructT_v02, qmiLocWifiApInfoStructT_data_v02),
    (qmiLocWifiApSsidStructT_v02, qmiLocWifiApSsidStructT_data_v02),
    (qmiLoc3AxisSensorSampleStructT_v02, qmiLoc3AxisSensorSampleStructT_data_v02),
    (qmiLoc3AxisSensorSampleListStructT_v02, qmiLoc3AxisSensorSampleListStructT_data_v02),
    (qmiLocSensorTemperatureSampleStructT_v02, qmiLocSensorTemperatureSampleStructT_data_v02),
    (qmiLocSensorTemperatureSampleListStructT_v02, qmiLocSensorTemperatureSampleListStructT_data_v02),
    (qmiLocApnProfilesStructT_v02, qmiLocApnProfilesStructT_data_v02),
    (qmiLocCircularGeofenceArgsStructT_v02, qmiLocCircularGeofenceArgsStructT_data_v02),
    (qmiLocGeofenceMotionStateConfigStructT_v02, qmiLocGeofenceMotionStateConfigStructT_data_v02),
    (qmiLocTimeZoneStructT_v02, qmiLocTimeZoneStructT_data_v02),
    (qmiLocMotionDataStructT_v02, qmiLocMotionDataStructT_data_v02),
    (qmiLocGSMCellIdStructT_v02, qmiLocGSMCellIdStructT_data_v02),
    (qmiLocWCDMACellIdStructT_v02, qmiLocWCDMACellIdStructT_data_v02),
    (qmiLocTDSCDMACellIdStructT_v02, qmiLocTDSCDMACellIdStructT_data_v02),
    (qmiLocBatchedReportStructT_v02, qmiLocBatchedReportStructT_data_v02),
    (qmiLocWifiApDataStructT_v02, qmiLocWifiApDataStructT_data_v02),
    (qmiLocWifiApAdditionalDataStructT_v02, qmiLocWifiApAdditionalDataStructT_data_v02),
    (qmiLocVehicleSensorSampleStructT_v02, qmiLocVehicleSensorSampleStructT_data_v02),
    (qmiLocVehicleSensorSampleListStructType_v02, qmiLocVehicleSensorSampleListStructType_data_v02),
    (qmiLocVehicleOdometrySampleStructT_v02, qmiLocVehicleOdometrySampleStructT_data_v02),
    (qmiLocVehicleOdometrySampleListStructT_v02, qmiLocVehicleOdometrySampleListStructT_data_v02),
    (qmiLocRcvrClockFrequencyInfoStructT_v02, qmiLocRcvrClockFrequencyInfoStructT_data_v02),
    (qmiLocLeapSecondInfoStructT_v02, qmiLocLeapSecondInfoStructT_data_v02),
    (qmiLocInterSystemBiasStructT_v02, qmiLocInterSystemBiasStructT_data_v02),
    (qmiLocGloTimeStructT_v02, qmiLocGloTimeStructT_data_v02),
    (qmiLocGnssTimeExtStructT_v02, qmiLocGnssTimeExtStructT_data_v02),
    (qmiLocSVTimeSpeedStructT_v02, qmiLocSVTimeSpeedStructT_data_v02),
    (qmiLocSVMeasurementStructT_v02, qmiLocSVMeasurementStructT_data_v02),
    (qmiLocDgnssSVMeasurementStructT_v02, qmiLocDgnssSVMeasurementStructT_data_v02),
    (qmiLocMlInferSVMeasurementStructT_v02, qmiLocMlInferSVMeasurementStructT_data_v02),
    (qmiLocWifiApMacAddressStructT_v02, qmiLocWifiApMacAddressStructT_data_v02),
    (qmiLocIBeaconIdStructT_v02, qmiLocIBeaconIdStructT_data_v02),
    (qmiLocGtpAsnVerStructT_v02, qmiLocGtpAsnVerStructT_data_v02)]"

definition loc_type_table_v02_2 :: "qmi_idl_type_table_entry list" where
  "loc_type_table_v02_2 = [
    (qmiLocDbtPositionStructT_v02, qmiLocDbtPositionStructT_data_v02),
    (qmiLocApCacheStructT_v02, qmiLocApCacheStructT_data_v02),
    (qmiLocApCacheHepeRelStructT_v02, qmiLocApCacheHepeRelStructT_data_v02),
    (qmiLocApDoNotCacheStructT_v02, qmiLocApDoNotCacheStructT_data_v02),
    (qmiLocDeleteSatelliteDataStructT_v02, qmiLocDeleteSatelliteDataStructT_data_v02),
    (qmiLocInternalStatusReportDataStructT_v02, qmiLocInternalStatusReportDataStructT_data_v02),
    (qmiLocSrnBtleApDeviceDataStructT_v02, qmiLocSrnBtleApDeviceDataStructT_data_v02),
    (qmiLocWifiCrowdSourcingLocalConfigStructT_v02, qmiLocWifiCrowdSourcingLocalConfigStructT_data_v02),
    (qmiLocWifiCrowdSourcingCapabilityStructT_v02, qmiLocWifiCrowdSourcingCapabilityStructT_data_v02),
    (qmiLocXtraInfoStructT_v02, qmiLocXtraInfoStructT_data_v02),
    (qmiLocVersionStructT_v02, qmiLocVersionStructT_data_v02),
    (qmiLocGtpClientSwVerStructT_v02, qmiLocGtpClientSwVerStructT_data_v02),
    (qmiLocHomeCarrierIdStructT_v02, qmiLocHomeCarrierIdStructT_data_v02),
    (qmiLocPositionSourceStructT_v02, qmiLocPositionSourceStructT_data_v02),
    (qmiLocBsBestPositionStructT_v02, qmiLocBsBestPositionStructT_data_v02),
    (qmiLocFdclCellIdStructT_v02, qmiLocFdclCellIdStructT_data_v02),
    (qmiLocFdclCellPosStructT_v02, qmiLocFdclCellPosStructT_data_v02),
    (qmiLocNextLeapSecondInfoStructT_v02, qmiLocNextLeapSecondInfoStructT_data_v02),
    (qmiLocBsObservedDataStructT_v02, qmiLocBsObservedDataStructT_data_v02),
    (qmiLocEphGnssDataStructT_v02, qmiLocEphGnssDataStructT_data_v02),
    (qmiLocGpsEphemerisT_v02, qmiLocGpsEphemerisT_data_v02),
    (qmiLocGpsExtEphemerisT_v02, qmiLocGpsExtEphemerisT_data_v02),
    (qmiLocGloEphemerisT_v02, qmiLocGloEphemerisT_data_v02),
    (qmiLocBdsEphemerisT_v02, qmiLocBdsEphemerisT_data_v02),
    (qmiLocBdsExtEphemerisT_v02, qmiLocBdsExtEphemerisT_data_v02),
    (qmiLocGalEphemerisT_v02, qmiLocGalEphemerisT_data_v02),
    (qmiLocKlobucharIonoModelT_v02, qmiLocKlobucharIonoModelT_data_v02),
    (qmiLocKlobucharIonoModelLimitsT_v02, qmiLocKlobucharIonoModelLimitsT_data_v02),
    (qmiLocMePerGnssRfStructType_v02, qmiLocMePerGnssRfStructType_data_v02),
    (qmiLocRobustLocationVersionT_v02, qmiLocRobustLocationVersionT_data_v02),
    (qmiLocEnvAidingReflectingPlaneStructT_v02, qmiLocEnvAidingReflectingPlaneStructT_data_v02),
    (qmiLocEnvAidingSVCorrectionStructT_v02, qmiLocEnvAidingSVCorrectionStructT_data_v02),
    (qmiLocNavDataStructT_v02, qmiLocNavDataStructT_data_v02),
    (qmiLocTimeStructT_v02, qmiLocTimeStructT_data_v02),
    (qmiLocOsnmaTreeNodeT_v02, qmiLocOsnmaTreeNodeT_data_v02)]"

definition loc_type_table_v02 :: "qmi_idl_type_table_entry list" where
  "loc_type_table_v02 = concat [loc_type_table_v02_0, loc_type_table_v02_1, loc_type_table_v02_2]"

end
