(* ===== verification/LocMessages1.thy ===== *)
theory LocMessages1
  imports LocTypeTable
begin

text \<open>
  The message table of \<open>loc_api/loc_api_v02/location_service_v02.c\<close> (part 1 of 4): the bytes that
  describe each message, and the rows of the table that pair them with the message structs.
\<close>

unbundle bit_operations_syntax

definition qmiLocGenRespMsgT_data_v02 :: "int list" where
  "qmiLocGenRespMsgT_data_v02 =
    (let off = offsetof qmiLocGenRespMsgT_v02 in uint8_array (
      [QMI_IDL_TLV_FLAGS_LAST_TLV OR 0x02, QMI_IDL_AGGREGATE, QMI_IDL_OFFSET8 off ''resp''] @ QMI_IDL_TYPE88 1 0))"

definition qmiLocGenReqStatusIndMsgT_data_v02 :: "int list" where
  "qmiLocGenReqStatusIndMsgT_data_v02 =
    (let off = offsetof qmiLocGenReqStatusIndMsgT_v02 in uint8_array (
      [QMI_IDL_TLV_FLAGS_LAST_TLV OR 0x01, QMI_IDL_GENERIC_4_BYTE, QMI_IDL_OFFSET8 off ''status'']))"

definition qmiLocInformClientRevisionReqMsgT_data_v02 :: "int list" where
  "qmiLocInformClientRevisionReqMsgT_data_v02 =
    (let off = offsetof qmiLocInformClientRevisionReqMsgT_v02 in uint8_array (
      [QMI_IDL_TLV_FLAGS_LAST_TLV OR 0x01, QMI_IDL_GENERIC_4_BYTE, QMI_IDL_OFFSET8 off ''revision'']))"

definition qmiLocRegEventsReqMsgT_data_v02 :: "int list" where
  "qmiLocRegEventsReqMsgT_data_v02 =
    (let off = offsetof qmiLocRegEventsReqMsgT_v02 in uint8_array (
      [0x01, QMI_IDL_GENERIC_8_BYTE, QMI_IDL_OFFSET8 off ''eventRegMask'',
       QMI_IDL_TLV_FLAGS_OPTIONAL OR (QMI_IDL_OFFSET8 off ''clientStrId'' - QMI_IDL_OFFSET8 off ''clientStrId_valid''), 0x10, QMI_IDL_FLAGS_IS_ARRAY OR QMI_IDL_FLAGS_IS_VARIABLE_LEN OR QMI_IDL_STRING, QMI_IDL_OFFSET8 off ''clientStrId'', QMI_LOC_MAX_CLIENT_ID_STRING_LENGTH_V02,
       QMI_IDL_TLV_FLAGS_OPTIONAL OR (QMI_IDL_OFFSET8 off ''clientType'' - QMI_IDL_OFFSET8 off ''clientType_valid''), 0x11, QMI_IDL_GENERIC_4_BYTE, QMI_IDL_OFFSET8 off ''clientType'',
       QMI_IDL_TLV_FLAGS_LAST_TLV OR QMI_IDL_TLV_FLAGS_OPTIONAL OR (QMI_IDL_OFFSET8 off ''enablePosRequestNotification'' - QMI_IDL_OFFSET8 off ''enablePosRequestNotification_valid''), 0x12, QMI_IDL_GENERIC_1_BYTE, QMI_IDL_OFFSET8 off ''enablePosRequestNotification'']))"

definition qmiLocStartReqMsgT_data_v02 :: "int list" where
  "qmiLocStartReqMsgT_data_v02 =
    (let off = offsetof qmiLocStartReqMsgT_v02 in uint8_array (
      [0x01, QMI_IDL_GENERIC_1_BYTE, QMI_IDL_OFFSET8 off ''sessionId'',
       QMI_IDL_TLV_FLAGS_OPTIONAL OR (QMI_IDL_OFFSET8 off ''fixRecurrence'' - QMI_IDL_OFFSET8 off ''fixRecurrence_valid''), 0x10, QMI_IDL_GENERIC_4_BYTE, QMI_IDL_OFFSET8 off ''fixRecurrence'',
       QMI_IDL_TLV_FLAGS_OPTIONAL OR (QMI_IDL_OFFSET8 off ''horizontalAccuracyLevel'' - QMI_IDL_OFFSET8 off ''horizontalAccuracyLevel_valid''), 0x11, QMI_IDL_GENERIC_4_BYTE, QMI_IDL_OFFSET8 off ''horizontalAccuracyLevel'',
       QMI_IDL_TLV_FLAGS_OPTIONAL OR (QMI_IDL_OFFSET8 off ''intermediateReportState'' - QMI_IDL_OFFSET8 off ''intermediateReportState_valid''), 0x12, QMI_IDL_GENERIC_4_BYTE, QMI_IDL_OFFSET8 off ''intermediateReportState'',
       QMI_IDL_TLV_FLAGS_OPTIONAL OR (QMI_IDL_OFFSET8 off ''minInterval'' - QMI_IDL_OFFSET8 off ''minInterval_valid''), 0x13, QMI_IDL_GENERIC_4_BYTE, QMI_IDL_OFFSET8 off ''minInterval'',
       QMI_IDL_TLV_FLAGS_OPTIONAL OR (QMI_IDL_OFFSET8 off ''applicationId'' - QMI_IDL_OFFSET8 off ''applicationId_valid''), 0x14, QMI_IDL_AGGREGATE, QMI_IDL_OFFSET8 off ''applicationId''] @ QMI_IDL_TYPE88 0 0 @
      [QMI_IDL_TLV_FLAGS_OPTIONAL OR (QMI_IDL_OFFSET8 off ''configAltitudeAssumed'' - QMI_IDL_OFFSET8 off ''configAltitudeAssumed_valid''), 0x15, QMI_IDL_GENERIC_4_BYTE, QMI_IDL_OFFSET8 off ''configAltitudeAssumed'',
       QMI_IDL_TLV_FLAGS_OPTIONAL OR (QMI_IDL_OFFSET8 off ''minIntermediatePositionReportInterval'' - QMI_IDL_OFFSET8 off ''minIntermediatePositionReportInterval_valid''), 0x16, QMI_IDL_GENERIC_4_BYTE, QMI_IDL_OFFSET8 off ''minIntermediatePositionReportInterval'',
       QMI_IDL_TLV_FLAGS_OPTIONAL OR (QMI_IDL_OFFSET8 off ''positionReportTimeout'' - QMI_IDL_OFFSET8 off ''positionReportTimeout_valid''), 0x17, QMI_IDL_GENERIC_4_BYTE, QMI_IDL_OFFSET8 off ''positionReportTimeout'',
       QMI_IDL_TLV_FLAGS_OPTIONAL OR (QMI_IDL_OFFSET8 off ''sharePosition'' - QMI_IDL_OFFSET8 off ''sharePosition_valid''), 0x18, QMI_IDL_GENERIC_1_BYTE, QMI_IDL_OFFSET8 off ''sharePosition'',
       QMI_IDL_TLV_FLAGS_OPTIONAL OR (QMI_IDL_OFFSET8 off ''reportGnssOnlyPosition'' - QMI_IDL_OFFSET8 off ''reportGnssOnlyPosition_valid''), 0x19, QMI_IDL_GENERIC_1_BYTE, QMI_IDL_OFFSET8 off ''reportGnssOnlyPosition'',
       QMI_IDL_TLV_FLAGS_OPTIONAL OR (QMI_IDL_OFFSET8 off ''powerMode'' - QMI_IDL_OFFSET8 off ''powerMode_valid''), 0x1A, QMI_IDL_AGGREGATE, QMI_IDL_OFFSET8 off ''powerMode''] @ QMI_IDL_TYPE88 0 1 @
      [QMI_IDL_TLV_FLAGS_LAST_TLV OR QMI_IDL_TLV_FLAGS_OPTIONAL OR (QMI_IDL_OFFSET8 off ''specialReqType'' - QMI_IDL_OFFSET8 off ''specialReqType_valid''), 0x1B, QMI_IDL_GENERIC_4_BYTE, QMI_IDL_OFFSET8 off ''specialReqType'']))"

definition qmiLocStopReqMsgT_data_v02 :: "int list" where
  "qmiLocStopReqMsgT_data_v02 =
    (let off = offsetof qmiLocStopReqMsgT_v02 in uint8_array (
      [QMI_IDL_TLV_FLAGS_LAST_TLV OR 0x01, QMI_IDL_GENERIC_1_BYTE, QMI_IDL_OFFSET8 off ''sessionId'']))"

definition qmiLocEventPositionReportIndMsgT_data_v02 :: "int list" where
  "qmiLocEventPositionReportIndMsgT_data_v02 =
    (let off = offsetof qmiLocEventPositionReportIndMsgT_v02 in uint8_array (
      [0x01, QMI_IDL_GENERIC_4_BYTE, QMI_IDL_OFFSET8 off ''sessionStatus'',
       0x02, QMI_IDL_GENERIC_1_BYTE, QMI_IDL_OFFSET8 off ''sessionId'',
       QMI_IDL_TLV_FLAGS_OPTIONAL OR (QMI_IDL_OFFSET8 off ''latitude'' - QMI_IDL_OFFSET8 off ''latitude_valid''), 0x10, QMI_IDL_GENERIC_8_BYTE, QMI_IDL_OFFSET8 off ''latitude'',
       QMI_IDL_TLV_FLAGS_OPTIONAL OR (QMI_IDL_OFFSET8 off ''longitude'' - QMI_IDL_OFFSET8 off ''longitude_valid''), 0x11, QMI_IDL_GENERIC_8_BYTE, QMI_IDL_OFFSET8 off ''longitude'',
       QMI_IDL_TLV_FLAGS_OPTIONAL OR (QMI_IDL_OFFSET8 off ''horUncCircular'' - QMI_IDL_OFFSET8 off ''horUncCircular_valid''), 0x12, QMI_IDL_GENERIC_4_BYTE, QMI_IDL_OFFSET8 off ''horUncCircular'',
       QMI_IDL_TLV_FLAGS_OPTIONAL OR (QMI_IDL_OFFSET8 off ''horUncEllipseSemiMinor'' - QMI_IDL_OFFSET8 off ''horUncEllipseSemiMinor_valid''), 0x13, QMI_IDL_GENERIC_4_BYTE, QMI_IDL_OFFSET8 off ''horUncEllipseSemiMinor'',
       QMI_IDL_TLV_FLAGS_OPTIONAL OR (QMI_IDL_OFFSET8 off ''horUncEllipseSemiMajor'' - QMI_IDL_OFFSET8 off ''horUncEllipseSemiMajor_valid''), 0x14, QMI_IDL_GENERIC_4_BYTE, QMI_IDL_OFFSET8 off ''horUncEllipseSemiMajor'',
       QMI_IDL_TLV_FLAGS_OPTIONAL OR (QMI_IDL_OFFSET8 off ''horUncEllipseOrientAzimuth'' - QMI_IDL_OFFSET8 off ''horUncEllipseOrientAzimuth_valid''), 0x15, QMI_IDL_GENERIC_4_BYTE, QMI_IDL_OFFSET8 off ''horUncEllipseOrientAzimuth'',
       QMI_IDL_TLV_FLAGS_OPTIONAL OR (QMI_IDL_OFFSET8 off ''horConfidence'' - QMI_IDL_OFFSET8 off ''horConfidence_valid''), 0x16, QMI_IDL_GENERIC_1_BYTE, QMI_IDL_OFFSET8 off ''horConfidence'',
       QMI_IDL_TLV_FLAGS_OPTIONAL OR (QMI_IDL_OFFSET8 off ''horReliability'' - QMI_IDL_OFFSET8 off ''horReliability_valid''), 0x17, QMI_IDL_GENERIC_4_BYTE, QMI_IDL_OFFSET8 off ''horReliability'',
       QMI_IDL_TLV_FLAGS_OPTIONAL OR (QMI_IDL_OFFSET8 off ''speedHorizontal'' - QMI_IDL_OFFSET8 off ''speedHorizontal_valid''), 0x18, QMI_IDL_GENERIC_4_BYTE, QMI_IDL_OFFSET8 off ''speedHorizontal'',
       QMI_IDL_TLV_FLAGS_OPTIONAL OR (QMI_IDL_OFFSET8 off ''speedUnc'' - QMI_IDL_OFFSET8 off ''speedUnc_valid''), 0x19, QMI_IDL_GENERIC_4_BYTE, QMI_IDL_OFFSET8 off ''speedUnc'',
       QMI_IDL_TLV_FLAGS_OPTIONAL OR (QMI_IDL_OFFSET8 off ''altitudeWrtEllipsoid'' - QMI_IDL_OFFSET8 off ''altitudeWrtEllipsoid_valid''), 0x1A, QMI_IDL_GENERIC_4_BYTE, QMI_IDL_OFFSET8 off ''altitudeWrtEllipsoid'',
       QMI_IDL_TLV_FLAGS_OPTIONAL OR (QMI_IDL_OFFSET8 off ''altitudeWrtMeanSeaLevel'' - QMI_IDL_OFFSET8 off ''altitudeWrtMeanSeaLevel_valid''), 0x1B, QMI_IDL_GENERIC_4_BYTE, QMI_IDL_OFFSET8 off ''altitudeWrtMeanSeaLevel'',
       QMI_IDL_TLV_FLAGS_OPTIONAL OR (QMI_IDL_OFFSET8 off ''vertUnc'' - QMI_IDL_OFFSET8 off ''vertUnc_valid''), 0x1C, QMI_IDL_GENERIC_4_BYTE, QMI_IDL_OFFSET8 off ''vertUnc'',
       QMI_IDL_TLV_FLAGS_OPTIONAL OR (QMI_IDL_OFFSET8 off ''vertConfidence'' - QMI_IDL_OFFSET8 off ''vertConfidence_valid''), 0x1D, QMI_IDL_GENERIC_1_BYTE, QMI_IDL_OFFSET8 off ''vertConfidence'',
       QMI_IDL_TLV_FLAGS_OPTIONAL OR (QMI_IDL_OFFSET8 off ''vertReliability'' - QMI_IDL_OFFSET8 off ''vertReliability_valid''), 0x1E, QMI_IDL_GENERIC_4_BYTE, QMI_IDL_OFFSET8 off ''vertReliability'',
       QMI_IDL_TLV_FLAGS_OPTIONAL OR (QMI_IDL_OFFSET8 off ''speedVertical'' - QMI_IDL_OFFSET8 off ''speedVertical_valid''), 0x1F, QMI_IDL_GENERIC_4_BYTE, QMI_IDL_OFFSET8 off ''speedVertical'',
       QMI_IDL_TLV_FLAGS_OPTIONAL OR (QMI_IDL_OFFSET8 off ''heading'' - QMI_IDL_OFFSET8 off ''heading_valid''), 0x20, QMI_IDL_GENERIC_4_BYTE, QMI_IDL_OFFSET8 off ''heading'',
       QMI_IDL_TLV_FLAGS_OPTIONAL OR (QMI_IDL_OFFSET8 off ''headingUnc'' - QMI_IDL_OFFSET8 off ''headingUnc_valid''), 0x21, QMI_IDL_GENERIC_4_BYTE, QMI_IDL_OFFSET8 off ''headingUnc'',
       QMI_IDL_TLV_FLAGS_OPTIONAL OR (QMI_IDL_OFFSET8 off ''magneticDeviation'' - QMI_IDL_OFFSET8 off ''magneticDeviation_valid''), 0x22, QMI_IDL_GENERIC_4_BYTE, QMI_IDL_OFFSET8 off ''magneticDeviation'',
       QMI_IDL_TLV_FLAGS_OPTIONAL OR (QMI_IDL_OFFSET8 off ''technologyMask'' - QMI_IDL_OFFSET8 off ''technologyMask_valid''), 0x23, QMI_IDL_GENERIC_4_BYTE, QMI_IDL_OFFSET8 off ''technologyMask'',
       QMI_IDL_TLV_FLAGS_OPTIONAL OR (QMI_IDL_OFFSET8 off ''DOP'' - QMI_IDL_OFFSET8 off ''DOP_valid''), 0x24, QMI_IDL_AGGREGATE, QMI_IDL_OFFSET8 off ''DOP''] @ QMI_IDL_TYPE88 0 3 @
      [QMI_IDL_TLV_FLAGS_OPTIONAL OR (QMI_IDL_OFFSET8 off ''timestampUtc'' - QMI_IDL_OFFSET8 off ''timestampUtc_valid''), 0x25, QMI_IDL_GENERIC_8_BYTE, QMI_IDL_OFFSET8 off ''timestampUtc'',
       QMI_IDL_TLV_FLAGS_OPTIONAL OR (QMI_IDL_OFFSET8 off ''leapSeconds'' - QMI_IDL_OFFSET8 off ''leapSeconds_valid''), 0x26, QMI_IDL_GENERIC_1_BYTE, QMI_IDL_OFFSET8 off ''leapSeconds'',
       QMI_IDL_TLV_FLAGS_OPTIONAL OR (QMI_IDL_OFFSET8 off ''gpsTime'' - QMI_IDL_OFFSET8 off ''gpsTime_valid''), 0x27, QMI_IDL_AGGREGATE, QMI_IDL_OFFSET8 off ''gpsTime''] @ QMI_IDL_TYPE88 0 2 @
      [QMI_IDL_TLV_FLAGS_OPTIONAL OR (QMI_IDL_OFFSET8 off ''timeUnc'' - QMI_IDL_OFFSET8 off ''timeUnc_valid''), 0x28, QMI_IDL_GENERIC_4_BYTE, QMI_IDL_OFFSET8 off ''timeUnc'',
       QMI_IDL_TLV_FLAGS_OPTIONAL OR (QMI_IDL_OFFSET16RELATIVE off ''timeSrc'' - QMI_IDL_OFFSET16RELATIVE off ''timeSrc_valid''), 0x29, QMI_IDL_FLAGS_OFFSET_IS_16 OR QMI_IDL_GENERIC_4_BYTE] @ QMI_IDL_OFFSET16ARRAY off ''timeSrc'' @
      [QMI_IDL_TLV_FLAGS_OPTIONAL OR (QMI_IDL_OFFSET16RELATIVE off ''sensorDataUsage'' - QMI_IDL_OFFSET16RELATIVE off ''sensorDataUsage_valid''), 0x2A, QMI_IDL_FLAGS_OFFSET_IS_16 OR QMI_IDL_AGGREGATE] @ QMI_IDL_OFFSET16ARRAY off ''sensorDataUsage'' @ QMI_IDL_TYPE88 0 5 @
      [QMI_IDL_TLV_FLAGS_OPTIONAL OR (QMI_IDL_OFFSET16RELATIVE off ''fixId'' - QMI_IDL_OFFSET16RELATIVE off ''fixId_valid''), 0x2B, QMI_IDL_FLAGS_OFFSET_IS_16 OR QMI_IDL_GENERIC_4_BYTE] @ QMI_IDL_OFFSET16ARRAY off ''fixId'' @
      [QMI_IDL_TLV_FLAGS_OPTIONAL OR (QMI_IDL_OFFSET16RELATIVE off ''gnssSvUsedList'' - QMI_IDL_OFFSET16RELATIVE off ''gnssSvUsedList_valid''), 0x2C, QMI_IDL_FLAGS_IS_ARRAY OR QMI_IDL_FLAGS_IS_VARIABLE_LEN OR QMI_IDL_FLAGS_OFFSET_IS_16 OR QMI_IDL_GENERIC_2_BYTE] @ QMI_IDL_OFFSET16ARRAY off ''gnssSvUsedList'' @
      [QMI_LOC_MAX_SV_USED_LIST_LENGTH_V02, QMI_IDL_OFFSET16RELATIVE off ''gnssSvUsedList'' - QMI_IDL_OFFSET16RELATIVE off ''gnssSvUsedList_len'',
       QMI_IDL_TLV_FLAGS_OPTIONAL OR (QMI_IDL_OFFSET16RELATIVE off ''altitudeAssumed'' - QMI_IDL_OFFSET16RELATIVE off ''altitudeAssumed_valid''), 0x2D, QMI_IDL_FLAGS_OFFSET_IS_16 OR QMI_IDL_GENERIC_1_BYTE] @ QMI_IDL_OFFSET16ARRAY off ''altitudeAssumed'' @
      [QMI_IDL_TLV_FLAGS_OPTIONAL OR (QMI_IDL_OFFSET16RELATIVE off ''velEnu'' - QMI_IDL_OFFSET16RELATIVE off ''velEnu_valid''), 0x2E, QMI_IDL_FLAGS_IS_ARRAY OR QMI_IDL_FLAGS_OFFSET_IS_16 OR QMI_IDL_GENERIC_4_BYTE] @ QMI_IDL_OFFSET16ARRAY off ''velEnu'' @
      [QMI_LOC_ENU_ARRAY_LENGTH_V02,
       QMI_IDL_TLV_FLAGS_OPTIONAL OR (QMI_IDL_OFFSET16RELATIVE off ''velUncEnu'' - QMI_IDL_OFFSET16RELATIVE off ''velUncEnu_valid''), 0x2F, QMI_IDL_FLAGS_IS_ARRAY OR QMI_IDL_FLAGS_OFFSET_IS_16 OR QMI_IDL_GENERIC_4_BYTE] @ QMI_IDL_OFFSET16ARRAY off ''velUncEnu'' @
      [QMI_LOC_ENU_ARRAY_LENGTH_V02,
       QMI_IDL_TLV_FLAGS_OPTIONAL OR (QMI_IDL_OFFSET16RELATIVE off ''navSolutionMask'' - QMI_IDL_OFFSET16RELATIVE off ''navSolutionMask_valid''), 0x30, QMI_IDL_FLAGS_OFFSET_IS_16 OR QMI_IDL_GENERIC_8_BYTE] @ QMI_IDL_OFFSET16ARRAY off ''navSolutionMask'' @
      [QMI_IDL_TLV_FLAGS_OPTIONAL OR (QMI_IDL_OFFSET16RELATIVE off ''sensorSubTechnologyMask'' - QMI_IDL_OFFSET16RELATIVE off ''sensorSubTechnologyMask_valid''), 0x31, QMI_IDL_FLAGS_OFFSET_IS_16 OR QMI_IDL_GENERIC_4_BYTE] @ QMI_IDL_OFFSET16ARRAY off ''sensorSubTechnologyMask'' @
      [QMI_IDL_TLV_FLAGS_OPTIONAL OR (QMI_IDL_OFFSET16RELATIVE off ''gnssOnlyPosition'' - QMI_IDL_OFFSET16RELATIVE off ''gnssOnlyPosition_valid''), 0x32, QMI_IDL_FLAGS_OFFSET_IS_16 OR QMI_IDL_GENERIC_1_BYTE] @ QMI_IDL_OFFSET16ARRAY off ''gnssOnlyPosition'' @
      [QMI_IDL_TLV_FLAGS_OPTIONAL OR (QMI_IDL_OFFSET16RELATIVE off ''extDOP'' - QMI_IDL_OFFSET16RELATIVE off ''extDOP_valid''), 0x33, QMI_IDL_FLAGS_OFFSET_IS_16 OR QMI_IDL_AGGREGATE] @ QMI_IDL_OFFSET16ARRAY off ''extDOP'' @ QMI_IDL_TYPE88 0 4 @
      [QMI_IDL_TLV_FLAGS_OPTIONAL OR (QMI_IDL_OFFSET16RELATIVE off ''dgnssStationId'' - QMI_IDL_OFFSET16RELATIVE off ''dgnssStationId_valid''), 0x34, QMI_IDL_FLAGS_IS_ARRAY OR QMI_IDL_FLAGS_IS_VARIABLE_LEN OR QMI_IDL_FLAGS_OFFSET_IS_16 OR QMI_IDL_GENERIC_2_BYTE] @ QMI_IDL_OFFSET16ARRAY off ''dgnssStationId'' @
      [QMI_LOC_DGNSS_STATION_ID_ARRAY_LENGTH_V02, QMI_IDL_OFFSET16RELATIVE off ''dgnssStationId'' - QMI_IDL_OFFSET16RELATIVE off ''dgnssStationId_len'',
       QMI_IDL_TLV_FLAGS_OPTIONAL OR (QMI_IDL_OFFSET16RELATIVE off ''spoofReportMask'' - QMI_IDL_OFFSET16RELATIVE off ''spoofReportMask_valid''), 0x35, QMI_IDL_FLAGS_OFFSET_IS_16 OR QMI_IDL_GENERIC_8_BYTE] @ QMI_IDL_OFFSET16ARRAY off ''spoofReportMask'' @
      [QMI_IDL_TLV_FLAGS_OPTIONAL OR (QMI_IDL_OFFSET16RELATIVE off ''expandedGnssSvUsedList'' - QMI_IDL_OFFSET16RELATIVE off ''expandedGnssSvUsedList_valid''), 0x36, QMI_IDL_FLAGS_IS_ARRAY OR QMI_IDL_FLAGS_IS_VARIABLE_LEN OR QMI_IDL_FLAGS_OFFSET_IS_16 OR QMI_IDL_GENERIC_2_BYTE] @ QMI_IDL_OFFSET16ARRAY off ''expandedGnssSvUsedList'' @
      [QMI_LOC_EXPANDED_SV_INFO_LIST_MAX_SIZE_V02, QMI_IDL_OFFSET16RELATIVE off ''expandedGnssSvUsedList'' - QMI_IDL_OFFSET16RELATIVE off ''expandedGnssSvUsedList_len'',
       QMI_IDL_TLV_FLAGS_OPTIONAL OR (QMI_IDL_OFFSET16RELATIVE off ''gnssSvUsedSignalTypeList'' - QMI_IDL_OFFSET16RELATIVE off ''gnssSvUsedSignalTypeList_valid''), 0x37, QMI_IDL_FLAGS_IS_ARRAY OR QMI_IDL_FLAGS_IS_VARIABLE_LEN OR QMI_IDL_FLAGS_OFFSET_IS_16 OR QMI_IDL_GENERIC_8_BYTE] @ QMI_IDL_OFFSET16ARRAY off ''gnssSvUsedSignalTypeList'' @
      [QMI_LOC_EXPANDED_SV_INFO_LIST_MAX_SIZE_V02, QMI_IDL_OFFSET16RELATIVE off ''gnssSvUsedSignalTypeList'' - QMI_IDL_OFFSET16RELATIVE off ''gnssSvUsedSignalTypeList_len'',
       QMI_IDL_TLV_FLAGS_OPTIONAL OR (QMI_IDL_OFFSET16RELATIVE off ''jammerIndicatorList'' - QMI_IDL_OFFSET16RELATIVE off ''jammerIndicatorList_valid''), 0x38, QMI_IDL_FLAGS_IS_ARRAY OR QMI_IDL_FLAGS_IS_VARIABLE_LEN OR QMI_IDL_FLAGS_OFFSET_IS_16 OR QMI_IDL_AGGREGATE] @ QMI_IDL_OFFSET16ARRAY off ''jammerIndicatorList'' @
      [QMI_LOC_MAX_GNSS_SIGNAL_TYPE_V02, QMI_IDL_OFFSET16RELATIVE off ''jammerIndicatorList'' - QMI_IDL_OFFSET16RELATIVE off ''jammerIndicatorList_len''] @ QMI_IDL_TYPE88 0 6 @
      [QMI_IDL_TLV_FLAGS_OPTIONAL OR (QMI_IDL_OFFSET16RELATIVE off ''dgnssCorrectionSource'' - QMI_IDL_OFFSET16RELATIVE off ''dgnssCorrectionSource_valid''), 0x39, QMI_IDL_FLAGS_OFFSET_IS_16 OR QMI_IDL_GENERIC_4_BYTE] @ QMI_IDL_OFFSET16ARRAY off ''dgnssCorrectionSource'' @
      [QMI_IDL_TLV_FLAGS_OPTIONAL OR (QMI_IDL_OFFSET16RELATIVE off ''dgnssCorrectionSourceID'' - QMI_IDL_OFFSET16RELATIVE off ''dgnssCorrectionSourceID_valid''), 0x3A, QMI_IDL_FLAGS_OFFSET_IS_16 OR QMI_IDL_GENERIC_4_BYTE] @ QMI_IDL_OFFSET16ARRAY off ''dgnssCorrectionSourceID'' @
      [QMI_IDL_TLV_FLAGS_OPTIONAL OR (QMI_IDL_OFFSET16RELATIVE off ''dgnssConstellationUsage'' - QMI_IDL_OFFSET16RELATIVE off ''dgnssConstellationUsage_valid''), 0x3B, QMI_IDL_FLAGS_OFFSET_IS_16 OR QMI_IDL_GENERIC_8_BYTE] @ QMI_IDL_OFFSET16ARRAY off ''dgnssConstellationUsage'' @
      [QMI_IDL_TLV_FLAGS_OPTIONAL OR (QMI_IDL_OFFSET16RELATIVE off ''dgnssRefStationId'' - QMI_IDL_OFFSET16RELATIVE off ''dgnssRefStationId_valid''), 0x3C, QMI_IDL_FLAGS_OFFSET_IS_16 OR QMI_IDL_GENERIC_2_BYTE] @ QMI_IDL_OFFSET16ARRAY off ''dgnssRefStationId'' @
      [QMI_IDL_TLV_FLAGS_OPTIONAL OR (QMI_IDL_OFFSET16RELATIVE off ''dgnssDataAgeMsec'' - QMI_IDL_OFFSET16RELATIVE off ''dgnssDataAgeMsec_valid''), 0x3D, QMI_IDL_FLAGS_OFFSET_IS_16 OR QMI_IDL_GENERIC_4_BYTE] @ QMI_IDL_OFFSET16ARRAY off ''dgnssDataAgeMsec'' @
      [QMI_IDL_TLV_FLAGS_OPTIONAL OR (QMI_IDL_OFFSET16RELATIVE off ''conformityIndex'' - QMI_IDL_OFFSET16RELATIVE off ''conformityIndex_valid''), 0x3E, QMI_IDL_FLAGS_OFFSET_IS_16 OR QMI_IDL_GENERIC_4_BYTE] @ QMI_IDL_OFFSET16ARRAY off ''conformityIndex'' @
      [QMI_IDL_TLV_FLAGS_OPTIONAL OR (QMI_IDL_OFFSET16RELATIVE off ''systemTick'' - QMI_IDL_OFFSET16RELATIVE off ''systemTick_valid''), 0x3F, QMI_IDL_FLAGS_OFFSET_IS_16 OR QMI_IDL_GENERIC_8_BYTE] @ QMI_IDL_OFFSET16ARRAY off ''systemTick'' @
      [QMI_IDL_TLV_FLAGS_OPTIONAL OR (QMI_IDL_OFFSET16RELATIVE off ''systemTickUnc'' - QMI_IDL_OFFSET16RELATIVE off ''systemTickUnc_valid''), 0x40, QMI_IDL_FLAGS_OFFSET_IS_16 OR QMI_IDL_GENERIC_4_BYTE] @ QMI_IDL_OFFSET16ARRAY off ''systemTickUnc'' @
      [QMI_IDL_TLV_FLAGS_OPTIONAL OR (QMI_IDL_OFFSET16RELATIVE off ''systemClkTimeBias'' - QMI_IDL_OFFSET16RELATIVE off ''systemClkTimeBias_valid''), 0x41, QMI_IDL_FLAGS_OFFSET_IS_16 OR QMI_IDL_GENERIC_4_BYTE] @ QMI_IDL_OFFSET16ARRAY off ''systemClkTimeBias'' @
      [QMI_IDL_TLV_FLAGS_OPTIONAL OR (QMI_IDL_OFFSET16RELATIVE off ''systemClkTimeBiasUnc'' - QMI_IDL_OFFSET16RELATIVE off ''systemClkTimeBiasUnc_valid''), 0x42, QMI_IDL_FLAGS_OFFSET_IS_16 OR QMI_IDL_GENERIC_4_BYTE] @ QMI_IDL_OFFSET16ARRAY off ''systemClkTimeBiasUnc'' @
      [QMI_IDL_TLV_FLAGS_OPTIONAL OR (QMI_IDL_OFFSET16RELATIVE off ''payload'' - QMI_IDL_OFFSET16RELATIVE off ''payload_valid''), 0x43, QMI_IDL_FLAGS_IS_ARRAY OR QMI_IDL_FLAGS_IS_VARIABLE_LEN OR QMI_IDL_FLAGS_SZ_IS_16 OR QMI_IDL_FLAGS_OFFSET_IS_16 OR QMI_IDL_GENERIC_1_BYTE] @ QMI_IDL_OFFSET16ARRAY off ''payload'' @
      [4096 AND 0xFF, drop_bit 8 4096, QMI_IDL_OFFSET16RELATIVE off ''payload'' - QMI_IDL_OFFSET16RELATIVE off ''payload_len'',
       QMI_IDL_TLV_FLAGS_OPTIONAL OR (QMI_IDL_OFFSET16RELATIVE off ''jammerIndicatorListExt'' - QMI_IDL_OFFSET16RELATIVE off ''jammerIndicatorListExt_valid''), 0x44, QMI_IDL_FLAGS_IS_ARRAY OR QMI_IDL_FLAGS_IS_VARIABLE_LEN OR QMI_IDL_FLAGS_OFFSET_IS_16 OR QMI_IDL_AGGREGATE] @ QMI_IDL_OFFSET16ARRAY off ''jammerIndicatorListExt'' @
      [QMI_LOC_MAX_GNSS_SIGNAL_TYPE_EXT_V02, QMI_IDL_OFFSET16RELATIVE off ''jammerIndicatorListExt'' - QMI_IDL_OFFSET16RELATIVE off ''jammerIndicatorListExt_len''] @ QMI_IDL_TYPE88 0 7 @
      [QMI_IDL_TLV_FLAGS_OPTIONAL OR (QMI_IDL_OFFSET16RELATIVE off ''gnssTime'' - QMI_IDL_OFFSET16RELATIVE off ''gnssTime_valid''), 0x45, QMI_IDL_FLAGS_OFFSET_IS_16 OR QMI_IDL_AGGREGATE] @ QMI_IDL_OFFSET16ARRAY off ''gnssTime'' @ QMI_IDL_TYPE88 0 8 @
      [QMI_IDL_TLV_FLAGS_LAST_TLV OR QMI_IDL_TLV_FLAGS_OPTIONAL OR (QMI_IDL_OFFSET16RELATIVE off ''leapSecUnc'' - QMI_IDL_OFFSET16RELATIVE off ''leapSecUnc_valid''), 0x46, QMI_IDL_FLAGS_OFFSET_IS_16 OR QMI_IDL_GENERIC_1_BYTE] @ QMI_IDL_OFFSET16ARRAY off ''leapSecUnc''))"

definition qmiLocEventGnssSvInfoIndMsgT_data_v02 :: "int list" where
  "qmiLocEventGnssSvInfoIndMsgT_data_v02 =
    (let off = offsetof qmiLocEventGnssSvInfoIndMsgT_v02 in uint8_array (
      [0x01, QMI_IDL_GENERIC_1_BYTE, QMI_IDL_OFFSET8 off ''altitudeAssumed'',
       QMI_IDL_TLV_FLAGS_OPTIONAL OR (QMI_IDL_OFFSET8 off ''svList'' - QMI_IDL_OFFSET8 off ''svList_valid''), 0x10, QMI_IDL_FLAGS_IS_ARRAY OR QMI_IDL_FLAGS_IS_VARIABLE_LEN OR QMI_IDL_AGGREGATE, QMI_IDL_OFFSET8 off ''svList'', QMI_LOC_SV_INFO_LIST_MAX_SIZE_V02, QMI_IDL_OFFSET8 off ''svList'' - QMI_IDL_OFFSET8 off ''svList_len''] @ QMI_IDL_TYPE88 0 9 @
      [QMI_IDL_TLV_FLAGS_OPTIONAL OR (QMI_IDL_OFFSET16RELATIVE off ''expandedSvList'' - QMI_IDL_OFFSET16RELATIVE off ''expandedSvList_valid''), 0x11, QMI_IDL_FLAGS_IS_ARRAY OR QMI_IDL_FLAGS_IS_VARIABLE_LEN OR QMI_IDL_FLAGS_OFFSET_IS_16 OR QMI_IDL_AGGREGATE] @ QMI_IDL_OFFSET16ARRAY off ''expandedSvList'' @
      [QMI_LOC_EXPANDED_SV_INFO_LIST_MAX_SIZE_V02, QMI_IDL_OFFSET16RELATIVE off ''expandedSvList'' - QMI_IDL_OFFSET16RELATIVE off ''expandedSvList_len''] @ QMI_IDL_TYPE88 0 10 @
      [QMI_IDL_TLV_FLAGS_OPTIONAL OR (QMI_IDL_OFFSET16RELATIVE off ''gnssSignalTypeList'' - QMI_IDL_OFFSET16RELATIVE off ''gnssSignalTypeList_valid''), 0x12, QMI_IDL_FLAGS_IS_ARRAY OR QMI_IDL_FLAGS_IS_VARIABLE_LEN OR QMI_IDL_FLAGS_OFFSET_IS_16 OR QMI_IDL_GENERIC_8_BYTE] @ QMI_IDL_OFFSET16ARRAY off ''gnssSignalTypeList'' @
      [QMI_LOC_EXPANDED_SV_INFO_LIST_MAX_SIZE_V02, QMI_IDL_OFFSET16RELATIVE off ''gnssSignalTypeList'' - QMI_IDL_OFFSET16RELATIVE off ''gnssSignalTypeList_len'',
       QMI_IDL_TLV_FLAGS_LAST_TLV OR QMI_IDL_TLV_FLAGS_OPTIONAL OR (QMI_IDL_OFFSET16RELATIVE off ''rfLoss'' - QMI_IDL_OFFSET16RELATIVE off ''rfLoss_valid''), 0x13, QMI_IDL_FLAGS_IS_ARRAY OR QMI_IDL_FLAGS_IS_VARIABLE_LEN OR QMI_IDL_FLAGS_OFFSET_IS_16 OR QMI_IDL_GENERIC_4_BYTE] @ QMI_IDL_OFFSET16ARRAY off ''rfLoss'' @
      [QMI_LOC_EXPANDED_SV_INFO_LIST_MAX_SIZE_V02, QMI_IDL_OFFSET16RELATIVE off ''rfLoss'' - QMI_IDL_OFFSET16RELATIVE off ''rfLoss_len'']))"

definition qmiLocEventNmeaIndMsgT_data_v02 :: "int list" where
  "qmiLocEventNmeaIndMsgT_data_v02 =
    (let off = offsetof qmiLocEventNmeaIndMsgT_v02 in uint8_array (
      [0x01, QMI_IDL_FLAGS_IS_ARRAY OR QMI_IDL_FLAGS_IS_VARIABLE_LEN OR QMI_IDL_STRING, QMI_IDL_OFFSET8 off ''nmea'', QMI_LOC_NMEA_STRING_MAX_LENGTH_V02,
       QMI_IDL_TLV_FLAGS_LAST_TLV OR QMI_IDL_TLV_FLAGS_OPTIONAL OR (QMI_IDL_OFFSET16RELATIVE off ''expandedNmea'' - QMI_IDL_OFFSET16RELATIVE off ''expandedNmea_valid''), 0x10, QMI_IDL_FLAGS_IS_ARRAY OR QMI_IDL_FLAGS_IS_VARIABLE_LEN OR QMI_IDL_FLAGS_SZ_IS_16 OR QMI_IDL_FLAGS_OFFSET_IS_16 OR QMI_IDL_STRING] @ QMI_IDL_OFFSET16ARRAY off ''expandedNmea'' @
      [QMI_LOC_EXPANDED_NMEA_STRING_MAX_LENGTH_V02 AND 0xFF, drop_bit 8 QMI_LOC_EXPANDED_NMEA_STRING_MAX_LENGTH_V02]))"

definition qmiLocEventNiNotifyVerifyReqIndMsgT_data_v02 :: "int list" where
  "qmiLocEventNiNotifyVerifyReqIndMsgT_data_v02 =
    (let off = offsetof qmiLocEventNiNotifyVerifyReqIndMsgT_v02 in uint8_array (
      [0x01, QMI_IDL_GENERIC_4_BYTE, QMI_IDL_OFFSET8 off ''notificationType'',
       QMI_IDL_TLV_FLAGS_OPTIONAL OR (QMI_IDL_OFFSET8 off ''NiVxInd'' - QMI_IDL_OFFSET8 off ''NiVxInd_valid''), 0x10, QMI_IDL_AGGREGATE, QMI_IDL_OFFSET8 off ''NiVxInd''] @ QMI_IDL_TYPE88 0 11 @
      [QMI_IDL_TLV_FLAGS_OPTIONAL OR (QMI_IDL_OFFSET16RELATIVE off ''NiSuplInd'' - QMI_IDL_OFFSET16RELATIVE off ''NiSuplInd_valid''), 0x11, QMI_IDL_FLAGS_OFFSET_IS_16 OR QMI_IDL_AGGREGATE] @ QMI_IDL_OFFSET16ARRAY off ''NiSuplInd'' @ QMI_IDL_TYPE88 0 17 @
      [QMI_IDL_TLV_FLAGS_OPTIONAL OR (QMI_IDL_OFFSET16RELATIVE off ''NiUmtsCpInd'' - QMI_IDL_OFFSET16RELATIVE off ''NiUmtsCpInd_valid''), 0x12, QMI_IDL_FLAGS_OFFSET_IS_16 OR QMI_IDL_AGGREGATE] @ QMI_IDL_OFFSET16ARRAY off ''NiUmtsCpInd'' @ QMI_IDL_TYPE88 0 19 @
      [QMI_IDL_TLV_FLAGS_OPTIONAL OR (QMI_IDL_OFFSET16RELATIVE off ''NiVxServiceInteractionInd'' - QMI_IDL_OFFSET16RELATIVE off ''NiVxServiceInteractionInd_valid''), 0x13, QMI_IDL_FLAGS_OFFSET_IS_16 OR QMI_IDL_AGGREGATE] @ QMI_IDL_OFFSET16ARRAY off ''NiVxServiceInteractionInd'' @ QMI_IDL_TYPE88 0 20 @
      [QMI_IDL_TLV_FLAGS_OPTIONAL OR (QMI_IDL_OFFSET16RELATIVE off ''NiSuplVer2ExtInd'' - QMI_IDL_OFFSET16RELATIVE off ''NiSuplVer2ExtInd_valid''), 0x14, QMI_IDL_FLAGS_OFFSET_IS_16 OR QMI_IDL_AGGREGATE] @ QMI_IDL_OFFSET16ARRAY off ''NiSuplVer2ExtInd'' @ QMI_IDL_TYPE88 0 21 @
      [QMI_IDL_TLV_FLAGS_OPTIONAL OR (QMI_IDL_OFFSET16RELATIVE off ''suplEmergencyNotification'' - QMI_IDL_OFFSET16RELATIVE off ''suplEmergencyNotification_valid''), 0x15, QMI_IDL_FLAGS_OFFSET_IS_16 OR QMI_IDL_AGGREGATE] @ QMI_IDL_OFFSET16ARRAY off ''suplEmergencyNotification'' @ QMI_IDL_TYPE88 0 22 @
      [QMI_IDL_TLV_FLAGS_LAST_TLV OR QMI_IDL_TLV_FLAGS_OPTIONAL OR (QMI_IDL_OFFSET16RELATIVE off ''isInEmergencySession'' - QMI_IDL_OFFSET16RELATIVE off ''isInEmergencySession_valid''), 0x16, QMI_IDL_FLAGS_OFFSET_IS_16 OR QMI_IDL_GENERIC_1_BYTE] @ QMI_IDL_OFFSET16ARRAY off ''isInEmergencySession''))"

definition qmiLocEventInjectTimeReqIndMsgT_data_v02 :: "int list" where
  "qmiLocEventInjectTimeReqIndMsgT_data_v02 =
    (let off = offsetof qmiLocEventInjectTimeReqIndMsgT_v02 in uint8_array (
      [QMI_IDL_TLV_FLAGS_OPTIONAL OR (QMI_IDL_OFFSET8 off ''timeServerInfo'' - QMI_IDL_OFFSET8 off ''timeServerInfo_valid''), 0x10, QMI_IDL_AGGREGATE, QMI_IDL_OFFSET8 off ''timeServerInfo''] @ QMI_IDL_TYPE88 0 24 @
      [QMI_IDL_TLV_FLAGS_LAST_TLV OR QMI_IDL_TLV_FLAGS_OPTIONAL OR (QMI_IDL_OFFSET16RELATIVE off ''dlCause'' - QMI_IDL_OFFSET16RELATIVE off ''dlCause_valid''), 0x11, QMI_IDL_FLAGS_OFFSET_IS_16 OR QMI_IDL_GENERIC_4_BYTE] @ QMI_IDL_OFFSET16ARRAY off ''dlCause''))"

definition qmiLocEventInjectPredictedOrbitsReqIndMsgT_data_v02 :: "int list" where
  "qmiLocEventInjectPredictedOrbitsReqIndMsgT_data_v02 =
    (let off = offsetof qmiLocEventInjectPredictedOrbitsReqIndMsgT_v02 in uint8_array (
      [0x01, QMI_IDL_AGGREGATE, QMI_IDL_OFFSET8 off ''allowedSizes''] @ QMI_IDL_TYPE88 0 25 @
      [QMI_IDL_TLV_FLAGS_OPTIONAL OR (QMI_IDL_OFFSET8 off ''serverList'' - QMI_IDL_OFFSET8 off ''serverList_valid''), 0x10, QMI_IDL_AGGREGATE, QMI_IDL_OFFSET8 off ''serverList''] @ QMI_IDL_TYPE88 0 26 @
      [QMI_IDL_TLV_FLAGS_OPTIONAL OR (QMI_IDL_OFFSET16RELATIVE off ''serverUpdateMask'' - QMI_IDL_OFFSET16RELATIVE off ''serverUpdateMask_valid''), 0x11, QMI_IDL_FLAGS_OFFSET_IS_16 OR QMI_IDL_GENERIC_8_BYTE] @ QMI_IDL_OFFSET16ARRAY off ''serverUpdateMask'' @
      [QMI_IDL_TLV_FLAGS_OPTIONAL OR (QMI_IDL_OFFSET16RELATIVE off ''updateType'' - QMI_IDL_OFFSET16RELATIVE off ''updateType_valid''), 0x12, QMI_IDL_FLAGS_OFFSET_IS_16 OR QMI_IDL_GENERIC_4_BYTE] @ QMI_IDL_OFFSET16ARRAY off ''updateType'' @
      [QMI_IDL_TLV_FLAGS_OPTIONAL OR (QMI_IDL_OFFSET16RELATIVE off ''updateRate'' - QMI_IDL_OFFSET16RELATIVE off ''updateRate_valid''), 0x13, QMI_IDL_FLAGS_OFFSET_IS_16 OR QMI_IDL_GENERIC_4_BYTE] @ QMI_IDL_OFFSET16ARRAY off ''updateRate'' @
      [QMI_IDL_TLV_FLAGS_OPTIONAL OR (QMI_IDL_OFFSET16RELATIVE off ''fileInfo'' - QMI_IDL_OFFSET16RELATIVE off ''fileInfo_valid''), 0x14, QMI_IDL_FLAGS_OFFSET_IS_16 OR QMI_IDL_AGGREGATE] @ QMI_IDL_OFFSET16ARRAY off ''fileInfo'' @ QMI_IDL_TYPE88 0 27 @
      [QMI_IDL_TLV_FLAGS_LAST_TLV OR QMI_IDL_TLV_FLAGS_OPTIONAL OR (QMI_IDL_OFFSET16RELATIVE off ''dlCause'' - QMI_IDL_OFFSET16RELATIVE off ''dlCause_valid''), 0x15, QMI_IDL_FLAGS_OFFSET_IS_16 OR QMI_IDL_GENERIC_4_BYTE] @ QMI_IDL_OFFSET16ARRAY off ''dlCause''))"

definition qmiLocEventInjectPositionReqIndMsgT_data_v02 :: "int list" where
  "qmiLocEventInjectPositionReqIndMsgT_data_v02 =
    (let off = offsetof qmiLocEventInjectPositionReqIndMsgT_v02 in uint8_array (
      [0x01, QMI_IDL_GENERIC_8_BYTE, QMI_IDL_OFFSET8 off ''latitude'',
       0x02, QMI_IDL_GENERIC_8_BYTE, QMI_IDL_OFFSET8 off ''longitude'',
       0x03, QMI_IDL_GENERIC_4_BYTE, QMI_IDL_OFFSET8 off ''horUncCircular'',
       QMI_IDL_TLV_FLAGS_LAST_TLV OR 0x04, QMI_IDL_GENERIC_8_BYTE, QMI_IDL_OFFSET8 off ''timestampUtc'']))"

definition qmiLocEventEngineStateIndMsgT_data_v02 :: "int list" where
  "qmiLocEventEngineStateIndMsgT_data_v02 =
    (let off = offsetof qmiLocEventEngineStateIndMsgT_v02 in uint8_array (
      [QMI_IDL_TLV_FLAGS_LAST_TLV OR 0x01, QMI_IDL_GENERIC_4_BYTE, QMI_IDL_OFFSET8 off ''engineState'']))"

definition qmiLocEventFixSessionStateIndMsgT_data_v02 :: "int list" where
  "qmiLocEventFixSessionStateIndMsgT_data_v02 =
    (let off = offsetof qmiLocEventFixSessionStateIndMsgT_v02 in uint8_array (
      [0x01, QMI_IDL_GENERIC_4_BYTE, QMI_IDL_OFFSET8 off ''sessionState'',
       QMI_IDL_TLV_FLAGS_LAST_TLV OR QMI_IDL_TLV_FLAGS_OPTIONAL OR (QMI_IDL_OFFSET8 off ''sessionId'' - QMI_IDL_OFFSET8 off ''sessionId_valid''), 0x10, QMI_IDL_GENERIC_1_BYTE, QMI_IDL_OFFSET8 off ''sessionId'']))"

definition qmiLocEventWifiReqIndMsgT_data_v02 :: "int list" where
  "qmiLocEventWifiReqIndMsgT_data_v02 =
    (let off = offsetof qmiLocEventWifiReqIndMsgT_v02 in uint8_array (
      [0x01, QMI_IDL_GENERIC_4_BYTE, QMI_IDL_OFFSET8 off ''requestType'',
       QMI_IDL_TLV_FLAGS_OPTIONAL OR (QMI_IDL_OFFSET8 off ''tbfInMs'' - QMI_IDL_OFFSET8 off ''tbfInMs_valid''), 0x10, QMI_IDL_GENERIC_2_BYTE, QMI_IDL_OFFSET8 off ''tbfInMs'',
       QMI_IDL_TLV_FLAGS_OPTIONAL OR (QMI_IDL_OFFSET8 off ''e911Mode'' - QMI_IDL_OFFSET8 off ''e911Mode_valid''), 0x11, QMI_IDL_GENERIC_1_BYTE, QMI_IDL_OFFSET8 off ''e911Mode'',
       QMI_IDL_TLV_FLAGS_LAST_TLV OR QMI_IDL_TLV_FLAGS_OPTIONAL OR (QMI_IDL_OFFSET8 off ''civicAddressNeeded'' - QMI_IDL_OFFSET8 off ''civicAddressNeeded_valid''), 0x12, QMI_IDL_GENERIC_1_BYTE, QMI_IDL_OFFSET8 off ''civicAddressNeeded'']))"

definition qmiLocEventSensorStreamingReadyStatusIndMsgT_data_v02 :: "int list" where
  "qmiLocEventSensorStreamingReadyStatusIndMsgT_data_v02 =
    (let off = offsetof qmiLocEventSensorStreamingReadyStatusIndMsgT_v02 in uint8_array (
      [QMI_IDL_TLV_FLAGS_OPTIONAL OR (QMI_IDL_OFFSET8 off ''accelReady'' - QMI_IDL_OFFSET8 off ''accelReady_valid''), 0x10, QMI_IDL_AGGREGATE, QMI_IDL_OFFSET8 off ''accelReady''] @ QMI_IDL_TYPE88 0 29 @
      [QMI_IDL_TLV_FLAGS_OPTIONAL OR (QMI_IDL_OFFSET8 off ''gyroReady'' - QMI_IDL_OFFSET8 off ''gyroReady_valid''), 0x11, QMI_IDL_AGGREGATE, QMI_IDL_OFFSET8 off ''gyroReady''] @ QMI_IDL_TYPE88 0 29 @
      [QMI_IDL_TLV_FLAGS_OPTIONAL OR (QMI_IDL_OFFSET8 off ''accelTemperatureReady'' - QMI_IDL_OFFSET8 off ''accelTemperatureReady_valid''), 0x12, QMI_IDL_AGGREGATE, QMI_IDL_OFFSET8 off ''accelTemperatureReady''] @ QMI_IDL_TYPE88 0 29 @
      [QMI_IDL_TLV_FLAGS_OPTIONAL OR (QMI_IDL_OFFSET8 off ''gyroTemperatureReady'' - QMI_IDL_OFFSET8 off ''gyroTemperatureReady_valid''), 0x13, QMI_IDL_AGGREGATE, QMI_IDL_OFFSET8 off ''gyroTemperatureReady''] @ QMI_IDL_TYPE88 0 29 @
      [QMI_IDL_TLV_FLAGS_OPTIONAL OR (QMI_IDL_OFFSET8 off ''calibratedMagReady'' - QMI_IDL_OFFSET8 off ''calibratedMagReady_valid''), 0x14, QMI_IDL_AGGREGATE, QMI_IDL_OFFSET8 off ''calibratedMagReady''] @ QMI_IDL_TYPE88 0 29 @
      [QMI_IDL_TLV_FLAGS_LAST_TLV OR QMI_IDL_TLV_FLAGS_OPTIONAL OR (QMI_IDL_OFFSET8 off ''uncalibratedMagReady'' - QMI_IDL_OFFSET8 off ''uncalibratedMagReady_valid''), 0x15, QMI_IDL_AGGREGATE, QMI_IDL_OFFSET8 off ''uncalibratedMagReady''] @ QMI_IDL_TYPE88 0 29))"

definition qmiLocEventTimeSyncReqIndMsgT_data_v02 :: "int list" where
  "qmiLocEventTimeSyncReqIndMsgT_data_v02 =
    (let off = offsetof qmiLocEventTimeSyncReqIndMsgT_v02 in uint8_array (
      [QMI_IDL_TLV_FLAGS_LAST_TLV OR 0x01, QMI_IDL_GENERIC_4_BYTE, QMI_IDL_OFFSET8 off ''refCounter'']))"

definition qmiLocEventSetSpiStreamingReportIndMsgT_data_v02 :: "int list" where
  "qmiLocEventSetSpiStreamingReportIndMsgT_data_v02 =
    (let off = offsetof qmiLocEventSetSpiStreamingReportIndMsgT_v02 in uint8_array (
      [QMI_IDL_TLV_FLAGS_LAST_TLV OR 0x01, QMI_IDL_GENERIC_1_BYTE, QMI_IDL_OFFSET8 off ''enable'']))"

definition qmiLocEventLocationServerConnectionReqIndMsgT_data_v02 :: "int list" where
  "qmiLocEventLocationServerConnectionReqIndMsgT_data_v02 =
    (let off = offsetof qmiLocEventLocationServerConnectionReqIndMsgT_v02 in uint8_array (
      [0x01, QMI_IDL_GENERIC_4_BYTE, QMI_IDL_OFFSET8 off ''connHandle'',
       0x02, QMI_IDL_GENERIC_4_BYTE, QMI_IDL_OFFSET8 off ''requestType'',
       0x03, QMI_IDL_GENERIC_4_BYTE, QMI_IDL_OFFSET8 off ''wwanType'',
       QMI_IDL_TLV_FLAGS_OPTIONAL OR (QMI_IDL_OFFSET8 off ''bearerType'' - QMI_IDL_OFFSET8 off ''bearerType_valid''), 0x10, QMI_IDL_GENERIC_4_BYTE, QMI_IDL_OFFSET8 off ''bearerType'',
       QMI_IDL_TLV_FLAGS_OPTIONAL OR (QMI_IDL_OFFSET8 off ''apnTypeMask'' - QMI_IDL_OFFSET8 off ''apnTypeMask_valid''), 0x11, QMI_IDL_GENERIC_8_BYTE, QMI_IDL_OFFSET8 off ''apnTypeMask'',
       QMI_IDL_TLV_FLAGS_OPTIONAL OR (QMI_IDL_OFFSET8 off ''subId'' - QMI_IDL_OFFSET8 off ''subId_valid''), 0x12, QMI_IDL_GENERIC_4_BYTE, QMI_IDL_OFFSET8 off ''subId'',
       QMI_IDL_TLV_FLAGS_LAST_TLV OR QMI_IDL_TLV_FLAGS_OPTIONAL OR (QMI_IDL_OFFSET8 off ''connectionRequestTimeout'' - QMI_IDL_OFFSET8 off ''connectionRequestTimeout_valid''), 0x13, QMI_IDL_GENERIC_4_BYTE, QMI_IDL_OFFSET8 off ''connectionRequestTimeout'']))"

definition qmiLocEventNiGeofenceNotificationIndMsgT_data_v02 :: "int list" where
  "qmiLocEventNiGeofenceNotificationIndMsgT_data_v02 =
    (let off = offsetof qmiLocEventNiGeofenceNotificationIndMsgT_v02 in uint8_array (
      [0x01, QMI_IDL_GENERIC_4_BYTE, QMI_IDL_OFFSET8 off ''geofenceId'',
       QMI_IDL_TLV_FLAGS_LAST_TLV OR 0x02, QMI_IDL_GENERIC_4_BYTE, QMI_IDL_OFFSET8 off ''operationType'']))"

definition qmiLocEventGeofenceGenAlertIndMsgT_data_v02 :: "int list" where
  "qmiLocEventGeofenceGenAlertIndMsgT_data_v02 =
    (let off = offsetof qmiLocEventGeofenceGenAlertIndMsgT_v02 in uint8_array (
      [QMI_IDL_TLV_FLAGS_LAST_TLV OR 0x01, QMI_IDL_GENERIC_4_BYTE, QMI_IDL_OFFSET8 off ''geofenceAlert'']))"

definition qmiLocEventGeofenceBreachIndMsgT_data_v02 :: "int list" where
  "qmiLocEventGeofenceBreachIndMsgT_data_v02 =
    (let off = offsetof qmiLocEventGeofenceBreachIndMsgT_v02 in uint8_array (
      [0x01, QMI_IDL_GENERIC_4_BYTE, QMI_IDL_OFFSET8 off ''geofenceId'',
       0x02, QMI_IDL_GENERIC_4_BYTE, QMI_IDL_OFFSET8 off ''breachType'',
       QMI_IDL_TLV_FLAGS_OPTIONAL OR (QMI_IDL_OFFSET8 off ''geofencePosition'' - QMI_IDL_OFFSET8 off ''geofencePosition_valid''), 0x10, QMI_IDL_AGGREGATE, QMI_IDL_OFFSET8 off ''geofencePosition''] @ QMI_IDL_TYPE88 0 30 @
      [QMI_IDL_TLV_FLAGS_LAST_TLV OR QMI_IDL_TLV_FLAGS_OPTIONAL OR (QMI_IDL_OFFSET8 off ''breachConfidence'' - QMI_IDL_OFFSET8 off ''breachConfidence_valid''), 0x11, QMI_IDL_GENERIC_4_BYTE, QMI_IDL_OFFSET8 off ''breachConfidence'']))"

definition qmiLocEventPedometerControlIndMsgT_data_v02 :: "int list" where
  "qmiLocEventPedometerControlIndMsgT_data_v02 =
    (let off = offsetof qmiLocEventPedometerControlIndMsgT_v02 in uint8_array (
      [0x01, QMI_IDL_GENERIC_1_BYTE, QMI_IDL_OFFSET8 off ''requestPedometerData'',
       QMI_IDL_TLV_FLAGS_OPTIONAL OR (QMI_IDL_OFFSET8 off ''resetStepCount'' - QMI_IDL_OFFSET8 off ''resetStepCount_valid''), 0x10, QMI_IDL_GENERIC_1_BYTE, QMI_IDL_OFFSET8 off ''resetStepCount'',
       QMI_IDL_TLV_FLAGS_LAST_TLV OR QMI_IDL_TLV_FLAGS_OPTIONAL OR (QMI_IDL_OFFSET8 off ''stepCountThreshold'' - QMI_IDL_OFFSET8 off ''stepCountThreshold_valid''), 0x11, QMI_IDL_GENERIC_4_BYTE, QMI_IDL_OFFSET8 off ''stepCountThreshold'']))"

definition qmiLocEventMotionDataControlIndMsgT_data_v02 :: "int list" where
  "qmiLocEventMotionDataControlIndMsgT_data_v02 =
    (let off = offsetof qmiLocEventMotionDataControlIndMsgT_v02 in uint8_array (
      [QMI_IDL_TLV_FLAGS_LAST_TLV OR 0x01, QMI_IDL_GENERIC_1_BYTE, QMI_IDL_OFFSET8 off ''requestMotionData'']))"

definition qmiLocEventGeofenceBatchedBreachIndMsgT_data_v02 :: "int list" where
  "qmiLocEventGeofenceBatchedBreachIndMsgT_data_v02 =
    (let off = offsetof qmiLocEventGeofenceBatchedBreachIndMsgT_v02 in uint8_array (
      [0x01, QMI_IDL_GENERIC_4_BYTE, QMI_IDL_OFFSET8 off ''breachType'',
       QMI_IDL_TLV_FLAGS_OPTIONAL OR (QMI_IDL_OFFSET8 off ''geofenceIdContinuousList'' - QMI_IDL_OFFSET8 off ''geofenceIdContinuousList_valid''), 0x10, QMI_IDL_FLAGS_IS_ARRAY OR QMI_IDL_FLAGS_IS_VARIABLE_LEN OR QMI_IDL_AGGREGATE, QMI_IDL_OFFSET8 off ''geofenceIdContinuousList'', QMI_LOC_MAX_GEOFENCE_ID_CONTINUOUS_LIST_LENGTH_V02, QMI_IDL_OFFSET8 off ''geofenceIdContinuousList'' - QMI_IDL_OFFSET8 off ''geofenceIdContinuousList_len''] @ QMI_IDL_TYPE88 0 31 @
      [QMI_IDL_TLV_FLAGS_OPTIONAL OR (QMI_IDL_OFFSET16RELATIVE off ''geofenceIdDiscreteList'' - QMI_IDL_OFFSET16RELATIVE off ''geofenceIdDiscreteList_valid''), 0x11, QMI_IDL_FLAGS_IS_ARRAY OR QMI_IDL_FLAGS_IS_VARIABLE_LEN OR QMI_IDL_FLAGS_OFFSET_IS_16 OR QMI_IDL_GENERIC_4_BYTE] @ QMI_IDL_OFFSET16ARRAY off ''geofenceIdDiscreteList'' @
      [QMI_LOC_MAX_GEOFENCE_ID_DISCRETE_LIST_LENGTH_V02, QMI_IDL_OFFSET16RELATIVE off ''geofenceIdDiscreteList'' - QMI_IDL_OFFSET16RELATIVE off ''geofenceIdDiscreteList_len'',
       QMI_IDL_TLV_FLAGS_OPTIONAL OR (QMI_IDL_OFFSET16RELATIVE off ''geofencePosition'' - QMI_IDL_OFFSET16RELATIVE off ''geofencePosition_valid''), 0x12, QMI_IDL_FLAGS_OFFSET_IS_16 OR QMI_IDL_AGGREGATE] @ QMI_IDL_OFFSET16ARRAY off ''geofencePosition'' @ QMI_IDL_TYPE88 0 30 @
      [QMI_IDL_TLV_FLAGS_OPTIONAL OR (QMI_IDL_OFFSET16RELATIVE off ''breachConfidence'' - QMI_IDL_OFFSET16RELATIVE off ''breachConfidence_valid''), 0x13, QMI_IDL_FLAGS_OFFSET_IS_16 OR QMI_IDL_GENERIC_4_BYTE] @ QMI_IDL_OFFSET16ARRAY off ''breachConfidence'' @
      [QMI_IDL_TLV_FLAGS_OPTIONAL OR (QMI_IDL_OFFSET16RELATIVE off ''headingUnc'' - QMI_IDL_OFFSET16RELATIVE off ''headingUnc_valid''), 0x14, QMI_IDL_FLAGS_OFFSET_IS_16 OR QMI_IDL_GENERIC_4_BYTE] @ QMI_IDL_OFFSET16ARRAY off ''headingUnc'' @
      [QMI_IDL_TLV_FLAGS_OPTIONAL OR (QMI_IDL_OFFSET16RELATIVE off ''vertUnc'' - QMI_IDL_OFFSET16RELATIVE off ''vertUnc_valid''), 0x15, QMI_IDL_FLAGS_OFFSET_IS_16 OR QMI_IDL_GENERIC_4_BYTE] @ QMI_IDL_OFFSET16ARRAY off ''vertUnc'' @
      [QMI_IDL_TLV_FLAGS_OPTIONAL OR (QMI_IDL_OFFSET16RELATIVE off ''speedUnc'' - QMI_IDL_OFFSET16RELATIVE off ''speedUnc_valid''), 0x16, QMI_IDL_FLAGS_OFFSET_IS_16 OR QMI_IDL_GENERIC_4_BYTE] @ QMI_IDL_OFFSET16ARRAY off ''speedUnc'' @
      [QMI_IDL_TLV_FLAGS_OPTIONAL OR (QMI_IDL_OFFSET16RELATIVE off ''horConfidence'' - QMI_IDL_OFFSET16RELATIVE off ''horConfidence_valid''), 0x17, QMI_IDL_FLAGS_OFFSET_IS_16 OR QMI_IDL_GENERIC_1_BYTE] @ QMI_IDL_OFFSET16ARRAY off ''horConfidence'' @
      [QMI_IDL_TLV_FLAGS_OPTIONAL OR (QMI_IDL_OFFSET16RELATIVE off ''vertConfidence'' - QMI_IDL_OFFSET16RELATIVE off ''vertConfidence_valid''), 0x18, QMI_IDL_FLAGS_OFFSET_IS_16 OR QMI_IDL_GENERIC_1_BYTE] @ QMI_IDL_OFFSET16ARRAY off ''vertConfidence'' @
      [QMI_IDL_TLV_FLAGS_OPTIONAL OR (QMI_IDL_OFFSET16RELATIVE off ''DOP'' - QMI_IDL_OFFSET16RELATIVE off ''DOP_valid''), 0x19, QMI_IDL_FLAGS_OFFSET_IS_16 OR QMI_IDL_AGGREGATE] @ QMI_IDL_OFFSET16ARRAY off ''DOP'' @ QMI_IDL_TYPE88 0 3 @
      [QMI_IDL_TLV_FLAGS_OPTIONAL OR (QMI_IDL_OFFSET16RELATIVE off ''gnssSvUsedList'' - QMI_IDL_OFFSET16RELATIVE off ''gnssSvUsedList_valid''), 0x1A, QMI_IDL_FLAGS_IS_ARRAY OR QMI_IDL_FLAGS_IS_VARIABLE_LEN OR QMI_IDL_FLAGS_OFFSET_IS_16 OR QMI_IDL_GENERIC_2_BYTE] @ QMI_IDL_OFFSET16ARRAY off ''gnssSvUsedList'' @
      [QMI_LOC_MAX_SV_USED_LIST_LENGTH_V02, QMI_IDL_OFFSET16RELATIVE off ''gnssSvUsedList'' - QMI_IDL_OFFSET16RELATIVE off ''gnssSvUsedList_len'',
       QMI_IDL_TLV_FLAGS_OPTIONAL OR (QMI_IDL_OFFSET16RELATIVE off ''extDOP'' - QMI_IDL_OFFSET16RELATIVE off ''extDOP_valid''), 0x1B, QMI_IDL_FLAGS_OFFSET_IS_16 OR QMI_IDL_AGGREGATE] @ QMI_IDL_OFFSET16ARRAY off ''extDOP'' @ QMI_IDL_TYPE88 0 4 @
      [QMI_IDL_TLV_FLAGS_OPTIONAL OR (QMI_IDL_OFFSET16RELATIVE off ''expandedGnssSvUsedList'' - QMI_IDL_OFFSET16RELATIVE off ''expandedGnssSvUsedList_valid''), 0x1C, QMI_IDL_FLAGS_IS_ARRAY OR QMI_IDL_FLAGS_IS_VARIABLE_LEN OR QMI_IDL_FLAGS_OFFSET_IS_16 OR QMI_IDL_GENERIC_2_BYTE] @ QMI_IDL_OFFSET16ARRAY off ''expandedGnssSvUsedList'' @
      [QMI_LOC_EXPANDED_SV_INFO_LIST_MAX_SIZE_V02, QMI_IDL_OFFSET16RELATIVE off ''expandedGnssSvUsedList'' - QMI_IDL_OFFSET16RELATIVE off ''expandedGnssSvUsedList_len'',
       QMI_IDL_TLV_FLAGS_LAST_TLV OR QMI_IDL_TLV_FLAGS_OPTIONAL OR (QMI_IDL_OFFSET16RELATIVE off ''gnssSvUsedSignalTypeList'' - QMI_IDL_OFFSET16RELATIVE off ''gnssSvUsedSignalTypeList_valid''), 0x1D, QMI_IDL_FLAGS_IS_ARRAY OR QMI_IDL_FLAGS_IS_VARIABLE_LEN OR QMI_IDL_FLAGS_OFFSET_IS_16 OR QMI_IDL_GENERIC_8_BYTE] @ QMI_IDL_OFFSET16ARRAY off ''gnssSvUsedSignalTypeList'' @
      [QMI_LOC_EXPANDED_SV_INFO_LIST_MAX_SIZE_V02, QMI_IDL_OFFSET16RELATIVE off ''gnssSvUsedSignalTypeList'' - QMI_IDL_OFFSET16RELATIVE off ''gnssSvUsedSignalTypeList_len'']))"

definition qmiLocEventGeofenceProximityIndMsgT_data_v02 :: "int list" where
  "qmiLocEventGeofenceProximityIndMsgT_data_v02 =
    (let off = offsetof qmiLocEventGeofenceProximityIndMsgT_v02 in uint8_array (
      [0x01, QMI_IDL_GENERIC_4_BYTE, QMI_IDL_OFFSET8 off ''proximityType'',
       0x02, QMI_IDL_GENERIC_4_BYTE, QMI_IDL_OFFSET8 off ''geofenceId'',
       QMI_IDL_TLV_FLAGS_LAST_TLV OR QMI_IDL_TLV_FLAGS_OPTIONAL OR (QMI_IDL_OFFSET8 off ''contextId'' - QMI_IDL_OFFSET8 off ''contextId_valid''), 0x10, QMI_IDL_GENERIC_4_BYTE, QMI_IDL_OFFSET8 off ''contextId'']))"

definition qmiLocEventGeofenceBatchedDwellIndMsgT_data_v02 :: "int list" where
  "qmiLocEventGeofenceBatchedDwellIndMsgT_data_v02 =
    (let off = offsetof qmiLocEventGeofenceBatchedDwellIndMsgT_v02 in uint8_array (
      [0x01, QMI_IDL_GENERIC_4_BYTE, QMI_IDL_OFFSET8 off ''dwellType'',
       QMI_IDL_TLV_FLAGS_OPTIONAL OR (QMI_IDL_OFFSET8 off ''geofenceIdContinuousList'' - QMI_IDL_OFFSET8 off ''geofenceIdContinuousList_valid''), 0x10, QMI_IDL_FLAGS_IS_ARRAY OR QMI_IDL_FLAGS_IS_VARIABLE_LEN OR QMI_IDL_AGGREGATE, QMI_IDL_OFFSET8 off ''geofenceIdContinuousList'', QMI_LOC_MAX_GEOFENCE_ID_CONTINUOUS_LIST_LENGTH_V02, QMI_IDL_OFFSET8 off ''geofenceIdContinuousList'' - QMI_IDL_OFFSET8 off ''geofenceIdContinuousList_len''] @ QMI_IDL_TYPE88 0 31 @
      [QMI_IDL_TLV_FLAGS_OPTIONAL OR (QMI_IDL_OFFSET16RELATIVE off ''geofenceIdDiscreteList'' - QMI_IDL_OFFSET16RELATIVE off ''geofenceIdDiscreteList_valid''), 0x11, QMI_IDL_FLAGS_IS_ARRAY OR QMI_IDL_FLAGS_IS_VARIABLE_LEN OR QMI_IDL_FLAGS_OFFSET_IS_16 OR QMI_IDL_GENERIC_4_BYTE] @ QMI_IDL_OFFSET16ARRAY off ''geofenceIdDiscreteList'' @
      [QMI_LOC_MAX_GEOFENCE_ID_DISCRETE_LIST_LENGTH_V02, QMI_IDL_OFFSET16RELATIVE off ''geofenceIdDiscreteList'' - QMI_IDL_OFFSET16RELATIVE off ''geofenceIdDiscreteList_len'',
       QMI_IDL_TLV_FLAGS_OPTIONAL OR (QMI_IDL_OFFSET16RELATIVE off ''geofencePosition'' - QMI_IDL_OFFSET16RELATIVE off ''geofencePosition_valid''), 0x12, QMI_IDL_FLAGS_OFFSET_IS_16 OR QMI_IDL_AGGREGATE] @ QMI_IDL_OFFSET16ARRAY off ''geofencePosition'' @ QMI_IDL_TYPE88 0 30 @
      [QMI_IDL_TLV_FLAGS_OPTIONAL OR (QMI_IDL_OFFSET16RELATIVE off ''headingUnc'' - QMI_IDL_OFFSET16RELATIVE off ''headingUnc_valid''), 0x13, QMI_IDL_FLAGS_OFFSET_IS_16 OR QMI_IDL_GENERIC_4_BYTE] @ QMI_IDL_OFFSET16ARRAY off ''headingUnc'' @
      [QMI_IDL_TLV_FLAGS_OPTIONAL OR (QMI_IDL_OFFSET16RELATIVE off ''vertUnc'' - QMI_IDL_OFFSET16RELATIVE off ''vertUnc_valid''), 0x14, QMI_IDL_FLAGS_OFFSET_IS_16 OR QMI_IDL_GENERIC_4_BYTE] @ QMI_IDL_OFFSET16ARRAY off ''vertUnc'' @
      [QMI_IDL_TLV_FLAGS_OPTIONAL OR (QMI_IDL_OFFSET16RELATIVE off ''speedUnc'' - QMI_IDL_OFFSET16RELATIVE off ''speedUnc_valid''), 0x15, QMI_IDL_FLAGS_OFFSET_IS_16 OR QMI_IDL_GENERIC_4_BYTE] @ QMI_IDL_OFFSET16ARRAY off ''speedUnc'' @
      [QMI_IDL_TLV_FLAGS_OPTIONAL OR (QMI_IDL_OFFSET16RELATIVE off ''horConfidence'' - QMI_IDL_OFFSET16RELATIVE off ''horConfidence_valid''), 0x16, QMI_IDL_FLAGS_OFFSET_IS_16 OR QMI_IDL_GENERIC_1_BYTE] @ QMI_IDL_OFFSET16ARRAY off ''horConfidence'' @
      [QMI_IDL_TLV_FLAGS_OPTIONAL OR (QMI_IDL_OFFSET16RELATIVE off ''vertConfidence'' - QMI_IDL_OFFSET16RELATIVE off ''vertConfidence_valid''), 0x17, QMI_IDL_FLAGS_OFFSET_IS_16 OR QMI_IDL_GENERIC_1_BYTE] @ QMI_IDL_OFFSET16ARRAY off ''vertConfidence'' @
      [QMI_IDL_TLV_FLAGS_OPTIONAL OR (QMI_IDL_OFFSET16RELATIVE off ''DOP'' - QMI_IDL_OFFSET16RELATIVE off ''DOP_valid''), 0x18, QMI_IDL_FLAGS_OFFSET_IS_16 OR QMI_IDL_AGGREGATE] @ QMI_IDL_OFFSET16ARRAY off ''DOP'' @ QMI_IDL_TYPE88 0 3 @
      [QMI_IDL_TLV_FLAGS_OPTIONAL OR (QMI_IDL_OFFSET16RELATIVE off ''gnssSvUsedList'' - QMI_IDL_OFFSET16RELATIVE off ''gnssSvUsedList_valid''), 0x19, QMI_IDL_FLAGS_IS_ARRAY OR QMI_IDL_FLAGS_IS_VARIABLE_LEN OR QMI_IDL_FLAGS_OFFSET_IS_16 OR QMI_IDL_GENERIC_2_BYTE] @ QMI_IDL_OFFSET16ARRAY off ''gnssSvUsedList'' @
      [QMI_LOC_MAX_SV_USED_LIST_LENGTH_V02, QMI_IDL_OFFSET16RELATIVE off ''gnssSvUsedList'' - QMI_IDL_OFFSET16RELATIVE off ''gnssSvUsedList_len'',
       QMI_IDL_TLV_FLAGS_OPTIONAL OR (QMI_IDL_OFFSET16RELATIVE off ''extDOP'' - QMI_IDL_OFFSET16RELATIVE off ''extDOP_valid''), 0x1A, QMI_IDL_FLAGS_OFFSET_IS_16 OR QMI_IDL_AGGREGATE] @ QMI_IDL_OFFSET16ARRAY off ''extDOP'' @ QMI_IDL_TYPE88 0 4 @
      [QMI_IDL_TLV_FLAGS_OPTIONAL OR (QMI_IDL_OFFSET16RELATIVE off ''expandedGnssSvUsedList'' - QMI_IDL_OFFSET16RELATIVE off ''expandedGnssSvUsedList_valid''), 0x1B, QMI_IDL_FLAGS_IS_ARRAY OR QMI_IDL_FLAGS_IS_VARIABLE_LEN OR QMI_IDL_FLAGS_OFFSET_IS_16 OR QMI_IDL_GENERIC_2_BYTE] @ QMI_IDL_OFFSET16ARRAY off ''expandedGnssSvUsedList'' @
      [QMI_LOC_EXPANDED_SV_INFO_LIST_MAX_SIZE_V02, QMI_IDL_OFFSET16RELATIVE off ''expandedGnssSvUsedList'' - QMI_IDL_OFFSET16RELATIVE off ''expandedGnssSvUsedList_len'',
       QMI_IDL_TLV_FLAGS_LAST_TLV OR QMI_IDL_TLV_FLAGS_OPTIONAL OR (QMI_IDL_OFFSET16RELATIVE off ''gnssSvUsedSignalTypeList'' - QMI_IDL_OFFSET16RELATIVE off ''gnssSvUsedSignalTypeList_valid''), 0x1C, QMI_IDL_FLAGS_IS_ARRAY OR QMI_IDL_FLAGS_IS_VARIABLE_LEN OR QMI_IDL_FLAGS_OFFSET_IS_16 OR QMI_IDL_GENERIC_8_BYTE] @ QMI_IDL_OFFSET16ARRAY off ''gnssSvUsedSignalTypeList'' @
      [QMI_LOC_EXPANDED_SV_INFO_LIST_MAX_SIZE_V02, QMI_IDL_OFFSET16RELATIVE off ''gnssSvUsedSignalTypeList'' - QMI_IDL_OFFSET16RELATIVE off ''gnssSvUsedSignalTypeList_len'']))"

definition qmiLocEventGdtUploadBeginStatusReqIndMsgT_data_v02 :: "int list" where
  "qmiLocEventGdtUploadBeginStatusReqIndMsgT_data_v02 =
    (let off = offsetof qmiLocEventGdtUploadBeginStatusReqIndMsgT_v02 in uint8_array (
      [0x01, QMI_IDL_GENERIC_4_BYTE, QMI_IDL_OFFSET8 off ''serviceId'',
       0x02, QMI_IDL_GENERIC_4_BYTE, QMI_IDL_OFFSET8 off ''sessionId'',
       QMI_IDL_TLV_FLAGS_LAST_TLV OR 0x03, QMI_IDL_FLAGS_IS_ARRAY OR QMI_IDL_FLAGS_IS_VARIABLE_LEN OR QMI_IDL_GENERIC_1_BYTE, QMI_IDL_OFFSET8 off ''filePath'', QMI_LOC_MAX_GDT_PATH_LEN_V02, QMI_IDL_OFFSET8 off ''filePath'' - QMI_IDL_OFFSET8 off ''filePath_len'']))"

definition qmiLocEventGdtUploadEndReqIndMsgT_data_v02 :: "int list" where
  "qmiLocEventGdtUploadEndReqIndMsgT_data_v02 =
    (let off = offsetof qmiLocEventGdtUploadEndReqIndMsgT_v02 in uint8_array (
      [0x01, QMI_IDL_GENERIC_4_BYTE, QMI_IDL_OFFSET8 off ''serviceId'',
       0x02, QMI_IDL_GENERIC_4_BYTE, QMI_IDL_OFFSET8 off ''sessionId'',
       QMI_IDL_TLV_FLAGS_LAST_TLV OR 0x03, QMI_IDL_GENERIC_4_BYTE, QMI_IDL_OFFSET8 off ''endStatus'']))"

definition qmiLocEventGdtDownloadBeginReqIndMsgT_data_v02 :: "int list" where
  "qmiLocEventGdtDownloadBeginReqIndMsgT_data_v02 =
    (let off = offsetof qmiLocEventGdtDownloadBeginReqIndMsgT_v02 in uint8_array (
      [0x01, QMI_IDL_GENERIC_4_BYTE, QMI_IDL_OFFSET8 off ''serviceId'',
       0x02, QMI_IDL_GENERIC_4_BYTE, QMI_IDL_OFFSET8 off ''sessionId'',
       0x03, QMI_IDL_GENERIC_4_BYTE, QMI_IDL_OFFSET8 off ''respTimeoutInterval'',
       0x04, QMI_IDL_FLAGS_IS_ARRAY OR QMI_IDL_FLAGS_IS_VARIABLE_LEN OR QMI_IDL_FLAGS_SZ_IS_16 OR QMI_IDL_GENERIC_1_BYTE, QMI_IDL_OFFSET8 off ''clientInfo'', QMI_LOC_MAX_GTP_CL_INFO_LEN_V02 AND 0xFF, drop_bit 8 QMI_LOC_MAX_GTP_CL_INFO_LEN_V02, QMI_IDL_OFFSET8 off ''clientInfo'' - QMI_IDL_OFFSET8 off ''clientInfo_len'',
       0x05, QMI_IDL_FLAGS_IS_ARRAY OR QMI_IDL_FLAGS_IS_VARIABLE_LEN OR QMI_IDL_FLAGS_SZ_IS_16 OR QMI_IDL_FLAGS_OFFSET_IS_16 OR QMI_IDL_GENERIC_1_BYTE] @ QMI_IDL_OFFSET16ARRAY off ''mobileStatusData'' @
      [QMI_LOC_MAX_GTP_MSD_LEN_V02 AND 0xFF, drop_bit 8 QMI_LOC_MAX_GTP_MSD_LEN_V02, QMI_IDL_OFFSET16RELATIVE off ''mobileStatusData'' - QMI_IDL_OFFSET16RELATIVE off ''mobileStatusData_len'',
       0x06, QMI_IDL_FLAGS_IS_ARRAY OR QMI_IDL_FLAGS_IS_VARIABLE_LEN OR QMI_IDL_FLAGS_OFFSET_IS_16 OR QMI_IDL_GENERIC_1_BYTE] @ QMI_IDL_OFFSET16ARRAY off ''filePath'' @
      [QMI_LOC_MAX_GDT_PATH_LEN_V02, QMI_IDL_OFFSET16RELATIVE off ''filePath'' - QMI_IDL_OFFSET16RELATIVE off ''filePath_len'',
       QMI_IDL_TLV_FLAGS_OPTIONAL OR (QMI_IDL_OFFSET16RELATIVE off ''powerBudgetInfo'' - QMI_IDL_OFFSET16RELATIVE off ''powerBudgetInfo_valid''), 0x10, QMI_IDL_FLAGS_OFFSET_IS_16 OR QMI_IDL_GENERIC_4_BYTE] @ QMI_IDL_OFFSET16ARRAY off ''powerBudgetInfo'' @
      [QMI_IDL_TLV_FLAGS_OPTIONAL OR (QMI_IDL_OFFSET16RELATIVE off ''powerBudgetAllowance'' - QMI_IDL_OFFSET16RELATIVE off ''powerBudgetAllowance_valid''), 0x11, QMI_IDL_FLAGS_OFFSET_IS_16 OR QMI_IDL_GENERIC_4_BYTE] @ QMI_IDL_OFFSET16ARRAY off ''powerBudgetAllowance'' @
      [QMI_IDL_TLV_FLAGS_LAST_TLV OR QMI_IDL_TLV_FLAGS_OPTIONAL OR (QMI_IDL_OFFSET16RELATIVE off ''downloadRequestMask'' - QMI_IDL_OFFSET16RELATIVE off ''downloadRequestMask_valid''), 0x12, QMI_IDL_FLAGS_OFFSET_IS_16 OR QMI_IDL_GENERIC_4_BYTE] @ QMI_IDL_OFFSET16ARRAY off ''downloadRequestMask''))"

definition qmiLocEventGdtReceiveDoneIndMsgT_data_v02 :: "int list" where
  "qmiLocEventGdtReceiveDoneIndMsgT_data_v02 =
    (let off = offsetof qmiLocEventGdtReceiveDoneIndMsgT_v02 in uint8_array (
      [0x01, QMI_IDL_GENERIC_4_BYTE, QMI_IDL_OFFSET8 off ''serviceId'',
       0x02, QMI_IDL_GENERIC_4_BYTE, QMI_IDL_OFFSET8 off ''sessionId'',
       QMI_IDL_TLV_FLAGS_LAST_TLV OR 0x03, QMI_IDL_GENERIC_4_BYTE, QMI_IDL_OFFSET8 off ''status'']))"

definition loc_message_table_v02_0 :: "qmi_idl_message_table_entry list" where
  "loc_message_table_v02_0 = [
    (qmiLocGenReqMsgT_v02, None),
    (qmiLocGenRespMsgT_v02, Some qmiLocGenRespMsgT_data_v02),
    (qmiLocGenReqStatusIndMsgT_v02, Some qmiLocGenReqStatusIndMsgT_data_v02),
    (qmiLocInformClientRevisionReqMsgT_v02, Some qmiLocInformClientRevisionReqMsgT_data_v02),
    (qmiLocRegEventsReqMsgT_v02, Some qmiLocRegEventsReqMsgT_data_v02),
    (qmiLocStartReqMsgT_v02, Some qmiLocStartReqMsgT_data_v02),
    (qmiLocStopReqMsgT_v02, Some qmiLocStopReqMsgT_data_v02),
    (qmiLocEventPositionReportIndMsgT_v02, Some qmiLocEventPositionReportIndMsgT_data_v02),
    (qmiLocEventGnssSvInfoIndMsgT_v02, Some qmiLocEventGnssSvInfoIndMsgT_data_v02),
    (qmiLocEventNmeaIndMsgT_v02, Some qmiLocEventNmeaIndMsgT_data_v02),
    (qmiLocEventNiNotifyVerifyReqIndMsgT_v02, Some qmiLocEventNiNotifyVerifyReqIndMsgT_data_v02),
    (qmiLocEventInjectTimeReqIndMsgT_v02, Some qmiLocEventInjectTimeReqIndMsgT_data_v02),
    (qmiLocEventInjectPredictedOrbitsReqIndMsgT_v02, Some qmiLocEventInjectPredictedOrbitsReqIndMsgT_data_v02),
    (qmiLocEventInjectPositionReqIndMsgT_v02, Some qmiLocEventInjectPositionReqIndMsgT_data_v02),
    (qmiLocEventEngineStateIndMsgT_v02, Some qmiLocEventEngineStateIndMsgT_data_v02),
    (qmiLocEventFixSessionStateIndMsgT_v02, Some qmiLocEventFixSessionStateIndMsgT_data_v02),
    (qmiLocEventWifiReqIndMsgT_v02, Some qmiLocEventWifiReqIndMsgT_data_v02),
    (qmiLocEventSensorStreamingReadyStatusIndMsgT_v02, Some qmiLocEventSensorStreamingReadyStatusIndMsgT_data_v02),
    (qmiLocEventTimeSyncReqIndMsgT_v02, Some qmiLocEventTimeSyncReqIndMsgT_data_v02),
    (qmiLocEventSetSpiStreamingReportIndMsgT_v02, Some qmiLocEventSetSpiStreamingReportIndMsgT_data_v02),
    (qmiLocEventLocationServerConnectionReqIndMsgT_v02, Some qmiLocEventLocationServerConnectionReqIndMsgT_data_v02),
    (qmiLocEventNiGeofenceNotificationIndMsgT_v02, Some qmiLocEventNiGeofenceNotificationIndMsgT_data_v02),
    (qmiLocEventGeofenceGenAlertIndMsgT_v02, Some qmiLocEventGeofenceGenAlertIndMsgT_data_v02),
    (qmiLocEventGeofenceBreachIndMsgT_v02, Some qmiLocEventGeofenceBreachIndMsgT_data_v02),
    (qmiLocEventPedometerControlIndMsgT_v02, Some qmiLocEventPedometerControlIndMsgT_data_v02),
    (qmiLocEventMotionDataControlIndMsgT_v02, Some qmiLocEventMotionDataControlIndMsgT_data_v02),
    (qmiLocEventGeofenceBatchedBreachIndMsgT_v02, Some qmiLocEventGeofenceBatchedBreachIndMsgT_data_v02),
    (qmiLocEventGeofenceProximityIndMsgT_v02, Some qmiLocEventGeofenceProximityIndMsgT_data_v02),
    (qmiLocEventGeofenceBatchedDwellIndMsgT_v02, Some qmiLocEventGeofenceBatchedDwellIndMsgT_data_v02),
    (qmiLocEventGdtUploadBeginStatusReqIndMsgT_v02, Some qmiLocEventGdtUploadBeginStatusReqIndMsgT_data_v02),
    (qmiLocEventGdtUploadEndReqIndMsgT_v02, Some qmiLocEventGdtUploadEndReqIndMsgT_data_v02),
    (qmiLocEventGdtDownloadBeginReqIndMsgT_v02, Some qmiLocEventGdtDownloadBeginReqIndMsgT_data_v02),
    (qmiLocEventGdtReceiveDoneIndMsgT_v02, Some qmiLocEventGdtReceiveDoneIndMsgT_data_v02)]"

definition qmiLocEventGdtDownloadEndReqIndMsgT_data_v02 :: "int list" where
  "qmiLocEventGdtDownloadEndReqIndMsgT_data_v02 =
    (let off = offsetof qmiLocEventGdtDownloadEndReqIndMsgT_v02 in uint8_array (
      [0x01, QMI_IDL_GENERIC_4_BYTE, QMI_IDL_OFFSET8 off ''serviceId'',
       0x02, QMI_IDL_GENERIC_4_BYTE, QMI_IDL_OFFSET8 off ''sessionId'',
       QMI_IDL_TLV_FLAGS_LAST_TLV OR 0x03, QMI_IDL_GENERIC_4_BYTE, QMI_IDL_OFFSET8 off ''status'']))"

definition qmiLocGetServiceRevisionIndMsgT_data_v02 :: "int list" where
  "qmiLocGetServiceRevisionIndMsgT_data_v02 =
    (let off = offsetof qmiLocGetServiceRevisionIndMsgT_v02 in uint8_array (
      [0x01, QMI_IDL_GENERIC_4_BYTE, QMI_IDL_OFFSET8 off ''status'',
       0x02, QMI_IDL_GENERIC_4_BYTE, QMI_IDL_OFFSET8 off ''revision'',
       QMI_IDL_TLV_FLAGS_OPTIONAL OR (QMI_IDL_OFFSET8 off ''gnssMeFWVerString'' - QMI_IDL_OFFSET8 off ''gnssMeFWVerString_valid''), 0x10, QMI_IDL_FLAGS_IS_ARRAY OR QMI_IDL_FLAGS_IS_VARIABLE_LEN OR QMI_IDL_STRING, QMI_IDL_OFFSET8 off ''gnssMeFWVerString'', QMI_LOC_GNSS_ME_VERSION_STRING_MAX_LENGTH_V02,
       QMI_IDL_TLV_FLAGS_OPTIONAL OR (QMI_IDL_OFFSET8 off ''gnssHostSWVerString'' - QMI_IDL_OFFSET8 off ''gnssHostSWVerString_valid''), 0x11, QMI_IDL_FLAGS_IS_ARRAY OR QMI_IDL_FLAGS_IS_VARIABLE_LEN OR QMI_IDL_STRING, QMI_IDL_OFFSET8 off ''gnssHostSWVerString'', QMI_LOC_GNSS_HOSTED_SW_VERSION_STRING_MAX_LENGTH_V02,
       QMI_IDL_TLV_FLAGS_LAST_TLV OR QMI_IDL_TLV_FLAGS_OPTIONAL OR (QMI_IDL_OFFSET16RELATIVE off ''gnssSWVerString'' - QMI_IDL_OFFSET16RELATIVE off ''gnssSWVerString_valid''), 0x12, QMI_IDL_FLAGS_IS_ARRAY OR QMI_IDL_FLAGS_IS_VARIABLE_LEN OR QMI_IDL_FLAGS_OFFSET_IS_16 OR QMI_IDL_STRING] @ QMI_IDL_OFFSET16ARRAY off ''gnssSWVerString'' @
      [QMI_LOC_GNSS_SW_VERSION_STRING_MAX_LENGTH_V02]))"

definition qmiLocGetFixCriteriaIndMsgT_data_v02 :: "int list" where
  "qmiLocGetFixCriteriaIndMsgT_data_v02 =
    (let off = offsetof qmiLocGetFixCriteriaIndMsgT_v02 in uint8_array (
      [0x01, QMI_IDL_GENERIC_4_BYTE, QMI_IDL_OFFSET8 off ''status'',
       QMI_IDL_TLV_FLAGS_OPTIONAL OR (QMI_IDL_OFFSET8 off ''horizontalAccuracyLevel'' - QMI_IDL_OFFSET8 off ''horizontalAccuracyLevel_valid''), 0x10, QMI_IDL_GENERIC_4_BYTE, QMI_IDL_OFFSET8 off ''horizontalAccuracyLevel'',
       QMI_IDL_TLV_FLAGS_OPTIONAL OR (QMI_IDL_OFFSET8 off ''intermediateReportState'' - QMI_IDL_OFFSET8 off ''intermediateReportState_valid''), 0x11, QMI_IDL_GENERIC_4_BYTE, QMI_IDL_OFFSET8 off ''intermediateReportState'',
       QMI_IDL_TLV_FLAGS_OPTIONAL OR (QMI_IDL_OFFSET8 off ''minInterval'' - QMI_IDL_OFFSET8 off ''minInterval_valid''), 0x12, QMI_IDL_GENERIC_4_BYTE, QMI_IDL_OFFSET8 off ''minInterval'',
       QMI_IDL_TLV_FLAGS_OPTIONAL OR (QMI_IDL_OFFSET8 off ''applicationId'' - QMI_IDL_OFFSET8 off ''applicationId_valid''), 0x13, QMI_IDL_AGGREGATE, QMI_IDL_OFFSET8 off ''applicationId''] @ QMI_IDL_TYPE88 0 0 @
      [QMI_IDL_TLV_FLAGS_OPTIONAL OR (QMI_IDL_OFFSET8 off ''configAltitudeAssumed'' - QMI_IDL_OFFSET8 off ''configAltitudeAssumed_valid''), 0x14, QMI_IDL_GENERIC_4_BYTE, QMI_IDL_OFFSET8 off ''configAltitudeAssumed'',
       QMI_IDL_TLV_FLAGS_OPTIONAL OR (QMI_IDL_OFFSET8 off ''minIntermediatePositionReportInterval'' - QMI_IDL_OFFSET8 off ''minIntermediatePositionReportInterval_valid''), 0x15, QMI_IDL_GENERIC_4_BYTE, QMI_IDL_OFFSET8 off ''minIntermediatePositionReportInterval'',
       QMI_IDL_TLV_FLAGS_OPTIONAL OR (QMI_IDL_OFFSET8 off ''positionReportTimeout'' - QMI_IDL_OFFSET8 off ''positionReportTimeout_valid''), 0x16, QMI_IDL_GENERIC_4_BYTE, QMI_IDL_OFFSET8 off ''positionReportTimeout'',
       QMI_IDL_TLV_FLAGS_OPTIONAL OR (QMI_IDL_OFFSET8 off ''sharePosition'' - QMI_IDL_OFFSET8 off ''sharePosition_valid''), 0x17, QMI_IDL_GENERIC_1_BYTE, QMI_IDL_OFFSET8 off ''sharePosition'',
       QMI_IDL_TLV_FLAGS_LAST_TLV OR QMI_IDL_TLV_FLAGS_OPTIONAL OR (QMI_IDL_OFFSET8 off ''powerMode'' - QMI_IDL_OFFSET8 off ''powerMode_valid''), 0x18, QMI_IDL_AGGREGATE, QMI_IDL_OFFSET8 off ''powerMode''] @ QMI_IDL_TYPE88 0 1))"

definition qmiLocNiUserRespReqMsgT_data_v02 :: "int list" where
  "qmiLocNiUserRespReqMsgT_data_v02 =
    (let off = offsetof qmiLocNiUserRespReqMsgT_v02 in uint8_array (
      [0x01, QMI_IDL_GENERIC_4_BYTE, QMI_IDL_OFFSET8 off ''userResp'',
       0x02, QMI_IDL_GENERIC_4_BYTE, QMI_IDL_OFFSET8 off ''notificationType'',
       QMI_IDL_TLV_FLAGS_OPTIONAL OR (QMI_IDL_OFFSET8 off ''NiVxPayload'' - QMI_IDL_OFFSET8 off ''NiVxPayload_valid''), 0x10, QMI_IDL_AGGREGATE, QMI_IDL_OFFSET8 off ''NiVxPayload''] @ QMI_IDL_TYPE88 0 11 @
      [QMI_IDL_TLV_FLAGS_OPTIONAL OR (QMI_IDL_OFFSET16RELATIVE off ''NiSuplPayload'' - QMI_IDL_OFFSET16RELATIVE off ''NiSuplPayload_valid''), 0x11, QMI_IDL_FLAGS_OFFSET_IS_16 OR QMI_IDL_AGGREGATE] @ QMI_IDL_OFFSET16ARRAY off ''NiSuplPayload'' @ QMI_IDL_TYPE88 0 17 @
      [QMI_IDL_TLV_FLAGS_OPTIONAL OR (QMI_IDL_OFFSET16RELATIVE off ''NiUmtsCpPayload'' - QMI_IDL_OFFSET16RELATIVE off ''NiUmtsCpPayload_valid''), 0x12, QMI_IDL_FLAGS_OFFSET_IS_16 OR QMI_IDL_AGGREGATE] @ QMI_IDL_OFFSET16ARRAY off ''NiUmtsCpPayload'' @ QMI_IDL_TYPE88 0 19 @
      [QMI_IDL_TLV_FLAGS_OPTIONAL OR (QMI_IDL_OFFSET16RELATIVE off ''NiVxServiceInteractionPayload'' - QMI_IDL_OFFSET16RELATIVE off ''NiVxServiceInteractionPayload_valid''), 0x13, QMI_IDL_FLAGS_OFFSET_IS_16 OR QMI_IDL_AGGREGATE] @ QMI_IDL_OFFSET16ARRAY off ''NiVxServiceInteractionPayload'' @ QMI_IDL_TYPE88 0 20 @
      [QMI_IDL_TLV_FLAGS_OPTIONAL OR (QMI_IDL_OFFSET16RELATIVE off ''NiSuplVer2ExtPayload'' - QMI_IDL_OFFSET16RELATIVE off ''NiSuplVer2ExtPayload_valid''), 0x14, QMI_IDL_FLAGS_OFFSET_IS_16 OR QMI_IDL_AGGREGATE] @ QMI_IDL_OFFSET16ARRAY off ''NiSuplVer2ExtPayload'' @ QMI_IDL_TYPE88 0 21 @
      [QMI_IDL_TLV_FLAGS_LAST_TLV OR QMI_IDL_TLV_FLAGS_OPTIONAL OR (QMI_IDL_OFFSET16RELATIVE off ''suplEmergencyNotification'' - QMI_IDL_OFFSET16RELATIVE off ''suplEmergencyNotification_valid''), 0x15, QMI_IDL_FLAGS_OFFSET_IS_16 OR QMI_IDL_AGGREGATE] @ QMI_IDL_OFFSET16ARRAY off ''suplEmergencyNotification'' @ QMI_IDL_TYPE88 0 22))"

definition qmiLocNiUserRespIndMsgT_data_v02 :: "int list" where
  "qmiLocNiUserRespIndMsgT_data_v02 =
    (let off = offsetof qmiLocNiUserRespIndMsgT_v02 in uint8_array (
      [QMI_IDL_TLV_FLAGS_LAST_TLV OR 0x01, QMI_IDL_GENERIC_4_BYTE, QMI_IDL_OFFSET8 off ''status'']))"

definition qmiLocInjectPredictedOrbitsDataReqMsgT_data_v02 :: "int list" where
  "qmiLocInjectPredictedOrbitsDataReqMsgT_data_v02 =
    (let off = offsetof qmiLocInjectPredictedOrbitsDataReqMsgT_v02 in uint8_array (
      [0x01, QMI_IDL_GENERIC_4_BYTE, QMI_IDL_OFFSET8 off ''totalSize'',
       0x02, QMI_IDL_GENERIC_2_BYTE, QMI_IDL_OFFSET8 off ''totalParts'',
       0x03, QMI_IDL_GENERIC_2_BYTE, QMI_IDL_OFFSET8 off ''partNum'',
       0x04, QMI_IDL_FLAGS_IS_ARRAY OR QMI_IDL_FLAGS_IS_VARIABLE_LEN OR QMI_IDL_FLAGS_SZ_IS_16 OR QMI_IDL_GENERIC_1_BYTE, QMI_IDL_OFFSET8 off ''partData'', QMI_LOC_MAX_PREDICTED_ORBITS_PART_LEN_V02 AND 0xFF, drop_bit 8 QMI_LOC_MAX_PREDICTED_ORBITS_PART_LEN_V02, QMI_IDL_OFFSET8 off ''partData'' - QMI_IDL_OFFSET8 off ''partData_len'',
       QMI_IDL_TLV_FLAGS_LAST_TLV OR QMI_IDL_TLV_FLAGS_OPTIONAL OR (QMI_IDL_OFFSET16RELATIVE off ''formatType'' - QMI_IDL_OFFSET16RELATIVE off ''formatType_valid''), 0x10, QMI_IDL_FLAGS_OFFSET_IS_16 OR QMI_IDL_GENERIC_4_BYTE] @ QMI_IDL_OFFSET16ARRAY off ''formatType''))"

definition qmiLocInjectPredictedOrbitsDataIndMsgT_data_v02 :: "int list" where
  "qmiLocInjectPredictedOrbitsDataIndMsgT_data_v02 =
    (let off = offsetof qmiLocInjectPredictedOrbitsDataIndMsgT_v02 in uint8_array (
      [0x01, QMI_IDL_GENERIC_4_BYTE, QMI_IDL_OFFSET8 off ''status'',
       QMI_IDL_TLV_FLAGS_LAST_TLV OR QMI_IDL_TLV_FLAGS_OPTIONAL OR (QMI_IDL_OFFSET8 off ''partNum'' - QMI_IDL_OFFSET8 off ''partNum_valid''), 0x10, QMI_IDL_GENERIC_2_BYTE, QMI_IDL_OFFSET8 off ''partNum'']))"

definition qmiLocGetPredictedOrbitsDataSourceIndMsgT_data_v02 :: "int list" where
  "qmiLocGetPredictedOrbitsDataSourceIndMsgT_data_v02 =
    (let off = offsetof qmiLocGetPredictedOrbitsDataSourceIndMsgT_v02 in uint8_array (
      [0x01, QMI_IDL_GENERIC_4_BYTE, QMI_IDL_OFFSET8 off ''status'',
       QMI_IDL_TLV_FLAGS_OPTIONAL OR (QMI_IDL_OFFSET8 off ''allowedSizes'' - QMI_IDL_OFFSET8 off ''allowedSizes_valid''), 0x10, QMI_IDL_AGGREGATE, QMI_IDL_OFFSET8 off ''allowedSizes''] @ QMI_IDL_TYPE88 0 25 @
      [QMI_IDL_TLV_FLAGS_LAST_TLV OR QMI_IDL_TLV_FLAGS_OPTIONAL OR (QMI_IDL_OFFSET8 off ''serverList'' - QMI_IDL_OFFSET8 off ''serverList_valid''), 0x11, QMI_IDL_AGGREGATE, QMI_IDL_OFFSET8 off ''serverList''] @ QMI_IDL_TYPE88 0 26))"

definition qmiLocGetPredictedOrbitsDataValidityIndMsgT_data_v02 :: "int list" where
  "qmiLocGetPredictedOrbitsDataValidityIndMsgT_data_v02 =
    (let off = offsetof qmiLocGetPredictedOrbitsDataValidityIndMsgT_v02 in uint8_array (
      [0x01, QMI_IDL_GENERIC_4_BYTE, QMI_IDL_OFFSET8 off ''status'',
       QMI_IDL_TLV_FLAGS_LAST_TLV OR QMI_IDL_TLV_FLAGS_OPTIONAL OR (QMI_IDL_OFFSET8 off ''validityInfo'' - QMI_IDL_OFFSET8 off ''validityInfo_valid''), 0x10, QMI_IDL_AGGREGATE, QMI_IDL_OFFSET8 off ''validityInfo''] @ QMI_IDL_TYPE88 0 32))"

definition qmiLocInjectUtcTimeReqMsgT_data_v02 :: "int list" where
  "qmiLocInjectUtcTimeReqMsgT_data_v02 =
    (let off = offsetof qmiLocInjectUtcTimeReqMsgT_v02 in uint8_array (
      [0x01, QMI_IDL_GENERIC_8_BYTE, QMI_IDL_OFFSET8 off ''timeUtc'',
       0x02, QMI_IDL_GENERIC_4_BYTE, QMI_IDL_OFFSET8 off ''timeUnc'',
       QMI_IDL_TLV_FLAGS_LAST_TLV OR QMI_IDL_TLV_FLAGS_OPTIONAL OR (QMI_IDL_OFFSET8 off ''timeSrc'' - QMI_IDL_OFFSET8 off ''timeSrc_valid''), 0x10, QMI_IDL_GENERIC_4_BYTE, QMI_IDL_OFFSET8 off ''timeSrc'']))"

definition qmiLocInjectUtcTimeIndMsgT_data_v02 :: "int list" where
  "qmiLocInjectUtcTimeIndMsgT_data_v02 =
    (let off = offsetof qmiLocInjectUtcTimeIndMsgT_v02 in uint8_array (
      [QMI_IDL_TLV_FLAGS_LAST_TLV OR 0x01, QMI_IDL_GENERIC_4_BYTE, QMI_IDL_OFFSET8 off ''status'']))"

definition qmiLocInjectPositionReqMsgT_data_v02 :: "int list" where
  "qmiLocInjectPositionReqMsgT_data_v02 =
    (let off = offsetof qmiLocInjectPositionReqMsgT_v02 in uint8_array (
      [QMI_IDL_TLV_FLAGS_OPTIONAL OR (QMI_IDL_OFFSET8 off ''latitude'' - QMI_IDL_OFFSET8 off ''latitude_valid''), 0x10, QMI_IDL_GENERIC_8_BYTE, QMI_IDL_OFFSET8 off ''latitude'',
       QMI_IDL_TLV_FLAGS_OPTIONAL OR (QMI_IDL_OFFSET8 off ''longitude'' - QMI_IDL_OFFSET8 off ''longitude_valid''), 0x11, QMI_IDL_GENERIC_8_BYTE, QMI_IDL_OFFSET8 off ''longitude'',
       QMI_IDL_TLV_FLAGS_OPTIONAL OR (QMI_IDL_OFFSET8 off ''horUncCircular'' - QMI_IDL_OFFSET8 off ''horUncCircular_valid''), 0x12, QMI_IDL_GENERIC_4_BYTE, QMI_IDL_OFFSET8 off ''horUncCircular'',
       QMI_IDL_TLV_FLAGS_OPTIONAL OR (QMI_IDL_OFFSET8 off ''horConfidence'' - QMI_IDL_OFFSET8 off ''horConfidence_valid''), 0x13, QMI_IDL_GENERIC_1_BYTE, QMI_IDL_OFFSET8 off ''horConfidence'',
       QMI_IDL_TLV_FLAGS_OPTIONAL OR (QMI_IDL_OFFSET8 off ''horReliability'' - QMI_IDL_OFFSET8 off ''horReliability_valid''), 0x14, QMI_IDL_GENERIC_4_BYTE, QMI_IDL_OFFSET8 off ''horReliability'',
       QMI_IDL_TLV_FLAGS_OPTIONAL OR (QMI_IDL_OFFSET8 off ''altitudeWrtEllipsoid'' - QMI_IDL_OFFSET8 off ''altitudeWrtEllipsoid_valid''), 0x15, QMI_IDL_GENERIC_4_BYTE, QMI_IDL_OFFSET8 off ''altitudeWrtEllipsoid'',
       QMI_IDL_TLV_FLAGS_OPTIONAL OR (QMI_IDL_OFFSET8 off ''altitudeWrtMeanSeaLevel'' - QMI_IDL_OFFSET8 off ''altitudeWrtMeanSeaLevel_valid''), 0x16, QMI_IDL_GENERIC_4_BYTE, QMI_IDL_OFFSET8 off ''altitudeWrtMeanSeaLevel'',
       QMI_IDL_TLV_FLAGS_OPTIONAL OR (QMI_IDL_OFFSET8 off ''vertUnc'' - QMI_IDL_OFFSET8 off ''vertUnc_valid''), 0x17, QMI_IDL_GENERIC_4_BYTE, QMI_IDL_OFFSET8 off ''vertUnc'',
       QMI_IDL_TLV_FLAGS_OPTIONAL OR (QMI_IDL_OFFSET8 off ''vertConfidence'' - QMI_IDL_OFFSET8 off ''vertConfidence_valid''), 0x18, QMI_IDL_GENERIC_1_BYTE, QMI_IDL_OFFSET8 off ''vertConfidence'',
       QMI_IDL_TLV_FLAGS_OPTIONAL OR (QMI_IDL_OFFSET8 off ''vertReliability'' - QMI_IDL_OFFSET8 off ''vertReliability_valid''), 0x19, QMI_IDL_GENERIC_4_BYTE, QMI_IDL_OFFSET8 off ''vertReliability'',
       QMI_IDL_TLV_FLAGS_OPTIONAL OR (QMI_IDL_OFFSET8 off ''altSourceInfo'' - QMI_IDL_OFFSET8 off ''altSourceInfo_valid''), 0x1A, QMI_IDL_AGGREGATE, QMI_IDL_OFFSET8 off ''altSourceInfo''] @ QMI_IDL_TYPE88 0 33 @
      [QMI_IDL_TLV_FLAGS_OPTIONAL OR (QMI_IDL_OFFSET8 off ''timestampUtc'' - QMI_IDL_OFFSET8 off ''timestampUtc_valid''), 0x1B, QMI_IDL_GENERIC_8_BYTE, QMI_IDL_OFFSET8 off ''timestampUtc'',
       QMI_IDL_TLV_FLAGS_OPTIONAL OR (QMI_IDL_OFFSET8 off ''timestampAge'' - QMI_IDL_OFFSET8 off ''timestampAge_valid''), 0x1C, QMI_IDL_GENERIC_4_BYTE, QMI_IDL_OFFSET8 off ''timestampAge'',
       QMI_IDL_TLV_FLAGS_OPTIONAL OR (QMI_IDL_OFFSET8 off ''positionSrc'' - QMI_IDL_OFFSET8 off ''positionSrc_valid''), 0x1D, QMI_IDL_GENERIC_4_BYTE, QMI_IDL_OFFSET8 off ''positionSrc'',
       QMI_IDL_TLV_FLAGS_OPTIONAL OR (QMI_IDL_OFFSET8 off ''rawHorUncCircular'' - QMI_IDL_OFFSET8 off ''rawHorUncCircular_valid''), 0x1E, QMI_IDL_GENERIC_4_BYTE, QMI_IDL_OFFSET8 off ''rawHorUncCircular'',
       QMI_IDL_TLV_FLAGS_OPTIONAL OR (QMI_IDL_OFFSET8 off ''rawHorConfidence'' - QMI_IDL_OFFSET8 off ''rawHorConfidence_valid''), 0x1F, QMI_IDL_GENERIC_1_BYTE, QMI_IDL_OFFSET8 off ''rawHorConfidence'',
       QMI_IDL_TLV_FLAGS_OPTIONAL OR (QMI_IDL_OFFSET8 off ''onDemandCpi'' - QMI_IDL_OFFSET8 off ''onDemandCpi_valid''), 0x20, QMI_IDL_GENERIC_1_BYTE, QMI_IDL_OFFSET8 off ''onDemandCpi'',
       QMI_IDL_TLV_FLAGS_OPTIONAL OR (QMI_IDL_OFFSET8 off ''positionSrcProvider'' - QMI_IDL_OFFSET8 off ''positionSrcProvider_valid''), 0x21, QMI_IDL_GENERIC_4_BYTE, QMI_IDL_OFFSET8 off ''positionSrcProvider'',
       QMI_IDL_TLV_FLAGS_OPTIONAL OR (QMI_IDL_OFFSET8 off ''gpsTime'' - QMI_IDL_OFFSET8 off ''gpsTime_valid''), 0x22, QMI_IDL_AGGREGATE, QMI_IDL_OFFSET8 off ''gpsTime''] @ QMI_IDL_TYPE88 0 2 @
      [QMI_IDL_TLV_FLAGS_OPTIONAL OR (QMI_IDL_OFFSET8 off ''timeUnc'' - QMI_IDL_OFFSET8 off ''timeUnc_valid''), 0x23, QMI_IDL_GENERIC_4_BYTE, QMI_IDL_OFFSET8 off ''timeUnc'',
       QMI_IDL_TLV_FLAGS_OPTIONAL OR (QMI_IDL_OFFSET8 off ''velEnu'' - QMI_IDL_OFFSET8 off ''velEnu_valid''), 0x24, QMI_IDL_FLAGS_IS_ARRAY OR QMI_IDL_GENERIC_4_BYTE, QMI_IDL_OFFSET8 off ''velEnu'', QMI_LOC_ENU_ARRAY_LENGTH_V02,
       QMI_IDL_TLV_FLAGS_OPTIONAL OR (QMI_IDL_OFFSET8 off ''velUncEnu'' - QMI_IDL_OFFSET8 off ''velUncEnu_valid''), 0x25, QMI_IDL_FLAGS_IS_ARRAY OR QMI_IDL_GENERIC_4_BYTE, QMI_IDL_OFFSET8 off ''velUncEnu'', QMI_LOC_ENU_ARRAY_LENGTH_V02,
       QMI_IDL_TLV_FLAGS_OPTIONAL OR (QMI_IDL_OFFSET8 off ''expandedGnssSvUsedList'' - QMI_IDL_OFFSET8 off ''expandedGnssSvUsedList_valid''), 0x26, QMI_IDL_FLAGS_IS_ARRAY OR QMI_IDL_FLAGS_IS_VARIABLE_LEN OR QMI_IDL_GENERIC_2_BYTE, QMI_IDL_OFFSET8 off ''expandedGnssSvUsedList'', QMI_LOC_EXPANDED_SV_INFO_LIST_MAX_SIZE_V02, QMI_IDL_OFFSET8 off ''expandedGnssSvUsedList'' - QMI_IDL_OFFSET8 off ''expandedGnssSvUsedList_len'',
       QMI_IDL_TLV_FLAGS_LAST_TLV OR QMI_IDL_TLV_FLAGS_OPTIONAL OR (QMI_IDL_OFFSET16RELATIVE off ''numSvInFix'' - QMI_IDL_OFFSET16RELATIVE off ''numSvInFix_valid''), 0x27, QMI_IDL_FLAGS_OFFSET_IS_16 OR QMI_IDL_GENERIC_1_BYTE] @ QMI_IDL_OFFSET16ARRAY off ''numSvInFix''))"

definition qmiLocInjectPositionIndMsgT_data_v02 :: "int list" where
  "qmiLocInjectPositionIndMsgT_data_v02 =
    (let off = offsetof qmiLocInjectPositionIndMsgT_v02 in uint8_array (
      [QMI_IDL_TLV_FLAGS_LAST_TLV OR 0x01, QMI_IDL_GENERIC_4_BYTE, QMI_IDL_OFFSET8 off ''status'']))"

definition qmiLocSetEngineLockReqMsgT_data_v02 :: "int list" where
  "qmiLocSetEngineLockReqMsgT_data_v02 =
    (let off = offsetof qmiLocSetEngineLockReqMsgT_v02 in uint8_array (
      [0x01, QMI_IDL_GENERIC_4_BYTE, QMI_IDL_OFFSET8 off ''lockType'',
       QMI_IDL_TLV_FLAGS_OPTIONAL OR (QMI_IDL_OFFSET8 off ''subType'' - QMI_IDL_OFFSET8 off ''subType_valid''), 0x10, QMI_IDL_GENERIC_4_BYTE, QMI_IDL_OFFSET8 off ''subType'',
       QMI_IDL_TLV_FLAGS_OPTIONAL OR (QMI_IDL_OFFSET8 off ''lockClient'' - QMI_IDL_OFFSET8 off ''lockClient_valid''), 0x11, QMI_IDL_GENERIC_8_BYTE, QMI_IDL_OFFSET8 off ''lockClient'',
       QMI_IDL_TLV_FLAGS_LAST_TLV OR QMI_IDL_TLV_FLAGS_OPTIONAL OR (QMI_IDL_OFFSET8 off ''clientsConfig'' - QMI_IDL_OFFSET8 off ''clientsConfig_valid''), 0x12, QMI_IDL_GENERIC_8_BYTE, QMI_IDL_OFFSET8 off ''clientsConfig'']))"

definition qmiLocSetEngineLockIndMsgT_data_v02 :: "int list" where
  "qmiLocSetEngineLockIndMsgT_data_v02 =
    (let off = offsetof qmiLocSetEngineLockIndMsgT_v02 in uint8_array (
      [QMI_IDL_TLV_FLAGS_LAST_TLV OR 0x01, QMI_IDL_GENERIC_4_BYTE, QMI_IDL_OFFSET8 off ''status'']))"

definition qmiLocGetEngineLockReqMsgT_data_v02 :: "int list" where
  "qmiLocGetEngineLockReqMsgT_data_v02 =
    (let off = offsetof qmiLocGetEngineLockReqMsgT_v02 in uint8_array (
      [QMI_IDL_TLV_FLAGS_LAST_TLV OR QMI_IDL_TLV_FLAGS_OPTIONAL OR (QMI_IDL_OFFSET8 off ''subType'' - QMI_IDL_OFFSET8 off ''subType_valid''), 0x10, QMI_IDL_GENERIC_4_BYTE, QMI_IDL_OFFSET8 off ''subType'']))"

definition qmiLocGetEngineLockIndMsgT_data_v02 :: "int list" where
  "qmiLocGetEngineLockIndMsgT_data_v02 =
    (let off = offsetof qmiLocGetEngineLockIndMsgT_v02 in uint8_array (
      [0x01, QMI_IDL_GENERIC_4_BYTE, QMI_IDL_OFFSET8 off ''status'',
       QMI_IDL_TLV_FLAGS_OPTIONAL OR (QMI_IDL_OFFSET8 off ''lockType'' - QMI_IDL_OFFSET8 off ''lockType_valid''), 0x10, QMI_IDL_GENERIC_4_BYTE, QMI_IDL_OFFSET8 off ''lockType'',
       QMI_IDL_TLV_FLAGS_OPTIONAL OR (QMI_IDL_OFFSET8 off ''subType'' - QMI_IDL_OFFSET8 off ''subType_valid''), 0x11, QMI_IDL_GENERIC_4_BYTE, QMI_IDL_OFFSET8 off ''subType'',
       QMI_IDL_TLV_FLAGS_OPTIONAL OR (QMI_IDL_OFFSET8 off ''lockClient'' - QMI_IDL_OFFSET8 off ''lockClient_valid''), 0x12, QMI_IDL_GENERIC_8_BYTE, QMI_IDL_OFFSET8 off ''lockClient'',
       QMI_IDL_TLV_FLAGS_OPTIONAL OR (QMI_IDL_OFFSET8 off ''clientsConfig'' - QMI_IDL_OFFSET8 off ''clientsConfig_valid''), 0x13, QMI_IDL_GENERIC_8_BYTE, QMI_IDL_OFFSET8 off ''clientsConfig'',
       QMI_IDL_TLV_FLAGS_LAST_TLV OR QMI_IDL_TLV_FLAGS_OPTIONAL OR (QMI_IDL_OFFSET8 off ''engineLockState'' - QMI_IDL_OFFSET8 off ''engineLockState_valid''), 0x14, QMI_IDL_GENERIC_4_BYTE, QMI_IDL_OFFSET8 off ''engineLockState'']))"

definition qmiLocSetSbasConfigReqMsgT_data_v02 :: "int list" where
  "qmiLocSetSbasConfigReqMsgT_data_v02 =
    (let off = offsetof qmiLocSetSbasConfigReqMsgT_v02 in uint8_array (
      [0x01, QMI_IDL_GENERIC_1_BYTE, QMI_IDL_OFFSET8 off ''sbasConfig'',
       QMI_IDL_TLV_FLAGS_LAST_TLV OR QMI_IDL_TLV_FLAGS_OPTIONAL OR (QMI_IDL_OFFSET8 off ''qzssL1sConfig'' - QMI_IDL_OFFSET8 off ''qzssL1sConfig_valid''), 0x10, QMI_IDL_GENERIC_1_BYTE, QMI_IDL_OFFSET8 off ''qzssL1sConfig'']))"

definition qmiLocSetSbasConfigIndMsgT_data_v02 :: "int list" where
  "qmiLocSetSbasConfigIndMsgT_data_v02 =
    (let off = offsetof qmiLocSetSbasConfigIndMsgT_v02 in uint8_array (
      [QMI_IDL_TLV_FLAGS_LAST_TLV OR 0x01, QMI_IDL_GENERIC_4_BYTE, QMI_IDL_OFFSET8 off ''status'']))"

definition qmiLocGetSbasConfigIndMsgT_data_v02 :: "int list" where
  "qmiLocGetSbasConfigIndMsgT_data_v02 =
    (let off = offsetof qmiLocGetSbasConfigIndMsgT_v02 in uint8_array (
      [0x01, QMI_IDL_GENERIC_4_BYTE, QMI_IDL_OFFSET8 off ''status'',
       QMI_IDL_TLV_FLAGS_LAST_TLV OR QMI_IDL_TLV_FLAGS_OPTIONAL OR (QMI_IDL_OFFSET8 off ''sbasConfig'' - QMI_IDL_OFFSET8 off ''sbasConfig_valid''), 0x10, QMI_IDL_GENERIC_1_BYTE, QMI_IDL_OFFSET8 off ''sbasConfig'']))"

definition qmiLocSetNmeaTypesReqMsgT_data_v02 :: "int list" where
  "qmiLocSetNmeaTypesReqMsgT_data_v02 =
    (let off = offsetof qmiLocSetNmeaTypesReqMsgT_v02 in uint8_array (
      [QMI_IDL_TLV_FLAGS_LAST_TLV OR 0x01, QMI_IDL_GENERIC_4_BYTE, QMI_IDL_OFFSET8 off ''nmeaSentenceType'']))"

definition qmiLocSetNmeaTypesIndMsgT_data_v02 :: "int list" where
  "qmiLocSetNmeaTypesIndMsgT_data_v02 =
    (let off = offsetof qmiLocSetNmeaTypesIndMsgT_v02 in uint8_array (
      [QMI_IDL_TLV_FLAGS_LAST_TLV OR 0x01, QMI_IDL_GENERIC_4_BYTE, QMI_IDL_OFFSET8 off ''status'']))"

definition qmiLocGetNmeaTypesIndMsgT_data_v02 :: "int list" where
  "qmiLocGetNmeaTypesIndMsgT_data_v02 =
    (let off = offsetof qmiLocGetNmeaTypesIndMsgT_v02 in uint8_array (
      [0x01, QMI_IDL_GENERIC_4_BYTE, QMI_IDL_OFFSET8 off ''status'',
       QMI_IDL_TLV_FLAGS_LAST_TLV OR QMI_IDL_TLV_FLAGS_OPTIONAL OR (QMI_IDL_OFFSET8 off ''nmeaSentenceType'' - QMI_IDL_OFFSET8 off ''nmeaSentenceType_valid''), 0x10, QMI_IDL_GENERIC_4_BYTE, QMI_IDL_OFFSET8 off ''nmeaSentenceType'']))"

definition qmiLocSetLowPowerModeReqMsgT_data_v02 :: "int list" where
  "qmiLocSetLowPowerModeReqMsgT_data_v02 =
    (let off = offsetof qmiLocSetLowPowerModeReqMsgT_v02 in uint8_array (
      [QMI_IDL_TLV_FLAGS_LAST_TLV OR 0x01, QMI_IDL_GENERIC_1_BYTE, QMI_IDL_OFFSET8 off ''lowPowerMode'']))"

definition qmiLocSetLowPowerModeIndMsgT_data_v02 :: "int list" where
  "qmiLocSetLowPowerModeIndMsgT_data_v02 =
    (let off = offsetof qmiLocSetLowPowerModeIndMsgT_v02 in uint8_array (
      [QMI_IDL_TLV_FLAGS_LAST_TLV OR 0x01, QMI_IDL_GENERIC_4_BYTE, QMI_IDL_OFFSET8 off ''status'']))"

definition qmiLocGetLowPowerModeIndMsgT_data_v02 :: "int list" where
  "qmiLocGetLowPowerModeIndMsgT_data_v02 =
    (let off = offsetof qmiLocGetLowPowerModeIndMsgT_v02 in uint8_array (
      [0x01, QMI_IDL_GENERIC_4_BYTE, QMI_IDL_OFFSET8 off ''status'',
       QMI_IDL_TLV_FLAGS_LAST_TLV OR QMI_IDL_TLV_FLAGS_OPTIONAL OR (QMI_IDL_OFFSET8 off ''lowPowerMode'' - QMI_IDL_OFFSET8 off ''lowPowerMode_valid''), 0x10, QMI_IDL_GENERIC_1_BYTE, QMI_IDL_OFFSET8 off ''lowPowerMode'']))"

definition loc_message_table_v02_1 :: "qmi_idl_message_table_entry list" where
  "loc_message_table_v02_1 = [
    (qmiLocEventGdtDownloadEndReqIndMsgT_v02, Some qmiLocEventGdtDownloadEndReqIndMsgT_data_v02),
    (qmiLocGetServiceRevisionReqMsgT_v02, None),
    (qmiLocGetServiceRevisionIndMsgT_v02, Some qmiLocGetServiceRevisionIndMsgT_data_v02),
    (qmiLocGetFixCriteriaReqMsgT_v02, None),
    (qmiLocGetFixCriteriaIndMsgT_v02, Some qmiLocGetFixCriteriaIndMsgT_data_v02),
    (qmiLocNiUserRespReqMsgT_v02, Some qmiLocNiUserRespReqMsgT_data_v02),
    (qmiLocNiUserRespIndMsgT_v02, Some qmiLocNiUserRespIndMsgT_data_v02),
    (qmiLocInjectPredictedOrbitsDataReqMsgT_v02, Some qmiLocInjectPredictedOrbitsDataReqMsgT_data_v02),
    (qmiLocInjectPredictedOrbitsDataIndMsgT_v02, Some qmiLocInjectPredictedOrbitsDataIndMsgT_data_v02),
    (qmiLocGetPredictedOrbitsDataSourceReqMsgT_v02, None),
    (qmiLocGetPredictedOrbitsDataSourceIndMsgT_v02, Some qmiLocGetPredictedOrbitsDataSourceIndMsgT_data_v02),
    (qmiLocGetPredictedOrbitsDataValidityReqMsgT_v02, None),
    (qmiLocGetPredictedOrbitsDataValidityIndMsgT_v02, Some qmiLocGetPredictedOrbitsDataValidityIndMsgT_data_v02),
    (qmiLocInjectUtcTimeReqMsgT_v02, Some qmiLocInjectUtcTimeReqMsgT_data_v02),
    (qmiLocInjectUtcTimeIndMsgT_v02, Some qmiLocInjectUtcTimeIndMsgT_data_v02),
    (qmiLocInjectPositionReqMsgT_v02, Some qmiLocInjectPositionReqMsgT_data_v02),
    (qmiLocInjectPositionIndMsgT_v02, Some qmiLocInjectPositionIndMsgT_data_v02),
    (qmiLocSetEngineLockReqMsgT_v02, Some qmiLocSetEngineLockReqMsgT_data_v02),
    (qmiLocSetEngineLockIndMsgT_v02, Some qmiLocSetEngineLockIndMsgT_data_v02),
    (qmiLocGetEngineLockReqMsgT_v02, Some qmiLocGetEngineLockReqMsgT_data_v02),
    (qmiLocGetEngineLockIndMsgT_v02, Some qmiLocGetEngineLockIndMsgT_data_v02),
    (qmiLocSetSbasConfigReqMsgT_v02, Some qmiLocSetSbasConfigReqMsgT_data_v02),
    (qmiLocSetSbasConfigIndMsgT_v02, Some qmiLocSetSbasConfigIndMsgT_data_v02),
    (qmiLocGetSbasConfigReqMsgT_v02, None),
    (qmiLocGetSbasConfigIndMsgT_v02, Some qmiLocGetSbasConfigIndMsgT_data_v02),
    (qmiLocSetNmeaTypesReqMsgT_v02, Some qmiLocSetNmeaTypesReqMsgT_data_v02),
    (qmiLocSetNmeaTypesIndMsgT_v02, Some qmiLocSetNmeaTypesIndMsgT_data_v02),
    (qmiLocGetNmeaTypesReqMsgT_v02, None),
    (qmiLocGetNmeaTypesIndMsgT_v02, Some qmiLocGetNmeaTypesIndMsgT_data_v02),
    (qmiLocSetLowPowerModeReqMsgT_v02, Some qmiLocSetLowPowerModeReqMsgT_data_v02),
    (qmiLocSetLowPowerModeIndMsgT_v02, Some qmiLocSetLowPowerModeIndMsgT_data_v02),
    (qmiLocGetLowPowerModeReqMsgT_v02, None),
    (qmiLocGetLowPowerModeIndMsgT_v02, Some qmiLocGetLowPowerModeIndMsgT_data_v02)]"

definition qmiLocSetServerReqMsgT_data_v02 :: "int list" where
  "qmiLocSetServerReqMsgT_data_v02 =
    (let off = offsetof qmiLocSetServerReqMsgT_v02 in uint8_array (
      [0x01, QMI_IDL_GENERIC_4_BYTE, QMI_IDL_OFFSET8 off ''serverType'',
       QMI_IDL_TLV_FLAGS_OPTIONAL OR (QMI_IDL_OFFSET8 off ''ipv4Addr'' - QMI_IDL_OFFSET8 off ''ipv4Addr_valid''), 0x10, QMI_IDL_AGGREGATE, QMI_IDL_OFFSET8 off ''ipv4Addr''] @ QMI_IDL_TYPE88 0 14 @
      [QMI_IDL_TLV_FLAGS_OPTIONAL OR (QMI_IDL_OFFSET8 off ''ipv6Addr'' - QMI_IDL_OFFSET8 off ''ipv6Addr_valid''), 0x11, QMI_IDL_AGGREGATE, QMI_IDL_OFFSET8 off ''ipv6Addr''] @ QMI_IDL_TYPE88 0 15 @
      [QMI_IDL_TLV_FLAGS_LAST_TLV OR QMI_IDL_TLV_FLAGS_OPTIONAL OR (QMI_IDL_OFFSET8 off ''urlAddr'' - QMI_IDL_OFFSET8 off ''urlAddr_valid''), 0x12, QMI_IDL_FLAGS_IS_ARRAY OR QMI_IDL_FLAGS_IS_VARIABLE_LEN OR QMI_IDL_STRING, QMI_IDL_OFFSET8 off ''urlAddr'', QMI_LOC_MAX_SERVER_ADDR_LENGTH_V02]))"

definition qmiLocSetServerIndMsgT_data_v02 :: "int list" where
  "qmiLocSetServerIndMsgT_data_v02 =
    (let off = offsetof qmiLocSetServerIndMsgT_v02 in uint8_array (
      [QMI_IDL_TLV_FLAGS_LAST_TLV OR 0x01, QMI_IDL_GENERIC_4_BYTE, QMI_IDL_OFFSET8 off ''status'']))"

definition qmiLocGetServerReqMsgT_data_v02 :: "int list" where
  "qmiLocGetServerReqMsgT_data_v02 =
    (let off = offsetof qmiLocGetServerReqMsgT_v02 in uint8_array (
      [0x01, QMI_IDL_GENERIC_4_BYTE, QMI_IDL_OFFSET8 off ''serverType'',
       QMI_IDL_TLV_FLAGS_LAST_TLV OR QMI_IDL_TLV_FLAGS_OPTIONAL OR (QMI_IDL_OFFSET8 off ''serverAddrTypeMask'' - QMI_IDL_OFFSET8 off ''serverAddrTypeMask_valid''), 0x10, QMI_IDL_GENERIC_1_BYTE, QMI_IDL_OFFSET8 off ''serverAddrTypeMask'']))"

definition qmiLocGetServerIndMsgT_data_v02 :: "int list" where
  "qmiLocGetServerIndMsgT_data_v02 =
    (let off = offsetof qmiLocGetServerIndMsgT_v02 in uint8_array (
      [0x01, QMI_IDL_GENERIC_4_BYTE, QMI_IDL_OFFSET8 off ''status'',
       0x02, QMI_IDL_GENERIC_4_BYTE, QMI_IDL_OFFSET8 off ''serverType'',
       QMI_IDL_TLV_FLAGS_OPTIONAL OR (QMI_IDL_OFFSET8 off ''ipv4Addr'' - QMI_IDL_OFFSET8 off ''ipv4Addr_valid''), 0x10, QMI_IDL_AGGREGATE, QMI_IDL_OFFSET8 off ''ipv4Addr''] @ QMI_IDL_TYPE88 0 14 @
      [QMI_IDL_TLV_FLAGS_OPTIONAL OR (QMI_IDL_OFFSET8 off ''ipv6Addr'' - QMI_IDL_OFFSET8 off ''ipv6Addr_valid''), 0x11, QMI_IDL_AGGREGATE, QMI_IDL_OFFSET8 off ''ipv6Addr''] @ QMI_IDL_TYPE88 0 15 @
      [QMI_IDL_TLV_FLAGS_LAST_TLV OR QMI_IDL_TLV_FLAGS_OPTIONAL OR (QMI_IDL_OFFSET8 off ''urlAddr'' - QMI_IDL_OFFSET8 off ''urlAddr_valid''), 0x12, QMI_IDL_FLAGS_IS_ARRAY OR QMI_IDL_FLAGS_IS_VARIABLE_LEN OR QMI_IDL_STRING, QMI_IDL_OFFSET8 off ''urlAddr'', QMI_LOC_MAX_SERVER_ADDR_LENGTH_V02]))"

definition qmiLocDeleteAssistDataReqMsgT_data_v02 :: "int list" where
  "qmiLocDeleteAssistDataReqMsgT_data_v02 =
    (let off = offsetof qmiLocDeleteAssistDataReqMsgT_v02 in uint8_array (
      [0x01, QMI_IDL_GENERIC_1_BYTE, QMI_IDL_OFFSET8 off ''deleteAllFlag'',
       QMI_IDL_TLV_FLAGS_OPTIONAL OR (QMI_IDL_OFFSET8 off ''deleteSvInfoList'' - QMI_IDL_OFFSET8 off ''deleteSvInfoList_valid''), 0x10, QMI_IDL_FLAGS_IS_ARRAY OR QMI_IDL_FLAGS_IS_VARIABLE_LEN OR QMI_IDL_AGGREGATE, QMI_IDL_OFFSET8 off ''deleteSvInfoList'', QMI_LOC_DELETE_MAX_SV_INFO_LENGTH_V02, QMI_IDL_OFFSET8 off ''deleteSvInfoList'' - QMI_IDL_OFFSET8 off ''deleteSvInfoList_len''] @ QMI_IDL_TYPE88 0 34 @
      [QMI_IDL_TLV_FLAGS_OPTIONAL OR (QMI_IDL_OFFSET16RELATIVE off ''deleteGnssDataMask'' - QMI_IDL_OFFSET16RELATIVE off ''deleteGnssDataMask_valid''), 0x11, QMI_IDL_FLAGS_OFFSET_IS_16 OR QMI_IDL_GENERIC_8_BYTE] @ QMI_IDL_OFFSET16ARRAY off ''deleteGnssDataMask'' @
      [QMI_IDL_TLV_FLAGS_OPTIONAL OR (QMI_IDL_OFFSET16RELATIVE off ''deleteCellDbDataMask'' - QMI_IDL_OFFSET16RELATIVE off ''deleteCellDbDataMask_valid''), 0x12, QMI_IDL_FLAGS_OFFSET_IS_16 OR QMI_IDL_GENERIC_4_BYTE] @ QMI_IDL_OFFSET16ARRAY off ''deleteCellDbDataMask'' @
      [QMI_IDL_TLV_FLAGS_OPTIONAL OR (QMI_IDL_OFFSET16RELATIVE off ''deleteClockInfoMask'' - QMI_IDL_OFFSET16RELATIVE off ''deleteClockInfoMask_valid''), 0x13, QMI_IDL_FLAGS_OFFSET_IS_16 OR QMI_IDL_GENERIC_4_BYTE] @ QMI_IDL_OFFSET16ARRAY off ''deleteClockInfoMask'' @
      [QMI_IDL_TLV_FLAGS_OPTIONAL OR (QMI_IDL_OFFSET16RELATIVE off ''deleteBdsSvInfoList'' - QMI_IDL_OFFSET16RELATIVE off ''deleteBdsSvInfoList_valid''), 0x14, QMI_IDL_FLAGS_IS_ARRAY OR QMI_IDL_FLAGS_IS_VARIABLE_LEN OR QMI_IDL_FLAGS_OFFSET_IS_16 OR QMI_IDL_AGGREGATE] @ QMI_IDL_OFFSET16ARRAY off ''deleteBdsSvInfoList'' @
      [QMI_LOC_DELETE_MAX_BDS_SV_INFO_LENGTH_V02, QMI_IDL_OFFSET16RELATIVE off ''deleteBdsSvInfoList'' - QMI_IDL_OFFSET16RELATIVE off ''deleteBdsSvInfoList_len''] @ QMI_IDL_TYPE88 0 35 @
      [QMI_IDL_TLV_FLAGS_OPTIONAL OR (QMI_IDL_OFFSET16RELATIVE off ''deleteGalSvInfoList'' - QMI_IDL_OFFSET16RELATIVE off ''deleteGalSvInfoList_valid''), 0x15, QMI_IDL_FLAGS_IS_ARRAY OR QMI_IDL_FLAGS_IS_VARIABLE_LEN OR QMI_IDL_FLAGS_OFFSET_IS_16 OR QMI_IDL_AGGREGATE] @ QMI_IDL_OFFSET16ARRAY off ''deleteGalSvInfoList'' @
      [QMI_LOC_DELETE_MAX_GAL_SV_INFO_LENGTH_V02, QMI_IDL_OFFSET16RELATIVE off ''deleteGalSvInfoList'' - QMI_IDL_OFFSET16RELATIVE off ''deleteGalSvInfoList_len''] @ QMI_IDL_TYPE88 0 36 @
      [QMI_IDL_TLV_FLAGS_LAST_TLV OR QMI_IDL_TLV_FLAGS_OPTIONAL OR (QMI_IDL_OFFSET16RELATIVE off ''deleteQzssL1sDataFlag'' - QMI_IDL_OFFSET16RELATIVE off ''deleteQzssL1sDataFlag_valid''), 0x16, QMI_IDL_FLAGS_OFFSET_IS_16 OR QMI_IDL_GENERIC_1_BYTE] @ QMI_IDL_OFFSET16ARRAY off ''deleteQzssL1sDataFlag''))"

definition qmiLocDeleteAssistDataIndMsgT_data_v02 :: "int list" where
  "qmiLocDeleteAssistDataIndMsgT_data_v02 =
    (let off = offsetof qmiLocDeleteAssistDataIndMsgT_v02 in uint8_array (
      [QMI_IDL_TLV_FLAGS_LAST_TLV OR 0x01, QMI_IDL_GENERIC_4_BYTE, QMI_IDL_OFFSET8 off ''status'']))"

definition qmiLocSetXtraTSessionControlReqMsgT_data_v02 :: "int list" where
  "qmiLocSetXtraTSessionControlReqMsgT_data_v02 =
    (let off = offsetof qmiLocSetXtraTSessionControlReqMsgT_v02 in uint8_array (
      [QMI_IDL_TLV_FLAGS_LAST_TLV OR 0x01, QMI_IDL_GENERIC_1_BYTE, QMI_IDL_OFFSET8 off ''xtraTSessionControl'']))"

definition qmiLocSetXtraTSessionControlIndMsgT_data_v02 :: "int list" where
  "qmiLocSetXtraTSessionControlIndMsgT_data_v02 =
    (let off = offsetof qmiLocSetXtraTSessionControlIndMsgT_v02 in uint8_array (
      [QMI_IDL_TLV_FLAGS_LAST_TLV OR 0x01, QMI_IDL_GENERIC_4_BYTE, QMI_IDL_OFFSET8 off ''status'']))"

definition qmiLocGetXtraTSessionControlIndMsgT_data_v02 :: "int list" where
  "qmiLocGetXtraTSessionControlIndMsgT_data_v02 =
    (let off = offsetof qmiLocGetXtraTSessionControlIndMsgT_v02 in uint8_array (
      [0x01, QMI_IDL_GENERIC_4_BYTE, QMI_IDL_OFFSET8 off ''status'',
       QMI_IDL_TLV_FLAGS_LAST_TLV OR QMI_IDL_TLV_FLAGS_OPTIONAL OR (QMI_IDL_OFFSET8 off ''xtraTSessionControl'' - QMI_IDL_OFFSET8 off ''xtraTSessionControl_valid''), 0x10, QMI_IDL_GENERIC_1_BYTE, QMI_IDL_OFFSET8 off ''xtraTSessionControl'']))"

definition qmiLocInjectWifiPositionReqMsgT_data_v02 :: "int list" where
  "qmiLocInjectWifiPositionReqMsgT_data_v02 =
    (let off = offsetof qmiLocInjectWifiPositionReqMsgT_v02 in uint8_array (
      [QMI_IDL_TLV_FLAGS_OPTIONAL OR (QMI_IDL_OFFSET8 off ''wifiFixTime'' - QMI_IDL_OFFSET8 off ''wifiFixTime_valid''), 0x10, QMI_IDL_AGGREGATE, QMI_IDL_OFFSET8 off ''wifiFixTime''] @ QMI_IDL_TYPE88 0 37 @
      [QMI_IDL_TLV_FLAGS_OPTIONAL OR (QMI_IDL_OFFSET8 off ''wifiFixPosition'' - QMI_IDL_OFFSET8 off ''wifiFixPosition_valid''), 0x11, QMI_IDL_AGGREGATE, QMI_IDL_OFFSET8 off ''wifiFixPosition''] @ QMI_IDL_TYPE88 0 38 @
      [QMI_IDL_TLV_FLAGS_OPTIONAL OR (QMI_IDL_OFFSET8 off ''apInfo'' - QMI_IDL_OFFSET8 off ''apInfo_valid''), 0x12, QMI_IDL_FLAGS_IS_ARRAY OR QMI_IDL_FLAGS_IS_VARIABLE_LEN OR QMI_IDL_AGGREGATE, QMI_IDL_OFFSET8 off ''apInfo'', QMI_LOC_WIFI_MAX_REPORTED_APS_PER_MSG_V02, QMI_IDL_OFFSET8 off ''apInfo'' - QMI_IDL_OFFSET8 off ''apInfo_len''] @ QMI_IDL_TYPE88 0 39 @
      [QMI_IDL_TLV_FLAGS_OPTIONAL OR (QMI_IDL_OFFSET16RELATIVE off ''horizontalReliability'' - QMI_IDL_OFFSET16RELATIVE off ''horizontalReliability_valid''), 0x13, QMI_IDL_FLAGS_OFFSET_IS_16 OR QMI_IDL_GENERIC_4_BYTE] @ QMI_IDL_OFFSET16ARRAY off ''horizontalReliability'' @
      [QMI_IDL_TLV_FLAGS_OPTIONAL OR (QMI_IDL_OFFSET16RELATIVE off ''rawHepe'' - QMI_IDL_OFFSET16RELATIVE off ''rawHepe_valid''), 0x14, QMI_IDL_FLAGS_OFFSET_IS_16 OR QMI_IDL_GENERIC_2_BYTE] @ QMI_IDL_OFFSET16ARRAY off ''rawHepe'' @
      [QMI_IDL_TLV_FLAGS_LAST_TLV OR QMI_IDL_TLV_FLAGS_OPTIONAL OR (QMI_IDL_OFFSET16RELATIVE off ''wifiApSsidInfo'' - QMI_IDL_OFFSET16RELATIVE off ''wifiApSsidInfo_valid''), 0x15, QMI_IDL_FLAGS_IS_ARRAY OR QMI_IDL_FLAGS_IS_VARIABLE_LEN OR QMI_IDL_FLAGS_OFFSET_IS_16 OR QMI_IDL_AGGREGATE] @ QMI_IDL_OFFSET16ARRAY off ''wifiApSsidInfo'' @
      [QMI_LOC_WIFI_MAX_REPORTED_APS_PER_MSG_V02, QMI_IDL_OFFSET16RELATIVE off ''wifiApSsidInfo'' - QMI_IDL_OFFSET16RELATIVE off ''wifiApSsidInfo_len''] @ QMI_IDL_TYPE88 0 40))"

definition qmiLocInjectWifiPositionIndMsgT_data_v02 :: "int list" where
  "qmiLocInjectWifiPositionIndMsgT_data_v02 =
    (let off = offsetof qmiLocInjectWifiPositionIndMsgT_v02 in uint8_array (
      [QMI_IDL_TLV_FLAGS_LAST_TLV OR 0x01, QMI_IDL_GENERIC_4_BYTE, QMI_IDL_OFFSET8 off ''status'']))"

definition qmiLocNotifyWifiStatusReqMsgT_data_v02 :: "int list" where
  "qmiLocNotifyWifiStatusReqMsgT_data_v02 =
    (let off = offsetof qmiLocNotifyWifiStatusReqMsgT_v02 in uint8_array (
      [QMI_IDL_TLV_FLAGS_LAST_TLV OR 0x01, QMI_IDL_GENERIC_4_BYTE, QMI_IDL_OFFSET8 off ''wifiStatus'']))"

definition qmiLocNotifyWifiStatusIndMsgT_data_v02 :: "int list" where
  "qmiLocNotifyWifiStatusIndMsgT_data_v02 =
    (let off = offsetof qmiLocNotifyWifiStatusIndMsgT_v02 in uint8_array (
      [QMI_IDL_TLV_FLAGS_LAST_TLV OR 0x01, QMI_IDL_GENERIC_4_BYTE, QMI_IDL_OFFSET8 off ''status'']))"

definition qmiLocGetRegisteredEventsIndMsgT_data_v02 :: "int list" where
  "qmiLocGetRegisteredEventsIndMsgT_data_v02 =
    (let off = offsetof qmiLocGetRegisteredEventsIndMsgT_v02 in uint8_array (
      [0x01, QMI_IDL_GENERIC_4_BYTE, QMI_IDL_OFFSET8 off ''status'',
       QMI_IDL_TLV_FLAGS_LAST_TLV OR QMI_IDL_TLV_FLAGS_OPTIONAL OR (QMI_IDL_OFFSET8 off ''eventRegMask'' - QMI_IDL_OFFSET8 off ''eventRegMask_valid''), 0x10, QMI_IDL_GENERIC_8_BYTE, QMI_IDL_OFFSET8 off ''eventRegMask'']))"

definition qmiLocSetOperationModeReqMsgT_data_v02 :: "int list" where
  "qmiLocSetOperationModeReqMsgT_data_v02 =
    (let off = offsetof qmiLocSetOperationModeReqMsgT_v02 in uint8_array (
      [0x01, QMI_IDL_GENERIC_4_BYTE, QMI_IDL_OFFSET8 off ''operationMode'',
       QMI_IDL_TLV_FLAGS_LAST_TLV OR QMI_IDL_TLV_FLAGS_OPTIONAL OR (QMI_IDL_OFFSET8 off ''minInterval'' - QMI_IDL_OFFSET8 off ''minInterval_valid''), 0x10, QMI_IDL_GENERIC_4_BYTE, QMI_IDL_OFFSET8 off ''minInterval'']))"

definition qmiLocSetOperationModeIndMsgT_data_v02 :: "int list" where
  "qmiLocSetOperationModeIndMsgT_data_v02 =
    (let off = offsetof qmiLocSetOperationModeIndMsgT_v02 in uint8_array (
      [QMI_IDL_TLV_FLAGS_LAST_TLV OR 0x01, QMI_IDL_GENERIC_4_BYTE, QMI_IDL_OFFSET8 off ''status'']))"

definition qmiLocGetOperationModeIndMsgT_data_v02 :: "int list" where
  "qmiLocGetOperationModeIndMsgT_data_v02 =
    (let off = offsetof qmiLocGetOperationModeIndMsgT_v02 in uint8_array (
      [0x01, QMI_IDL_GENERIC_4_BYTE, QMI_IDL_OFFSET8 off ''status'',
       QMI_IDL_TLV_FLAGS_LAST_TLV OR QMI_IDL_TLV_FLAGS_OPTIONAL OR (QMI_IDL_OFFSET8 off ''operationMode'' - QMI_IDL_OFFSET8 off ''operationMode_valid''), 0x10, QMI_IDL_GENERIC_4_BYTE, QMI_IDL_OFFSET8 off ''operationMode'']))"

definition qmiLocSetSpiStatusReqMsgT_data_v02 :: "int list" where
  "qmiLocSetSpiStatusReqMsgT_data_v02 =
    (let off = offsetof qmiLocSetSpiStatusReqMsgT_v02 in uint8_array (
      [0x01, QMI_IDL_GENERIC_1_BYTE, QMI_IDL_OFFSET8 off ''stationary'',
       QMI_IDL_TLV_FLAGS_LAST_TLV OR QMI_IDL_TLV_FLAGS_OPTIONAL OR (QMI_IDL_OFFSET8 off ''confidenceStationary'' - QMI_IDL_OFFSET8 off ''confidenceStationary_valid''), 0x10, QMI_IDL_GENERIC_1_BYTE, QMI_IDL_OFFSET8 off ''confidenceStationary'']))"

definition qmiLocSetSpiStatusIndMsgT_data_v02 :: "int list" where
  "qmiLocSetSpiStatusIndMsgT_data_v02 =
    (let off = offsetof qmiLocSetSpiStatusIndMsgT_v02 in uint8_array (
      [QMI_IDL_TLV_FLAGS_LAST_TLV OR 0x01, QMI_IDL_GENERIC_4_BYTE, QMI_IDL_OFFSET8 off ''status'']))"

definition qmiLocInjectSensorDataReqMsgT_data_v02 :: "int list" where
  "qmiLocInjectSensorDataReqMsgT_data_v02 =
    (let off = offsetof qmiLocInjectSensorDataReqMsgT_v02 in uint8_array (
      [QMI_IDL_TLV_FLAGS_OPTIONAL OR (QMI_IDL_OFFSET8 off ''opaqueIdentifier'' - QMI_IDL_OFFSET8 off ''opaqueIdentifier_valid''), 0x10, QMI_IDL_GENERIC_4_BYTE, QMI_IDL_OFFSET8 off ''opaqueIdentifier'',
       QMI_IDL_TLV_FLAGS_OPTIONAL OR (QMI_IDL_OFFSET8 off ''threeAxisAccelData'' - QMI_IDL_OFFSET8 off ''threeAxisAccelData_valid''), 0x11, QMI_IDL_AGGREGATE, QMI_IDL_OFFSET8 off ''threeAxisAccelData''] @ QMI_IDL_TYPE88 0 42 @
      [QMI_IDL_TLV_FLAGS_OPTIONAL OR (QMI_IDL_OFFSET16RELATIVE off ''threeAxisGyroData'' - QMI_IDL_OFFSET16RELATIVE off ''threeAxisGyroData_valid''), 0x12, QMI_IDL_FLAGS_OFFSET_IS_16 OR QMI_IDL_AGGREGATE] @ QMI_IDL_OFFSET16ARRAY off ''threeAxisGyroData'' @ QMI_IDL_TYPE88 0 42 @
      [QMI_IDL_TLV_FLAGS_OPTIONAL OR (QMI_IDL_OFFSET16RELATIVE off ''threeAxisAccelDataTimeSource'' - QMI_IDL_OFFSET16RELATIVE off ''threeAxisAccelDataTimeSource_valid''), 0x13, QMI_IDL_FLAGS_OFFSET_IS_16 OR QMI_IDL_GENERIC_4_BYTE] @ QMI_IDL_OFFSET16ARRAY off ''threeAxisAccelDataTimeSource'' @
      [QMI_IDL_TLV_FLAGS_OPTIONAL OR (QMI_IDL_OFFSET16RELATIVE off ''threeAxisGyroDataTimeSource'' - QMI_IDL_OFFSET16RELATIVE off ''threeAxisGyroDataTimeSource_valid''), 0x14, QMI_IDL_FLAGS_OFFSET_IS_16 OR QMI_IDL_GENERIC_4_BYTE] @ QMI_IDL_OFFSET16ARRAY off ''threeAxisGyroDataTimeSource'' @
      [QMI_IDL_TLV_FLAGS_OPTIONAL OR (QMI_IDL_OFFSET16RELATIVE off ''accelTemperatureData'' - QMI_IDL_OFFSET16RELATIVE off ''accelTemperatureData_valid''), 0x15, QMI_IDL_FLAGS_OFFSET_IS_16 OR QMI_IDL_AGGREGATE] @ QMI_IDL_OFFSET16ARRAY off ''accelTemperatureData'' @ QMI_IDL_TYPE88 0 44 @
      [QMI_IDL_TLV_FLAGS_OPTIONAL OR (QMI_IDL_OFFSET16RELATIVE off ''gyroTemperatureData'' - QMI_IDL_OFFSET16RELATIVE off ''gyroTemperatureData_valid''), 0x16, QMI_IDL_FLAGS_OFFSET_IS_16 OR QMI_IDL_AGGREGATE] @ QMI_IDL_OFFSET16ARRAY off ''gyroTemperatureData'' @ QMI_IDL_TYPE88 0 44 @
      [QMI_IDL_TLV_FLAGS_OPTIONAL OR (QMI_IDL_OFFSET16RELATIVE off ''threeAxisMagData'' - QMI_IDL_OFFSET16RELATIVE off ''threeAxisMagData_valid''), 0x17, QMI_IDL_FLAGS_OFFSET_IS_16 OR QMI_IDL_AGGREGATE] @ QMI_IDL_OFFSET16ARRAY off ''threeAxisMagData'' @ QMI_IDL_TYPE88 0 42 @
      [QMI_IDL_TLV_FLAGS_LAST_TLV OR QMI_IDL_TLV_FLAGS_OPTIONAL OR (QMI_IDL_OFFSET16RELATIVE off ''threeAxisMagDataTimeSource'' - QMI_IDL_OFFSET16RELATIVE off ''threeAxisMagDataTimeSource_valid''), 0x18, QMI_IDL_FLAGS_OFFSET_IS_16 OR QMI_IDL_GENERIC_4_BYTE] @ QMI_IDL_OFFSET16ARRAY off ''threeAxisMagDataTimeSource''))"

definition qmiLocInjectSensorDataIndMsgT_data_v02 :: "int list" where
  "qmiLocInjectSensorDataIndMsgT_data_v02 =
    (let off = offsetof qmiLocInjectSensorDataIndMsgT_v02 in uint8_array (
      [0x01, QMI_IDL_GENERIC_4_BYTE, QMI_IDL_OFFSET8 off ''status'',
       QMI_IDL_TLV_FLAGS_OPTIONAL OR (QMI_IDL_OFFSET8 off ''opaqueIdentifier'' - QMI_IDL_OFFSET8 off ''opaqueIdentifier_valid''), 0x10, QMI_IDL_GENERIC_4_BYTE, QMI_IDL_OFFSET8 off ''opaqueIdentifier'',
       QMI_IDL_TLV_FLAGS_OPTIONAL OR (QMI_IDL_OFFSET8 off ''threeAxisAccelSamplesAccepted'' - QMI_IDL_OFFSET8 off ''threeAxisAccelSamplesAccepted_valid''), 0x11, QMI_IDL_GENERIC_1_BYTE, QMI_IDL_OFFSET8 off ''threeAxisAccelSamplesAccepted'',
       QMI_IDL_TLV_FLAGS_OPTIONAL OR (QMI_IDL_OFFSET8 off ''threeAxisGyroSamplesAccepted'' - QMI_IDL_OFFSET8 off ''threeAxisGyroSamplesAccepted_valid''), 0x12, QMI_IDL_GENERIC_1_BYTE, QMI_IDL_OFFSET8 off ''threeAxisGyroSamplesAccepted'',
       QMI_IDL_TLV_FLAGS_OPTIONAL OR (QMI_IDL_OFFSET8 off ''accelTemperatureSamplesAccepted'' - QMI_IDL_OFFSET8 off ''accelTemperatureSamplesAccepted_valid''), 0x13, QMI_IDL_GENERIC_1_BYTE, QMI_IDL_OFFSET8 off ''accelTemperatureSamplesAccepted'',
       QMI_IDL_TLV_FLAGS_OPTIONAL OR (QMI_IDL_OFFSET8 off ''gyroTemperatureSamplesAccepted'' - QMI_IDL_OFFSET8 off ''gyroTemperatureSamplesAccepted_valid''), 0x14, QMI_IDL_GENERIC_1_BYTE, QMI_IDL_OFFSET8 off ''gyroTemperatureSamplesAccepted'',
       QMI_IDL_TLV_FLAGS_LAST_TLV OR QMI_IDL_TLV_FLAGS_OPTIONAL OR (QMI_IDL_OFFSET8 off ''threeAxisMagSamplesAccepted'' - QMI_IDL_OFFSET8 off ''threeAxisMagSamplesAccepted_valid''), 0x15, QMI_IDL_GENERIC_1_BYTE, QMI_IDL_OFFSET8 off ''threeAxisMagSamplesAccepted'']))"

definition qmiLocInjectTimeSyncDataReqMsgT_data_v02 :: "int list" where
  "qmiLocInjectTimeSyncDataReqMsgT_data_v02 =
    (let off = offsetof qmiLocInjectTimeSyncDataReqMsgT_v02 in uint8_array (
      [0x01, QMI_IDL_GENERIC_4_BYTE, QMI_IDL_OFFSET8 off ''refCounter'',
       0x02, QMI_IDL_GENERIC_4_BYTE, QMI_IDL_OFFSET8 off ''sensorProcRxTime'',
       QMI_IDL_TLV_FLAGS_LAST_TLV OR 0x03, QMI_IDL_GENERIC_4_BYTE, QMI_IDL_OFFSET8 off ''sensorProcTxTime'']))"

definition qmiLocInjectTimeSyncDataIndMsgT_data_v02 :: "int list" where
  "qmiLocInjectTimeSyncDataIndMsgT_data_v02 =
    (let off = offsetof qmiLocInjectTimeSyncDataIndMsgT_v02 in uint8_array (
      [QMI_IDL_TLV_FLAGS_LAST_TLV OR 0x01, QMI_IDL_GENERIC_4_BYTE, QMI_IDL_OFFSET8 off ''status'']))"

definition qmiLocGetCradleMountConfigIndMsgT_data_v02 :: "int list" where
  "qmiLocGetCradleMountConfigIndMsgT_data_v02 =
    (let off = offsetof qmiLocGetCradleMountConfigIndMsgT_v02 in uint8_array (
      [0x01, QMI_IDL_GENERIC_4_BYTE, QMI_IDL_OFFSET8 off ''status'',
       QMI_IDL_TLV_FLAGS_OPTIONAL OR (QMI_IDL_OFFSET8 off ''cradleMountState'' - QMI_IDL_OFFSET8 off ''cradleMountState_valid''), 0x10, QMI_IDL_GENERIC_4_BYTE, QMI_IDL_OFFSET8 off ''cradleMountState'',
       QMI_IDL_TLV_FLAGS_LAST_TLV OR QMI_IDL_TLV_FLAGS_OPTIONAL OR (QMI_IDL_OFFSET8 off ''confidenceCradleMountState'' - QMI_IDL_OFFSET8 off ''confidenceCradleMountState_valid''), 0x11, QMI_IDL_GENERIC_1_BYTE, QMI_IDL_OFFSET8 off ''confidenceCradleMountState'']))"

definition qmiLocSetCradleMountConfigReqMsgT_data_v02 :: "int list" where
  "qmiLocSetCradleMountConfigReqMsgT_data_v02 =
    (let off = offsetof qmiLocSetCradleMountConfigReqMsgT_v02 in uint8_array (
      [0x01, QMI_IDL_GENERIC_4_BYTE, QMI_IDL_OFFSET8 off ''cradleMountState'',
       QMI_IDL_TLV_FLAGS_LAST_TLV OR QMI_IDL_TLV_FLAGS_OPTIONAL OR (QMI_IDL_OFFSET8 off ''confidenceCradleMountState'' - QMI_IDL_OFFSET8 off ''confidenceCradleMountState_valid''), 0x10, QMI_IDL_GENERIC_1_BYTE, QMI_IDL_OFFSET8 off ''confidenceCradleMountState'']))"

definition qmiLocSetCradleMountConfigIndMsgT_data_v02 :: "int list" where
  "qmiLocSetCradleMountConfigIndMsgT_data_v02 =
    (let off = offsetof qmiLocSetCradleMountConfigIndMsgT_v02 in uint8_array (
      [QMI_IDL_TLV_FLAGS_LAST_TLV OR 0x01, QMI_IDL_GENERIC_4_BYTE, QMI_IDL_OFFSET8 off ''status'']))"

definition qmiLocGetExternalPowerConfigIndMsgT_data_v02 :: "int list" where
  "qmiLocGetExternalPowerConfigIndMsgT_data_v02 =
    (let off = offsetof qmiLocGetExternalPowerConfigIndMsgT_v02 in uint8_array (
      [0x01, QMI_IDL_GENERIC_4_BYTE, QMI_IDL_OFFSET8 off ''status'',
       QMI_IDL_TLV_FLAGS_LAST_TLV OR QMI_IDL_TLV_FLAGS_OPTIONAL OR (QMI_IDL_OFFSET8 off ''externalPowerState'' - QMI_IDL_OFFSET8 off ''externalPowerState_valid''), 0x10, QMI_IDL_GENERIC_4_BYTE, QMI_IDL_OFFSET8 off ''externalPowerState'']))"

definition qmiLocSetExternalPowerConfigReqMsgT_data_v02 :: "int list" where
  "qmiLocSetExternalPowerConfigReqMsgT_data_v02 =
    (let off = offsetof qmiLocSetExternalPowerConfigReqMsgT_v02 in uint8_array (
      [0x01, QMI_IDL_GENERIC_4_BYTE, QMI_IDL_OFFSET8 off ''externalPowerState'',
       QMI_IDL_TLV_FLAGS_LAST_TLV OR QMI_IDL_TLV_FLAGS_OPTIONAL OR (QMI_IDL_OFFSET8 off ''batteryLevel'' - QMI_IDL_OFFSET8 off ''batteryLevel_valid''), 0x10, QMI_IDL_GENERIC_4_BYTE, QMI_IDL_OFFSET8 off ''batteryLevel'']))"

definition loc_message_table_v02_2 :: "qmi_idl_message_table_entry list" where
  "loc_message_table_v02_2 = [
    (qmiLocSetServerReqMsgT_v02, Some qmiLocSetServerReqMsgT_data_v02),
    (qmiLocSetServerIndMsgT_v02, Some qmiLocSetServerIndMsgT_data_v02),
    (qmiLocGetServerReqMsgT_v02, Some qmiLocGetServerReqMsgT_data_v02),
    (qmiLocGetServerIndMsgT_v02, Some qmiLocGetServerIndMsgT_data_v02),
    (qmiLocDeleteAssistDataReqMsgT_v02, Some qmiLocDeleteAssistDataReqMsgT_data_v02),
    (qmiLocDeleteAssistDataIndMsgT_v02, Some qmiLocDeleteAssistDataIndMsgT_data_v02),
    (qmiLocSetXtraTSessionControlReqMsgT_v02, Some qmiLocSetXtraTSessionControlReqMsgT_data_v02),
    (qmiLocSetXtraTSessionControlIndMsgT_v02, Some qmiLocSetXtraTSessionControlIndMsgT_data_v02),
    (qmiLocGetXtraTSessionControlReqMsgT_v02, None),
    (qmiLocGetXtraTSessionControlIndMsgT_v02, Some qmiLocGetXtraTSessionControlIndMsgT_data_v02),
    (qmiLocInjectWifiPositionReqMsgT_v02, Some qmiLocInjectWifiPositionReqMsgT_data_v02),
    (qmiLocInjectWifiPositionIndMsgT_v02, Some qmiLocInjectWifiPositionIndMsgT_data_v02),
    (qmiLocNotifyWifiStatusReqMsgT_v02, Some qmiLocNotifyWifiStatusReqMsgT_data_v02),
    (qmiLocNotifyWifiStatusIndMsgT_v02, Some qmiLocNotifyWifiStatusIndMsgT_data_v02),
    (qmiLocGetRegisteredEventsReqMsgT_v02, None),
    (qmiLocGetRegisteredEventsIndMsgT_v02, Some qmiLocGetRegisteredEventsIndMsgT_data_v02),
    (qmiLocSetOperationModeReqMsgT_v02, Some qmiLocSetOperationModeReqMsgT_data_v02),
    (qmiLocSetOperationModeIndMsgT_v02, Some qmiLocSetOperationModeIndMsgT_data_v02),
    (qmiLocGetOperationModeReqMsgT_v02, None),
    (qmiLocGetOperationModeIndMsgT_v02, Some qmiLocGetOperationModeIndMsgT_data_v02),
    (qmiLocSetSpiStatusReqMsgT_v02, Some qmiLocSetSpiStatusReqMsgT_data_v02),
    (qmiLocSetSpiStatusIndMsgT_v02, Some qmiLocSetSpiStatusIndMsgT_data_v02),
    (qmiLocInjectSensorDataReqMsgT_v02, Some qmiLocInjectSensorDataReqMsgT_data_v02),
    (qmiLocInjectSensorDataIndMsgT_v02, Some qmiLocInjectSensorDataIndMsgT_data_v02),
    (qmiLocInjectTimeSyncDataReqMsgT_v02, Some qmiLocInjectTimeSyncDataReqMsgT_data_v02),
    (qmiLocInjectTimeSyncDataIndMsgT_v02, Some qmiLocInjectTimeSyncDataIndMsgT_data_v02),
    (qmiLocGetCradleMountConfigReqMsgT_v02, None),
    (qmiLocGetCradleMountConfigIndMsgT_v02, Some qmiLocGetCradleMountConfigIndMsgT_data_v02),
    (qmiLocSetCradleMountConfigReqMsgT_v02, Some qmiLocSetCradleMountConfigReqMsgT_data_v02),
    (qmiLocSetCradleMountConfigIndMsgT_v02, Some qmiLocSetCradleMountConfigIndMsgT_data_v02),
    (qmiLocGetExternalPowerConfigReqMsgT_v02, None),
    (qmiLocGetExternalPowerConfigIndMsgT_v02, Some qmiLocGetExternalPowerConfigIndMsgT_data_v02),
    (qmiLocSetExternalPowerConfigReqMsgT_v02, Some qmiLocSetExternalPowerConfigReqMsgT_data_v02)]"


end
