(* ===== verification/LocMessages2.thy ===== *)
theory LocMessages2
  imports LocTypeTable
begin

text \<open>
  The message table of \<open>loc_api/loc_api_v02/location_service_v02.c\<close> (part 2 of 4): the bytes that
  describe each message, and the rows of the table that pair them with the message structs.
\<close>

unbundle bit_operations_syntax

definition qmiLocSetExternalPowerConfigIndMsgT_data_v02 :: "int list" where
  "qmiLocSetExternalPowerConfigIndMsgT_data_v02 =
    (let off = offsetof qmiLocSetExternalPowerConfigIndMsgT_v02 in uint8_array (
      [QMI_IDL_TLV_FLAGS_LAST_TLV OR 0x01, QMI_IDL_GENERIC_4_BYTE, QMI_IDL_OFFSET8 off ''status'']))"

definition qmiLocInformLocationServerConnStatusReqMsgT_data_v02 :: "int list" where
  "qmiLocInformLocationServerConnStatusReqMsgT_data_v02 =
    (let off = offsetof qmiLocInformLocationServerConnStatusReqMsgT_v02 in uint8_array (
      [0x01, QMI_IDL_GENERIC_4_BYTE, QMI_IDL_OFFSET8 off ''connHandle'',
       0x02, QMI_IDL_GENERIC_4_BYTE, QMI_IDL_OFFSET8 off ''requestType'',
       0x03, QMI_IDL_GENERIC_4_BYTE, QMI_IDL_OFFSET8 off ''statusType'',
       QMI_IDL_TLV_FLAGS_OPTIONAL OR (QMI_IDL_OFFSET8 off ''apnProfile'' - QMI_IDL_OFFSET8 off ''apnProfile_valid''), 0x10, QMI_IDL_AGGREGATE, QMI_IDL_OFFSET8 off ''apnProfile''] @ QMI_IDL_TYPE88 0 45 @
      [QMI_IDL_TLV_FLAGS_LAST_TLV OR QMI_IDL_TLV_FLAGS_OPTIONAL OR (QMI_IDL_OFFSET8 off ''apnTypeMask'' - QMI_IDL_OFFSET8 off ''apnTypeMask_valid''), 0x11, QMI_IDL_GENERIC_8_BYTE, QMI_IDL_OFFSET8 off ''apnTypeMask'']))"

definition qmiLocInformLocationServerConnStatusIndMsgT_data_v02 :: "int list" where
  "qmiLocInformLocationServerConnStatusIndMsgT_data_v02 =
    (let off = offsetof qmiLocInformLocationServerConnStatusIndMsgT_v02 in uint8_array (
      [QMI_IDL_TLV_FLAGS_LAST_TLV OR 0x01, QMI_IDL_GENERIC_4_BYTE, QMI_IDL_OFFSET8 off ''status'']))"

definition qmiLocSetProtocolConfigParametersReqMsgT_data_v02 :: "int list" where
  "qmiLocSetProtocolConfigParametersReqMsgT_data_v02 =
    (let off = offsetof qmiLocSetProtocolConfigParametersReqMsgT_v02 in uint8_array (
      [QMI_IDL_TLV_FLAGS_OPTIONAL OR (QMI_IDL_OFFSET8 off ''suplSecurity'' - QMI_IDL_OFFSET8 off ''suplSecurity_valid''), 0x10, QMI_IDL_GENERIC_1_BYTE, QMI_IDL_OFFSET8 off ''suplSecurity'',
       QMI_IDL_TLV_FLAGS_OPTIONAL OR (QMI_IDL_OFFSET8 off ''vxVersion'' - QMI_IDL_OFFSET8 off ''vxVersion_valid''), 0x11, QMI_IDL_GENERIC_4_BYTE, QMI_IDL_OFFSET8 off ''vxVersion'',
       QMI_IDL_TLV_FLAGS_OPTIONAL OR (QMI_IDL_OFFSET8 off ''suplVersion'' - QMI_IDL_OFFSET8 off ''suplVersion_valid''), 0x12, QMI_IDL_GENERIC_4_BYTE, QMI_IDL_OFFSET8 off ''suplVersion'',
       QMI_IDL_TLV_FLAGS_OPTIONAL OR (QMI_IDL_OFFSET8 off ''lppConfig'' - QMI_IDL_OFFSET8 off ''lppConfig_valid''), 0x13, QMI_IDL_GENERIC_4_BYTE, QMI_IDL_OFFSET8 off ''lppConfig'',
       QMI_IDL_TLV_FLAGS_OPTIONAL OR (QMI_IDL_OFFSET8 off ''assistedGlonassProtocolMask'' - QMI_IDL_OFFSET8 off ''assistedGlonassProtocolMask_valid''), 0x14, QMI_IDL_GENERIC_4_BYTE, QMI_IDL_OFFSET8 off ''assistedGlonassProtocolMask'',
       QMI_IDL_TLV_FLAGS_OPTIONAL OR (QMI_IDL_OFFSET8 off ''suplHashAlgo'' - QMI_IDL_OFFSET8 off ''suplHashAlgo_valid''), 0x15, QMI_IDL_GENERIC_4_BYTE, QMI_IDL_OFFSET8 off ''suplHashAlgo'',
       QMI_IDL_TLV_FLAGS_OPTIONAL OR (QMI_IDL_OFFSET8 off ''suplTlsVersion'' - QMI_IDL_OFFSET8 off ''suplTlsVersion_valid''), 0x16, QMI_IDL_GENERIC_4_BYTE, QMI_IDL_OFFSET8 off ''suplTlsVersion'',
       QMI_IDL_TLV_FLAGS_OPTIONAL OR (QMI_IDL_OFFSET8 off ''emergencyProtocol'' - QMI_IDL_OFFSET8 off ''emergencyProtocol_valid''), 0x17, QMI_IDL_GENERIC_4_BYTE, QMI_IDL_OFFSET8 off ''emergencyProtocol'',
       QMI_IDL_TLV_FLAGS_OPTIONAL OR (QMI_IDL_OFFSET8 off ''wifiScanInjectTimeout'' - QMI_IDL_OFFSET8 off ''wifiScanInjectTimeout_valid''), 0x18, QMI_IDL_GENERIC_1_BYTE, QMI_IDL_OFFSET8 off ''wifiScanInjectTimeout'',
       QMI_IDL_TLV_FLAGS_OPTIONAL OR (QMI_IDL_OFFSET8 off ''lppeUpConfig'' - QMI_IDL_OFFSET8 off ''lppeUpConfig_valid''), 0x19, QMI_IDL_GENERIC_8_BYTE, QMI_IDL_OFFSET8 off ''lppeUpConfig'',
       QMI_IDL_TLV_FLAGS_OPTIONAL OR (QMI_IDL_OFFSET8 off ''lppeCpConfig'' - QMI_IDL_OFFSET8 off ''lppeCpConfig_valid''), 0x1A, QMI_IDL_GENERIC_8_BYTE, QMI_IDL_OFFSET8 off ''lppeCpConfig'',
       QMI_IDL_TLV_FLAGS_LAST_TLV OR QMI_IDL_TLV_FLAGS_OPTIONAL OR (QMI_IDL_OFFSET8 off ''emergencyCallbackWindow'' - QMI_IDL_OFFSET8 off ''emergencyCallbackWindow_valid''), 0x1B, QMI_IDL_GENERIC_4_BYTE, QMI_IDL_OFFSET8 off ''emergencyCallbackWindow'']))"

definition qmiLocSetProtocolConfigParametersIndMsgT_data_v02 :: "int list" where
  "qmiLocSetProtocolConfigParametersIndMsgT_data_v02 =
    (let off = offsetof qmiLocSetProtocolConfigParametersIndMsgT_v02 in uint8_array (
      [0x01, QMI_IDL_GENERIC_4_BYTE, QMI_IDL_OFFSET8 off ''status'',
       QMI_IDL_TLV_FLAGS_LAST_TLV OR QMI_IDL_TLV_FLAGS_OPTIONAL OR (QMI_IDL_OFFSET8 off ''failedProtocolConfigParamMask'' - QMI_IDL_OFFSET8 off ''failedProtocolConfigParamMask_valid''), 0x10, QMI_IDL_GENERIC_8_BYTE, QMI_IDL_OFFSET8 off ''failedProtocolConfigParamMask'']))"

definition qmiLocGetProtocolConfigParametersReqMsgT_data_v02 :: "int list" where
  "qmiLocGetProtocolConfigParametersReqMsgT_data_v02 =
    (let off = offsetof qmiLocGetProtocolConfigParametersReqMsgT_v02 in uint8_array (
      [QMI_IDL_TLV_FLAGS_LAST_TLV OR 0x01, QMI_IDL_GENERIC_8_BYTE, QMI_IDL_OFFSET8 off ''getProtocolConfigParamMask'']))"

definition qmiLocGetProtocolConfigParametersIndMsgT_data_v02 :: "int list" where
  "qmiLocGetProtocolConfigParametersIndMsgT_data_v02 =
    (let off = offsetof qmiLocGetProtocolConfigParametersIndMsgT_v02 in uint8_array (
      [0x01, QMI_IDL_GENERIC_4_BYTE, QMI_IDL_OFFSET8 off ''status'',
       QMI_IDL_TLV_FLAGS_OPTIONAL OR (QMI_IDL_OFFSET8 off ''suplSecurity'' - QMI_IDL_OFFSET8 off ''suplSecurity_valid''), 0x10, QMI_IDL_GENERIC_1_BYTE, QMI_IDL_OFFSET8 off ''suplSecurity'',
       QMI_IDL_TLV_FLAGS_OPTIONAL OR (QMI_IDL_OFFSET8 off ''vxVersion'' - QMI_IDL_OFFSET8 off ''vxVersion_valid''), 0x11, QMI_IDL_GENERIC_4_BYTE, QMI_IDL_OFFSET8 off ''vxVersion'',
       QMI_IDL_TLV_FLAGS_OPTIONAL OR (QMI_IDL_OFFSET8 off ''suplVersion'' - QMI_IDL_OFFSET8 off ''suplVersion_valid''), 0x12, QMI_IDL_GENERIC_4_BYTE, QMI_IDL_OFFSET8 off ''suplVersion'',
       QMI_IDL_TLV_FLAGS_OPTIONAL OR (QMI_IDL_OFFSET8 off ''lppConfig'' - QMI_IDL_OFFSET8 off ''lppConfig_valid''), 0x13, QMI_IDL_GENERIC_4_BYTE, QMI_IDL_OFFSET8 off ''lppConfig'',
       QMI_IDL_TLV_FLAGS_OPTIONAL OR (QMI_IDL_OFFSET8 off ''assistedGlonassProtocolMask'' - QMI_IDL_OFFSET8 off ''assistedGlonassProtocolMask_valid''), 0x14, QMI_IDL_GENERIC_4_BYTE, QMI_IDL_OFFSET8 off ''assistedGlonassProtocolMask'',
       QMI_IDL_TLV_FLAGS_OPTIONAL OR (QMI_IDL_OFFSET8 off ''suplHashAlgo'' - QMI_IDL_OFFSET8 off ''suplHashAlgo_valid''), 0x15, QMI_IDL_GENERIC_4_BYTE, QMI_IDL_OFFSET8 off ''suplHashAlgo'',
       QMI_IDL_TLV_FLAGS_OPTIONAL OR (QMI_IDL_OFFSET8 off ''suplTlsVersion'' - QMI_IDL_OFFSET8 off ''suplTlsVersion_valid''), 0x16, QMI_IDL_GENERIC_4_BYTE, QMI_IDL_OFFSET8 off ''suplTlsVersion'',
       QMI_IDL_TLV_FLAGS_OPTIONAL OR (QMI_IDL_OFFSET8 off ''emergencyProtocol'' - QMI_IDL_OFFSET8 off ''emergencyProtocol_valid''), 0x17, QMI_IDL_GENERIC_4_BYTE, QMI_IDL_OFFSET8 off ''emergencyProtocol'',
       QMI_IDL_TLV_FLAGS_OPTIONAL OR (QMI_IDL_OFFSET8 off ''wifiScanInjectTimeout'' - QMI_IDL_OFFSET8 off ''wifiScanInjectTimeout_valid''), 0x18, QMI_IDL_GENERIC_1_BYTE, QMI_IDL_OFFSET8 off ''wifiScanInjectTimeout'',
       QMI_IDL_TLV_FLAGS_OPTIONAL OR (QMI_IDL_OFFSET8 off ''lppeUpConfig'' - QMI_IDL_OFFSET8 off ''lppeUpConfig_valid''), 0x19, QMI_IDL_GENERIC_8_BYTE, QMI_IDL_OFFSET8 off ''lppeUpConfig'',
       QMI_IDL_TLV_FLAGS_OPTIONAL OR (QMI_IDL_OFFSET8 off ''lppeCpConfig'' - QMI_IDL_OFFSET8 off ''lppeCpConfig_valid''), 0x1A, QMI_IDL_GENERIC_8_BYTE, QMI_IDL_OFFSET8 off ''lppeCpConfig'',
       QMI_IDL_TLV_FLAGS_LAST_TLV OR QMI_IDL_TLV_FLAGS_OPTIONAL OR (QMI_IDL_OFFSET8 off ''emergencyCallbackWindow'' - QMI_IDL_OFFSET8 off ''emergencyCallbackWindow_valid''), 0x1B, QMI_IDL_GENERIC_4_BYTE, QMI_IDL_OFFSET8 off ''emergencyCallbackWindow'']))"

definition qmiLocSetSensorControlConfigReqMsgT_data_v02 :: "int list" where
  "qmiLocSetSensorControlConfigReqMsgT_data_v02 =
    (let off = offsetof qmiLocSetSensorControlConfigReqMsgT_v02 in uint8_array (
      [QMI_IDL_TLV_FLAGS_OPTIONAL OR (QMI_IDL_OFFSET8 off ''sensorsUsage'' - QMI_IDL_OFFSET8 off ''sensorsUsage_valid''), 0x10, QMI_IDL_GENERIC_4_BYTE, QMI_IDL_OFFSET8 off ''sensorsUsage'',
       QMI_IDL_TLV_FLAGS_LAST_TLV OR QMI_IDL_TLV_FLAGS_OPTIONAL OR (QMI_IDL_OFFSET8 off ''sensorProvider'' - QMI_IDL_OFFSET8 off ''sensorProvider_valid''), 0x11, QMI_IDL_GENERIC_4_BYTE, QMI_IDL_OFFSET8 off ''sensorProvider'']))"

definition qmiLocSetSensorControlConfigIndMsgT_data_v02 :: "int list" where
  "qmiLocSetSensorControlConfigIndMsgT_data_v02 =
    (let off = offsetof qmiLocSetSensorControlConfigIndMsgT_v02 in uint8_array (
      [QMI_IDL_TLV_FLAGS_LAST_TLV OR 0x01, QMI_IDL_GENERIC_4_BYTE, QMI_IDL_OFFSET8 off ''status'']))"

definition qmiLocGetSensorControlConfigIndMsgT_data_v02 :: "int list" where
  "qmiLocGetSensorControlConfigIndMsgT_data_v02 =
    (let off = offsetof qmiLocGetSensorControlConfigIndMsgT_v02 in uint8_array (
      [0x01, QMI_IDL_GENERIC_4_BYTE, QMI_IDL_OFFSET8 off ''status'',
       QMI_IDL_TLV_FLAGS_OPTIONAL OR (QMI_IDL_OFFSET8 off ''sensorsUsage'' - QMI_IDL_OFFSET8 off ''sensorsUsage_valid''), 0x10, QMI_IDL_GENERIC_4_BYTE, QMI_IDL_OFFSET8 off ''sensorsUsage'',
       QMI_IDL_TLV_FLAGS_LAST_TLV OR QMI_IDL_TLV_FLAGS_OPTIONAL OR (QMI_IDL_OFFSET8 off ''sensorProvider'' - QMI_IDL_OFFSET8 off ''sensorProvider_valid''), 0x11, QMI_IDL_GENERIC_4_BYTE, QMI_IDL_OFFSET8 off ''sensorProvider'']))"

definition qmiLocSetSensorPropertiesReqMsgT_data_v02 :: "int list" where
  "qmiLocSetSensorPropertiesReqMsgT_data_v02 =
    (let off = offsetof qmiLocSetSensorPropertiesReqMsgT_v02 in uint8_array (
      [QMI_IDL_TLV_FLAGS_OPTIONAL OR (QMI_IDL_OFFSET8 off ''gyroBiasVarianceRandomWalk'' - QMI_IDL_OFFSET8 off ''gyroBiasVarianceRandomWalk_valid''), 0x10, QMI_IDL_GENERIC_4_BYTE, QMI_IDL_OFFSET8 off ''gyroBiasVarianceRandomWalk'',
       QMI_IDL_TLV_FLAGS_OPTIONAL OR (QMI_IDL_OFFSET8 off ''velocityRandomWalkSpectralDensity'' - QMI_IDL_OFFSET8 off ''velocityRandomWalkSpectralDensity_valid''), 0x11, QMI_IDL_GENERIC_4_BYTE, QMI_IDL_OFFSET8 off ''velocityRandomWalkSpectralDensity'',
       QMI_IDL_TLV_FLAGS_OPTIONAL OR (QMI_IDL_OFFSET8 off ''accelerationRandomWalkSpectralDensity'' - QMI_IDL_OFFSET8 off ''accelerationRandomWalkSpectralDensity_valid''), 0x12, QMI_IDL_GENERIC_4_BYTE, QMI_IDL_OFFSET8 off ''accelerationRandomWalkSpectralDensity'',
       QMI_IDL_TLV_FLAGS_OPTIONAL OR (QMI_IDL_OFFSET8 off ''angleRandomWalkSpectralDensity'' - QMI_IDL_OFFSET8 off ''angleRandomWalkSpectralDensity_valid''), 0x13, QMI_IDL_GENERIC_4_BYTE, QMI_IDL_OFFSET8 off ''angleRandomWalkSpectralDensity'',
       QMI_IDL_TLV_FLAGS_OPTIONAL OR (QMI_IDL_OFFSET8 off ''rateRandomWalkSpectralDensity'' - QMI_IDL_OFFSET8 off ''rateRandomWalkSpectralDensity_valid''), 0x14, QMI_IDL_GENERIC_4_BYTE, QMI_IDL_OFFSET8 off ''rateRandomWalkSpectralDensity'',
       QMI_IDL_TLV_FLAGS_OPTIONAL OR (QMI_IDL_OFFSET8 off ''vehicleDataUse'' - QMI_IDL_OFFSET8 off ''vehicleDataUse_valid''), 0x15, QMI_IDL_GENERIC_8_BYTE, QMI_IDL_OFFSET8 off ''vehicleDataUse'',
       QMI_IDL_TLV_FLAGS_OPTIONAL OR (QMI_IDL_OFFSET8 off ''vehicleVelocityRandomWalkSpectralDensity'' - QMI_IDL_OFFSET8 off ''vehicleVelocityRandomWalkSpectralDensity_valid''), 0x16, QMI_IDL_GENERIC_4_BYTE, QMI_IDL_OFFSET8 off ''vehicleVelocityRandomWalkSpectralDensity'',
       QMI_IDL_TLV_FLAGS_OPTIONAL OR (QMI_IDL_OFFSET8 off ''vehicleAccelRandomWalkSpectralDensity'' - QMI_IDL_OFFSET8 off ''vehicleAccelRandomWalkSpectralDensity_valid''), 0x17, QMI_IDL_GENERIC_4_BYTE, QMI_IDL_OFFSET8 off ''vehicleAccelRandomWalkSpectralDensity'',
       QMI_IDL_TLV_FLAGS_OPTIONAL OR (QMI_IDL_OFFSET8 off ''vehicleAngleRandomWalkSpectralDensity'' - QMI_IDL_OFFSET8 off ''vehicleAngleRandomWalkSpectralDensity_valid''), 0x18, QMI_IDL_GENERIC_4_BYTE, QMI_IDL_OFFSET8 off ''vehicleAngleRandomWalkSpectralDensity'',
       QMI_IDL_TLV_FLAGS_OPTIONAL OR (QMI_IDL_OFFSET8 off ''vehicleAngularRateRandomWalkSpectralDensity'' - QMI_IDL_OFFSET8 off ''vehicleAngularRateRandomWalkSpectralDensity_valid''), 0x19, QMI_IDL_GENERIC_4_BYTE, QMI_IDL_OFFSET8 off ''vehicleAngularRateRandomWalkSpectralDensity'',
       QMI_IDL_TLV_FLAGS_OPTIONAL OR (QMI_IDL_OFFSET8 off ''vehicleOdometryScaleFactorRandomWalkSpectralDensity'' - QMI_IDL_OFFSET8 off ''vehicleOdometryScaleFactorRandomWalkSpectralDensity_valid''), 0x1A, QMI_IDL_GENERIC_4_BYTE, QMI_IDL_OFFSET8 off ''vehicleOdometryScaleFactorRandomWalkSpectralDensity'',
       QMI_IDL_TLV_FLAGS_LAST_TLV OR QMI_IDL_TLV_FLAGS_OPTIONAL OR (QMI_IDL_OFFSET8 off ''vehicleOdometryVariance'' - QMI_IDL_OFFSET8 off ''vehicleOdometryVariance_valid''), 0x1B, QMI_IDL_GENERIC_4_BYTE, QMI_IDL_OFFSET8 off ''vehicleOdometryVariance'']))"

definition qmiLocSetSensorPropertiesIndMsgT_data_v02 :: "int list" where
  "qmiLocSetSensorPropertiesIndMsgT_data_v02 =
    (let off = offsetof qmiLocSetSensorPropertiesIndMsgT_v02 in uint8_array (
      [0x01, QMI_IDL_GENERIC_4_BYTE, QMI_IDL_OFFSET8 off ''status'',
       QMI_IDL_TLV_FLAGS_LAST_TLV OR QMI_IDL_TLV_FLAGS_OPTIONAL OR (QMI_IDL_OFFSET8 off ''failedSensorPropertiesMask'' - QMI_IDL_OFFSET8 off ''failedSensorPropertiesMask_valid''), 0x10, QMI_IDL_GENERIC_4_BYTE, QMI_IDL_OFFSET8 off ''failedSensorPropertiesMask'']))"

definition qmiLocGetSensorPropertiesReqMsgT_data_v02 :: "int list" where
  "qmiLocGetSensorPropertiesReqMsgT_data_v02 =
    (let off = offsetof qmiLocGetSensorPropertiesReqMsgT_v02 in uint8_array (
      [QMI_IDL_TLV_FLAGS_LAST_TLV OR 0x01, QMI_IDL_GENERIC_4_BYTE, QMI_IDL_OFFSET8 off ''getSensorPropertiesMask'']))"

definition qmiLocGetSensorPropertiesIndMsgT_data_v02 :: "int list" where
  "qmiLocGetSensorPropertiesIndMsgT_data_v02 =
    (let off = offsetof qmiLocGetSensorPropertiesIndMsgT_v02 in uint8_array (
      [0x01, QMI_IDL_GENERIC_4_BYTE, QMI_IDL_OFFSET8 off ''status'',
       QMI_IDL_TLV_FLAGS_OPTIONAL OR (QMI_IDL_OFFSET8 off ''gyroBiasVarianceRandomWalk'' - QMI_IDL_OFFSET8 off ''gyroBiasVarianceRandomWalk_valid''), 0x10, QMI_IDL_GENERIC_4_BYTE, QMI_IDL_OFFSET8 off ''gyroBiasVarianceRandomWalk'',
       QMI_IDL_TLV_FLAGS_OPTIONAL OR (QMI_IDL_OFFSET8 off ''velocityRandomWalkSpectralDensity'' - QMI_IDL_OFFSET8 off ''velocityRandomWalkSpectralDensity_valid''), 0x11, QMI_IDL_GENERIC_4_BYTE, QMI_IDL_OFFSET8 off ''velocityRandomWalkSpectralDensity'',
       QMI_IDL_TLV_FLAGS_OPTIONAL OR (QMI_IDL_OFFSET8 off ''accelerationRandomWalkSpectralDensity'' - QMI_IDL_OFFSET8 off ''accelerationRandomWalkSpectralDensity_valid''), 0x12, QMI_IDL_GENERIC_4_BYTE, QMI_IDL_OFFSET8 off ''accelerationRandomWalkSpectralDensity'',
       QMI_IDL_TLV_FLAGS_OPTIONAL OR (QMI_IDL_OFFSET8 off ''angleRandomWalkSpectralDensity'' - QMI_IDL_OFFSET8 off ''angleRandomWalkSpectralDensity_valid''), 0x13, QMI_IDL_GENERIC_4_BYTE, QMI_IDL_OFFSET8 off ''angleRandomWalkSpectralDensity'',
       QMI_IDL_TLV_FLAGS_OPTIONAL OR (QMI_IDL_OFFSET8 off ''rateRandomWalkSpectralDensity'' - QMI_IDL_OFFSET8 off ''rateRandomWalkSpectralDensity_valid''), 0x14, QMI_IDL_GENERIC_4_BYTE, QMI_IDL_OFFSET8 off ''rateRandomWalkSpectralDensity'',
       QMI_IDL_TLV_FLAGS_OPTIONAL OR (QMI_IDL_OFFSET8 off ''vehicleDataUse'' - QMI_IDL_OFFSET8 off ''vehicleDataUse_valid''), 0x15, QMI_IDL_GENERIC_8_BYTE, QMI_IDL_OFFSET8 off ''vehicleDataUse'',
       QMI_IDL_TLV_FLAGS_OPTIONAL OR (QMI_IDL_OFFSET8 off ''vehicleVelocityRandomWalkSpectralDensity'' - QMI_IDL_OFFSET8 off ''vehicleVelocityRandomWalkSpectralDensity_valid''), 0x16, QMI_IDL_GENERIC_4_BYTE, QMI_IDL_OFFSET8 off ''vehicleVelocityRandomWalkSpectralDensity'',
       QMI_IDL_TLV_FLAGS_OPTIONAL OR (QMI_IDL_OFFSET8 off ''vehicleAccelRandomWalkSpectralDensity'' - QMI_IDL_OFFSET8 off ''vehicleAccelRandomWalkSpectralDensity_valid''), 0x17, QMI_IDL_GENERIC_4_BYTE, QMI_IDL_OFFSET8 off ''vehicleAccelRandomWalkSpectralDensity'',
       QMI_IDL_TLV_FLAGS_OPTIONAL OR (QMI_IDL_OFFSET8 off ''vehicleAngleRandomWalkSpectralDensity'' - QMI_IDL_OFFSET8 off ''vehicleAngleRandomWalkSpectralDensity_valid''), 0x18, QMI_IDL_GENERIC_4_BYTE, QMI_IDL_OFFSET8 off ''vehicleAngleRandomWalkSpectralDensity'',
       QMI_IDL_TLV_FLAGS_OPTIONAL OR (QMI_IDL_OFFSET8 off ''vehicleAngularRateRandomWalkSpectralDensity'' - QMI_IDL_OFFSET8 off ''vehicleAngularRateRandomWalkSpectralDensity_valid''), 0x19, QMI_IDL_GENERIC_4_BYTE, QMI_IDL_OFFSET8 off ''vehicleAngularRateRandomWalkSpectralDensity'',
       QMI_IDL_TLV_FLAGS_OPTIONAL OR (QMI_IDL_OFFSET8 off ''vehicleOdometryScaleFactorRandomWalkSpectralDensity'' - QMI_IDL_OFFSET8 off ''vehicleOdometryScaleFactorRandomWalkSpectralDensity_valid''), 0x1A, QMI_IDL_GENERIC_4_BYTE, QMI_IDL_OFFSET8 off ''vehicleOdometryScaleFactorRandomWalkSpectralDensity'',
       QMI_IDL_TLV_FLAGS_LAST_TLV OR QMI_IDL_TLV_FLAGS_OPTIONAL OR (QMI_IDL_OFFSET8 off ''vehicleOdometryVariance'' - QMI_IDL_OFFSET8 off ''vehicleOdometryVariance_valid''), 0x1B, QMI_IDL_GENERIC_4_BYTE, QMI_IDL_OFFSET8 off ''vehicleOdometryVariance'']))"

definition qmiLocSetSensorPerformanceControlConfigReqMsgT_data_v02 :: "int list" where
  "qmiLocSetSensorPerformanceControlConfigReqMsgT_data_v02 =
    (let off = offsetof qmiLocSetSensorPerformanceControlConfigReqMsgT_v02 in uint8_array (
      [QMI_IDL_TLV_FLAGS_OPTIONAL OR (QMI_IDL_OFFSET8 off ''performanceControlMode'' - QMI_IDL_OFFSET8 off ''performanceControlMode_valid''), 0x10, QMI_IDL_GENERIC_4_BYTE, QMI_IDL_OFFSET8 off ''performanceControlMode'',
       QMI_IDL_TLV_FLAGS_OPTIONAL OR (QMI_IDL_OFFSET8 off ''accelSamplingSpec'' - QMI_IDL_OFFSET8 off ''accelSamplingSpec_valid''), 0x11, QMI_IDL_AGGREGATE, QMI_IDL_OFFSET8 off ''accelSamplingSpec''] @ QMI_IDL_TYPE88 0 28 @
      [QMI_IDL_TLV_FLAGS_OPTIONAL OR (QMI_IDL_OFFSET8 off ''gyroSamplingSpec'' - QMI_IDL_OFFSET8 off ''gyroSamplingSpec_valid''), 0x12, QMI_IDL_AGGREGATE, QMI_IDL_OFFSET8 off ''gyroSamplingSpec''] @ QMI_IDL_TYPE88 0 28 @
      [QMI_IDL_TLV_FLAGS_OPTIONAL OR (QMI_IDL_OFFSET8 off ''algorithmConfig'' - QMI_IDL_OFFSET8 off ''algorithmConfig_valid''), 0x13, QMI_IDL_GENERIC_4_BYTE, QMI_IDL_OFFSET8 off ''algorithmConfig'',
       QMI_IDL_TLV_FLAGS_OPTIONAL OR (QMI_IDL_OFFSET8 off ''accelSamplingSpecHigh'' - QMI_IDL_OFFSET8 off ''accelSamplingSpecHigh_valid''), 0x14, QMI_IDL_AGGREGATE, QMI_IDL_OFFSET8 off ''accelSamplingSpecHigh''] @ QMI_IDL_TYPE88 0 28 @
      [QMI_IDL_TLV_FLAGS_LAST_TLV OR QMI_IDL_TLV_FLAGS_OPTIONAL OR (QMI_IDL_OFFSET8 off ''gyroSamplingSpecHigh'' - QMI_IDL_OFFSET8 off ''gyroSamplingSpecHigh_valid''), 0x15, QMI_IDL_AGGREGATE, QMI_IDL_OFFSET8 off ''gyroSamplingSpecHigh''] @ QMI_IDL_TYPE88 0 28))"

definition qmiLocSetSensorPerformanceControlConfigIndMsgT_data_v02 :: "int list" where
  "qmiLocSetSensorPerformanceControlConfigIndMsgT_data_v02 =
    (let off = offsetof qmiLocSetSensorPerformanceControlConfigIndMsgT_v02 in uint8_array (
      [0x01, QMI_IDL_GENERIC_4_BYTE, QMI_IDL_OFFSET8 off ''status'',
       QMI_IDL_TLV_FLAGS_LAST_TLV OR QMI_IDL_TLV_FLAGS_OPTIONAL OR (QMI_IDL_OFFSET8 off ''failedConfiguration'' - QMI_IDL_OFFSET8 off ''failedConfiguration_valid''), 0x10, QMI_IDL_GENERIC_4_BYTE, QMI_IDL_OFFSET8 off ''failedConfiguration'']))"

definition qmiLocGetSensorPerformanceControlConfigIndMsgT_data_v02 :: "int list" where
  "qmiLocGetSensorPerformanceControlConfigIndMsgT_data_v02 =
    (let off = offsetof qmiLocGetSensorPerformanceControlConfigIndMsgT_v02 in uint8_array (
      [0x01, QMI_IDL_GENERIC_4_BYTE, QMI_IDL_OFFSET8 off ''status'',
       QMI_IDL_TLV_FLAGS_OPTIONAL OR (QMI_IDL_OFFSET8 off ''performanceControlMode'' - QMI_IDL_OFFSET8 off ''performanceControlMode_valid''), 0x10, QMI_IDL_GENERIC_4_BYTE, QMI_IDL_OFFSET8 off ''performanceControlMode'',
       QMI_IDL_TLV_FLAGS_OPTIONAL OR (QMI_IDL_OFFSET8 off ''accelSamplingSpec'' - QMI_IDL_OFFSET8 off ''accelSamplingSpec_valid''), 0x11, QMI_IDL_AGGREGATE, QMI_IDL_OFFSET8 off ''accelSamplingSpec''] @ QMI_IDL_TYPE88 0 28 @
      [QMI_IDL_TLV_FLAGS_OPTIONAL OR (QMI_IDL_OFFSET8 off ''gyroSamplingSpec'' - QMI_IDL_OFFSET8 off ''gyroSamplingSpec_valid''), 0x12, QMI_IDL_AGGREGATE, QMI_IDL_OFFSET8 off ''gyroSamplingSpec''] @ QMI_IDL_TYPE88 0 28 @
      [QMI_IDL_TLV_FLAGS_OPTIONAL OR (QMI_IDL_OFFSET8 off ''algorithmConfig'' - QMI_IDL_OFFSET8 off ''algorithmConfig_valid''), 0x13, QMI_IDL_GENERIC_4_BYTE, QMI_IDL_OFFSET8 off ''algorithmConfig'',
       QMI_IDL_TLV_FLAGS_OPTIONAL OR (QMI_IDL_OFFSET8 off ''accelSamplingSpecHigh'' - QMI_IDL_OFFSET8 off ''accelSamplingSpecHigh_valid''), 0x14, QMI_IDL_AGGREGATE, QMI_IDL_OFFSET8 off ''accelSamplingSpecHigh''] @ QMI_IDL_TYPE88 0 28 @
      [QMI_IDL_TLV_FLAGS_LAST_TLV OR QMI_IDL_TLV_FLAGS_OPTIONAL OR (QMI_IDL_OFFSET8 off ''gyroSamplingSpecHigh'' - QMI_IDL_OFFSET8 off ''gyroSamplingSpecHigh_valid''), 0x15, QMI_IDL_AGGREGATE, QMI_IDL_OFFSET8 off ''gyroSamplingSpecHigh''] @ QMI_IDL_TYPE88 0 28))"

definition qmiLocInjectSuplCertificateReqMsgT_data_v02 :: "int list" where
  "qmiLocInjectSuplCertificateReqMsgT_data_v02 =
    (let off = offsetof qmiLocInjectSuplCertificateReqMsgT_v02 in uint8_array (
      [0x01, QMI_IDL_GENERIC_1_BYTE, QMI_IDL_OFFSET8 off ''suplCertId'',
       QMI_IDL_TLV_FLAGS_LAST_TLV OR 0x02, QMI_IDL_FLAGS_IS_ARRAY OR QMI_IDL_FLAGS_IS_VARIABLE_LEN OR QMI_IDL_FLAGS_SZ_IS_16 OR QMI_IDL_GENERIC_1_BYTE, QMI_IDL_OFFSET8 off ''suplCertData'', QMI_LOC_MAX_SUPL_CERT_LENGTH_V02 AND 0xFF, drop_bit 8 QMI_LOC_MAX_SUPL_CERT_LENGTH_V02, QMI_IDL_OFFSET8 off ''suplCertData'' - QMI_IDL_OFFSET8 off ''suplCertData_len'']))"

definition qmiLocInjectSuplCertificateIndMsgT_data_v02 :: "int list" where
  "qmiLocInjectSuplCertificateIndMsgT_data_v02 =
    (let off = offsetof qmiLocInjectSuplCertificateIndMsgT_v02 in uint8_array (
      [QMI_IDL_TLV_FLAGS_LAST_TLV OR 0x01, QMI_IDL_GENERIC_4_BYTE, QMI_IDL_OFFSET8 off ''status'']))"

definition qmiLocDeleteSuplCertificateReqMsgT_data_v02 :: "int list" where
  "qmiLocDeleteSuplCertificateReqMsgT_data_v02 =
    (let off = offsetof qmiLocDeleteSuplCertificateReqMsgT_v02 in uint8_array (
      [QMI_IDL_TLV_FLAGS_LAST_TLV OR QMI_IDL_TLV_FLAGS_OPTIONAL OR (QMI_IDL_OFFSET8 off ''suplCertId'' - QMI_IDL_OFFSET8 off ''suplCertId_valid''), 0x10, QMI_IDL_GENERIC_1_BYTE, QMI_IDL_OFFSET8 off ''suplCertId'']))"

definition qmiLocDeleteSuplCertificateIndMsgT_data_v02 :: "int list" where
  "qmiLocDeleteSuplCertificateIndMsgT_data_v02 =
    (let off = offsetof qmiLocDeleteSuplCertificateIndMsgT_v02 in uint8_array (
      [QMI_IDL_TLV_FLAGS_LAST_TLV OR 0x01, QMI_IDL_GENERIC_4_BYTE, QMI_IDL_OFFSET8 off ''status'']))"

definition qmiLocSetPositionEngineConfigParametersReqMsgT_data_v02 :: "int list" where
  "qmiLocSetPositionEngineConfigParametersReqMsgT_data_v02 =
    (let off = offsetof qmiLocSetPositionEngineConfigParametersReqMsgT_v02 in uint8_array (
      [QMI_IDL_TLV_FLAGS_OPTIONAL OR (QMI_IDL_OFFSET8 off ''injectedPositionControl'' - QMI_IDL_OFFSET8 off ''injectedPositionControl_valid''), 0x10, QMI_IDL_GENERIC_1_BYTE, QMI_IDL_OFFSET8 off ''injectedPositionControl'',
       QMI_IDL_TLV_FLAGS_OPTIONAL OR (QMI_IDL_OFFSET8 off ''filterSvUsage'' - QMI_IDL_OFFSET8 off ''filterSvUsage_valid''), 0x11, QMI_IDL_GENERIC_1_BYTE, QMI_IDL_OFFSET8 off ''filterSvUsage'',
       QMI_IDL_TLV_FLAGS_OPTIONAL OR (QMI_IDL_OFFSET8 off ''storeAssistData'' - QMI_IDL_OFFSET8 off ''storeAssistData_valid''), 0x12, QMI_IDL_GENERIC_1_BYTE, QMI_IDL_OFFSET8 off ''storeAssistData'',
       QMI_IDL_TLV_FLAGS_LAST_TLV OR QMI_IDL_TLV_FLAGS_OPTIONAL OR (QMI_IDL_OFFSET8 off ''enableFasterTTFF'' - QMI_IDL_OFFSET8 off ''enableFasterTTFF_valid''), 0x13, QMI_IDL_GENERIC_1_BYTE, QMI_IDL_OFFSET8 off ''enableFasterTTFF'']))"

definition qmiLocSetPositionEngineConfigParametersIndMsgT_data_v02 :: "int list" where
  "qmiLocSetPositionEngineConfigParametersIndMsgT_data_v02 =
    (let off = offsetof qmiLocSetPositionEngineConfigParametersIndMsgT_v02 in uint8_array (
      [0x01, QMI_IDL_GENERIC_4_BYTE, QMI_IDL_OFFSET8 off ''status'',
       QMI_IDL_TLV_FLAGS_LAST_TLV OR QMI_IDL_TLV_FLAGS_OPTIONAL OR (QMI_IDL_OFFSET8 off ''failedPositionEngineConfigParamMask'' - QMI_IDL_OFFSET8 off ''failedPositionEngineConfigParamMask_valid''), 0x10, QMI_IDL_GENERIC_4_BYTE, QMI_IDL_OFFSET8 off ''failedPositionEngineConfigParamMask'']))"

definition qmiLocGetPositionEngineConfigParametersReqMsgT_data_v02 :: "int list" where
  "qmiLocGetPositionEngineConfigParametersReqMsgT_data_v02 =
    (let off = offsetof qmiLocGetPositionEngineConfigParametersReqMsgT_v02 in uint8_array (
      [QMI_IDL_TLV_FLAGS_LAST_TLV OR 0x01, QMI_IDL_GENERIC_4_BYTE, QMI_IDL_OFFSET8 off ''getPositionEngineConfigParamMask'']))"

definition qmiLocGetPositionEngineConfigParametersIndMsgT_data_v02 :: "int list" where
  "qmiLocGetPositionEngineConfigParametersIndMsgT_data_v02 =
    (let off = offsetof qmiLocGetPositionEngineConfigParametersIndMsgT_v02 in uint8_array (
      [0x01, QMI_IDL_GENERIC_4_BYTE, QMI_IDL_OFFSET8 off ''status'',
       QMI_IDL_TLV_FLAGS_OPTIONAL OR (QMI_IDL_OFFSET8 off ''injectedPositionControl'' - QMI_IDL_OFFSET8 off ''injectedPositionControl_valid''), 0x10, QMI_IDL_GENERIC_1_BYTE, QMI_IDL_OFFSET8 off ''injectedPositionControl'',
       QMI_IDL_TLV_FLAGS_OPTIONAL OR (QMI_IDL_OFFSET8 off ''filterSvUsage'' - QMI_IDL_OFFSET8 off ''filterSvUsage_valid''), 0x11, QMI_IDL_GENERIC_1_BYTE, QMI_IDL_OFFSET8 off ''filterSvUsage'',
       QMI_IDL_TLV_FLAGS_OPTIONAL OR (QMI_IDL_OFFSET8 off ''storeAssistData'' - QMI_IDL_OFFSET8 off ''storeAssistData_valid''), 0x12, QMI_IDL_GENERIC_1_BYTE, QMI_IDL_OFFSET8 off ''storeAssistData'',
       QMI_IDL_TLV_FLAGS_LAST_TLV OR QMI_IDL_TLV_FLAGS_OPTIONAL OR (QMI_IDL_OFFSET8 off ''enableFasterTTFF'' - QMI_IDL_OFFSET8 off ''enableFasterTTFF_valid''), 0x13, QMI_IDL_GENERIC_1_BYTE, QMI_IDL_OFFSET8 off ''enableFasterTTFF'']))"

definition qmiLocAddCircularGeofenceReqMsgT_data_v02 :: "int list" where
  "qmiLocAddCircularGeofenceReqMsgT_data_v02 =
    (let off = offsetof qmiLocAddCircularGeofenceReqMsgT_v02 in uint8_array (
      [0x01, QMI_IDL_GENERIC_4_BYTE, QMI_IDL_OFFSET8 off ''transactionId'',
       0x02, QMI_IDL_AGGREGATE, QMI_IDL_OFFSET8 off ''circularGeofenceArgs''] @ QMI_IDL_TYPE88 0 46 @
      [0x03, QMI_IDL_GENERIC_1_BYTE, QMI_IDL_OFFSET8 off ''breachMask'',
       0x04, QMI_IDL_GENERIC_1_BYTE, QMI_IDL_OFFSET8 off ''includePosition'',
       QMI_IDL_TLV_FLAGS_OPTIONAL OR (QMI_IDL_OFFSET8 off ''responsiveness'' - QMI_IDL_OFFSET8 off ''responsiveness_valid''), 0x10, QMI_IDL_GENERIC_4_BYTE, QMI_IDL_OFFSET8 off ''responsiveness'',
       QMI_IDL_TLV_FLAGS_OPTIONAL OR (QMI_IDL_OFFSET8 off ''confidence'' - QMI_IDL_OFFSET8 off ''confidence_valid''), 0x11, QMI_IDL_GENERIC_4_BYTE, QMI_IDL_OFFSET8 off ''confidence'',
       QMI_IDL_TLV_FLAGS_OPTIONAL OR (QMI_IDL_OFFSET8 off ''customResponsivenessValue'' - QMI_IDL_OFFSET8 off ''customResponsivenessValue_valid''), 0x12, QMI_IDL_GENERIC_4_BYTE, QMI_IDL_OFFSET8 off ''customResponsivenessValue'',
       QMI_IDL_TLV_FLAGS_OPTIONAL OR (QMI_IDL_OFFSET8 off ''dwellTime'' - QMI_IDL_OFFSET8 off ''dwellTime_valid''), 0x13, QMI_IDL_GENERIC_4_BYTE, QMI_IDL_OFFSET8 off ''dwellTime'',
       QMI_IDL_TLV_FLAGS_LAST_TLV OR QMI_IDL_TLV_FLAGS_OPTIONAL OR (QMI_IDL_OFFSET8 off ''dwellTypeMask'' - QMI_IDL_OFFSET8 off ''dwellTypeMask_valid''), 0x14, QMI_IDL_GENERIC_1_BYTE, QMI_IDL_OFFSET8 off ''dwellTypeMask'']))"

definition qmiLocAddCircularGeofenceIndMsgT_data_v02 :: "int list" where
  "qmiLocAddCircularGeofenceIndMsgT_data_v02 =
    (let off = offsetof qmiLocAddCircularGeofenceIndMsgT_v02 in uint8_array (
      [0x01, QMI_IDL_GENERIC_4_BYTE, QMI_IDL_OFFSET8 off ''status'',
       QMI_IDL_TLV_FLAGS_OPTIONAL OR (QMI_IDL_OFFSET8 off ''transactionId'' - QMI_IDL_OFFSET8 off ''transactionId_valid''), 0x10, QMI_IDL_GENERIC_4_BYTE, QMI_IDL_OFFSET8 off ''transactionId'',
       QMI_IDL_TLV_FLAGS_LAST_TLV OR QMI_IDL_TLV_FLAGS_OPTIONAL OR (QMI_IDL_OFFSET8 off ''geofenceId'' - QMI_IDL_OFFSET8 off ''geofenceId_valid''), 0x11, QMI_IDL_GENERIC_4_BYTE, QMI_IDL_OFFSET8 off ''geofenceId'']))"

definition qmiLocDeleteGeofenceReqMsgT_data_v02 :: "int list" where
  "qmiLocDeleteGeofenceReqMsgT_data_v02 =
    (let off = offsetof qmiLocDeleteGeofenceReqMsgT_v02 in uint8_array (
      [0x01, QMI_IDL_GENERIC_4_BYTE, QMI_IDL_OFFSET8 off ''geofenceId'',
       QMI_IDL_TLV_FLAGS_LAST_TLV OR 0x02, QMI_IDL_GENERIC_4_BYTE, QMI_IDL_OFFSET8 off ''transactionId'']))"

definition qmiLocDeleteGeofenceIndMsgT_data_v02 :: "int list" where
  "qmiLocDeleteGeofenceIndMsgT_data_v02 =
    (let off = offsetof qmiLocDeleteGeofenceIndMsgT_v02 in uint8_array (
      [0x01, QMI_IDL_GENERIC_4_BYTE, QMI_IDL_OFFSET8 off ''status'',
       QMI_IDL_TLV_FLAGS_OPTIONAL OR (QMI_IDL_OFFSET8 off ''geofenceId'' - QMI_IDL_OFFSET8 off ''geofenceId_valid''), 0x10, QMI_IDL_GENERIC_4_BYTE, QMI_IDL_OFFSET8 off ''geofenceId'',
       QMI_IDL_TLV_FLAGS_LAST_TLV OR QMI_IDL_TLV_FLAGS_OPTIONAL OR (QMI_IDL_OFFSET8 off ''transactionId'' - QMI_IDL_OFFSET8 off ''transactionId_valid''), 0x11, QMI_IDL_GENERIC_4_BYTE, QMI_IDL_OFFSET8 off ''transactionId'']))"

definition qmiLocQueryGeofenceReqMsgT_data_v02 :: "int list" where
  "qmiLocQueryGeofenceReqMsgT_data_v02 =
    (let off = offsetof qmiLocQueryGeofenceReqMsgT_v02 in uint8_array (
      [0x01, QMI_IDL_GENERIC_4_BYTE, QMI_IDL_OFFSET8 off ''geofenceId'',
       QMI_IDL_TLV_FLAGS_LAST_TLV OR 0x02, QMI_IDL_GENERIC_4_BYTE, QMI_IDL_OFFSET8 off ''transactionId'']))"

definition qmiLocQueryGeofenceIndMsgT_data_v02 :: "int list" where
  "qmiLocQueryGeofenceIndMsgT_data_v02 =
    (let off = offsetof qmiLocQueryGeofenceIndMsgT_v02 in uint8_array (
      [0x01, QMI_IDL_GENERIC_4_BYTE, QMI_IDL_OFFSET8 off ''status'',
       QMI_IDL_TLV_FLAGS_OPTIONAL OR (QMI_IDL_OFFSET8 off ''geofenceId'' - QMI_IDL_OFFSET8 off ''geofenceId_valid''), 0x10, QMI_IDL_GENERIC_4_BYTE, QMI_IDL_OFFSET8 off ''geofenceId'',
       QMI_IDL_TLV_FLAGS_OPTIONAL OR (QMI_IDL_OFFSET8 off ''transactionId'' - QMI_IDL_OFFSET8 off ''transactionId_valid''), 0x11, QMI_IDL_GENERIC_4_BYTE, QMI_IDL_OFFSET8 off ''transactionId'',
       QMI_IDL_TLV_FLAGS_OPTIONAL OR (QMI_IDL_OFFSET8 off ''geofenceOrigin'' - QMI_IDL_OFFSET8 off ''geofenceOrigin_valid''), 0x12, QMI_IDL_GENERIC_4_BYTE, QMI_IDL_OFFSET8 off ''geofenceOrigin'',
       QMI_IDL_TLV_FLAGS_OPTIONAL OR (QMI_IDL_OFFSET8 off ''posWrtGeofence'' - QMI_IDL_OFFSET8 off ''posWrtGeofence_valid''), 0x13, QMI_IDL_GENERIC_4_BYTE, QMI_IDL_OFFSET8 off ''posWrtGeofence'',
       QMI_IDL_TLV_FLAGS_OPTIONAL OR (QMI_IDL_OFFSET8 off ''circularGeofenceArgs'' - QMI_IDL_OFFSET8 off ''circularGeofenceArgs_valid''), 0x14, QMI_IDL_AGGREGATE, QMI_IDL_OFFSET8 off ''circularGeofenceArgs''] @ QMI_IDL_TYPE88 0 46 @
      [QMI_IDL_TLV_FLAGS_LAST_TLV OR QMI_IDL_TLV_FLAGS_OPTIONAL OR (QMI_IDL_OFFSET8 off ''geofenceState'' - QMI_IDL_OFFSET8 off ''geofenceState_valid''), 0x15, QMI_IDL_GENERIC_4_BYTE, QMI_IDL_OFFSET8 off ''geofenceState'']))"

definition loc_message_table_v02_3 :: "qmi_idl_message_table_entry list" where
  "loc_message_table_v02_3 = [
    (qmiLocSetExternalPowerConfigIndMsgT_v02, Some qmiLocSetExternalPowerConfigIndMsgT_data_v02),
    (qmiLocInformLocationServerConnStatusReqMsgT_v02, Some qmiLocInformLocationServerConnStatusReqMsgT_data_v02),
    (qmiLocInformLocationServerConnStatusIndMsgT_v02, Some qmiLocInformLocationServerConnStatusIndMsgT_data_v02),
    (qmiLocSetProtocolConfigParametersReqMsgT_v02, Some qmiLocSetProtocolConfigParametersReqMsgT_data_v02),
    (qmiLocSetProtocolConfigParametersIndMsgT_v02, Some qmiLocSetProtocolConfigParametersIndMsgT_data_v02),
    (qmiLocGetProtocolConfigParametersReqMsgT_v02, Some qmiLocGetProtocolConfigParametersReqMsgT_data_v02),
    (qmiLocGetProtocolConfigParametersIndMsgT_v02, Some qmiLocGetProtocolConfigParametersIndMsgT_data_v02),
    (qmiLocSetSensorControlConfigReqMsgT_v02, Some qmiLocSetSensorControlConfigReqMsgT_data_v02),
    (qmiLocSetSensorControlConfigIndMsgT_v02, Some qmiLocSetSensorControlConfigIndMsgT_data_v02),
    (qmiLocGetSensorControlConfigReqMsgT_v02, None),
    (qmiLocGetSensorControlConfigIndMsgT_v02, Some qmiLocGetSensorControlConfigIndMsgT_data_v02),
    (qmiLocSetSensorPropertiesReqMsgT_v02, Some qmiLocSetSensorPropertiesReqMsgT_data_v02),
    (qmiLocSetSensorPropertiesIndMsgT_v02, Some qmiLocSetSensorPropertiesIndMsgT_data_v02),
    (qmiLocGetSensorPropertiesReqMsgT_v02, Some qmiLocGetSensorPropertiesReqMsgT_data_v02),
    (qmiLocGetSensorPropertiesIndMsgT_v02, Some qmiLocGetSensorPropertiesIndMsgT_data_v02),
    (qmiLocSetSensorPerformanceControlConfigReqMsgT_v02, Some qmiLocSetSensorPerformanceControlConfigReqMsgT_data_v02),
    (qmiLocSetSensorPerformanceControlConfigIndMsgT_v02, Some qmiLocSetSensorPerformanceControlConfigIndMsgT_data_v02),
    (qmiLocGetSensorPerformanceControlConfigReqMsgT_v02, None),
    (qmiLocGetSensorPerformanceControlConfigIndMsgT_v02, Some qmiLocGetSensorPerformanceControlConfigIndMsgT_data_v02),
    (qmiLocInjectSuplCertificateReqMsgT_v02, Some qmiLocInjectSuplCertificateReqMsgT_data_v02),
    (qmiLocInjectSuplCertificateIndMsgT_v02, Some qmiLocInjectSuplCertificateIndMsgT_data_v02),
    (qmiLocDeleteSuplCertificateReqMsgT_v02, Some qmiLocDeleteSuplCertificateReqMsgT_data_v02),
    (qmiLocDeleteSuplCertificateIndMsgT_v02, Some qmiLocDeleteSuplCertificateIndMsgT_data_v02),
    (qmiLocSetPositionEngineConfigParametersReqMsgT_v02, Some qmiLocSetPositionEngineConfigParametersReqMsgT_data_v02),
    (qmiLocSetPositionEngineConfigParametersIndMsgT_v02, Some qmiLocSetPositionEngineConfigParametersIndMsgT_data_v02),
    (qmiLocGetPositionEngineConfigParametersReqMsgT_v02, Some qmiLocGetPositionEngineConfigParametersReqMsgT_data_v02),
    (qmiLocGetPositionEngineConfigParametersIndMsgT_v02, Some qmiLocGetPositionEngineConfigParametersIndMsgT_data_v02),
    (qmiLocAddCircularGeofenceReqMsgT_v02, Some qmiLocAddCircularGeofenceReqMsgT_data_v02),
    (qmiLocAddCircularGeofenceIndMsgT_v02, Some qmiLocAddCircularGeofenceIndMsgT_data_v02),
    (qmiLocDeleteGeofenceReqMsgT_v02, Some qmiLocDeleteGeofenceReqMsgT_data_v02),
    (qmiLocDeleteGeofenceIndMsgT_v02, Some qmiLocDeleteGeofenceIndMsgT_data_v02),
    (qmiLocQueryGeofenceReqMsgT_v02, Some qmiLocQueryGeofenceReqMsgT_data_v02),
    (qmiLocQueryGeofenceIndMsgT_v02, Some qmiLocQueryGeofenceIndMsgT_data_v02)]"

definition qmiLocSetGeofenceEngineConfigReqMsgT_data_v02 :: "int list" where
  "qmiLocSetGeofenceEngineConfigReqMsgT_data_v02 =
    (let off = offsetof qmiLocSetGeofenceEngineConfigReqMsgT_v02 in uint8_array (
      [0x01, QMI_IDL_GENERIC_4_BYTE, QMI_IDL_OFFSET8 off ''transactionId'',
       QMI_IDL_TLV_FLAGS_OPTIONAL OR (QMI_IDL_OFFSET8 off ''gnssUnavailableIndicationTimeout'' - QMI_IDL_OFFSET8 off ''gnssUnavailableIndicationTimeout_valid''), 0x10, QMI_IDL_GENERIC_4_BYTE, QMI_IDL_OFFSET8 off ''gnssUnavailableIndicationTimeout'',
       QMI_IDL_TLV_FLAGS_OPTIONAL OR (QMI_IDL_OFFSET8 off ''maxGeofences'' - QMI_IDL_OFFSET8 off ''maxGeofences_valid''), 0x11, QMI_IDL_GENERIC_4_BYTE, QMI_IDL_OFFSET8 off ''maxGeofences'',
       QMI_IDL_TLV_FLAGS_OPTIONAL OR (QMI_IDL_OFFSET8 off ''enableMotionDetectionSources'' - QMI_IDL_OFFSET8 off ''enableMotionDetectionSources_valid''), 0x12, QMI_IDL_GENERIC_4_BYTE, QMI_IDL_OFFSET8 off ''enableMotionDetectionSources'',
       QMI_IDL_TLV_FLAGS_OPTIONAL OR (QMI_IDL_OFFSET8 off ''enableCpiUsage'' - QMI_IDL_OFFSET8 off ''enableCpiUsage_valid''), 0x13, QMI_IDL_GENERIC_1_BYTE, QMI_IDL_OFFSET8 off ''enableCpiUsage'',
       QMI_IDL_TLV_FLAGS_OPTIONAL OR (QMI_IDL_OFFSET8 off ''gnssPositionSessionTimeout'' - QMI_IDL_OFFSET8 off ''gnssPositionSessionTimeout_valid''), 0x14, QMI_IDL_GENERIC_4_BYTE, QMI_IDL_OFFSET8 off ''gnssPositionSessionTimeout'',
       QMI_IDL_TLV_FLAGS_OPTIONAL OR (QMI_IDL_OFFSET8 off ''gnssPositionMaxPuncAcceptable'' - QMI_IDL_OFFSET8 off ''gnssPositionMaxPuncAcceptable_valid''), 0x15, QMI_IDL_GENERIC_4_BYTE, QMI_IDL_OFFSET8 off ''gnssPositionMaxPuncAcceptable'',
       QMI_IDL_TLV_FLAGS_OPTIONAL OR (QMI_IDL_OFFSET8 off ''mediumResponsivenessValue'' - QMI_IDL_OFFSET8 off ''mediumResponsivenessValue_valid''), 0x16, QMI_IDL_GENERIC_4_BYTE, QMI_IDL_OFFSET8 off ''mediumResponsivenessValue'',
       QMI_IDL_TLV_FLAGS_OPTIONAL OR (QMI_IDL_OFFSET8 off ''chalGnssEnvMinCpiWaitInterval'' - QMI_IDL_OFFSET8 off ''chalGnssEnvMinCpiWaitInterval_valid''), 0x17, QMI_IDL_GENERIC_4_BYTE, QMI_IDL_OFFSET8 off ''chalGnssEnvMinCpiWaitInterval'',
       QMI_IDL_TLV_FLAGS_LAST_TLV OR QMI_IDL_TLV_FLAGS_OPTIONAL OR (QMI_IDL_OFFSET8 off ''motionStateInfo'' - QMI_IDL_OFFSET8 off ''motionStateInfo_valid''), 0x18, QMI_IDL_FLAGS_IS_ARRAY OR QMI_IDL_FLAGS_IS_VARIABLE_LEN OR QMI_IDL_AGGREGATE, QMI_IDL_OFFSET8 off ''motionStateInfo'', QMI_LOC_GEOFENCE_MAX_MOTION_STATES_V02, QMI_IDL_OFFSET8 off ''motionStateInfo'' - QMI_IDL_OFFSET8 off ''motionStateInfo_len''] @ QMI_IDL_TYPE88 0 47))"

definition qmiLocSetGeofenceEngineConfigIndMsgT_data_v02 :: "int list" where
  "qmiLocSetGeofenceEngineConfigIndMsgT_data_v02 =
    (let off = offsetof qmiLocSetGeofenceEngineConfigIndMsgT_v02 in uint8_array (
      [0x01, QMI_IDL_GENERIC_4_BYTE, QMI_IDL_OFFSET8 off ''status'',
       QMI_IDL_TLV_FLAGS_LAST_TLV OR QMI_IDL_TLV_FLAGS_OPTIONAL OR (QMI_IDL_OFFSET8 off ''transactionId'' - QMI_IDL_OFFSET8 off ''transactionId_valid''), 0x10, QMI_IDL_GENERIC_4_BYTE, QMI_IDL_OFFSET8 off ''transactionId'']))"

definition qmiLocGetGeofenceEngineConfigReqMsgT_data_v02 :: "int list" where
  "qmiLocGetGeofenceEngineConfigReqMsgT_data_v02 =
    (let off = offsetof qmiLocGetGeofenceEngineConfigReqMsgT_v02 in uint8_array (
      [QMI_IDL_TLV_FLAGS_LAST_TLV OR 0x01, QMI_IDL_GENERIC_4_BYTE, QMI_IDL_OFFSET8 off ''transactionId'']))"

definition qmiLocGetGeofenceEngineConfigIndMsgT_data_v02 :: "int list" where
  "qmiLocGetGeofenceEngineConfigIndMsgT_data_v02 =
    (let off = offsetof qmiLocGetGeofenceEngineConfigIndMsgT_v02 in uint8_array (
      [0x01, QMI_IDL_GENERIC_4_BYTE, QMI_IDL_OFFSET8 off ''status'',
       QMI_IDL_TLV_FLAGS_OPTIONAL OR (QMI_IDL_OFFSET8 off ''transactionId'' - QMI_IDL_OFFSET8 off ''transactionId_valid''), 0x10, QMI_IDL_GENERIC_4_BYTE, QMI_IDL_OFFSET8 off ''transactionId'',
       QMI_IDL_TLV_FLAGS_OPTIONAL OR (QMI_IDL_OFFSET8 off ''gnssUnavailableIndicationTimeout'' - QMI_IDL_OFFSET8 off ''gnssUnavailableIndicationTimeout_valid''), 0x11, QMI_IDL_GENERIC_4_BYTE, QMI_IDL_OFFSET8 off ''gnssUnavailableIndicationTimeout'',
       QMI_IDL_TLV_FLAGS_OPTIONAL OR (QMI_IDL_OFFSET8 off ''maxGeofences'' - QMI_IDL_OFFSET8 off ''maxGeofences_valid''), 0x12, QMI_IDL_GENERIC_4_BYTE, QMI_IDL_OFFSET8 off ''maxGeofences'',
       QMI_IDL_TLV_FLAGS_OPTIONAL OR (QMI_IDL_OFFSET8 off ''enabledMotionDetectionSources'' - QMI_IDL_OFFSET8 off ''enabledMotionDetectionSources_valid''), 0x13, QMI_IDL_GENERIC_4_BYTE, QMI_IDL_OFFSET8 off ''enabledMotionDetectionSources'',
       QMI_IDL_TLV_FLAGS_LAST_TLV OR QMI_IDL_TLV_FLAGS_OPTIONAL OR (QMI_IDL_OFFSET8 off ''enabledCpiUsage'' - QMI_IDL_OFFSET8 off ''enabledCpiUsage_valid''), 0x14, QMI_IDL_GENERIC_1_BYTE, QMI_IDL_OFFSET8 off ''enabledCpiUsage'']))"

definition qmiLocEditGeofenceReqMsgT_data_v02 :: "int list" where
  "qmiLocEditGeofenceReqMsgT_data_v02 =
    (let off = offsetof qmiLocEditGeofenceReqMsgT_v02 in uint8_array (
      [0x01, QMI_IDL_GENERIC_4_BYTE, QMI_IDL_OFFSET8 off ''geofenceId'',
       0x02, QMI_IDL_GENERIC_4_BYTE, QMI_IDL_OFFSET8 off ''transactionId'',
       QMI_IDL_TLV_FLAGS_OPTIONAL OR (QMI_IDL_OFFSET8 off ''geofenceState'' - QMI_IDL_OFFSET8 off ''geofenceState_valid''), 0x10, QMI_IDL_GENERIC_4_BYTE, QMI_IDL_OFFSET8 off ''geofenceState'',
       QMI_IDL_TLV_FLAGS_OPTIONAL OR (QMI_IDL_OFFSET8 off ''breachMask'' - QMI_IDL_OFFSET8 off ''breachMask_valid''), 0x11, QMI_IDL_GENERIC_1_BYTE, QMI_IDL_OFFSET8 off ''breachMask'',
       QMI_IDL_TLV_FLAGS_LAST_TLV OR QMI_IDL_TLV_FLAGS_OPTIONAL OR (QMI_IDL_OFFSET8 off ''responsiveness'' - QMI_IDL_OFFSET8 off ''responsiveness_valid''), 0x12, QMI_IDL_GENERIC_4_BYTE, QMI_IDL_OFFSET8 off ''responsiveness'']))"

definition qmiLocEditGeofenceIndMsgT_data_v02 :: "int list" where
  "qmiLocEditGeofenceIndMsgT_data_v02 =
    (let off = offsetof qmiLocEditGeofenceIndMsgT_v02 in uint8_array (
      [0x01, QMI_IDL_GENERIC_4_BYTE, QMI_IDL_OFFSET8 off ''status'',
       QMI_IDL_TLV_FLAGS_OPTIONAL OR (QMI_IDL_OFFSET8 off ''geofenceId'' - QMI_IDL_OFFSET8 off ''geofenceId_valid''), 0x10, QMI_IDL_GENERIC_4_BYTE, QMI_IDL_OFFSET8 off ''geofenceId'',
       QMI_IDL_TLV_FLAGS_OPTIONAL OR (QMI_IDL_OFFSET8 off ''transactionId'' - QMI_IDL_OFFSET8 off ''transactionId_valid''), 0x11, QMI_IDL_GENERIC_4_BYTE, QMI_IDL_OFFSET8 off ''transactionId'',
       QMI_IDL_TLV_FLAGS_LAST_TLV OR QMI_IDL_TLV_FLAGS_OPTIONAL OR (QMI_IDL_OFFSET8 off ''failedParams'' - QMI_IDL_OFFSET8 off ''failedParams_valid''), 0x12, QMI_IDL_GENERIC_4_BYTE, QMI_IDL_OFFSET8 off ''failedParams'']))"

definition qmiLocEventGetTimeZoneReqIndMsgT_data_v02 :: "int list" where
  "qmiLocEventGetTimeZoneReqIndMsgT_data_v02 =
    (let off = offsetof qmiLocEventGetTimeZoneReqIndMsgT_v02 in uint8_array (
      [QMI_IDL_TLV_FLAGS_LAST_TLV OR 0x01, QMI_IDL_GENERIC_4_BYTE, QMI_IDL_OFFSET8 off ''status'']))"

definition qmiLocInjectTimeZoneInfoReqMsgT_data_v02 :: "int list" where
  "qmiLocInjectTimeZoneInfoReqMsgT_data_v02 =
    (let off = offsetof qmiLocInjectTimeZoneInfoReqMsgT_v02 in uint8_array (
      [0x01, QMI_IDL_GENERIC_8_BYTE, QMI_IDL_OFFSET8 off ''timeUtc'',
       QMI_IDL_TLV_FLAGS_LAST_TLV OR 0x02, QMI_IDL_AGGREGATE, QMI_IDL_OFFSET8 off ''timeZone''] @ QMI_IDL_TYPE88 0 48))"

definition qmiLocInjectTimeZoneInfoIndMsgT_data_v02 :: "int list" where
  "qmiLocInjectTimeZoneInfoIndMsgT_data_v02 =
    (let off = offsetof qmiLocInjectTimeZoneInfoIndMsgT_v02 in uint8_array (
      [QMI_IDL_TLV_FLAGS_LAST_TLV OR 0x01, QMI_IDL_GENERIC_4_BYTE, QMI_IDL_OFFSET8 off ''status'']))"

definition qmiLocGetBestAvailablePositionReqMsgT_data_v02 :: "int list" where
  "qmiLocGetBestAvailablePositionReqMsgT_data_v02 =
    (let off = offsetof qmiLocGetBestAvailablePositionReqMsgT_v02 in uint8_array (
      [0x01, QMI_IDL_GENERIC_4_BYTE, QMI_IDL_OFFSET8 off ''transactionId'',
       QMI_IDL_TLV_FLAGS_LAST_TLV OR QMI_IDL_TLV_FLAGS_OPTIONAL OR (QMI_IDL_OFFSET8 off ''specialReqType'' - QMI_IDL_OFFSET8 off ''specialReqType_valid''), 0x10, QMI_IDL_GENERIC_4_BYTE, QMI_IDL_OFFSET8 off ''specialReqType'']))"

definition qmiLocGetBestAvailablePositionIndMsgT_data_v02 :: "int list" where
  "qmiLocGetBestAvailablePositionIndMsgT_data_v02 =
    (let off = offsetof qmiLocGetBestAvailablePositionIndMsgT_v02 in uint8_array (
      [0x01, QMI_IDL_GENERIC_4_BYTE, QMI_IDL_OFFSET8 off ''status'',
       QMI_IDL_TLV_FLAGS_OPTIONAL OR (QMI_IDL_OFFSET8 off ''transactionId'' - QMI_IDL_OFFSET8 off ''transactionId_valid''), 0x10, QMI_IDL_GENERIC_4_BYTE, QMI_IDL_OFFSET8 off ''transactionId'',
       QMI_IDL_TLV_FLAGS_OPTIONAL OR (QMI_IDL_OFFSET8 off ''latitude'' - QMI_IDL_OFFSET8 off ''latitude_valid''), 0x11, QMI_IDL_GENERIC_8_BYTE, QMI_IDL_OFFSET8 off ''latitude'',
       QMI_IDL_TLV_FLAGS_OPTIONAL OR (QMI_IDL_OFFSET8 off ''longitude'' - QMI_IDL_OFFSET8 off ''longitude_valid''), 0x12, QMI_IDL_GENERIC_8_BYTE, QMI_IDL_OFFSET8 off ''longitude'',
       QMI_IDL_TLV_FLAGS_OPTIONAL OR (QMI_IDL_OFFSET8 off ''horUncCircular'' - QMI_IDL_OFFSET8 off ''horUncCircular_valid''), 0x13, QMI_IDL_GENERIC_4_BYTE, QMI_IDL_OFFSET8 off ''horUncCircular'',
       QMI_IDL_TLV_FLAGS_OPTIONAL OR (QMI_IDL_OFFSET8 off ''altitudeWrtEllipsoid'' - QMI_IDL_OFFSET8 off ''altitudeWrtEllipsoid_valid''), 0x14, QMI_IDL_GENERIC_4_BYTE, QMI_IDL_OFFSET8 off ''altitudeWrtEllipsoid'',
       QMI_IDL_TLV_FLAGS_OPTIONAL OR (QMI_IDL_OFFSET8 off ''vertUnc'' - QMI_IDL_OFFSET8 off ''vertUnc_valid''), 0x15, QMI_IDL_GENERIC_4_BYTE, QMI_IDL_OFFSET8 off ''vertUnc'',
       QMI_IDL_TLV_FLAGS_OPTIONAL OR (QMI_IDL_OFFSET8 off ''timestampUtc'' - QMI_IDL_OFFSET8 off ''timestampUtc_valid''), 0x16, QMI_IDL_GENERIC_8_BYTE, QMI_IDL_OFFSET8 off ''timestampUtc'',
       QMI_IDL_TLV_FLAGS_OPTIONAL OR (QMI_IDL_OFFSET8 off ''timeUnc'' - QMI_IDL_OFFSET8 off ''timeUnc_valid''), 0x17, QMI_IDL_GENERIC_4_BYTE, QMI_IDL_OFFSET8 off ''timeUnc'',
       QMI_IDL_TLV_FLAGS_OPTIONAL OR (QMI_IDL_OFFSET8 off ''horUncEllipseSemiMinor'' - QMI_IDL_OFFSET8 off ''horUncEllipseSemiMinor_valid''), 0x18, QMI_IDL_GENERIC_4_BYTE, QMI_IDL_OFFSET8 off ''horUncEllipseSemiMinor'',
       QMI_IDL_TLV_FLAGS_OPTIONAL OR (QMI_IDL_OFFSET8 off ''horUncEllipseSemiMajor'' - QMI_IDL_OFFSET8 off ''horUncEllipseSemiMajor_valid''), 0x19, QMI_IDL_GENERIC_4_BYTE, QMI_IDL_OFFSET8 off ''horUncEllipseSemiMajor'',
       QMI_IDL_TLV_FLAGS_OPTIONAL OR (QMI_IDL_OFFSET8 off ''horUncEllipseOrientAzimuth'' - QMI_IDL_OFFSET8 off ''horUncEllipseOrientAzimuth_valid''), 0x1A, QMI_IDL_GENERIC_4_BYTE, QMI_IDL_OFFSET8 off ''horUncEllipseOrientAzimuth'',
       QMI_IDL_TLV_FLAGS_OPTIONAL OR (QMI_IDL_OFFSET8 off ''horCircularConfidence'' - QMI_IDL_OFFSET8 off ''horCircularConfidence_valid''), 0x1B, QMI_IDL_GENERIC_1_BYTE, QMI_IDL_OFFSET8 off ''horCircularConfidence'',
       QMI_IDL_TLV_FLAGS_OPTIONAL OR (QMI_IDL_OFFSET8 off ''horEllipticalConfidence'' - QMI_IDL_OFFSET8 off ''horEllipticalConfidence_valid''), 0x1C, QMI_IDL_GENERIC_1_BYTE, QMI_IDL_OFFSET8 off ''horEllipticalConfidence'',
       QMI_IDL_TLV_FLAGS_OPTIONAL OR (QMI_IDL_OFFSET8 off ''horReliability'' - QMI_IDL_OFFSET8 off ''horReliability_valid''), 0x1D, QMI_IDL_GENERIC_4_BYTE, QMI_IDL_OFFSET8 off ''horReliability'',
       QMI_IDL_TLV_FLAGS_OPTIONAL OR (QMI_IDL_OFFSET8 off ''horSpeed'' - QMI_IDL_OFFSET8 off ''horSpeed_valid''), 0x1E, QMI_IDL_GENERIC_4_BYTE, QMI_IDL_OFFSET8 off ''horSpeed'',
       QMI_IDL_TLV_FLAGS_OPTIONAL OR (QMI_IDL_OFFSET8 off ''horSpeedUnc'' - QMI_IDL_OFFSET8 off ''horSpeedUnc_valid''), 0x1F, QMI_IDL_GENERIC_4_BYTE, QMI_IDL_OFFSET8 off ''horSpeedUnc'',
       QMI_IDL_TLV_FLAGS_OPTIONAL OR (QMI_IDL_OFFSET8 off ''altitudeWrtMeanSeaLevel'' - QMI_IDL_OFFSET8 off ''altitudeWrtMeanSeaLevel_valid''), 0x20, QMI_IDL_GENERIC_4_BYTE, QMI_IDL_OFFSET8 off ''altitudeWrtMeanSeaLevel'',
       QMI_IDL_TLV_FLAGS_OPTIONAL OR (QMI_IDL_OFFSET8 off ''vertConfidence'' - QMI_IDL_OFFSET8 off ''vertConfidence_valid''), 0x21, QMI_IDL_GENERIC_1_BYTE, QMI_IDL_OFFSET8 off ''vertConfidence'',
       QMI_IDL_TLV_FLAGS_OPTIONAL OR (QMI_IDL_OFFSET8 off ''vertReliability'' - QMI_IDL_OFFSET8 off ''vertReliability_valid''), 0x22, QMI_IDL_GENERIC_4_BYTE, QMI_IDL_OFFSET8 off ''vertReliability'',
       QMI_IDL_TLV_FLAGS_OPTIONAL OR (QMI_IDL_OFFSET8 off ''vertSpeed'' - QMI_IDL_OFFSET8 off ''vertSpeed_valid''), 0x23, QMI_IDL_GENERIC_4_BYTE, QMI_IDL_OFFSET8 off ''vertSpeed'',
       QMI_IDL_TLV_FLAGS_OPTIONAL OR (QMI_IDL_OFFSET8 off ''vertSpeedUnc'' - QMI_IDL_OFFSET8 off ''vertSpeedUnc_valid''), 0x24, QMI_IDL_GENERIC_4_BYTE, QMI_IDL_OFFSET8 off ''vertSpeedUnc'',
       QMI_IDL_TLV_FLAGS_OPTIONAL OR (QMI_IDL_OFFSET8 off ''heading'' - QMI_IDL_OFFSET8 off ''heading_valid''), 0x25, QMI_IDL_GENERIC_4_BYTE, QMI_IDL_OFFSET8 off ''heading'',
       QMI_IDL_TLV_FLAGS_OPTIONAL OR (QMI_IDL_OFFSET8 off ''headingUnc'' - QMI_IDL_OFFSET8 off ''headingUnc_valid''), 0x26, QMI_IDL_GENERIC_4_BYTE, QMI_IDL_OFFSET8 off ''headingUnc'',
       QMI_IDL_TLV_FLAGS_OPTIONAL OR (QMI_IDL_OFFSET8 off ''magneticDeviation'' - QMI_IDL_OFFSET8 off ''magneticDeviation_valid''), 0x27, QMI_IDL_GENERIC_4_BYTE, QMI_IDL_OFFSET8 off ''magneticDeviation'',
       QMI_IDL_TLV_FLAGS_OPTIONAL OR (QMI_IDL_OFFSET8 off ''technologyMask'' - QMI_IDL_OFFSET8 off ''technologyMask_valid''), 0x28, QMI_IDL_GENERIC_4_BYTE, QMI_IDL_OFFSET8 off ''technologyMask'',
       QMI_IDL_TLV_FLAGS_OPTIONAL OR (QMI_IDL_OFFSET8 off ''DOP'' - QMI_IDL_OFFSET8 off ''DOP_valid''), 0x29, QMI_IDL_AGGREGATE, QMI_IDL_OFFSET8 off ''DOP''] @ QMI_IDL_TYPE88 0 3 @
      [QMI_IDL_TLV_FLAGS_OPTIONAL OR (QMI_IDL_OFFSET16RELATIVE off ''gpsTime'' - QMI_IDL_OFFSET16RELATIVE off ''gpsTime_valid''), 0x2A, QMI_IDL_FLAGS_OFFSET_IS_16 OR QMI_IDL_AGGREGATE] @ QMI_IDL_OFFSET16ARRAY off ''gpsTime'' @ QMI_IDL_TYPE88 0 2 @
      [QMI_IDL_TLV_FLAGS_OPTIONAL OR (QMI_IDL_OFFSET16RELATIVE off ''timeSrc'' - QMI_IDL_OFFSET16RELATIVE off ''timeSrc_valid''), 0x2B, QMI_IDL_FLAGS_OFFSET_IS_16 OR QMI_IDL_GENERIC_4_BYTE] @ QMI_IDL_OFFSET16ARRAY off ''timeSrc'' @
      [QMI_IDL_TLV_FLAGS_OPTIONAL OR (QMI_IDL_OFFSET16RELATIVE off ''sensorDataUsage'' - QMI_IDL_OFFSET16RELATIVE off ''sensorDataUsage_valid''), 0x2C, QMI_IDL_FLAGS_OFFSET_IS_16 OR QMI_IDL_AGGREGATE] @ QMI_IDL_OFFSET16ARRAY off ''sensorDataUsage'' @ QMI_IDL_TYPE88 0 5 @
      [QMI_IDL_TLV_FLAGS_OPTIONAL OR (QMI_IDL_OFFSET16RELATIVE off ''gnssSvUsedList'' - QMI_IDL_OFFSET16RELATIVE off ''gnssSvUsedList_valid''), 0x2D, QMI_IDL_FLAGS_IS_ARRAY OR QMI_IDL_FLAGS_IS_VARIABLE_LEN OR QMI_IDL_FLAGS_OFFSET_IS_16 OR QMI_IDL_GENERIC_2_BYTE] @ QMI_IDL_OFFSET16ARRAY off ''gnssSvUsedList'' @
      [QMI_LOC_MAX_SV_USED_LIST_LENGTH_V02, QMI_IDL_OFFSET16RELATIVE off ''gnssSvUsedList'' - QMI_IDL_OFFSET16RELATIVE off ''gnssSvUsedList_len'',
       QMI_IDL_TLV_FLAGS_OPTIONAL OR (QMI_IDL_OFFSET16RELATIVE off ''extDOP'' - QMI_IDL_OFFSET16RELATIVE off ''extDOP_valid''), 0x2E, QMI_IDL_FLAGS_OFFSET_IS_16 OR QMI_IDL_AGGREGATE] @ QMI_IDL_OFFSET16ARRAY off ''extDOP'' @ QMI_IDL_TYPE88 0 4 @
      [QMI_IDL_TLV_FLAGS_OPTIONAL OR (QMI_IDL_OFFSET16RELATIVE off ''spoofReportMask'' - QMI_IDL_OFFSET16RELATIVE off ''spoofReportMask_valid''), 0x2F, QMI_IDL_FLAGS_OFFSET_IS_16 OR QMI_IDL_GENERIC_8_BYTE] @ QMI_IDL_OFFSET16ARRAY off ''spoofReportMask'' @
      [QMI_IDL_TLV_FLAGS_OPTIONAL OR (QMI_IDL_OFFSET16RELATIVE off ''expandedGnssSvUsedList'' - QMI_IDL_OFFSET16RELATIVE off ''expandedGnssSvUsedList_valid''), 0x30, QMI_IDL_FLAGS_IS_ARRAY OR QMI_IDL_FLAGS_IS_VARIABLE_LEN OR QMI_IDL_FLAGS_OFFSET_IS_16 OR QMI_IDL_GENERIC_2_BYTE] @ QMI_IDL_OFFSET16ARRAY off ''expandedGnssSvUsedList'' @
      [QMI_LOC_EXPANDED_SV_INFO_LIST_MAX_SIZE_V02, QMI_IDL_OFFSET16RELATIVE off ''expandedGnssSvUsedList'' - QMI_IDL_OFFSET16RELATIVE off ''expandedGnssSvUsedList_len'',
       QMI_IDL_TLV_FLAGS_OPTIONAL OR (QMI_IDL_OFFSET16RELATIVE off ''gnssSvUsedSignalTypeList'' - QMI_IDL_OFFSET16RELATIVE off ''gnssSvUsedSignalTypeList_valid''), 0x31, QMI_IDL_FLAGS_IS_ARRAY OR QMI_IDL_FLAGS_IS_VARIABLE_LEN OR QMI_IDL_FLAGS_OFFSET_IS_16 OR QMI_IDL_GENERIC_8_BYTE] @ QMI_IDL_OFFSET16ARRAY off ''gnssSvUsedSignalTypeList'' @
      [QMI_LOC_EXPANDED_SV_INFO_LIST_MAX_SIZE_V02, QMI_IDL_OFFSET16RELATIVE off ''gnssSvUsedSignalTypeList'' - QMI_IDL_OFFSET16RELATIVE off ''gnssSvUsedSignalTypeList_len'',
       QMI_IDL_TLV_FLAGS_OPTIONAL OR (QMI_IDL_OFFSET16RELATIVE off ''conformityIndex'' - QMI_IDL_OFFSET16RELATIVE off ''conformityIndex_valid''), 0x32, QMI_IDL_FLAGS_OFFSET_IS_16 OR QMI_IDL_GENERIC_4_BYTE] @ QMI_IDL_OFFSET16ARRAY off ''conformityIndex'' @
      [QMI_IDL_TLV_FLAGS_LAST_TLV OR QMI_IDL_TLV_FLAGS_OPTIONAL OR (QMI_IDL_OFFSET16RELATIVE off ''gnssTime'' - QMI_IDL_OFFSET16RELATIVE off ''gnssTime_valid''), 0x33, QMI_IDL_FLAGS_OFFSET_IS_16 OR QMI_IDL_AGGREGATE] @ QMI_IDL_OFFSET16ARRAY off ''gnssTime'' @ QMI_IDL_TYPE88 0 8))"

definition qmiLocInjectMotionDataReqMsgT_data_v02 :: "int list" where
  "qmiLocInjectMotionDataReqMsgT_data_v02 =
    (let off = offsetof qmiLocInjectMotionDataReqMsgT_v02 in uint8_array (
      [QMI_IDL_TLV_FLAGS_LAST_TLV OR 0x01, QMI_IDL_AGGREGATE, QMI_IDL_OFFSET8 off ''motion_data''] @ QMI_IDL_TYPE88 0 49))"

definition qmiLocInjectMotionDataIndMsgT_data_v02 :: "int list" where
  "qmiLocInjectMotionDataIndMsgT_data_v02 =
    (let off = offsetof qmiLocInjectMotionDataIndMsgT_v02 in uint8_array (
      [QMI_IDL_TLV_FLAGS_LAST_TLV OR 0x01, QMI_IDL_GENERIC_4_BYTE, QMI_IDL_OFFSET8 off ''status'']))"

definition qmiLocGetNiGeofenceIdListReqMsgT_data_v02 :: "int list" where
  "qmiLocGetNiGeofenceIdListReqMsgT_data_v02 =
    (let off = offsetof qmiLocGetNiGeofenceIdListReqMsgT_v02 in uint8_array (
      [QMI_IDL_TLV_FLAGS_LAST_TLV OR 0x01, QMI_IDL_GENERIC_4_BYTE, QMI_IDL_OFFSET8 off ''transactionId'']))"

definition qmiLocGetNiGeofenceIdListIndMsgT_data_v02 :: "int list" where
  "qmiLocGetNiGeofenceIdListIndMsgT_data_v02 =
    (let off = offsetof qmiLocGetNiGeofenceIdListIndMsgT_v02 in uint8_array (
      [0x01, QMI_IDL_GENERIC_4_BYTE, QMI_IDL_OFFSET8 off ''status'',
       QMI_IDL_TLV_FLAGS_OPTIONAL OR (QMI_IDL_OFFSET8 off ''transactionId'' - QMI_IDL_OFFSET8 off ''transactionId_valid''), 0x10, QMI_IDL_GENERIC_4_BYTE, QMI_IDL_OFFSET8 off ''transactionId'',
       QMI_IDL_TLV_FLAGS_LAST_TLV OR QMI_IDL_TLV_FLAGS_OPTIONAL OR (QMI_IDL_OFFSET8 off ''niGeofenceIdList'' - QMI_IDL_OFFSET8 off ''niGeofenceIdList_valid''), 0x11, QMI_IDL_FLAGS_IS_ARRAY OR QMI_IDL_FLAGS_IS_VARIABLE_LEN OR QMI_IDL_GENERIC_4_BYTE, QMI_IDL_OFFSET8 off ''niGeofenceIdList'', QMI_LOC_MAX_NI_GEOFENCE_ID_LIST_LENGTH_V02, QMI_IDL_OFFSET8 off ''niGeofenceIdList'' - QMI_IDL_OFFSET8 off ''niGeofenceIdList_len'']))"

definition qmiLocInjectGSMCellInfoReqMsgT_data_v02 :: "int list" where
  "qmiLocInjectGSMCellInfoReqMsgT_data_v02 =
    (let off = offsetof qmiLocInjectGSMCellInfoReqMsgT_v02 in uint8_array (
      [0x01, QMI_IDL_AGGREGATE, QMI_IDL_OFFSET8 off ''gsmCellId''] @ QMI_IDL_TYPE88 0 50 @
      [0x02, QMI_IDL_GENERIC_1_BYTE, QMI_IDL_OFFSET8 off ''roamingStatus'',
       QMI_IDL_TLV_FLAGS_LAST_TLV OR QMI_IDL_TLV_FLAGS_OPTIONAL OR (QMI_IDL_OFFSET8 off ''timingAdvance'' - QMI_IDL_OFFSET8 off ''timingAdvance_valid''), 0x10, QMI_IDL_GENERIC_4_BYTE, QMI_IDL_OFFSET8 off ''timingAdvance'']))"

definition qmiLocInjectGSMCellInfoIndMsgT_data_v02 :: "int list" where
  "qmiLocInjectGSMCellInfoIndMsgT_data_v02 =
    (let off = offsetof qmiLocInjectGSMCellInfoIndMsgT_v02 in uint8_array (
      [QMI_IDL_TLV_FLAGS_LAST_TLV OR 0x01, QMI_IDL_GENERIC_4_BYTE, QMI_IDL_OFFSET8 off ''status'']))"

definition qmiLocInjectWCDMACellInfoReqMsgT_data_v02 :: "int list" where
  "qmiLocInjectWCDMACellInfoReqMsgT_data_v02 =
    (let off = offsetof qmiLocInjectWCDMACellInfoReqMsgT_v02 in uint8_array (
      [0x01, QMI_IDL_AGGREGATE, QMI_IDL_OFFSET8 off ''wcdmaCellId''] @ QMI_IDL_TYPE88 0 51 @
      [0x02, QMI_IDL_GENERIC_4_BYTE, QMI_IDL_OFFSET8 off ''roamingStatus'',
       QMI_IDL_TLV_FLAGS_OPTIONAL OR (QMI_IDL_OFFSET8 off ''freq'' - QMI_IDL_OFFSET8 off ''freq_valid''), 0x10, QMI_IDL_GENERIC_4_BYTE, QMI_IDL_OFFSET8 off ''freq'',
       QMI_IDL_TLV_FLAGS_LAST_TLV OR QMI_IDL_TLV_FLAGS_OPTIONAL OR (QMI_IDL_OFFSET8 off ''psc'' - QMI_IDL_OFFSET8 off ''psc_valid''), 0x11, QMI_IDL_GENERIC_4_BYTE, QMI_IDL_OFFSET8 off ''psc'']))"

definition qmiLocInjectWCDMACellInfoIndMsgT_data_v02 :: "int list" where
  "qmiLocInjectWCDMACellInfoIndMsgT_data_v02 =
    (let off = offsetof qmiLocInjectWCDMACellInfoIndMsgT_v02 in uint8_array (
      [QMI_IDL_TLV_FLAGS_LAST_TLV OR 0x01, QMI_IDL_GENERIC_4_BYTE, QMI_IDL_OFFSET8 off ''status'']))"

definition qmiLocInjectTDSCDMACellInfoReqMsgT_data_v02 :: "int list" where
  "qmiLocInjectTDSCDMACellInfoReqMsgT_data_v02 =
    (let off = offsetof qmiLocInjectTDSCDMACellInfoReqMsgT_v02 in uint8_array (
      [0x01, QMI_IDL_AGGREGATE, QMI_IDL_OFFSET8 off ''tdscdmaCellId''] @ QMI_IDL_TYPE88 0 52 @
      [0x02, QMI_IDL_GENERIC_4_BYTE, QMI_IDL_OFFSET8 off ''roamingStatus'',
       QMI_IDL_TLV_FLAGS_LAST_TLV OR QMI_IDL_TLV_FLAGS_OPTIONAL OR (QMI_IDL_OFFSET8 off ''freq'' - QMI_IDL_OFFSET8 off ''freq_valid''), 0x10, QMI_IDL_GENERIC_4_BYTE, QMI_IDL_OFFSET8 off ''freq'']))"

definition qmiLocInjectTDSCDMACellInfoIndMsgT_data_v02 :: "int list" where
  "qmiLocInjectTDSCDMACellInfoIndMsgT_data_v02 =
    (let off = offsetof qmiLocInjectTDSCDMACellInfoIndMsgT_v02 in uint8_array (
      [QMI_IDL_TLV_FLAGS_LAST_TLV OR 0x01, QMI_IDL_GENERIC_4_BYTE, QMI_IDL_OFFSET8 off ''status'']))"

definition qmiLocInjectSubscriberIDReqMsgT_data_v02 :: "int list" where
  "qmiLocInjectSubscriberIDReqMsgT_data_v02 =
    (let off = offsetof qmiLocInjectSubscriberIDReqMsgT_v02 in uint8_array (
      [QMI_IDL_TLV_FLAGS_OPTIONAL OR (QMI_IDL_OFFSET8 off ''preferredIMSI'' - QMI_IDL_OFFSET8 off ''preferredIMSI_valid''), 0x10, QMI_IDL_GENERIC_8_BYTE, QMI_IDL_OFFSET8 off ''preferredIMSI'',
       QMI_IDL_TLV_FLAGS_LAST_TLV OR QMI_IDL_TLV_FLAGS_OPTIONAL OR (QMI_IDL_OFFSET8 off ''preferredMSISDN'' - QMI_IDL_OFFSET8 off ''preferredMSISDN_valid''), 0x11, QMI_IDL_GENERIC_8_BYTE, QMI_IDL_OFFSET8 off ''preferredMSISDN'']))"

definition qmiLocInjectSubscriberIDIndMsgT_data_v02 :: "int list" where
  "qmiLocInjectSubscriberIDIndMsgT_data_v02 =
    (let off = offsetof qmiLocInjectSubscriberIDIndMsgT_v02 in uint8_array (
      [QMI_IDL_TLV_FLAGS_LAST_TLV OR 0x01, QMI_IDL_GENERIC_4_BYTE, QMI_IDL_OFFSET8 off ''status'']))"

definition qmiLocInjectNetworkInitiatedMessageReqMsgT_data_v02 :: "int list" where
  "qmiLocInjectNetworkInitiatedMessageReqMsgT_data_v02 =
    (let off = offsetof qmiLocInjectNetworkInitiatedMessageReqMsgT_v02 in uint8_array (
      [0x01, QMI_IDL_GENERIC_4_BYTE, QMI_IDL_OFFSET8 off ''injectedNIMessageType'',
       0x02, QMI_IDL_FLAGS_IS_ARRAY OR QMI_IDL_FLAGS_IS_VARIABLE_LEN OR QMI_IDL_FLAGS_SZ_IS_16 OR QMI_IDL_GENERIC_1_BYTE, QMI_IDL_OFFSET8 off ''injectedNIMessage'', QMI_LOC_MAX_INJECTED_NETWORK_INITIATED_MESSAGE_LENGTH_V02 AND 0xFF, drop_bit 8 QMI_LOC_MAX_INJECTED_NETWORK_INITIATED_MESSAGE_LENGTH_V02, QMI_IDL_OFFSET8 off ''injectedNIMessage'' - QMI_IDL_OFFSET8 off ''injectedNIMessage_len'',
       QMI_IDL_TLV_FLAGS_LAST_TLV OR QMI_IDL_TLV_FLAGS_OPTIONAL OR (QMI_IDL_OFFSET16RELATIVE off ''subId'' - QMI_IDL_OFFSET16RELATIVE off ''subId_valid''), 0x10, QMI_IDL_FLAGS_OFFSET_IS_16 OR QMI_IDL_GENERIC_4_BYTE] @ QMI_IDL_OFFSET16ARRAY off ''subId''))"

definition qmiLocInjectNetworkInitiatedMessageIndMsgT_data_v02 :: "int list" where
  "qmiLocInjectNetworkInitiatedMessageIndMsgT_data_v02 =
    (let off = offsetof qmiLocInjectNetworkInitiatedMessageIndMsgT_v02 in uint8_array (
      [QMI_IDL_TLV_FLAGS_LAST_TLV OR 0x01, QMI_IDL_GENERIC_4_BYTE, QMI_IDL_OFFSET8 off ''status'']))"

definition qmiLocWWANOutOfServiceNotificationIndMsgT_data_v02 :: "int list" where
  "qmiLocWWANOutOfServiceNotificationIndMsgT_data_v02 =
    (let off = offsetof qmiLocWWANOutOfServiceNotificationIndMsgT_v02 in uint8_array (
      [QMI_IDL_TLV_FLAGS_LAST_TLV OR 0x01, QMI_IDL_GENERIC_4_BYTE, QMI_IDL_OFFSET8 off ''status'']))"

definition qmiLocPedometerReportReqMsgT_data_v02 :: "int list" where
  "qmiLocPedometerReportReqMsgT_data_v02 =
    (let off = offsetof qmiLocPedometerReportReqMsgT_v02 in uint8_array (
      [0x01, QMI_IDL_GENERIC_4_BYTE, QMI_IDL_OFFSET8 off ''timeSource'',
       0x02, QMI_IDL_GENERIC_4_BYTE, QMI_IDL_OFFSET8 off ''timestamp'',
       0x03, QMI_IDL_GENERIC_4_BYTE, QMI_IDL_OFFSET8 off ''timeInterval'',
       0x04, QMI_IDL_GENERIC_4_BYTE, QMI_IDL_OFFSET8 off ''stepCount'',
       QMI_IDL_TLV_FLAGS_OPTIONAL OR (QMI_IDL_OFFSET8 off ''stepConfidence'' - QMI_IDL_OFFSET8 off ''stepConfidence_valid''), 0x10, QMI_IDL_GENERIC_1_BYTE, QMI_IDL_OFFSET8 off ''stepConfidence'',
       QMI_IDL_TLV_FLAGS_OPTIONAL OR (QMI_IDL_OFFSET8 off ''stepCountUncertainty'' - QMI_IDL_OFFSET8 off ''stepCountUncertainty_valid''), 0x11, QMI_IDL_GENERIC_4_BYTE, QMI_IDL_OFFSET8 off ''stepCountUncertainty'',
       QMI_IDL_TLV_FLAGS_LAST_TLV OR QMI_IDL_TLV_FLAGS_OPTIONAL OR (QMI_IDL_OFFSET8 off ''stepRate'' - QMI_IDL_OFFSET8 off ''stepRate_valid''), 0x12, QMI_IDL_GENERIC_4_BYTE, QMI_IDL_OFFSET8 off ''stepRate'']))"

definition qmiLocPedometerReportIndMsgT_data_v02 :: "int list" where
  "qmiLocPedometerReportIndMsgT_data_v02 =
    (let off = offsetof qmiLocPedometerReportIndMsgT_v02 in uint8_array (
      [QMI_IDL_TLV_FLAGS_LAST_TLV OR 0x01, QMI_IDL_GENERIC_4_BYTE, QMI_IDL_OFFSET8 off ''status'']))"

definition qmiLocGetBatchSizeReqMsgT_data_v02 :: "int list" where
  "qmiLocGetBatchSizeReqMsgT_data_v02 =
    (let off = offsetof qmiLocGetBatchSizeReqMsgT_v02 in uint8_array (
      [0x01, QMI_IDL_GENERIC_4_BYTE, QMI_IDL_OFFSET8 off ''transactionId'',
       0x02, QMI_IDL_GENERIC_4_BYTE, QMI_IDL_OFFSET8 off ''batchSize'',
       QMI_IDL_TLV_FLAGS_LAST_TLV OR QMI_IDL_TLV_FLAGS_OPTIONAL OR (QMI_IDL_OFFSET8 off ''batchType'' - QMI_IDL_OFFSET8 off ''batchType_valid''), 0x10, QMI_IDL_GENERIC_4_BYTE, QMI_IDL_OFFSET8 off ''batchType'']))"

definition qmiLocGetBatchSizeIndMsgT_data_v02 :: "int list" where
  "qmiLocGetBatchSizeIndMsgT_data_v02 =
    (let off = offsetof qmiLocGetBatchSizeIndMsgT_v02 in uint8_array (
      [0x01, QMI_IDL_GENERIC_4_BYTE, QMI_IDL_OFFSET8 off ''status'',
       0x02, QMI_IDL_GENERIC_4_BYTE, QMI_IDL_OFFSET8 off ''transactionId'',
       QMI_IDL_TLV_FLAGS_LAST_TLV OR 0x03, QMI_IDL_GENERIC_4_BYTE, QMI_IDL_OFFSET8 off ''batchSize'']))"

definition qmiLocStartBatchingReqMsgT_data_v02 :: "int list" where
  "qmiLocStartBatchingReqMsgT_data_v02 =
    (let off = offsetof qmiLocStartBatchingReqMsgT_v02 in uint8_array (
      [QMI_IDL_TLV_FLAGS_OPTIONAL OR (QMI_IDL_OFFSET8 off ''minInterval'' - QMI_IDL_OFFSET8 off ''minInterval_valid''), 0x10, QMI_IDL_GENERIC_4_BYTE, QMI_IDL_OFFSET8 off ''minInterval'',
       QMI_IDL_TLV_FLAGS_OPTIONAL OR (QMI_IDL_OFFSET8 off ''horizontalAccuracyLevel'' - QMI_IDL_OFFSET8 off ''horizontalAccuracyLevel_valid''), 0x11, QMI_IDL_GENERIC_4_BYTE, QMI_IDL_OFFSET8 off ''horizontalAccuracyLevel'',
       QMI_IDL_TLV_FLAGS_OPTIONAL OR (QMI_IDL_OFFSET8 off ''fixSessionTimeout'' - QMI_IDL_OFFSET8 off ''fixSessionTimeout_valid''), 0x12, QMI_IDL_GENERIC_4_BYTE, QMI_IDL_OFFSET8 off ''fixSessionTimeout'',
       QMI_IDL_TLV_FLAGS_OPTIONAL OR (QMI_IDL_OFFSET8 off ''minDistance'' - QMI_IDL_OFFSET8 off ''minDistance_valid''), 0x13, QMI_IDL_GENERIC_4_BYTE, QMI_IDL_OFFSET8 off ''minDistance'',
       QMI_IDL_TLV_FLAGS_OPTIONAL OR (QMI_IDL_OFFSET8 off ''batchAllPos'' - QMI_IDL_OFFSET8 off ''batchAllPos_valid''), 0x14, QMI_IDL_GENERIC_1_BYTE, QMI_IDL_OFFSET8 off ''batchAllPos'',
       QMI_IDL_TLV_FLAGS_LAST_TLV OR QMI_IDL_TLV_FLAGS_OPTIONAL OR (QMI_IDL_OFFSET8 off ''requestId'' - QMI_IDL_OFFSET8 off ''requestId_valid''), 0x15, QMI_IDL_GENERIC_4_BYTE, QMI_IDL_OFFSET8 off ''requestId'']))"

definition qmiLocStartBatchingIndMsgT_data_v02 :: "int list" where
  "qmiLocStartBatchingIndMsgT_data_v02 =
    (let off = offsetof qmiLocStartBatchingIndMsgT_v02 in uint8_array (
      [0x01, QMI_IDL_GENERIC_4_BYTE, QMI_IDL_OFFSET8 off ''status'',
       QMI_IDL_TLV_FLAGS_LAST_TLV OR QMI_IDL_TLV_FLAGS_OPTIONAL OR (QMI_IDL_OFFSET8 off ''requestId'' - QMI_IDL_OFFSET8 off ''requestId_valid''), 0x10, QMI_IDL_GENERIC_4_BYTE, QMI_IDL_OFFSET8 off ''requestId'']))"

definition loc_message_table_v02_4 :: "qmi_idl_message_table_entry list" where
  "loc_message_table_v02_4 = [
    (qmiLocSetGeofenceEngineConfigReqMsgT_v02, Some qmiLocSetGeofenceEngineConfigReqMsgT_data_v02),
    (qmiLocSetGeofenceEngineConfigIndMsgT_v02, Some qmiLocSetGeofenceEngineConfigIndMsgT_data_v02),
    (qmiLocGetGeofenceEngineConfigReqMsgT_v02, Some qmiLocGetGeofenceEngineConfigReqMsgT_data_v02),
    (qmiLocGetGeofenceEngineConfigIndMsgT_v02, Some qmiLocGetGeofenceEngineConfigIndMsgT_data_v02),
    (qmiLocEditGeofenceReqMsgT_v02, Some qmiLocEditGeofenceReqMsgT_data_v02),
    (qmiLocEditGeofenceIndMsgT_v02, Some qmiLocEditGeofenceIndMsgT_data_v02),
    (qmiLocEventGetTimeZoneReqIndMsgT_v02, Some qmiLocEventGetTimeZoneReqIndMsgT_data_v02),
    (qmiLocInjectTimeZoneInfoReqMsgT_v02, Some qmiLocInjectTimeZoneInfoReqMsgT_data_v02),
    (qmiLocInjectTimeZoneInfoIndMsgT_v02, Some qmiLocInjectTimeZoneInfoIndMsgT_data_v02),
    (qmiLocGetBestAvailablePositionReqMsgT_v02, Some qmiLocGetBestAvailablePositionReqMsgT_data_v02),
    (qmiLocGetBestAvailablePositionIndMsgT_v02, Some qmiLocGetBestAvailablePositionIndMsgT_data_v02),
    (qmiLocInjectMotionDataReqMsgT_v02, Some qmiLocInjectMotionDataReqMsgT_data_v02),
    (qmiLocInjectMotionDataIndMsgT_v02, Some qmiLocInjectMotionDataIndMsgT_data_v02),
    (qmiLocGetNiGeofenceIdListReqMsgT_v02, Some qmiLocGetNiGeofenceIdListReqMsgT_data_v02),
    (qmiLocGetNiGeofenceIdListIndMsgT_v02, Some qmiLocGetNiGeofenceIdListIndMsgT_data_v02),
    (qmiLocInjectGSMCellInfoReqMsgT_v02, Some qmiLocInjectGSMCellInfoReqMsgT_data_v02),
    (qmiLocInjectGSMCellInfoIndMsgT_v02, Some qmiLocInjectGSMCellInfoIndMsgT_data_v02),
    (qmiLocInjectWCDMACellInfoReqMsgT_v02, Some qmiLocInjectWCDMACellInfoReqMsgT_data_v02),
    (qmiLocInjectWCDMACellInfoIndMsgT_v02, Some qmiLocInjectWCDMACellInfoIndMsgT_data_v02),
    (qmiLocInjectTDSCDMACellInfoReqMsgT_v02, Some qmiLocInjectTDSCDMACellInfoReqMsgT_data_v02),
    (qmiLocInjectTDSCDMACellInfoIndMsgT_v02, Some qmiLocInjectTDSCDMACellInfoIndMsgT_data_v02),
    (qmiLocInjectSubscriberIDReqMsgT_v02, Some qmiLocInjectSubscriberIDReqMsgT_data_v02),
    (qmiLocInjectSubscriberIDIndMsgT_v02, Some qmiLocInjectSubscriberIDIndMsgT_data_v02),
    (qmiLocInjectNetworkInitiatedMessageReqMsgT_v02, Some qmiLocInjectNetworkInitiatedMessageReqMsgT_data_v02),
    (qmiLocInjectNetworkInitiatedMessageIndMsgT_v02, Some qmiLocInjectNetworkInitiatedMessageIndMsgT_data_v02),
    (qmiLocWWANOutOfServiceNotificationReqMsgT_v02, None),
    (qmiLocWWANOutOfServiceNotificationIndMsgT_v02, Some qmiLocWWANOutOfServiceNotificationIndMsgT_data_v02),
    (qmiLocPedometerReportReqMsgT_v02, Some qmiLocPedometerReportReqMsgT_data_v02),
    (qmiLocPedometerReportIndMsgT_v02, Some qmiLocPedometerReportIndMsgT_data_v02),
    (qmiLocGetBatchSizeReqMsgT_v02, Some qmiLocGetBatchSizeReqMsgT_data_v02),
    (qmiLocGetBatchSizeIndMsgT_v02, Some qmiLocGetBatchSizeIndMsgT_data_v02),
    (qmiLocStartBatchingReqMsgT_v02, Some qmiLocStartBatchingReqMsgT_data_v02),
    (qmiLocStartBatchingIndMsgT_v02, Some qmiLocStartBatchingIndMsgT_data_v02)]"

definition qmiLocEventBatchFullIndMsgT_data_v02 :: "int list" where
  "qmiLocEventBatchFullIndMsgT_data_v02 =
    (let off = offsetof qmiLocEventBatchFullIndMsgT_v02 in uint8_array (
      [0x01, QMI_IDL_GENERIC_4_BYTE, QMI_IDL_OFFSET8 off ''batchCount'',
       QMI_IDL_TLV_FLAGS_OPTIONAL OR (QMI_IDL_OFFSET8 off ''batchType'' - QMI_IDL_OFFSET8 off ''batchType_valid''), 0x10, QMI_IDL_GENERIC_4_BYTE, QMI_IDL_OFFSET8 off ''batchType'',
       QMI_IDL_TLV_FLAGS_OPTIONAL OR (QMI_IDL_OFFSET8 off ''accumulatedDistance'' - QMI_IDL_OFFSET8 off ''accumulatedDistance_valid''), 0x11, QMI_IDL_GENERIC_4_BYTE, QMI_IDL_OFFSET8 off ''accumulatedDistance'',
       QMI_IDL_TLV_FLAGS_LAST_TLV OR QMI_IDL_TLV_FLAGS_OPTIONAL OR (QMI_IDL_OFFSET8 off ''batchedPosition'' - QMI_IDL_OFFSET8 off ''batchedPosition_valid''), 0x12, QMI_IDL_GENERIC_4_BYTE, QMI_IDL_OFFSET8 off ''batchedPosition'']))"

definition qmiLocEventLiveBatchedPositionReportIndMsgT_data_v02 :: "int list" where
  "qmiLocEventLiveBatchedPositionReportIndMsgT_data_v02 =
    (let off = offsetof qmiLocEventLiveBatchedPositionReportIndMsgT_v02 in uint8_array (
      [QMI_IDL_TLV_FLAGS_LAST_TLV OR 0x01, QMI_IDL_AGGREGATE, QMI_IDL_OFFSET8 off ''liveBatchedReport''] @ QMI_IDL_TYPE88 0 53))"

definition qmiLocReadFromBatchReqMsgT_data_v02 :: "int list" where
  "qmiLocReadFromBatchReqMsgT_data_v02 =
    (let off = offsetof qmiLocReadFromBatchReqMsgT_v02 in uint8_array (
      [0x01, QMI_IDL_GENERIC_4_BYTE, QMI_IDL_OFFSET8 off ''numberOfEntries'',
       0x02, QMI_IDL_GENERIC_4_BYTE, QMI_IDL_OFFSET8 off ''transactionId'',
       QMI_IDL_TLV_FLAGS_LAST_TLV OR QMI_IDL_TLV_FLAGS_OPTIONAL OR (QMI_IDL_OFFSET8 off ''batchType'' - QMI_IDL_OFFSET8 off ''batchType_valid''), 0x10, QMI_IDL_GENERIC_4_BYTE, QMI_IDL_OFFSET8 off ''batchType'']))"

definition qmiLocReadFromBatchIndMsgT_data_v02 :: "int list" where
  "qmiLocReadFromBatchIndMsgT_data_v02 =
    (let off = offsetof qmiLocReadFromBatchIndMsgT_v02 in uint8_array (
      [0x01, QMI_IDL_GENERIC_4_BYTE, QMI_IDL_OFFSET8 off ''status'',
       0x02, QMI_IDL_GENERIC_4_BYTE, QMI_IDL_OFFSET8 off ''transactionId'',
       QMI_IDL_TLV_FLAGS_OPTIONAL OR (QMI_IDL_OFFSET8 off ''numberOfEntries'' - QMI_IDL_OFFSET8 off ''numberOfEntries_valid''), 0x10, QMI_IDL_GENERIC_4_BYTE, QMI_IDL_OFFSET8 off ''numberOfEntries'',
       QMI_IDL_TLV_FLAGS_LAST_TLV OR QMI_IDL_TLV_FLAGS_OPTIONAL OR (QMI_IDL_OFFSET8 off ''batchedReportList'' - QMI_IDL_OFFSET8 off ''batchedReportList_valid''), 0x11, QMI_IDL_FLAGS_IS_ARRAY OR QMI_IDL_FLAGS_IS_VARIABLE_LEN OR QMI_IDL_AGGREGATE, QMI_IDL_OFFSET8 off ''batchedReportList'', QMI_LOC_READ_FROM_BATCH_MAX_SIZE_V02, QMI_IDL_OFFSET8 off ''batchedReportList'' - QMI_IDL_OFFSET8 off ''batchedReportList_len''] @ QMI_IDL_TYPE88 0 53))"

definition qmiLocStopBatchingReqMsgT_data_v02 :: "int list" where
  "qmiLocStopBatchingReqMsgT_data_v02 =
    (let off = offsetof qmiLocStopBatchingReqMsgT_v02 in uint8_array (
      [0x01, QMI_IDL_GENERIC_4_BYTE, QMI_IDL_OFFSET8 off ''transactionId'',
       QMI_IDL_TLV_FLAGS_OPTIONAL OR (QMI_IDL_OFFSET8 off ''requestId'' - QMI_IDL_OFFSET8 off ''requestId_valid''), 0x10, QMI_IDL_GENERIC_4_BYTE, QMI_IDL_OFFSET8 off ''requestId'',
       QMI_IDL_TLV_FLAGS_LAST_TLV OR QMI_IDL_TLV_FLAGS_OPTIONAL OR (QMI_IDL_OFFSET8 off ''batchType'' - QMI_IDL_OFFSET8 off ''batchType_valid''), 0x11, QMI_IDL_GENERIC_4_BYTE, QMI_IDL_OFFSET8 off ''batchType'']))"

definition qmiLocStopBatchingIndMsgT_data_v02 :: "int list" where
  "qmiLocStopBatchingIndMsgT_data_v02 =
    (let off = offsetof qmiLocStopBatchingIndMsgT_v02 in uint8_array (
      [0x01, QMI_IDL_GENERIC_4_BYTE, QMI_IDL_OFFSET8 off ''status'',
       0x02, QMI_IDL_GENERIC_4_BYTE, QMI_IDL_OFFSET8 off ''transactionId'',
       QMI_IDL_TLV_FLAGS_LAST_TLV OR QMI_IDL_TLV_FLAGS_OPTIONAL OR (QMI_IDL_OFFSET8 off ''requestId'' - QMI_IDL_OFFSET8 off ''requestId_valid''), 0x10, QMI_IDL_GENERIC_4_BYTE, QMI_IDL_OFFSET8 off ''requestId'']))"

definition qmiLocReleaseBatchReqMsgT_data_v02 :: "int list" where
  "qmiLocReleaseBatchReqMsgT_data_v02 =
    (let off = offsetof qmiLocReleaseBatchReqMsgT_v02 in uint8_array (
      [0x01, QMI_IDL_GENERIC_4_BYTE, QMI_IDL_OFFSET8 off ''transactionId'',
       QMI_IDL_TLV_FLAGS_LAST_TLV OR QMI_IDL_TLV_FLAGS_OPTIONAL OR (QMI_IDL_OFFSET8 off ''batchType'' - QMI_IDL_OFFSET8 off ''batchType_valid''), 0x10, QMI_IDL_GENERIC_4_BYTE, QMI_IDL_OFFSET8 off ''batchType'']))"

definition qmiLocReleaseBatchIndMsgT_data_v02 :: "int list" where
  "qmiLocReleaseBatchIndMsgT_data_v02 =
    (let off = offsetof qmiLocReleaseBatchIndMsgT_v02 in uint8_array (
      [0x01, QMI_IDL_GENERIC_4_BYTE, QMI_IDL_OFFSET8 off ''status'',
       QMI_IDL_TLV_FLAGS_LAST_TLV OR 0x02, QMI_IDL_GENERIC_4_BYTE, QMI_IDL_OFFSET8 off ''transactionId'']))"

definition qmiLocEventInjectWifiApDataReqIndMsgT_data_v02 :: "int list" where
  "qmiLocEventInjectWifiApDataReqIndMsgT_data_v02 =
    (let off = offsetof qmiLocEventInjectWifiApDataReqIndMsgT_v02 in uint8_array (
      [QMI_IDL_TLV_FLAGS_LAST_TLV OR QMI_IDL_TLV_FLAGS_OPTIONAL OR (QMI_IDL_OFFSET8 off ''e911Mode'' - QMI_IDL_OFFSET8 off ''e911Mode_valid''), 0x10, QMI_IDL_GENERIC_1_BYTE, QMI_IDL_OFFSET8 off ''e911Mode'']))"

definition qmiLocInjectWifiApDataReqMsgT_data_v02 :: "int list" where
  "qmiLocInjectWifiApDataReqMsgT_data_v02 =
    (let off = offsetof qmiLocInjectWifiApDataReqMsgT_v02 in uint8_array (
      [0x01, QMI_IDL_FLAGS_IS_ARRAY OR QMI_IDL_FLAGS_IS_VARIABLE_LEN OR QMI_IDL_AGGREGATE, QMI_IDL_OFFSET8 off ''wifiApInfo'', QMI_LOC_WIFI_MAX_REPORTED_APS_PER_MSG_V02, QMI_IDL_OFFSET8 off ''wifiApInfo'' - QMI_IDL_OFFSET8 off ''wifiApInfo_len''] @ QMI_IDL_TYPE88 0 54 @
      [QMI_IDL_TLV_FLAGS_OPTIONAL OR (QMI_IDL_OFFSET16RELATIVE off ''errorCause'' - QMI_IDL_OFFSET16RELATIVE off ''errorCause_valid''), 0x10, QMI_IDL_FLAGS_OFFSET_IS_16 OR QMI_IDL_GENERIC_4_BYTE] @ QMI_IDL_OFFSET16ARRAY off ''errorCause'' @
      [QMI_IDL_TLV_FLAGS_OPTIONAL OR (QMI_IDL_OFFSET16RELATIVE off ''requestTimestamp'' - QMI_IDL_OFFSET16RELATIVE off ''requestTimestamp_valid''), 0x11, QMI_IDL_FLAGS_OFFSET_IS_16 OR QMI_IDL_GENERIC_8_BYTE] @ QMI_IDL_OFFSET16ARRAY off ''requestTimestamp'' @
      [QMI_IDL_TLV_FLAGS_OPTIONAL OR (QMI_IDL_OFFSET16RELATIVE off ''receiveTimestamp'' - QMI_IDL_OFFSET16RELATIVE off ''receiveTimestamp_valid''), 0x12, QMI_IDL_FLAGS_OFFSET_IS_16 OR QMI_IDL_GENERIC_8_BYTE] @ QMI_IDL_OFFSET16ARRAY off ''receiveTimestamp'' @
      [QMI_IDL_TLV_FLAGS_OPTIONAL OR (QMI_IDL_OFFSET16RELATIVE off ''onDemandScan'' - QMI_IDL_OFFSET16RELATIVE off ''onDemandScan_valid''), 0x13, QMI_IDL_FLAGS_OFFSET_IS_16 OR QMI_IDL_GENERIC_1_BYTE] @ QMI_IDL_OFFSET16ARRAY off ''onDemandScan'' @
      [QMI_IDL_TLV_FLAGS_OPTIONAL OR (QMI_IDL_OFFSET16RELATIVE off ''wifiApInfoA'' - QMI_IDL_OFFSET16RELATIVE off ''wifiApInfoA_valid''), 0x14, QMI_IDL_FLAGS_IS_ARRAY OR QMI_IDL_FLAGS_IS_VARIABLE_LEN OR QMI_IDL_FLAGS_OFFSET_IS_16 OR QMI_IDL_AGGREGATE] @ QMI_IDL_OFFSET16ARRAY off ''wifiApInfoA'' @
      [QMI_LOC_WIFI_MAX_REPORTED_APS_PER_MSG_V02, QMI_IDL_OFFSET16RELATIVE off ''wifiApInfoA'' - QMI_IDL_OFFSET16RELATIVE off ''wifiApInfoA_len''] @ QMI_IDL_TYPE88 0 55 @
      [QMI_IDL_TLV_FLAGS_LAST_TLV OR QMI_IDL_TLV_FLAGS_OPTIONAL OR (QMI_IDL_OFFSET16RELATIVE off ''ueMacAddress'' - QMI_IDL_OFFSET16RELATIVE off ''ueMacAddress_valid''), 0x15, QMI_IDL_FLAGS_IS_ARRAY OR QMI_IDL_FLAGS_OFFSET_IS_16 OR QMI_IDL_GENERIC_1_BYTE] @ QMI_IDL_OFFSET16ARRAY off ''ueMacAddress'' @
      [QMI_LOC_WIFI_MAC_ADDR_LENGTH_V02]))"

definition qmiLocInjectWifiApDataIndMsgT_data_v02 :: "int list" where
  "qmiLocInjectWifiApDataIndMsgT_data_v02 =
    (let off = offsetof qmiLocInjectWifiApDataIndMsgT_v02 in uint8_array (
      [QMI_IDL_TLV_FLAGS_LAST_TLV OR 0x01, QMI_IDL_GENERIC_4_BYTE, QMI_IDL_OFFSET8 off ''status'']))"

definition qmiLocNotifyWifiAttachmentStatusReqMsgT_data_v02 :: "int list" where
  "qmiLocNotifyWifiAttachmentStatusReqMsgT_data_v02 =
    (let off = offsetof qmiLocNotifyWifiAttachmentStatusReqMsgT_v02 in uint8_array (
      [0x01, QMI_IDL_GENERIC_4_BYTE, QMI_IDL_OFFSET8 off ''attachState'',
       QMI_IDL_TLV_FLAGS_OPTIONAL OR (QMI_IDL_OFFSET8 off ''accessPointMacAddress'' - QMI_IDL_OFFSET8 off ''accessPointMacAddress_valid''), 0x10, QMI_IDL_FLAGS_IS_ARRAY OR QMI_IDL_GENERIC_1_BYTE, QMI_IDL_OFFSET8 off ''accessPointMacAddress'', QMI_LOC_WIFI_MAC_ADDR_LENGTH_V02,
       QMI_IDL_TLV_FLAGS_LAST_TLV OR QMI_IDL_TLV_FLAGS_OPTIONAL OR (QMI_IDL_OFFSET8 off ''wifiApSsid'' - QMI_IDL_OFFSET8 off ''wifiApSsid_valid''), 0x11, QMI_IDL_FLAGS_IS_ARRAY OR QMI_IDL_FLAGS_IS_VARIABLE_LEN OR QMI_IDL_STRING, QMI_IDL_OFFSET8 off ''wifiApSsid'', QMI_LOC_MAX_WIFI_AP_SSID_STR_LENGTH_V02]))"

definition qmiLocNotifyWifiAttachmentStatusIndMsgT_data_v02 :: "int list" where
  "qmiLocNotifyWifiAttachmentStatusIndMsgT_data_v02 =
    (let off = offsetof qmiLocNotifyWifiAttachmentStatusIndMsgT_v02 in uint8_array (
      [QMI_IDL_TLV_FLAGS_LAST_TLV OR 0x01, QMI_IDL_GENERIC_4_BYTE, QMI_IDL_OFFSET8 off ''status'']))"

definition qmiLocNotifyWifiEnabledStatusReqMsgT_data_v02 :: "int list" where
  "qmiLocNotifyWifiEnabledStatusReqMsgT_data_v02 =
    (let off = offsetof qmiLocNotifyWifiEnabledStatusReqMsgT_v02 in uint8_array (
      [QMI_IDL_TLV_FLAGS_LAST_TLV OR 0x01, QMI_IDL_GENERIC_4_BYTE, QMI_IDL_OFFSET8 off ''enabledStatus'']))"

definition qmiLocNotifyWifiEnabledStatusIndMsgT_data_v02 :: "int list" where
  "qmiLocNotifyWifiEnabledStatusIndMsgT_data_v02 =
    (let off = offsetof qmiLocNotifyWifiEnabledStatusIndMsgT_v02 in uint8_array (
      [QMI_IDL_TLV_FLAGS_LAST_TLV OR 0x01, QMI_IDL_GENERIC_4_BYTE, QMI_IDL_OFFSET8 off ''status'']))"

definition qmiLocEventVehicleDataReadyIndMsgT_data_v02 :: "int list" where
  "qmiLocEventVehicleDataReadyIndMsgT_data_v02 =
    (let off = offsetof qmiLocEventVehicleDataReadyIndMsgT_v02 in uint8_array (
      [QMI_IDL_TLV_FLAGS_OPTIONAL OR (QMI_IDL_OFFSET8 off ''vehicleAccelReadyStatus'' - QMI_IDL_OFFSET8 off ''vehicleAccelReadyStatus_valid''), 0x10, QMI_IDL_GENERIC_1_BYTE, QMI_IDL_OFFSET8 off ''vehicleAccelReadyStatus'',
       QMI_IDL_TLV_FLAGS_OPTIONAL OR (QMI_IDL_OFFSET8 off ''vehicleAngularRateReadyStatus'' - QMI_IDL_OFFSET8 off ''vehicleAngularRateReadyStatus_valid''), 0x11, QMI_IDL_GENERIC_1_BYTE, QMI_IDL_OFFSET8 off ''vehicleAngularRateReadyStatus'',
       QMI_IDL_TLV_FLAGS_LAST_TLV OR QMI_IDL_TLV_FLAGS_OPTIONAL OR (QMI_IDL_OFFSET8 off ''vehicleOdometryReadyStatus'' - QMI_IDL_OFFSET8 off ''vehicleOdometryReadyStatus_valid''), 0x12, QMI_IDL_GENERIC_1_BYTE, QMI_IDL_OFFSET8 off ''vehicleOdometryReadyStatus'']))"

definition qmiLocInjectVehicleSensorDataReqMsgT_data_v02 :: "int list" where
  "qmiLocInjectVehicleSensorDataReqMsgT_data_v02 =
    (let off = offsetof qmiLocInjectVehicleSensorDataReqMsgT_v02 in uint8_array (
      [QMI_IDL_TLV_FLAGS_OPTIONAL OR (QMI_IDL_OFFSET8 off ''accelData'' - QMI_IDL_OFFSET8 off ''accelData_valid''), 0x10, QMI_IDL_AGGREGATE, QMI_IDL_OFFSET8 off ''accelData''] @ QMI_IDL_TYPE88 0 57 @
      [QMI_IDL_TLV_FLAGS_OPTIONAL OR (QMI_IDL_OFFSET16RELATIVE off ''angRotationData'' - QMI_IDL_OFFSET16RELATIVE off ''angRotationData_valid''), 0x11, QMI_IDL_FLAGS_OFFSET_IS_16 OR QMI_IDL_AGGREGATE] @ QMI_IDL_OFFSET16ARRAY off ''angRotationData'' @ QMI_IDL_TYPE88 0 57 @
      [QMI_IDL_TLV_FLAGS_OPTIONAL OR (QMI_IDL_OFFSET16RELATIVE off ''odometryData'' - QMI_IDL_OFFSET16RELATIVE off ''odometryData_valid''), 0x12, QMI_IDL_FLAGS_OFFSET_IS_16 OR QMI_IDL_AGGREGATE] @ QMI_IDL_OFFSET16ARRAY off ''odometryData'' @ QMI_IDL_TYPE88 0 59 @
      [QMI_IDL_TLV_FLAGS_LAST_TLV OR QMI_IDL_TLV_FLAGS_OPTIONAL OR (QMI_IDL_OFFSET16RELATIVE off ''changeInTimeScales'' - QMI_IDL_OFFSET16RELATIVE off ''changeInTimeScales_valid''), 0x13, QMI_IDL_FLAGS_OFFSET_IS_16 OR QMI_IDL_GENERIC_4_BYTE] @ QMI_IDL_OFFSET16ARRAY off ''changeInTimeScales''))"

definition qmiLocInjectVehicleSensorDataIndMsgT_data_v02 :: "int list" where
  "qmiLocInjectVehicleSensorDataIndMsgT_data_v02 =
    (let off = offsetof qmiLocInjectVehicleSensorDataIndMsgT_v02 in uint8_array (
      [QMI_IDL_TLV_FLAGS_LAST_TLV OR 0x01, QMI_IDL_GENERIC_4_BYTE, QMI_IDL_OFFSET8 off ''status'']))"

definition qmiLocGetAvailWwanPositionReqMsgT_data_v02 :: "int list" where
  "qmiLocGetAvailWwanPositionReqMsgT_data_v02 =
    (let off = offsetof qmiLocGetAvailWwanPositionReqMsgT_v02 in uint8_array (
      [QMI_IDL_TLV_FLAGS_LAST_TLV OR 0x01, QMI_IDL_GENERIC_4_BYTE, QMI_IDL_OFFSET8 off ''transactionId'']))"

definition qmiLocGetAvailWwanPositionIndMsgT_data_v02 :: "int list" where
  "qmiLocGetAvailWwanPositionIndMsgT_data_v02 =
    (let off = offsetof qmiLocGetAvailWwanPositionIndMsgT_v02 in uint8_array (
      [0x01, QMI_IDL_GENERIC_4_BYTE, QMI_IDL_OFFSET8 off ''status'',
       QMI_IDL_TLV_FLAGS_OPTIONAL OR (QMI_IDL_OFFSET8 off ''transactionId'' - QMI_IDL_OFFSET8 off ''transactionId_valid''), 0x10, QMI_IDL_GENERIC_4_BYTE, QMI_IDL_OFFSET8 off ''transactionId'',
       QMI_IDL_TLV_FLAGS_OPTIONAL OR (QMI_IDL_OFFSET8 off ''latitude'' - QMI_IDL_OFFSET8 off ''latitude_valid''), 0x11, QMI_IDL_GENERIC_8_BYTE, QMI_IDL_OFFSET8 off ''latitude'',
       QMI_IDL_TLV_FLAGS_OPTIONAL OR (QMI_IDL_OFFSET8 off ''longitude'' - QMI_IDL_OFFSET8 off ''longitude_valid''), 0x12, QMI_IDL_GENERIC_8_BYTE, QMI_IDL_OFFSET8 off ''longitude'',
       QMI_IDL_TLV_FLAGS_OPTIONAL OR (QMI_IDL_OFFSET8 off ''horUncCircular'' - QMI_IDL_OFFSET8 off ''horUncCircular_valid''), 0x13, QMI_IDL_GENERIC_4_BYTE, QMI_IDL_OFFSET8 off ''horUncCircular'',
       QMI_IDL_TLV_FLAGS_OPTIONAL OR (QMI_IDL_OFFSET8 off ''altitudeWrtEllipsoid'' - QMI_IDL_OFFSET8 off ''altitudeWrtEllipsoid_valid''), 0x14, QMI_IDL_GENERIC_4_BYTE, QMI_IDL_OFFSET8 off ''altitudeWrtEllipsoid'',
       QMI_IDL_TLV_FLAGS_OPTIONAL OR (QMI_IDL_OFFSET8 off ''vertUnc'' - QMI_IDL_OFFSET8 off ''vertUnc_valid''), 0x15, QMI_IDL_GENERIC_4_BYTE, QMI_IDL_OFFSET8 off ''vertUnc'',
       QMI_IDL_TLV_FLAGS_OPTIONAL OR (QMI_IDL_OFFSET8 off ''timestampUtc'' - QMI_IDL_OFFSET8 off ''timestampUtc_valid''), 0x16, QMI_IDL_GENERIC_8_BYTE, QMI_IDL_OFFSET8 off ''timestampUtc'',
       QMI_IDL_TLV_FLAGS_OPTIONAL OR (QMI_IDL_OFFSET8 off ''timeUnc'' - QMI_IDL_OFFSET8 off ''timeUnc_valid''), 0x17, QMI_IDL_GENERIC_4_BYTE, QMI_IDL_OFFSET8 off ''timeUnc'',
       QMI_IDL_TLV_FLAGS_OPTIONAL OR (QMI_IDL_OFFSET8 off ''horUncEllipseSemiMinor'' - QMI_IDL_OFFSET8 off ''horUncEllipseSemiMinor_valid''), 0x18, QMI_IDL_GENERIC_4_BYTE, QMI_IDL_OFFSET8 off ''horUncEllipseSemiMinor'',
       QMI_IDL_TLV_FLAGS_OPTIONAL OR (QMI_IDL_OFFSET8 off ''horUncEllipseSemiMajor'' - QMI_IDL_OFFSET8 off ''horUncEllipseSemiMajor_valid''), 0x19, QMI_IDL_GENERIC_4_BYTE, QMI_IDL_OFFSET8 off ''horUncEllipseSemiMajor'',
       QMI_IDL_TLV_FLAGS_OPTIONAL OR (QMI_IDL_OFFSET8 off ''horUncEllipseOrientAzimuth'' - QMI_IDL_OFFSET8 off ''horUncEllipseOrientAzimuth_valid''), 0x1A, QMI_IDL_GENERIC_4_BYTE, QMI_IDL_OFFSET8 off ''horUncEllipseOrientAzimuth'',
       QMI_IDL_TLV_FLAGS_OPTIONAL OR (QMI_IDL_OFFSET8 off ''horCircularConfidence'' - QMI_IDL_OFFSET8 off ''horCircularConfidence_valid''), 0x1B, QMI_IDL_GENERIC_1_BYTE, QMI_IDL_OFFSET8 off ''horCircularConfidence'',
       QMI_IDL_TLV_FLAGS_OPTIONAL OR (QMI_IDL_OFFSET8 off ''horEllipticalConfidence'' - QMI_IDL_OFFSET8 off ''horEllipticalConfidence_valid''), 0x1C, QMI_IDL_GENERIC_1_BYTE, QMI_IDL_OFFSET8 off ''horEllipticalConfidence'',
       QMI_IDL_TLV_FLAGS_OPTIONAL OR (QMI_IDL_OFFSET8 off ''horReliability'' - QMI_IDL_OFFSET8 off ''horReliability_valid''), 0x1D, QMI_IDL_GENERIC_4_BYTE, QMI_IDL_OFFSET8 off ''horReliability'',
       QMI_IDL_TLV_FLAGS_OPTIONAL OR (QMI_IDL_OFFSET8 off ''altitudeWrtMeanSeaLevel'' - QMI_IDL_OFFSET8 off ''altitudeWrtMeanSeaLevel_valid''), 0x1E, QMI_IDL_GENERIC_4_BYTE, QMI_IDL_OFFSET8 off ''altitudeWrtMeanSeaLevel'',
       QMI_IDL_TLV_FLAGS_OPTIONAL OR (QMI_IDL_OFFSET8 off ''vertConfidence'' - QMI_IDL_OFFSET8 off ''vertConfidence_valid''), 0x1F, QMI_IDL_GENERIC_1_BYTE, QMI_IDL_OFFSET8 off ''vertConfidence'',
       QMI_IDL_TLV_FLAGS_OPTIONAL OR (QMI_IDL_OFFSET8 off ''vertReliability'' - QMI_IDL_OFFSET8 off ''vertReliability_valid''), 0x20, QMI_IDL_GENERIC_4_BYTE, QMI_IDL_OFFSET8 off ''vertReliability'',
       QMI_IDL_TLV_FLAGS_OPTIONAL OR (QMI_IDL_OFFSET8 off ''gpsTime'' - QMI_IDL_OFFSET8 off ''gpsTime_valid''), 0x21, QMI_IDL_AGGREGATE, QMI_IDL_OFFSET8 off ''gpsTime''] @ QMI_IDL_TYPE88 0 2 @
      [QMI_IDL_TLV_FLAGS_OPTIONAL OR (QMI_IDL_OFFSET8 off ''timeSrc'' - QMI_IDL_OFFSET8 off ''timeSrc_valid''), 0x22, QMI_IDL_GENERIC_4_BYTE, QMI_IDL_OFFSET8 off ''timeSrc'',
       QMI_IDL_TLV_FLAGS_LAST_TLV OR QMI_IDL_TLV_FLAGS_OPTIONAL OR (QMI_IDL_OFFSET8 off ''gnssTime'' - QMI_IDL_OFFSET8 off ''gnssTime_valid''), 0x23, QMI_IDL_AGGREGATE, QMI_IDL_OFFSET8 off ''gnssTime''] @ QMI_IDL_TYPE88 0 8))"

definition qmiLocSetPremiumServicesCfgReqMsgT_data_v02 :: "int list" where
  "qmiLocSetPremiumServicesCfgReqMsgT_data_v02 =
    (let off = offsetof qmiLocSetPremiumServicesCfgReqMsgT_v02 in uint8_array (
      [0x01, QMI_IDL_GENERIC_4_BYTE, QMI_IDL_OFFSET8 off ''premiumServiceType'',
       QMI_IDL_TLV_FLAGS_LAST_TLV OR 0x02, QMI_IDL_GENERIC_4_BYTE, QMI_IDL_OFFSET8 off ''premiumServiceCfg'']))"

definition qmiLocSetPremiumServicesCfgIndMsgT_data_v02 :: "int list" where
  "qmiLocSetPremiumServicesCfgIndMsgT_data_v02 =
    (let off = offsetof qmiLocSetPremiumServicesCfgIndMsgT_v02 in uint8_array (
      [QMI_IDL_TLV_FLAGS_LAST_TLV OR 0x01, QMI_IDL_GENERIC_4_BYTE, QMI_IDL_OFFSET8 off ''status'']))"

definition qmiLocSetXtraVersionCheckReqMsgT_data_v02 :: "int list" where
  "qmiLocSetXtraVersionCheckReqMsgT_data_v02 =
    (let off = offsetof qmiLocSetXtraVersionCheckReqMsgT_v02 in uint8_array (
      [QMI_IDL_TLV_FLAGS_LAST_TLV OR 0x01, QMI_IDL_GENERIC_4_BYTE, QMI_IDL_OFFSET8 off ''xtraVersionCheckMode'']))"

definition qmiLocSetXtraVersionCheckIndMsgT_data_v02 :: "int list" where
  "qmiLocSetXtraVersionCheckIndMsgT_data_v02 =
    (let off = offsetof qmiLocSetXtraVersionCheckIndMsgT_v02 in uint8_array (
      [QMI_IDL_TLV_FLAGS_LAST_TLV OR 0x01, QMI_IDL_GENERIC_4_BYTE, QMI_IDL_OFFSET8 off ''status'']))"

definition qmiLocSetGNSSConstRepConfigReqMsgT_data_v02 :: "int list" where
  "qmiLocSetGNSSConstRepConfigReqMsgT_data_v02 =
    (let off = offsetof qmiLocSetGNSSConstRepConfigReqMsgT_v02 in uint8_array (
      [QMI_IDL_TLV_FLAGS_OPTIONAL OR (QMI_IDL_OFFSET8 off ''measReportConfig'' - QMI_IDL_OFFSET8 off ''measReportConfig_valid''), 0x10, QMI_IDL_GENERIC_8_BYTE, QMI_IDL_OFFSET8 off ''measReportConfig'',
       QMI_IDL_TLV_FLAGS_OPTIONAL OR (QMI_IDL_OFFSET8 off ''svPolyReportConfig'' - QMI_IDL_OFFSET8 off ''svPolyReportConfig_valid''), 0x11, QMI_IDL_GENERIC_8_BYTE, QMI_IDL_OFFSET8 off ''svPolyReportConfig'',
       QMI_IDL_TLV_FLAGS_OPTIONAL OR (QMI_IDL_OFFSET8 off ''reportFullEphemerisDb'' - QMI_IDL_OFFSET8 off ''reportFullEphemerisDb_valid''), 0x12, QMI_IDL_GENERIC_1_BYTE, QMI_IDL_OFFSET8 off ''reportFullEphemerisDb'',
       QMI_IDL_TLV_FLAGS_OPTIONAL OR (QMI_IDL_OFFSET8 off ''reportFullSvPolyDb'' - QMI_IDL_OFFSET8 off ''reportFullSvPolyDb_valid''), 0x13, QMI_IDL_GENERIC_1_BYTE, QMI_IDL_OFFSET8 off ''reportFullSvPolyDb'',
       QMI_IDL_TLV_FLAGS_LAST_TLV OR QMI_IDL_TLV_FLAGS_OPTIONAL OR (QMI_IDL_OFFSET8 off ''reportFullIonoDb'' - QMI_IDL_OFFSET8 off ''reportFullIonoDb_valid''), 0x14, QMI_IDL_GENERIC_1_BYTE, QMI_IDL_OFFSET8 off ''reportFullIonoDb'']))"

definition qmiLocSetGNSSConstRepConfigIndMsgT_data_v02 :: "int list" where
  "qmiLocSetGNSSConstRepConfigIndMsgT_data_v02 =
    (let off = offsetof qmiLocSetGNSSConstRepConfigIndMsgT_v02 in uint8_array (
      [QMI_IDL_TLV_FLAGS_LAST_TLV OR 0x01, QMI_IDL_GENERIC_4_BYTE, QMI_IDL_OFFSET8 off ''status'']))"

definition qmiLocEventGnssSvMeasInfoIndMsgT_data_v02 :: "int list" where
  "qmiLocEventGnssSvMeasInfoIndMsgT_data_v02 =
    (let off = offsetof qmiLocEventGnssSvMeasInfoIndMsgT_v02 in uint8_array (
      [0x01, QMI_IDL_GENERIC_1_BYTE, QMI_IDL_OFFSET8 off ''seqNum'',
       0x02, QMI_IDL_GENERIC_1_BYTE, QMI_IDL_OFFSET8 off ''maxMessageNum'',
       0x03, QMI_IDL_GENERIC_4_BYTE, QMI_IDL_OFFSET8 off ''system'',
       QMI_IDL_TLV_FLAGS_OPTIONAL OR (QMI_IDL_OFFSET8 off ''rcvrClockFrequencyInfo'' - QMI_IDL_OFFSET8 off ''rcvrClockFrequencyInfo_valid''), 0x10, QMI_IDL_AGGREGATE, QMI_IDL_OFFSET8 off ''rcvrClockFrequencyInfo''] @ QMI_IDL_TYPE88 0 60 @
      [QMI_IDL_TLV_FLAGS_OPTIONAL OR (QMI_IDL_OFFSET8 off ''leapSecondInfo'' - QMI_IDL_OFFSET8 off ''leapSecondInfo_valid''), 0x11, QMI_IDL_AGGREGATE, QMI_IDL_OFFSET8 off ''leapSecondInfo''] @ QMI_IDL_TYPE88 0 61 @
      [QMI_IDL_TLV_FLAGS_OPTIONAL OR (QMI_IDL_OFFSET8 off ''gpsGloInterSystemBias'' - QMI_IDL_OFFSET8 off ''gpsGloInterSystemBias_valid''), 0x12, QMI_IDL_AGGREGATE, QMI_IDL_OFFSET8 off ''gpsGloInterSystemBias''] @ QMI_IDL_TYPE88 0 62 @
      [QMI_IDL_TLV_FLAGS_OPTIONAL OR (QMI_IDL_OFFSET8 off ''gpsBdsInterSystemBias'' - QMI_IDL_OFFSET8 off ''gpsBdsInterSystemBias_valid''), 0x13, QMI_IDL_AGGREGATE, QMI_IDL_OFFSET8 off ''gpsBdsInterSystemBias''] @ QMI_IDL_TYPE88 0 62 @
      [QMI_IDL_TLV_FLAGS_OPTIONAL OR (QMI_IDL_OFFSET8 off ''gpsGalInterSystemBias'' - QMI_IDL_OFFSET8 off ''gpsGalInterSystemBias_valid''), 0x14, QMI_IDL_AGGREGATE, QMI_IDL_OFFSET8 off ''gpsGalInterSystemBias''] @ QMI_IDL_TYPE88 0 62 @
      [QMI_IDL_TLV_FLAGS_OPTIONAL OR (QMI_IDL_OFFSET8 off ''bdsGloInterSystemBias'' - QMI_IDL_OFFSET8 off ''bdsGloInterSystemBias_valid''), 0x15, QMI_IDL_AGGREGATE, QMI_IDL_OFFSET8 off ''bdsGloInterSystemBias''] @ QMI_IDL_TYPE88 0 62 @
      [QMI_IDL_TLV_FLAGS_OPTIONAL OR (QMI_IDL_OFFSET8 off ''galGloInterSystemBias'' - QMI_IDL_OFFSET8 off ''galGloInterSystemBias_valid''), 0x16, QMI_IDL_AGGREGATE, QMI_IDL_OFFSET8 off ''galGloInterSystemBias''] @ QMI_IDL_TYPE88 0 62 @
      [QMI_IDL_TLV_FLAGS_OPTIONAL OR (QMI_IDL_OFFSET8 off ''galBdsInterSystemBias'' - QMI_IDL_OFFSET8 off ''galBdsInterSystemBias_valid''), 0x17, QMI_IDL_AGGREGATE, QMI_IDL_OFFSET8 off ''galBdsInterSystemBias''] @ QMI_IDL_TYPE88 0 62 @
      [QMI_IDL_TLV_FLAGS_OPTIONAL OR (QMI_IDL_OFFSET8 off ''systemTime'' - QMI_IDL_OFFSET8 off ''systemTime_valid''), 0x18, QMI_IDL_AGGREGATE, QMI_IDL_OFFSET8 off ''systemTime''] @ QMI_IDL_TYPE88 0 8 @
      [QMI_IDL_TLV_FLAGS_OPTIONAL OR (QMI_IDL_OFFSET8 off ''gloTime'' - QMI_IDL_OFFSET8 off ''gloTime_valid''), 0x19, QMI_IDL_AGGREGATE, QMI_IDL_OFFSET8 off ''gloTime''] @ QMI_IDL_TYPE88 0 63 @
      [QMI_IDL_TLV_FLAGS_OPTIONAL OR (QMI_IDL_OFFSET8 off ''systemTimeExt'' - QMI_IDL_OFFSET8 off ''systemTimeExt_valid''), 0x1A, QMI_IDL_AGGREGATE, QMI_IDL_OFFSET8 off ''systemTimeExt''] @ QMI_IDL_TYPE88 0 64 @
      [QMI_IDL_TLV_FLAGS_OPTIONAL OR (QMI_IDL_OFFSET8 off ''svMeasurement'' - QMI_IDL_OFFSET8 off ''svMeasurement_valid''), 0x1B, QMI_IDL_FLAGS_IS_ARRAY OR QMI_IDL_FLAGS_IS_VARIABLE_LEN OR QMI_IDL_AGGREGATE, QMI_IDL_OFFSET8 off ''svMeasurement'', QMI_LOC_SV_MEAS_LIST_MAX_SIZE_V02, QMI_IDL_OFFSET8 off ''svMeasurement'' - QMI_IDL_OFFSET8 off ''svMeasurement_len''] @ QMI_IDL_TYPE88 0 66 @
      [QMI_IDL_TLV_FLAGS_OPTIONAL OR (QMI_IDL_OFFSET16RELATIVE off ''numClockResets'' - QMI_IDL_OFFSET16RELATIVE off ''numClockResets_valid''), 0x1C, QMI_IDL_FLAGS_OFFSET_IS_16 OR QMI_IDL_GENERIC_4_BYTE] @ QMI_IDL_OFFSET16ARRAY off ''numClockResets'' @
      [QMI_IDL_TLV_FLAGS_OPTIONAL OR (QMI_IDL_OFFSET16RELATIVE off ''svCarrierPhaseUncertainty'' - QMI_IDL_OFFSET16RELATIVE off ''svCarrierPhaseUncertainty_valid''), 0x1D, QMI_IDL_FLAGS_IS_ARRAY OR QMI_IDL_FLAGS_IS_VARIABLE_LEN OR QMI_IDL_FLAGS_OFFSET_IS_16 OR QMI_IDL_GENERIC_4_BYTE] @ QMI_IDL_OFFSET16ARRAY off ''svCarrierPhaseUncertainty'' @
      [QMI_LOC_SV_MEAS_LIST_MAX_SIZE_V02, QMI_IDL_OFFSET16RELATIVE off ''svCarrierPhaseUncertainty'' - QMI_IDL_OFFSET16RELATIVE off ''svCarrierPhaseUncertainty_len'',
       QMI_IDL_TLV_FLAGS_OPTIONAL OR (QMI_IDL_OFFSET16RELATIVE off ''gnssSignalType'' - QMI_IDL_OFFSET16RELATIVE off ''gnssSignalType_valid''), 0x1E, QMI_IDL_FLAGS_OFFSET_IS_16 OR QMI_IDL_GENERIC_8_BYTE] @ QMI_IDL_OFFSET16ARRAY off ''gnssSignalType'' @
      [QMI_IDL_TLV_FLAGS_OPTIONAL OR (QMI_IDL_OFFSET16RELATIVE off ''jammerIndicator'' - QMI_IDL_OFFSET16RELATIVE off ''jammerIndicator_valid''), 0x1F, QMI_IDL_FLAGS_OFFSET_IS_16 OR QMI_IDL_AGGREGATE] @ QMI_IDL_OFFSET16ARRAY off ''jammerIndicator'' @ QMI_IDL_TYPE88 0 6 @
      [QMI_IDL_TLV_FLAGS_OPTIONAL OR (QMI_IDL_OFFSET16RELATIVE off ''GpsL1L2cTimeBias'' - QMI_IDL_OFFSET16RELATIVE off ''GpsL1L2cTimeBias_valid''), 0x20, QMI_IDL_FLAGS_OFFSET_IS_16 OR QMI_IDL_AGGREGATE] @ QMI_IDL_OFFSET16ARRAY off ''GpsL1L2cTimeBias'' @ QMI_IDL_TYPE88 0 62 @
      [QMI_IDL_TLV_FLAGS_OPTIONAL OR (QMI_IDL_OFFSET16RELATIVE off ''GpsL1L5TimeBias'' - QMI_IDL_OFFSET16RELATIVE off ''GpsL1L5TimeBias_valid''), 0x21, QMI_IDL_FLAGS_OFFSET_IS_16 OR QMI_IDL_AGGREGATE] @ QMI_IDL_OFFSET16ARRAY off ''GpsL1L5TimeBias'' @ QMI_IDL_TYPE88 0 62 @
      [QMI_IDL_TLV_FLAGS_OPTIONAL OR (QMI_IDL_OFFSET16RELATIVE off ''GloG1G2TimeBias'' - QMI_IDL_OFFSET16RELATIVE off ''GloG1G2TimeBias_valid''), 0x22, QMI_IDL_FLAGS_OFFSET_IS_16 OR QMI_IDL_AGGREGATE] @ QMI_IDL_OFFSET16ARRAY off ''GloG1G2TimeBias'' @ QMI_IDL_TYPE88 0 62 @
      [QMI_IDL_TLV_FLAGS_OPTIONAL OR (QMI_IDL_OFFSET16RELATIVE off ''BdsB1iB2aTimeBias'' - QMI_IDL_OFFSET16RELATIVE off ''BdsB1iB2aTimeBias_valid''), 0x23, QMI_IDL_FLAGS_OFFSET_IS_16 OR QMI_IDL_AGGREGATE] @ QMI_IDL_OFFSET16ARRAY off ''BdsB1iB2aTimeBias'' @ QMI_IDL_TYPE88 0 62 @
      [QMI_IDL_TLV_FLAGS_OPTIONAL OR (QMI_IDL_OFFSET16RELATIVE off ''BdsB1iB1cTimeBias'' - QMI_IDL_OFFSET16RELATIVE off ''BdsB1iB1cTimeBias_valid''), 0x24, QMI_IDL_FLAGS_OFFSET_IS_16 OR QMI_IDL_AGGREGATE] @ QMI_IDL_OFFSET16ARRAY off ''BdsB1iB1cTimeBias'' @ QMI_IDL_TYPE88 0 62 @
      [QMI_IDL_TLV_FLAGS_OPTIONAL OR (QMI_IDL_OFFSET16RELATIVE off ''GalE1E5aTimeBias'' - QMI_IDL_OFFSET16RELATIVE off ''GalE1E5aTimeBias_valid''), 0x25, QMI_IDL_FLAGS_OFFSET_IS_16 OR QMI_IDL_AGGREGATE] @ QMI_IDL_OFFSET16ARRAY off ''GalE1E5aTimeBias'' @ QMI_IDL_TYPE88 0 62 @
      [QMI_IDL_TLV_FLAGS_OPTIONAL OR (QMI_IDL_OFFSET16RELATIVE off ''GalE1E5bTimeBias'' - QMI_IDL_OFFSET16RELATIVE off ''GalE1E5bTimeBias_valid''), 0x26, QMI_IDL_FLAGS_OFFSET_IS_16 OR QMI_IDL_AGGREGATE] @ QMI_IDL_OFFSET16ARRAY off ''GalE1E5bTimeBias'' @ QMI_IDL_TYPE88 0 62 @
      [QMI_IDL_TLV_FLAGS_OPTIONAL OR (QMI_IDL_OFFSET16RELATIVE off ''nHzMeasurement'' - QMI_IDL_OFFSET16RELATIVE off ''nHzMeasurement_valid''), 0x27, QMI_IDL_FLAGS_OFFSET_IS_16 OR QMI_IDL_GENERIC_1_BYTE] @ QMI_IDL_OFFSET16ARRAY off ''nHzMeasurement'' @
      [QMI_IDL_TLV_FLAGS_OPTIONAL OR (QMI_IDL_OFFSET16RELATIVE off ''measurementCodeType'' - QMI_IDL_OFFSET16RELATIVE off ''measurementCodeType_valid''), 0x28, QMI_IDL_FLAGS_OFFSET_IS_16 OR QMI_IDL_GENERIC_4_BYTE] @ QMI_IDL_OFFSET16ARRAY off ''measurementCodeType'' @
      [QMI_IDL_TLV_FLAGS_OPTIONAL OR (QMI_IDL_OFFSET16RELATIVE off ''otherCodeTypeName'' - QMI_IDL_OFFSET16RELATIVE off ''otherCodeTypeName_valid''), 0x29, QMI_IDL_FLAGS_IS_ARRAY OR QMI_IDL_FLAGS_IS_VARIABLE_LEN OR QMI_IDL_FLAGS_OFFSET_IS_16 OR QMI_IDL_GENERIC_1_BYTE] @ QMI_IDL_OFFSET16ARRAY off ''otherCodeTypeName'' @
      [QMI_LOC_SV_MEAS_OTHER_CODE_TYPE_NAME_MAX_LEN_V02, QMI_IDL_OFFSET16RELATIVE off ''otherCodeTypeName'' - QMI_IDL_OFFSET16RELATIVE off ''otherCodeTypeName_len'',
       QMI_IDL_TLV_FLAGS_OPTIONAL OR (QMI_IDL_OFFSET16RELATIVE off ''gpsNavicInterSystemBias'' - QMI_IDL_OFFSET16RELATIVE off ''gpsNavicInterSystemBias_valid''), 0x2A, QMI_IDL_FLAGS_OFFSET_IS_16 OR QMI_IDL_AGGREGATE] @ QMI_IDL_OFFSET16ARRAY off ''gpsNavicInterSystemBias'' @ QMI_IDL_TYPE88 0 62 @
      [QMI_IDL_TLV_FLAGS_OPTIONAL OR (QMI_IDL_OFFSET16RELATIVE off ''galNavicInterSystemBias'' - QMI_IDL_OFFSET16RELATIVE off ''galNavicInterSystemBias_valid''), 0x2B, QMI_IDL_FLAGS_OFFSET_IS_16 OR QMI_IDL_AGGREGATE] @ QMI_IDL_OFFSET16ARRAY off ''galNavicInterSystemBias'' @ QMI_IDL_TYPE88 0 62 @
      [QMI_IDL_TLV_FLAGS_OPTIONAL OR (QMI_IDL_OFFSET16RELATIVE off ''gloNavicInterSystemBias'' - QMI_IDL_OFFSET16RELATIVE off ''gloNavicInterSystemBias_valid''), 0x2C, QMI_IDL_FLAGS_OFFSET_IS_16 OR QMI_IDL_AGGREGATE] @ QMI_IDL_OFFSET16ARRAY off ''gloNavicInterSystemBias'' @ QMI_IDL_TYPE88 0 62 @
      [QMI_IDL_TLV_FLAGS_OPTIONAL OR (QMI_IDL_OFFSET16RELATIVE off ''bdsNavicInterSystemBias'' - QMI_IDL_OFFSET16RELATIVE off ''bdsNavicInterSystemBias_valid''), 0x2D, QMI_IDL_FLAGS_OFFSET_IS_16 OR QMI_IDL_AGGREGATE] @ QMI_IDL_OFFSET16ARRAY off ''bdsNavicInterSystemBias'' @ QMI_IDL_TYPE88 0 62 @
      [QMI_IDL_TLV_FLAGS_OPTIONAL OR (QMI_IDL_OFFSET16RELATIVE off ''extSvMeasurement'' - QMI_IDL_OFFSET16RELATIVE off ''extSvMeasurement_valid''), 0x2E, QMI_IDL_FLAGS_IS_ARRAY OR QMI_IDL_FLAGS_IS_VARIABLE_LEN OR QMI_IDL_FLAGS_OFFSET_IS_16 OR QMI_IDL_AGGREGATE] @ QMI_IDL_OFFSET16ARRAY off ''extSvMeasurement'' @
      [QMI_LOC_EXT_SV_MEAS_LIST_MAX_SIZE_V02, QMI_IDL_OFFSET16RELATIVE off ''extSvMeasurement'' - QMI_IDL_OFFSET16RELATIVE off ''extSvMeasurement_len''] @ QMI_IDL_TYPE88 0 66 @
      [QMI_IDL_TLV_FLAGS_OPTIONAL OR (QMI_IDL_OFFSET16RELATIVE off ''extSvCarrierPhaseUncertainty'' - QMI_IDL_OFFSET16RELATIVE off ''extSvCarrierPhaseUncertainty_valid''), 0x2F, QMI_IDL_FLAGS_IS_ARRAY OR QMI_IDL_FLAGS_IS_VARIABLE_LEN OR QMI_IDL_FLAGS_OFFSET_IS_16 OR QMI_IDL_GENERIC_4_BYTE] @ QMI_IDL_OFFSET16ARRAY off ''extSvCarrierPhaseUncertainty'' @
      [QMI_LOC_EXT_SV_MEAS_LIST_MAX_SIZE_V02, QMI_IDL_OFFSET16RELATIVE off ''extSvCarrierPhaseUncertainty'' - QMI_IDL_OFFSET16RELATIVE off ''extSvCarrierPhaseUncertainty_len'',
       QMI_IDL_TLV_FLAGS_OPTIONAL OR (QMI_IDL_OFFSET16RELATIVE off ''refCountTicks'' - QMI_IDL_OFFSET16RELATIVE off ''refCountTicks_valid''), 0x30, QMI_IDL_FLAGS_OFFSET_IS_16 OR QMI_IDL_GENERIC_8_BYTE] @ QMI_IDL_OFFSET16ARRAY off ''refCountTicks'' @
      [QMI_IDL_TLV_FLAGS_OPTIONAL OR (QMI_IDL_OFFSET16RELATIVE off ''dgnssCorrectionSourceT'' - QMI_IDL_OFFSET16RELATIVE off ''dgnssCorrectionSourceT_valid''), 0x31, QMI_IDL_FLAGS_OFFSET_IS_16 OR QMI_IDL_GENERIC_4_BYTE] @ QMI_IDL_OFFSET16ARRAY off ''dgnssCorrectionSourceT'' @
      [QMI_IDL_TLV_FLAGS_OPTIONAL OR (QMI_IDL_OFFSET16RELATIVE off ''dgnssCorrectionSourceID'' - QMI_IDL_OFFSET16RELATIVE off ''dgnssCorrectionSourceID_valid''), 0x32, QMI_IDL_FLAGS_OFFSET_IS_16 OR QMI_IDL_GENERIC_4_BYTE] @ QMI_IDL_OFFSET16ARRAY off ''dgnssCorrectionSourceID'' @
      [QMI_IDL_TLV_FLAGS_OPTIONAL OR (QMI_IDL_OFFSET16RELATIVE off ''dgnssRefStationId'' - QMI_IDL_OFFSET16RELATIVE off ''dgnssRefStationId_valid''), 0x33, QMI_IDL_FLAGS_OFFSET_IS_16 OR QMI_IDL_GENERIC_2_BYTE] @ QMI_IDL_OFFSET16ARRAY off ''dgnssRefStationId'' @
      [QMI_IDL_TLV_FLAGS_OPTIONAL OR (QMI_IDL_OFFSET16RELATIVE off ''dgnssSvMeasurement'' - QMI_IDL_OFFSET16RELATIVE off ''dgnssSvMeasurement_valid''), 0x34, QMI_IDL_FLAGS_IS_ARRAY OR QMI_IDL_FLAGS_IS_VARIABLE_LEN OR QMI_IDL_FLAGS_OFFSET_IS_16 OR QMI_IDL_AGGREGATE] @ QMI_IDL_OFFSET16ARRAY off ''dgnssSvMeasurement'' @
      [QMI_LOC_DGNSS_SV_MEAS_LIST_MAX_SIZE_V02, QMI_IDL_OFFSET16RELATIVE off ''dgnssSvMeasurement'' - QMI_IDL_OFFSET16RELATIVE off ''dgnssSvMeasurement_len''] @ QMI_IDL_TYPE88 0 67 @
      [QMI_IDL_TLV_FLAGS_OPTIONAL OR (QMI_IDL_OFFSET16RELATIVE off ''refCountTicksUnc'' - QMI_IDL_OFFSET16RELATIVE off ''refCountTicksUnc_valid''), 0x35, QMI_IDL_FLAGS_OFFSET_IS_16 OR QMI_IDL_GENERIC_4_BYTE] @ QMI_IDL_OFFSET16ARRAY off ''refCountTicksUnc'' @
      [QMI_IDL_TLV_FLAGS_OPTIONAL OR (QMI_IDL_OFFSET16RELATIVE off ''subSeqNum'' - QMI_IDL_OFFSET16RELATIVE off ''subSeqNum_valid''), 0x36, QMI_IDL_FLAGS_OFFSET_IS_16 OR QMI_IDL_GENERIC_1_BYTE] @ QMI_IDL_OFFSET16ARRAY off ''subSeqNum'' @
      [QMI_IDL_TLV_FLAGS_OPTIONAL OR (QMI_IDL_OFFSET16RELATIVE off ''maxSubSeqNum'' - QMI_IDL_OFFSET16RELATIVE off ''maxSubSeqNum_valid''), 0x37, QMI_IDL_FLAGS_OFFSET_IS_16 OR QMI_IDL_GENERIC_1_BYTE] @ QMI_IDL_OFFSET16ARRAY off ''maxSubSeqNum'' @
      [QMI_IDL_TLV_FLAGS_OPTIONAL OR (QMI_IDL_OFFSET16RELATIVE off ''payload'' - QMI_IDL_OFFSET16RELATIVE off ''payload_valid''), 0x38, QMI_IDL_FLAGS_IS_ARRAY OR QMI_IDL_FLAGS_IS_VARIABLE_LEN OR QMI_IDL_FLAGS_SZ_IS_16 OR QMI_IDL_FLAGS_OFFSET_IS_16 OR QMI_IDL_GENERIC_1_BYTE] @ QMI_IDL_OFFSET16ARRAY off ''payload'' @
      [2048 AND 0xFF, drop_bit 8 2048, QMI_IDL_OFFSET16RELATIVE off ''payload'' - QMI_IDL_OFFSET16RELATIVE off ''payload_len'',
       QMI_IDL_TLV_FLAGS_OPTIONAL OR (QMI_IDL_OFFSET16RELATIVE off ''gpsBdsB1cInterSystemBias'' - QMI_IDL_OFFSET16RELATIVE off ''gpsBdsB1cInterSystemBias_valid''), 0x39, QMI_IDL_FLAGS_OFFSET_IS_16 OR QMI_IDL_AGGREGATE] @ QMI_IDL_OFFSET16ARRAY off ''gpsBdsB1cInterSystemBias'' @ QMI_IDL_TYPE88 0 62 @
      [QMI_IDL_TLV_FLAGS_OPTIONAL OR (QMI_IDL_OFFSET16RELATIVE off ''bdsB1cGloInterSystemBias'' - QMI_IDL_OFFSET16RELATIVE off ''bdsB1cGloInterSystemBias_valid''), 0x3A, QMI_IDL_FLAGS_OFFSET_IS_16 OR QMI_IDL_AGGREGATE] @ QMI_IDL_OFFSET16ARRAY off ''bdsB1cGloInterSystemBias'' @ QMI_IDL_TYPE88 0 62 @
      [QMI_IDL_TLV_FLAGS_OPTIONAL OR (QMI_IDL_OFFSET16RELATIVE off ''galBdsB1cInterSystemBias'' - QMI_IDL_OFFSET16RELATIVE off ''galBdsB1cInterSystemBias_valid''), 0x3B, QMI_IDL_FLAGS_OFFSET_IS_16 OR QMI_IDL_AGGREGATE] @ QMI_IDL_OFFSET16ARRAY off ''galBdsB1cInterSystemBias'' @ QMI_IDL_TYPE88 0 62 @
      [QMI_IDL_TLV_FLAGS_OPTIONAL OR (QMI_IDL_OFFSET16RELATIVE off ''BdsB1cB2aTimeBias'' - QMI_IDL_OFFSET16RELATIVE off ''BdsB1cB2aTimeBias_valid''), 0x3C, QMI_IDL_FLAGS_OFFSET_IS_16 OR QMI_IDL_AGGREGATE] @ QMI_IDL_OFFSET16ARRAY off ''BdsB1cB2aTimeBias'' @ QMI_IDL_TYPE88 0 62 @
      [QMI_IDL_TLV_FLAGS_OPTIONAL OR (QMI_IDL_OFFSET16RELATIVE off ''bdsB1cNavicInterSystemBias'' - QMI_IDL_OFFSET16RELATIVE off ''bdsB1cNavicInterSystemBias_valid''), 0x3D, QMI_IDL_FLAGS_OFFSET_IS_16 OR QMI_IDL_AGGREGATE] @ QMI_IDL_OFFSET16ARRAY off ''bdsB1cNavicInterSystemBias'' @ QMI_IDL_TYPE88 0 62 @
      [QMI_IDL_TLV_FLAGS_OPTIONAL OR (QMI_IDL_OFFSET16RELATIVE off ''BdsB1iB2biTimeBias'' - QMI_IDL_OFFSET16RELATIVE off ''BdsB1iB2biTimeBias_valid''), 0x3E, QMI_IDL_FLAGS_OFFSET_IS_16 OR QMI_IDL_AGGREGATE] @ QMI_IDL_OFFSET16ARRAY off ''BdsB1iB2biTimeBias'' @ QMI_IDL_TYPE88 0 62 @
      [QMI_IDL_TLV_FLAGS_OPTIONAL OR (QMI_IDL_OFFSET16RELATIVE off ''jammedSignalsMask'' - QMI_IDL_OFFSET16RELATIVE off ''jammedSignalsMask_valid''), 0x3F, QMI_IDL_FLAGS_OFFSET_IS_16 OR QMI_IDL_GENERIC_8_BYTE] @ QMI_IDL_OFFSET16ARRAY off ''jammedSignalsMask'' @
      [QMI_IDL_TLV_FLAGS_OPTIONAL OR (QMI_IDL_OFFSET16RELATIVE off ''gnssLeapSecond'' - QMI_IDL_OFFSET16RELATIVE off ''gnssLeapSecond_valid''), 0x40, QMI_IDL_FLAGS_OFFSET_IS_16 OR QMI_IDL_GENERIC_1_BYTE] @ QMI_IDL_OFFSET16ARRAY off ''gnssLeapSecond'' @
      [QMI_IDL_TLV_FLAGS_OPTIONAL OR (QMI_IDL_OFFSET16RELATIVE off ''gnssLeapSecondUnc'' - QMI_IDL_OFFSET16RELATIVE off ''gnssLeapSecondUnc_valid''), 0x41, QMI_IDL_FLAGS_OFFSET_IS_16 OR QMI_IDL_GENERIC_1_BYTE] @ QMI_IDL_OFFSET16ARRAY off ''gnssLeapSecondUnc'' @
      [QMI_IDL_TLV_FLAGS_OPTIONAL OR (QMI_IDL_OFFSET16RELATIVE off ''mlInferSvMeasurement'' - QMI_IDL_OFFSET16RELATIVE off ''mlInferSvMeasurement_valid''), 0x42, QMI_IDL_FLAGS_IS_ARRAY OR QMI_IDL_FLAGS_IS_VARIABLE_LEN OR QMI_IDL_FLAGS_OFFSET_IS_16 OR QMI_IDL_AGGREGATE] @ QMI_IDL_OFFSET16ARRAY off ''mlInferSvMeasurement'' @
      [QMI_LOC_ML_INFER_SV_MEAS_LIST_MAX_SIZE_V02, QMI_IDL_OFFSET16RELATIVE off ''mlInferSvMeasurement'' - QMI_IDL_OFFSET16RELATIVE off ''mlInferSvMeasurement_len''] @ QMI_IDL_TYPE88 0 68 @
      [QMI_IDL_TLV_FLAGS_OPTIONAL OR (QMI_IDL_OFFSET16RELATIVE off ''agcStatus'' - QMI_IDL_OFFSET16RELATIVE off ''agcStatus_valid''), 0x43, QMI_IDL_FLAGS_OFFSET_IS_16 OR QMI_IDL_GENERIC_4_BYTE] @ QMI_IDL_OFFSET16ARRAY off ''agcStatus'' @
      [QMI_IDL_TLV_FLAGS_LAST_TLV OR QMI_IDL_TLV_FLAGS_OPTIONAL OR (QMI_IDL_OFFSET16RELATIVE off ''navicL5L1TimeBias'' - QMI_IDL_OFFSET16RELATIVE off ''navicL5L1TimeBias_valid''), 0x44, QMI_IDL_FLAGS_OFFSET_IS_16 OR QMI_IDL_AGGREGATE] @ QMI_IDL_OFFSET16ARRAY off ''navicL5L1TimeBias'' @ QMI_IDL_TYPE88 0 62))"

definition qmiLocEventGnssSvPolyIndMsgT_data_v02 :: "int list" where
  "qmiLocEventGnssSvPolyIndMsgT_data_v02 =
    (let off = offsetof qmiLocEventGnssSvPolyIndMsgT_v02 in uint8_array (
      [0x01, QMI_IDL_GENERIC_2_BYTE, QMI_IDL_OFFSET8 off ''gnssSvId'',
       0x02, QMI_IDL_GENERIC_8_BYTE, QMI_IDL_OFFSET8 off ''T0'',
       0x03, QMI_IDL_GENERIC_2_BYTE, QMI_IDL_OFFSET8 off ''svPolyFlagValid'',
       0x04, QMI_IDL_GENERIC_2_BYTE, QMI_IDL_OFFSET8 off ''svPolyFlags'',
       QMI_IDL_TLV_FLAGS_OPTIONAL OR (QMI_IDL_OFFSET8 off ''polyCoeffXYZ0'' - QMI_IDL_OFFSET8 off ''polyCoeffXYZ0_valid''), 0x10, QMI_IDL_FLAGS_IS_ARRAY OR QMI_IDL_GENERIC_8_BYTE, QMI_IDL_OFFSET8 off ''polyCoeffXYZ0'', QMI_LOC_SV_POLY_XYZ_0_TH_ORDER_COEFF_SIZE_V02,
       QMI_IDL_TLV_FLAGS_OPTIONAL OR (QMI_IDL_OFFSET8 off ''polyCoefXYZN'' - QMI_IDL_OFFSET8 off ''polyCoefXYZN_valid''), 0x11, QMI_IDL_FLAGS_IS_ARRAY OR QMI_IDL_GENERIC_8_BYTE, QMI_IDL_OFFSET8 off ''polyCoefXYZN'', QMI_LOC_SV_POLY_XYZ_N_TH_ORDER_COEFF_SIZE_V02,
       QMI_IDL_TLV_FLAGS_OPTIONAL OR (QMI_IDL_OFFSET8 off ''polyCoefClockBias'' - QMI_IDL_OFFSET8 off ''polyCoefClockBias_valid''), 0x12, QMI_IDL_FLAGS_IS_ARRAY OR QMI_IDL_GENERIC_4_BYTE, QMI_IDL_OFFSET8 off ''polyCoefClockBias'', QMI_LOC_SV_POLY_SV_CLKBIAS_COEFF_SIZE_V02,
       QMI_IDL_TLV_FLAGS_OPTIONAL OR (QMI_IDL_OFFSET8 off ''gloFrequency'' - QMI_IDL_OFFSET8 off ''gloFrequency_valid''), 0x13, QMI_IDL_GENERIC_1_BYTE, QMI_IDL_OFFSET8 off ''gloFrequency'',
       QMI_IDL_TLV_FLAGS_OPTIONAL OR (QMI_IDL_OFFSET8 off ''IODE'' - QMI_IDL_OFFSET8 off ''IODE_valid''), 0x14, QMI_IDL_GENERIC_2_BYTE, QMI_IDL_OFFSET8 off ''IODE'',
       QMI_IDL_TLV_FLAGS_OPTIONAL OR (QMI_IDL_OFFSET8 off ''enhancedIOD'' - QMI_IDL_OFFSET8 off ''enhancedIOD_valid''), 0x15, QMI_IDL_GENERIC_4_BYTE, QMI_IDL_OFFSET8 off ''enhancedIOD'',
       QMI_IDL_TLV_FLAGS_OPTIONAL OR (QMI_IDL_OFFSET8 off ''svPosUnc'' - QMI_IDL_OFFSET8 off ''svPosUnc_valid''), 0x16, QMI_IDL_GENERIC_4_BYTE, QMI_IDL_OFFSET8 off ''svPosUnc'',
       QMI_IDL_TLV_FLAGS_OPTIONAL OR (QMI_IDL_OFFSET8 off ''ionoDelay'' - QMI_IDL_OFFSET8 off ''ionoDelay_valid''), 0x17, QMI_IDL_GENERIC_4_BYTE, QMI_IDL_OFFSET8 off ''ionoDelay'',
       QMI_IDL_TLV_FLAGS_OPTIONAL OR (QMI_IDL_OFFSET8 off ''ionoDot'' - QMI_IDL_OFFSET8 off ''ionoDot_valid''), 0x18, QMI_IDL_GENERIC_4_BYTE, QMI_IDL_OFFSET8 off ''ionoDot'',
       QMI_IDL_TLV_FLAGS_OPTIONAL OR (QMI_IDL_OFFSET8 off ''sbasIonoDelay'' - QMI_IDL_OFFSET8 off ''sbasIonoDelay_valid''), 0x19, QMI_IDL_GENERIC_4_BYTE, QMI_IDL_OFFSET8 off ''sbasIonoDelay'',
       QMI_IDL_TLV_FLAGS_OPTIONAL OR (QMI_IDL_OFFSET8 off ''sbasIonoDot'' - QMI_IDL_OFFSET8 off ''sbasIonoDot_valid''), 0x1A, QMI_IDL_GENERIC_4_BYTE, QMI_IDL_OFFSET8 off ''sbasIonoDot'',
       QMI_IDL_TLV_FLAGS_OPTIONAL OR (QMI_IDL_OFFSET8 off ''tropoDelay'' - QMI_IDL_OFFSET8 off ''tropoDelay_valid''), 0x1B, QMI_IDL_GENERIC_4_BYTE, QMI_IDL_OFFSET8 off ''tropoDelay'',
       QMI_IDL_TLV_FLAGS_OPTIONAL OR (QMI_IDL_OFFSET16RELATIVE off ''elevation'' - QMI_IDL_OFFSET16RELATIVE off ''elevation_valid''), 0x1C, QMI_IDL_FLAGS_OFFSET_IS_16 OR QMI_IDL_GENERIC_4_BYTE] @ QMI_IDL_OFFSET16ARRAY off ''elevation'' @
      [QMI_IDL_TLV_FLAGS_OPTIONAL OR (QMI_IDL_OFFSET16RELATIVE off ''elevationDot'' - QMI_IDL_OFFSET16RELATIVE off ''elevationDot_valid''), 0x1D, QMI_IDL_FLAGS_OFFSET_IS_16 OR QMI_IDL_GENERIC_4_BYTE] @ QMI_IDL_OFFSET16ARRAY off ''elevationDot'' @
      [QMI_IDL_TLV_FLAGS_OPTIONAL OR (QMI_IDL_OFFSET16RELATIVE off ''elenationUnc'' - QMI_IDL_OFFSET16RELATIVE off ''elenationUnc_valid''), 0x1E, QMI_IDL_FLAGS_OFFSET_IS_16 OR QMI_IDL_GENERIC_4_BYTE] @ QMI_IDL_OFFSET16ARRAY off ''elenationUnc'' @
      [QMI_IDL_TLV_FLAGS_OPTIONAL OR (QMI_IDL_OFFSET16RELATIVE off ''velCoef'' - QMI_IDL_OFFSET16RELATIVE off ''velCoef_valid''), 0x1F, QMI_IDL_FLAGS_IS_ARRAY OR QMI_IDL_FLAGS_OFFSET_IS_16 OR QMI_IDL_GENERIC_8_BYTE] @ QMI_IDL_OFFSET16ARRAY off ''velCoef'' @
      [QMI_LOC_SV_POLY_VELOCITY_COEF_SIZE_V02,
       QMI_IDL_TLV_FLAGS_OPTIONAL OR (QMI_IDL_OFFSET16RELATIVE off ''gpsIscL1ca'' - QMI_IDL_OFFSET16RELATIVE off ''gpsIscL1ca_valid''), 0x20, QMI_IDL_FLAGS_OFFSET_IS_16 OR QMI_IDL_GENERIC_4_BYTE] @ QMI_IDL_OFFSET16ARRAY off ''gpsIscL1ca'' @
      [QMI_IDL_TLV_FLAGS_OPTIONAL OR (QMI_IDL_OFFSET16RELATIVE off ''gpsIscL2c'' - QMI_IDL_OFFSET16RELATIVE off ''gpsIscL2c_valid''), 0x21, QMI_IDL_FLAGS_OFFSET_IS_16 OR QMI_IDL_GENERIC_4_BYTE] @ QMI_IDL_OFFSET16ARRAY off ''gpsIscL2c'' @
      [QMI_IDL_TLV_FLAGS_OPTIONAL OR (QMI_IDL_OFFSET16RELATIVE off ''gpsIscL5I5'' - QMI_IDL_OFFSET16RELATIVE off ''gpsIscL5I5_valid''), 0x22, QMI_IDL_FLAGS_OFFSET_IS_16 OR QMI_IDL_GENERIC_4_BYTE] @ QMI_IDL_OFFSET16ARRAY off ''gpsIscL5I5'' @
      [QMI_IDL_TLV_FLAGS_OPTIONAL OR (QMI_IDL_OFFSET16RELATIVE off ''gpsIscL5Q5'' - QMI_IDL_OFFSET16RELATIVE off ''gpsIscL5Q5_valid''), 0x23, QMI_IDL_FLAGS_OFFSET_IS_16 OR QMI_IDL_GENERIC_4_BYTE] @ QMI_IDL_OFFSET16ARRAY off ''gpsIscL5Q5'' @
      [QMI_IDL_TLV_FLAGS_OPTIONAL OR (QMI_IDL_OFFSET16RELATIVE off ''gpsTgd'' - QMI_IDL_OFFSET16RELATIVE off ''gpsTgd_valid''), 0x24, QMI_IDL_FLAGS_OFFSET_IS_16 OR QMI_IDL_GENERIC_4_BYTE] @ QMI_IDL_OFFSET16ARRAY off ''gpsTgd'' @
      [QMI_IDL_TLV_FLAGS_OPTIONAL OR (QMI_IDL_OFFSET16RELATIVE off ''gloTgdG1G2'' - QMI_IDL_OFFSET16RELATIVE off ''gloTgdG1G2_valid''), 0x25, QMI_IDL_FLAGS_OFFSET_IS_16 OR QMI_IDL_GENERIC_4_BYTE] @ QMI_IDL_OFFSET16ARRAY off ''gloTgdG1G2'' @
      [QMI_IDL_TLV_FLAGS_OPTIONAL OR (QMI_IDL_OFFSET16RELATIVE off ''bdsTgdB1'' - QMI_IDL_OFFSET16RELATIVE off ''bdsTgdB1_valid''), 0x26, QMI_IDL_FLAGS_OFFSET_IS_16 OR QMI_IDL_GENERIC_4_BYTE] @ QMI_IDL_OFFSET16ARRAY off ''bdsTgdB1'' @
      [QMI_IDL_TLV_FLAGS_OPTIONAL OR (QMI_IDL_OFFSET16RELATIVE off ''bdsTgdB2'' - QMI_IDL_OFFSET16RELATIVE off ''bdsTgdB2_valid''), 0x27, QMI_IDL_FLAGS_OFFSET_IS_16 OR QMI_IDL_GENERIC_4_BYTE] @ QMI_IDL_OFFSET16ARRAY off ''bdsTgdB2'' @
      [QMI_IDL_TLV_FLAGS_OPTIONAL OR (QMI_IDL_OFFSET16RELATIVE off ''bdsTgdB2a'' - QMI_IDL_OFFSET16RELATIVE off ''bdsTgdB2a_valid''), 0x28, QMI_IDL_FLAGS_OFFSET_IS_16 OR QMI_IDL_GENERIC_4_BYTE] @ QMI_IDL_OFFSET16ARRAY off ''bdsTgdB2a'' @
      [QMI_IDL_TLV_FLAGS_OPTIONAL OR (QMI_IDL_OFFSET16RELATIVE off ''bdsIscB2a'' - QMI_IDL_OFFSET16RELATIVE off ''bdsIscB2a_valid''), 0x29, QMI_IDL_FLAGS_OFFSET_IS_16 OR QMI_IDL_GENERIC_4_BYTE] @ QMI_IDL_OFFSET16ARRAY off ''bdsIscB2a'' @
      [QMI_IDL_TLV_FLAGS_OPTIONAL OR (QMI_IDL_OFFSET16RELATIVE off ''galBgdE1E5a'' - QMI_IDL_OFFSET16RELATIVE off ''galBgdE1E5a_valid''), 0x2A, QMI_IDL_FLAGS_OFFSET_IS_16 OR QMI_IDL_GENERIC_4_BYTE] @ QMI_IDL_OFFSET16ARRAY off ''galBgdE1E5a'' @
      [QMI_IDL_TLV_FLAGS_OPTIONAL OR (QMI_IDL_OFFSET16RELATIVE off ''galBgdE1E5b'' - QMI_IDL_OFFSET16RELATIVE off ''galBgdE1E5b_valid''), 0x2B, QMI_IDL_FLAGS_OFFSET_IS_16 OR QMI_IDL_GENERIC_4_BYTE] @ QMI_IDL_OFFSET16ARRAY off ''galBgdE1E5b'' @
      [QMI_IDL_TLV_FLAGS_OPTIONAL OR (QMI_IDL_OFFSET16RELATIVE off ''navicTgdL5'' - QMI_IDL_OFFSET16RELATIVE off ''navicTgdL5_valid''), 0x2C, QMI_IDL_FLAGS_OFFSET_IS_16 OR QMI_IDL_GENERIC_4_BYTE] @ QMI_IDL_OFFSET16ARRAY off ''navicTgdL5'' @
      [QMI_IDL_TLV_FLAGS_OPTIONAL OR (QMI_IDL_OFFSET16RELATIVE off ''bdsTgdB1c'' - QMI_IDL_OFFSET16RELATIVE off ''bdsTgdB1c_valid''), 0x2D, QMI_IDL_FLAGS_OFFSET_IS_16 OR QMI_IDL_GENERIC_4_BYTE] @ QMI_IDL_OFFSET16ARRAY off ''bdsTgdB1c'' @
      [QMI_IDL_TLV_FLAGS_OPTIONAL OR (QMI_IDL_OFFSET16RELATIVE off ''bdsIscB1c'' - QMI_IDL_OFFSET16RELATIVE off ''bdsIscB1c_valid''), 0x2E, QMI_IDL_FLAGS_OFFSET_IS_16 OR QMI_IDL_GENERIC_4_BYTE] @ QMI_IDL_OFFSET16ARRAY off ''bdsIscB1c'' @
      [QMI_IDL_TLV_FLAGS_OPTIONAL OR (QMI_IDL_OFFSET16RELATIVE off ''multibandHealth'' - QMI_IDL_OFFSET16RELATIVE off ''multibandHealth_valid''), 0x2F, QMI_IDL_FLAGS_OFFSET_IS_16 OR QMI_IDL_GENERIC_8_BYTE] @ QMI_IDL_OFFSET16ARRAY off ''multibandHealth'' @
      [QMI_IDL_TLV_FLAGS_OPTIONAL OR (QMI_IDL_OFFSET16RELATIVE off ''bdsTgdB2bi'' - QMI_IDL_OFFSET16RELATIVE off ''bdsTgdB2bi_valid''), 0x30, QMI_IDL_FLAGS_OFFSET_IS_16 OR QMI_IDL_GENERIC_4_BYTE] @ QMI_IDL_OFFSET16ARRAY off ''bdsTgdB2bi'' @
      [QMI_IDL_TLV_FLAGS_OPTIONAL OR (QMI_IDL_OFFSET16RELATIVE off ''bdsIscB2bi'' - QMI_IDL_OFFSET16RELATIVE off ''bdsIscB2bi_valid''), 0x31, QMI_IDL_FLAGS_OFFSET_IS_16 OR QMI_IDL_GENERIC_4_BYTE] @ QMI_IDL_OFFSET16ARRAY off ''bdsIscB2bi'' @
      [QMI_IDL_TLV_FLAGS_OPTIONAL OR (QMI_IDL_OFFSET16RELATIVE off ''toc'' - QMI_IDL_OFFSET16RELATIVE off ''toc_valid''), 0x32, QMI_IDL_FLAGS_OFFSET_IS_16 OR QMI_IDL_GENERIC_4_BYTE] @ QMI_IDL_OFFSET16ARRAY off ''toc'' @
      [QMI_IDL_TLV_FLAGS_OPTIONAL OR (QMI_IDL_OFFSET16RELATIVE off ''IODC'' - QMI_IDL_OFFSET16RELATIVE off ''IODC_valid''), 0x33, QMI_IDL_FLAGS_OFFSET_IS_16 OR QMI_IDL_GENERIC_2_BYTE] @ QMI_IDL_OFFSET16ARRAY off ''IODC'' @
      [QMI_IDL_TLV_FLAGS_OPTIONAL OR (QMI_IDL_OFFSET16RELATIVE off ''toe'' - QMI_IDL_OFFSET16RELATIVE off ''toe_valid''), 0x34, QMI_IDL_FLAGS_OFFSET_IS_16 OR QMI_IDL_GENERIC_4_BYTE] @ QMI_IDL_OFFSET16ARRAY off ''toe'' @
      [QMI_IDL_TLV_FLAGS_OPTIONAL OR (QMI_IDL_OFFSET16RELATIVE off ''ephemerisSrc'' - QMI_IDL_OFFSET16RELATIVE off ''ephemerisSrc_valid''), 0x35, QMI_IDL_FLAGS_OFFSET_IS_16 OR QMI_IDL_GENERIC_4_BYTE] @ QMI_IDL_OFFSET16ARRAY off ''ephemerisSrc'' @
      [QMI_IDL_TLV_FLAGS_OPTIONAL OR (QMI_IDL_OFFSET16RELATIVE off ''polyOrder'' - QMI_IDL_OFFSET16RELATIVE off ''polyOrder_valid''), 0x36, QMI_IDL_FLAGS_OFFSET_IS_16 OR QMI_IDL_GENERIC_1_BYTE] @ QMI_IDL_OFFSET16ARRAY off ''polyOrder'' @
      [QMI_IDL_TLV_FLAGS_OPTIONAL OR (QMI_IDL_OFFSET16RELATIVE off ''validDuration'' - QMI_IDL_OFFSET16RELATIVE off ''validDuration_valid''), 0x37, QMI_IDL_FLAGS_OFFSET_IS_16 OR QMI_IDL_GENERIC_2_BYTE] @ QMI_IDL_OFFSET16ARRAY off ''validDuration'' @
      [QMI_IDL_TLV_FLAGS_OPTIONAL OR (QMI_IDL_OFFSET16RELATIVE off ''polyCoeffXYZ'' - QMI_IDL_OFFSET16RELATIVE off ''polyCoeffXYZ_valid''), 0x38, QMI_IDL_FLAGS_IS_ARRAY OR QMI_IDL_FLAGS_IS_VARIABLE_LEN OR QMI_IDL_FLAGS_OFFSET_IS_16 OR QMI_IDL_GENERIC_8_BYTE] @ QMI_IDL_OFFSET16ARRAY off ''polyCoeffXYZ'' @
      [QMI_LOC_SV_POLY_XYZ_COEFF_SIZE_MAX_V02, QMI_IDL_OFFSET16RELATIVE off ''polyCoeffXYZ'' - QMI_IDL_OFFSET16RELATIVE off ''polyCoeffXYZ_len'',
       QMI_IDL_TLV_FLAGS_OPTIONAL OR (QMI_IDL_OFFSET16RELATIVE off ''polyClockBias'' - QMI_IDL_OFFSET16RELATIVE off ''polyClockBias_valid''), 0x39, QMI_IDL_FLAGS_IS_ARRAY OR QMI_IDL_FLAGS_IS_VARIABLE_LEN OR QMI_IDL_FLAGS_OFFSET_IS_16 OR QMI_IDL_GENERIC_8_BYTE] @ QMI_IDL_OFFSET16ARRAY off ''polyClockBias'' @
      [QMI_LOC_SV_POLY_SV_CLKBIAS_COEFF_SIZE_MAX_V02, QMI_IDL_OFFSET16RELATIVE off ''polyClockBias'' - QMI_IDL_OFFSET16RELATIVE off ''polyClockBias_len'',
       QMI_IDL_TLV_FLAGS_OPTIONAL OR (QMI_IDL_OFFSET16RELATIVE off ''navicTgdL1'' - QMI_IDL_OFFSET16RELATIVE off ''navicTgdL1_valid''), 0x3A, QMI_IDL_FLAGS_OFFSET_IS_16 OR QMI_IDL_GENERIC_4_BYTE] @ QMI_IDL_OFFSET16ARRAY off ''navicTgdL1'' @
      [QMI_IDL_TLV_FLAGS_OPTIONAL OR (QMI_IDL_OFFSET16RELATIVE off ''navicIscL1D'' - QMI_IDL_OFFSET16RELATIVE off ''navicIscL1D_valid''), 0x3B, QMI_IDL_FLAGS_OFFSET_IS_16 OR QMI_IDL_GENERIC_4_BYTE] @ QMI_IDL_OFFSET16ARRAY off ''navicIscL1D'' @
      [QMI_IDL_TLV_FLAGS_OPTIONAL OR (QMI_IDL_OFFSET16RELATIVE off ''navicIscL1P'' - QMI_IDL_OFFSET16RELATIVE off ''navicIscL1P_valid''), 0x3C, QMI_IDL_FLAGS_OFFSET_IS_16 OR QMI_IDL_GENERIC_4_BYTE] @ QMI_IDL_OFFSET16ARRAY off ''navicIscL1P'' @
      [QMI_IDL_TLV_FLAGS_LAST_TLV OR QMI_IDL_TLV_FLAGS_OPTIONAL OR (QMI_IDL_OFFSET16RELATIVE off ''sbasCorrUnc'' - QMI_IDL_OFFSET16RELATIVE off ''sbasCorrUnc_valid''), 0x3D, QMI_IDL_FLAGS_OFFSET_IS_16 OR QMI_IDL_GENERIC_4_BYTE] @ QMI_IDL_OFFSET16ARRAY off ''sbasCorrUnc''))"

definition qmiLocAddGeofenceContextReqMsgT_data_v02 :: "int list" where
  "qmiLocAddGeofenceContextReqMsgT_data_v02 =
    (let off = offsetof qmiLocAddGeofenceContextReqMsgT_v02 in uint8_array (
      [0x01, QMI_IDL_GENERIC_4_BYTE, QMI_IDL_OFFSET8 off ''transactionId'',
       QMI_IDL_TLV_FLAGS_OPTIONAL OR (QMI_IDL_OFFSET8 off ''geofenceId'' - QMI_IDL_OFFSET8 off ''geofenceId_valid''), 0x10, QMI_IDL_GENERIC_4_BYTE, QMI_IDL_OFFSET8 off ''geofenceId'',
       QMI_IDL_TLV_FLAGS_OPTIONAL OR (QMI_IDL_OFFSET8 off ''wifiApSsidInfo'' - QMI_IDL_OFFSET8 off ''wifiApSsidInfo_valid''), 0x11, QMI_IDL_FLAGS_IS_ARRAY OR QMI_IDL_FLAGS_IS_VARIABLE_LEN OR QMI_IDL_AGGREGATE, QMI_IDL_OFFSET8 off ''wifiApSsidInfo'', QMI_LOC_WIFI_AREA_ID_LIST_LENGTH_V02, QMI_IDL_OFFSET8 off ''wifiApSsidInfo'' - QMI_IDL_OFFSET8 off ''wifiApSsidInfo_len''] @ QMI_IDL_TYPE88 0 40 @
      [QMI_IDL_TLV_FLAGS_OPTIONAL OR (QMI_IDL_OFFSET16RELATIVE off ''wifiApMacAddressList'' - QMI_IDL_OFFSET16RELATIVE off ''wifiApMacAddressList_valid''), 0x12, QMI_IDL_FLAGS_IS_ARRAY OR QMI_IDL_FLAGS_IS_VARIABLE_LEN OR QMI_IDL_FLAGS_OFFSET_IS_16 OR QMI_IDL_AGGREGATE] @ QMI_IDL_OFFSET16ARRAY off ''wifiApMacAddressList'' @
      [QMI_LOC_WIFI_AREA_ID_LIST_LENGTH_V02, QMI_IDL_OFFSET16RELATIVE off ''wifiApMacAddressList'' - QMI_IDL_OFFSET16RELATIVE off ''wifiApMacAddressList_len''] @ QMI_IDL_TYPE88 0 69 @
      [QMI_IDL_TLV_FLAGS_OPTIONAL OR (QMI_IDL_OFFSET16RELATIVE off ''tdsCdmaCellIDList'' - QMI_IDL_OFFSET16RELATIVE off ''tdsCdmaCellIDList_valid''), 0x13, QMI_IDL_FLAGS_IS_ARRAY OR QMI_IDL_FLAGS_OFFSET_IS_16 OR QMI_IDL_AGGREGATE] @ QMI_IDL_OFFSET16ARRAY off ''tdsCdmaCellIDList'' @
      [QMI_LOC_CELL_ID_LIST_LENGTH_V02] @ QMI_IDL_TYPE88 0 52 @
      [QMI_IDL_TLV_FLAGS_OPTIONAL OR (QMI_IDL_OFFSET16RELATIVE off ''wcdmaCellIDList'' - QMI_IDL_OFFSET16RELATIVE off ''wcdmaCellIDList_valid''), 0x14, QMI_IDL_FLAGS_IS_ARRAY OR QMI_IDL_FLAGS_IS_VARIABLE_LEN OR QMI_IDL_FLAGS_OFFSET_IS_16 OR QMI_IDL_AGGREGATE] @ QMI_IDL_OFFSET16ARRAY off ''wcdmaCellIDList'' @
      [QMI_LOC_CELL_ID_LIST_LENGTH_V02, QMI_IDL_OFFSET16RELATIVE off ''wcdmaCellIDList'' - QMI_IDL_OFFSET16RELATIVE off ''wcdmaCellIDList_len''] @ QMI_IDL_TYPE88 0 51 @
      [QMI_IDL_TLV_FLAGS_OPTIONAL OR (QMI_IDL_OFFSET16RELATIVE off ''gsmCellIDList'' - QMI_IDL_OFFSET16RELATIVE off ''gsmCellIDList_valid''), 0x15, QMI_IDL_FLAGS_IS_ARRAY OR QMI_IDL_FLAGS_IS_VARIABLE_LEN OR QMI_IDL_FLAGS_OFFSET_IS_16 OR QMI_IDL_AGGREGATE] @ QMI_IDL_OFFSET16ARRAY off ''gsmCellIDList'' @
      [QMI_LOC_CELL_ID_LIST_LENGTH_V02, QMI_IDL_OFFSET16RELATIVE off ''gsmCellIDList'' - QMI_IDL_OFFSET16RELATIVE off ''gsmCellIDList_len''] @ QMI_IDL_TYPE88 0 50 @
      [QMI_IDL_TLV_FLAGS_LAST_TLV OR QMI_IDL_TLV_FLAGS_OPTIONAL OR (QMI_IDL_OFFSET16RELATIVE off ''iBeaconList'' - QMI_IDL_OFFSET16RELATIVE off ''iBeaconList_valid''), 0x16, QMI_IDL_FLAGS_IS_ARRAY OR QMI_IDL_FLAGS_IS_VARIABLE_LEN OR QMI_IDL_FLAGS_OFFSET_IS_16 OR QMI_IDL_AGGREGATE] @ QMI_IDL_OFFSET16ARRAY off ''iBeaconList'' @
      [QMI_LOC_IBEACON_LIST_LENGTH_V02, QMI_IDL_OFFSET16RELATIVE off ''iBeaconList'' - QMI_IDL_OFFSET16RELATIVE off ''iBeaconList_len''] @ QMI_IDL_TYPE88 0 70))"

definition qmiLocAddGeofenceContextIndMsgT_data_v02 :: "int list" where
  "qmiLocAddGeofenceContextIndMsgT_data_v02 =
    (let off = offsetof qmiLocAddGeofenceContextIndMsgT_v02 in uint8_array (
      [0x01, QMI_IDL_GENERIC_4_BYTE, QMI_IDL_OFFSET8 off ''status'',
       QMI_IDL_TLV_FLAGS_OPTIONAL OR (QMI_IDL_OFFSET8 off ''transactionId'' - QMI_IDL_OFFSET8 off ''transactionId_valid''), 0x10, QMI_IDL_GENERIC_4_BYTE, QMI_IDL_OFFSET8 off ''transactionId'',
       QMI_IDL_TLV_FLAGS_OPTIONAL OR (QMI_IDL_OFFSET8 off ''geofenceId'' - QMI_IDL_OFFSET8 off ''geofenceId_valid''), 0x11, QMI_IDL_GENERIC_4_BYTE, QMI_IDL_OFFSET8 off ''geofenceId'',
       QMI_IDL_TLV_FLAGS_LAST_TLV OR QMI_IDL_TLV_FLAGS_OPTIONAL OR (QMI_IDL_OFFSET8 off ''contextId'' - QMI_IDL_OFFSET8 off ''contextId_valid''), 0x12, QMI_IDL_GENERIC_4_BYTE, QMI_IDL_OFFSET8 off ''contextId'']))"

definition qmiLocSetGeofenceEngineContextReqMsgT_data_v02 :: "int list" where
  "qmiLocSetGeofenceEngineContextReqMsgT_data_v02 =
    (let off = offsetof qmiLocSetGeofenceEngineContextReqMsgT_v02 in uint8_array (
      [0x01, QMI_IDL_GENERIC_4_BYTE, QMI_IDL_OFFSET8 off ''transactionId'',
       QMI_IDL_TLV_FLAGS_OPTIONAL OR (QMI_IDL_OFFSET8 off ''utcTimeOfDay'' - QMI_IDL_OFFSET8 off ''utcTimeOfDay_valid''), 0x10, QMI_IDL_GENERIC_8_BYTE, QMI_IDL_OFFSET8 off ''utcTimeOfDay'',
       QMI_IDL_TLV_FLAGS_LAST_TLV OR QMI_IDL_TLV_FLAGS_OPTIONAL OR (QMI_IDL_OFFSET8 off ''temperature'' - QMI_IDL_OFFSET8 off ''temperature_valid''), 0x11, QMI_IDL_GENERIC_4_BYTE, QMI_IDL_OFFSET8 off ''temperature'']))"

definition qmiLocSetGeofenceEngineContextIndMsgT_data_v02 :: "int list" where
  "qmiLocSetGeofenceEngineContextIndMsgT_data_v02 =
    (let off = offsetof qmiLocSetGeofenceEngineContextIndMsgT_v02 in uint8_array (
      [0x01, QMI_IDL_GENERIC_4_BYTE, QMI_IDL_OFFSET8 off ''status'',
       QMI_IDL_TLV_FLAGS_LAST_TLV OR QMI_IDL_TLV_FLAGS_OPTIONAL OR (QMI_IDL_OFFSET8 off ''transactionId'' - QMI_IDL_OFFSET8 off ''transactionId_valid''), 0x10, QMI_IDL_GENERIC_4_BYTE, QMI_IDL_OFFSET8 off ''transactionId'']))"

definition qmiLocDeleteGeofenceContextReqMsgT_data_v02 :: "int list" where
  "qmiLocDeleteGeofenceContextReqMsgT_data_v02 =
    (let off = offsetof qmiLocDeleteGeofenceContextReqMsgT_v02 in uint8_array (
      [0x01, QMI_IDL_GENERIC_4_BYTE, QMI_IDL_OFFSET8 off ''transactionId'',
       0x02, QMI_IDL_GENERIC_4_BYTE, QMI_IDL_OFFSET8 off ''geofenceId'',
       QMI_IDL_TLV_FLAGS_LAST_TLV OR QMI_IDL_TLV_FLAGS_OPTIONAL OR (QMI_IDL_OFFSET8 off ''contextId'' - QMI_IDL_OFFSET8 off ''contextId_valid''), 0x10, QMI_IDL_GENERIC_4_BYTE, QMI_IDL_OFFSET8 off ''contextId'']))"

definition loc_message_table_v02_5 :: "qmi_idl_message_table_entry list" where
  "loc_message_table_v02_5 = [
    (qmiLocEventBatchFullIndMsgT_v02, Some qmiLocEventBatchFullIndMsgT_data_v02),
    (qmiLocEventLiveBatchedPositionReportIndMsgT_v02, Some qmiLocEventLiveBatchedPositionReportIndMsgT_data_v02),
    (qmiLocReadFromBatchReqMsgT_v02, Some qmiLocReadFromBatchReqMsgT_data_v02),
    (qmiLocReadFromBatchIndMsgT_v02, Some qmiLocReadFromBatchIndMsgT_data_v02),
    (qmiLocStopBatchingReqMsgT_v02, Some qmiLocStopBatchingReqMsgT_data_v02),
    (qmiLocStopBatchingIndMsgT_v02, Some qmiLocStopBatchingIndMsgT_data_v02),
    (qmiLocReleaseBatchReqMsgT_v02, Some qmiLocReleaseBatchReqMsgT_data_v02),
    (qmiLocReleaseBatchIndMsgT_v02, Some qmiLocReleaseBatchIndMsgT_data_v02),
    (qmiLocEventInjectWifiApDataReqIndMsgT_v02, Some qmiLocEventInjectWifiApDataReqIndMsgT_data_v02),
    (qmiLocInjectWifiApDataReqMsgT_v02, Some qmiLocInjectWifiApDataReqMsgT_data_v02),
    (qmiLocInjectWifiApDataIndMsgT_v02, Some qmiLocInjectWifiApDataIndMsgT_data_v02),
    (qmiLocNotifyWifiAttachmentStatusReqMsgT_v02, Some qmiLocNotifyWifiAttachmentStatusReqMsgT_data_v02),
    (qmiLocNotifyWifiAttachmentStatusIndMsgT_v02, Some qmiLocNotifyWifiAttachmentStatusIndMsgT_data_v02),
    (qmiLocNotifyWifiEnabledStatusReqMsgT_v02, Some qmiLocNotifyWifiEnabledStatusReqMsgT_data_v02),
    (qmiLocNotifyWifiEnabledStatusIndMsgT_v02, Some qmiLocNotifyWifiEnabledStatusIndMsgT_data_v02),
    (qmiLocEventVehicleDataReadyIndMsgT_v02, Some qmiLocEventVehicleDataReadyIndMsgT_data_v02),
    (qmiLocInjectVehicleSensorDataReqMsgT_v02, Some qmiLocInjectVehicleSensorDataReqMsgT_data_v02),
    (qmiLocInjectVehicleSensorDataIndMsgT_v02, Some qmiLocInjectVehicleSensorDataIndMsgT_data_v02),
    (qmiLocGetAvailWwanPositionReqMsgT_v02, Some qmiLocGetAvailWwanPositionReqMsgT_data_v02),
    (qmiLocGetAvailWwanPositionIndMsgT_v02, Some qmiLocGetAvailWwanPositionIndMsgT_data_v02),
    (qmiLocSetPremiumServicesCfgReqMsgT_v02, Some qmiLocSetPremiumServicesCfgReqMsgT_data_v02),
    (qmiLocSetPremiumServicesCfgIndMsgT_v02, Some qmiLocSetPremiumServicesCfgIndMsgT_data_v02),
    (qmiLocSetXtraVersionCheckReqMsgT_v02, Some qmiLocSetXtraVersionCheckReqMsgT_data_v02),
    (qmiLocSetXtraVersionCheckIndMsgT_v02, Some qmiLocSetXtraVersionCheckIndMsgT_data_v02),
    (qmiLocSetGNSSConstRepConfigReqMsgT_v02, Some qmiLocSetGNSSConstRepConfigReqMsgT_data_v02),
    (qmiLocSetGNSSConstRepConfigIndMsgT_v02, Some qmiLocSetGNSSConstRepConfigIndMsgT_data_v02),
    (qmiLocEventGnssSvMeasInfoIndMsgT_v02, Some qmiLocEventGnssSvMeasInfoIndMsgT_data_v02),
    (qmiLocEventGnssSvPolyIndMsgT_v02, Some qmiLocEventGnssSvPolyIndMsgT_data_v02),
    (qmiLocAddGeofenceContextReqMsgT_v02, Some qmiLocAddGeofenceContextReqMsgT_data_v02),
    (qmiLocAddGeofenceContextIndMsgT_v02, Some qmiLocAddGeofenceContextIndMsgT_data_v02),
    (qmiLocSetGeofenceEngineContextReqMsgT_v02, Some qmiLocSetGeofenceEngineContextReqMsgT_data_v02),
    (qmiLocSetGeofenceEngineContextIndMsgT_v02, Some qmiLocSetGeofenceEngineContextIndMsgT_data_v02),
    (qmiLocDeleteGeofenceContextReqMsgT_v02, Some qmiLocDeleteGeofenceContextReqMsgT_data_v02)]"


end
