(* ===== verification/LocMessages3.thy ===== *)
theory LocMessages3
  imports LocTypeTable
begin

text \<open>
  The message table of \<open>loc_api/loc_api_v02/location_service_v02.c\<close> (part 3 of 4): the bytes that
  describe each message, and the rows of the table that pair them with the message structs.
\<close>

unbundle bit_operations_syntax

definition qmiLocDeleteGeofenceContextIndMsgT_data_v02 :: "int list" where
  "qmiLocDeleteGeofenceContextIndMsgT_data_v02 =
    (let off = offsetof qmiLocDeleteGeofenceContextIndMsgT_v02 in uint8_array (
      [0x01, QMI_IDL_GENERIC_4_BYTE, QMI_IDL_OFFSET8 off ''status'',
       QMI_IDL_TLV_FLAGS_OPTIONAL OR (QMI_IDL_OFFSET8 off ''transactionId'' - QMI_IDL_OFFSET8 off ''transactionId_valid''), 0x10, QMI_IDL_GENERIC_4_BYTE, QMI_IDL_OFFSET8 off ''transactionId'',
       QMI_IDL_TLV_FLAGS_OPTIONAL OR (QMI_IDL_OFFSET8 off ''geofenceId'' - QMI_IDL_OFFSET8 off ''geofenceId_valid''), 0x11, QMI_IDL_GENERIC_4_BYTE, QMI_IDL_OFFSET8 off ''geofenceId'',
       QMI_IDL_TLV_FLAGS_LAST_TLV OR QMI_IDL_TLV_FLAGS_OPTIONAL OR (QMI_IDL_OFFSET8 off ''contextId'' - QMI_IDL_OFFSET8 off ''contextId_valid''), 0x12, QMI_IDL_GENERIC_4_BYTE, QMI_IDL_OFFSET8 off ''contextId'']))"

definition qmiLocInjectGtpClientDownloadedDataReqMsgT_data_v02 :: "int list" where
  "qmiLocInjectGtpClientDownloadedDataReqMsgT_data_v02 =
    (let off = offsetof qmiLocInjectGtpClientDownloadedDataReqMsgT_v02 in uint8_array (
      [QMI_IDL_TLV_FLAGS_LAST_TLV OR 0x01, QMI_IDL_FLAGS_IS_ARRAY OR QMI_IDL_FLAGS_IS_VARIABLE_LEN OR QMI_IDL_FLAGS_SZ_IS_16 OR QMI_IDL_GENERIC_1_BYTE, QMI_IDL_OFFSET8 off ''ClientDownloadedData'', QMI_LOC_MAX_GTP_WWAN_CLIENT_DOWNLOADED_DATA_LEN_V02 AND 0xFF, drop_bit 8 QMI_LOC_MAX_GTP_WWAN_CLIENT_DOWNLOADED_DATA_LEN_V02, QMI_IDL_OFFSET8 off ''ClientDownloadedData'' - QMI_IDL_OFFSET8 off ''ClientDownloadedData_len'']))"

definition qmiLocInjectGtpClientDownloadedDataIndMsgT_data_v02 :: "int list" where
  "qmiLocInjectGtpClientDownloadedDataIndMsgT_data_v02 =
    (let off = offsetof qmiLocInjectGtpClientDownloadedDataIndMsgT_v02 in uint8_array (
      [QMI_IDL_TLV_FLAGS_LAST_TLV OR 0x01, QMI_IDL_GENERIC_4_BYTE, QMI_IDL_OFFSET8 off ''status'']))"

definition qmiLocGdtUploadBeginStatusReqMsgT_data_v02 :: "int list" where
  "qmiLocGdtUploadBeginStatusReqMsgT_data_v02 =
    (let off = offsetof qmiLocGdtUploadBeginStatusReqMsgT_v02 in uint8_array (
      [0x01, QMI_IDL_GENERIC_4_BYTE, QMI_IDL_OFFSET8 off ''serviceId'',
       0x02, QMI_IDL_GENERIC_4_BYTE, QMI_IDL_OFFSET8 off ''sessionId'',
       QMI_IDL_TLV_FLAGS_LAST_TLV OR 0x03, QMI_IDL_GENERIC_4_BYTE, QMI_IDL_OFFSET8 off ''gdtAccessStatus'']))"

definition qmiLocGdtUploadBeginStatusIndMsgT_data_v02 :: "int list" where
  "qmiLocGdtUploadBeginStatusIndMsgT_data_v02 =
    (let off = offsetof qmiLocGdtUploadBeginStatusIndMsgT_v02 in uint8_array (
      [QMI_IDL_TLV_FLAGS_LAST_TLV OR 0x01, QMI_IDL_GENERIC_4_BYTE, QMI_IDL_OFFSET8 off ''status'']))"

definition qmiLocGdtUploadEndReqMsgT_data_v02 :: "int list" where
  "qmiLocGdtUploadEndReqMsgT_data_v02 =
    (let off = offsetof qmiLocGdtUploadEndReqMsgT_v02 in uint8_array (
      [0x01, QMI_IDL_GENERIC_4_BYTE, QMI_IDL_OFFSET8 off ''serviceId'',
       0x02, QMI_IDL_GENERIC_4_BYTE, QMI_IDL_OFFSET8 off ''sessionId'',
       QMI_IDL_TLV_FLAGS_LAST_TLV OR 0x03, QMI_IDL_GENERIC_4_BYTE, QMI_IDL_OFFSET8 off ''gdtEndStatus'']))"

definition qmiLocGdtUploadEndIndMsgT_data_v02 :: "int list" where
  "qmiLocGdtUploadEndIndMsgT_data_v02 =
    (let off = offsetof qmiLocGdtUploadEndIndMsgT_v02 in uint8_array (
      [QMI_IDL_TLV_FLAGS_LAST_TLV OR 0x01, QMI_IDL_GENERIC_4_BYTE, QMI_IDL_OFFSET8 off ''status'']))"

definition qmiLocGtpApStatusReqMsgT_data_v02 :: "int list" where
  "qmiLocGtpApStatusReqMsgT_data_v02 =
    (let off = offsetof qmiLocGtpApStatusReqMsgT_v02 in uint8_array (
      [0x01, QMI_IDL_GENERIC_4_BYTE, QMI_IDL_OFFSET8 off ''gtpApDbStatus'',
       QMI_IDL_TLV_FLAGS_OPTIONAL OR (QMI_IDL_OFFSET8 off ''gtpApPcid64'' - QMI_IDL_OFFSET8 off ''gtpApPcid64_valid''), 0x10, QMI_IDL_GENERIC_8_BYTE, QMI_IDL_OFFSET8 off ''gtpApPcid64'',
       QMI_IDL_TLV_FLAGS_OPTIONAL OR (QMI_IDL_OFFSET8 off ''oemId'' - QMI_IDL_OFFSET8 off ''oemId_valid''), 0x11, QMI_IDL_FLAGS_IS_ARRAY OR QMI_IDL_FLAGS_IS_VARIABLE_LEN OR QMI_IDL_FLAGS_SZ_IS_16 OR QMI_IDL_GENERIC_1_BYTE, QMI_IDL_OFFSET8 off ''oemId'', QMI_LOC_MAX_OEM_ID_LEN_V02 AND 0xFF, drop_bit 8 QMI_LOC_MAX_OEM_ID_LEN_V02, QMI_IDL_OFFSET8 off ''oemId'' - QMI_IDL_OFFSET8 off ''oemId_len'',
       QMI_IDL_TLV_FLAGS_LAST_TLV OR QMI_IDL_TLV_FLAGS_OPTIONAL OR (QMI_IDL_OFFSET16RELATIVE off ''modelId'' - QMI_IDL_OFFSET16RELATIVE off ''modelId_valid''), 0x12, QMI_IDL_FLAGS_IS_ARRAY OR QMI_IDL_FLAGS_IS_VARIABLE_LEN OR QMI_IDL_FLAGS_SZ_IS_16 OR QMI_IDL_FLAGS_OFFSET_IS_16 OR QMI_IDL_GENERIC_1_BYTE] @ QMI_IDL_OFFSET16ARRAY off ''modelId'' @
      [QMI_LOC_MAX_MODEL_ID_LEN_V02 AND 0xFF, drop_bit 8 QMI_LOC_MAX_MODEL_ID_LEN_V02, QMI_IDL_OFFSET16RELATIVE off ''modelId'' - QMI_IDL_OFFSET16RELATIVE off ''modelId_len'']))"

definition qmiLocGtpApStatusIndMsgT_data_v02 :: "int list" where
  "qmiLocGtpApStatusIndMsgT_data_v02 =
    (let off = offsetof qmiLocGtpApStatusIndMsgT_v02 in uint8_array (
      [0x01, QMI_IDL_GENERIC_4_BYTE, QMI_IDL_OFFSET8 off ''status'',
       0x02, QMI_IDL_GENERIC_2_BYTE, QMI_IDL_OFFSET8 off ''clientSoftwareVersion'',
       QMI_IDL_TLV_FLAGS_LAST_TLV OR 0x03, QMI_IDL_AGGREGATE, QMI_IDL_OFFSET8 off ''asnVersion''] @ QMI_IDL_TYPE88 0 71))"

definition qmiLocGdtDownloadBeginStatusReqMsgT_data_v02 :: "int list" where
  "qmiLocGdtDownloadBeginStatusReqMsgT_data_v02 =
    (let off = offsetof qmiLocGdtDownloadBeginStatusReqMsgT_v02 in uint8_array (
      [0x01, QMI_IDL_GENERIC_4_BYTE, QMI_IDL_OFFSET8 off ''serviceId'',
       0x02, QMI_IDL_GENERIC_4_BYTE, QMI_IDL_OFFSET8 off ''sessionId'',
       0x03, QMI_IDL_GENERIC_4_BYTE, QMI_IDL_OFFSET8 off ''processingStatus'',
       QMI_IDL_TLV_FLAGS_OPTIONAL OR (QMI_IDL_OFFSET8 off ''wwanDownloadFlag'' - QMI_IDL_OFFSET8 off ''wwanDownloadFlag_valid''), 0x10, QMI_IDL_GENERIC_2_BYTE, QMI_IDL_OFFSET8 off ''wwanDownloadFlag'',
       QMI_IDL_TLV_FLAGS_OPTIONAL OR (QMI_IDL_OFFSET8 off ''respLocInfo'' - QMI_IDL_OFFSET8 off ''respLocInfo_valid''), 0x11, QMI_IDL_FLAGS_IS_ARRAY OR QMI_IDL_FLAGS_IS_VARIABLE_LEN OR QMI_IDL_FLAGS_SZ_IS_16 OR QMI_IDL_GENERIC_1_BYTE, QMI_IDL_OFFSET8 off ''respLocInfo'', QMI_LOC_MAX_GTP_RLI_LEN_V02 AND 0xFF, drop_bit 8 QMI_LOC_MAX_GTP_RLI_LEN_V02, QMI_IDL_OFFSET8 off ''respLocInfo'' - QMI_IDL_OFFSET8 off ''respLocInfo_len'',
       QMI_IDL_TLV_FLAGS_LAST_TLV OR QMI_IDL_TLV_FLAGS_OPTIONAL OR (QMI_IDL_OFFSET16RELATIVE off ''apRemainingThrottleTime'' - QMI_IDL_OFFSET16RELATIVE off ''apRemainingThrottleTime_valid''), 0x12, QMI_IDL_FLAGS_OFFSET_IS_16 OR QMI_IDL_GENERIC_4_BYTE] @ QMI_IDL_OFFSET16ARRAY off ''apRemainingThrottleTime''))"

definition qmiLocGdtDownloadBeginStatusIndMsgT_data_v02 :: "int list" where
  "qmiLocGdtDownloadBeginStatusIndMsgT_data_v02 =
    (let off = offsetof qmiLocGdtDownloadBeginStatusIndMsgT_v02 in uint8_array (
      [QMI_IDL_TLV_FLAGS_LAST_TLV OR 0x01, QMI_IDL_GENERIC_4_BYTE, QMI_IDL_OFFSET8 off ''status'']))"

definition qmiLocGdtDownloadReadyStatusReqMsgT_data_v02 :: "int list" where
  "qmiLocGdtDownloadReadyStatusReqMsgT_data_v02 =
    (let off = offsetof qmiLocGdtDownloadReadyStatusReqMsgT_v02 in uint8_array (
      [0x01, QMI_IDL_GENERIC_4_BYTE, QMI_IDL_OFFSET8 off ''serviceId'',
       0x02, QMI_IDL_GENERIC_4_BYTE, QMI_IDL_OFFSET8 off ''sessionId'',
       0x03, QMI_IDL_GENERIC_4_BYTE, QMI_IDL_OFFSET8 off ''status'',
       QMI_IDL_TLV_FLAGS_LAST_TLV OR 0x04, QMI_IDL_FLAGS_IS_ARRAY OR QMI_IDL_FLAGS_IS_VARIABLE_LEN OR QMI_IDL_GENERIC_1_BYTE, QMI_IDL_OFFSET8 off ''filePath'', QMI_LOC_MAX_GDT_PATH_LEN_V02, QMI_IDL_OFFSET8 off ''filePath'' - QMI_IDL_OFFSET8 off ''filePath_len'']))"

definition qmiLocGdtDownloadReadyStatusIndMsgT_data_v02 :: "int list" where
  "qmiLocGdtDownloadReadyStatusIndMsgT_data_v02 =
    (let off = offsetof qmiLocGdtDownloadReadyStatusIndMsgT_v02 in uint8_array (
      [QMI_IDL_TLV_FLAGS_LAST_TLV OR 0x01, QMI_IDL_GENERIC_4_BYTE, QMI_IDL_OFFSET8 off ''status'']))"

definition qmiLocGdtReceiveDoneStatusReqMsgT_data_v02 :: "int list" where
  "qmiLocGdtReceiveDoneStatusReqMsgT_data_v02 =
    (let off = offsetof qmiLocGdtReceiveDoneStatusReqMsgT_v02 in uint8_array (
      [0x01, QMI_IDL_GENERIC_4_BYTE, QMI_IDL_OFFSET8 off ''serviceId'',
       0x02, QMI_IDL_GENERIC_4_BYTE, QMI_IDL_OFFSET8 off ''sessionId'',
       QMI_IDL_TLV_FLAGS_LAST_TLV OR 0x03, QMI_IDL_GENERIC_4_BYTE, QMI_IDL_OFFSET8 off ''status'']))"

definition qmiLocGdtReceiveDoneStatusIndMsgT_data_v02 :: "int list" where
  "qmiLocGdtReceiveDoneStatusIndMsgT_data_v02 =
    (let off = offsetof qmiLocGdtReceiveDoneStatusIndMsgT_v02 in uint8_array (
      [QMI_IDL_TLV_FLAGS_LAST_TLV OR 0x01, QMI_IDL_GENERIC_4_BYTE, QMI_IDL_OFFSET8 off ''status'']))"

definition qmiLocGdtDownloadEndStatusReqMsgT_data_v02 :: "int list" where
  "qmiLocGdtDownloadEndStatusReqMsgT_data_v02 =
    (let off = offsetof qmiLocGdtDownloadEndStatusReqMsgT_v02 in uint8_array (
      [0x01, QMI_IDL_GENERIC_4_BYTE, QMI_IDL_OFFSET8 off ''serviceId'',
       0x02, QMI_IDL_GENERIC_4_BYTE, QMI_IDL_OFFSET8 off ''sessionId'',
       QMI_IDL_TLV_FLAGS_LAST_TLV OR 0x03, QMI_IDL_GENERIC_4_BYTE, QMI_IDL_OFFSET8 off ''status'']))"

definition qmiLocGdtDownloadEndStatusIndMsgT_data_v02 :: "int list" where
  "qmiLocGdtDownloadEndStatusIndMsgT_data_v02 =
    (let off = offsetof qmiLocGdtDownloadEndStatusIndMsgT_v02 in uint8_array (
      [QMI_IDL_TLV_FLAGS_LAST_TLV OR 0x01, QMI_IDL_GENERIC_4_BYTE, QMI_IDL_OFFSET8 off ''status'']))"

definition qmiLocStartDbtReqMsgT_data_v02 :: "int list" where
  "qmiLocStartDbtReqMsgT_data_v02 =
    (let off = offsetof qmiLocStartDbtReqMsgT_v02 in uint8_array (
      [0x01, QMI_IDL_GENERIC_1_BYTE, QMI_IDL_OFFSET8 off ''reqId'',
       0x02, QMI_IDL_GENERIC_4_BYTE, QMI_IDL_OFFSET8 off ''minDistance'',
       0x03, QMI_IDL_GENERIC_4_BYTE, QMI_IDL_OFFSET8 off ''distanceType'',
       0x04, QMI_IDL_GENERIC_1_BYTE, QMI_IDL_OFFSET8 off ''needOriginLocation'',
       QMI_IDL_TLV_FLAGS_OPTIONAL OR (QMI_IDL_OFFSET8 off ''maxLatency'' - QMI_IDL_OFFSET8 off ''maxLatency_valid''), 0x10, QMI_IDL_GENERIC_4_BYTE, QMI_IDL_OFFSET8 off ''maxLatency'',
       QMI_IDL_TLV_FLAGS_LAST_TLV OR QMI_IDL_TLV_FLAGS_OPTIONAL OR (QMI_IDL_OFFSET8 off ''usageType'' - QMI_IDL_OFFSET8 off ''usageType_valid''), 0x11, QMI_IDL_GENERIC_4_BYTE, QMI_IDL_OFFSET8 off ''usageType'']))"

definition qmiLocStartDbtIndMsgT_data_v02 :: "int list" where
  "qmiLocStartDbtIndMsgT_data_v02 =
    (let off = offsetof qmiLocStartDbtIndMsgT_v02 in uint8_array (
      [0x01, QMI_IDL_GENERIC_4_BYTE, QMI_IDL_OFFSET8 off ''status'',
       QMI_IDL_TLV_FLAGS_LAST_TLV OR QMI_IDL_TLV_FLAGS_OPTIONAL OR (QMI_IDL_OFFSET8 off ''reqId'' - QMI_IDL_OFFSET8 off ''reqId_valid''), 0x10, QMI_IDL_GENERIC_1_BYTE, QMI_IDL_OFFSET8 off ''reqId'']))"

definition qmiLocStopDbtReqMsgT_data_v02 :: "int list" where
  "qmiLocStopDbtReqMsgT_data_v02 =
    (let off = offsetof qmiLocStopDbtReqMsgT_v02 in uint8_array (
      [QMI_IDL_TLV_FLAGS_LAST_TLV OR 0x01, QMI_IDL_GENERIC_1_BYTE, QMI_IDL_OFFSET8 off ''reqId'']))"

definition qmiLocStopDbtIndMsgT_data_v02 :: "int list" where
  "qmiLocStopDbtIndMsgT_data_v02 =
    (let off = offsetof qmiLocStopDbtIndMsgT_v02 in uint8_array (
      [0x01, QMI_IDL_GENERIC_4_BYTE, QMI_IDL_OFFSET8 off ''status'',
       QMI_IDL_TLV_FLAGS_LAST_TLV OR QMI_IDL_TLV_FLAGS_OPTIONAL OR (QMI_IDL_OFFSET8 off ''reqId'' - QMI_IDL_OFFSET8 off ''reqId_valid''), 0x10, QMI_IDL_GENERIC_1_BYTE, QMI_IDL_OFFSET8 off ''reqId'']))"

definition qmiLocEventDbtPositionReportIndMsgT_data_v02 :: "int list" where
  "qmiLocEventDbtPositionReportIndMsgT_data_v02 =
    (let off = offsetof qmiLocEventDbtPositionReportIndMsgT_v02 in uint8_array (
      [0x01, QMI_IDL_GENERIC_1_BYTE, QMI_IDL_OFFSET8 off ''reqId'',
       0x02, QMI_IDL_AGGREGATE, QMI_IDL_OFFSET8 off ''dbtPosition''] @ QMI_IDL_TYPE88 0 72 @
      [0x03, QMI_IDL_GENERIC_4_BYTE, QMI_IDL_OFFSET8 off ''positionType'',
       QMI_IDL_TLV_FLAGS_OPTIONAL OR (QMI_IDL_OFFSET8 off ''headingUnc'' - QMI_IDL_OFFSET8 off ''headingUnc_valid''), 0x10, QMI_IDL_GENERIC_4_BYTE, QMI_IDL_OFFSET8 off ''headingUnc'',
       QMI_IDL_TLV_FLAGS_OPTIONAL OR (QMI_IDL_OFFSET8 off ''speedUnc'' - QMI_IDL_OFFSET8 off ''speedUnc_valid''), 0x11, QMI_IDL_GENERIC_4_BYTE, QMI_IDL_OFFSET8 off ''speedUnc'',
       QMI_IDL_TLV_FLAGS_OPTIONAL OR (QMI_IDL_OFFSET8 off ''horConfidence'' - QMI_IDL_OFFSET8 off ''horConfidence_valid''), 0x12, QMI_IDL_GENERIC_1_BYTE, QMI_IDL_OFFSET8 off ''horConfidence'',
       QMI_IDL_TLV_FLAGS_OPTIONAL OR (QMI_IDL_OFFSET8 off ''vertConfidence'' - QMI_IDL_OFFSET8 off ''vertConfidence_valid''), 0x13, QMI_IDL_GENERIC_1_BYTE, QMI_IDL_OFFSET8 off ''vertConfidence'',
       QMI_IDL_TLV_FLAGS_OPTIONAL OR (QMI_IDL_OFFSET8 off ''DOP'' - QMI_IDL_OFFSET8 off ''DOP_valid''), 0x14, QMI_IDL_AGGREGATE, QMI_IDL_OFFSET8 off ''DOP''] @ QMI_IDL_TYPE88 0 3 @
      [QMI_IDL_TLV_FLAGS_OPTIONAL OR (QMI_IDL_OFFSET8 off ''gnssSvUsedList'' - QMI_IDL_OFFSET8 off ''gnssSvUsedList_valid''), 0x15, QMI_IDL_FLAGS_IS_ARRAY OR QMI_IDL_FLAGS_IS_VARIABLE_LEN OR QMI_IDL_GENERIC_2_BYTE, QMI_IDL_OFFSET8 off ''gnssSvUsedList'', QMI_LOC_MAX_SV_USED_LIST_LENGTH_V02, QMI_IDL_OFFSET8 off ''gnssSvUsedList'' - QMI_IDL_OFFSET8 off ''gnssSvUsedList_len'',
       QMI_IDL_TLV_FLAGS_OPTIONAL OR (QMI_IDL_OFFSET16RELATIVE off ''positionSrc'' - QMI_IDL_OFFSET16RELATIVE off ''positionSrc_valid''), 0x16, QMI_IDL_FLAGS_OFFSET_IS_16 OR QMI_IDL_GENERIC_4_BYTE] @ QMI_IDL_OFFSET16ARRAY off ''positionSrc'' @
      [QMI_IDL_TLV_FLAGS_OPTIONAL OR (QMI_IDL_OFFSET16RELATIVE off ''extDOP'' - QMI_IDL_OFFSET16RELATIVE off ''extDOP_valid''), 0x17, QMI_IDL_FLAGS_OFFSET_IS_16 OR QMI_IDL_AGGREGATE] @ QMI_IDL_OFFSET16ARRAY off ''extDOP'' @ QMI_IDL_TYPE88 0 4 @
      [QMI_IDL_TLV_FLAGS_OPTIONAL OR (QMI_IDL_OFFSET16RELATIVE off ''expandedGnssSvUsedList'' - QMI_IDL_OFFSET16RELATIVE off ''expandedGnssSvUsedList_valid''), 0x18, QMI_IDL_FLAGS_IS_ARRAY OR QMI_IDL_FLAGS_IS_VARIABLE_LEN OR QMI_IDL_FLAGS_OFFSET_IS_16 OR QMI_IDL_GENERIC_2_BYTE] @ QMI_IDL_OFFSET16ARRAY off ''expandedGnssSvUsedList'' @
      [QMI_LOC_EXPANDED_SV_INFO_LIST_MAX_SIZE_V02, QMI_IDL_OFFSET16RELATIVE off ''expandedGnssSvUsedList'' - QMI_IDL_OFFSET16RELATIVE off ''expandedGnssSvUsedList_len'',
       QMI_IDL_TLV_FLAGS_LAST_TLV OR QMI_IDL_TLV_FLAGS_OPTIONAL OR (QMI_IDL_OFFSET16RELATIVE off ''gnssSvUsedSignalTypeList'' - QMI_IDL_OFFSET16RELATIVE off ''gnssSvUsedSignalTypeList_valid''), 0x19, QMI_IDL_FLAGS_IS_ARRAY OR QMI_IDL_FLAGS_IS_VARIABLE_LEN OR QMI_IDL_FLAGS_OFFSET_IS_16 OR QMI_IDL_GENERIC_8_BYTE] @ QMI_IDL_OFFSET16ARRAY off ''gnssSvUsedSignalTypeList'' @
      [QMI_LOC_EXPANDED_SV_INFO_LIST_MAX_SIZE_V02, QMI_IDL_OFFSET16RELATIVE off ''gnssSvUsedSignalTypeList'' - QMI_IDL_OFFSET16RELATIVE off ''gnssSvUsedSignalTypeList_len'']))"

definition qmiLocEventDbtSessionStatusIndMsgT_data_v02 :: "int list" where
  "qmiLocEventDbtSessionStatusIndMsgT_data_v02 =
    (let off = offsetof qmiLocEventDbtSessionStatusIndMsgT_v02 in uint8_array (
      [0x01, QMI_IDL_GENERIC_4_BYTE, QMI_IDL_OFFSET8 off ''dbtSessionStatus'',
       QMI_IDL_TLV_FLAGS_LAST_TLV OR QMI_IDL_TLV_FLAGS_OPTIONAL OR (QMI_IDL_OFFSET8 off ''reqId'' - QMI_IDL_OFFSET8 off ''reqId_valid''), 0x10, QMI_IDL_GENERIC_1_BYTE, QMI_IDL_OFFSET8 off ''reqId'']))"

definition qmiLocSecureGetAvailablePositionReqMsgT_data_v02 :: "int list" where
  "qmiLocSecureGetAvailablePositionReqMsgT_data_v02 =
    (let off = offsetof qmiLocSecureGetAvailablePositionReqMsgT_v02 in uint8_array (
      [0x01, QMI_IDL_GENERIC_4_BYTE, QMI_IDL_OFFSET8 off ''secureLocDataMode'',
       QMI_IDL_TLV_FLAGS_LAST_TLV OR 0x02, QMI_IDL_FLAGS_IS_ARRAY OR QMI_IDL_FLAGS_IS_VARIABLE_LEN OR QMI_IDL_FLAGS_SZ_IS_16 OR QMI_IDL_GENERIC_1_BYTE, QMI_IDL_OFFSET8 off ''qmilocSecureGetAvailablePositionRequestData'', QMI_LOC_SECURE_GET_AVAILABLE_POS_REQUEST_ENCRYPTED_MAX_V02 AND 0xFF, drop_bit 8 QMI_LOC_SECURE_GET_AVAILABLE_POS_REQUEST_ENCRYPTED_MAX_V02, QMI_IDL_OFFSET8 off ''qmilocSecureGetAvailablePositionRequestData'' - QMI_IDL_OFFSET8 off ''qmilocSecureGetAvailablePositionRequestData_len'']))"

definition qmiLocSecureGetAvailablePositionIndMsgT_data_v02 :: "int list" where
  "qmiLocSecureGetAvailablePositionIndMsgT_data_v02 =
    (let off = offsetof qmiLocSecureGetAvailablePositionIndMsgT_v02 in uint8_array (
      [0x01, QMI_IDL_GENERIC_4_BYTE, QMI_IDL_OFFSET8 off ''sessionStatus'',
       0x02, QMI_IDL_GENERIC_4_BYTE, QMI_IDL_OFFSET8 off ''secureLocDataMode'',
       QMI_IDL_TLV_FLAGS_LAST_TLV OR QMI_IDL_TLV_FLAGS_OPTIONAL OR (QMI_IDL_OFFSET8 off ''qmilocSecureGetAvailablePositionInd'' - QMI_IDL_OFFSET8 off ''qmilocSecureGetAvailablePositionInd_valid''), 0x10, QMI_IDL_FLAGS_IS_ARRAY OR QMI_IDL_FLAGS_IS_VARIABLE_LEN OR QMI_IDL_FLAGS_SZ_IS_16 OR QMI_IDL_GENERIC_1_BYTE, QMI_IDL_OFFSET8 off ''qmilocSecureGetAvailablePositionInd'', QMI_LOC_SECURE_GET_AVAILABLE_POSITION_IND_ENCRYPTED_MAX_V02 AND 0xFF, drop_bit 8 QMI_LOC_SECURE_GET_AVAILABLE_POSITION_IND_ENCRYPTED_MAX_V02, QMI_IDL_OFFSET8 off ''qmilocSecureGetAvailablePositionInd'' - QMI_IDL_OFFSET8 off ''qmilocSecureGetAvailablePositionInd_len'']))"

definition qmiLocInjectApCacheDataReqMsgT_data_v02 :: "int list" where
  "qmiLocInjectApCacheDataReqMsgT_data_v02 =
    (let off = offsetof qmiLocInjectApCacheDataReqMsgT_v02 in uint8_array (
      [0x01, QMI_IDL_GENERIC_1_BYTE, QMI_IDL_OFFSET8 off ''versionNumber'',
       0x02, QMI_IDL_GENERIC_1_BYTE, QMI_IDL_OFFSET8 off ''partNumber'',
       0x03, QMI_IDL_GENERIC_1_BYTE, QMI_IDL_OFFSET8 off ''totalParts'',
       0x04, QMI_IDL_FLAGS_IS_ARRAY OR QMI_IDL_FLAGS_IS_VARIABLE_LEN OR QMI_IDL_AGGREGATE, QMI_IDL_OFFSET8 off ''apCacheData'', QMI_LOC_APCACHE_DATA_MAX_SAMPLES_V02, QMI_IDL_OFFSET8 off ''apCacheData'' - QMI_IDL_OFFSET8 off ''apCacheData_len''] @ QMI_IDL_TYPE88 0 73 @
      [QMI_IDL_TLV_FLAGS_LAST_TLV OR QMI_IDL_TLV_FLAGS_OPTIONAL OR (QMI_IDL_OFFSET16RELATIVE off ''apCacheHepeRelData'' - QMI_IDL_OFFSET16RELATIVE off ''apCacheHepeRelData_valid''), 0x10, QMI_IDL_FLAGS_IS_ARRAY OR QMI_IDL_FLAGS_IS_VARIABLE_LEN OR QMI_IDL_FLAGS_OFFSET_IS_16 OR QMI_IDL_AGGREGATE] @ QMI_IDL_OFFSET16ARRAY off ''apCacheHepeRelData'' @
      [QMI_LOC_APCACHE_DATA_MAX_SAMPLES_V02, QMI_IDL_OFFSET16RELATIVE off ''apCacheHepeRelData'' - QMI_IDL_OFFSET16RELATIVE off ''apCacheHepeRelData_len''] @ QMI_IDL_TYPE88 0 74))"

definition qmiLocInjectApCacheDataIndMsgT_data_v02 :: "int list" where
  "qmiLocInjectApCacheDataIndMsgT_data_v02 =
    (let off = offsetof qmiLocInjectApCacheDataIndMsgT_v02 in uint8_array (
      [0x01, QMI_IDL_GENERIC_4_BYTE, QMI_IDL_OFFSET8 off ''status'',
       QMI_IDL_TLV_FLAGS_OPTIONAL OR (QMI_IDL_OFFSET8 off ''apCacheSize'' - QMI_IDL_OFFSET8 off ''apCacheSize_valid''), 0x10, QMI_IDL_GENERIC_4_BYTE, QMI_IDL_OFFSET8 off ''apCacheSize'',
       QMI_IDL_TLV_FLAGS_OPTIONAL OR (QMI_IDL_OFFSET8 off ''apDoNotCacheSize'' - QMI_IDL_OFFSET8 off ''apDoNotCacheSize_valid''), 0x11, QMI_IDL_GENERIC_4_BYTE, QMI_IDL_OFFSET8 off ''apDoNotCacheSize'',
       QMI_IDL_TLV_FLAGS_OPTIONAL OR (QMI_IDL_OFFSET8 off ''apCacheHits'' - QMI_IDL_OFFSET8 off ''apCacheHits_valid''), 0x12, QMI_IDL_GENERIC_4_BYTE, QMI_IDL_OFFSET8 off ''apCacheHits'',
       QMI_IDL_TLV_FLAGS_OPTIONAL OR (QMI_IDL_OFFSET8 off ''apDoNotCacheHits'' - QMI_IDL_OFFSET8 off ''apDoNotCacheHits_valid''), 0x13, QMI_IDL_GENERIC_4_BYTE, QMI_IDL_OFFSET8 off ''apDoNotCacheHits'',
       QMI_IDL_TLV_FLAGS_OPTIONAL OR (QMI_IDL_OFFSET8 off ''unknownAps'' - QMI_IDL_OFFSET8 off ''unknownAps_valid''), 0x14, QMI_IDL_GENERIC_4_BYTE, QMI_IDL_OFFSET8 off ''unknownAps'',
       QMI_IDL_TLV_FLAGS_OPTIONAL OR (QMI_IDL_OFFSET8 off ''asyncScans'' - QMI_IDL_OFFSET8 off ''asyncScans_valid''), 0x15, QMI_IDL_GENERIC_4_BYTE, QMI_IDL_OFFSET8 off ''asyncScans'',
       QMI_IDL_TLV_FLAGS_OPTIONAL OR (QMI_IDL_OFFSET8 off ''asyncFixes'' - QMI_IDL_OFFSET8 off ''asyncFixes_valid''), 0x16, QMI_IDL_GENERIC_4_BYTE, QMI_IDL_OFFSET8 off ''asyncFixes'',
       QMI_IDL_TLV_FLAGS_OPTIONAL OR (QMI_IDL_OFFSET8 off ''syncScans'' - QMI_IDL_OFFSET8 off ''syncScans_valid''), 0x17, QMI_IDL_GENERIC_4_BYTE, QMI_IDL_OFFSET8 off ''syncScans'',
       QMI_IDL_TLV_FLAGS_LAST_TLV OR QMI_IDL_TLV_FLAGS_OPTIONAL OR (QMI_IDL_OFFSET8 off ''syncFixes'' - QMI_IDL_OFFSET8 off ''syncFixes_valid''), 0x18, QMI_IDL_GENERIC_4_BYTE, QMI_IDL_OFFSET8 off ''syncFixes'']))"

definition qmiLocInjectApDoNotCacheDataReqMsgT_data_v02 :: "int list" where
  "qmiLocInjectApDoNotCacheDataReqMsgT_data_v02 =
    (let off = offsetof qmiLocInjectApDoNotCacheDataReqMsgT_v02 in uint8_array (
      [0x01, QMI_IDL_GENERIC_1_BYTE, QMI_IDL_OFFSET8 off ''versionNumber'',
       0x02, QMI_IDL_GENERIC_1_BYTE, QMI_IDL_OFFSET8 off ''partNumber'',
       0x03, QMI_IDL_GENERIC_1_BYTE, QMI_IDL_OFFSET8 off ''totalParts'',
       QMI_IDL_TLV_FLAGS_LAST_TLV OR 0x04, QMI_IDL_FLAGS_IS_ARRAY OR QMI_IDL_FLAGS_IS_VARIABLE_LEN OR QMI_IDL_AGGREGATE, QMI_IDL_OFFSET8 off ''apDoNotCacheData'', QMI_LOC_APCACHE_DATA_MAX_SAMPLES_V02, QMI_IDL_OFFSET8 off ''apDoNotCacheData'' - QMI_IDL_OFFSET8 off ''apDoNotCacheData_len''] @ QMI_IDL_TYPE88 0 75))"

definition qmiLocInjectApDoNotCacheDataIndMsgT_data_v02 :: "int list" where
  "qmiLocInjectApDoNotCacheDataIndMsgT_data_v02 =
    (let off = offsetof qmiLocInjectApDoNotCacheDataIndMsgT_v02 in uint8_array (
      [QMI_IDL_TLV_FLAGS_LAST_TLV OR 0x01, QMI_IDL_GENERIC_4_BYTE, QMI_IDL_OFFSET8 off ''status'']))"

definition qmiLocEventBatchingStatusIndMsgT_data_v02 :: "int list" where
  "qmiLocEventBatchingStatusIndMsgT_data_v02 =
    (let off = offsetof qmiLocEventBatchingStatusIndMsgT_v02 in uint8_array (
      [QMI_IDL_TLV_FLAGS_LAST_TLV OR 0x01, QMI_IDL_GENERIC_4_BYTE, QMI_IDL_OFFSET8 off ''batchingStatus'']))"

definition qmiLocQueryAonConfigReqMsgT_data_v02 :: "int list" where
  "qmiLocQueryAonConfigReqMsgT_data_v02 =
    (let off = offsetof qmiLocQueryAonConfigReqMsgT_v02 in uint8_array (
      [QMI_IDL_TLV_FLAGS_LAST_TLV OR 0x01, QMI_IDL_GENERIC_4_BYTE, QMI_IDL_OFFSET8 off ''transactionId'']))"

definition qmiLocQueryAonConfigIndMsgT_data_v02 :: "int list" where
  "qmiLocQueryAonConfigIndMsgT_data_v02 =
    (let off = offsetof qmiLocQueryAonConfigIndMsgT_v02 in uint8_array (
      [0x01, QMI_IDL_GENERIC_4_BYTE, QMI_IDL_OFFSET8 off ''status'',
       QMI_IDL_TLV_FLAGS_OPTIONAL OR (QMI_IDL_OFFSET8 off ''transactionId'' - QMI_IDL_OFFSET8 off ''transactionId_valid''), 0x10, QMI_IDL_GENERIC_4_BYTE, QMI_IDL_OFFSET8 off ''transactionId'',
       QMI_IDL_TLV_FLAGS_LAST_TLV OR QMI_IDL_TLV_FLAGS_OPTIONAL OR (QMI_IDL_OFFSET8 off ''aonCapability'' - QMI_IDL_OFFSET8 off ''aonCapability_valid''), 0x11, QMI_IDL_GENERIC_4_BYTE, QMI_IDL_OFFSET8 off ''aonCapability'']))"

definition qmiLocDeleteGNSSServiceDataReqMsgT_data_v02 :: "int list" where
  "qmiLocDeleteGNSSServiceDataReqMsgT_data_v02 =
    (let off = offsetof qmiLocDeleteGNSSServiceDataReqMsgT_v02 in uint8_array (
      [0x01, QMI_IDL_GENERIC_1_BYTE, QMI_IDL_OFFSET8 off ''deleteAllFlag'',
       QMI_IDL_TLV_FLAGS_OPTIONAL OR (QMI_IDL_OFFSET8 off ''deleteClockInfoMask'' - QMI_IDL_OFFSET8 off ''deleteClockInfoMask_valid''), 0x10, QMI_IDL_GENERIC_4_BYTE, QMI_IDL_OFFSET8 off ''deleteClockInfoMask'',
       QMI_IDL_TLV_FLAGS_OPTIONAL OR (QMI_IDL_OFFSET8 off ''deleteCellDbDataMask'' - QMI_IDL_OFFSET8 off ''deleteCellDbDataMask_valid''), 0x11, QMI_IDL_GENERIC_4_BYTE, QMI_IDL_OFFSET8 off ''deleteCellDbDataMask'',
       QMI_IDL_TLV_FLAGS_OPTIONAL OR (QMI_IDL_OFFSET8 off ''deleteCommonDataMask'' - QMI_IDL_OFFSET8 off ''deleteCommonDataMask_valid''), 0x12, QMI_IDL_GENERIC_4_BYTE, QMI_IDL_OFFSET8 off ''deleteCommonDataMask'',
       QMI_IDL_TLV_FLAGS_OPTIONAL OR (QMI_IDL_OFFSET8 off ''deleteSatelliteData'' - QMI_IDL_OFFSET8 off ''deleteSatelliteData_valid''), 0x13, QMI_IDL_AGGREGATE, QMI_IDL_OFFSET8 off ''deleteSatelliteData''] @ QMI_IDL_TYPE88 0 76 @
      [QMI_IDL_TLV_FLAGS_LAST_TLV OR QMI_IDL_TLV_FLAGS_OPTIONAL OR (QMI_IDL_OFFSET8 off ''deleteExtClockInfoMask'' - QMI_IDL_OFFSET8 off ''deleteExtClockInfoMask_valid''), 0x14, QMI_IDL_GENERIC_8_BYTE, QMI_IDL_OFFSET8 off ''deleteExtClockInfoMask'']))"

definition loc_message_table_v02_6 :: "qmi_idl_message_table_entry list" where
  "loc_message_table_v02_6 = [
    (qmiLocDeleteGeofenceContextIndMsgT_v02, Some qmiLocDeleteGeofenceContextIndMsgT_data_v02),
    (qmiLocInjectGtpClientDownloadedDataReqMsgT_v02, Some qmiLocInjectGtpClientDownloadedDataReqMsgT_data_v02),
    (qmiLocInjectGtpClientDownloadedDataIndMsgT_v02, Some qmiLocInjectGtpClientDownloadedDataIndMsgT_data_v02),
    (qmiLocGdtUploadBeginStatusReqMsgT_v02, Some qmiLocGdtUploadBeginStatusReqMsgT_data_v02),
    (qmiLocGdtUploadBeginStatusIndMsgT_v02, Some qmiLocGdtUploadBeginStatusIndMsgT_data_v02),
    (qmiLocGdtUploadEndReqMsgT_v02, Some qmiLocGdtUploadEndReqMsgT_data_v02),
    (qmiLocGdtUploadEndIndMsgT_v02, Some qmiLocGdtUploadEndIndMsgT_data_v02),
    (qmiLocGtpApStatusReqMsgT_v02, Some qmiLocGtpApStatusReqMsgT_data_v02),
    (qmiLocGtpApStatusIndMsgT_v02, Some qmiLocGtpApStatusIndMsgT_data_v02),
    (qmiLocGdtDownloadBeginStatusReqMsgT_v02, Some qmiLocGdtDownloadBeginStatusReqMsgT_data_v02),
    (qmiLocGdtDownloadBeginStatusIndMsgT_v02, Some qmiLocGdtDownloadBeginStatusIndMsgT_data_v02),
    (qmiLocGdtDownloadReadyStatusReqMsgT_v02, Some qmiLocGdtDownloadReadyStatusReqMsgT_data_v02),
    (qmiLocGdtDownloadReadyStatusIndMsgT_v02, Some qmiLocGdtDownloadReadyStatusIndMsgT_data_v02),
    (qmiLocGdtReceiveDoneStatusReqMsgT_v02, Some qmiLocGdtReceiveDoneStatusReqMsgT_data_v02),
    (qmiLocGdtReceiveDoneStatusIndMsgT_v02, Some qmiLocGdtReceiveDoneStatusIndMsgT_data_v02),
    (qmiLocGdtDownloadEndStatusReqMsgT_v02, Some qmiLocGdtDownloadEndStatusReqMsgT_data_v02),
    (qmiLocGdtDownloadEndStatusIndMsgT_v02, Some qmiLocGdtDownloadEndStatusIndMsgT_data_v02),
    (qmiLocStartDbtReqMsgT_v02, Some qmiLocStartDbtReqMsgT_data_v02),
    (qmiLocStartDbtIndMsgT_v02, Some qmiLocStartDbtIndMsgT_data_v02),
    (qmiLocStopDbtReqMsgT_v02, Some qmiLocStopDbtReqMsgT_data_v02),
    (qmiLocStopDbtIndMsgT_v02, Some qmiLocStopDbtIndMsgT_data_v02),
    (qmiLocEventDbtPositionReportIndMsgT_v02, Some qmiLocEventDbtPositionReportIndMsgT_data_v02),
    (qmiLocEventDbtSessionStatusIndMsgT_v02, Some qmiLocEventDbtSessionStatusIndMsgT_data_v02),
    (qmiLocSecureGetAvailablePositionReqMsgT_v02, Some qmiLocSecureGetAvailablePositionReqMsgT_data_v02),
    (qmiLocSecureGetAvailablePositionIndMsgT_v02, Some qmiLocSecureGetAvailablePositionIndMsgT_data_v02),
    (qmiLocInjectApCacheDataReqMsgT_v02, Some qmiLocInjectApCacheDataReqMsgT_data_v02),
    (qmiLocInjectApCacheDataIndMsgT_v02, Some qmiLocInjectApCacheDataIndMsgT_data_v02),
    (qmiLocInjectApDoNotCacheDataReqMsgT_v02, Some qmiLocInjectApDoNotCacheDataReqMsgT_data_v02),
    (qmiLocInjectApDoNotCacheDataIndMsgT_v02, Some qmiLocInjectApDoNotCacheDataIndMsgT_data_v02),
    (qmiLocEventBatchingStatusIndMsgT_v02, Some qmiLocEventBatchingStatusIndMsgT_data_v02),
    (qmiLocQueryAonConfigReqMsgT_v02, Some qmiLocQueryAonConfigReqMsgT_data_v02),
    (qmiLocQueryAonConfigIndMsgT_v02, Some qmiLocQueryAonConfigIndMsgT_data_v02),
    (qmiLocDeleteGNSSServiceDataReqMsgT_v02, Some qmiLocDeleteGNSSServiceDataReqMsgT_data_v02)]"

definition qmiLocDeleteGNSSServiceDataIndMsgT_data_v02 :: "int list" where
  "qmiLocDeleteGNSSServiceDataIndMsgT_data_v02 =
    (let off = offsetof qmiLocDeleteGNSSServiceDataIndMsgT_v02 in uint8_array (
      [QMI_IDL_TLV_FLAGS_LAST_TLV OR 0x01, QMI_IDL_GENERIC_4_BYTE, QMI_IDL_OFFSET8 off ''status'']))"

definition qmiLocInjectXtraDataReqMsgT_data_v02 :: "int list" where
  "qmiLocInjectXtraDataReqMsgT_data_v02 =
    (let off = offsetof qmiLocInjectXtraDataReqMsgT_v02 in uint8_array (
      [0x01, QMI_IDL_GENERIC_4_BYTE, QMI_IDL_OFFSET8 off ''totalSize'',
       0x02, QMI_IDL_GENERIC_2_BYTE, QMI_IDL_OFFSET8 off ''totalParts'',
       0x03, QMI_IDL_GENERIC_2_BYTE, QMI_IDL_OFFSET8 off ''partNum'',
       0x04, QMI_IDL_FLAGS_IS_ARRAY OR QMI_IDL_FLAGS_IS_VARIABLE_LEN OR QMI_IDL_FLAGS_SZ_IS_16 OR QMI_IDL_GENERIC_1_BYTE, QMI_IDL_OFFSET8 off ''partData'', QMI_LOC_MAX_XTRA_PART_LEN_V02 AND 0xFF, drop_bit 8 QMI_LOC_MAX_XTRA_PART_LEN_V02, QMI_IDL_OFFSET8 off ''partData'' - QMI_IDL_OFFSET8 off ''partData_len'',
       QMI_IDL_TLV_FLAGS_OPTIONAL OR (QMI_IDL_OFFSET16RELATIVE off ''formatType'' - QMI_IDL_OFFSET16RELATIVE off ''formatType_valid''), 0x10, QMI_IDL_FLAGS_OFFSET_IS_16 OR QMI_IDL_GENERIC_4_BYTE] @ QMI_IDL_OFFSET16ARRAY off ''formatType'' @
      [QMI_IDL_TLV_FLAGS_LAST_TLV OR QMI_IDL_TLV_FLAGS_OPTIONAL OR (QMI_IDL_OFFSET16RELATIVE off ''fileInfo'' - QMI_IDL_OFFSET16RELATIVE off ''fileInfo_valid''), 0x11, QMI_IDL_FLAGS_OFFSET_IS_16 OR QMI_IDL_AGGREGATE] @ QMI_IDL_OFFSET16ARRAY off ''fileInfo'' @ QMI_IDL_TYPE88 0 27))"

definition qmiLocInjectXtraDataIndMsgT_data_v02 :: "int list" where
  "qmiLocInjectXtraDataIndMsgT_data_v02 =
    (let off = offsetof qmiLocInjectXtraDataIndMsgT_v02 in uint8_array (
      [0x01, QMI_IDL_GENERIC_4_BYTE, QMI_IDL_OFFSET8 off ''status'',
       QMI_IDL_TLV_FLAGS_OPTIONAL OR (QMI_IDL_OFFSET8 off ''partNum'' - QMI_IDL_OFFSET8 off ''partNum_valid''), 0x10, QMI_IDL_GENERIC_2_BYTE, QMI_IDL_OFFSET8 off ''partNum'',
       QMI_IDL_TLV_FLAGS_LAST_TLV OR QMI_IDL_TLV_FLAGS_OPTIONAL OR (QMI_IDL_OFFSET8 off ''ConstellationMask'' - QMI_IDL_OFFSET8 off ''ConstellationMask_valid''), 0x11, QMI_IDL_GENERIC_8_BYTE, QMI_IDL_OFFSET8 off ''ConstellationMask'']))"

definition qmiLocInjectXtraPcidReqMsgT_data_v02 :: "int list" where
  "qmiLocInjectXtraPcidReqMsgT_data_v02 =
    (let off = offsetof qmiLocInjectXtraPcidReqMsgT_v02 in uint8_array (
      [QMI_IDL_TLV_FLAGS_LAST_TLV OR 0x01, QMI_IDL_GENERIC_8_BYTE, QMI_IDL_OFFSET8 off ''xtraPcid'']))"

definition qmiLocInjectXtraPcidIndMsgT_data_v02 :: "int list" where
  "qmiLocInjectXtraPcidIndMsgT_data_v02 =
    (let off = offsetof qmiLocInjectXtraPcidIndMsgT_v02 in uint8_array (
      [QMI_IDL_TLV_FLAGS_LAST_TLV OR 0x01, QMI_IDL_GENERIC_4_BYTE, QMI_IDL_OFFSET8 off ''status'']))"

definition qmiLocGetSupportedFeatureIndMsgT_data_v02 :: "int list" where
  "qmiLocGetSupportedFeatureIndMsgT_data_v02 =
    (let off = offsetof qmiLocGetSupportedFeatureIndMsgT_v02 in uint8_array (
      [0x01, QMI_IDL_GENERIC_4_BYTE, QMI_IDL_OFFSET8 off ''status'',
       0x02, QMI_IDL_FLAGS_IS_ARRAY OR QMI_IDL_FLAGS_IS_VARIABLE_LEN OR QMI_IDL_GENERIC_1_BYTE, QMI_IDL_OFFSET8 off ''feature'', QMI_LOC_SUPPORTED_FEATURE_LENGTH_V02, QMI_IDL_OFFSET8 off ''feature'' - QMI_IDL_OFFSET8 off ''feature_len'',
       QMI_IDL_TLV_FLAGS_LAST_TLV OR QMI_IDL_TLV_FLAGS_OPTIONAL OR (QMI_IDL_OFFSET8 off ''featureStatusReport'' - QMI_IDL_OFFSET8 off ''featureStatusReport_valid''), 0x10, QMI_IDL_GENERIC_8_BYTE, QMI_IDL_OFFSET8 off ''featureStatusReport'']))"

definition qmiLocSetInternalStatusConfigReqMsgT_data_v02 :: "int list" where
  "qmiLocSetInternalStatusConfigReqMsgT_data_v02 =
    (let off = offsetof qmiLocSetInternalStatusConfigReqMsgT_v02 in uint8_array (
      [QMI_IDL_TLV_FLAGS_LAST_TLV OR 0x01, QMI_IDL_GENERIC_1_BYTE, QMI_IDL_OFFSET8 off ''config'']))"

definition qmiLocSetInternalStatusConfigIndMsgT_data_v02 :: "int list" where
  "qmiLocSetInternalStatusConfigIndMsgT_data_v02 =
    (let off = offsetof qmiLocSetInternalStatusConfigIndMsgT_v02 in uint8_array (
      [QMI_IDL_TLV_FLAGS_LAST_TLV OR 0x01, QMI_IDL_GENERIC_4_BYTE, QMI_IDL_OFFSET8 off ''status'']))"

definition qmiLocEventInternalStatusReportIndMsgT_data_v02 :: "int list" where
  "qmiLocEventInternalStatusReportIndMsgT_data_v02 =
    (let off = offsetof qmiLocEventInternalStatusReportIndMsgT_v02 in uint8_array (
      [QMI_IDL_TLV_FLAGS_LAST_TLV OR 0x01, QMI_IDL_FLAGS_IS_ARRAY OR QMI_IDL_FLAGS_IS_VARIABLE_LEN OR QMI_IDL_AGGREGATE, QMI_IDL_OFFSET8 off ''reportData'', QMI_LOC_INTERNAL_STATUS_MAX_LIST_SIZE_V02, QMI_IDL_OFFSET8 off ''reportData'' - QMI_IDL_OFFSET8 off ''reportData_len''] @ QMI_IDL_TYPE88 0 77))"

definition qmiLocEventInjectSrnApDataReqIndMsgT_data_v02 :: "int list" where
  "qmiLocEventInjectSrnApDataReqIndMsgT_data_v02 =
    (let off = offsetof qmiLocEventInjectSrnApDataReqIndMsgT_v02 in uint8_array (
      [0x01, QMI_IDL_GENERIC_4_BYTE, QMI_IDL_OFFSET8 off ''srnTechMask'',
       0x02, QMI_IDL_GENERIC_1_BYTE, QMI_IDL_OFFSET8 off ''srnRequest'',
       QMI_IDL_TLV_FLAGS_OPTIONAL OR (QMI_IDL_OFFSET8 off ''e911Mode'' - QMI_IDL_OFFSET8 off ''e911Mode_valid''), 0x10, QMI_IDL_GENERIC_1_BYTE, QMI_IDL_OFFSET8 off ''e911Mode'',
       QMI_IDL_TLV_FLAGS_LAST_TLV OR QMI_IDL_TLV_FLAGS_OPTIONAL OR (QMI_IDL_OFFSET8 off ''srnApMacAddrType'' - QMI_IDL_OFFSET8 off ''srnApMacAddrType_valid''), 0x11, QMI_IDL_GENERIC_4_BYTE, QMI_IDL_OFFSET8 off ''srnApMacAddrType'']))"

definition qmiLocInjectSrnApDataReqMsgT_data_v02 :: "int list" where
  "qmiLocInjectSrnApDataReqMsgT_data_v02 =
    (let off = offsetof qmiLocInjectSrnApDataReqMsgT_v02 in uint8_array (
      [0x01, QMI_IDL_GENERIC_4_BYTE, QMI_IDL_OFFSET8 off ''apDeviceTechType'',
       QMI_IDL_TLV_FLAGS_OPTIONAL OR (QMI_IDL_OFFSET8 off ''srnBtleApInfo'' - QMI_IDL_OFFSET8 off ''srnBtleApInfo_valid''), 0x10, QMI_IDL_FLAGS_IS_ARRAY OR QMI_IDL_FLAGS_IS_VARIABLE_LEN OR QMI_IDL_AGGREGATE, QMI_IDL_OFFSET8 off ''srnBtleApInfo'', QMI_LOC_SRN_MAX_REPORTED_APS_PER_MSG_V02, QMI_IDL_OFFSET8 off ''srnBtleApInfo'' - QMI_IDL_OFFSET8 off ''srnBtleApInfo_len''] @ QMI_IDL_TYPE88 0 78 @
      [QMI_IDL_TLV_FLAGS_OPTIONAL OR (QMI_IDL_OFFSET16RELATIVE off ''requestTimestamp'' - QMI_IDL_OFFSET16RELATIVE off ''requestTimestamp_valid''), 0x11, QMI_IDL_FLAGS_OFFSET_IS_16 OR QMI_IDL_GENERIC_8_BYTE] @ QMI_IDL_OFFSET16ARRAY off ''requestTimestamp'' @
      [QMI_IDL_TLV_FLAGS_OPTIONAL OR (QMI_IDL_OFFSET16RELATIVE off ''receiveTimestamp'' - QMI_IDL_OFFSET16RELATIVE off ''receiveTimestamp_valid''), 0x12, QMI_IDL_FLAGS_OFFSET_IS_16 OR QMI_IDL_GENERIC_8_BYTE] @ QMI_IDL_OFFSET16ARRAY off ''receiveTimestamp'' @
      [QMI_IDL_TLV_FLAGS_LAST_TLV OR QMI_IDL_TLV_FLAGS_OPTIONAL OR (QMI_IDL_OFFSET16RELATIVE off ''errorCause'' - QMI_IDL_OFFSET16RELATIVE off ''errorCause_valid''), 0x13, QMI_IDL_FLAGS_OFFSET_IS_16 OR QMI_IDL_GENERIC_4_BYTE] @ QMI_IDL_OFFSET16ARRAY off ''errorCause''))"

definition qmiLocInjectSrnApDataIndMsgT_data_v02 :: "int list" where
  "qmiLocInjectSrnApDataIndMsgT_data_v02 =
    (let off = offsetof qmiLocInjectSrnApDataIndMsgT_v02 in uint8_array (
      [QMI_IDL_TLV_FLAGS_LAST_TLV OR 0x01, QMI_IDL_GENERIC_4_BYTE, QMI_IDL_OFFSET8 off ''status'']))"

definition qmiLocCrowdSourceManagerControlReqMsgT_data_v02 :: "int list" where
  "qmiLocCrowdSourceManagerControlReqMsgT_data_v02 =
    (let off = offsetof qmiLocCrowdSourceManagerControlReqMsgT_v02 in uint8_array (
      [QMI_IDL_TLV_FLAGS_OPTIONAL OR (QMI_IDL_OFFSET8 off ''enableCrowdSourcingMask'' - QMI_IDL_OFFSET8 off ''enableCrowdSourcingMask_valid''), 0x10, QMI_IDL_GENERIC_4_BYTE, QMI_IDL_OFFSET8 off ''enableCrowdSourcingMask'',
       QMI_IDL_TLV_FLAGS_OPTIONAL OR (QMI_IDL_OFFSET8 off ''wifiCrowdSourcingLocalConfig'' - QMI_IDL_OFFSET8 off ''wifiCrowdSourcingLocalConfig_valid''), 0x11, QMI_IDL_AGGREGATE, QMI_IDL_OFFSET8 off ''wifiCrowdSourcingLocalConfig''] @ QMI_IDL_TYPE88 0 79 @
      [QMI_IDL_TLV_FLAGS_OPTIONAL OR (QMI_IDL_OFFSET8 off ''wifiCrowdSourcingServerConfig'' - QMI_IDL_OFFSET8 off ''wifiCrowdSourcingServerConfig_valid''), 0x12, QMI_IDL_FLAGS_IS_ARRAY OR QMI_IDL_FLAGS_IS_VARIABLE_LEN OR QMI_IDL_FLAGS_SZ_IS_16 OR QMI_IDL_GENERIC_1_BYTE, QMI_IDL_OFFSET8 off ''wifiCrowdSourcingServerConfig'', QMI_LOC_MAX_WIFI_CROWDSOURCING_SERVER_CONFIG_LEN_V02 AND 0xFF, drop_bit 8 QMI_LOC_MAX_WIFI_CROWDSOURCING_SERVER_CONFIG_LEN_V02, QMI_IDL_OFFSET8 off ''wifiCrowdSourcingServerConfig'' - QMI_IDL_OFFSET8 off ''wifiCrowdSourcingServerConfig_len'',
       QMI_IDL_TLV_FLAGS_LAST_TLV OR QMI_IDL_TLV_FLAGS_OPTIONAL OR (QMI_IDL_OFFSET16RELATIVE off ''enableSourceMask'' - QMI_IDL_OFFSET16RELATIVE off ''enableSourceMask_valid''), 0x13, QMI_IDL_FLAGS_OFFSET_IS_16 OR QMI_IDL_GENERIC_4_BYTE] @ QMI_IDL_OFFSET16ARRAY off ''enableSourceMask''))"

definition qmiLocCrowdSourceManagerControlIndMsgT_data_v02 :: "int list" where
  "qmiLocCrowdSourceManagerControlIndMsgT_data_v02 =
    (let off = offsetof qmiLocCrowdSourceManagerControlIndMsgT_v02 in uint8_array (
      [0x01, QMI_IDL_GENERIC_4_BYTE, QMI_IDL_OFFSET8 off ''status'',
       QMI_IDL_TLV_FLAGS_OPTIONAL OR (QMI_IDL_OFFSET8 off ''supportedCrowdSourcingMask'' - QMI_IDL_OFFSET8 off ''supportedCrowdSourcingMask_valid''), 0x10, QMI_IDL_GENERIC_4_BYTE, QMI_IDL_OFFSET8 off ''supportedCrowdSourcingMask'',
       QMI_IDL_TLV_FLAGS_OPTIONAL OR (QMI_IDL_OFFSET8 off ''wifiCrowdSourcingCapabaility'' - QMI_IDL_OFFSET8 off ''wifiCrowdSourcingCapabaility_valid''), 0x11, QMI_IDL_AGGREGATE, QMI_IDL_OFFSET8 off ''wifiCrowdSourcingCapabaility''] @ QMI_IDL_TYPE88 0 80 @
      [QMI_IDL_TLV_FLAGS_LAST_TLV OR QMI_IDL_TLV_FLAGS_OPTIONAL OR (QMI_IDL_OFFSET8 off ''modemClientInfo'' - QMI_IDL_OFFSET8 off ''modemClientInfo_valid''), 0x12, QMI_IDL_FLAGS_IS_ARRAY OR QMI_IDL_FLAGS_IS_VARIABLE_LEN OR QMI_IDL_FLAGS_SZ_IS_16 OR QMI_IDL_GENERIC_1_BYTE, QMI_IDL_OFFSET8 off ''modemClientInfo'', QMI_LOC_MAX_CROWDSOURCING_MODEM_CLIENT_INFO_LEN_V02 AND 0xFF, drop_bit 8 QMI_LOC_MAX_CROWDSOURCING_MODEM_CLIENT_INFO_LEN_V02, QMI_IDL_OFFSET8 off ''modemClientInfo'' - QMI_IDL_OFFSET8 off ''modemClientInfo_len'']))"

definition qmiLocCrowdSourceManagerReadDataReqMsgT_data_v02 :: "int list" where
  "qmiLocCrowdSourceManagerReadDataReqMsgT_data_v02 =
    (let off = offsetof qmiLocCrowdSourceManagerReadDataReqMsgT_v02 in uint8_array (
      [QMI_IDL_TLV_FLAGS_LAST_TLV OR QMI_IDL_TLV_FLAGS_OPTIONAL OR (QMI_IDL_OFFSET8 off ''crowdSourcingTechMask'' - QMI_IDL_OFFSET8 off ''crowdSourcingTechMask_valid''), 0x10, QMI_IDL_GENERIC_4_BYTE, QMI_IDL_OFFSET8 off ''crowdSourcingTechMask'']))"

definition qmiLocQueryXtraInfoReqMsgT_data_v02 :: "int list" where
  "qmiLocQueryXtraInfoReqMsgT_data_v02 =
    (let off = offsetof qmiLocQueryXtraInfoReqMsgT_v02 in uint8_array (
      [0x01, QMI_IDL_GENERIC_4_BYTE, QMI_IDL_OFFSET8 off ''xtraConfig'',
       QMI_IDL_TLV_FLAGS_LAST_TLV OR QMI_IDL_TLV_FLAGS_OPTIONAL OR (QMI_IDL_OFFSET8 off ''xcVersion'' - QMI_IDL_OFFSET8 off ''xcVersion_valid''), 0x10, QMI_IDL_AGGREGATE, QMI_IDL_OFFSET8 off ''xcVersion''] @ QMI_IDL_TYPE88 0 82))"

definition qmiLocQueryXtraInfoIndMsgT_data_v02 :: "int list" where
  "qmiLocQueryXtraInfoIndMsgT_data_v02 =
    (let off = offsetof qmiLocQueryXtraInfoIndMsgT_v02 in uint8_array (
      [0x01, QMI_IDL_GENERIC_4_BYTE, QMI_IDL_OFFSET8 off ''status'',
       0x02, QMI_IDL_AGGREGATE, QMI_IDL_OFFSET8 off ''xtraInfo''] @ QMI_IDL_TYPE88 0 81 @
      [QMI_IDL_TLV_FLAGS_OPTIONAL OR (QMI_IDL_OFFSET16RELATIVE off ''mpVersion'' - QMI_IDL_OFFSET16RELATIVE off ''mpVersion_valid''), 0x10, QMI_IDL_FLAGS_OFFSET_IS_16 OR QMI_IDL_AGGREGATE] @ QMI_IDL_OFFSET16ARRAY off ''mpVersion'' @ QMI_IDL_TYPE88 0 82 @
      [QMI_IDL_TLV_FLAGS_OPTIONAL OR (QMI_IDL_OFFSET16RELATIVE off ''usableConstellationConfig'' - QMI_IDL_OFFSET16RELATIVE off ''usableConstellationConfig_valid''), 0x11, QMI_IDL_FLAGS_OFFSET_IS_16 OR QMI_IDL_GENERIC_8_BYTE] @ QMI_IDL_OFFSET16ARRAY off ''usableConstellationConfig'' @
      [QMI_IDL_TLV_FLAGS_OPTIONAL OR (QMI_IDL_OFFSET16RELATIVE off ''forcedEnableConfig'' - QMI_IDL_OFFSET16RELATIVE off ''forcedEnableConfig_valid''), 0x12, QMI_IDL_FLAGS_OFFSET_IS_16 OR QMI_IDL_GENERIC_8_BYTE] @ QMI_IDL_OFFSET16ARRAY off ''forcedEnableConfig'' @
      [QMI_IDL_TLV_FLAGS_OPTIONAL OR (QMI_IDL_OFFSET16RELATIVE off ''multibandEnabled'' - QMI_IDL_OFFSET16RELATIVE off ''multibandEnabled_valid''), 0x13, QMI_IDL_FLAGS_OFFSET_IS_16 OR QMI_IDL_GENERIC_1_BYTE] @ QMI_IDL_OFFSET16ARRAY off ''multibandEnabled'' @
      [QMI_IDL_TLV_FLAGS_OPTIONAL OR (QMI_IDL_OFFSET16RELATIVE off ''xtraFileVersion'' - QMI_IDL_OFFSET16RELATIVE off ''xtraFileVersion_valid''), 0x14, QMI_IDL_FLAGS_OFFSET_IS_16 OR QMI_IDL_AGGREGATE] @ QMI_IDL_OFFSET16ARRAY off ''xtraFileVersion'' @ QMI_IDL_TYPE88 0 82 @
      [QMI_IDL_TLV_FLAGS_OPTIONAL OR (QMI_IDL_OFFSET16RELATIVE off ''mccPrimarySimSlot'' - QMI_IDL_OFFSET16RELATIVE off ''mccPrimarySimSlot_valid''), 0x15, QMI_IDL_FLAGS_OFFSET_IS_16 OR QMI_IDL_GENERIC_2_BYTE] @ QMI_IDL_OFFSET16ARRAY off ''mccPrimarySimSlot'' @
      [QMI_IDL_TLV_FLAGS_OPTIONAL OR (QMI_IDL_OFFSET16RELATIVE off ''mccSecondarySimSlot'' - QMI_IDL_OFFSET16RELATIVE off ''mccSecondarySimSlot_valid''), 0x16, QMI_IDL_FLAGS_OFFSET_IS_16 OR QMI_IDL_GENERIC_2_BYTE] @ QMI_IDL_OFFSET16ARRAY off ''mccSecondarySimSlot'' @
      [QMI_IDL_TLV_FLAGS_OPTIONAL OR (QMI_IDL_OFFSET16RELATIVE off ''mccTertiarySimSlot'' - QMI_IDL_OFFSET16RELATIVE off ''mccTertiarySimSlot_valid''), 0x17, QMI_IDL_FLAGS_OFFSET_IS_16 OR QMI_IDL_GENERIC_2_BYTE] @ QMI_IDL_OFFSET16ARRAY off ''mccTertiarySimSlot'' @
      [QMI_IDL_TLV_FLAGS_OPTIONAL OR (QMI_IDL_OFFSET16RELATIVE off ''xtraFileGenerationTime'' - QMI_IDL_OFFSET16RELATIVE off ''xtraFileGenerationTime_valid''), 0x18, QMI_IDL_FLAGS_OFFSET_IS_16 OR QMI_IDL_GENERIC_8_BYTE] @ QMI_IDL_OFFSET16ARRAY off ''xtraFileGenerationTime'' @
      [QMI_IDL_TLV_FLAGS_LAST_TLV OR QMI_IDL_TLV_FLAGS_OPTIONAL OR (QMI_IDL_OFFSET16RELATIVE off ''xtraRemValidDuration'' - QMI_IDL_OFFSET16RELATIVE off ''xtraRemValidDuration_valid''), 0x19, QMI_IDL_FLAGS_OFFSET_IS_16 OR QMI_IDL_GENERIC_4_BYTE] @ QMI_IDL_OFFSET16ARRAY off ''xtraRemValidDuration''))"

definition qmiLocStartOutdoorTripBatchingReqMsgT_data_v02 :: "int list" where
  "qmiLocStartOutdoorTripBatchingReqMsgT_data_v02 =
    (let off = offsetof qmiLocStartOutdoorTripBatchingReqMsgT_v02 in uint8_array (
      [0x01, QMI_IDL_GENERIC_4_BYTE, QMI_IDL_OFFSET8 off ''batchDistance'',
       0x02, QMI_IDL_GENERIC_4_BYTE, QMI_IDL_OFFSET8 off ''minTimeInterval'',
       QMI_IDL_TLV_FLAGS_OPTIONAL OR (QMI_IDL_OFFSET8 off ''fixSessionTimeout'' - QMI_IDL_OFFSET8 off ''fixSessionTimeout_valid''), 0x10, QMI_IDL_GENERIC_4_BYTE, QMI_IDL_OFFSET8 off ''fixSessionTimeout'',
       QMI_IDL_TLV_FLAGS_LAST_TLV OR QMI_IDL_TLV_FLAGS_OPTIONAL OR (QMI_IDL_OFFSET8 off ''batchAllPos'' - QMI_IDL_OFFSET8 off ''batchAllPos_valid''), 0x11, QMI_IDL_GENERIC_1_BYTE, QMI_IDL_OFFSET8 off ''batchAllPos'']))"

definition qmiLocStartOutdoorTripBatchingIndMsgT_data_v02 :: "int list" where
  "qmiLocStartOutdoorTripBatchingIndMsgT_data_v02 =
    (let off = offsetof qmiLocStartOutdoorTripBatchingIndMsgT_v02 in uint8_array (
      [QMI_IDL_TLV_FLAGS_LAST_TLV OR 0x01, QMI_IDL_GENERIC_4_BYTE, QMI_IDL_OFFSET8 off ''status'']))"

definition qmiLocQueryOTBAccumulatedDistanceIndMsgT_data_v02 :: "int list" where
  "qmiLocQueryOTBAccumulatedDistanceIndMsgT_data_v02 =
    (let off = offsetof qmiLocQueryOTBAccumulatedDistanceIndMsgT_v02 in uint8_array (
      [0x01, QMI_IDL_GENERIC_4_BYTE, QMI_IDL_OFFSET8 off ''status'',
       0x02, QMI_IDL_GENERIC_4_BYTE, QMI_IDL_OFFSET8 off ''accumulatedDistance'',
       QMI_IDL_TLV_FLAGS_LAST_TLV OR 0x03, QMI_IDL_GENERIC_4_BYTE, QMI_IDL_OFFSET8 off ''batchedPosition'']))"

definition qmiLocEventFdclServiceReqIndMsgT_data_v02 :: "int list" where
  "qmiLocEventFdclServiceReqIndMsgT_data_v02 =
    (let off = offsetof qmiLocEventFdclServiceReqIndMsgT_v02 in uint8_array (
      [QMI_IDL_TLV_FLAGS_OPTIONAL OR (QMI_IDL_OFFSET8 off ''gtpClientSwVer'' - QMI_IDL_OFFSET8 off ''gtpClientSwVer_valid''), 0x10, QMI_IDL_AGGREGATE, QMI_IDL_OFFSET8 off ''gtpClientSwVer''] @ QMI_IDL_TYPE88 0 83 @
      [QMI_IDL_TLV_FLAGS_OPTIONAL OR (QMI_IDL_OFFSET8 off ''modemSwVersion'' - QMI_IDL_OFFSET8 off ''modemSwVersion_valid''), 0x11, QMI_IDL_FLAGS_IS_ARRAY OR QMI_IDL_FLAGS_IS_VARIABLE_LEN OR QMI_IDL_STRING, QMI_IDL_OFFSET8 off ''modemSwVersion'', QMI_LOC_GNSS_SW_VERSION_STRING_MAX_LENGTH_V02,
       QMI_IDL_TLV_FLAGS_OPTIONAL OR (QMI_IDL_OFFSET16RELATIVE off ''homeCarrierId'' - QMI_IDL_OFFSET16RELATIVE off ''homeCarrierId_valid''), 0x12, QMI_IDL_FLAGS_OFFSET_IS_16 OR QMI_IDL_AGGREGATE] @ QMI_IDL_OFFSET16ARRAY off ''homeCarrierId'' @ QMI_IDL_TYPE88 0 84 @
      [QMI_IDL_TLV_FLAGS_OPTIONAL OR (QMI_IDL_OFFSET16RELATIVE off ''cdmaRealm'' - QMI_IDL_OFFSET16RELATIVE off ''cdmaRealm_valid''), 0x13, QMI_IDL_FLAGS_IS_ARRAY OR QMI_IDL_FLAGS_IS_VARIABLE_LEN OR QMI_IDL_FLAGS_OFFSET_IS_16 OR QMI_IDL_STRING] @ QMI_IDL_OFFSET16ARRAY off ''cdmaRealm'' @
      [QMI_LOC_GNSS_SW_VERSION_STRING_MAX_LENGTH_V02,
       QMI_IDL_TLV_FLAGS_OPTIONAL OR (QMI_IDL_OFFSET16RELATIVE off ''gtpMaxNumRecordsAccepted'' - QMI_IDL_OFFSET16RELATIVE off ''gtpMaxNumRecordsAccepted_valid''), 0x14, QMI_IDL_FLAGS_OFFSET_IS_16 OR QMI_IDL_GENERIC_2_BYTE] @ QMI_IDL_OFFSET16ARRAY off ''gtpMaxNumRecordsAccepted'' @
      [QMI_IDL_TLV_FLAGS_OPTIONAL OR (QMI_IDL_OFFSET16RELATIVE off ''gpsWeek'' - QMI_IDL_OFFSET16RELATIVE off ''gpsWeek_valid''), 0x15, QMI_IDL_FLAGS_OFFSET_IS_16 OR QMI_IDL_GENERIC_2_BYTE] @ QMI_IDL_OFFSET16ARRAY off ''gpsWeek'' @
      [QMI_IDL_TLV_FLAGS_OPTIONAL OR (QMI_IDL_OFFSET16RELATIVE off ''gpsMilliseconds'' - QMI_IDL_OFFSET16RELATIVE off ''gpsMilliseconds_valid''), 0x16, QMI_IDL_FLAGS_OFFSET_IS_16 OR QMI_IDL_GENERIC_4_BYTE] @ QMI_IDL_OFFSET16ARRAY off ''gpsMilliseconds'' @
      [QMI_IDL_TLV_FLAGS_OPTIONAL OR (QMI_IDL_OFFSET16RELATIVE off ''bsBestPosition'' - QMI_IDL_OFFSET16RELATIVE off ''bsBestPosition_valid''), 0x17, QMI_IDL_FLAGS_OFFSET_IS_16 OR QMI_IDL_AGGREGATE] @ QMI_IDL_OFFSET16ARRAY off ''bsBestPosition'' @ QMI_IDL_TYPE88 0 86 @
      [QMI_IDL_TLV_FLAGS_OPTIONAL OR (QMI_IDL_OFFSET16RELATIVE off ''currentCellId'' - QMI_IDL_OFFSET16RELATIVE off ''currentCellId_valid''), 0x18, QMI_IDL_FLAGS_OFFSET_IS_16 OR QMI_IDL_AGGREGATE] @ QMI_IDL_OFFSET16ARRAY off ''currentCellId'' @ QMI_IDL_TYPE88 0 87 @
      [QMI_IDL_TLV_FLAGS_OPTIONAL OR (QMI_IDL_OFFSET16RELATIVE off ''requestedDataTypes'' - QMI_IDL_OFFSET16RELATIVE off ''requestedDataTypes_valid''), 0x19, QMI_IDL_FLAGS_OFFSET_IS_16 OR QMI_IDL_GENERIC_1_BYTE] @ QMI_IDL_OFFSET16ARRAY off ''requestedDataTypes'' @
      [QMI_IDL_TLV_FLAGS_LAST_TLV OR QMI_IDL_TLV_FLAGS_OPTIONAL OR (QMI_IDL_OFFSET16RELATIVE off ''restrictedRegionVersion'' - QMI_IDL_OFFSET16RELATIVE off ''restrictedRegionVersion_valid''), 0x1A, QMI_IDL_FLAGS_OFFSET_IS_16 OR QMI_IDL_GENERIC_1_BYTE] @ QMI_IDL_OFFSET16ARRAY off ''restrictedRegionVersion''))"

definition qmiLocGetFdclBsListReqMsgT_data_v02 :: "int list" where
  "qmiLocGetFdclBsListReqMsgT_data_v02 =
    (let off = offsetof qmiLocGetFdclBsListReqMsgT_v02 in uint8_array (
      [QMI_IDL_TLV_FLAGS_OPTIONAL OR (QMI_IDL_OFFSET8 off ''expireInDays'' - QMI_IDL_OFFSET8 off ''expireInDays_valid''), 0x10, QMI_IDL_GENERIC_4_BYTE, QMI_IDL_OFFSET8 off ''expireInDays'',
       QMI_IDL_TLV_FLAGS_OPTIONAL OR (QMI_IDL_OFFSET8 off ''timestampUtc'' - QMI_IDL_OFFSET8 off ''timestampUtc_valid''), 0x11, QMI_IDL_GENERIC_8_BYTE, QMI_IDL_OFFSET8 off ''timestampUtc'',
       QMI_IDL_TLV_FLAGS_LAST_TLV OR QMI_IDL_TLV_FLAGS_OPTIONAL OR (QMI_IDL_OFFSET8 off ''maxNumBs'' - QMI_IDL_OFFSET8 off ''maxNumBs_valid''), 0x12, QMI_IDL_GENERIC_2_BYTE, QMI_IDL_OFFSET8 off ''maxNumBs'']))"

definition qmiLocGetFdclBsListIndMsgT_data_v02 :: "int list" where
  "qmiLocGetFdclBsListIndMsgT_data_v02 =
    (let off = offsetof qmiLocGetFdclBsListIndMsgT_v02 in uint8_array (
      [0x01, QMI_IDL_GENERIC_4_BYTE, QMI_IDL_OFFSET8 off ''status'',
       0x02, QMI_IDL_FLAGS_IS_ARRAY OR QMI_IDL_FLAGS_IS_VARIABLE_LEN OR QMI_IDL_AGGREGATE, QMI_IDL_OFFSET8 off ''BsList'', QMI_LOC_FDCL_BS_LIST_MAX_SIZE_V02, QMI_IDL_OFFSET8 off ''BsList'' - QMI_IDL_OFFSET8 off ''BsList_len''] @ QMI_IDL_TYPE88 0 87 @
      [QMI_IDL_TLV_FLAGS_OPTIONAL OR (QMI_IDL_OFFSET16RELATIVE off ''moreBsAvailable'' - QMI_IDL_OFFSET16RELATIVE off ''moreBsAvailable_valid''), 0x10, QMI_IDL_FLAGS_OFFSET_IS_16 OR QMI_IDL_GENERIC_1_BYTE] @ QMI_IDL_OFFSET16ARRAY off ''moreBsAvailable'' @
      [QMI_IDL_TLV_FLAGS_OPTIONAL OR (QMI_IDL_OFFSET16RELATIVE off ''bsLocalTimestampList'' - QMI_IDL_OFFSET16RELATIVE off ''bsLocalTimestampList_valid''), 0x11, QMI_IDL_FLAGS_IS_ARRAY OR QMI_IDL_FLAGS_IS_VARIABLE_LEN OR QMI_IDL_FLAGS_OFFSET_IS_16 OR QMI_IDL_GENERIC_4_BYTE] @ QMI_IDL_OFFSET16ARRAY off ''bsLocalTimestampList'' @
      [QMI_LOC_FDCL_BS_LIST_MAX_SIZE_V02, QMI_IDL_OFFSET16RELATIVE off ''bsLocalTimestampList'' - QMI_IDL_OFFSET16RELATIVE off ''bsLocalTimestampList_len'',
       QMI_IDL_TLV_FLAGS_LAST_TLV OR QMI_IDL_TLV_FLAGS_OPTIONAL OR (QMI_IDL_OFFSET16RELATIVE off ''bsBestPosition'' - QMI_IDL_OFFSET16RELATIVE off ''bsBestPosition_valid''), 0x12, QMI_IDL_FLAGS_OFFSET_IS_16 OR QMI_IDL_AGGREGATE] @ QMI_IDL_OFFSET16ARRAY off ''bsBestPosition'' @ QMI_IDL_TYPE88 0 86))"

definition qmiLocInjectFdclDataReqMsgT_data_v02 :: "int list" where
  "qmiLocInjectFdclDataReqMsgT_data_v02 =
    (let off = offsetof qmiLocInjectFdclDataReqMsgT_v02 in uint8_array (
      [0x01, QMI_IDL_FLAGS_IS_ARRAY OR QMI_IDL_FLAGS_IS_VARIABLE_LEN OR QMI_IDL_AGGREGATE, QMI_IDL_OFFSET8 off ''cellPosList'', QMI_LOC_FDCL_CELL_POS_LIST_LENGTH_V02, QMI_IDL_OFFSET8 off ''cellPosList'' - QMI_IDL_OFFSET8 off ''cellPosList_len''] @ QMI_IDL_TYPE88 0 88 @
      [0x02, QMI_IDL_FLAGS_OFFSET_IS_16 OR QMI_IDL_GENERIC_4_BYTE] @ QMI_IDL_OFFSET16ARRAY off ''daysValid'' @
      [QMI_IDL_TLV_FLAGS_OPTIONAL OR (QMI_IDL_OFFSET16RELATIVE off ''timestampUtc'' - QMI_IDL_OFFSET16RELATIVE off ''timestampUtc_valid''), 0x10, QMI_IDL_FLAGS_OFFSET_IS_16 OR QMI_IDL_GENERIC_8_BYTE] @ QMI_IDL_OFFSET16ARRAY off ''timestampUtc'' @
      [QMI_IDL_TLV_FLAGS_OPTIONAL OR (QMI_IDL_OFFSET16RELATIVE off ''cellRecordTypeList'' - QMI_IDL_OFFSET16RELATIVE off ''cellRecordTypeList_valid''), 0x11, QMI_IDL_FLAGS_IS_ARRAY OR QMI_IDL_FLAGS_IS_VARIABLE_LEN OR QMI_IDL_FLAGS_OFFSET_IS_16 OR QMI_IDL_GENERIC_4_BYTE] @ QMI_IDL_OFFSET16ARRAY off ''cellRecordTypeList'' @
      [QMI_LOC_FDCL_CELL_POS_LIST_LENGTH_V02, QMI_IDL_OFFSET16RELATIVE off ''cellRecordTypeList'' - QMI_IDL_OFFSET16RELATIVE off ''cellRecordTypeList_len'',
       QMI_IDL_TLV_FLAGS_OPTIONAL OR (QMI_IDL_OFFSET16RELATIVE off ''moreBsAvailable'' - QMI_IDL_OFFSET16RELATIVE off ''moreBsAvailable_valid''), 0x12, QMI_IDL_FLAGS_OFFSET_IS_16 OR QMI_IDL_GENERIC_1_BYTE] @ QMI_IDL_OFFSET16ARRAY off ''moreBsAvailable'' @
      [QMI_IDL_TLV_FLAGS_OPTIONAL OR (QMI_IDL_OFFSET16RELATIVE off ''clientControls'' - QMI_IDL_OFFSET16RELATIVE off ''clientControls_valid''), 0x13, QMI_IDL_FLAGS_OFFSET_IS_16 OR QMI_IDL_GENERIC_2_BYTE] @ QMI_IDL_OFFSET16ARRAY off ''clientControls'' @
      [QMI_IDL_TLV_FLAGS_OPTIONAL OR (QMI_IDL_OFFSET16RELATIVE off ''maxNumCellsToUpload'' - QMI_IDL_OFFSET16RELATIVE off ''maxNumCellsToUpload_valid''), 0x14, QMI_IDL_FLAGS_OFFSET_IS_16 OR QMI_IDL_GENERIC_2_BYTE] @ QMI_IDL_OFFSET16ARRAY off ''maxNumCellsToUpload'' @
      [QMI_IDL_TLV_FLAGS_OPTIONAL OR (QMI_IDL_OFFSET16RELATIVE off ''minSecsBtwRequests'' - QMI_IDL_OFFSET16RELATIVE off ''minSecsBtwRequests_valid''), 0x15, QMI_IDL_FLAGS_OFFSET_IS_16 OR QMI_IDL_GENERIC_2_BYTE] @ QMI_IDL_OFFSET16ARRAY off ''minSecsBtwRequests'' @
      [QMI_IDL_TLV_FLAGS_OPTIONAL OR (QMI_IDL_OFFSET16RELATIVE off ''restrictedRegionVersion'' - QMI_IDL_OFFSET16RELATIVE off ''restrictedRegionVersion_valid''), 0x16, QMI_IDL_FLAGS_OFFSET_IS_16 OR QMI_IDL_GENERIC_1_BYTE] @ QMI_IDL_OFFSET16ARRAY off ''restrictedRegionVersion'' @
      [QMI_IDL_TLV_FLAGS_LAST_TLV OR QMI_IDL_TLV_FLAGS_OPTIONAL OR (QMI_IDL_OFFSET16RELATIVE off ''restrictedRegions'' - QMI_IDL_OFFSET16RELATIVE off ''restrictedRegions_valid''), 0x17, QMI_IDL_FLAGS_IS_ARRAY OR QMI_IDL_FLAGS_IS_VARIABLE_LEN OR QMI_IDL_FLAGS_OFFSET_IS_16 OR QMI_IDL_AGGREGATE] @ QMI_IDL_OFFSET16ARRAY off ''restrictedRegions'' @
      [QMI_LOC_FDCL_BS_LIST_MAX_SIZE_V02, QMI_IDL_OFFSET16RELATIVE off ''restrictedRegions'' - QMI_IDL_OFFSET16RELATIVE off ''restrictedRegions_len''] @ QMI_IDL_TYPE88 0 84))"

definition qmiLocInjectFdclDataIndMsgT_data_v02 :: "int list" where
  "qmiLocInjectFdclDataIndMsgT_data_v02 =
    (let off = offsetof qmiLocInjectFdclDataIndMsgT_v02 in uint8_array (
      [0x01, QMI_IDL_GENERIC_4_BYTE, QMI_IDL_OFFSET8 off ''status'',
       0x02, QMI_IDL_GENERIC_4_BYTE, QMI_IDL_OFFSET8 off ''inject_status'',
       QMI_IDL_TLV_FLAGS_LAST_TLV OR QMI_IDL_TLV_FLAGS_OPTIONAL OR (QMI_IDL_OFFSET8 off ''errorMsg'' - QMI_IDL_OFFSET8 off ''errorMsg_valid''), 0x10, QMI_IDL_FLAGS_IS_ARRAY OR QMI_IDL_FLAGS_IS_VARIABLE_LEN OR QMI_IDL_STRING, QMI_IDL_OFFSET8 off ''errorMsg'', QMI_LOC_INJECT_FDCL_DATA_ERROR_MSG_LEN_V02]))"

definition qmiLocSetBlacklistSvReqMsgT_data_v02 :: "int list" where
  "qmiLocSetBlacklistSvReqMsgT_data_v02 =
    (let off = offsetof qmiLocSetBlacklistSvReqMsgT_v02 in uint8_array (
      [QMI_IDL_TLV_FLAGS_OPTIONAL OR (QMI_IDL_OFFSET8 off ''glo_persist_blacklist_sv'' - QMI_IDL_OFFSET8 off ''glo_persist_blacklist_sv_valid''), 0x10, QMI_IDL_GENERIC_8_BYTE, QMI_IDL_OFFSET8 off ''glo_persist_blacklist_sv'',
       QMI_IDL_TLV_FLAGS_OPTIONAL OR (QMI_IDL_OFFSET8 off ''glo_clear_persist_blacklist_sv'' - QMI_IDL_OFFSET8 off ''glo_clear_persist_blacklist_sv_valid''), 0x11, QMI_IDL_GENERIC_8_BYTE, QMI_IDL_OFFSET8 off ''glo_clear_persist_blacklist_sv'',
       QMI_IDL_TLV_FLAGS_OPTIONAL OR (QMI_IDL_OFFSET8 off ''bds_persist_blacklist_sv'' - QMI_IDL_OFFSET8 off ''bds_persist_blacklist_sv_valid''), 0x12, QMI_IDL_GENERIC_8_BYTE, QMI_IDL_OFFSET8 off ''bds_persist_blacklist_sv'',
       QMI_IDL_TLV_FLAGS_OPTIONAL OR (QMI_IDL_OFFSET8 off ''bds_clear_persist_blacklist_sv'' - QMI_IDL_OFFSET8 off ''bds_clear_persist_blacklist_sv_valid''), 0x13, QMI_IDL_GENERIC_8_BYTE, QMI_IDL_OFFSET8 off ''bds_clear_persist_blacklist_sv'',
       QMI_IDL_TLV_FLAGS_OPTIONAL OR (QMI_IDL_OFFSET8 off ''qzss_persist_blacklist_sv'' - QMI_IDL_OFFSET8 off ''qzss_persist_blacklist_sv_valid''), 0x14, QMI_IDL_GENERIC_8_BYTE, QMI_IDL_OFFSET8 off ''qzss_persist_blacklist_sv'',
       QMI_IDL_TLV_FLAGS_OPTIONAL OR (QMI_IDL_OFFSET8 off ''qzss_clear_persist_blacklist_sv'' - QMI_IDL_OFFSET8 off ''qzss_clear_persist_blacklist_sv_valid''), 0x15, QMI_IDL_GENERIC_8_BYTE, QMI_IDL_OFFSET8 off ''qzss_clear_persist_blacklist_sv'',
       QMI_IDL_TLV_FLAGS_OPTIONAL OR (QMI_IDL_OFFSET8 off ''gal_persist_blacklist_sv'' - QMI_IDL_OFFSET8 off ''gal_persist_blacklist_sv_valid''), 0x16, QMI_IDL_GENERIC_8_BYTE, QMI_IDL_OFFSET8 off ''gal_persist_blacklist_sv'',
       QMI_IDL_TLV_FLAGS_OPTIONAL OR (QMI_IDL_OFFSET8 off ''gal_clear_persist_blacklist_sv'' - QMI_IDL_OFFSET8 off ''gal_clear_persist_blacklist_sv_valid''), 0x17, QMI_IDL_GENERIC_8_BYTE, QMI_IDL_OFFSET8 off ''gal_clear_persist_blacklist_sv'',
       QMI_IDL_TLV_FLAGS_OPTIONAL OR (QMI_IDL_OFFSET8 off ''sbas_persist_blacklist_sv'' - QMI_IDL_OFFSET8 off ''sbas_persist_blacklist_sv_valid''), 0x18, QMI_IDL_GENERIC_8_BYTE, QMI_IDL_OFFSET8 off ''sbas_persist_blacklist_sv'',
       QMI_IDL_TLV_FLAGS_OPTIONAL OR (QMI_IDL_OFFSET8 off ''sbas_clear_persist_blacklist_sv'' - QMI_IDL_OFFSET8 off ''sbas_clear_persist_blacklist_sv_valid''), 0x19, QMI_IDL_GENERIC_8_BYTE, QMI_IDL_OFFSET8 off ''sbas_clear_persist_blacklist_sv'',
       QMI_IDL_TLV_FLAGS_OPTIONAL OR (QMI_IDL_OFFSET8 off ''navic_persist_blacklist_sv'' - QMI_IDL_OFFSET8 off ''navic_persist_blacklist_sv_valid''), 0x1A, QMI_IDL_GENERIC_8_BYTE, QMI_IDL_OFFSET8 off ''navic_persist_blacklist_sv'',
       QMI_IDL_TLV_FLAGS_OPTIONAL OR (QMI_IDL_OFFSET8 off ''navic_clear_persist_blacklist_sv'' - QMI_IDL_OFFSET8 off ''navic_clear_persist_blacklist_sv_valid''), 0x1B, QMI_IDL_GENERIC_8_BYTE, QMI_IDL_OFFSET8 off ''navic_clear_persist_blacklist_sv'',
       QMI_IDL_TLV_FLAGS_OPTIONAL OR (QMI_IDL_OFFSET8 off ''gps_persist_blacklist_sv'' - QMI_IDL_OFFSET8 off ''gps_persist_blacklist_sv_valid''), 0x1C, QMI_IDL_GENERIC_8_BYTE, QMI_IDL_OFFSET8 off ''gps_persist_blacklist_sv'',
       QMI_IDL_TLV_FLAGS_LAST_TLV OR QMI_IDL_TLV_FLAGS_OPTIONAL OR (QMI_IDL_OFFSET16RELATIVE off ''gps_clear_persist_blacklist_sv'' - QMI_IDL_OFFSET16RELATIVE off ''gps_clear_persist_blacklist_sv_valid''), 0x1D, QMI_IDL_FLAGS_OFFSET_IS_16 OR QMI_IDL_GENERIC_8_BYTE] @ QMI_IDL_OFFSET16ARRAY off ''gps_clear_persist_blacklist_sv''))"

definition qmiLocGetBlacklistSvIndMsgT_data_v02 :: "int list" where
  "qmiLocGetBlacklistSvIndMsgT_data_v02 =
    (let off = offsetof qmiLocGetBlacklistSvIndMsgT_v02 in uint8_array (
      [0x01, QMI_IDL_GENERIC_4_BYTE, QMI_IDL_OFFSET8 off ''status'',
       QMI_IDL_TLV_FLAGS_OPTIONAL OR (QMI_IDL_OFFSET8 off ''glo_persist_blacklist_sv'' - QMI_IDL_OFFSET8 off ''glo_persist_blacklist_sv_valid''), 0x10, QMI_IDL_GENERIC_8_BYTE, QMI_IDL_OFFSET8 off ''glo_persist_blacklist_sv'',
       QMI_IDL_TLV_FLAGS_OPTIONAL OR (QMI_IDL_OFFSET8 off ''bds_persist_blacklist_sv'' - QMI_IDL_OFFSET8 off ''bds_persist_blacklist_sv_valid''), 0x11, QMI_IDL_GENERIC_8_BYTE, QMI_IDL_OFFSET8 off ''bds_persist_blacklist_sv'',
       QMI_IDL_TLV_FLAGS_OPTIONAL OR (QMI_IDL_OFFSET8 off ''qzss_persist_blacklist_sv'' - QMI_IDL_OFFSET8 off ''qzss_persist_blacklist_sv_valid''), 0x12, QMI_IDL_GENERIC_8_BYTE, QMI_IDL_OFFSET8 off ''qzss_persist_blacklist_sv'',
       QMI_IDL_TLV_FLAGS_OPTIONAL OR (QMI_IDL_OFFSET8 off ''gal_persist_blacklist_sv'' - QMI_IDL_OFFSET8 off ''gal_persist_blacklist_sv_valid''), 0x13, QMI_IDL_GENERIC_8_BYTE, QMI_IDL_OFFSET8 off ''gal_persist_blacklist_sv'',
       QMI_IDL_TLV_FLAGS_OPTIONAL OR (QMI_IDL_OFFSET8 off ''sbas_persist_blacklist_sv'' - QMI_IDL_OFFSET8 off ''sbas_persist_blacklist_sv_valid''), 0x14, QMI_IDL_GENERIC_8_BYTE, QMI_IDL_OFFSET8 off ''sbas_persist_blacklist_sv'',
       QMI_IDL_TLV_FLAGS_OPTIONAL OR (QMI_IDL_OFFSET8 off ''navic_persist_blacklist_sv'' - QMI_IDL_OFFSET8 off ''navic_persist_blacklist_sv_valid''), 0x15, QMI_IDL_GENERIC_8_BYTE, QMI_IDL_OFFSET8 off ''navic_persist_blacklist_sv'',
       QMI_IDL_TLV_FLAGS_LAST_TLV OR QMI_IDL_TLV_FLAGS_OPTIONAL OR (QMI_IDL_OFFSET8 off ''gps_persist_blacklist_sv'' - QMI_IDL_OFFSET8 off ''gps_persist_blacklist_sv_valid''), 0x16, QMI_IDL_GENERIC_8_BYTE, QMI_IDL_OFFSET8 off ''gps_persist_blacklist_sv'']))"

definition qmiLocSetConstellationConfigReqMsgT_data_v02 :: "int list" where
  "qmiLocSetConstellationConfigReqMsgT_data_v02 =
    (let off = offsetof qmiLocSetConstellationConfigReqMsgT_v02 in uint8_array (
      [0x01, QMI_IDL_GENERIC_1_BYTE, QMI_IDL_OFFSET8 off ''resetConstellations'',
       QMI_IDL_TLV_FLAGS_OPTIONAL OR (QMI_IDL_OFFSET8 off ''enableMask'' - QMI_IDL_OFFSET8 off ''enableMask_valid''), 0x10, QMI_IDL_GENERIC_8_BYTE, QMI_IDL_OFFSET8 off ''enableMask'',
       QMI_IDL_TLV_FLAGS_LAST_TLV OR QMI_IDL_TLV_FLAGS_OPTIONAL OR (QMI_IDL_OFFSET8 off ''disableMask'' - QMI_IDL_OFFSET8 off ''disableMask_valid''), 0x11, QMI_IDL_GENERIC_8_BYTE, QMI_IDL_OFFSET8 off ''disableMask'']))"

definition qmiLocEventDcReportIndMsgT_data_v02 :: "int list" where
  "qmiLocEventDcReportIndMsgT_data_v02 =
    (let off = offsetof qmiLocEventDcReportIndMsgT_v02 in uint8_array (
      [QMI_IDL_TLV_FLAGS_OPTIONAL OR (QMI_IDL_OFFSET8 off ''msgType'' - QMI_IDL_OFFSET8 off ''msgType_valid''), 0x10, QMI_IDL_GENERIC_4_BYTE, QMI_IDL_OFFSET8 off ''msgType'',
       QMI_IDL_TLV_FLAGS_OPTIONAL OR (QMI_IDL_OFFSET8 off ''numValidBits'' - QMI_IDL_OFFSET8 off ''numValidBits_valid''), 0x11, QMI_IDL_GENERIC_2_BYTE, QMI_IDL_OFFSET8 off ''numValidBits'',
       QMI_IDL_TLV_FLAGS_OPTIONAL OR (QMI_IDL_OFFSET8 off ''dcReportData'' - QMI_IDL_OFFSET8 off ''dcReportData_valid''), 0x12, QMI_IDL_FLAGS_IS_ARRAY OR QMI_IDL_FLAGS_IS_VARIABLE_LEN OR QMI_IDL_GENERIC_1_BYTE, QMI_IDL_OFFSET8 off ''dcReportData'', QMI_LOC_MAX_DCREPORT_LEN_V02, QMI_IDL_OFFSET8 off ''dcReportData'' - QMI_IDL_OFFSET8 off ''dcReportData_len'',
       QMI_IDL_TLV_FLAGS_LAST_TLV OR QMI_IDL_TLV_FLAGS_OPTIONAL OR (QMI_IDL_OFFSET8 off ''prn'' - QMI_IDL_OFFSET8 off ''prn_valid''), 0x13, QMI_IDL_GENERIC_1_BYTE, QMI_IDL_OFFSET8 off ''prn'']))"

definition qmiLocRegisterMasterClientReqMsgT_data_v02 :: "int list" where
  "qmiLocRegisterMasterClientReqMsgT_data_v02 =
    (let off = offsetof qmiLocRegisterMasterClientReqMsgT_v02 in uint8_array (
      [QMI_IDL_TLV_FLAGS_LAST_TLV OR 0x01, QMI_IDL_GENERIC_4_BYTE, QMI_IDL_OFFSET8 off ''key'']))"

definition qmiLocRegisterMasterClientIndMsgT_data_v02 :: "int list" where
  "qmiLocRegisterMasterClientIndMsgT_data_v02 =
    (let off = offsetof qmiLocRegisterMasterClientIndMsgT_v02 in uint8_array (
      [QMI_IDL_TLV_FLAGS_LAST_TLV OR 0x01, QMI_IDL_GENERIC_4_BYTE, QMI_IDL_OFFSET8 off ''status'']))"

definition loc_message_table_v02_7 :: "qmi_idl_message_table_entry list" where
  "loc_message_table_v02_7 = [
    (qmiLocDeleteGNSSServiceDataIndMsgT_v02, Some qmiLocDeleteGNSSServiceDataIndMsgT_data_v02),
    (qmiLocInjectXtraDataReqMsgT_v02, Some qmiLocInjectXtraDataReqMsgT_data_v02),
    (qmiLocInjectXtraDataIndMsgT_v02, Some qmiLocInjectXtraDataIndMsgT_data_v02),
    (qmiLocInjectXtraPcidReqMsgT_v02, Some qmiLocInjectXtraPcidReqMsgT_data_v02),
    (qmiLocInjectXtraPcidIndMsgT_v02, Some qmiLocInjectXtraPcidIndMsgT_data_v02),
    (qmiLocGetSupportedFeatureReqMsgT_v02, None),
    (qmiLocGetSupportedFeatureIndMsgT_v02, Some qmiLocGetSupportedFeatureIndMsgT_data_v02),
    (qmiLocSetInternalStatusConfigReqMsgT_v02, Some qmiLocSetInternalStatusConfigReqMsgT_data_v02),
    (qmiLocSetInternalStatusConfigIndMsgT_v02, Some qmiLocSetInternalStatusConfigIndMsgT_data_v02),
    (qmiLocEventInternalStatusReportIndMsgT_v02, Some qmiLocEventInternalStatusReportIndMsgT_data_v02),
    (qmiLocEventInjectSrnApDataReqIndMsgT_v02, Some qmiLocEventInjectSrnApDataReqIndMsgT_data_v02),
    (qmiLocInjectSrnApDataReqMsgT_v02, Some qmiLocInjectSrnApDataReqMsgT_data_v02),
    (qmiLocInjectSrnApDataIndMsgT_v02, Some qmiLocInjectSrnApDataIndMsgT_data_v02),
    (qmiLocCrowdSourceManagerControlReqMsgT_v02, Some qmiLocCrowdSourceManagerControlReqMsgT_data_v02),
    (qmiLocCrowdSourceManagerControlIndMsgT_v02, Some qmiLocCrowdSourceManagerControlIndMsgT_data_v02),
    (qmiLocCrowdSourceManagerReadDataReqMsgT_v02, Some qmiLocCrowdSourceManagerReadDataReqMsgT_data_v02),
    (qmiLocQueryXtraInfoReqMsgT_v02, Some qmiLocQueryXtraInfoReqMsgT_data_v02),
    (qmiLocQueryXtraInfoIndMsgT_v02, Some qmiLocQueryXtraInfoIndMsgT_data_v02),
    (qmiLocStartOutdoorTripBatchingReqMsgT_v02, Some qmiLocStartOutdoorTripBatchingReqMsgT_data_v02),
    (qmiLocStartOutdoorTripBatchingIndMsgT_v02, Some qmiLocStartOutdoorTripBatchingIndMsgT_data_v02),
    (qmiLocQueryOTBAccumulatedDistanceReqMsgT_v02, None),
    (qmiLocQueryOTBAccumulatedDistanceIndMsgT_v02, Some qmiLocQueryOTBAccumulatedDistanceIndMsgT_data_v02),
    (qmiLocEventFdclServiceReqIndMsgT_v02, Some qmiLocEventFdclServiceReqIndMsgT_data_v02),
    (qmiLocGetFdclBsListReqMsgT_v02, Some qmiLocGetFdclBsListReqMsgT_data_v02),
    (qmiLocGetFdclBsListIndMsgT_v02, Some qmiLocGetFdclBsListIndMsgT_data_v02),
    (qmiLocInjectFdclDataReqMsgT_v02, Some qmiLocInjectFdclDataReqMsgT_data_v02),
    (qmiLocInjectFdclDataIndMsgT_v02, Some qmiLocInjectFdclDataIndMsgT_data_v02),
    (qmiLocSetBlacklistSvReqMsgT_v02, Some qmiLocSetBlacklistSvReqMsgT_data_v02),
    (qmiLocGetBlacklistSvIndMsgT_v02, Some qmiLocGetBlacklistSvIndMsgT_data_v02),
    (qmiLocSetConstellationConfigReqMsgT_v02, Some qmiLocSetConstellationConfigReqMsgT_data_v02),
    (qmiLocEventDcReportIndMsgT_v02, Some qmiLocEventDcReportIndMsgT_data_v02),
    (qmiLocRegisterMasterClientReqMsgT_v02, Some qmiLocRegisterMasterClientReqMsgT_data_v02),
    (qmiLocRegisterMasterClientIndMsgT_v02, Some qmiLocRegisterMasterClientIndMsgT_data_v02)]"


end
