(* ===== verification/LocMessages4.thy ===== *)
theory LocMessages4
  imports LocTypeTable
begin

text \<open>
  The message table of \<open>loc_api/loc_api_v02/location_service_v02.c\<close> (part 4 of 4): the bytes that
  describe each message, and the rows of the table that pair them with the message structs.
\<close>

unbundle bit_operations_syntax

definition qmiLocEventEngineLockStateIndMsgT_data_v02 :: "int list" where
  "qmiLocEventEngineLockStateIndMsgT_data_v02 =
    (let off = offsetof qmiLocEventEngineLockStateIndMsgT_v02 in uint8_array (
      [0x01, QMI_IDL_GENERIC_4_BYTE, QMI_IDL_OFFSET8 off ''engineLockState'',
       QMI_IDL_TLV_FLAGS_OPTIONAL OR (QMI_IDL_OFFSET8 off ''subType'' - QMI_IDL_OFFSET8 off ''subType_valid''), 0x10, QMI_IDL_GENERIC_4_BYTE, QMI_IDL_OFFSET8 off ''subType'',
       QMI_IDL_TLV_FLAGS_LAST_TLV OR QMI_IDL_TLV_FLAGS_OPTIONAL OR (QMI_IDL_OFFSET8 off ''lockClient'' - QMI_IDL_OFFSET8 off ''lockClient_valid''), 0x11, QMI_IDL_GENERIC_8_BYTE, QMI_IDL_OFFSET8 off ''lockClient'']))"

definition qmiLocSystemInfoReqMsgT_data_v02 :: "int list" where
  "qmiLocSystemInfoReqMsgT_data_v02 =
    (let off = offsetof qmiLocSystemInfoReqMsgT_v02 in uint8_array (
      [QMI_IDL_TLV_FLAGS_LAST_TLV OR 0x01, QMI_IDL_GENERIC_4_BYTE, QMI_IDL_OFFSET8 off ''systemInfo'']))"

definition qmiLocSystemInfoIndMsgT_data_v02 :: "int list" where
  "qmiLocSystemInfoIndMsgT_data_v02 =
    (let off = offsetof qmiLocSystemInfoIndMsgT_v02 in uint8_array (
      [0x01, QMI_IDL_GENERIC_4_BYTE, QMI_IDL_OFFSET8 off ''systemInfo'',
       QMI_IDL_TLV_FLAGS_OPTIONAL OR (QMI_IDL_OFFSET8 off ''nextLeapSecondInfo'' - QMI_IDL_OFFSET8 off ''nextLeapSecondInfo_valid''), 0x10, QMI_IDL_AGGREGATE, QMI_IDL_OFFSET8 off ''nextLeapSecondInfo''] @ QMI_IDL_TYPE88 0 89 @
      [QMI_IDL_TLV_FLAGS_OPTIONAL OR (QMI_IDL_OFFSET8 off ''system'' - QMI_IDL_OFFSET8 off ''system_valid''), 0x11, QMI_IDL_GENERIC_4_BYTE, QMI_IDL_OFFSET8 off ''system'',
       QMI_IDL_TLV_FLAGS_OPTIONAL OR (QMI_IDL_OFFSET8 off ''gnssWeekCurrent'' - QMI_IDL_OFFSET8 off ''gnssWeekCurrent_valid''), 0x12, QMI_IDL_GENERIC_2_BYTE, QMI_IDL_OFFSET8 off ''gnssWeekCurrent'',
       QMI_IDL_TLV_FLAGS_OPTIONAL OR (QMI_IDL_OFFSET8 off ''gnssTimeOfWeekCurrentMs'' - QMI_IDL_OFFSET8 off ''gnssTimeOfWeekCurrentMs_valid''), 0x13, QMI_IDL_GENERIC_4_BYTE, QMI_IDL_OFFSET8 off ''gnssTimeOfWeekCurrentMs'',
       QMI_IDL_TLV_FLAGS_OPTIONAL OR (QMI_IDL_OFFSET8 off ''gnssWeekNextLSEvent'' - QMI_IDL_OFFSET8 off ''gnssWeekNextLSEvent_valid''), 0x14, QMI_IDL_GENERIC_2_BYTE, QMI_IDL_OFFSET8 off ''gnssWeekNextLSEvent'',
       QMI_IDL_TLV_FLAGS_OPTIONAL OR (QMI_IDL_OFFSET8 off ''gnssTimeOfWeekNextLSEventMs'' - QMI_IDL_OFFSET8 off ''gnssTimeOfWeekNextLSEventMs_valid''), 0x15, QMI_IDL_GENERIC_4_BYTE, QMI_IDL_OFFSET8 off ''gnssTimeOfWeekNextLSEventMs'',
       QMI_IDL_TLV_FLAGS_OPTIONAL OR (QMI_IDL_OFFSET8 off ''gnssleapSecondsNext'' - QMI_IDL_OFFSET8 off ''gnssleapSecondsNext_valid''), 0x16, QMI_IDL_GENERIC_1_BYTE, QMI_IDL_OFFSET8 off ''gnssleapSecondsNext'',
       QMI_IDL_TLV_FLAGS_OPTIONAL OR (QMI_IDL_OFFSET8 off ''gnssleapSecondsCurrent'' - QMI_IDL_OFFSET8 off ''gnssleapSecondsCurrent_valid''), 0x17, QMI_IDL_GENERIC_1_BYTE, QMI_IDL_OFFSET8 off ''gnssleapSecondsCurrent'',
       QMI_IDL_TLV_FLAGS_LAST_TLV OR QMI_IDL_TLV_FLAGS_OPTIONAL OR (QMI_IDL_OFFSET8 off ''dwellAlignTimeMs'' - QMI_IDL_OFFSET8 off ''dwellAlignTimeMs_valid''), 0x18, QMI_IDL_GENERIC_4_BYTE, QMI_IDL_OFFSET8 off ''dwellAlignTimeMs'']))"

definition qmiLocGetConstellationConfigIndMsgT_data_v02 :: "int list" where
  "qmiLocGetConstellationConfigIndMsgT_data_v02 =
    (let off = offsetof qmiLocGetConstellationConfigIndMsgT_v02 in uint8_array (
      [0x01, QMI_IDL_GENERIC_4_BYTE, QMI_IDL_OFFSET8 off ''status'',
       QMI_IDL_TLV_FLAGS_OPTIONAL OR (QMI_IDL_OFFSET8 off ''gps_status'' - QMI_IDL_OFFSET8 off ''gps_status_valid''), 0x10, QMI_IDL_GENERIC_4_BYTE, QMI_IDL_OFFSET8 off ''gps_status'',
       QMI_IDL_TLV_FLAGS_OPTIONAL OR (QMI_IDL_OFFSET8 off ''glonass_status'' - QMI_IDL_OFFSET8 off ''glonass_status_valid''), 0x11, QMI_IDL_GENERIC_4_BYTE, QMI_IDL_OFFSET8 off ''glonass_status'',
       QMI_IDL_TLV_FLAGS_OPTIONAL OR (QMI_IDL_OFFSET8 off ''bds_status'' - QMI_IDL_OFFSET8 off ''bds_status_valid''), 0x12, QMI_IDL_GENERIC_4_BYTE, QMI_IDL_OFFSET8 off ''bds_status'',
       QMI_IDL_TLV_FLAGS_OPTIONAL OR (QMI_IDL_OFFSET8 off ''qzss_status'' - QMI_IDL_OFFSET8 off ''qzss_status_valid''), 0x13, QMI_IDL_GENERIC_4_BYTE, QMI_IDL_OFFSET8 off ''qzss_status'',
       QMI_IDL_TLV_FLAGS_OPTIONAL OR (QMI_IDL_OFFSET8 off ''galileo_status'' - QMI_IDL_OFFSET8 off ''galileo_status_valid''), 0x14, QMI_IDL_GENERIC_4_BYTE, QMI_IDL_OFFSET8 off ''galileo_status'',
       QMI_IDL_TLV_FLAGS_LAST_TLV OR QMI_IDL_TLV_FLAGS_OPTIONAL OR (QMI_IDL_OFFSET8 off ''navic_status'' - QMI_IDL_OFFSET8 off ''navic_status_valid''), 0x15, QMI_IDL_GENERIC_4_BYTE, QMI_IDL_OFFSET8 off ''navic_status'']))"

definition qmiLocEnablePositionInjectionTestModeReqMsgT_data_v02 :: "int list" where
  "qmiLocEnablePositionInjectionTestModeReqMsgT_data_v02 =
    (let off = offsetof qmiLocEnablePositionInjectionTestModeReqMsgT_v02 in uint8_array (
      [QMI_IDL_TLV_FLAGS_LAST_TLV OR 0x01, QMI_IDL_GENERIC_1_BYTE, QMI_IDL_OFFSET8 off ''enableTestMode'']))"

definition qmiLocEnablePositionInjectionTestModeIndMsgT_data_v02 :: "int list" where
  "qmiLocEnablePositionInjectionTestModeIndMsgT_data_v02 =
    (let off = offsetof qmiLocEnablePositionInjectionTestModeIndMsgT_v02 in uint8_array (
      [0x01, QMI_IDL_GENERIC_4_BYTE, QMI_IDL_OFFSET8 off ''status'',
       QMI_IDL_TLV_FLAGS_LAST_TLV OR QMI_IDL_TLV_FLAGS_OPTIONAL OR (QMI_IDL_OFFSET8 off ''testModeState'' - QMI_IDL_OFFSET8 off ''testModeState_valid''), 0x10, QMI_IDL_GENERIC_4_BYTE, QMI_IDL_OFFSET8 off ''testModeState'']))"

definition qmiLocInjectTestPositionReqMsgT_data_v02 :: "int list" where
  "qmiLocInjectTestPositionReqMsgT_data_v02 =
    (let off = offsetof qmiLocInjectTestPositionReqMsgT_v02 in uint8_array (
      [0x01, QMI_IDL_GENERIC_8_BYTE, QMI_IDL_OFFSET8 off ''latitude'',
       0x02, QMI_IDL_GENERIC_8_BYTE, QMI_IDL_OFFSET8 off ''longitude'',
       0x03, QMI_IDL_GENERIC_4_BYTE, QMI_IDL_OFFSET8 off ''horUncCircular'',
       0x04, QMI_IDL_GENERIC_8_BYTE, QMI_IDL_OFFSET8 off ''timestampUtc'',
       QMI_IDL_TLV_FLAGS_LAST_TLV OR QMI_IDL_TLV_FLAGS_OPTIONAL OR (QMI_IDL_OFFSET8 off ''positionSource'' - QMI_IDL_OFFSET8 off ''positionSource_valid''), 0x10, QMI_IDL_GENERIC_4_BYTE, QMI_IDL_OFFSET8 off ''positionSource'']))"

definition qmiLocInjectTestPositionIndMsgT_data_v02 :: "int list" where
  "qmiLocInjectTestPositionIndMsgT_data_v02 =
    (let off = offsetof qmiLocInjectTestPositionIndMsgT_v02 in uint8_array (
      [QMI_IDL_TLV_FLAGS_LAST_TLV OR 0x01, QMI_IDL_GENERIC_4_BYTE, QMI_IDL_OFFSET8 off ''status'']))"

definition qmiLocEventBsObsDataServiceReqIndMsgT_data_v02 :: "int list" where
  "qmiLocEventBsObsDataServiceReqIndMsgT_data_v02 =
    (let off = offsetof qmiLocEventBsObsDataServiceReqIndMsgT_v02 in uint8_array (
      [QMI_IDL_TLV_FLAGS_LAST_TLV OR 0x01, QMI_IDL_GENERIC_2_BYTE, QMI_IDL_OFFSET8 off ''numCellsAvailable'']))"

definition qmiLocGetBsObsDataReqMsgT_data_v02 :: "int list" where
  "qmiLocGetBsObsDataReqMsgT_data_v02 =
    (let off = offsetof qmiLocGetBsObsDataReqMsgT_v02 in uint8_array (
      [QMI_IDL_TLV_FLAGS_OPTIONAL OR (QMI_IDL_OFFSET8 off ''timestampUtc'' - QMI_IDL_OFFSET8 off ''timestampUtc_valid''), 0x10, QMI_IDL_GENERIC_8_BYTE, QMI_IDL_OFFSET8 off ''timestampUtc'',
       QMI_IDL_TLV_FLAGS_LAST_TLV OR QMI_IDL_TLV_FLAGS_OPTIONAL OR (QMI_IDL_OFFSET8 off ''numCellsUpload'' - QMI_IDL_OFFSET8 off ''numCellsUpload_valid''), 0x11, QMI_IDL_GENERIC_2_BYTE, QMI_IDL_OFFSET8 off ''numCellsUpload'']))"

definition qmiLocGetBsObsDataIndMsgT_data_v02 :: "int list" where
  "qmiLocGetBsObsDataIndMsgT_data_v02 =
    (let off = offsetof qmiLocGetBsObsDataIndMsgT_v02 in uint8_array (
      [0x01, QMI_IDL_GENERIC_4_BYTE, QMI_IDL_OFFSET8 off ''status'',
       0x02, QMI_IDL_FLAGS_IS_ARRAY OR QMI_IDL_FLAGS_IS_VARIABLE_LEN OR QMI_IDL_AGGREGATE, QMI_IDL_OFFSET8 off ''bsData'', QMI_LOC_FDCL_BS_LIST_MAX_SIZE_V02, QMI_IDL_OFFSET8 off ''bsData'' - QMI_IDL_OFFSET8 off ''bsData_len''] @ QMI_IDL_TYPE88 0 90 @
      [QMI_IDL_TLV_FLAGS_LAST_TLV OR QMI_IDL_TLV_FLAGS_OPTIONAL OR (QMI_IDL_OFFSET16RELATIVE off ''moreBsAvailable'' - QMI_IDL_OFFSET16RELATIVE off ''moreBsAvailable_valid''), 0x10, QMI_IDL_FLAGS_OFFSET_IS_16 OR QMI_IDL_GENERIC_1_BYTE] @ QMI_IDL_OFFSET16ARRAY off ''moreBsAvailable''))"

definition qmiLocGpsEphemerisReportIndMsgT_data_v02 :: "int list" where
  "qmiLocGpsEphemerisReportIndMsgT_data_v02 =
    (let off = offsetof qmiLocGpsEphemerisReportIndMsgT_v02 in uint8_array (
      [0x01, QMI_IDL_FLAGS_IS_ARRAY OR QMI_IDL_FLAGS_IS_VARIABLE_LEN OR QMI_IDL_AGGREGATE, QMI_IDL_OFFSET8 off ''gpsEphemerisList'', QMI_LOC_EPHEMERIS_LIST_MAX_SIZE_V02, QMI_IDL_OFFSET8 off ''gpsEphemerisList'' - QMI_IDL_OFFSET8 off ''gpsEphemerisList_len''] @ QMI_IDL_TYPE88 0 92 @
      [QMI_IDL_TLV_FLAGS_OPTIONAL OR (QMI_IDL_OFFSET16RELATIVE off ''gpsSystemTime'' - QMI_IDL_OFFSET16RELATIVE off ''gpsSystemTime_valid''), 0x10, QMI_IDL_FLAGS_OFFSET_IS_16 OR QMI_IDL_AGGREGATE] @ QMI_IDL_OFFSET16ARRAY off ''gpsSystemTime'' @ QMI_IDL_TYPE88 0 8 @
      [QMI_IDL_TLV_FLAGS_OPTIONAL OR (QMI_IDL_OFFSET16RELATIVE off ''dataSourceSignal'' - QMI_IDL_OFFSET16RELATIVE off ''dataSourceSignal_valid''), 0x11, QMI_IDL_FLAGS_OFFSET_IS_16 OR QMI_IDL_GENERIC_4_BYTE] @ QMI_IDL_OFFSET16ARRAY off ''dataSourceSignal'' @
      [QMI_IDL_TLV_FLAGS_LAST_TLV OR QMI_IDL_TLV_FLAGS_OPTIONAL OR (QMI_IDL_OFFSET16RELATIVE off ''gpsEphemerisListExt'' - QMI_IDL_OFFSET16RELATIVE off ''gpsEphemerisListExt_valid''), 0x12, QMI_IDL_FLAGS_IS_ARRAY OR QMI_IDL_FLAGS_IS_VARIABLE_LEN OR QMI_IDL_FLAGS_OFFSET_IS_16 OR QMI_IDL_AGGREGATE] @ QMI_IDL_OFFSET16ARRAY off ''gpsEphemerisListExt'' @
      [QMI_LOC_EPHEMERIS_LIST_MAX_SIZE_V02, QMI_IDL_OFFSET16RELATIVE off ''gpsEphemerisListExt'' - QMI_IDL_OFFSET16RELATIVE off ''gpsEphemerisListExt_len''] @ QMI_IDL_TYPE88 0 93))"

definition qmiLocGloEphemerisReportIndMsgT_data_v02 :: "int list" where
  "qmiLocGloEphemerisReportIndMsgT_data_v02 =
    (let off = offsetof qmiLocGloEphemerisReportIndMsgT_v02 in uint8_array (
      [0x01, QMI_IDL_FLAGS_IS_ARRAY OR QMI_IDL_FLAGS_IS_VARIABLE_LEN OR QMI_IDL_AGGREGATE, QMI_IDL_OFFSET8 off ''gloEphemerisList'', QMI_LOC_EPHEMERIS_LIST_MAX_SIZE_V02, QMI_IDL_OFFSET8 off ''gloEphemerisList'' - QMI_IDL_OFFSET8 off ''gloEphemerisList_len''] @ QMI_IDL_TYPE88 0 94 @
      [QMI_IDL_TLV_FLAGS_LAST_TLV OR QMI_IDL_TLV_FLAGS_OPTIONAL OR (QMI_IDL_OFFSET16RELATIVE off ''gpsSystemTime'' - QMI_IDL_OFFSET16RELATIVE off ''gpsSystemTime_valid''), 0x10, QMI_IDL_FLAGS_OFFSET_IS_16 OR QMI_IDL_AGGREGATE] @ QMI_IDL_OFFSET16ARRAY off ''gpsSystemTime'' @ QMI_IDL_TYPE88 0 8))"

definition qmiLocBdsEphemerisReportIndMsgT_data_v02 :: "int list" where
  "qmiLocBdsEphemerisReportIndMsgT_data_v02 =
    (let off = offsetof qmiLocBdsEphemerisReportIndMsgT_v02 in uint8_array (
      [0x01, QMI_IDL_FLAGS_IS_ARRAY OR QMI_IDL_FLAGS_IS_VARIABLE_LEN OR QMI_IDL_AGGREGATE, QMI_IDL_OFFSET8 off ''bdsEphemerisList'', QMI_LOC_EPHEMERIS_LIST_MAX_SIZE_V02, QMI_IDL_OFFSET8 off ''bdsEphemerisList'' - QMI_IDL_OFFSET8 off ''bdsEphemerisList_len''] @ QMI_IDL_TYPE88 0 95 @
      [QMI_IDL_TLV_FLAGS_OPTIONAL OR (QMI_IDL_OFFSET16RELATIVE off ''gpsSystemTime'' - QMI_IDL_OFFSET16RELATIVE off ''gpsSystemTime_valid''), 0x10, QMI_IDL_FLAGS_OFFSET_IS_16 OR QMI_IDL_AGGREGATE] @ QMI_IDL_OFFSET16ARRAY off ''gpsSystemTime'' @ QMI_IDL_TYPE88 0 8 @
      [QMI_IDL_TLV_FLAGS_OPTIONAL OR (QMI_IDL_OFFSET16RELATIVE off ''dataSourceSignal'' - QMI_IDL_OFFSET16RELATIVE off ''dataSourceSignal_valid''), 0x11, QMI_IDL_FLAGS_OFFSET_IS_16 OR QMI_IDL_GENERIC_4_BYTE] @ QMI_IDL_OFFSET16ARRAY off ''dataSourceSignal'' @
      [QMI_IDL_TLV_FLAGS_LAST_TLV OR QMI_IDL_TLV_FLAGS_OPTIONAL OR (QMI_IDL_OFFSET16RELATIVE off ''bdsEphemerisListExt'' - QMI_IDL_OFFSET16RELATIVE off ''bdsEphemerisListExt_valid''), 0x12, QMI_IDL_FLAGS_IS_ARRAY OR QMI_IDL_FLAGS_IS_VARIABLE_LEN OR QMI_IDL_FLAGS_OFFSET_IS_16 OR QMI_IDL_AGGREGATE] @ QMI_IDL_OFFSET16ARRAY off ''bdsEphemerisListExt'' @
      [QMI_LOC_EPHEMERIS_LIST_MAX_SIZE_V02, QMI_IDL_OFFSET16RELATIVE off ''bdsEphemerisListExt'' - QMI_IDL_OFFSET16RELATIVE off ''bdsEphemerisListExt_len''] @ QMI_IDL_TYPE88 0 96))"

definition qmiLocGalEphemerisReportIndMsgT_data_v02 :: "int list" where
  "qmiLocGalEphemerisReportIndMsgT_data_v02 =
    (let off = offsetof qmiLocGalEphemerisReportIndMsgT_v02 in uint8_array (
      [0x01, QMI_IDL_FLAGS_IS_ARRAY OR QMI_IDL_FLAGS_IS_VARIABLE_LEN OR QMI_IDL_AGGREGATE, QMI_IDL_OFFSET8 off ''galEphemerisList'', QMI_LOC_EPHEMERIS_LIST_MAX_SIZE_V02, QMI_IDL_OFFSET8 off ''galEphemerisList'' - QMI_IDL_OFFSET8 off ''galEphemerisList_len''] @ QMI_IDL_TYPE88 0 97 @
      [QMI_IDL_TLV_FLAGS_LAST_TLV OR QMI_IDL_TLV_FLAGS_OPTIONAL OR (QMI_IDL_OFFSET16RELATIVE off ''gpsSystemTime'' - QMI_IDL_OFFSET16RELATIVE off ''gpsSystemTime_valid''), 0x10, QMI_IDL_FLAGS_OFFSET_IS_16 OR QMI_IDL_AGGREGATE] @ QMI_IDL_OFFSET16ARRAY off ''gpsSystemTime'' @ QMI_IDL_TYPE88 0 8))"

definition qmiLocQzssEphemerisReportIndMsgT_data_v02 :: "int list" where
  "qmiLocQzssEphemerisReportIndMsgT_data_v02 =
    (let off = offsetof qmiLocQzssEphemerisReportIndMsgT_v02 in uint8_array (
      [0x01, QMI_IDL_FLAGS_IS_ARRAY OR QMI_IDL_FLAGS_IS_VARIABLE_LEN OR QMI_IDL_AGGREGATE, QMI_IDL_OFFSET8 off ''qzssEphemerisList'', QMI_LOC_EPHEMERIS_LIST_MAX_SIZE_V02, QMI_IDL_OFFSET8 off ''qzssEphemerisList'' - QMI_IDL_OFFSET8 off ''qzssEphemerisList_len''] @ QMI_IDL_TYPE88 0 92 @
      [QMI_IDL_TLV_FLAGS_OPTIONAL OR (QMI_IDL_OFFSET16RELATIVE off ''gpsSystemTime'' - QMI_IDL_OFFSET16RELATIVE off ''gpsSystemTime_valid''), 0x10, QMI_IDL_FLAGS_OFFSET_IS_16 OR QMI_IDL_AGGREGATE] @ QMI_IDL_OFFSET16ARRAY off ''gpsSystemTime'' @ QMI_IDL_TYPE88 0 8 @
      [QMI_IDL_TLV_FLAGS_OPTIONAL OR (QMI_IDL_OFFSET16RELATIVE off ''dataSourceSignal'' - QMI_IDL_OFFSET16RELATIVE off ''dataSourceSignal_valid''), 0x11, QMI_IDL_FLAGS_OFFSET_IS_16 OR QMI_IDL_GENERIC_4_BYTE] @ QMI_IDL_OFFSET16ARRAY off ''dataSourceSignal'' @
      [QMI_IDL_TLV_FLAGS_LAST_TLV OR QMI_IDL_TLV_FLAGS_OPTIONAL OR (QMI_IDL_OFFSET16RELATIVE off ''qzssEphemerisListExt'' - QMI_IDL_OFFSET16RELATIVE off ''qzssEphemerisListExt_valid''), 0x12, QMI_IDL_FLAGS_IS_ARRAY OR QMI_IDL_FLAGS_IS_VARIABLE_LEN OR QMI_IDL_FLAGS_OFFSET_IS_16 OR QMI_IDL_AGGREGATE] @ QMI_IDL_OFFSET16ARRAY off ''qzssEphemerisListExt'' @
      [QMI_LOC_EPHEMERIS_LIST_MAX_SIZE_V02, QMI_IDL_OFFSET16RELATIVE off ''qzssEphemerisListExt'' - QMI_IDL_OFFSET16RELATIVE off ''qzssEphemerisListExt_len''] @ QMI_IDL_TYPE88 0 93))"

definition qmiLocSetConstrainedTuncModeReqMsgT_data_v02 :: "int list" where
  "qmiLocSetConstrainedTuncModeReqMsgT_data_v02 =
    (let off = offsetof qmiLocSetConstrainedTuncModeReqMsgT_v02 in uint8_array (
      [0x01, QMI_IDL_GENERIC_1_BYTE, QMI_IDL_OFFSET8 off ''tuncConstraintOn'',
       QMI_IDL_TLV_FLAGS_OPTIONAL OR (QMI_IDL_OFFSET8 off ''tuncConstraint'' - QMI_IDL_OFFSET8 off ''tuncConstraint_valid''), 0x10, QMI_IDL_GENERIC_4_BYTE, QMI_IDL_OFFSET8 off ''tuncConstraint'',
       QMI_IDL_TLV_FLAGS_LAST_TLV OR QMI_IDL_TLV_FLAGS_OPTIONAL OR (QMI_IDL_OFFSET8 off ''energyBudget'' - QMI_IDL_OFFSET8 off ''energyBudget_valid''), 0x11, QMI_IDL_GENERIC_4_BYTE, QMI_IDL_OFFSET8 off ''energyBudget'']))"

definition qmiLocSetConstrainedTuncModeIndMsgT_data_v02 :: "int list" where
  "qmiLocSetConstrainedTuncModeIndMsgT_data_v02 =
    (let off = offsetof qmiLocSetConstrainedTuncModeIndMsgT_v02 in uint8_array (
      [QMI_IDL_TLV_FLAGS_LAST_TLV OR 0x01, QMI_IDL_GENERIC_4_BYTE, QMI_IDL_OFFSET8 off ''status'']))"

definition qmiLocEnablePositionAssistedClockEstReqMsgT_data_v02 :: "int list" where
  "qmiLocEnablePositionAssistedClockEstReqMsgT_data_v02 =
    (let off = offsetof qmiLocEnablePositionAssistedClockEstReqMsgT_v02 in uint8_array (
      [QMI_IDL_TLV_FLAGS_LAST_TLV OR 0x01, QMI_IDL_GENERIC_1_BYTE, QMI_IDL_OFFSET8 off ''enablePositionAssistedClockEst'']))"

definition qmiLocEnablePositionAssistedClockEstIndMsgT_data_v02 :: "int list" where
  "qmiLocEnablePositionAssistedClockEstIndMsgT_data_v02 =
    (let off = offsetof qmiLocEnablePositionAssistedClockEstIndMsgT_v02 in uint8_array (
      [QMI_IDL_TLV_FLAGS_LAST_TLV OR 0x01, QMI_IDL_GENERIC_4_BYTE, QMI_IDL_OFFSET8 off ''status'']))"

definition qmiLocQueryGNSSEnergyConsumedIndMsgT_data_v02 :: "int list" where
  "qmiLocQueryGNSSEnergyConsumedIndMsgT_data_v02 =
    (let off = offsetof qmiLocQueryGNSSEnergyConsumedIndMsgT_v02 in uint8_array (
      [0x01, QMI_IDL_GENERIC_8_BYTE, QMI_IDL_OFFSET8 off ''energyConsumedSinceLastBoot'',
       QMI_IDL_TLV_FLAGS_LAST_TLV OR 0x02, QMI_IDL_GENERIC_8_BYTE, QMI_IDL_OFFSET8 off ''energyConsumedSinceFirstBoot'']))"

definition qmiLocEventReportIndMsgT_data_v02 :: "int list" where
  "qmiLocEventReportIndMsgT_data_v02 =
    (let off = offsetof qmiLocEventReportIndMsgT_v02 in uint8_array (
      [0x01, QMI_IDL_GENERIC_8_BYTE, QMI_IDL_OFFSET8 off ''eventReport'',
       QMI_IDL_TLV_FLAGS_OPTIONAL OR (QMI_IDL_OFFSET8 off ''gpsSystemTime'' - QMI_IDL_OFFSET8 off ''gpsSystemTime_valid''), 0x10, QMI_IDL_AGGREGATE, QMI_IDL_OFFSET8 off ''gpsSystemTime''] @ QMI_IDL_TYPE88 0 8 @
      [QMI_IDL_TLV_FLAGS_OPTIONAL OR (QMI_IDL_OFFSET8 off ''klobucharIonoModel'' - QMI_IDL_OFFSET8 off ''klobucharIonoModel_valid''), 0x11, QMI_IDL_AGGREGATE, QMI_IDL_OFFSET8 off ''klobucharIonoModel''] @ QMI_IDL_TYPE88 0 98 @
      [QMI_IDL_TLV_FLAGS_OPTIONAL OR (QMI_IDL_OFFSET8 off ''tauC'' - QMI_IDL_OFFSET8 off ''tauC_valid''), 0x12, QMI_IDL_GENERIC_8_BYTE, QMI_IDL_OFFSET8 off ''tauC'',
       QMI_IDL_TLV_FLAGS_OPTIONAL OR (QMI_IDL_OFFSET8 off ''leapSec'' - QMI_IDL_OFFSET8 off ''leapSec_valid''), 0x13, QMI_IDL_GENERIC_1_BYTE, QMI_IDL_OFFSET8 off ''leapSec'',
       QMI_IDL_TLV_FLAGS_OPTIONAL OR (QMI_IDL_OFFSET8 off ''featureStatusReport'' - QMI_IDL_OFFSET8 off ''featureStatusReport_valid''), 0x14, QMI_IDL_GENERIC_8_BYTE, QMI_IDL_OFFSET8 off ''featureStatusReport'',
       QMI_IDL_TLV_FLAGS_LAST_TLV OR QMI_IDL_TLV_FLAGS_OPTIONAL OR (QMI_IDL_OFFSET8 off ''klobucharIonoModelLimits'' - QMI_IDL_OFFSET8 off ''klobucharIonoModelLimits_valid''), 0x15, QMI_IDL_AGGREGATE, QMI_IDL_OFFSET8 off ''klobucharIonoModelLimits''] @ QMI_IDL_TYPE88 0 99))"

definition qmiLocGetBandMeasurementMetricsIndMsgT_data_v02 :: "int list" where
  "qmiLocGetBandMeasurementMetricsIndMsgT_data_v02 =
    (let off = offsetof qmiLocGetBandMeasurementMetricsIndMsgT_v02 in uint8_array (
      [0x01, QMI_IDL_GENERIC_8_BYTE, QMI_IDL_OFFSET8 off ''systemTick'',
       0x02, QMI_IDL_GENERIC_4_BYTE, QMI_IDL_OFFSET8 off ''band1PgaGainDb'',
       QMI_IDL_TLV_FLAGS_OPTIONAL OR (QMI_IDL_OFFSET8 off ''gpsL1caRfStats'' - QMI_IDL_OFFSET8 off ''gpsL1caRfStats_valid''), 0x10, QMI_IDL_AGGREGATE, QMI_IDL_OFFSET8 off ''gpsL1caRfStats''] @ QMI_IDL_TYPE88 0 100 @
      [QMI_IDL_TLV_FLAGS_OPTIONAL OR (QMI_IDL_OFFSET8 off ''gloG1RfStats'' - QMI_IDL_OFFSET8 off ''gloG1RfStats_valid''), 0x11, QMI_IDL_AGGREGATE, QMI_IDL_OFFSET8 off ''gloG1RfStats''] @ QMI_IDL_TYPE88 0 100 @
      [QMI_IDL_TLV_FLAGS_OPTIONAL OR (QMI_IDL_OFFSET8 off ''bdsB1RfStats'' - QMI_IDL_OFFSET8 off ''bdsB1RfStats_valid''), 0x12, QMI_IDL_AGGREGATE, QMI_IDL_OFFSET8 off ''bdsB1RfStats''] @ QMI_IDL_TYPE88 0 100 @
      [QMI_IDL_TLV_FLAGS_OPTIONAL OR (QMI_IDL_OFFSET8 off ''galE1RfStats'' - QMI_IDL_OFFSET8 off ''galE1RfStats_valid''), 0x13, QMI_IDL_AGGREGATE, QMI_IDL_OFFSET8 off ''galE1RfStats''] @ QMI_IDL_TYPE88 0 100 @
      [QMI_IDL_TLV_FLAGS_OPTIONAL OR (QMI_IDL_OFFSET8 off ''gpsL2cRfStats'' - QMI_IDL_OFFSET8 off ''gpsL2cRfStats_valid''), 0x14, QMI_IDL_AGGREGATE, QMI_IDL_OFFSET8 off ''gpsL2cRfStats''] @ QMI_IDL_TYPE88 0 100 @
      [QMI_IDL_TLV_FLAGS_OPTIONAL OR (QMI_IDL_OFFSET8 off ''gloG2RfStats'' - QMI_IDL_OFFSET8 off ''gloG2RfStats_valid''), 0x15, QMI_IDL_AGGREGATE, QMI_IDL_OFFSET8 off ''gloG2RfStats''] @ QMI_IDL_TYPE88 0 100 @
      [QMI_IDL_TLV_FLAGS_OPTIONAL OR (QMI_IDL_OFFSET8 off ''bdsB2RfStats'' - QMI_IDL_OFFSET8 off ''bdsB2RfStats_valid''), 0x16, QMI_IDL_AGGREGATE, QMI_IDL_OFFSET8 off ''bdsB2RfStats''] @ QMI_IDL_TYPE88 0 100 @
      [QMI_IDL_TLV_FLAGS_OPTIONAL OR (QMI_IDL_OFFSET8 off ''band5PgaGainDb'' - QMI_IDL_OFFSET8 off ''band5PgaGainDb_valid''), 0x17, QMI_IDL_GENERIC_4_BYTE, QMI_IDL_OFFSET8 off ''band5PgaGainDb'',
       QMI_IDL_TLV_FLAGS_OPTIONAL OR (QMI_IDL_OFFSET8 off ''gpsL5RfStats'' - QMI_IDL_OFFSET8 off ''gpsL5RfStats_valid''), 0x18, QMI_IDL_AGGREGATE, QMI_IDL_OFFSET8 off ''gpsL5RfStats''] @ QMI_IDL_TYPE88 0 100 @
      [QMI_IDL_TLV_FLAGS_LAST_TLV OR QMI_IDL_TLV_FLAGS_OPTIONAL OR (QMI_IDL_OFFSET8 off ''galE5ARfStats'' - QMI_IDL_OFFSET8 off ''galE5ARfStats_valid''), 0x19, QMI_IDL_AGGREGATE, QMI_IDL_OFFSET8 off ''galE5ARfStats''] @ QMI_IDL_TYPE88 0 100))"

definition qmiLocLocationRequestNotificationIndMsgT_data_v02 :: "int list" where
  "qmiLocLocationRequestNotificationIndMsgT_data_v02 =
    (let off = offsetof qmiLocLocationRequestNotificationIndMsgT_v02 in uint8_array (
      [0x01, QMI_IDL_GENERIC_4_BYTE, QMI_IDL_OFFSET8 off ''protocolStack'',
       0x02, QMI_IDL_GENERIC_4_BYTE, QMI_IDL_OFFSET8 off ''requestor'',
       0x03, QMI_IDL_FLAGS_IS_ARRAY OR QMI_IDL_FLAGS_IS_VARIABLE_LEN OR QMI_IDL_STRING, QMI_IDL_OFFSET8 off ''requestorId'', QMI_LOC_MAX_REQUESTOR_ID_STRING_LENGTH_V02,
       0x04, QMI_IDL_GENERIC_4_BYTE, QMI_IDL_OFFSET8 off ''responseType'',
       0x05, QMI_IDL_GENERIC_4_BYTE, QMI_IDL_OFFSET8 off ''responseProtocol'',
       0x06, QMI_IDL_GENERIC_1_BYTE, QMI_IDL_OFFSET8 off ''inEmergencyMode'',
       0x07, QMI_IDL_GENERIC_1_BYTE, QMI_IDL_OFFSET8 off ''isCachedLocation'',
       QMI_IDL_TLV_FLAGS_LAST_TLV OR QMI_IDL_TLV_FLAGS_OPTIONAL OR (QMI_IDL_OFFSET8 off ''clientStrId'' - QMI_IDL_OFFSET8 off ''clientStrId_valid''), 0x10, QMI_IDL_FLAGS_IS_ARRAY OR QMI_IDL_FLAGS_IS_VARIABLE_LEN OR QMI_IDL_STRING, QMI_IDL_OFFSET8 off ''clientStrId'', QMI_LOC_MAX_CLIENT_ID_STRING_LENGTH_V02]))"

definition qmiLocInjectPlatformPowerStateReqMsgT_data_v02 :: "int list" where
  "qmiLocInjectPlatformPowerStateReqMsgT_data_v02 =
    (let off = offsetof qmiLocInjectPlatformPowerStateReqMsgT_v02 in uint8_array (
      [QMI_IDL_TLV_FLAGS_LAST_TLV OR 0x01, QMI_IDL_GENERIC_4_BYTE, QMI_IDL_OFFSET8 off ''powerState'']))"

definition qmiLocInjectPlatformPowerStateIndMsgT_data_v02 :: "int list" where
  "qmiLocInjectPlatformPowerStateIndMsgT_data_v02 =
    (let off = offsetof qmiLocInjectPlatformPowerStateIndMsgT_v02 in uint8_array (
      [QMI_IDL_TLV_FLAGS_LAST_TLV OR 0x01, QMI_IDL_GENERIC_4_BYTE, QMI_IDL_OFFSET8 off ''status'']))"

definition qmiLocSetRobustLocationReqMsgT_data_v02 :: "int list" where
  "qmiLocSetRobustLocationReqMsgT_data_v02 =
    (let off = offsetof qmiLocSetRobustLocationReqMsgT_v02 in uint8_array (
      [0x01, QMI_IDL_GENERIC_1_BYTE, QMI_IDL_OFFSET8 off ''enable'',
       QMI_IDL_TLV_FLAGS_LAST_TLV OR QMI_IDL_TLV_FLAGS_OPTIONAL OR (QMI_IDL_OFFSET8 off ''enableForE911'' - QMI_IDL_OFFSET8 off ''enableForE911_valid''), 0x10, QMI_IDL_GENERIC_1_BYTE, QMI_IDL_OFFSET8 off ''enableForE911'']))"

definition qmiLocGetRobustLocationConfigIndMsgT_data_v02 :: "int list" where
  "qmiLocGetRobustLocationConfigIndMsgT_data_v02 =
    (let off = offsetof qmiLocGetRobustLocationConfigIndMsgT_v02 in uint8_array (
      [0x01, QMI_IDL_GENERIC_4_BYTE, QMI_IDL_OFFSET8 off ''status'',
       QMI_IDL_TLV_FLAGS_OPTIONAL OR (QMI_IDL_OFFSET8 off ''isEnabled'' - QMI_IDL_OFFSET8 off ''isEnabled_valid''), 0x10, QMI_IDL_GENERIC_1_BYTE, QMI_IDL_OFFSET8 off ''isEnabled'',
       QMI_IDL_TLV_FLAGS_OPTIONAL OR (QMI_IDL_OFFSET8 off ''isEnabledForE911'' - QMI_IDL_OFFSET8 off ''isEnabledForE911_valid''), 0x11, QMI_IDL_GENERIC_1_BYTE, QMI_IDL_OFFSET8 off ''isEnabledForE911'',
       QMI_IDL_TLV_FLAGS_LAST_TLV OR QMI_IDL_TLV_FLAGS_OPTIONAL OR (QMI_IDL_OFFSET8 off ''robustLocationVersion'' - QMI_IDL_OFFSET8 off ''robustLocationVersion_valid''), 0x12, QMI_IDL_AGGREGATE, QMI_IDL_OFFSET8 off ''robustLocationVersion''] @ QMI_IDL_TYPE88 0 101))"

definition qmiLocEventInjectEnvAidingReqMsgT_data_v02 :: "int list" where
  "qmiLocEventInjectEnvAidingReqMsgT_data_v02 =
    (let off = offsetof qmiLocEventInjectEnvAidingReqMsgT_v02 in uint8_array (
      [0x01, QMI_IDL_GENERIC_1_BYTE, QMI_IDL_OFFSET8 off ''seqNum'',
       0x02, QMI_IDL_GENERIC_1_BYTE, QMI_IDL_OFFSET8 off ''maxMessageNum'',
       QMI_IDL_TLV_FLAGS_OPTIONAL OR (QMI_IDL_OFFSET8 off ''envBearingValidity'' - QMI_IDL_OFFSET8 off ''envBearingValidity_valid''), 0x10, QMI_IDL_GENERIC_1_BYTE, QMI_IDL_OFFSET8 off ''envBearingValidity'',
       QMI_IDL_TLV_FLAGS_OPTIONAL OR (QMI_IDL_OFFSET8 off ''envBearingDegrees'' - QMI_IDL_OFFSET8 off ''envBearingDegrees_valid''), 0x11, QMI_IDL_GENERIC_4_BYTE, QMI_IDL_OFFSET8 off ''envBearingDegrees'',
       QMI_IDL_TLV_FLAGS_OPTIONAL OR (QMI_IDL_OFFSET8 off ''envBearingUncDegrees'' - QMI_IDL_OFFSET8 off ''envBearingUncDegrees_valid''), 0x12, QMI_IDL_GENERIC_4_BYTE, QMI_IDL_OFFSET8 off ''envBearingUncDegrees'',
       QMI_IDL_TLV_FLAGS_OPTIONAL OR (QMI_IDL_OFFSET8 off ''latitudeDegrees'' - QMI_IDL_OFFSET8 off ''latitudeDegrees_valid''), 0x13, QMI_IDL_GENERIC_8_BYTE, QMI_IDL_OFFSET8 off ''latitudeDegrees'',
       QMI_IDL_TLV_FLAGS_OPTIONAL OR (QMI_IDL_OFFSET8 off ''longitudeDegrees'' - QMI_IDL_OFFSET8 off ''longitudeDegrees_valid''), 0x14, QMI_IDL_GENERIC_8_BYTE, QMI_IDL_OFFSET8 off ''longitudeDegrees'',
       QMI_IDL_TLV_FLAGS_OPTIONAL OR (QMI_IDL_OFFSET8 off ''horizontalPositionUncMeters'' - QMI_IDL_OFFSET8 off ''horizontalPositionUncMeters_valid''), 0x15, QMI_IDL_GENERIC_8_BYTE, QMI_IDL_OFFSET8 off ''horizontalPositionUncMeters'',
       QMI_IDL_TLV_FLAGS_OPTIONAL OR (QMI_IDL_OFFSET8 off ''altitudeMeters'' - QMI_IDL_OFFSET8 off ''altitudeMeters_valid''), 0x16, QMI_IDL_GENERIC_8_BYTE, QMI_IDL_OFFSET8 off ''altitudeMeters'',
       QMI_IDL_TLV_FLAGS_OPTIONAL OR (QMI_IDL_OFFSET8 off ''altitudeUncMeters'' - QMI_IDL_OFFSET8 off ''altitudeUncMeters_valid''), 0x17, QMI_IDL_GENERIC_8_BYTE, QMI_IDL_OFFSET8 off ''altitudeUncMeters'',
       QMI_IDL_TLV_FLAGS_OPTIONAL OR (QMI_IDL_OFFSET8 off ''toaGpsNanosecondsOfWeek'' - QMI_IDL_OFFSET8 off ''toaGpsNanosecondsOfWeek_valid''), 0x18, QMI_IDL_GENERIC_8_BYTE, QMI_IDL_OFFSET8 off ''toaGpsNanosecondsOfWeek'',
       QMI_IDL_TLV_FLAGS_LAST_TLV OR QMI_IDL_TLV_FLAGS_OPTIONAL OR (QMI_IDL_OFFSET8 off ''svCorrection'' - QMI_IDL_OFFSET8 off ''svCorrection_valid''), 0x19, QMI_IDL_FLAGS_IS_ARRAY OR QMI_IDL_FLAGS_IS_VARIABLE_LEN OR QMI_IDL_AGGREGATE, QMI_IDL_OFFSET8 off ''svCorrection'', QMI_LOC_ENV_AIDING_CORRECTION_MAX_SV_USED_V02, QMI_IDL_OFFSET8 off ''svCorrection'' - QMI_IDL_OFFSET8 off ''svCorrection_len''] @ QMI_IDL_TYPE88 0 103))"

definition qmiLocSetMinGpsWeekNumberReqMsgT_data_v02 :: "int list" where
  "qmiLocSetMinGpsWeekNumberReqMsgT_data_v02 =
    (let off = offsetof qmiLocSetMinGpsWeekNumberReqMsgT_v02 in uint8_array (
      [QMI_IDL_TLV_FLAGS_LAST_TLV OR 0x01, QMI_IDL_GENERIC_2_BYTE, QMI_IDL_OFFSET8 off ''minGpsWeekNumber'']))"

definition loc_message_table_v02_8 :: "qmi_idl_message_table_entry list" where
  "loc_message_table_v02_8 = [
    (qmiLocEventEngineLockStateIndMsgT_v02, Some qmiLocEventEngineLockStateIndMsgT_data_v02),
    (qmiLocStartListenPositionReqMsgT_v02, None),
    (qmiLocStopListenPositionReqMsgT_v02, None),
    (qmiLocSystemInfoReqMsgT_v02, Some qmiLocSystemInfoReqMsgT_data_v02),
    (qmiLocSystemInfoIndMsgT_v02, Some qmiLocSystemInfoIndMsgT_data_v02),
    (qmiLocGetConstellationConfigIndMsgT_v02, Some qmiLocGetConstellationConfigIndMsgT_data_v02),
    (qmiLocEnablePositionInjectionTestModeReqMsgT_v02, Some qmiLocEnablePositionInjectionTestModeReqMsgT_data_v02),
    (qmiLocEnablePositionInjectionTestModeIndMsgT_v02, Some qmiLocEnablePositionInjectionTestModeIndMsgT_data_v02),
    (qmiLocInjectTestPositionReqMsgT_v02, Some qmiLocInjectTestPositionReqMsgT_data_v02),
    (qmiLocInjectTestPositionIndMsgT_v02, Some qmiLocInjectTestPositionIndMsgT_data_v02),
    (qmiLocEventBsObsDataServiceReqIndMsgT_v02, Some qmiLocEventBsObsDataServiceReqIndMsgT_data_v02),
    (qmiLocGetBsObsDataReqMsgT_v02, Some qmiLocGetBsObsDataReqMsgT_data_v02),
    (qmiLocGetBsObsDataIndMsgT_v02, Some qmiLocGetBsObsDataIndMsgT_data_v02),
    (qmiLocGpsEphemerisReportIndMsgT_v02, Some qmiLocGpsEphemerisReportIndMsgT_data_v02),
    (qmiLocGloEphemerisReportIndMsgT_v02, Some qmiLocGloEphemerisReportIndMsgT_data_v02),
    (qmiLocBdsEphemerisReportIndMsgT_v02, Some qmiLocBdsEphemerisReportIndMsgT_data_v02),
    (qmiLocGalEphemerisReportIndMsgT_v02, Some qmiLocGalEphemerisReportIndMsgT_data_v02),
    (qmiLocQzssEphemerisReportIndMsgT_v02, Some qmiLocQzssEphemerisReportIndMsgT_data_v02),
    (qmiLocSetConstrainedTuncModeReqMsgT_v02, Some qmiLocSetConstrainedTuncModeReqMsgT_data_v02),
    (qmiLocSetConstrainedTuncModeIndMsgT_v02, Some qmiLocSetConstrainedTuncModeIndMsgT_data_v02),
    (qmiLocEnablePositionAssistedClockEstReqMsgT_v02, Some qmiLocEnablePositionAssistedClockEstReqMsgT_data_v02),
    (qmiLocEnablePositionAssistedClockEstIndMsgT_v02, Some qmiLocEnablePositionAssistedClockEstIndMsgT_data_v02),
    (qmiLocQueryGNSSEnergyConsumedReqMsgT_v02, None),
    (qmiLocQueryGNSSEnergyConsumedIndMsgT_v02, Some qmiLocQueryGNSSEnergyConsumedIndMsgT_data_v02),
    (qmiLocEventReportIndMsgT_v02, Some qmiLocEventReportIndMsgT_data_v02),
    (qmiLocGetBandMeasurementMetricsIndMsgT_v02, Some qmiLocGetBandMeasurementMetricsIndMsgT_data_v02),
    (qmiLocLocationRequestNotificationIndMsgT_v02, Some qmiLocLocationRequestNotificationIndMsgT_data_v02),
    (qmiLocInjectPlatformPowerStateReqMsgT_v02, Some qmiLocInjectPlatformPowerStateReqMsgT_data_v02),
    (qmiLocInjectPlatformPowerStateIndMsgT_v02, Some qmiLocInjectPlatformPowerStateIndMsgT_data_v02),
    (qmiLocSetRobustLocationReqMsgT_v02, Some qmiLocSetRobustLocationReqMsgT_data_v02),
    (qmiLocGetRobustLocationConfigIndMsgT_v02, Some qmiLocGetRobustLocationConfigIndMsgT_data_v02),
    (qmiLocEventInjectEnvAidingReqMsgT_v02, Some qmiLocEventInjectEnvAidingReqMsgT_data_v02),
    (qmiLocSetMinGpsWeekNumberReqMsgT_v02, Some qmiLocSetMinGpsWeekNumberReqMsgT_data_v02)]"

definition qmiLocGetMinGpsWeekNumberIndMsgT_data_v02 :: "int list" where
  "qmiLocGetMinGpsWeekNumberIndMsgT_data_v02 =
    (let off = offsetof qmiLocGetMinGpsWeekNumberIndMsgT_v02 in uint8_array (
      [0x01, QMI_IDL_GENERIC_4_BYTE, QMI_IDL_OFFSET8 off ''status'',
       QMI_IDL_TLV_FLAGS_LAST_TLV OR QMI_IDL_TLV_FLAGS_OPTIONAL OR (QMI_IDL_OFFSET8 off ''minGpsWeekNumber'' - QMI_IDL_OFFSET8 off ''minGpsWeekNumber_valid''), 0x10, QMI_IDL_GENERIC_2_BYTE, QMI_IDL_OFFSET8 off ''minGpsWeekNumber'']))"

definition qmiLocSapInsParamsIndMsgT_data_v02 :: "int list" where
  "qmiLocSapInsParamsIndMsgT_data_v02 =
    (let off = offsetof qmiLocSapInsParamsIndMsgT_v02 in uint8_array (
      [0x01, QMI_IDL_GENERIC_1_BYTE, QMI_IDL_OFFSET8 off ''status'',
       0x02, QMI_IDL_GENERIC_1_BYTE, QMI_IDL_OFFSET8 off ''fixStatus'',
       0x03, QMI_IDL_AGGREGATE, QMI_IDL_OFFSET8 off ''systemTime''] @ QMI_IDL_TYPE88 0 8 @
      [QMI_IDL_TLV_FLAGS_OPTIONAL OR (QMI_IDL_OFFSET8 off ''state'' - QMI_IDL_OFFSET8 off ''state_valid''), 0x10, QMI_IDL_FLAGS_IS_ARRAY OR QMI_IDL_GENERIC_8_BYTE, QMI_IDL_OFFSET8 off ''state'', QMI_LOC_FILTER_ELEMENT_SIZE_SEVENTEEN_V02,
       QMI_IDL_TLV_FLAGS_OPTIONAL OR (QMI_IDL_OFFSET8 off ''var'' - QMI_IDL_OFFSET8 off ''var_valid''), 0x11, QMI_IDL_FLAGS_IS_ARRAY OR QMI_IDL_GENERIC_8_BYTE, QMI_IDL_OFFSET8 off ''var'', QMI_LOC_FILTER_ELEMENT_SIZE_SEVENTEEN_V02,
       QMI_IDL_TLV_FLAGS_OPTIONAL OR (QMI_IDL_OFFSET16RELATIVE off ''rel1'' - QMI_IDL_OFFSET16RELATIVE off ''rel1_valid''), 0x12, QMI_IDL_FLAGS_OFFSET_IS_16 OR QMI_IDL_GENERIC_1_BYTE] @ QMI_IDL_OFFSET16ARRAY off ''rel1'' @
      [QMI_IDL_TLV_FLAGS_OPTIONAL OR (QMI_IDL_OFFSET16RELATIVE off ''rel2'' - QMI_IDL_OFFSET16RELATIVE off ''rel2_valid''), 0x13, QMI_IDL_FLAGS_OFFSET_IS_16 OR QMI_IDL_GENERIC_1_BYTE] @ QMI_IDL_OFFSET16ARRAY off ''rel2'' @
      [QMI_IDL_TLV_FLAGS_OPTIONAL OR (QMI_IDL_OFFSET16RELATIVE off ''residual1'' - QMI_IDL_OFFSET16RELATIVE off ''residual1_valid''), 0x14, QMI_IDL_FLAGS_OFFSET_IS_16 OR QMI_IDL_GENERIC_8_BYTE] @ QMI_IDL_OFFSET16ARRAY off ''residual1'' @
      [QMI_IDL_TLV_FLAGS_OPTIONAL OR (QMI_IDL_OFFSET16RELATIVE off ''obs1'' - QMI_IDL_OFFSET16RELATIVE off ''obs1_valid''), 0x15, QMI_IDL_FLAGS_IS_ARRAY OR QMI_IDL_FLAGS_OFFSET_IS_16 OR QMI_IDL_GENERIC_8_BYTE] @ QMI_IDL_OFFSET16ARRAY off ''obs1'' @
      [QMI_LOC_FILTER_ELEMENT_SIZE_SIX_V02,
       QMI_IDL_TLV_FLAGS_OPTIONAL OR (QMI_IDL_OFFSET16RELATIVE off ''var1'' - QMI_IDL_OFFSET16RELATIVE off ''var1_valid''), 0x16, QMI_IDL_FLAGS_OFFSET_IS_16 OR QMI_IDL_GENERIC_8_BYTE] @ QMI_IDL_OFFSET16ARRAY off ''var1'' @
      [QMI_IDL_TLV_FLAGS_OPTIONAL OR (QMI_IDL_OFFSET16RELATIVE off ''result1'' - QMI_IDL_OFFSET16RELATIVE off ''result1_valid''), 0x17, QMI_IDL_FLAGS_OFFSET_IS_16 OR QMI_IDL_GENERIC_1_BYTE] @ QMI_IDL_OFFSET16ARRAY off ''result1'' @
      [QMI_IDL_TLV_FLAGS_OPTIONAL OR (QMI_IDL_OFFSET16RELATIVE off ''residual2'' - QMI_IDL_OFFSET16RELATIVE off ''residual2_valid''), 0x18, QMI_IDL_FLAGS_OFFSET_IS_16 OR QMI_IDL_GENERIC_8_BYTE] @ QMI_IDL_OFFSET16ARRAY off ''residual2'' @
      [QMI_IDL_TLV_FLAGS_OPTIONAL OR (QMI_IDL_OFFSET16RELATIVE off ''obs2'' - QMI_IDL_OFFSET16RELATIVE off ''obs2_valid''), 0x19, QMI_IDL_FLAGS_IS_ARRAY OR QMI_IDL_FLAGS_OFFSET_IS_16 OR QMI_IDL_GENERIC_8_BYTE] @ QMI_IDL_OFFSET16ARRAY off ''obs2'' @
      [QMI_LOC_FILTER_ELEMENT_SIZE_SIX_V02,
       QMI_IDL_TLV_FLAGS_OPTIONAL OR (QMI_IDL_OFFSET16RELATIVE off ''var2'' - QMI_IDL_OFFSET16RELATIVE off ''var2_valid''), 0x1A, QMI_IDL_FLAGS_OFFSET_IS_16 OR QMI_IDL_GENERIC_8_BYTE] @ QMI_IDL_OFFSET16ARRAY off ''var2'' @
      [QMI_IDL_TLV_FLAGS_OPTIONAL OR (QMI_IDL_OFFSET16RELATIVE off ''result2'' - QMI_IDL_OFFSET16RELATIVE off ''result2_valid''), 0x1B, QMI_IDL_FLAGS_OFFSET_IS_16 OR QMI_IDL_GENERIC_1_BYTE] @ QMI_IDL_OFFSET16ARRAY off ''result2'' @
      [QMI_IDL_TLV_FLAGS_OPTIONAL OR (QMI_IDL_OFFSET16RELATIVE off ''residual3'' - QMI_IDL_OFFSET16RELATIVE off ''residual3_valid''), 0x1C, QMI_IDL_FLAGS_IS_ARRAY OR QMI_IDL_FLAGS_OFFSET_IS_16 OR QMI_IDL_GENERIC_8_BYTE] @ QMI_IDL_OFFSET16ARRAY off ''residual3'' @
      [QMI_LOC_FILTER_ELEMENT_SIZE_THREE_V02,
       QMI_IDL_TLV_FLAGS_OPTIONAL OR (QMI_IDL_OFFSET16RELATIVE off ''var3'' - QMI_IDL_OFFSET16RELATIVE off ''var3_valid''), 0x1D, QMI_IDL_FLAGS_IS_ARRAY OR QMI_IDL_FLAGS_OFFSET_IS_16 OR QMI_IDL_GENERIC_8_BYTE] @ QMI_IDL_OFFSET16ARRAY off ''var3'' @
      [QMI_LOC_FILTER_ELEMENT_SIZE_THREE_V02,
       QMI_IDL_TLV_FLAGS_OPTIONAL OR (QMI_IDL_OFFSET16RELATIVE off ''result3'' - QMI_IDL_OFFSET16RELATIVE off ''result3_valid''), 0x1E, QMI_IDL_FLAGS_IS_ARRAY OR QMI_IDL_FLAGS_OFFSET_IS_16 OR QMI_IDL_GENERIC_1_BYTE] @ QMI_IDL_OFFSET16ARRAY off ''result3'' @
      [QMI_LOC_FILTER_ELEMENT_SIZE_THREE_V02,
       QMI_IDL_TLV_FLAGS_OPTIONAL OR (QMI_IDL_OFFSET16RELATIVE off ''residual4'' - QMI_IDL_OFFSET16RELATIVE off ''residual4_valid''), 0x1F, QMI_IDL_FLAGS_IS_ARRAY OR QMI_IDL_FLAGS_OFFSET_IS_16 OR QMI_IDL_GENERIC_8_BYTE] @ QMI_IDL_OFFSET16ARRAY off ''residual4'' @
      [QMI_LOC_FILTER_ELEMENT_SIZE_THREE_V02,
       QMI_IDL_TLV_FLAGS_OPTIONAL OR (QMI_IDL_OFFSET16RELATIVE off ''var4'' - QMI_IDL_OFFSET16RELATIVE off ''var4_valid''), 0x20, QMI_IDL_FLAGS_IS_ARRAY OR QMI_IDL_FLAGS_OFFSET_IS_16 OR QMI_IDL_GENERIC_8_BYTE] @ QMI_IDL_OFFSET16ARRAY off ''var4'' @
      [QMI_LOC_FILTER_ELEMENT_SIZE_THREE_V02,
       QMI_IDL_TLV_FLAGS_OPTIONAL OR (QMI_IDL_OFFSET16RELATIVE off ''result4'' - QMI_IDL_OFFSET16RELATIVE off ''result4_valid''), 0x21, QMI_IDL_FLAGS_IS_ARRAY OR QMI_IDL_FLAGS_OFFSET_IS_16 OR QMI_IDL_GENERIC_1_BYTE] @ QMI_IDL_OFFSET16ARRAY off ''result4'' @
      [QMI_LOC_FILTER_ELEMENT_SIZE_THREE_V02,
       QMI_IDL_TLV_FLAGS_OPTIONAL OR (QMI_IDL_OFFSET16RELATIVE off ''acc'' - QMI_IDL_OFFSET16RELATIVE off ''acc_valid''), 0x22, QMI_IDL_FLAGS_IS_ARRAY OR QMI_IDL_FLAGS_OFFSET_IS_16 OR QMI_IDL_GENERIC_8_BYTE] @ QMI_IDL_OFFSET16ARRAY off ''acc'' @
      [QMI_LOC_FILTER_ELEMENT_SIZE_THREE_V02,
       QMI_IDL_TLV_FLAGS_OPTIONAL OR (QMI_IDL_OFFSET16RELATIVE off ''quat'' - QMI_IDL_OFFSET16RELATIVE off ''quat_valid''), 0x23, QMI_IDL_FLAGS_IS_ARRAY OR QMI_IDL_FLAGS_OFFSET_IS_16 OR QMI_IDL_GENERIC_8_BYTE] @ QMI_IDL_OFFSET16ARRAY off ''quat'' @
      [QMI_LOC_FILTER_ELEMENT_SIZE_FOUR_V02,
       QMI_IDL_TLV_FLAGS_OPTIONAL OR (QMI_IDL_OFFSET16RELATIVE off ''biasM1'' - QMI_IDL_OFFSET16RELATIVE off ''biasM1_valid''), 0x24, QMI_IDL_FLAGS_IS_ARRAY OR QMI_IDL_FLAGS_OFFSET_IS_16 OR QMI_IDL_GENERIC_4_BYTE] @ QMI_IDL_OFFSET16ARRAY off ''biasM1'' @
      [QMI_LOC_IPM_ELEMENT_SIZE_THREE_V02,
       QMI_IDL_TLV_FLAGS_OPTIONAL OR (QMI_IDL_OFFSET16RELATIVE off ''biasV1'' - QMI_IDL_OFFSET16RELATIVE off ''biasV1_valid''), 0x25, QMI_IDL_FLAGS_IS_ARRAY OR QMI_IDL_FLAGS_OFFSET_IS_16 OR QMI_IDL_GENERIC_4_BYTE] @ QMI_IDL_OFFSET16ARRAY off ''biasV1'' @
      [QMI_LOC_IPM_ELEMENT_SIZE_THREE_V02,
       QMI_IDL_TLV_FLAGS_OPTIONAL OR (QMI_IDL_OFFSET16RELATIVE off ''biasM2'' - QMI_IDL_OFFSET16RELATIVE off ''biasM2_valid''), 0x26, QMI_IDL_FLAGS_IS_ARRAY OR QMI_IDL_FLAGS_OFFSET_IS_16 OR QMI_IDL_GENERIC_4_BYTE] @ QMI_IDL_OFFSET16ARRAY off ''biasM2'' @
      [QMI_LOC_IPM_ELEMENT_SIZE_THREE_V02,
       QMI_IDL_TLV_FLAGS_OPTIONAL OR (QMI_IDL_OFFSET16RELATIVE off ''biasV2'' - QMI_IDL_OFFSET16RELATIVE off ''biasV2_valid''), 0x27, QMI_IDL_FLAGS_IS_ARRAY OR QMI_IDL_FLAGS_OFFSET_IS_16 OR QMI_IDL_GENERIC_4_BYTE] @ QMI_IDL_OFFSET16ARRAY off ''biasV2'' @
      [QMI_LOC_IPM_ELEMENT_SIZE_THREE_V02,
       QMI_IDL_TLV_FLAGS_OPTIONAL OR (QMI_IDL_OFFSET16RELATIVE off ''rMat1'' - QMI_IDL_OFFSET16RELATIVE off ''rMat1_valid''), 0x28, QMI_IDL_FLAGS_IS_ARRAY OR QMI_IDL_FLAGS_OFFSET_IS_16 OR QMI_IDL_GENERIC_8_BYTE] @ QMI_IDL_OFFSET16ARRAY off ''rMat1'' @
      [QMI_LOC_IPM_ELEMENT_SIZE_NINE_V02,
       QMI_IDL_TLV_FLAGS_OPTIONAL OR (QMI_IDL_OFFSET16RELATIVE off ''rMat1Count'' - QMI_IDL_OFFSET16RELATIVE off ''rMat1Count_valid''), 0x29, QMI_IDL_FLAGS_OFFSET_IS_16 OR QMI_IDL_GENERIC_4_BYTE] @ QMI_IDL_OFFSET16ARRAY off ''rMat1Count'' @
      [QMI_IDL_TLV_FLAGS_OPTIONAL OR (QMI_IDL_OFFSET16RELATIVE off ''rMat2'' - QMI_IDL_OFFSET16RELATIVE off ''rMat2_valid''), 0x2A, QMI_IDL_FLAGS_IS_ARRAY OR QMI_IDL_FLAGS_OFFSET_IS_16 OR QMI_IDL_GENERIC_8_BYTE] @ QMI_IDL_OFFSET16ARRAY off ''rMat2'' @
      [QMI_LOC_IPM_ELEMENT_SIZE_NINE_V02,
       QMI_IDL_TLV_FLAGS_OPTIONAL OR (QMI_IDL_OFFSET16RELATIVE off ''det1Reset'' - QMI_IDL_OFFSET16RELATIVE off ''det1Reset_valid''), 0x2B, QMI_IDL_FLAGS_OFFSET_IS_16 OR QMI_IDL_GENERIC_1_BYTE] @ QMI_IDL_OFFSET16ARRAY off ''det1Reset'' @
      [QMI_IDL_TLV_FLAGS_OPTIONAL OR (QMI_IDL_OFFSET16RELATIVE off ''det2Status'' - QMI_IDL_OFFSET16RELATIVE off ''det2Status_valid''), 0x2C, QMI_IDL_FLAGS_OFFSET_IS_16 OR QMI_IDL_GENERIC_1_BYTE] @ QMI_IDL_OFFSET16ARRAY off ''det2Status'' @
      [QMI_IDL_TLV_FLAGS_OPTIONAL OR (QMI_IDL_OFFSET16RELATIVE off ''det2Position'' - QMI_IDL_OFFSET16RELATIVE off ''det2Position_valid''), 0x2D, QMI_IDL_FLAGS_IS_ARRAY OR QMI_IDL_FLAGS_OFFSET_IS_16 OR QMI_IDL_GENERIC_8_BYTE] @ QMI_IDL_OFFSET16ARRAY off ''det2Position'' @
      [QMI_LOC_INS_ELEMENT_SIZE_THREE_V02,
       QMI_IDL_TLV_FLAGS_OPTIONAL OR (QMI_IDL_OFFSET16RELATIVE off ''det2PositionUnc'' - QMI_IDL_OFFSET16RELATIVE off ''det2PositionUnc_valid''), 0x2E, QMI_IDL_FLAGS_IS_ARRAY OR QMI_IDL_FLAGS_OFFSET_IS_16 OR QMI_IDL_GENERIC_4_BYTE] @ QMI_IDL_OFFSET16ARRAY off ''det2PositionUnc'' @
      [QMI_LOC_INS_ELEMENT_SIZE_TWO_V02,
       QMI_IDL_TLV_FLAGS_OPTIONAL OR (QMI_IDL_OFFSET16RELATIVE off ''det3Status'' - QMI_IDL_OFFSET16RELATIVE off ''det3Status_valid''), 0x2F, QMI_IDL_FLAGS_OFFSET_IS_16 OR QMI_IDL_GENERIC_1_BYTE] @ QMI_IDL_OFFSET16ARRAY off ''det3Status'' @
      [QMI_IDL_TLV_FLAGS_OPTIONAL OR (QMI_IDL_OFFSET16RELATIVE off ''det3Variance1'' - QMI_IDL_OFFSET16RELATIVE off ''det3Variance1_valid''), 0x30, QMI_IDL_FLAGS_IS_ARRAY OR QMI_IDL_FLAGS_OFFSET_IS_16 OR QMI_IDL_GENERIC_4_BYTE] @ QMI_IDL_OFFSET16ARRAY off ''det3Variance1'' @
      [QMI_LOC_INS_ELEMENT_SIZE_THREE_V02,
       QMI_IDL_TLV_FLAGS_OPTIONAL OR (QMI_IDL_OFFSET16RELATIVE off ''det3Variance2'' - QMI_IDL_OFFSET16RELATIVE off ''det3Variance2_valid''), 0x31, QMI_IDL_FLAGS_IS_ARRAY OR QMI_IDL_FLAGS_OFFSET_IS_16 OR QMI_IDL_GENERIC_4_BYTE] @ QMI_IDL_OFFSET16ARRAY off ''det3Variance2'' @
      [QMI_LOC_INS_ELEMENT_SIZE_THREE_V02,
       QMI_IDL_TLV_FLAGS_OPTIONAL OR (QMI_IDL_OFFSET16RELATIVE off ''det4Status'' - QMI_IDL_OFFSET16RELATIVE off ''det4Status_valid''), 0x32, QMI_IDL_FLAGS_OFFSET_IS_16 OR QMI_IDL_GENERIC_1_BYTE] @ QMI_IDL_OFFSET16ARRAY off ''det4Status'' @
      [QMI_IDL_TLV_FLAGS_OPTIONAL OR (QMI_IDL_OFFSET16RELATIVE off ''det4Position'' - QMI_IDL_OFFSET16RELATIVE off ''det4Position_valid''), 0x33, QMI_IDL_FLAGS_IS_ARRAY OR QMI_IDL_FLAGS_OFFSET_IS_16 OR QMI_IDL_GENERIC_8_BYTE] @ QMI_IDL_OFFSET16ARRAY off ''det4Position'' @
      [QMI_LOC_INS_ELEMENT_SIZE_THREE_V02,
       QMI_IDL_TLV_FLAGS_OPTIONAL OR (QMI_IDL_OFFSET16RELATIVE off ''det5Status'' - QMI_IDL_OFFSET16RELATIVE off ''det5Status_valid''), 0x34, QMI_IDL_FLAGS_OFFSET_IS_16 OR QMI_IDL_GENERIC_1_BYTE] @ QMI_IDL_OFFSET16ARRAY off ''det5Status'' @
      [QMI_IDL_TLV_FLAGS_OPTIONAL OR (QMI_IDL_OFFSET16RELATIVE off ''det6Status'' - QMI_IDL_OFFSET16RELATIVE off ''det6Status_valid''), 0x35, QMI_IDL_FLAGS_OFFSET_IS_16 OR QMI_IDL_GENERIC_4_BYTE] @ QMI_IDL_OFFSET16ARRAY off ''det6Status'' @
      [QMI_IDL_TLV_FLAGS_OPTIONAL OR (QMI_IDL_OFFSET16RELATIVE off ''gnssSvId'' - QMI_IDL_OFFSET16RELATIVE off ''gnssSvId_valid''), 0x36, QMI_IDL_FLAGS_IS_ARRAY OR QMI_IDL_FLAGS_IS_VARIABLE_LEN OR QMI_IDL_FLAGS_OFFSET_IS_16 OR QMI_IDL_GENERIC_2_BYTE] @ QMI_IDL_OFFSET16ARRAY off ''gnssSvId'' @
      [QMI_LOC_EXPANDED_SV_INFO_LIST_MAX_SIZE_V02, QMI_IDL_OFFSET16RELATIVE off ''gnssSvId'' - QMI_IDL_OFFSET16RELATIVE off ''gnssSvId_len'',
       QMI_IDL_TLV_FLAGS_OPTIONAL OR (QMI_IDL_OFFSET16RELATIVE off ''measType'' - QMI_IDL_OFFSET16RELATIVE off ''measType_valid''), 0x37, QMI_IDL_FLAGS_IS_ARRAY OR QMI_IDL_FLAGS_IS_VARIABLE_LEN OR QMI_IDL_FLAGS_OFFSET_IS_16 OR QMI_IDL_GENERIC_8_BYTE] @ QMI_IDL_OFFSET16ARRAY off ''measType'' @
      [QMI_LOC_EXPANDED_SV_INFO_LIST_MAX_SIZE_V02, QMI_IDL_OFFSET16RELATIVE off ''measType'' - QMI_IDL_OFFSET16RELATIVE off ''measType_len'',
       QMI_IDL_TLV_FLAGS_OPTIONAL OR (QMI_IDL_OFFSET16RELATIVE off ''measVar1'' - QMI_IDL_OFFSET16RELATIVE off ''measVar1_valid''), 0x38, QMI_IDL_FLAGS_IS_ARRAY OR QMI_IDL_FLAGS_IS_VARIABLE_LEN OR QMI_IDL_FLAGS_OFFSET_IS_16 OR QMI_IDL_GENERIC_4_BYTE] @ QMI_IDL_OFFSET16ARRAY off ''measVar1'' @
      [QMI_LOC_EXPANDED_SV_INFO_LIST_MAX_SIZE_V02, QMI_IDL_OFFSET16RELATIVE off ''measVar1'' - QMI_IDL_OFFSET16RELATIVE off ''measVar1_len'',
       QMI_IDL_TLV_FLAGS_OPTIONAL OR (QMI_IDL_OFFSET16RELATIVE off ''measUse1'' - QMI_IDL_OFFSET16RELATIVE off ''measUse1_valid''), 0x39, QMI_IDL_FLAGS_IS_ARRAY OR QMI_IDL_FLAGS_IS_VARIABLE_LEN OR QMI_IDL_FLAGS_OFFSET_IS_16 OR QMI_IDL_GENERIC_4_BYTE] @ QMI_IDL_OFFSET16ARRAY off ''measUse1'' @
      [QMI_LOC_EXPANDED_SV_INFO_LIST_MAX_SIZE_V02, QMI_IDL_OFFSET16RELATIVE off ''measUse1'' - QMI_IDL_OFFSET16RELATIVE off ''measUse1_len'',
       QMI_IDL_TLV_FLAGS_OPTIONAL OR (QMI_IDL_OFFSET16RELATIVE off ''measVar2'' - QMI_IDL_OFFSET16RELATIVE off ''measVar2_valid''), 0x3A, QMI_IDL_FLAGS_IS_ARRAY OR QMI_IDL_FLAGS_IS_VARIABLE_LEN OR QMI_IDL_FLAGS_OFFSET_IS_16 OR QMI_IDL_GENERIC_4_BYTE] @ QMI_IDL_OFFSET16ARRAY off ''measVar2'' @
      [QMI_LOC_EXPANDED_SV_INFO_LIST_MAX_SIZE_V02, QMI_IDL_OFFSET16RELATIVE off ''measVar2'' - QMI_IDL_OFFSET16RELATIVE off ''measVar2_len'',
       QMI_IDL_TLV_FLAGS_LAST_TLV OR QMI_IDL_TLV_FLAGS_OPTIONAL OR (QMI_IDL_OFFSET16RELATIVE off ''measUse2'' - QMI_IDL_OFFSET16RELATIVE off ''measUse2_valid''), 0x3B, QMI_IDL_FLAGS_IS_ARRAY OR QMI_IDL_FLAGS_IS_VARIABLE_LEN OR QMI_IDL_FLAGS_OFFSET_IS_16 OR QMI_IDL_GENERIC_4_BYTE] @ QMI_IDL_OFFSET16ARRAY off ''measUse2'' @
      [QMI_LOC_EXPANDED_SV_INFO_LIST_MAX_SIZE_V02, QMI_IDL_OFFSET16RELATIVE off ''measUse2'' - QMI_IDL_OFFSET16RELATIVE off ''measUse2_len'']))"

definition qmiLocEventQueryXtraInfoReqIndMsgT_data_v02 :: "int list" where
  "qmiLocEventQueryXtraInfoReqIndMsgT_data_v02 =
    (let off = offsetof qmiLocEventQueryXtraInfoReqIndMsgT_v02 in uint8_array (
      [QMI_IDL_TLV_FLAGS_OPTIONAL OR (QMI_IDL_OFFSET8 off ''usableConstellationConfig'' - QMI_IDL_OFFSET8 off ''usableConstellationConfig_valid''), 0x10, QMI_IDL_GENERIC_8_BYTE, QMI_IDL_OFFSET8 off ''usableConstellationConfig'',
       QMI_IDL_TLV_FLAGS_OPTIONAL OR (QMI_IDL_OFFSET8 off ''forcedEnableConfig'' - QMI_IDL_OFFSET8 off ''forcedEnableConfig_valid''), 0x11, QMI_IDL_GENERIC_8_BYTE, QMI_IDL_OFFSET8 off ''forcedEnableConfig'',
       QMI_IDL_TLV_FLAGS_OPTIONAL OR (QMI_IDL_OFFSET8 off ''multibandEnabled'' - QMI_IDL_OFFSET8 off ''multibandEnabled_valid''), 0x12, QMI_IDL_GENERIC_1_BYTE, QMI_IDL_OFFSET8 off ''multibandEnabled'',
       QMI_IDL_TLV_FLAGS_OPTIONAL OR (QMI_IDL_OFFSET8 off ''xtraFileVersion'' - QMI_IDL_OFFSET8 off ''xtraFileVersion_valid''), 0x13, QMI_IDL_AGGREGATE, QMI_IDL_OFFSET8 off ''xtraFileVersion''] @ QMI_IDL_TYPE88 0 82 @
      [QMI_IDL_TLV_FLAGS_OPTIONAL OR (QMI_IDL_OFFSET8 off ''mccPrimarySimSlot'' - QMI_IDL_OFFSET8 off ''mccPrimarySimSlot_valid''), 0x14, QMI_IDL_GENERIC_2_BYTE, QMI_IDL_OFFSET8 off ''mccPrimarySimSlot'',
       QMI_IDL_TLV_FLAGS_OPTIONAL OR (QMI_IDL_OFFSET8 off ''mccSecondarySimSlot'' - QMI_IDL_OFFSET8 off ''mccSecondarySimSlot_valid''), 0x15, QMI_IDL_GENERIC_2_BYTE, QMI_IDL_OFFSET8 off ''mccSecondarySimSlot'',
       QMI_IDL_TLV_FLAGS_OPTIONAL OR (QMI_IDL_OFFSET8 off ''mccTertiarySimSlot'' - QMI_IDL_OFFSET8 off ''mccTertiarySimSlot_valid''), 0x16, QMI_IDL_GENERIC_2_BYTE, QMI_IDL_OFFSET8 off ''mccTertiarySimSlot'',
       QMI_IDL_TLV_FLAGS_OPTIONAL OR (QMI_IDL_OFFSET8 off ''xtraFileGenerationTime'' - QMI_IDL_OFFSET8 off ''xtraFileGenerationTime_valid''), 0x17, QMI_IDL_GENERIC_8_BYTE, QMI_IDL_OFFSET8 off ''xtraFileGenerationTime'',
       QMI_IDL_TLV_FLAGS_OPTIONAL OR (QMI_IDL_OFFSET8 off ''xtraRemValidDuration'' - QMI_IDL_OFFSET8 off ''xtraRemValidDuration_valid''), 0x18, QMI_IDL_GENERIC_4_BYTE, QMI_IDL_OFFSET8 off ''xtraRemValidDuration'',
       QMI_IDL_TLV_FLAGS_LAST_TLV OR QMI_IDL_TLV_FLAGS_OPTIONAL OR (QMI_IDL_OFFSET8 off ''preciseXtraStatus'' - QMI_IDL_OFFSET8 off ''preciseXtraStatus_valid''), 0x19, QMI_IDL_GENERIC_1_BYTE, QMI_IDL_OFFSET8 off ''preciseXtraStatus'']))"

definition qmiLocSetParameterReqMsgT_data_v02 :: "int list" where
  "qmiLocSetParameterReqMsgT_data_v02 =
    (let off = offsetof qmiLocSetParameterReqMsgT_v02 in uint8_array (
      [0x01, QMI_IDL_GENERIC_4_BYTE, QMI_IDL_OFFSET8 off ''paramType'',
       QMI_IDL_TLV_FLAGS_OPTIONAL OR (QMI_IDL_OFFSET8 off ''minSvElevation'' - QMI_IDL_OFFSET8 off ''minSvElevation_valid''), 0x10, QMI_IDL_GENERIC_1_BYTE, QMI_IDL_OFFSET8 off ''minSvElevation'',
       QMI_IDL_TLV_FLAGS_LAST_TLV OR QMI_IDL_TLV_FLAGS_OPTIONAL OR (QMI_IDL_OFFSET8 off ''constellationConfig'' - QMI_IDL_OFFSET8 off ''constellationConfig_valid''), 0x11, QMI_IDL_GENERIC_8_BYTE, QMI_IDL_OFFSET8 off ''constellationConfig'']))"

definition qmiLocGetParameterReqMsgT_data_v02 :: "int list" where
  "qmiLocGetParameterReqMsgT_data_v02 =
    (let off = offsetof qmiLocGetParameterReqMsgT_v02 in uint8_array (
      [QMI_IDL_TLV_FLAGS_LAST_TLV OR 0x01, QMI_IDL_GENERIC_4_BYTE, QMI_IDL_OFFSET8 off ''paramType'']))"

definition qmiLocGetParameterIndMsgT_data_v02 :: "int list" where
  "qmiLocGetParameterIndMsgT_data_v02 =
    (let off = offsetof qmiLocGetParameterIndMsgT_v02 in uint8_array (
      [0x01, QMI_IDL_GENERIC_4_BYTE, QMI_IDL_OFFSET8 off ''status'',
       0x02, QMI_IDL_GENERIC_4_BYTE, QMI_IDL_OFFSET8 off ''paramType'',
       QMI_IDL_TLV_FLAGS_OPTIONAL OR (QMI_IDL_OFFSET8 off ''minSvElevation'' - QMI_IDL_OFFSET8 off ''minSvElevation_valid''), 0x10, QMI_IDL_GENERIC_1_BYTE, QMI_IDL_OFFSET8 off ''minSvElevation'',
       QMI_IDL_TLV_FLAGS_LAST_TLV OR QMI_IDL_TLV_FLAGS_OPTIONAL OR (QMI_IDL_OFFSET8 off ''constellationConfig'' - QMI_IDL_OFFSET8 off ''constellationConfig_valid''), 0x11, QMI_IDL_GENERIC_8_BYTE, QMI_IDL_OFFSET8 off ''constellationConfig'']))"

definition qmiLocSetStatisticsConfigReqMsgT_data_v02 :: "int list" where
  "qmiLocSetStatisticsConfigReqMsgT_data_v02 =
    (let off = offsetof qmiLocSetStatisticsConfigReqMsgT_v02 in uint8_array (
      [0x01, QMI_IDL_GENERIC_1_BYTE, QMI_IDL_OFFSET8 off ''enable'',
       QMI_IDL_TLV_FLAGS_LAST_TLV OR QMI_IDL_TLV_FLAGS_OPTIONAL OR (QMI_IDL_OFFSET8 off ''interval'' - QMI_IDL_OFFSET8 off ''interval_valid''), 0x10, QMI_IDL_GENERIC_4_BYTE, QMI_IDL_OFFSET8 off ''interval'']))"

definition qmiLocGetStatisticsConfigIndMsgT_data_v02 :: "int list" where
  "qmiLocGetStatisticsConfigIndMsgT_data_v02 =
    (let off = offsetof qmiLocGetStatisticsConfigIndMsgT_v02 in uint8_array (
      [0x01, QMI_IDL_GENERIC_4_BYTE, QMI_IDL_OFFSET8 off ''status'',
       QMI_IDL_TLV_FLAGS_OPTIONAL OR (QMI_IDL_OFFSET8 off ''enabled'' - QMI_IDL_OFFSET8 off ''enabled_valid''), 0x10, QMI_IDL_GENERIC_1_BYTE, QMI_IDL_OFFSET8 off ''enabled'',
       QMI_IDL_TLV_FLAGS_LAST_TLV OR QMI_IDL_TLV_FLAGS_OPTIONAL OR (QMI_IDL_OFFSET8 off ''interval'' - QMI_IDL_OFFSET8 off ''interval_valid''), 0x11, QMI_IDL_GENERIC_4_BYTE, QMI_IDL_OFFSET8 off ''interval'']))"

definition qmiLocGnssStatisticsReportIndMsgT_data_v02 :: "int list" where
  "qmiLocGnssStatisticsReportIndMsgT_data_v02 =
    (let off = offsetof qmiLocGnssStatisticsReportIndMsgT_v02 in uint8_array (
      [QMI_IDL_TLV_FLAGS_OPTIONAL OR (QMI_IDL_OFFSET8 off ''absValidAge'' - QMI_IDL_OFFSET8 off ''absValidAge_valid''), 0x10, QMI_IDL_GENERIC_4_BYTE, QMI_IDL_OFFSET8 off ''absValidAge'',
       QMI_IDL_TLV_FLAGS_OPTIONAL OR (QMI_IDL_OFFSET8 off ''averagePowerConsumed'' - QMI_IDL_OFFSET8 off ''averagePowerConsumed_valid''), 0x11, QMI_IDL_GENERIC_4_BYTE, QMI_IDL_OFFSET8 off ''averagePowerConsumed'',
       QMI_IDL_TLV_FLAGS_OPTIONAL OR (QMI_IDL_OFFSET8 off ''powerConsumptionDuration'' - QMI_IDL_OFFSET8 off ''powerConsumptionDuration_valid''), 0x12, QMI_IDL_GENERIC_4_BYTE, QMI_IDL_OFFSET8 off ''powerConsumptionDuration'',
       QMI_IDL_TLV_FLAGS_OPTIONAL OR (QMI_IDL_OFFSET8 off ''latitude'' - QMI_IDL_OFFSET8 off ''latitude_valid''), 0x13, QMI_IDL_GENERIC_8_BYTE, QMI_IDL_OFFSET8 off ''latitude'',
       QMI_IDL_TLV_FLAGS_OPTIONAL OR (QMI_IDL_OFFSET8 off ''longitude'' - QMI_IDL_OFFSET8 off ''longitude_valid''), 0x14, QMI_IDL_GENERIC_8_BYTE, QMI_IDL_OFFSET8 off ''longitude'',
       QMI_IDL_TLV_FLAGS_OPTIONAL OR (QMI_IDL_OFFSET8 off ''altitudeWrtEllipsoid'' - QMI_IDL_OFFSET8 off ''altitudeWrtEllipsoid_valid''), 0x15, QMI_IDL_GENERIC_4_BYTE, QMI_IDL_OFFSET8 off ''altitudeWrtEllipsoid'',
       QMI_IDL_TLV_FLAGS_OPTIONAL OR (QMI_IDL_OFFSET8 off ''altitudeWrtMeanSeaLevel'' - QMI_IDL_OFFSET8 off ''altitudeWrtMeanSeaLevel_valid''), 0x16, QMI_IDL_GENERIC_4_BYTE, QMI_IDL_OFFSET8 off ''altitudeWrtMeanSeaLevel'',
       QMI_IDL_TLV_FLAGS_OPTIONAL OR (QMI_IDL_OFFSET8 off ''horUncCircular'' - QMI_IDL_OFFSET8 off ''horUncCircular_valid''), 0x17, QMI_IDL_GENERIC_4_BYTE, QMI_IDL_OFFSET8 off ''horUncCircular'',
       QMI_IDL_TLV_FLAGS_OPTIONAL OR (QMI_IDL_OFFSET8 off ''vertUnc'' - QMI_IDL_OFFSET8 off ''vertUnc_valid''), 0x18, QMI_IDL_GENERIC_4_BYTE, QMI_IDL_OFFSET8 off ''vertUnc'',
       QMI_IDL_TLV_FLAGS_OPTIONAL OR (QMI_IDL_OFFSET8 off ''horUncEllipseSemiMinor'' - QMI_IDL_OFFSET8 off ''horUncEllipseSemiMinor_valid''), 0x19, QMI_IDL_GENERIC_4_BYTE, QMI_IDL_OFFSET8 off ''horUncEllipseSemiMinor'',
       QMI_IDL_TLV_FLAGS_OPTIONAL OR (QMI_IDL_OFFSET8 off ''horUncEllipseSemiMajor'' - QMI_IDL_OFFSET8 off ''horUncEllipseSemiMajor_valid''), 0x1A, QMI_IDL_GENERIC_4_BYTE, QMI_IDL_OFFSET8 off ''horUncEllipseSemiMajor'',
       QMI_IDL_TLV_FLAGS_OPTIONAL OR (QMI_IDL_OFFSET8 off ''horCircularConfidence'' - QMI_IDL_OFFSET8 off ''horCircularConfidence_valid''), 0x1B, QMI_IDL_GENERIC_1_BYTE, QMI_IDL_OFFSET8 off ''horCircularConfidence'',
       QMI_IDL_TLV_FLAGS_OPTIONAL OR (QMI_IDL_OFFSET8 off ''horReliability'' - QMI_IDL_OFFSET8 off ''horReliability_valid''), 0x1C, QMI_IDL_GENERIC_4_BYTE, QMI_IDL_OFFSET8 off ''horReliability'',
       QMI_IDL_TLV_FLAGS_OPTIONAL OR (QMI_IDL_OFFSET8 off ''horSpeed'' - QMI_IDL_OFFSET8 off ''horSpeed_valid''), 0x1D, QMI_IDL_GENERIC_4_BYTE, QMI_IDL_OFFSET8 off ''horSpeed'',
       QMI_IDL_TLV_FLAGS_OPTIONAL OR (QMI_IDL_OFFSET8 off ''horSpeedUnc'' - QMI_IDL_OFFSET8 off ''horSpeedUnc_valid''), 0x1E, QMI_IDL_GENERIC_4_BYTE, QMI_IDL_OFFSET8 off ''horSpeedUnc'',
       QMI_IDL_TLV_FLAGS_OPTIONAL OR (QMI_IDL_OFFSET8 off ''vertConfidence'' - QMI_IDL_OFFSET8 off ''vertConfidence_valid''), 0x1F, QMI_IDL_GENERIC_1_BYTE, QMI_IDL_OFFSET8 off ''vertConfidence'',
       QMI_IDL_TLV_FLAGS_OPTIONAL OR (QMI_IDL_OFFSET8 off ''vertReliability'' - QMI_IDL_OFFSET8 off ''vertReliability_valid''), 0x20, QMI_IDL_GENERIC_4_BYTE, QMI_IDL_OFFSET8 off ''vertReliability'',
       QMI_IDL_TLV_FLAGS_OPTIONAL OR (QMI_IDL_OFFSET8 off ''vertSpeed'' - QMI_IDL_OFFSET8 off ''vertSpeed_valid''), 0x21, QMI_IDL_GENERIC_4_BYTE, QMI_IDL_OFFSET8 off ''vertSpeed'',
       QMI_IDL_TLV_FLAGS_OPTIONAL OR (QMI_IDL_OFFSET8 off ''vertSpeedUnc'' - QMI_IDL_OFFSET8 off ''vertSpeedUnc_valid''), 0x22, QMI_IDL_GENERIC_4_BYTE, QMI_IDL_OFFSET8 off ''vertSpeedUnc'',
       QMI_IDL_TLV_FLAGS_OPTIONAL OR (QMI_IDL_OFFSET8 off ''gpsWeek'' - QMI_IDL_OFFSET8 off ''gpsWeek_valid''), 0x23, QMI_IDL_GENERIC_2_BYTE, QMI_IDL_OFFSET8 off ''gpsWeek'',
       QMI_IDL_TLV_FLAGS_OPTIONAL OR (QMI_IDL_OFFSET8 off ''gpsMsec'' - QMI_IDL_OFFSET8 off ''gpsMsec_valid''), 0x24, QMI_IDL_GENERIC_4_BYTE, QMI_IDL_OFFSET8 off ''gpsMsec'',
       QMI_IDL_TLV_FLAGS_OPTIONAL OR (QMI_IDL_OFFSET8 off ''clkTimeBias'' - QMI_IDL_OFFSET8 off ''clkTimeBias_valid''), 0x25, QMI_IDL_GENERIC_4_BYTE, QMI_IDL_OFFSET8 off ''clkTimeBias'',
       QMI_IDL_TLV_FLAGS_OPTIONAL OR (QMI_IDL_OFFSET8 off ''clkTimeBiasUnc'' - QMI_IDL_OFFSET8 off ''clkTimeBiasUnc_valid''), 0x26, QMI_IDL_GENERIC_4_BYTE, QMI_IDL_OFFSET8 off ''clkTimeBiasUnc'',
       QMI_IDL_TLV_FLAGS_LAST_TLV OR QMI_IDL_TLV_FLAGS_OPTIONAL OR (QMI_IDL_OFFSET8 off ''pdrEngagementRate'' - QMI_IDL_OFFSET8 off ''pdrEngagementRate_valid''), 0x27, QMI_IDL_GENERIC_1_BYTE, QMI_IDL_OFFSET8 off ''pdrEngagementRate'']))"

definition qmiLocSetGnssPdrModeReqMsgT_data_v02 :: "int list" where
  "qmiLocSetGnssPdrModeReqMsgT_data_v02 =
    (let off = offsetof qmiLocSetGnssPdrModeReqMsgT_v02 in uint8_array (
      [QMI_IDL_TLV_FLAGS_LAST_TLV OR QMI_IDL_TLV_FLAGS_OPTIONAL OR (QMI_IDL_OFFSET8 off ''mode'' - QMI_IDL_OFFSET8 off ''mode_valid''), 0x10, QMI_IDL_GENERIC_4_BYTE, QMI_IDL_OFFSET8 off ''mode'']))"

definition qmiLocGetGnssPdrModeIndMsgT_data_v02 :: "int list" where
  "qmiLocGetGnssPdrModeIndMsgT_data_v02 =
    (let off = offsetof qmiLocGetGnssPdrModeIndMsgT_v02 in uint8_array (
      [0x01, QMI_IDL_GENERIC_4_BYTE, QMI_IDL_OFFSET8 off ''status'',
       QMI_IDL_TLV_FLAGS_LAST_TLV OR QMI_IDL_TLV_FLAGS_OPTIONAL OR (QMI_IDL_OFFSET8 off ''mode'' - QMI_IDL_OFFSET8 off ''mode_valid''), 0x10, QMI_IDL_GENERIC_4_BYTE, QMI_IDL_OFFSET8 off ''mode'']))"

definition qmiLocGetMagCalStatePdrIndMsgT_data_v02 :: "int list" where
  "qmiLocGetMagCalStatePdrIndMsgT_data_v02 =
    (let off = offsetof qmiLocGetMagCalStatePdrIndMsgT_v02 in uint8_array (
      [0x01, QMI_IDL_GENERIC_4_BYTE, QMI_IDL_OFFSET8 off ''status'',
       QMI_IDL_TLV_FLAGS_LAST_TLV OR QMI_IDL_TLV_FLAGS_OPTIONAL OR (QMI_IDL_OFFSET8 off ''isCalibrated'' - QMI_IDL_OFFSET8 off ''isCalibrated_valid''), 0x10, QMI_IDL_GENERIC_1_BYTE, QMI_IDL_OFFSET8 off ''isCalibrated'']))"

definition qmiLocSetMultibandConfigReqMsgT_data_v02 :: "int list" where
  "qmiLocSetMultibandConfigReqMsgT_data_v02 =
    (let off = offsetof qmiLocSetMultibandConfigReqMsgT_v02 in uint8_array (
      [QMI_IDL_TLV_FLAGS_LAST_TLV OR QMI_IDL_TLV_FLAGS_OPTIONAL OR (QMI_IDL_OFFSET8 off ''secondaryGnssConfig'' - QMI_IDL_OFFSET8 off ''secondaryGnssConfig_valid''), 0x10, QMI_IDL_GENERIC_8_BYTE, QMI_IDL_OFFSET8 off ''secondaryGnssConfig'']))"

definition qmiLocGetMultibandConfigIndMsgT_data_v02 :: "int list" where
  "qmiLocGetMultibandConfigIndMsgT_data_v02 =
    (let off = offsetof qmiLocGetMultibandConfigIndMsgT_v02 in uint8_array (
      [0x01, QMI_IDL_GENERIC_4_BYTE, QMI_IDL_OFFSET8 off ''status'',
       QMI_IDL_TLV_FLAGS_LAST_TLV OR QMI_IDL_TLV_FLAGS_OPTIONAL OR (QMI_IDL_OFFSET8 off ''secondaryGnssConfig'' - QMI_IDL_OFFSET8 off ''secondaryGnssConfig_valid''), 0x10, QMI_IDL_GENERIC_8_BYTE, QMI_IDL_OFFSET8 off ''secondaryGnssConfig'']))"

definition qmiLocLatencyInformationIndMsgT_data_v02 :: "int list" where
  "qmiLocLatencyInformationIndMsgT_data_v02 =
    (let off = offsetof qmiLocLatencyInformationIndMsgT_v02 in uint8_array (
      [0x01, QMI_IDL_GENERIC_4_BYTE, QMI_IDL_OFFSET8 off ''latencyInfo'',
       QMI_IDL_TLV_FLAGS_OPTIONAL OR (QMI_IDL_OFFSET8 off ''sysTickAtChkPt1'' - QMI_IDL_OFFSET8 off ''sysTickAtChkPt1_valid''), 0x10, QMI_IDL_GENERIC_8_BYTE, QMI_IDL_OFFSET8 off ''sysTickAtChkPt1'',
       QMI_IDL_TLV_FLAGS_OPTIONAL OR (QMI_IDL_OFFSET8 off ''sysTickAtChkPt2'' - QMI_IDL_OFFSET8 off ''sysTickAtChkPt2_valid''), 0x11, QMI_IDL_GENERIC_8_BYTE, QMI_IDL_OFFSET8 off ''sysTickAtChkPt2'',
       QMI_IDL_TLV_FLAGS_OPTIONAL OR (QMI_IDL_OFFSET8 off ''sysTickAtChkPt3'' - QMI_IDL_OFFSET8 off ''sysTickAtChkPt3_valid''), 0x12, QMI_IDL_GENERIC_8_BYTE, QMI_IDL_OFFSET8 off ''sysTickAtChkPt3'',
       QMI_IDL_TLV_FLAGS_OPTIONAL OR (QMI_IDL_OFFSET8 off ''sysTickAtChkPt4'' - QMI_IDL_OFFSET8 off ''sysTickAtChkPt4_valid''), 0x13, QMI_IDL_GENERIC_8_BYTE, QMI_IDL_OFFSET8 off ''sysTickAtChkPt4'',
       QMI_IDL_TLV_FLAGS_OPTIONAL OR (QMI_IDL_OFFSET8 off ''sysTickAtChkPt5'' - QMI_IDL_OFFSET8 off ''sysTickAtChkPt5_valid''), 0x14, QMI_IDL_GENERIC_8_BYTE, QMI_IDL_OFFSET8 off ''sysTickAtChkPt5'',
       QMI_IDL_TLV_FLAGS_OPTIONAL OR (QMI_IDL_OFFSET8 off ''sysTickAtChkPt6'' - QMI_IDL_OFFSET8 off ''sysTickAtChkPt6_valid''), 0x15, QMI_IDL_GENERIC_8_BYTE, QMI_IDL_OFFSET8 off ''sysTickAtChkPt6'',
       QMI_IDL_TLV_FLAGS_OPTIONAL OR (QMI_IDL_OFFSET8 off ''sysTickAtChkPt7'' - QMI_IDL_OFFSET8 off ''sysTickAtChkPt7_valid''), 0x16, QMI_IDL_GENERIC_8_BYTE, QMI_IDL_OFFSET8 off ''sysTickAtChkPt7'',
       QMI_IDL_TLV_FLAGS_OPTIONAL OR (QMI_IDL_OFFSET8 off ''sysTickAtChkPt8'' - QMI_IDL_OFFSET8 off ''sysTickAtChkPt8_valid''), 0x17, QMI_IDL_GENERIC_8_BYTE, QMI_IDL_OFFSET8 off ''sysTickAtChkPt8'',
       QMI_IDL_TLV_FLAGS_OPTIONAL OR (QMI_IDL_OFFSET8 off ''sysTickAtChkPt9'' - QMI_IDL_OFFSET8 off ''sysTickAtChkPt9_valid''), 0x18, QMI_IDL_GENERIC_8_BYTE, QMI_IDL_OFFSET8 off ''sysTickAtChkPt9'',
       QMI_IDL_TLV_FLAGS_OPTIONAL OR (QMI_IDL_OFFSET8 off ''sysTickAtChkPt10'' - QMI_IDL_OFFSET8 off ''sysTickAtChkPt10_valid''), 0x19, QMI_IDL_GENERIC_8_BYTE, QMI_IDL_OFFSET8 off ''sysTickAtChkPt10'',
       QMI_IDL_TLV_FLAGS_LAST_TLV OR QMI_IDL_TLV_FLAGS_OPTIONAL OR (QMI_IDL_OFFSET8 off ''fCountOfMeasBlk'' - QMI_IDL_OFFSET8 off ''fCountOfMeasBlk_valid''), 0x1A, QMI_IDL_GENERIC_4_BYTE, QMI_IDL_OFFSET8 off ''fCountOfMeasBlk'']))"

definition qmiLocInjectLocationCivicAddressReqMsgT_data_v02 :: "int list" where
  "qmiLocInjectLocationCivicAddressReqMsgT_data_v02 =
    (let off = offsetof qmiLocInjectLocationCivicAddressReqMsgT_v02 in uint8_array (
      [QMI_IDL_TLV_FLAGS_OPTIONAL OR (QMI_IDL_OFFSET8 off ''latitude'' - QMI_IDL_OFFSET8 off ''latitude_valid''), 0x10, QMI_IDL_GENERIC_8_BYTE, QMI_IDL_OFFSET8 off ''latitude'',
       QMI_IDL_TLV_FLAGS_OPTIONAL OR (QMI_IDL_OFFSET8 off ''longitude'' - QMI_IDL_OFFSET8 off ''longitude_valid''), 0x11, QMI_IDL_GENERIC_8_BYTE, QMI_IDL_OFFSET8 off ''longitude'',
       QMI_IDL_TLV_FLAGS_OPTIONAL OR (QMI_IDL_OFFSET8 off ''horUncCircular'' - QMI_IDL_OFFSET8 off ''horUncCircular_valid''), 0x12, QMI_IDL_GENERIC_4_BYTE, QMI_IDL_OFFSET8 off ''horUncCircular'',
       QMI_IDL_TLV_FLAGS_OPTIONAL OR (QMI_IDL_OFFSET8 off ''horConfidence'' - QMI_IDL_OFFSET8 off ''horConfidence_valid''), 0x13, QMI_IDL_GENERIC_1_BYTE, QMI_IDL_OFFSET8 off ''horConfidence'',
       QMI_IDL_TLV_FLAGS_OPTIONAL OR (QMI_IDL_OFFSET8 off ''altitudeWrtEllipsoid'' - QMI_IDL_OFFSET8 off ''altitudeWrtEllipsoid_valid''), 0x14, QMI_IDL_GENERIC_4_BYTE, QMI_IDL_OFFSET8 off ''altitudeWrtEllipsoid'',
       QMI_IDL_TLV_FLAGS_OPTIONAL OR (QMI_IDL_OFFSET8 off ''altitudeWrtMeanSeaLevel'' - QMI_IDL_OFFSET8 off ''altitudeWrtMeanSeaLevel_valid''), 0x15, QMI_IDL_GENERIC_4_BYTE, QMI_IDL_OFFSET8 off ''altitudeWrtMeanSeaLevel'',
       QMI_IDL_TLV_FLAGS_OPTIONAL OR (QMI_IDL_OFFSET8 off ''vertUnc'' - QMI_IDL_OFFSET8 off ''vertUnc_valid''), 0x16, QMI_IDL_GENERIC_4_BYTE, QMI_IDL_OFFSET8 off ''vertUnc'',
       QMI_IDL_TLV_FLAGS_OPTIONAL OR (QMI_IDL_OFFSET8 off ''vertConfidence'' - QMI_IDL_OFFSET8 off ''vertConfidence_valid''), 0x17, QMI_IDL_GENERIC_1_BYTE, QMI_IDL_OFFSET8 off ''vertConfidence'',
       QMI_IDL_TLV_FLAGS_OPTIONAL OR (QMI_IDL_OFFSET8 off ''source'' - QMI_IDL_OFFSET8 off ''source_valid''), 0x18, QMI_IDL_GENERIC_4_BYTE, QMI_IDL_OFFSET8 off ''source'',
       QMI_IDL_TLV_FLAGS_OPTIONAL OR (QMI_IDL_OFFSET8 off ''timestampUtc'' - QMI_IDL_OFFSET8 off ''timestampUtc_valid''), 0x19, QMI_IDL_GENERIC_8_BYTE, QMI_IDL_OFFSET8 off ''timestampUtc'',
       QMI_IDL_TLV_FLAGS_OPTIONAL OR (QMI_IDL_OFFSET8 off ''timestampAge'' - QMI_IDL_OFFSET8 off ''timestampAge_valid''), 0x1A, QMI_IDL_GENERIC_4_BYTE, QMI_IDL_OFFSET8 off ''timestampAge'',
       QMI_IDL_TLV_FLAGS_OPTIONAL OR (QMI_IDL_OFFSET8 off ''positionSrc'' - QMI_IDL_OFFSET8 off ''positionSrc_valid''), 0x1B, QMI_IDL_GENERIC_4_BYTE, QMI_IDL_OFFSET8 off ''positionSrc'',
       QMI_IDL_TLV_FLAGS_OPTIONAL OR (QMI_IDL_OFFSET8 off ''country'' - QMI_IDL_OFFSET8 off ''country_valid''), 0x1C, QMI_IDL_FLAGS_IS_ARRAY OR QMI_IDL_FLAGS_IS_VARIABLE_LEN OR QMI_IDL_STRING, QMI_IDL_OFFSET8 off ''country'', QMI_LOC_MAX_COUNTRY_STR_LENGTH_V02,
       QMI_IDL_TLV_FLAGS_OPTIONAL OR (QMI_IDL_OFFSET8 off ''subdivA1'' - QMI_IDL_OFFSET8 off ''subdivA1_valid''), 0x1D, QMI_IDL_FLAGS_IS_ARRAY OR QMI_IDL_FLAGS_IS_VARIABLE_LEN OR QMI_IDL_STRING, QMI_IDL_OFFSET8 off ''subdivA1'', QMI_LOC_MAX_SUBDIV_A1_STR_LENGTH_V02,
       QMI_IDL_TLV_FLAGS_OPTIONAL OR (QMI_IDL_OFFSET8 off ''subdivA2'' - QMI_IDL_OFFSET8 off ''subdivA2_valid''), 0x1E, QMI_IDL_FLAGS_IS_ARRAY OR QMI_IDL_FLAGS_IS_VARIABLE_LEN OR QMI_IDL_STRING, QMI_IDL_OFFSET8 off ''subdivA2'', QMI_LOC_MAX_SUBDIV_A2_STR_LENGTH_V02,
       QMI_IDL_TLV_FLAGS_OPTIONAL OR (QMI_IDL_OFFSET8 off ''city'' - QMI_IDL_OFFSET8 off ''city_valid''), 0x1F, QMI_IDL_FLAGS_IS_ARRAY OR QMI_IDL_FLAGS_IS_VARIABLE_LEN OR QMI_IDL_STRING, QMI_IDL_OFFSET8 off ''city'', QMI_LOC_MAX_CITY_STR_LENGTH_V02,
       QMI_IDL_TLV_FLAGS_OPTIONAL OR (QMI_IDL_OFFSET8 off ''cityDiv'' - QMI_IDL_OFFSET8 off ''cityDiv_valid''), 0x20, QMI_IDL_FLAGS_IS_ARRAY OR QMI_IDL_FLAGS_IS_VARIABLE_LEN OR QMI_IDL_STRING, QMI_IDL_OFFSET8 off ''cityDiv'', QMI_LOC_MAX_CITYDIV_STR_LENGTH_V02,
       QMI_IDL_TLV_FLAGS_OPTIONAL OR (QMI_IDL_OFFSET16RELATIVE off ''neighborhood'' - QMI_IDL_OFFSET16RELATIVE off ''neighborhood_valid''), 0x21, QMI_IDL_FLAGS_IS_ARRAY OR QMI_IDL_FLAGS_IS_VARIABLE_LEN OR QMI_IDL_FLAGS_OFFSET_IS_16 OR QMI_IDL_STRING] @ QMI_IDL_OFFSET16ARRAY off ''neighborhood'' @
      [QMI_LOC_MAX_NEIGHBORHOOD_STR_LENGTH_V02,
       QMI_IDL_TLV_FLAGS_OPTIONAL OR (QMI_IDL_OFFSET16RELATIVE off ''street'' - QMI_IDL_OFFSET16RELATIVE off ''street_valid''), 0x22, QMI_IDL_FLAGS_IS_ARRAY OR QMI_IDL_FLAGS_IS_VARIABLE_LEN OR QMI_IDL_FLAGS_OFFSET_IS_16 OR QMI_IDL_STRING] @ QMI_IDL_OFFSET16ARRAY off ''street'' @
      [QMI_LOC_MAX_STREET_STR_LENGTH_V02,
       QMI_IDL_TLV_FLAGS_OPTIONAL OR (QMI_IDL_OFFSET16RELATIVE off ''leadingStreetDirection'' - QMI_IDL_OFFSET16RELATIVE off ''leadingStreetDirection_valid''), 0x23, QMI_IDL_FLAGS_IS_ARRAY OR QMI_IDL_FLAGS_IS_VARIABLE_LEN OR QMI_IDL_FLAGS_OFFSET_IS_16 OR QMI_IDL_STRING] @ QMI_IDL_OFFSET16ARRAY off ''leadingStreetDirection'' @
      [QMI_LOC_MAX_LEADING_STREET_DIR_STR_LENGTH_V02,
       QMI_IDL_TLV_FLAGS_OPTIONAL OR (QMI_IDL_OFFSET16RELATIVE off ''trailingStreetSuffix'' - QMI_IDL_OFFSET16RELATIVE off ''trailingStreetSuffix_valid''), 0x24, QMI_IDL_FLAGS_IS_ARRAY OR QMI_IDL_FLAGS_IS_VARIABLE_LEN OR QMI_IDL_FLAGS_OFFSET_IS_16 OR QMI_IDL_STRING] @ QMI_IDL_OFFSET16ARRAY off ''trailingStreetSuffix'' @
      [QMI_LOC_MAX_TRAILING_STREET_SUFFIX_STR_LENGTH_V02,
       QMI_IDL_TLV_FLAGS_OPTIONAL OR (QMI_IDL_OFFSET16RELATIVE off ''streetSuffix'' - QMI_IDL_OFFSET16RELATIVE off ''streetSuffix_valid''), 0x25, QMI_IDL_FLAGS_IS_ARRAY OR QMI_IDL_FLAGS_IS_VARIABLE_LEN OR QMI_IDL_FLAGS_OFFSET_IS_16 OR QMI_IDL_STRING] @ QMI_IDL_OFFSET16ARRAY off ''streetSuffix'' @
      [QMI_LOC_MAX_STREET_SUFFIX_STR_LENGTH_V02,
       QMI_IDL_TLV_FLAGS_OPTIONAL OR (QMI_IDL_OFFSET16RELATIVE off ''houseNumber'' - QMI_IDL_OFFSET16RELATIVE off ''houseNumber_valid''), 0x26, QMI_IDL_FLAGS_IS_ARRAY OR QMI_IDL_FLAGS_IS_VARIABLE_LEN OR QMI_IDL_FLAGS_OFFSET_IS_16 OR QMI_IDL_STRING] @ QMI_IDL_OFFSET16ARRAY off ''houseNumber'' @
      [QMI_LOC_MAX_HOUSE_NUMBER_STR_LENGTH_V02,
       QMI_IDL_TLV_FLAGS_OPTIONAL OR (QMI_IDL_OFFSET16RELATIVE off ''houserNumberSuffix'' - QMI_IDL_OFFSET16RELATIVE off ''houserNumberSuffix_valid''), 0x27, QMI_IDL_FLAGS_IS_ARRAY OR QMI_IDL_FLAGS_IS_VARIABLE_LEN OR QMI_IDL_FLAGS_OFFSET_IS_16 OR QMI_IDL_STRING] @ QMI_IDL_OFFSET16ARRAY off ''houserNumberSuffix'' @
      [QMI_LOC_MAX_HOUSE_NUMBER_SUFFIX_STR_LENGTH_V02,
       QMI_IDL_TLV_FLAGS_OPTIONAL OR (QMI_IDL_OFFSET16RELATIVE off ''landmark'' - QMI_IDL_OFFSET16RELATIVE off ''landmark_valid''), 0x28, QMI_IDL_FLAGS_IS_ARRAY OR QMI_IDL_FLAGS_IS_VARIABLE_LEN OR QMI_IDL_FLAGS_OFFSET_IS_16 OR QMI_IDL_STRING] @ QMI_IDL_OFFSET16ARRAY off ''landmark'' @
      [QMI_LOC_MAX_LANDMARK_STR_LENGTH_V02,
       QMI_IDL_TLV_FLAGS_OPTIONAL OR (QMI_IDL_OFFSET16RELATIVE off ''additionalLocInfo'' - QMI_IDL_OFFSET16RELATIVE off ''additionalLocInfo_valid''), 0x29, QMI_IDL_FLAGS_IS_ARRAY OR QMI_IDL_FLAGS_IS_VARIABLE_LEN OR QMI_IDL_FLAGS_OFFSET_IS_16 OR QMI_IDL_STRING] @ QMI_IDL_OFFSET16ARRAY off ''additionalLocInfo'' @
      [QMI_LOC_MAX_ADDITIONAL_LOC_INFO_STR_LENGTH_V02,
       QMI_IDL_TLV_FLAGS_OPTIONAL OR (QMI_IDL_OFFSET16RELATIVE off ''floor'' - QMI_IDL_OFFSET16RELATIVE off ''floor_valid''), 0x2A, QMI_IDL_FLAGS_IS_ARRAY OR QMI_IDL_FLAGS_IS_VARIABLE_LEN OR QMI_IDL_FLAGS_OFFSET_IS_16 OR QMI_IDL_STRING] @ QMI_IDL_OFFSET16ARRAY off ''floor'' @
      [QMI_LOC_MAX_FLOOR_STR_LENGTH_V02,
       QMI_IDL_TLV_FLAGS_OPTIONAL OR (QMI_IDL_OFFSET16RELATIVE off ''name'' - QMI_IDL_OFFSET16RELATIVE off ''name_valid''), 0x2B, QMI_IDL_FLAGS_IS_ARRAY OR QMI_IDL_FLAGS_IS_VARIABLE_LEN OR QMI_IDL_FLAGS_OFFSET_IS_16 OR QMI_IDL_STRING] @ QMI_IDL_OFFSET16ARRAY off ''name'' @
      [QMI_LOC_MAX_NAME_STR_LENGTH_V02,
       QMI_IDL_TLV_FLAGS_OPTIONAL OR (QMI_IDL_OFFSET16RELATIVE off ''postalCode'' - QMI_IDL_OFFSET16RELATIVE off ''postalCode_valid''), 0x2C, QMI_IDL_FLAGS_IS_ARRAY OR QMI_IDL_FLAGS_IS_VARIABLE_LEN OR QMI_IDL_FLAGS_OFFSET_IS_16 OR QMI_IDL_STRING] @ QMI_IDL_OFFSET16ARRAY off ''postalCode'' @
      [QMI_LOC_MAX_POSTAL_CODE_STR_LENGTH_V02,
       QMI_IDL_TLV_FLAGS_OPTIONAL OR (QMI_IDL_OFFSET16RELATIVE off ''positioningMethod'' - QMI_IDL_OFFSET16RELATIVE off ''positioningMethod_valid''), 0x2D, QMI_IDL_FLAGS_IS_ARRAY OR QMI_IDL_FLAGS_IS_VARIABLE_LEN OR QMI_IDL_FLAGS_OFFSET_IS_16 OR QMI_IDL_STRING] @ QMI_IDL_OFFSET16ARRAY off ''positioningMethod'' @
      [QMI_LOC_MAX_POSITIONING_METHOD_STR_LENGTH_V02,
       QMI_IDL_TLV_FLAGS_OPTIONAL OR (QMI_IDL_OFFSET16RELATIVE off ''building'' - QMI_IDL_OFFSET16RELATIVE off ''building_valid''), 0x2E, QMI_IDL_FLAGS_IS_ARRAY OR QMI_IDL_FLAGS_IS_VARIABLE_LEN OR QMI_IDL_FLAGS_OFFSET_IS_16 OR QMI_IDL_STRING] @ QMI_IDL_OFFSET16ARRAY off ''building'' @
      [QMI_LOC_MAX_BUILDING_STR_LENGTH_V02,
       QMI_IDL_TLV_FLAGS_OPTIONAL OR (QMI_IDL_OFFSET16RELATIVE off ''unit'' - QMI_IDL_OFFSET16RELATIVE off ''unit_valid''), 0x2F, QMI_IDL_FLAGS_IS_ARRAY OR QMI_IDL_FLAGS_IS_VARIABLE_LEN OR QMI_IDL_FLAGS_OFFSET_IS_16 OR QMI_IDL_STRING] @ QMI_IDL_OFFSET16ARRAY off ''unit'' @
      [QMI_LOC_MAX_UNIT_STR_LENGTH_V02,
       QMI_IDL_TLV_FLAGS_OPTIONAL OR (QMI_IDL_OFFSET16RELATIVE off ''room'' - QMI_IDL_OFFSET16RELATIVE off ''room_valid''), 0x30, QMI_IDL_FLAGS_IS_ARRAY OR QMI_IDL_FLAGS_IS_VARIABLE_LEN OR QMI_IDL_FLAGS_OFFSET_IS_16 OR QMI_IDL_STRING] @ QMI_IDL_OFFSET16ARRAY off ''room'' @
      [QMI_LOC_MAX_ROOM_STR_LENGTH_V02,
       QMI_IDL_TLV_FLAGS_OPTIONAL OR (QMI_IDL_OFFSET16RELATIVE off ''placeType'' - QMI_IDL_OFFSET16RELATIVE off ''placeType_valid''), 0x31, QMI_IDL_FLAGS_IS_ARRAY OR QMI_IDL_FLAGS_IS_VARIABLE_LEN OR QMI_IDL_FLAGS_OFFSET_IS_16 OR QMI_IDL_STRING] @ QMI_IDL_OFFSET16ARRAY off ''placeType'' @
      [QMI_LOC_MAX_PLACE_TYPE_STR_LENGTH_V02,
       QMI_IDL_TLV_FLAGS_OPTIONAL OR (QMI_IDL_OFFSET16RELATIVE off ''postalCommunityName'' - QMI_IDL_OFFSET16RELATIVE off ''postalCommunityName_valid''), 0x32, QMI_IDL_FLAGS_IS_ARRAY OR QMI_IDL_FLAGS_IS_VARIABLE_LEN OR QMI_IDL_FLAGS_OFFSET_IS_16 OR QMI_IDL_STRING] @ QMI_IDL_OFFSET16ARRAY off ''postalCommunityName'' @
      [QMI_LOC_MAX_POSTAL_COMM_TYPE_STR_LENGTH_V02,
       QMI_IDL_TLV_FLAGS_OPTIONAL OR (QMI_IDL_OFFSET16RELATIVE off ''poBox'' - QMI_IDL_OFFSET16RELATIVE off ''poBox_valid''), 0x33, QMI_IDL_FLAGS_IS_ARRAY OR QMI_IDL_FLAGS_IS_VARIABLE_LEN OR QMI_IDL_FLAGS_OFFSET_IS_16 OR QMI_IDL_STRING] @ QMI_IDL_OFFSET16ARRAY off ''poBox'' @
      [QMI_LOC_MAX_POST_OFFICE_BOX_STR_LENGTH_V02,
       QMI_IDL_TLV_FLAGS_OPTIONAL OR (QMI_IDL_OFFSET16RELATIVE off ''additionalCode'' - QMI_IDL_OFFSET16RELATIVE off ''additionalCode_valid''), 0x34, QMI_IDL_FLAGS_IS_ARRAY OR QMI_IDL_FLAGS_IS_VARIABLE_LEN OR QMI_IDL_FLAGS_OFFSET_IS_16 OR QMI_IDL_STRING] @ QMI_IDL_OFFSET16ARRAY off ''additionalCode'' @
      [QMI_LOC_MAX_ADDITIONAL_CODE_STR_LENGTH_V02,
       QMI_IDL_TLV_FLAGS_OPTIONAL OR (QMI_IDL_OFFSET16RELATIVE off ''seat'' - QMI_IDL_OFFSET16RELATIVE off ''seat_valid''), 0x35, QMI_IDL_FLAGS_IS_ARRAY OR QMI_IDL_FLAGS_IS_VARIABLE_LEN OR QMI_IDL_FLAGS_OFFSET_IS_16 OR QMI_IDL_STRING] @ QMI_IDL_OFFSET16ARRAY off ''seat'' @
      [QMI_LOC_MAX_SEAT_STR_LENGTH_V02,
       QMI_IDL_TLV_FLAGS_OPTIONAL OR (QMI_IDL_OFFSET16RELATIVE off ''primaryRoad'' - QMI_IDL_OFFSET16RELATIVE off ''primaryRoad_valid''), 0x36, QMI_IDL_FLAGS_IS_ARRAY OR QMI_IDL_FLAGS_IS_VARIABLE_LEN OR QMI_IDL_FLAGS_OFFSET_IS_16 OR QMI_IDL_STRING] @ QMI_IDL_OFFSET16ARRAY off ''primaryRoad'' @
      [QMI_LOC_MAX_PRIMARY_ROAD_STR_LENGTH_V02,
       QMI_IDL_TLV_FLAGS_OPTIONAL OR (QMI_IDL_OFFSET16RELATIVE off ''roadSection'' - QMI_IDL_OFFSET16RELATIVE off ''roadSection_valid''), 0x37, QMI_IDL_FLAGS_IS_ARRAY OR QMI_IDL_FLAGS_IS_VARIABLE_LEN OR QMI_IDL_FLAGS_OFFSET_IS_16 OR QMI_IDL_STRING] @ QMI_IDL_OFFSET16ARRAY off ''roadSection'' @
      [QMI_LOC_MAX_ROAD_SECTION_STR_LENGTH_V02,
       QMI_IDL_TLV_FLAGS_OPTIONAL OR (QMI_IDL_OFFSET16RELATIVE off ''roadBranch'' - QMI_IDL_OFFSET16RELATIVE off ''roadBranch_valid''), 0x38, QMI_IDL_FLAGS_IS_ARRAY OR QMI_IDL_FLAGS_IS_VARIABLE_LEN OR QMI_IDL_FLAGS_OFFSET_IS_16 OR QMI_IDL_STRING] @ QMI_IDL_OFFSET16ARRAY off ''roadBranch'' @
      [QMI_LOC_MAX_ROAD_BRANCH_STR_LENGTH_V02,
       QMI_IDL_TLV_FLAGS_OPTIONAL OR (QMI_IDL_OFFSET16RELATIVE off ''roadSubBranch'' - QMI_IDL_OFFSET16RELATIVE off ''roadSubBranch_valid''), 0x39, QMI_IDL_FLAGS_IS_ARRAY OR QMI_IDL_FLAGS_IS_VARIABLE_LEN OR QMI_IDL_FLAGS_OFFSET_IS_16 OR QMI_IDL_STRING] @ QMI_IDL_OFFSET16ARRAY off ''roadSubBranch'' @
      [QMI_LOC_MAX_ROAD_SUB_BRANCH_STR_LENGTH_V02,
       QMI_IDL_TLV_FLAGS_OPTIONAL OR (QMI_IDL_OFFSET16RELATIVE off ''roadPreModifier'' - QMI_IDL_OFFSET16RELATIVE off ''roadPreModifier_valid''), 0x3A, QMI_IDL_FLAGS_IS_ARRAY OR QMI_IDL_FLAGS_IS_VARIABLE_LEN OR QMI_IDL_FLAGS_OFFSET_IS_16 OR QMI_IDL_STRING] @ QMI_IDL_OFFSET16ARRAY off ''roadPreModifier'' @
      [QMI_LOC_MAX_ROAD_PRE_MODIFIER_STR_LENGTH_V02,
       QMI_IDL_TLV_FLAGS_LAST_TLV OR QMI_IDL_TLV_FLAGS_OPTIONAL OR (QMI_IDL_OFFSET16RELATIVE off ''roadPostModifier'' - QMI_IDL_OFFSET16RELATIVE off ''roadPostModifier_valid''), 0x3B, QMI_IDL_FLAGS_IS_ARRAY OR QMI_IDL_FLAGS_IS_VARIABLE_LEN OR QMI_IDL_FLAGS_OFFSET_IS_16 OR QMI_IDL_STRING] @ QMI_IDL_OFFSET16ARRAY off ''roadPostModifier'' @
      [QMI_LOC_MAX_ROAD_POST_MODIFIER_STR_LENGTH_V02]))"

definition qmiLocPlatformPowerStateChangedIndMsgT_data_v02 :: "int list" where
  "qmiLocPlatformPowerStateChangedIndMsgT_data_v02 =
    (let off = offsetof qmiLocPlatformPowerStateChangedIndMsgT_v02 in uint8_array (
      [QMI_IDL_TLV_FLAGS_OPTIONAL OR (QMI_IDL_OFFSET8 off ''powerStateOld'' - QMI_IDL_OFFSET8 off ''powerStateOld_valid''), 0x10, QMI_IDL_GENERIC_4_BYTE, QMI_IDL_OFFSET8 off ''powerStateOld'',
       QMI_IDL_TLV_FLAGS_LAST_TLV OR QMI_IDL_TLV_FLAGS_OPTIONAL OR (QMI_IDL_OFFSET8 off ''powerStateNew'' - QMI_IDL_OFFSET8 off ''powerStateNew_valid''), 0x11, QMI_IDL_GENERIC_4_BYTE, QMI_IDL_OFFSET8 off ''powerStateNew'']))"

definition qmiLocInjectRawDataReqMsgT_data_v02 :: "int list" where
  "qmiLocInjectRawDataReqMsgT_data_v02 =
    (let off = offsetof qmiLocInjectRawDataReqMsgT_v02 in uint8_array (
      [0x01, QMI_IDL_GENERIC_4_BYTE, QMI_IDL_OFFSET8 off ''injectionType'',
       0x02, QMI_IDL_GENERIC_4_BYTE, QMI_IDL_OFFSET8 off ''totalSize'',
       0x03, QMI_IDL_GENERIC_2_BYTE, QMI_IDL_OFFSET8 off ''totalParts'',
       0x04, QMI_IDL_GENERIC_2_BYTE, QMI_IDL_OFFSET8 off ''partNum'',
       QMI_IDL_TLV_FLAGS_LAST_TLV OR 0x05, QMI_IDL_FLAGS_IS_ARRAY OR QMI_IDL_FLAGS_IS_VARIABLE_LEN OR QMI_IDL_FLAGS_SZ_IS_16 OR QMI_IDL_GENERIC_1_BYTE, QMI_IDL_OFFSET8 off ''partData'', QMI_LOC_MAX_RAW_DATA_PART_LEN_V02 AND 0xFF, drop_bit 8 QMI_LOC_MAX_RAW_DATA_PART_LEN_V02, QMI_IDL_OFFSET8 off ''partData'' - QMI_IDL_OFFSET8 off ''partData_len'']))"

definition qmiLocInjectRawDataIndMsgT_data_v02 :: "int list" where
  "qmiLocInjectRawDataIndMsgT_data_v02 =
    (let off = offsetof qmiLocInjectRawDataIndMsgT_v02 in uint8_array (
      [0x01, QMI_IDL_GENERIC_4_BYTE, QMI_IDL_OFFSET8 off ''status'',
       QMI_IDL_TLV_FLAGS_LAST_TLV OR QMI_IDL_TLV_FLAGS_OPTIONAL OR (QMI_IDL_OFFSET8 off ''partNum'' - QMI_IDL_OFFSET8 off ''partNum_valid''), 0x10, QMI_IDL_GENERIC_2_BYTE, QMI_IDL_OFFSET8 off ''partNum'']))"

definition qmiLocEngineDebugDataIndMsgT_data_v02 :: "int list" where
  "qmiLocEngineDebugDataIndMsgT_data_v02 =
    (let off = offsetof qmiLocEngineDebugDataIndMsgT_v02 in uint8_array (
      [QMI_IDL_TLV_FLAGS_OPTIONAL OR (QMI_IDL_OFFSET8 off ''week'' - QMI_IDL_OFFSET8 off ''week_valid''), 0x10, QMI_IDL_GENERIC_2_BYTE, QMI_IDL_OFFSET8 off ''week'',
       QMI_IDL_TLV_FLAGS_OPTIONAL OR (QMI_IDL_OFFSET8 off ''timeOfWeek'' - QMI_IDL_OFFSET8 off ''timeOfWeek_valid''), 0x11, QMI_IDL_GENERIC_4_BYTE, QMI_IDL_OFFSET8 off ''timeOfWeek'',
       QMI_IDL_TLV_FLAGS_OPTIONAL OR (QMI_IDL_OFFSET8 off ''sourceOfTime'' - QMI_IDL_OFFSET8 off ''sourceOfTime_valid''), 0x12, QMI_IDL_GENERIC_4_BYTE, QMI_IDL_OFFSET8 off ''sourceOfTime'',
       QMI_IDL_TLV_FLAGS_OPTIONAL OR (QMI_IDL_OFFSET8 off ''clkTimeUnc'' - QMI_IDL_OFFSET8 off ''clkTimeUnc_valid''), 0x13, QMI_IDL_GENERIC_4_BYTE, QMI_IDL_OFFSET8 off ''clkTimeUnc'',
       QMI_IDL_TLV_FLAGS_OPTIONAL OR (QMI_IDL_OFFSET8 off ''clkFreqBias'' - QMI_IDL_OFFSET8 off ''clkFreqBias_valid''), 0x14, QMI_IDL_GENERIC_4_BYTE, QMI_IDL_OFFSET8 off ''clkFreqBias'',
       QMI_IDL_TLV_FLAGS_OPTIONAL OR (QMI_IDL_OFFSET8 off ''clkFreqUnc'' - QMI_IDL_OFFSET8 off ''clkFreqUnc_valid''), 0x15, QMI_IDL_GENERIC_4_BYTE, QMI_IDL_OFFSET8 off ''clkFreqUnc'',
       QMI_IDL_TLV_FLAGS_OPTIONAL OR (QMI_IDL_OFFSET8 off ''xoState'' - QMI_IDL_OFFSET8 off ''xoState_valid''), 0x16, QMI_IDL_GENERIC_4_BYTE, QMI_IDL_OFFSET8 off ''xoState'',
       QMI_IDL_TLV_FLAGS_OPTIONAL OR (QMI_IDL_OFFSET8 off ''rcvrErrRecovery'' - QMI_IDL_OFFSET8 off ''rcvrErrRecovery_valid''), 0x17, QMI_IDL_GENERIC_4_BYTE, QMI_IDL_OFFSET8 off ''rcvrErrRecovery'',
       QMI_IDL_TLV_FLAGS_OPTIONAL OR (QMI_IDL_OFFSET8 off ''leapSecondInfo'' - QMI_IDL_OFFSET8 off ''leapSecondInfo_valid''), 0x18, QMI_IDL_AGGREGATE, QMI_IDL_OFFSET8 off ''leapSecondInfo''] @ QMI_IDL_TYPE88 0 61 @
      [QMI_IDL_TLV_FLAGS_OPTIONAL OR (QMI_IDL_OFFSET8 off ''jammedSignalsMask'' - QMI_IDL_OFFSET8 off ''jammedSignalsMask_valid''), 0x19, QMI_IDL_GENERIC_8_BYTE, QMI_IDL_OFFSET8 off ''jammedSignalsMask'',
       QMI_IDL_TLV_FLAGS_OPTIONAL OR (QMI_IDL_OFFSET8 off ''jammerIndicatorList'' - QMI_IDL_OFFSET8 off ''jammerIndicatorList_valid''), 0x1A, QMI_IDL_FLAGS_IS_ARRAY OR QMI_IDL_FLAGS_IS_VARIABLE_LEN OR QMI_IDL_AGGREGATE, QMI_IDL_OFFSET8 off ''jammerIndicatorList'', QMI_LOC_MAX_GNSS_SIGNAL_TYPE_EXT_V02, QMI_IDL_OFFSET8 off ''jammerIndicatorList'' - QMI_IDL_OFFSET8 off ''jammerIndicatorList_len''] @ QMI_IDL_TYPE88 0 7 @
      [QMI_IDL_TLV_FLAGS_OPTIONAL OR (QMI_IDL_OFFSET16RELATIVE off ''epiTime'' - QMI_IDL_OFFSET16RELATIVE off ''epiTime_valid''), 0x1B, QMI_IDL_FLAGS_OFFSET_IS_16 OR QMI_IDL_AGGREGATE] @ QMI_IDL_OFFSET16ARRAY off ''epiTime'' @ QMI_IDL_TYPE88 0 105 @
      [QMI_IDL_TLV_FLAGS_OPTIONAL OR (QMI_IDL_OFFSET16RELATIVE off ''epiLat'' - QMI_IDL_OFFSET16RELATIVE off ''epiLat_valid''), 0x1C, QMI_IDL_FLAGS_OFFSET_IS_16 OR QMI_IDL_GENERIC_4_BYTE] @ QMI_IDL_OFFSET16ARRAY off ''epiLat'' @
      [QMI_IDL_TLV_FLAGS_OPTIONAL OR (QMI_IDL_OFFSET16RELATIVE off ''epiLon'' - QMI_IDL_OFFSET16RELATIVE off ''epiLon_valid''), 0x1D, QMI_IDL_FLAGS_OFFSET_IS_16 OR QMI_IDL_GENERIC_4_BYTE] @ QMI_IDL_OFFSET16ARRAY off ''epiLon'' @
      [QMI_IDL_TLV_FLAGS_OPTIONAL OR (QMI_IDL_OFFSET16RELATIVE off ''epiAlt'' - QMI_IDL_OFFSET16RELATIVE off ''epiAlt_valid''), 0x1E, QMI_IDL_FLAGS_OFFSET_IS_16 OR QMI_IDL_GENERIC_4_BYTE] @ QMI_IDL_OFFSET16ARRAY off ''epiAlt'' @
      [QMI_IDL_TLV_FLAGS_OPTIONAL OR (QMI_IDL_OFFSET16RELATIVE off ''epiHepe'' - QMI_IDL_OFFSET16RELATIVE off ''epiHepe_valid''), 0x1F, QMI_IDL_FLAGS_OFFSET_IS_16 OR QMI_IDL_GENERIC_4_BYTE] @ QMI_IDL_OFFSET16ARRAY off ''epiHepe'' @
      [QMI_IDL_TLV_FLAGS_OPTIONAL OR (QMI_IDL_OFFSET16RELATIVE off ''epiAltUnc'' - QMI_IDL_OFFSET16RELATIVE off ''epiAltUnc_valid''), 0x20, QMI_IDL_FLAGS_OFFSET_IS_16 OR QMI_IDL_GENERIC_4_BYTE] @ QMI_IDL_OFFSET16ARRAY off ''epiAltUnc'' @
      [QMI_IDL_TLV_FLAGS_OPTIONAL OR (QMI_IDL_OFFSET16RELATIVE off ''epiSrc'' - QMI_IDL_OFFSET16RELATIVE off ''epiSrc_valid''), 0x21, QMI_IDL_FLAGS_OFFSET_IS_16 OR QMI_IDL_GENERIC_1_BYTE] @ QMI_IDL_OFFSET16ARRAY off ''epiSrc'' @
      [QMI_IDL_TLV_FLAGS_OPTIONAL OR (QMI_IDL_OFFSET16RELATIVE off ''bestPosTime'' - QMI_IDL_OFFSET16RELATIVE off ''bestPosTime_valid''), 0x22, QMI_IDL_FLAGS_OFFSET_IS_16 OR QMI_IDL_AGGREGATE] @ QMI_IDL_OFFSET16ARRAY off ''bestPosTime'' @ QMI_IDL_TYPE88 0 105 @
      [QMI_IDL_TLV_FLAGS_OPTIONAL OR (QMI_IDL_OFFSET16RELATIVE off ''bestPosLat'' - QMI_IDL_OFFSET16RELATIVE off ''bestPosLat_valid''), 0x23, QMI_IDL_FLAGS_OFFSET_IS_16 OR QMI_IDL_GENERIC_4_BYTE] @ QMI_IDL_OFFSET16ARRAY off ''bestPosLat'' @
      [QMI_IDL_TLV_FLAGS_OPTIONAL OR (QMI_IDL_OFFSET16RELATIVE off ''bestPosLon'' - QMI_IDL_OFFSET16RELATIVE off ''bestPosLon_valid''), 0x24, QMI_IDL_FLAGS_OFFSET_IS_16 OR QMI_IDL_GENERIC_4_BYTE] @ QMI_IDL_OFFSET16ARRAY off ''bestPosLon'' @
      [QMI_IDL_TLV_FLAGS_OPTIONAL OR (QMI_IDL_OFFSET16RELATIVE off ''bestPosAlt'' - QMI_IDL_OFFSET16RELATIVE off ''bestPosAlt_valid''), 0x25, QMI_IDL_FLAGS_OFFSET_IS_16 OR QMI_IDL_GENERIC_4_BYTE] @ QMI_IDL_OFFSET16ARRAY off ''bestPosAlt'' @
      [QMI_IDL_TLV_FLAGS_OPTIONAL OR (QMI_IDL_OFFSET16RELATIVE off ''bestPosHepe'' - QMI_IDL_OFFSET16RELATIVE off ''bestPosHepe_valid''), 0x26, QMI_IDL_FLAGS_OFFSET_IS_16 OR QMI_IDL_GENERIC_4_BYTE] @ QMI_IDL_OFFSET16ARRAY off ''bestPosHepe'' @
      [QMI_IDL_TLV_FLAGS_OPTIONAL OR (QMI_IDL_OFFSET16RELATIVE off ''bestPosAltUnc'' - QMI_IDL_OFFSET16RELATIVE off ''bestPosAltUnc_valid''), 0x27, QMI_IDL_FLAGS_OFFSET_IS_16 OR QMI_IDL_GENERIC_4_BYTE] @ QMI_IDL_OFFSET16ARRAY off ''bestPosAltUnc'' @
      [QMI_IDL_TLV_FLAGS_OPTIONAL OR (QMI_IDL_OFFSET16RELATIVE off ''xtraInfoTime'' - QMI_IDL_OFFSET16RELATIVE off ''xtraInfoTime_valid''), 0x28, QMI_IDL_FLAGS_OFFSET_IS_16 OR QMI_IDL_AGGREGATE] @ QMI_IDL_OFFSET16ARRAY off ''xtraInfoTime'' @ QMI_IDL_TYPE88 0 105 @
      [QMI_IDL_TLV_FLAGS_OPTIONAL OR (QMI_IDL_OFFSET16RELATIVE off ''gpsXtraAge'' - QMI_IDL_OFFSET16RELATIVE off ''gpsXtraAge_valid''), 0x29, QMI_IDL_FLAGS_OFFSET_IS_16 OR QMI_IDL_GENERIC_4_BYTE] @ QMI_IDL_OFFSET16ARRAY off ''gpsXtraAge'' @
      [QMI_IDL_TLV_FLAGS_OPTIONAL OR (QMI_IDL_OFFSET16RELATIVE off ''gloXtraAge'' - QMI_IDL_OFFSET16RELATIVE off ''gloXtraAge_valid''), 0x2A, QMI_IDL_FLAGS_OFFSET_IS_16 OR QMI_IDL_GENERIC_4_BYTE] @ QMI_IDL_OFFSET16ARRAY off ''gloXtraAge'' @
      [QMI_IDL_TLV_FLAGS_OPTIONAL OR (QMI_IDL_OFFSET16RELATIVE off ''bdsXtraAge'' - QMI_IDL_OFFSET16RELATIVE off ''bdsXtraAge_valid''), 0x2B, QMI_IDL_FLAGS_OFFSET_IS_16 OR QMI_IDL_GENERIC_4_BYTE] @ QMI_IDL_OFFSET16ARRAY off ''bdsXtraAge'' @
      [QMI_IDL_TLV_FLAGS_OPTIONAL OR (QMI_IDL_OFFSET16RELATIVE off ''galXtraAge'' - QMI_IDL_OFFSET16RELATIVE off ''galXtraAge_valid''), 0x2C, QMI_IDL_FLAGS_OFFSET_IS_16 OR QMI_IDL_GENERIC_4_BYTE] @ QMI_IDL_OFFSET16ARRAY off ''galXtraAge'' @
      [QMI_IDL_TLV_FLAGS_OPTIONAL OR (QMI_IDL_OFFSET16RELATIVE off ''qzssXtraAge'' - QMI_IDL_OFFSET16RELATIVE off ''qzssXtraAge_valid''), 0x2D, QMI_IDL_FLAGS_OFFSET_IS_16 OR QMI_IDL_GENERIC_4_BYTE] @ QMI_IDL_OFFSET16ARRAY off ''qzssXtraAge'' @
      [QMI_IDL_TLV_FLAGS_OPTIONAL OR (QMI_IDL_OFFSET16RELATIVE off ''navicXtraAge'' - QMI_IDL_OFFSET16RELATIVE off ''navicXtraAge_valid''), 0x2E, QMI_IDL_FLAGS_OFFSET_IS_16 OR QMI_IDL_GENERIC_4_BYTE] @ QMI_IDL_OFFSET16ARRAY off ''navicXtraAge'' @
      [QMI_IDL_TLV_FLAGS_OPTIONAL OR (QMI_IDL_OFFSET16RELATIVE off ''gpsXtraMask'' - QMI_IDL_OFFSET16RELATIVE off ''gpsXtraMask_valid''), 0x2F, QMI_IDL_FLAGS_OFFSET_IS_16 OR QMI_IDL_GENERIC_4_BYTE] @ QMI_IDL_OFFSET16ARRAY off ''gpsXtraMask'' @
      [QMI_IDL_TLV_FLAGS_OPTIONAL OR (QMI_IDL_OFFSET16RELATIVE off ''gloXtraMask'' - QMI_IDL_OFFSET16RELATIVE off ''gloXtraMask_valid''), 0x30, QMI_IDL_FLAGS_OFFSET_IS_16 OR QMI_IDL_GENERIC_4_BYTE] @ QMI_IDL_OFFSET16ARRAY off ''gloXtraMask'' @
      [QMI_IDL_TLV_FLAGS_OPTIONAL OR (QMI_IDL_OFFSET16RELATIVE off ''bdsXtraMask'' - QMI_IDL_OFFSET16RELATIVE off ''bdsXtraMask_valid''), 0x31, QMI_IDL_FLAGS_OFFSET_IS_16 OR QMI_IDL_GENERIC_8_BYTE] @ QMI_IDL_OFFSET16ARRAY off ''bdsXtraMask'' @
      [QMI_IDL_TLV_FLAGS_OPTIONAL OR (QMI_IDL_OFFSET16RELATIVE off ''galXtraMask'' - QMI_IDL_OFFSET16RELATIVE off ''galXtraMask_valid''), 0x32, QMI_IDL_FLAGS_OFFSET_IS_16 OR QMI_IDL_GENERIC_8_BYTE] @ QMI_IDL_OFFSET16ARRAY off ''galXtraMask'' @
      [QMI_IDL_TLV_FLAGS_OPTIONAL OR (QMI_IDL_OFFSET16RELATIVE off ''qzssXtraMask'' - QMI_IDL_OFFSET16RELATIVE off ''qzssXtraMask_valid''), 0x33, QMI_IDL_FLAGS_OFFSET_IS_16 OR QMI_IDL_GENERIC_1_BYTE] @ QMI_IDL_OFFSET16ARRAY off ''qzssXtraMask'' @
      [QMI_IDL_TLV_FLAGS_OPTIONAL OR (QMI_IDL_OFFSET16RELATIVE off ''navicXtraMask'' - QMI_IDL_OFFSET16RELATIVE off ''navicXtraMask_valid''), 0x34, QMI_IDL_FLAGS_OFFSET_IS_16 OR QMI_IDL_GENERIC_4_BYTE] @ QMI_IDL_OFFSET16ARRAY off ''navicXtraMask'' @
      [QMI_IDL_TLV_FLAGS_OPTIONAL OR (QMI_IDL_OFFSET16RELATIVE off ''ephInfoTime'' - QMI_IDL_OFFSET16RELATIVE off ''ephInfoTime_valid''), 0x35, QMI_IDL_FLAGS_OFFSET_IS_16 OR QMI_IDL_AGGREGATE] @ QMI_IDL_OFFSET16ARRAY off ''ephInfoTime'' @ QMI_IDL_TYPE88 0 105 @
      [QMI_IDL_TLV_FLAGS_OPTIONAL OR (QMI_IDL_OFFSET16RELATIVE off ''gpsEphMask'' - QMI_IDL_OFFSET16RELATIVE off ''gpsEphMask_valid''), 0x36, QMI_IDL_FLAGS_OFFSET_IS_16 OR QMI_IDL_GENERIC_4_BYTE] @ QMI_IDL_OFFSET16ARRAY off ''gpsEphMask'' @
      [QMI_IDL_TLV_FLAGS_OPTIONAL OR (QMI_IDL_OFFSET16RELATIVE off ''gloEphMask'' - QMI_IDL_OFFSET16RELATIVE off ''gloEphMask_valid''), 0x37, QMI_IDL_FLAGS_OFFSET_IS_16 OR QMI_IDL_GENERIC_4_BYTE] @ QMI_IDL_OFFSET16ARRAY off ''gloEphMask'' @
      [QMI_IDL_TLV_FLAGS_OPTIONAL OR (QMI_IDL_OFFSET16RELATIVE off ''bdsEphMask'' - QMI_IDL_OFFSET16RELATIVE off ''bdsEphMask_valid''), 0x38, QMI_IDL_FLAGS_OFFSET_IS_16 OR QMI_IDL_GENERIC_8_BYTE] @ QMI_IDL_OFFSET16ARRAY off ''bdsEphMask'' @
      [QMI_IDL_TLV_FLAGS_OPTIONAL OR (QMI_IDL_OFFSET16RELATIVE off ''galEphMask'' - QMI_IDL_OFFSET16RELATIVE off ''galEphMask_valid''), 0x39, QMI_IDL_FLAGS_OFFSET_IS_16 OR QMI_IDL_GENERIC_8_BYTE] @ QMI_IDL_OFFSET16ARRAY off ''galEphMask'' @
      [QMI_IDL_TLV_FLAGS_OPTIONAL OR (QMI_IDL_OFFSET16RELATIVE off ''qzssEphMask'' - QMI_IDL_OFFSET16RELATIVE off ''qzssEphMask_valid''), 0x3A, QMI_IDL_FLAGS_OFFSET_IS_16 OR QMI_IDL_GENERIC_1_BYTE] @ QMI_IDL_OFFSET16ARRAY off ''qzssEphMask'' @
      [QMI_IDL_TLV_FLAGS_OPTIONAL OR (QMI_IDL_OFFSET16RELATIVE off ''navicEphMask'' - QMI_IDL_OFFSET16RELATIVE off ''navicEphMask_valid''), 0x3B, QMI_IDL_FLAGS_OFFSET_IS_16 OR QMI_IDL_GENERIC_4_BYTE] @ QMI_IDL_OFFSET16ARRAY off ''navicEphMask'' @
      [QMI_IDL_TLV_FLAGS_OPTIONAL OR (QMI_IDL_OFFSET16RELATIVE off ''healthInfoTime'' - QMI_IDL_OFFSET16RELATIVE off ''healthInfoTime_valid''), 0x3C, QMI_IDL_FLAGS_OFFSET_IS_16 OR QMI_IDL_AGGREGATE] @ QMI_IDL_OFFSET16ARRAY off ''healthInfoTime'' @ QMI_IDL_TYPE88 0 105 @
      [QMI_IDL_TLV_FLAGS_OPTIONAL OR (QMI_IDL_OFFSET16RELATIVE off ''gpsHealthUnknownMask'' - QMI_IDL_OFFSET16RELATIVE off ''gpsHealthUnknownMask_valid''), 0x3D, QMI_IDL_FLAGS_OFFSET_IS_16 OR QMI_IDL_GENERIC_4_BYTE] @ QMI_IDL_OFFSET16ARRAY off ''gpsHealthUnknownMask'' @
      [QMI_IDL_TLV_FLAGS_OPTIONAL OR (QMI_IDL_OFFSET16RELATIVE off ''gloHealthUnknownMask'' - QMI_IDL_OFFSET16RELATIVE off ''gloHealthUnknownMask_valid''), 0x3E, QMI_IDL_FLAGS_OFFSET_IS_16 OR QMI_IDL_GENERIC_4_BYTE] @ QMI_IDL_OFFSET16ARRAY off ''gloHealthUnknownMask'' @
      [QMI_IDL_TLV_FLAGS_OPTIONAL OR (QMI_IDL_OFFSET16RELATIVE off ''bdsHealthUnknownMask'' - QMI_IDL_OFFSET16RELATIVE off ''bdsHealthUnknownMask_valid''), 0x3F, QMI_IDL_FLAGS_OFFSET_IS_16 OR QMI_IDL_GENERIC_8_BYTE] @ QMI_IDL_OFFSET16ARRAY off ''bdsHealthUnknownMask'' @
      [QMI_IDL_TLV_FLAGS_OPTIONAL OR (QMI_IDL_OFFSET16RELATIVE off ''galHealthUnknownMask'' - QMI_IDL_OFFSET16RELATIVE off ''galHealthUnknownMask_valid''), 0x40, QMI_IDL_FLAGS_OFFSET_IS_16 OR QMI_IDL_GENERIC_8_BYTE] @ QMI_IDL_OFFSET16ARRAY off ''galHealthUnknownMask'' @
      [QMI_IDL_TLV_FLAGS_OPTIONAL OR (QMI_IDL_OFFSET16RELATIVE off ''qzssHealthUnknownMask'' - QMI_IDL_OFFSET16RELATIVE off ''qzssHealthUnknownMask_valid''), 0x41, QMI_IDL_FLAGS_OFFSET_IS_16 OR QMI_IDL_GENERIC_1_BYTE] @ QMI_IDL_OFFSET16ARRAY off ''qzssHealthUnknownMask'' @
      [QMI_IDL_TLV_FLAGS_OPTIONAL OR (QMI_IDL_OFFSET16RELATIVE off ''navicHealthUnknownMask'' - QMI_IDL_OFFSET16RELATIVE off ''navicHealthUnknownMask_valid''), 0x42, QMI_IDL_FLAGS_OFFSET_IS_16 OR QMI_IDL_GENERIC_4_BYTE] @ QMI_IDL_OFFSET16ARRAY off ''navicHealthUnknownMask'' @
      [QMI_IDL_TLV_FLAGS_OPTIONAL OR (QMI_IDL_OFFSET16RELATIVE off ''gpsHealthGoodMask'' - QMI_IDL_OFFSET16RELATIVE off ''gpsHealthGoodMask_valid''), 0x43, QMI_IDL_FLAGS_OFFSET_IS_16 OR QMI_IDL_GENERIC_4_BYTE] @ QMI_IDL_OFFSET16ARRAY off ''gpsHealthGoodMask'' @
      [QMI_IDL_TLV_FLAGS_OPTIONAL OR (QMI_IDL_OFFSET16RELATIVE off ''gloHealthGoodMask'' - QMI_IDL_OFFSET16RELATIVE off ''gloHealthGoodMask_valid''), 0x44, QMI_IDL_FLAGS_OFFSET_IS_16 OR QMI_IDL_GENERIC_4_BYTE] @ QMI_IDL_OFFSET16ARRAY off ''gloHealthGoodMask'' @
      [QMI_IDL_TLV_FLAGS_OPTIONAL OR (QMI_IDL_OFFSET16RELATIVE off ''bdsHealthGoodMask'' - QMI_IDL_OFFSET16RELATIVE off ''bdsHealthGoodMask_valid''), 0x45, QMI_IDL_FLAGS_OFFSET_IS_16 OR QMI_IDL_GENERIC_8_BYTE] @ QMI_IDL_OFFSET16ARRAY off ''bdsHealthGoodMask'' @
      [QMI_IDL_TLV_FLAGS_OPTIONAL OR (QMI_IDL_OFFSET16RELATIVE off ''galHealthGoodMask'' - QMI_IDL_OFFSET16RELATIVE off ''galHealthGoodMask_valid''), 0x46, QMI_IDL_FLAGS_OFFSET_IS_16 OR QMI_IDL_GENERIC_8_BYTE] @ QMI_IDL_OFFSET16ARRAY off ''galHealthGoodMask'' @
      [QMI_IDL_TLV_FLAGS_OPTIONAL OR (QMI_IDL_OFFSET16RELATIVE off ''qzssHealthGoodMask'' - QMI_IDL_OFFSET16RELATIVE off ''qzssHealthGoodMask_valid''), 0x47, QMI_IDL_FLAGS_OFFSET_IS_16 OR QMI_IDL_GENERIC_1_BYTE] @ QMI_IDL_OFFSET16ARRAY off ''qzssHealthGoodMask'' @
      [QMI_IDL_TLV_FLAGS_OPTIONAL OR (QMI_IDL_OFFSET16RELATIVE off ''navicHealthGoodMask'' - QMI_IDL_OFFSET16RELATIVE off ''navicHealthGoodMask_valid''), 0x48, QMI_IDL_FLAGS_OFFSET_IS_16 OR QMI_IDL_GENERIC_4_BYTE] @ QMI_IDL_OFFSET16ARRAY off ''navicHealthGoodMask'' @
      [QMI_IDL_TLV_FLAGS_OPTIONAL OR (QMI_IDL_OFFSET16RELATIVE off ''gpsHealthBadMask'' - QMI_IDL_OFFSET16RELATIVE off ''gpsHealthBadMask_valid''), 0x49, QMI_IDL_FLAGS_OFFSET_IS_16 OR QMI_IDL_GENERIC_4_BYTE] @ QMI_IDL_OFFSET16ARRAY off ''gpsHealthBadMask'' @
      [QMI_IDL_TLV_FLAGS_OPTIONAL OR (QMI_IDL_OFFSET16RELATIVE off ''gloHealthBadMask'' - QMI_IDL_OFFSET16RELATIVE off ''gloHealthBadMask_valid''), 0x4A, QMI_IDL_FLAGS_OFFSET_IS_16 OR QMI_IDL_GENERIC_4_BYTE] @ QMI_IDL_OFFSET16ARRAY off ''gloHealthBadMask'' @
      [QMI_IDL_TLV_FLAGS_OPTIONAL OR (QMI_IDL_OFFSET16RELATIVE off ''bdsHealthBadMask'' - QMI_IDL_OFFSET16RELATIVE off ''bdsHealthBadMask_valid''), 0x4B, QMI_IDL_FLAGS_OFFSET_IS_16 OR QMI_IDL_GENERIC_8_BYTE] @ QMI_IDL_OFFSET16ARRAY off ''bdsHealthBadMask'' @
      [QMI_IDL_TLV_FLAGS_OPTIONAL OR (QMI_IDL_OFFSET16RELATIVE off ''galHealthBadMask'' - QMI_IDL_OFFSET16RELATIVE off ''galHealthBadMask_valid''), 0x4C, QMI_IDL_FLAGS_OFFSET_IS_16 OR QMI_IDL_GENERIC_8_BYTE] @ QMI_IDL_OFFSET16ARRAY off ''galHealthBadMask'' @
      [QMI_IDL_TLV_FLAGS_OPTIONAL OR (QMI_IDL_OFFSET16RELATIVE off ''qzssHealthBadMask'' - QMI_IDL_OFFSET16RELATIVE off ''qzssHealthBadMask_valid''), 0x4D, QMI_IDL_FLAGS_OFFSET_IS_16 OR QMI_IDL_GENERIC_1_BYTE] @ QMI_IDL_OFFSET16ARRAY off ''qzssHealthBadMask'' @
      [QMI_IDL_TLV_FLAGS_OPTIONAL OR (QMI_IDL_OFFSET16RELATIVE off ''navicHealthBadMask'' - QMI_IDL_OFFSET16RELATIVE off ''navicHealthBadMask_valid''), 0x4E, QMI_IDL_FLAGS_OFFSET_IS_16 OR QMI_IDL_GENERIC_4_BYTE] @ QMI_IDL_OFFSET16ARRAY off ''navicHealthBadMask'' @
      [QMI_IDL_TLV_FLAGS_OPTIONAL OR (QMI_IDL_OFFSET16RELATIVE off ''fixInfoTime'' - QMI_IDL_OFFSET16RELATIVE off ''fixInfoTime_valid''), 0x4F, QMI_IDL_FLAGS_OFFSET_IS_16 OR QMI_IDL_AGGREGATE] @ QMI_IDL_OFFSET16ARRAY off ''fixInfoTime'' @ QMI_IDL_TYPE88 0 105 @
      [QMI_IDL_TLV_FLAGS_OPTIONAL OR (QMI_IDL_OFFSET16RELATIVE off ''fixInfoMask'' - QMI_IDL_OFFSET16RELATIVE off ''fixInfoMask_valid''), 0x50, QMI_IDL_FLAGS_OFFSET_IS_16 OR QMI_IDL_GENERIC_4_BYTE] @ QMI_IDL_OFFSET16ARRAY off ''fixInfoMask'' @
      [QMI_IDL_TLV_FLAGS_OPTIONAL OR (QMI_IDL_OFFSET16RELATIVE off ''navDataTime'' - QMI_IDL_OFFSET16RELATIVE off ''navDataTime_valid''), 0x51, QMI_IDL_FLAGS_OFFSET_IS_16 OR QMI_IDL_AGGREGATE] @ QMI_IDL_OFFSET16ARRAY off ''navDataTime'' @ QMI_IDL_TYPE88 0 105 @
      [QMI_IDL_TLV_FLAGS_OPTIONAL OR (QMI_IDL_OFFSET16RELATIVE off ''navData'' - QMI_IDL_OFFSET16RELATIVE off ''navData_valid''), 0x52, QMI_IDL_FLAGS_IS_ARRAY OR QMI_IDL_FLAGS_IS_VARIABLE_LEN OR QMI_IDL_FLAGS_OFFSET_IS_16 OR QMI_IDL_AGGREGATE] @ QMI_IDL_OFFSET16ARRAY off ''navData'' @
      [QMI_LOC_EXPANDED_SV_INFO_LIST_MAX_SIZE_V02, QMI_IDL_OFFSET16RELATIVE off ''navData'' - QMI_IDL_OFFSET16RELATIVE off ''navData_len''] @ QMI_IDL_TYPE88 0 104 @
      [QMI_IDL_TLV_FLAGS_OPTIONAL OR (QMI_IDL_OFFSET16RELATIVE off ''fixStatusTime'' - QMI_IDL_OFFSET16RELATIVE off ''fixStatusTime_valid''), 0x53, QMI_IDL_FLAGS_OFFSET_IS_16 OR QMI_IDL_AGGREGATE] @ QMI_IDL_OFFSET16ARRAY off ''fixStatusTime'' @ QMI_IDL_TYPE88 0 105 @
      [QMI_IDL_TLV_FLAGS_OPTIONAL OR (QMI_IDL_OFFSET16RELATIVE off ''fixStatusMask'' - QMI_IDL_OFFSET16RELATIVE off ''fixStatusMask_valid''), 0x54, QMI_IDL_FLAGS_OFFSET_IS_16 OR QMI_IDL_GENERIC_4_BYTE] @ QMI_IDL_OFFSET16ARRAY off ''fixStatusMask'' @
      [QMI_IDL_TLV_FLAGS_OPTIONAL OR (QMI_IDL_OFFSET16RELATIVE off ''fixHepeLimit'' - QMI_IDL_OFFSET16RELATIVE off ''fixHepeLimit_valid''), 0x55, QMI_IDL_FLAGS_OFFSET_IS_16 OR QMI_IDL_GENERIC_4_BYTE] @ QMI_IDL_OFFSET16ARRAY off ''fixHepeLimit'' @
      [QMI_IDL_TLV_FLAGS_OPTIONAL OR (QMI_IDL_OFFSET16RELATIVE off ''gnssTime'' - QMI_IDL_OFFSET16RELATIVE off ''gnssTime_valid''), 0x56, QMI_IDL_FLAGS_OFFSET_IS_16 OR QMI_IDL_AGGREGATE] @ QMI_IDL_OFFSET16ARRAY off ''gnssTime'' @ QMI_IDL_TYPE88 0 8 @
      [QMI_IDL_TLV_FLAGS_OPTIONAL OR (QMI_IDL_OFFSET16RELATIVE off ''gnssLeapSecond'' - QMI_IDL_OFFSET16RELATIVE off ''gnssLeapSecond_valid''), 0x57, QMI_IDL_FLAGS_OFFSET_IS_16 OR QMI_IDL_GENERIC_1_BYTE] @ QMI_IDL_OFFSET16ARRAY off ''gnssLeapSecond'' @
      [QMI_IDL_TLV_FLAGS_OPTIONAL OR (QMI_IDL_OFFSET16RELATIVE off ''gnssLeapSecondUnc'' - QMI_IDL_OFFSET16RELATIVE off ''gnssLeapSecondUnc_valid''), 0x58, QMI_IDL_FLAGS_OFFSET_IS_16 OR QMI_IDL_GENERIC_1_BYTE] @ QMI_IDL_OFFSET16ARRAY off ''gnssLeapSecondUnc'' @
      [QMI_IDL_TLV_FLAGS_OPTIONAL OR (QMI_IDL_OFFSET16RELATIVE off ''agcStatusL1'' - QMI_IDL_OFFSET16RELATIVE off ''agcStatusL1_valid''), 0x59, QMI_IDL_FLAGS_OFFSET_IS_16 OR QMI_IDL_GENERIC_4_BYTE] @ QMI_IDL_OFFSET16ARRAY off ''agcStatusL1'' @
      [QMI_IDL_TLV_FLAGS_OPTIONAL OR (QMI_IDL_OFFSET16RELATIVE off ''agcStatusL2'' - QMI_IDL_OFFSET16RELATIVE off ''agcStatusL2_valid''), 0x5A, QMI_IDL_FLAGS_OFFSET_IS_16 OR QMI_IDL_GENERIC_4_BYTE] @ QMI_IDL_OFFSET16ARRAY off ''agcStatusL2'' @
      [QMI_IDL_TLV_FLAGS_LAST_TLV OR QMI_IDL_TLV_FLAGS_OPTIONAL OR (QMI_IDL_OFFSET16RELATIVE off ''agcStatusL5'' - QMI_IDL_OFFSET16RELATIVE off ''agcStatusL5_valid''), 0x5B, QMI_IDL_FLAGS_OFFSET_IS_16 OR QMI_IDL_GENERIC_4_BYTE] @ QMI_IDL_OFFSET16ARRAY off ''agcStatusL5''))"

definition qmiLocSetTribandStateReqMsgT_data_v02 :: "int list" where
  "qmiLocSetTribandStateReqMsgT_data_v02 =
    (let off = offsetof qmiLocSetTribandStateReqMsgT_v02 in uint8_array (
      [QMI_IDL_TLV_FLAGS_LAST_TLV OR QMI_IDL_TLV_FLAGS_OPTIONAL OR (QMI_IDL_OFFSET8 off ''activate'' - QMI_IDL_OFFSET8 off ''activate_valid''), 0x10, QMI_IDL_GENERIC_1_BYTE, QMI_IDL_OFFSET8 off ''activate'']))"

definition qmiLocGetTribandStateIndMsgT_data_v02 :: "int list" where
  "qmiLocGetTribandStateIndMsgT_data_v02 =
    (let off = offsetof qmiLocGetTribandStateIndMsgT_v02 in uint8_array (
      [0x01, QMI_IDL_GENERIC_4_BYTE, QMI_IDL_OFFSET8 off ''status'',
       QMI_IDL_TLV_FLAGS_LAST_TLV OR QMI_IDL_TLV_FLAGS_OPTIONAL OR (QMI_IDL_OFFSET8 off ''activate'' - QMI_IDL_OFFSET8 off ''activate_valid''), 0x10, QMI_IDL_GENERIC_1_BYTE, QMI_IDL_OFFSET8 off ''activate'']))"

definition qmiLocSetSdkFeatureConfigReqMsgT_data_v02 :: "int list" where
  "qmiLocSetSdkFeatureConfigReqMsgT_data_v02 =
    (let off = offsetof qmiLocSetSdkFeatureConfigReqMsgT_v02 in uint8_array (
      [QMI_IDL_TLV_FLAGS_OPTIONAL OR (QMI_IDL_OFFSET8 off ''featureConfig'' - QMI_IDL_OFFSET8 off ''featureConfig_valid''), 0x10, QMI_IDL_GENERIC_4_BYTE, QMI_IDL_OFFSET8 off ''featureConfig'',
       QMI_IDL_TLV_FLAGS_OPTIONAL OR (QMI_IDL_OFFSET8 off ''appHash'' - QMI_IDL_OFFSET8 off ''appHash_valid''), 0x11, QMI_IDL_FLAGS_IS_ARRAY OR QMI_IDL_FLAGS_IS_VARIABLE_LEN OR QMI_IDL_GENERIC_1_BYTE, QMI_IDL_OFFSET8 off ''appHash'', QMI_LOC_MAX_APP_HASH_LEN_V02, QMI_IDL_OFFSET8 off ''appHash'' - QMI_IDL_OFFSET8 off ''appHash_len'',
       QMI_IDL_TLV_FLAGS_OPTIONAL OR (QMI_IDL_OFFSET8 off ''featureStatusReport'' - QMI_IDL_OFFSET8 off ''featureStatusReport_valid''), 0x12, QMI_IDL_GENERIC_8_BYTE, QMI_IDL_OFFSET8 off ''featureStatusReport'',
       QMI_IDL_TLV_FLAGS_LAST_TLV OR QMI_IDL_TLV_FLAGS_OPTIONAL OR (QMI_IDL_OFFSET8 off ''licenseBuffer'' - QMI_IDL_OFFSET8 off ''licenseBuffer_valid''), 0x13, QMI_IDL_FLAGS_IS_ARRAY OR QMI_IDL_FLAGS_IS_VARIABLE_LEN OR QMI_IDL_FLAGS_SZ_IS_16 OR QMI_IDL_GENERIC_1_BYTE, QMI_IDL_OFFSET8 off ''licenseBuffer'', 12288 AND 0xFF, drop_bit 8 12288, QMI_IDL_OFFSET8 off ''licenseBuffer'' - QMI_IDL_OFFSET8 off ''licenseBuffer_len'']))"

definition qmiLocSetSdkFeatureConfigIndMsgT_data_v02 :: "int list" where
  "qmiLocSetSdkFeatureConfigIndMsgT_data_v02 =
    (let off = offsetof qmiLocSetSdkFeatureConfigIndMsgT_v02 in uint8_array (
      [0x01, QMI_IDL_GENERIC_4_BYTE, QMI_IDL_OFFSET8 off ''status'',
       QMI_IDL_TLV_FLAGS_LAST_TLV OR QMI_IDL_TLV_FLAGS_OPTIONAL OR (QMI_IDL_OFFSET8 off ''featureStatusReport'' - QMI_IDL_OFFSET8 off ''featureStatusReport_valid''), 0x10, QMI_IDL_GENERIC_8_BYTE, QMI_IDL_OFFSET8 off ''featureStatusReport'']))"

definition qmiLocGnssBandsSupportedIndMsgT_data_v02 :: "int list" where
  "qmiLocGnssBandsSupportedIndMsgT_data_v02 =
    (let off = offsetof qmiLocGnssBandsSupportedIndMsgT_v02 in uint8_array (
      [QMI_IDL_TLV_FLAGS_OPTIONAL OR (QMI_IDL_OFFSET8 off ''primaryGnssSignalType'' - QMI_IDL_OFFSET8 off ''primaryGnssSignalType_valid''), 0x10, QMI_IDL_GENERIC_8_BYTE, QMI_IDL_OFFSET8 off ''primaryGnssSignalType'',
       QMI_IDL_TLV_FLAGS_LAST_TLV OR QMI_IDL_TLV_FLAGS_OPTIONAL OR (QMI_IDL_OFFSET8 off ''gnssSupportedSignals'' - QMI_IDL_OFFSET8 off ''gnssSupportedSignals_valid''), 0x11, QMI_IDL_GENERIC_8_BYTE, QMI_IDL_OFFSET8 off ''gnssSupportedSignals'']))"

definition qmiLocOsnmaPublicKeyMerkleTreeReqMsgT_data_v02 :: "int list" where
  "qmiLocOsnmaPublicKeyMerkleTreeReqMsgT_data_v02 =
    (let off = offsetof qmiLocOsnmaPublicKeyMerkleTreeReqMsgT_v02 in uint8_array (
      [QMI_IDL_TLV_FLAGS_OPTIONAL OR (QMI_IDL_OFFSET8 off ''publicKeyType'' - QMI_IDL_OFFSET8 off ''publicKeyType_valid''), 0x10, QMI_IDL_GENERIC_4_BYTE, QMI_IDL_OFFSET8 off ''publicKeyType'',
       QMI_IDL_TLV_FLAGS_OPTIONAL OR (QMI_IDL_OFFSET8 off ''publicKeyId'' - QMI_IDL_OFFSET8 off ''publicKeyId_valid''), 0x11, QMI_IDL_GENERIC_1_BYTE, QMI_IDL_OFFSET8 off ''publicKeyId'',
       QMI_IDL_TLV_FLAGS_OPTIONAL OR (QMI_IDL_OFFSET8 off ''publicKey'' - QMI_IDL_OFFSET8 off ''publicKey_valid''), 0x12, QMI_IDL_FLAGS_IS_ARRAY OR QMI_IDL_FLAGS_IS_VARIABLE_LEN OR QMI_IDL_GENERIC_1_BYTE, QMI_IDL_OFFSET8 off ''publicKey'', QMI_LOC_MERKLE_TREE_KEY_LENGTH_V02, QMI_IDL_OFFSET8 off ''publicKey'' - QMI_IDL_OFFSET8 off ''publicKey_len'',
       QMI_IDL_TLV_FLAGS_OPTIONAL OR (QMI_IDL_OFFSET8 off ''hashFunctionType'' - QMI_IDL_OFFSET8 off ''hashFunctionType_valid''), 0x13, QMI_IDL_GENERIC_4_BYTE, QMI_IDL_OFFSET8 off ''hashFunctionType'',
       QMI_IDL_TLV_FLAGS_OPTIONAL OR (QMI_IDL_OFFSET8 off ''intermediateNodes'' - QMI_IDL_OFFSET8 off ''intermediateNodes_valid''), 0x14, QMI_IDL_FLAGS_IS_ARRAY OR QMI_IDL_AGGREGATE, QMI_IDL_OFFSET8 off ''intermediateNodes'', QMI_LOC_MERKLE_TREE_NODE_ARRAY_LENGTH_V02] @ QMI_IDL_TYPE88 0 106 @
      [QMI_IDL_TLV_FLAGS_LAST_TLV OR QMI_IDL_TLV_FLAGS_OPTIONAL OR (QMI_IDL_OFFSET16RELATIVE off ''rootNode'' - QMI_IDL_OFFSET16RELATIVE off ''rootNode_valid''), 0x15, QMI_IDL_FLAGS_OFFSET_IS_16 OR QMI_IDL_AGGREGATE] @ QMI_IDL_OFFSET16ARRAY off ''rootNode'' @ QMI_IDL_TYPE88 0 106))"

definition qmiLocSetOsnmaStateReqMsgT_data_v02 :: "int list" where
  "qmiLocSetOsnmaStateReqMsgT_data_v02 =
    (let off = offsetof qmiLocSetOsnmaStateReqMsgT_v02 in uint8_array (
      [QMI_IDL_TLV_FLAGS_LAST_TLV OR 0x01, QMI_IDL_GENERIC_1_BYTE, QMI_IDL_OFFSET8 off ''enable'']))"

definition qmiLocSetNtnStatusReqMsgT_data_v02 :: "int list" where
  "qmiLocSetNtnStatusReqMsgT_data_v02 =
    (let off = offsetof qmiLocSetNtnStatusReqMsgT_v02 in uint8_array (
      [QMI_IDL_TLV_FLAGS_LAST_TLV OR 0x01, QMI_IDL_GENERIC_8_BYTE, QMI_IDL_OFFSET8 off ''signalType'']))"

definition qmiLocSetNtnStatusIndMsgT_data_v02 :: "int list" where
  "qmiLocSetNtnStatusIndMsgT_data_v02 =
    (let off = offsetof qmiLocSetNtnStatusIndMsgT_v02 in uint8_array (
      [0x01, QMI_IDL_GENERIC_4_BYTE, QMI_IDL_OFFSET8 off ''status'',
       QMI_IDL_TLV_FLAGS_LAST_TLV OR 0x02, QMI_IDL_GENERIC_8_BYTE, QMI_IDL_OFFSET8 off ''signalType'']))"

definition qmiLocGetNtnStatusIndMsgT_data_v02 :: "int list" where
  "qmiLocGetNtnStatusIndMsgT_data_v02 =
    (let off = offsetof qmiLocGetNtnStatusIndMsgT_v02 in uint8_array (
      [0x01, QMI_IDL_GENERIC_4_BYTE, QMI_IDL_OFFSET8 off ''status'',
       QMI_IDL_TLV_FLAGS_LAST_TLV OR 0x02, QMI_IDL_GENERIC_8_BYTE, QMI_IDL_OFFSET8 off ''signalType'']))"

definition qmiLocNtnConfigUpdateIndMsgT_data_v02 :: "int list" where
  "qmiLocNtnConfigUpdateIndMsgT_data_v02 =
    (let off = offsetof qmiLocNtnConfigUpdateIndMsgT_v02 in uint8_array (
      [QMI_IDL_TLV_FLAGS_LAST_TLV OR 0x01, QMI_IDL_GENERIC_8_BYTE, QMI_IDL_OFFSET8 off ''signalType'']))"

definition qmiLocEventDbhPositionIndMsgT_data_v02 :: "int list" where
  "qmiLocEventDbhPositionIndMsgT_data_v02 =
    (let off = offsetof qmiLocEventDbhPositionIndMsgT_v02 in uint8_array (
      [QMI_IDL_TLV_FLAGS_OPTIONAL OR (QMI_IDL_OFFSET8 off ''latitude'' - QMI_IDL_OFFSET8 off ''latitude_valid''), 0x10, QMI_IDL_GENERIC_8_BYTE, QMI_IDL_OFFSET8 off ''latitude'',
       QMI_IDL_TLV_FLAGS_OPTIONAL OR (QMI_IDL_OFFSET8 off ''longitude'' - QMI_IDL_OFFSET8 off ''longitude_valid''), 0x11, QMI_IDL_GENERIC_8_BYTE, QMI_IDL_OFFSET8 off ''longitude'',
       QMI_IDL_TLV_FLAGS_OPTIONAL OR (QMI_IDL_OFFSET8 off ''horUncCircular'' - QMI_IDL_OFFSET8 off ''horUncCircular_valid''), 0x12, QMI_IDL_GENERIC_4_BYTE, QMI_IDL_OFFSET8 off ''horUncCircular'',
       QMI_IDL_TLV_FLAGS_OPTIONAL OR (QMI_IDL_OFFSET8 off ''horConfidence'' - QMI_IDL_OFFSET8 off ''horConfidence_valid''), 0x13, QMI_IDL_GENERIC_1_BYTE, QMI_IDL_OFFSET8 off ''horConfidence'',
       QMI_IDL_TLV_FLAGS_OPTIONAL OR (QMI_IDL_OFFSET8 off ''horReliability'' - QMI_IDL_OFFSET8 off ''horReliability_valid''), 0x14, QMI_IDL_GENERIC_4_BYTE, QMI_IDL_OFFSET8 off ''horReliability'',
       QMI_IDL_TLV_FLAGS_OPTIONAL OR (QMI_IDL_OFFSET8 off ''altitudeWrtEllipsoid'' - QMI_IDL_OFFSET8 off ''altitudeWrtEllipsoid_valid''), 0x15, QMI_IDL_GENERIC_4_BYTE, QMI_IDL_OFFSET8 off ''altitudeWrtEllipsoid'',
       QMI_IDL_TLV_FLAGS_OPTIONAL OR (QMI_IDL_OFFSET8 off ''altitudeWrtMeanSeaLevel'' - QMI_IDL_OFFSET8 off ''altitudeWrtMeanSeaLevel_valid''), 0x16, QMI_IDL_GENERIC_4_BYTE, QMI_IDL_OFFSET8 off ''altitudeWrtMeanSeaLevel'',
       QMI_IDL_TLV_FLAGS_OPTIONAL OR (QMI_IDL_OFFSET8 off ''vertUnc'' - QMI_IDL_OFFSET8 off ''vertUnc_valid''), 0x17, QMI_IDL_GENERIC_4_BYTE, QMI_IDL_OFFSET8 off ''vertUnc'',
       QMI_IDL_TLV_FLAGS_OPTIONAL OR (QMI_IDL_OFFSET8 off ''vertConfidence'' - QMI_IDL_OFFSET8 off ''vertConfidence_valid''), 0x18, QMI_IDL_GENERIC_1_BYTE, QMI_IDL_OFFSET8 off ''vertConfidence'',
       QMI_IDL_TLV_FLAGS_OPTIONAL OR (QMI_IDL_OFFSET8 off ''vertReliability'' - QMI_IDL_OFFSET8 off ''vertReliability_valid''), 0x19, QMI_IDL_GENERIC_4_BYTE, QMI_IDL_OFFSET8 off ''vertReliability'',
       QMI_IDL_TLV_FLAGS_OPTIONAL OR (QMI_IDL_OFFSET8 off ''altSourceInfo'' - QMI_IDL_OFFSET8 off ''altSourceInfo_valid''), 0x1A, QMI_IDL_AGGREGATE, QMI_IDL_OFFSET8 off ''altSourceInfo''] @ QMI_IDL_TYPE88 0 33 @
      [QMI_IDL_TLV_FLAGS_OPTIONAL OR (QMI_IDL_OFFSET8 off ''timestampUtc'' - QMI_IDL_OFFSET8 off ''timestampUtc_valid''), 0x1B, QMI_IDL_GENERIC_8_BYTE, QMI_IDL_OFFSET8 off ''timestampUtc'',
       QMI_IDL_TLV_FLAGS_OPTIONAL OR (QMI_IDL_OFFSET8 off ''timestampAge'' - QMI_IDL_OFFSET8 off ''timestampAge_valid''), 0x1C, QMI_IDL_GENERIC_4_BYTE, QMI_IDL_OFFSET8 off ''timestampAge'',
       QMI_IDL_TLV_FLAGS_OPTIONAL OR (QMI_IDL_OFFSET8 off ''positionSrc'' - QMI_IDL_OFFSET8 off ''positionSrc_valid''), 0x1D, QMI_IDL_GENERIC_4_BYTE, QMI_IDL_OFFSET8 off ''positionSrc'',
       QMI_IDL_TLV_FLAGS_OPTIONAL OR (QMI_IDL_OFFSET8 off ''rawHorUncCircular'' - QMI_IDL_OFFSET8 off ''rawHorUncCircular_valid''), 0x1E, QMI_IDL_GENERIC_4_BYTE, QMI_IDL_OFFSET8 off ''rawHorUncCircular'',
       QMI_IDL_TLV_FLAGS_OPTIONAL OR (QMI_IDL_OFFSET8 off ''rawHorConfidence'' - QMI_IDL_OFFSET8 off ''rawHorConfidence_valid''), 0x1F, QMI_IDL_GENERIC_1_BYTE, QMI_IDL_OFFSET8 off ''rawHorConfidence'',
       QMI_IDL_TLV_FLAGS_OPTIONAL OR (QMI_IDL_OFFSET8 off ''onDemandCpi'' - QMI_IDL_OFFSET8 off ''onDemandCpi_valid''), 0x20, QMI_IDL_GENERIC_1_BYTE, QMI_IDL_OFFSET8 off ''onDemandCpi'',
       QMI_IDL_TLV_FLAGS_OPTIONAL OR (QMI_IDL_OFFSET8 off ''positionSrcProvider'' - QMI_IDL_OFFSET8 off ''positionSrcProvider_valid''), 0x21, QMI_IDL_GENERIC_4_BYTE, QMI_IDL_OFFSET8 off ''positionSrcProvider'',
       QMI_IDL_TLV_FLAGS_OPTIONAL OR (QMI_IDL_OFFSET8 off ''gpsTime'' - QMI_IDL_OFFSET8 off ''gpsTime_valid''), 0x22, QMI_IDL_AGGREGATE, QMI_IDL_OFFSET8 off ''gpsTime''] @ QMI_IDL_TYPE88 0 2 @
      [QMI_IDL_TLV_FLAGS_OPTIONAL OR (QMI_IDL_OFFSET8 off ''timeUnc'' - QMI_IDL_OFFSET8 off ''timeUnc_valid''), 0x23, QMI_IDL_GENERIC_4_BYTE, QMI_IDL_OFFSET8 off ''timeUnc'',
       QMI_IDL_TLV_FLAGS_OPTIONAL OR (QMI_IDL_OFFSET8 off ''velEnu'' - QMI_IDL_OFFSET8 off ''velEnu_valid''), 0x24, QMI_IDL_FLAGS_IS_ARRAY OR QMI_IDL_GENERIC_4_BYTE, QMI_IDL_OFFSET8 off ''velEnu'', QMI_LOC_ENU_ARRAY_LENGTH_V02,
       QMI_IDL_TLV_FLAGS_OPTIONAL OR (QMI_IDL_OFFSET8 off ''velUncEnu'' - QMI_IDL_OFFSET8 off ''velUncEnu_valid''), 0x25, QMI_IDL_FLAGS_IS_ARRAY OR QMI_IDL_GENERIC_4_BYTE, QMI_IDL_OFFSET8 off ''velUncEnu'', QMI_LOC_ENU_ARRAY_LENGTH_V02,
       QMI_IDL_TLV_FLAGS_OPTIONAL OR (QMI_IDL_OFFSET8 off ''expandedGnssSvUsedList'' - QMI_IDL_OFFSET8 off ''expandedGnssSvUsedList_valid''), 0x26, QMI_IDL_FLAGS_IS_ARRAY OR QMI_IDL_FLAGS_IS_VARIABLE_LEN OR QMI_IDL_GENERIC_2_BYTE, QMI_IDL_OFFSET8 off ''expandedGnssSvUsedList'', QMI_LOC_EXPANDED_SV_INFO_LIST_MAX_SIZE_V02, QMI_IDL_OFFSET8 off ''expandedGnssSvUsedList'' - QMI_IDL_OFFSET8 off ''expandedGnssSvUsedList_len'',
       QMI_IDL_TLV_FLAGS_LAST_TLV OR QMI_IDL_TLV_FLAGS_OPTIONAL OR (QMI_IDL_OFFSET16RELATIVE off ''numSvInFix'' - QMI_IDL_OFFSET16RELATIVE off ''numSvInFix_valid''), 0x27, QMI_IDL_FLAGS_OFFSET_IS_16 OR QMI_IDL_GENERIC_1_BYTE] @ QMI_IDL_OFFSET16ARRAY off ''numSvInFix''))"

definition qmiLocSetPreciseSessionConfigReqMsgT_data_v02 :: "int list" where
  "qmiLocSetPreciseSessionConfigReqMsgT_data_v02 =
    (let off = offsetof qmiLocSetPreciseSessionConfigReqMsgT_v02 in uint8_array (
      [QMI_IDL_TLV_FLAGS_OPTIONAL OR (QMI_IDL_OFFSET8 off ''sessionCmd'' - QMI_IDL_OFFSET8 off ''sessionCmd_valid''), 0x10, QMI_IDL_GENERIC_4_BYTE, QMI_IDL_OFFSET8 off ''sessionCmd'',
       QMI_IDL_TLV_FLAGS_LAST_TLV OR QMI_IDL_TLV_FLAGS_OPTIONAL OR (QMI_IDL_OFFSET8 off ''sessionType'' - QMI_IDL_OFFSET8 off ''sessionType_valid''), 0x11, QMI_IDL_GENERIC_4_BYTE, QMI_IDL_OFFSET8 off ''sessionType'']))"

definition loc_message_table_v02_9 :: "qmi_idl_message_table_entry list" where
  "loc_message_table_v02_9 = [
    (qmiLocGetMinGpsWeekNumberIndMsgT_v02, Some qmiLocGetMinGpsWeekNumberIndMsgT_data_v02),
    (qmiLocSapInsParamsIndMsgT_v02, Some qmiLocSapInsParamsIndMsgT_data_v02),
    (qmiLocEventQueryXtraInfoReqIndMsgT_v02, Some qmiLocEventQueryXtraInfoReqIndMsgT_data_v02),
    (qmiLocSetParameterReqMsgT_v02, Some qmiLocSetParameterReqMsgT_data_v02),
    (qmiLocGetParameterReqMsgT_v02, Some qmiLocGetParameterReqMsgT_data_v02),
    (qmiLocGetParameterIndMsgT_v02, Some qmiLocGetParameterIndMsgT_data_v02),
    (qmiLocSetStatisticsConfigReqMsgT_v02, Some qmiLocSetStatisticsConfigReqMsgT_data_v02),
    (qmiLocGetStatisticsConfigIndMsgT_v02, Some qmiLocGetStatisticsConfigIndMsgT_data_v02),
    (qmiLocGnssStatisticsReportIndMsgT_v02, Some qmiLocGnssStatisticsReportIndMsgT_data_v02),
    (qmiLocSetGnssPdrModeReqMsgT_v02, Some qmiLocSetGnssPdrModeReqMsgT_data_v02),
    (qmiLocGetGnssPdrModeIndMsgT_v02, Some qmiLocGetGnssPdrModeIndMsgT_data_v02),
    (qmiLocGetMagCalStatePdrIndMsgT_v02, Some qmiLocGetMagCalStatePdrIndMsgT_data_v02),
    (qmiLocSetMultibandConfigReqMsgT_v02, Some qmiLocSetMultibandConfigReqMsgT_data_v02),
    (qmiLocGetMultibandConfigIndMsgT_v02, Some qmiLocGetMultibandConfigIndMsgT_data_v02),
    (qmiLocLatencyInformationIndMsgT_v02, Some qmiLocLatencyInformationIndMsgT_data_v02),
    (qmiLocInjectLocationCivicAddressReqMsgT_v02, Some qmiLocInjectLocationCivicAddressReqMsgT_data_v02),
    (qmiLocPlatformPowerStateChangedIndMsgT_v02, Some qmiLocPlatformPowerStateChangedIndMsgT_data_v02),
    (qmiLocInjectRawDataReqMsgT_v02, Some qmiLocInjectRawDataReqMsgT_data_v02),
    (qmiLocInjectRawDataIndMsgT_v02, Some qmiLocInjectRawDataIndMsgT_data_v02),
    (qmiLocEngineDebugDataIndMsgT_v02, Some qmiLocEngineDebugDataIndMsgT_data_v02),
    (qmiLocSetTribandStateReqMsgT_v02, Some qmiLocSetTribandStateReqMsgT_data_v02),
    (qmiLocGetTribandStateIndMsgT_v02, Some qmiLocGetTribandStateIndMsgT_data_v02),
    (qmiLocSetSdkFeatureConfigReqMsgT_v02, Some qmiLocSetSdkFeatureConfigReqMsgT_data_v02),
    (qmiLocSetSdkFeatureConfigIndMsgT_v02, Some qmiLocSetSdkFeatureConfigIndMsgT_data_v02),
    (qmiLocGnssBandsSupportedIndMsgT_v02, Some qmiLocGnssBandsSupportedIndMsgT_data_v02),
    (qmiLocOsnmaPublicKeyMerkleTreeReqMsgT_v02, Some qmiLocOsnmaPublicKeyMerkleTreeReqMsgT_data_v02),
    (qmiLocSetOsnmaStateReqMsgT_v02, Some qmiLocSetOsnmaStateReqMsgT_data_v02),
    (qmiLocSetNtnStatusReqMsgT_v02, Some qmiLocSetNtnStatusReqMsgT_data_v02),
    (qmiLocSetNtnStatusIndMsgT_v02, Some qmiLocSetNtnStatusIndMsgT_data_v02),
    (qmiLocGetNtnStatusIndMsgT_v02, Some qmiLocGetNtnStatusIndMsgT_data_v02),
    (qmiLocNtnConfigUpdateIndMsgT_v02, Some qmiLocNtnConfigUpdateIndMsgT_data_v02),
    (qmiLocEventDbhPositionIndMsgT_v02, Some qmiLocEventDbhPositionIndMsgT_data_v02),
    (qmiLocSetPreciseSessionConfigReqMsgT_v02, Some qmiLocSetPreciseSessionConfigReqMsgT_data_v02)]"


end
