(* ===== verification/LocService.thy ===== *)
theory LocService
  imports LocMessages1 LocMessages2 LocMessages3 LocMessages4
begin

text \<open>
  The whole message table, the tables that map the identifiers of commands, responses and
  indications to its rows, and the service object of
  \<open>loc_api/loc_api_v02/location_service_v02.c\<close>.
\<close>

definition loc_message_table_v02 :: "qmi_idl_message_table_entry list" where
  "loc_message_table_v02 = concat [
    loc_message_table_v02_0,
    loc_message_table_v02_1,
    loc_message_table_v02_2,
    loc_message_table_v02_3,
    loc_message_table_v02_4,
    loc_message_table_v02_5,
    loc_message_table_v02_6,
    loc_message_table_v02_7,
    loc_message_table_v02_8,
    loc_message_table_v02_9]"

definition loc_service_command_messages_v02_0 :: "qmi_idl_service_message_table_entry list" where
  "loc_service_command_messages_v02_0 = [
    service_entry QMI_LOC_GET_SUPPORTED_MSGS_REQ_V02 (QMI_IDL_TYPE16 1 0) 0,
    service_entry QMI_LOC_GET_SUPPORTED_FIELDS_REQ_V02 (QMI_IDL_TYPE16 1 2) 5,
    service_entry QMI_LOC_INFORM_CLIENT_REVISION_REQ_V02 (QMI_IDL_TYPE16 0 3) 7,
    service_entry QMI_LOC_REG_EVENTS_REQ_V02 (QMI_IDL_TYPE16 0 4) 29,
    service_entry QMI_LOC_START_REQ_V02 (QMI_IDL_TYPE16 0 5) 150,
    service_entry QMI_LOC_STOP_REQ_V02 (QMI_IDL_TYPE16 0 6) 4,
    service_entry QMI_LOC_GET_SERVICE_REVISION_REQ_V02 (QMI_IDL_TYPE16 0 34) 0,
    service_entry QMI_LOC_GET_FIX_CRITERIA_REQ_V02 (QMI_IDL_TYPE16 0 36) 0,
    service_entry QMI_LOC_NI_USER_RESPONSE_REQ_V02 (QMI_IDL_TYPE16 0 38) 1345,
    service_entry QMI_LOC_INJECT_PREDICTED_ORBITS_DATA_REQ_V02 (QMI_IDL_TYPE16 0 40) 1053,
    service_entry QMI_LOC_GET_PREDICTED_ORBITS_DATA_SOURCE_REQ_V02 (QMI_IDL_TYPE16 0 42) 0,
    service_entry QMI_LOC_GET_PREDICTED_ORBITS_DATA_VALIDITY_REQ_V02 (QMI_IDL_TYPE16 0 44) 0,
    service_entry QMI_LOC_INJECT_UTC_TIME_REQ_V02 (QMI_IDL_TYPE16 0 46) 25,
    service_entry QMI_LOC_INJECT_POSITION_REQ_V02 (QMI_IDL_TYPE16 0 48) 540,
    service_entry QMI_LOC_SET_ENGINE_LOCK_REQ_V02 (QMI_IDL_TYPE16 0 50) 36,
    service_entry QMI_LOC_GET_ENGINE_LOCK_REQ_V02 (QMI_IDL_TYPE16 0 52) 7,
    service_entry QMI_LOC_SET_SBAS_CONFIG_REQ_V02 (QMI_IDL_TYPE16 0 54) 8,
    service_entry QMI_LOC_GET_SBAS_CONFIG_REQ_V02 (QMI_IDL_TYPE16 0 56) 0,
    service_entry QMI_LOC_SET_NMEA_TYPES_REQ_V02 (QMI_IDL_TYPE16 0 58) 7,
    service_entry QMI_LOC_GET_NMEA_TYPES_REQ_V02 (QMI_IDL_TYPE16 0 60) 0,
    service_entry QMI_LOC_SET_LOW_POWER_MODE_REQ_V02 (QMI_IDL_TYPE16 0 62) 4,
    service_entry QMI_LOC_GET_LOW_POWER_MODE_REQ_V02 (QMI_IDL_TYPE16 0 64) 0,
    service_entry QMI_LOC_SET_SERVER_REQ_V02 (QMI_IDL_TYPE16 0 66) 297,
    service_entry QMI_LOC_GET_SERVER_REQ_V02 (QMI_IDL_TYPE16 0 68) 11,
    service_entry QMI_LOC_DELETE_ASSIST_DATA_REQ_V02 (QMI_IDL_TYPE16 0 70) 1160,
    service_entry QMI_LOC_SET_XTRA_T_SESSION_CONTROL_REQ_V02 (QMI_IDL_TYPE16 0 72) 4,
    service_entry QMI_LOC_GET_XTRA_T_SESSION_CONTROL_REQ_V02 (QMI_IDL_TYPE16 0 74) 0,
    service_entry QMI_LOC_INJECT_WIFI_POSITION_REQ_V02 (QMI_IDL_TYPE16 0 76) 2353,
    service_entry QMI_LOC_NOTIFY_WIFI_STATUS_REQ_V02 (QMI_IDL_TYPE16 0 78) 7,
    service_entry QMI_LOC_GET_REGISTERED_EVENTS_REQ_V02 (QMI_IDL_TYPE16 0 80) 0,
    service_entry QMI_LOC_SET_OPERATION_MODE_REQ_V02 (QMI_IDL_TYPE16 0 82) 14,
    service_entry QMI_LOC_GET_OPERATION_MODE_REQ_V02 (QMI_IDL_TYPE16 0 84) 0,
    service_entry QMI_LOC_SET_SPI_STATUS_REQ_V02 (QMI_IDL_TYPE16 0 86) 8,
    service_entry QMI_LOC_INJECT_SENSOR_DATA_REQ_V02 (QMI_IDL_TYPE16 0 88) 2779,
    service_entry QMI_LOC_INJECT_TIME_SYNC_DATA_REQ_V02 (QMI_IDL_TYPE16 0 90) 21,
    service_entry QMI_LOC_SET_CRADLE_MOUNT_CONFIG_REQ_V02 (QMI_IDL_TYPE16 0 94) 11,
    service_entry QMI_LOC_GET_CRADLE_MOUNT_CONFIG_REQ_V02 (QMI_IDL_TYPE16 0 92) 0,
    service_entry QMI_LOC_SET_EXTERNAL_POWER_CONFIG_REQ_V02 (QMI_IDL_TYPE16 0 98) 14,
    service_entry QMI_LOC_GET_EXTERNAL_POWER_CONFIG_REQ_V02 (QMI_IDL_TYPE16 0 96) 0,
    service_entry QMI_LOC_INFORM_LOCATION_SERVER_CONN_STATUS_REQ_V02 (QMI_IDL_TYPE16 0 100) 140,
    service_entry QMI_LOC_SET_PROTOCOL_CONFIG_PARAMETERS_REQ_V02 (QMI_IDL_TYPE16 0 102) 86,
    service_entry QMI_LOC_GET_PROTOCOL_CONFIG_PARAMETERS_REQ_V02 (QMI_IDL_TYPE16 0 104) 11,
    service_entry QMI_LOC_SET_SENSOR_CONTROL_CONFIG_REQ_V02 (QMI_IDL_TYPE16 0 106) 14,
    service_entry QMI_LOC_GET_SENSOR_CONTROL_CONFIG_REQ_V02 (QMI_IDL_TYPE16 0 108) 0,
    service_entry QMI_LOC_SET_SENSOR_PROPERTIES_REQ_V02 (QMI_IDL_TYPE16 0 110) 88,
    service_entry QMI_LOC_GET_SENSOR_PROPERTIES_REQ_V02 (QMI_IDL_TYPE16 0 112) 7,
    service_entry QMI_LOC_SET_SENSOR_PERFORMANCE_CONTROL_CONFIGURATION_REQ_V02 (QMI_IDL_TYPE16 0 114) 42,
    service_entry QMI_LOC_GET_SENSOR_PERFORMANCE_CONTROL_CONFIGURATION_REQ_V02 (QMI_IDL_TYPE16 0 116) 0,
    service_entry QMI_LOC_INJECT_SUPL_CERTIFICATE_REQ_V02 (QMI_IDL_TYPE16 0 118) 2009,
    service_entry QMI_LOC_DELETE_SUPL_CERTIFICATE_REQ_V02 (QMI_IDL_TYPE16 0 120) 4,
    service_entry QMI_LOC_SET_POSITION_ENGINE_CONFIG_PARAMETERS_REQ_V02 (QMI_IDL_TYPE16 0 122) 16,
    service_entry QMI_LOC_GET_POSITION_ENGINE_CONFIG_PARAMETERS_REQ_V02 (QMI_IDL_TYPE16 0 124) 7,
    service_entry QMI_LOC_ADD_CIRCULAR_GEOFENCE_REQ_V02 (QMI_IDL_TYPE16 0 126) 70,
    service_entry QMI_LOC_DELETE_GEOFENCE_REQ_V02 (QMI_IDL_TYPE16 0 128) 14,
    service_entry QMI_LOC_QUERY_GEOFENCE_REQ_V02 (QMI_IDL_TYPE16 0 130) 14,
    service_entry QMI_LOC_EDIT_GEOFENCE_REQ_V02 (QMI_IDL_TYPE16 0 136) 32,
    service_entry QMI_LOC_GET_BEST_AVAILABLE_POSITION_REQ_V02 (QMI_IDL_TYPE16 0 141) 14,
    service_entry QMI_LOC_INJECT_MOTION_DATA_REQ_V02 (QMI_IDL_TYPE16 0 143) 19,
    service_entry QMI_LOC_GET_NI_GEOFENCE_ID_LIST_REQ_V02 (QMI_IDL_TYPE16 0 145) 7,
    service_entry QMI_LOC_INJECT_GSM_CELL_INFO_REQ_V02 (QMI_IDL_TYPE16 0 147) 30,
    service_entry QMI_LOC_INJECT_NETWORK_INITIATED_MESSAGE_REQ_V02 (QMI_IDL_TYPE16 0 155) 1043,
    service_entry QMI_LOC_WWAN_OUT_OF_SERVICE_NOTIFICATION_REQ_V02 (QMI_IDL_TYPE16 0 157) 0,
    service_entry QMI_LOC_PEDOMETER_REPORT_REQ_V02 (QMI_IDL_TYPE16 0 159) 46,
    service_entry QMI_LOC_INJECT_WCDMA_CELL_INFO_REQ_V02 (QMI_IDL_TYPE16 0 149) 36,
    service_entry QMI_LOC_INJECT_TDSCDMA_CELL_INFO_REQ_V02 (QMI_IDL_TYPE16 0 151) 33,
    service_entry QMI_LOC_INJECT_SUBSCRIBER_ID_REQ_V02 (QMI_IDL_TYPE16 0 153) 22,
    service_entry QMI_LOC_SET_GEOFENCE_ENGINE_CONFIG_REQ_V02 (QMI_IDL_TYPE16 0 132) 224,
    service_entry QMI_LOC_GET_GEOFENCE_ENGINE_CONFIG_REQ_V02 (QMI_IDL_TYPE16 0 134) 7,
    service_entry QMI_LOC_GET_BATCH_SIZE_REQ_V02 (QMI_IDL_TYPE16 0 161) 21,
    service_entry QMI_LOC_START_BATCHING_REQ_V02 (QMI_IDL_TYPE16 0 163) 39,
    service_entry QMI_LOC_READ_FROM_BATCH_REQ_V02 (QMI_IDL_TYPE16 0 167) 21,
    service_entry QMI_LOC_STOP_BATCHING_REQ_V02 (QMI_IDL_TYPE16 0 169) 21,
    service_entry QMI_LOC_RELEASE_BATCH_REQ_V02 (QMI_IDL_TYPE16 0 171) 14,
    service_entry QMI_LOC_INJECT_WIFI_AP_DATA_REQ_V02 (QMI_IDL_TYPE16 0 174) 5200,
    service_entry QMI_LOC_NOTIFY_WIFI_ATTACHMENT_STATUS_REQ_V02 (QMI_IDL_TYPE16 0 176) 51,
    service_entry QMI_LOC_NOTIFY_WIFI_ENABLED_STATUS_REQ_V02 (QMI_IDL_TYPE16 0 178) 7]"

definition loc_service_command_messages_v02_1 :: "qmi_idl_service_message_table_entry list" where
  "loc_service_command_messages_v02_1 = [
    service_entry QMI_LOC_INJECT_VEHICLE_SENSOR_DATA_REQ_V02 (QMI_IDL_TYPE16 0 181) 3360,
    service_entry QMI_LOC_GET_AVAILABLE_WWAN_POSITION_REQ_V02 (QMI_IDL_TYPE16 0 183) 7,
    service_entry QMI_LOC_SET_PREMIUM_SERVICES_CONFIG_REQ_V02 (QMI_IDL_TYPE16 0 185) 14,
    service_entry QMI_LOC_SET_XTRA_VERSION_CHECK_REQ_V02 (QMI_IDL_TYPE16 0 187) 7,
    service_entry QMI_LOC_SET_GNSS_CONSTELL_REPORT_CONFIG_V02 (QMI_IDL_TYPE16 0 189) 34,
    service_entry QMI_LOC_ADD_GEOFENCE_CONTEXT_REQ_V02 (QMI_IDL_TYPE16 0 193) 2517,
    service_entry QMI_LOC_SET_GEOFENCE_ENGINE_CONTEXT_REQ_V02 (QMI_IDL_TYPE16 0 195) 25,
    service_entry QMI_LOC_DELETE_GEOFENCE_CONTEXT_REQ_V02 (QMI_IDL_TYPE16 0 197) 21,
    service_entry QMI_LOC_INJECT_GTP_CLIENT_DOWNLOADED_DATA_REQ_V02 (QMI_IDL_TYPE16 0 199) 517,
    service_entry QMI_LOC_GDT_UPLOAD_BEGIN_STATUS_REQ_V02 (QMI_IDL_TYPE16 0 201) 21,
    service_entry QMI_LOC_GDT_UPLOAD_END_REQ_V02 (QMI_IDL_TYPE16 0 203) 21,
    service_entry QMI_LOC_START_DBT_REQ_V02 (QMI_IDL_TYPE16 0 215) 36,
    service_entry QMI_LOC_STOP_DBT_REQ_V02 (QMI_IDL_TYPE16 0 217) 4,
    service_entry QMI_LOC_SECURE_GET_AVAILABLE_POSITION_REQ_V02 (QMI_IDL_TYPE16 0 221) 268,
    service_entry QMI_LOC_INJECT_TIME_ZONE_INFO_REQ_V02 (QMI_IDL_TYPE16 0 139) 30,
    service_entry QMI_LOC_INJECT_APCACHE_DATA_REQ_V02 (QMI_IDL_TYPE16 0 223) 2180,
    service_entry QMI_LOC_INJECT_APDONOTCACHE_DATA_REQ_V02 (QMI_IDL_TYPE16 0 225) 656,
    service_entry QMI_LOC_QUERY_AON_CONFIG_REQ_V02 (QMI_IDL_TYPE16 0 228) 7,
    service_entry QMI_LOC_GTP_AP_STATUS_REQ_V02 (QMI_IDL_TYPE16 0 205) 540,
    service_entry QMI_LOC_GDT_DOWNLOAD_BEGIN_STATUS_REQ_V02 (QMI_IDL_TYPE16 0 207) 294,
    service_entry QMI_LOC_GDT_DOWNLOAD_READY_STATUS_REQ_V02 (QMI_IDL_TYPE16 0 209) 280,
    service_entry QMI_LOC_GDT_RECEIVE_DONE_STATUS_REQ_V02 (QMI_IDL_TYPE16 0 211) 21,
    service_entry QMI_LOC_GDT_DOWNLOAD_END_STATUS_REQ_V02 (QMI_IDL_TYPE16 0 213) 21,
    service_entry QMI_LOC_DELETE_GNSS_SERVICE_DATA_REQ_V02 (QMI_IDL_TYPE16 0 230) 47,
    service_entry QMI_LOC_INJECT_XTRA_DATA_REQ_V02 (QMI_IDL_TYPE16 0 232) 1064,
    service_entry QMI_LOC_INJECT_XTRA_PCID_REQ_V02 (QMI_IDL_TYPE16 0 234) 11,
    service_entry QMI_LOC_GET_SUPPORTED_FEATURE_REQ_V02 (QMI_IDL_TYPE16 0 236) 0,
    service_entry QMI_LOC_SET_INTERNAL_STATUS_CONFIG_REQ_V02 (QMI_IDL_TYPE16 0 238) 4,
    service_entry QMI_LOC_INJECT_SRN_AP_DATA_REQ_V02 (QMI_IDL_TYPE16 0 242) 1448,
    service_entry QMI_LOC_CROWDSOURCE_MANAGER_CONTROL_REQ_V02 (QMI_IDL_TYPE16 0 244) 545,
    service_entry QMI_LOC_CROWDSOURCE_MANAGER_READ_DATA_REQ_V02 (QMI_IDL_TYPE16 0 246) 7,
    service_entry QMI_LOC_QUERY_XTRA_INFO_REQ_V02 (QMI_IDL_TYPE16 0 247) 12,
    service_entry QMI_LOC_START_OUTDOOR_TRIP_BATCHING_REQ_V02 (QMI_IDL_TYPE16 0 249) 25,
    service_entry QMI_LOC_QUERY_OTB_ACCUMULATED_DISTANCE_REQ_V02 (QMI_IDL_TYPE16 0 251) 0,
    service_entry QMI_LOC_GET_FDCL_BS_LIST_REQ_V02 (QMI_IDL_TYPE16 0 254) 23,
    service_entry QMI_LOC_INJECT_FDCL_DATA_REQ_V02 (QMI_IDL_TYPE16 0 256) 2273,
    service_entry QMI_LOC_SET_BLACKLIST_SV_REQ_V02 (QMI_IDL_TYPE16 0 258) 154,
    service_entry QMI_LOC_GET_BLACKLIST_SV_REQ_V02 (QMI_IDL_TYPE16 0 0) 0,
    service_entry QMI_LOC_SET_CONSTELLATION_CONTROL_REQ_V02 (QMI_IDL_TYPE16 0 260) 26,
    service_entry QMI_LOC_REGISTER_MASTER_CLIENT_REQ_V02 (QMI_IDL_TYPE16 0 262) 7,
    service_entry QMI_LOC_START_LISTEN_POSITION_REQ_V02 (QMI_IDL_TYPE16 0 265) 0,
    service_entry QMI_LOC_STOP_LISTEN_POSITION_REQ_V02 (QMI_IDL_TYPE16 0 266) 0,
    service_entry QMI_LOC_SYSTEM_INFO_REQ_V02 (QMI_IDL_TYPE16 0 267) 7,
    service_entry QMI_LOC_GET_CONSTELLATION_CONTROL_REQ_V02 (QMI_IDL_TYPE16 0 0) 0,
    service_entry QMI_LOC_ENABLE_POSITION_INJECTION_TEST_MODE_REQ_V02 (QMI_IDL_TYPE16 0 270) 4,
    service_entry QMI_LOC_INJECT_TEST_POSITION_REQ_V02 (QMI_IDL_TYPE16 0 272) 47,
    service_entry QMI_LOC_GET_BS_OBS_DATA_REQ_V02 (QMI_IDL_TYPE16 0 275) 16,
    service_entry QMI_LOC_SET_CONSTRAINED_TUNC_MODE_REQ_V02 (QMI_IDL_TYPE16 0 282) 18,
    service_entry QMI_LOC_ENABLE_POSITION_ASSISTED_CLOCK_EST_REQ_V02 (QMI_IDL_TYPE16 0 284) 4,
    service_entry QMI_LOC_QUERY_GNSS_ENERGY_CONSUMED_REQ_V02 (QMI_IDL_TYPE16 0 286) 0,
    service_entry QMI_LOC_INJECT_PLATFORM_POWER_STATE_REQ_V02 (QMI_IDL_TYPE16 0 291) 7,
    service_entry QMI_LOC_SET_ROBUST_LOCATION_CONFIG_REQ_V02 (QMI_IDL_TYPE16 0 293) 8,
    service_entry QMI_LOC_GET_ROBUST_LOCATION_CONFIG_REQ_V02 (QMI_IDL_TYPE16 0 0) 0,
    service_entry QMI_LOC_INJECT_ENV_AIDING_REQ_V02 (QMI_IDL_TYPE16 0 295) 3816,
    service_entry QMI_LOC_SET_MIN_GPS_WEEK_NUMBER_REQ_V02 (QMI_IDL_TYPE16 0 296) 5,
    service_entry QMI_LOC_GET_MIN_GPS_WEEK_NUMBER_REQ_V02 (QMI_IDL_TYPE16 0 0) 0,
    service_entry QMI_LOC_SET_PARAMETER_REQ_V02 (QMI_IDL_TYPE16 0 300) 22,
    service_entry QMI_LOC_GET_PARAMETER_REQ_V02 (QMI_IDL_TYPE16 0 301) 7,
    service_entry QMI_LOC_SET_STATISTICS_CONFIG_REQ_V02 (QMI_IDL_TYPE16 0 303) 11,
    service_entry QMI_LOC_GET_STATISTICS_CONFIG_REQ_V02 (QMI_IDL_TYPE16 0 0) 0,
    service_entry QMI_LOC_SET_GNSS_PDR_MODE_REQ_V02 (QMI_IDL_TYPE16 0 306) 7,
    service_entry QMI_LOC_GET_GNSS_PDR_MODE_REQ_V02 (QMI_IDL_TYPE16 0 0) 0,
    service_entry QMI_LOC_GET_MAG_CAL_STATE_PDR_REQ_V02 (QMI_IDL_TYPE16 0 0) 0,
    service_entry QMI_LOC_SET_MULTIBAND_CONFIG_REQ_V02 (QMI_IDL_TYPE16 0 309) 11,
    service_entry QMI_LOC_GET_MULTIBAND_CONFIG_REQ_V02 (QMI_IDL_TYPE16 0 0) 0,
    service_entry QMI_LOC_INJECT_LOCATION_CIVIC_ADDRESS_REQ_V02 (QMI_IDL_TYPE16 0 312) 900,
    service_entry QMI_LOC_INJECT_RAW_DATA_REQ_V02 (QMI_IDL_TYPE16 0 314) 4029,
    service_entry QMI_LOC_SET_TRIBAND_STATE_REQ_V02 (QMI_IDL_TYPE16 0 317) 4,
    service_entry QMI_LOC_GET_TRIBAND_STATE_REQ_V02 (QMI_IDL_TYPE16 0 0) 0,
    service_entry QMI_LOC_SET_SDK_FEATURE_CONFIG_REQ_V02 (QMI_IDL_TYPE16 0 319) 12379,
    service_entry QMI_LOC_OSNMA_PUBLIC_KEY_MERKLE_TREE_REQ_V02 (QMI_IDL_TYPE16 0 322) 270,
    service_entry QMI_LOC_SET_OSNMA_STATE_REQ_V02 (QMI_IDL_TYPE16 0 323) 4,
    service_entry QMI_LOC_SET_NTN_STATUS_REQ_V02 (QMI_IDL_TYPE16 0 324) 11,
    service_entry QMI_LOC_GET_NTN_STATUS_REQ_V02 (QMI_IDL_TYPE16 0 0) 0,
    service_entry QMI_LOC_SET_PRECISE_SESSION_CONFIG_REQ_V02 (QMI_IDL_TYPE16 0 329) 14]"

definition loc_service_command_messages_v02 :: "qmi_idl_service_message_table_entry list" where
  "loc_service_command_messages_v02 = loc_service_command_messages_v02_0 @ loc_service_command_messages_v02_1"

definition loc_service_response_messages_v02_0 :: "qmi_idl_service_message_table_entry list" where
  "loc_service_response_messages_v02_0 = [
    service_entry QMI_LOC_GET_SUPPORTED_MSGS_RESP_V02 (QMI_IDL_TYPE16 1 1) 8204,
    service_entry QMI_LOC_GET_SUPPORTED_FIELDS_RESP_V02 (QMI_IDL_TYPE16 1 3) 115,
    service_entry QMI_LOC_INFORM_CLIENT_REVISION_RESP_V02 (QMI_IDL_TYPE16 0 1) 7,
    service_entry QMI_LOC_REG_EVENTS_RESP_V02 (QMI_IDL_TYPE16 0 1) 7,
    service_entry QMI_LOC_START_RESP_V02 (QMI_IDL_TYPE16 0 1) 7,
    service_entry QMI_LOC_STOP_RESP_V02 (QMI_IDL_TYPE16 0 1) 7,
    service_entry QMI_LOC_GET_SERVICE_REVISION_RESP_V02 (QMI_IDL_TYPE16 0 1) 7,
    service_entry QMI_LOC_GET_FIX_CRITERIA_RESP_V02 (QMI_IDL_TYPE16 0 1) 7,
    service_entry QMI_LOC_NI_USER_RESPONSE_RESP_V02 (QMI_IDL_TYPE16 0 1) 7,
    service_entry QMI_LOC_INJECT_PREDICTED_ORBITS_DATA_RESP_V02 (QMI_IDL_TYPE16 0 1) 7,
    service_entry QMI_LOC_GET_PREDICTED_ORBITS_DATA_SOURCE_RESP_V02 (QMI_IDL_TYPE16 0 1) 7,
    service_entry QMI_LOC_GET_PREDICTED_ORBITS_DATA_VALIDITY_RESP_V02 (QMI_IDL_TYPE16 0 1) 7,
    service_entry QMI_LOC_INJECT_UTC_TIME_RESP_V02 (QMI_IDL_TYPE16 0 1) 7,
    service_entry QMI_LOC_INJECT_POSITION_RESP_V02 (QMI_IDL_TYPE16 0 1) 7,
    service_entry QMI_LOC_SET_ENGINE_LOCK_RESP_V02 (QMI_IDL_TYPE16 0 1) 7,
    service_entry QMI_LOC_GET_ENGINE_LOCK_RESP_V02 (QMI_IDL_TYPE16 0 1) 7,
    service_entry QMI_LOC_SET_SBAS_CONFIG_RESP_V02 (QMI_IDL_TYPE16 0 1) 7,
    service_entry QMI_LOC_GET_SBAS_CONFIG_RESP_V02 (QMI_IDL_TYPE16 0 1) 7,
    service_entry QMI_LOC_SET_NMEA_TYPES_RESP_V02 (QMI_IDL_TYPE16 0 1) 7,
    service_entry QMI_LOC_GET_NMEA_TYPES_RESP_V02 (QMI_IDL_TYPE16 0 1) 7,
    service_entry QMI_LOC_SET_LOW_POWER_MODE_RESP_V02 (QMI_IDL_TYPE16 0 1) 7,
    service_entry QMI_LOC_GET_LOW_POWER_MODE_RESP_V02 (QMI_IDL_TYPE16 0 1) 7,
    service_entry QMI_LOC_SET_SERVER_RESP_V02 (QMI_IDL_TYPE16 0 1) 7,
    service_entry QMI_LOC_GET_SERVER_RESP_V02 (QMI_IDL_TYPE16 0 1) 7,
    service_entry QMI_LOC_DELETE_ASSIST_DATA_RESP_V02 (QMI_IDL_TYPE16 0 1) 7,
    service_entry QMI_LOC_SET_XTRA_T_SESSION_CONTROL_RESP_V02 (QMI_IDL_TYPE16 0 1) 7,
    service_entry QMI_LOC_GET_XTRA_T_SESSION_CONTROL_RESP_V02 (QMI_IDL_TYPE16 0 1) 7,
    service_entry QMI_LOC_INJECT_WIFI_POSITION_RESP_V02 (QMI_IDL_TYPE16 0 1) 7,
    service_entry QMI_LOC_NOTIFY_WIFI_STATUS_RESP_V02 (QMI_IDL_TYPE16 0 1) 7,
    service_entry QMI_LOC_GET_REGISTERED_EVENTS_RESP_V02 (QMI_IDL_TYPE16 0 1) 7,
    service_entry QMI_LOC_SET_OPERATION_MODE_RESP_V02 (QMI_IDL_TYPE16 0 1) 7,
    service_entry QMI_LOC_GET_OPERATION_MODE_RESP_V02 (QMI_IDL_TYPE16 0 1) 7,
    service_entry QMI_LOC_SET_SPI_STATUS_RESP_V02 (QMI_IDL_TYPE16 0 1) 7,
    service_entry QMI_LOC_INJECT_SENSOR_DATA_RESP_V02 (QMI_IDL_TYPE16 0 1) 7,
    service_entry QMI_LOC_INJECT_TIME_SYNC_DATA_RESP_V02 (QMI_IDL_TYPE16 0 1) 7,
    service_entry QMI_LOC_SET_CRADLE_MOUNT_CONFIG_RESP_V02 (QMI_IDL_TYPE16 0 1) 7,
    service_entry QMI_LOC_GET_CRADLE_MOUNT_CONFIG_RESP_V02 (QMI_IDL_TYPE16 0 1) 7,
    service_entry QMI_LOC_SET_EXTERNAL_POWER_CONFIG_RESP_V02 (QMI_IDL_TYPE16 0 1) 7,
    service_entry QMI_LOC_GET_EXTERNAL_POWER_CONFIG_RESP_V02 (QMI_IDL_TYPE16 0 1) 7,
    service_entry QMI_LOC_INFORM_LOCATION_SERVER_CONN_STATUS_RESP_V02 (QMI_IDL_TYPE16 0 1) 7,
    service_entry QMI_LOC_SET_PROTOCOL_CONFIG_PARAMETERS_RESP_V02 (QMI_IDL_TYPE16 0 1) 7,
    service_entry QMI_LOC_GET_PROTOCOL_CONFIG_PARAMETERS_RESP_V02 (QMI_IDL_TYPE16 0 1) 7,
    service_entry QMI_LOC_SET_SENSOR_CONTROL_CONFIG_RESP_V02 (QMI_IDL_TYPE16 0 1) 7,
    service_entry QMI_LOC_GET_SENSOR_CONTROL_CONFIG_RESP_V02 (QMI_IDL_TYPE16 0 1) 7,
    service_entry QMI_LOC_SET_SENSOR_PROPERTIES_RESP_V02 (QMI_IDL_TYPE16 0 1) 7,
    service_entry QMI_LOC_GET_SENSOR_PROPERTIES_RESP_V02 (QMI_IDL_TYPE16 0 1) 7,
    service_entry QMI_LOC_SET_SENSOR_PERFORMANCE_CONTROL_CONFIGURATION_RESP_V02 (QMI_IDL_TYPE16 0 1) 7,
    service_entry QMI_LOC_GET_SENSOR_PERFORMANCE_CONTROL_CONFIGURATION_RESP_V02 (QMI_IDL_TYPE16 0 1) 7,
    service_entry QMI_LOC_INJECT_SUPL_CERTIFICATE_RESP_V02 (QMI_IDL_TYPE16 0 1) 7,
    service_entry QMI_LOC_DELETE_SUPL_CERTIFICATE_RESP_V02 (QMI_IDL_TYPE16 0 1) 7,
    service_entry QMI_LOC_SET_POSITION_ENGINE_CONFIG_PARAMETERS_RESP_V02 (QMI_IDL_TYPE16 0 1) 7,
    service_entry QMI_LOC_GET_POSITION_ENGINE_CONFIG_PARAMETERS_RESP_V02 (QMI_IDL_TYPE16 0 1) 7,
    service_entry QMI_LOC_ADD_CIRCULAR_GEOFENCE_RESP_V02 (QMI_IDL_TYPE16 0 1) 7,
    service_entry QMI_LOC_DELETE_GEOFENCE_RESP_V02 (QMI_IDL_TYPE16 0 1) 7,
    service_entry QMI_LOC_QUERY_GEOFENCE_RESP_V02 (QMI_IDL_TYPE16 0 1) 7,
    service_entry QMI_LOC_EDIT_GEOFENCE_RESP_V02 (QMI_IDL_TYPE16 0 1) 7,
    service_entry QMI_LOC_GET_BEST_AVAILABLE_POSITION_RESP_V02 (QMI_IDL_TYPE16 0 1) 7,
    service_entry QMI_LOC_INJECT_MOTION_DATA_RESP_V02 (QMI_IDL_TYPE16 0 1) 7,
    service_entry QMI_LOC_GET_NI_GEOFENCE_ID_LIST_RESP_V02 (QMI_IDL_TYPE16 0 1) 7,
    service_entry QMI_LOC_INJECT_GSM_CELL_INFO_RESP_V02 (QMI_IDL_TYPE16 0 1) 7,
    service_entry QMI_LOC_INJECT_NETWORK_INITIATED_MESSAGE_RESP_V02 (QMI_IDL_TYPE16 0 1) 7,
    service_entry QMI_LOC_WWAN_OUT_OF_SERVICE_NOTIFICATION_RESP_V02 (QMI_IDL_TYPE16 0 1) 7,
    service_entry QMI_LOC_PEDOMETER_REPORT_RESP_V02 (QMI_IDL_TYPE16 0 1) 7,
    service_entry QMI_LOC_INJECT_WCDMA_CELL_INFO_RESP_V02 (QMI_IDL_TYPE16 0 1) 7,
    service_entry QMI_LOC_INJECT_TDSCDMA_CELL_INFO_RESP_V02 (QMI_IDL_TYPE16 0 1) 7,
    service_entry QMI_LOC_INJECT_SUBSCRIBER_ID_RESP_V02 (QMI_IDL_TYPE16 0 1) 7,
    service_entry QMI_LOC_SET_GEOFENCE_ENGINE_CONFIG_RESP_V02 (QMI_IDL_TYPE16 0 1) 7,
    service_entry QMI_LOC_GET_GEOFENCE_ENGINE_CONFIG_RESP_V02 (QMI_IDL_TYPE16 0 1) 7,
    service_entry QMI_LOC_GET_BATCH_SIZE_RESP_V02 (QMI_IDL_TYPE16 0 1) 7,
    service_entry QMI_LOC_START_BATCHING_RESP_V02 (QMI_IDL_TYPE16 0 1) 7,
    service_entry QMI_LOC_READ_FROM_BATCH_RESP_V02 (QMI_IDL_TYPE16 0 1) 7,
    service_entry QMI_LOC_STOP_BATCHING_RESP_V02 (QMI_IDL_TYPE16 0 1) 7,
    service_entry QMI_LOC_RELEASE_BATCH_RESP_V02 (QMI_IDL_TYPE16 0 1) 7,
    service_entry QMI_LOC_INJECT_WIFI_AP_DATA_RESP_V02 (QMI_IDL_TYPE16 0 1) 7,
    service_entry QMI_LOC_NOTIFY_WIFI_ATTACHMENT_STATUS_RESP_V02 (QMI_IDL_TYPE16 0 1) 7,
    service_entry QMI_LOC_NOTIFY_WIFI_ENABLED_STATUS_RESP_V02 (QMI_IDL_TYPE16 0 1) 7]"

definition loc_service_response_messages_v02_1 :: "qmi_idl_service_message_table_entry list" where
  "loc_service_response_messages_v02_1 = [
    service_entry QMI_LOC_INJECT_VEHICLE_SENSOR_DATA_RESP_V02 (QMI_IDL_TYPE16 0 1) 7,
    service_entry QMI_LOC_GET_AVAILABLE_WWAN_POSITION_RESP_V02 (QMI_IDL_TYPE16 0 1) 7,
    service_entry QMI_LOC_SET_PREMIUM_SERVICES_CONFIG_RESP_V02 (QMI_IDL_TYPE16 0 1) 7,
    service_entry QMI_LOC_SET_XTRA_VERSION_CHECK_RESP_V02 (QMI_IDL_TYPE16 0 1) 7,
    service_entry QMI_LOC_SET_GNSS_CONSTELL_REPORT_CONFIG_RESP_V02 (QMI_IDL_TYPE16 0 1) 7,
    service_entry QMI_LOC_ADD_GEOFENCE_CONTEXT_RESP_V02 (QMI_IDL_TYPE16 0 1) 7,
    service_entry QMI_LOC_SET_GEOFENCE_ENGINE_CONTEXT_RESP_V02 (QMI_IDL_TYPE16 0 1) 7,
    service_entry QMI_LOC_DELETE_GEOFENCE_CONTEXT_RESP_V02 (QMI_IDL_TYPE16 0 1) 7,
    service_entry QMI_LOC_INJECT_GTP_CLIENT_DOWNLOADED_DATA_RESP_V02 (QMI_IDL_TYPE16 0 1) 7,
    service_entry QMI_LOC_GDT_UPLOAD_BEGIN_STATUS_RESP_V02 (QMI_IDL_TYPE16 0 1) 7,
    service_entry QMI_LOC_GDT_UPLOAD_END_RESP_V02 (QMI_IDL_TYPE16 0 1) 7,
    service_entry QMI_LOC_START_DBT_RESP_V02 (QMI_IDL_TYPE16 0 1) 7,
    service_entry QMI_LOC_STOP_DBT_RESP_V02 (QMI_IDL_TYPE16 0 1) 7,
    service_entry QMI_LOC_SECURE_GET_AVAILABLE_POSITION_RESP_V02 (QMI_IDL_TYPE16 0 1) 7,
    service_entry QMI_LOC_INJECT_TIME_ZONE_INFO_RESP_V02 (QMI_IDL_TYPE16 0 1) 7,
    service_entry QMI_LOC_INJECT_APCACHE_DATA_RESP_V02 (QMI_IDL_TYPE16 0 1) 7,
    service_entry QMI_LOC_INJECT_APDONOTCACHE_DATA_RESP_V02 (QMI_IDL_TYPE16 0 1) 7,
    service_entry QMI_LOC_QUERY_AON_CONFIG_RESP_V02 (QMI_IDL_TYPE16 0 1) 7,
    service_entry QMI_LOC_GTP_AP_STATUS_RESP_V02 (QMI_IDL_TYPE16 0 1) 7,
    service_entry QMI_LOC_GDT_DOWNLOAD_BEGIN_STATUS_RESP_V02 (QMI_IDL_TYPE16 0 1) 7,
    service_entry QMI_LOC_GDT_DOWNLOAD_READY_STATUS_RESP_V02 (QMI_IDL_TYPE16 0 1) 7,
    service_entry QMI_LOC_GDT_RECEIVE_DONE_STATUS_RESP_V02 (QMI_IDL_TYPE16 0 1) 7,
    service_entry QMI_LOC_GDT_DOWNLOAD_END_STATUS_RESP_V02 (QMI_IDL_TYPE16 0 1) 7,
    service_entry QMI_LOC_DELETE_GNSS_SERVICE_DATA_RESP_V02 (QMI_IDL_TYPE16 0 1) 7,
    service_entry QMI_LOC_INJECT_XTRA_DATA_RESP_V02 (QMI_IDL_TYPE16 0 1) 7,
    service_entry QMI_LOC_INJECT_XTRA_PCID_RESP_V02 (QMI_IDL_TYPE16 0 1) 7,
    service_entry QMI_LOC_GET_SUPPORTED_FEATURE_RESP_V02 (QMI_IDL_TYPE16 0 1) 7,
    service_entry QMI_LOC_SET_INTERNAL_STATUS_CONFIG_RESP_V02 (QMI_IDL_TYPE16 0 1) 7,
    service_entry QMI_LOC_INJECT_SRN_AP_DATA_RESP_V02 (QMI_IDL_TYPE16 0 1) 7,
    service_entry QMI_LOC_CROWDSOURCE_MANAGER_CONTROL_RESP_V02 (QMI_IDL_TYPE16 0 1) 7,
    service_entry QMI_LOC_CROWDSOURCE_MANAGER_READ_DATA_RESP_V02 (QMI_IDL_TYPE16 0 1) 7,
    service_entry QMI_LOC_QUERY_XTRA_INFO_RESP_V02 (QMI_IDL_TYPE16 0 1) 7,
    service_entry QMI_LOC_START_OUTDOOR_TRIP_BATCHING_RESP_V02 (QMI_IDL_TYPE16 0 1) 7,
    service_entry QMI_LOC_QUERY_OTB_ACCUMULATED_DISTANCE_RESP_V02 (QMI_IDL_TYPE16 0 1) 7,
    service_entry QMI_LOC_GET_FDCL_BS_LIST_RESP_V02 (QMI_IDL_TYPE16 0 1) 7,
    service_entry QMI_LOC_INJECT_FDCL_DATA_RESP_V02 (QMI_IDL_TYPE16 0 1) 7,
    service_entry QMI_LOC_SET_BLACKLIST_SV_RESP_V02 (QMI_IDL_TYPE16 0 1) 7,
    service_entry QMI_LOC_GET_BLACKLIST_SV_RESP_V02 (QMI_IDL_TYPE16 0 1) 7,
    service_entry QMI_LOC_SET_CONSTELLATION_CONTROL_RESP_V02 (QMI_IDL_TYPE16 0 1) 7,
    service_entry QMI_LOC_REGISTER_MASTER_CLIENT_RESP_V02 (QMI_IDL_TYPE16 0 1) 7,
    service_entry QMI_LOC_START_LISTEN_POSITION_RESP_V02 (QMI_IDL_TYPE16 0 1) 7,
    service_entry QMI_LOC_STOP_LISTEN_POSITION_RESP_V02 (QMI_IDL_TYPE16 0 1) 7,
    service_entry QMI_LOC_SYSTEM_INFO_RESP_V02 (QMI_IDL_TYPE16 0 1) 7,
    service_entry QMI_LOC_GET_CONSTELLATION_CONTROL_RESP_V02 (QMI_IDL_TYPE16 0 1) 7,
    service_entry QMI_LOC_ENABLE_POSITION_INJECTION_TEST_MODE_RESP_V02 (QMI_IDL_TYPE16 0 1) 7,
    service_entry QMI_LOC_INJECT_TEST_POSITION_RESP_V02 (QMI_IDL_TYPE16 0 1) 7,
    service_entry QMI_LOC_GET_BS_OBS_DATA_RESP_V02 (QMI_IDL_TYPE16 0 1) 7,
    service_entry QMI_LOC_SET_CONSTRAINED_TUNC_MODE_RESP_V02 (QMI_IDL_TYPE16 0 1) 7,
    service_entry QMI_LOC_ENABLE_POSITION_ASSISTED_CLOCK_EST_RESP_V02 (QMI_IDL_TYPE16 0 1) 7,
    service_entry QMI_LOC_QUERY_GNSS_ENERGY_CONSUMED_RESP_V02 (QMI_IDL_TYPE16 0 1) 7,
    service_entry QMI_LOC_INJECT_PLATFORM_POWER_STATE_RESP_V02 (QMI_IDL_TYPE16 0 1) 7,
    service_entry QMI_LOC_SET_ROBUST_LOCATION_CONFIG_RESP_V02 (QMI_IDL_TYPE16 0 1) 7,
    service_entry QMI_LOC_GET_ROBUST_LOCATION_CONFIG_RESP_V02 (QMI_IDL_TYPE16 0 1) 7,
    service_entry QMI_LOC_INJECT_ENV_AIDING_RESP_V02 (QMI_IDL_TYPE16 0 1) 7,
    service_entry QMI_LOC_SET_MIN_GPS_WEEK_NUMBER_RESP_V02 (QMI_IDL_TYPE16 0 1) 7,
    service_entry QMI_LOC_GET_MIN_GPS_WEEK_NUMBER_RESP_V02 (QMI_IDL_TYPE16 0 1) 7,
    service_entry QMI_LOC_SET_PARAMETER_RESP_V02 (QMI_IDL_TYPE16 0 1) 7,
    service_entry QMI_LOC_GET_PARAMETER_RESP_V02 (QMI_IDL_TYPE16 0 1) 7,
    service_entry QMI_LOC_SET_STATISTICS_CONFIG_RESP_V02 (QMI_IDL_TYPE16 0 1) 7,
    service_entry QMI_LOC_GET_STATISTICS_CONFIG_RESP_V02 (QMI_IDL_TYPE16 0 1) 7,
    service_entry QMI_LOC_SET_GNSS_PDR_MODE_RESP_V02 (QMI_IDL_TYPE16 0 1) 7,
    service_entry QMI_LOC_GET_GNSS_PDR_MODE_RESP_V02 (QMI_IDL_TYPE16 0 1) 7,
    service_entry QMI_LOC_GET_MAG_CAL_STATE_PDR_RESP_V02 (QMI_IDL_TYPE16 0 1) 7,
    service_entry QMI_LOC_SET_MULTIBAND_CONFIG_RESP_V02 (QMI_IDL_TYPE16 0 1) 7,
    service_entry QMI_LOC_GET_MULTIBAND_CONFIG_RESP_V02 (QMI_IDL_TYPE16 0 1) 7,
    service_entry QMI_LOC_INJECT_LOCATION_CIVIC_ADDRESS_RESP_V02 (QMI_IDL_TYPE16 0 1) 7,
    service_entry QMI_LOC_INJECT_RAW_DATA_RESP_V02 (QMI_IDL_TYPE16 0 1) 7,
    service_entry QMI_LOC_SET_TRIBAND_STATE_RESP_V02 (QMI_IDL_TYPE16 0 1) 7,
    service_entry QMI_LOC_GET_TRIBAND_STATE_RESP_V02 (QMI_IDL_TYPE16 0 1) 7,
    service_entry QMI_LOC_SET_SDK_FEATURE_CONFIG_RESP_V02 (QMI_IDL_TYPE16 0 1) 7,
    service_entry QMI_LOC_OSNMA_PUBLIC_KEY_MERKLE_TREE_RESP_V02 (QMI_IDL_TYPE16 0 1) 7,
    service_entry QMI_LOC_SET_OSNMA_STATE_RESP_V02 (QMI_IDL_TYPE16 0 1) 7,
    service_entry QMI_LOC_SET_NTN_STATUS_RESP_V02 (QMI_IDL_TYPE16 0 1) 7,
    service_entry QMI_LOC_GET_NTN_STATUS_RESP_V02 (QMI_IDL_TYPE16 0 1) 7,
    service_entry QMI_LOC_SET_PRECISE_SESSION_CONFIG_RESP_V02 (QMI_IDL_TYPE16 0 1) 7]"

definition loc_service_response_messages_v02 :: "qmi_idl_service_message_table_entry list" where
  "loc_service_response_messages_v02 = loc_service_response_messages_v02_0 @ loc_service_response_messages_v02_1"

definition loc_service_indication_messages_v02_0 :: "qmi_idl_service_message_table_entry list" where
  "loc_service_indication_messages_v02_0 = [
    service_entry QMI_LOC_EVENT_POSITION_REPORT_IND_V02 (QMI_IDL_TYPE16 0 7) 7642,
    service_entry QMI_LOC_EVENT_GNSS_SV_INFO_IND_V02 (QMI_IDL_TYPE16 0 8) 9476,
    service_entry QMI_LOC_EVENT_NMEA_IND_V02 (QMI_IDL_TYPE16 0 9) 4301,
    service_entry QMI_LOC_EVENT_NI_NOTIFY_VERIFY_REQ_IND_V02 (QMI_IDL_TYPE16 0 10) 1342,
    service_entry QMI_LOC_EVENT_INJECT_TIME_REQ_IND_V02 (QMI_IDL_TYPE16 0 11) 783,
    service_entry QMI_LOC_EVENT_INJECT_PREDICTED_ORBITS_REQ_IND_V02 (QMI_IDL_TYPE16 0 12) 826,
    service_entry QMI_LOC_EVENT_INJECT_POSITION_REQ_IND_V02 (QMI_IDL_TYPE16 0 13) 40,
    service_entry QMI_LOC_EVENT_ENGINE_STATE_IND_V02 (QMI_IDL_TYPE16 0 14) 7,
    service_entry QMI_LOC_EVENT_FIX_SESSION_STATE_IND_V02 (QMI_IDL_TYPE16 0 15) 11,
    service_entry QMI_LOC_EVENT_WIFI_REQ_IND_V02 (QMI_IDL_TYPE16 0 16) 20,
    service_entry QMI_LOC_EVENT_SENSOR_STREAMING_READY_STATUS_IND_V02 (QMI_IDL_TYPE16 0 17) 48,
    service_entry QMI_LOC_EVENT_TIME_SYNC_REQ_IND_V02 (QMI_IDL_TYPE16 0 18) 7,
    service_entry QMI_LOC_EVENT_SET_SPI_STREAMING_REPORT_IND_V02 (QMI_IDL_TYPE16 0 19) 4,
    service_entry QMI_LOC_EVENT_LOCATION_SERVER_CONNECTION_REQ_IND_V02 (QMI_IDL_TYPE16 0 20) 53,
    service_entry QMI_LOC_GET_SERVICE_REVISION_IND_V02 (QMI_IDL_TYPE16 0 35) 532,
    service_entry QMI_LOC_GET_FIX_CRITERIA_IND_V02 (QMI_IDL_TYPE16 0 37) 135,
    service_entry QMI_LOC_NI_USER_RESPONSE_IND_V02 (QMI_IDL_TYPE16 0 39) 7,
    service_entry QMI_LOC_INJECT_PREDICTED_ORBITS_DATA_IND_V02 (QMI_IDL_TYPE16 0 41) 12,
    service_entry QMI_LOC_GET_PREDICTED_ORBITS_DATA_SOURCE_IND_V02 (QMI_IDL_TYPE16 0 43) 790,
    service_entry QMI_LOC_GET_PREDICTED_ORBITS_DATA_VALIDITY_IND_V02 (QMI_IDL_TYPE16 0 45) 20,
    service_entry QMI_LOC_INJECT_UTC_TIME_IND_V02 (QMI_IDL_TYPE16 0 47) 7,
    service_entry QMI_LOC_INJECT_POSITION_IND_V02 (QMI_IDL_TYPE16 0 49) 7,
    service_entry QMI_LOC_SET_ENGINE_LOCK_IND_V02 (QMI_IDL_TYPE16 0 51) 7,
    service_entry QMI_LOC_GET_ENGINE_LOCK_IND_V02 (QMI_IDL_TYPE16 0 53) 50,
    service_entry QMI_LOC_SET_SBAS_CONFIG_IND_V02 (QMI_IDL_TYPE16 0 55) 7,
    service_entry QMI_LOC_GET_SBAS_CONFIG_IND_V02 (QMI_IDL_TYPE16 0 57) 11,
    service_entry QMI_LOC_SET_NMEA_TYPES_IND_V02 (QMI_IDL_TYPE16 0 59) 7,
    service_entry QMI_LOC_GET_NMEA_TYPES_IND_V02 (QMI_IDL_TYPE16 0 61) 14,
    service_entry QMI_LOC_SET_LOW_POWER_MODE_IND_V02 (QMI_IDL_TYPE16 0 63) 7,
    service_entry QMI_LOC_GET_LOW_POWER_MODE_IND_V02 (QMI_IDL_TYPE16 0 65) 11,
    service_entry QMI_LOC_SET_SERVER_IND_V02 (QMI_IDL_TYPE16 0 67) 7,
    service_entry QMI_LOC_GET_SERVER_IND_V02 (QMI_IDL_TYPE16 0 69) 304,
    service_entry QMI_LOC_DELETE_ASSIST_DATA_IND_V02 (QMI_IDL_TYPE16 0 71) 7,
    service_entry QMI_LOC_SET_XTRA_T_SESSION_CONTROL_IND_V02 (QMI_IDL_TYPE16 0 73) 7,
    service_entry QMI_LOC_GET_XTRA_T_SESSION_CONTROL_IND_V02 (QMI_IDL_TYPE16 0 75) 11,
    service_entry QMI_LOC_INJECT_WIFI_POSITION_IND_V02 (QMI_IDL_TYPE16 0 77) 7,
    service_entry QMI_LOC_NOTIFY_WIFI_STATUS_IND_V02 (QMI_IDL_TYPE16 0 79) 7,
    service_entry QMI_LOC_GET_REGISTERED_EVENTS_IND_V02 (QMI_IDL_TYPE16 0 81) 18,
    service_entry QMI_LOC_SET_OPERATION_MODE_IND_V02 (QMI_IDL_TYPE16 0 83) 7,
    service_entry QMI_LOC_GET_OPERATION_MODE_IND_V02 (QMI_IDL_TYPE16 0 85) 14,
    service_entry QMI_LOC_SET_SPI_STATUS_IND_V02 (QMI_IDL_TYPE16 0 87) 7,
    service_entry QMI_LOC_INJECT_SENSOR_DATA_IND_V02 (QMI_IDL_TYPE16 0 89) 34,
    service_entry QMI_LOC_INJECT_TIME_SYNC_DATA_IND_V02 (QMI_IDL_TYPE16 0 91) 7,
    service_entry QMI_LOC_SET_CRADLE_MOUNT_CONFIG_IND_V02 (QMI_IDL_TYPE16 0 95) 7,
    service_entry QMI_LOC_GET_CRADLE_MOUNT_CONFIG_IND_V02 (QMI_IDL_TYPE16 0 93) 18,
    service_entry QMI_LOC_SET_EXTERNAL_POWER_CONFIG_IND_V02 (QMI_IDL_TYPE16 0 99) 7,
    service_entry QMI_LOC_GET_EXTERNAL_POWER_CONFIG_IND_V02 (QMI_IDL_TYPE16 0 97) 14,
    service_entry QMI_LOC_INFORM_LOCATION_SERVER_CONN_STATUS_IND_V02 (QMI_IDL_TYPE16 0 101) 7,
    service_entry QMI_LOC_SET_PROTOCOL_CONFIG_PARAMETERS_IND_V02 (QMI_IDL_TYPE16 0 103) 18,
    service_entry QMI_LOC_GET_PROTOCOL_CONFIG_PARAMETERS_IND_V02 (QMI_IDL_TYPE16 0 105) 93,
    service_entry QMI_LOC_SET_SENSOR_CONTROL_CONFIG_IND_V02 (QMI_IDL_TYPE16 0 107) 7,
    service_entry QMI_LOC_GET_SENSOR_CONTROL_CONFIG_IND_V02 (QMI_IDL_TYPE16 0 109) 21,
    service_entry QMI_LOC_SET_SENSOR_PROPERTIES_IND_V02 (QMI_IDL_TYPE16 0 111) 14,
    service_entry QMI_LOC_GET_SENSOR_PROPERTIES_IND_V02 (QMI_IDL_TYPE16 0 113) 95,
    service_entry QMI_LOC_SET_SENSOR_PERFORMANCE_CONTROL_CONFIGURATION_IND_V02 (QMI_IDL_TYPE16 0 115) 14,
    service_entry QMI_LOC_GET_SENSOR_PERFORMANCE_CONTROL_CONFIGURATION_IND_V02 (QMI_IDL_TYPE16 0 117) 49,
    service_entry QMI_LOC_INJECT_SUPL_CERTIFICATE_IND_V02 (QMI_IDL_TYPE16 0 119) 7,
    service_entry QMI_LOC_DELETE_SUPL_CERTIFICATE_IND_V02 (QMI_IDL_TYPE16 0 121) 7,
    service_entry QMI_LOC_SET_POSITION_ENGINE_CONFIG_PARAMETERS_IND_V02 (QMI_IDL_TYPE16 0 123) 14,
    service_entry QMI_LOC_GET_POSITION_ENGINE_CONFIG_PARAMETERS_IND_V02 (QMI_IDL_TYPE16 0 125) 23,
    service_entry QMI_LOC_EVENT_NI_GEOFENCE_NOTIFICATION_IND_V02 (QMI_IDL_TYPE16 0 21) 14,
    service_entry QMI_LOC_EVENT_GEOFENCE_GEN_ALERT_IND_V02 (QMI_IDL_TYPE16 0 22) 7,
    service_entry QMI_LOC_EVENT_GEOFENCE_BREACH_NOTIFICATION_IND_V02 (QMI_IDL_TYPE16 0 23) 85,
    service_entry QMI_LOC_ADD_CIRCULAR_GEOFENCE_IND_V02 (QMI_IDL_TYPE16 0 127) 21,
    service_entry QMI_LOC_DELETE_GEOFENCE_IND_V02 (QMI_IDL_TYPE16 0 129) 21,
    service_entry QMI_LOC_QUERY_GEOFENCE_IND_V02 (QMI_IDL_TYPE16 0 131) 65,
    service_entry QMI_LOC_EDIT_GEOFENCE_IND_V02 (QMI_IDL_TYPE16 0 137) 28,
    service_entry QMI_LOC_GET_BEST_AVAILABLE_POSITION_IND_V02 (QMI_IDL_TYPE16 0 142) 2221,
    service_entry QMI_LOC_INJECT_MOTION_DATA_IND_V02 (QMI_IDL_TYPE16 0 144) 7,
    service_entry QMI_LOC_GET_NI_GEOFENCE_ID_LIST_IND_V02 (QMI_IDL_TYPE16 0 146) 82,
    service_entry QMI_LOC_INJECT_GSM_CELL_INFO_IND_V02 (QMI_IDL_TYPE16 0 148) 7,
    service_entry QMI_LOC_INJECT_NETWORK_INITIATED_MESSAGE_IND_V02 (QMI_IDL_TYPE16 0 156) 7,
    service_entry QMI_LOC_WWAN_OUT_OF_SERVICE_NOTIFICATION_IND_V02 (QMI_IDL_TYPE16 0 158) 7,
    service_entry QMI_LOC_EVENT_PEDOMETER_CONTROL_IND_V02 (QMI_IDL_TYPE16 0 24) 15,
    service_entry QMI_LOC_EVENT_MOTION_DATA_CONTROL_IND_V02 (QMI_IDL_TYPE16 0 25) 4,
    service_entry QMI_LOC_PEDOMETER_REPORT_IND_V02 (QMI_IDL_TYPE16 0 160) 7,
    service_entry QMI_LOC_INJECT_WCDMA_CELL_INFO_IND_V02 (QMI_IDL_TYPE16 0 150) 7,
    service_entry QMI_LOC_INJECT_TDSCDMA_CELL_INFO_IND_V02 (QMI_IDL_TYPE16 0 152) 7,
    service_entry QMI_LOC_INJECT_SUBSCRIBER_ID_IND_V02 (QMI_IDL_TYPE16 0 154) 7,
    service_entry QMI_LOC_SET_GEOFENCE_ENGINE_CONFIG_IND_V02 (QMI_IDL_TYPE16 0 133) 14,
    service_entry QMI_LOC_GET_GEOFENCE_ENGINE_CONFIG_IND_V02 (QMI_IDL_TYPE16 0 135) 39,
    service_entry QMI_LOC_GET_BATCH_SIZE_IND_V02 (QMI_IDL_TYPE16 0 162) 21,
    service_entry QMI_LOC_START_BATCHING_IND_V02 (QMI_IDL_TYPE16 0 164) 14,
    service_entry QMI_LOC_EVENT_BATCH_FULL_NOTIFICATION_IND_V02 (QMI_IDL_TYPE16 0 165) 28,
    service_entry QMI_LOC_EVENT_LIVE_BATCHED_POSITION_REPORT_IND_V02 (QMI_IDL_TYPE16 0 166) 90,
    service_entry QMI_LOC_READ_FROM_BATCH_IND_V02 (QMI_IDL_TYPE16 0 168) 460,
    service_entry QMI_LOC_STOP_BATCHING_IND_V02 (QMI_IDL_TYPE16 0 170) 21,
    service_entry QMI_LOC_RELEASE_BATCH_IND_V02 (QMI_IDL_TYPE16 0 172) 14,
    service_entry QMI_LOC_EVENT_INJECT_WIFI_AP_DATA_REQ_IND_V02 (QMI_IDL_TYPE16 0 173) 4,
    service_entry QMI_LOC_INJECT_WIFI_AP_DATA_IND_V02 (QMI_IDL_TYPE16 0 175) 7,
    service_entry QMI_LOC_NOTIFY_WIFI_ATTACHMENT_STATUS_IND_V02 (QMI_IDL_TYPE16 0 177) 7,
    service_entry QMI_LOC_NOTIFY_WIFI_ENABLED_STATUS_IND_V02 (QMI_IDL_TYPE16 0 179) 7,
    service_entry QMI_LOC_EVENT_GEOFENCE_BATCHED_BREACH_NOTIFICATION_IND_V02 (QMI_IDL_TYPE16 0 26) 3045,
    service_entry QMI_LOC_EVENT_VEHICLE_DATA_READY_STATUS_IND_V02 (QMI_IDL_TYPE16 0 180) 12,
    service_entry QMI_LOC_INJECT_VEHICLE_SENSOR_DATA_IND_V02 (QMI_IDL_TYPE16 0 182) 7,
    service_entry QMI_LOC_GET_AVAILABLE_WWAN_POSITION_IND_V02 (QMI_IDL_TYPE16 0 184) 166,
    service_entry QMI_LOC_SET_PREMIUM_SERVICES_CONFIG_IND_V02 (QMI_IDL_TYPE16 0 186) 7,
    service_entry QMI_LOC_SET_XTRA_VERSION_CHECK_IND_V02 (QMI_IDL_TYPE16 0 188) 7,
    service_entry QMI_LOC_EVENT_GNSS_MEASUREMENT_REPORT_IND_V02 (QMI_IDL_TYPE16 0 191) 5438,
    service_entry QMI_LOC_EVENT_SV_POLYNOMIAL_REPORT_IND_V02 (QMI_IDL_TYPE16 0 192) 718,
    service_entry QMI_LOC_SET_GNSS_CONSTELL_REPORT_CONFIG_IND_V02 (QMI_IDL_TYPE16 0 190) 7,
    service_entry QMI_LOC_ADD_GEOFENCE_CONTEXT_IND_V02 (QMI_IDL_TYPE16 0 194) 28]"

definition loc_service_indication_messages_v02_1 :: "qmi_idl_service_message_table_entry list" where
  "loc_service_indication_messages_v02_1 = [
    service_entry QMI_LOC_SET_GEOFENCE_ENGINE_CONTEXT_IND_V02 (QMI_IDL_TYPE16 0 196) 14,
    service_entry QMI_LOC_DELETE_GEOFENCE_CONTEXT_IND_V02 (QMI_IDL_TYPE16 0 198) 28,
    service_entry QMI_LOC_EVENT_GEOFENCE_PROXIMITY_NOTIFICATION_IND_V02 (QMI_IDL_TYPE16 0 27) 21,
    service_entry QMI_LOC_INJECT_GTP_CLIENT_DOWNLOADED_DATA_IND_V02 (QMI_IDL_TYPE16 0 200) 7,
    service_entry QMI_LOC_GDT_UPLOAD_BEGIN_STATUS_IND_V02 (QMI_IDL_TYPE16 0 202) 7,
    service_entry QMI_LOC_GDT_UPLOAD_END_IND_V02 (QMI_IDL_TYPE16 0 204) 7,
    service_entry QMI_LOC_EVENT_GDT_UPLOAD_BEGIN_STATUS_REQ_IND_V02 (QMI_IDL_TYPE16 0 29) 273,
    service_entry QMI_LOC_EVENT_GDT_UPLOAD_END_REQ_IND_V02 (QMI_IDL_TYPE16 0 30) 21,
    service_entry QMI_LOC_START_DBT_IND_V02 (QMI_IDL_TYPE16 0 216) 11,
    service_entry QMI_LOC_EVENT_DBT_POSITION_REPORT_IND_V02 (QMI_IDL_TYPE16 0 219) 2074,
    service_entry QMI_LOC_EVENT_DBT_SESSION_STATUS_IND_V02 (QMI_IDL_TYPE16 0 220) 11,
    service_entry QMI_LOC_STOP_DBT_IND_V02 (QMI_IDL_TYPE16 0 218) 11,
    service_entry QMI_LOC_SECURE_GET_AVAILABLE_POSITION_IND_V02 (QMI_IDL_TYPE16 0 222) 1043,
    service_entry QMI_LOC_EVENT_GEOFENCE_BATCHED_DWELL_NOTIFICATION_IND_V02 (QMI_IDL_TYPE16 0 28) 3038,
    service_entry QMI_LOC_EVENT_GET_TIME_ZONE_INFO_IND_V02 (QMI_IDL_TYPE16 0 138) 7,
    service_entry QMI_LOC_INJECT_TIME_ZONE_INFO_IND_V02 (QMI_IDL_TYPE16 0 140) 7,
    service_entry QMI_LOC_INJECT_APCACHE_DATA_IND_V02 (QMI_IDL_TYPE16 0 224) 70,
    service_entry QMI_LOC_INJECT_APDONOTCACHE_DATA_IND_V02 (QMI_IDL_TYPE16 0 226) 7,
    service_entry QMI_LOC_EVENT_BATCHING_STATUS_IND_V02 (QMI_IDL_TYPE16 0 227) 7,
    service_entry QMI_LOC_QUERY_AON_CONFIG_IND_V02 (QMI_IDL_TYPE16 0 229) 21,
    service_entry QMI_LOC_GTP_AP_STATUS_IND_V02 (QMI_IDL_TYPE16 0 206) 18,
    service_entry QMI_LOC_GDT_DOWNLOAD_BEGIN_STATUS_IND_V02 (QMI_IDL_TYPE16 0 208) 7,
    service_entry QMI_LOC_GDT_DOWNLOAD_READY_STATUS_IND_V02 (QMI_IDL_TYPE16 0 210) 7,
    service_entry QMI_LOC_GDT_RECEIVE_DONE_STATUS_IND_V02 (QMI_IDL_TYPE16 0 212) 7,
    service_entry QMI_LOC_GDT_DOWNLOAD_END_STATUS_IND_V02 (QMI_IDL_TYPE16 0 214) 7,
    service_entry QMI_LOC_EVENT_GDT_DOWNLOAD_BEGIN_REQ_IND_V02 (QMI_IDL_TYPE16 0 31) 5811,
    service_entry QMI_LOC_EVENT_GDT_RECEIVE_DONE_IND_V02 (QMI_IDL_TYPE16 0 32) 21,
    service_entry QMI_LOC_EVENT_GDT_DOWNLOAD_END_REQ_IND_V02 (QMI_IDL_TYPE16 0 33) 21,
    service_entry QMI_LOC_DELETE_GNSS_SERVICE_DATA_IND_V02 (QMI_IDL_TYPE16 0 231) 7,
    service_entry QMI_LOC_INJECT_XTRA_DATA_IND_V02 (QMI_IDL_TYPE16 0 233) 23,
    service_entry QMI_LOC_INJECT_XTRA_PCID_IND_V02 (QMI_IDL_TYPE16 0 235) 7,
    service_entry QMI_LOC_GET_SUPPORTED_FEATURE_IND_V02 (QMI_IDL_TYPE16 0 237) 122,
    service_entry QMI_LOC_SET_INTERNAL_STATUS_CONFIG_IND_V02 (QMI_IDL_TYPE16 0 239) 7,
    service_entry QMI_LOC_EVENT_INTERNAL_STATUS_REPORT_IND_V02 (QMI_IDL_TYPE16 0 240) 3756,
    service_entry QMI_LOC_EVENT_INJECT_SRN_AP_DATA_REQ_IND_V02 (QMI_IDL_TYPE16 0 241) 22,
    service_entry QMI_LOC_INJECT_SRN_AP_DATA_IND_V02 (QMI_IDL_TYPE16 0 243) 7,
    service_entry QMI_LOC_CROWDSOURCE_MANAGER_CONTROL_IND_V02 (QMI_IDL_TYPE16 0 245) 540,
    service_entry QMI_LOC_QUERY_XTRA_INFO_IND_V02 (QMI_IDL_TYPE16 0 248) 1638,
    service_entry QMI_LOC_START_OUTDOOR_TRIP_BATCHING_IND_V02 (QMI_IDL_TYPE16 0 250) 7,
    service_entry QMI_LOC_QUERY_OTB_ACCUMULATED_DISTANCE_IND_V02 (QMI_IDL_TYPE16 0 252) 21,
    service_entry QMI_LOC_EVENT_FDCL_SERVICE_REQ_IND_V02 (QMI_IDL_TYPE16 0 253) 618,
    service_entry QMI_LOC_GET_FDCL_BS_LIST_IND_V02 (QMI_IDL_TYPE16 0 255) 2456,
    service_entry QMI_LOC_INJECT_FDCL_DATA_IND_V02 (QMI_IDL_TYPE16 0 257) 272,
    service_entry QMI_LOC_SET_BLACKLIST_SV_IND_V02 (QMI_IDL_TYPE16 0 2) 7,
    service_entry QMI_LOC_GET_BLACKLIST_SV_IND_V02 (QMI_IDL_TYPE16 0 259) 84,
    service_entry QMI_LOC_SET_CONSTELLATION_CONTROL_IND_V02 (QMI_IDL_TYPE16 0 2) 7,
    service_entry QMI_LOC_DC_REPORT_IND_V02 (QMI_IDL_TYPE16 0 261) 84,
    service_entry QMI_LOC_REGISTER_MASTER_CLIENT_IND_V02 (QMI_IDL_TYPE16 0 263) 7,
    service_entry QMI_LOC_EVENT_ENGINE_LOCK_STATE_IND_V02 (QMI_IDL_TYPE16 0 264) 25,
    service_entry QMI_LOC_SYSTEM_INFO_IND_V02 (QMI_IDL_TYPE16 0 268) 74,
    service_entry QMI_LOC_GET_CONSTELLATION_CONTROL_IND_V02 (QMI_IDL_TYPE16 0 269) 49,
    service_entry QMI_LOC_EVENT_UNPROPAGATED_POSITION_REPORT_IND_V02 (QMI_IDL_TYPE16 0 7) 7642,
    service_entry QMI_LOC_ENABLE_POSITION_INJECTION_TEST_MODE_IND_V02 (QMI_IDL_TYPE16 0 271) 14,
    service_entry QMI_LOC_INJECT_TEST_POSITION_IND_V02 (QMI_IDL_TYPE16 0 273) 7,
    service_entry QMI_LOC_EVENT_BS_OBS_DATA_SERVICE_REQ_IND_V02 (QMI_IDL_TYPE16 0 274) 5,
    service_entry QMI_LOC_GET_BS_OBS_DATA_IND_V02 (QMI_IDL_TYPE16 0 276) 10015,
    service_entry QMI_LOC_EVENT_GPS_EPHEMERIS_REPORT_IND_V02 (QMI_IDL_TYPE16 0 277) 1932,
    service_entry QMI_LOC_EVENT_GLONASS_EPHEMERIS_REPORT_IND_V02 (QMI_IDL_TYPE16 0 278) 897,
    service_entry QMI_LOC_EVENT_BDS_EPHEMERIS_REPORT_IND_V02 (QMI_IDL_TYPE16 0 279) 1868,
    service_entry QMI_LOC_EVENT_GALILEO_EPHEMERIS_REPORT_IND_V02 (QMI_IDL_TYPE16 0 280) 1481,
    service_entry QMI_LOC_EVENT_QZSS_EPHEMERIS_REPORT_IND_V02 (QMI_IDL_TYPE16 0 281) 1932,
    service_entry QMI_LOC_SET_CONSTRAINED_TUNC_MODE_IND_V02 (QMI_IDL_TYPE16 0 283) 7,
    service_entry QMI_LOC_ENABLE_POSITION_ASSISTED_CLOCK_EST_IND_V02 (QMI_IDL_TYPE16 0 285) 7,
    service_entry QMI_LOC_QUERY_GNSS_ENERGY_CONSUMED_IND_V02 (QMI_IDL_TYPE16 0 287) 22,
    service_entry QMI_LOC_EVENT_REPORT_IND_V02 (QMI_IDL_TYPE16 0 288) 120,
    service_entry QMI_LOC_GET_BAND_MEASUREMENT_METRICS_IND_V02 (QMI_IDL_TYPE16 0 289) 124,
    service_entry QMI_LOC_LOCATION_REQUEST_NOTIFICATION_IND_V02 (QMI_IDL_TYPE16 0 290) 66,
    service_entry QMI_LOC_INJECT_PLATFORM_POWER_STATE_IND_V02 (QMI_IDL_TYPE16 0 292) 7,
    service_entry QMI_LOC_SET_ROBUST_LOCATION_CONFIG_IND_V02 (QMI_IDL_TYPE16 0 2) 7,
    service_entry QMI_LOC_GET_ROBUST_LOCATION_CONFIG_IND_V02 (QMI_IDL_TYPE16 0 294) 21,
    service_entry QMI_LOC_INJECT_ENV_AIDING_IND_V02 (QMI_IDL_TYPE16 0 2) 7,
    service_entry QMI_LOC_SET_MIN_GPS_WEEK_NUMBER_IND_V02 (QMI_IDL_TYPE16 0 2) 7,
    service_entry QMI_LOC_GET_MIN_GPS_WEEK_NUMBER_IND_V02 (QMI_IDL_TYPE16 0 297) 12,
    service_entry QMI_LOC_EVENT_QUERY_XTRA_INFO_REQ_IND_V02 (QMI_IDL_TYPE16 0 299) 68,
    service_entry QMI_LOC_SET_PARAMETER_IND_V02 (QMI_IDL_TYPE16 0 2) 7,
    service_entry QMI_LOC_GET_PARAMETER_IND_V02 (QMI_IDL_TYPE16 0 302) 29,
    service_entry QMI_LOC_SET_STATISTICS_CONFIG_IND_V02 (QMI_IDL_TYPE16 0 2) 7,
    service_entry QMI_LOC_GET_STATISTICS_CONFIG_IND_V02 (QMI_IDL_TYPE16 0 304) 18,
    service_entry QMI_LOC_GNSS_STATISTICS_REPORT_IND_V02 (QMI_IDL_TYPE16 0 305) 165,
    service_entry QMI_LOC_SET_GNSS_PDR_MODE_IND_V02 (QMI_IDL_TYPE16 0 2) 7,
    service_entry QMI_LOC_GET_GNSS_PDR_MODE_IND_V02 (QMI_IDL_TYPE16 0 307) 14,
    service_entry QMI_LOC_GET_MAG_CAL_STATE_PDR_IND_V02 (QMI_IDL_TYPE16 0 308) 11,
    service_entry QMI_LOC_EVENT_SAP_INS_PARAMETERS_IND_V02 (QMI_IDL_TYPE16 0 298) 5590,
    service_entry QMI_LOC_SET_MULTIBAND_CONFIG_IND_V02 (QMI_IDL_TYPE16 0 2) 7,
    service_entry QMI_LOC_GET_MULTIBAND_CONFIG_IND_V02 (QMI_IDL_TYPE16 0 310) 18,
    service_entry QMI_LOC_LATENCY_INFORMATION_IND_V02 (QMI_IDL_TYPE16 0 311) 124,
    service_entry QMI_LOC_INJECT_LOCATION_CIVIC_ADDRESS_IND_V02 (QMI_IDL_TYPE16 0 2) 7,
    service_entry QMI_LOC_EVENT_PLATFORM_POWER_STATE_CHANGED_IND_V02 (QMI_IDL_TYPE16 0 313) 14,
    service_entry QMI_LOC_INJECT_RAW_DATA_IND_V02 (QMI_IDL_TYPE16 0 315) 12,
    service_entry QMI_LOC_ENGINE_DEBUG_DATA_IND_V02 (QMI_IDL_TYPE16 0 316) 3052,
    service_entry QMI_LOC_SET_TRIBAND_STATE_IND_V02 (QMI_IDL_TYPE16 0 2) 7,
    service_entry QMI_LOC_GET_TRIBAND_STATE_IND_V02 (QMI_IDL_TYPE16 0 318) 11,
    service_entry QMI_LOC_SET_SDK_FEATURE_CONFIG_IND_V02 (QMI_IDL_TYPE16 0 320) 18,
    service_entry QMI_LOC_GNSS_BANDS_SUPPORTED_IND_V02 (QMI_IDL_TYPE16 0 321) 22,
    service_entry QMI_LOC_OSNMA_PUBLIC_KEY_MERKLE_TREE_IND_V02 (QMI_IDL_TYPE16 0 2) 7,
    service_entry QMI_LOC_SET_OSNMA_STATE_IND_V02 (QMI_IDL_TYPE16 0 2) 7,
    service_entry QMI_LOC_SET_NTN_STATUS_IND_V02 (QMI_IDL_TYPE16 0 325) 18,
    service_entry QMI_LOC_GET_NTN_STATUS_IND_V02 (QMI_IDL_TYPE16 0 326) 18,
    service_entry QMI_LOC_NTN_CONFIG_UPDATE_IND_V02 (QMI_IDL_TYPE16 0 327) 11,
    service_entry QMI_LOC_EVENT_DBH_POSITION_IND_V02 (QMI_IDL_TYPE16 0 328) 540,
    service_entry QMI_LOC_SET_PRECISE_SESSION_CONFIG_IND_V02 (QMI_IDL_TYPE16 0 2) 7]"

definition loc_service_indication_messages_v02 :: "qmi_idl_service_message_table_entry list" where
  "loc_service_indication_messages_v02 = loc_service_indication_messages_v02_0 @ loc_service_indication_messages_v02_1"

text \<open>The service object, and the accessor that hands it out to a caller compiled against the
  same version of the interface; a null pointer is \<open>None\<close>.\<close>

definition loc_qmi_idl_service_object_v02 :: qmi_idl_service_object where
  "loc_qmi_idl_service_object_v02 = \<lparr>
    library_version = 0x06,
    idl_version = 0x02,
    service_id = 0x10,
    service_max_msg_len = 12379,
    msgid_to_msg = [loc_service_command_messages_v02, loc_service_response_messages_v02,
      loc_service_indication_messages_v02],
    idl_minor_version = 0xB1\<rparr>"

definition loc_get_service_object_internal_v02 ::
    "int \<Rightarrow> int \<Rightarrow> int \<Rightarrow> qmi_idl_service_object option" where
  "loc_get_service_object_internal_v02 idl_maj_version idl_min_version library_ver =
     (if LOC_V02_IDL_MAJOR_VERS \<noteq> idl_maj_version \<or> LOC_V02_IDL_MINOR_VERS \<noteq> idl_min_version
         \<or> LOC_V02_IDL_TOOL_VERS \<noteq> library_ver
      then None
      else Some loc_qmi_idl_service_object_v02)"

definition loc_get_service_object_v02 :: "qmi_idl_service_object option" where
  "loc_get_service_object_v02 =
     loc_get_service_object_internal_v02 LOC_V02_IDL_MAJOR_VERS LOC_V02_IDL_MINOR_VERS
       LOC_V02_IDL_TOOL_VERS"


end
