(* ===== verification/LocClientTables.thy ===== *)
theory LocClientTables
  imports LocService
begin

text \<open>
  The tables of \<open>loc_api/loc_api_v02/loc_api_v02_client.cpp\<close>: the size of the struct an event or a
  response indication is decoded into, by message identifier, and the cases of
  \<open>validateRequest\<close>, which give the size of the struct a request is encoded from.
\<close>

definition locClientEventIndTable_0 :: "(int \<times> int) list" where
  "locClientEventIndTable_0 = [
    (QMI_LOC_EVENT_POSITION_REPORT_IND_V02, csize qmiLocEventPositionReportIndMsgT_v02),
    (QMI_LOC_EVENT_GNSS_SV_INFO_IND_V02, csize qmiLocEventGnssSvInfoIndMsgT_v02),
    (QMI_LOC_EVENT_NMEA_IND_V02, csize qmiLocEventNmeaIndMsgT_v02),
    (QMI_LOC_EVENT_NI_NOTIFY_VERIFY_REQ_IND_V02, csize qmiLocEventNiNotifyVerifyReqIndMsgT_v02),
    (QMI_LOC_EVENT_INJECT_TIME_REQ_IND_V02, csize qmiLocEventInjectTimeReqIndMsgT_v02),
    (QMI_LOC_EVENT_INJECT_PREDICTED_ORBITS_REQ_IND_V02, csize qmiLocEventInjectPredictedOrbitsReqIndMsgT_v02),
    (QMI_LOC_EVENT_INJECT_POSITION_REQ_IND_V02, csize qmiLocEventInjectPositionReqIndMsgT_v02),
    (QMI_LOC_EVENT_ENGINE_STATE_IND_V02, csize qmiLocEventEngineStateIndMsgT_v02),
    (QMI_LOC_EVENT_FIX_SESSION_STATE_IND_V02, csize qmiLocEventFixSessionStateIndMsgT_v02),
    (QMI_LOC_EVENT_WIFI_REQ_IND_V02, csize qmiLocEventWifiReqIndMsgT_v02),
    (QMI_LOC_EVENT_SENSOR_STREAMING_READY_STATUS_IND_V02, csize qmiLocEventSensorStreamingReadyStatusIndMsgT_v02),
    (QMI_LOC_EVENT_TIME_SYNC_REQ_IND_V02, csize qmiLocEventTimeSyncReqIndMsgT_v02),
    (QMI_LOC_EVENT_SET_SPI_STREAMING_REPORT_IND_V02, csize qmiLocEventSetSpiStreamingReportIndMsgT_v02),
    (QMI_LOC_EVENT_LOCATION_SERVER_CONNECTION_REQ_IND_V02, csize qmiLocEventLocationServerConnectionReqIndMsgT_v02),
    (QMI_LOC_EVENT_NI_GEOFENCE_NOTIFICATION_IND_V02, csize qmiLocEventNiGeofenceNotificationIndMsgT_v02),
    (QMI_LOC_EVENT_GEOFENCE_GEN_ALERT_IND_V02, csize qmiLocEventGeofenceGenAlertIndMsgT_v02),
    (QMI_LOC_EVENT_GEOFENCE_BREACH_NOTIFICATION_IND_V02, csize qmiLocEventGeofenceBreachIndMsgT_v02),
    (QMI_LOC_EVENT_GEOFENCE_BATCHED_BREACH_NOTIFICATION_IND_V02, csize qmiLocEventGeofenceBatchedBreachIndMsgT_v02),
    (QMI_LOC_EVENT_PEDOMETER_CONTROL_IND_V02, csize qmiLocEventPedometerControlIndMsgT_v02),
    (QMI_LOC_EVENT_MOTION_DATA_CONTROL_IND_V02, csize qmiLocEventMotionDataControlIndMsgT_v02),
    (QMI_LOC_EVENT_INJECT_WIFI_AP_DATA_REQ_IND_V02, csize qmiLocEventInjectWifiApDataReqIndMsgT_v02),
    (QMI_LOC_EVENT_LIVE_BATCHED_POSITION_REPORT_IND_V02, csize qmiLocEventLiveBatchedPositionReportIndMsgT_v02),
    (QMI_LOC_EVENT_BATCH_FULL_NOTIFICATION_IND_V02, csize qmiLocEventBatchFullIndMsgT_v02),
    (QMI_LOC_EVENT_VEHICLE_DATA_READY_STATUS_IND_V02, csize qmiLocEventVehicleDataReadyIndMsgT_v02),
    (QMI_LOC_EVENT_GEOFENCE_PROXIMITY_NOTIFICATION_IND_V02, csize qmiLocEventGeofenceProximityIndMsgT_v02),
    (QMI_LOC_EVENT_GNSS_MEASUREMENT_REPORT_IND_V02, csize qmiLocEventGnssSvMeasInfoIndMsgT_v02),
    (QMI_LOC_EVENT_SV_POLYNOMIAL_REPORT_IND_V02, csize qmiLocEventGnssSvPolyIndMsgT_v02),
    (QMI_LOC_EVENT_GDT_UPLOAD_BEGIN_STATUS_REQ_IND_V02, csize qmiLocEventGdtUploadBeginStatusReqIndMsgT_v02),
    (QMI_LOC_EVENT_GDT_UPLOAD_END_REQ_IND_V02, csize qmiLocEventGdtUploadEndReqIndMsgT_v02),
    (QMI_LOC_EVENT_DBT_POSITION_REPORT_IND_V02, csize qmiLocEventDbtPositionReportIndMsgT_v02),
    (QMI_LOC_EVENT_GEOFENCE_BATCHED_DWELL_NOTIFICATION_IND_V02, csize qmiLocEventGeofenceBatchedDwellIndMsgT_v02),
    (QMI_LOC_EVENT_GET_TIME_ZONE_INFO_IND_V02, csize qmiLocEventGetTimeZoneReqIndMsgT_v02),
    (QMI_LOC_EVENT_BATCHING_STATUS_IND_V02, csize qmiLocEventBatchingStatusIndMsgT_v02),
    (QMI_LOC_EVENT_GDT_DOWNLOAD_BEGIN_REQ_IND_V02, csize qmiLocEventGdtDownloadBeginReqIndMsgT_v02),
    (QMI_LOC_EVENT_GDT_RECEIVE_DONE_IND_V02, csize qmiLocEventGdtReceiveDoneIndMsgT_v02),
    (QMI_LOC_EVENT_GDT_DOWNLOAD_END_REQ_IND_V02, csize qmiLocEventGdtDownloadEndReqIndMsgT_v02),
    (QMI_LOC_EVENT_INJECT_SRN_AP_DATA_REQ_IND_V02, csize qmiLocEventInjectSrnApDataReqIndMsgT_v02),
    (QMI_LOC_EVENT_FDCL_SERVICE_REQ_IND_V02, csize qmiLocEventFdclServiceReqIndMsgT_v02),
    (QMI_LOC_EVENT_UNPROPAGATED_POSITION_REPORT_IND_V02, csize qmiLocEventPositionReportIndMsgT_v02),
    (QMI_LOC_EVENT_BS_OBS_DATA_SERVICE_REQ_IND_V02, csize qmiLocEventBsObsDataServiceReqIndMsgT_v02),
    (QMI_LOC_EVENT_GPS_EPHEMERIS_REPORT_IND_V02, csize qmiLocGpsEphemerisReportIndMsgT_v02),
    (QMI_LOC_EVENT_GLONASS_EPHEMERIS_REPORT_IND_V02, csize qmiLocGloEphemerisReportIndMsgT_v02),
    (QMI_LOC_EVENT_BDS_EPHEMERIS_REPORT_IND_V02, csize qmiLocBdsEphemerisReportIndMsgT_v02),
    (QMI_LOC_EVENT_GALILEO_EPHEMERIS_REPORT_IND_V02, csize qmiLocGalEphemerisReportIndMsgT_v02),
    (QMI_LOC_EVENT_QZSS_EPHEMERIS_REPORT_IND_V02, csize qmiLocQzssEphemerisReportIndMsgT_v02)]"

definition locClientEventIndTable_1 :: "(int \<times> int) list" where
  "locClientEventIndTable_1 = [
    (QMI_LOC_EVENT_REPORT_IND_V02, csize qmiLocEventReportIndMsgT_v02),
    (QMI_LOC_SYSTEM_INFO_IND_V02, csize qmiLocSystemInfoIndMsgT_v02),
    (QMI_LOC_GET_BAND_MEASUREMENT_METRICS_IND_V02, csize qmiLocGetBandMeasurementMetricsIndMsgT_v02),
    (QMI_LOC_LOCATION_REQUEST_NOTIFICATION_IND_V02, csize qmiLocLocationRequestNotificationIndMsgT_v02),
    (QMI_LOC_EVENT_QUERY_XTRA_INFO_REQ_IND_V02, csize qmiLocEventQueryXtraInfoReqIndMsgT_v02),
    (QMI_LOC_LATENCY_INFORMATION_IND_V02, csize qmiLocLatencyInformationIndMsgT_v02),
    (QMI_LOC_EVENT_PLATFORM_POWER_STATE_CHANGED_IND_V02, csize qmiLocPlatformPowerStateChangedIndMsgT_v02),
    (QMI_LOC_EVENT_ENGINE_LOCK_STATE_IND_V02, csize qmiLocEventEngineLockStateIndMsgT_v02),
    (QMI_LOC_ENGINE_DEBUG_DATA_IND_V02, csize qmiLocEngineDebugDataIndMsgT_v02),
    (QMI_LOC_DC_REPORT_IND_V02, csize qmiLocEventDcReportIndMsgT_v02),
    (QMI_LOC_GNSS_BANDS_SUPPORTED_IND_V02, csize qmiLocGnssBandsSupportedIndMsgT_v02)]"

definition locClientEventIndTable :: "(int \<times> int) list" where
  "locClientEventIndTable = concat [locClientEventIndTable_0, locClientEventIndTable_1]"

definition locClientRespIndTable_0 :: "(int \<times> int) list" where
  "locClientRespIndTable_0 = [
    (QMI_LOC_GET_SERVICE_REVISION_IND_V02, csize qmiLocGetServiceRevisionIndMsgT_v02),
    (QMI_LOC_GET_FIX_CRITERIA_IND_V02, csize qmiLocGetFixCriteriaIndMsgT_v02),
    (QMI_LOC_NI_USER_RESPONSE_IND_V02, csize qmiLocNiUserRespIndMsgT_v02),
    (QMI_LOC_INJECT_PREDICTED_ORBITS_DATA_IND_V02, csize qmiLocInjectPredictedOrbitsDataIndMsgT_v02),
    (QMI_LOC_GET_PREDICTED_ORBITS_DATA_SOURCE_IND_V02, csize qmiLocGetPredictedOrbitsDataSourceIndMsgT_v02),
    (QMI_LOC_GET_PREDICTED_ORBITS_DATA_VALIDITY_IND_V02, csize qmiLocGetPredictedOrbitsDataValidityIndMsgT_v02),
    (QMI_LOC_INJECT_UTC_TIME_IND_V02, csize qmiLocInjectUtcTimeIndMsgT_v02),
    (QMI_LOC_INJECT_POSITION_IND_V02, csize qmiLocInjectPositionIndMsgT_v02),
    (QMI_LOC_SET_ENGINE_LOCK_IND_V02, csize qmiLocSetEngineLockIndMsgT_v02),
    (QMI_LOC_GET_ENGINE_LOCK_IND_V02, csize qmiLocGetEngineLockIndMsgT_v02),
    (QMI_LOC_SET_SBAS_CONFIG_IND_V02, csize qmiLocSetSbasConfigIndMsgT_v02),
    (QMI_LOC_GET_SBAS_CONFIG_IND_V02, csize qmiLocGetSbasConfigIndMsgT_v02),
    (QMI_LOC_SET_NMEA_TYPES_IND_V02, csize qmiLocSetNmeaTypesIndMsgT_v02),
    (QMI_LOC_GET_NMEA_TYPES_IND_V02, csize qmiLocGetNmeaTypesIndMsgT_v02),
    (QMI_LOC_SET_LOW_POWER_MODE_IND_V02, csize qmiLocSetLowPowerModeIndMsgT_v02),
    (QMI_LOC_GET_LOW_POWER_MODE_IND_V02, csize qmiLocGetLowPowerModeIndMsgT_v02),
    (QMI_LOC_SET_SERVER_IND_V02, csize qmiLocSetServerIndMsgT_v02),
    (QMI_LOC_GET_SERVER_IND_V02, csize qmiLocGetServerIndMsgT_v02),
    (QMI_LOC_DELETE_ASSIST_DATA_IND_V02, csize qmiLocDeleteAssistDataIndMsgT_v02),
    (QMI_LOC_INJECT_APCACHE_DATA_IND_V02, csize qmiLocInjectApCacheDataIndMsgT_v02),
    (QMI_LOC_INJECT_APDONOTCACHE_DATA_IND_V02, csize qmiLocInjectApDoNotCacheDataIndMsgT_v02),
    (QMI_LOC_SET_XTRA_T_SESSION_CONTROL_IND_V02, csize qmiLocSetXtraTSessionControlIndMsgT_v02),
    (QMI_LOC_GET_XTRA_T_SESSION_CONTROL_IND_V02, csize qmiLocGetXtraTSessionControlIndMsgT_v02),
    (QMI_LOC_INJECT_WIFI_POSITION_IND_V02, csize qmiLocInjectWifiPositionIndMsgT_v02),
    (QMI_LOC_NOTIFY_WIFI_STATUS_IND_V02, csize qmiLocNotifyWifiStatusIndMsgT_v02),
    (QMI_LOC_GET_REGISTERED_EVENTS_IND_V02, csize qmiLocGetRegisteredEventsIndMsgT_v02),
    (QMI_LOC_SET_OPERATION_MODE_IND_V02, csize qmiLocSetOperationModeIndMsgT_v02),
    (QMI_LOC_GET_OPERATION_MODE_IND_V02, csize qmiLocGetOperationModeIndMsgT_v02),
    (QMI_LOC_SET_SPI_STATUS_IND_V02, csize qmiLocSetSpiStatusIndMsgT_v02),
    (QMI_LOC_INJECT_SENSOR_DATA_IND_V02, csize qmiLocInjectSensorDataIndMsgT_v02),
    (QMI_LOC_INJECT_TIME_SYNC_DATA_IND_V02, csize qmiLocInjectTimeSyncDataIndMsgT_v02),
    (QMI_LOC_SET_CRADLE_MOUNT_CONFIG_IND_V02, csize qmiLocSetCradleMountConfigIndMsgT_v02),
    (QMI_LOC_GET_CRADLE_MOUNT_CONFIG_IND_V02, csize qmiLocGetCradleMountConfigIndMsgT_v02),
    (QMI_LOC_SET_EXTERNAL_POWER_CONFIG_IND_V02, csize qmiLocSetExternalPowerConfigIndMsgT_v02),
    (QMI_LOC_GET_EXTERNAL_POWER_CONFIG_IND_V02, csize qmiLocGetExternalPowerConfigIndMsgT_v02),
    (QMI_LOC_INFORM_LOCATION_SERVER_CONN_STATUS_IND_V02, csize qmiLocInformLocationServerConnStatusIndMsgT_v02),
    (QMI_LOC_SET_PROTOCOL_CONFIG_PARAMETERS_IND_V02, csize qmiLocSetProtocolConfigParametersIndMsgT_v02),
    (QMI_LOC_GET_PROTOCOL_CONFIG_PARAMETERS_IND_V02, csize qmiLocGetProtocolConfigParametersIndMsgT_v02),
    (QMI_LOC_SET_SENSOR_CONTROL_CONFIG_IND_V02, csize qmiLocSetSensorControlConfigIndMsgT_v02),
    (QMI_LOC_GET_SENSOR_CONTROL_CONFIG_IND_V02, csize qmiLocGetSensorControlConfigIndMsgT_v02),
    (QMI_LOC_SET_SENSOR_PROPERTIES_IND_V02, csize qmiLocSetSensorPropertiesIndMsgT_v02),
    (QMI_LOC_GET_SENSOR_PROPERTIES_IND_V02, csize qmiLocGetSensorPropertiesIndMsgT_v02),
    (QMI_LOC_SET_SENSOR_PERFORMANCE_CONTROL_CONFIGURATION_IND_V02, csize qmiLocSetSensorPerformanceControlConfigIndMsgT_v02),
    (QMI_LOC_GET_SENSOR_PERFORMANCE_CONTROL_CONFIGURATION_IND_V02, csize qmiLocGetSensorPerformanceControlConfigIndMsgT_v02),
    (QMI_LOC_INJECT_SUPL_CERTIFICATE_IND_V02, csize qmiLocInjectSuplCertificateIndMsgT_v02)]"

definition locClientRespIndTable_1 :: "(int \<times> int) list" where
  "locClientRespIndTable_1 = [
    (QMI_LOC_DELETE_SUPL_CERTIFICATE_IND_V02, csize qmiLocDeleteSuplCertificateIndMsgT_v02),
    (QMI_LOC_SET_POSITION_ENGINE_CONFIG_PARAMETERS_IND_V02, csize qmiLocSetPositionEngineConfigParametersIndMsgT_v02),
    (QMI_LOC_GET_POSITION_ENGINE_CONFIG_PARAMETERS_IND_V02, csize qmiLocGetPositionEngineConfigParametersIndMsgT_v02),
    (QMI_LOC_ADD_CIRCULAR_GEOFENCE_IND_V02, csize qmiLocAddCircularGeofenceIndMsgT_v02),
    (QMI_LOC_DELETE_GEOFENCE_IND_V02, csize qmiLocDeleteGeofenceIndMsgT_v02),
    (QMI_LOC_QUERY_GEOFENCE_IND_V02, csize qmiLocQueryGeofenceIndMsgT_v02),
    (QMI_LOC_EDIT_GEOFENCE_IND_V02, csize qmiLocEditGeofenceIndMsgT_v02),
    (QMI_LOC_GET_BEST_AVAILABLE_POSITION_IND_V02, csize qmiLocGetBestAvailablePositionIndMsgT_v02),
    (QMI_LOC_SECURE_GET_AVAILABLE_POSITION_IND_V02, csize qmiLocSecureGetAvailablePositionIndMsgT_v02),
    (QMI_LOC_INJECT_MOTION_DATA_IND_V02, csize qmiLocInjectMotionDataIndMsgT_v02),
    (QMI_LOC_GET_NI_GEOFENCE_ID_LIST_IND_V02, csize qmiLocGetNiGeofenceIdListIndMsgT_v02),
    (QMI_LOC_INJECT_GSM_CELL_INFO_IND_V02, csize qmiLocInjectGSMCellInfoIndMsgT_v02),
    (QMI_LOC_INJECT_NETWORK_INITIATED_MESSAGE_IND_V02, csize qmiLocInjectNetworkInitiatedMessageIndMsgT_v02),
    (QMI_LOC_WWAN_OUT_OF_SERVICE_NOTIFICATION_IND_V02, csize qmiLocWWANOutOfServiceNotificationIndMsgT_v02),
    (QMI_LOC_PEDOMETER_REPORT_IND_V02, csize qmiLocPedometerReportIndMsgT_v02),
    (QMI_LOC_INJECT_WCDMA_CELL_INFO_IND_V02, csize qmiLocInjectWCDMACellInfoIndMsgT_v02),
    (QMI_LOC_INJECT_TDSCDMA_CELL_INFO_IND_V02, csize qmiLocInjectTDSCDMACellInfoIndMsgT_v02),
    (QMI_LOC_INJECT_SUBSCRIBER_ID_IND_V02, csize qmiLocInjectSubscriberIDIndMsgT_v02),
    (QMI_LOC_INJECT_WIFI_AP_DATA_IND_V02, csize qmiLocInjectWifiApDataIndMsgT_v02),
    (QMI_LOC_START_BATCHING_IND_V02, csize qmiLocStartBatchingIndMsgT_v02),
    (QMI_LOC_STOP_BATCHING_IND_V02, csize qmiLocStopBatchingIndMsgT_v02),
    (QMI_LOC_GET_BATCH_SIZE_IND_V02, csize qmiLocGetBatchSizeIndMsgT_v02),
    (QMI_LOC_EVENT_LIVE_BATCHED_POSITION_REPORT_IND_V02, csize qmiLocEventLiveBatchedPositionReportIndMsgT_v02),
    (QMI_LOC_EVENT_BATCH_FULL_NOTIFICATION_IND_V02, csize qmiLocEventBatchFullIndMsgT_v02),
    (QMI_LOC_READ_FROM_BATCH_IND_V02, csize qmiLocReadFromBatchIndMsgT_v02),
    (QMI_LOC_RELEASE_BATCH_IND_V02, csize qmiLocReleaseBatchIndMsgT_v02),
    (QMI_LOC_SET_XTRA_VERSION_CHECK_IND_V02, csize qmiLocSetXtraVersionCheckIndMsgT_v02),
    (QMI_LOC_INJECT_VEHICLE_SENSOR_DATA_IND_V02, csize qmiLocInjectVehicleSensorDataIndMsgT_v02),
    (QMI_LOC_NOTIFY_WIFI_ATTACHMENT_STATUS_IND_V02, csize qmiLocNotifyWifiAttachmentStatusIndMsgT_v02),
    (QMI_LOC_NOTIFY_WIFI_ENABLED_STATUS_IND_V02, csize qmiLocNotifyWifiEnabledStatusIndMsgT_v02),
    (QMI_LOC_SET_PREMIUM_SERVICES_CONFIG_IND_V02, csize qmiLocSetPremiumServicesCfgIndMsgT_v02),
    (QMI_LOC_GET_AVAILABLE_WWAN_POSITION_IND_V02, csize qmiLocGetAvailWwanPositionIndMsgT_v02),
    (QMI_LOC_INJECT_GTP_CLIENT_DOWNLOADED_DATA_IND_V02, csize qmiLocInjectGtpClientDownloadedDataIndMsgT_v02),
    (QMI_LOC_GDT_UPLOAD_BEGIN_STATUS_IND_V02, csize qmiLocGdtUploadBeginStatusIndMsgT_v02),
    (QMI_LOC_GDT_UPLOAD_END_IND_V02, csize qmiLocGdtUploadEndIndMsgT_v02),
    (QMI_LOC_SET_GNSS_CONSTELL_REPORT_CONFIG_IND_V02, csize qmiLocSetGNSSConstRepConfigIndMsgT_v02),
    (QMI_LOC_START_DBT_IND_V02, csize qmiLocStartDbtIndMsgT_v02),
    (QMI_LOC_STOP_DBT_IND_V02, csize qmiLocStopDbtIndMsgT_v02),
    (QMI_LOC_INJECT_TIME_ZONE_INFO_IND_V02, csize qmiLocInjectTimeZoneInfoIndMsgT_v02),
    (QMI_LOC_QUERY_AON_CONFIG_IND_V02, csize qmiLocQueryAonConfigIndMsgT_v02),
    (QMI_LOC_GTP_AP_STATUS_IND_V02, csize qmiLocGtpApStatusIndMsgT_v02),
    (QMI_LOC_GDT_DOWNLOAD_BEGIN_STATUS_IND_V02, csize qmiLocGdtDownloadBeginStatusIndMsgT_v02),
    (QMI_LOC_GDT_DOWNLOAD_READY_STATUS_IND_V02, csize qmiLocGdtDownloadReadyStatusIndMsgT_v02),
    (QMI_LOC_GDT_RECEIVE_DONE_STATUS_IND_V02, csize qmiLocGdtReceiveDoneStatusIndMsgT_v02),
    (QMI_LOC_GDT_DOWNLOAD_END_STATUS_IND_V02, csize qmiLocGdtDownloadEndStatusIndMsgT_v02)]"

definition locClientRespIndTable_2 :: "(int \<times> int) list" where
  "locClientRespIndTable_2 = [
    (QMI_LOC_GET_SUPPORTED_FEATURE_IND_V02, csize qmiLocGetSupportedFeatureIndMsgT_v02),
    (QMI_LOC_DELETE_GNSS_SERVICE_DATA_IND_V02, csize qmiLocDeleteGNSSServiceDataIndMsgT_v02),
    (QMI_LOC_INJECT_XTRA_DATA_IND_V02, csize qmiLocInjectXtraDataIndMsgT_v02),
    (QMI_LOC_INJECT_XTRA_PCID_IND_V02, csize qmiLocInjectXtraPcidIndMsgT_v02),
    (QMI_LOC_INJECT_SRN_AP_DATA_IND_V02, csize qmiLocInjectSrnApDataIndMsgT_v02),
    (QMI_LOC_CROWDSOURCE_MANAGER_CONTROL_IND_V02, csize qmiLocCrowdSourceManagerControlIndMsgT_v02),
    (QMI_LOC_QUERY_XTRA_INFO_IND_V02, csize qmiLocQueryXtraInfoIndMsgT_v02),
    (QMI_LOC_START_OUTDOOR_TRIP_BATCHING_IND_V02, csize qmiLocStartOutdoorTripBatchingIndMsgT_v02),
    (QMI_LOC_QUERY_OTB_ACCUMULATED_DISTANCE_IND_V02, csize qmiLocQueryOTBAccumulatedDistanceIndMsgT_v02),
    (QMI_LOC_GET_FDCL_BS_LIST_IND_V02, csize qmiLocGetFdclBsListIndMsgT_v02),
    (QMI_LOC_INJECT_FDCL_DATA_IND_V02, csize qmiLocInjectFdclDataIndMsgT_v02),
    (QMI_LOC_GET_BS_OBS_DATA_IND_V02, csize qmiLocGetBsObsDataIndMsgT_v02),
    (QMI_LOC_SET_BLACKLIST_SV_IND_V02, csize qmiLocGenReqStatusIndMsgT_v02),
    (QMI_LOC_REGISTER_MASTER_CLIENT_IND_V02, csize qmiLocRegisterMasterClientIndMsgT_v02),
    (QMI_LOC_GET_BLACKLIST_SV_IND_V02, csize qmiLocGetBlacklistSvIndMsgT_v02),
    (QMI_LOC_SET_CONSTELLATION_CONTROL_IND_V02, csize qmiLocGenReqStatusIndMsgT_v02),
    (QMI_LOC_GET_CONSTELLATION_CONTROL_IND_V02, csize qmiLocGetConstellationConfigIndMsgT_v02),
    (QMI_LOC_SET_CONSTRAINED_TUNC_MODE_IND_V02, csize qmiLocSetConstrainedTuncModeIndMsgT_v02),
    (QMI_LOC_ENABLE_POSITION_ASSISTED_CLOCK_EST_IND_V02, csize qmiLocEnablePositionAssistedClockEstIndMsgT_v02),
    (QMI_LOC_QUERY_GNSS_ENERGY_CONSUMED_IND_V02, csize qmiLocQueryGNSSEnergyConsumedIndMsgT_v02),
    (QMI_LOC_INJECT_PLATFORM_POWER_STATE_IND_V02, csize qmiLocInjectPlatformPowerStateIndMsgT_v02),
    (QMI_LOC_SET_ROBUST_LOCATION_CONFIG_IND_V02, csize qmiLocGenReqStatusIndMsgT_v02),
    (QMI_LOC_GET_ROBUST_LOCATION_CONFIG_IND_V02, csize qmiLocGetRobustLocationConfigIndMsgT_v02),
    (QMI_LOC_INJECT_ENV_AIDING_IND_V02, csize qmiLocGenReqStatusIndMsgT_v02),
    (QMI_LOC_SET_MIN_GPS_WEEK_NUMBER_IND_V02, csize qmiLocGenReqStatusIndMsgT_v02),
    (QMI_LOC_GET_MIN_GPS_WEEK_NUMBER_IND_V02, csize qmiLocGetMinGpsWeekNumberIndMsgT_v02),
    (QMI_LOC_SET_PARAMETER_IND_V02, csize qmiLocGenReqStatusIndMsgT_v02),
    (QMI_LOC_GET_PARAMETER_IND_V02, csize qmiLocGetParameterIndMsgT_v02),
    (QMI_LOC_SET_MULTIBAND_CONFIG_IND_V02, csize qmiLocGenReqStatusIndMsgT_v02),
    (QMI_LOC_GET_MULTIBAND_CONFIG_IND_V02, csize qmiLocGetMultibandConfigIndMsgT_v02),
    (QMI_LOC_INJECT_LOCATION_CIVIC_ADDRESS_IND_V02, csize qmiLocGenReqStatusIndMsgT_v02),
    (QMI_LOC_SET_TRIBAND_STATE_IND_V02, csize qmiLocGenReqStatusIndMsgT_v02),
    (QMI_LOC_GET_TRIBAND_STATE_IND_V02, csize qmiLocGetTribandStateIndMsgT_v02),
    (QMI_LOC_SET_SDK_FEATURE_CONFIG_IND_V02, csize qmiLocSetSdkFeatureConfigIndMsgT_v02),
    (QMI_LOC_OSNMA_PUBLIC_KEY_MERKLE_TREE_IND_V02, csize qmiLocGenReqStatusIndMsgT_v02),
    (QMI_LOC_SET_OSNMA_STATE_IND_V02, csize qmiLocGenReqStatusIndMsgT_v02),
    (QMI_LOC_SET_NTN_STATUS_IND_V02, csize qmiLocSetNtnStatusIndMsgT_v02),
    (QMI_LOC_GET_NTN_STATUS_IND_V02, csize qmiLocGetNtnStatusIndMsgT_v02),
    (QMI_LOC_NTN_CONFIG_UPDATE_IND_V02, csize qmiLocNtnConfigUpdateIndMsgT_v02)]"

definition locClientRespIndTable :: "(int \<times> int) list" where
  "locClientRespIndTable = concat [locClientRespIndTable_0, locClientRespIndTable_1, locClientRespIndTable_2]"

text \<open>The cases of \<open>validateRequest\<close>: the requests with a payload and its size, and those
  without one.\<close>

definition request_sizes_0 :: "(int \<times> int) list" where
  "request_sizes_0 = [
    (QMI_LOC_INFORM_CLIENT_REVISION_REQ_V02, csize qmiLocInformClientRevisionReqMsgT_v02),
    (QMI_LOC_REG_EVENTS_REQ_V02, csize qmiLocRegEventsReqMsgT_v02),
    (QMI_LOC_START_REQ_V02, csize qmiLocStartReqMsgT_v02),
    (QMI_LOC_STOP_REQ_V02, csize qmiLocStopReqMsgT_v02),
    (QMI_LOC_NI_USER_RESPONSE_REQ_V02, csize qmiLocNiUserRespReqMsgT_v02),
    (QMI_LOC_INJECT_PREDICTED_ORBITS_DATA_REQ_V02, csize qmiLocInjectPredictedOrbitsDataReqMsgT_v02),
    (QMI_LOC_INJECT_UTC_TIME_REQ_V02, csize qmiLocInjectUtcTimeReqMsgT_v02),
    (QMI_LOC_INJECT_POSITION_REQ_V02, csize qmiLocInjectPositionReqMsgT_v02),
    (QMI_LOC_SET_ENGINE_LOCK_REQ_V02, csize qmiLocSetEngineLockReqMsgT_v02),
    (QMI_LOC_SET_SBAS_CONFIG_REQ_V02, csize qmiLocSetSbasConfigReqMsgT_v02),
    (QMI_LOC_SET_NMEA_TYPES_REQ_V02, csize qmiLocSetNmeaTypesReqMsgT_v02),
    (QMI_LOC_SET_LOW_POWER_MODE_REQ_V02, csize qmiLocSetLowPowerModeReqMsgT_v02),
    (QMI_LOC_SET_SERVER_REQ_V02, csize qmiLocSetServerReqMsgT_v02),
    (QMI_LOC_DELETE_ASSIST_DATA_REQ_V02, csize qmiLocDeleteAssistDataReqMsgT_v02),
    (QMI_LOC_INJECT_APCACHE_DATA_REQ_V02, csize qmiLocInjectApCacheDataReqMsgT_v02),
    (QMI_LOC_INJECT_APDONOTCACHE_DATA_REQ_V02, csize qmiLocInjectApDoNotCacheDataReqMsgT_v02),
    (QMI_LOC_SET_XTRA_T_SESSION_CONTROL_REQ_V02, csize qmiLocSetXtraTSessionControlReqMsgT_v02),
    (QMI_LOC_INJECT_WIFI_POSITION_REQ_V02, csize qmiLocInjectWifiPositionReqMsgT_v02),
    (QMI_LOC_NOTIFY_WIFI_STATUS_REQ_V02, csize qmiLocNotifyWifiStatusReqMsgT_v02),
    (QMI_LOC_SET_OPERATION_MODE_REQ_V02, csize qmiLocSetOperationModeReqMsgT_v02),
    (QMI_LOC_SET_SPI_STATUS_REQ_V02, csize qmiLocSetSpiStatusReqMsgT_v02),
    (QMI_LOC_INJECT_SENSOR_DATA_REQ_V02, csize qmiLocInjectSensorDataReqMsgT_v02),
    (QMI_LOC_INJECT_TIME_SYNC_DATA_REQ_V02, csize qmiLocInjectTimeSyncDataReqMsgT_v02),
    (QMI_LOC_SET_CRADLE_MOUNT_CONFIG_REQ_V02, csize qmiLocSetCradleMountConfigReqMsgT_v02)]"

definition request_sizes_1 :: "(int \<times> int) list" where
  "request_sizes_1 = [
    (QMI_LOC_SET_EXTERNAL_POWER_CONFIG_REQ_V02, csize qmiLocSetExternalPowerConfigReqMsgT_v02),
    (QMI_LOC_INFORM_LOCATION_SERVER_CONN_STATUS_REQ_V02, csize qmiLocInformLocationServerConnStatusReqMsgT_v02),
    (QMI_LOC_SET_PROTOCOL_CONFIG_PARAMETERS_REQ_V02, csize qmiLocSetProtocolConfigParametersReqMsgT_v02),
    (QMI_LOC_GET_PROTOCOL_CONFIG_PARAMETERS_REQ_V02, csize qmiLocGetProtocolConfigParametersReqMsgT_v02),
    (QMI_LOC_SET_SENSOR_CONTROL_CONFIG_REQ_V02, csize qmiLocSetSensorControlConfigReqMsgT_v02),
    (QMI_LOC_GET_SENSOR_PROPERTIES_REQ_V02, csize qmiLocGetSensorPropertiesReqMsgT_v02),
    (QMI_LOC_SET_SENSOR_PROPERTIES_REQ_V02, csize qmiLocSetSensorPropertiesReqMsgT_v02),
    (QMI_LOC_SET_SENSOR_PERFORMANCE_CONTROL_CONFIGURATION_REQ_V02, csize qmiLocSetSensorPerformanceControlConfigReqMsgT_v02),
    (QMI_LOC_INJECT_SUPL_CERTIFICATE_REQ_V02, csize qmiLocInjectSuplCertificateReqMsgT_v02),
    (QMI_LOC_DELETE_SUPL_CERTIFICATE_REQ_V02, csize qmiLocDeleteSuplCertificateReqMsgT_v02),
    (QMI_LOC_SET_POSITION_ENGINE_CONFIG_PARAMETERS_REQ_V02, csize qmiLocSetPositionEngineConfigParametersReqMsgT_v02),
    (QMI_LOC_GET_POSITION_ENGINE_CONFIG_PARAMETERS_REQ_V02, csize qmiLocGetPositionEngineConfigParametersReqMsgT_v02),
    (QMI_LOC_ADD_CIRCULAR_GEOFENCE_REQ_V02, csize qmiLocAddCircularGeofenceReqMsgT_v02),
    (QMI_LOC_DELETE_GEOFENCE_REQ_V02, csize qmiLocDeleteGeofenceReqMsgT_v02),
    (QMI_LOC_QUERY_GEOFENCE_REQ_V02, csize qmiLocQueryGeofenceReqMsgT_v02),
    (QMI_LOC_EDIT_GEOFENCE_REQ_V02, csize qmiLocEditGeofenceReqMsgT_v02),
    (QMI_LOC_GET_BEST_AVAILABLE_POSITION_REQ_V02, csize qmiLocGetBestAvailablePositionReqMsgT_v02),
    (QMI_LOC_SECURE_GET_AVAILABLE_POSITION_REQ_V02, csize qmiLocSecureGetAvailablePositionReqMsgT_v02),
    (QMI_LOC_INJECT_MOTION_DATA_REQ_V02, csize qmiLocInjectMotionDataReqMsgT_v02),
    (QMI_LOC_GET_NI_GEOFENCE_ID_LIST_REQ_V02, csize qmiLocGetNiGeofenceIdListReqMsgT_v02),
    (QMI_LOC_INJECT_GSM_CELL_INFO_REQ_V02, csize qmiLocInjectGSMCellInfoReqMsgT_v02),
    (QMI_LOC_INJECT_NETWORK_INITIATED_MESSAGE_REQ_V02, csize qmiLocInjectNetworkInitiatedMessageReqMsgT_v02),
    (QMI_LOC_PEDOMETER_REPORT_REQ_V02, csize qmiLocPedometerReportReqMsgT_v02),
    (QMI_LOC_INJECT_WCDMA_CELL_INFO_REQ_V02, csize qmiLocInjectWCDMACellInfoReqMsgT_v02)]"

definition request_sizes_2 :: "(int \<times> int) list" where
  "request_sizes_2 = [
    (QMI_LOC_INJECT_TDSCDMA_CELL_INFO_REQ_V02, csize qmiLocInjectTDSCDMACellInfoReqMsgT_v02),
    (QMI_LOC_INJECT_SUBSCRIBER_ID_REQ_V02, csize qmiLocInjectSubscriberIDReqMsgT_v02),
    (QMI_LOC_INJECT_WIFI_AP_DATA_REQ_V02, csize qmiLocInjectWifiApDataReqMsgT_v02),
    (QMI_LOC_GET_BATCH_SIZE_REQ_V02, csize qmiLocGetBatchSizeReqMsgT_v02),
    (QMI_LOC_START_BATCHING_REQ_V02, csize qmiLocStartBatchingReqMsgT_v02),
    (QMI_LOC_READ_FROM_BATCH_REQ_V02, csize qmiLocReadFromBatchReqMsgT_v02),
    (QMI_LOC_STOP_BATCHING_REQ_V02, csize qmiLocStopBatchingReqMsgT_v02),
    (QMI_LOC_RELEASE_BATCH_REQ_V02, csize qmiLocReleaseBatchReqMsgT_v02),
    (QMI_LOC_SET_XTRA_VERSION_CHECK_REQ_V02, csize qmiLocSetXtraVersionCheckReqMsgT_v02),
    (QMI_LOC_INJECT_VEHICLE_SENSOR_DATA_REQ_V02, csize qmiLocInjectVehicleSensorDataReqMsgT_v02),
    (QMI_LOC_NOTIFY_WIFI_ATTACHMENT_STATUS_REQ_V02, csize qmiLocNotifyWifiAttachmentStatusReqMsgT_v02),
    (QMI_LOC_NOTIFY_WIFI_ENABLED_STATUS_REQ_V02, csize qmiLocNotifyWifiEnabledStatusReqMsgT_v02),
    (QMI_LOC_SET_PREMIUM_SERVICES_CONFIG_REQ_V02, csize qmiLocSetPremiumServicesCfgReqMsgT_v02),
    (QMI_LOC_GET_AVAILABLE_WWAN_POSITION_REQ_V02, csize qmiLocGetAvailWwanPositionReqMsgT_v02),
    (QMI_LOC_INJECT_GTP_CLIENT_DOWNLOADED_DATA_REQ_V02, csize qmiLocInjectGtpClientDownloadedDataReqMsgT_v02),
    (QMI_LOC_GDT_UPLOAD_BEGIN_STATUS_REQ_V02, csize qmiLocGdtUploadBeginStatusReqMsgT_v02),
    (QMI_LOC_GDT_UPLOAD_END_REQ_V02, csize qmiLocGdtUploadEndReqMsgT_v02),
    (QMI_LOC_SET_GNSS_CONSTELL_REPORT_CONFIG_V02, csize qmiLocSetGNSSConstRepConfigReqMsgT_v02),
    (QMI_LOC_START_DBT_REQ_V02, csize qmiLocStartDbtReqMsgT_v02),
    (QMI_LOC_STOP_DBT_REQ_V02, csize qmiLocStopDbtReqMsgT_v02),
    (QMI_LOC_INJECT_TIME_ZONE_INFO_REQ_V02, csize qmiLocInjectTimeZoneInfoReqMsgT_v02),
    (QMI_LOC_QUERY_AON_CONFIG_REQ_V02, csize qmiLocQueryAonConfigReqMsgT_v02),
    (QMI_LOC_GTP_AP_STATUS_REQ_V02, csize qmiLocGtpApStatusReqMsgT_v02),
    (QMI_LOC_GDT_DOWNLOAD_BEGIN_STATUS_REQ_V02, csize qmiLocGdtDownloadBeginStatusReqMsgT_v02)]"

definition request_sizes_3 :: "(int \<times> int) list" where
  "request_sizes_3 = [
    (QMI_LOC_GDT_DOWNLOAD_READY_STATUS_REQ_V02, csize qmiLocGdtDownloadReadyStatusReqMsgT_v02),
    (QMI_LOC_GDT_RECEIVE_DONE_STATUS_REQ_V02, csize qmiLocGdtReceiveDoneStatusReqMsgT_v02),
    (QMI_LOC_GDT_DOWNLOAD_END_STATUS_REQ_V02, csize qmiLocGdtDownloadEndStatusReqMsgT_v02),
    (QMI_LOC_GET_SUPPORTED_FEATURE_REQ_V02, csize qmiLocGetSupportedFeatureReqMsgT_v02),
    (QMI_LOC_DELETE_GNSS_SERVICE_DATA_REQ_V02, csize qmiLocDeleteGNSSServiceDataReqMsgT_v02),
    (QMI_LOC_INJECT_XTRA_DATA_REQ_V02, csize qmiLocInjectXtraDataReqMsgT_v02),
    (QMI_LOC_INJECT_XTRA_PCID_REQ_V02, csize qmiLocInjectXtraPcidReqMsgT_v02),
    (QMI_LOC_INJECT_SRN_AP_DATA_REQ_V02, csize qmiLocInjectSrnApDataReqMsgT_v02),
    (QMI_LOC_CROWDSOURCE_MANAGER_CONTROL_REQ_V02, csize qmiLocCrowdSourceManagerControlReqMsgT_v02),
    (QMI_LOC_CROWDSOURCE_MANAGER_READ_DATA_REQ_V02, csize qmiLocCrowdSourceManagerReadDataReqMsgT_v02),
    (QMI_LOC_QUERY_XTRA_INFO_REQ_V02, csize qmiLocQueryXtraInfoReqMsgT_v02),
    (QMI_LOC_START_OUTDOOR_TRIP_BATCHING_REQ_V02, csize qmiLocStartOutdoorTripBatchingReqMsgT_v02),
    (QMI_LOC_GET_FDCL_BS_LIST_REQ_V02, csize qmiLocGetFdclBsListReqMsgT_v02),
    (QMI_LOC_INJECT_FDCL_DATA_REQ_V02, csize qmiLocInjectFdclDataReqMsgT_v02),
    (QMI_LOC_SET_BLACKLIST_SV_REQ_V02, csize qmiLocSetBlacklistSvReqMsgT_v02),
    (QMI_LOC_SET_CONSTELLATION_CONTROL_REQ_V02, csize qmiLocSetConstellationConfigReqMsgT_v02),
    (QMI_LOC_REGISTER_MASTER_CLIENT_REQ_V02, csize qmiLocRegisterMasterClientReqMsgT_v02),
    (QMI_LOC_GET_BS_OBS_DATA_REQ_V02, csize qmiLocGetBsObsDataReqMsgT_v02),
    (QMI_LOC_SET_CONSTRAINED_TUNC_MODE_REQ_V02, csize qmiLocSetConstrainedTuncModeReqMsgT_v02),
    (QMI_LOC_ENABLE_POSITION_ASSISTED_CLOCK_EST_REQ_V02, csize qmiLocEnablePositionAssistedClockEstReqMsgT_v02),
    (QMI_LOC_QUERY_GNSS_ENERGY_CONSUMED_REQ_V02, csize qmiLocQueryGNSSEnergyConsumedReqMsgT_v02),
    (QMI_LOC_INJECT_PLATFORM_POWER_STATE_REQ_V02, csize qmiLocInjectPlatformPowerStateReqMsgT_v02),
    (QMI_LOC_SET_ROBUST_LOCATION_CONFIG_REQ_V02, csize qmiLocSetRobustLocationReqMsgT_v02),
    (QMI_LOC_INJECT_ENV_AIDING_REQ_V02, csize qmiLocEventInjectEnvAidingReqMsgT_v02)]"

definition request_sizes_4 :: "(int \<times> int) list" where
  "request_sizes_4 = [
    (QMI_LOC_SET_MIN_GPS_WEEK_NUMBER_REQ_V02, csize qmiLocSetMinGpsWeekNumberReqMsgT_v02),
    (QMI_LOC_SET_PARAMETER_REQ_V02, csize qmiLocSetParameterReqMsgT_v02),
    (QMI_LOC_GET_PARAMETER_REQ_V02, csize qmiLocGetParameterReqMsgT_v02),
    (QMI_LOC_SET_MULTIBAND_CONFIG_REQ_V02, csize qmiLocSetMultibandConfigReqMsgT_v02),
    (QMI_LOC_INJECT_LOCATION_CIVIC_ADDRESS_REQ_V02, csize qmiLocInjectLocationCivicAddressReqMsgT_v02),
    (QMI_LOC_INJECT_RAW_DATA_REQ_V02, csize qmiLocInjectRawDataReqMsgT_v02),
    (QMI_LOC_SET_TRIBAND_STATE_REQ_V02, csize qmiLocSetTribandStateReqMsgT_v02),
    (QMI_LOC_SET_SDK_FEATURE_CONFIG_REQ_V02, csize qmiLocSetSdkFeatureConfigReqMsgT_v02),
    (QMI_LOC_OSNMA_PUBLIC_KEY_MERKLE_TREE_REQ_V02, csize qmiLocOsnmaPublicKeyMerkleTreeReqMsgT_v02),
    (QMI_LOC_SET_OSNMA_STATE_REQ_V02, csize qmiLocSetOsnmaStateReqMsgT_v02),
    (QMI_LOC_SET_NTN_STATUS_REQ_V02, csize qmiLocSetNtnStatusReqMsgT_v02)]"

definition request_sizes :: "(int \<times> int) list" where
  "request_sizes = concat [request_sizes_0, request_sizes_1, request_sizes_2, request_sizes_3, request_sizes_4]"

definition no_payload_requests :: "int list" where
  "no_payload_requests = [
    QMI_LOC_GET_SERVICE_REVISION_REQ_V02,
    QMI_LOC_GET_FIX_CRITERIA_REQ_V02,
    QMI_LOC_GET_PREDICTED_ORBITS_DATA_SOURCE_REQ_V02,
    QMI_LOC_GET_PREDICTED_ORBITS_DATA_VALIDITY_REQ_V02,
    QMI_LOC_GET_ENGINE_LOCK_REQ_V02,
    QMI_LOC_GET_SBAS_CONFIG_REQ_V02,
    QMI_LOC_GET_NMEA_TYPES_REQ_V02,
    QMI_LOC_GET_LOW_POWER_MODE_REQ_V02,
    QMI_LOC_GET_SERVER_REQ_V02,
    QMI_LOC_GET_XTRA_T_SESSION_CONTROL_REQ_V02,
    QMI_LOC_GET_REGISTERED_EVENTS_REQ_V02,
    QMI_LOC_GET_OPERATION_MODE_REQ_V02,
    QMI_LOC_GET_CRADLE_MOUNT_CONFIG_REQ_V02,
    QMI_LOC_GET_EXTERNAL_POWER_CONFIG_REQ_V02,
    QMI_LOC_GET_SENSOR_CONTROL_CONFIG_REQ_V02,
    QMI_LOC_GET_SENSOR_PERFORMANCE_CONTROL_CONFIGURATION_REQ_V02,
    QMI_LOC_WWAN_OUT_OF_SERVICE_NOTIFICATION_REQ_V02,
    QMI_LOC_GET_SUPPORTED_MSGS_REQ_V02,
    QMI_LOC_GET_SUPPORTED_FIELDS_REQ_V02,
    QMI_LOC_QUERY_OTB_ACCUMULATED_DISTANCE_REQ_V02,
    QMI_LOC_GET_BLACKLIST_SV_REQ_V02,
    QMI_LOC_GET_CONSTELLATION_CONTROL_REQ_V02,
    QMI_LOC_GET_ROBUST_LOCATION_CONFIG_REQ_V02,
    QMI_LOC_GET_MIN_GPS_WEEK_NUMBER_REQ_V02,
    QMI_LOC_GET_MULTIBAND_CONFIG_REQ_V02,
    QMI_LOC_GET_NTN_STATUS_REQ_V02]"

end
