(* ===== verification/LocChecks.thy ===== *)
theory LocChecks
  imports LocService
begin

text \<open>
  The tables of the location service, checked entry by entry: every aggregate type and every
  message is described as its C struct is laid out, the lengths of the service tables are those
  of the longest encodings, and the tables are sorted by message identifier.
\<close>

section \<open>The types\<close>

text \<open>The C size, the longest wire form and the shape of every aggregate type, in the order of the
  type table. The first entry of the common table describes \<open>qmi_response_type_v01\<close>; its
  description is not in this repository, and the wire form of the two 16 bit codes is 4 bytes.\<close>

definition loc_type_infos :: "type_info list" where
  "loc_type_infos = [
    TypeInfo 68 68 [-25, 1, -33, 1, 1, -9, 1, 0],
    TypeInfo 8 8 [4, 4, 0],
    TypeInfo 8 6 [2, 4, 0],
    TypeInfo 12 12 [4, 4, 4, 0],
    TypeInfo 20 20 [4, 4, 4, 4, 4, 0],
    TypeInfo 8 8 [4, 4, 0],
    TypeInfo 8 8 [4, 4, 0],
    TypeInfo 16 16 [8, 4, 4, 0],
    TypeInfo 20 18 [4, 2, 4, 4, 4, 0],
    TypeInfo 32 28 [4, 4, 2, 1, 4, 1, 4, 4, 4, 0],
    TypeInfo 36 29 [4, 4, 2, 1, 4, 1, 4, 4, 4, 0, 1, 0],
    TypeInfo 228 221 [1, 1, 4, 4, 4, 4, 4, -200, 1, 2, 0],
    TypeInfo 72 69 [4, 4, -64, 1, 0],
    TypeInfo 8 6 [1, 1, 1, 2, 1, 0],
    TypeInfo 8 6 [4, 2, 0],
    TypeInfo 20 20 [-8, 2, 4, 0],
    TypeInfo 288 283 [1, 4, 2, 0, -8, 2, 4, 0, -256, 1, 0],
    TypeInfo 468 453 [4, 1, 4, 2, 0, -8, 2, 4, 0, -256, 1, 0, -4, 1, -8, 1, 4, 4, 4, 4, -64, 1, 0, 4, 4, -64, 1, 0, 1, 1, 1, 2, 1, 0, 2, 0],
    TypeInfo 28 25 [4, 4, -20, 1, 0],
    TypeInfo 164 150 [2, 1, 4, 4, -64, 1, 4, -20, 1, 4, 4, 4, -20, 1, 0, 4, 4, -20, 1, 0, 1, 2, 0],
    TypeInfo 232 225 [1, 1, 4, 4, 4, 4, 4, -200, 1, 2, 0, 4, 0],
    TypeInfo 12 8 [2, 4, 2, 0],
    TypeInfo 256 256 [-256, 1, 0],
    TypeInfo 256 256 [-256, 1, 0],
    TypeInfo 776 773 [4, 4, -3, -256, 1, 0, 0],
    TypeInfo 8 8 [4, 4, 0],
    TypeInfo 772 769 [4, -3, -256, 1, 0, 0],
    TypeInfo 8 8 [4, 4, 0],
    TypeInfo 4 4 [2, 2, 0],
    TypeInfo 6 5 [1, 2, 2, 0, 0],
    TypeInfo 80 61 [8, 8, 8, 4, 4, 4, 1, 4, 1, 4, 1, 4, 1, 4, 1, 4, 0],
    TypeInfo 8 8 [4, 4, 0],
    TypeInfo 16 10 [8, 2, 0],
    TypeInfo 12 12 [4, 4, 4, 0],
    TypeInfo 12 7 [2, 4, 1, 0],
    TypeInfo 4 3 [2, 1, 0],
    TypeInfo 4 3 [2, 1, 0],
    TypeInfo 4 4 [4, 0],
    TypeInfo 24 23 [8, 8, 2, 1, 4, 0],
    TypeInfo 16 13 [-6, 1, 4, 2, 1, 0],
    TypeInfo 33 33 [-33, 1, 0],
    TypeInfo 16 14 [2, 4, 4, 4, 0],
    TypeInfo 812 706 [4, 1, 4, -50, 2, 4, 4, 4, 0, 0],
    TypeInfo 8 6 [2, 4, 0],
    TypeInfo 412 309 [4, 4, 4, -50, 2, 4, 0, 0],
    TypeInfo 108 105 [4, -101, 1, 0],
    TypeInfo 24 20 [8, 8, 4, 0],
    TypeInfo 8 8 [4, 4, 0],
    TypeInfo 16 16 [8, 8, 0],
    TypeInfo 16 16 [4, 4, 4, 2, 2, 0],
    TypeInfo 16 16 [4, 4, 4, 4, 0],
    TypeInfo 12 12 [4, 4, 4, 0],
    TypeInfo 16 16 [4, 4, 4, 4, 0],
    TypeInfo 96 87 [4, 8, 8, 8, 4, 4, 4, 4, 4, 4, 4, 4, 8, 4, 4, 4, 1, 2, 4, 0, 0],
    TypeInfo 56 49 [4, -6, 1, 4, 4, 4, 4, 4, 2, 4, 4, 1, 4, 4, 0],
    TypeInfo 64 54 [8, 4, 1, 4, -33, 1, 4, 0],
    TypeInfo 20 17 [4, 4, -3, 4, 0],
    TypeInfo 1312 1111 [4, 1, 4, -65, 4, 4, -3, 4, 0, 0],
    TypeInfo 20 17 [4, 4, -3, 4, 0],
    TypeInfo 1320 1122 [4, 4, 4, 4, 4, -65, 4, 4, -3, 4, 0, 0],
    TypeInfo 12 12 [4, 4, 4, 0],
    TypeInfo 2 2 [1, 1, 0],
    TypeInfo 12 9 [1, 4, 4, 0],
    TypeInfo 16 15 [1, 2, 4, 4, 4, 0],
    TypeInfo 24 17 [4, 1, 8, 4, 0],
    TypeInfo 28 25 [4, 4, 4, 4, 4, 1, 4, 0],
    TypeInfo 112 90 [2, 1, 4, 2, 1, 1, 8, 8, 2, 2, 4, 4, 4, 4, 4, 4, 1, 4, 0, 1, 4, 4, 4, 8, 1, 4, 4, 0],
    TypeInfo 24 20 [8, 4, 4, 4, 0],
    TypeInfo 8 5 [1, 4, 0],
    TypeInfo 6 6 [-6, 1, 0],
    TypeInfo 44 41 [-33, 1, 4, 4, 0],
    TypeInfo 3 3 [1, 1, 1, 0],
    TypeInfo 80 61 [8, 8, 8, 4, 4, 4, 1, 4, 1, 4, 1, 4, 1, 4, 1, 4, 0],
    TypeInfo 24 20 [8, 4, 4, 4, 0],
    TypeInfo 8 7 [1, 2, 4, 0],
    TypeInfo 8 8 [8, 0],
    TypeInfo 8 8 [4, 4, 0],
    TypeInfo 56 56 [-56, 1, 0],
    TypeInfo 24 22 [4, -6, 1, 4, 8, 0],
    TypeInfo 16 11 [1, 1, 1, 1, 1, 4, 2, 0],
    TypeInfo 6 6 [1, 1, 1, 1, 2, 0],
    TypeInfo 1568 1559 [4, 2, 8, 4, -3, -256, 1, 0, 0, 4, 4, -3, -256, 1, 0, 0, 1, 2, 0],
    TypeInfo 2 2 [1, 1, 0],
    TypeInfo 2 2 [1, 1, 0],
    TypeInfo 12 9 [1, 4, 4, 0],
    TypeInfo 6 6 [1, 1, 1, 1, 1, 1, 0],
    TypeInfo 40 34 [8, 8, 4, 4, 4, 1, 1, 1, 1, 1, 1, 0, 0],
    TypeInfo 20 20 [4, 4, 4, 4, 4, 0],
    TypeInfo 72 62 [4, 4, 4, 4, 4, 4, 0, 8, 8, 4, 1, 4, 4, 4, 1, 4, 0],
    TypeInfo 28 18 [1, 2, 4, 0, 1, 1, 1, 2, 4, 0, 1, 1, 0],
    TypeInfo 112 100 [8, 4, 4, 4, 4, 4, 0, 2, 4, 4, 4, 4, 4, 8, 8, 8, 8, 4, 4, 4, 1, 1, 1, 1, 1, 1, 0, 0, 0],
    TypeInfo 168 160 [2, 4, 2, 8, 8, 8, 8, 8, 8, 8, 8, 8, 8, 8, 8, 8, 8, 8, 4, 4, 8, 8, 8, 0],
    TypeInfo 192 175 [2, 4, 2, 8, 8, 8, 8, 8, 8, 8, 8, 8, 8, 8, 8, 8, 8, 8, 4, 4, 8, 8, 8, 0, 1, 1, 1, 1, 8, 1, 2, 0],
    TypeInfo 64 62 [2, 2, 4, 4, 4, 4, 1, 1, 1, 1, 8, 2, 4, 8, 8, 8, 0],
    TypeInfo 120 109 [2, 4, 1, 1, 1, 1, 1, 1, 1, 1, 1, 4, -3, 8, -3, 8, -3, 8, 4, 4, 8, 2, 0],
    TypeInfo 200 179 [2, 4, 2, 8, 8, 8, 8, 8, 8, 8, 8, 8, 8, 8, 8, 8, 8, 8, 4, 4, 8, 8, 8, 0, 1, 1, 8, 8, 1, 0],
    TypeInfo 56 50 [2, 2, 4, 4, 4, 4, 1, 4, 1, 8, 8, 8, 0],
    TypeInfo 200 182 [2, 4, 2, 8, 8, 8, 8, 8, 8, 8, 8, 8, 8, 8, 8, 8, 8, 8, 4, 4, 8, 8, 8, 0, 4, 1, 8, 8, 1, 0],
    TypeInfo 36 36 [4, 4, 4, 4, 4, 4, 4, 4, 4, 0],
    TypeInfo 20 20 [4, 4, 4, 4, 4, 0],
    TypeInfo 8 8 [2, 2, 4, 0],
    TypeInfo 4 3 [1, 2, 0],
    TypeInfo 32 32 [8, 8, 8, 8, 0],
    TypeInfo 64 62 [8, 4, 2, 4, 4, 4, 4, 8, 8, 8, 8, 0, 0],
    TypeInfo 8 8 [2, 1, 1, 4, 0],
    TypeInfo 12 12 [4, 4, 4, 0],
    TypeInfo 40 35 [1, 1, 4, -32, 1, 0]]"

definition resp_info :: type_info where
  "resp_info = TypeInfo 8 4 [4, 4, 0]"

definition loc_info :: "type_info list \<Rightarrow> type_lookup" where
  "loc_info common tab i =
     (if tab = 0 then nth_int loc_type_infos i
      else if tab = 1 then nth_int common i else None)"

lemma resp_info_struct:
  "resp_info = TypeInfo (csize qmi_response_type_v01) 4 (shape qmi_response_type_v01)"
  by code_simp

lemma loc_types_0: "types_described (loc_info (resp_info # common)) 0 loc_type_table_v02_0"
  by code_simp

lemma loc_types_1: "types_described (loc_info (resp_info # common)) 36 loc_type_table_v02_1"
  by code_simp

lemma loc_types_2: "types_described (loc_info (resp_info # common)) 72 loc_type_table_v02_2"
  by code_simp

lemma length_loc_types:
  "length loc_type_table_v02_0 = 36" "length loc_type_table_v02_1 = 36"
  by (simp_all add: loc_type_table_v02_0_def loc_type_table_v02_1_def)

lemma loc_types: "types_described (loc_info (resp_info # common)) 0 loc_type_table_v02"
  using loc_types_0 loc_types_1 loc_types_2
  by (simp add: loc_type_table_v02_def types_described_append length_loc_types)

section \<open>The messages\<close>

text \<open>What a row of the message table amounts to: whether its struct is well formed, the size of
  the struct, and the longest encoding if the description matches the struct.\<close>

fun struct_ok :: "cty \<Rightarrow> bool" where
  "struct_ok (CStruct fs) = wf_members fs"
| "struct_ok _ = False"

definition message_summary :: "type_lookup \<Rightarrow> qmi_idl_message_table_entry \<Rightarrow> bool \<times> int \<times> int option" where
  "message_summary info ent = (struct_ok (fst ent), csize (fst ent), message_entry_len info ent)"

definition summary_of :: "int \<times> int \<Rightarrow> bool \<times> int \<times> int option" where
  "summary_of p = (True, fst p, Some (snd p))"

definition loc_message_sizes_0 :: "(int \<times> int) list" where
  "loc_message_sizes_0 = [
    (1, 0), (8, 7), (4, 7), (4, 7), (24, 29), (148, 150), (1, 4), (7704, 7642), (11040, 9476),
    (4298, 4301), (1388, 1342), (788, 783), (840, 826), (32, 40), (4, 7), (8, 11), (12, 20), (48, 48),
    (4, 7), (1, 4), (48, 53), (8, 14), (4, 7), (104, 85), (8, 15), (1, 4), (3088, 3045),
    (16, 21), (3080, 3038), (268, 273), (12, 21), (5800, 5811), (12, 21)]"

lemma loc_messages_0:
  "map (message_summary (loc_info (resp_info # common))) loc_message_table_v02_0 = map summary_of loc_message_sizes_0"
  by code_simp

definition loc_message_sizes_1 :: "(int \<times> int) list" where
  "loc_message_sizes_1 = [
    (12, 21), (1, 0), (524, 532), (1, 0), (132, 135), (1392, 1345), (4, 7), (1044, 1053), (8, 12),
    (1, 0), (792, 790), (1, 0), (24, 20), (24, 25), (4, 7), (568, 540), (4, 7), (40, 36),
    (4, 7), (8, 7), (56, 50), (3, 8), (4, 7), (1, 0), (8, 11), (4, 7), (4, 7),
    (1, 0), (12, 14), (1, 4), (4, 7), (1, 0), (8, 11)]"

lemma loc_messages_1:
  "map (message_summary (loc_info (resp_info # common))) loc_message_table_v02_1 = map summary_of loc_message_sizes_1"
  by code_simp

definition loc_message_sizes_2 :: "(int \<times> int) list" where
  "loc_message_sizes_2 = [
    (300, 297), (4, 7), (8, 11), (304, 304), (1888, 1160), (4, 7), (1, 4), (4, 7), (1, 0),
    (8, 11), (2520, 2353), (4, 7), (4, 7), (4, 7), (1, 0), (16, 18), (12, 14), (4, 7),
    (1, 0), (12, 14), (3, 8), (4, 7), (3312, 2779), (24, 34), (12, 21), (4, 7), (1, 0),
    (16, 18), (8, 11), (4, 7), (1, 0), (12, 14), (12, 14)]"

lemma loc_messages_2:
  "map (message_summary (loc_info (resp_info # common))) loc_message_table_v02_2 = map summary_of loc_message_sizes_2"
  by code_simp

definition loc_message_sizes_3 :: "(int \<times> int) list" where
  "loc_message_sizes_3 = [
    (4, 7), (136, 140), (4, 7), (96, 86), (16, 18), (8, 11), (96, 93), (16, 14), (4, 7),
    (1, 0), (20, 21), (104, 88), (12, 14), (4, 7), (104, 95), (40, 42), (12, 14), (1, 0),
    (44, 49), (2008, 2009), (4, 7), (2, 4), (4, 7), (8, 16), (12, 14), (4, 7), (12, 23),
    (72, 70), (20, 21), (8, 14), (20, 21), (8, 14), (72, 65)]"

lemma loc_messages_3:
  "map (message_summary (loc_info (resp_info # common))) loc_message_table_v02_3 = map summary_of loc_message_sizes_3"
  by code_simp

definition loc_message_sizes_4 :: "(int \<times> int) list" where
  "loc_message_sizes_4 = [
    (228, 224), (12, 14), (4, 7), (40, 39), (24, 32), (28, 28), (4, 7), (24, 30), (4, 7),
    (12, 14), (2264, 2221), (16, 19), (4, 7), (4, 7), (84, 82), (24, 30), (4, 7), (32, 36),
    (4, 7), (28, 33), (4, 7), (32, 22), (4, 7), (1040, 1043), (4, 7), (1, 0), (4, 7),
    (32, 46), (4, 7), (16, 21), (12, 21), (40, 39), (12, 14)]"

lemma loc_messages_4:
  "map (message_summary (loc_info (resp_info # common))) loc_message_table_v02_4 = map summary_of loc_message_sizes_4"
  by code_simp

definition loc_message_sizes_5 :: "(int \<times> int) list" where
  "loc_message_sizes_5 = [
    (28, 28), (96, 90), (16, 21), (504, 460), (20, 21), (16, 21), (12, 14), (8, 14), (2, 4),
    (6056, 5200), (4, 7), (48, 51), (4, 7), (4, 7), (4, 7), (6, 12), (3964, 3360), (4, 7),
    (4, 7), (184, 166), (8, 14), (4, 7), (4, 7), (4, 7), (40, 34), (4, 7), (6280, 5438),
    (760, 718), (2596, 2517), (28, 28), (24, 25), (12, 14), (16, 21)]"

lemma loc_messages_5:
  "map (message_summary (loc_info (resp_info # common))) loc_message_table_v02_5 = map summary_of loc_message_sizes_5"
  by code_simp

definition loc_message_sizes_6 :: "(int \<times> int) list" where
  "loc_message_sizes_6 = [
    (28, 28), (516, 517), (4, 7), (12, 21), (4, 7), (12, 21), (4, 7), (544, 540), (12, 18),
    (288, 294), (4, 7), (272, 280), (4, 7), (12, 21), (4, 7), (12, 21), (4, 7), (28, 36),
    (8, 11), (1, 4), (8, 11), (2104, 2074), (8, 11), (264, 268), (1040, 1043), (2576, 2180), (76, 70),
    (648, 656), (4, 7), (4, 7), (4, 7), (20, 21), (48, 47)]"

lemma loc_messages_6:
  "map (message_summary (loc_info (resp_info # common))) loc_message_table_v02_6 = map summary_of loc_message_sizes_6"
  by code_simp

definition loc_message_sizes_7 :: "(int \<times> int) list" where
  "loc_message_sizes_7 = [
    (4, 7), (1056, 1064), (24, 23), (8, 11), (4, 7), (1, 0), (120, 122), (1, 4), (4, 7),
    (3756, 3756), (12, 22), (1592, 1448), (4, 7), (556, 545), (540, 540), (8, 7), (8, 12), (1648, 1638),
    (20, 25), (4, 7), (1, 0), (12, 21), (624, 618), (32, 23), (2464, 2456), (2776, 2273), (268, 272),
    (224, 154), (112, 84), (32, 26), (88, 84), (4, 7), (4, 7)]"

lemma loc_messages_7:
  "map (message_summary (loc_info (resp_info # common))) loc_message_table_v02_7 = map summary_of loc_message_sizes_7"
  by code_simp

definition loc_message_sizes_8 :: "(int \<times> int) list" where
  "loc_message_sizes_8 = [
    (24, 25), (1, 0), (1, 0), (4, 7), (80, 74), (52, 49), (1, 4), (12, 14), (40, 47),
    (4, 7), (2, 5), (24, 16), (11216, 10015), (2096, 1932), (992, 897), (2096, 1868), (1632, 1481), (2096, 1932),
    (16, 18), (4, 7), (1, 4), (4, 7), (1, 0), (16, 22), (128, 120), (128, 124), (48, 66),
    (4, 7), (4, 7), (3, 8), (16, 21), (3960, 3816), (2, 5)]"

lemma loc_messages_8:
  "map (message_summary (loc_info (resp_info # common))) loc_message_table_v02_8 = map summary_of loc_message_sizes_8"
  by code_simp

definition loc_message_sizes_9 :: "(int \<times> int) list" where
  "loc_message_sizes_9 = [
    (8, 12), (5656, 5590), (80, 68), (16, 22), (4, 7), (24, 29), (8, 11), (12, 18), (184, 165),
    (8, 7), (12, 14), (8, 11), (16, 11), (16, 18), (168, 124), (888, 900), (16, 14), (4016, 4029),
    (8, 12), (3136, 3052), (2, 4), (8, 11), (12392, 12379), (16, 18), (32, 22), (296, 270), (1, 4),
    (8, 11), (16, 18), (16, 18), (8, 11), (568, 540), (16, 14)]"

lemma loc_messages_9:
  "map (message_summary (loc_info (resp_info # common))) loc_message_table_v02_9 = map summary_of loc_message_sizes_9"
  by code_simp

definition loc_message_sizes :: "(int \<times> int) list" where
  "loc_message_sizes = concat [
    loc_message_sizes_0, loc_message_sizes_1, loc_message_sizes_2, loc_message_sizes_3, loc_message_sizes_4,
    loc_message_sizes_5, loc_message_sizes_6, loc_message_sizes_7, loc_message_sizes_8, loc_message_sizes_9]"

lemma loc_messages:
  "map (message_summary (loc_info (resp_info # common))) loc_message_table_v02 = map summary_of loc_message_sizes"
  by (simp add: loc_message_table_v02_def loc_message_sizes_def
      loc_messages_0 loc_messages_1 loc_messages_2 loc_messages_3 loc_messages_4
      loc_messages_5 loc_messages_6 loc_messages_7 loc_messages_8 loc_messages_9)

text \<open>So every row describes its struct, and the sizes and lengths are those of the list.\<close>

lemma loc_messages_ok:
  assumes "ent \<in> set loc_message_table_v02"
  shows "struct_ok (fst ent) \<and> (\<exists>n. message_entry_len (loc_info (resp_info # common)) ent = Some n)"
proof -
  from assms have "message_summary (loc_info (resp_info # common)) ent
      \<in> set (map (message_summary (loc_info (resp_info # common))) loc_message_table_v02)" by simp
  then show ?thesis
    unfolding loc_messages by (auto simp: message_summary_def summary_of_def)
qed

lemma loc_message_lens:
  "map (message_entry_len (loc_info (resp_info # common))) loc_message_table_v02 = map (Some \<circ> snd) loc_message_sizes"
proof -
  have "map (message_entry_len (loc_info (resp_info # common))) loc_message_table_v02
      = map (snd \<circ> snd) (map (message_summary (loc_info (resp_info # common))) loc_message_table_v02)"
    by (simp add: message_summary_def)
  also have "\<dots> = map (Some \<circ> snd) loc_message_sizes"
    unfolding loc_messages by (simp add: summary_of_def)
  finally show ?thesis .
qed

lemma loc_message_csizes: "map (csize \<circ> fst) loc_message_table_v02 = map fst loc_message_sizes"
proof -
  have "map (csize \<circ> fst) loc_message_table_v02
      = map (fst \<circ> snd) (map (message_summary (loc_info [resp_info])) loc_message_table_v02)"
    by (simp add: message_summary_def)
  also have "\<dots> = map fst loc_message_sizes"
    unfolding loc_messages by (simp add: summary_of_def)
  finally show ?thesis .
qed

section \<open>The service tables\<close>

text \<open>The longest encoding of a message, by its index in the message table.\<close>

definition loc_message_len :: "int \<Rightarrow> int option option" where
  "loc_message_len i = map_option (Some \<circ> snd) (nth_int loc_message_sizes i)"

lemma loc_service_command_messages_v02_0_rows:
  "all_true (map (service_row_ok loc_message_len) loc_service_command_messages_v02_0)"
  by code_simp

lemma loc_service_command_messages_v02_1_rows:
  "all_true (map (service_row_ok loc_message_len) loc_service_command_messages_v02_1)"
  by code_simp

lemma loc_service_response_messages_v02_0_rows:
  "all_true (map (service_row_ok loc_message_len) loc_service_response_messages_v02_0)"
  by code_simp

lemma loc_service_response_messages_v02_1_rows:
  "all_true (map (service_row_ok loc_message_len) loc_service_response_messages_v02_1)"
  by code_simp

lemma loc_service_indication_messages_v02_0_rows:
  "all_true (map (service_row_ok loc_message_len) loc_service_indication_messages_v02_0)"
  by code_simp

lemma loc_service_indication_messages_v02_1_rows:
  "all_true (map (service_row_ok loc_message_len) loc_service_indication_messages_v02_1)"
  by code_simp

lemma nth_int_map: "nth_int (map f xs) i = map_option f (nth_int xs i)"
proof (induction xs arbitrary: i)
  case (Cons x xs)
  then show ?case by (cases "i = 0") auto
qed simp

lemma loc_message_len_eq:
  "nth_int (map (message_entry_len (loc_info (resp_info # common))) loc_message_table_v02) = loc_message_len"
  by (rule ext) (simp only: loc_message_lens nth_int_map loc_message_len_def)

lemmas loc_service_rows_code =
  loc_service_command_messages_v02_0_rows [unfolded all_true_map]
  loc_service_command_messages_v02_1_rows [unfolded all_true_map]
  loc_service_response_messages_v02_0_rows [unfolded all_true_map]
  loc_service_response_messages_v02_1_rows [unfolded all_true_map]
  loc_service_indication_messages_v02_0_rows [unfolded all_true_map]
  loc_service_indication_messages_v02_1_rows [unfolded all_true_map]

lemma loc_service_rows_len:
  "list_all (service_row_ok loc_message_len)
     (loc_service_command_messages_v02 @ loc_service_response_messages_v02
       @ loc_service_indication_messages_v02)"
  unfolding loc_service_command_messages_v02_def loc_service_response_messages_v02_def
    loc_service_indication_messages_v02_def list_all_append
  by (intro conjI; rule loc_service_rows_code)

lemma loc_service_increasing:
  "list_all (\<lambda>tab. increasing (map qmi_message_id tab)) (msgid_to_msg loc_qmi_idl_service_object_v02)"
  by code_simp

lemma loc_service_max:
  "service_max_msg_len loc_qmi_idl_service_object_v02
     = longest 0 (map max_msg_len (concat (msgid_to_msg loc_qmi_idl_service_object_v02)))"
  by code_simp

end
