(* ===== verification/LocClientSizes.thy ===== *)
theory LocClientSizes
  imports LocClientTables LocChecks
begin

text \<open>
  The size lookups of \<open>loc_api/loc_api_v02/loc_api_v02_client.cpp\<close>:
  \<open>locClientGetSizeByEventIndId\<close>, \<open>locClientGetSizeByRespIndId\<close>,
  \<open>locClientGetSizeAndTypeByIndId\<close> and \<open>validateRequest\<close>, over the tables of
  \<open>LocClientTables\<close>. The lemmas compare every size with the struct the service's message table
  names for the same message, because the QMI library decodes into (encodes from) that struct.
\<close>

section \<open>Lookups\<close>

fun size_of :: "(int \<times> int) list \<Rightarrow> int \<Rightarrow> int option"
and size_pick :: "bool \<Rightarrow> int \<Rightarrow> (int \<times> int) list \<Rightarrow> int \<Rightarrow> int option" where
  "size_of [] i = None"
| "size_of ((k, n) # rows) i = size_pick (i = k) n rows i"
| "size_pick True n rows i = Some n"
| "size_pick False n rows i = size_of rows i"

lemma size_of_in: "size_of rows i = Some n \<Longrightarrow> (i, n) \<in> set rows"
proof (induction rows)
  case (Cons r rows)
  obtain k m where "r = (k, m)" by (cases r)
  with Cons show ?case by (cases "i = k") auto
qed simp

lemma size_of_None: "size_of rows i = None \<longleftrightarrow> i \<notin> fst ` set rows"
proof (induction rows)
  case (Cons r rows)
  obtain k m where "r = (k, m)" by (cases r)
  with Cons show ?case by (cases "i = k") auto
qed simp

lemma size_of_map_of: "size_of rows = map_of rows"
proof (rule ext)
  fix i show "size_of rows i = map_of rows i"
  proof (induction rows)
    case (Cons r rows)
    obtain k m where "r = (k, m)" by (cases r)
    with Cons show ?case by (cases "i = k") auto
  qed simp
qed

definition locClientGetSizeByEventIndId :: "int \<Rightarrow> int option" where
  "locClientGetSizeByEventIndId eventIndId = size_of locClientEventIndTable eventIndId"

definition locClientGetSizeByRespIndId :: "int \<Rightarrow> int option" where
  "locClientGetSizeByRespIndId respIndId = size_of locClientRespIndTable respIndId"

datatype locClientIndEnumT = eventIndType | respIndType

definition locClientGetSizeAndTypeByIndId :: "int \<Rightarrow> (int \<times> locClientIndEnumT) option" where
  "locClientGetSizeAndTypeByIndId indId =
     (case locClientGetSizeByEventIndId indId of
        Some n \<Rightarrow> Some (n, eventIndType)
      | None \<Rightarrow> (case locClientGetSizeByRespIndId indId of
          Some n \<Rightarrow> Some (n, respIndType)
        | None \<Rightarrow> None))"

text \<open>A request payload is a pointer to the bytes of a struct; \<open>None\<close> is a null pointer. The
  result holds the data pointer and the length handed to the QMI library; a request the switch
  does not know is refused.\<close>

definition validateRequest :: "int \<Rightarrow> 'p option \<Rightarrow> ('p option \<times> int) option" where
  "validateRequest reqId reqPayload =
     (case size_of request_sizes reqId of
        Some n \<Rightarrow> Some (reqPayload, n)
      | None \<Rightarrow> if reqId \<in> set no_payload_requests then Some (None, 0) else None)"

section \<open>The structs the service names\<close>

fun find_row :: "qmi_idl_service_message_table_entry list \<Rightarrow> int
    \<Rightarrow> qmi_idl_service_message_table_entry option"
and row_pick :: "bool \<Rightarrow> qmi_idl_service_message_table_entry
    \<Rightarrow> qmi_idl_service_message_table_entry list \<Rightarrow> int
    \<Rightarrow> qmi_idl_service_message_table_entry option" where
  "find_row [] i = None"
| "find_row (r # rows) i = row_pick (qmi_message_id r = i) r rows i"
| "row_pick True r rows i = Some r"
| "row_pick False r rows i = find_row rows i"

text \<open>The row of the message table a row of a service table refers to: 0 is the service's own
  table.\<close>

fun row_entry :: "'a list \<Rightarrow> qmi_idl_service_message_table_entry option \<Rightarrow> 'a option" where
  "row_entry tab None = None"
| "row_entry tab (Some r) = (if entry_table r = 0 then nth_int tab (entry_index r) else None)"

definition message_of :: "qmi_idl_service_message_table_entry list \<Rightarrow> int
    \<Rightarrow> qmi_idl_message_table_entry option" where
  "message_of rows i = row_entry loc_message_table_v02 (find_row rows i)"

definition message_size :: "qmi_idl_service_message_table_entry list \<Rightarrow> int \<Rightarrow> int option" where
  "message_size rows i = map_option (csize \<circ> fst) (message_of rows i)"

lemma row_entry_map: "row_entry (map f tab) r = map_option f (row_entry tab r)"
  by (cases r) (auto simp: nth_int_map)

definition size_in_list :: "qmi_idl_service_message_table_entry list \<Rightarrow> int \<Rightarrow> int option" where
  "size_in_list rows i = map_option fst (row_entry loc_message_sizes (find_row rows i))"

lemma message_size_eq: "message_size rows i = size_in_list rows i"
  unfolding message_size_def message_of_def size_in_list_def row_entry_map [symmetric]
  by (simp only: loc_message_csizes)

section \<open>The sizes of the tables\<close>

text \<open>A row of a size table agrees with the struct of the message.\<close>

fun size_ok :: "(int \<Rightarrow> int option) \<Rightarrow> int \<times> int \<Rightarrow> bool" where
  "size_ok sz (i, n) = (sz i = Some n)"

definition ind_size :: "int \<Rightarrow> int option" where
  "ind_size = size_in_list loc_service_indication_messages_v02"

definition req_size :: "int \<Rightarrow> int option" where
  "req_size = size_in_list loc_service_command_messages_v02"

lemma locClientEventIndTable_0_sizes: "all_true (map (size_ok ind_size) locClientEventIndTable_0)"
  by code_simp

lemma locClientEventIndTable_1_sizes: "all_true (map (size_ok ind_size) locClientEventIndTable_1)"
  by code_simp

lemma locClientRespIndTable_0_sizes: "all_true (map (size_ok ind_size) locClientRespIndTable_0)"
  by code_simp

lemma locClientRespIndTable_1_sizes: "all_true (map (size_ok ind_size) locClientRespIndTable_1)"
  by code_simp

lemma locClientRespIndTable_2_sizes: "all_true (map (size_ok ind_size) locClientRespIndTable_2)"
  by code_simp

lemma request_sizes_0_sizes: "all_true (map (size_ok req_size) request_sizes_0)"
  by code_simp

lemma request_sizes_1_sizes: "all_true (map (size_ok req_size) request_sizes_1)"
  by code_simp

lemma request_sizes_2_sizes: "all_true (map (size_ok req_size) request_sizes_2)"
  by code_simp

lemma request_sizes_3_sizes: "all_true (map (size_ok req_size) request_sizes_3)"
  by code_simp

lemma request_sizes_4_sizes: "all_true (map (size_ok req_size) request_sizes_4)"
  by code_simp

lemma ind_sizes_ok:
  "(i, n) \<in> set (locClientEventIndTable @ locClientRespIndTable) \<Longrightarrow> ind_size i = Some n"
  using locClientEventIndTable_0_sizes locClientEventIndTable_1_sizes
    locClientRespIndTable_0_sizes locClientRespIndTable_1_sizes locClientRespIndTable_2_sizes
  by (auto simp: all_true_map list_all_iff locClientEventIndTable_def locClientRespIndTable_def)

lemma request_sizes_ok: "(i, n) \<in> set request_sizes \<Longrightarrow> req_size i = Some n"
  using request_sizes_0_sizes request_sizes_1_sizes request_sizes_2_sizes request_sizes_3_sizes
    request_sizes_4_sizes
  by (auto simp: all_true_map list_all_iff request_sizes_def)

lemma ind_type_in:
  assumes "locClientGetSizeAndTypeByIndId i = Some (n, ty)"
  shows "(i, n) \<in> set (locClientEventIndTable @ locClientRespIndTable)"
  using assms
  by (auto simp: locClientGetSizeAndTypeByIndId_def locClientGetSizeByEventIndId_def
      locClientGetSizeByRespIndId_def split: option.splits dest: size_of_in)

lemma row_entry_in: "row_entry tab r = Some x \<Longrightarrow> x \<in> set tab"
  by (cases r) (auto simp: nth_int_Some split: if_splits)

lemma message_size_Some:
  assumes "message_size rows i = Some n"
  obtains ent where "message_of rows i = Some ent" "csize (fst ent) = n"
    "ent \<in> set loc_message_table_v02"
proof -
  from assms obtain ent where ent: "message_of rows i = Some ent" "csize (fst ent) = n"
    by (auto simp: message_size_def)
  moreover from ent(1) have "ent \<in> set loc_message_table_v02"
    by (auto simp: message_of_def dest: row_entry_in)
  ultimately show thesis by (rule that)
qed

text \<open>The longest encoding of the message a request names; 0 if it has no fields.\<close>

definition request_len :: "int \<Rightarrow> int option" where
  "request_len i = map_option snd (row_entry loc_message_sizes
     (find_row loc_service_command_messages_v02 i))"

lemma request_len_eq:
  "Option.bind (message_of loc_service_command_messages_v02 i)
     (message_entry_len (loc_info (resp_info # common))) = request_len i"
proof -
  have "map_option (message_entry_len (loc_info (resp_info # common)))
      (message_of loc_service_command_messages_v02 i) = map_option Some (request_len i)"
    unfolding message_of_def request_len_def row_entry_map [symmetric] loc_message_lens
    by (simp add: row_entry_map option.map_comp o_def)
  then show ?thesis
    by (cases "message_of loc_service_command_messages_v02 i"; cases "request_len i") auto
qed

text \<open>The requests that are sent without a payload although their message has fields.\<close>

definition dropped_payloads :: "(int \<Rightarrow> int option) \<Rightarrow> int list" where
  "dropped_payloads len = filter (\<lambda>i. case len i of None \<Rightarrow> False | Some n \<Rightarrow> 0 < n) no_payload_requests"

lemma dropped:
  "dropped_payloads request_len = [QMI_LOC_GET_ENGINE_LOCK_REQ_V02, QMI_LOC_GET_SERVER_REQ_V02]"
  by code_simp

end
