(* ===== verification/LocTables.thy ===== *)
theory LocTables
  imports LocClientSizes
begin

text \<open>
  What holds of the tables of \<open>location_service_v02.c\<close> and of the size tables of
  \<open>loc_api_v02_client.cpp\<close> together. The type table the service refers to, the common one, is not
  in the repository: \<open>common\<close> stands for it, and the one entry the service's messages use is
  assumed to describe \<open>qmi_response_type_v01\<close> of \<open>common_v01.h\<close>.
\<close>

lemma common_cases:
  assumes "nth_int common 0 = Some resp_info"
  obtains rest where "common = resp_info # rest"
  using assms by (cases common) auto

text \<open>C15: every aggregate type of the type table is described as its C struct is laid out (member
  offsets, element sizes, array lengths and length members), with references only to types before
  it, so that a decoder that follows the references ends.\<close>

theorem loc_types_described:
  assumes "nth_int common 0 = Some resp_info"
  shows "types_described (loc_info common) 0 loc_type_table_v02"
  using assms by (elim common_cases) (simp add: loc_types)

theorem loc_types_described_witness:
  "types_described (loc_info [resp_info]) 0 loc_type_table_v02"
  by (rule loc_types_described) simp

text \<open>C6: every entry of the message table is well formed and matches its C struct member by member:
  each TLV at the member's offset, with its kind, its element count, and its valid flag and length
  right before it.\<close>

theorem loc_messages_described:
  assumes "nth_int common 0 = Some resp_info"
  shows "list_all (\<lambda>ent. struct_ok (fst ent) \<and> message_entry_len (loc_info common) ent \<noteq> None)
    loc_message_table_v02"
  using assms by (elim common_cases) (auto simp: list_all_iff dest: loc_messages_ok)

theorem loc_messages_described_witness:
  "list_all (\<lambda>ent. struct_ok (fst ent) \<and> message_entry_len (loc_info [resp_info]) ent \<noteq> None)
    loc_message_table_v02"
  by (rule loc_messages_described) simp

lemma message_entry_safe:
  assumes "ent \<in> set loc_message_table_v02"
  shows "list_all (\<lambda>(q, k). 0 \<le> q \<and> q + k \<le> csize (fst ent))
      (message_writes (loc_info (resp_info # rest)) ent)
    \<and> sorted_wrt (\<lambda>(p, k) (q, m). p + k \<le> q) (message_writes (loc_info (resp_info # rest)) ent)"
proof -
  from loc_messages_ok [OF assms, of rest] obtain n
    where ok: "struct_ok (fst ent)" and len: "message_entry_len (loc_info (resp_info # rest)) ent = Some n"
    by auto
  from ok obtain fs where fs: "fst ent = CStruct fs" "wf_members fs"
    by (cases "fst ent") auto
  then obtain bs where ent: "ent = (CStruct fs, bs)" by (cases ent) auto
  show ?thesis
    using message_writes_inside [OF len [unfolded ent] fs(2)]
      message_writes_disjoint [OF len [unfolded ent] fs(2)]
    by (auto simp: ent list_all_iff)
qed

text \<open>C1: the buffer \<open>locClientIndCb\<close> allocates for an indication is exactly the struct the message
  table decodes that indication into: every store of the decoder lies inside the buffer, and no
  two overlap.\<close>

theorem indication_decode_fits:
  assumes "nth_int common 0 = Some resp_info"
    and "locClientGetSizeAndTypeByIndId i = Some (n, ty)"
  shows "\<exists>ent. message_of loc_service_indication_messages_v02 i = Some ent \<and> csize (fst ent) = n \<and>
    list_all (\<lambda>(q, k). 0 \<le> q \<and> q + k \<le> n) (message_writes (loc_info common) ent) \<and>
    sorted_wrt (\<lambda>(p, k) (q, m). p + k \<le> q) (message_writes (loc_info common) ent)"
proof -
  obtain rest where c: "common = resp_info # rest" by (rule common_cases [OF assms(1)])
  have "message_size loc_service_indication_messages_v02 i = Some n"
    using ind_sizes_ok [OF ind_type_in [OF assms(2)]] by (simp add: message_size_eq ind_size_def)
  then obtain ent where ent: "message_of loc_service_indication_messages_v02 i = Some ent"
    "csize (fst ent) = n" "ent \<in> set loc_message_table_v02"
    by (rule message_size_Some)
  with message_entry_safe [OF ent(3), of rest] show ?thesis unfolding c by blast
qed

lemma engine_state_type:
  "locClientGetSizeAndTypeByIndId QMI_LOC_EVENT_ENGINE_STATE_IND_V02
     = Some (csize qmiLocEventEngineStateIndMsgT_v02, eventIndType)"
  by code_simp

theorem indication_decode_fits_witness:
  "\<exists>ent. message_of loc_service_indication_messages_v02 QMI_LOC_EVENT_ENGINE_STATE_IND_V02 = Some ent \<and>
    csize (fst ent) = csize qmiLocEventEngineStateIndMsgT_v02 \<and>
    list_all (\<lambda>(q, k). 0 \<le> q \<and> q + k \<le> csize qmiLocEventEngineStateIndMsgT_v02)
      (message_writes (loc_info [resp_info]) ent) \<and>
    sorted_wrt (\<lambda>(p, k) (q, m). p + k \<le> q) (message_writes (loc_info [resp_info]) ent)"
  by (rule indication_decode_fits [OF _ engine_state_type]) simp

text \<open>C16: the length a row of the service tables gives for its message is the longest encoding its
  description allows (3 bytes of TLV header and the value for every field), so a send buffer of
  that length always suffices and none is larger than needed. Rows of the common table are
  described outside the repository.\<close>

theorem service_lengths_exact:
  assumes "nth_int common 0 = Some resp_info"
  shows "list_all
    (service_row_ok (nth_int (map (message_entry_len (loc_info common)) loc_message_table_v02)))
    (concat (msgid_to_msg loc_qmi_idl_service_object_v02))"
  using assms loc_service_rows_len
  by (elim common_cases) (simp add: loc_qmi_idl_service_object_v02_def loc_message_len_eq)

theorem service_lengths_exact_witness:
  "list_all
    (service_row_ok (nth_int (map (message_entry_len (loc_info [resp_info])) loc_message_table_v02)))
    (concat (msgid_to_msg loc_qmi_idl_service_object_v02))"
  by (rule service_lengths_exact) simp

text \<open>The service object's maximum length bounds every message of the service and is reached,
  and each of its three tables is strictly sorted by message identifier.\<close>

theorem service_object_bounds:
  "list_all (\<lambda>r. max_msg_len r \<le> service_max_msg_len loc_qmi_idl_service_object_v02)
     (concat (msgid_to_msg loc_qmi_idl_service_object_v02)) \<and>
   service_max_msg_len loc_qmi_idl_service_object_v02
     \<in> set (map max_msg_len (concat (msgid_to_msg loc_qmi_idl_service_object_v02))) \<and>
   list_all (\<lambda>tab. increasing (map qmi_message_id tab)) (msgid_to_msg loc_qmi_idl_service_object_v02)"
proof (intro conjI)
  let ?lens = "map max_msg_len (concat (msgid_to_msg loc_qmi_idl_service_object_v02))"
  show "list_all (\<lambda>r. max_msg_len r \<le> service_max_msg_len loc_qmi_idl_service_object_v02)
     (concat (msgid_to_msg loc_qmi_idl_service_object_v02))"
    unfolding loc_service_max list_all_iff by (intro ballI longest_ge) simp
  have "service_max_msg_len loc_qmi_idl_service_object_v02 \<noteq> 0"
    by (simp add: loc_qmi_idl_service_object_v02_def)
  then show "service_max_msg_len loc_qmi_idl_service_object_v02 \<in> set ?lens"
    using longest_in [of 0 ?lens] unfolding loc_service_max by simp
qed (rule loc_service_increasing)

text \<open>A request that \<open>validateRequest\<close> accepts with a payload is sent from the caller's struct,
  with the size of the struct the service's command table encodes it from.\<close>

theorem request_payload_is_struct:
  assumes "size_of request_sizes i = Some n"
  shows "validateRequest i payload = Some (payload, n) \<and>
    message_size loc_service_command_messages_v02 i = Some n"
  using request_sizes_ok [OF size_of_in [OF assms]] assms
  by (simp add: validateRequest_def message_size_eq req_size_def)

lemma reg_events_size:
  "size_of request_sizes QMI_LOC_REG_EVENTS_REQ_V02 = Some (csize qmiLocRegEventsReqMsgT_v02)"
  by code_simp

theorem request_payload_is_struct_witness:
  "validateRequest QMI_LOC_REG_EVENTS_REQ_V02 (Some ()) = Some (Some (), csize qmiLocRegEventsReqMsgT_v02) \<and>
    message_size loc_service_command_messages_v02 QMI_LOC_REG_EVENTS_REQ_V02
      = Some (csize qmiLocRegEventsReqMsgT_v02)"
  by (rule request_payload_is_struct) (rule reg_events_size)

text \<open>Of the requests sent without a payload exactly two have fields in the service's command
  table, the engine lock and the server query: what their caller fills in never reaches the
  service.\<close>

theorem payloads_dropped:
  assumes "nth_int common 0 = Some resp_info"
  shows "dropped_payloads (\<lambda>i. Option.bind (message_of loc_service_command_messages_v02 i)
      (message_entry_len (loc_info common)))
    = [QMI_LOC_GET_ENGINE_LOCK_REQ_V02, QMI_LOC_GET_SERVER_REQ_V02]"
  using assms by (elim common_cases) (simp add: request_len_eq dropped)

theorem payloads_dropped_witness:
  "dropped_payloads (\<lambda>i. Option.bind (message_of loc_service_command_messages_v02 i)
      (message_entry_len (loc_info [resp_info])))
    = [QMI_LOC_GET_ENGINE_LOCK_REQ_V02, QMI_LOC_GET_SERVER_REQ_V02]"
  by (rule payloads_dropped) simp

end
