(* ===== verification/Bytes.thy ===== *)
theory Bytes
  imports Prelude
begin

text \<open>
  Bytes in memory: little endian words, and the store of a value into a buffer and its load back.
  A buffer is the list of its bytes; the position of a member is the C offset.
\<close>

unbundle bit_operations_syntax

section \<open>Results\<close>

text \<open>A call returns, faults (an access outside an object or through a dead pointer), or blocks
  for ever.\<close>

datatype 'a outcome = Returns 'a | Faults | Blocks

fun andthen :: "'a outcome \<Rightarrow> ('a \<Rightarrow> 'b outcome) \<Rightarrow> 'b outcome" where
  "andthen (Returns x) k = k x"
| "andthen Faults k = Faults"
| "andthen Blocks k = Blocks"

lemma andthen_Returns: "andthen m k = Returns y \<longleftrightarrow> (\<exists>x. m = Returns x \<and> k x = Returns y)"
  by (cases m) auto

section \<open>Little endian words\<close>

definition le_bytes :: "nat \<Rightarrow> 'a::len word \<Rightarrow> 8 word list" where
  "le_bytes n w = map (\<lambda>i. ucast (drop_bit (8 * i) w)) [0..<n]"

fun le_word :: "8 word list \<Rightarrow> 'a::len word" where
  "le_word [] = 0"
| "le_word (b # bs) = ucast b OR push_bit 8 (le_word bs)"

lemma length_le_bytes [simp]: "length (le_bytes n w) = n"
  by (simp add: le_bytes_def)

lemma bit_le_word:
  "bit (le_word bs :: 'a::len word) i \<longleftrightarrow>
     i < LENGTH('a) \<and> i div 8 < length bs \<and> bit (bs ! (i div 8)) (i mod 8)"
proof (induction bs arbitrary: i)
  case (Cons b bs)
  show ?case
  proof (cases "i < 8")
    case True
    then show ?thesis by (auto simp: bit_simps)
  next
    case False
    then have i: "i div 8 = Suc ((i - 8) div 8)" "i mod 8 = (i - 8) mod 8"
      by (simp_all add: le_div_geq le_mod_geq)
    have "\<not> bit b i" using False by (auto dest: bit_imp_le_length)
    then show ?thesis using False by (auto simp: bit_simps Cons.IH i)
  qed
qed simp

lemma le_word_le_bytes:
  assumes "LENGTH('a::len) \<le> 8 * n"
  shows "le_word (le_bytes n w) = (w :: 'a word)"
proof (rule bit_word_eqI)
  fix i
  assume i: "i < LENGTH('a)"
  then have d: "i div 8 < n" using assms by (simp add: div_less_iff_less_mult)
  then have "le_bytes n w ! (i div 8) = ucast (drop_bit (8 * (i div 8)) w)"
    by (simp add: le_bytes_def)
  with d i show "bit (le_word (le_bytes n w) :: 'a word) i \<longleftrightarrow> bit w i"
    by (simp add: bit_le_word bit_simps)
qed

section \<open>Stores and loads\<close>

definition put_bytes :: "int \<Rightarrow> 'a list \<Rightarrow> 'a list \<Rightarrow> 'a list" where
  "put_bytes q vs bs = take (nat q) bs @ vs @ drop (nat q + length vs) bs"

definition get_bytes :: "int \<Rightarrow> nat \<Rightarrow> 'a list \<Rightarrow> 'a list" where
  "get_bytes q n bs = take n (drop (nat q) bs)"

lemma length_put_bytes [simp]:
  "nat q + length vs \<le> length bs \<Longrightarrow> length (put_bytes q vs bs) = length bs"
  by (simp add: put_bytes_def)

lemma get_put_same:
  "nat q \<le> length bs \<Longrightarrow> get_bytes q (length vs) (put_bytes q vs bs) = vs"
  by (simp add: get_bytes_def put_bytes_def)

lemma get_put_before:
  "nat r + n \<le> nat q \<Longrightarrow> nat q \<le> length bs \<Longrightarrow> get_bytes r n (put_bytes q vs bs) = get_bytes r n bs"
  by (rule nth_equalityI) (auto simp: get_bytes_def put_bytes_def nth_append)

lemma get_put_after:
  assumes "nat q + length vs \<le> nat r" and "nat q + length vs \<le> length bs"
  shows "get_bytes r n (put_bytes q vs bs) = get_bytes r n bs"
proof -
  have "drop (nat r) (put_bytes q vs bs) = drop (nat r) bs"
    using assms by (simp add: put_bytes_def)
  then show ?thesis by (simp add: get_bytes_def)
qed

end
