(* ===== verification/StringRoutines.thy ===== *)
theory StringRoutines
  imports Bytes
begin

text \<open>
  \<open>strlcpy\<close> and \<open>strlcat\<close> of \<open>utils/base_util/src/string_routines.cpp\<close>, with the C library
  functions they call. A C string is a buffer with a null byte; \<open>size_t\<close> has 64 bits.
\<close>

section \<open>The C library\<close>

definition strlen :: "8 word list \<Rightarrow> nat outcome" where
  "strlen s = (if 0 \<in> set s then Returns (length (takeWhile (\<lambda>b. b \<noteq> 0) s)) else Faults)"

text \<open>\<open>memcpy(dest + q, src, n)\<close>.\<close>

definition memcpy :: "8 word list \<Rightarrow> nat \<Rightarrow> 8 word list \<Rightarrow> nat \<Rightarrow> 8 word list outcome" where
  "memcpy dest q src n =
     (if n \<le> length src \<and> q + n \<le> length dest
      then Returns (put_bytes (int q) (take n src) dest) else Faults)"

definition store_byte :: "8 word list \<Rightarrow> nat \<Rightarrow> 8 word \<Rightarrow> 8 word list outcome" where
  "store_byte dest q b = (if q < length dest then Returns (dest[q := b]) else Faults)"

definition size_t :: "int \<Rightarrow> nat" where
  "size_t x = nat (x mod 2 ^ 64)"

section \<open>The routines\<close>

definition strlcpy :: "8 word list \<Rightarrow> 8 word list \<Rightarrow> nat \<Rightarrow> (8 word list \<times> nat) outcome" where
  "strlcpy dest src dest_capacity =
     andthen (strlen src) (\<lambda>src_length.
       if 0 < dest_capacity then
         let copy_length = (if dest_capacity \<le> src_length then dest_capacity - 1 else src_length) in
         andthen (memcpy dest 0 src copy_length) (\<lambda>dest1.
         andthen (store_byte dest1 copy_length 0) (\<lambda>dest2. Returns (dest2, src_length)))
       else Returns (dest, 0))"

definition strlcat :: "8 word list \<Rightarrow> 8 word list \<Rightarrow> nat \<Rightarrow> (8 word list \<times> nat) outcome" where
  "strlcat dest src dest_capacity =
     andthen (strlen dest) (\<lambda>dest_length.
     andthen (strlen src) (\<lambda>src_length.
       if 0 < dest_capacity then
         let copy_length = (if dest_capacity \<le> dest_length + src_length
               then size_t (int dest_capacity - int dest_length - 1) else src_length) in
         andthen (memcpy dest dest_length src copy_length) (\<lambda>dest1.
         andthen (store_byte dest1 (dest_length + copy_length) 0) (\<lambda>dest2.
           Returns (dest2, dest_length + copy_length)))
       else Returns (dest, 0)))"

section \<open>What they compute\<close>

text \<open>The string a buffer holds.\<close>

definition cstring :: "8 word list \<Rightarrow> 8 word list" where
  "cstring s = takeWhile (\<lambda>b. b \<noteq> 0) s"

lemma strlen_cstring: "0 \<in> set s \<Longrightarrow> strlen s = Returns (length (cstring s))"
  by (simp add: strlen_def cstring_def)

lemma cstring_prefix:
  assumes "0 \<in> set s"
  obtains t where "s = cstring s @ 0 # t"
proof -
  have "dropWhile (\<lambda>b. b \<noteq> 0) s \<noteq> []" using assms by (simp add: dropWhile_eq_Nil_conv)
  moreover from this have "hd (dropWhile (\<lambda>b. b \<noteq> 0) s) = 0"
    using hd_dropWhile [of "\<lambda>b. b \<noteq> 0" s] by simp
  ultimately obtain t where "dropWhile (\<lambda>b. b \<noteq> 0) s = 0 # t"
    by (metis list.collapse)
  with that [of t] show thesis
    by (metis cstring_def takeWhile_dropWhile_id)
qed

lemma cstring_no_null [simp]: "0 \<notin> set (cstring s)"
  by (auto simp: cstring_def dest: set_takeWhileD)

lemma cstring_append_null: "0 \<notin> set xs \<Longrightarrow> cstring (xs @ 0 # ys) = xs"
  unfolding cstring_def by (induction xs) auto

lemma take_cstring:
  assumes "0 \<in> set s" and "n \<le> length (cstring s)"
  shows "take n s = take n (cstring s)"
proof -
  obtain t where "s = cstring s @ 0 # t" by (rule cstring_prefix [OF assms(1)])
  then have "take n s = take n (cstring s @ 0 # t)" by (rule arg_cong)
  with assms(2) show ?thesis by simp
qed

lemma cstring_less:
  assumes "0 \<in> set s"
  shows "length (cstring s) < length s"
proof -
  obtain t where "s = cstring s @ 0 # t" by (rule cstring_prefix [OF assms])
  then have "length s = length (cstring s @ 0 # t)" by (rule arg_cong)
  then show ?thesis by simp
qed

text \<open>Copying a prefix of \<open>src\<close> behind the first \<open>k\<close> bytes and closing it with a null byte.\<close>

lemma memcpy_null:
  assumes "k + n < length dest" and "n \<le> length src"
  shows "andthen (memcpy dest k src n) (\<lambda>d. store_byte d (k + n) 0)
     = Returns (take k dest @ take n src @ 0 # drop (Suc (k + n)) dest)"
proof -
  have "drop (k + n) dest = dest ! (k + n) # drop (Suc (k + n)) dest"
    using assms by (simp add: Cons_nth_drop_Suc)
  with assms show ?thesis
    by (simp add: memcpy_def store_byte_def put_bytes_def list_update_append min_def)
qed

lemma memcpy_null_then:
  assumes "k + n < length dest" and "n \<le> length src"
  shows "andthen (memcpy dest k src n) (\<lambda>d. andthen (store_byte d (k + n) 0) c)
     = c (take k dest @ take n src @ 0 # drop (Suc (k + n)) dest)"
  using memcpy_null [OF assms]
  by (cases "memcpy dest k src n"; cases "store_byte dest (k + n) 0") (auto split: outcome.splits)

lemma strlcpy_cut:
  assumes "0 \<in> set src" and "0 < cap" and "cap \<le> length dest"
  shows "\<exists>out. strlcpy dest src cap = Returns (out, length (cstring src)) \<and>
    length out = length dest \<and> cstring out = take (cap - 1) (cstring src) \<and>
    drop cap out = drop cap dest"
proof -
  let ?n = "if cap \<le> length (cstring src) then cap - 1 else length (cstring src)"
  let ?out = "take ?n (cstring src) @ 0 # drop (Suc ?n) dest"
  have n: "0 + ?n < length dest" "?n \<le> length src" "?n \<le> length (cstring src)"
    using assms cstring_less [of src] by auto
  have "strlcpy dest src cap = Returns (?out, length (cstring src))"
    using assms n memcpy_null_then [OF n(1,2), of "\<lambda>d. Returns (d, length (cstring src))"]
    by (simp add: strlcpy_def strlen_cstring Let_def take_cstring [OF assms(1) n(3)])
  moreover have "cstring ?out = take (cap - 1) (cstring src)"
    using assms(2) cstring_no_null [of src]
    by (subst cstring_append_null) (auto dest: in_set_takeD simp: min_def)
  moreover have "length ?out = length dest" using n by simp
  moreover have "drop cap ?out = drop cap dest"
    using assms(2) n by (auto simp: drop_Cons' min_def)
  ultimately show ?thesis by blast
qed

text \<open>C17: strlcpy, on a terminated source and a capacity within the destination, leaves the source
  string cut to the capacity, always terminated, keeps every byte behind the terminator, and
  returns the length of the source.\<close>

theorem strlcpy_copies:
  assumes "0 \<in> set src" and "0 < cap" and "cap \<le> length dest"
  shows "\<exists>out. strlcpy dest src cap = Returns (out, length (cstring src)) \<and>
    length out = length dest \<and> cstring out = take (cap - 1) (cstring src) \<and>
    drop cap out = drop cap dest"
  using assms by (rule strlcpy_cut)

theorem strlcpy_copies_witness:
  "\<exists>out. strlcpy [9, 9, 9, 9, 9, 9] [72, 65, 76, 33, 0] 4
      = Returns (out, length (cstring [72, 65, 76, 33, 0])) \<and>
    length out = length [9, 9, 9, 9, 9, 9 :: 8 word] \<and>
    cstring out = take (4 - 1) (cstring [72, 65, 76, 33, 0]) \<and>
    drop 4 out = drop 4 [9, 9, 9, 9, 9, 9]"
  by (rule strlcpy_copies) simp_all

text \<open>Strlcat, when the destination string is shorter than the capacity, leaves the
  concatenation cut to the capacity, terminated, and returns its length.\<close>

theorem strlcat_appends:
  assumes "0 \<in> set src" and "0 \<in> set dest" and "length (cstring dest) < cap" and "cap \<le> length dest"
    and "length dest < 2 ^ 64"
  shows "\<exists>out. strlcat dest src cap = Returns (out, length (cstring out)) \<and> length out = length dest \<and>
    cstring out = take (cap - 1) (cstring dest @ cstring src) \<and> drop cap out = drop cap dest"
proof -
  let ?d = "length (cstring dest)"
  define n where "n = (if cap \<le> ?d + length (cstring src) then cap - ?d - 1 else length (cstring src))"
  let ?out = "(cstring dest @ take n (cstring src)) @ 0 # drop (Suc (?d + n)) dest"
  have "0 < cap" using assms(3) by simp
  have sz: "size_t (int cap - int ?d - 1) = cap - ?d - 1"
    using assms(3-5) by (simp add: size_t_def nat_diff_distrib)
  have n: "?d + n < cap" "?d + n < length dest" "n \<le> length src" "n \<le> length (cstring src)"
    using assms cstring_less [of src] by (auto simp: n_def)
  have td: "take ?d dest = cstring dest"
    using take_cstring [OF assms(2), of ?d] by simp
  have "strlcat dest src cap = andthen (memcpy dest ?d src n)
      (\<lambda>d1. andthen (store_byte d1 (?d + n) 0) (\<lambda>d2. Returns (d2, ?d + n)))"
    using assms(1-3) \<open>0 < cap\<close>
    by (cases "cap \<le> ?d + length (cstring src)")
      (simp_all only: strlcat_def strlen_cstring andthen.simps Let_def sz n_def if_True if_False)
  then have "strlcat dest src cap = Returns (?out, ?d + n)"
    by (simp add: memcpy_null_then n take_cstring [OF assms(1)] td)
  moreover have c: "cstring ?out = cstring dest @ take n (cstring src)"
    using cstring_no_null [of dest] cstring_no_null [of src]
    by (subst cstring_append_null) (auto dest: in_set_takeD)
  moreover have "cstring dest @ take n (cstring src) = take (cap - 1) (cstring dest @ cstring src)"
    using assms(3) by (auto simp: n_def)
  moreover have "?d + n = length (cstring dest @ take n (cstring src))" using n by simp
  moreover have "length ?out = length dest" using n by simp
  moreover have "drop cap ?out = drop cap dest"
    using n by (auto simp: drop_Cons')
  ultimately show ?thesis by metis
qed

theorem strlcat_appends_witness:
  "\<exists>out. strlcat [72, 0, 9, 9, 9] [65, 76, 33, 0] 4 = Returns (out, length (cstring out)) \<and>
    length out = length [72, 0, 9, 9, 9 :: 8 word] \<and>
    cstring out = take (4 - 1) (cstring [72, 0, 9, 9, 9] @ cstring [65, 76, 33, 0]) \<and>
    drop 4 out = drop 4 [72, 0, 9, 9, 9]"
  by (rule strlcat_appends) (simp_all add: cstring_def)

text \<open>But if the capacity does not exceed the length of the destination string, the copy
  length \<open>dest_capacity - dest_length - 1\<close> wraps around and the copy runs out of every buffer.\<close>

theorem strlcat_overruns:
  assumes "0 \<in> set src" and "0 \<in> set dest" and "0 < cap" and "cap \<le> length (cstring dest)"
    and "length dest < 2 ^ 63" and "length src < 2 ^ 63"
  shows "strlcat dest src cap = Faults"
proof -
  let ?d = "length (cstring dest)"
  have "int cap - int ?d - 1 < 0" "- (2 ^ 63) \<le> int cap - int ?d - 1"
    using assms cstring_less [of dest] by auto
  then have "(int cap - int ?d - 1) mod 2 ^ 64 = int cap - int ?d - 1 + 2 ^ 64"
    by (subst mod_add_self2 [symmetric], intro mod_pos_pos_trivial) auto
  then have "length src < size_t (int cap - int ?d - 1)"
    using assms \<open>- (2 ^ 63) \<le> _\<close> by (simp add: size_t_def)
  then show ?thesis
    using assms by (simp add: strlcat_def strlen_cstring Let_def memcpy_def)
qed

theorem strlcat_overruns_witness:
  "strlcat [72, 65, 76, 0] [33, 0] 3 = Faults"
  using strlcat_overruns [of "[33, 0]" "[72, 65, 76, 0]" 3] by (simp add: cstring_def)

end
