(* ===== verification/LocClient.thy ===== *)
theory LocClient
  imports LocClientSizes StringRoutines
begin

text \<open>
  The client of the QMI location service, \<open>loc_api/loc_api_v02/loc_api_v02_client.cpp\<close>: opening and
  closing a connection, sending requests, and the callbacks the QMI library runs. The state holds
  the callback data structs on the heap, the control points the QMI library knows together with
  the pointer it hands to their callbacks, the calls made into the client's callbacks, and the
  QMI library's own state \<open>'w\<close>. The functions of the QMI library are the fields of \<open>qmi_env\<close>.
\<close>

section \<open>Status values\<close>

datatype locClientStatusEnumType =
    eLOC_CLIENT_SUCCESS | eLOC_CLIENT_FAILURE_GENERAL | eLOC_CLIENT_FAILURE_UNSUPPORTED
  | eLOC_CLIENT_FAILURE_INVALID_PARAMETER | eLOC_CLIENT_FAILURE_ENGINE_BUSY
  | eLOC_CLIENT_FAILURE_PHONE_OFFLINE | eLOC_CLIENT_FAILURE_TIMEOUT
  | eLOC_CLIENT_FAILURE_SERVICE_NOT_PRESENT | eLOC_CLIENT_FAILURE_SERVICE_VERSION_UNSUPPORTED
  | eLOC_CLIENT_FAILURE_CLIENT_VERSION_UNSUPPORTED | eLOC_CLIENT_FAILURE_INVALID_HANDLE
  | eLOC_CLIENT_FAILURE_INTERNAL | eLOC_CLIENT_FAILURE_NOT_INITIALIZED
  | eLOC_CLIENT_FAILURE_NOT_ENOUGH_MEMORY | eLOC_CLIENT_FAILURE_INVALID_MESSAGE_ID

datatype locClientErrorEnumType = eLOC_CLIENT_ERROR_SERVICE_UNAVAILABLE

definition QMI_NO_ERR :: int where "QMI_NO_ERR = 0"
definition QMI_SERVICE_ERR :: int where "QMI_SERVICE_ERR = -2"
definition QMI_RESULT_SUCCESS_V01 :: int where "QMI_RESULT_SUCCESS_V01 = 0"
definition QMI_ERR_MALFORMED_MSG_V01 :: int where "QMI_ERR_MALFORMED_MSG_V01 = 0x0001"
definition QMI_ERR_DEVICE_IN_USE_V01 :: int where "QMI_ERR_DEVICE_IN_USE_V01 = 0x0017"
definition QMI_ERR_INVALID_ARG_V01 :: int where "QMI_ERR_INVALID_ARG_V01 = 0x0030"
definition QMI_ERR_INVALID_MESSAGE_ID_V01 :: int where "QMI_ERR_INVALID_MESSAGE_ID_V01 = 0x0039"
definition QMI_ERR_SESSION_OWNERSHIP_V01 :: int where "QMI_ERR_SESSION_OWNERSHIP_V01 = 0x0043"
definition QMI_ERR_NOT_SUPPORTED_V01 :: int where "QMI_ERR_NOT_SUPPORTED_V01 = 0x005E"

record qmi_response =
  result :: int
  error :: int

definition convertQmiResponseToLocStatus :: "qmi_response \<Rightarrow> locClientStatusEnumType" where
  "convertQmiResponseToLocStatus resp =
     (if result resp = QMI_RESULT_SUCCESS_V01 then eLOC_CLIENT_SUCCESS
      else if error resp = QMI_ERR_MALFORMED_MSG_V01 \<or> error resp = QMI_ERR_INVALID_ARG_V01
        then eLOC_CLIENT_FAILURE_INVALID_PARAMETER
      else if error resp = QMI_ERR_DEVICE_IN_USE_V01 then eLOC_CLIENT_FAILURE_ENGINE_BUSY
      else if error resp = QMI_ERR_NOT_SUPPORTED_V01 then eLOC_CLIENT_FAILURE_UNSUPPORTED
      else if error resp = QMI_ERR_INVALID_MESSAGE_ID_V01 then eLOC_CLIENT_FAILURE_INVALID_MESSAGE_ID
      else eLOC_CLIENT_FAILURE_INTERNAL)"

definition convertQmiErrorToLocError :: "int \<Rightarrow> locClientErrorEnumType" where
  "convertQmiErrorToLocError err = eLOC_CLIENT_ERROR_SERVICE_UNAVAILABLE"

section \<open>State\<close>

text \<open>Addresses, handles and function pointers are numbers, 0 is the null pointer.\<close>

type_synonym addr = nat

record locClientCbDataStructT =
  pClientCookie :: addr
  userHandle :: nat
  eventCallback :: addr
  respCallback :: addr
  errorCallback :: addr
  eventRegMask :: "64 word"
  pMe :: addr

record locClientCallbacksType =
  cb_size :: int
  eventIndCb :: addr
  respIndCb :: addr
  errorCb :: addr

text \<open>\<open>sizeof(locClientCallbacksType)\<close>: three pointers behind a \<open>uint32_t\<close>.\<close>

definition sizeof_locClientCallbacksType :: int where
  "sizeof_locClientCallbacksType = csize (CStruct [(''size'', CPrim CUint32),
     (''eventIndCb'', CPrim CUint64), (''respIndCb'', CPrim CUint64), (''errorCb'', CPrim CUint64)])"

text \<open>The calls into the client: the callback, the handle, what it is given, and the cookie.\<close>

datatype client_call =
    EventCall addr addr int "8 word list" addr
  | RespCall addr addr int "8 word list" int addr
  | ErrorCall addr addr locClientErrorEnumType addr

record 'w loc_client =
  cb_heap :: "addr \<Rightarrow> locClientCbDataStructT option"
  brk :: addr
  control_points :: "(nat \<times> addr) list"
  client_calls :: "client_call list"
  qmi :: 'w

record 'w qmi_env =
  load_qmi_symbols :: "'w \<Rightarrow> bool"
  calloc_fails :: "'w \<Rightarrow> bool"
  malloc_fails :: "'w \<Rightarrow> bool"
  qmi_client_notifier_init :: "'w \<Rightarrow> int \<times> bool \<times> 'w"
  qmi_client_get_service_instance :: "int \<Rightarrow> 'w \<Rightarrow> int \<times> 'w"
  qmi_client_get_any_service :: "'w \<Rightarrow> int \<times> 'w"
  signal_wait :: "'w \<Rightarrow> 'w"
  qmi_client_init :: "addr \<Rightarrow> 'w \<Rightarrow> int \<times> nat \<times> 'w"
  qmi_client_register_error_cb :: "nat \<Rightarrow> addr \<Rightarrow> 'w \<Rightarrow> int \<times> 'w"
  release_notifier :: "'w \<Rightarrow> 'w"
  qmi_client_release :: "nat \<Rightarrow> 'w \<Rightarrow> int \<times> 'w"
  qmi_client_send_msg_sync ::
    "nat \<Rightarrow> int \<Rightarrow> 8 word list option \<Rightarrow> int \<Rightarrow> 'w \<Rightarrow> int \<times> qmi_response \<times> 'w"
  qmi_client_message_decode :: "nat \<Rightarrow> int \<Rightarrow> 8 word list \<Rightarrow> int \<Rightarrow> 'w \<Rightarrow> int \<times> 8 word list \<times> 'w"

text \<open>The check of a handle every operation starts with: a null handle, one of a control point that
  is not there, or one that does not point to itself is refused; reading through a pointer to
  freed memory faults.\<close>

definition check_handle :: "addr \<Rightarrow> 'w loc_client \<Rightarrow> locClientCbDataStructT option outcome" where
  "check_handle h s =
     (if h = 0 then Returns None
      else case cb_heap s h of
        None \<Rightarrow> Faults
      | Some d \<Rightarrow> if userHandle d = 0 \<or> h \<noteq> pMe d then Returns None else Returns (Some d))"

section \<open>Sending a request\<close>

definition LOC_CLIENT_MAX_SYNC_RETRIES :: nat where "LOC_CLIENT_MAX_SYNC_RETRIES = 50"

text \<open>The retry loop: at most \<open>n\<close> more sends, \<open>resp\<close> the last response.\<close>

fun send_sync_loop :: "'w qmi_env \<Rightarrow> nat \<Rightarrow> int \<Rightarrow> 8 word list option \<Rightarrow> int \<Rightarrow> nat \<Rightarrow> qmi_response \<Rightarrow> 'w
    \<Rightarrow> (locClientStatusEnumType + qmi_response) \<times> 'w" where
  "send_sync_loop env h reqId pReqData reqLen 0 resp w = (Inr resp, w)"
| "send_sync_loop env h reqId pReqData reqLen (Suc n) resp w =
     (case qmi_client_send_msg_sync env h reqId pReqData reqLen w of
        (rc, resp', w') \<Rightarrow>
          if rc = QMI_SERVICE_ERR then (Inl eLOC_CLIENT_FAILURE_PHONE_OFFLINE, w')
          else if rc \<noteq> QMI_NO_ERR then (Inl eLOC_CLIENT_FAILURE_INTERNAL, w')
          else if error resp' \<noteq> QMI_ERR_SESSION_OWNERSHIP_V01 then (Inr resp', w')
          else send_sync_loop env h reqId pReqData reqLen n resp' w')"

text \<open>\<open>reqPayload.pRegEventsReq->eventRegMask\<close>, the first member of the struct.\<close>

definition regEventsReq_mask :: "8 word list \<Rightarrow> 64 word" where
  "regEventsReq_mask bs = le_word (get_bytes (offsetof qmiLocRegEventsReqMsgT_v02 ''eventRegMask'') 8 bs)"

definition update_mask :: "addr \<Rightarrow> int \<Rightarrow> 8 word list option \<Rightarrow> 'w loc_client \<Rightarrow> 'w loc_client" where
  "update_mask h reqId payload s =
     (case payload of
        Some bs \<Rightarrow>
          if reqId = QMI_LOC_REG_EVENTS_REQ_V02
          then s\<lparr>cb_heap := (cb_heap s)(h := map_option
            (eventRegMask_update (\<lambda>_. regEventsReq_mask bs)) (cb_heap s h))\<rparr>
          else s
      | None \<Rightarrow> s)"

definition locClientSendReq :: "'w qmi_env \<Rightarrow> addr \<Rightarrow> int \<Rightarrow> 8 word list option \<Rightarrow> 'w loc_client
    \<Rightarrow> (locClientStatusEnumType \<times> 'w loc_client) outcome" where
  "locClientSendReq env handle reqId reqPayload s =
     andthen (check_handle handle s) (\<lambda>chk.
     case chk of
       None \<Rightarrow> Returns (eLOC_CLIENT_FAILURE_INVALID_HANDLE, s)
     | Some d \<Rightarrow>
       (case validateRequest reqId reqPayload of
          None \<Rightarrow> Returns (eLOC_CLIENT_FAILURE_INVALID_PARAMETER, s)
        | Some (pReqData, reqLen) \<Rightarrow>
          (case send_sync_loop env (userHandle d) reqId pReqData reqLen
              LOC_CLIENT_MAX_SYNC_RETRIES \<lparr>result = 0, error = 0\<rparr> (qmi s) of
             (Inl status, w) \<Rightarrow> Returns (status, s\<lparr>qmi := w\<rparr>)
           | (Inr resp, w) \<Rightarrow>
             let status = convertQmiResponseToLocStatus resp; s1 = s\<lparr>qmi := w\<rparr> in
             Returns (status,
               if status = eLOC_CLIENT_SUCCESS then update_mask handle reqId reqPayload s1 else s1))))"

definition HAL_string :: "8 word list" where "HAL_string = [0x48, 0x41, 0x4C, 0]"
definition MASTER_HAL_string :: "8 word list" where "MASTER_HAL_string = [0x4D, 0x48, 0x41, 0x4C, 0]"

definition eQMI_LOC_CLIENT_AFW_V02 :: "32 word" where "eQMI_LOC_CLIENT_AFW_V02 = 1"

text \<open>The request of \<open>locClientRegisterEventMask\<close>, stored member by member into the cleared struct.\<close>

definition regEventsReq_struct :: "64 word \<Rightarrow> 8 word list \<Rightarrow> 8 word list" where
  "regEventsReq_struct evMask str =
     (let at = offsetof qmiLocRegEventsReqMsgT_v02 in
      put_bytes (at ''enablePosRequestNotification'') [0]
      (put_bytes (at ''enablePosRequestNotification_valid'') [1]
      (put_bytes (at ''clientType'') (le_bytes 4 eQMI_LOC_CLIENT_AFW_V02)
      (put_bytes (at ''clientType_valid'') [1]
      (put_bytes (at ''clientStrId'') str
      (put_bytes (at ''clientStrId_valid'') [1]
      (put_bytes (at ''eventRegMask'') (le_bytes 8 evMask)
      (replicate (nat (csize qmiLocRegEventsReqMsgT_v02)) 0))))))))"

definition locClientRegisterEventMask :: "'w qmi_env \<Rightarrow> addr \<Rightarrow> 64 word \<Rightarrow> bool \<Rightarrow> 'w loc_client
    \<Rightarrow> (bool \<times> 'w loc_client) outcome" where
  "locClientRegisterEventMask env clientHandle evMask bIsMaster s =
     (let n = nat (QMI_LOC_MAX_CLIENT_ID_STRING_LENGTH_V02 + 1) in
      andthen (strlcpy (replicate n 0) (if bIsMaster then MASTER_HAL_string else HAL_string) n)
        (\<lambda>(str, _).
      andthen (locClientSendReq env clientHandle QMI_LOC_REG_EVENTS_REQ_V02
          (Some (regEventsReq_struct evMask str)) s) (\<lambda>(status, s').
      Returns (status = eLOC_CLIENT_SUCCESS, s'))))"

section \<open>Closing and opening\<close>

definition release_client :: "nat \<Rightarrow> 'w loc_client \<Rightarrow> 'w loc_client" where
  "release_client uh s = s\<lparr>control_points := filter (\<lambda>(u, p). u \<noteq> uh) (control_points s)\<rparr>"

text \<open>The pointer argument: \<open>None\<close> is a null pointer, otherwise the handle it points to. The
  result holds the handle afterwards.\<close>

definition locClientClose :: "'w qmi_env \<Rightarrow> addr option \<Rightarrow> 'w loc_client
    \<Rightarrow> (locClientStatusEnumType \<times> addr option \<times> 'w loc_client) outcome" where
  "locClientClose env pLocClientHandle s =
     (case pLocClientHandle of
        None \<Rightarrow> Returns (eLOC_CLIENT_FAILURE_INVALID_PARAMETER, None, s)
      | Some h \<Rightarrow>
        andthen (check_handle h s) (\<lambda>chk.
        case chk of
          None \<Rightarrow> Returns (eLOC_CLIENT_FAILURE_INVALID_HANDLE, Some h, s)
        | Some d \<Rightarrow>
          (case qmi_client_release env (userHandle d) (qmi s) of
             (rc, w) \<Rightarrow>
               if rc \<noteq> QMI_NO_ERR then Returns (eLOC_CLIENT_FAILURE_INTERNAL, Some h, s\<lparr>qmi := w\<rparr>)
               else Returns (eLOC_CLIENT_SUCCESS, Some 0,
                 release_client (userHandle d) (s\<lparr>qmi := w, cb_heap := (cb_heap s)(h := None)\<rparr>)))))"

text \<open>The loop that waits for the service: it blocks for ever if the service never comes up.\<close>

partial_function (option) find_service :: "'w qmi_env \<Rightarrow> int \<Rightarrow> 'w \<Rightarrow> 'w option" where
  "find_service env instanceId w =
     (let r = (if 0 \<le> instanceId then qmi_client_get_service_instance env instanceId w
               else qmi_client_get_any_service env w) in
      if fst r = QMI_NO_ERR then Some (snd r)
      else find_service env instanceId (signal_wait env (snd r)))"

text \<open>\<open>p\<close> is the address of the callback data, which is not yet linked to itself.\<close>

definition connect_client :: "'w qmi_env \<Rightarrow> addr \<Rightarrow> 'w loc_client
    \<Rightarrow> locClientStatusEnumType \<times> 'w loc_client" where
  "connect_client env p s =
     (case qmi_client_init env p (qmi s) of
        (rc, clnt, w) \<Rightarrow>
          if rc \<noteq> QMI_NO_ERR then (eLOC_CLIENT_FAILURE_INTERNAL, s\<lparr>qmi := w\<rparr>)
          else (case qmi_client_register_error_cb env clnt p w of
            (rc', w') \<Rightarrow>
              let s1 = s\<lparr>qmi := w', control_points := (clnt, p) # control_points s\<rparr> in
              if rc' \<noteq> QMI_NO_ERR then (eLOC_CLIENT_FAILURE_INTERNAL, s1)
              else (eLOC_CLIENT_SUCCESS, s1\<lparr>cb_heap := (cb_heap s)(p := map_option
                (userHandle_update (\<lambda>_. clnt)) (cb_heap s p))\<rparr>)))"

definition locClientQmiCtrlPointInit :: "'w qmi_env \<Rightarrow> addr \<Rightarrow> int \<Rightarrow> 'w loc_client
    \<Rightarrow> (locClientStatusEnumType \<times> 'w loc_client) outcome" where
  "locClientQmiCtrlPointInit env p instanceId s =
     (case loc_get_service_object_v02 of
        None \<Rightarrow> Returns (eLOC_CLIENT_FAILURE_INTERNAL, s)
      | Some locClientServiceObject \<Rightarrow>
        (case qmi_client_notifier_init env (qmi s) of
           (rc, notifierInitFlag, w) \<Rightarrow>
             let fin = (\<lambda>(status, s'). (status,
                   if notifierInitFlag then s'\<lparr>qmi := release_notifier env (qmi s')\<rparr> else s')) in
             if rc \<noteq> QMI_NO_ERR then Returns (fin (eLOC_CLIENT_FAILURE_INTERNAL, s\<lparr>qmi := w\<rparr>))
             else (case find_service env instanceId w of
               None \<Rightarrow> Blocks
             | Some w' \<Rightarrow> Returns (fin (connect_client env p (s\<lparr>qmi := w'\<rparr>))))))"

definition zero_cb :: locClientCbDataStructT where
  "zero_cb = \<lparr>pClientCookie = 0, userHandle = 0, eventCallback = 0, respCallback = 0,
     errorCallback = 0, eventRegMask = 0, pMe = 0\<rparr>"

definition set_cb :: "addr \<Rightarrow> (locClientCbDataStructT \<Rightarrow> locClientCbDataStructT)
    \<Rightarrow> 'w loc_client \<Rightarrow> 'w loc_client" where
  "set_cb p f s = s\<lparr>cb_heap := (cb_heap s)(p := map_option f (cb_heap s p))\<rparr>"

definition free_cb :: "addr \<Rightarrow> 'w loc_client \<Rightarrow> 'w loc_client" where
  "free_cb p s = s\<lparr>cb_heap := (cb_heap s)(p := None)\<rparr>"

definition alloc_cb :: "'w loc_client \<Rightarrow> 'w loc_client" where
  "alloc_cb s = s\<lparr>cb_heap := (cb_heap s)(brk s \<mapsto> zero_cb), brk := Suc (brk s)\<rparr>"

text \<open>The callbacks may be a null pointer, and so may the place for the handle; \<open>Some h\<close> is the
  handle stored there.\<close>

definition open_params_ok :: "locClientCallbacksType option \<Rightarrow> addr option \<Rightarrow> bool" where
  "open_params_ok cbs pLocClientHandle =
     (case cbs of
        None \<Rightarrow> False
      | Some c \<Rightarrow> pLocClientHandle \<noteq> None \<and> respIndCb c \<noteq> 0
          \<and> cb_size c = sizeof_locClientCallbacksType)"

definition fill_cb :: "64 word \<Rightarrow> locClientCallbacksType \<Rightarrow> addr \<Rightarrow> locClientCbDataStructT
    \<Rightarrow> locClientCbDataStructT" where
  "fill_cb evMask c cookie d = d\<lparr>eventCallback := eventIndCb c, respCallback := respIndCb c,
     errorCallback := errorCb c, eventRegMask := evMask, pClientCookie := cookie\<rparr>"

definition locClientOpenInstance :: "'w qmi_env \<Rightarrow> 64 word \<Rightarrow> int \<Rightarrow> locClientCallbacksType option
    \<Rightarrow> addr option \<Rightarrow> addr \<Rightarrow> 'w loc_client
    \<Rightarrow> (locClientStatusEnumType \<times> addr option \<times> 'w loc_client) outcome" where
  "locClientOpenInstance env evMask instanceId pLocClientCallbacks pLocClientHandle cookie s =
     (if \<not> open_params_ok pLocClientCallbacks pLocClientHandle
      then Returns (eLOC_CLIENT_FAILURE_INVALID_PARAMETER, pLocClientHandle, s)
      else if calloc_fails env (qmi s) then Returns (eLOC_CLIENT_FAILURE_INTERNAL, Some 0, s)
      else
        let p = brk s in
        andthen (locClientQmiCtrlPointInit env p instanceId (alloc_cb s)) (\<lambda>(status, s1).
        if status \<noteq> eLOC_CLIENT_SUCCESS then Returns (status, Some 0, free_cb p s1)
        else
          andthen (locClientRegisterEventMask env p evMask False (set_cb p (pMe_update (\<lambda>_. p)) s1))
            (\<lambda>(ok, s2).
          if \<not> ok
          then andthen (locClientClose env (Some p) s2) (\<lambda>(st, h, s3).
            Returns (eLOC_CLIENT_FAILURE_INTERNAL, Some 0, s3))
          else Returns (eLOC_CLIENT_SUCCESS, Some p,
            set_cb p (fill_cb evMask (the pLocClientCallbacks) cookie) s2))))"

text \<open>The kinds of target the Android build tells apart, \<open>GNSS_other\<close> for the default case, and
  the service instance of each.\<close>

datatype targetGnssType = GNSS_GSS | GNSS_MSM | GNSS_MDM | GNSS_AUTO | GNSS_other

definition eLOC_CLIENT_INSTANCE_ID_ANY :: int where "eLOC_CLIENT_INSTANCE_ID_ANY = -1"
definition eLOC_CLIENT_INSTANCE_ID_GSS_AUTO :: int where "eLOC_CLIENT_INSTANCE_ID_GSS_AUTO = 0"
definition eLOC_CLIENT_INSTANCE_ID_MODEM_EMULATOR :: int where
  "eLOC_CLIENT_INSTANCE_ID_MODEM_EMULATOR = 5"

definition service_instance :: "int \<Rightarrow> targetGnssType \<Rightarrow> int" where
  "service_instance emulatorCfg target =
     (if emulatorCfg \<noteq> 0 then eLOC_CLIENT_INSTANCE_ID_MODEM_EMULATOR
      else if target = GNSS_AUTO then eLOC_CLIENT_INSTANCE_ID_GSS_AUTO
      else eLOC_CLIENT_INSTANCE_ID_ANY)"

definition LOC_CLIENT_MAX_OPEN_RETRIES :: nat where "LOC_CLIENT_MAX_OPEN_RETRIES = 20"

text \<open>The attempts of \<open>locClientOpen\<close>: one, and \<open>n\<close> more as long as they fail.\<close>

fun open_loop :: "'w qmi_env \<Rightarrow> 64 word \<Rightarrow> int \<Rightarrow> locClientCallbacksType option \<Rightarrow> addr \<Rightarrow> nat
    \<Rightarrow> addr option \<Rightarrow> 'w loc_client
    \<Rightarrow> (locClientStatusEnumType \<times> addr option \<times> 'w loc_client) outcome" where
  "open_loop env evMask instanceId cbs cookie 0 ph s =
     locClientOpenInstance env evMask instanceId cbs ph cookie s"
| "open_loop env evMask instanceId cbs cookie (Suc n) ph s =
     andthen (locClientOpenInstance env evMask instanceId cbs ph cookie s) (\<lambda>(status, ph', s').
       if status \<noteq> eLOC_CLIENT_SUCCESS
       then open_loop env evMask instanceId cbs cookie n ph' s'
       else Returns (status, ph', s'))"

definition locClientOpen :: "'w qmi_env \<Rightarrow> int \<Rightarrow> targetGnssType \<Rightarrow> 64 word
    \<Rightarrow> locClientCallbacksType option \<Rightarrow> addr option \<Rightarrow> addr \<Rightarrow> 'w loc_client
    \<Rightarrow> (locClientStatusEnumType \<times> addr option \<times> 'w loc_client) outcome" where
  "locClientOpen env emulatorCfg target evMask pLocClientCallbacks pLocClientHandle cookie s =
     (if \<not> load_qmi_symbols env (qmi s)
      then Returns (eLOC_CLIENT_FAILURE_GENERAL, pLocClientHandle, s)
      else open_loop env evMask (service_instance emulatorCfg target) pLocClientCallbacks cookie
        LOC_CLIENT_MAX_OPEN_RETRIES pLocClientHandle s)"

section \<open>Callbacks of the QMI library\<close>

text \<open>Each callback runs in two parts: up to the copy of the client's callback into a local variable,
  and from the second test of the callback on. Between the two, while the indication is decoded for
  instance, the code holds no lock, and another thread can run. A callback that another thread does
  not interrupt is the one after the other.\<close>

definition errorCb_begin :: "addr \<Rightarrow> 'w loc_client \<Rightarrow> addr outcome" where
  "errorCb_begin pCallbackData s =
     (if pCallbackData = 0 then Returns 0
      else case cb_heap s pCallbackData of None \<Rightarrow> Faults | Some d \<Rightarrow> Returns (errorCallback d))"

definition errorCb_end :: "int \<Rightarrow> addr \<Rightarrow> addr \<Rightarrow> 'w loc_client \<Rightarrow> 'w loc_client outcome" where
  "errorCb_end err pCallbackData localErrorCallback s =
     (if pCallbackData = 0 \<or> localErrorCallback = 0 then Returns s
      else case cb_heap s pCallbackData of
        None \<Rightarrow> Faults
      | Some d \<Rightarrow>
        if errorCallback d \<noteq> 0 \<and> pCallbackData = pMe d
        then Returns (s\<lparr>client_calls := client_calls s @
          [ErrorCall localErrorCallback pCallbackData (convertQmiErrorToLocError err) (pClientCookie d)]\<rparr>)
        else Returns s)"

definition locClientErrorCb :: "int \<Rightarrow> addr \<Rightarrow> 'w loc_client \<Rightarrow> 'w loc_client outcome" where
  "locClientErrorCb err pCallbackData s =
     andthen (errorCb_begin pCallbackData s) (\<lambda>localErrorCallback.
       errorCb_end err pCallbackData localErrorCallback s)"

definition decode_indication :: "'w qmi_env \<Rightarrow> nat \<Rightarrow> int \<Rightarrow> 8 word list \<Rightarrow> int \<Rightarrow> 'w
    \<Rightarrow> int \<times> 8 word list \<times> 'w" where
  "decode_indication env user_handle msg_id ind_buf indSize w =
     (if 0 < length ind_buf
      then qmi_client_message_decode env user_handle msg_id ind_buf indSize w
      else (QMI_NO_ERR, replicate (nat indSize) 0, w))"

text \<open>An indication that has been decoded, with the local copy of the callback it is for.\<close>

record ind_call =
  ic_handle :: addr
  ic_type :: locClientIndEnumT
  ic_callback :: addr
  ic_msg :: int
  ic_buf :: "8 word list"
  ic_size :: int

definition ind_callback :: "locClientIndEnumT \<Rightarrow> locClientCbDataStructT \<Rightarrow> addr" where
  "ind_callback t d = (case t of eventIndType \<Rightarrow> eventCallback d | respIndType \<Rightarrow> respCallback d)"

definition indCb_begin :: "'w qmi_env \<Rightarrow> nat \<Rightarrow> int \<Rightarrow> 8 word list \<Rightarrow> addr \<Rightarrow> 'w loc_client
    \<Rightarrow> (ind_call option \<times> 'w loc_client) outcome" where
  "indCb_begin env user_handle msg_id ind_buf pCallbackData s =
     (if pCallbackData = 0 then Returns (None, s)
      else case cb_heap s pCallbackData of
        None \<Rightarrow> Faults
      | Some d \<Rightarrow>
        if pCallbackData \<noteq> pMe d \<or> userHandle d \<noteq> user_handle then Returns (None, s)
        else (case locClientGetSizeAndTypeByIndId msg_id of
          None \<Rightarrow> Returns (None, s)
        | Some (indSize, indType) \<Rightarrow>
          if malloc_fails env (qmi s) then Returns (None, s)
          else (case decode_indication env user_handle msg_id ind_buf indSize (qmi s) of
            (rc, buf, w) \<Rightarrow>
              if rc = QMI_NO_ERR
              then Returns (Some \<lparr>ic_handle = pCallbackData, ic_type = indType,
                ic_callback = ind_callback indType d, ic_msg = msg_id, ic_buf = buf,
                ic_size = indSize\<rparr>, s\<lparr>qmi := w\<rparr>)
              else Returns (None, s\<lparr>qmi := w\<rparr>))))"

definition indCb_end :: "ind_call \<Rightarrow> 'w loc_client \<Rightarrow> 'w loc_client outcome" where
  "indCb_end c s =
     (if ic_callback c = 0 then Returns s
      else case cb_heap s (ic_handle c) of
        None \<Rightarrow> Faults
      | Some d \<Rightarrow>
        if ind_callback (ic_type c) d = 0 then Returns s
        else Returns (s\<lparr>client_calls := client_calls s @ [case ic_type c of
          eventIndType \<Rightarrow> EventCall (ic_callback c) (ic_handle c) (ic_msg c) (ic_buf c) (pClientCookie d)
        | respIndType \<Rightarrow>
            RespCall (ic_callback c) (ic_handle c) (ic_msg c) (ic_buf c) (ic_size c) (pClientCookie d)]\<rparr>))"

definition locClientIndCb :: "'w qmi_env \<Rightarrow> nat \<Rightarrow> int \<Rightarrow> 8 word list \<Rightarrow> addr \<Rightarrow> 'w loc_client
    \<Rightarrow> 'w loc_client outcome" where
  "locClientIndCb env user_handle msg_id ind_buf pCallbackData s =
     andthen (indCb_begin env user_handle msg_id ind_buf pCallbackData s) (\<lambda>(call, s').
       case call of None \<Rightarrow> Returns s' | Some c \<Rightarrow> indCb_end c s')"

lemmas ind_cb_defs = locClientIndCb_def indCb_begin_def indCb_end_def
lemmas error_cb_defs = locClientErrorCb_def errorCb_begin_def errorCb_end_def

end
