(* ===== verification/LocClientInv.thy ===== *)
theory LocClientInv
  imports LocClient
begin

text \<open>
  Invariants of the location client: a handle that passes the checks belongs to a live control
  point, and as long as the error callback can be registered every control point's callbacks get
  data that is still there. They hold in every state the client's operations and callbacks reach.
\<close>

section \<open>Live control points\<close>

definition live_ok :: "('w \<Rightarrow> nat set) \<Rightarrow> 'w loc_client \<Rightarrow> bool" where
  "live_ok live s \<longleftrightarrow> fst ` set (control_points s) \<subseteq> live (qmi s) \<and> distinct (map fst (control_points s))"

definition cb_ok :: "'w loc_client \<Rightarrow> bool" where
  "cb_ok s \<longleftrightarrow> 0 < brk s \<and> (\<forall>p d. cb_heap s p = Some d \<longrightarrow>
     0 < p \<and> p < brk s \<and> (pMe d = 0 \<or> pMe d = p \<and> (userHandle d, p) \<in> set (control_points s)))"

text \<open>What the QMI library promises: a new control point has a handle of its own, only releasing
  ends one, and no other call changes which are live.\<close>

definition qmi_laws :: "'w qmi_env \<Rightarrow> ('w \<Rightarrow> nat set) \<Rightarrow> bool" where
  "qmi_laws env live \<longleftrightarrow>
     (\<forall>w p. case qmi_client_init env p w of (rc, h, w') \<Rightarrow>
        if rc = QMI_NO_ERR then h \<noteq> 0 \<and> h \<notin> live w \<and> live w' = insert h (live w)
        else live w' = live w) \<and>
     (\<forall>w h. case qmi_client_release env h w of (rc, w') \<Rightarrow>
        live w' = (if rc = QMI_NO_ERR then live w - {h} else live w)) \<and>
     (\<forall>w. live (snd (snd (qmi_client_notifier_init env w))) = live w) \<and>
     (\<forall>w i. live (snd (qmi_client_get_service_instance env i w)) = live w) \<and>
     (\<forall>w. live (snd (qmi_client_get_any_service env w)) = live w) \<and>
     (\<forall>w. live (signal_wait env w) = live w) \<and>
     (\<forall>w. live (release_notifier env w) = live w) \<and>
     (\<forall>w h p. live (snd (qmi_client_register_error_cb env h p w)) = live w) \<and>
     (\<forall>w h i d n. live (snd (snd (qmi_client_send_msg_sync env h i d n w))) = live w) \<and>
     (\<forall>w h i b n. live (snd (snd (qmi_client_message_decode env h i b n w))) = live w)"

lemma qmi_lawsD:
  assumes "qmi_laws env live"
  shows "qmi_client_init env p w = (rc, h, w') \<Longrightarrow> rc = QMI_NO_ERR \<Longrightarrow>
      h \<noteq> 0 \<and> h \<notin> live w \<and> live w' = insert h (live w)"
    and "qmi_client_init env p w = (rc, h, w') \<Longrightarrow> rc \<noteq> QMI_NO_ERR \<Longrightarrow> live w' = live w"
    and "qmi_client_release env u w = (rc, w') \<Longrightarrow>
      live w' = (if rc = QMI_NO_ERR then live w - {u} else live w)"
    and "qmi_client_notifier_init env w = (rc, b, w') \<Longrightarrow> live w' = live w"
    and "live (snd (qmi_client_get_service_instance env i w)) = live w"
    and "live (snd (qmi_client_get_any_service env w)) = live w"
    and "live (signal_wait env w) = live w"
    and "live (release_notifier env w) = live w"
    and "qmi_client_register_error_cb env u p w = (rc, w') \<Longrightarrow> live w' = live w"
    and "qmi_client_send_msg_sync env u i d n w = (rc, r, w') \<Longrightarrow> live w' = live w"
    and "qmi_client_message_decode env u i src n w = (rc, buf, w') \<Longrightarrow> live w' = live w"
proof -
  show "qmi_client_init env p w = (rc, h, w') \<Longrightarrow> rc = QMI_NO_ERR \<Longrightarrow>
      h \<noteq> 0 \<and> h \<notin> live w \<and> live w' = insert h (live w)"
    using assms unfolding qmi_laws_def by (elim conjE allE [of _ w] allE [of _ p]) auto
  show "qmi_client_init env p w = (rc, h, w') \<Longrightarrow> rc \<noteq> QMI_NO_ERR \<Longrightarrow> live w' = live w"
    using assms unfolding qmi_laws_def by (elim conjE allE [of _ w] allE [of _ p]) auto
  show "qmi_client_release env u w = (rc, w') \<Longrightarrow>
      live w' = (if rc = QMI_NO_ERR then live w - {u} else live w)"
    using assms unfolding qmi_laws_def by (elim conjE allE [of _ w] allE [of _ u]) auto
  note * = assms [unfolded qmi_laws_def]
  have n: "live (snd (snd (qmi_client_notifier_init env w))) = live w" using * by simp
  then show "qmi_client_notifier_init env w = (rc, b, w') \<Longrightarrow> live w' = live w" by simp
  show "live (snd (qmi_client_get_service_instance env i w)) = live w" using * by simp
  show "live (snd (qmi_client_get_any_service env w)) = live w" using * by simp
  show "live (signal_wait env w) = live w" using * by simp
  show "live (release_notifier env w) = live w" using * by simp
  have "live (snd (qmi_client_register_error_cb env u p w)) = live w" using * by simp
  then show "qmi_client_register_error_cb env u p w = (rc, w') \<Longrightarrow> live w' = live w" by simp
  have "live (snd (snd (qmi_client_send_msg_sync env u i d n w))) = live w" using * by simp
  then show "qmi_client_send_msg_sync env u i d n w = (rc, r, w') \<Longrightarrow> live w' = live w" by simp
  have "live (snd (snd (qmi_client_message_decode env u i src n w))) = live w" using * by simp
  then show "qmi_client_message_decode env u i src n w = (rc, buf, w') \<Longrightarrow> live w' = live w" by simp
qed

lemma find_service_live:
  "find_service env i w = Some w' \<Longrightarrow> qmi_laws env live \<longrightarrow> live w' = live w"
proof (rule find_service.raw_induct [where P = "\<lambda>env i w w'. qmi_laws env live \<longrightarrow> live w' = live w"],
    goal_cases)
  case (1 find env i w w')
  show ?case
  proof
    assume laws: "qmi_laws env live"
    let ?r = "if 0 \<le> i then qmi_client_get_service_instance env i w
      else qmi_client_get_any_service env w"
    have r: "live (snd ?r) = live w" using qmi_lawsD(5,6) [OF laws] by auto
    show "live w' = live w"
    proof (cases "fst ?r = QMI_NO_ERR")
      case True
      then show ?thesis using 1(3) r by (simp add: Let_def)
    next
      case False
      then have "find env i (signal_wait env (snd ?r)) = Some w'"
        using 1(3) by (simp add: Let_def)
      from 1(2) [OF this] show ?thesis using r laws qmi_lawsD(7) [OF laws] by simp
    qed
  qed
qed

lemma send_sync_live:
  assumes "qmi_laws env live"
  shows "live (snd (send_sync_loop env u i d k n r w)) = live w"
  by (induction n arbitrary: r w) (auto split: prod.splits simp: qmi_lawsD(10) [OF assms])

text \<open>The invariant of the client.\<close>

definition client_inv :: "('w \<Rightarrow> nat set) \<Rightarrow> 'w loc_client \<Rightarrow> bool" where
  "client_inv live s \<longleftrightarrow> live_ok live s \<and> cb_ok s"

text \<open>What sending a request leaves alone: all but the event mask.\<close>

definition same_but_mask :: "'w loc_client \<Rightarrow> 'w loc_client \<Rightarrow> bool" where
  "same_but_mask s s' \<longleftrightarrow> control_points s' = control_points s \<and> brk s' = brk s \<and>
     client_calls s' = client_calls s \<and>
     (\<forall>q. \<exists>m. cb_heap s' q = map_option (eventRegMask_update m) (cb_heap s q))"

lemma mask_unchanged: "\<exists>m. x = map_option (eventRegMask_update m) x"
proof -
  have "x = map_option (eventRegMask_update (\<lambda>y. y)) x" by (cases x) auto
  then show ?thesis by (rule exI [where x = "\<lambda>y. y"])
qed

lemma check_handle_Some:
  "check_handle h s = Returns (Some d) \<longleftrightarrow>
     h \<noteq> 0 \<and> cb_heap s h = Some d \<and> userHandle d \<noteq> 0 \<and> pMe d = h"
  by (auto simp: check_handle_def split: option.splits if_splits)

lemma update_mask_same: "same_but_mask s (update_mask h i p (s\<lparr>qmi := w\<rparr>))"
  by (auto simp: same_but_mask_def update_mask_def mask_unchanged split: option.splits)

lemma same_but_mask_refl: "same_but_mask s s"
  by (simp add: same_but_mask_def mask_unchanged)

lemma qmi_update_same: "same_but_mask s (s\<lparr>qmi := w\<rparr>)"
  by (simp add: same_but_mask_def mask_unchanged)

lemma qmi_update_mask [simp]: "qmi (update_mask h i p s) = qmi s"
  by (simp add: update_mask_def split: option.splits)

lemma send_cases:
  assumes "locClientSendReq env h i p s = Returns (st, s')"
  obtains (handle) "st = eLOC_CLIENT_FAILURE_INVALID_HANDLE" "s' = s" "check_handle h s = Returns None"
  | (request) d where "st = eLOC_CLIENT_FAILURE_INVALID_PARAMETER" "s' = s"
      "check_handle h s = Returns (Some d)" "validateRequest i p = None"
  | (sent) d x n r w where "check_handle h s = Returns (Some d)" "validateRequest i p = Some (x, n)"
      "send_sync_loop env (userHandle d) i x n LOC_CLIENT_MAX_SYNC_RETRIES \<lparr>result = 0, error = 0\<rparr> (qmi s)
         = (r, w)"
      "st = case_sum id convertQmiResponseToLocStatus r"
      "s' = (if isl r \<or> st \<noteq> eLOC_CLIENT_SUCCESS then s\<lparr>qmi := w\<rparr> else update_mask h i p (s\<lparr>qmi := w\<rparr>))"
proof -
  from assms obtain chk where chk: "check_handle h s = Returns chk"
    by (cases "check_handle h s") (auto simp: locClientSendReq_def)
  show thesis
  proof (cases chk)
    case None
    then show thesis using assms chk by (intro handle) (auto simp: locClientSendReq_def)
  next
    case d: (Some d)
    show thesis
    proof (cases "validateRequest i p")
      case None
      then show thesis using assms chk d by (intro request [of d]) (auto simp: locClientSendReq_def)
    next
      case (Some xn)
      obtain x n where xn: "xn = (x, n)" by fastforce
      obtain r w where r: "send_sync_loop env (userHandle d) i x n LOC_CLIENT_MAX_SYNC_RETRIES
          \<lparr>result = 0, error = 0\<rparr> (qmi s) = (r, w)" by fastforce
      show thesis
        using assms chk d Some xn r
        by (intro sent [of d x n r w]) (auto simp: locClientSendReq_def Let_def split: sum.splits)
    qed
  qed
qed

lemma send_same:
  assumes "locClientSendReq env h i p s = Returns (st, s')"
  shows "same_but_mask s s'"
  using assms
  by (cases rule: send_cases) (auto simp: update_mask_same qmi_update_same same_but_mask_refl)

lemma send_live:
  assumes "qmi_laws env live" and "locClientSendReq env h i p s = Returns (st, s')"
  shows "live (qmi s') = live (qmi s)"
  using assms(2)
proof (cases rule: send_cases)
  case (sent d x n r w)
  then show ?thesis
    using send_sync_live [OF assms(1), of "userHandle d" i x n LOC_CLIENT_MAX_SYNC_RETRIES
        "\<lparr>result = 0, error = 0\<rparr>" "qmi s"] by auto
qed auto

lemma same_but_mask_inv:
  assumes "same_but_mask s s'" and "live (qmi s') = live (qmi s)" and "client_inv live s"
  shows "client_inv live s'"
proof -
  have "cb_ok s'"
    unfolding cb_ok_def
  proof (intro conjI allI impI)
    show "0 < brk s'" using assms by (simp add: same_but_mask_def client_inv_def cb_ok_def)
    fix p d
    assume "cb_heap s' p = Some d"
    with assms(1) obtain m e where "d = eventRegMask_update m e" "cb_heap s p = Some e"
      unfolding same_but_mask_def by (metis map_option_eq_Some)
    moreover from assms(3) this(2) have "0 < p \<and> p < brk s \<and>
        (pMe e = 0 \<or> pMe e = p \<and> (userHandle e, p) \<in> set (control_points s))"
      by (simp add: client_inv_def cb_ok_def)
    ultimately show "0 < p" "p < brk s'"
      "pMe d = 0 \<or> pMe d = p \<and> (userHandle d, p) \<in> set (control_points s')"
      using assms(1) by (auto simp: same_but_mask_def)
  qed
  with assms show ?thesis by (simp add: client_inv_def live_ok_def same_but_mask_def)
qed

lemma send_inv:
  assumes "qmi_laws env live" and "locClientSendReq env h i p s = Returns (st, s')"
    and "client_inv live s"
  shows "client_inv live s'"
  using send_same [OF assms(2)] send_live [OF assms(1,2)] assms(3) by (rule same_but_mask_inv)

lemma cb_okD:
  "cb_ok s \<Longrightarrow> cb_heap s p = Some d \<Longrightarrow>
     0 < p \<and> p < brk s \<and> (pMe d = 0 \<or> pMe d = p \<and> (userHandle d, p) \<in> set (control_points s))"
  by (simp add: cb_ok_def)

lemma close_cases:
  assumes "locClientClose env ph s = Returns (st, ph', s')"
  obtains (null) "ph = None" "ph' = None" "s' = s" "st = eLOC_CLIENT_FAILURE_INVALID_PARAMETER"
  | (handle) h where "ph = Some h" "check_handle h s = Returns None" "ph' = ph" "s' = s"
      "st = eLOC_CLIENT_FAILURE_INVALID_HANDLE"
  | (refused) h d rc w where "ph = Some h" "check_handle h s = Returns (Some d)"
      "qmi_client_release env (userHandle d) (qmi s) = (rc, w)" "rc \<noteq> QMI_NO_ERR"
      "ph' = ph" "s' = s\<lparr>qmi := w\<rparr>" "st = eLOC_CLIENT_FAILURE_INTERNAL"
  | (closed) h d w where "ph = Some h" "check_handle h s = Returns (Some d)"
      "qmi_client_release env (userHandle d) (qmi s) = (QMI_NO_ERR, w)" "ph' = Some 0"
      "s' = release_client (userHandle d) (s\<lparr>qmi := w, cb_heap := (cb_heap s)(h := None)\<rparr>)"
      "st = eLOC_CLIENT_SUCCESS"
proof (cases ph)
  case None
  then show thesis using assms by (intro null) (auto simp: locClientClose_def)
next
  case (Some h)
  with assms obtain chk where chk: "check_handle h s = Returns chk"
    by (cases "check_handle h s") (auto simp: locClientClose_def)
  show thesis
  proof (cases chk)
    case None
    then show thesis using assms Some chk by (intro handle [of h]) (auto simp: locClientClose_def)
  next
    case d: (Some d)
    obtain rc w where rc: "qmi_client_release env (userHandle d) (qmi s) = (rc, w)" by fastforce
    show thesis
      using assms Some chk d rc
      by (cases "rc = QMI_NO_ERR")
        (auto simp: locClientClose_def intro: refused [of h d rc w] closed [of h d w])
  qed
qed

lemma inj_control_points:
  "distinct (map fst xs) \<Longrightarrow> (u, p) \<in> set xs \<Longrightarrow> (u, q) \<in> set xs \<Longrightarrow> p = q"
  by (rule eq_key_imp_eq_value)

lemma close_inv:
  assumes "qmi_laws env live" and "locClientClose env ph s = Returns (st, ph', s')"
    and "client_inv live s"
  shows "client_inv live s'"
  using assms(2)
proof (cases rule: close_cases)
  case (refused h d rc w)
  then show ?thesis using assms(3) qmi_lawsD(3) [OF assms(1) refused(3)]
    by (simp add: client_inv_def live_ok_def cb_ok_def)
next
  case (closed h d w)
  let ?u = "userHandle d"
  have inv: "live_ok live s" "cb_ok s" using assms(3) by (simp_all add: client_inv_def)
  from closed(2) have d: "cb_heap s h = Some d" "pMe d = h" "h \<noteq> 0" by (auto simp: check_handle_Some)
  with cb_okD [OF inv(2) d(1)] have uh: "(?u, h) \<in> set (control_points s)" by simp
  have lw: "live w = live (qmi s) - {?u}" using qmi_lawsD(3) [OF assms(1) closed(3)] by simp
  have "live_ok live s'"
    using inv(1) lw by (auto simp: live_ok_def closed(5) release_client_def distinct_map_filter)
  moreover have "cb_ok s'"
    unfolding cb_ok_def
  proof (intro conjI allI impI)
    show "0 < brk s'" using inv(2) by (simp add: closed(5) release_client_def cb_ok_def)
    fix q e
    assume "cb_heap s' q = Some e"
    then have q: "q \<noteq> h" "cb_heap s q = Some e"
      by (auto simp: closed(5) release_client_def split: if_splits)
    have "userHandle e \<noteq> ?u" if "(userHandle e, q) \<in> set (control_points s)"
      using that uh q(1) inv(1) inj_control_points [of "control_points s" ?u h q]
      by (auto simp: live_ok_def)
    then show "0 < q" "q < brk s'"
      "pMe e = 0 \<or> pMe e = q \<and> (userHandle e, q) \<in> set (control_points s')"
      using cb_okD [OF inv(2) q(2)] by (auto simp: closed(5) release_client_def)
  qed
  ultimately show ?thesis by (simp add: client_inv_def)
qed (use assms(3) in auto)

section \<open>Opening\<close>

text \<open>What initialising the control point does to the callback data at \<open>p\<close>, which is not linked
  to itself yet.\<close>

definition connected :: "addr \<Rightarrow> locClientCbDataStructT \<Rightarrow> locClientStatusEnumType \<Rightarrow> 'w loc_client
    \<Rightarrow> 'w loc_client \<Rightarrow> bool" where
  "connected p d st s s' \<longleftrightarrow> brk s' = brk s \<and> client_calls s' = client_calls s \<and>
     (\<exists>u. cb_heap s' = (cb_heap s)(p \<mapsto> d\<lparr>userHandle := u\<rparr>) \<and>
       (st = eLOC_CLIENT_SUCCESS \<longrightarrow> u \<noteq> 0 \<and> (u, p) \<in> set (control_points s')))"

lemma connected_failed:
  assumes "cb_heap s p = Some d" and "st \<noteq> eLOC_CLIENT_SUCCESS"
    and "brk s' = brk s" and "client_calls s' = client_calls s" and "cb_heap s' = cb_heap s"
  shows "connected p d st s s'"
  unfolding connected_def
proof (intro conjI exI)
  show "cb_heap s' = (cb_heap s)(p \<mapsto> d\<lparr>userHandle := userHandle d\<rparr>)" using assms by auto
qed (use assms in auto)

lemma cb_ok_more:
  assumes "cb_ok s" and "set (control_points s) \<subseteq> set (control_points s')" and "brk s' = brk s"
    and "\<And>q e. cb_heap s' q = Some e \<Longrightarrow> cb_heap s q = Some e \<or> (cb_heap s q \<noteq> None \<and> pMe e = 0)"
  shows "cb_ok s'"
  unfolding cb_ok_def
proof (intro conjI allI impI)
  show "0 < brk s'" using assms by (simp add: cb_ok_def)
  fix q e
  assume e: "cb_heap s' q = Some e"
  from assms(4) [OF this] obtain d where d: "cb_heap s q = Some d" "e = d \<or> pMe e = 0" by auto
  with cb_okD [OF assms(1) d(1)] show "0 < q" "q < brk s'"
    "pMe e = 0 \<or> pMe e = q \<and> (userHandle e, q) \<in> set (control_points s')"
    using assms(2,3) by auto
qed

lemma client_inv_qmi:
  "client_inv live s \<Longrightarrow> live w = live (qmi s) \<Longrightarrow> client_inv live (s\<lparr>qmi := w\<rparr>)"
  by (simp add: client_inv_def live_ok_def cb_ok_def)

lemma connect_client_connected:
  assumes laws: "qmi_laws env live" and inv: "client_inv live s"
    and d: "cb_heap s p = Some d" "pMe d = 0"
    and c: "connect_client env p s = (st, s')"
  shows "client_inv live s' \<and> connected p d st s s'"
proof -
  obtain rc u w where i: "qmi_client_init env p (qmi s) = (rc, u, w)" by (metis prod_cases3)
  show ?thesis
  proof (cases "rc = QMI_NO_ERR")
    case False
    have "s' = s\<lparr>qmi := w\<rparr>" "st = eLOC_CLIENT_FAILURE_INTERNAL"
      using c i False by (auto simp: connect_client_def)
    then show ?thesis
      using client_inv_qmi [OF inv qmi_lawsD(2) [OF laws i False]] d(1)
      by (auto intro: connected_failed)
  next
    case True
    have u: "u \<noteq> 0" "u \<notin> live (qmi s)" "live w = insert u (live (qmi s))"
      using qmi_lawsD(1) [OF laws i True] by auto
    obtain rc' w' where r: "qmi_client_register_error_cb env u p w = (rc', w')" by fastforce
    have lw: "live w' = insert u (live (qmi s))" using qmi_lawsD(9) [OF laws r] u by simp
    let ?cps = "(u, p) # control_points s"
    have ok: "live_ok live s" "cb_ok s" using inv by (simp_all add: client_inv_def)
    have lo: "fst ` set ?cps \<subseteq> live w' \<and> distinct (map fst ?cps)"
      using ok(1) u lw by (auto simp: live_ok_def)
    show ?thesis
    proof (cases "rc' = QMI_NO_ERR")
      case False
      then have s': "s' = s\<lparr>qmi := w', control_points := ?cps\<rparr>" "st = eLOC_CLIENT_FAILURE_INTERNAL"
        using c i r True by (auto simp: connect_client_def Let_def)
      have "client_inv live s'"
        using lo cb_ok_more [OF ok(2), of s'] by (simp add: s' client_inv_def live_ok_def subset_insertI)
      then show ?thesis using d(1) by (auto simp: s' intro: connected_failed)
    next
      case rc': True
      then have s': "s' = s\<lparr>qmi := w', control_points := ?cps,
          cb_heap := (cb_heap s)(p \<mapsto> d\<lparr>userHandle := u\<rparr>)\<rparr>" "st = eLOC_CLIENT_SUCCESS"
        using c i r True d by (auto simp: connect_client_def Let_def)
      have "client_inv live s'"
        unfolding client_inv_def
      proof
        show "live_ok live s'" using lo by (simp add: s' live_ok_def)
        show "cb_ok s'"
          by (rule cb_ok_more [OF ok(2)]) (use d in \<open>auto simp: s' split: if_splits\<close>)
      qed
      then show ?thesis using u(1) unfolding connected_def s' by auto
    qed
  qed
qed

lemma ctrl_point_connected:
  assumes laws: "qmi_laws env live" and inv: "client_inv live s"
    and d: "cb_heap s p = Some d" "pMe d = 0"
    and c: "locClientQmiCtrlPointInit env p i s = Returns (st, s')"
  shows "client_inv live s' \<and> connected p d st s s'"
proof -
  obtain rc n w where n: "qmi_client_notifier_init env (qmi s) = (rc, n, w)" by (metis prod_cases3)
  have lw: "live w = live (qmi s)" by (rule qmi_lawsD(4) [OF laws n])
  define fin where "fin = (\<lambda>(st :: locClientStatusEnumType, s' :: 'a loc_client). (st,
    if n then s'\<lparr>qmi := release_notifier env (qmi s')\<rparr> else s'))"
  have fin: "client_inv live t' \<and> connected p d u s t'"
    if "fin (u', t) = (u, t')" "client_inv live t" "connected p d u' s t" for u u' t t'
    using that client_inv_qmi [OF that(2) qmi_lawsD(8) [OF laws]]
    by (auto simp: fin_def connected_def split: if_splits)
  show ?thesis
  proof (cases "rc = QMI_NO_ERR")
    case False
    then have "fin (eLOC_CLIENT_FAILURE_INTERNAL, s\<lparr>qmi := w\<rparr>) = (st, s')"
      using c n by (simp add: locClientQmiCtrlPointInit_def loc_get_service_object_v02_def
          loc_get_service_object_internal_v02_def Let_def fin_def)
    then show ?thesis
    proof (rule fin)
      show "client_inv live (s\<lparr>qmi := w\<rparr>)" using inv lw by (rule client_inv_qmi)
      show "connected p d eLOC_CLIENT_FAILURE_INTERNAL s (s\<lparr>qmi := w\<rparr>)"
        using d(1) by (auto intro: connected_failed)
    qed
  next
    case True
    with c n obtain w' where f: "find_service env i w = Some w'"
      and e: "fin (connect_client env p (s\<lparr>qmi := w'\<rparr>)) = (st, s')"
      by (auto simp: locClientQmiCtrlPointInit_def loc_get_service_object_v02_def
          loc_get_service_object_internal_v02_def Let_def fin_def split: option.splits)
    obtain u t where t: "connect_client env p (s\<lparr>qmi := w'\<rparr>) = (u, t)" by fastforce
    have "live w' = live (qmi s)" using find_service_live [OF f, THEN mp, OF laws] lw by simp
    then have "client_inv live (s\<lparr>qmi := w'\<rparr>)" using inv by (intro client_inv_qmi)
    from connect_client_connected [OF laws this _ d(2) t] d(1)
    have "client_inv live t \<and> connected p d u (s\<lparr>qmi := w'\<rparr>) t" by simp
    then show ?thesis using fin [OF e [unfolded t]] by (simp add: connected_def)
  qed
qed

lemma alloc_inv: "client_inv live s \<Longrightarrow> client_inv live (alloc_cb s)"
  by (auto simp: client_inv_def live_ok_def cb_ok_def alloc_cb_def zero_cb_def less_Suc_eq)

lemma free_inv: "client_inv live s \<Longrightarrow> client_inv live (free_cb p s)"
  by (auto simp: client_inv_def live_ok_def cb_ok_def free_cb_def)

lemma set_cb_inv:
  assumes "client_inv live s"
    and "\<And>d. cb_heap s p = Some d \<Longrightarrow>
      pMe (f d) = 0 \<or> pMe (f d) = p \<and> (userHandle (f d), p) \<in> set (control_points s)"
  shows "client_inv live (set_cb p f s)"
  using assms by (auto simp: client_inv_def live_ok_def cb_ok_def set_cb_def)

lemma register_send:
  assumes "locClientRegisterEventMask env h m b s = Returns (ok, s')"
  shows "\<exists>bs st. locClientSendReq env h QMI_LOC_REG_EVENTS_REQ_V02 (Some bs) s = Returns (st, s') \<and>
    ok = (st = eLOC_CLIENT_SUCCESS)"
  using assms by (auto simp: locClientRegisterEventMask_def andthen_Returns Let_def)

text \<open>A successful \<open>locClientOpenInstance\<close>.\<close>

definition opened :: "64 word \<Rightarrow> locClientCallbacksType \<Rightarrow> addr \<Rightarrow> addr \<Rightarrow> 'w loc_client \<Rightarrow> bool" where
  "opened m c cookie p s \<longleftrightarrow> p \<noteq> 0 \<and>
     (\<exists>u. u \<noteq> 0 \<and> (u, p) \<in> set (control_points s) \<and>
       cb_heap s p = Some \<lparr>pClientCookie = cookie, userHandle = u, eventCallback = eventIndCb c,
         respCallback = respIndCb c, errorCallback = errorCb c, eventRegMask = m, pMe = p\<rparr>)"

lemma open_instance:
  assumes laws: "qmi_laws env live" and inv: "client_inv live s"
    and o: "locClientOpenInstance env m i cbs ph cookie s = Returns (st, ph', s')"
  shows "client_inv live s' \<and>
    (st = eLOC_CLIENT_SUCCESS \<longrightarrow> (\<exists>c p. cbs = Some c \<and> ph' = Some p \<and> opened m c cookie p s')) \<and>
    (st \<noteq> eLOC_CLIENT_SUCCESS \<longrightarrow> (if open_params_ok cbs ph then ph' = Some 0 else ph' = ph))"
proof (cases "open_params_ok cbs ph \<and> \<not> calloc_fails env (qmi s)")
  case False
  then show ?thesis using o inv by (auto simp: locClientOpenInstance_def split: if_splits)
next
  case ok: True
  then obtain c where c: "cbs = Some c" by (auto simp: open_params_ok_def split: option.splits)
  let ?p = "brk s"
  have p: "0 < ?p" using inv by (simp add: client_inv_def cb_ok_def)
  let ?s0 = "alloc_cb s"
  from ok o obtain st1 s1 where i: "locClientQmiCtrlPointInit env ?p i ?s0 = Returns (st1, s1)"
    by (auto simp: locClientOpenInstance_def Let_def andthen_Returns)
  have "cb_heap ?s0 ?p = Some zero_cb" "pMe zero_cb = 0" by (simp_all add: alloc_cb_def zero_cb_def)
  from ctrl_point_connected [OF laws alloc_inv [OF inv] this i]
  have inv1: "client_inv live s1" and con: "connected ?p zero_cb st1 ?s0 s1" by auto
  show ?thesis
  proof (cases "st1 = eLOC_CLIENT_SUCCESS")
    case False
    then have "st = st1" "ph' = Some 0" "s' = free_cb ?p s1"
      using ok o i by (auto simp: locClientOpenInstance_def Let_def)
    then show ?thesis using False ok free_inv [OF inv1] by simp
  next
    case True
    let ?s2 = "set_cb ?p (pMe_update (\<lambda>_. ?p)) s1"
    from con True obtain u where u: "cb_heap s1 ?p = Some (zero_cb\<lparr>userHandle := u\<rparr>)"
      "u \<noteq> 0" "(u, ?p) \<in> set (control_points s1)"
      by (auto simp: connected_def)
    have inv2: "client_inv live ?s2" by (rule set_cb_inv [OF inv1]) (simp add: u)
    have h2: "cb_heap ?s2 ?p = Some (zero_cb\<lparr>userHandle := u, pMe := ?p\<rparr>)"
      "(u, ?p) \<in> set (control_points ?s2)"
      using u by (simp_all add: set_cb_def)
    from ok o i True obtain k s3 where r: "locClientRegisterEventMask env ?p m False ?s2 = Returns (k, s3)"
      by (auto simp: locClientOpenInstance_def Let_def andthen_Returns)
    from register_send [OF r] obtain bs st3
      where send: "locClientSendReq env ?p QMI_LOC_REG_EVENTS_REQ_V02 (Some bs) ?s2 = Returns (st3, s3)"
      by auto
    note inv3 = send_inv [OF laws send inv2]
    from send_same [OF send] obtain g where
      "cb_heap s3 ?p = map_option (eventRegMask_update g) (cb_heap ?s2 ?p)"
      "control_points s3 = control_points ?s2"
      unfolding same_but_mask_def by blast
    then obtain m' where
      h3: "cb_heap s3 ?p = Some (zero_cb\<lparr>userHandle := u, pMe := ?p, eventRegMask := m'\<rparr>)"
      "(u, ?p) \<in> set (control_points s3)"
      using h2 by (auto simp: zero_cb_def)
    show ?thesis
    proof (cases k)
      case False
      with ok o i True r obtain a b where "locClientClose env (Some ?p) s3 = Returns (a, b, s')"
        and "st = eLOC_CLIENT_FAILURE_INTERNAL" "ph' = Some 0"
        by (auto simp: locClientOpenInstance_def Let_def andthen_Returns)
      then show ?thesis using close_inv [OF laws _ inv3] ok by auto
    next
      case True
      have s': "st = eLOC_CLIENT_SUCCESS" "ph' = Some ?p" "s' = set_cb ?p (fill_cb m c cookie) s3"
        using ok o i \<open>st1 = eLOC_CLIENT_SUCCESS\<close> r True c
        by (auto simp: locClientOpenInstance_def Let_def)
      have "client_inv live s'"
        unfolding s' by (rule set_cb_inv [OF inv3]) (simp add: h3 fill_cb_def)
      moreover have "opened m c cookie ?p s'"
        using h3 u(2) p by (auto simp: opened_def s' set_cb_def fill_cb_def zero_cb_def)
      ultimately show ?thesis using s' c by auto
    qed
  qed
qed

section \<open>Reachable states\<close>

lemma open_loop_inv:
  assumes laws: "qmi_laws env live"
  shows "client_inv live s \<Longrightarrow> open_loop env m i cbs cookie n ph s = Returns (st, ph', s') \<Longrightarrow>
    client_inv live s' \<and>
    (st = eLOC_CLIENT_SUCCESS \<longrightarrow> (\<exists>c p. cbs = Some c \<and> ph' = Some p \<and> opened m c cookie p s')) \<and>
    (st \<noteq> eLOC_CLIENT_SUCCESS \<longrightarrow> (if open_params_ok cbs ph then ph' = Some 0 else ph' = ph))"
proof (induction n arbitrary: s ph)
  case 0
  then show ?case using open_instance [OF laws] by simp
next
  case (Suc n)
  from Suc.prems(2) obtain st1 ph1 s1
    where 1: "locClientOpenInstance env m i cbs ph cookie s = Returns (st1, ph1, s1)"
    by (auto simp: andthen_Returns)
  note o = open_instance [OF laws Suc.prems(1) 1]
  show ?case
  proof (cases "st1 = eLOC_CLIENT_SUCCESS")
    case True
    then show ?thesis using Suc.prems 1 o by simp
  next
    case False
    have "open_params_ok cbs ph1 = open_params_ok cbs ph"
      using o False by (auto simp: open_params_ok_def split: option.splits if_splits)
    moreover have "open_loop env m i cbs cookie n ph1 s1 = Returns (st, ph', s')"
      using Suc.prems(2) 1 False by simp
    ultimately show ?thesis using Suc.IH [of s1 ph1] o False by (auto split: if_splits)
  qed
qed

lemma open_inv:
  assumes "qmi_laws env live" and "client_inv live s"
    and "locClientOpen env e t m cbs ph cookie s = Returns (st, ph', s')"
  shows "client_inv live s'"
  using assms open_loop_inv [OF assms(1,2)]
  by (auto simp: locClientOpen_def split: if_splits)

lemma ind_same:
  assumes "locClientIndCb env u i b p s = Returns s'"
  shows "cb_heap s' = cb_heap s \<and> brk s' = brk s \<and> control_points s' = control_points s"
  using assms by (auto simp: ind_cb_defs split: if_splits option.splits prod.splits)

lemma ind_live:
  assumes "qmi_laws env live" and "locClientIndCb env u i b p s = Returns s'"
  shows "live (qmi s') = live (qmi s)"
  using assms(2) qmi_lawsD(11) [OF assms(1)]
  by (auto simp: ind_cb_defs decode_indication_def split: if_splits option.splits prod.splits)

lemma ind_inv:
  assumes "qmi_laws env live" and "client_inv live s" and "locClientIndCb env u i b p s = Returns s'"
  shows "client_inv live s'"
  using assms(2) ind_same [OF assms(3)] ind_live [OF assms(1,3)]
  by (simp add: client_inv_def live_ok_def cb_ok_def)

lemma err_same:
  assumes "locClientErrorCb e p s = Returns s'"
  shows "cb_heap s' = cb_heap s \<and> brk s' = brk s \<and> control_points s' = control_points s \<and> qmi s' = qmi s"
  using assms by (auto simp: error_cb_defs split: if_splits option.splits)

lemma err_inv:
  assumes "client_inv live s" and "locClientErrorCb e p s = Returns s'"
  shows "client_inv live s'"
  using assms(1) err_same [OF assms(2)] by (simp add: client_inv_def live_ok_def cb_ok_def)

definition client_start :: "'w \<Rightarrow> 'w loc_client" where
  "client_start w = \<lparr>cb_heap = (\<lambda>_. None), brk = 1, control_points = [], client_calls = [], qmi = w\<rparr>"

inductive client_reach :: "'w qmi_env \<Rightarrow> 'w loc_client \<Rightarrow> bool" for env where
  start: "client_reach env (client_start w)"
| opens: "client_reach env s \<Longrightarrow>
    locClientOpen env e t m cbs ph cookie s = Returns (st, ph', s') \<Longrightarrow> client_reach env s'"
| close: "client_reach env s \<Longrightarrow> locClientClose env ph s = Returns (st, ph', s') \<Longrightarrow> client_reach env s'"
| send: "client_reach env s \<Longrightarrow> locClientSendReq env h i p s = Returns (st, s') \<Longrightarrow> client_reach env s'"
| indication: "client_reach env s \<Longrightarrow> (u, p) \<in> set (control_points s) \<Longrightarrow>
    locClientIndCb env u i b p s = Returns s' \<Longrightarrow> client_reach env s'"
| failure: "client_reach env s \<Longrightarrow> (u, p) \<in> set (control_points s) \<Longrightarrow>
    locClientErrorCb e p s = Returns s' \<Longrightarrow> client_reach env s'"

lemma client_reach_inv:
  assumes "qmi_laws env live" and "client_reach env s"
  shows "client_inv live s"
  using assms(2)
proof induction
  case (start w)
  then show ?case by (simp add: client_start_def client_inv_def live_ok_def cb_ok_def)
next
  case (opens s e t m cbs ph cookie st ph' s')
  then show ?case by (blast intro: open_inv [OF assms(1)])
next
  case (close s ph st ph' s')
  then show ?case by (blast intro: close_inv [OF assms(1)])
next
  case (send s h i p st s')
  then show ?case by (blast intro: send_inv [OF assms(1)])
next
  case (indication s u p i b s')
  then show ?case by (blast intro: ind_inv [OF assms(1)])
next
  case (failure s u p e s')
  then show ?case by (blast intro: err_inv)
qed

text \<open>Every control point's callbacks get a pointer to callback data that is still there, and that
  points to itself and back to the control point.\<close>

definition callbacks_ok :: "'w loc_client \<Rightarrow> bool" where
  "callbacks_ok s \<longleftrightarrow> list_all (\<lambda>(u, p).
     case cb_heap s p of None \<Rightarrow> False | Some d \<Rightarrow> userHandle d = u \<and> pMe d = p) (control_points s)"

lemma callbacks_okD:
  "callbacks_ok s \<Longrightarrow> (u, p) \<in> set (control_points s) \<Longrightarrow>
     \<exists>d. cb_heap s p = Some d \<and> userHandle d = u \<and> pMe d = p"
  by (fastforce simp: callbacks_ok_def list_all_iff split: option.splits)

lemma callbacks_okI:
  "(\<And>u p. (u, p) \<in> set (control_points s) \<Longrightarrow>
     \<exists>d. cb_heap s p = Some d \<and> userHandle d = u \<and> pMe d = p) \<Longrightarrow> callbacks_ok s"
  by (fastforce simp: callbacks_ok_def list_all_iff split: option.splits)

lemma same_but_mask_callbacks:
  assumes "same_but_mask s s'" and "callbacks_ok s"
  shows "callbacks_ok s'"
proof (rule callbacks_okI)
  fix u p
  assume "(u, p) \<in> set (control_points s')"
  with assms(1) have "(u, p) \<in> set (control_points s)" by (simp add: same_but_mask_def)
  then obtain d where d: "cb_heap s p = Some d" "userHandle d = u" "pMe d = p"
    using callbacks_okD [OF assms(2)] by blast
  from assms(1) obtain g where "cb_heap s' p = map_option (eventRegMask_update g) (cb_heap s p)"
    unfolding same_but_mask_def by blast
  with d show "\<exists>d. cb_heap s' p = Some d \<and> userHandle d = u \<and> pMe d = p" by simp
qed

lemma close_callbacks:
  assumes "callbacks_ok s" and "locClientClose env ph s = Returns (st, ph', s')"
  shows "callbacks_ok s'"
  using assms(2)
proof (cases rule: close_cases)
  case (refused h d rc w)
  then show ?thesis using assms(1) by (simp add: callbacks_ok_def)
next
  case (closed h d w)
  then have d: "cb_heap s h = Some d" by (simp add: check_handle_Some)
  show ?thesis
  proof (rule callbacks_okI)
    fix u p
    assume "(u, p) \<in> set (control_points s')"
    then have up: "(u, p) \<in> set (control_points s)" "u \<noteq> userHandle d"
      by (auto simp: closed(5) release_client_def)
    from callbacks_okD [OF assms(1) up(1)] obtain e
      where e: "cb_heap s p = Some e" "userHandle e = u" "pMe e = p" by blast
    then have "p \<noteq> h" using up(2) d by auto
    then show "\<exists>d. cb_heap s' p = Some d \<and> userHandle d = u \<and> pMe d = p"
      using e by (simp add: closed(5) release_client_def)
  qed
qed (use assms(1) in auto)

definition error_cb_registers :: "'w qmi_env \<Rightarrow> bool" where
  "error_cb_registers env \<longleftrightarrow> (\<forall>u p w. fst (qmi_client_register_error_cb env u p w) = QMI_NO_ERR)"

definition linked :: "addr \<Rightarrow> locClientStatusEnumType \<Rightarrow> 'w loc_client \<Rightarrow> 'w loc_client \<Rightarrow> bool" where
  "linked p st s s' \<longleftrightarrow>
     (if st = eLOC_CLIENT_SUCCESS
      then (\<exists>u. control_points s' = (u, p) # control_points s \<and>
        cb_heap s' = (cb_heap s)(p := map_option (userHandle_update (\<lambda>_. u)) (cb_heap s p)))
      else control_points s' = control_points s \<and> cb_heap s' = cb_heap s)"

lemma connect_client_linked:
  assumes "error_cb_registers env" and "connect_client env p s = (st, s')"
  shows "linked p st s s'"
proof -
  obtain rc u w where i: "qmi_client_init env p (qmi s) = (rc, u, w)" by (metis prod_cases3)
  obtain rc' w' where r: "qmi_client_register_error_cb env u p w = (rc', w')" by fastforce
  then have "rc' = QMI_NO_ERR" using assms(1) unfolding error_cb_registers_def by (metis fst_conv)
  then show ?thesis
    using assms(2) i r
    by (cases "rc = QMI_NO_ERR") (auto simp: connect_client_def Let_def linked_def)
qed

lemma ctrl_point_linked:
  assumes "error_cb_registers env" and "locClientQmiCtrlPointInit env p i s = Returns (st, s')"
  shows "linked p st s s'"
proof -
  obtain rc n w where n: "qmi_client_notifier_init env (qmi s) = (rc, n, w)" by (metis prod_cases3)
  have get: "loc_get_service_object_v02 = Some loc_qmi_idl_service_object_v02"
    by (simp add: loc_get_service_object_v02_def loc_get_service_object_internal_v02_def)
  show ?thesis
  proof (cases "rc = QMI_NO_ERR")
    case False
    then show ?thesis using assms(2) n
      by (auto simp: locClientQmiCtrlPointInit_def get Let_def linked_def split: if_splits)
  next
    case True
    with assms(2) n obtain w' where f: "find_service env i w = Some w'"
      by (auto simp: locClientQmiCtrlPointInit_def get Let_def split: option.splits)
    obtain u t where t: "connect_client env p (s\<lparr>qmi := w'\<rparr>) = (u, t)" by fastforce
    from connect_client_linked [OF assms(1) t] show ?thesis
      using assms(2) n True f t
      by (auto simp: locClientQmiCtrlPointInit_def get Let_def linked_def split: if_splits)
  qed
qed

lemma set_cb_callbacks:
  assumes "callbacks_ok s" and "\<And>d. userHandle (f d) = userHandle d \<and> (pMe d = p \<longrightarrow> pMe (f d) = p)"
  shows "callbacks_ok (set_cb p f s)"
  using callbacks_okD [OF assms(1)] assms(2) by (intro callbacks_okI) (fastforce simp: set_cb_def)

lemma open_instance_callbacks:
  assumes reg: "error_cb_registers env" and ok: "cb_ok s" "callbacks_ok s"
    and o: "locClientOpenInstance env m i cbs ph cookie s = Returns (st, ph', s')"
  shows "callbacks_ok s'"
proof (cases "open_params_ok cbs ph \<and> \<not> calloc_fails env (qmi s)")
  case False
  then show ?thesis using o ok by (auto simp: locClientOpenInstance_def split: if_splits)
next
  case params: True
  let ?p = "brk s" and ?s0 = "alloc_cb s"
  have fresh: "\<exists>d. cb_heap s q = Some d \<and> userHandle d = u \<and> pMe d = q \<and> q \<noteq> ?p"
    if up: "(u, q) \<in> set (control_points s)" for u q
  proof -
    from callbacks_okD [OF ok(2) up] obtain d
      where "cb_heap s q = Some d" "userHandle d = u" "pMe d = q" by blast
    with cb_okD [OF ok(1), of q d] show ?thesis by auto
  qed
  from params o obtain st1 s1 where i: "locClientQmiCtrlPointInit env ?p i ?s0 = Returns (st1, s1)"
    by (auto simp: locClientOpenInstance_def Let_def andthen_Returns)
  note lnk = ctrl_point_linked [OF reg i]
  show ?thesis
  proof (cases "st1 = eLOC_CLIENT_SUCCESS")
    case False
    then have "s' = free_cb ?p s1" using params o i by (auto simp: locClientOpenInstance_def Let_def)
    then show ?thesis
      using fresh lnk False by (intro callbacks_okI) (fastforce simp: linked_def free_cb_def alloc_cb_def)
  next
    case True
    let ?s2 = "set_cb ?p (pMe_update (\<lambda>_. ?p)) s1"
    have ok2: "callbacks_ok ?s2"
      using fresh lnk True by (intro callbacks_okI) (fastforce simp: linked_def set_cb_def alloc_cb_def)
    from params o i True obtain k s3
      where r: "locClientRegisterEventMask env ?p m False ?s2 = Returns (k, s3)"
      by (auto simp: locClientOpenInstance_def Let_def andthen_Returns)
    from register_send [OF r] obtain bs st3
      where "locClientSendReq env ?p QMI_LOC_REG_EVENTS_REQ_V02 (Some bs) ?s2 = Returns (st3, s3)"
      by auto
    then have ok3: "callbacks_ok s3" using same_but_mask_callbacks [OF send_same ok2] by blast
    show ?thesis
    proof (cases k)
      case False
      with params o i True r obtain a b where "locClientClose env (Some ?p) s3 = Returns (a, b, s')"
        by (auto simp: locClientOpenInstance_def Let_def andthen_Returns)
      then show ?thesis by (rule close_callbacks [OF ok3])
    next
      case k: True
      have "s' = set_cb ?p (fill_cb m (the cbs) cookie) s3"
        using params o i True r k by (auto simp: locClientOpenInstance_def Let_def)
      then show ?thesis using set_cb_callbacks [OF ok3] by (simp add: fill_cb_def)
    qed
  qed
qed

lemma open_loop_callbacks:
  assumes "qmi_laws env live" and "error_cb_registers env"
  shows "client_inv live s \<Longrightarrow> callbacks_ok s \<Longrightarrow>
    open_loop env m i cbs cookie n ph s = Returns (st, ph', s') \<Longrightarrow> callbacks_ok s'"
proof (induction n arbitrary: s ph)
  case 0
  from 0(1) have "cb_ok s" by (simp add: client_inv_def)
  from open_instance_callbacks [OF assms(2) this 0(2)] 0(3) show ?case by simp
next
  case (Suc n)
  from Suc.prems(3) obtain st1 ph1 s1
    where 1: "locClientOpenInstance env m i cbs ph cookie s = Returns (st1, ph1, s1)"
    by (auto simp: andthen_Returns)
  have "callbacks_ok s1" "client_inv live s1"
    using open_instance_callbacks [OF assms(2) _ Suc.prems(2) 1] open_instance [OF assms(1) Suc.prems(1) 1]
      Suc.prems(1) by (auto simp: client_inv_def)
  then show ?case using Suc.prems(3) 1 Suc.IH [of s1 ph1] by (cases "st1 = eLOC_CLIENT_SUCCESS") auto
qed

lemma open_callbacks:
  assumes "qmi_laws env live" and "error_cb_registers env" and "client_inv live s" and "callbacks_ok s"
    and "locClientOpen env e t m cbs ph cookie s = Returns (st, ph', s')"
  shows "callbacks_ok s'"
  using assms open_loop_callbacks [OF assms(1-4)] by (auto simp: locClientOpen_def split: if_splits)

lemma client_reach_callbacks:
  assumes "qmi_laws env live" and "error_cb_registers env" and "client_reach env s"
  shows "callbacks_ok s"
  using assms(3)
proof induction
  case (start w)
  then show ?case by (simp add: client_start_def callbacks_ok_def)
next
  case (opens s e t m cbs ph cookie st ph' s')
  then show ?case
    by (blast intro: open_callbacks [OF assms(1,2)] client_reach_inv [OF assms(1)])
next
  case (close s ph st ph' s')
  then show ?case by (blast intro: close_callbacks)
next
  case (send s h i p st s')
  then show ?case by (blast intro: same_but_mask_callbacks send_same)
next
  case (indication s u p i b s')
  then show ?case using ind_same [of env u i b p s s'] by (simp add: callbacks_ok_def)
next
  case (failure s u p e s')
  then show ?case using err_same [of e p s s'] by (simp add: callbacks_ok_def)
qed

end
