(* ===== verification/LocClientProps.thy ===== *)
theory LocClientProps
  imports LocClientInv
begin

text \<open>
  What the location client guarantees, and a QMI library on which every guarantee is applied.
\<close>

section \<open>Retries\<close>

definition send_step :: "'w qmi_env \<Rightarrow> nat \<Rightarrow> int \<Rightarrow> 8 word list option \<Rightarrow> int \<Rightarrow> 'w \<Rightarrow> 'w" where
  "send_step env u i d n w = snd (snd (qmi_client_send_msg_sync env u i d n w))"

definition service_busy :: "'w qmi_env \<Rightarrow> nat \<Rightarrow> int \<Rightarrow> 8 word list option \<Rightarrow> int \<Rightarrow> 'w \<Rightarrow> bool" where
  "service_busy env u i d n w = (case qmi_client_send_msg_sync env u i d n w of
     (rc, resp, w') \<Rightarrow> rc = QMI_NO_ERR \<and> error resp = QMI_ERR_SESSION_OWNERSHIP_V01)"

definition answer_status :: "'w qmi_env \<Rightarrow> nat \<Rightarrow> int \<Rightarrow> 8 word list option \<Rightarrow> int \<Rightarrow> 'w
    \<Rightarrow> locClientStatusEnumType" where
  "answer_status env u i d n w = (case qmi_client_send_msg_sync env u i d n w of
     (rc, resp, w') \<Rightarrow>
       if rc = QMI_SERVICE_ERR then eLOC_CLIENT_FAILURE_PHONE_OFFLINE
       else if rc \<noteq> QMI_NO_ERR then eLOC_CLIENT_FAILURE_INTERNAL
       else convertQmiResponseToLocStatus resp)"

definition loop_status :: "locClientStatusEnumType + qmi_response \<Rightarrow> locClientStatusEnumType" where
  "loop_status r = case_sum id convertQmiResponseToLocStatus r"

lemma send_loop_answer:
  "k < m \<Longrightarrow> (\<And>j. j < k \<Longrightarrow> service_busy env u i d n ((send_step env u i d n ^^ j) w)) \<Longrightarrow>
   \<not> service_busy env u i d n ((send_step env u i d n ^^ k) w) \<Longrightarrow>
   loop_status (fst (send_sync_loop env u i d n m r w))
     = answer_status env u i d n ((send_step env u i d n ^^ k) w) \<and>
   snd (send_sync_loop env u i d n m r w) = (send_step env u i d n ^^ Suc k) w"
proof (induction m arbitrary: k r w)
  case 0
  then show ?case by simp
next
  case (Suc m)
  obtain rc resp w' where q: "qmi_client_send_msg_sync env u i d n w = (rc, resp, w')"
    by (metis prod_cases3)
  then have step: "send_step env u i d n w = w'" by (simp add: send_step_def)
  show ?case
  proof (cases k)
    case 0
    then show ?thesis using Suc.prems(3) q step
      by (auto simp: service_busy_def answer_status_def loop_status_def QMI_SERVICE_ERR_def QMI_NO_ERR_def)
  next
    case (Suc k')
    have busy: "rc = QMI_NO_ERR" "error resp = QMI_ERR_SESSION_OWNERSHIP_V01"
      using Suc.prems(2) [of 0] q by (auto simp: Suc service_busy_def)
    have "loop_status (fst (send_sync_loop env u i d n m resp w'))
        = answer_status env u i d n ((send_step env u i d n ^^ k') w') \<and>
      snd (send_sync_loop env u i d n m resp w') = (send_step env u i d n ^^ Suc k') w'"
    proof (rule Suc.IH)
      show "k' < m" using Suc.prems(1) Suc by simp
      show "service_busy env u i d n ((send_step env u i d n ^^ j) w')" if "j < k'" for j
        using Suc.prems(2) [of "Suc j"] that step Suc by (simp add: funpow_Suc_right del: funpow.simps)
      show "\<not> service_busy env u i d n ((send_step env u i d n ^^ k') w')"
        using Suc.prems(3) step Suc by (simp add: funpow_Suc_right del: funpow.simps)
    qed
    then show ?thesis
      using busy q step by (simp add: Suc QMI_SERVICE_ERR_def QMI_NO_ERR_def funpow_Suc_right del: funpow.simps)
  qed
qed

lemma send_loop_busy:
  "(\<And>j. j < m \<Longrightarrow> service_busy env u i d n ((send_step env u i d n ^^ j) w)) \<Longrightarrow>
   snd (send_sync_loop env u i d n m r w) = (send_step env u i d n ^^ m) w \<and>
   (\<exists>resp. fst (send_sync_loop env u i d n m r w) = Inr resp \<and>
     (m = 0 \<longrightarrow> resp = r) \<and> (0 < m \<longrightarrow> error resp = QMI_ERR_SESSION_OWNERSHIP_V01))"
proof (induction m arbitrary: r w)
  case 0
  then show ?case by simp
next
  case (Suc m)
  obtain rc resp w' where q: "qmi_client_send_msg_sync env u i d n w = (rc, resp, w')"
    by (metis prod_cases3)
  then have step: "send_step env u i d n w = w'" by (simp add: send_step_def)
  have busy: "rc = QMI_NO_ERR" "error resp = QMI_ERR_SESSION_OWNERSHIP_V01"
    using Suc.prems [of 0] q by (auto simp: service_busy_def)
  have "snd (send_sync_loop env u i d n m resp w') = (send_step env u i d n ^^ m) w' \<and>
    (\<exists>resp'. fst (send_sync_loop env u i d n m resp w') = Inr resp' \<and>
      (m = 0 \<longrightarrow> resp' = resp) \<and> (0 < m \<longrightarrow> error resp' = QMI_ERR_SESSION_OWNERSHIP_V01))"
  proof (rule Suc.IH)
    show "service_busy env u i d n ((send_step env u i d n ^^ j) w')" if "j < m" for j
      using Suc.prems [of "Suc j"] that step by (simp add: funpow_Suc_right del: funpow.simps)
  qed
  then show ?case
    using busy q step
    by (cases "m = 0") (auto simp: QMI_SERVICE_ERR_def QMI_NO_ERR_def funpow_Suc_right simp del: funpow.simps)
qed

text \<open>C18: a request is sent again as long as the service answers that another session owns it: the
  first of at most 50 answers that says something else decides the status, and nothing is sent
  after it.\<close>

theorem send_first_answer:
  assumes "check_handle h s = Returns (Some d)" and "validateRequest i p = Some (x, n)"
    and "k < 50"
    and "\<And>j. j < k \<Longrightarrow> service_busy env (userHandle d) i x n
      ((send_step env (userHandle d) i x n ^^ j) (qmi s))"
    and "\<not> service_busy env (userHandle d) i x n ((send_step env (userHandle d) i x n ^^ k) (qmi s))"
  shows "\<exists>s'. locClientSendReq env h i p s = Returns
      (answer_status env (userHandle d) i x n ((send_step env (userHandle d) i x n ^^ k) (qmi s)), s') \<and>
    qmi s' = (send_step env (userHandle d) i x n ^^ Suc k) (qmi s)"
proof -
  let ?r0 = "\<lparr>result = 0, error = 0\<rparr>"
  have k: "k < LOC_CLIENT_MAX_SYNC_RETRIES" using assms(3) by (simp add: LOC_CLIENT_MAX_SYNC_RETRIES_def)
  obtain r w where r: "send_sync_loop env (userHandle d) i x n LOC_CLIENT_MAX_SYNC_RETRIES ?r0 (qmi s)
      = (r, w)" by fastforce
  from send_loop_answer [OF k assms(4,5), of ?r0] r show ?thesis
    using assms(1,2)
    by (cases r) (auto simp: locClientSendReq_def loop_status_def Let_def)
qed

text \<open>C19: if all 50 answers say that another session owns the service, the request is sent exactly 50
  times, and its status is that of the last answer: a failure becomes an internal error.\<close>

theorem send_gives_up:
  assumes "check_handle h s = Returns (Some d)" and "validateRequest i p = Some (x, n)"
    and "\<And>j. j < 50 \<Longrightarrow> service_busy env (userHandle d) i x n
      ((send_step env (userHandle d) i x n ^^ j) (qmi s))"
  shows "\<exists>st s'. locClientSendReq env h i p s = Returns (st, s') \<and>
    (st = eLOC_CLIENT_SUCCESS \<or> st = eLOC_CLIENT_FAILURE_INTERNAL) \<and>
    qmi s' = (send_step env (userHandle d) i x n ^^ 50) (qmi s)"
proof -
  let ?r0 = "\<lparr>result = 0, error = 0\<rparr>"
  obtain r w where r: "send_sync_loop env (userHandle d) i x n LOC_CLIENT_MAX_SYNC_RETRIES ?r0 (qmi s)
      = (r, w)" by fastforce
  from send_loop_busy [of LOC_CLIENT_MAX_SYNC_RETRIES env "userHandle d" i x n "qmi s" ?r0] assms(3) r
  obtain resp where "r = Inr resp" "error resp = QMI_ERR_SESSION_OWNERSHIP_V01"
    and "w = (send_step env (userHandle d) i x n ^^ 50) (qmi s)"
    by (auto simp: LOC_CLIENT_MAX_SYNC_RETRIES_def)
  then show ?thesis
    using assms(1,2) r
    by (auto simp: locClientSendReq_def Let_def convertQmiResponseToLocStatus_def
        QMI_ERR_SESSION_OWNERSHIP_V01_def QMI_ERR_MALFORMED_MSG_V01_def QMI_ERR_INVALID_ARG_V01_def
        QMI_ERR_DEVICE_IN_USE_V01_def QMI_ERR_NOT_SUPPORTED_V01_def QMI_ERR_INVALID_MESSAGE_ID_V01_def)
qed

section \<open>A QMI library for the witnesses\<close>

text \<open>Its state is the list of the live control points; every call succeeds.\<close>

definition demo_env :: "nat list qmi_env" where
  "demo_env = \<lparr>load_qmi_symbols = (\<lambda>w. True), calloc_fails = (\<lambda>w. False), malloc_fails = (\<lambda>w. False),
     qmi_client_notifier_init = (\<lambda>w. (0, True, w)),
     qmi_client_get_service_instance = (\<lambda>i w. (0, w)),
     qmi_client_get_any_service = (\<lambda>w. (0, w)),
     signal_wait = (\<lambda>w. w),
     qmi_client_init = (\<lambda>p w. (0, Suc (sum_list w), Suc (sum_list w) # w)),
     qmi_client_register_error_cb = (\<lambda>u p w. (0, w)),
     release_notifier = (\<lambda>w. w),
     qmi_client_release = (\<lambda>u w. (0, removeAll u w)),
     qmi_client_send_msg_sync = (\<lambda>u i d n w. (0, \<lparr>result = 0, error = 0\<rparr>, w)),
     qmi_client_message_decode = (\<lambda>u i b n w. (0, replicate (nat n) 0, w))\<rparr>"

lemma demo_laws: "qmi_laws demo_env set"
proof -
  have "Suc (sum_list w) \<notin> set w" for w :: "nat list"
    using member_le_sum_list [of _ w] by fastforce
  then show ?thesis by (auto simp: qmi_laws_def demo_env_def QMI_NO_ERR_def)
qed

lemma demo_registers: "error_cb_registers demo_env"
  by (simp add: error_cb_registers_def demo_env_def QMI_NO_ERR_def)

definition demo_cbs :: locClientCallbacksType where
  "demo_cbs = \<lparr>cb_size = 32, eventIndCb = 21, respIndCb = 22, errorCb = 23\<rparr>"

definition demo_state :: "nat list loc_client" where
  "demo_state = (case locClientOpen demo_env 0 GNSS_other 5 (Some demo_cbs) (Some 0) 7 (client_start []) of
     Returns (st, h, s) \<Rightarrow> s | _ \<Rightarrow> client_start [])"

declare find_service.simps [code]

lemma demo_open_code:
  "(case locClientOpen demo_env 0 GNSS_other 5 (Some demo_cbs) (Some 0) 7 (client_start []) of
     Returns (st, h, s) \<Rightarrow> st = eLOC_CLIENT_SUCCESS \<and> h = Some 1 | _ \<Rightarrow> False)"
  by code_simp

section \<open>Guarantees\<close>

lemma fix_criteria_valid:
  "validateRequest QMI_LOC_GET_FIX_CRITERIA_REQ_V02 (None :: 8 word list option) = Some (None, 0)"
  by code_simp

lemma demo_check: "\<exists>d. check_handle 1 demo_state = Returns (Some d) \<and> userHandle d = 1"
proof -
  have "(case check_handle 1 demo_state of Returns (Some d) \<Rightarrow> userHandle d = 1 | _ \<Rightarrow> False)"
    by code_simp
  then show ?thesis by (auto split: outcome.splits option.splits)
qed

theorem send_first_answer_witness:
  "\<exists>s'. locClientSendReq demo_env 1 QMI_LOC_GET_FIX_CRITERIA_REQ_V02 None demo_state = Returns
      (answer_status demo_env 1 QMI_LOC_GET_FIX_CRITERIA_REQ_V02 None 0
        ((send_step demo_env 1 QMI_LOC_GET_FIX_CRITERIA_REQ_V02 None 0 ^^ 0) (qmi demo_state)), s') \<and>
    qmi s' = (send_step demo_env 1 QMI_LOC_GET_FIX_CRITERIA_REQ_V02 None 0 ^^ Suc 0) (qmi demo_state)"
proof -
  obtain d where d: "check_handle 1 demo_state = Returns (Some d)" "userHandle d = 1"
    using demo_check by blast
  note v = fix_criteria_valid
  show ?thesis
    using send_first_answer [OF d(1) v, of 0 demo_env]
    by (simp add: d(2) service_busy_def demo_env_def QMI_ERR_SESSION_OWNERSHIP_V01_def)
qed

definition busy_env :: "nat list qmi_env" where
  "busy_env = demo_env\<lparr>qmi_client_send_msg_sync :=
     (\<lambda>u i d n w. (0, \<lparr>result = 1, error = QMI_ERR_SESSION_OWNERSHIP_V01\<rparr>, w))\<rparr>"

theorem send_gives_up_witness:
  "\<exists>st s'. locClientSendReq busy_env 1 QMI_LOC_GET_FIX_CRITERIA_REQ_V02 None demo_state = Returns (st, s') \<and>
    (st = eLOC_CLIENT_SUCCESS \<or> st = eLOC_CLIENT_FAILURE_INTERNAL) \<and>
    qmi s' = (send_step busy_env 1 QMI_LOC_GET_FIX_CRITERIA_REQ_V02 None 0 ^^ 50) (qmi demo_state)"
proof -
  obtain d where d: "check_handle 1 demo_state = Returns (Some d)" "userHandle d = 1"
    using demo_check by blast
  note v = fix_criteria_valid
  show ?thesis
    using send_gives_up [OF d(1) v, of busy_env]
    by (simp add: d(2) service_busy_def busy_env_def QMI_NO_ERR_def)
qed

lemma demo_open:
  "locClientOpen demo_env 0 GNSS_other 5 (Some demo_cbs) (Some 0) 7 (client_start [])
     = Returns (eLOC_CLIENT_SUCCESS, Some 1, demo_state)"
  using demo_open_code by (auto simp: demo_state_def split: outcome.splits)

lemma demo_reach: "client_reach demo_env demo_state"
  by (rule client_reach.opens [OF client_reach.start demo_open])

text \<open>C4: in every state the client can reach, whatever it opens, closes, sends and receives, a handle
  that passes the check of an operation belongs to a control point that is live in the QMI library
  and whose callbacks get that handle's data: no request is sent on a released control point, and
  no two handles share one.\<close>

theorem checked_handles_live:
  assumes "qmi_laws env live" and "client_reach env s"
    and "check_handle h s = Returns (Some d)" and "check_handle h' s = Returns (Some d')"
  shows "userHandle d \<in> live (qmi s) \<and> (userHandle d, h) \<in> set (control_points s) \<and>
    (h \<noteq> h' \<longrightarrow> userHandle d \<noteq> userHandle d')"
proof -
  have inv: "live_ok live s" "cb_ok s"
    using client_reach_inv [OF assms(1,2)] by (simp_all add: client_inv_def)
  have cp: "(userHandle e, q) \<in> set (control_points s)" if "check_handle q s = Returns (Some e)" for q e
    using that cb_okD [OF inv(2), of q e] by (auto simp: check_handle_Some)
  then show ?thesis
    using inv(1) cp [OF assms(3)] cp [OF assms(4)] inj_control_points [of "control_points s"]
    by (force simp: live_ok_def)
qed

theorem checked_handles_live_witness:
  "\<exists>d. check_handle 1 demo_state = Returns (Some d) \<and> userHandle d \<in> set (qmi demo_state) \<and>
    (userHandle d, 1) \<in> set (control_points demo_state)"
proof -
  have "(case check_handle 1 demo_state of Returns (Some d) \<Rightarrow> True | _ \<Rightarrow> False)" by code_simp
  then obtain d where d: "check_handle 1 demo_state = Returns (Some d)"
    by (auto split: outcome.splits option.splits)
  from checked_handles_live [OF demo_laws demo_reach d d] d show ?thesis by blast
qed

text \<open>\<open>locClientOpen\<close> returns a handle exactly when it succeeds. Then the handle's data holds the
  caller's callbacks, cookie and event mask, points to itself, and its control point is registered
  with it; after a failure with valid parameters the handle is null.\<close>

theorem open_result:
  assumes "qmi_laws env live" and "client_reach env s" and "load_qmi_symbols env (qmi s)"
    and "locClientOpen env e t m (Some c) (Some h0) cookie s = Returns (st, h, s')"
    and "open_params_ok (Some c) (Some h0)"
  shows "if st = eLOC_CLIENT_SUCCESS then \<exists>p. h = Some p \<and> opened m c cookie p s' else h = Some 0"
  using open_loop_inv [OF assms(1) client_reach_inv [OF assms(1,2)], of m "service_instance e t" "Some c" cookie
      LOC_CLIENT_MAX_OPEN_RETRIES "Some h0" st h s'] assms(3-5)
  by (auto simp: locClientOpen_def)

theorem open_result_witness:
  "\<exists>p. Some 1 = Some p \<and> opened 5 demo_cbs 7 p demo_state"
  using open_result [OF demo_laws client_reach.start _ demo_open]
  by (simp add: demo_env_def open_params_ok_def demo_cbs_def sizeof_locClientCallbacksType_def
      align_up_def)

text \<open>A callback that runs on a control point finds its callback data, as long as the error callback
  can be registered and no other thread closes the handle in the middle of it.\<close>

lemma callbacks_find_data:
  assumes "qmi_laws env live" and "error_cb_registers env" and "client_reach env s"
    and "(u, p) \<in> set (control_points s)"
  shows "locClientIndCb env u i buf p s \<noteq> Faults \<and> locClientErrorCb e p s \<noteq> Faults"
  using callbacks_okD [OF client_reach_callbacks [OF assms(1-3)] assms(4)]
  by (auto simp: ind_cb_defs error_cb_defs split: option.splits prod.splits)

text \<open>C5: the data a callback uses is freed under it when \<open>locClientClose\<close> runs in its middle. In any
  state, take an open handle, and an indication of its control point that is known, decodes, and
  that its client has a callback for. When \<open>locClientIndCb\<close> has copied the callback, nothing keeps
  another thread's \<open>locClientClose\<close> of that handle from succeeding, if the QMI library releases the
  control point; the callback then goes on to test the client's callback in freed memory, a fault.
  Uninterrupted it calls the client's callback once, with the decoded message and the client's
  cookie. (The comment in \<open>locClientClose\<close> says that it only minimises the chances of this race.)\<close>

theorem close_frees_under_callback:
  assumes "check_handle p s = Returns (Some d)"
    and "locClientGetSizeAndTypeByIndId msg = Some (n, t)" and "ind_callback t d \<noteq> 0"
    and "\<not> malloc_fails env (qmi s)"
    and "decode_indication env (userHandle d) msg buf n (qmi s) = (QMI_NO_ERR, ind, w)"
    and "fst (qmi_client_release env (userHandle d) w) = QMI_NO_ERR"
  shows "\<exists>c s1 s2. indCb_begin env (userHandle d) msg buf p s = Returns (Some c, s1) \<and>
    locClientClose env (Some p) s1 = Returns (eLOC_CLIENT_SUCCESS, Some 0, s2) \<and>
    indCb_end c s2 = Faults \<and>
    indCb_end c s1 = Returns (s1\<lparr>client_calls := client_calls s @ [case t of
      eventIndType \<Rightarrow> EventCall (eventCallback d) p msg ind (pClientCookie d)
    | respIndType \<Rightarrow> RespCall (respCallback d) p msg ind n (pClientCookie d)]\<rparr>)"
proof -
  let ?c = "\<lparr>ic_handle = p, ic_type = t, ic_callback = ind_callback t d, ic_msg = msg, ic_buf = ind,
    ic_size = n\<rparr>" and ?s1 = "s\<lparr>qmi := w\<rparr>"
  have d: "p \<noteq> 0" "cb_heap s p = Some d" "pMe d = p"
    using assms(1) by (simp_all add: check_handle_Some)
  have b: "indCb_begin env (userHandle d) msg buf p s = Returns (Some ?c, ?s1)"
    using assms d by (simp add: indCb_begin_def)
  obtain w' where w': "qmi_client_release env (userHandle d) w = (QMI_NO_ERR, w')"
    using assms(6) by (metis prod.collapse)
  have "check_handle p ?s1 = Returns (Some d)" using assms(1) by (simp add: check_handle_Some)
  with w' obtain s2 where c: "locClientClose env (Some p) ?s1 = Returns (eLOC_CLIENT_SUCCESS, Some 0, s2)"
    and "cb_heap s2 p = None"
    by (simp add: locClientClose_def release_client_def)
  then have f: "indCb_end ?c s2 = Faults" using assms(3) by (simp add: indCb_end_def)
  have "indCb_end ?c ?s1 = Returns (?s1\<lparr>client_calls := client_calls s @ [case t of
      eventIndType \<Rightarrow> EventCall (eventCallback d) p msg ind (pClientCookie d)
    | respIndType \<Rightarrow> RespCall (respCallback d) p msg ind n (pClientCookie d)]\<rparr>)"
    using assms(3) d by (cases t) (simp_all add: indCb_end_def ind_callback_def)
  with b c f show ?thesis by blast
qed

theorem close_frees_under_callback_witness:
  "\<exists>c s1 s2. indCb_begin demo_env 1 QMI_LOC_EVENT_ENGINE_STATE_IND_V02 [1] 1 demo_state = Returns (Some c, s1) \<and>
    locClientClose demo_env (Some 1) s1 = Returns (eLOC_CLIENT_SUCCESS, Some 0, s2) \<and>
    indCb_end c s2 = Faults"
proof -
  let ?i = "locClientGetSizeAndTypeByIndId QMI_LOC_EVENT_ENGINE_STATE_IND_V02"
  have i: "?i = Some (fst (the ?i), eventIndType)" by code_simp
  have "(case check_handle 1 demo_state of
      Returns (Some d) \<Rightarrow> userHandle d = 1 \<and> eventCallback d = 21 | _ \<Rightarrow> False)"
    by code_simp
  then obtain d where d: "check_handle 1 demo_state = Returns (Some d)" "userHandle d = 1"
      "eventCallback d = 21"
    by (auto split: outcome.splits option.splits)
  have cb: "ind_callback eventIndType d \<noteq> 0" by (simp add: d(3) ind_callback_def)
  have m: "\<not> malloc_fails demo_env (qmi demo_state)" by (simp add: demo_env_def)
  have dec: "decode_indication demo_env (userHandle d) QMI_LOC_EVENT_ENGINE_STATE_IND_V02 [1] (fst (the ?i))
      (qmi demo_state) = (QMI_NO_ERR, replicate (nat (fst (the ?i))) 0, qmi demo_state)"
    by (simp add: decode_indication_def demo_env_def QMI_NO_ERR_def)
  have "fst (qmi_client_release demo_env (userHandle d) (qmi demo_state)) = QMI_NO_ERR"
    by (simp add: demo_env_def QMI_NO_ERR_def)
  from close_frees_under_callback [OF d(1) i cb m dec this] show ?thesis
    unfolding d(2) by blast
qed

text \<open>C20: but if registering the error callback fails, \<open>locClientOpenInstance\<close> frees the callback data
  without releasing the control point it has just made: the control point stays registered with
  the freed data, and the next indication on it runs on freed memory.\<close>

theorem failed_open_dangles:
  assumes "open_params_ok cbs ph" and "\<not> calloc_fails env (qmi s)" and "0 < brk s"
    and "qmi_client_notifier_init env (qmi s) = (QMI_NO_ERR, n, w1)"
    and "find_service env i w1 = Some w2"
    and "qmi_client_init env (brk s) w2 = (QMI_NO_ERR, u, w3)"
    and "qmi_client_register_error_cb env u (brk s) w3 = (rc, w4)" and "rc \<noteq> QMI_NO_ERR"
  shows "\<exists>s'. locClientOpenInstance env m i cbs ph cookie s = Returns (eLOC_CLIENT_FAILURE_INTERNAL, Some 0, s') \<and>
    (u, brk s) \<in> set (control_points s') \<and> locClientIndCb env u msg buf (brk s) s' = Faults"
proof -
  have get: "loc_get_service_object_v02 = Some loc_qmi_idl_service_object_v02"
    by (simp add: loc_get_service_object_v02_def loc_get_service_object_internal_v02_def)
  let ?t = "(alloc_cb s)\<lparr>qmi := w4, control_points := (u, brk s) # control_points s\<rparr>"
  have a: "qmi (alloc_cb s) = qmi s" "control_points (alloc_cb s) = control_points s"
    by (simp_all add: alloc_cb_def)
  have c: "connect_client env (brk s) ((alloc_cb s)\<lparr>qmi := w2\<rparr>) = (eLOC_CLIENT_FAILURE_INTERNAL, ?t)"
    using assms(6-8) by (simp add: connect_client_def Let_def a)
  then have "locClientQmiCtrlPointInit env (brk s) i (alloc_cb s) = Returns (eLOC_CLIENT_FAILURE_INTERNAL,
      if n then ?t\<lparr>qmi := release_notifier env w4\<rparr> else ?t)"
    using assms(4,5) by (simp add: locClientQmiCtrlPointInit_def get Let_def a)
  then show ?thesis
    using assms(1-3)
    by (auto simp: locClientOpenInstance_def Let_def free_cb_def ind_cb_defs)
qed

definition unregistered_env :: "nat list qmi_env" where
  "unregistered_env = demo_env\<lparr>qmi_client_register_error_cb := (\<lambda>u p w. (-1, w))\<rparr>"

theorem failed_open_dangles_witness:
  "\<exists>s'. locClientOpenInstance unregistered_env 5 (-1) (Some demo_cbs) (Some 0) 7 (client_start [])
      = Returns (eLOC_CLIENT_FAILURE_INTERNAL, Some 0, s') \<and>
    (1, brk (client_start ([] :: nat list))) \<in> set (control_points s') \<and>
    locClientIndCb unregistered_env 1 QMI_LOC_EVENT_ENGINE_STATE_IND_V02 [1] (brk (client_start ([] :: nat list))) s' = Faults"
proof (rule failed_open_dangles [where env = unregistered_env and s = "client_start []" and
      ?w1.0 = "[]" and ?w2.0 = "[]" and u = 1 and rc = "-1"])
  show "find_service unregistered_env (-1) [] = Some []"
    by (subst find_service.simps) (simp add: unregistered_env_def demo_env_def QMI_NO_ERR_def Let_def)
qed (simp_all add: unregistered_env_def demo_env_def open_params_ok_def demo_cbs_def client_start_def
    sizeof_locClientCallbacksType_def align_up_def QMI_NO_ERR_def)

text \<open>The members of the registration request.\<close>

lemma reg_events_offsets:
  "csize qmiLocRegEventsReqMsgT_v02 = 24"
  "offsetof qmiLocRegEventsReqMsgT_v02 ''eventRegMask'' = 0"
  "offsetof qmiLocRegEventsReqMsgT_v02 ''clientStrId_valid'' = 8"
  "offsetof qmiLocRegEventsReqMsgT_v02 ''clientStrId'' = 9"
  "offsetof qmiLocRegEventsReqMsgT_v02 ''clientType_valid'' = 14"
  "offsetof qmiLocRegEventsReqMsgT_v02 ''clientType'' = 16"
  "offsetof qmiLocRegEventsReqMsgT_v02 ''enablePosRequestNotification_valid'' = 20"
  "offsetof qmiLocRegEventsReqMsgT_v02 ''enablePosRequestNotification'' = 21"
  by code_simp+

lemma reg_events_fields:
  assumes "length str = 5"
  shows "regEventsReq_mask (regEventsReq_struct m str) = m"
    and "get_bytes 9 5 (regEventsReq_struct m str) = str"
    and "length (regEventsReq_struct m str) = 24"
proof -
  show "length (regEventsReq_struct m str) = 24"
    using assms by (simp add: regEventsReq_struct_def Let_def reg_events_offsets)
  have "get_bytes 0 8 (regEventsReq_struct m str) = le_bytes 8 m"
    using assms get_put_same [of 0 "replicate 24 0" "le_bytes 8 m"]
    by (simp add: regEventsReq_struct_def Let_def reg_events_offsets get_put_before)
  then show "regEventsReq_mask (regEventsReq_struct m str) = m"
    by (simp add: regEventsReq_mask_def reg_events_offsets le_word_le_bytes)
  show "get_bytes 9 5 (regEventsReq_struct m str) = str"
    using assms get_put_same [of 9 "put_bytes 8 [1] (put_bytes 0 (le_bytes 8 m) (replicate 24 0))" str]
    by (simp add: regEventsReq_struct_def Let_def reg_events_offsets get_put_before)
qed

lemma send_loop_failure:
  "send_sync_loop env u i d n k r w = (Inl st, w') \<Longrightarrow> st \<noteq> eLOC_CLIENT_SUCCESS"
  by (induction k arbitrary: r w) (auto split: prod.splits if_splits)

text \<open>Registering for events sends the service the struct whose event mask is the caller's and
  whose client string is the terminated name of the HAL; when it succeeds, the mask kept in the
  client's data is the one that was sent.\<close>

theorem registered_mask:
  assumes "check_handle h s = Returns (Some d)"
    and "locClientRegisterEventMask env h m master s = Returns (True, s')"
  shows "\<exists>bs. locClientSendReq env h QMI_LOC_REG_EVENTS_REQ_V02 (Some bs) s = Returns (eLOC_CLIENT_SUCCESS, s') \<and>
    regEventsReq_mask bs = m \<and>
    cstring (get_bytes 9 5 bs) = cstring (if master then MASTER_HAL_string else HAL_string) \<and>
    map_option eventRegMask (cb_heap s' h) = Some m"
proof -
  let ?str = "if master then MASTER_HAL_string else HAL_string"
  have "(0 :: 8 word) \<in> set ?str" "length (cstring ?str) \<le> 4"
    by (simp_all add: MASTER_HAL_string_def HAL_string_def cstring_def)
  with strlcpy_cut [of ?str 5 "replicate 5 0"] obtain out n where
    out: "strlcpy (replicate 5 0) ?str 5 = Returns (out, n)" "length out = 5" "cstring out = cstring ?str"
    by auto
  let ?bs = "regEventsReq_struct m out"
  note f = reg_events_fields [OF out(2), of m]
  have send: "locClientSendReq env h QMI_LOC_REG_EVENTS_REQ_V02 (Some ?bs) s = Returns (eLOC_CLIENT_SUCCESS, s')"
    using assms(2) out(1)
    by (auto simp: locClientRegisterEventMask_def Let_def andthen_Returns
        QMI_LOC_MAX_CLIENT_ID_STRING_LENGTH_V02_def)
  then have "map_option eventRegMask (cb_heap s' h) = Some m"
  proof (cases rule: send_cases)
    case (sent d' x n r w)
    then have s': "s' = update_mask h QMI_LOC_REG_EVENTS_REQ_V02 (Some ?bs) (s\<lparr>qmi := w\<rparr>)"
      by (cases r) (auto split: if_splits dest: send_loop_failure)
    show ?thesis using assms(1) f(1) by (simp add: s' update_mask_def check_handle_Some)
  qed auto
  with send f out show ?thesis by auto
qed

theorem registered_mask_witness:
  "\<exists>s' bs. locClientRegisterEventMask demo_env 1 9 True demo_state = Returns (True, s') \<and>
    regEventsReq_mask bs = 9 \<and> cstring (get_bytes 9 5 bs) = cstring MASTER_HAL_string \<and>
    map_option eventRegMask (cb_heap s' 1) = Some 9"
proof -
  have "(case locClientRegisterEventMask demo_env 1 9 True demo_state of
      Returns (ok, s') \<Rightarrow> ok | _ \<Rightarrow> False)"
    by code_simp
  then obtain s' where r: "locClientRegisterEventMask demo_env 1 9 True demo_state = Returns (True, s')"
    by (auto split: outcome.splits)
  obtain d where "check_handle 1 demo_state = Returns (Some d)" using demo_check by blast
  from registered_mask [OF this r] r show ?thesis by auto
qed

text \<open>Closing a handle, when the QMI library releases its control point, clears the caller's
  handle, frees the callback data and ends the registration of the control point, which is no
  longer live; the other handles keep their data, and closing again is refused as an invalid
  handle.\<close>

theorem close_ends_client:
  assumes "qmi_laws env live" and "check_handle h s = Returns (Some d)"
    and "locClientClose env (Some h) s = Returns (eLOC_CLIENT_SUCCESS, h', s')"
  shows "h' = Some 0 \<and> cb_heap s' = (cb_heap s)(h := None) \<and>
    userHandle d \<notin> live (qmi s') \<and> userHandle d \<notin> fst ` set (control_points s') \<and>
    locClientClose env h' s' = Returns (eLOC_CLIENT_FAILURE_INVALID_HANDLE, h', s')"
  using assms(3)
proof (cases rule: close_cases)
  case (closed k e w)
  with assms(2) have e: "h = k" "d = e" by auto
  have "live w = live (qmi s) - {userHandle d}"
    using qmi_lawsD(3) [OF assms(1) closed(3)] e by simp
  moreover have "userHandle d \<notin> fst ` set (control_points s')"
    unfolding closed(5) release_client_def by (auto simp: e)
  ultimately show ?thesis
    unfolding closed(4,5) by (simp add: e release_client_def locClientClose_def check_handle_def)
qed auto

theorem close_ends_client_witness:
  "\<exists>s'. locClientClose demo_env (Some 1) demo_state = Returns (eLOC_CLIENT_SUCCESS, Some 0, s') \<and>
    cb_heap s' = (cb_heap demo_state)(1 := None) \<and> (1 :: nat) \<notin> set (qmi s')"
proof -
  have "(case locClientClose demo_env (Some 1) demo_state of
      Returns (st, h, s') \<Rightarrow> st = eLOC_CLIENT_SUCCESS | _ \<Rightarrow> False)"
    by code_simp
  then obtain h s' where c: "locClientClose demo_env (Some 1) demo_state = Returns (eLOC_CLIENT_SUCCESS, h, s')"
    by (auto split: outcome.splits)
  obtain d where d: "check_handle 1 demo_state = Returns (Some d)" "userHandle d = 1"
    using demo_check by blast
  from close_ends_client [OF demo_laws d(1) c] c d show ?thesis by auto
qed

end
