(* ===== verification/LocSupportedMsgs.thy ===== *)
theory LocSupportedMsgs
  imports LocClient
begin

unbundle bit_operations_syntax

text \<open>
  The check which messages the service supports: \<open>checkQmiMsgsSupported\<close> and
  \<open>locClientSupportMsgCheck\<close> of \<open>loc_api/loc_api_v02/loc_api_v02_client.cpp\<close>. The service answers
  with a bit vector, one bit per message identifier; the result is a 64 bit word, one bit per
  requested message.
\<close>

section \<open>Model\<close>

record supported_resp =
  supp_result :: qmi_response
  supported_msgs_valid :: bool
  supported_msgs_len :: nat
  supported_msgs :: "8 word list"

text \<open>\<open>1 << idx\<close> is computed in \<open>int\<close> and then widened to 64 bits: bit 31 is the sign, which the
  widening copies, and a shift by 32 or more is undefined.\<close>

definition int_shift :: "nat \<Rightarrow> 64 word outcome" where
  "int_shift idx =
     (if idx < 32 then Returns (scast (push_bit idx (1 :: 32 word))) else Faults)"

text \<open>Reading the array of the response faults past its end.\<close>

definition msg_bit :: "supported_resp \<Rightarrow> nat \<Rightarrow> bool outcome" where
  "msg_bit resp reqId =
     (let byte = reqId div 8 in
      if byte < supported_msgs_len resp
      then if byte < length (supported_msgs resp)
        then Returns (supported_msgs resp ! byte AND push_bit (reqId mod 8) 1 \<noteq> 0)
        else Faults
      else Returns False)"

fun check_msgs :: "supported_resp \<Rightarrow> nat \<Rightarrow> nat list \<Rightarrow> 64 word \<Rightarrow> 64 word outcome" where
  "check_msgs resp idx [] res = Returns res"
| "check_msgs resp idx (reqId # ids) res =
     andthen (msg_bit resp reqId) (\<lambda>b.
       if b then andthen (int_shift idx) (\<lambda>m. check_msgs resp (Suc idx) ids (res OR m))
       else check_msgs resp (Suc idx) ids res)"

definition checkQmiMsgsSupported :: "nat list \<Rightarrow> supported_resp \<Rightarrow> 64 word outcome" where
  "checkQmiMsgsSupported reqIdArray resp =
     (if supported_msgs_valid resp
      then check_msgs resp 0 (take (min (min (length reqIdArray) (supported_msgs_len resp)) 64) reqIdArray) 0
      else Returns 0)"

text \<open>The static variables of \<open>locClientSupportMsgCheck\<close>.\<close>

record support_cache =
  isCheckedAlready :: bool
  supportedMsgChecked :: "64 word"

text \<open>\<open>None\<close> is a null array, or a null place for the result. \<open>ask\<close> is
  \<open>qmi_client_send_msg_sync\<close> of the request for the supported messages.\<close>

definition locClientSupportMsgCheck :: "(nat \<Rightarrow> 'w \<Rightarrow> int \<times> supported_resp \<times> 'w) \<Rightarrow> addr \<Rightarrow> nat list option
    \<Rightarrow> bool \<Rightarrow> support_cache \<Rightarrow> 'w loc_client
    \<Rightarrow> (locClientStatusEnumType \<times> 64 word option \<times> support_cache \<times> 'w loc_client) outcome" where
  "locClientSupportMsgCheck ask handle msgArray out_null c s =
     (if msgArray = None \<or> out_null then Returns (eLOC_CLIENT_FAILURE_INVALID_PARAMETER, None, c, s)
      else if isCheckedAlready c then Returns (eLOC_CLIENT_SUCCESS, Some (supportedMsgChecked c), c, s)
      else andthen (check_handle handle s) (\<lambda>chk.
        case chk of
          None \<Rightarrow> Returns (eLOC_CLIENT_FAILURE_GENERAL, None, c, s)
        | Some d \<Rightarrow>
          (case ask (userHandle d) (qmi s) of
            (rc, resp, w) \<Rightarrow>
              if rc \<noteq> QMI_NO_ERR then Returns (eLOC_CLIENT_FAILURE_GENERAL, None, c, s\<lparr>qmi := w\<rparr>)
              else if convertQmiResponseToLocStatus (supp_result resp) = eLOC_CLIENT_SUCCESS
              then andthen (checkQmiMsgsSupported (the msgArray) resp) (\<lambda>r.
                Returns (eLOC_CLIENT_SUCCESS, Some r,
                  \<lparr>isCheckedAlready = True, supportedMsgChecked = r\<rparr>, s\<lparr>qmi := w\<rparr>))
              else Returns (eLOC_CLIENT_FAILURE_GENERAL, None, c, s\<lparr>qmi := w\<rparr>))))"

section \<open>The result\<close>

text \<open>What the response says of a message.\<close>

definition supports :: "supported_resp \<Rightarrow> nat \<Rightarrow> bool" where
  "supports resp reqId \<longleftrightarrow> reqId div 8 < supported_msgs_len resp \<and>
     bit (supported_msgs resp ! (reqId div 8)) (reqId mod 8)"

definition resp_ok :: "supported_resp \<Rightarrow> bool" where
  "resp_ok resp \<longleftrightarrow> supported_msgs_len resp \<le> length (supported_msgs resp)"

lemma and_exp: "(w :: 8 word) AND 2 ^ k \<noteq> 0 \<longleftrightarrow> bit w k"
  by (simp add: and_exp_eq_0_iff_not_bit)

lemma msg_bit_supports: "resp_ok resp \<Longrightarrow> msg_bit resp i = Returns (supports resp i)"
  by (simp add: msg_bit_def supports_def resp_ok_def Let_def and_exp)

lemma int_shift_bit:
  assumes "idx < 31"
  shows "int_shift idx = Returns (push_bit idx 1)"
proof -
  have "(scast (push_bit idx (1 :: 32 word)) :: 64 word) = push_bit idx 1"
    using assms by (intro bit_word_eqI) (auto simp: bit_simps)
  then show ?thesis using assms by (simp add: int_shift_def)
qed

lemma check_msgs_bits:
  "resp_ok resp \<Longrightarrow> idx + length ids \<le> 31 \<Longrightarrow>
   \<exists>r. check_msgs resp idx ids res = Returns r \<and>
     (\<forall>k. bit r k \<longleftrightarrow> bit res k \<or> (idx \<le> k \<and> k < idx + length ids \<and> supports resp (ids ! (k - idx))))"
proof (induction ids arbitrary: idx res)
  case Nil
  then show ?case by auto
next
  case (Cons i ids)
  let ?res = "if supports resp i then res OR push_bit idx 1 else res"
  have eq: "check_msgs resp idx (i # ids) res = check_msgs resp (Suc idx) ids ?res"
    using Cons.prems by (simp add: msg_bit_supports int_shift_bit)
  obtain r where r: "check_msgs resp (Suc idx) ids ?res = Returns r"
    "\<forall>k. bit r k \<longleftrightarrow> bit ?res k \<or>
      (Suc idx \<le> k \<and> k < Suc idx + length ids \<and> supports resp (ids ! (k - Suc idx)))"
    using Cons.IH [of "Suc idx" ?res] Cons.prems by auto
  have res: "bit ?res k \<longleftrightarrow> bit res k \<or> (k = idx \<and> supports resp i)" for k
    using Cons.prems(2) by (auto simp: bit_simps)
  have "bit r k \<longleftrightarrow> bit res k \<or> (idx \<le> k \<and> k < idx + length (i # ids) \<and> supports resp ((i # ids) ! (k - idx)))"
    for k
  proof (cases "Suc idx \<le> k")
    case True
    then have "k - idx = Suc (k - Suc idx)" by simp
    with True show ?thesis by (auto simp: r(2) res)
  next
    case False
    then show ?thesis by (cases "k = idx") (auto simp: r(2) res)
  qed
  then show ?case unfolding eq r(1) by blast
qed

text \<open>For up to 31 messages, and a response at least as long in bytes as the list of messages, bit
  \<open>k\<close> of the result says whether the response has the bit of the \<open>k\<close>-th message set; no other bit
  is set.\<close>

theorem supported_msgs_bits:
  assumes "supported_msgs_valid resp" and "resp_ok resp"
    and "length ids \<le> 31" and "length ids \<le> supported_msgs_len resp"
  shows "\<exists>r. checkQmiMsgsSupported ids resp = Returns r \<and>
    (\<forall>k. bit r k \<longleftrightarrow> k < length ids \<and> supports resp (ids ! k))"
  using check_msgs_bits [OF assms(2), of 0 ids 0] assms
  by (simp add: checkQmiMsgsSupported_def)

definition demo_resp :: supported_resp where
  "demo_resp = \<lparr>supp_result = \<lparr>result = 0, error = 0\<rparr>, supported_msgs_valid = True,
     supported_msgs_len = 4, supported_msgs = [0x03, 0, 0, 0xC0]\<rparr>"

theorem supported_msgs_bits_witness:
  "\<exists>r. checkQmiMsgsSupported [1, 2, 31] demo_resp = Returns r \<and>
    (\<forall>k. bit r k \<longleftrightarrow> k < length [1, 2, 31 :: nat] \<and> supports demo_resp ([1, 2, 31] ! k))"
  by (rule supported_msgs_bits) (simp_all add: demo_resp_def resp_ok_def)

text \<open>Although the result has room for 64 messages and the loop runs over as many, the shift is done
  in 32 bits: a supported 32nd message also marks every later one as supported, and a supported
  33rd one is undefined.\<close>

theorem supported_msgs_overflow:
  assumes "resp_ok resp" and "supports resp i"
  shows "check_msgs resp 31 [i] 0 = Returns (NOT (mask 31)) \<and> check_msgs resp 32 [i] r = Faults"
proof -
  have "(scast (push_bit 31 (1 :: 32 word)) :: 64 word) = NOT (mask 31)"
    by code_simp
  then show ?thesis using assms by (simp add: msg_bit_supports int_shift_def)
qed

theorem supported_msgs_overflow_witness:
  "check_msgs demo_resp 31 [30] 0 = Returns (NOT (mask 31)) \<and> check_msgs demo_resp 32 [30] 5 = Faults"
  by (rule supported_msgs_overflow) (code_simp+)

text \<open>The first successful check is kept for the life of the process: a later check with other
  messages, on any handle, returns the bits computed for the first list and asks nobody.\<close>

theorem support_check_sticks:
  assumes "locClientSupportMsgCheck ask h (Some ids) False c s = Returns (eLOC_CLIENT_SUCCESS, Some r, c', s')"
  shows "locClientSupportMsgCheck ask h' (Some ids') False c' t = Returns (eLOC_CLIENT_SUCCESS, Some r, c', t)"
proof -
  have "isCheckedAlready c' \<and> supportedMsgChecked c' = r"
  proof (cases "isCheckedAlready c")
    case True
    then show ?thesis using assms by (auto simp: locClientSupportMsgCheck_def)
  next
    case False
    with assms obtain d where chk: "check_handle h s = Returns (Some d)"
      by (cases "check_handle h s") (auto simp: locClientSupportMsgCheck_def split: option.splits)
    obtain rc resp w where "ask (userHandle d) (qmi s) = (rc, resp, w)" by (metis prod_cases3)
    with assms False chk show ?thesis
      by (auto simp: locClientSupportMsgCheck_def andthen_Returns split: if_splits)
  qed
  then show ?thesis by (simp add: locClientSupportMsgCheck_def)
qed

definition demo_client :: "unit loc_client" where
  "demo_client = \<lparr>cb_heap = (\<lambda>_. None)(1 \<mapsto> \<lparr>pClientCookie = 0, userHandle = 1, eventCallback = 0,
     respCallback = 0, errorCallback = 0, eventRegMask = 0, pMe = 1\<rparr>), brk = 2,
     control_points = [(1, 1)], client_calls = [], qmi = ()\<rparr>"

lemma demo_check_supported:
  "locClientSupportMsgCheck (\<lambda>u w. (0, demo_resp, w)) 1 (Some [1, 2]) False
     \<lparr>isCheckedAlready = False, supportedMsgChecked = 0\<rparr> demo_client
   = Returns (eLOC_CLIENT_SUCCESS, Some 1, \<lparr>isCheckedAlready = True, supportedMsgChecked = 1\<rparr>, demo_client)"
proof -
  have "checkQmiMsgsSupported [1, 2] demo_resp = Returns 1" by code_simp
  moreover have "convertQmiResponseToLocStatus (supp_result demo_resp) = eLOC_CLIENT_SUCCESS"
    by code_simp
  ultimately show ?thesis
    by (simp add: locClientSupportMsgCheck_def check_handle_def demo_client_def QMI_NO_ERR_def)
qed

theorem support_check_sticks_witness:
  "locClientSupportMsgCheck (\<lambda>u w. (0, demo_resp, w)) 0 (Some [2]) False
     \<lparr>isCheckedAlready = True, supportedMsgChecked = 1\<rparr> demo_client
   = Returns (eLOC_CLIENT_SUCCESS, Some 1, \<lparr>isCheckedAlready = True, supportedMsgChecked = 1\<rparr>, demo_client)"
  by (rule support_check_sticks [OF demo_check_supported])

end
