(* ===== verification/LocSyncReq.thy ===== *)
theory LocSyncReq
  imports LocClient
begin

text \<open>
  Synchronous requests, \<open>loc_api/loc_api_v02/loc_api_sync_req.cpp\<close>: a request takes one of eight
  slots, is sent, and its thread waits on the slot's condition variable until an indication with
  the right identifier arrives for the client, or the time is over. The first part models the
  functions; the second the interleavings of any number of requesting threads with the thread that
  delivers the indications, in steps between which the code holds no lock.
\<close>

section \<open>Slots\<close>

definition LOC_SYNC_REQ_BUFFER_SIZE :: nat where "LOC_SYNC_REQ_BUFFER_SIZE = 8"

text \<open>\<open>cond_signalled\<close> is the condition variable: signalled, and nobody woken yet.\<close>

record loc_sync_req_data_s_type =
  client_handle :: addr
  cond_signalled :: bool
  ind_is_selected :: bool
  ind_is_waiting :: bool
  ind_has_arrived :: bool
  req_id :: int
  recv_ind_payload_ptr :: addr
  recv_ind_id :: int

definition free_slot_data :: loc_sync_req_data_s_type where
  "free_slot_data = \<lparr>client_handle = 0, cond_signalled = False, ind_is_selected = False,
     ind_is_waiting = False, ind_has_arrived = False, req_id = 0, recv_ind_payload_ptr = 0,
     recv_ind_id = 0\<rparr>"

text \<open>\<open>payloads\<close> is the memory the requests' payload pointers point to.\<close>

record loc_sync_array =
  in_use :: bool
  slot_in_use :: "bool list"
  slots :: "loc_sync_req_data_s_type list"
  sync_initialized :: bool
  payloads :: "addr \<Rightarrow> 8 word list"

definition loc_sync_req_init :: "loc_sync_array \<Rightarrow> loc_sync_array" where
  "loc_sync_req_init a =
     (if sync_initialized a then a
      else a\<lparr>in_use := False, slot_in_use := replicate LOC_SYNC_REQ_BUFFER_SIZE False,
        slots := replicate LOC_SYNC_REQ_BUFFER_SIZE free_slot_data, sync_initialized := True\<rparr>)"

section \<open>Operations\<close>

fun first_free :: "bool list \<Rightarrow> nat \<Rightarrow> nat option" where
  "first_free [] i = None"
| "first_free (used # us) i = (if used then first_free us (Suc i) else Some i)"

text \<open>\<open>None\<close> is the code's -1.\<close>

definition loc_alloc_slot :: "loc_sync_array \<Rightarrow> nat option \<times> loc_sync_array" where
  "loc_alloc_slot a =
     (case first_free (slot_in_use a) 0 of
        None \<Rightarrow> (None, a)
      | Some i \<Rightarrow> (Some i, a\<lparr>slot_in_use := (slot_in_use a)[i := True], in_use := True\<rparr>))"

definition loc_free_slot :: "nat \<Rightarrow> loc_sync_array \<Rightarrow> loc_sync_array" where
  "loc_free_slot i a =
     (let used = (slot_in_use a)[i := False] in
      a\<lparr>slot_in_use := used, slots := (slots a)[i := free_slot_data],
        in_use := in_use a \<and> list_ex (\<lambda>u. u) used\<rparr>)"

definition fill_slot :: "nat \<Rightarrow> addr \<Rightarrow> int \<Rightarrow> int \<Rightarrow> addr \<Rightarrow> loc_sync_array \<Rightarrow> loc_sync_array" where
  "fill_slot i handle ind_id reqid ptr a =
     a\<lparr>slots := (slots a)[i := (slots a ! i)\<lparr>client_handle := handle, ind_is_selected := True,
       ind_is_waiting := False, ind_has_arrived := False, recv_ind_id := ind_id, req_id := reqid,
       recv_ind_payload_ptr := ptr\<rparr>]\<rparr>"

definition loc_sync_select_ind :: "addr \<Rightarrow> int \<Rightarrow> int \<Rightarrow> addr \<Rightarrow> loc_sync_array
    \<Rightarrow> nat option \<times> loc_sync_array" where
  "loc_sync_select_ind handle ind_id reqid ptr a =
     (case loc_alloc_slot a of
        (None, a') \<Rightarrow> (None, a')
      | (Some i, a') \<Rightarrow> (Some i, fill_slot i handle ind_id reqid ptr a'))"

text \<open>The test of \<open>loc_sync_process_ind\<close>, and what it does with a slot that passes: the result says
  whether the indication is consumed.\<close>

definition slot_matches :: "addr \<Rightarrow> int \<Rightarrow> loc_sync_array \<Rightarrow> nat \<Rightarrow> bool" where
  "slot_matches handle ind_id a i \<longleftrightarrow>
     slot_in_use a ! i \<and> client_handle (slots a ! i) = handle \<and>
     ind_id = recv_ind_id (slots a ! i) \<and> \<not> ind_has_arrived (slots a ! i)"

definition deliver :: "8 word list option \<Rightarrow> int \<Rightarrow> loc_sync_array \<Rightarrow> nat \<Rightarrow> loc_sync_array \<times> bool" where
  "deliver ind_payload ind_id a i =
     (let slot = slots a ! i; ptr = recv_ind_payload_ptr slot;
          copied = (ptr \<noteq> 0 \<and> (case ind_payload of None \<Rightarrow> False | Some bs \<Rightarrow> 0 < length bs));
          mem = (if copied then (payloads a)(ptr := put_bytes 0 (the ind_payload) (payloads a ptr))
                 else payloads a);
          slot' = (if ind_is_waiting slot then slot\<lparr>recv_ind_id := ind_id, cond_signalled := True\<rparr>
                   else slot\<lparr>ind_has_arrived := True\<rparr>) in
      (a\<lparr>payloads := mem, slots := (slots a)[i := slot']\<rparr>, copied))"

fun process_loop :: "addr \<Rightarrow> int \<Rightarrow> 8 word list option \<Rightarrow> nat list \<Rightarrow> bool \<Rightarrow> loc_sync_array
    \<Rightarrow> bool \<times> loc_sync_array" where
  "process_loop handle ind_id payload [] used a = (used, a)"
| "process_loop handle ind_id payload (i # is) used a =
     (let used' = (used \<or> slot_in_use a ! i) in
      if slot_matches handle ind_id a i
      then (case deliver payload ind_id a i of
        (a', consumed) \<Rightarrow>
          if consumed then (used', a') else process_loop handle ind_id payload is used' a')
      else process_loop handle ind_id payload is used' a)"

definition loc_sync_process_ind :: "addr \<Rightarrow> int \<Rightarrow> 8 word list option \<Rightarrow> loc_sync_array \<Rightarrow> loc_sync_array" where
  "loc_sync_process_ind handle ind_id payload a =
     (if \<not> in_use a then a
      else case process_loop handle ind_id payload [0..<LOC_SYNC_REQ_BUFFER_SIZE] False a of
        (used, a') \<Rightarrow> if used then a' else a'\<lparr>in_use := False\<rparr>)"

text \<open>\<open>loc_sync_wait_for_ind\<close> in its two halves, before and after \<open>pthread_cond_timedwait\<close>, which
  gives up the lock. The first half ends the call (\<open>Inl\<close> the return value), or waits.\<close>

datatype wait_result = WaitOk | WaitInvalid | WaitBusy | WaitTimedOut

definition wait_begin :: "nat option \<Rightarrow> loc_sync_array \<Rightarrow> wait_result option \<times> loc_sync_array" where
  "wait_begin sel a =
     (case sel of
        None \<Rightarrow> (Some WaitInvalid, a)
      | Some i \<Rightarrow>
        if LOC_SYNC_REQ_BUFFER_SIZE \<le> i \<or> \<not> slot_in_use a ! i then (Some WaitInvalid, a)
        else if ind_has_arrived (slots a ! i) then (Some WaitOk, loc_free_slot i a)
        else if ind_is_waiting (slots a ! i) then (Some WaitBusy, loc_free_slot i a)
        else (None, a\<lparr>slots := (slots a)[i := (slots a ! i)\<lparr>ind_is_waiting := True\<rparr>]\<rparr>))"

definition wait_end :: "nat \<Rightarrow> bool \<Rightarrow> loc_sync_array \<Rightarrow> wait_result \<times> loc_sync_array" where
  "wait_end i timed_out a =
     (if timed_out then WaitTimedOut else WaitOk,
      loc_free_slot i (a\<lparr>slots := (slots a)[i := (slots a ! i)\<lparr>ind_is_waiting := False\<rparr>]\<rparr>))"

definition wait_status :: "wait_result \<Rightarrow> locClientStatusEnumType" where
  "wait_status r = (case r of
     WaitOk \<Rightarrow> eLOC_CLIENT_SUCCESS
   | WaitTimedOut \<Rightarrow> eLOC_CLIENT_FAILURE_TIMEOUT
   | _ \<Rightarrow> eLOC_CLIENT_FAILURE_INTERNAL)"

text \<open>The whole request of one thread. What the other threads do in the meantime is a parameter:
  \<open>send\<close> is \<open>locClientSendReq\<close> with the indications that arrive during it, and \<open>wait\<close> what happens
  until the wait for \<open>timeout_seconds\<close> ends, and whether it timed out.\<close>

definition loc_sync_send_req ::
    "(loc_sync_array \<Rightarrow> locClientStatusEnumType \<times> loc_sync_array)
     \<Rightarrow> (nat \<Rightarrow> loc_sync_array \<Rightarrow> bool \<times> loc_sync_array)
     \<Rightarrow> addr \<Rightarrow> int \<Rightarrow> nat \<Rightarrow> int \<Rightarrow> addr \<Rightarrow> loc_sync_array
     \<Rightarrow> locClientStatusEnumType \<times> loc_sync_array" where
  "loc_sync_send_req send wait handle reqid timeout_msec ind_id ptr a =
     (case loc_sync_select_ind handle ind_id reqid ptr a of
        (None, a1) \<Rightarrow> (eLOC_CLIENT_SUCCESS, a1)
      | (Some i, a1) \<Rightarrow>
        (case send a1 of
          (status, a2) \<Rightarrow>
            if status \<noteq> eLOC_CLIENT_SUCCESS then (status, loc_free_slot i a2)
            else (case wait_begin (Some i) a2 of
              (Some r, a3) \<Rightarrow> (wait_status r, a3)
            | (None, a3) \<Rightarrow>
              (case wait (timeout_msec div 1000) a3 of
                (timed_out, a4) \<Rightarrow>
                  (case wait_end i timed_out a4 of (r, a5) \<Rightarrow> (wait_status r, a5))))))"

section \<open>The pool of slots\<close>

text \<open>A pool hands out numbers that are not in use and takes them back. Holders that take and give
  back through it never share one, and none is lost. \<open>owned h U\<close>: the holders' numbers are the
  ones in use, each with one holder.\<close>

definition owned :: "('t \<Rightarrow> nat option) \<Rightarrow> nat set \<Rightarrow> bool" where
  "owned h U \<longleftrightarrow> (\<forall>i. i \<in> U \<longleftrightarrow> (\<exists>t. h t = Some i)) \<and>
     (\<forall>t t' i. h t = Some i \<longrightarrow> h t' = Some i \<longrightarrow> t = t')"

lemma owned_take:
  assumes "owned h U" and "h t = None" and "i \<notin> U"
  shows "owned (h(t \<mapsto> i)) (insert i U)"
  unfolding owned_def
proof (intro conjI allI impI)
  fix j
  have "(\<exists>u. (h(t \<mapsto> i)) u = Some j) \<longleftrightarrow> j = i \<or> (\<exists>u. h u = Some j)"
    using assms(2) by (metis fun_upd_other fun_upd_same option.distinct(1) option.inject)
  then show "j \<in> insert i U \<longleftrightarrow> (\<exists>u. (h(t \<mapsto> i)) u = Some j)"
    using assms(1) by (simp add: owned_def)
next
  fix u u' j
  assume "(h(t \<mapsto> i)) u = Some j" "(h(t \<mapsto> i)) u' = Some j"
  then show "u = u'" using assms by (auto simp: owned_def split: if_splits)
qed

lemma owned_give:
  assumes "owned h U" and "h t = Some i"
  shows "owned (h(t := None)) (U - {i})"
proof -
  have only: "u = t" if "h u = Some i" for u using assms that by (simp add: owned_def)
  have "(\<exists>u. (h(t := None)) u = Some j) \<longleftrightarrow> j \<noteq> i \<and> (\<exists>u. h u = Some j)" for j
    using only assms(2) by (metis fun_upd_other fun_upd_same option.distinct(1) option.inject)
  then show ?thesis using assms(1) by (auto simp: owned_def split: if_splits)
qed

locale slot_pool =
  fixes ok :: "'s \<Rightarrow> bool" and used :: "'s \<Rightarrow> nat set"
    and alloc :: "'s \<Rightarrow> nat option \<times> 's" and free :: "nat \<Rightarrow> 's \<Rightarrow> 's"
  assumes alloc_Some: "ok s \<Longrightarrow> alloc s = (Some i, s') \<Longrightarrow>
      ok s' \<and> i \<notin> used s \<and> used s' = insert i (used s)"
    and alloc_None: "ok s \<Longrightarrow> alloc s = (None, s') \<Longrightarrow> s' = s"
    and free_used: "ok s \<Longrightarrow> i \<in> used s \<Longrightarrow> ok (free i s) \<and> used (free i s) = used s - {i}"
begin

lemma take_owned:
  assumes "ok s" and "owned h (used s)" and "h t = None" and "alloc s = (Some i, s')"
  shows "ok s' \<and> owned (h(t \<mapsto> i)) (used s')"
  using alloc_Some [OF assms(1,4)] owned_take [OF assms(2,3)] by auto

lemma give_owned:
  assumes "ok s" and "owned h (used s)" and "h t = Some i"
  shows "ok (free i s) \<and> owned (h(t := None)) (used (free i s))"
proof -
  have "i \<in> used s" using assms(2,3) by (auto simp: owned_def)
  with free_used [OF assms(1)] owned_give [OF assms(2,3)] show ?thesis by simp
qed

end

definition used_slots :: "loc_sync_array \<Rightarrow> nat set" where
  "used_slots a = {i. i < LOC_SYNC_REQ_BUFFER_SIZE \<and> slot_in_use a ! i}"

text \<open>The array is well formed: eight slots, the summary flag is right, and a slot that is not in use
  is cleared.\<close>

definition array_ok :: "loc_sync_array \<Rightarrow> bool" where
  "array_ok a \<longleftrightarrow> length (slot_in_use a) = LOC_SYNC_REQ_BUFFER_SIZE \<and>
     length (slots a) = LOC_SYNC_REQ_BUFFER_SIZE \<and> in_use a = (used_slots a \<noteq> {}) \<and>
     (\<forall>i < LOC_SYNC_REQ_BUFFER_SIZE. i \<notin> used_slots a \<longrightarrow> slots a ! i = free_slot_data)"

lemma used_slots_in: "i \<in> used_slots a \<longleftrightarrow> i < LOC_SYNC_REQ_BUFFER_SIZE \<and> slot_in_use a ! i"
  by (simp add: used_slots_def)

lemma init_ok: "\<not> sync_initialized a \<Longrightarrow> array_ok (loc_sync_req_init a)"
  by (auto simp: loc_sync_req_init_def array_ok_def used_slots_def)

lemma first_free_Some: "first_free us k = Some i \<Longrightarrow> \<exists>j < length us. i = k + j \<and> \<not> us ! j"
proof (induction us arbitrary: k)
  case (Cons u us)
  show ?case
  proof (cases u)
    case True
    then obtain j where "j < length us" "i = Suc k + j" "\<not> us ! j"
      using Cons.IH [of "Suc k"] Cons.prems by auto
    then show ?thesis by (intro exI [of _ "Suc j"]) simp
  next
    case False
    then show ?thesis using Cons.prems by (intro exI [of _ 0]) auto
  qed
qed simp

lemma first_free_None: "first_free us k = None \<longleftrightarrow> list_all (\<lambda>u. u) us"
  by (induction us arbitrary: k) auto

lemma list_ex_used: "length (slot_in_use a) = LOC_SYNC_REQ_BUFFER_SIZE \<Longrightarrow>
    list_ex (\<lambda>u. u) (slot_in_use a) \<longleftrightarrow> used_slots a \<noteq> {}"
  by (auto simp: list_ex_length used_slots_def)

lemma alloc_pool:
  assumes "array_ok a" and "loc_alloc_slot a = (Some i, a')"
  shows "array_ok a' \<and> i \<notin> used_slots a \<and> used_slots a' = insert i (used_slots a) \<and> slots a' = slots a"
proof -
  have f: "first_free (slot_in_use a) 0 = Some i"
    and a': "a' = a\<lparr>slot_in_use := (slot_in_use a)[i := True], in_use := True\<rparr>"
    using assms(2) by (auto simp: loc_alloc_slot_def split: option.splits)
  from first_free_Some [OF f] assms(1) have i: "i < LOC_SYNC_REQ_BUFFER_SIZE" "\<not> slot_in_use a ! i"
    unfolding array_ok_def by auto
  have "length (slot_in_use a) = LOC_SYNC_REQ_BUFFER_SIZE" using assms(1) by (simp add: array_ok_def)
  with i have u: "used_slots a' = insert i (used_slots a)"
    by (auto simp: a' used_slots_def nth_list_update)
  moreover have "i \<notin> used_slots a" using i by (simp add: used_slots_in)
  moreover have "array_ok a'"
    using assms(1) u by (simp add: array_ok_def) (simp add: a')
  ultimately show ?thesis by (simp add: a')
qed

lemma free_pool:
  assumes "array_ok a" and "i \<in> used_slots a"
  shows "array_ok (loc_free_slot i a) \<and> used_slots (loc_free_slot i a) = used_slots a - {i}"
proof -
  let ?a = "loc_free_slot i a"
  have lens: "length (slot_in_use a) = LOC_SYNC_REQ_BUFFER_SIZE" "length (slots a) = LOC_SYNC_REQ_BUFFER_SIZE"
    and cleared: "\<And>j. j < LOC_SYNC_REQ_BUFFER_SIZE \<Longrightarrow> j \<notin> used_slots a \<Longrightarrow> slots a ! j = free_slot_data"
    and flag: "in_use a"
    using assms by (auto simp: array_ok_def)
  have len: "length (slot_in_use ?a) = LOC_SYNC_REQ_BUFFER_SIZE"
    using lens by (simp add: loc_free_slot_def Let_def)
  have u: "used_slots ?a = used_slots a - {i}"
    using lens assms(2) by (auto simp: loc_free_slot_def used_slots_def Let_def nth_list_update)
  have "in_use ?a = list_ex (\<lambda>u. u) (slot_in_use ?a)"
    using flag by (simp add: loc_free_slot_def Let_def)
  also have "\<dots> = (used_slots ?a \<noteq> {})" by (rule list_ex_used [OF len])
  finally have f: "in_use ?a = (used_slots ?a \<noteq> {})" .
  have "slots ?a ! j = free_slot_data" if "j < LOC_SYNC_REQ_BUFFER_SIZE" "j \<notin> used_slots ?a" for j
  proof -
    have "j = i \<or> j \<notin> used_slots a" using that(2) by (auto simp: u)
    then show ?thesis using that(1) cleared lens
      by (cases "j = i") (auto simp: loc_free_slot_def Let_def)
  qed
  then have "array_ok ?a"
    using len f lens by (simp add: array_ok_def) (simp add: loc_free_slot_def Let_def)
  with u show ?thesis by simp
qed

interpretation sync_pool: slot_pool array_ok used_slots loc_alloc_slot loc_free_slot
proof unfold_locales
  fix s i s'
  assume "array_ok s" "loc_alloc_slot s = (Some i, s')"
  then show "array_ok s' \<and> i \<notin> used_slots s \<and> used_slots s' = insert i (used_slots s)"
    using alloc_pool by blast
next
  fix s s'
  assume "loc_alloc_slot s = (None, s')"
  then show "s' = s" by (auto simp: loc_alloc_slot_def split: option.splits)
next
  fix s i
  assume "array_ok s" "i \<in> used_slots s"
  then show "array_ok (loc_free_slot i s) \<and> used_slots (loc_free_slot i s) = used_slots s - {i}"
    by (rule free_pool)
qed

section \<open>Delivering an indication\<close>

text \<open>What \<open>loc_sync_process_ind\<close> may change in a slot: the flag that the indication has arrived, or
  the signal of a waiting slot, and only if the slot matches.\<close>

definition notified :: "addr \<Rightarrow> int \<Rightarrow> loc_sync_req_data_s_type \<Rightarrow> loc_sync_req_data_s_type \<Rightarrow> bool" where
  "notified h ind s s' \<longleftrightarrow> s' = s \<or> (client_handle s = h \<and> recv_ind_id s = ind \<and> \<not> ind_has_arrived s \<and>
     s' = (if ind_is_waiting s then s\<lparr>cond_signalled := True\<rparr> else s\<lparr>ind_has_arrived := True\<rparr>))"

lemma deliver_slots:
  "fst (deliver pl ind a i) = a\<lparr>payloads := payloads (fst (deliver pl ind a i)),
     slots := (slots a)[i := (if ind_is_waiting (slots a ! i)
       then (slots a ! i)\<lparr>recv_ind_id := ind, cond_signalled := True\<rparr>
       else (slots a ! i)\<lparr>ind_has_arrived := True\<rparr>)]\<rparr>"
  by (simp add: deliver_def Let_def)

lemma process_loop_slots:
  assumes "distinct is" and "list_all (\<lambda>i. i < length (slots a)) is"
    and "process_loop h ind pl is used a = (used', a')"
  shows "in_use a' = in_use a \<and> slot_in_use a' = slot_in_use a \<and> sync_initialized a' = sync_initialized a \<and>
    length (slots a') = length (slots a) \<and>
    (\<forall>j < length (slots a). notified h ind (slots a ! j) (slots a' ! j) \<and>
      (j \<notin> set is \<or> \<not> slot_in_use a ! j \<longrightarrow> slots a' ! j = slots a ! j))"
  using assms
proof (induction "is" arbitrary: used a)
  case Nil
  then show ?case by (simp add: notified_def)
next
  case (Cons i "is")
  let ?used = "used \<or> slot_in_use a ! i"
  show ?case
  proof (cases "slot_matches h ind a i")
    case False
    then show ?thesis using Cons.prems Cons.IH [of a ?used] by (auto simp: Let_def)
  next
    case True
    obtain b c where d: "deliver pl ind a i = (b, c)" by fastforce
    let ?s = "if ind_is_waiting (slots a ! i) then (slots a ! i)\<lparr>recv_ind_id := ind, cond_signalled := True\<rparr>
       else (slots a ! i)\<lparr>ind_has_arrived := True\<rparr>"
    have b: "in_use b = in_use a" "slot_in_use b = slot_in_use a" "sync_initialized b = sync_initialized a"
      "slots b = (slots a)[i := ?s]"
      using d by (auto simp: deliver_def Let_def)
    have i: "i < length (slots a)" "i \<notin> set is" "slot_in_use a ! i" "client_handle (slots a ! i) = h"
      "recv_ind_id (slots a ! i) = ind" "\<not> ind_has_arrived (slots a ! i)"
      using Cons.prems True by (auto simp: slot_matches_def)
    have s: "notified h ind (slots a ! i) ?s" using i by (simp add: notified_def)
    show ?thesis
    proof (cases c)
      case True
      then have "a' = b" using Cons.prems(3) \<open>slot_matches h ind a i\<close> d by (simp add: Let_def)
      then show ?thesis using b i s by (auto simp: nth_list_update notified_def)
    next
      case False
      then have l: "process_loop h ind pl is ?used b = (used', a')"
        using Cons.prems(3) \<open>slot_matches h ind a i\<close> d by (simp add: Let_def)
      from Cons.IH [OF _ _ l] Cons.prems b(4)
      have "in_use a' = in_use b \<and> slot_in_use a' = slot_in_use b \<and> sync_initialized a' = sync_initialized b \<and>
        length (slots a') = length (slots b) \<and>
        (\<forall>j < length (slots b). notified h ind (slots b ! j) (slots a' ! j) \<and>
          (j \<notin> set is \<or> \<not> slot_in_use b ! j \<longrightarrow> slots a' ! j = slots b ! j))" by simp
      then show ?thesis using b i s by (auto simp: nth_list_update)
    qed
  qed
qed

lemma process_loop_used:
  assumes "process_loop h ind pl is used a = (used', a')"
  shows "used \<or> list_ex (\<lambda>i. slot_in_use a ! i) is \<Longrightarrow> used'"
  using assms
proof (induction "is" arbitrary: used a)
  case (Cons i "is")
  obtain b c where d: "deliver pl ind a i = (b, c)" by fastforce
  have b: "slot_in_use b = slot_in_use a" using d by (auto simp: deliver_def Let_def)
  have m: "slot_matches h ind a i \<Longrightarrow> slot_in_use a ! i" by (simp add: slot_matches_def)
  have mono: "process_loop h ind pl is True x = (used', a') \<Longrightarrow> used'" for x
    using Cons.IH [of True x] by simp
  show ?case
    using Cons.prems Cons.IH [of "used \<or> slot_in_use a ! i" a] Cons.IH [of "used \<or> slot_in_use a ! i" b] d b m mono
    by (cases "slot_matches h ind a i"; cases c) (auto simp: Let_def)
qed simp

lemma process_ind_slots:
  assumes "array_ok a"
  shows "array_ok (loc_sync_process_ind h ind pl a)"
    and "used_slots (loc_sync_process_ind h ind pl a) = used_slots a"
    and "j < LOC_SYNC_REQ_BUFFER_SIZE \<Longrightarrow>
      notified h ind (slots a ! j) (slots (loc_sync_process_ind h ind pl a) ! j)"
proof -
  let ?n = LOC_SYNC_REQ_BUFFER_SIZE and ?a = "loc_sync_process_ind h ind pl a"
  have "array_ok ?a \<and> used_slots ?a = used_slots a \<and>
    (\<forall>j < ?n. notified h ind (slots a ! j) (slots ?a ! j))"
  proof (cases "in_use a")
    case False
    then show ?thesis using assms by (simp add: loc_sync_process_ind_def notified_def)
  next
    case True
    obtain used a' where l: "process_loop h ind pl [0..<?n] False a = (used, a')" by fastforce
    have len: "length (slots a) = ?n" using assms by (simp add: array_ok_def)
    from process_loop_slots [OF _ _ l] len
    have p: "in_use a' = in_use a" "slot_in_use a' = slot_in_use a" "length (slots a') = ?n"
      "\<And>j. j < ?n \<Longrightarrow> notified h ind (slots a ! j) (slots a' ! j)"
      "\<And>j. j < ?n \<Longrightarrow> \<not> slot_in_use a ! j \<Longrightarrow> slots a' ! j = slots a ! j"
      by (simp_all add: list_all_iff)
    have "list_ex (\<lambda>i. slot_in_use a ! i) [0..<?n]"
      using True assms by (auto simp: array_ok_def used_slots_def list_ex_iff)
    then have used: "used" by (simp add: process_loop_used [OF l])
    have "?a = a'" using True l used by (simp add: loc_sync_process_ind_def)
    moreover have "used_slots a' = used_slots a" by (simp add: used_slots_def p(2))
    ultimately show ?thesis using assms p by (auto simp: array_ok_def used_slots_in)
  qed
  then show "array_ok ?a" "used_slots ?a = used_slots a"
    "j < ?n \<Longrightarrow> notified h ind (slots a ! j) (slots ?a ! j)" by auto
qed

section \<open>Interleavings\<close>

text \<open>A thread is idle, holds a slot it has not filled, has selected an indication (and sends its
  request), or waits. \<open>since i\<close> is the set of the indications processed since the slot \<open>i\<close> was
  filled, and \<open>results\<close> the statuses returned.\<close>

datatype sync_phase = Idle | Holding nat | Selected nat | Waiting nat

fun phase_slot :: "sync_phase \<Rightarrow> nat option" where
  "phase_slot Idle = None"
| "phase_slot (Holding i) = Some i"
| "phase_slot (Selected i) = Some i"
| "phase_slot (Waiting i) = Some i"

record sync_sys =
  sync_arr :: loc_sync_array
  phase :: "nat \<Rightarrow> sync_phase"
  since :: "nat \<Rightarrow> (addr \<times> int) set"
  results :: "(nat \<times> locClientStatusEnumType) list"

definition set_phase :: "nat \<Rightarrow> sync_phase \<Rightarrow> loc_sync_array \<Rightarrow> sync_sys \<Rightarrow> sync_sys" where
  "set_phase t p a s = s\<lparr>phase := (phase s)(t := p), sync_arr := a\<rparr>"

definition finish :: "nat \<Rightarrow> locClientStatusEnumType \<Rightarrow> loc_sync_array \<Rightarrow> sync_sys \<Rightarrow> sync_sys" where
  "finish t st a s = set_phase t Idle a (s\<lparr>results := (t, st) # results s\<rparr>)"

text \<open>A waiting thread wakes when its slot is signalled or its time is over, or spuriously:
  \<open>pthread_cond_timedwait\<close> may return 0 without a signal, and the code takes that for an answer, since
  it does not wait in a loop over a condition.\<close>

inductive sync_step :: "sync_sys \<Rightarrow> sync_sys \<Rightarrow> bool" where
  take: "phase s t = Idle \<Longrightarrow> loc_alloc_slot (sync_arr s) = (Some i, a) \<Longrightarrow>
    sync_step s (set_phase t (Holding i) a s)"
| full: "phase s t = Idle \<Longrightarrow> loc_alloc_slot (sync_arr s) = (None, a) \<Longrightarrow>
    sync_step s (finish t eLOC_CLIENT_SUCCESS a s)"
| fill: "phase s t = Holding i \<Longrightarrow>
    sync_step s (set_phase t (Selected i) (fill_slot i h ind rid ptr (sync_arr s))
      (s\<lparr>since := (since s)(i := {})\<rparr>))"
| send_fails: "phase s t = Selected i \<Longrightarrow> st \<noteq> eLOC_CLIENT_SUCCESS \<Longrightarrow>
    sync_step s (finish t st (loc_free_slot i (sync_arr s)) s)"
| no_wait: "phase s t = Selected i \<Longrightarrow> wait_begin (Some i) (sync_arr s) = (Some r, a) \<Longrightarrow>
    sync_step s (finish t (wait_status r) a s)"
| wait: "phase s t = Selected i \<Longrightarrow> wait_begin (Some i) (sync_arr s) = (None, a) \<Longrightarrow>
    sync_step s (set_phase t (Waiting i) a s)"
| wake: "phase s t = Waiting i \<Longrightarrow> cond_signalled (slots (sync_arr s) ! i) \<Longrightarrow>
    wait_end i False (sync_arr s) = (r, a) \<Longrightarrow> sync_step s (finish t (wait_status r) a s)"
| spurious: "phase s t = Waiting i \<Longrightarrow> \<not> cond_signalled (slots (sync_arr s) ! i) \<Longrightarrow>
    wait_end i False (sync_arr s) = (r, a) \<Longrightarrow> sync_step s (finish t (wait_status r) a s)"
| time_out: "phase s t = Waiting i \<Longrightarrow>
    wait_end i True (sync_arr s) = (r, a) \<Longrightarrow> sync_step s (finish t (wait_status r) a s)"
| indication: "sync_step s (s\<lparr>sync_arr := loc_sync_process_ind h ind pl (sync_arr s),
    since := (\<lambda>i. insert (h, ind) (since s i))\<rparr>)"

inductive sync_reach :: "sync_sys \<Rightarrow> bool" where
  start: "\<not> sync_initialized a \<Longrightarrow> sync_reach \<lparr>sync_arr = loc_sync_req_init a, phase = (\<lambda>_. Idle),
    since = (\<lambda>_. {}), results = []\<rparr>"
| step: "sync_reach s \<Longrightarrow> sync_step s s' \<Longrightarrow> sync_reach s'"

text \<open>The invariant: the threads' slots are the slots in use, each with one thread; exactly the slots of
  waiting threads are marked so; only those are signalled; and what a slot has been told of has
  happened since it was filled.\<close>

definition slot_ok :: "sync_phase \<Rightarrow> loc_sync_req_data_s_type \<Rightarrow> (addr \<times> int) set \<Rightarrow> bool" where
  "slot_ok p d since_i \<longleftrightarrow>
     (case p of
        Idle \<Rightarrow> True
      | Holding i \<Rightarrow> \<not> ind_is_waiting d \<and> \<not> cond_signalled d
      | Selected i \<Rightarrow> \<not> ind_is_waiting d \<and> \<not> cond_signalled d \<and>
          (ind_has_arrived d \<longrightarrow> (client_handle d, recv_ind_id d) \<in> since_i)
      | Waiting i \<Rightarrow> ind_is_waiting d \<and> \<not> ind_has_arrived d \<and>
          (cond_signalled d \<longrightarrow> (client_handle d, recv_ind_id d) \<in> since_i))"

definition sync_inv :: "sync_sys \<Rightarrow> bool" where
  "sync_inv s \<longleftrightarrow> array_ok (sync_arr s) \<and> owned (phase_slot \<circ> phase s) (used_slots (sync_arr s)) \<and>
     (\<forall>t i. phase_slot (phase s t) = Some i \<longrightarrow> slot_ok (phase s t) (slots (sync_arr s) ! i) (since s i))"

lemma sync_inv_update:
  assumes inv: "sync_inv s" and "array_ok a"
    and "owned ((phase_slot \<circ> phase s)(t := phase_slot p)) (used_slots a)"
    and "\<And>i. phase_slot p = Some i \<Longrightarrow> slot_ok p (slots a ! i) (sn i)"
    and "\<And>j. Some j \<noteq> phase_slot p \<Longrightarrow> Some j \<noteq> phase_slot (phase s t) \<Longrightarrow> j \<in> used_slots (sync_arr s) \<Longrightarrow>
      slots a ! j = slots (sync_arr s) ! j \<and> sn j = since s j"
    and "sync_arr s' = a" and "phase s' = (phase s)(t := p)" and "since s' = sn"
  shows "sync_inv s'"
  unfolding sync_inv_def
proof (intro conjI allI impI)
  have o: "phase_slot \<circ> (phase s)(t := p) = (phase_slot \<circ> phase s)(t := phase_slot p)" by auto
  show "array_ok (sync_arr s')" "owned (phase_slot \<circ> phase s') (used_slots (sync_arr s'))"
    using assms(2,3,6,7) o by simp_all
  fix u i
  assume ui: "phase_slot (phase s' u) = Some i"
  show "slot_ok (phase s' u) (slots (sync_arr s') ! i) (since s' i)"
  proof (cases "u = t")
    case True
    then show ?thesis using ui assms(4,6,7,8) by simp
  next
    case False
    then have u: "phase s' u = phase s u" "phase_slot (phase s u) = Some i" using ui assms(7) by simp_all
    have "Some i \<noteq> phase_slot p"
    proof
      assume "Some i = phase_slot p"
      then have "((phase_slot \<circ> phase s)(t := phase_slot p)) t = Some i"
        "((phase_slot \<circ> phase s)(t := phase_slot p)) u = Some i" using u False by auto
      then show False using assms(3) False unfolding owned_def by blast
    qed
    moreover have ow: "owned (phase_slot \<circ> phase s) (used_slots (sync_arr s))"
      using inv by (simp add: sync_inv_def)
    have "Some i \<noteq> phase_slot (phase s t)"
    proof
      assume "Some i = phase_slot (phase s t)"
      then have "(phase_slot \<circ> phase s) t = Some i" "(phase_slot \<circ> phase s) u = Some i" using u by auto
      then show False using ow False unfolding owned_def by blast
    qed
    moreover have "i \<in> used_slots (sync_arr s)"
      using ow u(2) unfolding owned_def by auto
    ultimately have "slots a ! i = slots (sync_arr s) ! i \<and> sn i = since s i" by (rule assms(5))
    moreover have "slot_ok (phase s u) (slots (sync_arr s) ! i) (since s i)"
      using inv u(2) by (simp add: sync_inv_def)
    ultimately show ?thesis using u assms(6,8) by simp
  qed
qed

lemma sync_inv_slot:
  assumes "sync_inv s" and "phase_slot (phase s t) = Some i"
  shows "i < LOC_SYNC_REQ_BUFFER_SIZE" "slot_in_use (sync_arr s) ! i" "i \<in> used_slots (sync_arr s)"
    "slot_ok (phase s t) (slots (sync_arr s) ! i) (since s i)"
proof -
  from assms have "i \<in> used_slots (sync_arr s)" unfolding sync_inv_def owned_def by auto
  then show "i < LOC_SYNC_REQ_BUFFER_SIZE" "slot_in_use (sync_arr s) ! i" "i \<in> used_slots (sync_arr s)"
    by (simp_all add: used_slots_in)
  show "slot_ok (phase s t) (slots (sync_arr s) ! i) (since s i)"
    using assms by (simp add: sync_inv_def)
qed

text \<open>Storing into a slot that is in use.\<close>

lemma store_slot_ok:
  assumes "array_ok a" and "i \<in> used_slots a"
  shows "array_ok (a\<lparr>slots := (slots a)[i := d]\<rparr>)"
    and "used_slots (a\<lparr>slots := (slots a)[i := d]\<rparr>) = used_slots a"
    and "slots (a\<lparr>slots := (slots a)[i := d]\<rparr>) ! i = d"
    and "j \<noteq> i \<Longrightarrow> slots (a\<lparr>slots := (slots a)[i := d]\<rparr>) ! j = slots a ! j"
proof -
  show u: "used_slots (a\<lparr>slots := (slots a)[i := d]\<rparr>) = used_slots a" by (simp add: used_slots_def)
  have "(slots a)[i := d] ! j = slots a ! j" if "j \<notin> used_slots a" for j
    using that assms(2) by (cases "j = i") auto
  then show "array_ok (a\<lparr>slots := (slots a)[i := d]\<rparr>)"
    using assms u by (simp add: array_ok_def)
  show "slots (a\<lparr>slots := (slots a)[i := d]\<rparr>) ! i = d"
    using assms by (simp add: array_ok_def used_slots_in)
  show "j \<noteq> i \<Longrightarrow> slots (a\<lparr>slots := (slots a)[i := d]\<rparr>) ! j = slots a ! j" by simp
qed

lemma free_slot_others:
  "j \<noteq> i \<Longrightarrow> slots (loc_free_slot i a) ! j = slots a ! j"
  by (simp add: loc_free_slot_def Let_def)

lemma finish_inv:
  assumes inv: "sync_inv s" and p: "phase_slot (phase s t) = Some i"
    and "array_ok b" and "used_slots b = used_slots (sync_arr s)"
    and "\<And>j. j \<noteq> i \<Longrightarrow> slots b ! j = slots (sync_arr s) ! j"
  shows "sync_inv (finish t st (loc_free_slot i b) s)"
proof (rule sync_inv_update [OF inv, where t = t and p = Idle and a = "loc_free_slot i b" and sn = "since s"])
  have "owned (phase_slot \<circ> phase s) (used_slots b)" using inv assms(4) by (simp add: sync_inv_def)
  from sync_pool.give_owned [OF assms(3) this] p
  show "array_ok (loc_free_slot i b)"
    "owned ((phase_slot \<circ> phase s)(t := phase_slot Idle)) (used_slots (loc_free_slot i b))" by auto
  show "slots (loc_free_slot i b) ! j = slots (sync_arr s) ! j \<and> since s j = since s j"
    if "Some j \<noteq> phase_slot Idle" "Some j \<noteq> phase_slot (phase s t)" for j
    using that p assms(5) by (simp add: free_slot_others)
qed (simp_all add: finish_def set_phase_def)

lemma owned_same:
  "owned h U \<Longrightarrow> h t = Some i \<Longrightarrow> owned (h(t \<mapsto> i)) U"
  by (simp add: fun_upd_idem)

lemma sync_step_inv:
  assumes inv: "sync_inv s" and "sync_step s s'"
  shows "sync_inv s'"
  using assms(2)
proof cases
  case (take t i a)
  have own: "owned (phase_slot \<circ> phase s) (used_slots (sync_arr s))" and ok: "array_ok (sync_arr s)"
    using inv by (simp_all add: sync_inv_def)
  note al = alloc_pool [OF ok take(3)]
  from sync_pool.take_owned [OF ok own _ take(3), of t] take(2)
  have own': "owned ((phase_slot \<circ> phase s)(t \<mapsto> i)) (used_slots a)" by simp
  have "i < LOC_SYNC_REQ_BUFFER_SIZE" using al by (auto simp: used_slots_def)
  then have "slots (sync_arr s) ! i = free_slot_data" using ok al by (simp add: array_ok_def)
  then show ?thesis
    unfolding take(1)
    using al own' by (intro sync_inv_update [OF inv, where t = t and p = "Holding i" and a = a and sn = "since s"])
      (auto simp: set_phase_def slot_ok_def free_slot_data_def)
next
  case (full t a)
  then have "a = sync_arr s" by (auto simp: loc_alloc_slot_def split: option.splits)
  moreover have "(phase s)(t := Idle) = phase s" using full(2) by (simp add: fun_upd_idem)
  ultimately show ?thesis
    using inv full by (simp add: sync_inv_def finish_def set_phase_def)
next
  case (fill t i h ind rid ptr)
  then have p: "phase_slot (phase s t) = Some i" by simp
  note sl = sync_inv_slot [OF inv p]
  have ok: "array_ok (sync_arr s)" using inv by (simp add: sync_inv_def)
  show ?thesis
    unfolding fill(1)
  proof (rule sync_inv_update [OF inv, where t = t and p = "Selected i" and
        a = "fill_slot i h ind rid ptr (sync_arr s)" and sn = "(since s)(i := {})"])
    show "array_ok (fill_slot i h ind rid ptr (sync_arr s))"
      unfolding fill_slot_def by (rule store_slot_ok [OF ok sl(3)])
    show "owned ((phase_slot \<circ> phase s)(t := phase_slot (Selected i)))
        (used_slots (fill_slot i h ind rid ptr (sync_arr s)))"
      using inv p unfolding fill_slot_def store_slot_ok(2) [OF ok sl(3)]
      by (simp add: sync_inv_def owned_same)
    show "slot_ok (Selected i) (slots (fill_slot i h ind rid ptr (sync_arr s)) ! j) (((since s)(i := {})) j)"
      if "phase_slot (Selected i) = Some j" for j
      using that sl(1,4) fill(2) ok unfolding fill_slot_def
      by (simp add: slot_ok_def array_ok_def)
  qed (use p in \<open>auto simp: fill_slot_def set_phase_def\<close>)
next
  case (send_fails t i st)
  have "array_ok (sync_arr s)" using inv by (simp add: sync_inv_def)
  then show ?thesis
    unfolding send_fails(1) by (rule finish_inv [OF inv, rotated]) (simp_all add: send_fails(2))
next
  case (no_wait t i r a)
  then have p: "phase_slot (phase s t) = Some i" by simp
  note sl = sync_inv_slot [OF inv p]
  have "a = loc_free_slot i (sync_arr s)"
    using no_wait(3) sl(1,2) by (auto simp: wait_begin_def split: if_splits)
  moreover have "array_ok (sync_arr s)" using inv by (simp add: sync_inv_def)
  ultimately show ?thesis
    unfolding no_wait(1) by (auto intro: finish_inv [OF inv p])
next
  case (wait t i a)
  then have p: "phase_slot (phase s t) = Some i" by simp
  note sl = sync_inv_slot [OF inv p]
  have ok: "array_ok (sync_arr s)" using inv by (simp add: sync_inv_def)
  let ?d = "(slots (sync_arr s) ! i)\<lparr>ind_is_waiting := True\<rparr>"
  have a: "a = (sync_arr s)\<lparr>slots := (slots (sync_arr s))[i := ?d]\<rparr>" "\<not> ind_has_arrived (slots (sync_arr s) ! i)"
    using wait(3) by (auto simp: wait_begin_def split: if_splits)
  show ?thesis
    unfolding wait(1)
  proof (rule sync_inv_update [OF inv, where t = t and p = "Waiting i" and a = a and sn = "since s"])
    show "array_ok a" unfolding a by (rule store_slot_ok [OF ok sl(3)])
    show "owned ((phase_slot \<circ> phase s)(t := phase_slot (Waiting i))) (used_slots a)"
      using inv p unfolding a store_slot_ok(2) [OF ok sl(3)] by (simp add: sync_inv_def owned_same)
    show "slot_ok (Waiting i) (slots a ! j) (since s j)" if "phase_slot (Waiting i) = Some j" for j
      using that sl(1,4) wait(2) a(2) ok unfolding a(1)
      by (simp add: slot_ok_def array_ok_def)
  qed (use p in \<open>auto simp: a set_phase_def\<close>)
next
  case (wake t i r a)
  then have p: "phase_slot (phase s t) = Some i" by simp
  note sl = sync_inv_slot [OF inv p]
  have "array_ok (sync_arr s)" using inv by (simp add: sync_inv_def)
  then show ?thesis
    using wake(4) store_slot_ok [OF _ sl(3)] unfolding wake(1)
    by (auto intro!: finish_inv [OF inv p] simp: wait_end_def)
next
  case (spurious t i r a)
  then have p: "phase_slot (phase s t) = Some i" by simp
  note sl = sync_inv_slot [OF inv p]
  have "array_ok (sync_arr s)" using inv by (simp add: sync_inv_def)
  then show ?thesis
    using spurious(4) store_slot_ok [OF _ sl(3)] unfolding spurious(1)
    by (auto intro!: finish_inv [OF inv p] simp: wait_end_def)
next
  case (time_out t i r a)
  then have p: "phase_slot (phase s t) = Some i" by simp
  note sl = sync_inv_slot [OF inv p]
  have "array_ok (sync_arr s)" using inv by (simp add: sync_inv_def)
  then show ?thesis
    using time_out(3) store_slot_ok [OF _ sl(3)] unfolding time_out(1)
    by (auto intro!: finish_inv [OF inv p] simp: wait_end_def)
next
  case (indication h ind pl)
  have ok: "array_ok (sync_arr s)" using inv by (simp add: sync_inv_def)
  let ?a = "loc_sync_process_ind h ind pl (sync_arr s)"
  have "slot_ok (phase s t) (slots ?a ! i) (insert (h, ind) (since s i))"
    if "phase_slot (phase s t) = Some i" for t i
  proof -
    note sl = sync_inv_slot [OF inv that]
    from process_ind_slots(3) [OF ok sl(1), of h ind pl] sl(4) show ?thesis
      by (auto simp: notified_def slot_ok_def split: sync_phase.splits)
  qed
  then show ?thesis
    using inv process_ind_slots(1,2) [OF ok] unfolding indication
    by (simp add: sync_inv_def)
qed

lemma sync_reach_inv: "sync_reach s \<Longrightarrow> sync_inv s"
proof (induction rule: sync_reach.induct)
  case (start a)
  have "used_slots (loc_sync_req_init a) = {}"
    using start by (auto simp: loc_sync_req_init_def used_slots_def)
  then show ?case
    using init_ok [OF start] by (simp add: sync_inv_def owned_def)
next
  case (step s s')
  then show ?case using sync_step_inv by blast
qed

section \<open>What synchronous requests guarantee\<close>

text \<open>C2: whatever requests, indications and time-outs interleave, no two threads ever hold the same
  slot, every slot in use is held by a thread, and the summary flag says whether there is one: no
  slot is lost and no thread's slot is overwritten.\<close>

theorem sync_slots_exclusive:
  assumes "sync_reach s"
  shows "owned (phase_slot \<circ> phase s) (used_slots (sync_arr s)) \<and>
    in_use (sync_arr s) = (\<exists>t. phase s t \<noteq> Idle)"
proof -
  have own: "owned (phase_slot \<circ> phase s) (used_slots (sync_arr s))" and ok: "array_ok (sync_arr s)"
    using sync_reach_inv [OF assms] by (simp_all add: sync_inv_def)
  have "used_slots (sync_arr s) \<noteq> {} \<longleftrightarrow> (\<exists>i t. phase_slot (phase s t) = Some i)"
    using own unfolding owned_def by auto
  also have "\<dots> \<longleftrightarrow> (\<exists>t. phase s t \<noteq> Idle)"
    by (metis option.distinct(1) phase_slot.elims phase_slot.simps(1))
  finally show ?thesis using own ok by (simp add: array_ok_def)
qed

definition demo_array :: loc_sync_array where
  "demo_array = loc_sync_req_init \<lparr>in_use = False, slot_in_use = [], slots = [],
     sync_initialized = False, payloads = (\<lambda>_. [0, 0])\<rparr>"

definition demo_start :: sync_sys where
  "demo_start = \<lparr>sync_arr = demo_array, phase = (\<lambda>_. Idle), since = (\<lambda>_. {}), results = []\<rparr>"

definition demo_taken :: sync_sys where
  "demo_taken = set_phase 0 (Holding 0) (snd (loc_alloc_slot demo_array)) demo_start"

definition demo_filled :: sync_sys where
  "demo_filled = set_phase 0 (Selected 0) (fill_slot 0 7 32 32 5 (sync_arr demo_taken))
     (demo_taken\<lparr>since := (since demo_taken)(0 := {})\<rparr>)"

definition demo_told :: sync_sys where
  "demo_told = demo_filled\<lparr>sync_arr := loc_sync_process_ind 7 32 (Some [1]) (sync_arr demo_filled),
     since := (\<lambda>i. insert (7, 32) (since demo_filled i))\<rparr>"

lemma demo_alloc: "fst (loc_alloc_slot demo_array) = Some 0"
  by code_simp

lemma demo_told_reach: "sync_reach demo_told" and demo_filled_reach: "sync_reach demo_filled"
  and demo_taken_reach: "sync_reach demo_taken"
proof -
  have "sync_reach demo_start"
    unfolding demo_start_def demo_array_def by (rule sync_reach.start) simp
  moreover have "sync_step demo_start demo_taken"
    unfolding demo_taken_def
    by (rule sync_step.take) (simp_all add: demo_start_def demo_alloc prod_eq_iff)
  ultimately show t: "sync_reach demo_taken" by (rule sync_reach.step)
  have "sync_step demo_taken demo_filled"
    unfolding demo_filled_def by (rule sync_step.fill) (simp add: demo_taken_def set_phase_def)
  with t show f: "sync_reach demo_filled" by (rule sync_reach.step)
  have "sync_step demo_filled demo_told" unfolding demo_told_def by (rule sync_step.indication)
  with f show "sync_reach demo_told" by (rule sync_reach.step)
qed

theorem sync_slots_exclusive_witness:
  "owned (phase_slot \<circ> phase demo_told) (used_slots (sync_arr demo_told)) \<and>
    in_use (sync_arr demo_told) = (\<exists>t. phase demo_told t \<noteq> Idle)"
  by (rule sync_slots_exclusive [OF demo_told_reach])

text \<open>The wait of a request that holds a slot is never refused: the error returns for an invalid
  slot and for a slot somebody already waits in cannot happen.\<close>

theorem sync_wait_accepted:
  assumes "sync_reach s" and "phase s t = Selected i"
  shows "fst (wait_begin (Some i) (sync_arr s)) \<in> {None, Some WaitOk}"
proof -
  have p: "phase_slot (phase s t) = Some i" using assms(2) by simp
  from sync_inv_slot [OF sync_reach_inv [OF assms(1)] p] assms(2) show ?thesis
    by (simp add: wait_begin_def slot_ok_def)
qed

theorem sync_wait_accepted_witness:
  "fst (wait_begin (Some 0) (sync_arr demo_told)) \<in> {None, Some WaitOk}"
  by (rule sync_wait_accepted [OF demo_told_reach, of 0])
    (simp add: demo_told_def demo_filled_def set_phase_def)

text \<open>C3: a request that has taken a slot and ends in success has been answered: an indication with its
  identifier has been processed for its client since it selected it. The one exception is a request
  that was waiting in its slot and was woken spuriously, with no signal: it ends in success as well,
  unanswered (the code does not check what woke it).\<close>

theorem sync_success_answered:
  assumes "sync_reach s" and "sync_step s s'" and "phase_slot (phase s t) = Some i"
    and "results s' = (t, eLOC_CLIENT_SUCCESS) # results s"
  shows "(client_handle (slots (sync_arr s) ! i), recv_ind_id (slots (sync_arr s) ! i)) \<in> since s i \<or>
    (phase s t = Waiting i \<and> \<not> cond_signalled (slots (sync_arr s) ! i))"
proof -
  note sl = sync_inv_slot [OF sync_reach_inv [OF assms(1)] assms(3)]
  from assms(2) show ?thesis
  proof cases
    case (no_wait u j r a)
    then have "u = t" "j = i" using assms(3,4) by (auto simp: finish_def set_phase_def)
    moreover have "wait_status r = eLOC_CLIENT_SUCCESS"
      using no_wait(1) assms(4) by (simp add: finish_def set_phase_def)
    ultimately show ?thesis
      using no_wait(2,3) sl by (auto simp: wait_begin_def slot_ok_def wait_status_def split: if_splits)
  next
    case (wake u j r a)
    then have "u = t" "j = i" using assms(3,4) by (auto simp: finish_def set_phase_def)
    then show ?thesis using wake(2,3) sl(4) by (simp add: slot_ok_def)
  next
    case (spurious u j r a)
    then have "u = t" "j = i" using assms(3,4) by (auto simp: finish_def set_phase_def)
    then show ?thesis using spurious(2,3) by simp
  next
    case (time_out u j r a)
    then show ?thesis using assms(4) by (auto simp: finish_def set_phase_def wait_end_def wait_status_def)
  next
    case (full u a)
    then show ?thesis using assms(3,4) by (auto simp: finish_def set_phase_def)
  qed (use assms(4) in \<open>auto simp: finish_def set_phase_def\<close>)
qed

theorem sync_success_answered_witness:
  "(client_handle (slots (sync_arr demo_told) ! 0), recv_ind_id (slots (sync_arr demo_told) ! 0))
      \<in> since demo_told 0 \<or>
    (phase demo_told 0 = Waiting 0 \<and> \<not> cond_signalled (slots (sync_arr demo_told) ! 0))"
proof (rule sync_success_answered [OF demo_told_reach])
  let ?w = "wait_begin (Some 0) (sync_arr demo_told)"
  have ph: "phase demo_told 0 = Selected 0" by (simp add: demo_told_def demo_filled_def set_phase_def)
  then show "phase_slot (phase demo_told 0) = Some 0" by simp
  have w: "fst ?w = Some WaitOk" by code_simp
  then show "sync_step demo_told (finish 0 (wait_status WaitOk) (snd ?w) demo_told)"
    by (intro sync_step.no_wait [OF ph]) (simp add: prod_eq_iff)
  show "results (finish 0 (wait_status WaitOk) (snd ?w) demo_told)
      = (0, eLOC_CLIENT_SUCCESS) # results demo_told"
    by (simp add: finish_def set_phase_def wait_status_def)
qed

section \<open>What they do not guarantee\<close>

text \<open>When all eight slots are taken, a ninth request is not sent and nobody waits, but the caller is
  told it succeeded.\<close>

theorem sync_full_succeeds:
  assumes "list_all (\<lambda>u. u) (slot_in_use a)"
  shows "loc_sync_send_req send wait h rid ms ind ptr a = (eLOC_CLIENT_SUCCESS, a)"
proof -
  have "first_free (slot_in_use a) 0 = None" using assms by (simp add: first_free_None)
  then show ?thesis by (simp add: loc_sync_send_req_def loc_sync_select_ind_def loc_alloc_slot_def)
qed

theorem sync_full_succeeds_witness:
  "loc_sync_send_req (\<lambda>x. (eLOC_CLIENT_FAILURE_PHONE_OFFLINE, x)) (\<lambda>n x. (True, x)) 7 32 1000 32 5
     (demo_array\<lparr>slot_in_use := replicate 8 True\<rparr>)
   = (eLOC_CLIENT_SUCCESS, demo_array\<lparr>slot_in_use := replicate 8 True\<rparr>)"
  by (rule sync_full_succeeds) (simp add: list_all_length)

text \<open>A request whose wait returns without a time-out succeeds even if no indication has come and
  the payload was never written, as a spurious wake-up of the condition variable does.\<close>

theorem sync_spurious_success:
  assumes "loc_sync_select_ind h ind rid ptr a = (Some i, a1)" and "array_ok a"
    and "send a1 = (eLOC_CLIENT_SUCCESS, a1)" and "\<And>b. wait (ms div 1000) b = (False, b)"
  shows "\<exists>a'. loc_sync_send_req send wait h rid ms ind ptr a = (eLOC_CLIENT_SUCCESS, a') \<and>
    payloads a' = payloads a"
proof -
  from assms(1) obtain b where b: "loc_alloc_slot a = (Some i, b)" "a1 = fill_slot i h ind rid ptr b"
    by (auto simp: loc_sync_select_ind_def split: prod.splits option.splits)
  from alloc_pool [OF assms(2) b(1)] have ok: "array_ok b" "i \<in> used_slots b" by auto
  then have "i < LOC_SYNC_REQ_BUFFER_SIZE" "slot_in_use a1 ! i" "\<not> ind_has_arrived (slots a1 ! i)"
    "\<not> ind_is_waiting (slots a1 ! i)"
    unfolding b(2) fill_slot_def by (simp_all add: used_slots_in array_ok_def)
  then have w: "wait_begin (Some i) a1
      = (None, a1\<lparr>slots := (slots a1)[i := (slots a1 ! i)\<lparr>ind_is_waiting := True\<rparr>]\<rparr>)"
    by (simp add: wait_begin_def)
  have "payloads a1 = payloads a"
    using b by (auto simp: fill_slot_def loc_alloc_slot_def split: option.splits)
  then show ?thesis
    using assms(1,3,4) w
    by (simp add: loc_sync_send_req_def wait_end_def wait_status_def loc_free_slot_def Let_def)
qed

theorem sync_spurious_success_witness:
  "\<exists>a'. loc_sync_send_req (\<lambda>x. (eLOC_CLIENT_SUCCESS, x)) (\<lambda>n x. (False, x)) 7 32 1000 32 5 demo_array
      = (eLOC_CLIENT_SUCCESS, a') \<and> payloads a' = payloads demo_array"
proof (rule sync_spurious_success [where ?a1.0 = "snd (loc_sync_select_ind 7 32 32 5 demo_array)"])
  have "fst (loc_sync_select_ind 7 32 32 5 demo_array) = Some 0" by code_simp
  then show "loc_sync_select_ind 7 32 32 5 demo_array = (Some 0, snd (loc_sync_select_ind 7 32 32 5 demo_array))"
    by (simp add: prod_eq_iff)
  show "array_ok demo_array" unfolding demo_array_def by (rule init_ok) simp
qed simp_all

text \<open>Delivery to the first slot that matches.\<close>

lemma process_loop_first:
  assumes "slot_matches h ind a i" and "recv_ind_payload_ptr (slots a ! i) \<noteq> 0" and "bs \<noteq> []"
    and "list_all (\<lambda>k. \<not> slot_matches h ind a k) xs"
  shows "process_loop h ind (Some bs) (xs @ i # ys) used a = (True, fst (deliver (Some bs) ind a i))"
  using assms(4)
proof (induction xs arbitrary: used)
  case Nil
  then show ?case using assms(1-3) by (simp add: deliver_def Let_def slot_matches_def)
next
  case (Cons k xs)
  then show ?case by (simp add: Let_def)
qed

lemma process_ind_first:
  assumes "array_ok a" and "i < LOC_SYNC_REQ_BUFFER_SIZE"
    and "slot_matches h ind a i" and "recv_ind_payload_ptr (slots a ! i) \<noteq> 0" and "bs \<noteq> []"
    and "list_all (\<lambda>k. \<not> slot_matches h ind a k) [0..<i]"
  shows "loc_sync_process_ind h ind (Some bs) a = fst (deliver (Some bs) ind a i)"
proof -
  have "[0..<LOC_SYNC_REQ_BUFFER_SIZE] = [0..<i] @ i # [Suc i..<LOC_SYNC_REQ_BUFFER_SIZE]"
    using assms(2) by (metis upt_add_eq_append upt_conv_Cons le_add_diff_inverse less_imp_le_nat zero_le)
  moreover have "in_use a" using assms(1-3) by (auto simp: array_ok_def used_slots_def slot_matches_def)
  ultimately show ?thesis
    using process_loop_first [OF assms(3-6), of "[Suc i..<LOC_SYNC_REQ_BUFFER_SIZE]" False]
    by (auto simp: loc_sync_process_ind_def)
qed

text \<open>Two requests of a client wait for the same indication. The first indication signals the first
  slot; if the second arrives before that thread has run, it goes to the first slot again: the
  second request's slot is unchanged, and its answer is lost.\<close>

theorem sync_second_indication_lost:
  assumes "array_ok a" and "i < j" and "j < LOC_SYNC_REQ_BUFFER_SIZE"
    and "slot_matches h ind a i" and "slot_matches h ind a j"
    and "ind_is_waiting (slots a ! i)" and "recv_ind_payload_ptr (slots a ! i) \<noteq> 0"
    and "bs \<noteq> []" and "bs' \<noteq> []" and "list_all (\<lambda>k. \<not> slot_matches h ind a k) [0..<i]"
  shows "slots (loc_sync_process_ind h ind (Some bs') (loc_sync_process_ind h ind (Some bs) a)) ! j = slots a ! j"
proof -
  define a1 where "a1 = loc_sync_process_ind h ind (Some bs) a"
  have i: "i < LOC_SYNC_REQ_BUFFER_SIZE" "i < length (slots a)" using assms(1-3) by (auto simp: array_ok_def)
  have a1: "a1 = fst (deliver (Some bs) ind a i)"
    unfolding a1_def by (rule process_ind_first [OF assms(1) i(1) assms(4,7,8,10)])
  have same: "slots a1 ! k = slots a ! k" if "k \<noteq> i" for k
    using that unfolding a1 by (simp add: deliver_def Let_def)
  have u: "slot_in_use a1 = slot_in_use a" unfolding a1 by (simp add: deliver_def Let_def)
  have si: "slots a1 ! i = (slots a ! i)\<lparr>recv_ind_id := ind, cond_signalled := True\<rparr>"
    using i assms(6) unfolding a1 by (simp add: deliver_def Let_def)
  have "slot_matches h ind a1 i" "recv_ind_payload_ptr (slots a1 ! i) \<noteq> 0"
    using assms(4,7) by (simp_all add: slot_matches_def si u)
  moreover have "list_all (\<lambda>k. \<not> slot_matches h ind a1 k) [0..<i]"
    using assms(10) by (auto simp: list_all_iff slot_matches_def u same)
  ultimately have "loc_sync_process_ind h ind (Some bs') a1 = fst (deliver (Some bs') ind a1 i)"
    using process_ind_slots(1) [OF assms(1)] i(1) assms(9) unfolding a1_def by (intro process_ind_first)
  then show ?thesis using assms(2) same [of j] unfolding a1_def [symmetric]
    by (simp add: deliver_def Let_def)
qed

lemma array_okI:
  assumes "length (slot_in_use a) = LOC_SYNC_REQ_BUFFER_SIZE" "length (slots a) = LOC_SYNC_REQ_BUFFER_SIZE"
    and "in_use a = list_ex (\<lambda>u. u) (slot_in_use a)"
    and "list_all (\<lambda>i. slot_in_use a ! i \<or> slots a ! i = free_slot_data) [0..<LOC_SYNC_REQ_BUFFER_SIZE]"
  shows "array_ok a"
  using assms list_ex_used [OF assms(1)]
  by (auto simp: array_ok_def used_slots_in list_all_iff)

definition demo_two :: loc_sync_array where
  "demo_two = (let a = snd (loc_sync_select_ind 7 32 32 6 (snd (loc_sync_select_ind 7 32 32 5 demo_array)))
     in snd (wait_begin (Some 1) (snd (wait_begin (Some 0) a))))"

theorem sync_second_indication_lost_witness:
  "slots (loc_sync_process_ind 7 32 (Some [2]) (loc_sync_process_ind 7 32 (Some [1]) demo_two)) ! 1
    = slots demo_two ! 1"
proof (rule sync_second_indication_lost [where i = 0])
  show "array_ok demo_two"
    by (rule array_okI) code_simp+
  show "slot_matches 7 32 demo_two 0" "slot_matches 7 32 demo_two 1" "ind_is_waiting (slots demo_two ! 0)"
    "recv_ind_payload_ptr (slots demo_two ! 0) \<noteq> 0" by code_simp+
qed (simp_all add: LOC_SYNC_REQ_BUFFER_SIZE_def)

end
