(* ===== verification/BaseList.thy ===== *)
theory BaseList
  imports Prelude "HOL-Library.Monad_Syntax" "HOL-Library.Multiset"
begin

text \<open>
  The singly linked list \<open>utils/base_util/list.h\<close>: nodes on the heap, a list object with the head and
  the number of nodes. An operation is an option: \<open>None\<close> when the code follows a pointer to no node
  (a fault), or never ends. \<open>new\<close> throws when memory is out, so the tests of its result for a null
  pointer are dead code; only the array of \<open>sort\<close> is allocated without exceptions.
\<close>

section \<open>Nodes and lists\<close>

type_synonym ptr = nat

record 'a node =
  m_pNext :: ptr
  m_value :: 'a

text \<open>No address from \<open>next_ptr\<close> on has been used; a deleted node's address is not used again.\<close>

record 'a heap =
  nodes :: "ptr \<rightharpoonup> 'a node"
  next_ptr :: ptr

record list_obj =
  m_pHead :: ptr
  m_size :: "64 word"

definition new_list :: list_obj where
  "new_list = \<lparr>m_pHead = 0, m_size = 0\<rparr>"

definition new_node :: "'a \<Rightarrow> 'a heap \<Rightarrow> ptr \<times> 'a heap" where
  "new_node v h = (next_ptr h, h\<lparr>nodes := (nodes h)(next_ptr h \<mapsto> \<lparr>m_pNext = 0, m_value = v\<rparr>),
     next_ptr := Suc (next_ptr h)\<rparr>)"

definition set_next :: "ptr \<Rightarrow> ptr \<Rightarrow> 'a heap \<Rightarrow> 'a heap option" where
  "set_next p q h = do {
     n \<leftarrow> nodes h p;
     Some (h\<lparr>nodes := (nodes h)(p \<mapsto> n\<lparr>m_pNext := q\<rparr>)\<rparr>)
   }"

definition delete_node :: "ptr \<Rightarrow> 'a heap \<Rightarrow> 'a heap option" where
  "delete_node p h = do {
     n \<leftarrow> nodes h p;
     Some (h\<lparr>nodes := (nodes h)(p := None)\<rparr>)
   }"

section \<open>Operations\<close>

partial_function (option) flush_nodes :: "ptr \<Rightarrow> 'a heap \<Rightarrow> 'a heap option" where
  "flush_nodes p h = (if p = 0 then Some h else do {
     n \<leftarrow> nodes h p;
     h' \<leftarrow> delete_node p h;
     flush_nodes (m_pNext n) h'
   })"

definition flush :: "'a heap \<Rightarrow> list_obj \<Rightarrow> ('a heap \<times> list_obj) option" where
  "flush h l = do {
     h' \<leftarrow> flush_nodes (m_pHead l) h;
     Some (h', l\<lparr>m_size := 0, m_pHead := 0\<rparr>)
   }"

definition add :: "'a \<Rightarrow> 'a heap \<Rightarrow> list_obj \<Rightarrow> (int \<times> 'a heap \<times> list_obj) option" where
  "add rhs h l =
     (case new_node rhs h of (pNewNode, h1) \<Rightarrow> do {
        h2 \<leftarrow> set_next pNewNode (m_pHead l) h1;
        Some (0, h2, l\<lparr>m_pHead := pNewNode, m_size := m_size l + 1\<rparr>)
      })"

text \<open>The last node of a chain, \<open>prev\<close> if there is none.\<close>

partial_function (option) last_node :: "'a heap \<Rightarrow> ptr \<Rightarrow> ptr \<Rightarrow> ptr option" where
  "last_node h prev p = (if p = 0 then Some prev else do {
     n \<leftarrow> nodes h p;
     last_node h p (m_pNext n)
   })"

definition add_tail :: "'a \<Rightarrow> 'a heap \<Rightarrow> list_obj \<Rightarrow> (int \<times> 'a heap \<times> list_obj) option" where
  "add_tail rhs h l =
     (case new_node rhs h of (pNewNode, h1) \<Rightarrow> do {
        prev \<leftarrow> last_node h1 0 (m_pHead l);
        (h2, l1) \<leftarrow> (if prev = 0 then Some (h1, l\<lparr>m_pHead := pNewNode\<rparr>)
          else do { h2 \<leftarrow> set_next prev pNewNode h1; Some (h2, l) });
        Some (0, h2, l1\<lparr>m_size := m_size l1 + 1\<rparr>)
      })"

partial_function (option) append_nodes :: "ptr \<Rightarrow> 'a heap \<Rightarrow> list_obj
    \<Rightarrow> (int \<times> 'a heap \<times> list_obj) option" where
  "append_nodes it h l = (if it = 0 then Some (0, h, l) else do {
     n \<leftarrow> nodes h it;
     (rc, h1, l1) \<leftarrow> add (m_value n) h l;
     if rc \<noteq> 0 then Some (2, h1, l1) else do {
       n1 \<leftarrow> nodes h1 it;
       append_nodes (m_pNext n1) h1 l1
     }
   })"

definition append_list :: "list_obj \<Rightarrow> 'a heap \<Rightarrow> list_obj \<Rightarrow> (int \<times> 'a heap \<times> list_obj) option" where
  "append_list rhs h l = append_nodes (m_pHead rhs) h l"

text \<open>The node a loop stops at, a null pointer if none, with the node before it.\<close>

partial_function (option) find_node :: "'a heap \<Rightarrow> (ptr \<Rightarrow> 'a node \<Rightarrow> bool) \<Rightarrow> ptr \<Rightarrow> ptr
    \<Rightarrow> (ptr \<times> ptr) option" where
  "find_node h stop prev p = (if p = 0 then Some (prev, 0) else do {
     n \<leftarrow> nodes h p;
     if stop p n then Some (prev, p) else find_node h stop p (m_pNext n)
   })"

text \<open>Takes node \<open>p\<close>, which follows \<open>prev\<close>, out and deletes it.\<close>

definition unlink :: "ptr \<Rightarrow> ptr \<Rightarrow> 'a heap \<Rightarrow> list_obj \<Rightarrow> ('a heap \<times> list_obj) option" where
  "unlink prev p h l = do {
     n \<leftarrow> nodes h p;
     (h1, l1) \<leftarrow> (if prev \<noteq> 0 then do { h1 \<leftarrow> set_next prev (m_pNext n) h; Some (h1, l) }
       else Some (h, l\<lparr>m_pHead := m_pNext n\<rparr>));
     h2 \<leftarrow> delete_node p h1;
     Some (h2, l1\<lparr>m_size := m_size l1 - 1\<rparr>)
   }"

text \<open>\<open>eq\<close> is the equality of the element type.\<close>

definition remove_value :: "('a \<Rightarrow> 'a \<Rightarrow> bool) \<Rightarrow> 'a \<Rightarrow> bool \<Rightarrow> 'a heap \<Rightarrow> list_obj
    \<Rightarrow> (int \<times> 'a heap \<times> list_obj) option" where
  "remove_value eq rhs ok_if_not_found h l = do {
     (prev, p) \<leftarrow> find_node h (\<lambda>p n. eq rhs (m_value n)) 0 (m_pHead l);
     if p = 0 then Some (if ok_if_not_found then 0 else 1, h, l)
     else do { (h1, l1) \<leftarrow> unlink prev p h l; Some (0, h1, l1) }
   }"

text \<open>The result is the iterator to the node after the erased one.\<close>

definition erase :: "ptr \<Rightarrow> 'a heap \<Rightarrow> list_obj \<Rightarrow> (ptr \<times> 'a heap \<times> list_obj) option" where
  "erase target h l = do {
     (prev, p) \<leftarrow> find_node h (\<lambda>p n. target = p) 0 (m_pHead l);
     if p = 0 then Some (0, h, l)
     else do {
       n \<leftarrow> nodes h p;
       (h1, l1) \<leftarrow> unlink prev p h l;
       Some (m_pNext n, h1, l1)
     }
   }"

section \<open>Sorting\<close>

text \<open>The array of at most \<open>k\<close> node pointers, and the pointers linked in the order of an array.\<close>

fun collect :: "'a heap \<Rightarrow> ptr \<Rightarrow> nat \<Rightarrow> ptr list option" where
  "collect h p 0 = Some []"
| "collect h p (Suc k) = (if p = 0 then Some [] else do {
     n \<leftarrow> nodes h p;
     ps \<leftarrow> collect h (m_pNext n) k;
     Some (p # ps)
   })"

fun relink :: "ptr list \<Rightarrow> 'a heap \<Rightarrow> 'a heap option" where
  "relink [] h = Some h"
| "relink [p] h = set_next p 0 h"
| "relink (p # q # ps) h = do { h1 \<leftarrow> set_next p q h; relink (q # ps) h1 }"

text \<open>\<open>list_comparator\<close> is a function of the element type, \<open>qs\<close> the C library's \<open>qsort\<close>; \<open>memory\<close> says
  whether the array can be allocated.\<close>

definition node_comparator :: "('a \<Rightarrow> 'a \<Rightarrow> int) \<Rightarrow> 'a heap \<Rightarrow> ptr \<Rightarrow> ptr \<Rightarrow> int" where
  "node_comparator cmp h p q = cmp (m_value (the (nodes h p))) (m_value (the (nodes h q)))"

definition sort_list :: "((ptr \<Rightarrow> ptr \<Rightarrow> int) \<Rightarrow> ptr list \<Rightarrow> ptr list) \<Rightarrow> ('a \<Rightarrow> 'a \<Rightarrow> int) \<Rightarrow> bool
    \<Rightarrow> bool \<Rightarrow> 'a heap \<Rightarrow> list_obj \<Rightarrow> (int \<times> 'a heap \<times> list_obj) option" where
  "sort_list qs list_comparator memory reverse h l =
     (if m_size l = 0 then Some (0, h, l)
      else if \<not> memory then Some (3, h, l)
      else do {
        ps \<leftarrow> collect h (m_pHead l) (unat (m_size l));
        if length ps \<noteq> unat (m_size l) then Some (4, h, l)
        else
          let cmp = node_comparator list_comparator h;
              arr = qs (if reverse then (\<lambda>p q. cmp q p) else cmp) ps in
          do { h1 \<leftarrow> relink arr h; Some (0, h1, l\<lparr>m_pHead := hd arr\<rparr>) }
      })"

section \<open>Chains of nodes\<close>

text \<open>\<open>path h p ps r\<close>: following the next pointers from \<open>p\<close> visits the nodes \<open>ps\<close> and comes to \<open>r\<close>.\<close>

fun path :: "'a heap \<Rightarrow> ptr \<Rightarrow> ptr list \<Rightarrow> ptr \<Rightarrow> bool" where
  "path h p [] r = (p = r)"
| "path h p (q # qs) r = (q = p \<and> p \<noteq> 0 \<and>
     (case nodes h p of None \<Rightarrow> False | Some n \<Rightarrow> path h (m_pNext n) qs r))"

definition vals :: "'a heap \<Rightarrow> ptr list \<Rightarrow> 'a list" where
  "vals h ps = map (\<lambda>p. m_value (the (nodes h p))) ps"

text \<open>The list object holds the values \<open>xs\<close>, in the nodes \<open>ps\<close>.\<close>

definition list_at :: "'a heap \<Rightarrow> list_obj \<Rightarrow> ptr list \<Rightarrow> 'a list \<Rightarrow> bool" where
  "list_at h l ps xs \<longleftrightarrow> path h (m_pHead l) ps 0 \<and> vals h ps = xs \<and> m_size l = of_nat (length ps)"

definition heap_ok :: "'a heap \<Rightarrow> bool" where
  "heap_ok h \<longleftrightarrow> 0 < next_ptr h \<and> (\<forall>p. next_ptr h \<le> p \<longrightarrow> nodes h p = None)"

text \<open>Nodes outside \<open>S\<close> are as before.\<close>

definition frame :: "ptr set \<Rightarrow> 'a heap \<Rightarrow> 'a heap \<Rightarrow> bool" where
  "frame S h h' \<longleftrightarrow> (\<forall>q. q \<notin> S \<longrightarrow> nodes h' q = nodes h q)"

lemma frame_refl [simp]: "frame S h h"
  by (simp add: frame_def)

lemma frame_trans: "frame S h h' \<Longrightarrow> frame S h' h'' \<Longrightarrow> frame S h h''"
  by (simp add: frame_def)

lemma frame_mono: "frame S h h' \<Longrightarrow> S \<subseteq> T \<Longrightarrow> frame T h h'"
  by (auto simp: frame_def)

lemma path_append [simp]: "path h p (as @ bs) r \<longleftrightarrow> (\<exists>q. path h p as q \<and> path h q bs r)"
  by (induction as arbitrary: p) (auto split: option.splits)

lemma path_cong: "(\<And>q. q \<in> set ps \<Longrightarrow> nodes h' q = nodes h q) \<Longrightarrow> path h' p ps r = path h p ps r"
  by (induction ps arbitrary: p) (auto split: option.splits)

lemma vals_cong: "(\<And>q. q \<in> set ps \<Longrightarrow> nodes h' q = nodes h q) \<Longrightarrow> vals h' ps = vals h ps"
  by (simp add: vals_def)

lemma vals_simps [simp]:
  "vals h [] = []" "vals h (p # ps) = m_value (the (nodes h p)) # vals h ps"
  "vals h (ps @ qs) = vals h ps @ vals h qs" "length (vals h ps) = length ps"
  by (simp_all add: vals_def)

lemma path_nodes: "path h p ps r \<Longrightarrow> q \<in> set ps \<Longrightarrow> q \<noteq> 0 \<and> (\<exists>n. nodes h q = Some n)"
  by (induction ps arbitrary: p) (auto split: option.splits)

lemma path_unique: "path h p ps 0 \<Longrightarrow> path h p qs 0 \<Longrightarrow> ps = qs"
proof (induction ps arbitrary: p qs)
  case Nil
  then show ?case by (cases qs) auto
next
  case (Cons a ps)
  then show ?case by (cases qs) (auto split: option.splits)
qed

lemma path_distinct: "path h p ps 0 \<Longrightarrow> distinct ps"
proof (induction ps arbitrary: p)
  case (Cons a ps)
  then obtain n where n: "a = p" "nodes h p = Some n" "path h (m_pNext n) ps 0" "distinct ps"
    by (auto split: option.splits)
  have "p \<notin> set ps"
  proof
    assume "p \<in> set ps"
    then obtain as bs where ps: "ps = as @ p # bs" by (auto simp: in_set_conv_decomp)
    with n(3) have "path h p (p # bs) 0" by auto
    from path_unique [OF this Cons.prems] show False by (simp add: ps)
  qed
  with n show ?case by simp
qed simp

lemma list_at_frame:
  assumes "list_at h l ps xs" and "frame S h h'" and "set ps \<inter> S = {}"
  shows "list_at h' l ps xs"
proof -
  have same: "nodes h' q = nodes h q" if "q \<in> set ps" for q
    using that assms(2,3) by (auto simp: frame_def)
  show ?thesis
    using assms(1) path_cong [where ps = ps, OF same] vals_cong [where ps = ps, OF same]
    unfolding list_at_def by simp
qed

lemma list_atD:
  assumes "list_at h l ps xs"
  shows "distinct ps" and "0 \<notin> set ps" and "length ps = length xs"
    and "q \<in> set ps \<Longrightarrow> \<exists>n. nodes h q = Some n"
proof -
  have p: "path h (m_pHead l) ps 0" and v: "vals h ps = xs" using assms by (simp_all add: list_at_def)
  show "distinct ps" by (rule path_distinct [OF p])
  show "0 \<notin> set ps" and "q \<in> set ps \<Longrightarrow> \<exists>n. nodes h q = Some n" using path_nodes [OF p] by blast+
  show "length ps = length xs" using v by (simp flip: v)
qed

lemma list_at_fresh: "heap_ok h \<Longrightarrow> list_at h l ps xs \<Longrightarrow> next_ptr h \<notin> set ps"
  using list_atD(4) by (fastforce simp: heap_ok_def)

lemma new_list_at: "list_at h new_list [] []"
  by (simp add: list_at_def new_list_def)

section \<open>The primitives\<close>

lemma new_node_ok:
  assumes "heap_ok h"
  shows "\<exists>h'. new_node v h = (next_ptr h, h') \<and> heap_ok h' \<and> next_ptr h \<noteq> 0 \<and> frame {next_ptr h} h h' \<and>
    nodes h' (next_ptr h) = Some \<lparr>m_pNext = 0, m_value = v\<rparr>"
  using assms by (auto simp: new_node_def heap_ok_def frame_def)

lemma set_next_ok:
  "nodes h p = Some n \<Longrightarrow> set_next p q h = Some (h\<lparr>nodes := (nodes h)(p \<mapsto> n\<lparr>m_pNext := q\<rparr>)\<rparr>)"
  by (simp add: set_next_def)

lemma delete_node_ok:
  "nodes h p = Some n \<Longrightarrow> delete_node p h = Some (h\<lparr>nodes := (nodes h)(p := None)\<rparr>)"
  by (simp add: delete_node_def)

lemma set_next_heap_ok: "heap_ok h \<Longrightarrow> set_next p q h = Some h' \<Longrightarrow> heap_ok h'"
  by (auto simp: set_next_def heap_ok_def bind_eq_Some_conv)

lemma delete_node_heap_ok: "heap_ok h \<Longrightarrow> delete_node p h = Some h' \<Longrightarrow> heap_ok h'"
  by (auto simp: delete_node_def heap_ok_def bind_eq_Some_conv)


section \<open>Adding, walking and flushing\<close>

lemma add_ok:
  assumes "heap_ok h" and "list_at h l ps xs"
  shows "\<exists>h' l'. add v h l = Some (0, h', l') \<and> heap_ok h' \<and> list_at h' l' (next_ptr h # ps) (v # xs) \<and>
    frame {next_ptr h} h h'"
proof -
  define p where "p = next_ptr h"
  obtain h1 where n: "new_node v h = (p, h1)" and ok: "heap_ok h1" "p \<noteq> 0" "frame {p} h h1"
    "nodes h1 p = Some \<lparr>m_pNext = 0, m_value = v\<rparr>"
    using new_node_ok [OF assms(1), of v] unfolding p_def by blast
  let ?h2 = "h1\<lparr>nodes := (nodes h1)(p \<mapsto> \<lparr>m_pNext = m_pHead l, m_value = v\<rparr>)\<rparr>"
  have s: "set_next p (m_pHead l) h1 = Some ?h2" using ok by (simp add: set_next_def)
  have fr: "frame {p} h ?h2" using ok by (simp add: frame_def)
  have "p \<notin> set ps" using list_at_fresh [OF assms] by (simp add: p_def)
  then have "list_at ?h2 l ps xs" using list_at_frame [OF assms(2) fr] by simp
  then have "list_at ?h2 (l\<lparr>m_pHead := p, m_size := m_size l + 1\<rparr>) (p # ps) (v # xs)"
    using ok by (simp add: list_at_def)
  moreover have "heap_ok ?h2" using ok s set_next_heap_ok by blast
  ultimately show ?thesis using n s fr by (auto simp: add_def simp flip: p_def)
qed

lemma last_node_path:
  "path h p ps 0 \<Longrightarrow> last_node h prev p = Some (last (prev # ps))"
proof (induction ps arbitrary: p prev)
  case Nil
  then show ?case by (simp add: last_node.simps)
next
  case (Cons a ps)
  then obtain n where "a = p" "p \<noteq> 0" "nodes h p = Some n" "path h (m_pNext n) ps 0"
    by (auto split: option.splits)
  then show ?case using Cons.IH [of "m_pNext n" p] by (simp add: last_node.simps [of h prev p])
qed

text \<open>The end of a path moved: its last node now points to \<open>r'\<close>.\<close>

lemma path_relast:
  assumes "path h p (as @ [q]) r" and "distinct (as @ [q])" and "nodes h q = Some n"
  shows "path (h\<lparr>nodes := (nodes h)(q \<mapsto> n\<lparr>m_pNext := r'\<rparr>)\<rparr>) p (as @ [q]) r'"
proof -
  let ?h = "h\<lparr>nodes := (nodes h)(q \<mapsto> n\<lparr>m_pNext := r'\<rparr>)\<rparr>"
  from assms(1) have q: "path h p as q" "q \<noteq> 0" by (auto split: option.splits)
  have "path ?h p as q" using q(1) assms(2) by (subst path_cong [where h = h]) auto
  then show ?thesis using q by auto
qed

lemma vals_set_next:
  "nodes h q = Some n \<Longrightarrow> vals (h\<lparr>nodes := (nodes h)(q \<mapsto> n\<lparr>m_pNext := r\<rparr>)\<rparr>) ps = vals h ps"
  by (simp add: vals_def)

lemma add_tail_ok:
  assumes "heap_ok h" and "list_at h l ps xs"
  shows "\<exists>h' l'. add_tail v h l = Some (0, h', l') \<and> heap_ok h' \<and>
    list_at h' l' (ps @ [next_ptr h]) (xs @ [v]) \<and> frame (insert (next_ptr h) (set ps)) h h'"
proof -
  define p where "p = next_ptr h"
  obtain h1 where n: "new_node v h = (p, h1)" and ok: "heap_ok h1" "p \<noteq> 0" "frame {p} h h1"
    "nodes h1 p = Some \<lparr>m_pNext = 0, m_value = v\<rparr>"
    using new_node_ok [OF assms(1), of v] unfolding p_def by blast
  have fresh: "p \<notin> set ps" using list_at_fresh [OF assms] by (simp add: p_def)
  note fr = ok(3)
  have l1: "list_at h1 l ps xs" using list_at_frame [OF assms(2) fr] fresh by simp
  then have walk: "last_node h1 0 (m_pHead l) = Some (last (0 # ps))"
    unfolding list_at_def by (blast intro: last_node_path)
  show ?thesis
  proof (cases ps rule: rev_cases)
    case Nil
    then have "add_tail v h l = Some (0, h1, l\<lparr>m_pHead := p, m_size := m_size l + 1\<rparr>)"
      using n walk by (simp add: add_tail_def)
    moreover have "list_at h1 (l\<lparr>m_pHead := p, m_size := m_size l + 1\<rparr>) [p] [v]"
      using l1 ok Nil by (simp add: list_at_def)
    ultimately show ?thesis using ok Nil l1 by (auto simp: list_at_def simp flip: p_def)
  next
    case (snoc qs q)
    obtain m where m: "nodes h1 q = Some m" using list_atD(4) [OF l1, of q] snoc by auto
    let ?h2 = "h1\<lparr>nodes := (nodes h1)(q \<mapsto> m\<lparr>m_pNext := p\<rparr>)\<rparr>"
    have q: "q \<noteq> 0" "q \<noteq> p" "distinct ps" using list_atD(1,2) [OF l1] fresh snoc by auto
    have "add_tail v h l = Some (0, ?h2, l\<lparr>m_size := m_size l + 1\<rparr>)"
      using n walk snoc q by (simp add: add_tail_def set_next_ok [OF m])
    moreover have "path ?h2 (m_pHead l) ps p"
      using path_relast [of h1 "m_pHead l" qs q 0 m p] l1 q m snoc by (simp only: list_at_def)
    then have "list_at ?h2 (l\<lparr>m_size := m_size l + 1\<rparr>) (ps @ [p]) (xs @ [v])"
      using l1 ok q vals_set_next [OF m, of p ps] by (simp add: list_at_def)
    moreover have "heap_ok ?h2" using ok set_next_ok [OF m] set_next_heap_ok by blast
    moreover have "frame (insert p (set ps)) h ?h2" using fr snoc by (simp add: frame_def)
    ultimately show ?thesis by (auto simp flip: p_def)
  qed
qed

lemma flush_nodes_ok:
  "path h p ps 0 \<Longrightarrow> \<exists>h'. flush_nodes p h = Some h' \<and> frame (set ps) h h' \<and>
     (\<forall>q \<in> set ps. nodes h' q = None) \<and> next_ptr h' = next_ptr h"
proof (induction ps arbitrary: p h)
  case Nil
  then show ?case by (simp add: flush_nodes.simps)
next
  case (Cons a ps)
  from path_distinct [OF Cons.prems] have d: "a \<notin> set ps" by simp
  from Cons.prems obtain n where n: "a = p" "p \<noteq> 0" "nodes h p = Some n" "path h (m_pNext n) ps 0"
    by (auto split: option.splits)
  let ?h = "h\<lparr>nodes := (nodes h)(p := None)\<rparr>"
  have "path ?h (m_pNext n) ps 0" using n d by (subst path_cong [where h = h]) auto
  from Cons.IH [OF this] obtain h' where h': "flush_nodes (m_pNext n) ?h = Some h'" "frame (set ps) ?h h'"
    "\<forall>q \<in> set ps. nodes h' q = None" "next_ptr h' = next_ptr h" by auto
  moreover have "nodes h' p = None" using h'(2) n d by (simp add: frame_def)
  ultimately show ?case
    using n by (auto simp: flush_nodes.simps [of p h] delete_node_def frame_def)
qed

lemma flush_ok:
  assumes "list_at h l ps xs"
  shows "\<exists>h' l'. flush h l = Some (h', l') \<and> list_at h' l' [] [] \<and> frame (set ps) h h' \<and>
    (\<forall>q \<in> set ps. nodes h' q = None)"
  using flush_nodes_ok [of h "m_pHead l" ps] assms by (auto simp: flush_def list_at_def)

text \<open>Appending puts the values in front of the list one by one: they end up in reverse order. The
  appended list may be any other list on the heap.\<close>

lemma append_nodes_ok:
  assumes "heap_ok h" and "list_at h l ps xs" and "path h it qs 0" and "set ps \<inter> set qs = {}"
  shows "\<exists>h' l' rs. append_nodes it h l = Some (0, h', l') \<and> heap_ok h' \<and>
    list_at h' l' (rs @ ps) (rev (vals h qs) @ xs) \<and> (\<forall>q \<in> set rs. next_ptr h \<le> q) \<and>
    frame {q. next_ptr h \<le> q} h h'"
  using assms
proof (induction qs arbitrary: h l ps xs it)
  case Nil
  then show ?case by (intro exI [of _ h] exI [of _ l] exI [of _ "[]"]) (simp add: append_nodes.simps)
next
  case (Cons a qs)
  then obtain n where n: "a = it" "it \<noteq> 0" "nodes h it = Some n" "path h (m_pNext n) qs 0"
    by (auto split: option.splits)
  obtain h1 l1 where a: "add (m_value n) h l = Some (0, h1, l1)" "heap_ok h1"
    "list_at h1 l1 (next_ptr h # ps) (m_value n # xs)" "frame {next_ptr h} h h1"
    using add_ok [OF Cons.prems(1,2)] by blast
  have fresh: "next_ptr h \<notin> set (a # qs)"
  proof
    assume "next_ptr h \<in> set (a # qs)"
    then obtain m where "nodes h (next_ptr h) = Some m" using path_nodes [OF Cons.prems(3)] by blast
    then show False using Cons.prems(1) by (simp add: heap_ok_def)
  qed
  have same: "nodes h1 q = nodes h q" if "q \<in> set (a # qs)" for q
  proof -
    have "q \<noteq> next_ptr h" using that fresh by blast
    then show ?thesis using a(4) by (simp add: frame_def)
  qed
  have top: "next_ptr h1 = Suc (next_ptr h)" using a(1) by (auto simp: add_def new_node_def set_next_def)
  have "path h1 (m_pNext n) qs 0" using n(4) same by (subst path_cong [where h = h]) auto
  moreover have "set (next_ptr h # ps) \<inter> set qs = {}" using Cons.prems(4) fresh by auto
  ultimately obtain h' l' rs where r: "append_nodes (m_pNext n) h1 l1 = Some (0, h', l')" "heap_ok h'"
    "list_at h' l' (rs @ next_ptr h # ps) (rev (vals h1 qs) @ m_value n # xs)"
    "\<forall>q \<in> set rs. next_ptr h1 \<le> q" "frame {q. next_ptr h1 \<le> q} h1 h'"
    using Cons.IH [OF a(2,3)] by blast
  have "append_nodes it h l = Some (0, h', l')"
    using n a(1) r(1) same [of it] by (simp add: append_nodes.simps [of it h l])
  moreover have "vals h1 qs = vals h qs" using same by (intro vals_cong) simp
  moreover have "frame {q. next_ptr h \<le> q} h h'" using a(4) r(5) top by (simp add: frame_def)
  moreover have "\<forall>q \<in> set (rs @ [next_ptr h]). next_ptr h \<le> q" using r(4) top by auto
  ultimately show ?case using r(2,3) n
    by (intro exI [of _ h'] exI [of _ l'] exI [of _ "rs @ [next_ptr h]"]) simp
qed

section \<open>Finding and removing\<close>

lemma find_node_none:
  "path h p ps 0 \<Longrightarrow> (\<And>q. q \<in> set ps \<Longrightarrow> \<not> stop q (the (nodes h q))) \<Longrightarrow>
   find_node h stop prev p = Some (last (prev # ps), 0)"
proof (induction ps arbitrary: p prev)
  case Nil
  then show ?case by (simp add: find_node.simps)
next
  case (Cons a ps)
  then obtain n where "a = p" "p \<noteq> 0" "nodes h p = Some n" "path h (m_pNext n) ps 0"
    by (auto split: option.splits)
  then show ?case using Cons.IH [of "m_pNext n" p] Cons.prems(2) Cons.prems(2) [of p]
    by (simp add: find_node.simps [of h stop prev p])
qed

lemma find_node_first:
  "path h p (as @ q # bs) 0 \<Longrightarrow> (\<And>r. r \<in> set as \<Longrightarrow> \<not> stop r (the (nodes h r))) \<Longrightarrow>
   stop q (the (nodes h q)) \<Longrightarrow> find_node h stop prev p = Some (last (prev # as), q)"
proof (induction as arbitrary: p prev)
  case Nil
  then show ?case by (auto simp: find_node.simps [of h stop prev p] split: option.splits)
next
  case (Cons a as)
  then obtain n where "a = p" "p \<noteq> 0" "nodes h p = Some n" "path h (m_pNext n) (as @ q # bs) 0"
    by (auto split: option.splits)
  then show ?case using Cons.IH [of "m_pNext n" p] Cons.prems(2,3) Cons.prems(2) [of p]
    by (simp add: find_node.simps [of h stop prev p])
qed

lemma unlink_ok:
  assumes "heap_ok h" and "list_at h l (as @ q # bs) (xs @ y # ys)" and "length as = length xs"
    and "nodes h q = Some n"
  shows "\<exists>h' l'. unlink (last (0 # as)) q h l = Some (h', l') \<and> heap_ok h' \<and>
    list_at h' l' (as @ bs) (xs @ ys) \<and> frame (insert q (set as)) h h' \<and> nodes h' q = None"
proof -
  note d = list_atD [OF assms(2)]
  from assms(2) have p: "path h (m_pHead l) as q" "q \<noteq> 0" "path h (m_pNext n) bs 0"
    and v: "vals h as = xs" "vals h bs = ys"
    and sz: "m_size l = of_nat (length as + length bs) + 1"
    using assms(3,4) by (auto simp: list_at_def)
  show ?thesis
  proof (cases as rule: rev_cases)
    case Nil
    let ?h = "h\<lparr>nodes := (nodes h)(q := None)\<rparr>"
    have "unlink (last (0 # as)) q h l = Some (?h, l\<lparr>m_pHead := m_pNext n, m_size := m_size l - 1\<rparr>)"
      using Nil assms(4) by (simp add: unlink_def delete_node_def)
    moreover have "path ?h (m_pNext n) bs 0" and "vals ?h bs = vals h bs"
      using p(3) d(1) by (subst path_cong [where h = h], auto intro: vals_cong)
    moreover have "heap_ok ?h" using assms(1) by (simp add: heap_ok_def)
    ultimately show ?thesis using Nil v sz assms(3) by (simp add: list_at_def frame_def)
  next
    case (snoc cs c)
    obtain m where m: "nodes h c = Some m" using d(4) [of c] snoc by auto
    have c: "c \<noteq> 0" "c \<noteq> q" "c \<notin> set bs" "c \<notin> set cs" using d(1,2) snoc by auto
    let ?h1 = "h\<lparr>nodes := (nodes h)(c \<mapsto> m\<lparr>m_pNext := m_pNext n\<rparr>)\<rparr>"
    let ?h = "?h1\<lparr>nodes := (nodes ?h1)(q := None)\<rparr>"
    have "unlink (last (0 # as)) q h l = Some (?h, l\<lparr>m_size := m_size l - 1\<rparr>)"
      using snoc c assms(4) by (simp add: unlink_def delete_node_def set_next_ok [OF m])
    moreover have "path ?h1 (m_pHead l) as (m_pNext n)"
      using path_relast [of h "m_pHead l" cs c q m] p(1) m d(1) snoc by simp
    then have "path ?h (m_pHead l) as (m_pNext n)"
      using d(1) by (subst path_cong [where h = ?h1]) auto
    moreover have "path ?h (m_pNext n) bs 0"
      using p(3) d(1) c by (subst path_cong [where h = h]) auto
    moreover have "vals ?h ps = vals ?h1 ps" if "q \<notin> set ps" for ps
      using that by (intro vals_cong) auto
    then have "vals ?h as = xs" "vals ?h bs = ys" using d(1) v vals_set_next [OF m] by auto
    moreover have "heap_ok ?h" using assms(1) m by (auto simp: heap_ok_def)
    ultimately show ?thesis using snoc sz by (auto simp: list_at_def frame_def)
  qed
qed


text \<open>The list without the first element that satisfies \<open>P\<close>.\<close>

fun remove_first :: "('a \<Rightarrow> bool) \<Rightarrow> 'a list \<Rightarrow> 'a list" where
  "remove_first P [] = []"
| "remove_first P (x # xs) = (if P x then xs else x # remove_first P xs)"

lemma remove_first_split:
  "remove_first P xs = (if \<exists>x \<in> set xs. P x
     then takeWhile (\<lambda>x. \<not> P x) xs @ tl (dropWhile (\<lambda>x. \<not> P x) xs) else xs)"
  by (induction xs) auto

lemma split_at_first:
  assumes "\<exists>x \<in> set xs. P x"
  obtains ys x zs where "xs = ys @ x # zs" "P x" "\<forall>y \<in> set ys. \<not> P y" "remove_first P xs = ys @ zs"
proof -
  let ?ys = "takeWhile (\<lambda>x. \<not> P x) xs" and ?d = "dropWhile (\<lambda>x. \<not> P x) xs"
  have ne: "?d \<noteq> []" using assms by (simp add: dropWhile_eq_Nil_conv)
  then have "xs = ?ys @ hd ?d # tl ?d" by simp
  moreover have "P (hd ?d)" using hd_dropWhile [OF ne] by simp
  moreover have "\<forall>y \<in> set ?ys. \<not> P y" by (auto dest: set_takeWhileD)
  moreover have "remove_first P xs = ?ys @ tl ?d" using assms by (simp add: remove_first_split)
  ultimately show ?thesis by (rule that)
qed

text \<open>Splitting the nodes the way the values are split.\<close>

lemma vals_split:
  assumes "vals h ps = ys @ x # zs"
  obtains as q bs where "ps = as @ q # bs" "vals h as = ys" "m_value (the (nodes h q)) = x" "vals h bs = zs"
proof -
  from assms obtain as ps' where a: "ps = as @ ps'" "vals h as = ys" "vals h ps' = x # zs"
    unfolding vals_def by (auto simp: map_eq_append_conv)
  from a(3) obtain q bs where "ps' = q # bs" "m_value (the (nodes h q)) = x" "vals h bs = zs"
    by (cases ps') auto
  with a that show ?thesis by simp
qed

lemma erase_ok:
  assumes "heap_ok h" and "list_at h l (as @ q # bs) (xs @ y # ys)" and "length as = length xs"
  shows "\<exists>h' l'. erase q h l = Some (if bs = [] then 0 else hd bs, h', l') \<and> heap_ok h' \<and>
    list_at h' l' (as @ bs) (xs @ ys) \<and> frame (insert q (set as)) h h'"
proof -
  obtain n where n: "nodes h q = Some n" using list_atD(4) [OF assms(2), of q] by auto
  have p: "path h (m_pHead l) (as @ q # bs) 0" using assms(2) by (simp add: list_at_def)
  have "r \<noteq> q" if "r \<in> set as" for r using list_atD(1) [OF assms(2)] that by auto
  from find_node_first [OF p, of "\<lambda>p n. q = p" 0] this
  have f: "find_node h (\<lambda>p n. q = p) 0 (m_pHead l) = Some (last (0 # as), q)" by blast
  obtain h' l' where u: "unlink (last (0 # as)) q h l = Some (h', l')" "heap_ok h'"
    "list_at h' l' (as @ bs) (xs @ ys)" "frame (insert q (set as)) h h'"
    using unlink_ok [OF assms n] by blast
  have "m_pNext n = (if bs = [] then 0 else hd bs)"
    using p n by (cases bs) auto
  moreover have "q \<noteq> 0" using list_atD(2) [OF assms(2)] by auto
  ultimately show ?thesis using f u n by (simp add: erase_def)
qed


section \<open>Sorting\<close>

text \<open>What the C standard promises of \<open>qsort\<close>: a permutation, in order if the comparator is one of a
  total preorder. The order of equal elements is not specified.\<close>

definition comparator_ok :: "('a \<Rightarrow> 'a \<Rightarrow> int) \<Rightarrow> bool" where
  "comparator_ok c \<longleftrightarrow> (\<forall>x y. c x y \<le> 0 \<or> c y x \<le> 0) \<and>
     (\<forall>x y z. c x y \<le> 0 \<longrightarrow> c y z \<le> 0 \<longrightarrow> c x z \<le> 0)"

definition qsort_ok :: "((ptr \<Rightarrow> ptr \<Rightarrow> int) \<Rightarrow> ptr list \<Rightarrow> ptr list) \<Rightarrow> bool" where
  "qsort_ok qs \<longleftrightarrow> (\<forall>c ps. mset (qs c ps) = mset ps \<and>
     (comparator_ok c \<longrightarrow> sorted_wrt (\<lambda>p q. c p q \<le> 0) (qs c ps)))"

lemma comparator_ok_node: "comparator_ok c \<Longrightarrow> comparator_ok (node_comparator c h)"
  unfolding comparator_ok_def node_comparator_def by blast

lemma comparator_ok_flip: "comparator_ok c \<Longrightarrow> comparator_ok (\<lambda>x y. c y x)"
  unfolding comparator_ok_def by blast

lemma collect_path: "path h p ps 0 \<Longrightarrow> collect h p (length ps) = Some ps"
  by (induction ps arbitrary: p) (auto split: option.splits)

text \<open>Linking changes next pointers only.\<close>

definition same_values :: "'a heap \<Rightarrow> 'a heap \<Rightarrow> bool" where
  "same_values h h' \<longleftrightarrow> (\<forall>q. map_option m_value (nodes h' q) = map_option m_value (nodes h q))"

lemma same_values_vals:
  assumes "same_values h h'" and "\<And>q. q \<in> set ps \<Longrightarrow> nodes h q \<noteq> None"
  shows "vals h' ps = vals h ps"
proof -
  have "m_value (the (nodes h' q)) = m_value (the (nodes h q))" if "q \<in> set ps" for q
  proof -
    from assms(2) [OF that] obtain n where n: "nodes h q = Some n" by blast
    have "map_option m_value (nodes h' q) = Some (m_value n)" using assms(1) n by (simp add: same_values_def)
    then show ?thesis using n by auto
  qed
  then show ?thesis by (simp add: vals_def)
qed

lemma set_next_values:
  assumes "nodes h p = Some n" and "set_next p q h = Some h'"
  shows "same_values h h'" and "frame {p} h h'" and "nodes h' p = Some (n\<lparr>m_pNext := q\<rparr>)"
  using assms by (auto simp: set_next_def same_values_def frame_def)

lemma relink_ok:
  assumes "distinct (p # ps)" and "\<And>q. q \<in> set (p # ps) \<Longrightarrow> q \<noteq> 0 \<and> nodes h q \<noteq> None" and "heap_ok h"
  shows "\<exists>h'. relink (p # ps) h = Some h' \<and> path h' p (p # ps) 0 \<and> same_values h h' \<and>
    frame (set (p # ps)) h h' \<and> heap_ok h'"
  using assms
proof (induction ps arbitrary: p h)
  case Nil
  then obtain n where n: "nodes h p = Some n" "p \<noteq> 0" by auto
  obtain h' where h': "set_next p 0 h = Some h'" using set_next_ok [OF n(1)] by blast
  note v = set_next_values [OF n(1) h']
  have "path h' p [p] 0" using n v(3) by simp
  then show ?case using h' v(1,2) set_next_heap_ok [OF Nil.prems(3) h'] by auto
next
  case (Cons q ps)
  from Cons.prems(2) [of p] obtain n where n: "nodes h p = Some n" "p \<noteq> 0" by auto
  obtain h1 where h1: "set_next p q h = Some h1" using set_next_ok [OF n(1)] by blast
  note v = set_next_values [OF n(1) h1]
  have "r \<noteq> 0 \<and> nodes h1 r \<noteq> None" if "r \<in> set (q # ps)" for r
    using Cons.prems(2) [of r] that v(1) unfolding same_values_def
    by (metis list.set_intros(2) map_option_is_None)
  then obtain h' where h': "relink (q # ps) h1 = Some h'" "path h' q (q # ps) 0" "same_values h1 h'"
    "frame (set (q # ps)) h1 h'" "heap_ok h'"
    using Cons.IH [of q h1] Cons.prems(1) set_next_heap_ok [OF Cons.prems(3) h1] by auto
  have "nodes h' p = Some (n\<lparr>m_pNext := q\<rparr>)"
    using h'(4) v(3) Cons.prems(1) by (simp add: frame_def)
  then have "path h' p (p # q # ps) 0" using n h'(2) by simp
  moreover have "same_values h h'" using v(1) h'(3) by (simp add: same_values_def)
  moreover have "frame (set (p # q # ps)) h h'" using v(2) h'(4) by (simp add: frame_def)
  ultimately show ?case using h1 h'(1,5) by simp
qed

text \<open>C24: sorting a list ends, without a fault, with the same nodes relinked: the values are a permutation in
  the comparator's order, or the reverse order, and nothing else on the heap has changed.\<close>

theorem sort_sorts:
  assumes "heap_ok h" and "list_at h l ps xs" and "length xs < 2 ^ 64"
    and "qsort_ok qs" and "comparator_ok cmp"
  shows "\<exists>h' l' ps' ys. sort_list qs cmp True reverse h l = Some (0, h', l') \<and> heap_ok h' \<and>
    list_at h' l' ps' ys \<and> mset ps' = mset ps \<and> mset ys = mset xs \<and>
    sorted_wrt (\<lambda>x y. (if reverse then cmp y x else cmp x y) \<le> 0) ys \<and> frame (set ps) h h'"
proof (cases "ps = []")
  case True
  then have "m_size l = 0" "xs = []" using assms(2) by (simp_all add: list_at_def)
  then have "sort_list qs cmp True reverse h l = Some (0, h, l)" by (simp add: sort_list_def)
  then show ?thesis using True assms(1,2) \<open>xs = []\<close>
    by (intro exI [of _ h] exI [of _ l] exI [of _ ps] exI [of _ xs]) simp
next
  case False
  have p: "path h (m_pHead l) ps 0" "vals h ps = xs" "m_size l = of_nat (length ps)"
    using assms(2) by (simp_all add: list_at_def)
  have sz: "unat (m_size l) = length ps"
    using p(3) assms(3) list_atD(3) [OF assms(2)] by (simp add: unat_of_nat)
  define c where "c = (if reverse then (\<lambda>p q. node_comparator cmp h q p) else node_comparator cmp h)"
  have c: "comparator_ok c"
    using comparator_ok_node [OF assms(5), of h] comparator_ok_flip by (auto simp: c_def)
  let ?ps = "qs c ps"
  have m: "mset ?ps = mset ps" and srt: "sorted_wrt (\<lambda>p q. c p q \<le> 0) ?ps"
    using assms(4) c by (auto simp: qsort_ok_def)
  have st: "set ?ps = set ps" by (rule mset_eq_setD [OF m])
  have "length ?ps = length ps" by (rule mset_eq_length [OF m])
  with False obtain q qs' where q: "?ps = q # qs'" by (cases ?ps) auto
  have "distinct ?ps" using list_atD(1) [OF assms(2)] m by (metis mset_eq_imp_distinct_iff)
  moreover have ex: "r \<noteq> 0 \<and> nodes h r \<noteq> None" if "r \<in> set ?ps" for r
    using path_nodes [OF p(1)] that st by blast
  ultimately obtain h' where h': "relink ?ps h = Some h'" "path h' q ?ps 0" "same_values h h'"
    "frame (set ps) h h'" "heap_ok h'"
    using relink_ok [of q qs' h] assms(1) unfolding q [symmetric] st by metis
  have v: "vals h' ?ps = vals h ?ps" by (rule same_values_vals [OF h'(3)]) (use ex in blast)
  have "sort_list qs cmp True reverse h l = Some (0, h', l\<lparr>m_pHead := q\<rparr>)"
  proof -
    have "m_size l \<noteq> 0" using False sz by auto
    moreover have "(if reverse then (\<lambda>p q. node_comparator cmp h q p) else node_comparator cmp h) = c"
      by (simp add: c_def)
    ultimately show ?thesis
      unfolding sort_list_def Let_def sz collect_path [OF p(1)] by (simp add: h'(1) [unfolded q] q)
  qed
  moreover have "list_at h' (l\<lparr>m_pHead := q\<rparr>) ?ps (vals h ?ps)"
    using h'(2) v p(3) \<open>length ?ps = length ps\<close> by (simp add: list_at_def)
  moreover have "mset (vals h ?ps) = mset xs" using m p(2) by (metis mset_map vals_def)
  moreover have "sorted_wrt (\<lambda>x y. (if reverse then cmp y x else cmp x y) \<le> 0) (vals h ?ps)"
    using srt unfolding vals_def sorted_wrt_map
    by (rule sorted_wrt_mono_rel [rotated]) (simp add: c_def node_comparator_def split: if_splits)
  ultimately show ?thesis using h'(4,5) m by blast
qed


fun insert_by :: "(ptr \<Rightarrow> ptr \<Rightarrow> int) \<Rightarrow> ptr \<Rightarrow> ptr list \<Rightarrow> ptr list" where
  "insert_by c x [] = [x]"
| "insert_by c x (y # ys) = (if c x y \<le> 0 then x # y # ys else y # insert_by c x ys)"

definition insertion_sort :: "(ptr \<Rightarrow> ptr \<Rightarrow> int) \<Rightarrow> ptr list \<Rightarrow> ptr list" where
  "insertion_sort c ps = foldr (insert_by c) ps []"

lemma mset_insert_by: "mset (insert_by c x ys) = add_mset x (mset ys)"
  by (induction ys) auto

lemma sorted_insert_by:
  assumes "comparator_ok c"
  shows "sorted_wrt (\<lambda>p q. c p q \<le> 0) ys \<Longrightarrow> sorted_wrt (\<lambda>p q. c p q \<le> 0) (insert_by c x ys)"
proof (induction ys)
  case (Cons y ys)
  have set: "set (insert_by c x ys) = insert x (set ys)"
    using mset_insert_by [of c x ys] by (metis set_mset_add_mset_insert set_mset_mset)
  have "c y x \<le> 0" if "\<not> c x y \<le> 0" using assms that by (auto simp: comparator_ok_def)
  moreover have "\<forall>z \<in> set ys. c x z \<le> 0" if "c x y \<le> 0"
    using assms that Cons.prems unfolding comparator_ok_def by (metis sorted_wrt.simps(2))
  ultimately show ?case using Cons set by auto
qed simp

lemma insertion_sort_ok: "qsort_ok insertion_sort"
proof -
  have "mset (foldr (insert_by c) ps []) = mset ps" for c ps
    by (induction ps) (simp_all add: mset_insert_by)
  moreover have "comparator_ok c \<Longrightarrow> sorted_wrt (\<lambda>p q. c p q \<le> 0) (foldr (insert_by c) ps [])" for c ps
    by (induction ps) (simp_all add: sorted_insert_by)
  ultimately show ?thesis by (simp add: qsort_ok_def insertion_sort_def)
qed

definition demo_heap :: "int heap" where
  "demo_heap = \<lparr>nodes = [1 \<mapsto> \<lparr>m_pNext = 0, m_value = 5\<rparr>, 2 \<mapsto> \<lparr>m_pNext = 1, m_value = 9\<rparr>,
     3 \<mapsto> \<lparr>m_pNext = 2, m_value = 7\<rparr>, 4 \<mapsto> \<lparr>m_pNext = 0, m_value = 8\<rparr>], next_ptr = 5\<rparr>"

definition demo_list :: list_obj where "demo_list = \<lparr>m_pHead = 3, m_size = 3\<rparr>"
definition demo_other :: list_obj where "demo_other = \<lparr>m_pHead = 4, m_size = 1\<rparr>"

lemma demo_heap_ok: "heap_ok demo_heap"
  by (simp add: heap_ok_def demo_heap_def)

lemma demo_list_at: "list_at demo_heap demo_list [3, 2, 1] [7, 9, 5]" and
  demo_other_at: "list_at demo_heap demo_other [4] [8]"
  by (simp_all add: list_at_def demo_heap_def demo_list_def demo_other_def)

lemma minus_comparator: "comparator_ok (\<lambda>x y :: int. x - y)"
  by (auto simp: comparator_ok_def)

theorem sort_sorts_witness:
  "\<exists>h' l' ps' ys. sort_list insertion_sort (\<lambda>x y. x - y) True True demo_heap demo_list = Some (0, h', l') \<and>
    heap_ok h' \<and> list_at h' l' ps' ys \<and> mset ps' = mset [3, 2, 1] \<and> mset ys = mset [7, 9, 5] \<and>
    sorted_wrt (\<lambda>x y. (if True then y - x else x - y) \<le> 0) ys \<and> frame (set [3, 2, 1]) demo_heap h'"
  by (rule sort_sorts [OF demo_heap_ok demo_list_at _ insertion_sort_ok minus_comparator]) simp

text \<open>Removing a value ends, without a fault, with the first element that equals it taken out and the
  others in order; the result is an error only if there is none and the caller did not allow that.\<close>

theorem remove_removes_first:
  assumes "heap_ok h" and "list_at h l ps xs"
  shows "\<exists>h' l' ps'. remove_value eq v ok h l = Some (if ok \<or> (\<exists>x \<in> set xs. eq v x) then 0 else 1, h', l') \<and>
    heap_ok h' \<and> list_at h' l' ps' (remove_first (eq v) xs) \<and> set ps' \<subseteq> set ps \<and> frame (set ps) h h'"
proof (cases "\<exists>x \<in> set xs. eq v x")
  case False
  have p: "path h (m_pHead l) ps 0" "vals h ps = xs" using assms(2) by (simp_all add: list_at_def)
  have "\<not> eq v (m_value (the (nodes h q)))" if "q \<in> set ps" for q
    using False that unfolding p(2) [symmetric] by (simp add: vals_def)
  from find_node_none [OF p(1), of "\<lambda>p n. eq v (m_value n)" 0] this
  have "find_node h (\<lambda>p n. eq v (m_value n)) 0 (m_pHead l) = Some (last (0 # ps), 0)" by blast
  then have "remove_value eq v ok h l = Some (if ok then 0 else 1, h, l)" by (simp add: remove_value_def)
  moreover have "remove_first (eq v) xs = xs" using False by (simp add: remove_first_split)
  ultimately show ?thesis using False assms by auto
next
  case True
  then obtain ys x zs where s: "xs = ys @ x # zs" "eq v x" "\<forall>y \<in> set ys. \<not> eq v y"
    "remove_first (eq v) xs = ys @ zs" by (rule split_at_first [where P = "eq v"])
  have p: "path h (m_pHead l) ps 0" and v: "vals h ps = ys @ x # zs"
    using assms(2) s(1) by (simp_all add: list_at_def)
  from v obtain as q bs where ps: "ps = as @ q # bs" "vals h as = ys" "m_value (the (nodes h q)) = x"
    "vals h bs = zs" by (rule vals_split)
  obtain n where n: "nodes h q = Some n" using list_atD(4) [OF assms(2)] ps(1) by fastforce
  have "\<not> eq v (m_value (the (nodes h r)))" if "r \<in> set as" for r
    using s(3) that unfolding ps(2) [symmetric] by (simp add: vals_def)
  from find_node_first [OF p [unfolded ps(1)], of "\<lambda>p n. eq v (m_value n)" 0] this ps(3) s(2)
  have f: "find_node h (\<lambda>p n. eq v (m_value n)) 0 (m_pHead l) = Some (last (0 # as), q)" by blast
  have "length as = length ys" using ps(2) by auto
  then obtain h' l' where u: "unlink (last (0 # as)) q h l = Some (h', l')" "heap_ok h'"
    "list_at h' l' (as @ bs) (ys @ zs)" "frame (insert q (set as)) h h'"
    using unlink_ok [OF assms(1) assms(2) [unfolded ps(1) s(1)] _ n] by blast
  have "q \<noteq> 0" using list_atD(2) [OF assms(2)] ps(1) by auto
  then have "remove_value eq v ok h l = Some (0, h', l')" using f u(1) by (simp add: remove_value_def)
  moreover have "frame (set ps) h h'" by (rule frame_mono [OF u(4)]) (auto simp: ps(1))
  ultimately show ?thesis using u(2,3) s(4) True ps(1) by (intro exI [of _ h'] exI [of _ l']) auto
qed


theorem remove_removes_first_witness:
  "\<exists>h' l' ps'. remove_value (=) 9 False demo_heap demo_list
      = Some (if False \<or> (\<exists>x \<in> set [7, 9, 5 :: int]. 9 = x) then 0 else 1, h', l') \<and>
    heap_ok h' \<and> list_at h' l' ps' (remove_first ((=) 9) [7, 9, 5]) \<and> set ps' \<subseteq> set [3, 2, 1] \<and>
    frame (set [3, 2, 1]) demo_heap h'"
  by (rule remove_removes_first [OF demo_heap_ok demo_list_at])

text \<open>\<open>append\<close> puts the other list's values in front, in reverse order, in new nodes: the other list is
  as it was.\<close>

theorem append_reverses:
  assumes "heap_ok h" and "list_at h l ps xs" and "list_at h rhs qs ys" and "set ps \<inter> set qs = {}"
  shows "\<exists>h' l' rs. append_list rhs h l = Some (0, h', l') \<and> heap_ok h' \<and>
    list_at h' l' (rs @ ps) (rev ys @ xs) \<and> list_at h' rhs qs ys"
proof -
  have q: "path h (m_pHead rhs) qs 0" "vals h qs = ys" using assms(3) by (simp_all add: list_at_def)
  obtain h' l' rs where r: "append_nodes (m_pHead rhs) h l = Some (0, h', l')" "heap_ok h'"
    "list_at h' l' (rs @ ps) (rev ys @ xs)" "frame {q. next_ptr h \<le> q} h h'"
    using append_nodes_ok [OF assms(1,2) q(1) assms(4)] q(2) by blast
  have "set qs \<inter> {q. next_ptr h \<le> q} = {}"
    using list_atD(4) [OF assms(3)] assms(1) by (fastforce simp: heap_ok_def)
  with r assms(3) show ?thesis by (auto simp: append_list_def intro: list_at_frame)
qed

theorem append_reverses_witness:
  "\<exists>h' l' rs. append_list demo_list demo_heap demo_other = Some (0, h', l') \<and> heap_ok h' \<and>
    list_at h' l' (rs @ [4]) (rev [7, 9, 5] @ [8]) \<and> list_at h' demo_list [3, 2, 1] [7, 9, 5]"
  by (rule append_reverses [OF demo_heap_ok demo_other_at demo_list_at]) simp

end
