(* ===== verification/BaseQueue.thy ===== *)
theory BaseQueue
  imports BaseList
begin

text \<open>
  The queue \<open>utils/base_util/queue.h\<close>, a list whose head is the back of the queue. The contract of a
  queue is a locale; the code's queue is an interpretation of it.
\<close>

section \<open>Operations\<close>

text \<open>The last node of a chain and the one before it, from \<open>p\<close> on.\<close>

partial_function (option) last_two :: "'a heap \<Rightarrow> ptr \<Rightarrow> ptr \<Rightarrow> ptr \<Rightarrow> (ptr \<times> ptr) option" where
  "last_two h pSecondLast pLast p = (if p = 0 then Some (pSecondLast, pLast) else do {
     n \<leftarrow> nodes h p;
     last_two h pLast p (m_pNext n)
   })"

definition queue_push :: "'a \<Rightarrow> 'a heap \<times> list_obj \<Rightarrow> (int \<times> 'a heap \<times> list_obj) option" where
  "queue_push rhs s = add rhs (fst s) (snd s)"

text \<open>\<open>null\<close> says that the place for the value is a null pointer; the second result is the value stored
  there.\<close>

definition queue_top :: "bool \<Rightarrow> 'a heap \<times> list_obj \<Rightarrow> (int \<times> 'a option) option" where
  "queue_top null s =
     (if null then Some (2, None)
      else do {
        pLast \<leftarrow> last_node (fst s) 0 (m_pHead (snd s));
        if pLast = 0 then Some (3, None)
        else do { n \<leftarrow> nodes (fst s) pLast; Some (0, Some (m_value n)) }
      })"

definition queue_pop :: "bool \<Rightarrow> 'a heap \<times> list_obj \<Rightarrow> (int \<times> 'a option \<times> 'a heap \<times> list_obj) option" where
  "queue_pop null s =
     (if null then Some (2, None, s)
      else do {
        (pSecondLast, pLast) \<leftarrow> last_two (fst s) 0 0 (m_pHead (snd s));
        (h, l) \<leftarrow> (if pSecondLast \<noteq> 0
          then do { h \<leftarrow> set_next pSecondLast 0 (fst s); Some (h, (snd s)\<lparr>m_size := m_size (snd s) - 1\<rparr>) }
          else Some (fst s, (snd s)\<lparr>m_pHead := 0, m_size := 0\<rparr>));
        if pLast \<noteq> 0
        then do { n \<leftarrow> nodes h pLast; h' \<leftarrow> delete_node pLast h; Some (0, Some (m_value n), h', l) }
        else Some (3, None, h, l)
      })"

section \<open>The contract of a queue\<close>

datatype 'a queue_op = Push 'a | Pop

text \<open>A run of operations, and the same run on the list of the elements, front first.\<close>

fun run_queue :: "('a \<Rightarrow> 's \<Rightarrow> (int \<times> 's) option) \<Rightarrow> ('s \<Rightarrow> (int \<times> 'a option \<times> 's) option)
    \<Rightarrow> 'a queue_op list \<Rightarrow> 's \<Rightarrow> ((int \<times> 'a option) list \<times> 's) option" where
  "run_queue push pop [] s = Some ([], s)"
| "run_queue push pop (Push v # ops) s = do {
     (rc, s1) \<leftarrow> push v s;
     (rs, s2) \<leftarrow> run_queue push pop ops s1;
     Some ((rc, None) # rs, s2)
   }"
| "run_queue push pop (Pop # ops) s = do {
     (rc, r, s1) \<leftarrow> pop s;
     (rs, s2) \<leftarrow> run_queue push pop ops s1;
     Some ((rc, r) # rs, s2)
   }"

fun run_fifo :: "'a queue_op list \<Rightarrow> 'a list \<Rightarrow> (int \<times> 'a option) list \<times> 'a list" where
  "run_fifo [] xs = ([], xs)"
| "run_fifo (Push v # ops) xs = (case run_fifo ops (xs @ [v]) of (rs, ys) \<Rightarrow> ((0, None) # rs, ys))"
| "run_fifo (Pop # ops) [] = (case run_fifo ops [] of (rs, ys) \<Rightarrow> ((3, None) # rs, ys))"
| "run_fifo (Pop # ops) (x # xs) = (case run_fifo ops xs of (rs, ys) \<Rightarrow> ((0, Some x) # rs, ys))"

locale fifo_queue =
  fixes rep :: "'s \<Rightarrow> 'a list \<Rightarrow> bool"
    and push :: "'a \<Rightarrow> 's \<Rightarrow> (int \<times> 's) option"
    and pop :: "'s \<Rightarrow> (int \<times> 'a option \<times> 's) option"
  assumes push_back: "rep s xs \<Longrightarrow> \<exists>s'. push v s = Some (0, s') \<and> rep s' (xs @ [v])"
    and pop_empty: "rep s [] \<Longrightarrow> \<exists>s'. pop s = Some (3, None, s') \<and> rep s' []"
    and pop_front: "rep s (x # xs) \<Longrightarrow> \<exists>s'. pop s = Some (0, Some x, s') \<and> rep s' xs"
begin

lemma run_refines:
  "rep s xs \<Longrightarrow> \<exists>s'. run_queue push pop ops s = Some (fst (run_fifo ops xs), s') \<and> rep s' (snd (run_fifo ops xs))"
proof (induction ops xs arbitrary: s rule: run_fifo.induct)
  case (1 xs)
  then show ?case by auto
next
  case (2 v ops xs)
  obtain s1 where "push v s = Some (0, s1)" "rep s1 (xs @ [v])" using push_back [OF 2(2)] by blast
  with 2(1) [of s1] show ?case by (auto split: prod.splits)
next
  case (3 ops)
  obtain s1 where "pop s = Some (3, None, s1)" "rep s1 []" using pop_empty [OF 3(2)] by blast
  with 3(1) [of s1] show ?case by (auto split: prod.splits)
next
  case (4 ops x xs)
  obtain s1 where "pop s = Some (0, Some x, s1)" "rep s1 xs" using pop_front [OF 4(2)] by blast
  with 4(1) [of s1] show ?case by (auto split: prod.splits)
qed

end

section \<open>The code's queue\<close>

text \<open>The queue's elements, front first; the nodes \<open>others\<close> of other objects are on the same heap and
  must stay as they are.\<close>

definition queue_rep :: "(ptr \<rightharpoonup> 'a node) \<Rightarrow> 'a heap \<times> list_obj \<Rightarrow> 'a list \<Rightarrow> bool" where
  "queue_rep others s xs \<longleftrightarrow> (\<exists>ps. heap_ok (fst s) \<and> list_at (fst s) (snd s) ps (rev xs) \<and>
     others \<subseteq>\<^sub>m nodes (fst s) \<and> dom others \<inter> set ps = {})"

lemma last_two_path:
  "path h p ps 0 \<Longrightarrow> last_two h a b p = Some (last (a # butlast (b # ps)), last (b # ps))"
proof (induction ps arbitrary: p a b)
  case Nil
  then show ?case by (simp add: last_two.simps)
next
  case (Cons q ps)
  then obtain n where "q = p" "p \<noteq> 0" "nodes h p = Some n" "path h (m_pNext n) ps 0"
    by (auto split: option.splits)
  then show ?case using Cons.IH [of "m_pNext n" b p]
    by (cases ps) (simp_all add: last_two.simps [of h a b p])
qed

lemma map_le_frame: "m \<subseteq>\<^sub>m nodes h \<Longrightarrow> frame S h h' \<Longrightarrow> dom m \<inter> S = {} \<Longrightarrow> m \<subseteq>\<^sub>m nodes h'"
  unfolding map_le_def frame_def by (metis disjoint_iff)

lemma queue_push_back:
  assumes "queue_rep others s xs"
  shows "\<exists>s'. queue_push v s = Some (0, s') \<and> queue_rep others s' (xs @ [v])"
proof -
  obtain ps where r: "heap_ok (fst s)" "list_at (fst s) (snd s) ps (rev xs)" "others \<subseteq>\<^sub>m nodes (fst s)"
    "dom others \<inter> set ps = {}" using assms by (auto simp: queue_rep_def)
  obtain h l where a: "add v (fst s) (snd s) = Some (0, h, l)" "heap_ok h"
    "list_at h l (next_ptr (fst s) # ps) (v # rev xs)" "frame {next_ptr (fst s)} (fst s) h"
    using add_ok [OF r(1,2)] by blast
  have n: "next_ptr (fst s) \<notin> dom others"
  proof
    assume "next_ptr (fst s) \<in> dom others"
    then have "nodes (fst s) (next_ptr (fst s)) \<noteq> None" using r(3) by (metis domD map_le_def option.distinct(1))
    then show False using r(1) by (simp add: heap_ok_def)
  qed
  then have "others \<subseteq>\<^sub>m nodes h" using map_le_frame [OF r(3) a(4)] by simp
  with a n r(4) have "queue_rep others (h, l) (xs @ [v])"
    unfolding queue_rep_def by (intro exI [of _ "next_ptr (fst s) # ps"]) auto
  with a(1) show ?thesis by (simp add: queue_push_def)
qed

lemma queue_pop_empty:
  assumes "queue_rep others s []"
  shows "\<exists>s'. queue_pop False s = Some (3, None, s') \<and> queue_rep others s' []"
proof -
  obtain ps where r: "heap_ok (fst s)" "list_at (fst s) (snd s) ps []" "others \<subseteq>\<^sub>m nodes (fst s)"
    using assms by (auto simp: queue_rep_def)
  from r(2) have "m_pHead (snd s) = 0" "ps = []" by (auto simp: list_at_def vals_def)
  then have "queue_pop False s = Some (3, None, fst s, (snd s)\<lparr>m_pHead := 0, m_size := 0\<rparr>)"
    by (simp add: queue_pop_def last_two.simps)
  moreover have "queue_rep others (fst s, (snd s)\<lparr>m_pHead := 0, m_size := 0\<rparr>) []"
    using r(1,3) by (auto simp: queue_rep_def list_at_def vals_def)
  ultimately show ?thesis by blast
qed

lemma queue_pop_front:
  assumes "queue_rep others s (x # xs)"
  shows "\<exists>s'. queue_pop False s = Some (0, Some x, s') \<and> queue_rep others s' xs"
proof -
  obtain h l where s: "s = (h, l)" by fastforce
  obtain ps where r: "heap_ok h" "list_at h l ps (rev xs @ [x])" "others \<subseteq>\<^sub>m nodes h"
    "dom others \<inter> set ps = {}" using assms s by (auto simp: queue_rep_def)
  have p: "path h (m_pHead l) ps 0" and v: "vals h ps = rev xs @ x # []" and sz: "m_size l = of_nat (length ps)"
    using r(2) by (simp_all add: list_at_def)
  from v obtain qs q bs where ps: "ps = qs @ q # bs" "vals h qs = rev xs" "m_value (the (nodes h q)) = x"
    "vals h bs = []" by (rule vals_split)
  then have ps1: "ps = qs @ [q]" by (simp add: vals_def)
  note d = list_atD [OF r(2)]
  obtain n where n: "nodes h q = Some n" using d(4) [of q] ps1 by auto
  have q: "q \<noteq> 0" "q \<notin> set qs" using d(1,2) ps1 by auto
  have two: "last_two h 0 0 (m_pHead l) = Some (last (0 # qs), q)"
    using last_two_path [OF p, of 0 0] ps1 by (cases qs) (auto simp: butlast_append)
  let ?del = "\<lambda>h'. h'\<lparr>nodes := (nodes h')(q := None)\<rparr>"
  have rest: "others \<subseteq>\<^sub>m nodes (?del h')" if "others \<subseteq>\<^sub>m nodes h'" for h'
    using that r(4) ps1 by (auto simp: map_le_def)
  show ?thesis
  proof (cases qs rule: rev_cases)
    case Nil
    have "queue_pop False s = Some (0, Some x, ?del h, l\<lparr>m_pHead := 0, m_size := 0\<rparr>)"
      using two n q ps(3) Nil s by (simp add: queue_pop_def delete_node_def)
    moreover have "queue_rep others (?del h, l\<lparr>m_pHead := 0, m_size := 0\<rparr>) xs"
      using r(1) rest [OF r(3)] ps(2) Nil
      by (auto simp: queue_rep_def list_at_def heap_ok_def intro!: exI [of _ "[]"])
    ultimately show ?thesis by blast
  next
    case (snoc cs c)
    obtain m where m: "nodes h c = Some m" using d(4) [of c] ps1 snoc by auto
    have c: "c \<noteq> 0" "c \<noteq> q" "distinct qs" using d(1,2) ps1 snoc by auto
    let ?h1 = "h\<lparr>nodes := (nodes h)(c \<mapsto> m\<lparr>m_pNext := 0\<rparr>)\<rparr>"
    have "queue_pop False s = Some (0, Some x, ?del ?h1, l\<lparr>m_size := m_size l - 1\<rparr>)"
      using two n q ps(3) snoc s c by (simp add: queue_pop_def delete_node_def set_next_ok [OF m])
    moreover have "path ?h1 (m_pHead l) qs 0"
      using path_relast [of h "m_pHead l" cs c q m 0] p ps1 c(3) m snoc by simp
    then have "path (?del ?h1) (m_pHead l) qs 0"
      using q(2) by (subst path_cong [where h = ?h1]) auto
    moreover have "vals (?del ?h1) qs = vals ?h1 qs" using q(2) by (intro vals_cong) auto
    then have "vals (?del ?h1) qs = rev xs" using vals_set_next [OF m] ps(2) by simp
    moreover have "others \<subseteq>\<^sub>m nodes ?h1"
      using r(3,4) ps1 snoc by (auto simp: map_le_def)
    moreover have "heap_ok (?del ?h1)" using r(1) m by (auto simp: heap_ok_def)
    ultimately show ?thesis using rest [of ?h1] sz r(4) ps1
      by (auto simp: queue_rep_def list_at_def intro!: exI [of _ qs])
  qed
qed

lemma queue_top_front:
  assumes "queue_rep others s xs"
  shows "queue_top False s = Some (case xs of [] \<Rightarrow> (3, None) | x # _ \<Rightarrow> (0, Some x))"
proof -
  obtain h l where s: "s = (h, l)" by fastforce
  obtain ps where r: "list_at h l ps (rev xs)" using assms s by (auto simp: queue_rep_def)
  then have p: "path h (m_pHead l) ps 0" and v: "vals h ps = rev xs" by (simp_all add: list_at_def)
  note d = list_atD [OF r]
  show ?thesis
  proof (cases ps rule: rev_cases)
    case Nil
    then have "xs = []" using v by (simp add: vals_def)
    then show ?thesis using last_node_path [OF p, of 0] s Nil by (simp add: queue_top_def)
  next
    case (snoc qs q)
    then obtain y ys where x: "xs = y # ys" using v by (cases xs) auto
    obtain n where n: "nodes h q = Some n" using d(4) [of q] snoc by auto
    have "q \<noteq> 0" using d(2) snoc by auto
    moreover have "m_value n = y" using v x snoc n by simp
    ultimately show ?thesis using last_node_path [OF p, of 0] s snoc n x by (simp add: queue_top_def)
  qed
qed

interpretation base_queue: fifo_queue "queue_rep others" queue_push "queue_pop False" for others
  by unfold_locales (blast intro: queue_push_back queue_pop_empty queue_pop_front)+

section \<open>The queue refines a list\<close>

text \<open>C25: any sequence of pushes and pops on a queue ends, without a fault, and answers as the list of the
  elements does, first in first out, with error 3 for a pop when it is empty; the nodes of other
  lists on the heap stay as they were.\<close>

theorem queue_is_fifo:
  assumes "queue_rep others s xs"
  shows "\<exists>s'. run_queue queue_push (queue_pop False) ops s = Some (fst (run_fifo ops xs), s') \<and>
    queue_rep others s' (snd (run_fifo ops xs))"
  by (rule base_queue.run_refines [OF assms])

theorem queue_is_fifo_witness:
  "\<exists>s'. run_queue queue_push (queue_pop False) [Pop, Push 6, Pop, Pop, Pop, Pop] (demo_heap, demo_list)
      = Some (fst (run_fifo [Pop, Push 6, Pop, Pop, Pop, Pop] [5, 9, 7]), s') \<and>
    queue_rep [4 \<mapsto> \<lparr>m_pNext = 0, m_value = 8\<rparr>] s' (snd (run_fifo [Pop, Push 6, Pop, Pop, Pop, Pop] [5, 9, 7]))"
proof (rule queue_is_fifo)
  show "queue_rep [4 \<mapsto> \<lparr>m_pNext = 0, m_value = 8\<rparr>] (demo_heap, demo_list) [5, 9, 7]"
    using demo_heap_ok demo_list_at unfolding queue_rep_def
    by (intro exI [of _ "[3, 2, 1]"]) (simp add: map_le_def, simp add: demo_heap_def)
qed

lemma fifo_values: "run_fifo [Pop, Push 6, Pop, Pop, Pop, Pop] [5, 9, 7 :: int]
    = ([(0, Some 5), (0, None), (0, Some 9), (0, Some 7), (0, Some 6), (3, None)], [])"
  by simp

end
