(* ===== verification/CDouble.thy ===== *)
theory CDouble
  imports Prelude
begin

text \<open>
  The C type \<open>double\<close> (IEEE 754 binary64) as far as the code needs it: a double whose last place
  is not below \<open>2 ^ (- 72)\<close> is the integer number of \<open>2 ^ (- 72)\<close> it is worth. Every result that the
  code computes from whole numbers and the constant 0.000001 is such a double, and \<open>round53\<close>, to
  the nearest value with 53 significant bits and to even if there are two, rounds it as the hardware
  does. Numbers with more than 1024 bits, which overflow to infinity, do not occur.
\<close>

section \<open>Rounding\<close>

type_synonym dbl = int

function bit_count :: "int \<Rightarrow> nat" where
  "bit_count m = (if m \<le> 0 then 0 else Suc (bit_count (m div 2)))"
  by auto
termination by (relation "measure nat") auto

declare bit_count.simps [simp del]

definition sig_bits :: "int \<Rightarrow> nat" where
  "sig_bits m = bit_count \<bar>m\<bar>"

definition round_even :: "int \<Rightarrow> nat \<Rightarrow> int" where
  "round_even m k =
     (let q = m div 2 ^ k; r = m mod 2 ^ k in
      if 2 * r < 2 ^ k \<or> (2 * r = 2 ^ k \<and> even q) then q * 2 ^ k else (q + 1) * 2 ^ k)"

definition round53 :: "int \<Rightarrow> dbl" where
  "round53 m = round_even m (sig_bits m - 53)"

definition dbl_of_int :: "int \<Rightarrow> dbl" where "dbl_of_int n = round53 (n * 2 ^ 72)"
definition dbl_add :: "dbl \<Rightarrow> dbl \<Rightarrow> dbl" where "dbl_add x y = round53 (x + y)"
definition dbl_sub :: "dbl \<Rightarrow> dbl \<Rightarrow> dbl" where "dbl_sub x y = round53 (x - y)"

text \<open>The product of an integer that has an exact double with a double.\<close>

definition dbl_times_int :: "int \<Rightarrow> dbl \<Rightarrow> dbl" where "dbl_times_int n x = round53 (n * x)"

section \<open>How far rounding moves a number\<close>

lemma round_even_near: "2 * \<bar>round_even m k - m\<bar> \<le> 2 ^ k"
proof -
  define q r where "q = m div 2 ^ k" and "r = m mod 2 ^ k"
  have m: "m = q * 2 ^ k + r" unfolding q_def r_def by (rule div_mult_mod_eq [symmetric])
  have r: "0 \<le> r" "r < 2 ^ k" by (simp_all add: r_def)
  have eq: "round_even m k = (if 2 * r < 2 ^ k \<or> (2 * r = 2 ^ k \<and> even q) then q * 2 ^ k else (q + 1) * 2 ^ k)"
    by (simp add: round_even_def Let_def q_def r_def)
  show ?thesis
  proof (cases "2 * r < 2 ^ k \<or> (2 * r = 2 ^ k \<and> even q)")
    case True
    then have "round_even m k - m = - r" using m eq by simp
    then show ?thesis using True r by auto
  next
    case False
    then have "round_even m k = q * 2 ^ k + 2 ^ k" unfolding eq by (simp add: distrib_right)
    then have "round_even m k - m = 2 ^ k - r" using m by linarith
    then have "\<bar>round_even m k - m\<bar> = 2 ^ k - r" using r(2) by simp
    moreover have "2 ^ k \<le> 2 * r" using False by (simp add: not_less)
    ultimately show ?thesis by simp
  qed
qed

lemma round_even_multiple: "2 ^ k dvd m \<Longrightarrow> round_even m k = m"
  by (auto simp: round_even_def Let_def)

lemma bit_count_ge: "0 < m \<Longrightarrow> 0 < bit_count m \<and> 2 ^ (bit_count m - 1) \<le> m"
proof (induction m rule: bit_count.induct)
  case (1 m)
  show ?case
  proof (cases "m = 1")
    case True
    then show ?thesis by (simp add: bit_count.simps [of 1] bit_count.simps [of 0])
  next
    case False
    then have "0 < m div 2" using 1(2) by linarith
    then have "2 ^ (bit_count (m div 2) - 1) \<le> m div 2" "0 < bit_count (m div 2)" using 1 by auto
    then have "2 ^ bit_count (m div 2) \<le> 2 * (m div 2)" by (cases "bit_count (m div 2)") simp_all
    also have "\<dots> \<le> m" by simp
    finally show ?thesis using 1(2) by (simp add: bit_count.simps [of m])
  qed
qed

lemma sig_bits_ge: "m \<noteq> 0 \<Longrightarrow> 2 ^ (sig_bits m - 1) \<le> \<bar>m\<bar>"
  using bit_count_ge [of "\<bar>m\<bar>"] by (simp add: sig_bits_def)

lemma sig_bits_le:
  assumes "\<bar>m\<bar> < 2 ^ k"
  shows "sig_bits m \<le> k"
proof (cases "m = 0")
  case True
  then show ?thesis by (simp add: sig_bits_def bit_count.simps [of 0])
next
  case False
  then have "(2 :: int) ^ (sig_bits m - 1) < 2 ^ k" using sig_bits_ge [of m] assms by linarith
  then have "sig_bits m - 1 < k" by (rule power_less_imp_less_exp [rotated]) simp
  then show ?thesis by linarith
qed

lemma round53_err: "2 ^ 53 * \<bar>round53 m - m\<bar> \<le> \<bar>m\<bar>"
proof (cases "sig_bits m \<le> 53")
  case True
  then show ?thesis by (simp add: round53_def round_even_multiple)
next
  case False
  let ?k = "sig_bits m - 53"
  have k: "sig_bits m - 1 = ?k + 52" using False by simp
  have "m \<noteq> 0" using False by (auto simp: sig_bits_def bit_count.simps [of 0])
  from sig_bits_ge [OF this] have "2 ^ ?k * 4503599627370496 \<le> \<bar>m\<bar>" unfolding k power_add by simp
  moreover have "2 * \<bar>round53 m - m\<bar> \<le> 2 ^ ?k" unfolding round53_def by (rule round_even_near)
  ultimately show ?thesis by simp
qed

lemma dbl_of_int_exact:
  assumes "\<bar>n\<bar> < 2 ^ 53"
  shows "dbl_of_int n = n * 2 ^ 72"
proof -
  have "\<bar>n * 2 ^ 72\<bar> = \<bar>n\<bar> * 2 ^ 72" by (simp only: abs_mult power_abs abs_numeral)
  also have "\<dots> < 2 ^ 53 * 2 ^ 72" using assms by (intro mult_strict_right_mono) simp_all
  also have "\<dots> = 2 ^ 125" by (simp only: flip: power_add) simp
  finally have "\<bar>n * 2 ^ 72\<bar> < 2 ^ 125" .
  from sig_bits_le [OF this] have "sig_bits (n * 2 ^ 72) - 53 \<le> 72" by linarith
  then have "2 ^ (sig_bits (n * 2 ^ 72) - 53) dvd n * 2 ^ 72" by (intro dvd_mult le_imp_power_dvd)
  then show ?thesis by (simp add: dbl_of_int_def round53_def round_even_multiple)
qed

text \<open>Near numbers have near absolute values.\<close>

lemma abs_near:
  fixes x y :: int
  shows "\<bar>x - y\<bar> \<le> e \<Longrightarrow> \<bar>x\<bar> \<le> \<bar>y\<bar> + e" and "\<bar>x - y\<bar> \<le> e \<Longrightarrow> \<bar>y\<bar> - e \<le> \<bar>x\<bar>"
  by linarith+

end
