(* ===== verification/GnssPps.thy ===== *)
theory GnssPps
  imports CDouble Bytes
begin

text \<open>
  The pulse per second reader \<open>gnsspps/gnsspps.c\<close>: a thread fetches the kernel's time stamp of every
  pulse, turns it into boot time if the kernel reports real time, and keeps it for \<open>getPPS\<close>. Times
  are the kernel's, seconds far from the ends of their 64 bits; what \<open>pps_fetch\<close>, \<open>clock_gettime\<close>
  and the pthread calls return are arguments.
\<close>

section \<open>Time stamps\<close>

record timespec =
  tv_sec :: int
  tv_nsec :: int

definition BILLION_NSEC :: int where "BILLION_NSEC = 1000000000"

definition calculate_time_difference :: "timespec \<Rightarrow> timespec \<Rightarrow> timespec" where
  "calculate_time_difference time1 time2 =
     (if tv_nsec time2 < tv_nsec time1
      then \<lparr>tv_sec = tv_sec time2 - 1 - tv_sec time1, tv_nsec = BILLION_NSEC + tv_nsec time2 - tv_nsec time1\<rparr>
      else \<lparr>tv_sec = tv_sec time2 - tv_sec time1, tv_nsec = tv_nsec time2 - tv_nsec time1\<rparr>)"

definition pps_sync_time_add :: "timespec \<Rightarrow> timespec \<Rightarrow> timespec" where
  "pps_sync_time_add time1 time2 =
     (if BILLION_NSEC \<le> tv_nsec time2 + tv_nsec time1
      then \<lparr>tv_sec = tv_sec time2 + tv_sec time1 + 1, tv_nsec = tv_nsec time2 + tv_nsec time1 - BILLION_NSEC\<rparr>
      else \<lparr>tv_sec = tv_sec time2 + tv_sec time1, tv_nsec = tv_nsec time2 + tv_nsec time1\<rparr>)"

definition MAX_REALTIME_OFFSET_DELTA_DIFFERENCE :: int where "MAX_REALTIME_OFFSET_DELTA_DIFFERENCE = 10"
definition MAX_PPS_KERNEL_TO_USERSPACE_LATENCY :: int where "MAX_PPS_KERNEL_TO_USERSPACE_LATENCY = 100"

text \<open>The constant 0.000001 is rounded to \<open>4722366482869645 / 2 ^ 72\<close>.\<close>

definition dbl_millionth :: dbl where "dbl_millionth = 4722366482869645"

definition convertTimeToMilliSec :: "timespec \<Rightarrow> dbl" where
  "convertTimeToMilliSec t =
     dbl_add (dbl_of_int (tv_sec t * 1000)) (dbl_times_int (tv_nsec t) dbl_millionth)"

definition isTimeOffsetOk :: "timespec \<Rightarrow> bool" where
  "isTimeOffsetOk offsetTime =
     (\<bar>convertTimeToMilliSec offsetTime\<bar> \<le> dbl_of_int MAX_REALTIME_OFFSET_DELTA_DIFFERENCE)"

datatype kernel_reported_time_e =
  KERNEL_REPORTED_CLOCK_BOOTTIME | KERNEL_REPORTED_CLOCK_REALTIME | KERNEL_REPORTED_CLOCK_UNKNOWN

definition get_reported_time_type :: "timespec \<Rightarrow> timespec \<Rightarrow> timespec \<Rightarrow> kernel_reported_time_e" where
  "get_reported_time_type userBootTs userRealTs kernelTs =
     (let userRealMs = convertTimeToMilliSec userRealTs;
          userBootMs = convertTimeToMilliSec userBootTs;
          kernelTsMs = convertTimeToMilliSec kernelTs;
          latency = dbl_of_int MAX_PPS_KERNEL_TO_USERSPACE_LATENCY in
      if \<bar>dbl_sub userBootMs kernelTsMs\<bar> \<le> latency then KERNEL_REPORTED_CLOCK_BOOTTIME
      else if \<bar>dbl_sub userRealMs kernelTsMs\<bar> \<le> latency then KERNEL_REPORTED_CLOCK_REALTIME
      else KERNEL_REPORTED_CLOCK_UNKNOWN)"

section \<open>State\<close>

datatype lock_state = Lock_static | Lock_ready | Lock_destroyed

text \<open>The file's static variables, with those of the functions; \<open>pps_thread\<close> says whether
  \<open>threadId\<close> is a thread that was created and not yet joined, \<open>open_fds\<close> which descriptors are
  open.\<close>

record pps_state =
  drsyncKernelTs :: timespec
  drsyncUserTs :: timespec
  prevDrsyncKernelTs :: timespec
  isActive :: bool
  skipPPSPulseCnt :: int
  gnssOutageInSec :: int
  time_offset :: timespec
  isFirstPulseReceived :: bool
  skipPulseCnt :: "32 word"
  ts_lock :: lock_state
  pps_thread :: bool
  pps_handle :: int
  open_fds :: "int set"

definition zero_time :: timespec where "zero_time = \<lparr>tv_sec = 0, tv_nsec = 0\<rparr>"

definition pps_start :: pps_state where
  "pps_start = \<lparr>drsyncKernelTs = zero_time, drsyncUserTs = zero_time, prevDrsyncKernelTs = zero_time,
     isActive = False, skipPPSPulseCnt = 0, gnssOutageInSec = 1, time_offset = zero_time,
     isFirstPulseReceived = False, skipPulseCnt = 0, ts_lock = Lock_static, pps_thread = False,
     pps_handle = 0, open_fds = {}\<rparr>"

section \<open>Reading a pulse\<close>

text \<open>\<open>None\<close> is a clock that cannot be read.\<close>

definition compute_real_to_boot_time :: "timespec \<Rightarrow> timespec option \<Rightarrow> timespec option \<Rightarrow> pps_state
    \<Rightarrow> int \<times> pps_state" where
  "compute_real_to_boot_time ppsFetchTime boot_clock real_clock s =
     (case boot_clock of
        None \<Rightarrow> (-1, s)
      | Some drSyncUserBootTs \<Rightarrow>
        (case real_clock of
           None \<Rightarrow> (-1, s)
         | Some drSyncUserRealTs \<Rightarrow>
           (case get_reported_time_type drSyncUserBootTs drSyncUserRealTs ppsFetchTime of
              KERNEL_REPORTED_CLOCK_BOOTTIME \<Rightarrow>
                (0, s\<lparr>drsyncKernelTs := ppsFetchTime, drsyncUserTs := drSyncUserBootTs\<rparr>)
            | KERNEL_REPORTED_CLOCK_REALTIME \<Rightarrow>
                (let deltaRealToBootTime = calculate_time_difference drSyncUserRealTs drSyncUserBootTs;
                     deltaOffsetTime = calculate_time_difference (time_offset s) deltaRealToBootTime;
                     (retVal, s') =
                       (if time_offset s = zero_time \<or> isTimeOffsetOk deltaOffsetTime
                        then (0, s\<lparr>drsyncUserTs := drSyncUserBootTs,
                          drsyncKernelTs := pps_sync_time_add ppsFetchTime deltaRealToBootTime\<rparr>)
                        else (-1, s)) in
                 (retVal, s'\<lparr>time_offset := deltaRealToBootTime\<rparr>))
            | KERNEL_REPORTED_CLOCK_UNKNOWN \<Rightarrow> (-1, s))))"

definition EINTR :: int where "EINTR = 4"

text \<open>A pulse: the result of \<open>pps_fetch\<close>, what it leaves in \<open>infobuf\<close>, and the clocks read after it.\<close>

record pulse =
  fetch_ret :: int
  infobuf :: timespec
  boot_clock :: "timespec option"
  real_clock :: "timespec option"

definition note_pulse :: "timespec \<Rightarrow> pps_state \<Rightarrow> pps_state" where
  "note_pulse t s =
     (let s1 =
        (if \<not> isFirstPulseReceived s \<and> 0 < skipPPSPulseCnt s
         then s\<lparr>skipPulseCnt := word_of_int (skipPPSPulseCnt s), isFirstPulseReceived := True\<rparr>
         else if isFirstPulseReceived s \<and> 0 < skipPPSPulseCnt s
             \<and> gnssOutageInSec s < tv_sec t - tv_sec (prevDrsyncKernelTs s)
         then s\<lparr>skipPulseCnt := word_of_int (skipPPSPulseCnt s)\<rparr>
         else s) in
      s1\<lparr>prevDrsyncKernelTs := t\<rparr>)"

definition read_pps :: "pulse \<Rightarrow> pps_state \<Rightarrow> int \<times> pps_state" where
  "read_pps p s =
     (if fetch_ret p < 0 \<and> fetch_ret p \<noteq> - EINTR then (-1, s)
      else
        let s1 = note_pulse (infobuf p) s in
        if 0 < skipPulseCnt s1 then (0, s1\<lparr>skipPulseCnt := skipPulseCnt s1 - 1\<rparr>)
        else (0, snd (compute_real_to_boot_time (infobuf p) (boot_clock p) (real_clock p) s1)))"

text \<open>The thread's loop, over the pulses that come while the flag is set.\<close>

fun thread_handle :: "pulse list \<Rightarrow> pps_state \<Rightarrow> pps_state" where
  "thread_handle [] s = s"
| "thread_handle (p # ps) s = (if isActive s then thread_handle ps (snd (read_pps p s)) else s)"

section \<open>Opening, closing and reading the time\<close>

text \<open>\<open>fd\<close> is the result of \<open>open\<close>, \<open>params\<close> that of the \<open>ioctl\<close> of \<open>pps_create\<close>.\<close>

definition pps_create :: "int \<Rightarrow> int \<Rightarrow> pps_state \<Rightarrow> int \<times> pps_state" where
  "pps_create source params s = (if params \<noteq> 0 then (-1, s) else (0, s\<lparr>pps_handle := source\<rparr>))"

definition check_device :: "int \<Rightarrow> int \<Rightarrow> pps_state \<Rightarrow> int \<times> pps_state" where
  "check_device fd params s =
     (if fd < 0 then (fd, s)
      else case pps_create fd params (s\<lparr>open_fds := insert fd (open_fds s)\<rparr>) of
        (ret, s1) \<Rightarrow> if ret < 0 then (-1, s1) else (0, s1))"

text \<open>\<open>conf\<close> are the two settings as the configuration file leaves them, \<open>pid\<close> the result of
  \<open>pthread_create\<close>.\<close>

definition initPPS :: "int \<Rightarrow> int \<Rightarrow> int \<times> int \<Rightarrow> int \<Rightarrow> pps_state \<Rightarrow> int \<times> pps_state" where
  "initPPS fd params conf pid s =
     (case check_device fd params (s\<lparr>isActive := True\<rparr>) of
        (ret, s1) \<Rightarrow>
          if ret < 0 then (0, s1)
          else
            let s2 = s1\<lparr>skipPPSPulseCnt := fst conf, gnssOutageInSec := snd conf, ts_lock := Lock_ready\<rparr> in
            if pid \<noteq> 0 then (0, s2\<lparr>isActive := False\<rparr>) else (1, s2\<lparr>pps_thread := True\<rparr>))"

text \<open>Locking a destroyed mutex and joining a thread that was not created are undefined.\<close>

definition lock_ts :: "pps_state \<Rightarrow> unit outcome" where
  "lock_ts s = (if ts_lock s = Lock_destroyed then Faults else Returns ())"

definition deInitPPS :: "pps_state \<Rightarrow> pps_state outcome" where
  "deInitPPS s =
     andthen (lock_ts s) (\<lambda>_.
       if \<not> isActive s then Returns s
       else if \<not> pps_thread s then Faults
       else Returns (s\<lparr>isActive := False, pps_thread := False, ts_lock := Lock_destroyed,
         open_fds := open_fds s - {pps_handle s}\<rparr>))"

text \<open>\<open>clock\<close> is the boot time; the result is the return value with what is stored for the caller:
  \<open>fineKernelTs\<close>, \<open>currentTs\<close> and \<open>fineUserTs\<close>.\<close>

definition getPPS :: "timespec option \<Rightarrow> pps_state
    \<Rightarrow> (int \<times> (timespec \<times> timespec option \<times> timespec) option) outcome" where
  "getPPS clock s =
     andthen (lock_ts s) (\<lambda>_.
       if isActive s
       then Returns (if clock = None then 0 else 1, Some (drsyncKernelTs s, clock, drsyncUserTs s))
       else Returns (1, None))"

section \<open>Time arithmetic\<close>

definition ns :: "timespec \<Rightarrow> int" where "ns t = tv_sec t * 1000000000 + tv_nsec t"

text \<open>A time as the kernel reports it: normalised, and seconds of 32 bits.\<close>

definition norm_time :: "timespec \<Rightarrow> bool" where
  "norm_time t \<longleftrightarrow> 0 \<le> tv_nsec t \<and> tv_nsec t < 1000000000"

definition sec32 :: "timespec \<Rightarrow> bool" where
  "sec32 t \<longleftrightarrow> \<bar>tv_sec t\<bar> \<le> 2 ^ 32"

lemma difference_ok:
  assumes "norm_time t1" and "norm_time t2"
  shows "norm_time (calculate_time_difference t1 t2)"
    and "ns (calculate_time_difference t1 t2) = ns t2 - ns t1"
  using assms by (auto simp: calculate_time_difference_def norm_time_def ns_def BILLION_NSEC_def)

lemma add_time_ok:
  assumes "norm_time t1" and "norm_time t2"
  shows "norm_time (pps_sync_time_add t1 t2)" and "ns (pps_sync_time_add t1 t2) = ns t1 + ns t2"
  using assms by (auto simp: pps_sync_time_add_def norm_time_def ns_def BILLION_NSEC_def)

lemma ns_parts: "norm_time t \<Longrightarrow> t = \<lparr>tv_sec = ns t div 1000000000, tv_nsec = ns t mod 1000000000\<rparr>"
  by (cases t) (simp add: norm_time_def ns_def)

lemma ns_inj: "norm_time a \<Longrightarrow> norm_time b \<Longrightarrow> ns a = ns b \<Longrightarrow> a = b"
  using ns_parts by metis

text \<open>The difference of two normalised times is normalised and exact to the nanosecond, whatever
  their order, and adding it to the first gives the second back.\<close>

theorem time_difference_exact:
  assumes "norm_time t1" and "norm_time t2"
  shows "norm_time (calculate_time_difference t1 t2) \<and> ns (calculate_time_difference t1 t2) = ns t2 - ns t1 \<and>
    pps_sync_time_add t1 (calculate_time_difference t1 t2) = t2"
proof -
  note d = difference_ok [OF assms]
  have "ns (pps_sync_time_add t1 (calculate_time_difference t1 t2)) = ns t2"
    by (simp add: add_time_ok(2) [OF assms(1) d(1)] d(2))
  with d ns_inj [OF add_time_ok(1) [OF assms(1) d(1)] assms(2)] show ?thesis by simp
qed

theorem time_difference_exact_witness:
  "norm_time (calculate_time_difference \<lparr>tv_sec = 5, tv_nsec = 7\<rparr> \<lparr>tv_sec = 3, tv_nsec = 2\<rparr>) \<and>
    ns (calculate_time_difference \<lparr>tv_sec = 5, tv_nsec = 7\<rparr> \<lparr>tv_sec = 3, tv_nsec = 2\<rparr>)
      = ns \<lparr>tv_sec = 3, tv_nsec = 2\<rparr> - ns \<lparr>tv_sec = 5, tv_nsec = 7\<rparr> \<and>
    pps_sync_time_add \<lparr>tv_sec = 5, tv_nsec = 7\<rparr>
      (calculate_time_difference \<lparr>tv_sec = 5, tv_nsec = 7\<rparr> \<lparr>tv_sec = 3, tv_nsec = 2\<rparr>) = \<lparr>tv_sec = 3, tv_nsec = 2\<rparr>"
  by (rule time_difference_exact) (simp_all add: norm_time_def)

section \<open>Milliseconds in floating point\<close>

text \<open>The milliseconds of a time differ from the exact value by less than 480 nanoseconds, and by next
  to nothing for a second or less.\<close>

lemma convert_arith:
  fixes D X Y a n :: int
  assumes "D \<le> 1000000 * X + 1000000 * Y + n * 213696"
    and "9007199254740992 * X \<le> a + Y + n * 4722366482869645"
    and "0 \<le> n" and "n < 1000000000" and "9007199254740992 * Y \<le> n * 4722366482869645"
  shows "9007199254740992 * D \<le> 1000000 * a + 1000000 * 3001 * 4722366482869645213696"
  using assms by linarith

lemma convert_err:
  assumes "norm_time t" and "sec32 t"
  shows "9007199254740992 * \<bar>1000000 * convertTimeToMilliSec t - ns t * 4722366482869645213696\<bar>
    \<le> 1000000 * (\<bar>tv_sec t\<bar> * 1000 + 3001) * 4722366482869645213696"
proof -
  define n A B S where "n = tv_nsec t" and "A = tv_sec t * 1000 * 4722366482869645213696"
    and "B = dbl_times_int n dbl_millionth" and "S = convertTimeToMilliSec t"
  have n: "0 \<le> n" "n < 1000000000" using assms(1) by (simp_all add: norm_time_def n_def)
  have "dbl_of_int (tv_sec t * 1000) = A"
    using assms(2) by (subst dbl_of_int_exact) (simp_all add: A_def sec32_def abs_mult)
  then have S: "S = round53 (A + B)" by (simp add: S_def convertTimeToMilliSec_def dbl_add_def B_def n_def)
  have "9007199254740992 * \<bar>B - n * 4722366482869645\<bar> \<le> \<bar>n * 4722366482869645\<bar>"
    using round53_err [of "n * 4722366482869645"] by (simp add: B_def dbl_times_int_def dbl_millionth_def)
  then have B: "9007199254740992 * \<bar>B - n * 4722366482869645\<bar> \<le> n * 4722366482869645"
    using n(1) by (simp add: abs_mult)
  have e: "9007199254740992 * \<bar>S - (A + B)\<bar> \<le> \<bar>A + B\<bar>"
    using round53_err [of "A + B"] by (simp add: S)
  have A: "\<bar>A\<bar> = \<bar>tv_sec t\<bar> * 1000 * 4722366482869645213696" by (simp add: A_def abs_mult)
  have "ns t * 4722366482869645213696 = 1000000 * A + n * 4722366482869645213696"
    by (simp add: ns_def A_def n_def)
  moreover define x y where "x = S - (A + B)" and "y = B - n * 4722366482869645"
  ultimately have "1000000 * S - ns t * 4722366482869645213696 = 1000000 * x + 1000000 * y - n * 213696"
    by simp
  then have "\<bar>1000000 * S - ns t * 4722366482869645213696\<bar> \<le> 1000000 * \<bar>x\<bar> + 1000000 * \<bar>y\<bar> + n * 213696"
    using n(1) by linarith
  moreover have y: "9007199254740992 * \<bar>y\<bar> \<le> n * 4722366482869645" using B by (simp add: y_def)
  have "B = y + n * 4722366482869645" by (simp add: y_def)
  then have "\<bar>A + B\<bar> \<le> \<bar>A\<bar> + \<bar>y\<bar> + n * 4722366482869645" using n by linarith
  then have "9007199254740992 * \<bar>x\<bar> \<le> \<bar>A\<bar> + \<bar>y\<bar> + n * 4722366482869645"
    using e by (simp add: x_def)
  ultimately have "9007199254740992 * \<bar>1000000 * S - ns t * 4722366482869645213696\<bar>
      \<le> 1000000 * \<bar>A\<bar> + 1000000 * 3001 * 4722366482869645213696"
    using n y by (intro convert_arith)
  then show ?thesis using A by (simp add: S_def algebra_simps)
qed

lemma convert_near:
  assumes "norm_time t" and "sec32 t"
  shows "\<bar>1000000 * convertTimeToMilliSec t - ns t * 4722366482869645213696\<bar> \<le> 480 * 4722366482869645213696"
proof -
  have "\<bar>tv_sec t\<bar> \<le> 4294967296" using assms(2) by (simp add: sec32_def)
  then show ?thesis using convert_err [OF assms] by simp
qed

lemma convert_near_second:
  assumes "norm_time t" and "\<bar>tv_sec t\<bar> \<le> 1"
  shows "\<bar>1000000 * convertTimeToMilliSec t - ns t * 4722366482869645213696\<bar> < 4722366482869645213696"
proof -
  have "sec32 t" using assms(2) by (simp add: sec32_def)
  from convert_err [OF assms(1) this] assms(2) show ?thesis by simp
qed

text \<open>A comparison of a number of milliseconds in floating point with a whole number of them, when the
  number is off by less than \<open>d\<close> nanoseconds.\<close>

lemma near_le:
  fixes S N C d :: int
  assumes "\<bar>1000000 * S - N * C\<bar> \<le> d * C" and "0 < C"
  shows "\<bar>N\<bar> + d \<le> 1000000 * k \<Longrightarrow> \<bar>S\<bar> \<le> k * C"
    and "1000000 * k < \<bar>N\<bar> - d \<Longrightarrow> k * C < \<bar>S\<bar>"
proof -
  have S: "1000000 * \<bar>S\<bar> \<le> (\<bar>N\<bar> + d) * C" "(\<bar>N\<bar> - d) * C \<le> 1000000 * \<bar>S\<bar>"
    using abs_near [OF assms(1)] assms(2) by (simp_all add: abs_mult distrib_right left_diff_distrib)
  show "\<bar>S\<bar> \<le> k * C" if "\<bar>N\<bar> + d \<le> 1000000 * k"
  proof -
    have "(\<bar>N\<bar> + d) * C \<le> 1000000 * k * C" by (rule mult_right_mono) (use that assms(2) in simp_all)
    with S(1) show ?thesis by simp
  qed
  show "k * C < \<bar>S\<bar>" if "1000000 * k < \<bar>N\<bar> - d"
  proof -
    have "1000000 * k * C < (\<bar>N\<bar> - d) * C" by (rule mult_strict_right_mono) (use that assms(2) in simp_all)
    with S(2) show ?thesis by simp
  qed
qed

lemma ten_ms: "dbl_of_int MAX_REALTIME_OFFSET_DELTA_DIFFERENCE = 10 * 4722366482869645213696"
  by (simp add: MAX_REALTIME_OFFSET_DELTA_DIFFERENCE_def dbl_of_int_exact)

lemma hundred_ms: "dbl_of_int MAX_PPS_KERNEL_TO_USERSPACE_LATENCY = 100 * 4722366482869645213696"
  by (simp add: MAX_PPS_KERNEL_TO_USERSPACE_LATENCY_def dbl_of_int_exact)

text \<open>The boundary itself, by evaluation.\<close>

lemma boundary_ok:
  "isTimeOffsetOk \<lparr>tv_sec = 0, tv_nsec = 10000000\<rparr>" "isTimeOffsetOk \<lparr>tv_sec = - 1, tv_nsec = 990000000\<rparr>"
  by code_simp+

lemma offset_test:
  assumes "norm_time t" and "sec32 t"
  shows "isTimeOffsetOk t = (\<bar>ns t\<bar> \<le> 10000000)"
proof (cases "\<bar>tv_sec t\<bar> \<le> 1")
  case False
  then have big: "1000000000 \<le> \<bar>ns t\<bar>" using assms(1) unfolding ns_def norm_time_def by linarith
  have "10 * 4722366482869645213696 < \<bar>convertTimeToMilliSec t\<bar>"
    by (rule near_le(2) [OF convert_near [OF assms]]) (use big in simp_all)
  then show ?thesis using big by (simp add: isTimeOffsetOk_def ten_ms)
next
  case True
  note near = convert_near_second [OF assms(1) True]
  consider "\<bar>ns t\<bar> < 10000000" | "\<bar>ns t\<bar> = 10000000" | "10000000 < \<bar>ns t\<bar>" by linarith
  then show ?thesis
  proof cases
    case 1
    have "\<bar>convertTimeToMilliSec t\<bar> \<le> 10 * 4722366482869645213696"
      by (rule near_le(1) [where d = 1 and N = "ns t"]) (use near 1 in simp_all)
    then show ?thesis using 1 by (simp add: isTimeOffsetOk_def ten_ms)
  next
    case 2
    then have "ns t = 10000000 \<or> ns t = - 10000000" by linarith
    then have "t = \<lparr>tv_sec = 0, tv_nsec = 10000000\<rparr> \<or> t = \<lparr>tv_sec = - 1, tv_nsec = 990000000\<rparr>"
      using ns_parts [OF assms(1)] by (elim disjE) simp_all
    then show ?thesis using 2 boundary_ok by auto
  next
    case 3
    have "10 * 4722366482869645213696 < \<bar>convertTimeToMilliSec t\<bar>"
      using near 3 by linarith
    then show ?thesis using 3 by (simp add: isTimeOffsetOk_def ten_ms)
  qed
qed

text \<open>C23: the test in floating point whether an offset is within ten milliseconds is exact: rounding never
  changes its outcome, even at the boundary.\<close>

theorem offset_test_exact:
  assumes "norm_time t" and "sec32 t"
  shows "isTimeOffsetOk t = (\<bar>ns t\<bar> \<le> 10000000)"
  by (rule offset_test [OF assms])

theorem offset_test_exact_witness:
  "isTimeOffsetOk \<lparr>tv_sec = - 1, tv_nsec = 989999999\<rparr> = (\<bar>ns \<lparr>tv_sec = - 1, tv_nsec = 989999999\<rparr>\<bar> \<le> 10000000)"
  by (rule offset_test_exact) (simp_all add: norm_time_def sec32_def)

lemma latency_arith:
  fixes D N S :: int
  assumes "\<bar>1000000 * D - N * 4722366482869645213696\<bar> \<le> 960 * 4722366482869645213696"
    and "9007199254740992 * \<bar>S - D\<bar> \<le> \<bar>D\<bar>"
  shows "\<bar>N\<bar> \<le> 99999000 \<Longrightarrow> \<bar>S\<bar> \<le> 100 * 4722366482869645213696"
    and "100001000 \<le> \<bar>N\<bar> \<Longrightarrow> 100 * 4722366482869645213696 < \<bar>S\<bar>"
proof -
  have D: "1000000 * \<bar>D\<bar> \<le> (\<bar>N\<bar> + 960) * 4722366482869645213696"
    "(\<bar>N\<bar> - 960) * 4722366482869645213696 \<le> 1000000 * \<bar>D\<bar>"
    using abs_near [OF assms(1)] by (simp_all add: abs_mult distrib_right left_diff_distrib)
  have S: "\<bar>S\<bar> \<le> \<bar>D\<bar> + \<bar>S - D\<bar>" "\<bar>D\<bar> - \<bar>S - D\<bar> \<le> \<bar>S\<bar>" by linarith+
  show "\<bar>N\<bar> \<le> 99999000 \<Longrightarrow> \<bar>S\<bar> \<le> 100 * 4722366482869645213696"
    using D(1) S(1) assms(2) by simp
  show "100001000 \<le> \<bar>N\<bar> \<Longrightarrow> 100 * 4722366482869645213696 < \<bar>S\<bar>"
    using D(2) S(2) assms(2) by simp
qed

text \<open>The test of the latency, exact up to a microsecond.\<close>

lemma latency_test:
  assumes "norm_time a" "sec32 a" "norm_time b" "sec32 b"
  shows "\<bar>ns a - ns b\<bar> \<le> 99999000 \<Longrightarrow>
      \<bar>dbl_sub (convertTimeToMilliSec a) (convertTimeToMilliSec b)\<bar> \<le> 100 * 4722366482869645213696"
    and "100001000 \<le> \<bar>ns a - ns b\<bar> \<Longrightarrow>
      100 * 4722366482869645213696 < \<bar>dbl_sub (convertTimeToMilliSec a) (convertTimeToMilliSec b)\<bar>"
proof -
  define x y S where "x = convertTimeToMilliSec a" and "y = convertTimeToMilliSec b" and "S = dbl_sub x y"
  have "\<bar>1000000 * (x - y) - (ns a - ns b) * 4722366482869645213696\<bar> \<le> 960 * 4722366482869645213696"
    using convert_near [OF assms(1,2)] convert_near [OF assms(3,4)]
    unfolding x_def y_def by (simp add: left_diff_distrib right_diff_distrib)
  moreover have "9007199254740992 * \<bar>S - (x - y)\<bar> \<le> \<bar>x - y\<bar>"
    using round53_err [of "x - y"] by (simp add: S_def dbl_sub_def)
  ultimately show "\<bar>ns a - ns b\<bar> \<le> 99999000 \<Longrightarrow> \<bar>S\<bar> \<le> 100 * 4722366482869645213696"
    and "100001000 \<le> \<bar>ns a - ns b\<bar> \<Longrightarrow> 100 * 4722366482869645213696 < \<bar>S\<bar>"
    using latency_arith by blast+
qed

section \<open>The kind of clock\<close>

lemma reported_type:
  assumes "norm_time b" "sec32 b" "norm_time r" "sec32 r" "norm_time k" "sec32 k"
  shows "get_reported_time_type b r k = KERNEL_REPORTED_CLOCK_BOOTTIME \<Longrightarrow> \<bar>ns b - ns k\<bar> < 100001000"
    and "get_reported_time_type b r k = KERNEL_REPORTED_CLOCK_REALTIME \<Longrightarrow> \<bar>ns r - ns k\<bar> < 100001000"
  using latency_test(2) [OF assms(1,2,5,6)] latency_test(2) [OF assms(3,4,5,6)]
  by (auto simp: get_reported_time_type_def Let_def hundred_ms not_less [symmetric] split: if_splits)

text \<open>A kernel time stamp within 99.999 milliseconds of the boot time is taken for boot time; one more
  than 100.001 milliseconds from it, but within 99.999 of the real time, for real time; and one
  more than 100.001 from both for neither.\<close>

theorem clock_recognised:
  assumes "norm_time b" "sec32 b" "norm_time r" "sec32 r" "norm_time k" "sec32 k"
  shows "(\<bar>ns b - ns k\<bar> \<le> 99999000 \<longrightarrow> get_reported_time_type b r k = KERNEL_REPORTED_CLOCK_BOOTTIME) \<and>
    (100001000 \<le> \<bar>ns b - ns k\<bar> \<longrightarrow> \<bar>ns r - ns k\<bar> \<le> 99999000 \<longrightarrow>
      get_reported_time_type b r k = KERNEL_REPORTED_CLOCK_REALTIME) \<and>
    (100001000 \<le> \<bar>ns b - ns k\<bar> \<longrightarrow> 100001000 \<le> \<bar>ns r - ns k\<bar> \<longrightarrow>
      get_reported_time_type b r k = KERNEL_REPORTED_CLOCK_UNKNOWN)"
  using latency_test [OF assms(1,2,5,6)] latency_test [OF assms(3,4,5,6)]
  by (auto simp: get_reported_time_type_def Let_def hundred_ms not_less [symmetric])

theorem clock_recognised_witness:
  "get_reported_time_type \<lparr>tv_sec = 500, tv_nsec = 2\<rparr> \<lparr>tv_sec = 1700000000, tv_nsec = 5000000\<rparr>
     \<lparr>tv_sec = 1700000000, tv_nsec = 0\<rparr> = KERNEL_REPORTED_CLOCK_REALTIME"
  using clock_recognised [of "\<lparr>tv_sec = 500, tv_nsec = 2\<rparr>" "\<lparr>tv_sec = 1700000000, tv_nsec = 5000000\<rparr>"
      "\<lparr>tv_sec = 1700000000, tv_nsec = 0\<rparr>"]
  by (simp add: norm_time_def sec32_def ns_def)

section \<open>Converting a pulse\<close>

definition delta :: "timespec \<Rightarrow> timespec \<Rightarrow> int" where "delta b r = ns b - ns r"

lemma sec32_ns:
  assumes "norm_time t" and "\<bar>ns t\<bar> \<le> 2 ^ 32 * 1000000000"
  shows "sec32 t"
proof -
  have "tv_sec t * 1000000000 + tv_nsec t \<le> 4294967296 * 1000000000"
    "- (4294967296 * 1000000000) \<le> tv_sec t * 1000000000 + tv_nsec t"
    using assms(2) by (simp_all add: ns_def abs_le_iff)
  then have "tv_sec t \<le> 4294967296" "- 4294967296 \<le> tv_sec t"
    using assms(1) unfolding norm_time_def by linarith+
  then show ?thesis by (simp add: sec32_def abs_le_iff)
qed

text \<open>C22: a pulse stamped in real time is kept in boot time, shifted by the difference of the two clocks,
  as long as that difference is within ten milliseconds of the last one. A wall clock that jumped
  further skips the pulse, keeps the old time, and remembers the new difference.\<close>

theorem real_time_converted:
  assumes "get_reported_time_type b r k = KERNEL_REPORTED_CLOCK_REALTIME"
    and "norm_time b" "sec32 b" "norm_time r" "sec32 r" "norm_time k"
    and "norm_time (time_offset s)" and "\<bar>ns (time_offset s)\<bar> \<le> 2 ^ 31 * 1000000000"
    and "\<bar>delta b r\<bar> \<le> 2 ^ 31 * 1000000000" and "time_offset s \<noteq> zero_time"
    and "compute_real_to_boot_time k (Some b) (Some r) s = (rc, s')"
  shows "ns (time_offset s') = delta b r \<and>
    (if \<bar>delta b r - ns (time_offset s)\<bar> \<le> 10000000
     then rc = 0 \<and> drsyncUserTs s' = b \<and> ns (drsyncKernelTs s') = ns k + delta b r
     else rc = -1 \<and> drsyncUserTs s' = drsyncUserTs s \<and> drsyncKernelTs s' = drsyncKernelTs s)"
proof -
  let ?d = "calculate_time_difference r b"
  let ?o = "calculate_time_difference (time_offset s) ?d"
  have d: "norm_time ?d" "ns ?d = delta b r" using difference_ok [OF assms(4,2)] by (simp_all add: delta_def)
  have o: "norm_time ?o" "ns ?o = delta b r - ns (time_offset s)"
    using difference_ok [OF assms(7) d(1)] d(2) by simp_all
  have "\<bar>ns ?o\<bar> \<le> 2 ^ 32 * 1000000000" using assms(8,9) o(2) by simp
  then have "sec32 ?o" by (rule sec32_ns [OF o(1)])
  then have t: "isTimeOffsetOk ?o = (\<bar>delta b r - ns (time_offset s)\<bar> \<le> 10000000)"
    using offset_test [OF o(1)] o(2) by simp
  have k: "ns (pps_sync_time_add k ?d) = ns k + delta b r" using add_time_ok(2) [OF assms(6) d(1)] d(2) by simp
  show ?thesis
    using assms(1,10,11) t d(2) k by (auto simp: compute_real_to_boot_time_def Let_def)
qed

text \<open>A witness: a pulse in real time, with the offset as before.\<close>

definition demo_boot :: timespec where "demo_boot = \<lparr>tv_sec = 500, tv_nsec = 2\<rparr>"
definition demo_real :: timespec where "demo_real = \<lparr>tv_sec = 1700000000, tv_nsec = 5000000\<rparr>"
definition demo_stamp :: timespec where "demo_stamp = \<lparr>tv_sec = 1700000000, tv_nsec = 0\<rparr>"

definition demo_pps :: pps_state where
  "demo_pps = pps_start\<lparr>time_offset := \<lparr>tv_sec = - 1699999501, tv_nsec = 995000000\<rparr>\<rparr>"

lemma demo_real_type: "get_reported_time_type demo_boot demo_real demo_stamp = KERNEL_REPORTED_CLOCK_REALTIME"
  by code_simp

lemmas demo_pps_defs = demo_boot_def demo_real_def demo_stamp_def demo_pps_def pps_start_def zero_time_def
  norm_time_def sec32_def ns_def delta_def

theorem real_time_converted_witness:
  "let s' = snd (compute_real_to_boot_time demo_stamp (Some demo_boot) (Some demo_real) demo_pps);
       rc = fst (compute_real_to_boot_time demo_stamp (Some demo_boot) (Some demo_real) demo_pps) in
   ns (time_offset s') = delta demo_boot demo_real \<and>
    (if \<bar>delta demo_boot demo_real - ns (time_offset demo_pps)\<bar> \<le> 10000000
     then rc = 0 \<and> drsyncUserTs s' = demo_boot \<and> ns (drsyncKernelTs s') = ns demo_stamp + delta demo_boot demo_real
     else rc = -1 \<and> drsyncUserTs s' = drsyncUserTs demo_pps \<and> drsyncKernelTs s' = drsyncKernelTs demo_pps)"
  unfolding Let_def
  by (rule real_time_converted [OF demo_real_type]) (simp_all add: demo_pps_defs)

section \<open>Every time that is handed out\<close>

definition pulse_ok :: "pulse \<Rightarrow> bool" where
  "pulse_ok p \<longleftrightarrow> norm_time (infobuf p) \<and> sec32 (infobuf p) \<and>
     pred_option (\<lambda>t. norm_time t \<and> sec32 t) (boot_clock p) \<and>
     pred_option (\<lambda>t. norm_time t \<and> sec32 t) (real_clock p)"

text \<open>The two times of a pulse are close, and normalised.\<close>

definition synced :: "pps_state \<Rightarrow> bool" where
  "synced s \<longleftrightarrow> norm_time (drsyncKernelTs s) \<and> norm_time (drsyncUserTs s) \<and>
     \<bar>ns (drsyncUserTs s) - ns (drsyncKernelTs s)\<bar> < 100001000"

lemma compute_synced:
  assumes "synced s" and "pulse_ok p"
  shows "synced (snd (compute_real_to_boot_time (infobuf p) (boot_clock p) (real_clock p) s))"
proof (cases "boot_clock p = None \<or> real_clock p = None")
  case True
  then show ?thesis using assms(1) by (auto simp: compute_real_to_boot_time_def split: option.split)
next
  case False
  then obtain b r where c: "boot_clock p = Some b" "real_clock p = Some r" by auto
  let ?k = "infobuf p" and ?d = "calculate_time_difference r b"
  have n: "norm_time b" "sec32 b" "norm_time r" "sec32 r" "norm_time ?k" "sec32 ?k"
    using assms(2) by (auto simp: pulse_ok_def c)
  note type = reported_type [OF n]
  note d = difference_ok [OF n(3,1)] and a = add_time_ok [OF n(5) difference_ok(1) [OF n(3,1)]]
  show ?thesis
  proof (cases "get_reported_time_type b r ?k")
    case KERNEL_REPORTED_CLOCK_BOOTTIME
    then show ?thesis using type(1) n by (simp add: compute_real_to_boot_time_def c synced_def)
  next
    case KERNEL_REPORTED_CLOCK_REALTIME
    then show ?thesis using type(2) n d a assms(1)
      by (simp add: compute_real_to_boot_time_def c synced_def Let_def)
  next
    case KERNEL_REPORTED_CLOCK_UNKNOWN
    then show ?thesis using assms(1) by (simp add: compute_real_to_boot_time_def c)
  qed
qed

lemma note_pulse_synced: "synced (note_pulse t s) = synced s"
  by (simp add: note_pulse_def synced_def Let_def)

lemma read_synced: "synced s \<Longrightarrow> pulse_ok p \<Longrightarrow> synced (snd (read_pps p s))"
  using compute_synced [of "note_pulse (infobuf p) s" p]
  by (simp add: read_pps_def Let_def note_pulse_synced) (simp add: synced_def note_pulse_def Let_def)

text \<open>C21: whatever pulses the thread reads, with whatever failures, outages and jumps of the wall clock,
  the two times kept for \<open>getPPS\<close> are normalised and belong together: the user's is within 100.001
  milliseconds of the kernel's. The clocks and every time stamp the code looks at are normalised.\<close>

theorem pps_always_synced:
  assumes "synced s" and "list_all pulse_ok ps"
  shows "synced (thread_handle ps s)"
  using assms
proof (induction ps arbitrary: s)
  case (Cons p ps)
  then show ?case using read_synced [of s p] by simp
qed simp

theorem pps_always_synced_witness:
  "synced (thread_handle
     [\<lparr>fetch_ret = 0, infobuf = demo_stamp, boot_clock = Some demo_boot, real_clock = Some demo_real\<rparr>]
     (pps_start\<lparr>isActive := True\<rparr>))"
  by (rule pps_always_synced) (simp_all add: synced_def pulse_ok_def demo_pps_defs)

section \<open>Skipped pulses\<close>

text \<open>Fetched pulses with no outage between them; \<open>t\<close> is the second of the one before.\<close>

fun steady :: "int \<Rightarrow> int \<Rightarrow> pulse list \<Rightarrow> bool" where
  "steady gap t [] = True"
| "steady gap t (p # ps) = (0 \<le> fetch_ret p \<and> tv_sec (infobuf p) - t \<le> gap \<and> steady gap (tv_sec (infobuf p)) ps)"

text \<open>Counting down while pulses are skipped.\<close>

lemma skip_countdown:
  assumes "isActive s" and "isFirstPulseReceived s" and "length ps \<le> unat (skipPulseCnt s)"
    and "steady (gnssOutageInSec s) (tv_sec (prevDrsyncKernelTs s)) ps"
  shows "\<exists>t. thread_handle ps s =
    s\<lparr>skipPulseCnt := skipPulseCnt s - of_nat (length ps), prevDrsyncKernelTs := t\<rparr>"
  using assms
proof (induction ps arbitrary: s)
  case Nil
  then show ?case by (intro exI [of _ "prevDrsyncKernelTs s"]) simp
next
  case (Cons p ps)
  let ?s = "s\<lparr>prevDrsyncKernelTs := infobuf p, skipPulseCnt := skipPulseCnt s - 1\<rparr>"
  have "0 < unat (skipPulseCnt s)" using Cons.prems(3) by simp
  then have pos: "0 < skipPulseCnt s" by (simp add: unat_gt_0 word_gt_0)
  have r: "snd (read_pps p s) = ?s"
    using Cons.prems(2,4) pos by (simp add: read_pps_def note_pulse_def Let_def)
  have "unat (skipPulseCnt s - 1) = unat (skipPulseCnt s) - 1"
    using pos by (simp add: unat_minus_one word_gt_0)
  then have "length ps \<le> unat (skipPulseCnt ?s)" using Cons.prems(3) by simp
  then obtain t where "thread_handle ps ?s =
      ?s\<lparr>skipPulseCnt := skipPulseCnt ?s - of_nat (length ps), prevDrsyncKernelTs := t\<rparr>"
    using Cons.IH [of ?s] Cons.prems by auto
  then show ?case using Cons.prems(1) r by (intro exI [of _ t]) (simp add: algebra_simps)
qed

text \<open>With a count of \<open>n\<close> pulses to ignore, the first \<open>n\<close> pulses of the thread, if they come without an
  outage, leave the stored times as they are and are counted down; after them the count is zero.\<close>

theorem first_pulses_skipped:
  assumes "isActive s" and "\<not> isFirstPulseReceived s" and "0 < skipPPSPulseCnt s" and "skipPPSPulseCnt s < 2 ^ 31"
    and "0 \<le> fetch_ret p" and "steady (gnssOutageInSec s) (tv_sec (infobuf p)) ps"
    and "Suc (length ps) \<le> nat (skipPPSPulseCnt s)"
  shows "drsyncKernelTs (thread_handle (p # ps) s) = drsyncKernelTs s \<and>
    drsyncUserTs (thread_handle (p # ps) s) = drsyncUserTs s \<and>
    uint (skipPulseCnt (thread_handle (p # ps) s)) = skipPPSPulseCnt s - 1 - int (length ps)"
proof -
  define n :: "32 word" where "n = word_of_int (skipPPSPulseCnt s)"
  have n: "uint n = skipPPSPulseCnt s" using assms(3,4) by (simp add: n_def uint_word_of_int)
  then have pos: "0 < n" using assms(3) by (simp add: word_less_def)
  let ?s = "s\<lparr>isFirstPulseReceived := True, prevDrsyncKernelTs := infobuf p, skipPulseCnt := n - 1\<rparr>"
  have r: "snd (read_pps p s) = ?s"
    using assms(2,3,5) pos by (simp add: read_pps_def note_pulse_def Let_def n_def)
  have "unat (n - 1) = unat n - 1" using pos by (simp add: unat_minus_one word_gt_0)
  moreover have "unat n = nat (skipPPSPulseCnt s)" using n by (simp add: unat_eq_nat_uint)
  ultimately have m: "uint (n - 1) = skipPPSPulseCnt s - 1" using assms(3) by (subst uint_nat) simp
  have u: "unat (n - 1) = nat (skipPPSPulseCnt s) - 1"
    using m assms(3) by (simp add: unat_eq_nat_uint nat_diff_distrib)
  then have len: "length ps \<le> unat (n - 1)" using assms(7) by simp
  obtain t where t: "thread_handle ps ?s =
      ?s\<lparr>skipPulseCnt := n - 1 - of_nat (length ps), prevDrsyncKernelTs := t\<rparr>"
    using skip_countdown [of ?s ps] assms(1,6) len by auto
  have "uint (n - 1 - of_nat (length ps) :: 32 word) = skipPPSPulseCnt s - 1 - int (length ps)"
  proof -
    have le: "of_nat (length ps) \<le> n - 1" using len by (simp add: word_le_nat_alt unat_of_nat)
    have "int (length ps) < 2 ^ 32" using len m assms(4) by (simp add: unat_eq_nat_uint)
    then have "uint (of_nat (length ps) :: 32 word) = int (length ps)" by (simp add: uint_nat unat_of_nat)
    with le m show ?thesis by (simp add: uint_sub_if_size word_le_def)
  qed
  with t r assms(1) show ?thesis by simp
qed

definition demo_pulse :: "int \<Rightarrow> pulse" where
  "demo_pulse t = \<lparr>fetch_ret = 0, infobuf = \<lparr>tv_sec = t, tv_nsec = 0\<rparr>, boot_clock = None, real_clock = None\<rparr>"

theorem first_pulses_skipped_witness:
  "let s = pps_start\<lparr>isActive := True, skipPPSPulseCnt := 3\<rparr>; ps = [demo_pulse 11, demo_pulse 12] in
   drsyncKernelTs (thread_handle (demo_pulse 10 # ps) s) = drsyncKernelTs s \<and>
    drsyncUserTs (thread_handle (demo_pulse 10 # ps) s) = drsyncUserTs s \<and>
    uint (skipPulseCnt (thread_handle (demo_pulse 10 # ps) s)) = skipPPSPulseCnt s - 1 - int (length ps)"
  unfolding Let_def by (rule first_pulses_skipped) (simp_all add: pps_start_def demo_pulse_def)

section \<open>A start that fails\<close>

text \<open>When the device cannot be opened, or is no pulse source, \<open>initPPS\<close> reports the failure but leaves the
  flag set: \<open>getPPS\<close> then succeeds with times that were never measured, \<open>deInitPPS\<close> joins a thread that
  was not created, and a descriptor that was opened stays open.\<close>

theorem failed_init_stays_active:
  assumes "fd < 0 \<or> params \<noteq> 0"
  shows "\<exists>s. initPPS fd params conf pid pps_start = (0, s) \<and>
    getPPS (Some now) s = Returns (1, Some (zero_time, Some now, zero_time)) \<and> deInitPPS s = Faults \<and>
    (fd \<in> open_fds s) = (0 \<le> fd)"
  using assms
  by (auto simp: initPPS_def check_device_def pps_create_def getPPS_def deInitPPS_def lock_ts_def pps_start_def)

theorem failed_init_stays_active_witness:
  "\<exists>s. initPPS 7 (-1) (0, 1) 0 pps_start = (0, s) \<and>
    getPPS (Some demo_boot) s = Returns (1, Some (zero_time, Some demo_boot, zero_time)) \<and>
    deInitPPS s = Faults \<and> ((7 :: int) \<in> open_fds s) = ((0 :: int) \<le> 7)"
  by (rule failed_init_stays_active) simp

text \<open>A successful start, its end, and what is left.\<close>

lemma init_deinit:
  assumes "0 \<le> fd"
  shows "\<exists>s s'. initPPS fd 0 conf 0 pps_start = (1, s) \<and> deInitPPS s = Returns s' \<and>
    \<not> isActive s' \<and> open_fds s' = {} \<and> getPPS c s' = Faults \<and> deInitPPS s' = Faults"
  using assms
  by (auto simp: initPPS_def check_device_def pps_create_def getPPS_def deInitPPS_def lock_ts_def pps_start_def)

end
