(* ===== verification/MemoryStream.thy ===== *)
theory MemoryStream
  imports Bytes
begin

text \<open>
  The byte streams of \<open>utils/base_util/src/memorystream.cpp\<close>: an output stream grows its buffer as
  bytes are appended, an input stream takes the buffer over and hands the bytes out. A buffer is the
  list of its bytes; sizes are those of objects in memory, whose sums do not reach \<open>2 ^ 64\<close>.
\<close>

section \<open>Output\<close>

text \<open>\<open>out_data\<close> is a null pointer or a buffer of \<open>out_capacity\<close> bytes.\<close>

record out_stream =
  out_data :: "8 word list option"
  m_put_cursor :: nat
  out_capacity :: nat

definition min_length :: nat where "min_length = 64"

definition new_out_stream :: out_stream where
  "new_out_stream = \<lparr>out_data = None, m_put_cursor = 0, out_capacity = 0\<rparr>"

text \<open>\<open>alloc n\<close> is what \<open>new (std::nothrow) BYTE[n]\<close> gives: \<open>n\<close> bytes of any content, or nothing.\<close>

definition new_capacity :: "nat \<Rightarrow> out_stream \<Rightarrow> nat" where
  "new_capacity len s =
     (let n = m_put_cursor s + len in
      if n < min_length then min_length
      else if n < out_capacity s * 2 then out_capacity s * 2
      else n)"

definition expand :: "(nat \<Rightarrow> 8 word list option) \<Rightarrow> nat \<Rightarrow> out_stream \<Rightarrow> int \<times> out_stream" where
  "expand alloc len s =
     (if len = 0 then (2, s)
      else if len < out_capacity s - m_put_cursor s then (0, s)
      else case alloc (new_capacity len s) of
        None \<Rightarrow> (3, s)
      | Some new_buffer \<Rightarrow>
          (0, s\<lparr>out_data := Some (case out_data s of
                None \<Rightarrow> new_buffer
              | Some old \<Rightarrow> put_bytes 0 (take (m_put_cursor s) old) new_buffer),
            out_capacity := new_capacity len s\<rparr>))"

text \<open>The store faults outside the buffer.\<close>

definition append_bytes :: "(nat \<Rightarrow> 8 word list option) \<Rightarrow> 8 word list \<Rightarrow> out_stream \<Rightarrow> (int \<times> out_stream) outcome" where
  "append_bytes alloc bs s =
     (case expand alloc (length bs) s of (rc, s1) \<Rightarrow>
        if rc \<noteq> 0 then Returns (2, s1)
        else case out_data s1 of
          None \<Rightarrow> Faults
        | Some buf \<Rightarrow>
            if m_put_cursor s1 + length bs \<le> length buf
            then Returns (0, s1\<lparr>out_data := Some (put_bytes (int (m_put_cursor s1)) bs buf),
              m_put_cursor := m_put_cursor s1 + length bs\<rparr>)
            else Faults)"

definition releaseBufferOwnership :: "out_stream \<Rightarrow> out_stream" where
  "releaseBufferOwnership s = s\<lparr>out_data := None, m_put_cursor := 0, out_capacity := 0\<rparr>"

section \<open>Input\<close>

record in_stream =
  m_ownership :: bool
  in_data :: "8 word list option"
  m_get_cursor :: nat
  in_capacity :: nat

text \<open>\<open>createInstance\<close>, without or with an output stream.\<close>

definition new_in_stream :: "out_stream option \<Rightarrow> in_stream \<times> out_stream option" where
  "new_in_stream ostr =
     (case ostr of
        None \<Rightarrow> (\<lparr>m_ownership = False, in_data = None, m_get_cursor = 0, in_capacity = 0\<rparr>, None)
      | Some s \<Rightarrow> (\<lparr>m_ownership = True, in_data = out_data s, m_get_cursor = 0, in_capacity = m_put_cursor s\<rparr>,
          Some (releaseBufferOwnership s)))"

definition setBufferNoDup :: "8 word list option \<Rightarrow> nat \<Rightarrow> in_stream \<Rightarrow> int \<times> in_stream" where
  "setBufferNoDup pIn len s =
     (0, s\<lparr>m_ownership := False, in_data := pIn, in_capacity := len, m_get_cursor := 0\<rparr>)"

text \<open>\<open>None\<close> is a null pointer to the pointer, which is cleared when the buffer is taken over.\<close>

definition setBufferOwnership :: "8 word list option option \<Rightarrow> nat \<Rightarrow> in_stream
    \<Rightarrow> int \<times> 8 word list option option \<times> in_stream" where
  "setBufferOwnership ppIn len s =
     (case ppIn of
        None \<Rightarrow> (2, None, s)
      | Some pIn \<Rightarrow>
        (case setBufferNoDup pIn len s of
          (rc, s1) \<Rightarrow> if rc \<noteq> 0 then (3, ppIn, s1) else (0, Some None, s1\<lparr>m_ownership := True\<rparr>)))"

text \<open>\<open>null\<close> says that the caller wants no copy; the bytes are the copy.\<close>

definition extract_bytes :: "bool \<Rightarrow> nat \<Rightarrow> in_stream \<Rightarrow> (int \<times> 8 word list option \<times> in_stream) outcome" where
  "extract_bytes null len s =
     (if len = 0 then Returns (3, None, s)
      else case in_data s of
        None \<Rightarrow> Returns (4, None, s)
      | Some buf \<Rightarrow>
        if in_capacity s - m_get_cursor s < len then Returns (5, None, s)
        else
          let s1 = s\<lparr>m_get_cursor := m_get_cursor s + len\<rparr> in
          if null then Returns (0, None, s1)
          else if m_get_cursor s + len \<le> length buf
          then Returns (0, Some (get_bytes (int (m_get_cursor s)) len buf), s1)
          else Faults)"

definition setGetCursor :: "nat \<Rightarrow> in_stream \<Rightarrow> int \<times> in_stream" where
  "setGetCursor cursor s = (if cursor \<le> in_capacity s then (0, s\<lparr>m_get_cursor := cursor\<rparr>) else (1, s))"

text \<open>A clone is a copy that owns its buffer, if there is one.\<close>

definition clone_in :: "in_stream \<Rightarrow> in_stream outcome" where
  "clone_in s =
     (case in_data s of
        None \<Rightarrow> Returns s
      | Some buf \<Rightarrow>
        if in_capacity s \<le> length buf
        then Returns (s\<lparr>in_data := Some (take (in_capacity s) buf), m_ownership := True\<rparr>)
        else Faults)"

section \<open>Output keeps what was appended\<close>

definition alloc_ok :: "(nat \<Rightarrow> 8 word list option) \<Rightarrow> bool" where
  "alloc_ok alloc \<longleftrightarrow> (\<forall>n bs. alloc n = Some bs \<longrightarrow> length bs = n)"

text \<open>The stream holds the bytes \<open>bs\<close>.\<close>

definition holds :: "out_stream \<Rightarrow> 8 word list \<Rightarrow> bool" where
  "holds s bs \<longleftrightarrow> m_put_cursor s = length bs \<and> length bs \<le> out_capacity s \<and>
     (case out_data s of
        None \<Rightarrow> bs = [] \<and> out_capacity s = 0
      | Some buf \<Rightarrow> length buf = out_capacity s \<and> take (length bs) buf = bs)"

lemma holds_new: "holds new_out_stream []"
  by (simp add: holds_def new_out_stream_def)

lemma new_capacity_enough: "m_put_cursor s + len \<le> new_capacity len s"
  by (simp add: new_capacity_def Let_def)

lemma expand_holds:
  assumes "alloc_ok alloc" and "holds s bs" and "expand alloc len s = (0, s')"
  shows "holds s' bs \<and> length bs + len \<le> out_capacity s' \<and> out_data s' \<noteq> None"
proof (cases "len < out_capacity s - m_put_cursor s")
  case True
  then have "s' = s" using assms(3) by (auto simp: expand_def split: if_splits)
  then show ?thesis using True assms(2) by (auto simp: holds_def split: option.splits)
next
  case False
  then obtain new where n: "alloc (new_capacity len s) = Some new" and len: "len \<noteq> 0"
    and s': "s' = s\<lparr>out_data := Some (case out_data s of None \<Rightarrow> new
        | Some old \<Rightarrow> put_bytes 0 (take (m_put_cursor s) old) new), out_capacity := new_capacity len s\<rparr>"
    using assms(3) by (auto simp: expand_def split: if_splits option.splits)
  have cap: "length new = new_capacity len s" "length bs + len \<le> new_capacity len s"
    using assms(1,2) n new_capacity_enough [of s len] by (auto simp: alloc_ok_def holds_def)
  show ?thesis
  proof (cases "out_data s")
    case None
    then show ?thesis using assms(2) cap s' by (simp add: holds_def)
  next
    case (Some old)
    then have "take (m_put_cursor s) old = bs" using assms(2) by (simp add: holds_def)
    then show ?thesis using assms(2) cap s' Some by (simp add: holds_def put_bytes_def)
  qed
qed

lemma append_holds:
  assumes "alloc_ok alloc" and "holds s bs"
  shows "\<exists>rc s'. append_bytes alloc vs s = Returns (rc, s') \<and>
    (if rc = 0 then vs \<noteq> [] \<and> holds s' (bs @ vs) else rc = 2 \<and> s' = s)"
proof -
  obtain rc s1 where e: "expand alloc (length vs) s = (rc, s1)" by fastforce
  show ?thesis
  proof (cases "rc = 0")
    case True
    from expand_holds [OF assms e [unfolded True]] obtain buf where
      h: "holds s1 bs" "length bs + length vs \<le> out_capacity s1" "out_data s1 = Some buf" by auto
    have "vs \<noteq> []" using e True by (auto simp: expand_def)
    moreover have "append_bytes alloc vs s = Returns (0, s1\<lparr>out_data := Some (put_bytes (int (length bs)) vs buf),
        m_put_cursor := length bs + length vs\<rparr>)"
      using e True h by (simp add: append_bytes_def holds_def)
    moreover have "holds (s1\<lparr>out_data := Some (put_bytes (int (length bs)) vs buf),
        m_put_cursor := length bs + length vs\<rparr>) (bs @ vs)"
      using h by (simp add: holds_def put_bytes_def)
    ultimately show ?thesis by auto
  next
    case False
    then have "s1 = s" using e by (auto simp: expand_def split: if_splits option.splits)
    then show ?thesis using e False by (auto simp: append_bytes_def)
  qed
qed

section \<open>From output to input\<close>

fun append_all :: "(nat \<Rightarrow> 8 word list option) \<Rightarrow> 8 word list list \<Rightarrow> out_stream \<Rightarrow> (int \<times> out_stream) outcome" where
  "append_all alloc [] s = Returns (0, s)"
| "append_all alloc (bs # bss) s = andthen (append_bytes alloc bs s) (\<lambda>(rc, s1).
     if rc \<noteq> 0 then Returns (rc, s1) else append_all alloc bss s1)"

fun extract_all :: "nat list \<Rightarrow> in_stream \<Rightarrow> (8 word list option list \<times> in_stream) outcome" where
  "extract_all [] s = Returns ([], s)"
| "extract_all (n # ns) s = andthen (extract_bytes False n s) (\<lambda>(rc, r, s1).
     andthen (extract_all ns s1) (\<lambda>(rs, s2). Returns (r # rs, s2)))"

lemma append_all_holds:
  "alloc_ok alloc \<Longrightarrow> holds s bs \<Longrightarrow> append_all alloc vss s = Returns (0, s') \<Longrightarrow>
   holds s' (bs @ concat vss) \<and> [] \<notin> set vss"
proof (induction vss arbitrary: s bs)
  case (Cons vs vss)
  obtain rc s1 where a: "append_bytes alloc vs s = Returns (rc, s1)"
    "if rc = 0 then vs \<noteq> [] \<and> holds s1 (bs @ vs) else rc = 2 \<and> s1 = s"
    using append_holds [OF Cons.prems(1,2)] by blast
  have "rc = 0" using Cons.prems(3) a by (auto split: if_splits)
  then show ?case using Cons.IH [OF Cons.prems(1), of s1 "bs @ vs"] Cons.prems(3) a by auto
qed simp

text \<open>The input stream has still the bytes \<open>bs\<close> to hand out.\<close>

definition remaining :: "in_stream \<Rightarrow> 8 word list \<Rightarrow> bool" where
  "remaining s bs \<longleftrightarrow> in_capacity s = m_get_cursor s + length bs \<and>
     (\<exists>buf. in_data s = Some buf \<and> in_capacity s \<le> length buf \<and> get_bytes (int (m_get_cursor s)) (length bs) buf = bs)"

lemma extract_bytes_remaining:
  assumes "remaining s (vs @ bs)" and "vs \<noteq> []"
  shows "extract_bytes False (length vs) s = Returns (0, Some vs, s\<lparr>m_get_cursor := m_get_cursor s + length vs\<rparr>) \<and>
    remaining (s\<lparr>m_get_cursor := m_get_cursor s + length vs\<rparr>) bs"
proof -
  from assms(1) obtain buf where buf: "in_data s = Some buf" "in_capacity s \<le> length buf"
    "in_capacity s = m_get_cursor s + length vs + length bs"
    "take (length vs + length bs) (drop (m_get_cursor s) buf) = vs @ bs"
    by (auto simp: remaining_def get_bytes_def)
  have "take (length vs) (take (length vs + length bs) (drop (m_get_cursor s) buf)) = vs"
    by (simp only: buf(4)) simp
  then have "take (length vs) (drop (m_get_cursor s) buf) = vs" by simp
  moreover have "drop (length vs) (take (length vs + length bs) (drop (m_get_cursor s) buf)) = bs"
    by (simp only: buf(4)) simp
  then have "take (length bs) (drop (m_get_cursor s + length vs) buf) = bs"
    by (simp add: drop_take add.commute)
  ultimately show ?thesis using buf assms(2)
    by (simp add: extract_bytes_def remaining_def get_bytes_def nat_add_distrib)
qed

lemma extract_all_remaining:
  "remaining s (concat vss @ bs) \<Longrightarrow> [] \<notin> set vss \<Longrightarrow>
   \<exists>s'. extract_all (map length vss) s = Returns (map Some vss, s') \<and> remaining s' bs"
proof (induction vss arbitrary: s)
  case (Cons vs vss)
  have "remaining s (vs @ (concat vss @ bs))" "vs \<noteq> []" using Cons.prems by auto
  from extract_bytes_remaining [OF this] Cons.IH Cons.prems(2) show ?case by fastforce
qed auto

text \<open>C26: what was appended to an output stream, chunk by chunk, comes out of the input stream made from it,
  chunk by chunk; then there is no more, and the output stream is empty again.\<close>

theorem stream_round_trip:
  assumes "alloc_ok alloc" and "append_all alloc vss new_out_stream = Returns (0, os)" and "vss \<noteq> []"
  shows "\<exists>s. extract_all (map length vss) (fst (new_in_stream (Some os))) = Returns (map Some vss, s) \<and>
    (\<forall>n. extract_bytes False (Suc n) s = Returns (5, None, s)) \<and> snd (new_in_stream (Some os)) = Some new_out_stream"
proof -
  have h: "holds os (concat vss)" "[] \<notin> set vss"
    using append_all_holds [OF assms(1) holds_new assms(2)] by simp_all
  have "concat vss \<noteq> []" using h(2) assms(3) by (cases vss) auto
  with h(1) have "remaining (fst (new_in_stream (Some os))) (concat vss @ [])"
    by (auto simp: remaining_def new_in_stream_def holds_def get_bytes_def split: option.splits)
  from extract_all_remaining [OF this h(2)] obtain s where
    s: "extract_all (map length vss) (fst (new_in_stream (Some os))) = Returns (map Some vss, s)" "remaining s []"
    by blast
  moreover have "\<forall>n > 0. extract_bytes False n s = Returns (5, None, s)"
    using s(2) by (auto simp: remaining_def extract_bytes_def)
  ultimately show ?thesis by (simp add: new_in_stream_def releaseBufferOwnership_def new_out_stream_def)
qed

definition demo_alloc :: "nat \<Rightarrow> 8 word list option" where "demo_alloc n = Some (replicate n 0xAA)"

definition demo_out :: out_stream where
  "demo_out = \<lparr>out_data = Some ([1, 2, 3] @ replicate 61 0xAA), m_put_cursor = 3, out_capacity = 64\<rparr>"

theorem stream_round_trip_witness:
  "\<exists>s. extract_all (map length [[1, 2], [3 :: 8 word]]) (fst (new_in_stream (Some demo_out))) = Returns (map Some [[1, 2], [3 :: 8 word]], s) \<and>
    (\<forall>n. extract_bytes False (Suc n) s = Returns (5, None, s)) \<and> snd (new_in_stream (Some demo_out)) = Some new_out_stream"
proof (rule stream_round_trip)
  show "alloc_ok demo_alloc" by (auto simp: alloc_ok_def demo_alloc_def)
  show "append_all demo_alloc [[1, 2], [3 :: 8 word]] new_out_stream = Returns (0, demo_out)"
    by (simp add: append_bytes_def expand_def new_capacity_def new_out_stream_def min_length_def demo_alloc_def
      demo_out_def put_bytes_def)
qed simp

end
