(* ===== verification/PbConv.thy ===== *)
theory PbConv
  imports "HOL-Library.Word"
begin

unbundle bit_operations_syntax

text \<open>
  The two shapes of the conversions of \<open>location_api_msg_proto/src/LocationApiPbMsgConv.cpp\<close> between
  the values of the location HAL and those of the protocol buffers. A mask conversion tests the flags
  of its argument one by one and sets the corresponding flags of its result; an enum conversion
  selects its result by the argument, with a default. The HAL's enumerators come from a header outside
  the repository: a parameter gives their values by name.
\<close>

type_synonym hal_values = "string \<Rightarrow> int"

section \<open>Masks\<close>

fun copy_flags_to :: "'b::len word \<Rightarrow> (int \<times> int) list \<Rightarrow> 'a::len word \<Rightarrow> 'b word" where
  "copy_flags_to r [] m = r"
| "copy_flags_to r ((c, d) # rows) m =
     copy_flags_to (if m AND word_of_int c \<noteq> 0 then r OR word_of_int d else r) rows m"

definition copy_flags :: "(int \<times> int) list \<Rightarrow> 'a::len word \<Rightarrow> 'b::len word" where
  "copy_flags = copy_flags_to 0"

text \<open>The flags of a mask: different single bits of its width.\<close>

definition single_bits :: "nat \<Rightarrow> int list \<Rightarrow> bool" where
  "single_bits w cs \<longleftrightarrow> distinct cs \<and> list_all (\<lambda>c. c \<in> set (map ((^) 2) [0..<w])) cs"

fun all_flags :: "int list \<Rightarrow> 'a::len word" where
  "all_flags [] = 0"
| "all_flags (c # cs) = word_of_int c OR all_flags cs"

lemma bit_copy_flags_to:
  "bit (copy_flags_to r rows m) j \<longleftrightarrow>
     bit r j \<or> (\<exists>(c, d) \<in> set rows. m AND word_of_int c \<noteq> 0 \<and> bit (word_of_int d :: 'b word) j)"
  for r :: "'b::len word"
proof (induction rows arbitrary: r)
  case (Cons x rows)
  obtain c d where x: "x = (c, d)" by (cases x)
  show ?case unfolding x copy_flags_to.simps Cons.IH by (simp add: bit_or_iff disj_assoc)
qed simp

lemma bit_copy_flags:
  "bit (copy_flags rows m :: 'b::len word) j \<longleftrightarrow>
     (\<exists>(c, d) \<in> set rows. m AND word_of_int c \<noteq> 0 \<and> bit (word_of_int d :: 'b word) j)"
  by (simp add: copy_flags_def bit_copy_flags_to)

lemma copy_flags_to_or: "copy_flags_to r rows m = r OR copy_flags rows m"
  by (rule bit_word_eqI) (simp add: bit_copy_flags_to bit_copy_flags bit_simps)

text \<open>The order of the tests does not matter.\<close>

lemma copy_flags_cong: "set rows = set rows' \<Longrightarrow> copy_flags rows m = copy_flags rows' m"
  by (rule bit_word_eqI) (simp add: bit_copy_flags)

lemma bit_all_flags: "bit (all_flags cs :: 'a::len word) j \<longleftrightarrow> (\<exists>c \<in> set cs. bit (word_of_int c :: 'a word) j)"
  by (induction cs) (auto simp: bit_simps)

lemma single_bitsD:
  assumes "single_bits w cs" and "c \<in> set cs"
  obtains i where "c = 2 ^ i" and "i < w"
proof -
  have "\<exists>i. c = 2 ^ i \<and> i < w" using assms by (auto simp: single_bits_def list_all_iff)
  then show ?thesis using that by blast
qed

lemma test_flag: "m AND word_of_int (2 ^ i) \<noteq> 0 \<longleftrightarrow> bit m i" for m :: "'a::len word"
  by (simp add: and_exp_eq_0_iff_not_bit)

lemma bit_flag: "bit (2 ^ i :: 'a::len word) j \<longleftrightarrow> j = i \<and> i < LENGTH('a)"
  by (auto simp: bit_exp_iff)

text \<open>A conversion from flags \<open>cs\<close> to flags \<open>ds\<close> maps bit to bit.\<close>

lemma bit_copy_zip:
  assumes "single_bits LENGTH('b::len) ds" and "length cs = length ds"
  shows "bit (copy_flags (zip cs ds) m :: 'b word) j \<longleftrightarrow>
    (\<exists>k < length ds. m AND word_of_int (cs ! k) \<noteq> 0 \<and> ds ! k = 2 ^ j)"
proof -
  have "bit (word_of_int (ds ! k) :: 'b word) j \<longleftrightarrow> ds ! k = 2 ^ j" if k: "k < length ds" for k
  proof -
    obtain i where i: "ds ! k = 2 ^ i" "i < LENGTH('b)"
      using single_bitsD [OF assms(1)] k by (metis nth_mem)
    then show ?thesis by (auto simp: bit_flag)
  qed
  then show ?thesis using assms(2)
    by (auto simp: bit_copy_flags set_zip Bex_def)
qed

theorem copy_back:
  fixes m :: "'a::len word"
  assumes "single_bits LENGTH('a) cs" and "single_bits LENGTH('b::len) ds" and "length cs = length ds"
  shows "copy_flags (zip ds cs) (copy_flags (zip cs ds) m :: 'b word) = m AND all_flags cs"
proof (rule bit_word_eqI)
  fix j assume j: "j < LENGTH('a)"
  let ?b = "copy_flags (zip cs ds) m :: 'b word"
  have d: "distinct cs" "distinct ds" using assms(1,2) by (simp_all add: single_bits_def)
  have t: "?b AND word_of_int (ds ! k) \<noteq> 0 \<longleftrightarrow> m AND word_of_int (cs ! k) \<noteq> 0" if k: "k < length ds" for k
  proof -
    obtain i where i: "ds ! k = 2 ^ i" "i < LENGTH('b)"
      using single_bitsD [OF assms(2)] k by (metis nth_mem)
    have u: "ds ! k' = 2 ^ i \<longleftrightarrow> k' = k" if "k' < length ds" for k'
      using nth_eq_iff_index_eq [OF d(2) that k] i(1) by simp
    have "?b AND word_of_int (ds ! k) \<noteq> 0 \<longleftrightarrow> bit ?b i" unfolding i(1) by (rule test_flag)
    also have "\<dots> \<longleftrightarrow> m AND word_of_int (cs ! k) \<noteq> 0"
      unfolding bit_copy_zip [OF assms(2,3)] using u k by auto
    finally show ?thesis .
  qed
  have "bit (copy_flags (zip ds cs) ?b :: 'a word) j \<longleftrightarrow>
      (\<exists>k < length cs. m AND word_of_int (cs ! k) \<noteq> 0 \<and> cs ! k = 2 ^ j)"
    unfolding bit_copy_zip [OF assms(1) assms(3) [symmetric]] using t assms(3) by auto
  also have "\<dots> \<longleftrightarrow> bit m j \<and> 2 ^ j \<in> set cs"
    using test_flag [of m j] by (auto simp: in_set_conv_nth)
  also have "2 ^ j \<in> set cs \<longleftrightarrow> bit (all_flags cs :: 'a word) j"
  proof
    assume "2 ^ j \<in> set cs"
    then show "bit (all_flags cs :: 'a word) j"
      unfolding bit_all_flags using j by (intro bexI [of _ "2 ^ j"]) (simp_all add: bit_flag)
  next
    assume "bit (all_flags cs :: 'a word) j"
    then obtain c where c: "c \<in> set cs" "bit (word_of_int c :: 'a word) j" unfolding bit_all_flags by blast
    with single_bitsD [OF assms(1)] obtain i where "c = 2 ^ i" by blast
    with c show "2 ^ j \<in> set cs" by (simp add: bit_flag)
  qed
  finally show "bit (copy_flags (zip ds cs) ?b :: 'a word) j \<longleftrightarrow> bit (m AND all_flags cs) j"
    by (simp add: bit_simps)
qed

section \<open>Enums\<close>

definition switch_on :: "int \<Rightarrow> (int \<times> int) list \<Rightarrow> int \<Rightarrow> int" where
  "switch_on v rows d = (case map_of rows v of Some r \<Rightarrow> r | None \<Rightarrow> d)"

lemma switch_on_pairs:
  assumes "distinct (map fst vals)" and "set rows \<subseteq> set vals" and "(v, p) \<in> set vals"
    and "(v, p) \<in> set rows \<or> p = d"
  shows "switch_on v rows d = p"
proof (cases "map_of rows v")
  case None
  then have "v \<notin> fst ` set rows" by (rule map_of_eq_None_iff [THEN iffD1])
  then have "(v, p) \<notin> set rows" by force
  then show ?thesis using assms(4) None by (simp add: switch_on_def)
next
  case (Some r)
  then have "(v, r) \<in> set vals" using assms(2) map_of_SomeD by fast
  then have "r = p" using eq_key_imp_eq_value [OF assms(1) _ assms(3)] by simp
  then show ?thesis by (simp add: switch_on_def Some)
qed

lemma switch_on_default: "v \<notin> fst ` set rows \<Longrightarrow> switch_on v rows d = d"
proof -
  assume "v \<notin> fst ` set rows"
  then have "map_of rows v = None" by (rule map_of_eq_None_iff [THEN iffD2])
  then show ?thesis by (simp add: switch_on_def)
qed

end
