(* ===== verification/PbConstants.thy ===== *)
theory PbConstants
  imports PbConv
begin

text \<open>
  The enumerators of \<open>location_api_msg_proto/LocationApiDataTypes.proto\<close> and
  \<open>location_api_msg_proto/LocationApiMsg.proto\<close> (names with \<open>PB_\<close>), and those of
  \<open>location_api_msg_proto/src/LocationApiMsg.h\<close>, that the conversions use.
\<close>

definition PB_TERRESTRIAL_TECH_GTP_WWAN :: int where "PB_TERRESTRIAL_TECH_GTP_WWAN = 1"
definition PB_NMEA_TYPE_GGA :: int where "PB_NMEA_TYPE_GGA = 1"
definition PB_NMEA_TYPE_RMC :: int where "PB_NMEA_TYPE_RMC = 2"
definition PB_NMEA_TYPE_GSA :: int where "PB_NMEA_TYPE_GSA = 4"
definition PB_NMEA_TYPE_VTG :: int where "PB_NMEA_TYPE_VTG = 8"
definition PB_NMEA_TYPE_GNS :: int where "PB_NMEA_TYPE_GNS = 16"
definition PB_NMEA_TYPE_DTM :: int where "PB_NMEA_TYPE_DTM = 32"
definition PB_NMEA_TYPE_GPGSV :: int where "PB_NMEA_TYPE_GPGSV = 64"
definition PB_NMEA_TYPE_GLGSV :: int where "PB_NMEA_TYPE_GLGSV = 128"
definition PB_NMEA_TYPE_GAGSV :: int where "PB_NMEA_TYPE_GAGSV = 256"
definition PB_NMEA_TYPE_GQGSV :: int where "PB_NMEA_TYPE_GQGSV = 512"
definition PB_NMEA_TYPE_GBGSV :: int where "PB_NMEA_TYPE_GBGSV = 1024"
definition PB_NMEA_TYPE_GIGSV :: int where "PB_NMEA_TYPE_GIGSV = 2048"
definition E_LOC_CB_TRACKING_BIT :: int where "E_LOC_CB_TRACKING_BIT = 1"
definition PB_E_LOC_CB_TRACKING_BIT :: int where "PB_E_LOC_CB_TRACKING_BIT = 1"
definition E_LOC_CB_GNSS_LOCATION_INFO_BIT :: int where "E_LOC_CB_GNSS_LOCATION_INFO_BIT = 2"
definition PB_E_LOC_CB_GNSS_LOCATION_INFO_BIT :: int where "PB_E_LOC_CB_GNSS_LOCATION_INFO_BIT = 2"
definition E_LOC_CB_GNSS_SV_BIT :: int where "E_LOC_CB_GNSS_SV_BIT = 4"
definition PB_E_LOC_CB_GNSS_SV_BIT :: int where "PB_E_LOC_CB_GNSS_SV_BIT = 4"
definition E_LOC_CB_GNSS_NMEA_BIT :: int where "E_LOC_CB_GNSS_NMEA_BIT = 8"
definition PB_E_LOC_CB_GNSS_NMEA_BIT :: int where "PB_E_LOC_CB_GNSS_NMEA_BIT = 8"
definition E_LOC_CB_GNSS_DATA_BIT :: int where "E_LOC_CB_GNSS_DATA_BIT = 16"
definition PB_E_LOC_CB_GNSS_DATA_BIT :: int where "PB_E_LOC_CB_GNSS_DATA_BIT = 16"
definition E_LOC_CB_SYSTEM_INFO_BIT :: int where "E_LOC_CB_SYSTEM_INFO_BIT = 32"
definition PB_E_LOC_CB_SYSTEM_INFO_BIT :: int where "PB_E_LOC_CB_SYSTEM_INFO_BIT = 32"
definition E_LOC_CB_BATCHING_BIT :: int where "E_LOC_CB_BATCHING_BIT = 64"
definition PB_E_LOC_CB_BATCHING_BIT :: int where "PB_E_LOC_CB_BATCHING_BIT = 64"
definition E_LOC_CB_BATCHING_STATUS_BIT :: int where "E_LOC_CB_BATCHING_STATUS_BIT = 128"
definition PB_E_LOC_CB_BATCHING_STATUS_BIT :: int where "PB_E_LOC_CB_BATCHING_STATUS_BIT = 128"
definition E_LOC_CB_GEOFENCE_BREACH_BIT :: int where "E_LOC_CB_GEOFENCE_BREACH_BIT = 256"
definition PB_E_LOC_CB_GEOFENCE_BREACH_BIT :: int where "PB_E_LOC_CB_GEOFENCE_BREACH_BIT = 256"
definition E_LOC_CB_ENGINE_LOCATIONS_INFO_BIT :: int where "E_LOC_CB_ENGINE_LOCATIONS_INFO_BIT = 512"
definition PB_E_LOC_CB_ENGINE_LOCATIONS_INFO_BIT :: int where "PB_E_LOC_CB_ENGINE_LOCATIONS_INFO_BIT = 512"
definition E_LOC_CB_SIMPLE_LOCATION_INFO_BIT :: int where "E_LOC_CB_SIMPLE_LOCATION_INFO_BIT = 1024"
definition PB_E_LOC_CB_SIMPLE_LOCATION_INFO_BIT :: int where "PB_E_LOC_CB_SIMPLE_LOCATION_INFO_BIT = 1024"
definition E_LOC_CB_GNSS_MEAS_BIT :: int where "E_LOC_CB_GNSS_MEAS_BIT = 2048"
definition PB_E_LOC_CB_GNSS_MEAS_BIT :: int where "PB_E_LOC_CB_GNSS_MEAS_BIT = 2048"
definition E_LOC_CB_GNSS_NHZ_MEAS_BIT :: int where "E_LOC_CB_GNSS_NHZ_MEAS_BIT = 4096"
definition PB_E_LOC_CB_GNSS_NHZ_MEAS_BIT :: int where "PB_E_LOC_CB_GNSS_NHZ_MEAS_BIT = 4096"
definition E_LOC_CB_GNSS_DC_REPORT_BIT :: int where "E_LOC_CB_GNSS_DC_REPORT_BIT = 8192"
definition PB_E_LOC_CB_GNSS_DC_REPORT_BIT :: int where "PB_E_LOC_CB_GNSS_DC_REPORT_BIT = 8192"
definition E_LOC_CB_ENGINE_NMEA_BIT :: int where "E_LOC_CB_ENGINE_NMEA_BIT = 32768"
definition PB_E_LOC_CB_ENGINE_NMEA_BIT :: int where "PB_E_LOC_CB_ENGINE_NMEA_BIT = 16384"
definition E_LOC_CB_GNSS_EPH_BIT :: int where "E_LOC_CB_GNSS_EPH_BIT = 65536"
definition PB_E_LOC_CB_GNSS_EPH_BIT :: int where "PB_E_LOC_CB_GNSS_EPH_BIT = 32768"
definition PB_LOCATION_CAPS_TIME_BASED_TRACKING_BIT :: int where "PB_LOCATION_CAPS_TIME_BASED_TRACKING_BIT = 1"
definition PB_LOCATION_CAPS_TIME_BASED_BATCHING_BIT :: int where "PB_LOCATION_CAPS_TIME_BASED_BATCHING_BIT = 2"
definition PB_LOCATION_CAPS_DISTANCE_BASED_TRACKING_BIT :: int where "PB_LOCATION_CAPS_DISTANCE_BASED_TRACKING_BIT = 4"
definition PB_LOCATION_CAPS_DISTANCE_BASED_BATCHING_BIT :: int where "PB_LOCATION_CAPS_DISTANCE_BASED_BATCHING_BIT = 8"
definition PB_LOCATION_CAPS_GEOFENCE_BIT :: int where "PB_LOCATION_CAPS_GEOFENCE_BIT = 16"
definition PB_LOCATION_CAPS_OUTDOOR_TRIP_BATCHING_BIT :: int where "PB_LOCATION_CAPS_OUTDOOR_TRIP_BATCHING_BIT = 32"
definition PB_LOCATION_CAPS_GNSS_MEASUREMENTS_BIT :: int where "PB_LOCATION_CAPS_GNSS_MEASUREMENTS_BIT = 64"
definition PB_LOCATION_CAPS_CONSTELLATION_ENABLEMENT_BIT :: int where "PB_LOCATION_CAPS_CONSTELLATION_ENABLEMENT_BIT = 128"
definition PB_LOCATION_CAPS_QWES_CARRIER_PHASE_BIT :: int where "PB_LOCATION_CAPS_QWES_CARRIER_PHASE_BIT = 256"
definition PB_LOCATION_CAPS_QWES_SV_POLYNOMIAL_BIT :: int where "PB_LOCATION_CAPS_QWES_SV_POLYNOMIAL_BIT = 512"
definition PB_LOCATION_CAPS_QWES_GNSS_SINGLE_FREQUENCY :: int where "PB_LOCATION_CAPS_QWES_GNSS_SINGLE_FREQUENCY = 1024"
definition PB_LOCATION_CAPS_QWES_GNSS_MULTI_FREQUENCY :: int where "PB_LOCATION_CAPS_QWES_GNSS_MULTI_FREQUENCY = 2048"
definition PB_LOCATION_CAPS_QWES_VPE :: int where "PB_LOCATION_CAPS_QWES_VPE = 4096"
definition PB_LOCATION_CAPS_QWES_CV2X_LOCATION_BASIC :: int where "PB_LOCATION_CAPS_QWES_CV2X_LOCATION_BASIC = 8192"
definition PB_LOCATION_CAPS_QWES_CV2X_LOCATION_PREMIUM :: int where "PB_LOCATION_CAPS_QWES_CV2X_LOCATION_PREMIUM = 16384"
definition PB_LOCATION_CAPS_QWES_PPE :: int where "PB_LOCATION_CAPS_QWES_PPE = 32768"
definition PB_LOCATION_CAPS_QWES_QDR2 :: int where "PB_LOCATION_CAPS_QWES_QDR2 = 65536"
definition PB_LOCATION_CAPS_QWES_QDR3 :: int where "PB_LOCATION_CAPS_QWES_QDR3 = 131072"
definition PB_LOCATION_CAPS_QWES_DGNSS :: int where "PB_LOCATION_CAPS_QWES_DGNSS = 262144"
definition PB_LOCATION_CAPS_ANTENNA_INFO :: int where "PB_LOCATION_CAPS_ANTENNA_INFO = 524288"
definition PB_LOCATION_CAPABILITIES_GNSS_MSB_BIT :: int where "PB_LOCATION_CAPABILITIES_GNSS_MSB_BIT = 0x100000"
definition PB_LOCATION_CAPABILITIES_GNSS_MSA_BIT :: int where "PB_LOCATION_CAPABILITIES_GNSS_MSA_BIT = 0x200000"
definition PB_LOCATION_CAPABILITIES_DEBUG_DATA_BIT :: int where "PB_LOCATION_CAPABILITIES_DEBUG_DATA_BIT = 0x400000"
definition PB_LOCATION_CAPABILITIES_AGPM_BIT :: int where "PB_LOCATION_CAPABILITIES_AGPM_BIT = 0x800000"
definition PB_LOCATION_CAPABILITIES_PRIVACY_BIT :: int where "PB_LOCATION_CAPABILITIES_PRIVACY_BIT = 0x1000000"
definition PB_LOCATION_CAPABILITIES_MEASUREMENTS_CORRECTION_BIT :: int where "PB_LOCATION_CAPABILITIES_MEASUREMENTS_CORRECTION_BIT = 0x2000000"
definition PB_LOCATION_CAPABILITIES_CONFORMITY_INDEX_BIT :: int where "PB_LOCATION_CAPABILITIES_CONFORMITY_INDEX_BIT = 0x4000000"
definition PB_LOCATION_CAPABILITIES_EDGNSS_BIT :: int where "PB_LOCATION_CAPABILITIES_EDGNSS_BIT = 0x8000000"
definition PB_LOCATION_CAPABILITIES_QWES_SV_EPHEMERIS_BIT :: int where "PB_LOCATION_CAPABILITIES_QWES_SV_EPHEMERIS_BIT = 0x10000000"
definition PB_LOCATION_CAPABILITIES_QWES_NLOS_ML20 :: int where "PB_LOCATION_CAPABILITIES_QWES_NLOS_ML20 = 0x20000000"
definition PB_STANDARD_POSITIONING_ENGINE :: int where "PB_STANDARD_POSITIONING_ENGINE = 1"
definition PB_DEAD_RECKONING_ENGINE :: int where "PB_DEAD_RECKONING_ENGINE = 2"
definition PB_PRECISE_POSITIONING_ENGINE :: int where "PB_PRECISE_POSITIONING_ENGINE = 4"
definition PB_LEVER_ARM_TYPE_GNSS_TO_VRP_BIT :: int where "PB_LEVER_ARM_TYPE_GNSS_TO_VRP_BIT = 1"
definition PB_LEVER_ARM_TYPE_DR_IMU_TO_GNSS_BIT :: int where "PB_LEVER_ARM_TYPE_DR_IMU_TO_GNSS_BIT = 2"
definition PB_LEVER_ARM_TYPE_VEPP_IMU_TO_GNSS_BIT :: int where "PB_LEVER_ARM_TYPE_VEPP_IMU_TO_GNSS_BIT = 4"
definition PB_LOC_REQ_ENGINE_FUSED_BIT :: int where "PB_LOC_REQ_ENGINE_FUSED_BIT = 1"
definition PB_LOC_REQ_ENGINE_SPE_BIT :: int where "PB_LOC_REQ_ENGINE_SPE_BIT = 2"
definition PB_LOC_REQ_ENGINE_PPE_BIT :: int where "PB_LOC_REQ_ENGINE_PPE_BIT = 4"
definition PB_GNSS_CONFIG_ROBUST_LOCATION_ENABLED_VALID_BIT :: int where "PB_GNSS_CONFIG_ROBUST_LOCATION_ENABLED_VALID_BIT = 1"
definition PB_GNSS_CONFIG_ROBUST_LOCATION_ENABLED_FOR_E911_VALID_BIT :: int where "PB_GNSS_CONFIG_ROBUST_LOCATION_ENABLED_FOR_E911_VALID_BIT = 2"
definition PB_GNSS_CONFIG_ROBUST_LOCATION_VERSION_VALID_BIT :: int where "PB_GNSS_CONFIG_ROBUST_LOCATION_VERSION_VALID_BIT = 4"
definition PB_LOCATION_SYS_INFO_LEAP_SECOND :: int where "PB_LOCATION_SYS_INFO_LEAP_SECOND = 1"
definition PB_GNSS_LOC_DATA_JAMMER_IND_BIT :: int where "PB_GNSS_LOC_DATA_JAMMER_IND_BIT = 1"
definition PB_GNSS_LOC_DATA_AGC_BIT :: int where "PB_GNSS_LOC_DATA_AGC_BIT = 2"
definition PB_AIDING_DATA_SV_EPHEMERIS_BIT :: int where "PB_AIDING_DATA_SV_EPHEMERIS_BIT = 1"
definition PB_LEAP_SECOND_SYS_INFO_CURRENT_LEAP_SECONDS_BIT :: int where "PB_LEAP_SECOND_SYS_INFO_CURRENT_LEAP_SECONDS_BIT = 1"
definition PB_LEAP_SECOND_SYS_INFO_LEAP_SECOND_CHANGE_BIT :: int where "PB_LEAP_SECOND_SYS_INFO_LEAP_SECOND_CHANGE_BIT = 2"
definition PB_GNSS_SYSTEM_TIME_WEEK_VALID :: int where "PB_GNSS_SYSTEM_TIME_WEEK_VALID = 1"
definition PB_GNSS_SYSTEM_TIME_WEEK_MS_VALID :: int where "PB_GNSS_SYSTEM_TIME_WEEK_MS_VALID = 2"
definition PB_GNSS_SYSTEM_CLK_TIME_BIAS_VALID :: int where "PB_GNSS_SYSTEM_CLK_TIME_BIAS_VALID = 4"
definition PB_GNSS_SYSTEM_CLK_TIME_BIAS_UNC_VALID :: int where "PB_GNSS_SYSTEM_CLK_TIME_BIAS_UNC_VALID = 8"
definition PB_GNSS_SYSTEM_REF_FCOUNT_VALID :: int where "PB_GNSS_SYSTEM_REF_FCOUNT_VALID = 16"
definition PB_GNSS_SYSTEM_NUM_CLOCK_RESETS_VALID :: int where "PB_GNSS_SYSTEM_NUM_CLOCK_RESETS_VALID = 32"
definition PB_LOCATION_HAS_LAT_LONG_BIT :: int where "PB_LOCATION_HAS_LAT_LONG_BIT = 1"
definition PB_LOCATION_HAS_ALTITUDE_BIT :: int where "PB_LOCATION_HAS_ALTITUDE_BIT = 2"
definition PB_LOCATION_HAS_SPEED_BIT :: int where "PB_LOCATION_HAS_SPEED_BIT = 4"
definition PB_LOCATION_HAS_BEARING_BIT :: int where "PB_LOCATION_HAS_BEARING_BIT = 8"
definition PB_LOCATION_HAS_ACCURACY_BIT :: int where "PB_LOCATION_HAS_ACCURACY_BIT = 16"
definition PB_LOCATION_HAS_VERTICAL_ACCURACY_BIT :: int where "PB_LOCATION_HAS_VERTICAL_ACCURACY_BIT = 32"
definition PB_LOCATION_HAS_SPEED_ACCURACY_BIT :: int where "PB_LOCATION_HAS_SPEED_ACCURACY_BIT = 64"
definition PB_LOCATION_HAS_BEARING_ACCURACY_BIT :: int where "PB_LOCATION_HAS_BEARING_ACCURACY_BIT = 128"
definition PB_LOCATION_HAS_ELAPSED_REAL_TIME_BIT :: int where "PB_LOCATION_HAS_ELAPSED_REAL_TIME_BIT = 512"
definition PB_LOCATION_HAS_TIME_UNC_BIT :: int where "PB_LOCATION_HAS_TIME_UNC_BIT = 1024"
definition PB_LOCATION_HAS_GPTP_TIME_BIT :: int where "PB_LOCATION_HAS_GPTP_TIME_BIT = 2048"
definition PB_LOCATION_HAS_GPTP_TIME_UNC_BIT :: int where "PB_LOCATION_HAS_GPTP_TIME_UNC_BIT = 4096"
definition PB_LOCATION_HAS_SESSION_STATUS_BIT :: int where "PB_LOCATION_HAS_SESSION_STATUS_BIT = 8192"
definition PB_LOCATION_TECHNOLOGY_GNSS_BIT :: int where "PB_LOCATION_TECHNOLOGY_GNSS_BIT = 1"
definition PB_LOCATION_TECHNOLOGY_CELL_BIT :: int where "PB_LOCATION_TECHNOLOGY_CELL_BIT = 2"
definition PB_LOCATION_TECHNOLOGY_WIFI_BIT :: int where "PB_LOCATION_TECHNOLOGY_WIFI_BIT = 4"
definition PB_LOCATION_TECHNOLOGY_SENSORS_BIT :: int where "PB_LOCATION_TECHNOLOGY_SENSORS_BIT = 8"
definition PB_LOCATION_TECHNOLOGY_REFERENCE_LOCATION_BIT :: int where "PB_LOCATION_TECHNOLOGY_REFERENCE_LOCATION_BIT = 16"
definition PB_LOCATION_TECHNOLOGY_INJECTED_COARSE_POSITION_BIT :: int where "PB_LOCATION_TECHNOLOGY_INJECTED_COARSE_POSITION_BIT = 32"
definition PB_LOCATION_TECHNOLOGY_AFLT_BIT :: int where "PB_LOCATION_TECHNOLOGY_AFLT_BIT = 64"
definition PB_LOCATION_TECHNOLOGY_HYBRID_BIT :: int where "PB_LOCATION_TECHNOLOGY_HYBRID_BIT = 128"
definition PB_LOCATION_TECHNOLOGY_PPE_BIT :: int where "PB_LOCATION_TECHNOLOGY_PPE_BIT = 256"
definition PB_LOCATION_TECHNOLOGY_VEH_BIT :: int where "PB_LOCATION_TECHNOLOGY_VEH_BIT = 512"
definition PB_LOCATION_TECHNOLOGY_VIS_BIT :: int where "PB_LOCATION_TECHNOLOGY_VIS_BIT = 1024"
definition PB_LOCATION_TECHNOLOGY_PROPAGATED_BIT :: int where "PB_LOCATION_TECHNOLOGY_PROPAGATED_BIT = 2048"
definition PB_GNSS_LOCATION_INFO_ALTITUDE_MEAN_SEA_LEVEL_BIT :: int where "PB_GNSS_LOCATION_INFO_ALTITUDE_MEAN_SEA_LEVEL_BIT = 1"
definition PB_GNSS_LOCATION_INFO_DOP_BIT :: int where "PB_GNSS_LOCATION_INFO_DOP_BIT = 2"
definition PB_GNSS_LOCATION_INFO_MAGNETIC_DEVIATION_BIT :: int where "PB_GNSS_LOCATION_INFO_MAGNETIC_DEVIATION_BIT = 8"
definition PB_GNSS_LOCATION_INFO_HOR_RELIABILITY_BIT :: int where "PB_GNSS_LOCATION_INFO_HOR_RELIABILITY_BIT = 16"
definition PB_GNSS_LOCATION_INFO_VER_RELIABILITY_BIT :: int where "PB_GNSS_LOCATION_INFO_VER_RELIABILITY_BIT = 32"
definition PB_GNSS_LOCATION_INFO_HOR_ACCURACY_ELIP_SEMI_MAJOR_BIT :: int where "PB_GNSS_LOCATION_INFO_HOR_ACCURACY_ELIP_SEMI_MAJOR_BIT = 64"
definition PB_GNSS_LOCATION_INFO_HOR_ACCURACY_ELIP_SEMI_MINOR_BIT :: int where "PB_GNSS_LOCATION_INFO_HOR_ACCURACY_ELIP_SEMI_MINOR_BIT = 128"
definition PB_GNSS_LOCATION_INFO_HOR_ACCURACY_ELIP_AZIMUTH_BIT :: int where "PB_GNSS_LOCATION_INFO_HOR_ACCURACY_ELIP_AZIMUTH_BIT = 256"
definition PB_GNSS_LOCATION_INFO_GNSS_SV_USED_DATA_BIT :: int where "PB_GNSS_LOCATION_INFO_GNSS_SV_USED_DATA_BIT = 512"
definition PB_GNSS_LOCATION_INFO_NAV_SOLUTION_MASK_BIT :: int where "PB_GNSS_LOCATION_INFO_NAV_SOLUTION_MASK_BIT = 1024"
definition PB_GNSS_LOCATION_INFO_POS_DYNAMICS_DATA_BIT :: int where "PB_GNSS_LOCATION_INFO_POS_DYNAMICS_DATA_BIT = 2048"
definition PB_GNSS_LOCATION_INFO_EXT_DOP_BIT :: int where "PB_GNSS_LOCATION_INFO_EXT_DOP_BIT = 4"
definition PB_GNSS_LOCATION_INFO_NORTH_STD_DEV_BIT :: int where "PB_GNSS_LOCATION_INFO_NORTH_STD_DEV_BIT = 4096"
definition PB_GNSS_LOCATION_INFO_EAST_STD_DEV_BIT :: int where "PB_GNSS_LOCATION_INFO_EAST_STD_DEV_BIT = 8192"
definition PB_GNSS_LOCATION_INFO_NORTH_VEL_BIT :: int where "PB_GNSS_LOCATION_INFO_NORTH_VEL_BIT = 16384"
definition PB_GNSS_LOCATION_INFO_EAST_VEL_BIT :: int where "PB_GNSS_LOCATION_INFO_EAST_VEL_BIT = 32768"
definition PB_GNSS_LOCATION_INFO_UP_VEL_BIT :: int where "PB_GNSS_LOCATION_INFO_UP_VEL_BIT = 65536"
definition PB_GNSS_LOCATION_INFO_NORTH_VEL_UNC_BIT :: int where "PB_GNSS_LOCATION_INFO_NORTH_VEL_UNC_BIT = 131072"
definition PB_GNSS_LOCATION_INFO_EAST_VEL_UNC_BIT :: int where "PB_GNSS_LOCATION_INFO_EAST_VEL_UNC_BIT = 262144"
definition PB_GNSS_LOCATION_INFO_UP_VEL_UNC_BIT :: int where "PB_GNSS_LOCATION_INFO_UP_VEL_UNC_BIT = 524288"
definition PB_GNSS_LOCATION_INFO_LEAP_SECONDS_BIT :: int where "PB_GNSS_LOCATION_INFO_LEAP_SECONDS_BIT = 0x100000"
definition PB_GNSS_LOCATION_INFO_NUM_SV_USED_IN_POSITION_BIT :: int where "PB_GNSS_LOCATION_INFO_NUM_SV_USED_IN_POSITION_BIT = 0x400000"
definition PB_GNSS_LOCATION_INFO_CALIBRATION_CONFIDENCE_PERCENT_BIT :: int where "PB_GNSS_LOCATION_INFO_CALIBRATION_CONFIDENCE_PERCENT_BIT = 0x800000"
definition PB_GNSS_LOCATION_INFO_CALIBRATION_STATUS_BIT :: int where "PB_GNSS_LOCATION_INFO_CALIBRATION_STATUS_BIT = 0x1000000"
definition PB_GNSS_LOCATION_INFO_OUTPUT_ENG_TYPE_BIT :: int where "PB_GNSS_LOCATION_INFO_OUTPUT_ENG_TYPE_BIT = 0x2000000"
definition PB_GNSS_LOCATION_INFO_OUTPUT_ENG_MASK_BIT :: int where "PB_GNSS_LOCATION_INFO_OUTPUT_ENG_MASK_BIT = 0x4000000"
definition PB_GNSS_LOCATION_INFO_CONFORMITY_INDEX_BIT :: int where "PB_GNSS_LOCATION_INFO_CONFORMITY_INDEX_BIT = 0x8000000"
definition PB_GNSS_LOCATION_INFO_LLA_VRP_BASED_BIT :: int where "PB_GNSS_LOCATION_INFO_LLA_VRP_BASED_BIT = 0x10000000"
definition PB_GNSS_LOCATION_INFO_ENU_VELOCITY_VRP_BASED_BIT :: int where "PB_GNSS_LOCATION_INFO_ENU_VELOCITY_VRP_BASED_BIT = 0x20000000"
definition PB_GNSS_LOCATION_INFO_DR_SOLUTION_STATUS_MASK_BIT :: int where "PB_GNSS_LOCATION_INFO_DR_SOLUTION_STATUS_MASK_BIT = 0x40000000"
definition PB_GNSS_LOCATION_INFO_ALTITUDE_ASSUMED_BIT :: int where "PB_GNSS_LOCATION_INFO_ALTITUDE_ASSUMED_BIT = 1"
definition PB_GNSS_LOCATION_INFO_SESSION_STATUS_BIT :: int where "PB_GNSS_LOCATION_INFO_SESSION_STATUS_BIT = 2"
definition PB_GNSS_LOCATION_INFO_INTEGRITY_RISK_USED_BIT :: int where "PB_GNSS_LOCATION_INFO_INTEGRITY_RISK_USED_BIT = 4"
definition PB_GNSS_LOCATION_INFO_PROTECT_ALONG_TRACK_BIT :: int where "PB_GNSS_LOCATION_INFO_PROTECT_ALONG_TRACK_BIT = 8"
definition PB_GNSS_LOCATION_INFO_PROTECT_CROSS_TRACK_BIT :: int where "PB_GNSS_LOCATION_INFO_PROTECT_CROSS_TRACK_BIT = 16"
definition PB_GNSS_LOCATION_INFO_PROTECT_VERTICAL_BIT :: int where "PB_GNSS_LOCATION_INFO_PROTECT_VERTICAL_BIT = 32"
definition PB_GNSS_LOCATION_INFO_DGNSS_STATION_ID_MASK_BIT :: int where "PB_GNSS_LOCATION_INFO_DGNSS_STATION_ID_MASK_BIT = 64"
definition PB_GNSS_LOCATION_INFO_BASE_LINE_LENGTH_BIT :: int where "PB_GNSS_LOCATION_INFO_BASE_LINE_LENGTH_BIT = 128"
definition PB_GNSS_LOCATION_INFO_AGE_OF_CORRECTION_BIT :: int where "PB_GNSS_LOCATION_INFO_AGE_OF_CORRECTION_BIT = 256"
definition PB_GNSS_LOCATION_INFO_LEAP_SECONDS_UNC_BIT :: int where "PB_GNSS_LOCATION_INFO_LEAP_SECONDS_UNC_BIT = 512"
definition PB_GNSS_LOCATION_INFO_REPORT_INTERVAL_BIT :: int where "PB_GNSS_LOCATION_INFO_REPORT_INTERVAL_BIT = 1024"
definition PB_GNSS_LOCATION_INFO_EXTENDED_DATA_BIT :: int where "PB_GNSS_LOCATION_INFO_EXTENDED_DATA_BIT = 2048"
definition PB_LOCATION_SBAS_CORRECTION_IONO_BIT :: int where "PB_LOCATION_SBAS_CORRECTION_IONO_BIT = 1"
definition PB_LOCATION_SBAS_CORRECTION_FAST_BIT :: int where "PB_LOCATION_SBAS_CORRECTION_FAST_BIT = 2"
definition PB_LOCATION_SBAS_CORRECTION_LONG_BIT :: int where "PB_LOCATION_SBAS_CORRECTION_LONG_BIT = 4"
definition PB_LOCATION_SBAS_INTEGRITY_BIT :: int where "PB_LOCATION_SBAS_INTEGRITY_BIT = 8"
definition PB_LOCATION_NAV_CORRECTION_DGNSS_BIT :: int where "PB_LOCATION_NAV_CORRECTION_DGNSS_BIT = 16"
definition PB_LOCATION_NAV_CORRECTION_RTK_BIT :: int where "PB_LOCATION_NAV_CORRECTION_RTK_BIT = 32"
definition PB_LOCATION_NAV_CORRECTION_PPP_BIT :: int where "PB_LOCATION_NAV_CORRECTION_PPP_BIT = 64"
definition PB_LOCATION_NAV_CORRECTION_RTK_FIXED_BIT :: int where "PB_LOCATION_NAV_CORRECTION_RTK_FIXED_BIT = 128"
definition PB_LOCATION_NAV_CORRECTION_ONLY_SBAS_CORRECTED_SV_USED_BIT :: int where "PB_LOCATION_NAV_CORRECTION_ONLY_SBAS_CORRECTED_SV_USED_BIT = 256"
definition PB_LOCATION_NAV_MMF_AIDED_POSITION :: int where "PB_LOCATION_NAV_MMF_AIDED_POSITION = 512"
definition PB_DR_ROLL_CALIBRATION_NEEDED :: int where "PB_DR_ROLL_CALIBRATION_NEEDED = 1"
definition PB_DR_PITCH_CALIBRATION_NEEDED :: int where "PB_DR_PITCH_CALIBRATION_NEEDED = 2"
definition PB_DR_YAW_CALIBRATION_NEEDED :: int where "PB_DR_YAW_CALIBRATION_NEEDED = 4"
definition PB_DR_ODO_CALIBRATION_NEEDED :: int where "PB_DR_ODO_CALIBRATION_NEEDED = 8"
definition PB_DR_GYRO_CALIBRATION_NEEDED :: int where "PB_DR_GYRO_CALIBRATION_NEEDED = 16"
definition PB_DR_TURN_CALIBRATION_LOW :: int where "PB_DR_TURN_CALIBRATION_LOW = 32"
definition PB_DR_TURN_CALIBRATION_MEDIUM :: int where "PB_DR_TURN_CALIBRATION_MEDIUM = 64"
definition PB_DR_TURN_CALIBRATION_HIGH :: int where "PB_DR_TURN_CALIBRATION_HIGH = 128"
definition PB_DR_LINEAR_ACCEL_CALIBRATION_LOW :: int where "PB_DR_LINEAR_ACCEL_CALIBRATION_LOW = 256"
definition PB_DR_LINEAR_ACCEL_CALIBRATION_MEDIUM :: int where "PB_DR_LINEAR_ACCEL_CALIBRATION_MEDIUM = 512"
definition PB_DR_LINEAR_ACCEL_CALIBRATION_HIGH :: int where "PB_DR_LINEAR_ACCEL_CALIBRATION_HIGH = 1024"
definition PB_DR_LINEAR_MOTION_CALIBRATION_LOW :: int where "PB_DR_LINEAR_MOTION_CALIBRATION_LOW = 2048"
definition PB_DR_LINEAR_MOTION_CALIBRATION_MEDIUM :: int where "PB_DR_LINEAR_MOTION_CALIBRATION_MEDIUM = 4096"
definition PB_DR_LINEAR_MOTION_CALIBRATION_HIGH :: int where "PB_DR_LINEAR_MOTION_CALIBRATION_HIGH = 8192"
definition PB_DR_STATIC_CALIBRATION_LOW :: int where "PB_DR_STATIC_CALIBRATION_LOW = 16384"
definition PB_DR_STATIC_CALIBRATION_MEDIUM :: int where "PB_DR_STATIC_CALIBRATION_MEDIUM = 32768"
definition PB_DR_STATIC_CALIBRATION_HIGH :: int where "PB_DR_STATIC_CALIBRATION_HIGH = 65536"
definition PB_GNSS_MEASUREMENTS_DATA_SV_ID_BIT :: int where "PB_GNSS_MEASUREMENTS_DATA_SV_ID_BIT = 1"
definition PB_GNSS_MEASUREMENTS_DATA_SV_TYPE_BIT :: int where "PB_GNSS_MEASUREMENTS_DATA_SV_TYPE_BIT = 2"
definition PB_GNSS_MEASUREMENTS_DATA_STATE_BIT :: int where "PB_GNSS_MEASUREMENTS_DATA_STATE_BIT = 4"
definition PB_GNSS_MEASUREMENTS_DATA_RECEIVED_SV_TIME_BIT :: int where "PB_GNSS_MEASUREMENTS_DATA_RECEIVED_SV_TIME_BIT = 8"
definition PB_GNSS_MEASUREMENTS_DATA_RECEIVED_SV_TIME_UNCERTAINTY_BIT :: int where "PB_GNSS_MEASUREMENTS_DATA_RECEIVED_SV_TIME_UNCERTAINTY_BIT = 16"
definition PB_GNSS_MEASUREMENTS_DATA_CARRIER_TO_NOISE_BIT :: int where "PB_GNSS_MEASUREMENTS_DATA_CARRIER_TO_NOISE_BIT = 32"
definition PB_GNSS_MEASUREMENTS_DATA_PSEUDORANGE_RATE_BIT :: int where "PB_GNSS_MEASUREMENTS_DATA_PSEUDORANGE_RATE_BIT = 64"
definition PB_GNSS_MEASUREMENTS_DATA_PSEUDORANGE_RATE_UNCERTAINTY_BIT :: int where "PB_GNSS_MEASUREMENTS_DATA_PSEUDORANGE_RATE_UNCERTAINTY_BIT = 128"
definition PB_GNSS_MEASUREMENTS_DATA_ADR_STATE_BIT :: int where "PB_GNSS_MEASUREMENTS_DATA_ADR_STATE_BIT = 256"
definition PB_GNSS_MEASUREMENTS_DATA_ADR_BIT :: int where "PB_GNSS_MEASUREMENTS_DATA_ADR_BIT = 512"
definition PB_GNSS_MEASUREMENTS_DATA_ADR_UNCERTAINTY_BIT :: int where "PB_GNSS_MEASUREMENTS_DATA_ADR_UNCERTAINTY_BIT = 1024"
definition PB_GNSS_MEASUREMENTS_DATA_CARRIER_FREQUENCY_BIT :: int where "PB_GNSS_MEASUREMENTS_DATA_CARRIER_FREQUENCY_BIT = 2048"
definition PB_GNSS_MEASUREMENTS_DATA_CARRIER_CYCLES_BIT :: int where "PB_GNSS_MEASUREMENTS_DATA_CARRIER_CYCLES_BIT = 4096"
definition PB_GNSS_MEASUREMENTS_DATA_CARRIER_PHASE_BIT :: int where "PB_GNSS_MEASUREMENTS_DATA_CARRIER_PHASE_BIT = 8192"
definition PB_GNSS_MEASUREMENTS_DATA_CARRIER_PHASE_UNCERTAINTY_BIT :: int where "PB_GNSS_MEASUREMENTS_DATA_CARRIER_PHASE_UNCERTAINTY_BIT = 16384"
definition PB_GNSS_MEASUREMENTS_DATA_MULTIPATH_INDICATOR_BIT :: int where "PB_GNSS_MEASUREMENTS_DATA_MULTIPATH_INDICATOR_BIT = 32768"
definition PB_GNSS_MEASUREMENTS_DATA_SIGNAL_TO_NOISE_RATIO_BIT :: int where "PB_GNSS_MEASUREMENTS_DATA_SIGNAL_TO_NOISE_RATIO_BIT = 65536"
definition PB_GNSS_MEASUREMENTS_DATA_AUTOMATIC_GAIN_CONTROL_BIT :: int where "PB_GNSS_MEASUREMENTS_DATA_AUTOMATIC_GAIN_CONTROL_BIT = 131072"
definition PB_GNSS_MEASUREMENTS_DATA_FULL_ISB_BIT :: int where "PB_GNSS_MEASUREMENTS_DATA_FULL_ISB_BIT = 262144"
definition PB_GNSS_MEASUREMENTS_DATA_FULL_ISB_UNCERTAINTY_BIT :: int where "PB_GNSS_MEASUREMENTS_DATA_FULL_ISB_UNCERTAINTY_BIT = 524288"
definition PB_GNSS_MEASUREMENTS_DATA_CYCLE_SLIP_COUNT_BIT :: int where "PB_GNSS_MEASUREMENTS_DATA_CYCLE_SLIP_COUNT_BIT = 0x100000"
definition PB_GNSS_MEASUREMENTS_DATA_GNSS_SIGNAL_TYPE_BIT :: int where "PB_GNSS_MEASUREMENTS_DATA_GNSS_SIGNAL_TYPE_BIT = 0x200000"
definition PB_GNSS_MEASUREMENTS_DATA_BASEBAND_CARRIER_TO_NOISE_BIT :: int where "PB_GNSS_MEASUREMENTS_DATA_BASEBAND_CARRIER_TO_NOISE_BIT = 0x400000"
definition PB_GNSS_MEASUREMENTS_DATA_MEAS_CODE_TYPE_BIT :: int where "PB_GNSS_MEASUREMENTS_DATA_MEAS_CODE_TYPE_BIT = 0x800000"
definition PB_GNSS_MEASUREMENTS_DATA_OTHER_MEAS_CODE_TYPE_BIT :: int where "PB_GNSS_MEASUREMENTS_DATA_OTHER_MEAS_CODE_TYPE_BIT = 0x1000000"
definition PB_GNSS_MEASUREMENTS_STATE_UNKNOWN_BIT :: int where "PB_GNSS_MEASUREMENTS_STATE_UNKNOWN_BIT = 0"
definition PB_GNSS_MEASUREMENTS_STATE_CODE_LOCK_BIT :: int where "PB_GNSS_MEASUREMENTS_STATE_CODE_LOCK_BIT = 1"
definition PB_GNSS_MEASUREMENTS_STATE_BIT_SYNC_BIT :: int where "PB_GNSS_MEASUREMENTS_STATE_BIT_SYNC_BIT = 2"
definition PB_GNSS_MEASUREMENTS_STATE_SUBFRAME_SYNC_BIT :: int where "PB_GNSS_MEASUREMENTS_STATE_SUBFRAME_SYNC_BIT = 4"
definition PB_GNSS_MEASUREMENTS_STATE_TOW_DECODED_BIT :: int where "PB_GNSS_MEASUREMENTS_STATE_TOW_DECODED_BIT = 8"
definition PB_GNSS_MEASUREMENTS_STATE_MSEC_AMBIGUOUS_BIT :: int where "PB_GNSS_MEASUREMENTS_STATE_MSEC_AMBIGUOUS_BIT = 16"
definition PB_GNSS_MEASUREMENTS_STATE_SYMBOL_SYNC_BIT :: int where "PB_GNSS_MEASUREMENTS_STATE_SYMBOL_SYNC_BIT = 32"
definition PB_GNSS_MEASUREMENTS_STATE_GLO_STRING_SYNC_BIT :: int where "PB_GNSS_MEASUREMENTS_STATE_GLO_STRING_SYNC_BIT = 64"
definition PB_GNSS_MEASUREMENTS_STATE_GLO_TOD_DECODED_BIT :: int where "PB_GNSS_MEASUREMENTS_STATE_GLO_TOD_DECODED_BIT = 128"
definition PB_GNSS_MEASUREMENTS_STATE_BDS_D2_BIT_SYNC_BIT :: int where "PB_GNSS_MEASUREMENTS_STATE_BDS_D2_BIT_SYNC_BIT = 256"
definition PB_GNSS_MEASUREMENTS_STATE_BDS_D2_SUBFRAME_SYNC_BIT :: int where "PB_GNSS_MEASUREMENTS_STATE_BDS_D2_SUBFRAME_SYNC_BIT = 512"
definition PB_GNSS_MEASUREMENTS_STATE_GAL_E1BC_CODE_LOCK_BIT :: int where "PB_GNSS_MEASUREMENTS_STATE_GAL_E1BC_CODE_LOCK_BIT = 1024"
definition PB_GNSS_MEASUREMENTS_STATE_GAL_E1C_2ND_CODE_LOCK_BIT :: int where "PB_GNSS_MEASUREMENTS_STATE_GAL_E1C_2ND_CODE_LOCK_BIT = 2048"
definition PB_GNSS_MEASUREMENTS_STATE_GAL_E1B_PAGE_SYNC_BIT :: int where "PB_GNSS_MEASUREMENTS_STATE_GAL_E1B_PAGE_SYNC_BIT = 4096"
definition PB_GNSS_MEASUREMENTS_STATE_SBAS_SYNC_BIT :: int where "PB_GNSS_MEASUREMENTS_STATE_SBAS_SYNC_BIT = 8192"
definition PB_GNSS_MEASUREMENTS_ACCUMULATED_DELTA_RANGE_STATE_UNKNOWN :: int where "PB_GNSS_MEASUREMENTS_ACCUMULATED_DELTA_RANGE_STATE_UNKNOWN = 0"
definition PB_GNSS_MEASUREMENTS_ACCUMULATED_DELTA_RANGE_STATE_VALID_BIT :: int where "PB_GNSS_MEASUREMENTS_ACCUMULATED_DELTA_RANGE_STATE_VALID_BIT = 1"
definition PB_GNSS_MEASUREMENTS_ACCUMULATED_DELTA_RANGE_STATE_RESET_BIT :: int where "PB_GNSS_MEASUREMENTS_ACCUMULATED_DELTA_RANGE_STATE_RESET_BIT = 2"
definition PB_GNSS_MEASUREMENTS_ACCUMULATED_DELTA_RANGE_STATE_CYCLE_SLIP_BIT :: int where "PB_GNSS_MEASUREMENTS_ACCUMULATED_DELTA_RANGE_STATE_CYCLE_SLIP_BIT = 4"
definition PB_GNSS_MEASUREMENTS_ACCUMULATED_DELTA_RANGE_STATE_HALF_CYCLE_RESOLVED_BIT :: int where "PB_GNSS_MEASUREMENTS_ACCUMULATED_DELTA_RANGE_STATE_HALF_CYCLE_RESOLVED_BIT = 8"
definition PB_LOCATION_NAV_DATA_HAS_LONG_ACCEL_BIT :: int where "PB_LOCATION_NAV_DATA_HAS_LONG_ACCEL_BIT = 1"
definition PB_LOCATION_NAV_DATA_HAS_LAT_ACCEL_BIT :: int where "PB_LOCATION_NAV_DATA_HAS_LAT_ACCEL_BIT = 2"
definition PB_LOCATION_NAV_DATA_HAS_VERT_ACCEL_BIT :: int where "PB_LOCATION_NAV_DATA_HAS_VERT_ACCEL_BIT = 4"
definition PB_LOCATION_NAV_DATA_HAS_YAW_RATE_BIT :: int where "PB_LOCATION_NAV_DATA_HAS_YAW_RATE_BIT = 8"
definition PB_LOCATION_NAV_DATA_HAS_PITCH_BIT :: int where "PB_LOCATION_NAV_DATA_HAS_PITCH_BIT = 128"
definition PB_LOCATION_NAV_DATA_HAS_LONG_ACCEL_UNC_BIT :: int where "PB_LOCATION_NAV_DATA_HAS_LONG_ACCEL_UNC_BIT = 2048"
definition PB_LOCATION_NAV_DATA_HAS_LAT_ACCEL_UNC_BIT :: int where "PB_LOCATION_NAV_DATA_HAS_LAT_ACCEL_UNC_BIT = 4096"
definition PB_LOCATION_NAV_DATA_HAS_VERT_ACCEL_UNC_BIT :: int where "PB_LOCATION_NAV_DATA_HAS_VERT_ACCEL_UNC_BIT = 8192"
definition PB_LOCATION_NAV_DATA_HAS_YAW_RATE_UNC_BIT :: int where "PB_LOCATION_NAV_DATA_HAS_YAW_RATE_UNC_BIT = 16"
definition PB_LOCATION_NAV_DATA_HAS_PITCH_UNC_BIT :: int where "PB_LOCATION_NAV_DATA_HAS_PITCH_UNC_BIT = 256"
definition PB_LOCATION_NAV_DATA_HAS_PITCH_RATE_BIT :: int where "PB_LOCATION_NAV_DATA_HAS_PITCH_RATE_BIT = 512"
definition PB_LOCATION_NAV_DATA_HAS_PITCH_RATE_UNC_BIT :: int where "PB_LOCATION_NAV_DATA_HAS_PITCH_RATE_UNC_BIT = 1024"
definition PB_LOCATION_NAV_DATA_HAS_ROLL_BIT :: int where "PB_LOCATION_NAV_DATA_HAS_ROLL_BIT = 16384"
definition PB_LOCATION_NAV_DATA_HAS_ROLL_UNC_BIT :: int where "PB_LOCATION_NAV_DATA_HAS_ROLL_UNC_BIT = 32768"
definition PB_LOCATION_NAV_DATA_HAS_ROLL_RATE_BIT :: int where "PB_LOCATION_NAV_DATA_HAS_ROLL_RATE_BIT = 65536"
definition PB_LOCATION_NAV_DATA_HAS_ROLL_RATE_UNC_BIT :: int where "PB_LOCATION_NAV_DATA_HAS_ROLL_RATE_UNC_BIT = 131072"
definition PB_LOCATION_NAV_DATA_HAS_YAW_BIT :: int where "PB_LOCATION_NAV_DATA_HAS_YAW_BIT = 32"
definition PB_LOCATION_NAV_DATA_HAS_YAW_UNC_BIT :: int where "PB_LOCATION_NAV_DATA_HAS_YAW_UNC_BIT = 64"
definition PB_GNSS_MEASUREMENTS_CLOCK_FLAGS_LEAP_SECOND_BIT :: int where "PB_GNSS_MEASUREMENTS_CLOCK_FLAGS_LEAP_SECOND_BIT = 1"
definition PB_GNSS_MEASUREMENTS_CLOCK_FLAGS_TIME_BIT :: int where "PB_GNSS_MEASUREMENTS_CLOCK_FLAGS_TIME_BIT = 2"
definition PB_GNSS_MEASUREMENTS_CLOCK_FLAGS_TIME_UNCERTAINTY_BIT :: int where "PB_GNSS_MEASUREMENTS_CLOCK_FLAGS_TIME_UNCERTAINTY_BIT = 4"
definition PB_GNSS_MEASUREMENTS_CLOCK_FLAGS_FULL_BIAS_BIT :: int where "PB_GNSS_MEASUREMENTS_CLOCK_FLAGS_FULL_BIAS_BIT = 8"
definition PB_GNSS_MEASUREMENTS_CLOCK_FLAGS_BIAS_BIT :: int where "PB_GNSS_MEASUREMENTS_CLOCK_FLAGS_BIAS_BIT = 16"
definition PB_GNSS_MEASUREMENTS_CLOCK_FLAGS_BIAS_UNCERTAINTY_BIT :: int where "PB_GNSS_MEASUREMENTS_CLOCK_FLAGS_BIAS_UNCERTAINTY_BIT = 32"
definition PB_GNSS_MEASUREMENTS_CLOCK_FLAGS_DRIFT_BIT :: int where "PB_GNSS_MEASUREMENTS_CLOCK_FLAGS_DRIFT_BIT = 64"
definition PB_GNSS_MEASUREMENTS_CLOCK_FLAGS_DRIFT_UNCERTAINTY_BIT :: int where "PB_GNSS_MEASUREMENTS_CLOCK_FLAGS_DRIFT_UNCERTAINTY_BIT = 128"
definition PB_GNSS_MEASUREMENTS_CLOCK_FLAGS_HW_CLOCK_DISCONTINUITY_COUNT_BIT :: int where "PB_GNSS_MEASUREMENTS_CLOCK_FLAGS_HW_CLOCK_DISCONTINUITY_COUNT_BIT = 256"
definition PB_GNSS_MEASUREMENTS_CLOCK_FLAGS_ELAPSED_REAL_TIME_BIT :: int where "PB_GNSS_MEASUREMENTS_CLOCK_FLAGS_ELAPSED_REAL_TIME_BIT = 512"
definition PB_GNSS_MEASUREMENTS_CLOCK_FLAGS_ELAPSED_REAL_TIME_UNC_BIT :: int where "PB_GNSS_MEASUREMENTS_CLOCK_FLAGS_ELAPSED_REAL_TIME_UNC_BIT = 1024"
definition PB_GNSS_MEASUREMENTS_CLOCK_FLAGS_ELAPSED_GPTP_TIME_BIT :: int where "PB_GNSS_MEASUREMENTS_CLOCK_FLAGS_ELAPSED_GPTP_TIME_BIT = 2048"
definition PB_GNSS_MEASUREMENTS_CLOCK_FLAGS_ELAPSED_GPTP_TIME_UNC_BIT :: int where "PB_GNSS_MEASUREMENTS_CLOCK_FLAGS_ELAPSED_GPTP_TIME_UNC_BIT = 4096"
definition PB_GNSS_CLO_DAYS_VALID :: int where "PB_GNSS_CLO_DAYS_VALID = 2"
definition PB_GNSS_GLO_MSEC_VALID :: int where "PB_GNSS_GLO_MSEC_VALID = 4"
definition PB_GNSS_GLO_CLK_TIME_BIAS_VALID :: int where "PB_GNSS_GLO_CLK_TIME_BIAS_VALID = 8"
definition PB_GNSS_GLO_CLK_TIME_BIAS_UNC_VALID :: int where "PB_GNSS_GLO_CLK_TIME_BIAS_UNC_VALID = 16"
definition PB_GNSS_GLO_REF_FCOUNT_VALID :: int where "PB_GNSS_GLO_REF_FCOUNT_VALID = 32"
definition PB_GNSS_GLO_NUM_CLOCK_RESETS_VALID :: int where "PB_GNSS_GLO_NUM_CLOCK_RESETS_VALID = 64"
definition PB_GNSS_GLO_FOUR_YEAR_VALID :: int where "PB_GNSS_GLO_FOUR_YEAR_VALID = 1"
definition PB_GNSS_SV_OPTIONS_HAS_EPHEMER_BIT :: int where "PB_GNSS_SV_OPTIONS_HAS_EPHEMER_BIT = 1"
definition PB_GNSS_SV_OPTIONS_HAS_ALMANAC_BIT :: int where "PB_GNSS_SV_OPTIONS_HAS_ALMANAC_BIT = 2"
definition PB_GNSS_SV_OPTIONS_USED_IN_FIX_BIT :: int where "PB_GNSS_SV_OPTIONS_USED_IN_FIX_BIT = 4"
definition PB_GNSS_SV_OPTIONS_HAS_CARRIER_FREQUENCY_BIT :: int where "PB_GNSS_SV_OPTIONS_HAS_CARRIER_FREQUENCY_BIT = 8"
definition PB_GNSS_SV_OPTIONS_HAS_GNSS_SIGNAL_TYPE_BIT :: int where "PB_GNSS_SV_OPTIONS_HAS_GNSS_SIGNAL_TYPE_BIT = 16"
definition PB_GNSS_SV_OPTIONS_HAS_BASEBAND_CARRIER_TO_NOISE_BIT :: int where "PB_GNSS_SV_OPTIONS_HAS_BASEBAND_CARRIER_TO_NOISE_BIT = 32"
definition PB_GNSS_SV_OPTIONS_HAS_ELEVATION_BIT :: int where "PB_GNSS_SV_OPTIONS_HAS_ELEVATION_BIT = 64"
definition PB_GNSS_SV_OPTIONS_HAS_AZIMUTH_BIT :: int where "PB_GNSS_SV_OPTIONS_HAS_AZIMUTH_BIT = 128"
definition PB_GNSS_SIGNAL_GPS_L1CA_BIT :: int where "PB_GNSS_SIGNAL_GPS_L1CA_BIT = 1"
definition PB_GNSS_SIGNAL_GPS_L1C_BIT :: int where "PB_GNSS_SIGNAL_GPS_L1C_BIT = 2"
definition PB_GNSS_SIGNAL_GPS_L2_BIT :: int where "PB_GNSS_SIGNAL_GPS_L2_BIT = 4"
definition PB_GNSS_SIGNAL_GPS_L5_BIT :: int where "PB_GNSS_SIGNAL_GPS_L5_BIT = 8"
definition PB_GNSS_SIGNAL_GLONASS_G1_BIT :: int where "PB_GNSS_SIGNAL_GLONASS_G1_BIT = 16"
definition PB_GNSS_SIGNAL_GLONASS_G2_BIT :: int where "PB_GNSS_SIGNAL_GLONASS_G2_BIT = 32"
definition PB_GNSS_SIGNAL_GALILEO_E1_BIT :: int where "PB_GNSS_SIGNAL_GALILEO_E1_BIT = 64"
definition PB_GNSS_SIGNAL_GALILEO_E5A_BIT :: int where "PB_GNSS_SIGNAL_GALILEO_E5A_BIT = 128"
definition PB_GNSS_SIGNAL_GALILEO_E5B_BIT :: int where "PB_GNSS_SIGNAL_GALILEO_E5B_BIT = 256"
definition PB_GNSS_SIGNAL_BEIDOU_B1_BIT :: int where "PB_GNSS_SIGNAL_BEIDOU_B1_BIT = 512"
definition PB_GNSS_SIGNAL_BEIDOU_B2_BIT :: int where "PB_GNSS_SIGNAL_BEIDOU_B2_BIT = 1024"
definition PB_GNSS_SIGNAL_QZSS_L1CA_BIT :: int where "PB_GNSS_SIGNAL_QZSS_L1CA_BIT = 2048"
definition PB_GNSS_SIGNAL_QZSS_L1S_BIT :: int where "PB_GNSS_SIGNAL_QZSS_L1S_BIT = 4096"
definition PB_GNSS_SIGNAL_QZSS_L2_BIT :: int where "PB_GNSS_SIGNAL_QZSS_L2_BIT = 8192"
definition PB_GNSS_SIGNAL_QZSS_L5_BIT :: int where "PB_GNSS_SIGNAL_QZSS_L5_BIT = 16384"
definition PB_GNSS_SIGNAL_SBAS_L1_BIT :: int where "PB_GNSS_SIGNAL_SBAS_L1_BIT = 32768"
definition PB_GNSS_SIGNAL_BEIDOU_B1I_BIT :: int where "PB_GNSS_SIGNAL_BEIDOU_B1I_BIT = 65536"
definition PB_GNSS_SIGNAL_BEIDOU_B1C_BIT :: int where "PB_GNSS_SIGNAL_BEIDOU_B1C_BIT = 131072"
definition PB_GNSS_SIGNAL_BEIDOU_B2I_BIT :: int where "PB_GNSS_SIGNAL_BEIDOU_B2I_BIT = 262144"
definition PB_GNSS_SIGNAL_BEIDOU_B2AI_BIT :: int where "PB_GNSS_SIGNAL_BEIDOU_B2AI_BIT = 524288"
definition PB_GNSS_SIGNAL_NAVIC_L5_BIT :: int where "PB_GNSS_SIGNAL_NAVIC_L5_BIT = 0x100000"
definition PB_GNSS_SIGNAL_BEIDOU_B2AQ_BIT :: int where "PB_GNSS_SIGNAL_BEIDOU_B2AQ_BIT = 0x200000"
definition PB_GNSS_SIGNAL_BEIDOU_B2BI_BIT :: int where "PB_GNSS_SIGNAL_BEIDOU_B2BI_BIT = 0x400000"
definition PB_GNSS_SIGNAL_BEIDOU_B2BQ_BIT :: int where "PB_GNSS_SIGNAL_BEIDOU_B2BQ_BIT = 0x800000"
definition PB_GNSS_SIGNAL_NAVIC_L1_BIT :: int where "PB_GNSS_SIGNAL_NAVIC_L1_BIT = 0x1000000"
definition PB_GEOFENCE_BREACH_ENTER_BIT :: int where "PB_GEOFENCE_BREACH_ENTER_BIT = 1"
definition PB_GEOFENCE_BREACH_EXIT_BIT :: int where "PB_GEOFENCE_BREACH_EXIT_BIT = 2"
definition PB_GEOFENCE_BREACH_DWELL_IN_BIT :: int where "PB_GEOFENCE_BREACH_DWELL_IN_BIT = 4"
definition PB_GEOFENCE_BREACH_DWELL_OUT_BIT :: int where "PB_GEOFENCE_BREACH_DWELL_OUT_BIT = 8"
definition PB_BODY_TO_SENSOR_MOUNT_PARAMS_BIT :: int where "PB_BODY_TO_SENSOR_MOUNT_PARAMS_BIT = 1"
definition PB_VEHICLE_SPEED_SCALE_FACTOR_BIT :: int where "PB_VEHICLE_SPEED_SCALE_FACTOR_BIT = 2"
definition PB_VEHICLE_SPEED_SCALE_FACTOR_UNC_BIT :: int where "PB_VEHICLE_SPEED_SCALE_FACTOR_UNC_BIT = 4"
definition PB_GYRO_SCALE_FACTOR_BIT :: int where "PB_GYRO_SCALE_FACTOR_BIT = 8"
definition PB_GYRO_SCALE_FACTOR_UNC_BIT :: int where "PB_GYRO_SCALE_FACTOR_UNC_BIT = 16"
definition PB_DR_ENGINE_AIDING_DATA_CALIBRATION_BIT :: int where "PB_DR_ENGINE_AIDING_DATA_CALIBRATION_BIT = 1"
definition PB_VEHICLE_SENSOR_SPEED_INPUT_DETECTED :: int where "PB_VEHICLE_SENSOR_SPEED_INPUT_DETECTED = 1"
definition PB_VEHICLE_SENSOR_SPEED_INPUT_USED :: int where "PB_VEHICLE_SENSOR_SPEED_INPUT_USED = 2"
definition PB_DRE_WARNING_UNCALIBRATED :: int where "PB_DRE_WARNING_UNCALIBRATED = 4"
definition PB_DRE_WARNING_GNSS_QUALITY_INSUFFICIENT :: int where "PB_DRE_WARNING_GNSS_QUALITY_INSUFFICIENT = 8"
definition PB_DRE_WARNING_FERRY_DETECTED :: int where "PB_DRE_WARNING_FERRY_DETECTED = 16"
definition PB_DRE_ERROR_6DOF_SENSOR_UNAVAILABLE :: int where "PB_DRE_ERROR_6DOF_SENSOR_UNAVAILABLE = 32"
definition PB_DRE_ERROR_VEHICLE_SPEED_UNAVAILABLE :: int where "PB_DRE_ERROR_VEHICLE_SPEED_UNAVAILABLE = 64"
definition PB_DRE_ERROR_GNSS_EPH_UNAVAILABLE :: int where "PB_DRE_ERROR_GNSS_EPH_UNAVAILABLE = 128"
definition PB_DRE_ERROR_GNSS_MEAS_UNAVAILABLE :: int where "PB_DRE_ERROR_GNSS_MEAS_UNAVAILABLE = 256"
definition PB_DRE_WARNING_INIT_POSITION_INVALID :: int where "PB_DRE_WARNING_INIT_POSITION_INVALID = 512"
definition PB_DRE_WARNING_INIT_POSITION_UNRELIABLE :: int where "PB_DRE_WARNING_INIT_POSITION_UNRELIABLE = 1024"
definition PB_DRE_WARNING_POSITON_UNRELIABLE :: int where "PB_DRE_WARNING_POSITON_UNRELIABLE = 2048"
definition PB_DRE_ERROR_GENERIC :: int where "PB_DRE_ERROR_GENERIC = 4096"
definition PB_DRE_WARNING_SENSOR_TEMP_OUT_OF_RANGE :: int where "PB_DRE_WARNING_SENSOR_TEMP_OUT_OF_RANGE = 8192"
definition PB_DRE_WARNING_USER_DYNAMICS_INSUFFICIENT :: int where "PB_DRE_WARNING_USER_DYNAMICS_INSUFFICIENT = 16384"
definition PB_DRE_WARNING_FACTORY_DATA_INCONSISTENT :: int where "PB_DRE_WARNING_FACTORY_DATA_INCONSISTENT = 32768"
definition PB_DRE_WARNING_MMF_UNAVAILABLE :: int where "PB_DRE_WARNING_MMF_UNAVAILABLE = 65536"
definition PB_DRE_WARNING_MMF_NOT_USABLE :: int where "PB_DRE_WARNING_MMF_NOT_USABLE = 131072"
definition PB_GNSS_SV_TYPES_MASK_GLO_BIT :: int where "PB_GNSS_SV_TYPES_MASK_GLO_BIT = 1"
definition PB_GNSS_SV_TYPES_MASK_BDS_BIT :: int where "PB_GNSS_SV_TYPES_MASK_BDS_BIT = 2"
definition PB_GNSS_SV_TYPES_MASK_QZSS_BIT :: int where "PB_GNSS_SV_TYPES_MASK_QZSS_BIT = 4"
definition PB_GNSS_SV_TYPES_MASK_GAL_BIT :: int where "PB_GNSS_SV_TYPES_MASK_GAL_BIT = 8"
definition PB_GNSS_SV_TYPES_MASK_NAVIC_BIT :: int where "PB_GNSS_SV_TYPES_MASK_NAVIC_BIT = 16"
definition PB_GNSS_SV_TYPES_MASK_GPS_BIT :: int where "PB_GNSS_SV_TYPES_MASK_GPS_BIT = 32"
definition PB_E_LOCAPI_UNDEFINED_MSG_ID :: int where "PB_E_LOCAPI_UNDEFINED_MSG_ID = 0"
definition E_LOCAPI_UNDEFINED_MSG_ID :: int where "E_LOCAPI_UNDEFINED_MSG_ID = 0"
definition PB_E_LOCAPI_CLIENT_REGISTER_MSG_ID :: int where "PB_E_LOCAPI_CLIENT_REGISTER_MSG_ID = 1"
definition E_LOCAPI_CLIENT_REGISTER_MSG_ID :: int where "E_LOCAPI_CLIENT_REGISTER_MSG_ID = 1"
definition PB_E_LOCAPI_CLIENT_DEREGISTER_MSG_ID :: int where "PB_E_LOCAPI_CLIENT_DEREGISTER_MSG_ID = 2"
definition E_LOCAPI_CLIENT_DEREGISTER_MSG_ID :: int where "E_LOCAPI_CLIENT_DEREGISTER_MSG_ID = 2"
definition PB_E_LOCAPI_CAPABILILTIES_MSG_ID :: int where "PB_E_LOCAPI_CAPABILILTIES_MSG_ID = 3"
definition E_LOCAPI_CAPABILILTIES_MSG_ID :: int where "E_LOCAPI_CAPABILILTIES_MSG_ID = 3"
definition PB_E_LOCAPI_HAL_READY_MSG_ID :: int where "PB_E_LOCAPI_HAL_READY_MSG_ID = 4"
definition E_LOCAPI_HAL_READY_MSG_ID :: int where "E_LOCAPI_HAL_READY_MSG_ID = 4"
definition PB_E_LOCAPI_START_TRACKING_MSG_ID :: int where "PB_E_LOCAPI_START_TRACKING_MSG_ID = 5"
definition E_LOCAPI_START_TRACKING_MSG_ID :: int where "E_LOCAPI_START_TRACKING_MSG_ID = 5"
definition PB_E_LOCAPI_STOP_TRACKING_MSG_ID :: int where "PB_E_LOCAPI_STOP_TRACKING_MSG_ID = 6"
definition E_LOCAPI_STOP_TRACKING_MSG_ID :: int where "E_LOCAPI_STOP_TRACKING_MSG_ID = 6"
definition PB_E_LOCAPI_UPDATE_CALLBACKS_MSG_ID :: int where "PB_E_LOCAPI_UPDATE_CALLBACKS_MSG_ID = 7"
definition E_LOCAPI_UPDATE_CALLBACKS_MSG_ID :: int where "E_LOCAPI_UPDATE_CALLBACKS_MSG_ID = 7"
definition PB_E_LOCAPI_UPDATE_TRACKING_OPTIONS_MSG_ID :: int where "PB_E_LOCAPI_UPDATE_TRACKING_OPTIONS_MSG_ID = 8"
definition E_LOCAPI_UPDATE_TRACKING_OPTIONS_MSG_ID :: int where "E_LOCAPI_UPDATE_TRACKING_OPTIONS_MSG_ID = 8"
definition PB_E_LOCAPI_CONTROL_UPDATE_CONFIG_MSG_ID :: int where "PB_E_LOCAPI_CONTROL_UPDATE_CONFIG_MSG_ID = 9"
definition E_LOCAPI_CONTROL_UPDATE_CONFIG_MSG_ID :: int where "E_LOCAPI_CONTROL_UPDATE_CONFIG_MSG_ID = 9"
definition PB_E_LOCAPI_CONTROL_DELETE_AIDING_DATA_MSG_ID :: int where "PB_E_LOCAPI_CONTROL_DELETE_AIDING_DATA_MSG_ID = 10"
definition E_LOCAPI_CONTROL_DELETE_AIDING_DATA_MSG_ID :: int where "E_LOCAPI_CONTROL_DELETE_AIDING_DATA_MSG_ID = 10"
definition PB_E_LOCAPI_CONTROL_UPDATE_NETWORK_AVAILABILITY_MSG_ID :: int where "PB_E_LOCAPI_CONTROL_UPDATE_NETWORK_AVAILABILITY_MSG_ID = 11"
definition E_LOCAPI_CONTROL_UPDATE_NETWORK_AVAILABILITY_MSG_ID :: int where "E_LOCAPI_CONTROL_UPDATE_NETWORK_AVAILABILITY_MSG_ID = 11"
definition PB_E_LOCAPI_LOCATION_MSG_ID :: int where "PB_E_LOCAPI_LOCATION_MSG_ID = 12"
definition E_LOCAPI_LOCATION_MSG_ID :: int where "E_LOCAPI_LOCATION_MSG_ID = 12"
definition PB_E_LOCAPI_LOCATION_INFO_MSG_ID :: int where "PB_E_LOCAPI_LOCATION_INFO_MSG_ID = 13"
definition E_LOCAPI_LOCATION_INFO_MSG_ID :: int where "E_LOCAPI_LOCATION_INFO_MSG_ID = 13"
definition PB_E_LOCAPI_SATELLITE_VEHICLE_MSG_ID :: int where "PB_E_LOCAPI_SATELLITE_VEHICLE_MSG_ID = 14"
definition E_LOCAPI_SATELLITE_VEHICLE_MSG_ID :: int where "E_LOCAPI_SATELLITE_VEHICLE_MSG_ID = 14"
definition PB_E_LOCAPI_NMEA_MSG_ID :: int where "PB_E_LOCAPI_NMEA_MSG_ID = 15"
definition E_LOCAPI_NMEA_MSG_ID :: int where "E_LOCAPI_NMEA_MSG_ID = 15"
definition PB_E_LOCAPI_DATA_MSG_ID :: int where "PB_E_LOCAPI_DATA_MSG_ID = 16"
definition E_LOCAPI_DATA_MSG_ID :: int where "E_LOCAPI_DATA_MSG_ID = 16"
definition PB_E_LOCAPI_GET_GNSS_ENGERY_CONSUMED_MSG_ID :: int where "PB_E_LOCAPI_GET_GNSS_ENGERY_CONSUMED_MSG_ID = 17"
definition E_LOCAPI_GET_GNSS_ENGERY_CONSUMED_MSG_ID :: int where "E_LOCAPI_GET_GNSS_ENGERY_CONSUMED_MSG_ID = 17"
definition PB_E_LOCAPI_LOCATION_SYSTEM_INFO_MSG_ID :: int where "PB_E_LOCAPI_LOCATION_SYSTEM_INFO_MSG_ID = 18"
definition E_LOCAPI_LOCATION_SYSTEM_INFO_MSG_ID :: int where "E_LOCAPI_LOCATION_SYSTEM_INFO_MSG_ID = 18"
definition PB_E_LOCAPI_ENGINE_LOCATIONS_INFO_MSG_ID :: int where "PB_E_LOCAPI_ENGINE_LOCATIONS_INFO_MSG_ID = 19"
definition E_LOCAPI_ENGINE_LOCATIONS_INFO_MSG_ID :: int where "E_LOCAPI_ENGINE_LOCATIONS_INFO_MSG_ID = 19"
definition PB_E_LOCAPI_START_BATCHING_MSG_ID :: int where "PB_E_LOCAPI_START_BATCHING_MSG_ID = 20"
definition E_LOCAPI_START_BATCHING_MSG_ID :: int where "E_LOCAPI_START_BATCHING_MSG_ID = 20"
definition PB_E_LOCAPI_STOP_BATCHING_MSG_ID :: int where "PB_E_LOCAPI_STOP_BATCHING_MSG_ID = 21"
definition E_LOCAPI_STOP_BATCHING_MSG_ID :: int where "E_LOCAPI_STOP_BATCHING_MSG_ID = 21"
definition PB_E_LOCAPI_UPDATE_BATCHING_OPTIONS_MSG_ID :: int where "PB_E_LOCAPI_UPDATE_BATCHING_OPTIONS_MSG_ID = 22"
definition E_LOCAPI_UPDATE_BATCHING_OPTIONS_MSG_ID :: int where "E_LOCAPI_UPDATE_BATCHING_OPTIONS_MSG_ID = 22"
definition PB_E_LOCAPI_BATCHING_MSG_ID :: int where "PB_E_LOCAPI_BATCHING_MSG_ID = 23"
definition E_LOCAPI_BATCHING_MSG_ID :: int where "E_LOCAPI_BATCHING_MSG_ID = 23"
definition PB_E_LOCAPI_ADD_GEOFENCES_MSG_ID :: int where "PB_E_LOCAPI_ADD_GEOFENCES_MSG_ID = 24"
definition E_LOCAPI_ADD_GEOFENCES_MSG_ID :: int where "E_LOCAPI_ADD_GEOFENCES_MSG_ID = 24"
definition PB_E_LOCAPI_REMOVE_GEOFENCES_MSG_ID :: int where "PB_E_LOCAPI_REMOVE_GEOFENCES_MSG_ID = 25"
definition E_LOCAPI_REMOVE_GEOFENCES_MSG_ID :: int where "E_LOCAPI_REMOVE_GEOFENCES_MSG_ID = 25"
definition PB_E_LOCAPI_MODIFY_GEOFENCES_MSG_ID :: int where "PB_E_LOCAPI_MODIFY_GEOFENCES_MSG_ID = 26"
definition E_LOCAPI_MODIFY_GEOFENCES_MSG_ID :: int where "E_LOCAPI_MODIFY_GEOFENCES_MSG_ID = 26"
definition PB_E_LOCAPI_PAUSE_GEOFENCES_MSG_ID :: int where "PB_E_LOCAPI_PAUSE_GEOFENCES_MSG_ID = 27"
definition E_LOCAPI_PAUSE_GEOFENCES_MSG_ID :: int where "E_LOCAPI_PAUSE_GEOFENCES_MSG_ID = 27"
definition PB_E_LOCAPI_RESUME_GEOFENCES_MSG_ID :: int where "PB_E_LOCAPI_RESUME_GEOFENCES_MSG_ID = 28"
definition E_LOCAPI_RESUME_GEOFENCES_MSG_ID :: int where "E_LOCAPI_RESUME_GEOFENCES_MSG_ID = 28"
definition PB_E_LOCAPI_GEOFENCE_BREACH_MSG_ID :: int where "PB_E_LOCAPI_GEOFENCE_BREACH_MSG_ID = 29"
definition E_LOCAPI_GEOFENCE_BREACH_MSG_ID :: int where "E_LOCAPI_GEOFENCE_BREACH_MSG_ID = 29"
definition PB_E_LOCAPI_MEAS_MSG_ID :: int where "PB_E_LOCAPI_MEAS_MSG_ID = 30"
definition E_LOCAPI_MEAS_MSG_ID :: int where "E_LOCAPI_MEAS_MSG_ID = 30"
definition PB_E_LOCAPI_GET_SINGLE_TERRESTRIAL_POS_REQ_MSG_ID :: int where "PB_E_LOCAPI_GET_SINGLE_TERRESTRIAL_POS_REQ_MSG_ID = 31"
definition E_LOCAPI_GET_SINGLE_TERRESTRIAL_POS_REQ_MSG_ID :: int where "E_LOCAPI_GET_SINGLE_TERRESTRIAL_POS_REQ_MSG_ID = 31"
definition PB_E_LOCAPI_GET_SINGLE_TERRESTRIAL_POS_RESP_MSG_ID :: int where "PB_E_LOCAPI_GET_SINGLE_TERRESTRIAL_POS_RESP_MSG_ID = 32"
definition E_LOCAPI_GET_SINGLE_TERRESTRIAL_POS_RESP_MSG_ID :: int where "E_LOCAPI_GET_SINGLE_TERRESTRIAL_POS_RESP_MSG_ID = 32"
definition PB_E_LOCAPI_DC_REPORT_MSG_ID :: int where "PB_E_LOCAPI_DC_REPORT_MSG_ID = 35"
definition E_LOCAPI_DC_REPORT_MSG_ID :: int where "E_LOCAPI_DC_REPORT_MSG_ID = 35"
definition PB_E_LOCAPI_GET_SINGLE_POS_REQ_MSG_ID :: int where "PB_E_LOCAPI_GET_SINGLE_POS_REQ_MSG_ID = 38"
definition E_LOCAPI_GET_SINGLE_POS_REQ_MSG_ID :: int where "E_LOCAPI_GET_SINGLE_POS_REQ_MSG_ID = 38"
definition PB_E_LOCAPI_GET_SINGLE_POS_RESP_MSG_ID :: int where "PB_E_LOCAPI_GET_SINGLE_POS_RESP_MSG_ID = 39"
definition E_LOCAPI_GET_SINGLE_POS_RESP_MSG_ID :: int where "E_LOCAPI_GET_SINGLE_POS_RESP_MSG_ID = 39"
definition PB_E_LOCAPI_EPH_MSG_ID :: int where "PB_E_LOCAPI_EPH_MSG_ID = 40"
definition E_LOCAPI_EPH_MSG_ID :: int where "E_LOCAPI_EPH_MSG_ID = 40"
definition PB_E_LOCAPI_PINGTEST_MSG_ID :: int where "PB_E_LOCAPI_PINGTEST_MSG_ID = 99"
definition E_LOCAPI_PINGTEST_MSG_ID :: int where "E_LOCAPI_PINGTEST_MSG_ID = 99"
definition PB_E_INTAPI_CONFIG_CONSTRAINTED_TUNC_MSG_ID :: int where "PB_E_INTAPI_CONFIG_CONSTRAINTED_TUNC_MSG_ID = 200"
definition E_INTAPI_CONFIG_CONSTRAINTED_TUNC_MSG_ID :: int where "E_INTAPI_CONFIG_CONSTRAINTED_TUNC_MSG_ID = 200"
definition PB_E_INTAPI_CONFIG_POSITION_ASSISTED_CLOCK_ESTIMATOR_MSG_ID :: int where "PB_E_INTAPI_CONFIG_POSITION_ASSISTED_CLOCK_ESTIMATOR_MSG_ID = 201"
definition E_INTAPI_CONFIG_POSITION_ASSISTED_CLOCK_ESTIMATOR_MSG_ID :: int where "E_INTAPI_CONFIG_POSITION_ASSISTED_CLOCK_ESTIMATOR_MSG_ID = 201"
definition PB_E_INTAPI_CONFIG_SV_CONSTELLATION_MSG_ID :: int where "PB_E_INTAPI_CONFIG_SV_CONSTELLATION_MSG_ID = 202"
definition E_INTAPI_CONFIG_SV_CONSTELLATION_MSG_ID :: int where "E_INTAPI_CONFIG_SV_CONSTELLATION_MSG_ID = 202"
definition PB_E_INTAPI_CONFIG_AIDING_DATA_DELETION_MSG_ID :: int where "PB_E_INTAPI_CONFIG_AIDING_DATA_DELETION_MSG_ID = 203"
definition E_INTAPI_CONFIG_AIDING_DATA_DELETION_MSG_ID :: int where "E_INTAPI_CONFIG_AIDING_DATA_DELETION_MSG_ID = 203"
definition PB_E_INTAPI_CONFIG_LEVER_ARM_MSG_ID :: int where "PB_E_INTAPI_CONFIG_LEVER_ARM_MSG_ID = 204"
definition E_INTAPI_CONFIG_LEVER_ARM_MSG_ID :: int where "E_INTAPI_CONFIG_LEVER_ARM_MSG_ID = 204"
definition PB_E_INTAPI_CONFIG_ROBUST_LOCATION_MSG_ID :: int where "PB_E_INTAPI_CONFIG_ROBUST_LOCATION_MSG_ID = 205"
definition E_INTAPI_CONFIG_ROBUST_LOCATION_MSG_ID :: int where "E_INTAPI_CONFIG_ROBUST_LOCATION_MSG_ID = 205"
definition PB_E_INTAPI_CONFIG_MIN_GPS_WEEK_MSG_ID :: int where "PB_E_INTAPI_CONFIG_MIN_GPS_WEEK_MSG_ID = 206"
definition E_INTAPI_CONFIG_MIN_GPS_WEEK_MSG_ID :: int where "E_INTAPI_CONFIG_MIN_GPS_WEEK_MSG_ID = 206"
definition PB_E_INTAPI_CONFIG_DEAD_RECKONING_ENGINE_MSG_ID :: int where "PB_E_INTAPI_CONFIG_DEAD_RECKONING_ENGINE_MSG_ID = 207"
definition E_INTAPI_CONFIG_DEAD_RECKONING_ENGINE_MSG_ID :: int where "E_INTAPI_CONFIG_DEAD_RECKONING_ENGINE_MSG_ID = 207"
definition PB_E_INTAPI_CONFIG_MIN_SV_ELEVATION_MSG_ID :: int where "PB_E_INTAPI_CONFIG_MIN_SV_ELEVATION_MSG_ID = 208"
definition E_INTAPI_CONFIG_MIN_SV_ELEVATION_MSG_ID :: int where "E_INTAPI_CONFIG_MIN_SV_ELEVATION_MSG_ID = 208"
definition PB_E_INTAPI_CONFIG_CONSTELLATION_SECONDARY_BAND_MSG_ID :: int where "PB_E_INTAPI_CONFIG_CONSTELLATION_SECONDARY_BAND_MSG_ID = 209"
definition E_INTAPI_CONFIG_CONSTELLATION_SECONDARY_BAND_MSG_ID :: int where "E_INTAPI_CONFIG_CONSTELLATION_SECONDARY_BAND_MSG_ID = 209"
definition PB_E_INTAPI_CONFIG_ENGINE_RUN_STATE_MSG_ID :: int where "PB_E_INTAPI_CONFIG_ENGINE_RUN_STATE_MSG_ID = 210"
definition E_INTAPI_CONFIG_ENGINE_RUN_STATE_MSG_ID :: int where "E_INTAPI_CONFIG_ENGINE_RUN_STATE_MSG_ID = 210"
definition PB_E_INTAPI_CONFIG_USER_CONSENT_TERRESTRIAL_POSITIONING_MSG_ID :: int where "PB_E_INTAPI_CONFIG_USER_CONSENT_TERRESTRIAL_POSITIONING_MSG_ID = 211"
definition E_INTAPI_CONFIG_USER_CONSENT_TERRESTRIAL_POSITIONING_MSG_ID :: int where "E_INTAPI_CONFIG_USER_CONSENT_TERRESTRIAL_POSITIONING_MSG_ID = 211"
definition PB_E_INTAPI_CONFIG_OUTPUT_NMEA_TYPES_MSG_ID :: int where "PB_E_INTAPI_CONFIG_OUTPUT_NMEA_TYPES_MSG_ID = 212"
definition E_INTAPI_CONFIG_OUTPUT_NMEA_TYPES_MSG_ID :: int where "E_INTAPI_CONFIG_OUTPUT_NMEA_TYPES_MSG_ID = 212"
definition PB_E_INTAPI_CONFIG_ENGINE_INTEGRITY_RISK_MSG_ID :: int where "PB_E_INTAPI_CONFIG_ENGINE_INTEGRITY_RISK_MSG_ID = 213"
definition E_INTAPI_CONFIG_ENGINE_INTEGRITY_RISK_MSG_ID :: int where "E_INTAPI_CONFIG_ENGINE_INTEGRITY_RISK_MSG_ID = 213"
definition PB_E_INTAPI_CONFIG_XTRA_PARAMS_MSG_ID :: int where "PB_E_INTAPI_CONFIG_XTRA_PARAMS_MSG_ID = 214"
definition E_INTAPI_CONFIG_XTRA_PARAMS_MSG_ID :: int where "E_INTAPI_CONFIG_XTRA_PARAMS_MSG_ID = 215"
definition PB_E_INTAPI_CONFIG_MERKLE_TREE_MSG_ID :: int where "PB_E_INTAPI_CONFIG_MERKLE_TREE_MSG_ID = 216"
definition E_INTAPI_CONFIG_MERKLE_TREE_MSG_ID :: int where "E_INTAPI_CONFIG_MERKLE_TREE_MSG_ID = 216"
definition PB_E_INTAPI_CONFIG_OSNMA_ENABLEMENT_MSG_ID :: int where "PB_E_INTAPI_CONFIG_OSNMA_ENABLEMENT_MSG_ID = 217"
definition E_INTAPI_CONFIG_OSNMA_ENABLEMENT_MSG_ID :: int where "E_INTAPI_CONFIG_OSNMA_ENABLEMENT_MSG_ID = 217"
definition PB_E_INTAPI_GET_ROBUST_LOCATION_CONFIG_REQ_MSG_ID :: int where "PB_E_INTAPI_GET_ROBUST_LOCATION_CONFIG_REQ_MSG_ID = 300"
definition E_INTAPI_GET_ROBUST_LOCATION_CONFIG_REQ_MSG_ID :: int where "E_INTAPI_GET_ROBUST_LOCATION_CONFIG_REQ_MSG_ID = 300"
definition PB_E_INTAPI_GET_ROBUST_LOCATION_CONFIG_RESP_MSG_ID :: int where "PB_E_INTAPI_GET_ROBUST_LOCATION_CONFIG_RESP_MSG_ID = 301"
definition E_INTAPI_GET_ROBUST_LOCATION_CONFIG_RESP_MSG_ID :: int where "E_INTAPI_GET_ROBUST_LOCATION_CONFIG_RESP_MSG_ID = 301"
definition PB_E_INTAPI_GET_MIN_GPS_WEEK_REQ_MSG_ID :: int where "PB_E_INTAPI_GET_MIN_GPS_WEEK_REQ_MSG_ID = 302"
definition E_INTAPI_GET_MIN_GPS_WEEK_REQ_MSG_ID :: int where "E_INTAPI_GET_MIN_GPS_WEEK_REQ_MSG_ID = 302"
definition PB_E_INTAPI_GET_MIN_GPS_WEEK_RESP_MSG_ID :: int where "PB_E_INTAPI_GET_MIN_GPS_WEEK_RESP_MSG_ID = 303"
definition E_INTAPI_GET_MIN_GPS_WEEK_RESP_MSG_ID :: int where "E_INTAPI_GET_MIN_GPS_WEEK_RESP_MSG_ID = 303"
definition PB_E_INTAPI_GET_MIN_SV_ELEVATION_REQ_MSG_ID :: int where "PB_E_INTAPI_GET_MIN_SV_ELEVATION_REQ_MSG_ID = 304"
definition E_INTAPI_GET_MIN_SV_ELEVATION_REQ_MSG_ID :: int where "E_INTAPI_GET_MIN_SV_ELEVATION_REQ_MSG_ID = 304"
definition PB_E_INTAPI_GET_MIN_SV_ELEVATION_RESP_MSG_ID :: int where "PB_E_INTAPI_GET_MIN_SV_ELEVATION_RESP_MSG_ID = 305"
definition E_INTAPI_GET_MIN_SV_ELEVATION_RESP_MSG_ID :: int where "E_INTAPI_GET_MIN_SV_ELEVATION_RESP_MSG_ID = 305"
definition PB_E_INTAPI_GET_CONSTELLATION_SECONDARY_BAND_CONFIG_REQ_MSG_ID :: int where "PB_E_INTAPI_GET_CONSTELLATION_SECONDARY_BAND_CONFIG_REQ_MSG_ID = 306"
definition E_INTAPI_GET_CONSTELLATION_SECONDARY_BAND_CONFIG_REQ_MSG_ID :: int where "E_INTAPI_GET_CONSTELLATION_SECONDARY_BAND_CONFIG_REQ_MSG_ID = 306"
definition PB_E_INTAPI_GET_CONSTELLATION_SECONDARY_BAND_CONFIG_RESP_MSG_ID :: int where "PB_E_INTAPI_GET_CONSTELLATION_SECONDARY_BAND_CONFIG_RESP_MSG_ID = 307"
definition E_INTAPI_GET_CONSTELLATION_SECONDARY_BAND_CONFIG_RESP_MSG_ID :: int where "E_INTAPI_GET_CONSTELLATION_SECONDARY_BAND_CONFIG_RESP_MSG_ID = 307"
definition PB_E_LOCAPI_GET_DEBUG_REQ_MSG_ID :: int where "PB_E_LOCAPI_GET_DEBUG_REQ_MSG_ID = 33"
definition E_LOCAPI_GET_DEBUG_REQ_MSG_ID :: int where "E_LOCAPI_GET_DEBUG_REQ_MSG_ID = 33"
definition PB_E_LOCAPI_GET_DEBUG_RESP_MSG_ID :: int where "PB_E_LOCAPI_GET_DEBUG_RESP_MSG_ID = 34"
definition E_LOCAPI_GET_DEBUG_RESP_MSG_ID :: int where "E_LOCAPI_GET_DEBUG_RESP_MSG_ID = 34"
definition PB_E_INTAPI_INJECT_LOCATION_MSG_ID :: int where "PB_E_INTAPI_INJECT_LOCATION_MSG_ID = 215"
definition E_INTAPI_INJECT_LOCATION_MSG_ID :: int where "E_INTAPI_INJECT_LOCATION_MSG_ID = 214"
definition PB_E_LOCAPI_GET_ANTENNA_INFO_MSG_ID :: int where "PB_E_LOCAPI_GET_ANTENNA_INFO_MSG_ID = 36"
definition E_LOCAPI_GET_ANTENNA_INFO_MSG_ID :: int where "E_LOCAPI_GET_ANTENNA_INFO_MSG_ID = 36"
definition PB_E_LOCAPI_ANTENNA_INFO_MSG_ID :: int where "PB_E_LOCAPI_ANTENNA_INFO_MSG_ID = 37"
definition E_LOCAPI_ANTENNA_INFO_MSG_ID :: int where "E_LOCAPI_ANTENNA_INFO_MSG_ID = 37"
definition PB_E_INTAPI_GET_XTRA_STATUS_REQ_MSG_ID :: int where "PB_E_INTAPI_GET_XTRA_STATUS_REQ_MSG_ID = 308"
definition E_INTAPI_GET_XTRA_STATUS_REQ_MSG_ID :: int where "E_INTAPI_GET_XTRA_STATUS_REQ_MSG_ID = 308"
definition PB_E_INTAPI_GET_XTRA_STATUS_RESP_MSG_ID :: int where "PB_E_INTAPI_GET_XTRA_STATUS_RESP_MSG_ID = 309"
definition E_INTAPI_GET_XTRA_STATUS_RESP_MSG_ID :: int where "E_INTAPI_GET_XTRA_STATUS_RESP_MSG_ID = 309"
definition PB_E_INTAPI_REGISTER_XTRA_STATUS_UPDATE_REQ_MSG_ID :: int where "PB_E_INTAPI_REGISTER_XTRA_STATUS_UPDATE_REQ_MSG_ID = 310"
definition E_INTAPI_REGISTER_XTRA_STATUS_UPDATE_REQ_MSG_ID :: int where "E_INTAPI_REGISTER_XTRA_STATUS_UPDATE_REQ_MSG_ID = 310"
definition PB_E_INTAPI_DEREGISTER_XTRA_STATUS_UPDATE_REQ_MSG_ID :: int where "PB_E_INTAPI_DEREGISTER_XTRA_STATUS_UPDATE_REQ_MSG_ID = 311"
definition E_INTAPI_DEREGISTER_XTRA_STATUS_UPDATE_REQ_MSG_ID :: int where "E_INTAPI_DEREGISTER_XTRA_STATUS_UPDATE_REQ_MSG_ID = 311"
definition PB_E_INTAPI_REGISTER_GNSS_SIGNAL_TYPES_UPDATE_REQ_MSG_ID :: int where "PB_E_INTAPI_REGISTER_GNSS_SIGNAL_TYPES_UPDATE_REQ_MSG_ID = 312"
definition E_INTAPI_REGISTER_GNSS_SIGNAL_TYPES_UPDATE_REQ_MSG_ID :: int where "E_INTAPI_REGISTER_GNSS_SIGNAL_TYPES_UPDATE_REQ_MSG_ID = 312"
definition PB_E_INTAPI_REGISTER_GNSS_SIGNAL_TYPES_UPDATE_RESP_MSG_ID :: int where "PB_E_INTAPI_REGISTER_GNSS_SIGNAL_TYPES_UPDATE_RESP_MSG_ID = 313"
definition E_INTAPI_REGISTER_GNSS_SIGNAL_TYPES_UPDATE_RESP_MSG_ID :: int where "E_INTAPI_REGISTER_GNSS_SIGNAL_TYPES_UPDATE_RESP_MSG_ID = 313"
definition PB_E_INTAPI_CONFIG_MAP_MATCHED_FEEDBACK_MSG_ID :: int where "PB_E_INTAPI_CONFIG_MAP_MATCHED_FEEDBACK_MSG_ID = 218"
definition E_INTAPI_CONFIG_MAP_MATCHED_FEEDBACK_MSG_ID :: int where "E_INTAPI_CONFIG_MAP_MATCHED_FEEDBACK_MSG_ID = 218"
definition PB_E_INTAPI_CONFIG_XTRA_USER_CONSENT_MSG_ID :: int where "PB_E_INTAPI_CONFIG_XTRA_USER_CONSENT_MSG_ID = 222"
definition E_INTAPI_CONFIG_XTRA_USER_CONSENT_MSG_ID :: int where "E_INTAPI_CONFIG_XTRA_USER_CONSENT_MSG_ID = 219"
definition PB_LOCATION_ERROR_SUCCESS :: int where "PB_LOCATION_ERROR_SUCCESS = 0"
definition PB_LOCATION_ERROR_INVALID_PARAMETER :: int where "PB_LOCATION_ERROR_INVALID_PARAMETER = 1"
definition PB_LOCATION_ERROR_NOT_SUPPORTED :: int where "PB_LOCATION_ERROR_NOT_SUPPORTED = 2"
definition PB_LOCATION_ERROR_TIMEOUT :: int where "PB_LOCATION_ERROR_TIMEOUT = 4"
definition PB_LOCATION_INTEGRATION_API :: int where "PB_LOCATION_INTEGRATION_API = 2"
definition LOCATION_INTEGRATION_API :: int where "LOCATION_INTEGRATION_API = 2"
definition LOCATION_CLIENT_API :: int where "LOCATION_CLIENT_API = 1"
definition PB_BATCHING_MODE_TRIP :: int where "PB_BATCHING_MODE_TRIP = 1"
definition PB_BATCHING_MODE_NO_AUTO_REPORT :: int where "PB_BATCHING_MODE_NO_AUTO_REPORT = 2"
definition PB_GNSS_SUPL_MODE_MSB :: int where "PB_GNSS_SUPL_MODE_MSB = 1"
definition PB_GNSS_SUPL_MODE_MSA :: int where "PB_GNSS_SUPL_MODE_MSA = 2"
definition PB_QUALITY_ANY_VALID_FIX :: int where "PB_QUALITY_ANY_VALID_FIX = 1"
definition PB_QUALITY_ANY_OR_FAILED_FIX :: int where "PB_QUALITY_ANY_OR_FAILED_FIX = 2"
definition PB_BATCHING_STATUS_TRIP_COMPLETED :: int where "PB_BATCHING_STATUS_TRIP_COMPLETED = 0"
definition PB_BATCHING_STATUS_POSITION_AVAILABE :: int where "PB_BATCHING_STATUS_POSITION_AVAILABE = 1"
definition PB_BATCHING_STATUS_POSITION_UNAVAILABLE :: int where "PB_BATCHING_STATUS_POSITION_UNAVAILABLE = 2"
definition PB_GNSS_MEASUREMENTS_MULTIPATH_INDICATOR_UNKNOWN :: int where "PB_GNSS_MEASUREMENTS_MULTIPATH_INDICATOR_UNKNOWN = 0"
definition PB_GNSS_MEASUREMENTS_MULTIPATH_INDICATOR_PRESENT :: int where "PB_GNSS_MEASUREMENTS_MULTIPATH_INDICATOR_PRESENT = 1"
definition PB_GNSS_MEASUREMENTS_MULTIPATH_INDICATOR_NOT_PRESENT :: int where "PB_GNSS_MEASUREMENTS_MULTIPATH_INDICATOR_NOT_PRESENT = 2"
definition PB_LOCATION_RELIABILITY_NOT_SET :: int where "PB_LOCATION_RELIABILITY_NOT_SET = 0"
definition PB_LOCATION_RELIABILITY_VERY_LOW :: int where "PB_LOCATION_RELIABILITY_VERY_LOW = 1"
definition PB_LOCATION_RELIABILITY_LOW :: int where "PB_LOCATION_RELIABILITY_LOW = 2"
definition PB_LOCATION_RELIABILITY_MEDIUM :: int where "PB_LOCATION_RELIABILITY_MEDIUM = 3"
definition PB_LOCATION_RELIABILITY_HIGH :: int where "PB_LOCATION_RELIABILITY_HIGH = 4"
definition PB_GNSS_LOC_SV_SYSTEM_INVALID :: int where "PB_GNSS_LOC_SV_SYSTEM_INVALID = 0"
definition PB_GNSS_LOC_SV_SYSTEM_GPS :: int where "PB_GNSS_LOC_SV_SYSTEM_GPS = 1"
definition PB_GNSS_LOC_SV_SYSTEM_GALILEO :: int where "PB_GNSS_LOC_SV_SYSTEM_GALILEO = 2"
definition PB_GNSS_LOC_SV_SYSTEM_SBAS :: int where "PB_GNSS_LOC_SV_SYSTEM_SBAS = 3"
definition PB_GNSS_LOC_SV_SYSTEM_GLONASS :: int where "PB_GNSS_LOC_SV_SYSTEM_GLONASS = 4"
definition PB_GNSS_LOC_SV_SYSTEM_BDS :: int where "PB_GNSS_LOC_SV_SYSTEM_BDS = 5"
definition PB_GNSS_LOC_SV_SYSTEM_QZSS :: int where "PB_GNSS_LOC_SV_SYSTEM_QZSS = 6"
definition PB_GNSS_LOC_SV_SYSTEM_NAVIC :: int where "PB_GNSS_LOC_SV_SYSTEM_NAVIC = 7"
definition PB_LOC_OUTPUT_ENGINE_FUSED :: int where "PB_LOC_OUTPUT_ENGINE_FUSED = 0"
definition PB_LOC_OUTPUT_ENGINE_SPE :: int where "PB_LOC_OUTPUT_ENGINE_SPE = 1"
definition PB_LOC_OUTPUT_ENGINE_PPE :: int where "PB_LOC_OUTPUT_ENGINE_PPE = 2"
definition PB_AGC_STATUS_NO_SATURATION :: int where "PB_AGC_STATUS_NO_SATURATION = 1"
definition PB_AGC_STATUS_FRONT_END_GAIN_MAXIMUM_SATURATION :: int where "PB_AGC_STATUS_FRONT_END_GAIN_MAXIMUM_SATURATION = 2"
definition PB_AGC_STATUS_FRONT_END_GAIN_MINIMUM_SATURATION :: int where "PB_AGC_STATUS_FRONT_END_GAIN_MINIMUM_SATURATION = 3"
definition PB_LOC_ENGINE_RUN_STATE_PAUSE :: int where "PB_LOC_ENGINE_RUN_STATE_PAUSE = 1"
definition PB_LOC_ENGINE_RUN_STATE_RESUME :: int where "PB_LOC_ENGINE_RUN_STATE_RESUME = 2"
definition PB_LOC_ENGINE_RUN_STATE_PAUSE_RETAIN :: int where "PB_LOC_ENGINE_RUN_STATE_PAUSE_RETAIN = 3"
definition PB_LOC_ENGINE_RUN_STATE_INVALID :: int where "PB_LOC_ENGINE_RUN_STATE_INVALID = 0"
definition PB_QZSS_JMA_DISASTER_PREVENTION_INFO :: int where "PB_QZSS_JMA_DISASTER_PREVENTION_INFO = 43"
definition PB_QZSS_NON_JMA_DISASTER_PREVENTION_INFO :: int where "PB_QZSS_NON_JMA_DISASTER_PREVENTION_INFO = 44"
definition PB_GNSS_DC_REPORT_TYPE_UNDEFINED :: int where "PB_GNSS_DC_REPORT_TYPE_UNDEFINED = 0"
definition PB_DEBUG_LOG_LEVEL_ERROR :: int where "PB_DEBUG_LOG_LEVEL_ERROR = 1"
definition PB_DEBUG_LOG_LEVEL_WARNING :: int where "PB_DEBUG_LOG_LEVEL_WARNING = 2"
definition PB_DEBUG_LOG_LEVEL_INFO :: int where "PB_DEBUG_LOG_LEVEL_INFO = 3"
definition PB_DEBUG_LOG_LEVEL_DEBUG :: int where "PB_DEBUG_LOG_LEVEL_DEBUG = 4"
definition PB_DEBUG_LOG_LEVEL_VERBOSE :: int where "PB_DEBUG_LOG_LEVEL_VERBOSE = 5"
definition PB_DEBUG_LOG_LEVEL_NONE :: int where "PB_DEBUG_LOG_LEVEL_NONE = 0"
definition PB_XTRA_STATUS_UPDATE_UPON_QUERY :: int where "PB_XTRA_STATUS_UPDATE_UPON_QUERY = 1"
definition PB_XTRA_STATUS_UPDATE_UPON_REGISTRATION :: int where "PB_XTRA_STATUS_UPDATE_UPON_REGISTRATION = 2"
definition PB_XTRA_STATUS_UPDATE_UPON_STATUS_CHANGE :: int where "PB_XTRA_STATUS_UPDATE_UPON_STATUS_CHANGE = 3"
definition PB_XTRA_DATA_STATUS_NOT_AVAIL :: int where "PB_XTRA_DATA_STATUS_NOT_AVAIL = 1"
definition PB_XTRA_DATA_STATUS_NOT_VALID :: int where "PB_XTRA_DATA_STATUS_NOT_VALID = 2"
definition PB_XTRA_DATA_STATUS_VALID :: int where "PB_XTRA_DATA_STATUS_VALID = 3"
definition PB_XTRA_DATA_STATUS_UNKNOWN :: int where "PB_XTRA_DATA_STATUS_UNKNOWN = 0"
definition PB_XTRA_STATUS_UPDATE_UNDEFINED :: int where "PB_XTRA_STATUS_UPDATE_UNDEFINED = 0"
definition PB_LOCATION_CLIENT_API :: int where "PB_LOCATION_CLIENT_API = 1"
definition PB_BATCHING_MODE_ROUTINE :: int where "PB_BATCHING_MODE_ROUTINE = 0"
definition PB_LOCATION_ERROR_GENERAL_FAILURE :: int where "PB_LOCATION_ERROR_GENERAL_FAILURE = 3"
definition PB_GNSS_SUPL_MODE_STANDALONE :: int where "PB_GNSS_SUPL_MODE_STANDALONE = 0"
definition PB_QUALITY_HIGH_ACCU_FIX_ONLY :: int where "PB_QUALITY_HIGH_ACCU_FIX_ONLY = 0"
definition PB_AGC_STATUS_UNKNOWN :: int where "PB_AGC_STATUS_UNKNOWN = 0"
definition PB_LOCATION_SESS_SUCCESS :: int where "PB_LOCATION_SESS_SUCCESS = 0"
definition PB_LOCATION_SESS_INTERMEDIATE :: int where "PB_LOCATION_SESS_INTERMEDIATE = 1"
definition PB_LOCATION_SESS_FAILURE :: int where "PB_LOCATION_SESS_FAILURE = 2"
definition PB_GNSS_MEASUREMENTS_CODE_TYPE_A :: int where "PB_GNSS_MEASUREMENTS_CODE_TYPE_A = 0"
definition PB_GNSS_MEASUREMENTS_CODE_TYPE_B :: int where "PB_GNSS_MEASUREMENTS_CODE_TYPE_B = 1"
definition PB_GNSS_MEASUREMENTS_CODE_TYPE_C :: int where "PB_GNSS_MEASUREMENTS_CODE_TYPE_C = 2"
definition PB_GNSS_MEASUREMENTS_CODE_TYPE_I :: int where "PB_GNSS_MEASUREMENTS_CODE_TYPE_I = 3"
definition PB_GNSS_MEASUREMENTS_CODE_TYPE_L :: int where "PB_GNSS_MEASUREMENTS_CODE_TYPE_L = 4"
definition PB_GNSS_MEASUREMENTS_CODE_TYPE_M :: int where "PB_GNSS_MEASUREMENTS_CODE_TYPE_M = 5"
definition PB_GNSS_MEASUREMENTS_CODE_TYPE_P :: int where "PB_GNSS_MEASUREMENTS_CODE_TYPE_P = 6"
definition PB_GNSS_MEASUREMENTS_CODE_TYPE_Q :: int where "PB_GNSS_MEASUREMENTS_CODE_TYPE_Q = 7"
definition PB_GNSS_MEASUREMENTS_CODE_TYPE_S :: int where "PB_GNSS_MEASUREMENTS_CODE_TYPE_S = 8"
definition PB_GNSS_MEASUREMENTS_CODE_TYPE_W :: int where "PB_GNSS_MEASUREMENTS_CODE_TYPE_W = 9"
definition PB_GNSS_MEASUREMENTS_CODE_TYPE_X :: int where "PB_GNSS_MEASUREMENTS_CODE_TYPE_X = 10"
definition PB_GNSS_MEASUREMENTS_CODE_TYPE_Y :: int where "PB_GNSS_MEASUREMENTS_CODE_TYPE_Y = 11"
definition PB_GNSS_MEASUREMENTS_CODE_TYPE_Z :: int where "PB_GNSS_MEASUREMENTS_CODE_TYPE_Z = 12"
definition PB_GNSS_MEASUREMENTS_CODE_TYPE_N :: int where "PB_GNSS_MEASUREMENTS_CODE_TYPE_N = 13"
definition PB_GNSS_MEASUREMENTS_CODE_TYPE_D :: int where "PB_GNSS_MEASUREMENTS_CODE_TYPE_D = 14"
definition PB_GNSS_MEASUREMENTS_CODE_TYPE_E :: int where "PB_GNSS_MEASUREMENTS_CODE_TYPE_E = 15"
definition PB_GNSS_MEASUREMENTS_CODE_TYPE_OTHER :: int where "PB_GNSS_MEASUREMENTS_CODE_TYPE_OTHER = 255"
definition PB_GNSS_EPH_TYPE_UNKNOWN :: int where "PB_GNSS_EPH_TYPE_UNKNOWN = 0"
definition PB_GNSS_EPH_TYPE_EPHEMERIS :: int where "PB_GNSS_EPH_TYPE_EPHEMERIS = 1"
definition PB_GNSS_EPH_TYPE_ALMANAC :: int where "PB_GNSS_EPH_TYPE_ALMANAC = 2"
definition PB_GNSS_EPH_SOURCE_UNKNOWN :: int where "PB_GNSS_EPH_SOURCE_UNKNOWN = 0"
definition PB_GNSS_EPH_SOURCE_DEMODULATED :: int where "PB_GNSS_EPH_SOURCE_DEMODULATED = 1"
definition PB_GNSS_EPH_SOURCE_SUPL_PROVIDED :: int where "PB_GNSS_EPH_SOURCE_SUPL_PROVIDED = 2"
definition PB_GNSS_EPH_SOURCE_OTHER_SERVER_PROVIDED :: int where "PB_GNSS_EPH_SOURCE_OTHER_SERVER_PROVIDED = 3"
definition PB_GNSS_EPH_SOURCE_LOCAL :: int where "PB_GNSS_EPH_SOURCE_LOCAL = 4"
definition PB_GNSS_EPH_HEALTH_UNKNOWN :: int where "PB_GNSS_EPH_HEALTH_UNKNOWN = 0"
definition PB_GNSS_EPH_HEALTH_GOOD :: int where "PB_GNSS_EPH_HEALTH_GOOD = 1"
definition PB_GNSS_EPH_HEALTH_BAD :: int where "PB_GNSS_EPH_HEALTH_BAD = 2"
definition PB_GNSS_EPH_ACTION_UPDATE_SRC_UNKNOWN_V02 :: int where "PB_GNSS_EPH_ACTION_UPDATE_SRC_UNKNOWN_V02 = 0"
definition PB_GNSS_EPH_ACTION_UPDATE_SRC_OTA_V02 :: int where "PB_GNSS_EPH_ACTION_UPDATE_SRC_OTA_V02 = 1"
definition PB_GNSS_EPH_ACTION_UPDATE_SRC_NETWORK_V02 :: int where "PB_GNSS_EPH_ACTION_UPDATE_SRC_NETWORK_V02 = 2"
definition PB_GNSS_EPH_ACTION_UPDATE_MAX_V02 :: int where "PB_GNSS_EPH_ACTION_UPDATE_MAX_V02 = 999"
definition PB_GNSS_EPH_ACTION_DELETE_SRC_UNKNOWN_V02 :: int where "PB_GNSS_EPH_ACTION_DELETE_SRC_UNKNOWN_V02 = 1000"
definition PB_GNSS_EPH_ACTION_DELETE_SRC_NETWORK_V02 :: int where "PB_GNSS_EPH_ACTION_DELETE_SRC_NETWORK_V02 = 1001"
definition PB_GNSS_EPH_ACTION_DELETE_SRC_OTA_V02 :: int where "PB_GNSS_EPH_ACTION_DELETE_SRC_OTA_V02 = 1002"
definition PB_GNSS_EPH_ACTION_DELETE_MAX_V02 :: int where "PB_GNSS_EPH_ACTION_DELETE_MAX_V02 = 1999"
definition PB_GAL_EPH_SIGNAL_SRC_E1B :: int where "PB_GAL_EPH_SIGNAL_SRC_E1B = 1"
definition PB_GAL_EPH_SIGNAL_SRC_E5A :: int where "PB_GAL_EPH_SIGNAL_SRC_E5A = 2"
definition PB_GAL_EPH_SIGNAL_SRC_E5B :: int where "PB_GAL_EPH_SIGNAL_SRC_E5B = 3"
definition PB_GAL_EPH_SIGNAL_SRC_UNKNOWN :: int where "PB_GAL_EPH_SIGNAL_SRC_UNKNOWN = 0"

end
