(* ===== verification/PbMasks.thy ===== *)
theory PbMasks
  imports PbConstants
begin

text \<open>
  The mask conversions of \<open>location_api_msg_proto/src/LocationApiPbMsgConv.cpp\<close>, in both directions.
  A mask is the word of its C type; the flags tested towards the protocol buffers are a list of their
  own, next to the conversion.
\<close>

definition getTerrestrialTechMaskFromPB :: "hal_values \<Rightarrow> 32 word \<Rightarrow> 32 word" where
  "getTerrestrialTechMaskFromPB hal pbTerrestrialTechMask = copy_flags
     [(PB_TERRESTRIAL_TECH_GTP_WWAN, hal ''TERRESTRIAL_TECH_GTP_WWAN'')]
     pbTerrestrialTechMask"

definition getPBMaskForTerrestrialTechMask_flags :: "hal_values \<Rightarrow> (int \<times> int) list" where
  "getPBMaskForTerrestrialTechMask_flags hal =
     [(hal ''TERRESTRIAL_TECH_GTP_WWAN'', PB_TERRESTRIAL_TECH_GTP_WWAN)]"

definition getPBMaskForTerrestrialTechMask :: "hal_values \<Rightarrow> 32 word \<Rightarrow> 32 word" where
  "getPBMaskForTerrestrialTechMask hal terrestrialTechMask =
     copy_flags (getPBMaskForTerrestrialTechMask_flags hal) terrestrialTechMask"

definition getNmeaTypesMaskFromPB :: "hal_values \<Rightarrow> 32 word \<Rightarrow> 32 word" where
  "getNmeaTypesMaskFromPB hal pbNmeaTypesMask = copy_flags_to (word_of_int (hal ''NMEA_TYPE_NONE''))
     [(PB_NMEA_TYPE_GGA, hal ''NMEA_TYPE_GGA''), (PB_NMEA_TYPE_RMC, hal ''NMEA_TYPE_RMC''),
      (PB_NMEA_TYPE_GSA, hal ''NMEA_TYPE_GSA''), (PB_NMEA_TYPE_VTG, hal ''NMEA_TYPE_VTG''),
      (PB_NMEA_TYPE_GNS, hal ''NMEA_TYPE_GNS''), (PB_NMEA_TYPE_DTM, hal ''NMEA_TYPE_DTM''),
      (PB_NMEA_TYPE_GPGSV, hal ''NMEA_TYPE_GPGSV''), (PB_NMEA_TYPE_GLGSV, hal ''NMEA_TYPE_GLGSV''),
      (PB_NMEA_TYPE_GAGSV, hal ''NMEA_TYPE_GAGSV''), (PB_NMEA_TYPE_GQGSV, hal ''NMEA_TYPE_GQGSV''),
      (PB_NMEA_TYPE_GBGSV, hal ''NMEA_TYPE_GBGSV''), (PB_NMEA_TYPE_GIGSV, hal ''NMEA_TYPE_GIGSV'')]
     pbNmeaTypesMask"

definition getPBMaskForNmeaTypesMask_flags :: "hal_values \<Rightarrow> (int \<times> int) list" where
  "getPBMaskForNmeaTypesMask_flags hal =
     [(hal ''NMEA_TYPE_GGA'', PB_NMEA_TYPE_GGA), (hal ''NMEA_TYPE_RMC'', PB_NMEA_TYPE_RMC),
      (hal ''NMEA_TYPE_GSA'', PB_NMEA_TYPE_GSA), (hal ''NMEA_TYPE_VTG'', PB_NMEA_TYPE_VTG),
      (hal ''NMEA_TYPE_GNS'', PB_NMEA_TYPE_GNS), (hal ''NMEA_TYPE_DTM'', PB_NMEA_TYPE_DTM),
      (hal ''NMEA_TYPE_GPGSV'', PB_NMEA_TYPE_GPGSV), (hal ''NMEA_TYPE_GLGSV'', PB_NMEA_TYPE_GLGSV),
      (hal ''NMEA_TYPE_GAGSV'', PB_NMEA_TYPE_GAGSV), (hal ''NMEA_TYPE_GQGSV'', PB_NMEA_TYPE_GQGSV),
      (hal ''NMEA_TYPE_GBGSV'', PB_NMEA_TYPE_GBGSV), (hal ''NMEA_TYPE_GIGSV'', PB_NMEA_TYPE_GIGSV)]"

definition getPBMaskForNmeaTypesMask :: "hal_values \<Rightarrow> 32 word \<Rightarrow> 32 word" where
  "getPBMaskForNmeaTypesMask hal nmeaTypesMask =
     copy_flags (getPBMaskForNmeaTypesMask_flags hal) nmeaTypesMask"

definition getPBMaskForLocationCallbacksMask_flags :: "hal_values \<Rightarrow> (int \<times> int) list" where
  "getPBMaskForLocationCallbacksMask_flags hal =
     [(E_LOC_CB_TRACKING_BIT, PB_E_LOC_CB_TRACKING_BIT),
      (E_LOC_CB_GNSS_LOCATION_INFO_BIT, PB_E_LOC_CB_GNSS_LOCATION_INFO_BIT),
      (E_LOC_CB_GNSS_SV_BIT, PB_E_LOC_CB_GNSS_SV_BIT),
      (E_LOC_CB_GNSS_NMEA_BIT, PB_E_LOC_CB_GNSS_NMEA_BIT),
      (E_LOC_CB_GNSS_DATA_BIT, PB_E_LOC_CB_GNSS_DATA_BIT),
      (E_LOC_CB_SYSTEM_INFO_BIT, PB_E_LOC_CB_SYSTEM_INFO_BIT),
      (E_LOC_CB_BATCHING_BIT, PB_E_LOC_CB_BATCHING_BIT),
      (E_LOC_CB_BATCHING_STATUS_BIT, PB_E_LOC_CB_BATCHING_STATUS_BIT),
      (E_LOC_CB_GEOFENCE_BREACH_BIT, PB_E_LOC_CB_GEOFENCE_BREACH_BIT),
      (E_LOC_CB_ENGINE_LOCATIONS_INFO_BIT, PB_E_LOC_CB_ENGINE_LOCATIONS_INFO_BIT),
      (E_LOC_CB_SIMPLE_LOCATION_INFO_BIT, PB_E_LOC_CB_SIMPLE_LOCATION_INFO_BIT),
      (E_LOC_CB_GNSS_MEAS_BIT, PB_E_LOC_CB_GNSS_MEAS_BIT),
      (E_LOC_CB_GNSS_NHZ_MEAS_BIT, PB_E_LOC_CB_GNSS_NHZ_MEAS_BIT),
      (E_LOC_CB_GNSS_DC_REPORT_BIT, PB_E_LOC_CB_GNSS_DC_REPORT_BIT),
      (E_LOC_CB_ENGINE_NMEA_BIT, PB_E_LOC_CB_ENGINE_NMEA_BIT),
      (E_LOC_CB_GNSS_EPH_BIT, PB_E_LOC_CB_GNSS_EPH_BIT)]"

definition getPBMaskForLocationCallbacksMask :: "hal_values \<Rightarrow> 32 word \<Rightarrow> 32 word" where
  "getPBMaskForLocationCallbacksMask hal locCbMask =
     copy_flags (getPBMaskForLocationCallbacksMask_flags hal) locCbMask"

definition getPBMaskForLocationCapabilitiesMask_flags :: "hal_values \<Rightarrow> (int \<times> int) list" where
  "getPBMaskForLocationCapabilitiesMask_flags hal =
     [(hal ''LOCATION_CAPABILITIES_TIME_BASED_TRACKING_BIT'', PB_LOCATION_CAPS_TIME_BASED_TRACKING_BIT),
      (hal ''LOCATION_CAPABILITIES_TIME_BASED_BATCHING_BIT'', PB_LOCATION_CAPS_TIME_BASED_BATCHING_BIT),
      (hal ''LOCATION_CAPABILITIES_DISTANCE_BASED_TRACKING_BIT'', PB_LOCATION_CAPS_DISTANCE_BASED_TRACKING_BIT),
      (hal ''LOCATION_CAPABILITIES_DISTANCE_BASED_BATCHING_BIT'', PB_LOCATION_CAPS_DISTANCE_BASED_BATCHING_BIT),
      (hal ''LOCATION_CAPABILITIES_GEOFENCE_BIT'', PB_LOCATION_CAPS_GEOFENCE_BIT),
      (hal ''LOCATION_CAPABILITIES_OUTDOOR_TRIP_BATCHING_BIT'', PB_LOCATION_CAPS_OUTDOOR_TRIP_BATCHING_BIT),
      (hal ''LOCATION_CAPABILITIES_GNSS_MEASUREMENTS_BIT'', PB_LOCATION_CAPS_GNSS_MEASUREMENTS_BIT),
      (hal ''LOCATION_CAPABILITIES_CONSTELLATION_ENABLEMENT_BIT'', PB_LOCATION_CAPS_CONSTELLATION_ENABLEMENT_BIT),
      (hal ''LOCATION_CAPABILITIES_QWES_CARRIER_PHASE_BIT'', PB_LOCATION_CAPS_QWES_CARRIER_PHASE_BIT),
      (hal ''LOCATION_CAPABILITIES_QWES_SV_POLYNOMIAL_BIT'', PB_LOCATION_CAPS_QWES_SV_POLYNOMIAL_BIT),
      (hal ''LOCATION_CAPABILITIES_QWES_GNSS_SINGLE_FREQUENCY'', PB_LOCATION_CAPS_QWES_GNSS_SINGLE_FREQUENCY),
      (hal ''LOCATION_CAPABILITIES_QWES_GNSS_MULTI_FREQUENCY'', PB_LOCATION_CAPS_QWES_GNSS_MULTI_FREQUENCY),
      (hal ''LOCATION_CAPABILITIES_QWES_VPE'', PB_LOCATION_CAPS_QWES_VPE),
      (hal ''LOCATION_CAPABILITIES_QWES_CV2X_LOCATION_BASIC'', PB_LOCATION_CAPS_QWES_CV2X_LOCATION_BASIC),
      (hal ''LOCATION_CAPABILITIES_QWES_CV2X_LOCATION_PREMIUM'', PB_LOCATION_CAPS_QWES_CV2X_LOCATION_PREMIUM),
      (hal ''LOCATION_CAPABILITIES_QWES_PPE'', PB_LOCATION_CAPS_QWES_PPE),
      (hal ''LOCATION_CAPABILITIES_QWES_QDR2'', PB_LOCATION_CAPS_QWES_QDR2),
      (hal ''LOCATION_CAPABILITIES_QWES_QDR3'', PB_LOCATION_CAPS_QWES_QDR3),
      (hal ''LOCATION_CAPABILITIES_QWES_DGNSS'', PB_LOCATION_CAPS_QWES_DGNSS),
      (hal ''LOCATION_CAPABILITIES_ANTENNA_INFO'', PB_LOCATION_CAPS_ANTENNA_INFO),
      (hal ''LOCATION_CAPABILITIES_GNSS_MSB_BIT'', PB_LOCATION_CAPABILITIES_GNSS_MSB_BIT),
      (hal ''LOCATION_CAPABILITIES_GNSS_MSA_BIT'', PB_LOCATION_CAPABILITIES_GNSS_MSA_BIT),
      (hal ''LOCATION_CAPABILITIES_DEBUG_DATA_BIT'', PB_LOCATION_CAPABILITIES_DEBUG_DATA_BIT),
      (hal ''LOCATION_CAPABILITIES_AGPM_BIT'', PB_LOCATION_CAPABILITIES_AGPM_BIT),
      (hal ''LOCATION_CAPABILITIES_PRIVACY_BIT'', PB_LOCATION_CAPABILITIES_PRIVACY_BIT),
      (hal ''LOCATION_CAPABILITIES_MEASUREMENTS_CORRECTION_BIT'', PB_LOCATION_CAPABILITIES_MEASUREMENTS_CORRECTION_BIT),
      (hal ''LOCATION_CAPABILITIES_CONFORMITY_INDEX_BIT'', PB_LOCATION_CAPABILITIES_CONFORMITY_INDEX_BIT),
      (hal ''LOCATION_CAPABILITIES_EDGNSS_BIT'', PB_LOCATION_CAPABILITIES_EDGNSS_BIT),
      (hal ''LOCATION_CAPABILITIES_QWES_SV_EPHEMERIS_BIT'', PB_LOCATION_CAPABILITIES_QWES_SV_EPHEMERIS_BIT),
      (hal ''LOCATION_CAPABILITIES_NLOS_ML20'', PB_LOCATION_CAPABILITIES_QWES_NLOS_ML20)]"

definition getPBMaskForLocationCapabilitiesMask :: "hal_values \<Rightarrow> 64 word \<Rightarrow> 64 word" where
  "getPBMaskForLocationCapabilitiesMask hal locCapabMask =
     copy_flags (getPBMaskForLocationCapabilitiesMask_flags hal) locCapabMask"

definition getPBMaskForPositioningEngineMask_flags :: "hal_values \<Rightarrow> (int \<times> int) list" where
  "getPBMaskForPositioningEngineMask_flags hal =
     [(hal ''STANDARD_POSITIONING_ENGINE'', PB_STANDARD_POSITIONING_ENGINE),
      (hal ''DEAD_RECKONING_ENGINE'', PB_DEAD_RECKONING_ENGINE),
      (hal ''PRECISE_POSITIONING_ENGINE'', PB_PRECISE_POSITIONING_ENGINE)]"

definition getPBMaskForPositioningEngineMask :: "hal_values \<Rightarrow> 32 word \<Rightarrow> 32 word" where
  "getPBMaskForPositioningEngineMask hal posEngMask =
     copy_flags (getPBMaskForPositioningEngineMask_flags hal) posEngMask"

definition getPBMaskForLeverArmTypeMask_flags :: "hal_values \<Rightarrow> (int \<times> int) list" where
  "getPBMaskForLeverArmTypeMask_flags hal =
     [(hal ''LEVER_ARM_TYPE_GNSS_TO_VRP_BIT'', PB_LEVER_ARM_TYPE_GNSS_TO_VRP_BIT),
      (hal ''LEVER_ARM_TYPE_DR_IMU_TO_GNSS_BIT'', PB_LEVER_ARM_TYPE_DR_IMU_TO_GNSS_BIT),
      (hal ''LEVER_ARM_TYPE_VEPP_IMU_TO_GNSS_BIT'', PB_LEVER_ARM_TYPE_VEPP_IMU_TO_GNSS_BIT)]"

definition getPBMaskForLeverArmTypeMask :: "hal_values \<Rightarrow> 32 word \<Rightarrow> 32 word" where
  "getPBMaskForLeverArmTypeMask hal leverArmTypeMask =
     copy_flags (getPBMaskForLeverArmTypeMask_flags hal) leverArmTypeMask"

definition getPBMaskForLocReqEngineTypeMask_flags :: "hal_values \<Rightarrow> (int \<times> int) list" where
  "getPBMaskForLocReqEngineTypeMask_flags hal =
     [(hal ''LOC_REQ_ENGINE_FUSED_BIT'', PB_LOC_REQ_ENGINE_FUSED_BIT),
      (hal ''LOC_REQ_ENGINE_SPE_BIT'', PB_LOC_REQ_ENGINE_SPE_BIT),
      (hal ''LOC_REQ_ENGINE_PPE_BIT'', PB_LOC_REQ_ENGINE_PPE_BIT)]"

definition getPBMaskForLocReqEngineTypeMask :: "hal_values \<Rightarrow> 32 word \<Rightarrow> 32 word" where
  "getPBMaskForLocReqEngineTypeMask hal locReqEngTypeMask =
     copy_flags (getPBMaskForLocReqEngineTypeMask_flags hal) locReqEngTypeMask"

definition getPBMaskForGnssCfgRobustLocValidMask_flags :: "hal_values \<Rightarrow> (int \<times> int) list" where
  "getPBMaskForGnssCfgRobustLocValidMask_flags hal =
     [
      (hal ''GNSS_CONFIG_ROBUST_LOCATION_ENABLED_VALID_BIT'', PB_GNSS_CONFIG_ROBUST_LOCATION_ENABLED_VALID_BIT),
      (hal ''GNSS_CONFIG_ROBUST_LOCATION_ENABLED_FOR_E911_VALID_BIT'', PB_GNSS_CONFIG_ROBUST_LOCATION_ENABLED_FOR_E911_VALID_BIT),
      (hal ''GNSS_CONFIG_ROBUST_LOCATION_VERSION_VALID_BIT'', PB_GNSS_CONFIG_ROBUST_LOCATION_VERSION_VALID_BIT)]"

definition getPBMaskForGnssCfgRobustLocValidMask :: "hal_values \<Rightarrow> 32 word \<Rightarrow> 32 word" where
  "getPBMaskForGnssCfgRobustLocValidMask hal gnssCfgRobustLocValidMask =
     copy_flags (getPBMaskForGnssCfgRobustLocValidMask_flags hal) gnssCfgRobustLocValidMask"

definition getPBMaskForLocSysInfoMask_flags :: "hal_values \<Rightarrow> (int \<times> int) list" where
  "getPBMaskForLocSysInfoMask_flags hal =
     [(hal ''LOCATION_SYS_INFO_LEAP_SECOND'', PB_LOCATION_SYS_INFO_LEAP_SECOND)]"

definition getPBMaskForLocSysInfoMask :: "hal_values \<Rightarrow> 32 word \<Rightarrow> 32 word" where
  "getPBMaskForLocSysInfoMask hal locSysInfoMask =
     copy_flags (getPBMaskForLocSysInfoMask_flags hal) locSysInfoMask"

definition getPBMaskForGnssDataMask_flags :: "hal_values \<Rightarrow> (int \<times> int) list" where
  "getPBMaskForGnssDataMask_flags hal =
     [(hal ''GNSS_LOC_DATA_JAMMER_IND_BIT'', PB_GNSS_LOC_DATA_JAMMER_IND_BIT),
      (hal ''GNSS_LOC_DATA_AGC_BIT'', PB_GNSS_LOC_DATA_AGC_BIT)]"

definition getPBMaskForGnssDataMask :: "hal_values \<Rightarrow> 64 word \<Rightarrow> 64 word" where
  "getPBMaskForGnssDataMask hal gnssDataMask =
     copy_flags (getPBMaskForGnssDataMask_flags hal) gnssDataMask"

definition getPBMaskForGnssAidingDataSvMask_flags :: "hal_values \<Rightarrow> (int \<times> int) list" where
  "getPBMaskForGnssAidingDataSvMask_flags hal =
     [(hal ''GNSS_AIDING_DATA_SV_EPHEMERIS_BIT'', PB_AIDING_DATA_SV_EPHEMERIS_BIT)]"

definition getPBMaskForGnssAidingDataSvMask :: "hal_values \<Rightarrow> 32 word \<Rightarrow> 32 word" where
  "getPBMaskForGnssAidingDataSvMask hal gnssAidDataSvMask =
     copy_flags (getPBMaskForGnssAidingDataSvMask_flags hal) gnssAidDataSvMask"

definition getPBMaskForLeapSecondSysInfoMask_flags :: "hal_values \<Rightarrow> (int \<times> int) list" where
  "getPBMaskForLeapSecondSysInfoMask_flags hal =
     [
      (hal ''LEAP_SECOND_SYS_INFO_CURRENT_LEAP_SECONDS_BIT'', PB_LEAP_SECOND_SYS_INFO_CURRENT_LEAP_SECONDS_BIT),
      (hal ''LEAP_SECOND_SYS_INFO_LEAP_SECOND_CHANGE_BIT'', PB_LEAP_SECOND_SYS_INFO_LEAP_SECOND_CHANGE_BIT)]"

definition getPBMaskForLeapSecondSysInfoMask :: "hal_values \<Rightarrow> 32 word \<Rightarrow> 32 word" where
  "getPBMaskForLeapSecondSysInfoMask hal leapSecSysInfoMask =
     copy_flags (getPBMaskForLeapSecondSysInfoMask_flags hal) leapSecSysInfoMask"

definition getPBMaskForGnssSystemTimeStructTypeFlags_flags :: "hal_values \<Rightarrow> (int \<times> int) list" where
  "getPBMaskForGnssSystemTimeStructTypeFlags_flags hal =
     [(hal ''GNSS_SYSTEM_TIME_WEEK_VALID'', PB_GNSS_SYSTEM_TIME_WEEK_VALID),
      (hal ''GNSS_SYSTEM_TIME_WEEK_MS_VALID'', PB_GNSS_SYSTEM_TIME_WEEK_MS_VALID),
      (hal ''GNSS_SYSTEM_CLK_TIME_BIAS_VALID'', PB_GNSS_SYSTEM_CLK_TIME_BIAS_VALID),
      (hal ''GNSS_SYSTEM_CLK_TIME_BIAS_UNC_VALID'', PB_GNSS_SYSTEM_CLK_TIME_BIAS_UNC_VALID),
      (hal ''GNSS_SYSTEM_REF_FCOUNT_VALID'', PB_GNSS_SYSTEM_REF_FCOUNT_VALID),
      (hal ''GNSS_SYSTEM_NUM_CLOCK_RESETS_VALID'', PB_GNSS_SYSTEM_NUM_CLOCK_RESETS_VALID)]"

definition getPBMaskForGnssSystemTimeStructTypeFlags :: "hal_values \<Rightarrow> 32 word \<Rightarrow> 32 word" where
  "getPBMaskForGnssSystemTimeStructTypeFlags hal gnssSysTimeStructTypeFlg =
     copy_flags (getPBMaskForGnssSystemTimeStructTypeFlags_flags hal) gnssSysTimeStructTypeFlg"

definition getPBMaskForLocationFlagsMask_flags :: "hal_values \<Rightarrow> (int \<times> int) list" where
  "getPBMaskForLocationFlagsMask_flags hal =
     [(hal ''LOCATION_HAS_LAT_LONG_BIT'', PB_LOCATION_HAS_LAT_LONG_BIT),
      (hal ''LOCATION_HAS_ALTITUDE_BIT'', PB_LOCATION_HAS_ALTITUDE_BIT),
      (hal ''LOCATION_HAS_SPEED_BIT'', PB_LOCATION_HAS_SPEED_BIT),
      (hal ''LOCATION_HAS_BEARING_BIT'', PB_LOCATION_HAS_BEARING_BIT),
      (hal ''LOCATION_HAS_ACCURACY_BIT'', PB_LOCATION_HAS_ACCURACY_BIT),
      (hal ''LOCATION_HAS_VERTICAL_ACCURACY_BIT'', PB_LOCATION_HAS_VERTICAL_ACCURACY_BIT),
      (hal ''LOCATION_HAS_SPEED_ACCURACY_BIT'', PB_LOCATION_HAS_SPEED_ACCURACY_BIT),
      (hal ''LOCATION_HAS_BEARING_ACCURACY_BIT'', PB_LOCATION_HAS_BEARING_ACCURACY_BIT),
      (hal ''LOCATION_HAS_ELAPSED_REAL_TIME_BIT'', PB_LOCATION_HAS_ELAPSED_REAL_TIME_BIT),
      (hal ''LOCATION_HAS_TIME_UNC_BIT'', PB_LOCATION_HAS_TIME_UNC_BIT),
      (hal ''LOCATION_HAS_GPTP_TIME_BIT'', PB_LOCATION_HAS_GPTP_TIME_BIT),
      (hal ''LOCATION_HAS_GPTP_TIME_UNC_BIT'', PB_LOCATION_HAS_GPTP_TIME_UNC_BIT),
      (hal ''LOCATION_HAS_SESSION_STATUS_BIT'', PB_LOCATION_HAS_SESSION_STATUS_BIT)]"

definition getPBMaskForLocationFlagsMask :: "hal_values \<Rightarrow> 32 word \<Rightarrow> 32 word" where
  "getPBMaskForLocationFlagsMask hal locFlagsMask =
     copy_flags (getPBMaskForLocationFlagsMask_flags hal) locFlagsMask"

definition getPBMaskForLocationTechnologyMask_flags :: "hal_values \<Rightarrow> (int \<times> int) list" where
  "getPBMaskForLocationTechnologyMask_flags hal =
     [(hal ''LOCATION_TECHNOLOGY_GNSS_BIT'', PB_LOCATION_TECHNOLOGY_GNSS_BIT),
      (hal ''LOCATION_TECHNOLOGY_CELL_BIT'', PB_LOCATION_TECHNOLOGY_CELL_BIT),
      (hal ''LOCATION_TECHNOLOGY_WIFI_BIT'', PB_LOCATION_TECHNOLOGY_WIFI_BIT),
      (hal ''LOCATION_TECHNOLOGY_SENSORS_BIT'', PB_LOCATION_TECHNOLOGY_SENSORS_BIT),
      (hal ''LOCATION_TECHNOLOGY_REFERENCE_LOCATION_BIT'', PB_LOCATION_TECHNOLOGY_REFERENCE_LOCATION_BIT),
      (hal ''LOCATION_TECHNOLOGY_INJECTED_COARSE_POSITION_BIT'', PB_LOCATION_TECHNOLOGY_INJECTED_COARSE_POSITION_BIT),
      (hal ''LOCATION_TECHNOLOGY_AFLT_BIT'', PB_LOCATION_TECHNOLOGY_AFLT_BIT),
      (hal ''LOCATION_TECHNOLOGY_HYBRID_BIT'', PB_LOCATION_TECHNOLOGY_HYBRID_BIT),
      (hal ''LOCATION_TECHNOLOGY_PPE_BIT'', PB_LOCATION_TECHNOLOGY_PPE_BIT),
      (hal ''LOCATION_TECHNOLOGY_VEH_BIT'', PB_LOCATION_TECHNOLOGY_VEH_BIT),
      (hal ''LOCATION_TECHNOLOGY_VIS_BIT'', PB_LOCATION_TECHNOLOGY_VIS_BIT),
      (hal ''LOCATION_TECHNOLOGY_PROPAGATED_BIT'', PB_LOCATION_TECHNOLOGY_PROPAGATED_BIT)]"

definition getPBMaskForLocationTechnologyMask :: "hal_values \<Rightarrow> 32 word \<Rightarrow> 32 word" where
  "getPBMaskForLocationTechnologyMask hal locTechMask =
     copy_flags (getPBMaskForLocationTechnologyMask_flags hal) locTechMask"

definition getPBMaskForGnssLocationInfoFlagMask_flags :: "hal_values \<Rightarrow> (int \<times> int) list" where
  "getPBMaskForGnssLocationInfoFlagMask_flags hal =
     [
      (hal ''LDT_GNSS_LOCATION_INFO_ALTITUDE_MEAN_SEA_LEVEL_BIT'', PB_GNSS_LOCATION_INFO_ALTITUDE_MEAN_SEA_LEVEL_BIT),
      (hal ''LDT_GNSS_LOCATION_INFO_DOP_BIT'', PB_GNSS_LOCATION_INFO_DOP_BIT),
      (hal ''LDT_GNSS_LOCATION_INFO_MAGNETIC_DEVIATION_BIT'', PB_GNSS_LOCATION_INFO_MAGNETIC_DEVIATION_BIT),
      (hal ''LDT_GNSS_LOCATION_INFO_HOR_RELIABILITY_BIT'', PB_GNSS_LOCATION_INFO_HOR_RELIABILITY_BIT),
      (hal ''LDT_GNSS_LOCATION_INFO_VER_RELIABILITY_BIT'', PB_GNSS_LOCATION_INFO_VER_RELIABILITY_BIT),
      (hal ''LDT_GNSS_LOCATION_INFO_HOR_ACCURACY_ELIP_SEMI_MAJOR_BIT'', PB_GNSS_LOCATION_INFO_HOR_ACCURACY_ELIP_SEMI_MAJOR_BIT),
      (hal ''LDT_GNSS_LOCATION_INFO_HOR_ACCURACY_ELIP_SEMI_MINOR_BIT'', PB_GNSS_LOCATION_INFO_HOR_ACCURACY_ELIP_SEMI_MINOR_BIT),
      (hal ''LDT_GNSS_LOCATION_INFO_HOR_ACCURACY_ELIP_AZIMUTH_BIT'', PB_GNSS_LOCATION_INFO_HOR_ACCURACY_ELIP_AZIMUTH_BIT),
      (hal ''LDT_GNSS_LOCATION_INFO_GNSS_SV_USED_DATA_BIT'', PB_GNSS_LOCATION_INFO_GNSS_SV_USED_DATA_BIT),
      (hal ''LDT_GNSS_LOCATION_INFO_NAV_SOLUTION_MASK_BIT'', PB_GNSS_LOCATION_INFO_NAV_SOLUTION_MASK_BIT),
      (hal ''LDT_GNSS_LOCATION_INFO_POS_DYNAMICS_DATA_BIT'', PB_GNSS_LOCATION_INFO_POS_DYNAMICS_DATA_BIT),
      (hal ''LDT_GNSS_LOCATION_INFO_EXT_DOP_BIT'', PB_GNSS_LOCATION_INFO_EXT_DOP_BIT),
      (hal ''LDT_GNSS_LOCATION_INFO_NORTH_STD_DEV_BIT'', PB_GNSS_LOCATION_INFO_NORTH_STD_DEV_BIT),
      (hal ''LDT_GNSS_LOCATION_INFO_EAST_STD_DEV_BIT'', PB_GNSS_LOCATION_INFO_EAST_STD_DEV_BIT),
      (hal ''LDT_GNSS_LOCATION_INFO_NORTH_VEL_BIT'', PB_GNSS_LOCATION_INFO_NORTH_VEL_BIT),
      (hal ''LDT_GNSS_LOCATION_INFO_EAST_VEL_BIT'', PB_GNSS_LOCATION_INFO_EAST_VEL_BIT),
      (hal ''LDT_GNSS_LOCATION_INFO_UP_VEL_BIT'', PB_GNSS_LOCATION_INFO_UP_VEL_BIT),
      (hal ''LDT_GNSS_LOCATION_INFO_NORTH_VEL_UNC_BIT'', PB_GNSS_LOCATION_INFO_NORTH_VEL_UNC_BIT),
      (hal ''LDT_GNSS_LOCATION_INFO_EAST_VEL_UNC_BIT'', PB_GNSS_LOCATION_INFO_EAST_VEL_UNC_BIT),
      (hal ''LDT_GNSS_LOCATION_INFO_UP_VEL_UNC_BIT'', PB_GNSS_LOCATION_INFO_UP_VEL_UNC_BIT),
      (hal ''LDT_GNSS_LOCATION_INFO_LEAP_SECONDS_BIT'', PB_GNSS_LOCATION_INFO_LEAP_SECONDS_BIT),
      (hal ''LDT_GNSS_LOCATION_INFO_NUM_SV_USED_IN_POSITION_BIT'', PB_GNSS_LOCATION_INFO_NUM_SV_USED_IN_POSITION_BIT),
      (hal ''LDT_GNSS_LOCATION_INFO_CALIBRATION_CONFIDENCE_BIT'', PB_GNSS_LOCATION_INFO_CALIBRATION_CONFIDENCE_PERCENT_BIT),
      (hal ''LDT_GNSS_LOCATION_INFO_CALIBRATION_STATUS_BIT'', PB_GNSS_LOCATION_INFO_CALIBRATION_STATUS_BIT),
      (hal ''LDT_GNSS_LOCATION_INFO_OUTPUT_ENG_TYPE_BIT'', PB_GNSS_LOCATION_INFO_OUTPUT_ENG_TYPE_BIT),
      (hal ''LDT_GNSS_LOCATION_INFO_OUTPUT_ENG_MASK_BIT'', PB_GNSS_LOCATION_INFO_OUTPUT_ENG_MASK_BIT),
      (hal ''LDT_GNSS_LOCATION_INFO_CONFORMITY_INDEX_BIT'', PB_GNSS_LOCATION_INFO_CONFORMITY_INDEX_BIT),
      (hal ''LDT_GNSS_LOCATION_INFO_LLA_VRP_BASED_BIT'', PB_GNSS_LOCATION_INFO_LLA_VRP_BASED_BIT),
      (hal ''LDT_GNSS_LOCATION_INFO_ENU_VELOCITY_VRP_BASED_BIT'', PB_GNSS_LOCATION_INFO_ENU_VELOCITY_VRP_BASED_BIT),
      (hal ''LDT_GNSS_LOCATION_INFO_DR_SOLUTION_STATUS_MASK_BIT'', PB_GNSS_LOCATION_INFO_DR_SOLUTION_STATUS_MASK_BIT)]"

definition getPBMaskForGnssLocationInfoFlagMask :: "hal_values \<Rightarrow> 64 word \<Rightarrow> 32 word" where
  "getPBMaskForGnssLocationInfoFlagMask hal gnssLocInfoFlagMask =
     copy_flags (getPBMaskForGnssLocationInfoFlagMask_flags hal) gnssLocInfoFlagMask"

definition getPBMaskForGnssLocationInfoExtFlagMask_flags :: "hal_values \<Rightarrow> (int \<times> int) list" where
  "getPBMaskForGnssLocationInfoExtFlagMask_flags hal =
     [(hal ''LDT_GNSS_LOCATION_INFO_ALTITUDE_ASSUMED_BIT'', PB_GNSS_LOCATION_INFO_ALTITUDE_ASSUMED_BIT),
      (hal ''LDT_GNSS_LOCATION_INFO_SESSION_STATUS_BIT'', PB_GNSS_LOCATION_INFO_SESSION_STATUS_BIT),
      (hal ''LDT_GNSS_LOCATION_INFO_INTEGRITY_RISK_USED_BIT'', PB_GNSS_LOCATION_INFO_INTEGRITY_RISK_USED_BIT),
      (hal ''LDT_GNSS_LOCATION_INFO_PROTECT_ALONG_TRACK_BIT'', PB_GNSS_LOCATION_INFO_PROTECT_ALONG_TRACK_BIT),
      (hal ''LDT_GNSS_LOCATION_INFO_PROTECT_CROSS_TRACK_BIT'', PB_GNSS_LOCATION_INFO_PROTECT_CROSS_TRACK_BIT),
      (hal ''LDT_GNSS_LOCATION_INFO_PROTECT_VERTICAL_BIT'', PB_GNSS_LOCATION_INFO_PROTECT_VERTICAL_BIT),
      (hal ''LDT_GNSS_LOCATION_INFO_DGNSS_STATION_ID_BIT'', PB_GNSS_LOCATION_INFO_DGNSS_STATION_ID_MASK_BIT),
      (hal ''LDT_GNSS_LOCATION_INFO_BASE_LINE_LENGTH_BIT'', PB_GNSS_LOCATION_INFO_BASE_LINE_LENGTH_BIT),
      (hal ''LDT_GNSS_LOCATION_INFO_AGE_OF_CORRECTION_BIT'', PB_GNSS_LOCATION_INFO_AGE_OF_CORRECTION_BIT),
      (hal ''LDT_GNSS_LOCATION_INFO_LEAP_SECONDS_UNC_BIT'', PB_GNSS_LOCATION_INFO_LEAP_SECONDS_UNC_BIT),
      (hal ''LDT_GNSS_LOCATION_INFO_REPORT_INTERVAL_BIT'', PB_GNSS_LOCATION_INFO_REPORT_INTERVAL_BIT),
      (hal ''LDT_GNSS_LOCATION_INFO_EXTENDED_DATA_BIT'', PB_GNSS_LOCATION_INFO_EXTENDED_DATA_BIT)]"

definition getPBMaskForGnssLocationInfoExtFlagMask :: "hal_values \<Rightarrow> 64 word \<Rightarrow> 32 word" where
  "getPBMaskForGnssLocationInfoExtFlagMask hal gnssLocInfoFlagMask =
     copy_flags (getPBMaskForGnssLocationInfoExtFlagMask_flags hal) gnssLocInfoFlagMask"

definition getPBMaskForGnssLocationNavSolutionMask_flags :: "hal_values \<Rightarrow> (int \<times> int) list" where
  "getPBMaskForGnssLocationNavSolutionMask_flags hal =
     [(hal ''LOCATION_SBAS_CORRECTION_IONO_BIT'', PB_LOCATION_SBAS_CORRECTION_IONO_BIT),
      (hal ''LOCATION_SBAS_CORRECTION_FAST_BIT'', PB_LOCATION_SBAS_CORRECTION_FAST_BIT),
      (hal ''LOCATION_SBAS_CORRECTION_LONG_BIT'', PB_LOCATION_SBAS_CORRECTION_LONG_BIT),
      (hal ''LOCATION_SBAS_INTEGRITY_BIT'', PB_LOCATION_SBAS_INTEGRITY_BIT),
      (hal ''LOCATION_NAV_CORRECTION_DGNSS_BIT'', PB_LOCATION_NAV_CORRECTION_DGNSS_BIT),
      (hal ''LOCATION_NAV_CORRECTION_RTK_BIT'', PB_LOCATION_NAV_CORRECTION_RTK_BIT),
      (hal ''LOCATION_NAV_CORRECTION_PPP_BIT'', PB_LOCATION_NAV_CORRECTION_PPP_BIT),
      (hal ''LOCATION_NAV_CORRECTION_RTK_FIXED_BIT'', PB_LOCATION_NAV_CORRECTION_RTK_FIXED_BIT),
      (hal ''LOCATION_NAV_CORRECTION_ONLY_SBAS_CORRECTED_SV_USED_BIT'', PB_LOCATION_NAV_CORRECTION_ONLY_SBAS_CORRECTED_SV_USED_BIT),
      (hal ''LOCATION_NAV_MMF_AIDED_POSITION'', PB_LOCATION_NAV_MMF_AIDED_POSITION)]"

definition getPBMaskForGnssLocationNavSolutionMask :: "hal_values \<Rightarrow> 32 word \<Rightarrow> 32 word" where
  "getPBMaskForGnssLocationNavSolutionMask hal gnssLocNavSolnMask =
     copy_flags (getPBMaskForGnssLocationNavSolutionMask_flags hal) gnssLocNavSolnMask"

definition getPBMaskForDrCalibrationStatusMask_flags :: "hal_values \<Rightarrow> (int \<times> int) list" where
  "getPBMaskForDrCalibrationStatusMask_flags hal =
     [(hal ''DR_ROLL_CALIBRATION_NEEDED'', PB_DR_ROLL_CALIBRATION_NEEDED),
      (hal ''DR_PITCH_CALIBRATION_NEEDED'', PB_DR_PITCH_CALIBRATION_NEEDED),
      (hal ''DR_YAW_CALIBRATION_NEEDED'', PB_DR_YAW_CALIBRATION_NEEDED),
      (hal ''DR_ODO_CALIBRATION_NEEDED'', PB_DR_ODO_CALIBRATION_NEEDED),
      (hal ''DR_GYRO_CALIBRATION_NEEDED'', PB_DR_GYRO_CALIBRATION_NEEDED),
      (hal ''DR_TURN_CALIBRATION_LOW'', PB_DR_TURN_CALIBRATION_LOW),
      (hal ''DR_TURN_CALIBRATION_MEDIUM'', PB_DR_TURN_CALIBRATION_MEDIUM),
      (hal ''DR_TURN_CALIBRATION_HIGH'', PB_DR_TURN_CALIBRATION_HIGH),
      (hal ''DR_LINEAR_ACCEL_CALIBRATION_LOW'', PB_DR_LINEAR_ACCEL_CALIBRATION_LOW),
      (hal ''DR_LINEAR_ACCEL_CALIBRATION_MEDIUM'', PB_DR_LINEAR_ACCEL_CALIBRATION_MEDIUM),
      (hal ''DR_LINEAR_ACCEL_CALIBRATION_HIGH'', PB_DR_LINEAR_ACCEL_CALIBRATION_HIGH),
      (hal ''DR_LINEAR_MOTION_CALIBRATION_LOW'', PB_DR_LINEAR_MOTION_CALIBRATION_LOW),
      (hal ''DR_LINEAR_MOTION_CALIBRATION_MEDIUM'', PB_DR_LINEAR_MOTION_CALIBRATION_MEDIUM),
      (hal ''DR_LINEAR_MOTION_CALIBRATION_HIGH'', PB_DR_LINEAR_MOTION_CALIBRATION_HIGH),
      (hal ''DR_STATIC_CALIBRATION_LOW'', PB_DR_STATIC_CALIBRATION_LOW),
      (hal ''DR_STATIC_CALIBRATION_MEDIUM'', PB_DR_STATIC_CALIBRATION_MEDIUM),
      (hal ''DR_STATIC_CALIBRATION_HIGH'', PB_DR_STATIC_CALIBRATION_HIGH)]"

definition getPBMaskForDrCalibrationStatusMask :: "hal_values \<Rightarrow> 32 word \<Rightarrow> 32 word" where
  "getPBMaskForDrCalibrationStatusMask hal drCalibStatusMask =
     copy_flags (getPBMaskForDrCalibrationStatusMask_flags hal) drCalibStatusMask"

definition getPBMaskForGnssMeasurementsDataFlagsMask_flags :: "hal_values \<Rightarrow> (int \<times> int) list" where
  "getPBMaskForGnssMeasurementsDataFlagsMask_flags hal =
     [(hal ''GNSS_MEASUREMENTS_DATA_SV_ID_BIT'', PB_GNSS_MEASUREMENTS_DATA_SV_ID_BIT),
      (hal ''GNSS_MEASUREMENTS_DATA_SV_TYPE_BIT'', PB_GNSS_MEASUREMENTS_DATA_SV_TYPE_BIT),
      (hal ''GNSS_MEASUREMENTS_DATA_STATE_BIT'', PB_GNSS_MEASUREMENTS_DATA_STATE_BIT),
      (hal ''GNSS_MEASUREMENTS_DATA_RECEIVED_SV_TIME_BIT'', PB_GNSS_MEASUREMENTS_DATA_RECEIVED_SV_TIME_BIT),
      (hal ''GNSS_MEASUREMENTS_DATA_RECEIVED_SV_TIME_UNCERTAINTY_BIT'', PB_GNSS_MEASUREMENTS_DATA_RECEIVED_SV_TIME_UNCERTAINTY_BIT),
      (hal ''GNSS_MEASUREMENTS_DATA_CARRIER_TO_NOISE_BIT'', PB_GNSS_MEASUREMENTS_DATA_CARRIER_TO_NOISE_BIT),
      (hal ''GNSS_MEASUREMENTS_DATA_PSEUDORANGE_RATE_BIT'', PB_GNSS_MEASUREMENTS_DATA_PSEUDORANGE_RATE_BIT),
      (hal ''GNSS_MEASUREMENTS_DATA_PSEUDORANGE_RATE_UNCERTAINTY_BIT'', PB_GNSS_MEASUREMENTS_DATA_PSEUDORANGE_RATE_UNCERTAINTY_BIT),
      (hal ''GNSS_MEASUREMENTS_DATA_ADR_STATE_BIT'', PB_GNSS_MEASUREMENTS_DATA_ADR_STATE_BIT),
      (hal ''GNSS_MEASUREMENTS_DATA_ADR_BIT'', PB_GNSS_MEASUREMENTS_DATA_ADR_BIT),
      (hal ''GNSS_MEASUREMENTS_DATA_ADR_UNCERTAINTY_BIT'', PB_GNSS_MEASUREMENTS_DATA_ADR_UNCERTAINTY_BIT),
      (hal ''GNSS_MEASUREMENTS_DATA_CARRIER_FREQUENCY_BIT'', PB_GNSS_MEASUREMENTS_DATA_CARRIER_FREQUENCY_BIT),
      (hal ''GNSS_MEASUREMENTS_DATA_CARRIER_CYCLES_BIT'', PB_GNSS_MEASUREMENTS_DATA_CARRIER_CYCLES_BIT),
      (hal ''GNSS_MEASUREMENTS_DATA_CARRIER_PHASE_BIT'', PB_GNSS_MEASUREMENTS_DATA_CARRIER_PHASE_BIT),
      (hal ''GNSS_MEASUREMENTS_DATA_CARRIER_PHASE_UNCERTAINTY_BIT'', PB_GNSS_MEASUREMENTS_DATA_CARRIER_PHASE_UNCERTAINTY_BIT),
      (hal ''GNSS_MEASUREMENTS_DATA_MULTIPATH_INDICATOR_BIT'', PB_GNSS_MEASUREMENTS_DATA_MULTIPATH_INDICATOR_BIT),
      (hal ''GNSS_MEASUREMENTS_DATA_SIGNAL_TO_NOISE_RATIO_BIT'', PB_GNSS_MEASUREMENTS_DATA_SIGNAL_TO_NOISE_RATIO_BIT),
      (hal ''GNSS_MEASUREMENTS_DATA_AUTOMATIC_GAIN_CONTROL_BIT'', PB_GNSS_MEASUREMENTS_DATA_AUTOMATIC_GAIN_CONTROL_BIT),
      (hal ''GNSS_MEASUREMENTS_DATA_FULL_ISB_BIT'', PB_GNSS_MEASUREMENTS_DATA_FULL_ISB_BIT),
      (hal ''GNSS_MEASUREMENTS_DATA_FULL_ISB_UNCERTAINTY_BIT'', PB_GNSS_MEASUREMENTS_DATA_FULL_ISB_UNCERTAINTY_BIT),
      (hal ''GNSS_MEASUREMENTS_DATA_CYCLE_SLIP_COUNT_BIT'', PB_GNSS_MEASUREMENTS_DATA_CYCLE_SLIP_COUNT_BIT),
      (hal ''GNSS_MEASUREMENTS_DATA_GNSS_SIGNAL_TYPE_BIT'', PB_GNSS_MEASUREMENTS_DATA_GNSS_SIGNAL_TYPE_BIT),
      (hal ''GNSS_MEASUREMENTS_DATA_BASEBAND_CARRIER_TO_NOISE_BIT'', PB_GNSS_MEASUREMENTS_DATA_BASEBAND_CARRIER_TO_NOISE_BIT),
      (hal ''GNSS_MEASUREMENTS_DATA_MEAS_CODE_TYPE_BIT'', PB_GNSS_MEASUREMENTS_DATA_MEAS_CODE_TYPE_BIT),
      (hal ''GNSS_MEASUREMENTS_DATA_OTHER_MEAS_CODE_TYPE_BIT'', PB_GNSS_MEASUREMENTS_DATA_OTHER_MEAS_CODE_TYPE_BIT)]"

definition getPBMaskForGnssMeasurementsDataFlagsMask :: "hal_values \<Rightarrow> 32 word \<Rightarrow> 32 word" where
  "getPBMaskForGnssMeasurementsDataFlagsMask hal gnssMeasDataFlagsMask =
     copy_flags (getPBMaskForGnssMeasurementsDataFlagsMask_flags hal) gnssMeasDataFlagsMask"

definition getPBMaskForGnssMeasurementsStateMask_flags :: "hal_values \<Rightarrow> (int \<times> int) list" where
  "getPBMaskForGnssMeasurementsStateMask_flags hal =
     [(hal ''GNSS_MEASUREMENTS_STATE_UNKNOWN_BIT'', PB_GNSS_MEASUREMENTS_STATE_UNKNOWN_BIT),
      (hal ''GNSS_MEASUREMENTS_STATE_CODE_LOCK_BIT'', PB_GNSS_MEASUREMENTS_STATE_CODE_LOCK_BIT),
      (hal ''GNSS_MEASUREMENTS_STATE_BIT_SYNC_BIT'', PB_GNSS_MEASUREMENTS_STATE_BIT_SYNC_BIT),
      (hal ''GNSS_MEASUREMENTS_STATE_SUBFRAME_SYNC_BIT'', PB_GNSS_MEASUREMENTS_STATE_SUBFRAME_SYNC_BIT),
      (hal ''GNSS_MEASUREMENTS_STATE_TOW_DECODED_BIT'', PB_GNSS_MEASUREMENTS_STATE_TOW_DECODED_BIT),
      (hal ''GNSS_MEASUREMENTS_STATE_MSEC_AMBIGUOUS_BIT'', PB_GNSS_MEASUREMENTS_STATE_MSEC_AMBIGUOUS_BIT),
      (hal ''GNSS_MEASUREMENTS_STATE_SYMBOL_SYNC_BIT'', PB_GNSS_MEASUREMENTS_STATE_SYMBOL_SYNC_BIT),
      (hal ''GNSS_MEASUREMENTS_STATE_GLO_STRING_SYNC_BIT'', PB_GNSS_MEASUREMENTS_STATE_GLO_STRING_SYNC_BIT),
      (hal ''GNSS_MEASUREMENTS_STATE_GLO_TOD_DECODED_BIT'', PB_GNSS_MEASUREMENTS_STATE_GLO_TOD_DECODED_BIT),
      (hal ''GNSS_MEASUREMENTS_STATE_BDS_D2_BIT_SYNC_BIT'', PB_GNSS_MEASUREMENTS_STATE_BDS_D2_BIT_SYNC_BIT),
      (hal ''GNSS_MEASUREMENTS_STATE_BDS_D2_SUBFRAME_SYNC_BIT'', PB_GNSS_MEASUREMENTS_STATE_BDS_D2_SUBFRAME_SYNC_BIT),
      (hal ''GNSS_MEASUREMENTS_STATE_GAL_E1BC_CODE_LOCK_BIT'', PB_GNSS_MEASUREMENTS_STATE_GAL_E1BC_CODE_LOCK_BIT),
      (hal ''GNSS_MEASUREMENTS_STATE_GAL_E1C_2ND_CODE_LOCK_BIT'', PB_GNSS_MEASUREMENTS_STATE_GAL_E1C_2ND_CODE_LOCK_BIT),
      (hal ''GNSS_MEASUREMENTS_STATE_GAL_E1B_PAGE_SYNC_BIT'', PB_GNSS_MEASUREMENTS_STATE_GAL_E1B_PAGE_SYNC_BIT),
      (hal ''GNSS_MEASUREMENTS_STATE_SBAS_SYNC_BIT'', PB_GNSS_MEASUREMENTS_STATE_SBAS_SYNC_BIT)]"

definition getPBMaskForGnssMeasurementsStateMask :: "hal_values \<Rightarrow> 32 word \<Rightarrow> 32 word" where
  "getPBMaskForGnssMeasurementsStateMask hal gnssMeasStateMask =
     copy_flags (getPBMaskForGnssMeasurementsStateMask_flags hal) gnssMeasStateMask"

definition getPBMaskForGnssMeasurementsAdrStateMask_flags :: "hal_values \<Rightarrow> (int \<times> int) list" where
  "getPBMaskForGnssMeasurementsAdrStateMask_flags hal =
     [
      (hal ''GNSS_MEASUREMENTS_ACCUMULATED_DELTA_RANGE_STATE_UNKNOWN'', PB_GNSS_MEASUREMENTS_ACCUMULATED_DELTA_RANGE_STATE_UNKNOWN),
      (hal ''GNSS_MEASUREMENTS_ACCUMULATED_DELTA_RANGE_STATE_VALID_BIT'', PB_GNSS_MEASUREMENTS_ACCUMULATED_DELTA_RANGE_STATE_VALID_BIT),
      (hal ''GNSS_MEASUREMENTS_ACCUMULATED_DELTA_RANGE_STATE_RESET_BIT'', PB_GNSS_MEASUREMENTS_ACCUMULATED_DELTA_RANGE_STATE_RESET_BIT),
      (hal ''GNSS_MEASUREMENTS_ACCUMULATED_DELTA_RANGE_STATE_CYCLE_SLIP_BIT'', PB_GNSS_MEASUREMENTS_ACCUMULATED_DELTA_RANGE_STATE_CYCLE_SLIP_BIT),
      (hal ''GNSS_MEASUREMENTS_ACCUMULATED_DELTA_RANGE_STATE_HALF_CYCLE_RESOLVED_BIT'', PB_GNSS_MEASUREMENTS_ACCUMULATED_DELTA_RANGE_STATE_HALF_CYCLE_RESOLVED_BIT)]"

definition getPBMaskForGnssMeasurementsAdrStateMask :: "hal_values \<Rightarrow> 32 word \<Rightarrow> 32 word" where
  "getPBMaskForGnssMeasurementsAdrStateMask hal gnssMeasAdrStateMask =
     copy_flags (getPBMaskForGnssMeasurementsAdrStateMask_flags hal) gnssMeasAdrStateMask"

definition getPBMaskForGnssLocationPosDataMask_flags :: "hal_values \<Rightarrow> (int \<times> int) list" where
  "getPBMaskForGnssLocationPosDataMask_flags hal =
     [(hal ''LOCATION_NAV_DATA_HAS_LONG_ACCEL_BIT'', PB_LOCATION_NAV_DATA_HAS_LONG_ACCEL_BIT),
      (hal ''LOCATION_NAV_DATA_HAS_LAT_ACCEL_BIT'', PB_LOCATION_NAV_DATA_HAS_LAT_ACCEL_BIT),
      (hal ''LOCATION_NAV_DATA_HAS_VERT_ACCEL_BIT'', PB_LOCATION_NAV_DATA_HAS_VERT_ACCEL_BIT),
      (hal ''LOCATION_NAV_DATA_HAS_YAW_RATE_BIT'', PB_LOCATION_NAV_DATA_HAS_YAW_RATE_BIT),
      (hal ''LOCATION_NAV_DATA_HAS_PITCH_BIT'', PB_LOCATION_NAV_DATA_HAS_PITCH_BIT),
      (hal ''LOCATION_NAV_DATA_HAS_LONG_ACCEL_UNC_BIT'', PB_LOCATION_NAV_DATA_HAS_LONG_ACCEL_UNC_BIT),
      (hal ''LOCATION_NAV_DATA_HAS_LAT_ACCEL_UNC_BIT'', PB_LOCATION_NAV_DATA_HAS_LAT_ACCEL_UNC_BIT),
      (hal ''LOCATION_NAV_DATA_HAS_VERT_ACCEL_UNC_BIT'', PB_LOCATION_NAV_DATA_HAS_VERT_ACCEL_UNC_BIT),
      (hal ''LOCATION_NAV_DATA_HAS_YAW_RATE_UNC_BIT'', PB_LOCATION_NAV_DATA_HAS_YAW_RATE_UNC_BIT),
      (hal ''LOCATION_NAV_DATA_HAS_PITCH_UNC_BIT'', PB_LOCATION_NAV_DATA_HAS_PITCH_UNC_BIT)]"

definition getPBMaskForGnssLocationPosDataMask_flags_ext :: "hal_values \<Rightarrow> (int \<times> int) list" where
  "getPBMaskForGnssLocationPosDataMask_flags_ext hal =
     [(hal ''LOCATION_NAV_DATA_HAS_PITCH_RATE_BIT'', PB_LOCATION_NAV_DATA_HAS_PITCH_RATE_BIT),
      (hal ''LOCATION_NAV_DATA_HAS_PITCH_RATE_UNC_BIT'', PB_LOCATION_NAV_DATA_HAS_PITCH_RATE_UNC_BIT),
      (hal ''LOCATION_NAV_DATA_HAS_ROLL_BIT'', PB_LOCATION_NAV_DATA_HAS_ROLL_BIT),
      (hal ''LOCATION_NAV_DATA_HAS_ROLL_UNC_BIT'', PB_LOCATION_NAV_DATA_HAS_ROLL_UNC_BIT),
      (hal ''LOCATION_NAV_DATA_HAS_ROLL_RATE_BIT'', PB_LOCATION_NAV_DATA_HAS_ROLL_RATE_BIT),
      (hal ''LOCATION_NAV_DATA_HAS_ROLL_RATE_UNC_BIT'', PB_LOCATION_NAV_DATA_HAS_ROLL_RATE_UNC_BIT),
      (hal ''LOCATION_NAV_DATA_HAS_YAW_BIT'', PB_LOCATION_NAV_DATA_HAS_YAW_BIT),
      (hal ''LOCATION_NAV_DATA_HAS_YAW_UNC_BIT'', PB_LOCATION_NAV_DATA_HAS_YAW_UNC_BIT)]"

definition getPBMaskForGnssLocationPosDataMask :: "hal_values \<Rightarrow> 32 word \<Rightarrow> 32 word \<Rightarrow> 32 word" where
  "getPBMaskForGnssLocationPosDataMask hal gnssLocPosDataMask gnssLocPosDataMaskExt =
     copy_flags_to (copy_flags (getPBMaskForGnssLocationPosDataMask_flags hal) gnssLocPosDataMask)
     (getPBMaskForGnssLocationPosDataMask_flags_ext hal) gnssLocPosDataMaskExt"

definition getPBMaskForGnssMeasurementsClockFlagsMask_flags :: "hal_values \<Rightarrow> (int \<times> int) list" where
  "getPBMaskForGnssMeasurementsClockFlagsMask_flags hal =
     [
      (hal ''GNSS_MEASUREMENTS_CLOCK_FLAGS_LEAP_SECOND_BIT'', PB_GNSS_MEASUREMENTS_CLOCK_FLAGS_LEAP_SECOND_BIT),
      (hal ''GNSS_MEASUREMENTS_CLOCK_FLAGS_TIME_BIT'', PB_GNSS_MEASUREMENTS_CLOCK_FLAGS_TIME_BIT),
      (hal ''GNSS_MEASUREMENTS_CLOCK_FLAGS_TIME_UNCERTAINTY_BIT'', PB_GNSS_MEASUREMENTS_CLOCK_FLAGS_TIME_UNCERTAINTY_BIT),
      (hal ''GNSS_MEASUREMENTS_CLOCK_FLAGS_FULL_BIAS_BIT'', PB_GNSS_MEASUREMENTS_CLOCK_FLAGS_FULL_BIAS_BIT),
      (hal ''GNSS_MEASUREMENTS_CLOCK_FLAGS_BIAS_BIT'', PB_GNSS_MEASUREMENTS_CLOCK_FLAGS_BIAS_BIT),
      (hal ''GNSS_MEASUREMENTS_CLOCK_FLAGS_BIAS_UNCERTAINTY_BIT'', PB_GNSS_MEASUREMENTS_CLOCK_FLAGS_BIAS_UNCERTAINTY_BIT),
      (hal ''GNSS_MEASUREMENTS_CLOCK_FLAGS_DRIFT_BIT'', PB_GNSS_MEASUREMENTS_CLOCK_FLAGS_DRIFT_BIT),
      (hal ''GNSS_MEASUREMENTS_CLOCK_FLAGS_DRIFT_UNCERTAINTY_BIT'', PB_GNSS_MEASUREMENTS_CLOCK_FLAGS_DRIFT_UNCERTAINTY_BIT),
      (hal ''GNSS_MEASUREMENTS_CLOCK_FLAGS_HW_CLOCK_DISCONTINUITY_COUNT_BIT'', PB_GNSS_MEASUREMENTS_CLOCK_FLAGS_HW_CLOCK_DISCONTINUITY_COUNT_BIT),
      (hal ''GNSS_MEASUREMENTS_CLOCK_FLAGS_ELAPSED_REAL_TIME_BIT'', PB_GNSS_MEASUREMENTS_CLOCK_FLAGS_ELAPSED_REAL_TIME_BIT),
      (hal ''GNSS_MEASUREMENTS_CLOCK_FLAGS_ELAPSED_REAL_TIME_UNC_BIT'', PB_GNSS_MEASUREMENTS_CLOCK_FLAGS_ELAPSED_REAL_TIME_UNC_BIT),
      (hal ''GNSS_MEASUREMENTS_CLOCK_FLAGS_ELAPSED_GPTP_TIME_BIT'', PB_GNSS_MEASUREMENTS_CLOCK_FLAGS_ELAPSED_GPTP_TIME_BIT),
      (hal ''GNSS_MEASUREMENTS_CLOCK_FLAGS_ELAPSED_GPTP_TIME_UNC_BIT'', PB_GNSS_MEASUREMENTS_CLOCK_FLAGS_ELAPSED_GPTP_TIME_UNC_BIT)]"

definition getPBMaskForGnssMeasurementsClockFlagsMask :: "hal_values \<Rightarrow> 32 word \<Rightarrow> 32 word" where
  "getPBMaskForGnssMeasurementsClockFlagsMask hal gnssMeasClockFlagsMask =
     copy_flags (getPBMaskForGnssMeasurementsClockFlagsMask_flags hal) gnssMeasClockFlagsMask"

definition getPBMaskForGnssGloTimeStructTypeFlags_flags :: "hal_values \<Rightarrow> (int \<times> int) list" where
  "getPBMaskForGnssGloTimeStructTypeFlags_flags hal =
     [(hal ''GNSS_CLO_DAYS_VALID'', PB_GNSS_CLO_DAYS_VALID),
      (hal ''GNSS_GLO_MSEC_VALID'', PB_GNSS_GLO_MSEC_VALID),
      (hal ''GNSS_GLO_CLK_TIME_BIAS_VALID'', PB_GNSS_GLO_CLK_TIME_BIAS_VALID),
      (hal ''GNSS_GLO_CLK_TIME_BIAS_UNC_VALID'', PB_GNSS_GLO_CLK_TIME_BIAS_UNC_VALID),
      (hal ''GNSS_GLO_REF_FCOUNT_VALID'', PB_GNSS_GLO_REF_FCOUNT_VALID),
      (hal ''GNSS_GLO_NUM_CLOCK_RESETS_VALID'', PB_GNSS_GLO_NUM_CLOCK_RESETS_VALID),
      (hal ''GNSS_GLO_FOUR_YEAR_VALID'', PB_GNSS_GLO_FOUR_YEAR_VALID)]"

definition getPBMaskForGnssGloTimeStructTypeFlags :: "hal_values \<Rightarrow> 32 word \<Rightarrow> 32 word" where
  "getPBMaskForGnssGloTimeStructTypeFlags hal gnssGloTimeStructTypeFlags =
     copy_flags (getPBMaskForGnssGloTimeStructTypeFlags_flags hal) gnssGloTimeStructTypeFlags"

definition getPBMaskForGnssSvOptionsMask_flags :: "hal_values \<Rightarrow> (int \<times> int) list" where
  "getPBMaskForGnssSvOptionsMask_flags hal =
     [(hal ''GNSS_SV_OPTIONS_HAS_EPHEMER_BIT'', PB_GNSS_SV_OPTIONS_HAS_EPHEMER_BIT),
      (hal ''GNSS_SV_OPTIONS_HAS_ALMANAC_BIT'', PB_GNSS_SV_OPTIONS_HAS_ALMANAC_BIT),
      (hal ''GNSS_SV_OPTIONS_USED_IN_FIX_BIT'', PB_GNSS_SV_OPTIONS_USED_IN_FIX_BIT),
      (hal ''GNSS_SV_OPTIONS_HAS_CARRIER_FREQUENCY_BIT'', PB_GNSS_SV_OPTIONS_HAS_CARRIER_FREQUENCY_BIT),
      (hal ''GNSS_SV_OPTIONS_HAS_GNSS_SIGNAL_TYPE_BIT'', PB_GNSS_SV_OPTIONS_HAS_GNSS_SIGNAL_TYPE_BIT),
      (hal ''GNSS_SV_OPTIONS_HAS_BASEBAND_CARRIER_TO_NOISE_BIT'', PB_GNSS_SV_OPTIONS_HAS_BASEBAND_CARRIER_TO_NOISE_BIT),
      (hal ''GNSS_SV_OPTIONS_HAS_ELEVATION_BIT'', PB_GNSS_SV_OPTIONS_HAS_ELEVATION_BIT),
      (hal ''GNSS_SV_OPTIONS_HAS_AZIMUTH_BIT'', PB_GNSS_SV_OPTIONS_HAS_AZIMUTH_BIT)]"

definition getPBMaskForGnssSvOptionsMask :: "hal_values \<Rightarrow> 32 word \<Rightarrow> 32 word" where
  "getPBMaskForGnssSvOptionsMask hal gnssSvOptMask =
     copy_flags (getPBMaskForGnssSvOptionsMask_flags hal) gnssSvOptMask"

definition getPBMaskForGnssSignalTypeMask_flags :: "hal_values \<Rightarrow> (int \<times> int) list" where
  "getPBMaskForGnssSignalTypeMask_flags hal =
     [(hal ''GNSS_SIGNAL_GPS_L1CA'', PB_GNSS_SIGNAL_GPS_L1CA_BIT),
      (hal ''GNSS_SIGNAL_GPS_L1C'', PB_GNSS_SIGNAL_GPS_L1C_BIT),
      (hal ''GNSS_SIGNAL_GPS_L2'', PB_GNSS_SIGNAL_GPS_L2_BIT),
      (hal ''GNSS_SIGNAL_GPS_L5'', PB_GNSS_SIGNAL_GPS_L5_BIT),
      (hal ''GNSS_SIGNAL_GLONASS_G1'', PB_GNSS_SIGNAL_GLONASS_G1_BIT),
      (hal ''GNSS_SIGNAL_GLONASS_G2'', PB_GNSS_SIGNAL_GLONASS_G2_BIT),
      (hal ''GNSS_SIGNAL_GALILEO_E1'', PB_GNSS_SIGNAL_GALILEO_E1_BIT),
      (hal ''GNSS_SIGNAL_GALILEO_E5A'', PB_GNSS_SIGNAL_GALILEO_E5A_BIT),
      (hal ''GNSS_SIGNAL_GALILEO_E5B'', PB_GNSS_SIGNAL_GALILEO_E5B_BIT),
      (hal ''GNSS_SIGNAL_BEIDOU_B1'', PB_GNSS_SIGNAL_BEIDOU_B1_BIT),
      (hal ''GNSS_SIGNAL_BEIDOU_B2'', PB_GNSS_SIGNAL_BEIDOU_B2_BIT),
      (hal ''GNSS_SIGNAL_QZSS_L1CA'', PB_GNSS_SIGNAL_QZSS_L1CA_BIT),
      (hal ''GNSS_SIGNAL_QZSS_L1S'', PB_GNSS_SIGNAL_QZSS_L1S_BIT),
      (hal ''GNSS_SIGNAL_QZSS_L2'', PB_GNSS_SIGNAL_QZSS_L2_BIT),
      (hal ''GNSS_SIGNAL_QZSS_L5'', PB_GNSS_SIGNAL_QZSS_L5_BIT),
      (hal ''GNSS_SIGNAL_SBAS_L1'', PB_GNSS_SIGNAL_SBAS_L1_BIT),
      (hal ''GNSS_SIGNAL_BEIDOU_B1I'', PB_GNSS_SIGNAL_BEIDOU_B1I_BIT),
      (hal ''GNSS_SIGNAL_BEIDOU_B1C'', PB_GNSS_SIGNAL_BEIDOU_B1C_BIT),
      (hal ''GNSS_SIGNAL_BEIDOU_B2I'', PB_GNSS_SIGNAL_BEIDOU_B2I_BIT),
      (hal ''GNSS_SIGNAL_BEIDOU_B2AI'', PB_GNSS_SIGNAL_BEIDOU_B2AI_BIT),
      (hal ''GNSS_SIGNAL_NAVIC_L5'', PB_GNSS_SIGNAL_NAVIC_L5_BIT),
      (hal ''GNSS_SIGNAL_BEIDOU_B2AQ'', PB_GNSS_SIGNAL_BEIDOU_B2AQ_BIT),
      (hal ''GNSS_SIGNAL_BEIDOU_B2BI'', PB_GNSS_SIGNAL_BEIDOU_B2BI_BIT),
      (hal ''GNSS_SIGNAL_BEIDOU_B2BQ'', PB_GNSS_SIGNAL_BEIDOU_B2BQ_BIT),
      (hal ''GNSS_SIGNAL_NAVIC_L1'', PB_GNSS_SIGNAL_NAVIC_L1_BIT)]"

definition getPBMaskForGnssSignalTypeMask :: "hal_values \<Rightarrow> 32 word \<Rightarrow> 32 word" where
  "getPBMaskForGnssSignalTypeMask hal gnssSignalTypeMask =
     copy_flags (getPBMaskForGnssSignalTypeMask_flags hal) gnssSignalTypeMask"

definition getPBMaskForGeofenceBreachTypeMask_flags :: "hal_values \<Rightarrow> (int \<times> int) list" where
  "getPBMaskForGeofenceBreachTypeMask_flags hal =
     [(hal ''GEOFENCE_BREACH_ENTER_BIT'', PB_GEOFENCE_BREACH_ENTER_BIT),
      (hal ''GEOFENCE_BREACH_EXIT_BIT'', PB_GEOFENCE_BREACH_EXIT_BIT),
      (hal ''GEOFENCE_BREACH_DWELL_IN_BIT'', PB_GEOFENCE_BREACH_DWELL_IN_BIT),
      (hal ''GEOFENCE_BREACH_DWELL_OUT_BIT'', PB_GEOFENCE_BREACH_DWELL_OUT_BIT)]"

definition getPBMaskForGeofenceBreachTypeMask :: "hal_values \<Rightarrow> 32 word \<Rightarrow> 32 word" where
  "getPBMaskForGeofenceBreachTypeMask hal gfBreachTypeMask =
     copy_flags (getPBMaskForGeofenceBreachTypeMask_flags hal) gfBreachTypeMask"

definition getPBMaskForDeadReckoningEngineConfigValidMask_flags :: "hal_values \<Rightarrow> (int \<times> int) list" where
  "getPBMaskForDeadReckoningEngineConfigValidMask_flags hal =
     [(hal ''BODY_TO_SENSOR_MOUNT_PARAMS_BIT'', PB_BODY_TO_SENSOR_MOUNT_PARAMS_BIT),
      (hal ''VEHICLE_SPEED_SCALE_FACTOR_BIT'', PB_VEHICLE_SPEED_SCALE_FACTOR_BIT),
      (hal ''VEHICLE_SPEED_SCALE_FACTOR_UNC_BIT'', PB_VEHICLE_SPEED_SCALE_FACTOR_UNC_BIT),
      (hal ''GYRO_SCALE_FACTOR_BIT'', PB_GYRO_SCALE_FACTOR_BIT),
      (hal ''GYRO_SCALE_FACTOR_UNC_BIT'', PB_GYRO_SCALE_FACTOR_UNC_BIT)]"

definition getPBMaskForDeadReckoningEngineConfigValidMask :: "hal_values \<Rightarrow> 64 word \<Rightarrow> 64 word" where
  "getPBMaskForDeadReckoningEngineConfigValidMask hal drEngCfgValidMask =
     copy_flags (getPBMaskForDeadReckoningEngineConfigValidMask_flags hal) drEngCfgValidMask"

definition getPBMaskForDrEngineAidingDataMask_flags :: "hal_values \<Rightarrow> (int \<times> int) list" where
  "getPBMaskForDrEngineAidingDataMask_flags hal =
     [(hal ''DR_ENGINE_AIDING_DATA_CALIBRATION_BIT'', PB_DR_ENGINE_AIDING_DATA_CALIBRATION_BIT)]"

definition getPBMaskForDrEngineAidingDataMask :: "hal_values \<Rightarrow> 32 word \<Rightarrow> 32 word" where
  "getPBMaskForDrEngineAidingDataMask hal drEngAidDataMask =
     copy_flags (getPBMaskForDrEngineAidingDataMask_flags hal) drEngAidDataMask"

definition getPBMaskForDrSolutionStatusMask_flags :: "hal_values \<Rightarrow> (int \<times> int) list" where
  "getPBMaskForDrSolutionStatusMask_flags hal =
     [(hal ''VEHICLE_SENSOR_SPEED_INPUT_DETECTED'', PB_VEHICLE_SENSOR_SPEED_INPUT_DETECTED),
      (hal ''VEHICLE_SENSOR_SPEED_INPUT_USED'', PB_VEHICLE_SENSOR_SPEED_INPUT_USED),
      (hal ''DRE_WARNING_UNCALIBRATED'', PB_DRE_WARNING_UNCALIBRATED),
      (hal ''DRE_WARNING_GNSS_QUALITY_INSUFFICIENT'', PB_DRE_WARNING_GNSS_QUALITY_INSUFFICIENT),
      (hal ''DRE_WARNING_FERRY_DETECTED'', PB_DRE_WARNING_FERRY_DETECTED),
      (hal ''DRE_ERROR_6DOF_SENSOR_UNAVAILABLE'', PB_DRE_ERROR_6DOF_SENSOR_UNAVAILABLE),
      (hal ''DRE_ERROR_VEHICLE_SPEED_UNAVAILABLE'', PB_DRE_ERROR_VEHICLE_SPEED_UNAVAILABLE),
      (hal ''DRE_ERROR_GNSS_EPH_UNAVAILABLE'', PB_DRE_ERROR_GNSS_EPH_UNAVAILABLE),
      (hal ''DRE_ERROR_GNSS_MEAS_UNAVAILABLE'', PB_DRE_ERROR_GNSS_MEAS_UNAVAILABLE),
      (hal ''DRE_WARNING_INIT_POSITION_INVALID'', PB_DRE_WARNING_INIT_POSITION_INVALID),
      (hal ''DRE_WARNING_INIT_POSITION_UNRELIABLE'', PB_DRE_WARNING_INIT_POSITION_UNRELIABLE),
      (hal ''DRE_WARNING_POSITON_UNRELIABLE'', PB_DRE_WARNING_POSITON_UNRELIABLE),
      (hal ''DRE_ERROR_GENERIC'', PB_DRE_ERROR_GENERIC),
      (hal ''DRE_WARNING_SENSOR_TEMP_OUT_OF_RANGE'', PB_DRE_WARNING_SENSOR_TEMP_OUT_OF_RANGE),
      (hal ''DRE_WARNING_USER_DYNAMICS_INSUFFICIENT'', PB_DRE_WARNING_USER_DYNAMICS_INSUFFICIENT),
      (hal ''DRE_WARNING_FACTORY_DATA_INCONSISTENT'', PB_DRE_WARNING_FACTORY_DATA_INCONSISTENT),
      (hal ''DRE_WARNING_MMF_UNAVAILABLE'', PB_DRE_WARNING_MMF_UNAVAILABLE),
      (hal ''DRE_WARNING_MMF_NOT_USABLE'', PB_DRE_WARNING_MMF_NOT_USABLE)]"

definition getPBMaskForDrSolutionStatusMask :: "hal_values \<Rightarrow> 32 word \<Rightarrow> 32 word" where
  "getPBMaskForDrSolutionStatusMask hal drSolnStatusMask =
     copy_flags (getPBMaskForDrSolutionStatusMask_flags hal) drSolnStatusMask"

definition getLocationCapabilitiesMaskFromPB :: "hal_values \<Rightarrow> 64 word \<Rightarrow> 64 word" where
  "getLocationCapabilitiesMaskFromPB hal pbLocCapabMask = copy_flags
     [(PB_LOCATION_CAPS_TIME_BASED_TRACKING_BIT, hal ''LOCATION_CAPABILITIES_TIME_BASED_TRACKING_BIT''),
      (PB_LOCATION_CAPS_TIME_BASED_BATCHING_BIT, hal ''LOCATION_CAPABILITIES_TIME_BASED_BATCHING_BIT''),
      (PB_LOCATION_CAPS_DISTANCE_BASED_TRACKING_BIT, hal ''LOCATION_CAPABILITIES_DISTANCE_BASED_TRACKING_BIT''),
      (PB_LOCATION_CAPS_DISTANCE_BASED_BATCHING_BIT, hal ''LOCATION_CAPABILITIES_DISTANCE_BASED_BATCHING_BIT''),
      (PB_LOCATION_CAPS_GEOFENCE_BIT, hal ''LOCATION_CAPABILITIES_GEOFENCE_BIT''),
      (PB_LOCATION_CAPS_OUTDOOR_TRIP_BATCHING_BIT, hal ''LOCATION_CAPABILITIES_OUTDOOR_TRIP_BATCHING_BIT''),
      (PB_LOCATION_CAPS_GNSS_MEASUREMENTS_BIT, hal ''LOCATION_CAPABILITIES_GNSS_MEASUREMENTS_BIT''),
      (PB_LOCATION_CAPS_CONSTELLATION_ENABLEMENT_BIT, hal ''LOCATION_CAPABILITIES_CONSTELLATION_ENABLEMENT_BIT''),
      (PB_LOCATION_CAPS_QWES_CARRIER_PHASE_BIT, hal ''LOCATION_CAPABILITIES_QWES_CARRIER_PHASE_BIT''),
      (PB_LOCATION_CAPS_QWES_SV_POLYNOMIAL_BIT, hal ''LOCATION_CAPABILITIES_QWES_SV_POLYNOMIAL_BIT''),
      (PB_LOCATION_CAPS_QWES_GNSS_SINGLE_FREQUENCY, hal ''LOCATION_CAPABILITIES_QWES_GNSS_SINGLE_FREQUENCY''),
      (PB_LOCATION_CAPS_QWES_GNSS_MULTI_FREQUENCY, hal ''LOCATION_CAPABILITIES_QWES_GNSS_MULTI_FREQUENCY''),
      (PB_LOCATION_CAPS_QWES_VPE, hal ''LOCATION_CAPABILITIES_QWES_VPE''),
      (PB_LOCATION_CAPS_QWES_CV2X_LOCATION_BASIC, hal ''LOCATION_CAPABILITIES_QWES_CV2X_LOCATION_BASIC''),
      (PB_LOCATION_CAPS_QWES_CV2X_LOCATION_PREMIUM, hal ''LOCATION_CAPABILITIES_QWES_CV2X_LOCATION_PREMIUM''),
      (PB_LOCATION_CAPS_QWES_PPE, hal ''LOCATION_CAPABILITIES_QWES_PPE''),
      (PB_LOCATION_CAPS_QWES_QDR2, hal ''LOCATION_CAPABILITIES_QWES_QDR2''),
      (PB_LOCATION_CAPS_QWES_QDR3, hal ''LOCATION_CAPABILITIES_QWES_QDR3''),
      (PB_LOCATION_CAPS_QWES_DGNSS, hal ''LOCATION_CAPABILITIES_QWES_DGNSS''),
      (PB_LOCATION_CAPS_ANTENNA_INFO, hal ''LOCATION_CAPABILITIES_ANTENNA_INFO''),
      (PB_LOCATION_CAPABILITIES_GNSS_MSB_BIT, hal ''LOCATION_CAPABILITIES_GNSS_MSB_BIT''),
      (PB_LOCATION_CAPABILITIES_GNSS_MSA_BIT, hal ''LOCATION_CAPABILITIES_GNSS_MSA_BIT''),
      (PB_LOCATION_CAPABILITIES_DEBUG_DATA_BIT, hal ''LOCATION_CAPABILITIES_DEBUG_DATA_BIT''),
      (PB_LOCATION_CAPABILITIES_AGPM_BIT, hal ''LOCATION_CAPABILITIES_AGPM_BIT''),
      (PB_LOCATION_CAPABILITIES_PRIVACY_BIT, hal ''LOCATION_CAPABILITIES_PRIVACY_BIT''),
      (PB_LOCATION_CAPABILITIES_MEASUREMENTS_CORRECTION_BIT, hal ''LOCATION_CAPABILITIES_MEASUREMENTS_CORRECTION_BIT''),
      (PB_LOCATION_CAPABILITIES_CONFORMITY_INDEX_BIT, hal ''LOCATION_CAPABILITIES_CONFORMITY_INDEX_BIT''),
      (PB_LOCATION_CAPABILITIES_EDGNSS_BIT, hal ''LOCATION_CAPABILITIES_EDGNSS_BIT''),
      (PB_LOCATION_CAPABILITIES_QWES_SV_EPHEMERIS_BIT, hal ''LOCATION_CAPABILITIES_QWES_SV_EPHEMERIS_BIT''),
      (PB_LOCATION_CAPABILITIES_QWES_NLOS_ML20, hal ''LOCATION_CAPABILITIES_NLOS_ML20'')]
     pbLocCapabMask"

definition getLocationCallbacksMaskFromPB :: "hal_values \<Rightarrow> 32 word \<Rightarrow> 32 word" where
  "getLocationCallbacksMaskFromPB hal pbLocCbMask = copy_flags
     [(PB_E_LOC_CB_TRACKING_BIT, E_LOC_CB_TRACKING_BIT),
      (PB_E_LOC_CB_GNSS_LOCATION_INFO_BIT, E_LOC_CB_GNSS_LOCATION_INFO_BIT),
      (PB_E_LOC_CB_GNSS_SV_BIT, E_LOC_CB_GNSS_SV_BIT),
      (PB_E_LOC_CB_GNSS_NMEA_BIT, E_LOC_CB_GNSS_NMEA_BIT),
      (PB_E_LOC_CB_GNSS_DATA_BIT, E_LOC_CB_GNSS_DATA_BIT),
      (PB_E_LOC_CB_SYSTEM_INFO_BIT, E_LOC_CB_SYSTEM_INFO_BIT),
      (PB_E_LOC_CB_BATCHING_BIT, E_LOC_CB_BATCHING_BIT),
      (PB_E_LOC_CB_BATCHING_STATUS_BIT, E_LOC_CB_BATCHING_STATUS_BIT),
      (PB_E_LOC_CB_GEOFENCE_BREACH_BIT, E_LOC_CB_GEOFENCE_BREACH_BIT),
      (PB_E_LOC_CB_ENGINE_LOCATIONS_INFO_BIT, E_LOC_CB_ENGINE_LOCATIONS_INFO_BIT),
      (PB_E_LOC_CB_SIMPLE_LOCATION_INFO_BIT, E_LOC_CB_SIMPLE_LOCATION_INFO_BIT),
      (PB_E_LOC_CB_GNSS_MEAS_BIT, E_LOC_CB_GNSS_MEAS_BIT),
      (PB_E_LOC_CB_GNSS_NHZ_MEAS_BIT, E_LOC_CB_GNSS_NHZ_MEAS_BIT),
      (PB_E_LOC_CB_GNSS_DC_REPORT_BIT, E_LOC_CB_GNSS_DC_REPORT_BIT),
      (PB_E_LOC_CB_ENGINE_NMEA_BIT, E_LOC_CB_ENGINE_NMEA_BIT),
      (PB_E_LOC_CB_GNSS_EPH_BIT, E_LOC_CB_GNSS_EPH_BIT)]
     pbLocCbMask"

definition getLeverArmTypeMaskFromPB :: "hal_values \<Rightarrow> 32 word \<Rightarrow> 32 word" where
  "getLeverArmTypeMaskFromPB hal pbLeverTypeMask = copy_flags
     [(PB_LEVER_ARM_TYPE_GNSS_TO_VRP_BIT, hal ''LEVER_ARM_TYPE_GNSS_TO_VRP_BIT''),
      (PB_LEVER_ARM_TYPE_DR_IMU_TO_GNSS_BIT, hal ''LEVER_ARM_TYPE_DR_IMU_TO_GNSS_BIT''),
      (PB_LEVER_ARM_TYPE_VEPP_IMU_TO_GNSS_BIT, hal ''LEVER_ARM_TYPE_VEPP_IMU_TO_GNSS_BIT'')]
     pbLeverTypeMask"

definition getEnumForPBPositioningEngineMask :: "hal_values \<Rightarrow> 32 word \<Rightarrow> 32 word" where
  "getEnumForPBPositioningEngineMask hal pbPosEngMask = copy_flags
     [(PB_STANDARD_POSITIONING_ENGINE, hal ''STANDARD_POSITIONING_ENGINE''),
      (PB_PRECISE_POSITIONING_ENGINE, hal ''PRECISE_POSITIONING_ENGINE''),
      (PB_DEAD_RECKONING_ENGINE, hal ''DEAD_RECKONING_ENGINE'')]
     pbPosEngMask"

definition getGnssSvTypesMaskFromPB :: "hal_values \<Rightarrow> 64 word \<Rightarrow> 64 word" where
  "getGnssSvTypesMaskFromPB hal pbGnssSvTypesMask = copy_flags
     [(PB_GNSS_SV_TYPES_MASK_GLO_BIT, hal ''GNSS_SV_TYPES_MASK_GLO_BIT''),
      (PB_GNSS_SV_TYPES_MASK_BDS_BIT, hal ''GNSS_SV_TYPES_MASK_BDS_BIT''),
      (PB_GNSS_SV_TYPES_MASK_QZSS_BIT, hal ''GNSS_SV_TYPES_MASK_QZSS_BIT''),
      (PB_GNSS_SV_TYPES_MASK_GAL_BIT, hal ''GNSS_SV_TYPES_MASK_GAL_BIT''),
      (PB_GNSS_SV_TYPES_MASK_NAVIC_BIT, hal ''GNSS_SV_TYPES_MASK_NAVIC_BIT''),
      (PB_GNSS_SV_TYPES_MASK_GPS_BIT, hal ''GNSS_SV_TYPES_MASK_GPS_BIT'')]
     pbGnssSvTypesMask"

definition getGnssAidingDataSvMaskFromPB :: "hal_values \<Rightarrow> 32 word \<Rightarrow> 32 word" where
  "getGnssAidingDataSvMaskFromPB hal pbGnssAidDataSvMask = copy_flags
     [(PB_AIDING_DATA_SV_EPHEMERIS_BIT, hal ''GNSS_AIDING_DATA_SV_EPHEMERIS_BIT'')]
     pbGnssAidDataSvMask"

definition getLocReqEngineTypeMaskFromPB :: "hal_values \<Rightarrow> 32 word \<Rightarrow> 32 word" where
  "getLocReqEngineTypeMaskFromPB hal pbLocReqEngTypeMask = copy_flags
     [(PB_LOC_REQ_ENGINE_FUSED_BIT, hal ''LOC_REQ_ENGINE_FUSED_BIT''),
      (PB_LOC_REQ_ENGINE_SPE_BIT, hal ''LOC_REQ_ENGINE_SPE_BIT''),
      (PB_LOC_REQ_ENGINE_PPE_BIT, hal ''LOC_REQ_ENGINE_PPE_BIT'')]
     pbLocReqEngTypeMask"

definition getLocationSystemInfoMaskFromPB :: "hal_values \<Rightarrow> 32 word \<Rightarrow> 32 word" where
  "getLocationSystemInfoMaskFromPB hal pbLocSysInfoMask = copy_flags
     [(PB_LOCATION_SYS_INFO_LEAP_SECOND, hal ''LOCATION_SYS_INFO_LEAP_SECOND'')]
     pbLocSysInfoMask"

definition getGnssDataMaskFromPB :: "hal_values \<Rightarrow> 64 word \<Rightarrow> 64 word" where
  "getGnssDataMaskFromPB hal pbGnssDataMask = copy_flags
     [(PB_GNSS_LOC_DATA_JAMMER_IND_BIT, hal ''GNSS_LOC_DATA_JAMMER_IND_BIT''),
      (PB_GNSS_LOC_DATA_AGC_BIT, hal ''GNSS_LOC_DATA_AGC_BIT'')]
     pbGnssDataMask"

definition getLeapSecSysInfoMaskFromPB :: "hal_values \<Rightarrow> 32 word \<Rightarrow> 32 word" where
  "getLeapSecSysInfoMaskFromPB hal pbLeapSecSysInfoMask = copy_flags
     [
      (PB_LEAP_SECOND_SYS_INFO_CURRENT_LEAP_SECONDS_BIT, hal ''LEAP_SECOND_SYS_INFO_CURRENT_LEAP_SECONDS_BIT''),
      (PB_LEAP_SECOND_SYS_INFO_LEAP_SECOND_CHANGE_BIT, hal ''LEAP_SECOND_SYS_INFO_LEAP_SECOND_CHANGE_BIT'')]
     pbLeapSecSysInfoMask"

definition getGnssSystemTimeStructTypeFlagsFromPB :: "hal_values \<Rightarrow> 32 word \<Rightarrow> 32 word" where
  "getGnssSystemTimeStructTypeFlagsFromPB hal pbGnssSysTimeStrctType = copy_flags
     [(PB_GNSS_SYSTEM_TIME_WEEK_VALID, hal ''GNSS_SYSTEM_TIME_WEEK_VALID''),
      (PB_GNSS_SYSTEM_TIME_WEEK_MS_VALID, hal ''GNSS_SYSTEM_TIME_WEEK_MS_VALID''),
      (PB_GNSS_SYSTEM_CLK_TIME_BIAS_VALID, hal ''GNSS_SYSTEM_CLK_TIME_BIAS_VALID''),
      (PB_GNSS_SYSTEM_CLK_TIME_BIAS_UNC_VALID, hal ''GNSS_SYSTEM_CLK_TIME_BIAS_UNC_VALID''),
      (PB_GNSS_SYSTEM_REF_FCOUNT_VALID, hal ''GNSS_SYSTEM_REF_FCOUNT_VALID''),
      (PB_GNSS_SYSTEM_NUM_CLOCK_RESETS_VALID, hal ''GNSS_SYSTEM_NUM_CLOCK_RESETS_VALID'')]
     pbGnssSysTimeStrctType"

definition getGnssSignalTypeMaskFromPB :: "hal_values \<Rightarrow> 32 word \<Rightarrow> 32 word" where
  "getGnssSignalTypeMaskFromPB hal pbGnssSignalTypeMask = copy_flags
     [(PB_GNSS_SIGNAL_GPS_L1CA_BIT, hal ''GNSS_SIGNAL_GPS_L1CA''),
      (PB_GNSS_SIGNAL_GPS_L1C_BIT, hal ''GNSS_SIGNAL_GPS_L1C''),
      (PB_GNSS_SIGNAL_GPS_L2_BIT, hal ''GNSS_SIGNAL_GPS_L2''),
      (PB_GNSS_SIGNAL_GPS_L5_BIT, hal ''GNSS_SIGNAL_GPS_L5''),
      (PB_GNSS_SIGNAL_GLONASS_G1_BIT, hal ''GNSS_SIGNAL_GLONASS_G1''),
      (PB_GNSS_SIGNAL_GLONASS_G2_BIT, hal ''GNSS_SIGNAL_GLONASS_G2''),
      (PB_GNSS_SIGNAL_GALILEO_E1_BIT, hal ''GNSS_SIGNAL_GALILEO_E1''),
      (PB_GNSS_SIGNAL_GALILEO_E5A_BIT, hal ''GNSS_SIGNAL_GALILEO_E5A''),
      (PB_GNSS_SIGNAL_GALILEO_E5B_BIT, hal ''GNSS_SIGNAL_GALILEO_E5B''),
      (PB_GNSS_SIGNAL_BEIDOU_B1_BIT, hal ''GNSS_SIGNAL_BEIDOU_B1''),
      (PB_GNSS_SIGNAL_BEIDOU_B2_BIT, hal ''GNSS_SIGNAL_BEIDOU_B2''),
      (PB_GNSS_SIGNAL_QZSS_L1CA_BIT, hal ''GNSS_SIGNAL_QZSS_L1CA''),
      (PB_GNSS_SIGNAL_QZSS_L1S_BIT, hal ''GNSS_SIGNAL_QZSS_L1S''),
      (PB_GNSS_SIGNAL_QZSS_L2_BIT, hal ''GNSS_SIGNAL_QZSS_L2''),
      (PB_GNSS_SIGNAL_QZSS_L5_BIT, hal ''GNSS_SIGNAL_QZSS_L5''),
      (PB_GNSS_SIGNAL_SBAS_L1_BIT, hal ''GNSS_SIGNAL_SBAS_L1''),
      (PB_GNSS_SIGNAL_BEIDOU_B1I_BIT, hal ''GNSS_SIGNAL_BEIDOU_B1I''),
      (PB_GNSS_SIGNAL_BEIDOU_B1C_BIT, hal ''GNSS_SIGNAL_BEIDOU_B1C''),
      (PB_GNSS_SIGNAL_BEIDOU_B2I_BIT, hal ''GNSS_SIGNAL_BEIDOU_B2I''),
      (PB_GNSS_SIGNAL_BEIDOU_B2AI_BIT, hal ''GNSS_SIGNAL_BEIDOU_B2AI''),
      (PB_GNSS_SIGNAL_NAVIC_L5_BIT, hal ''GNSS_SIGNAL_NAVIC_L5''),
      (PB_GNSS_SIGNAL_BEIDOU_B2AQ_BIT, hal ''GNSS_SIGNAL_BEIDOU_B2AQ''),
      (PB_GNSS_SIGNAL_BEIDOU_B2BI_BIT, hal ''GNSS_SIGNAL_BEIDOU_B2BI''),
      (PB_GNSS_SIGNAL_BEIDOU_B2BQ_BIT, hal ''GNSS_SIGNAL_BEIDOU_B2BQ''),
      (PB_GNSS_SIGNAL_NAVIC_L1_BIT, hal ''GNSS_SIGNAL_NAVIC_L1'')]
     pbGnssSignalTypeMask"

definition getGnssSvOptionsMaskFromPB :: "hal_values \<Rightarrow> 32 word \<Rightarrow> 32 word" where
  "getGnssSvOptionsMaskFromPB hal pbGnssSvOptMask = copy_flags
     [(PB_GNSS_SV_OPTIONS_HAS_EPHEMER_BIT, hal ''GNSS_SV_OPTIONS_HAS_EPHEMER_BIT''),
      (PB_GNSS_SV_OPTIONS_HAS_ALMANAC_BIT, hal ''GNSS_SV_OPTIONS_HAS_ALMANAC_BIT''),
      (PB_GNSS_SV_OPTIONS_USED_IN_FIX_BIT, hal ''GNSS_SV_OPTIONS_USED_IN_FIX_BIT''),
      (PB_GNSS_SV_OPTIONS_HAS_CARRIER_FREQUENCY_BIT, hal ''GNSS_SV_OPTIONS_HAS_CARRIER_FREQUENCY_BIT''),
      (PB_GNSS_SV_OPTIONS_HAS_GNSS_SIGNAL_TYPE_BIT, hal ''GNSS_SV_OPTIONS_HAS_GNSS_SIGNAL_TYPE_BIT''),
      (PB_GNSS_SV_OPTIONS_HAS_BASEBAND_CARRIER_TO_NOISE_BIT, hal ''GNSS_SV_OPTIONS_HAS_BASEBAND_CARRIER_TO_NOISE_BIT''),
      (PB_GNSS_SV_OPTIONS_HAS_ELEVATION_BIT, hal ''GNSS_SV_OPTIONS_HAS_ELEVATION_BIT''),
      (PB_GNSS_SV_OPTIONS_HAS_AZIMUTH_BIT, hal ''GNSS_SV_OPTIONS_HAS_AZIMUTH_BIT'')]
     pbGnssSvOptMask"

definition getGfBreachTypeMaskFromPB :: "hal_values \<Rightarrow> 32 word \<Rightarrow> 32 word" where
  "getGfBreachTypeMaskFromPB hal pbGfBreackTypMask = copy_flags
     [(PB_GEOFENCE_BREACH_ENTER_BIT, hal ''GEOFENCE_BREACH_ENTER_BIT''),
      (PB_GEOFENCE_BREACH_EXIT_BIT, hal ''GEOFENCE_BREACH_EXIT_BIT''),
      (PB_GEOFENCE_BREACH_DWELL_IN_BIT, hal ''GEOFENCE_BREACH_DWELL_IN_BIT''),
      (PB_GEOFENCE_BREACH_DWELL_OUT_BIT, hal ''GEOFENCE_BREACH_DWELL_OUT_BIT'')]
     pbGfBreackTypMask"

definition getLocationFlagsMaskFromPB :: "hal_values \<Rightarrow> 32 word \<Rightarrow> 32 word" where
  "getLocationFlagsMaskFromPB hal pbLocFlagsMask = copy_flags
     [(PB_LOCATION_HAS_LAT_LONG_BIT, hal ''LOCATION_HAS_LAT_LONG_BIT''),
      (PB_LOCATION_HAS_ALTITUDE_BIT, hal ''LOCATION_HAS_ALTITUDE_BIT''),
      (PB_LOCATION_HAS_SPEED_BIT, hal ''LOCATION_HAS_SPEED_BIT''),
      (PB_LOCATION_HAS_BEARING_BIT, hal ''LOCATION_HAS_BEARING_BIT''),
      (PB_LOCATION_HAS_ACCURACY_BIT, hal ''LOCATION_HAS_ACCURACY_BIT''),
      (PB_LOCATION_HAS_VERTICAL_ACCURACY_BIT, hal ''LOCATION_HAS_VERTICAL_ACCURACY_BIT''),
      (PB_LOCATION_HAS_SPEED_ACCURACY_BIT, hal ''LOCATION_HAS_SPEED_ACCURACY_BIT''),
      (PB_LOCATION_HAS_BEARING_ACCURACY_BIT, hal ''LOCATION_HAS_BEARING_ACCURACY_BIT''),
      (PB_LOCATION_HAS_ELAPSED_REAL_TIME_BIT, hal ''LOCATION_HAS_ELAPSED_REAL_TIME_BIT''),
      (PB_LOCATION_HAS_TIME_UNC_BIT, hal ''LOCATION_HAS_TIME_UNC_BIT''),
      (PB_LOCATION_HAS_GPTP_TIME_BIT, hal ''LOCATION_HAS_GPTP_TIME_BIT''),
      (PB_LOCATION_HAS_GPTP_TIME_UNC_BIT, hal ''LOCATION_HAS_GPTP_TIME_UNC_BIT''),
      (PB_LOCATION_HAS_SESSION_STATUS_BIT, hal ''LOCATION_HAS_SESSION_STATUS_BIT'')]
     pbLocFlagsMask"

definition getLocationTechnologyMaskFromPB :: "hal_values \<Rightarrow> 32 word \<Rightarrow> 32 word" where
  "getLocationTechnologyMaskFromPB hal pbLocTechMask = copy_flags
     [(PB_LOCATION_TECHNOLOGY_GNSS_BIT, hal ''LOCATION_TECHNOLOGY_GNSS_BIT''),
      (PB_LOCATION_TECHNOLOGY_CELL_BIT, hal ''LOCATION_TECHNOLOGY_CELL_BIT''),
      (PB_LOCATION_TECHNOLOGY_WIFI_BIT, hal ''LOCATION_TECHNOLOGY_WIFI_BIT''),
      (PB_LOCATION_TECHNOLOGY_SENSORS_BIT, hal ''LOCATION_TECHNOLOGY_SENSORS_BIT''),
      (PB_LOCATION_TECHNOLOGY_REFERENCE_LOCATION_BIT, hal ''LOCATION_TECHNOLOGY_REFERENCE_LOCATION_BIT''),
      (PB_LOCATION_TECHNOLOGY_INJECTED_COARSE_POSITION_BIT, hal ''LOCATION_TECHNOLOGY_INJECTED_COARSE_POSITION_BIT''),
      (PB_LOCATION_TECHNOLOGY_AFLT_BIT, hal ''LOCATION_TECHNOLOGY_AFLT_BIT''),
      (PB_LOCATION_TECHNOLOGY_HYBRID_BIT, hal ''LOCATION_TECHNOLOGY_HYBRID_BIT''),
      (PB_LOCATION_TECHNOLOGY_PPE_BIT, hal ''LOCATION_TECHNOLOGY_PPE_BIT''),
      (PB_LOCATION_TECHNOLOGY_VEH_BIT, hal ''LOCATION_TECHNOLOGY_VEH_BIT''),
      (PB_LOCATION_TECHNOLOGY_VIS_BIT, hal ''LOCATION_TECHNOLOGY_VIS_BIT''),
      (PB_LOCATION_TECHNOLOGY_PROPAGATED_BIT, hal ''LOCATION_TECHNOLOGY_PROPAGATED_BIT'')]
     pbLocTechMask"

definition getGnssMeasurementsClockFlagsMaskFromPB :: "hal_values \<Rightarrow> 32 word \<Rightarrow> 32 word" where
  "getGnssMeasurementsClockFlagsMaskFromPB hal pbGnssMeasClockFlgMask = copy_flags
     [
      (PB_GNSS_MEASUREMENTS_CLOCK_FLAGS_LEAP_SECOND_BIT, hal ''GNSS_MEASUREMENTS_CLOCK_FLAGS_LEAP_SECOND_BIT''),
      (PB_GNSS_MEASUREMENTS_CLOCK_FLAGS_TIME_BIT, hal ''GNSS_MEASUREMENTS_CLOCK_FLAGS_TIME_BIT''),
      (PB_GNSS_MEASUREMENTS_CLOCK_FLAGS_TIME_UNCERTAINTY_BIT, hal ''GNSS_MEASUREMENTS_CLOCK_FLAGS_TIME_UNCERTAINTY_BIT''),
      (PB_GNSS_MEASUREMENTS_CLOCK_FLAGS_FULL_BIAS_BIT, hal ''GNSS_MEASUREMENTS_CLOCK_FLAGS_FULL_BIAS_BIT''),
      (PB_GNSS_MEASUREMENTS_CLOCK_FLAGS_BIAS_BIT, hal ''GNSS_MEASUREMENTS_CLOCK_FLAGS_BIAS_BIT''),
      (PB_GNSS_MEASUREMENTS_CLOCK_FLAGS_BIAS_UNCERTAINTY_BIT, hal ''GNSS_MEASUREMENTS_CLOCK_FLAGS_BIAS_UNCERTAINTY_BIT''),
      (PB_GNSS_MEASUREMENTS_CLOCK_FLAGS_DRIFT_BIT, hal ''GNSS_MEASUREMENTS_CLOCK_FLAGS_DRIFT_BIT''),
      (PB_GNSS_MEASUREMENTS_CLOCK_FLAGS_DRIFT_UNCERTAINTY_BIT, hal ''GNSS_MEASUREMENTS_CLOCK_FLAGS_DRIFT_UNCERTAINTY_BIT''),
      (PB_GNSS_MEASUREMENTS_CLOCK_FLAGS_HW_CLOCK_DISCONTINUITY_COUNT_BIT, hal ''GNSS_MEASUREMENTS_CLOCK_FLAGS_HW_CLOCK_DISCONTINUITY_COUNT_BIT''),
      (PB_GNSS_MEASUREMENTS_CLOCK_FLAGS_ELAPSED_REAL_TIME_BIT, hal ''GNSS_MEASUREMENTS_CLOCK_FLAGS_ELAPSED_REAL_TIME_BIT''),
      (PB_GNSS_MEASUREMENTS_CLOCK_FLAGS_ELAPSED_REAL_TIME_UNC_BIT, hal ''GNSS_MEASUREMENTS_CLOCK_FLAGS_ELAPSED_REAL_TIME_UNC_BIT''),
      (PB_GNSS_MEASUREMENTS_CLOCK_FLAGS_ELAPSED_GPTP_TIME_BIT, hal ''GNSS_MEASUREMENTS_CLOCK_FLAGS_ELAPSED_GPTP_TIME_BIT''),
      (PB_GNSS_MEASUREMENTS_CLOCK_FLAGS_ELAPSED_GPTP_TIME_UNC_BIT, hal ''GNSS_MEASUREMENTS_CLOCK_FLAGS_ELAPSED_GPTP_TIME_UNC_BIT'')]
     pbGnssMeasClockFlgMask"

definition getGnssMeasurementsDataFlagsMaskFromPB :: "hal_values \<Rightarrow> 32 word \<Rightarrow> 32 word" where
  "getGnssMeasurementsDataFlagsMaskFromPB hal pbGnssMeasDataFlgMask = copy_flags
     [(PB_GNSS_MEASUREMENTS_DATA_SV_ID_BIT, hal ''GNSS_MEASUREMENTS_DATA_SV_ID_BIT''),
      (PB_GNSS_MEASUREMENTS_DATA_SV_TYPE_BIT, hal ''GNSS_MEASUREMENTS_DATA_SV_TYPE_BIT''),
      (PB_GNSS_MEASUREMENTS_DATA_STATE_BIT, hal ''GNSS_MEASUREMENTS_DATA_STATE_BIT''),
      (PB_GNSS_MEASUREMENTS_DATA_RECEIVED_SV_TIME_BIT, hal ''GNSS_MEASUREMENTS_DATA_RECEIVED_SV_TIME_BIT''),
      (PB_GNSS_MEASUREMENTS_DATA_RECEIVED_SV_TIME_UNCERTAINTY_BIT, hal ''GNSS_MEASUREMENTS_DATA_RECEIVED_SV_TIME_UNCERTAINTY_BIT''),
      (PB_GNSS_MEASUREMENTS_DATA_CARRIER_TO_NOISE_BIT, hal ''GNSS_MEASUREMENTS_DATA_CARRIER_TO_NOISE_BIT''),
      (PB_GNSS_MEASUREMENTS_DATA_PSEUDORANGE_RATE_BIT, hal ''GNSS_MEASUREMENTS_DATA_PSEUDORANGE_RATE_BIT''),
      (PB_GNSS_MEASUREMENTS_DATA_PSEUDORANGE_RATE_UNCERTAINTY_BIT, hal ''GNSS_MEASUREMENTS_DATA_PSEUDORANGE_RATE_UNCERTAINTY_BIT''),
      (PB_GNSS_MEASUREMENTS_DATA_ADR_STATE_BIT, hal ''GNSS_MEASUREMENTS_DATA_ADR_STATE_BIT''),
      (PB_GNSS_MEASUREMENTS_DATA_ADR_BIT, hal ''GNSS_MEASUREMENTS_DATA_ADR_BIT''),
      (PB_GNSS_MEASUREMENTS_DATA_ADR_UNCERTAINTY_BIT, hal ''GNSS_MEASUREMENTS_DATA_ADR_UNCERTAINTY_BIT''),
      (PB_GNSS_MEASUREMENTS_DATA_CARRIER_FREQUENCY_BIT, hal ''GNSS_MEASUREMENTS_DATA_CARRIER_FREQUENCY_BIT''),
      (PB_GNSS_MEASUREMENTS_DATA_CARRIER_CYCLES_BIT, hal ''GNSS_MEASUREMENTS_DATA_CARRIER_CYCLES_BIT''),
      (PB_GNSS_MEASUREMENTS_DATA_CARRIER_PHASE_BIT, hal ''GNSS_MEASUREMENTS_DATA_CARRIER_PHASE_BIT''),
      (PB_GNSS_MEASUREMENTS_DATA_CARRIER_PHASE_UNCERTAINTY_BIT, hal ''GNSS_MEASUREMENTS_DATA_CARRIER_PHASE_UNCERTAINTY_BIT''),
      (PB_GNSS_MEASUREMENTS_DATA_MULTIPATH_INDICATOR_BIT, hal ''GNSS_MEASUREMENTS_DATA_MULTIPATH_INDICATOR_BIT''),
      (PB_GNSS_MEASUREMENTS_DATA_SIGNAL_TO_NOISE_RATIO_BIT, hal ''GNSS_MEASUREMENTS_DATA_SIGNAL_TO_NOISE_RATIO_BIT''),
      (PB_GNSS_MEASUREMENTS_DATA_AUTOMATIC_GAIN_CONTROL_BIT, hal ''GNSS_MEASUREMENTS_DATA_AUTOMATIC_GAIN_CONTROL_BIT''),
      (PB_GNSS_MEASUREMENTS_DATA_FULL_ISB_BIT, hal ''GNSS_MEASUREMENTS_DATA_FULL_ISB_BIT''),
      (PB_GNSS_MEASUREMENTS_DATA_FULL_ISB_UNCERTAINTY_BIT, hal ''GNSS_MEASUREMENTS_DATA_FULL_ISB_UNCERTAINTY_BIT''),
      (PB_GNSS_MEASUREMENTS_DATA_CYCLE_SLIP_COUNT_BIT, hal ''GNSS_MEASUREMENTS_DATA_CYCLE_SLIP_COUNT_BIT''),
      (PB_GNSS_MEASUREMENTS_DATA_GNSS_SIGNAL_TYPE_BIT, hal ''GNSS_MEASUREMENTS_DATA_GNSS_SIGNAL_TYPE_BIT''),
      (PB_GNSS_MEASUREMENTS_DATA_BASEBAND_CARRIER_TO_NOISE_BIT, hal ''GNSS_MEASUREMENTS_DATA_BASEBAND_CARRIER_TO_NOISE_BIT''),
      (PB_GNSS_MEASUREMENTS_DATA_MEAS_CODE_TYPE_BIT, hal ''GNSS_MEASUREMENTS_DATA_MEAS_CODE_TYPE_BIT''),
      (PB_GNSS_MEASUREMENTS_DATA_OTHER_MEAS_CODE_TYPE_BIT, hal ''GNSS_MEASUREMENTS_DATA_OTHER_MEAS_CODE_TYPE_BIT'')]
     pbGnssMeasDataFlgMask"

definition getGnssMeasurementsAdrStateMaskFromPB :: "hal_values \<Rightarrow> 32 word \<Rightarrow> 32 word" where
  "getGnssMeasurementsAdrStateMaskFromPB hal pbGnssMeasAdrStateMask = copy_flags
     [
      (PB_GNSS_MEASUREMENTS_ACCUMULATED_DELTA_RANGE_STATE_VALID_BIT, hal ''GNSS_MEASUREMENTS_ACCUMULATED_DELTA_RANGE_STATE_VALID_BIT''),
      (PB_GNSS_MEASUREMENTS_ACCUMULATED_DELTA_RANGE_STATE_RESET_BIT, hal ''GNSS_MEASUREMENTS_ACCUMULATED_DELTA_RANGE_STATE_RESET_BIT''),
      (PB_GNSS_MEASUREMENTS_ACCUMULATED_DELTA_RANGE_STATE_CYCLE_SLIP_BIT, hal ''GNSS_MEASUREMENTS_ACCUMULATED_DELTA_RANGE_STATE_CYCLE_SLIP_BIT''),
      (PB_GNSS_MEASUREMENTS_ACCUMULATED_DELTA_RANGE_STATE_HALF_CYCLE_RESOLVED_BIT, hal ''GNSS_MEASUREMENTS_ACCUMULATED_DELTA_RANGE_STATE_HALF_CYCLE_RESOLVED_BIT'')]
     pbGnssMeasAdrStateMask"

definition getGnssLocationInfoFlagMaskFromPB :: "hal_values \<Rightarrow> 32 word \<Rightarrow> 32 word \<Rightarrow> 64 word" where
  "getGnssLocationInfoFlagMaskFromPB hal pbGnssLocInfoFlagMask pbGnssLocInfoExtFlagMask = copy_flags_to (copy_flags
     [
      (PB_GNSS_LOCATION_INFO_ALTITUDE_MEAN_SEA_LEVEL_BIT, hal ''LDT_GNSS_LOCATION_INFO_ALTITUDE_MEAN_SEA_LEVEL_BIT''),
      (PB_GNSS_LOCATION_INFO_DOP_BIT, hal ''LDT_GNSS_LOCATION_INFO_DOP_BIT''),
      (PB_GNSS_LOCATION_INFO_MAGNETIC_DEVIATION_BIT, hal ''LDT_GNSS_LOCATION_INFO_MAGNETIC_DEVIATION_BIT''),
      (PB_GNSS_LOCATION_INFO_HOR_RELIABILITY_BIT, hal ''LDT_GNSS_LOCATION_INFO_HOR_RELIABILITY_BIT''),
      (PB_GNSS_LOCATION_INFO_VER_RELIABILITY_BIT, hal ''LDT_GNSS_LOCATION_INFO_VER_RELIABILITY_BIT''),
      (PB_GNSS_LOCATION_INFO_HOR_ACCURACY_ELIP_SEMI_MAJOR_BIT, hal ''LDT_GNSS_LOCATION_INFO_HOR_ACCURACY_ELIP_SEMI_MAJOR_BIT''),
      (PB_GNSS_LOCATION_INFO_HOR_ACCURACY_ELIP_SEMI_MINOR_BIT, hal ''LDT_GNSS_LOCATION_INFO_HOR_ACCURACY_ELIP_SEMI_MINOR_BIT''),
      (PB_GNSS_LOCATION_INFO_HOR_ACCURACY_ELIP_AZIMUTH_BIT, hal ''LDT_GNSS_LOCATION_INFO_HOR_ACCURACY_ELIP_AZIMUTH_BIT''),
      (PB_GNSS_LOCATION_INFO_GNSS_SV_USED_DATA_BIT, hal ''LDT_GNSS_LOCATION_INFO_GNSS_SV_USED_DATA_BIT''),
      (PB_GNSS_LOCATION_INFO_NAV_SOLUTION_MASK_BIT, hal ''LDT_GNSS_LOCATION_INFO_NAV_SOLUTION_MASK_BIT''),
      (PB_GNSS_LOCATION_INFO_POS_DYNAMICS_DATA_BIT, hal ''LDT_GNSS_LOCATION_INFO_POS_DYNAMICS_DATA_BIT''),
      (PB_GNSS_LOCATION_INFO_EXT_DOP_BIT, hal ''LDT_GNSS_LOCATION_INFO_EXT_DOP_BIT''),
      (PB_GNSS_LOCATION_INFO_NORTH_STD_DEV_BIT, hal ''LDT_GNSS_LOCATION_INFO_NORTH_STD_DEV_BIT''),
      (PB_GNSS_LOCATION_INFO_EAST_STD_DEV_BIT, hal ''LDT_GNSS_LOCATION_INFO_EAST_STD_DEV_BIT''),
      (PB_GNSS_LOCATION_INFO_NORTH_VEL_BIT, hal ''LDT_GNSS_LOCATION_INFO_NORTH_VEL_BIT''),
      (PB_GNSS_LOCATION_INFO_EAST_VEL_BIT, hal ''LDT_GNSS_LOCATION_INFO_EAST_VEL_BIT''),
      (PB_GNSS_LOCATION_INFO_UP_VEL_BIT, hal ''LDT_GNSS_LOCATION_INFO_UP_VEL_BIT''),
      (PB_GNSS_LOCATION_INFO_NORTH_VEL_UNC_BIT, hal ''LDT_GNSS_LOCATION_INFO_NORTH_VEL_UNC_BIT''),
      (PB_GNSS_LOCATION_INFO_EAST_VEL_UNC_BIT, hal ''LDT_GNSS_LOCATION_INFO_EAST_VEL_UNC_BIT''),
      (PB_GNSS_LOCATION_INFO_UP_VEL_UNC_BIT, hal ''LDT_GNSS_LOCATION_INFO_UP_VEL_UNC_BIT''),
      (PB_GNSS_LOCATION_INFO_LEAP_SECONDS_BIT, hal ''LDT_GNSS_LOCATION_INFO_LEAP_SECONDS_BIT''),
      (PB_GNSS_LOCATION_INFO_NUM_SV_USED_IN_POSITION_BIT, hal ''LDT_GNSS_LOCATION_INFO_NUM_SV_USED_IN_POSITION_BIT''),
      (PB_GNSS_LOCATION_INFO_CALIBRATION_CONFIDENCE_PERCENT_BIT, hal ''LDT_GNSS_LOCATION_INFO_CALIBRATION_CONFIDENCE_BIT''),
      (PB_GNSS_LOCATION_INFO_CALIBRATION_STATUS_BIT, hal ''LDT_GNSS_LOCATION_INFO_CALIBRATION_STATUS_BIT''),
      (PB_GNSS_LOCATION_INFO_OUTPUT_ENG_TYPE_BIT, hal ''LDT_GNSS_LOCATION_INFO_OUTPUT_ENG_TYPE_BIT''),
      (PB_GNSS_LOCATION_INFO_OUTPUT_ENG_MASK_BIT, hal ''LDT_GNSS_LOCATION_INFO_OUTPUT_ENG_MASK_BIT''),
      (PB_GNSS_LOCATION_INFO_CONFORMITY_INDEX_BIT, hal ''LDT_GNSS_LOCATION_INFO_CONFORMITY_INDEX_BIT''),
      (PB_GNSS_LOCATION_INFO_LLA_VRP_BASED_BIT, hal ''LDT_GNSS_LOCATION_INFO_LLA_VRP_BASED_BIT''),
      (PB_GNSS_LOCATION_INFO_ENU_VELOCITY_VRP_BASED_BIT, hal ''LDT_GNSS_LOCATION_INFO_ENU_VELOCITY_VRP_BASED_BIT''),
      (PB_GNSS_LOCATION_INFO_DR_SOLUTION_STATUS_MASK_BIT, hal ''LDT_GNSS_LOCATION_INFO_DR_SOLUTION_STATUS_MASK_BIT'')]
     pbGnssLocInfoFlagMask)
     [(PB_GNSS_LOCATION_INFO_ALTITUDE_ASSUMED_BIT, hal ''LDT_GNSS_LOCATION_INFO_ALTITUDE_ASSUMED_BIT''),
      (PB_GNSS_LOCATION_INFO_SESSION_STATUS_BIT, hal ''LDT_GNSS_LOCATION_INFO_SESSION_STATUS_BIT''),
      (PB_GNSS_LOCATION_INFO_INTEGRITY_RISK_USED_BIT, hal ''LDT_GNSS_LOCATION_INFO_INTEGRITY_RISK_USED_BIT''),
      (PB_GNSS_LOCATION_INFO_PROTECT_ALONG_TRACK_BIT, hal ''LDT_GNSS_LOCATION_INFO_PROTECT_ALONG_TRACK_BIT''),
      (PB_GNSS_LOCATION_INFO_PROTECT_CROSS_TRACK_BIT, hal ''LDT_GNSS_LOCATION_INFO_PROTECT_CROSS_TRACK_BIT''),
      (PB_GNSS_LOCATION_INFO_PROTECT_VERTICAL_BIT, hal ''LDT_GNSS_LOCATION_INFO_PROTECT_VERTICAL_BIT''),
      (PB_GNSS_LOCATION_INFO_DGNSS_STATION_ID_MASK_BIT, hal ''LDT_GNSS_LOCATION_INFO_DGNSS_STATION_ID_BIT''),
      (PB_GNSS_LOCATION_INFO_BASE_LINE_LENGTH_BIT, hal ''LDT_GNSS_LOCATION_INFO_BASE_LINE_LENGTH_BIT''),
      (PB_GNSS_LOCATION_INFO_AGE_OF_CORRECTION_BIT, hal ''LDT_GNSS_LOCATION_INFO_AGE_OF_CORRECTION_BIT''),
      (PB_GNSS_LOCATION_INFO_LEAP_SECONDS_UNC_BIT, hal ''LDT_GNSS_LOCATION_INFO_LEAP_SECONDS_UNC_BIT''),
      (PB_GNSS_LOCATION_INFO_REPORT_INTERVAL_BIT, hal ''LDT_GNSS_LOCATION_INFO_REPORT_INTERVAL_BIT''),
      (PB_GNSS_LOCATION_INFO_EXTENDED_DATA_BIT, hal ''LDT_GNSS_LOCATION_INFO_EXTENDED_DATA_BIT'')]
     pbGnssLocInfoExtFlagMask"

definition getGnssLocationNavSolutionMaskFromPB :: "hal_values \<Rightarrow> 32 word \<Rightarrow> 32 word" where
  "getGnssLocationNavSolutionMaskFromPB hal pbGnssLocNavSoln = copy_flags
     [(PB_LOCATION_SBAS_CORRECTION_IONO_BIT, hal ''LOCATION_SBAS_CORRECTION_IONO_BIT''),
      (PB_LOCATION_SBAS_CORRECTION_FAST_BIT, hal ''LOCATION_SBAS_CORRECTION_FAST_BIT''),
      (PB_LOCATION_SBAS_CORRECTION_LONG_BIT, hal ''LOCATION_SBAS_CORRECTION_LONG_BIT''),
      (PB_LOCATION_SBAS_INTEGRITY_BIT, hal ''LOCATION_SBAS_INTEGRITY_BIT''),
      (PB_LOCATION_NAV_CORRECTION_DGNSS_BIT, hal ''LOCATION_NAV_CORRECTION_DGNSS_BIT''),
      (PB_LOCATION_NAV_CORRECTION_RTK_BIT, hal ''LOCATION_NAV_CORRECTION_RTK_BIT''),
      (PB_LOCATION_NAV_CORRECTION_PPP_BIT, hal ''LOCATION_NAV_CORRECTION_PPP_BIT''),
      (PB_LOCATION_NAV_CORRECTION_RTK_FIXED_BIT, hal ''LOCATION_NAV_CORRECTION_RTK_FIXED_BIT''),
      (PB_LOCATION_NAV_CORRECTION_ONLY_SBAS_CORRECTED_SV_USED_BIT, hal ''LOCATION_NAV_CORRECTION_ONLY_SBAS_CORRECTED_SV_USED_BIT''),
      (PB_LOCATION_NAV_MMF_AIDED_POSITION, hal ''LOCATION_NAV_MMF_AIDED_POSITION'')]
     pbGnssLocNavSoln"

definition getDrCalibrationStatusMaskFromPB :: "hal_values \<Rightarrow> 32 word \<Rightarrow> 32 word" where
  "getDrCalibrationStatusMaskFromPB hal pbDrCalibStatus = copy_flags
     [(PB_DR_ROLL_CALIBRATION_NEEDED, hal ''DR_ROLL_CALIBRATION_NEEDED''),
      (PB_DR_PITCH_CALIBRATION_NEEDED, hal ''DR_PITCH_CALIBRATION_NEEDED''),
      (PB_DR_YAW_CALIBRATION_NEEDED, hal ''DR_YAW_CALIBRATION_NEEDED''),
      (PB_DR_ODO_CALIBRATION_NEEDED, hal ''DR_ODO_CALIBRATION_NEEDED''),
      (PB_DR_GYRO_CALIBRATION_NEEDED, hal ''DR_GYRO_CALIBRATION_NEEDED''),
      (PB_DR_TURN_CALIBRATION_LOW, hal ''DR_TURN_CALIBRATION_LOW''),
      (PB_DR_TURN_CALIBRATION_MEDIUM, PB_DR_TURN_CALIBRATION_MEDIUM),
      (PB_DR_TURN_CALIBRATION_HIGH, PB_DR_TURN_CALIBRATION_HIGH),
      (PB_DR_LINEAR_ACCEL_CALIBRATION_LOW, hal ''DR_LINEAR_ACCEL_CALIBRATION_LOW''),
      (PB_DR_LINEAR_ACCEL_CALIBRATION_MEDIUM, PB_DR_LINEAR_ACCEL_CALIBRATION_MEDIUM),
      (PB_DR_LINEAR_ACCEL_CALIBRATION_HIGH, PB_DR_LINEAR_ACCEL_CALIBRATION_HIGH),
      (PB_DR_LINEAR_MOTION_CALIBRATION_LOW, hal ''DR_LINEAR_MOTION_CALIBRATION_LOW''),
      (PB_DR_LINEAR_MOTION_CALIBRATION_MEDIUM, PB_DR_LINEAR_MOTION_CALIBRATION_MEDIUM),
      (PB_DR_LINEAR_MOTION_CALIBRATION_HIGH, PB_DR_LINEAR_MOTION_CALIBRATION_HIGH),
      (PB_DR_STATIC_CALIBRATION_LOW, hal ''DR_STATIC_CALIBRATION_LOW''),
      (PB_DR_STATIC_CALIBRATION_MEDIUM, PB_DR_STATIC_CALIBRATION_MEDIUM),
      (PB_DR_STATIC_CALIBRATION_HIGH, PB_DR_STATIC_CALIBRATION_HIGH)]
     pbDrCalibStatus"

definition getGnssLocationPosDataMaskFromPB :: "hal_values \<Rightarrow> 32 word \<Rightarrow> 32 word" where
  "getGnssLocationPosDataMaskFromPB hal pbGnssLocPosDataMask = copy_flags
     [(PB_LOCATION_NAV_DATA_HAS_LONG_ACCEL_BIT, hal ''LOCATION_NAV_DATA_HAS_LONG_ACCEL_BIT''),
      (PB_LOCATION_NAV_DATA_HAS_LAT_ACCEL_BIT, hal ''LOCATION_NAV_DATA_HAS_LAT_ACCEL_BIT''),
      (PB_LOCATION_NAV_DATA_HAS_VERT_ACCEL_BIT, hal ''LOCATION_NAV_DATA_HAS_VERT_ACCEL_BIT''),
      (PB_LOCATION_NAV_DATA_HAS_YAW_RATE_BIT, hal ''LOCATION_NAV_DATA_HAS_YAW_RATE_BIT''),
      (PB_LOCATION_NAV_DATA_HAS_PITCH_BIT, hal ''LOCATION_NAV_DATA_HAS_PITCH_BIT''),
      (PB_LOCATION_NAV_DATA_HAS_LONG_ACCEL_UNC_BIT, hal ''LOCATION_NAV_DATA_HAS_LONG_ACCEL_UNC_BIT''),
      (PB_LOCATION_NAV_DATA_HAS_LAT_ACCEL_UNC_BIT, hal ''LOCATION_NAV_DATA_HAS_LAT_ACCEL_UNC_BIT''),
      (PB_LOCATION_NAV_DATA_HAS_VERT_ACCEL_UNC_BIT, hal ''LOCATION_NAV_DATA_HAS_VERT_ACCEL_UNC_BIT''),
      (PB_LOCATION_NAV_DATA_HAS_YAW_RATE_UNC_BIT, hal ''LOCATION_NAV_DATA_HAS_YAW_RATE_UNC_BIT''),
      (PB_LOCATION_NAV_DATA_HAS_PITCH_UNC_BIT, hal ''LOCATION_NAV_DATA_HAS_PITCH_UNC_BIT'')]
     pbGnssLocPosDataMask"

definition getGnssLocationPosDataMaskExtFromPB :: "hal_values \<Rightarrow> 32 word \<Rightarrow> 32 word" where
  "getGnssLocationPosDataMaskExtFromPB hal pbGnssLocPosDataMask = copy_flags
     [(PB_LOCATION_NAV_DATA_HAS_PITCH_RATE_BIT, hal ''LOCATION_NAV_DATA_HAS_PITCH_RATE_BIT''),
      (PB_LOCATION_NAV_DATA_HAS_PITCH_RATE_UNC_BIT, hal ''LOCATION_NAV_DATA_HAS_PITCH_RATE_UNC_BIT''),
      (PB_LOCATION_NAV_DATA_HAS_ROLL_BIT, hal ''LOCATION_NAV_DATA_HAS_ROLL_BIT''),
      (PB_LOCATION_NAV_DATA_HAS_ROLL_UNC_BIT, hal ''LOCATION_NAV_DATA_HAS_ROLL_UNC_BIT''),
      (PB_LOCATION_NAV_DATA_HAS_ROLL_RATE_BIT, hal ''LOCATION_NAV_DATA_HAS_ROLL_RATE_BIT''),
      (PB_LOCATION_NAV_DATA_HAS_ROLL_RATE_UNC_BIT, hal ''LOCATION_NAV_DATA_HAS_ROLL_RATE_UNC_BIT''),
      (PB_LOCATION_NAV_DATA_HAS_YAW_BIT, hal ''LOCATION_NAV_DATA_HAS_YAW_BIT''),
      (PB_LOCATION_NAV_DATA_HAS_YAW_UNC_BIT, hal ''LOCATION_NAV_DATA_HAS_YAW_UNC_BIT'')]
     pbGnssLocPosDataMask"

definition getGnssGloTimeStructTypeFlagsFromPB :: "hal_values \<Rightarrow> 32 word \<Rightarrow> 32 word" where
  "getGnssGloTimeStructTypeFlagsFromPB hal pbGnssGloTimeStruct = copy_flags
     [(PB_GNSS_CLO_DAYS_VALID, hal ''GNSS_CLO_DAYS_VALID''),
      (PB_GNSS_GLO_MSEC_VALID, hal ''GNSS_GLO_MSEC_VALID''),
      (PB_GNSS_GLO_CLK_TIME_BIAS_VALID, hal ''GNSS_GLO_CLK_TIME_BIAS_VALID''),
      (PB_GNSS_GLO_CLK_TIME_BIAS_UNC_VALID, hal ''GNSS_GLO_CLK_TIME_BIAS_UNC_VALID''),
      (PB_GNSS_GLO_REF_FCOUNT_VALID, hal ''GNSS_GLO_REF_FCOUNT_VALID''),
      (PB_GNSS_GLO_NUM_CLOCK_RESETS_VALID, hal ''GNSS_GLO_NUM_CLOCK_RESETS_VALID''),
      (PB_GNSS_GLO_FOUR_YEAR_VALID, hal ''GNSS_GLO_FOUR_YEAR_VALID'')]
     pbGnssGloTimeStruct"

definition getGnssConfigRobustLocationValidMaskFromPB :: "hal_values \<Rightarrow> 32 word \<Rightarrow> 32 word" where
  "getGnssConfigRobustLocationValidMaskFromPB hal pbGnssCfgRobstLocValidMask = copy_flags
     [
      (PB_GNSS_CONFIG_ROBUST_LOCATION_ENABLED_VALID_BIT, hal ''GNSS_CONFIG_ROBUST_LOCATION_ENABLED_VALID_BIT''),
      (PB_GNSS_CONFIG_ROBUST_LOCATION_ENABLED_FOR_E911_VALID_BIT, hal ''GNSS_CONFIG_ROBUST_LOCATION_ENABLED_FOR_E911_VALID_BIT''),
      (PB_GNSS_CONFIG_ROBUST_LOCATION_VERSION_VALID_BIT, hal ''GNSS_CONFIG_ROBUST_LOCATION_VERSION_VALID_BIT'')]
     pbGnssCfgRobstLocValidMask"

definition getDeadReckoningEngineConfigValidMaskFromPB :: "hal_values \<Rightarrow> 64 word \<Rightarrow> 64 word" where
  "getDeadReckoningEngineConfigValidMaskFromPB hal pbDrEngCfgVldMask = copy_flags
     [(PB_BODY_TO_SENSOR_MOUNT_PARAMS_BIT, hal ''BODY_TO_SENSOR_MOUNT_PARAMS_BIT''),
      (PB_VEHICLE_SPEED_SCALE_FACTOR_BIT, hal ''VEHICLE_SPEED_SCALE_FACTOR_BIT''),
      (PB_VEHICLE_SPEED_SCALE_FACTOR_UNC_BIT, hal ''VEHICLE_SPEED_SCALE_FACTOR_UNC_BIT''),
      (PB_GYRO_SCALE_FACTOR_BIT, hal ''GYRO_SCALE_FACTOR_BIT''),
      (PB_GYRO_SCALE_FACTOR_UNC_BIT, hal ''GYRO_SCALE_FACTOR_UNC_BIT'')]
     pbDrEngCfgVldMask"

definition getDrEngineAidingDataMaskFromPB :: "hal_values \<Rightarrow> 32 word \<Rightarrow> 32 word" where
  "getDrEngineAidingDataMaskFromPB hal pbDrEngAidDataMask = copy_flags
     [(PB_DR_ENGINE_AIDING_DATA_CALIBRATION_BIT, hal ''DR_ENGINE_AIDING_DATA_CALIBRATION_BIT'')]
     pbDrEngAidDataMask"

definition getDrSolutionStatusMaskFromPB :: "hal_values \<Rightarrow> 32 word \<Rightarrow> 32 word" where
  "getDrSolutionStatusMaskFromPB hal pbDrSolnStatusMask = copy_flags
     [(PB_VEHICLE_SENSOR_SPEED_INPUT_DETECTED, hal ''VEHICLE_SENSOR_SPEED_INPUT_DETECTED''),
      (PB_VEHICLE_SENSOR_SPEED_INPUT_USED, hal ''VEHICLE_SENSOR_SPEED_INPUT_USED''),
      (PB_DRE_WARNING_UNCALIBRATED, hal ''DRE_WARNING_UNCALIBRATED''),
      (PB_DRE_WARNING_GNSS_QUALITY_INSUFFICIENT, hal ''DRE_WARNING_GNSS_QUALITY_INSUFFICIENT''),
      (PB_DRE_WARNING_FERRY_DETECTED, hal ''DRE_WARNING_FERRY_DETECTED''),
      (PB_DRE_ERROR_6DOF_SENSOR_UNAVAILABLE, hal ''DRE_ERROR_6DOF_SENSOR_UNAVAILABLE''),
      (PB_DRE_ERROR_VEHICLE_SPEED_UNAVAILABLE, hal ''DRE_ERROR_VEHICLE_SPEED_UNAVAILABLE''),
      (PB_DRE_ERROR_GNSS_EPH_UNAVAILABLE, hal ''DRE_ERROR_GNSS_EPH_UNAVAILABLE''),
      (PB_DRE_ERROR_GNSS_MEAS_UNAVAILABLE, hal ''DRE_ERROR_GNSS_MEAS_UNAVAILABLE''),
      (PB_DRE_WARNING_INIT_POSITION_INVALID, hal ''DRE_WARNING_INIT_POSITION_INVALID''),
      (PB_DRE_WARNING_INIT_POSITION_UNRELIABLE, hal ''DRE_WARNING_INIT_POSITION_UNRELIABLE''),
      (PB_DRE_WARNING_POSITON_UNRELIABLE, hal ''DRE_WARNING_POSITON_UNRELIABLE''),
      (PB_DRE_ERROR_GENERIC, hal ''DRE_ERROR_GENERIC''),
      (PB_DRE_WARNING_SENSOR_TEMP_OUT_OF_RANGE, hal ''DRE_WARNING_SENSOR_TEMP_OUT_OF_RANGE''),
      (PB_DRE_WARNING_USER_DYNAMICS_INSUFFICIENT, hal ''DRE_WARNING_USER_DYNAMICS_INSUFFICIENT''),
      (PB_DRE_WARNING_FACTORY_DATA_INCONSISTENT, hal ''DRE_WARNING_FACTORY_DATA_INCONSISTENT''),
      (PB_DRE_WARNING_MMF_UNAVAILABLE, hal ''DRE_WARNING_MMF_UNAVAILABLE''),
      (PB_DRE_WARNING_MMF_NOT_USABLE, hal ''DRE_WARNING_MMF_NOT_USABLE'')]
     pbDrSolnStatusMask"

end
