(* ===== verification/PbEnums.thy ===== *)
theory PbEnums
  imports PbConstants
begin

text \<open>
  The enum conversions of \<open>location_api_msg_proto/src/LocationApiPbMsgConv.cpp\<close>: what each \<open>switch\<close> or
  chain of comparisons selects, and the value the result is initialised with.
\<close>

definition getEnumForPBELocMsgID :: "hal_values \<Rightarrow> int \<Rightarrow> int" where
  "getEnumForPBELocMsgID hal pbLocMsgId = switch_on pbLocMsgId
     [(PB_E_LOCAPI_UNDEFINED_MSG_ID, E_LOCAPI_UNDEFINED_MSG_ID),
      (PB_E_LOCAPI_CLIENT_REGISTER_MSG_ID, E_LOCAPI_CLIENT_REGISTER_MSG_ID),
      (PB_E_LOCAPI_CLIENT_DEREGISTER_MSG_ID, E_LOCAPI_CLIENT_DEREGISTER_MSG_ID),
      (PB_E_LOCAPI_CAPABILILTIES_MSG_ID, E_LOCAPI_CAPABILILTIES_MSG_ID),
      (PB_E_LOCAPI_HAL_READY_MSG_ID, E_LOCAPI_HAL_READY_MSG_ID),
      (PB_E_LOCAPI_START_TRACKING_MSG_ID, E_LOCAPI_START_TRACKING_MSG_ID),
      (PB_E_LOCAPI_STOP_TRACKING_MSG_ID, E_LOCAPI_STOP_TRACKING_MSG_ID),
      (PB_E_LOCAPI_UPDATE_CALLBACKS_MSG_ID, E_LOCAPI_UPDATE_CALLBACKS_MSG_ID),
      (PB_E_LOCAPI_UPDATE_TRACKING_OPTIONS_MSG_ID, E_LOCAPI_UPDATE_TRACKING_OPTIONS_MSG_ID),
      (PB_E_LOCAPI_CONTROL_UPDATE_CONFIG_MSG_ID, E_LOCAPI_CONTROL_UPDATE_CONFIG_MSG_ID),
      (PB_E_LOCAPI_CONTROL_DELETE_AIDING_DATA_MSG_ID, E_LOCAPI_CONTROL_DELETE_AIDING_DATA_MSG_ID),
      (PB_E_LOCAPI_CONTROL_UPDATE_NETWORK_AVAILABILITY_MSG_ID, E_LOCAPI_CONTROL_UPDATE_NETWORK_AVAILABILITY_MSG_ID),
      (PB_E_LOCAPI_LOCATION_MSG_ID, E_LOCAPI_LOCATION_MSG_ID),
      (PB_E_LOCAPI_LOCATION_INFO_MSG_ID, E_LOCAPI_LOCATION_INFO_MSG_ID),
      (PB_E_LOCAPI_SATELLITE_VEHICLE_MSG_ID, E_LOCAPI_SATELLITE_VEHICLE_MSG_ID),
      (PB_E_LOCAPI_NMEA_MSG_ID, E_LOCAPI_NMEA_MSG_ID), (PB_E_LOCAPI_DATA_MSG_ID, E_LOCAPI_DATA_MSG_ID),
      (PB_E_LOCAPI_GET_GNSS_ENGERY_CONSUMED_MSG_ID, E_LOCAPI_GET_GNSS_ENGERY_CONSUMED_MSG_ID),
      (PB_E_LOCAPI_LOCATION_SYSTEM_INFO_MSG_ID, E_LOCAPI_LOCATION_SYSTEM_INFO_MSG_ID),
      (PB_E_LOCAPI_ENGINE_LOCATIONS_INFO_MSG_ID, E_LOCAPI_ENGINE_LOCATIONS_INFO_MSG_ID),
      (PB_E_LOCAPI_START_BATCHING_MSG_ID, E_LOCAPI_START_BATCHING_MSG_ID),
      (PB_E_LOCAPI_STOP_BATCHING_MSG_ID, E_LOCAPI_STOP_BATCHING_MSG_ID),
      (PB_E_LOCAPI_UPDATE_BATCHING_OPTIONS_MSG_ID, E_LOCAPI_UPDATE_BATCHING_OPTIONS_MSG_ID),
      (PB_E_LOCAPI_BATCHING_MSG_ID, E_LOCAPI_BATCHING_MSG_ID),
      (PB_E_LOCAPI_ADD_GEOFENCES_MSG_ID, E_LOCAPI_ADD_GEOFENCES_MSG_ID),
      (PB_E_LOCAPI_REMOVE_GEOFENCES_MSG_ID, E_LOCAPI_REMOVE_GEOFENCES_MSG_ID),
      (PB_E_LOCAPI_MODIFY_GEOFENCES_MSG_ID, E_LOCAPI_MODIFY_GEOFENCES_MSG_ID),
      (PB_E_LOCAPI_PAUSE_GEOFENCES_MSG_ID, E_LOCAPI_PAUSE_GEOFENCES_MSG_ID),
      (PB_E_LOCAPI_RESUME_GEOFENCES_MSG_ID, E_LOCAPI_RESUME_GEOFENCES_MSG_ID),
      (PB_E_LOCAPI_GEOFENCE_BREACH_MSG_ID, E_LOCAPI_GEOFENCE_BREACH_MSG_ID),
      (PB_E_LOCAPI_MEAS_MSG_ID, E_LOCAPI_MEAS_MSG_ID),
      (PB_E_LOCAPI_GET_SINGLE_TERRESTRIAL_POS_REQ_MSG_ID, E_LOCAPI_GET_SINGLE_TERRESTRIAL_POS_REQ_MSG_ID),
      (PB_E_LOCAPI_GET_SINGLE_TERRESTRIAL_POS_RESP_MSG_ID, E_LOCAPI_GET_SINGLE_TERRESTRIAL_POS_RESP_MSG_ID),
      (PB_E_LOCAPI_DC_REPORT_MSG_ID, E_LOCAPI_DC_REPORT_MSG_ID),
      (PB_E_LOCAPI_GET_SINGLE_POS_REQ_MSG_ID, E_LOCAPI_GET_SINGLE_POS_REQ_MSG_ID),
      (PB_E_LOCAPI_GET_SINGLE_POS_RESP_MSG_ID, E_LOCAPI_GET_SINGLE_POS_RESP_MSG_ID),
      (PB_E_LOCAPI_EPH_MSG_ID, E_LOCAPI_EPH_MSG_ID),
      (PB_E_LOCAPI_PINGTEST_MSG_ID, E_LOCAPI_PINGTEST_MSG_ID),
      (PB_E_INTAPI_CONFIG_CONSTRAINTED_TUNC_MSG_ID, E_INTAPI_CONFIG_CONSTRAINTED_TUNC_MSG_ID),
      (PB_E_INTAPI_CONFIG_POSITION_ASSISTED_CLOCK_ESTIMATOR_MSG_ID, E_INTAPI_CONFIG_POSITION_ASSISTED_CLOCK_ESTIMATOR_MSG_ID),
      (PB_E_INTAPI_CONFIG_SV_CONSTELLATION_MSG_ID, E_INTAPI_CONFIG_SV_CONSTELLATION_MSG_ID),
      (PB_E_INTAPI_CONFIG_AIDING_DATA_DELETION_MSG_ID, E_INTAPI_CONFIG_AIDING_DATA_DELETION_MSG_ID),
      (PB_E_INTAPI_CONFIG_LEVER_ARM_MSG_ID, E_INTAPI_CONFIG_LEVER_ARM_MSG_ID),
      (PB_E_INTAPI_CONFIG_ROBUST_LOCATION_MSG_ID, E_INTAPI_CONFIG_ROBUST_LOCATION_MSG_ID),
      (PB_E_INTAPI_CONFIG_MIN_GPS_WEEK_MSG_ID, E_INTAPI_CONFIG_MIN_GPS_WEEK_MSG_ID),
      (PB_E_INTAPI_CONFIG_DEAD_RECKONING_ENGINE_MSG_ID, E_INTAPI_CONFIG_DEAD_RECKONING_ENGINE_MSG_ID),
      (PB_E_INTAPI_CONFIG_MIN_SV_ELEVATION_MSG_ID, E_INTAPI_CONFIG_MIN_SV_ELEVATION_MSG_ID),
      (PB_E_INTAPI_CONFIG_CONSTELLATION_SECONDARY_BAND_MSG_ID, E_INTAPI_CONFIG_CONSTELLATION_SECONDARY_BAND_MSG_ID),
      (PB_E_INTAPI_CONFIG_ENGINE_RUN_STATE_MSG_ID, E_INTAPI_CONFIG_ENGINE_RUN_STATE_MSG_ID),
      (PB_E_INTAPI_CONFIG_USER_CONSENT_TERRESTRIAL_POSITIONING_MSG_ID, E_INTAPI_CONFIG_USER_CONSENT_TERRESTRIAL_POSITIONING_MSG_ID),
      (PB_E_INTAPI_CONFIG_OUTPUT_NMEA_TYPES_MSG_ID, E_INTAPI_CONFIG_OUTPUT_NMEA_TYPES_MSG_ID),
      (PB_E_INTAPI_CONFIG_ENGINE_INTEGRITY_RISK_MSG_ID, E_INTAPI_CONFIG_ENGINE_INTEGRITY_RISK_MSG_ID),
      (PB_E_INTAPI_CONFIG_XTRA_PARAMS_MSG_ID, E_INTAPI_CONFIG_XTRA_PARAMS_MSG_ID),
      (PB_E_INTAPI_CONFIG_MERKLE_TREE_MSG_ID, E_INTAPI_CONFIG_MERKLE_TREE_MSG_ID),
      (PB_E_INTAPI_CONFIG_OSNMA_ENABLEMENT_MSG_ID, E_INTAPI_CONFIG_OSNMA_ENABLEMENT_MSG_ID),
      (PB_E_INTAPI_GET_ROBUST_LOCATION_CONFIG_REQ_MSG_ID, E_INTAPI_GET_ROBUST_LOCATION_CONFIG_REQ_MSG_ID),
      (PB_E_INTAPI_GET_ROBUST_LOCATION_CONFIG_RESP_MSG_ID, E_INTAPI_GET_ROBUST_LOCATION_CONFIG_RESP_MSG_ID),
      (PB_E_INTAPI_GET_MIN_GPS_WEEK_REQ_MSG_ID, E_INTAPI_GET_MIN_GPS_WEEK_REQ_MSG_ID),
      (PB_E_INTAPI_GET_MIN_GPS_WEEK_RESP_MSG_ID, E_INTAPI_GET_MIN_GPS_WEEK_RESP_MSG_ID),
      (PB_E_INTAPI_GET_MIN_SV_ELEVATION_REQ_MSG_ID, E_INTAPI_GET_MIN_SV_ELEVATION_REQ_MSG_ID),
      (PB_E_INTAPI_GET_MIN_SV_ELEVATION_RESP_MSG_ID, E_INTAPI_GET_MIN_SV_ELEVATION_RESP_MSG_ID),
      (PB_E_INTAPI_GET_CONSTELLATION_SECONDARY_BAND_CONFIG_REQ_MSG_ID, E_INTAPI_GET_CONSTELLATION_SECONDARY_BAND_CONFIG_REQ_MSG_ID),
      (PB_E_INTAPI_GET_CONSTELLATION_SECONDARY_BAND_CONFIG_RESP_MSG_ID, E_INTAPI_GET_CONSTELLATION_SECONDARY_BAND_CONFIG_RESP_MSG_ID),
      (PB_E_LOCAPI_GET_DEBUG_REQ_MSG_ID, E_LOCAPI_GET_DEBUG_REQ_MSG_ID),
      (PB_E_LOCAPI_GET_DEBUG_RESP_MSG_ID, E_LOCAPI_GET_DEBUG_RESP_MSG_ID),
      (PB_E_INTAPI_INJECT_LOCATION_MSG_ID, E_INTAPI_INJECT_LOCATION_MSG_ID),
      (PB_E_LOCAPI_GET_ANTENNA_INFO_MSG_ID, E_LOCAPI_GET_ANTENNA_INFO_MSG_ID),
      (PB_E_LOCAPI_ANTENNA_INFO_MSG_ID, E_LOCAPI_ANTENNA_INFO_MSG_ID),
      (PB_E_INTAPI_GET_XTRA_STATUS_REQ_MSG_ID, E_INTAPI_GET_XTRA_STATUS_REQ_MSG_ID),
      (PB_E_INTAPI_GET_XTRA_STATUS_RESP_MSG_ID, E_INTAPI_GET_XTRA_STATUS_RESP_MSG_ID),
      (PB_E_INTAPI_REGISTER_XTRA_STATUS_UPDATE_REQ_MSG_ID, E_INTAPI_REGISTER_XTRA_STATUS_UPDATE_REQ_MSG_ID),
      (PB_E_INTAPI_DEREGISTER_XTRA_STATUS_UPDATE_REQ_MSG_ID, E_INTAPI_DEREGISTER_XTRA_STATUS_UPDATE_REQ_MSG_ID),
      (PB_E_INTAPI_REGISTER_GNSS_SIGNAL_TYPES_UPDATE_REQ_MSG_ID, E_INTAPI_REGISTER_GNSS_SIGNAL_TYPES_UPDATE_REQ_MSG_ID),
      (PB_E_INTAPI_REGISTER_GNSS_SIGNAL_TYPES_UPDATE_RESP_MSG_ID, E_INTAPI_REGISTER_GNSS_SIGNAL_TYPES_UPDATE_RESP_MSG_ID),
      (PB_E_INTAPI_CONFIG_MAP_MATCHED_FEEDBACK_MSG_ID, E_INTAPI_CONFIG_MAP_MATCHED_FEEDBACK_MSG_ID),
      (PB_E_INTAPI_CONFIG_XTRA_USER_CONSENT_MSG_ID, E_INTAPI_CONFIG_XTRA_USER_CONSENT_MSG_ID)]
     E_LOCAPI_UNDEFINED_MSG_ID"

definition getEnumForPBLocationError :: "hal_values \<Rightarrow> int \<Rightarrow> int" where
  "getEnumForPBLocationError hal pbLocErr = switch_on pbLocErr
     [(PB_LOCATION_ERROR_SUCCESS, hal ''LOCATION_ERROR_SUCCESS''),
      (PB_LOCATION_ERROR_INVALID_PARAMETER, hal ''LOCATION_ERROR_INVALID_PARAMETER''),
      (PB_LOCATION_ERROR_NOT_SUPPORTED, hal ''LOCATION_ERROR_NOT_SUPPORTED''),
      (PB_LOCATION_ERROR_TIMEOUT, hal ''LOCATION_ERROR_TIMEOUT'')]
     (hal ''LOCATION_ERROR_GENERAL_FAILURE'')"

definition getEnumForPBClientType :: "hal_values \<Rightarrow> int \<Rightarrow> int" where
  "getEnumForPBClientType hal pbClntTyp = switch_on pbClntTyp
     [(PB_LOCATION_INTEGRATION_API, LOCATION_INTEGRATION_API)]
     LOCATION_CLIENT_API"

definition getEnumForPBBatchingMode :: "hal_values \<Rightarrow> int \<Rightarrow> int" where
  "getEnumForPBBatchingMode hal pbBatchMode = switch_on pbBatchMode
     [(PB_BATCHING_MODE_TRIP, hal ''BATCHING_MODE_TRIP''),
      (PB_BATCHING_MODE_NO_AUTO_REPORT, hal ''BATCHING_MODE_NO_AUTO_REPORT'')]
     (hal ''BATCHING_MODE_ROUTINE'')"

definition getEnumForPBGnssSuplMode :: "hal_values \<Rightarrow> int \<Rightarrow> int" where
  "getEnumForPBGnssSuplMode hal pbGnssSuplMode = switch_on pbGnssSuplMode
     [(PB_GNSS_SUPL_MODE_MSB, hal ''GNSS_SUPL_MODE_MSB''),
      (PB_GNSS_SUPL_MODE_MSA, hal ''GNSS_SUPL_MODE_MSA'')]
     (hal ''GNSS_SUPL_MODE_STANDALONE'')"

definition getEnumForPBFixQualityLevel :: "hal_values \<Rightarrow> int \<Rightarrow> int" where
  "getEnumForPBFixQualityLevel hal pbFixQualityLevel = switch_on pbFixQualityLevel
     [(PB_QUALITY_ANY_VALID_FIX, hal ''QUALITY_ANY_VALID_FIX''),
      (PB_QUALITY_ANY_OR_FAILED_FIX, hal ''QUALITY_ANY_OR_FAILED_FIX'')]
     (hal ''QUALITY_HIGH_ACCU_FIX_ONLY'')"

definition getEnumForPBBatchingStatus :: "hal_values \<Rightarrow> int \<Rightarrow> int" where
  "getEnumForPBBatchingStatus hal pbBatchStat = switch_on pbBatchStat
     [(PB_BATCHING_STATUS_TRIP_COMPLETED, hal ''BATCHING_STATUS_TRIP_COMPLETED''),
      (PB_BATCHING_STATUS_POSITION_AVAILABE, hal ''BATCHING_STATUS_POSITION_AVAILABE''),
      (PB_BATCHING_STATUS_POSITION_UNAVAILABLE, hal ''BATCHING_STATUS_POSITION_UNAVAILABLE'')]
     (hal ''BATCHING_STATUS_POSITION_UNAVAILABLE'')"

definition getEnumForPBGnssMeasMultipathIndic :: "hal_values \<Rightarrow> int \<Rightarrow> int" where
  "getEnumForPBGnssMeasMultipathIndic hal pbGnssMeasMultipathIndic = switch_on pbGnssMeasMultipathIndic
     [
      (PB_GNSS_MEASUREMENTS_MULTIPATH_INDICATOR_UNKNOWN, hal ''GNSS_MEASUREMENTS_MULTIPATH_INDICATOR_UNKNOWN''),
      (PB_GNSS_MEASUREMENTS_MULTIPATH_INDICATOR_PRESENT, hal ''GNSS_MEASUREMENTS_MULTIPATH_INDICATOR_PRESENT''),
      (PB_GNSS_MEASUREMENTS_MULTIPATH_INDICATOR_NOT_PRESENT, hal ''GNSS_MEASUREMENTS_MULTIPATH_INDICATOR_NOT_PRESENT'')]
     (hal ''GNSS_MEASUREMENTS_MULTIPATH_INDICATOR_UNKNOWN'')"

definition getEnumForPBLocReliability :: "hal_values \<Rightarrow> int \<Rightarrow> int" where
  "getEnumForPBLocReliability hal pbLocReliability = switch_on pbLocReliability
     [(PB_LOCATION_RELIABILITY_NOT_SET, hal ''LOCATION_RELIABILITY_NOT_SET''),
      (PB_LOCATION_RELIABILITY_VERY_LOW, hal ''LOCATION_RELIABILITY_VERY_LOW''),
      (PB_LOCATION_RELIABILITY_LOW, hal ''LOCATION_RELIABILITY_LOW''),
      (PB_LOCATION_RELIABILITY_MEDIUM, hal ''LOCATION_RELIABILITY_MEDIUM''),
      (PB_LOCATION_RELIABILITY_HIGH, hal ''LOCATION_RELIABILITY_HIGH'')]
     (hal ''LOCATION_RELIABILITY_NOT_SET'')"

definition getEnumForPBGnssLocSvSystem :: "hal_values \<Rightarrow> int \<Rightarrow> int" where
  "getEnumForPBGnssLocSvSystem hal pbGnssLocSvSysEnumType = switch_on pbGnssLocSvSysEnumType
     [(PB_GNSS_LOC_SV_SYSTEM_INVALID, hal ''GNSS_LOC_SV_SYSTEM_UNKNOWN''),
      (PB_GNSS_LOC_SV_SYSTEM_GPS, hal ''GNSS_LOC_SV_SYSTEM_GPS''),
      (PB_GNSS_LOC_SV_SYSTEM_GALILEO, hal ''GNSS_LOC_SV_SYSTEM_GALILEO''),
      (PB_GNSS_LOC_SV_SYSTEM_SBAS, hal ''GNSS_LOC_SV_SYSTEM_SBAS''),
      (PB_GNSS_LOC_SV_SYSTEM_GLONASS, hal ''GNSS_LOC_SV_SYSTEM_GLONASS''),
      (PB_GNSS_LOC_SV_SYSTEM_BDS, hal ''GNSS_LOC_SV_SYSTEM_BDS''),
      (PB_GNSS_LOC_SV_SYSTEM_QZSS, hal ''GNSS_LOC_SV_SYSTEM_QZSS''),
      (PB_GNSS_LOC_SV_SYSTEM_NAVIC, hal ''GNSS_LOC_SV_SYSTEM_NAVIC'')]
     (hal ''GNSS_LOC_SV_SYSTEM_UNKNOWN'')"

definition getEnumForPBLocOutputEngineType :: "hal_values \<Rightarrow> int \<Rightarrow> int" where
  "getEnumForPBLocOutputEngineType hal pbLocOpEngType = switch_on pbLocOpEngType
     [(PB_LOC_OUTPUT_ENGINE_FUSED, hal ''LOC_OUTPUT_ENGINE_FUSED''),
      (PB_LOC_OUTPUT_ENGINE_SPE, hal ''LOC_OUTPUT_ENGINE_SPE''),
      (PB_LOC_OUTPUT_ENGINE_PPE, hal ''LOC_OUTPUT_ENGINE_PPE'')]
     (hal ''LOC_OUTPUT_ENGINE_FUSED'')"

definition getEnumForPBAgcStatus :: "hal_values \<Rightarrow> int \<Rightarrow> int" where
  "getEnumForPBAgcStatus hal pbAgcStatus = switch_on pbAgcStatus
     [(PB_AGC_STATUS_NO_SATURATION, hal ''AGC_STATUS_NO_SATURATION''),
      (PB_AGC_STATUS_FRONT_END_GAIN_MAXIMUM_SATURATION, hal ''AGC_STATUS_FRONT_END_GAIN_MAXIMUM_SATURATION''),
      (PB_AGC_STATUS_FRONT_END_GAIN_MINIMUM_SATURATION, hal ''AGC_STATUS_FRONT_END_GAIN_MINIMUM_SATURATION'')]
     (hal ''AGC_STATUS_UNKNOWN'')"

definition getEnumForPBLocEngineRunState :: "hal_values \<Rightarrow> int \<Rightarrow> int" where
  "getEnumForPBLocEngineRunState hal pbLocEngRunState = switch_on pbLocEngRunState
     [(PB_LOC_ENGINE_RUN_STATE_PAUSE, hal ''LOC_ENGINE_RUN_STATE_PAUSE''),
      (PB_LOC_ENGINE_RUN_STATE_RESUME, hal ''LOC_ENGINE_RUN_STATE_RESUME''),
      (PB_LOC_ENGINE_RUN_STATE_PAUSE_RETAIN, hal ''LOC_ENGINE_RUN_STATE_PAUSE_RETAIN'')]
     0"

definition getPBEnumForLocEngineRunState_cases :: "hal_values \<Rightarrow> (int \<times> int) list" where
  "getPBEnumForLocEngineRunState_cases hal =
     [(hal ''LOC_ENGINE_RUN_STATE_PAUSE'', PB_LOC_ENGINE_RUN_STATE_PAUSE),
      (hal ''LOC_ENGINE_RUN_STATE_RESUME'', PB_LOC_ENGINE_RUN_STATE_RESUME),
      (hal ''LOC_ENGINE_RUN_STATE_PAUSE_RETAIN'', PB_LOC_ENGINE_RUN_STATE_PAUSE_RETAIN)]"

definition getPBEnumForLocEngineRunState :: "hal_values \<Rightarrow> int \<Rightarrow> int" where
  "getPBEnumForLocEngineRunState hal locEngineRunState =
     switch_on locEngineRunState (getPBEnumForLocEngineRunState_cases hal) PB_LOC_ENGINE_RUN_STATE_INVALID"

definition getGnssSvTypeFromPBGnssLocSvSystemEnumType :: "hal_values \<Rightarrow> int \<Rightarrow> int" where
  "getGnssSvTypeFromPBGnssLocSvSystemEnumType hal pbGnssLocSvSysEnum = switch_on pbGnssLocSvSysEnum
     [(PB_GNSS_LOC_SV_SYSTEM_GPS, hal ''GNSS_SV_TYPE_GPS''),
      (PB_GNSS_LOC_SV_SYSTEM_GALILEO, hal ''GNSS_SV_TYPE_GALILEO''),
      (PB_GNSS_LOC_SV_SYSTEM_SBAS, hal ''GNSS_SV_TYPE_SBAS''),
      (PB_GNSS_LOC_SV_SYSTEM_GLONASS, hal ''GNSS_SV_TYPE_GLONASS''),
      (PB_GNSS_LOC_SV_SYSTEM_BDS, hal ''GNSS_SV_TYPE_BEIDOU''),
      (PB_GNSS_LOC_SV_SYSTEM_QZSS, hal ''GNSS_SV_TYPE_QZSS''),
      (PB_GNSS_LOC_SV_SYSTEM_NAVIC, hal ''GNSS_SV_TYPE_NAVIC'')]
     (hal ''GNSS_SV_TYPE_UNKNOWN'')"

definition getDcReportTypeFromPB :: "hal_values \<Rightarrow> int \<Rightarrow> int" where
  "getDcReportTypeFromPB hal pbDcReportType = switch_on pbDcReportType
     [(PB_QZSS_JMA_DISASTER_PREVENTION_INFO, hal ''QZSS_JMA_DISASTER_PREVENTION_INFO''),
      (PB_QZSS_NON_JMA_DISASTER_PREVENTION_INFO, hal ''QZSS_NON_JMA_DISASTER_PREVENTION_INFO'')]
     (hal ''GNSS_DC_REPORT_TYPE_UNDEFINED'')"

definition getPBEnumForDcReportType_cases :: "hal_values \<Rightarrow> (int \<times> int) list" where
  "getPBEnumForDcReportType_cases hal =
     [(hal ''QZSS_JMA_DISASTER_PREVENTION_INFO'', PB_QZSS_JMA_DISASTER_PREVENTION_INFO),
      (hal ''QZSS_NON_JMA_DISASTER_PREVENTION_INFO'', PB_QZSS_NON_JMA_DISASTER_PREVENTION_INFO)]"

definition getPBEnumForDcReportType :: "hal_values \<Rightarrow> int \<Rightarrow> int" where
  "getPBEnumForDcReportType hal dcReportType =
     switch_on dcReportType (getPBEnumForDcReportType_cases hal) PB_GNSS_DC_REPORT_TYPE_UNDEFINED"

definition getDebugLogLevelFromPB :: "hal_values \<Rightarrow> int \<Rightarrow> int" where
  "getDebugLogLevelFromPB hal pbLogLevel = switch_on pbLogLevel
     [(PB_DEBUG_LOG_LEVEL_ERROR, hal ''DEBUG_LOG_LEVEL_ERROR''),
      (PB_DEBUG_LOG_LEVEL_WARNING, hal ''DEBUG_LOG_LEVEL_WARNING''),
      (PB_DEBUG_LOG_LEVEL_INFO, hal ''DEBUG_LOG_LEVEL_INFO''),
      (PB_DEBUG_LOG_LEVEL_DEBUG, hal ''DEBUG_LOG_LEVEL_DEBUG''),
      (PB_DEBUG_LOG_LEVEL_VERBOSE, hal ''DEBUG_LOG_LEVEL_VERBOSE'')]
     (hal ''DEBUG_LOG_LEVEL_NONE'')"

definition getPBEnumForDebugLogLevel_cases :: "hal_values \<Rightarrow> (int \<times> int) list" where
  "getPBEnumForDebugLogLevel_cases hal =
     [(hal ''DEBUG_LOG_LEVEL_ERROR'', PB_DEBUG_LOG_LEVEL_ERROR),
      (hal ''DEBUG_LOG_LEVEL_WARNING'', PB_DEBUG_LOG_LEVEL_WARNING),
      (hal ''DEBUG_LOG_LEVEL_INFO'', PB_DEBUG_LOG_LEVEL_INFO),
      (hal ''DEBUG_LOG_LEVEL_DEBUG'', PB_DEBUG_LOG_LEVEL_DEBUG),
      (hal ''DEBUG_LOG_LEVEL_VERBOSE'', PB_DEBUG_LOG_LEVEL_VERBOSE)]"

definition getPBEnumForDebugLogLevel :: "hal_values \<Rightarrow> int \<Rightarrow> int" where
  "getPBEnumForDebugLogLevel hal logLevel =
     switch_on logLevel (getPBEnumForDebugLogLevel_cases hal) PB_DEBUG_LOG_LEVEL_NONE"

definition getXtraStatusUpdateTypeFromPB :: "hal_values \<Rightarrow> int \<Rightarrow> int" where
  "getXtraStatusUpdateTypeFromPB hal pbUpdateType = switch_on pbUpdateType
     [(PB_XTRA_STATUS_UPDATE_UPON_QUERY, hal ''XTRA_STATUS_UPDATE_UPON_QUERY''),
      (PB_XTRA_STATUS_UPDATE_UPON_REGISTRATION, hal ''XTRA_STATUS_UPDATE_UPON_REGISTRATION''),
      (PB_XTRA_STATUS_UPDATE_UPON_STATUS_CHANGE, hal ''XTRA_STATUS_UPDATE_UPON_STATUS_CHANGE'')]
     (hal ''XTRA_STATUS_UPDATE_UNDEFINED'')"

definition getXtraDataStatusFromPB :: "hal_values \<Rightarrow> int \<Rightarrow> int" where
  "getXtraDataStatusFromPB hal pbXtraDataStatus = switch_on pbXtraDataStatus
     [(PB_XTRA_DATA_STATUS_NOT_AVAIL, hal ''XTRA_DATA_STATUS_NOT_AVAIL''),
      (PB_XTRA_DATA_STATUS_NOT_VALID, hal ''XTRA_DATA_STATUS_NOT_VALID''),
      (PB_XTRA_DATA_STATUS_VALID, hal ''XTRA_DATA_STATUS_VALID'')]
     (hal ''XTRA_DATA_STATUS_UNKNOWN'')"

definition getPBEnumForXtraDataStatus_cases :: "hal_values \<Rightarrow> (int \<times> int) list" where
  "getPBEnumForXtraDataStatus_cases hal =
     [(hal ''XTRA_DATA_STATUS_NOT_AVAIL'', PB_XTRA_DATA_STATUS_NOT_AVAIL),
      (hal ''XTRA_DATA_STATUS_NOT_VALID'', PB_XTRA_DATA_STATUS_NOT_VALID),
      (hal ''XTRA_DATA_STATUS_VALID'', PB_XTRA_DATA_STATUS_VALID)]"

definition getPBEnumForXtraDataStatus :: "hal_values \<Rightarrow> int \<Rightarrow> int" where
  "getPBEnumForXtraDataStatus hal xtraDataStatus =
     switch_on xtraDataStatus (getPBEnumForXtraDataStatus_cases hal) PB_XTRA_DATA_STATUS_UNKNOWN"

definition getPBEnumForXtraStatusUpdateType_cases :: "hal_values \<Rightarrow> (int \<times> int) list" where
  "getPBEnumForXtraStatusUpdateType_cases hal =
     [(hal ''XTRA_STATUS_UPDATE_UPON_QUERY'', PB_XTRA_STATUS_UPDATE_UPON_QUERY),
      (hal ''XTRA_STATUS_UPDATE_UPON_REGISTRATION'', PB_XTRA_STATUS_UPDATE_UPON_REGISTRATION),
      (hal ''XTRA_STATUS_UPDATE_UPON_STATUS_CHANGE'', PB_XTRA_STATUS_UPDATE_UPON_STATUS_CHANGE)]"

definition getPBEnumForXtraStatusUpdateType :: "hal_values \<Rightarrow> int \<Rightarrow> int" where
  "getPBEnumForXtraStatusUpdateType hal updateType =
     switch_on updateType (getPBEnumForXtraStatusUpdateType_cases hal) PB_XTRA_STATUS_UPDATE_UNDEFINED"

definition getPBEnumForELocMsgID_cases :: "hal_values \<Rightarrow> (int \<times> int) list" where
  "getPBEnumForELocMsgID_cases hal =
     [(E_LOCAPI_CLIENT_REGISTER_MSG_ID, PB_E_LOCAPI_CLIENT_REGISTER_MSG_ID),
      (E_LOCAPI_CLIENT_DEREGISTER_MSG_ID, PB_E_LOCAPI_CLIENT_DEREGISTER_MSG_ID),
      (E_LOCAPI_CAPABILILTIES_MSG_ID, PB_E_LOCAPI_CAPABILILTIES_MSG_ID),
      (E_LOCAPI_HAL_READY_MSG_ID, PB_E_LOCAPI_HAL_READY_MSG_ID),
      (E_LOCAPI_START_TRACKING_MSG_ID, PB_E_LOCAPI_START_TRACKING_MSG_ID),
      (E_LOCAPI_STOP_TRACKING_MSG_ID, PB_E_LOCAPI_STOP_TRACKING_MSG_ID),
      (E_LOCAPI_UPDATE_CALLBACKS_MSG_ID, PB_E_LOCAPI_UPDATE_CALLBACKS_MSG_ID),
      (E_LOCAPI_UPDATE_TRACKING_OPTIONS_MSG_ID, PB_E_LOCAPI_UPDATE_TRACKING_OPTIONS_MSG_ID),
      (E_LOCAPI_CONTROL_UPDATE_CONFIG_MSG_ID, PB_E_LOCAPI_CONTROL_UPDATE_CONFIG_MSG_ID),
      (E_LOCAPI_CONTROL_DELETE_AIDING_DATA_MSG_ID, PB_E_LOCAPI_CONTROL_DELETE_AIDING_DATA_MSG_ID),
      (E_LOCAPI_CONTROL_UPDATE_NETWORK_AVAILABILITY_MSG_ID, PB_E_LOCAPI_CONTROL_UPDATE_NETWORK_AVAILABILITY_MSG_ID),
      (E_LOCAPI_LOCATION_MSG_ID, PB_E_LOCAPI_LOCATION_MSG_ID),
      (E_LOCAPI_LOCATION_INFO_MSG_ID, PB_E_LOCAPI_LOCATION_INFO_MSG_ID),
      (E_LOCAPI_SATELLITE_VEHICLE_MSG_ID, PB_E_LOCAPI_SATELLITE_VEHICLE_MSG_ID),
      (E_LOCAPI_NMEA_MSG_ID, PB_E_LOCAPI_NMEA_MSG_ID), (E_LOCAPI_DATA_MSG_ID, PB_E_LOCAPI_DATA_MSG_ID),
      (E_LOCAPI_GET_GNSS_ENGERY_CONSUMED_MSG_ID, PB_E_LOCAPI_GET_GNSS_ENGERY_CONSUMED_MSG_ID),
      (E_LOCAPI_LOCATION_SYSTEM_INFO_MSG_ID, PB_E_LOCAPI_LOCATION_SYSTEM_INFO_MSG_ID),
      (E_LOCAPI_ENGINE_LOCATIONS_INFO_MSG_ID, PB_E_LOCAPI_ENGINE_LOCATIONS_INFO_MSG_ID),
      (E_LOCAPI_START_BATCHING_MSG_ID, PB_E_LOCAPI_START_BATCHING_MSG_ID),
      (E_LOCAPI_STOP_BATCHING_MSG_ID, PB_E_LOCAPI_STOP_BATCHING_MSG_ID),
      (E_LOCAPI_UPDATE_BATCHING_OPTIONS_MSG_ID, PB_E_LOCAPI_UPDATE_BATCHING_OPTIONS_MSG_ID),
      (E_LOCAPI_BATCHING_MSG_ID, PB_E_LOCAPI_BATCHING_MSG_ID),
      (E_LOCAPI_ADD_GEOFENCES_MSG_ID, PB_E_LOCAPI_ADD_GEOFENCES_MSG_ID),
      (E_LOCAPI_REMOVE_GEOFENCES_MSG_ID, PB_E_LOCAPI_REMOVE_GEOFENCES_MSG_ID),
      (E_LOCAPI_MODIFY_GEOFENCES_MSG_ID, PB_E_LOCAPI_MODIFY_GEOFENCES_MSG_ID),
      (E_LOCAPI_PAUSE_GEOFENCES_MSG_ID, PB_E_LOCAPI_PAUSE_GEOFENCES_MSG_ID),
      (E_LOCAPI_RESUME_GEOFENCES_MSG_ID, PB_E_LOCAPI_RESUME_GEOFENCES_MSG_ID),
      (E_LOCAPI_GEOFENCE_BREACH_MSG_ID, PB_E_LOCAPI_GEOFENCE_BREACH_MSG_ID),
      (E_LOCAPI_MEAS_MSG_ID, PB_E_LOCAPI_MEAS_MSG_ID),
      (E_LOCAPI_GET_SINGLE_TERRESTRIAL_POS_REQ_MSG_ID, PB_E_LOCAPI_GET_SINGLE_TERRESTRIAL_POS_REQ_MSG_ID),
      (E_LOCAPI_GET_SINGLE_TERRESTRIAL_POS_RESP_MSG_ID, PB_E_LOCAPI_GET_SINGLE_TERRESTRIAL_POS_RESP_MSG_ID),
      (E_LOCAPI_DC_REPORT_MSG_ID, PB_E_LOCAPI_DC_REPORT_MSG_ID),
      (E_LOCAPI_GET_SINGLE_POS_REQ_MSG_ID, PB_E_LOCAPI_GET_SINGLE_POS_REQ_MSG_ID),
      (E_LOCAPI_GET_SINGLE_POS_RESP_MSG_ID, PB_E_LOCAPI_GET_SINGLE_POS_RESP_MSG_ID),
      (E_LOCAPI_EPH_MSG_ID, PB_E_LOCAPI_EPH_MSG_ID),
      (E_LOCAPI_PINGTEST_MSG_ID, PB_E_LOCAPI_PINGTEST_MSG_ID),
      (E_INTAPI_CONFIG_CONSTRAINTED_TUNC_MSG_ID, PB_E_INTAPI_CONFIG_CONSTRAINTED_TUNC_MSG_ID),
      (E_INTAPI_CONFIG_POSITION_ASSISTED_CLOCK_ESTIMATOR_MSG_ID, PB_E_INTAPI_CONFIG_POSITION_ASSISTED_CLOCK_ESTIMATOR_MSG_ID),
      (E_INTAPI_CONFIG_SV_CONSTELLATION_MSG_ID, PB_E_INTAPI_CONFIG_SV_CONSTELLATION_MSG_ID),
      (E_INTAPI_CONFIG_AIDING_DATA_DELETION_MSG_ID, PB_E_INTAPI_CONFIG_AIDING_DATA_DELETION_MSG_ID),
      (E_INTAPI_CONFIG_LEVER_ARM_MSG_ID, PB_E_INTAPI_CONFIG_LEVER_ARM_MSG_ID),
      (E_INTAPI_CONFIG_ROBUST_LOCATION_MSG_ID, PB_E_INTAPI_CONFIG_ROBUST_LOCATION_MSG_ID),
      (E_INTAPI_CONFIG_MIN_GPS_WEEK_MSG_ID, PB_E_INTAPI_CONFIG_MIN_GPS_WEEK_MSG_ID),
      (E_INTAPI_CONFIG_DEAD_RECKONING_ENGINE_MSG_ID, PB_E_INTAPI_CONFIG_DEAD_RECKONING_ENGINE_MSG_ID),
      (E_INTAPI_CONFIG_MIN_SV_ELEVATION_MSG_ID, PB_E_INTAPI_CONFIG_MIN_SV_ELEVATION_MSG_ID),
      (E_INTAPI_CONFIG_CONSTELLATION_SECONDARY_BAND_MSG_ID, PB_E_INTAPI_CONFIG_CONSTELLATION_SECONDARY_BAND_MSG_ID),
      (E_INTAPI_CONFIG_ENGINE_RUN_STATE_MSG_ID, PB_E_INTAPI_CONFIG_ENGINE_RUN_STATE_MSG_ID),
      (E_INTAPI_CONFIG_USER_CONSENT_TERRESTRIAL_POSITIONING_MSG_ID, PB_E_INTAPI_CONFIG_USER_CONSENT_TERRESTRIAL_POSITIONING_MSG_ID),
      (E_INTAPI_CONFIG_OUTPUT_NMEA_TYPES_MSG_ID, PB_E_INTAPI_CONFIG_OUTPUT_NMEA_TYPES_MSG_ID),
      (E_INTAPI_CONFIG_ENGINE_INTEGRITY_RISK_MSG_ID, PB_E_INTAPI_CONFIG_ENGINE_INTEGRITY_RISK_MSG_ID),
      (E_INTAPI_CONFIG_XTRA_PARAMS_MSG_ID, PB_E_INTAPI_CONFIG_XTRA_PARAMS_MSG_ID),
      (E_INTAPI_CONFIG_MERKLE_TREE_MSG_ID, PB_E_INTAPI_CONFIG_MERKLE_TREE_MSG_ID),
      (E_INTAPI_CONFIG_OSNMA_ENABLEMENT_MSG_ID, PB_E_INTAPI_CONFIG_OSNMA_ENABLEMENT_MSG_ID),
      (E_INTAPI_GET_ROBUST_LOCATION_CONFIG_REQ_MSG_ID, PB_E_INTAPI_GET_ROBUST_LOCATION_CONFIG_REQ_MSG_ID),
      (E_INTAPI_GET_ROBUST_LOCATION_CONFIG_RESP_MSG_ID, PB_E_INTAPI_GET_ROBUST_LOCATION_CONFIG_RESP_MSG_ID),
      (E_INTAPI_GET_MIN_GPS_WEEK_REQ_MSG_ID, PB_E_INTAPI_GET_MIN_GPS_WEEK_REQ_MSG_ID),
      (E_INTAPI_GET_MIN_GPS_WEEK_RESP_MSG_ID, PB_E_INTAPI_GET_MIN_GPS_WEEK_RESP_MSG_ID),
      (E_INTAPI_GET_MIN_SV_ELEVATION_REQ_MSG_ID, PB_E_INTAPI_GET_MIN_SV_ELEVATION_REQ_MSG_ID),
      (E_INTAPI_GET_MIN_SV_ELEVATION_RESP_MSG_ID, PB_E_INTAPI_GET_MIN_SV_ELEVATION_RESP_MSG_ID),
      (E_INTAPI_GET_CONSTELLATION_SECONDARY_BAND_CONFIG_REQ_MSG_ID, PB_E_INTAPI_GET_CONSTELLATION_SECONDARY_BAND_CONFIG_REQ_MSG_ID),
      (E_INTAPI_GET_CONSTELLATION_SECONDARY_BAND_CONFIG_RESP_MSG_ID, PB_E_INTAPI_GET_CONSTELLATION_SECONDARY_BAND_CONFIG_RESP_MSG_ID),
      (E_LOCAPI_GET_DEBUG_REQ_MSG_ID, PB_E_LOCAPI_GET_DEBUG_REQ_MSG_ID),
      (E_LOCAPI_GET_DEBUG_RESP_MSG_ID, PB_E_LOCAPI_GET_DEBUG_RESP_MSG_ID),
      (E_INTAPI_INJECT_LOCATION_MSG_ID, PB_E_INTAPI_INJECT_LOCATION_MSG_ID),
      (E_LOCAPI_GET_ANTENNA_INFO_MSG_ID, PB_E_LOCAPI_GET_ANTENNA_INFO_MSG_ID),
      (E_LOCAPI_ANTENNA_INFO_MSG_ID, PB_E_LOCAPI_ANTENNA_INFO_MSG_ID),
      (E_INTAPI_GET_XTRA_STATUS_REQ_MSG_ID, PB_E_INTAPI_GET_XTRA_STATUS_REQ_MSG_ID),
      (E_INTAPI_GET_XTRA_STATUS_RESP_MSG_ID, PB_E_INTAPI_GET_XTRA_STATUS_RESP_MSG_ID),
      (E_INTAPI_REGISTER_XTRA_STATUS_UPDATE_REQ_MSG_ID, PB_E_INTAPI_REGISTER_XTRA_STATUS_UPDATE_REQ_MSG_ID),
      (E_INTAPI_DEREGISTER_XTRA_STATUS_UPDATE_REQ_MSG_ID, PB_E_INTAPI_DEREGISTER_XTRA_STATUS_UPDATE_REQ_MSG_ID),
      (E_INTAPI_REGISTER_GNSS_SIGNAL_TYPES_UPDATE_REQ_MSG_ID, PB_E_INTAPI_REGISTER_GNSS_SIGNAL_TYPES_UPDATE_REQ_MSG_ID),
      (E_INTAPI_REGISTER_GNSS_SIGNAL_TYPES_UPDATE_RESP_MSG_ID, PB_E_INTAPI_REGISTER_GNSS_SIGNAL_TYPES_UPDATE_RESP_MSG_ID),
      (E_INTAPI_CONFIG_MAP_MATCHED_FEEDBACK_MSG_ID, PB_E_INTAPI_CONFIG_MAP_MATCHED_FEEDBACK_MSG_ID),
      (E_INTAPI_CONFIG_XTRA_USER_CONSENT_MSG_ID, PB_E_INTAPI_CONFIG_XTRA_USER_CONSENT_MSG_ID)]"

definition getPBEnumForELocMsgID :: "hal_values \<Rightarrow> int \<Rightarrow> int" where
  "getPBEnumForELocMsgID hal eLocMsgId =
     switch_on eLocMsgId (getPBEnumForELocMsgID_cases hal) PB_E_LOCAPI_UNDEFINED_MSG_ID"

definition getPBEnumForClientType_cases :: "hal_values \<Rightarrow> (int \<times> int) list" where
  "getPBEnumForClientType_cases hal =
     [(LOCATION_CLIENT_API, PB_LOCATION_CLIENT_API)]"

definition getPBEnumForClientType :: "hal_values \<Rightarrow> int \<Rightarrow> int" where
  "getPBEnumForClientType hal clientTyp =
     switch_on clientTyp (getPBEnumForClientType_cases hal) PB_LOCATION_INTEGRATION_API"

definition getPBEnumForBatchingMode_cases :: "hal_values \<Rightarrow> (int \<times> int) list" where
  "getPBEnumForBatchingMode_cases hal =
     [(hal ''BATCHING_MODE_ROUTINE'', PB_BATCHING_MODE_ROUTINE),
      (hal ''BATCHING_MODE_TRIP'', PB_BATCHING_MODE_TRIP),
      (hal ''BATCHING_MODE_NO_AUTO_REPORT'', PB_BATCHING_MODE_NO_AUTO_REPORT)]"

definition getPBEnumForBatchingMode :: "hal_values \<Rightarrow> int \<Rightarrow> int" where
  "getPBEnumForBatchingMode hal batchMode =
     switch_on batchMode (getPBEnumForBatchingMode_cases hal) PB_BATCHING_MODE_ROUTINE"

definition getPBEnumForLocationError_cases :: "hal_values \<Rightarrow> (int \<times> int) list" where
  "getPBEnumForLocationError_cases hal =
     [(hal ''LOCATION_ERROR_SUCCESS'', PB_LOCATION_ERROR_SUCCESS),
      (hal ''LOCATION_ERROR_INVALID_PARAMETER'', PB_LOCATION_ERROR_INVALID_PARAMETER),
      (hal ''LOCATION_ERROR_NOT_SUPPORTED'', PB_LOCATION_ERROR_NOT_SUPPORTED),
      (hal ''LOCATION_ERROR_TIMEOUT'', PB_LOCATION_ERROR_TIMEOUT)]"

definition getPBEnumForLocationError :: "hal_values \<Rightarrow> int \<Rightarrow> int" where
  "getPBEnumForLocationError hal locErr =
     switch_on locErr (getPBEnumForLocationError_cases hal) PB_LOCATION_ERROR_GENERAL_FAILURE"

definition getPBEnumForGnssSuplMode_cases :: "hal_values \<Rightarrow> (int \<times> int) list" where
  "getPBEnumForGnssSuplMode_cases hal =
     [(hal ''GNSS_SUPL_MODE_STANDALONE'', PB_GNSS_SUPL_MODE_STANDALONE),
      (hal ''GNSS_SUPL_MODE_MSB'', PB_GNSS_SUPL_MODE_MSB),
      (hal ''GNSS_SUPL_MODE_MSA'', PB_GNSS_SUPL_MODE_MSA)]"

definition getPBEnumForGnssSuplMode :: "hal_values \<Rightarrow> int \<Rightarrow> int" where
  "getPBEnumForGnssSuplMode hal gnssSuplMode =
     switch_on gnssSuplMode (getPBEnumForGnssSuplMode_cases hal) PB_GNSS_SUPL_MODE_STANDALONE"

definition getPBEnumForFixQualityLevel_cases :: "hal_values \<Rightarrow> (int \<times> int) list" where
  "getPBEnumForFixQualityLevel_cases hal =
     [(hal ''QUALITY_ANY_VALID_FIX'', PB_QUALITY_ANY_VALID_FIX),
      (hal ''QUALITY_ANY_OR_FAILED_FIX'', PB_QUALITY_ANY_OR_FAILED_FIX)]"

definition getPBEnumForFixQualityLevel :: "hal_values \<Rightarrow> int \<Rightarrow> int" where
  "getPBEnumForFixQualityLevel hal qualityLevel =
     switch_on qualityLevel (getPBEnumForFixQualityLevel_cases hal) PB_QUALITY_HIGH_ACCU_FIX_ONLY"

definition getPBEnumForBatchingStatus_cases :: "hal_values \<Rightarrow> (int \<times> int) list" where
  "getPBEnumForBatchingStatus_cases hal =
     [(hal ''BATCHING_STATUS_TRIP_COMPLETED'', PB_BATCHING_STATUS_TRIP_COMPLETED),
      (hal ''BATCHING_STATUS_POSITION_AVAILABE'', PB_BATCHING_STATUS_POSITION_AVAILABE),
      (hal ''BATCHING_STATUS_POSITION_UNAVAILABLE'', PB_BATCHING_STATUS_POSITION_UNAVAILABLE)]"

definition getPBEnumForBatchingStatus :: "hal_values \<Rightarrow> int \<Rightarrow> int" where
  "getPBEnumForBatchingStatus hal batchStatus =
     switch_on batchStatus (getPBEnumForBatchingStatus_cases hal) PB_BATCHING_STATUS_POSITION_UNAVAILABLE"

definition getPBEnumForLocationReliability_cases :: "hal_values \<Rightarrow> (int \<times> int) list" where
  "getPBEnumForLocationReliability_cases hal =
     [(hal ''LOCATION_RELIABILITY_NOT_SET'', PB_LOCATION_RELIABILITY_NOT_SET),
      (hal ''LOCATION_RELIABILITY_VERY_LOW'', PB_LOCATION_RELIABILITY_VERY_LOW),
      (hal ''LOCATION_RELIABILITY_LOW'', PB_LOCATION_RELIABILITY_LOW),
      (hal ''LOCATION_RELIABILITY_MEDIUM'', PB_LOCATION_RELIABILITY_MEDIUM),
      (hal ''LOCATION_RELIABILITY_HIGH'', PB_LOCATION_RELIABILITY_HIGH)]"

definition getPBEnumForLocationReliability :: "hal_values \<Rightarrow> int \<Rightarrow> int" where
  "getPBEnumForLocationReliability hal locReliab =
     switch_on locReliab (getPBEnumForLocationReliability_cases hal) PB_LOCATION_RELIABILITY_NOT_SET"

definition getPBEnumForLocOutputEngineType_cases :: "hal_values \<Rightarrow> (int \<times> int) list" where
  "getPBEnumForLocOutputEngineType_cases hal =
     [(hal ''LOC_OUTPUT_ENGINE_FUSED'', PB_LOC_OUTPUT_ENGINE_FUSED),
      (hal ''LOC_OUTPUT_ENGINE_SPE'', PB_LOC_OUTPUT_ENGINE_SPE),
      (hal ''LOC_OUTPUT_ENGINE_PPE'', PB_LOC_OUTPUT_ENGINE_PPE)]"

definition getPBEnumForLocOutputEngineType :: "hal_values \<Rightarrow> int \<Rightarrow> int" where
  "getPBEnumForLocOutputEngineType hal locOpEng =
     switch_on locOpEng (getPBEnumForLocOutputEngineType_cases hal) PB_LOC_OUTPUT_ENGINE_FUSED"

definition getPBEnumForGnssMeasMultiPathIndic_cases :: "hal_values \<Rightarrow> (int \<times> int) list" where
  "getPBEnumForGnssMeasMultiPathIndic_cases hal =
     [
      (hal ''GNSS_MEASUREMENTS_MULTIPATH_INDICATOR_UNKNOWN'', PB_GNSS_MEASUREMENTS_MULTIPATH_INDICATOR_UNKNOWN),
      (hal ''GNSS_MEASUREMENTS_MULTIPATH_INDICATOR_PRESENT'', PB_GNSS_MEASUREMENTS_MULTIPATH_INDICATOR_PRESENT),
      (hal ''GNSS_MEASUREMENTS_MULTIPATH_INDICATOR_NOT_PRESENT'', PB_GNSS_MEASUREMENTS_MULTIPATH_INDICATOR_NOT_PRESENT)]"

definition getPBEnumForGnssMeasMultiPathIndic :: "hal_values \<Rightarrow> int \<Rightarrow> int" where
  "getPBEnumForGnssMeasMultiPathIndic hal gnssMeasMultiPathIndic =
     switch_on gnssMeasMultiPathIndic (getPBEnumForGnssMeasMultiPathIndic_cases hal) PB_GNSS_MEASUREMENTS_MULTIPATH_INDICATOR_UNKNOWN"

definition getPBEnumForGnssLocSvSystem_cases :: "hal_values \<Rightarrow> (int \<times> int) list" where
  "getPBEnumForGnssLocSvSystem_cases hal =
     [(hal ''GNSS_LOC_SV_SYSTEM_GPS'', PB_GNSS_LOC_SV_SYSTEM_GPS),
      (hal ''GNSS_LOC_SV_SYSTEM_GALILEO'', PB_GNSS_LOC_SV_SYSTEM_GALILEO),
      (hal ''GNSS_LOC_SV_SYSTEM_SBAS'', PB_GNSS_LOC_SV_SYSTEM_SBAS),
      (hal ''GNSS_LOC_SV_SYSTEM_GLONASS'', PB_GNSS_LOC_SV_SYSTEM_GLONASS),
      (hal ''GNSS_LOC_SV_SYSTEM_BDS'', PB_GNSS_LOC_SV_SYSTEM_BDS),
      (hal ''GNSS_LOC_SV_SYSTEM_QZSS'', PB_GNSS_LOC_SV_SYSTEM_QZSS),
      (hal ''GNSS_LOC_SV_SYSTEM_NAVIC'', PB_GNSS_LOC_SV_SYSTEM_NAVIC)]"

definition getPBEnumForGnssLocSvSystem :: "hal_values \<Rightarrow> int \<Rightarrow> int" where
  "getPBEnumForGnssLocSvSystem hal gnssLocSvSysEnumType =
     switch_on gnssLocSvSysEnumType (getPBEnumForGnssLocSvSystem_cases hal) PB_GNSS_LOC_SV_SYSTEM_INVALID"

definition getPBEnumForAgcStatus_cases :: "hal_values \<Rightarrow> (int \<times> int) list" where
  "getPBEnumForAgcStatus_cases hal =
     [(hal ''AGC_STATUS_NO_SATURATION'', PB_AGC_STATUS_NO_SATURATION),
      (hal ''AGC_STATUS_FRONT_END_GAIN_MAXIMUM_SATURATION'', PB_AGC_STATUS_FRONT_END_GAIN_MAXIMUM_SATURATION),
      (hal ''AGC_STATUS_FRONT_END_GAIN_MINIMUM_SATURATION'', PB_AGC_STATUS_FRONT_END_GAIN_MINIMUM_SATURATION)]"

definition getPBEnumForAgcStatus :: "hal_values \<Rightarrow> int \<Rightarrow> int" where
  "getPBEnumForAgcStatus hal agcStatus =
     switch_on agcStatus (getPBEnumForAgcStatus_cases hal) PB_AGC_STATUS_UNKNOWN"

definition getPBGnssLocSvSysEnumFromGnssSvType_cases :: "hal_values \<Rightarrow> (int \<times> int) list" where
  "getPBGnssLocSvSysEnumFromGnssSvType_cases hal =
     [(hal ''GNSS_SV_TYPE_UNKNOWN'', PB_GNSS_LOC_SV_SYSTEM_INVALID),
      (hal ''GNSS_SV_TYPE_GPS'', PB_GNSS_LOC_SV_SYSTEM_GPS),
      (hal ''GNSS_SV_TYPE_SBAS'', PB_GNSS_LOC_SV_SYSTEM_SBAS),
      (hal ''GNSS_SV_TYPE_GLONASS'', PB_GNSS_LOC_SV_SYSTEM_GLONASS),
      (hal ''GNSS_SV_TYPE_QZSS'', PB_GNSS_LOC_SV_SYSTEM_QZSS),
      (hal ''GNSS_SV_TYPE_BEIDOU'', PB_GNSS_LOC_SV_SYSTEM_BDS),
      (hal ''GNSS_SV_TYPE_GALILEO'', PB_GNSS_LOC_SV_SYSTEM_GALILEO),
      (hal ''GNSS_SV_TYPE_NAVIC'', PB_GNSS_LOC_SV_SYSTEM_NAVIC)]"

definition getPBGnssLocSvSysEnumFromGnssSvType :: "hal_values \<Rightarrow> int \<Rightarrow> int" where
  "getPBGnssLocSvSysEnumFromGnssSvType hal gnssSvType =
     switch_on gnssSvType (getPBGnssLocSvSysEnumFromGnssSvType_cases hal) PB_GNSS_LOC_SV_SYSTEM_INVALID"

definition getPBEnumForLocSessionStatus_cases :: "hal_values \<Rightarrow> (int \<times> int) list" where
  "getPBEnumForLocSessionStatus_cases hal =
     [(hal ''LOC_SESS_SUCCESS'', PB_LOCATION_SESS_SUCCESS),
      (hal ''LOC_SESS_INTERMEDIATE'', PB_LOCATION_SESS_INTERMEDIATE)]"

definition getPBEnumForLocSessionStatus :: "hal_values \<Rightarrow> int \<Rightarrow> int" where
  "getPBEnumForLocSessionStatus hal status =
     switch_on status (getPBEnumForLocSessionStatus_cases hal) PB_LOCATION_SESS_FAILURE"

definition getLocSessionStatusFromPB :: "hal_values \<Rightarrow> int \<Rightarrow> int" where
  "getLocSessionStatusFromPB hal pbStatus = switch_on pbStatus
     [(PB_LOCATION_SESS_SUCCESS, hal ''LOC_SESS_SUCCESS''),
      (PB_LOCATION_SESS_INTERMEDIATE, hal ''LOC_SESS_INTERMEDIATE'')]
     (hal ''LOC_SESS_FAILURE'')"

definition getPBMeasCodeType_cases :: "hal_values \<Rightarrow> (int \<times> int) list" where
  "getPBMeasCodeType_cases hal =
     [(hal ''GNSS_MEASUREMENTS_CODE_TYPE_A'', PB_GNSS_MEASUREMENTS_CODE_TYPE_A),
      (hal ''GNSS_MEASUREMENTS_CODE_TYPE_B'', PB_GNSS_MEASUREMENTS_CODE_TYPE_B),
      (hal ''GNSS_MEASUREMENTS_CODE_TYPE_C'', PB_GNSS_MEASUREMENTS_CODE_TYPE_C),
      (hal ''GNSS_MEASUREMENTS_CODE_TYPE_I'', PB_GNSS_MEASUREMENTS_CODE_TYPE_I),
      (hal ''GNSS_MEASUREMENTS_CODE_TYPE_L'', PB_GNSS_MEASUREMENTS_CODE_TYPE_L),
      (hal ''GNSS_MEASUREMENTS_CODE_TYPE_M'', PB_GNSS_MEASUREMENTS_CODE_TYPE_M),
      (hal ''GNSS_MEASUREMENTS_CODE_TYPE_P'', PB_GNSS_MEASUREMENTS_CODE_TYPE_P),
      (hal ''GNSS_MEASUREMENTS_CODE_TYPE_Q'', PB_GNSS_MEASUREMENTS_CODE_TYPE_Q),
      (hal ''GNSS_MEASUREMENTS_CODE_TYPE_S'', PB_GNSS_MEASUREMENTS_CODE_TYPE_S),
      (hal ''GNSS_MEASUREMENTS_CODE_TYPE_W'', PB_GNSS_MEASUREMENTS_CODE_TYPE_W),
      (hal ''GNSS_MEASUREMENTS_CODE_TYPE_X'', PB_GNSS_MEASUREMENTS_CODE_TYPE_X),
      (hal ''GNSS_MEASUREMENTS_CODE_TYPE_Y'', PB_GNSS_MEASUREMENTS_CODE_TYPE_Y),
      (hal ''GNSS_MEASUREMENTS_CODE_TYPE_Z'', PB_GNSS_MEASUREMENTS_CODE_TYPE_Z),
      (hal ''GNSS_MEASUREMENTS_CODE_TYPE_N'', PB_GNSS_MEASUREMENTS_CODE_TYPE_N),
      (hal ''GNSS_MEASUREMENTS_CODE_TYPE_D'', PB_GNSS_MEASUREMENTS_CODE_TYPE_D),
      (hal ''GNSS_MEASUREMENTS_CODE_TYPE_E'', PB_GNSS_MEASUREMENTS_CODE_TYPE_E)]"

definition getPBMeasCodeType :: "hal_values \<Rightarrow> int \<Rightarrow> int" where
  "getPBMeasCodeType hal measCodeType =
     switch_on measCodeType (getPBMeasCodeType_cases hal) PB_GNSS_MEASUREMENTS_CODE_TYPE_OTHER"

definition getMeasCodeTypeFromPB :: "hal_values \<Rightarrow> int \<Rightarrow> int" where
  "getMeasCodeTypeFromPB hal pbMeasCodeType = switch_on pbMeasCodeType
     [(PB_GNSS_MEASUREMENTS_CODE_TYPE_A, hal ''GNSS_MEASUREMENTS_CODE_TYPE_A''),
      (PB_GNSS_MEASUREMENTS_CODE_TYPE_B, hal ''GNSS_MEASUREMENTS_CODE_TYPE_B''),
      (PB_GNSS_MEASUREMENTS_CODE_TYPE_C, hal ''GNSS_MEASUREMENTS_CODE_TYPE_C''),
      (PB_GNSS_MEASUREMENTS_CODE_TYPE_I, hal ''GNSS_MEASUREMENTS_CODE_TYPE_I''),
      (PB_GNSS_MEASUREMENTS_CODE_TYPE_L, hal ''GNSS_MEASUREMENTS_CODE_TYPE_L''),
      (PB_GNSS_MEASUREMENTS_CODE_TYPE_M, hal ''GNSS_MEASUREMENTS_CODE_TYPE_M''),
      (PB_GNSS_MEASUREMENTS_CODE_TYPE_P, hal ''GNSS_MEASUREMENTS_CODE_TYPE_P''),
      (PB_GNSS_MEASUREMENTS_CODE_TYPE_Q, hal ''GNSS_MEASUREMENTS_CODE_TYPE_Q''),
      (PB_GNSS_MEASUREMENTS_CODE_TYPE_S, hal ''GNSS_MEASUREMENTS_CODE_TYPE_S''),
      (PB_GNSS_MEASUREMENTS_CODE_TYPE_W, hal ''GNSS_MEASUREMENTS_CODE_TYPE_W''),
      (PB_GNSS_MEASUREMENTS_CODE_TYPE_X, hal ''GNSS_MEASUREMENTS_CODE_TYPE_X''),
      (PB_GNSS_MEASUREMENTS_CODE_TYPE_Y, hal ''GNSS_MEASUREMENTS_CODE_TYPE_Y''),
      (PB_GNSS_MEASUREMENTS_CODE_TYPE_Z, hal ''GNSS_MEASUREMENTS_CODE_TYPE_Z''),
      (PB_GNSS_MEASUREMENTS_CODE_TYPE_N, hal ''GNSS_MEASUREMENTS_CODE_TYPE_N''),
      (PB_GNSS_MEASUREMENTS_CODE_TYPE_D, hal ''GNSS_MEASUREMENTS_CODE_TYPE_D''),
      (PB_GNSS_MEASUREMENTS_CODE_TYPE_E, hal ''GNSS_MEASUREMENTS_CODE_TYPE_E'')]
     (hal ''GNSS_MEASUREMENTS_CODE_TYPE_OTHER'')"

definition getPBEnumForGnssEphemerisType_cases :: "hal_values \<Rightarrow> (int \<times> int) list" where
  "getPBEnumForGnssEphemerisType_cases hal =
     [(hal ''GNSS_EPH_TYPE_UNKNOWN'', PB_GNSS_EPH_TYPE_UNKNOWN),
      (hal ''GNSS_EPH_TYPE_EPHEMERIS'', PB_GNSS_EPH_TYPE_EPHEMERIS),
      (hal ''GNSS_EPH_TYPE_ALMANAC'', PB_GNSS_EPH_TYPE_ALMANAC)]"

definition getPBEnumForGnssEphemerisType :: "hal_values \<Rightarrow> int \<Rightarrow> int" where
  "getPBEnumForGnssEphemerisType hal ephemerisType =
     switch_on ephemerisType (getPBEnumForGnssEphemerisType_cases hal) PB_GNSS_EPH_TYPE_UNKNOWN"

definition getPBEnumForGnssEphemerisSource_cases :: "hal_values \<Rightarrow> (int \<times> int) list" where
  "getPBEnumForGnssEphemerisSource_cases hal =
     [(hal ''GNSS_EPH_SOURCE_UNKNOWN'', PB_GNSS_EPH_SOURCE_UNKNOWN),
      (hal ''GNSS_EPH_SOURCE_DEMODULATED'', PB_GNSS_EPH_SOURCE_DEMODULATED),
      (hal ''GNSS_EPH_SOURCE_SUPL_PROVIDED'', PB_GNSS_EPH_SOURCE_SUPL_PROVIDED),
      (hal ''GNSS_EPH_SOURCE_OTHER_SERVER_PROVIDED'', PB_GNSS_EPH_SOURCE_OTHER_SERVER_PROVIDED),
      (hal ''GNSS_EPH_SOURCE_LOCAL'', PB_GNSS_EPH_SOURCE_LOCAL)]"

definition getPBEnumForGnssEphemerisSource :: "hal_values \<Rightarrow> int \<Rightarrow> int" where
  "getPBEnumForGnssEphemerisSource hal ephemerisSource =
     switch_on ephemerisSource (getPBEnumForGnssEphemerisSource_cases hal) PB_GNSS_EPH_SOURCE_UNKNOWN"

definition getPBEnumForGnssEphemerisHealth_cases :: "hal_values \<Rightarrow> (int \<times> int) list" where
  "getPBEnumForGnssEphemerisHealth_cases hal =
     [(hal ''GNSS_EPH_HEALTH_UNKNOWN'', PB_GNSS_EPH_HEALTH_UNKNOWN),
      (hal ''GNSS_EPH_HEALTH_GOOD'', PB_GNSS_EPH_HEALTH_GOOD),
      (hal ''GNSS_EPH_HEALTH_BAD'', PB_GNSS_EPH_HEALTH_BAD)]"

definition getPBEnumForGnssEphemerisHealth :: "hal_values \<Rightarrow> int \<Rightarrow> int" where
  "getPBEnumForGnssEphemerisHealth hal ephemerisHealth =
     switch_on ephemerisHealth (getPBEnumForGnssEphemerisHealth_cases hal) PB_GNSS_EPH_HEALTH_UNKNOWN"

definition getEnumForPBGnssEphemerisType :: "hal_values \<Rightarrow> int \<Rightarrow> int" where
  "getEnumForPBGnssEphemerisType hal pbGnssEphemerisType = switch_on pbGnssEphemerisType
     [(PB_GNSS_EPH_TYPE_UNKNOWN, hal ''GNSS_EPH_TYPE_UNKNOWN''),
      (PB_GNSS_EPH_TYPE_EPHEMERIS, hal ''GNSS_EPH_TYPE_EPHEMERIS''),
      (PB_GNSS_EPH_TYPE_ALMANAC, hal ''GNSS_EPH_TYPE_ALMANAC'')]
     (hal ''GNSS_EPH_TYPE_UNKNOWN'')"

definition getEnumForPBGnssEphemerisSource :: "hal_values \<Rightarrow> int \<Rightarrow> int" where
  "getEnumForPBGnssEphemerisSource hal pbGnssEphemerisSource = switch_on pbGnssEphemerisSource
     [(PB_GNSS_EPH_SOURCE_UNKNOWN, hal ''GNSS_EPH_SOURCE_UNKNOWN''),
      (PB_GNSS_EPH_SOURCE_DEMODULATED, hal ''GNSS_EPH_SOURCE_DEMODULATED''),
      (PB_GNSS_EPH_SOURCE_SUPL_PROVIDED, hal ''GNSS_EPH_SOURCE_SUPL_PROVIDED''),
      (PB_GNSS_EPH_SOURCE_OTHER_SERVER_PROVIDED, hal ''GNSS_EPH_SOURCE_OTHER_SERVER_PROVIDED''),
      (PB_GNSS_EPH_SOURCE_LOCAL, hal ''GNSS_EPH_SOURCE_LOCAL'')]
     (hal ''GNSS_EPH_SOURCE_UNKNOWN'')"

definition getEnumForPBGnssEphemerisHealth :: "hal_values \<Rightarrow> int \<Rightarrow> int" where
  "getEnumForPBGnssEphemerisHealth hal pbGnssEphemerisHealth = switch_on pbGnssEphemerisHealth
     [(PB_GNSS_EPH_HEALTH_UNKNOWN, hal ''GNSS_EPH_HEALTH_UNKNOWN''),
      (PB_GNSS_EPH_HEALTH_GOOD, hal ''GNSS_EPH_HEALTH_GOOD''),
      (PB_GNSS_EPH_HEALTH_BAD, hal ''GNSS_EPH_HEALTH_BAD'')]
     (hal ''GNSS_EPH_HEALTH_UNKNOWN'')"

definition getPBEphAction_cases :: "hal_values \<Rightarrow> (int \<times> int) list" where
  "getPBEphAction_cases hal =
     [(hal ''GNSS_EPH_ACTION_UPDATE_SRC_UNKNOWN_V02'', PB_GNSS_EPH_ACTION_UPDATE_SRC_UNKNOWN_V02),
      (hal ''GNSS_EPH_ACTION_UPDATE_SRC_OTA_V02'', PB_GNSS_EPH_ACTION_UPDATE_SRC_OTA_V02),
      (hal ''GNSS_EPH_ACTION_UPDATE_SRC_NETWORK_V02'', PB_GNSS_EPH_ACTION_UPDATE_SRC_NETWORK_V02),
      (hal ''GNSS_EPH_ACTION_UPDATE_MAX_V02'', PB_GNSS_EPH_ACTION_UPDATE_MAX_V02),
      (hal ''GNSS_EPH_ACTION_DELETE_SRC_UNKNOWN_V02'', PB_GNSS_EPH_ACTION_DELETE_SRC_UNKNOWN_V02),
      (hal ''GNSS_EPH_ACTION_DELETE_SRC_NETWORK_V02'', PB_GNSS_EPH_ACTION_DELETE_SRC_NETWORK_V02),
      (hal ''GNSS_EPH_ACTION_DELETE_SRC_OTA_V02'', PB_GNSS_EPH_ACTION_DELETE_SRC_OTA_V02),
      (hal ''GNSS_EPH_ACTION_DELETE_MAX_V02'', PB_GNSS_EPH_ACTION_DELETE_MAX_V02)]"

definition getPBEphAction :: "hal_values \<Rightarrow> int \<Rightarrow> int" where
  "getPBEphAction hal ephAction =
     switch_on ephAction (getPBEphAction_cases hal) PB_GNSS_EPH_ACTION_UPDATE_SRC_UNKNOWN_V02"

definition convertDataSignalSourceToPB_cases :: "hal_values \<Rightarrow> (int \<times> int) list" where
  "convertDataSignalSourceToPB_cases hal =
     [(hal ''GAL_EPH_SIGNAL_SRC_E1B_V02'', PB_GAL_EPH_SIGNAL_SRC_E1B),
      (hal ''GAL_EPH_SIGNAL_SRC_E5A_V02'', PB_GAL_EPH_SIGNAL_SRC_E5A),
      (hal ''GAL_EPH_SIGNAL_SRC_E5B_V02'', PB_GAL_EPH_SIGNAL_SRC_E5B)]"

definition convertDataSignalSourceToPB :: "hal_values \<Rightarrow> int \<Rightarrow> int" where
  "convertDataSignalSourceToPB hal ephSignal =
     switch_on ephSignal (convertDataSignalSourceToPB_cases hal) PB_GAL_EPH_SIGNAL_SRC_UNKNOWN"

definition pbConvertToEphAction :: "hal_values \<Rightarrow> int \<Rightarrow> int" where
  "pbConvertToEphAction hal pbEphAction = switch_on pbEphAction
     [(PB_GNSS_EPH_ACTION_UPDATE_SRC_UNKNOWN_V02, hal ''GNSS_EPH_ACTION_UPDATE_SRC_UNKNOWN_V02''),
      (PB_GNSS_EPH_ACTION_UPDATE_SRC_OTA_V02, hal ''GNSS_EPH_ACTION_UPDATE_SRC_OTA_V02''),
      (PB_GNSS_EPH_ACTION_UPDATE_SRC_NETWORK_V02, hal ''GNSS_EPH_ACTION_UPDATE_SRC_NETWORK_V02''),
      (PB_GNSS_EPH_ACTION_UPDATE_MAX_V02, hal ''GNSS_EPH_ACTION_UPDATE_MAX_V02''),
      (PB_GNSS_EPH_ACTION_DELETE_SRC_UNKNOWN_V02, hal ''GNSS_EPH_ACTION_DELETE_SRC_UNKNOWN_V02''),
      (PB_GNSS_EPH_ACTION_DELETE_SRC_NETWORK_V02, hal ''GNSS_EPH_ACTION_DELETE_SRC_NETWORK_V02''),
      (PB_GNSS_EPH_ACTION_DELETE_SRC_OTA_V02, hal ''GNSS_EPH_ACTION_DELETE_SRC_OTA_V02''),
      (PB_GNSS_EPH_ACTION_DELETE_MAX_V02, hal ''GNSS_EPH_ACTION_DELETE_MAX_V02'')]
     (hal ''GNSS_EPH_ACTION_UPDATE_SRC_UNKNOWN_V02'')"

definition pbConvertToDataSourceSignal :: "hal_values \<Rightarrow> int \<Rightarrow> int" where
  "pbConvertToDataSourceSignal hal pbSignal = switch_on pbSignal
     [(PB_GAL_EPH_SIGNAL_SRC_E1B, hal ''GAL_EPH_SIGNAL_SRC_E1B_V02''),
      (PB_GAL_EPH_SIGNAL_SRC_E5A, hal ''GAL_EPH_SIGNAL_SRC_E5A_V02''),
      (PB_GAL_EPH_SIGNAL_SRC_E5B, hal ''GAL_EPH_SIGNAL_SRC_E5B_V02'')]
     (hal ''GAL_EPH_SIGNAL_SRC_UNKNOWN_V02'')"

end
