(* ===== verification/PbRoundTrip.thy ===== *)
theory PbRoundTrip
  imports PbMasks PbEnums
begin

text \<open>
  What comes back from the protocol buffers is what went in: the pairs of conversions of
  \<open>LocationApiPbMsgConv.cpp\<close>, as lists, with the flags or values each pair knows.
\<close>

section \<open>Masks\<close>

lemma rows_back:
  fixes m :: "'a::len word"
  assumes "single_bits LENGTH('a) (map fst rows)" and "single_bits LENGTH('b::len) (map snd rows)"
  shows "copy_flags (map prod.swap rows) (copy_flags rows m :: 'b word) = m AND all_flags (map fst rows)"
proof -
  have "rows = zip (map fst rows) (map snd rows)" by (simp add: zip_map_fst_snd)
  moreover have "map prod.swap rows = zip (map snd rows) (map fst rows)"
    by (induction rows) (simp_all add: prod.swap_def)
  ultimately show ?thesis using copy_back [OF assms] by simp
qed

definition mask_ok :: "(hal_values \<Rightarrow> 'a::len word \<Rightarrow> 'b::len word) \<Rightarrow> (hal_values \<Rightarrow> 'b word \<Rightarrow> 'a word)
    \<Rightarrow> (hal_values \<Rightarrow> (int \<times> int) list) \<Rightarrow> hal_values \<Rightarrow> 'a word \<Rightarrow> 'b word \<Rightarrow> bool" where
  "mask_ok enc dec flags hal m p \<longleftrightarrow>
     dec hal (enc hal m) = m AND all_flags (map fst (flags hal)) \<and>
     enc hal (dec hal p) = p AND all_flags (map snd (flags hal))"

lemma mask_okD: "mask_ok enc dec flags hal m p \<Longrightarrow> dec hal (enc hal m) = m AND all_flags (map fst (flags hal))"
  by (simp add: mask_ok_def)

text \<open>How a pair of conversions is written: the same flags, in both directions, that are different bits of the
  protocol buffers' word.\<close>

definition mask_rows :: "(hal_values \<Rightarrow> 'a::len word \<Rightarrow> 'b::len word) \<Rightarrow> (hal_values \<Rightarrow> 'b word \<Rightarrow> 'a word)
    \<Rightarrow> (hal_values \<Rightarrow> (int \<times> int) list) \<Rightarrow> hal_values \<Rightarrow> bool" where
  "mask_rows enc dec flags hal \<longleftrightarrow>
     (\<forall>m. enc hal m = copy_flags (flags hal) m) \<and> (\<forall>p. dec hal p = copy_flags (map prod.swap (flags hal)) p) \<and>
     single_bits LENGTH('b) (map snd (flags hal))"

lemma mask_rowsI:
  fixes enc :: "hal_values \<Rightarrow> 'a::len word \<Rightarrow> 'b::len word"
  assumes "\<And>m. enc hal m = copy_flags (flags hal) m" and "\<And>p. dec hal p = copy_flags (map prod.swap (flags hal)) p"
    and "single_bits LENGTH('b) (map snd (flags hal))"
  shows "mask_rows enc dec flags hal"
  using assms by (simp add: mask_rows_def)

lemma mask_rows_ok:
  fixes enc :: "hal_values \<Rightarrow> 'a::len word \<Rightarrow> 'b::len word"
  assumes "mask_rows enc dec flags hal" and "single_bits LENGTH('a) (map fst (flags hal))"
  shows "mask_ok enc dec flags hal m p"
proof -
  let ?sw = "map prod.swap (flags hal)"
  have r: "\<And>m. enc hal m = copy_flags (flags hal) m" "\<And>p. dec hal p = copy_flags ?sw p"
    "single_bits LENGTH('b) (map snd (flags hal))" using assms(1) by (simp_all add: mask_rows_def)
  have s: "map fst ?sw = map snd (flags hal)" "map snd ?sw = map fst (flags hal)" "map prod.swap ?sw = flags hal"
    by simp_all
  have "copy_flags (map prod.swap ?sw) (copy_flags ?sw p :: 'a word) = p AND all_flags (map fst ?sw)"
    by (rule rows_back) (simp_all only: s r(3) assms(2))
  with rows_back [OF assms(2) r(3), of m] show ?thesis by (simp only: mask_ok_def r(1,2) s)
qed

text \<open>For the way there and back alone the HAL's flags need not differ: each is a single bit or empty.\<close>

definition flag_bits :: "nat \<Rightarrow> int list \<Rightarrow> bool" where
  "flag_bits w cs \<longleftrightarrow> list_all (\<lambda>c. c = 0 \<or> c \<in> set (map ((^) 2) [0..<w])) cs"

lemma flag_bitsD: "flag_bits w cs \<Longrightarrow> c \<in> set cs \<Longrightarrow> c = 0 \<or> (\<exists>i < w. c = 2 ^ i)"
  by (auto simp: flag_bits_def list_all_iff)

lemma tested_flag:
  fixes m :: "'a::len word"
  assumes "flag_bits LENGTH('a) cs" and "c \<in> set cs"
  shows "m AND word_of_int c \<noteq> 0 \<and> bit (word_of_int c :: 'a word) j \<longleftrightarrow> bit m j \<and> bit (word_of_int c :: 'a word) j"
  using flag_bitsD [OF assms] test_flag [of m j] by (auto simp: bit_flag)

lemma rows_known:
  fixes m :: "'a::len word"
  assumes "flag_bits LENGTH('a) (map fst rows)" and "single_bits LENGTH('b::len) (map snd rows)"
  shows "copy_flags (map prod.swap rows) (copy_flags rows m :: 'b word) = m AND all_flags (map fst rows)"
proof (rule bit_word_eqI)
  fix j
  let ?b = "copy_flags rows m :: 'b word"
  have d: "distinct (map snd rows)" using assms(2) by (simp add: single_bits_def)
  have t: "?b AND word_of_int d \<noteq> 0 \<longleftrightarrow> m AND word_of_int c \<noteq> 0" if cd: "(c, d) \<in> set rows" for c d
  proof -
    have "d \<in> set (map snd rows)" using cd by force
    with single_bitsD [OF assms(2)] obtain i where i: "d = 2 ^ i" "i < LENGTH('b)" by blast
    have u: "c' = c" if "(c', d) \<in> set rows" for c'
      using eq_key_imp_eq_value [of "map prod.swap rows" d c' c] d that cd by (force simp: comp_def)
    have o: "bit (word_of_int d' :: 'b word) i \<longleftrightarrow> d' = d" if "(c', d') \<in> set rows" for c' d'
    proof -
      have "d' \<in> set (map snd rows)" using that by force
      with single_bitsD [OF assms(2)] obtain k where "d' = 2 ^ k" "k < LENGTH('b)" by blast
      then show ?thesis using i by (auto simp: bit_flag)
    qed
    have "?b AND word_of_int d \<noteq> 0 \<longleftrightarrow> bit ?b i" unfolding i(1) by (rule test_flag)
    also have "\<dots> \<longleftrightarrow> m AND word_of_int c \<noteq> 0" unfolding bit_copy_flags using u o cd by fast
    finally show ?thesis .
  qed
  have "bit (copy_flags (map prod.swap rows) ?b :: 'a word) j \<longleftrightarrow>
      (\<exists>(c, d) \<in> set rows. m AND word_of_int c \<noteq> 0 \<and> bit (word_of_int c :: 'a word) j)"
    unfolding bit_copy_flags using t by force
  also have "\<dots> \<longleftrightarrow> (\<exists>(c, d) \<in> set rows. bit m j \<and> bit (word_of_int c :: 'a word) j)"
    using tested_flag [OF assms(1), of _ m j] by force
  finally show "bit (copy_flags (map prod.swap rows) ?b :: 'a word) j \<longleftrightarrow> bit (m AND all_flags (map fst rows)) j"
    unfolding bit_and_iff bit_all_flags by force
qed

lemma single_flag_bits: "single_bits w cs \<Longrightarrow> flag_bits w cs"
  by (simp add: single_bits_def flag_bits_def list_all_iff)

lemma flag_bits_append: "flag_bits w (xs @ ys) \<longleftrightarrow> flag_bits w xs \<and> flag_bits w ys"
  by (simp add: flag_bits_def)

lemma mask_rows_known:
  fixes enc :: "hal_values \<Rightarrow> 'a::len word \<Rightarrow> 'b::len word"
  assumes "mask_rows enc dec flags hal" and "flag_bits LENGTH('a) (map fst (flags hal))"
  shows "dec hal (enc hal m) = m AND all_flags (map fst (flags hal))"
  using assms rows_known [OF assms(2), where 'b = 'b and m = m] by (simp add: mask_rows_def)

lemma TerrestrialTechMask_rows:
  "mask_rows getPBMaskForTerrestrialTechMask getTerrestrialTechMaskFromPB getPBMaskForTerrestrialTechMask_flags hal"
proof (rule mask_rowsI)
  show "getPBMaskForTerrestrialTechMask hal q = copy_flags (getPBMaskForTerrestrialTechMask_flags hal) q" for q
    by (simp add: getPBMaskForTerrestrialTechMask_def)
  show "getTerrestrialTechMaskFromPB hal q = copy_flags (map prod.swap (getPBMaskForTerrestrialTechMask_flags hal)) q" for q
    by (simp add: getTerrestrialTechMaskFromPB_def getPBMaskForTerrestrialTechMask_flags_def)
  show "single_bits LENGTH(32) (map snd (getPBMaskForTerrestrialTechMask_flags hal))" unfolding len_of_numeral_defs by code_simp
qed

lemma NmeaTypesMask_rows:
  assumes "hal ''NMEA_TYPE_NONE'' = 0"
  shows "mask_rows getPBMaskForNmeaTypesMask getNmeaTypesMaskFromPB getPBMaskForNmeaTypesMask_flags hal"
proof (rule mask_rowsI)
  show "getPBMaskForNmeaTypesMask hal q = copy_flags (getPBMaskForNmeaTypesMask_flags hal) q" for q
    by (simp add: getPBMaskForNmeaTypesMask_def)
  show "getNmeaTypesMaskFromPB hal q = copy_flags (map prod.swap (getPBMaskForNmeaTypesMask_flags hal)) q" for q
    by (simp add: getNmeaTypesMaskFromPB_def getPBMaskForNmeaTypesMask_flags_def copy_flags_def assms)
  show "single_bits LENGTH(32) (map snd (getPBMaskForNmeaTypesMask_flags hal))" unfolding len_of_numeral_defs by code_simp
qed

lemma LocationCallbacksMask_rows:
  "mask_rows getPBMaskForLocationCallbacksMask getLocationCallbacksMaskFromPB getPBMaskForLocationCallbacksMask_flags hal"
proof (rule mask_rowsI)
  show "getPBMaskForLocationCallbacksMask hal q = copy_flags (getPBMaskForLocationCallbacksMask_flags hal) q" for q
    by (simp add: getPBMaskForLocationCallbacksMask_def)
  show "getLocationCallbacksMaskFromPB hal q = copy_flags (map prod.swap (getPBMaskForLocationCallbacksMask_flags hal)) q" for q
    by (simp add: getLocationCallbacksMaskFromPB_def getPBMaskForLocationCallbacksMask_flags_def)
  show "single_bits LENGTH(32) (map snd (getPBMaskForLocationCallbacksMask_flags hal))" unfolding len_of_numeral_defs by code_simp
qed

lemma PositioningEngineMask_rows:
  "mask_rows getPBMaskForPositioningEngineMask getEnumForPBPositioningEngineMask getPBMaskForPositioningEngineMask_flags hal"
proof (rule mask_rowsI)
  show "getPBMaskForPositioningEngineMask hal q = copy_flags (getPBMaskForPositioningEngineMask_flags hal) q" for q
    by (simp add: getPBMaskForPositioningEngineMask_def)
  fix q
  have "set [(PB_STANDARD_POSITIONING_ENGINE, hal ''STANDARD_POSITIONING_ENGINE''),
      (PB_PRECISE_POSITIONING_ENGINE, hal ''PRECISE_POSITIONING_ENGINE''),
      (PB_DEAD_RECKONING_ENGINE, hal ''DEAD_RECKONING_ENGINE'')] = set (map prod.swap (getPBMaskForPositioningEngineMask_flags hal))"
    by (simp add: getPBMaskForPositioningEngineMask_flags_def insert_commute)
  from copy_flags_cong [OF this, of q] show "getEnumForPBPositioningEngineMask hal q = copy_flags (map prod.swap (getPBMaskForPositioningEngineMask_flags hal)) q"
    by (simp only: getEnumForPBPositioningEngineMask_def)
  show "single_bits LENGTH(32) (map snd (getPBMaskForPositioningEngineMask_flags hal))" unfolding len_of_numeral_defs by code_simp
qed

lemma LeverArmTypeMask_rows:
  "mask_rows getPBMaskForLeverArmTypeMask getLeverArmTypeMaskFromPB getPBMaskForLeverArmTypeMask_flags hal"
proof (rule mask_rowsI)
  show "getPBMaskForLeverArmTypeMask hal q = copy_flags (getPBMaskForLeverArmTypeMask_flags hal) q" for q
    by (simp add: getPBMaskForLeverArmTypeMask_def)
  show "getLeverArmTypeMaskFromPB hal q = copy_flags (map prod.swap (getPBMaskForLeverArmTypeMask_flags hal)) q" for q
    by (simp add: getLeverArmTypeMaskFromPB_def getPBMaskForLeverArmTypeMask_flags_def)
  show "single_bits LENGTH(32) (map snd (getPBMaskForLeverArmTypeMask_flags hal))" unfolding len_of_numeral_defs by code_simp
qed

lemma LocReqEngineTypeMask_rows:
  "mask_rows getPBMaskForLocReqEngineTypeMask getLocReqEngineTypeMaskFromPB getPBMaskForLocReqEngineTypeMask_flags hal"
proof (rule mask_rowsI)
  show "getPBMaskForLocReqEngineTypeMask hal q = copy_flags (getPBMaskForLocReqEngineTypeMask_flags hal) q" for q
    by (simp add: getPBMaskForLocReqEngineTypeMask_def)
  show "getLocReqEngineTypeMaskFromPB hal q = copy_flags (map prod.swap (getPBMaskForLocReqEngineTypeMask_flags hal)) q" for q
    by (simp add: getLocReqEngineTypeMaskFromPB_def getPBMaskForLocReqEngineTypeMask_flags_def)
  show "single_bits LENGTH(32) (map snd (getPBMaskForLocReqEngineTypeMask_flags hal))" unfolding len_of_numeral_defs by code_simp
qed

lemma GnssCfgRobustLocValidMask_rows:
  "mask_rows getPBMaskForGnssCfgRobustLocValidMask getGnssConfigRobustLocationValidMaskFromPB getPBMaskForGnssCfgRobustLocValidMask_flags hal"
proof (rule mask_rowsI)
  show "getPBMaskForGnssCfgRobustLocValidMask hal q = copy_flags (getPBMaskForGnssCfgRobustLocValidMask_flags hal) q" for q
    by (simp add: getPBMaskForGnssCfgRobustLocValidMask_def)
  show "getGnssConfigRobustLocationValidMaskFromPB hal q = copy_flags (map prod.swap (getPBMaskForGnssCfgRobustLocValidMask_flags hal)) q" for q
    by (simp add: getGnssConfigRobustLocationValidMaskFromPB_def getPBMaskForGnssCfgRobustLocValidMask_flags_def)
  show "single_bits LENGTH(32) (map snd (getPBMaskForGnssCfgRobustLocValidMask_flags hal))" unfolding len_of_numeral_defs by code_simp
qed

lemma LocSysInfoMask_rows:
  "mask_rows getPBMaskForLocSysInfoMask getLocationSystemInfoMaskFromPB getPBMaskForLocSysInfoMask_flags hal"
proof (rule mask_rowsI)
  show "getPBMaskForLocSysInfoMask hal q = copy_flags (getPBMaskForLocSysInfoMask_flags hal) q" for q
    by (simp add: getPBMaskForLocSysInfoMask_def)
  show "getLocationSystemInfoMaskFromPB hal q = copy_flags (map prod.swap (getPBMaskForLocSysInfoMask_flags hal)) q" for q
    by (simp add: getLocationSystemInfoMaskFromPB_def getPBMaskForLocSysInfoMask_flags_def)
  show "single_bits LENGTH(32) (map snd (getPBMaskForLocSysInfoMask_flags hal))" unfolding len_of_numeral_defs by code_simp
qed

lemma GnssAidingDataSvMask_rows:
  "mask_rows getPBMaskForGnssAidingDataSvMask getGnssAidingDataSvMaskFromPB getPBMaskForGnssAidingDataSvMask_flags hal"
proof (rule mask_rowsI)
  show "getPBMaskForGnssAidingDataSvMask hal q = copy_flags (getPBMaskForGnssAidingDataSvMask_flags hal) q" for q
    by (simp add: getPBMaskForGnssAidingDataSvMask_def)
  show "getGnssAidingDataSvMaskFromPB hal q = copy_flags (map prod.swap (getPBMaskForGnssAidingDataSvMask_flags hal)) q" for q
    by (simp add: getGnssAidingDataSvMaskFromPB_def getPBMaskForGnssAidingDataSvMask_flags_def)
  show "single_bits LENGTH(32) (map snd (getPBMaskForGnssAidingDataSvMask_flags hal))" unfolding len_of_numeral_defs by code_simp
qed

lemma LeapSecondSysInfoMask_rows:
  "mask_rows getPBMaskForLeapSecondSysInfoMask getLeapSecSysInfoMaskFromPB getPBMaskForLeapSecondSysInfoMask_flags hal"
proof (rule mask_rowsI)
  show "getPBMaskForLeapSecondSysInfoMask hal q = copy_flags (getPBMaskForLeapSecondSysInfoMask_flags hal) q" for q
    by (simp add: getPBMaskForLeapSecondSysInfoMask_def)
  show "getLeapSecSysInfoMaskFromPB hal q = copy_flags (map prod.swap (getPBMaskForLeapSecondSysInfoMask_flags hal)) q" for q
    by (simp add: getLeapSecSysInfoMaskFromPB_def getPBMaskForLeapSecondSysInfoMask_flags_def)
  show "single_bits LENGTH(32) (map snd (getPBMaskForLeapSecondSysInfoMask_flags hal))" unfolding len_of_numeral_defs by code_simp
qed

lemma GnssSystemTimeStructTypeFlags_rows:
  "mask_rows getPBMaskForGnssSystemTimeStructTypeFlags getGnssSystemTimeStructTypeFlagsFromPB getPBMaskForGnssSystemTimeStructTypeFlags_flags hal"
proof (rule mask_rowsI)
  show "getPBMaskForGnssSystemTimeStructTypeFlags hal q = copy_flags (getPBMaskForGnssSystemTimeStructTypeFlags_flags hal) q" for q
    by (simp add: getPBMaskForGnssSystemTimeStructTypeFlags_def)
  show "getGnssSystemTimeStructTypeFlagsFromPB hal q = copy_flags (map prod.swap (getPBMaskForGnssSystemTimeStructTypeFlags_flags hal)) q" for q
    by (simp add: getGnssSystemTimeStructTypeFlagsFromPB_def getPBMaskForGnssSystemTimeStructTypeFlags_flags_def)
  show "single_bits LENGTH(32) (map snd (getPBMaskForGnssSystemTimeStructTypeFlags_flags hal))" unfolding len_of_numeral_defs by code_simp
qed

lemma LocationFlagsMask_rows:
  "mask_rows getPBMaskForLocationFlagsMask getLocationFlagsMaskFromPB getPBMaskForLocationFlagsMask_flags hal"
proof (rule mask_rowsI)
  show "getPBMaskForLocationFlagsMask hal q = copy_flags (getPBMaskForLocationFlagsMask_flags hal) q" for q
    by (simp add: getPBMaskForLocationFlagsMask_def)
  show "getLocationFlagsMaskFromPB hal q = copy_flags (map prod.swap (getPBMaskForLocationFlagsMask_flags hal)) q" for q
    by (simp add: getLocationFlagsMaskFromPB_def getPBMaskForLocationFlagsMask_flags_def)
  show "single_bits LENGTH(32) (map snd (getPBMaskForLocationFlagsMask_flags hal))" unfolding len_of_numeral_defs by code_simp
qed

lemma LocationTechnologyMask_rows:
  "mask_rows getPBMaskForLocationTechnologyMask getLocationTechnologyMaskFromPB getPBMaskForLocationTechnologyMask_flags hal"
proof (rule mask_rowsI)
  show "getPBMaskForLocationTechnologyMask hal q = copy_flags (getPBMaskForLocationTechnologyMask_flags hal) q" for q
    by (simp add: getPBMaskForLocationTechnologyMask_def)
  show "getLocationTechnologyMaskFromPB hal q = copy_flags (map prod.swap (getPBMaskForLocationTechnologyMask_flags hal)) q" for q
    by (simp add: getLocationTechnologyMaskFromPB_def getPBMaskForLocationTechnologyMask_flags_def)
  show "single_bits LENGTH(32) (map snd (getPBMaskForLocationTechnologyMask_flags hal))" unfolding len_of_numeral_defs by code_simp
qed

lemma GnssLocationNavSolutionMask_rows:
  "mask_rows getPBMaskForGnssLocationNavSolutionMask getGnssLocationNavSolutionMaskFromPB getPBMaskForGnssLocationNavSolutionMask_flags hal"
proof (rule mask_rowsI)
  show "getPBMaskForGnssLocationNavSolutionMask hal q = copy_flags (getPBMaskForGnssLocationNavSolutionMask_flags hal) q" for q
    by (simp add: getPBMaskForGnssLocationNavSolutionMask_def)
  show "getGnssLocationNavSolutionMaskFromPB hal q = copy_flags (map prod.swap (getPBMaskForGnssLocationNavSolutionMask_flags hal)) q" for q
    by (simp add: getGnssLocationNavSolutionMaskFromPB_def getPBMaskForGnssLocationNavSolutionMask_flags_def)
  show "single_bits LENGTH(32) (map snd (getPBMaskForGnssLocationNavSolutionMask_flags hal))" unfolding len_of_numeral_defs by code_simp
qed

lemma GnssMeasurementsDataFlagsMask_rows:
  "mask_rows getPBMaskForGnssMeasurementsDataFlagsMask getGnssMeasurementsDataFlagsMaskFromPB getPBMaskForGnssMeasurementsDataFlagsMask_flags hal"
proof (rule mask_rowsI)
  show "getPBMaskForGnssMeasurementsDataFlagsMask hal q = copy_flags (getPBMaskForGnssMeasurementsDataFlagsMask_flags hal) q" for q
    by (simp add: getPBMaskForGnssMeasurementsDataFlagsMask_def)
  show "getGnssMeasurementsDataFlagsMaskFromPB hal q = copy_flags (map prod.swap (getPBMaskForGnssMeasurementsDataFlagsMask_flags hal)) q" for q
    by (simp add: getGnssMeasurementsDataFlagsMaskFromPB_def getPBMaskForGnssMeasurementsDataFlagsMask_flags_def)
  show "single_bits LENGTH(32) (map snd (getPBMaskForGnssMeasurementsDataFlagsMask_flags hal))" unfolding len_of_numeral_defs by code_simp
qed

lemma GnssMeasurementsAdrStateMask_rows:
  "mask_rows getPBMaskForGnssMeasurementsAdrStateMask getGnssMeasurementsAdrStateMaskFromPB (\<lambda>hal. tl (getPBMaskForGnssMeasurementsAdrStateMask_flags hal)) hal"
proof (rule mask_rowsI)
  show "getPBMaskForGnssMeasurementsAdrStateMask hal q = copy_flags ((\<lambda>hal. tl (getPBMaskForGnssMeasurementsAdrStateMask_flags hal)) hal) q" for q
    by (simp add: getPBMaskForGnssMeasurementsAdrStateMask_def getPBMaskForGnssMeasurementsAdrStateMask_flags_def copy_flags_def PB_GNSS_MEASUREMENTS_ACCUMULATED_DELTA_RANGE_STATE_UNKNOWN_def)
  show "getGnssMeasurementsAdrStateMaskFromPB hal q = copy_flags (map prod.swap ((\<lambda>hal. tl (getPBMaskForGnssMeasurementsAdrStateMask_flags hal)) hal)) q" for q
    by (simp add: getGnssMeasurementsAdrStateMaskFromPB_def getPBMaskForGnssMeasurementsAdrStateMask_flags_def)
  show "single_bits LENGTH(32) (map snd ((\<lambda>hal. tl (getPBMaskForGnssMeasurementsAdrStateMask_flags hal)) hal))" unfolding len_of_numeral_defs by code_simp
qed

lemma GnssMeasurementsClockFlagsMask_rows:
  "mask_rows getPBMaskForGnssMeasurementsClockFlagsMask getGnssMeasurementsClockFlagsMaskFromPB getPBMaskForGnssMeasurementsClockFlagsMask_flags hal"
proof (rule mask_rowsI)
  show "getPBMaskForGnssMeasurementsClockFlagsMask hal q = copy_flags (getPBMaskForGnssMeasurementsClockFlagsMask_flags hal) q" for q
    by (simp add: getPBMaskForGnssMeasurementsClockFlagsMask_def)
  show "getGnssMeasurementsClockFlagsMaskFromPB hal q = copy_flags (map prod.swap (getPBMaskForGnssMeasurementsClockFlagsMask_flags hal)) q" for q
    by (simp add: getGnssMeasurementsClockFlagsMaskFromPB_def getPBMaskForGnssMeasurementsClockFlagsMask_flags_def)
  show "single_bits LENGTH(32) (map snd (getPBMaskForGnssMeasurementsClockFlagsMask_flags hal))" unfolding len_of_numeral_defs by code_simp
qed

lemma GnssGloTimeStructTypeFlags_rows:
  "mask_rows getPBMaskForGnssGloTimeStructTypeFlags getGnssGloTimeStructTypeFlagsFromPB getPBMaskForGnssGloTimeStructTypeFlags_flags hal"
proof (rule mask_rowsI)
  show "getPBMaskForGnssGloTimeStructTypeFlags hal q = copy_flags (getPBMaskForGnssGloTimeStructTypeFlags_flags hal) q" for q
    by (simp add: getPBMaskForGnssGloTimeStructTypeFlags_def)
  show "getGnssGloTimeStructTypeFlagsFromPB hal q = copy_flags (map prod.swap (getPBMaskForGnssGloTimeStructTypeFlags_flags hal)) q" for q
    by (simp add: getGnssGloTimeStructTypeFlagsFromPB_def getPBMaskForGnssGloTimeStructTypeFlags_flags_def)
  show "single_bits LENGTH(32) (map snd (getPBMaskForGnssGloTimeStructTypeFlags_flags hal))" unfolding len_of_numeral_defs by code_simp
qed

lemma GnssSvOptionsMask_rows:
  "mask_rows getPBMaskForGnssSvOptionsMask getGnssSvOptionsMaskFromPB getPBMaskForGnssSvOptionsMask_flags hal"
proof (rule mask_rowsI)
  show "getPBMaskForGnssSvOptionsMask hal q = copy_flags (getPBMaskForGnssSvOptionsMask_flags hal) q" for q
    by (simp add: getPBMaskForGnssSvOptionsMask_def)
  show "getGnssSvOptionsMaskFromPB hal q = copy_flags (map prod.swap (getPBMaskForGnssSvOptionsMask_flags hal)) q" for q
    by (simp add: getGnssSvOptionsMaskFromPB_def getPBMaskForGnssSvOptionsMask_flags_def)
  show "single_bits LENGTH(32) (map snd (getPBMaskForGnssSvOptionsMask_flags hal))" unfolding len_of_numeral_defs by code_simp
qed

lemma GnssSignalTypeMask_rows:
  "mask_rows getPBMaskForGnssSignalTypeMask getGnssSignalTypeMaskFromPB getPBMaskForGnssSignalTypeMask_flags hal"
proof (rule mask_rowsI)
  show "getPBMaskForGnssSignalTypeMask hal q = copy_flags (getPBMaskForGnssSignalTypeMask_flags hal) q" for q
    by (simp add: getPBMaskForGnssSignalTypeMask_def)
  show "getGnssSignalTypeMaskFromPB hal q = copy_flags (map prod.swap (getPBMaskForGnssSignalTypeMask_flags hal)) q" for q
    by (simp add: getGnssSignalTypeMaskFromPB_def getPBMaskForGnssSignalTypeMask_flags_def)
  show "single_bits LENGTH(32) (map snd (getPBMaskForGnssSignalTypeMask_flags hal))" unfolding len_of_numeral_defs by code_simp
qed

lemma GeofenceBreachTypeMask_rows:
  "mask_rows getPBMaskForGeofenceBreachTypeMask getGfBreachTypeMaskFromPB getPBMaskForGeofenceBreachTypeMask_flags hal"
proof (rule mask_rowsI)
  show "getPBMaskForGeofenceBreachTypeMask hal q = copy_flags (getPBMaskForGeofenceBreachTypeMask_flags hal) q" for q
    by (simp add: getPBMaskForGeofenceBreachTypeMask_def)
  show "getGfBreachTypeMaskFromPB hal q = copy_flags (map prod.swap (getPBMaskForGeofenceBreachTypeMask_flags hal)) q" for q
    by (simp add: getGfBreachTypeMaskFromPB_def getPBMaskForGeofenceBreachTypeMask_flags_def)
  show "single_bits LENGTH(32) (map snd (getPBMaskForGeofenceBreachTypeMask_flags hal))" unfolding len_of_numeral_defs by code_simp
qed

lemma DrEngineAidingDataMask_rows:
  "mask_rows getPBMaskForDrEngineAidingDataMask getDrEngineAidingDataMaskFromPB getPBMaskForDrEngineAidingDataMask_flags hal"
proof (rule mask_rowsI)
  show "getPBMaskForDrEngineAidingDataMask hal q = copy_flags (getPBMaskForDrEngineAidingDataMask_flags hal) q" for q
    by (simp add: getPBMaskForDrEngineAidingDataMask_def)
  show "getDrEngineAidingDataMaskFromPB hal q = copy_flags (map prod.swap (getPBMaskForDrEngineAidingDataMask_flags hal)) q" for q
    by (simp add: getDrEngineAidingDataMaskFromPB_def getPBMaskForDrEngineAidingDataMask_flags_def)
  show "single_bits LENGTH(32) (map snd (getPBMaskForDrEngineAidingDataMask_flags hal))" unfolding len_of_numeral_defs by code_simp
qed

lemma DrSolutionStatusMask_rows:
  "mask_rows getPBMaskForDrSolutionStatusMask getDrSolutionStatusMaskFromPB getPBMaskForDrSolutionStatusMask_flags hal"
proof (rule mask_rowsI)
  show "getPBMaskForDrSolutionStatusMask hal q = copy_flags (getPBMaskForDrSolutionStatusMask_flags hal) q" for q
    by (simp add: getPBMaskForDrSolutionStatusMask_def)
  show "getDrSolutionStatusMaskFromPB hal q = copy_flags (map prod.swap (getPBMaskForDrSolutionStatusMask_flags hal)) q" for q
    by (simp add: getDrSolutionStatusMaskFromPB_def getPBMaskForDrSolutionStatusMask_flags_def)
  show "single_bits LENGTH(32) (map snd (getPBMaskForDrSolutionStatusMask_flags hal))" unfolding len_of_numeral_defs by code_simp
qed

text \<open>The kinds of mask that travel as one word of 32 bits in both directions, each with its flags. Of the
  conversions of \<open>LocationApiPbMsgConv.cpp\<close> between words of 32 bits these are not in the list: the
  calibration status of dead reckoning, whose flags are confused on the way back; the state of a
  measurement, which is only converted to the protocol buffers; and the data of a position, where two words
  are put into one. The state of the accumulated delta range is listed without its first flag, which is
  empty.\<close>

definition mask_pairs :: "((hal_values \<Rightarrow> 32 word \<Rightarrow> 32 word) \<times> (hal_values \<Rightarrow> 32 word \<Rightarrow> 32 word)
    \<times> (hal_values \<Rightarrow> (int \<times> int) list)) list" where
  "mask_pairs =
     [(getPBMaskForTerrestrialTechMask, getTerrestrialTechMaskFromPB, getPBMaskForTerrestrialTechMask_flags),
      (getPBMaskForNmeaTypesMask, getNmeaTypesMaskFromPB, getPBMaskForNmeaTypesMask_flags),
      (getPBMaskForLocationCallbacksMask, getLocationCallbacksMaskFromPB, getPBMaskForLocationCallbacksMask_flags),
      (getPBMaskForPositioningEngineMask, getEnumForPBPositioningEngineMask, getPBMaskForPositioningEngineMask_flags),
      (getPBMaskForLeverArmTypeMask, getLeverArmTypeMaskFromPB, getPBMaskForLeverArmTypeMask_flags),
      (getPBMaskForLocReqEngineTypeMask, getLocReqEngineTypeMaskFromPB, getPBMaskForLocReqEngineTypeMask_flags),
      (getPBMaskForGnssCfgRobustLocValidMask, getGnssConfigRobustLocationValidMaskFromPB, getPBMaskForGnssCfgRobustLocValidMask_flags),
      (getPBMaskForLocSysInfoMask, getLocationSystemInfoMaskFromPB, getPBMaskForLocSysInfoMask_flags),
      (getPBMaskForGnssAidingDataSvMask, getGnssAidingDataSvMaskFromPB, getPBMaskForGnssAidingDataSvMask_flags),
      (getPBMaskForLeapSecondSysInfoMask, getLeapSecSysInfoMaskFromPB, getPBMaskForLeapSecondSysInfoMask_flags),
      (getPBMaskForGnssSystemTimeStructTypeFlags, getGnssSystemTimeStructTypeFlagsFromPB, getPBMaskForGnssSystemTimeStructTypeFlags_flags),
      (getPBMaskForLocationFlagsMask, getLocationFlagsMaskFromPB, getPBMaskForLocationFlagsMask_flags),
      (getPBMaskForLocationTechnologyMask, getLocationTechnologyMaskFromPB, getPBMaskForLocationTechnologyMask_flags),
      (getPBMaskForGnssLocationNavSolutionMask, getGnssLocationNavSolutionMaskFromPB, getPBMaskForGnssLocationNavSolutionMask_flags),
      (getPBMaskForGnssMeasurementsDataFlagsMask, getGnssMeasurementsDataFlagsMaskFromPB, getPBMaskForGnssMeasurementsDataFlagsMask_flags),
      (getPBMaskForGnssMeasurementsAdrStateMask, getGnssMeasurementsAdrStateMaskFromPB, (\<lambda>hal. tl (getPBMaskForGnssMeasurementsAdrStateMask_flags hal))),
      (getPBMaskForGnssMeasurementsClockFlagsMask, getGnssMeasurementsClockFlagsMaskFromPB, getPBMaskForGnssMeasurementsClockFlagsMask_flags),
      (getPBMaskForGnssGloTimeStructTypeFlags, getGnssGloTimeStructTypeFlagsFromPB, getPBMaskForGnssGloTimeStructTypeFlags_flags),
      (getPBMaskForGnssSvOptionsMask, getGnssSvOptionsMaskFromPB, getPBMaskForGnssSvOptionsMask_flags),
      (getPBMaskForGnssSignalTypeMask, getGnssSignalTypeMaskFromPB, getPBMaskForGnssSignalTypeMask_flags),
      (getPBMaskForGeofenceBreachTypeMask, getGfBreachTypeMaskFromPB, getPBMaskForGeofenceBreachTypeMask_flags),
      (getPBMaskForDrEngineAidingDataMask, getDrEngineAidingDataMaskFromPB, getPBMaskForDrEngineAidingDataMask_flags),
      (getPBMaskForDrSolutionStatusMask, getDrSolutionStatusMaskFromPB, getPBMaskForDrSolutionStatusMask_flags)]"

lemmas mask_pairs_rows =
  TerrestrialTechMask_rows NmeaTypesMask_rows LocationCallbacksMask_rows PositioningEngineMask_rows
  LeverArmTypeMask_rows LocReqEngineTypeMask_rows GnssCfgRobustLocValidMask_rows LocSysInfoMask_rows
  GnssAidingDataSvMask_rows LeapSecondSysInfoMask_rows GnssSystemTimeStructTypeFlags_rows
  LocationFlagsMask_rows LocationTechnologyMask_rows GnssLocationNavSolutionMask_rows
  GnssMeasurementsDataFlagsMask_rows GnssMeasurementsAdrStateMask_rows GnssMeasurementsClockFlagsMask_rows
  GnssGloTimeStructTypeFlags_rows GnssSvOptionsMask_rows GnssSignalTypeMask_rows GeofenceBreachTypeMask_rows
  DrEngineAidingDataMask_rows DrSolutionStatusMask_rows

text \<open>C8: a mask of one of the 23 kinds of \<open>mask_pairs\<close>, one word of 32 bits on each side, comes back from the
  protocol buffers with exactly the flags the two sides know, and in the other direction too, as long as the
  HAL's flags are different single bits and its empty set of NMEA types is zero. The calibration status of
  dead reckoning is not one of them: eight of its flags do not come back.\<close>

theorem mask_round_trip:
  assumes "(enc, dec, flags) \<in> set mask_pairs" and "single_bits 32 (map fst (flags hal))"
    and "hal ''NMEA_TYPE_NONE'' = 0"
  shows "dec hal (enc hal m) = m AND all_flags (map fst (flags hal)) \<and>
    enc hal (dec hal p) = p AND all_flags (map snd (flags hal))"
proof -
  have "list_all (\<lambda>(enc, dec, flags). mask_rows enc dec flags hal) mask_pairs"
    unfolding mask_pairs_def list.pred_inject prod.case
    by (intro conjI mask_pairs_rows assms(3)) simp_all
  then have "mask_rows enc dec flags hal" using assms(1) by (simp add: list_all_iff) fast
  from mask_rows_ok [OF this, of m p] assms(2) show ?thesis by (simp add: mask_ok_def)
qed

definition demo_hal :: "(string \<times> int) list \<Rightarrow> hal_values" where
  "demo_hal xs s = (case map_of xs s of Some v \<Rightarrow> v | None \<Rightarrow> 0)"

text \<open>Values for names: one bit each.\<close>

definition demo_bits :: "string list \<Rightarrow> hal_values" where
  "demo_bits names = demo_hal (zip names (map ((^) 2) [0..<length names]))"

definition demo_nmea :: hal_values where
  "demo_nmea = demo_bits [''NMEA_TYPE_GGA'', ''NMEA_TYPE_RMC'', ''NMEA_TYPE_GSA'', ''NMEA_TYPE_VTG'', ''NMEA_TYPE_GNS'',
     ''NMEA_TYPE_DTM'', ''NMEA_TYPE_GPGSV'', ''NMEA_TYPE_GLGSV'', ''NMEA_TYPE_GAGSV'', ''NMEA_TYPE_GQGSV'',
     ''NMEA_TYPE_GBGSV'', ''NMEA_TYPE_GIGSV'']"

theorem mask_round_trip_witness:
  "getNmeaTypesMaskFromPB demo_nmea (getPBMaskForNmeaTypesMask demo_nmea 0x1001)
      = 0x1001 AND all_flags (map fst (getPBMaskForNmeaTypesMask_flags demo_nmea)) \<and>
    getPBMaskForNmeaTypesMask demo_nmea (getNmeaTypesMaskFromPB demo_nmea 0x8003)
      = 0x8003 AND all_flags (map snd (getPBMaskForNmeaTypesMask_flags demo_nmea))"
proof (rule mask_round_trip)
  show "(getPBMaskForNmeaTypesMask, getNmeaTypesMaskFromPB, getPBMaskForNmeaTypesMask_flags) \<in> set mask_pairs"
    unfolding mask_pairs_def by (intro list.set_intros)
  show "single_bits 32 (map fst (getPBMaskForNmeaTypesMask_flags demo_nmea))" by code_simp
  show "demo_nmea ''NMEA_TYPE_NONE'' = 0" by code_simp
qed

section \<open>Wide masks\<close>

lemma all_flags_append: "all_flags (xs @ ys) = all_flags xs OR all_flags ys"
  by (induction xs) (simp_all add: or.assoc)

lemma LocationCapabilitiesMask_rows:
  "mask_rows getPBMaskForLocationCapabilitiesMask getLocationCapabilitiesMaskFromPB getPBMaskForLocationCapabilitiesMask_flags hal"
proof (rule mask_rowsI)
  show "getPBMaskForLocationCapabilitiesMask hal q = copy_flags (getPBMaskForLocationCapabilitiesMask_flags hal) q" for q
    by (simp add: getPBMaskForLocationCapabilitiesMask_def)
  show "getLocationCapabilitiesMaskFromPB hal q = copy_flags (map prod.swap (getPBMaskForLocationCapabilitiesMask_flags hal)) q" for q
    by (simp add: getLocationCapabilitiesMaskFromPB_def getPBMaskForLocationCapabilitiesMask_flags_def)
  show "single_bits LENGTH(64) (map snd (getPBMaskForLocationCapabilitiesMask_flags hal))" unfolding len_of_numeral_defs by code_simp
qed

lemma GnssDataMask_rows:
  "mask_rows getPBMaskForGnssDataMask getGnssDataMaskFromPB getPBMaskForGnssDataMask_flags hal"
proof (rule mask_rowsI)
  show "getPBMaskForGnssDataMask hal q = copy_flags (getPBMaskForGnssDataMask_flags hal) q" for q
    by (simp add: getPBMaskForGnssDataMask_def)
  show "getGnssDataMaskFromPB hal q = copy_flags (map prod.swap (getPBMaskForGnssDataMask_flags hal)) q" for q
    by (simp add: getGnssDataMaskFromPB_def getPBMaskForGnssDataMask_flags_def)
  show "single_bits LENGTH(64) (map snd (getPBMaskForGnssDataMask_flags hal))" unfolding len_of_numeral_defs by code_simp
qed

lemma DeadReckoningEngineConfigValidMask_rows:
  "mask_rows getPBMaskForDeadReckoningEngineConfigValidMask getDeadReckoningEngineConfigValidMaskFromPB getPBMaskForDeadReckoningEngineConfigValidMask_flags hal"
proof (rule mask_rowsI)
  show "getPBMaskForDeadReckoningEngineConfigValidMask hal q = copy_flags (getPBMaskForDeadReckoningEngineConfigValidMask_flags hal) q" for q
    by (simp add: getPBMaskForDeadReckoningEngineConfigValidMask_def)
  show "getDeadReckoningEngineConfigValidMaskFromPB hal q = copy_flags (map prod.swap (getPBMaskForDeadReckoningEngineConfigValidMask_flags hal)) q" for q
    by (simp add: getDeadReckoningEngineConfigValidMaskFromPB_def getPBMaskForDeadReckoningEngineConfigValidMask_flags_def)
  show "single_bits LENGTH(64) (map snd (getPBMaskForDeadReckoningEngineConfigValidMask_flags hal))" unfolding len_of_numeral_defs by code_simp
qed

lemma GnssLocationInfoFlagMask_known:
  assumes "flag_bits 64 (map fst (getPBMaskForGnssLocationInfoFlagMask_flags hal @ getPBMaskForGnssLocationInfoExtFlagMask_flags hal))"
  shows "getGnssLocationInfoFlagMaskFromPB hal (getPBMaskForGnssLocationInfoFlagMask hal m) (getPBMaskForGnssLocationInfoExtFlagMask hal m) =
    m AND all_flags (map fst (getPBMaskForGnssLocationInfoFlagMask_flags hal @ getPBMaskForGnssLocationInfoExtFlagMask_flags hal))"
proof -
  let ?f = "getPBMaskForGnssLocationInfoFlagMask_flags hal" and ?g = "getPBMaskForGnssLocationInfoExtFlagMask_flags hal"
  have s: "flag_bits LENGTH(64) (map fst ?f)" "flag_bits LENGTH(64) (map fst ?g)"
    using assms by (simp_all add: flag_bits_append)
  have d: "getGnssLocationInfoFlagMaskFromPB hal p q = copy_flags_to (copy_flags (map prod.swap ?f) p) (map prod.swap ?g) q" for p q
    by (simp add: getGnssLocationInfoFlagMaskFromPB_def getPBMaskForGnssLocationInfoFlagMask_flags_def getPBMaskForGnssLocationInfoExtFlagMask_flags_def)
  have f: "single_bits LENGTH(32) (map snd ?f)" unfolding len_of_numeral_defs by code_simp
  have g: "single_bits LENGTH(32) (map snd ?g)" unfolding len_of_numeral_defs by code_simp
  show ?thesis
    by (simp add: d getPBMaskForGnssLocationInfoFlagMask_def getPBMaskForGnssLocationInfoExtFlagMask_def copy_flags_to_or
      rows_known [OF s(1) f] rows_known [OF s(2) g] all_flags_append bit.conj_disj_distrib)
qed

definition wide_masks :: "((hal_values \<Rightarrow> 64 word \<Rightarrow> 64 word) \<times> (hal_values \<Rightarrow> (int \<times> int) list)) list" where
  "wide_masks =
     [(\<lambda>hal m. getLocationCapabilitiesMaskFromPB hal (getPBMaskForLocationCapabilitiesMask hal m), getPBMaskForLocationCapabilitiesMask_flags),
      (\<lambda>hal m. getGnssDataMaskFromPB hal (getPBMaskForGnssDataMask hal m), getPBMaskForGnssDataMask_flags),
      (\<lambda>hal m. getDeadReckoningEngineConfigValidMaskFromPB hal (getPBMaskForDeadReckoningEngineConfigValidMask hal m), getPBMaskForDeadReckoningEngineConfigValidMask_flags),
      (\<lambda>hal m. getGnssLocationInfoFlagMaskFromPB hal (getPBMaskForGnssLocationInfoFlagMask hal m) (getPBMaskForGnssLocationInfoExtFlagMask hal m),
        \<lambda>hal. getPBMaskForGnssLocationInfoFlagMask_flags hal @ getPBMaskForGnssLocationInfoExtFlagMask_flags hal)]"

text \<open>A 64 bit mask that went through the protocol buffers comes back with exactly the flags the two sides
  know; the flags of a position report travel in two words of 32 bits and are put together again.\<close>

theorem wide_mask_round_trip:
  assumes "(trip, flags) \<in> set wide_masks" and "single_bits 64 (map fst (flags hal))"
  shows "trip hal m = m AND all_flags (map fst (flags hal))"
proof -
  have "list_all (\<lambda>(trip, flags). single_bits 64 (map fst (flags hal)) \<longrightarrow>
      trip hal m = m AND all_flags (map fst (flags hal))) wide_masks"
    unfolding wide_masks_def list.pred_inject prod.case
    by (intro conjI impI mask_okD [where p = 0, OF mask_rows_ok [OF LocationCapabilitiesMask_rows]]
        mask_okD [where p = 0, OF mask_rows_ok [OF GnssDataMask_rows]] mask_okD [where p = 0, OF mask_rows_ok [OF DeadReckoningEngineConfigValidMask_rows]]
        GnssLocationInfoFlagMask_known [OF single_flag_bits]) simp_all
  then have "single_bits 64 (map fst (flags hal)) \<longrightarrow> trip hal m = m AND all_flags (map fst (flags hal))"
    using assms(1) by (simp add: list_all_iff) fast
  with assms(2) show ?thesis by simp
qed

definition demo_info :: hal_values where
  "demo_info = demo_bits [
     ''LDT_GNSS_LOCATION_INFO_ALTITUDE_MEAN_SEA_LEVEL_BIT'', ''LDT_GNSS_LOCATION_INFO_DOP_BIT'',
     ''LDT_GNSS_LOCATION_INFO_MAGNETIC_DEVIATION_BIT'', ''LDT_GNSS_LOCATION_INFO_HOR_RELIABILITY_BIT'',
     ''LDT_GNSS_LOCATION_INFO_VER_RELIABILITY_BIT'',
     ''LDT_GNSS_LOCATION_INFO_HOR_ACCURACY_ELIP_SEMI_MAJOR_BIT'',
     ''LDT_GNSS_LOCATION_INFO_HOR_ACCURACY_ELIP_SEMI_MINOR_BIT'',
     ''LDT_GNSS_LOCATION_INFO_HOR_ACCURACY_ELIP_AZIMUTH_BIT'',
     ''LDT_GNSS_LOCATION_INFO_GNSS_SV_USED_DATA_BIT'', ''LDT_GNSS_LOCATION_INFO_NAV_SOLUTION_MASK_BIT'',
     ''LDT_GNSS_LOCATION_INFO_POS_DYNAMICS_DATA_BIT'', ''LDT_GNSS_LOCATION_INFO_EXT_DOP_BIT'',
     ''LDT_GNSS_LOCATION_INFO_NORTH_STD_DEV_BIT'', ''LDT_GNSS_LOCATION_INFO_EAST_STD_DEV_BIT'',
     ''LDT_GNSS_LOCATION_INFO_NORTH_VEL_BIT'', ''LDT_GNSS_LOCATION_INFO_EAST_VEL_BIT'',
     ''LDT_GNSS_LOCATION_INFO_UP_VEL_BIT'', ''LDT_GNSS_LOCATION_INFO_NORTH_VEL_UNC_BIT'',
     ''LDT_GNSS_LOCATION_INFO_EAST_VEL_UNC_BIT'', ''LDT_GNSS_LOCATION_INFO_UP_VEL_UNC_BIT'',
     ''LDT_GNSS_LOCATION_INFO_LEAP_SECONDS_BIT'', ''LDT_GNSS_LOCATION_INFO_NUM_SV_USED_IN_POSITION_BIT'',
     ''LDT_GNSS_LOCATION_INFO_CALIBRATION_CONFIDENCE_BIT'',
     ''LDT_GNSS_LOCATION_INFO_CALIBRATION_STATUS_BIT'', ''LDT_GNSS_LOCATION_INFO_OUTPUT_ENG_TYPE_BIT'',
     ''LDT_GNSS_LOCATION_INFO_OUTPUT_ENG_MASK_BIT'', ''LDT_GNSS_LOCATION_INFO_CONFORMITY_INDEX_BIT'',
     ''LDT_GNSS_LOCATION_INFO_LLA_VRP_BASED_BIT'', ''LDT_GNSS_LOCATION_INFO_ENU_VELOCITY_VRP_BASED_BIT'',
     ''LDT_GNSS_LOCATION_INFO_DR_SOLUTION_STATUS_MASK_BIT'',
     ''LDT_GNSS_LOCATION_INFO_ALTITUDE_ASSUMED_BIT'', ''LDT_GNSS_LOCATION_INFO_SESSION_STATUS_BIT'',
     ''LDT_GNSS_LOCATION_INFO_INTEGRITY_RISK_USED_BIT'',
     ''LDT_GNSS_LOCATION_INFO_PROTECT_ALONG_TRACK_BIT'',
     ''LDT_GNSS_LOCATION_INFO_PROTECT_CROSS_TRACK_BIT'', ''LDT_GNSS_LOCATION_INFO_PROTECT_VERTICAL_BIT'',
     ''LDT_GNSS_LOCATION_INFO_DGNSS_STATION_ID_BIT'', ''LDT_GNSS_LOCATION_INFO_BASE_LINE_LENGTH_BIT'',
     ''LDT_GNSS_LOCATION_INFO_AGE_OF_CORRECTION_BIT'', ''LDT_GNSS_LOCATION_INFO_LEAP_SECONDS_UNC_BIT'',
     ''LDT_GNSS_LOCATION_INFO_REPORT_INTERVAL_BIT'', ''LDT_GNSS_LOCATION_INFO_EXTENDED_DATA_BIT'']"

theorem wide_mask_round_trip_witness:
  "(\<lambda>hal m. getGnssLocationInfoFlagMaskFromPB hal (getPBMaskForGnssLocationInfoFlagMask hal m)
      (getPBMaskForGnssLocationInfoExtFlagMask hal m)) demo_info 0xC0000000001 =
    0xC0000000001 AND all_flags (map fst ((\<lambda>hal. getPBMaskForGnssLocationInfoFlagMask_flags hal @
      getPBMaskForGnssLocationInfoExtFlagMask_flags hal) demo_info))"
proof (rule wide_mask_round_trip)
  show "(\<lambda>hal m. getGnssLocationInfoFlagMaskFromPB hal (getPBMaskForGnssLocationInfoFlagMask hal m) (getPBMaskForGnssLocationInfoExtFlagMask hal m),
      \<lambda>hal. getPBMaskForGnssLocationInfoFlagMask_flags hal @ getPBMaskForGnssLocationInfoExtFlagMask_flags hal) \<in> set wide_masks"
    unfolding wide_masks_def by (intro list.set_intros)
  show "single_bits 64 (map fst (getPBMaskForGnssLocationInfoFlagMask_flags demo_info @ getPBMaskForGnssLocationInfoExtFlagMask_flags demo_info))"
    by code_simp
qed

section \<open>Enums\<close>

definition enum_ok :: "(hal_values \<Rightarrow> int \<Rightarrow> int) \<Rightarrow> (hal_values \<Rightarrow> int \<Rightarrow> int) \<Rightarrow> (hal_values \<Rightarrow> (int \<times> int) list)
    \<Rightarrow> hal_values \<Rightarrow> bool" where
  "enum_ok enc dec vals hal \<longleftrightarrow> (\<forall>(v, p) \<in> set (vals hal). enc hal v = p \<and> dec hal p = v)"

text \<open>A conversion to the protocol buffers gives a value that it is listed with, and the conversion from them
  gives back the value that is listed.\<close>

definition enum_rows :: "(hal_values \<Rightarrow> int \<Rightarrow> int) \<Rightarrow> (hal_values \<Rightarrow> int \<Rightarrow> int) \<Rightarrow> (hal_values \<Rightarrow> (int \<times> int) list)
    \<Rightarrow> hal_values \<Rightarrow> bool" where
  "enum_rows enc dec vals hal \<longleftrightarrow>
     (\<forall>(v, p) \<in> set (vals hal). (v, enc hal v) \<in> set (vals hal) \<and> dec hal p = v)"

lemma enum_rowsI:
  assumes "\<And>v. enc hal v = switch_on v rows dp" and "\<And>p. dec hal p = switch_on p rows' dv"
    and "set rows \<subseteq> set (vals hal)" and "set (vals hal) \<subseteq> insert (dv, dp) (set rows)"
    and "set rows' \<subseteq> set (map prod.swap (vals hal))" and "set (map prod.swap (vals hal)) \<subseteq> insert (dp, dv) (set rows')"
    and "distinct (map snd (vals hal))"
  shows "enum_rows enc dec vals hal"
proof -
  have "(v, enc hal v) \<in> set (vals hal) \<and> dec hal p = v" if vp: "(v, p) \<in> set (vals hal)" for v p
  proof
    show "(v, enc hal v) \<in> set (vals hal)"
    proof (cases "map_of rows v")
      case None
      then have "v \<notin> fst ` set rows" by (rule map_of_eq_None_iff [THEN iffD1])
      then have "(v, p) \<notin> set rows" by force
      then have "v = dv" "p = dp" using assms(4) vp by auto
      then show ?thesis using vp None by (simp add: assms(1) switch_on_def)
    next
      case (Some r)
      then have "(v, r) \<in> set (vals hal)" using assms(3) map_of_SomeD by fast
      then show ?thesis by (simp add: assms(1) switch_on_def Some)
    qed
    have "(p, v) \<in> set (map prod.swap (vals hal))" using vp by force
    moreover from this have "(p, v) \<in> set rows' \<or> v = dv" using assms(6) by auto
    moreover have "distinct (map fst (map prod.swap (vals hal)))" using assms(7) by (simp add: comp_def)
    ultimately show "dec hal p = v" unfolding assms(2) by (intro switch_on_pairs [OF _ assms(5)])
  qed
  then show ?thesis unfolding enum_rows_def by blast
qed

lemma enum_rows_ok:
  assumes "enum_rows enc dec vals hal" and "distinct (map fst (vals hal))"
  shows "enum_ok enc dec vals hal"
  using assms eq_key_imp_eq_value [OF assms(2)] unfolding enum_rows_def enum_ok_def by blast

text \<open>The way there and back needs no two values to differ.\<close>

lemma enum_rows_known:
  assumes "enum_rows enc dec vals hal" and "v \<in> fst ` set (vals hal)"
  shows "dec hal (enc hal v) = v"
proof -
  from assms(2) obtain p where "(v, p) \<in> set (vals hal)" by force
  with assms(1) have "(v, enc hal v) \<in> set (vals hal)" unfolding enum_rows_def by blast
  with assms(1) show ?thesis unfolding enum_rows_def by blast
qed

lemma LocEngineRunState_rows:
  "enum_rows getPBEnumForLocEngineRunState getEnumForPBLocEngineRunState (\<lambda>hal. (0, PB_LOC_ENGINE_RUN_STATE_INVALID) # getPBEnumForLocEngineRunState_cases hal) hal"
  by (rule enum_rowsI, rule getPBEnumForLocEngineRunState_def, rule getEnumForPBLocEngineRunState_def, simp add: getPBEnumForLocEngineRunState_cases_def, simp add: getPBEnumForLocEngineRunState_cases_def,
    simp add: getPBEnumForLocEngineRunState_cases_def, simp add: getPBEnumForLocEngineRunState_cases_def, code_simp)

lemma DcReportType_rows:
  "enum_rows getPBEnumForDcReportType getDcReportTypeFromPB (\<lambda>hal. (hal ''GNSS_DC_REPORT_TYPE_UNDEFINED'', PB_GNSS_DC_REPORT_TYPE_UNDEFINED) # getPBEnumForDcReportType_cases hal) hal"
  by (rule enum_rowsI, rule getPBEnumForDcReportType_def, rule getDcReportTypeFromPB_def, simp add: getPBEnumForDcReportType_cases_def, simp add: getPBEnumForDcReportType_cases_def,
    simp add: getPBEnumForDcReportType_cases_def, simp add: getPBEnumForDcReportType_cases_def, code_simp)

lemma DebugLogLevel_rows:
  "enum_rows getPBEnumForDebugLogLevel getDebugLogLevelFromPB (\<lambda>hal. (hal ''DEBUG_LOG_LEVEL_NONE'', PB_DEBUG_LOG_LEVEL_NONE) # getPBEnumForDebugLogLevel_cases hal) hal"
  by (rule enum_rowsI, rule getPBEnumForDebugLogLevel_def, rule getDebugLogLevelFromPB_def, simp add: getPBEnumForDebugLogLevel_cases_def, simp add: getPBEnumForDebugLogLevel_cases_def,
    simp add: getPBEnumForDebugLogLevel_cases_def, simp add: getPBEnumForDebugLogLevel_cases_def, code_simp)

lemma XtraDataStatus_rows:
  "enum_rows getPBEnumForXtraDataStatus getXtraDataStatusFromPB (\<lambda>hal. (hal ''XTRA_DATA_STATUS_UNKNOWN'', PB_XTRA_DATA_STATUS_UNKNOWN) # getPBEnumForXtraDataStatus_cases hal) hal"
  by (rule enum_rowsI, rule getPBEnumForXtraDataStatus_def, rule getXtraDataStatusFromPB_def, simp add: getPBEnumForXtraDataStatus_cases_def, simp add: getPBEnumForXtraDataStatus_cases_def,
    simp add: getPBEnumForXtraDataStatus_cases_def, simp add: getPBEnumForXtraDataStatus_cases_def, code_simp)

lemma XtraStatusUpdateType_rows:
  "enum_rows getPBEnumForXtraStatusUpdateType getXtraStatusUpdateTypeFromPB (\<lambda>hal. (hal ''XTRA_STATUS_UPDATE_UNDEFINED'', PB_XTRA_STATUS_UPDATE_UNDEFINED) # getPBEnumForXtraStatusUpdateType_cases hal) hal"
  by (rule enum_rowsI, rule getPBEnumForXtraStatusUpdateType_def, rule getXtraStatusUpdateTypeFromPB_def, simp add: getPBEnumForXtraStatusUpdateType_cases_def, simp add: getPBEnumForXtraStatusUpdateType_cases_def,
    simp add: getPBEnumForXtraStatusUpdateType_cases_def, simp add: getPBEnumForXtraStatusUpdateType_cases_def, code_simp)

lemma ELocMsgID_rows:
  "enum_rows getPBEnumForELocMsgID getEnumForPBELocMsgID (\<lambda>hal. (E_LOCAPI_UNDEFINED_MSG_ID, PB_E_LOCAPI_UNDEFINED_MSG_ID) # getPBEnumForELocMsgID_cases hal) hal"
  by (rule enum_rowsI, rule getPBEnumForELocMsgID_def, rule getEnumForPBELocMsgID_def, simp add: getPBEnumForELocMsgID_cases_def, simp add: getPBEnumForELocMsgID_cases_def,
    simp add: getPBEnumForELocMsgID_cases_def, simp add: getPBEnumForELocMsgID_cases_def, code_simp)

lemma ClientType_rows:
  "enum_rows getPBEnumForClientType getEnumForPBClientType (\<lambda>hal. (LOCATION_INTEGRATION_API, PB_LOCATION_INTEGRATION_API) # getPBEnumForClientType_cases hal) hal"
  by (simp add: enum_rows_def getPBEnumForClientType_def getPBEnumForClientType_cases_def getEnumForPBClientType_def
    switch_on_def LOCATION_CLIENT_API_def LOCATION_INTEGRATION_API_def PB_LOCATION_CLIENT_API_def
    PB_LOCATION_INTEGRATION_API_def)

lemma BatchingMode_rows:
  "enum_rows getPBEnumForBatchingMode getEnumForPBBatchingMode getPBEnumForBatchingMode_cases hal"
  by (rule enum_rowsI, rule getPBEnumForBatchingMode_def, rule getEnumForPBBatchingMode_def, simp add: getPBEnumForBatchingMode_cases_def, simp add: getPBEnumForBatchingMode_cases_def,
    simp add: getPBEnumForBatchingMode_cases_def, simp add: getPBEnumForBatchingMode_cases_def, code_simp)

lemma LocationError_rows:
  "enum_rows getPBEnumForLocationError getEnumForPBLocationError (\<lambda>hal. (hal ''LOCATION_ERROR_GENERAL_FAILURE'', PB_LOCATION_ERROR_GENERAL_FAILURE) # getPBEnumForLocationError_cases hal) hal"
  by (rule enum_rowsI, rule getPBEnumForLocationError_def, rule getEnumForPBLocationError_def, simp add: getPBEnumForLocationError_cases_def, simp add: getPBEnumForLocationError_cases_def,
    simp add: getPBEnumForLocationError_cases_def, simp add: getPBEnumForLocationError_cases_def, code_simp)

lemma GnssSuplMode_rows:
  "enum_rows getPBEnumForGnssSuplMode getEnumForPBGnssSuplMode getPBEnumForGnssSuplMode_cases hal"
  by (rule enum_rowsI, rule getPBEnumForGnssSuplMode_def, rule getEnumForPBGnssSuplMode_def, simp add: getPBEnumForGnssSuplMode_cases_def, simp add: getPBEnumForGnssSuplMode_cases_def,
    simp add: getPBEnumForGnssSuplMode_cases_def, simp add: getPBEnumForGnssSuplMode_cases_def, code_simp)

lemma FixQualityLevel_rows:
  "enum_rows getPBEnumForFixQualityLevel getEnumForPBFixQualityLevel (\<lambda>hal. (hal ''QUALITY_HIGH_ACCU_FIX_ONLY'', PB_QUALITY_HIGH_ACCU_FIX_ONLY) # getPBEnumForFixQualityLevel_cases hal) hal"
  by (rule enum_rowsI, rule getPBEnumForFixQualityLevel_def, rule getEnumForPBFixQualityLevel_def, simp add: getPBEnumForFixQualityLevel_cases_def, simp add: getPBEnumForFixQualityLevel_cases_def,
    simp add: getPBEnumForFixQualityLevel_cases_def, simp add: getPBEnumForFixQualityLevel_cases_def, code_simp)

lemma BatchingStatus_rows:
  "enum_rows getPBEnumForBatchingStatus getEnumForPBBatchingStatus getPBEnumForBatchingStatus_cases hal"
  by (rule enum_rowsI, rule getPBEnumForBatchingStatus_def, rule getEnumForPBBatchingStatus_def, simp add: getPBEnumForBatchingStatus_cases_def, simp add: getPBEnumForBatchingStatus_cases_def,
    simp add: getPBEnumForBatchingStatus_cases_def, simp add: getPBEnumForBatchingStatus_cases_def, code_simp)

lemma LocationReliability_rows:
  "enum_rows getPBEnumForLocationReliability getEnumForPBLocReliability getPBEnumForLocationReliability_cases hal"
  by (rule enum_rowsI, rule getPBEnumForLocationReliability_def, rule getEnumForPBLocReliability_def, simp add: getPBEnumForLocationReliability_cases_def, simp add: getPBEnumForLocationReliability_cases_def,
    simp add: getPBEnumForLocationReliability_cases_def, simp add: getPBEnumForLocationReliability_cases_def, code_simp)

lemma LocOutputEngineType_rows:
  "enum_rows getPBEnumForLocOutputEngineType getEnumForPBLocOutputEngineType getPBEnumForLocOutputEngineType_cases hal"
  by (rule enum_rowsI, rule getPBEnumForLocOutputEngineType_def, rule getEnumForPBLocOutputEngineType_def, simp add: getPBEnumForLocOutputEngineType_cases_def, simp add: getPBEnumForLocOutputEngineType_cases_def,
    simp add: getPBEnumForLocOutputEngineType_cases_def, simp add: getPBEnumForLocOutputEngineType_cases_def, code_simp)

lemma GnssMeasMultiPathIndic_rows:
  "enum_rows getPBEnumForGnssMeasMultiPathIndic getEnumForPBGnssMeasMultipathIndic getPBEnumForGnssMeasMultiPathIndic_cases hal"
  by (rule enum_rowsI, rule getPBEnumForGnssMeasMultiPathIndic_def, rule getEnumForPBGnssMeasMultipathIndic_def, simp add: getPBEnumForGnssMeasMultiPathIndic_cases_def, simp add: getPBEnumForGnssMeasMultiPathIndic_cases_def,
    simp add: getPBEnumForGnssMeasMultiPathIndic_cases_def, simp add: getPBEnumForGnssMeasMultiPathIndic_cases_def, code_simp)

lemma GnssLocSvSystem_rows:
  "enum_rows getPBEnumForGnssLocSvSystem getEnumForPBGnssLocSvSystem (\<lambda>hal. (hal ''GNSS_LOC_SV_SYSTEM_UNKNOWN'', PB_GNSS_LOC_SV_SYSTEM_INVALID) # getPBEnumForGnssLocSvSystem_cases hal) hal"
  by (rule enum_rowsI, rule getPBEnumForGnssLocSvSystem_def, rule getEnumForPBGnssLocSvSystem_def, simp add: getPBEnumForGnssLocSvSystem_cases_def, simp add: getPBEnumForGnssLocSvSystem_cases_def,
    simp add: getPBEnumForGnssLocSvSystem_cases_def, simp add: getPBEnumForGnssLocSvSystem_cases_def, code_simp)

lemma AgcStatus_rows:
  "enum_rows getPBEnumForAgcStatus getEnumForPBAgcStatus (\<lambda>hal. (hal ''AGC_STATUS_UNKNOWN'', PB_AGC_STATUS_UNKNOWN) # getPBEnumForAgcStatus_cases hal) hal"
  by (rule enum_rowsI, rule getPBEnumForAgcStatus_def, rule getEnumForPBAgcStatus_def, simp add: getPBEnumForAgcStatus_cases_def, simp add: getPBEnumForAgcStatus_cases_def,
    simp add: getPBEnumForAgcStatus_cases_def, simp add: getPBEnumForAgcStatus_cases_def, code_simp)

lemma GnssLocSvSysEnumFromGnssSvType_rows:
  "enum_rows getPBGnssLocSvSysEnumFromGnssSvType getGnssSvTypeFromPBGnssLocSvSystemEnumType getPBGnssLocSvSysEnumFromGnssSvType_cases hal"
  by (rule enum_rowsI, rule getPBGnssLocSvSysEnumFromGnssSvType_def, rule getGnssSvTypeFromPBGnssLocSvSystemEnumType_def, simp add: getPBGnssLocSvSysEnumFromGnssSvType_cases_def, simp add: getPBGnssLocSvSysEnumFromGnssSvType_cases_def,
    simp add: getPBGnssLocSvSysEnumFromGnssSvType_cases_def, simp add: getPBGnssLocSvSysEnumFromGnssSvType_cases_def, code_simp)

lemma LocSessionStatus_rows:
  "enum_rows getPBEnumForLocSessionStatus getLocSessionStatusFromPB (\<lambda>hal. (hal ''LOC_SESS_FAILURE'', PB_LOCATION_SESS_FAILURE) # getPBEnumForLocSessionStatus_cases hal) hal"
  by (rule enum_rowsI, rule getPBEnumForLocSessionStatus_def, rule getLocSessionStatusFromPB_def, simp add: getPBEnumForLocSessionStatus_cases_def, simp add: getPBEnumForLocSessionStatus_cases_def,
    simp add: getPBEnumForLocSessionStatus_cases_def, simp add: getPBEnumForLocSessionStatus_cases_def, code_simp)

lemma MeasCodeType_rows:
  "enum_rows getPBMeasCodeType getMeasCodeTypeFromPB (\<lambda>hal. (hal ''GNSS_MEASUREMENTS_CODE_TYPE_OTHER'', PB_GNSS_MEASUREMENTS_CODE_TYPE_OTHER) # getPBMeasCodeType_cases hal) hal"
  by (rule enum_rowsI, rule getPBMeasCodeType_def, rule getMeasCodeTypeFromPB_def, simp add: getPBMeasCodeType_cases_def, simp add: getPBMeasCodeType_cases_def,
    simp add: getPBMeasCodeType_cases_def, simp add: getPBMeasCodeType_cases_def, code_simp)

lemma GnssEphemerisType_rows:
  "enum_rows getPBEnumForGnssEphemerisType getEnumForPBGnssEphemerisType getPBEnumForGnssEphemerisType_cases hal"
  by (rule enum_rowsI, rule getPBEnumForGnssEphemerisType_def, rule getEnumForPBGnssEphemerisType_def, simp add: getPBEnumForGnssEphemerisType_cases_def, simp add: getPBEnumForGnssEphemerisType_cases_def,
    simp add: getPBEnumForGnssEphemerisType_cases_def, simp add: getPBEnumForGnssEphemerisType_cases_def, code_simp)

lemma GnssEphemerisSource_rows:
  "enum_rows getPBEnumForGnssEphemerisSource getEnumForPBGnssEphemerisSource getPBEnumForGnssEphemerisSource_cases hal"
  by (rule enum_rowsI, rule getPBEnumForGnssEphemerisSource_def, rule getEnumForPBGnssEphemerisSource_def, simp add: getPBEnumForGnssEphemerisSource_cases_def, simp add: getPBEnumForGnssEphemerisSource_cases_def,
    simp add: getPBEnumForGnssEphemerisSource_cases_def, simp add: getPBEnumForGnssEphemerisSource_cases_def, code_simp)

lemma GnssEphemerisHealth_rows:
  "enum_rows getPBEnumForGnssEphemerisHealth getEnumForPBGnssEphemerisHealth getPBEnumForGnssEphemerisHealth_cases hal"
  by (rule enum_rowsI, rule getPBEnumForGnssEphemerisHealth_def, rule getEnumForPBGnssEphemerisHealth_def, simp add: getPBEnumForGnssEphemerisHealth_cases_def, simp add: getPBEnumForGnssEphemerisHealth_cases_def,
    simp add: getPBEnumForGnssEphemerisHealth_cases_def, simp add: getPBEnumForGnssEphemerisHealth_cases_def, code_simp)

lemma EphAction_rows:
  "enum_rows getPBEphAction pbConvertToEphAction getPBEphAction_cases hal"
  by (rule enum_rowsI, rule getPBEphAction_def, rule pbConvertToEphAction_def, simp add: getPBEphAction_cases_def, simp add: getPBEphAction_cases_def,
    simp add: getPBEphAction_cases_def, simp add: getPBEphAction_cases_def, code_simp)

lemma convertDataSignalSource_rows:
  "enum_rows convertDataSignalSourceToPB pbConvertToDataSourceSignal (\<lambda>hal. (hal ''GAL_EPH_SIGNAL_SRC_UNKNOWN_V02'', PB_GAL_EPH_SIGNAL_SRC_UNKNOWN) # convertDataSignalSourceToPB_cases hal) hal"
  by (rule enum_rowsI, rule convertDataSignalSourceToPB_def, rule pbConvertToDataSourceSignal_def, simp add: convertDataSignalSourceToPB_cases_def, simp add: convertDataSignalSourceToPB_cases_def,
    simp add: convertDataSignalSourceToPB_cases_def, simp add: convertDataSignalSourceToPB_cases_def, code_simp)

definition enum_pairs :: "((hal_values \<Rightarrow> int \<Rightarrow> int) \<times> (hal_values \<Rightarrow> int \<Rightarrow> int)
    \<times> (hal_values \<Rightarrow> (int \<times> int) list)) list" where
  "enum_pairs =
     [(getPBEnumForLocEngineRunState, getEnumForPBLocEngineRunState, (\<lambda>hal. (0, PB_LOC_ENGINE_RUN_STATE_INVALID) # getPBEnumForLocEngineRunState_cases hal)),
      (getPBEnumForDcReportType, getDcReportTypeFromPB, (\<lambda>hal. (hal ''GNSS_DC_REPORT_TYPE_UNDEFINED'', PB_GNSS_DC_REPORT_TYPE_UNDEFINED) # getPBEnumForDcReportType_cases hal)),
      (getPBEnumForDebugLogLevel, getDebugLogLevelFromPB, (\<lambda>hal. (hal ''DEBUG_LOG_LEVEL_NONE'', PB_DEBUG_LOG_LEVEL_NONE) # getPBEnumForDebugLogLevel_cases hal)),
      (getPBEnumForXtraDataStatus, getXtraDataStatusFromPB, (\<lambda>hal. (hal ''XTRA_DATA_STATUS_UNKNOWN'', PB_XTRA_DATA_STATUS_UNKNOWN) # getPBEnumForXtraDataStatus_cases hal)),
      (getPBEnumForXtraStatusUpdateType, getXtraStatusUpdateTypeFromPB, (\<lambda>hal. (hal ''XTRA_STATUS_UPDATE_UNDEFINED'', PB_XTRA_STATUS_UPDATE_UNDEFINED) # getPBEnumForXtraStatusUpdateType_cases hal)),
      (getPBEnumForELocMsgID, getEnumForPBELocMsgID, (\<lambda>hal. (E_LOCAPI_UNDEFINED_MSG_ID, PB_E_LOCAPI_UNDEFINED_MSG_ID) # getPBEnumForELocMsgID_cases hal)),
      (getPBEnumForClientType, getEnumForPBClientType, (\<lambda>hal. (LOCATION_INTEGRATION_API, PB_LOCATION_INTEGRATION_API) # getPBEnumForClientType_cases hal)),
      (getPBEnumForBatchingMode, getEnumForPBBatchingMode, getPBEnumForBatchingMode_cases),
      (getPBEnumForLocationError, getEnumForPBLocationError, (\<lambda>hal. (hal ''LOCATION_ERROR_GENERAL_FAILURE'', PB_LOCATION_ERROR_GENERAL_FAILURE) # getPBEnumForLocationError_cases hal)),
      (getPBEnumForGnssSuplMode, getEnumForPBGnssSuplMode, getPBEnumForGnssSuplMode_cases),
      (getPBEnumForFixQualityLevel, getEnumForPBFixQualityLevel, (\<lambda>hal. (hal ''QUALITY_HIGH_ACCU_FIX_ONLY'', PB_QUALITY_HIGH_ACCU_FIX_ONLY) # getPBEnumForFixQualityLevel_cases hal)),
      (getPBEnumForBatchingStatus, getEnumForPBBatchingStatus, getPBEnumForBatchingStatus_cases),
      (getPBEnumForLocationReliability, getEnumForPBLocReliability, getPBEnumForLocationReliability_cases),
      (getPBEnumForLocOutputEngineType, getEnumForPBLocOutputEngineType, getPBEnumForLocOutputEngineType_cases),
      (getPBEnumForGnssMeasMultiPathIndic, getEnumForPBGnssMeasMultipathIndic, getPBEnumForGnssMeasMultiPathIndic_cases),
      (getPBEnumForGnssLocSvSystem, getEnumForPBGnssLocSvSystem, (\<lambda>hal. (hal ''GNSS_LOC_SV_SYSTEM_UNKNOWN'', PB_GNSS_LOC_SV_SYSTEM_INVALID) # getPBEnumForGnssLocSvSystem_cases hal)),
      (getPBEnumForAgcStatus, getEnumForPBAgcStatus, (\<lambda>hal. (hal ''AGC_STATUS_UNKNOWN'', PB_AGC_STATUS_UNKNOWN) # getPBEnumForAgcStatus_cases hal)),
      (getPBGnssLocSvSysEnumFromGnssSvType, getGnssSvTypeFromPBGnssLocSvSystemEnumType, getPBGnssLocSvSysEnumFromGnssSvType_cases),
      (getPBEnumForLocSessionStatus, getLocSessionStatusFromPB, (\<lambda>hal. (hal ''LOC_SESS_FAILURE'', PB_LOCATION_SESS_FAILURE) # getPBEnumForLocSessionStatus_cases hal)),
      (getPBMeasCodeType, getMeasCodeTypeFromPB, (\<lambda>hal. (hal ''GNSS_MEASUREMENTS_CODE_TYPE_OTHER'', PB_GNSS_MEASUREMENTS_CODE_TYPE_OTHER) # getPBMeasCodeType_cases hal)),
      (getPBEnumForGnssEphemerisType, getEnumForPBGnssEphemerisType, getPBEnumForGnssEphemerisType_cases),
      (getPBEnumForGnssEphemerisSource, getEnumForPBGnssEphemerisSource, getPBEnumForGnssEphemerisSource_cases),
      (getPBEnumForGnssEphemerisHealth, getEnumForPBGnssEphemerisHealth, getPBEnumForGnssEphemerisHealth_cases),
      (getPBEphAction, pbConvertToEphAction, getPBEphAction_cases),
      (convertDataSignalSourceToPB, pbConvertToDataSourceSignal, (\<lambda>hal. (hal ''GAL_EPH_SIGNAL_SRC_UNKNOWN_V02'', PB_GAL_EPH_SIGNAL_SRC_UNKNOWN) # convertDataSignalSourceToPB_cases hal))]"

lemmas enum_pairs_rows =
  LocEngineRunState_rows DcReportType_rows DebugLogLevel_rows XtraDataStatus_rows XtraStatusUpdateType_rows
  ELocMsgID_rows ClientType_rows BatchingMode_rows LocationError_rows GnssSuplMode_rows FixQualityLevel_rows
  BatchingStatus_rows LocationReliability_rows LocOutputEngineType_rows GnssMeasMultiPathIndic_rows
  GnssLocSvSystem_rows AgcStatus_rows GnssLocSvSysEnumFromGnssSvType_rows LocSessionStatus_rows
  MeasCodeType_rows GnssEphemerisType_rows GnssEphemerisSource_rows GnssEphemerisHealth_rows EphAction_rows
  convertDataSignalSource_rows

text \<open>C7: every value of an enumeration that the two sides know, all message identifiers among them, is
  converted to the protocol buffers' value of that meaning and back to itself, the default values
  included, as long as the HAL's values are different.\<close>

theorem enum_round_trip:
  assumes "(enc, dec, vals) \<in> set enum_pairs" and "distinct (map fst (vals hal))" and "(v, p) \<in> set (vals hal)"
  shows "enc hal v = p \<and> dec hal p = v"
proof -
  have "list_all (\<lambda>(enc, dec, vals). enum_rows enc dec vals hal) enum_pairs"
    unfolding enum_pairs_def list.pred_inject prod.case
    by (intro conjI enum_pairs_rows) simp_all
  then have "enum_rows enc dec vals hal" using assms(1) by (simp add: list_all_iff) fast
  from enum_rows_ok [OF this assms(2)] assms(3) show ?thesis by (auto simp: enum_ok_def)
qed

theorem enum_round_trip_witness:
  "getPBEnumForELocMsgID demo_nmea E_LOCAPI_LOCATION_INFO_MSG_ID = PB_E_LOCAPI_LOCATION_INFO_MSG_ID \<and>
    getEnumForPBELocMsgID demo_nmea PB_E_LOCAPI_LOCATION_INFO_MSG_ID = E_LOCAPI_LOCATION_INFO_MSG_ID"
proof (rule enum_round_trip [where enc = getPBEnumForELocMsgID and dec = getEnumForPBELocMsgID and hal = demo_nmea
    and vals = "\<lambda>hal. (E_LOCAPI_UNDEFINED_MSG_ID, PB_E_LOCAPI_UNDEFINED_MSG_ID) # getPBEnumForELocMsgID_cases hal"])
  let ?vals = "\<lambda>hal. (E_LOCAPI_UNDEFINED_MSG_ID, PB_E_LOCAPI_UNDEFINED_MSG_ID) # getPBEnumForELocMsgID_cases hal"
  show "(getPBEnumForELocMsgID, getEnumForPBELocMsgID, ?vals) \<in> set enum_pairs"
    unfolding enum_pairs_def by (intro list.set_intros)
  show "distinct (map fst (?vals demo_nmea))" by code_simp
  show "(E_LOCAPI_LOCATION_INFO_MSG_ID, PB_E_LOCAPI_LOCATION_INFO_MSG_ID) \<in> set (?vals demo_nmea)"
    by (simp add: getPBEnumForELocMsgID_cases_def)
qed

section \<open>Masks that do not come back\<close>

lemma copy_single:
  assumes "single_bits LENGTH('a::len) (map fst rows)" and "(v, p) \<in> set rows"
  shows "copy_flags rows (word_of_int v :: 'a word) = (word_of_int p :: 'b::len word)"
proof (rule bit_word_eqI)
  fix j
  have d: "distinct (map fst rows)" using assms(1) by (simp add: single_bits_def)
  have "word_of_int v AND word_of_int c \<noteq> (0 :: 'a word) \<longleftrightarrow> c = v" if "(c, q) \<in> set rows" for c q
  proof -
    have "c \<in> set (map fst rows)" "v \<in> set (map fst rows)" using that assms(2) by force+
    with single_bitsD [OF assms(1)] obtain i k where "v = 2 ^ i" "i < LENGTH('a)" "c = 2 ^ k" by metis
    then show ?thesis using test_flag [of "word_of_int v :: 'a word" k] by (auto simp: bit_flag)
  qed
  moreover have "q = p" if "(v, q) \<in> set rows" for q using eq_key_imp_eq_value [OF d that assms(2)] .
  ultimately show "bit (copy_flags rows (word_of_int v :: 'a word) :: 'b word) j = bit (word_of_int p :: 'b word) j"
    unfolding bit_copy_flags using assms(2) by fast
qed

definition dr_confused :: "hal_values \<Rightarrow> (int \<times> int) list" where
  "dr_confused hal =
     [(hal ''DR_TURN_CALIBRATION_MEDIUM'', PB_DR_TURN_CALIBRATION_MEDIUM),
      (hal ''DR_TURN_CALIBRATION_HIGH'', PB_DR_TURN_CALIBRATION_HIGH),
      (hal ''DR_LINEAR_ACCEL_CALIBRATION_MEDIUM'', PB_DR_LINEAR_ACCEL_CALIBRATION_MEDIUM),
      (hal ''DR_LINEAR_ACCEL_CALIBRATION_HIGH'', PB_DR_LINEAR_ACCEL_CALIBRATION_HIGH),
      (hal ''DR_LINEAR_MOTION_CALIBRATION_MEDIUM'', PB_DR_LINEAR_MOTION_CALIBRATION_MEDIUM),
      (hal ''DR_LINEAR_MOTION_CALIBRATION_HIGH'', PB_DR_LINEAR_MOTION_CALIBRATION_HIGH),
      (hal ''DR_STATIC_CALIBRATION_MEDIUM'', PB_DR_STATIC_CALIBRATION_MEDIUM),
      (hal ''DR_STATIC_CALIBRATION_HIGH'', PB_DR_STATIC_CALIBRATION_HIGH)]"

text \<open>C27: eight of the calibration flags of dead reckoning do not come back: the conversion from the protocol
  buffers sets the protocol buffers' flag instead of the HAL's.\<close>

theorem dr_calibration_confused:
  assumes "single_bits 32 (map fst (getPBMaskForDrCalibrationStatusMask_flags hal))" and "(v, p) \<in> set (dr_confused hal)"
  shows "getDrCalibrationStatusMaskFromPB hal (getPBMaskForDrCalibrationStatusMask hal (word_of_int v)) = word_of_int p"
proof -
  let ?rows = "[(PB_DR_ROLL_CALIBRATION_NEEDED, hal ''DR_ROLL_CALIBRATION_NEEDED''),
       (PB_DR_PITCH_CALIBRATION_NEEDED, hal ''DR_PITCH_CALIBRATION_NEEDED''),
       (PB_DR_YAW_CALIBRATION_NEEDED, hal ''DR_YAW_CALIBRATION_NEEDED''),
       (PB_DR_ODO_CALIBRATION_NEEDED, hal ''DR_ODO_CALIBRATION_NEEDED''),
       (PB_DR_GYRO_CALIBRATION_NEEDED, hal ''DR_GYRO_CALIBRATION_NEEDED''),
       (PB_DR_TURN_CALIBRATION_LOW, hal ''DR_TURN_CALIBRATION_LOW''),
       (PB_DR_TURN_CALIBRATION_MEDIUM, PB_DR_TURN_CALIBRATION_MEDIUM),
       (PB_DR_TURN_CALIBRATION_HIGH, PB_DR_TURN_CALIBRATION_HIGH),
       (PB_DR_LINEAR_ACCEL_CALIBRATION_LOW, hal ''DR_LINEAR_ACCEL_CALIBRATION_LOW''),
       (PB_DR_LINEAR_ACCEL_CALIBRATION_MEDIUM, PB_DR_LINEAR_ACCEL_CALIBRATION_MEDIUM),
       (PB_DR_LINEAR_ACCEL_CALIBRATION_HIGH, PB_DR_LINEAR_ACCEL_CALIBRATION_HIGH),
       (PB_DR_LINEAR_MOTION_CALIBRATION_LOW, hal ''DR_LINEAR_MOTION_CALIBRATION_LOW''),
       (PB_DR_LINEAR_MOTION_CALIBRATION_MEDIUM, PB_DR_LINEAR_MOTION_CALIBRATION_MEDIUM),
       (PB_DR_LINEAR_MOTION_CALIBRATION_HIGH, PB_DR_LINEAR_MOTION_CALIBRATION_HIGH),
       (PB_DR_STATIC_CALIBRATION_LOW, hal ''DR_STATIC_CALIBRATION_LOW''),
       (PB_DR_STATIC_CALIBRATION_MEDIUM, PB_DR_STATIC_CALIBRATION_MEDIUM),
       (PB_DR_STATIC_CALIBRATION_HIGH, PB_DR_STATIC_CALIBRATION_HIGH)]"
  have "(v, p) \<in> set (getPBMaskForDrCalibrationStatusMask_flags hal)"
    using assms(2) by (auto simp: dr_confused_def getPBMaskForDrCalibrationStatusMask_flags_def)
  then have e: "getPBMaskForDrCalibrationStatusMask hal (word_of_int v) = word_of_int p"
    unfolding getPBMaskForDrCalibrationStatusMask_def using assms(1) by (intro copy_single) simp_all
  have "single_bits LENGTH(32) (map fst ?rows)" unfolding len_of_numeral_defs by code_simp
  moreover have "(p, p) \<in> set ?rows" using assms(2) by (auto simp: dr_confused_def)
  ultimately show ?thesis unfolding e getDrCalibrationStatusMaskFromPB_def by (rule copy_single)
qed

definition demo_dr :: hal_values where
  "demo_dr = demo_bits [
     ''DR_ROLL_CALIBRATION_NEEDED'', ''DR_PITCH_CALIBRATION_NEEDED'', ''DR_YAW_CALIBRATION_NEEDED'',
     ''DR_ODO_CALIBRATION_NEEDED'', ''DR_GYRO_CALIBRATION_NEEDED'', ''DR_TURN_CALIBRATION_LOW'',
     ''DR_TURN_CALIBRATION_MEDIUM'', ''DR_TURN_CALIBRATION_HIGH'', ''DR_LINEAR_ACCEL_CALIBRATION_LOW'',
     ''DR_LINEAR_ACCEL_CALIBRATION_MEDIUM'', ''DR_LINEAR_ACCEL_CALIBRATION_HIGH'',
     ''DR_LINEAR_MOTION_CALIBRATION_LOW'', ''DR_LINEAR_MOTION_CALIBRATION_MEDIUM'',
     ''DR_LINEAR_MOTION_CALIBRATION_HIGH'', ''DR_STATIC_CALIBRATION_LOW'',
     ''DR_STATIC_CALIBRATION_MEDIUM'', ''DR_STATIC_CALIBRATION_HIGH'']"

theorem dr_calibration_confused_witness:
  "getDrCalibrationStatusMaskFromPB demo_dr (getPBMaskForDrCalibrationStatusMask demo_dr
    (word_of_int (demo_dr ''DR_TURN_CALIBRATION_MEDIUM''))) = word_of_int PB_DR_TURN_CALIBRATION_MEDIUM"
proof (rule dr_calibration_confused)
  show "single_bits 32 (map fst (getPBMaskForDrCalibrationStatusMask_flags demo_dr))" by code_simp
  show "(demo_dr ''DR_TURN_CALIBRATION_MEDIUM'', PB_DR_TURN_CALIBRATION_MEDIUM) \<in> set (dr_confused demo_dr)" by (simp add: dr_confused_def)
qed


end
