(* ===== verification/SockNode.thy ===== *)
theory SockNode
  imports Bytes
begin

text \<open>
  The names of the daemon's clients, the class \<open>SockNode\<close> of
  \<open>location_api_msg_proto/src/LocationApiMsg.h\<close>: a prefix and two numbers, written \<open>prefix.id1.id2\<close>, with
  the part of \<open>sscanf\<close> and \<open>to_string\<close> it uses.
\<close>

section \<open>Decimal numbers\<close>

definition is_digit :: "char \<Rightarrow> bool" where "is_digit c = (c \<in> set ''0123456789'')"

definition digit_value :: "char \<Rightarrow> int" where "digit_value c = of_char c - 48"

definition digit_char :: "nat \<Rightarrow> char" where "digit_char d = ''0123456789'' ! d"

fun value_of_digits :: "int \<Rightarrow> string \<Rightarrow> int" where
  "value_of_digits n [] = n"
| "value_of_digits n (c # s) = value_of_digits (10 * n + digit_value c) s"

fun digits_of_nat :: "nat \<Rightarrow> string" where
  "digits_of_nat n = (if n < 10 then [digit_char n] else digits_of_nat (n div 10) @ [digit_char (n mod 10)])"

declare digits_of_nat.simps [simp del]

definition to_string :: "int \<Rightarrow> string" where
  "to_string i = (if i < 0 then CHR ''-'' # digits_of_nat (nat (- i)) else digits_of_nat (nat i))"

text \<open>\<open>%d\<close>: white space, a sign, and at least one digit.\<close>

definition is_space :: "char \<Rightarrow> bool" where
  "is_space c = (c \<in> {CHR '' '', CHR 0x09, CHR 0x0A, CHR 0x0B, CHR 0x0C, CHR 0x0D})"

fun scan_sign :: "string \<Rightarrow> bool \<times> string" where
  "scan_sign [] = (False, [])"
| "scan_sign (c # s) = (if c = CHR ''-'' then (True, s) else if c = CHR ''+'' then (False, s) else (False, c # s))"

definition scan_int :: "string \<Rightarrow> (int \<times> string) option" where
  "scan_int s =
     (case scan_sign (dropWhile is_space s) of (neg, u) \<Rightarrow>
        let ds = takeWhile is_digit u; n = value_of_digits 0 ds in
        if ds = [] then None else Some (if neg then - n else n, dropWhile is_digit u))"

text \<open>\<open>sscanf(s, "%d.%d", &id1, &id2)\<close>: what is not converted keeps its value.\<close>

definition scan_ids :: "string \<Rightarrow> int \<times> int \<Rightarrow> int \<times> int" where
  "scan_ids s ids =
     (case scan_int s of
        None \<Rightarrow> ids
      | Some (a, []) \<Rightarrow> (a, snd ids)
      | Some (a, c # r) \<Rightarrow>
          if c = CHR ''.'' then (case scan_int r of None \<Rightarrow> (a, snd ids) | Some (b, _) \<Rightarrow> (a, b))
          else (a, snd ids))"

section \<open>Nodes\<close>

text \<open>A conversion whose value no \<open>int\<close> holds is undefined.\<close>

definition is_int32 :: "int \<Rightarrow> bool" where "is_int32 i = (- (2 ^ 31) \<le> i \<and> i < 2 ^ 31)"

text \<open>The search for the second dot from the end. The argument is the index plus one; reading at the
  length gives the terminating zero.\<close>

definition char_at :: "string \<Rightarrow> nat \<Rightarrow> char" where
  "char_at s i = (if i < length s then s ! i else CHR 0x00)"

fun scan_back :: "string \<Rightarrow> nat \<Rightarrow> nat \<Rightarrow> nat \<times> nat" where
  "scan_back s count 0 = (count, 0)"
| "scan_back s count (Suc i) =
     (if count < 2 then scan_back s (if char_at s i = CHR ''.'' then Suc count else count) i
      else (count, Suc i))"

definition getId1Id2 :: "string \<Rightarrow> int \<Rightarrow> int \<times> int \<Rightarrow> (nat \<times> int \<times> int) outcome" where
  "getId1Id2 fullPathName len ids =
     (case scan_back fullPathName 0 (if len < 0 then length fullPathName else Suc (nat len)) of (count, n) \<Rightarrow>
        if count = 2 then
          case scan_ids (drop (n + 1) fullPathName) ids of (a, b) \<Rightarrow>
            if is_int32 a \<and> is_int32 b then Returns (n, a, b) else Faults
        else Returns (0, ids))"

record sock_node =
  mId1 :: int
  mId2 :: int
  mNodePathnamePrefix :: string

datatype sock_type = Local | Eap | Other

definition create :: "string \<Rightarrow> sock_node outcome" where
  "create fullPathName =
     andthen (getId1Id2 fullPathName (int (length fullPathName)) (-1, -1))
       (\<lambda>(indx, id1, id2). Returns \<lparr>mId1 = id1, mId2 = id2, mNodePathnamePrefix = take indx fullPathName\<rparr>)"

definition getNodePathname :: "sock_node \<Rightarrow> string" where
  "getNodePathname n = mNodePathnamePrefix n @ CHR ''.'' # to_string (mId1 n) @ CHR ''.'' # to_string (mId2 n)"

definition starts_with :: "string \<Rightarrow> string \<Rightarrow> bool" where
  "starts_with p s = (take (length p) s = p)"

text \<open>The directories and the client prefix are the build's.\<close>

record sock_dirs =
  SOCKET_LOC_CLIENT_DIR :: string
  EAP_LOC_CLIENT_DIR :: string
  LOC_CLIENT_NAME_PREFIX :: string
  LOC_INTAPI_NAME_PREFIX :: string

definition s_CLIENTAPI_LOCAL :: "sock_dirs \<Rightarrow> string" where
  "s_CLIENTAPI_LOCAL d = SOCKET_LOC_CLIENT_DIR d @ LOC_CLIENT_NAME_PREFIX d"
definition s_INTAPI_LOCAL :: "sock_dirs \<Rightarrow> string" where
  "s_INTAPI_LOCAL d = SOCKET_LOC_CLIENT_DIR d @ LOC_INTAPI_NAME_PREFIX d"
definition sEAP :: "sock_dirs \<Rightarrow> string" where
  "sEAP d = EAP_LOC_CLIENT_DIR d @ LOC_CLIENT_NAME_PREFIX d"

definition getNodeType :: "sock_dirs \<Rightarrow> sock_node \<Rightarrow> sock_type" where
  "getNodeType d n =
     (if starts_with (SOCKET_LOC_CLIENT_DIR d) (mNodePathnamePrefix n) then Local
      else if starts_with (sEAP d) (mNodePathnamePrefix n) then Eap else Other)"

text \<open>What socket is asked for: none, the local one of that name, or the QRTR one of those numbers.\<close>

datatype sender = NoSender | LocalSender string | QrtrSender int int

definition node_sender :: "sock_dirs \<Rightarrow> sock_node \<Rightarrow> sender" where
  "node_sender d n =
     (case getNodeType d n of
        Local \<Rightarrow> LocalSender (getNodePathname n) | Eap \<Rightarrow> QrtrSender (mId1 n) (mId2 n) | Other \<Rightarrow> NoSender)"

definition createSender :: "sock_dirs \<Rightarrow> string \<Rightarrow> sender outcome" where
  "createSender d socket = andthen (create socket) (\<lambda>n. Returns (node_sender d n))"

text \<open>The names clients take: the first characters of the program's name, a null pointer having none.\<close>

definition MAX_PROGRAM_NAME_LENGTH :: nat where "MAX_PROGRAM_NAME_LENGTH = 32"

definition program_name :: "string option \<Rightarrow> string" where
  "program_name prog = (case prog of None \<Rightarrow> [] | Some s \<Rightarrow> take MAX_PROGRAM_NAME_LENGTH s)"

definition SockNodeLocal :: "sock_dirs \<Rightarrow> string option \<Rightarrow> bool \<Rightarrow> int \<Rightarrow> int \<Rightarrow> sock_node" where
  "SockNodeLocal d prog client_api pid tid =
     \<lparr>mId1 = pid, mId2 = tid, mNodePathnamePrefix =
        (if client_api then s_CLIENTAPI_LOCAL d else s_INTAPI_LOCAL d) @ CHR ''_'' # program_name prog\<rparr>"

definition SockNodeEap :: "sock_dirs \<Rightarrow> string option \<Rightarrow> int \<Rightarrow> int \<Rightarrow> sock_node" where
  "SockNodeEap d prog service instance_id =
     \<lparr>mId1 = service, mId2 = instance_id,
      mNodePathnamePrefix = sEAP d @ CHR ''_'' # program_name prog\<rparr>"

definition isValidClientName :: "sock_dirs \<Rightarrow> string \<Rightarrow> bool" where
  "isValidClientName d name =
     (starts_with (SOCKET_LOC_CLIENT_DIR d) name \<or> starts_with (EAP_LOC_CLIENT_DIR d) name)"

section \<open>Lemmas\<close>

lemma digit_char: "d < 10 \<Longrightarrow> is_digit (digit_char d) \<and> digit_value (digit_char d) = int d"
proof -
  assume "d < 10"
  then have "d = 0 \<or> d = 1 \<or> d = 2 \<or> d = 3 \<or> d = 4 \<or> d = 5 \<or> d = 6 \<or> d = 7 \<or> d = 8 \<or> d = 9" by arith
  then show ?thesis by (elim disjE) (simp_all add: digit_char_def is_digit_def digit_value_def)
qed

lemma value_of_digits_append:
  "value_of_digits n (s @ [c]) = 10 * value_of_digits n s + digit_value c"
  by (induction s arbitrary: n) simp_all

lemma digits_of_nat:
  "list_all is_digit (digits_of_nat n) \<and> digits_of_nat n \<noteq> [] \<and> value_of_digits 0 (digits_of_nat n) = int n"
proof (induction n rule: digits_of_nat.induct)
  case (1 n)
  show ?case
  proof (cases "n < 10")
    case True
    then show ?thesis using digit_char [of n] by (simp add: digits_of_nat.simps)
  next
    case False
    moreover have "10 * int (n div 10) + int (n mod 10) = int n"
      by (metis mult_div_mod_eq of_nat_add of_nat_mult of_nat_numeral)
    ultimately show ?thesis
      using 1 digit_char [of "n mod 10"]
      by (simp add: digits_of_nat.simps [of n] value_of_digits_append del: of_nat_mod of_nat_div)
  qed
qed

lemma digit_not: "is_digit c \<Longrightarrow> \<not> is_space c \<and> c \<noteq> CHR ''-'' \<and> c \<noteq> CHR ''+'' \<and> c \<noteq> CHR ''.''"
  by (auto simp: is_digit_def is_space_def)

lemma takeWhile_digits:
  assumes "list_all is_digit ds" and "r = [] \<or> \<not> is_digit (hd r)"
  shows "takeWhile is_digit (ds @ r) = ds" and "dropWhile is_digit (ds @ r) = r"
  using assms by (induction ds) (auto, (cases r; simp)+)

lemma scan_digits:
  assumes "list_all is_digit ds" and "ds \<noteq> []" and "r = [] \<or> \<not> is_digit (hd r)"
  shows "scan_int (ds @ r) = Some (value_of_digits 0 ds, r)"
    and "scan_int (CHR ''-'' # ds @ r) = Some (- value_of_digits 0 ds, r)"
proof -
  obtain c u where ds: "ds = c # u" using assms(2) by (cases ds) auto
  then have "is_digit c" using assms(1) by simp
  then have "dropWhile is_space (ds @ r) = ds @ r" "scan_sign (ds @ r) = (False, ds @ r)"
    using ds by (simp_all add: digit_not)
  then show "scan_int (ds @ r) = Some (value_of_digits 0 ds, r)"
    using assms by (simp add: scan_int_def takeWhile_digits)
  have "\<not> is_space (CHR ''-'')" by (simp add: is_space_def)
  then show "scan_int (CHR ''-'' # ds @ r) = Some (- value_of_digits 0 ds, r)"
    using assms by (simp add: scan_int_def takeWhile_digits)
qed

text \<open>What is printed is read back, whatever follows that is no digit.\<close>

lemma scan_to_string: "r = [] \<or> \<not> is_digit (hd r) \<Longrightarrow> scan_int (to_string i @ r) = Some (i, r)"
  using digits_of_nat [of "nat i"] digits_of_nat [of "nat (- i)"]
  by (auto simp: to_string_def scan_digits)

lemma scan_ids_to_string: "scan_ids (to_string a @ CHR ''.'' # to_string b) ids = (a, b)"
  using scan_to_string [of "CHR ''.'' # to_string b" a] scan_to_string [of "[]" b]
  by (simp add: scan_ids_def is_digit_def)

lemma digits_no_dot: "list_all is_digit ds \<Longrightarrow> CHR ''.'' \<notin> set ds"
  by (induction ds) (auto dest: digit_not)

lemma to_string_no_dot: "CHR ''.'' \<notin> set (to_string i)"
  using digits_no_dot [of "digits_of_nat (nat i)"] digits_no_dot [of "digits_of_nat (nat (- i))"]
  by (simp add: to_string_def digits_of_nat)

text \<open>The search walks over what holds no dot, and counts a dot.\<close>

lemma scan_back_skip:
  assumes "\<forall>i. m \<le> i \<and> i < n \<longrightarrow> char_at s i \<noteq> CHR ''.''" and "count < 2" and "m \<le> n"
  shows "scan_back s count n = scan_back s count m"
  using assms
proof (induction n)
  case (Suc n)
  show ?case
  proof (cases "m = Suc n")
    case False
    then have "m \<le> n" using Suc.prems by simp
    then show ?thesis using Suc by simp
  qed simp
qed simp

lemma char_at_append: "char_at (s @ t) i = (if i < length s then s ! i else char_at t (i - length s))"
  by (auto simp: char_at_def nth_append)

lemma no_dot_at: "CHR ''.'' \<notin> set s \<Longrightarrow> char_at s i \<noteq> CHR ''.''"
  by (auto simp: char_at_def dest: nth_mem)

lemma scan_back_two_dots:
  assumes "CHR ''.'' \<notin> set x" and "CHR ''.'' \<notin> set y"
  shows "scan_back (p @ CHR ''.'' # x @ CHR ''.'' # y) 0 (Suc (length (p @ CHR ''.'' # x @ CHR ''.'' # y)))
    = (2, length p)" (is "scan_back ?s 0 ?n = _")
proof -
  let ?i = "length p" and ?j = "Suc (length p + length x)"
  have dots: "char_at ?s ?i = CHR ''.''" "char_at ?s ?j = CHR ''.''"
    by (simp_all add: char_at_append) (simp_all add: char_at_def nth_append)
  have after: "char_at ?s k \<noteq> CHR ''.''" if "Suc ?j \<le> k" for k
  proof -
    obtain d where "k = Suc ?j + d" using \<open>Suc ?j \<le> k\<close> le_Suc_ex by blast
    then have "char_at ?s k = char_at y d"
      using char_at_append [of "p @ CHR ''.'' # x @ [CHR ''.'']" y k] by simp
    then show ?thesis using no_dot_at [OF assms(2)] by simp
  qed
  have between: "char_at ?s k \<noteq> CHR ''.''" if k: "Suc ?i \<le> k" "k < ?j" for k
  proof -
    define d where "d = k - Suc ?i"
    have d: "d < length x" using k by (simp add: d_def)
    have "char_at ((p @ [CHR ''.'']) @ x @ CHR ''.'' # y) k = char_at (x @ CHR ''.'' # y) d"
      using k(1) unfolding char_at_append [of "p @ [CHR ''.'']"] d_def by simp
    also have "\<dots> = x ! d" using d by (simp only: char_at_append if_True)
    finally have "char_at ?s k = x ! d" by simp
    moreover have "x ! d \<in> set x" using d by simp
    ultimately show ?thesis using assms(1) by metis
  qed
  have "scan_back ?s 0 ?n = scan_back ?s 0 (Suc ?j)"
    by (rule scan_back_skip) (use after in auto)
  also have "\<dots> = scan_back ?s 1 ?j" using dots by simp
  also have "\<dots> = scan_back ?s 1 (Suc ?i)"
    by (rule scan_back_skip) (use between in auto)
  also have "\<dots> = scan_back ?s 2 ?i" using dots by (simp add: numeral_2_eq_2)
  also have "\<dots> = (2, ?i)" by (cases ?i) simp_all
  finally show ?thesis .
qed

text \<open>Fewer than two dots: the search reaches the start.\<close>

lemma scan_back_few:
  "count + length (filter (\<lambda>i. char_at s i = CHR ''.'') [0..<n]) < 2 \<Longrightarrow>
   fst (scan_back s count n) < 2"
  by (induction n arbitrary: count) (auto split: if_splits)

lemma create_getNodePathname:
  assumes "is_int32 (mId1 n)" and "is_int32 (mId2 n)"
  shows "create (getNodePathname n) = Returns n"
proof -
  have "scan_back (getNodePathname n) 0 (Suc (length (getNodePathname n))) = (2, length (mNodePathnamePrefix n))"
    unfolding getNodePathname_def
    by (rule scan_back_two_dots) (rule to_string_no_dot)+
  then show ?thesis using assms
    by (simp add: create_def getId1Id2_def) (simp add: getNodePathname_def scan_ids_to_string)
qed

section \<open>Properties\<close>

text \<open>C33: the name of a node, of any prefix and two numbers an \<open>int32_t\<close> holds, is parsed back to that node: the
  daemon opens the socket the client listens on, and no two nodes share a name.\<close>

theorem node_name_round_trip:
  assumes "is_int32 (mId1 n)" and "is_int32 (mId2 n)"
  shows "create (getNodePathname n) = Returns n \<and> createSender d (getNodePathname n) = Returns (node_sender d n)"
  using create_getNodePathname [OF assms] by (simp add: createSender_def)

definition sample_node :: sock_node where
  "sample_node = \<lparr>mId1 = 4321, mId2 = -7, mNodePathnamePrefix = ''/dev/socket/loc_client/a.b''\<rparr>"

theorem node_name_round_trip_witness:
  "create (getNodePathname sample_node) = Returns sample_node
   \<and> getNodePathname sample_node = ''/dev/socket/loc_client/a.b.4321.-7''"
  using node_name_round_trip [of sample_node undefined]
  by (simp add: sample_node_def is_int32_def getNodePathname_def to_string_def digits_of_nat.simps digit_char_def)

end
