(* ===== verification/HalClient.thy ===== *)
theory HalClient
  imports PbConstants SockNode
begin

text \<open>
  A client of the location HAL daemon, \<open>location_hal_daemon/LocHalDaemonClientHandler.cpp\<close>: its
  subscription, its tracking and batching sessions, the identifiers of its geofences, and the filter
  that thins out its position reports. What a client asks of the location API, a library, is a list of
  calls; the identifiers the library returns are arguments.
\<close>

section \<open>Data\<close>

text \<open>\<open>LocationOptions\<close>, and the \<open>TrackingOptions\<close> and \<open>BatchingOptions\<close> made from it.\<close>

record loc_options =
  minInterval :: "32 word"
  minDistance :: "32 word"
  opt_mode :: int
  locReqEngTypeMask :: "32 word"
  qualityLevelAccepted :: int

record batch_options =
  batchingMode :: int
  batch_loc_options :: loc_options

text \<open>The library: the values of its enumerators, and the two members of its option classes the daemon
  calls, \<open>setLocationOptions\<close> and the constructor of \<open>TrackingOptions\<close>; and the directories of the sockets.\<close>

record hal_lib =
  hal_value :: hal_values
  setLocationOptions :: "loc_options \<Rightarrow> loc_options \<Rightarrow> loc_options"
  newTrackingOptions :: "loc_options \<Rightarrow> loc_options"
  dirs :: sock_dirs

text \<open>The members of \<open>LocationCallbacks\<close> that can be set.\<close>

datatype callback =
  CapabilitiesCb | ResponseCb | CollectiveResponseCb | TrackingCb | BatchingCb | BatchingStatusCb
| GeofenceBreachCb | GnssLocationInfoCb | EngineLocationsInfoCb | GnssSvCb | GnssNmeaCb | EngineNmeaCb
| GnssDataCb | GnssMeasurementsCb | GnssNHzMeasurementsCb | LocationSystemInfoCb | GnssDcReportCb
| SvEphemerisCb | GnssNiCb | GeofenceStatusCb

text \<open>A geofence: its identifier, the bits of its place and radius, and its options.\<close>

record geofence_option =
  breachTypeMask :: "32 word"
  responsiveness :: "32 word"
  dwellTime :: "32 word"

record geofence_info =
  gf_latitude :: "64 word"
  gf_longitude :: "64 word"
  gf_radius :: "64 word"

datatype hal_call =
  Api_updateCallbacks "callback set"
| Api_startTracking loc_options | Api_stopTracking "32 word" | Api_updateTrackingOptions "32 word" loc_options
| Api_startBatching batch_options | Api_stopBatching "32 word" | Api_updateBatchingOptions "32 word" batch_options
| Api_addGeofences "geofence_option list" "geofence_info list" | Api_removeGeofences "32 word list"
| Api_modifyGeofences "32 word list" "geofence_option list"
| Api_pauseGeofences "32 word list" | Api_resumeGeofences "32 word list"
| Api_getAntennaInfo | Api_getDebugReport | Api_destroy

text \<open>A handler. \<open>mLocationApi\<close> and \<open>mIpcSender\<close> say whether the pointer is set; \<open>api_calls\<close> are the calls
  made on the former. The map of geofence identifiers is kept in the order it is iterated in.\<close>

record client =
  mName :: string
  mClientType :: int
  mServiceId :: int
  mInstanceId :: int
  mCapabilityMask :: "64 word"
  mTracking :: bool
  mBatching :: bool
  mSessionId :: "32 word"
  mBatchingId :: "32 word"
  mBatchingMode :: int
  mLocationApi :: bool
  mCallbacks :: "callback set"
  mOptions :: loc_options
  mBatchOptions :: batch_options
  mPendingMessages :: "int list"
  mGfPendingMessages :: "int list"
  mSubscriptionMask :: "32 word"
  mEngineInfoRequestMask :: "32 word"
  mGeofenceIds :: "32 word list option"
  mIpcSender :: bool
  mGfIdsMap :: "(32 word \<times> 32 word) list"
  mPrevPosReportSentBootTimeMsec :: "int \<Rightarrow> 64 word"
  mFirstFixalFixReceived :: "int \<Rightarrow> bool"
  api_calls :: "hal_call list"

definition call_api :: "hal_call \<Rightarrow> client \<Rightarrow> client" where
  "call_api k c = c\<lparr>api_calls := api_calls c @ [k]\<rparr>"

section \<open>Subscription\<close>

definition has_flag :: "32 word \<Rightarrow> int \<Rightarrow> bool" where
  "has_flag m f = (m AND word_of_int f \<noteq> 0)"

definition callbacks_of :: "32 word \<Rightarrow> callback set" where
  "callbacks_of m =
     {CapabilitiesCb, ResponseCb, CollectiveResponseCb}
     \<union> (if has_flag m (E_LOC_CB_TRACKING_BIT OR E_LOC_CB_SIMPLE_LOCATION_INFO_BIT) then {TrackingCb} else {})
     \<union> (if has_flag m E_LOC_CB_BATCHING_BIT then {BatchingCb} else {})
     \<union> (if has_flag m E_LOC_CB_BATCHING_STATUS_BIT then {BatchingStatusCb} else {})
     \<union> (if has_flag m E_LOC_CB_GEOFENCE_BREACH_BIT then {GeofenceBreachCb} else {})
     \<union> (if has_flag m E_LOC_CB_GNSS_LOCATION_INFO_BIT then {GnssLocationInfoCb} else {})
     \<union> (if has_flag m E_LOC_CB_ENGINE_LOCATIONS_INFO_BIT then {EngineLocationsInfoCb} else {})
     \<union> (if has_flag m E_LOC_CB_GNSS_SV_BIT then {GnssSvCb} else {})
     \<union> (if has_flag m E_LOC_CB_GNSS_NMEA_BIT then {GnssNmeaCb} else {})
     \<union> (if has_flag m E_LOC_CB_ENGINE_NMEA_BIT then {EngineNmeaCb} else {})
     \<union> (if has_flag m E_LOC_CB_GNSS_DATA_BIT then {GnssDataCb} else {})
     \<union> (if has_flag m E_LOC_CB_GNSS_MEAS_BIT then {GnssMeasurementsCb} else {})
     \<union> (if has_flag m E_LOC_CB_GNSS_NHZ_MEAS_BIT then {GnssNHzMeasurementsCb} else {})
     \<union> (if has_flag m E_LOC_CB_SYSTEM_INFO_BIT then {LocationSystemInfoCb} else {})
     \<union> (if has_flag m E_LOC_CB_GNSS_DC_REPORT_BIT then {GnssDcReportCb} else {})
     \<union> (if has_flag m E_LOC_CB_GNSS_EPH_BIT then {SvEphemerisCb} else {})"

definition updateSubscription :: "32 word \<Rightarrow> client \<Rightarrow> client" where
  "updateSubscription m c =
     (let c1 = c\<lparr>mSubscriptionMask := m, mCallbacks := callbacks_of m\<rparr> in
      if mLocationApi c1 then call_api (Api_updateCallbacks (mCallbacks c1)) c1 else c1)"

definition LOCATION_SESSON_ALL_INFO_MASK :: int where
  "LOCATION_SESSON_ALL_INFO_MASK =
     E_LOC_CB_TRACKING_BIT OR E_LOC_CB_GNSS_LOCATION_INFO_BIT OR E_LOC_CB_GNSS_SV_BIT OR E_LOC_CB_GNSS_NMEA_BIT OR
     E_LOC_CB_GNSS_DATA_BIT OR E_LOC_CB_GNSS_MEAS_BIT OR E_LOC_CB_GNSS_NHZ_MEAS_BIT OR
     E_LOC_CB_ENGINE_LOCATIONS_INFO_BIT OR E_LOC_CB_SIMPLE_LOCATION_INFO_BIT OR E_LOC_CB_GNSS_DC_REPORT_BIT OR
     E_LOC_CB_ENGINE_NMEA_BIT OR E_LOC_CB_GNSS_EPH_BIT"

definition unsubscribeLocationSessionCb :: "client \<Rightarrow> client" where
  "unsubscribeLocationSessionCb c =
     updateSubscription (mSubscriptionMask c AND NOT (word_of_int LOCATION_SESSON_ALL_INFO_MASK)) c"

text \<open>A new handler: the array members have no initialiser, and hold whatever \<open>sent\<close> and \<open>final\<close> are. An
  integration API client gets no location API; for the other clients \<open>api\<close> says whether the library
  could create one. \<open>made\<close> says whether it could create a socket.\<close>

definition handler_init :: "hal_lib \<Rightarrow> string \<Rightarrow> int \<Rightarrow> bool \<Rightarrow> int \<times> int \<Rightarrow> bool \<Rightarrow> (int \<Rightarrow> 64 word) \<Rightarrow> (int \<Rightarrow> bool) \<Rightarrow> loc_options \<Rightarrow> client" where
  "handler_init lib clientname clientType sender ids api sent final opts =
     (let c = \<lparr>mName = clientname, mClientType = clientType, mServiceId = fst ids, mInstanceId = snd ids, mCapabilityMask = 0,
        mTracking = False, mBatching = False, mSessionId = 0, mBatchingId = 0,
        mBatchingMode = hal_value lib ''BATCHING_MODE_NO_AUTO_REPORT'', mLocationApi = False, mCallbacks = {},
        mOptions = opts, mBatchOptions = \<lparr>batchingMode = 0, batch_loc_options = opts\<rparr>,
        mPendingMessages = [], mGfPendingMessages = [], mSubscriptionMask = 0, mEngineInfoRequestMask = 0,
        mGeofenceIds = None, mIpcSender = sender, mGfIdsMap = [], mPrevPosReportSentBootTimeMsec = sent,
        mFirstFixalFixReceived = final, api_calls = []\<rparr> in
      if clientType = LOCATION_CLIENT_API
      then (updateSubscription (word_of_int E_LOC_CB_GNSS_LOCATION_INFO_BIT) c)
        \<lparr>mSubscriptionMask := 0, mLocationApi := api\<rparr>
      else c)"

definition newHandler :: "hal_lib \<Rightarrow> string \<Rightarrow> int \<Rightarrow> bool \<Rightarrow> bool \<Rightarrow> (int \<Rightarrow> 64 word) \<Rightarrow> (int \<Rightarrow> bool) \<Rightarrow> loc_options \<Rightarrow> client outcome" where
  "newHandler lib clientname clientType made api sent final opts =
     andthen (createSender (dirs lib) clientname) (\<lambda>sender.
     andthen (if starts_with (sEAP (dirs lib)) clientname
              then getId1Id2 clientname (int (length clientname)) (-1, -1) else Returns (0, -1, -1)) (\<lambda>(_, ids).
     Returns (handler_init lib clientname clientType (sender \<noteq> NoSender \<and> made) ids api sent final opts)))"

section \<open>Tracking\<close>

definition getSupportedTbf :: "32 word \<Rightarrow> 32 word" where
  "getSupportedTbf tbfMsec =
     (if tbfMsec < 200 then 100
      else if tbfMsec < 500 then 200
      else if tbfMsec < 1000 then 500
      else if tbfMsec > 4294967295 - 999 then 4294967295 div 1000 * 1000
      else (tbfMsec + 999) div 1000 * 1000)"

definition startTracking :: "hal_lib \<Rightarrow> loc_options \<Rightarrow> 32 word \<Rightarrow> client \<Rightarrow> 32 word \<times> client" where
  "startTracking lib locOptions new_id c =
     (if mSessionId c = 0 \<and> mLocationApi c then
        let opts = setLocationOptions lib (mOptions c) locOptions;
            opts' = opts\<lparr>minInterval := getSupportedTbf (minInterval opts)\<rparr>;
            c1 = (call_api (Api_startTracking opts') c)
              \<lparr>mOptions := opts', mSessionId := new_id,
               mPendingMessages := mPendingMessages c @ [E_LOCAPI_START_TRACKING_MSG_ID], mTracking := True\<rparr> in
        (mSessionId c1, c1)
      else (mSessionId c, c))"

definition stopTracking :: "bool \<Rightarrow> client \<Rightarrow> client" where
  "stopTracking clientExpectingResp c =
     (let c1 =
        (if mSessionId c \<noteq> 0 \<and> mLocationApi c then
           let c0 = (call_api (Api_stopTracking (mSessionId c)) c)\<lparr>mSessionId := 0\<rparr> in
           if clientExpectingResp
           then c0\<lparr>mPendingMessages := mPendingMessages c0 @ [E_LOCAPI_STOP_TRACKING_MSG_ID]\<rparr> else c0
         else c) in
      c1\<lparr>mTracking := False\<rparr>)"

definition updateTrackingOptions :: "hal_lib \<Rightarrow> loc_options \<Rightarrow> client \<Rightarrow> client" where
  "updateTrackingOptions lib locOptions c =
     (if mSessionId c \<noteq> 0 \<and> mLocationApi c then
        let opts = newTrackingOptions lib locOptions;
            opts' = opts\<lparr>minInterval := getSupportedTbf (minInterval opts)\<rparr> in
        (call_api (Api_updateTrackingOptions (mSessionId c) opts') c)\<lparr>mOptions := opts'\<rparr>
      else c)"

section \<open>Batching\<close>

text \<open>A \<open>LocationOptions\<close> cleared to zero and filled in.\<close>

definition batch_options_for :: "hal_lib \<Rightarrow> 32 word \<Rightarrow> 32 word \<Rightarrow> int \<Rightarrow> client \<Rightarrow> batch_options" where
  "batch_options_for lib interval distance batchMode c =
     \<lparr>batchingMode = batchMode,
      batch_loc_options = setLocationOptions lib (batch_loc_options (mBatchOptions c))
        \<lparr>minInterval = interval, minDistance = distance, opt_mode = hal_value lib ''GNSS_SUPL_MODE_STANDALONE'',
         locReqEngTypeMask = 0, qualityLevelAccepted = 0\<rparr>\<rparr>"

definition startBatching :: "hal_lib \<Rightarrow> 32 word \<Rightarrow> 32 word \<Rightarrow> int \<Rightarrow> 32 word \<Rightarrow> client \<Rightarrow> 32 word \<times> client" where
  "startBatching lib interval distance batchMode new_id c =
     (if mBatchingId c = 0 \<and> mLocationApi c then
        let opts = batch_options_for lib interval distance batchMode c in
        (new_id, (call_api (Api_startBatching opts) c)\<lparr>mBatchOptions := opts, mBatchingId := new_id\<rparr>)
      else (mBatchingId c, c))"

definition stopBatching :: "client \<Rightarrow> client" where
  "stopBatching c =
     (if mBatchingId c \<noteq> 0 \<and> mLocationApi c
      then (call_api (Api_stopBatching (mBatchingId c)) c)\<lparr>mBatchingId := 0\<rparr> else c)"

definition updateBatchingOptions :: "hal_lib \<Rightarrow> 32 word \<Rightarrow> 32 word \<Rightarrow> int \<Rightarrow> client \<Rightarrow> client" where
  "updateBatchingOptions lib interval distance batchMode c =
     (if mBatchingId c \<noteq> 0 \<and> mLocationApi c then
        let opts = batch_options_for lib interval distance batchMode c in
        (call_api (Api_updateBatchingOptions (mBatchingId c) opts) c)\<lparr>mBatchOptions := opts\<rparr>
      else c)"

section \<open>Geofences\<close>

text \<open>\<open>std::unordered_map\<close>: \<open>map_put\<close> is \<open>m[k] = v\<close>. Where a new key comes in the order of iteration is
  unspecified; here it is the first.\<close>

fun map_put :: "'k \<Rightarrow> 'v \<Rightarrow> ('k \<times> 'v) list \<Rightarrow> ('k \<times> 'v) list" where
  "map_put k v [] = [(k, v)]"
| "map_put k v ((k', v') # m) = (if k' = k then (k, v) # m else (k', v') # map_put k v m)"

definition map_erase :: "'k \<Rightarrow> ('k \<times> 'v) list \<Rightarrow> ('k \<times> 'v) list" where
  "map_erase k m = filter (\<lambda>(k', v). k' \<noteq> k) m"

definition setGeofenceIds :: "32 word list \<Rightarrow> 32 word list \<Rightarrow> client \<Rightarrow> client" where
  "setGeofenceIds clientIds sessionIds c =
     c\<lparr>mGfIdsMap := fold (\<lambda>(k, v). map_put k v) (zip clientIds sessionIds) (mGfIdsMap c)\<rparr>"

definition eraseGeofenceIds :: "32 word list \<Rightarrow> client \<Rightarrow> client" where
  "eraseGeofenceIds clientIds c = c\<lparr>mGfIdsMap := fold map_erase clientIds (mGfIdsMap c)\<rparr>"

text \<open>\<open>mGfIdsMap[k]\<close> adds a key that is not there, with the value zero. \<open>mem\<close> says whether \<open>malloc\<close> gives the
  memory; the result is a null pointer or the array.\<close>

fun lookup_ids :: "32 word list \<Rightarrow> (32 word \<times> 32 word) list \<Rightarrow> 32 word list \<times> (32 word \<times> 32 word) list" where
  "lookup_ids [] m = ([], m)"
| "lookup_ids (k # ks) m =
     (case map_of m k of
        Some v \<Rightarrow> (case lookup_ids ks m of (vs, m') \<Rightarrow> (v # vs, m'))
      | None \<Rightarrow> (case lookup_ids ks (map_put k 0 m) of (vs, m') \<Rightarrow> (0 # vs, m')))"

definition getSessionIds :: "bool \<Rightarrow> 32 word list \<Rightarrow> client \<Rightarrow> 32 word list option \<times> client" where
  "getSessionIds mem clientIds c =
     (if clientIds \<noteq> [] \<and> mem
      then case lookup_ids clientIds (mGfIdsMap c) of (vs, m) \<Rightarrow> (Some vs, c\<lparr>mGfIdsMap := m\<rparr>)
      else (None, c))"

text \<open>The last key in the order of iteration whose value is the session, or zero.\<close>

definition client_id_of :: "(32 word \<times> 32 word) list \<Rightarrow> 32 word \<Rightarrow> 32 word" where
  "client_id_of m s = fold (\<lambda>(k, v) r. if v = s then k else r) m 0"

definition getClientIds :: "bool \<Rightarrow> 32 word list \<Rightarrow> client \<Rightarrow> 32 word list option" where
  "getClientIds mem sessionIds c =
     (if sessionIds \<noteq> [] \<and> mem then Some (map (client_id_of (mGfIdsMap c)) sessionIds) else None)"

text \<open>\<open>new_ids\<close> is what the library returns: a null pointer or the new sessions.\<close>

definition addGeofences :: "geofence_option list \<Rightarrow> geofence_info list \<Rightarrow> 32 word list option \<Rightarrow> client
    \<Rightarrow> 32 word list option \<times> client" where
  "addGeofences options infos new_ids c =
     (if options \<noteq> [] \<and> mLocationApi c
      then (new_ids, (call_api (Api_addGeofences options infos) c)\<lparr>mGeofenceIds := new_ids\<rparr>)
      else (mGeofenceIds c, c))"

definition api_if :: "bool \<Rightarrow> hal_call \<Rightarrow> client \<Rightarrow> client" where
  "api_if some k c = (if some \<and> mLocationApi c then call_api k c else c)"

definition removeGeofences :: "32 word list \<Rightarrow> client \<Rightarrow> client" where
  "removeGeofences ids c = api_if (ids \<noteq> []) (Api_removeGeofences ids) c"
definition modifyGeofences :: "32 word list \<Rightarrow> geofence_option list \<Rightarrow> client \<Rightarrow> client" where
  "modifyGeofences ids options c = api_if (ids \<noteq> []) (Api_modifyGeofences ids options) c"
definition pauseGeofences :: "32 word list \<Rightarrow> client \<Rightarrow> client" where
  "pauseGeofences ids c = api_if (ids \<noteq> []) (Api_pauseGeofences ids) c"
definition resumeGeofences :: "32 word list \<Rightarrow> client \<Rightarrow> client" where
  "resumeGeofences ids c = api_if (ids \<noteq> []) (Api_resumeGeofences ids) c"
definition getAntennaInfo :: "client \<Rightarrow> client" where
  "getAntennaInfo c = api_if True Api_getAntennaInfo c"

definition parseClientGeofenceBreachType :: "hal_values \<Rightarrow> int \<Rightarrow> 32 word" where
  "parseClientGeofenceBreachType hal type =
     (if type = hal ''GEOFENCE_BREACH_ENTER'' then word_of_int (hal ''GEOFENCE_BREACH_ENTER_BIT'')
      else if type = hal ''GEOFENCE_BREACH_EXIT'' then word_of_int (hal ''GEOFENCE_BREACH_EXIT_BIT'')
      else if type = hal ''GEOFENCE_BREACH_DWELL_IN'' then word_of_int (hal ''GEOFENCE_BREACH_DWELL_IN_BIT'')
      else if type = hal ''GEOFENCE_BREACH_DWELL_OUT'' then word_of_int (hal ''GEOFENCE_BREACH_DWELL_OUT_BIT'')
      else 0)"

section \<open>Energy requests\<close>

definition E_ENGINE_INFO_CB_GNSS_ENERGY_CONSUMED_BIT :: int where "E_ENGINE_INFO_CB_GNSS_ENERGY_CONSUMED_BIT = 1"

definition hasPendingEngineInfoRequest :: "client \<Rightarrow> bool" where
  "hasPendingEngineInfoRequest c = has_flag (mEngineInfoRequestMask c) E_ENGINE_INFO_CB_GNSS_ENERGY_CONSUMED_BIT"

definition addEngineInfoRequst :: "client \<Rightarrow> client" where
  "addEngineInfoRequst c = c\<lparr>mEngineInfoRequestMask :=
     mEngineInfoRequestMask c OR word_of_int E_ENGINE_INFO_CB_GNSS_ENERGY_CONSUMED_BIT\<rparr>"

section \<open>Position reports\<close>

text \<open>A position and a report of it, as far as the daemon looks at them. \<open>hasAccurateGpsTime\<close> is what the
  library's method of that name says; an accuracy is a multiple of \<open>2 ^ -149\<close>, as every float is.\<close>

record location =
  loc_flags :: "32 word"
  loc_timestamp :: "64 word"
  loc_accuracy :: int
  sessionStatus :: int

record report =
  location :: location
  locOutputEngType :: int
  hasAccurateGpsTime :: bool
  systemMsec :: "32 word"

definition POSITION_REPORT_GAURD_BAND :: "32 word" where "POSITION_REPORT_GAURD_BAND = 30"

definition sent_now :: "int \<Rightarrow> 64 word \<Rightarrow> client \<Rightarrow> client" where
  "sent_now engType now c =
     c\<lparr>mPrevPosReportSentBootTimeMsec := (mPrevPosReportSentBootTimeMsec c)(engType := now)\<rparr>"

definition set_final :: "int \<Rightarrow> bool \<Rightarrow> client \<Rightarrow> client" where
  "set_final engType b c = c\<lparr>mFirstFixalFixReceived := (mFirstFixalFixReceived c)(engType := b)\<rparr>"

text \<open>By the boot time: whether the report is held back.\<close>

definition filter_by_time :: "int \<Rightarrow> 64 word \<Rightarrow> client \<Rightarrow> bool \<times> client" where
  "filter_by_time engType now c =
     (let lowerBound = minInterval (mOptions c) - POSITION_REPORT_GAURD_BAND;
          prev = mPrevPosReportSentBootTimeMsec c engType in
      if prev \<noteq> 0 then
        if prev \<le> now then
          if ucast lowerBound \<le> now - prev then (False, sent_now engType now c) else (True, c)
        else (False, sent_now engType now c)
      else (False, sent_now engType now c))"

definition filterPositionReport :: "hal_values \<Rightarrow> 64 word \<Rightarrow> report \<Rightarrow> int \<Rightarrow> client \<Rightarrow> bool \<times> client" where
  "filterPositionReport hal curBootTimeMsec r engType c =
     (if minInterval (mOptions c) = 0 \<or> hal ''LOC_OUTPUT_ENGINE_COUNT'' \<le> engType then (False, c)
      else
        let final = (sessionStatus (location r) = hal ''LOC_SESS_SUCCESS'') in
        if \<not> mFirstFixalFixReceived c engType \<and> final
        then (False, sent_now engType curBootTimeMsec (set_final engType True c))
        else
          let c1 = (if mFirstFixalFixReceived c engType \<and> \<not> final then set_final engType False c else c) in
          if hasAccurateGpsTime r \<and> systemMsec r mod minInterval (mOptions c1) = 0
          then (False, sent_now engType curBootTimeMsec c1)
          else filter_by_time engType curBootTimeMsec c1)"

end
