(* ===== verification/HalService.thy ===== *)
theory HalService
  imports HalClient Bytes
begin

text \<open>
  The service of the location HAL daemon, \<open>location_hal_daemon/LocationApiService.cpp\<close>, with the parts of
  \<open>LocHalDaemonClientHandler.cpp\<close> that send messages: the clients by name, the requests for single
  positions, the configuration requests that wait for an answer, and what the library's callbacks do.
  It runs under the lock of the service, one call at a time, but for the deletions of maintenance and
  the entry of a client for the status of XTRA, which the code makes without the lock. A handler is an
  object: a pointer to a deleted one faults, and so does going on with an iteration whose element was
  erased.
\<close>

section \<open>State\<close>

text \<open>The messages; those the daemon passes on untouched are a message identifier and the bytes.\<close>

datatype out_msg =
  GenericResp int int
| CollectiveResp int "(32 word \<times> int) list"
| CapabilitiesInd "64 word"
| LocationInd location
| BatchingInd int int "location list"
| GeofenceBreachInd "64 word" location "32 word" "32 word list"
| LocationInfoInd report
| EngineLocationsInd "report list"
| NmeaInd "64 word" string int
| OtherInd int "8 word list"
| SignalTypesResp "32 word"
| EnergyConsumedInd "64 word"
| TerrestrialPosResp int location
| SinglePosResp int location
| PingInd
| PingReq
| XtraStatusResp int "8 word list"

text \<open>What is outside: the library, whether a message can be serialised, whether a client can be reached,
  which may depend on everything sent so far, and whether the library is done with destroying a
  handler's location API before the call of \<open>destroy\<close> returns.\<close>

record hald_env =
  env_lib :: hal_lib
  serializes :: "out_msg \<Rightarrow> bool"
  reaches :: "(string \<times> out_msg \<times> bool) list \<Rightarrow> string \<Rightarrow> bool"
  destroys_at_once :: "client \<Rightarrow> bool"

definition destroys_later :: "hald_env \<Rightarrow> bool" where
  "destroys_later env \<longleftrightarrow> (\<forall>c. \<not> destroys_at_once env c)"

text \<open>The maps are kept in the order they are iterated in. \<open>network_on\<close> says whether the network location was
  started and not stopped since, \<open>gnss_calls\<close> are the calls on the other interfaces of the library,
  \<open>sent\<close> the messages with their fates. Structures that are passed on are the bytes they consist of.\<close>

datatype gnss_call =
  Gnss_updateConnectionStatus bool | Gnss_getGnssEnergyConsumed | Gnss_gnssGetSecondaryBandConfig
| Gnss_gnssGetXtraStatus | Gnss_gnssRegisterXtraStatusUpdate bool
| Ctl_configConstrainedTimeUncertainty bool "32 word" "32 word"
| Ctl_configPositionAssistedClockEstimator bool
| Ctl_configConstellations "8 word list" "8 word list"
| Ctl_configConstellationSecondaryBand "8 word list"
| Ctl_gnssDeleteAidingData "8 word list"
| Ctl_configLeverArm "8 word list"
| Ctl_configRobustLocation bool bool
| Ctl_configMinGpsWeek "16 word"
| Ctl_configMinSvElevation "8 word"
| Ctl_configEngineRunState "32 word" int
| Ctl_setOptInStatus bool
| Ctl_configOutputNmeaTypes "32 word" int "32 word"
| Ctl_configEngineIntegrityRisk "32 word" "32 word"
| Ctl_configXtraParams bool "8 word list"
| Ctl_configMerkleTree string
| Ctl_configOsnmaEnablement bool
| Ctl_gnssInjectMmfData "8 word list"
| Ctl_configureUserConsentForXtra bool
| Ctl_gnssGetConfig int
| Ctl_configDeadReckoningEngineParams "8 word list"
| Ctl_odcpiInject "8 word list"

record service =
  mClients :: "(string \<times> nat) list"
  handlers :: "nat \<rightharpoonup> client"
  next_handler :: nat
  mConfigReqs :: "(32 word \<times> string \<times> int) list"
  mPositionMode :: int
  mGtpWwanSsLocationApi :: bool
  mOptInTerrestrialService :: int
  mTerrestrialFixTimeoutMap :: "string list"
  network_on :: bool
  mSingleFixLocationApi :: bool
  mSingleFixTrackingSessionId :: "32 word"
  mSingleFixReqMap :: "(string \<times> int) list"
  mSingleFixLastLocation :: location
  mClientsRegForXtraStatus :: "string list"
  mSignalTypesLocationApi :: bool
  gnssSignalTypesCb :: bool
  gnss_calls :: "gnss_call list"
  sent :: "(string \<times> out_msg \<times> bool) list"

definition no_location :: location where
  "no_location = \<lparr>loc_flags = 0, loc_timestamp = 0, loc_accuracy = 0, sessionStatus = 0\<rparr>"

definition service_start :: "int \<Rightarrow> service" where
  "service_start mode = \<lparr>mClients = [], handlers = Map.empty, next_handler = 0, mConfigReqs = [], mPositionMode = mode,
     mGtpWwanSsLocationApi = False, mOptInTerrestrialService = -1, mTerrestrialFixTimeoutMap = [],
     network_on = False, mSingleFixLocationApi = False, mSingleFixTrackingSessionId = 0, mSingleFixReqMap = [],
     mSingleFixLastLocation = no_location, mClientsRegForXtraStatus = [],
     mSignalTypesLocationApi = False, gnssSignalTypesCb = False, gnss_calls = [], sent = []\<rparr>"

definition getClient :: "string \<Rightarrow> service \<Rightarrow> nat option" where
  "getClient name s = map_of (mClients s) name"

section \<open>Handlers\<close>

text \<open>A call on a handler: a dead pointer faults.\<close>

definition on_handler :: "nat \<Rightarrow> (client \<Rightarrow> service outcome) \<Rightarrow> service \<Rightarrow> service outcome" where
  "on_handler p k s = (case handlers s p of None \<Rightarrow> Faults | Some c \<Rightarrow> k c)"

definition put_handler :: "nat \<Rightarrow> client \<Rightarrow> service \<Rightarrow> service" where
  "put_handler p c s = s\<lparr>handlers := (handlers s)(p \<mapsto> c)\<rparr>"

definition upd_handler :: "nat \<Rightarrow> (client \<Rightarrow> client) \<Rightarrow> service \<Rightarrow> service outcome" where
  "upd_handler p f s = on_handler p (\<lambda>c. Returns (put_handler p (f c) s)) s"

text \<open>The socket is a pointer that must be set.\<close>

definition sendMessage :: "hald_env \<Rightarrow> client \<Rightarrow> out_msg \<Rightarrow> service \<Rightarrow> (bool \<times> service) outcome" where
  "sendMessage env c msg s =
     (if mIpcSender c
      then let ok = reaches env (sent s) (mName c) in Returns (ok, s\<lparr>sent := sent s @ [(mName c, msg, ok)]\<rparr>)
      else Faults)"

text \<open>If the library calls back before \<open>destroy\<close> returns, the callback deletes the handler, and
  \<open>cleanup\<close> goes on to write to it.\<close>

definition cleanup :: "hald_env \<Rightarrow> nat \<Rightarrow> service \<Rightarrow> service outcome" where
  "cleanup env p s = on_handler p (\<lambda>c.
     if mLocationApi c then
       if destroys_at_once env c then Faults
       else Returns (put_handler p ((call_api Api_destroy c)\<lparr>mIpcSender := False, mLocationApi := False\<rparr>) s)
     else Returns (s\<lparr>handlers := (handlers s)(p := None)\<rparr>)) s"

text \<open>The library's answer to \<open>destroy\<close>.\<close>

definition onLocationApiDestroyCompleteCb :: "nat \<Rightarrow> service \<Rightarrow> service" where
  "onLocationApiDestroyCompleteCb p s = s\<lparr>handlers := (handlers s)(p := None)\<rparr>"

section \<open>Single positions and clients\<close>

definition stopTrackingSessionForSingleFixes :: "service \<Rightarrow> service" where
  "stopTrackingSessionForSingleFixes s =
     (if mSingleFixReqMap s = [] then
        let s1 = s\<lparr>mSingleFixLastLocation := no_location\<rparr> in
        if mSingleFixLocationApi s1 \<and> mSingleFixTrackingSessionId s1 \<noteq> 0
        then s1\<lparr>mSingleFixTrackingSessionId := 0\<rparr> else s1
      else s)"

definition stop_network :: "service \<Rightarrow> service outcome" where
  "stop_network s = (if mGtpWwanSsLocationApi s then Returns (s\<lparr>network_on := False\<rparr>) else Faults)"

text \<open>Deleting a client, in two parts: up to the test whether its request for a terrestrial position was
  the last, whose result goes with the handler, and what follows. Under the lock nothing runs between
  them.\<close>

definition delete_begin :: "string \<Rightarrow> service \<Rightarrow> (nat \<times> bool \<times> service) option" where
  "delete_begin clientname s =
     (case getClient clientname s of
        None \<Rightarrow> None
      | Some p \<Rightarrow>
          let s1 = s\<lparr>mClients := map_erase clientname (mClients s)\<rparr> in
          if clientname \<in> set (mTerrestrialFixTimeoutMap s1) then
            let s2 = s1\<lparr>mTerrestrialFixTimeoutMap := removeAll clientname (mTerrestrialFixTimeoutMap s1)\<rparr> in
            Some (p, mTerrestrialFixTimeoutMap s2 = [], s2)
          else Some (p, False, s1))"

definition delete_end :: "hald_env \<Rightarrow> string \<Rightarrow> nat \<Rightarrow> bool \<Rightarrow> service \<Rightarrow> service outcome" where
  "delete_end env clientname p stop s =
     andthen (if stop then stop_network s else Returns s) (\<lambda>s3.
       cleanup env p (stopTrackingSessionForSingleFixes
         (s3\<lparr>mSingleFixReqMap := map_erase clientname (mSingleFixReqMap s3)\<rparr>)))"

definition deleteClientbyName :: "hald_env \<Rightarrow> string \<Rightarrow> service \<Rightarrow> service outcome" where
  "deleteClientbyName env clientname s =
     (case delete_begin clientname s of
        None \<Rightarrow> Returns s
      | Some (p, stop, s1) \<Rightarrow> delete_end env clientname p stop s1)"

text \<open>Serialise, send, and drop a client that cannot be reached.\<close>

definition send_or_purge :: "hald_env \<Rightarrow> client \<Rightarrow> out_msg \<Rightarrow> service \<Rightarrow> service outcome" where
  "send_or_purge env c msg s =
     (if serializes env msg
      then andthen (sendMessage env c msg s) (\<lambda>(rc, s1).
        if rc then Returns s1 else deleteClientbyName env (mName c) s1)
      else Returns s)"

definition send_if :: "hald_env \<Rightarrow> nat \<Rightarrow> (client \<Rightarrow> bool) \<Rightarrow> (client \<Rightarrow> out_msg) \<Rightarrow> service \<Rightarrow> service outcome" where
  "send_if env p cond msg s =
     on_handler p (\<lambda>c. if mIpcSender c \<and> cond c then send_or_purge env c (msg c) s else Returns s) s"

definition sendCapabilitiesMsg :: "hald_env \<Rightarrow> nat \<Rightarrow> service \<Rightarrow> service outcome" where
  "sendCapabilitiesMsg env p = send_if env p (\<lambda>c. mCapabilityMask c \<noteq> 0) (\<lambda>c. CapabilitiesInd (mCapabilityMask c))"

text \<open>\<open>made\<close> and \<open>api\<close> say whether the client's socket and its location API could be made, \<open>prev\<close> and \<open>final\<close>
  what is in memory that is not initialised.\<close>

definition newClient :: "hald_env \<Rightarrow> string \<Rightarrow> int \<Rightarrow> bool \<Rightarrow> bool \<Rightarrow> (int \<Rightarrow> 64 word) \<Rightarrow> (int \<Rightarrow> bool) \<Rightarrow> loc_options
    \<Rightarrow> service \<Rightarrow> service outcome" where
  "newClient env clientname clientType made api prev final opts s =
     (case getClient clientname s of
        Some p \<Rightarrow> sendCapabilitiesMsg env p s
      | None \<Rightarrow>
          let p = next_handler s in
          andthen (newHandler (env_lib env) clientname clientType made api prev final opts) (\<lambda>c.
            Returns ((put_handler p c s)\<lparr>next_handler := Suc p, mClients := (clientname, p) # mClients s\<rparr>)))"

text \<open>The loop over the clients goes on after \<open>getClientNameByIds\<close> only while no client has the numbers.\<close>

fun getClientNameByIds :: "int \<Rightarrow> int \<Rightarrow> (string \<times> nat) list \<Rightarrow> service \<Rightarrow> string option outcome" where
  "getClientNameByIds id1 id2 [] s = Returns None"
| "getClientNameByIds id1 id2 ((name, p) # rest) s =
     (case handlers s p of
        None \<Rightarrow> Faults
      | Some c \<Rightarrow> if mServiceId c = id1 \<and> mInstanceId c = id2 then Returns (Some name)
          else getClientNameByIds id1 id2 rest s)"

definition deleteEapClientByIds :: "hald_env \<Rightarrow> int \<Rightarrow> int \<Rightarrow> service \<Rightarrow> service outcome" where
  "deleteEapClientByIds env serviceId instanceId s =
     andthen (getClientNameByIds serviceId instanceId (mClients s) s) (\<lambda>r.
       case r of None \<Rightarrow> Returns s | Some name \<Rightarrow> deleteClientbyName env name s)"

definition deleteClient :: "hald_env \<Rightarrow> string \<Rightarrow> service \<Rightarrow> service outcome" where
  "deleteClient env = deleteClientbyName env"

text \<open>A request of a client that is not there is ignored.\<close>

definition with_client :: "string \<Rightarrow> (nat \<Rightarrow> service \<Rightarrow> service outcome) \<Rightarrow> service \<Rightarrow> service outcome" where
  "with_client name k s = (case getClient name s of None \<Rightarrow> Returns s | Some p \<Rightarrow> k p s)"

end
