(* ===== verification/HalRequests.thy ===== *)
theory HalRequests
  imports HalService
begin

text \<open>
  What the service does for each message of a client, \<open>location_hal_daemon/LocationApiService.cpp\<close>. What
  the library returns, identifiers of sessions and whether an interface could be had, are arguments.
\<close>

section \<open>Tracking\<close>

definition service_startTracking :: "hald_env \<Rightarrow> string \<Rightarrow> loc_options \<Rightarrow> 32 word \<Rightarrow> service \<Rightarrow> service outcome" where
  "service_startTracking env name locOptions new_id s =
     with_client name (\<lambda>p. upd_handler p (\<lambda>c.
       snd (startTracking (env_lib env) (locOptions\<lparr>opt_mode := mPositionMode s\<rparr>) new_id c))) s"

definition service_stopTracking :: "string \<Rightarrow> bool \<Rightarrow> service \<Rightarrow> service outcome" where
  "service_stopTracking name clearSubscriptions =
     with_client name (\<lambda>p. upd_handler p (\<lambda>c.
       stopTracking (\<not> clearSubscriptions) (if clearSubscriptions then unsubscribeLocationSessionCb c else c)))"

definition service_updateSubscription :: "string \<Rightarrow> 32 word \<Rightarrow> service \<Rightarrow> service outcome" where
  "service_updateSubscription name locationCallbacks =
     with_client name (\<lambda>p. upd_handler p (updateSubscription locationCallbacks))"

definition push_pending :: "int \<Rightarrow> client \<Rightarrow> client" where
  "push_pending m c = c\<lparr>mPendingMessages := mPendingMessages c @ [m]\<rparr>"

definition push_gf_pending :: "int \<Rightarrow> client \<Rightarrow> client" where
  "push_gf_pending m c = c\<lparr>mGfPendingMessages := mGfPendingMessages c @ [m]\<rparr>"

definition service_updateTrackingOptions :: "hald_env \<Rightarrow> string \<Rightarrow> loc_options \<Rightarrow> service \<Rightarrow> service outcome" where
  "service_updateTrackingOptions env name locOptions s =
     with_client name (\<lambda>p. upd_handler p (\<lambda>c.
       push_pending E_LOCAPI_UPDATE_TRACKING_OPTIONS_MSG_ID
         (updateTrackingOptions (env_lib env) (locOptions\<lparr>opt_mode := mPositionMode s\<rparr>) c))) s"

text \<open>The client the daemon starts itself: \<open>startTracking\<close> queues the message, and it is queued again.\<close>

definition AUTO_START_CLIENT_NAME :: string where "AUTO_START_CLIENT_NAME = ''default''"

definition auto_start :: "hald_env \<Rightarrow> bool \<Rightarrow> (int \<Rightarrow> 64 word) \<Rightarrow> (int \<Rightarrow> bool) \<Rightarrow> loc_options \<Rightarrow> 32 word \<Rightarrow> 32 word
    \<Rightarrow> service \<Rightarrow> service outcome" where
  "auto_start env api prev final opts tbf new_id s =
     andthen (newHandler (env_lib env) AUTO_START_CLIENT_NAME LOCATION_CLIENT_API True api prev final opts) (\<lambda>c.
       let p = next_handler s;
           c1 = updateSubscription (word_of_int (E_LOC_CB_GNSS_LOCATION_INFO_BIT OR E_LOC_CB_GNSS_SV_BIT)) c;
           c2 = snd (startTracking (env_lib env) \<lparr>minInterval = tbf, minDistance = 0, opt_mode = mPositionMode s,
                  locReqEngTypeMask = 0, qualityLevelAccepted = 0\<rparr> new_id c1) in
       Returns ((put_handler p (push_pending E_LOCAPI_START_TRACKING_MSG_ID c2) s)
         \<lparr>next_handler := Suc p, mClients := (AUTO_START_CLIENT_NAME, p) # mClients s\<rparr>))"

section \<open>Batching\<close>

definition service_startBatching :: "hald_env \<Rightarrow> string \<Rightarrow> 32 word \<Rightarrow> 32 word \<Rightarrow> int \<Rightarrow> 32 word \<Rightarrow> service \<Rightarrow> service outcome" where
  "service_startBatching env name interval distance mode new_id =
     with_client name (\<lambda>p. upd_handler p (\<lambda>c.
       case startBatching (env_lib env) interval distance mode new_id c of (r, c') \<Rightarrow>
         if r = 0 then c'
         else push_pending E_LOCAPI_START_BATCHING_MSG_ID (c'\<lparr>mBatching := True, mBatchingMode := mode\<rparr>)))"

definition service_stopBatching :: "hald_env \<Rightarrow> string \<Rightarrow> service \<Rightarrow> service outcome" where
  "service_stopBatching env name =
     with_client name (\<lambda>p. upd_handler p (\<lambda>c.
       push_pending E_LOCAPI_STOP_BATCHING_MSG_ID (stopBatching
         (c\<lparr>mBatching := False, mBatchingMode := hal_value (env_lib env) ''BATCHING_MODE_NO_AUTO_REPORT''\<rparr>))))"

definition service_updateBatchingOptions :: "hald_env \<Rightarrow> string \<Rightarrow> 32 word \<Rightarrow> 32 word \<Rightarrow> int \<Rightarrow> service \<Rightarrow> service outcome" where
  "service_updateBatchingOptions env name interval distance mode =
     with_client name (\<lambda>p. upd_handler p (\<lambda>c.
       push_pending E_LOCAPI_UPDATE_BATCHING_OPTIONS_MSG_ID
         (updateBatchingOptions (env_lib env) interval distance mode c)))"

section \<open>Geofences\<close>

text \<open>\<open>MAX_GEOFENCE_COUNT\<close>. \<open>mem\<close> says whether \<open>malloc\<close> gives memory, \<open>new_ids\<close> is the library's array.\<close>

definition MAX_GEOFENCE_COUNT :: nat where "MAX_GEOFENCE_COUNT = 20"

type_synonym geofence = "geofence_option \<times> geofence_info \<times> 32 word"

definition service_addGeofences :: "string \<Rightarrow> geofence list \<Rightarrow> bool \<Rightarrow> 32 word list option \<Rightarrow> service \<Rightarrow> service outcome" where
  "service_addGeofences name gfs mem new_ids =
     with_client name (\<lambda>p. upd_handler p (\<lambda>c.
       if length gfs > MAX_GEOFENCE_COUNT \<or> \<not> mem then c
       else case addGeofences (map fst gfs) (map (fst \<circ> snd) gfs) new_ids c of
          (None, c1) \<Rightarrow> c1
        | (Some sessions, c1) \<Rightarrow> push_gf_pending E_LOCAPI_ADD_GEOFENCES_MSG_ID
            (setGeofenceIds (map (snd \<circ> snd) gfs) sessions c1)))"

definition gf_request :: "int \<Rightarrow> (32 word list \<Rightarrow> client \<Rightarrow> client) \<Rightarrow> bool \<Rightarrow> 32 word list \<Rightarrow> client \<Rightarrow> client" where
  "gf_request m req mem ids c =
     (case getSessionIds mem ids c of
        (None, c1) \<Rightarrow> c1
      | (Some sessions, c1) \<Rightarrow> push_gf_pending m (req sessions c1))"

definition service_removeGeofences :: "string \<Rightarrow> 32 word list \<Rightarrow> bool \<Rightarrow> service \<Rightarrow> service outcome" where
  "service_removeGeofences name ids mem =
     with_client name (\<lambda>p. upd_handler p (gf_request E_LOCAPI_REMOVE_GEOFENCES_MSG_ID removeGeofences mem ids))"

definition service_modifyGeofences :: "string \<Rightarrow> geofence list \<Rightarrow> bool \<Rightarrow> service \<Rightarrow> service outcome" where
  "service_modifyGeofences name gfs mem =
     with_client name (\<lambda>p. upd_handler p (\<lambda>c.
       if length gfs > MAX_GEOFENCE_COUNT \<or> \<not> mem then c
       else gf_request E_LOCAPI_MODIFY_GEOFENCES_MSG_ID (\<lambda>sessions. modifyGeofences sessions (map fst gfs)) mem
              (map (snd \<circ> snd) gfs) c))"

definition service_pauseGeofences :: "string \<Rightarrow> 32 word list \<Rightarrow> bool \<Rightarrow> service \<Rightarrow> service outcome" where
  "service_pauseGeofences name ids mem =
     with_client name (\<lambda>p. upd_handler p (gf_request E_LOCAPI_PAUSE_GEOFENCES_MSG_ID pauseGeofences mem ids))"

definition service_resumeGeofences :: "string \<Rightarrow> 32 word list \<Rightarrow> bool \<Rightarrow> service \<Rightarrow> service outcome" where
  "service_resumeGeofences name ids mem =
     with_client name (\<lambda>p. upd_handler p (gf_request E_LOCAPI_RESUME_GEOFENCES_MSG_ID resumeGeofences mem ids))"

section \<open>Queries\<close>

definition pingTest :: "hald_env \<Rightarrow> nat \<Rightarrow> service \<Rightarrow> service outcome" where
  "pingTest env p = send_if env p (\<lambda>c. True) (\<lambda>c. PingInd)"

definition service_pingTest :: "hald_env \<Rightarrow> string \<Rightarrow> service \<Rightarrow> service outcome" where
  "service_pingTest env name = with_client name (pingTest env)"

text \<open>The report is asked for through \<open>mLocationApi\<close>, which must be set; only a client with a socket asks.\<close>

definition getDebugReport :: "hald_env \<Rightarrow> 8 word list \<Rightarrow> nat \<Rightarrow> service \<Rightarrow> service outcome" where
  "getDebugReport env rep p s =
     on_handler p (\<lambda>c.
       if mIpcSender c then
         if mLocationApi c then
           let c' = call_api Api_getDebugReport c in
           send_or_purge env c' (OtherInd E_LOCAPI_GET_DEBUG_RESP_MSG_ID rep) (put_handler p c' s)
         else Faults
       else Returns s) s"

definition service_getDebugReport :: "hald_env \<Rightarrow> string \<Rightarrow> 8 word list \<Rightarrow> service \<Rightarrow> service outcome" where
  "service_getDebugReport env name rep = with_client name (getDebugReport env rep)"

definition service_getAntennaInfo :: "string \<Rightarrow> service \<Rightarrow> service outcome" where
  "service_getAntennaInfo name = with_client name (\<lambda>p. upd_handler p getAntennaInfo)"

definition gnss_call :: "gnss_call \<Rightarrow> service \<Rightarrow> service" where
  "gnss_call k s = s\<lparr>gnss_calls := gnss_calls s @ [k]\<rparr>"

definition updateNetworkAvailability :: "bool \<Rightarrow> bool \<Rightarrow> service \<Rightarrow> service" where
  "updateNetworkAvailability interface availability s =
     (if interface then gnss_call (Gnss_updateConnectionStatus availability) s else s)"

text \<open>Whether some client waits for the energy: a pointer to a deleted handler faults.\<close>

fun any_pending :: "(string \<times> nat) list \<Rightarrow> service \<Rightarrow> bool outcome" where
  "any_pending [] s = Returns False"
| "any_pending ((name, p) # rest) s =
     (case handlers s p of
        None \<Rightarrow> Faults
      | Some c \<Rightarrow> if hasPendingEngineInfoRequest c then Returns True else any_pending rest s)"

definition service_getGnssEnergyConsumed :: "bool \<Rightarrow> string \<Rightarrow> service \<Rightarrow> service outcome" where
  "service_getGnssEnergyConsumed interface name s =
     (if interface then
        andthen (any_pending (mClients s) s) (\<lambda>pending.
        with_client name (\<lambda>p s. andthen (upd_handler p addEngineInfoRequst s) (\<lambda>s1.
          Returns (if pending then s1 else gnss_call Gnss_getGnssEnergyConsumed s1))) s)
      else Returns s)"

section \<open>Configuration\<close>

definition onControlResponseCb :: "hald_env \<Rightarrow> int \<Rightarrow> int \<Rightarrow> nat \<Rightarrow> service \<Rightarrow> service outcome" where
  "onControlResponseCb env err msgId p = send_if env p (\<lambda>c. True) (\<lambda>c. GenericResp msgId err)"

text \<open>\<open>emplace\<close> does not replace an entry.\<close>

definition addConfigRequestToMap :: "hald_env \<Rightarrow> 32 word \<Rightarrow> string \<Rightarrow> int \<Rightarrow> service \<Rightarrow> service outcome" where
  "addConfigRequestToMap env sessionId name msgId s =
     (if sessionId \<noteq> 0
      then Returns (if sessionId \<in> fst ` set (mConfigReqs s) then s
                    else s\<lparr>mConfigReqs := (sessionId, name, msgId) # mConfigReqs s\<rparr>)
      else with_client name
             (onControlResponseCb env (hal_value (env_lib env) ''LOCATION_ERROR_GENERAL_FAILURE'') msgId) s)"

text \<open>A call on the library, then \<open>addConfigRequestToMap\<close> with the session it returned.\<close>

definition config_call :: "hald_env \<Rightarrow> gnss_call \<Rightarrow> 32 word \<Rightarrow> string \<Rightarrow> int \<Rightarrow> service \<Rightarrow> service outcome" where
  "config_call env k sessionId name msgId s = addConfigRequestToMap env sessionId name msgId (gnss_call k s)"

definition getConstellationSecondaryBandConfig :: "hald_env \<Rightarrow> bool \<Rightarrow> 32 word \<Rightarrow> string \<Rightarrow> int \<Rightarrow> service \<Rightarrow> service outcome" where
  "getConstellationSecondaryBandConfig env interface sessionId name msgId s =
     (if interface then config_call env Gnss_gnssGetSecondaryBandConfig sessionId name msgId s else Returns s)"

definition getXtraStatus :: "hald_env \<Rightarrow> bool \<Rightarrow> 32 word \<Rightarrow> string \<Rightarrow> int \<Rightarrow> service \<Rightarrow> service outcome" where
  "getXtraStatus env interface sessionId name msgId s =
     (if interface then config_call env Gnss_gnssGetXtraStatus sessionId name msgId s else Returns s)"

text \<open>The client is entered before the lock is taken: another operation can come between the two parts.\<close>

definition enter_for_xtra :: "string \<Rightarrow> service \<Rightarrow> service" where
  "enter_for_xtra name s = s\<lparr>mClientsRegForXtraStatus := List.insert name (mClientsRegForXtraStatus s)\<rparr>"

definition register_for_xtra :: "hald_env \<Rightarrow> bool \<Rightarrow> 32 word \<Rightarrow> string \<Rightarrow> int \<Rightarrow> service \<Rightarrow> service outcome" where
  "register_for_xtra env interface sessionId name msgId s =
     (if interface then config_call env (Gnss_gnssRegisterXtraStatusUpdate True) sessionId name msgId s else Returns s)"

definition registerXtraStatusUpdate :: "hald_env \<Rightarrow> bool \<Rightarrow> 32 word \<Rightarrow> string \<Rightarrow> int \<Rightarrow> service \<Rightarrow> service outcome" where
  "registerXtraStatusUpdate env interface sessionId name msgId s =
     register_for_xtra env interface sessionId name msgId (enter_for_xtra name s)"

definition deregisterXtraStatusUpdate :: "hald_env \<Rightarrow> bool \<Rightarrow> 32 word \<Rightarrow> string \<Rightarrow> int \<Rightarrow> service \<Rightarrow> service outcome" where
  "deregisterXtraStatusUpdate env interface sessionId name msgId s =
     (let s1 = s\<lparr>mClientsRegForXtraStatus := removeAll name (mClientsRegForXtraStatus s)\<rparr> in
      if mClientsRegForXtraStatus s1 = [] then
        if interface then config_call env (Gnss_gnssRegisterXtraStatusUpdate False) sessionId name msgId s1
        else Returns s1
      else with_client name (onControlResponseCb env (hal_value (env_lib env) ''LOCATION_ERROR_SUCCESS'')
             E_INTAPI_DEREGISTER_XTRA_STATUS_UPDATE_REQ_MSG_ID) s1)"

text \<open>\<open>api\<close> says whether the library could create its location API.\<close>

definition registerGnssSignalTypesUpdate :: "hald_env \<Rightarrow> bool \<Rightarrow> bool \<Rightarrow> string \<Rightarrow> int \<Rightarrow> service \<Rightarrow> service outcome" where
  "registerGnssSignalTypesUpdate env api registerUpdate name msgId s =
     (let s1 =
        (if registerUpdate then
           if mSignalTypesLocationApi s then s\<lparr>gnssSignalTypesCb := True\<rparr>
           else s\<lparr>gnssSignalTypesCb := True, mSignalTypesLocationApi := api\<rparr>
         else if mSignalTypesLocationApi s then s\<lparr>gnssSignalTypesCb := False\<rparr> else s) in
      with_client name (onControlResponseCb env (hal_value (env_lib env) ''LOCATION_ERROR_SUCCESS'') msgId) s1)"

text \<open>The location control API is there: the constructor of the service returns when it is not.\<close>

definition configConstrainedTunc where
  "configConstrainedTunc env enable tunc energy = config_call env (Ctl_configConstrainedTimeUncertainty enable tunc energy)"
definition configPositionAssistedClockEstimator where
  "configPositionAssistedClockEstimator env enable = config_call env (Ctl_configPositionAssistedClockEstimator enable)"
definition configConstellations where
  "configConstellations env enablement blacklist = config_call env (Ctl_configConstellations enablement blacklist)"
definition configConstellationSecondaryBand where
  "configConstellationSecondaryBand env band = config_call env (Ctl_configConstellationSecondaryBand band)"
definition configAidingDataDeletion where
  "configAidingDataDeletion env aiding = config_call env (Ctl_gnssDeleteAidingData aiding)"
definition configLeverArm where
  "configLeverArm env info = config_call env (Ctl_configLeverArm info)"
definition configRobustLocation where
  "configRobustLocation env enable e911 = config_call env (Ctl_configRobustLocation enable e911)"
definition configMinGpsWeek where
  "configMinGpsWeek env week = config_call env (Ctl_configMinGpsWeek week)"
definition configMinSvElevation where
  "configMinSvElevation env elevation = config_call env (Ctl_configMinSvElevation elevation)"
definition configEngineRunState where
  "configEngineRunState env engType engState = config_call env (Ctl_configEngineRunState engType engState)"
definition configOutputNmeaTypes where
  "configOutputNmeaTypes env types datum engMask = config_call env (Ctl_configOutputNmeaTypes types datum engMask)"
definition configEngineIntegrityRisk where
  "configEngineIntegrityRisk env engType risk = config_call env (Ctl_configEngineIntegrityRisk engType risk)"
definition configXtraParams where
  "configXtraParams env enable params = config_call env (Ctl_configXtraParams enable params)"
definition configMerkleTree where
  "configMerkleTree env tree = config_call env (Ctl_configMerkleTree tree)"
definition configOsnmaEnablement where
  "configOsnmaEnablement env enable = config_call env (Ctl_configOsnmaEnablement enable)"
definition configMmfData where
  "configMmfData env mmf = config_call env (Ctl_gnssInjectMmfData mmf)"
definition configXtraUserConsent where
  "configXtraUserConsent env consent = config_call env (Ctl_configureUserConsentForXtra consent)"
definition configDeadReckoningEngineParams where
  "configDeadReckoningEngineParams env dre = config_call env (Ctl_configDeadReckoningEngineParams dre)"

text \<open>The library's array of sessions, of which the first counts, or a null pointer.\<close>

definition getGnssConfig :: "hald_env \<Rightarrow> int \<Rightarrow> 32 word option \<Rightarrow> string \<Rightarrow> int \<Rightarrow> service \<Rightarrow> service outcome" where
  "getGnssConfig env configFlag sessionIds =
     config_call env (Ctl_gnssGetConfig configFlag) (case sessionIds of None \<Rightarrow> 0 | Some i \<Rightarrow> i)"

definition injectLocation :: "string \<Rightarrow> 8 word list \<Rightarrow> service \<Rightarrow> service outcome" where
  "injectLocation name loc = with_client name (\<lambda>p s. Returns (gnss_call (Ctl_odcpiInject loc) s))"

definition configUserConsentTerrestrialPositioning :: "hald_env \<Rightarrow> bool \<Rightarrow> bool \<Rightarrow> 32 word \<Rightarrow> string \<Rightarrow> int \<Rightarrow> service \<Rightarrow> service outcome" where
  "configUserConsentTerrestrialPositioning env api userConsent sessionId name msgId s =
     (let s1 = s\<lparr>mOptInTerrestrialService := of_bool userConsent\<rparr>;
          s2 = (if mOptInTerrestrialService s1 = 1 \<and> \<not> mGtpWwanSsLocationApi s1
                then s1\<lparr>mGtpWwanSsLocationApi := api\<rparr> else s1) in
      config_call env (Ctl_setOptInStatus userConsent) sessionId name msgId s2)"

section \<open>Single positions\<close>

definition send_only :: "hald_env \<Rightarrow> out_msg \<Rightarrow> nat \<Rightarrow> service \<Rightarrow> service outcome" where
  "send_only env msg p s = on_handler p (\<lambda>c.
     if serializes env msg then andthen (sendMessage env c msg s) (\<lambda>(_, s1). Returns s1) else Returns s) s"

definition sendTerrestrialFix :: "hald_env \<Rightarrow> int \<Rightarrow> location \<Rightarrow> nat \<Rightarrow> service \<Rightarrow> service outcome" where
  "sendTerrestrialFix env err loc = send_only env (TerrestrialPosResp err loc)"

definition sendSingleFusedFix :: "hald_env \<Rightarrow> int \<Rightarrow> location \<Rightarrow> nat \<Rightarrow> service \<Rightarrow> service outcome" where
  "sendSingleFusedFix env err loc = send_only env (SinglePosResp err loc)"

text \<open>The name is entered at the end of the map, if it was not in it; the timer that goes with it is not
  kept, only its going off.\<close>

definition getSingleTerrestrialPos :: "hald_env \<Rightarrow> string \<Rightarrow> service \<Rightarrow> service outcome" where
  "getSingleTerrestrialPos env name s =
     (if mOptInTerrestrialService s \<noteq> 1
      then with_client name
             (sendTerrestrialFix env (hal_value (env_lib env) ''LOCATION_ERROR_NOT_SUPPORTED'') no_location) s
      else
        let started = (mTerrestrialFixTimeoutMap s \<noteq> []);
            s1 = s\<lparr>mTerrestrialFixTimeoutMap := removeAll name (mTerrestrialFixTimeoutMap s) @ [name]\<rparr> in
        if started then Returns s1
        else if mGtpWwanSsLocationApi s1 then Returns (s1\<lparr>network_on := True\<rparr>) else Faults)"

definition gtpFixRequestTimeout :: "hald_env \<Rightarrow> string \<Rightarrow> service \<Rightarrow> service outcome" where
  "gtpFixRequestTimeout env name s =
     (if name \<in> set (mTerrestrialFixTimeoutMap s) then
        andthen (with_client name
                  (sendTerrestrialFix env (hal_value (env_lib env) ''LOCATION_ERROR_TIMEOUT'') no_location) s)
          (\<lambda>s1. let s2 = s1\<lparr>mTerrestrialFixTimeoutMap := removeAll name (mTerrestrialFixTimeoutMap s1)\<rparr> in
             if mTerrestrialFixTimeoutMap s2 = [] then stop_network s2 else Returns s2)
      else Returns s)"

text \<open>A quality is a multiple of \<open>2 ^ -149\<close>, as every float is, and a NaN, which no accuracy is less than, a
  number below them all. \<open>api\<close> says whether a location API can be created,
  \<open>new_id\<close> is the session the library starts.\<close>

definition getSinglePos :: "bool \<Rightarrow> 32 word \<Rightarrow> string \<Rightarrow> int \<Rightarrow> 32 word \<Rightarrow> service \<Rightarrow> service outcome" where
  "getSinglePos api new_id name horQoS timeoutMsec s =
     (if \<not> mSingleFixLocationApi s \<and> \<not> api then Returns s
      else
        let s1 = s\<lparr>mSingleFixLocationApi := True, mSingleFixReqMap := map_erase name (mSingleFixReqMap s)\<rparr> in
        if horQoS \<noteq> 0 \<and> timeoutMsec \<noteq> 0 then
          let s2 = s1\<lparr>mSingleFixReqMap := mSingleFixReqMap s1 @ [(name, horQoS)]\<rparr> in
          Returns (if mSingleFixTrackingSessionId s2 = 0 then s2\<lparr>mSingleFixTrackingSessionId := new_id\<rparr> else s2)
        else Returns (stopTrackingSessionForSingleFixes s1))"

definition singleFixRequestTimeout :: "hald_env \<Rightarrow> string \<Rightarrow> service \<Rightarrow> service outcome" where
  "singleFixRequestTimeout env name s =
     (if name \<in> fst ` set (mSingleFixReqMap s) then
        andthen (with_client name (sendSingleFusedFix env (hal_value (env_lib env) ''LOCATION_ERROR_TIMEOUT'')
                  (mSingleFixLastLocation s)) s)
          (\<lambda>s1. Returns (stopTrackingSessionForSingleFixes
             (s1\<lparr>mSingleFixReqMap := map_erase name (mSingleFixReqMap s1)\<rparr>)))
      else Returns s)"

section \<open>Maintenance\<close>

text \<open>The clients and their sockets as they are when maintenance begins, which are copied under the lock.\<close>

fun senders_of :: "(string \<times> nat) list \<Rightarrow> service \<Rightarrow> (string \<times> bool) list outcome" where
  "senders_of [] s = Returns []"
| "senders_of ((name, p) # rest) s =
     (if name = AUTO_START_CLIENT_NAME then senders_of rest s
      else case handlers s p of
             None \<Rightarrow> Faults
           | Some c \<Rightarrow> andthen (senders_of rest s) (\<lambda>xs. Returns ((name, mIpcSender c) # xs)))"

text \<open>A ping to one of them, if its socket is a local one, and whether it is to be deleted. The ping is sent
  without the lock, and so is the client deleted: other operations can come between the copy, a ping and
  the deletion that follows it.\<close>

definition ping_client :: "hald_env \<Rightarrow> string \<times> bool \<Rightarrow> service \<Rightarrow> (bool \<times> service) outcome" where
  "ping_client env x s =
     (case x of (name, sender) \<Rightarrow>
        if \<not> starts_with (SOCKET_LOC_CLIENT_DIR (dirs (env_lib env))) name then Returns (False, s)
        else if serializes env PingReq then
          if sender
          then let ok = reaches env (sent s) name in Returns (\<not> ok, s\<lparr>sent := sent s @ [(name, PingReq, ok)]\<rparr>)
          else Faults
        else Returns (True, s))"

text \<open>A run of maintenance that no other operation interrupts.\<close>

fun ping_all :: "hald_env \<Rightarrow> (string \<times> bool) list \<Rightarrow> service \<Rightarrow> service outcome" where
  "ping_all env [] s = Returns s"
| "ping_all env (x # rest) s =
     andthen (ping_client env x s) (\<lambda>(lost, s1).
       andthen (if lost then deleteClientbyName env (fst x) s1 else Returns s1) (ping_all env rest))"

definition performMaintenance :: "hald_env \<Rightarrow> service \<Rightarrow> service outcome" where
  "performMaintenance env s = andthen (senders_of (mClients s) s) (\<lambda>xs. ping_all env xs s)"

end
