(* ===== verification/HalCallbacks.thy ===== *)
theory HalCallbacks
  imports HalRequests
begin

text \<open>
  What the library's callbacks do, \<open>location_hal_daemon/LocHalDaemonClientHandler.cpp\<close> and
  \<open>location_hal_daemon/LocationApiService.cpp\<close>: answers to the requests, reports to the clients that
  subscribed, configurations, and the positions of the single requests.
\<close>

section \<open>Answers\<close>

definition pending_ids :: "int list" where
  "pending_ids = [E_LOCAPI_START_TRACKING_MSG_ID, E_LOCAPI_STOP_TRACKING_MSG_ID,
     E_LOCAPI_UPDATE_TRACKING_OPTIONS_MSG_ID, E_LOCAPI_START_BATCHING_MSG_ID, E_LOCAPI_STOP_BATCHING_MSG_ID,
     E_LOCAPI_UPDATE_BATCHING_OPTIONS_MSG_ID]"

definition onResponseCb :: "hald_env \<Rightarrow> nat \<Rightarrow> int \<Rightarrow> service \<Rightarrow> service outcome" where
  "onResponseCb env p err s =
     on_handler p (\<lambda>c.
       if mIpcSender c then
         case mPendingMessages c of
           [] \<Rightarrow> Returns s
         | m # ms \<Rightarrow>
             let c1 = c\<lparr>mPendingMessages := ms\<rparr>; s1 = put_handler p c1 s in
             if m \<in> set pending_ids then send_or_purge env c1 (GenericResp m err) s1 else Returns s1
       else Returns s) s"

definition gf_pending_ids :: "int list" where
  "gf_pending_ids = [E_LOCAPI_ADD_GEOFENCES_MSG_ID, E_LOCAPI_REMOVE_GEOFENCES_MSG_ID, E_LOCAPI_MODIFY_GEOFENCES_MSG_ID,
     E_LOCAPI_PAUSE_GEOFENCES_MSG_ID, E_LOCAPI_RESUME_GEOFENCES_MSG_ID]"

text \<open>The library gives an error for each session.\<close>

definition erase_failed :: "int \<Rightarrow> (32 word \<times> int) list \<Rightarrow> client \<Rightarrow> client" where
  "erase_failed success rs c = fold (\<lambda>(i, e) c. if e \<noteq> success then eraseGeofenceIds [i] c else c) rs c"

definition onCollectiveResponseCallback :: "hald_env \<Rightarrow> bool \<Rightarrow> nat \<Rightarrow> (int \<times> 32 word) list \<Rightarrow> service \<Rightarrow> service outcome" where
  "onCollectiveResponseCallback env mem p answers s =
     on_handler p (\<lambda>c.
       if \<not> mIpcSender c then Returns s
       else
         let c1 = c\<lparr>mGfPendingMessages := tl (mGfPendingMessages c)\<rparr>; s1 = put_handler p c1 s in
         case getClientIds mem (map snd answers) c1 of
           None \<Rightarrow> Returns s1
         | Some clientIds \<Rightarrow>
             (case mGfPendingMessages c of
                [] \<Rightarrow> Returns s1
              | m # _ \<Rightarrow>
                  if m \<in> set gf_pending_ids then
                    let rs = zip clientIds (map fst answers);
                        c2 = (if m = E_LOCAPI_REMOVE_GEOFENCES_MSG_ID then eraseGeofenceIds clientIds c1 else c1);
                        c3 = erase_failed (hal_value (env_lib env) ''LOCATION_ERROR_SUCCESS'') rs c2 in
                    send_or_purge env c3 (CollectiveResp m rs) (put_handler p c3 s)
                  else Returns s1)) s"

section \<open>Reports\<close>

definition subscribed :: "int \<Rightarrow> client \<Rightarrow> bool" where
  "subscribed bits c = has_flag (mSubscriptionMask c) bits"

definition onCapabilitiesCallback :: "hald_env \<Rightarrow> nat \<Rightarrow> 64 word \<Rightarrow> service \<Rightarrow> service outcome" where
  "onCapabilitiesCallback env p m s =
     on_handler p (\<lambda>c. if m \<noteq> mCapabilityMask c
       then sendCapabilitiesMsg env p (put_handler p (c\<lparr>mCapabilityMask := m\<rparr>) s) else Returns s) s"

definition onTrackingCb :: "hald_env \<Rightarrow> nat \<Rightarrow> location \<Rightarrow> service \<Rightarrow> service outcome" where
  "onTrackingCb env p loc =
     send_if env p (subscribed (E_LOC_CB_TRACKING_BIT OR E_LOC_CB_SIMPLE_LOCATION_INFO_BIT)) (\<lambda>c. LocationInd loc)"

definition onBatchingCb :: "hald_env \<Rightarrow> nat \<Rightarrow> location list \<Rightarrow> int \<Rightarrow> service \<Rightarrow> service outcome" where
  "onBatchingCb env p locs mode =
     send_if env p (\<lambda>c. subscribed E_LOC_CB_BATCHING_BIT c \<and> locs \<noteq> [])
       (\<lambda>c. BatchingInd (hal_value (env_lib env) ''BATCHING_STATUS_POSITION_AVAILABE'') mode locs)"

definition onBatchingStatusCb :: "hald_env \<Rightarrow> nat \<Rightarrow> int \<Rightarrow> service \<Rightarrow> service outcome" where
  "onBatchingStatusCb env p status =
     send_if env p (\<lambda>c. subscribed E_LOC_CB_BATCHING_STATUS_BIT c \<and>
         hal_value (env_lib env) ''BATCHING_MODE_TRIP'' = mBatchingMode c \<and>
         hal_value (env_lib env) ''BATCHING_STATUS_TRIP_COMPLETED'' = status)
       (\<lambda>c. BatchingInd (hal_value (env_lib env) ''BATCHING_STATUS_TRIP_COMPLETED'') (mBatchingMode c) [])"

definition onGeofenceBreachCb :: "hald_env \<Rightarrow> bool \<Rightarrow> nat \<Rightarrow> 32 word list \<Rightarrow> location \<Rightarrow> int \<Rightarrow> 64 word \<Rightarrow> service \<Rightarrow> service outcome" where
  "onGeofenceBreachCb env mem p ids loc type ts s =
     on_handler p (\<lambda>c.
       if mIpcSender c \<and> subscribed E_LOC_CB_GEOFENCE_BREACH_BIT c then
         case getClientIds mem ids c of
           None \<Rightarrow> Returns s
         | Some clientIds \<Rightarrow> send_or_purge env c
             (GeofenceBreachInd ts loc (parseClientGeofenceBreachType (hal_value (env_lib env)) type) clientIds) s
       else Returns s) s"

definition onGnssLocationInfoCb :: "hald_env \<Rightarrow> nat \<Rightarrow> 64 word \<Rightarrow> report \<Rightarrow> service \<Rightarrow> service outcome" where
  "onGnssLocationInfoCb env p now r s =
     on_handler p (\<lambda>c.
       case filterPositionReport (hal_value (env_lib env)) now r (locOutputEngType r) c of (held, c1) \<Rightarrow>
         let s1 = put_handler p c1 s in
         if \<not> held \<and> mIpcSender c1 \<and> subscribed E_LOC_CB_GNSS_LOCATION_INFO_BIT c1
         then send_or_purge env c1 (LocationInfoInd r) s1 else Returns s1) s"

text \<open>Whether the client asked for the reports of an engine.\<close>

definition engine_requested :: "hal_values \<Rightarrow> (string \<times> string) list \<Rightarrow> int \<Rightarrow> client \<Rightarrow> bool" where
  "engine_requested hal table engType c =
     list_ex (\<lambda>(e, b). engType = hal e \<and> has_flag (locReqEngTypeMask (mOptions c)) (hal b)) table"

definition report_engines :: "(string \<times> string) list" where
  "report_engines =
     [(''LOC_OUTPUT_ENGINE_FUSED'', ''LOC_REQ_ENGINE_FUSED_BIT''), (''LOC_OUTPUT_ENGINE_SPE'', ''LOC_REQ_ENGINE_SPE_BIT''),
      (''LOC_OUTPUT_ENGINE_PPE'', ''LOC_REQ_ENGINE_PPE_BIT''), (''LOC_OUTPUT_ENGINE_VPE'', ''LOC_REQ_ENGINE_VPE_BIT'')]"

text \<open>The reports asked for are copied to an array of \<open>LOC_OUTPUT_ENGINE_COUNT\<close>; the filter reads the first report,
  so there must be one.\<close>

definition onEngLocationsInfoCb :: "hald_env \<Rightarrow> nat \<Rightarrow> 64 word \<Rightarrow> report list \<Rightarrow> service \<Rightarrow> service outcome" where
  "onEngLocationsInfoCb env p now rs s =
     on_handler p (\<lambda>c.
       case rs of
         [] \<Rightarrow> Faults
       | r # _ \<Rightarrow>
         (case filterPositionReport (hal_value (env_lib env)) now r (locOutputEngType r) c of (held, c1) \<Rightarrow>
            let s1 = put_handler p c1 s in
            if \<not> held \<and> mIpcSender c1 \<and> subscribed E_LOC_CB_ENGINE_LOCATIONS_INFO_BIT c1 then
              let wanted = filter (\<lambda>x. engine_requested (hal_value (env_lib env)) report_engines (locOutputEngType x) c1) rs in
              if int (length wanted) > hal_value (env_lib env) ''LOC_OUTPUT_ENGINE_COUNT'' then Faults
              else if wanted \<noteq> [] then send_or_purge env c1 (EngineLocationsInd wanted) s1
              else Returns s1
            else Returns s1)) s"

definition onGnssSvCb :: "hald_env \<Rightarrow> nat \<Rightarrow> 8 word list \<Rightarrow> service \<Rightarrow> service outcome" where
  "onGnssSvCb env p n = send_if env p (subscribed E_LOC_CB_GNSS_SV_BIT) (\<lambda>c. OtherInd E_LOCAPI_SATELLITE_VEHICLE_MSG_ID n)"

record nmea_report =
  nmea_timestamp :: "64 word"
  nmea_text :: string
  nmea_engine :: int
  isSvNmea :: bool

definition nmea_ind :: "nmea_report \<Rightarrow> out_msg" where
  "nmea_ind n = NmeaInd (nmea_timestamp n) (nmea_text n) (nmea_engine n)"

definition onGnssNmeaCb :: "hald_env \<Rightarrow> nat \<Rightarrow> nmea_report \<Rightarrow> service \<Rightarrow> service outcome" where
  "onGnssNmeaCb env p n =
     send_if env p (\<lambda>c. subscribed E_LOC_CB_GNSS_NMEA_BIT c \<and>
       (nmea_engine n = hal_value (env_lib env) ''LOC_OUTPUT_ENGINE_FUSED'' \<or> isSvNmea n)) (\<lambda>c. nmea_ind n)"

definition onEngineNmeaCb :: "hald_env \<Rightarrow> nat \<Rightarrow> nmea_report \<Rightarrow> service \<Rightarrow> service outcome" where
  "onEngineNmeaCb env p n =
     send_if env p (\<lambda>c. subscribed E_LOC_CB_ENGINE_NMEA_BIT c \<and>
       (isSvNmea n \<or> engine_requested (hal_value (env_lib env)) (take 3 report_engines) (nmea_engine n) c))
       (\<lambda>c. nmea_ind n)"

definition onGnssDataCb :: "hald_env \<Rightarrow> nat \<Rightarrow> 8 word list \<Rightarrow> service \<Rightarrow> service outcome" where
  "onGnssDataCb env p n = send_if env p (subscribed E_LOC_CB_GNSS_DATA_BIT) (\<lambda>c. OtherInd E_LOCAPI_DATA_MSG_ID n)"

definition onGnssMeasurementsCb :: "hald_env \<Rightarrow> nat \<Rightarrow> 8 word list \<Rightarrow> service \<Rightarrow> service outcome" where
  "onGnssMeasurementsCb env p n =
     send_if env p (subscribed (E_LOC_CB_GNSS_MEAS_BIT OR E_LOC_CB_GNSS_NHZ_MEAS_BIT)) (\<lambda>c. OtherInd E_LOCAPI_MEAS_MSG_ID n)"

definition onLocationSystemInfoCb :: "hald_env \<Rightarrow> nat \<Rightarrow> 8 word list \<Rightarrow> service \<Rightarrow> service outcome" where
  "onLocationSystemInfoCb env p n =
     send_if env p (subscribed E_LOC_CB_SYSTEM_INFO_BIT) (\<lambda>c. OtherInd E_LOCAPI_LOCATION_SYSTEM_INFO_MSG_ID n)"

definition onDcReportCb :: "hald_env \<Rightarrow> nat \<Rightarrow> 8 word list \<Rightarrow> service \<Rightarrow> service outcome" where
  "onDcReportCb env p n = send_if env p (subscribed E_LOC_CB_GNSS_DC_REPORT_BIT) (\<lambda>c. OtherInd E_LOCAPI_DC_REPORT_MSG_ID n)"

definition onGnssSvEphemerisCb :: "hald_env \<Rightarrow> nat \<Rightarrow> 8 word list \<Rightarrow> service \<Rightarrow> service outcome" where
  "onGnssSvEphemerisCb env p n = send_if env p (subscribed E_LOC_CB_GNSS_EPH_BIT) (\<lambda>c. OtherInd E_LOCAPI_EPH_MSG_ID n)"

definition onAntennaInfoCb :: "hald_env \<Rightarrow> nat \<Rightarrow> 8 word list \<Rightarrow> service \<Rightarrow> service outcome" where
  "onAntennaInfoCb env p n = send_if env p (\<lambda>c. True) (\<lambda>c. OtherInd E_LOCAPI_ANTENNA_INFO_MSG_ID n)"

section \<open>Reports to all clients\<close>

definition onGnssSignalTypesCb :: "hald_env \<Rightarrow> 32 word \<Rightarrow> nat \<Rightarrow> service \<Rightarrow> service outcome" where
  "onGnssSignalTypesCb env signalType p = send_if env p (\<lambda>c. True) (\<lambda>c. SignalTypesResp signalType)"

text \<open>The request is done with as soon as the answer was sent or lost. \<open>mName\<close> is read after that.\<close>

definition onGnssEnergyConsumedInfoAvailable :: "hald_env \<Rightarrow> 64 word \<Rightarrow> nat \<Rightarrow> service \<Rightarrow> service outcome" where
  "onGnssEnergyConsumedInfoAvailable env energy p s =
     on_handler p (\<lambda>c.
       if mIpcSender c \<and> hasPendingEngineInfoRequest c \<and> serializes env (EnergyConsumedInd energy) then
         andthen (sendMessage env c (EnergyConsumedInd energy) s) (\<lambda>(rc, s1).
           let s2 = put_handler p (c\<lparr>mEngineInfoRequestMask :=
                 mEngineInfoRequestMask c AND NOT (word_of_int E_ENGINE_INFO_CB_GNSS_ENERGY_CONSUMED_BIT)\<rparr>) s1 in
           if rc then Returns s2 else deleteClientbyName env (mName c) s2)
       else Returns s) s"

text \<open>The range-for over \<open>mClients\<close>: the iterator at the element that was erased is advanced.\<close>

fun each_client :: "(nat \<Rightarrow> service \<Rightarrow> service outcome) \<Rightarrow> (string \<times> nat) list \<Rightarrow> service \<Rightarrow> service outcome" where
  "each_client k [] s = Returns s"
| "each_client k ((name, p) # rest) s =
     andthen (k p s) (\<lambda>s1. if (name, p) \<in> set (mClients s1) then each_client k rest s1 else Faults)"

definition service_onGnssSignalTypesCb :: "hald_env \<Rightarrow> 32 word \<Rightarrow> service \<Rightarrow> service outcome" where
  "service_onGnssSignalTypesCb env signalType s = each_client (onGnssSignalTypesCb env signalType) (mClients s) s"

definition onGnssEnergyConsumedCb :: "hald_env \<Rightarrow> 64 word \<Rightarrow> service \<Rightarrow> service outcome" where
  "onGnssEnergyConsumedCb env energy s = each_client (onGnssEnergyConsumedInfoAvailable env energy) (mClients s) s"

section \<open>Configuration\<close>

text \<open>\<open>GnssConfig\<close>: its flags, and the part of it each of them announces.\<close>

record gnss_config =
  config_flags :: "32 word"
  config_part :: "string \<Rightarrow> 8 word list"

definition config_messages :: "hal_values \<Rightarrow> (int \<times> string \<times> (8 word list \<Rightarrow> out_msg)) list" where
  "config_messages hal =
    [(E_INTAPI_GET_ROBUST_LOCATION_CONFIG_REQ_MSG_ID, ''GNSS_CONFIG_FLAGS_ROBUST_LOCATION_BIT'',
      OtherInd E_INTAPI_GET_ROBUST_LOCATION_CONFIG_RESP_MSG_ID),
     (E_INTAPI_GET_MIN_GPS_WEEK_REQ_MSG_ID, ''GNSS_CONFIG_FLAGS_MIN_GPS_WEEK_BIT'',
      OtherInd E_INTAPI_GET_MIN_GPS_WEEK_RESP_MSG_ID),
     (E_INTAPI_GET_MIN_SV_ELEVATION_REQ_MSG_ID, ''GNSS_CONFIG_FLAGS_MIN_SV_ELEVATION_BIT'',
      OtherInd E_INTAPI_GET_MIN_SV_ELEVATION_RESP_MSG_ID),
     (E_INTAPI_GET_CONSTELLATION_SECONDARY_BAND_CONFIG_REQ_MSG_ID, ''GNSS_CONFIG_FLAGS_CONSTELLATION_SECONDARY_BAND_BIT'',
      OtherInd E_INTAPI_GET_CONSTELLATION_SECONDARY_BAND_CONFIG_RESP_MSG_ID),
     (E_INTAPI_GET_XTRA_STATUS_REQ_MSG_ID, ''GNSS_CONFIG_FLAGS_XTRA_STATUS_BIT'',
      XtraStatusResp (hal ''XTRA_STATUS_UPDATE_UPON_QUERY'')),
     (E_INTAPI_REGISTER_XTRA_STATUS_UPDATE_REQ_MSG_ID, ''GNSS_CONFIG_FLAGS_XTRA_STATUS_BIT'',
      XtraStatusResp (hal ''XTRA_STATUS_UPDATE_UPON_REGISTRATION''))]"

definition onGnssConfigCb :: "hald_env \<Rightarrow> int \<Rightarrow> gnss_config \<Rightarrow> nat \<Rightarrow> service \<Rightarrow> service outcome" where
  "onGnssConfigCb env configMsgId config p s =
     on_handler p (\<lambda>c.
       case map_of (config_messages (hal_value (env_lib env))) configMsgId of
         None \<Rightarrow> Returns s
       | Some (flag, msg) \<Rightarrow>
           if has_flag (config_flags config) (hal_value (env_lib env) flag) \<and> mIpcSender c
           then send_or_purge env c (msg (config_part config flag)) s else Returns s) s"

definition onXtraStatusUpdateCb :: "hald_env \<Rightarrow> 8 word list \<Rightarrow> nat \<Rightarrow> service \<Rightarrow> service outcome" where
  "onXtraStatusUpdateCb env status p =
     send_if env p (\<lambda>c. True) (\<lambda>c. XtraStatusResp (hal_value (env_lib env) ''XTRA_STATUS_UPDATE_UPON_STATUS_CHANGE'') status)"

fun each_name :: "(nat \<Rightarrow> service \<Rightarrow> service outcome) \<Rightarrow> string list \<Rightarrow> service \<Rightarrow> service outcome" where
  "each_name k [] s = Returns s"
| "each_name k (name # rest) s = andthen (with_client name k s) (each_name k rest)"

text \<open>\<open>find\<close>, the answer, and \<open>erase\<close> of what was found.\<close>

definition answer_config :: "32 word \<Rightarrow> (int \<Rightarrow> nat \<Rightarrow> service \<Rightarrow> service outcome) \<Rightarrow> service \<Rightarrow> service outcome" where
  "answer_config sessionId k s =
     (case map_of (mConfigReqs s) sessionId of
        None \<Rightarrow> Returns s
      | Some (name, msgId) \<Rightarrow> andthen (with_client name (k msgId) s)
          (\<lambda>s1. Returns (s1\<lparr>mConfigReqs := map_erase sessionId (mConfigReqs s1)\<rparr>)))"

definition onControlResponseCallback :: "hald_env \<Rightarrow> int \<Rightarrow> 32 word \<Rightarrow> service \<Rightarrow> service outcome" where
  "onControlResponseCallback env err sessionId = answer_config sessionId (onControlResponseCb env err)"

definition onControlCollectiveResponseCallback :: "hald_env \<Rightarrow> (int \<times> 32 word) list \<Rightarrow> service \<Rightarrow> service outcome" where
  "onControlCollectiveResponseCallback env answers s =
     (case answers of
        [(err, sessionId)] \<Rightarrow> answer_config sessionId (onControlResponseCb env err) s
      | _ \<Rightarrow> Returns s)"

definition onGnssConfigCallback :: "hald_env \<Rightarrow> 32 word \<Rightarrow> gnss_config \<Rightarrow> service \<Rightarrow> service outcome" where
  "onGnssConfigCallback env sessionId config s =
     (if sessionId = 0 then
        if has_flag (config_flags config) (hal_value (env_lib env) ''GNSS_CONFIG_FLAGS_XTRA_STATUS_BIT'')
        then each_name (onXtraStatusUpdateCb env (config_part config ''GNSS_CONFIG_FLAGS_XTRA_STATUS_BIT''))
               (mClientsRegForXtraStatus s) s
        else Returns s
      else answer_config sessionId (\<lambda>msgId p s1.
             andthen (onControlResponseCb env (hal_value (env_lib env) ''LOCATION_ERROR_SUCCESS'') msgId p s1)
               (onGnssConfigCb env msgId config p)) s)"

section \<open>Single positions\<close>

definition onGtpWwanTrackingCallback :: "hald_env \<Rightarrow> location \<Rightarrow> service \<Rightarrow> service outcome" where
  "onGtpWwanTrackingCallback env loc s =
     (if mTerrestrialFixTimeoutMap s \<noteq> [] \<and>
         has_flag (loc_flags loc) (hal_value (env_lib env) ''LOCATION_HAS_LAT_LONG_BIT'') \<and> mOptInTerrestrialService s = 1
      then andthen (each_name (sendTerrestrialFix env (hal_value (env_lib env) ''LOCATION_ERROR_SUCCESS'') loc)
                      (mTerrestrialFixTimeoutMap s) s)
             (\<lambda>s1. stop_network (s1\<lparr>mTerrestrialFixTimeoutMap := []\<rparr>))
      else Returns s)"

text \<open>The requests the position is good enough for are served and erased.\<close>

fun serve_fixes :: "hald_env \<Rightarrow> location \<Rightarrow> (string \<times> int) list \<Rightarrow> service \<Rightarrow> service outcome" where
  "serve_fixes env loc [] s = Returns s"
| "serve_fixes env loc ((name, horQoS) # rest) s =
     (if loc_accuracy loc < horQoS then
        andthen (with_client name (sendSingleFusedFix env (hal_value (env_lib env) ''LOCATION_ERROR_SUCCESS'') loc) s)
          (\<lambda>s1. serve_fixes env loc rest (s1\<lparr>mSingleFixReqMap := map_erase name (mSingleFixReqMap s1)\<rparr>))
      else serve_fixes env loc rest s)"

definition service_onGnssLocationInfoCb :: "hald_env \<Rightarrow> location \<Rightarrow> service \<Rightarrow> service outcome" where
  "service_onGnssLocationInfoCb env loc s =
     (let s1 = s\<lparr>mSingleFixLastLocation := loc\<rparr> in
      andthen
        (if loc_timestamp loc \<noteq> 0 \<and> has_flag (loc_flags loc) (hal_value (env_lib env) ''LOCATION_HAS_LAT_LONG_BIT'') \<and>
            has_flag (loc_flags loc) (hal_value (env_lib env) ''LOCATION_HAS_ACCURACY_BIT'')
         then serve_fixes env loc (mSingleFixReqMap s1) s1 else Returns s1)
        (\<lambda>s2. Returns (stopTrackingSessionForSingleFixes s2)))"

end
