(* ===== verification/HalDaemon.thy ===== *)
theory HalDaemon
  imports HalCallbacks
begin

text \<open>
  The location HAL daemon as a system: the messages of the clients, the timers and the callbacks of the
  library in any order, the states they lead to, and what holds in all of them.
\<close>

section \<open>Runs\<close>

text \<open>What a client, a timer or the service's own callbacks can start.\<close>

inductive hald_request :: "hald_env \<Rightarrow> (service \<Rightarrow> service outcome) \<Rightarrow> bool" for env where
  "hald_request env (newClient env name clientType made api prev final opts)"
| "hald_request env (deleteClient env name)"
| "hald_request env (deleteEapClientByIds env i j)"
| "hald_request env (service_startTracking env name opts new_id)"
| "hald_request env (service_stopTracking name clear)"
| "hald_request env (service_updateSubscription name m)"
| "hald_request env (service_updateTrackingOptions env name opts)"
| "hald_request env (service_startBatching env name interval distance mode new_id)"
| "hald_request env (service_stopBatching env name)"
| "hald_request env (service_updateBatchingOptions env name interval distance mode)"
| "hald_request env (service_addGeofences name gfs mem new_ids)"
| "hald_request env (service_removeGeofences name ids mem)"
| "hald_request env (service_modifyGeofences name gfs mem)"
| "hald_request env (service_pauseGeofences name ids mem)"
| "hald_request env (service_resumeGeofences name ids mem)"
| "hald_request env (service_pingTest env name)"
| "hald_request env (service_getDebugReport env name rep)"
| "hald_request env (service_getAntennaInfo name)"
| "hald_request env (\<lambda>s. Returns (updateNetworkAvailability interface availability s))"
| "hald_request env (service_getGnssEnergyConsumed interface name)"
| "hald_request env (getConstellationSecondaryBandConfig env interface sessionId name msgId)"
| "hald_request env (getXtraStatus env interface sessionId name msgId)"
| "hald_request env (\<lambda>s. Returns (enter_for_xtra name s))"
| "hald_request env (register_for_xtra env interface sessionId name msgId)"
| "hald_request env (deregisterXtraStatusUpdate env interface sessionId name msgId)"
| "hald_request env (registerGnssSignalTypesUpdate env api registerUpdate name msgId)"
| "hald_request env (config_call env k sessionId name msgId)"
| "hald_request env (injectLocation name loc)"
| "hald_request env (configUserConsentTerrestrialPositioning env api userConsent sessionId name msgId)"
| "hald_request env (getSingleTerrestrialPos env name)"
| "hald_request env (gtpFixRequestTimeout env name)"
| "hald_request env (getSinglePos api new_id name horQoS timeoutMsec)"
| "hald_request env (singleFixRequestTimeout env name)"
| "hald_request env (service_onGnssSignalTypesCb env signalType)"
| "hald_request env (onGnssEnergyConsumedCb env energy)"
| "hald_request env (onControlResponseCallback env err sessionId)"
| "hald_request env (onControlCollectiveResponseCallback env answers)"
| "hald_request env (onGnssConfigCallback env sessionId config)"
| "hald_request env (onGtpWwanTrackingCallback env loc)"
| "hald_request env (service_onGnssLocationInfoCb env loc)"

text \<open>What the library calls on a handler. The engine reports are not empty and hold no more reports than there
  are engines.\<close>

inductive hald_callback :: "hald_env \<Rightarrow> nat \<Rightarrow> (service \<Rightarrow> service outcome) \<Rightarrow> bool" for env p where
  "hald_callback env p (onResponseCb env p err)"
| "hald_callback env p (onCollectiveResponseCallback env mem p answers)"
| "hald_callback env p (onCapabilitiesCallback env p m)"
| "hald_callback env p (onTrackingCb env p loc)"
| "hald_callback env p (onBatchingCb env p locs mode)"
| "hald_callback env p (onBatchingStatusCb env p status)"
| "hald_callback env p (onGeofenceBreachCb env mem p ids loc type ts)"
| "hald_callback env p (onGnssLocationInfoCb env p now r)"
| "rs \<noteq> [] \<Longrightarrow> int (length rs) \<le> hal_value (env_lib env) ''LOC_OUTPUT_ENGINE_COUNT'' \<Longrightarrow>
   hald_callback env p (onEngLocationsInfoCb env p now rs)"
| "hald_callback env p (onGnssSvCb env p n)"
| "hald_callback env p (onGnssNmeaCb env p nm)"
| "hald_callback env p (onEngineNmeaCb env p nm)"
| "hald_callback env p (onGnssDataCb env p n)"
| "hald_callback env p (onGnssMeasurementsCb env p n)"
| "hald_callback env p (onLocationSystemInfoCb env p n)"
| "hald_callback env p (onDcReportCb env p n)"
| "hald_callback env p (onGnssSvEphemerisCb env p n)"
| "hald_callback env p (onAntennaInfoCb env p n)"

text \<open>The library calls a handler until it was told to destroy the API and said that it did. Maintenance runs
  in a thread of its own: its pings, to any client that was there at some time, and the deletions that
  follow them are steps of their own, between any others. A deletion is one step, as it is under the
  lock: maintenance makes it without the lock, and the runs in which another operation goes on in the
  middle of it are not among these.\<close>

inductive hald_reach :: "hald_env \<Rightarrow> service \<Rightarrow> bool" for env where
  hald_begin: "hald_reach env (service_start mode)"
| hald_auto: "auto_start env api prev final opts tbf new_id (service_start mode) = Returns s \<Longrightarrow> hald_reach env s"
| hald_request_step: "hald_reach env s \<Longrightarrow> hald_request env k \<Longrightarrow> k s = Returns s' \<Longrightarrow> hald_reach env s'"
| hald_callback_step: "hald_reach env s \<Longrightarrow> handlers s p = Some c \<Longrightarrow> hald_callback env p k \<Longrightarrow> k s = Returns s'
    \<Longrightarrow> hald_reach env s'"
| hald_destroy_step: "hald_reach env s \<Longrightarrow> handlers s p = Some c \<Longrightarrow> Api_destroy \<in> set (api_calls c)
    \<Longrightarrow> hald_reach env (onLocationApiDestroyCompleteCb p s)"
| hald_ping_step: "hald_reach env s \<Longrightarrow> ping_client env x s = Returns (lost, s') \<Longrightarrow> hald_reach env s'"
| hald_purge_step: "hald_reach env s \<Longrightarrow> deleteClientbyName env name s = Returns s' \<Longrightarrow> hald_reach env s'"

section \<open>The invariant\<close>

definition clients_ok :: "service \<Rightarrow> bool" where
  "clients_ok s \<longleftrightarrow>
     distinct (map fst (mClients s)) \<and> distinct (map snd (mClients s)) \<and>
     (\<forall>(name, p) \<in> set (mClients s). \<exists>c. handlers s p = Some c \<and> mName c = name \<and> Api_destroy \<notin> set (api_calls c)) \<and>
     (\<forall>p. handlers s p \<noteq> None \<longrightarrow> p < next_handler s)"

definition fixes_ok :: "service \<Rightarrow> bool" where
  "fixes_ok s \<longleftrightarrow>
     (network_on s \<longleftrightarrow> mTerrestrialFixTimeoutMap s \<noteq> []) \<and>
     (mTerrestrialFixTimeoutMap s \<noteq> [] \<longrightarrow> mGtpWwanSsLocationApi s) \<and>
     (mSingleFixTrackingSessionId s \<noteq> 0 \<longrightarrow> mSingleFixLocationApi s)"

definition single_ok :: "service \<Rightarrow> bool" where
  "single_ok s \<longleftrightarrow> (mSingleFixTrackingSessionId s \<noteq> 0 \<longrightarrow> mSingleFixReqMap s \<noteq> [])"

definition hald_ok :: "service \<Rightarrow> bool" where
  "hald_ok s \<longleftrightarrow> clients_ok s \<and> fixes_ok s \<and> single_ok s"

text \<open>Calls on a handler leave its name, and do not destroy it.\<close>

definition keeps :: "(client \<Rightarrow> client) \<Rightarrow> bool" where
  "keeps f \<longleftrightarrow> (\<forall>c. mName (f c) = mName c \<and> (Api_destroy \<in> set (api_calls (f c)) \<longleftrightarrow> Api_destroy \<in> set (api_calls c)))"

named_theorems keeps_intros

lemma keepsI: "(\<And>c. mName (f c) = mName c \<and> (Api_destroy \<in> set (api_calls (f c)) \<longleftrightarrow> Api_destroy \<in> set (api_calls c))) \<Longrightarrow> keeps f"
  by (simp add: keeps_def)

lemma keeps_comp: "keeps f \<Longrightarrow> keeps g \<Longrightarrow> keeps (\<lambda>c. f (g c))"
  by (simp add: keeps_def)

lemma keeps_if [keeps_intros]: "keeps f \<Longrightarrow> keeps g \<Longrightarrow> keeps (\<lambda>c. if b then f c else g c)"
  by (simp add: keeps_def)

lemma keeps_id [keeps_intros]: "keeps (\<lambda>c. c)"
  by (simp add: keeps_def)

lemma keeps_fold: "(\<And>x. keeps (f x)) \<Longrightarrow> keeps (fold f xs)"
  by (induction xs) (simp_all add: keeps_def)

lemmas client_defs =
  call_api_def updateSubscription_def unsubscribeLocationSessionCb_def startTracking_def stopTracking_def
  updateTrackingOptions_def startBatching_def stopBatching_def updateBatchingOptions_def setGeofenceIds_def
  eraseGeofenceIds_def addGeofences_def api_if_def removeGeofences_def modifyGeofences_def pauseGeofences_def
  resumeGeofences_def getAntennaInfo_def addEngineInfoRequst_def push_pending_def push_gf_pending_def

lemma keeps_client [keeps_intros]:
  "keeps (updateSubscription m)" "keeps unsubscribeLocationSessionCb" "keeps (stopTracking b)"
  "keeps (\<lambda>c. snd (startTracking lib opts i c))" "keeps (updateTrackingOptions lib opts)"
  "keeps stopBatching" "keeps (updateBatchingOptions lib interval distance mode)"
  "keeps (setGeofenceIds ids sessions)" "keeps (eraseGeofenceIds ids)" "keeps getAntennaInfo"
  "keeps (removeGeofences ids)" "keeps (modifyGeofences ids gfs)" "keeps (pauseGeofences ids)" "keeps (resumeGeofences ids)"
  "keeps addEngineInfoRequst" "keeps (push_pending msg)" "keeps (push_gf_pending msg)"
  by (rule keepsI, simp add: client_defs Let_def)+

lemma getSessionIds_keeps:
  "getSessionIds mem ids c = (r, c') \<Longrightarrow>
     mName c' = mName c \<and> (Api_destroy \<in> set (api_calls c') \<longleftrightarrow> Api_destroy \<in> set (api_calls c))"
  by (auto simp: getSessionIds_def split: if_splits prod.splits)

lemma keeps_gf_request [keeps_intros]: "(\<And>ids. keeps (req ids)) \<Longrightarrow> keeps (gf_request m req mem ids)"
  unfolding keeps_def gf_request_def
  by (auto simp: push_gf_pending_def split: prod.splits option.splits dest!: getSessionIds_keeps)

lemma keeps_erase_failed [keeps_intros]: "keeps (erase_failed success rs)"
  unfolding erase_failed_def
  by (rule keeps_fold) (auto intro: keeps_intros)

lemma filterPositionReport_keeps:
  "filterPositionReport hal now r e c = (b, c') \<Longrightarrow>
     mName c' = mName c \<and> (Api_destroy \<in> set (api_calls c') \<longleftrightarrow> Api_destroy \<in> set (api_calls c)) \<and>
     mIpcSender c' = mIpcSender c"
proof -
  have time: "mName (snd (filter_by_time e now d)) = mName d \<and> api_calls (snd (filter_by_time e now d)) = api_calls d \<and>
      mIpcSender (snd (filter_by_time e now d)) = mIpcSender d" for d
    by (simp add: filter_by_time_def sent_now_def Let_def)
  assume "filterPositionReport hal now r e c = (b, c')"
  then have "c' = snd (filterPositionReport hal now r e c)" by simp
  then show ?thesis
    by (simp add: filterPositionReport_def Let_def time) (simp add: sent_now_def set_final_def)
qed

section \<open>Each step preserves it\<close>

definition preserves :: "(service \<Rightarrow> service outcome) \<Rightarrow> bool" where
  "preserves k \<longleftrightarrow> (\<forall>s s'. hald_ok s \<longrightarrow> k s = Returns s' \<longrightarrow> hald_ok s')"

named_theorems preserves_intros

lemma preservesI: "(\<And>s s'. hald_ok s \<Longrightarrow> k s = Returns s' \<Longrightarrow> hald_ok s') \<Longrightarrow> preserves k"
  by (simp add: preserves_def)

lemma preservesD: "preserves k \<Longrightarrow> hald_ok s \<Longrightarrow> k s = Returns s' \<Longrightarrow> hald_ok s'"
  by (simp add: preserves_def)

text \<open>What the invariant does not read.\<close>

lemma hald_ok_irrelevant [simp]:
  "hald_ok (s\<lparr>sent := a\<rparr>) = hald_ok s" "hald_ok (s\<lparr>mConfigReqs := b\<rparr>) = hald_ok s"
  "hald_ok (s\<lparr>gnss_calls := d\<rparr>) = hald_ok s" "hald_ok (s\<lparr>mClientsRegForXtraStatus := e\<rparr>) = hald_ok s"
  "hald_ok (s\<lparr>mSignalTypesLocationApi := f\<rparr>) = hald_ok s" "hald_ok (s\<lparr>gnssSignalTypesCb := g\<rparr>) = hald_ok s"
  "hald_ok (s\<lparr>mOptInTerrestrialService := h\<rparr>) = hald_ok s" "hald_ok (s\<lparr>mSingleFixLastLocation := i\<rparr>) = hald_ok s"
  by (simp_all add: hald_ok_def clients_ok_def fixes_ok_def single_ok_def)

lemma clients_okD:
  assumes "clients_ok s" and "(name, p) \<in> set (mClients s)"
  obtains c where "handlers s p = Some c" "mName c = name" "Api_destroy \<notin> set (api_calls c)"
  using assms by (auto simp: clients_ok_def)

lemma clients_ok_put:
  assumes "clients_ok s" and "handlers s p = Some c" and "mName c' = mName c"
    and "Api_destroy \<in> set (api_calls c') \<longleftrightarrow> Api_destroy \<in> set (api_calls c)"
  shows "clients_ok (put_handler p c' s)"
  using assms unfolding clients_ok_def put_handler_def by auto

lemma hald_ok_put:
  assumes "hald_ok s" and "handlers s p = Some c" and "mName c' = mName c"
    and "Api_destroy \<in> set (api_calls c') \<longleftrightarrow> Api_destroy \<in> set (api_calls c)"
  shows "hald_ok (put_handler p c' s)"
  using assms clients_ok_put [OF _ assms(2-4)]
  by (simp add: hald_ok_def fixes_ok_def single_ok_def) (simp add: put_handler_def)

lemma hald_ok_put_keeps:
  "hald_ok s \<Longrightarrow> handlers s p = Some c \<Longrightarrow> keeps f \<Longrightarrow> hald_ok (put_handler p (f c) s)"
  by (rule hald_ok_put) (auto simp: keeps_def)

text \<open>A client that leaves the map: no other client has its handler.\<close>

lemma map_erase_iff: "x \<in> set (map_erase k m) \<longleftrightarrow> x \<in> set m \<and> fst x \<noteq> k"
  by (auto simp: map_erase_def)

lemma distinct_map_erase: "distinct (map f m) \<Longrightarrow> distinct (map f (map_erase k m))"
  by (induction m) (auto simp: map_erase_def)

lemma clients_ok_remove:
  assumes "clients_ok s" and "map_of (mClients s) name = Some p" and "p < next_handler s"
  shows "clients_ok (s\<lparr>mClients := map_erase name (mClients s), handlers := (handlers s)(p := h)\<rparr>)"
proof -
  have "(name, p) \<in> set (mClients s)" using assms(2) by (rule map_of_SomeD)
  moreover have "distinct (map snd (mClients s))" using assms(1) by (simp add: clients_ok_def)
  ultimately have other: "q \<noteq> p" if "(n, q) \<in> set (mClients s)" "n \<noteq> name" for n q
    using that by (force simp: distinct_map inj_on_def)
  show ?thesis
    using assms(1,3) by (auto simp: clients_ok_def distinct_map_erase map_erase_iff dest: other)
qed

lemma stopTracking_ok:
  "clients_ok s \<Longrightarrow> fixes_ok s \<Longrightarrow> hald_ok (stopTrackingSessionForSingleFixes s)"
  by (auto simp: stopTrackingSessionForSingleFixes_def hald_ok_def clients_ok_def fixes_ok_def single_ok_def Let_def)

lemma stopTracking_fixes:
  "fixes_ok s \<Longrightarrow> fixes_ok (stopTrackingSessionForSingleFixes s) \<and> single_ok (stopTrackingSessionForSingleFixes s)"
  by (auto simp: stopTrackingSessionForSingleFixes_def fixes_ok_def single_ok_def Let_def)

lemma stopTracking_fields:
  "mClients (stopTrackingSessionForSingleFixes s) = mClients s"
  "handlers (stopTrackingSessionForSingleFixes s) = handlers s"
  "next_handler (stopTrackingSessionForSingleFixes s) = next_handler s"
  by (simp_all add: stopTrackingSessionForSingleFixes_def Let_def)

text \<open>The steps of \<open>deleteClientbyName\<close> before the handler is cleaned up.\<close>

definition forget_terrestrial :: "string \<Rightarrow> service \<Rightarrow> service outcome" where
  "forget_terrestrial name s =
     (if name \<in> set (mTerrestrialFixTimeoutMap s) then
        let s2 = s\<lparr>mTerrestrialFixTimeoutMap := removeAll name (mTerrestrialFixTimeoutMap s)\<rparr> in
        if mTerrestrialFixTimeoutMap s2 = [] then stop_network s2 else Returns s2
      else Returns s)"

definition forget_single :: "string \<Rightarrow> service \<Rightarrow> service" where
  "forget_single name s = stopTrackingSessionForSingleFixes (s\<lparr>mSingleFixReqMap := map_erase name (mSingleFixReqMap s)\<rparr>)"

lemma deleteClientbyName_forget:
  "deleteClientbyName env name s =
     (case getClient name s of None \<Rightarrow> Returns s
      | Some p \<Rightarrow> andthen (forget_terrestrial name (s\<lparr>mClients := map_erase name (mClients s)\<rparr>))
                   (\<lambda>s3. cleanup env p (forget_single name s3)))"
  by (simp add: deleteClientbyName_def delete_begin_def delete_end_def forget_terrestrial_def forget_single_def Let_def
      split: option.split)

lemma forget_terrestrial_ok:
  "forget_terrestrial name s = Returns s' \<Longrightarrow> fixes_ok s \<Longrightarrow>
   fixes_ok s' \<and> mClients s' = mClients s \<and> handlers s' = handlers s \<and> next_handler s' = next_handler s"
  by (auto simp: forget_terrestrial_def stop_network_def fixes_ok_def Let_def split: if_splits)

lemma forget_single_ok:
  "fixes_ok s \<Longrightarrow> fixes_ok (forget_single name s) \<and> single_ok (forget_single name s) \<and>
     mClients (forget_single name s) = mClients s \<and> handlers (forget_single name s) = handlers s \<and>
     next_handler (forget_single name s) = next_handler s"
  using stopTracking_fixes [of "s\<lparr>mSingleFixReqMap := map_erase name (mSingleFixReqMap s)\<rparr>"]
  by (simp add: forget_single_def stopTracking_fields) (simp add: fixes_ok_def)

lemma deleteClientbyName_cases:
  assumes "deleteClientbyName env name s = Returns s'" and "fixes_ok s" and "map_of (mClients s) name = Some p"
  obtains s2 where "fixes_ok s2" "single_ok s2" "mClients s2 = map_erase name (mClients s)" "handlers s2 = handlers s"
    "next_handler s2 = next_handler s" "cleanup env p s2 = Returns s'"
proof -
  obtain s3 where s3: "forget_terrestrial name (s\<lparr>mClients := map_erase name (mClients s)\<rparr>) = Returns s3"
      "cleanup env p (forget_single name s3) = Returns s'"
    using assms(1,3) by (auto simp: deleteClientbyName_forget getClient_def andthen_Returns)
  have "fixes_ok (s\<lparr>mClients := map_erase name (mClients s)\<rparr>)" using assms(2) by (simp add: fixes_ok_def)
  then show thesis
    using that [of "forget_single name s3"] forget_terrestrial_ok [OF s3(1)] forget_single_ok [of s3 name] s3(2) by simp
qed

lemma delete_preserves [preserves_intros]: "preserves (deleteClientbyName env name)"
proof (rule preservesI)
  fix s s' assume ok: "hald_ok s" and del: "deleteClientbyName env name s = Returns s'"
  show "hald_ok s'"
  proof (cases "map_of (mClients s) name")
    case None
    then show ?thesis using ok del by (simp add: deleteClientbyName_forget getClient_def)
  next
    case (Some p)
    obtain s2 where fields: "fixes_ok s2" "single_ok s2" "mClients s2 = map_erase name (mClients s)" "handlers s2 = handlers s"
        "next_handler s2 = next_handler s" and c: "cleanup env p s2 = Returns s'"
      using deleteClientbyName_cases [OF del _ Some] ok by (auto simp: hald_ok_def)
    have "p < next_handler s"
      using ok map_of_SomeD [OF Some] by (fastforce simp: hald_ok_def clients_ok_def)
    then have gone: "clients_ok (s\<lparr>mClients := map_erase name (mClients s), handlers := (handlers s)(p := h)\<rparr>)" for h
      using clients_ok_remove [of s name p] ok Some by (simp add: hald_ok_def)
    obtain h where "s' = s2\<lparr>handlers := (handlers s2)(p := h)\<rparr>"
      using c by (auto simp: cleanup_def on_handler_def put_handler_def split: option.splits if_splits)
    then show ?thesis using fields gone [of h]
      by (simp add: hald_ok_def clients_ok_def fixes_ok_def single_ok_def)
  qed
qed

lemma preserves_andthen [preserves_intros]:
  "preserves k \<Longrightarrow> preserves h \<Longrightarrow> preserves (\<lambda>s. andthen (k s) h)"
  unfolding preserves_def andthen_Returns by blast

lemma preserves_if [preserves_intros]:
  "preserves k \<Longrightarrow> preserves h \<Longrightarrow> preserves (\<lambda>s. if b s then k s else h s)"
  unfolding preserves_def by (metis (full_types))

lemma preserves_Returns [preserves_intros]: "preserves Returns"
  by (simp add: preserves_def)

lemma preserves_Faults [preserves_intros]: "preserves (\<lambda>s. Faults)"
  by (simp add: preserves_def)

lemma preserves_returned: "(\<And>s. hald_ok s \<Longrightarrow> hald_ok (f s)) \<Longrightarrow> preserves (\<lambda>s. Returns (f s))"
  by (auto simp: preserves_def)

lemma preserves_on_handler:
  assumes "\<And>s c s'. hald_ok s \<Longrightarrow> handlers s p = Some c \<Longrightarrow> k s c = Returns s' \<Longrightarrow> hald_ok s'"
  shows "preserves (\<lambda>s. on_handler p (k s) s)"
  using assms by (auto simp: preserves_def on_handler_def split: option.splits)

lemma preserves_upd [preserves_intros]: "keeps f \<Longrightarrow> preserves (upd_handler p f)"
  unfolding upd_handler_def [abs_def]
  by (rule preserves_on_handler) (auto intro: hald_ok_put_keeps)

lemma preserves_with_client [preserves_intros]: "(\<And>p. preserves (k p)) \<Longrightarrow> preserves (with_client name k)"
  by (auto simp: preserves_def with_client_def split: option.splits)

lemma sendMessage_ok: "sendMessage env c msg s = Returns (rc, s1) \<Longrightarrow> hald_ok s1 = hald_ok s"
  by (auto simp: sendMessage_def Let_def split: if_splits)

lemma preserves_send_or_purge [preserves_intros]: "preserves (send_or_purge env c msg)"
proof (rule preservesI)
  fix s s' assume ok: "hald_ok s" and "send_or_purge env c msg s = Returns s'"
  then consider "s' = s" | rc s1 where "sendMessage env c msg s = Returns (rc, s1)"
      "s' = s1 \<or> deleteClientbyName env (mName c) s1 = Returns s'"
    by (fastforce simp: send_or_purge_def andthen_Returns split: if_splits)
  then show "hald_ok s'"
  proof cases
    case 2
    then show ?thesis using ok sendMessage_ok preservesD [OF delete_preserves] by blast
  qed (simp add: ok)
qed

lemma preserves_send_if [preserves_intros]: "preserves (send_if env p cond msg)"
  unfolding send_if_def [abs_def]
proof (rule preserves_on_handler)
  fix s c s'
  assume "hald_ok s" and "(if mIpcSender c \<and> cond c then send_or_purge env c (msg c) s else Returns s) = Returns s'"
  then show "hald_ok s'" using preservesD [OF preserves_send_or_purge] by (cases "mIpcSender c \<and> cond c") auto
qed

lemma preserves_put_send:
  "hald_ok s \<Longrightarrow> handlers s p = Some c \<Longrightarrow> mName c' = mName c \<Longrightarrow>
   (Api_destroy \<in> set (api_calls c') \<longleftrightarrow> Api_destroy \<in> set (api_calls c)) \<Longrightarrow>
   send_or_purge env d msg (put_handler p c' s) = Returns s' \<Longrightarrow> hald_ok s'"
  by (rule preservesD [OF preserves_send_or_purge hald_ok_put])

lemma preserves_send_only [preserves_intros]: "preserves (send_only env msg p)"
  unfolding send_only_def [abs_def]
  by (rule preserves_on_handler) (auto simp: andthen_Returns sendMessage_ok split: if_splits)

lemma preserves_each_client [preserves_intros]:
  assumes "\<And>p. preserves (k p)"
  shows "preserves (each_client k xs)"
proof (rule preservesI)
  fix s s' assume "hald_ok s" "each_client k xs s = Returns s'"
  then show "hald_ok s'"
  proof (induction xs arbitrary: s)
    case (Cons x xs)
    then obtain s1 where "k (snd x) s = Returns s1" "each_client k xs s1 = Returns s'"
      by (cases x) (auto simp: andthen_Returns split: if_splits)
    then show ?case using Cons.IH preservesD [OF assms Cons.prems(1)] by blast
  qed simp
qed

lemma preserves_each_name [preserves_intros]:
  assumes "\<And>p. preserves (k p)"
  shows "preserves (each_name k xs)"
proof (rule preservesI)
  fix s s' assume "hald_ok s" "each_name k xs s = Returns s'"
  then show "hald_ok s'"
  proof (induction xs arbitrary: s)
    case (Cons x xs)
    then obtain s1 where "with_client x k s = Returns s1" "each_name k xs s1 = Returns s'"
      by (auto simp: andthen_Returns)
    moreover have "preserves (with_client x k)" using assms by (rule preserves_with_client)
    ultimately show ?case using Cons.IH Cons.prems(1) preservesD by blast
  qed simp
qed

lemma preserves_option [preserves_intros]:
  "preserves k \<Longrightarrow> (\<And>x. preserves (h x)) \<Longrightarrow> preserves (\<lambda>s. case r of None \<Rightarrow> k s | Some x \<Rightarrow> h x s)"
  by (cases r) simp_all

lemma preserves_newClient [preserves_intros]: "preserves (newClient env name t made api prev final opts)"
proof (rule preservesI)
  fix s s' assume ok: "hald_ok s" and new: "newClient env name t made api prev final opts s = Returns s'"
  show "hald_ok s'"
  proof (cases "map_of (mClients s) name")
    case (Some p)
    then show ?thesis using new preservesD [OF preserves_send_if ok]
      by (auto simp: newClient_def getClient_def sendCapabilitiesMsg_def)
  next
    case None
    then obtain c where c: "newHandler (env_lib env) name t made api prev final opts = Returns c"
      and s': "s' = (put_handler (next_handler s) c s)\<lparr>next_handler := Suc (next_handler s), mClients := (name, next_handler s) # mClients s\<rparr>"
      using new by (auto simp: newClient_def getClient_def Let_def andthen_Returns)
    have "mName c = name \<and> Api_destroy \<notin> set (api_calls c)"
      using c by (auto simp: newHandler_def handler_init_def client_defs Let_def andthen_Returns split: if_splits)
    moreover have "p < next_handler s" if "(n, p) \<in> set (mClients s)" for n p
      using ok that by (fastforce simp: hald_ok_def clients_ok_def)
    moreover have "name \<notin> fst ` set (mClients s)" using None by (simp add: map_of_eq_None_iff)
    ultimately show ?thesis
      using ok unfolding s'
      by (fastforce simp: hald_ok_def clients_ok_def fixes_ok_def single_ok_def put_handler_def less_Suc_eq)
  qed
qed

section \<open>Every operation\<close>

lemma preserves_self: "(\<And>s0. preserves (k s0)) \<Longrightarrow> preserves (\<lambda>s. k s s)"
  by (simp add: preserves_def)

lemma preserves_after: "preserves k \<Longrightarrow> (\<And>s. hald_ok s \<Longrightarrow> hald_ok (f s)) \<Longrightarrow> preserves (\<lambda>s. k (f s))"
  unfolding preserves_def by blast

lemma startBatching_keeps:
  "startBatching lib interval distance mode i c = (r, c') \<Longrightarrow>
     mName c' = mName c \<and> (Api_destroy \<in> set (api_calls c') \<longleftrightarrow> Api_destroy \<in> set (api_calls c))"
  by (auto simp: client_defs Let_def split: if_splits)

lemma addGeofences_keeps:
  "addGeofences options infos i c = (r, c') \<Longrightarrow>
     mName c' = mName c \<and> (Api_destroy \<in> set (api_calls c') \<longleftrightarrow> Api_destroy \<in> set (api_calls c))"
  by (auto simp: client_defs split: if_splits)

lemma keeps_service [keeps_intros]:
  "keeps (\<lambda>c. case startBatching lib interval distance mode i c of (r, c') \<Rightarrow>
     if r = 0 then c' else push_pending m (c'\<lparr>mBatching := True, mBatchingMode := mode\<rparr>))"
  "keeps (\<lambda>c. case addGeofences options infos new_ids c of
       (None, c1) \<Rightarrow> c1 | (Some sessions, c1) \<Rightarrow> push_gf_pending m (setGeofenceIds ids sessions c1))"
  "keeps (\<lambda>c. stopBatching (c\<lparr>mBatching := False, mBatchingMode := mode\<rparr>))"
  "keeps (\<lambda>c. stopTracking b (if b' then unsubscribeLocationSessionCb c else c))"
proof -
  show "keeps (\<lambda>c. case startBatching lib interval distance mode i c of (r, c') \<Rightarrow>
     if r = 0 then c' else push_pending m (c'\<lparr>mBatching := True, mBatchingMode := mode\<rparr>))"
  proof (rule keepsI)
    fix c
    obtain r c' where "startBatching lib interval distance mode i c = (r, c')" by fastforce
    then show "mName (case startBatching lib interval distance mode i c of (r, c') \<Rightarrow>
        if r = 0 then c' else push_pending m (c'\<lparr>mBatching := True, mBatchingMode := mode\<rparr>)) = mName c \<and>
        (Api_destroy \<in> set (api_calls (case startBatching lib interval distance mode i c of (r, c') \<Rightarrow>
          if r = 0 then c' else push_pending m (c'\<lparr>mBatching := True, mBatchingMode := mode\<rparr>)))
         \<longleftrightarrow> Api_destroy \<in> set (api_calls c))" using startBatching_keeps by (simp add: push_pending_def)
  qed
  show "keeps (\<lambda>c. case addGeofences options infos new_ids c of
       (None, c1) \<Rightarrow> c1 | (Some sessions, c1) \<Rightarrow> push_gf_pending m (setGeofenceIds ids sessions c1))"
  proof (rule keepsI)
    fix c
    obtain r c' where "addGeofences options infos new_ids c = (r, c')" by fastforce
    then show "mName (case addGeofences options infos new_ids c of
       (None, c1) \<Rightarrow> c1 | (Some sessions, c1) \<Rightarrow> push_gf_pending m (setGeofenceIds ids sessions c1)) = mName c \<and>
       (Api_destroy \<in> set (api_calls (case addGeofences options infos new_ids c of
       (None, c1) \<Rightarrow> c1 | (Some sessions, c1) \<Rightarrow> push_gf_pending m (setGeofenceIds ids sessions c1)))
         \<longleftrightarrow> Api_destroy \<in> set (api_calls c))" using addGeofences_keeps by (simp add: push_gf_pending_def setGeofenceIds_def split: option.split)
  qed
  show "keeps (\<lambda>c. stopBatching (c\<lparr>mBatching := False, mBatchingMode := mode\<rparr>))"
    by (rule keepsI) (simp add: client_defs)
  show "keeps (\<lambda>c. stopTracking b (if b' then unsubscribeLocationSessionCb c else c))"
    by (rule keepsI) (simp add: client_defs Let_def)
qed


lemmas tracking_defs =
  service_stopTracking_def service_updateSubscription_def service_startBatching_def service_stopBatching_def
  service_updateBatchingOptions_def service_addGeofences_def service_removeGeofences_def service_modifyGeofences_def
  service_pauseGeofences_def service_resumeGeofences_def service_pingTest_def service_getDebugReport_def
  service_getAntennaInfo_def pingTest_def sendTerrestrialFix_def sendSingleFusedFix_def onControlResponseCb_def
  deleteClient_def

lemma preserves_tracking [preserves_intros]:
  "preserves (service_stopTracking name clear)" "preserves (service_updateSubscription name m)"
  "preserves (service_startBatching env name interval distance mode new_id)" "preserves (service_stopBatching env name)"
  "preserves (service_updateBatchingOptions env name interval distance mode)"
  "preserves (service_addGeofences name gfs mem new_ids)" "preserves (service_removeGeofences name ids mem)"
  "preserves (service_modifyGeofences name gfs mem)" "preserves (service_pauseGeofences name ids mem)"
  "preserves (service_resumeGeofences name ids mem)" "preserves (service_pingTest env name)"
  "preserves (service_getAntennaInfo name)" "preserves (deleteClient env name)"
  "preserves (onControlResponseCb env err msgId p)" "preserves (sendTerrestrialFix env err loc p)"
  "preserves (sendSingleFusedFix env err loc p)"
  unfolding tracking_defs
  by (rule preserves_with_client preserves_upd preserves_send_if preserves_send_only delete_preserves keeps_client
      keeps_service keeps_if keeps_id keeps_gf_request keeps_comp [where f = "push_pending msg" for msg])+

lemma preserves_state_options [preserves_intros]:
  "preserves (service_startTracking env name opts new_id)" "preserves (service_updateTrackingOptions env name opts)"
  unfolding service_startTracking_def [abs_def] service_updateTrackingOptions_def [abs_def]
  by (rule preserves_self, rule preserves_with_client, rule preserves_upd,
      (rule keeps_client keeps_comp [where f = "push_pending msg" for msg])+)+

lemma preserves_getDebugReport [preserves_intros]: "preserves (service_getDebugReport env name rep)"
  unfolding service_getDebugReport_def
proof (rule preserves_with_client)
  fix p
  show "preserves (getDebugReport env rep p)"
    unfolding getDebugReport_def [abs_def]
    by (rule preserves_on_handler)
      (auto simp: Let_def call_api_def dest: preserves_put_send [rotated 4] split: if_splits)
qed

lemma gnss_call_ok [simp]: "hald_ok (gnss_call k s) = hald_ok s"
  by (simp add: gnss_call_def)

lemma preserves_config [preserves_intros]:
  "preserves (addConfigRequestToMap env sessionId name msgId)" "preserves (config_call env k sessionId name msgId)"
proof -
  show add: "preserves (addConfigRequestToMap env sessionId name msgId)"
    unfolding addConfigRequestToMap_def [abs_def]
    by (intro preserves_if preserves_returned preserves_with_client preserves_tracking) simp
  show "preserves (config_call env k sessionId name msgId)"
    unfolding config_call_def [abs_def] by (rule preserves_after [OF add]) simp
qed

lemma preserves_gnss [preserves_intros]:
  "preserves (getConstellationSecondaryBandConfig env interface sessionId name msgId)"
  "preserves (getXtraStatus env interface sessionId name msgId)"
  "preserves (\<lambda>s. Returns (enter_for_xtra name s))"
  "preserves (register_for_xtra env interface sessionId name msgId)"
  "preserves (deregisterXtraStatusUpdate env interface sessionId name msgId)"
  "preserves (injectLocation name loc)"
  "preserves (\<lambda>s. Returns (updateNetworkAvailability interface availability s))"
proof -
  show "preserves (getConstellationSecondaryBandConfig env interface sessionId name msgId)"
    "preserves (getXtraStatus env interface sessionId name msgId)"
    unfolding getConstellationSecondaryBandConfig_def [abs_def] getXtraStatus_def [abs_def]
    by (intro preserves_if preserves_config preserves_Returns)+
  show "preserves (\<lambda>s. Returns (enter_for_xtra name s))"
    by (rule preserves_returned) (simp add: enter_for_xtra_def)
  show "preserves (register_for_xtra env interface sessionId name msgId)"
    unfolding register_for_xtra_def [abs_def] by (intro preserves_if preserves_config preserves_Returns)
  show "preserves (deregisterXtraStatusUpdate env interface sessionId name msgId)"
    unfolding deregisterXtraStatusUpdate_def [abs_def] Let_def
    by (rule preserves_if, rule preserves_if, rule preserves_after [OF preserves_config(2)], simp, rule preserves_returned,
        simp, rule preserves_after [OF preserves_with_client], rule preserves_tracking, simp)
  show "preserves (injectLocation name loc)"
    unfolding injectLocation_def by (rule preserves_with_client, rule preserves_returned, simp)
  show "preserves (\<lambda>s. Returns (updateNetworkAvailability interface availability s))"
    by (rule preserves_returned) (simp add: updateNetworkAvailability_def)
qed

lemma preserves_registerGnssSignalTypesUpdate [preserves_intros]:
  "preserves (registerGnssSignalTypesUpdate env api registerUpdate name msgId)"
  unfolding registerGnssSignalTypesUpdate_def [abs_def] Let_def
  by (rule preserves_after [OF preserves_with_client], rule preserves_tracking, simp)

lemma preserves_getGnssEnergyConsumed [preserves_intros]: "preserves (service_getGnssEnergyConsumed interface name)"
proof (rule preservesI)
  fix s s' assume ok: "hald_ok s" and k: "service_getGnssEnergyConsumed interface name s = Returns s'"
  have "preserves (with_client name (\<lambda>p s. andthen (upd_handler p addEngineInfoRequst s) (\<lambda>s1.
      Returns (if pending then s1 else gnss_call Gnss_getGnssEnergyConsumed s1))))" for pending
    by (rule preserves_with_client, rule preserves_andthen, rule preserves_upd, rule keeps_client, rule preserves_returned) simp
  then show "hald_ok s'" using ok k
    by (auto simp: service_getGnssEnergyConsumed_def andthen_Returns split: if_splits dest: preservesD)
qed

lemma preserves_userConsent [preserves_intros]:
  "preserves (configUserConsentTerrestrialPositioning env api userConsent sessionId name msgId)"
  unfolding configUserConsentTerrestrialPositioning_def [abs_def] Let_def
  by (rule preserves_after [OF preserves_config(2)])
    (auto simp: hald_ok_def clients_ok_def fixes_ok_def single_ok_def)

lemma hald_ok_terrestrial:
  "hald_ok s \<Longrightarrow> xs = [] \<longleftrightarrow> \<not> b \<Longrightarrow> xs \<noteq> [] \<Longrightarrow> mGtpWwanSsLocationApi s \<Longrightarrow>
   hald_ok (s\<lparr>mTerrestrialFixTimeoutMap := xs, network_on := b\<rparr>)"
  "hald_ok s \<Longrightarrow> hald_ok (s\<lparr>mTerrestrialFixTimeoutMap := [], network_on := False\<rparr>)"
  "hald_ok s \<Longrightarrow> mTerrestrialFixTimeoutMap s \<noteq> [] \<Longrightarrow> xs \<noteq> [] \<Longrightarrow> hald_ok (s\<lparr>mTerrestrialFixTimeoutMap := xs\<rparr>)"
  by (auto simp: hald_ok_def clients_ok_def fixes_ok_def single_ok_def)

lemma preserves_getSingleTerrestrialPos [preserves_intros]: "preserves (getSingleTerrestrialPos env name)"
proof (rule preservesI)
  fix s s' assume ok: "hald_ok s" and k: "getSingleTerrestrialPos env name s = Returns s'"
  have "preserves (with_client name (sendTerrestrialFix env err no_location))" for err
    by (rule preserves_with_client) (rule preserves_tracking)
  then show "hald_ok s'" using ok k
    by (auto simp: getSingleTerrestrialPos_def Let_def split: if_splits dest: preservesD intro: hald_ok_terrestrial)
qed

lemma preserves_gtpFixRequestTimeout [preserves_intros]: "preserves (gtpFixRequestTimeout env name)"
proof (rule preservesI)
  fix s s' assume ok: "hald_ok s" and k: "gtpFixRequestTimeout env name s = Returns s'"
  show "hald_ok s'"
  proof (cases "name \<in> set (mTerrestrialFixTimeoutMap s)")
    case False
    then show ?thesis using ok k by (simp add: gtpFixRequestTimeout_def)
  next
    case True
    then obtain s1 where s1: "with_client name (sendTerrestrialFix env (hal_value (env_lib env) ''LOCATION_ERROR_TIMEOUT'') no_location) s = Returns s1"
      and s': "(if removeAll name (mTerrestrialFixTimeoutMap s1) = []
          then stop_network (s1\<lparr>mTerrestrialFixTimeoutMap := []\<rparr>)
          else Returns (s1\<lparr>mTerrestrialFixTimeoutMap := removeAll name (mTerrestrialFixTimeoutMap s1)\<rparr>)) = Returns s'"
      using k by (auto simp: gtpFixRequestTimeout_def andthen_Returns Let_def split: if_splits)
    have "hald_ok s1"
      by (rule preservesD [OF preserves_with_client ok s1]) (rule preserves_tracking)
    then show ?thesis using s'
      by (auto simp: stop_network_def split: if_splits intro: hald_ok_terrestrial)
  qed
qed

lemma hald_ok_parts: "hald_ok s \<longleftrightarrow> clients_ok s \<and> fixes_ok s \<and> single_ok s"
  by (rule hald_ok_def)

lemma stopTracking_after:
  "hald_ok s \<Longrightarrow> hald_ok (stopTrackingSessionForSingleFixes (s\<lparr>mSingleFixReqMap := m\<rparr>))"
  by (rule stopTracking_ok) (simp_all add: hald_ok_def clients_ok_def fixes_ok_def)

lemma preserves_getSinglePos [preserves_intros]: "preserves (getSinglePos api new_id name horQoS timeoutMsec)"
proof (rule preservesI)
  fix s s' assume ok: "hald_ok s" and k: "getSinglePos api new_id name horQoS timeoutMsec s = Returns s'"
  have "hald_ok (s\<lparr>mSingleFixLocationApi := True\<rparr>)"
    using ok by (simp add: hald_ok_def clients_ok_def fixes_ok_def single_ok_def)
  then have "hald_ok (stopTrackingSessionForSingleFixes (s\<lparr>mSingleFixLocationApi := True, mSingleFixReqMap := m\<rparr>))" for m
    by (rule stopTracking_after)
  then show "hald_ok s'" using ok k
    by (auto simp: getSinglePos_def Let_def split: if_splits)
      (auto simp: hald_ok_def clients_ok_def fixes_ok_def single_ok_def)
qed

lemma preserves_singleFixRequestTimeout [preserves_intros]: "preserves (singleFixRequestTimeout env name)"
proof (rule preservesI)
  fix s s' assume ok: "hald_ok s" and k: "singleFixRequestTimeout env name s = Returns s'"
  have "preserves (with_client name (sendSingleFusedFix env err loc))" for err loc
    by (rule preserves_with_client) (rule preserves_tracking)
  then show "hald_ok s'" using ok k
    by (auto simp: singleFixRequestTimeout_def andthen_Returns split: if_splits dest: preservesD intro: stopTracking_after)
qed

lemma ping_client_ok: "ping_client env x s = Returns (lost, s') \<Longrightarrow> hald_ok s' = hald_ok s"
  by (auto simp: ping_client_def Let_def split: prod.splits if_splits)

lemma preserves_energy_info [preserves_intros]: "preserves (onGnssEnergyConsumedInfoAvailable env energy p)"
  unfolding onGnssEnergyConsumedInfoAvailable_def [abs_def]
proof (rule preserves_on_handler)
  fix s s' and c :: client
  let ?c = "c\<lparr>mEngineInfoRequestMask := mEngineInfoRequestMask c AND NOT (word_of_int E_ENGINE_INFO_CB_GNSS_ENERGY_CONSUMED_BIT)\<rparr>"
  assume ok: "hald_ok s" "handlers s p = Some c"
    and k: "(if mIpcSender c \<and> hasPendingEngineInfoRequest c \<and> serializes env (EnergyConsumedInd energy)
       then andthen (sendMessage env c (EnergyConsumedInd energy) s) (\<lambda>(rc, s1).
              let s2 = put_handler p ?c s1 in if rc then Returns s2 else deleteClientbyName env (mName c) s2)
       else Returns s) = Returns s'"
  have put: "hald_ok (put_handler p ?c (s\<lparr>sent := l\<rparr>))" for l
    by (rule hald_ok_put [where c = c]) (use ok in simp_all)
  then show "hald_ok s'" using ok k preservesD [OF delete_preserves put]
    by (auto simp: andthen_Returns sendMessage_def Let_def split: if_splits)
qed

lemma preserves_loops [preserves_intros]:
  "preserves (service_onGnssSignalTypesCb env signalType)" "preserves (onGnssEnergyConsumedCb env energy)"
  unfolding service_onGnssSignalTypesCb_def [abs_def] onGnssEnergyConsumedCb_def [abs_def] onGnssSignalTypesCb_def
  by (rule preserves_self, rule preserves_each_client, rule preserves_send_if preserves_energy_info)+

lemma preserves_answer_config:
  assumes "\<And>m p. preserves (k m p)"
  shows "preserves (answer_config sessionId k)"
proof (rule preservesI)
  fix s s' assume ok: "hald_ok s" and a: "answer_config sessionId k s = Returns s'"
  have "preserves (with_client name (k m))" for name m
    by (rule preserves_with_client) (rule assms)
  then have "hald_ok s1" if "with_client name (k m) s = Returns s1" for name m s1
    using preservesD ok that by blast
  then show "hald_ok s'" using ok a
    by (auto simp: answer_config_def andthen_Returns split: option.splits)
qed

lemma preserves_onGnssConfigCb: "preserves (onGnssConfigCb env msgId config p)"
  unfolding onGnssConfigCb_def [abs_def]
proof (rule preserves_on_handler)
  fix s c s'
  assume ok: "hald_ok s" and k: "(case map_of (config_messages (hal_value (env_lib env))) msgId of
        None \<Rightarrow> Returns s
      | Some (flag, msg) \<Rightarrow>
          if has_flag (config_flags config) (hal_value (env_lib env) flag) \<and> mIpcSender c
          then send_or_purge env c (msg (config_part config flag)) s else Returns s) = Returns s'"
  show "hald_ok s'" using ok k preservesD [OF preserves_send_or_purge ok]
    by (auto split: option.splits if_splits)
qed

lemma preserves_control [preserves_intros]:
  "preserves (onControlResponseCallback env err sessionId)" "preserves (onControlCollectiveResponseCallback env answers)"
  "preserves (onGnssConfigCallback env sessionId config)"
proof -
  have answer: "preserves (answer_config i (onControlResponseCb env e))" for i e
    by (rule preserves_answer_config) (rule preserves_tracking)
  then show "preserves (onControlResponseCallback env err sessionId)"
    by (simp add: onControlResponseCallback_def)
  show "preserves (onControlCollectiveResponseCallback env answers)"
    unfolding onControlCollectiveResponseCallback_def [abs_def]
    by (cases answers rule: remdups_adj.cases) (use answer preserves_Returns in auto)
  have "preserves (answer_config sessionId (\<lambda>msgId p s1.
             andthen (onControlResponseCb env e msgId p s1) (onGnssConfigCb env msgId config p)))" for e
    by (rule preserves_answer_config, rule preserves_andthen, rule preserves_tracking, rule preserves_onGnssConfigCb)
  moreover have "preserves (\<lambda>s. each_name (onXtraStatusUpdateCb env status) (mClientsRegForXtraStatus s) s)" for status
    unfolding onXtraStatusUpdateCb_def by (rule preserves_self, rule preserves_each_name, rule preserves_send_if)
  ultimately show "preserves (onGnssConfigCallback env sessionId config)"
    unfolding onGnssConfigCallback_def [abs_def] by (intro preserves_if preserves_Returns)
qed

lemma preserves_onGtpWwan [preserves_intros]: "preserves (onGtpWwanTrackingCallback env loc)"
proof (rule preservesI)
  fix s s' assume ok: "hald_ok s" and k: "onGtpWwanTrackingCallback env loc s = Returns s'"
  have each: "preserves (each_name (sendTerrestrialFix env err loc) xs)" for err xs
    by (rule preserves_each_name) (rule preserves_tracking)
  show "hald_ok s'" using ok k preservesD [OF each ok]
    by (auto simp: onGtpWwanTrackingCallback_def andthen_Returns stop_network_def split: if_splits
        intro: hald_ok_terrestrial)
qed

end
