(* ===== verification/HalSafety.thy ===== *)
theory HalSafety
  imports HalDaemon
begin

text \<open>
  The invariant of the daemon holds in every state it reaches; from it, which steps can fault, and what
  a single request is answered.
\<close>

section \<open>The invariant holds in every state\<close>

lemma send_only_sent: "send_only env msg p s = Returns s' \<Longrightarrow> \<exists>l. s' = s\<lparr>sent := l\<rparr>"
proof -
  assume "send_only env msg p s = Returns s'"
  then have "s' = s \<or> (\<exists>l. s' = s\<lparr>sent := l\<rparr>)"
    by (auto simp: send_only_def on_handler_def sendMessage_def andthen_Returns Let_def split: option.splits if_splits)
  moreover have "s = s\<lparr>sent := sent s\<rparr>" by simp
  ultimately show ?thesis by metis
qed

lemma with_client_sent:
  assumes "with_client name (send_only env msg) s = Returns s'"
  obtains l where "s' = s\<lparr>sent := l\<rparr>"
proof -
  have "s' = s\<lparr>sent := sent s\<rparr> \<or> (\<exists>l. s' = s\<lparr>sent := l\<rparr>)"
    using assms send_only_sent by (auto simp: with_client_def split: option.splits)
  then show thesis using that by blast
qed

lemma weak_irrelevant [simp]:
  "clients_ok (s\<lparr>sent := l\<rparr>) = clients_ok s" "fixes_ok (s\<lparr>sent := l\<rparr>) = fixes_ok s"
  "clients_ok (s\<lparr>sent := l, mSingleFixReqMap := m\<rparr>) = clients_ok s" "fixes_ok (s\<lparr>sent := l, mSingleFixReqMap := m\<rparr>) = fixes_ok s"
  "clients_ok (s\<lparr>mSingleFixLastLocation := i\<rparr>) = clients_ok s" "fixes_ok (s\<lparr>mSingleFixLastLocation := i\<rparr>) = fixes_ok s"
  by (simp_all add: clients_ok_def fixes_ok_def)

lemma serve_fixes_weak:
  "serve_fixes env loc xs s = Returns s' \<Longrightarrow> clients_ok s \<Longrightarrow> fixes_ok s \<Longrightarrow> clients_ok s' \<and> fixes_ok s'"
proof (induction xs arbitrary: s)
  case (Cons x xs)
  obtain name horQoS where x: "x = (name, horQoS)" by fastforce
  show ?case
  proof (cases "loc_accuracy loc < horQoS")
    case True
    then obtain s1 where s1: "with_client name (sendSingleFusedFix env (hal_value (env_lib env) ''LOCATION_ERROR_SUCCESS'') loc) s = Returns s1"
      and rest: "serve_fixes env loc xs (s1\<lparr>mSingleFixReqMap := map_erase name (mSingleFixReqMap s1)\<rparr>) = Returns s'"
      using Cons.prems(1) by (auto simp: x andthen_Returns)
    obtain l where "s1 = s\<lparr>sent := l\<rparr>" using s1 unfolding sendSingleFusedFix_def by (rule with_client_sent)
    then show ?thesis using Cons.IH [OF rest] Cons.prems by simp
  next
    case False
    then show ?thesis using Cons by (simp add: x)
  qed
qed simp

lemma preserves_onGnssLocationInfo: "preserves (service_onGnssLocationInfoCb env loc)"
proof (rule preservesI)
  fix s s' assume ok: "hald_ok s" and k: "service_onGnssLocationInfoCb env loc s = Returns s'"
  have weak: "clients_ok (s\<lparr>mSingleFixLastLocation := loc\<rparr>)" "fixes_ok (s\<lparr>mSingleFixLastLocation := loc\<rparr>)"
    using ok by (simp_all add: hald_ok_def)
  then show "hald_ok s'" using k serve_fixes_weak [OF _ weak]
    by (auto simp: service_onGnssLocationInfoCb_def Let_def andthen_Returns split: if_splits intro!: stopTracking_ok)
qed

lemmas request_preserves =
  preserves_newClient preserves_tracking preserves_state_options preserves_getDebugReport preserves_gnss
  preserves_registerGnssSignalTypesUpdate preserves_config preserves_getGnssEnergyConsumed preserves_userConsent
  preserves_getSingleTerrestrialPos preserves_gtpFixRequestTimeout preserves_getSinglePos
  preserves_singleFixRequestTimeout preserves_loops preserves_control
  preserves_onGtpWwan preserves_onGnssLocationInfo

lemma preserves_deleteEap: "preserves (deleteEapClientByIds env i j)"
  unfolding deleteEapClientByIds_def [abs_def] preserves_def andthen_Returns
  by (auto split: option.splits dest: preservesD [OF delete_preserves, rotated])

lemma hald_request_preserves: "hald_request env k \<Longrightarrow> preserves k"
  by (induction rule: hald_request.induct) (rule request_preserves preserves_deleteEap)+

text \<open>The callbacks on a handler.\<close>

lemma preserves_onResponseCb: "preserves (onResponseCb env p err)"
  unfolding onResponseCb_def [abs_def]
proof (rule preserves_on_handler)
  fix s s' and c :: client
  assume ok: "hald_ok s" "handlers s p = Some c"
    and k: "(if mIpcSender c then
         case mPendingMessages c of [] \<Rightarrow> Returns s
         | m # ms \<Rightarrow> let c1 = c\<lparr>mPendingMessages := ms\<rparr>; s1 = put_handler p c1 s in
             if m \<in> set pending_ids then send_or_purge env c1 (GenericResp m err) s1 else Returns s1
       else Returns s) = Returns s'"
  have put: "hald_ok (put_handler p (c\<lparr>mPendingMessages := ms\<rparr>) s)" for ms
    by (rule hald_ok_put [where c = c]) (use ok in simp_all)
  show "hald_ok s'" using ok k put preservesD [OF preserves_send_or_purge put]
    by (auto simp: Let_def split: if_splits list.splits)
qed

lemma preserves_onCollective: "preserves (onCollectiveResponseCallback env mem p answers)"
  unfolding onCollectiveResponseCallback_def [abs_def]
proof (rule preserves_on_handler)
  fix s s' and c :: client
  let ?c1 = "c\<lparr>mGfPendingMessages := tl (mGfPendingMessages c)\<rparr>"
  assume ok: "hald_ok s" "handlers s p = Some c"
    and k: "(if \<not> mIpcSender c then Returns s
       else
         let c1 = ?c1; s1 = put_handler p c1 s in
         case getClientIds mem (map snd answers) c1 of
           None \<Rightarrow> Returns s1
         | Some clientIds \<Rightarrow>
             (case mGfPendingMessages c of
                [] \<Rightarrow> Returns s1
              | m # _ \<Rightarrow>
                  if m \<in> set gf_pending_ids then
                    let rs = zip clientIds (map fst answers);
                        c2 = (if m = E_LOCAPI_REMOVE_GEOFENCES_MSG_ID then eraseGeofenceIds clientIds c1 else c1);
                        c3 = erase_failed (hal_value (env_lib env) ''LOCATION_ERROR_SUCCESS'') rs c2 in
                    send_or_purge env c3 (CollectiveResp m rs) (put_handler p c3 s)
                  else Returns s1)) = Returns s'"
  have put: "hald_ok (put_handler p (f ?c1) s)" if "keeps f" for f
    by (rule hald_ok_put [where c = c]) (use ok that in \<open>simp_all add: keeps_def\<close>)
  have put1: "hald_ok (put_handler p ?c1 s)" using put [OF keeps_id] .
  have "keeps (\<lambda>c. erase_failed e rs (if b then eraseGeofenceIds ids c else c))" for e rs b ids
    by (rule keeps_comp [where f = "erase_failed e rs"]) (rule keeps_erase_failed keeps_if keeps_client keeps_id)+
  note put3 = put [OF this]
  show "hald_ok s'" using ok k put1 preservesD [OF preserves_send_or_purge put3]
    by (auto simp: Let_def split: if_splits list.splits option.splits)
qed

lemma preserves_capabilities: "preserves (onCapabilitiesCallback env p m)"
  unfolding onCapabilitiesCallback_def [abs_def]
proof (rule preserves_on_handler)
  fix s s' and c :: client
  assume ok: "hald_ok s" "handlers s p = Some c"
    and k: "(if m \<noteq> mCapabilityMask c then sendCapabilitiesMsg env p (put_handler p (c\<lparr>mCapabilityMask := m\<rparr>) s)
      else Returns s) = Returns s'"
  have put: "hald_ok (put_handler p (c\<lparr>mCapabilityMask := m\<rparr>) s)"
    by (rule hald_ok_put [where c = c]) (use ok in simp_all)
  show "hald_ok s'" using ok k preservesD [OF preserves_send_if put]
    by (auto simp: sendCapabilitiesMsg_def split: if_splits)
qed

lemma preserves_breach: "preserves (onGeofenceBreachCb env mem p ids loc type ts)"
  unfolding onGeofenceBreachCb_def [abs_def]
  by (rule preserves_on_handler)
    (auto split: if_splits option.splits dest: preservesD [OF preserves_send_or_purge, rotated])

lemma hald_ok_put_filter:
  assumes "hald_ok s" "handlers s p = Some c" "filterPositionReport hal now r e c = (b, c1)"
  shows "hald_ok (put_handler p c1 s)"
  using assms(1,2) by (rule hald_ok_put) (use filterPositionReport_keeps [OF assms(3)] in simp_all)

lemma preserves_locationInfo: "preserves (onGnssLocationInfoCb env p now r)"
  unfolding onGnssLocationInfoCb_def [abs_def]
proof (rule preserves_on_handler)
  fix s s' and c :: client
  assume ok: "hald_ok s" "handlers s p = Some c"
    and k: "(case filterPositionReport (hal_value (env_lib env)) now r (locOutputEngType r) c of (held, c1) \<Rightarrow>
         let s1 = put_handler p c1 s in
         if \<not> held \<and> mIpcSender c1 \<and> subscribed E_LOC_CB_GNSS_LOCATION_INFO_BIT c1
         then send_or_purge env c1 (LocationInfoInd r) s1 else Returns s1) = Returns s'"
  obtain held c1 where f: "filterPositionReport (hal_value (env_lib env)) now r (locOutputEngType r) c = (held, c1)"
    by fastforce
  have "hald_ok (put_handler p c1 s)" by (rule hald_ok_put_filter [OF ok f])
  then show "hald_ok s'" using k f preservesD [OF preserves_send_or_purge] by (auto simp: Let_def split: if_splits)
qed

lemma preserves_engLocations: "preserves (onEngLocationsInfoCb env p now rs)"
  unfolding onEngLocationsInfoCb_def [abs_def]
proof (rule preserves_on_handler)
  fix s s' and c :: client
  assume ok: "hald_ok s" "handlers s p = Some c"
    and k: "(case rs of [] \<Rightarrow> Faults
       | r # _ \<Rightarrow>
         (case filterPositionReport (hal_value (env_lib env)) now r (locOutputEngType r) c of (held, c1) \<Rightarrow>
            let s1 = put_handler p c1 s in
            if \<not> held \<and> mIpcSender c1 \<and> subscribed E_LOC_CB_ENGINE_LOCATIONS_INFO_BIT c1 then
              let wanted = filter (\<lambda>x. engine_requested (hal_value (env_lib env)) report_engines (locOutputEngType x) c1) rs in
              if int (length wanted) > hal_value (env_lib env) ''LOC_OUTPUT_ENGINE_COUNT'' then Faults
              else if wanted \<noteq> [] then send_or_purge env c1 (EngineLocationsInd wanted) s1
              else Returns s1
            else Returns s1)) = Returns s'"
  obtain r rest where rs: "rs = r # rest" using k by (cases rs) auto
  obtain held c1 where f: "filterPositionReport (hal_value (env_lib env)) now r (locOutputEngType r) c = (held, c1)"
    by fastforce
  have put: "hald_ok (put_handler p c1 s)" by (rule hald_ok_put_filter [OF ok f])
  show "hald_ok s'" using k f put preservesD [OF preserves_send_or_purge put]
    unfolding rs Let_def by (simp del: filter.simps split: if_splits)
qed

lemmas report_defs =
  onTrackingCb_def onBatchingCb_def onBatchingStatusCb_def onGnssSvCb_def onGnssNmeaCb_def onEngineNmeaCb_def
  onGnssDataCb_def onGnssMeasurementsCb_def onLocationSystemInfoCb_def onDcReportCb_def onGnssSvEphemerisCb_def
  onAntennaInfoCb_def

lemma hald_callback_preserves: "hald_callback env p k \<Longrightarrow> preserves k"
  by (induction rule: hald_callback.induct)
    (unfold report_defs, (rule preserves_onResponseCb preserves_onCollective preserves_capabilities preserves_breach
       preserves_locationInfo preserves_engLocations preserves_send_if)+)

lemma hald_ok_start: "hald_ok (service_start mode)"
  by (simp add: hald_ok_def clients_ok_def fixes_ok_def single_ok_def service_start_def)

lemma hald_ok_auto:
  assumes "auto_start env api prev final opts tbf new_id (service_start mode) = Returns s"
  shows "hald_ok s"
proof -
  obtain c where c: "newHandler (env_lib env) AUTO_START_CLIENT_NAME LOCATION_CLIENT_API True api prev final opts = Returns c"
    using assms by (auto simp: auto_start_def andthen_Returns Let_def)
  have c': "mName c = AUTO_START_CLIENT_NAME \<and> Api_destroy \<notin> set (api_calls c)"
    using c by (auto simp: newHandler_def handler_init_def client_defs Let_def andthen_Returns split: if_splits)
  define f where "f = (\<lambda>c. push_pending E_LOCAPI_START_TRACKING_MSG_ID (snd (startTracking (env_lib env)
      \<lparr>minInterval = tbf, minDistance = 0, opt_mode = mode, locReqEngTypeMask = 0, qualityLevelAccepted = 0\<rparr> new_id
      (updateSubscription (word_of_int (E_LOC_CB_GNSS_LOCATION_INFO_BIT OR E_LOC_CB_GNSS_SV_BIT)) c))))"
  have "keeps f" unfolding f_def
    by (rule keeps_comp [where f = "push_pending m" for m], rule keeps_client,
        rule keeps_comp [where f = "\<lambda>c. snd (startTracking lib o1 i c)" for lib o1 i]) (rule keeps_client)+
  then have fc: "mName (f c) = AUTO_START_CLIENT_NAME \<and> Api_destroy \<notin> set (api_calls (f c))"
    using c' by (simp add: keeps_def)
  have "s = (service_start mode)\<lparr>handlers := [0 \<mapsto> f c], next_handler := 1, mClients := [(AUTO_START_CLIENT_NAME, 0)]\<rparr>"
    using assms c by (simp add: auto_start_def f_def Let_def put_handler_def) (simp add: service_start_def)
  then show ?thesis using fc
    by (simp add: hald_ok_def clients_ok_def fixes_ok_def single_ok_def) (simp add: service_start_def)
qed

lemma hald_ok_destroyed:
  assumes "hald_ok s" and "handlers s p = Some c" and "Api_destroy \<in> set (api_calls c)"
  shows "hald_ok (onLocationApiDestroyCompleteCb p s)"
proof -
  have "q \<noteq> p" if "(n, q) \<in> set (mClients s)" for n q
    using assms that by (auto simp: hald_ok_def clients_ok_def)
  then show ?thesis using assms(1)
    by (fastforce simp: onLocationApiDestroyCompleteCb_def hald_ok_def clients_ok_def fixes_ok_def single_ok_def)
qed

lemma hald_reach_ok: "hald_reach env s \<Longrightarrow> hald_ok s"
proof (induction rule: hald_reach.induct)
  case (hald_request_step s k s')
  then show ?case using hald_request_preserves preservesD by blast
next
  case (hald_callback_step s p c k s')
  then show ?case using hald_callback_preserves preservesD by blast
next
  case (hald_ping_step s x lost s')
  then show ?case using ping_client_ok by blast
next
  case (hald_purge_step s name s')
  then show ?case using preservesD [OF delete_preserves] by blast
qed (simp_all add: hald_ok_start hald_ok_auto hald_ok_destroyed)

end
