(* ===== verification/HalProps.thy ===== *)
theory HalProps
  imports HalSafety
begin

text \<open>
  Properties of the location HAL daemon: what holds in every state, which steps can fault and which do,
  and what its clients are told.
\<close>

section \<open>Steps that return\<close>

definition returns :: "(service \<Rightarrow> service outcome) \<Rightarrow> service \<Rightarrow> bool" where
  "returns k s \<longleftrightarrow> (\<exists>s'. k s = Returns s')"

lemma returnsI: "k s = Returns s' \<Longrightarrow> returns k s"
  by (auto simp: returns_def)

lemma hald_ok_live:
  assumes "hald_ok s" and "getClient name s = Some p"
  obtains c where "handlers s p = Some c" "mName c = name" "(name, p) \<in> set (mClients s)"
proof -
  have "(name, p) \<in> set (mClients s)" using assms(2) by (simp add: getClient_def map_of_SomeD)
  then show thesis using assms(1) that by (auto simp: hald_ok_def clients_ok_def)
qed

lemma forget_terrestrial_returns: "fixes_ok s \<Longrightarrow> \<exists>s3. forget_terrestrial name s = Returns s3"
proof (cases "name \<in> set (mTerrestrialFixTimeoutMap s)")
  case True
  assume "fixes_ok s"
  moreover have "mTerrestrialFixTimeoutMap s \<noteq> []" using True by auto
  ultimately have "mGtpWwanSsLocationApi s" by (simp add: fixes_ok_def)
  then show ?thesis using True
    by (cases "removeAll name (mTerrestrialFixTimeoutMap s) = []")
      (simp_all add: forget_terrestrial_def stop_network_def)
qed (simp add: forget_terrestrial_def)

lemma delete_returns_for:
  assumes "hald_ok s" and "\<And>p c. getClient name s = Some p \<Longrightarrow> handlers s p = Some c \<Longrightarrow> mLocationApi c \<Longrightarrow>
    \<not> destroys_at_once env c"
  shows "returns (deleteClientbyName env name) s"
proof (cases "getClient name s")
  case None
  then show ?thesis by (simp add: returns_def deleteClientbyName_forget)
next
  case (Some p)
  let ?s1 = "s\<lparr>mClients := map_erase name (mClients s)\<rparr>"
  have fixes1: "fixes_ok ?s1" using assms(1) by (simp add: hald_ok_def fixes_ok_def)
  then obtain s3 where s3: "forget_terrestrial name ?s1 = Returns s3"
    using forget_terrestrial_returns by blast
  obtain c where c: "handlers s p = Some c" using hald_ok_live [OF assms(1) Some] by blast
  then have "handlers (forget_single name s3) p = Some c"
    using forget_terrestrial_ok [OF s3 fixes1] forget_single_ok by simp
  then show ?thesis using Some s3 assms(2) [OF Some c]
    by (auto simp: returns_def deleteClientbyName_forget cleanup_def on_handler_def)
qed

lemma delete_returns: "destroys_later env \<Longrightarrow> hald_ok s \<Longrightarrow> returns (deleteClientbyName env name) s"
  by (rule delete_returns_for) (simp_all add: destroys_later_def)

lemma send_or_purge_returns:
  assumes "destroys_later env" and "hald_ok s" and "mIpcSender c"
  shows "returns (send_or_purge env c msg) s"
proof -
  have "hald_ok (s\<lparr>sent := l\<rparr>)" for l using assms by simp
  then have "\<exists>s'. deleteClientbyName env (mName c) (s\<lparr>sent := l\<rparr>) = Returns s'" for l
    using delete_returns [OF assms(1)] unfolding returns_def by blast
  then show ?thesis using assms
    by (auto simp: returns_def send_or_purge_def sendMessage_def Let_def)
qed

lemma send_if_returns:
  assumes "destroys_later env" and "hald_ok s" and "handlers s p = Some c"
  shows "returns (send_if env p cond msg) s"
  using assms send_or_purge_returns [OF assms(1,2)]
  by (auto simp: returns_def send_if_def on_handler_def)

lemma with_client_returns:
  assumes "hald_ok s" and "\<And>p c. getClient name s = Some p \<Longrightarrow> handlers s p = Some c \<Longrightarrow> returns (k p) s"
  shows "returns (with_client name k) s"
proof (cases "getClient name s")
  case (Some p)
  then show ?thesis using hald_ok_live [OF assms(1) Some] assms(2) by (metis option.simps(5) returns_def with_client_def)
qed (simp add: with_client_def returns_def)

lemma with_client_upd: "hald_ok s \<Longrightarrow> returns (with_client name (\<lambda>p. upd_handler p f)) s"
  by (rule with_client_returns) (auto simp: returns_def upd_handler_def on_handler_def)

lemma with_client_send_if: "destroys_later env \<Longrightarrow> hald_ok s \<Longrightarrow> returns (with_client name (\<lambda>p. send_if env p cond msg)) s"
  by (rule with_client_returns) (auto intro: send_if_returns)

lemma returns_andthen:
  "returns k s \<Longrightarrow> (\<And>s'. k s = Returns s' \<Longrightarrow> returns h s') \<Longrightarrow> returns (\<lambda>s. andthen (k s) h) s"
  by (auto simp: returns_def)

lemma erase_failed_sender: "mIpcSender (erase_failed e rs d) = mIpcSender d"
proof (induction rs arbitrary: d)
  case (Cons r rs)
  then show ?case by (cases r) (simp add: erase_failed_def eraseGeofenceIds_def)
qed (simp add: erase_failed_def)

text \<open>No callback of the library on a handler ever faults, whatever was lost, if the library destroys later.\<close>

lemma hald_callback_returns:
  assumes "hald_callback env p k" and late: "destroys_later env" and ok: "hald_ok s" and live: "handlers s p = Some c"
  shows "returns k s"
  using assms(1)
proof cases
  case 1
  have put: "hald_ok (put_handler p (c\<lparr>mPendingMessages := ms\<rparr>) s)" for ms
    by (rule hald_ok_put [where c = c]) (use ok live in simp_all)
  show ?thesis unfolding 1 returns_def onResponseCb_def on_handler_def
    using live send_or_purge_returns [OF late put] by (auto simp: returns_def Let_def split: list.split)
next
  case (2 mem answers)
  let ?c1 = "c\<lparr>mGfPendingMessages := tl (mGfPendingMessages c)\<rparr>"
  have put: "hald_ok (put_handler p (f ?c1) s)" if "keeps f" for f
    by (rule hald_ok_put [where c = c]) (use ok live that in \<open>simp_all add: keeps_def\<close>)
  have "keeps (\<lambda>c. erase_failed e rs (if b then eraseGeofenceIds ids c else c))" for e rs b ids
    by (rule keeps_comp [where f = "erase_failed e rs"]) (rule keeps_erase_failed keeps_if keeps_client keeps_id)+
  note put3 = put [OF this]
  have send: "returns (send_or_purge env d msg) (put_handler p d s)"
    if "d = erase_failed e rs (if b then eraseGeofenceIds ids ?c1 else ?c1)" "mIpcSender c" for d e rs b ids msg
    unfolding that(1) by (rule send_or_purge_returns [OF late put3]) (simp add: erase_failed_sender eraseGeofenceIds_def that(2))
  note defs = 2 returns_def onCollectiveResponseCallback_def on_handler_def Let_def
  show ?thesis
  proof (cases "mIpcSender c \<and> mGfPendingMessages c \<noteq> [] \<and> getClientIds mem (map snd answers) ?c1 \<noteq> None")
    case True
    then obtain m ms ids where some: "mIpcSender c" "mGfPendingMessages c = m # ms" "getClientIds mem (map snd answers) ?c1 = Some ids"
      by (auto simp: neq_Nil_conv)
    then show ?thesis
      using live send [OF refl some(1), where b = True] send [OF refl some(1), where b = False] by (simp add: defs)
  next
    case False
    then show ?thesis using live by (auto simp: defs split: list.split option.split)
  qed
next
  case (3 m)
  have put: "hald_ok (put_handler p (c\<lparr>mCapabilityMask := m\<rparr>) s)"
    by (rule hald_ok_put [where c = c]) (use ok live in simp_all)
  have "handlers (put_handler p (c\<lparr>mCapabilityMask := m\<rparr>) s) p = Some (c\<lparr>mCapabilityMask := m\<rparr>)"
    by (simp add: put_handler_def)
  note send_if_returns [OF late put this]
  then show ?thesis unfolding 3 returns_def onCapabilitiesCallback_def on_handler_def sendCapabilitiesMsg_def
    using live by (auto simp: returns_def)
next
  case (7 mem ids loc type ts)
  then show ?thesis using live send_or_purge_returns [OF late ok]
    by (auto simp: returns_def onGeofenceBreachCb_def on_handler_def split: option.split)
next
  case (8 now r)
  obtain held c1 where f: "filterPositionReport (hal_value (env_lib env)) now r (locOutputEngType r) c = (held, c1)"
    by fastforce
  have "hald_ok (put_handler p c1 s)" by (rule hald_ok_put_filter [OF ok live f])
  then show ?thesis unfolding 8 using live f send_or_purge_returns [OF late]
    by (auto simp: returns_def onGnssLocationInfoCb_def on_handler_def Let_def)
next
  case (9 rs now)
  then obtain r rest where rs: "rs = r # rest" by (cases rs) auto
  obtain held c1 where f: "filterPositionReport (hal_value (env_lib env)) now r (locOutputEngType r) c = (held, c1)"
    by fastforce
  have put: "hald_ok (put_handler p c1 s)" by (rule hald_ok_put_filter [OF ok live f])
  have "\<not> hal_value (env_lib env) ''LOC_OUTPUT_ENGINE_COUNT'' < int (length (filter P rs))" for P
    using 9(3) length_filter_le [of P rs] by linarith
  then show ?thesis unfolding 9(1) using live f send_or_purge_returns [OF late put]
    by (auto simp: returns_def onEngLocationsInfoCb_def on_handler_def Let_def rs simp del: filter.simps)
qed (simp_all add: report_defs send_if_returns [OF late ok live])

section \<open>Requests\<close>

text \<open>Every client in the map has a socket.\<close>

definition all_sockets :: "service \<Rightarrow> bool" where
  "all_sockets s \<longleftrightarrow> list_all (\<lambda>(name, p). case handlers s p of None \<Rightarrow> True | Some c \<Rightarrow> mIpcSender c) (mClients s)"

text \<open>The steps that may fault: a registration with numbers no \<open>int\<close> holds, a debug report for a client without
  a location API, a terrestrial position when the API could not be created, the two loops over the
  clients, and the two messages of a configuration.\<close>

definition fault_prone :: "hald_env \<Rightarrow> service \<Rightarrow> (service \<Rightarrow> service outcome) set" where
  "fault_prone env s =
     {newClient env name t made api prev final opts | name t made api prev final opts.
        newHandler (env_lib env) name t made api prev final opts = Faults} \<union>
     {service_getDebugReport env name rep | name rep.
        \<exists>p c. getClient name s = Some p \<and> handlers s p = Some c \<and> \<not> mLocationApi c} \<union>
     {getSingleTerrestrialPos env name | name. mOptInTerrestrialService s = 1 \<and> \<not> mGtpWwanSsLocationApi s} \<union>
     range (service_onGnssSignalTypesCb env) \<union> range (onGnssEnergyConsumedCb env) \<union>
     {onGnssConfigCallback env sessionId config | sessionId config. True}"

lemma all_sockets_live:
  assumes "hald_ok s" and "all_sockets s" and "getClient name s = Some p"
  obtains c where "handlers s p = Some c" "mName c = name" "mIpcSender c"
proof -
  obtain c where c: "handlers s p = Some c" "mName c = name" "(name, p) \<in> set (mClients s)"
    using hald_ok_live [OF assms(1,3)] by blast
  then have "mIpcSender c" using assms(2) by (fastforce simp: all_sockets_def list_all_iff)
  then show thesis using c that by blast
qed

lemma send_only_returns:
  assumes "handlers s p = Some c" and "mIpcSender c"
  shows "\<exists>l. send_only env msg p s = Returns (s\<lparr>sent := l\<rparr>)"
proof (cases "serializes env msg")
  case True
  then show ?thesis using assms by (auto simp: send_only_def on_handler_def sendMessage_def Let_def)
next
  case False
  then have "send_only env msg p s = Returns (s\<lparr>sent := sent s\<rparr>)"
    using assms by (simp add: send_only_def on_handler_def)
  then show ?thesis ..
qed

lemma with_client_send_only:
  assumes "hald_ok s" and "all_sockets s" and "mClients s1 = mClients s" and "handlers s1 = handlers s"
  shows "\<exists>l. with_client name (send_only env msg) s1 = Returns (s1\<lparr>sent := l\<rparr>)"
proof (cases "getClient name s")
  case None
  then have "with_client name (send_only env msg) s1 = Returns (s1\<lparr>sent := sent s1\<rparr>)"
    using assms(3) by (simp add: with_client_def getClient_def)
  then show ?thesis ..
next
  case (Some p)
  obtain c where c: "handlers s1 p = Some c" "mIpcSender c" using all_sockets_live [OF assms(1,2) Some] assms(4) by metis
  then show ?thesis using Some assms(3) send_only_returns [OF c] by (simp add: with_client_def getClient_def)
qed

lemma all_sockets_irrelevant [simp]:
  "all_sockets (s\<lparr>sent := l\<rparr>) = all_sockets s" "all_sockets (s\<lparr>sent := l, mSingleFixReqMap := m\<rparr>) = all_sockets s"
  "all_sockets (s\<lparr>mSingleFixLastLocation := i\<rparr>) = all_sockets s"
  by (simp_all add: all_sockets_def)

lemma each_name_send_only:
  "hald_ok s \<Longrightarrow> all_sockets s \<Longrightarrow> \<exists>l. each_name (send_only env msg) xs s = Returns (s\<lparr>sent := l\<rparr>)"
proof (induction xs arbitrary: s)
  case Nil
  have "each_name (send_only env msg) [] s = Returns (s\<lparr>sent := sent s\<rparr>)" by simp
  then show ?case ..
next
  case (Cons x xs)
  obtain l where "with_client x (send_only env msg) s = Returns (s\<lparr>sent := l\<rparr>)"
    using with_client_send_only [OF Cons.prems refl refl] by blast
  then show ?case using Cons.IH [of "s\<lparr>sent := l\<rparr>"] Cons.prems by auto
qed

lemma each_name_returns:
  assumes "\<And>s name. hald_ok s \<Longrightarrow> returns (with_client name k) s" and "\<And>p. preserves (k p)" and "hald_ok s"
  shows "returns (each_name k xs) s"
  using assms(3)
proof (induction xs arbitrary: s)
  case (Cons x xs)
  then obtain s1 where s1: "with_client x k s = Returns s1" using assms(1) unfolding returns_def by blast
  moreover have "preserves (with_client x k)" using assms(2) by (rule preserves_with_client)
  ultimately have "hald_ok s1" using preservesD Cons.prems by blast
  then show ?case using Cons.IH s1 by (simp add: returns_def)
qed (simp add: returns_def)

lemma senders_of_returns:
  assumes "\<forall>(name, p) \<in> set xs. \<exists>c. handlers s p = Some c \<and> mIpcSender c"
  shows "\<exists>ys. senders_of xs s = Returns ys \<and> list_all snd ys"
  using assms by (induction xs) fastforce+

lemma serve_fixes_returns:
  "hald_ok s \<Longrightarrow> all_sockets s \<Longrightarrow> \<exists>l m. serve_fixes env loc xs (s\<lparr>sent := l0, mSingleFixReqMap := m0\<rparr>) = Returns (s\<lparr>sent := l, mSingleFixReqMap := m\<rparr>)"
proof (induction xs arbitrary: l0 m0)
  case (Cons x xs)
  obtain name horQoS where x: "x = (name, horQoS)" by fastforce
  let ?s = "s\<lparr>sent := l0, mSingleFixReqMap := m0\<rparr>"
  have "\<exists>l. with_client name (send_only env msg) ?s = Returns (?s\<lparr>sent := l\<rparr>)" for msg
    by (rule with_client_send_only [OF Cons.prems]) simp_all
  then obtain l where "with_client name (sendSingleFusedFix env (hal_value (env_lib env) ''LOCATION_ERROR_SUCCESS'') loc) ?s
      = Returns (?s\<lparr>sent := l\<rparr>)"
    unfolding sendSingleFusedFix_def by blast
  then show ?case
    using Cons.IH [OF Cons.prems, where ?l0.0 = l and ?m0.0 = "map_erase name m0"] Cons.IH [OF Cons.prems, where ?l0.0 = l0 and ?m0.0 = m0]
    by (cases "loc_accuracy loc < horQoS") (simp_all add: x)
qed auto

lemma getClientNameByIds_returns:
  assumes "\<forall>(name, p) \<in> set xs. \<exists>c. handlers s p = Some c"
  shows "\<exists>r. getClientNameByIds i j xs s = Returns r"
  using assms by (induction xs) fastforce+

lemma any_pending_returns:
  assumes "\<forall>(name, p) \<in> set xs. \<exists>c. handlers s p = Some c"
  shows "\<exists>r. any_pending xs s = Returns r"
  using assms by (induction xs) fastforce+

lemma hald_ok_clients_live: "hald_ok s \<Longrightarrow> \<forall>(name, p) \<in> set (mClients s). \<exists>c. handlers s p = Some c"
  by (auto simp: hald_ok_def clients_ok_def)

lemma all_sockets_clients:
  "hald_ok s \<Longrightarrow> all_sockets s \<Longrightarrow> \<forall>(name, p) \<in> set (mClients s). \<exists>c. handlers s p = Some c \<and> mIpcSender c"
  by (fastforce simp: hald_ok_def clients_ok_def all_sockets_def list_all_iff)

lemma addConfigRequestToMap_returns: "destroys_later env \<Longrightarrow> hald_ok s \<Longrightarrow> returns (addConfigRequestToMap env i name m) s"
  using with_client_send_if [of env s name]
  by (auto simp: returns_def addConfigRequestToMap_def onControlResponseCb_def [abs_def])

lemma config_call_returns: "destroys_later env \<Longrightarrow> hald_ok s \<Longrightarrow> returns (config_call env k i name m) s"
  using addConfigRequestToMap_returns [of env "gnss_call k s"] by (simp add: returns_def config_call_def)

lemma answer_config_returns:
  "destroys_later env \<Longrightarrow> hald_ok s \<Longrightarrow> returns (answer_config i (onControlResponseCb env err)) s"
proof (cases "map_of (mConfigReqs s) i")
  case (Some nm)
  assume "destroys_later env" "hald_ok s"
  then have "returns (with_client (fst nm) (onControlResponseCb env err (snd nm))) s"
    unfolding onControlResponseCb_def [abs_def] by (rule with_client_send_if)
  then show ?thesis using Some by (cases nm) (auto simp: returns_def answer_config_def)
qed (simp add: returns_def answer_config_def)

lemma newClient_returns:
  assumes "destroys_later env" and "hald_ok s" and "newHandler (env_lib env) name t made api prev final opts \<noteq> Faults"
  shows "returns (newClient env name t made api prev final opts) s"
proof (cases "getClient name s")
  case None
  have "newHandler (env_lib env) name t made api prev final opts \<noteq> Blocks"
    by (auto simp: newHandler_def createSender_def create_def getId1Id2_def Let_def split: prod.split)
  then show ?thesis using None assms(3)
    by (cases "newHandler (env_lib env) name t made api prev final opts") (simp_all add: returns_def newClient_def Let_def)
next
  case (Some p)
  then obtain c where "handlers s p = Some c" using hald_ok_live [OF assms(2)] by blast
  then show ?thesis using Some send_if_returns [OF assms(1,2)]
    by (simp add: returns_def newClient_def sendCapabilitiesMsg_def)
qed

lemma getDebugReport_returns:
  assumes late: "destroys_later env" and "hald_ok s" and "handlers s p = Some c" and "mLocationApi c"
  shows "returns (getDebugReport env rep p) s"
proof -
  have "hald_ok (put_handler p (call_api Api_getDebugReport c) s)"
    by (rule hald_ok_put [OF assms(2,3)]) (simp_all add: call_api_def)
  then have "returns (send_or_purge env (call_api Api_getDebugReport c) msg) (put_handler p (call_api Api_getDebugReport c) s)"
    if "mIpcSender c" for msg
    by (rule send_or_purge_returns [OF late]) (simp add: call_api_def that)
  then show ?thesis using assms by (auto simp: returns_def getDebugReport_def on_handler_def Let_def)
qed

lemma terrestrial_returns:
  assumes "hald_ok s" and "all_sockets s"
  shows "returns (gtpFixRequestTimeout env name) s" and "returns (onGtpWwanTrackingCallback env loc) s"
    and "\<not> (mOptInTerrestrialService s = 1 \<and> \<not> mGtpWwanSsLocationApi s) \<Longrightarrow> returns (getSingleTerrestrialPos env name) s"
proof -
  have api: "mGtpWwanSsLocationApi s" if "mTerrestrialFixTimeoutMap s \<noteq> []"
    using assms(1) that by (simp add: hald_ok_def fixes_ok_def)
  have one: "\<exists>l. with_client name (sendTerrestrialFix env e loc) s = Returns (s\<lparr>sent := l\<rparr>)" for e loc
    unfolding sendTerrestrialFix_def by (rule with_client_send_only [OF assms refl refl])
  show "returns (gtpFixRequestTimeout env name) s"
  proof (cases "name \<in> set (mTerrestrialFixTimeoutMap s)")
    case True
    then have "mGtpWwanSsLocationApi s" using api by force
    moreover obtain l where "with_client name (sendTerrestrialFix env (hal_value (env_lib env) ''LOCATION_ERROR_TIMEOUT'') no_location) s
        = Returns (s\<lparr>sent := l\<rparr>)" using one by blast
    ultimately show ?thesis by (simp add: returns_def gtpFixRequestTimeout_def stop_network_def Let_def)
  qed (simp add: returns_def gtpFixRequestTimeout_def)
  obtain l where "each_name (sendTerrestrialFix env (hal_value (env_lib env) ''LOCATION_ERROR_SUCCESS'') loc)
      (mTerrestrialFixTimeoutMap s) s = Returns (s\<lparr>sent := l\<rparr>)"
    unfolding sendTerrestrialFix_def using each_name_send_only [OF assms] by blast
  then show "returns (onGtpWwanTrackingCallback env loc) s"
    using api by (simp add: returns_def onGtpWwanTrackingCallback_def stop_network_def)
  show "returns (getSingleTerrestrialPos env name) s" if "\<not> (mOptInTerrestrialService s = 1 \<and> \<not> mGtpWwanSsLocationApi s)"
    using that one by (auto simp: returns_def getSingleTerrestrialPos_def Let_def)
qed

lemma single_returns:
  assumes "hald_ok s" and "all_sockets s"
  shows "returns (singleFixRequestTimeout env name) s" and "returns (service_onGnssLocationInfoCb env loc) s"
proof -
  have "\<exists>l. with_client name (sendSingleFusedFix env e loc) s = Returns (s\<lparr>sent := l\<rparr>)" for e loc
    unfolding sendSingleFusedFix_def by (rule with_client_send_only [OF assms refl refl])
  then obtain l where "with_client name (sendSingleFusedFix env (hal_value (env_lib env) ''LOCATION_ERROR_TIMEOUT'')
      (mSingleFixLastLocation s)) s = Returns (s\<lparr>sent := l\<rparr>)" by blast
  then show "returns (singleFixRequestTimeout env name) s"
    by (simp add: returns_def singleFixRequestTimeout_def)
  let ?s = "s\<lparr>mSingleFixLastLocation := loc\<rparr>"
  have "hald_ok ?s" "all_sockets ?s" using assms by simp_all
  then have served: "\<exists>r. serve_fixes env loc xs ?s = Returns r" for xs
    using serve_fixes_returns [of ?s env loc xs "mSingleFixReqMap ?s" "sent ?s"] by auto
  obtain r where "serve_fixes env loc (mSingleFixReqMap s) ?s = Returns r" using served by blast
  then show "returns (service_onGnssLocationInfoCb env loc) s"
    by (simp add: returns_def service_onGnssLocationInfoCb_def Let_def)
qed

lemma xtra_returns: "destroys_later env \<Longrightarrow> hald_ok s \<Longrightarrow> returns (deregisterXtraStatusUpdate env interface i name m) s"
proof -
  assume late: "destroys_later env" and "hald_ok s"
  then have ok: "hald_ok (s\<lparr>mClientsRegForXtraStatus := x\<rparr>)" for x by simp
  have "returns (with_client name (onControlResponseCb env e m)) (s\<lparr>mClientsRegForXtraStatus := x\<rparr>)" for e m x
    unfolding onControlResponseCb_def [abs_def] by (rule with_client_send_if [OF late ok])
  then show ?thesis using config_call_returns [OF late ok]
    by (simp add: returns_def deregisterXtraStatusUpdate_def Let_def)
qed

lemma simple_returns:
  assumes late: "destroys_later env" and ok: "hald_ok s"
  shows "returns (service_startTracking env name opts new_id) s" and "returns (service_updateTrackingOptions env name opts) s"
    and "returns (with_client name (pingTest env)) s"
    and "returns (\<lambda>s. Returns (updateNetworkAvailability interface availability s)) s"
    and "returns (getConstellationSecondaryBandConfig env interface i name m) s"
    and "returns (getXtraStatus env interface i name m) s" and "returns (injectLocation name loc) s"
    and "returns (getSinglePos api new_id name horQoS timeoutMsec) s"
  using with_client_upd [OF ok] with_client_send_if [OF late ok] config_call_returns [OF late ok]
  by (simp_all add: returns_def service_startTracking_def service_updateTrackingOptions_def pingTest_def [abs_def]
      getConstellationSecondaryBandConfig_def getXtraStatus_def injectLocation_def getSinglePos_def with_client_def
      Let_def split: option.split)

lemma signal_types_update_returns: "destroys_later env \<Longrightarrow> hald_ok s \<Longrightarrow> returns (registerGnssSignalTypesUpdate env api b name m) s"
proof -
  assume late: "destroys_later env" and ok: "hald_ok s"
  have "returns (with_client name (onControlResponseCb env e m)) s'" if "hald_ok s'" for e s'
    unfolding onControlResponseCb_def [abs_def] by (rule with_client_send_if [OF late that])
  then show ?thesis using ok by (simp add: returns_def registerGnssSignalTypesUpdate_def)
qed

lemma hald_request_returns:
  assumes "hald_request env k" and late: "destroys_later env" and ok: "hald_ok s" and sockets: "all_sockets s" and "k \<notin> fault_prone env s"
  shows "returns k s"
  using assms(1)
proof cases
  case (1 name t made api prev final opts)
  then have "newHandler (env_lib env) name t made api prev final opts \<noteq> Faults"
    using assms(5) unfolding fault_prone_def by blast
  then show ?thesis unfolding 1 by (rule newClient_returns [OF late ok])
next
  case (2 name)
  then show ?thesis using delete_returns [OF late ok] by (simp add: deleteClient_def)
next
  case (3 i j)
  then show ?thesis using getClientNameByIds_returns [OF hald_ok_clients_live [OF ok], of i j] delete_returns [OF late ok]
    by (auto simp: returns_def deleteEapClientByIds_def split: option.split)
next
  case (17 name rep)
  then have "mLocationApi c" if "getClient name s = Some p" "handlers s p = Some c" for p c
    using assms(5) that unfolding fault_prone_def by blast
  then show ?thesis unfolding 17 service_getDebugReport_def
    by (intro with_client_returns [OF ok] getDebugReport_returns [OF late ok])
next
  case (20 interface name)
  obtain r where "any_pending (mClients s) s = Returns r" using any_pending_returns [OF hald_ok_clients_live [OF ok]] by blast
  moreover have "returns (with_client name (\<lambda>p s. andthen (upd_handler p addEngineInfoRequst s) (\<lambda>s1.
      Returns (if r then s1 else gnss_call Gnss_getGnssEnergyConsumed s1)))) s"
    by (rule with_client_returns [OF ok]) (auto simp: returns_def upd_handler_def on_handler_def)
  ultimately show ?thesis by (simp add: 20 returns_def service_getGnssEnergyConsumed_def)
next
  case (24 interface i name m)
  then show ?thesis using config_call_returns [OF late ok] by (simp add: returns_def register_for_xtra_def)
next
  case (29 api consent i name m)
  have "hald_ok (s\<lparr>mOptInTerrestrialService := h, mGtpWwanSsLocationApi := True\<rparr>)" "hald_ok (s\<lparr>mOptInTerrestrialService := h\<rparr>)"
    "\<not> mGtpWwanSsLocationApi s \<Longrightarrow> hald_ok (s\<lparr>mOptInTerrestrialService := h, mGtpWwanSsLocationApi := False\<rparr>)" for h
    using ok by (auto simp: hald_ok_def clients_ok_def fixes_ok_def single_ok_def)
  from config_call_returns [OF late this(1)] config_call_returns [OF late this(2)] config_call_returns [OF late this(3)]
  show ?thesis by (cases api; cases consent; cases "mGtpWwanSsLocationApi s")
    (simp_all add: 29 returns_def configUserConsentTerrestrialPositioning_def)
next
  case (30 name)
  then have "\<not> (mOptInTerrestrialService s = 1 \<and> \<not> mGtpWwanSsLocationApi s)"
    using assms(5) unfolding fault_prone_def by blast
  then show ?thesis unfolding 30 by (rule terrestrial_returns(3) [OF ok sockets])
next
  case (34 t)
  then show ?thesis using assms(5) by (simp add: fault_prone_def)
next
  case (35 e)
  then show ?thesis using assms(5) by (simp add: fault_prone_def)
next
  case (37 answers)
  then show ?thesis using answer_config_returns [OF late ok]
    by (cases answers rule: remdups_adj.cases) (auto simp: returns_def onControlCollectiveResponseCallback_def)
next
  case (38 i config)
  then show ?thesis using assms(5) unfolding fault_prone_def by blast
next
  case (23 name)
  then show ?thesis by (simp add: returns_def)
qed (simp_all add: tracking_defs(1-11,13)
    with_client_upd [OF ok] with_client_send_if [OF late ok] config_call_returns [OF late ok] terrestrial_returns [OF ok sockets]
    single_returns [OF ok sockets] xtra_returns [OF late ok] signal_types_update_returns [OF late ok]
    answer_config_returns [OF late ok] simple_returns [OF late ok]
    onControlResponseCallback_def)

end
