(* ===== verification/HalClaims.thy ===== *)
theory HalClaims
  imports HalProps
begin

text \<open>
  What is claimed of the location HAL daemon and of its clients, with the runs that show the claims
  to apply.
\<close>

section \<open>A sample daemon\<close>

text \<open>One client, of either kind, whose messages all arrive or are all lost.\<close>

definition demo_dirs :: sock_dirs where
  "demo_dirs = \<lparr>SOCKET_LOC_CLIENT_DIR = ''/s/'', EAP_LOC_CLIENT_DIR = ''/e/'', LOC_CLIENT_NAME_PREFIX = ''c'',
     LOC_INTAPI_NAME_PREFIX = ''i''\<rparr>"

definition demo_env :: "bool \<Rightarrow> hald_env" where
  "demo_env arrives = \<lparr>env_lib = \<lparr>hal_value = (\<lambda>_. 1), setLocationOptions = (\<lambda>old new. new), newTrackingOptions = (\<lambda>x. x),
     dirs = demo_dirs\<rparr>, serializes = (\<lambda>_. True), reaches = (\<lambda>_ _. arrives), destroys_at_once = (\<lambda>_. False)\<rparr>"

definition demo_name :: string where "demo_name = ''/s/c_a.1.2''"

definition demo_options :: loc_options where
  "demo_options = \<lparr>minInterval = 1000, minDistance = 0, opt_mode = 0, locReqEngTypeMask = 0, qualityLevelAccepted = 0\<rparr>"

definition demo_handler :: "int \<Rightarrow> client" where
  "demo_handler t = handler_init (env_lib (demo_env True)) demo_name t True (-1, -1) True (\<lambda>_. 0) (\<lambda>_. False) demo_options"

definition demo_state :: "int \<Rightarrow> service" where
  "demo_state t = (put_handler 0 (demo_handler t) (service_start 0))\<lparr>next_handler := Suc 0, mClients := [(demo_name, 0)]\<rparr>"

lemma demo_create: "create demo_name = Returns \<lparr>mId1 = 1, mId2 = 2, mNodePathnamePrefix = ''/s/c_a''\<rparr>"
proof -
  have "getNodePathname \<lparr>mId1 = 1, mId2 = 2, mNodePathnamePrefix = ''/s/c_a''\<rparr> = demo_name"
    by (simp add: getNodePathname_def to_string_def digits_of_nat.simps digit_char_def demo_name_def)
  then show ?thesis using create_getNodePathname [of "\<lparr>mId1 = 1, mId2 = 2, mNodePathnamePrefix = ''/s/c_a''\<rparr>"]
    by (simp add: is_int32_def)
qed

lemma demo_newHandler:
  "newHandler (env_lib (demo_env arrives)) demo_name t True True (\<lambda>_. 0) (\<lambda>_. False) demo_options = Returns (demo_handler t)"
proof -
  have "createSender demo_dirs demo_name = Returns (LocalSender (getNodePathname \<lparr>mId1 = 1, mId2 = 2, mNodePathnamePrefix = ''/s/c_a''\<rparr>))"
    by (simp add: createSender_def demo_create node_sender_def getNodeType_def starts_with_def demo_dirs_def)
  moreover have "\<not> starts_with (sEAP demo_dirs) demo_name"
    by (simp add: starts_with_def sEAP_def demo_dirs_def demo_name_def)
  ultimately show ?thesis by (simp add: newHandler_def demo_env_def demo_handler_def)
qed

lemma demo_registered:
  "newClient (demo_env arrives) demo_name t True True (\<lambda>_. 0) (\<lambda>_. False) demo_options (service_start 0) = Returns (demo_state t)"
proof -
  have "getClient demo_name (service_start 0) = None" "next_handler (service_start 0) = 0" "mClients (service_start 0) = []"
    by (simp_all add: service_start_def getClient_def)
  then show ?thesis by (simp add: newClient_def demo_newHandler demo_state_def)
qed

lemma hald_demo_reach: "hald_reach (demo_env arrives) (demo_state t)"
  by (rule hald_request_step [OF hald_begin hald_request.intros(1) demo_registered])

lemma demo_fields:
  "handlers (demo_state t) 0 = Some (demo_handler t)" "mClients (demo_state t) = [(demo_name, 0)]"
  "getClient demo_name (demo_state t) = Some 0" "mName (demo_handler t) = demo_name" "mIpcSender (demo_handler t)"
  "mLocationApi (demo_handler t) = (t = LOCATION_CLIENT_API)" "mSessionId (demo_handler t) = 0"
  "mPendingMessages (demo_handler t) = []" "network_on (demo_state t) = False" "mTerrestrialFixTimeoutMap (demo_state t) = []"
  "mSingleFixTrackingSessionId (demo_state t) = 0" "mOptInTerrestrialService (demo_state t) = -1" "sent (demo_state t) = []"
  "mSingleFixReqMap (demo_state t) = []" "mSingleFixLocationApi (demo_state t) = False"
  by (simp_all add: demo_state_def put_handler_def service_start_def getClient_def demo_handler_def handler_init_def client_defs Let_def)

section \<open>In every state\<close>

text \<open>C9: the state the daemon is in after any run of the operations that hold its lock - the messages of the
  clients, the timers, the callbacks of the library - and of the pings and deletions of maintenance, in
  any order and whatever messages are lost, provided no operation runs in the middle of a deletion that
  maintenance makes without the lock: each name is registered once and for a handler of that name that was
  not deleted; the network location runs exactly when a client waits for a terrestrial position; and the
  session for single positions runs only when a client waits for one.\<close>

theorem daemon_state_consistent:
  assumes "hald_reach env s"
  shows "distinct (map fst (mClients s)) \<and>
    (\<forall>name p. getClient name s = Some p \<longrightarrow> (\<exists>c. handlers s p = Some c \<and> mName c = name)) \<and>
    (network_on s \<longleftrightarrow> mTerrestrialFixTimeoutMap s \<noteq> []) \<and>
    (mSingleFixTrackingSessionId s \<noteq> 0 \<longrightarrow> mSingleFixReqMap s \<noteq> [])"
proof -
  have ok: "hald_ok s" using assms by (rule hald_reach_ok)
  then have "\<exists>c. handlers s p = Some c \<and> mName c = name" if "getClient name s = Some p" for name p
    using hald_ok_live [OF ok that] by metis
  then show ?thesis using ok by (simp add: hald_ok_def clients_ok_def fixes_ok_def single_ok_def)
qed

theorem daemon_state_consistent_witness:
  "hald_reach (demo_env False) (demo_state 1) \<and> distinct (map fst (mClients (demo_state 1))) \<and> \<not> network_on (demo_state 1)"
  using daemon_state_consistent [OF hald_demo_reach [of False 1]] hald_demo_reach [of False 1] by (simp add: demo_fields)

text \<open>C10: after such a run no callback of the library on a handler faults, run under the lock and with no
  deletion of maintenance in progress, whether or not the client can be reached: a client that cannot be is
  deleted on the way, and its handler is not used again. The library is assumed to call back about a
  destroyed location API only after \<open>destroy\<close> has returned.\<close>

theorem library_callbacks_return:
  assumes "hald_reach env s" and "destroys_later env" and "handlers s p = Some c" and "hald_callback env p k"
  shows "\<exists>s'. k s = Returns s'"
  using hald_callback_returns [OF assms(4,2) hald_reach_ok [OF assms(1)] assms(3)] by (simp add: returns_def)

lemma demo_later: "destroys_later (demo_env arrives)"
  by (simp add: destroys_later_def demo_env_def)

theorem library_callbacks_return_witness:
  "\<exists>s'. onAntennaInfoCb (demo_env False) 0 [] (demo_state 1) = Returns s'"
  by (rule library_callbacks_return [OF hald_demo_reach demo_later demo_fields(1) hald_callback.intros(18)])

text \<open>After such a run, when each client has a socket and the library destroys later, the only operations
  under the lock that can fault are those of \<open>fault_prone\<close>: the registration of a name whose numbers no
  \<open>int\<close> holds, a debug report for a client without a location API, a terrestrial position without its API,
  the two loops over the clients and the delivery of a configuration. Every other request, timer and
  callback of the service ends in a state. Maintenance is not one of them.\<close>

theorem requests_return:
  assumes "hald_reach env s" and "destroys_later env" and "hald_request env k" and "all_sockets s"
    and "k \<notin> fault_prone env s"
  shows "\<exists>s'. k s = Returns s'"
  using hald_request_returns [OF assms(3,2) hald_reach_ok [OF assms(1)] assms(4,5)] by (simp add: returns_def)

lemma demo_not_fault_prone: "getSinglePos True 5 demo_name 1 1 \<notin> fault_prone (demo_env False) (demo_state 1)"
proof
  let ?k = "getSinglePos True 5 demo_name 1 1" and ?s = "service_start 0"
  have k: "\<exists>s'. ?k ?s = Returns s' \<and> s' \<noteq> ?s"
    by (auto simp: getSinglePos_def service_start_def map_erase_def)
  assume "?k \<in> fault_prone (demo_env False) (demo_state 1)"
  then consider (new) name t made api prev final opts where "?k = newClient (demo_env False) name t made api prev final opts"
      "newHandler (env_lib (demo_env False)) name t made api prev final opts = Faults"
    | (signal) t where "?k = service_onGnssSignalTypesCb (demo_env False) t"
    | (energy) e where "?k = onGnssEnergyConsumedCb (demo_env False) e"
    | (config) i g where "?k = onGnssConfigCallback (demo_env False) i g"
    unfolding fault_prone_def
    by (auto simp: demo_fields getClient_def LOCATION_CLIENT_API_def split: if_splits)
  then have "?k ?s = Faults \<or> ?k ?s = Returns ?s"
    by cases (simp_all add: newClient_def service_start_def getClient_def service_onGnssSignalTypesCb_def
        onGnssEnergyConsumedCb_def onGnssConfigCallback_def answer_config_def)
  then show False using k by auto
qed

theorem requests_return_witness: "\<exists>s'. getSinglePos True 5 demo_name 1 1 (demo_state 1) = Returns s'"
  by (rule requests_return [OF hald_demo_reach demo_later hald_request.intros(32) _ demo_not_fault_prone])
    (simp add: all_sockets_def demo_fields)

section \<open>What faults\<close>

lemma lost_message:
  assumes ok: "hald_ok s" and p: "getClient name s = Some p" and c: "handlers s p = Some c" and "mIpcSender c"
    and "serializes env msg" and "\<not> reaches env (sent s) name" and "send_or_purge env c msg s = Returns s'"
  shows "(name, p) \<notin> set (mClients s')" and "\<not> mLocationApi c \<Longrightarrow> handlers s' p = None"
proof -
  have name: "mName c = name" using hald_ok_live [OF ok p] c by (metis option.inject)
  let ?s = "s\<lparr>sent := sent s @ [(name, msg, False)]\<rparr>"
  have ok': "hald_ok ?s" using ok by simp
  have s': "deleteClientbyName env name ?s = Returns s'"
    using assms(4-7) name by (simp add: send_or_purge_def sendMessage_def Let_def)
  have "map_of (mClients ?s) name = Some p" using p by (simp add: getClient_def)
  moreover have "fixes_ok ?s" using ok' by (simp add: hald_ok_def)
  ultimately obtain s2 where "mClients s2 = map_erase name (mClients ?s)" "handlers s2 = handlers ?s"
      "cleanup env p s2 = Returns s'"
    using deleteClientbyName_cases [OF s'] by blast
  then show "(name, p) \<notin> set (mClients s')" "\<not> mLocationApi c \<Longrightarrow> handlers s' p = None"
    using c by (auto simp: cleanup_def on_handler_def put_handler_def map_erase_iff split: if_splits)
qed

lemma lost_message_returns:
  assumes ok: "hald_ok s" and p: "getClient name s = Some p" and c: "handlers s p = Some c" and "mIpcSender c"
    and "\<not> mLocationApi c"
  shows "\<exists>s'. send_or_purge env c msg s = Returns s'"
proof -
  have name: "mName c = name" using hald_ok_live [OF ok p] c by (metis option.inject)
  have "returns (deleteClientbyName env name) (s\<lparr>sent := l\<rparr>)" for l
    by (rule delete_returns_for) (use ok p c assms(5) in \<open>auto simp: getClient_def\<close>)
  then show ?thesis using assms(4) name by (auto simp: returns_def send_or_purge_def sendMessage_def Let_def)
qed

text \<open>C12: the answer to a configuration request is followed by the configuration, on the same handler: for an
  integration API client, whose handler is deleted at once when it cannot be reached, the second call is on
  a deleted object if the answer was lost.\<close>

theorem config_callback_uses_deleted:
  assumes "hald_reach env s" and "sessionId \<noteq> 0" and "map_of (mConfigReqs s) sessionId = Some (name, msgId)"
    and "getClient name s = Some p" and "handlers s p = Some c" and "mIpcSender c" and "\<not> mLocationApi c"
    and "serializes env (GenericResp msgId (hal_value (env_lib env) ''LOCATION_ERROR_SUCCESS''))"
    and "\<not> reaches env (sent s) name"
  shows "onGnssConfigCallback env sessionId config s = Faults"
proof -
  obtain s' where s': "send_or_purge env c (GenericResp msgId (hal_value (env_lib env) ''LOCATION_ERROR_SUCCESS'')) s = Returns s'"
      and gone: "handlers s' p = None"
    using lost_message_returns [OF hald_reach_ok [OF assms(1)] assms(4-7)]
      lost_message(2) [OF hald_reach_ok [OF assms(1)] assms(4-6,8,9) _ assms(7)] by blast
  then have "onControlResponseCb env (hal_value (env_lib env) ''LOCATION_ERROR_SUCCESS'') msgId p s = Returns s'"
    using assms(5,6) by (simp add: onControlResponseCb_def send_if_def on_handler_def)
  moreover have "onGnssConfigCb env msgId config p s' = Faults"
    using gone by (simp add: onGnssConfigCb_def on_handler_def)
  ultimately show ?thesis using assms(2-4)
    by (simp add: onGnssConfigCallback_def answer_config_def with_client_def)
qed

definition demo_waiting :: service where
  "demo_waiting = (demo_state 2)\<lparr>mConfigReqs := [(7, demo_name, E_INTAPI_GET_MIN_GPS_WEEK_REQ_MSG_ID)],
     gnss_calls := [Ctl_gnssGetConfig 2]\<rparr>"

lemma demo_waiting_reach: "hald_reach (demo_env arrives) demo_waiting"
proof -
  have "config_call (demo_env arrives) (Ctl_gnssGetConfig 2) 7 demo_name E_INTAPI_GET_MIN_GPS_WEEK_REQ_MSG_ID (demo_state 2)
      = Returns demo_waiting"
    by (simp add: config_call_def addConfigRequestToMap_def gnss_call_def demo_waiting_def)
      (simp add: demo_state_def put_handler_def service_start_def)
  then show ?thesis by (rule hald_request_step [OF hald_demo_reach hald_request.intros(27)])
qed

theorem config_callback_uses_deleted_witness:
  "onGnssConfigCallback (demo_env False) 7 \<lparr>config_flags = 1, config_part = (\<lambda>_. [])\<rparr> demo_waiting = Faults"
  by (rule config_callback_uses_deleted [OF demo_waiting_reach, where name = demo_name and p = 0 and c = "demo_handler 2"])
    (simp_all add: demo_waiting_def demo_fields LOCATION_CLIENT_API_def demo_env_def getClient_def)

text \<open>The loop over the clients, when the message to one of them is lost.\<close>

lemma send_if_cases:
  assumes "send_if env q cond msg s = Returns s1"
  shows "(\<exists>l. s1 = s\<lparr>sent := l\<rparr>) \<or> (\<exists>c l. handlers s q = Some c \<and> deleteClientbyName env (mName c) (s\<lparr>sent := l\<rparr>) = Returns s1)"
proof -
  obtain c where c: "handlers s q = Some c" using assms by (auto simp: send_if_def on_handler_def split: option.splits)
  then have k: "(if mIpcSender c \<and> cond c then send_or_purge env c (msg c) s else Returns s) = Returns s1"
    using assms by (simp add: send_if_def on_handler_def)
  show ?thesis
  proof (cases "mIpcSender c \<and> cond c \<and> serializes env (msg c)")
    case False
    then have "s1 = s\<lparr>sent := sent s\<rparr>" using k by (auto simp: send_or_purge_def split: if_splits)
    then show ?thesis by blast
  next
    case True
    then have "(if reaches env (sent s) (mName c) then Returns (s\<lparr>sent := sent s @ [(mName c, msg c, True)]\<rparr>)
        else deleteClientbyName env (mName c) (s\<lparr>sent := sent s @ [(mName c, msg c, False)]\<rparr>)) = Returns s1"
      using k by (simp add: send_or_purge_def sendMessage_def Let_def split: if_splits)
    then show ?thesis using c by (cases "reaches env (sent s) (mName c)") auto
  qed
qed

lemma deleted_not_in:
  assumes "hald_ok s" and "deleteClientbyName env name s = Returns s1"
  shows "(name, q) \<notin> set (mClients s1)"
proof (cases "map_of (mClients s) name")
  case None
  then have "s1 = s" using assms(2) by (simp add: deleteClientbyName_forget getClient_def)
  then show ?thesis using None by (force simp: map_of_eq_None_iff)
next
  case (Some p)
  then obtain s2 where "mClients s2 = map_erase name (mClients s)" "cleanup env p s2 = Returns s1"
    using deleteClientbyName_cases [OF assms(2)] assms(1) by (auto simp: hald_ok_def)
  then show ?thesis
    by (auto simp: cleanup_def on_handler_def put_handler_def map_erase_iff split: option.splits if_splits)
qed

lemma delete_ends: "deleteClientbyName env name s \<noteq> Blocks"
proof -
  have "cleanup env p t \<noteq> Blocks" for p t by (simp add: cleanup_def on_handler_def split: option.split)
  moreover have "stop_network t \<noteq> Blocks" for t by (simp add: stop_network_def)
  ultimately have "delete_end env name p stop t \<noteq> Blocks" for p stop t
    by (cases "stop_network t") (simp_all add: delete_end_def)
  then show ?thesis by (simp add: deleteClientbyName_def split: option.split prod.split)
qed

lemma send_if_ends: "send_if env q cond msg s \<noteq> Blocks"
  using delete_ends [of env]
  by (simp add: send_if_def on_handler_def send_or_purge_def sendMessage_def Let_def split: option.split)

lemma loop_faults:
  assumes "hald_ok s" and "set xs \<subseteq> set (mClients s)" and "(name, p) \<in> set xs" and "handlers s p = Some c" and "mIpcSender c"
    and "\<And>l. serializes env msg \<and> \<not> reaches env l name"
  shows "each_client (\<lambda>q. send_if env q (\<lambda>c. True) (\<lambda>c. msg)) xs s = Faults"
  using assms(1-4)
proof (induction xs arbitrary: s)
  case (Cons x xs)
  obtain n q where x: "x = (n, q)" by fastforce
  then have q: "map_of (mClients s) n = Some q" using Cons.prems(1,2) by (simp add: hald_ok_def clients_ok_def)
  then obtain d where d: "handlers s q = Some d" "mName d = n" using hald_ok_live [OF Cons.prems(1), of n q] by (auto simp: getClient_def)
  consider (faults) "send_if env q (\<lambda>c. True) (\<lambda>c. msg) s = Faults"
    | (gone) s1 where "send_if env q (\<lambda>c. True) (\<lambda>c. msg) s = Returns s1" "(n, q) \<notin> set (mClients s1)"
    | (there) s1 where "send_if env q (\<lambda>c. True) (\<lambda>c. msg) s = Returns s1" "(n, q) \<in> set (mClients s1)"
    using send_if_ends [of env q "\<lambda>c. True" "\<lambda>c. msg" s]
    by (cases "send_if env q (\<lambda>c. True) (\<lambda>c. msg) s") auto
  then show ?case
  proof cases
    case faults
    then show ?thesis by (simp add: x)
  next
    case gone
    then show ?thesis by (simp add: x)
  next
    case there
    note s1 = there(1) and True = there(2)
    have "\<not> (\<exists>l. deleteClientbyName env n (s\<lparr>sent := l\<rparr>) = Returns s1)"
    proof
      assume "\<exists>l. deleteClientbyName env n (s\<lparr>sent := l\<rparr>) = Returns s1"
      then obtain l where del: "deleteClientbyName env n (s\<lparr>sent := l\<rparr>) = Returns s1" ..
      have "hald_ok (s\<lparr>sent := l\<rparr>)" using Cons.prems(1) by simp
      then show False using deleted_not_in [OF _ del] True by blast
    qed
    then obtain l where l: "s1 = s\<lparr>sent := l\<rparr>" using send_if_cases [OF s1] d by (metis option.inject)
    have "(n, q) \<noteq> (name, p)"
    proof
      assume np: "(n, q) = (name, p)"
      then have p: "getClient name s = Some p" using q by (simp add: getClient_def)
      have "serializes env msg" "\<not> reaches env (sent s) name" using assms(6) by blast+
      moreover have "send_or_purge env c msg s = Returns s1"
        using s1 Cons.prems(4) assms(5) np by (simp add: send_if_def on_handler_def)
      ultimately show False using lost_message(1) [OF Cons.prems(1) p Cons.prems(4) assms(5)] True np by blast
    qed
    moreover have "hald_ok s1" "set xs \<subseteq> set (mClients s1)" "handlers s1 p = Some c"
      using Cons.prems by (simp_all add: l)
    moreover have "(name, p) \<in> set (x # xs)" by (rule Cons.prems(3))
    ultimately have "each_client (\<lambda>q. send_if env q (\<lambda>c. True) (\<lambda>c. msg)) xs s1 = Faults"
      by (intro Cons.IH) (auto simp: x)
    then show ?thesis using s1 True by (simp add: x)
  qed
qed simp

text \<open>C28: when a client cannot be reached, the report of the signal types deletes it while the loop over the clients
  stands at it, and the loop goes on from an iterator that is no longer valid.\<close>

theorem signal_types_loop_faults:
  assumes "hald_reach env s" and "(name, p) \<in> set (mClients s)" and "handlers s p = Some c" and "mIpcSender c"
    and "serializes env (SignalTypesResp signalType)" and "\<forall>l. \<not> reaches env l name"
  shows "service_onGnssSignalTypesCb env signalType s = Faults"
  unfolding service_onGnssSignalTypesCb_def onGnssSignalTypesCb_def [abs_def]
  by (rule loop_faults [OF hald_reach_ok [OF assms(1)] subset_refl assms(2-4)]) (use assms(5,6) in simp)

theorem signal_types_loop_faults_witness: "service_onGnssSignalTypesCb (demo_env False) 3 (demo_state 1) = Faults"
  by (rule signal_types_loop_faults [OF hald_demo_reach, where name = demo_name and p = 0 and c = "demo_handler 1"])
    (simp_all add: demo_fields demo_env_def)

lemma cleanup_changes_handler:
  assumes "destroys_later env" and "handlers t p = Some c"
  shows "\<exists>h. cleanup env p t = Returns (t\<lparr>handlers := (handlers t)(p := h)\<rparr>)"
  using assms by (cases "mLocationApi c") (auto simp: cleanup_def on_handler_def put_handler_def destroys_later_def)

text \<open>C29: what the proviso of the state's consistency is for. Maintenance deletes a client it cannot reach
  without the lock. When that client's request for a terrestrial position is the only one, the deletion
  erases it and finds none left; a request of another client that comes at that point, under the lock,
  is entered and starts the network location; and the deletion goes on to stop it: a client waits for a
  position, and the network location is off.\<close>

theorem maintenance_stops_network_in_use:
  assumes "hald_reach env s" and "destroys_later env" and "mTerrestrialFixTimeoutMap s = [a]"
    and "getClient a s = Some p" and "mOptInTerrestrialService s = 1"
    and "ping_client env (a, sender) s = Returns (True, s1)"
  shows "\<exists>s2 s3 s4. delete_begin a s1 = Some (p, True, s2) \<and>
    getSingleTerrestrialPos env b s2 = Returns s3 \<and> network_on s3 \<and>
    delete_end env a p True s3 = Returns s4 \<and> mTerrestrialFixTimeoutMap s4 = [b] \<and> \<not> network_on s4"
proof -
  have ok: "hald_ok s" using assms(1) by (rule hald_reach_ok)
  then obtain c where c: "handlers s p = Some c" using hald_ok_live assms(4) by metis
  have api: "mGtpWwanSsLocationApi s" using ok assms(3) by (simp add: hald_ok_def fixes_ok_def)
  obtain l where s1: "s1 = s\<lparr>sent := l\<rparr>"
    using assms(6) by (cases s) (auto simp: ping_client_def Let_def split: if_splits)
  let ?s2 = "s1\<lparr>mClients := map_erase a (mClients s1), mTerrestrialFixTimeoutMap := []\<rparr>"
  let ?s3 = "?s2\<lparr>mTerrestrialFixTimeoutMap := [b], network_on := True\<rparr>"
  let ?t = "stopTrackingSessionForSingleFixes
    (?s3\<lparr>network_on := False, mSingleFixReqMap := map_erase a (mSingleFixReqMap s)\<rparr>)"
  have b: "delete_begin a s1 = Some (p, True, ?s2)"
    using assms(3,4) by (simp add: delete_begin_def s1 getClient_def)
  have q: "getSingleTerrestrialPos env b ?s2 = Returns ?s3"
    using assms(5) api by (simp add: getSingleTerrestrialPos_def s1)
  have "delete_end env a p True ?s3 = cleanup env p ?t"
    using api by (simp add: delete_end_def stop_network_def s1)
  moreover have "handlers ?t p = Some c" using c by (simp add: stopTracking_fields s1)
  then obtain h where "cleanup env p ?t = Returns (?t\<lparr>handlers := (handlers ?t)(p := h)\<rparr>)"
    using cleanup_changes_handler [OF assms(2)] by blast
  moreover have "mTerrestrialFixTimeoutMap ?t = [b] \<and> \<not> network_on ?t"
    by (simp add: stopTrackingSessionForSingleFixes_def Let_def)
  ultimately show ?thesis using b q by simp
qed

definition demo_terrestrial :: service where
  "demo_terrestrial = (demo_state 1)\<lparr>mConfigReqs := [(7, demo_name, 0)], mGtpWwanSsLocationApi := True,
     mOptInTerrestrialService := 1, gnss_calls := [Ctl_setOptInStatus True],
     mTerrestrialFixTimeoutMap := [demo_name], network_on := True\<rparr>"

lemma demo_terrestrial_reach: "hald_reach (demo_env arrives) demo_terrestrial"
proof -
  let ?s = "(demo_state 1)\<lparr>mConfigReqs := [(7, demo_name, 0)], mGtpWwanSsLocationApi := True,
     mOptInTerrestrialService := 1, gnss_calls := [Ctl_setOptInStatus True]\<rparr>"
  have "configUserConsentTerrestrialPositioning (demo_env arrives) True True 7 demo_name 0 (demo_state 1) = Returns ?s"
    by (simp add: configUserConsentTerrestrialPositioning_def config_call_def addConfigRequestToMap_def gnss_call_def)
      (simp add: demo_state_def put_handler_def service_start_def)
  then have "hald_reach (demo_env arrives) ?s"
    by (rule hald_request_step [OF hald_demo_reach hald_request.intros(29)])
  moreover have "getSingleTerrestrialPos (demo_env arrives) demo_name ?s = Returns demo_terrestrial"
    by (simp add: getSingleTerrestrialPos_def demo_terrestrial_def demo_fields)
  ultimately show ?thesis by (rule hald_request_step [OF _ hald_request.intros(30)])
qed

theorem maintenance_stops_network_in_use_witness:
  "\<exists>s1 s2 s3 s4. ping_client (demo_env False) (demo_name, True) demo_terrestrial = Returns (True, s1) \<and>
    delete_begin demo_name s1 = Some (0, True, s2) \<and>
    getSingleTerrestrialPos (demo_env False) ''/s/c_b.1.3'' s2 = Returns s3 \<and> network_on s3 \<and>
    delete_end (demo_env False) demo_name 0 True s3 = Returns s4 \<and>
    mTerrestrialFixTimeoutMap s4 = [''/s/c_b.1.3''] \<and> \<not> network_on s4"
proof -
  have f: "mTerrestrialFixTimeoutMap demo_terrestrial = [demo_name]" "getClient demo_name demo_terrestrial = Some 0"
      "mOptInTerrestrialService demo_terrestrial = 1"
    by (simp_all add: demo_terrestrial_def demo_fields getClient_def)
  obtain s1 where s1: "ping_client (demo_env False) (demo_name, True) demo_terrestrial = Returns (True, s1)"
    by (simp add: ping_client_def demo_env_def demo_dirs_def demo_name_def starts_with_def)
  from maintenance_stops_network_in_use [OF demo_terrestrial_reach demo_later f s1, of "''/s/c_b.1.3''"] s1
  show ?thesis by blast
qed

text \<open>A library that is done with \<open>destroy\<close> before the call returns deletes the handler under \<open>cleanup\<close>.\<close>

lemma cleanup_writes_to_deleted:
  "handlers s p = Some c \<Longrightarrow> mLocationApi c \<Longrightarrow> destroys_at_once env c \<Longrightarrow> cleanup env p s = Faults"
  by (simp add: cleanup_def on_handler_def)

text \<open>A name with fewer than two dots gives no socket.\<close>

lemma few_dots:
  assumes "length (filter (\<lambda>c. c = CHR ''.'') name) < 2"
  shows "create name = Returns \<lparr>mId1 = -1, mId2 = -1, mNodePathnamePrefix = []\<rparr>"
proof -
  have at: "map (char_at name) [0..<Suc (length name)] = name @ [CHR 0x00]"
    by (rule nth_equalityI) (auto simp: char_at_def nth_append simp del: upt_Suc)
  have "length (filter (\<lambda>i. char_at name i = CHR ''.'') [0..<Suc (length name)])
      = length (filter (\<lambda>c. c = CHR ''.'') (map (char_at name) [0..<Suc (length name)]))"
    by (simp only: filter_map length_map comp_def)
  also have "\<dots> = length (filter (\<lambda>c. c = CHR ''.'') name)" by (simp only: at) simp
  finally have "fst (scan_back name 0 (Suc (length name))) < 2"
    using scan_back_few [of 0 name "Suc (length name)"] assms by simp
  then show ?thesis by (cases "scan_back name 0 (Suc (length name))") (auto simp: create_def getId1Id2_def)
qed

text \<open>C30: a client whose socket name is in the directory of the clients, and is accepted, but does not end in two
  numbers after dots, is registered without a socket, and the next maintenance uses that socket.\<close>

theorem malformed_name_breaks_maintenance:
  assumes "hald_reach env s" and "starts_with (SOCKET_LOC_CLIENT_DIR (dirs (env_lib env))) name"
    and "length (filter (\<lambda>c. c = CHR ''.'') name) < 2" and "name \<noteq> AUTO_START_CLIENT_NAME"
    and "SOCKET_LOC_CLIENT_DIR (dirs (env_lib env)) \<noteq> []" and "EAP_LOC_CLIENT_DIR (dirs (env_lib env)) \<noteq> []"
    and "getClient name s = None" and "all_sockets s" and "serializes env PingReq"
    and "newClient env name t made api prev final opts s = Returns s1"
  shows "isValidClientName (dirs (env_lib env)) name \<and> performMaintenance env s1 = Faults"
proof -
  let ?d = "dirs (env_lib env)"
  have none: "createSender ?d name = Returns NoSender"
    using assms(5,6) by (simp add: createSender_def few_dots [OF assms(3)] node_sender_def getNodeType_def starts_with_def sEAP_def)
  obtain c where c: "newHandler (env_lib env) name t made api prev final opts = Returns c"
    and s1: "s1 = (put_handler (next_handler s) c s)\<lparr>next_handler := Suc (next_handler s), mClients := (name, next_handler s) # mClients s\<rparr>"
    using assms(7,10) by (auto simp: newClient_def andthen_Returns Let_def)
  have sender: "\<not> mIpcSender c"
    using c by (auto simp: newHandler_def none handler_init_def client_defs Let_def andthen_Returns split: if_splits)
  have ok: "hald_ok s" using assms(1) by (rule hald_reach_ok)
  have new: "q \<noteq> next_handler s" if "(n, q) \<in> set (mClients s)" for n q
    using ok that by (fastforce simp: hald_ok_def clients_ok_def)
  have "\<exists>c. handlers s1 q = Some c \<and> mIpcSender c" if "(n, q) \<in> set (mClients s)" for n q
    using all_sockets_clients [OF ok assms(8)] new [OF that] that by (auto simp: s1 put_handler_def)
  then obtain ys where "senders_of (mClients s) s1 = Returns ys"
    using senders_of_returns [of "mClients s" s1] by blast
  then have "senders_of (mClients s1) s1 = Returns ((name, False) # ys)"
    using assms(4) sender by (simp add: s1) (simp add: put_handler_def)
  then show ?thesis using assms(2,9) by (simp add: performMaintenance_def ping_client_def isValidClientName_def)
qed

theorem malformed_name_breaks_maintenance_witness:
  "isValidClientName demo_dirs ''/s/x'' \<and>
   (\<exists>s1. newClient (demo_env True) ''/s/x'' 1 True True (\<lambda>_. 0) (\<lambda>_. False) demo_options (demo_state 1) = Returns s1
      \<and> performMaintenance (demo_env True) s1 = Faults)"
proof -
  have new: "createSender demo_dirs ''/s/x'' = Returns NoSender"
    by (simp add: createSender_def few_dots node_sender_def getNodeType_def starts_with_def demo_dirs_def sEAP_def)
  have "getClient ''/s/x'' (demo_state 1) = None" by (simp add: getClient_def demo_fields demo_name_def)
  then obtain s1 where "newClient (demo_env True) ''/s/x'' 1 True True (\<lambda>_. 0) (\<lambda>_. False) demo_options (demo_state 1) = Returns s1"
    using new by (simp add: newClient_def newHandler_def demo_env_def Let_def)
      (simp add: demo_dirs_def starts_with_def sEAP_def)
  then show ?thesis
    using malformed_name_breaks_maintenance [OF hald_demo_reach, of True "''/s/x''" 1 1 True True "\<lambda>_. 0" "\<lambda>_. False" demo_options s1]
    by (simp add: demo_env_def demo_dirs_def starts_with_def AUTO_START_CLIENT_NAME_def getClient_def demo_fields
        demo_name_def all_sockets_def)
qed

section \<open>Answers\<close>

text \<open>C11: a request for a single position that is not served before is answered when its timer goes off: the client
  is sent the last position with the time-out error, the request is gone, and with the last request the
  session ends.\<close>

theorem single_request_answered:
  assumes "hald_reach env s" and "name \<in> fst ` set (mSingleFixReqMap s)" and "getClient name s = Some p"
    and "handlers s p = Some c" and "mIpcSender c" and "\<forall>m. serializes env m"
  shows "\<exists>s' ok. singleFixRequestTimeout env name s = Returns s' \<and>
    sent s' = sent s @ [(name, SinglePosResp (hal_value (env_lib env) ''LOCATION_ERROR_TIMEOUT'') (mSingleFixLastLocation s), ok)] \<and>
    name \<notin> fst ` set (mSingleFixReqMap s') \<and> (mSingleFixReqMap s' = [] \<longrightarrow> mSingleFixTrackingSessionId s' = 0)"
proof -
  have ok: "hald_ok s" using assms(1) by (rule hald_reach_ok)
  have "mName c = name" using hald_ok_live [OF ok assms(3)] assms(4) by (metis option.inject)
  then have "with_client name (sendSingleFusedFix env e loc) s
      = Returns (s\<lparr>sent := sent s @ [(name, SinglePosResp e loc, reaches env (sent s) name)]\<rparr>)" for e loc
    using assms(3-6) by (simp add: with_client_def sendSingleFusedFix_def send_only_def on_handler_def sendMessage_def Let_def)
  moreover have "mSingleFixTrackingSessionId s \<noteq> 0 \<Longrightarrow> mSingleFixLocationApi s"
    using ok by (simp add: hald_ok_def fixes_ok_def)
  ultimately show ?thesis using assms(2)
    by (auto simp: singleFixRequestTimeout_def stopTrackingSessionForSingleFixes_def map_erase_def Let_def)
qed

definition demo_single :: service where
  "demo_single = (demo_state 1)\<lparr>mSingleFixLocationApi := True, mSingleFixReqMap := [(demo_name, 9)], mSingleFixTrackingSessionId := 5\<rparr>"

lemma demo_single_reach: "hald_reach (demo_env arrives) demo_single"
proof -
  have "getSinglePos True 5 demo_name 9 1 (demo_state 1) = Returns demo_single"
    by (simp add: getSinglePos_def demo_single_def demo_fields map_erase_def)
  then show ?thesis by (rule hald_request_step [OF hald_demo_reach hald_request.intros(32)])
qed

theorem single_request_answered_witness:
  "\<exists>s'. singleFixRequestTimeout (demo_env True) demo_name demo_single = Returns s' \<and> length (sent s') = 1"
  using single_request_answered [OF demo_single_reach [of True], of demo_name 0 "demo_handler 1"]
  by (auto simp: demo_single_def demo_fields getClient_def demo_env_def)

text \<open>C31: an update of the tracking options is queued as a request that waits for an answer even where no session runs
  and the library is not called. The answer of the library to the next request, to start tracking, is then
  sent as the answer to the update.\<close>

theorem pending_answer_misattributed:
  assumes "hald_reach env s" and "getClient name s = Some p" and "handlers s p = Some c" and "mIpcSender c" and "mLocationApi c"
    and "mSessionId c = 0" and "mPendingMessages c = []" and "\<forall>m. serializes env m" and "\<forall>l n. reaches env l n"
  shows "\<exists>s'. andthen (service_updateTrackingOptions env name opts s) (\<lambda>s1.
      andthen (service_startTracking env name opts' new_id s1) (onResponseCb env p err)) = Returns s' \<and>
    sent s' = sent s @ [(name, GenericResp E_LOCAPI_UPDATE_TRACKING_OPTIONS_MSG_ID err, True)] \<and>
    (\<exists>c' o'. handlers s' p = Some c' \<and> api_calls c' = api_calls c @ [Api_startTracking o'] \<and>
       mPendingMessages c' = [E_LOCAPI_START_TRACKING_MSG_ID])"
proof -
  have name: "mName c = name" using hald_ok_live [OF hald_reach_ok [OF assms(1)] assms(2)] assms(3) by (metis option.inject)
  have "E_LOCAPI_UPDATE_TRACKING_OPTIONS_MSG_ID \<in> set pending_ids" by (simp add: pending_ids_def)
  then show ?thesis using assms(2-9) name
    by (simp add: service_updateTrackingOptions_def service_startTracking_def onResponseCb_def with_client_def upd_handler_def
        on_handler_def put_handler_def getClient_def updateTrackingOptions_def startTracking_def push_pending_def call_api_def
        send_or_purge_def sendMessage_def Let_def)
qed

theorem pending_answer_misattributed_witness:
  "\<exists>s'. andthen (service_updateTrackingOptions (demo_env True) demo_name demo_options (demo_state 1)) (\<lambda>s1.
      andthen (service_startTracking (demo_env True) demo_name demo_options 4 s1) (onResponseCb (demo_env True) 0 0)) = Returns s' \<and>
    sent s' = [(demo_name, GenericResp E_LOCAPI_UPDATE_TRACKING_OPTIONS_MSG_ID 0, True)]"
  using pending_answer_misattributed [OF hald_demo_reach [of True 1] demo_fields(3) demo_fields(1), of demo_options demo_options 4 0]
  by (auto simp: demo_fields LOCATION_CLIENT_API_def demo_env_def)

end
