(* ===== verification/HalClientProps.thy ===== *)
theory HalClientProps
  imports HalClient
begin

text \<open>
  Properties of a client of the location HAL daemon: the intervals it may ask for, the reports it is
  spared, the identifiers of its geofences, and its subscription once its session was stopped.
\<close>

section \<open>Intervals\<close>

definition tbf_nat :: "nat \<Rightarrow> nat" where
  "tbf_nat t =
     (if t < 200 then 100 else if t < 500 then 200 else if t < 1000 then 500
      else if t > 4294966296 then 4294967000 else (t + 999) div 1000 * 1000)"

lemma unat_getSupportedTbf: "unat (getSupportedTbf t) = tbf_nat (unat t)"
proof -
  have max: "(4294967295 :: 32 word) div 1000 * 1000 = 4294967000" by simp
  have less: "t < n \<longleftrightarrow> unat t < unat n" for n :: "32 word" by (rule word_less_nat_alt)
  show ?thesis
  proof (cases "unat t > 4294966296 \<or> unat t < 1000")
    case True
    then show ?thesis by (auto simp: getSupportedTbf_def tbf_nat_def max word_less_nat_alt)
  next
    case False
    then have small: "unat t + 999 < 2 ^ 32" and t: "1000 \<le> unat t" "unat t \<le> 4294966296" by simp_all
    have sum: "unat (t + 999) = unat t + 999"
      using small by (simp add: unat_word_ariths)
    have "unat ((t + 999) div 1000 * 1000) = ((unat t + 999) div 1000 * 1000) mod 2 ^ 32"
      by (simp only: unat_word_ariths(2) unat_div sum) (simp add: sum)
    also have "\<dots> = (unat t + 999) div 1000 * 1000"
    proof (rule mod_less)
      have "(unat t + 999) div 1000 * 1000 \<le> unat t + 999" by simp
      then show "(unat t + 999) div 1000 * 1000 < 2 ^ 32" using small by simp
    qed
    finally show ?thesis
      using t by (simp add: getSupportedTbf_def tbf_nat_def word_less_nat_alt)
  qed
qed

text \<open>The interval a client gets is one the engine supports, a tenth, a fifth or half of a second or whole seconds;
  asking for what one got changes nothing; from a second on one never gets more reports than one asked for,
  except in the last second below the largest interval, and waits less than a second longer.\<close>

theorem supported_tbf:
  "(unat (getSupportedTbf t) \<in> {100, 200, 500} \<or> 1000 dvd unat (getSupportedTbf t) \<and> unat (getSupportedTbf t) \<noteq> 0) \<and>
   getSupportedTbf (getSupportedTbf t) = getSupportedTbf t \<and>
   (1000 \<le> unat t \<longrightarrow> unat t \<le> 4294967000 \<longrightarrow>
      unat t \<le> unat (getSupportedTbf t) \<and> unat (getSupportedTbf t) < unat t + 1000)"
proof -
  have bound: "n \<le> (n + 999) div 1000 * 1000 \<and> (n + 999) div 1000 * 1000 < n + 1000" for n :: nat
  proof -
    have "n + 999 = (n + 999) div 1000 * 1000 + (n + 999) mod 1000" by (rule div_mult_mod_eq [symmetric])
    moreover have "(n + 999) mod 1000 < 1000" by simp
    ultimately show ?thesis by linarith
  qed
  have "tbf_nat (tbf_nat n) = tbf_nat n" for n
  proof (cases "1000 \<le> n \<and> n \<le> 4294966296")
    case True
    define q where "q = (n + 999) div 1000"
    have q: "tbf_nat n = q * 1000" "1 \<le> q" "q \<le> 4294967" using True by (auto simp: tbf_nat_def q_def)
    have "(q * 1000 + 999) div 1000 = q" by simp
    then have "tbf_nat (q * 1000) = q * 1000"
      using q(2,3) by (auto simp: tbf_nat_def)
    then show ?thesis by (simp add: q(1))
  qed (auto simp: tbf_nat_def)
  then have "getSupportedTbf (getSupportedTbf t) = getSupportedTbf t"
    by (metis unat_getSupportedTbf word_unat_eq_iff)
  moreover have "tbf_nat (unat t) \<in> {100, 200, 500} \<or> 1000 dvd tbf_nat (unat t) \<and> tbf_nat (unat t) \<noteq> 0"
    by (auto simp: tbf_nat_def)
  moreover have "unat t \<le> tbf_nat (unat t) \<and> tbf_nat (unat t) < unat t + 1000"
    if "1000 \<le> unat t" "unat t \<le> 4294967000"
    using that bound [of "unat t"] by (simp add: tbf_nat_def)
  ultimately show ?thesis by (simp add: unat_getSupportedTbf)
qed

theorem supported_tbf_witness:
  "unat (getSupportedTbf 1001) = 2000 \<and> 1001 \<le> unat (getSupportedTbf 1001)"
  using supported_tbf [of 1001] by (simp add: unat_getSupportedTbf tbf_nat_def)

section \<open>Reports\<close>

lemma unat_ucast_word: "unat (ucast (w :: 32 word) :: 64 word) = unat w"
proof -
  have "unat w < 2 ^ LENGTH(64)" using unsigned_less [where ?'a = nat, of w] by simp
  then show ?thesis by (simp add: unsigned_ucast_eq take_bit_nat_eq_self)
qed

lemma filter_by_time_cases:
  assumes "filter_by_time e now c = (held, c')"
  shows "if held
    then c' = c \<and> mPrevPosReportSentBootTimeMsec c e \<noteq> 0 \<and> mPrevPosReportSentBootTimeMsec c e \<le> now \<and>
      now - mPrevPosReportSentBootTimeMsec c e < ucast (minInterval (mOptions c) - POSITION_REPORT_GAURD_BAND)
    else mPrevPosReportSentBootTimeMsec c' e = now"
  using assms by (auto simp: filter_by_time_def sent_now_def Let_def split: if_splits)

text \<open>C32: a report is held back only if another one was sent less than the interval of the client, less the guard
  band, before; holding it back does not move that time, and each report that is sent does. So reports that
  come do not starve a client: one that comes an interval after the last is sent.\<close>

theorem held_report_is_early:
  assumes "30 \<le> minInterval (mOptions c)" and "engType < hal ''LOC_OUTPUT_ENGINE_COUNT''"
    and "filterPositionReport hal now r engType c = (held, c')"
  shows "if held
    then mPrevPosReportSentBootTimeMsec c engType \<noteq> 0 \<and> mPrevPosReportSentBootTimeMsec c engType \<le> now \<and>
      unat (now - mPrevPosReportSentBootTimeMsec c engType) < unat (minInterval (mOptions c)) - 30 \<and>
      mPrevPosReportSentBootTimeMsec c' = mPrevPosReportSentBootTimeMsec c
    else mPrevPosReportSentBootTimeMsec c' engType = now"
proof -
  have "minInterval (mOptions c) \<noteq> 0" using assms(1) by auto
  have sub: "unat (minInterval (mOptions c) - 30) = unat (minInterval (mOptions c)) - 30"
    using assms(1) by (simp add: unat_sub)
  have "unat (ucast (minInterval (mOptions c) - 30 :: 32 word) :: 64 word) = unat (minInterval (mOptions c) - 30)"
    by (rule unat_ucast_word)
  then have bound: "x < ucast (minInterval (mOptions c) - POSITION_REPORT_GAURD_BAND) \<Longrightarrow> unat x < unat (minInterval (mOptions c)) - 30"
    for x :: "64 word"
    using sub by (simp add: word_less_nat_alt POSITION_REPORT_GAURD_BAND_def)
  show ?thesis
    using assms(2,3) \<open>minInterval (mOptions c) \<noteq> 0\<close> bound
    by (auto simp: filterPositionReport_def Let_def set_final_def sent_now_def split: if_splits dest!: filter_by_time_cases)
qed

definition demo_client :: client where
  "demo_client = handler_init \<lparr>hal_value = (\<lambda>_. 8), setLocationOptions = (\<lambda>a b. b), newTrackingOptions = (\<lambda>x. x),
       dirs = \<lparr>SOCKET_LOC_CLIENT_DIR = ''s'', EAP_LOC_CLIENT_DIR = ''e'', LOC_CLIENT_NAME_PREFIX = ''c'', LOC_INTAPI_NAME_PREFIX = ''i''\<rparr>\<rparr>
     ''s'' LOCATION_CLIENT_API True (-1, -1) True (\<lambda>_. 5000) (\<lambda>_. True)
     \<lparr>minInterval = 1000, minDistance = 0, opt_mode = 0, locReqEngTypeMask = 0, qualityLevelAccepted = 0\<rparr>"

definition demo_report :: report where
  "demo_report = \<lparr>location = \<lparr>loc_flags = 0, loc_timestamp = 0, loc_accuracy = 0, sessionStatus = 8\<rparr>,
     locOutputEngType = 1, hasAccurateGpsTime = False, systemMsec = 0\<rparr>"

lemma demo_client_fields:
  "minInterval (mOptions demo_client) = 1000" "mPrevPosReportSentBootTimeMsec demo_client = (\<lambda>_. 5000)"
  "mFirstFixalFixReceived demo_client = (\<lambda>_. True)"
  by (simp_all add: demo_client_def handler_init_def updateSubscription_def call_api_def Let_def)

lemma demo_held: "filterPositionReport (\<lambda>_. 8) 5969 demo_report 1 demo_client = (True, demo_client)"
  by (simp add: filterPositionReport_def demo_client_fields demo_report_def filter_by_time_def POSITION_REPORT_GAURD_BAND_def
      set_final_def)

theorem held_report_is_early_witness:
  "filterPositionReport (\<lambda>_. 8) 5969 demo_report 1 demo_client = (True, demo_client) \<and>
   unat (5969 - mPrevPosReportSentBootTimeMsec demo_client 1) < 970"
  using held_report_is_early [OF _ _ demo_held] demo_held by (simp add: demo_client_fields)

section \<open>Geofences\<close>

lemma map_of_map_put [simp]: "map_of (map_put k v m) = (map_of m)(k \<mapsto> v)"
  by (induction k v m rule: map_put.induct) auto

lemma keys_map_put: "fst ` set (map_put k v m) = insert k (fst ` set m)"
  by (induction k v m rule: map_put.induct) auto

lemma distinct_map_put: "distinct (map fst m) \<Longrightarrow> distinct (map fst (map_put k v m))"
  by (induction k v m rule: map_put.induct) (auto simp: keys_map_put simp flip: image_set)

definition put_ids :: "(32 word \<times> 32 word) list \<Rightarrow> (32 word \<times> 32 word) list \<Rightarrow> (32 word \<times> 32 word) list" where
  "put_ids ps m = fold (\<lambda>(k, v). map_put k v) ps m"

lemma put_ids:
  assumes "distinct (map fst m)"
  shows "distinct (map fst (put_ids ps m)) \<and> map_of (put_ids ps m) = map_of m ++ map_of (rev ps)"
  using assms
proof (induction ps arbitrary: m)
  case (Cons p ps)
  obtain k v where p: "p = (k, v)" by fastforce
  have "map_of (put_ids (p # ps) m) = (map_of m)(k \<mapsto> v) ++ map_of (rev ps)"
    using Cons.IH [OF distinct_map_put [OF Cons.prems]] by (simp only: put_ids_def p fold_simps map_of_map_put prod.case comp_def)
  also have "\<dots> = map_of m ++ map_of (rev (p # ps))"
    by (simp add: p map_add_def fun_eq_iff split: option.split)
  finally show ?case
    using Cons.IH [OF distinct_map_put [OF Cons.prems]] by (simp add: put_ids_def p)
qed (simp add: put_ids_def)

text \<open>A session that one entry holds is found.\<close>

lemma client_id_fold:
  assumes "\<forall>(k', v) \<in> set m. v = s \<longrightarrow> k' = k"
  shows "fold (\<lambda>(k, v) r. if v = s then k else r) m r = (if (k, s) \<in> set m then k else r)"
  using assms
proof (induction m arbitrary: r)
  case (Cons x m)
  obtain k' v where x: "x = (k', v)" by fastforce
  then have k': "v = s \<Longrightarrow> k' = k" and rest: "\<forall>(k', v) \<in> set m. v = s \<longrightarrow> k' = k" using Cons.prems by auto
  show ?case
    by (cases "v = s") (simp_all add: x k' Cons.IH [OF rest])
qed simp

lemma client_id_of:
  assumes "map_of m k = Some s" and "\<And>k'. map_of m k' = Some s \<Longrightarrow> k' = k" and "distinct (map fst m)"
  shows "client_id_of m s = k"
proof -
  have "\<forall>(k', v) \<in> set m. v = s \<longrightarrow> k' = k" using assms(2,3) by auto
  then show ?thesis using assms(1) by (simp add: client_id_of_def client_id_fold map_of_SomeD)
qed

lemma lookup_ids_found:
  "list_all2 (\<lambda>k v. map_of m k = Some v) ks vs \<Longrightarrow> lookup_ids ks m = (vs, m)"
proof (induction ks arbitrary: vs)
  case (Cons k ks)
  then show ?case by (cases vs) auto
qed simp

text \<open>The identifiers a client gave its geofences and the sessions the library gave them are found from each other,
  in order, once they were entered: so a breach is reported, and a change asked for, under the right
  identifier. The sessions must not be in use already.\<close>

theorem geofence_ids_round_trip:
  assumes "distinct clientIds" and "distinct sessions" and "length sessions = length clientIds" and "clientIds \<noteq> []"
    and "distinct (map fst (mGfIdsMap c))" and "snd ` set (mGfIdsMap c) \<inter> set sessions = {}"
  shows "getClientIds True sessions (setGeofenceIds clientIds sessions c) = Some clientIds \<and>
    getSessionIds True clientIds (setGeofenceIds clientIds sessions c) = (Some sessions, setGeofenceIds clientIds sessions c)"
proof -
  let ?ps = "zip clientIds sessions" and ?m = "mGfIdsMap (setGeofenceIds clientIds sessions c)"
  have m: "?m = put_ids ?ps (mGfIdsMap c)" by (simp add: setGeofenceIds_def put_ids_def)
  have "map_of (rev ?ps) = map_of ?ps"
    using assms(1,3) by (subst map_of_inject_set) (simp_all flip: rev_map)
  then have dist: "distinct (map fst ?m)" and look: "map_of ?m = map_of (mGfIdsMap c) ++ map_of ?ps"
    using put_ids [OF assms(5), of ?ps] by (simp_all add: m)
  have at: "map_of ?m (clientIds ! i) = Some (sessions ! i)" if "i < length clientIds" for i
    using assms(1,3) that by (simp add: look map_add_def map_of_zip_nth)
  have only: "k' = clientIds ! i" if "i < length clientIds" "map_of ?m k' = Some (sessions ! i)" for i k'
  proof (cases "map_of ?ps k'")
    case None
    then have "map_of (mGfIdsMap c) k' = Some (sessions ! i)" using that(2) by (simp add: look map_add_def)
    then have "sessions ! i \<in> snd ` set (mGfIdsMap c)" using map_of_SomeD by force
    moreover have "sessions ! i \<in> set sessions" using assms(3) that(1) by simp
    ultimately show ?thesis using assms(6) by blast
  next
    case (Some v)
    then have "(k', sessions ! i) \<in> set ?ps" using that(2) by (simp add: look map_add_def map_of_SomeD)
    then obtain j where "j < length clientIds" "k' = clientIds ! j" "sessions ! i = sessions ! j"
      using assms(3) by (auto simp: set_zip)
    then show ?thesis using assms(2,3) that(1) by (simp add: nth_eq_iff_index_eq)
  qed
  have "map (client_id_of ?m) sessions = clientIds"
    using assms(3) client_id_of [OF at only dist] by (intro nth_equalityI) simp_all
  moreover have "lookup_ids clientIds ?m = (sessions, ?m)"
    using at assms(3) by (intro lookup_ids_found) (simp add: list_all2_conv_all_nth)
  ultimately show ?thesis using assms(3,4)
    by (auto simp: getClientIds_def getSessionIds_def)
qed

theorem geofence_ids_round_trip_witness:
  "getClientIds True [70, 80] (setGeofenceIds [7, 8] [70, 80] demo_client) = Some [7, 8]"
  using geofence_ids_round_trip [of "[7, 8]" "[70, 80]" demo_client]
  by (simp add: demo_client_def handler_init_def updateSubscription_def call_api_def Let_def)

section \<open>Subscriptions\<close>

definition session_bits :: "int list" where
  "session_bits = [E_LOC_CB_TRACKING_BIT, E_LOC_CB_GNSS_LOCATION_INFO_BIT, E_LOC_CB_GNSS_SV_BIT, E_LOC_CB_GNSS_NMEA_BIT,
     E_LOC_CB_GNSS_DATA_BIT, E_LOC_CB_GNSS_MEAS_BIT, E_LOC_CB_GNSS_NHZ_MEAS_BIT, E_LOC_CB_ENGINE_LOCATIONS_INFO_BIT,
     E_LOC_CB_SIMPLE_LOCATION_INFO_BIT, E_LOC_CB_GNSS_DC_REPORT_BIT, E_LOC_CB_ENGINE_NMEA_BIT, E_LOC_CB_GNSS_EPH_BIT]"

definition other_bits :: "int list" where
  "other_bits = [E_LOC_CB_BATCHING_BIT, E_LOC_CB_GEOFENCE_BREACH_BIT, E_LOC_CB_SYSTEM_INFO_BIT, E_LOC_CB_BATCHING_STATUS_BIT]"

lemma LOCATION_SESSON_ALL_INFO_MASK_value: "LOCATION_SESSON_ALL_INFO_MASK = 114207"
  by (simp add: LOCATION_SESSON_ALL_INFO_MASK_def E_LOC_CB_TRACKING_BIT_def E_LOC_CB_GNSS_LOCATION_INFO_BIT_def
      E_LOC_CB_GNSS_SV_BIT_def E_LOC_CB_GNSS_NMEA_BIT_def E_LOC_CB_GNSS_DATA_BIT_def E_LOC_CB_GNSS_MEAS_BIT_def
      E_LOC_CB_GNSS_NHZ_MEAS_BIT_def E_LOC_CB_ENGINE_LOCATIONS_INFO_BIT_def E_LOC_CB_SIMPLE_LOCATION_INFO_BIT_def
      E_LOC_CB_GNSS_DC_REPORT_BIT_def E_LOC_CB_ENGINE_NMEA_BIT_def E_LOC_CB_GNSS_EPH_BIT_def)

lemma has_flag_cleared: "NOT a AND word_of_int b = 0 \<Longrightarrow> \<not> has_flag (m AND NOT a) b"
  by (simp add: has_flag_def and.assoc)

lemma has_flag_kept: "NOT a AND word_of_int b = word_of_int b \<Longrightarrow> has_flag (m AND NOT a) b = has_flag m b"
  by (simp add: has_flag_def and.assoc)

text \<open>A client whose session was stopped and its callbacks with it is no longer subscribed to anything of a
  session, and still to its batches, geofences and system information.\<close>

theorem session_unsubscribed:
  "list_all (\<lambda>b. \<not> has_flag (mSubscriptionMask (unsubscribeLocationSessionCb c)) b) session_bits \<and>
   list_all (\<lambda>b. has_flag (mSubscriptionMask (unsubscribeLocationSessionCb c)) b = has_flag (mSubscriptionMask c) b) other_bits"
proof -
  have m: "mSubscriptionMask (unsubscribeLocationSessionCb c) = mSubscriptionMask c AND NOT 114207"
    by (simp add: unsubscribeLocationSessionCb_def updateSubscription_def call_api_def Let_def LOCATION_SESSON_ALL_INFO_MASK_value)
  have "list_all (\<lambda>b. NOT (114207 :: 32 word) AND word_of_int b = 0) session_bits"
    by (simp add: session_bits_def E_LOC_CB_TRACKING_BIT_def E_LOC_CB_GNSS_LOCATION_INFO_BIT_def
      E_LOC_CB_GNSS_SV_BIT_def E_LOC_CB_GNSS_NMEA_BIT_def E_LOC_CB_GNSS_DATA_BIT_def E_LOC_CB_GNSS_MEAS_BIT_def
      E_LOC_CB_GNSS_NHZ_MEAS_BIT_def E_LOC_CB_ENGINE_LOCATIONS_INFO_BIT_def E_LOC_CB_SIMPLE_LOCATION_INFO_BIT_def
      E_LOC_CB_GNSS_DC_REPORT_BIT_def E_LOC_CB_ENGINE_NMEA_BIT_def E_LOC_CB_GNSS_EPH_BIT_def)
  moreover have "list_all (\<lambda>b. NOT (114207 :: 32 word) AND word_of_int b = word_of_int b) other_bits"
    by (simp add: other_bits_def E_LOC_CB_BATCHING_BIT_def E_LOC_CB_GEOFENCE_BREACH_BIT_def E_LOC_CB_SYSTEM_INFO_BIT_def
        E_LOC_CB_BATCHING_STATUS_BIT_def)
  ultimately show ?thesis
    unfolding m list_all_iff using has_flag_cleared has_flag_kept by blast
qed

end
