(* ===== verification/PbStruct.thy ===== *)
theory PbStruct
  imports "HOL-Library.Word"
begin

unbundle bit_operations_syntax

text \<open>
  Structures and messages, and the shape of the conversions of structures in
  \<open>location_api_msg_proto/src/LocationApiPbMsgConv.cpp\<close>. A structure of the HAL or a message of the
  protocol buffers is a function from the names of its members to their values; a message that was
  just created, and a member that nothing was assigned to, are \<open>Unset\<close>, which reads as zero, as the
  empty string, as no element and as an empty message. Floating point members travel unchanged: the
  model holds their bits. A conversion is a list of assignments, each of which computes the new value
  of one member from the source and from the destination. \<open>None\<close> is an access outside of an array or
  of a repeated field.
\<close>

section \<open>Values\<close>

datatype cval = Unset | Num int | Str string | Seq "cval list" | Obj "string \<Rightarrow> cval"

type_synonym struct = "string \<Rightarrow> cval"

definition fresh :: struct where
  "fresh = (\<lambda>_. Unset)"

fun num :: "cval \<Rightarrow> int" where
  "num (Num i) = i"
| "num _ = 0"

fun str :: "cval \<Rightarrow> string" where
  "str (Str t) = t"
| "str _ = []"

fun elements :: "cval \<Rightarrow> cval list" where
  "elements (Seq vs) = vs"
| "elements _ = []"

fun obj :: "cval \<Rightarrow> struct" where
  "obj (Obj x) = x"
| "obj _ = fresh"

text \<open>The scalar types of protocol buffers, and what a field of each holds after it was set.\<close>

datatype pb_kind = UInt32 | Int32 | UInt64 | Int64 | Boolean | Float | Double | Enum

fun fit :: "pb_kind \<Rightarrow> int \<Rightarrow> int" where
  "fit UInt32 i = uint (word_of_int i :: 32 word)"
| "fit Int32 i = sint (word_of_int i :: 32 word)"
| "fit UInt64 i = uint (word_of_int i :: 64 word)"
| "fit Int64 i = sint (word_of_int i :: 64 word)"
| "fit Boolean i = (if i = 0 then 0 else 1)"
| "fit Float i = i"
| "fit Double i = i"
| "fit Enum i = i"

section \<open>Assignments\<close>

type_synonym assignment = "string \<times> (struct \<Rightarrow> struct \<Rightarrow> cval option)"

fun assign :: "assignment list \<Rightarrow> struct \<Rightarrow> struct \<Rightarrow> struct option" where
  "assign [] s d = Some d"
| "assign ((n, r) # rows) s d = (case r s d of None \<Rightarrow> None | Some v \<Rightarrow> assign rows s (d(n := v)))"

subsection \<open>Towards a message\<close>

definition put :: "pb_kind \<Rightarrow> string \<Rightarrow> struct \<Rightarrow> struct \<Rightarrow> cval option" where
  "put k m s d = Some (Num (fit k (num (s m))))"

definition put_enum :: "(int \<Rightarrow> int) \<Rightarrow> string \<Rightarrow> struct \<Rightarrow> struct \<Rightarrow> cval option" where
  "put_enum conv m s d = Some (Num (conv (num (s m))))"

definition put_mask :: "('a::len word \<Rightarrow> 'b::len word) \<Rightarrow> string \<Rightarrow> struct \<Rightarrow> struct \<Rightarrow> cval option" where
  "put_mask conv m s d = Some (Num (uint (conv (word_of_int (num (s m))))))"

text \<open>A \<open>std::string\<close>, and an array of characters up to its first zero.\<close>

definition put_text :: "string \<Rightarrow> struct \<Rightarrow> struct \<Rightarrow> cval option" where
  "put_text m s d = Some (Str (str (s m)))"

definition c_string :: "string \<Rightarrow> string" where
  "c_string = takeWhile (\<lambda>c. c \<noteq> CHR 0x00)"

definition put_chars :: "string \<Rightarrow> struct \<Rightarrow> struct \<Rightarrow> cval option" where
  "put_chars m s d = Some (Str (c_string (str (s m))))"

text \<open>A member of a member: \<open>s.m.n\<close> on the right, or \<open>d.n.m = \<dots>\<close> on the left.\<close>

definition of_member :: "string \<Rightarrow> (struct \<Rightarrow> struct \<Rightarrow> cval option) \<Rightarrow> struct \<Rightarrow> struct \<Rightarrow> cval option" where
  "of_member m r s d = r (obj (s m)) d"

definition in_member :: "string \<Rightarrow> assignment list \<Rightarrow> struct \<Rightarrow> struct \<Rightarrow> cval option" where
  "in_member m rows s d = map_option Obj (assign rows s (obj (d m)))"

text \<open>An assignment from another structure, and assignments that are made under a condition.\<close>

definition taken_from :: "struct \<Rightarrow> (struct \<Rightarrow> struct \<Rightarrow> cval option) \<Rightarrow> struct \<Rightarrow> struct \<Rightarrow> cval option" where
  "taken_from b r s d = r b d"

definition when_set :: "string \<Rightarrow> string \<Rightarrow> (struct \<Rightarrow> struct \<Rightarrow> cval option) \<Rightarrow> struct \<Rightarrow> struct \<Rightarrow> cval option" where
  "when_set c n r s d = (if num (s c) \<noteq> 0 then r s d else Some (d n))"

definition flag_set :: "int \<Rightarrow> cval \<Rightarrow> bool" where
  "flag_set b v \<longleftrightarrow> (word_of_int b AND word_of_int (num v) :: 64 word) \<noteq> 0"

definition when_flag :: "int \<Rightarrow> string \<Rightarrow> string \<Rightarrow> (struct \<Rightarrow> struct \<Rightarrow> cval option) \<Rightarrow> struct \<Rightarrow> struct \<Rightarrow> cval option" where
  "when_flag b c n r s d = (if flag_set b (s c) then r s d else Some (d n))"

text \<open>A union, of which one member is in use at a time.\<close>

definition select_one :: "string \<Rightarrow> (struct \<Rightarrow> struct \<Rightarrow> cval option) \<Rightarrow> struct \<Rightarrow> struct \<Rightarrow> struct option" where
  "select_one n r s d = assign [(n, r)] s (\<lambda>m. if m = n then d m else Unset)"

text \<open>\<open>mutable_f()\<close> and the conversion of a member into it.\<close>

definition sub :: "string \<Rightarrow> (struct \<Rightarrow> struct \<Rightarrow> struct option) \<Rightarrow> string \<Rightarrow> struct \<Rightarrow> struct \<Rightarrow> cval option" where
  "sub f conv m s d = map_option Obj (conv (obj (s m)) (obj (d f)))"

text \<open>The elements of a vector, and the first elements of an array: the array is the list of the elements
  that have been written, and reading another one is an error.\<close>

definition vector :: "string \<Rightarrow> struct \<Rightarrow> cval list option" where
  "vector m s = Some (elements (s m))"

definition first_elements :: "(struct \<Rightarrow> int) \<Rightarrow> string \<Rightarrow> struct \<Rightarrow> cval list option" where
  "first_elements n m s =
     (if nat (n s) \<le> length (elements (s m)) then Some (take (nat (n s)) (elements (s m))) else None)"

fun all_some :: "'a option list \<Rightarrow> 'a list option" where
  "all_some [] = Some []"
| "all_some (None # xs) = None"
| "all_some (Some x # xs) = map_option ((#) x) (all_some xs)"

text \<open>The first bytes of an array of bytes.\<close>

definition put_bytes :: "(struct \<Rightarrow> int) \<Rightarrow> string \<Rightarrow> struct \<Rightarrow> struct \<Rightarrow> cval option" where
  "put_bytes n m s d = (if nat (n s) \<le> length (str (s m)) then Some (Str (take (nat (n s)) (str (s m)))) else None)"

text \<open>\<open>add_f\<close> for each of the elements.\<close>

definition add :: "string \<Rightarrow> (cval \<Rightarrow> cval option) \<Rightarrow> (struct \<Rightarrow> cval list option) \<Rightarrow> struct \<Rightarrow> struct \<Rightarrow> cval option" where
  "add f conv xs s d =
     (case xs s of None \<Rightarrow> None
      | Some vs \<Rightarrow> map_option (\<lambda>ws. Seq (elements (d f) @ ws)) (all_some (map conv vs)))"

definition number :: "pb_kind \<Rightarrow> cval \<Rightarrow> cval option" where
  "number k v = Some (Num (fit k (num v)))"

definition chars :: "cval \<Rightarrow> cval option" where
  "chars v = Some (Str (c_string (str v)))"

definition message :: "(struct \<Rightarrow> struct \<Rightarrow> struct option) \<Rightarrow> cval \<Rightarrow> cval option" where
  "message conv v = map_option Obj (conv (obj v) fresh)"

subsection \<open>Back to a structure\<close>

text \<open>An assigned number is converted to the type of the member, \<open>c\<close>.\<close>

definition get :: "(int \<Rightarrow> int) \<Rightarrow> string \<Rightarrow> struct \<Rightarrow> struct \<Rightarrow> cval option" where
  "get c f s d = Some (Num (c (num (s f))))"

definition get_enum :: "(int \<Rightarrow> int) \<Rightarrow> string \<Rightarrow> struct \<Rightarrow> struct \<Rightarrow> cval option" where
  "get_enum conv f s d = Some (Num (conv (num (s f))))"

definition get_mask :: "('a::len word \<Rightarrow> 'b::len word) \<Rightarrow> string \<Rightarrow> struct \<Rightarrow> struct \<Rightarrow> cval option" where
  "get_mask conv f s d = Some (Num (uint (conv (word_of_int (num (s f))))))"

definition set_to :: "int \<Rightarrow> struct \<Rightarrow> struct \<Rightarrow> cval option" where
  "set_to v s d = Some (Num v)"

text \<open>A text into a \<open>std::string\<close>, and one into an array of \<open>cap\<close> characters by \<open>strlcpy\<close>.\<close>

definition get_text :: "string \<Rightarrow> struct \<Rightarrow> struct \<Rightarrow> cval option" where
  "get_text f s d = Some (Str (str (s f)))"

definition bounded_text :: "int \<Rightarrow> string \<Rightarrow> string" where
  "bounded_text cap t = take (nat (cap - 1)) (c_string t)"

definition get_chars :: "int \<Rightarrow> string \<Rightarrow> struct \<Rightarrow> struct \<Rightarrow> cval option" where
  "get_chars cap f s d = Some (Str (bounded_text cap (str (s f))))"

text \<open>The conversion of a message into a member of the structure, in place.\<close>

definition into :: "string \<Rightarrow> (struct \<Rightarrow> struct \<Rightarrow> struct option) \<Rightarrow> string \<Rightarrow> struct \<Rightarrow> struct \<Rightarrow> cval option" where
  "into m conv f s d = map_option Obj (conv (obj (s f)) (obj (d m)))"

text \<open>The same on a copy of the member, which is dropped.\<close>

definition by_value :: "string \<Rightarrow> (struct \<Rightarrow> struct \<Rightarrow> struct option) \<Rightarrow> string \<Rightarrow> struct \<Rightarrow> struct \<Rightarrow> cval option" where
  "by_value m conv f s d = map_option (\<lambda>_. d m) (conv (obj (s f)) (obj (d m)))"

definition when_flag_set :: "int \<Rightarrow> string \<Rightarrow> string \<Rightarrow> (struct \<Rightarrow> struct \<Rightarrow> cval option) \<Rightarrow> struct \<Rightarrow> struct \<Rightarrow> cval option" where
  "when_flag_set b c n r s d = (if flag_set b (d c) then r s d else Some (d n))"

text \<open>\<open>memcpy\<close> of a text to an array of \<open>cap\<close> bytes, if the length that was stored fits.\<close>

definition copy_bytes :: "(struct \<Rightarrow> int) \<Rightarrow> int \<Rightarrow> string \<Rightarrow> string \<Rightarrow> struct \<Rightarrow> struct \<Rightarrow> cval option" where
  "copy_bytes n cap m f s d =
     (let t = str (s f) in
      if 0 < n d \<and> n d \<le> cap
      then if int (length t) \<le> cap then Some (Str (t @ drop (length t) (str (d m)))) else None
      else Some (d m))"

text \<open>The number of elements of a repeated field, and the same up to a limit.\<close>

definition size_of :: "(int \<Rightarrow> int) \<Rightarrow> string \<Rightarrow> struct \<Rightarrow> struct \<Rightarrow> cval option" where
  "size_of c f s d = Some (Num (c (int (length (elements (s f))))))"

definition size_up_to :: "(int \<Rightarrow> int) \<Rightarrow> int \<Rightarrow> string \<Rightarrow> struct \<Rightarrow> struct \<Rightarrow> cval option" where
  "size_up_to c cap f s d = Some (Num (c (min (int (length (elements (s f)))) cap)))"

definition as_number :: "(int \<Rightarrow> int) \<Rightarrow> cval \<Rightarrow> cval option" where
  "as_number c v = Some (Num (c (num v)))"

text \<open>\<open>push_back\<close> of each converted element, and writing them to the start of an array of \<open>cap\<close> elements.\<close>

definition push :: "string \<Rightarrow> (cval \<Rightarrow> cval option) \<Rightarrow> string \<Rightarrow> struct \<Rightarrow> struct \<Rightarrow> cval option" where
  "push m conv f s d =
     map_option (\<lambda>ws. Seq (elements (d m) @ ws)) (all_some (map conv (elements (s f))))"

definition old_elements :: "nat \<Rightarrow> cval \<Rightarrow> cval list" where
  "old_elements n v = take n (elements v @ replicate n Unset)"

definition fill :: "int \<Rightarrow> string \<Rightarrow> (cval \<Rightarrow> cval \<Rightarrow> cval option) \<Rightarrow> (struct \<Rightarrow> struct \<Rightarrow> cval list option)
    \<Rightarrow> struct \<Rightarrow> struct \<Rightarrow> cval option" where
  "fill cap m conv xs s d =
     (case xs s d of None \<Rightarrow> None
      | Some vs \<Rightarrow>
        if int (length vs) \<le> cap
        then map_option (\<lambda>ws. Seq (ws @ drop (length ws) (elements (d m))))
               (all_some (map2 conv vs (old_elements (length vs) (d m))))
        else None)"

text \<open>Where the loop goes over the elements there are, and where it goes up to a number that came
  otherwise.\<close>

definition all_of :: "string \<Rightarrow> struct \<Rightarrow> struct \<Rightarrow> cval list option" where
  "all_of f s d = Some (elements (s f))"

definition first_of :: "(struct \<Rightarrow> struct \<Rightarrow> int) \<Rightarrow> string \<Rightarrow> struct \<Rightarrow> struct \<Rightarrow> cval list option" where
  "first_of n f s d =
     (if nat (n s d) \<le> length (elements (s f)) then Some (take (nat (n s d)) (elements (s f))) else None)"

definition to_number :: "(int \<Rightarrow> int) \<Rightarrow> cval \<Rightarrow> cval \<Rightarrow> cval option" where
  "to_number c v w = Some (Num (c (num v)))"

definition to_mask :: "('a::len word \<Rightarrow> 'b::len word) \<Rightarrow> cval \<Rightarrow> cval \<Rightarrow> cval option" where
  "to_mask conv v w = Some (Num (uint (conv (word_of_int (num v)))))"

definition to_chars :: "int \<Rightarrow> cval \<Rightarrow> cval \<Rightarrow> cval option" where
  "to_chars cap v w = Some (Str (bounded_text cap (str v)))"

definition to_struct :: "(struct \<Rightarrow> struct \<Rightarrow> struct option) \<Rightarrow> cval \<Rightarrow> cval \<Rightarrow> cval option" where
  "to_struct conv v w = map_option Obj (conv (obj v) (obj w))"

end
