(* ===== verification/PbEncode.thy ===== *)
theory PbEncode
  imports PbStruct PbMasks PbEnums
begin

text \<open>
  The conversions of structures of the HAL to messages: the functions \<open>convert\<dots>ToPB\<close> of
  \<open>location_api_msg_proto/src/LocationApiPbMsgConv.cpp\<close>, assignment by assignment. The pointers to parts
  of a message that \<open>mutable_\<close> and \<open>add_\<close> return are never null, so that no conversion fails.
\<close>

definition convertGnssSvTypeConfigToPB :: "hal_values \<Rightarrow> struct \<Rightarrow> struct \<Rightarrow> struct option" where
  "convertGnssSvTypeConfigToPB hal = assign
     [(''enabledsvtypesmask'', put UInt64 ''enabledSvTypesMask''),
      (''blacklistedsvtypesmask'', put UInt64 ''blacklistedSvTypesMask'')]"

definition convertGnssSvIdConfigToPB :: "hal_values \<Rightarrow> struct \<Rightarrow> struct \<Rightarrow> struct option" where
  "convertGnssSvIdConfigToPB hal = assign
     [(''globlacklistsvmask'', put UInt64 ''gloBlacklistSvMask''),
      (''bdsblacklistsvmask'', put UInt64 ''bdsBlacklistSvMask''),
      (''qzssblacklistsvmask'', put UInt64 ''qzssBlacklistSvMask''),
      (''galblacklistsvmask'', put UInt64 ''galBlacklistSvMask''),
      (''sbasblacklistsvmask'', put UInt64 ''sbasBlacklistSvMask''),
      (''navicblacklistsvmask'', put UInt64 ''navicBlacklistSvMask''),
      (''gpsblacklistsvmask'', put UInt64 ''gpsBlacklistSvMask'')]"

definition convertGnssAidingDataToPB :: "hal_values \<Rightarrow> struct \<Rightarrow> struct \<Rightarrow> struct option" where
  "convertGnssAidingDataToPB hal = assign
     [(''deleteall'', put Boolean ''deleteAll''),
      (''gnssaidingdatasvmask'', of_member ''sv'' (put_mask (getPBMaskForGnssAidingDataSvMask hal) ''svMask'')),
      (''dreaidingdatamask'', put_mask (getPBMaskForDrEngineAidingDataMask hal) ''dreAidingDataMask''),
      (''posenginemask'', put_mask (getPBMaskForPositioningEngineMask hal) ''posEngineMask'')]"

definition convertLeverArmParamsToPB :: "hal_values \<Rightarrow> struct \<Rightarrow> struct \<Rightarrow> struct option" where
  "convertLeverArmParamsToPB hal = assign
     [(''forwardoffsetmeters'', put Float ''forwardOffsetMeters''),
      (''sidewaysoffsetmeters'', put Float ''sidewaysOffsetMeters''),
      (''upoffsetmeters'', put Float ''upOffsetMeters'')]"

definition convertLeverArmConfigInfoToPB :: "hal_values \<Rightarrow> struct \<Rightarrow> struct \<Rightarrow> struct option" where
  "convertLeverArmConfigInfoToPB hal = assign
     [(''leverarmvalidmask'', put_mask (getPBMaskForLeverArmTypeMask hal) ''leverArmValidMask''),
      (''gnsstovrp'', sub ''gnsstovrp'' (convertLeverArmParamsToPB hal) ''gnssToVRP''),
      (''drimutognss'', sub ''drimutognss'' (convertLeverArmParamsToPB hal) ''drImuToGnss''),
      (''veppimutognss'', sub ''veppimutognss'' (convertLeverArmParamsToPB hal) ''veppImuToGnss'')]"

definition convertBodyToSensorMountParamsToPB :: "hal_values \<Rightarrow> struct \<Rightarrow> struct \<Rightarrow> struct option" where
  "convertBodyToSensorMountParamsToPB hal = assign
     [(''rolloffset'', put Float ''rollOffset''),
      (''yawoffset'', put Float ''yawOffset''),
      (''pitchoffset'', put Float ''pitchOffset''),
      (''offsetunc'', put Float ''offsetUnc'')]"

definition convertDeadReckoningEngineConfigToPB :: "hal_values \<Rightarrow> struct \<Rightarrow> struct \<Rightarrow> struct option" where
  "convertDeadReckoningEngineConfigToPB hal = assign
     [(''validmask'', put_mask (getPBMaskForDeadReckoningEngineConfigValidMask hal) ''validMask''),
      (''bodytosensormountparams'', sub ''bodytosensormountparams'' (convertBodyToSensorMountParamsToPB hal) ''bodyToSensorMountParams''),
      (''vehiclespeedscalefactor'', put Float ''vehicleSpeedScaleFactor''),
      (''vehiclespeedscalefactorunc'', put Float ''vehicleSpeedScaleFactorUnc''),
      (''gyroscalefactor'', put Float ''gyroScaleFactor''),
      (''gyroscalefactorunc'', put Float ''gyroScaleFactorUnc'')]"

definition convertXtraConfigParamsToPB :: "hal_values \<Rightarrow> struct \<Rightarrow> struct \<Rightarrow> struct option" where
  "convertXtraConfigParamsToPB hal = assign
     [(''xtradownloadintervalminute'', put UInt32 ''xtraDownloadIntervalMinute''),
      (''xtradownloadtimeoutsec'', put UInt32 ''xtraDownloadTimeoutSec''),
      (''xtradownloadretryintervalminute'', put UInt32 ''xtraDownloadRetryIntervalMinute''),
      (''xtradownloadretryattempts'', put UInt32 ''xtraDownloadRetryAttempts''),
      (''xtracapath'', put_chars ''xtraCaPath''),
      (''xtraserverurls'', add ''xtraserverurls'' (chars) (first_elements (\<lambda>s. num (s ''xtraServerURLsCount'')) ''xtraServerURLs'')),
      (''ntpserverurls'', add ''ntpserverurls'' (chars) (first_elements (\<lambda>s. num (s ''ntpServerURLsCount'')) ''ntpServerURLs'')),
      (''ntskeserverurl'', put_chars ''ntsKeServerURL''),
      (''xtradaemondebugloglevel'', put_enum (getPBEnumForDebugLogLevel hal) ''xtraDaemonDebugLogLevel''),
      (''xtraintegritydownloadenable'', put Boolean ''xtraIntegrityDownloadEnable''),
      (''xtraintegritydownloadintervalminute'', put UInt32 ''xtraIntegrityDownloadIntervalMinute''),
      (''xtradaemondiagloggingstatus'', put UInt32 ''xtraDaemonDiagLoggingStatus'')]"

definition convertXtraStatusToPB :: "hal_values \<Rightarrow> struct \<Rightarrow> struct \<Rightarrow> struct option" where
  "convertXtraStatusToPB hal = assign
     [(''featureenabled'', put Boolean ''featureEnabled''),
      (''xtradatastatus'', when_set ''featureEnabled'' ''xtradatastatus'' (put_enum (getPBEnumForXtraDataStatus hal) ''xtraDataStatus'')),
      (''xtravalidforhours'', when_set ''featureEnabled'' ''xtravalidforhours'' (put UInt32 ''xtraValidForHours'')),
      (''userconsentstatus'', when_set ''featureEnabled'' ''userconsentstatus'' (put Boolean ''userConsentStatus''))]"

definition convertLocationOptionsToPB :: "hal_values \<Rightarrow> struct \<Rightarrow> struct \<Rightarrow> struct option" where
  "convertLocationOptionsToPB hal = assign
     [(''mininterval'', put UInt32 ''minInterval''),
      (''mindistance'', put UInt32 ''minDistance''),
      (''mode'', put_enum (getPBEnumForGnssSuplMode hal) ''mode''),
      (''locreqengtypemask'', put_mask (getPBMaskForLocReqEngineTypeMask hal) ''locReqEngTypeMask''),
      (''qualitylevelaccepted'', put_enum (getPBEnumForFixQualityLevel hal) ''qualityLevelAccepted'')]"

definition convertGeofenceInfoToPB :: "hal_values \<Rightarrow> struct \<Rightarrow> struct \<Rightarrow> struct option" where
  "convertGeofenceInfoToPB hal = assign
     [(''latitude'', put Double ''latitude''),
      (''longitude'', put Double ''longitude''),
      (''radius'', put Double ''radius'')]"

definition convertGeofenceOptionToPB :: "hal_values \<Rightarrow> struct \<Rightarrow> struct \<Rightarrow> struct option" where
  "convertGeofenceOptionToPB hal = assign
     [(''breachtypemask'', put_mask (getPBMaskForGeofenceBreachTypeMask hal) ''breachTypeMask''),
      (''responsiveness'', put UInt32 ''responsiveness''),
      (''dwelltime'', put UInt32 ''dwellTime'')]"

definition convertGfAddedReqPayloadToPB :: "hal_values \<Rightarrow> struct \<Rightarrow> struct \<Rightarrow> struct option" where
  "convertGfAddedReqPayloadToPB hal = assign
     [(''gfpayload'', add ''gfpayload'' (message (assign
        [(''gfclientid'', put UInt32 ''gfClientId''),
         (''gfoption'', sub ''gfoption'' (convertGeofenceOptionToPB hal) ''gfOption''),
         (''gfinfo'', sub ''gfinfo'' (convertGeofenceInfoToPB hal) ''gfInfo'')]))
        (first_elements (\<lambda>s. num (s ''count'')) ''gfPayload''))]"

definition convertGfReqClientIdPayloadToPB :: "hal_values \<Rightarrow> struct \<Rightarrow> struct \<Rightarrow> struct option" where
  "convertGfReqClientIdPayloadToPB hal = assign
     [(''gfids'', add ''gfids'' (number UInt32) (first_elements (\<lambda>s. num (s ''count'')) ''gfIds''))]"

definition convertCollectiveResPayloadToPB :: "hal_values \<Rightarrow> struct \<Rightarrow> struct \<Rightarrow> struct option" where
  "convertCollectiveResPayloadToPB hal = assign
     [(''resp'', add ''resp'' (message (assign
        [(''clientid'', put UInt32 ''clientId''), (''error'', put_enum (getPBEnumForLocationError hal) ''error'')]))
        (vector ''resp''))]"

definition convertGnssConfigRobustLocationToPB :: "hal_values \<Rightarrow> struct \<Rightarrow> struct \<Rightarrow> struct option" where
  "convertGnssConfigRobustLocationToPB hal = assign
     [(''validmask'', put_mask (getPBMaskForGnssCfgRobustLocValidMask hal) ''validMask''),
      (''enabled'', put Boolean ''enabled''),
      (''enabledfore911'', put Boolean ''enabledForE911''),
      (''version'', sub ''version'' (assign [(''major'', put UInt32 ''major''), (''minor'', put UInt32 ''minor'')]) ''version'')]"

definition convertLocationToPB :: "hal_values \<Rightarrow> struct \<Rightarrow> struct \<Rightarrow> struct option" where
  "convertLocationToPB hal = assign
     [(''flags'', put_mask (getPBMaskForLocationFlagsMask hal) ''flags''),
      (''timestamp'', put UInt64 ''timestamp''),
      (''latitude'', put Double ''latitude''),
      (''longitude'', put Double ''longitude''),
      (''altitude'', put Double ''altitude''),
      (''speed'', put Float ''speed''),
      (''bearing'', put Float ''bearing''),
      (''horizontalaccuracy'', put Float ''accuracy''),
      (''verticalaccuracy'', put Float ''verticalAccuracy''),
      (''speedaccuracy'', put Float ''speedAccuracy''),
      (''bearingaccuracy'', put Float ''bearingAccuracy''),
      (''techmask'', put_mask (getPBMaskForLocationTechnologyMask hal) ''techMask''),
      (''elapsedrealtime'', put UInt64 ''elapsedRealTime''),
      (''elapsedrealtimeunc'', put UInt64 ''elapsedRealTimeUnc''),
      (''timeuncms'', put Float ''timeUncMs''),
      (''elapsedgptptime'', put UInt64 ''elapsedgPTPTime''),
      (''elapsedgptptimeunc'', put UInt64 ''elapsedgPTPTimeUnc''),
      (''sessionstatus'', put_enum (getPBEnumForLocSessionStatus hal) ''sessionStatus'')]"

definition convertLocAPIBatchingNotifMsgToPB :: "hal_values \<Rightarrow> struct \<Rightarrow> struct \<Rightarrow> struct option" where
  "convertLocAPIBatchingNotifMsgToPB hal = assign
     [(''status'', put_enum (getPBEnumForBatchingStatus hal) ''status''),
      (''location'', add ''location'' (message (convertLocationToPB hal)) (vector ''location''))]"

definition convertLocAPIGfBreachNotifToPB :: "hal_values \<Rightarrow> struct \<Rightarrow> struct \<Rightarrow> struct option" where
  "convertLocAPIGfBreachNotifToPB hal = assign
     [(''timestamp'', put UInt64 ''timestamp''),
      (''breachtype'', put UInt32 ''type''),
      (''location'', sub ''location'' (convertLocationToPB hal) ''location''),
      (''id'', add ''id'' (number UInt32) (vector ''id''))]"

definition convertGnssLocSvUsedInPosToPB :: "hal_values \<Rightarrow> struct \<Rightarrow> struct \<Rightarrow> struct option" where
  "convertGnssLocSvUsedInPosToPB hal = assign
     [(''gpssvusedidsmask'', put UInt64 ''gpsSvUsedIdsMask''),
      (''glosvusedidsmask'', put UInt64 ''gloSvUsedIdsMask''),
      (''galsvusedidsmask'', put UInt64 ''galSvUsedIdsMask''),
      (''bdssvusedidsmask'', put UInt64 ''bdsSvUsedIdsMask''),
      (''qzsssvusedidsmask'', put UInt64 ''qzssSvUsedIdsMask''),
      (''navicsvusedidsmask'', put UInt64 ''navicSvUsedIdsMask'')]"

definition convertGnssSystemTimeStructTypeToPB :: "hal_values \<Rightarrow> struct \<Rightarrow> struct \<Rightarrow> struct option" where
  "convertGnssSystemTimeStructTypeToPB hal = assign
     [(''validitymask'', put_mask (getPBMaskForGnssSystemTimeStructTypeFlags hal) ''validityMask''),
      (''systemweek'', put UInt32 ''systemWeek''),
      (''systemmsec'', put UInt32 ''systemMsec''),
      (''systemclktimebiasms'', put Float ''systemClkTimeBias''),
      (''systemclktimebiasuncms'', put Float ''systemClkTimeUncMs''),
      (''reffcount'', put UInt32 ''refFCount''),
      (''numclockresets'', put UInt32 ''numClockResets'')]"

definition convertGnssGloTimeStructTypeToPB :: "hal_values \<Rightarrow> struct \<Rightarrow> struct \<Rightarrow> struct option" where
  "convertGnssGloTimeStructTypeToPB hal = assign
     [(''validitymask'', put_mask (getPBMaskForGnssGloTimeStructTypeFlags hal) ''validityMask''),
      (''glofouryear'', put UInt32 ''gloFourYear''),
      (''glodays'', put UInt32 ''gloDays''),
      (''glomsec'', put UInt32 ''gloMsec''),
      (''gloclktimebias'', put Float ''gloClkTimeBias''),
      (''gloclktimeuncms'', put Float ''gloClkTimeUncMs''),
      (''reffcount'', put UInt32 ''refFCount''),
      (''numclockresets'', put UInt32 ''numClockResets'')]"

definition convertSystemTimeStructUnionToPB :: "hal_values \<Rightarrow> int \<Rightarrow> struct \<Rightarrow> struct \<Rightarrow> struct option" where
  "convertSystemTimeStructUnionToPB hal sys s d =
    (if sys = hal ''GNSS_LOC_SV_SYSTEM_GPS'' then select_one ''gpssystemtime'' (sub ''gpssystemtime'' (convertGnssSystemTimeStructTypeToPB hal) ''gpsSystemTime'') s d
     else if sys = hal ''GNSS_LOC_SV_SYSTEM_GALILEO'' then select_one ''galsystemtime'' (sub ''galsystemtime'' (convertGnssSystemTimeStructTypeToPB hal) ''galSystemTime'') s d
     else if sys = hal ''GNSS_LOC_SV_SYSTEM_BDS'' then select_one ''bdssystemtime'' (sub ''bdssystemtime'' (convertGnssSystemTimeStructTypeToPB hal) ''bdsSystemTime'') s d
     else if sys = hal ''GNSS_LOC_SV_SYSTEM_QZSS'' then select_one ''qzsssystemtime'' (sub ''qzsssystemtime'' (convertGnssSystemTimeStructTypeToPB hal) ''qzssSystemTime'') s d
     else if sys = hal ''GNSS_LOC_SV_SYSTEM_GLONASS'' then select_one ''glosystemtime'' (sub ''glosystemtime'' (convertGnssGloTimeStructTypeToPB hal) ''gloSystemTime'') s d
     else if sys = hal ''GNSS_LOC_SV_SYSTEM_NAVIC'' then select_one ''navicsystemtime'' (sub ''navicsystemtime'' (convertGnssSystemTimeStructTypeToPB hal) ''navicSystemTime'') s d
     else Some d)"

definition convertGnssSystemTimeToPB :: "hal_values \<Rightarrow> struct \<Rightarrow> struct \<Rightarrow> struct option" where
  "convertGnssSystemTimeToPB hal = assign
     [(''gnsssystemtimesrc'', put_enum (getPBEnumForGnssLocSvSystem hal) ''gnssSystemTimeSrc''),
      (''u'', (\<lambda>s d. map_option Obj (convertSystemTimeStructUnionToPB hal (num (s ''gnssSystemTimeSrc''))
        (obj (s ''u'')) (obj (d ''u'')))))]"

definition convertLLAInfoToPB :: "hal_values \<Rightarrow> struct \<Rightarrow> struct \<Rightarrow> struct option" where
  "convertLLAInfoToPB hal = assign
     [(''latitude'', put Double ''latitude''),
      (''longitude'', put Double ''longitude''),
      (''altitude'', put Float ''altitude'')]"

definition convertGnssMeasUsageInfoToPB :: "hal_values \<Rightarrow> struct \<Rightarrow> struct \<Rightarrow> struct option" where
  "convertGnssMeasUsageInfoToPB hal = assign
     [(''gnssconstellation'', put_enum (getPBEnumForGnssLocSvSystem hal) ''gnssConstellation''),
      (''gnsssvid'', put UInt32 ''gnssSvId''),
      (''gnsssignaltype'', put_mask (getPBMaskForGnssSignalTypeMask hal) ''gnssSignalType'')]"

definition convertGnssLocationPositionDynamicsToPB :: "hal_values \<Rightarrow> struct \<Rightarrow> struct \<Rightarrow> struct \<Rightarrow> struct option" where
  "convertGnssLocationPositionDynamicsToPB hal a b = assign
     [(''bodyframedatamask'', (\<lambda>s d. Some (Num (uint (getPBMaskForGnssLocationPosDataMask hal
        (word_of_int (num (a ''bodyFrameDataMask''))) (word_of_int (num (b ''bodyFrameDataMask'')))))))),
      (''longaccel'', put Float ''longAccel''),
      (''lataccel'', put Float ''latAccel''),
      (''vertaccel'', put Float ''vertAccel''),
      (''longaccelunc'', put Float ''longAccelUnc''),
      (''lataccelunc'', put Float ''latAccelUnc''),
      (''vertaccelunc'', put Float ''vertAccelUnc''),
      (''pitch'', put Float ''pitch''),
      (''pitchunc'', put Float ''pitchUnc''),
      (''pitchrate'', taken_from b (put Float ''pitchRate'')),
      (''pitchrateunc'', taken_from b (put Float ''pitchRateUnc'')),
      (''roll'', taken_from b (put Float ''roll'')),
      (''rollunc'', taken_from b (put Float ''rollUnc'')),
      (''rollrate'', taken_from b (put Float ''rollRate'')),
      (''rollrateunc'', taken_from b (put Float ''rollRateUnc'')),
      (''yaw'', taken_from b (put Float ''yaw'')),
      (''yawunc'', taken_from b (put Float ''yawUnc'')),
      (''yawrate'', put Float ''yawRate''),
      (''yawrateunc'', put Float ''yawRateUnc'')] a"

definition convertGnssLocInfoNotifToPB :: "hal_values \<Rightarrow> struct \<Rightarrow> struct \<Rightarrow> struct option" where
  "convertGnssLocInfoNotifToPB hal = assign
     [(''location'', sub ''location'' (convertLocationToPB hal) ''location''),
      (''flags'', put_mask (getPBMaskForGnssLocationInfoFlagMask hal) ''flags''),
      (''altitudemeansealevel'', put Float ''altitudeMeanSeaLevel''),
      (''pdop'', put Float ''pdop''),
      (''hdop'', put Float ''hdop''),
      (''vdop'', put Float ''vdop''),
      (''gdop'', put Float ''gdop''),
      (''tdop'', put Float ''tdop''),
      (''magneticdeviation'', put Float ''magneticDeviation''),
      (''horreliability'', put_enum (getPBEnumForLocationReliability hal) ''horReliability''),
      (''verreliability'', put_enum (getPBEnumForLocationReliability hal) ''verReliability''),
      (''horuncellipsesemimajor'', put Float ''horUncEllipseSemiMajor''),
      (''horuncellipsesemiminor'', put Float ''horUncEllipseSemiMinor''),
      (''horuncellipseorientazimuth'', put Float ''horUncEllipseOrientAzimuth''),
      (''northstddeviation'', put Float ''northStdDeviation''),
      (''eaststddeviation'', put Float ''eastStdDeviation''),
      (''northvelocity'', put Float ''northVelocity''),
      (''eastvelocity'', put Float ''eastVelocity''),
      (''upvelocity'', put Float ''upVelocity''),
      (''northvelocitystddeviation'', put Float ''northVelocityStdDeviation''),
      (''eastvelocitystddeviation'', put Float ''eastVelocityStdDeviation''),
      (''upvelocitystddeviation'', put Float ''upVelocityStdDeviation''),
      (''numsvusedinposition'', put UInt32 ''numSvUsedInPosition''),
      (''svusedinposition'', sub ''svusedinposition'' (convertGnssLocSvUsedInPosToPB hal) ''svUsedInPosition''),
      (''navsolutionmask'', put_mask (getPBMaskForGnssLocationNavSolutionMask hal) ''navSolutionMask''),
      (''bodyframedata'', (\<lambda>s d. map_option Obj (convertGnssLocationPositionDynamicsToPB hal
        (obj (s ''bodyFrameData'')) (obj (s ''bodyFrameDataExt'')) (obj (d ''bodyframedata''))))),
      (''gnsssystemtime'', sub ''gnsssystemtime'' (convertGnssSystemTimeToPB hal) ''gnssSystemTime''),
      (''numofmeasreceived'', put UInt32 ''numOfMeasReceived''),
      (''measusageinfo'', add ''measusageinfo'' (message (convertGnssMeasUsageInfoToPB hal))
        (first_elements (\<lambda>s. num (s ''numOfMeasReceived'') mod 2 ^ 8) ''measUsageInfo'')),
      (''leapseconds'', put UInt32 ''leapSeconds''),
      (''timeuncms'', of_member ''location'' (put Float ''timeUncMs'')),
      (''calibrationconfidence'', put UInt32 ''calibrationConfidence''),
      (''calibrationstatus'', put_mask (getPBMaskForDrCalibrationStatusMask hal) ''calibrationStatus''),
      (''locoutputengtype'', put_enum (getPBEnumForLocOutputEngineType hal) ''locOutputEngType''),
      (''locoutputengmask'', put_mask (getPBMaskForPositioningEngineMask hal) ''locOutputEngMask''),
      (''conformityindex'', put Float ''conformityIndex''),
      (''llavrpbased'', sub ''llavrpbased'' (convertLLAInfoToPB hal) ''llaVRPBased''),
      (''enuvelocityvrpbased'', add ''enuvelocityvrpbased'' (number Float) (first_elements (\<lambda>_. 3) ''enuVelocityVRPBased'')),
      (''drsolutionstatusmask'', put_mask (getPBMaskForDrSolutionStatusMask hal) ''drSolutionStatusMask''),
      (''extflags'', put_mask (getPBMaskForGnssLocationInfoExtFlagMask hal) ''flags''),
      (''altitudeassumed'', put Boolean ''altitudeAssumed''),
      (''sessionstatus'', put_enum (getPBEnumForLocSessionStatus hal) ''sessionStatus''),
      (''integrityriskused'', put UInt32 ''integrityRiskUsed''),
      (''protectalongtrack'', put Float ''protectAlongTrack''),
      (''protectcrosstrack'', put Float ''protectCrossTrack''),
      (''protectvertical'', put Float ''protectVertical''),
      (''dgnssstationid'', add ''dgnssstationid'' (number UInt32) (first_elements (\<lambda>s. num (s ''numOfDgnssStationId'')) ''dgnssStationId'')),
      (''baselinelength'', put Double ''baseLineLength''),
      (''agemsecofcorrections'', put UInt64 ''ageMsecOfCorrections''),
      (''leapsecondsunc'', put UInt32 ''leapSecondsUnc''),
      (''posreportinginterval'', put UInt32 ''posReportingInterval''),
      (''gnssextendeddata'', when_flag (hal ''LDT_GNSS_LOCATION_INFO_EXTENDED_DATA_BIT'') ''flags'' ''gnssextendeddata'' (put_bytes (\<lambda>s. num (s ''extendedDataLen'')) ''extendedData''))]"

definition convertLeapSecChgInfoToPB :: "hal_values \<Rightarrow> struct \<Rightarrow> struct \<Rightarrow> struct option" where
  "convertLeapSecChgInfoToPB hal = assign
     [(''gpstimestamplschange'', sub ''gpstimestamplschange'' (convertGnssSystemTimeStructTypeToPB hal) ''gpsTimestampLsChange''),
      (''leapsecondsbeforechange'', put UInt32 ''leapSecondsBeforeChange''),
      (''leapsecondsafterchange'', put UInt32 ''leapSecondsAfterChange'')]"

definition convertLeapSecondSystemInfoToPB :: "hal_values \<Rightarrow> struct \<Rightarrow> struct \<Rightarrow> struct option" where
  "convertLeapSecondSystemInfoToPB hal = assign
     [(''leapsecondinfomask'', put_mask (getPBMaskForLeapSecondSysInfoMask hal) ''leapSecondInfoMask''),
      (''leapsecondcurrent'', put UInt32 ''leapSecondCurrent''),
      (''leapsecondchangeinfo'', sub ''leapsecondchangeinfo'' (convertLeapSecChgInfoToPB hal) ''leapSecondChangeInfo'')]"

definition convertLocSysInfoToPB :: "hal_values \<Rightarrow> struct \<Rightarrow> struct \<Rightarrow> struct option" where
  "convertLocSysInfoToPB hal = assign
     [(''systeminfomask'', put_mask (getPBMaskForLocSysInfoMask hal) ''systemInfoMask''),
      (''leapsecondsysinfo'', sub ''leapsecondsysinfo'' (convertLeapSecondSystemInfoToPB hal) ''leapSecondSysInfo'')]"

definition convertGnssDcReportToPB :: "hal_values \<Rightarrow> struct \<Rightarrow> struct \<Rightarrow> struct option" where
  "convertGnssDcReportToPB hal = assign
     [(''dcreporttype'', put_enum (getPBEnumForDcReportType hal) ''dcReportType''),
      (''numvalidbits'', put UInt32 ''numValidBits''),
      (''dcreportdata'', add ''dcreportdata'' (number UInt32) (vector ''dcReportData'')),
      (''prnvalid'', put Boolean ''prnValid''),
      (''prn'', put UInt32 ''prn'')]"

definition convertGnssMeasDataToPB :: "hal_values \<Rightarrow> struct \<Rightarrow> struct \<Rightarrow> struct option" where
  "convertGnssMeasDataToPB hal = assign
     [(''flags'', put_mask (getPBMaskForGnssMeasurementsDataFlagsMask hal) ''flags''),
      (''svid'', put Int32 ''svId''),
      (''svtype'', put_enum (getPBGnssLocSvSysEnumFromGnssSvType hal) ''svType''),
      (''timeoffsetns'', put Double ''timeOffsetNs''),
      (''statemask'', put_mask (getPBMaskForGnssMeasurementsStateMask hal) ''stateMask''),
      (''receivedsvtimens'', put Int64 ''receivedSvTimeNs''),
      (''receivedsvtimeuncertaintyns'', put Int64 ''receivedSvTimeUncertaintyNs''),
      (''carriertonoisedbhz'', put Double ''carrierToNoiseDbHz''),
      (''pseudorangeratemps'', put Double ''pseudorangeRateMps''),
      (''pseudorangerateuncertaintymps'', put Double ''pseudorangeRateUncertaintyMps''),
      (''adrstatemask'', put_mask (getPBMaskForGnssMeasurementsAdrStateMask hal) ''adrStateMask''),
      (''adrmeters'', put Double ''adrMeters''),
      (''adruncertaintymeters'', put Double ''adrUncertaintyMeters''),
      (''carrierfrequencyhz'', put Float ''carrierFrequencyHz''),
      (''carriercycles'', put Int64 ''carrierCycles''),
      (''carrierphase'', put Double ''carrierPhase''),
      (''carrierphaseuncertainty'', put Double ''carrierPhaseUncertainty''),
      (''multipathindicator'', put_enum (getPBEnumForGnssMeasMultiPathIndic hal) ''multipathIndicator''),
      (''signaltonoiseratiodb'', put Double ''signalToNoiseRatioDb''),
      (''agcleveldb'', put Double ''agcLevelDb''),
      (''basebandcarriertonoisedbhz'', put Double ''basebandCarrierToNoiseDbHz''),
      (''gnsssignaltype'', put_mask (getPBMaskForGnssSignalTypeMask hal) ''gnssSignalType''),
      (''fullintersignalbiasns'', put Double ''fullInterSignalBiasNs''),
      (''fullintersignalbiasuncertaintyns'', put Double ''fullInterSignalBiasUncertaintyNs''),
      (''cycleslipcount'', put UInt32 ''cycleSlipCount''),
      (''receivedsvtimesubns'', put Float ''receivedSvTimeSubNs''),
      (''codetype'', put_enum (getPBMeasCodeType hal) ''codeType''),
      (''othercodetypename'', put_chars ''otherCodeTypeName'')]"

definition convertGnssMeasClockToPB :: "hal_values \<Rightarrow> struct \<Rightarrow> struct \<Rightarrow> struct option" where
  "convertGnssMeasClockToPB hal = assign
     [(''flags'', put_mask (getPBMaskForGnssMeasurementsClockFlagsMask hal) ''flags''),
      (''leapsecond'', put Int32 ''leapSecond''),
      (''timens'', put Int64 ''timeNs''),
      (''timeuncertaintyns'', put Double ''timeUncertaintyNs''),
      (''fullbiasns'', put Int64 ''fullBiasNs''),
      (''biasns'', put Double ''biasNs''),
      (''biasuncertaintyns'', put Double ''biasUncertaintyNs''),
      (''driftnsps'', put Double ''driftNsps''),
      (''driftuncertaintynsps'', put Double ''driftUncertaintyNsps''),
      (''hwclockdiscontinuitycount'', put UInt32 ''hwClockDiscontinuityCount''),
      (''elapsedrealtime'', put UInt64 ''elapsedRealTime''),
      (''elapsedrealtimeunc'', put UInt64 ''elapsedRealTimeUnc''),
      (''elapsedgptptime'', put UInt64 ''elapsedgPTPTime''),
      (''elapsedgptptimeunc'', put UInt64 ''elapsedgPTPTimeUnc'')]"

definition convertGnssMeasNotifToPB :: "hal_values \<Rightarrow> struct \<Rightarrow> struct \<Rightarrow> struct option" where
  "convertGnssMeasNotifToPB hal = assign
     [(''measurements'', add ''measurements'' (message (convertGnssMeasDataToPB hal)) (first_elements (\<lambda>s. num (s ''count'')) ''measurements'')),
      (''clock'', sub ''clock'' (convertGnssMeasClockToPB hal) ''clock''),
      (''isnhz'', put Boolean ''isNhz''),
      (''agcstatusl1'', put_enum (getPBEnumForAgcStatus hal) ''agcStatusL1''),
      (''agcstatusl2'', put_enum (getPBEnumForAgcStatus hal) ''agcStatusL2''),
      (''agcstatusl5'', put_enum (getPBEnumForAgcStatus hal) ''agcStatusL5'')]"

definition convertGnssDataNotifToPB :: "hal_values \<Rightarrow> struct \<Rightarrow> struct \<Rightarrow> struct option" where
  "convertGnssDataNotifToPB hal = assign
     [(''numbersignaltypes'', set_to (fit UInt32 (hal ''GNSS_LOC_MAX_NUMBER_OF_SIGNAL_TYPES''))),
      (''gnssdatamask'', add ''gnssdatamask'' (number UInt64) (first_elements (\<lambda>_. hal ''GNSS_LOC_MAX_NUMBER_OF_SIGNAL_TYPES'') ''gnssDataMask'')),
      (''jammerind'', add ''jammerind'' (number Double) (first_elements (\<lambda>_. hal ''GNSS_LOC_MAX_NUMBER_OF_SIGNAL_TYPES'') ''jammerInd'')),
      (''agc'', add ''agc'' (number Double) (first_elements (\<lambda>_. hal ''GNSS_LOC_MAX_NUMBER_OF_SIGNAL_TYPES'') ''agc'')),
      (''agcstatusl1'', put_enum (getPBEnumForAgcStatus hal) ''agcStatusL1''),
      (''agcstatusl2'', put_enum (getPBEnumForAgcStatus hal) ''agcStatusL2''),
      (''agcstatusl5'', put_enum (getPBEnumForAgcStatus hal) ''agcStatusL5'')]"

definition convertLocAPINmeaSerializedPayloadToPB :: "hal_values \<Rightarrow> struct \<Rightarrow> struct \<Rightarrow> struct option" where
  "convertLocAPINmeaSerializedPayloadToPB hal = assign
     [(''timestamp'', put UInt64 ''timestamp''),
      (''nmea'', put_text ''nmea''),
      (''locoutputengtype'', put_enum (getPBEnumForLocOutputEngineType hal) ''locOutputEngType'')]"

definition convertGnssSvToPB :: "hal_values \<Rightarrow> struct \<Rightarrow> struct \<Rightarrow> struct option" where
  "convertGnssSvToPB hal = assign
     [(''svid'', put UInt32 ''svId''),
      (''type'', put_enum (getPBGnssLocSvSysEnumFromGnssSvType hal) ''type''),
      (''cn0dbhz'', put Float ''cN0Dbhz''),
      (''elevation'', put Float ''elevation''),
      (''azimuth'', put Float ''azimuth''),
      (''gnsssvoptionsmask'', put_mask (getPBMaskForGnssSvOptionsMask hal) ''gnssSvOptionsMask''),
      (''carrierfrequencyhz'', put Float ''carrierFrequencyHz''),
      (''gnsssignaltypemask'', put_mask (getPBMaskForGnssSignalTypeMask hal) ''gnssSignalTypeMask''),
      (''basebandcarriertonoisedbhz'', put Double ''basebandCarrierToNoiseDbHz''),
      (''glofrequency'', put UInt32 ''gloFrequency'')]"

definition convertGnssSvNotifToPB :: "hal_values \<Rightarrow> struct \<Rightarrow> struct \<Rightarrow> struct option" where
  "convertGnssSvNotifToPB hal = assign
     [(''gnsssignaltypemaskvalid'', put Boolean ''gnssSignalTypeMaskValid''),
      (''gnsssvs'', add ''gnsssvs'' (message (convertGnssSvToPB hal)) (first_elements (\<lambda>s. num (s ''count'')) ''gnssSvs''))]"

definition convertTimespecToPB :: "hal_values \<Rightarrow> struct \<Rightarrow> struct \<Rightarrow> struct option" where
  "convertTimespecToPB hal = assign
     [(''tv_sec'', put UInt64 ''tv_sec''),
      (''tv_nsec'', put UInt64 ''tv_nsec'')]"

definition convertGnssDebugLocationToPB :: "hal_values \<Rightarrow> struct \<Rightarrow> struct \<Rightarrow> struct option" where
  "convertGnssDebugLocationToPB hal = assign
     [(''valid'', put Boolean ''mValid''),
      (''location'', sub ''location'' (convertLocationToPB hal) ''mLocation''),
      (''verticalaccuracymeters'', put Double ''verticalAccuracyMeters''),
      (''speedaccuracymeterspersecond'', put Double ''speedAccuracyMetersPerSecond''),
      (''bearingaccuracydegrees'', put Double ''bearingAccuracyDegrees''),
      (''utcreported'', sub ''utcreported'' (convertTimespecToPB hal) ''mUtcReported'')]"

definition convertGnssDebugTimeToPB :: "hal_values \<Rightarrow> struct \<Rightarrow> struct \<Rightarrow> struct option" where
  "convertGnssDebugTimeToPB hal = assign
     [(''valid'', put Boolean ''mValid''),
      (''timeestimate'', put Int64 ''timeEstimate''),
      (''timeuncertaintyns'', put Float ''timeUncertaintyNs''),
      (''frequencyuncertaintynspersec'', put Float ''frequencyUncertaintyNsPerSec'')]"

definition convertGnssDebugSatelliteInfoToPB :: "hal_values \<Rightarrow> struct \<Rightarrow> struct \<Rightarrow> struct option" where
  "convertGnssDebugSatelliteInfoToPB hal = assign
     [(''svid'', put UInt32 ''svid''),
      (''constellation'', put_enum (getPBGnssLocSvSysEnumFromGnssSvType hal) ''constellation''),
      (''ephemeristype'', put_enum (getPBEnumForGnssEphemerisType hal) ''mEphemerisType''),
      (''ephemerissource'', put_enum (getPBEnumForGnssEphemerisSource hal) ''mEphemerisSource''),
      (''ephemerishealth'', put_enum (getPBEnumForGnssEphemerisHealth hal) ''mEphemerisHealth''),
      (''ephemerisageseconds'', put Float ''ephemerisAgeSeconds''),
      (''serverpredictionisavailable'', put Boolean ''serverPredictionIsAvailable''),
      (''serverpredictionageseconds'', put Float ''serverPredictionAgeSeconds'')]"

definition convertGnssDebugReportToPB :: "hal_values \<Rightarrow> struct \<Rightarrow> struct \<Rightarrow> struct option" where
  "convertGnssDebugReportToPB hal = assign
     [(''location'', sub ''location'' (convertGnssDebugLocationToPB hal) ''mLocation''),
      (''time'', sub ''time'' (convertGnssDebugTimeToPB hal) ''mTime''),
      (''satelliteinfo'', add ''satelliteinfo'' (message (convertGnssDebugSatelliteInfoToPB hal)) (vector ''mSatelliteInfo''))]"

definition convertGnssCoordinateToPB :: "hal_values \<Rightarrow> struct \<Rightarrow> struct \<Rightarrow> struct option" where
  "convertGnssCoordinateToPB hal = assign
     [(''x'', put Double ''x''),
      (''xuncertainty'', put Double ''xUncertainty''),
      (''y'', put Double ''y''),
      (''yuncertainty'', put Double ''yUncertainty''),
      (''z'', put Double ''z''),
      (''zuncertainty'', put Double ''zUncertainty'')]"

definition convert2DimensionDoubleVectorToPB :: "cval \<Rightarrow> struct \<Rightarrow> struct option" where
  "convert2DimensionDoubleVectorToPB doubleArrays =
    (let rows = map elements (elements doubleArrays) in assign
     [(''row'', set_to (fit UInt32 (int (length rows)))),
      (''value'', add ''value'' (number Double) (\<lambda>s. Some (concat rows))),
      (''column'', set_to (fit UInt32 (if rows = [] then 0 else int (length (last rows)))))] fresh)"

definition convertGnssAntennaInformationToPB :: "hal_values \<Rightarrow> struct \<Rightarrow> struct \<Rightarrow> struct option" where
  "convertGnssAntennaInformationToPB hal = assign
     [(''carrierfrequencymhz'', put Double ''carrierFrequencyMHz''),
      (''phasecenteroffsetcoordinatemillimeters'', sub ''phasecenteroffsetcoordinatemillimeters'' (convertGnssCoordinateToPB hal) ''phaseCenterOffsetCoordinateMillimeters''),
      (''phasecentervariationcorrectionmillimeters'', (\<lambda>s d. map_option Obj (convert2DimensionDoubleVectorToPB (s ''phaseCenterVariationCorrectionMillimeters'') (obj (d ''phasecentervariationcorrectionmillimeters''))))),
      (''phasecentervariationcorrectionuncertaintymillimeters'', (\<lambda>s d. map_option Obj (convert2DimensionDoubleVectorToPB (s ''phaseCenterVariationCorrectionUncertaintyMillimeters'') (obj (d ''phasecentervariationcorrectionuncertaintymillimeters''))))),
      (''signalgaincorrectiondbi'', (\<lambda>s d. map_option Obj (convert2DimensionDoubleVectorToPB (s ''signalGainCorrectionDbi'') (obj (d ''signalgaincorrectiondbi''))))),
      (''signalgaincorrectionuncertaintydbi'', (\<lambda>s d. map_option Obj (convert2DimensionDoubleVectorToPB (s ''signalGainCorrectionUncertaintyDbi'') (obj (d ''signalgaincorrectionuncertaintydbi'')))))]"

definition convertAntennaInfoToPB :: "hal_values \<Rightarrow> struct \<Rightarrow> struct \<Rightarrow> struct option" where
  "convertAntennaInfoToPB hal = assign
     [(''antennainfos'', add ''antennainfos'' (message (convertGnssAntennaInformationToPB hal)) (vector ''antennaInfos''))]"

definition convertCommanEphToPB :: "hal_values \<Rightarrow> struct \<Rightarrow> struct \<Rightarrow> struct option" where
  "convertCommanEphToPB hal = assign
     [(''gnsssvid'', put UInt32 ''gnssSvId''),
      (''ephaction'', put_enum (getPBEphAction hal) ''updateAction''),
      (''iode'', put UInt32 ''IODE''),
      (''asqrt'', put Double ''aSqrt''),
      (''deltan'', put Double ''deltaN''),
      (''m0'', put Double ''m0''),
      (''eccentricity'', put Double ''eccentricity''),
      (''omega0'', put Double ''omega0''),
      (''i0'', put Double ''i0''),
      (''omega'', put Double ''omega''),
      (''omegadot'', put Double ''omegaDot''),
      (''idot'', put Double ''iDot''),
      (''cuc'', put Double ''cUc''),
      (''cus'', put Double ''cUs''),
      (''crc'', put Double ''cRc''),
      (''crs'', put Double ''cRs''),
      (''cic'', put Double ''cIc''),
      (''cis'', put Double ''cIs''),
      (''toe'', put UInt32 ''toe''),
      (''toc'', put UInt32 ''toc''),
      (''af0'', put Double ''af0''),
      (''af1'', put Double ''af1''),
      (''af2'', put Double ''af2'')]"

definition convertGpsExtendedEphToPB :: "hal_values \<Rightarrow> struct \<Rightarrow> struct \<Rightarrow> struct option" where
  "convertGpsExtendedEphToPB hal = assign
     [(''gnsssvid'', put UInt32 ''gnssSvId''),
      (''validitymask'', put UInt32 ''validityMask''),
      (''iscl1ca'', put Float ''iscL1ca''),
      (''iscl2c'', put Float ''iscL2c''),
      (''iscl5i5'', put Float ''iscL5I5''),
      (''iscl5q5'', put Float ''iscL5Q5''),
      (''alert'', put UInt32 ''alert''),
      (''uraned0'', put UInt32 ''uraNed0''),
      (''uraned1'', put UInt32 ''uraNed1''),
      (''uraned2'', put UInt32 ''uraNed2''),
      (''top'', put Double ''top''),
      (''topclock'', put UInt32 ''topClock''),
      (''validityperiod'', put UInt32 ''validityPeriod''),
      (''deltandot'', put Double ''deltaNdot''),
      (''deltaa'', put Double ''deltaA''),
      (''adot'', put Double ''adot'')]"

definition convertGpsEphDataToPB :: "hal_values \<Rightarrow> struct \<Rightarrow> struct \<Rightarrow> struct option" where
  "convertGpsEphDataToPB hal = assign
     [(''commonephemerisdata'', sub ''commonephemerisdata'' (convertCommanEphToPB hal) ''commonEphemerisData''),
      (''signalhealth'', put UInt32 ''signalHealth''),
      (''urai'', put UInt32 ''URAI''),
      (''codel2'', put UInt32 ''codeL2''),
      (''dataflagl2p'', put UInt32 ''dataFlagL2P''),
      (''tgd'', put Double ''tgd''),
      (''fitinterval'', put UInt32 ''fitInterval''),
      (''iodc'', put UInt32 ''IODC'')]"

definition convertGpsEphResponseToPB :: "hal_values \<Rightarrow> struct \<Rightarrow> struct \<Rightarrow> struct option" where
  "convertGpsEphResponseToPB hal = assign
     [(''gpsephemerisdata'', add ''gpsephemerisdata'' (message (convertGpsEphDataToPB hal)) (first_elements (\<lambda>s. num (s ''numOfEphemeris'')) ''gpsEphemerisData'')),
      (''validdatasourcesignal'', put Boolean ''validDataSourceSignal''),
      (''datasourcesignal'', put UInt32 ''dataSourceSignal''),
      (''validextendedephdata'', put Boolean ''validExtendedEphData''),
      (''numofextendedephemeris'', put UInt32 ''numOfExtendedEphemeris''),
      (''gpsextephemerisdata'', add ''gpsextephemerisdata'' (message (convertGpsExtendedEphToPB hal)) (first_elements (\<lambda>s. num (s ''numOfExtendedEphemeris'')) ''gpsExtEphemerisData''))]"

definition convertBdsExtendedEphToPB :: "hal_values \<Rightarrow> struct \<Rightarrow> struct \<Rightarrow> struct option" where
  "convertBdsExtendedEphToPB hal = assign
     [(''gnsssvid'', put UInt32 ''gnssSvId''),
      (''validitymask'', put UInt32 ''validityMask''),
      (''tgdb2a'', put Float ''tgdB2a''),
      (''iscb2a'', put Float ''iscB2a''),
      (''tgdb1c'', put Float ''tgdB1c''),
      (''iscb1c'', put Float ''iscB1c''),
      (''svtype'', put UInt32 ''svType''),
      (''validityperiod'', put UInt32 ''validityPeriod''),
      (''integrityflags'', put UInt32 ''integrityFlags''),
      (''deltandot'', put Double ''deltaNdot''),
      (''deltaa'', put Double ''deltaA''),
      (''adot'', put Double ''adot'')]"

definition convertBdsEphDataToPB :: "hal_values \<Rightarrow> struct \<Rightarrow> struct \<Rightarrow> struct option" where
  "convertBdsEphDataToPB hal = assign
     [(''commonephemerisdata'', sub ''commonephemerisdata'' (convertCommanEphToPB hal) ''commonEphemerisData''),
      (''svhealth'', put UInt32 ''svHealth''),
      (''aodc'', put UInt32 ''AODC''),
      (''tgd1'', put Double ''tgd1''),
      (''tgd2'', put Double ''tgd2''),
      (''urai'', put UInt32 ''URAI'')]"

definition convertBdsEphResponseToPB :: "hal_values \<Rightarrow> struct \<Rightarrow> struct \<Rightarrow> struct option" where
  "convertBdsEphResponseToPB hal = assign
     [(''bdsephemerisdata'', add ''bdsephemerisdata'' (message (convertBdsEphDataToPB hal)) (first_elements (\<lambda>s. num (s ''numOfEphemeris'')) ''bdsEphemerisData'')),
      (''validdatasourcesignal'', put Boolean ''validDataSourceSignal''),
      (''datasourcesignal'', put UInt32 ''dataSourceSignal''),
      (''validextendedephdata'', put Boolean ''validExtendedEphData''),
      (''numofextendedephemeris'', put UInt32 ''numOfExtendedEphemeris''),
      (''bdsextephemerisdata'', add ''bdsextephemerisdata'' (message (convertBdsExtendedEphToPB hal)) (first_elements (\<lambda>s. num (s ''numOfExtendedEphemeris'')) ''bdsExtEphemerisData''))]"

definition convertGlonassEphDataToPB :: "hal_values \<Rightarrow> struct \<Rightarrow> struct \<Rightarrow> struct option" where
  "convertGlonassEphDataToPB hal = assign
     [(''gnsssvid'', put UInt32 ''gnssSvId''),
      (''ephaction'', put_enum (getPBEphAction hal) ''updateAction''),
      (''bnhealth'', put UInt32 ''bnHealth''),
      (''lnhealth'', put UInt32 ''lnHealth''),
      (''tb'', put UInt32 ''tb''),
      (''ft'', put UInt32 ''ft''),
      (''glom'', put UInt32 ''gloM''),
      (''enage'', put UInt32 ''enAge''),
      (''glofrequency'', put UInt32 ''gloFrequency''),
      (''p1'', put UInt32 ''p1''),
      (''p2'', put UInt32 ''p2''),
      (''deltatau'', put Float ''deltaTau''),
      (''position'', add ''position'' (number Double) (first_elements (\<lambda>_. 3) ''position'')),
      (''velocity'', add ''velocity'' (number Double) (first_elements (\<lambda>_. 3) ''velocity'')),
      (''acceleration'', add ''acceleration'' (number Double) (first_elements (\<lambda>_. 3) ''acceleration'')),
      (''taun'', put Float ''tauN''),
      (''gamma'', put Float ''gamma''),
      (''toe'', put Double ''toe''),
      (''nt'', put UInt32 ''nt'')]"

definition convertGloEphResponseToPB :: "hal_values \<Rightarrow> struct \<Rightarrow> struct \<Rightarrow> struct option" where
  "convertGloEphResponseToPB hal = assign
     [(''gloephemerisdata'', add ''gloephemerisdata'' (message (convertGlonassEphDataToPB hal)) (first_elements (\<lambda>s. num (s ''numOfEphemeris'')) ''gloEphemerisData''))]"

definition convertGalileoEphDataToPB :: "hal_values \<Rightarrow> struct \<Rightarrow> struct \<Rightarrow> struct option" where
  "convertGalileoEphDataToPB hal = assign
     [(''commonephemerisdata'', sub ''commonephemerisdata'' (convertCommanEphToPB hal) ''commonEphemerisData''),
      (''datasourcesignal'', put_enum (convertDataSignalSourceToPB hal) ''dataSourceSignal''),
      (''sisindex'', put UInt32 ''sisIndex''),
      (''bgde1e5a'', put Double ''bgdE1E5a''),
      (''bgde1e5b'', put Double ''bgdE1E5b''),
      (''svhealth'', put UInt32 ''svHealth'')]"

definition convertGalEphResponseToPB :: "hal_values \<Rightarrow> struct \<Rightarrow> struct \<Rightarrow> struct option" where
  "convertGalEphResponseToPB hal = assign
     [(''galephemerisdata'', add ''galephemerisdata'' (message (convertGalileoEphDataToPB hal)) (first_elements (\<lambda>s. num (s ''numOfEphemeris'')) ''galEphemerisData''))]"

definition convertQzssEphResponseToPB :: "hal_values \<Rightarrow> struct \<Rightarrow> struct \<Rightarrow> struct option" where
  "convertQzssEphResponseToPB hal = assign
     [(''qzssephemerisdata'', add ''qzssephemerisdata'' (message (convertGpsEphDataToPB hal)) (first_elements (\<lambda>s. num (s ''numOfEphemeris'')) ''qzssEphemerisData'')),
      (''validdatasourcesignal'', put Boolean ''validDataSourceSignal''),
      (''datasourcesignal'', put UInt32 ''dataSourceSignal''),
      (''validextendedephdata'', put Boolean ''validExtendedEphData''),
      (''numofextendedephemeris'', put UInt32 ''numOfExtendedEphemeris''),
      (''qzssextephemerisdata'', add ''qzssextephemerisdata'' (message (convertGpsExtendedEphToPB hal)) (first_elements (\<lambda>s. num (s ''numOfExtendedEphemeris'')) ''qzssExtEphemerisData''))]"

definition convertNavicEphDataToPB :: "hal_values \<Rightarrow> struct \<Rightarrow> struct \<Rightarrow> struct option" where
  "convertNavicEphDataToPB hal = assign
     [(''commonephemerisdata'', sub ''commonephemerisdata'' (convertCommanEphToPB hal) ''commonEphemerisData''),
      (''weeknum'', put UInt32 ''weekNum''),
      (''iodec'', put UInt32 ''iodec''),
      (''l5health'', put UInt32 ''l5Health''),
      (''shealth'', put UInt32 ''sHealth''),
      (''inclinationanglerad'', put Double ''inclinationAngleRad''),
      (''urai'', put UInt32 ''urai''),
      (''tgd'', put Double ''tgd'')]"

definition convertNavicEphResponseToPB :: "hal_values \<Rightarrow> struct \<Rightarrow> struct \<Rightarrow> struct option" where
  "convertNavicEphResponseToPB hal = assign
     [(''navicephemerisdata'', add ''navicephemerisdata'' (message (convertNavicEphDataToPB hal)) (first_elements (\<lambda>s. num (s ''numOfEphemeris'')) ''navicEphemerisData''))]"

definition convertGnssMmfDataToPB :: "hal_values \<Rightarrow> struct \<Rightarrow> struct \<Rightarrow> struct option" where
  "convertGnssMmfDataToPB hal = assign
     [(''validitymask'', put UInt64 ''validityMask''),
      (''utctimestampms'', put UInt64 ''utcTimestampMs''),
      (''mapmatchedlatitudedifference'', put Float ''mapMatchedLatitudeDifference''),
      (''mapmatchedlongitudedifference'', put Float ''mapMatchedLongitudeDifference''),
      (''istunnel'', put Boolean ''isTunnel''),
      (''bearing'', put Float ''bearing''),
      (''altitude'', put Double ''altitude''),
      (''horizontalaccuracy'', put Float ''horizontalAccuracy''),
      (''altitudeaccuracy'', put Float ''altitudeAccuracy''),
      (''bearingaccuracy'', put Float ''bearingAccuracy'')]"

definition convertEphInfoToPB :: "hal_values \<Rightarrow> int \<Rightarrow> struct \<Rightarrow> struct \<Rightarrow> struct option" where
  "convertEphInfoToPB hal sys s d =
    (if sys = hal ''GNSS_LOC_SV_SYSTEM_GPS'' then select_one ''gpsephemeris'' (sub ''gpsephemeris'' (convertGpsEphResponseToPB hal) ''gpsEphemeris'') s d
     else if sys = hal ''GNSS_LOC_SV_SYSTEM_GALILEO'' then select_one ''galileoephemeris'' (sub ''galileoephemeris'' (convertGalEphResponseToPB hal) ''galileoEphemeris'') s d
     else if sys = hal ''GNSS_LOC_SV_SYSTEM_GLONASS'' then select_one ''glonassephemeris'' (sub ''glonassephemeris'' (convertGloEphResponseToPB hal) ''glonassEphemeris'') s d
     else if sys = hal ''GNSS_LOC_SV_SYSTEM_BDS'' then select_one ''bdsephemeris'' (sub ''bdsephemeris'' (convertBdsEphResponseToPB hal) ''bdsEphemeris'') s d
     else if sys = hal ''GNSS_LOC_SV_SYSTEM_QZSS'' then select_one ''qzssephemeris'' (sub ''qzssephemeris'' (convertQzssEphResponseToPB hal) ''qzssEphemeris'') s d
     else if sys = hal ''GNSS_LOC_SV_SYSTEM_NAVIC'' then select_one ''navicephemeris'' (sub ''navicephemeris'' (convertNavicEphResponseToPB hal) ''navicEphemeris'') s d
     else Some d)"

definition convertGnssEphNotifToPB :: "hal_values \<Rightarrow> struct \<Rightarrow> struct \<Rightarrow> struct option" where
  "convertGnssEphNotifToPB hal = assign
     [(''gnssconstellation'', put_enum (getPBEnumForGnssLocSvSystem hal) ''gnssConstellation''),
      (''issystemtimevalid'', put Boolean ''isSystemTimeValid''),
      (''systemtime'', sub ''systemtime'' (convertGnssSystemTimeStructTypeToPB hal) ''systemTime''),
      (''ephunion'', (\<lambda>s d. map_option Obj (convertEphInfoToPB hal (num (s ''gnssConstellation''))
        (obj (s ''ephInfo'')) (obj (d ''ephunion'')))))]"

end
