(* ===== verification/PbDecode.thy ===== *)
theory PbDecode
  imports PbStruct PbMasks PbEnums
begin

text \<open>
  The conversions of messages back to structures: the functions \<open>pbConvertTo\<dots>\<close> of
  \<open>location_api_msg_proto/src/LocationApiPbMsgConv.cpp\<close>. The types of the members of the HAL's structures come from a
  header outside the repository: \<open>ty\<close> converts a number to the type of the named member. The lengths
  of its arrays are values of that header.
\<close>

type_synonym member_types = "string \<Rightarrow> int \<Rightarrow> int"

definition MAX_GEOFENCE_ENTRY :: int where "MAX_GEOFENCE_ENTRY = 20"

definition signal_types :: "hal_values \<Rightarrow> struct \<Rightarrow> struct \<Rightarrow> int" where
  "signal_types hal s d = min (num (s ''numbersignaltypes'')) (fit UInt32 (hal ''GNSS_LOC_MAX_NUMBER_OF_SIGNAL_TYPES''))"

definition pbConvertToXtraConfig :: "hal_values \<Rightarrow> member_types \<Rightarrow> struct \<Rightarrow> struct \<Rightarrow> struct option" where
  "pbConvertToXtraConfig hal ty = assign
     [(''xtraDownloadIntervalMinute'', get (ty ''XtraConfigParams.xtraDownloadIntervalMinute'') ''xtradownloadintervalminute''),
      (''xtraDownloadTimeoutSec'', get (ty ''XtraConfigParams.xtraDownloadTimeoutSec'') ''xtradownloadtimeoutsec''),
      (''xtraDownloadRetryIntervalMinute'', get (ty ''XtraConfigParams.xtraDownloadRetryIntervalMinute'') ''xtradownloadretryintervalminute''),
      (''xtraDownloadRetryAttempts'', get (ty ''XtraConfigParams.xtraDownloadRetryAttempts'') ''xtradownloadretryattempts''),
      (''xtraCaPath'', get_chars (hal ''sizeof(XtraConfigParams.xtraCaPath)'') ''xtracapath''),
      (''xtraServerURLs'', fill (hal ''lengthof(XtraConfigParams.xtraServerURLs)'') ''xtraServerURLs''
        (to_chars (hal ''sizeof(XtraConfigParams.xtraServerURLs[])'')) (all_of ''xtraserverurls'')),
      (''xtraServerURLsCount'', size_of (ty ''XtraConfigParams.xtraServerURLsCount'') ''xtraserverurls''),
      (''ntpServerURLs'', fill (hal ''lengthof(XtraConfigParams.ntpServerURLs)'') ''ntpServerURLs''
        (to_chars (hal ''sizeof(XtraConfigParams.ntpServerURLs[])'')) (all_of ''ntpserverurls'')),
      (''ntpServerURLsCount'', size_of (ty ''XtraConfigParams.ntpServerURLsCount'') ''ntpserverurls''),
      (''ntsKeServerURL'', get_chars (hal ''sizeof(XtraConfigParams.ntsKeServerURL)'') ''ntskeserverurl''),
      (''xtraDaemonDebugLogLevel'', get_enum (getDebugLogLevelFromPB hal) ''xtradaemondebugloglevel''),
      (''xtraIntegrityDownloadEnable'', get (ty ''XtraConfigParams.xtraIntegrityDownloadEnable'') ''xtraintegritydownloadenable''),
      (''xtraIntegrityDownloadIntervalMinute'', get (ty ''XtraConfigParams.xtraIntegrityDownloadIntervalMinute'') ''xtraintegritydownloadintervalminute''),
      (''xtraDaemonDiagLoggingStatus'', get (ty ''XtraConfigParams.xtraDaemonDiagLoggingStatus'') ''xtradaemondiagloggingstatus'')]"

definition pbConvertToXtraStatus :: "hal_values \<Rightarrow> member_types \<Rightarrow> struct \<Rightarrow> struct \<Rightarrow> struct option" where
  "pbConvertToXtraStatus hal ty = assign
     [(''featureEnabled'', get (ty ''XtraStatus.featureEnabled'') ''featureenabled''),
      (''xtraDataStatus'', get_enum (getXtraDataStatusFromPB hal) ''xtradatastatus''),
      (''xtraValidForHours'', get (ty ''XtraStatus.xtraValidForHours'') ''xtravalidforhours''),
      (''userConsentStatus'', get (ty ''XtraStatus.userConsentStatus'') ''userconsentstatus'')]"

definition pbConvertToDcReport :: "hal_values \<Rightarrow> member_types \<Rightarrow> struct \<Rightarrow> struct \<Rightarrow> struct option" where
  "pbConvertToDcReport hal ty = assign
     [(''dcReportType'', get_enum (getDcReportTypeFromPB hal) ''dcreporttype''),
      (''numValidBits'', get (ty ''GnssDcReportInfo.numValidBits'') ''numvalidbits''),
      (''dcReportData'', push ''dcReportData'' (as_number (\<lambda>i. i mod 2 ^ 8)) ''dcreportdata''),
      (''prnValid'', get (ty ''GnssDcReportInfo.prnValid'') ''prnvalid''),
      (''prn'', get (ty ''GnssDcReportInfo.prn'') ''prn'')]"

definition pbConvertToGnssConfigRobustLocation :: "hal_values \<Rightarrow> member_types \<Rightarrow> struct \<Rightarrow> struct \<Rightarrow> struct option" where
  "pbConvertToGnssConfigRobustLocation hal ty = assign
     [(''validMask'', get_mask (getGnssConfigRobustLocationValidMaskFromPB hal) ''validmask''),
      (''enabled'', get (ty ''GnssConfigRobustLocation.enabled'') ''enabled''),
      (''enabledForE911'', get (ty ''GnssConfigRobustLocation.enabledForE911'') ''enabledfore911''),
      (''version'', in_member ''version'' [(''major'', of_member ''version'' (get (ty ''GnssConfigRobustLocation.version.major'') ''major'')), (''minor'', of_member ''version'' (get (ty ''GnssConfigRobustLocation.version.minor'') ''minor''))])]"

definition pbConvertToCollectiveResPayload :: "hal_values \<Rightarrow> member_types \<Rightarrow> struct \<Rightarrow> struct \<Rightarrow> struct option" where
  "pbConvertToCollectiveResPayload hal ty = assign
     [(''resp'', push ''resp'' (message (assign
        [(''clientId'', get (fit UInt32) ''clientid''), (''error'', get_enum (getEnumForPBLocationError hal) ''error'')])) ''resp'')]"

definition pbConvertToLocation :: "hal_values \<Rightarrow> member_types \<Rightarrow> struct \<Rightarrow> struct \<Rightarrow> struct option" where
  "pbConvertToLocation hal ty = assign
     [(''size'', set_to (hal ''sizeof(Location)'')),
      (''flags'', get_mask (getLocationFlagsMaskFromPB hal) ''flags''),
      (''timestamp'', get (ty ''Location.timestamp'') ''timestamp''),
      (''latitude'', get (ty ''Location.latitude'') ''latitude''),
      (''longitude'', get (ty ''Location.longitude'') ''longitude''),
      (''altitude'', get (ty ''Location.altitude'') ''altitude''),
      (''speed'', get (ty ''Location.speed'') ''speed''),
      (''bearing'', get (ty ''Location.bearing'') ''bearing''),
      (''accuracy'', get (ty ''Location.accuracy'') ''horizontalaccuracy''),
      (''verticalAccuracy'', get (ty ''Location.verticalAccuracy'') ''verticalaccuracy''),
      (''speedAccuracy'', get (ty ''Location.speedAccuracy'') ''speedaccuracy''),
      (''bearingAccuracy'', get (ty ''Location.bearingAccuracy'') ''bearingaccuracy''),
      (''techMask'', get_mask (getLocationTechnologyMaskFromPB hal) ''techmask''),
      (''elapsedRealTime'', get (ty ''Location.elapsedRealTime'') ''elapsedrealtime''),
      (''elapsedRealTimeUnc'', get (ty ''Location.elapsedRealTimeUnc'') ''elapsedrealtimeunc''),
      (''timeUncMs'', get (ty ''Location.timeUncMs'') ''timeuncms''),
      (''elapsedgPTPTime'', get (ty ''Location.elapsedgPTPTime'') ''elapsedgptptime''),
      (''elapsedgPTPTimeUnc'', get (ty ''Location.elapsedgPTPTimeUnc'') ''elapsedgptptimeunc''),
      (''sessionStatus'', get_enum (getLocSessionStatusFromPB hal) ''sessionstatus'')]"

definition pbConvertToLocAPIBatchNotification :: "hal_values \<Rightarrow> member_types \<Rightarrow> struct \<Rightarrow> struct \<Rightarrow> struct option" where
  "pbConvertToLocAPIBatchNotification hal ty = assign
     [(''status'', get_enum (getEnumForPBBatchingStatus hal) ''status''),
      (''location'', push ''location'' (message (pbConvertToLocation hal ty)) ''location'')]"

definition pbConvertToLocAPIGfBreachNotification :: "hal_values \<Rightarrow> member_types \<Rightarrow> struct \<Rightarrow> struct \<Rightarrow> struct option" where
  "pbConvertToLocAPIGfBreachNotification hal ty = assign
     [(''timestamp'', get (fit UInt64) ''timestamp''),
      (''type'', get_mask (getGfBreachTypeMaskFromPB hal) ''breachtype''),
      (''location'', into ''location'' (pbConvertToLocation hal ty) ''location''),
      (''id'', push ''id'' (as_number (fit UInt32)) ''id'')]"

definition pbConvertToGnssLocationSvUsedInPosition :: "hal_values \<Rightarrow> member_types \<Rightarrow> struct \<Rightarrow> struct \<Rightarrow> struct option" where
  "pbConvertToGnssLocationSvUsedInPosition hal ty = assign
     [(''gpsSvUsedIdsMask'', get (ty ''GnssLocationSvUsedInPosition.gpsSvUsedIdsMask'') ''gpssvusedidsmask''),
      (''gloSvUsedIdsMask'', get (ty ''GnssLocationSvUsedInPosition.gloSvUsedIdsMask'') ''glosvusedidsmask''),
      (''galSvUsedIdsMask'', get (ty ''GnssLocationSvUsedInPosition.galSvUsedIdsMask'') ''galsvusedidsmask''),
      (''bdsSvUsedIdsMask'', get (ty ''GnssLocationSvUsedInPosition.bdsSvUsedIdsMask'') ''bdssvusedidsmask''),
      (''qzssSvUsedIdsMask'', get (ty ''GnssLocationSvUsedInPosition.qzssSvUsedIdsMask'') ''qzsssvusedidsmask''),
      (''navicSvUsedIdsMask'', get (ty ''GnssLocationSvUsedInPosition.navicSvUsedIdsMask'') ''navicsvusedidsmask'')]"

definition pbConvertToLLAInfo :: "hal_values \<Rightarrow> member_types \<Rightarrow> struct \<Rightarrow> struct \<Rightarrow> struct option" where
  "pbConvertToLLAInfo hal ty = assign
     [(''latitude'', get (ty ''LLAInfo.latitude'') ''latitude''),
      (''longitude'', get (ty ''LLAInfo.longitude'') ''longitude''),
      (''altitude'', get (ty ''LLAInfo.altitude'') ''altitude'')]"

definition pbConvertToGnssSystemTimeStructType :: "hal_values \<Rightarrow> member_types \<Rightarrow> struct \<Rightarrow> struct \<Rightarrow> struct option" where
  "pbConvertToGnssSystemTimeStructType hal ty = assign
     [(''validityMask'', get_mask (getGnssSystemTimeStructTypeFlagsFromPB hal) ''validitymask''),
      (''systemWeek'', get (ty ''GnssSystemTimeStructType.systemWeek'') ''systemweek''),
      (''systemMsec'', get (ty ''GnssSystemTimeStructType.systemMsec'') ''systemmsec''),
      (''systemClkTimeBias'', get (ty ''GnssSystemTimeStructType.systemClkTimeBias'') ''systemclktimebiasms''),
      (''systemClkTimeUncMs'', get (ty ''GnssSystemTimeStructType.systemClkTimeUncMs'') ''systemclktimebiasuncms''),
      (''refFCount'', get (ty ''GnssSystemTimeStructType.refFCount'') ''reffcount''),
      (''numClockResets'', get (ty ''GnssSystemTimeStructType.numClockResets'') ''numclockresets'')]"

definition pbConvertToGnssGloTimeStructType :: "hal_values \<Rightarrow> member_types \<Rightarrow> struct \<Rightarrow> struct \<Rightarrow> struct option" where
  "pbConvertToGnssGloTimeStructType hal ty = assign
     [(''validityMask'', get_mask (getGnssGloTimeStructTypeFlagsFromPB hal) ''validitymask''),
      (''gloFourYear'', get (ty ''GnssGloTimeStructType.gloFourYear'') ''glofouryear''),
      (''gloDays'', get (ty ''GnssGloTimeStructType.gloDays'') ''glodays''),
      (''gloMsec'', get (ty ''GnssGloTimeStructType.gloMsec'') ''glomsec''),
      (''gloClkTimeBias'', get (ty ''GnssGloTimeStructType.gloClkTimeBias'') ''gloclktimebias''),
      (''gloClkTimeUncMs'', get (ty ''GnssGloTimeStructType.gloClkTimeUncMs'') ''gloclktimeuncms''),
      (''refFCount'', get (ty ''GnssGloTimeStructType.refFCount'') ''reffcount''),
      (''numClockResets'', get (ty ''GnssGloTimeStructType.numClockResets'') ''numclockresets'')]"

definition pbConvertToSystemTimeStructUnion :: "hal_values \<Rightarrow> member_types \<Rightarrow> int \<Rightarrow> struct \<Rightarrow> struct \<Rightarrow> struct option" where
  "pbConvertToSystemTimeStructUnion hal ty sys s d =
    (if sys = hal ''GNSS_LOC_SV_SYSTEM_GPS'' then select_one ''gpsSystemTime'' (into ''gpsSystemTime'' (pbConvertToGnssSystemTimeStructType hal ty) ''gpssystemtime'') s d
     else if sys = hal ''GNSS_LOC_SV_SYSTEM_GALILEO'' then select_one ''galSystemTime'' (into ''galSystemTime'' (pbConvertToGnssSystemTimeStructType hal ty) ''galsystemtime'') s d
     else if sys = hal ''GNSS_LOC_SV_SYSTEM_BDS'' then select_one ''bdsSystemTime'' (into ''bdsSystemTime'' (pbConvertToGnssSystemTimeStructType hal ty) ''bdssystemtime'') s d
     else if sys = hal ''GNSS_LOC_SV_SYSTEM_QZSS'' then select_one ''qzssSystemTime'' (into ''qzssSystemTime'' (pbConvertToGnssSystemTimeStructType hal ty) ''qzsssystemtime'') s d
     else if sys = hal ''GNSS_LOC_SV_SYSTEM_GLONASS'' then select_one ''gloSystemTime'' (into ''gloSystemTime'' (pbConvertToGnssGloTimeStructType hal ty) ''glosystemtime'') s d
     else if sys = hal ''GNSS_LOC_SV_SYSTEM_NAVIC'' then select_one ''navicSystemTime'' (into ''navicSystemTime'' (pbConvertToGnssSystemTimeStructType hal ty) ''navicsystemtime'') s d
     else Some d)"

definition pbConvertToGnssSystemTime :: "hal_values \<Rightarrow> member_types \<Rightarrow> struct \<Rightarrow> struct \<Rightarrow> struct option" where
  "pbConvertToGnssSystemTime hal ty = assign
     [(''gnssSystemTimeSrc'', get_enum (getEnumForPBGnssLocSvSystem hal) ''gnsssystemtimesrc''),
      (''u'', (\<lambda>s d. map_option Obj (pbConvertToSystemTimeStructUnion hal ty (num (d ''gnssSystemTimeSrc''))
        (obj (s ''u'')) (obj (d ''u'')))))]"

definition pbConvertToGnssMeasUsageInfo :: "hal_values \<Rightarrow> member_types \<Rightarrow> struct \<Rightarrow> struct \<Rightarrow> struct option" where
  "pbConvertToGnssMeasUsageInfo hal ty = assign
     [(''gnssConstellation'', get_enum (getEnumForPBGnssLocSvSystem hal) ''gnssconstellation''),
      (''gnssSvId'', get (ty ''GnssMeasUsageInfo.gnssSvId'') ''gnsssvid''),
      (''gnssSignalType'', get_mask (getGnssSignalTypeMaskFromPB hal) ''gnsssignaltype'')]"

definition pbConvertToGnssLocationPositionDynamics :: "hal_values \<Rightarrow> member_types \<Rightarrow> struct \<Rightarrow> struct \<Rightarrow> struct option" where
  "pbConvertToGnssLocationPositionDynamics hal ty = assign
     [(''bodyFrameDataMask'', get_mask (getGnssLocationPosDataMaskFromPB hal) ''bodyframedatamask''),
      (''longAccel'', get (ty ''GnssLocationPositionDynamics.longAccel'') ''longaccel''),
      (''latAccel'', get (ty ''GnssLocationPositionDynamics.latAccel'') ''lataccel''),
      (''vertAccel'', get (ty ''GnssLocationPositionDynamics.vertAccel'') ''vertaccel''),
      (''longAccelUnc'', get (ty ''GnssLocationPositionDynamics.longAccelUnc'') ''longaccelunc''),
      (''latAccelUnc'', get (ty ''GnssLocationPositionDynamics.latAccelUnc'') ''lataccelunc''),
      (''vertAccelUnc'', get (ty ''GnssLocationPositionDynamics.vertAccelUnc'') ''vertaccelunc''),
      (''pitch'', get (ty ''GnssLocationPositionDynamics.pitch'') ''pitch''),
      (''pitchUnc'', get (ty ''GnssLocationPositionDynamics.pitchUnc'') ''pitchunc''),
      (''yawRate'', get (ty ''GnssLocationPositionDynamics.yawRate'') ''yawrate''),
      (''yawRateUnc'', get (ty ''GnssLocationPositionDynamics.yawRateUnc'') ''yawrateunc'')]"

definition pbConvertToGnssLocationPositionDynamicsExt :: "hal_values \<Rightarrow> member_types \<Rightarrow> struct \<Rightarrow> struct \<Rightarrow> struct option" where
  "pbConvertToGnssLocationPositionDynamicsExt hal ty = assign
     [(''bodyFrameDataMask'', get_mask (getGnssLocationPosDataMaskExtFromPB hal) ''bodyframedatamask''),
      (''pitchRate'', get (ty ''GnssLocationPositionDynamicsExt.pitchRate'') ''pitchrate''),
      (''pitchRateUnc'', get (ty ''GnssLocationPositionDynamicsExt.pitchRateUnc'') ''pitchrateunc''),
      (''roll'', get (ty ''GnssLocationPositionDynamicsExt.roll'') ''roll''),
      (''rollUnc'', get (ty ''GnssLocationPositionDynamicsExt.rollUnc'') ''rollunc''),
      (''rollRate'', get (ty ''GnssLocationPositionDynamicsExt.rollRate'') ''rollrate''),
      (''rollRateUnc'', get (ty ''GnssLocationPositionDynamicsExt.rollRateUnc'') ''rollrateunc''),
      (''yaw'', get (ty ''GnssLocationPositionDynamicsExt.yaw'') ''yaw''),
      (''yawUnc'', get (ty ''GnssLocationPositionDynamicsExt.yawUnc'') ''yawunc'')]"

definition pbConvertToGnssLocInfoNotif :: "hal_values \<Rightarrow> member_types \<Rightarrow> struct \<Rightarrow> struct \<Rightarrow> struct option" where
  "pbConvertToGnssLocInfoNotif hal ty = assign
     [(''location'', into ''location'' (pbConvertToLocation hal ty) ''location''),
      (''flags'', (\<lambda>s d. Some (Num (uint (getGnssLocationInfoFlagMaskFromPB hal
        (word_of_int (num (s ''flags''))) (word_of_int (num (s ''extflags'')))))))),
      (''altitudeMeanSeaLevel'', get (ty ''GnssLocationInfoNotification.altitudeMeanSeaLevel'') ''altitudemeansealevel''),
      (''pdop'', get (ty ''GnssLocationInfoNotification.pdop'') ''pdop''),
      (''hdop'', get (ty ''GnssLocationInfoNotification.hdop'') ''hdop''),
      (''vdop'', get (ty ''GnssLocationInfoNotification.vdop'') ''vdop''),
      (''gdop'', get (ty ''GnssLocationInfoNotification.gdop'') ''gdop''),
      (''tdop'', get (ty ''GnssLocationInfoNotification.tdop'') ''tdop''),
      (''magneticDeviation'', get (ty ''GnssLocationInfoNotification.magneticDeviation'') ''magneticdeviation''),
      (''horReliability'', get_enum (getEnumForPBLocReliability hal) ''horreliability''),
      (''verReliability'', get_enum (getEnumForPBLocReliability hal) ''verreliability''),
      (''horUncEllipseSemiMajor'', get (ty ''GnssLocationInfoNotification.horUncEllipseSemiMajor'') ''horuncellipsesemimajor''),
      (''horUncEllipseSemiMinor'', get (ty ''GnssLocationInfoNotification.horUncEllipseSemiMinor'') ''horuncellipsesemiminor''),
      (''horUncEllipseOrientAzimuth'', get (ty ''GnssLocationInfoNotification.horUncEllipseOrientAzimuth'') ''horuncellipseorientazimuth''),
      (''northStdDeviation'', get (ty ''GnssLocationInfoNotification.northStdDeviation'') ''northstddeviation''),
      (''eastStdDeviation'', get (ty ''GnssLocationInfoNotification.eastStdDeviation'') ''eaststddeviation''),
      (''northVelocity'', get (ty ''GnssLocationInfoNotification.northVelocity'') ''northvelocity''),
      (''eastVelocity'', get (ty ''GnssLocationInfoNotification.eastVelocity'') ''eastvelocity''),
      (''upVelocity'', get (ty ''GnssLocationInfoNotification.upVelocity'') ''upvelocity''),
      (''northVelocityStdDeviation'', get (ty ''GnssLocationInfoNotification.northVelocityStdDeviation'') ''northvelocitystddeviation''),
      (''eastVelocityStdDeviation'', get (ty ''GnssLocationInfoNotification.eastVelocityStdDeviation'') ''eastvelocitystddeviation''),
      (''upVelocityStdDeviation'', get (ty ''GnssLocationInfoNotification.upVelocityStdDeviation'') ''upvelocitystddeviation''),
      (''numSvUsedInPosition'', get (ty ''GnssLocationInfoNotification.numSvUsedInPosition'') ''numsvusedinposition''),
      (''svUsedInPosition'', into ''svUsedInPosition'' (pbConvertToGnssLocationSvUsedInPosition hal ty) ''svusedinposition''),
      (''navSolutionMask'', get_mask (getGnssLocationNavSolutionMaskFromPB hal) ''navsolutionmask''),
      (''bodyFrameData'', into ''bodyFrameData'' (pbConvertToGnssLocationPositionDynamics hal ty) ''bodyframedata''),
      (''bodyFrameDataExt'', into ''bodyFrameDataExt'' (pbConvertToGnssLocationPositionDynamicsExt hal ty) ''bodyframedata''),
      (''gnssSystemTime'', into ''gnssSystemTime'' (pbConvertToGnssSystemTime hal ty) ''gnsssystemtime''),
      (''numOfMeasReceived'', (\<lambda>s d. Some (Num (ty ''GnssLocationInfoNotification.numOfMeasReceived''
        (min (num (s ''numofmeasreceived'')) (fit UInt32 (hal ''GNSS_SV_MAX''))))))),
      (''measUsageInfo'', fill (hal ''lengthof(GnssLocationInfoNotification.measUsageInfo)'') ''measUsageInfo''
        (to_struct (pbConvertToGnssMeasUsageInfo hal ty)) (first_of (\<lambda>s d. num (d ''numOfMeasReceived'')) ''measusageinfo'')),
      (''leapSeconds'', get (ty ''GnssLocationInfoNotification.leapSeconds'') ''leapseconds''),
      (''location'', in_member ''location'' [(''timeUncMs'', get (ty ''Location.timeUncMs'') ''timeuncms'')]),
      (''calibrationConfidence'', get (ty ''GnssLocationInfoNotification.calibrationConfidence'') ''calibrationconfidence''),
      (''calibrationStatus'', get_mask (getDrCalibrationStatusMaskFromPB hal) ''calibrationstatus''),
      (''locOutputEngType'', get_enum (getEnumForPBLocOutputEngineType hal) ''locoutputengtype''),
      (''locOutputEngMask'', get_mask (getEnumForPBPositioningEngineMask hal) ''locoutputengmask''),
      (''conformityIndex'', get (ty ''GnssLocationInfoNotification.conformityIndex'') ''conformityindex''),
      (''llaVRPBased'', into ''llaVRPBased'' (pbConvertToLLAInfo hal ty) ''llavrpbased''),
      (''enuVelocityVRPBased'', fill 3 ''enuVelocityVRPBased'' (to_number (ty ''GnssLocationInfoNotification.enuVelocityVRPBased[]''))
        (first_of (\<lambda>s d. 3) ''enuvelocityvrpbased'')),
      (''drSolutionStatusMask'', get_mask (getDrSolutionStatusMaskFromPB hal) ''drsolutionstatusmask''),
      (''altitudeAssumed'', get (ty ''GnssLocationInfoNotification.altitudeAssumed'') ''altitudeassumed''),
      (''sessionStatus'', get_enum (getLocSessionStatusFromPB hal) ''sessionstatus''),
      (''integrityRiskUsed'', get (ty ''GnssLocationInfoNotification.integrityRiskUsed'') ''integrityriskused''),
      (''protectAlongTrack'', get (ty ''GnssLocationInfoNotification.protectAlongTrack'') ''protectalongtrack''),
      (''protectCrossTrack'', get (ty ''GnssLocationInfoNotification.protectCrossTrack'') ''protectcrosstrack''),
      (''protectVertical'', get (ty ''GnssLocationInfoNotification.protectVertical'') ''protectvertical''),
      (''dgnssStationId'', fill (hal ''lengthof(GnssLocationInfoNotification.dgnssStationId)'') ''dgnssStationId'' (to_number (\<lambda>i. i mod 2 ^ 16))
        (first_of (\<lambda>s d. min (int (length (elements (s ''dgnssstationid'')))) (hal ''DGNSS_STATION_ID_MAX'')) ''dgnssstationid'')),
      (''numOfDgnssStationId'', (\<lambda>s d. Some (Num (ty ''GnssLocationInfoNotification.numOfDgnssStationId''
        (min (int (length (elements (s ''dgnssstationid'')))) (max 0 (hal ''DGNSS_STATION_ID_MAX''))))))),
      (''baseLineLength'', get (ty ''GnssLocationInfoNotification.baseLineLength'') ''baselinelength''),
      (''ageMsecOfCorrections'', get (ty ''GnssLocationInfoNotification.ageMsecOfCorrections'') ''agemsecofcorrections''),
      (''leapSecondsUnc'', get (ty ''GnssLocationInfoNotification.leapSecondsUnc'') ''leapsecondsunc''),
      (''posReportingInterval'', get (ty ''GnssLocationInfoNotification.posReportingInterval'') ''posreportinginterval''),
      (''extendedDataLen'', when_flag_set (hal ''LDT_GNSS_LOCATION_INFO_EXTENDED_DATA_BIT'') ''flags'' ''extendedDataLen''
        (\<lambda>s d. Some (Num (ty ''GnssLocationInfoNotification.extendedDataLen'' (int (length (str (s ''gnssextendeddata'')))))))),
      (''extendedData'', when_flag_set (hal ''LDT_GNSS_LOCATION_INFO_EXTENDED_DATA_BIT'') ''flags'' ''extendedData''
        (copy_bytes (\<lambda>d. num (d ''extendedDataLen'')) (hal ''sizeof(GnssLocationInfoNotification.extendedData)'') ''extendedData'' ''gnssextendeddata''))]"

definition pbConvertToGnssSv :: "hal_values \<Rightarrow> member_types \<Rightarrow> struct \<Rightarrow> struct \<Rightarrow> struct option" where
  "pbConvertToGnssSv hal ty = assign
     [(''size'', set_to (hal ''sizeof(GnssSv)'')),
      (''svId'', get (ty ''GnssSv.svId'') ''svid''),
      (''type'', get_enum (getGnssSvTypeFromPBGnssLocSvSystemEnumType hal) ''type''),
      (''cN0Dbhz'', get (ty ''GnssSv.cN0Dbhz'') ''cn0dbhz''),
      (''elevation'', get (ty ''GnssSv.elevation'') ''elevation''),
      (''azimuth'', get (ty ''GnssSv.azimuth'') ''azimuth''),
      (''gnssSvOptionsMask'', get_mask (getGnssSvOptionsMaskFromPB hal) ''gnsssvoptionsmask''),
      (''carrierFrequencyHz'', get (ty ''GnssSv.carrierFrequencyHz'') ''carrierfrequencyhz''),
      (''gnssSignalTypeMask'', get_mask (getGnssSignalTypeMaskFromPB hal) ''gnsssignaltypemask''),
      (''basebandCarrierToNoiseDbHz'', get (ty ''GnssSv.basebandCarrierToNoiseDbHz'') ''basebandcarriertonoisedbhz''),
      (''gloFrequency'', get (ty ''GnssSv.gloFrequency'') ''glofrequency'')]"

definition pbConvertToGnssSvNotif :: "hal_values \<Rightarrow> member_types \<Rightarrow> struct \<Rightarrow> struct \<Rightarrow> struct option" where
  "pbConvertToGnssSvNotif hal ty = assign
     [(''size'', set_to (hal ''sizeof(GnssSvNotification)'')),
      (''gnssSignalTypeMaskValid'', get (ty ''GnssSvNotification.gnssSignalTypeMaskValid'') ''gnsssignaltypemaskvalid''),
      (''count'', size_up_to (ty ''GnssSvNotification.count'') (hal ''GNSS_SV_MAX'') ''gnsssvs''),
      (''gnssSvs'', fill (hal ''lengthof(GnssSvNotification.gnssSvs)'') ''gnssSvs'' (to_struct (pbConvertToGnssSv hal ty))
        (first_of (\<lambda>s d. num (d ''count'')) ''gnsssvs''))]"

definition pbConvertToLocAPINmeaSerializedPayload :: "hal_values \<Rightarrow> member_types \<Rightarrow> struct \<Rightarrow> struct \<Rightarrow> struct option" where
  "pbConvertToLocAPINmeaSerializedPayload hal ty = assign
     [(''timestamp'', get (fit UInt64) ''timestamp''),
      (''nmea'', get_text ''nmea''),
      (''locOutputEngType'', get_enum (getEnumForPBLocOutputEngineType hal) ''locoutputengtype'')]"

definition pbConvertToGnssDataNotification :: "hal_values \<Rightarrow> member_types \<Rightarrow> struct \<Rightarrow> struct \<Rightarrow> struct option" where
  "pbConvertToGnssDataNotification hal ty = assign
     [(''size'', set_to (hal ''sizeof(GnssDataNotification)'')),
      (''gnssDataMask'', fill (hal ''GNSS_LOC_MAX_NUMBER_OF_SIGNAL_TYPES'') ''gnssDataMask'' (to_mask (getGnssDataMaskFromPB hal))
        (first_of (signal_types hal) ''gnssdatamask'')),
      (''jammerInd'', fill (hal ''GNSS_LOC_MAX_NUMBER_OF_SIGNAL_TYPES'') ''jammerInd'' (to_number (ty ''GnssDataNotification.jammerInd[]''))
        (first_of (signal_types hal) ''jammerind'')),
      (''agc'', fill (hal ''GNSS_LOC_MAX_NUMBER_OF_SIGNAL_TYPES'') ''agc'' (to_number (ty ''GnssDataNotification.agc[]''))
        (first_of (signal_types hal) ''agc''))]"

definition pbConvertToGnssMeasurementsData :: "hal_values \<Rightarrow> member_types \<Rightarrow> struct \<Rightarrow> struct \<Rightarrow> struct option" where
  "pbConvertToGnssMeasurementsData hal ty = assign
     [(''size'', set_to (hal ''sizeof(GnssMeasurementsData)'')),
      (''flags'', get_mask (getGnssMeasurementsDataFlagsMaskFromPB hal) ''flags''),
      (''svId'', get (ty ''GnssMeasurementsData.svId'') ''svid''),
      (''svType'', get_enum (getGnssSvTypeFromPBGnssLocSvSystemEnumType hal) ''svtype''),
      (''timeOffsetNs'', get (ty ''GnssMeasurementsData.timeOffsetNs'') ''timeoffsetns''),
      (''stateMask'', get (ty ''GnssMeasurementsData.stateMask'') ''statemask''),
      (''receivedSvTimeNs'', get (ty ''GnssMeasurementsData.receivedSvTimeNs'') ''receivedsvtimens''),
      (''receivedSvTimeUncertaintyNs'', get (ty ''GnssMeasurementsData.receivedSvTimeUncertaintyNs'') ''receivedsvtimeuncertaintyns''),
      (''carrierToNoiseDbHz'', get (ty ''GnssMeasurementsData.carrierToNoiseDbHz'') ''carriertonoisedbhz''),
      (''pseudorangeRateMps'', get (ty ''GnssMeasurementsData.pseudorangeRateMps'') ''pseudorangeratemps''),
      (''pseudorangeRateUncertaintyMps'', get (ty ''GnssMeasurementsData.pseudorangeRateUncertaintyMps'') ''pseudorangerateuncertaintymps''),
      (''adrStateMask'', get_mask (getGnssMeasurementsAdrStateMaskFromPB hal) ''adrstatemask''),
      (''adrMeters'', get (ty ''GnssMeasurementsData.adrMeters'') ''adrmeters''),
      (''adrUncertaintyMeters'', get (ty ''GnssMeasurementsData.adrUncertaintyMeters'') ''adruncertaintymeters''),
      (''carrierFrequencyHz'', get (ty ''GnssMeasurementsData.carrierFrequencyHz'') ''carrierfrequencyhz''),
      (''carrierCycles'', get (ty ''GnssMeasurementsData.carrierCycles'') ''carriercycles''),
      (''carrierPhase'', get (ty ''GnssMeasurementsData.carrierPhase'') ''carrierphase''),
      (''carrierPhaseUncertainty'', get (ty ''GnssMeasurementsData.carrierPhaseUncertainty'') ''carrierphaseuncertainty''),
      (''multipathIndicator'', get_enum (getEnumForPBGnssMeasMultipathIndic hal) ''multipathindicator''),
      (''signalToNoiseRatioDb'', get (ty ''GnssMeasurementsData.signalToNoiseRatioDb'') ''signaltonoiseratiodb''),
      (''agcLevelDb'', get (ty ''GnssMeasurementsData.agcLevelDb'') ''agcleveldb''),
      (''basebandCarrierToNoiseDbHz'', get (ty ''GnssMeasurementsData.basebandCarrierToNoiseDbHz'') ''basebandcarriertonoisedbhz''),
      (''gnssSignalType'', get_mask (getGnssSignalTypeMaskFromPB hal) ''gnsssignaltype''),
      (''fullInterSignalBiasNs'', get (ty ''GnssMeasurementsData.fullInterSignalBiasNs'') ''fullintersignalbiasns''),
      (''fullInterSignalBiasUncertaintyNs'', get (ty ''GnssMeasurementsData.fullInterSignalBiasUncertaintyNs'') ''fullintersignalbiasuncertaintyns''),
      (''cycleSlipCount'', get (ty ''GnssMeasurementsData.cycleSlipCount'') ''cycleslipcount''),
      (''receivedSvTimeSubNs'', get (ty ''GnssMeasurementsData.receivedSvTimeSubNs'') ''receivedsvtimesubns''),
      (''codeType'', get_enum (getMeasCodeTypeFromPB hal) ''codetype''),
      (''otherCodeTypeName'', get_chars (hal ''sizeof(GnssMeasurementsData.otherCodeTypeName)'') ''othercodetypename'')]"

definition pbConvertToGnssMeasurementsClock :: "hal_values \<Rightarrow> member_types \<Rightarrow> struct \<Rightarrow> struct \<Rightarrow> struct option" where
  "pbConvertToGnssMeasurementsClock hal ty = assign
     [(''size'', set_to (hal ''sizeof(GnssMeasurementsClock)'')),
      (''flags'', get_mask (getGnssMeasurementsClockFlagsMaskFromPB hal) ''flags''),
      (''leapSecond'', get (ty ''GnssMeasurementsClock.leapSecond'') ''leapsecond''),
      (''timeNs'', get (ty ''GnssMeasurementsClock.timeNs'') ''timens''),
      (''timeUncertaintyNs'', get (ty ''GnssMeasurementsClock.timeUncertaintyNs'') ''timeuncertaintyns''),
      (''fullBiasNs'', get (ty ''GnssMeasurementsClock.fullBiasNs'') ''fullbiasns''),
      (''biasNs'', get (ty ''GnssMeasurementsClock.biasNs'') ''biasns''),
      (''biasUncertaintyNs'', get (ty ''GnssMeasurementsClock.biasUncertaintyNs'') ''biasuncertaintyns''),
      (''driftNsps'', get (ty ''GnssMeasurementsClock.driftNsps'') ''driftnsps''),
      (''driftUncertaintyNsps'', get (ty ''GnssMeasurementsClock.driftUncertaintyNsps'') ''driftuncertaintynsps''),
      (''hwClockDiscontinuityCount'', get (ty ''GnssMeasurementsClock.hwClockDiscontinuityCount'') ''hwclockdiscontinuitycount''),
      (''elapsedRealTime'', get (ty ''GnssMeasurementsClock.elapsedRealTime'') ''elapsedrealtime''),
      (''elapsedRealTimeUnc'', get (ty ''GnssMeasurementsClock.elapsedRealTimeUnc'') ''elapsedrealtimeunc''),
      (''elapsedgPTPTime'', get (ty ''GnssMeasurementsClock.elapsedgPTPTime'') ''elapsedgptptime''),
      (''elapsedgPTPTimeUnc'', get (ty ''GnssMeasurementsClock.elapsedgPTPTimeUnc'') ''elapsedgptptimeunc'')]"

definition pbConvertToGnssMeasNotification :: "hal_values \<Rightarrow> member_types \<Rightarrow> struct \<Rightarrow> struct \<Rightarrow> struct option" where
  "pbConvertToGnssMeasNotification hal ty = assign
     [(''size'', set_to (hal ''sizeof(GnssMeasurementsNotification)'')),
      (''count'', size_of (ty ''GnssMeasurementsNotification.count'') ''measurements''),
      (''measurements'', fill (hal ''lengthof(GnssMeasurementsNotification.measurements)'') ''measurements''
        (to_struct (pbConvertToGnssMeasurementsData hal ty)) (all_of ''measurements'')),
      (''clock'', into ''clock'' (pbConvertToGnssMeasurementsClock hal ty) ''clock''),
      (''isNhz'', get (ty ''GnssMeasurementsNotification.isNhz'') ''isnhz''),
      (''agcStatusL1'', get_enum (getEnumForPBAgcStatus hal) ''agcstatusl1''),
      (''agcStatusL2'', get_enum (getEnumForPBAgcStatus hal) ''agcstatusl2''),
      (''agcStatusL5'', get_enum (getEnumForPBAgcStatus hal) ''agcstatusl5'')]"

definition pbConvertToLeapSecChgInfo :: "hal_values \<Rightarrow> member_types \<Rightarrow> struct \<Rightarrow> struct \<Rightarrow> struct option" where
  "pbConvertToLeapSecChgInfo hal ty = assign
     [(''gpsTimestampLsChange'', into ''gpsTimestampLsChange'' (pbConvertToGnssSystemTimeStructType hal ty) ''gpstimestamplschange''),
      (''leapSecondsBeforeChange'', get (ty ''LeapSecondChangeInfo.leapSecondsBeforeChange'') ''leapsecondsbeforechange''),
      (''leapSecondsAfterChange'', get (ty ''LeapSecondChangeInfo.leapSecondsAfterChange'') ''leapsecondsafterchange'')]"

definition pbConvertToLeapSecSysInfo :: "hal_values \<Rightarrow> member_types \<Rightarrow> struct \<Rightarrow> struct \<Rightarrow> struct option" where
  "pbConvertToLeapSecSysInfo hal ty = assign
     [(''leapSecondInfoMask'', get_mask (getLeapSecSysInfoMaskFromPB hal) ''leapsecondinfomask''),
      (''leapSecondCurrent'', get (ty ''LeapSecondSystemInfo.leapSecondCurrent'') ''leapsecondcurrent''),
      (''leapSecondChangeInfo'', into ''leapSecondChangeInfo'' (pbConvertToLeapSecChgInfo hal ty) ''leapsecondchangeinfo'')]"

definition pbConvertToLocationSystemInfo :: "hal_values \<Rightarrow> member_types \<Rightarrow> struct \<Rightarrow> struct \<Rightarrow> struct option" where
  "pbConvertToLocationSystemInfo hal ty = assign
     [(''systemInfoMask'', get_mask (getLocationSystemInfoMaskFromPB hal) ''systeminfomask''),
      (''leapSecondSysInfo'', into ''leapSecondSysInfo'' (pbConvertToLeapSecSysInfo hal ty) ''leapsecondsysinfo'')]"

definition pbConvertToLocationOptions :: "hal_values \<Rightarrow> member_types \<Rightarrow> struct \<Rightarrow> struct \<Rightarrow> struct option" where
  "pbConvertToLocationOptions hal ty = assign
     [(''size'', set_to (hal ''sizeof(LocationOptions)'')),
      (''minInterval'', get (ty ''LocationOptions.minInterval'') ''mininterval''),
      (''minDistance'', get (ty ''LocationOptions.minDistance'') ''mindistance''),
      (''mode'', get_enum (getEnumForPBGnssSuplMode hal) ''mode''),
      (''locReqEngTypeMask'', get_mask (getLocReqEngineTypeMaskFromPB hal) ''locreqengtypemask''),
      (''qualityLevelAccepted'', get_enum (getEnumForPBFixQualityLevel hal) ''qualitylevelaccepted'')]"

definition pbConvertToGeofenceOption :: "hal_values \<Rightarrow> member_types \<Rightarrow> struct \<Rightarrow> struct \<Rightarrow> struct option" where
  "pbConvertToGeofenceOption hal ty = assign
     [(''size'', set_to (hal ''sizeof(GeofenceOption)'')),
      (''breachTypeMask'', get_mask (getGfBreachTypeMaskFromPB hal) ''breachtypemask''),
      (''responsiveness'', get (ty ''GeofenceOption.responsiveness'') ''responsiveness''),
      (''dwellTime'', get (ty ''GeofenceOption.dwellTime'') ''dwelltime'')]"

definition pbConvertToGeofenceInfo :: "hal_values \<Rightarrow> member_types \<Rightarrow> struct \<Rightarrow> struct \<Rightarrow> struct option" where
  "pbConvertToGeofenceInfo hal ty = assign
     [(''size'', set_to (hal ''sizeof(GeofenceInfo)'')),
      (''latitude'', get (ty ''GeofenceInfo.latitude'') ''latitude''),
      (''longitude'', get (ty ''GeofenceInfo.longitude'') ''longitude''),
      (''radius'', get (ty ''GeofenceInfo.radius'') ''radius'')]"

definition pbConvertToGfAddReqPayload :: "hal_values \<Rightarrow> member_types \<Rightarrow> struct \<Rightarrow> struct \<Rightarrow> struct option" where
  "pbConvertToGfAddReqPayload hal ty = assign
     [(''count'', size_of (fit UInt32) ''gfpayload''),
      (''gfPayload'', fill MAX_GEOFENCE_ENTRY ''gfPayload'' (to_struct (assign
        [(''gfClientId'', get (fit UInt32) ''gfclientid''),
         (''gfOption'', into ''gfOption'' (pbConvertToGeofenceOption hal ty) ''gfoption''),
         (''gfInfo'', into ''gfInfo'' (pbConvertToGeofenceInfo hal ty) ''gfinfo'')])) (all_of ''gfpayload''))]"

definition pbConvertToGfReqClientIdPayload :: "hal_values \<Rightarrow> member_types \<Rightarrow> struct \<Rightarrow> struct \<Rightarrow> struct option" where
  "pbConvertToGfReqClientIdPayload hal ty = assign
     [(''count'', size_of (fit UInt32) ''gfids''),
      (''gfIds'', fill MAX_GEOFENCE_ENTRY ''gfIds'' (to_number (fit UInt32))
        (first_of (\<lambda>s d. fit UInt32 (num (d ''count''))) ''gfids''))]"

definition pbConvertToGnssSvTypeConfig :: "hal_values \<Rightarrow> member_types \<Rightarrow> struct \<Rightarrow> struct \<Rightarrow> struct option" where
  "pbConvertToGnssSvTypeConfig hal ty = assign
     [(''size'', set_to (hal ''sizeof(GnssSvTypeConfig)'')),
      (''enabledSvTypesMask'', get_mask (getGnssSvTypesMaskFromPB hal) ''enabledsvtypesmask''),
      (''blacklistedSvTypesMask'', get_mask (getGnssSvTypesMaskFromPB hal) ''blacklistedsvtypesmask'')]"

definition pbConvertToGnssSvIdConfig :: "hal_values \<Rightarrow> member_types \<Rightarrow> struct \<Rightarrow> struct \<Rightarrow> struct option" where
  "pbConvertToGnssSvIdConfig hal ty = assign
     [(''size'', set_to (hal ''sizeof(GnssSvIdConfig)'')),
      (''gloBlacklistSvMask'', get (ty ''GnssSvIdConfig.gloBlacklistSvMask'') ''globlacklistsvmask''),
      (''bdsBlacklistSvMask'', get (ty ''GnssSvIdConfig.bdsBlacklistSvMask'') ''bdsblacklistsvmask''),
      (''qzssBlacklistSvMask'', get (ty ''GnssSvIdConfig.qzssBlacklistSvMask'') ''qzssblacklistsvmask''),
      (''galBlacklistSvMask'', get (ty ''GnssSvIdConfig.galBlacklistSvMask'') ''galblacklistsvmask''),
      (''sbasBlacklistSvMask'', get (ty ''GnssSvIdConfig.sbasBlacklistSvMask'') ''sbasblacklistsvmask''),
      (''navicBlacklistSvMask'', get (ty ''GnssSvIdConfig.navicBlacklistSvMask'') ''navicblacklistsvmask''),
      (''gpsBlacklistSvMask'', get (ty ''GnssSvIdConfig.gpsBlacklistSvMask'') ''gpsblacklistsvmask'')]"

definition pbConvertToGnssAidingData :: "hal_values \<Rightarrow> member_types \<Rightarrow> struct \<Rightarrow> struct \<Rightarrow> struct option" where
  "pbConvertToGnssAidingData hal ty = assign
     [(''deleteAll'', get (ty ''GnssAidingData.deleteAll'') ''deleteall''),
      (''sv'', in_member ''sv'' [(''svMask'', get_mask (getGnssAidingDataSvMaskFromPB hal) ''gnssaidingdatasvmask''), (''svTypeMask'', set_to (hal ''GNSS_AIDING_DATA_SV_TYPE_MASK_ALL''))]),
      (''dreAidingDataMask'', get_mask (getDrEngineAidingDataMaskFromPB hal) ''dreaidingdatamask''),
      (''posEngineMask'', get_mask (getEnumForPBPositioningEngineMask hal) ''posenginemask'')]"

definition pbConvertToLeverArmParams :: "hal_values \<Rightarrow> member_types \<Rightarrow> struct \<Rightarrow> struct \<Rightarrow> struct option" where
  "pbConvertToLeverArmParams hal ty = assign
     [(''forwardOffsetMeters'', get (ty ''LeverArmParams.forwardOffsetMeters'') ''forwardoffsetmeters''),
      (''sidewaysOffsetMeters'', get (ty ''LeverArmParams.sidewaysOffsetMeters'') ''sidewaysoffsetmeters''),
      (''upOffsetMeters'', get (ty ''LeverArmParams.upOffsetMeters'') ''upoffsetmeters'')]"

definition pbConvertToLeverArmConfigInfo :: "hal_values \<Rightarrow> member_types \<Rightarrow> struct \<Rightarrow> struct \<Rightarrow> struct option" where
  "pbConvertToLeverArmConfigInfo hal ty = assign
     [(''leverArmValidMask'', get_mask (getLeverArmTypeMaskFromPB hal) ''leverarmvalidmask''),
      (''gnssToVRP'', into ''gnssToVRP'' (pbConvertToLeverArmParams hal ty) ''gnsstovrp''),
      (''drImuToGnss'', into ''drImuToGnss'' (pbConvertToLeverArmParams hal ty) ''drimutognss''),
      (''veppImuToGnss'', into ''veppImuToGnss'' (pbConvertToLeverArmParams hal ty) ''veppimutognss'')]"

definition pbConvertToBodyToSensorMountParams :: "hal_values \<Rightarrow> member_types \<Rightarrow> struct \<Rightarrow> struct \<Rightarrow> struct option" where
  "pbConvertToBodyToSensorMountParams hal ty = assign
     [(''rollOffset'', get (ty ''BodyToSensorMountParams.rollOffset'') ''rolloffset''),
      (''yawOffset'', get (ty ''BodyToSensorMountParams.yawOffset'') ''yawoffset''),
      (''pitchOffset'', get (ty ''BodyToSensorMountParams.pitchOffset'') ''pitchoffset''),
      (''offsetUnc'', get (ty ''BodyToSensorMountParams.offsetUnc'') ''offsetunc'')]"

definition pbConvertToDeadReckoningEngineConfig :: "hal_values \<Rightarrow> member_types \<Rightarrow> struct \<Rightarrow> struct \<Rightarrow> struct option" where
  "pbConvertToDeadReckoningEngineConfig hal ty = assign
     [(''validMask'', get_mask (getDeadReckoningEngineConfigValidMaskFromPB hal) ''validmask''),
      (''bodyToSensorMountParams'', into ''bodyToSensorMountParams'' (pbConvertToBodyToSensorMountParams hal ty) ''bodytosensormountparams''),
      (''vehicleSpeedScaleFactor'', get (ty ''DeadReckoningEngineConfig.vehicleSpeedScaleFactor'') ''vehiclespeedscalefactor''),
      (''vehicleSpeedScaleFactorUnc'', get (ty ''DeadReckoningEngineConfig.vehicleSpeedScaleFactorUnc'') ''vehiclespeedscalefactorunc''),
      (''gyroScaleFactor'', get (ty ''DeadReckoningEngineConfig.gyroScaleFactor'') ''gyroscalefactor''),
      (''gyroScaleFactorUnc'', get (ty ''DeadReckoningEngineConfig.gyroScaleFactorUnc'') ''gyroscalefactorunc'')]"

definition pbConvertToGnssTimespec :: "hal_values \<Rightarrow> member_types \<Rightarrow> struct \<Rightarrow> struct \<Rightarrow> struct option" where
  "pbConvertToGnssTimespec hal ty = assign
     [(''tv_sec'', get (ty ''timespec.tv_sec'') ''tv_sec''),
      (''tv_nsec'', get (ty ''timespec.tv_nsec'') ''tv_nsec'')]"

definition pbConvertToGnssDebugTime :: "hal_values \<Rightarrow> member_types \<Rightarrow> struct \<Rightarrow> struct \<Rightarrow> struct option" where
  "pbConvertToGnssDebugTime hal ty = assign
     [(''size'', set_to (hal ''sizeof(GnssDebugTime)'')),
      (''mValid'', get (ty ''GnssDebugTime.mValid'') ''valid''),
      (''timeEstimate'', get (ty ''GnssDebugTime.timeEstimate'') ''timeestimate''),
      (''timeUncertaintyNs'', get (ty ''GnssDebugTime.timeUncertaintyNs'') ''timeuncertaintyns''),
      (''frequencyUncertaintyNsPerSec'', get (ty ''GnssDebugTime.frequencyUncertaintyNsPerSec'') ''frequencyuncertaintynspersec'')]"

definition pbConvertToGnssDebugLocation :: "hal_values \<Rightarrow> member_types \<Rightarrow> struct \<Rightarrow> struct \<Rightarrow> struct option" where
  "pbConvertToGnssDebugLocation hal ty = assign
     [(''size'', set_to (hal ''sizeof(GnssDebugLocation)'')),
      (''mValid'', get (ty ''GnssDebugLocation.mValid'') ''valid''),
      (''mLocation'', into ''mLocation'' (pbConvertToLocation hal ty) ''location''),
      (''verticalAccuracyMeters'', get (ty ''GnssDebugLocation.verticalAccuracyMeters'') ''verticalaccuracymeters''),
      (''speedAccuracyMetersPerSecond'', get (ty ''GnssDebugLocation.speedAccuracyMetersPerSecond'') ''speedaccuracymeterspersecond''),
      (''bearingAccuracyDegrees'', get (ty ''GnssDebugLocation.bearingAccuracyDegrees'') ''bearingaccuracydegrees''),
      (''mUtcReported'', into ''mUtcReported'' (pbConvertToGnssTimespec hal ty) ''utcreported'')]"

definition pbConvertToGnssDebugSatelliteInfo :: "hal_values \<Rightarrow> member_types \<Rightarrow> struct \<Rightarrow> struct \<Rightarrow> struct option" where
  "pbConvertToGnssDebugSatelliteInfo hal ty = assign
     [(''size'', set_to (hal ''sizeof(GnssDebugSatelliteInfo)'')),
      (''svid'', get (ty ''GnssDebugSatelliteInfo.svid'') ''svid''),
      (''constellation'', get_enum (getGnssSvTypeFromPBGnssLocSvSystemEnumType hal) ''constellation''),
      (''mEphemerisType'', get_enum (getEnumForPBGnssEphemerisType hal) ''ephemeristype''),
      (''mEphemerisSource'', get_enum (getEnumForPBGnssEphemerisSource hal) ''ephemerissource''),
      (''mEphemerisHealth'', get_enum (getEnumForPBGnssEphemerisHealth hal) ''ephemerishealth''),
      (''ephemerisAgeSeconds'', get (ty ''GnssDebugSatelliteInfo.ephemerisAgeSeconds'') ''ephemerisageseconds''),
      (''serverPredictionIsAvailable'', get (ty ''GnssDebugSatelliteInfo.serverPredictionIsAvailable'') ''serverpredictionisavailable''),
      (''serverPredictionAgeSeconds'', get (ty ''GnssDebugSatelliteInfo.serverPredictionAgeSeconds'') ''serverpredictionageseconds'')]"

definition pbConvertToGnssDebugReport :: "hal_values \<Rightarrow> member_types \<Rightarrow> struct \<Rightarrow> struct \<Rightarrow> struct option" where
  "pbConvertToGnssDebugReport hal ty = assign
     [(''mLocation'', into ''mLocation'' (pbConvertToGnssDebugLocation hal ty) ''location''),
      (''mTime'', by_value ''mTime'' (pbConvertToGnssDebugTime hal ty) ''time''),
      (''mSatelliteInfo'', push ''mSatelliteInfo'' (message (pbConvertToGnssDebugSatelliteInfo hal ty)) ''satelliteinfo''),
      (''size'', set_to (hal ''sizeof(GnssDebugReport)''))]"

definition pbConvertToGnssCoordinate :: "hal_values \<Rightarrow> member_types \<Rightarrow> struct \<Rightarrow> struct \<Rightarrow> struct option" where
  "pbConvertToGnssCoordinate hal ty = assign
     [(''size'', set_to (hal ''sizeof(GnssCoordinate)'')),
      (''x'', get (ty ''GnssCoordinate.x'') ''x''),
      (''xUncertainty'', get (ty ''GnssCoordinate.xUncertainty'') ''xuncertainty''),
      (''y'', get (ty ''GnssCoordinate.y'') ''y''),
      (''yUncertainty'', get (ty ''GnssCoordinate.yUncertainty'') ''yuncertainty''),
      (''z'', get (ty ''GnssCoordinate.z'') ''z''),
      (''zUncertainty'', get (ty ''GnssCoordinate.zUncertainty'') ''zuncertainty'')]"

definition pbConvertTo2DimensionDoubleVector :: "struct \<Rightarrow> cval list \<Rightarrow> cval list option" where
  "pbConvertTo2DimensionDoubleVector pb doubleArrays =
    (let row = nat (num (pb ''row'')); column = nat (num (pb ''column''));
         value = (\<lambda>k. if k < length (elements (pb ''value'')) then Some (Num (num (elements (pb ''value'') ! k))) else None)
     in map_option ((@) doubleArrays) (all_some (map (\<lambda>i. map_option Seq
          (all_some (map (\<lambda>j. value ((i * column + j) mod 2 ^ 32)) [0..<column]))) [0..<row])))"

definition pbConvertToGnssAntennaInformaiton :: "hal_values \<Rightarrow> member_types \<Rightarrow> struct \<Rightarrow> struct \<Rightarrow> struct option" where
  "pbConvertToGnssAntennaInformaiton hal ty = assign
     [(''size'', set_to (hal ''sizeof(GnssAntennaInformation)'')),
      (''carrierFrequencyMHz'', get (ty ''GnssAntennaInformation.carrierFrequencyMHz'') ''carrierfrequencymhz''),
      (''phaseCenterOffsetCoordinateMillimeters'', into ''phaseCenterOffsetCoordinateMillimeters'' (pbConvertToGnssCoordinate hal ty) ''phasecenteroffsetcoordinatemillimeters''),
      (''phaseCenterVariationCorrectionMillimeters'', (\<lambda>s d. map_option Seq (pbConvertTo2DimensionDoubleVector (obj (s ''phasecentervariationcorrectionmillimeters'')) (elements (d ''phaseCenterVariationCorrectionMillimeters''))))),
      (''phaseCenterVariationCorrectionUncertaintyMillimeters'', (\<lambda>s d. map_option Seq (pbConvertTo2DimensionDoubleVector (obj (s ''phasecentervariationcorrectionuncertaintymillimeters'')) (elements (d ''phaseCenterVariationCorrectionUncertaintyMillimeters''))))),
      (''signalGainCorrectionDbi'', (\<lambda>s d. map_option Seq (pbConvertTo2DimensionDoubleVector (obj (s ''signalgaincorrectiondbi'')) (elements (d ''signalGainCorrectionDbi''))))),
      (''signalGainCorrectionUncertaintyDbi'', (\<lambda>s d. map_option Seq (pbConvertTo2DimensionDoubleVector (obj (s ''signalgaincorrectionuncertaintydbi'')) (elements (d ''signalGainCorrectionUncertaintyDbi'')))))]"

definition pbConvertToAntennaInfo :: "hal_values \<Rightarrow> member_types \<Rightarrow> struct \<Rightarrow> struct \<Rightarrow> struct option" where
  "pbConvertToAntennaInfo hal ty = assign
     [(''antennaInfos'', push ''antennaInfos'' (message (pbConvertToGnssAntennaInformaiton hal ty)) ''antennainfos'')]"

definition pbConvertToCommanEph :: "hal_values \<Rightarrow> member_types \<Rightarrow> struct \<Rightarrow> struct \<Rightarrow> struct option" where
  "pbConvertToCommanEph hal ty = assign
     [(''gnssSvId'', get (ty ''GnssEphCommon.gnssSvId'') ''gnsssvid''),
      (''updateAction'', get_enum (pbConvertToEphAction hal) ''ephaction''),
      (''IODE'', get (ty ''GnssEphCommon.IODE'') ''iode''),
      (''aSqrt'', get (ty ''GnssEphCommon.aSqrt'') ''asqrt''),
      (''deltaN'', get (ty ''GnssEphCommon.deltaN'') ''deltan''),
      (''m0'', get (ty ''GnssEphCommon.m0'') ''m0''),
      (''eccentricity'', get (ty ''GnssEphCommon.eccentricity'') ''eccentricity''),
      (''omega0'', get (ty ''GnssEphCommon.omega0'') ''omega0''),
      (''i0'', get (ty ''GnssEphCommon.i0'') ''i0''),
      (''omega'', get (ty ''GnssEphCommon.omega'') ''omega''),
      (''omegaDot'', get (ty ''GnssEphCommon.omegaDot'') ''omegadot''),
      (''iDot'', get (ty ''GnssEphCommon.iDot'') ''idot''),
      (''cUc'', get (ty ''GnssEphCommon.cUc'') ''cuc''),
      (''cUs'', get (ty ''GnssEphCommon.cUs'') ''cus''),
      (''cRc'', get (ty ''GnssEphCommon.cRc'') ''crc''),
      (''cRs'', get (ty ''GnssEphCommon.cRs'') ''crs''),
      (''cIc'', get (ty ''GnssEphCommon.cIc'') ''cic''),
      (''cIs'', get (ty ''GnssEphCommon.cIs'') ''cis''),
      (''toe'', get (ty ''GnssEphCommon.toe'') ''toe''),
      (''toc'', get (ty ''GnssEphCommon.toc'') ''toc''),
      (''af0'', get (ty ''GnssEphCommon.af0'') ''af0''),
      (''af1'', get (ty ''GnssEphCommon.af1'') ''af1''),
      (''af2'', get (ty ''GnssEphCommon.af2'') ''af2'')]"

definition pbConvertToGpsEphData :: "hal_values \<Rightarrow> member_types \<Rightarrow> struct \<Rightarrow> struct \<Rightarrow> struct option" where
  "pbConvertToGpsEphData hal ty = assign
     [(''commonEphemerisData'', into ''commonEphemerisData'' (pbConvertToCommanEph hal ty) ''commonephemerisdata''),
      (''signalHealth'', get (ty ''GpsEphemeris.signalHealth'') ''signalhealth''),
      (''URAI'', get (ty ''GpsEphemeris.URAI'') ''urai''),
      (''codeL2'', get (ty ''GpsEphemeris.codeL2'') ''codel2''),
      (''dataFlagL2P'', get (ty ''GpsEphemeris.dataFlagL2P'') ''dataflagl2p''),
      (''tgd'', get (ty ''GpsEphemeris.tgd'') ''tgd''),
      (''fitInterval'', get (ty ''GpsEphemeris.fitInterval'') ''fitinterval''),
      (''IODC'', get (ty ''GpsEphemeris.IODC'') ''iodc'')]"

definition pbConvertToGpsExtendedEph :: "hal_values \<Rightarrow> member_types \<Rightarrow> struct \<Rightarrow> struct \<Rightarrow> struct option" where
  "pbConvertToGpsExtendedEph hal ty = assign
     [(''gnssSvId'', get (ty ''GpsExtendedEphemeris.gnssSvId'') ''gnsssvid''),
      (''validityMask'', get (ty ''GpsExtendedEphemeris.validityMask'') ''validitymask''),
      (''iscL1ca'', get (ty ''GpsExtendedEphemeris.iscL1ca'') ''iscl1ca''),
      (''iscL2c'', get (ty ''GpsExtendedEphemeris.iscL2c'') ''iscl2c''),
      (''iscL5I5'', get (ty ''GpsExtendedEphemeris.iscL5I5'') ''iscl5i5''),
      (''iscL5Q5'', get (ty ''GpsExtendedEphemeris.iscL5Q5'') ''iscl5q5''),
      (''alert'', get (ty ''GpsExtendedEphemeris.alert'') ''alert''),
      (''uraNed0'', get (ty ''GpsExtendedEphemeris.uraNed0'') ''uraned0''),
      (''uraNed1'', get (ty ''GpsExtendedEphemeris.uraNed1'') ''uraned1''),
      (''uraNed2'', get (ty ''GpsExtendedEphemeris.uraNed2'') ''uraned2''),
      (''top'', get (ty ''GpsExtendedEphemeris.top'') ''top''),
      (''topClock'', get (ty ''GpsExtendedEphemeris.topClock'') ''topclock''),
      (''validityPeriod'', get (ty ''GpsExtendedEphemeris.validityPeriod'') ''validityperiod''),
      (''deltaNdot'', get (ty ''GpsExtendedEphemeris.deltaNdot'') ''deltandot''),
      (''deltaA'', get (ty ''GpsExtendedEphemeris.deltaA'') ''deltaa''),
      (''adot'', get (ty ''GpsExtendedEphemeris.adot'') ''adot'')]"

definition pbConvertToGpsEphResponse :: "hal_values \<Rightarrow> member_types \<Rightarrow> struct \<Rightarrow> struct \<Rightarrow> struct option" where
  "pbConvertToGpsEphResponse hal ty = assign
     [(''numOfEphemeris'', size_of (ty ''GpsEphemerisResponse.numOfEphemeris'') ''gpsephemerisdata''),
      (''gpsEphemerisData'', fill (hal ''lengthof(GpsEphemerisResponse.gpsEphemerisData)'') ''gpsEphemerisData'' (to_struct (pbConvertToGpsEphData hal ty))
        (first_of (\<lambda>s d. num (d ''numOfEphemeris'')) ''gpsephemerisdata'')),
      (''dataSourceSignal'', get (ty ''GpsEphemerisResponse.dataSourceSignal'') ''datasourcesignal''),
      (''validDataSourceSignal'', get (ty ''GpsEphemerisResponse.validDataSourceSignal'') ''validdatasourcesignal''),
      (''validExtendedEphData'', get (ty ''GpsEphemerisResponse.validExtendedEphData'') ''validextendedephdata''),
      (''numOfExtendedEphemeris'', get (ty ''GpsEphemerisResponse.numOfExtendedEphemeris'') ''numofextendedephemeris''),
      (''gpsExtEphemerisData'', fill (hal ''lengthof(GpsEphemerisResponse.gpsExtEphemerisData)'') ''gpsExtEphemerisData'' (to_struct (pbConvertToGpsExtendedEph hal ty))
        (first_of (\<lambda>s d. num (d ''numOfExtendedEphemeris'')) ''gpsextephemerisdata''))]"

definition pbConvertToBdsExtendedEph :: "hal_values \<Rightarrow> member_types \<Rightarrow> struct \<Rightarrow> struct \<Rightarrow> struct option" where
  "pbConvertToBdsExtendedEph hal ty = assign
     [(''gnssSvId'', get (ty ''BdsExtendedEphemeris.gnssSvId'') ''gnsssvid''),
      (''validityMask'', get (ty ''BdsExtendedEphemeris.validityMask'') ''validitymask''),
      (''tgdB2a'', get (ty ''BdsExtendedEphemeris.tgdB2a'') ''tgdb2a''),
      (''iscB2a'', get (ty ''BdsExtendedEphemeris.iscB2a'') ''iscb2a''),
      (''tgdB1c'', get (ty ''BdsExtendedEphemeris.tgdB1c'') ''tgdb1c''),
      (''iscB1c'', get (ty ''BdsExtendedEphemeris.iscB1c'') ''iscb1c''),
      (''svType'', get (ty ''BdsExtendedEphemeris.svType'') ''svtype''),
      (''validityPeriod'', get (ty ''BdsExtendedEphemeris.validityPeriod'') ''validityperiod''),
      (''integrityFlags'', get (ty ''BdsExtendedEphemeris.integrityFlags'') ''integrityflags''),
      (''deltaNdot'', get (ty ''BdsExtendedEphemeris.deltaNdot'') ''deltandot''),
      (''deltaA'', get (ty ''BdsExtendedEphemeris.deltaA'') ''deltaa''),
      (''adot'', get (ty ''BdsExtendedEphemeris.adot'') ''adot'')]"

definition pbConvertToBdsEphData :: "hal_values \<Rightarrow> member_types \<Rightarrow> struct \<Rightarrow> struct \<Rightarrow> struct option" where
  "pbConvertToBdsEphData hal ty = assign
     [(''commonEphemerisData'', into ''commonEphemerisData'' (pbConvertToCommanEph hal ty) ''commonephemerisdata''),
      (''svHealth'', get (ty ''BdsEphemeris.svHealth'') ''svhealth''),
      (''AODC'', get (ty ''BdsEphemeris.AODC'') ''aodc''),
      (''tgd1'', get (ty ''BdsEphemeris.tgd1'') ''tgd1''),
      (''tgd2'', get (ty ''BdsEphemeris.tgd2'') ''tgd2''),
      (''URAI'', get (ty ''BdsEphemeris.URAI'') ''urai'')]"

definition pbConvertToBdsEphResponse :: "hal_values \<Rightarrow> member_types \<Rightarrow> struct \<Rightarrow> struct \<Rightarrow> struct option" where
  "pbConvertToBdsEphResponse hal ty = assign
     [(''numOfEphemeris'', size_of (ty ''BdsEphemerisResponse.numOfEphemeris'') ''bdsephemerisdata''),
      (''bdsEphemerisData'', fill (hal ''lengthof(BdsEphemerisResponse.bdsEphemerisData)'') ''bdsEphemerisData'' (to_struct (pbConvertToBdsEphData hal ty))
        (first_of (\<lambda>s d. num (d ''numOfEphemeris'')) ''bdsephemerisdata'')),
      (''dataSourceSignal'', get (ty ''BdsEphemerisResponse.dataSourceSignal'') ''datasourcesignal''),
      (''validDataSourceSignal'', get (ty ''BdsEphemerisResponse.validDataSourceSignal'') ''validdatasourcesignal''),
      (''validExtendedEphData'', get (ty ''BdsEphemerisResponse.validExtendedEphData'') ''validextendedephdata''),
      (''numOfExtendedEphemeris'', get (ty ''BdsEphemerisResponse.numOfExtendedEphemeris'') ''numofextendedephemeris''),
      (''bdsExtEphemerisData'', fill (hal ''lengthof(BdsEphemerisResponse.bdsExtEphemerisData)'') ''bdsExtEphemerisData'' (to_struct (pbConvertToBdsExtendedEph hal ty))
        (first_of (\<lambda>s d. num (d ''numOfExtendedEphemeris'')) ''bdsextephemerisdata''))]"

definition pbConvertToGlonassEphData :: "hal_values \<Rightarrow> member_types \<Rightarrow> struct \<Rightarrow> struct \<Rightarrow> struct option" where
  "pbConvertToGlonassEphData hal ty = assign
     [(''gnssSvId'', get (ty ''GlonassEphemeris.gnssSvId'') ''gnsssvid''),
      (''updateAction'', get_enum (pbConvertToEphAction hal) ''ephaction''),
      (''bnHealth'', get (ty ''GlonassEphemeris.bnHealth'') ''bnhealth''),
      (''lnHealth'', get (ty ''GlonassEphemeris.lnHealth'') ''lnhealth''),
      (''tb'', get (ty ''GlonassEphemeris.tb'') ''tb''),
      (''ft'', get (ty ''GlonassEphemeris.ft'') ''ft''),
      (''gloM'', get (ty ''GlonassEphemeris.gloM'') ''glom''),
      (''enAge'', get (ty ''GlonassEphemeris.enAge'') ''enage''),
      (''gloFrequency'', get (ty ''GlonassEphemeris.gloFrequency'') ''glofrequency''),
      (''p1'', get (ty ''GlonassEphemeris.p1'') ''p1''),
      (''p2'', get (ty ''GlonassEphemeris.p2'') ''p2''),
      (''deltaTau'', get (ty ''GlonassEphemeris.deltaTau'') ''deltatau''),
      (''position'', fill 3 ''position'' (to_number (ty ''GlonassEphemeris.position[]'')) (first_of (\<lambda>s d. 3) ''position'')),
      (''velocity'', fill 3 ''velocity'' (to_number (ty ''GlonassEphemeris.velocity[]'')) (first_of (\<lambda>s d. 3) ''velocity'')),
      (''acceleration'', fill 3 ''acceleration'' (to_number (ty ''GlonassEphemeris.acceleration[]'')) (first_of (\<lambda>s d. 3) ''acceleration'')),
      (''tauN'', get (ty ''GlonassEphemeris.tauN'') ''taun''),
      (''gamma'', get (ty ''GlonassEphemeris.gamma'') ''gamma''),
      (''toe'', get (ty ''GlonassEphemeris.toe'') ''toe''),
      (''nt'', get (ty ''GlonassEphemeris.nt'') ''nt'')]"

definition pbConvertToGloEphResponse :: "hal_values \<Rightarrow> member_types \<Rightarrow> struct \<Rightarrow> struct \<Rightarrow> struct option" where
  "pbConvertToGloEphResponse hal ty = assign
     [(''numOfEphemeris'', size_of (ty ''GlonassEphemerisResponse.numOfEphemeris'') ''gloephemerisdata''),
      (''gloEphemerisData'', fill (hal ''lengthof(GlonassEphemerisResponse.gloEphemerisData)'') ''gloEphemerisData'' (to_struct (pbConvertToGlonassEphData hal ty))
        (first_of (\<lambda>s d. num (d ''numOfEphemeris'')) ''gloephemerisdata''))]"

definition pbConvertToGalileoEphData :: "hal_values \<Rightarrow> member_types \<Rightarrow> struct \<Rightarrow> struct \<Rightarrow> struct option" where
  "pbConvertToGalileoEphData hal ty = assign
     [(''commonEphemerisData'', into ''commonEphemerisData'' (pbConvertToCommanEph hal ty) ''commonephemerisdata''),
      (''dataSourceSignal'', get_enum (pbConvertToDataSourceSignal hal) ''datasourcesignal''),
      (''sisIndex'', get (ty ''GalileoEphemeris.sisIndex'') ''sisindex''),
      (''bgdE1E5a'', get (ty ''GalileoEphemeris.bgdE1E5a'') ''bgde1e5a''),
      (''bgdE1E5b'', get (ty ''GalileoEphemeris.bgdE1E5b'') ''bgde1e5b''),
      (''svHealth'', get (ty ''GalileoEphemeris.svHealth'') ''svhealth'')]"

definition pbConvertToGalEphResponse :: "hal_values \<Rightarrow> member_types \<Rightarrow> struct \<Rightarrow> struct \<Rightarrow> struct option" where
  "pbConvertToGalEphResponse hal ty = assign
     [(''numOfEphemeris'', size_of (ty ''GalileoEphemerisResponse.numOfEphemeris'') ''galephemerisdata''),
      (''galEphemerisData'', fill (hal ''lengthof(GalileoEphemerisResponse.galEphemerisData)'') ''galEphemerisData'' (to_struct (pbConvertToGalileoEphData hal ty))
        (first_of (\<lambda>s d. num (d ''numOfEphemeris'')) ''galephemerisdata''))]"

definition pbConvertToQzssEphResponse :: "hal_values \<Rightarrow> member_types \<Rightarrow> struct \<Rightarrow> struct \<Rightarrow> struct option" where
  "pbConvertToQzssEphResponse hal ty = assign
     [(''numOfEphemeris'', size_of (ty ''QzssEphemerisResponse.numOfEphemeris'') ''qzssephemerisdata''),
      (''qzssEphemerisData'', fill (hal ''lengthof(QzssEphemerisResponse.qzssEphemerisData)'') ''qzssEphemerisData'' (to_struct (pbConvertToGpsEphData hal ty))
        (first_of (\<lambda>s d. num (d ''numOfEphemeris'')) ''qzssephemerisdata'')),
      (''dataSourceSignal'', get (ty ''QzssEphemerisResponse.dataSourceSignal'') ''datasourcesignal''),
      (''validDataSourceSignal'', get (ty ''QzssEphemerisResponse.validDataSourceSignal'') ''validdatasourcesignal''),
      (''validExtendedEphData'', get (ty ''QzssEphemerisResponse.validExtendedEphData'') ''validextendedephdata''),
      (''numOfExtendedEphemeris'', get (ty ''QzssEphemerisResponse.numOfExtendedEphemeris'') ''numofextendedephemeris''),
      (''qzssExtEphemerisData'', fill (hal ''lengthof(QzssEphemerisResponse.qzssExtEphemerisData)'') ''qzssExtEphemerisData'' (to_struct (pbConvertToGpsExtendedEph hal ty))
        (first_of (\<lambda>s d. num (d ''numOfExtendedEphemeris'')) ''qzssextephemerisdata''))]"

definition pbConvertToNavicEphData :: "hal_values \<Rightarrow> member_types \<Rightarrow> struct \<Rightarrow> struct \<Rightarrow> struct option" where
  "pbConvertToNavicEphData hal ty = assign
     [(''commonEphemerisData'', into ''commonEphemerisData'' (pbConvertToCommanEph hal ty) ''commonephemerisdata''),
      (''weekNum'', get (ty ''NavicEphemeris.weekNum'') ''weeknum''),
      (''iodec'', get (ty ''NavicEphemeris.iodec'') ''iodec''),
      (''l5Health'', get (ty ''NavicEphemeris.l5Health'') ''l5health''),
      (''sHealth'', get (ty ''NavicEphemeris.sHealth'') ''shealth''),
      (''inclinationAngleRad'', get (ty ''NavicEphemeris.inclinationAngleRad'') ''inclinationanglerad''),
      (''urai'', get (ty ''NavicEphemeris.urai'') ''urai''),
      (''tgd'', get (ty ''NavicEphemeris.tgd'') ''tgd'')]"

definition pbConvertToNavicEphResponse :: "hal_values \<Rightarrow> member_types \<Rightarrow> struct \<Rightarrow> struct \<Rightarrow> struct option" where
  "pbConvertToNavicEphResponse hal ty = assign
     [(''numOfEphemeris'', size_of (ty ''NavicEphemerisResponse.numOfEphemeris'') ''navicephemerisdata''),
      (''navicEphemerisData'', fill (hal ''lengthof(NavicEphemerisResponse.navicEphemerisData)'') ''navicEphemerisData'' (to_struct (pbConvertToNavicEphData hal ty))
        (first_of (\<lambda>s d. num (d ''numOfEphemeris'')) ''navicephemerisdata''))]"

definition pbConvertToSystemTime :: "hal_values \<Rightarrow> member_types \<Rightarrow> struct \<Rightarrow> struct \<Rightarrow> struct option" where
  "pbConvertToSystemTime hal ty = assign
     [(''validityMask'', get_mask (getGnssSystemTimeStructTypeFlagsFromPB hal) ''validitymask''),
      (''systemWeek'', get (ty ''GnssSystemTimeStructType.systemWeek'') ''systemweek''),
      (''systemMsec'', get (ty ''GnssSystemTimeStructType.systemMsec'') ''systemmsec''),
      (''systemClkTimeBias'', get (ty ''GnssSystemTimeStructType.systemClkTimeBias'') ''systemclktimebiasms''),
      (''systemClkTimeUncMs'', get (ty ''GnssSystemTimeStructType.systemClkTimeUncMs'') ''systemclktimebiasuncms''),
      (''refFCount'', get (ty ''GnssSystemTimeStructType.refFCount'') ''reffcount''),
      (''numClockResets'', get (ty ''GnssSystemTimeStructType.numClockResets'') ''numclockresets'')]"

definition pbConvertToGnssMmfData :: "hal_values \<Rightarrow> member_types \<Rightarrow> struct \<Rightarrow> struct \<Rightarrow> struct option" where
  "pbConvertToGnssMmfData hal ty = assign
     [(''validityMask'', get (ty ''GnssMapMatchedData.validityMask'') ''validitymask''),
      (''utcTimestampMs'', get (ty ''GnssMapMatchedData.utcTimestampMs'') ''utctimestampms''),
      (''mapMatchedLatitudeDifference'', get (ty ''GnssMapMatchedData.mapMatchedLatitudeDifference'') ''mapmatchedlatitudedifference''),
      (''mapMatchedLongitudeDifference'', get (ty ''GnssMapMatchedData.mapMatchedLongitudeDifference'') ''mapmatchedlongitudedifference''),
      (''isTunnel'', get (ty ''GnssMapMatchedData.isTunnel'') ''istunnel''),
      (''bearing'', get (ty ''GnssMapMatchedData.bearing'') ''bearing''),
      (''altitude'', get (ty ''GnssMapMatchedData.altitude'') ''altitude''),
      (''horizontalAccuracy'', get (ty ''GnssMapMatchedData.horizontalAccuracy'') ''horizontalaccuracy''),
      (''altitudeAccuracy'', get (ty ''GnssMapMatchedData.altitudeAccuracy'') ''altitudeaccuracy''),
      (''bearingAccuracy'', get (ty ''GnssMapMatchedData.bearingAccuracy'') ''bearingaccuracy'')]"

definition pbConvertToEphInfo :: "hal_values \<Rightarrow> member_types \<Rightarrow> int \<Rightarrow> struct \<Rightarrow> struct \<Rightarrow> struct option" where
  "pbConvertToEphInfo hal ty sys s d =
    (if sys = hal ''GNSS_LOC_SV_SYSTEM_GPS'' then select_one ''gpsEphemeris'' (into ''gpsEphemeris'' (pbConvertToGpsEphResponse hal ty) ''gpsephemeris'') s d
     else if sys = hal ''GNSS_LOC_SV_SYSTEM_GALILEO'' then select_one ''galileoEphemeris'' (into ''galileoEphemeris'' (pbConvertToGalEphResponse hal ty) ''galileoephemeris'') s d
     else if sys = hal ''GNSS_LOC_SV_SYSTEM_GLONASS'' then select_one ''glonassEphemeris'' (into ''glonassEphemeris'' (pbConvertToGloEphResponse hal ty) ''glonassephemeris'') s d
     else if sys = hal ''GNSS_LOC_SV_SYSTEM_BDS'' then select_one ''bdsEphemeris'' (into ''bdsEphemeris'' (pbConvertToBdsEphResponse hal ty) ''bdsephemeris'') s d
     else if sys = hal ''GNSS_LOC_SV_SYSTEM_QZSS'' then select_one ''qzssEphemeris'' (into ''qzssEphemeris'' (pbConvertToQzssEphResponse hal ty) ''qzssephemeris'') s d
     else if sys = hal ''GNSS_LOC_SV_SYSTEM_NAVIC'' then select_one ''navicEphemeris'' (into ''navicEphemeris'' (pbConvertToNavicEphResponse hal ty) ''navicephemeris'') s d
     else Some d)"

definition pbConvertToGnssEphNotif :: "hal_values \<Rightarrow> member_types \<Rightarrow> struct \<Rightarrow> struct \<Rightarrow> struct option" where
  "pbConvertToGnssEphNotif hal ty = assign
     [(''gnssConstellation'', get_enum (getEnumForPBGnssLocSvSystem hal) ''gnssconstellation''),
      (''isSystemTimeValid'', get (ty ''GnssSvEphemerisReport.isSystemTimeValid'') ''issystemtimevalid''),
      (''systemTime'', into ''systemTime'' (pbConvertToSystemTime hal ty) ''systemtime''),
      (''ephInfo'', (\<lambda>s d. map_option Obj (pbConvertToEphInfo hal ty (num (d ''gnssConstellation''))
        (obj (s ''ephunion'')) (obj (d ''ephInfo'')))))]"

end
