(* ===== verification/PbLaws.thy ===== *)
theory PbLaws
  imports PbStruct
begin

text \<open>
  The laws of the conversions of structures: when the assignments of a decoder undo those of an encoder.
  The rules \<open>matching\<close> take a pair of conversions apart, so that a pair is checked by resolution.
\<close>

section \<open>Structures and what they hold\<close>

text \<open>A structure with the members of \<open>S\<close>, each of the given kind, and no others, for which the conditions
  \<open>Q\<close> hold.\<close>

type_synonym shape = "(string \<times> (cval \<Rightarrow> bool)) list"

definition shaped :: "shape \<Rightarrow> (struct \<Rightarrow> bool) list \<Rightarrow> struct \<Rightarrow> bool" where
  "shaped S Q x \<longleftrightarrow> list_all (\<lambda>(m, p). p (x m)) S \<and> list_all (\<lambda>q. q x) Q \<and> (\<forall>m. m \<notin> fst ` set S \<longrightarrow> x m = Unset)"

definition is_scalar :: "pb_kind \<Rightarrow> (int \<Rightarrow> int) \<Rightarrow> cval \<Rightarrow> bool" where
  "is_scalar k c v \<longleftrightarrow> v = Num (num v) \<and> fit k (num v) = num v \<and> c (num v) = num v"

definition is_text :: "cval \<Rightarrow> bool" where
  "is_text v \<longleftrightarrow> v = Str (str v)"

definition is_chars :: "int \<Rightarrow> cval \<Rightarrow> bool" where
  "is_chars cap v \<longleftrightarrow> v = Str (str v) \<and> CHR 0x00 \<notin> set (str v) \<and> int (length (str v)) < cap"

definition is_obj :: "(struct \<Rightarrow> bool) \<Rightarrow> cval \<Rightarrow> bool" where
  "is_obj P v \<longleftrightarrow> v = Obj (obj v) \<and> P (obj v)"

definition is_seq :: "(cval \<Rightarrow> bool) \<Rightarrow> cval \<Rightarrow> bool" where
  "is_seq p v \<longleftrightarrow> v = Seq (elements v) \<and> list_all p (elements v)"

definition any_value :: "cval \<Rightarrow> bool" where
  "any_value v \<longleftrightarrow> True"

definition equals :: "int \<Rightarrow> cval \<Rightarrow> bool" where
  "equals i v \<longleftrightarrow> v = Num i"

text \<open>What the conversions promise: a valid structure is encoded into a message that is decoded into the
  same structure.\<close>

definition round_trips :: "(struct \<Rightarrow> bool) \<Rightarrow> (struct \<Rightarrow> struct \<Rightarrow> struct option) \<Rightarrow> (struct \<Rightarrow> struct \<Rightarrow> struct option) \<Rightarrow> bool" where
  "round_trips P enc dec \<longleftrightarrow> (\<forall>x. P x \<longrightarrow> (\<exists>pb. enc x fresh = Some pb \<and> dec pb fresh = Some x))"

text \<open>The assignments of an encoder read of the destination no more than the member they assign, and
  \<open>sent\<close> is what a message holds after them.\<close>

definition settles :: "(struct \<Rightarrow> bool) \<Rightarrow> string \<Rightarrow> (struct \<Rightarrow> struct \<Rightarrow> cval option) \<Rightarrow> bool" where
  "settles P f e \<longleftrightarrow> (\<forall>x. P x \<longrightarrow> (\<exists>v. \<forall>d. d f = Unset \<longrightarrow> e x d = Some v))"

fun settle :: "(struct \<Rightarrow> bool) \<Rightarrow> assignment list \<Rightarrow> bool" where
  "settle P [] \<longleftrightarrow> True"
| "settle P ((f, e) # E) \<longleftrightarrow> settles P f e \<and> settle P E"

definition sent :: "assignment list \<Rightarrow> struct \<Rightarrow> struct \<Rightarrow> bool" where
  "sent E x pb \<longleftrightarrow> (\<forall>(f, e) \<in> set E. e x fresh = Some (pb f))"

lemma assign_settled:
  assumes "settle P E" and "distinct (map fst E)" and "P x"
    and "\<forall>f \<in> fst ` set E. d f = Unset"
  shows "\<exists>pb. assign E x d = Some pb \<and> sent E x pb \<and> (\<forall>f. f \<notin> fst ` set E \<longrightarrow> pb f = d f)"
  using assms
proof (induction E arbitrary: d)
  case Nil
  then show ?case by (simp add: sent_def)
next
  case (Cons fe E)
  obtain f e where fe: "fe = (f, e)" by (cases fe)
  have "settles P f e" using Cons.prems(1) fe by simp
  with Cons.prems(3) obtain v where v: "\<And>d. d f = Unset \<Longrightarrow> e x d = Some v" unfolding settles_def by blast
  have "\<forall>g \<in> fst ` set E. (d(f := v)) g = Unset" using Cons.prems(2,4) fe by auto
  moreover have "settle P E" "distinct (map fst E)" using Cons.prems(1,2) fe by simp_all
  ultimately obtain pb where pb: "assign E x (d(f := v)) = Some pb" "sent E x pb"
      "\<forall>g. g \<notin> fst ` set E \<longrightarrow> pb g = (d(f := v)) g"
    using Cons.IH [of "d(f := v)"] Cons.prems(3) by blast
  have "pb f = v" using pb(3) Cons.prems(2) fe by force
  moreover have "e x fresh = Some v" using v by (simp add: fresh_def)
  ultimately have "sent (fe # E) x pb" using pb(2) fe by (simp add: sent_def)
  moreover have "assign (fe # E) x d = Some pb" using pb(1) v [of d] Cons.prems(4) fe by simp
  moreover have "\<forall>g. g \<notin> fst ` set (fe # E) \<longrightarrow> pb g = d g" using pb(3) fe by simp
  ultimately show ?case by blast
qed

text \<open>The assignments of a decoder, one after the other: each gives its member the value it had.\<close>

definition restores :: "(struct \<Rightarrow> bool) \<Rightarrow> assignment list \<Rightarrow> string set \<Rightarrow> string \<Rightarrow> (struct \<Rightarrow> struct \<Rightarrow> cval option) \<Rightarrow> bool" where
  "restores P E before m d \<longleftrightarrow>
     (\<forall>x pb y. P x \<longrightarrow> sent E x pb \<longrightarrow> y m = Unset \<longrightarrow> (\<forall>b \<in> before. y b = x b) \<longrightarrow> d pb y = Some (x m))"

fun restore :: "(struct \<Rightarrow> bool) \<Rightarrow> assignment list \<Rightarrow> string set \<Rightarrow> assignment list \<Rightarrow> bool" where
  "restore P E before [] \<longleftrightarrow> True"
| "restore P E before ((m, d) # D) \<longleftrightarrow> restores P E before m d \<and> restore P E (insert m before) D"

lemma assign_restored:
  assumes "restore P E before D" and "distinct (map fst D)" and "P x" and "sent E x pb"
    and "\<forall>m \<in> fst ` set D. y m = Unset" and "\<forall>b \<in> before. y b = x b" and "before \<inter> fst ` set D = {}"
  shows "assign D pb y = Some (\<lambda>m. if m \<in> fst ` set D then x m else y m)"
  using assms
proof (induction D arbitrary: y before)
  case Nil
  then show ?case by simp
next
  case (Cons md D)
  obtain m d where md: "md = (m, d)" by (cases md)
  have v: "d pb y = Some (x m)" using Cons.prems md by (auto simp: restores_def)
  have "assign D pb (y(m := x m)) = Some (\<lambda>n. if n \<in> fst ` set D then x n else (y(m := x m)) n)"
    by (rule Cons.IH [of "insert m before"]) (use Cons.prems md in auto)
  moreover have "(\<lambda>n. if n \<in> fst ` set D then x n else (y(m := x m)) n) = (\<lambda>n. if n \<in> fst ` set (md # D) then x n else y n)"
    using md by auto
  ultimately show ?case using v md by simp
qed

theorem assign_restored_all:
  assumes "restore (shaped S Q) E {} D" and "distinct (map fst D)" and "map fst S = map fst D"
    and x: "shaped S Q x" and "sent E x pb"
  shows "assign D pb fresh = Some x"
proof -
  have "assign D pb fresh = Some (\<lambda>m. if m \<in> fst ` set D then x m else fresh m)"
    by (rule assign_restored [OF assms(1,2,4,5)]) (simp_all add: fresh_def)
  moreover have "(\<lambda>m. if m \<in> fst ` set D then x m else fresh m) = x"
  proof
    have s: "fst ` set S = fst ` set D" using arg_cong [OF assms(3), of set] by simp
    fix m
    show "(if m \<in> fst ` set D then x m else fresh m) = x m"
      using x s by (cases "m \<in> fst ` set S") (auto simp: shaped_def fresh_def)
  qed
  ultimately show ?thesis by simp
qed

theorem assign_round_trips:
  assumes "settle (shaped S Q) E" and "restore (shaped S Q) E {} D"
    and "distinct (map fst E)" and "distinct (map fst D)" and "map fst S = map fst D"
  shows "round_trips (shaped S Q) (assign E) (assign D)"
  unfolding round_trips_def
proof (intro allI impI)
  fix x assume x: "shaped S Q x"
  obtain pb where pb: "assign E x fresh = Some pb" "sent E x pb"
    using assign_settled [OF assms(1,3) x, of fresh] by (auto simp: fresh_def)
  with assign_restored_all [OF assms(2,4,5) x] show "\<exists>pb. assign E x fresh = Some pb \<and> assign D pb fresh = Some x"
    by blast
qed

subsection \<open>Matching assignments\<close>

text \<open>An assignment of the encoder and the one of the decoder that undoes it, for values \<open>p\<close>.\<close>

definition undoes :: "(cval \<Rightarrow> bool) \<Rightarrow> string \<Rightarrow> string \<Rightarrow> (struct \<Rightarrow> struct \<Rightarrow> cval option) \<Rightarrow> (struct \<Rightarrow> struct \<Rightarrow> cval option) \<Rightarrow> bool" where
  "undoes p m f e d \<longleftrightarrow> (\<forall>x. p (x m) \<longrightarrow> (\<exists>v. (\<forall>q. q f = Unset \<longrightarrow> e x q = Some v) \<and>
     (\<forall>pb y. pb f = v \<longrightarrow> y m = Unset \<longrightarrow> d pb y = Some (x m))))"

lemma undoesI:
  assumes "\<And>x. p (x m) \<Longrightarrow> \<exists>v. (\<forall>q. q f = Unset \<longrightarrow> e x q = Some v) \<and> (\<forall>pb y. pb f = v \<longrightarrow> y m = Unset \<longrightarrow> d pb y = Some (x m))"
  shows "undoes p m f e d"
  using assms by (simp add: undoes_def)

lemma shapedD: "shaped S Q x \<Longrightarrow> (m, p) \<in> set S \<Longrightarrow> p (x m)"
  by (auto simp: shaped_def list_all_iff)

lemma shaped_conditionD: "shaped S Q x \<Longrightarrow> q \<in> set Q \<Longrightarrow> q x"
  unfolding shaped_def list_all_iff by blast

text \<open>The rules that take a pair of conversions apart, one assignment after the other.\<close>

named_theorems matching \<open>rules for the assignments of a pair of conversions\<close>

lemma settle_nil [matching]: "settle P []" by simp
lemma settle_cons [matching]: "settles P f e \<Longrightarrow> settle P E \<Longrightarrow> settle P ((f, e) # E)" by simp
lemma restore_nil [matching]: "restore P E before []" by simp
lemma restore_cons [matching]: "restores P E before m d \<Longrightarrow> restore P E (insert m before) D \<Longrightarrow> restore P E before ((m, d) # D)" by simp

lemmas list_members [matching] = list.set_intros
lemmas set_members [matching] = insertI1 insertI2

lemma restores_row [matching]:
  assumes "undoes p m f e d" and "(m, p) \<in> set S" and "(f, e) \<in> set E"
  shows "restores (shaped S Q) E before m d"
  unfolding restores_def
proof (intro allI impI)
  fix x pb y assume x: "shaped S Q x" and pb: "sent E x pb" and y: "y m = Unset"
  have "p (x m)" using shapedD [OF x assms(2)] .
  with assms(1) obtain v where v: "\<forall>q. q f = Unset \<longrightarrow> e x q = Some v"
      "\<forall>pb y. pb f = v \<longrightarrow> y m = Unset \<longrightarrow> d pb y = Some (x m)"
    unfolding undoes_def by blast
  have "e x fresh = Some (pb f)" using pb assms(3) by (auto simp: sent_def)
  moreover have "e x fresh = Some v" using v(1) by (simp add: fresh_def)
  ultimately show "d pb y = Some (x m)" using v(2) y by simp
qed

lemma settles_row:
  assumes "undoes p m f e d" and "(m, p) \<in> set S"
  shows "settles (shaped S Q) f e"
  unfolding settles_def
proof (intro allI impI)
  fix x assume "shaped S Q x"
  then have "p (x m)" using assms(2) by (blast intro: shapedD)
  with assms(1) show "\<exists>v. \<forall>d. d f = Unset \<longrightarrow> e x d = Some v" unfolding undoes_def by blast
qed

lemma settles_put [matching]: "settles P f (put k m)" by (simp add: settles_def put_def)
lemma settles_put_enum [matching]: "settles P f (put_enum c m)" by (simp add: settles_def put_enum_def)
lemma settles_put_mask [matching]: "settles P f (put_mask c m)" by (simp add: settles_def put_mask_def)
lemma settles_put_text [matching]: "settles P f (put_text m)" by (simp add: settles_def put_text_def)
lemma settles_put_chars [matching]: "settles P f (put_chars m)" by (simp add: settles_def put_chars_def)
lemma settles_set_to [matching]: "settles P f (set_to i)" by (simp add: settles_def set_to_def)

lemma undoes_plainI:
  assumes "\<And>x q. p (x m) \<Longrightarrow> e x q = Some (v (x m))" and "\<And>pb y w. p w \<Longrightarrow> pb f = v w \<Longrightarrow> d pb y = Some w"
  shows "undoes p m f e d"
  by (rule undoesI) (use assms in blast)

lemma undoes_get [matching]: "undoes (is_scalar k c) m f (put k m) (get c f)"
proof (rule undoes_plainI)
  show "get c f pb y = Some w" if "is_scalar k c w" "pb f = Num (fit k (num w))" for pb y w
    using that by (cases w) (simp_all add: is_scalar_def get_def)
qed (simp add: put_def)

lemma undoes_get_text [matching]: "undoes is_text m f (put_text m) (get_text f)"
proof (rule undoes_plainI)
  show "get_text f pb y = Some w" if "is_text w" "pb f = Str (str w)" for pb y w
    using that by (cases w) (simp_all add: is_text_def get_text_def)
qed (simp add: put_text_def)

lemma c_string_id: "CHR 0x00 \<notin> set t \<Longrightarrow> c_string t = t"
  by (auto simp: c_string_def takeWhile_eq_all_conv)

lemma bounded_text_id: "CHR 0x00 \<notin> set t \<Longrightarrow> int (length t) < cap \<Longrightarrow> bounded_text cap t = t"
  by (simp add: bounded_text_def c_string_id)

lemma undoes_get_chars [matching]: "undoes (is_chars cap) m f (put_chars m) (get_chars cap f)"
proof (rule undoes_plainI)
  show "get_chars cap f pb y = Some w" if "is_chars cap w" "pb f = Str (c_string (str w))" for pb y w
    using that by (cases w) (simp_all add: is_chars_def get_chars_def c_string_id bounded_text_id)
qed (simp add: put_chars_def)

lemma round_tripsD:
  assumes "round_trips P enc dec" and "P x"
  obtains pb where "enc x fresh = Some pb" and "dec pb fresh = Some x"
  using assms by (auto simp: round_trips_def)

lemma undoes_into [matching]:
  assumes "round_trips P enc dec"
  shows "undoes (is_obj P) m f (sub f enc m) (into m dec f)"
proof (rule undoesI)
  fix x assume p: "is_obj P (x m)"
  then obtain g where g: "x m = Obj g" "P g" by (cases "x m") (simp_all add: is_obj_def)
  obtain pb where "enc g fresh = Some pb" "dec pb fresh = Some g" by (rule round_tripsD [OF assms g(2)])
  then show "\<exists>v. (\<forall>q. q f = Unset \<longrightarrow> sub f enc m x q = Some v) \<and>
      (\<forall>pb y. pb f = v \<longrightarrow> y m = Unset \<longrightarrow> into m dec f pb y = Some (x m))"
    using g by (intro exI [of _ "Obj pb"]) (simp add: sub_def into_def)
qed

lemma settles_sub [matching]:
  assumes "(m, is_obj P) \<in> set S" and "round_trips P enc dec"
  shows "settles (shaped S Q) f (sub f enc m)"
  by (rule settles_row [OF undoes_into [OF assms(2)] assms(1)])

text \<open>Sequences, element by element.\<close>

definition carries :: "(cval \<Rightarrow> bool) \<Rightarrow> (cval \<Rightarrow> cval option) \<Rightarrow> (cval \<Rightarrow> cval option) \<Rightarrow> bool" where
  "carries p enc dec \<longleftrightarrow> (\<forall>v. p v \<longrightarrow> (\<exists>w. enc v = Some w \<and> dec w = Some v))"

lemma carries_all:
  assumes "carries p enc dec" and "list_all p vs"
  obtains ws where "all_some (map enc vs) = Some ws" and "all_some (map dec ws) = Some vs" and "length ws = length vs"
  using assms(2)
proof (induction vs arbitrary: thesis)
  case (Cons v vs)
  then obtain ws where ws: "all_some (map enc vs) = Some ws" "all_some (map dec ws) = Some vs" "length ws = length vs" by auto
  obtain w where "enc v = Some w" "dec w = Some v" using assms(1) Cons.prems(2) by (auto simp: carries_def)
  with ws show ?case by (intro Cons.prems(1) [of "w # ws"]) simp_all
qed simp

lemma undoes_push [matching]:
  assumes "carries p enc dec"
  shows "undoes (is_seq p) m f (add f enc (vector m)) (push m dec f)"
proof (rule undoesI)
  fix x assume p: "is_seq p (x m)"
  then obtain vs where vs: "x m = Seq vs" "list_all p vs" by (cases "x m") (simp_all add: is_seq_def)
  obtain ws where "all_some (map enc vs) = Some ws" "all_some (map dec ws) = Some vs"
    using carries_all [OF assms vs(2)] by blast
  then show "\<exists>v. (\<forall>q. q f = Unset \<longrightarrow> add f enc (vector m) x q = Some v) \<and>
      (\<forall>pb y. pb f = v \<longrightarrow> y m = Unset \<longrightarrow> push m dec f pb y = Some (x m))"
    using vs by (intro exI [of _ "Seq ws"]) (simp add: add_def push_def vector_def)
qed

lemma settles_push [matching]:
  assumes "(m, is_seq p) \<in> set S" and "carries p enc dec"
  shows "settles (shaped S Q) f (add f enc (vector m))"
  by (rule settles_row [OF undoes_push [OF assms(2)] assms(1)])

lemma carries_message [matching]:
  "round_trips P enc dec \<Longrightarrow> carries (is_obj P) (message enc) (message dec)"
proof (unfold carries_def, intro allI impI)
  fix v assume r: "round_trips P enc dec" and "is_obj P v"
  then obtain g where g: "v = Obj g" "P g" by (cases v) (simp_all add: is_obj_def)
  obtain pb where "enc g fresh = Some pb" "dec pb fresh = Some g" by (rule round_tripsD [OF r g(2)])
  then show "\<exists>w. message enc v = Some w \<and> message dec w = Some v" using g by (simp add: message_def)
qed

lemma carries_number [matching]: "carries (is_scalar k c) (number k) (as_number c)"
proof (unfold carries_def, intro allI impI)
  fix v assume "is_scalar k c v"
  then show "\<exists>w. number k v = Some w \<and> as_number c w = Some v"
    by (cases v) (simp_all add: is_scalar_def number_def as_number_def)
qed

text \<open>Constants the decoder assigns.\<close>

lemma restores_set_to [matching]:
  assumes "(m, equals i) \<in> set S"
  shows "restores (shaped S Q) E before m (set_to i)"
  using shapedD [OF _ assms] by (auto simp: restores_def set_to_def equals_def)

text \<open>A member whose own members are read and written one by one.\<close>

lemma assign_of_member: "assign (map (\<lambda>(n, r). (n, of_member f r)) rows) s d = assign rows (obj (s f)) d"
proof (induction rows arbitrary: d)
  case (Cons nr rows)
  then show ?case by (cases nr) (simp add: of_member_def fun_upd_def split: option.split)
qed simp

lemma in_member_into: "in_member m (map (\<lambda>(n, r). (n, of_member f r)) rows) = into m (assign rows) f"
  by (rule ext, rule ext) (simp add: in_member_def into_def assign_of_member)

text \<open>Arrays, with the number of their elements in another member.\<close>

definition carries_to :: "(cval \<Rightarrow> bool) \<Rightarrow> (cval \<Rightarrow> cval option) \<Rightarrow> (cval \<Rightarrow> cval \<Rightarrow> cval option) \<Rightarrow> bool" where
  "carries_to p enc dec \<longleftrightarrow> (\<forall>v. p v \<longrightarrow> (\<exists>w. enc v = Some w \<and> dec w Unset = Some v))"

definition filled :: "(struct \<Rightarrow> int) \<Rightarrow> string \<Rightarrow> (cval \<Rightarrow> bool) \<Rightarrow> int \<Rightarrow> struct \<Rightarrow> bool" where
  "filled n m p cap x \<longleftrightarrow> is_seq p (x m) \<and> nat (n x) = length (elements (x m)) \<and> int (length (elements (x m))) \<le> cap"

definition counted :: "string \<Rightarrow> string \<Rightarrow> (cval \<Rightarrow> bool) \<Rightarrow> int \<Rightarrow> (int \<Rightarrow> int) \<Rightarrow> struct \<Rightarrow> bool" where
  "counted c m p cap cast x \<longleftrightarrow> filled (\<lambda>s. num (s c)) m p cap x \<and> x c = Num (int (length (elements (x m)))) \<and>
     cast (num (x c)) = num (x c)"

lemma carries_to_all:
  assumes "carries_to p enc dec" and "list_all p vs"
  obtains ws where "all_some (map enc vs) = Some ws" and "length ws = length vs"
    and "all_some (map2 dec ws (replicate (length ws) Unset)) = Some vs"
  using assms(2)
proof (induction vs arbitrary: thesis)
  case (Cons v vs)
  then obtain ws where ws: "all_some (map enc vs) = Some ws" "length ws = length vs"
    "all_some (map2 dec ws (replicate (length ws) Unset)) = Some vs" by auto
  obtain w where "enc v = Some w" "dec w Unset = Some v" using assms(1) Cons.prems(2) by (auto simp: carries_to_def)
  with ws show ?case by (intro Cons.prems(1) [of "w # ws"]) simp_all
qed simp

lemma filledE:
  assumes "filled n m p cap x" and "carries_to p enc dec"
  obtains ws where "\<And>d. d f = Unset \<Longrightarrow> add f enc (first_elements n m) x d = Some (Seq ws)"
    and "nat (n x) = length ws" and "int (length ws) \<le> cap"
    and "all_some (map2 dec ws (replicate (length ws) Unset)) = Some (elements (x m))" and "x m = Seq (elements (x m))"
proof -
  from assms(1) obtain vs where vs: "x m = Seq vs" "list_all p vs" "nat (n x) = length vs" "int (length vs) \<le> cap"
    by (cases "x m") (simp_all add: filled_def is_seq_def)
  obtain ws where ws: "all_some (map enc vs) = Some ws" "length ws = length vs"
      "all_some (map2 dec ws (replicate (length ws) Unset)) = Some vs"
    by (rule carries_to_all [OF assms(2) vs(2)])
  show ?thesis by (rule that [of ws]) (use vs ws in \<open>simp_all add: add_def first_elements_def\<close>)
qed

lemma settles_filled [matching]:
  assumes "filled n m p cap \<in> set Q" and "carries_to p enc dec"
  shows "settles (shaped S Q) f (add f enc (first_elements n m))"
  unfolding settles_def
proof (intro allI impI)
  fix x assume "shaped S Q x"
  from filledE [OF shaped_conditionD [OF this assms(1)] assms(2), where f = f]
  show "\<exists>v. \<forall>d. d f = Unset \<longrightarrow> add f enc (first_elements n m) x d = Some v" by blast
qed

lemma settles_counted [matching]:
  assumes "counted c m p cap cast \<in> set Q" and "carries_to p enc dec"
  shows "settles (shaped S Q) f (add f enc (first_elements (\<lambda>s. num (s c)) m))"
  unfolding settles_def
proof (intro allI impI)
  fix x assume "shaped S Q x"
  then have "filled (\<lambda>s. num (s c)) m p cap x" using shaped_conditionD [OF _ assms(1)] by (simp add: counted_def)
  from filledE [OF this assms(2), where f = f]
  show "\<exists>v. \<forall>d. d f = Unset \<longrightarrow> add f enc (first_elements (\<lambda>s. num (s c)) m) x d = Some v" by blast
qed

lemma restores_fill:
  assumes "(f, add f enc (first_elements n m)) \<in> set E" and "carries_to p enc dec" and "\<And>x. P x \<Longrightarrow> filled n m p cap x"
    and "\<And>x pb y ws. P x \<Longrightarrow> \<forall>b \<in> before. y b = x b \<Longrightarrow> pb f = Seq ws \<Longrightarrow> nat (n x) = length ws \<Longrightarrow> xs pb y = Some ws"
  shows "restores P E before m (fill cap m dec xs)"
  unfolding restores_def
proof (intro allI impI)
  fix x pb y assume x: "P x" and pb: "sent E x pb" and y: "y m = Unset" "\<forall>b \<in> before. y b = x b"
  obtain ws where ws: "\<And>d. d f = Unset \<Longrightarrow> add f enc (first_elements n m) x d = Some (Seq ws)" "nat (n x) = length ws"
    "int (length ws) \<le> cap" "all_some (map2 dec ws (replicate (length ws) Unset)) = Some (elements (x m))" "x m = Seq (elements (x m))"
    using filledE [OF assms(3) [OF x] assms(2), where f = f] by blast
  have "add f enc (first_elements n m) x fresh = Some (pb f)" using pb assms(1) by (auto simp: sent_def)
  with ws(1) [of fresh] have pbf: "pb f = Seq ws" by (simp add: fresh_def)
  have "xs pb y = Some ws" by (rule assms(4)) (use x y(2) pbf ws(2) in auto)
  then have "fill cap m dec xs pb y = Some (Seq (elements (x m)))"
    using ws(3,4) y(1) by (simp add: fill_def old_elements_def)
  then show "fill cap m dec xs pb y = Some (x m)" using ws(5) by simp
qed

lemma counted_filled: "shaped S Q x \<Longrightarrow> counted c m p cap cast \<in> set Q \<Longrightarrow> filled (\<lambda>s. num (s c)) m p cap x"
  using shaped_conditionD [of S Q x "counted c m p cap cast"] by (simp add: counted_def)

lemma restores_fill_all [matching]:
  assumes "counted c m p cap cast \<in> set Q" and "(f, add f enc (first_elements (\<lambda>s. num (s c)) m)) \<in> set E" and "carries_to p enc dec"
  shows "restores (shaped S Q) E before m (fill cap m dec (all_of f))"
  by (rule restores_fill [OF assms(2,3)]) (simp_all add: counted_filled [OF _ assms(1)] all_of_def)

lemma restores_fill_first [matching]:
  assumes "counted c m p cap cast \<in> set Q" and "c \<in> before"
    and "(f, add f enc (first_elements (\<lambda>s. num (s c)) m)) \<in> set E" and "carries_to p enc dec"
  shows "restores (shaped S Q) E before m (fill cap m dec (first_of (\<lambda>s d. num (d c)) f))"
  by (rule restores_fill [OF assms(3,4)]) (simp_all add: counted_filled [OF _ assms(1)] first_of_def assms(2))

lemma restores_fill_fit [matching]:
  assumes "counted c m p cap cast \<in> set Q" and "c \<in> before" and "(c, is_scalar k cast') \<in> set S"
    and "(f, add f enc (first_elements (\<lambda>s. num (s c)) m)) \<in> set E" and "carries_to p enc dec"
  shows "restores (shaped S Q) E before m (fill cap m dec (first_of (\<lambda>s d. fit k (num (d c))) f))"
proof (rule restores_fill [OF assms(4,5)])
  fix x pb y ws assume x: "shaped S Q x" "\<forall>b\<in>before. y b = x b" and "pb f = Seq ws" "nat (num (x c)) = length ws"
  moreover have "fit k (num (x c)) = num (x c)" using shapedD [OF x(1) assms(3)] by (simp add: is_scalar_def)
  ultimately show "first_of (\<lambda>s d. fit k (num (d c))) f pb y = Some ws" using assms(2) by (simp add: first_of_def)
qed (rule counted_filled [OF _ assms(1)])

lemma restores_fill_constant [matching]:
  assumes "filled (\<lambda>s. k) m p cap \<in> set Q" and "(f, add f enc (first_elements (\<lambda>s. k) m)) \<in> set E" and "carries_to p enc dec"
  shows "restores (shaped S Q) E before m (fill cap m dec (first_of (\<lambda>s d. k) f))"
proof (rule restores_fill [OF assms(2,3)])
  show "filled (\<lambda>s. k) m p cap x" if "shaped S Q x" for x using shaped_conditionD [OF that assms(1)] .
qed (simp_all add: first_of_def)

lemma counted_sent:
  assumes "shaped S Q x" and "sent E x pb" and "counted c m p cap cast \<in> set Q" and "carries_to p enc dec"
    and "(f, add f enc (first_elements (\<lambda>s. num (s c)) m)) \<in> set E"
  shows "x c = Num (int (length (elements (pb f))))" and "cast (int (length (elements (pb f)))) = int (length (elements (pb f)))"
    and "int (length (elements (pb f))) \<le> cap"
proof -
  have c: "filled (\<lambda>s. num (s c)) m p cap x" "x c = Num (int (length (elements (x m))))" "cast (num (x c)) = num (x c)"
    using shaped_conditionD [OF assms(1,3)] unfolding counted_def by blast+
  obtain ws where ws: "\<And>d. d f = Unset \<Longrightarrow> add f enc (first_elements (\<lambda>s. num (s c)) m) x d = Some (Seq ws)"
    "nat (num (x c)) = length ws" "int (length ws) \<le> cap" using filledE [OF c(1) assms(4), where f = f] by blast
  have "add f enc (first_elements (\<lambda>s. num (s c)) m) x fresh = Some (pb f)" using assms(2,5) by (auto simp: sent_def)
  with ws(1) [of fresh] have "pb f = Seq ws" by (simp add: fresh_def)
  with ws(2,3) c(2,3) show "x c = Num (int (length (elements (pb f))))"
    "cast (int (length (elements (pb f)))) = int (length (elements (pb f)))" "int (length (elements (pb f))) \<le> cap" by simp_all
qed

lemma restores_size_of [matching]:
  assumes "counted c m p cap cast \<in> set Q" and "(f, add f enc (first_elements (\<lambda>s. num (s c)) m)) \<in> set E" and "carries_to p enc dec"
  shows "restores (shaped S Q) E before c (size_of cast f)"
  unfolding restores_def size_of_def
  using counted_sent [OF _ _ assms(1,3,2)] by simp

lemma restores_size_up_to [matching]:
  assumes "counted c m p cap cast \<in> set Q" and "(f, add f enc (first_elements (\<lambda>s. num (s c)) m)) \<in> set E" and "carries_to p enc dec"
  shows "restores (shaped S Q) E before c (size_up_to cast cap f)"
  unfolding restores_def size_up_to_def
  using counted_sent [OF _ _ assms(1,3,2)] by simp

lemma carries_to_struct [matching]: "round_trips P enc dec \<Longrightarrow> carries_to (is_obj P) (message enc) (to_struct dec)"
proof (unfold carries_to_def, intro allI impI)
  fix v assume r: "round_trips P enc dec" and "is_obj P v"
  then obtain g where g: "v = Obj g" "P g" by (cases v) (simp_all add: is_obj_def)
  obtain pb where "enc g fresh = Some pb" "dec pb fresh = Some g" by (rule round_tripsD [OF r g(2)])
  then show "\<exists>w. message enc v = Some w \<and> to_struct dec w Unset = Some v" using g by (simp add: message_def to_struct_def)
qed

lemma carries_to_number [matching]: "carries_to (is_scalar k c) (number k) (to_number c)"
proof (unfold carries_to_def, intro allI impI)
  fix v assume "is_scalar k c v"
  then show "\<exists>w. number k v = Some w \<and> to_number c w Unset = Some v"
    by (cases v) (simp_all add: is_scalar_def number_def to_number_def)
qed

lemma carries_to_chars [matching]: "carries_to (is_chars cap) chars (to_chars cap)"
proof (unfold carries_to_def, intro allI impI)
  fix v assume "is_chars cap v"
  then show "\<exists>w. chars v = Some w \<and> to_chars cap w Unset = Some v"
    by (cases v) (simp_all add: is_chars_def chars_def to_chars_def c_string_id bounded_text_id)
qed

text \<open>A decoder that assigns a member a second time, to the value it has already.\<close>

lemma assign_append: "assign (A @ B) s d = (case assign A s d of None \<Rightarrow> None | Some d' \<Rightarrow> assign B s d')"
proof (induction A arbitrary: d)
  case (Cons nr A)
  then show ?case by (cases nr) (simp split: option.split del: fun_upd_apply)
qed simp

theorem assign_round_trips_again:
  assumes "settle (shaped S Q) E" and "restore (shaped S Q) E {} (D @ D')"
    and "distinct (map fst E)" and "distinct (map fst (D @ D'))" and "map fst S = map fst (D @ D')"
    and "m \<in> fst ` set D"
    and "\<And>x pb y. shaped S Q x \<Longrightarrow> sent E x pb \<Longrightarrow> \<forall>b \<in> fst ` set D. y b = x b \<Longrightarrow> r pb y = Some (x m)"
  shows "round_trips (shaped S Q) (assign E) (assign (D @ (m, r) # D'))"
  unfolding round_trips_def
proof (intro allI impI)
  fix x assume x: "shaped S Q x"
  obtain pb where pb: "assign E x fresh = Some pb" "sent E x pb"
    using assign_settled [OF assms(1,3) x, of fresh] by (auto simp: fresh_def)
  let ?y = "\<lambda>m. if m \<in> fst ` set D then x m else fresh m"
  have split: "restore P E before (A @ B) \<Longrightarrow> restore P E before A" for P before A B
    by (induction P E before A rule: restore.induct) simp_all
  have y: "assign D pb fresh = Some ?y"
    by (rule assign_restored [OF split [OF assms(2)] _ x pb(2)]) (use assms(4) in \<open>simp_all add: fresh_def\<close>)
  have same: "?y(m := x m) = ?y" using assms(6) by (simp only: fun_eq_iff fun_upd_apply) metis
  have "r pb ?y = Some (x m)" by (rule assms(7) [OF x pb(2)]) simp
  then have "assign ((m, r) # D') pb ?y = assign D' pb ?y" using same by simp
  then have "assign (D @ (m, r) # D') pb fresh = assign (D @ D') pb fresh"
    unfolding assign_append using y by simp
  moreover obtain pb' where "assign E x fresh = Some pb'" "assign (D @ D') pb' fresh = Some x"
    by (rule round_tripsD [OF assign_round_trips [OF assms(1-5)] x])
  ultimately show "\<exists>pb. assign E x fresh = Some pb \<and> assign (D @ (m, r) # D') pb fresh = Some x" using pb(1) by simp
qed

definition splits :: "assignment list \<Rightarrow> assignment list \<Rightarrow> assignment \<Rightarrow> assignment list \<Rightarrow> bool" where
  "splits rows A row B \<longleftrightarrow> rows = A @ row # B"

lemma splits_here: "splits (row # B) [] row B" by (simp add: splits_def)
lemma splits_there: "splits rows A row B \<Longrightarrow> splits (r # rows) (r # A) row B" by (simp add: splits_def)

lemma assign_round_trips_split:
  assumes "splits rows A (m, r) B" and "settle (shaped S Q) E" and "restore (shaped S Q) E {} (A @ B)"
    and "distinct (map fst E)" and "distinct (map fst (A @ B))" and "map fst S = map fst (A @ B)"
    and "m \<in> set (map fst A)"
    and "\<And>x pb y. shaped S Q x \<Longrightarrow> sent E x pb \<Longrightarrow> \<forall>b \<in> fst ` set A. y b = x b \<Longrightarrow> r pb y = Some (x m)"
  shows "round_trips (shaped S Q) (assign E) (assign rows)"
  unfolding assms(1) [unfolded splits_def]
  by (rule assign_round_trips_again [OF assms(2-6) _ assms(8)]) (use assms(7) in simp_all)

subsection \<open>Unions\<close>

text \<open>A union that holds a valid value in the member \<open>m\<close>, and nothing elsewhere.\<close>

definition holds_only :: "string \<Rightarrow> (struct \<Rightarrow> bool) \<Rightarrow> struct \<Rightarrow> bool" where
  "holds_only m P w \<longleftrightarrow> w = fresh(m := Obj (obj (w m))) \<and> P (obj (w m))"

lemma select_one_round_trips:
  assumes "round_trips P enc dec"
  shows "round_trips (holds_only m P) (select_one f (sub f enc m)) (select_one m (into m dec f))"
  unfolding round_trips_def
proof (intro allI impI)
  fix w assume "holds_only m P w"
  then obtain g where g: "w = fresh(m := Obj g)" "P g" unfolding holds_only_def by blast
  obtain pb where pb: "enc g fresh = Some pb" "dec pb fresh = Some g" by (rule round_tripsD [OF assms g(2)])
  have "(\<lambda>n. if n = k then fresh n else Unset) = fresh" for k by (rule ext) (simp add: fresh_def)
  then show "\<exists>pb. select_one f (sub f enc m) w fresh = Some pb \<and> select_one m (into m dec f) pb fresh = Some w"
    using g pb by (intro exI [of _ "fresh(f := Obj pb)"]) (simp add: select_one_def sub_def into_def, simp add: fresh_def)
qed

text \<open>A member that is converted under the choice that another member makes.\<close>

definition chosen :: "string \<Rightarrow> string \<Rightarrow> (int \<Rightarrow> struct \<Rightarrow> bool) \<Rightarrow> struct \<Rightarrow> bool" where
  "chosen c m P x \<longleftrightarrow> is_obj (P (num (x c))) (x m)"

lemma settles_chosen:
  assumes "chosen c m P \<in> set Q" and "\<And>sys. round_trips (P sys) (enc sys) (dec sys)"
  shows "settles (shaped S Q) f (\<lambda>s d. map_option Obj (enc (num (s c)) (obj (s m)) (obj (d f))))"
  unfolding settles_def
proof (intro allI impI)
  fix x assume "shaped S Q x"
  from shaped_conditionD [OF this assms(1)] have "P (num (x c)) (obj (x m))" by (simp add: chosen_def is_obj_def)
  then obtain pb where "enc (num (x c)) (obj (x m)) fresh = Some pb" by (rule round_tripsD [OF assms(2)])
  then show "\<exists>v. \<forall>d. d f = Unset \<longrightarrow> map_option Obj (enc (num (x c)) (obj (x m)) (obj (d f))) = Some v" by simp
qed

lemma restores_chosen:
  assumes "chosen c m P \<in> set Q" and "\<And>sys. round_trips (P sys) (enc sys) (dec sys)" and "c \<in> before"
    and "(f, \<lambda>s d. map_option Obj (enc (num (s c)) (obj (s m)) (obj (d f)))) \<in> set E"
  shows "restores (shaped S Q) E before m (\<lambda>s d. map_option Obj (dec (num (d c)) (obj (s f)) (obj (d m))))"
  unfolding restores_def
proof (intro allI impI)
  fix x pb y assume x: "shaped S Q x" and pb: "sent E x pb" and y: "y m = Unset" "\<forall>b \<in> before. y b = x b"
  from shaped_conditionD [OF x assms(1)] have p: "x m = Obj (obj (x m))" "P (num (x c)) (obj (x m))" by (simp_all add: chosen_def is_obj_def)
  obtain pb' where pb': "enc (num (x c)) (obj (x m)) fresh = Some pb'" "dec (num (x c)) pb' fresh = Some (obj (x m))"
    using p(2) by (rule round_tripsD [OF assms(2)])
  have "map_option Obj (enc (num (x c)) (obj (x m)) (obj (fresh f))) = Some (pb f)" using pb assms(4) by (auto simp: sent_def)
  then have "pb f = Obj pb'" using pb'(1) by (simp add: fresh_def)
  then show "map_option Obj (dec (num (y c)) (obj (pb f)) (obj (y m))) = Some (x m)"
    using y p(1) pb'(2) assms(3) by simp
qed

text \<open>Members that are sent when another one is set.\<close>

definition idle :: "string \<Rightarrow> string \<Rightarrow> (struct \<Rightarrow> struct \<Rightarrow> cval option) \<Rightarrow> struct \<Rightarrow> bool" where
  "idle f m d x \<longleftrightarrow> (\<forall>pb y. pb f = Unset \<longrightarrow> d pb y = Some (x m))"

definition sent_when :: "string \<Rightarrow> string \<Rightarrow> string \<Rightarrow> (cval \<Rightarrow> bool) \<Rightarrow> (struct \<Rightarrow> struct \<Rightarrow> cval option) \<Rightarrow> struct \<Rightarrow> bool" where
  "sent_when c f m p d x \<longleftrightarrow> (if num (x c) \<noteq> 0 then p (x m) else idle f m d x)"

lemma settles_when_set [matching]: "settles P f r \<Longrightarrow> settles P f (when_set c f r)"
  unfolding settles_def when_set_def by metis

lemma restores_when_set:
  assumes "undoes p m f e d" and "sent_when c f m p d \<in> set Q" and "(f, when_set c f e) \<in> set E"
  shows "restores (shaped S Q) E before m d"
  unfolding restores_def
proof (intro allI impI)
  fix x pb y assume x: "shaped S Q x" and pb: "sent E x pb" and y: "y m = Unset"
  have w: "sent_when c f m p d x" using shaped_conditionD [OF x assms(2)] .
  have s: "when_set c f e x fresh = Some (pb f)" using pb assms(3) by (auto simp: sent_def)
  show "d pb y = Some (x m)"
  proof (cases "num (x c) = 0")
    case True
    then show ?thesis using w s by (simp add: sent_when_def when_set_def idle_def fresh_def)
  next
    case False
    then have "p (x m)" using w by (simp add: sent_when_def)
    with assms(1) obtain v where v: "\<forall>q. q f = Unset \<longrightarrow> e x q = Some v"
        "\<forall>pb y. pb f = v \<longrightarrow> y m = Unset \<longrightarrow> d pb y = Some (x m)"
      unfolding undoes_def by blast
    then have "e x fresh = Some v" by (simp add: fresh_def)
    then show ?thesis using v(2) s False y by (simp add: when_set_def)
  qed
qed

end
