(* ===== verification/PbKnown.thy ===== *)
theory PbKnown
  imports PbLaws PbRoundTrip
begin

text \<open>
  The values of enumerations and the flags of masks that travel: which they are, by the names the HAL's
  headers give them, and that they come back from the protocol buffers. Nothing here is assumed of a
  conversion: a value counts as known because of its name, and that it comes back is a consequence of the
  two conversions.
\<close>

section \<open>Values and flags\<close>

definition is_one_of :: "int list \<Rightarrow> cval \<Rightarrow> bool" where
  "is_one_of vs v \<longleftrightarrow> v = Num (num v) \<and> num v \<in> set vs"

text \<open>A word that is made of the given flags only.\<close>

definition made_of :: "int list \<Rightarrow> 'a::len word \<Rightarrow> bool" where
  "made_of fs w \<longleftrightarrow> flag_bits LENGTH('a) fs \<and> w AND all_flags fs = w"

definition is_flags32 :: "int list \<Rightarrow> cval \<Rightarrow> bool" where
  "is_flags32 fs v \<longleftrightarrow> (let w = word_of_int (num v) :: 32 word in v = Num (uint w) \<and> made_of fs w)"

definition is_flags64 :: "int list \<Rightarrow> cval \<Rightarrow> bool" where
  "is_flags64 fs v \<longleftrightarrow> (let w = word_of_int (num v) :: 64 word in v = Num (uint w) \<and> made_of fs w)"

lemma made_of_back:
  "mask_rows enc dec flags hal \<Longrightarrow> fs = map fst (flags hal) \<Longrightarrow> made_of fs w \<Longrightarrow> dec hal (enc hal w) = w"
  by (simp add: made_of_def mask_rows_known)

lemma undoes_one_of:
  assumes "enum_rows enc dec vals hal" and "set vs \<subseteq> fst ` set (vals hal)"
  shows "undoes (is_one_of vs) m f (put_enum (enc hal) m) (get_enum (dec hal) f)"
proof (rule undoes_plainI)
  fix pb y w
  assume w: "is_one_of vs w" "pb f = Num (enc hal (num w))"
  then have "dec hal (enc hal (num w)) = num w" using assms by (intro enum_rows_known) (auto simp: is_one_of_def)
  with w show "get_enum (dec hal) f pb y = Some w" by (cases w) (simp_all add: is_one_of_def get_enum_def)
qed (simp add: put_enum_def)

lemma undoes_maskI:
  assumes "\<And>w. p w \<Longrightarrow> w = Num (uint (dec (enc (word_of_int (num w)))))"
  shows "undoes p m f (put_mask enc m) (get_mask dec f)"
proof (rule undoes_plainI)
  show "get_mask dec f pb y = Some w" if "p w" "pb f = Num (uint (enc (word_of_int (num w))))" for pb y w
    using that(2) assms [OF that(1), symmetric] by (simp only: get_mask_def num.simps word_of_int_uint)
qed (simp add: put_mask_def)

lemma flags32_back:
  fixes enc :: "hal_values \<Rightarrow> 32 word \<Rightarrow> 'b::len word"
  shows "mask_rows enc dec flags hal \<Longrightarrow> fs = map fst (flags hal) \<Longrightarrow> is_flags32 fs v \<Longrightarrow>
   v = Num (uint (dec hal (enc hal (word_of_int (num v) :: 32 word))))"
  by (simp add: is_flags32_def Let_def made_of_back)

lemma flags64_back:
  fixes enc :: "hal_values \<Rightarrow> 64 word \<Rightarrow> 'b::len word"
  shows "mask_rows enc dec flags hal \<Longrightarrow> fs = map fst (flags hal) \<Longrightarrow> is_flags64 fs v \<Longrightarrow>
   v = Num (uint (dec hal (enc hal (word_of_int (num v) :: 64 word))))"
  by (simp add: is_flags64_def Let_def made_of_back)

lemma undoes_flags32:
  fixes enc :: "hal_values \<Rightarrow> 32 word \<Rightarrow> 'b::len word"
  shows "mask_rows enc dec flags hal \<Longrightarrow> fs = map fst (flags hal) \<Longrightarrow>
   undoes (is_flags32 fs) m f (put_mask (enc hal) m) (get_mask (dec hal) f)"
  by (rule undoes_maskI, rule flags32_back)

lemma undoes_flags64:
  fixes enc :: "hal_values \<Rightarrow> 64 word \<Rightarrow> 'b::len word"
  shows "mask_rows enc dec flags hal \<Longrightarrow> fs = map fst (flags hal) \<Longrightarrow>
   undoes (is_flags64 fs) m f (put_mask (enc hal) m) (get_mask (dec hal) f)"
  by (rule undoes_maskI, rule flags64_back)

lemma undoes_guarded:
  assumes "C \<Longrightarrow> undoes p m f e d" and "\<And>v. q v \<Longrightarrow> C \<and> p v"
  shows "undoes q m f e d"
  using assms unfolding undoes_def by metis

section \<open>The enumerations\<close>

definition known_LocEngineRunState :: "hal_values \<Rightarrow> int list" where
  "known_LocEngineRunState hal =
     [0, hal ''LOC_ENGINE_RUN_STATE_PAUSE'', hal ''LOC_ENGINE_RUN_STATE_RESUME'',
      hal ''LOC_ENGINE_RUN_STATE_PAUSE_RETAIN'']"

lemma undoes_LocEngineRunState [matching]:
  "undoes (is_one_of (known_LocEngineRunState hal)) m f (put_enum (getPBEnumForLocEngineRunState hal) m) (get_enum (getEnumForPBLocEngineRunState hal) f)"
  by (rule undoes_one_of [OF LocEngineRunState_rows]) (simp add: known_LocEngineRunState_def getPBEnumForLocEngineRunState_cases_def)

definition known_DcReportType :: "hal_values \<Rightarrow> int list" where
  "known_DcReportType hal = map hal
     [''GNSS_DC_REPORT_TYPE_UNDEFINED'', ''QZSS_JMA_DISASTER_PREVENTION_INFO'',
      ''QZSS_NON_JMA_DISASTER_PREVENTION_INFO'']"

lemma undoes_DcReportType [matching]:
  "undoes (is_one_of (known_DcReportType hal)) m f (put_enum (getPBEnumForDcReportType hal) m) (get_enum (getDcReportTypeFromPB hal) f)"
  by (rule undoes_one_of [OF DcReportType_rows]) (simp add: known_DcReportType_def getPBEnumForDcReportType_cases_def)

definition known_DebugLogLevel :: "hal_values \<Rightarrow> int list" where
  "known_DebugLogLevel hal = map hal
     [''DEBUG_LOG_LEVEL_NONE'', ''DEBUG_LOG_LEVEL_ERROR'', ''DEBUG_LOG_LEVEL_WARNING'',
      ''DEBUG_LOG_LEVEL_INFO'', ''DEBUG_LOG_LEVEL_DEBUG'', ''DEBUG_LOG_LEVEL_VERBOSE'']"

lemma undoes_DebugLogLevel [matching]:
  "undoes (is_one_of (known_DebugLogLevel hal)) m f (put_enum (getPBEnumForDebugLogLevel hal) m) (get_enum (getDebugLogLevelFromPB hal) f)"
  by (rule undoes_one_of [OF DebugLogLevel_rows]) (simp add: known_DebugLogLevel_def getPBEnumForDebugLogLevel_cases_def)

definition known_XtraDataStatus :: "hal_values \<Rightarrow> int list" where
  "known_XtraDataStatus hal = map hal
     [''XTRA_DATA_STATUS_UNKNOWN'', ''XTRA_DATA_STATUS_NOT_AVAIL'', ''XTRA_DATA_STATUS_NOT_VALID'',
      ''XTRA_DATA_STATUS_VALID'']"

lemma undoes_XtraDataStatus [matching]:
  "undoes (is_one_of (known_XtraDataStatus hal)) m f (put_enum (getPBEnumForXtraDataStatus hal) m) (get_enum (getXtraDataStatusFromPB hal) f)"
  by (rule undoes_one_of [OF XtraDataStatus_rows]) (simp add: known_XtraDataStatus_def getPBEnumForXtraDataStatus_cases_def)

definition known_XtraStatusUpdateType :: "hal_values \<Rightarrow> int list" where
  "known_XtraStatusUpdateType hal = map hal
     [''XTRA_STATUS_UPDATE_UNDEFINED'', ''XTRA_STATUS_UPDATE_UPON_QUERY'',
      ''XTRA_STATUS_UPDATE_UPON_REGISTRATION'', ''XTRA_STATUS_UPDATE_UPON_STATUS_CHANGE'']"

lemma undoes_XtraStatusUpdateType [matching]:
  "undoes (is_one_of (known_XtraStatusUpdateType hal)) m f (put_enum (getPBEnumForXtraStatusUpdateType hal) m) (get_enum (getXtraStatusUpdateTypeFromPB hal) f)"
  by (rule undoes_one_of [OF XtraStatusUpdateType_rows]) (simp add: known_XtraStatusUpdateType_def getPBEnumForXtraStatusUpdateType_cases_def)

definition known_ClientType :: "hal_values \<Rightarrow> int list" where
  "known_ClientType hal =
     [LOCATION_INTEGRATION_API, LOCATION_CLIENT_API]"

lemma undoes_ClientType [matching]:
  "undoes (is_one_of (known_ClientType hal)) m f (put_enum (getPBEnumForClientType hal) m) (get_enum (getEnumForPBClientType hal) f)"
  by (rule undoes_one_of [OF ClientType_rows]) (simp add: known_ClientType_def getPBEnumForClientType_cases_def)

definition known_BatchingMode :: "hal_values \<Rightarrow> int list" where
  "known_BatchingMode hal = map hal
     [''BATCHING_MODE_ROUTINE'', ''BATCHING_MODE_TRIP'', ''BATCHING_MODE_NO_AUTO_REPORT'']"

lemma undoes_BatchingMode [matching]:
  "undoes (is_one_of (known_BatchingMode hal)) m f (put_enum (getPBEnumForBatchingMode hal) m) (get_enum (getEnumForPBBatchingMode hal) f)"
  by (rule undoes_one_of [OF BatchingMode_rows]) (simp add: known_BatchingMode_def getPBEnumForBatchingMode_cases_def)

definition known_LocationError :: "hal_values \<Rightarrow> int list" where
  "known_LocationError hal = map hal
     [''LOCATION_ERROR_GENERAL_FAILURE'', ''LOCATION_ERROR_SUCCESS'', ''LOCATION_ERROR_INVALID_PARAMETER'',
      ''LOCATION_ERROR_NOT_SUPPORTED'', ''LOCATION_ERROR_TIMEOUT'']"

lemma undoes_LocationError [matching]:
  "undoes (is_one_of (known_LocationError hal)) m f (put_enum (getPBEnumForLocationError hal) m) (get_enum (getEnumForPBLocationError hal) f)"
  by (rule undoes_one_of [OF LocationError_rows]) (simp add: known_LocationError_def getPBEnumForLocationError_cases_def)

definition known_GnssSuplMode :: "hal_values \<Rightarrow> int list" where
  "known_GnssSuplMode hal = map hal
     [''GNSS_SUPL_MODE_STANDALONE'', ''GNSS_SUPL_MODE_MSB'', ''GNSS_SUPL_MODE_MSA'']"

lemma undoes_GnssSuplMode [matching]:
  "undoes (is_one_of (known_GnssSuplMode hal)) m f (put_enum (getPBEnumForGnssSuplMode hal) m) (get_enum (getEnumForPBGnssSuplMode hal) f)"
  by (rule undoes_one_of [OF GnssSuplMode_rows]) (simp add: known_GnssSuplMode_def getPBEnumForGnssSuplMode_cases_def)

definition known_FixQualityLevel :: "hal_values \<Rightarrow> int list" where
  "known_FixQualityLevel hal = map hal
     [''QUALITY_HIGH_ACCU_FIX_ONLY'', ''QUALITY_ANY_VALID_FIX'', ''QUALITY_ANY_OR_FAILED_FIX'']"

lemma undoes_FixQualityLevel [matching]:
  "undoes (is_one_of (known_FixQualityLevel hal)) m f (put_enum (getPBEnumForFixQualityLevel hal) m) (get_enum (getEnumForPBFixQualityLevel hal) f)"
  by (rule undoes_one_of [OF FixQualityLevel_rows]) (simp add: known_FixQualityLevel_def getPBEnumForFixQualityLevel_cases_def)

definition known_BatchingStatus :: "hal_values \<Rightarrow> int list" where
  "known_BatchingStatus hal = map hal
     [''BATCHING_STATUS_TRIP_COMPLETED'', ''BATCHING_STATUS_POSITION_AVAILABE'',
      ''BATCHING_STATUS_POSITION_UNAVAILABLE'']"

lemma undoes_BatchingStatus [matching]:
  "undoes (is_one_of (known_BatchingStatus hal)) m f (put_enum (getPBEnumForBatchingStatus hal) m) (get_enum (getEnumForPBBatchingStatus hal) f)"
  by (rule undoes_one_of [OF BatchingStatus_rows]) (simp add: known_BatchingStatus_def getPBEnumForBatchingStatus_cases_def)

definition known_LocationReliability :: "hal_values \<Rightarrow> int list" where
  "known_LocationReliability hal = map hal
     [''LOCATION_RELIABILITY_NOT_SET'', ''LOCATION_RELIABILITY_VERY_LOW'', ''LOCATION_RELIABILITY_LOW'',
      ''LOCATION_RELIABILITY_MEDIUM'', ''LOCATION_RELIABILITY_HIGH'']"

lemma undoes_LocationReliability [matching]:
  "undoes (is_one_of (known_LocationReliability hal)) m f (put_enum (getPBEnumForLocationReliability hal) m) (get_enum (getEnumForPBLocReliability hal) f)"
  by (rule undoes_one_of [OF LocationReliability_rows]) (simp add: known_LocationReliability_def getPBEnumForLocationReliability_cases_def)

definition known_LocOutputEngineType :: "hal_values \<Rightarrow> int list" where
  "known_LocOutputEngineType hal = map hal
     [''LOC_OUTPUT_ENGINE_FUSED'', ''LOC_OUTPUT_ENGINE_SPE'', ''LOC_OUTPUT_ENGINE_PPE'']"

lemma undoes_LocOutputEngineType [matching]:
  "undoes (is_one_of (known_LocOutputEngineType hal)) m f (put_enum (getPBEnumForLocOutputEngineType hal) m) (get_enum (getEnumForPBLocOutputEngineType hal) f)"
  by (rule undoes_one_of [OF LocOutputEngineType_rows]) (simp add: known_LocOutputEngineType_def getPBEnumForLocOutputEngineType_cases_def)

definition known_GnssMeasMultiPathIndic :: "hal_values \<Rightarrow> int list" where
  "known_GnssMeasMultiPathIndic hal = map hal
     [''GNSS_MEASUREMENTS_MULTIPATH_INDICATOR_UNKNOWN'', ''GNSS_MEASUREMENTS_MULTIPATH_INDICATOR_PRESENT'',
      ''GNSS_MEASUREMENTS_MULTIPATH_INDICATOR_NOT_PRESENT'']"

lemma undoes_GnssMeasMultiPathIndic [matching]:
  "undoes (is_one_of (known_GnssMeasMultiPathIndic hal)) m f (put_enum (getPBEnumForGnssMeasMultiPathIndic hal) m) (get_enum (getEnumForPBGnssMeasMultipathIndic hal) f)"
  by (rule undoes_one_of [OF GnssMeasMultiPathIndic_rows]) (simp add: known_GnssMeasMultiPathIndic_def getPBEnumForGnssMeasMultiPathIndic_cases_def)

definition known_GnssLocSvSystem :: "hal_values \<Rightarrow> int list" where
  "known_GnssLocSvSystem hal = map hal
     [''GNSS_LOC_SV_SYSTEM_UNKNOWN'', ''GNSS_LOC_SV_SYSTEM_GPS'', ''GNSS_LOC_SV_SYSTEM_GALILEO'',
      ''GNSS_LOC_SV_SYSTEM_SBAS'', ''GNSS_LOC_SV_SYSTEM_GLONASS'', ''GNSS_LOC_SV_SYSTEM_BDS'',
      ''GNSS_LOC_SV_SYSTEM_QZSS'', ''GNSS_LOC_SV_SYSTEM_NAVIC'']"

lemma undoes_GnssLocSvSystem [matching]:
  "undoes (is_one_of (known_GnssLocSvSystem hal)) m f (put_enum (getPBEnumForGnssLocSvSystem hal) m) (get_enum (getEnumForPBGnssLocSvSystem hal) f)"
  by (rule undoes_one_of [OF GnssLocSvSystem_rows]) (simp add: known_GnssLocSvSystem_def getPBEnumForGnssLocSvSystem_cases_def)

definition known_AgcStatus :: "hal_values \<Rightarrow> int list" where
  "known_AgcStatus hal = map hal
     [''AGC_STATUS_UNKNOWN'', ''AGC_STATUS_NO_SATURATION'', ''AGC_STATUS_FRONT_END_GAIN_MAXIMUM_SATURATION'',
      ''AGC_STATUS_FRONT_END_GAIN_MINIMUM_SATURATION'']"

lemma undoes_AgcStatus [matching]:
  "undoes (is_one_of (known_AgcStatus hal)) m f (put_enum (getPBEnumForAgcStatus hal) m) (get_enum (getEnumForPBAgcStatus hal) f)"
  by (rule undoes_one_of [OF AgcStatus_rows]) (simp add: known_AgcStatus_def getPBEnumForAgcStatus_cases_def)

definition known_GnssLocSvSysEnumFromGnssSvType :: "hal_values \<Rightarrow> int list" where
  "known_GnssLocSvSysEnumFromGnssSvType hal = map hal
     [''GNSS_SV_TYPE_UNKNOWN'', ''GNSS_SV_TYPE_GPS'', ''GNSS_SV_TYPE_SBAS'', ''GNSS_SV_TYPE_GLONASS'',
      ''GNSS_SV_TYPE_QZSS'', ''GNSS_SV_TYPE_BEIDOU'', ''GNSS_SV_TYPE_GALILEO'', ''GNSS_SV_TYPE_NAVIC'']"

lemma undoes_GnssLocSvSysEnumFromGnssSvType [matching]:
  "undoes (is_one_of (known_GnssLocSvSysEnumFromGnssSvType hal)) m f (put_enum (getPBGnssLocSvSysEnumFromGnssSvType hal) m) (get_enum (getGnssSvTypeFromPBGnssLocSvSystemEnumType hal) f)"
  by (rule undoes_one_of [OF GnssLocSvSysEnumFromGnssSvType_rows]) (simp add: known_GnssLocSvSysEnumFromGnssSvType_def getPBGnssLocSvSysEnumFromGnssSvType_cases_def)

definition known_LocSessionStatus :: "hal_values \<Rightarrow> int list" where
  "known_LocSessionStatus hal = map hal
     [''LOC_SESS_FAILURE'', ''LOC_SESS_SUCCESS'', ''LOC_SESS_INTERMEDIATE'']"

lemma undoes_LocSessionStatus [matching]:
  "undoes (is_one_of (known_LocSessionStatus hal)) m f (put_enum (getPBEnumForLocSessionStatus hal) m) (get_enum (getLocSessionStatusFromPB hal) f)"
  by (rule undoes_one_of [OF LocSessionStatus_rows]) (simp add: known_LocSessionStatus_def getPBEnumForLocSessionStatus_cases_def)

definition known_MeasCodeType :: "hal_values \<Rightarrow> int list" where
  "known_MeasCodeType hal = map hal
     [''GNSS_MEASUREMENTS_CODE_TYPE_OTHER'', ''GNSS_MEASUREMENTS_CODE_TYPE_A'',
      ''GNSS_MEASUREMENTS_CODE_TYPE_B'', ''GNSS_MEASUREMENTS_CODE_TYPE_C'', ''GNSS_MEASUREMENTS_CODE_TYPE_I'',
      ''GNSS_MEASUREMENTS_CODE_TYPE_L'', ''GNSS_MEASUREMENTS_CODE_TYPE_M'', ''GNSS_MEASUREMENTS_CODE_TYPE_P'',
      ''GNSS_MEASUREMENTS_CODE_TYPE_Q'', ''GNSS_MEASUREMENTS_CODE_TYPE_S'', ''GNSS_MEASUREMENTS_CODE_TYPE_W'',
      ''GNSS_MEASUREMENTS_CODE_TYPE_X'', ''GNSS_MEASUREMENTS_CODE_TYPE_Y'', ''GNSS_MEASUREMENTS_CODE_TYPE_Z'',
      ''GNSS_MEASUREMENTS_CODE_TYPE_N'', ''GNSS_MEASUREMENTS_CODE_TYPE_D'', ''GNSS_MEASUREMENTS_CODE_TYPE_E'']"

lemma undoes_MeasCodeType [matching]:
  "undoes (is_one_of (known_MeasCodeType hal)) m f (put_enum (getPBMeasCodeType hal) m) (get_enum (getMeasCodeTypeFromPB hal) f)"
  by (rule undoes_one_of [OF MeasCodeType_rows]) (simp add: known_MeasCodeType_def getPBMeasCodeType_cases_def)

definition known_GnssEphemerisType :: "hal_values \<Rightarrow> int list" where
  "known_GnssEphemerisType hal = map hal
     [''GNSS_EPH_TYPE_UNKNOWN'', ''GNSS_EPH_TYPE_EPHEMERIS'', ''GNSS_EPH_TYPE_ALMANAC'']"

lemma undoes_GnssEphemerisType [matching]:
  "undoes (is_one_of (known_GnssEphemerisType hal)) m f (put_enum (getPBEnumForGnssEphemerisType hal) m) (get_enum (getEnumForPBGnssEphemerisType hal) f)"
  by (rule undoes_one_of [OF GnssEphemerisType_rows]) (simp add: known_GnssEphemerisType_def getPBEnumForGnssEphemerisType_cases_def)

definition known_GnssEphemerisSource :: "hal_values \<Rightarrow> int list" where
  "known_GnssEphemerisSource hal = map hal
     [''GNSS_EPH_SOURCE_UNKNOWN'', ''GNSS_EPH_SOURCE_DEMODULATED'', ''GNSS_EPH_SOURCE_SUPL_PROVIDED'',
      ''GNSS_EPH_SOURCE_OTHER_SERVER_PROVIDED'', ''GNSS_EPH_SOURCE_LOCAL'']"

lemma undoes_GnssEphemerisSource [matching]:
  "undoes (is_one_of (known_GnssEphemerisSource hal)) m f (put_enum (getPBEnumForGnssEphemerisSource hal) m) (get_enum (getEnumForPBGnssEphemerisSource hal) f)"
  by (rule undoes_one_of [OF GnssEphemerisSource_rows]) (simp add: known_GnssEphemerisSource_def getPBEnumForGnssEphemerisSource_cases_def)

definition known_GnssEphemerisHealth :: "hal_values \<Rightarrow> int list" where
  "known_GnssEphemerisHealth hal = map hal
     [''GNSS_EPH_HEALTH_UNKNOWN'', ''GNSS_EPH_HEALTH_GOOD'', ''GNSS_EPH_HEALTH_BAD'']"

lemma undoes_GnssEphemerisHealth [matching]:
  "undoes (is_one_of (known_GnssEphemerisHealth hal)) m f (put_enum (getPBEnumForGnssEphemerisHealth hal) m) (get_enum (getEnumForPBGnssEphemerisHealth hal) f)"
  by (rule undoes_one_of [OF GnssEphemerisHealth_rows]) (simp add: known_GnssEphemerisHealth_def getPBEnumForGnssEphemerisHealth_cases_def)

definition known_EphAction :: "hal_values \<Rightarrow> int list" where
  "known_EphAction hal = map hal
     [''GNSS_EPH_ACTION_UPDATE_SRC_UNKNOWN_V02'', ''GNSS_EPH_ACTION_UPDATE_SRC_OTA_V02'',
      ''GNSS_EPH_ACTION_UPDATE_SRC_NETWORK_V02'', ''GNSS_EPH_ACTION_UPDATE_MAX_V02'',
      ''GNSS_EPH_ACTION_DELETE_SRC_UNKNOWN_V02'', ''GNSS_EPH_ACTION_DELETE_SRC_NETWORK_V02'',
      ''GNSS_EPH_ACTION_DELETE_SRC_OTA_V02'', ''GNSS_EPH_ACTION_DELETE_MAX_V02'']"

lemma undoes_EphAction [matching]:
  "undoes (is_one_of (known_EphAction hal)) m f (put_enum (getPBEphAction hal) m) (get_enum (pbConvertToEphAction hal) f)"
  by (rule undoes_one_of [OF EphAction_rows]) (simp add: known_EphAction_def getPBEphAction_cases_def)

definition known_convertDataSignalSource :: "hal_values \<Rightarrow> int list" where
  "known_convertDataSignalSource hal = map hal
     [''GAL_EPH_SIGNAL_SRC_UNKNOWN_V02'', ''GAL_EPH_SIGNAL_SRC_E1B_V02'', ''GAL_EPH_SIGNAL_SRC_E5A_V02'',
      ''GAL_EPH_SIGNAL_SRC_E5B_V02'']"

lemma undoes_convertDataSignalSource [matching]:
  "undoes (is_one_of (known_convertDataSignalSource hal)) m f (put_enum (convertDataSignalSourceToPB hal) m) (get_enum (pbConvertToDataSourceSignal hal) f)"
  by (rule undoes_one_of [OF convertDataSignalSource_rows]) (simp add: known_convertDataSignalSource_def convertDataSignalSourceToPB_cases_def)

section \<open>The masks\<close>

definition known_TerrestrialTechMask :: "hal_values \<Rightarrow> int list" where
  "known_TerrestrialTechMask hal = map hal
     [''TERRESTRIAL_TECH_GTP_WWAN'']"

lemma undoes_TerrestrialTechMask [matching]:
  "undoes (is_flags32 (known_TerrestrialTechMask hal)) m f (put_mask (getPBMaskForTerrestrialTechMask hal) m) (get_mask (getTerrestrialTechMaskFromPB hal) f)"
  by (rule undoes_flags32 [OF TerrestrialTechMask_rows]) (simp add: known_TerrestrialTechMask_def getPBMaskForTerrestrialTechMask_flags_def)

text \<open>No type at all is zero.\<close>

definition known_NmeaTypesMask :: "hal_values \<Rightarrow> int list" where
  "known_NmeaTypesMask hal = map hal
     [''NMEA_TYPE_GGA'', ''NMEA_TYPE_RMC'', ''NMEA_TYPE_GSA'', ''NMEA_TYPE_VTG'', ''NMEA_TYPE_GNS'',
      ''NMEA_TYPE_DTM'', ''NMEA_TYPE_GPGSV'', ''NMEA_TYPE_GLGSV'', ''NMEA_TYPE_GAGSV'', ''NMEA_TYPE_GQGSV'',
      ''NMEA_TYPE_GBGSV'', ''NMEA_TYPE_GIGSV'']"

definition is_nmea_types :: "hal_values \<Rightarrow> cval \<Rightarrow> bool" where
  "is_nmea_types hal v \<longleftrightarrow> hal ''NMEA_TYPE_NONE'' = 0 \<and> is_flags32 (known_NmeaTypesMask hal) v"

lemma undoes_NmeaTypesMask [matching]:
  "undoes (is_nmea_types hal) m f (put_mask (getPBMaskForNmeaTypesMask hal) m) (get_mask (getNmeaTypesMaskFromPB hal) f)"
proof (rule undoes_guarded)
  show "undoes (is_flags32 (known_NmeaTypesMask hal)) m f (put_mask (getPBMaskForNmeaTypesMask hal) m) (get_mask (getNmeaTypesMaskFromPB hal) f)" if "hal ''NMEA_TYPE_NONE'' = 0"
    by (rule undoes_flags32, rule NmeaTypesMask_rows, rule that) (simp add: known_NmeaTypesMask_def getPBMaskForNmeaTypesMask_flags_def)
qed (simp add: is_nmea_types_def)

definition known_LocationCallbacksMask :: "hal_values \<Rightarrow> int list" where
  "known_LocationCallbacksMask hal =
     [E_LOC_CB_TRACKING_BIT, E_LOC_CB_GNSS_LOCATION_INFO_BIT, E_LOC_CB_GNSS_SV_BIT, E_LOC_CB_GNSS_NMEA_BIT,
      E_LOC_CB_GNSS_DATA_BIT, E_LOC_CB_SYSTEM_INFO_BIT, E_LOC_CB_BATCHING_BIT, E_LOC_CB_BATCHING_STATUS_BIT,
      E_LOC_CB_GEOFENCE_BREACH_BIT, E_LOC_CB_ENGINE_LOCATIONS_INFO_BIT, E_LOC_CB_SIMPLE_LOCATION_INFO_BIT,
      E_LOC_CB_GNSS_MEAS_BIT, E_LOC_CB_GNSS_NHZ_MEAS_BIT, E_LOC_CB_GNSS_DC_REPORT_BIT,
      E_LOC_CB_ENGINE_NMEA_BIT, E_LOC_CB_GNSS_EPH_BIT]"

lemma undoes_LocationCallbacksMask [matching]:
  "undoes (is_flags32 (known_LocationCallbacksMask hal)) m f (put_mask (getPBMaskForLocationCallbacksMask hal) m) (get_mask (getLocationCallbacksMaskFromPB hal) f)"
  by (rule undoes_flags32 [OF LocationCallbacksMask_rows]) (simp add: known_LocationCallbacksMask_def getPBMaskForLocationCallbacksMask_flags_def)

definition known_PositioningEngineMask :: "hal_values \<Rightarrow> int list" where
  "known_PositioningEngineMask hal = map hal
     [''STANDARD_POSITIONING_ENGINE'', ''DEAD_RECKONING_ENGINE'', ''PRECISE_POSITIONING_ENGINE'']"

lemma undoes_PositioningEngineMask [matching]:
  "undoes (is_flags32 (known_PositioningEngineMask hal)) m f (put_mask (getPBMaskForPositioningEngineMask hal) m) (get_mask (getEnumForPBPositioningEngineMask hal) f)"
  by (rule undoes_flags32 [OF PositioningEngineMask_rows]) (simp add: known_PositioningEngineMask_def getPBMaskForPositioningEngineMask_flags_def)

definition known_LeverArmTypeMask :: "hal_values \<Rightarrow> int list" where
  "known_LeverArmTypeMask hal = map hal
     [''LEVER_ARM_TYPE_GNSS_TO_VRP_BIT'', ''LEVER_ARM_TYPE_DR_IMU_TO_GNSS_BIT'',
      ''LEVER_ARM_TYPE_VEPP_IMU_TO_GNSS_BIT'']"

lemma undoes_LeverArmTypeMask [matching]:
  "undoes (is_flags32 (known_LeverArmTypeMask hal)) m f (put_mask (getPBMaskForLeverArmTypeMask hal) m) (get_mask (getLeverArmTypeMaskFromPB hal) f)"
  by (rule undoes_flags32 [OF LeverArmTypeMask_rows]) (simp add: known_LeverArmTypeMask_def getPBMaskForLeverArmTypeMask_flags_def)

definition known_LocReqEngineTypeMask :: "hal_values \<Rightarrow> int list" where
  "known_LocReqEngineTypeMask hal = map hal
     [''LOC_REQ_ENGINE_FUSED_BIT'', ''LOC_REQ_ENGINE_SPE_BIT'', ''LOC_REQ_ENGINE_PPE_BIT'']"

lemma undoes_LocReqEngineTypeMask [matching]:
  "undoes (is_flags32 (known_LocReqEngineTypeMask hal)) m f (put_mask (getPBMaskForLocReqEngineTypeMask hal) m) (get_mask (getLocReqEngineTypeMaskFromPB hal) f)"
  by (rule undoes_flags32 [OF LocReqEngineTypeMask_rows]) (simp add: known_LocReqEngineTypeMask_def getPBMaskForLocReqEngineTypeMask_flags_def)

definition known_GnssCfgRobustLocValidMask :: "hal_values \<Rightarrow> int list" where
  "known_GnssCfgRobustLocValidMask hal = map hal
     [''GNSS_CONFIG_ROBUST_LOCATION_ENABLED_VALID_BIT'',
      ''GNSS_CONFIG_ROBUST_LOCATION_ENABLED_FOR_E911_VALID_BIT'',
      ''GNSS_CONFIG_ROBUST_LOCATION_VERSION_VALID_BIT'']"

lemma undoes_GnssCfgRobustLocValidMask [matching]:
  "undoes (is_flags32 (known_GnssCfgRobustLocValidMask hal)) m f (put_mask (getPBMaskForGnssCfgRobustLocValidMask hal) m) (get_mask (getGnssConfigRobustLocationValidMaskFromPB hal) f)"
  by (rule undoes_flags32 [OF GnssCfgRobustLocValidMask_rows]) (simp add: known_GnssCfgRobustLocValidMask_def getPBMaskForGnssCfgRobustLocValidMask_flags_def)

definition known_LocSysInfoMask :: "hal_values \<Rightarrow> int list" where
  "known_LocSysInfoMask hal = map hal
     [''LOCATION_SYS_INFO_LEAP_SECOND'']"

lemma undoes_LocSysInfoMask [matching]:
  "undoes (is_flags32 (known_LocSysInfoMask hal)) m f (put_mask (getPBMaskForLocSysInfoMask hal) m) (get_mask (getLocationSystemInfoMaskFromPB hal) f)"
  by (rule undoes_flags32 [OF LocSysInfoMask_rows]) (simp add: known_LocSysInfoMask_def getPBMaskForLocSysInfoMask_flags_def)

definition known_GnssAidingDataSvMask :: "hal_values \<Rightarrow> int list" where
  "known_GnssAidingDataSvMask hal = map hal
     [''GNSS_AIDING_DATA_SV_EPHEMERIS_BIT'']"

lemma undoes_GnssAidingDataSvMask [matching]:
  "undoes (is_flags32 (known_GnssAidingDataSvMask hal)) m f (put_mask (getPBMaskForGnssAidingDataSvMask hal) m) (get_mask (getGnssAidingDataSvMaskFromPB hal) f)"
  by (rule undoes_flags32 [OF GnssAidingDataSvMask_rows]) (simp add: known_GnssAidingDataSvMask_def getPBMaskForGnssAidingDataSvMask_flags_def)

definition known_LeapSecondSysInfoMask :: "hal_values \<Rightarrow> int list" where
  "known_LeapSecondSysInfoMask hal = map hal
     [''LEAP_SECOND_SYS_INFO_CURRENT_LEAP_SECONDS_BIT'', ''LEAP_SECOND_SYS_INFO_LEAP_SECOND_CHANGE_BIT'']"

lemma undoes_LeapSecondSysInfoMask [matching]:
  "undoes (is_flags32 (known_LeapSecondSysInfoMask hal)) m f (put_mask (getPBMaskForLeapSecondSysInfoMask hal) m) (get_mask (getLeapSecSysInfoMaskFromPB hal) f)"
  by (rule undoes_flags32 [OF LeapSecondSysInfoMask_rows]) (simp add: known_LeapSecondSysInfoMask_def getPBMaskForLeapSecondSysInfoMask_flags_def)

definition known_GnssSystemTimeStructTypeFlags :: "hal_values \<Rightarrow> int list" where
  "known_GnssSystemTimeStructTypeFlags hal = map hal
     [''GNSS_SYSTEM_TIME_WEEK_VALID'', ''GNSS_SYSTEM_TIME_WEEK_MS_VALID'',
      ''GNSS_SYSTEM_CLK_TIME_BIAS_VALID'', ''GNSS_SYSTEM_CLK_TIME_BIAS_UNC_VALID'',
      ''GNSS_SYSTEM_REF_FCOUNT_VALID'', ''GNSS_SYSTEM_NUM_CLOCK_RESETS_VALID'']"

lemma undoes_GnssSystemTimeStructTypeFlags [matching]:
  "undoes (is_flags32 (known_GnssSystemTimeStructTypeFlags hal)) m f (put_mask (getPBMaskForGnssSystemTimeStructTypeFlags hal) m) (get_mask (getGnssSystemTimeStructTypeFlagsFromPB hal) f)"
  by (rule undoes_flags32 [OF GnssSystemTimeStructTypeFlags_rows]) (simp add: known_GnssSystemTimeStructTypeFlags_def getPBMaskForGnssSystemTimeStructTypeFlags_flags_def)

definition known_LocationFlagsMask :: "hal_values \<Rightarrow> int list" where
  "known_LocationFlagsMask hal = map hal
     [''LOCATION_HAS_LAT_LONG_BIT'', ''LOCATION_HAS_ALTITUDE_BIT'', ''LOCATION_HAS_SPEED_BIT'',
      ''LOCATION_HAS_BEARING_BIT'', ''LOCATION_HAS_ACCURACY_BIT'', ''LOCATION_HAS_VERTICAL_ACCURACY_BIT'',
      ''LOCATION_HAS_SPEED_ACCURACY_BIT'', ''LOCATION_HAS_BEARING_ACCURACY_BIT'',
      ''LOCATION_HAS_ELAPSED_REAL_TIME_BIT'', ''LOCATION_HAS_TIME_UNC_BIT'', ''LOCATION_HAS_GPTP_TIME_BIT'',
      ''LOCATION_HAS_GPTP_TIME_UNC_BIT'', ''LOCATION_HAS_SESSION_STATUS_BIT'']"

lemma undoes_LocationFlagsMask [matching]:
  "undoes (is_flags32 (known_LocationFlagsMask hal)) m f (put_mask (getPBMaskForLocationFlagsMask hal) m) (get_mask (getLocationFlagsMaskFromPB hal) f)"
  by (rule undoes_flags32 [OF LocationFlagsMask_rows]) (simp add: known_LocationFlagsMask_def getPBMaskForLocationFlagsMask_flags_def)

definition known_LocationTechnologyMask :: "hal_values \<Rightarrow> int list" where
  "known_LocationTechnologyMask hal = map hal
     [''LOCATION_TECHNOLOGY_GNSS_BIT'', ''LOCATION_TECHNOLOGY_CELL_BIT'', ''LOCATION_TECHNOLOGY_WIFI_BIT'',
      ''LOCATION_TECHNOLOGY_SENSORS_BIT'', ''LOCATION_TECHNOLOGY_REFERENCE_LOCATION_BIT'',
      ''LOCATION_TECHNOLOGY_INJECTED_COARSE_POSITION_BIT'', ''LOCATION_TECHNOLOGY_AFLT_BIT'',
      ''LOCATION_TECHNOLOGY_HYBRID_BIT'', ''LOCATION_TECHNOLOGY_PPE_BIT'', ''LOCATION_TECHNOLOGY_VEH_BIT'',
      ''LOCATION_TECHNOLOGY_VIS_BIT'', ''LOCATION_TECHNOLOGY_PROPAGATED_BIT'']"

lemma undoes_LocationTechnologyMask [matching]:
  "undoes (is_flags32 (known_LocationTechnologyMask hal)) m f (put_mask (getPBMaskForLocationTechnologyMask hal) m) (get_mask (getLocationTechnologyMaskFromPB hal) f)"
  by (rule undoes_flags32 [OF LocationTechnologyMask_rows]) (simp add: known_LocationTechnologyMask_def getPBMaskForLocationTechnologyMask_flags_def)

definition known_GnssLocationNavSolutionMask :: "hal_values \<Rightarrow> int list" where
  "known_GnssLocationNavSolutionMask hal = map hal
     [''LOCATION_SBAS_CORRECTION_IONO_BIT'', ''LOCATION_SBAS_CORRECTION_FAST_BIT'',
      ''LOCATION_SBAS_CORRECTION_LONG_BIT'', ''LOCATION_SBAS_INTEGRITY_BIT'',
      ''LOCATION_NAV_CORRECTION_DGNSS_BIT'', ''LOCATION_NAV_CORRECTION_RTK_BIT'',
      ''LOCATION_NAV_CORRECTION_PPP_BIT'', ''LOCATION_NAV_CORRECTION_RTK_FIXED_BIT'',
      ''LOCATION_NAV_CORRECTION_ONLY_SBAS_CORRECTED_SV_USED_BIT'', ''LOCATION_NAV_MMF_AIDED_POSITION'']"

lemma undoes_GnssLocationNavSolutionMask [matching]:
  "undoes (is_flags32 (known_GnssLocationNavSolutionMask hal)) m f (put_mask (getPBMaskForGnssLocationNavSolutionMask hal) m) (get_mask (getGnssLocationNavSolutionMaskFromPB hal) f)"
  by (rule undoes_flags32 [OF GnssLocationNavSolutionMask_rows]) (simp add: known_GnssLocationNavSolutionMask_def getPBMaskForGnssLocationNavSolutionMask_flags_def)

definition known_GnssMeasurementsDataFlagsMask :: "hal_values \<Rightarrow> int list" where
  "known_GnssMeasurementsDataFlagsMask hal = map hal
     [''GNSS_MEASUREMENTS_DATA_SV_ID_BIT'', ''GNSS_MEASUREMENTS_DATA_SV_TYPE_BIT'',
      ''GNSS_MEASUREMENTS_DATA_STATE_BIT'', ''GNSS_MEASUREMENTS_DATA_RECEIVED_SV_TIME_BIT'',
      ''GNSS_MEASUREMENTS_DATA_RECEIVED_SV_TIME_UNCERTAINTY_BIT'',
      ''GNSS_MEASUREMENTS_DATA_CARRIER_TO_NOISE_BIT'', ''GNSS_MEASUREMENTS_DATA_PSEUDORANGE_RATE_BIT'',
      ''GNSS_MEASUREMENTS_DATA_PSEUDORANGE_RATE_UNCERTAINTY_BIT'', ''GNSS_MEASUREMENTS_DATA_ADR_STATE_BIT'',
      ''GNSS_MEASUREMENTS_DATA_ADR_BIT'', ''GNSS_MEASUREMENTS_DATA_ADR_UNCERTAINTY_BIT'',
      ''GNSS_MEASUREMENTS_DATA_CARRIER_FREQUENCY_BIT'', ''GNSS_MEASUREMENTS_DATA_CARRIER_CYCLES_BIT'',
      ''GNSS_MEASUREMENTS_DATA_CARRIER_PHASE_BIT'', ''GNSS_MEASUREMENTS_DATA_CARRIER_PHASE_UNCERTAINTY_BIT'',
      ''GNSS_MEASUREMENTS_DATA_MULTIPATH_INDICATOR_BIT'',
      ''GNSS_MEASUREMENTS_DATA_SIGNAL_TO_NOISE_RATIO_BIT'',
      ''GNSS_MEASUREMENTS_DATA_AUTOMATIC_GAIN_CONTROL_BIT'', ''GNSS_MEASUREMENTS_DATA_FULL_ISB_BIT'',
      ''GNSS_MEASUREMENTS_DATA_FULL_ISB_UNCERTAINTY_BIT'', ''GNSS_MEASUREMENTS_DATA_CYCLE_SLIP_COUNT_BIT'',
      ''GNSS_MEASUREMENTS_DATA_GNSS_SIGNAL_TYPE_BIT'',
      ''GNSS_MEASUREMENTS_DATA_BASEBAND_CARRIER_TO_NOISE_BIT'', ''GNSS_MEASUREMENTS_DATA_MEAS_CODE_TYPE_BIT'',
      ''GNSS_MEASUREMENTS_DATA_OTHER_MEAS_CODE_TYPE_BIT'']"

lemma undoes_GnssMeasurementsDataFlagsMask [matching]:
  "undoes (is_flags32 (known_GnssMeasurementsDataFlagsMask hal)) m f (put_mask (getPBMaskForGnssMeasurementsDataFlagsMask hal) m) (get_mask (getGnssMeasurementsDataFlagsMaskFromPB hal) f)"
  by (rule undoes_flags32 [OF GnssMeasurementsDataFlagsMask_rows]) (simp add: known_GnssMeasurementsDataFlagsMask_def getPBMaskForGnssMeasurementsDataFlagsMask_flags_def)

definition known_GnssMeasurementsAdrStateMask :: "hal_values \<Rightarrow> int list" where
  "known_GnssMeasurementsAdrStateMask hal = map hal
     [''GNSS_MEASUREMENTS_ACCUMULATED_DELTA_RANGE_STATE_VALID_BIT'',
      ''GNSS_MEASUREMENTS_ACCUMULATED_DELTA_RANGE_STATE_RESET_BIT'',
      ''GNSS_MEASUREMENTS_ACCUMULATED_DELTA_RANGE_STATE_CYCLE_SLIP_BIT'',
      ''GNSS_MEASUREMENTS_ACCUMULATED_DELTA_RANGE_STATE_HALF_CYCLE_RESOLVED_BIT'']"

lemma undoes_GnssMeasurementsAdrStateMask [matching]:
  "undoes (is_flags32 (known_GnssMeasurementsAdrStateMask hal)) m f (put_mask (getPBMaskForGnssMeasurementsAdrStateMask hal) m) (get_mask (getGnssMeasurementsAdrStateMaskFromPB hal) f)"
  by (rule undoes_flags32 [OF GnssMeasurementsAdrStateMask_rows]) (simp add: known_GnssMeasurementsAdrStateMask_def getPBMaskForGnssMeasurementsAdrStateMask_flags_def)

definition known_GnssMeasurementsClockFlagsMask :: "hal_values \<Rightarrow> int list" where
  "known_GnssMeasurementsClockFlagsMask hal = map hal
     [''GNSS_MEASUREMENTS_CLOCK_FLAGS_LEAP_SECOND_BIT'', ''GNSS_MEASUREMENTS_CLOCK_FLAGS_TIME_BIT'',
      ''GNSS_MEASUREMENTS_CLOCK_FLAGS_TIME_UNCERTAINTY_BIT'', ''GNSS_MEASUREMENTS_CLOCK_FLAGS_FULL_BIAS_BIT'',
      ''GNSS_MEASUREMENTS_CLOCK_FLAGS_BIAS_BIT'', ''GNSS_MEASUREMENTS_CLOCK_FLAGS_BIAS_UNCERTAINTY_BIT'',
      ''GNSS_MEASUREMENTS_CLOCK_FLAGS_DRIFT_BIT'', ''GNSS_MEASUREMENTS_CLOCK_FLAGS_DRIFT_UNCERTAINTY_BIT'',
      ''GNSS_MEASUREMENTS_CLOCK_FLAGS_HW_CLOCK_DISCONTINUITY_COUNT_BIT'',
      ''GNSS_MEASUREMENTS_CLOCK_FLAGS_ELAPSED_REAL_TIME_BIT'',
      ''GNSS_MEASUREMENTS_CLOCK_FLAGS_ELAPSED_REAL_TIME_UNC_BIT'',
      ''GNSS_MEASUREMENTS_CLOCK_FLAGS_ELAPSED_GPTP_TIME_BIT'',
      ''GNSS_MEASUREMENTS_CLOCK_FLAGS_ELAPSED_GPTP_TIME_UNC_BIT'']"

lemma undoes_GnssMeasurementsClockFlagsMask [matching]:
  "undoes (is_flags32 (known_GnssMeasurementsClockFlagsMask hal)) m f (put_mask (getPBMaskForGnssMeasurementsClockFlagsMask hal) m) (get_mask (getGnssMeasurementsClockFlagsMaskFromPB hal) f)"
  by (rule undoes_flags32 [OF GnssMeasurementsClockFlagsMask_rows]) (simp add: known_GnssMeasurementsClockFlagsMask_def getPBMaskForGnssMeasurementsClockFlagsMask_flags_def)

definition known_GnssGloTimeStructTypeFlags :: "hal_values \<Rightarrow> int list" where
  "known_GnssGloTimeStructTypeFlags hal = map hal
     [''GNSS_CLO_DAYS_VALID'', ''GNSS_GLO_MSEC_VALID'', ''GNSS_GLO_CLK_TIME_BIAS_VALID'',
      ''GNSS_GLO_CLK_TIME_BIAS_UNC_VALID'', ''GNSS_GLO_REF_FCOUNT_VALID'',
      ''GNSS_GLO_NUM_CLOCK_RESETS_VALID'', ''GNSS_GLO_FOUR_YEAR_VALID'']"

lemma undoes_GnssGloTimeStructTypeFlags [matching]:
  "undoes (is_flags32 (known_GnssGloTimeStructTypeFlags hal)) m f (put_mask (getPBMaskForGnssGloTimeStructTypeFlags hal) m) (get_mask (getGnssGloTimeStructTypeFlagsFromPB hal) f)"
  by (rule undoes_flags32 [OF GnssGloTimeStructTypeFlags_rows]) (simp add: known_GnssGloTimeStructTypeFlags_def getPBMaskForGnssGloTimeStructTypeFlags_flags_def)

definition known_GnssSvOptionsMask :: "hal_values \<Rightarrow> int list" where
  "known_GnssSvOptionsMask hal = map hal
     [''GNSS_SV_OPTIONS_HAS_EPHEMER_BIT'', ''GNSS_SV_OPTIONS_HAS_ALMANAC_BIT'',
      ''GNSS_SV_OPTIONS_USED_IN_FIX_BIT'', ''GNSS_SV_OPTIONS_HAS_CARRIER_FREQUENCY_BIT'',
      ''GNSS_SV_OPTIONS_HAS_GNSS_SIGNAL_TYPE_BIT'', ''GNSS_SV_OPTIONS_HAS_BASEBAND_CARRIER_TO_NOISE_BIT'',
      ''GNSS_SV_OPTIONS_HAS_ELEVATION_BIT'', ''GNSS_SV_OPTIONS_HAS_AZIMUTH_BIT'']"

lemma undoes_GnssSvOptionsMask [matching]:
  "undoes (is_flags32 (known_GnssSvOptionsMask hal)) m f (put_mask (getPBMaskForGnssSvOptionsMask hal) m) (get_mask (getGnssSvOptionsMaskFromPB hal) f)"
  by (rule undoes_flags32 [OF GnssSvOptionsMask_rows]) (simp add: known_GnssSvOptionsMask_def getPBMaskForGnssSvOptionsMask_flags_def)

definition known_GnssSignalTypeMask :: "hal_values \<Rightarrow> int list" where
  "known_GnssSignalTypeMask hal = map hal
     [''GNSS_SIGNAL_GPS_L1CA'', ''GNSS_SIGNAL_GPS_L1C'', ''GNSS_SIGNAL_GPS_L2'', ''GNSS_SIGNAL_GPS_L5'',
      ''GNSS_SIGNAL_GLONASS_G1'', ''GNSS_SIGNAL_GLONASS_G2'', ''GNSS_SIGNAL_GALILEO_E1'',
      ''GNSS_SIGNAL_GALILEO_E5A'', ''GNSS_SIGNAL_GALILEO_E5B'', ''GNSS_SIGNAL_BEIDOU_B1'',
      ''GNSS_SIGNAL_BEIDOU_B2'', ''GNSS_SIGNAL_QZSS_L1CA'', ''GNSS_SIGNAL_QZSS_L1S'', ''GNSS_SIGNAL_QZSS_L2'',
      ''GNSS_SIGNAL_QZSS_L5'', ''GNSS_SIGNAL_SBAS_L1'', ''GNSS_SIGNAL_BEIDOU_B1I'',
      ''GNSS_SIGNAL_BEIDOU_B1C'', ''GNSS_SIGNAL_BEIDOU_B2I'', ''GNSS_SIGNAL_BEIDOU_B2AI'',
      ''GNSS_SIGNAL_NAVIC_L5'', ''GNSS_SIGNAL_BEIDOU_B2AQ'', ''GNSS_SIGNAL_BEIDOU_B2BI'',
      ''GNSS_SIGNAL_BEIDOU_B2BQ'', ''GNSS_SIGNAL_NAVIC_L1'']"

lemma undoes_GnssSignalTypeMask [matching]:
  "undoes (is_flags32 (known_GnssSignalTypeMask hal)) m f (put_mask (getPBMaskForGnssSignalTypeMask hal) m) (get_mask (getGnssSignalTypeMaskFromPB hal) f)"
  by (rule undoes_flags32 [OF GnssSignalTypeMask_rows]) (simp add: known_GnssSignalTypeMask_def getPBMaskForGnssSignalTypeMask_flags_def)

definition known_GeofenceBreachTypeMask :: "hal_values \<Rightarrow> int list" where
  "known_GeofenceBreachTypeMask hal = map hal
     [''GEOFENCE_BREACH_ENTER_BIT'', ''GEOFENCE_BREACH_EXIT_BIT'', ''GEOFENCE_BREACH_DWELL_IN_BIT'',
      ''GEOFENCE_BREACH_DWELL_OUT_BIT'']"

lemma undoes_GeofenceBreachTypeMask [matching]:
  "undoes (is_flags32 (known_GeofenceBreachTypeMask hal)) m f (put_mask (getPBMaskForGeofenceBreachTypeMask hal) m) (get_mask (getGfBreachTypeMaskFromPB hal) f)"
  by (rule undoes_flags32 [OF GeofenceBreachTypeMask_rows]) (simp add: known_GeofenceBreachTypeMask_def getPBMaskForGeofenceBreachTypeMask_flags_def)

definition known_DrEngineAidingDataMask :: "hal_values \<Rightarrow> int list" where
  "known_DrEngineAidingDataMask hal = map hal
     [''DR_ENGINE_AIDING_DATA_CALIBRATION_BIT'']"

lemma undoes_DrEngineAidingDataMask [matching]:
  "undoes (is_flags32 (known_DrEngineAidingDataMask hal)) m f (put_mask (getPBMaskForDrEngineAidingDataMask hal) m) (get_mask (getDrEngineAidingDataMaskFromPB hal) f)"
  by (rule undoes_flags32 [OF DrEngineAidingDataMask_rows]) (simp add: known_DrEngineAidingDataMask_def getPBMaskForDrEngineAidingDataMask_flags_def)

definition known_DrSolutionStatusMask :: "hal_values \<Rightarrow> int list" where
  "known_DrSolutionStatusMask hal = map hal
     [''VEHICLE_SENSOR_SPEED_INPUT_DETECTED'', ''VEHICLE_SENSOR_SPEED_INPUT_USED'',
      ''DRE_WARNING_UNCALIBRATED'', ''DRE_WARNING_GNSS_QUALITY_INSUFFICIENT'', ''DRE_WARNING_FERRY_DETECTED'',
      ''DRE_ERROR_6DOF_SENSOR_UNAVAILABLE'', ''DRE_ERROR_VEHICLE_SPEED_UNAVAILABLE'',
      ''DRE_ERROR_GNSS_EPH_UNAVAILABLE'', ''DRE_ERROR_GNSS_MEAS_UNAVAILABLE'',
      ''DRE_WARNING_INIT_POSITION_INVALID'', ''DRE_WARNING_INIT_POSITION_UNRELIABLE'',
      ''DRE_WARNING_POSITON_UNRELIABLE'', ''DRE_ERROR_GENERIC'', ''DRE_WARNING_SENSOR_TEMP_OUT_OF_RANGE'',
      ''DRE_WARNING_USER_DYNAMICS_INSUFFICIENT'', ''DRE_WARNING_FACTORY_DATA_INCONSISTENT'',
      ''DRE_WARNING_MMF_UNAVAILABLE'', ''DRE_WARNING_MMF_NOT_USABLE'']"

lemma undoes_DrSolutionStatusMask [matching]:
  "undoes (is_flags32 (known_DrSolutionStatusMask hal)) m f (put_mask (getPBMaskForDrSolutionStatusMask hal) m) (get_mask (getDrSolutionStatusMaskFromPB hal) f)"
  by (rule undoes_flags32 [OF DrSolutionStatusMask_rows]) (simp add: known_DrSolutionStatusMask_def getPBMaskForDrSolutionStatusMask_flags_def)

definition known_LocationCapabilitiesMask :: "hal_values \<Rightarrow> int list" where
  "known_LocationCapabilitiesMask hal = map hal
     [''LOCATION_CAPABILITIES_TIME_BASED_TRACKING_BIT'', ''LOCATION_CAPABILITIES_TIME_BASED_BATCHING_BIT'',
      ''LOCATION_CAPABILITIES_DISTANCE_BASED_TRACKING_BIT'',
      ''LOCATION_CAPABILITIES_DISTANCE_BASED_BATCHING_BIT'', ''LOCATION_CAPABILITIES_GEOFENCE_BIT'',
      ''LOCATION_CAPABILITIES_OUTDOOR_TRIP_BATCHING_BIT'', ''LOCATION_CAPABILITIES_GNSS_MEASUREMENTS_BIT'',
      ''LOCATION_CAPABILITIES_CONSTELLATION_ENABLEMENT_BIT'',
      ''LOCATION_CAPABILITIES_QWES_CARRIER_PHASE_BIT'', ''LOCATION_CAPABILITIES_QWES_SV_POLYNOMIAL_BIT'',
      ''LOCATION_CAPABILITIES_QWES_GNSS_SINGLE_FREQUENCY'',
      ''LOCATION_CAPABILITIES_QWES_GNSS_MULTI_FREQUENCY'', ''LOCATION_CAPABILITIES_QWES_VPE'',
      ''LOCATION_CAPABILITIES_QWES_CV2X_LOCATION_BASIC'',
      ''LOCATION_CAPABILITIES_QWES_CV2X_LOCATION_PREMIUM'', ''LOCATION_CAPABILITIES_QWES_PPE'',
      ''LOCATION_CAPABILITIES_QWES_QDR2'', ''LOCATION_CAPABILITIES_QWES_QDR3'',
      ''LOCATION_CAPABILITIES_QWES_DGNSS'', ''LOCATION_CAPABILITIES_ANTENNA_INFO'',
      ''LOCATION_CAPABILITIES_GNSS_MSB_BIT'', ''LOCATION_CAPABILITIES_GNSS_MSA_BIT'',
      ''LOCATION_CAPABILITIES_DEBUG_DATA_BIT'', ''LOCATION_CAPABILITIES_AGPM_BIT'',
      ''LOCATION_CAPABILITIES_PRIVACY_BIT'', ''LOCATION_CAPABILITIES_MEASUREMENTS_CORRECTION_BIT'',
      ''LOCATION_CAPABILITIES_CONFORMITY_INDEX_BIT'', ''LOCATION_CAPABILITIES_EDGNSS_BIT'',
      ''LOCATION_CAPABILITIES_QWES_SV_EPHEMERIS_BIT'', ''LOCATION_CAPABILITIES_NLOS_ML20'']"

lemma undoes_LocationCapabilitiesMask [matching]:
  "undoes (is_flags64 (known_LocationCapabilitiesMask hal)) m f (put_mask (getPBMaskForLocationCapabilitiesMask hal) m) (get_mask (getLocationCapabilitiesMaskFromPB hal) f)"
  by (rule undoes_flags64 [OF LocationCapabilitiesMask_rows]) (simp add: known_LocationCapabilitiesMask_def getPBMaskForLocationCapabilitiesMask_flags_def)

definition known_DeadReckoningEngineConfigValidMask :: "hal_values \<Rightarrow> int list" where
  "known_DeadReckoningEngineConfigValidMask hal = map hal
     [''BODY_TO_SENSOR_MOUNT_PARAMS_BIT'', ''VEHICLE_SPEED_SCALE_FACTOR_BIT'',
      ''VEHICLE_SPEED_SCALE_FACTOR_UNC_BIT'', ''GYRO_SCALE_FACTOR_BIT'', ''GYRO_SCALE_FACTOR_UNC_BIT'']"

lemma undoes_DeadReckoningEngineConfigValidMask [matching]:
  "undoes (is_flags64 (known_DeadReckoningEngineConfigValidMask hal)) m f (put_mask (getPBMaskForDeadReckoningEngineConfigValidMask hal) m) (get_mask (getDeadReckoningEngineConfigValidMaskFromPB hal) f)"
  by (rule undoes_flags64 [OF DeadReckoningEngineConfigValidMask_rows]) (simp add: known_DeadReckoningEngineConfigValidMask_def getPBMaskForDeadReckoningEngineConfigValidMask_flags_def)

section \<open>Masks in two words\<close>

definition known_GnssLocationInfoFlagMask :: "hal_values \<Rightarrow> int list" where
  "known_GnssLocationInfoFlagMask hal = map hal
     [''LDT_GNSS_LOCATION_INFO_ALTITUDE_MEAN_SEA_LEVEL_BIT'', ''LDT_GNSS_LOCATION_INFO_DOP_BIT'',
      ''LDT_GNSS_LOCATION_INFO_MAGNETIC_DEVIATION_BIT'', ''LDT_GNSS_LOCATION_INFO_HOR_RELIABILITY_BIT'',
      ''LDT_GNSS_LOCATION_INFO_VER_RELIABILITY_BIT'',
      ''LDT_GNSS_LOCATION_INFO_HOR_ACCURACY_ELIP_SEMI_MAJOR_BIT'',
      ''LDT_GNSS_LOCATION_INFO_HOR_ACCURACY_ELIP_SEMI_MINOR_BIT'',
      ''LDT_GNSS_LOCATION_INFO_HOR_ACCURACY_ELIP_AZIMUTH_BIT'',
      ''LDT_GNSS_LOCATION_INFO_GNSS_SV_USED_DATA_BIT'', ''LDT_GNSS_LOCATION_INFO_NAV_SOLUTION_MASK_BIT'',
      ''LDT_GNSS_LOCATION_INFO_POS_DYNAMICS_DATA_BIT'', ''LDT_GNSS_LOCATION_INFO_EXT_DOP_BIT'',
      ''LDT_GNSS_LOCATION_INFO_NORTH_STD_DEV_BIT'', ''LDT_GNSS_LOCATION_INFO_EAST_STD_DEV_BIT'',
      ''LDT_GNSS_LOCATION_INFO_NORTH_VEL_BIT'', ''LDT_GNSS_LOCATION_INFO_EAST_VEL_BIT'',
      ''LDT_GNSS_LOCATION_INFO_UP_VEL_BIT'', ''LDT_GNSS_LOCATION_INFO_NORTH_VEL_UNC_BIT'',
      ''LDT_GNSS_LOCATION_INFO_EAST_VEL_UNC_BIT'', ''LDT_GNSS_LOCATION_INFO_UP_VEL_UNC_BIT'',
      ''LDT_GNSS_LOCATION_INFO_LEAP_SECONDS_BIT'', ''LDT_GNSS_LOCATION_INFO_NUM_SV_USED_IN_POSITION_BIT'',
      ''LDT_GNSS_LOCATION_INFO_CALIBRATION_CONFIDENCE_BIT'',
      ''LDT_GNSS_LOCATION_INFO_CALIBRATION_STATUS_BIT'', ''LDT_GNSS_LOCATION_INFO_OUTPUT_ENG_TYPE_BIT'',
      ''LDT_GNSS_LOCATION_INFO_OUTPUT_ENG_MASK_BIT'', ''LDT_GNSS_LOCATION_INFO_CONFORMITY_INDEX_BIT'',
      ''LDT_GNSS_LOCATION_INFO_LLA_VRP_BASED_BIT'', ''LDT_GNSS_LOCATION_INFO_ENU_VELOCITY_VRP_BASED_BIT'',
      ''LDT_GNSS_LOCATION_INFO_DR_SOLUTION_STATUS_MASK_BIT'', ''LDT_GNSS_LOCATION_INFO_ALTITUDE_ASSUMED_BIT'',
      ''LDT_GNSS_LOCATION_INFO_SESSION_STATUS_BIT'', ''LDT_GNSS_LOCATION_INFO_INTEGRITY_RISK_USED_BIT'',
      ''LDT_GNSS_LOCATION_INFO_PROTECT_ALONG_TRACK_BIT'', ''LDT_GNSS_LOCATION_INFO_PROTECT_CROSS_TRACK_BIT'',
      ''LDT_GNSS_LOCATION_INFO_PROTECT_VERTICAL_BIT'', ''LDT_GNSS_LOCATION_INFO_DGNSS_STATION_ID_BIT'',
      ''LDT_GNSS_LOCATION_INFO_BASE_LINE_LENGTH_BIT'', ''LDT_GNSS_LOCATION_INFO_AGE_OF_CORRECTION_BIT'',
      ''LDT_GNSS_LOCATION_INFO_LEAP_SECONDS_UNC_BIT'', ''LDT_GNSS_LOCATION_INFO_REPORT_INTERVAL_BIT'',
      ''LDT_GNSS_LOCATION_INFO_EXTENDED_DATA_BIT'']"

lemma location_flags_back:
  assumes "is_flags64 (known_GnssLocationInfoFlagMask hal) v"
  shows "v = Num (uint (getGnssLocationInfoFlagMaskFromPB hal
    (getPBMaskForGnssLocationInfoFlagMask hal (word_of_int (num v))) (getPBMaskForGnssLocationInfoExtFlagMask hal (word_of_int (num v)))))"
proof -
  have f: "known_GnssLocationInfoFlagMask hal =
      map fst (getPBMaskForGnssLocationInfoFlagMask_flags hal @ getPBMaskForGnssLocationInfoExtFlagMask_flags hal)"
    by (simp add: known_GnssLocationInfoFlagMask_def getPBMaskForGnssLocationInfoFlagMask_flags_def
      getPBMaskForGnssLocationInfoExtFlagMask_flags_def)
  show ?thesis
    using assms GnssLocationInfoFlagMask_known [of hal "word_of_int (num v)"]
    by (simp add: is_flags64_def made_of_def Let_def f del: map_append)
qed

text \<open>The flags of the body's dynamics: two masks of the HAL in one of the protocol buffers.\<close>

definition known_PosDataMask :: "hal_values \<Rightarrow> int list" where
  "known_PosDataMask hal = map hal
     [''LOCATION_NAV_DATA_HAS_LONG_ACCEL_BIT'', ''LOCATION_NAV_DATA_HAS_LAT_ACCEL_BIT'',
      ''LOCATION_NAV_DATA_HAS_VERT_ACCEL_BIT'', ''LOCATION_NAV_DATA_HAS_YAW_RATE_BIT'',
      ''LOCATION_NAV_DATA_HAS_PITCH_BIT'', ''LOCATION_NAV_DATA_HAS_LONG_ACCEL_UNC_BIT'',
      ''LOCATION_NAV_DATA_HAS_LAT_ACCEL_UNC_BIT'', ''LOCATION_NAV_DATA_HAS_VERT_ACCEL_UNC_BIT'',
      ''LOCATION_NAV_DATA_HAS_YAW_RATE_UNC_BIT'', ''LOCATION_NAV_DATA_HAS_PITCH_UNC_BIT'']"

definition known_PosDataMaskExt :: "hal_values \<Rightarrow> int list" where
  "known_PosDataMaskExt hal = map hal
     [''LOCATION_NAV_DATA_HAS_PITCH_RATE_BIT'', ''LOCATION_NAV_DATA_HAS_PITCH_RATE_UNC_BIT'',
      ''LOCATION_NAV_DATA_HAS_ROLL_BIT'', ''LOCATION_NAV_DATA_HAS_ROLL_UNC_BIT'',
      ''LOCATION_NAV_DATA_HAS_ROLL_RATE_BIT'', ''LOCATION_NAV_DATA_HAS_ROLL_RATE_UNC_BIT'',
      ''LOCATION_NAV_DATA_HAS_YAW_BIT'', ''LOCATION_NAV_DATA_HAS_YAW_UNC_BIT'']"

lemma no_flags:
  fixes m :: "'a::len word"
  assumes "single_bits LENGTH('b::len) (map snd rows @ map snd rows')" and "(c, d) \<in> set rows"
  shows "copy_flags rows' m AND (word_of_int d :: 'b word) = 0"
proof -
  have "d \<in> set (map snd rows @ map snd rows')" using assms(2) by force
  with single_bitsD [OF assms(1)] obtain i where i: "d = 2 ^ i" "i < LENGTH('b)" by blast
  have "\<not> bit (word_of_int d' :: 'b word) i" if "(c', d') \<in> set rows'" for c' d'
  proof -
    have d': "d' \<in> set (map snd rows @ map snd rows')" "d' \<in> set (map snd rows')" using that by force+
    moreover have "d \<in> set (map snd rows)" using assms(2) by force
    ultimately have "d' \<noteq> d" using assms(1) by (auto simp: single_bits_def)
    moreover obtain k where "d' = 2 ^ k" "k < LENGTH('b)" using single_bitsD [OF assms(1) d'(1)] by blast
    ultimately show ?thesis using i by (auto simp: bit_flag)
  qed
  then have "\<not> bit (copy_flags rows' m :: 'b word) i" unfolding bit_copy_flags by fast
  then show ?thesis using test_flag [of "copy_flags rows' m :: 'b word" i] i by simp
qed

lemma copy_flags_or_none:
  assumes "\<And>c d. (c, d) \<in> set rows \<Longrightarrow> q AND word_of_int c = 0"
  shows "copy_flags rows (p OR q) = (copy_flags rows p :: 'b::len word)"
proof (rule bit_word_eqI)
  have t: "(p OR q) AND word_of_int c \<noteq> 0 \<longleftrightarrow> p AND word_of_int c \<noteq> 0" if "(c, d) \<in> set rows" for c d
    using assms [OF that] by (simp add: bit.conj_disj_distrib2)
  show "bit (copy_flags rows (p OR q) :: 'b word) j \<longleftrightarrow> bit (copy_flags rows p :: 'b word) j" for j
    unfolding bit_copy_flags by (rule bex_cong [OF refl]) (use t in auto)
qed

lemma copy_flags_both:
  fixes m n :: "'a::len word"
  assumes "flag_bits LENGTH('a) (map fst rows)" and "flag_bits LENGTH('a) (map fst rows')"
    and "single_bits LENGTH('b::len) (map snd rows @ map snd rows')"
  shows "copy_flags (map prod.swap rows) (copy_flags_to (copy_flags rows m) rows' n :: 'b word) = m AND all_flags (map fst rows)"
    and "copy_flags (map prod.swap rows') (copy_flags_to (copy_flags rows m) rows' n :: 'b word) = n AND all_flags (map fst rows')"
proof -
  have s: "single_bits LENGTH('b) (map snd rows)" "single_bits LENGTH('b) (map snd rows')"
    "single_bits LENGTH('b) (map snd rows' @ map snd rows)"
    using assms(3) by (auto simp: single_bits_def)
  show "copy_flags (map prod.swap rows) (copy_flags_to (copy_flags rows m) rows' n :: 'b word) = m AND all_flags (map fst rows)"
    unfolding copy_flags_to_or rows_known [OF assms(1) s(1), symmetric]
    by (rule copy_flags_or_none) (use no_flags [OF assms(3)] in auto)
  show "copy_flags (map prod.swap rows') (copy_flags_to (copy_flags rows m) rows' n :: 'b word) = n AND all_flags (map fst rows')"
    unfolding copy_flags_to_or or.commute [of "copy_flags rows m"] rows_known [OF assms(2) s(2), symmetric]
    by (rule copy_flags_or_none) (use no_flags [OF s(3)] in auto)
qed

lemma pos_data_back:
  assumes "is_flags32 (known_PosDataMask hal) v" and "is_flags32 (known_PosDataMaskExt hal) u"
  defines "p \<equiv> getPBMaskForGnssLocationPosDataMask hal (word_of_int (num v)) (word_of_int (num u))"
  shows "v = Num (uint (getGnssLocationPosDataMaskFromPB hal p))" and "u = Num (uint (getGnssLocationPosDataMaskExtFromPB hal p))"
proof -
  let ?f = "getPBMaskForGnssLocationPosDataMask_flags hal" and ?g = "getPBMaskForGnssLocationPosDataMask_flags_ext hal"
  have k: "known_PosDataMask hal = map fst ?f" "known_PosDataMaskExt hal = map fst ?g"
    by (simp_all add: known_PosDataMask_def known_PosDataMaskExt_def getPBMaskForGnssLocationPosDataMask_flags_def
      getPBMaskForGnssLocationPosDataMask_flags_ext_def)
  have d: "getGnssLocationPosDataMaskFromPB hal q = copy_flags (map prod.swap ?f) q"
    "getGnssLocationPosDataMaskExtFromPB hal q = copy_flags (map prod.swap ?g) q" for q
    by (simp_all add: getGnssLocationPosDataMaskFromPB_def getGnssLocationPosDataMaskExtFromPB_def
      getPBMaskForGnssLocationPosDataMask_flags_def getPBMaskForGnssLocationPosDataMask_flags_ext_def)
  have s: "single_bits LENGTH(32) (map snd ?f @ map snd ?g)" unfolding len_of_numeral_defs by code_simp
  have b: "flag_bits LENGTH(32) (map fst ?f)" "flag_bits LENGTH(32) (map fst ?g)"
    using assms(1,2) by (simp_all only: is_flags32_def made_of_def Let_def k)
  note both = copy_flags_both [OF b s, folded d getPBMaskForGnssLocationPosDataMask_def]
  show "v = Num (uint (getGnssLocationPosDataMaskFromPB hal p))" "u = Num (uint (getGnssLocationPosDataMaskExtFromPB hal p))"
    unfolding p_def both using assms(1,2) by (simp_all add: is_flags32_def made_of_def Let_def k)
qed

section \<open>Masks that come back in part\<close>

text \<open>The calibration status of dead reckoning: the flags that come back, when none of the others is set.\<close>

definition known_DrCalibrationStatus :: "hal_values \<Rightarrow> int list" where
  "known_DrCalibrationStatus hal = map hal
     [''DR_ROLL_CALIBRATION_NEEDED'', ''DR_PITCH_CALIBRATION_NEEDED'', ''DR_YAW_CALIBRATION_NEEDED'',
      ''DR_ODO_CALIBRATION_NEEDED'', ''DR_GYRO_CALIBRATION_NEEDED'', ''DR_TURN_CALIBRATION_LOW'',
      ''DR_LINEAR_ACCEL_CALIBRATION_LOW'', ''DR_LINEAR_MOTION_CALIBRATION_LOW'', ''DR_STATIC_CALIBRATION_LOW'']"

definition lost_DrCalibrationStatus :: "hal_values \<Rightarrow> int list" where
  "lost_DrCalibrationStatus hal = map hal
     [''DR_TURN_CALIBRATION_MEDIUM'', ''DR_TURN_CALIBRATION_HIGH'', ''DR_LINEAR_ACCEL_CALIBRATION_MEDIUM'',
      ''DR_LINEAR_ACCEL_CALIBRATION_HIGH'', ''DR_LINEAR_MOTION_CALIBRATION_MEDIUM'',
      ''DR_LINEAR_MOTION_CALIBRATION_HIGH'', ''DR_STATIC_CALIBRATION_MEDIUM'', ''DR_STATIC_CALIBRATION_HIGH'']"

definition is_calibration :: "hal_values \<Rightarrow> cval \<Rightarrow> bool" where
  "is_calibration hal v \<longleftrightarrow> is_flags32 (known_DrCalibrationStatus hal) v \<and>
     list_all (\<lambda>c. word_of_int (num v) AND (word_of_int c :: 32 word) = 0) (lost_DrCalibrationStatus hal)"

lemma copy_flags_append: "copy_flags (rows @ rows') m = copy_flags rows m OR copy_flags rows' m"
  by (rule bit_word_eqI) (auto simp: bit_copy_flags bit_or_iff)

lemma copy_no_flags: "list_all (\<lambda>c. m AND word_of_int c = 0) (map fst rows) \<Longrightarrow> copy_flags rows m = 0"
  by (rule bit_word_eqI) (auto simp: bit_copy_flags list_all_iff)

definition dr_known :: "hal_values \<Rightarrow> (int \<times> int) list" where
  "dr_known hal =
     [(hal ''DR_ROLL_CALIBRATION_NEEDED'', PB_DR_ROLL_CALIBRATION_NEEDED),
      (hal ''DR_PITCH_CALIBRATION_NEEDED'', PB_DR_PITCH_CALIBRATION_NEEDED),
      (hal ''DR_YAW_CALIBRATION_NEEDED'', PB_DR_YAW_CALIBRATION_NEEDED),
      (hal ''DR_ODO_CALIBRATION_NEEDED'', PB_DR_ODO_CALIBRATION_NEEDED),
      (hal ''DR_GYRO_CALIBRATION_NEEDED'', PB_DR_GYRO_CALIBRATION_NEEDED),
      (hal ''DR_TURN_CALIBRATION_LOW'', PB_DR_TURN_CALIBRATION_LOW),
      (hal ''DR_LINEAR_ACCEL_CALIBRATION_LOW'', PB_DR_LINEAR_ACCEL_CALIBRATION_LOW),
      (hal ''DR_LINEAR_MOTION_CALIBRATION_LOW'', PB_DR_LINEAR_MOTION_CALIBRATION_LOW),
      (hal ''DR_STATIC_CALIBRATION_LOW'', PB_DR_STATIC_CALIBRATION_LOW)]"

lemma undoes_calibration [matching]:
  "undoes (is_calibration hal) m f (put_mask (getPBMaskForDrCalibrationStatusMask hal) m) (get_mask (getDrCalibrationStatusMaskFromPB hal) f)"
proof (rule undoes_maskI)
  fix v assume v: "is_calibration hal v"
  let ?w = "word_of_int (num v) :: 32 word" and ?k = "dr_known hal" and ?c = "dr_confused hal"
  let ?d = "map (\<lambda>(c, d). (d, d)) ?c"
  have k: "flag_bits LENGTH(32) (map fst ?k)" "v = Num (uint ?w)" "?w AND all_flags (map fst ?k) = ?w"
    using v by (simp_all add: is_calibration_def is_flags32_def made_of_def Let_def known_DrCalibrationStatus_def dr_known_def)
  have n: "list_all (\<lambda>c. ?w AND word_of_int c = 0) (map fst ?c)"
    using v by (simp add: is_calibration_def lost_DrCalibrationStatus_def dr_confused_def)
  have s: "single_bits LENGTH(32) (map snd ?d @ map snd ?k)" unfolding len_of_numeral_defs by code_simp
  then have sk: "single_bits LENGTH(32) (map snd ?k)" by (simp add: single_bits_def)
  have "set (getPBMaskForDrCalibrationStatusMask_flags hal) = set (?k @ ?c)"
    by (simp add: dr_known_def dr_confused_def getPBMaskForDrCalibrationStatusMask_flags_def insert_commute)
  then have e: "getPBMaskForDrCalibrationStatusMask hal ?w = copy_flags (?k @ ?c) ?w"
    unfolding getPBMaskForDrCalibrationStatusMask_def by (rule copy_flags_cong)
  have d: "getDrCalibrationStatusMaskFromPB hal p = copy_flags (map prod.swap ?k @ ?d) p" for p
    unfolding getDrCalibrationStatusMaskFromPB_def by (rule copy_flags_cong) (simp add: dr_known_def dr_confused_def insert_commute)
  have "copy_flags ?d (copy_flags ?k ?w :: 32 word) = (0 :: 32 word)"
  proof (rule copy_no_flags)
    have "copy_flags ?k ?w AND (word_of_int d :: 32 word) = 0" if "(c, d) \<in> set ?c" for c d
      by (rule no_flags [OF s, of d]) (use that in force)
    then show "list_all (\<lambda>c. copy_flags ?k ?w AND (word_of_int c :: 32 word) = 0) (map fst ?d)" by (auto simp: list_all_iff)
  qed
  then have "getDrCalibrationStatusMaskFromPB hal (getPBMaskForDrCalibrationStatusMask hal ?w) = ?w"
    by (simp add: d e copy_flags_append copy_no_flags [OF n] rows_known [OF k(1) sk] k(3))
  then show "v = Num (uint (getDrCalibrationStatusMaskFromPB hal (getPBMaskForDrCalibrationStatusMask hal (word_of_int (num v)))))"
    using k(2) by simp
qed

section \<open>Numbers on one side, masks on the other\<close>

text \<open>Only the flags count that have the same value on both sides.\<close>

definition same_flags :: "(int \<times> int) list \<Rightarrow> 'a::len word \<Rightarrow> bool" where
  "same_flags rows w \<longleftrightarrow> w AND all_flags (map snd rows) = w \<and>
     list_all (\<lambda>(c, d). c = d \<or> w AND word_of_int c = 0 \<and> w AND word_of_int d = 0) rows"

lemma copy_same_flags:
  fixes w :: "'a::len word"
  assumes "same_flags rows w" and "single_bits LENGTH('a) (map snd rows)"
  shows "copy_flags (map prod.swap rows) w = w" and "copy_flags rows w = w"
proof -
  have e: "c = d" if "(c, d) \<in> set rows" "w AND word_of_int c \<noteq> 0 \<or> w AND word_of_int d \<noteq> 0" for c d
    using assms(1) that by (auto simp: same_flags_def list_all_iff)
  have t: "w AND word_of_int d \<noteq> 0 \<and> bit (word_of_int d :: 'a word) j \<longleftrightarrow> bit w j \<and> bit (word_of_int d :: 'a word) j"
    if "(c, d) \<in> set rows" for c d j
    by (rule tested_flag [OF single_flag_bits [OF assms(2)]]) (use that in force)
  have a: "bit w j \<longleftrightarrow> (\<exists>(c, d) \<in> set rows. bit w j \<and> bit (word_of_int d :: 'a word) j)" for j
  proof -
    have "bit w j \<longleftrightarrow> bit (w AND all_flags (map snd rows)) j" using assms(1) by (simp add: same_flags_def)
    then show ?thesis unfolding bit_and_iff bit_all_flags by force
  qed
  show "copy_flags (map prod.swap rows) w = w"
  proof (rule bit_word_eqI)
    fix j
    have "bit (copy_flags (map prod.swap rows) w :: 'a word) j \<longleftrightarrow>
        (\<exists>(c, d) \<in> set rows. w AND word_of_int d \<noteq> 0 \<and> bit (word_of_int c :: 'a word) j)"
      unfolding bit_copy_flags by force
    also have "\<dots> \<longleftrightarrow> (\<exists>(c, d) \<in> set rows. w AND word_of_int d \<noteq> 0 \<and> bit (word_of_int d :: 'a word) j)" using e by fast
    also have "\<dots> \<longleftrightarrow> (\<exists>(c, d) \<in> set rows. bit w j \<and> bit (word_of_int d :: 'a word) j)" using t by fast
    finally show "bit (copy_flags (map prod.swap rows) w :: 'a word) j \<longleftrightarrow> bit w j" using a by blast
  qed
  show "copy_flags rows w = w"
  proof (rule bit_word_eqI)
    fix j
    have "bit (copy_flags rows w :: 'a word) j \<longleftrightarrow> (\<exists>(c, d) \<in> set rows. w AND word_of_int d \<noteq> 0 \<and> bit (word_of_int d :: 'a word) j)"
      unfolding bit_copy_flags using e by fast
    also have "\<dots> \<longleftrightarrow> (\<exists>(c, d) \<in> set rows. bit w j \<and> bit (word_of_int d :: 'a word) j)" using t by fast
    finally show "bit (copy_flags rows w :: 'a word) j \<longleftrightarrow> bit w j" using a by blast
  qed
qed

definition known_GfBreachType :: "hal_values \<Rightarrow> (int \<times> int) list" where
  "known_GfBreachType hal =
     [(hal ''GEOFENCE_BREACH_ENTER_BIT'', PB_GEOFENCE_BREACH_ENTER_BIT),
      (hal ''GEOFENCE_BREACH_EXIT_BIT'', PB_GEOFENCE_BREACH_EXIT_BIT),
      (hal ''GEOFENCE_BREACH_DWELL_IN_BIT'', PB_GEOFENCE_BREACH_DWELL_IN_BIT),
      (hal ''GEOFENCE_BREACH_DWELL_OUT_BIT'', PB_GEOFENCE_BREACH_DWELL_OUT_BIT)]"

definition is_breach_type :: "hal_values \<Rightarrow> cval \<Rightarrow> bool" where
  "is_breach_type hal v \<longleftrightarrow> (let w = word_of_int (num v) :: 32 word in v = Num (uint w) \<and> same_flags (known_GfBreachType hal) w)"

lemma undoes_breach_type [matching]: "undoes (is_breach_type hal) m f (put UInt32 m) (get_mask (getGfBreachTypeMaskFromPB hal) f)"
proof (rule undoes_plainI)
  fix pb y v
  let ?w = "word_of_int (num v) :: 32 word"
  assume v: "is_breach_type hal v" "pb f = Num (fit UInt32 (num v))"
  then have w: "v = Num (uint ?w)" "same_flags (known_GfBreachType hal) ?w" by (simp_all add: is_breach_type_def Let_def)
  have "fit UInt32 (num v) = uint ?w" by simp
  moreover have "getGfBreachTypeMaskFromPB hal ?w = copy_flags (map prod.swap (known_GfBreachType hal)) ?w"
    by (simp add: getGfBreachTypeMaskFromPB_def known_GfBreachType_def)
  moreover have "single_bits LENGTH(32) (map snd (known_GfBreachType hal))" unfolding len_of_numeral_defs by code_simp
  ultimately have "get_mask (getGfBreachTypeMaskFromPB hal) f pb y = Some (Num (uint ?w))"
    using copy_same_flags(1) [OF w(2)] v(2) by (simp add: get_mask_def)
  then show "get_mask (getGfBreachTypeMaskFromPB hal) f pb y = Some v" using w(1) by simp
qed (simp add: put_def)

definition known_GnssSvTypes :: "hal_values \<Rightarrow> (int \<times> int) list" where
  "known_GnssSvTypes hal =
     [(hal ''GNSS_SV_TYPES_MASK_GLO_BIT'', PB_GNSS_SV_TYPES_MASK_GLO_BIT),
      (hal ''GNSS_SV_TYPES_MASK_BDS_BIT'', PB_GNSS_SV_TYPES_MASK_BDS_BIT),
      (hal ''GNSS_SV_TYPES_MASK_QZSS_BIT'', PB_GNSS_SV_TYPES_MASK_QZSS_BIT),
      (hal ''GNSS_SV_TYPES_MASK_GAL_BIT'', PB_GNSS_SV_TYPES_MASK_GAL_BIT),
      (hal ''GNSS_SV_TYPES_MASK_NAVIC_BIT'', PB_GNSS_SV_TYPES_MASK_NAVIC_BIT),
      (hal ''GNSS_SV_TYPES_MASK_GPS_BIT'', PB_GNSS_SV_TYPES_MASK_GPS_BIT)]"

definition is_sv_types :: "hal_values \<Rightarrow> cval \<Rightarrow> bool" where
  "is_sv_types hal v \<longleftrightarrow> (let w = word_of_int (num v) :: 64 word in v = Num (uint w) \<and> same_flags (known_GnssSvTypes hal) w)"

lemma undoes_sv_types [matching]: "undoes (is_sv_types hal) m f (put UInt64 m) (get_mask (getGnssSvTypesMaskFromPB hal) f)"
proof (rule undoes_plainI)
  fix pb y v
  let ?w = "word_of_int (num v) :: 64 word"
  assume v: "is_sv_types hal v" "pb f = Num (fit UInt64 (num v))"
  then have w: "v = Num (uint ?w)" "same_flags (known_GnssSvTypes hal) ?w" by (simp_all add: is_sv_types_def Let_def)
  have "fit UInt64 (num v) = uint ?w" by simp
  moreover have "getGnssSvTypesMaskFromPB hal ?w = copy_flags (map prod.swap (known_GnssSvTypes hal)) ?w"
    by (simp add: getGnssSvTypesMaskFromPB_def known_GnssSvTypes_def)
  moreover have "single_bits LENGTH(64) (map snd (known_GnssSvTypes hal))" unfolding len_of_numeral_defs by code_simp
  ultimately have "get_mask (getGnssSvTypesMaskFromPB hal) f pb y = Some (Num (uint ?w))"
    using copy_same_flags(1) [OF w(2)] v(2) by (simp add: get_mask_def)
  then show "get_mask (getGnssSvTypesMaskFromPB hal) f pb y = Some v" using w(1) by simp
qed (simp add: put_def)

lemma copy_empty_flag: "copy_flags ((c, 0) # rows) m = copy_flags rows m"
  by (simp add: copy_flags_def)

text \<open>The flag of an unknown state is empty.\<close>

definition known_MeasurementsState :: "hal_values \<Rightarrow> (int \<times> int) list" where
  "known_MeasurementsState hal =
     [(hal ''GNSS_MEASUREMENTS_STATE_CODE_LOCK_BIT'', PB_GNSS_MEASUREMENTS_STATE_CODE_LOCK_BIT),
      (hal ''GNSS_MEASUREMENTS_STATE_BIT_SYNC_BIT'', PB_GNSS_MEASUREMENTS_STATE_BIT_SYNC_BIT),
      (hal ''GNSS_MEASUREMENTS_STATE_SUBFRAME_SYNC_BIT'', PB_GNSS_MEASUREMENTS_STATE_SUBFRAME_SYNC_BIT),
      (hal ''GNSS_MEASUREMENTS_STATE_TOW_DECODED_BIT'', PB_GNSS_MEASUREMENTS_STATE_TOW_DECODED_BIT),
      (hal ''GNSS_MEASUREMENTS_STATE_MSEC_AMBIGUOUS_BIT'', PB_GNSS_MEASUREMENTS_STATE_MSEC_AMBIGUOUS_BIT),
      (hal ''GNSS_MEASUREMENTS_STATE_SYMBOL_SYNC_BIT'', PB_GNSS_MEASUREMENTS_STATE_SYMBOL_SYNC_BIT),
      (hal ''GNSS_MEASUREMENTS_STATE_GLO_STRING_SYNC_BIT'', PB_GNSS_MEASUREMENTS_STATE_GLO_STRING_SYNC_BIT),
      (hal ''GNSS_MEASUREMENTS_STATE_GLO_TOD_DECODED_BIT'', PB_GNSS_MEASUREMENTS_STATE_GLO_TOD_DECODED_BIT),
      (hal ''GNSS_MEASUREMENTS_STATE_BDS_D2_BIT_SYNC_BIT'', PB_GNSS_MEASUREMENTS_STATE_BDS_D2_BIT_SYNC_BIT),
      (hal ''GNSS_MEASUREMENTS_STATE_BDS_D2_SUBFRAME_SYNC_BIT'', PB_GNSS_MEASUREMENTS_STATE_BDS_D2_SUBFRAME_SYNC_BIT),
      (hal ''GNSS_MEASUREMENTS_STATE_GAL_E1BC_CODE_LOCK_BIT'', PB_GNSS_MEASUREMENTS_STATE_GAL_E1BC_CODE_LOCK_BIT),
      (hal ''GNSS_MEASUREMENTS_STATE_GAL_E1C_2ND_CODE_LOCK_BIT'', PB_GNSS_MEASUREMENTS_STATE_GAL_E1C_2ND_CODE_LOCK_BIT),
      (hal ''GNSS_MEASUREMENTS_STATE_GAL_E1B_PAGE_SYNC_BIT'', PB_GNSS_MEASUREMENTS_STATE_GAL_E1B_PAGE_SYNC_BIT),
      (hal ''GNSS_MEASUREMENTS_STATE_SBAS_SYNC_BIT'', PB_GNSS_MEASUREMENTS_STATE_SBAS_SYNC_BIT)]"

definition is_measurement_state :: "hal_values \<Rightarrow> (int \<Rightarrow> int) \<Rightarrow> cval \<Rightarrow> bool" where
  "is_measurement_state hal c v \<longleftrightarrow> c (num v) = num v \<and>
     (let w = word_of_int (num v) :: 32 word in v = Num (uint w) \<and> same_flags (known_MeasurementsState hal) w)"

lemma undoes_measurement_state [matching]:
  "undoes (is_measurement_state hal c) m f (put_mask (getPBMaskForGnssMeasurementsStateMask hal) m) (get c f)"
proof (rule undoes_plainI)
  fix pb y v
  let ?w = "word_of_int (num v) :: 32 word"
  assume v: "is_measurement_state hal c v" "pb f = Num (uint (getPBMaskForGnssMeasurementsStateMask hal ?w))"
  then have w: "v = Num (uint ?w)" "same_flags (known_MeasurementsState hal) ?w" "c (num v) = num v"
    by (simp_all add: is_measurement_state_def Let_def)
  have "getPBMaskForGnssMeasurementsStateMask_flags hal =
      (hal ''GNSS_MEASUREMENTS_STATE_UNKNOWN_BIT'', 0) # known_MeasurementsState hal"
    by (simp add: getPBMaskForGnssMeasurementsStateMask_flags_def known_MeasurementsState_def PB_GNSS_MEASUREMENTS_STATE_UNKNOWN_BIT_def)
  then have "getPBMaskForGnssMeasurementsStateMask hal ?w = copy_flags (known_MeasurementsState hal) ?w"
    by (simp only: getPBMaskForGnssMeasurementsStateMask_def copy_empty_flag)
  moreover have "single_bits LENGTH(32) (map snd (known_MeasurementsState hal))" unfolding len_of_numeral_defs by code_simp
  ultimately have "pb f = v" using copy_same_flags(2) [OF w(2)] v(2) w(1) by simp
  then show "get c f pb y = Some v" using w(1,3) by (cases v) (simp_all add: get_def)
qed (simp add: put_mask_def)

end
