(* ===== verification/PbTrips.thy ===== *)
theory PbTrips
  imports PbEncode PbDecode PbKnown
begin

named_theorems trips \<open>round trips\<close>

definition ok_XtraConfigParams :: "hal_values \<Rightarrow> member_types \<Rightarrow> struct \<Rightarrow> bool" where
  "ok_XtraConfigParams hal ty = shaped
     [(''xtraDownloadIntervalMinute'', is_scalar UInt32 (ty ''XtraConfigParams.xtraDownloadIntervalMinute'')),
      (''xtraDownloadTimeoutSec'', is_scalar UInt32 (ty ''XtraConfigParams.xtraDownloadTimeoutSec'')),
      (''xtraDownloadRetryIntervalMinute'', is_scalar UInt32 (ty ''XtraConfigParams.xtraDownloadRetryIntervalMinute'')),
      (''xtraDownloadRetryAttempts'', is_scalar UInt32 (ty ''XtraConfigParams.xtraDownloadRetryAttempts'')),
      (''xtraCaPath'', is_chars (hal ''sizeof(XtraConfigParams.xtraCaPath)'')),
      (''xtraServerURLs'', any_value),
      (''xtraServerURLsCount'', any_value),
      (''ntpServerURLs'', any_value),
      (''ntpServerURLsCount'', any_value),
      (''ntsKeServerURL'', is_chars (hal ''sizeof(XtraConfigParams.ntsKeServerURL)'')),
      (''xtraDaemonDebugLogLevel'', is_one_of (known_DebugLogLevel hal)),
      (''xtraIntegrityDownloadEnable'', is_scalar Boolean (ty ''XtraConfigParams.xtraIntegrityDownloadEnable'')),
      (''xtraIntegrityDownloadIntervalMinute'', is_scalar UInt32 (ty ''XtraConfigParams.xtraIntegrityDownloadIntervalMinute'')),
      (''xtraDaemonDiagLoggingStatus'', is_scalar UInt32 (ty ''XtraConfigParams.xtraDaemonDiagLoggingStatus''))]
     [counted ''xtraServerURLsCount'' ''xtraServerURLs'' (is_chars (hal ''sizeof(XtraConfigParams.xtraServerURLs[])'')) (hal ''lengthof(XtraConfigParams.xtraServerURLs)'') (ty ''XtraConfigParams.xtraServerURLsCount''),
      counted ''ntpServerURLsCount'' ''ntpServerURLs'' (is_chars (hal ''sizeof(XtraConfigParams.ntpServerURLs[])'')) (hal ''lengthof(XtraConfigParams.ntpServerURLs)'') (ty ''XtraConfigParams.ntpServerURLsCount'')]"

lemma XtraConfigParams_round_trips [trips]:
  "round_trips (ok_XtraConfigParams hal ty) (convertXtraConfigParamsToPB hal) (pbConvertToXtraConfig hal ty)"
  unfolding convertXtraConfigParamsToPB_def pbConvertToXtraConfig_def ok_XtraConfigParams_def
  by (rule assign_round_trips, (rule matching trips)+, (simp only: list.map fst_conv, code_simp)+, simp only: list.map fst_conv)

definition ok_GnssDcReportInfo :: "hal_values \<Rightarrow> member_types \<Rightarrow> struct \<Rightarrow> bool" where
  "ok_GnssDcReportInfo hal ty = shaped
     [(''dcReportType'', is_one_of (known_DcReportType hal)),
      (''numValidBits'', is_scalar UInt32 (ty ''GnssDcReportInfo.numValidBits'')),
      (''dcReportData'', is_seq (is_scalar UInt32 (\<lambda>i. i mod 2 ^ 8))),
      (''prnValid'', is_scalar Boolean (ty ''GnssDcReportInfo.prnValid'')),
      (''prn'', is_scalar UInt32 (ty ''GnssDcReportInfo.prn''))]
     []"

lemma GnssDcReportInfo_round_trips [trips]:
  "round_trips (ok_GnssDcReportInfo hal ty) (convertGnssDcReportToPB hal) (pbConvertToDcReport hal ty)"
  unfolding convertGnssDcReportToPB_def pbConvertToDcReport_def ok_GnssDcReportInfo_def
  by (rule assign_round_trips, (rule matching trips)+, (simp only: list.map fst_conv, code_simp)+, simp only: list.map fst_conv)

definition ok_Location :: "hal_values \<Rightarrow> member_types \<Rightarrow> struct \<Rightarrow> bool" where
  "ok_Location hal ty = shaped
     [(''size'', equals (hal ''sizeof(Location)'')),
      (''flags'', is_flags32 (known_LocationFlagsMask hal)),
      (''timestamp'', is_scalar UInt64 (ty ''Location.timestamp'')),
      (''latitude'', is_scalar Double (ty ''Location.latitude'')),
      (''longitude'', is_scalar Double (ty ''Location.longitude'')),
      (''altitude'', is_scalar Double (ty ''Location.altitude'')),
      (''speed'', is_scalar Float (ty ''Location.speed'')),
      (''bearing'', is_scalar Float (ty ''Location.bearing'')),
      (''accuracy'', is_scalar Float (ty ''Location.accuracy'')),
      (''verticalAccuracy'', is_scalar Float (ty ''Location.verticalAccuracy'')),
      (''speedAccuracy'', is_scalar Float (ty ''Location.speedAccuracy'')),
      (''bearingAccuracy'', is_scalar Float (ty ''Location.bearingAccuracy'')),
      (''techMask'', is_flags32 (known_LocationTechnologyMask hal)),
      (''elapsedRealTime'', is_scalar UInt64 (ty ''Location.elapsedRealTime'')),
      (''elapsedRealTimeUnc'', is_scalar UInt64 (ty ''Location.elapsedRealTimeUnc'')),
      (''timeUncMs'', is_scalar Float (ty ''Location.timeUncMs'')),
      (''elapsedgPTPTime'', is_scalar UInt64 (ty ''Location.elapsedgPTPTime'')),
      (''elapsedgPTPTimeUnc'', is_scalar UInt64 (ty ''Location.elapsedgPTPTimeUnc'')),
      (''sessionStatus'', is_one_of (known_LocSessionStatus hal))]
     []"

lemma Location_round_trips [trips]:
  "round_trips (ok_Location hal ty) (convertLocationToPB hal) (pbConvertToLocation hal ty)"
  unfolding convertLocationToPB_def pbConvertToLocation_def ok_Location_def
  by (rule assign_round_trips, (rule matching trips)+, (simp only: list.map fst_conv, code_simp)+, simp only: list.map fst_conv)

definition ok_LocAPIBatchNotification :: "hal_values \<Rightarrow> member_types \<Rightarrow> struct \<Rightarrow> bool" where
  "ok_LocAPIBatchNotification hal ty = shaped
     [(''status'', is_one_of (known_BatchingStatus hal)),
      (''location'', is_seq (is_obj (ok_Location hal ty)))]
     []"

lemma LocAPIBatchNotification_round_trips [trips]:
  "round_trips (ok_LocAPIBatchNotification hal ty) (convertLocAPIBatchingNotifMsgToPB hal) (pbConvertToLocAPIBatchNotification hal ty)"
  unfolding convertLocAPIBatchingNotifMsgToPB_def pbConvertToLocAPIBatchNotification_def ok_LocAPIBatchNotification_def
  by (rule assign_round_trips, (rule matching trips)+, (simp only: list.map fst_conv, code_simp)+, simp only: list.map fst_conv)

definition ok_LocAPIGeofenceBreachNotification :: "hal_values \<Rightarrow> member_types \<Rightarrow> struct \<Rightarrow> bool" where
  "ok_LocAPIGeofenceBreachNotification hal ty = shaped
     [(''timestamp'', is_scalar UInt64 (fit UInt64)),
      (''type'', is_breach_type hal),
      (''location'', is_obj (ok_Location hal ty)),
      (''id'', is_seq (is_scalar UInt32 (fit UInt32)))]
     []"

lemma LocAPIGeofenceBreachNotification_round_trips [trips]:
  "round_trips (ok_LocAPIGeofenceBreachNotification hal ty) (convertLocAPIGfBreachNotifToPB hal) (pbConvertToLocAPIGfBreachNotification hal ty)"
  unfolding convertLocAPIGfBreachNotifToPB_def pbConvertToLocAPIGfBreachNotification_def ok_LocAPIGeofenceBreachNotification_def
  by (rule assign_round_trips, (rule matching trips)+, (simp only: list.map fst_conv, code_simp)+, simp only: list.map fst_conv)

definition ok_GnssLocationSvUsedInPosition :: "hal_values \<Rightarrow> member_types \<Rightarrow> struct \<Rightarrow> bool" where
  "ok_GnssLocationSvUsedInPosition hal ty = shaped
     [(''gpsSvUsedIdsMask'', is_scalar UInt64 (ty ''GnssLocationSvUsedInPosition.gpsSvUsedIdsMask'')),
      (''gloSvUsedIdsMask'', is_scalar UInt64 (ty ''GnssLocationSvUsedInPosition.gloSvUsedIdsMask'')),
      (''galSvUsedIdsMask'', is_scalar UInt64 (ty ''GnssLocationSvUsedInPosition.galSvUsedIdsMask'')),
      (''bdsSvUsedIdsMask'', is_scalar UInt64 (ty ''GnssLocationSvUsedInPosition.bdsSvUsedIdsMask'')),
      (''qzssSvUsedIdsMask'', is_scalar UInt64 (ty ''GnssLocationSvUsedInPosition.qzssSvUsedIdsMask'')),
      (''navicSvUsedIdsMask'', is_scalar UInt64 (ty ''GnssLocationSvUsedInPosition.navicSvUsedIdsMask''))]
     []"

lemma GnssLocationSvUsedInPosition_round_trips [trips]:
  "round_trips (ok_GnssLocationSvUsedInPosition hal ty) (convertGnssLocSvUsedInPosToPB hal) (pbConvertToGnssLocationSvUsedInPosition hal ty)"
  unfolding convertGnssLocSvUsedInPosToPB_def pbConvertToGnssLocationSvUsedInPosition_def ok_GnssLocationSvUsedInPosition_def
  by (rule assign_round_trips, (rule matching trips)+, (simp only: list.map fst_conv, code_simp)+, simp only: list.map fst_conv)

definition ok_LLAInfo :: "hal_values \<Rightarrow> member_types \<Rightarrow> struct \<Rightarrow> bool" where
  "ok_LLAInfo hal ty = shaped
     [(''latitude'', is_scalar Double (ty ''LLAInfo.latitude'')),
      (''longitude'', is_scalar Double (ty ''LLAInfo.longitude'')),
      (''altitude'', is_scalar Float (ty ''LLAInfo.altitude''))]
     []"

lemma LLAInfo_round_trips [trips]:
  "round_trips (ok_LLAInfo hal ty) (convertLLAInfoToPB hal) (pbConvertToLLAInfo hal ty)"
  unfolding convertLLAInfoToPB_def pbConvertToLLAInfo_def ok_LLAInfo_def
  by (rule assign_round_trips, (rule matching trips)+, (simp only: list.map fst_conv, code_simp)+, simp only: list.map fst_conv)

definition ok_GnssSystemTimeStructType :: "hal_values \<Rightarrow> member_types \<Rightarrow> struct \<Rightarrow> bool" where
  "ok_GnssSystemTimeStructType hal ty = shaped
     [(''validityMask'', is_flags32 (known_GnssSystemTimeStructTypeFlags hal)),
      (''systemWeek'', is_scalar UInt32 (ty ''GnssSystemTimeStructType.systemWeek'')),
      (''systemMsec'', is_scalar UInt32 (ty ''GnssSystemTimeStructType.systemMsec'')),
      (''systemClkTimeBias'', is_scalar Float (ty ''GnssSystemTimeStructType.systemClkTimeBias'')),
      (''systemClkTimeUncMs'', is_scalar Float (ty ''GnssSystemTimeStructType.systemClkTimeUncMs'')),
      (''refFCount'', is_scalar UInt32 (ty ''GnssSystemTimeStructType.refFCount'')),
      (''numClockResets'', is_scalar UInt32 (ty ''GnssSystemTimeStructType.numClockResets''))]
     []"

lemma GnssSystemTimeStructType_round_trips [trips]:
  "round_trips (ok_GnssSystemTimeStructType hal ty) (convertGnssSystemTimeStructTypeToPB hal) (pbConvertToGnssSystemTimeStructType hal ty)"
  unfolding convertGnssSystemTimeStructTypeToPB_def pbConvertToGnssSystemTimeStructType_def ok_GnssSystemTimeStructType_def
  by (rule assign_round_trips, (rule matching trips)+, (simp only: list.map fst_conv, code_simp)+, simp only: list.map fst_conv)

definition ok_GnssGloTimeStructType :: "hal_values \<Rightarrow> member_types \<Rightarrow> struct \<Rightarrow> bool" where
  "ok_GnssGloTimeStructType hal ty = shaped
     [(''validityMask'', is_flags32 (known_GnssGloTimeStructTypeFlags hal)),
      (''gloFourYear'', is_scalar UInt32 (ty ''GnssGloTimeStructType.gloFourYear'')),
      (''gloDays'', is_scalar UInt32 (ty ''GnssGloTimeStructType.gloDays'')),
      (''gloMsec'', is_scalar UInt32 (ty ''GnssGloTimeStructType.gloMsec'')),
      (''gloClkTimeBias'', is_scalar Float (ty ''GnssGloTimeStructType.gloClkTimeBias'')),
      (''gloClkTimeUncMs'', is_scalar Float (ty ''GnssGloTimeStructType.gloClkTimeUncMs'')),
      (''refFCount'', is_scalar UInt32 (ty ''GnssGloTimeStructType.refFCount'')),
      (''numClockResets'', is_scalar UInt32 (ty ''GnssGloTimeStructType.numClockResets''))]
     []"

lemma GnssGloTimeStructType_round_trips [trips]:
  "round_trips (ok_GnssGloTimeStructType hal ty) (convertGnssGloTimeStructTypeToPB hal) (pbConvertToGnssGloTimeStructType hal ty)"
  unfolding convertGnssGloTimeStructTypeToPB_def pbConvertToGnssGloTimeStructType_def ok_GnssGloTimeStructType_def
  by (rule assign_round_trips, (rule matching trips)+, (simp only: list.map fst_conv, code_simp)+, simp only: list.map fst_conv)

definition ok_GnssMeasUsageInfo :: "hal_values \<Rightarrow> member_types \<Rightarrow> struct \<Rightarrow> bool" where
  "ok_GnssMeasUsageInfo hal ty = shaped
     [(''gnssConstellation'', is_one_of (known_GnssLocSvSystem hal)),
      (''gnssSvId'', is_scalar UInt32 (ty ''GnssMeasUsageInfo.gnssSvId'')),
      (''gnssSignalType'', is_flags32 (known_GnssSignalTypeMask hal))]
     []"

lemma GnssMeasUsageInfo_round_trips [trips]:
  "round_trips (ok_GnssMeasUsageInfo hal ty) (convertGnssMeasUsageInfoToPB hal) (pbConvertToGnssMeasUsageInfo hal ty)"
  unfolding convertGnssMeasUsageInfoToPB_def pbConvertToGnssMeasUsageInfo_def ok_GnssMeasUsageInfo_def
  by (rule assign_round_trips, (rule matching trips)+, (simp only: list.map fst_conv, code_simp)+, simp only: list.map fst_conv)

definition ok_GnssSv :: "hal_values \<Rightarrow> member_types \<Rightarrow> struct \<Rightarrow> bool" where
  "ok_GnssSv hal ty = shaped
     [(''size'', equals (hal ''sizeof(GnssSv)'')),
      (''svId'', is_scalar UInt32 (ty ''GnssSv.svId'')),
      (''type'', is_one_of (known_GnssLocSvSysEnumFromGnssSvType hal)),
      (''cN0Dbhz'', is_scalar Float (ty ''GnssSv.cN0Dbhz'')),
      (''elevation'', is_scalar Float (ty ''GnssSv.elevation'')),
      (''azimuth'', is_scalar Float (ty ''GnssSv.azimuth'')),
      (''gnssSvOptionsMask'', is_flags32 (known_GnssSvOptionsMask hal)),
      (''carrierFrequencyHz'', is_scalar Float (ty ''GnssSv.carrierFrequencyHz'')),
      (''gnssSignalTypeMask'', is_flags32 (known_GnssSignalTypeMask hal)),
      (''basebandCarrierToNoiseDbHz'', is_scalar Double (ty ''GnssSv.basebandCarrierToNoiseDbHz'')),
      (''gloFrequency'', is_scalar UInt32 (ty ''GnssSv.gloFrequency''))]
     []"

lemma GnssSv_round_trips [trips]:
  "round_trips (ok_GnssSv hal ty) (convertGnssSvToPB hal) (pbConvertToGnssSv hal ty)"
  unfolding convertGnssSvToPB_def pbConvertToGnssSv_def ok_GnssSv_def
  by (rule assign_round_trips, (rule matching trips)+, (simp only: list.map fst_conv, code_simp)+, simp only: list.map fst_conv)

definition ok_GnssSvNotification :: "hal_values \<Rightarrow> member_types \<Rightarrow> struct \<Rightarrow> bool" where
  "ok_GnssSvNotification hal ty = shaped
     [(''size'', equals (hal ''sizeof(GnssSvNotification)'')),
      (''gnssSignalTypeMaskValid'', is_scalar Boolean (ty ''GnssSvNotification.gnssSignalTypeMaskValid'')),
      (''count'', any_value),
      (''gnssSvs'', any_value)]
     [counted ''count'' ''gnssSvs'' (is_obj (ok_GnssSv hal ty)) (hal ''lengthof(GnssSvNotification.gnssSvs)'') (ty ''GnssSvNotification.count''),
      counted ''count'' ''gnssSvs'' (is_obj (ok_GnssSv hal ty)) (hal ''GNSS_SV_MAX'') (ty ''GnssSvNotification.count'')]"

lemma GnssSvNotification_round_trips [trips]:
  "round_trips (ok_GnssSvNotification hal ty) (convertGnssSvNotifToPB hal) (pbConvertToGnssSvNotif hal ty)"
  unfolding convertGnssSvNotifToPB_def pbConvertToGnssSvNotif_def ok_GnssSvNotification_def
  by (rule assign_round_trips, (rule matching trips)+, (simp only: list.map fst_conv, code_simp)+, simp only: list.map fst_conv)

definition ok_LocAPINmeaSerializedPayload :: "hal_values \<Rightarrow> member_types \<Rightarrow> struct \<Rightarrow> bool" where
  "ok_LocAPINmeaSerializedPayload hal ty = shaped
     [(''timestamp'', is_scalar UInt64 (fit UInt64)),
      (''nmea'', is_text),
      (''locOutputEngType'', is_one_of (known_LocOutputEngineType hal))]
     []"

lemma LocAPINmeaSerializedPayload_round_trips [trips]:
  "round_trips (ok_LocAPINmeaSerializedPayload hal ty) (convertLocAPINmeaSerializedPayloadToPB hal) (pbConvertToLocAPINmeaSerializedPayload hal ty)"
  unfolding convertLocAPINmeaSerializedPayloadToPB_def pbConvertToLocAPINmeaSerializedPayload_def ok_LocAPINmeaSerializedPayload_def
  by (rule assign_round_trips, (rule matching trips)+, (simp only: list.map fst_conv, code_simp)+, simp only: list.map fst_conv)

definition ok_GnssMeasurementsData :: "hal_values \<Rightarrow> member_types \<Rightarrow> struct \<Rightarrow> bool" where
  "ok_GnssMeasurementsData hal ty = shaped
     [(''size'', equals (hal ''sizeof(GnssMeasurementsData)'')),
      (''flags'', is_flags32 (known_GnssMeasurementsDataFlagsMask hal)),
      (''svId'', is_scalar Int32 (ty ''GnssMeasurementsData.svId'')),
      (''svType'', is_one_of (known_GnssLocSvSysEnumFromGnssSvType hal)),
      (''timeOffsetNs'', is_scalar Double (ty ''GnssMeasurementsData.timeOffsetNs'')),
      (''stateMask'', is_measurement_state hal (ty ''GnssMeasurementsData.stateMask'')),
      (''receivedSvTimeNs'', is_scalar Int64 (ty ''GnssMeasurementsData.receivedSvTimeNs'')),
      (''receivedSvTimeUncertaintyNs'', is_scalar Int64 (ty ''GnssMeasurementsData.receivedSvTimeUncertaintyNs'')),
      (''carrierToNoiseDbHz'', is_scalar Double (ty ''GnssMeasurementsData.carrierToNoiseDbHz'')),
      (''pseudorangeRateMps'', is_scalar Double (ty ''GnssMeasurementsData.pseudorangeRateMps'')),
      (''pseudorangeRateUncertaintyMps'', is_scalar Double (ty ''GnssMeasurementsData.pseudorangeRateUncertaintyMps'')),
      (''adrStateMask'', is_flags32 (known_GnssMeasurementsAdrStateMask hal)),
      (''adrMeters'', is_scalar Double (ty ''GnssMeasurementsData.adrMeters'')),
      (''adrUncertaintyMeters'', is_scalar Double (ty ''GnssMeasurementsData.adrUncertaintyMeters'')),
      (''carrierFrequencyHz'', is_scalar Float (ty ''GnssMeasurementsData.carrierFrequencyHz'')),
      (''carrierCycles'', is_scalar Int64 (ty ''GnssMeasurementsData.carrierCycles'')),
      (''carrierPhase'', is_scalar Double (ty ''GnssMeasurementsData.carrierPhase'')),
      (''carrierPhaseUncertainty'', is_scalar Double (ty ''GnssMeasurementsData.carrierPhaseUncertainty'')),
      (''multipathIndicator'', is_one_of (known_GnssMeasMultiPathIndic hal)),
      (''signalToNoiseRatioDb'', is_scalar Double (ty ''GnssMeasurementsData.signalToNoiseRatioDb'')),
      (''agcLevelDb'', is_scalar Double (ty ''GnssMeasurementsData.agcLevelDb'')),
      (''basebandCarrierToNoiseDbHz'', is_scalar Double (ty ''GnssMeasurementsData.basebandCarrierToNoiseDbHz'')),
      (''gnssSignalType'', is_flags32 (known_GnssSignalTypeMask hal)),
      (''fullInterSignalBiasNs'', is_scalar Double (ty ''GnssMeasurementsData.fullInterSignalBiasNs'')),
      (''fullInterSignalBiasUncertaintyNs'', is_scalar Double (ty ''GnssMeasurementsData.fullInterSignalBiasUncertaintyNs'')),
      (''cycleSlipCount'', is_scalar UInt32 (ty ''GnssMeasurementsData.cycleSlipCount'')),
      (''receivedSvTimeSubNs'', is_scalar Float (ty ''GnssMeasurementsData.receivedSvTimeSubNs'')),
      (''codeType'', is_one_of (known_MeasCodeType hal)),
      (''otherCodeTypeName'', is_chars (hal ''sizeof(GnssMeasurementsData.otherCodeTypeName)''))]
     []"

lemma GnssMeasurementsData_round_trips [trips]:
  "round_trips (ok_GnssMeasurementsData hal ty) (convertGnssMeasDataToPB hal) (pbConvertToGnssMeasurementsData hal ty)"
  unfolding convertGnssMeasDataToPB_def pbConvertToGnssMeasurementsData_def ok_GnssMeasurementsData_def
  by (rule assign_round_trips, (rule matching trips)+, (simp only: list.map fst_conv, code_simp)+, simp only: list.map fst_conv)

definition ok_GnssMeasurementsClock :: "hal_values \<Rightarrow> member_types \<Rightarrow> struct \<Rightarrow> bool" where
  "ok_GnssMeasurementsClock hal ty = shaped
     [(''size'', equals (hal ''sizeof(GnssMeasurementsClock)'')),
      (''flags'', is_flags32 (known_GnssMeasurementsClockFlagsMask hal)),
      (''leapSecond'', is_scalar Int32 (ty ''GnssMeasurementsClock.leapSecond'')),
      (''timeNs'', is_scalar Int64 (ty ''GnssMeasurementsClock.timeNs'')),
      (''timeUncertaintyNs'', is_scalar Double (ty ''GnssMeasurementsClock.timeUncertaintyNs'')),
      (''fullBiasNs'', is_scalar Int64 (ty ''GnssMeasurementsClock.fullBiasNs'')),
      (''biasNs'', is_scalar Double (ty ''GnssMeasurementsClock.biasNs'')),
      (''biasUncertaintyNs'', is_scalar Double (ty ''GnssMeasurementsClock.biasUncertaintyNs'')),
      (''driftNsps'', is_scalar Double (ty ''GnssMeasurementsClock.driftNsps'')),
      (''driftUncertaintyNsps'', is_scalar Double (ty ''GnssMeasurementsClock.driftUncertaintyNsps'')),
      (''hwClockDiscontinuityCount'', is_scalar UInt32 (ty ''GnssMeasurementsClock.hwClockDiscontinuityCount'')),
      (''elapsedRealTime'', is_scalar UInt64 (ty ''GnssMeasurementsClock.elapsedRealTime'')),
      (''elapsedRealTimeUnc'', is_scalar UInt64 (ty ''GnssMeasurementsClock.elapsedRealTimeUnc'')),
      (''elapsedgPTPTime'', is_scalar UInt64 (ty ''GnssMeasurementsClock.elapsedgPTPTime'')),
      (''elapsedgPTPTimeUnc'', is_scalar UInt64 (ty ''GnssMeasurementsClock.elapsedgPTPTimeUnc''))]
     []"

lemma GnssMeasurementsClock_round_trips [trips]:
  "round_trips (ok_GnssMeasurementsClock hal ty) (convertGnssMeasClockToPB hal) (pbConvertToGnssMeasurementsClock hal ty)"
  unfolding convertGnssMeasClockToPB_def pbConvertToGnssMeasurementsClock_def ok_GnssMeasurementsClock_def
  by (rule assign_round_trips, (rule matching trips)+, (simp only: list.map fst_conv, code_simp)+, simp only: list.map fst_conv)

definition ok_GnssMeasurementsNotification :: "hal_values \<Rightarrow> member_types \<Rightarrow> struct \<Rightarrow> bool" where
  "ok_GnssMeasurementsNotification hal ty = shaped
     [(''size'', equals (hal ''sizeof(GnssMeasurementsNotification)'')),
      (''count'', any_value),
      (''measurements'', any_value),
      (''clock'', is_obj (ok_GnssMeasurementsClock hal ty)),
      (''isNhz'', is_scalar Boolean (ty ''GnssMeasurementsNotification.isNhz'')),
      (''agcStatusL1'', is_one_of (known_AgcStatus hal)),
      (''agcStatusL2'', is_one_of (known_AgcStatus hal)),
      (''agcStatusL5'', is_one_of (known_AgcStatus hal))]
     [counted ''count'' ''measurements'' (is_obj (ok_GnssMeasurementsData hal ty)) (hal ''lengthof(GnssMeasurementsNotification.measurements)'') (ty ''GnssMeasurementsNotification.count'')]"

lemma GnssMeasurementsNotification_round_trips [trips]:
  "round_trips (ok_GnssMeasurementsNotification hal ty) (convertGnssMeasNotifToPB hal) (pbConvertToGnssMeasNotification hal ty)"
  unfolding convertGnssMeasNotifToPB_def pbConvertToGnssMeasNotification_def ok_GnssMeasurementsNotification_def
  by (rule assign_round_trips, (rule matching trips)+, (simp only: list.map fst_conv, code_simp)+, simp only: list.map fst_conv)

definition ok_LeapSecondChangeInfo :: "hal_values \<Rightarrow> member_types \<Rightarrow> struct \<Rightarrow> bool" where
  "ok_LeapSecondChangeInfo hal ty = shaped
     [(''gpsTimestampLsChange'', is_obj (ok_GnssSystemTimeStructType hal ty)),
      (''leapSecondsBeforeChange'', is_scalar UInt32 (ty ''LeapSecondChangeInfo.leapSecondsBeforeChange'')),
      (''leapSecondsAfterChange'', is_scalar UInt32 (ty ''LeapSecondChangeInfo.leapSecondsAfterChange''))]
     []"

lemma LeapSecondChangeInfo_round_trips [trips]:
  "round_trips (ok_LeapSecondChangeInfo hal ty) (convertLeapSecChgInfoToPB hal) (pbConvertToLeapSecChgInfo hal ty)"
  unfolding convertLeapSecChgInfoToPB_def pbConvertToLeapSecChgInfo_def ok_LeapSecondChangeInfo_def
  by (rule assign_round_trips, (rule matching trips)+, (simp only: list.map fst_conv, code_simp)+, simp only: list.map fst_conv)

definition ok_LeapSecondSystemInfo :: "hal_values \<Rightarrow> member_types \<Rightarrow> struct \<Rightarrow> bool" where
  "ok_LeapSecondSystemInfo hal ty = shaped
     [(''leapSecondInfoMask'', is_flags32 (known_LeapSecondSysInfoMask hal)),
      (''leapSecondCurrent'', is_scalar UInt32 (ty ''LeapSecondSystemInfo.leapSecondCurrent'')),
      (''leapSecondChangeInfo'', is_obj (ok_LeapSecondChangeInfo hal ty))]
     []"

lemma LeapSecondSystemInfo_round_trips [trips]:
  "round_trips (ok_LeapSecondSystemInfo hal ty) (convertLeapSecondSystemInfoToPB hal) (pbConvertToLeapSecSysInfo hal ty)"
  unfolding convertLeapSecondSystemInfoToPB_def pbConvertToLeapSecSysInfo_def ok_LeapSecondSystemInfo_def
  by (rule assign_round_trips, (rule matching trips)+, (simp only: list.map fst_conv, code_simp)+, simp only: list.map fst_conv)

definition ok_LocationSystemInfo :: "hal_values \<Rightarrow> member_types \<Rightarrow> struct \<Rightarrow> bool" where
  "ok_LocationSystemInfo hal ty = shaped
     [(''systemInfoMask'', is_flags32 (known_LocSysInfoMask hal)),
      (''leapSecondSysInfo'', is_obj (ok_LeapSecondSystemInfo hal ty))]
     []"

lemma LocationSystemInfo_round_trips [trips]:
  "round_trips (ok_LocationSystemInfo hal ty) (convertLocSysInfoToPB hal) (pbConvertToLocationSystemInfo hal ty)"
  unfolding convertLocSysInfoToPB_def pbConvertToLocationSystemInfo_def ok_LocationSystemInfo_def
  by (rule assign_round_trips, (rule matching trips)+, (simp only: list.map fst_conv, code_simp)+, simp only: list.map fst_conv)

definition ok_LocationOptions :: "hal_values \<Rightarrow> member_types \<Rightarrow> struct \<Rightarrow> bool" where
  "ok_LocationOptions hal ty = shaped
     [(''size'', equals (hal ''sizeof(LocationOptions)'')),
      (''minInterval'', is_scalar UInt32 (ty ''LocationOptions.minInterval'')),
      (''minDistance'', is_scalar UInt32 (ty ''LocationOptions.minDistance'')),
      (''mode'', is_one_of (known_GnssSuplMode hal)),
      (''locReqEngTypeMask'', is_flags32 (known_LocReqEngineTypeMask hal)),
      (''qualityLevelAccepted'', is_one_of (known_FixQualityLevel hal))]
     []"

lemma LocationOptions_round_trips [trips]:
  "round_trips (ok_LocationOptions hal ty) (convertLocationOptionsToPB hal) (pbConvertToLocationOptions hal ty)"
  unfolding convertLocationOptionsToPB_def pbConvertToLocationOptions_def ok_LocationOptions_def
  by (rule assign_round_trips, (rule matching trips)+, (simp only: list.map fst_conv, code_simp)+, simp only: list.map fst_conv)

definition ok_GeofenceOption :: "hal_values \<Rightarrow> member_types \<Rightarrow> struct \<Rightarrow> bool" where
  "ok_GeofenceOption hal ty = shaped
     [(''size'', equals (hal ''sizeof(GeofenceOption)'')),
      (''breachTypeMask'', is_flags32 (known_GeofenceBreachTypeMask hal)),
      (''responsiveness'', is_scalar UInt32 (ty ''GeofenceOption.responsiveness'')),
      (''dwellTime'', is_scalar UInt32 (ty ''GeofenceOption.dwellTime''))]
     []"

lemma GeofenceOption_round_trips [trips]:
  "round_trips (ok_GeofenceOption hal ty) (convertGeofenceOptionToPB hal) (pbConvertToGeofenceOption hal ty)"
  unfolding convertGeofenceOptionToPB_def pbConvertToGeofenceOption_def ok_GeofenceOption_def
  by (rule assign_round_trips, (rule matching trips)+, (simp only: list.map fst_conv, code_simp)+, simp only: list.map fst_conv)

definition ok_GeofenceInfo :: "hal_values \<Rightarrow> member_types \<Rightarrow> struct \<Rightarrow> bool" where
  "ok_GeofenceInfo hal ty = shaped
     [(''size'', equals (hal ''sizeof(GeofenceInfo)'')),
      (''latitude'', is_scalar Double (ty ''GeofenceInfo.latitude'')),
      (''longitude'', is_scalar Double (ty ''GeofenceInfo.longitude'')),
      (''radius'', is_scalar Double (ty ''GeofenceInfo.radius''))]
     []"

lemma GeofenceInfo_round_trips [trips]:
  "round_trips (ok_GeofenceInfo hal ty) (convertGeofenceInfoToPB hal) (pbConvertToGeofenceInfo hal ty)"
  unfolding convertGeofenceInfoToPB_def pbConvertToGeofenceInfo_def ok_GeofenceInfo_def
  by (rule assign_round_trips, (rule matching trips)+, (simp only: list.map fst_conv, code_simp)+, simp only: list.map fst_conv)

definition ok_GeofencesReqClientIdPayload :: "hal_values \<Rightarrow> member_types \<Rightarrow> struct \<Rightarrow> bool" where
  "ok_GeofencesReqClientIdPayload hal ty = shaped
     [(''count'', is_scalar UInt32 (fit UInt32)),
      (''gfIds'', any_value)]
     [counted ''count'' ''gfIds'' (is_scalar UInt32 (fit UInt32)) MAX_GEOFENCE_ENTRY (fit UInt32)]"

lemma GeofencesReqClientIdPayload_round_trips [trips]:
  "round_trips (ok_GeofencesReqClientIdPayload hal ty) (convertGfReqClientIdPayloadToPB hal) (pbConvertToGfReqClientIdPayload hal ty)"
  unfolding convertGfReqClientIdPayloadToPB_def pbConvertToGfReqClientIdPayload_def ok_GeofencesReqClientIdPayload_def
  by (rule assign_round_trips, (rule matching trips)+, (simp only: list.map fst_conv, code_simp)+, simp only: list.map fst_conv)

definition ok_GnssSvTypeConfig :: "hal_values \<Rightarrow> member_types \<Rightarrow> struct \<Rightarrow> bool" where
  "ok_GnssSvTypeConfig hal ty = shaped
     [(''size'', equals (hal ''sizeof(GnssSvTypeConfig)'')),
      (''enabledSvTypesMask'', is_sv_types hal),
      (''blacklistedSvTypesMask'', is_sv_types hal)]
     []"

lemma GnssSvTypeConfig_round_trips [trips]:
  "round_trips (ok_GnssSvTypeConfig hal ty) (convertGnssSvTypeConfigToPB hal) (pbConvertToGnssSvTypeConfig hal ty)"
  unfolding convertGnssSvTypeConfigToPB_def pbConvertToGnssSvTypeConfig_def ok_GnssSvTypeConfig_def
  by (rule assign_round_trips, (rule matching trips)+, (simp only: list.map fst_conv, code_simp)+, simp only: list.map fst_conv)

definition ok_GnssSvIdConfig :: "hal_values \<Rightarrow> member_types \<Rightarrow> struct \<Rightarrow> bool" where
  "ok_GnssSvIdConfig hal ty = shaped
     [(''size'', equals (hal ''sizeof(GnssSvIdConfig)'')),
      (''gloBlacklistSvMask'', is_scalar UInt64 (ty ''GnssSvIdConfig.gloBlacklistSvMask'')),
      (''bdsBlacklistSvMask'', is_scalar UInt64 (ty ''GnssSvIdConfig.bdsBlacklistSvMask'')),
      (''qzssBlacklistSvMask'', is_scalar UInt64 (ty ''GnssSvIdConfig.qzssBlacklistSvMask'')),
      (''galBlacklistSvMask'', is_scalar UInt64 (ty ''GnssSvIdConfig.galBlacklistSvMask'')),
      (''sbasBlacklistSvMask'', is_scalar UInt64 (ty ''GnssSvIdConfig.sbasBlacklistSvMask'')),
      (''navicBlacklistSvMask'', is_scalar UInt64 (ty ''GnssSvIdConfig.navicBlacklistSvMask'')),
      (''gpsBlacklistSvMask'', is_scalar UInt64 (ty ''GnssSvIdConfig.gpsBlacklistSvMask''))]
     []"

lemma GnssSvIdConfig_round_trips [trips]:
  "round_trips (ok_GnssSvIdConfig hal ty) (convertGnssSvIdConfigToPB hal) (pbConvertToGnssSvIdConfig hal ty)"
  unfolding convertGnssSvIdConfigToPB_def pbConvertToGnssSvIdConfig_def ok_GnssSvIdConfig_def
  by (rule assign_round_trips, (rule matching trips)+, (simp only: list.map fst_conv, code_simp)+, simp only: list.map fst_conv)

definition ok_LeverArmParams :: "hal_values \<Rightarrow> member_types \<Rightarrow> struct \<Rightarrow> bool" where
  "ok_LeverArmParams hal ty = shaped
     [(''forwardOffsetMeters'', is_scalar Float (ty ''LeverArmParams.forwardOffsetMeters'')),
      (''sidewaysOffsetMeters'', is_scalar Float (ty ''LeverArmParams.sidewaysOffsetMeters'')),
      (''upOffsetMeters'', is_scalar Float (ty ''LeverArmParams.upOffsetMeters''))]
     []"

lemma LeverArmParams_round_trips [trips]:
  "round_trips (ok_LeverArmParams hal ty) (convertLeverArmParamsToPB hal) (pbConvertToLeverArmParams hal ty)"
  unfolding convertLeverArmParamsToPB_def pbConvertToLeverArmParams_def ok_LeverArmParams_def
  by (rule assign_round_trips, (rule matching trips)+, (simp only: list.map fst_conv, code_simp)+, simp only: list.map fst_conv)

definition ok_LeverArmConfigInfo :: "hal_values \<Rightarrow> member_types \<Rightarrow> struct \<Rightarrow> bool" where
  "ok_LeverArmConfigInfo hal ty = shaped
     [(''leverArmValidMask'', is_flags32 (known_LeverArmTypeMask hal)),
      (''gnssToVRP'', is_obj (ok_LeverArmParams hal ty)),
      (''drImuToGnss'', is_obj (ok_LeverArmParams hal ty)),
      (''veppImuToGnss'', is_obj (ok_LeverArmParams hal ty))]
     []"

lemma LeverArmConfigInfo_round_trips [trips]:
  "round_trips (ok_LeverArmConfigInfo hal ty) (convertLeverArmConfigInfoToPB hal) (pbConvertToLeverArmConfigInfo hal ty)"
  unfolding convertLeverArmConfigInfoToPB_def pbConvertToLeverArmConfigInfo_def ok_LeverArmConfigInfo_def
  by (rule assign_round_trips, (rule matching trips)+, (simp only: list.map fst_conv, code_simp)+, simp only: list.map fst_conv)

definition ok_BodyToSensorMountParams :: "hal_values \<Rightarrow> member_types \<Rightarrow> struct \<Rightarrow> bool" where
  "ok_BodyToSensorMountParams hal ty = shaped
     [(''rollOffset'', is_scalar Float (ty ''BodyToSensorMountParams.rollOffset'')),
      (''yawOffset'', is_scalar Float (ty ''BodyToSensorMountParams.yawOffset'')),
      (''pitchOffset'', is_scalar Float (ty ''BodyToSensorMountParams.pitchOffset'')),
      (''offsetUnc'', is_scalar Float (ty ''BodyToSensorMountParams.offsetUnc''))]
     []"

lemma BodyToSensorMountParams_round_trips [trips]:
  "round_trips (ok_BodyToSensorMountParams hal ty) (convertBodyToSensorMountParamsToPB hal) (pbConvertToBodyToSensorMountParams hal ty)"
  unfolding convertBodyToSensorMountParamsToPB_def pbConvertToBodyToSensorMountParams_def ok_BodyToSensorMountParams_def
  by (rule assign_round_trips, (rule matching trips)+, (simp only: list.map fst_conv, code_simp)+, simp only: list.map fst_conv)

definition ok_DeadReckoningEngineConfig :: "hal_values \<Rightarrow> member_types \<Rightarrow> struct \<Rightarrow> bool" where
  "ok_DeadReckoningEngineConfig hal ty = shaped
     [(''validMask'', is_flags64 (known_DeadReckoningEngineConfigValidMask hal)),
      (''bodyToSensorMountParams'', is_obj (ok_BodyToSensorMountParams hal ty)),
      (''vehicleSpeedScaleFactor'', is_scalar Float (ty ''DeadReckoningEngineConfig.vehicleSpeedScaleFactor'')),
      (''vehicleSpeedScaleFactorUnc'', is_scalar Float (ty ''DeadReckoningEngineConfig.vehicleSpeedScaleFactorUnc'')),
      (''gyroScaleFactor'', is_scalar Float (ty ''DeadReckoningEngineConfig.gyroScaleFactor'')),
      (''gyroScaleFactorUnc'', is_scalar Float (ty ''DeadReckoningEngineConfig.gyroScaleFactorUnc''))]
     []"

lemma DeadReckoningEngineConfig_round_trips [trips]:
  "round_trips (ok_DeadReckoningEngineConfig hal ty) (convertDeadReckoningEngineConfigToPB hal) (pbConvertToDeadReckoningEngineConfig hal ty)"
  unfolding convertDeadReckoningEngineConfigToPB_def pbConvertToDeadReckoningEngineConfig_def ok_DeadReckoningEngineConfig_def
  by (rule assign_round_trips, (rule matching trips)+, (simp only: list.map fst_conv, code_simp)+, simp only: list.map fst_conv)

definition ok_timespec :: "hal_values \<Rightarrow> member_types \<Rightarrow> struct \<Rightarrow> bool" where
  "ok_timespec hal ty = shaped
     [(''tv_sec'', is_scalar UInt64 (ty ''timespec.tv_sec'')),
      (''tv_nsec'', is_scalar UInt64 (ty ''timespec.tv_nsec''))]
     []"

lemma timespec_round_trips [trips]:
  "round_trips (ok_timespec hal ty) (convertTimespecToPB hal) (pbConvertToGnssTimespec hal ty)"
  unfolding convertTimespecToPB_def pbConvertToGnssTimespec_def ok_timespec_def
  by (rule assign_round_trips, (rule matching trips)+, (simp only: list.map fst_conv, code_simp)+, simp only: list.map fst_conv)

definition ok_GnssDebugTime :: "hal_values \<Rightarrow> member_types \<Rightarrow> struct \<Rightarrow> bool" where
  "ok_GnssDebugTime hal ty = shaped
     [(''size'', equals (hal ''sizeof(GnssDebugTime)'')),
      (''mValid'', is_scalar Boolean (ty ''GnssDebugTime.mValid'')),
      (''timeEstimate'', is_scalar Int64 (ty ''GnssDebugTime.timeEstimate'')),
      (''timeUncertaintyNs'', is_scalar Float (ty ''GnssDebugTime.timeUncertaintyNs'')),
      (''frequencyUncertaintyNsPerSec'', is_scalar Float (ty ''GnssDebugTime.frequencyUncertaintyNsPerSec''))]
     []"

lemma GnssDebugTime_round_trips [trips]:
  "round_trips (ok_GnssDebugTime hal ty) (convertGnssDebugTimeToPB hal) (pbConvertToGnssDebugTime hal ty)"
  unfolding convertGnssDebugTimeToPB_def pbConvertToGnssDebugTime_def ok_GnssDebugTime_def
  by (rule assign_round_trips, (rule matching trips)+, (simp only: list.map fst_conv, code_simp)+, simp only: list.map fst_conv)

definition ok_GnssDebugLocation :: "hal_values \<Rightarrow> member_types \<Rightarrow> struct \<Rightarrow> bool" where
  "ok_GnssDebugLocation hal ty = shaped
     [(''size'', equals (hal ''sizeof(GnssDebugLocation)'')),
      (''mValid'', is_scalar Boolean (ty ''GnssDebugLocation.mValid'')),
      (''mLocation'', is_obj (ok_Location hal ty)),
      (''verticalAccuracyMeters'', is_scalar Double (ty ''GnssDebugLocation.verticalAccuracyMeters'')),
      (''speedAccuracyMetersPerSecond'', is_scalar Double (ty ''GnssDebugLocation.speedAccuracyMetersPerSecond'')),
      (''bearingAccuracyDegrees'', is_scalar Double (ty ''GnssDebugLocation.bearingAccuracyDegrees'')),
      (''mUtcReported'', is_obj (ok_timespec hal ty))]
     []"

lemma GnssDebugLocation_round_trips [trips]:
  "round_trips (ok_GnssDebugLocation hal ty) (convertGnssDebugLocationToPB hal) (pbConvertToGnssDebugLocation hal ty)"
  unfolding convertGnssDebugLocationToPB_def pbConvertToGnssDebugLocation_def ok_GnssDebugLocation_def
  by (rule assign_round_trips, (rule matching trips)+, (simp only: list.map fst_conv, code_simp)+, simp only: list.map fst_conv)

definition ok_GnssDebugSatelliteInfo :: "hal_values \<Rightarrow> member_types \<Rightarrow> struct \<Rightarrow> bool" where
  "ok_GnssDebugSatelliteInfo hal ty = shaped
     [(''size'', equals (hal ''sizeof(GnssDebugSatelliteInfo)'')),
      (''svid'', is_scalar UInt32 (ty ''GnssDebugSatelliteInfo.svid'')),
      (''constellation'', is_one_of (known_GnssLocSvSysEnumFromGnssSvType hal)),
      (''mEphemerisType'', is_one_of (known_GnssEphemerisType hal)),
      (''mEphemerisSource'', is_one_of (known_GnssEphemerisSource hal)),
      (''mEphemerisHealth'', is_one_of (known_GnssEphemerisHealth hal)),
      (''ephemerisAgeSeconds'', is_scalar Float (ty ''GnssDebugSatelliteInfo.ephemerisAgeSeconds'')),
      (''serverPredictionIsAvailable'', is_scalar Boolean (ty ''GnssDebugSatelliteInfo.serverPredictionIsAvailable'')),
      (''serverPredictionAgeSeconds'', is_scalar Float (ty ''GnssDebugSatelliteInfo.serverPredictionAgeSeconds''))]
     []"

lemma GnssDebugSatelliteInfo_round_trips [trips]:
  "round_trips (ok_GnssDebugSatelliteInfo hal ty) (convertGnssDebugSatelliteInfoToPB hal) (pbConvertToGnssDebugSatelliteInfo hal ty)"
  unfolding convertGnssDebugSatelliteInfoToPB_def pbConvertToGnssDebugSatelliteInfo_def ok_GnssDebugSatelliteInfo_def
  by (rule assign_round_trips, (rule matching trips)+, (simp only: list.map fst_conv, code_simp)+, simp only: list.map fst_conv)

definition ok_GnssCoordinate :: "hal_values \<Rightarrow> member_types \<Rightarrow> struct \<Rightarrow> bool" where
  "ok_GnssCoordinate hal ty = shaped
     [(''size'', equals (hal ''sizeof(GnssCoordinate)'')),
      (''x'', is_scalar Double (ty ''GnssCoordinate.x'')),
      (''xUncertainty'', is_scalar Double (ty ''GnssCoordinate.xUncertainty'')),
      (''y'', is_scalar Double (ty ''GnssCoordinate.y'')),
      (''yUncertainty'', is_scalar Double (ty ''GnssCoordinate.yUncertainty'')),
      (''z'', is_scalar Double (ty ''GnssCoordinate.z'')),
      (''zUncertainty'', is_scalar Double (ty ''GnssCoordinate.zUncertainty''))]
     []"

lemma GnssCoordinate_round_trips [trips]:
  "round_trips (ok_GnssCoordinate hal ty) (convertGnssCoordinateToPB hal) (pbConvertToGnssCoordinate hal ty)"
  unfolding convertGnssCoordinateToPB_def pbConvertToGnssCoordinate_def ok_GnssCoordinate_def
  by (rule assign_round_trips, (rule matching trips)+, (simp only: list.map fst_conv, code_simp)+, simp only: list.map fst_conv)

definition ok_GnssEphCommon :: "hal_values \<Rightarrow> member_types \<Rightarrow> struct \<Rightarrow> bool" where
  "ok_GnssEphCommon hal ty = shaped
     [(''gnssSvId'', is_scalar UInt32 (ty ''GnssEphCommon.gnssSvId'')),
      (''updateAction'', is_one_of (known_EphAction hal)),
      (''IODE'', is_scalar UInt32 (ty ''GnssEphCommon.IODE'')),
      (''aSqrt'', is_scalar Double (ty ''GnssEphCommon.aSqrt'')),
      (''deltaN'', is_scalar Double (ty ''GnssEphCommon.deltaN'')),
      (''m0'', is_scalar Double (ty ''GnssEphCommon.m0'')),
      (''eccentricity'', is_scalar Double (ty ''GnssEphCommon.eccentricity'')),
      (''omega0'', is_scalar Double (ty ''GnssEphCommon.omega0'')),
      (''i0'', is_scalar Double (ty ''GnssEphCommon.i0'')),
      (''omega'', is_scalar Double (ty ''GnssEphCommon.omega'')),
      (''omegaDot'', is_scalar Double (ty ''GnssEphCommon.omegaDot'')),
      (''iDot'', is_scalar Double (ty ''GnssEphCommon.iDot'')),
      (''cUc'', is_scalar Double (ty ''GnssEphCommon.cUc'')),
      (''cUs'', is_scalar Double (ty ''GnssEphCommon.cUs'')),
      (''cRc'', is_scalar Double (ty ''GnssEphCommon.cRc'')),
      (''cRs'', is_scalar Double (ty ''GnssEphCommon.cRs'')),
      (''cIc'', is_scalar Double (ty ''GnssEphCommon.cIc'')),
      (''cIs'', is_scalar Double (ty ''GnssEphCommon.cIs'')),
      (''toe'', is_scalar UInt32 (ty ''GnssEphCommon.toe'')),
      (''toc'', is_scalar UInt32 (ty ''GnssEphCommon.toc'')),
      (''af0'', is_scalar Double (ty ''GnssEphCommon.af0'')),
      (''af1'', is_scalar Double (ty ''GnssEphCommon.af1'')),
      (''af2'', is_scalar Double (ty ''GnssEphCommon.af2''))]
     []"

lemma GnssEphCommon_round_trips [trips]:
  "round_trips (ok_GnssEphCommon hal ty) (convertCommanEphToPB hal) (pbConvertToCommanEph hal ty)"
  unfolding convertCommanEphToPB_def pbConvertToCommanEph_def ok_GnssEphCommon_def
  by (rule assign_round_trips, (rule matching trips)+, (simp only: list.map fst_conv, code_simp)+, simp only: list.map fst_conv)

definition ok_GpsEphemeris :: "hal_values \<Rightarrow> member_types \<Rightarrow> struct \<Rightarrow> bool" where
  "ok_GpsEphemeris hal ty = shaped
     [(''commonEphemerisData'', is_obj (ok_GnssEphCommon hal ty)),
      (''signalHealth'', is_scalar UInt32 (ty ''GpsEphemeris.signalHealth'')),
      (''URAI'', is_scalar UInt32 (ty ''GpsEphemeris.URAI'')),
      (''codeL2'', is_scalar UInt32 (ty ''GpsEphemeris.codeL2'')),
      (''dataFlagL2P'', is_scalar UInt32 (ty ''GpsEphemeris.dataFlagL2P'')),
      (''tgd'', is_scalar Double (ty ''GpsEphemeris.tgd'')),
      (''fitInterval'', is_scalar UInt32 (ty ''GpsEphemeris.fitInterval'')),
      (''IODC'', is_scalar UInt32 (ty ''GpsEphemeris.IODC''))]
     []"

lemma GpsEphemeris_round_trips [trips]:
  "round_trips (ok_GpsEphemeris hal ty) (convertGpsEphDataToPB hal) (pbConvertToGpsEphData hal ty)"
  unfolding convertGpsEphDataToPB_def pbConvertToGpsEphData_def ok_GpsEphemeris_def
  by (rule assign_round_trips, (rule matching trips)+, (simp only: list.map fst_conv, code_simp)+, simp only: list.map fst_conv)

definition ok_GpsExtendedEphemeris :: "hal_values \<Rightarrow> member_types \<Rightarrow> struct \<Rightarrow> bool" where
  "ok_GpsExtendedEphemeris hal ty = shaped
     [(''gnssSvId'', is_scalar UInt32 (ty ''GpsExtendedEphemeris.gnssSvId'')),
      (''validityMask'', is_scalar UInt32 (ty ''GpsExtendedEphemeris.validityMask'')),
      (''iscL1ca'', is_scalar Float (ty ''GpsExtendedEphemeris.iscL1ca'')),
      (''iscL2c'', is_scalar Float (ty ''GpsExtendedEphemeris.iscL2c'')),
      (''iscL5I5'', is_scalar Float (ty ''GpsExtendedEphemeris.iscL5I5'')),
      (''iscL5Q5'', is_scalar Float (ty ''GpsExtendedEphemeris.iscL5Q5'')),
      (''alert'', is_scalar UInt32 (ty ''GpsExtendedEphemeris.alert'')),
      (''uraNed0'', is_scalar UInt32 (ty ''GpsExtendedEphemeris.uraNed0'')),
      (''uraNed1'', is_scalar UInt32 (ty ''GpsExtendedEphemeris.uraNed1'')),
      (''uraNed2'', is_scalar UInt32 (ty ''GpsExtendedEphemeris.uraNed2'')),
      (''top'', is_scalar Double (ty ''GpsExtendedEphemeris.top'')),
      (''topClock'', is_scalar UInt32 (ty ''GpsExtendedEphemeris.topClock'')),
      (''validityPeriod'', is_scalar UInt32 (ty ''GpsExtendedEphemeris.validityPeriod'')),
      (''deltaNdot'', is_scalar Double (ty ''GpsExtendedEphemeris.deltaNdot'')),
      (''deltaA'', is_scalar Double (ty ''GpsExtendedEphemeris.deltaA'')),
      (''adot'', is_scalar Double (ty ''GpsExtendedEphemeris.adot''))]
     []"

lemma GpsExtendedEphemeris_round_trips [trips]:
  "round_trips (ok_GpsExtendedEphemeris hal ty) (convertGpsExtendedEphToPB hal) (pbConvertToGpsExtendedEph hal ty)"
  unfolding convertGpsExtendedEphToPB_def pbConvertToGpsExtendedEph_def ok_GpsExtendedEphemeris_def
  by (rule assign_round_trips, (rule matching trips)+, (simp only: list.map fst_conv, code_simp)+, simp only: list.map fst_conv)

definition ok_GpsEphemerisResponse :: "hal_values \<Rightarrow> member_types \<Rightarrow> struct \<Rightarrow> bool" where
  "ok_GpsEphemerisResponse hal ty = shaped
     [(''numOfEphemeris'', any_value),
      (''gpsEphemerisData'', any_value),
      (''dataSourceSignal'', is_scalar UInt32 (ty ''GpsEphemerisResponse.dataSourceSignal'')),
      (''validDataSourceSignal'', is_scalar Boolean (ty ''GpsEphemerisResponse.validDataSourceSignal'')),
      (''validExtendedEphData'', is_scalar Boolean (ty ''GpsEphemerisResponse.validExtendedEphData'')),
      (''numOfExtendedEphemeris'', is_scalar UInt32 (ty ''GpsEphemerisResponse.numOfExtendedEphemeris'')),
      (''gpsExtEphemerisData'', any_value)]
     [counted ''numOfEphemeris'' ''gpsEphemerisData'' (is_obj (ok_GpsEphemeris hal ty)) (hal ''lengthof(GpsEphemerisResponse.gpsEphemerisData)'') (ty ''GpsEphemerisResponse.numOfEphemeris''),
      counted ''numOfExtendedEphemeris'' ''gpsExtEphemerisData'' (is_obj (ok_GpsExtendedEphemeris hal ty)) (hal ''lengthof(GpsEphemerisResponse.gpsExtEphemerisData)'') (ty ''GpsEphemerisResponse.numOfExtendedEphemeris'')]"

lemma GpsEphemerisResponse_round_trips [trips]:
  "round_trips (ok_GpsEphemerisResponse hal ty) (convertGpsEphResponseToPB hal) (pbConvertToGpsEphResponse hal ty)"
  unfolding convertGpsEphResponseToPB_def pbConvertToGpsEphResponse_def ok_GpsEphemerisResponse_def
  by (rule assign_round_trips, (rule matching trips)+, (simp only: list.map fst_conv, code_simp)+, simp only: list.map fst_conv)

definition ok_BdsExtendedEphemeris :: "hal_values \<Rightarrow> member_types \<Rightarrow> struct \<Rightarrow> bool" where
  "ok_BdsExtendedEphemeris hal ty = shaped
     [(''gnssSvId'', is_scalar UInt32 (ty ''BdsExtendedEphemeris.gnssSvId'')),
      (''validityMask'', is_scalar UInt32 (ty ''BdsExtendedEphemeris.validityMask'')),
      (''tgdB2a'', is_scalar Float (ty ''BdsExtendedEphemeris.tgdB2a'')),
      (''iscB2a'', is_scalar Float (ty ''BdsExtendedEphemeris.iscB2a'')),
      (''tgdB1c'', is_scalar Float (ty ''BdsExtendedEphemeris.tgdB1c'')),
      (''iscB1c'', is_scalar Float (ty ''BdsExtendedEphemeris.iscB1c'')),
      (''svType'', is_scalar UInt32 (ty ''BdsExtendedEphemeris.svType'')),
      (''validityPeriod'', is_scalar UInt32 (ty ''BdsExtendedEphemeris.validityPeriod'')),
      (''integrityFlags'', is_scalar UInt32 (ty ''BdsExtendedEphemeris.integrityFlags'')),
      (''deltaNdot'', is_scalar Double (ty ''BdsExtendedEphemeris.deltaNdot'')),
      (''deltaA'', is_scalar Double (ty ''BdsExtendedEphemeris.deltaA'')),
      (''adot'', is_scalar Double (ty ''BdsExtendedEphemeris.adot''))]
     []"

lemma BdsExtendedEphemeris_round_trips [trips]:
  "round_trips (ok_BdsExtendedEphemeris hal ty) (convertBdsExtendedEphToPB hal) (pbConvertToBdsExtendedEph hal ty)"
  unfolding convertBdsExtendedEphToPB_def pbConvertToBdsExtendedEph_def ok_BdsExtendedEphemeris_def
  by (rule assign_round_trips, (rule matching trips)+, (simp only: list.map fst_conv, code_simp)+, simp only: list.map fst_conv)

definition ok_BdsEphemeris :: "hal_values \<Rightarrow> member_types \<Rightarrow> struct \<Rightarrow> bool" where
  "ok_BdsEphemeris hal ty = shaped
     [(''commonEphemerisData'', is_obj (ok_GnssEphCommon hal ty)),
      (''svHealth'', is_scalar UInt32 (ty ''BdsEphemeris.svHealth'')),
      (''AODC'', is_scalar UInt32 (ty ''BdsEphemeris.AODC'')),
      (''tgd1'', is_scalar Double (ty ''BdsEphemeris.tgd1'')),
      (''tgd2'', is_scalar Double (ty ''BdsEphemeris.tgd2'')),
      (''URAI'', is_scalar UInt32 (ty ''BdsEphemeris.URAI''))]
     []"

lemma BdsEphemeris_round_trips [trips]:
  "round_trips (ok_BdsEphemeris hal ty) (convertBdsEphDataToPB hal) (pbConvertToBdsEphData hal ty)"
  unfolding convertBdsEphDataToPB_def pbConvertToBdsEphData_def ok_BdsEphemeris_def
  by (rule assign_round_trips, (rule matching trips)+, (simp only: list.map fst_conv, code_simp)+, simp only: list.map fst_conv)

definition ok_BdsEphemerisResponse :: "hal_values \<Rightarrow> member_types \<Rightarrow> struct \<Rightarrow> bool" where
  "ok_BdsEphemerisResponse hal ty = shaped
     [(''numOfEphemeris'', any_value),
      (''bdsEphemerisData'', any_value),
      (''dataSourceSignal'', is_scalar UInt32 (ty ''BdsEphemerisResponse.dataSourceSignal'')),
      (''validDataSourceSignal'', is_scalar Boolean (ty ''BdsEphemerisResponse.validDataSourceSignal'')),
      (''validExtendedEphData'', is_scalar Boolean (ty ''BdsEphemerisResponse.validExtendedEphData'')),
      (''numOfExtendedEphemeris'', is_scalar UInt32 (ty ''BdsEphemerisResponse.numOfExtendedEphemeris'')),
      (''bdsExtEphemerisData'', any_value)]
     [counted ''numOfEphemeris'' ''bdsEphemerisData'' (is_obj (ok_BdsEphemeris hal ty)) (hal ''lengthof(BdsEphemerisResponse.bdsEphemerisData)'') (ty ''BdsEphemerisResponse.numOfEphemeris''),
      counted ''numOfExtendedEphemeris'' ''bdsExtEphemerisData'' (is_obj (ok_BdsExtendedEphemeris hal ty)) (hal ''lengthof(BdsEphemerisResponse.bdsExtEphemerisData)'') (ty ''BdsEphemerisResponse.numOfExtendedEphemeris'')]"

lemma BdsEphemerisResponse_round_trips [trips]:
  "round_trips (ok_BdsEphemerisResponse hal ty) (convertBdsEphResponseToPB hal) (pbConvertToBdsEphResponse hal ty)"
  unfolding convertBdsEphResponseToPB_def pbConvertToBdsEphResponse_def ok_BdsEphemerisResponse_def
  by (rule assign_round_trips, (rule matching trips)+, (simp only: list.map fst_conv, code_simp)+, simp only: list.map fst_conv)

definition ok_GlonassEphemeris :: "hal_values \<Rightarrow> member_types \<Rightarrow> struct \<Rightarrow> bool" where
  "ok_GlonassEphemeris hal ty = shaped
     [(''gnssSvId'', is_scalar UInt32 (ty ''GlonassEphemeris.gnssSvId'')),
      (''updateAction'', is_one_of (known_EphAction hal)),
      (''bnHealth'', is_scalar UInt32 (ty ''GlonassEphemeris.bnHealth'')),
      (''lnHealth'', is_scalar UInt32 (ty ''GlonassEphemeris.lnHealth'')),
      (''tb'', is_scalar UInt32 (ty ''GlonassEphemeris.tb'')),
      (''ft'', is_scalar UInt32 (ty ''GlonassEphemeris.ft'')),
      (''gloM'', is_scalar UInt32 (ty ''GlonassEphemeris.gloM'')),
      (''enAge'', is_scalar UInt32 (ty ''GlonassEphemeris.enAge'')),
      (''gloFrequency'', is_scalar UInt32 (ty ''GlonassEphemeris.gloFrequency'')),
      (''p1'', is_scalar UInt32 (ty ''GlonassEphemeris.p1'')),
      (''p2'', is_scalar UInt32 (ty ''GlonassEphemeris.p2'')),
      (''deltaTau'', is_scalar Float (ty ''GlonassEphemeris.deltaTau'')),
      (''position'', any_value),
      (''velocity'', any_value),
      (''acceleration'', any_value),
      (''tauN'', is_scalar Float (ty ''GlonassEphemeris.tauN'')),
      (''gamma'', is_scalar Float (ty ''GlonassEphemeris.gamma'')),
      (''toe'', is_scalar Double (ty ''GlonassEphemeris.toe'')),
      (''nt'', is_scalar UInt32 (ty ''GlonassEphemeris.nt''))]
     [filled (\<lambda>s. 3) ''position'' (is_scalar Double (ty ''GlonassEphemeris.position[]'')) 3,
      filled (\<lambda>s. 3) ''velocity'' (is_scalar Double (ty ''GlonassEphemeris.velocity[]'')) 3,
      filled (\<lambda>s. 3) ''acceleration'' (is_scalar Double (ty ''GlonassEphemeris.acceleration[]'')) 3]"

lemma GlonassEphemeris_round_trips [trips]:
  "round_trips (ok_GlonassEphemeris hal ty) (convertGlonassEphDataToPB hal) (pbConvertToGlonassEphData hal ty)"
  unfolding convertGlonassEphDataToPB_def pbConvertToGlonassEphData_def ok_GlonassEphemeris_def
  by (rule assign_round_trips, (rule matching trips)+, (simp only: list.map fst_conv, code_simp)+, simp only: list.map fst_conv)

definition ok_GlonassEphemerisResponse :: "hal_values \<Rightarrow> member_types \<Rightarrow> struct \<Rightarrow> bool" where
  "ok_GlonassEphemerisResponse hal ty = shaped
     [(''numOfEphemeris'', any_value),
      (''gloEphemerisData'', any_value)]
     [counted ''numOfEphemeris'' ''gloEphemerisData'' (is_obj (ok_GlonassEphemeris hal ty)) (hal ''lengthof(GlonassEphemerisResponse.gloEphemerisData)'') (ty ''GlonassEphemerisResponse.numOfEphemeris'')]"

lemma GlonassEphemerisResponse_round_trips [trips]:
  "round_trips (ok_GlonassEphemerisResponse hal ty) (convertGloEphResponseToPB hal) (pbConvertToGloEphResponse hal ty)"
  unfolding convertGloEphResponseToPB_def pbConvertToGloEphResponse_def ok_GlonassEphemerisResponse_def
  by (rule assign_round_trips, (rule matching trips)+, (simp only: list.map fst_conv, code_simp)+, simp only: list.map fst_conv)

definition ok_GalileoEphemeris :: "hal_values \<Rightarrow> member_types \<Rightarrow> struct \<Rightarrow> bool" where
  "ok_GalileoEphemeris hal ty = shaped
     [(''commonEphemerisData'', is_obj (ok_GnssEphCommon hal ty)),
      (''dataSourceSignal'', is_one_of (known_convertDataSignalSource hal)),
      (''sisIndex'', is_scalar UInt32 (ty ''GalileoEphemeris.sisIndex'')),
      (''bgdE1E5a'', is_scalar Double (ty ''GalileoEphemeris.bgdE1E5a'')),
      (''bgdE1E5b'', is_scalar Double (ty ''GalileoEphemeris.bgdE1E5b'')),
      (''svHealth'', is_scalar UInt32 (ty ''GalileoEphemeris.svHealth''))]
     []"

lemma GalileoEphemeris_round_trips [trips]:
  "round_trips (ok_GalileoEphemeris hal ty) (convertGalileoEphDataToPB hal) (pbConvertToGalileoEphData hal ty)"
  unfolding convertGalileoEphDataToPB_def pbConvertToGalileoEphData_def ok_GalileoEphemeris_def
  by (rule assign_round_trips, (rule matching trips)+, (simp only: list.map fst_conv, code_simp)+, simp only: list.map fst_conv)

definition ok_GalileoEphemerisResponse :: "hal_values \<Rightarrow> member_types \<Rightarrow> struct \<Rightarrow> bool" where
  "ok_GalileoEphemerisResponse hal ty = shaped
     [(''numOfEphemeris'', any_value),
      (''galEphemerisData'', any_value)]
     [counted ''numOfEphemeris'' ''galEphemerisData'' (is_obj (ok_GalileoEphemeris hal ty)) (hal ''lengthof(GalileoEphemerisResponse.galEphemerisData)'') (ty ''GalileoEphemerisResponse.numOfEphemeris'')]"

lemma GalileoEphemerisResponse_round_trips [trips]:
  "round_trips (ok_GalileoEphemerisResponse hal ty) (convertGalEphResponseToPB hal) (pbConvertToGalEphResponse hal ty)"
  unfolding convertGalEphResponseToPB_def pbConvertToGalEphResponse_def ok_GalileoEphemerisResponse_def
  by (rule assign_round_trips, (rule matching trips)+, (simp only: list.map fst_conv, code_simp)+, simp only: list.map fst_conv)

definition ok_QzssEphemerisResponse :: "hal_values \<Rightarrow> member_types \<Rightarrow> struct \<Rightarrow> bool" where
  "ok_QzssEphemerisResponse hal ty = shaped
     [(''numOfEphemeris'', any_value),
      (''qzssEphemerisData'', any_value),
      (''dataSourceSignal'', is_scalar UInt32 (ty ''QzssEphemerisResponse.dataSourceSignal'')),
      (''validDataSourceSignal'', is_scalar Boolean (ty ''QzssEphemerisResponse.validDataSourceSignal'')),
      (''validExtendedEphData'', is_scalar Boolean (ty ''QzssEphemerisResponse.validExtendedEphData'')),
      (''numOfExtendedEphemeris'', is_scalar UInt32 (ty ''QzssEphemerisResponse.numOfExtendedEphemeris'')),
      (''qzssExtEphemerisData'', any_value)]
     [counted ''numOfEphemeris'' ''qzssEphemerisData'' (is_obj (ok_GpsEphemeris hal ty)) (hal ''lengthof(QzssEphemerisResponse.qzssEphemerisData)'') (ty ''QzssEphemerisResponse.numOfEphemeris''),
      counted ''numOfExtendedEphemeris'' ''qzssExtEphemerisData'' (is_obj (ok_GpsExtendedEphemeris hal ty)) (hal ''lengthof(QzssEphemerisResponse.qzssExtEphemerisData)'') (ty ''QzssEphemerisResponse.numOfExtendedEphemeris'')]"

lemma QzssEphemerisResponse_round_trips [trips]:
  "round_trips (ok_QzssEphemerisResponse hal ty) (convertQzssEphResponseToPB hal) (pbConvertToQzssEphResponse hal ty)"
  unfolding convertQzssEphResponseToPB_def pbConvertToQzssEphResponse_def ok_QzssEphemerisResponse_def
  by (rule assign_round_trips, (rule matching trips)+, (simp only: list.map fst_conv, code_simp)+, simp only: list.map fst_conv)

definition ok_NavicEphemeris :: "hal_values \<Rightarrow> member_types \<Rightarrow> struct \<Rightarrow> bool" where
  "ok_NavicEphemeris hal ty = shaped
     [(''commonEphemerisData'', is_obj (ok_GnssEphCommon hal ty)),
      (''weekNum'', is_scalar UInt32 (ty ''NavicEphemeris.weekNum'')),
      (''iodec'', is_scalar UInt32 (ty ''NavicEphemeris.iodec'')),
      (''l5Health'', is_scalar UInt32 (ty ''NavicEphemeris.l5Health'')),
      (''sHealth'', is_scalar UInt32 (ty ''NavicEphemeris.sHealth'')),
      (''inclinationAngleRad'', is_scalar Double (ty ''NavicEphemeris.inclinationAngleRad'')),
      (''urai'', is_scalar UInt32 (ty ''NavicEphemeris.urai'')),
      (''tgd'', is_scalar Double (ty ''NavicEphemeris.tgd''))]
     []"

lemma NavicEphemeris_round_trips [trips]:
  "round_trips (ok_NavicEphemeris hal ty) (convertNavicEphDataToPB hal) (pbConvertToNavicEphData hal ty)"
  unfolding convertNavicEphDataToPB_def pbConvertToNavicEphData_def ok_NavicEphemeris_def
  by (rule assign_round_trips, (rule matching trips)+, (simp only: list.map fst_conv, code_simp)+, simp only: list.map fst_conv)

definition ok_NavicEphemerisResponse :: "hal_values \<Rightarrow> member_types \<Rightarrow> struct \<Rightarrow> bool" where
  "ok_NavicEphemerisResponse hal ty = shaped
     [(''numOfEphemeris'', any_value),
      (''navicEphemerisData'', any_value)]
     [counted ''numOfEphemeris'' ''navicEphemerisData'' (is_obj (ok_NavicEphemeris hal ty)) (hal ''lengthof(NavicEphemerisResponse.navicEphemerisData)'') (ty ''NavicEphemerisResponse.numOfEphemeris'')]"

lemma NavicEphemerisResponse_round_trips [trips]:
  "round_trips (ok_NavicEphemerisResponse hal ty) (convertNavicEphResponseToPB hal) (pbConvertToNavicEphResponse hal ty)"
  unfolding convertNavicEphResponseToPB_def pbConvertToNavicEphResponse_def ok_NavicEphemerisResponse_def
  by (rule assign_round_trips, (rule matching trips)+, (simp only: list.map fst_conv, code_simp)+, simp only: list.map fst_conv)

lemma SystemTime_round_trips [trips]:
  "round_trips (ok_GnssSystemTimeStructType hal ty) (convertGnssSystemTimeStructTypeToPB hal) (pbConvertToSystemTime hal ty)"
  unfolding convertGnssSystemTimeStructTypeToPB_def pbConvertToSystemTime_def ok_GnssSystemTimeStructType_def
  by (rule assign_round_trips, (rule matching trips)+, (simp only: list.map fst_conv, code_simp)+, simp only: list.map fst_conv)

definition ok_GnssMapMatchedData :: "hal_values \<Rightarrow> member_types \<Rightarrow> struct \<Rightarrow> bool" where
  "ok_GnssMapMatchedData hal ty = shaped
     [(''validityMask'', is_scalar UInt64 (ty ''GnssMapMatchedData.validityMask'')),
      (''utcTimestampMs'', is_scalar UInt64 (ty ''GnssMapMatchedData.utcTimestampMs'')),
      (''mapMatchedLatitudeDifference'', is_scalar Float (ty ''GnssMapMatchedData.mapMatchedLatitudeDifference'')),
      (''mapMatchedLongitudeDifference'', is_scalar Float (ty ''GnssMapMatchedData.mapMatchedLongitudeDifference'')),
      (''isTunnel'', is_scalar Boolean (ty ''GnssMapMatchedData.isTunnel'')),
      (''bearing'', is_scalar Float (ty ''GnssMapMatchedData.bearing'')),
      (''altitude'', is_scalar Double (ty ''GnssMapMatchedData.altitude'')),
      (''horizontalAccuracy'', is_scalar Float (ty ''GnssMapMatchedData.horizontalAccuracy'')),
      (''altitudeAccuracy'', is_scalar Float (ty ''GnssMapMatchedData.altitudeAccuracy'')),
      (''bearingAccuracy'', is_scalar Float (ty ''GnssMapMatchedData.bearingAccuracy''))]
     []"

lemma GnssMapMatchedData_round_trips [trips]:
  "round_trips (ok_GnssMapMatchedData hal ty) (convertGnssMmfDataToPB hal) (pbConvertToGnssMmfData hal ty)"
  unfolding convertGnssMmfDataToPB_def pbConvertToGnssMmfData_def ok_GnssMapMatchedData_def
  by (rule assign_round_trips, (rule matching trips)+, (simp only: list.map fst_conv, code_simp)+, simp only: list.map fst_conv)

end
