(* ===== verification/PbReports.thy ===== *)
theory PbReports
  imports PbTrips
begin

text \<open>
  The round trips that need more than matching the members one by one: members that are assigned under a
  condition, unions, structures whose elements are converted in place, tables, and the position report.
\<close>

section \<open>Configuration\<close>

definition ok_version :: "member_types \<Rightarrow> struct \<Rightarrow> bool" where
  "ok_version ty = shaped
     [(''major'', is_scalar UInt32 (ty ''GnssConfigRobustLocation.version.major'')),
      (''minor'', is_scalar UInt32 (ty ''GnssConfigRobustLocation.version.minor''))] []"

lemma version_round_trips [trips]:
  "round_trips (ok_version ty) (assign [(''major'', put UInt32 ''major''), (''minor'', put UInt32 ''minor'')])
     (assign [(''major'', get (ty ''GnssConfigRobustLocation.version.major'') ''major''),
        (''minor'', get (ty ''GnssConfigRobustLocation.version.minor'') ''minor'')])"
  unfolding ok_version_def
  by (rule assign_round_trips, (rule matching trips)+, (simp only: list.map fst_conv, code_simp)+, simp only: list.map fst_conv)

definition ok_GnssConfigRobustLocation :: "hal_values \<Rightarrow> member_types \<Rightarrow> struct \<Rightarrow> bool" where
  "ok_GnssConfigRobustLocation hal ty = shaped
     [(''validMask'', is_flags32 (known_GnssCfgRobustLocValidMask hal)),
      (''enabled'', is_scalar Boolean (ty ''GnssConfigRobustLocation.enabled'')),
      (''enabledForE911'', is_scalar Boolean (ty ''GnssConfigRobustLocation.enabledForE911'')),
      (''version'', is_obj (ok_version ty))] []"

lemmas in_version = in_member_into [where rows = "[(_, _), (_, _)]", unfolded list.map prod.case]

lemma GnssConfigRobustLocation_round_trips [trips]:
  "round_trips (ok_GnssConfigRobustLocation hal ty) (convertGnssConfigRobustLocationToPB hal) (pbConvertToGnssConfigRobustLocation hal ty)"
  unfolding convertGnssConfigRobustLocationToPB_def pbConvertToGnssConfigRobustLocation_def ok_GnssConfigRobustLocation_def
    in_version
  by (rule assign_round_trips, (rule matching trips)+, (simp only: list.map fst_conv, code_simp)+, simp only: list.map fst_conv)

text \<open>The status of the assistance data is sent only where the feature is enabled.\<close>

definition ok_XtraStatus :: "hal_values \<Rightarrow> member_types \<Rightarrow> struct \<Rightarrow> bool" where
  "ok_XtraStatus hal ty = shaped
     [(''featureEnabled'', is_scalar Boolean (ty ''XtraStatus.featureEnabled'')),
      (''xtraDataStatus'', any_value), (''xtraValidForHours'', any_value), (''userConsentStatus'', any_value)]
     [sent_when ''featureEnabled'' ''xtradatastatus'' ''xtraDataStatus''
        (is_one_of (known_XtraDataStatus hal)) (get_enum (getXtraDataStatusFromPB hal) ''xtradatastatus''),
      sent_when ''featureEnabled'' ''xtravalidforhours'' ''xtraValidForHours''
        (is_scalar UInt32 (ty ''XtraStatus.xtraValidForHours'')) (get (ty ''XtraStatus.xtraValidForHours'') ''xtravalidforhours''),
      sent_when ''featureEnabled'' ''userconsentstatus'' ''userConsentStatus''
        (is_scalar Boolean (ty ''XtraStatus.userConsentStatus'')) (get (ty ''XtraStatus.userConsentStatus'') ''userconsentstatus'')]"

lemma XtraStatus_round_trips [trips]:
  "round_trips (ok_XtraStatus hal ty) (convertXtraStatusToPB hal) (pbConvertToXtraStatus hal ty)"
  unfolding convertXtraStatusToPB_def pbConvertToXtraStatus_def ok_XtraStatus_def
  by (rule assign_round_trips, (rule restores_when_set matching trips)+, (simp only: list.map fst_conv, code_simp)+,
      simp only: list.map fst_conv)

text \<open>The request to delete aiding data has a mask of its own inside, and a second one that is not sent:
  the decoder sets all of its bits.\<close>

definition aiding_sv :: "hal_values \<Rightarrow> struct \<Rightarrow> bool" where
  "aiding_sv hal x \<longleftrightarrow> is_obj (shaped
     [(''svMask'', is_flags32 (known_GnssAidingDataSvMask hal)),
      (''svTypeMask'', equals (hal ''GNSS_AIDING_DATA_SV_TYPE_MASK_ALL''))] []) (x ''sv'')"

definition ok_GnssAidingData :: "hal_values \<Rightarrow> member_types \<Rightarrow> struct \<Rightarrow> bool" where
  "ok_GnssAidingData hal ty = shaped
     [(''deleteAll'', is_scalar Boolean (ty ''GnssAidingData.deleteAll'')),
      (''sv'', any_value),
      (''dreAidingDataMask'', is_flags32 (known_DrEngineAidingDataMask hal)),
      (''posEngineMask'', is_flags32 (known_PositioningEngineMask hal))]
     [aiding_sv hal]"

lemma GnssAidingDataSvMask_back:
  "is_flags32 (known_GnssAidingDataSvMask hal) v \<Longrightarrow>
   v = Num (uint (getGnssAidingDataSvMaskFromPB hal (getPBMaskForGnssAidingDataSvMask hal (word_of_int (num v)))))"
  by (rule flags32_back [OF GnssAidingDataSvMask_rows, where fs = "known_GnssAidingDataSvMask hal"])
    (simp add: known_GnssAidingDataSvMask_def getPBMaskForGnssAidingDataSvMask_flags_def)

lemma settles_aiding: "settles P f (of_member m (put_mask conv n))"
  by (simp add: settles_def of_member_def put_mask_def)

lemma restores_aiding:
  assumes "aiding_sv hal \<in> set Q" and "(''gnssaidingdatasvmask'', of_member ''sv'' (put_mask (getPBMaskForGnssAidingDataSvMask hal) ''svMask'')) \<in> set E"
  shows "restores (shaped S Q) E before ''sv'' (in_member ''sv''
     [(''svMask'', get_mask (getGnssAidingDataSvMaskFromPB hal) ''gnssaidingdatasvmask''),
      (''svTypeMask'', set_to (hal ''GNSS_AIDING_DATA_SV_TYPE_MASK_ALL''))])"
  unfolding restores_def
proof (intro allI impI)
  fix x pb y assume x: "shaped S Q x" and pb: "sent E x pb" and y: "y ''sv'' = Unset"
  obtain w where w: "x ''sv'' = Obj w"
      "is_flags32 (known_GnssAidingDataSvMask hal) (w ''svMask'')"
      "w ''svTypeMask'' = Num (hal ''GNSS_AIDING_DATA_SV_TYPE_MASK_ALL'')" "\<forall>m. m \<noteq> ''svMask'' \<longrightarrow> m \<noteq> ''svTypeMask'' \<longrightarrow> w m = Unset"
    using shaped_conditionD [OF x assms(1)] by (cases "x ''sv''") (simp_all add: aiding_sv_def is_obj_def shaped_def equals_def)
  have "put_mask (getPBMaskForGnssAidingDataSvMask hal) ''svMask'' w fresh = Some (pb ''gnssaidingdatasvmask'')"
    using pb assms(2) w(1) by (auto simp: sent_def of_member_def)
  then have "pb ''gnssaidingdatasvmask'' = Num (uint (getPBMaskForGnssAidingDataSvMask hal (word_of_int (num (w ''svMask'')))))"
    by (simp add: put_mask_def)
  then have v: "get_mask (getGnssAidingDataSvMaskFromPB hal) ''gnssaidingdatasvmask'' pb d = Some (w ''svMask'')" for d
    using GnssAidingDataSvMask_back [OF w(2), symmetric] by (simp only: get_mask_def num.simps word_of_int_uint)
  have "w = fresh(''svMask'' := w ''svMask'', ''svTypeMask'' := w ''svTypeMask'')"
    using w(4) by (auto simp: fun_eq_iff fresh_def)
  then show "in_member ''sv'' [(''svMask'', get_mask (getGnssAidingDataSvMaskFromPB hal) ''gnssaidingdatasvmask''),
      (''svTypeMask'', set_to (hal ''GNSS_AIDING_DATA_SV_TYPE_MASK_ALL''))] pb y = Some (x ''sv'')"
    using y w(1,3) by (simp add: in_member_def v set_to_def fresh_def fun_upd_def)
qed

lemma GnssAidingData_round_trips [trips]:
  "round_trips (ok_GnssAidingData hal ty) (convertGnssAidingDataToPB hal) (pbConvertToGnssAidingData hal ty)"
  unfolding convertGnssAidingDataToPB_def pbConvertToGnssAidingData_def ok_GnssAidingData_def
  by (rule assign_round_trips, (rule settles_aiding restores_aiding matching trips)+, (simp only: list.map fst_conv, code_simp)+,
      simp only: list.map fst_conv)

section \<open>Geofences\<close>

definition ok_GeofenceResponse :: "hal_values \<Rightarrow> member_types \<Rightarrow> struct \<Rightarrow> bool" where
  "ok_GeofenceResponse hal ty = shaped
     [(''clientId'', is_scalar UInt32 (fit UInt32)),
      (''error'', is_one_of (known_LocationError hal))] []"

lemma GeofenceResponse_round_trips [trips]:
  "round_trips (ok_GeofenceResponse hal ty)
     (assign [(''clientid'', put UInt32 ''clientId''), (''error'', put_enum (getPBEnumForLocationError hal) ''error'')])
     (assign [(''clientId'', get (fit UInt32) ''clientid''), (''error'', get_enum (getEnumForPBLocationError hal) ''error'')])"
  unfolding ok_GeofenceResponse_def
  by (rule assign_round_trips, (rule matching trips)+, (simp only: list.map fst_conv, code_simp)+, simp only: list.map fst_conv)

definition ok_CollectiveResPayload :: "hal_values \<Rightarrow> member_types \<Rightarrow> struct \<Rightarrow> bool" where
  "ok_CollectiveResPayload hal ty = shaped [(''resp'', is_seq (is_obj (ok_GeofenceResponse hal ty)))] []"

lemma CollectiveResPayload_round_trips [trips]:
  "round_trips (ok_CollectiveResPayload hal ty) (convertCollectiveResPayloadToPB hal) (pbConvertToCollectiveResPayload hal ty)"
  unfolding convertCollectiveResPayloadToPB_def pbConvertToCollectiveResPayload_def ok_CollectiveResPayload_def
  by (rule assign_round_trips, (rule matching trips)+, (simp only: list.map fst_conv, code_simp)+, simp only: list.map fst_conv)

definition ok_GeofencePayload :: "hal_values \<Rightarrow> member_types \<Rightarrow> struct \<Rightarrow> bool" where
  "ok_GeofencePayload hal ty = shaped
     [(''gfClientId'', is_scalar UInt32 (fit UInt32)),
      (''gfOption'', is_obj (ok_GeofenceOption hal ty)), (''gfInfo'', is_obj (ok_GeofenceInfo hal ty))] []"

lemma GeofencePayload_round_trips [trips]:
  "round_trips (ok_GeofencePayload hal ty)
     (assign [(''gfclientid'', put UInt32 ''gfClientId''), (''gfoption'', sub ''gfoption'' (convertGeofenceOptionToPB hal) ''gfOption''),
        (''gfinfo'', sub ''gfinfo'' (convertGeofenceInfoToPB hal) ''gfInfo'')])
     (assign [(''gfClientId'', get (fit UInt32) ''gfclientid''),
        (''gfOption'', into ''gfOption'' (pbConvertToGeofenceOption hal ty) ''gfoption''),
        (''gfInfo'', into ''gfInfo'' (pbConvertToGeofenceInfo hal ty) ''gfinfo'')])"
  unfolding ok_GeofencePayload_def
  by (rule assign_round_trips, (rule matching trips)+, (simp only: list.map fst_conv, code_simp)+, simp only: list.map fst_conv)

definition ok_GeofencesAddedReqPayload :: "hal_values \<Rightarrow> member_types \<Rightarrow> struct \<Rightarrow> bool" where
  "ok_GeofencesAddedReqPayload hal ty = shaped [(''count'', any_value), (''gfPayload'', any_value)]
     [counted ''count'' ''gfPayload'' (is_obj (ok_GeofencePayload hal ty)) MAX_GEOFENCE_ENTRY
        (fit UInt32)]"

lemma GeofencesAddedReqPayload_round_trips [trips]:
  "round_trips (ok_GeofencesAddedReqPayload hal ty) (convertGfAddedReqPayloadToPB hal) (pbConvertToGfAddReqPayload hal ty)"
  unfolding convertGfAddedReqPayloadToPB_def pbConvertToGfAddReqPayload_def ok_GeofencesAddedReqPayload_def
  by (rule assign_round_trips, (rule matching trips)+, (simp only: list.map fst_conv, code_simp)+, simp only: list.map fst_conv)

section \<open>Unions\<close>

definition ok_SystemTimeStructUnion :: "hal_values \<Rightarrow> member_types \<Rightarrow> int \<Rightarrow> struct \<Rightarrow> bool" where
  "ok_SystemTimeStructUnion hal ty sys =
    (if sys = hal ''GNSS_LOC_SV_SYSTEM_GPS'' then holds_only ''gpsSystemTime'' (ok_GnssSystemTimeStructType hal ty)
     else if sys = hal ''GNSS_LOC_SV_SYSTEM_GALILEO'' then holds_only ''galSystemTime'' (ok_GnssSystemTimeStructType hal ty)
     else if sys = hal ''GNSS_LOC_SV_SYSTEM_BDS'' then holds_only ''bdsSystemTime'' (ok_GnssSystemTimeStructType hal ty)
     else if sys = hal ''GNSS_LOC_SV_SYSTEM_QZSS'' then holds_only ''qzssSystemTime'' (ok_GnssSystemTimeStructType hal ty)
     else if sys = hal ''GNSS_LOC_SV_SYSTEM_GLONASS'' then holds_only ''gloSystemTime'' (ok_GnssGloTimeStructType hal ty)
     else if sys = hal ''GNSS_LOC_SV_SYSTEM_NAVIC'' then holds_only ''navicSystemTime'' (ok_GnssSystemTimeStructType hal ty)
     else (\<lambda>w. w = fresh))"

lemma round_trips_empty: "round_trips (\<lambda>w. w = fresh) (\<lambda>s d. Some d) (\<lambda>s d. Some d)"
  by (simp add: round_trips_def)

lemma round_trips_if:
  assumes "c \<Longrightarrow> round_trips P e d" and "\<not> c \<Longrightarrow> round_trips P' e' d'"
  shows "round_trips (if c then P else P') (\<lambda>s t. if c then e s t else e' s t) (\<lambda>s t. if c then d s t else d' s t)"
  using assms by simp

lemma SystemTimeStructUnion_round_trips:
  "round_trips (ok_SystemTimeStructUnion hal ty sys) (convertSystemTimeStructUnionToPB hal sys) (pbConvertToSystemTimeStructUnion hal ty sys)"
  unfolding convertSystemTimeStructUnionToPB_def [abs_def] pbConvertToSystemTimeStructUnion_def [abs_def] ok_SystemTimeStructUnion_def
  by (intro round_trips_if round_trips_empty select_one_round_trips trips)

definition ok_GnssSystemTime :: "hal_values \<Rightarrow> member_types \<Rightarrow> struct \<Rightarrow> bool" where
  "ok_GnssSystemTime hal ty = shaped
     [(''gnssSystemTimeSrc'', is_one_of (known_GnssLocSvSystem hal)), (''u'', any_value)]
     [chosen ''gnssSystemTimeSrc'' ''u'' (ok_SystemTimeStructUnion hal ty)]"

lemma GnssSystemTime_round_trips [trips]:
  "round_trips (ok_GnssSystemTime hal ty) (convertGnssSystemTimeToPB hal) (pbConvertToGnssSystemTime hal ty)"
  unfolding convertGnssSystemTimeToPB_def pbConvertToGnssSystemTime_def ok_GnssSystemTime_def
  by (rule assign_round_trips, (rule settles_chosen restores_chosen SystemTimeStructUnion_round_trips matching trips)+,
      (simp only: list.map fst_conv, code_simp)+, simp only: list.map fst_conv)

definition ok_EphInfo :: "hal_values \<Rightarrow> member_types \<Rightarrow> int \<Rightarrow> struct \<Rightarrow> bool" where
  "ok_EphInfo hal ty sys =
    (if sys = hal ''GNSS_LOC_SV_SYSTEM_GPS'' then holds_only ''gpsEphemeris'' (ok_GpsEphemerisResponse hal ty)
     else if sys = hal ''GNSS_LOC_SV_SYSTEM_GALILEO'' then holds_only ''galileoEphemeris'' (ok_GalileoEphemerisResponse hal ty)
     else if sys = hal ''GNSS_LOC_SV_SYSTEM_GLONASS'' then holds_only ''glonassEphemeris'' (ok_GlonassEphemerisResponse hal ty)
     else if sys = hal ''GNSS_LOC_SV_SYSTEM_BDS'' then holds_only ''bdsEphemeris'' (ok_BdsEphemerisResponse hal ty)
     else if sys = hal ''GNSS_LOC_SV_SYSTEM_QZSS'' then holds_only ''qzssEphemeris'' (ok_QzssEphemerisResponse hal ty)
     else if sys = hal ''GNSS_LOC_SV_SYSTEM_NAVIC'' then holds_only ''navicEphemeris'' (ok_NavicEphemerisResponse hal ty)
     else (\<lambda>w. w = fresh))"

lemma EphInfo_round_trips:
  "round_trips (ok_EphInfo hal ty sys) (convertEphInfoToPB hal sys) (pbConvertToEphInfo hal ty sys)"
  unfolding convertEphInfoToPB_def [abs_def] pbConvertToEphInfo_def [abs_def] ok_EphInfo_def
  by (intro round_trips_if round_trips_empty select_one_round_trips trips)

definition ok_GnssSvEphemerisReport :: "hal_values \<Rightarrow> member_types \<Rightarrow> struct \<Rightarrow> bool" where
  "ok_GnssSvEphemerisReport hal ty = shaped
     [(''gnssConstellation'', is_one_of (known_GnssLocSvSystem hal)),
      (''isSystemTimeValid'', is_scalar Boolean (ty ''GnssSvEphemerisReport.isSystemTimeValid'')),
      (''systemTime'', is_obj (ok_GnssSystemTimeStructType hal ty)),
      (''ephInfo'', any_value)]
     [chosen ''gnssConstellation'' ''ephInfo'' (ok_EphInfo hal ty)]"

lemma GnssSvEphemerisReport_round_trips:
  "round_trips (ok_GnssSvEphemerisReport hal ty) (convertGnssEphNotifToPB hal) (pbConvertToGnssEphNotif hal ty)"
  unfolding convertGnssEphNotifToPB_def pbConvertToGnssEphNotif_def ok_GnssSvEphemerisReport_def
  by (rule assign_round_trips, (rule settles_chosen restores_chosen EphInfo_round_trips matching trips)+,
      (simp only: list.map fst_conv, code_simp)+, simp only: list.map fst_conv)

end
