(* ===== verification/PbPosition.thy ===== *)
theory PbPosition
  imports PbReports
begin

text \<open>
  The round trips of the position report, \<open>GnssLocationInfoNotification\<close>, and of the antenna information with
  its tables of corrections.
\<close>

section \<open>The dynamics of the body\<close>

text \<open>One message carries two structures, whose flags share one mask.\<close>

definition ok_dynamics :: "hal_values \<Rightarrow> member_types \<Rightarrow> struct \<Rightarrow> bool" where
  "ok_dynamics hal ty = shaped
     [(''bodyFrameDataMask'', is_flags32 (known_PosDataMask hal)),
      (''longAccel'', is_scalar Float (ty ''GnssLocationPositionDynamics.longAccel'')),
      (''latAccel'', is_scalar Float (ty ''GnssLocationPositionDynamics.latAccel'')),
      (''vertAccel'', is_scalar Float (ty ''GnssLocationPositionDynamics.vertAccel'')),
      (''longAccelUnc'', is_scalar Float (ty ''GnssLocationPositionDynamics.longAccelUnc'')),
      (''latAccelUnc'', is_scalar Float (ty ''GnssLocationPositionDynamics.latAccelUnc'')),
      (''vertAccelUnc'', is_scalar Float (ty ''GnssLocationPositionDynamics.vertAccelUnc'')),
      (''pitch'', is_scalar Float (ty ''GnssLocationPositionDynamics.pitch'')),
      (''pitchUnc'', is_scalar Float (ty ''GnssLocationPositionDynamics.pitchUnc'')),
      (''yawRate'', is_scalar Float (ty ''GnssLocationPositionDynamics.yawRate'')),
      (''yawRateUnc'', is_scalar Float (ty ''GnssLocationPositionDynamics.yawRateUnc''))] []"

definition ok_dynamics_ext :: "hal_values \<Rightarrow> member_types \<Rightarrow> struct \<Rightarrow> bool" where
  "ok_dynamics_ext hal ty = shaped
     [(''bodyFrameDataMask'', is_flags32 (known_PosDataMaskExt hal)),
      (''pitchRate'', is_scalar Float (ty ''GnssLocationPositionDynamicsExt.pitchRate'')),
      (''pitchRateUnc'', is_scalar Float (ty ''GnssLocationPositionDynamicsExt.pitchRateUnc'')),
      (''roll'', is_scalar Float (ty ''GnssLocationPositionDynamicsExt.roll'')),
      (''rollUnc'', is_scalar Float (ty ''GnssLocationPositionDynamicsExt.rollUnc'')),
      (''rollRate'', is_scalar Float (ty ''GnssLocationPositionDynamicsExt.rollRate'')),
      (''rollRateUnc'', is_scalar Float (ty ''GnssLocationPositionDynamicsExt.rollRateUnc'')),
      (''yaw'', is_scalar Float (ty ''GnssLocationPositionDynamicsExt.yaw'')),
      (''yawUnc'', is_scalar Float (ty ''GnssLocationPositionDynamicsExt.yawUnc''))] []"

text \<open>The rows of the encoder, and those that read the second structure.\<close>

definition dynamics_rows :: "hal_values \<Rightarrow> struct \<Rightarrow> struct \<Rightarrow> assignment list" where
  "dynamics_rows hal a b =
     [(''bodyframedatamask'', (\<lambda>s d. Some (Num (uint (getPBMaskForGnssLocationPosDataMask hal
        (word_of_int (num (a ''bodyFrameDataMask''))) (word_of_int (num (b ''bodyFrameDataMask'')))))))),
      (''longaccel'', put Float ''longAccel''), (''lataccel'', put Float ''latAccel''), (''vertaccel'', put Float ''vertAccel''),
      (''longaccelunc'', put Float ''longAccelUnc''), (''lataccelunc'', put Float ''latAccelUnc''),
      (''vertaccelunc'', put Float ''vertAccelUnc''), (''pitch'', put Float ''pitch''), (''pitchunc'', put Float ''pitchUnc''),
      (''pitchrate'', taken_from b (put Float ''pitchRate'')), (''pitchrateunc'', taken_from b (put Float ''pitchRateUnc'')),
      (''roll'', taken_from b (put Float ''roll'')), (''rollunc'', taken_from b (put Float ''rollUnc'')),
      (''rollrate'', taken_from b (put Float ''rollRate'')), (''rollrateunc'', taken_from b (put Float ''rollRateUnc'')),
      (''yaw'', taken_from b (put Float ''yaw'')), (''yawunc'', taken_from b (put Float ''yawUnc'')),
      (''yawrate'', put Float ''yawRate''), (''yawrateunc'', put Float ''yawRateUnc'')]"

definition dynamics_ext_rows :: "hal_values \<Rightarrow> struct \<Rightarrow> struct \<Rightarrow> assignment list" where
  "dynamics_ext_rows hal a b =
     [(''bodyframedatamask'', (\<lambda>s d. Some (Num (uint (getPBMaskForGnssLocationPosDataMask hal
        (word_of_int (num (a ''bodyFrameDataMask''))) (word_of_int (num (b ''bodyFrameDataMask'')))))))),
      (''pitchrate'', put Float ''pitchRate''), (''pitchrateunc'', put Float ''pitchRateUnc''),
      (''roll'', put Float ''roll''), (''rollunc'', put Float ''rollUnc''),
      (''rollrate'', put Float ''rollRate''), (''rollrateunc'', put Float ''rollRateUnc''),
      (''yaw'', put Float ''yaw''), (''yawunc'', put Float ''yawUnc'')]"

lemma settles_given: "settles P f (\<lambda>s d. Some v)"
  by (simp add: settles_def)

lemma settles_taken_from: "settles P f (taken_from b (put k m))"
  by (simp add: settles_def taken_from_def put_def)

lemma restores_given:
  assumes "(\<lambda>x. x m = Num (uint (dec w))) \<in> set Q" and "(f, \<lambda>s d. Some (Num (uint w))) \<in> set E"
  shows "restores (shaped S Q) E before m (get_mask dec f)"
  unfolding restores_def
proof (intro allI impI)
  fix x pb y assume "shaped S Q x" and pb: "sent E x pb"
  then have "x m = Num (uint (dec w))" using shaped_conditionD [OF _ assms(1)] by simp
  moreover have "pb f = Num (uint w)" using pb assms(2) by (auto simp: sent_def)
  ultimately show "get_mask dec f pb y = Some (x m)" by (simp add: get_mask_def)
qed

lemma shaped_with: "shaped S Q x \<Longrightarrow> q x \<Longrightarrow> shaped S (q # Q) x"
  by (simp add: shaped_def)

lemma dynamics_round_trip:
  assumes "ok_dynamics hal ty a" and "ok_dynamics_ext hal ty b"
  shows "\<exists>pb. convertGnssLocationPositionDynamicsToPB hal a b fresh = Some pb \<and>
     pbConvertToGnssLocationPositionDynamics hal ty pb fresh = Some a \<and>
     pbConvertToGnssLocationPositionDynamicsExt hal ty pb fresh = Some b"
proof -
  have m: "is_flags32 (known_PosDataMask hal) (a ''bodyFrameDataMask'')" "is_flags32 (known_PosDataMaskExt hal) (b ''bodyFrameDataMask'')"
    using assms by (simp_all add: ok_dynamics_def ok_dynamics_ext_def shaped_def)
  note shape = shaped_with [OF assms(1) [unfolded ok_dynamics_def], where q = "\<lambda>x. x ''bodyFrameDataMask'' = _", OF pos_data_back(1) [OF m]]
    shaped_with [OF assms(2) [unfolded ok_dynamics_ext_def], where q = "\<lambda>x. x ''bodyFrameDataMask'' = _", OF pos_data_back(2) [OF m]]
  have enc: "convertGnssLocationPositionDynamicsToPB hal a b = assign (dynamics_rows hal a b) a"
    unfolding convertGnssLocationPositionDynamicsToPB_def dynamics_rows_def ..
  have "settle (\<lambda>_. True) (dynamics_rows hal a b)"
    unfolding dynamics_rows_def by (rule settles_given settles_taken_from matching)+
  moreover have "distinct (map fst (dynamics_rows hal a b))"
    unfolding dynamics_rows_def by (simp only: list.map fst_conv, code_simp)
  ultimately obtain pb where pb: "assign (dynamics_rows hal a b) a fresh = Some pb" "sent (dynamics_rows hal a b) a pb"
    using assign_settled [of "\<lambda>_. True" "dynamics_rows hal a b" a fresh] by (auto simp: fresh_def)
  from pb(2) have ext: "sent (dynamics_ext_rows hal a b) b pb"
    by (simp add: sent_def dynamics_rows_def dynamics_ext_rows_def taken_from_def)
  have "pbConvertToGnssLocationPositionDynamics hal ty pb fresh = Some a"
    unfolding pbConvertToGnssLocationPositionDynamics_def
    by (rule assign_restored_all [OF _ _ _ shape(1) pb(2) [unfolded dynamics_rows_def]],
        (rule restores_given matching)+, (simp only: list.map fst_conv, code_simp), simp only: list.map fst_conv)
  moreover have "pbConvertToGnssLocationPositionDynamicsExt hal ty pb fresh = Some b"
    unfolding pbConvertToGnssLocationPositionDynamicsExt_def
    by (rule assign_restored_all [OF _ _ _ shape(2) ext [unfolded dynamics_ext_rows_def]],
        (rule restores_given matching)+, (simp only: list.map fst_conv, code_simp), simp only: list.map fst_conv)
  ultimately show ?thesis using pb(1) enc by auto
qed

section \<open>The members that depend on others\<close>

definition location_flags :: "hal_values \<Rightarrow> struct \<Rightarrow> bool" where
  "location_flags hal x \<longleftrightarrow> is_flags64 (known_GnssLocationInfoFlagMask hal) (x ''flags'')"

definition location_dynamics :: "hal_values \<Rightarrow> member_types \<Rightarrow> struct \<Rightarrow> bool" where
  "location_dynamics hal ty x \<longleftrightarrow>
     is_obj (ok_dynamics hal ty) (x ''bodyFrameData'') \<and>
     is_obj (ok_dynamics_ext hal ty) (x ''bodyFrameDataExt'')"

definition measurement_count :: "hal_values \<Rightarrow> member_types \<Rightarrow> struct \<Rightarrow> bool" where
  "measurement_count hal ty x \<longleftrightarrow> (let n = num (x ''numOfMeasReceived'') in x ''numOfMeasReceived'' = Num n \<and>
     0 \<le> n \<and> n < 2 ^ 8 \<and> n \<le> fit UInt32 (hal ''GNSS_SV_MAX'') \<and> ty ''GnssLocationInfoNotification.numOfMeasReceived'' n = n)"

definition station_count :: "hal_values \<Rightarrow> member_types \<Rightarrow> struct \<Rightarrow> bool" where
  "station_count hal ty x \<longleftrightarrow> (let n = int (length (elements (x ''dgnssStationId''))) in
     x ''numOfDgnssStationId'' = Num n \<and> n \<le> hal ''DGNSS_STATION_ID_MAX'' \<and>
     ty ''GnssLocationInfoNotification.numOfDgnssStationId'' n = n)"

definition extended_data :: "hal_values \<Rightarrow> member_types \<Rightarrow> struct \<Rightarrow> bool" where
  "extended_data hal ty x \<longleftrightarrow>
    (if flag_set (hal ''LDT_GNSS_LOCATION_INFO_EXTENDED_DATA_BIT'') (x ''flags'')
     then let n = int (length (str (x ''extendedData''))) in
       x ''extendedData'' = (if n = 0 then Unset else Str (str (x ''extendedData''))) \<and> x ''extendedDataLen'' = Num n \<and>
       n \<le> hal ''sizeof(GnssLocationInfoNotification.extendedData)'' \<and> ty ''GnssLocationInfoNotification.extendedDataLen'' n = n
     else x ''extendedData'' = Unset \<and> x ''extendedDataLen'' = Unset)"

lemma restores_location_flags:
  assumes "location_flags hal \<in> set Q" and "(''flags'', put_mask (getPBMaskForGnssLocationInfoFlagMask hal) ''flags'') \<in> set E"
    and "(''extflags'', put_mask (getPBMaskForGnssLocationInfoExtFlagMask hal) ''flags'') \<in> set E"
  shows "restores (shaped S Q) E before ''flags'' (\<lambda>s d. Some (Num (uint (getGnssLocationInfoFlagMaskFromPB hal
        (word_of_int (num (s ''flags''))) (word_of_int (num (s ''extflags'')))))))"
  unfolding restores_def
proof (intro allI impI)
  fix x pb y assume x: "shaped S Q x" and pb: "sent E x pb"
  have "pb ''flags'' = Num (uint (getPBMaskForGnssLocationInfoFlagMask hal (word_of_int (num (x ''flags'')))))"
    "pb ''extflags'' = Num (uint (getPBMaskForGnssLocationInfoExtFlagMask hal (word_of_int (num (x ''flags'')))))"
    using pb assms(2,3) by (auto simp: sent_def put_mask_def)
  then show "Some (Num (uint (getGnssLocationInfoFlagMaskFromPB hal
        (word_of_int (num (pb ''flags''))) (word_of_int (num (pb ''extflags'')))))) = Some (x ''flags'')"
    using location_flags_back [OF shaped_conditionD [OF x assms(1), unfolded location_flags_def], symmetric]
    by (simp only: num.simps word_of_int_uint)
qed

lemma dynamics_sent:
  assumes x: "shaped S Q x" and "location_dynamics hal ty \<in> set Q"
  obtains pb where "convertGnssLocationPositionDynamicsToPB hal (obj (x ''bodyFrameData'')) (obj (x ''bodyFrameDataExt'')) fresh = Some pb"
    and "map_option Obj (pbConvertToGnssLocationPositionDynamics hal ty pb fresh) = Some (x ''bodyFrameData'')"
    and "map_option Obj (pbConvertToGnssLocationPositionDynamicsExt hal ty pb fresh) = Some (x ''bodyFrameDataExt'')"
  using shaped_conditionD [OF x assms(2)] dynamics_round_trip [of hal ty "obj (x ''bodyFrameData'')" "obj (x ''bodyFrameDataExt'')"]
  unfolding location_dynamics_def is_obj_def by auto

lemma settles_dynamics:
  assumes "location_dynamics hal ty \<in> set Q"
  shows "settles (shaped S Q) f (\<lambda>s d. map_option Obj (convertGnssLocationPositionDynamicsToPB hal
        (obj (s ''bodyFrameData'')) (obj (s ''bodyFrameDataExt'')) (obj (d f))))"
  unfolding settles_def
proof (intro allI impI)
  fix x assume "shaped S Q x"
  then obtain pb where "convertGnssLocationPositionDynamicsToPB hal (obj (x ''bodyFrameData'')) (obj (x ''bodyFrameDataExt'')) fresh = Some pb"
    using dynamics_sent [OF _ assms] by metis
  then show "\<exists>v. \<forall>d. d f = Unset \<longrightarrow> map_option Obj (convertGnssLocationPositionDynamicsToPB hal
        (obj (x ''bodyFrameData'')) (obj (x ''bodyFrameDataExt'')) (obj (d f))) = Some v" by simp
qed

lemma restores_dynamics:
  assumes "location_dynamics hal ty \<in> set Q"
    and "(f, (\<lambda>s d. map_option Obj (convertGnssLocationPositionDynamicsToPB hal
        (obj (s ''bodyFrameData'')) (obj (s ''bodyFrameDataExt'')) (obj (d f))))) \<in> set E"
  shows "restores (shaped S Q) E before ''bodyFrameData'' (into ''bodyFrameData'' (pbConvertToGnssLocationPositionDynamics hal ty) f)"
    and "restores (shaped S Q) E before ''bodyFrameDataExt'' (into ''bodyFrameDataExt'' (pbConvertToGnssLocationPositionDynamicsExt hal ty) f)"
proof -
  have "\<exists>g. pb f = Obj g \<and> map_option Obj (pbConvertToGnssLocationPositionDynamics hal ty g fresh) = Some (x ''bodyFrameData'') \<and>
    map_option Obj (pbConvertToGnssLocationPositionDynamicsExt hal ty g fresh) = Some (x ''bodyFrameDataExt'')"
    if x: "shaped S Q x" and pb: "sent E x pb" for x pb
  proof -
    have "map_option Obj (convertGnssLocationPositionDynamicsToPB hal (obj (x ''bodyFrameData'')) (obj (x ''bodyFrameDataExt'')) fresh) = Some (pb f)"
      using pb assms(2) by (auto simp: sent_def fresh_def)
    moreover obtain g where g: "convertGnssLocationPositionDynamicsToPB hal (obj (x ''bodyFrameData'')) (obj (x ''bodyFrameDataExt'')) fresh = Some g"
        "map_option Obj (pbConvertToGnssLocationPositionDynamics hal ty g fresh) = Some (x ''bodyFrameData'')"
        "map_option Obj (pbConvertToGnssLocationPositionDynamicsExt hal ty g fresh) = Some (x ''bodyFrameDataExt'')"
      by (rule dynamics_sent [OF x assms(1)])
    ultimately have "pb f = Obj g" by simp
    with g(2,3) show ?thesis by blast
  qed
  then show "restores (shaped S Q) E before ''bodyFrameData'' (into ''bodyFrameData'' (pbConvertToGnssLocationPositionDynamics hal ty) f)"
    and "restores (shaped S Q) E before ''bodyFrameDataExt'' (into ''bodyFrameDataExt'' (pbConvertToGnssLocationPositionDynamicsExt hal ty) f)"
    unfolding restores_def into_def by fastforce+
qed

lemma sent_num:
  assumes "sent E x pb" and "(f, put UInt32 c) \<in> set E"
  shows "pb f = Num (fit UInt32 (num (x c)))"
  using assms by (auto simp: sent_def put_def)

lemma small_uint: "0 \<le> n \<Longrightarrow> n < 2 ^ 8 \<Longrightarrow> fit UInt32 n = n"
  by (simp add: uint_word_of_int)

lemma restores_measurement_count:
  assumes "measurement_count hal ty \<in> set Q" and "(''numofmeasreceived'', put UInt32 ''numOfMeasReceived'') \<in> set E"
  shows "restores (shaped S Q) E before ''numOfMeasReceived'' (\<lambda>s d. Some (Num (ty ''GnssLocationInfoNotification.numOfMeasReceived''
        (min (num (s ''numofmeasreceived'')) (fit UInt32 (hal ''GNSS_SV_MAX''))))))"
  unfolding restores_def
proof (intro allI impI)
  fix x pb y assume x: "shaped S Q x" and pb: "sent E x pb"
  obtain n where n: "x ''numOfMeasReceived'' = Num n" "0 \<le> n" "n < 2 ^ 8" "n \<le> fit UInt32 (hal ''GNSS_SV_MAX'')"
      "ty ''GnssLocationInfoNotification.numOfMeasReceived'' n = n"
    using shaped_conditionD [OF x assms(1)] unfolding measurement_count_def Let_def by blast
  have "num (pb ''numofmeasreceived'') = n" using sent_num [OF pb assms(2)] small_uint [OF n(2,3)] n(1) by simp
  then show "Some (Num (ty ''GnssLocationInfoNotification.numOfMeasReceived''
        (min (num (pb ''numofmeasreceived'')) (fit UInt32 (hal ''GNSS_SV_MAX''))))) = Some (x ''numOfMeasReceived'')"
    using n(1,4,5) by (simp only: min_absorb1)
qed

lemma restores_measurements:
  assumes "measurement_count hal ty \<in> set Q" and "filled (\<lambda>s. num (s ''numOfMeasReceived'') mod 2 ^ 8) m p cap \<in> set Q"
    and "''numOfMeasReceived'' \<in> before" and "carries_to p enc dec"
    and "(f, add f enc (first_elements (\<lambda>s. num (s ''numOfMeasReceived'') mod 2 ^ 8) m)) \<in> set E"
  shows "restores (shaped S Q) E before m (fill cap m dec (first_of (\<lambda>s d. num (d ''numOfMeasReceived'')) f))"
proof (rule restores_fill [OF assms(5,4)])
  fix x pb y ws assume x: "shaped S Q x" "\<forall>b\<in>before. y b = x b" and "pb f = Seq ws"
    and "nat (num (x ''numOfMeasReceived'') mod 2 ^ 8) = length ws"
  moreover have "num (x ''numOfMeasReceived'') mod 2 ^ 8 = num (x ''numOfMeasReceived'')"
    using shaped_conditionD [OF x(1) assms(1)] by (simp add: measurement_count_def Let_def)
  ultimately show "first_of (\<lambda>s d. num (d ''numOfMeasReceived'')) f pb y = Some ws" using assms(3) by (simp add: first_of_def)
qed (rule shaped_conditionD [OF _ assms(2)])

lemma stations_sent:
  assumes "sent E x pb" and "filled (\<lambda>s. num (s c)) m p cap x" and "carries_to p enc dec"
    and "(f, add f enc (first_elements (\<lambda>s. num (s c)) m)) \<in> set E"
  shows "length (elements (pb f)) = nat (num (x c))" and "length (elements (pb f)) = length (elements (x m))"
proof -
  obtain ws where ws: "\<And>d. d f = Unset \<Longrightarrow> add f enc (first_elements (\<lambda>s. num (s c)) m) x d = Some (Seq ws)" "nat (num (x c)) = length ws"
    using filledE [OF assms(2,3), where f = f] by blast
  have "add f enc (first_elements (\<lambda>s. num (s c)) m) x fresh = Some (pb f)" using assms(1,4) by (auto simp: sent_def)
  with ws(1) [of fresh] have "pb f = Seq ws" by (simp add: fresh_def)
  with ws(2) show "length (elements (pb f)) = nat (num (x c))" by simp
  then show "length (elements (pb f)) = length (elements (x m))" using assms(2) by (simp add: filled_def)
qed

lemma restores_stations:
  assumes "station_count hal ty \<in> set Q" and "filled (\<lambda>s. num (s ''numOfDgnssStationId'')) ''dgnssStationId'' p cap \<in> set Q"
    and "carries_to p enc dec" and "(f, add f enc (first_elements (\<lambda>s. num (s ''numOfDgnssStationId'')) ''dgnssStationId'')) \<in> set E"
  shows "restores (shaped S Q) E before ''dgnssStationId'' (fill cap ''dgnssStationId'' dec
      (first_of (\<lambda>s d. min (int (length (elements (s f)))) (hal ''DGNSS_STATION_ID_MAX'')) f))"
proof (rule restores_fill [OF assms(4,3)])
  fix x pb y ws assume x: "shaped S Q x" and "pb f = Seq ws" "nat (num (x ''numOfDgnssStationId'')) = length ws"
  moreover have "int (nat (num (x ''numOfDgnssStationId''))) \<le> hal ''DGNSS_STATION_ID_MAX''"
    using shaped_conditionD [OF x assms(1)] by (simp add: station_count_def Let_def)
  ultimately show "first_of (\<lambda>s d. min (int (length (elements (s f)))) (hal ''DGNSS_STATION_ID_MAX'')) f pb y = Some ws"
    by (simp add: first_of_def)
qed (rule shaped_conditionD [OF _ assms(2)])

lemma restores_station_count:
  assumes "station_count hal ty \<in> set Q" and "filled (\<lambda>s. num (s ''numOfDgnssStationId'')) ''dgnssStationId'' p cap \<in> set Q"
    and "carries_to p enc dec" and "(f, add f enc (first_elements (\<lambda>s. num (s ''numOfDgnssStationId'')) ''dgnssStationId'')) \<in> set E"
  shows "restores (shaped S Q) E before ''numOfDgnssStationId'' (\<lambda>s d. Some (Num (ty ''GnssLocationInfoNotification.numOfDgnssStationId''
        (min (int (length (elements (s f)))) (max 0 (hal ''DGNSS_STATION_ID_MAX''))))))"
  unfolding restores_def
proof (intro allI impI)
  fix x pb y assume x: "shaped S Q x" and pb: "sent E x pb"
  show "Some (Num (ty ''GnssLocationInfoNotification.numOfDgnssStationId''
        (min (int (length (elements (pb f)))) (max 0 (hal ''DGNSS_STATION_ID_MAX''))))) = Some (x ''numOfDgnssStationId'')"
    using stations_sent(2) [OF pb shaped_conditionD [OF x assms(2)] assms(3,4)] shaped_conditionD [OF x assms(1)]
    by (simp add: station_count_def Let_def)
qed

lemma extended_dataE:
  assumes "shaped S Q x" and "extended_data hal ty \<in> set Q"
  obtains "\<not> flag_set (hal ''LDT_GNSS_LOCATION_INFO_EXTENDED_DATA_BIT'') (x ''flags'')" "x ''extendedData'' = Unset" "x ''extendedDataLen'' = Unset"
  | t where "flag_set (hal ''LDT_GNSS_LOCATION_INFO_EXTENDED_DATA_BIT'') (x ''flags'')" "x ''extendedData'' = (if t = [] then Unset else Str t)"
      "x ''extendedDataLen'' = Num (int (length t))" "int (length t) \<le> hal ''sizeof(GnssLocationInfoNotification.extendedData)''"
      "ty ''GnssLocationInfoNotification.extendedDataLen'' (int (length t)) = int (length t)" "str (x ''extendedData'') = t"
proof (cases "flag_set (hal ''LDT_GNSS_LOCATION_INFO_EXTENDED_DATA_BIT'') (x ''flags'')")
  case True
  with shaped_conditionD [OF assms] show ?thesis
    unfolding extended_data_def Let_def of_nat_eq_0_iff length_0_conv by (intro that(2) [OF True _ _ _ _ refl]) argo+
next
  case False
  with shaped_conditionD [OF assms] show ?thesis by (intro that(1)) (simp_all add: extended_data_def)
qed

lemma extended_data_sent:
  assumes x: "shaped S Q x" and "extended_data hal ty \<in> set Q" and flag: "flag_set (hal ''LDT_GNSS_LOCATION_INFO_EXTENDED_DATA_BIT'') (x ''flags'')"
  shows "put_bytes (\<lambda>s. num (s ''extendedDataLen'')) ''extendedData'' x d = Some (Str (str (x ''extendedData'')))"
  by (rule extended_dataE [OF x assms(2)]) (use flag in \<open>simp_all add: put_bytes_def\<close>)

lemma settles_extended_data:
  assumes "extended_data hal ty \<in> set Q"
  shows "settles (shaped S Q) f (when_flag (hal ''LDT_GNSS_LOCATION_INFO_EXTENDED_DATA_BIT'') ''flags'' f
     (put_bytes (\<lambda>s. num (s ''extendedDataLen'')) ''extendedData''))"
  unfolding settles_def
proof (intro allI impI)
  fix x assume x: "shaped S Q x"
  show "\<exists>v. \<forall>d. d f = Unset \<longrightarrow> when_flag (hal ''LDT_GNSS_LOCATION_INFO_EXTENDED_DATA_BIT'') ''flags'' f
     (put_bytes (\<lambda>s. num (s ''extendedDataLen'')) ''extendedData'') x d = Some v"
    by (cases "flag_set (hal ''LDT_GNSS_LOCATION_INFO_EXTENDED_DATA_BIT'') (x ''flags'')")
      (simp_all add: when_flag_def extended_data_sent [OF x assms])
qed

lemma restores_extended_data:
  assumes q: "extended_data hal ty \<in> set Q" and "''flags'' \<in> before"
    and "(f, when_flag (hal ''LDT_GNSS_LOCATION_INFO_EXTENDED_DATA_BIT'') ''flags'' f
     (put_bytes (\<lambda>s. num (s ''extendedDataLen'')) ''extendedData'')) \<in> set E"
  shows "restores (shaped S Q) E before ''extendedDataLen''
     (when_flag_set (hal ''LDT_GNSS_LOCATION_INFO_EXTENDED_DATA_BIT'') ''flags'' ''extendedDataLen''
        (\<lambda>s d. Some (Num (ty ''GnssLocationInfoNotification.extendedDataLen'' (int (length (str (s f))))))))"
    and "''extendedDataLen'' \<in> before \<Longrightarrow> restores (shaped S Q) E before ''extendedData''
     (when_flag_set (hal ''LDT_GNSS_LOCATION_INFO_EXTENDED_DATA_BIT'') ''flags'' ''extendedData''
        (copy_bytes (\<lambda>d. num (d ''extendedDataLen'')) (hal ''sizeof(GnssLocationInfoNotification.extendedData)'') ''extendedData'' f))"
proof -
  have s: "pb f = Str (str (x ''extendedData''))"
    if "shaped S Q x" "sent E x pb" "flag_set (hal ''LDT_GNSS_LOCATION_INFO_EXTENDED_DATA_BIT'') (x ''flags'')" for x pb
  proof -
    have "when_flag (hal ''LDT_GNSS_LOCATION_INFO_EXTENDED_DATA_BIT'') ''flags'' f
       (put_bytes (\<lambda>s. num (s ''extendedDataLen'')) ''extendedData'') x fresh = Some (pb f)"
      using that(2) assms(3) by (auto simp: sent_def)
    then show ?thesis using extended_data_sent [OF that(1) q that(3)] that(3) by (simp add: when_flag_def)
  qed
  show "restores (shaped S Q) E before ''extendedDataLen''
     (when_flag_set (hal ''LDT_GNSS_LOCATION_INFO_EXTENDED_DATA_BIT'') ''flags'' ''extendedDataLen''
        (\<lambda>s d. Some (Num (ty ''GnssLocationInfoNotification.extendedDataLen'' (int (length (str (s f))))))))"
    unfolding restores_def
  proof (intro allI impI)
    fix x pb y assume x: "shaped S Q x" and pb: "sent E x pb" and y: "y ''extendedDataLen'' = Unset" "\<forall>b\<in>before. y b = x b"
    have "y ''flags'' = x ''flags''" using y(2) assms(2) by blast
    with s [OF x pb] y(1)
    show "when_flag_set (hal ''LDT_GNSS_LOCATION_INFO_EXTENDED_DATA_BIT'') ''flags'' ''extendedDataLen''
        (\<lambda>s d. Some (Num (ty ''GnssLocationInfoNotification.extendedDataLen'' (int (length (str (s f))))))) pb y = Some (x ''extendedDataLen'')"
      by (rule_tac extended_dataE [OF x q]) (simp_all add: when_flag_set_def)
  qed
  show "restores (shaped S Q) E before ''extendedData''
     (when_flag_set (hal ''LDT_GNSS_LOCATION_INFO_EXTENDED_DATA_BIT'') ''flags'' ''extendedData''
        (copy_bytes (\<lambda>d. num (d ''extendedDataLen'')) (hal ''sizeof(GnssLocationInfoNotification.extendedData)'') ''extendedData'' f))"
    if l: "''extendedDataLen'' \<in> before"
    unfolding restores_def
  proof (intro allI impI)
    fix x pb y assume x: "shaped S Q x" and pb: "sent E x pb" and y: "y ''extendedData'' = Unset" "\<forall>b\<in>before. y b = x b"
    have "y ''flags'' = x ''flags''" "y ''extendedDataLen'' = x ''extendedDataLen''" using y(2) assms(2) l by blast+
    with s [OF x pb] y(1)
    show "when_flag_set (hal ''LDT_GNSS_LOCATION_INFO_EXTENDED_DATA_BIT'') ''flags'' ''extendedData''
        (copy_bytes (\<lambda>d. num (d ''extendedDataLen'')) (hal ''sizeof(GnssLocationInfoNotification.extendedData)'') ''extendedData'' f) pb y
        = Some (x ''extendedData'')"
      by (rule_tac extended_dataE [OF x q]) (simp_all add: when_flag_set_def copy_bytes_def)
  qed
qed

section \<open>The position report\<close>

definition ok_GnssLocationInfoNotification :: "hal_values \<Rightarrow> member_types \<Rightarrow> struct \<Rightarrow> bool" where
  "ok_GnssLocationInfoNotification hal ty = shaped
     [(''location'', is_obj (ok_Location hal ty)),
      (''flags'', any_value),
      (''altitudeMeanSeaLevel'', is_scalar Float (ty ''GnssLocationInfoNotification.altitudeMeanSeaLevel'')),
      (''pdop'', is_scalar Float (ty ''GnssLocationInfoNotification.pdop'')),
      (''hdop'', is_scalar Float (ty ''GnssLocationInfoNotification.hdop'')),
      (''vdop'', is_scalar Float (ty ''GnssLocationInfoNotification.vdop'')),
      (''gdop'', is_scalar Float (ty ''GnssLocationInfoNotification.gdop'')),
      (''tdop'', is_scalar Float (ty ''GnssLocationInfoNotification.tdop'')),
      (''magneticDeviation'', is_scalar Float (ty ''GnssLocationInfoNotification.magneticDeviation'')),
      (''horReliability'', is_one_of (known_LocationReliability hal)),
      (''verReliability'', is_one_of (known_LocationReliability hal)),
      (''horUncEllipseSemiMajor'', is_scalar Float (ty ''GnssLocationInfoNotification.horUncEllipseSemiMajor'')),
      (''horUncEllipseSemiMinor'', is_scalar Float (ty ''GnssLocationInfoNotification.horUncEllipseSemiMinor'')),
      (''horUncEllipseOrientAzimuth'', is_scalar Float (ty ''GnssLocationInfoNotification.horUncEllipseOrientAzimuth'')),
      (''northStdDeviation'', is_scalar Float (ty ''GnssLocationInfoNotification.northStdDeviation'')),
      (''eastStdDeviation'', is_scalar Float (ty ''GnssLocationInfoNotification.eastStdDeviation'')),
      (''northVelocity'', is_scalar Float (ty ''GnssLocationInfoNotification.northVelocity'')),
      (''eastVelocity'', is_scalar Float (ty ''GnssLocationInfoNotification.eastVelocity'')),
      (''upVelocity'', is_scalar Float (ty ''GnssLocationInfoNotification.upVelocity'')),
      (''northVelocityStdDeviation'', is_scalar Float (ty ''GnssLocationInfoNotification.northVelocityStdDeviation'')),
      (''eastVelocityStdDeviation'', is_scalar Float (ty ''GnssLocationInfoNotification.eastVelocityStdDeviation'')),
      (''upVelocityStdDeviation'', is_scalar Float (ty ''GnssLocationInfoNotification.upVelocityStdDeviation'')),
      (''numSvUsedInPosition'', is_scalar UInt32 (ty ''GnssLocationInfoNotification.numSvUsedInPosition'')),
      (''svUsedInPosition'', is_obj (ok_GnssLocationSvUsedInPosition hal ty)),
      (''navSolutionMask'', is_flags32 (known_GnssLocationNavSolutionMask hal)),
      (''bodyFrameData'', any_value),
      (''bodyFrameDataExt'', any_value),
      (''gnssSystemTime'', is_obj (ok_GnssSystemTime hal ty)),
      (''numOfMeasReceived'', any_value),
      (''measUsageInfo'', any_value),
      (''leapSeconds'', is_scalar UInt32 (ty ''GnssLocationInfoNotification.leapSeconds'')),
      (''calibrationConfidence'', is_scalar UInt32 (ty ''GnssLocationInfoNotification.calibrationConfidence'')),
      (''calibrationStatus'', is_calibration hal),
      (''locOutputEngType'', is_one_of (known_LocOutputEngineType hal)),
      (''locOutputEngMask'', is_flags32 (known_PositioningEngineMask hal)),
      (''conformityIndex'', is_scalar Float (ty ''GnssLocationInfoNotification.conformityIndex'')),
      (''llaVRPBased'', is_obj (ok_LLAInfo hal ty)),
      (''enuVelocityVRPBased'', any_value),
      (''drSolutionStatusMask'', is_flags32 (known_DrSolutionStatusMask hal)),
      (''altitudeAssumed'', is_scalar Boolean (ty ''GnssLocationInfoNotification.altitudeAssumed'')),
      (''sessionStatus'', is_one_of (known_LocSessionStatus hal)),
      (''integrityRiskUsed'', is_scalar UInt32 (ty ''GnssLocationInfoNotification.integrityRiskUsed'')),
      (''protectAlongTrack'', is_scalar Float (ty ''GnssLocationInfoNotification.protectAlongTrack'')),
      (''protectCrossTrack'', is_scalar Float (ty ''GnssLocationInfoNotification.protectCrossTrack'')),
      (''protectVertical'', is_scalar Float (ty ''GnssLocationInfoNotification.protectVertical'')),
      (''dgnssStationId'', any_value),
      (''numOfDgnssStationId'', any_value),
      (''baseLineLength'', is_scalar Double (ty ''GnssLocationInfoNotification.baseLineLength'')),
      (''ageMsecOfCorrections'', is_scalar UInt64 (ty ''GnssLocationInfoNotification.ageMsecOfCorrections'')),
      (''leapSecondsUnc'', is_scalar UInt32 (ty ''GnssLocationInfoNotification.leapSecondsUnc'')),
      (''posReportingInterval'', is_scalar UInt32 (ty ''GnssLocationInfoNotification.posReportingInterval'')),
      (''extendedDataLen'', any_value),
      (''extendedData'', any_value)]
     [location_flags hal, location_dynamics hal ty, measurement_count hal ty,
      filled (\<lambda>s. num (s ''numOfMeasReceived'') mod 2 ^ 8) ''measUsageInfo'' (is_obj (ok_GnssMeasUsageInfo hal ty))
        (hal ''lengthof(GnssLocationInfoNotification.measUsageInfo)''),
      filled (\<lambda>s. 3) ''enuVelocityVRPBased'' (is_scalar Float (ty ''GnssLocationInfoNotification.enuVelocityVRPBased[]'')) 3,
      station_count hal ty,
      filled (\<lambda>s. num (s ''numOfDgnssStationId'')) ''dgnssStationId'' (is_scalar UInt32 (\<lambda>i. i mod 2 ^ 16))
        (hal ''lengthof(GnssLocationInfoNotification.dgnssStationId)''),
      extended_data hal ty]"

lemma settles_of_put: "settles P f (of_member m (put k n))"
  by (simp add: settles_def of_member_def put_def)

lemma location_time_again:
  assumes "shaped S Q x" and "sent E x pb" and "y ''location'' = x ''location''" and "(''location'', is_obj (ok_Location hal ty)) \<in> set S"
    and "(''timeuncms'', of_member ''location'' (put Float ''timeUncMs'')) \<in> set E"
  shows "in_member ''location'' [(''timeUncMs'', get (ty ''Location.timeUncMs'') ''timeuncms'')] pb y = Some (x ''location'')"
proof -
  obtain l where l: "x ''location'' = Obj l" "ok_Location hal ty l" using shapedD [OF assms(1,4)] unfolding is_obj_def by auto
  have "is_scalar Float (ty ''Location.timeUncMs'') (l ''timeUncMs'')"
    by (rule shapedD [OF l(2) [unfolded ok_Location_def]]) ((rule matching)+)
  then have t: "Num (ty ''Location.timeUncMs'' (num (l ''timeUncMs''))) = l ''timeUncMs''" by (simp add: is_scalar_def)
  have "pb ''timeuncms'' = Num (num (l ''timeUncMs''))" using assms(2,5) l(1) by (auto simp: sent_def of_member_def put_def)
  then show ?thesis using assms(3) l(1) t by (simp add: in_member_def get_def)
qed

lemmas position_rules = settles_of_put settles_dynamics settles_extended_data restores_location_flags restores_dynamics
  restores_measurement_count restores_measurements restores_stations restores_station_count restores_extended_data

lemma GnssLocationInfoNotification_round_trips:
  "round_trips (ok_GnssLocationInfoNotification hal ty) (convertGnssLocInfoNotifToPB hal) (pbConvertToGnssLocInfoNotif hal ty)"
proof -
  let ?r = "in_member ''location'' [(''timeUncMs'', get (ty ''Location.timeUncMs'') ''timeuncms'')]"
  show ?thesis
    unfolding convertGnssLocInfoNotifToPB_def pbConvertToGnssLocInfoNotif_def ok_GnssLocationInfoNotification_def
  proof (rule assign_round_trips_split [where r = ?r and m = "''location''"], (rule splits_here splits_there)+,
      (unfold append.simps)[6], goal_cases)
    case 1
    show ?case by (rule position_rules matching trips)+
  next
    case 2
    show ?case by (rule position_rules matching trips)+
  next
    case 3
    show ?case by (simp only: list.map fst_conv, code_simp)
  next
    case 4
    show ?case by (simp only: list.map fst_conv, code_simp)
  next
    case 5
    show ?case by (simp only: list.map fst_conv)
  next
    case 6
    show ?case by simp
  next
    case (7 x pb y)
    show ?case
      by (rule location_time_again [OF 7(1,2)], rule bspec [OF 7(3)], rule rev_image_eqI, rule list.set_intros(1),
          simp only: fst_conv, (rule matching)+)
  qed
qed

section \<open>Antennas\<close>

text \<open>A table is sent as the number of its rows, the length of the last of them, and all values in one
  sequence: what arrives is the table if its rows have the same length.\<close>

definition is_table :: "cval \<Rightarrow> bool" where
  "is_table v \<longleftrightarrow> is_seq (is_seq (is_scalar Double (\<lambda>i. i))) v \<and>
    (let rows = map elements (elements v); column = (if rows = [] then 0 else length (last rows)) in
     (\<forall>r \<in> set rows. length r = column) \<and> length rows < 2 ^ 32 \<and> column < 2 ^ 32 \<and> length (concat rows) < 2 ^ 32)"

lemma nth_concat_even:
  assumes "\<forall>r \<in> set rs. length r = c" and "i < length rs" and "j < c"
  shows "concat rs ! (i * c + j) = rs ! i ! j"
  using assms
proof (induction rs arbitrary: i)
  case (Cons r rs)
  then show ?case
  proof (cases i)
    case (Suc k)
    then show ?thesis using Cons.IH [of k] Cons.prems by (simp add: nth_append add.assoc)
  qed (simp add: nth_append)
qed simp

lemma length_concat_even: "\<forall>r \<in> set rs. length r = c \<Longrightarrow> length (concat rs) = length rs * c"
  by (induction rs) simp_all

lemma index_below:
  fixes i j c n :: nat
  assumes "i < n" and "j < c"
  shows "i * c + j < n * c"
proof -
  have "i * c + j < Suc i * c" using assms(2) by simp
  also have "\<dots> \<le> n * c" using assms(1) by (intro mult_le_mono1) simp
  finally show ?thesis .
qed

lemma all_some_same: "list_all (\<lambda>v. f v = Some v) vs \<Longrightarrow> all_some (map f vs) = Some vs"
  by (induction vs) simp_all

lemma all_some_map: "(\<And>i. i \<in> set xs \<Longrightarrow> f i = Some (g i)) \<Longrightarrow> all_some (map f xs) = Some (map g xs)"
  by (induction xs) simp_all

lemma fit_nat: "n < 2 ^ 32 \<Longrightarrow> fit UInt32 (int n) = int n"
  unfolding fit.simps uint_word_of_int by simp

lemma is_seqD: "is_seq p v \<Longrightarrow> v = Seq (elements v)" "is_seq p v \<Longrightarrow> list_all p (elements v)"
  unfolding is_seq_def by blast+

lemma is_seq_concat: "list_all (is_seq p) vs \<Longrightarrow> list_all p (concat (map elements vs))"
  by (induction vs) (simp_all add: is_seqD(2))

lemma table_round_trip:
  assumes "is_table v"
  shows "\<exists>pb. convert2DimensionDoubleVectorToPB v fresh = Some pb \<and> pbConvertTo2DimensionDoubleVector pb [] = Some (elements v)"
proof -
  define rows where "rows = map elements (elements v)"
  define c where "c = (if rows = [] then 0 else length (last rows))"
  have shape: "is_seq (is_seq (is_scalar Double (\<lambda>i. i))) v"
    and even: "\<forall>r \<in> set rows. length r = c" and small: "length rows < 2 ^ 32" "c < 2 ^ 32" "length (concat rows) < 2 ^ 32"
    using assms unfolding is_table_def Let_def rows_def c_def by blast+
  have lines: "list_all (is_seq (is_scalar Double (\<lambda>i. i))) (elements v)" by (rule is_seqD(2) [OF shape])
  have seqs: "r = Seq (elements r)" if "r \<in> set (elements v)" for r
    by (rule is_seqD(1) [of "is_scalar Double (\<lambda>i. i)"]) (use lines that in \<open>simp only: list_all_iff\<close>)
  have nums: "list_all (is_scalar Double (\<lambda>i. i)) (concat rows)" unfolding rows_def by (rule is_seq_concat [OF lines])
  have "list_all (\<lambda>w. number Double w = Some w) (concat rows)"
    using nums by (rule list.pred_mono_strong) (simp only: number_def is_scalar_def)
  then have sent_values: "all_some (map (number Double) (concat rows)) = Some (concat rows)" by (rule all_some_same)
  let ?pb = "fresh(''row'' := Num (int (length rows)), ''value'' := Seq (concat rows), ''column'' := Num (int c))"
  have "(if rows = [] then 0 else int (length (last rows))) = int c" by (simp add: c_def)
  then have "convert2DimensionDoubleVectorToPB v fresh = Some ?pb"
    using fit_nat [OF small(1)] fit_nat [OF small(2)] sent_values
    unfolding convert2DimensionDoubleVectorToPB_def Let_def rows_def [symmetric]
    by (simp add: set_to_def add_def fresh_def del: fit.simps)
  moreover have "pbConvertTo2DimensionDoubleVector ?pb [] = Some (elements v)"
  proof -
    have pb: "nat (num (?pb ''row'')) = length rows" "nat (num (?pb ''column'')) = c" "elements (?pb ''value'') = concat rows" by simp_all
    have len: "length (concat rows) = length rows * c" by (rule length_concat_even [OF even])
    let ?cell = "\<lambda>k. if k < length (concat rows) then Some (Num (num (concat rows ! k))) else None"
    have cell: "?cell ((i * c + j) mod 2 ^ 32) = Some (rows ! i ! j)" if "i < length rows" "j < c" for i j
    proof -
      have b: "i * c + j < length (concat rows)" using index_below [OF that] len by simp
      then have "(i * c + j) mod 2 ^ 32 = i * c + j" using small(3) by (intro mod_less) simp
      moreover have "Num (num (concat rows ! (i * c + j))) = concat rows ! (i * c + j)"
        using nums b by (simp add: list_all_length is_scalar_def)
      ultimately show ?thesis using b nth_concat_even [OF even that] by simp
    qed
    have line: "all_some (map (\<lambda>j. ?cell ((i * c + j) mod 2 ^ 32)) [0..<c]) = Some (rows ! i)" if "i < length rows" for i
    proof -
      have "all_some (map (\<lambda>j. ?cell ((i * c + j) mod 2 ^ 32)) [0..<c]) = Some (map (\<lambda>j. rows ! i ! j) [0..<c])"
        by (rule all_some_map) (use cell [OF that] in auto)
      also have "map (\<lambda>j. rows ! i ! j) [0..<c] = rows ! i" using even that by (metis map_nth nth_mem)
      finally show ?thesis .
    qed
    have "all_some (map (\<lambda>i. map_option Seq (all_some (map (\<lambda>j. ?cell ((i * c + j) mod 2 ^ 32)) [0..<c]))) [0..<length rows])
        = Some (map (\<lambda>i. Seq (rows ! i)) [0..<length rows])"
      by (rule all_some_map) (use line in auto)
    also have "map (\<lambda>i. Seq (rows ! i)) [0..<length rows] = elements v"
      using seqs by (intro nth_equalityI) (simp_all add: rows_def seqs [symmetric])
    finally show ?thesis
      unfolding pbConvertTo2DimensionDoubleVector_def Let_def pb by (simp only: option.map append_Nil)
  qed
  ultimately show ?thesis by blast
qed

lemma table_sent:
  assumes "is_table v"
  obtains pb where "convert2DimensionDoubleVectorToPB v fresh = Some pb"
    and "pbConvertTo2DimensionDoubleVector pb [] = Some (elements v)"
  using table_round_trip [OF assms] by blast

lemma settles_table:
  assumes "(m, is_table) \<in> set S"
  shows "settles (shaped S Q) f (\<lambda>s d. map_option Obj (convert2DimensionDoubleVectorToPB (s m) (obj (d f))))"
  unfolding settles_def
proof (intro allI impI)
  fix x assume x: "shaped S Q x"
  obtain pb where "convert2DimensionDoubleVectorToPB (x m) fresh = Some pb" by (rule table_sent [OF shapedD [OF x assms]])
  then show "\<exists>v. \<forall>d. d f = Unset \<longrightarrow> map_option Obj (convert2DimensionDoubleVectorToPB (x m) (obj (d f))) = Some v" by simp
qed

lemma restores_table:
  assumes "(m, is_table) \<in> set S" and "(f, \<lambda>s d. map_option Obj (convert2DimensionDoubleVectorToPB (s m) (obj (d f)))) \<in> set E"
  shows "restores (shaped S Q) E before m (\<lambda>s d. map_option Seq (pbConvertTo2DimensionDoubleVector (obj (s f)) (elements (d m))))"
  unfolding restores_def
proof (intro allI impI)
  fix x pb y assume x: "shaped S Q x" and pb: "sent E x pb" and y: "y m = Unset"
  have t: "is_table (x m)" by (rule shapedD [OF x assms(1)])
  obtain g where g: "convert2DimensionDoubleVectorToPB (x m) fresh = Some g" "pbConvertTo2DimensionDoubleVector g [] = Some (elements (x m))"
    by (rule table_sent [OF t])
  have "map_option Obj (convert2DimensionDoubleVectorToPB (x m) fresh) = Some (pb f)" using pb assms(2) by (auto simp: sent_def fresh_def)
  then have "pb f = Obj g" using g(1) by simp
  moreover have "x m = Seq (elements (x m))" using t unfolding is_table_def by (blast dest: is_seqD(1))
  ultimately show "map_option Seq (pbConvertTo2DimensionDoubleVector (obj (pb f)) (elements (y m))) = Some (x m)" using g(2) y by simp
qed

definition ok_GnssAntennaInformation :: "hal_values \<Rightarrow> member_types \<Rightarrow> struct \<Rightarrow> bool" where
  "ok_GnssAntennaInformation hal ty = shaped
     [(''size'', equals (hal ''sizeof(GnssAntennaInformation)'')),
      (''carrierFrequencyMHz'', is_scalar Double (ty ''GnssAntennaInformation.carrierFrequencyMHz'')),
      (''phaseCenterOffsetCoordinateMillimeters'', is_obj (ok_GnssCoordinate hal ty)),
      (''phaseCenterVariationCorrectionMillimeters'', is_table),
      (''phaseCenterVariationCorrectionUncertaintyMillimeters'', is_table),
      (''signalGainCorrectionDbi'', is_table),
      (''signalGainCorrectionUncertaintyDbi'', is_table)] []"

lemma GnssAntennaInformation_round_trips [trips]:
  "round_trips (ok_GnssAntennaInformation hal ty) (convertGnssAntennaInformationToPB hal) (pbConvertToGnssAntennaInformaiton hal ty)"
  unfolding convertGnssAntennaInformationToPB_def pbConvertToGnssAntennaInformaiton_def ok_GnssAntennaInformation_def
  by (rule assign_round_trips, (rule settles_table restores_table matching trips)+, (simp only: list.map fst_conv, code_simp)+,
      simp only: list.map fst_conv)

definition ok_AntennaInformation :: "hal_values \<Rightarrow> member_types \<Rightarrow> struct \<Rightarrow> bool" where
  "ok_AntennaInformation hal ty = shaped [(''antennaInfos'', is_seq (is_obj (ok_GnssAntennaInformation hal ty)))] []"

lemma AntennaInformation_round_trips:
  "round_trips (ok_AntennaInformation hal ty) (convertAntennaInfoToPB hal) (pbConvertToAntennaInfo hal ty)"
  unfolding convertAntennaInfoToPB_def pbConvertToAntennaInfo_def ok_AntennaInformation_def
  by (rule assign_round_trips, (rule matching trips)+, (simp only: list.map fst_conv, code_simp)+, simp only: list.map fst_conv)

end
