(* ===== verification/PbClaims.thy ===== *)
theory PbClaims
  imports PbPosition PbRoundTrip
begin

text \<open>
  What holds of the conversions of structures as a whole: the position report arrives as it was sent, and
  the ways in which structures do not.
\<close>

section \<open>Structures given by their members\<close>

definition of_rows :: "(string \<times> cval) list \<Rightarrow> struct" where
  "of_rows rows m = (case map_of rows m of None \<Rightarrow> Unset | Some v \<Rightarrow> v)"

lemma of_rows_first: "of_rows ((m, v) # rows) m = v"
  by (simp add: of_rows_def)

named_theorems holds \<open>rules for members of a given structure\<close>

lemma shaped_of_rows:
  assumes "list_all2 (\<lambda>mp nv. fst mp = fst nv \<and> snd mp (snd nv)) S rows" and "distinct (map fst rows)"
    and "list_all (\<lambda>q. q (of_rows rows)) Q"
  shows "shaped S Q (of_rows rows)"
proof -
  have names: "map fst S = map fst rows" using assms(1) by (induction rule: list_all2_induct) simp_all
  have "p (of_rows rows m)" if mp: "(m, p) \<in> set S" for m p
  proof -
    obtain i where i: "i < length S" "S ! i = (m, p)" using mp unfolding in_set_conv_nth by blast
    then have "i < length rows" "fst (rows ! i) = m" "p (snd (rows ! i))"
      using list_all2_nthD [OF assms(1) i(1)] list_all2_lengthD [OF assms(1)] by simp_all
    then have v: "(m, snd (rows ! i)) \<in> set rows" "p (snd (rows ! i))" by (metis nth_mem prod.collapse, simp)
    from map_of_is_SomeI [OF assms(2) v(1)] v(2) show ?thesis by (simp add: of_rows_def)
  qed
  moreover have "of_rows rows m = Unset" if "m \<notin> fst ` set S" for m
  proof -
    have "m \<notin> set (map fst rows)" using that names by (metis list.set_map)
    then have "m \<notin> fst ` set rows" by simp
    then have "map_of rows m = None" by (simp only: map_of_eq_None_iff not_False_eq_True)
    then show ?thesis by (simp add: of_rows_def)
  qed
  ultimately show ?thesis using assms(3) by (auto simp: shaped_def list_all_iff)
qed

lemma holds_nil [holds]: "list_all2 (\<lambda>mp nv. fst mp = fst nv \<and> snd mp (snd nv)) [] []" by simp
lemma holds_cons [holds]:
  "p v \<Longrightarrow> list_all2 (\<lambda>mp nv. fst mp = fst nv \<and> snd mp (snd nv)) S rows \<Longrightarrow>
   list_all2 (\<lambda>mp nv. fst mp = fst nv \<and> snd mp (snd nv)) ((m, p) # S) ((m, v) # rows)" by simp
lemma holds_scalar [holds]: "fit k i = i \<Longrightarrow> c i = i \<Longrightarrow> is_scalar k c (Num i)" by (simp add: is_scalar_def)
lemma holds_one_of [holds]: "i \<in> set vs \<Longrightarrow> is_one_of vs (Num i)" by (simp add: is_one_of_def)
lemma holds_flags32 [holds]: "uint (word_of_int i :: 32 word) = i \<Longrightarrow> made_of fs (word_of_int i :: 32 word) \<Longrightarrow> is_flags32 fs (Num i)"
  by (simp add: is_flags32_def)
lemma holds_flags64 [holds]: "uint (word_of_int i :: 64 word) = i \<Longrightarrow> made_of fs (word_of_int i :: 64 word) \<Longrightarrow> is_flags64 fs (Num i)"
  by (simp add: is_flags64_def)
lemma holds_calibration [holds]: "is_flags32 (known_DrCalibrationStatus hal) (Num i) \<Longrightarrow>
    list_all (\<lambda>c. word_of_int i AND (word_of_int c :: 32 word) = 0) (lost_DrCalibrationStatus hal) \<Longrightarrow> is_calibration hal (Num i)"
  by (simp add: is_calibration_def)
lemma holds_obj [holds]: "P x \<Longrightarrow> is_obj P (Obj x)" by (simp add: is_obj_def)
lemma holds_seq [holds]: "list_all p vs \<Longrightarrow> is_seq p (Seq vs)" by (simp add: is_seq_def)
lemma holds_any [holds]: "any_value v" by (simp add: any_value_def)
lemma holds_equals [holds]: "i = j \<Longrightarrow> equals i (Num j)" by (simp add: equals_def)
lemma holds_all_nil [holds]: "list_all p []" by simp
lemma holds_all_cons [holds]: "p v \<Longrightarrow> list_all p vs \<Longrightarrow> list_all p (v # vs)" by simp

definition demo_header :: hal_values where
  "demo_header = demo_hal
     [(''sizeof(Location)'', 112), (''LOCATION_HAS_LAT_LONG_BIT'', 1), (''GNSS_LOC_SV_SYSTEM_GPS'', 1),
      (''DR_ROLL_CALIBRATION_NEEDED'', 2), (''DR_TURN_CALIBRATION_HIGH'', 128),
      (''LOCATION_NAV_DATA_HAS_LONG_ACCEL_BIT'', 1), (''LOCATION_NAV_DATA_HAS_PITCH_RATE_BIT'', 1),
      (''LDT_GNSS_LOCATION_INFO_ALTITUDE_MEAN_SEA_LEVEL_BIT'', 1), (''LDT_GNSS_LOCATION_INFO_EXTENDED_DATA_BIT'', 2 ^ 41),
      (''GNSS_SV_MAX'', 176), (''lengthof(GnssLocationInfoNotification.measUsageInfo)'', 176),
      (''lengthof(GnssLocationInfoNotification.dgnssStationId)'', 3), (''DGNSS_STATION_ID_MAX'', 3),
      (''sizeof(GnssLocationInfoNotification.extendedData)'', 1024)]"

definition demo_types :: member_types where
  "demo_types m i = i"

definition demo_Location :: struct where
  "demo_Location = of_rows
     [(''size'', Num 112),
      (''flags'', Num 1),
      (''timestamp'', Num 4),
      (''latitude'', Num 5),
      (''longitude'', Num 6),
      (''altitude'', Num 7),
      (''speed'', Num 8),
      (''bearing'', Num 9),
      (''accuracy'', Num 10),
      (''verticalAccuracy'', Num 11),
      (''speedAccuracy'', Num 12),
      (''bearingAccuracy'', Num 13),
      (''techMask'', Num 0),
      (''elapsedRealTime'', Num 14),
      (''elapsedRealTimeUnc'', Num 15),
      (''timeUncMs'', Num 16),
      (''elapsedgPTPTime'', Num 17),
      (''elapsedgPTPTimeUnc'', Num 18),
      (''sessionStatus'', Num 0)]"

lemma demo_Location_ok [holds]: "ok_Location demo_header demo_types demo_Location"
  unfolding ok_Location_def demo_Location_def
  by (rule shaped_of_rows, (rule holds | code_simp)+)

definition demo_GnssLocationSvUsedInPosition :: struct where
  "demo_GnssLocationSvUsedInPosition = of_rows
     [(''gpsSvUsedIdsMask'', Num 19),
      (''gloSvUsedIdsMask'', Num 20),
      (''galSvUsedIdsMask'', Num 21),
      (''bdsSvUsedIdsMask'', Num 22),
      (''qzssSvUsedIdsMask'', Num 23),
      (''navicSvUsedIdsMask'', Num 24)]"

lemma demo_GnssLocationSvUsedInPosition_ok [holds]: "ok_GnssLocationSvUsedInPosition demo_header demo_types demo_GnssLocationSvUsedInPosition"
  unfolding ok_GnssLocationSvUsedInPosition_def demo_GnssLocationSvUsedInPosition_def
  by (rule shaped_of_rows, (rule holds | code_simp)+)

definition demo_LLAInfo :: struct where
  "demo_LLAInfo = of_rows
     [(''latitude'', Num 25),
      (''longitude'', Num 26),
      (''altitude'', Num 27)]"

lemma demo_LLAInfo_ok [holds]: "ok_LLAInfo demo_header demo_types demo_LLAInfo"
  unfolding ok_LLAInfo_def demo_LLAInfo_def
  by (rule shaped_of_rows, (rule holds | code_simp)+)

definition demo_GnssSystemTimeStructType :: struct where
  "demo_GnssSystemTimeStructType = of_rows
     [(''validityMask'', Num 0),
      (''systemWeek'', Num 28),
      (''systemMsec'', Num 29),
      (''systemClkTimeBias'', Num 30),
      (''systemClkTimeUncMs'', Num 31),
      (''refFCount'', Num 32),
      (''numClockResets'', Num 33)]"

lemma demo_GnssSystemTimeStructType_ok [holds]: "ok_GnssSystemTimeStructType demo_header demo_types demo_GnssSystemTimeStructType"
  unfolding ok_GnssSystemTimeStructType_def demo_GnssSystemTimeStructType_def
  by (rule shaped_of_rows, (rule holds | code_simp)+)

definition demo_GnssMeasUsageInfo :: struct where
  "demo_GnssMeasUsageInfo = of_rows
     [(''gnssConstellation'', Num 1),
      (''gnssSvId'', Num 34),
      (''gnssSignalType'', Num 0)]"

lemma demo_GnssMeasUsageInfo_ok [holds]: "ok_GnssMeasUsageInfo demo_header demo_types demo_GnssMeasUsageInfo"
  unfolding ok_GnssMeasUsageInfo_def demo_GnssMeasUsageInfo_def
  by (rule shaped_of_rows, (rule holds | code_simp)+)

definition demo_GnssSystemTime :: struct where
  "demo_GnssSystemTime = of_rows [(''gnssSystemTimeSrc'', Num 1), (''u'', Obj (of_rows [(''gpsSystemTime'', Obj demo_GnssSystemTimeStructType)]))]"

lemma demo_GnssSystemTime_ok [holds]: "ok_GnssSystemTime demo_header demo_types demo_GnssSystemTime"
proof -
  have "of_rows [(''gpsSystemTime'', Obj g)] = fresh(''gpsSystemTime'' := Obj g)" for g
    by (rule ext) (simp add: of_rows_def fresh_def)
  then have "holds_only ''gpsSystemTime'' (ok_GnssSystemTimeStructType demo_header demo_types)
      (of_rows [(''gpsSystemTime'', Obj demo_GnssSystemTimeStructType)])"
    unfolding holds_only_def of_rows_first obj.simps by (simp add: demo_GnssSystemTimeStructType_ok)
  moreover have "demo_header ''GNSS_LOC_SV_SYSTEM_GPS'' = 1" by code_simp
  ultimately have "ok_SystemTimeStructUnion demo_header demo_types 1 (of_rows [(''gpsSystemTime'', Obj demo_GnssSystemTimeStructType)])"
    by (simp add: ok_SystemTimeStructUnion_def)
  then have "chosen ''gnssSystemTimeSrc'' ''u'' (ok_SystemTimeStructUnion demo_header demo_types) demo_GnssSystemTime"
    by (simp add: chosen_def demo_GnssSystemTime_def of_rows_def is_obj_def)
  note chosen = this [unfolded demo_GnssSystemTime_def]
  show ?thesis unfolding ok_GnssSystemTime_def demo_GnssSystemTime_def
    by (rule shaped_of_rows, (rule holds chosen | code_simp)+)
qed

definition demo_dynamics :: struct where
  "demo_dynamics = of_rows
     [(''bodyFrameDataMask'', Num 1),
      (''longAccel'', Num 35),
      (''latAccel'', Num 36),
      (''vertAccel'', Num 37),
      (''longAccelUnc'', Num 38),
      (''latAccelUnc'', Num 39),
      (''vertAccelUnc'', Num 40),
      (''pitch'', Num 41),
      (''pitchUnc'', Num 42),
      (''yawRate'', Num 43),
      (''yawRateUnc'', Num 44)]"

definition demo_dynamics_ext :: struct where
  "demo_dynamics_ext = of_rows
     [(''bodyFrameDataMask'', Num 1),
      (''pitchRate'', Num 45),
      (''pitchRateUnc'', Num 46),
      (''roll'', Num 47),
      (''rollUnc'', Num 48),
      (''rollRate'', Num 49),
      (''rollRateUnc'', Num 50),
      (''yaw'', Num 51),
      (''yawUnc'', Num 52)]"

lemma demo_dynamics_ok: "ok_dynamics demo_header demo_types demo_dynamics"
  unfolding ok_dynamics_def demo_dynamics_def
  by (rule shaped_of_rows, (rule holds | code_simp)+)

lemma demo_dynamics_ext_ok: "ok_dynamics_ext demo_header demo_types demo_dynamics_ext"
  unfolding ok_dynamics_ext_def demo_dynamics_ext_def
  by (rule shaped_of_rows, (rule holds | code_simp)+)

definition demo_GnssLocationInfoNotification :: struct where
  "demo_GnssLocationInfoNotification = of_rows
     [(''location'', Obj demo_Location),
      (''flags'', Num (1 + 2 ^ 41)),
      (''altitudeMeanSeaLevel'', Num 53),
      (''pdop'', Num 54),
      (''hdop'', Num 55),
      (''vdop'', Num 56),
      (''gdop'', Num 57),
      (''tdop'', Num 58),
      (''magneticDeviation'', Num 59),
      (''horReliability'', Num 0),
      (''verReliability'', Num 0),
      (''horUncEllipseSemiMajor'', Num 60),
      (''horUncEllipseSemiMinor'', Num 61),
      (''horUncEllipseOrientAzimuth'', Num 62),
      (''northStdDeviation'', Num 63),
      (''eastStdDeviation'', Num 64),
      (''northVelocity'', Num 65),
      (''eastVelocity'', Num 66),
      (''upVelocity'', Num 67),
      (''northVelocityStdDeviation'', Num 68),
      (''eastVelocityStdDeviation'', Num 69),
      (''upVelocityStdDeviation'', Num 70),
      (''numSvUsedInPosition'', Num 71),
      (''svUsedInPosition'', Obj demo_GnssLocationSvUsedInPosition),
      (''navSolutionMask'', Num 0),
      (''bodyFrameData'', Obj demo_dynamics),
      (''bodyFrameDataExt'', Obj demo_dynamics_ext),
      (''gnssSystemTime'', Obj demo_GnssSystemTime),
      (''numOfMeasReceived'', Num 1),
      (''measUsageInfo'', Seq [Obj demo_GnssMeasUsageInfo]),
      (''leapSeconds'', Num 72),
      (''calibrationConfidence'', Num 73),
      (''calibrationStatus'', Num 2),
      (''locOutputEngType'', Num 0),
      (''locOutputEngMask'', Num 0),
      (''conformityIndex'', Num 74),
      (''llaVRPBased'', Obj demo_LLAInfo),
      (''enuVelocityVRPBased'', Seq [Num 1, Num 2, Num 3]),
      (''drSolutionStatusMask'', Num 0),
      (''altitudeAssumed'', Num 1),
      (''sessionStatus'', Num 0),
      (''integrityRiskUsed'', Num 75),
      (''protectAlongTrack'', Num 76),
      (''protectCrossTrack'', Num 77),
      (''protectVertical'', Num 78),
      (''dgnssStationId'', Seq [Num 1023, Num 7]),
      (''numOfDgnssStationId'', Num 2),
      (''baseLineLength'', Num 79),
      (''ageMsecOfCorrections'', Num 80),
      (''leapSecondsUnc'', Num 81),
      (''posReportingInterval'', Num 82),
      (''extendedDataLen'', Num 3),
      (''extendedData'', Str ''abc'')]"

section \<open>The position report\<close>

lemma of_rows_member: "distinct (map fst rows) \<Longrightarrow> (m, v) \<in> set rows \<Longrightarrow> of_rows rows m = v"
  by (simp add: of_rows_def map_of_is_SomeI)

lemma demo_position_names: "distinct (map fst
     [(''location'', Obj demo_Location),
      (''flags'', Num (1 + 2 ^ 41)),
      (''altitudeMeanSeaLevel'', Num 53),
      (''pdop'', Num 54),
      (''hdop'', Num 55),
      (''vdop'', Num 56),
      (''gdop'', Num 57),
      (''tdop'', Num 58),
      (''magneticDeviation'', Num 59),
      (''horReliability'', Num 0),
      (''verReliability'', Num 0),
      (''horUncEllipseSemiMajor'', Num 60),
      (''horUncEllipseSemiMinor'', Num 61),
      (''horUncEllipseOrientAzimuth'', Num 62),
      (''northStdDeviation'', Num 63),
      (''eastStdDeviation'', Num 64),
      (''northVelocity'', Num 65),
      (''eastVelocity'', Num 66),
      (''upVelocity'', Num 67),
      (''northVelocityStdDeviation'', Num 68),
      (''eastVelocityStdDeviation'', Num 69),
      (''upVelocityStdDeviation'', Num 70),
      (''numSvUsedInPosition'', Num 71),
      (''svUsedInPosition'', Obj demo_GnssLocationSvUsedInPosition),
      (''navSolutionMask'', Num 0),
      (''bodyFrameData'', Obj demo_dynamics),
      (''bodyFrameDataExt'', Obj demo_dynamics_ext),
      (''gnssSystemTime'', Obj demo_GnssSystemTime),
      (''numOfMeasReceived'', Num 1),
      (''measUsageInfo'', Seq [Obj demo_GnssMeasUsageInfo]),
      (''leapSeconds'', Num 72),
      (''calibrationConfidence'', Num 73),
      (''calibrationStatus'', Num 2),
      (''locOutputEngType'', Num 0),
      (''locOutputEngMask'', Num 0),
      (''conformityIndex'', Num 74),
      (''llaVRPBased'', Obj demo_LLAInfo),
      (''enuVelocityVRPBased'', Seq [Num 1, Num 2, Num 3]),
      (''drSolutionStatusMask'', Num 0),
      (''altitudeAssumed'', Num 1),
      (''sessionStatus'', Num 0),
      (''integrityRiskUsed'', Num 75),
      (''protectAlongTrack'', Num 76),
      (''protectCrossTrack'', Num 77),
      (''protectVertical'', Num 78),
      (''dgnssStationId'', Seq [Num 1023, Num 7]),
      (''numOfDgnssStationId'', Num 2),
      (''baseLineLength'', Num 79),
      (''ageMsecOfCorrections'', Num 80),
      (''leapSecondsUnc'', Num 81),
      (''posReportingInterval'', Num 82),
      (''extendedDataLen'', Num 3),
      (''extendedData'', Str ''abc'')])"
  by (simp only: list.map fst_conv, code_simp)

lemma demo_position_members:
  "demo_GnssLocationInfoNotification ''flags'' = Num (1 + 2 ^ 41)"
  "demo_GnssLocationInfoNotification ''bodyFrameData'' = Obj demo_dynamics"
  "demo_GnssLocationInfoNotification ''bodyFrameDataExt'' = Obj demo_dynamics_ext"
  "demo_GnssLocationInfoNotification ''numOfMeasReceived'' = Num 1"
  "demo_GnssLocationInfoNotification ''measUsageInfo'' = Seq [Obj demo_GnssMeasUsageInfo]"
  "demo_GnssLocationInfoNotification ''enuVelocityVRPBased'' = Seq [Num 1, Num 2, Num 3]"
  "demo_GnssLocationInfoNotification ''dgnssStationId'' = Seq [Num 1023, Num 7]"
  "demo_GnssLocationInfoNotification ''numOfDgnssStationId'' = Num 2"
  "demo_GnssLocationInfoNotification ''extendedDataLen'' = Num 3"
  "demo_GnssLocationInfoNotification ''extendedData'' = Str ''abc''"
  unfolding demo_GnssLocationInfoNotification_def
  by (rule of_rows_member, rule demo_position_names, (rule list.set_intros)+)+

lemma demo_header_values:
  "demo_header ''LDT_GNSS_LOCATION_INFO_EXTENDED_DATA_BIT'' = 2 ^ 41" "demo_header ''GNSS_SV_MAX'' = 176"
  "demo_header ''lengthof(GnssLocationInfoNotification.measUsageInfo)'' = 176"
  "demo_header ''lengthof(GnssLocationInfoNotification.dgnssStationId)'' = 3"
  "demo_header ''DGNSS_STATION_ID_MAX'' = 3" "demo_header ''sizeof(GnssLocationInfoNotification.extendedData)'' = 1024"
  by code_simp+

lemma demo_position_flags: "location_flags demo_header demo_GnssLocationInfoNotification"
  unfolding location_flags_def demo_position_members num.simps by (rule holds | code_simp)+

lemma demo_position_dynamics: "location_dynamics demo_header demo_types demo_GnssLocationInfoNotification"
  unfolding location_dynamics_def demo_position_members obj.simps
  by (intro conjI holds_obj demo_dynamics_ok demo_dynamics_ext_ok)

lemma demo_position_counts:
  "measurement_count demo_header demo_types demo_GnssLocationInfoNotification"
  "filled (\<lambda>s. num (s ''numOfMeasReceived'') mod 2 ^ 8) ''measUsageInfo'' (is_obj (ok_GnssMeasUsageInfo demo_header demo_types))
     (demo_header ''lengthof(GnssLocationInfoNotification.measUsageInfo)'') demo_GnssLocationInfoNotification"
  "filled (\<lambda>s. 3) ''enuVelocityVRPBased'' (is_scalar Float (demo_types ''GnssLocationInfoNotification.enuVelocityVRPBased[]'')) 3
     demo_GnssLocationInfoNotification"
  "station_count demo_header demo_types demo_GnssLocationInfoNotification"
  "filled (\<lambda>s. num (s ''numOfDgnssStationId'')) ''dgnssStationId'' (is_scalar UInt32 (\<lambda>i. i mod 2 ^ 16))
     (demo_header ''lengthof(GnssLocationInfoNotification.dgnssStationId)'') demo_GnssLocationInfoNotification"
  by (simp_all add: measurement_count_def station_count_def filled_def demo_position_members demo_header_values demo_types_def
      is_seq_def is_scalar_def is_obj_def demo_GnssMeasUsageInfo_ok Let_def)

lemma demo_position_extended: "extended_data demo_header demo_types demo_GnssLocationInfoNotification"
  by (simp add: extended_data_def demo_position_members demo_header_values flag_set_def demo_types_def)

lemma demo_position_ok: "ok_GnssLocationInfoNotification demo_header demo_types demo_GnssLocationInfoNotification"
  unfolding ok_GnssLocationInfoNotification_def
proof (subst demo_GnssLocationInfoNotification_def, rule shaped_of_rows, goal_cases)
  case 1
  show ?case by (rule holds | code_simp)+
next
  case 2
  show ?case by (rule demo_position_names)
next
  case 3
  show ?case unfolding demo_GnssLocationInfoNotification_def [symmetric]
    by (intro holds_all_cons holds_all_nil demo_position_flags demo_position_dynamics demo_position_counts demo_position_extended)
qed



section \<open>Messages from a peer\<close>

lemma assign_None:
  assumes "(m, r) \<in> set rows" and "\<And>d. r s d = None"
  shows "assign rows s d = None"
  using assms(1)
proof (induction rows arbitrary: d)
  case (Cons nr rows)
  then show ?case by (cases nr) (auto simp: assms(2) split: option.split)
qed simp

lemma assign_overrun:
  assumes "(m, fill cap m conv (all_of f)) \<in> set rows" and "cap < int (length (elements (s f)))"
  shows "assign rows s d = None"
  by (rule assign_None [OF assms(1)]) (use assms(2) in \<open>simp add: fill_def all_of_def\<close>)

text \<open>The repeated fields that are written to arrays of a fixed size.\<close>

definition peer_arrays :: "hal_values \<Rightarrow> member_types \<Rightarrow> (string \<times> int \<times> (struct \<Rightarrow> struct \<Rightarrow> struct option)) list" where
  "peer_arrays hal ty =
     [(''gfpayload'', MAX_GEOFENCE_ENTRY, pbConvertToGfAddReqPayload hal ty),
      (''measurements'', hal ''lengthof(GnssMeasurementsNotification.measurements)'', pbConvertToGnssMeasNotification hal ty),
      (''xtraserverurls'', hal ''lengthof(XtraConfigParams.xtraServerURLs)'', pbConvertToXtraConfig hal ty),
      (''ntpserverurls'', hal ''lengthof(XtraConfigParams.ntpServerURLs)'', pbConvertToXtraConfig hal ty)]"

text \<open>C35: the number of elements that a peer puts into a message is not checked against the array they are
  converted into: with more geofences than \<open>MAX_GEOFENCE_ENTRY\<close>, more measurements or more server names than
  there is room for, the decoder writes behind the array.\<close>

theorem peer_overruns_arrays:
  assumes "(f, cap, dec) \<in> set (peer_arrays hal ty)" and "cap < int (length (elements (pb f)))"
  shows "dec pb d = None"
  using assms(1) unfolding peer_arrays_def list.set insert_iff empty_iff prod.inject simp_thms
proof (elim disjE conjE)
  assume f: "f = ''gfpayload''" "cap = MAX_GEOFENCE_ENTRY" and dec: "dec = pbConvertToGfAddReqPayload hal ty"
  show ?thesis unfolding dec pbConvertToGfAddReqPayload_def
    by (rule assign_overrun [where f = f and cap = cap and s = pb, OF _ assms(2)], unfold f, (rule list.set_intros)+)
next
  assume f: "f = ''measurements''" "cap = hal ''lengthof(GnssMeasurementsNotification.measurements)''"
    and dec: "dec = pbConvertToGnssMeasNotification hal ty"
  show ?thesis unfolding dec pbConvertToGnssMeasNotification_def
    by (rule assign_overrun [where f = f and cap = cap and s = pb, OF _ assms(2)], unfold f, (rule list.set_intros)+)
next
  assume f: "f = ''xtraserverurls''" "cap = hal ''lengthof(XtraConfigParams.xtraServerURLs)''" and dec: "dec = pbConvertToXtraConfig hal ty"
  show ?thesis unfolding dec pbConvertToXtraConfig_def
    by (rule assign_overrun [where f = f and cap = cap and s = pb, OF _ assms(2)], unfold f, (rule list.set_intros)+)
next
  assume f: "f = ''ntpserverurls''" "cap = hal ''lengthof(XtraConfigParams.ntpServerURLs)''" and dec: "dec = pbConvertToXtraConfig hal ty"
  show ?thesis unfolding dec pbConvertToXtraConfig_def
    by (rule assign_overrun [where f = f and cap = cap and s = pb, OF _ assms(2)], unfold f, (rule list.set_intros)+)
qed

theorem peer_overruns_arrays_witness:
  "pbConvertToGfAddReqPayload demo_header demo_types (fresh(''gfpayload'' := Seq (replicate 21 (Obj fresh)))) fresh = None"
  by (rule peer_overruns_arrays [where f = "''gfpayload''" and cap = MAX_GEOFENCE_ENTRY and hal = demo_header and ty = demo_types])
    (simp_all add: peer_arrays_def MAX_GEOFENCE_ENTRY_def)

text \<open>Members the decoder does not assign, or assigns to a copy.\<close>

lemma assign_keeps:
  assumes "assign rows s d = Some y" and "\<And>r e v. (m, r) \<in> set rows \<Longrightarrow> r s e = Some v \<Longrightarrow> v = e m"
  shows "y m = d m"
  using assms
proof (induction rows arbitrary: d)
  case (Cons nr rows)
  obtain n r where nr: "nr = (n, r)" by (cases nr)
  obtain v where v: "r s d = Some v" "assign rows s (d(n := v)) = Some y"
    using Cons.prems(1) nr by (auto split: option.splits)
  have "y m = (d(n := v)) m" by (rule Cons.IH [OF v(2)]) (use Cons.prems(2) in auto)
  moreover have "v = d m" if "n = m" using Cons.prems(2) [of r d v] v(1) that nr by simp
  ultimately show ?case by simp
qed simp

text \<open>C36: two reports lose what was sent: the time in a debug report is decoded into a copy that is dropped, and
  the status of the gain control of the three bands in a data notification is sent, but never decoded.\<close>

theorem reports_lose_members:
  "(\<forall>y. pbConvertToGnssDebugReport hal ty pb fresh = Some y \<longrightarrow> y ''mTime'' = Unset) \<and>
   (\<forall>y. pbConvertToGnssDataNotification hal ty pb fresh = Some y \<longrightarrow>
      y ''agcStatusL1'' = Unset \<and> y ''agcStatusL2'' = Unset \<and> y ''agcStatusL5'' = Unset)"
proof (intro conjI allI impI)
  fix y assume "pbConvertToGnssDebugReport hal ty pb fresh = Some y"
  from assign_keeps [OF this [unfolded pbConvertToGnssDebugReport_def], of "''mTime''"]
  show "y ''mTime'' = Unset" by (auto simp: by_value_def fresh_def)
next
  fix y assume y: "pbConvertToGnssDataNotification hal ty pb fresh = Some y"
  note keeps = assign_keeps [OF y [unfolded pbConvertToGnssDataNotification_def]]
  show "y ''agcStatusL1'' = Unset" using keeps [of "''agcStatusL1''"] by (simp add: fresh_def)
  show "y ''agcStatusL2'' = Unset" using keeps [of "''agcStatusL2''"] by (simp add: fresh_def)
  show "y ''agcStatusL5'' = Unset" using keeps [of "''agcStatusL5''"] by (simp add: fresh_def)
qed

theorem reports_lose_members_witness:
  "\<exists>y. pbConvertToGnssDebugReport demo_header demo_types (fresh(''time'' := Obj (fresh(''valid'' := Num 1, ''timeestimate'' := Num 7)))) fresh = Some y \<and>
     y ''mTime'' = Unset"
proof -
  let ?pb = "fresh(''time'' := Obj (fresh(''valid'' := Num 1, ''timeestimate'' := Num 7)))"
  have "\<not> Option.is_none (pbConvertToGnssDebugReport demo_header demo_types ?pb fresh)" by code_simp
  then obtain y where "pbConvertToGnssDebugReport demo_header demo_types ?pb fresh = Some y" by (auto simp: Option.is_none_def)
  with reports_lose_members [of demo_header demo_types ?pb] show ?thesis by blast
qed

section \<open>Tables of corrections\<close>

lemma all_some_nth: "all_some xs = Some ys \<Longrightarrow> y \<in> set ys \<Longrightarrow> Some y \<in> set xs"
  by (induction xs arbitrary: ys rule: all_some.induct) auto

lemma all_some_length: "all_some xs = Some ys \<Longrightarrow> length ys = length xs"
  by (induction xs arbitrary: ys rule: all_some.induct) auto

lemma table_columns:
  assumes "pbConvertTo2DimensionDoubleVector pb [] = Some rs" and "r \<in> set rs"
  shows "length (elements r) = nat (num (pb ''column''))"
proof -
  obtain i where "Some r = map_option Seq (all_some (map (\<lambda>j.
      let k = (i * nat (num (pb ''column'')) + j) mod 2 ^ 32
      in if k < length (elements (pb ''value'')) then Some (Num (num (elements (pb ''value'') ! k))) else None) [0..<nat (num (pb ''column''))]))"
    using assms all_some_nth [of _ rs r] unfolding pbConvertTo2DimensionDoubleVector_def Let_def by fastforce
  then obtain ws where "r = Seq ws" and "length ws = nat (num (pb ''column''))"
    by (auto simp: eq_commute [of "Some r"] dest!: all_some_length)
  then show ?thesis by simp
qed

text \<open>C37: a table of corrections of an antenna comes back from the protocol buffers exactly if its rows have the
  length of the last one: the message has one number of columns for all.\<close>

theorem table_comes_back_iff:
  assumes "is_seq (is_seq (is_scalar Double (\<lambda>i. i))) v" and "length (elements v) < 2 ^ 32"
    and "\<forall>r \<in> set (elements v). length (elements r) < 2 ^ 32" and "length (concat (map elements (elements v))) < 2 ^ 32"
  shows "(\<exists>pb. convert2DimensionDoubleVectorToPB v fresh = Some pb \<and> pbConvertTo2DimensionDoubleVector pb [] = Some (elements v)) \<longleftrightarrow>
    (\<forall>r \<in> set (elements v). length (elements r) = length (elements (last (elements v))))"
  (is "?returns \<longleftrightarrow> ?even")
proof
  assume ?even
  have last: "elements v \<noteq> [] \<Longrightarrow> length (elements (last (elements v))) < 2 ^ 32" using assms(3) last_in_set by blast
  have column: "(if map elements (elements v) = [] then 0 else length (last (map elements (elements v)))) =
      (if elements v = [] then 0 else length (elements (last (elements v))))" by (simp add: last_map)
  have "is_table v" unfolding is_table_def Let_def column
  proof (intro conjI ballI)
    fix r assume "r \<in> set (map elements (elements v))"
    then obtain q where q: "q \<in> set (elements v)" "r = elements q" by auto
    then have "elements v \<noteq> []" by auto
    then show "length r = (if elements v = [] then 0 else length (elements (last (elements v))))"
      using bspec [OF \<open>?even\<close> q(1)] q(2) by (simp only: if_False)
  qed (use assms(1,2,4) last in \<open>simp_all\<close>)
  from table_round_trip [OF this] show ?returns .
next
  assume ?returns
  then obtain pb where pb: "convert2DimensionDoubleVectorToPB v fresh = Some pb" "pbConvertTo2DimensionDoubleVector pb [] = Some (elements v)" by blast
  show ?even
  proof
    fix r assume r: "r \<in> set (elements v)"
    then have nonempty: "elements v \<noteq> []" by auto
    have "num (pb ''column'') = int (length (elements (last (elements v))))"
      using pb(1) nonempty assms(3) last_in_set [OF nonempty]
      by (auto simp: convert2DimensionDoubleVectorToPB_def Let_def set_to_def last_map fit_nat simp del: fit.simps split: option.splits)
    with table_columns [OF pb(2) r] show "length (elements r) = length (elements (last (elements v)))" by simp
  qed
qed

theorem table_comes_back_iff_witness:
  "\<not> (\<exists>pb. convert2DimensionDoubleVectorToPB (Seq [Seq [Num 1], Seq [Num 2, Num 3]]) fresh = Some pb \<and>
     pbConvertTo2DimensionDoubleVector pb [] = Some [Seq [Num 1], Seq [Num 2, Num 3]])"
  using table_comes_back_iff [of "Seq [Seq [Num 1], Seq [Num 2, Num 3]]"] by (simp add: is_seq_def is_scalar_def)

end
