(* ===== verification/PbWire.thy ===== *)
theory PbWire
  imports PbEncode PbDecode
begin

text \<open>
  The header of the messages of the location API and the shape of their serialisation, in
  \<open>location_api_msg_proto/src/LocationApiMsg.h\<close> and \<open>LocationApiMsg.cpp\<close>. The library of protocol
  buffers is a parameter: \<open>serialize\<close> and \<open>parse\<close> take the type of a message. A serialised message is
  a string of bytes, \<open>Some None\<close> where the code returns 0 and leaves the string as it was, and
  \<open>None\<close> where it reads outside of an array or calls a function of a null converter.
\<close>

record pb_library =
  serialize :: "string \<Rightarrow> struct \<Rightarrow> string option"
  parse :: "string \<Rightarrow> string \<Rightarrow> struct option"

definition LOCATION_REMOTE_API_MSG_VERSION :: int where "LOCATION_REMOTE_API_MSG_VERSION = 1"
definition MAX_SOCKET_PATHNAME_LENGTH :: int where "MAX_SOCKET_PATHNAME_LENGTH = 128"
definition SERVICE_NAME :: string where "SERVICE_NAME = ''locapiservice''"
definition LOCATION_REMOTE_API_PINGTEST_SIZE :: int where "LOCATION_REMOTE_API_PINGTEST_SIZE = 4"
definition PB_GEODETIC_TYPE_WGS_84 :: int where "PB_GEODETIC_TYPE_WGS_84 = 0"
definition PB_GEODETIC_TYPE_PZ_90 :: int where "PB_GEODETIC_TYPE_PZ_90 = 1"

section \<open>The header\<close>

text \<open>\<open>mSocketName\<close> is the array up to its first zero, \<open>pLocApiPbMsgConv\<close> whether there is a converter,
  and \<open>parts\<close> holds the members of the derived class.\<close>

record loc_api_msg =
  mSocketName :: string
  msgId :: int
  msgVersion :: int
  pLocApiPbMsgConv :: bool
  parts :: struct

definition LocAPIMsgHeader :: "string \<Rightarrow> int \<Rightarrow> bool \<Rightarrow> loc_api_msg" where
  "LocAPIMsgHeader name id_msg conv =
     \<lparr>mSocketName = bounded_text MAX_SOCKET_PATHNAME_LENGTH name, msgId = id_msg,
      msgVersion = LOCATION_REMOTE_API_MSG_VERSION, pLocApiPbMsgConv = conv, parts = fresh\<rparr>"

text \<open>A constructor with initialisers for members.\<close>

definition new_message :: "string \<Rightarrow> int \<Rightarrow> bool \<Rightarrow> (string \<times> cval) list \<Rightarrow> loc_api_msg" where
  "new_message name id_msg conv ms =
     (LocAPIMsgHeader name id_msg conv)\<lparr>parts := (\<lambda>m. case map_of ms m of None \<Rightarrow> Unset | Some v \<Rightarrow> v)\<rparr>"

definition isValidMsg :: "loc_api_msg \<Rightarrow> bool" where
  "isValidMsg m \<longleftrightarrow> msgVersion m = LOCATION_REMOTE_API_MSG_VERSION"

definition has_prefix :: "string \<Rightarrow> string \<Rightarrow> bool" where
  "has_prefix p s \<longleftrightarrow> take (length p) s = p"

definition isValidClientMsg :: "string \<Rightarrow> string \<Rightarrow> loc_api_msg \<Rightarrow> bool" where
  "isValidClientMsg client_dir eap_dir m \<longleftrightarrow>
     isValidMsg m \<and> (has_prefix client_dir (mSocketName m) \<or> has_prefix eap_dir (mSocketName m))"

definition isValidServerMsg :: "loc_api_msg \<Rightarrow> bool" where
  "isValidServerMsg m \<longleftrightarrow> isValidMsg m \<and> mSocketName m = SERVICE_NAME"

section \<open>Serialisation\<close>

definition header_of :: "hal_values \<Rightarrow> string \<Rightarrow> loc_api_msg \<Rightarrow> struct" where
  "header_of hal cls m = fresh
     (''msocketname'' := Str (mSocketName m),
      ''msgid'' := Num (getPBEnumForELocMsgID hal (msgId m)),
      ''msgversion'' := Num (fit UInt32 (msgVersion m)),
      ''payloadsize'' := Num (fit UInt32 (hal (''sizeof('' @ cls @ '')''))))"

definition serialize_bare :: "pb_library \<Rightarrow> hal_values \<Rightarrow> string \<Rightarrow> loc_api_msg \<Rightarrow> string option option" where
  "serialize_bare lib hal cls m =
     Some (if pLocApiPbMsgConv m then serialize lib ''PBLocAPIMsgHeader'' (header_of hal cls m) else None)"

definition serialize_message :: "pb_library \<Rightarrow> hal_values \<Rightarrow> string \<Rightarrow> string \<Rightarrow> assignment list \<Rightarrow> loc_api_msg
    \<Rightarrow> string option option" where
  "serialize_message lib hal cls t rows m =
     (if \<not> pLocApiPbMsgConv m then Some None
      else case assign rows (parts m) fresh of
        None \<Rightarrow> None
      | Some pb \<Rightarrow>
          (case serialize lib t pb of
             None \<Rightarrow> Some None
           | Some pbStr \<Rightarrow>
               Some (serialize lib ''PBLocAPIMsgHeader'' ((header_of hal cls m)(''payload'' := Str pbStr)))))"

section \<open>Construction from a payload\<close>

text \<open>A constructor that returns early without a converter, one that calls it without a test, and one
  that needs none. Members that are not assigned are \<open>Unset\<close>.\<close>

datatype converter_use = Checked | Unchecked | Unneeded

definition received :: "converter_use \<Rightarrow> string \<Rightarrow> int \<Rightarrow> assignment list \<Rightarrow> struct \<Rightarrow> bool \<Rightarrow> loc_api_msg option" where
  "received use name id_msg rows pb conv =
     (if conv \<or> use = Unneeded
      then map_option (\<lambda>x. (LocAPIMsgHeader name id_msg conv)\<lparr>parts := x\<rparr>) (assign rows pb fresh)
      else if use = Checked then Some (LocAPIMsgHeader name id_msg conv) else None)"

text \<open>What is done only if the message has the field.\<close>

definition when_has :: "string \<Rightarrow> string \<Rightarrow> (struct \<Rightarrow> struct \<Rightarrow> cval option) \<Rightarrow> struct \<Rightarrow> struct \<Rightarrow> cval option" where
  "when_has f m r s d = (case s f of Obj _ \<Rightarrow> r s d | _ \<Rightarrow> Some (d m))"

section \<open>Names for the log\<close>

definition msg_strings :: "(int \<times> string) list" where
  "msg_strings =
    [(E_LOCAPI_UNDEFINED_MSG_ID, ''E_LOCAPI_UNDEFINED_MSG_ID''),
     (E_LOCAPI_CLIENT_REGISTER_MSG_ID, ''E_LOCAPI_CLIENT_REGISTER_MSG_ID''),
     (E_LOCAPI_CLIENT_DEREGISTER_MSG_ID, ''E_LOCAPI_CLIENT_DEREGISTER_MSG_ID''),
     (E_LOCAPI_CAPABILILTIES_MSG_ID, ''E_LOCAPI_CAPABILILTIES_MSG_ID''),
     (E_LOCAPI_HAL_READY_MSG_ID, ''E_LOCAPI_HAL_READY_MSG_ID''),
     (E_LOCAPI_START_TRACKING_MSG_ID, ''E_LOCAPI_START_TRACKING_MSG_ID''),
     (E_LOCAPI_STOP_TRACKING_MSG_ID, ''E_LOCAPI_STOP_TRACKING_MSG_ID''),
     (E_LOCAPI_UPDATE_CALLBACKS_MSG_ID, ''E_LOCAPI_UPDATE_CALLBACKS_MSG_ID''),
     (E_LOCAPI_UPDATE_TRACKING_OPTIONS_MSG_ID, ''E_LOCAPI_UPDATE_TRACKING_OPTIONS_MSG_ID''),
     (E_LOCAPI_CONTROL_UPDATE_CONFIG_MSG_ID, ''E_LOCAPI_CONTROL_UPDATE_CONFIG_MSG_ID''),
     (E_LOCAPI_CONTROL_DELETE_AIDING_DATA_MSG_ID, ''E_LOCAPI_CONTROL_DELETE_AIDING_DATA_MSG_ID''),
     (E_LOCAPI_CONTROL_UPDATE_NETWORK_AVAILABILITY_MSG_ID, ''E_LOCAPI_CONTROL_UPDATE_NETWORK_AVAILABILITY_MSG_ID''),
     (E_LOCAPI_LOCATION_MSG_ID, ''E_LOCAPI_LOCATION_MSG_ID''),
     (E_LOCAPI_LOCATION_INFO_MSG_ID, ''E_LOCAPI_LOCATION_INFO_MSG_ID''),
     (E_LOCAPI_SATELLITE_VEHICLE_MSG_ID, ''E_LOCAPI_SATELLITE_VEHICLE_MSG_ID''),
     (E_LOCAPI_NMEA_MSG_ID, ''E_LOCAPI_NMEA_MSG_ID''),
     (E_LOCAPI_DATA_MSG_ID, ''E_LOCAPI_DATA_MSG_ID''),
     (E_LOCAPI_GET_GNSS_ENGERY_CONSUMED_MSG_ID, ''E_LOCAPI_GET_GNSS_ENGERY_CONSUMED_MSG_ID''),
     (E_LOCAPI_LOCATION_SYSTEM_INFO_MSG_ID, ''E_LOCAPI_LOCATION_SYSTEM_INFO_MSG_ID''),
     (E_LOCAPI_ENGINE_LOCATIONS_INFO_MSG_ID, ''E_LOCAPI_ENGINE_LOCATIONS_INFO_MSG_ID''),
     (E_LOCAPI_START_BATCHING_MSG_ID, ''E_LOCAPI_START_BATCHING_MSG_ID''),
     (E_LOCAPI_STOP_BATCHING_MSG_ID, ''E_LOCAPI_STOP_BATCHING_MSG_ID''),
     (E_LOCAPI_UPDATE_BATCHING_OPTIONS_MSG_ID, ''E_LOCAPI_UPDATE_BATCHING_OPTIONS_MSG_ID''),
     (E_LOCAPI_BATCHING_MSG_ID, ''E_LOCAPI_BATCHING_MSG_ID''),
     (E_LOCAPI_ADD_GEOFENCES_MSG_ID, ''E_LOCAPI_ADD_GEOFENCES_MSG_ID''),
     (E_LOCAPI_REMOVE_GEOFENCES_MSG_ID, ''E_LOCAPI_REMOVE_GEOFENCES_MSG_ID''),
     (E_LOCAPI_MODIFY_GEOFENCES_MSG_ID, ''E_LOCAPI_MODIFY_GEOFENCES_MSG_ID''),
     (E_LOCAPI_PAUSE_GEOFENCES_MSG_ID, ''E_LOCAPI_PAUSE_GEOFENCES_MSG_ID''),
     (E_LOCAPI_RESUME_GEOFENCES_MSG_ID, ''E_LOCAPI_RESUME_GEOFENCES_MSG_ID''),
     (E_LOCAPI_GEOFENCE_BREACH_MSG_ID, ''E_LOCAPI_GEOFENCE_BREACH_MSG_ID''),
     (E_LOCAPI_MEAS_MSG_ID, ''E_LOCAPI_MEAS_MSG_ID''),
     (E_LOCAPI_GET_SINGLE_TERRESTRIAL_POS_REQ_MSG_ID, ''E_LOCAPI_GET_SINGLE_TERRESTRIAL_POS_REQ_MSG_ID''),
     (E_LOCAPI_GET_SINGLE_TERRESTRIAL_POS_RESP_MSG_ID, ''E_LOCAPI_GET_SINGLE_TERRESTRIAL_POS_RESP_MSG_ID''),
     (E_LOCAPI_GET_DEBUG_REQ_MSG_ID, ''E_LOCAPI_GET_DEBUG_REQ_MSG_ID''),
     (E_LOCAPI_GET_DEBUG_RESP_MSG_ID, ''E_LOCAPI_GET_DEBUG_RESP_MSG_ID''),
     (E_LOCAPI_GET_ANTENNA_INFO_MSG_ID, ''E_LOCAPI_GET_ANTENNA_INFO_MSG_ID''),
     (E_LOCAPI_ANTENNA_INFO_MSG_ID, ''E_LOCAPI_ANTENNA_INFO_MSG_ID''),
     (E_LOCAPI_EPH_MSG_ID, ''E_LOCAPI_EPH_MSG_ID''),
     (E_LOCAPI_PINGTEST_MSG_ID, ''E_LOCAPI_PINGTEST_MSG_ID''),
     (E_INTAPI_CONFIG_CONSTRAINTED_TUNC_MSG_ID, ''E_INTAPI_CONFIG_CONSTRAINTED_TUNC_MSG_ID''),
     (E_INTAPI_CONFIG_POSITION_ASSISTED_CLOCK_ESTIMATOR_MSG_ID, ''E_INTAPI_CONFIG_POSITION_ASSISTED_CLOCK_ESTIMATOR_MSG_ID''),
     (E_INTAPI_CONFIG_SV_CONSTELLATION_MSG_ID, ''E_INTAPI_CONFIG_SV_CONSTELLATION_MSG_ID''),
     (E_INTAPI_CONFIG_AIDING_DATA_DELETION_MSG_ID, ''E_INTAPI_CONFIG_AIDING_DATA_DELETION_MSG_ID''),
     (E_INTAPI_CONFIG_LEVER_ARM_MSG_ID, ''E_INTAPI_CONFIG_LEVER_ARM_MSG_ID''),
     (E_INTAPI_CONFIG_ROBUST_LOCATION_MSG_ID, ''E_INTAPI_CONFIG_ROBUST_LOCATION_MSG_ID''),
     (E_INTAPI_CONFIG_MIN_GPS_WEEK_MSG_ID, ''E_INTAPI_CONFIG_MIN_GPS_WEEK_MSG_ID''),
     (E_INTAPI_CONFIG_DEAD_RECKONING_ENGINE_MSG_ID, ''E_INTAPI_CONFIG_DEAD_RECKONING_ENGINE_MSG_ID''),
     (E_INTAPI_CONFIG_MIN_SV_ELEVATION_MSG_ID, ''E_INTAPI_CONFIG_MIN_SV_ELEVATION_MSG_ID''),
     (E_INTAPI_CONFIG_CONSTELLATION_SECONDARY_BAND_MSG_ID, ''E_INTAPI_CONFIG_CONSTELLATION_SECONDARY_BAND_MSG_ID''),
     (E_INTAPI_CONFIG_ENGINE_RUN_STATE_MSG_ID, ''E_INTAPI_CONFIG_ENGINE_RUN_STATE_MSG_ID''),
     (E_INTAPI_CONFIG_USER_CONSENT_TERRESTRIAL_POSITIONING_MSG_ID, ''E_INTAPI_CONFIG_USER_CONSENT_TERRESTRIAL_POSITIONING_MSG_ID''),
     (E_INTAPI_CONFIG_OUTPUT_NMEA_TYPES_MSG_ID, ''E_INTAPI_CONFIG_OUTPUT_NMEA_TYPES_MSG_ID''),
     (E_INTAPI_CONFIG_ENGINE_INTEGRITY_RISK_MSG_ID, ''E_INTAPI_CONFIG_ENGINE_INTEGRITY_RISK_MSG_ID''),
     (E_INTAPI_CONFIG_XTRA_PARAMS_MSG_ID, ''E_INTAPI_CONFIG_XTRA_PARAMS_MSG_ID''),
     (E_INTAPI_CONFIG_MERKLE_TREE_MSG_ID, ''E_INTAPI_CONFIG_MERKLE_TREE_MSG_ID''),
     (E_INTAPI_CONFIG_OSNMA_ENABLEMENT_MSG_ID, ''E_INTAPI_CONFIG_OSNMA_ENABLEMENT_MSG_ID''),
     (E_INTAPI_GET_ROBUST_LOCATION_CONFIG_REQ_MSG_ID, ''E_INTAPI_GET_ROBUST_LOCATION_CONFIG_REQ_MSG_ID''),
     (E_INTAPI_GET_ROBUST_LOCATION_CONFIG_RESP_MSG_ID, ''E_INTAPI_GET_ROBUST_LOCATION_CONFIG_RESP_MSG_ID''),
     (E_INTAPI_GET_MIN_GPS_WEEK_REQ_MSG_ID, ''E_INTAPI_GET_MIN_GPS_WEEK_REQ_MSG_ID''),
     (E_INTAPI_GET_MIN_GPS_WEEK_RESP_MSG_ID, ''E_INTAPI_GET_MIN_GPS_WEEK_RESP_MSG_ID''),
     (E_INTAPI_GET_MIN_SV_ELEVATION_REQ_MSG_ID, ''E_INTAPI_GET_MIN_SV_ELEVATION_REQ_MSG_ID''),
     (E_INTAPI_GET_MIN_SV_ELEVATION_RESP_MSG_ID, ''E_INTAPI_GET_MIN_SV_ELEVATION_RESP_MSG_ID''),
     (E_INTAPI_GET_CONSTELLATION_SECONDARY_BAND_CONFIG_REQ_MSG_ID, ''E_INTAPI_GET_CONSTELLATION_SECONDARY_BAND_CONFIG_REQ_MSG_ID''),
     (E_INTAPI_GET_CONSTELLATION_SECONDARY_BAND_CONFIG_RESP_MSG_ID, ''E_INTAPI_GET_CONSTELLATION_SECONDARY_BAND_CONFIG_RESP_MSG_ID''),
     (E_INTAPI_INJECT_LOCATION_MSG_ID, ''E_INTAPI_INJECT_LOCATION_MSG_ID''),
     (E_INTAPI_GET_XTRA_STATUS_REQ_MSG_ID, ''E_INTAPI_GET_XTRA_STATUS_REQ_MSG_ID''),
     (E_INTAPI_GET_XTRA_STATUS_RESP_MSG_ID, ''E_INTAPI_GET_XTRA_STATUS_REQ_MSG_ID''),
     (E_INTAPI_REGISTER_XTRA_STATUS_UPDATE_REQ_MSG_ID, ''E_INTAPI_REGISTER_XTRA_STATUS_UPDATE_REQ_MSG_ID''),
     (E_INTAPI_DEREGISTER_XTRA_STATUS_UPDATE_REQ_MSG_ID, ''E_INTAPI_DEREGISTER_XTRA_STATUS_UPDATE_REQ_MSG_ID''),
     (E_INTAPI_REGISTER_GNSS_SIGNAL_TYPES_UPDATE_REQ_MSG_ID, ''E_INTAPI_REGISTER_GNSS_SIGNAL_TYPES_UPDATE_REQ_MSG_ID''),
     (E_INTAPI_REGISTER_GNSS_SIGNAL_TYPES_UPDATE_RESP_MSG_ID, ''E_INTAPI_REGISTER_GNSS_SIGNAL_TYPES_UPDATE_RESP_MSG_ID''),
     (E_INTAPI_CONFIG_MAP_MATCHED_FEEDBACK_MSG_ID, ''E_INTAPI_CONFIG_MAP_MATCHED_FEEDBACK_MSG_ID'')]"

definition LocApiMsgString :: "int \<Rightarrow> string" where
  "LocApiMsgString id_msg = (case map_of msg_strings id_msg of None \<Rightarrow> ''unknown ELocMsgID'' | Some t \<Rightarrow> t)"

end
