(* ===== verification/PbMessages.thy ===== *)
theory PbMessages
  imports PbWire
begin

text \<open>
  The messages of the location API, of \<open>location_api_msg_proto/src/LocationApiMsg.h\<close> and
  \<open>LocationApiMsg.cpp\<close>: for each class the constructor a sender uses, the assignments of
  \<open>serializeToProtobuf\<close> to its payload, and the constructor a receiver uses on a parsed payload. What
  the client API exchanges with the daemon is here, what the integration API does in \<open>PbConfigMessages\<close>.
\<close>

section \<open>Clients and responses\<close>

subsection \<open>\<open>LocAPIClientRegisterReqMsg\<close>\<close>

definition LocAPIClientRegisterReqMsg :: "string \<Rightarrow> int \<Rightarrow> bool \<Rightarrow> loc_api_msg" where
  "LocAPIClientRegisterReqMsg name clientType pbMsgConv =
     new_message name E_LOCAPI_CLIENT_REGISTER_MSG_ID pbMsgConv [(''mClientType'', Num clientType)]"

definition payload_of_LocAPIClientRegisterReqMsg :: "hal_values \<Rightarrow> assignment list" where
  "payload_of_LocAPIClientRegisterReqMsg hal =
     [(''mclienttype'', put_enum (getPBEnumForClientType hal) ''mClientType'')]"

definition LocAPIClientRegisterReqMsg_serializeToProtobuf :: "pb_library \<Rightarrow> hal_values \<Rightarrow> loc_api_msg \<Rightarrow> string option option" where
  "LocAPIClientRegisterReqMsg_serializeToProtobuf lib hal =
     serialize_message lib hal ''LocAPIClientRegisterReqMsg''
       ''PBLocAPIClientRegisterReqMsg'' (payload_of_LocAPIClientRegisterReqMsg hal)"

definition members_of_LocAPIClientRegisterReqMsg :: "hal_values \<Rightarrow> member_types \<Rightarrow> assignment list" where
  "members_of_LocAPIClientRegisterReqMsg hal ty =
     [(''mClientType'', get_enum (getEnumForPBClientType hal) ''mclienttype'')]"

definition LocAPIClientRegisterReqMsg_fromProtobuf :: "hal_values \<Rightarrow> member_types \<Rightarrow> string \<Rightarrow> struct \<Rightarrow> bool \<Rightarrow> loc_api_msg option" where
  "LocAPIClientRegisterReqMsg_fromProtobuf hal ty name =
     received Checked name E_LOCAPI_CLIENT_REGISTER_MSG_ID (members_of_LocAPIClientRegisterReqMsg hal ty)"

subsection \<open>\<open>LocAPIClientDeregisterReqMsg\<close>\<close>

definition LocAPIClientDeregisterReqMsg :: "string \<Rightarrow> bool \<Rightarrow> loc_api_msg" where
  "LocAPIClientDeregisterReqMsg name pbMsgConv =
     new_message name E_LOCAPI_CLIENT_DEREGISTER_MSG_ID pbMsgConv []"

definition LocAPIClientDeregisterReqMsg_serializeToProtobuf :: "pb_library \<Rightarrow> hal_values \<Rightarrow> loc_api_msg \<Rightarrow> string option option" where
  "LocAPIClientDeregisterReqMsg_serializeToProtobuf lib hal =
     serialize_bare lib hal ''LocAPIClientDeregisterReqMsg''"

subsection \<open>\<open>LocAPICapabilitiesIndMsg\<close>\<close>

definition LocAPICapabilitiesIndMsg :: "string \<Rightarrow> int \<Rightarrow> bool \<Rightarrow> loc_api_msg" where
  "LocAPICapabilitiesIndMsg name capabilitiesMask pbMsgConv =
     new_message name E_LOCAPI_CAPABILILTIES_MSG_ID pbMsgConv [(''capabilitiesMask'', Num capabilitiesMask)]"

definition payload_of_LocAPICapabilitiesIndMsg :: "hal_values \<Rightarrow> assignment list" where
  "payload_of_LocAPICapabilitiesIndMsg hal =
     [(''capabilitiesmask'', put_mask (getPBMaskForLocationCapabilitiesMask hal) ''capabilitiesMask'')]"

definition LocAPICapabilitiesIndMsg_serializeToProtobuf :: "pb_library \<Rightarrow> hal_values \<Rightarrow> loc_api_msg \<Rightarrow> string option option" where
  "LocAPICapabilitiesIndMsg_serializeToProtobuf lib hal =
     serialize_message lib hal ''LocAPICapabilitiesIndMsg''
       ''PBLocAPICapabilitiesIndMsg'' (payload_of_LocAPICapabilitiesIndMsg hal)"

definition members_of_LocAPICapabilitiesIndMsg :: "hal_values \<Rightarrow> member_types \<Rightarrow> assignment list" where
  "members_of_LocAPICapabilitiesIndMsg hal ty =
     [(''capabilitiesMask'', get_mask (getLocationCapabilitiesMaskFromPB hal) ''capabilitiesmask'')]"

definition LocAPICapabilitiesIndMsg_fromProtobuf :: "hal_values \<Rightarrow> member_types \<Rightarrow> string \<Rightarrow> struct \<Rightarrow> bool \<Rightarrow> loc_api_msg option" where
  "LocAPICapabilitiesIndMsg_fromProtobuf hal ty name =
     received Checked name E_LOCAPI_CAPABILILTIES_MSG_ID (members_of_LocAPICapabilitiesIndMsg hal ty)"

subsection \<open>\<open>LocAPIHalReadyIndMsg\<close>\<close>

definition LocAPIHalReadyIndMsg :: "string \<Rightarrow> bool \<Rightarrow> loc_api_msg" where
  "LocAPIHalReadyIndMsg name pbMsgConv =
     new_message name E_LOCAPI_HAL_READY_MSG_ID pbMsgConv []"

definition LocAPIHalReadyIndMsg_serializeToProtobuf :: "pb_library \<Rightarrow> hal_values \<Rightarrow> loc_api_msg \<Rightarrow> string option option" where
  "LocAPIHalReadyIndMsg_serializeToProtobuf lib hal =
     serialize_bare lib hal ''LocAPIHalReadyIndMsg''"

subsection \<open>\<open>LocAPIGenericRespMsg\<close>\<close>

definition LocAPIGenericRespMsg :: "string \<Rightarrow> int \<Rightarrow> int \<Rightarrow> bool \<Rightarrow> loc_api_msg" where
  "LocAPIGenericRespMsg name id_msg err pbMsgConv =
     new_message name id_msg pbMsgConv [(''err'', Num err)]"

definition payload_of_LocAPIGenericRespMsg :: "hal_values \<Rightarrow> assignment list" where
  "payload_of_LocAPIGenericRespMsg hal =
     [(''err'', put_enum (getPBEnumForLocationError hal) ''err'')]"

definition LocAPIGenericRespMsg_serializeToProtobuf :: "pb_library \<Rightarrow> hal_values \<Rightarrow> loc_api_msg \<Rightarrow> string option option" where
  "LocAPIGenericRespMsg_serializeToProtobuf lib hal =
     serialize_message lib hal ''LocAPIGenericRespMsg''
       ''PBLocAPIGenericRespMsg'' (payload_of_LocAPIGenericRespMsg hal)"

definition members_of_LocAPIGenericRespMsg :: "hal_values \<Rightarrow> member_types \<Rightarrow> assignment list" where
  "members_of_LocAPIGenericRespMsg hal ty =
     [(''err'', get_enum (getEnumForPBLocationError hal) ''err'')]"

definition LocAPIGenericRespMsg_fromProtobuf :: "hal_values \<Rightarrow> member_types \<Rightarrow> string \<Rightarrow> int \<Rightarrow> struct \<Rightarrow> bool \<Rightarrow> loc_api_msg option" where
  "LocAPIGenericRespMsg_fromProtobuf hal ty name id_msg =
     received Checked name id_msg (members_of_LocAPIGenericRespMsg hal ty)"

subsection \<open>\<open>LocAPICollectiveRespMsg\<close>\<close>

definition LocAPICollectiveRespMsg_empty :: "string \<Rightarrow> int \<Rightarrow> bool \<Rightarrow> loc_api_msg" where
  "LocAPICollectiveRespMsg_empty name id_msg pbMsgConv =
     new_message name id_msg pbMsgConv []"

definition LocAPICollectiveRespMsg :: "string \<Rightarrow> int \<Rightarrow> struct \<Rightarrow> bool \<Rightarrow> loc_api_msg" where
  "LocAPICollectiveRespMsg name id_msg response pbMsgConv =
     new_message name id_msg pbMsgConv [(''collectiveRes'', Obj response)]"

definition payload_of_LocAPICollectiveRespMsg :: "hal_values \<Rightarrow> assignment list" where
  "payload_of_LocAPICollectiveRespMsg hal =
     [(''collectiveres'', sub ''collectiveres'' (convertCollectiveResPayloadToPB hal) ''collectiveRes'')]"

definition LocAPICollectiveRespMsg_serializeToProtobuf :: "pb_library \<Rightarrow> hal_values \<Rightarrow> loc_api_msg \<Rightarrow> string option option" where
  "LocAPICollectiveRespMsg_serializeToProtobuf lib hal =
     serialize_message lib hal ''LocAPICollectiveRespMsg''
       ''PBLocAPICollectiveRespMsg'' (payload_of_LocAPICollectiveRespMsg hal)"

definition members_of_LocAPICollectiveRespMsg :: "hal_values \<Rightarrow> member_types \<Rightarrow> assignment list" where
  "members_of_LocAPICollectiveRespMsg hal ty =
     [(''collectiveRes'', into ''collectiveRes'' (pbConvertToCollectiveResPayload hal ty) ''collectiveres'')]"

definition LocAPICollectiveRespMsg_fromProtobuf :: "hal_values \<Rightarrow> member_types \<Rightarrow> string \<Rightarrow> int \<Rightarrow> struct \<Rightarrow> bool \<Rightarrow> loc_api_msg option" where
  "LocAPICollectiveRespMsg_fromProtobuf hal ty name id_msg =
     received Checked name id_msg (members_of_LocAPICollectiveRespMsg hal ty)"

section \<open>Tracking\<close>

subsection \<open>\<open>LocAPIStartTrackingReqMsg\<close>\<close>

definition LocAPIStartTrackingReqMsg :: "string \<Rightarrow> struct \<Rightarrow> bool \<Rightarrow> loc_api_msg" where
  "LocAPIStartTrackingReqMsg name locSessionOptions pbMsgConv =
     new_message name E_LOCAPI_START_TRACKING_MSG_ID pbMsgConv [(''locOptions'', Obj locSessionOptions)]"

definition payload_of_LocAPIStartTrackingReqMsg :: "hal_values \<Rightarrow> assignment list" where
  "payload_of_LocAPIStartTrackingReqMsg hal =
     [(''locoptions'', sub ''locoptions'' (convertLocationOptionsToPB hal) ''locOptions'')]"

definition LocAPIStartTrackingReqMsg_serializeToProtobuf :: "pb_library \<Rightarrow> hal_values \<Rightarrow> loc_api_msg \<Rightarrow> string option option" where
  "LocAPIStartTrackingReqMsg_serializeToProtobuf lib hal =
     serialize_message lib hal ''LocAPIStartTrackingReqMsg''
       ''PBLocAPIStartTrackingReqMsg'' (payload_of_LocAPIStartTrackingReqMsg hal)"

definition members_of_LocAPIStartTrackingReqMsg :: "hal_values \<Rightarrow> member_types \<Rightarrow> assignment list" where
  "members_of_LocAPIStartTrackingReqMsg hal ty =
     [(''locOptions'', into ''locOptions'' (pbConvertToLocationOptions hal ty) ''locoptions'')]"

definition LocAPIStartTrackingReqMsg_fromProtobuf :: "hal_values \<Rightarrow> member_types \<Rightarrow> string \<Rightarrow> struct \<Rightarrow> bool \<Rightarrow> loc_api_msg option" where
  "LocAPIStartTrackingReqMsg_fromProtobuf hal ty name =
     received Checked name E_LOCAPI_START_TRACKING_MSG_ID (members_of_LocAPIStartTrackingReqMsg hal ty)"

subsection \<open>\<open>LocAPIStopTrackingReqMsg\<close>\<close>

definition LocAPIStopTrackingReqMsg :: "string \<Rightarrow> bool \<Rightarrow> int \<Rightarrow> loc_api_msg" where
  "LocAPIStopTrackingReqMsg name pbMsgConv clearSubsc =
     new_message name E_LOCAPI_STOP_TRACKING_MSG_ID pbMsgConv [(''clearSubscriptions'', Num clearSubsc)]"

definition payload_of_LocAPIStopTrackingReqMsg :: "hal_values \<Rightarrow> assignment list" where
  "payload_of_LocAPIStopTrackingReqMsg hal =
     [(''clearsubscriptions'', put Boolean ''clearSubscriptions'')]"

definition LocAPIStopTrackingReqMsg_serializeToProtobuf :: "pb_library \<Rightarrow> hal_values \<Rightarrow> loc_api_msg \<Rightarrow> string option option" where
  "LocAPIStopTrackingReqMsg_serializeToProtobuf lib hal =
     serialize_message lib hal ''LocAPIStopTrackingReqMsg''
       ''PBLocAPIStopTrackingReqMsg'' (payload_of_LocAPIStopTrackingReqMsg hal)"

definition members_of_LocAPIStopTrackingReqMsg :: "hal_values \<Rightarrow> member_types \<Rightarrow> assignment list" where
  "members_of_LocAPIStopTrackingReqMsg hal ty =
     [(''clearSubscriptions'', get (fit Boolean) ''clearsubscriptions'')]"

definition LocAPIStopTrackingReqMsg_fromProtobuf :: "hal_values \<Rightarrow> member_types \<Rightarrow> string \<Rightarrow> struct \<Rightarrow> bool \<Rightarrow> loc_api_msg option" where
  "LocAPIStopTrackingReqMsg_fromProtobuf hal ty name =
     received Checked name E_LOCAPI_STOP_TRACKING_MSG_ID (members_of_LocAPIStopTrackingReqMsg hal ty)"

subsection \<open>\<open>LocAPIUpdateCallbacksReqMsg\<close>\<close>

definition LocAPIUpdateCallbacksReqMsg :: "string \<Rightarrow> int \<Rightarrow> bool \<Rightarrow> loc_api_msg" where
  "LocAPIUpdateCallbacksReqMsg name callBacksMask pbMsgConv =
     new_message name E_LOCAPI_UPDATE_CALLBACKS_MSG_ID pbMsgConv [(''locationCallbacks'', Num callBacksMask)]"

definition payload_of_LocAPIUpdateCallbacksReqMsg :: "hal_values \<Rightarrow> assignment list" where
  "payload_of_LocAPIUpdateCallbacksReqMsg hal =
     [(''locationcallbacks'', put_mask (getPBMaskForLocationCallbacksMask hal) ''locationCallbacks'')]"

definition LocAPIUpdateCallbacksReqMsg_serializeToProtobuf :: "pb_library \<Rightarrow> hal_values \<Rightarrow> loc_api_msg \<Rightarrow> string option option" where
  "LocAPIUpdateCallbacksReqMsg_serializeToProtobuf lib hal =
     serialize_message lib hal ''LocAPIUpdateCallbacksReqMsg''
       ''PBLocAPIUpdateCallbacksReqMsg'' (payload_of_LocAPIUpdateCallbacksReqMsg hal)"

definition members_of_LocAPIUpdateCallbacksReqMsg :: "hal_values \<Rightarrow> member_types \<Rightarrow> assignment list" where
  "members_of_LocAPIUpdateCallbacksReqMsg hal ty =
     [(''locationCallbacks'', get_mask (getLocationCallbacksMaskFromPB hal) ''locationcallbacks'')]"

definition LocAPIUpdateCallbacksReqMsg_fromProtobuf :: "hal_values \<Rightarrow> member_types \<Rightarrow> string \<Rightarrow> struct \<Rightarrow> bool \<Rightarrow> loc_api_msg option" where
  "LocAPIUpdateCallbacksReqMsg_fromProtobuf hal ty name =
     received Checked name E_LOCAPI_UPDATE_CALLBACKS_MSG_ID (members_of_LocAPIUpdateCallbacksReqMsg hal ty)"

subsection \<open>\<open>LocAPIUpdateTrackingOptionsReqMsg\<close>\<close>

definition LocAPIUpdateTrackingOptionsReqMsg :: "string \<Rightarrow> struct \<Rightarrow> bool \<Rightarrow> loc_api_msg" where
  "LocAPIUpdateTrackingOptionsReqMsg name locSessionOptions pbMsgConv =
     new_message name E_LOCAPI_UPDATE_TRACKING_OPTIONS_MSG_ID pbMsgConv [(''locOptions'', Obj locSessionOptions)]"

definition payload_of_LocAPIUpdateTrackingOptionsReqMsg :: "hal_values \<Rightarrow> assignment list" where
  "payload_of_LocAPIUpdateTrackingOptionsReqMsg hal =
     [(''locoptions'', sub ''locoptions'' (convertLocationOptionsToPB hal) ''locOptions'')]"

definition LocAPIUpdateTrackingOptionsReqMsg_serializeToProtobuf :: "pb_library \<Rightarrow> hal_values \<Rightarrow> loc_api_msg \<Rightarrow> string option option" where
  "LocAPIUpdateTrackingOptionsReqMsg_serializeToProtobuf lib hal =
     serialize_message lib hal ''LocAPIUpdateTrackingOptionsReqMsg''
       ''PBLocAPIUpdateTrackingOptionsReqMsg'' (payload_of_LocAPIUpdateTrackingOptionsReqMsg hal)"

definition members_of_LocAPIUpdateTrackingOptionsReqMsg :: "hal_values \<Rightarrow> member_types \<Rightarrow> assignment list" where
  "members_of_LocAPIUpdateTrackingOptionsReqMsg hal ty =
     [(''locOptions'', into ''locOptions'' (pbConvertToLocationOptions hal ty) ''locoptions'')]"

definition LocAPIUpdateTrackingOptionsReqMsg_fromProtobuf :: "hal_values \<Rightarrow> member_types \<Rightarrow> string \<Rightarrow> struct \<Rightarrow> bool \<Rightarrow> loc_api_msg option" where
  "LocAPIUpdateTrackingOptionsReqMsg_fromProtobuf hal ty name =
     received Checked name E_LOCAPI_UPDATE_TRACKING_OPTIONS_MSG_ID (members_of_LocAPIUpdateTrackingOptionsReqMsg hal ty)"

section \<open>Batching\<close>

subsection \<open>\<open>LocAPIStartBatchingReqMsg\<close>\<close>

definition LocAPIStartBatchingReqMsg :: "string \<Rightarrow> int \<Rightarrow> int \<Rightarrow> int \<Rightarrow> bool \<Rightarrow> loc_api_msg" where
  "LocAPIStartBatchingReqMsg name minInterval minDistance batchMode pbMsgConv =
     new_message name E_LOCAPI_START_BATCHING_MSG_ID pbMsgConv [(''intervalInMs'', Num minInterval),
        (''distanceInMeters'', Num minDistance),
        (''batchingMode'', Num batchMode)]"

definition payload_of_LocAPIStartBatchingReqMsg :: "hal_values \<Rightarrow> assignment list" where
  "payload_of_LocAPIStartBatchingReqMsg hal =
     [(''intervalinms'', put UInt32 ''intervalInMs''),
      (''distanceinmeters'', put UInt32 ''distanceInMeters''),
      (''batchingmode'', put_enum (getPBEnumForBatchingMode hal) ''batchingMode'')]"

definition LocAPIStartBatchingReqMsg_serializeToProtobuf :: "pb_library \<Rightarrow> hal_values \<Rightarrow> loc_api_msg \<Rightarrow> string option option" where
  "LocAPIStartBatchingReqMsg_serializeToProtobuf lib hal =
     serialize_message lib hal ''LocAPIStartBatchingReqMsg''
       ''PBLocAPIStartBatchingReqMsg'' (payload_of_LocAPIStartBatchingReqMsg hal)"

definition members_of_LocAPIStartBatchingReqMsg :: "hal_values \<Rightarrow> member_types \<Rightarrow> assignment list" where
  "members_of_LocAPIStartBatchingReqMsg hal ty =
     [(''intervalInMs'', get (fit UInt32) ''intervalinms''),
      (''distanceInMeters'', get (fit UInt32) ''distanceinmeters''),
      (''batchingMode'', get_enum (getEnumForPBBatchingMode hal) ''batchingmode'')]"

definition LocAPIStartBatchingReqMsg_fromProtobuf :: "hal_values \<Rightarrow> member_types \<Rightarrow> string \<Rightarrow> struct \<Rightarrow> bool \<Rightarrow> loc_api_msg option" where
  "LocAPIStartBatchingReqMsg_fromProtobuf hal ty name =
     received Checked name E_LOCAPI_START_BATCHING_MSG_ID (members_of_LocAPIStartBatchingReqMsg hal ty)"

subsection \<open>\<open>LocAPIStopBatchingReqMsg\<close>\<close>

definition LocAPIStopBatchingReqMsg :: "string \<Rightarrow> bool \<Rightarrow> loc_api_msg" where
  "LocAPIStopBatchingReqMsg name pbMsgConv =
     new_message name E_LOCAPI_STOP_BATCHING_MSG_ID pbMsgConv []"

definition LocAPIStopBatchingReqMsg_serializeToProtobuf :: "pb_library \<Rightarrow> hal_values \<Rightarrow> loc_api_msg \<Rightarrow> string option option" where
  "LocAPIStopBatchingReqMsg_serializeToProtobuf lib hal =
     serialize_bare lib hal ''LocAPIStopBatchingReqMsg''"

subsection \<open>\<open>LocAPIUpdateBatchingOptionsReqMsg\<close>\<close>

definition LocAPIUpdateBatchingOptionsReqMsg :: "string \<Rightarrow> int \<Rightarrow> int \<Rightarrow> int \<Rightarrow> bool \<Rightarrow> loc_api_msg" where
  "LocAPIUpdateBatchingOptionsReqMsg name sessionInterval sessionDistance batchMode pbMsgConv =
     new_message name E_LOCAPI_UPDATE_BATCHING_OPTIONS_MSG_ID pbMsgConv [(''intervalInMs'', Num sessionInterval),
        (''distanceInMeters'', Num sessionDistance),
        (''batchingMode'', Num batchMode)]"

definition payload_of_LocAPIUpdateBatchingOptionsReqMsg :: "hal_values \<Rightarrow> assignment list" where
  "payload_of_LocAPIUpdateBatchingOptionsReqMsg hal =
     [(''intervalinms'', put UInt32 ''intervalInMs''),
      (''distanceinmeters'', put UInt32 ''distanceInMeters''),
      (''batchingmode'', put_enum (getPBEnumForBatchingMode hal) ''batchingMode'')]"

definition LocAPIUpdateBatchingOptionsReqMsg_serializeToProtobuf :: "pb_library \<Rightarrow> hal_values \<Rightarrow> loc_api_msg \<Rightarrow> string option option" where
  "LocAPIUpdateBatchingOptionsReqMsg_serializeToProtobuf lib hal =
     serialize_message lib hal ''LocAPIUpdateBatchingOptionsReqMsg''
       ''PBLocAPIUpdateBatchingOptionsReqMsg'' (payload_of_LocAPIUpdateBatchingOptionsReqMsg hal)"

definition members_of_LocAPIUpdateBatchingOptionsReqMsg :: "hal_values \<Rightarrow> member_types \<Rightarrow> assignment list" where
  "members_of_LocAPIUpdateBatchingOptionsReqMsg hal ty =
     [(''intervalInMs'', get (fit UInt32) ''intervalinms''),
      (''distanceInMeters'', get (fit UInt32) ''distanceinmeters''),
      (''batchingMode'', get_enum (getEnumForPBBatchingMode hal) ''batchingmode'')]"

definition LocAPIUpdateBatchingOptionsReqMsg_fromProtobuf :: "hal_values \<Rightarrow> member_types \<Rightarrow> string \<Rightarrow> struct \<Rightarrow> bool \<Rightarrow> loc_api_msg option" where
  "LocAPIUpdateBatchingOptionsReqMsg_fromProtobuf hal ty name =
     received Checked name E_LOCAPI_UPDATE_BATCHING_OPTIONS_MSG_ID (members_of_LocAPIUpdateBatchingOptionsReqMsg hal ty)"

section \<open>Geofences\<close>

subsection \<open>\<open>LocAPIAddGeofencesReqMsg\<close>\<close>

definition LocAPIAddGeofencesReqMsg :: "string \<Rightarrow> struct \<Rightarrow> bool \<Rightarrow> loc_api_msg" where
  "LocAPIAddGeofencesReqMsg name geofencesAdded pbMsgConv =
     new_message name E_LOCAPI_ADD_GEOFENCES_MSG_ID pbMsgConv [(''geofences'', Obj geofencesAdded)]"

definition payload_of_LocAPIAddGeofencesReqMsg :: "hal_values \<Rightarrow> assignment list" where
  "payload_of_LocAPIAddGeofencesReqMsg hal =
     [(''geofences'', sub ''geofences'' (convertGfAddedReqPayloadToPB hal) ''geofences'')]"

definition LocAPIAddGeofencesReqMsg_serializeToProtobuf :: "pb_library \<Rightarrow> hal_values \<Rightarrow> loc_api_msg \<Rightarrow> string option option" where
  "LocAPIAddGeofencesReqMsg_serializeToProtobuf lib hal =
     serialize_message lib hal ''LocAPIAddGeofencesReqMsg''
       ''PBLocAPIAddGeofencesReqMsg'' (payload_of_LocAPIAddGeofencesReqMsg hal)"

definition members_of_LocAPIAddGeofencesReqMsg :: "hal_values \<Rightarrow> member_types \<Rightarrow> assignment list" where
  "members_of_LocAPIAddGeofencesReqMsg hal ty =
     [(''geofences'', into ''geofences'' (pbConvertToGfAddReqPayload hal ty) ''geofences'')]"

definition LocAPIAddGeofencesReqMsg_fromProtobuf :: "hal_values \<Rightarrow> member_types \<Rightarrow> string \<Rightarrow> struct \<Rightarrow> bool \<Rightarrow> loc_api_msg option" where
  "LocAPIAddGeofencesReqMsg_fromProtobuf hal ty name =
     received Checked name E_LOCAPI_ADD_GEOFENCES_MSG_ID (members_of_LocAPIAddGeofencesReqMsg hal ty)"

subsection \<open>\<open>LocAPIRemoveGeofencesReqMsg\<close>\<close>

definition LocAPIRemoveGeofencesReqMsg :: "string \<Rightarrow> struct \<Rightarrow> bool \<Rightarrow> loc_api_msg" where
  "LocAPIRemoveGeofencesReqMsg name ids pbMsgConv =
     new_message name E_LOCAPI_REMOVE_GEOFENCES_MSG_ID pbMsgConv [(''gfClientIds'', Obj ids)]"

definition payload_of_LocAPIRemoveGeofencesReqMsg :: "hal_values \<Rightarrow> assignment list" where
  "payload_of_LocAPIRemoveGeofencesReqMsg hal =
     [(''gfclientids'', sub ''gfclientids'' (convertGfReqClientIdPayloadToPB hal) ''gfClientIds'')]"

definition LocAPIRemoveGeofencesReqMsg_serializeToProtobuf :: "pb_library \<Rightarrow> hal_values \<Rightarrow> loc_api_msg \<Rightarrow> string option option" where
  "LocAPIRemoveGeofencesReqMsg_serializeToProtobuf lib hal =
     serialize_message lib hal ''LocAPIRemoveGeofencesReqMsg''
       ''PBLocAPIRemoveGeofencesReqMsg'' (payload_of_LocAPIRemoveGeofencesReqMsg hal)"

definition members_of_LocAPIRemoveGeofencesReqMsg :: "hal_values \<Rightarrow> member_types \<Rightarrow> assignment list" where
  "members_of_LocAPIRemoveGeofencesReqMsg hal ty =
     [(''gfClientIds'', into ''gfClientIds'' (pbConvertToGfReqClientIdPayload hal ty) ''gfclientids'')]"

definition LocAPIRemoveGeofencesReqMsg_fromProtobuf :: "hal_values \<Rightarrow> member_types \<Rightarrow> string \<Rightarrow> struct \<Rightarrow> bool \<Rightarrow> loc_api_msg option" where
  "LocAPIRemoveGeofencesReqMsg_fromProtobuf hal ty name =
     received Checked name E_LOCAPI_REMOVE_GEOFENCES_MSG_ID (members_of_LocAPIRemoveGeofencesReqMsg hal ty)"

subsection \<open>\<open>LocAPIModifyGeofencesReqMsg\<close>\<close>

definition LocAPIModifyGeofencesReqMsg :: "string \<Rightarrow> struct \<Rightarrow> bool \<Rightarrow> loc_api_msg" where
  "LocAPIModifyGeofencesReqMsg name geofencesModified pbMsgConv =
     new_message name E_LOCAPI_MODIFY_GEOFENCES_MSG_ID pbMsgConv [(''geofences'', Obj geofencesModified)]"

definition payload_of_LocAPIModifyGeofencesReqMsg :: "hal_values \<Rightarrow> assignment list" where
  "payload_of_LocAPIModifyGeofencesReqMsg hal =
     [(''geofences'', sub ''geofences'' (convertGfAddedReqPayloadToPB hal) ''geofences'')]"

definition LocAPIModifyGeofencesReqMsg_serializeToProtobuf :: "pb_library \<Rightarrow> hal_values \<Rightarrow> loc_api_msg \<Rightarrow> string option option" where
  "LocAPIModifyGeofencesReqMsg_serializeToProtobuf lib hal =
     serialize_message lib hal ''LocAPIModifyGeofencesReqMsg''
       ''PBLocAPIModifyGeofencesReqMsg'' (payload_of_LocAPIModifyGeofencesReqMsg hal)"

definition members_of_LocAPIModifyGeofencesReqMsg :: "hal_values \<Rightarrow> member_types \<Rightarrow> assignment list" where
  "members_of_LocAPIModifyGeofencesReqMsg hal ty =
     [(''geofences'', into ''geofences'' (pbConvertToGfAddReqPayload hal ty) ''geofences'')]"

definition LocAPIModifyGeofencesReqMsg_fromProtobuf :: "hal_values \<Rightarrow> member_types \<Rightarrow> string \<Rightarrow> struct \<Rightarrow> bool \<Rightarrow> loc_api_msg option" where
  "LocAPIModifyGeofencesReqMsg_fromProtobuf hal ty name =
     received Checked name E_LOCAPI_MODIFY_GEOFENCES_MSG_ID (members_of_LocAPIModifyGeofencesReqMsg hal ty)"

subsection \<open>\<open>LocAPIPauseGeofencesReqMsg\<close>\<close>

definition LocAPIPauseGeofencesReqMsg :: "string \<Rightarrow> struct \<Rightarrow> bool \<Rightarrow> loc_api_msg" where
  "LocAPIPauseGeofencesReqMsg name ids pbMsgConv =
     new_message name E_LOCAPI_PAUSE_GEOFENCES_MSG_ID pbMsgConv [(''gfClientIds'', Obj ids)]"

definition payload_of_LocAPIPauseGeofencesReqMsg :: "hal_values \<Rightarrow> assignment list" where
  "payload_of_LocAPIPauseGeofencesReqMsg hal =
     [(''gfclientids'', sub ''gfclientids'' (convertGfReqClientIdPayloadToPB hal) ''gfClientIds'')]"

definition LocAPIPauseGeofencesReqMsg_serializeToProtobuf :: "pb_library \<Rightarrow> hal_values \<Rightarrow> loc_api_msg \<Rightarrow> string option option" where
  "LocAPIPauseGeofencesReqMsg_serializeToProtobuf lib hal =
     serialize_message lib hal ''LocAPIPauseGeofencesReqMsg''
       ''PBLocAPIPauseGeofencesReqMsg'' (payload_of_LocAPIPauseGeofencesReqMsg hal)"

definition members_of_LocAPIPauseGeofencesReqMsg :: "hal_values \<Rightarrow> member_types \<Rightarrow> assignment list" where
  "members_of_LocAPIPauseGeofencesReqMsg hal ty =
     [(''gfClientIds'', into ''gfClientIds'' (pbConvertToGfReqClientIdPayload hal ty) ''gfclientids'')]"

definition LocAPIPauseGeofencesReqMsg_fromProtobuf :: "hal_values \<Rightarrow> member_types \<Rightarrow> string \<Rightarrow> struct \<Rightarrow> bool \<Rightarrow> loc_api_msg option" where
  "LocAPIPauseGeofencesReqMsg_fromProtobuf hal ty name =
     received Checked name E_LOCAPI_PAUSE_GEOFENCES_MSG_ID (members_of_LocAPIPauseGeofencesReqMsg hal ty)"

subsection \<open>\<open>LocAPIResumeGeofencesReqMsg\<close>\<close>

definition LocAPIResumeGeofencesReqMsg :: "string \<Rightarrow> struct \<Rightarrow> bool \<Rightarrow> loc_api_msg" where
  "LocAPIResumeGeofencesReqMsg name ids pbMsgConv =
     new_message name E_LOCAPI_RESUME_GEOFENCES_MSG_ID pbMsgConv [(''gfClientIds'', Obj ids)]"

definition payload_of_LocAPIResumeGeofencesReqMsg :: "hal_values \<Rightarrow> assignment list" where
  "payload_of_LocAPIResumeGeofencesReqMsg hal =
     [(''gfclientids'', sub ''gfclientids'' (convertGfReqClientIdPayloadToPB hal) ''gfClientIds'')]"

definition LocAPIResumeGeofencesReqMsg_serializeToProtobuf :: "pb_library \<Rightarrow> hal_values \<Rightarrow> loc_api_msg \<Rightarrow> string option option" where
  "LocAPIResumeGeofencesReqMsg_serializeToProtobuf lib hal =
     serialize_message lib hal ''LocAPIResumeGeofencesReqMsg''
       ''PBLocAPIResumeGeofencesReqMsg'' (payload_of_LocAPIResumeGeofencesReqMsg hal)"

definition members_of_LocAPIResumeGeofencesReqMsg :: "hal_values \<Rightarrow> member_types \<Rightarrow> assignment list" where
  "members_of_LocAPIResumeGeofencesReqMsg hal ty =
     [(''gfClientIds'', into ''gfClientIds'' (pbConvertToGfReqClientIdPayload hal ty) ''gfclientids'')]"

definition LocAPIResumeGeofencesReqMsg_fromProtobuf :: "hal_values \<Rightarrow> member_types \<Rightarrow> string \<Rightarrow> struct \<Rightarrow> bool \<Rightarrow> loc_api_msg option" where
  "LocAPIResumeGeofencesReqMsg_fromProtobuf hal ty name =
     received Checked name E_LOCAPI_RESUME_GEOFENCES_MSG_ID (members_of_LocAPIResumeGeofencesReqMsg hal ty)"

section \<open>Control and single positions\<close>

subsection \<open>\<open>LocAPIUpdateNetworkAvailabilityReqMsg\<close>\<close>

definition LocAPIUpdateNetworkAvailabilityReqMsg :: "string \<Rightarrow> int \<Rightarrow> bool \<Rightarrow> loc_api_msg" where
  "LocAPIUpdateNetworkAvailabilityReqMsg name availability pbMsgConv =
     new_message name E_LOCAPI_CONTROL_UPDATE_NETWORK_AVAILABILITY_MSG_ID pbMsgConv [(''mAvailability'', Num availability)]"

definition payload_of_LocAPIUpdateNetworkAvailabilityReqMsg :: "hal_values \<Rightarrow> assignment list" where
  "payload_of_LocAPIUpdateNetworkAvailabilityReqMsg hal =
     [(''mavailability'', put Boolean ''mAvailability'')]"

definition LocAPIUpdateNetworkAvailabilityReqMsg_serializeToProtobuf :: "pb_library \<Rightarrow> hal_values \<Rightarrow> loc_api_msg \<Rightarrow> string option option" where
  "LocAPIUpdateNetworkAvailabilityReqMsg_serializeToProtobuf lib hal =
     serialize_message lib hal ''LocAPIUpdateNetworkAvailabilityReqMsg''
       ''PBLocAPIUpdateNetworkAvailabilityReqMsg'' (payload_of_LocAPIUpdateNetworkAvailabilityReqMsg hal)"

definition members_of_LocAPIUpdateNetworkAvailabilityReqMsg :: "hal_values \<Rightarrow> member_types \<Rightarrow> assignment list" where
  "members_of_LocAPIUpdateNetworkAvailabilityReqMsg hal ty =
     [(''mAvailability'', get (fit Boolean) ''mavailability'')]"

definition LocAPIUpdateNetworkAvailabilityReqMsg_fromProtobuf :: "hal_values \<Rightarrow> member_types \<Rightarrow> string \<Rightarrow> struct \<Rightarrow> bool \<Rightarrow> loc_api_msg option" where
  "LocAPIUpdateNetworkAvailabilityReqMsg_fromProtobuf hal ty name =
     received Unneeded name E_LOCAPI_CONTROL_UPDATE_NETWORK_AVAILABILITY_MSG_ID (members_of_LocAPIUpdateNetworkAvailabilityReqMsg hal ty)"

subsection \<open>\<open>LocAPIGetGnssEnergyConsumedReqMsg\<close>\<close>

definition LocAPIGetGnssEnergyConsumedReqMsg :: "string \<Rightarrow> bool \<Rightarrow> loc_api_msg" where
  "LocAPIGetGnssEnergyConsumedReqMsg name pbMsgConv =
     new_message name E_LOCAPI_GET_GNSS_ENGERY_CONSUMED_MSG_ID pbMsgConv []"

definition LocAPIGetGnssEnergyConsumedReqMsg_serializeToProtobuf :: "pb_library \<Rightarrow> hal_values \<Rightarrow> loc_api_msg \<Rightarrow> string option option" where
  "LocAPIGetGnssEnergyConsumedReqMsg_serializeToProtobuf lib hal =
     serialize_bare lib hal ''LocAPIGetGnssEnergyConsumedReqMsg''"

subsection \<open>\<open>LocAPIGetSingleTerrestrialPosReqMsg\<close>\<close>

definition LocAPIGetSingleTerrestrialPosReqMsg :: "string \<Rightarrow> int \<Rightarrow> int \<Rightarrow> int \<Rightarrow> bool \<Rightarrow> loc_api_msg" where
  "LocAPIGetSingleTerrestrialPosReqMsg name timeoutMsec techMask horQoS pbMsgConv =
     new_message name E_LOCAPI_GET_SINGLE_TERRESTRIAL_POS_REQ_MSG_ID pbMsgConv [(''mTimeoutMsec'', Num timeoutMsec),
        (''mTechMask'', Num techMask),
        (''mHorQoS'', Num horQoS)]"

definition payload_of_LocAPIGetSingleTerrestrialPosReqMsg :: "hal_values \<Rightarrow> assignment list" where
  "payload_of_LocAPIGetSingleTerrestrialPosReqMsg hal =
     [(''timeoutmsec'', put UInt32 ''mTimeoutMsec''),
      (''techmask'', put_mask (getPBMaskForTerrestrialTechMask hal) ''mTechMask''),
      (''horqos'', put Float ''mHorQoS'')]"

definition LocAPIGetSingleTerrestrialPosReqMsg_serializeToProtobuf :: "pb_library \<Rightarrow> hal_values \<Rightarrow> loc_api_msg \<Rightarrow> string option option" where
  "LocAPIGetSingleTerrestrialPosReqMsg_serializeToProtobuf lib hal =
     serialize_message lib hal ''LocAPIGetSingleTerrestrialPosReqMsg''
       ''PBLocAPIGetSingleTerrestrialPosReqMsg'' (payload_of_LocAPIGetSingleTerrestrialPosReqMsg hal)"

definition members_of_LocAPIGetSingleTerrestrialPosReqMsg :: "hal_values \<Rightarrow> member_types \<Rightarrow> assignment list" where
  "members_of_LocAPIGetSingleTerrestrialPosReqMsg hal ty =
     [(''mTimeoutMsec'', get (fit UInt32) ''timeoutmsec''),
      (''mTechMask'', get_mask (getTerrestrialTechMaskFromPB hal) ''techmask''),
      (''mHorQoS'', get (fit Float) ''horqos'')]"

definition LocAPIGetSingleTerrestrialPosReqMsg_fromProtobuf :: "hal_values \<Rightarrow> member_types \<Rightarrow> string \<Rightarrow> struct \<Rightarrow> bool \<Rightarrow> loc_api_msg option" where
  "LocAPIGetSingleTerrestrialPosReqMsg_fromProtobuf hal ty name =
     received Unchecked name E_LOCAPI_GET_SINGLE_TERRESTRIAL_POS_REQ_MSG_ID (members_of_LocAPIGetSingleTerrestrialPosReqMsg hal ty)"

subsection \<open>\<open>LocAPIGetSingleTerrestrialPosRespMsg\<close>\<close>

definition LocAPIGetSingleTerrestrialPosRespMsg :: "string \<Rightarrow> int \<Rightarrow> struct \<Rightarrow> bool \<Rightarrow> loc_api_msg" where
  "LocAPIGetSingleTerrestrialPosRespMsg name errorCode location pbMsgConv =
     new_message name E_LOCAPI_GET_SINGLE_TERRESTRIAL_POS_RESP_MSG_ID pbMsgConv [(''mErrorCode'', Num errorCode), (''mLocation'', Obj location)]"

definition payload_of_LocAPIGetSingleTerrestrialPosRespMsg :: "hal_values \<Rightarrow> assignment list" where
  "payload_of_LocAPIGetSingleTerrestrialPosRespMsg hal =
     [(''errorcode'', put_enum (getPBEnumForLocationError hal) ''mErrorCode''),
      (''location'', sub ''location'' (convertLocationToPB hal) ''mLocation'')]"

definition LocAPIGetSingleTerrestrialPosRespMsg_serializeToProtobuf :: "pb_library \<Rightarrow> hal_values \<Rightarrow> loc_api_msg \<Rightarrow> string option option" where
  "LocAPIGetSingleTerrestrialPosRespMsg_serializeToProtobuf lib hal =
     serialize_message lib hal ''LocAPIGetSingleTerrestrialPosRespMsg''
       ''PBLocAPIGetSingleTerrestrialPosRespMsg'' (payload_of_LocAPIGetSingleTerrestrialPosRespMsg hal)"

definition members_of_LocAPIGetSingleTerrestrialPosRespMsg :: "hal_values \<Rightarrow> member_types \<Rightarrow> assignment list" where
  "members_of_LocAPIGetSingleTerrestrialPosRespMsg hal ty =
     [(''mErrorCode'', get_enum (getEnumForPBLocationError hal) ''errorcode''),
      (''mLocation'', when_has ''location'' ''mLocation'' (into ''mLocation'' (pbConvertToLocation hal ty) ''location''))]"

definition LocAPIGetSingleTerrestrialPosRespMsg_fromProtobuf :: "hal_values \<Rightarrow> member_types \<Rightarrow> string \<Rightarrow> struct \<Rightarrow> bool \<Rightarrow> loc_api_msg option" where
  "LocAPIGetSingleTerrestrialPosRespMsg_fromProtobuf hal ty name =
     received Unchecked name E_LOCAPI_GET_SINGLE_TERRESTRIAL_POS_RESP_MSG_ID (members_of_LocAPIGetSingleTerrestrialPosRespMsg hal ty)"

subsection \<open>\<open>LocAPIGetSinglePosReqMsg\<close>\<close>

definition LocAPIGetSinglePosReqMsg :: "string \<Rightarrow> int \<Rightarrow> int \<Rightarrow> bool \<Rightarrow> loc_api_msg" where
  "LocAPIGetSinglePosReqMsg name timeoutMsec horQoS pbMsgConv =
     new_message name E_LOCAPI_GET_SINGLE_POS_REQ_MSG_ID pbMsgConv [(''mTimeoutMsec'', Num timeoutMsec), (''mHorQoS'', Num horQoS)]"

definition payload_of_LocAPIGetSinglePosReqMsg :: "hal_values \<Rightarrow> assignment list" where
  "payload_of_LocAPIGetSinglePosReqMsg hal =
     [(''timeoutmsec'', put UInt32 ''mTimeoutMsec''),
      (''horqos'', put Float ''mHorQoS'')]"

definition LocAPIGetSinglePosReqMsg_serializeToProtobuf :: "pb_library \<Rightarrow> hal_values \<Rightarrow> loc_api_msg \<Rightarrow> string option option" where
  "LocAPIGetSinglePosReqMsg_serializeToProtobuf lib hal =
     serialize_message lib hal ''LocAPIGetSinglePosReqMsg''
       ''PBLocAPIGetSinglePosReqMsg'' (payload_of_LocAPIGetSinglePosReqMsg hal)"

definition members_of_LocAPIGetSinglePosReqMsg :: "hal_values \<Rightarrow> member_types \<Rightarrow> assignment list" where
  "members_of_LocAPIGetSinglePosReqMsg hal ty =
     [(''mTimeoutMsec'', get (fit UInt32) ''timeoutmsec''),
      (''mHorQoS'', get (fit Float) ''horqos'')]"

definition LocAPIGetSinglePosReqMsg_fromProtobuf :: "hal_values \<Rightarrow> member_types \<Rightarrow> string \<Rightarrow> struct \<Rightarrow> bool \<Rightarrow> loc_api_msg option" where
  "LocAPIGetSinglePosReqMsg_fromProtobuf hal ty name =
     received Unneeded name E_LOCAPI_GET_SINGLE_POS_REQ_MSG_ID (members_of_LocAPIGetSinglePosReqMsg hal ty)"

subsection \<open>\<open>LocAPIGetSinglePosRespMsg\<close>\<close>

definition LocAPIGetSinglePosRespMsg :: "string \<Rightarrow> int \<Rightarrow> struct \<Rightarrow> bool \<Rightarrow> loc_api_msg" where
  "LocAPIGetSinglePosRespMsg name errorCode location pbMsgConv =
     new_message name E_LOCAPI_GET_SINGLE_POS_RESP_MSG_ID pbMsgConv [(''mErrorCode'', Num errorCode), (''mLocation'', Obj location)]"

definition payload_of_LocAPIGetSinglePosRespMsg :: "hal_values \<Rightarrow> assignment list" where
  "payload_of_LocAPIGetSinglePosRespMsg hal =
     [(''errorcode'', put_enum (getPBEnumForLocationError hal) ''mErrorCode''),
      (''location'', sub ''location'' (convertLocationToPB hal) ''mLocation'')]"

definition LocAPIGetSinglePosRespMsg_serializeToProtobuf :: "pb_library \<Rightarrow> hal_values \<Rightarrow> loc_api_msg \<Rightarrow> string option option" where
  "LocAPIGetSinglePosRespMsg_serializeToProtobuf lib hal =
     serialize_message lib hal ''LocAPIGetSinglePosRespMsg''
       ''PBLocAPIGetSinglePosRespMsg'' (payload_of_LocAPIGetSinglePosRespMsg hal)"

definition members_of_LocAPIGetSinglePosRespMsg :: "hal_values \<Rightarrow> member_types \<Rightarrow> assignment list" where
  "members_of_LocAPIGetSinglePosRespMsg hal ty =
     [(''mErrorCode'', get_enum (getEnumForPBLocationError hal) ''errorcode''),
      (''mLocation'', when_has ''location'' ''mLocation'' (into ''mLocation'' (pbConvertToLocation hal ty) ''location''))]"

definition LocAPIGetSinglePosRespMsg_fromProtobuf :: "hal_values \<Rightarrow> member_types \<Rightarrow> string \<Rightarrow> struct \<Rightarrow> bool \<Rightarrow> loc_api_msg option" where
  "LocAPIGetSinglePosRespMsg_fromProtobuf hal ty name =
     received Unchecked name E_LOCAPI_GET_SINGLE_POS_RESP_MSG_ID (members_of_LocAPIGetSinglePosRespMsg hal ty)"

section \<open>Indications\<close>

subsection \<open>\<open>LocAPILocationIndMsg\<close>\<close>

definition LocAPILocationIndMsg :: "string \<Rightarrow> struct \<Rightarrow> bool \<Rightarrow> loc_api_msg" where
  "LocAPILocationIndMsg name location pbMsgConv =
     new_message name E_LOCAPI_LOCATION_MSG_ID pbMsgConv [(''locationNotification'', Obj location)]"

definition payload_of_LocAPILocationIndMsg :: "hal_values \<Rightarrow> assignment list" where
  "payload_of_LocAPILocationIndMsg hal =
     [(''locationnotification'', sub ''locationnotification'' (convertLocationToPB hal) ''locationNotification'')]"

definition LocAPILocationIndMsg_serializeToProtobuf :: "pb_library \<Rightarrow> hal_values \<Rightarrow> loc_api_msg \<Rightarrow> string option option" where
  "LocAPILocationIndMsg_serializeToProtobuf lib hal =
     serialize_message lib hal ''LocAPILocationIndMsg''
       ''PBLocAPILocationIndMsg'' (payload_of_LocAPILocationIndMsg hal)"

definition members_of_LocAPILocationIndMsg :: "hal_values \<Rightarrow> member_types \<Rightarrow> assignment list" where
  "members_of_LocAPILocationIndMsg hal ty =
     [(''locationNotification'', into ''locationNotification'' (pbConvertToLocation hal ty) ''locationnotification'')]"

definition LocAPILocationIndMsg_fromProtobuf :: "hal_values \<Rightarrow> member_types \<Rightarrow> string \<Rightarrow> struct \<Rightarrow> bool \<Rightarrow> loc_api_msg option" where
  "LocAPILocationIndMsg_fromProtobuf hal ty name =
     received Checked name E_LOCAPI_LOCATION_MSG_ID (members_of_LocAPILocationIndMsg hal ty)"

subsection \<open>\<open>LocAPIBatchingIndMsg\<close>\<close>

definition LocAPIBatchingIndMsg_empty :: "string \<Rightarrow> bool \<Rightarrow> loc_api_msg" where
  "LocAPIBatchingIndMsg_empty name pbMsgConv =
     new_message name E_LOCAPI_BATCHING_MSG_ID pbMsgConv []"

definition LocAPIBatchingIndMsg :: "string \<Rightarrow> struct \<Rightarrow> int \<Rightarrow> bool \<Rightarrow> loc_api_msg" where
  "LocAPIBatchingIndMsg name batchNotif mode pbMsgConv =
     new_message name E_LOCAPI_BATCHING_MSG_ID pbMsgConv [(''batchingMode'', Num mode), (''batchNotification'', Obj batchNotif)]"

definition payload_of_LocAPIBatchingIndMsg :: "hal_values \<Rightarrow> assignment list" where
  "payload_of_LocAPIBatchingIndMsg hal =
     [(''batchnotification'', sub ''batchnotification'' (convertLocAPIBatchingNotifMsgToPB hal) ''batchNotification''),
      (''batchingmode'', put_enum (getPBEnumForBatchingMode hal) ''batchingMode'')]"

definition LocAPIBatchingIndMsg_serializeToProtobuf :: "pb_library \<Rightarrow> hal_values \<Rightarrow> loc_api_msg \<Rightarrow> string option option" where
  "LocAPIBatchingIndMsg_serializeToProtobuf lib hal =
     serialize_message lib hal ''LocAPIBatchingIndMsg''
       ''PBLocAPIBatchingIndMsg'' (payload_of_LocAPIBatchingIndMsg hal)"

definition members_of_LocAPIBatchingIndMsg :: "hal_values \<Rightarrow> member_types \<Rightarrow> assignment list" where
  "members_of_LocAPIBatchingIndMsg hal ty =
     [(''batchNotification'', into ''batchNotification'' (pbConvertToLocAPIBatchNotification hal ty) ''batchnotification''),
      (''batchingMode'', get_enum (getEnumForPBBatchingMode hal) ''batchingmode'')]"

definition LocAPIBatchingIndMsg_fromProtobuf :: "hal_values \<Rightarrow> member_types \<Rightarrow> string \<Rightarrow> struct \<Rightarrow> bool \<Rightarrow> loc_api_msg option" where
  "LocAPIBatchingIndMsg_fromProtobuf hal ty name =
     received Checked name E_LOCAPI_BATCHING_MSG_ID (members_of_LocAPIBatchingIndMsg hal ty)"

subsection \<open>\<open>LocAPIGeofenceBreachIndMsg\<close>\<close>

definition LocAPIGeofenceBreachIndMsg_empty :: "string \<Rightarrow> bool \<Rightarrow> loc_api_msg" where
  "LocAPIGeofenceBreachIndMsg_empty name pbMsgConv =
     new_message name E_LOCAPI_GEOFENCE_BREACH_MSG_ID pbMsgConv []"

definition LocAPIGeofenceBreachIndMsg :: "string \<Rightarrow> struct \<Rightarrow> bool \<Rightarrow> loc_api_msg" where
  "LocAPIGeofenceBreachIndMsg name gfBreachNotif pbMsgConv =
     new_message name E_LOCAPI_GEOFENCE_BREACH_MSG_ID pbMsgConv [(''gfBreachNotification'', Obj gfBreachNotif)]"

definition payload_of_LocAPIGeofenceBreachIndMsg :: "hal_values \<Rightarrow> assignment list" where
  "payload_of_LocAPIGeofenceBreachIndMsg hal =
     [(''gfbreachnotification'', sub ''gfbreachnotification'' (convertLocAPIGfBreachNotifToPB hal) ''gfBreachNotification'')]"

definition LocAPIGeofenceBreachIndMsg_serializeToProtobuf :: "pb_library \<Rightarrow> hal_values \<Rightarrow> loc_api_msg \<Rightarrow> string option option" where
  "LocAPIGeofenceBreachIndMsg_serializeToProtobuf lib hal =
     serialize_message lib hal ''LocAPIGeofenceBreachIndMsg''
       ''PBLocAPIGeofenceBreachIndMsg'' (payload_of_LocAPIGeofenceBreachIndMsg hal)"

definition members_of_LocAPIGeofenceBreachIndMsg :: "hal_values \<Rightarrow> member_types \<Rightarrow> assignment list" where
  "members_of_LocAPIGeofenceBreachIndMsg hal ty =
     [(''gfBreachNotification'', into ''gfBreachNotification'' (pbConvertToLocAPIGfBreachNotification hal ty) ''gfbreachnotification'')]"

definition LocAPIGeofenceBreachIndMsg_fromProtobuf :: "hal_values \<Rightarrow> member_types \<Rightarrow> string \<Rightarrow> struct \<Rightarrow> bool \<Rightarrow> loc_api_msg option" where
  "LocAPIGeofenceBreachIndMsg_fromProtobuf hal ty name =
     received Checked name E_LOCAPI_GEOFENCE_BREACH_MSG_ID (members_of_LocAPIGeofenceBreachIndMsg hal ty)"

subsection \<open>\<open>LocAPILocationInfoIndMsg\<close>\<close>

definition LocAPILocationInfoIndMsg :: "string \<Rightarrow> struct \<Rightarrow> bool \<Rightarrow> loc_api_msg" where
  "LocAPILocationInfoIndMsg name locationInfo pbMsgConv =
     new_message name E_LOCAPI_LOCATION_INFO_MSG_ID pbMsgConv [(''gnssLocationInfoNotification'', Obj locationInfo)]"

definition payload_of_LocAPILocationInfoIndMsg :: "hal_values \<Rightarrow> assignment list" where
  "payload_of_LocAPILocationInfoIndMsg hal =
     [(''gnsslocationinfonotification'', sub ''gnsslocationinfonotification'' (convertGnssLocInfoNotifToPB hal) ''gnssLocationInfoNotification'')]"

definition LocAPILocationInfoIndMsg_serializeToProtobuf :: "pb_library \<Rightarrow> hal_values \<Rightarrow> loc_api_msg \<Rightarrow> string option option" where
  "LocAPILocationInfoIndMsg_serializeToProtobuf lib hal =
     serialize_message lib hal ''LocAPILocationInfoIndMsg''
       ''PBLocAPILocationInfoIndMsg'' (payload_of_LocAPILocationInfoIndMsg hal)"

definition members_of_LocAPILocationInfoIndMsg :: "hal_values \<Rightarrow> member_types \<Rightarrow> assignment list" where
  "members_of_LocAPILocationInfoIndMsg hal ty =
     [(''gnssLocationInfoNotification'', into ''gnssLocationInfoNotification'' (pbConvertToGnssLocInfoNotif hal ty) ''gnsslocationinfonotification'')]"

definition LocAPILocationInfoIndMsg_fromProtobuf :: "hal_values \<Rightarrow> member_types \<Rightarrow> string \<Rightarrow> struct \<Rightarrow> bool \<Rightarrow> loc_api_msg option" where
  "LocAPILocationInfoIndMsg_fromProtobuf hal ty name =
     received Checked name E_LOCAPI_LOCATION_INFO_MSG_ID (members_of_LocAPILocationInfoIndMsg hal ty)"

subsection \<open>\<open>LocAPIEngineLocationsInfoIndMsg\<close>\<close>

definition LocAPIEngineLocationsInfoIndMsg :: "hal_values \<Rightarrow> string \<Rightarrow> int \<Rightarrow> struct list \<Rightarrow> bool \<Rightarrow> loc_api_msg option" where
  "LocAPIEngineLocationsInfoIndMsg hal name cnt locationInfo pbMsgConv =
     (let n = min (fit UInt32 cnt) (fit UInt32 (hal ''LOC_OUTPUT_ENGINE_COUNT'')) in
      if nat n \<le> length locationInfo
      then Some (new_message name E_LOCAPI_ENGINE_LOCATIONS_INFO_MSG_ID pbMsgConv
        [(''count'', Num n), (''engineLocationsInfo'', Seq (map Obj (take (nat n) locationInfo)))])
      else None)"

definition payload_of_LocAPIEngineLocationsInfoIndMsg :: "hal_values \<Rightarrow> assignment list" where
  "payload_of_LocAPIEngineLocationsInfoIndMsg hal =
     [(''enginelocationsinfo'', add ''enginelocationsinfo'' (message (convertGnssLocInfoNotifToPB hal))
        (first_elements (\<lambda>s. min (num (s ''count'')) (fit UInt32 (hal ''LOC_OUTPUT_ENGINE_COUNT''))) ''engineLocationsInfo''))]"

definition LocAPIEngineLocationsInfoIndMsg_serializeToProtobuf :: "pb_library \<Rightarrow> hal_values \<Rightarrow> loc_api_msg \<Rightarrow> string option option" where
  "LocAPIEngineLocationsInfoIndMsg_serializeToProtobuf lib hal =
     serialize_message lib hal ''LocAPIEngineLocationsInfoIndMsg''
       ''PBLocAPIEngineLocationsInfoIndMsg'' (payload_of_LocAPIEngineLocationsInfoIndMsg hal)"

definition members_of_LocAPIEngineLocationsInfoIndMsg :: "hal_values \<Rightarrow> member_types \<Rightarrow> assignment list" where
  "members_of_LocAPIEngineLocationsInfoIndMsg hal ty =
     [(''count'', (\<lambda>s d. Some (Num (min (int (length (elements (s ''enginelocationsinfo'')))) (fit UInt32 (hal ''LOC_OUTPUT_ENGINE_COUNT'')))))),
      (''engineLocationsInfo'', fill (hal ''LOC_OUTPUT_ENGINE_COUNT'') ''engineLocationsInfo'' (to_struct (pbConvertToGnssLocInfoNotif hal ty))
        (first_of (\<lambda>s d. num (d ''count'')) ''enginelocationsinfo''))]"

definition LocAPIEngineLocationsInfoIndMsg_fromProtobuf :: "hal_values \<Rightarrow> member_types \<Rightarrow> string \<Rightarrow> struct \<Rightarrow> bool \<Rightarrow> loc_api_msg option" where
  "LocAPIEngineLocationsInfoIndMsg_fromProtobuf hal ty name =
     received Checked name E_LOCAPI_ENGINE_LOCATIONS_INFO_MSG_ID (members_of_LocAPIEngineLocationsInfoIndMsg hal ty)"

subsection \<open>\<open>LocAPISatelliteVehicleIndMsg\<close>\<close>

definition LocAPISatelliteVehicleIndMsg :: "string \<Rightarrow> struct \<Rightarrow> bool \<Rightarrow> loc_api_msg" where
  "LocAPISatelliteVehicleIndMsg name svNotification pbMsgConv =
     new_message name E_LOCAPI_SATELLITE_VEHICLE_MSG_ID pbMsgConv [(''gnssSvNotification'', Obj svNotification)]"

definition payload_of_LocAPISatelliteVehicleIndMsg :: "hal_values \<Rightarrow> assignment list" where
  "payload_of_LocAPISatelliteVehicleIndMsg hal =
     [(''gnsssvnotification'', sub ''gnsssvnotification'' (convertGnssSvNotifToPB hal) ''gnssSvNotification'')]"

definition LocAPISatelliteVehicleIndMsg_serializeToProtobuf :: "pb_library \<Rightarrow> hal_values \<Rightarrow> loc_api_msg \<Rightarrow> string option option" where
  "LocAPISatelliteVehicleIndMsg_serializeToProtobuf lib hal =
     serialize_message lib hal ''LocAPISatelliteVehicleIndMsg''
       ''PBLocAPISatelliteVehicleIndMsg'' (payload_of_LocAPISatelliteVehicleIndMsg hal)"

definition members_of_LocAPISatelliteVehicleIndMsg :: "hal_values \<Rightarrow> member_types \<Rightarrow> assignment list" where
  "members_of_LocAPISatelliteVehicleIndMsg hal ty =
     [(''gnssSvNotification'', into ''gnssSvNotification'' (pbConvertToGnssSvNotif hal ty) ''gnsssvnotification'')]"

definition LocAPISatelliteVehicleIndMsg_fromProtobuf :: "hal_values \<Rightarrow> member_types \<Rightarrow> string \<Rightarrow> struct \<Rightarrow> bool \<Rightarrow> loc_api_msg option" where
  "LocAPISatelliteVehicleIndMsg_fromProtobuf hal ty name =
     received Checked name E_LOCAPI_SATELLITE_VEHICLE_MSG_ID (members_of_LocAPISatelliteVehicleIndMsg hal ty)"

subsection \<open>\<open>LocAPINmeaIndMsg\<close>\<close>

definition LocAPINmeaIndMsg :: "string \<Rightarrow> bool \<Rightarrow> loc_api_msg" where
  "LocAPINmeaIndMsg name pbMsgConv =
     new_message name E_LOCAPI_NMEA_MSG_ID pbMsgConv []"

definition payload_of_LocAPINmeaIndMsg :: "hal_values \<Rightarrow> assignment list" where
  "payload_of_LocAPINmeaIndMsg hal =
     [(''gnssnmeanotification'', sub ''gnssnmeanotification'' (convertLocAPINmeaSerializedPayloadToPB hal) ''gnssNmeaNotification'')]"

definition LocAPINmeaIndMsg_serializeToProtobuf :: "pb_library \<Rightarrow> hal_values \<Rightarrow> loc_api_msg \<Rightarrow> string option option" where
  "LocAPINmeaIndMsg_serializeToProtobuf lib hal =
     serialize_message lib hal ''LocAPINmeaIndMsg''
       ''PBLocAPINmeaIndMsg'' (payload_of_LocAPINmeaIndMsg hal)"

definition members_of_LocAPINmeaIndMsg :: "hal_values \<Rightarrow> member_types \<Rightarrow> assignment list" where
  "members_of_LocAPINmeaIndMsg hal ty =
     [(''gnssNmeaNotification'', into ''gnssNmeaNotification'' (pbConvertToLocAPINmeaSerializedPayload hal ty) ''gnssnmeanotification'')]"

definition LocAPINmeaIndMsg_fromProtobuf :: "hal_values \<Rightarrow> member_types \<Rightarrow> string \<Rightarrow> struct \<Rightarrow> bool \<Rightarrow> loc_api_msg option" where
  "LocAPINmeaIndMsg_fromProtobuf hal ty name =
     received Checked name E_LOCAPI_NMEA_MSG_ID (members_of_LocAPINmeaIndMsg hal ty)"

subsection \<open>\<open>LocAPIDataIndMsg\<close>\<close>

definition LocAPIDataIndMsg :: "string \<Rightarrow> struct \<Rightarrow> bool \<Rightarrow> loc_api_msg" where
  "LocAPIDataIndMsg name dataNotification pbMsgConv =
     new_message name E_LOCAPI_DATA_MSG_ID pbMsgConv [(''gnssDataNotification'', Obj dataNotification)]"

definition payload_of_LocAPIDataIndMsg :: "hal_values \<Rightarrow> assignment list" where
  "payload_of_LocAPIDataIndMsg hal =
     [(''gnssdatanotification'', sub ''gnssdatanotification'' (convertGnssDataNotifToPB hal) ''gnssDataNotification'')]"

definition LocAPIDataIndMsg_serializeToProtobuf :: "pb_library \<Rightarrow> hal_values \<Rightarrow> loc_api_msg \<Rightarrow> string option option" where
  "LocAPIDataIndMsg_serializeToProtobuf lib hal =
     serialize_message lib hal ''LocAPIDataIndMsg''
       ''PBLocAPIDataIndMsg'' (payload_of_LocAPIDataIndMsg hal)"

definition members_of_LocAPIDataIndMsg :: "hal_values \<Rightarrow> member_types \<Rightarrow> assignment list" where
  "members_of_LocAPIDataIndMsg hal ty =
     [(''gnssDataNotification'', into ''gnssDataNotification'' (pbConvertToGnssDataNotification hal ty) ''gnssdatanotification'')]"

definition LocAPIDataIndMsg_fromProtobuf :: "hal_values \<Rightarrow> member_types \<Rightarrow> string \<Rightarrow> struct \<Rightarrow> bool \<Rightarrow> loc_api_msg option" where
  "LocAPIDataIndMsg_fromProtobuf hal ty name =
     received Checked name E_LOCAPI_DATA_MSG_ID (members_of_LocAPIDataIndMsg hal ty)"

subsection \<open>\<open>LocAPIMeasIndMsg\<close>\<close>

definition LocAPIMeasIndMsg :: "string \<Rightarrow> struct \<Rightarrow> bool \<Rightarrow> loc_api_msg" where
  "LocAPIMeasIndMsg name measurementsNotification pbMsgConv =
     new_message name E_LOCAPI_MEAS_MSG_ID pbMsgConv [(''gnssMeasurementsNotification'', Obj measurementsNotification)]"

definition payload_of_LocAPIMeasIndMsg :: "hal_values \<Rightarrow> assignment list" where
  "payload_of_LocAPIMeasIndMsg hal =
     [(''gnssmeasurementsnotification'', sub ''gnssmeasurementsnotification'' (convertGnssMeasNotifToPB hal) ''gnssMeasurementsNotification'')]"

definition LocAPIMeasIndMsg_serializeToProtobuf :: "pb_library \<Rightarrow> hal_values \<Rightarrow> loc_api_msg \<Rightarrow> string option option" where
  "LocAPIMeasIndMsg_serializeToProtobuf lib hal =
     serialize_message lib hal ''LocAPIMeasIndMsg''
       ''PBLocAPIMeasIndMsg'' (payload_of_LocAPIMeasIndMsg hal)"

definition members_of_LocAPIMeasIndMsg :: "hal_values \<Rightarrow> member_types \<Rightarrow> assignment list" where
  "members_of_LocAPIMeasIndMsg hal ty =
     [(''gnssMeasurementsNotification'', into ''gnssMeasurementsNotification'' (pbConvertToGnssMeasNotification hal ty) ''gnssmeasurementsnotification'')]"

definition LocAPIMeasIndMsg_fromProtobuf :: "hal_values \<Rightarrow> member_types \<Rightarrow> string \<Rightarrow> struct \<Rightarrow> bool \<Rightarrow> loc_api_msg option" where
  "LocAPIMeasIndMsg_fromProtobuf hal ty name =
     received Checked name E_LOCAPI_MEAS_MSG_ID (members_of_LocAPIMeasIndMsg hal ty)"

subsection \<open>\<open>LocAPIGnssEnergyConsumedIndMsg\<close>\<close>

definition LocAPIGnssEnergyConsumedIndMsg :: "string \<Rightarrow> int \<Rightarrow> bool \<Rightarrow> loc_api_msg" where
  "LocAPIGnssEnergyConsumedIndMsg name energyConsumed pbMsgConv =
     new_message name E_LOCAPI_GET_GNSS_ENGERY_CONSUMED_MSG_ID pbMsgConv [(''totalGnssEnergyConsumedSinceFirstBoot'', Num energyConsumed)]"

definition payload_of_LocAPIGnssEnergyConsumedIndMsg :: "hal_values \<Rightarrow> assignment list" where
  "payload_of_LocAPIGnssEnergyConsumedIndMsg hal =
     [(''totalgnssenergyconsumedsincefirstboot'', put UInt64 ''totalGnssEnergyConsumedSinceFirstBoot'')]"

definition LocAPIGnssEnergyConsumedIndMsg_serializeToProtobuf :: "pb_library \<Rightarrow> hal_values \<Rightarrow> loc_api_msg \<Rightarrow> string option option" where
  "LocAPIGnssEnergyConsumedIndMsg_serializeToProtobuf lib hal =
     serialize_message lib hal ''LocAPIGnssEnergyConsumedIndMsg''
       ''PBLocAPIGnssEnergyConsumedIndMsg'' (payload_of_LocAPIGnssEnergyConsumedIndMsg hal)"

definition members_of_LocAPIGnssEnergyConsumedIndMsg :: "hal_values \<Rightarrow> member_types \<Rightarrow> assignment list" where
  "members_of_LocAPIGnssEnergyConsumedIndMsg hal ty =
     [(''totalGnssEnergyConsumedSinceFirstBoot'', get (fit UInt64) ''totalgnssenergyconsumedsincefirstboot'')]"

definition LocAPIGnssEnergyConsumedIndMsg_fromProtobuf :: "hal_values \<Rightarrow> member_types \<Rightarrow> string \<Rightarrow> struct \<Rightarrow> bool \<Rightarrow> loc_api_msg option" where
  "LocAPIGnssEnergyConsumedIndMsg_fromProtobuf hal ty name =
     received Unneeded name E_LOCAPI_GET_GNSS_ENGERY_CONSUMED_MSG_ID (members_of_LocAPIGnssEnergyConsumedIndMsg hal ty)"

subsection \<open>\<open>LocAPILocationSystemInfoIndMsg\<close>\<close>

definition LocAPILocationSystemInfoIndMsg :: "string \<Rightarrow> struct \<Rightarrow> bool \<Rightarrow> loc_api_msg" where
  "LocAPILocationSystemInfoIndMsg name systemInfo pbMsgConv =
     new_message name E_LOCAPI_LOCATION_SYSTEM_INFO_MSG_ID pbMsgConv [(''locationSystemInfo'', Obj systemInfo)]"

definition payload_of_LocAPILocationSystemInfoIndMsg :: "hal_values \<Rightarrow> assignment list" where
  "payload_of_LocAPILocationSystemInfoIndMsg hal =
     [(''locationsysteminfo'', sub ''locationsysteminfo'' (convertLocSysInfoToPB hal) ''locationSystemInfo'')]"

definition LocAPILocationSystemInfoIndMsg_serializeToProtobuf :: "pb_library \<Rightarrow> hal_values \<Rightarrow> loc_api_msg \<Rightarrow> string option option" where
  "LocAPILocationSystemInfoIndMsg_serializeToProtobuf lib hal =
     serialize_message lib hal ''LocAPILocationSystemInfoIndMsg''
       ''PBLocAPILocationSystemInfoIndMsg'' (payload_of_LocAPILocationSystemInfoIndMsg hal)"

definition members_of_LocAPILocationSystemInfoIndMsg :: "hal_values \<Rightarrow> member_types \<Rightarrow> assignment list" where
  "members_of_LocAPILocationSystemInfoIndMsg hal ty =
     [(''locationSystemInfo'', into ''locationSystemInfo'' (pbConvertToLocationSystemInfo hal ty) ''locationsysteminfo'')]"

definition LocAPILocationSystemInfoIndMsg_fromProtobuf :: "hal_values \<Rightarrow> member_types \<Rightarrow> string \<Rightarrow> struct \<Rightarrow> bool \<Rightarrow> loc_api_msg option" where
  "LocAPILocationSystemInfoIndMsg_fromProtobuf hal ty name =
     received Checked name E_LOCAPI_LOCATION_SYSTEM_INFO_MSG_ID (members_of_LocAPILocationSystemInfoIndMsg hal ty)"

subsection \<open>\<open>LocAPIDcReportIndMsg\<close>\<close>

definition LocAPIDcReportIndMsg :: "string \<Rightarrow> struct \<Rightarrow> bool \<Rightarrow> loc_api_msg" where
  "LocAPIDcReportIndMsg name gnssDcReportInfo pbMsgConv =
     new_message name E_LOCAPI_DC_REPORT_MSG_ID pbMsgConv [(''dcReportInfo'', Obj gnssDcReportInfo)]"

definition payload_of_LocAPIDcReportIndMsg :: "hal_values \<Rightarrow> assignment list" where
  "payload_of_LocAPIDcReportIndMsg hal =
     [(''dcreportinfo'', sub ''dcreportinfo'' (convertGnssDcReportToPB hal) ''dcReportInfo'')]"

definition LocAPIDcReportIndMsg_serializeToProtobuf :: "pb_library \<Rightarrow> hal_values \<Rightarrow> loc_api_msg \<Rightarrow> string option option" where
  "LocAPIDcReportIndMsg_serializeToProtobuf lib hal =
     serialize_message lib hal ''LocAPIDcReportIndMsg''
       ''PBLocAPIDcReportIndMsg'' (payload_of_LocAPIDcReportIndMsg hal)"

definition members_of_LocAPIDcReportIndMsg :: "hal_values \<Rightarrow> member_types \<Rightarrow> assignment list" where
  "members_of_LocAPIDcReportIndMsg hal ty =
     [(''dcReportInfo'', into ''dcReportInfo'' (pbConvertToDcReport hal ty) ''dcreportinfo'')]"

definition LocAPIDcReportIndMsg_fromProtobuf :: "hal_values \<Rightarrow> member_types \<Rightarrow> string \<Rightarrow> struct \<Rightarrow> bool \<Rightarrow> loc_api_msg option" where
  "LocAPIDcReportIndMsg_fromProtobuf hal ty name =
     received Checked name E_LOCAPI_DC_REPORT_MSG_ID (members_of_LocAPIDcReportIndMsg hal ty)"

subsection \<open>\<open>LocAPIEphIndMsg\<close>\<close>

definition LocAPIEphIndMsg :: "string \<Rightarrow> struct \<Rightarrow> bool \<Rightarrow> loc_api_msg" where
  "LocAPIEphIndMsg name ephemerisInfo pbMsgConv =
     new_message name E_LOCAPI_EPH_MSG_ID pbMsgConv [(''gnssEphNotification'', Obj ephemerisInfo)]"

definition payload_of_LocAPIEphIndMsg :: "hal_values \<Rightarrow> assignment list" where
  "payload_of_LocAPIEphIndMsg hal =
     [(''gnssephemerisnotification'', sub ''gnssephemerisnotification'' (convertGnssEphNotifToPB hal) ''gnssEphNotification'')]"

definition LocAPIEphIndMsg_serializeToProtobuf :: "pb_library \<Rightarrow> hal_values \<Rightarrow> loc_api_msg \<Rightarrow> string option option" where
  "LocAPIEphIndMsg_serializeToProtobuf lib hal =
     serialize_message lib hal ''LocAPIEphIndMsg''
       ''PBLocAPIEphIndMsg'' (payload_of_LocAPIEphIndMsg hal)"

definition members_of_LocAPIEphIndMsg :: "hal_values \<Rightarrow> member_types \<Rightarrow> assignment list" where
  "members_of_LocAPIEphIndMsg hal ty =
     [(''gnssEphNotification'', into ''gnssEphNotification'' (pbConvertToGnssEphNotif hal ty) ''gnssephemerisnotification'')]"

definition LocAPIEphIndMsg_fromProtobuf :: "hal_values \<Rightarrow> member_types \<Rightarrow> string \<Rightarrow> struct \<Rightarrow> bool \<Rightarrow> loc_api_msg option" where
  "LocAPIEphIndMsg_fromProtobuf hal ty name =
     received Checked name E_LOCAPI_EPH_MSG_ID (members_of_LocAPIEphIndMsg hal ty)"

end
