(* ===== verification/PbConfigMessages.thy ===== *)
theory PbConfigMessages
  imports PbWire
begin

text \<open>
  The messages of the integration API, and those of debug reports, antennas and the ping test, in the
  same form as those of \<open>PbMessages\<close>.
\<close>

section \<open>Configuration\<close>

subsection \<open>\<open>LocConfigConstrainedTuncReqMsg\<close>\<close>

definition LocConfigConstrainedTuncReqMsg :: "string \<Rightarrow> int \<Rightarrow> int \<Rightarrow> int \<Rightarrow> bool \<Rightarrow> loc_api_msg" where
  "LocConfigConstrainedTuncReqMsg name enable tuncConstraint energyBudget pbMsgConv =
     new_message name E_INTAPI_CONFIG_CONSTRAINTED_TUNC_MSG_ID pbMsgConv [(''mEnable'', Num enable),
        (''mTuncConstraint'', Num tuncConstraint),
        (''mEnergyBudget'', Num energyBudget)]"

definition payload_of_LocConfigConstrainedTuncReqMsg :: "hal_values \<Rightarrow> assignment list" where
  "payload_of_LocConfigConstrainedTuncReqMsg hal =
     [(''menable'', put Boolean ''mEnable''),
      (''mtuncconstraint'', put Float ''mTuncConstraint''),
      (''menergybudget'', put UInt32 ''mEnergyBudget'')]"

definition LocConfigConstrainedTuncReqMsg_serializeToProtobuf :: "pb_library \<Rightarrow> hal_values \<Rightarrow> loc_api_msg \<Rightarrow> string option option" where
  "LocConfigConstrainedTuncReqMsg_serializeToProtobuf lib hal =
     serialize_message lib hal ''LocConfigConstrainedTuncReqMsg''
       ''PBLocConfigConstrainedTuncReqMsg'' (payload_of_LocConfigConstrainedTuncReqMsg hal)"

definition members_of_LocConfigConstrainedTuncReqMsg :: "hal_values \<Rightarrow> member_types \<Rightarrow> assignment list" where
  "members_of_LocConfigConstrainedTuncReqMsg hal ty =
     [(''mEnable'', get (fit Boolean) ''menable''),
      (''mTuncConstraint'', get (fit Float) ''mtuncconstraint''),
      (''mEnergyBudget'', get (fit UInt32) ''menergybudget'')]"

definition LocConfigConstrainedTuncReqMsg_fromProtobuf :: "hal_values \<Rightarrow> member_types \<Rightarrow> string \<Rightarrow> struct \<Rightarrow> bool \<Rightarrow> loc_api_msg option" where
  "LocConfigConstrainedTuncReqMsg_fromProtobuf hal ty name =
     received Unneeded name E_INTAPI_CONFIG_CONSTRAINTED_TUNC_MSG_ID (members_of_LocConfigConstrainedTuncReqMsg hal ty)"

subsection \<open>\<open>LocConfigPositionAssistedClockEstimatorReqMsg\<close>\<close>

definition LocConfigPositionAssistedClockEstimatorReqMsg :: "string \<Rightarrow> int \<Rightarrow> bool \<Rightarrow> loc_api_msg" where
  "LocConfigPositionAssistedClockEstimatorReqMsg name enable pbMsgConv =
     new_message name E_INTAPI_CONFIG_POSITION_ASSISTED_CLOCK_ESTIMATOR_MSG_ID pbMsgConv [(''mEnable'', Num enable)]"

definition payload_of_LocConfigPositionAssistedClockEstimatorReqMsg :: "hal_values \<Rightarrow> assignment list" where
  "payload_of_LocConfigPositionAssistedClockEstimatorReqMsg hal =
     [(''menable'', put Boolean ''mEnable'')]"

definition LocConfigPositionAssistedClockEstimatorReqMsg_serializeToProtobuf :: "pb_library \<Rightarrow> hal_values \<Rightarrow> loc_api_msg \<Rightarrow> string option option" where
  "LocConfigPositionAssistedClockEstimatorReqMsg_serializeToProtobuf lib hal =
     serialize_message lib hal ''LocConfigPositionAssistedClockEstimatorReqMsg''
       ''PBLocConfigPositionAssistedClockEstimatorReqMsg'' (payload_of_LocConfigPositionAssistedClockEstimatorReqMsg hal)"

definition members_of_LocConfigPositionAssistedClockEstimatorReqMsg :: "hal_values \<Rightarrow> member_types \<Rightarrow> assignment list" where
  "members_of_LocConfigPositionAssistedClockEstimatorReqMsg hal ty =
     [(''mEnable'', get (fit Boolean) ''menable'')]"

definition LocConfigPositionAssistedClockEstimatorReqMsg_fromProtobuf :: "hal_values \<Rightarrow> member_types \<Rightarrow> string \<Rightarrow> struct \<Rightarrow> bool \<Rightarrow> loc_api_msg option" where
  "LocConfigPositionAssistedClockEstimatorReqMsg_fromProtobuf hal ty name =
     received Unneeded name E_INTAPI_CONFIG_POSITION_ASSISTED_CLOCK_ESTIMATOR_MSG_ID (members_of_LocConfigPositionAssistedClockEstimatorReqMsg hal ty)"

subsection \<open>\<open>LocConfigSvConstellationReqMsg\<close>\<close>

definition LocConfigSvConstellationReqMsg :: "string \<Rightarrow> struct \<Rightarrow> struct \<Rightarrow> bool \<Rightarrow> loc_api_msg" where
  "LocConfigSvConstellationReqMsg name constellationEnablementConfig blacklistSvConfig pbMsgConv =
     new_message name E_INTAPI_CONFIG_SV_CONSTELLATION_MSG_ID pbMsgConv [(''mConstellationEnablementConfig'', Obj constellationEnablementConfig),
        (''mBlacklistSvConfig'', Obj blacklistSvConfig)]"

definition payload_of_LocConfigSvConstellationReqMsg :: "hal_values \<Rightarrow> assignment list" where
  "payload_of_LocConfigSvConstellationReqMsg hal =
     [(''mconstellationenablementconfig'', sub ''mconstellationenablementconfig'' (convertGnssSvTypeConfigToPB hal) ''mConstellationEnablementConfig''),
      (''mblacklistsvconfig'', sub ''mblacklistsvconfig'' (convertGnssSvIdConfigToPB hal) ''mBlacklistSvConfig''),
      (''mresettodefault'', (\<lambda>s d. Some (Num (if num (obj (s ''mConstellationEnablementConfig'') ''size'') = 0 then 1 else 0))))]"

definition LocConfigSvConstellationReqMsg_serializeToProtobuf :: "pb_library \<Rightarrow> hal_values \<Rightarrow> loc_api_msg \<Rightarrow> string option option" where
  "LocConfigSvConstellationReqMsg_serializeToProtobuf lib hal =
     serialize_message lib hal ''LocConfigSvConstellationReqMsg''
       ''PBLocConfigSvConstellationReqMsg'' (payload_of_LocConfigSvConstellationReqMsg hal)"

definition members_of_LocConfigSvConstellationReqMsg :: "hal_values \<Rightarrow> member_types \<Rightarrow> assignment list" where
  "members_of_LocConfigSvConstellationReqMsg hal ty =
     [(''mConstellationEnablementConfig'', into ''mConstellationEnablementConfig'' (pbConvertToGnssSvTypeConfig hal ty) ''mconstellationenablementconfig''),
      (''mBlacklistSvConfig'', into ''mBlacklistSvConfig'' (pbConvertToGnssSvIdConfig hal ty) ''mblacklistsvconfig''),
      (''mConstellationEnablementConfig'', in_member ''mConstellationEnablementConfig'' [(''size'',
        (\<lambda>s d. Some (Num (if num (s ''mresettodefault'') \<noteq> 0 then 0 else hal ''sizeof(GnssSvTypeConfig)''))))]),
      (''mBlacklistSvConfig'', in_member ''mBlacklistSvConfig'' [(''size'', set_to (hal ''sizeof(GnssSvIdConfig)''))])]"

definition LocConfigSvConstellationReqMsg_fromProtobuf :: "hal_values \<Rightarrow> member_types \<Rightarrow> string \<Rightarrow> struct \<Rightarrow> bool \<Rightarrow> loc_api_msg option" where
  "LocConfigSvConstellationReqMsg_fromProtobuf hal ty name =
     received Checked name E_INTAPI_CONFIG_SV_CONSTELLATION_MSG_ID (members_of_LocConfigSvConstellationReqMsg hal ty)"

subsection \<open>\<open>LocConfigConstellationSecondaryBandReqMsg\<close>\<close>

definition LocConfigConstellationSecondaryBandReqMsg :: "string \<Rightarrow> struct \<Rightarrow> bool \<Rightarrow> loc_api_msg" where
  "LocConfigConstellationSecondaryBandReqMsg name secondaryBandConfig pbMsgConv =
     new_message name E_INTAPI_CONFIG_CONSTELLATION_SECONDARY_BAND_MSG_ID pbMsgConv [(''mSecondaryBandConfig'', Obj secondaryBandConfig)]"

definition payload_of_LocConfigConstellationSecondaryBandReqMsg :: "hal_values \<Rightarrow> assignment list" where
  "payload_of_LocConfigConstellationSecondaryBandReqMsg hal =
     [(''msecondarybandconfig'', sub ''msecondarybandconfig'' (convertGnssSvTypeConfigToPB hal) ''mSecondaryBandConfig'')]"

definition LocConfigConstellationSecondaryBandReqMsg_serializeToProtobuf :: "pb_library \<Rightarrow> hal_values \<Rightarrow> loc_api_msg \<Rightarrow> string option option" where
  "LocConfigConstellationSecondaryBandReqMsg_serializeToProtobuf lib hal =
     serialize_message lib hal ''LocConfigConstellationSecondaryBandReqMsg''
       ''PBLocConfigConstellationSecondaryBandReqMsg'' (payload_of_LocConfigConstellationSecondaryBandReqMsg hal)"

definition members_of_LocConfigConstellationSecondaryBandReqMsg :: "hal_values \<Rightarrow> member_types \<Rightarrow> assignment list" where
  "members_of_LocConfigConstellationSecondaryBandReqMsg hal ty =
     [(''mSecondaryBandConfig'', into ''mSecondaryBandConfig'' (pbConvertToGnssSvTypeConfig hal ty) ''msecondarybandconfig'')]"

definition LocConfigConstellationSecondaryBandReqMsg_fromProtobuf :: "hal_values \<Rightarrow> member_types \<Rightarrow> string \<Rightarrow> struct \<Rightarrow> bool \<Rightarrow> loc_api_msg option" where
  "LocConfigConstellationSecondaryBandReqMsg_fromProtobuf hal ty name =
     received Checked name E_INTAPI_CONFIG_CONSTELLATION_SECONDARY_BAND_MSG_ID (members_of_LocConfigConstellationSecondaryBandReqMsg hal ty)"

subsection \<open>\<open>LocConfigAidingDataDeletionReqMsg\<close>\<close>

definition LocConfigAidingDataDeletionReqMsg :: "string \<Rightarrow> struct \<Rightarrow> bool \<Rightarrow> loc_api_msg" where
  "LocConfigAidingDataDeletionReqMsg name aidingData pbMsgConv =
     new_message name E_INTAPI_CONFIG_AIDING_DATA_DELETION_MSG_ID pbMsgConv [(''mAidingData'', Obj aidingData)]"

definition payload_of_LocConfigAidingDataDeletionReqMsg :: "hal_values \<Rightarrow> assignment list" where
  "payload_of_LocConfigAidingDataDeletionReqMsg hal =
     [(''maidingdata'', sub ''maidingdata'' (convertGnssAidingDataToPB hal) ''mAidingData'')]"

definition LocConfigAidingDataDeletionReqMsg_serializeToProtobuf :: "pb_library \<Rightarrow> hal_values \<Rightarrow> loc_api_msg \<Rightarrow> string option option" where
  "LocConfigAidingDataDeletionReqMsg_serializeToProtobuf lib hal =
     serialize_message lib hal ''LocConfigAidingDataDeletionReqMsg''
       ''PBLocConfigAidingDataDeletionReqMsg'' (payload_of_LocConfigAidingDataDeletionReqMsg hal)"

definition members_of_LocConfigAidingDataDeletionReqMsg :: "hal_values \<Rightarrow> member_types \<Rightarrow> assignment list" where
  "members_of_LocConfigAidingDataDeletionReqMsg hal ty =
     [(''mAidingData'', into ''mAidingData'' (pbConvertToGnssAidingData hal ty) ''maidingdata'')]"

definition LocConfigAidingDataDeletionReqMsg_fromProtobuf :: "hal_values \<Rightarrow> member_types \<Rightarrow> string \<Rightarrow> struct \<Rightarrow> bool \<Rightarrow> loc_api_msg option" where
  "LocConfigAidingDataDeletionReqMsg_fromProtobuf hal ty name =
     received Checked name E_INTAPI_CONFIG_AIDING_DATA_DELETION_MSG_ID (members_of_LocConfigAidingDataDeletionReqMsg hal ty)"

subsection \<open>\<open>LocConfigLeverArmReqMsg\<close>\<close>

definition LocConfigLeverArmReqMsg :: "string \<Rightarrow> struct \<Rightarrow> bool \<Rightarrow> loc_api_msg" where
  "LocConfigLeverArmReqMsg name configInfo pbMsgConv =
     new_message name E_INTAPI_CONFIG_LEVER_ARM_MSG_ID pbMsgConv [(''mLeverArmConfigInfo'', Obj configInfo)]"

definition payload_of_LocConfigLeverArmReqMsg :: "hal_values \<Rightarrow> assignment list" where
  "payload_of_LocConfigLeverArmReqMsg hal =
     [(''mleverarmconfiginfo'', sub ''mleverarmconfiginfo'' (convertLeverArmConfigInfoToPB hal) ''mLeverArmConfigInfo'')]"

definition LocConfigLeverArmReqMsg_serializeToProtobuf :: "pb_library \<Rightarrow> hal_values \<Rightarrow> loc_api_msg \<Rightarrow> string option option" where
  "LocConfigLeverArmReqMsg_serializeToProtobuf lib hal =
     serialize_message lib hal ''LocConfigLeverArmReqMsg''
       ''PBLocConfigLeverArmReqMsg'' (payload_of_LocConfigLeverArmReqMsg hal)"

definition members_of_LocConfigLeverArmReqMsg :: "hal_values \<Rightarrow> member_types \<Rightarrow> assignment list" where
  "members_of_LocConfigLeverArmReqMsg hal ty =
     [(''mLeverArmConfigInfo'', into ''mLeverArmConfigInfo'' (pbConvertToLeverArmConfigInfo hal ty) ''mleverarmconfiginfo'')]"

definition LocConfigLeverArmReqMsg_fromProtobuf :: "hal_values \<Rightarrow> member_types \<Rightarrow> string \<Rightarrow> struct \<Rightarrow> bool \<Rightarrow> loc_api_msg option" where
  "LocConfigLeverArmReqMsg_fromProtobuf hal ty name =
     received Checked name E_INTAPI_CONFIG_LEVER_ARM_MSG_ID (members_of_LocConfigLeverArmReqMsg hal ty)"

subsection \<open>\<open>LocConfigRobustLocationReqMsg\<close>\<close>

definition LocConfigRobustLocationReqMsg :: "string \<Rightarrow> int \<Rightarrow> int \<Rightarrow> bool \<Rightarrow> loc_api_msg" where
  "LocConfigRobustLocationReqMsg name enable enableForE911 pbMsgConv =
     new_message name E_INTAPI_CONFIG_ROBUST_LOCATION_MSG_ID pbMsgConv [(''mEnable'', Num enable), (''mEnableForE911'', Num enableForE911)]"

definition payload_of_LocConfigRobustLocationReqMsg :: "hal_values \<Rightarrow> assignment list" where
  "payload_of_LocConfigRobustLocationReqMsg hal =
     [(''menable'', put Boolean ''mEnable''),
      (''menablefore911'', put Boolean ''mEnableForE911'')]"

definition LocConfigRobustLocationReqMsg_serializeToProtobuf :: "pb_library \<Rightarrow> hal_values \<Rightarrow> loc_api_msg \<Rightarrow> string option option" where
  "LocConfigRobustLocationReqMsg_serializeToProtobuf lib hal =
     serialize_message lib hal ''LocConfigRobustLocationReqMsg''
       ''PBLocConfigRobustLocationReqMsg'' (payload_of_LocConfigRobustLocationReqMsg hal)"

definition members_of_LocConfigRobustLocationReqMsg :: "hal_values \<Rightarrow> member_types \<Rightarrow> assignment list" where
  "members_of_LocConfigRobustLocationReqMsg hal ty =
     [(''mEnable'', get (fit Boolean) ''menable''),
      (''mEnableForE911'', get (fit Boolean) ''menablefore911'')]"

definition LocConfigRobustLocationReqMsg_fromProtobuf :: "hal_values \<Rightarrow> member_types \<Rightarrow> string \<Rightarrow> struct \<Rightarrow> bool \<Rightarrow> loc_api_msg option" where
  "LocConfigRobustLocationReqMsg_fromProtobuf hal ty name =
     received Unneeded name E_INTAPI_CONFIG_ROBUST_LOCATION_MSG_ID (members_of_LocConfigRobustLocationReqMsg hal ty)"

subsection \<open>\<open>LocConfigMinGpsWeekReqMsg\<close>\<close>

definition LocConfigMinGpsWeekReqMsg :: "string \<Rightarrow> int \<Rightarrow> bool \<Rightarrow> loc_api_msg" where
  "LocConfigMinGpsWeekReqMsg name minGpsWeek pbMsgConv =
     new_message name E_INTAPI_CONFIG_MIN_GPS_WEEK_MSG_ID pbMsgConv [(''mMinGpsWeek'', Num minGpsWeek)]"

definition payload_of_LocConfigMinGpsWeekReqMsg :: "hal_values \<Rightarrow> assignment list" where
  "payload_of_LocConfigMinGpsWeekReqMsg hal =
     [(''mmingpsweek'', put UInt32 ''mMinGpsWeek'')]"

definition LocConfigMinGpsWeekReqMsg_serializeToProtobuf :: "pb_library \<Rightarrow> hal_values \<Rightarrow> loc_api_msg \<Rightarrow> string option option" where
  "LocConfigMinGpsWeekReqMsg_serializeToProtobuf lib hal =
     serialize_message lib hal ''LocConfigMinGpsWeekReqMsg''
       ''PBLocConfigMinGpsWeekReqMsg'' (payload_of_LocConfigMinGpsWeekReqMsg hal)"

definition members_of_LocConfigMinGpsWeekReqMsg :: "hal_values \<Rightarrow> member_types \<Rightarrow> assignment list" where
  "members_of_LocConfigMinGpsWeekReqMsg hal ty =
     [(''mMinGpsWeek'', get (\<lambda>i. i mod 2 ^ 16) ''mmingpsweek'')]"

definition LocConfigMinGpsWeekReqMsg_fromProtobuf :: "hal_values \<Rightarrow> member_types \<Rightarrow> string \<Rightarrow> struct \<Rightarrow> bool \<Rightarrow> loc_api_msg option" where
  "LocConfigMinGpsWeekReqMsg_fromProtobuf hal ty name =
     received Unneeded name E_INTAPI_CONFIG_MIN_GPS_WEEK_MSG_ID (members_of_LocConfigMinGpsWeekReqMsg hal ty)"

subsection \<open>\<open>LocConfigDrEngineParamsReqMsg\<close>\<close>

definition LocConfigDrEngineParamsReqMsg :: "string \<Rightarrow> struct \<Rightarrow> bool \<Rightarrow> loc_api_msg" where
  "LocConfigDrEngineParamsReqMsg name dreConfig pbMsgConv =
     new_message name E_INTAPI_CONFIG_DEAD_RECKONING_ENGINE_MSG_ID pbMsgConv [(''mDreConfig'', Obj dreConfig)]"

definition payload_of_LocConfigDrEngineParamsReqMsg :: "hal_values \<Rightarrow> assignment list" where
  "payload_of_LocConfigDrEngineParamsReqMsg hal =
     [(''mdreconfig'', sub ''mdreconfig'' (convertDeadReckoningEngineConfigToPB hal) ''mDreConfig'')]"

definition LocConfigDrEngineParamsReqMsg_serializeToProtobuf :: "pb_library \<Rightarrow> hal_values \<Rightarrow> loc_api_msg \<Rightarrow> string option option" where
  "LocConfigDrEngineParamsReqMsg_serializeToProtobuf lib hal =
     serialize_message lib hal ''LocConfigDrEngineParamsReqMsg''
       ''PBLocConfigDrEngineParamsReqMsg'' (payload_of_LocConfigDrEngineParamsReqMsg hal)"

definition members_of_LocConfigDrEngineParamsReqMsg :: "hal_values \<Rightarrow> member_types \<Rightarrow> assignment list" where
  "members_of_LocConfigDrEngineParamsReqMsg hal ty =
     [(''mDreConfig'', into ''mDreConfig'' (pbConvertToDeadReckoningEngineConfig hal ty) ''mdreconfig'')]"

definition LocConfigDrEngineParamsReqMsg_fromProtobuf :: "hal_values \<Rightarrow> member_types \<Rightarrow> string \<Rightarrow> struct \<Rightarrow> bool \<Rightarrow> loc_api_msg option" where
  "LocConfigDrEngineParamsReqMsg_fromProtobuf hal ty name =
     received Checked name E_INTAPI_CONFIG_DEAD_RECKONING_ENGINE_MSG_ID (members_of_LocConfigDrEngineParamsReqMsg hal ty)"

subsection \<open>\<open>LocConfigMinSvElevationReqMsg\<close>\<close>

definition LocConfigMinSvElevationReqMsg :: "string \<Rightarrow> int \<Rightarrow> bool \<Rightarrow> loc_api_msg" where
  "LocConfigMinSvElevationReqMsg name minSvElevation pbMsgConv =
     new_message name E_INTAPI_CONFIG_MIN_SV_ELEVATION_MSG_ID pbMsgConv [(''mMinSvElevation'', Num minSvElevation)]"

definition payload_of_LocConfigMinSvElevationReqMsg :: "hal_values \<Rightarrow> assignment list" where
  "payload_of_LocConfigMinSvElevationReqMsg hal =
     [(''mminsvelevation'', put UInt32 ''mMinSvElevation'')]"

definition LocConfigMinSvElevationReqMsg_serializeToProtobuf :: "pb_library \<Rightarrow> hal_values \<Rightarrow> loc_api_msg \<Rightarrow> string option option" where
  "LocConfigMinSvElevationReqMsg_serializeToProtobuf lib hal =
     serialize_message lib hal ''LocConfigMinSvElevationReqMsg''
       ''PBLocConfigMinSvElevationReqMsg'' (payload_of_LocConfigMinSvElevationReqMsg hal)"

definition members_of_LocConfigMinSvElevationReqMsg :: "hal_values \<Rightarrow> member_types \<Rightarrow> assignment list" where
  "members_of_LocConfigMinSvElevationReqMsg hal ty =
     [(''mMinSvElevation'', get (\<lambda>i. i mod 2 ^ 8) ''mminsvelevation'')]"

definition LocConfigMinSvElevationReqMsg_fromProtobuf :: "hal_values \<Rightarrow> member_types \<Rightarrow> string \<Rightarrow> struct \<Rightarrow> bool \<Rightarrow> loc_api_msg option" where
  "LocConfigMinSvElevationReqMsg_fromProtobuf hal ty name =
     received Unneeded name E_INTAPI_CONFIG_MIN_SV_ELEVATION_MSG_ID (members_of_LocConfigMinSvElevationReqMsg hal ty)"

subsection \<open>\<open>LocConfigEngineRunStateReqMsg\<close>\<close>

definition LocConfigEngineRunStateReqMsg :: "string \<Rightarrow> int \<Rightarrow> int \<Rightarrow> bool \<Rightarrow> loc_api_msg" where
  "LocConfigEngineRunStateReqMsg name engType engState pbMsgConv =
     new_message name E_INTAPI_CONFIG_ENGINE_RUN_STATE_MSG_ID pbMsgConv [(''mEngType'', Num engType), (''mEngState'', Num engState)]"

definition payload_of_LocConfigEngineRunStateReqMsg :: "hal_values \<Rightarrow> assignment list" where
  "payload_of_LocConfigEngineRunStateReqMsg hal =
     [(''mengtype'', put_mask (getPBMaskForPositioningEngineMask hal) ''mEngType''),
      (''mengstate'', put_enum (getPBEnumForLocEngineRunState hal) ''mEngState'')]"

definition LocConfigEngineRunStateReqMsg_serializeToProtobuf :: "pb_library \<Rightarrow> hal_values \<Rightarrow> loc_api_msg \<Rightarrow> string option option" where
  "LocConfigEngineRunStateReqMsg_serializeToProtobuf lib hal =
     serialize_message lib hal ''LocConfigEngineRunStateReqMsg''
       ''PBLocConfigEngineRunStateReqMsg'' (payload_of_LocConfigEngineRunStateReqMsg hal)"

definition members_of_LocConfigEngineRunStateReqMsg :: "hal_values \<Rightarrow> member_types \<Rightarrow> assignment list" where
  "members_of_LocConfigEngineRunStateReqMsg hal ty =
     [(''mEngType'', get_mask (getEnumForPBPositioningEngineMask hal) ''mengtype''),
      (''mEngState'', get_enum (getEnumForPBLocEngineRunState hal) ''mengstate'')]"

definition LocConfigEngineRunStateReqMsg_fromProtobuf :: "hal_values \<Rightarrow> member_types \<Rightarrow> string \<Rightarrow> struct \<Rightarrow> bool \<Rightarrow> loc_api_msg option" where
  "LocConfigEngineRunStateReqMsg_fromProtobuf hal ty name =
     received Unchecked name E_INTAPI_CONFIG_ENGINE_RUN_STATE_MSG_ID (members_of_LocConfigEngineRunStateReqMsg hal ty)"

subsection \<open>\<open>LocConfigUserConsentTerrestrialPositioningReqMsg\<close>\<close>

definition LocConfigUserConsentTerrestrialPositioningReqMsg :: "string \<Rightarrow> int \<Rightarrow> bool \<Rightarrow> loc_api_msg" where
  "LocConfigUserConsentTerrestrialPositioningReqMsg name userConsent pbMsgConv =
     new_message name E_INTAPI_CONFIG_USER_CONSENT_TERRESTRIAL_POSITIONING_MSG_ID pbMsgConv [(''mUserConsent'', Num userConsent)]"

definition payload_of_LocConfigUserConsentTerrestrialPositioningReqMsg :: "hal_values \<Rightarrow> assignment list" where
  "payload_of_LocConfigUserConsentTerrestrialPositioningReqMsg hal =
     [(''userconsent'', put Boolean ''mUserConsent'')]"

definition LocConfigUserConsentTerrestrialPositioningReqMsg_serializeToProtobuf :: "pb_library \<Rightarrow> hal_values \<Rightarrow> loc_api_msg \<Rightarrow> string option option" where
  "LocConfigUserConsentTerrestrialPositioningReqMsg_serializeToProtobuf lib hal =
     serialize_message lib hal ''LocConfigUserConsentTerrestrialPositioningReqMsg''
       ''PBLocConfigUserConsentTerrestrialPositioningReqMsg'' (payload_of_LocConfigUserConsentTerrestrialPositioningReqMsg hal)"

definition members_of_LocConfigUserConsentTerrestrialPositioningReqMsg :: "hal_values \<Rightarrow> member_types \<Rightarrow> assignment list" where
  "members_of_LocConfigUserConsentTerrestrialPositioningReqMsg hal ty =
     [(''mUserConsent'', get (fit Boolean) ''userconsent'')]"

definition LocConfigUserConsentTerrestrialPositioningReqMsg_fromProtobuf :: "hal_values \<Rightarrow> member_types \<Rightarrow> string \<Rightarrow> struct \<Rightarrow> bool \<Rightarrow> loc_api_msg option" where
  "LocConfigUserConsentTerrestrialPositioningReqMsg_fromProtobuf hal ty name =
     received Unneeded name E_INTAPI_CONFIG_USER_CONSENT_TERRESTRIAL_POSITIONING_MSG_ID (members_of_LocConfigUserConsentTerrestrialPositioningReqMsg hal ty)"

subsection \<open>\<open>LocConfigOutputNmeaTypesReqMsg\<close>\<close>

definition LocConfigOutputNmeaTypesReqMsg :: "string \<Rightarrow> int \<Rightarrow> int \<Rightarrow> int \<Rightarrow> bool \<Rightarrow> loc_api_msg" where
  "LocConfigOutputNmeaTypesReqMsg name enabledNmeaTypes nmeaDatumType nmeaReqEngMask pbMsgConv =
     new_message name E_INTAPI_CONFIG_OUTPUT_NMEA_TYPES_MSG_ID pbMsgConv [(''mEnabledNmeaTypes'', Num enabledNmeaTypes),
        (''mNmeaDatumType'', Num nmeaDatumType),
        (''mNmeaReqEngMask'', Num nmeaReqEngMask)]"

definition payload_of_LocConfigOutputNmeaTypesReqMsg :: "hal_values \<Rightarrow> assignment list" where
  "payload_of_LocConfigOutputNmeaTypesReqMsg hal =
     [(''nmeatypesmask'', put_mask (getPBMaskForNmeaTypesMask hal) ''mEnabledNmeaTypes''),
      (''nmeadatumtype'', put_enum (\<lambda>t. if t = hal ''GEODETIC_TYPE_PZ_90'' then PB_GEODETIC_TYPE_PZ_90 else PB_GEODETIC_TYPE_WGS_84) ''mNmeaDatumType''),
      (''nmeareqengmask'', put_mask (getPBMaskForLocReqEngineTypeMask hal) ''mNmeaReqEngMask'')]"

definition LocConfigOutputNmeaTypesReqMsg_serializeToProtobuf :: "pb_library \<Rightarrow> hal_values \<Rightarrow> loc_api_msg \<Rightarrow> string option option" where
  "LocConfigOutputNmeaTypesReqMsg_serializeToProtobuf lib hal =
     serialize_message lib hal ''LocConfigOutputNmeaTypesReqMsg''
       ''PBLocConfigOutputNmeaTypesReqMsg'' (payload_of_LocConfigOutputNmeaTypesReqMsg hal)"

definition members_of_LocConfigOutputNmeaTypesReqMsg :: "hal_values \<Rightarrow> member_types \<Rightarrow> assignment list" where
  "members_of_LocConfigOutputNmeaTypesReqMsg hal ty =
     [(''mEnabledNmeaTypes'', get_mask (getNmeaTypesMaskFromPB hal) ''nmeatypesmask''),
      (''mNmeaDatumType'', get_enum (\<lambda>t. if t = PB_GEODETIC_TYPE_PZ_90 then hal ''GEODETIC_TYPE_PZ_90'' else hal ''GEODETIC_TYPE_WGS_84'') ''nmeadatumtype''),
      (''mNmeaReqEngMask'', get_mask (getLocReqEngineTypeMaskFromPB hal) ''nmeareqengmask'')]"

definition LocConfigOutputNmeaTypesReqMsg_fromProtobuf :: "hal_values \<Rightarrow> member_types \<Rightarrow> string \<Rightarrow> struct \<Rightarrow> bool \<Rightarrow> loc_api_msg option" where
  "LocConfigOutputNmeaTypesReqMsg_fromProtobuf hal ty name =
     received Unchecked name E_INTAPI_CONFIG_OUTPUT_NMEA_TYPES_MSG_ID (members_of_LocConfigOutputNmeaTypesReqMsg hal ty)"

subsection \<open>\<open>LocConfigEngineIntegrityRiskReqMsg\<close>\<close>

definition LocConfigEngineIntegrityRiskReqMsg :: "string \<Rightarrow> int \<Rightarrow> int \<Rightarrow> bool \<Rightarrow> loc_api_msg" where
  "LocConfigEngineIntegrityRiskReqMsg name engType integrityRisk pbMsgConv =
     new_message name E_INTAPI_CONFIG_ENGINE_INTEGRITY_RISK_MSG_ID pbMsgConv [(''mEngType'', Num engType), (''mIntegrityRisk'', Num integrityRisk)]"

definition payload_of_LocConfigEngineIntegrityRiskReqMsg :: "hal_values \<Rightarrow> assignment list" where
  "payload_of_LocConfigEngineIntegrityRiskReqMsg hal =
     [(''engtype'', put_mask (getPBMaskForPositioningEngineMask hal) ''mEngType''),
      (''integrityrisk'', put UInt32 ''mIntegrityRisk'')]"

definition LocConfigEngineIntegrityRiskReqMsg_serializeToProtobuf :: "pb_library \<Rightarrow> hal_values \<Rightarrow> loc_api_msg \<Rightarrow> string option option" where
  "LocConfigEngineIntegrityRiskReqMsg_serializeToProtobuf lib hal =
     serialize_message lib hal ''LocConfigEngineIntegrityRiskReqMsg''
       ''PBLocConfigEngineIntegrityRiskReqMsg'' (payload_of_LocConfigEngineIntegrityRiskReqMsg hal)"

definition members_of_LocConfigEngineIntegrityRiskReqMsg :: "hal_values \<Rightarrow> member_types \<Rightarrow> assignment list" where
  "members_of_LocConfigEngineIntegrityRiskReqMsg hal ty =
     [(''mEngType'', get_mask (getEnumForPBPositioningEngineMask hal) ''engtype''),
      (''mIntegrityRisk'', get (fit UInt32) ''integrityrisk'')]"

definition LocConfigEngineIntegrityRiskReqMsg_fromProtobuf :: "hal_values \<Rightarrow> member_types \<Rightarrow> string \<Rightarrow> struct \<Rightarrow> bool \<Rightarrow> loc_api_msg option" where
  "LocConfigEngineIntegrityRiskReqMsg_fromProtobuf hal ty name =
     received Unchecked name E_INTAPI_CONFIG_ENGINE_INTEGRITY_RISK_MSG_ID (members_of_LocConfigEngineIntegrityRiskReqMsg hal ty)"

subsection \<open>\<open>LocConfigXtraReqMsg\<close>\<close>

definition LocConfigXtraReqMsg :: "string \<Rightarrow> int \<Rightarrow> struct \<Rightarrow> bool \<Rightarrow> loc_api_msg" where
  "LocConfigXtraReqMsg name enable xtraParams pbMsgConv =
     new_message name E_INTAPI_CONFIG_XTRA_PARAMS_MSG_ID pbMsgConv [(''mEnable'', Num enable), (''mXtraParams'', Obj xtraParams)]"

definition payload_of_LocConfigXtraReqMsg :: "hal_values \<Rightarrow> assignment list" where
  "payload_of_LocConfigXtraReqMsg hal =
     [(''enable'', put Boolean ''mEnable''),
      (''xtraparams'', sub ''xtraparams'' (convertXtraConfigParamsToPB hal) ''mXtraParams'')]"

definition LocConfigXtraReqMsg_serializeToProtobuf :: "pb_library \<Rightarrow> hal_values \<Rightarrow> loc_api_msg \<Rightarrow> string option option" where
  "LocConfigXtraReqMsg_serializeToProtobuf lib hal =
     serialize_message lib hal ''LocConfigXtraReqMsg''
       ''PBLocConfigXtraReqMsg'' (payload_of_LocConfigXtraReqMsg hal)"

definition members_of_LocConfigXtraReqMsg :: "hal_values \<Rightarrow> member_types \<Rightarrow> assignment list" where
  "members_of_LocConfigXtraReqMsg hal ty =
     [(''mEnable'', get (fit Boolean) ''enable''),
      (''mXtraParams'', when_has ''xtraparams'' ''mXtraParams'' (into ''mXtraParams'' (pbConvertToXtraConfig hal ty) ''xtraparams''))]"

definition LocConfigXtraReqMsg_fromProtobuf :: "hal_values \<Rightarrow> member_types \<Rightarrow> string \<Rightarrow> struct \<Rightarrow> bool \<Rightarrow> loc_api_msg option" where
  "LocConfigXtraReqMsg_fromProtobuf hal ty name =
     received Unchecked name E_INTAPI_CONFIG_XTRA_PARAMS_MSG_ID (members_of_LocConfigXtraReqMsg hal ty)"

subsection \<open>\<open>LocConfigMerkleTreeReqMsg\<close>\<close>

definition LocConfigMerkleTreeReqMsg :: "string \<Rightarrow> string \<Rightarrow> bool \<Rightarrow> loc_api_msg" where
  "LocConfigMerkleTreeReqMsg name merkleTreeConfig pbMsgConv =
     new_message name E_INTAPI_CONFIG_MERKLE_TREE_MSG_ID pbMsgConv [(''mMerkleTreeConfig'', Str merkleTreeConfig)]"

definition payload_of_LocConfigMerkleTreeReqMsg :: "hal_values \<Rightarrow> assignment list" where
  "payload_of_LocConfigMerkleTreeReqMsg hal =
     [(''mmerkletreeconfig'', put_text ''mMerkleTreeConfig'')]"

definition LocConfigMerkleTreeReqMsg_serializeToProtobuf :: "pb_library \<Rightarrow> hal_values \<Rightarrow> loc_api_msg \<Rightarrow> string option option" where
  "LocConfigMerkleTreeReqMsg_serializeToProtobuf lib hal =
     serialize_message lib hal ''LocConfigMerkleTreeReqMsg''
       ''PBLocConfigMerkleTreeReqMsg'' (payload_of_LocConfigMerkleTreeReqMsg hal)"

definition members_of_LocConfigMerkleTreeReqMsg :: "hal_values \<Rightarrow> member_types \<Rightarrow> assignment list" where
  "members_of_LocConfigMerkleTreeReqMsg hal ty =
     [(''mMerkleTreeConfig'', get_text ''mmerkletreeconfig'')]"

definition LocConfigMerkleTreeReqMsg_fromProtobuf :: "hal_values \<Rightarrow> member_types \<Rightarrow> string \<Rightarrow> struct \<Rightarrow> bool \<Rightarrow> loc_api_msg option" where
  "LocConfigMerkleTreeReqMsg_fromProtobuf hal ty name =
     received Unneeded name E_INTAPI_CONFIG_MERKLE_TREE_MSG_ID (members_of_LocConfigMerkleTreeReqMsg hal ty)"

subsection \<open>\<open>LocConfigOsnmaEnablementReqMsg\<close>\<close>

definition LocConfigOsnmaEnablementReqMsg :: "string \<Rightarrow> int \<Rightarrow> bool \<Rightarrow> loc_api_msg" where
  "LocConfigOsnmaEnablementReqMsg name enable pbMsgConv =
     new_message name E_INTAPI_CONFIG_OSNMA_ENABLEMENT_MSG_ID pbMsgConv [(''mEnable'', Num enable)]"

definition payload_of_LocConfigOsnmaEnablementReqMsg :: "hal_values \<Rightarrow> assignment list" where
  "payload_of_LocConfigOsnmaEnablementReqMsg hal =
     [(''menable'', put Boolean ''mEnable'')]"

definition LocConfigOsnmaEnablementReqMsg_serializeToProtobuf :: "pb_library \<Rightarrow> hal_values \<Rightarrow> loc_api_msg \<Rightarrow> string option option" where
  "LocConfigOsnmaEnablementReqMsg_serializeToProtobuf lib hal =
     serialize_message lib hal ''LocConfigOsnmaEnablementReqMsg''
       ''PBLocConfigOsnmaEnablementReqMsg'' (payload_of_LocConfigOsnmaEnablementReqMsg hal)"

definition members_of_LocConfigOsnmaEnablementReqMsg :: "hal_values \<Rightarrow> member_types \<Rightarrow> assignment list" where
  "members_of_LocConfigOsnmaEnablementReqMsg hal ty =
     [(''mEnable'', get (fit Boolean) ''menable'')]"

definition LocConfigOsnmaEnablementReqMsg_fromProtobuf :: "hal_values \<Rightarrow> member_types \<Rightarrow> string \<Rightarrow> struct \<Rightarrow> bool \<Rightarrow> loc_api_msg option" where
  "LocConfigOsnmaEnablementReqMsg_fromProtobuf hal ty name =
     received Unneeded name E_INTAPI_CONFIG_OSNMA_ENABLEMENT_MSG_ID (members_of_LocConfigOsnmaEnablementReqMsg hal ty)"

subsection \<open>\<open>LocInjectMmfDataReqMsg\<close>\<close>

definition LocInjectMmfDataReqMsg :: "string \<Rightarrow> struct \<Rightarrow> bool \<Rightarrow> loc_api_msg" where
  "LocInjectMmfDataReqMsg name mapData pbMsgConv =
     new_message name E_INTAPI_CONFIG_MAP_MATCHED_FEEDBACK_MSG_ID pbMsgConv [(''gnssMapData'', Obj mapData)]"

definition payload_of_LocInjectMmfDataReqMsg :: "hal_values \<Rightarrow> assignment list" where
  "payload_of_LocInjectMmfDataReqMsg hal =
     [(''gnssmmfdata'', sub ''gnssmmfdata'' (convertGnssMmfDataToPB hal) ''gnssMapData'')]"

definition LocInjectMmfDataReqMsg_serializeToProtobuf :: "pb_library \<Rightarrow> hal_values \<Rightarrow> loc_api_msg \<Rightarrow> string option option" where
  "LocInjectMmfDataReqMsg_serializeToProtobuf lib hal =
     serialize_message lib hal ''LocInjectMmfDataReqMsg''
       ''PBLocInjectMmfDataReqMsg'' (payload_of_LocInjectMmfDataReqMsg hal)"

definition members_of_LocInjectMmfDataReqMsg :: "hal_values \<Rightarrow> member_types \<Rightarrow> assignment list" where
  "members_of_LocInjectMmfDataReqMsg hal ty =
     [(''gnssMapData'', into ''gnssMapData'' (pbConvertToGnssMmfData hal ty) ''gnssmmfdata'')]"

definition LocInjectMmfDataReqMsg_fromProtobuf :: "hal_values \<Rightarrow> member_types \<Rightarrow> string \<Rightarrow> struct \<Rightarrow> bool \<Rightarrow> loc_api_msg option" where
  "LocInjectMmfDataReqMsg_fromProtobuf hal ty name =
     received Checked name E_INTAPI_CONFIG_MAP_MATCHED_FEEDBACK_MSG_ID (members_of_LocInjectMmfDataReqMsg hal ty)"

subsection \<open>\<open>LocInjectXtraUserConsentMsg\<close>\<close>

definition LocInjectXtraUserConsentMsg :: "string \<Rightarrow> int \<Rightarrow> bool \<Rightarrow> loc_api_msg" where
  "LocInjectXtraUserConsentMsg name userConsent pbMsgConv =
     new_message name E_INTAPI_CONFIG_XTRA_USER_CONSENT_MSG_ID pbMsgConv [(''xtraUserConsent'', Num userConsent)]"

definition payload_of_LocInjectXtraUserConsentMsg :: "hal_values \<Rightarrow> assignment list" where
  "payload_of_LocInjectXtraUserConsentMsg hal =
     [(''userconsent'', put Boolean ''xtraUserConsent'')]"

definition LocInjectXtraUserConsentMsg_serializeToProtobuf :: "pb_library \<Rightarrow> hal_values \<Rightarrow> loc_api_msg \<Rightarrow> string option option" where
  "LocInjectXtraUserConsentMsg_serializeToProtobuf lib hal =
     serialize_message lib hal ''LocInjectXtraUserConsentMsg''
       ''PBLocInjectXtraUserConsentMsg'' (payload_of_LocInjectXtraUserConsentMsg hal)"

definition members_of_LocInjectXtraUserConsentMsg :: "hal_values \<Rightarrow> member_types \<Rightarrow> assignment list" where
  "members_of_LocInjectXtraUserConsentMsg hal ty =
     [(''xtraUserConsent'', get (fit Boolean) ''userconsent'')]"

definition LocInjectXtraUserConsentMsg_fromProtobuf :: "hal_values \<Rightarrow> member_types \<Rightarrow> string \<Rightarrow> struct \<Rightarrow> bool \<Rightarrow> loc_api_msg option" where
  "LocInjectXtraUserConsentMsg_fromProtobuf hal ty name =
     received Checked name E_INTAPI_CONFIG_XTRA_USER_CONSENT_MSG_ID (members_of_LocInjectXtraUserConsentMsg hal ty)"

section \<open>Reading the configuration\<close>

subsection \<open>\<open>LocConfigGetRobustLocationConfigReqMsg\<close>\<close>

definition LocConfigGetRobustLocationConfigReqMsg :: "string \<Rightarrow> bool \<Rightarrow> loc_api_msg" where
  "LocConfigGetRobustLocationConfigReqMsg name pbMsgConv =
     new_message name E_INTAPI_GET_ROBUST_LOCATION_CONFIG_REQ_MSG_ID pbMsgConv []"

definition LocConfigGetRobustLocationConfigReqMsg_serializeToProtobuf :: "pb_library \<Rightarrow> hal_values \<Rightarrow> loc_api_msg \<Rightarrow> string option option" where
  "LocConfigGetRobustLocationConfigReqMsg_serializeToProtobuf lib hal =
     serialize_bare lib hal ''LocConfigGetRobustLocationConfigReqMsg''"

subsection \<open>\<open>LocConfigGetRobustLocationConfigRespMsg\<close>\<close>

definition LocConfigGetRobustLocationConfigRespMsg :: "string \<Rightarrow> struct \<Rightarrow> bool \<Rightarrow> loc_api_msg" where
  "LocConfigGetRobustLocationConfigRespMsg name robustLoationConfig pbMsgConv =
     new_message name E_INTAPI_GET_ROBUST_LOCATION_CONFIG_RESP_MSG_ID pbMsgConv [(''mRobustLoationConfig'', Obj robustLoationConfig)]"

definition payload_of_LocConfigGetRobustLocationConfigRespMsg :: "hal_values \<Rightarrow> assignment list" where
  "payload_of_LocConfigGetRobustLocationConfigRespMsg hal =
     [(''mrobustloationconfig'', sub ''mrobustloationconfig'' (convertGnssConfigRobustLocationToPB hal) ''mRobustLoationConfig'')]"

definition LocConfigGetRobustLocationConfigRespMsg_serializeToProtobuf :: "pb_library \<Rightarrow> hal_values \<Rightarrow> loc_api_msg \<Rightarrow> string option option" where
  "LocConfigGetRobustLocationConfigRespMsg_serializeToProtobuf lib hal =
     serialize_message lib hal ''LocConfigGetRobustLocationConfigRespMsg''
       ''PBLocConfigGetRobustLocationConfigRespMsg'' (payload_of_LocConfigGetRobustLocationConfigRespMsg hal)"

definition members_of_LocConfigGetRobustLocationConfigRespMsg :: "hal_values \<Rightarrow> member_types \<Rightarrow> assignment list" where
  "members_of_LocConfigGetRobustLocationConfigRespMsg hal ty =
     [(''mRobustLoationConfig'', into ''mRobustLoationConfig'' (pbConvertToGnssConfigRobustLocation hal ty) ''mrobustloationconfig'')]"

definition LocConfigGetRobustLocationConfigRespMsg_fromProtobuf :: "hal_values \<Rightarrow> member_types \<Rightarrow> string \<Rightarrow> struct \<Rightarrow> bool \<Rightarrow> loc_api_msg option" where
  "LocConfigGetRobustLocationConfigRespMsg_fromProtobuf hal ty name =
     received Checked name E_INTAPI_GET_ROBUST_LOCATION_CONFIG_RESP_MSG_ID (members_of_LocConfigGetRobustLocationConfigRespMsg hal ty)"

subsection \<open>\<open>LocConfigGetMinGpsWeekReqMsg\<close>\<close>

definition LocConfigGetMinGpsWeekReqMsg :: "string \<Rightarrow> bool \<Rightarrow> loc_api_msg" where
  "LocConfigGetMinGpsWeekReqMsg name pbMsgConv =
     new_message name E_INTAPI_GET_MIN_GPS_WEEK_REQ_MSG_ID pbMsgConv []"

definition LocConfigGetMinGpsWeekReqMsg_serializeToProtobuf :: "pb_library \<Rightarrow> hal_values \<Rightarrow> loc_api_msg \<Rightarrow> string option option" where
  "LocConfigGetMinGpsWeekReqMsg_serializeToProtobuf lib hal =
     serialize_bare lib hal ''LocConfigGetMinGpsWeekReqMsg''"

subsection \<open>\<open>LocConfigGetMinGpsWeekRespMsg\<close>\<close>

definition LocConfigGetMinGpsWeekRespMsg :: "string \<Rightarrow> int \<Rightarrow> bool \<Rightarrow> loc_api_msg" where
  "LocConfigGetMinGpsWeekRespMsg name minGpsWeek pbMsgConv =
     new_message name E_INTAPI_GET_MIN_GPS_WEEK_RESP_MSG_ID pbMsgConv [(''mMinGpsWeek'', Num minGpsWeek)]"

definition payload_of_LocConfigGetMinGpsWeekRespMsg :: "hal_values \<Rightarrow> assignment list" where
  "payload_of_LocConfigGetMinGpsWeekRespMsg hal =
     [(''mmingpsweek'', put UInt32 ''mMinGpsWeek'')]"

definition LocConfigGetMinGpsWeekRespMsg_serializeToProtobuf :: "pb_library \<Rightarrow> hal_values \<Rightarrow> loc_api_msg \<Rightarrow> string option option" where
  "LocConfigGetMinGpsWeekRespMsg_serializeToProtobuf lib hal =
     serialize_message lib hal ''LocConfigGetMinGpsWeekRespMsg''
       ''PBLocConfigGetMinGpsWeekRespMsg'' (payload_of_LocConfigGetMinGpsWeekRespMsg hal)"

definition members_of_LocConfigGetMinGpsWeekRespMsg :: "hal_values \<Rightarrow> member_types \<Rightarrow> assignment list" where
  "members_of_LocConfigGetMinGpsWeekRespMsg hal ty =
     [(''mMinGpsWeek'', get (\<lambda>i. i mod 2 ^ 16) ''mmingpsweek'')]"

definition LocConfigGetMinGpsWeekRespMsg_fromProtobuf :: "hal_values \<Rightarrow> member_types \<Rightarrow> string \<Rightarrow> struct \<Rightarrow> bool \<Rightarrow> loc_api_msg option" where
  "LocConfigGetMinGpsWeekRespMsg_fromProtobuf hal ty name =
     received Unneeded name E_INTAPI_GET_MIN_GPS_WEEK_RESP_MSG_ID (members_of_LocConfigGetMinGpsWeekRespMsg hal ty)"

subsection \<open>\<open>LocConfigGetMinSvElevationReqMsg\<close>\<close>

definition LocConfigGetMinSvElevationReqMsg :: "string \<Rightarrow> bool \<Rightarrow> loc_api_msg" where
  "LocConfigGetMinSvElevationReqMsg name pbMsgConv =
     new_message name E_INTAPI_GET_MIN_SV_ELEVATION_REQ_MSG_ID pbMsgConv []"

definition LocConfigGetMinSvElevationReqMsg_serializeToProtobuf :: "pb_library \<Rightarrow> hal_values \<Rightarrow> loc_api_msg \<Rightarrow> string option option" where
  "LocConfigGetMinSvElevationReqMsg_serializeToProtobuf lib hal =
     serialize_bare lib hal ''LocConfigGetMinSvElevationReqMsg''"

subsection \<open>\<open>LocConfigGetMinSvElevationRespMsg\<close>\<close>

definition LocConfigGetMinSvElevationRespMsg :: "string \<Rightarrow> int \<Rightarrow> bool \<Rightarrow> loc_api_msg" where
  "LocConfigGetMinSvElevationRespMsg name minSvElevation pbMsgConv =
     new_message name E_INTAPI_GET_MIN_SV_ELEVATION_RESP_MSG_ID pbMsgConv [(''mMinSvElevation'', Num minSvElevation)]"

definition payload_of_LocConfigGetMinSvElevationRespMsg :: "hal_values \<Rightarrow> assignment list" where
  "payload_of_LocConfigGetMinSvElevationRespMsg hal =
     [(''mminsvelevation'', put UInt32 ''mMinSvElevation'')]"

definition LocConfigGetMinSvElevationRespMsg_serializeToProtobuf :: "pb_library \<Rightarrow> hal_values \<Rightarrow> loc_api_msg \<Rightarrow> string option option" where
  "LocConfigGetMinSvElevationRespMsg_serializeToProtobuf lib hal =
     serialize_message lib hal ''LocConfigGetMinSvElevationRespMsg''
       ''PBLocConfigGetMinSvElevationRespMsg'' (payload_of_LocConfigGetMinSvElevationRespMsg hal)"

definition members_of_LocConfigGetMinSvElevationRespMsg :: "hal_values \<Rightarrow> member_types \<Rightarrow> assignment list" where
  "members_of_LocConfigGetMinSvElevationRespMsg hal ty =
     [(''mMinSvElevation'', get (\<lambda>i. i mod 2 ^ 8) ''mminsvelevation'')]"

definition LocConfigGetMinSvElevationRespMsg_fromProtobuf :: "hal_values \<Rightarrow> member_types \<Rightarrow> string \<Rightarrow> struct \<Rightarrow> bool \<Rightarrow> loc_api_msg option" where
  "LocConfigGetMinSvElevationRespMsg_fromProtobuf hal ty name =
     received Unneeded name E_INTAPI_GET_MIN_SV_ELEVATION_RESP_MSG_ID (members_of_LocConfigGetMinSvElevationRespMsg hal ty)"

subsection \<open>\<open>LocConfigGetConstellationSecondaryBandConfigReqMsg\<close>\<close>

definition LocConfigGetConstellationSecondaryBandConfigReqMsg :: "string \<Rightarrow> bool \<Rightarrow> loc_api_msg" where
  "LocConfigGetConstellationSecondaryBandConfigReqMsg name pbMsgConv =
     new_message name E_INTAPI_GET_CONSTELLATION_SECONDARY_BAND_CONFIG_REQ_MSG_ID pbMsgConv []"

definition LocConfigGetConstellationSecondaryBandConfigReqMsg_serializeToProtobuf :: "pb_library \<Rightarrow> hal_values \<Rightarrow> loc_api_msg \<Rightarrow> string option option" where
  "LocConfigGetConstellationSecondaryBandConfigReqMsg_serializeToProtobuf lib hal =
     serialize_bare lib hal ''LocConfigGetConstellationSecondaryBandConfigReqMsg''"

subsection \<open>\<open>LocConfigGetConstellationSecondaryBandConfigRespMsg\<close>\<close>

definition LocConfigGetConstellationSecondaryBandConfigRespMsg :: "string \<Rightarrow> struct \<Rightarrow> bool \<Rightarrow> loc_api_msg" where
  "LocConfigGetConstellationSecondaryBandConfigRespMsg name secondaryBandConfig pbMsgConv =
     new_message name E_INTAPI_GET_CONSTELLATION_SECONDARY_BAND_CONFIG_RESP_MSG_ID pbMsgConv [(''mSecondaryBandConfig'', Obj secondaryBandConfig)]"

definition payload_of_LocConfigGetConstellationSecondaryBandConfigRespMsg :: "hal_values \<Rightarrow> assignment list" where
  "payload_of_LocConfigGetConstellationSecondaryBandConfigRespMsg hal =
     [(''msecondarybandconfig'', sub ''msecondarybandconfig'' (convertGnssSvTypeConfigToPB hal) ''mSecondaryBandConfig'')]"

definition LocConfigGetConstellationSecondaryBandConfigRespMsg_serializeToProtobuf :: "pb_library \<Rightarrow> hal_values \<Rightarrow> loc_api_msg \<Rightarrow> string option option" where
  "LocConfigGetConstellationSecondaryBandConfigRespMsg_serializeToProtobuf lib hal =
     serialize_message lib hal ''LocConfigGetConstellationSecondaryBandConfigRespMsg''
       ''PBLocConfigGetConstltnSecondaryBandConfigRespMsg'' (payload_of_LocConfigGetConstellationSecondaryBandConfigRespMsg hal)"

definition members_of_LocConfigGetConstellationSecondaryBandConfigRespMsg :: "hal_values \<Rightarrow> member_types \<Rightarrow> assignment list" where
  "members_of_LocConfigGetConstellationSecondaryBandConfigRespMsg hal ty =
     [(''mSecondaryBandConfig'', into ''mSecondaryBandConfig'' (pbConvertToGnssSvTypeConfig hal ty) ''msecondarybandconfig'')]"

definition LocConfigGetConstellationSecondaryBandConfigRespMsg_fromProtobuf :: "hal_values \<Rightarrow> member_types \<Rightarrow> string \<Rightarrow> struct \<Rightarrow> bool \<Rightarrow> loc_api_msg option" where
  "LocConfigGetConstellationSecondaryBandConfigRespMsg_fromProtobuf hal ty name =
     received Unchecked name E_INTAPI_GET_CONSTELLATION_SECONDARY_BAND_CONFIG_RESP_MSG_ID (members_of_LocConfigGetConstellationSecondaryBandConfigRespMsg hal ty)"

section \<open>Debug reports, antennas and signals\<close>

subsection \<open>\<open>LocAPIGetDebugReqMsg\<close>\<close>

definition LocAPIGetDebugReqMsg :: "string \<Rightarrow> bool \<Rightarrow> loc_api_msg" where
  "LocAPIGetDebugReqMsg name pbMsgConv =
     new_message name E_LOCAPI_GET_DEBUG_REQ_MSG_ID pbMsgConv []"

definition LocAPIGetDebugReqMsg_serializeToProtobuf :: "pb_library \<Rightarrow> hal_values \<Rightarrow> loc_api_msg \<Rightarrow> string option option" where
  "LocAPIGetDebugReqMsg_serializeToProtobuf lib hal =
     serialize_bare lib hal ''LocAPIGetDebugReqMsg''"

subsection \<open>\<open>LocAPIGetDebugRespMsg\<close>\<close>

definition LocAPIGetDebugRespMsg :: "string \<Rightarrow> struct \<Rightarrow> bool \<Rightarrow> loc_api_msg" where
  "LocAPIGetDebugRespMsg name debugReport pbMsgConv =
     new_message name E_LOCAPI_GET_DEBUG_RESP_MSG_ID pbMsgConv [(''mDebugReport'', Obj debugReport)]"

definition payload_of_LocAPIGetDebugRespMsg :: "hal_values \<Rightarrow> assignment list" where
  "payload_of_LocAPIGetDebugRespMsg hal =
     [(''mdebugreport'', sub ''mdebugreport'' (convertGnssDebugReportToPB hal) ''mDebugReport'')]"

definition LocAPIGetDebugRespMsg_serializeToProtobuf :: "pb_library \<Rightarrow> hal_values \<Rightarrow> loc_api_msg \<Rightarrow> string option option" where
  "LocAPIGetDebugRespMsg_serializeToProtobuf lib hal =
     serialize_message lib hal ''LocAPIGetDebugRespMsg''
       ''PBLocAPIGetDebugRespMsg'' (payload_of_LocAPIGetDebugRespMsg hal)"

definition members_of_LocAPIGetDebugRespMsg :: "hal_values \<Rightarrow> member_types \<Rightarrow> assignment list" where
  "members_of_LocAPIGetDebugRespMsg hal ty =
     [(''mDebugReport'', into ''mDebugReport'' (pbConvertToGnssDebugReport hal ty) ''mdebugreport'')]"

definition LocAPIGetDebugRespMsg_fromProtobuf :: "hal_values \<Rightarrow> member_types \<Rightarrow> string \<Rightarrow> struct \<Rightarrow> bool \<Rightarrow> loc_api_msg option" where
  "LocAPIGetDebugRespMsg_fromProtobuf hal ty name =
     received Checked name E_LOCAPI_GET_DEBUG_RESP_MSG_ID (members_of_LocAPIGetDebugRespMsg hal ty)"

subsection \<open>\<open>LocAPIGetAntennaInfoMsg\<close>\<close>

definition LocAPIGetAntennaInfoMsg :: "string \<Rightarrow> bool \<Rightarrow> loc_api_msg" where
  "LocAPIGetAntennaInfoMsg name pbMsgConv =
     new_message name E_LOCAPI_GET_ANTENNA_INFO_MSG_ID pbMsgConv []"

definition LocAPIGetAntennaInfoMsg_serializeToProtobuf :: "pb_library \<Rightarrow> hal_values \<Rightarrow> loc_api_msg \<Rightarrow> string option option" where
  "LocAPIGetAntennaInfoMsg_serializeToProtobuf lib hal =
     serialize_bare lib hal ''LocAPIGetAntennaInfoMsg''"

subsection \<open>\<open>LocAPIAntennaInfoMsg\<close>\<close>

definition LocAPIAntennaInfoMsg :: "string \<Rightarrow> struct \<Rightarrow> bool \<Rightarrow> loc_api_msg" where
  "LocAPIAntennaInfoMsg name antennaInfo pbMsgConv =
     new_message name E_LOCAPI_ANTENNA_INFO_MSG_ID pbMsgConv [(''mAntennaInfo'', Obj antennaInfo)]"

definition payload_of_LocAPIAntennaInfoMsg :: "hal_values \<Rightarrow> assignment list" where
  "payload_of_LocAPIAntennaInfoMsg hal =
     [(''mantennainformation'', sub ''mantennainformation'' (convertAntennaInfoToPB hal) ''mAntennaInfo'')]"

definition LocAPIAntennaInfoMsg_serializeToProtobuf :: "pb_library \<Rightarrow> hal_values \<Rightarrow> loc_api_msg \<Rightarrow> string option option" where
  "LocAPIAntennaInfoMsg_serializeToProtobuf lib hal =
     serialize_message lib hal ''LocAPIAntennaInfoMsg''
       ''PBLocAPIAntennaInfoMsg'' (payload_of_LocAPIAntennaInfoMsg hal)"

definition members_of_LocAPIAntennaInfoMsg :: "hal_values \<Rightarrow> member_types \<Rightarrow> assignment list" where
  "members_of_LocAPIAntennaInfoMsg hal ty =
     [(''mAntennaInfo'', into ''mAntennaInfo'' (pbConvertToAntennaInfo hal ty) ''mantennainformation'')]"

definition LocAPIAntennaInfoMsg_fromProtobuf :: "hal_values \<Rightarrow> member_types \<Rightarrow> string \<Rightarrow> struct \<Rightarrow> bool \<Rightarrow> loc_api_msg option" where
  "LocAPIAntennaInfoMsg_fromProtobuf hal ty name =
     received Checked name E_LOCAPI_ANTENNA_INFO_MSG_ID (members_of_LocAPIAntennaInfoMsg hal ty)"

subsection \<open>\<open>LocIntApiInjectLocationMsg\<close>\<close>

definition LocIntApiInjectLocationMsg :: "string \<Rightarrow> struct \<Rightarrow> bool \<Rightarrow> loc_api_msg" where
  "LocIntApiInjectLocationMsg name location pbMsgConv =
     new_message name E_INTAPI_INJECT_LOCATION_MSG_ID pbMsgConv [(''mLocation'', Obj location)]"

definition payload_of_LocIntApiInjectLocationMsg :: "hal_values \<Rightarrow> assignment list" where
  "payload_of_LocIntApiInjectLocationMsg hal =
     [(''location'', sub ''location'' (convertLocationToPB hal) ''mLocation'')]"

definition LocIntApiInjectLocationMsg_serializeToProtobuf :: "pb_library \<Rightarrow> hal_values \<Rightarrow> loc_api_msg \<Rightarrow> string option option" where
  "LocIntApiInjectLocationMsg_serializeToProtobuf lib hal =
     serialize_message lib hal ''LocIntApiInjectLocationMsg''
       ''PBLocIntApiInjectLocationMsg'' (payload_of_LocIntApiInjectLocationMsg hal)"

definition members_of_LocIntApiInjectLocationMsg :: "hal_values \<Rightarrow> member_types \<Rightarrow> assignment list" where
  "members_of_LocIntApiInjectLocationMsg hal ty =
     [(''mLocation'', when_has ''location'' ''mLocation'' (into ''mLocation'' (pbConvertToLocation hal ty) ''location''))]"

definition LocIntApiInjectLocationMsg_fromProtobuf :: "hal_values \<Rightarrow> member_types \<Rightarrow> string \<Rightarrow> struct \<Rightarrow> bool \<Rightarrow> loc_api_msg option" where
  "LocIntApiInjectLocationMsg_fromProtobuf hal ty name =
     received Checked name E_INTAPI_INJECT_LOCATION_MSG_ID (members_of_LocIntApiInjectLocationMsg hal ty)"

subsection \<open>\<open>LocConfigRegisterGnssSignalTypesUpdateReqMsg\<close>\<close>

definition LocConfigRegisterGnssSignalTypesUpdateReqMsg :: "string \<Rightarrow> int \<Rightarrow> bool \<Rightarrow> loc_api_msg" where
  "LocConfigRegisterGnssSignalTypesUpdateReqMsg name registerUpdate pbMsgConv =
     new_message name E_INTAPI_REGISTER_GNSS_SIGNAL_TYPES_UPDATE_REQ_MSG_ID pbMsgConv [(''mRegisterUpdate'', Num registerUpdate)]"

definition payload_of_LocConfigRegisterGnssSignalTypesUpdateReqMsg :: "hal_values \<Rightarrow> assignment list" where
  "payload_of_LocConfigRegisterGnssSignalTypesUpdateReqMsg hal =
     [(''mregisterupdate'', put Boolean ''mRegisterUpdate'')]"

definition LocConfigRegisterGnssSignalTypesUpdateReqMsg_serializeToProtobuf :: "pb_library \<Rightarrow> hal_values \<Rightarrow> loc_api_msg \<Rightarrow> string option option" where
  "LocConfigRegisterGnssSignalTypesUpdateReqMsg_serializeToProtobuf lib hal =
     serialize_message lib hal ''LocConfigRegisterGnssSignalTypesUpdateReqMsg''
       ''PBLocConfigRegisterGnssSignalTypesUpdateReqMsg'' (payload_of_LocConfigRegisterGnssSignalTypesUpdateReqMsg hal)"

definition members_of_LocConfigRegisterGnssSignalTypesUpdateReqMsg :: "hal_values \<Rightarrow> member_types \<Rightarrow> assignment list" where
  "members_of_LocConfigRegisterGnssSignalTypesUpdateReqMsg hal ty =
     [(''mRegisterUpdate'', get (fit Boolean) ''mregisterupdate'')]"

definition LocConfigRegisterGnssSignalTypesUpdateReqMsg_fromProtobuf :: "hal_values \<Rightarrow> member_types \<Rightarrow> string \<Rightarrow> struct \<Rightarrow> bool \<Rightarrow> loc_api_msg option" where
  "LocConfigRegisterGnssSignalTypesUpdateReqMsg_fromProtobuf hal ty name =
     received Unneeded name E_INTAPI_REGISTER_GNSS_SIGNAL_TYPES_UPDATE_REQ_MSG_ID (members_of_LocConfigRegisterGnssSignalTypesUpdateReqMsg hal ty)"

subsection \<open>\<open>LocConfigRegisterGnssSignalTypesUpdateRespMsg\<close>\<close>

definition LocConfigRegisterGnssSignalTypesUpdateRespMsg :: "string \<Rightarrow> int \<Rightarrow> bool \<Rightarrow> loc_api_msg" where
  "LocConfigRegisterGnssSignalTypesUpdateRespMsg name signalTypeMask pbMsgConv =
     new_message name E_INTAPI_REGISTER_GNSS_SIGNAL_TYPES_UPDATE_RESP_MSG_ID pbMsgConv [(''mSignalTypeMask'', Num signalTypeMask)]"

definition payload_of_LocConfigRegisterGnssSignalTypesUpdateRespMsg :: "hal_values \<Rightarrow> assignment list" where
  "payload_of_LocConfigRegisterGnssSignalTypesUpdateRespMsg hal =
     [(''msignaltypemask'', put_mask (getPBMaskForGnssSignalTypeMask hal) ''mSignalTypeMask'')]"

definition LocConfigRegisterGnssSignalTypesUpdateRespMsg_serializeToProtobuf :: "pb_library \<Rightarrow> hal_values \<Rightarrow> loc_api_msg \<Rightarrow> string option option" where
  "LocConfigRegisterGnssSignalTypesUpdateRespMsg_serializeToProtobuf lib hal =
     serialize_message lib hal ''LocConfigRegisterGnssSignalTypesUpdateRespMsg''
       ''PBLocConfigRegisterGnssSignalTypesUpdateRespMsg'' (payload_of_LocConfigRegisterGnssSignalTypesUpdateRespMsg hal)"

definition members_of_LocConfigRegisterGnssSignalTypesUpdateRespMsg :: "hal_values \<Rightarrow> member_types \<Rightarrow> assignment list" where
  "members_of_LocConfigRegisterGnssSignalTypesUpdateRespMsg hal ty =
     [(''mSignalTypeMask'', get_mask (getPBMaskForGnssSignalTypeMask hal) ''msignaltypemask'')]"

definition LocConfigRegisterGnssSignalTypesUpdateRespMsg_fromProtobuf :: "hal_values \<Rightarrow> member_types \<Rightarrow> string \<Rightarrow> struct \<Rightarrow> bool \<Rightarrow> loc_api_msg option" where
  "LocConfigRegisterGnssSignalTypesUpdateRespMsg_fromProtobuf hal ty name =
     received Unchecked name E_INTAPI_REGISTER_GNSS_SIGNAL_TYPES_UPDATE_RESP_MSG_ID (members_of_LocConfigRegisterGnssSignalTypesUpdateRespMsg hal ty)"

subsection \<open>\<open>LocConfigGetXtraStatusReqMsg\<close>\<close>

definition LocConfigGetXtraStatusReqMsg :: "string \<Rightarrow> bool \<Rightarrow> loc_api_msg" where
  "LocConfigGetXtraStatusReqMsg name pbMsgConv =
     new_message name E_INTAPI_GET_XTRA_STATUS_REQ_MSG_ID pbMsgConv []"

definition LocConfigGetXtraStatusReqMsg_serializeToProtobuf :: "pb_library \<Rightarrow> hal_values \<Rightarrow> loc_api_msg \<Rightarrow> string option option" where
  "LocConfigGetXtraStatusReqMsg_serializeToProtobuf lib hal =
     serialize_bare lib hal ''LocConfigGetXtraStatusReqMsg''"

subsection \<open>\<open>LocConfigRegisterXtraStatusUpdateReqMsg\<close>\<close>

definition LocConfigRegisterXtraStatusUpdateReqMsg :: "string \<Rightarrow> bool \<Rightarrow> loc_api_msg" where
  "LocConfigRegisterXtraStatusUpdateReqMsg name pbMsgConv =
     new_message name E_INTAPI_REGISTER_XTRA_STATUS_UPDATE_REQ_MSG_ID pbMsgConv []"

definition LocConfigRegisterXtraStatusUpdateReqMsg_serializeToProtobuf :: "pb_library \<Rightarrow> hal_values \<Rightarrow> loc_api_msg \<Rightarrow> string option option" where
  "LocConfigRegisterXtraStatusUpdateReqMsg_serializeToProtobuf lib hal =
     serialize_bare lib hal ''LocConfigRegisterXtraStatusUpdateReqMsg''"

subsection \<open>\<open>LocConfigDeregisterXtraStatusUpdateReqMsg\<close>\<close>

definition LocConfigDeregisterXtraStatusUpdateReqMsg :: "string \<Rightarrow> bool \<Rightarrow> loc_api_msg" where
  "LocConfigDeregisterXtraStatusUpdateReqMsg name pbMsgConv =
     new_message name E_INTAPI_DEREGISTER_XTRA_STATUS_UPDATE_REQ_MSG_ID pbMsgConv []"

definition LocConfigDeregisterXtraStatusUpdateReqMsg_serializeToProtobuf :: "pb_library \<Rightarrow> hal_values \<Rightarrow> loc_api_msg \<Rightarrow> string option option" where
  "LocConfigDeregisterXtraStatusUpdateReqMsg_serializeToProtobuf lib hal =
     serialize_bare lib hal ''LocConfigDeregisterXtraStatusUpdateReqMsg''"

subsection \<open>\<open>LocConfigGetXtraStatusRespMsg\<close>\<close>

definition LocConfigGetXtraStatusRespMsg :: "string \<Rightarrow> int \<Rightarrow> struct \<Rightarrow> bool \<Rightarrow> loc_api_msg" where
  "LocConfigGetXtraStatusRespMsg name updateType xtraStatus pbMsgConv =
     new_message name E_INTAPI_GET_XTRA_STATUS_RESP_MSG_ID pbMsgConv [(''mUpdateType'', Num updateType), (''mXtraStatus'', Obj xtraStatus)]"

definition payload_of_LocConfigGetXtraStatusRespMsg :: "hal_values \<Rightarrow> assignment list" where
  "payload_of_LocConfigGetXtraStatusRespMsg hal =
     [(''mupdatetype'', put_enum (getPBEnumForXtraStatusUpdateType hal) ''mUpdateType''),
      (''mxtrastatus'', sub ''mxtrastatus'' (convertXtraStatusToPB hal) ''mXtraStatus'')]"

definition LocConfigGetXtraStatusRespMsg_serializeToProtobuf :: "pb_library \<Rightarrow> hal_values \<Rightarrow> loc_api_msg \<Rightarrow> string option option" where
  "LocConfigGetXtraStatusRespMsg_serializeToProtobuf lib hal =
     serialize_message lib hal ''LocConfigGetXtraStatusRespMsg''
       ''PBLocConfigGetXtraStatusRespMsg'' (payload_of_LocConfigGetXtraStatusRespMsg hal)"

definition members_of_LocConfigGetXtraStatusRespMsg :: "hal_values \<Rightarrow> member_types \<Rightarrow> assignment list" where
  "members_of_LocConfigGetXtraStatusRespMsg hal ty =
     [(''mUpdateType'', get_enum (getXtraStatusUpdateTypeFromPB hal) ''mupdatetype''),
      (''mXtraStatus'', when_has ''mxtrastatus'' ''mXtraStatus'' (into ''mXtraStatus'' (pbConvertToXtraStatus hal ty) ''mxtrastatus''))]"

definition LocConfigGetXtraStatusRespMsg_fromProtobuf :: "hal_values \<Rightarrow> member_types \<Rightarrow> string \<Rightarrow> struct \<Rightarrow> bool \<Rightarrow> loc_api_msg option" where
  "LocConfigGetXtraStatusRespMsg_fromProtobuf hal ty name =
     received Unchecked name E_INTAPI_GET_XTRA_STATUS_RESP_MSG_ID (members_of_LocConfigGetXtraStatusRespMsg hal ty)"

subsection \<open>\<open>LocAPIPingTestReqMsg\<close>\<close>

definition LocAPIPingTestReqMsg :: "string \<Rightarrow> bool \<Rightarrow> loc_api_msg" where
  "LocAPIPingTestReqMsg name pbMsgConv =
     new_message name E_LOCAPI_PINGTEST_MSG_ID pbMsgConv []"

definition payload_of_LocAPIPingTestReqMsg :: "hal_values \<Rightarrow> assignment list" where
  "payload_of_LocAPIPingTestReqMsg hal =
     [(''numberofping'', set_to LOCATION_REMOTE_API_PINGTEST_SIZE),
      (''data'', add ''data'' (number UInt32) (first_elements (\<lambda>_. LOCATION_REMOTE_API_PINGTEST_SIZE) ''data''))]"

definition LocAPIPingTestReqMsg_serializeToProtobuf :: "pb_library \<Rightarrow> hal_values \<Rightarrow> loc_api_msg \<Rightarrow> string option option" where
  "LocAPIPingTestReqMsg_serializeToProtobuf lib hal =
     serialize_message lib hal ''LocAPIPingTestReqMsg''
       ''PBLocAPIPingTestReqMsg'' (payload_of_LocAPIPingTestReqMsg hal)"

definition members_of_LocAPIPingTestReqMsg :: "hal_values \<Rightarrow> member_types \<Rightarrow> assignment list" where
  "members_of_LocAPIPingTestReqMsg hal ty =
     [(''data'', fill LOCATION_REMOTE_API_PINGTEST_SIZE ''data'' (to_number (\<lambda>i. i mod 2 ^ 8))
        (first_of (\<lambda>s d. min (num (s ''numberofping'')) LOCATION_REMOTE_API_PINGTEST_SIZE) ''data''))]"

definition LocAPIPingTestReqMsg_fromProtobuf :: "hal_values \<Rightarrow> member_types \<Rightarrow> string \<Rightarrow> struct \<Rightarrow> bool \<Rightarrow> loc_api_msg option" where
  "LocAPIPingTestReqMsg_fromProtobuf hal ty name =
     received Unneeded name E_LOCAPI_PINGTEST_MSG_ID (members_of_LocAPIPingTestReqMsg hal ty)"

subsection \<open>\<open>LocAPIPingTestIndMsg\<close>\<close>

definition LocAPIPingTestIndMsg :: "string \<Rightarrow> bool \<Rightarrow> loc_api_msg" where
  "LocAPIPingTestIndMsg name pbMsgConv =
     new_message name E_LOCAPI_PINGTEST_MSG_ID pbMsgConv []"

definition payload_of_LocAPIPingTestIndMsg :: "hal_values \<Rightarrow> assignment list" where
  "payload_of_LocAPIPingTestIndMsg hal =
     [(''numberofping'', set_to LOCATION_REMOTE_API_PINGTEST_SIZE),
      (''data'', add ''data'' (number UInt32) (first_elements (\<lambda>_. LOCATION_REMOTE_API_PINGTEST_SIZE) ''data''))]"

definition LocAPIPingTestIndMsg_serializeToProtobuf :: "pb_library \<Rightarrow> hal_values \<Rightarrow> loc_api_msg \<Rightarrow> string option option" where
  "LocAPIPingTestIndMsg_serializeToProtobuf lib hal =
     serialize_message lib hal ''LocAPIPingTestIndMsg''
       ''PBLocAPIPingTestIndMsg'' (payload_of_LocAPIPingTestIndMsg hal)"

definition members_of_LocAPIPingTestIndMsg :: "hal_values \<Rightarrow> member_types \<Rightarrow> assignment list" where
  "members_of_LocAPIPingTestIndMsg hal ty =
     [(''data'', fill LOCATION_REMOTE_API_PINGTEST_SIZE ''data'' (to_number (\<lambda>i. i mod 2 ^ 8))
        (first_of (\<lambda>s d. min (num (s ''numberofping'')) LOCATION_REMOTE_API_PINGTEST_SIZE) ''data''))]"

definition LocAPIPingTestIndMsg_fromProtobuf :: "hal_values \<Rightarrow> member_types \<Rightarrow> string \<Rightarrow> struct \<Rightarrow> bool \<Rightarrow> loc_api_msg option" where
  "LocAPIPingTestIndMsg_fromProtobuf hal ty name =
     received Unneeded name E_LOCAPI_PINGTEST_MSG_ID (members_of_LocAPIPingTestIndMsg hal ty)"

end
