(* ===== verification/PbAlike.thy ===== *)
theory PbAlike
  imports PbMessages PbConfigMessages PbPosition PbRoundTrip
begin

text \<open>
  Messages that no accessor tells apart. A library of protocol buffers leaves out a field that holds
  zero, an empty string or no element, so a parsed message is alike the one that was serialised, not
  equal to it: a field that was set to zero is unset. The assignments of the constructors, and the
  conversions they call, give the same result on messages that are alike.
\<close>

section \<open>Messages that read alike\<close>

primrec canon :: "cval \<Rightarrow> cval" where
  "canon Unset = Unset"
| "canon (Num i) = (if i = 0 then Unset else Num i)"
| "canon (Str t) = (if t = [] then Unset else Str t)"
| "canon (Seq vs) = (if vs = [] then Unset else Seq (map canon vs))"
| "canon (Obj x) = Obj (canon \<circ> x)"

definition alike :: "struct \<Rightarrow> struct \<Rightarrow> bool" where
  "alike s t \<longleftrightarrow> (\<forall>f. canon (s f) = canon (t f))"

lemma alike_refl: "alike s s"
  by (simp add: alike_def)

lemma canon_num: "canon v = canon w \<Longrightarrow> num v = num w"
  by (cases v; cases w) (auto split: if_splits)

lemma canon_str: "canon v = canon w \<Longrightarrow> str v = str w"
  by (cases v; cases w) (auto split: if_splits)

lemma canon_elements: "canon v = canon w \<Longrightarrow> map canon (elements v) = map canon (elements w)"
  by (cases v; cases w) (auto split: if_splits)

lemma canon_obj: "canon v = canon w \<Longrightarrow> alike (obj v) (obj w)"
  by (cases v; cases w) (auto simp: alike_def comp_def fun_eq_iff split: if_splits)

lemma canon_Obj: "canon v = canon w \<Longrightarrow> (\<exists>x. v = Obj x) \<longleftrightarrow> (\<exists>x. w = Obj x)"
  by (cases v; cases w) (auto split: if_splits)

lemma alikeD: "alike s t \<Longrightarrow> canon (s f) = canon (t f)"
  unfolding alike_def by blast

lemmas alike_num = canon_num [OF alikeD]
lemmas alike_str = canon_str [OF alikeD]
lemmas alike_elements = canon_elements [OF alikeD]
lemmas alike_obj = canon_obj [OF alikeD]

lemma alike_length: "alike s t \<Longrightarrow> length (elements (s f)) = length (elements (t f))"
  by (metis alike_elements length_map)

lemma alike_nth:
  assumes "alike s t" and "i < length (elements (s f))"
  shows "num (elements (s f) ! i) = num (elements (t f) ! i)"
proof (rule canon_num)
  have "map canon (elements (s f)) ! i = map canon (elements (t f)) ! i" using alike_elements [OF assms(1)] by simp
  then show "canon (elements (s f) ! i) = canon (elements (t f) ! i)"
    using assms(2) alike_length [OF assms(1), of f] by simp
qed

section \<open>Assignments that do not tell them apart\<close>

definition reads_alike :: "(struct \<Rightarrow> 'a) \<Rightarrow> bool" where
  "reads_alike r \<longleftrightarrow> (\<forall>s t. alike s t \<longrightarrow> r s = r t)"

definition element_alike :: "(cval \<Rightarrow> 'a) \<Rightarrow> bool" where
  "element_alike c \<longleftrightarrow> (\<forall>v w. canon v = canon w \<longrightarrow> c v = c w)"

definition lists_alike :: "(struct \<Rightarrow> struct \<Rightarrow> cval list option) \<Rightarrow> bool" where
  "lists_alike xs \<longleftrightarrow> (\<forall>s t d. alike s t \<longrightarrow> map_option (map canon) (xs s d) = map_option (map canon) (xs t d))"

named_theorems reads \<open>assignments that read alike messages alike\<close>

lemma reads_alikeD: "reads_alike r \<Longrightarrow> alike s t \<Longrightarrow> r s = r t"
  unfolding reads_alike_def by blast

lemma reads_alikeI: "(\<And>s t. alike s t \<Longrightarrow> r s = r t) \<Longrightarrow> reads_alike r"
  unfolding reads_alike_def by blast

lemma reads_assign_nil [reads]: "reads_alike (assign [])"
  by (rule reads_alikeI, rule ext, simp)

lemma reads_assign_cons [reads]: "reads_alike r \<Longrightarrow> reads_alike (assign rows) \<Longrightarrow> reads_alike (assign ((n, r) # rows))"
  by (rule reads_alikeI, rule ext, drule (1) reads_alikeD, drule (1) reads_alikeD, simp cong: option.case_cong)

lemma reads_get [reads]: "reads_alike (get c f)"
  by (rule reads_alikeI, rule ext, drule alike_num [of _ _ f], simp add: get_def)

lemma reads_get_enum [reads]: "reads_alike (get_enum e f)"
  by (rule reads_alikeI, rule ext, drule alike_num [of _ _ f], simp add: get_enum_def)

lemma reads_get_mask [reads]: "reads_alike (get_mask k f)"
  by (rule reads_alikeI, rule ext, drule alike_num [of _ _ f], simp add: get_mask_def)

lemma reads_get_text [reads]: "reads_alike (get_text f)"
  by (rule reads_alikeI, rule ext, drule alike_str [of _ _ f], simp add: get_text_def)

lemma reads_get_chars [reads]: "reads_alike (get_chars cap f)"
  by (rule reads_alikeI, rule ext, drule alike_str [of _ _ f], simp add: get_chars_def)

lemma reads_size_of [reads]: "reads_alike (size_of c f)"
  by (rule reads_alikeI, rule ext, drule alike_length [of _ _ f], simp add: size_of_def)

lemma reads_size_up_to [reads]: "reads_alike (size_up_to c cap f)"
  by (rule reads_alikeI, rule ext, drule alike_length [of _ _ f], simp add: size_up_to_def)

lemma reads_copy_bytes [reads]: "reads_alike (copy_bytes n cap m f)"
  by (rule reads_alikeI, rule ext, drule alike_str [of _ _ f], simp add: copy_bytes_def)

lemma reads_set_to [reads]: "reads_alike (set_to i)"
  by (rule reads_alikeI, rule ext, simp add: set_to_def)

lemma reads_into [reads]: "reads_alike conv \<Longrightarrow> reads_alike (into m conv f)"
  by (rule reads_alikeI, rule ext, drule alike_obj [of _ _ f], drule (1) reads_alikeD, simp add: into_def)

lemma reads_by_value [reads]: "reads_alike conv \<Longrightarrow> reads_alike (by_value m conv f)"
  by (rule reads_alikeI, rule ext, drule alike_obj [of _ _ f], drule (1) reads_alikeD, simp add: by_value_def)

lemma reads_of_member [reads]: "reads_alike r \<Longrightarrow> reads_alike (of_member f r)"
  by (rule reads_alikeI, rule ext, drule alike_obj [of _ _ f], drule (1) reads_alikeD, simp add: of_member_def)

lemma reads_in_member [reads]: "reads_alike (assign rows) \<Longrightarrow> reads_alike (in_member m rows)"
  by (rule reads_alikeI, rule ext, drule (1) reads_alikeD, simp add: in_member_def)

lemma reads_when_set [reads]: "reads_alike r \<Longrightarrow> reads_alike (when_set c n r)"
  by (rule reads_alikeI, rule ext, frule alike_num [of _ _ c], drule (1) reads_alikeD, simp add: when_set_def)

lemma reads_when_flag [reads]: "reads_alike r \<Longrightarrow> reads_alike (when_flag b c n r)"
  by (rule reads_alikeI, rule ext, frule alike_num [of _ _ c], drule (1) reads_alikeD, simp add: when_flag_def flag_set_def)

lemma reads_when_flag_set [reads]: "reads_alike r \<Longrightarrow> reads_alike (when_flag_set b c n r)"
  by (rule reads_alikeI, rule ext, drule (1) reads_alikeD, simp add: when_flag_set_def)

lemma reads_when_has [reads]:
  assumes "reads_alike r"
  shows "reads_alike (when_has f m r)"
proof (rule reads_alikeI, rule ext)
  fix s t d assume a: "alike s t"
  then have "(\<exists>x. s f = Obj x) \<longleftrightarrow> (\<exists>x. t f = Obj x)" by (rule canon_Obj [OF alikeD])
  then show "when_has f m r s d = when_has f m r t d"
    using reads_alikeD [OF assms a] by (cases "s f"; cases "t f") (simp_all add: when_has_def)
qed

lemma reads_select_one [reads]: "reads_alike r \<Longrightarrow> reads_alike (select_one n r)"
  by (rule reads_alikeI, rule ext, drule (1) reads_alikeD, simp add: select_one_def cong: option.case_cong)

lemma reads_if [reads]: "reads_alike a \<Longrightarrow> reads_alike b \<Longrightarrow> reads_alike (if c then a else b)"
  by simp

lemma reads_keep [reads]: "reads_alike (\<lambda>s. Some)"
  by (rule reads_alikeI, rule refl)

lemma reads_choice [reads]:
  "reads_alike a \<Longrightarrow> reads_alike b \<Longrightarrow> reads_alike (\<lambda>s d. if c then a s d else b s d)"
  by (cases c) simp_all

lemma reads_union [reads]:
  assumes "\<And>i. reads_alike (c i)"
  shows "reads_alike (\<lambda>s d. map_option Obj (c (num (d e)) (obj (s f)) (obj (d m))))"
proof (rule reads_alikeI, rule ext)
  fix s t d assume "alike s t"
  from reads_alikeD [OF assms alike_obj [OF this]]
  show "map_option Obj (c (num (d e)) (obj (s f)) (obj (d m))) = map_option Obj (c (num (d e)) (obj (t f)) (obj (d m)))" by simp
qed

lemma reads_two_masks [reads]:
  "reads_alike (\<lambda>s d. Some (Num (uint (c (word_of_int (num (s f))) (word_of_int (num (s g)))))))"
  by (rule reads_alikeI, rule ext, frule alike_num [of _ _ f], drule alike_num [of _ _ g], simp)

lemma reads_bounded [reads]: "reads_alike (\<lambda>s d. Some (Num (c (min (num (s f)) b))))"
  by (rule reads_alikeI, rule ext, drule alike_num [of _ _ f], simp)

lemma reads_bounded_size [reads]: "reads_alike (\<lambda>s d. Some (Num (c (min (int (length (elements (s f)))) b))))"
  by (rule reads_alikeI, rule ext, drule alike_length [of _ _ f], simp)

lemma reads_text_length [reads]: "reads_alike (\<lambda>s d. Some (Num (c (int (length (str (s f)))))))"
  by (rule reads_alikeI, rule ext, drule alike_str [of _ _ f], simp)

text \<open>Elements of sequences.\<close>

lemma element_alikeI: "(\<And>v w. canon v = canon w \<Longrightarrow> c v = c w) \<Longrightarrow> element_alike c"
  unfolding element_alike_def by blast

lemma element_as_number [reads]: "element_alike (as_number c)"
  by (rule element_alikeI, drule canon_num, simp add: as_number_def)

lemma element_to_number [reads]: "element_alike (to_number c)"
  by (rule element_alikeI, rule ext, drule canon_num, simp add: to_number_def)

lemma element_to_mask [reads]: "element_alike (to_mask k)"
  by (rule element_alikeI, rule ext, drule canon_num, simp add: to_mask_def)

lemma element_to_chars [reads]: "element_alike (to_chars cap)"
  by (rule element_alikeI, rule ext, drule canon_str, simp add: to_chars_def)

lemma element_message [reads]: "reads_alike conv \<Longrightarrow> element_alike (message conv)"
  by (rule element_alikeI, drule canon_obj, drule (1) reads_alikeD, simp add: message_def)

lemma element_to_struct [reads]: "reads_alike conv \<Longrightarrow> element_alike (to_struct conv)"
  by (rule element_alikeI, rule ext, drule canon_obj, drule (1) reads_alikeD, simp add: to_struct_def)

lemma map_alike: "element_alike c \<Longrightarrow> map canon vs = map canon ws \<Longrightarrow> map c vs = map c ws"
proof (induction vs arbitrary: ws)
  case (Cons v vs)
  then obtain w u where "ws = w # u" "canon v = canon w" "map canon vs = map canon u" by (cases ws) auto
  moreover have "c v = c w" using Cons.prems(1) \<open>canon v = canon w\<close> unfolding element_alike_def by blast
  ultimately show ?case using Cons.IH [OF Cons.prems(1)] by simp
qed simp

lemma reads_push [reads]: "element_alike c \<Longrightarrow> reads_alike (push m c f)"
  by (rule reads_alikeI, rule ext, drule alike_elements [of _ _ f], drule (1) map_alike, simp add: push_def)

lemma lists_all_of [reads]: "lists_alike (all_of f)"
  unfolding lists_alike_def all_of_def by (auto dest: alike_elements)

lemma lists_first_of: "(\<And>s t d. alike s t \<Longrightarrow> n s d = n t d) \<Longrightarrow> lists_alike (first_of n f)"
  unfolding lists_alike_def first_of_def
proof (intro allI impI)
  fix s t d assume n: "\<And>s t d. alike s t \<Longrightarrow> n s d = n t d" and a: "alike s t"
  show "map_option (map canon) (if nat (n s d) \<le> length (elements (s f)) then Some (take (nat (n s d)) (elements (s f))) else None) =
      map_option (map canon) (if nat (n t d) \<le> length (elements (t f)) then Some (take (nat (n t d)) (elements (t f))) else None)"
    using n [OF a, of d] alike_length [OF a, of f] alike_elements [OF a, of f] by (simp add: take_map [symmetric])
qed

lemma lists_first_of_count [reads]: "lists_alike (first_of (\<lambda>s d. n d) f)"
  by (rule lists_first_of) simp

lemma lists_bounded_size [reads]: "lists_alike (first_of (\<lambda>s d. min (int (length (elements (s g)))) b) f)"
  by (rule lists_first_of, drule alike_length [of _ _ g], simp)

lemma reads_fill [reads]:
  assumes c: "element_alike c" and xs: "lists_alike xs"
  shows "reads_alike (fill cap m c xs)"
proof (rule reads_alikeI, rule ext)
  fix s t d assume "alike s t"
  with xs have e: "map_option (map canon) (xs s d) = map_option (map canon) (xs t d)" unfolding lists_alike_def by blast
  have pairs: "map2 c vs (old_elements (length vs) (d m)) = map2 c ws (old_elements (length ws) (d m)) \<and> length vs = length ws"
    if "map canon vs = map canon ws" for vs ws
  proof -
    have l: "length vs = length ws" using that by (metis length_map)
    have "map2 c vs us = map (\<lambda>(g, u). g u) (zip (map c vs) us)" for vs us
      by (induction vs us rule: list_induct2') simp_all
    then have "map2 c vs us = map2 c ws us" for us using map_alike [OF c that] by simp
    with l show ?thesis by simp
  qed
  show "fill cap m c xs s d = fill cap m c xs t d"
  proof (cases "xs s d")
    case None
    with e have "xs t d = None" by (cases "xs t d") simp_all
    with None show ?thesis by (simp add: fill_def)
  next
    case (Some vs)
    with e obtain ws where ws: "xs t d = Some ws" "map canon vs = map canon ws" by (cases "xs t d") auto
    from pairs [OF this(2)] have "length vs = length ws"
      "map2 c vs (old_elements (length vs) (d m)) = map2 c ws (old_elements (length ws) (d m))" by blast+
    then show ?thesis unfolding fill_def Some ws(1) option.case by (simp only:)
  qed
qed

section \<open>The conversions of structures\<close>

text \<open>The loops over a number of elements another field gives.\<close>

lemma alike_signal_types: "alike s t \<Longrightarrow> signal_types hal s d = signal_types hal t d"
  by (drule alike_num [of _ _ "''numbersignaltypes''"]) (simp add: signal_types_def)

lemma lists_signal_types [reads]: "lists_alike (first_of (signal_types hal) f)"
  by (rule lists_first_of) (rule alike_signal_types)


lemma table_alike:
  assumes "alike pb qb"
  shows "pbConvertTo2DimensionDoubleVector pb = pbConvertTo2DimensionDoubleVector qb"
proof -
  have "(if k < length (elements (pb ''value'')) then Some (Num (num (elements (pb ''value'') ! k))) else None) =
      (if k < length (elements (qb ''value'')) then Some (Num (num (elements (qb ''value'') ! k))) else None)" for k
    using alike_length [OF assms, of "''value''"] alike_nth [OF assms, of k "''value''"] by simp
  then show ?thesis
    unfolding pbConvertTo2DimensionDoubleVector_def alike_num [OF assms, of "''row''"] alike_num [OF assms, of "''column''"] by simp
qed

lemma reads_table [reads]:
  "reads_alike (\<lambda>s d. map_option Seq (pbConvertTo2DimensionDoubleVector (obj (s f)) (elements (d m))))"
  by (rule reads_alikeI, rule ext, drule alike_obj [of _ _ f], drule table_alike, simp)

lemma pbConvertToXtraConfig_alike [reads]: "reads_alike (pbConvertToXtraConfig hal ty)"
  unfolding pbConvertToXtraConfig_def by (rule reads)+

lemma pbConvertToXtraStatus_alike [reads]: "reads_alike (pbConvertToXtraStatus hal ty)"
  unfolding pbConvertToXtraStatus_def by (rule reads)+

lemma pbConvertToDcReport_alike [reads]: "reads_alike (pbConvertToDcReport hal ty)"
  unfolding pbConvertToDcReport_def by (rule reads)+

lemma pbConvertToGnssConfigRobustLocation_alike [reads]: "reads_alike (pbConvertToGnssConfigRobustLocation hal ty)"
  unfolding pbConvertToGnssConfigRobustLocation_def by (rule reads)+

lemma pbConvertToCollectiveResPayload_alike [reads]: "reads_alike (pbConvertToCollectiveResPayload hal ty)"
  unfolding pbConvertToCollectiveResPayload_def by (rule reads)+

lemma pbConvertToLocation_alike [reads]: "reads_alike (pbConvertToLocation hal ty)"
  unfolding pbConvertToLocation_def by (rule reads)+

lemma pbConvertToLocAPIBatchNotification_alike [reads]: "reads_alike (pbConvertToLocAPIBatchNotification hal ty)"
  unfolding pbConvertToLocAPIBatchNotification_def by (rule reads)+

lemma pbConvertToLocAPIGfBreachNotification_alike [reads]: "reads_alike (pbConvertToLocAPIGfBreachNotification hal ty)"
  unfolding pbConvertToLocAPIGfBreachNotification_def by (rule reads)+

lemma pbConvertToGnssLocationSvUsedInPosition_alike [reads]: "reads_alike (pbConvertToGnssLocationSvUsedInPosition hal ty)"
  unfolding pbConvertToGnssLocationSvUsedInPosition_def by (rule reads)+

lemma pbConvertToLLAInfo_alike [reads]: "reads_alike (pbConvertToLLAInfo hal ty)"
  unfolding pbConvertToLLAInfo_def by (rule reads)+

lemma pbConvertToGnssSystemTimeStructType_alike [reads]: "reads_alike (pbConvertToGnssSystemTimeStructType hal ty)"
  unfolding pbConvertToGnssSystemTimeStructType_def by (rule reads)+

lemma pbConvertToGnssGloTimeStructType_alike [reads]: "reads_alike (pbConvertToGnssGloTimeStructType hal ty)"
  unfolding pbConvertToGnssGloTimeStructType_def by (rule reads)+

lemma pbConvertToSystemTimeStructUnion_alike [reads]: "reads_alike (pbConvertToSystemTimeStructUnion hal ty sys)"
  unfolding pbConvertToSystemTimeStructUnion_def [abs_def] by (rule reads)+

lemma pbConvertToGnssSystemTime_alike [reads]: "reads_alike (pbConvertToGnssSystemTime hal ty)"
  unfolding pbConvertToGnssSystemTime_def by (rule reads)+

lemma pbConvertToGnssMeasUsageInfo_alike [reads]: "reads_alike (pbConvertToGnssMeasUsageInfo hal ty)"
  unfolding pbConvertToGnssMeasUsageInfo_def by (rule reads)+

lemma pbConvertToGnssLocationPositionDynamics_alike [reads]: "reads_alike (pbConvertToGnssLocationPositionDynamics hal ty)"
  unfolding pbConvertToGnssLocationPositionDynamics_def by (rule reads)+

lemma pbConvertToGnssLocationPositionDynamicsExt_alike [reads]: "reads_alike (pbConvertToGnssLocationPositionDynamicsExt hal ty)"
  unfolding pbConvertToGnssLocationPositionDynamicsExt_def by (rule reads)+

lemma pbConvertToGnssLocInfoNotif_alike [reads]: "reads_alike (pbConvertToGnssLocInfoNotif hal ty)"
  unfolding pbConvertToGnssLocInfoNotif_def by (rule reads)+

lemma pbConvertToGnssSv_alike [reads]: "reads_alike (pbConvertToGnssSv hal ty)"
  unfolding pbConvertToGnssSv_def by (rule reads)+

lemma pbConvertToGnssSvNotif_alike [reads]: "reads_alike (pbConvertToGnssSvNotif hal ty)"
  unfolding pbConvertToGnssSvNotif_def by (rule reads)+

lemma pbConvertToLocAPINmeaSerializedPayload_alike [reads]: "reads_alike (pbConvertToLocAPINmeaSerializedPayload hal ty)"
  unfolding pbConvertToLocAPINmeaSerializedPayload_def by (rule reads)+

lemma pbConvertToGnssDataNotification_alike [reads]: "reads_alike (pbConvertToGnssDataNotification hal ty)"
  unfolding pbConvertToGnssDataNotification_def by (rule reads)+

lemma pbConvertToGnssMeasurementsData_alike [reads]: "reads_alike (pbConvertToGnssMeasurementsData hal ty)"
  unfolding pbConvertToGnssMeasurementsData_def by (rule reads)+

lemma pbConvertToGnssMeasurementsClock_alike [reads]: "reads_alike (pbConvertToGnssMeasurementsClock hal ty)"
  unfolding pbConvertToGnssMeasurementsClock_def by (rule reads)+

lemma pbConvertToGnssMeasNotification_alike [reads]: "reads_alike (pbConvertToGnssMeasNotification hal ty)"
  unfolding pbConvertToGnssMeasNotification_def by (rule reads)+

lemma pbConvertToLeapSecChgInfo_alike [reads]: "reads_alike (pbConvertToLeapSecChgInfo hal ty)"
  unfolding pbConvertToLeapSecChgInfo_def by (rule reads)+

lemma pbConvertToLeapSecSysInfo_alike [reads]: "reads_alike (pbConvertToLeapSecSysInfo hal ty)"
  unfolding pbConvertToLeapSecSysInfo_def by (rule reads)+

lemma pbConvertToLocationSystemInfo_alike [reads]: "reads_alike (pbConvertToLocationSystemInfo hal ty)"
  unfolding pbConvertToLocationSystemInfo_def by (rule reads)+

lemma pbConvertToLocationOptions_alike [reads]: "reads_alike (pbConvertToLocationOptions hal ty)"
  unfolding pbConvertToLocationOptions_def by (rule reads)+

lemma pbConvertToGeofenceOption_alike [reads]: "reads_alike (pbConvertToGeofenceOption hal ty)"
  unfolding pbConvertToGeofenceOption_def by (rule reads)+

lemma pbConvertToGeofenceInfo_alike [reads]: "reads_alike (pbConvertToGeofenceInfo hal ty)"
  unfolding pbConvertToGeofenceInfo_def by (rule reads)+

lemma pbConvertToGfAddReqPayload_alike [reads]: "reads_alike (pbConvertToGfAddReqPayload hal ty)"
  unfolding pbConvertToGfAddReqPayload_def by (rule reads)+

lemma pbConvertToGfReqClientIdPayload_alike [reads]: "reads_alike (pbConvertToGfReqClientIdPayload hal ty)"
  unfolding pbConvertToGfReqClientIdPayload_def by (rule reads)+

lemma pbConvertToGnssSvTypeConfig_alike [reads]: "reads_alike (pbConvertToGnssSvTypeConfig hal ty)"
  unfolding pbConvertToGnssSvTypeConfig_def by (rule reads)+

lemma pbConvertToGnssSvIdConfig_alike [reads]: "reads_alike (pbConvertToGnssSvIdConfig hal ty)"
  unfolding pbConvertToGnssSvIdConfig_def by (rule reads)+

lemma pbConvertToGnssAidingData_alike [reads]: "reads_alike (pbConvertToGnssAidingData hal ty)"
  unfolding pbConvertToGnssAidingData_def by (rule reads)+

lemma pbConvertToLeverArmParams_alike [reads]: "reads_alike (pbConvertToLeverArmParams hal ty)"
  unfolding pbConvertToLeverArmParams_def by (rule reads)+

lemma pbConvertToLeverArmConfigInfo_alike [reads]: "reads_alike (pbConvertToLeverArmConfigInfo hal ty)"
  unfolding pbConvertToLeverArmConfigInfo_def by (rule reads)+

lemma pbConvertToBodyToSensorMountParams_alike [reads]: "reads_alike (pbConvertToBodyToSensorMountParams hal ty)"
  unfolding pbConvertToBodyToSensorMountParams_def by (rule reads)+

lemma pbConvertToDeadReckoningEngineConfig_alike [reads]: "reads_alike (pbConvertToDeadReckoningEngineConfig hal ty)"
  unfolding pbConvertToDeadReckoningEngineConfig_def by (rule reads)+

lemma pbConvertToGnssTimespec_alike [reads]: "reads_alike (pbConvertToGnssTimespec hal ty)"
  unfolding pbConvertToGnssTimespec_def by (rule reads)+

lemma pbConvertToGnssDebugTime_alike [reads]: "reads_alike (pbConvertToGnssDebugTime hal ty)"
  unfolding pbConvertToGnssDebugTime_def by (rule reads)+

lemma pbConvertToGnssDebugLocation_alike [reads]: "reads_alike (pbConvertToGnssDebugLocation hal ty)"
  unfolding pbConvertToGnssDebugLocation_def by (rule reads)+

lemma pbConvertToGnssDebugSatelliteInfo_alike [reads]: "reads_alike (pbConvertToGnssDebugSatelliteInfo hal ty)"
  unfolding pbConvertToGnssDebugSatelliteInfo_def by (rule reads)+

lemma pbConvertToGnssDebugReport_alike [reads]: "reads_alike (pbConvertToGnssDebugReport hal ty)"
  unfolding pbConvertToGnssDebugReport_def by (rule reads)+

lemma pbConvertToGnssCoordinate_alike [reads]: "reads_alike (pbConvertToGnssCoordinate hal ty)"
  unfolding pbConvertToGnssCoordinate_def by (rule reads)+

lemma pbConvertToGnssAntennaInformaiton_alike [reads]: "reads_alike (pbConvertToGnssAntennaInformaiton hal ty)"
  unfolding pbConvertToGnssAntennaInformaiton_def by (rule reads)+

lemma pbConvertToAntennaInfo_alike [reads]: "reads_alike (pbConvertToAntennaInfo hal ty)"
  unfolding pbConvertToAntennaInfo_def by (rule reads)+

lemma pbConvertToCommanEph_alike [reads]: "reads_alike (pbConvertToCommanEph hal ty)"
  unfolding pbConvertToCommanEph_def by (rule reads)+

lemma pbConvertToGpsEphData_alike [reads]: "reads_alike (pbConvertToGpsEphData hal ty)"
  unfolding pbConvertToGpsEphData_def by (rule reads)+

lemma pbConvertToGpsExtendedEph_alike [reads]: "reads_alike (pbConvertToGpsExtendedEph hal ty)"
  unfolding pbConvertToGpsExtendedEph_def by (rule reads)+

lemma pbConvertToGpsEphResponse_alike [reads]: "reads_alike (pbConvertToGpsEphResponse hal ty)"
  unfolding pbConvertToGpsEphResponse_def by (rule reads)+

lemma pbConvertToBdsExtendedEph_alike [reads]: "reads_alike (pbConvertToBdsExtendedEph hal ty)"
  unfolding pbConvertToBdsExtendedEph_def by (rule reads)+

lemma pbConvertToBdsEphData_alike [reads]: "reads_alike (pbConvertToBdsEphData hal ty)"
  unfolding pbConvertToBdsEphData_def by (rule reads)+

lemma pbConvertToBdsEphResponse_alike [reads]: "reads_alike (pbConvertToBdsEphResponse hal ty)"
  unfolding pbConvertToBdsEphResponse_def by (rule reads)+

lemma pbConvertToGlonassEphData_alike [reads]: "reads_alike (pbConvertToGlonassEphData hal ty)"
  unfolding pbConvertToGlonassEphData_def by (rule reads)+

lemma pbConvertToGloEphResponse_alike [reads]: "reads_alike (pbConvertToGloEphResponse hal ty)"
  unfolding pbConvertToGloEphResponse_def by (rule reads)+

lemma pbConvertToGalileoEphData_alike [reads]: "reads_alike (pbConvertToGalileoEphData hal ty)"
  unfolding pbConvertToGalileoEphData_def by (rule reads)+

lemma pbConvertToGalEphResponse_alike [reads]: "reads_alike (pbConvertToGalEphResponse hal ty)"
  unfolding pbConvertToGalEphResponse_def by (rule reads)+

lemma pbConvertToQzssEphResponse_alike [reads]: "reads_alike (pbConvertToQzssEphResponse hal ty)"
  unfolding pbConvertToQzssEphResponse_def by (rule reads)+

lemma pbConvertToNavicEphData_alike [reads]: "reads_alike (pbConvertToNavicEphData hal ty)"
  unfolding pbConvertToNavicEphData_def by (rule reads)+

lemma pbConvertToNavicEphResponse_alike [reads]: "reads_alike (pbConvertToNavicEphResponse hal ty)"
  unfolding pbConvertToNavicEphResponse_def by (rule reads)+

lemma pbConvertToSystemTime_alike [reads]: "reads_alike (pbConvertToSystemTime hal ty)"
  unfolding pbConvertToSystemTime_def by (rule reads)+

lemma pbConvertToGnssMmfData_alike [reads]: "reads_alike (pbConvertToGnssMmfData hal ty)"
  unfolding pbConvertToGnssMmfData_def by (rule reads)+

lemma pbConvertToEphInfo_alike [reads]: "reads_alike (pbConvertToEphInfo hal ty sys)"
  unfolding pbConvertToEphInfo_def [abs_def] by (rule reads)+

lemma pbConvertToGnssEphNotif_alike [reads]: "reads_alike (pbConvertToGnssEphNotif hal ty)"
  unfolding pbConvertToGnssEphNotif_def by (rule reads)+

end
