(* ===== verification/PbDelivery.thy ===== *)
theory PbDelivery
  imports PbAlike
begin

text \<open>
  Messages from end to end: a message of the location API is serialised, the library carries its bytes,
  and the receiver's constructor restores it. The library's part is the hypothesis \<open>transmits\<close>: it
  serialises the message at hand, and parses the bytes to one that reads alike.
\<close>

definition transmits :: "pb_library \<Rightarrow> string \<Rightarrow> struct \<Rightarrow> bool" where
  "transmits lib t pb \<longleftrightarrow> (\<exists>b q. serialize lib t pb = Some b \<and> parse lib t b = Some q \<and> alike q pb)"

section \<open>One class of messages\<close>

text \<open>A field the constructor converts only if the message has it.\<close>

lemma undoes_when_has:
  assumes "round_trips P enc dec"
  shows "undoes (is_obj P) m f (sub f enc m) (when_has f m (into m dec f))"
proof (rule undoesI)
  fix x assume p: "is_obj P (x m)"
  then obtain g where g: "x m = Obj g" "P g" by (cases "x m") (simp_all add: is_obj_def)
  obtain pb where "enc g fresh = Some pb" "dec pb fresh = Some g" by (rule round_tripsD [OF assms g(2)])
  then show "\<exists>v. (\<forall>q. q f = Unset \<longrightarrow> sub f enc m x q = Some v) \<and>
      (\<forall>pb y. pb f = v \<longrightarrow> y m = Unset \<longrightarrow> when_has f m (into m dec f) pb y = Some (x m))"
    using g by (intro exI [of _ "Obj pb"]) (simp add: sub_def into_def when_has_def)
qed

lemmas message_trips = trips undoes_when_has GnssSvEphemerisReport_round_trips
  GnssLocationInfoNotification_round_trips AntennaInformation_round_trips

lemma message_round_trips:
  assumes "settle (shaped S Q) E" and "restore (shaped S Q) E {} D"
    and "distinct (map fst E)" and "distinct (map fst D)" and "map fst S = map fst D" and "reads_alike (assign D)"
  shows "round_trips (shaped S Q) (assign E) (assign D) \<and> reads_alike (assign D)"
  using assign_round_trips [OF assms(1-5)] assms(6) by simp

named_theorems delivery \<open>what is restored of each class of messages\<close>

text \<open>The name of a socket as the header holds it.\<close>

definition socket_name :: "string \<Rightarrow> bool" where
  "socket_name t \<longleftrightarrow> CHR 0x00 \<notin> set t \<and> int (length t) < MAX_SOCKET_PATHNAME_LENGTH"

definition complete_message :: "loc_api_msg \<Rightarrow> bool" where
  "complete_message m \<longleftrightarrow> pLocApiPbMsgConv m \<and> socket_name (mSocketName m) \<and> msgVersion m = LOCATION_REMOTE_API_MSG_VERSION"

lemma rebuilt:
  assumes "complete_message m"
  shows "(LocAPIMsgHeader (mSocketName m) (msgId m) True)\<lparr>parts := parts m\<rparr> = m"
  using assms by (cases m) (simp add: complete_message_def socket_name_def LocAPIMsgHeader_def bounded_text_id)

theorem delivered:
  assumes "round_trips P (assign E) (assign D)" and "reads_alike (assign D)" and "P (parts m)" and "complete_message m"
    and "getEnumForPBELocMsgID hal (getPBEnumForELocMsgID hal (msgId m)) = msgId m"
    and "\<And>pb. assign E (parts m) fresh = Some pb \<Longrightarrow> transmits lib t pb"
    and "\<And>b. transmits lib ''PBLocAPIMsgHeader'' ((header_of hal cls m)(''payload'' := Str b))"
  shows "\<exists>wire h q. serialize_message lib hal cls t E m = Some (Some wire) \<and> parse lib ''PBLocAPIMsgHeader'' wire = Some h \<and>
     getEnumForPBELocMsgID hal (num (h ''msgid'')) = msgId m \<and> str (h ''msocketname'') = mSocketName m \<and>
     num (h ''msgversion'') = LOCATION_REMOTE_API_MSG_VERSION \<and>
     parse lib t (str (h ''payload'')) = Some q \<and>
     received use (mSocketName m) (msgId m) D q True = Some m"
proof -
  obtain pb where pb: "assign E (parts m) fresh = Some pb" "assign D pb fresh = Some (parts m)"
    by (rule round_tripsD [OF assms(1,3)])
  from assms(6) [OF pb(1)] obtain b q where b: "serialize lib t pb = Some b" "parse lib t b = Some q" "alike q pb"
    by (auto simp: transmits_def)
  from assms(7) [of b] obtain wire h where w:
      "serialize lib ''PBLocAPIMsgHeader'' ((header_of hal cls m)(''payload'' := Str b)) = Some wire"
      "parse lib ''PBLocAPIMsgHeader'' wire = Some h" "alike h ((header_of hal cls m)(''payload'' := Str b))"
    by (auto simp: transmits_def)
  have "serialize_message lib hal cls t E m = Some (Some wire)"
    using assms(4) pb(1) b(1) w(1) by (simp add: serialize_message_def complete_message_def)
  moreover have "num (h ''msgid'') = getPBEnumForELocMsgID hal (msgId m)" "str (h ''msocketname'') = mSocketName m"
      "num (h ''msgversion'') = fit UInt32 (msgVersion m)" "str (h ''payload'') = b"
    using alike_num [OF w(3), of "''msgid''"] alike_str [OF w(3), of "''msocketname''"]
      alike_num [OF w(3), of "''msgversion''"] alike_str [OF w(3), of "''payload''"] by (simp_all add: header_of_def)
  moreover have "received use (mSocketName m) (msgId m) D q True = Some m"
    using reads_alikeD [OF assms(2) b(3)] pb(2) rebuilt [OF assms(4)] by (simp add: received_def)
  ultimately show ?thesis using w(2) b(2) assms(4,5) by (intro exI [of _ wire] exI [of _ h] exI [of _ q])
    (simp add: complete_message_def LOCATION_REMOTE_API_MSG_VERSION_def)
qed

section \<open>What each class carries\<close>

definition ok_LocAPIClientRegisterReqMsg :: "hal_values \<Rightarrow> member_types \<Rightarrow> struct \<Rightarrow> bool" where
  "ok_LocAPIClientRegisterReqMsg hal ty = shaped
     [(''mClientType'', is_one_of (known_ClientType hal))] []"

lemma LocAPIClientRegisterReqMsg_restored [delivery]:
  "round_trips (ok_LocAPIClientRegisterReqMsg hal ty) (assign (payload_of_LocAPIClientRegisterReqMsg hal)) (assign (members_of_LocAPIClientRegisterReqMsg hal ty)) \<and>
   reads_alike (assign (members_of_LocAPIClientRegisterReqMsg hal ty))"
  unfolding ok_LocAPIClientRegisterReqMsg_def payload_of_LocAPIClientRegisterReqMsg_def members_of_LocAPIClientRegisterReqMsg_def
  by (rule message_round_trips, (rule matching message_trips)+, simp only: list.map fst_conv, code_simp,
      simp only: list.map fst_conv, code_simp, simp only: list.map fst_conv, (rule reads)+)

definition ok_LocAPICapabilitiesIndMsg :: "hal_values \<Rightarrow> member_types \<Rightarrow> struct \<Rightarrow> bool" where
  "ok_LocAPICapabilitiesIndMsg hal ty = shaped
     [(''capabilitiesMask'', is_flags64 (known_LocationCapabilitiesMask hal))] []"

lemma LocAPICapabilitiesIndMsg_restored [delivery]:
  "round_trips (ok_LocAPICapabilitiesIndMsg hal ty) (assign (payload_of_LocAPICapabilitiesIndMsg hal)) (assign (members_of_LocAPICapabilitiesIndMsg hal ty)) \<and>
   reads_alike (assign (members_of_LocAPICapabilitiesIndMsg hal ty))"
  unfolding ok_LocAPICapabilitiesIndMsg_def payload_of_LocAPICapabilitiesIndMsg_def members_of_LocAPICapabilitiesIndMsg_def
  by (rule message_round_trips, (rule matching message_trips)+, simp only: list.map fst_conv, code_simp,
      simp only: list.map fst_conv, code_simp, simp only: list.map fst_conv, (rule reads)+)

definition ok_LocAPIGenericRespMsg :: "hal_values \<Rightarrow> member_types \<Rightarrow> struct \<Rightarrow> bool" where
  "ok_LocAPIGenericRespMsg hal ty = shaped
     [(''err'', is_one_of (known_LocationError hal))] []"

lemma LocAPIGenericRespMsg_restored [delivery]:
  "round_trips (ok_LocAPIGenericRespMsg hal ty) (assign (payload_of_LocAPIGenericRespMsg hal)) (assign (members_of_LocAPIGenericRespMsg hal ty)) \<and>
   reads_alike (assign (members_of_LocAPIGenericRespMsg hal ty))"
  unfolding ok_LocAPIGenericRespMsg_def payload_of_LocAPIGenericRespMsg_def members_of_LocAPIGenericRespMsg_def
  by (rule message_round_trips, (rule matching message_trips)+, simp only: list.map fst_conv, code_simp,
      simp only: list.map fst_conv, code_simp, simp only: list.map fst_conv, (rule reads)+)

definition ok_LocAPICollectiveRespMsg :: "hal_values \<Rightarrow> member_types \<Rightarrow> struct \<Rightarrow> bool" where
  "ok_LocAPICollectiveRespMsg hal ty = shaped
     [(''collectiveRes'', is_obj (ok_CollectiveResPayload hal ty))] []"

lemma LocAPICollectiveRespMsg_restored [delivery]:
  "round_trips (ok_LocAPICollectiveRespMsg hal ty) (assign (payload_of_LocAPICollectiveRespMsg hal)) (assign (members_of_LocAPICollectiveRespMsg hal ty)) \<and>
   reads_alike (assign (members_of_LocAPICollectiveRespMsg hal ty))"
  unfolding ok_LocAPICollectiveRespMsg_def payload_of_LocAPICollectiveRespMsg_def members_of_LocAPICollectiveRespMsg_def
  by (rule message_round_trips, (rule matching message_trips)+, simp only: list.map fst_conv, code_simp,
      simp only: list.map fst_conv, code_simp, simp only: list.map fst_conv, (rule reads)+)

definition ok_LocAPIStartTrackingReqMsg :: "hal_values \<Rightarrow> member_types \<Rightarrow> struct \<Rightarrow> bool" where
  "ok_LocAPIStartTrackingReqMsg hal ty = shaped
     [(''locOptions'', is_obj (ok_LocationOptions hal ty))] []"

lemma LocAPIStartTrackingReqMsg_restored [delivery]:
  "round_trips (ok_LocAPIStartTrackingReqMsg hal ty) (assign (payload_of_LocAPIStartTrackingReqMsg hal)) (assign (members_of_LocAPIStartTrackingReqMsg hal ty)) \<and>
   reads_alike (assign (members_of_LocAPIStartTrackingReqMsg hal ty))"
  unfolding ok_LocAPIStartTrackingReqMsg_def payload_of_LocAPIStartTrackingReqMsg_def members_of_LocAPIStartTrackingReqMsg_def
  by (rule message_round_trips, (rule matching message_trips)+, simp only: list.map fst_conv, code_simp,
      simp only: list.map fst_conv, code_simp, simp only: list.map fst_conv, (rule reads)+)

definition ok_LocAPIStopTrackingReqMsg :: "hal_values \<Rightarrow> member_types \<Rightarrow> struct \<Rightarrow> bool" where
  "ok_LocAPIStopTrackingReqMsg hal ty = shaped
     [(''clearSubscriptions'', is_scalar Boolean (fit Boolean))] []"

lemma LocAPIStopTrackingReqMsg_restored [delivery]:
  "round_trips (ok_LocAPIStopTrackingReqMsg hal ty) (assign (payload_of_LocAPIStopTrackingReqMsg hal)) (assign (members_of_LocAPIStopTrackingReqMsg hal ty)) \<and>
   reads_alike (assign (members_of_LocAPIStopTrackingReqMsg hal ty))"
  unfolding ok_LocAPIStopTrackingReqMsg_def payload_of_LocAPIStopTrackingReqMsg_def members_of_LocAPIStopTrackingReqMsg_def
  by (rule message_round_trips, (rule matching message_trips)+, simp only: list.map fst_conv, code_simp,
      simp only: list.map fst_conv, code_simp, simp only: list.map fst_conv, (rule reads)+)

definition ok_LocAPIUpdateCallbacksReqMsg :: "hal_values \<Rightarrow> member_types \<Rightarrow> struct \<Rightarrow> bool" where
  "ok_LocAPIUpdateCallbacksReqMsg hal ty = shaped
     [(''locationCallbacks'', is_flags32 (known_LocationCallbacksMask hal))] []"

lemma LocAPIUpdateCallbacksReqMsg_restored [delivery]:
  "round_trips (ok_LocAPIUpdateCallbacksReqMsg hal ty) (assign (payload_of_LocAPIUpdateCallbacksReqMsg hal)) (assign (members_of_LocAPIUpdateCallbacksReqMsg hal ty)) \<and>
   reads_alike (assign (members_of_LocAPIUpdateCallbacksReqMsg hal ty))"
  unfolding ok_LocAPIUpdateCallbacksReqMsg_def payload_of_LocAPIUpdateCallbacksReqMsg_def members_of_LocAPIUpdateCallbacksReqMsg_def
  by (rule message_round_trips, (rule matching message_trips)+, simp only: list.map fst_conv, code_simp,
      simp only: list.map fst_conv, code_simp, simp only: list.map fst_conv, (rule reads)+)

definition ok_LocAPIUpdateTrackingOptionsReqMsg :: "hal_values \<Rightarrow> member_types \<Rightarrow> struct \<Rightarrow> bool" where
  "ok_LocAPIUpdateTrackingOptionsReqMsg hal ty = shaped
     [(''locOptions'', is_obj (ok_LocationOptions hal ty))] []"

lemma LocAPIUpdateTrackingOptionsReqMsg_restored [delivery]:
  "round_trips (ok_LocAPIUpdateTrackingOptionsReqMsg hal ty) (assign (payload_of_LocAPIUpdateTrackingOptionsReqMsg hal)) (assign (members_of_LocAPIUpdateTrackingOptionsReqMsg hal ty)) \<and>
   reads_alike (assign (members_of_LocAPIUpdateTrackingOptionsReqMsg hal ty))"
  unfolding ok_LocAPIUpdateTrackingOptionsReqMsg_def payload_of_LocAPIUpdateTrackingOptionsReqMsg_def members_of_LocAPIUpdateTrackingOptionsReqMsg_def
  by (rule message_round_trips, (rule matching message_trips)+, simp only: list.map fst_conv, code_simp,
      simp only: list.map fst_conv, code_simp, simp only: list.map fst_conv, (rule reads)+)

definition ok_LocAPIStartBatchingReqMsg :: "hal_values \<Rightarrow> member_types \<Rightarrow> struct \<Rightarrow> bool" where
  "ok_LocAPIStartBatchingReqMsg hal ty = shaped
     [(''intervalInMs'', is_scalar UInt32 (fit UInt32)),
      (''distanceInMeters'', is_scalar UInt32 (fit UInt32)),
      (''batchingMode'', is_one_of (known_BatchingMode hal))] []"

lemma LocAPIStartBatchingReqMsg_restored [delivery]:
  "round_trips (ok_LocAPIStartBatchingReqMsg hal ty) (assign (payload_of_LocAPIStartBatchingReqMsg hal)) (assign (members_of_LocAPIStartBatchingReqMsg hal ty)) \<and>
   reads_alike (assign (members_of_LocAPIStartBatchingReqMsg hal ty))"
  unfolding ok_LocAPIStartBatchingReqMsg_def payload_of_LocAPIStartBatchingReqMsg_def members_of_LocAPIStartBatchingReqMsg_def
  by (rule message_round_trips, (rule matching message_trips)+, simp only: list.map fst_conv, code_simp,
      simp only: list.map fst_conv, code_simp, simp only: list.map fst_conv, (rule reads)+)

definition ok_LocAPIUpdateBatchingOptionsReqMsg :: "hal_values \<Rightarrow> member_types \<Rightarrow> struct \<Rightarrow> bool" where
  "ok_LocAPIUpdateBatchingOptionsReqMsg hal ty = shaped
     [(''intervalInMs'', is_scalar UInt32 (fit UInt32)),
      (''distanceInMeters'', is_scalar UInt32 (fit UInt32)),
      (''batchingMode'', is_one_of (known_BatchingMode hal))] []"

lemma LocAPIUpdateBatchingOptionsReqMsg_restored [delivery]:
  "round_trips (ok_LocAPIUpdateBatchingOptionsReqMsg hal ty) (assign (payload_of_LocAPIUpdateBatchingOptionsReqMsg hal)) (assign (members_of_LocAPIUpdateBatchingOptionsReqMsg hal ty)) \<and>
   reads_alike (assign (members_of_LocAPIUpdateBatchingOptionsReqMsg hal ty))"
  unfolding ok_LocAPIUpdateBatchingOptionsReqMsg_def payload_of_LocAPIUpdateBatchingOptionsReqMsg_def members_of_LocAPIUpdateBatchingOptionsReqMsg_def
  by (rule message_round_trips, (rule matching message_trips)+, simp only: list.map fst_conv, code_simp,
      simp only: list.map fst_conv, code_simp, simp only: list.map fst_conv, (rule reads)+)

definition ok_LocAPIAddGeofencesReqMsg :: "hal_values \<Rightarrow> member_types \<Rightarrow> struct \<Rightarrow> bool" where
  "ok_LocAPIAddGeofencesReqMsg hal ty = shaped
     [(''geofences'', is_obj (ok_GeofencesAddedReqPayload hal ty))] []"

lemma LocAPIAddGeofencesReqMsg_restored [delivery]:
  "round_trips (ok_LocAPIAddGeofencesReqMsg hal ty) (assign (payload_of_LocAPIAddGeofencesReqMsg hal)) (assign (members_of_LocAPIAddGeofencesReqMsg hal ty)) \<and>
   reads_alike (assign (members_of_LocAPIAddGeofencesReqMsg hal ty))"
  unfolding ok_LocAPIAddGeofencesReqMsg_def payload_of_LocAPIAddGeofencesReqMsg_def members_of_LocAPIAddGeofencesReqMsg_def
  by (rule message_round_trips, (rule matching message_trips)+, simp only: list.map fst_conv, code_simp,
      simp only: list.map fst_conv, code_simp, simp only: list.map fst_conv, (rule reads)+)

definition ok_LocAPIRemoveGeofencesReqMsg :: "hal_values \<Rightarrow> member_types \<Rightarrow> struct \<Rightarrow> bool" where
  "ok_LocAPIRemoveGeofencesReqMsg hal ty = shaped
     [(''gfClientIds'', is_obj (ok_GeofencesReqClientIdPayload hal ty))] []"

lemma LocAPIRemoveGeofencesReqMsg_restored [delivery]:
  "round_trips (ok_LocAPIRemoveGeofencesReqMsg hal ty) (assign (payload_of_LocAPIRemoveGeofencesReqMsg hal)) (assign (members_of_LocAPIRemoveGeofencesReqMsg hal ty)) \<and>
   reads_alike (assign (members_of_LocAPIRemoveGeofencesReqMsg hal ty))"
  unfolding ok_LocAPIRemoveGeofencesReqMsg_def payload_of_LocAPIRemoveGeofencesReqMsg_def members_of_LocAPIRemoveGeofencesReqMsg_def
  by (rule message_round_trips, (rule matching message_trips)+, simp only: list.map fst_conv, code_simp,
      simp only: list.map fst_conv, code_simp, simp only: list.map fst_conv, (rule reads)+)

definition ok_LocAPIModifyGeofencesReqMsg :: "hal_values \<Rightarrow> member_types \<Rightarrow> struct \<Rightarrow> bool" where
  "ok_LocAPIModifyGeofencesReqMsg hal ty = shaped
     [(''geofences'', is_obj (ok_GeofencesAddedReqPayload hal ty))] []"

lemma LocAPIModifyGeofencesReqMsg_restored [delivery]:
  "round_trips (ok_LocAPIModifyGeofencesReqMsg hal ty) (assign (payload_of_LocAPIModifyGeofencesReqMsg hal)) (assign (members_of_LocAPIModifyGeofencesReqMsg hal ty)) \<and>
   reads_alike (assign (members_of_LocAPIModifyGeofencesReqMsg hal ty))"
  unfolding ok_LocAPIModifyGeofencesReqMsg_def payload_of_LocAPIModifyGeofencesReqMsg_def members_of_LocAPIModifyGeofencesReqMsg_def
  by (rule message_round_trips, (rule matching message_trips)+, simp only: list.map fst_conv, code_simp,
      simp only: list.map fst_conv, code_simp, simp only: list.map fst_conv, (rule reads)+)

definition ok_LocAPIPauseGeofencesReqMsg :: "hal_values \<Rightarrow> member_types \<Rightarrow> struct \<Rightarrow> bool" where
  "ok_LocAPIPauseGeofencesReqMsg hal ty = shaped
     [(''gfClientIds'', is_obj (ok_GeofencesReqClientIdPayload hal ty))] []"

lemma LocAPIPauseGeofencesReqMsg_restored [delivery]:
  "round_trips (ok_LocAPIPauseGeofencesReqMsg hal ty) (assign (payload_of_LocAPIPauseGeofencesReqMsg hal)) (assign (members_of_LocAPIPauseGeofencesReqMsg hal ty)) \<and>
   reads_alike (assign (members_of_LocAPIPauseGeofencesReqMsg hal ty))"
  unfolding ok_LocAPIPauseGeofencesReqMsg_def payload_of_LocAPIPauseGeofencesReqMsg_def members_of_LocAPIPauseGeofencesReqMsg_def
  by (rule message_round_trips, (rule matching message_trips)+, simp only: list.map fst_conv, code_simp,
      simp only: list.map fst_conv, code_simp, simp only: list.map fst_conv, (rule reads)+)

definition ok_LocAPIResumeGeofencesReqMsg :: "hal_values \<Rightarrow> member_types \<Rightarrow> struct \<Rightarrow> bool" where
  "ok_LocAPIResumeGeofencesReqMsg hal ty = shaped
     [(''gfClientIds'', is_obj (ok_GeofencesReqClientIdPayload hal ty))] []"

lemma LocAPIResumeGeofencesReqMsg_restored [delivery]:
  "round_trips (ok_LocAPIResumeGeofencesReqMsg hal ty) (assign (payload_of_LocAPIResumeGeofencesReqMsg hal)) (assign (members_of_LocAPIResumeGeofencesReqMsg hal ty)) \<and>
   reads_alike (assign (members_of_LocAPIResumeGeofencesReqMsg hal ty))"
  unfolding ok_LocAPIResumeGeofencesReqMsg_def payload_of_LocAPIResumeGeofencesReqMsg_def members_of_LocAPIResumeGeofencesReqMsg_def
  by (rule message_round_trips, (rule matching message_trips)+, simp only: list.map fst_conv, code_simp,
      simp only: list.map fst_conv, code_simp, simp only: list.map fst_conv, (rule reads)+)

definition ok_LocAPIUpdateNetworkAvailabilityReqMsg :: "hal_values \<Rightarrow> member_types \<Rightarrow> struct \<Rightarrow> bool" where
  "ok_LocAPIUpdateNetworkAvailabilityReqMsg hal ty = shaped
     [(''mAvailability'', is_scalar Boolean (fit Boolean))] []"

lemma LocAPIUpdateNetworkAvailabilityReqMsg_restored [delivery]:
  "round_trips (ok_LocAPIUpdateNetworkAvailabilityReqMsg hal ty) (assign (payload_of_LocAPIUpdateNetworkAvailabilityReqMsg hal)) (assign (members_of_LocAPIUpdateNetworkAvailabilityReqMsg hal ty)) \<and>
   reads_alike (assign (members_of_LocAPIUpdateNetworkAvailabilityReqMsg hal ty))"
  unfolding ok_LocAPIUpdateNetworkAvailabilityReqMsg_def payload_of_LocAPIUpdateNetworkAvailabilityReqMsg_def members_of_LocAPIUpdateNetworkAvailabilityReqMsg_def
  by (rule message_round_trips, (rule matching message_trips)+, simp only: list.map fst_conv, code_simp,
      simp only: list.map fst_conv, code_simp, simp only: list.map fst_conv, (rule reads)+)

definition ok_LocAPIGetSingleTerrestrialPosReqMsg :: "hal_values \<Rightarrow> member_types \<Rightarrow> struct \<Rightarrow> bool" where
  "ok_LocAPIGetSingleTerrestrialPosReqMsg hal ty = shaped
     [(''mTimeoutMsec'', is_scalar UInt32 (fit UInt32)),
      (''mTechMask'', is_flags32 (known_TerrestrialTechMask hal)),
      (''mHorQoS'', is_scalar Float (fit Float))] []"

lemma LocAPIGetSingleTerrestrialPosReqMsg_restored [delivery]:
  "round_trips (ok_LocAPIGetSingleTerrestrialPosReqMsg hal ty) (assign (payload_of_LocAPIGetSingleTerrestrialPosReqMsg hal)) (assign (members_of_LocAPIGetSingleTerrestrialPosReqMsg hal ty)) \<and>
   reads_alike (assign (members_of_LocAPIGetSingleTerrestrialPosReqMsg hal ty))"
  unfolding ok_LocAPIGetSingleTerrestrialPosReqMsg_def payload_of_LocAPIGetSingleTerrestrialPosReqMsg_def members_of_LocAPIGetSingleTerrestrialPosReqMsg_def
  by (rule message_round_trips, (rule matching message_trips)+, simp only: list.map fst_conv, code_simp,
      simp only: list.map fst_conv, code_simp, simp only: list.map fst_conv, (rule reads)+)

definition ok_LocAPIGetSingleTerrestrialPosRespMsg :: "hal_values \<Rightarrow> member_types \<Rightarrow> struct \<Rightarrow> bool" where
  "ok_LocAPIGetSingleTerrestrialPosRespMsg hal ty = shaped
     [(''mErrorCode'', is_one_of (known_LocationError hal)),
      (''mLocation'', is_obj (ok_Location hal ty))] []"

lemma LocAPIGetSingleTerrestrialPosRespMsg_restored [delivery]:
  "round_trips (ok_LocAPIGetSingleTerrestrialPosRespMsg hal ty) (assign (payload_of_LocAPIGetSingleTerrestrialPosRespMsg hal)) (assign (members_of_LocAPIGetSingleTerrestrialPosRespMsg hal ty)) \<and>
   reads_alike (assign (members_of_LocAPIGetSingleTerrestrialPosRespMsg hal ty))"
  unfolding ok_LocAPIGetSingleTerrestrialPosRespMsg_def payload_of_LocAPIGetSingleTerrestrialPosRespMsg_def members_of_LocAPIGetSingleTerrestrialPosRespMsg_def
  by (rule message_round_trips, (rule matching message_trips)+, simp only: list.map fst_conv, code_simp,
      simp only: list.map fst_conv, code_simp, simp only: list.map fst_conv, (rule reads)+)

definition ok_LocAPIGetSinglePosReqMsg :: "hal_values \<Rightarrow> member_types \<Rightarrow> struct \<Rightarrow> bool" where
  "ok_LocAPIGetSinglePosReqMsg hal ty = shaped
     [(''mTimeoutMsec'', is_scalar UInt32 (fit UInt32)),
      (''mHorQoS'', is_scalar Float (fit Float))] []"

lemma LocAPIGetSinglePosReqMsg_restored [delivery]:
  "round_trips (ok_LocAPIGetSinglePosReqMsg hal ty) (assign (payload_of_LocAPIGetSinglePosReqMsg hal)) (assign (members_of_LocAPIGetSinglePosReqMsg hal ty)) \<and>
   reads_alike (assign (members_of_LocAPIGetSinglePosReqMsg hal ty))"
  unfolding ok_LocAPIGetSinglePosReqMsg_def payload_of_LocAPIGetSinglePosReqMsg_def members_of_LocAPIGetSinglePosReqMsg_def
  by (rule message_round_trips, (rule matching message_trips)+, simp only: list.map fst_conv, code_simp,
      simp only: list.map fst_conv, code_simp, simp only: list.map fst_conv, (rule reads)+)

definition ok_LocAPIGetSinglePosRespMsg :: "hal_values \<Rightarrow> member_types \<Rightarrow> struct \<Rightarrow> bool" where
  "ok_LocAPIGetSinglePosRespMsg hal ty = shaped
     [(''mErrorCode'', is_one_of (known_LocationError hal)),
      (''mLocation'', is_obj (ok_Location hal ty))] []"

lemma LocAPIGetSinglePosRespMsg_restored [delivery]:
  "round_trips (ok_LocAPIGetSinglePosRespMsg hal ty) (assign (payload_of_LocAPIGetSinglePosRespMsg hal)) (assign (members_of_LocAPIGetSinglePosRespMsg hal ty)) \<and>
   reads_alike (assign (members_of_LocAPIGetSinglePosRespMsg hal ty))"
  unfolding ok_LocAPIGetSinglePosRespMsg_def payload_of_LocAPIGetSinglePosRespMsg_def members_of_LocAPIGetSinglePosRespMsg_def
  by (rule message_round_trips, (rule matching message_trips)+, simp only: list.map fst_conv, code_simp,
      simp only: list.map fst_conv, code_simp, simp only: list.map fst_conv, (rule reads)+)

definition ok_LocAPILocationIndMsg :: "hal_values \<Rightarrow> member_types \<Rightarrow> struct \<Rightarrow> bool" where
  "ok_LocAPILocationIndMsg hal ty = shaped
     [(''locationNotification'', is_obj (ok_Location hal ty))] []"

lemma LocAPILocationIndMsg_restored [delivery]:
  "round_trips (ok_LocAPILocationIndMsg hal ty) (assign (payload_of_LocAPILocationIndMsg hal)) (assign (members_of_LocAPILocationIndMsg hal ty)) \<and>
   reads_alike (assign (members_of_LocAPILocationIndMsg hal ty))"
  unfolding ok_LocAPILocationIndMsg_def payload_of_LocAPILocationIndMsg_def members_of_LocAPILocationIndMsg_def
  by (rule message_round_trips, (rule matching message_trips)+, simp only: list.map fst_conv, code_simp,
      simp only: list.map fst_conv, code_simp, simp only: list.map fst_conv, (rule reads)+)

definition ok_LocAPIBatchingIndMsg :: "hal_values \<Rightarrow> member_types \<Rightarrow> struct \<Rightarrow> bool" where
  "ok_LocAPIBatchingIndMsg hal ty = shaped
     [(''batchNotification'', is_obj (ok_LocAPIBatchNotification hal ty)),
      (''batchingMode'', is_one_of (known_BatchingMode hal))] []"

lemma LocAPIBatchingIndMsg_restored [delivery]:
  "round_trips (ok_LocAPIBatchingIndMsg hal ty) (assign (payload_of_LocAPIBatchingIndMsg hal)) (assign (members_of_LocAPIBatchingIndMsg hal ty)) \<and>
   reads_alike (assign (members_of_LocAPIBatchingIndMsg hal ty))"
  unfolding ok_LocAPIBatchingIndMsg_def payload_of_LocAPIBatchingIndMsg_def members_of_LocAPIBatchingIndMsg_def
  by (rule message_round_trips, (rule matching message_trips)+, simp only: list.map fst_conv, code_simp,
      simp only: list.map fst_conv, code_simp, simp only: list.map fst_conv, (rule reads)+)

definition ok_LocAPIGeofenceBreachIndMsg :: "hal_values \<Rightarrow> member_types \<Rightarrow> struct \<Rightarrow> bool" where
  "ok_LocAPIGeofenceBreachIndMsg hal ty = shaped
     [(''gfBreachNotification'', is_obj (ok_LocAPIGeofenceBreachNotification hal ty))] []"

lemma LocAPIGeofenceBreachIndMsg_restored [delivery]:
  "round_trips (ok_LocAPIGeofenceBreachIndMsg hal ty) (assign (payload_of_LocAPIGeofenceBreachIndMsg hal)) (assign (members_of_LocAPIGeofenceBreachIndMsg hal ty)) \<and>
   reads_alike (assign (members_of_LocAPIGeofenceBreachIndMsg hal ty))"
  unfolding ok_LocAPIGeofenceBreachIndMsg_def payload_of_LocAPIGeofenceBreachIndMsg_def members_of_LocAPIGeofenceBreachIndMsg_def
  by (rule message_round_trips, (rule matching message_trips)+, simp only: list.map fst_conv, code_simp,
      simp only: list.map fst_conv, code_simp, simp only: list.map fst_conv, (rule reads)+)

definition ok_LocAPILocationInfoIndMsg :: "hal_values \<Rightarrow> member_types \<Rightarrow> struct \<Rightarrow> bool" where
  "ok_LocAPILocationInfoIndMsg hal ty = shaped
     [(''gnssLocationInfoNotification'', is_obj (ok_GnssLocationInfoNotification hal ty))] []"

lemma LocAPILocationInfoIndMsg_restored [delivery]:
  "round_trips (ok_LocAPILocationInfoIndMsg hal ty) (assign (payload_of_LocAPILocationInfoIndMsg hal)) (assign (members_of_LocAPILocationInfoIndMsg hal ty)) \<and>
   reads_alike (assign (members_of_LocAPILocationInfoIndMsg hal ty))"
  unfolding ok_LocAPILocationInfoIndMsg_def payload_of_LocAPILocationInfoIndMsg_def members_of_LocAPILocationInfoIndMsg_def
  by (rule message_round_trips, (rule matching message_trips)+, simp only: list.map fst_conv, code_simp,
      simp only: list.map fst_conv, code_simp, simp only: list.map fst_conv, (rule reads)+)

definition ok_LocAPISatelliteVehicleIndMsg :: "hal_values \<Rightarrow> member_types \<Rightarrow> struct \<Rightarrow> bool" where
  "ok_LocAPISatelliteVehicleIndMsg hal ty = shaped
     [(''gnssSvNotification'', is_obj (ok_GnssSvNotification hal ty))] []"

lemma LocAPISatelliteVehicleIndMsg_restored [delivery]:
  "round_trips (ok_LocAPISatelliteVehicleIndMsg hal ty) (assign (payload_of_LocAPISatelliteVehicleIndMsg hal)) (assign (members_of_LocAPISatelliteVehicleIndMsg hal ty)) \<and>
   reads_alike (assign (members_of_LocAPISatelliteVehicleIndMsg hal ty))"
  unfolding ok_LocAPISatelliteVehicleIndMsg_def payload_of_LocAPISatelliteVehicleIndMsg_def members_of_LocAPISatelliteVehicleIndMsg_def
  by (rule message_round_trips, (rule matching message_trips)+, simp only: list.map fst_conv, code_simp,
      simp only: list.map fst_conv, code_simp, simp only: list.map fst_conv, (rule reads)+)

definition ok_LocAPINmeaIndMsg :: "hal_values \<Rightarrow> member_types \<Rightarrow> struct \<Rightarrow> bool" where
  "ok_LocAPINmeaIndMsg hal ty = shaped
     [(''gnssNmeaNotification'', is_obj (ok_LocAPINmeaSerializedPayload hal ty))] []"

lemma LocAPINmeaIndMsg_restored [delivery]:
  "round_trips (ok_LocAPINmeaIndMsg hal ty) (assign (payload_of_LocAPINmeaIndMsg hal)) (assign (members_of_LocAPINmeaIndMsg hal ty)) \<and>
   reads_alike (assign (members_of_LocAPINmeaIndMsg hal ty))"
  unfolding ok_LocAPINmeaIndMsg_def payload_of_LocAPINmeaIndMsg_def members_of_LocAPINmeaIndMsg_def
  by (rule message_round_trips, (rule matching message_trips)+, simp only: list.map fst_conv, code_simp,
      simp only: list.map fst_conv, code_simp, simp only: list.map fst_conv, (rule reads)+)

definition ok_LocAPIMeasIndMsg :: "hal_values \<Rightarrow> member_types \<Rightarrow> struct \<Rightarrow> bool" where
  "ok_LocAPIMeasIndMsg hal ty = shaped
     [(''gnssMeasurementsNotification'', is_obj (ok_GnssMeasurementsNotification hal ty))] []"

lemma LocAPIMeasIndMsg_restored [delivery]:
  "round_trips (ok_LocAPIMeasIndMsg hal ty) (assign (payload_of_LocAPIMeasIndMsg hal)) (assign (members_of_LocAPIMeasIndMsg hal ty)) \<and>
   reads_alike (assign (members_of_LocAPIMeasIndMsg hal ty))"
  unfolding ok_LocAPIMeasIndMsg_def payload_of_LocAPIMeasIndMsg_def members_of_LocAPIMeasIndMsg_def
  by (rule message_round_trips, (rule matching message_trips)+, simp only: list.map fst_conv, code_simp,
      simp only: list.map fst_conv, code_simp, simp only: list.map fst_conv, (rule reads)+)

definition ok_LocAPIGnssEnergyConsumedIndMsg :: "hal_values \<Rightarrow> member_types \<Rightarrow> struct \<Rightarrow> bool" where
  "ok_LocAPIGnssEnergyConsumedIndMsg hal ty = shaped
     [(''totalGnssEnergyConsumedSinceFirstBoot'', is_scalar UInt64 (fit UInt64))] []"

lemma LocAPIGnssEnergyConsumedIndMsg_restored [delivery]:
  "round_trips (ok_LocAPIGnssEnergyConsumedIndMsg hal ty) (assign (payload_of_LocAPIGnssEnergyConsumedIndMsg hal)) (assign (members_of_LocAPIGnssEnergyConsumedIndMsg hal ty)) \<and>
   reads_alike (assign (members_of_LocAPIGnssEnergyConsumedIndMsg hal ty))"
  unfolding ok_LocAPIGnssEnergyConsumedIndMsg_def payload_of_LocAPIGnssEnergyConsumedIndMsg_def members_of_LocAPIGnssEnergyConsumedIndMsg_def
  by (rule message_round_trips, (rule matching message_trips)+, simp only: list.map fst_conv, code_simp,
      simp only: list.map fst_conv, code_simp, simp only: list.map fst_conv, (rule reads)+)

definition ok_LocAPILocationSystemInfoIndMsg :: "hal_values \<Rightarrow> member_types \<Rightarrow> struct \<Rightarrow> bool" where
  "ok_LocAPILocationSystemInfoIndMsg hal ty = shaped
     [(''locationSystemInfo'', is_obj (ok_LocationSystemInfo hal ty))] []"

lemma LocAPILocationSystemInfoIndMsg_restored [delivery]:
  "round_trips (ok_LocAPILocationSystemInfoIndMsg hal ty) (assign (payload_of_LocAPILocationSystemInfoIndMsg hal)) (assign (members_of_LocAPILocationSystemInfoIndMsg hal ty)) \<and>
   reads_alike (assign (members_of_LocAPILocationSystemInfoIndMsg hal ty))"
  unfolding ok_LocAPILocationSystemInfoIndMsg_def payload_of_LocAPILocationSystemInfoIndMsg_def members_of_LocAPILocationSystemInfoIndMsg_def
  by (rule message_round_trips, (rule matching message_trips)+, simp only: list.map fst_conv, code_simp,
      simp only: list.map fst_conv, code_simp, simp only: list.map fst_conv, (rule reads)+)

definition ok_LocAPIDcReportIndMsg :: "hal_values \<Rightarrow> member_types \<Rightarrow> struct \<Rightarrow> bool" where
  "ok_LocAPIDcReportIndMsg hal ty = shaped
     [(''dcReportInfo'', is_obj (ok_GnssDcReportInfo hal ty))] []"

lemma LocAPIDcReportIndMsg_restored [delivery]:
  "round_trips (ok_LocAPIDcReportIndMsg hal ty) (assign (payload_of_LocAPIDcReportIndMsg hal)) (assign (members_of_LocAPIDcReportIndMsg hal ty)) \<and>
   reads_alike (assign (members_of_LocAPIDcReportIndMsg hal ty))"
  unfolding ok_LocAPIDcReportIndMsg_def payload_of_LocAPIDcReportIndMsg_def members_of_LocAPIDcReportIndMsg_def
  by (rule message_round_trips, (rule matching message_trips)+, simp only: list.map fst_conv, code_simp,
      simp only: list.map fst_conv, code_simp, simp only: list.map fst_conv, (rule reads)+)

definition ok_LocAPIEphIndMsg :: "hal_values \<Rightarrow> member_types \<Rightarrow> struct \<Rightarrow> bool" where
  "ok_LocAPIEphIndMsg hal ty = shaped
     [(''gnssEphNotification'', is_obj (ok_GnssSvEphemerisReport hal ty))] []"

lemma LocAPIEphIndMsg_restored [delivery]:
  "round_trips (ok_LocAPIEphIndMsg hal ty) (assign (payload_of_LocAPIEphIndMsg hal)) (assign (members_of_LocAPIEphIndMsg hal ty)) \<and>
   reads_alike (assign (members_of_LocAPIEphIndMsg hal ty))"
  unfolding ok_LocAPIEphIndMsg_def payload_of_LocAPIEphIndMsg_def members_of_LocAPIEphIndMsg_def
  by (rule message_round_trips, (rule matching message_trips)+, simp only: list.map fst_conv, code_simp,
      simp only: list.map fst_conv, code_simp, simp only: list.map fst_conv, (rule reads)+)

definition ok_LocConfigConstrainedTuncReqMsg :: "hal_values \<Rightarrow> member_types \<Rightarrow> struct \<Rightarrow> bool" where
  "ok_LocConfigConstrainedTuncReqMsg hal ty = shaped
     [(''mEnable'', is_scalar Boolean (fit Boolean)),
      (''mTuncConstraint'', is_scalar Float (fit Float)),
      (''mEnergyBudget'', is_scalar UInt32 (fit UInt32))] []"

lemma LocConfigConstrainedTuncReqMsg_restored [delivery]:
  "round_trips (ok_LocConfigConstrainedTuncReqMsg hal ty) (assign (payload_of_LocConfigConstrainedTuncReqMsg hal)) (assign (members_of_LocConfigConstrainedTuncReqMsg hal ty)) \<and>
   reads_alike (assign (members_of_LocConfigConstrainedTuncReqMsg hal ty))"
  unfolding ok_LocConfigConstrainedTuncReqMsg_def payload_of_LocConfigConstrainedTuncReqMsg_def members_of_LocConfigConstrainedTuncReqMsg_def
  by (rule message_round_trips, (rule matching message_trips)+, simp only: list.map fst_conv, code_simp,
      simp only: list.map fst_conv, code_simp, simp only: list.map fst_conv, (rule reads)+)

definition ok_LocConfigPositionAssistedClockEstimatorReqMsg :: "hal_values \<Rightarrow> member_types \<Rightarrow> struct \<Rightarrow> bool" where
  "ok_LocConfigPositionAssistedClockEstimatorReqMsg hal ty = shaped
     [(''mEnable'', is_scalar Boolean (fit Boolean))] []"

lemma LocConfigPositionAssistedClockEstimatorReqMsg_restored [delivery]:
  "round_trips (ok_LocConfigPositionAssistedClockEstimatorReqMsg hal ty) (assign (payload_of_LocConfigPositionAssistedClockEstimatorReqMsg hal)) (assign (members_of_LocConfigPositionAssistedClockEstimatorReqMsg hal ty)) \<and>
   reads_alike (assign (members_of_LocConfigPositionAssistedClockEstimatorReqMsg hal ty))"
  unfolding ok_LocConfigPositionAssistedClockEstimatorReqMsg_def payload_of_LocConfigPositionAssistedClockEstimatorReqMsg_def members_of_LocConfigPositionAssistedClockEstimatorReqMsg_def
  by (rule message_round_trips, (rule matching message_trips)+, simp only: list.map fst_conv, code_simp,
      simp only: list.map fst_conv, code_simp, simp only: list.map fst_conv, (rule reads)+)

definition ok_LocConfigConstellationSecondaryBandReqMsg :: "hal_values \<Rightarrow> member_types \<Rightarrow> struct \<Rightarrow> bool" where
  "ok_LocConfigConstellationSecondaryBandReqMsg hal ty = shaped
     [(''mSecondaryBandConfig'', is_obj (ok_GnssSvTypeConfig hal ty))] []"

lemma LocConfigConstellationSecondaryBandReqMsg_restored [delivery]:
  "round_trips (ok_LocConfigConstellationSecondaryBandReqMsg hal ty) (assign (payload_of_LocConfigConstellationSecondaryBandReqMsg hal)) (assign (members_of_LocConfigConstellationSecondaryBandReqMsg hal ty)) \<and>
   reads_alike (assign (members_of_LocConfigConstellationSecondaryBandReqMsg hal ty))"
  unfolding ok_LocConfigConstellationSecondaryBandReqMsg_def payload_of_LocConfigConstellationSecondaryBandReqMsg_def members_of_LocConfigConstellationSecondaryBandReqMsg_def
  by (rule message_round_trips, (rule matching message_trips)+, simp only: list.map fst_conv, code_simp,
      simp only: list.map fst_conv, code_simp, simp only: list.map fst_conv, (rule reads)+)

definition ok_LocConfigAidingDataDeletionReqMsg :: "hal_values \<Rightarrow> member_types \<Rightarrow> struct \<Rightarrow> bool" where
  "ok_LocConfigAidingDataDeletionReqMsg hal ty = shaped
     [(''mAidingData'', is_obj (ok_GnssAidingData hal ty))] []"

lemma LocConfigAidingDataDeletionReqMsg_restored [delivery]:
  "round_trips (ok_LocConfigAidingDataDeletionReqMsg hal ty) (assign (payload_of_LocConfigAidingDataDeletionReqMsg hal)) (assign (members_of_LocConfigAidingDataDeletionReqMsg hal ty)) \<and>
   reads_alike (assign (members_of_LocConfigAidingDataDeletionReqMsg hal ty))"
  unfolding ok_LocConfigAidingDataDeletionReqMsg_def payload_of_LocConfigAidingDataDeletionReqMsg_def members_of_LocConfigAidingDataDeletionReqMsg_def
  by (rule message_round_trips, (rule matching message_trips)+, simp only: list.map fst_conv, code_simp,
      simp only: list.map fst_conv, code_simp, simp only: list.map fst_conv, (rule reads)+)

definition ok_LocConfigLeverArmReqMsg :: "hal_values \<Rightarrow> member_types \<Rightarrow> struct \<Rightarrow> bool" where
  "ok_LocConfigLeverArmReqMsg hal ty = shaped
     [(''mLeverArmConfigInfo'', is_obj (ok_LeverArmConfigInfo hal ty))] []"

lemma LocConfigLeverArmReqMsg_restored [delivery]:
  "round_trips (ok_LocConfigLeverArmReqMsg hal ty) (assign (payload_of_LocConfigLeverArmReqMsg hal)) (assign (members_of_LocConfigLeverArmReqMsg hal ty)) \<and>
   reads_alike (assign (members_of_LocConfigLeverArmReqMsg hal ty))"
  unfolding ok_LocConfigLeverArmReqMsg_def payload_of_LocConfigLeverArmReqMsg_def members_of_LocConfigLeverArmReqMsg_def
  by (rule message_round_trips, (rule matching message_trips)+, simp only: list.map fst_conv, code_simp,
      simp only: list.map fst_conv, code_simp, simp only: list.map fst_conv, (rule reads)+)

definition ok_LocConfigRobustLocationReqMsg :: "hal_values \<Rightarrow> member_types \<Rightarrow> struct \<Rightarrow> bool" where
  "ok_LocConfigRobustLocationReqMsg hal ty = shaped
     [(''mEnable'', is_scalar Boolean (fit Boolean)),
      (''mEnableForE911'', is_scalar Boolean (fit Boolean))] []"

lemma LocConfigRobustLocationReqMsg_restored [delivery]:
  "round_trips (ok_LocConfigRobustLocationReqMsg hal ty) (assign (payload_of_LocConfigRobustLocationReqMsg hal)) (assign (members_of_LocConfigRobustLocationReqMsg hal ty)) \<and>
   reads_alike (assign (members_of_LocConfigRobustLocationReqMsg hal ty))"
  unfolding ok_LocConfigRobustLocationReqMsg_def payload_of_LocConfigRobustLocationReqMsg_def members_of_LocConfigRobustLocationReqMsg_def
  by (rule message_round_trips, (rule matching message_trips)+, simp only: list.map fst_conv, code_simp,
      simp only: list.map fst_conv, code_simp, simp only: list.map fst_conv, (rule reads)+)

definition ok_LocConfigMinGpsWeekReqMsg :: "hal_values \<Rightarrow> member_types \<Rightarrow> struct \<Rightarrow> bool" where
  "ok_LocConfigMinGpsWeekReqMsg hal ty = shaped
     [(''mMinGpsWeek'', is_scalar UInt32 (\<lambda>i. i mod 2 ^ 16))] []"

lemma LocConfigMinGpsWeekReqMsg_restored [delivery]:
  "round_trips (ok_LocConfigMinGpsWeekReqMsg hal ty) (assign (payload_of_LocConfigMinGpsWeekReqMsg hal)) (assign (members_of_LocConfigMinGpsWeekReqMsg hal ty)) \<and>
   reads_alike (assign (members_of_LocConfigMinGpsWeekReqMsg hal ty))"
  unfolding ok_LocConfigMinGpsWeekReqMsg_def payload_of_LocConfigMinGpsWeekReqMsg_def members_of_LocConfigMinGpsWeekReqMsg_def
  by (rule message_round_trips, (rule matching message_trips)+, simp only: list.map fst_conv, code_simp,
      simp only: list.map fst_conv, code_simp, simp only: list.map fst_conv, (rule reads)+)

definition ok_LocConfigDrEngineParamsReqMsg :: "hal_values \<Rightarrow> member_types \<Rightarrow> struct \<Rightarrow> bool" where
  "ok_LocConfigDrEngineParamsReqMsg hal ty = shaped
     [(''mDreConfig'', is_obj (ok_DeadReckoningEngineConfig hal ty))] []"

lemma LocConfigDrEngineParamsReqMsg_restored [delivery]:
  "round_trips (ok_LocConfigDrEngineParamsReqMsg hal ty) (assign (payload_of_LocConfigDrEngineParamsReqMsg hal)) (assign (members_of_LocConfigDrEngineParamsReqMsg hal ty)) \<and>
   reads_alike (assign (members_of_LocConfigDrEngineParamsReqMsg hal ty))"
  unfolding ok_LocConfigDrEngineParamsReqMsg_def payload_of_LocConfigDrEngineParamsReqMsg_def members_of_LocConfigDrEngineParamsReqMsg_def
  by (rule message_round_trips, (rule matching message_trips)+, simp only: list.map fst_conv, code_simp,
      simp only: list.map fst_conv, code_simp, simp only: list.map fst_conv, (rule reads)+)

definition ok_LocConfigMinSvElevationReqMsg :: "hal_values \<Rightarrow> member_types \<Rightarrow> struct \<Rightarrow> bool" where
  "ok_LocConfigMinSvElevationReqMsg hal ty = shaped
     [(''mMinSvElevation'', is_scalar UInt32 (\<lambda>i. i mod 2 ^ 8))] []"

lemma LocConfigMinSvElevationReqMsg_restored [delivery]:
  "round_trips (ok_LocConfigMinSvElevationReqMsg hal ty) (assign (payload_of_LocConfigMinSvElevationReqMsg hal)) (assign (members_of_LocConfigMinSvElevationReqMsg hal ty)) \<and>
   reads_alike (assign (members_of_LocConfigMinSvElevationReqMsg hal ty))"
  unfolding ok_LocConfigMinSvElevationReqMsg_def payload_of_LocConfigMinSvElevationReqMsg_def members_of_LocConfigMinSvElevationReqMsg_def
  by (rule message_round_trips, (rule matching message_trips)+, simp only: list.map fst_conv, code_simp,
      simp only: list.map fst_conv, code_simp, simp only: list.map fst_conv, (rule reads)+)

definition ok_LocConfigEngineRunStateReqMsg :: "hal_values \<Rightarrow> member_types \<Rightarrow> struct \<Rightarrow> bool" where
  "ok_LocConfigEngineRunStateReqMsg hal ty = shaped
     [(''mEngType'', is_flags32 (known_PositioningEngineMask hal)),
      (''mEngState'', is_one_of (known_LocEngineRunState hal))] []"

lemma LocConfigEngineRunStateReqMsg_restored [delivery]:
  "round_trips (ok_LocConfigEngineRunStateReqMsg hal ty) (assign (payload_of_LocConfigEngineRunStateReqMsg hal)) (assign (members_of_LocConfigEngineRunStateReqMsg hal ty)) \<and>
   reads_alike (assign (members_of_LocConfigEngineRunStateReqMsg hal ty))"
  unfolding ok_LocConfigEngineRunStateReqMsg_def payload_of_LocConfigEngineRunStateReqMsg_def members_of_LocConfigEngineRunStateReqMsg_def
  by (rule message_round_trips, (rule matching message_trips)+, simp only: list.map fst_conv, code_simp,
      simp only: list.map fst_conv, code_simp, simp only: list.map fst_conv, (rule reads)+)

definition ok_LocConfigUserConsentTerrestrialPositioningReqMsg :: "hal_values \<Rightarrow> member_types \<Rightarrow> struct \<Rightarrow> bool" where
  "ok_LocConfigUserConsentTerrestrialPositioningReqMsg hal ty = shaped
     [(''mUserConsent'', is_scalar Boolean (fit Boolean))] []"

lemma LocConfigUserConsentTerrestrialPositioningReqMsg_restored [delivery]:
  "round_trips (ok_LocConfigUserConsentTerrestrialPositioningReqMsg hal ty) (assign (payload_of_LocConfigUserConsentTerrestrialPositioningReqMsg hal)) (assign (members_of_LocConfigUserConsentTerrestrialPositioningReqMsg hal ty)) \<and>
   reads_alike (assign (members_of_LocConfigUserConsentTerrestrialPositioningReqMsg hal ty))"
  unfolding ok_LocConfigUserConsentTerrestrialPositioningReqMsg_def payload_of_LocConfigUserConsentTerrestrialPositioningReqMsg_def members_of_LocConfigUserConsentTerrestrialPositioningReqMsg_def
  by (rule message_round_trips, (rule matching message_trips)+, simp only: list.map fst_conv, code_simp,
      simp only: list.map fst_conv, code_simp, simp only: list.map fst_conv, (rule reads)+)

text \<open>The datum of the position sentences is converted in place.\<close>

definition known_GeodeticType :: "hal_values \<Rightarrow> int list" where
  "known_GeodeticType hal = map hal [''GEODETIC_TYPE_PZ_90'', ''GEODETIC_TYPE_WGS_84'']"

lemma undoes_GeodeticType [matching]:
  "undoes (is_one_of (known_GeodeticType hal)) m f
     (put_enum (\<lambda>t. if t = hal ''GEODETIC_TYPE_PZ_90'' then PB_GEODETIC_TYPE_PZ_90 else PB_GEODETIC_TYPE_WGS_84) m)
     (get_enum (\<lambda>t. if t = PB_GEODETIC_TYPE_PZ_90 then hal ''GEODETIC_TYPE_PZ_90'' else hal ''GEODETIC_TYPE_WGS_84'') f)"
proof (rule undoes_plainI)
  fix pb y w
  assume "is_one_of (known_GeodeticType hal) w"
    and "pb f = Num (if num w = hal ''GEODETIC_TYPE_PZ_90'' then PB_GEODETIC_TYPE_PZ_90 else PB_GEODETIC_TYPE_WGS_84)"
  then show "get_enum (\<lambda>t. if t = PB_GEODETIC_TYPE_PZ_90 then hal ''GEODETIC_TYPE_PZ_90'' else hal ''GEODETIC_TYPE_WGS_84'') f pb y = Some w"
    by (cases w) (auto simp: is_one_of_def known_GeodeticType_def get_enum_def PB_GEODETIC_TYPE_PZ_90_def
      PB_GEODETIC_TYPE_WGS_84_def split: if_splits)
qed (simp add: put_enum_def)

definition ok_LocConfigOutputNmeaTypesReqMsg :: "hal_values \<Rightarrow> member_types \<Rightarrow> struct \<Rightarrow> bool" where
  "ok_LocConfigOutputNmeaTypesReqMsg hal ty = shaped
     [(''mEnabledNmeaTypes'', is_nmea_types hal),
      (''mNmeaDatumType'', is_one_of (known_GeodeticType hal)),
      (''mNmeaReqEngMask'', is_flags32 (known_LocReqEngineTypeMask hal))] []"

lemma LocConfigOutputNmeaTypesReqMsg_restored [delivery]:
  "round_trips (ok_LocConfigOutputNmeaTypesReqMsg hal ty) (assign (payload_of_LocConfigOutputNmeaTypesReqMsg hal)) (assign (members_of_LocConfigOutputNmeaTypesReqMsg hal ty)) \<and>
   reads_alike (assign (members_of_LocConfigOutputNmeaTypesReqMsg hal ty))"
  unfolding ok_LocConfigOutputNmeaTypesReqMsg_def payload_of_LocConfigOutputNmeaTypesReqMsg_def members_of_LocConfigOutputNmeaTypesReqMsg_def
  by (rule message_round_trips, (rule matching message_trips)+, simp only: list.map fst_conv, code_simp,
      simp only: list.map fst_conv, code_simp, simp only: list.map fst_conv, (rule reads)+)

definition ok_LocConfigEngineIntegrityRiskReqMsg :: "hal_values \<Rightarrow> member_types \<Rightarrow> struct \<Rightarrow> bool" where
  "ok_LocConfigEngineIntegrityRiskReqMsg hal ty = shaped
     [(''mEngType'', is_flags32 (known_PositioningEngineMask hal)),
      (''mIntegrityRisk'', is_scalar UInt32 (fit UInt32))] []"

lemma LocConfigEngineIntegrityRiskReqMsg_restored [delivery]:
  "round_trips (ok_LocConfigEngineIntegrityRiskReqMsg hal ty) (assign (payload_of_LocConfigEngineIntegrityRiskReqMsg hal)) (assign (members_of_LocConfigEngineIntegrityRiskReqMsg hal ty)) \<and>
   reads_alike (assign (members_of_LocConfigEngineIntegrityRiskReqMsg hal ty))"
  unfolding ok_LocConfigEngineIntegrityRiskReqMsg_def payload_of_LocConfigEngineIntegrityRiskReqMsg_def members_of_LocConfigEngineIntegrityRiskReqMsg_def
  by (rule message_round_trips, (rule matching message_trips)+, simp only: list.map fst_conv, code_simp,
      simp only: list.map fst_conv, code_simp, simp only: list.map fst_conv, (rule reads)+)

definition ok_LocConfigXtraReqMsg :: "hal_values \<Rightarrow> member_types \<Rightarrow> struct \<Rightarrow> bool" where
  "ok_LocConfigXtraReqMsg hal ty = shaped
     [(''mEnable'', is_scalar Boolean (fit Boolean)),
      (''mXtraParams'', is_obj (ok_XtraConfigParams hal ty))] []"

lemma LocConfigXtraReqMsg_restored [delivery]:
  "round_trips (ok_LocConfigXtraReqMsg hal ty) (assign (payload_of_LocConfigXtraReqMsg hal)) (assign (members_of_LocConfigXtraReqMsg hal ty)) \<and>
   reads_alike (assign (members_of_LocConfigXtraReqMsg hal ty))"
  unfolding ok_LocConfigXtraReqMsg_def payload_of_LocConfigXtraReqMsg_def members_of_LocConfigXtraReqMsg_def
  by (rule message_round_trips, (rule matching message_trips)+, simp only: list.map fst_conv, code_simp,
      simp only: list.map fst_conv, code_simp, simp only: list.map fst_conv, (rule reads)+)

definition ok_LocConfigMerkleTreeReqMsg :: "hal_values \<Rightarrow> member_types \<Rightarrow> struct \<Rightarrow> bool" where
  "ok_LocConfigMerkleTreeReqMsg hal ty = shaped
     [(''mMerkleTreeConfig'', is_text)] []"

lemma LocConfigMerkleTreeReqMsg_restored [delivery]:
  "round_trips (ok_LocConfigMerkleTreeReqMsg hal ty) (assign (payload_of_LocConfigMerkleTreeReqMsg hal)) (assign (members_of_LocConfigMerkleTreeReqMsg hal ty)) \<and>
   reads_alike (assign (members_of_LocConfigMerkleTreeReqMsg hal ty))"
  unfolding ok_LocConfigMerkleTreeReqMsg_def payload_of_LocConfigMerkleTreeReqMsg_def members_of_LocConfigMerkleTreeReqMsg_def
  by (rule message_round_trips, (rule matching message_trips)+, simp only: list.map fst_conv, code_simp,
      simp only: list.map fst_conv, code_simp, simp only: list.map fst_conv, (rule reads)+)

definition ok_LocConfigOsnmaEnablementReqMsg :: "hal_values \<Rightarrow> member_types \<Rightarrow> struct \<Rightarrow> bool" where
  "ok_LocConfigOsnmaEnablementReqMsg hal ty = shaped
     [(''mEnable'', is_scalar Boolean (fit Boolean))] []"

lemma LocConfigOsnmaEnablementReqMsg_restored [delivery]:
  "round_trips (ok_LocConfigOsnmaEnablementReqMsg hal ty) (assign (payload_of_LocConfigOsnmaEnablementReqMsg hal)) (assign (members_of_LocConfigOsnmaEnablementReqMsg hal ty)) \<and>
   reads_alike (assign (members_of_LocConfigOsnmaEnablementReqMsg hal ty))"
  unfolding ok_LocConfigOsnmaEnablementReqMsg_def payload_of_LocConfigOsnmaEnablementReqMsg_def members_of_LocConfigOsnmaEnablementReqMsg_def
  by (rule message_round_trips, (rule matching message_trips)+, simp only: list.map fst_conv, code_simp,
      simp only: list.map fst_conv, code_simp, simp only: list.map fst_conv, (rule reads)+)

definition ok_LocInjectMmfDataReqMsg :: "hal_values \<Rightarrow> member_types \<Rightarrow> struct \<Rightarrow> bool" where
  "ok_LocInjectMmfDataReqMsg hal ty = shaped
     [(''gnssMapData'', is_obj (ok_GnssMapMatchedData hal ty))] []"

lemma LocInjectMmfDataReqMsg_restored [delivery]:
  "round_trips (ok_LocInjectMmfDataReqMsg hal ty) (assign (payload_of_LocInjectMmfDataReqMsg hal)) (assign (members_of_LocInjectMmfDataReqMsg hal ty)) \<and>
   reads_alike (assign (members_of_LocInjectMmfDataReqMsg hal ty))"
  unfolding ok_LocInjectMmfDataReqMsg_def payload_of_LocInjectMmfDataReqMsg_def members_of_LocInjectMmfDataReqMsg_def
  by (rule message_round_trips, (rule matching message_trips)+, simp only: list.map fst_conv, code_simp,
      simp only: list.map fst_conv, code_simp, simp only: list.map fst_conv, (rule reads)+)

definition ok_LocInjectXtraUserConsentMsg :: "hal_values \<Rightarrow> member_types \<Rightarrow> struct \<Rightarrow> bool" where
  "ok_LocInjectXtraUserConsentMsg hal ty = shaped
     [(''xtraUserConsent'', is_scalar Boolean (fit Boolean))] []"

lemma LocInjectXtraUserConsentMsg_restored [delivery]:
  "round_trips (ok_LocInjectXtraUserConsentMsg hal ty) (assign (payload_of_LocInjectXtraUserConsentMsg hal)) (assign (members_of_LocInjectXtraUserConsentMsg hal ty)) \<and>
   reads_alike (assign (members_of_LocInjectXtraUserConsentMsg hal ty))"
  unfolding ok_LocInjectXtraUserConsentMsg_def payload_of_LocInjectXtraUserConsentMsg_def members_of_LocInjectXtraUserConsentMsg_def
  by (rule message_round_trips, (rule matching message_trips)+, simp only: list.map fst_conv, code_simp,
      simp only: list.map fst_conv, code_simp, simp only: list.map fst_conv, (rule reads)+)

definition ok_LocConfigGetRobustLocationConfigRespMsg :: "hal_values \<Rightarrow> member_types \<Rightarrow> struct \<Rightarrow> bool" where
  "ok_LocConfigGetRobustLocationConfigRespMsg hal ty = shaped
     [(''mRobustLoationConfig'', is_obj (ok_GnssConfigRobustLocation hal ty))] []"

lemma LocConfigGetRobustLocationConfigRespMsg_restored [delivery]:
  "round_trips (ok_LocConfigGetRobustLocationConfigRespMsg hal ty) (assign (payload_of_LocConfigGetRobustLocationConfigRespMsg hal)) (assign (members_of_LocConfigGetRobustLocationConfigRespMsg hal ty)) \<and>
   reads_alike (assign (members_of_LocConfigGetRobustLocationConfigRespMsg hal ty))"
  unfolding ok_LocConfigGetRobustLocationConfigRespMsg_def payload_of_LocConfigGetRobustLocationConfigRespMsg_def members_of_LocConfigGetRobustLocationConfigRespMsg_def
  by (rule message_round_trips, (rule matching message_trips)+, simp only: list.map fst_conv, code_simp,
      simp only: list.map fst_conv, code_simp, simp only: list.map fst_conv, (rule reads)+)

definition ok_LocConfigGetMinGpsWeekRespMsg :: "hal_values \<Rightarrow> member_types \<Rightarrow> struct \<Rightarrow> bool" where
  "ok_LocConfigGetMinGpsWeekRespMsg hal ty = shaped
     [(''mMinGpsWeek'', is_scalar UInt32 (\<lambda>i. i mod 2 ^ 16))] []"

lemma LocConfigGetMinGpsWeekRespMsg_restored [delivery]:
  "round_trips (ok_LocConfigGetMinGpsWeekRespMsg hal ty) (assign (payload_of_LocConfigGetMinGpsWeekRespMsg hal)) (assign (members_of_LocConfigGetMinGpsWeekRespMsg hal ty)) \<and>
   reads_alike (assign (members_of_LocConfigGetMinGpsWeekRespMsg hal ty))"
  unfolding ok_LocConfigGetMinGpsWeekRespMsg_def payload_of_LocConfigGetMinGpsWeekRespMsg_def members_of_LocConfigGetMinGpsWeekRespMsg_def
  by (rule message_round_trips, (rule matching message_trips)+, simp only: list.map fst_conv, code_simp,
      simp only: list.map fst_conv, code_simp, simp only: list.map fst_conv, (rule reads)+)

definition ok_LocConfigGetMinSvElevationRespMsg :: "hal_values \<Rightarrow> member_types \<Rightarrow> struct \<Rightarrow> bool" where
  "ok_LocConfigGetMinSvElevationRespMsg hal ty = shaped
     [(''mMinSvElevation'', is_scalar UInt32 (\<lambda>i. i mod 2 ^ 8))] []"

lemma LocConfigGetMinSvElevationRespMsg_restored [delivery]:
  "round_trips (ok_LocConfigGetMinSvElevationRespMsg hal ty) (assign (payload_of_LocConfigGetMinSvElevationRespMsg hal)) (assign (members_of_LocConfigGetMinSvElevationRespMsg hal ty)) \<and>
   reads_alike (assign (members_of_LocConfigGetMinSvElevationRespMsg hal ty))"
  unfolding ok_LocConfigGetMinSvElevationRespMsg_def payload_of_LocConfigGetMinSvElevationRespMsg_def members_of_LocConfigGetMinSvElevationRespMsg_def
  by (rule message_round_trips, (rule matching message_trips)+, simp only: list.map fst_conv, code_simp,
      simp only: list.map fst_conv, code_simp, simp only: list.map fst_conv, (rule reads)+)

definition ok_LocConfigGetConstellationSecondaryBandConfigRespMsg :: "hal_values \<Rightarrow> member_types \<Rightarrow> struct \<Rightarrow> bool" where
  "ok_LocConfigGetConstellationSecondaryBandConfigRespMsg hal ty = shaped
     [(''mSecondaryBandConfig'', is_obj (ok_GnssSvTypeConfig hal ty))] []"

lemma LocConfigGetConstellationSecondaryBandConfigRespMsg_restored [delivery]:
  "round_trips (ok_LocConfigGetConstellationSecondaryBandConfigRespMsg hal ty) (assign (payload_of_LocConfigGetConstellationSecondaryBandConfigRespMsg hal)) (assign (members_of_LocConfigGetConstellationSecondaryBandConfigRespMsg hal ty)) \<and>
   reads_alike (assign (members_of_LocConfigGetConstellationSecondaryBandConfigRespMsg hal ty))"
  unfolding ok_LocConfigGetConstellationSecondaryBandConfigRespMsg_def payload_of_LocConfigGetConstellationSecondaryBandConfigRespMsg_def members_of_LocConfigGetConstellationSecondaryBandConfigRespMsg_def
  by (rule message_round_trips, (rule matching message_trips)+, simp only: list.map fst_conv, code_simp,
      simp only: list.map fst_conv, code_simp, simp only: list.map fst_conv, (rule reads)+)

definition ok_LocAPIAntennaInfoMsg :: "hal_values \<Rightarrow> member_types \<Rightarrow> struct \<Rightarrow> bool" where
  "ok_LocAPIAntennaInfoMsg hal ty = shaped
     [(''mAntennaInfo'', is_obj (ok_AntennaInformation hal ty))] []"

lemma LocAPIAntennaInfoMsg_restored [delivery]:
  "round_trips (ok_LocAPIAntennaInfoMsg hal ty) (assign (payload_of_LocAPIAntennaInfoMsg hal)) (assign (members_of_LocAPIAntennaInfoMsg hal ty)) \<and>
   reads_alike (assign (members_of_LocAPIAntennaInfoMsg hal ty))"
  unfolding ok_LocAPIAntennaInfoMsg_def payload_of_LocAPIAntennaInfoMsg_def members_of_LocAPIAntennaInfoMsg_def
  by (rule message_round_trips, (rule matching message_trips)+, simp only: list.map fst_conv, code_simp,
      simp only: list.map fst_conv, code_simp, simp only: list.map fst_conv, (rule reads)+)

definition ok_LocIntApiInjectLocationMsg :: "hal_values \<Rightarrow> member_types \<Rightarrow> struct \<Rightarrow> bool" where
  "ok_LocIntApiInjectLocationMsg hal ty = shaped
     [(''mLocation'', is_obj (ok_Location hal ty))] []"

lemma LocIntApiInjectLocationMsg_restored [delivery]:
  "round_trips (ok_LocIntApiInjectLocationMsg hal ty) (assign (payload_of_LocIntApiInjectLocationMsg hal)) (assign (members_of_LocIntApiInjectLocationMsg hal ty)) \<and>
   reads_alike (assign (members_of_LocIntApiInjectLocationMsg hal ty))"
  unfolding ok_LocIntApiInjectLocationMsg_def payload_of_LocIntApiInjectLocationMsg_def members_of_LocIntApiInjectLocationMsg_def
  by (rule message_round_trips, (rule matching message_trips)+, simp only: list.map fst_conv, code_simp,
      simp only: list.map fst_conv, code_simp, simp only: list.map fst_conv, (rule reads)+)

definition ok_LocConfigRegisterGnssSignalTypesUpdateReqMsg :: "hal_values \<Rightarrow> member_types \<Rightarrow> struct \<Rightarrow> bool" where
  "ok_LocConfigRegisterGnssSignalTypesUpdateReqMsg hal ty = shaped
     [(''mRegisterUpdate'', is_scalar Boolean (fit Boolean))] []"

lemma LocConfigRegisterGnssSignalTypesUpdateReqMsg_restored [delivery]:
  "round_trips (ok_LocConfigRegisterGnssSignalTypesUpdateReqMsg hal ty) (assign (payload_of_LocConfigRegisterGnssSignalTypesUpdateReqMsg hal)) (assign (members_of_LocConfigRegisterGnssSignalTypesUpdateReqMsg hal ty)) \<and>
   reads_alike (assign (members_of_LocConfigRegisterGnssSignalTypesUpdateReqMsg hal ty))"
  unfolding ok_LocConfigRegisterGnssSignalTypesUpdateReqMsg_def payload_of_LocConfigRegisterGnssSignalTypesUpdateReqMsg_def members_of_LocConfigRegisterGnssSignalTypesUpdateReqMsg_def
  by (rule message_round_trips, (rule matching message_trips)+, simp only: list.map fst_conv, code_simp,
      simp only: list.map fst_conv, code_simp, simp only: list.map fst_conv, (rule reads)+)

definition ok_LocConfigGetXtraStatusRespMsg :: "hal_values \<Rightarrow> member_types \<Rightarrow> struct \<Rightarrow> bool" where
  "ok_LocConfigGetXtraStatusRespMsg hal ty = shaped
     [(''mUpdateType'', is_one_of (known_XtraStatusUpdateType hal)),
      (''mXtraStatus'', is_obj (ok_XtraStatus hal ty))] []"

lemma LocConfigGetXtraStatusRespMsg_restored [delivery]:
  "round_trips (ok_LocConfigGetXtraStatusRespMsg hal ty) (assign (payload_of_LocConfigGetXtraStatusRespMsg hal)) (assign (members_of_LocConfigGetXtraStatusRespMsg hal ty)) \<and>
   reads_alike (assign (members_of_LocConfigGetXtraStatusRespMsg hal ty))"
  unfolding ok_LocConfigGetXtraStatusRespMsg_def payload_of_LocConfigGetXtraStatusRespMsg_def members_of_LocConfigGetXtraStatusRespMsg_def
  by (rule message_round_trips, (rule matching message_trips)+, simp only: list.map fst_conv, code_simp,
      simp only: list.map fst_conv, code_simp, simp only: list.map fst_conv, (rule reads)+)


section \<open>All of them\<close>

definition message_ids :: "int list" where
  "message_ids = [E_LOCAPI_CLIENT_REGISTER_MSG_ID, E_LOCAPI_CLIENT_DEREGISTER_MSG_ID, E_LOCAPI_CAPABILILTIES_MSG_ID, E_LOCAPI_HAL_READY_MSG_ID, E_LOCAPI_START_TRACKING_MSG_ID, E_LOCAPI_STOP_TRACKING_MSG_ID, E_LOCAPI_UPDATE_CALLBACKS_MSG_ID, E_LOCAPI_UPDATE_TRACKING_OPTIONS_MSG_ID, E_LOCAPI_CONTROL_UPDATE_CONFIG_MSG_ID, E_LOCAPI_CONTROL_DELETE_AIDING_DATA_MSG_ID, E_LOCAPI_CONTROL_UPDATE_NETWORK_AVAILABILITY_MSG_ID, E_LOCAPI_LOCATION_MSG_ID, E_LOCAPI_LOCATION_INFO_MSG_ID, E_LOCAPI_SATELLITE_VEHICLE_MSG_ID, E_LOCAPI_NMEA_MSG_ID, E_LOCAPI_DATA_MSG_ID, E_LOCAPI_GET_GNSS_ENGERY_CONSUMED_MSG_ID, E_LOCAPI_LOCATION_SYSTEM_INFO_MSG_ID, E_LOCAPI_ENGINE_LOCATIONS_INFO_MSG_ID, E_LOCAPI_START_BATCHING_MSG_ID, E_LOCAPI_STOP_BATCHING_MSG_ID, E_LOCAPI_UPDATE_BATCHING_OPTIONS_MSG_ID, E_LOCAPI_BATCHING_MSG_ID, E_LOCAPI_ADD_GEOFENCES_MSG_ID, E_LOCAPI_REMOVE_GEOFENCES_MSG_ID, E_LOCAPI_MODIFY_GEOFENCES_MSG_ID, E_LOCAPI_PAUSE_GEOFENCES_MSG_ID, E_LOCAPI_RESUME_GEOFENCES_MSG_ID, E_LOCAPI_GEOFENCE_BREACH_MSG_ID, E_LOCAPI_MEAS_MSG_ID, E_LOCAPI_GET_SINGLE_TERRESTRIAL_POS_REQ_MSG_ID, E_LOCAPI_GET_SINGLE_TERRESTRIAL_POS_RESP_MSG_ID, E_LOCAPI_DC_REPORT_MSG_ID, E_LOCAPI_GET_SINGLE_POS_REQ_MSG_ID, E_LOCAPI_GET_SINGLE_POS_RESP_MSG_ID, E_LOCAPI_EPH_MSG_ID, E_LOCAPI_PINGTEST_MSG_ID, E_INTAPI_CONFIG_CONSTRAINTED_TUNC_MSG_ID, E_INTAPI_CONFIG_POSITION_ASSISTED_CLOCK_ESTIMATOR_MSG_ID, E_INTAPI_CONFIG_SV_CONSTELLATION_MSG_ID, E_INTAPI_CONFIG_AIDING_DATA_DELETION_MSG_ID, E_INTAPI_CONFIG_LEVER_ARM_MSG_ID, E_INTAPI_CONFIG_ROBUST_LOCATION_MSG_ID, E_INTAPI_CONFIG_MIN_GPS_WEEK_MSG_ID, E_INTAPI_CONFIG_DEAD_RECKONING_ENGINE_MSG_ID, E_INTAPI_CONFIG_MIN_SV_ELEVATION_MSG_ID, E_INTAPI_CONFIG_CONSTELLATION_SECONDARY_BAND_MSG_ID, E_INTAPI_CONFIG_ENGINE_RUN_STATE_MSG_ID, E_INTAPI_CONFIG_USER_CONSENT_TERRESTRIAL_POSITIONING_MSG_ID, E_INTAPI_CONFIG_OUTPUT_NMEA_TYPES_MSG_ID, E_INTAPI_CONFIG_ENGINE_INTEGRITY_RISK_MSG_ID, E_INTAPI_CONFIG_XTRA_PARAMS_MSG_ID, E_INTAPI_CONFIG_MERKLE_TREE_MSG_ID, E_INTAPI_CONFIG_OSNMA_ENABLEMENT_MSG_ID, E_INTAPI_GET_ROBUST_LOCATION_CONFIG_REQ_MSG_ID, E_INTAPI_GET_ROBUST_LOCATION_CONFIG_RESP_MSG_ID, E_INTAPI_GET_MIN_GPS_WEEK_REQ_MSG_ID, E_INTAPI_GET_MIN_GPS_WEEK_RESP_MSG_ID, E_INTAPI_GET_MIN_SV_ELEVATION_REQ_MSG_ID, E_INTAPI_GET_MIN_SV_ELEVATION_RESP_MSG_ID, E_INTAPI_GET_CONSTELLATION_SECONDARY_BAND_CONFIG_REQ_MSG_ID, E_INTAPI_GET_CONSTELLATION_SECONDARY_BAND_CONFIG_RESP_MSG_ID, E_LOCAPI_GET_DEBUG_REQ_MSG_ID, E_LOCAPI_GET_DEBUG_RESP_MSG_ID, E_INTAPI_INJECT_LOCATION_MSG_ID, E_LOCAPI_GET_ANTENNA_INFO_MSG_ID, E_LOCAPI_ANTENNA_INFO_MSG_ID, E_INTAPI_GET_XTRA_STATUS_REQ_MSG_ID, E_INTAPI_GET_XTRA_STATUS_RESP_MSG_ID, E_INTAPI_REGISTER_XTRA_STATUS_UPDATE_REQ_MSG_ID, E_INTAPI_DEREGISTER_XTRA_STATUS_UPDATE_REQ_MSG_ID, E_INTAPI_REGISTER_GNSS_SIGNAL_TYPES_UPDATE_REQ_MSG_ID, E_INTAPI_REGISTER_GNSS_SIGNAL_TYPES_UPDATE_RESP_MSG_ID, E_INTAPI_CONFIG_MAP_MATCHED_FEEDBACK_MSG_ID, E_INTAPI_CONFIG_XTRA_USER_CONSENT_MSG_ID]"

lemma message_ids_known:
  assumes "i \<in> set message_ids"
  shows "getEnumForPBELocMsgID hal (getPBEnumForELocMsgID hal i) = i"
proof -
  have "list_all (\<lambda>i. getEnumForPBELocMsgID hal (getPBEnumForELocMsgID hal i) = i) message_ids"
    by code_simp
  with assms show ?thesis by (simp add: list_all_iff)
qed

record message_class =
  class_name :: string
  payload_type :: string
  class_ids :: "int list"
  payload_rows :: "hal_values \<Rightarrow> assignment list"
  valid_parts :: "hal_values \<Rightarrow> member_types \<Rightarrow> struct \<Rightarrow> bool"
  serializer :: "pb_library \<Rightarrow> hal_values \<Rightarrow> loc_api_msg \<Rightarrow> string option option"
  receiver :: "hal_values \<Rightarrow> member_types \<Rightarrow> string \<Rightarrow> int \<Rightarrow> struct \<Rightarrow> bool \<Rightarrow> loc_api_msg option"

text \<open>The classes whose messages arrive as they were sent, those of the location API and those of the
  integration API. Not among them are the data and the debug report, whose conversions lose members
  (\<open>PbClaims.reports_lose_members\<close>), the signal types, whose constructor decodes with the mask of the
  encoder, the ping, which is checked for its length only (\<open>PbRequests.short_ping_overreads\<close>), and the
  reports of several engines and the configuration of constellations, whose constructors set members that
  were not sent.\<close>

definition client_classes :: "message_class list" where
  "client_classes =
     [\<lparr>class_name = ''LocAPIClientRegisterReqMsg'', payload_type = ''PBLocAPIClientRegisterReqMsg'', class_ids = [E_LOCAPI_CLIENT_REGISTER_MSG_ID],
        payload_rows = payload_of_LocAPIClientRegisterReqMsg, valid_parts = ok_LocAPIClientRegisterReqMsg,
        serializer = LocAPIClientRegisterReqMsg_serializeToProtobuf,
        receiver = (\<lambda>hal ty name _. LocAPIClientRegisterReqMsg_fromProtobuf hal ty name)\<rparr>,
      \<lparr>class_name = ''LocAPICapabilitiesIndMsg'', payload_type = ''PBLocAPICapabilitiesIndMsg'', class_ids = [E_LOCAPI_CAPABILILTIES_MSG_ID],
        payload_rows = payload_of_LocAPICapabilitiesIndMsg, valid_parts = ok_LocAPICapabilitiesIndMsg,
        serializer = LocAPICapabilitiesIndMsg_serializeToProtobuf,
        receiver = (\<lambda>hal ty name _. LocAPICapabilitiesIndMsg_fromProtobuf hal ty name)\<rparr>,
      \<lparr>class_name = ''LocAPIGenericRespMsg'', payload_type = ''PBLocAPIGenericRespMsg'', class_ids = message_ids,
        payload_rows = payload_of_LocAPIGenericRespMsg, valid_parts = ok_LocAPIGenericRespMsg,
        serializer = LocAPIGenericRespMsg_serializeToProtobuf,
        receiver = LocAPIGenericRespMsg_fromProtobuf\<rparr>,
      \<lparr>class_name = ''LocAPICollectiveRespMsg'', payload_type = ''PBLocAPICollectiveRespMsg'', class_ids = message_ids,
        payload_rows = payload_of_LocAPICollectiveRespMsg, valid_parts = ok_LocAPICollectiveRespMsg,
        serializer = LocAPICollectiveRespMsg_serializeToProtobuf,
        receiver = LocAPICollectiveRespMsg_fromProtobuf\<rparr>,
      \<lparr>class_name = ''LocAPIStartTrackingReqMsg'', payload_type = ''PBLocAPIStartTrackingReqMsg'', class_ids = [E_LOCAPI_START_TRACKING_MSG_ID],
        payload_rows = payload_of_LocAPIStartTrackingReqMsg, valid_parts = ok_LocAPIStartTrackingReqMsg,
        serializer = LocAPIStartTrackingReqMsg_serializeToProtobuf,
        receiver = (\<lambda>hal ty name _. LocAPIStartTrackingReqMsg_fromProtobuf hal ty name)\<rparr>,
      \<lparr>class_name = ''LocAPIStopTrackingReqMsg'', payload_type = ''PBLocAPIStopTrackingReqMsg'', class_ids = [E_LOCAPI_STOP_TRACKING_MSG_ID],
        payload_rows = payload_of_LocAPIStopTrackingReqMsg, valid_parts = ok_LocAPIStopTrackingReqMsg,
        serializer = LocAPIStopTrackingReqMsg_serializeToProtobuf,
        receiver = (\<lambda>hal ty name _. LocAPIStopTrackingReqMsg_fromProtobuf hal ty name)\<rparr>,
      \<lparr>class_name = ''LocAPIUpdateCallbacksReqMsg'', payload_type = ''PBLocAPIUpdateCallbacksReqMsg'', class_ids = [E_LOCAPI_UPDATE_CALLBACKS_MSG_ID],
        payload_rows = payload_of_LocAPIUpdateCallbacksReqMsg, valid_parts = ok_LocAPIUpdateCallbacksReqMsg,
        serializer = LocAPIUpdateCallbacksReqMsg_serializeToProtobuf,
        receiver = (\<lambda>hal ty name _. LocAPIUpdateCallbacksReqMsg_fromProtobuf hal ty name)\<rparr>,
      \<lparr>class_name = ''LocAPIUpdateTrackingOptionsReqMsg'', payload_type = ''PBLocAPIUpdateTrackingOptionsReqMsg'', class_ids = [E_LOCAPI_UPDATE_TRACKING_OPTIONS_MSG_ID],
        payload_rows = payload_of_LocAPIUpdateTrackingOptionsReqMsg, valid_parts = ok_LocAPIUpdateTrackingOptionsReqMsg,
        serializer = LocAPIUpdateTrackingOptionsReqMsg_serializeToProtobuf,
        receiver = (\<lambda>hal ty name _. LocAPIUpdateTrackingOptionsReqMsg_fromProtobuf hal ty name)\<rparr>,
      \<lparr>class_name = ''LocAPIStartBatchingReqMsg'', payload_type = ''PBLocAPIStartBatchingReqMsg'', class_ids = [E_LOCAPI_START_BATCHING_MSG_ID],
        payload_rows = payload_of_LocAPIStartBatchingReqMsg, valid_parts = ok_LocAPIStartBatchingReqMsg,
        serializer = LocAPIStartBatchingReqMsg_serializeToProtobuf,
        receiver = (\<lambda>hal ty name _. LocAPIStartBatchingReqMsg_fromProtobuf hal ty name)\<rparr>,
      \<lparr>class_name = ''LocAPIUpdateBatchingOptionsReqMsg'', payload_type = ''PBLocAPIUpdateBatchingOptionsReqMsg'', class_ids = [E_LOCAPI_UPDATE_BATCHING_OPTIONS_MSG_ID],
        payload_rows = payload_of_LocAPIUpdateBatchingOptionsReqMsg, valid_parts = ok_LocAPIUpdateBatchingOptionsReqMsg,
        serializer = LocAPIUpdateBatchingOptionsReqMsg_serializeToProtobuf,
        receiver = (\<lambda>hal ty name _. LocAPIUpdateBatchingOptionsReqMsg_fromProtobuf hal ty name)\<rparr>,
      \<lparr>class_name = ''LocAPIAddGeofencesReqMsg'', payload_type = ''PBLocAPIAddGeofencesReqMsg'', class_ids = [E_LOCAPI_ADD_GEOFENCES_MSG_ID],
        payload_rows = payload_of_LocAPIAddGeofencesReqMsg, valid_parts = ok_LocAPIAddGeofencesReqMsg,
        serializer = LocAPIAddGeofencesReqMsg_serializeToProtobuf,
        receiver = (\<lambda>hal ty name _. LocAPIAddGeofencesReqMsg_fromProtobuf hal ty name)\<rparr>,
      \<lparr>class_name = ''LocAPIRemoveGeofencesReqMsg'', payload_type = ''PBLocAPIRemoveGeofencesReqMsg'', class_ids = [E_LOCAPI_REMOVE_GEOFENCES_MSG_ID],
        payload_rows = payload_of_LocAPIRemoveGeofencesReqMsg, valid_parts = ok_LocAPIRemoveGeofencesReqMsg,
        serializer = LocAPIRemoveGeofencesReqMsg_serializeToProtobuf,
        receiver = (\<lambda>hal ty name _. LocAPIRemoveGeofencesReqMsg_fromProtobuf hal ty name)\<rparr>,
      \<lparr>class_name = ''LocAPIModifyGeofencesReqMsg'', payload_type = ''PBLocAPIModifyGeofencesReqMsg'', class_ids = [E_LOCAPI_MODIFY_GEOFENCES_MSG_ID],
        payload_rows = payload_of_LocAPIModifyGeofencesReqMsg, valid_parts = ok_LocAPIModifyGeofencesReqMsg,
        serializer = LocAPIModifyGeofencesReqMsg_serializeToProtobuf,
        receiver = (\<lambda>hal ty name _. LocAPIModifyGeofencesReqMsg_fromProtobuf hal ty name)\<rparr>,
      \<lparr>class_name = ''LocAPIPauseGeofencesReqMsg'', payload_type = ''PBLocAPIPauseGeofencesReqMsg'', class_ids = [E_LOCAPI_PAUSE_GEOFENCES_MSG_ID],
        payload_rows = payload_of_LocAPIPauseGeofencesReqMsg, valid_parts = ok_LocAPIPauseGeofencesReqMsg,
        serializer = LocAPIPauseGeofencesReqMsg_serializeToProtobuf,
        receiver = (\<lambda>hal ty name _. LocAPIPauseGeofencesReqMsg_fromProtobuf hal ty name)\<rparr>,
      \<lparr>class_name = ''LocAPIResumeGeofencesReqMsg'', payload_type = ''PBLocAPIResumeGeofencesReqMsg'', class_ids = [E_LOCAPI_RESUME_GEOFENCES_MSG_ID],
        payload_rows = payload_of_LocAPIResumeGeofencesReqMsg, valid_parts = ok_LocAPIResumeGeofencesReqMsg,
        serializer = LocAPIResumeGeofencesReqMsg_serializeToProtobuf,
        receiver = (\<lambda>hal ty name _. LocAPIResumeGeofencesReqMsg_fromProtobuf hal ty name)\<rparr>,
      \<lparr>class_name = ''LocAPIUpdateNetworkAvailabilityReqMsg'', payload_type = ''PBLocAPIUpdateNetworkAvailabilityReqMsg'', class_ids = [E_LOCAPI_CONTROL_UPDATE_NETWORK_AVAILABILITY_MSG_ID],
        payload_rows = payload_of_LocAPIUpdateNetworkAvailabilityReqMsg, valid_parts = ok_LocAPIUpdateNetworkAvailabilityReqMsg,
        serializer = LocAPIUpdateNetworkAvailabilityReqMsg_serializeToProtobuf,
        receiver = (\<lambda>hal ty name _. LocAPIUpdateNetworkAvailabilityReqMsg_fromProtobuf hal ty name)\<rparr>,
      \<lparr>class_name = ''LocAPIGetSingleTerrestrialPosReqMsg'', payload_type = ''PBLocAPIGetSingleTerrestrialPosReqMsg'', class_ids = [E_LOCAPI_GET_SINGLE_TERRESTRIAL_POS_REQ_MSG_ID],
        payload_rows = payload_of_LocAPIGetSingleTerrestrialPosReqMsg, valid_parts = ok_LocAPIGetSingleTerrestrialPosReqMsg,
        serializer = LocAPIGetSingleTerrestrialPosReqMsg_serializeToProtobuf,
        receiver = (\<lambda>hal ty name _. LocAPIGetSingleTerrestrialPosReqMsg_fromProtobuf hal ty name)\<rparr>,
      \<lparr>class_name = ''LocAPIGetSingleTerrestrialPosRespMsg'', payload_type = ''PBLocAPIGetSingleTerrestrialPosRespMsg'', class_ids = [E_LOCAPI_GET_SINGLE_TERRESTRIAL_POS_RESP_MSG_ID],
        payload_rows = payload_of_LocAPIGetSingleTerrestrialPosRespMsg, valid_parts = ok_LocAPIGetSingleTerrestrialPosRespMsg,
        serializer = LocAPIGetSingleTerrestrialPosRespMsg_serializeToProtobuf,
        receiver = (\<lambda>hal ty name _. LocAPIGetSingleTerrestrialPosRespMsg_fromProtobuf hal ty name)\<rparr>,
      \<lparr>class_name = ''LocAPIGetSinglePosReqMsg'', payload_type = ''PBLocAPIGetSinglePosReqMsg'', class_ids = [E_LOCAPI_GET_SINGLE_POS_REQ_MSG_ID],
        payload_rows = payload_of_LocAPIGetSinglePosReqMsg, valid_parts = ok_LocAPIGetSinglePosReqMsg,
        serializer = LocAPIGetSinglePosReqMsg_serializeToProtobuf,
        receiver = (\<lambda>hal ty name _. LocAPIGetSinglePosReqMsg_fromProtobuf hal ty name)\<rparr>,
      \<lparr>class_name = ''LocAPIGetSinglePosRespMsg'', payload_type = ''PBLocAPIGetSinglePosRespMsg'', class_ids = [E_LOCAPI_GET_SINGLE_POS_RESP_MSG_ID],
        payload_rows = payload_of_LocAPIGetSinglePosRespMsg, valid_parts = ok_LocAPIGetSinglePosRespMsg,
        serializer = LocAPIGetSinglePosRespMsg_serializeToProtobuf,
        receiver = (\<lambda>hal ty name _. LocAPIGetSinglePosRespMsg_fromProtobuf hal ty name)\<rparr>,
      \<lparr>class_name = ''LocAPILocationIndMsg'', payload_type = ''PBLocAPILocationIndMsg'', class_ids = [E_LOCAPI_LOCATION_MSG_ID],
        payload_rows = payload_of_LocAPILocationIndMsg, valid_parts = ok_LocAPILocationIndMsg,
        serializer = LocAPILocationIndMsg_serializeToProtobuf,
        receiver = (\<lambda>hal ty name _. LocAPILocationIndMsg_fromProtobuf hal ty name)\<rparr>,
      \<lparr>class_name = ''LocAPIBatchingIndMsg'', payload_type = ''PBLocAPIBatchingIndMsg'', class_ids = [E_LOCAPI_BATCHING_MSG_ID],
        payload_rows = payload_of_LocAPIBatchingIndMsg, valid_parts = ok_LocAPIBatchingIndMsg,
        serializer = LocAPIBatchingIndMsg_serializeToProtobuf,
        receiver = (\<lambda>hal ty name _. LocAPIBatchingIndMsg_fromProtobuf hal ty name)\<rparr>,
      \<lparr>class_name = ''LocAPIGeofenceBreachIndMsg'', payload_type = ''PBLocAPIGeofenceBreachIndMsg'', class_ids = [E_LOCAPI_GEOFENCE_BREACH_MSG_ID],
        payload_rows = payload_of_LocAPIGeofenceBreachIndMsg, valid_parts = ok_LocAPIGeofenceBreachIndMsg,
        serializer = LocAPIGeofenceBreachIndMsg_serializeToProtobuf,
        receiver = (\<lambda>hal ty name _. LocAPIGeofenceBreachIndMsg_fromProtobuf hal ty name)\<rparr>,
      \<lparr>class_name = ''LocAPILocationInfoIndMsg'', payload_type = ''PBLocAPILocationInfoIndMsg'', class_ids = [E_LOCAPI_LOCATION_INFO_MSG_ID],
        payload_rows = payload_of_LocAPILocationInfoIndMsg, valid_parts = ok_LocAPILocationInfoIndMsg,
        serializer = LocAPILocationInfoIndMsg_serializeToProtobuf,
        receiver = (\<lambda>hal ty name _. LocAPILocationInfoIndMsg_fromProtobuf hal ty name)\<rparr>,
      \<lparr>class_name = ''LocAPISatelliteVehicleIndMsg'', payload_type = ''PBLocAPISatelliteVehicleIndMsg'', class_ids = [E_LOCAPI_SATELLITE_VEHICLE_MSG_ID],
        payload_rows = payload_of_LocAPISatelliteVehicleIndMsg, valid_parts = ok_LocAPISatelliteVehicleIndMsg,
        serializer = LocAPISatelliteVehicleIndMsg_serializeToProtobuf,
        receiver = (\<lambda>hal ty name _. LocAPISatelliteVehicleIndMsg_fromProtobuf hal ty name)\<rparr>,
      \<lparr>class_name = ''LocAPINmeaIndMsg'', payload_type = ''PBLocAPINmeaIndMsg'', class_ids = [E_LOCAPI_NMEA_MSG_ID],
        payload_rows = payload_of_LocAPINmeaIndMsg, valid_parts = ok_LocAPINmeaIndMsg,
        serializer = LocAPINmeaIndMsg_serializeToProtobuf,
        receiver = (\<lambda>hal ty name _. LocAPINmeaIndMsg_fromProtobuf hal ty name)\<rparr>,
      \<lparr>class_name = ''LocAPIMeasIndMsg'', payload_type = ''PBLocAPIMeasIndMsg'', class_ids = [E_LOCAPI_MEAS_MSG_ID],
        payload_rows = payload_of_LocAPIMeasIndMsg, valid_parts = ok_LocAPIMeasIndMsg,
        serializer = LocAPIMeasIndMsg_serializeToProtobuf,
        receiver = (\<lambda>hal ty name _. LocAPIMeasIndMsg_fromProtobuf hal ty name)\<rparr>,
      \<lparr>class_name = ''LocAPIGnssEnergyConsumedIndMsg'', payload_type = ''PBLocAPIGnssEnergyConsumedIndMsg'', class_ids = [E_LOCAPI_GET_GNSS_ENGERY_CONSUMED_MSG_ID],
        payload_rows = payload_of_LocAPIGnssEnergyConsumedIndMsg, valid_parts = ok_LocAPIGnssEnergyConsumedIndMsg,
        serializer = LocAPIGnssEnergyConsumedIndMsg_serializeToProtobuf,
        receiver = (\<lambda>hal ty name _. LocAPIGnssEnergyConsumedIndMsg_fromProtobuf hal ty name)\<rparr>,
      \<lparr>class_name = ''LocAPILocationSystemInfoIndMsg'', payload_type = ''PBLocAPILocationSystemInfoIndMsg'', class_ids = [E_LOCAPI_LOCATION_SYSTEM_INFO_MSG_ID],
        payload_rows = payload_of_LocAPILocationSystemInfoIndMsg, valid_parts = ok_LocAPILocationSystemInfoIndMsg,
        serializer = LocAPILocationSystemInfoIndMsg_serializeToProtobuf,
        receiver = (\<lambda>hal ty name _. LocAPILocationSystemInfoIndMsg_fromProtobuf hal ty name)\<rparr>,
      \<lparr>class_name = ''LocAPIDcReportIndMsg'', payload_type = ''PBLocAPIDcReportIndMsg'', class_ids = [E_LOCAPI_DC_REPORT_MSG_ID],
        payload_rows = payload_of_LocAPIDcReportIndMsg, valid_parts = ok_LocAPIDcReportIndMsg,
        serializer = LocAPIDcReportIndMsg_serializeToProtobuf,
        receiver = (\<lambda>hal ty name _. LocAPIDcReportIndMsg_fromProtobuf hal ty name)\<rparr>,
      \<lparr>class_name = ''LocAPIEphIndMsg'', payload_type = ''PBLocAPIEphIndMsg'', class_ids = [E_LOCAPI_EPH_MSG_ID],
        payload_rows = payload_of_LocAPIEphIndMsg, valid_parts = ok_LocAPIEphIndMsg,
        serializer = LocAPIEphIndMsg_serializeToProtobuf,
        receiver = (\<lambda>hal ty name _. LocAPIEphIndMsg_fromProtobuf hal ty name)\<rparr>]"

definition config_classes :: "message_class list" where
  "config_classes =
     [\<lparr>class_name = ''LocConfigConstrainedTuncReqMsg'', payload_type = ''PBLocConfigConstrainedTuncReqMsg'', class_ids = [E_INTAPI_CONFIG_CONSTRAINTED_TUNC_MSG_ID],
        payload_rows = payload_of_LocConfigConstrainedTuncReqMsg, valid_parts = ok_LocConfigConstrainedTuncReqMsg,
        serializer = LocConfigConstrainedTuncReqMsg_serializeToProtobuf,
        receiver = (\<lambda>hal ty name _. LocConfigConstrainedTuncReqMsg_fromProtobuf hal ty name)\<rparr>,
      \<lparr>class_name = ''LocConfigPositionAssistedClockEstimatorReqMsg'', payload_type = ''PBLocConfigPositionAssistedClockEstimatorReqMsg'', class_ids = [E_INTAPI_CONFIG_POSITION_ASSISTED_CLOCK_ESTIMATOR_MSG_ID],
        payload_rows = payload_of_LocConfigPositionAssistedClockEstimatorReqMsg, valid_parts = ok_LocConfigPositionAssistedClockEstimatorReqMsg,
        serializer = LocConfigPositionAssistedClockEstimatorReqMsg_serializeToProtobuf,
        receiver = (\<lambda>hal ty name _. LocConfigPositionAssistedClockEstimatorReqMsg_fromProtobuf hal ty name)\<rparr>,
      \<lparr>class_name = ''LocConfigConstellationSecondaryBandReqMsg'', payload_type = ''PBLocConfigConstellationSecondaryBandReqMsg'', class_ids = [E_INTAPI_CONFIG_CONSTELLATION_SECONDARY_BAND_MSG_ID],
        payload_rows = payload_of_LocConfigConstellationSecondaryBandReqMsg, valid_parts = ok_LocConfigConstellationSecondaryBandReqMsg,
        serializer = LocConfigConstellationSecondaryBandReqMsg_serializeToProtobuf,
        receiver = (\<lambda>hal ty name _. LocConfigConstellationSecondaryBandReqMsg_fromProtobuf hal ty name)\<rparr>,
      \<lparr>class_name = ''LocConfigAidingDataDeletionReqMsg'', payload_type = ''PBLocConfigAidingDataDeletionReqMsg'', class_ids = [E_INTAPI_CONFIG_AIDING_DATA_DELETION_MSG_ID],
        payload_rows = payload_of_LocConfigAidingDataDeletionReqMsg, valid_parts = ok_LocConfigAidingDataDeletionReqMsg,
        serializer = LocConfigAidingDataDeletionReqMsg_serializeToProtobuf,
        receiver = (\<lambda>hal ty name _. LocConfigAidingDataDeletionReqMsg_fromProtobuf hal ty name)\<rparr>,
      \<lparr>class_name = ''LocConfigLeverArmReqMsg'', payload_type = ''PBLocConfigLeverArmReqMsg'', class_ids = [E_INTAPI_CONFIG_LEVER_ARM_MSG_ID],
        payload_rows = payload_of_LocConfigLeverArmReqMsg, valid_parts = ok_LocConfigLeverArmReqMsg,
        serializer = LocConfigLeverArmReqMsg_serializeToProtobuf,
        receiver = (\<lambda>hal ty name _. LocConfigLeverArmReqMsg_fromProtobuf hal ty name)\<rparr>,
      \<lparr>class_name = ''LocConfigRobustLocationReqMsg'', payload_type = ''PBLocConfigRobustLocationReqMsg'', class_ids = [E_INTAPI_CONFIG_ROBUST_LOCATION_MSG_ID],
        payload_rows = payload_of_LocConfigRobustLocationReqMsg, valid_parts = ok_LocConfigRobustLocationReqMsg,
        serializer = LocConfigRobustLocationReqMsg_serializeToProtobuf,
        receiver = (\<lambda>hal ty name _. LocConfigRobustLocationReqMsg_fromProtobuf hal ty name)\<rparr>,
      \<lparr>class_name = ''LocConfigMinGpsWeekReqMsg'', payload_type = ''PBLocConfigMinGpsWeekReqMsg'', class_ids = [E_INTAPI_CONFIG_MIN_GPS_WEEK_MSG_ID],
        payload_rows = payload_of_LocConfigMinGpsWeekReqMsg, valid_parts = ok_LocConfigMinGpsWeekReqMsg,
        serializer = LocConfigMinGpsWeekReqMsg_serializeToProtobuf,
        receiver = (\<lambda>hal ty name _. LocConfigMinGpsWeekReqMsg_fromProtobuf hal ty name)\<rparr>,
      \<lparr>class_name = ''LocConfigDrEngineParamsReqMsg'', payload_type = ''PBLocConfigDrEngineParamsReqMsg'', class_ids = [E_INTAPI_CONFIG_DEAD_RECKONING_ENGINE_MSG_ID],
        payload_rows = payload_of_LocConfigDrEngineParamsReqMsg, valid_parts = ok_LocConfigDrEngineParamsReqMsg,
        serializer = LocConfigDrEngineParamsReqMsg_serializeToProtobuf,
        receiver = (\<lambda>hal ty name _. LocConfigDrEngineParamsReqMsg_fromProtobuf hal ty name)\<rparr>,
      \<lparr>class_name = ''LocConfigMinSvElevationReqMsg'', payload_type = ''PBLocConfigMinSvElevationReqMsg'', class_ids = [E_INTAPI_CONFIG_MIN_SV_ELEVATION_MSG_ID],
        payload_rows = payload_of_LocConfigMinSvElevationReqMsg, valid_parts = ok_LocConfigMinSvElevationReqMsg,
        serializer = LocConfigMinSvElevationReqMsg_serializeToProtobuf,
        receiver = (\<lambda>hal ty name _. LocConfigMinSvElevationReqMsg_fromProtobuf hal ty name)\<rparr>,
      \<lparr>class_name = ''LocConfigEngineRunStateReqMsg'', payload_type = ''PBLocConfigEngineRunStateReqMsg'', class_ids = [E_INTAPI_CONFIG_ENGINE_RUN_STATE_MSG_ID],
        payload_rows = payload_of_LocConfigEngineRunStateReqMsg, valid_parts = ok_LocConfigEngineRunStateReqMsg,
        serializer = LocConfigEngineRunStateReqMsg_serializeToProtobuf,
        receiver = (\<lambda>hal ty name _. LocConfigEngineRunStateReqMsg_fromProtobuf hal ty name)\<rparr>,
      \<lparr>class_name = ''LocConfigUserConsentTerrestrialPositioningReqMsg'', payload_type = ''PBLocConfigUserConsentTerrestrialPositioningReqMsg'', class_ids = [E_INTAPI_CONFIG_USER_CONSENT_TERRESTRIAL_POSITIONING_MSG_ID],
        payload_rows = payload_of_LocConfigUserConsentTerrestrialPositioningReqMsg, valid_parts = ok_LocConfigUserConsentTerrestrialPositioningReqMsg,
        serializer = LocConfigUserConsentTerrestrialPositioningReqMsg_serializeToProtobuf,
        receiver = (\<lambda>hal ty name _. LocConfigUserConsentTerrestrialPositioningReqMsg_fromProtobuf hal ty name)\<rparr>,
      \<lparr>class_name = ''LocConfigOutputNmeaTypesReqMsg'', payload_type = ''PBLocConfigOutputNmeaTypesReqMsg'', class_ids = [E_INTAPI_CONFIG_OUTPUT_NMEA_TYPES_MSG_ID],
        payload_rows = payload_of_LocConfigOutputNmeaTypesReqMsg, valid_parts = ok_LocConfigOutputNmeaTypesReqMsg,
        serializer = LocConfigOutputNmeaTypesReqMsg_serializeToProtobuf,
        receiver = (\<lambda>hal ty name _. LocConfigOutputNmeaTypesReqMsg_fromProtobuf hal ty name)\<rparr>,
      \<lparr>class_name = ''LocConfigEngineIntegrityRiskReqMsg'', payload_type = ''PBLocConfigEngineIntegrityRiskReqMsg'', class_ids = [E_INTAPI_CONFIG_ENGINE_INTEGRITY_RISK_MSG_ID],
        payload_rows = payload_of_LocConfigEngineIntegrityRiskReqMsg, valid_parts = ok_LocConfigEngineIntegrityRiskReqMsg,
        serializer = LocConfigEngineIntegrityRiskReqMsg_serializeToProtobuf,
        receiver = (\<lambda>hal ty name _. LocConfigEngineIntegrityRiskReqMsg_fromProtobuf hal ty name)\<rparr>,
      \<lparr>class_name = ''LocConfigXtraReqMsg'', payload_type = ''PBLocConfigXtraReqMsg'', class_ids = [E_INTAPI_CONFIG_XTRA_PARAMS_MSG_ID],
        payload_rows = payload_of_LocConfigXtraReqMsg, valid_parts = ok_LocConfigXtraReqMsg,
        serializer = LocConfigXtraReqMsg_serializeToProtobuf,
        receiver = (\<lambda>hal ty name _. LocConfigXtraReqMsg_fromProtobuf hal ty name)\<rparr>,
      \<lparr>class_name = ''LocConfigMerkleTreeReqMsg'', payload_type = ''PBLocConfigMerkleTreeReqMsg'', class_ids = [E_INTAPI_CONFIG_MERKLE_TREE_MSG_ID],
        payload_rows = payload_of_LocConfigMerkleTreeReqMsg, valid_parts = ok_LocConfigMerkleTreeReqMsg,
        serializer = LocConfigMerkleTreeReqMsg_serializeToProtobuf,
        receiver = (\<lambda>hal ty name _. LocConfigMerkleTreeReqMsg_fromProtobuf hal ty name)\<rparr>,
      \<lparr>class_name = ''LocConfigOsnmaEnablementReqMsg'', payload_type = ''PBLocConfigOsnmaEnablementReqMsg'', class_ids = [E_INTAPI_CONFIG_OSNMA_ENABLEMENT_MSG_ID],
        payload_rows = payload_of_LocConfigOsnmaEnablementReqMsg, valid_parts = ok_LocConfigOsnmaEnablementReqMsg,
        serializer = LocConfigOsnmaEnablementReqMsg_serializeToProtobuf,
        receiver = (\<lambda>hal ty name _. LocConfigOsnmaEnablementReqMsg_fromProtobuf hal ty name)\<rparr>,
      \<lparr>class_name = ''LocInjectMmfDataReqMsg'', payload_type = ''PBLocInjectMmfDataReqMsg'', class_ids = [E_INTAPI_CONFIG_MAP_MATCHED_FEEDBACK_MSG_ID],
        payload_rows = payload_of_LocInjectMmfDataReqMsg, valid_parts = ok_LocInjectMmfDataReqMsg,
        serializer = LocInjectMmfDataReqMsg_serializeToProtobuf,
        receiver = (\<lambda>hal ty name _. LocInjectMmfDataReqMsg_fromProtobuf hal ty name)\<rparr>,
      \<lparr>class_name = ''LocInjectXtraUserConsentMsg'', payload_type = ''PBLocInjectXtraUserConsentMsg'', class_ids = [E_INTAPI_CONFIG_XTRA_USER_CONSENT_MSG_ID],
        payload_rows = payload_of_LocInjectXtraUserConsentMsg, valid_parts = ok_LocInjectXtraUserConsentMsg,
        serializer = LocInjectXtraUserConsentMsg_serializeToProtobuf,
        receiver = (\<lambda>hal ty name _. LocInjectXtraUserConsentMsg_fromProtobuf hal ty name)\<rparr>,
      \<lparr>class_name = ''LocConfigGetRobustLocationConfigRespMsg'', payload_type = ''PBLocConfigGetRobustLocationConfigRespMsg'', class_ids = [E_INTAPI_GET_ROBUST_LOCATION_CONFIG_RESP_MSG_ID],
        payload_rows = payload_of_LocConfigGetRobustLocationConfigRespMsg, valid_parts = ok_LocConfigGetRobustLocationConfigRespMsg,
        serializer = LocConfigGetRobustLocationConfigRespMsg_serializeToProtobuf,
        receiver = (\<lambda>hal ty name _. LocConfigGetRobustLocationConfigRespMsg_fromProtobuf hal ty name)\<rparr>,
      \<lparr>class_name = ''LocConfigGetMinGpsWeekRespMsg'', payload_type = ''PBLocConfigGetMinGpsWeekRespMsg'', class_ids = [E_INTAPI_GET_MIN_GPS_WEEK_RESP_MSG_ID],
        payload_rows = payload_of_LocConfigGetMinGpsWeekRespMsg, valid_parts = ok_LocConfigGetMinGpsWeekRespMsg,
        serializer = LocConfigGetMinGpsWeekRespMsg_serializeToProtobuf,
        receiver = (\<lambda>hal ty name _. LocConfigGetMinGpsWeekRespMsg_fromProtobuf hal ty name)\<rparr>,
      \<lparr>class_name = ''LocConfigGetMinSvElevationRespMsg'', payload_type = ''PBLocConfigGetMinSvElevationRespMsg'', class_ids = [E_INTAPI_GET_MIN_SV_ELEVATION_RESP_MSG_ID],
        payload_rows = payload_of_LocConfigGetMinSvElevationRespMsg, valid_parts = ok_LocConfigGetMinSvElevationRespMsg,
        serializer = LocConfigGetMinSvElevationRespMsg_serializeToProtobuf,
        receiver = (\<lambda>hal ty name _. LocConfigGetMinSvElevationRespMsg_fromProtobuf hal ty name)\<rparr>,
      \<lparr>class_name = ''LocConfigGetConstellationSecondaryBandConfigRespMsg'', payload_type = ''PBLocConfigGetConstltnSecondaryBandConfigRespMsg'', class_ids = [E_INTAPI_GET_CONSTELLATION_SECONDARY_BAND_CONFIG_RESP_MSG_ID],
        payload_rows = payload_of_LocConfigGetConstellationSecondaryBandConfigRespMsg, valid_parts = ok_LocConfigGetConstellationSecondaryBandConfigRespMsg,
        serializer = LocConfigGetConstellationSecondaryBandConfigRespMsg_serializeToProtobuf,
        receiver = (\<lambda>hal ty name _. LocConfigGetConstellationSecondaryBandConfigRespMsg_fromProtobuf hal ty name)\<rparr>,
      \<lparr>class_name = ''LocAPIAntennaInfoMsg'', payload_type = ''PBLocAPIAntennaInfoMsg'', class_ids = [E_LOCAPI_ANTENNA_INFO_MSG_ID],
        payload_rows = payload_of_LocAPIAntennaInfoMsg, valid_parts = ok_LocAPIAntennaInfoMsg,
        serializer = LocAPIAntennaInfoMsg_serializeToProtobuf,
        receiver = (\<lambda>hal ty name _. LocAPIAntennaInfoMsg_fromProtobuf hal ty name)\<rparr>,
      \<lparr>class_name = ''LocIntApiInjectLocationMsg'', payload_type = ''PBLocIntApiInjectLocationMsg'', class_ids = [E_INTAPI_INJECT_LOCATION_MSG_ID],
        payload_rows = payload_of_LocIntApiInjectLocationMsg, valid_parts = ok_LocIntApiInjectLocationMsg,
        serializer = LocIntApiInjectLocationMsg_serializeToProtobuf,
        receiver = (\<lambda>hal ty name _. LocIntApiInjectLocationMsg_fromProtobuf hal ty name)\<rparr>,
      \<lparr>class_name = ''LocConfigRegisterGnssSignalTypesUpdateReqMsg'', payload_type = ''PBLocConfigRegisterGnssSignalTypesUpdateReqMsg'', class_ids = [E_INTAPI_REGISTER_GNSS_SIGNAL_TYPES_UPDATE_REQ_MSG_ID],
        payload_rows = payload_of_LocConfigRegisterGnssSignalTypesUpdateReqMsg, valid_parts = ok_LocConfigRegisterGnssSignalTypesUpdateReqMsg,
        serializer = LocConfigRegisterGnssSignalTypesUpdateReqMsg_serializeToProtobuf,
        receiver = (\<lambda>hal ty name _. LocConfigRegisterGnssSignalTypesUpdateReqMsg_fromProtobuf hal ty name)\<rparr>,
      \<lparr>class_name = ''LocConfigGetXtraStatusRespMsg'', payload_type = ''PBLocConfigGetXtraStatusRespMsg'', class_ids = [E_INTAPI_GET_XTRA_STATUS_RESP_MSG_ID],
        payload_rows = payload_of_LocConfigGetXtraStatusRespMsg, valid_parts = ok_LocConfigGetXtraStatusRespMsg,
        serializer = LocConfigGetXtraStatusRespMsg_serializeToProtobuf,
        receiver = (\<lambda>hal ty name _. LocConfigGetXtraStatusRespMsg_fromProtobuf hal ty name)\<rparr>]"

definition message_classes :: "message_class list" where
  "message_classes = client_classes @ config_classes"

lemmas message_functions =
  LocAPIClientRegisterReqMsg_serializeToProtobuf_def LocAPIClientRegisterReqMsg_fromProtobuf_def
  LocAPICapabilitiesIndMsg_serializeToProtobuf_def LocAPICapabilitiesIndMsg_fromProtobuf_def
  LocAPIGenericRespMsg_serializeToProtobuf_def LocAPIGenericRespMsg_fromProtobuf_def
  LocAPICollectiveRespMsg_serializeToProtobuf_def LocAPICollectiveRespMsg_fromProtobuf_def
  LocAPIStartTrackingReqMsg_serializeToProtobuf_def LocAPIStartTrackingReqMsg_fromProtobuf_def
  LocAPIStopTrackingReqMsg_serializeToProtobuf_def LocAPIStopTrackingReqMsg_fromProtobuf_def
  LocAPIUpdateCallbacksReqMsg_serializeToProtobuf_def LocAPIUpdateCallbacksReqMsg_fromProtobuf_def
  LocAPIUpdateTrackingOptionsReqMsg_serializeToProtobuf_def LocAPIUpdateTrackingOptionsReqMsg_fromProtobuf_def
  LocAPIStartBatchingReqMsg_serializeToProtobuf_def LocAPIStartBatchingReqMsg_fromProtobuf_def
  LocAPIUpdateBatchingOptionsReqMsg_serializeToProtobuf_def LocAPIUpdateBatchingOptionsReqMsg_fromProtobuf_def
  LocAPIAddGeofencesReqMsg_serializeToProtobuf_def LocAPIAddGeofencesReqMsg_fromProtobuf_def
  LocAPIRemoveGeofencesReqMsg_serializeToProtobuf_def LocAPIRemoveGeofencesReqMsg_fromProtobuf_def
  LocAPIModifyGeofencesReqMsg_serializeToProtobuf_def LocAPIModifyGeofencesReqMsg_fromProtobuf_def
  LocAPIPauseGeofencesReqMsg_serializeToProtobuf_def LocAPIPauseGeofencesReqMsg_fromProtobuf_def
  LocAPIResumeGeofencesReqMsg_serializeToProtobuf_def LocAPIResumeGeofencesReqMsg_fromProtobuf_def
  LocAPIUpdateNetworkAvailabilityReqMsg_serializeToProtobuf_def LocAPIUpdateNetworkAvailabilityReqMsg_fromProtobuf_def
  LocAPIGetSingleTerrestrialPosReqMsg_serializeToProtobuf_def LocAPIGetSingleTerrestrialPosReqMsg_fromProtobuf_def
  LocAPIGetSingleTerrestrialPosRespMsg_serializeToProtobuf_def LocAPIGetSingleTerrestrialPosRespMsg_fromProtobuf_def
  LocAPIGetSinglePosReqMsg_serializeToProtobuf_def LocAPIGetSinglePosReqMsg_fromProtobuf_def
  LocAPIGetSinglePosRespMsg_serializeToProtobuf_def LocAPIGetSinglePosRespMsg_fromProtobuf_def
  LocAPILocationIndMsg_serializeToProtobuf_def LocAPILocationIndMsg_fromProtobuf_def
  LocAPIBatchingIndMsg_serializeToProtobuf_def LocAPIBatchingIndMsg_fromProtobuf_def
  LocAPIGeofenceBreachIndMsg_serializeToProtobuf_def LocAPIGeofenceBreachIndMsg_fromProtobuf_def
  LocAPILocationInfoIndMsg_serializeToProtobuf_def LocAPILocationInfoIndMsg_fromProtobuf_def
  LocAPISatelliteVehicleIndMsg_serializeToProtobuf_def LocAPISatelliteVehicleIndMsg_fromProtobuf_def
  LocAPINmeaIndMsg_serializeToProtobuf_def LocAPINmeaIndMsg_fromProtobuf_def
  LocAPIMeasIndMsg_serializeToProtobuf_def LocAPIMeasIndMsg_fromProtobuf_def
  LocAPIGnssEnergyConsumedIndMsg_serializeToProtobuf_def LocAPIGnssEnergyConsumedIndMsg_fromProtobuf_def
  LocAPILocationSystemInfoIndMsg_serializeToProtobuf_def LocAPILocationSystemInfoIndMsg_fromProtobuf_def
  LocAPIDcReportIndMsg_serializeToProtobuf_def LocAPIDcReportIndMsg_fromProtobuf_def
  LocAPIEphIndMsg_serializeToProtobuf_def LocAPIEphIndMsg_fromProtobuf_def
  LocConfigConstrainedTuncReqMsg_serializeToProtobuf_def LocConfigConstrainedTuncReqMsg_fromProtobuf_def
  LocConfigPositionAssistedClockEstimatorReqMsg_serializeToProtobuf_def LocConfigPositionAssistedClockEstimatorReqMsg_fromProtobuf_def
  LocConfigConstellationSecondaryBandReqMsg_serializeToProtobuf_def LocConfigConstellationSecondaryBandReqMsg_fromProtobuf_def
  LocConfigAidingDataDeletionReqMsg_serializeToProtobuf_def LocConfigAidingDataDeletionReqMsg_fromProtobuf_def
  LocConfigLeverArmReqMsg_serializeToProtobuf_def LocConfigLeverArmReqMsg_fromProtobuf_def
  LocConfigRobustLocationReqMsg_serializeToProtobuf_def LocConfigRobustLocationReqMsg_fromProtobuf_def
  LocConfigMinGpsWeekReqMsg_serializeToProtobuf_def LocConfigMinGpsWeekReqMsg_fromProtobuf_def
  LocConfigDrEngineParamsReqMsg_serializeToProtobuf_def LocConfigDrEngineParamsReqMsg_fromProtobuf_def
  LocConfigMinSvElevationReqMsg_serializeToProtobuf_def LocConfigMinSvElevationReqMsg_fromProtobuf_def
  LocConfigEngineRunStateReqMsg_serializeToProtobuf_def LocConfigEngineRunStateReqMsg_fromProtobuf_def
  LocConfigUserConsentTerrestrialPositioningReqMsg_serializeToProtobuf_def LocConfigUserConsentTerrestrialPositioningReqMsg_fromProtobuf_def
  LocConfigOutputNmeaTypesReqMsg_serializeToProtobuf_def LocConfigOutputNmeaTypesReqMsg_fromProtobuf_def
  LocConfigEngineIntegrityRiskReqMsg_serializeToProtobuf_def LocConfigEngineIntegrityRiskReqMsg_fromProtobuf_def
  LocConfigXtraReqMsg_serializeToProtobuf_def LocConfigXtraReqMsg_fromProtobuf_def
  LocConfigMerkleTreeReqMsg_serializeToProtobuf_def LocConfigMerkleTreeReqMsg_fromProtobuf_def
  LocConfigOsnmaEnablementReqMsg_serializeToProtobuf_def LocConfigOsnmaEnablementReqMsg_fromProtobuf_def
  LocInjectMmfDataReqMsg_serializeToProtobuf_def LocInjectMmfDataReqMsg_fromProtobuf_def
  LocInjectXtraUserConsentMsg_serializeToProtobuf_def LocInjectXtraUserConsentMsg_fromProtobuf_def
  LocConfigGetRobustLocationConfigRespMsg_serializeToProtobuf_def LocConfigGetRobustLocationConfigRespMsg_fromProtobuf_def
  LocConfigGetMinGpsWeekRespMsg_serializeToProtobuf_def LocConfigGetMinGpsWeekRespMsg_fromProtobuf_def
  LocConfigGetMinSvElevationRespMsg_serializeToProtobuf_def LocConfigGetMinSvElevationRespMsg_fromProtobuf_def
  LocConfigGetConstellationSecondaryBandConfigRespMsg_serializeToProtobuf_def LocConfigGetConstellationSecondaryBandConfigRespMsg_fromProtobuf_def
  LocAPIAntennaInfoMsg_serializeToProtobuf_def LocAPIAntennaInfoMsg_fromProtobuf_def
  LocIntApiInjectLocationMsg_serializeToProtobuf_def LocIntApiInjectLocationMsg_fromProtobuf_def
  LocConfigRegisterGnssSignalTypesUpdateReqMsg_serializeToProtobuf_def LocConfigRegisterGnssSignalTypesUpdateReqMsg_fromProtobuf_def
  LocConfigGetXtraStatusRespMsg_serializeToProtobuf_def LocConfigGetXtraStatusRespMsg_fromProtobuf_def

definition class_ok :: "message_class \<Rightarrow> bool" where
  "class_ok C \<longleftrightarrow> set (class_ids C) \<subseteq> set message_ids \<and>
     (\<forall>lib hal. serializer C lib hal = serialize_message lib hal (class_name C) (payload_type C) (payload_rows C hal)) \<and>
     (\<exists>use D. (\<forall>hal ty. round_trips (valid_parts C hal ty) (assign (payload_rows C hal)) (assign (D hal ty)) \<and> reads_alike (assign (D hal ty))) \<and>
       (\<forall>hal ty name. \<forall>i \<in> set (class_ids C). receiver C hal ty name i = received use name i (D hal ty)))"

lemma class_ok_fixed:
  assumes "\<And>lib hal. s lib hal = serialize_message lib hal n t (p hal)"
    and "\<And>hal ty name. r hal ty name = received use name i (D hal ty)"
    and "\<And>hal ty. round_trips (v hal ty) (assign (p hal)) (assign (D hal ty)) \<and> reads_alike (assign (D hal ty))"
    and "List.member message_ids i"
  shows "class_ok \<lparr>class_name = n, payload_type = t, class_ids = [i], payload_rows = p, valid_parts = v, serializer = s,
    receiver = (\<lambda>hal ty name _. r hal ty name)\<rparr>"
  unfolding class_ok_def using assms by (auto intro!: exI [of _ use] exI [of _ D])

lemma class_ok_any:
  assumes "\<And>lib hal. s lib hal = serialize_message lib hal n t (p hal)"
    and "\<And>hal ty name i. r hal ty name i = received use name i (D hal ty)"
    and "\<And>hal ty. round_trips (v hal ty) (assign (p hal)) (assign (D hal ty)) \<and> reads_alike (assign (D hal ty))"
  shows "class_ok \<lparr>class_name = n, payload_type = t, class_ids = message_ids, payload_rows = p, valid_parts = v, serializer = s,
    receiver = r\<rparr>"
  unfolding class_ok_def using assms by (auto intro!: exI [of _ use] exI [of _ D])

lemma client_classes_ok: "list_all class_ok client_classes"
  unfolding client_classes_def list.pred_inject
  by (intro conjI list.pred_inject(1))
    ((rule class_ok_fixed, rule message_functions, rule message_functions, rule delivery, code_simp) |
     (rule class_ok_any, rule message_functions, rule message_functions, rule delivery))+

lemma config_classes_ok: "list_all class_ok config_classes"
  unfolding config_classes_def list.pred_inject
  by (intro conjI list.pred_inject(1)) (rule class_ok_fixed, rule message_functions, rule message_functions, rule delivery, code_simp)+

lemma message_classes_ok: "C \<in> set message_classes \<Longrightarrow> class_ok C"
  using client_classes_ok config_classes_ok by (auto simp: message_classes_def list_all_iff)

text \<open>What arrives of a message of one of the classes.\<close>

lemma class_delivered:
  assumes "C \<in> set message_classes" and "valid_parts C hal ty (parts m)" and "msgId m \<in> set (class_ids C)" and "complete_message m"
    and "\<And>pb. assign (payload_rows C hal) (parts m) fresh = Some pb \<Longrightarrow> transmits lib (payload_type C) pb"
    and "\<And>b. transmits lib ''PBLocAPIMsgHeader'' ((header_of hal (class_name C) m)(''payload'' := Str b))"
  shows "\<exists>wire h q. serializer C lib hal m = Some (Some wire) \<and> parse lib ''PBLocAPIMsgHeader'' wire = Some h \<and>
     getEnumForPBELocMsgID hal (num (h ''msgid'')) = msgId m \<and> str (h ''msocketname'') = mSocketName m \<and>
     num (h ''msgversion'') = LOCATION_REMOTE_API_MSG_VERSION \<and>
     parse lib (payload_type C) (str (h ''payload'')) = Some q \<and>
     receiver C hal ty (mSocketName m) (msgId m) q True = Some m"
proof -
  from message_classes_ok [OF assms(1)] obtain use D where C: "set (class_ids C) \<subseteq> set message_ids"
      "serializer C lib hal = serialize_message lib hal (class_name C) (payload_type C) (payload_rows C hal)"
      "round_trips (valid_parts C hal ty) (assign (payload_rows C hal)) (assign (D hal ty))" "reads_alike (assign (D hal ty))"
      "\<forall>name. \<forall>i \<in> set (class_ids C). receiver C hal ty name i = received use name i (D hal ty)"
    unfolding class_ok_def by blast
  have "msgId m \<in> set message_ids" using C(1) assms(3) by blast
  from delivered [OF C(3,4) assms(2,4) message_ids_known [OF this] assms(5,6), of use] C(2,5) assms(3)
  show ?thesis by simp
qed

end
