(* ===== verification/PbDispatch.thy ===== *)
theory PbDispatch
  imports PbDelivery
begin

text \<open>
  \<open>LocationApiService::processClientMsg\<close> of \<open>location_hal_daemon/LocationApiService.cpp\<close>: what the daemon
  makes of the bytes a client sent, up to the call of the handler. The handlers are in \<open>HalService\<close> and
  \<open>HalRequests\<close>.
\<close>

section \<open>Receiving a message\<close>

text \<open>The function that is called, with its flag where it has one, and the message it gets. \<open>None\<close> is an
  access outside of a repeated field.\<close>

datatype client_call = Ignored | Call string loc_api_msg

type_synonym client_case = "pb_library \<Rightarrow> hal_values \<Rightarrow> member_types \<Rightarrow> string \<Rightarrow> string \<Rightarrow> loc_api_msg \<Rightarrow> client_call option"

definition parsed :: "string \<Rightarrow> (hal_values \<Rightarrow> member_types \<Rightarrow> string \<Rightarrow> struct \<Rightarrow> bool \<Rightarrow> loc_api_msg option) \<Rightarrow> string \<Rightarrow> client_case" where
  "parsed t from handler lib hal ty sockName payload locApiMsg =
     (case parse lib t payload of None \<Rightarrow> Some Ignored | Some pb \<Rightarrow> map_option (Call handler) (from hal ty sockName pb True))"

definition built :: "(string \<Rightarrow> loc_api_msg) \<Rightarrow> string \<Rightarrow> client_case" where
  "built msg handler lib hal ty sockName payload locApiMsg = Some (Call handler (msg sockName))"

definition with_header :: "string \<Rightarrow> client_case" where
  "with_header handler lib hal ty sockName payload locApiMsg = Some (Call handler locApiMsg)"

text \<open>A handler that takes the name alone, which is not cut to the length of a socket's name.\<close>

definition with_name :: "string \<Rightarrow> client_case" where
  "with_name handler lib hal ty sockName payload locApiMsg = Some (Call handler (locApiMsg\<lparr>mSocketName := sockName\<rparr>))"

definition client_cases :: "(int \<times> client_case) list" where
  "client_cases =
     [(E_LOCAPI_CLIENT_REGISTER_MSG_ID, parsed ''PBLocAPIClientRegisterReqMsg'' LocAPIClientRegisterReqMsg_fromProtobuf ''newClient''),
      (E_LOCAPI_CLIENT_DEREGISTER_MSG_ID, built (\<lambda>name. LocAPIClientDeregisterReqMsg name True) ''deleteClient''),
      (E_LOCAPI_START_TRACKING_MSG_ID, parsed ''PBLocAPIStartTrackingReqMsg'' LocAPIStartTrackingReqMsg_fromProtobuf ''startTracking''),
      (E_LOCAPI_STOP_TRACKING_MSG_ID, parsed ''PBLocAPIStopTrackingReqMsg'' LocAPIStopTrackingReqMsg_fromProtobuf ''stopTracking''),
      (E_LOCAPI_UPDATE_CALLBACKS_MSG_ID, parsed ''PBLocAPIUpdateCallbacksReqMsg'' LocAPIUpdateCallbacksReqMsg_fromProtobuf ''updateSubscription''),
      (E_LOCAPI_UPDATE_TRACKING_OPTIONS_MSG_ID, parsed ''PBLocAPIUpdateTrackingOptionsReqMsg'' LocAPIUpdateTrackingOptionsReqMsg_fromProtobuf ''updateTrackingOptions''),
      (E_LOCAPI_START_BATCHING_MSG_ID, parsed ''PBLocAPIStartBatchingReqMsg'' LocAPIStartBatchingReqMsg_fromProtobuf ''startBatching''),
      (E_LOCAPI_STOP_BATCHING_MSG_ID, built (\<lambda>name. LocAPIStopBatchingReqMsg name True) ''stopBatching''),
      (E_LOCAPI_UPDATE_BATCHING_OPTIONS_MSG_ID, parsed ''PBLocAPIUpdateBatchingOptionsReqMsg'' LocAPIUpdateBatchingOptionsReqMsg_fromProtobuf ''updateBatchingOptions''),
      (E_LOCAPI_ADD_GEOFENCES_MSG_ID, parsed ''PBLocAPIAddGeofencesReqMsg'' LocAPIAddGeofencesReqMsg_fromProtobuf ''addGeofences''),
      (E_LOCAPI_REMOVE_GEOFENCES_MSG_ID, parsed ''PBLocAPIRemoveGeofencesReqMsg'' LocAPIRemoveGeofencesReqMsg_fromProtobuf ''removeGeofences''),
      (E_LOCAPI_MODIFY_GEOFENCES_MSG_ID, parsed ''PBLocAPIModifyGeofencesReqMsg'' LocAPIModifyGeofencesReqMsg_fromProtobuf ''modifyGeofences''),
      (E_LOCAPI_PAUSE_GEOFENCES_MSG_ID, parsed ''PBLocAPIPauseGeofencesReqMsg'' LocAPIPauseGeofencesReqMsg_fromProtobuf ''pauseGeofences''),
      (E_LOCAPI_RESUME_GEOFENCES_MSG_ID, parsed ''PBLocAPIResumeGeofencesReqMsg'' LocAPIResumeGeofencesReqMsg_fromProtobuf ''resumeGeofences''),
      (E_LOCAPI_CONTROL_UPDATE_NETWORK_AVAILABILITY_MSG_ID, parsed ''PBLocAPIUpdateNetworkAvailabilityReqMsg'' LocAPIUpdateNetworkAvailabilityReqMsg_fromProtobuf ''updateNetworkAvailability''),
      (E_LOCAPI_GET_GNSS_ENGERY_CONSUMED_MSG_ID, with_name ''getGnssEnergyConsumed''),
      (E_LOCAPI_GET_SINGLE_TERRESTRIAL_POS_REQ_MSG_ID, parsed ''PBLocAPIGetSingleTerrestrialPosReqMsg'' LocAPIGetSingleTerrestrialPosReqMsg_fromProtobuf ''getSingleTerrestrialPos''),
      (E_LOCAPI_GET_SINGLE_POS_REQ_MSG_ID, parsed ''PBLocAPIGetSinglePosReqMsg'' LocAPIGetSinglePosReqMsg_fromProtobuf ''getSinglePos''),
      (E_LOCAPI_PINGTEST_MSG_ID, parsed ''PBLocAPIPingTestReqMsg'' LocAPIPingTestReqMsg_fromProtobuf ''pingTest''),
      (E_INTAPI_CONFIG_CONSTRAINTED_TUNC_MSG_ID, parsed ''PBLocConfigConstrainedTuncReqMsg'' LocConfigConstrainedTuncReqMsg_fromProtobuf ''configConstrainedTunc''),
      (E_INTAPI_CONFIG_POSITION_ASSISTED_CLOCK_ESTIMATOR_MSG_ID, parsed ''PBLocConfigPositionAssistedClockEstimatorReqMsg'' LocConfigPositionAssistedClockEstimatorReqMsg_fromProtobuf ''configPositionAssistedClockEstimator''),
      (E_INTAPI_CONFIG_SV_CONSTELLATION_MSG_ID, parsed ''PBLocConfigSvConstellationReqMsg'' LocConfigSvConstellationReqMsg_fromProtobuf ''configConstellations''),
      (E_INTAPI_CONFIG_CONSTELLATION_SECONDARY_BAND_MSG_ID, parsed ''PBLocConfigConstellationSecondaryBandReqMsg'' LocConfigConstellationSecondaryBandReqMsg_fromProtobuf ''configConstellationSecondaryBand''),
      (E_INTAPI_CONFIG_AIDING_DATA_DELETION_MSG_ID, parsed ''PBLocConfigAidingDataDeletionReqMsg'' LocConfigAidingDataDeletionReqMsg_fromProtobuf ''configAidingDataDeletion''),
      (E_INTAPI_CONFIG_LEVER_ARM_MSG_ID, parsed ''PBLocConfigLeverArmReqMsg'' LocConfigLeverArmReqMsg_fromProtobuf ''configLeverArm''),
      (E_INTAPI_CONFIG_ROBUST_LOCATION_MSG_ID, parsed ''PBLocConfigRobustLocationReqMsg'' LocConfigRobustLocationReqMsg_fromProtobuf ''configRobustLocation''),
      (E_INTAPI_CONFIG_MIN_GPS_WEEK_MSG_ID, parsed ''PBLocConfigMinGpsWeekReqMsg'' LocConfigMinGpsWeekReqMsg_fromProtobuf ''configMinGpsWeek''),
      (E_INTAPI_CONFIG_DEAD_RECKONING_ENGINE_MSG_ID, parsed ''PBLocConfigDrEngineParamsReqMsg'' LocConfigDrEngineParamsReqMsg_fromProtobuf ''configDeadReckoningEngineParams''),
      (E_INTAPI_CONFIG_MIN_SV_ELEVATION_MSG_ID, parsed ''PBLocConfigMinSvElevationReqMsg'' LocConfigMinSvElevationReqMsg_fromProtobuf ''configMinSvElevation''),
      (E_INTAPI_CONFIG_ENGINE_RUN_STATE_MSG_ID, parsed ''PBLocConfigEngineRunStateReqMsg'' LocConfigEngineRunStateReqMsg_fromProtobuf ''configEngineRunState''),
      (E_INTAPI_CONFIG_USER_CONSENT_TERRESTRIAL_POSITIONING_MSG_ID, parsed ''PBLocConfigUserConsentTerrestrialPositioningReqMsg'' LocConfigUserConsentTerrestrialPositioningReqMsg_fromProtobuf ''configUserConsentTerrestrialPositioning''),
      (E_INTAPI_CONFIG_OUTPUT_NMEA_TYPES_MSG_ID, parsed ''PBLocConfigOutputNmeaTypesReqMsg'' LocConfigOutputNmeaTypesReqMsg_fromProtobuf ''configOutputNmeaTypes''),
      (E_INTAPI_CONFIG_ENGINE_INTEGRITY_RISK_MSG_ID, parsed ''PBLocConfigEngineIntegrityRiskReqMsg'' LocConfigEngineIntegrityRiskReqMsg_fromProtobuf ''configEngineIntegrityRisk''),
      (E_INTAPI_CONFIG_XTRA_PARAMS_MSG_ID, parsed ''PBLocConfigXtraReqMsg'' LocConfigXtraReqMsg_fromProtobuf ''configXtraParams''),
      (E_INTAPI_CONFIG_MERKLE_TREE_MSG_ID, parsed ''PBLocConfigMerkleTreeReqMsg'' LocConfigMerkleTreeReqMsg_fromProtobuf ''configMerkleTree''),
      (E_INTAPI_CONFIG_OSNMA_ENABLEMENT_MSG_ID, parsed ''PBLocConfigOsnmaEnablementReqMsg'' LocConfigOsnmaEnablementReqMsg_fromProtobuf ''configOsnmaEnablement''),
      (E_INTAPI_GET_ROBUST_LOCATION_CONFIG_REQ_MSG_ID, with_header ''getGnssConfig(GNSS_CONFIG_FLAGS_ROBUST_LOCATION_BIT)''),
      (E_INTAPI_GET_MIN_GPS_WEEK_REQ_MSG_ID, with_header ''getGnssConfig(GNSS_CONFIG_FLAGS_MIN_GPS_WEEK_BIT)''),
      (E_INTAPI_GET_MIN_SV_ELEVATION_REQ_MSG_ID, with_header ''getGnssConfig(GNSS_CONFIG_FLAGS_MIN_SV_ELEVATION_BIT)''),
      (E_INTAPI_GET_CONSTELLATION_SECONDARY_BAND_CONFIG_REQ_MSG_ID, with_header ''getConstellationSecondaryBandConfig''),
      (E_LOCAPI_GET_DEBUG_REQ_MSG_ID, with_header ''getDebugReport''),
      (E_INTAPI_INJECT_LOCATION_MSG_ID, parsed ''PBLocIntApiInjectLocationMsg'' LocIntApiInjectLocationMsg_fromProtobuf ''injectLocation''),
      (E_LOCAPI_GET_ANTENNA_INFO_MSG_ID, with_header ''getAntennaInfo''),
      (E_INTAPI_GET_XTRA_STATUS_REQ_MSG_ID, with_header ''getXtraStatus''),
      (E_INTAPI_REGISTER_XTRA_STATUS_UPDATE_REQ_MSG_ID, with_header ''registerXtraStatusUpdate''),
      (E_INTAPI_DEREGISTER_XTRA_STATUS_UPDATE_REQ_MSG_ID, with_header ''deregisterXtraStatusUpdate''),
      (E_INTAPI_REGISTER_GNSS_SIGNAL_TYPES_UPDATE_REQ_MSG_ID, parsed ''PBLocConfigRegisterGnssSignalTypesUpdateReqMsg'' LocConfigRegisterGnssSignalTypesUpdateReqMsg_fromProtobuf ''registerGnssSignalTypesUpdate''),
      (E_INTAPI_CONFIG_MAP_MATCHED_FEEDBACK_MSG_ID, parsed ''PBLocInjectMmfDataReqMsg'' LocInjectMmfDataReqMsg_fromProtobuf ''configMmfData''),
      (E_INTAPI_CONFIG_XTRA_USER_CONSENT_MSG_ID, parsed ''PBLocInjectXtraUserConsentMsg'' LocInjectXtraUserConsentMsg_fromProtobuf ''configXtraUserConsent'')]"

definition processClientMsg :: "pb_library \<Rightarrow> hal_values \<Rightarrow> member_types \<Rightarrow> string \<Rightarrow> string \<Rightarrow> string \<Rightarrow> client_call option" where
  "processClientMsg lib hal ty client_dir eap_dir data =
     (case parse lib ''PBLocAPIMsgHeader'' data of
        None \<Rightarrow> Some Ignored
      | Some pbLocApiMsg \<Rightarrow>
          (let eLocMsgid = getEnumForPBELocMsgID hal (num (pbLocApiMsg ''msgid''));
               sockName = c_string (str (pbLocApiMsg ''msocketname''));
               locApiMsg = LocAPIMsgHeader sockName eLocMsgid False
           in if \<not> isValidClientMsg client_dir eap_dir locApiMsg then Some Ignored
              else (case map_of client_cases eLocMsgid of
                      None \<Rightarrow> Some Ignored
                    | Some f \<Rightarrow> f lib hal ty sockName (str (pbLocApiMsg ''payload'')) locApiMsg)))"

section \<open>Requests that arrive\<close>

text \<open>The classes of messages that have members and a handler. The daemon handles requests that are a header
  alone too, which are treated without a parse of the payload; the ping, whose data are taken unchecked; and
  \<open>LocConfigSvConstellationReqMsg\<close>, whose masks are converted on one side only.\<close>

definition handled :: "(string \<times> string) list" where
  "handled =
     [(''LocAPIClientRegisterReqMsg'', ''newClient''),
      (''LocAPIStartTrackingReqMsg'', ''startTracking''),
      (''LocAPIStopTrackingReqMsg'', ''stopTracking''),
      (''LocAPIUpdateCallbacksReqMsg'', ''updateSubscription''),
      (''LocAPIUpdateTrackingOptionsReqMsg'', ''updateTrackingOptions''),
      (''LocAPIStartBatchingReqMsg'', ''startBatching''),
      (''LocAPIUpdateBatchingOptionsReqMsg'', ''updateBatchingOptions''),
      (''LocAPIAddGeofencesReqMsg'', ''addGeofences''),
      (''LocAPIRemoveGeofencesReqMsg'', ''removeGeofences''),
      (''LocAPIModifyGeofencesReqMsg'', ''modifyGeofences''),
      (''LocAPIPauseGeofencesReqMsg'', ''pauseGeofences''),
      (''LocAPIResumeGeofencesReqMsg'', ''resumeGeofences''),
      (''LocAPIUpdateNetworkAvailabilityReqMsg'', ''updateNetworkAvailability''),
      (''LocAPIGetSingleTerrestrialPosReqMsg'', ''getSingleTerrestrialPos''),
      (''LocAPIGetSinglePosReqMsg'', ''getSinglePos''),
      (''LocConfigConstrainedTuncReqMsg'', ''configConstrainedTunc''),
      (''LocConfigPositionAssistedClockEstimatorReqMsg'', ''configPositionAssistedClockEstimator''),
      (''LocConfigConstellationSecondaryBandReqMsg'', ''configConstellationSecondaryBand''),
      (''LocConfigAidingDataDeletionReqMsg'', ''configAidingDataDeletion''),
      (''LocConfigLeverArmReqMsg'', ''configLeverArm''),
      (''LocConfigRobustLocationReqMsg'', ''configRobustLocation''),
      (''LocConfigMinGpsWeekReqMsg'', ''configMinGpsWeek''),
      (''LocConfigDrEngineParamsReqMsg'', ''configDeadReckoningEngineParams''),
      (''LocConfigMinSvElevationReqMsg'', ''configMinSvElevation''),
      (''LocConfigEngineRunStateReqMsg'', ''configEngineRunState''),
      (''LocConfigUserConsentTerrestrialPositioningReqMsg'', ''configUserConsentTerrestrialPositioning''),
      (''LocConfigOutputNmeaTypesReqMsg'', ''configOutputNmeaTypes''),
      (''LocConfigEngineIntegrityRiskReqMsg'', ''configEngineIntegrityRisk''),
      (''LocConfigXtraReqMsg'', ''configXtraParams''),
      (''LocConfigMerkleTreeReqMsg'', ''configMerkleTree''),
      (''LocConfigOsnmaEnablementReqMsg'', ''configOsnmaEnablement''),
      (''LocIntApiInjectLocationMsg'', ''injectLocation''),
      (''LocConfigRegisterGnssSignalTypesUpdateReqMsg'', ''registerGnssSignalTypesUpdate''),
      (''LocInjectMmfDataReqMsg'', ''configMmfData''),
      (''LocInjectXtraUserConsentMsg'', ''configXtraUserConsent'')]"

lemma client_cases_distinct: "distinct (map fst client_cases)"
  unfolding client_cases_def by (simp only: list.map fst_conv) code_simp

lemma client_cases_case: "(i, f) \<in> set client_cases \<Longrightarrow> map_of client_cases i = Some f"
  by (rule map_of_is_SomeI [OF client_cases_distinct])

definition handler_of :: "string \<Rightarrow> string option" where
  "handler_of = map_of handled"

lemma handlers:
  shows "handler_of ''LocAPIClientRegisterReqMsg'' = Some ''newClient''"
    and "handler_of ''LocAPICapabilitiesIndMsg'' = None"
    and "handler_of ''LocAPIGenericRespMsg'' = None"
    and "handler_of ''LocAPICollectiveRespMsg'' = None"
    and "handler_of ''LocAPIStartTrackingReqMsg'' = Some ''startTracking''"
    and "handler_of ''LocAPIStopTrackingReqMsg'' = Some ''stopTracking''"
    and "handler_of ''LocAPIUpdateCallbacksReqMsg'' = Some ''updateSubscription''"
    and "handler_of ''LocAPIUpdateTrackingOptionsReqMsg'' = Some ''updateTrackingOptions''"
    and "handler_of ''LocAPIStartBatchingReqMsg'' = Some ''startBatching''"
    and "handler_of ''LocAPIUpdateBatchingOptionsReqMsg'' = Some ''updateBatchingOptions''"
    and "handler_of ''LocAPIAddGeofencesReqMsg'' = Some ''addGeofences''"
    and "handler_of ''LocAPIRemoveGeofencesReqMsg'' = Some ''removeGeofences''"
    and "handler_of ''LocAPIModifyGeofencesReqMsg'' = Some ''modifyGeofences''"
    and "handler_of ''LocAPIPauseGeofencesReqMsg'' = Some ''pauseGeofences''"
    and "handler_of ''LocAPIResumeGeofencesReqMsg'' = Some ''resumeGeofences''"
    and "handler_of ''LocAPIUpdateNetworkAvailabilityReqMsg'' = Some ''updateNetworkAvailability''"
    and "handler_of ''LocAPIGetSingleTerrestrialPosReqMsg'' = Some ''getSingleTerrestrialPos''"
    and "handler_of ''LocAPIGetSingleTerrestrialPosRespMsg'' = None"
    and "handler_of ''LocAPIGetSinglePosReqMsg'' = Some ''getSinglePos''"
    and "handler_of ''LocAPIGetSinglePosRespMsg'' = None"
    and "handler_of ''LocAPILocationIndMsg'' = None"
    and "handler_of ''LocAPIBatchingIndMsg'' = None"
    and "handler_of ''LocAPIGeofenceBreachIndMsg'' = None"
    and "handler_of ''LocAPILocationInfoIndMsg'' = None"
    and "handler_of ''LocAPISatelliteVehicleIndMsg'' = None"
    and "handler_of ''LocAPINmeaIndMsg'' = None"
    and "handler_of ''LocAPIMeasIndMsg'' = None"
    and "handler_of ''LocAPIGnssEnergyConsumedIndMsg'' = None"
    and "handler_of ''LocAPILocationSystemInfoIndMsg'' = None"
    and "handler_of ''LocAPIDcReportIndMsg'' = None"
    and "handler_of ''LocAPIEphIndMsg'' = None"
    and "handler_of ''LocConfigConstrainedTuncReqMsg'' = Some ''configConstrainedTunc''"
    and "handler_of ''LocConfigPositionAssistedClockEstimatorReqMsg'' = Some ''configPositionAssistedClockEstimator''"
    and "handler_of ''LocConfigConstellationSecondaryBandReqMsg'' = Some ''configConstellationSecondaryBand''"
    and "handler_of ''LocConfigAidingDataDeletionReqMsg'' = Some ''configAidingDataDeletion''"
    and "handler_of ''LocConfigLeverArmReqMsg'' = Some ''configLeverArm''"
    and "handler_of ''LocConfigRobustLocationReqMsg'' = Some ''configRobustLocation''"
    and "handler_of ''LocConfigMinGpsWeekReqMsg'' = Some ''configMinGpsWeek''"
    and "handler_of ''LocConfigDrEngineParamsReqMsg'' = Some ''configDeadReckoningEngineParams''"
    and "handler_of ''LocConfigMinSvElevationReqMsg'' = Some ''configMinSvElevation''"
    and "handler_of ''LocConfigEngineRunStateReqMsg'' = Some ''configEngineRunState''"
    and "handler_of ''LocConfigUserConsentTerrestrialPositioningReqMsg'' = Some ''configUserConsentTerrestrialPositioning''"
    and "handler_of ''LocConfigOutputNmeaTypesReqMsg'' = Some ''configOutputNmeaTypes''"
    and "handler_of ''LocConfigEngineIntegrityRiskReqMsg'' = Some ''configEngineIntegrityRisk''"
    and "handler_of ''LocConfigXtraReqMsg'' = Some ''configXtraParams''"
    and "handler_of ''LocConfigMerkleTreeReqMsg'' = Some ''configMerkleTree''"
    and "handler_of ''LocConfigOsnmaEnablementReqMsg'' = Some ''configOsnmaEnablement''"
    and "handler_of ''LocInjectMmfDataReqMsg'' = Some ''configMmfData''"
    and "handler_of ''LocInjectXtraUserConsentMsg'' = Some ''configXtraUserConsent''"
    and "handler_of ''LocConfigGetRobustLocationConfigRespMsg'' = None"
    and "handler_of ''LocConfigGetMinGpsWeekRespMsg'' = None"
    and "handler_of ''LocConfigGetMinSvElevationRespMsg'' = None"
    and "handler_of ''LocConfigGetConstellationSecondaryBandConfigRespMsg'' = None"
    and "handler_of ''LocAPIAntennaInfoMsg'' = None"
    and "handler_of ''LocIntApiInjectLocationMsg'' = Some ''injectLocation''"
    and "handler_of ''LocConfigRegisterGnssSignalTypesUpdateReqMsg'' = Some ''registerGnssSignalTypesUpdate''"
    and "handler_of ''LocConfigGetXtraStatusRespMsg'' = None"
  by code_simp+

definition class_handled :: "message_class \<Rightarrow> bool" where
  "class_handled C \<longleftrightarrow> (\<forall>handler. handler_of (class_name C) = Some handler \<longrightarrow>
     (\<exists>i. class_ids C = [i] \<and>
       (i, parsed (payload_type C) (\<lambda>hal ty name. receiver C hal ty name i) handler) \<in> set client_cases))"

lemma class_handled_some:
  assumes "handler_of n = Some h" and "(i, parsed t r h) \<in> set client_cases"
  shows "class_handled \<lparr>class_name = n, payload_type = t, class_ids = [i], payload_rows = p, valid_parts = v, serializer = s,
    receiver = (\<lambda>hal ty name _. r hal ty name)\<rparr>"
  unfolding class_handled_def using assms by simp

lemma class_handled_none:
  assumes "handler_of n = None"
  shows "class_handled \<lparr>class_name = n, payload_type = t, class_ids = is, payload_rows = p, valid_parts = v, serializer = s, receiver = r\<rparr>"
  unfolding class_handled_def using assms by simp

lemma client_classes_handled: "list_all class_handled client_classes"
  unfolding client_classes_def list.pred_inject
  by (intro conjI list.pred_inject(1))
    ((rule class_handled_none, rule handlers) |
     (rule class_handled_some, rule handlers, unfold client_cases_def, (rule list.set_intros(1) | rule list.set_intros(2))+))+

lemma config_classes_handled: "list_all class_handled config_classes"
  unfolding config_classes_def list.pred_inject
  by (intro conjI list.pred_inject(1))
    ((rule class_handled_none, rule handlers) |
     (rule class_handled_some, rule handlers, unfold client_cases_def, (rule list.set_intros(1) | rule list.set_intros(2))+))+

lemma message_classes_handled:
  "C \<in> set message_classes \<Longrightarrow> class_handled C"
  using client_classes_handled config_classes_handled by (auto simp: message_classes_def list_all_iff)

end
