(* ===== verification/PbRequests.thy ===== *)
theory PbRequests
  imports PbDispatch PbClaims
begin

text \<open>
  What holds of messages on their way: they arrive as they were sent, requests reach the handler they are
  for, the version of a message does not matter, and a short ping is read past its end.
\<close>

section \<open>A sample library\<close>

text \<open>A library for the header and for one message, that leaves out a flag that is zero.\<close>

definition demo_library :: pb_library where
  "demo_library =
     \<lparr>serialize = (\<lambda>t pb.
        if t = ''PBLocAPIMsgHeader''
        then Some (str (pb ''msocketname'') @ CHR 0x00 # char_of (nat (num (pb ''msgid''))) #
               char_of (nat (num (pb ''msgversion''))) # str (pb ''payload''))
        else if t = ''PBLocAPIStopTrackingReqMsg'' then Some (if num (pb ''clearsubscriptions'') = 0 then [] else ''x'')
        else None),
      parse = (\<lambda>t b.
        if t = ''PBLocAPIMsgHeader''
        then (case dropWhile (\<lambda>c. c \<noteq> CHR 0x00) b of
            _ # i # v # p \<Rightarrow> Some (fresh(''msocketname'' := Str (takeWhile (\<lambda>c. c \<noteq> CHR 0x00) b),
              ''msgid'' := Num (int (of_char i)), ''msgversion'' := Num (int (of_char v)), ''payload'' := Str p))
          | _ \<Rightarrow> None)
        else if t = ''PBLocAPIStopTrackingReqMsg''
        then Some (if b = [] then fresh else fresh(''clearsubscriptions'' := Num 1))
        else if t = ''PBLocAPIPingTestReqMsg'' then Some (fresh(''numberofping'' := Num (int (of_char (hd b)))))
        else None)\<rparr>"

definition demo_stop :: "int \<Rightarrow> loc_api_msg" where
  "demo_stop clear = LocAPIStopTrackingReqMsg ''/s/c_a.1.2'' True clear"

lemma demo_header_bytes:
  assumes "CHR 0x00 \<notin> set name"
  shows "takeWhile (\<lambda>c. c \<noteq> CHR 0x00) (name @ CHR 0x00 # r) = name" and "dropWhile (\<lambda>c. c \<noteq> CHR 0x00) (name @ CHR 0x00 # r) = CHR 0x00 # r"
  using assms by (induction name) auto

lemma demo_stop_fields:
  "mSocketName (demo_stop clear) = ''/s/c_a.1.2''" "msgId (demo_stop clear) = E_LOCAPI_STOP_TRACKING_MSG_ID"
  "msgVersion (demo_stop clear) = 1" "pLocApiPbMsgConv (demo_stop clear)"
  "parts (demo_stop clear) ''clearSubscriptions'' = Num clear"
  "parts (demo_stop clear) = of_rows [(''clearSubscriptions'', Num clear)]"
  by (simp_all add: demo_stop_def LocAPIStopTrackingReqMsg_def new_message_def LocAPIMsgHeader_def bounded_text_def c_string_def
      MAX_SOCKET_PATHNAME_LENGTH_def LOCATION_REMOTE_API_MSG_VERSION_def of_rows_def fun_eq_iff)

lemma demo_stop_complete: "complete_message (demo_stop clear)"
  by (simp add: complete_message_def demo_stop_fields socket_name_def MAX_SOCKET_PATHNAME_LENGTH_def LOCATION_REMOTE_API_MSG_VERSION_def)

lemma demo_stop_header:
  "transmits demo_library ''PBLocAPIMsgHeader'' ((header_of demo_header ''LocAPIStopTrackingReqMsg'' (demo_stop clear))(''payload'' := Str b))"
proof -
  have id: "getPBEnumForELocMsgID demo_header E_LOCAPI_STOP_TRACKING_MSG_ID = 6" by code_simp
  have z: "demo_header ''sizeof(LocAPIStopTrackingReqMsg)'' = 0" by code_simp
  have name: "CHR 0x00 \<notin> set ''/s/c_a.1.2''" by simp
  show ?thesis unfolding transmits_def
    by (intro exI conjI)
      (simp add: demo_library_def, simp add: demo_library_def header_of_def demo_stop_fields demo_header_bytes [OF name, simplified] id,
       simp add: alike_def header_of_def demo_stop_fields id z fresh_def)
qed

lemma demo_stop_payload:
  assumes "clear = 0 \<or> clear = 1"
    and "assign (payload_of_LocAPIStopTrackingReqMsg demo_header) (parts (demo_stop clear)) fresh = Some pb"
  shows "transmits demo_library ''PBLocAPIStopTrackingReqMsg'' pb"
proof -
  have "pb = fresh(''clearsubscriptions'' := Num (fit Boolean clear))"
    using assms(2) by (simp add: payload_of_LocAPIStopTrackingReqMsg_def put_def demo_stop_fields(5))
  then show ?thesis using assms(1) unfolding transmits_def
    by (intro exI conjI) (simp add: demo_library_def, simp add: demo_library_def, auto simp: alike_def fresh_def)
qed

definition demo_class :: message_class where
  "demo_class = \<lparr>class_name = ''LocAPIStopTrackingReqMsg'', payload_type = ''PBLocAPIStopTrackingReqMsg'',
     class_ids = [E_LOCAPI_STOP_TRACKING_MSG_ID], payload_rows = payload_of_LocAPIStopTrackingReqMsg,
     valid_parts = ok_LocAPIStopTrackingReqMsg, serializer = LocAPIStopTrackingReqMsg_serializeToProtobuf,
     receiver = (\<lambda>hal ty name _. LocAPIStopTrackingReqMsg_fromProtobuf hal ty name)\<rparr>"

lemma demo_class_listed: "demo_class \<in> set message_classes"
  unfolding message_classes_def client_classes_def append_Cons demo_class_def
  by (rule list.set_intros(1) | rule list.set_intros(2))+

lemma demo_stop_valid: "clear = 0 \<or> clear = 1 \<Longrightarrow> ok_LocAPIStopTrackingReqMsg demo_header demo_types (parts (demo_stop clear))"
  unfolding ok_LocAPIStopTrackingReqMsg_def demo_stop_fields(6)
  by (rule shaped_of_rows, (rule holds)+) auto

section \<open>Delivery\<close>


lemma demo_class_fields:
  "class_name demo_class = ''LocAPIStopTrackingReqMsg''" "payload_type demo_class = ''PBLocAPIStopTrackingReqMsg''"
  "class_ids demo_class = [E_LOCAPI_STOP_TRACKING_MSG_ID]" "payload_rows demo_class = payload_of_LocAPIStopTrackingReqMsg"
  "valid_parts demo_class = ok_LocAPIStopTrackingReqMsg" "serializer demo_class = LocAPIStopTrackingReqMsg_serializeToProtobuf"
  by (simp_all add: demo_class_def)

lemma demo_class_holds:
  "valid_parts demo_class demo_header demo_types (parts (demo_stop 0))" "msgId (demo_stop 0) \<in> set (class_ids demo_class)"
  "assign (payload_rows demo_class demo_header) (parts (demo_stop 0)) fresh = Some pb \<Longrightarrow> transmits demo_library (payload_type demo_class) pb"
  "transmits demo_library ''PBLocAPIMsgHeader'' ((header_of demo_header (class_name demo_class) (demo_stop 0))(''payload'' := Str b))"
  unfolding demo_class_fields
  by (simp_all add: demo_stop_valid demo_stop_header demo_stop_fields(2)) (rule demo_stop_payload, simp_all)


section \<open>Requests\<close>



section \<open>What is not checked\<close>

text \<open>The header the daemon tests is one it has just built, with its own version: messages that differ in their
  version alone are treated alike, and none is rejected for its version.\<close>

theorem version_never_rejects:
  assumes "parse lib ''PBLocAPIMsgHeader'' data = Some h" and "parse lib ''PBLocAPIMsgHeader'' other = Some (h(''msgversion'' := v))"
  shows "processClientMsg lib hal ty client_dir eap_dir data = processClientMsg lib hal ty client_dir eap_dir other \<and>
     isValidMsg (LocAPIMsgHeader name i conv)"
proof -
  have "(h(''msgversion'' := v)) f = h f" if "f \<noteq> ''msgversion''" for f using that by simp
  from this [of "''msgid''"] this [of "''msocketname''"] this [of "''payload''"]
  have f: "(h(''msgversion'' := v)) ''msgid'' = h ''msgid''" "(h(''msgversion'' := v)) ''msocketname'' = h ''msocketname''"
    "(h(''msgversion'' := v)) ''payload'' = h ''payload''" by simp_all
  show ?thesis unfolding processClientMsg_def assms option.case f by (simp add: isValidMsg_def LocAPIMsgHeader_def)
qed

lemma demo_bytes:
  assumes "CHR 0x00 \<notin> set name"
  shows "parse demo_library ''PBLocAPIMsgHeader'' (name @ CHR 0x00 # i # v # p) =
    Some (fresh(''msocketname'' := Str name, ''msgid'' := Num (int (of_char i)), ''msgversion'' := Num (int (of_char v)), ''payload'' := Str p))"
  by (simp add: demo_library_def demo_header_bytes [OF assms])

theorem version_never_rejects_witness:
  "processClientMsg demo_library demo_header demo_types ''/s/'' ''/e/'' (''/s/x'' @ [CHR 0x00, CHR 0x06, CHR 0x01]) =
   processClientMsg demo_library demo_header demo_types ''/s/'' ''/e/'' (''/s/x'' @ [CHR 0x00, CHR 0x06, CHR 0x09])"
proof -
  have name: "CHR 0x00 \<notin> set ''/s/x''" by simp
  show ?thesis
    by (rule version_never_rejects [where v = "Num 9", THEN conjunct1, OF demo_bytes [OF name]])
      (subst demo_bytes [OF name], simp add: fun_upd_twist)
qed

text \<open>C40: the daemon reads as many bytes of a ping as the client says it sent, up to four: a client that sent fewer
  makes it read past the end of the repeated field.\<close>

theorem short_ping_overreads:
  assumes "parse lib ''PBLocAPIMsgHeader'' data = Some h" and "getEnumForPBELocMsgID hal (num (h ''msgid'')) = E_LOCAPI_PINGTEST_MSG_ID"
    and "isValidClientMsg client_dir eap_dir (LocAPIMsgHeader (c_string (str (h ''msocketname''))) E_LOCAPI_PINGTEST_MSG_ID False)"
    and "parse lib ''PBLocAPIPingTestReqMsg'' (str (h ''payload'')) = Some pb"
    and "int (length (elements (pb ''data''))) < min (num (pb ''numberofping'')) LOCATION_REMOTE_API_PINGTEST_SIZE"
  shows "processClientMsg lib hal ty client_dir eap_dir data = None"
proof -
  have "(E_LOCAPI_PINGTEST_MSG_ID, parsed ''PBLocAPIPingTestReqMsg'' LocAPIPingTestReqMsg_fromProtobuf ''pingTest'') \<in> set client_cases"
    unfolding client_cases_def by (rule list.set_intros(1) | rule list.set_intros(2))+
  note ping = client_cases_case [OF this]
  have "\<not> nat (min (num (pb ''numberofping'')) LOCATION_REMOTE_API_PINGTEST_SIZE) \<le> length (elements (pb ''data''))"
    unfolding nat_le_iff using assms(5) by linarith
  then have "LocAPIPingTestReqMsg_fromProtobuf hal ty name pb True = None" for name
    by (simp add: LocAPIPingTestReqMsg_fromProtobuf_def received_def members_of_LocAPIPingTestReqMsg_def fill_def first_of_def)
  then show ?thesis using assms(1-4) by (simp add: processClientMsg_def ping parsed_def Let_def)
qed

theorem short_ping_overreads_witness:
  "processClientMsg demo_library demo_header demo_types ''/s/'' ''/e/'' (''/s/x'' @ [CHR 0x00, CHR ''c'', CHR 0x01, CHR 0x04]) = None"
proof -
  have name: "CHR 0x00 \<notin> set ''/s/x''" by simp
  have id: "getEnumForPBELocMsgID demo_header 99 = E_LOCAPI_PINGTEST_MSG_ID" by code_simp
  show ?thesis
  proof (rule short_ping_overreads [OF demo_bytes [OF name]])
    show "parse demo_library ''PBLocAPIPingTestReqMsg'' (str ((fresh(''msocketname'' := Str ''/s/x'', ''msgid'' := Num (int (of_char (CHR ''c''))),
        ''msgversion'' := Num (int (of_char (CHR 0x01))), ''payload'' := Str [CHR 0x04])) ''payload'')) = Some (fresh(''numberofping'' := Num 4))"
      by (simp add: demo_library_def)
  qed (simp_all add: id isValidClientMsg_def isValidMsg_def LocAPIMsgHeader_def bounded_text_def c_string_def has_prefix_def
      MAX_SOCKET_PATHNAME_LENGTH_def fresh_def LOCATION_REMOTE_API_PINGTEST_SIZE_def)
qed

end
