(* ===== verification/HalWire.thy ===== *)
theory HalWire
  imports PbRequests HalClaims
begin

text \<open>
  The daemon from the bytes a client sends to the state after them: \<open>processClientMsg\<close> picks the handler, and
  the handler takes what it needs from the message. What the handlers get of the library, and the bytes a
  structure consists of, are in a record of their own.
\<close>

section \<open>From messages to requests\<close>

record hal_reply =
  r_session :: "32 word"
  r_interface :: bool
  r_api :: bool
  r_made :: bool
  r_mem :: bool
  r_ids :: "32 word list option"
  r_config :: "32 word option"
  r_report :: "8 word list"
  r_bytes :: "cval \<Rightarrow> 8 word list"
  r_prev :: "int \<Rightarrow> 64 word"
  r_final :: "int \<Rightarrow> bool"
  r_options :: loc_options

text \<open>A member as a number, as a flag, and as a word of its width.\<close>

definition number_in :: "loc_api_msg \<Rightarrow> string \<Rightarrow> int" where
  "number_in m x = num (parts m x)"

definition flag_in :: "loc_api_msg \<Rightarrow> string \<Rightarrow> bool" where
  "flag_in m x \<longleftrightarrow> number_in m x \<noteq> 0"

definition word_in :: "loc_api_msg \<Rightarrow> string \<Rightarrow> 'a::len word" where
  "word_in m x = word_of_int (number_in m x)"

definition options_of :: "struct \<Rightarrow> loc_options" where
  "options_of x = \<lparr>minInterval = word_of_int (num (x ''minInterval'')), minDistance = word_of_int (num (x ''minDistance'')),
     opt_mode = num (x ''mode''), locReqEngTypeMask = word_of_int (num (x ''locReqEngTypeMask'')),
     qualityLevelAccepted = num (x ''qualityLevelAccepted'')\<rparr>"

definition geofence_of :: "struct \<Rightarrow> geofence" where
  "geofence_of x =
     (\<lparr>breachTypeMask = word_of_int (num (obj (x ''gfOption'') ''breachTypeMask'')),
       responsiveness = word_of_int (num (obj (x ''gfOption'') ''responsiveness'')),
       dwellTime = word_of_int (num (obj (x ''gfOption'') ''dwellTime''))\<rparr>,
      \<lparr>gf_latitude = word_of_int (num (obj (x ''gfInfo'') ''latitude'')),
       gf_longitude = word_of_int (num (obj (x ''gfInfo'') ''longitude'')),
       gf_radius = word_of_int (num (obj (x ''gfInfo'') ''radius''))\<rparr>,
      word_of_int (num (x ''gfClientId'')))"

text \<open>The first \<open>count\<close> elements of the array.\<close>

definition geofences_in :: "loc_api_msg \<Rightarrow> geofence list" where
  "geofences_in m =
     (let x = obj (parts m ''geofences'') in
      map (geofence_of \<circ> obj) (take (nat (num (x ''count''))) (elements (x ''gfPayload''))))"

definition gf_ids_in :: "loc_api_msg \<Rightarrow> 32 word list" where
  "gf_ids_in m =
     (let x = obj (parts m ''gfClientIds'') in
      map (word_of_int \<circ> num) (take (nat (num (x ''count''))) (elements (x ''gfIds''))))"

text \<open>The bits of a float as a multiple of \<open>2 ^ -149\<close>.\<close>

definition float_units :: "int \<Rightarrow> int" where
  "float_units b =
     (let m = b mod 2 ^ 23; e = (b div 2 ^ 23) mod 2 ^ 8; v = (if e = 0 then m else (2 ^ 23 + m) * 2 ^ nat (e - 1))
      in if (b div 2 ^ 31) mod 2 = 1 then - v else v)"

text \<open>The quality a client asks for: no accuracy is less than a NaN.\<close>

definition is_nan :: "int \<Rightarrow> bool" where
  "is_nan b \<longleftrightarrow> (b div 2 ^ 23) mod 2 ^ 8 = 255 \<and> b mod 2 ^ 23 \<noteq> 0"

definition qos_units :: "int \<Rightarrow> int" where
  "qos_units b = (if is_nan b then - (2 ^ 280) else float_units b)"

lemma float_units_bound: "\<bar>float_units b\<bar> < 2 ^ 280"
proof -
  define m e where "m = b mod 2 ^ 23" and "e = (b div 2 ^ 23) mod 2 ^ 8"
  define v where "v = (if e = 0 then m else (2 ^ 23 + m) * 2 ^ nat (e - 1))"
  have m: "0 \<le> m" "m < 2 ^ 23" by (simp_all add: m_def)
  have "e < 2 ^ 8" unfolding e_def by (rule pos_mod_bound) simp
  then have "nat (e - 1) \<le> 254" by simp
  then have "(2 :: int) ^ nat (e - 1) \<le> 2 ^ 254" by (rule power_increasing) simp
  then have "(2 ^ 23 + m) * 2 ^ nat (e - 1) \<le> (2 ^ 23 + 2 ^ 23) * 2 ^ 254" using m by (intro mult_mono) simp_all
  also have "\<dots> < (2 :: int) ^ 280" by simp
  finally have "v < 2 ^ 280" using m(2) by (simp add: v_def)
  moreover have "0 \<le> v" using m(1) by (simp add: v_def)
  moreover have "\<bar>float_units b\<bar> = \<bar>v\<bar>" unfolding float_units_def Let_def v_def m_def e_def by simp
  ultimately show ?thesis by linarith
qed

lemma nan_never_met: "is_nan q \<Longrightarrow> \<not> float_units a < qos_units q"
  using float_units_bound [of a] by (simp add: qos_units_def)

type_synonym client_handler = "hald_env \<Rightarrow> hal_reply \<Rightarrow> loc_api_msg \<Rightarrow> service \<Rightarrow> service outcome"

definition client_handlers :: "(string \<times> client_handler) list" where
  "client_handlers =
     [(''newClient'', \<lambda>env r m. newClient env (mSocketName m) (number_in m ''mClientType'') (r_made r) (r_api r) (r_prev r) (r_final r) (r_options r)),
      (''deleteClient'', \<lambda>env r m. deleteClient env (mSocketName m)),
      (''startTracking'', \<lambda>env r m. service_startTracking env (mSocketName m) (options_of (obj (parts m ''locOptions''))) (r_session r)),
      (''stopTracking'', \<lambda>env r m. service_stopTracking (mSocketName m) (flag_in m ''clearSubscriptions'')),
      (''updateSubscription'', \<lambda>env r m. service_updateSubscription (mSocketName m) (word_in m ''locationCallbacks'')),
      (''updateTrackingOptions'', \<lambda>env r m. service_updateTrackingOptions env (mSocketName m) (options_of (obj (parts m ''locOptions'')))),
      (''startBatching'', \<lambda>env r m. service_startBatching env (mSocketName m) (word_in m ''intervalInMs'')
        (word_in m ''distanceInMeters'') (number_in m ''batchingMode'') (r_session r)),
      (''stopBatching'', \<lambda>env r m. service_stopBatching env (mSocketName m)),
      (''updateBatchingOptions'', \<lambda>env r m. service_updateBatchingOptions env (mSocketName m) (word_in m ''intervalInMs'')
        (word_in m ''distanceInMeters'') (number_in m ''batchingMode'')),
      (''addGeofences'', \<lambda>env r m. service_addGeofences (mSocketName m) (geofences_in m) (r_mem r) (r_ids r)),
      (''removeGeofences'', \<lambda>env r m. service_removeGeofences (mSocketName m) (gf_ids_in m) (r_mem r)),
      (''modifyGeofences'', \<lambda>env r m. service_modifyGeofences (mSocketName m) (geofences_in m) (r_mem r)),
      (''pauseGeofences'', \<lambda>env r m. service_pauseGeofences (mSocketName m) (gf_ids_in m) (r_mem r)),
      (''resumeGeofences'', \<lambda>env r m. service_resumeGeofences (mSocketName m) (gf_ids_in m) (r_mem r)),
      (''updateNetworkAvailability'', \<lambda>env r m s. Returns (updateNetworkAvailability (r_interface r) (flag_in m ''mAvailability'') s)),
      (''getGnssEnergyConsumed'', \<lambda>env r m. service_getGnssEnergyConsumed (r_interface r) (mSocketName m)),
      (''getSingleTerrestrialPos'', \<lambda>env r m. getSingleTerrestrialPos env (mSocketName m)),
      (''getSinglePos'', \<lambda>env r m. getSinglePos (r_api r) (r_session r) (mSocketName m) (qos_units (number_in m ''mHorQoS'')) (word_in m ''mTimeoutMsec'')),
      (''pingTest'', \<lambda>env r m. service_pingTest env (mSocketName m)),
      (''configConstrainedTunc'', \<lambda>env r m. configConstrainedTunc env (flag_in m ''mEnable'') (word_in m ''mTuncConstraint'')
        (word_in m ''mEnergyBudget'') (r_session r) (mSocketName m) (msgId m)),
      (''configPositionAssistedClockEstimator'', \<lambda>env r m. configPositionAssistedClockEstimator env (flag_in m ''mEnable'')
        (r_session r) (mSocketName m) (msgId m)),
      (''configConstellations'', \<lambda>env r m. configConstellations env (r_bytes r (parts m ''mConstellationEnablementConfig''))
        (r_bytes r (parts m ''mBlacklistSvConfig'')) (r_session r) (mSocketName m) (msgId m)),
      (''configConstellationSecondaryBand'', \<lambda>env r m. configConstellationSecondaryBand env (r_bytes r (parts m ''mSecondaryBandConfig''))
        (r_session r) (mSocketName m) (msgId m)),
      (''configAidingDataDeletion'', \<lambda>env r m. configAidingDataDeletion env (r_bytes r (parts m ''mAidingData''))
        (r_session r) (mSocketName m) (msgId m)),
      (''configLeverArm'', \<lambda>env r m. configLeverArm env (r_bytes r (parts m ''mLeverArmConfigInfo'')) (r_session r) (mSocketName m) (msgId m)),
      (''configRobustLocation'', \<lambda>env r m. configRobustLocation env (flag_in m ''mEnable'') (flag_in m ''mEnableForE911'')
        (r_session r) (mSocketName m) (msgId m)),
      (''configMinGpsWeek'', \<lambda>env r m. configMinGpsWeek env (word_in m ''mMinGpsWeek'') (r_session r) (mSocketName m) (msgId m)),
      (''configDeadReckoningEngineParams'', \<lambda>env r m. configDeadReckoningEngineParams env (r_bytes r (parts m ''mDreConfig''))
        (r_session r) (mSocketName m) (msgId m)),
      (''configMinSvElevation'', \<lambda>env r m. configMinSvElevation env (word_in m ''mMinSvElevation'') (r_session r) (mSocketName m) (msgId m)),
      (''configEngineRunState'', \<lambda>env r m. configEngineRunState env (word_in m ''mEngType'') (number_in m ''mEngState'')
        (r_session r) (mSocketName m) (msgId m)),
      (''configUserConsentTerrestrialPositioning'', \<lambda>env r m. configUserConsentTerrestrialPositioning env (r_api r)
        (flag_in m ''mUserConsent'') (r_session r) (mSocketName m) (msgId m)),
      (''configOutputNmeaTypes'', \<lambda>env r m. configOutputNmeaTypes env (word_in m ''mEnabledNmeaTypes'') (number_in m ''mNmeaDatumType'')
        (word_in m ''mNmeaReqEngMask'') (r_session r) (mSocketName m) (msgId m)),
      (''configEngineIntegrityRisk'', \<lambda>env r m. configEngineIntegrityRisk env (word_in m ''mEngType'') (word_in m ''mIntegrityRisk'')
        (r_session r) (mSocketName m) (msgId m)),
      (''configXtraParams'', \<lambda>env r m. configXtraParams env (flag_in m ''mEnable'') (r_bytes r (parts m ''mXtraParams''))
        (r_session r) (mSocketName m) (msgId m)),
      (''configMerkleTree'', \<lambda>env r m. configMerkleTree env (str (parts m ''mMerkleTreeConfig'')) (r_session r) (mSocketName m) (msgId m)),
      (''configOsnmaEnablement'', \<lambda>env r m. configOsnmaEnablement env (flag_in m ''mEnable'') (r_session r) (mSocketName m) (msgId m)),
      (''getGnssConfig(GNSS_CONFIG_FLAGS_ROBUST_LOCATION_BIT)'', \<lambda>env r m. getGnssConfig env
        (hal_value (env_lib env) ''GNSS_CONFIG_FLAGS_ROBUST_LOCATION_BIT'') (r_config r) (mSocketName m) (msgId m)),
      (''getGnssConfig(GNSS_CONFIG_FLAGS_MIN_GPS_WEEK_BIT)'', \<lambda>env r m. getGnssConfig env
        (hal_value (env_lib env) ''GNSS_CONFIG_FLAGS_MIN_GPS_WEEK_BIT'') (r_config r) (mSocketName m) (msgId m)),
      (''getGnssConfig(GNSS_CONFIG_FLAGS_MIN_SV_ELEVATION_BIT)'', \<lambda>env r m. getGnssConfig env
        (hal_value (env_lib env) ''GNSS_CONFIG_FLAGS_MIN_SV_ELEVATION_BIT'') (r_config r) (mSocketName m) (msgId m)),
      (''getConstellationSecondaryBandConfig'', \<lambda>env r m. getConstellationSecondaryBandConfig env (r_interface r) (r_session r) (mSocketName m) (msgId m)),
      (''getDebugReport'', \<lambda>env r m. service_getDebugReport env (mSocketName m) (r_report r)),
      (''injectLocation'', \<lambda>env r m. injectLocation (mSocketName m) (r_bytes r (parts m ''mLocation''))),
      (''getAntennaInfo'', \<lambda>env r m. service_getAntennaInfo (mSocketName m)),
      (''getXtraStatus'', \<lambda>env r m. getXtraStatus env (r_interface r) (r_session r) (mSocketName m) (msgId m)),
      (''registerXtraStatusUpdate'', \<lambda>env r m. registerXtraStatusUpdate env (r_interface r) (r_session r) (mSocketName m) (msgId m)),
      (''deregisterXtraStatusUpdate'', \<lambda>env r m. deregisterXtraStatusUpdate env (r_interface r) (r_session r) (mSocketName m) (msgId m)),
      (''registerGnssSignalTypesUpdate'', \<lambda>env r m. registerGnssSignalTypesUpdate env (r_api r) (flag_in m ''mRegisterUpdate'') (mSocketName m) (msgId m)),
      (''configMmfData'', \<lambda>env r m. configMmfData env (r_bytes r (parts m ''gnssMapData'')) (r_session r) (mSocketName m) (msgId m)),
      (''configXtraUserConsent'', \<lambda>env r m. configXtraUserConsent env (flag_in m ''xtraUserConsent'') (r_session r) (mSocketName m) (msgId m))]"

text \<open>A message that is ignored changes nothing.\<close>

definition run_call :: "hald_env \<Rightarrow> hal_reply \<Rightarrow> client_call \<Rightarrow> service \<Rightarrow> service outcome" where
  "run_call env r call s =
     (case call of
        Ignored \<Rightarrow> Returns s
      | Call handler m \<Rightarrow> (case map_of client_handlers handler of None \<Rightarrow> Returns s | Some k \<Rightarrow> k env r m s))"

definition daemon_receives :: "pb_library \<Rightarrow> member_types \<Rightarrow> hald_env \<Rightarrow> hal_reply \<Rightarrow> string \<Rightarrow> service \<Rightarrow> service outcome" where
  "daemon_receives lib ty env r wire s =
     (let d = dirs (env_lib env) in
      case processClientMsg lib (hal_value (env_lib env)) ty (SOCKET_LOC_CLIENT_DIR d) (EAP_LOC_CLIENT_DIR d) wire of
        None \<Rightarrow> Faults
      | Some call \<Rightarrow> run_call env r call s)"

section \<open>Bytes and the invariant\<close>

lemmas config_defs = configConstrainedTunc_def configPositionAssistedClockEstimator_def configConstellations_def
  configConstellationSecondaryBand_def configAidingDataDeletion_def configLeverArm_def configRobustLocation_def
  configMinGpsWeek_def configMinSvElevation_def configEngineRunState_def configOutputNmeaTypes_def
  configEngineIntegrityRisk_def configXtraParams_def configMerkleTree_def configOsnmaEnablement_def configMmfData_def
  configXtraUserConsent_def configDeadReckoningEngineParams_def getGnssConfig_def

text \<open>Each handler is one operation under the lock, but for the registration for the status of XTRA, which is
  two steps.\<close>

definition hald_requests :: "hald_env \<Rightarrow> (service \<Rightarrow> service outcome) \<Rightarrow> bool" where
  "hald_requests env k \<longleftrightarrow> hald_request env k \<or>
     (\<exists>k1 k2. hald_request env k1 \<and> hald_request env k2 \<and> k = (\<lambda>s. andthen (k1 s) k2))"

lemma hald_requests_one: "hald_request env k \<Longrightarrow> hald_requests env k"
  by (simp add: hald_requests_def)

lemma registerXtraStatusUpdate_requests: "hald_requests env (registerXtraStatusUpdate env interface i name m)"
proof -
  have "registerXtraStatusUpdate env interface i name m =
      (\<lambda>s. andthen (Returns (enter_for_xtra name s)) (register_for_xtra env interface i name m))"
    by (simp add: fun_eq_iff registerXtraStatusUpdate_def)
  then show ?thesis unfolding hald_requests_def using hald_request.intros(23,24) by blast
qed

lemma hald_requests_reach:
  assumes "hald_reach env s" and "hald_requests env k" and "k s = Returns s'"
  shows "hald_reach env s'"
  using assms(2) unfolding hald_requests_def
proof (elim disjE exE conjE)
  fix k1 k2 assume k: "hald_request env k1" "hald_request env k2" "k = (\<lambda>s. andthen (k1 s) k2)"
  then obtain t where "k1 s = Returns t" "k2 t = Returns s'" using assms(3) by (auto simp: andthen_Returns)
  then show ?thesis using k assms(1) by (blast intro: hald_request_step)
qed (use assms in \<open>blast intro: hald_request_step\<close>)

lemma client_handlers_request: "list_all (\<lambda>(h, k). \<forall>env r m. hald_requests env (k env r m)) client_handlers"
  unfolding client_handlers_def list.pred_inject case_prod_conv config_defs
  by (intro conjI list.pred_inject(1) allI)
    (rule registerXtraStatusUpdate_requests | rule hald_requests_one, rule hald_request.intros)+

text \<open>Whatever bytes a client sends, the state after them is one the daemon's own steps reach.\<close>

lemma run_call_reach:
  assumes "hald_reach env s" and "run_call env r call s = Returns s'"
  shows "hald_reach env s'"
proof (cases call)
  case Ignored
  then show ?thesis using assms by (simp add: run_call_def)
next
  case (Call handler m)
  show ?thesis
  proof (cases "map_of client_handlers handler")
    case None
    then show ?thesis using assms Call by (simp add: run_call_def)
  next
    case (Some k)
    have "hald_requests env (k env r m)"
      using client_handlers_request map_of_SomeD [OF Some] unfolding list_all_iff by blast
    then show ?thesis using assms Call Some by (auto simp: run_call_def intro: hald_requests_reach)
  qed
qed

definition demo_reply :: hal_reply where
  "demo_reply = \<lparr>r_session = 1, r_interface = True, r_api = True, r_made = True, r_mem = True, r_ids = None, r_config = None,
     r_report = [], r_bytes = (\<lambda>_. []), r_prev = (\<lambda>_. 0), r_final = (\<lambda>_. False), r_options = demo_options\<rparr>"

lemma demo_receives:
  "\<exists>s'. daemon_receives demo_library demo_types (demo_env False) demo_reply (demo_name @ [CHR 0x00, CHR 0x06, CHR 0x01]) (demo_state 1) = Returns s'"
proof -
  let ?m = "(LocAPIMsgHeader demo_name E_LOCAPI_STOP_TRACKING_MSG_ID True)\<lparr>parts := fresh(''clearSubscriptions'' := Num 0)\<rparr>"
  have name: "CHR 0x00 \<notin> set demo_name" "c_string demo_name = demo_name" by (simp_all add: demo_name_def c_string_def)
  have id: "getEnumForPBELocMsgID (\<lambda>_. 1) 6 = E_LOCAPI_STOP_TRACKING_MSG_ID" by code_simp
  have "(E_LOCAPI_STOP_TRACKING_MSG_ID, parsed ''PBLocAPIStopTrackingReqMsg'' LocAPIStopTrackingReqMsg_fromProtobuf ''stopTracking'') \<in> set client_cases"
    unfolding client_cases_def by (rule list.set_intros(1) | rule list.set_intros(2))+
  note stop = client_cases_case [OF this]
  have "isValidClientMsg ''/s/'' ''/e/'' (LocAPIMsgHeader demo_name E_LOCAPI_STOP_TRACKING_MSG_ID False)"
    by (simp add: isValidClientMsg_def isValidMsg_def LocAPIMsgHeader_def bounded_text_def c_string_def has_prefix_def
        MAX_SOCKET_PATHNAME_LENGTH_def demo_name_def)
  moreover have "parse demo_library ''PBLocAPIStopTrackingReqMsg'' [] = Some fresh" by (simp add: demo_library_def)
  moreover have "LocAPIStopTrackingReqMsg_fromProtobuf (\<lambda>_. 1) demo_types demo_name fresh True = Some ?m"
    by (simp add: LocAPIStopTrackingReqMsg_fromProtobuf_def received_def members_of_LocAPIStopTrackingReqMsg_def get_def fresh_def)
  ultimately have "processClientMsg demo_library (\<lambda>_. 1) demo_types ''/s/'' ''/e/'' (demo_name @ [CHR 0x00, CHR 0x06, CHR 0x01]) =
      Some (Call ''stopTracking'' ?m)"
    by (simp add: processClientMsg_def demo_bytes [OF name(1)] id name(2) stop parsed_def Let_def cong: option.case_cong)
  moreover have "mSocketName ?m = demo_name"
    by (simp add: LocAPIMsgHeader_def bounded_text_def name(2) MAX_SOCKET_PATHNAME_LENGTH_def demo_name_def c_string_def)
  moreover have "map_of client_handlers ''stopTracking'' =
      Some (\<lambda>env r m. service_stopTracking (mSocketName m) (flag_in m ''clearSubscriptions''))"
    by (simp add: client_handlers_def)
  ultimately show ?thesis
    by (simp add: daemon_receives_def demo_env_def demo_dirs_def run_call_def service_stopTracking_def with_client_def demo_fields
        upd_handler_def on_handler_def)
qed

end
