(* ===== verification/AdapterState.thy ===== *)
theory AdapterState
  imports LocClient LocSupportedMsgs PbConv PbStruct
begin

unbundle bit_operations_syntax

text \<open>
  The adapter between the location HAL and the QMI location service, the class \<open>LocApiV02\<close> of
  \<open>loc_api/loc_api_v02/LocApiV02.cpp\<close>: its state, and how it sends a request and waits for the
  indication that answers it. The adapter stands on the client of \<open>LocClient\<close>. Its base class, the
  context and the enumerators of the HAL's headers are outside of the repository: the calls on the
  base class are recorded, the rest are parameters. So is the outcome of a synchronous request,
  which \<open>loc_sync_send_req\<close> and the modem produce together. A struct of a message is what its members
  hold after \<open>memset\<close> and the assignments: \<open>Unset\<close> members are zero.
\<close>

section \<open>Values of the service\<close>

definition enumerator :: "cty \<Rightarrow> string \<Rightarrow> int" where
  "enumerator t n = (case t of CEnum es \<Rightarrow> (case map_of es n of None \<Rightarrow> 0 | Some v \<Rightarrow> v) | _ \<Rightarrow> 0)"

definition qmiLocEventRegMaskT_v02_flags :: "(string \<times> int) list" where
  "qmiLocEventRegMaskT_v02_flags = [
    (''QMI_LOC_EVENT_MASK_POSITION_REPORT_V02'', 0x00000001),
    (''QMI_LOC_EVENT_MASK_GNSS_SV_INFO_V02'', 0x00000002),
    (''QMI_LOC_EVENT_MASK_NMEA_V02'', 0x00000004),
    (''QMI_LOC_EVENT_MASK_NI_NOTIFY_VERIFY_REQ_V02'', 0x00000008),
    (''QMI_LOC_EVENT_MASK_INJECT_TIME_REQ_V02'', 0x00000010),
    (''QMI_LOC_EVENT_MASK_INJECT_PREDICTED_ORBITS_REQ_V02'', 0x00000020),
    (''QMI_LOC_EVENT_MASK_INJECT_POSITION_REQ_V02'', 0x00000040),
    (''QMI_LOC_EVENT_MASK_ENGINE_STATE_V02'', 0x00000080),
    (''QMI_LOC_EVENT_MASK_FIX_SESSION_STATE_V02'', 0x00000100),
    (''QMI_LOC_EVENT_MASK_WIFI_REQ_V02'', 0x00000200),
    (''QMI_LOC_EVENT_MASK_SENSOR_STREAMING_READY_STATUS_V02'', 0x00000400),
    (''QMI_LOC_EVENT_MASK_TIME_SYNC_REQ_V02'', 0x00000800),
    (''QMI_LOC_EVENT_MASK_SET_SPI_STREAMING_REPORT_V02'', 0x00001000),
    (''QMI_LOC_EVENT_MASK_LOCATION_SERVER_CONNECTION_REQ_V02'', 0x00002000),
    (''QMI_LOC_EVENT_MASK_NI_GEOFENCE_NOTIFICATION_V02'', 0x00004000),
    (''QMI_LOC_EVENT_MASK_GEOFENCE_GEN_ALERT_V02'', 0x00008000),
    (''QMI_LOC_EVENT_MASK_GEOFENCE_BREACH_NOTIFICATION_V02'', 0x00010000),
    (''QMI_LOC_EVENT_MASK_PEDOMETER_CONTROL_V02'', 0x00020000),
    (''QMI_LOC_EVENT_MASK_MOTION_DATA_CONTROL_V02'', 0x00040000),
    (''QMI_LOC_EVENT_MASK_BATCH_FULL_NOTIFICATION_V02'', 0x00080000),
    (''QMI_LOC_EVENT_MASK_LIVE_BATCHED_POSITION_REPORT_V02'', 0x00100000),
    (''QMI_LOC_EVENT_MASK_INJECT_WIFI_AP_DATA_REQ_V02'', 0x00200000),
    (''QMI_LOC_EVENT_MASK_GEOFENCE_BATCH_BREACH_NOTIFICATION_V02'', 0x00400000),
    (''QMI_LOC_EVENT_MASK_VEHICLE_DATA_READY_STATUS_V02'', 0x00800000),
    (''QMI_LOC_EVENT_MASK_GNSS_MEASUREMENT_REPORT_V02'', 0x01000000),
    (''QMI_LOC_EVENT_MASK_GNSS_SV_POLYNOMIAL_REPORT_V02'', 0x02000000),
    (''QMI_LOC_EVENT_MASK_GEOFENCE_PROXIMITY_NOTIFICATION_V02'', 0x04000000),
    (''QMI_LOC_EVENT_MASK_GDT_UPLOAD_BEGIN_REQ_V02'', 0x08000000),
    (''QMI_LOC_EVENT_MASK_GDT_UPLOAD_END_REQ_V02'', 0x10000000),
    (''QMI_LOC_EVENT_MASK_GEOFENCE_BATCH_DWELL_NOTIFICATION_V02'', 0x20000000),
    (''QMI_LOC_EVENT_MASK_GET_TIME_ZONE_REQ_V02'', 0x40000000),
    (''QMI_LOC_EVENT_MASK_BATCHING_STATUS_V02'', 0x80000000),
    (''QMI_LOC_EVENT_MASK_INTERNAL_STATUS_REPORT_V02'', 0x100000000),
    (''QMI_LOC_EVENT_MASK_INJECT_SRN_AP_DATA_REQ_V02'', 0x200000000),
    (''QMI_LOC_EVENT_MASK_GNSS_ONLY_POSITION_REPORT_V02'', 0x400000000),
    (''QMI_LOC_EVENT_MASK_FDCL_SERVICE_REQ_V02'', 0x800000000),
    (''QMI_LOC_EVENT_MASK_DC_REPORT_V02'', 0x1000000000),
    (''QMI_LOC_EVENT_MASK_ENGINE_LOCK_STATE_V02'', 0x2000000000),
    (''QMI_LOC_EVENT_MASK_UNPROPAGATED_POSITION_REPORT_V02'', 0x4000000000),
    (''QMI_LOC_EVENT_MASK_BS_OBS_DATA_SERVICE_REQ_V02'', 0x8000000000),
    (''QMI_LOC_EVENT_MASK_EPHEMERIS_REPORT_V02'', 0x10000000000),
    (''QMI_LOC_EVENT_MASK_NEXT_LS_INFO_REPORT_V02'', 0x20000000000),
    (''QMI_LOC_EVENT_MASK_GET_BAND_MEASUREMENT_METRICS_V02'', 0x40000000000),
    (''QMI_LOC_EVENT_MASK_GNSS_NHZ_MEASUREMENT_REPORT_V02'', 0x80000000000),
    (''QMI_LOC_EVENT_MASK_GNSS_EVENT_REPORT_V02'', 0x100000000000),
    (''QMI_LOC_EVENT_MASK_QUERY_XTRA_INFO_V02'', 0x200000000000),
    (''QMI_LOC_EVENT_MASK_SAP_INS_PARAMETERS_REPORT_V02'', 0x400000000000),
    (''QMI_LOC_EVENT_MASK_LATENCY_INFORMATION_REPORT_V02'', 0x800000000000),
    (''QMI_LOC_EVENT_MASK_PLATFORM_POWER_STATE_CHANGED_V02'', 0x0001000000000000),
    (''QMI_LOC_EVENT_MASK_ENGINE_DEBUG_DATA_REPORT_V02'', 0x0002000000000000),
    (''QMI_LOC_EVENT_MASK_FEATURE_STATUS_V02'', 0x0004000000000000),
    (''QMI_LOC_EVENT_MASK_GNSS_BANDS_SUPPORTED_V02'', 0x0008000000000000),
    (''QMI_LOC_EVENT_MASK_NTN_CONFIG_UPDATE_V02'', 0x0010000000000000),
    (''QMI_LOC_EVENT_MASK_DBH_POSITION_V02'', 0x0020000000000000),
    (''QMI_LOC_EVENT_DWELL_TIME_ALIGNMENT_INFO_V02'', 0x0040000000000000)]"

definition event_flag :: "string \<Rightarrow> int" where
  "event_flag n = (case map_of qmiLocEventRegMaskT_v02_flags n of None \<Rightarrow> 0 | Some v \<Rightarrow> v)"

definition event_bit :: "string \<Rightarrow> 64 word" where
  "event_bit n = word_of_int (event_flag n)"

fun event_bits :: "string list \<Rightarrow> 64 word" where
  "event_bits [] = 0"
| "event_bits (n # ns) = event_bit n OR event_bits ns"

definition eQMI_LOC_SUCCESS_V02 :: int where
  "eQMI_LOC_SUCCESS_V02 = enumerator qmiLocStatusEnumT_v02 ''eQMI_LOC_SUCCESS_V02''"
definition eQMI_LOC_ENGINE_BUSY_V02 :: int where
  "eQMI_LOC_ENGINE_BUSY_V02 = enumerator qmiLocStatusEnumT_v02 ''eQMI_LOC_ENGINE_BUSY_V02''"

definition power_state :: "string \<Rightarrow> int" where
  "power_state = enumerator qmiLocPlatformPowerStateEnumT_v02"

lemma status_values [simp]: "eQMI_LOC_SUCCESS_V02 = 0" "eQMI_LOC_ENGINE_BUSY_V02 = 4"
  by (simp_all add: eQMI_LOC_SUCCESS_V02_def eQMI_LOC_ENGINE_BUSY_V02_def enumerator_def
      qmiLocStatusEnumT_v02_def)

section \<open>State\<close>

text \<open>A request with the identifier of the indication that answers it, and its time-out in
  milliseconds. \<open>None\<close> is a null pointer to the payload.\<close>

record request =
  req_msg :: int
  req_payload :: "struct option"
  req_timeout :: nat
  req_ind :: int

definition LOC_ENGINE_SYNC_REQUEST_TIMEOUT :: nat where "LOC_ENGINE_SYNC_REQUEST_TIMEOUT = 1000"
definition LOC_ENGINE_SYNC_REQUEST_LONG_TIMEOUT :: nat where "LOC_ENGINE_SYNC_REQUEST_LONG_TIMEOUT = 5000"

datatype BatchingMode = BATCHING_MODE_ROUTINE | BATCHING_MODE_TRIP | BATCHING_MODE_other int

text \<open>The calls on the base class, and what the adapter tells those who asked it for something.\<close>

datatype base_call =
  Base_reportEngineLockStatus int
| Base_reportQwesCapabilities "(string \<times> bool) list"
| Base_reportStatus int
| Base_handleEngineDownEvent
| Base_requestTime
| Base_reportLocations "struct list" BatchingMode
| Base_reportCompletedTrips "32 word"
| Base_handleBatchStatusEvent int
| Base_geofenceBreach "32 word list" struct int int
| Base_geofenceStatus int
| Base_reportGnssSvIdConfig struct
| Base_reportGnssSvTypeConfig struct
| Base_returnToSender int
| Base_reportGnssEngEnergyConsumedEvent int
| Base_returnGeofence int "32 word option"
| Base_returnDistance int "(32 word \<times> 32 word) option"

text \<open>What \<open>ContextBase\<close> was told of the engine: the supported messages, the list of features (\<open>None\<close>
  a null pointer), and whether measurements are supported.\<close>

type_synonym capabilities = "64 word \<times> int list option \<times> bool"

record 'w adapter =
  loc_client_state :: "'w loc_client"
  clientHandle :: addr
  mMask :: "64 word"
  mNmeaMask :: "32 word"
  mQmiMask :: "64 word"
  mInSession :: bool
  mPowerMode :: int
  mEngineOn :: bool
  mFirstMeasurementOfSessionReceived :: bool
  mResenders :: "request list"
  mMasterRegisterNotSupported :: bool
  mMinInterval :: "32 word"
  mPlatformPowerState :: int
  mBatchSize :: "64 word"
  mDesiredBatchSize :: "64 word"
  mTripBatchSize :: "64 word"
  mDesiredTripBatchSize :: "64 word"
  mIsFirstFinalFixReported :: bool
  mPreferredSvSystemType :: int
  engineLockState :: int
  engine_capabilities :: "capabilities option"
  support_statics :: support_cache
  requests_sent :: "request list"
  base_calls :: "base_call list"

text \<open>What is outside. \<open>sync_send\<close> is a synchronous request from start to end: its status, and the
  indication, stored over a cleared struct if one came.\<close>

record 'w adapter_env =
  qmi_library :: "'w qmi_env"
  emulator_config :: int
  target :: targetGnssType
  sync_send :: "addr \<Rightarrow> request \<Rightarrow> 'w loc_client
    \<Rightarrow> ((locClientStatusEnumType \<times> struct) \<times> 'w loc_client) outcome"
  ask_supported :: "nat \<Rightarrow> 'w \<Rightarrow> int \<times> supported_resp \<times> 'w"
  hal :: hal_values
  built_for_android :: bool
  isMaster :: bool
  mExcludedMask :: "64 word"
  gnssConstellationConfig :: bool
  isMessageSupported :: "capabilities option \<Rightarrow> string \<Rightarrow> bool"
  isFeatureSupported :: "capabilities option \<Rightarrow> string \<Rightarrow> bool"
  globalCallbacks :: locClientCallbacksType
  this_address :: addr

type_synonym ('w, 'a) adapter_op = "'w adapter \<Rightarrow> ('a \<times> 'w adapter) outcome"

definition after :: "('w, 'a) adapter_op \<Rightarrow> ('a \<Rightarrow> ('w, 'b) adapter_op) \<Rightarrow> ('w, 'b) adapter_op" where
  "after m k a = andthen (m a) (\<lambda>(x, a'). k x a')"

definition gives :: "'a \<Rightarrow> ('w, 'a) adapter_op" where
  "gives x a = Returns (x, a)"

definition changes :: "('w adapter \<Rightarrow> 'w adapter) \<Rightarrow> ('w, unit) adapter_op" where
  "changes f a = Returns ((), f a)"

definition calls_base :: "base_call \<Rightarrow> ('w, unit) adapter_op" where
  "calls_base c = changes (\<lambda>a. a\<lparr>base_calls := base_calls a @ [c]\<rparr>)"

text \<open>The constructor, on a client that may already have served others; \<open>statics\<close> are the static variables of
  \<open>locClientSupportMsgCheck\<close>.\<close>

definition LocApiV02_new :: "'w adapter_env \<Rightarrow> support_cache \<Rightarrow> 'w loc_client \<Rightarrow> 'w adapter" where
  "LocApiV02_new env statics c = \<lparr>loc_client_state = c, clientHandle = 0, mMask = 0, mNmeaMask = 0, mQmiMask = 0,
     mInSession = False, mPowerMode = hal env ''GNSS_POWER_MODE_DEFAULT'', mEngineOn = False,
     mFirstMeasurementOfSessionReceived = False, mResenders = [], mMasterRegisterNotSupported = False,
     mMinInterval = 1000, mPlatformPowerState = power_state ''eQMI_LOC_POWER_STATE_UNKNOWN_V02'',
     mBatchSize = 0, mDesiredBatchSize = 0, mTripBatchSize = 0, mDesiredTripBatchSize = 0,
     mIsFirstFinalFixReported = False, mPreferredSvSystemType = hal env ''GNSS_SV_TYPE_UNKNOWN'',
     engineLockState = hal env ''ENGINE_LOCK_STATE_INVALID'', engine_capabilities = None,
     support_statics = statics, requests_sent = [], base_calls = []\<rparr>"

section \<open>Requests\<close>

definition loc_sync_send :: "'w adapter_env \<Rightarrow> request \<Rightarrow> ('w, locClientStatusEnumType \<times> struct) adapter_op" where
  "loc_sync_send env r a =
     andthen (sync_send env (clientHandle a) r (loc_client_state a)) (\<lambda>(answer, c).
     Returns (answer, a\<lparr>loc_client_state := c, requests_sent := requests_sent a @ [r]\<rparr>))"

definition register_mask :: "'w adapter_env \<Rightarrow> 64 word \<Rightarrow> ('w, bool) adapter_op" where
  "register_mask env m a =
     andthen (locClientRegisterEventMask (qmi_library env) (clientHandle a) m (isMaster env) (loc_client_state a))
       (\<lambda>(ok, c). Returns (ok, a\<lparr>loc_client_state := c\<rparr>))"

definition resumed :: "'w adapter \<Rightarrow> bool" where
  "resumed a \<longleftrightarrow> mPlatformPowerState a = power_state ''eQMI_LOC_POWER_STATE_RESUME_V02'' \<or>
     mPlatformPowerState a = power_state ''eQMI_LOC_POWER_STATE_DEEP_SLEEP_EXIT_V02''"

text \<open>The status of an indication is read from its first four bytes, whatever the indication is. Of those the
  adapter waits for, one does not begin with a status.\<close>

definition ind_status :: "request \<Rightarrow> struct \<Rightarrow> int" where
  "ind_status r ind = (if req_ind r = QMI_LOC_QUERY_GNSS_ENERGY_CONSUMED_IND_V02
     then sint (word_of_int (num (ind ''energyConsumedSinceLastBoot'')) :: 32 word)
     else num (ind ''status''))"

definition engine_busy :: "request \<Rightarrow> locClientStatusEnumType \<times> struct \<Rightarrow> bool" where
  "engine_busy r answer \<longleftrightarrow> fst answer = eLOC_CLIENT_FAILURE_ENGINE_BUSY \<or>
     (fst answer = eLOC_CLIENT_SUCCESS \<and> ind_status r (snd answer) = eQMI_LOC_ENGINE_BUSY_V02)"

text \<open>The copy of a request that is kept to be sent again: its payload if \<open>validateRequest\<close> finds one. If
  there is no memory for the copy, the request is dropped.\<close>

definition kept_request :: "'w adapter_env \<Rightarrow> request \<Rightarrow> 'w adapter \<Rightarrow> request list" where
  "kept_request env r a =
     (case validateRequest (req_msg r) (req_payload r) of
        Some (Some p, _) \<Rightarrow>
          if malloc_fails (qmi_library env) (qmi (loc_client_state a)) then [] else [r\<lparr>req_payload := Some p\<rparr>]
      | _ \<Rightarrow> [r\<lparr>req_payload := None\<rparr>])"

definition keep_request :: "'w adapter_env \<Rightarrow> request \<Rightarrow> ('w, unit) adapter_op" where
  "keep_request env r a =
     (let engine = event_bit ''QMI_LOC_EVENT_MASK_ENGINE_STATE_V02'' in
      after (if resumed a \<and> mResenders a = [] \<and> mQmiMask a AND engine = 0
             then register_mask env (mQmiMask a OR engine) else gives True)
        (\<lambda>_. changes (\<lambda>a1. a1\<lparr>mResenders := mResenders a1 @ kept_request env r a1\<rparr>)) a)"

definition locSyncSendReq :: "'w adapter_env \<Rightarrow> request \<Rightarrow> ('w, locClientStatusEnumType \<times> struct) adapter_op" where
  "locSyncSendReq env r =
     after (loc_sync_send env r) (\<lambda>answer.
     if engine_busy r answer then after (keep_request env r) (\<lambda>_. gives answer) else gives answer)"

text \<open>\<open>LOC_SEND_SYNC_REQ\<close>: the request with its indication, and whether both succeeded.\<close>

definition answered_well :: "locClientStatusEnumType \<times> struct \<Rightarrow> bool" where
  "answered_well answer \<longleftrightarrow>
     fst answer = eLOC_CLIENT_SUCCESS \<and> num (snd answer ''status'') = eQMI_LOC_SUCCESS_V02"

definition sync_request :: "int \<Rightarrow> int \<Rightarrow> struct \<Rightarrow> request" where
  "sync_request msg ind p = \<lparr>req_msg = msg, req_payload = Some p,
     req_timeout = LOC_ENGINE_SYNC_REQUEST_TIMEOUT, req_ind = ind\<rparr>"

definition LOC_SEND_SYNC_REQ :: "'w adapter_env \<Rightarrow> int \<Rightarrow> int \<Rightarrow> struct \<Rightarrow> ('w, bool \<times> struct) adapter_op" where
  "LOC_SEND_SYNC_REQ env msg ind p =
     after (locSyncSendReq env (sync_request msg ind p)) (\<lambda>answer. gives (answered_well answer, snd answer))"

section \<open>Requests without a wait\<close>

text \<open>The bytes of a struct, padding included.\<close>

fun to_bytes :: "cty \<Rightarrow> cval \<Rightarrow> 8 word list" and member_bytes :: "int \<Rightarrow> (string \<times> cty) list \<Rightarrow> struct \<Rightarrow> 8 word list" where
  "to_bytes (CPrim p) v = le_bytes (nat (prim_size p)) (word_of_int (num v) :: 64 word)"
| "to_bytes (CEnum es) v = le_bytes 4 (word_of_int (num v) :: 64 word)"
| "to_bytes (CArr t n) v = concat (map (\<lambda>i. to_bytes t (if i < length (elements v) then elements v ! i else Unset)) [0..<nat n])"
| "to_bytes (CStruct fs) v =
     member_bytes 0 fs (obj v) @ replicate (nat (csize (CStruct fs) - fend 0 fs)) 0"
| "member_bytes p [] s = []"
| "member_bytes p ((f, t) # fs) s =
     replicate (nat (align_up p (calign t) - p)) 0 @ to_bytes t (s f) @
     member_bytes (align_up p (calign t) + csize t) fs s"

definition send_request :: "'w adapter_env \<Rightarrow> int \<Rightarrow> (cty \<times> struct) option \<Rightarrow> ('w, locClientStatusEnumType) adapter_op" where
  "send_request env msg p a =
     andthen (locClientSendReq (qmi_library env) (clientHandle a) msg
         (map_option (\<lambda>(t, s). to_bytes t (Obj s)) p) (loc_client_state a))
       (\<lambda>(status, c). Returns (status, a\<lparr>loc_client_state := c\<rparr>))"

end
