(* ===== verification/AdapterEvents.thy ===== *)
theory AdapterEvents
  imports AdapterState
begin

text \<open>
  Which events the adapter registers for, in \<open>loc_api/loc_api_v02/LocApiV02.cpp\<close>: the events the HAL asks
  for are converted to those of the service and adjusted to whether there is a session, to the state
  of the platform and to the requests that wait for the engine. What the base class posts to its
  thread runs as one step.
\<close>

section \<open>The mask\<close>

definition convertLocClientEventMask_flags :: "'w adapter_env \<Rightarrow> capabilities option \<Rightarrow> (int \<times> int) list" where
  "convertLocClientEventMask_flags env caps = map (\<lambda>(f, ev). (hal env f, event_flag ev)) [
     (''LOC_API_ADAPTER_BIT_PARSED_POSITION_REPORT'', ''QMI_LOC_EVENT_MASK_POSITION_REPORT_V02''),
     (''LOC_API_ADAPTER_BIT_PARSED_UNPROPAGATED_POSITION_REPORT'', ''QMI_LOC_EVENT_MASK_UNPROPAGATED_POSITION_REPORT_V02''),
     (''LOC_API_ADAPTER_BIT_SATELLITE_REPORT'', ''QMI_LOC_EVENT_MASK_GNSS_SV_INFO_V02''),
     (''LOC_API_ADAPTER_BIT_NMEA_POSITION_REPORT'', ''QMI_LOC_EVENT_MASK_NMEA_V02''),
     (''LOC_API_ADAPTER_BIT_NMEA_1HZ_REPORT'', ''QMI_LOC_EVENT_MASK_NMEA_V02''),
     (''LOC_API_ADAPTER_BIT_NI_NOTIFY_VERIFY_REQUEST'', ''QMI_LOC_EVENT_MASK_NI_NOTIFY_VERIFY_REQ_V02''),
     (''LOC_API_ADAPTER_BIT_ASSISTANCE_DATA_REQUEST'', ''QMI_LOC_EVENT_MASK_INJECT_PREDICTED_ORBITS_REQ_V02''),
     (''LOC_API_ADAPTER_BIT_ASSISTANCE_DATA_REQUEST'', ''QMI_LOC_EVENT_MASK_QUERY_XTRA_INFO_V02''),
     (''LOC_API_ADAPTER_BIT_ASSISTANCE_TIME_REQUEST'', ''QMI_LOC_EVENT_MASK_INJECT_TIME_REQ_V02''),
     (''LOC_API_ADAPTER_BIT_ASSISTANCE_TIME_REQUEST'', ''QMI_LOC_EVENT_MASK_QUERY_XTRA_INFO_V02''),
     (''LOC_API_ADAPTER_BIT_POSITION_INJECTION_REQUEST'', ''QMI_LOC_EVENT_MASK_INJECT_POSITION_REQ_V02''),
     (''LOC_API_ADAPTER_BIT_STATUS_REPORT'', ''QMI_LOC_EVENT_MASK_ENGINE_STATE_V02''),
     (''LOC_API_ADAPTER_BIT_LOCATION_SERVER_REQUEST'', ''QMI_LOC_EVENT_MASK_LOCATION_SERVER_CONNECTION_REQ_V02''),
     (''LOC_API_ADAPTER_BIT_REQUEST_WIFI'', ''QMI_LOC_EVENT_MASK_WIFI_REQ_V02''),
     (''LOC_API_ADAPTER_BIT_SENSOR_STATUS'', ''QMI_LOC_EVENT_MASK_SENSOR_STREAMING_READY_STATUS_V02''),
     (''LOC_API_ADAPTER_BIT_REQUEST_TIME_SYNC'', ''QMI_LOC_EVENT_MASK_TIME_SYNC_REQ_V02''),
     (''LOC_API_ADAPTER_BIT_REPORT_SPI'', ''QMI_LOC_EVENT_MASK_SET_SPI_STREAMING_REPORT_V02''),
     (''LOC_API_ADAPTER_BIT_REPORT_NI_GEOFENCE'', ''QMI_LOC_EVENT_MASK_NI_GEOFENCE_NOTIFICATION_V02''),
     (''LOC_API_ADAPTER_BIT_GEOFENCE_GEN_ALERT'', ''QMI_LOC_EVENT_MASK_GEOFENCE_GEN_ALERT_V02''),
     (''LOC_API_ADAPTER_BIT_REPORT_GENFENCE_BREACH'', ''QMI_LOC_EVENT_MASK_GEOFENCE_BREACH_NOTIFICATION_V02''),
     (''LOC_API_ADAPTER_BIT_BATCHED_GENFENCE_BREACH_REPORT'',
       if isMessageSupported env caps ''LOC_API_ADAPTER_MESSAGE_BATCHED_GENFENCE_BREACH''
       then ''QMI_LOC_EVENT_MASK_GEOFENCE_BATCH_BREACH_NOTIFICATION_V02''
       else ''QMI_LOC_EVENT_MASK_GEOFENCE_BREACH_NOTIFICATION_V02''),
     (''LOC_API_ADAPTER_BIT_PEDOMETER_CTRL'', ''QMI_LOC_EVENT_MASK_PEDOMETER_CONTROL_V02''),
     (''LOC_API_ADAPTER_BIT_REPORT_GENFENCE_DWELL'', ''QMI_LOC_EVENT_MASK_GEOFENCE_BATCH_DWELL_NOTIFICATION_V02''),
     (''LOC_API_ADAPTER_BIT_MOTION_CTRL'', ''QMI_LOC_EVENT_MASK_MOTION_DATA_CONTROL_V02''),
     (''LOC_API_ADAPTER_BIT_REQUEST_WIFI_AP_DATA'', ''QMI_LOC_EVENT_MASK_INJECT_WIFI_AP_DATA_REQ_V02''),
     (''LOC_API_ADAPTER_BIT_BATCH_FULL'', ''QMI_LOC_EVENT_MASK_BATCH_FULL_NOTIFICATION_V02''),
     (''LOC_API_ADAPTER_BIT_BATCH_STATUS'', ''QMI_LOC_EVENT_MASK_BATCHING_STATUS_V02''),
     (''LOC_API_ADAPTER_BIT_BATCHED_POSITION_REPORT'', ''QMI_LOC_EVENT_MASK_LIVE_BATCHED_POSITION_REPORT_V02''),
     (''LOC_API_ADAPTER_BIT_GNSS_MEASUREMENT_REPORT'', ''QMI_LOC_EVENT_MASK_GNSS_MEASUREMENT_REPORT_V02''),
     (''LOC_API_ADAPTER_BIT_GNSS_SV_POLYNOMIAL_REPORT'', ''QMI_LOC_EVENT_MASK_GNSS_SV_POLYNOMIAL_REPORT_V02''),
     (''LOC_API_ADAPTER_BIT_GNSS_SV_EPHEMERIS_REPORT'', ''QMI_LOC_EVENT_MASK_EPHEMERIS_REPORT_V02''),
     (''LOC_API_ADAPTER_BIT_GDT_UPLOAD_BEGIN_REQ'', ''QMI_LOC_EVENT_MASK_GDT_UPLOAD_BEGIN_REQ_V02''),
     (''LOC_API_ADAPTER_BIT_GDT_UPLOAD_END_REQ'', ''QMI_LOC_EVENT_MASK_GDT_UPLOAD_END_REQ_V02''),
     (''LOC_API_ADAPTER_BIT_GNSS_MEASUREMENT'', ''QMI_LOC_EVENT_MASK_GNSS_MEASUREMENT_REPORT_V02''),
     (''LOC_API_ADAPTER_BIT_REQUEST_TIMEZONE'', ''QMI_LOC_EVENT_MASK_GET_TIME_ZONE_REQ_V02''),
     (''LOC_API_ADAPTER_BIT_FDCL_SERVICE_REQ'', ''QMI_LOC_EVENT_MASK_FDCL_SERVICE_REQ_V02''),
     (''LOC_API_ADAPTER_BIT_BS_OBS_DATA_SERVICE_REQ'', ''QMI_LOC_EVENT_MASK_BS_OBS_DATA_SERVICE_REQ_V02''),
     (''LOC_API_ADAPTER_BIT_LOC_SYSTEM_INFO'', ''QMI_LOC_EVENT_MASK_NEXT_LS_INFO_REPORT_V02''),
     (''LOC_API_ADAPTER_BIT_LOC_SYSTEM_INFO'', ''QMI_LOC_EVENT_DWELL_TIME_ALIGNMENT_INFO_V02''),
     (''LOC_API_ADAPTER_BIT_EVENT_REPORT_INFO'', ''QMI_LOC_EVENT_MASK_GNSS_EVENT_REPORT_V02''),
     (''LOC_API_ADAPTER_BIT_GNSS_NHZ_MEASUREMENT'', ''QMI_LOC_EVENT_MASK_GNSS_NHZ_MEASUREMENT_REPORT_V02''),
     (''LOC_API_ADAPTER_BIT_LATENCY_INFORMATION'', ''QMI_LOC_EVENT_MASK_LATENCY_INFORMATION_REPORT_V02''),
     (''LOC_API_ADAPTER_BIT_ENGINE_DEBUG_DATA_REPORT'', ''QMI_LOC_EVENT_MASK_ENGINE_DEBUG_DATA_REPORT_V02''),
     (''LOC_API_ADAPTER_BIT_DISASTER_CRISIS_REPORT'', ''QMI_LOC_EVENT_MASK_DC_REPORT_V02''),
     (''LOC_API_ADAPTER_BIT_ENGINE_LOCK_STATE_DATA_REPORT'', ''QMI_LOC_EVENT_MASK_ENGINE_LOCK_STATE_V02''),
     (''LOC_API_ADAPTER_BIT_FEATURE_STATUS_UPDATE'', ''QMI_LOC_EVENT_MASK_FEATURE_STATUS_V02''),
     (''LOC_API_ADAPTER_BIT_GNSS_BANDS_SUPPORTED'', ''QMI_LOC_EVENT_MASK_GNSS_BANDS_SUPPORTED_V02''),
     (''LOC_API_ADAPTER_BIT_NTN_CONFIG_UPDATE'', ''QMI_LOC_EVENT_MASK_NTN_CONFIG_UPDATE_V02'')]"

definition convertLocClientEventMask :: "'w adapter_env \<Rightarrow> capabilities option \<Rightarrow> 64 word \<Rightarrow> 64 word" where
  "convertLocClientEventMask env caps m = copy_flags (convertLocClientEventMask_flags env caps) m"

text \<open>The events that are only wanted in a session.\<close>

definition session_events :: "'w adapter_env \<Rightarrow> capabilities option \<Rightarrow> 64 word" where
  "session_events env caps = event_bits
     ([''QMI_LOC_EVENT_MASK_POSITION_REPORT_V02'', ''QMI_LOC_EVENT_MASK_UNPROPAGATED_POSITION_REPORT_V02'',
       ''QMI_LOC_EVENT_MASK_GNSS_SV_INFO_V02'', ''QMI_LOC_EVENT_MASK_NMEA_V02'',
       ''QMI_LOC_EVENT_MASK_ENGINE_STATE_V02'', ''QMI_LOC_EVENT_MASK_GNSS_MEASUREMENT_REPORT_V02'',
       ''QMI_LOC_EVENT_MASK_GNSS_NHZ_MEASUREMENT_REPORT_V02'', ''QMI_LOC_EVENT_MASK_GNSS_SV_POLYNOMIAL_REPORT_V02'',
       ''QMI_LOC_EVENT_MASK_EPHEMERIS_REPORT_V02''] @
      (if built_for_android env then [''QMI_LOC_EVENT_MASK_NEXT_LS_INFO_REPORT_V02''] else []) @
      [''QMI_LOC_EVENT_MASK_LATENCY_INFORMATION_REPORT_V02'', ''QMI_LOC_EVENT_MASK_ENGINE_DEBUG_DATA_REPORT_V02''] @
      (if isFeatureSupported env caps ''LOC_SUPPORTED_FEATURE_DYNAMIC_FEATURE_STATUS''
       then [''QMI_LOC_EVENT_MASK_GNSS_EVENT_REPORT_V02''] else []))"

definition suspended :: "'w adapter \<Rightarrow> bool" where
  "suspended a \<longleftrightarrow> mPlatformPowerState a = power_state ''eQMI_LOC_POWER_STATE_SUSPENDED_V02'' \<or>
     mPlatformPowerState a = power_state ''eQMI_LOC_POWER_STATE_SHUTDOWN_V02'' \<or>
     mPlatformPowerState a = power_state ''eQMI_LOC_POWER_STATE_DEEP_SLEEP_ENTRY_V02''"

text \<open>The events that would wake the device.\<close>

definition waking_events :: "64 word" where
  "waking_events = event_bits [''QMI_LOC_EVENT_MASK_ENGINE_STATE_V02'',
     ''QMI_LOC_EVENT_MASK_NEXT_LS_INFO_REPORT_V02'', ''QMI_LOC_EVENT_DWELL_TIME_ALIGNMENT_INFO_V02'']"

definition adjustLocClientEventMask :: "'w adapter_env \<Rightarrow> 'w adapter \<Rightarrow> 64 word \<Rightarrow> 64 word" where
  "adjustLocClientEventMask env a m =
     (let engine = event_bit ''QMI_LOC_EVENT_MASK_ENGINE_STATE_V02'';
          m1 = (if mInSession a then m else m AND NOT (session_events env (engine_capabilities a)));
          m2 = (if built_for_android env \<and> (mInSession a \<or> mEngineOn a) then m1 OR engine else m1);
          m3 = (if isMaster env then m2 OR event_bit ''QMI_LOC_EVENT_MASK_FEATURE_STATUS_V02'' else m2);
          m4 = m3 OR event_bit ''QMI_LOC_EVENT_MASK_PLATFORM_POWER_STATE_CHANGED_V02'' in
      if suspended a then m4 AND NOT waking_events
      else if mResenders a \<noteq> [] then m4 OR engine
      else m4)"

text \<open>The mask that is right for the state.\<close>

definition wanted_mask :: "'w adapter_env \<Rightarrow> 'w adapter \<Rightarrow> 64 word" where
  "wanted_mask env a = adjustLocClientEventMask env a
     (convertLocClientEventMask env (engine_capabilities a) (mMask a))"

section \<open>Registering\<close>

definition measurement_events :: "64 word" where
  "measurement_events = event_bits [''QMI_LOC_EVENT_MASK_GNSS_MEASUREMENT_REPORT_V02'',
     ''QMI_LOC_EVENT_MASK_GNSS_NHZ_MEASUREMENT_REPORT_V02'']"

definition eQMI_SYSTEM :: "(string \<times> int) list" where
  "eQMI_SYSTEM = [(''eQMI_SYSTEM_GPS_V02'', 0x01), (''eQMI_SYSTEM_GLO_V02'', 0x02),
     (''eQMI_SYSTEM_BDS_V02'', 0x04), (''eQMI_SYSTEM_GAL_V02'', 0x08), (''eQMI_SYSTEM_QZSS_V02'', 0x10),
     (''eQMI_SYSTEM_NAVIC_V02'', 0x20)]"

definition all_systems :: int where
  "all_systems = uint (all_flags (map snd eQMI_SYSTEM) :: 64 word)"

definition const_rep_config :: "64 word \<Rightarrow> bool \<Rightarrow> struct" where
  "const_rep_config m everything =
     (let p0 = fresh(''measReportConfig_valid'' := Num 1, ''svPolyReportConfig_valid'' := Num 1);
          p1 = (if m AND measurement_events \<noteq> 0 \<or> everything
                then p0(''measReportConfig'' := Num all_systems) else p0) in
      if m AND event_bit ''QMI_LOC_EVENT_MASK_GNSS_SV_POLYNOMIAL_REPORT_V02'' \<noteq> 0
      then p1(''svPolyReportConfig'' := Num all_systems) else p1)"

definition setSvMeasurementConstellation :: "'w adapter_env \<Rightarrow> 64 word \<Rightarrow> ('w, bool) adapter_op" where
  "setSvMeasurementConstellation env m a =
     after (locSyncSendReq env (sync_request QMI_LOC_SET_GNSS_CONSTELL_REPORT_CONFIG_V02
         QMI_LOC_SET_GNSS_CONSTELL_REPORT_CONFIG_IND_V02 (const_rep_config m (mMasterRegisterNotSupported a))))
       (\<lambda>(status, ind). gives (status = eLOC_CLIENT_SUCCESS \<and>
          (num (ind ''status'') = eQMI_LOC_SUCCESS_V02 \<or> num (ind ''status'') = eQMI_LOC_ENGINE_BUSY_V02))) a"

definition wifiStatusInformSync :: "'w adapter_env \<Rightarrow> ('w, unit) adapter_op" where
  "wifiStatusInformSync env =
     after (LOC_SEND_SYNC_REQ env QMI_LOC_NOTIFY_WIFI_STATUS_REQ_V02 QMI_LOC_NOTIFY_WIFI_STATUS_IND_V02
       (fresh(''wifiStatus'' := Num (enumerator qmiLocWifiStatusEnumT_v02 ''eQMI_LOC_WIFI_STATUS_AVAILABLE_V02''))))
     (\<lambda>_. gives ())"

text \<open>What a new mask brings with it, after the service has accepted it.\<close>

definition mask_changed :: "'w adapter_env \<Rightarrow> 64 word \<Rightarrow> 64 word \<Rightarrow> ('w, unit) adapter_op" where
  "mask_changed env qmiMask old =
     (let maskDiff = qmiMask XOR old in
      after (if maskDiff AND qmiMask AND event_bit ''QMI_LOC_EVENT_MASK_WIFI_REQ_V02'' \<noteq> 0
             then wifiStatusInformSync env else gives ()) (\<lambda>_.
      after (if isMaster env \<and> maskDiff AND event_bit ''QMI_LOC_EVENT_MASK_GNSS_SV_POLYNOMIAL_REPORT_V02'' \<noteq> 0
             then setSvMeasurementConstellation env
               (if gnssConstellationConfig env then qmiMask OR measurement_events
                else qmiMask AND NOT measurement_events)
             else gives True) (\<lambda>_.
      changes (\<lambda>a. a\<lparr>mQmiMask := qmiMask\<rparr>))))"

definition registerEventMask :: "'w adapter_env \<Rightarrow> ('w, unit) adapter_op" where
  "registerEventMask env a =
     (let qmiMask = wanted_mask env a in
      if qmiMask = mQmiMask a then gives () a
      else after (register_mask env qmiMask)
        (\<lambda>ok. if ok then mask_changed env qmiMask (mQmiMask a) else gives ()) a)"

section \<open>Opening and closing\<close>

definition eQMI_LOC_REGISTER_MASTER_CLIENT_SUCCESS_V02 :: int where
  "eQMI_LOC_REGISTER_MASTER_CLIENT_SUCCESS_V02 =
     enumerator qmiLocRegisterMasterClientStatusEnumT_v02 ''eQMI_LOC_REGISTER_MASTER_CLIENT_SUCCESS_V02''"

definition registerMasterClient :: "'w adapter_env \<Rightarrow> ('w, unit) adapter_op" where
  "registerMasterClient env =
     after (locSyncSendReq env (sync_request QMI_LOC_REGISTER_MASTER_CLIENT_REQ_V02
         QMI_LOC_REGISTER_MASTER_CLIENT_IND_V02 (fresh(''key'' := Num 0xBAABCDEF))))
       (\<lambda>(status, ind).
         if status \<noteq> eLOC_CLIENT_SUCCESS \<or> num (ind ''status'') \<noteq> eQMI_LOC_REGISTER_MASTER_CLIENT_SUCCESS_V02
         then changes (\<lambda>a. a\<lparr>mMasterRegisterNotSupported :=
           status = eLOC_CLIENT_FAILURE_INVALID_MESSAGE_ID \<or> status = eLOC_CLIENT_FAILURE_UNSUPPORTED\<rparr>)
         else gives ())"

definition cacheGnssMeasurementSupport :: "'w adapter_env \<Rightarrow> ('w, bool) adapter_op" where
  "cacheGnssMeasurementSupport env = setSvMeasurementConstellation env measurement_events"

definition convertEngineLockState :: "'w adapter_env \<Rightarrow> int \<Rightarrow> int" where
  "convertEngineLockState env s =
     (if s = enumerator qmiLocEngineLockStateEnumT_v02 ''eQMI_LOC_ENGINE_LOCK_STATE_ENABLED_V02''
      then hal env ''ENGINE_LOCK_STATE_ENABLED''
      else if s = enumerator qmiLocEngineLockStateEnumT_v02 ''eQMI_LOC_ENGINE_LOCK_STATE_DISABLED_V02''
      then hal env ''ENGINE_LOCK_STATE_DISABLED''
      else hal env ''ENGINE_LOCK_STATE_INVALID'')"

definition getEngineLockStateSync :: "'w adapter_env \<Rightarrow> ('w, unit) adapter_op" where
  "getEngineLockStateSync env =
     after (locSyncSendReq env (sync_request QMI_LOC_GET_ENGINE_LOCK_REQ_V02 QMI_LOC_GET_ENGINE_LOCK_IND_V02
         (fresh(''subType_valid'' := Num 1,
            ''subType'' := Num (enumerator qmiLocLockSubInfoEnumT_v02 ''eQMI_LOC_LOCK_ALL_SUB_V02'')))))
       (\<lambda>(status, ind).
         let ret = (if answered_well (status, ind) \<and> num (ind ''engineLockState_valid'') \<noteq> 0
                    then num (ind ''engineLockState'')
                    else enumerator qmiLocEngineLockStateEnumT_v02 ''QMILOCENGINELOCKSTATEENUMT_MIN_ENUM_VAL_V02'');
             lockState = convertEngineLockState env ret in
         after (changes (\<lambda>a. a\<lparr>engineLockState := lockState\<rparr>))
           (\<lambda>_. calls_base (Base_reportEngineLockStatus lockState)))"

definition flag_value :: "(string \<times> int) list \<Rightarrow> string \<Rightarrow> int" where
  "flag_value flags n = (case map_of flags n of None \<Rightarrow> 0 | Some v \<Rightarrow> v)"

definition qmiLocFeaturesStatusMaskT_v02_flags :: "(string \<times> int) list" where
  "qmiLocFeaturesStatusMaskT_v02_flags = [
    (''QMI_LOC_FEATURE_STATUS_CARRIER_PHASE_V02'', 0x00000001),
    (''QMI_LOC_FEATURE_STATUS_SV_POLYNOMIALS_V02'', 0x00000002),
    (''QMI_LOC_FEATURE_STATUS_SV_EPHEMERIS_V02'', 0x00000004),
    (''QMI_LOC_FEATURE_STATUS_SINGLE_FREQUENCY_V02'', 0x00000008),
    (''QMI_LOC_FEATURE_STATUS_MULTI_FREQUENCY_V02'', 0x00000010),
    (''QMI_LOC_FEATURE_STATUS_TIME_FREQUENCY_V02'', 0x00000020),
    (''QMI_LOC_FEATURE_STATUS_TIME_UNCERTAINTY_V02'', 0x00000040),
    (''QMI_LOC_FEATURE_STATUS_CLOCK_ESTIMATE_V02'', 0x00000080),
    (''QMI_LOC_FEATURE_STATUS_DGNSS_V02'', 0x00000100),
    (''QMI_LOC_FEATURE_STATUS_QPPE_V02'', 0x00000200),
    (''QMI_LOC_FEATURE_STATUS_ROBUST_LOCATION_V02'', 0x00000400),
    (''QMI_LOC_FEATURE_STATUS_NLOS_ML20_V02'', 0x00000800),
    (''QMI_LOC_FEATURE_STATUS_GNSS_NHZ_V02'', 0x00001000),
    (''QMI_LOC_FEATURE_STATUS_SBAS_V02'', 0x00002000),
    (''QMI_LOC_FEATURE_STATUS_SBAS_WOCS_V02'', 0x00004000)]"

definition qmiLocAonCapabilityMaskT_v02_flags :: "(string \<times> int) list" where
  "qmiLocAonCapabilityMaskT_v02_flags = [
    (''QMI_LOC_MASK_AON_AUTO_BATCHING_SUPPORTED_V02'', 0x00000001),
    (''QMI_LOC_MASK_AON_DISTANCE_BASED_BATCHING_SUPPORTED_V02'', 0x00000002),
    (''QMI_LOC_MASK_AON_TIME_BASED_BATCHING_SUPPORTED_V02'', 0x00000004),
    (''QMI_LOC_MASK_AON_DISTANCE_BASED_TRACKING_SUPPORTED_V02'', 0x00000008),
    (''QMI_LOC_MASK_AON_UPDATE_TBF_SUPPORTED_V02'', 0x00000010),
    (''QMI_LOC_MASK_AON_OUTDOOR_TRIP_BATCHING_SUPPORTED_V02'', 0x00000020)]"

definition populateFeatureStatusReport :: "64 word \<Rightarrow> (string \<times> bool) list" where
  "populateFeatureStatusReport report =
     map (\<lambda>(f, b). (f, report AND word_of_int (flag_value qmiLocFeaturesStatusMaskT_v02_flags b) \<noteq> 0))
     [(''LOCATION_QWES_FEATURE_TYPE_CARRIER_PHASE'', ''QMI_LOC_FEATURE_STATUS_CARRIER_PHASE_V02''),
      (''LOCATION_QWES_FEATURE_TYPE_SV_POLYNOMIAL'', ''QMI_LOC_FEATURE_STATUS_SV_POLYNOMIALS_V02''),
      (''LOCATION_QWES_FEATURE_TYPE_SV_EPH'', ''QMI_LOC_FEATURE_STATUS_SV_EPHEMERIS_V02''),
      (''LOCATION_QWES_FEATURE_TYPE_GNSS_SINGLE_FREQUENCY'', ''QMI_LOC_FEATURE_STATUS_SINGLE_FREQUENCY_V02''),
      (''LOCATION_QWES_FEATURE_TYPE_GNSS_MULTI_FREQUENCY'', ''QMI_LOC_FEATURE_STATUS_MULTI_FREQUENCY_V02''),
      (''LOCATION_QWES_FEATURE_TYPE_TIME_FREQUENCY'', ''QMI_LOC_FEATURE_STATUS_TIME_FREQUENCY_V02''),
      (''LOCATION_QWES_FEATURE_TYPE_TIME_UNCERTAINTY'', ''QMI_LOC_FEATURE_STATUS_TIME_UNCERTAINTY_V02''),
      (''LOCATION_QWES_FEATURE_TYPE_CLOCK_ESTIMATE'', ''QMI_LOC_FEATURE_STATUS_CLOCK_ESTIMATE_V02''),
      (''LOCATION_QWES_FEATURE_TYPE_DGNSS'', ''QMI_LOC_FEATURE_STATUS_DGNSS_V02''),
      (''LOCATION_QWES_FEATURE_NLOS_ML20'', ''QMI_LOC_FEATURE_STATUS_NLOS_ML20_V02''),
      (''LOCATION_QWES_FEATURE_STATUS_GNSS_NHZ'', ''QMI_LOC_FEATURE_STATUS_GNSS_NHZ_V02'')]"

text \<open>The bit of a message in the list of the supported ones; the enumerators are below 31.\<close>

definition message_bit :: "'w adapter_env \<Rightarrow> string \<Rightarrow> 64 word" where
  "message_bit env n = push_bit (nat (hal env n)) 1"

definition aon_messages :: "'w adapter_env \<Rightarrow> struct \<Rightarrow> 64 word \<Rightarrow> 64 word" where
  "aon_messages env ind supported = fold (\<lambda>(b, n) r.
       if (word_of_int (num (ind ''aonCapability'')) :: 32 word)
            AND word_of_int (flag_value qmiLocAonCapabilityMaskT_v02_flags b) \<noteq> 0
       then r OR message_bit env n else r)
     [(''QMI_LOC_MASK_AON_AUTO_BATCHING_SUPPORTED_V02'',
       ''LOC_API_ADAPTER_MESSAGE_ADAPTIVE_LOCATION_BATCHING''),
      (''QMI_LOC_MASK_AON_DISTANCE_BASED_BATCHING_SUPPORTED_V02'',
       ''LOC_API_ADAPTER_MESSAGE_DISTANCE_BASE_LOCATION_BATCHING''),
      (''QMI_LOC_MASK_AON_UPDATE_TBF_SUPPORTED_V02'', ''LOC_API_ADAPTER_MESSAGE_UPDATE_TBF_ON_THE_FLY''),
      (''QMI_LOC_MASK_AON_OUTDOOR_TRIP_BATCHING_SUPPORTED_V02'',
       ''LOC_API_ADAPTER_MESSAGE_OUTDOOR_TRIP_BATCHING'')]
     supported"

definition query_aon :: "'w adapter_env \<Rightarrow> 64 word \<Rightarrow> ('w, 64 word) adapter_op" where
  "query_aon env supported =
     (if supported AND message_bit env ''LOC_API_ADAPTER_MESSAGE_LOCATION_BATCHING'' = 0 then gives supported
      else after (locSyncSendReq env (sync_request QMI_LOC_QUERY_AON_CONFIG_REQ_V02
          QMI_LOC_QUERY_AON_CONFIG_IND_V02 (fresh(''transactionId'' := Num 1))))
        (\<lambda>answer. gives (if answered_well answer \<and> num (snd answer ''aonCapability_valid'') \<noteq> 0
           then aon_messages env (snd answer) supported else supported)))"

text \<open>What is asked of a service that was just opened. The last result says whether the check of the
  supported messages succeeded: its status is the one that decides about the registration.\<close>

definition query_features :: "'w adapter_env \<Rightarrow> 64 word \<Rightarrow> bool \<Rightarrow> ('w, unit) adapter_op" where
  "query_features env supported meas =
     after (locSyncSendReq env (sync_request QMI_LOC_GET_SUPPORTED_FEATURE_REQ_V02
         QMI_LOC_GET_SUPPORTED_FEATURE_IND_V02 fresh))
       (\<lambda>(status, ind).
         let features = (if num (ind ''feature_len'') \<noteq> 0 then Some (map num (elements (ind ''feature''))) else None) in
         after (changes (\<lambda>a. a\<lparr>engine_capabilities := Some (supported, features, meas)\<rparr>))
           (\<lambda>_. if num (ind ''featureStatusReport_valid'') \<noteq> 0
                then calls_base (Base_reportQwesCapabilities
                  (populateFeatureStatusReport (word_of_int (num (ind ''featureStatusReport'')))))
                else gives ()))"

definition checked_messages :: "nat list" where
  "checked_messages = map nat [QMI_LOC_GET_BATCH_SIZE_REQ_V02,
     QMI_LOC_EVENT_GEOFENCE_BATCHED_BREACH_NOTIFICATION_IND_V02, QMI_LOC_START_DBT_REQ_V02]"

definition check_messages :: "'w adapter_env \<Rightarrow> ('w, locClientStatusEnumType \<times> 64 word) adapter_op" where
  "check_messages env a =
     andthen (locClientSupportMsgCheck (ask_supported env) (clientHandle a) (Some checked_messages) False
         (support_statics a) (loc_client_state a))
       (\<lambda>(status, r, statics, c). Returns ((status, case r of None \<Rightarrow> 0 | Some w \<Rightarrow> w),
         a\<lparr>loc_client_state := c, support_statics := statics\<rparr>))"

definition query_service :: "'w adapter_env \<Rightarrow> ('w, locClientStatusEnumType) adapter_op" where
  "query_service env =
     after (if isMaster env then after (registerMasterClient env) (\<lambda>_. cacheGnssMeasurementSupport env)
            else gives False) (\<lambda>meas.
     after (check_messages env) (\<lambda>(status, supported).
     after (query_aon env supported) (\<lambda>supported'.
     after (query_features env supported' meas) (\<lambda>_.
     after (getEngineLockStateSync env) (\<lambda>_. gives status)))))"

text \<open>\<open>open\<close> returns whether it reports success.\<close>

definition open_client :: "'w adapter_env \<Rightarrow> ('w, locClientStatusEnumType) adapter_op" where
  "open_client env a =
     andthen (locClientOpen (qmi_library env) (emulator_config env) (target env) 0
         (Some (globalCallbacks env)) (Some 0) (this_address env) (loc_client_state a))
       (\<lambda>(status, h, c). Returns (status,
         a\<lparr>loc_client_state := c, clientHandle := (case h of None \<Rightarrow> 0 | Some v \<Rightarrow> v)\<rparr>))"

definition subscribe :: "'w adapter_env \<Rightarrow> 64 word \<Rightarrow> ('w, unit) adapter_op" where
  "subscribe env newMask = after (changes (\<lambda>a. a\<lparr>mMask := newMask\<rparr>)) (\<lambda>_. registerEventMask env)"

definition open_adapter :: "'w adapter_env \<Rightarrow> 64 word \<Rightarrow> ('w, bool) adapter_op" where
  "open_adapter env m a =
     (let newMask = m AND NOT (mExcludedMask env) in
      if clientHandle a \<noteq> 0 then after (subscribe env newMask) (\<lambda>_. gives True) a
      else after (open_client env) (\<lambda>status a1.
        if status \<noteq> eLOC_CLIENT_SUCCESS \<or> clientHandle a1 = 0
        then Returns (False, a1\<lparr>mMask := 0, mNmeaMask := 0, mQmiMask := 0\<rparr>)
        else after (query_service env) (\<lambda>status'.
          if status' = eLOC_CLIENT_SUCCESS then after (subscribe env newMask) (\<lambda>_. gives True)
          else gives True) a1) a)"

definition close_adapter :: "'w adapter_env \<Rightarrow> ('w, bool) adapter_op" where
  "close_adapter env a =
     (let reset = (\<lambda>c. a\<lparr>loc_client_state := c, mMask := 0, mQmiMask := 0, mInSession := False, clientHandle := 0\<rparr>) in
      if clientHandle a = 0 then Returns (True, reset (loc_client_state a))
      else andthen (locClientClose (qmi_library env) (Some (clientHandle a)) (loc_client_state a))
        (\<lambda>(status, h, c). Returns (status = eLOC_CLIENT_SUCCESS, reset c)))"

section \<open>Events of the service\<close>

text \<open>The requests that were refused because the engine was busy are sent again when it goes off,
  whatever they are answered this time.\<close>

fun resend_all :: "'w adapter_env \<Rightarrow> request list \<Rightarrow> ('w, unit) adapter_op" where
  "resend_all env [] = gives ()"
| "resend_all env (r # rs) = after (loc_sync_send env r) (\<lambda>_. resend_all env rs)"

definition update_engine_state :: "'w adapter_env \<Rightarrow> bool \<Rightarrow> ('w, unit) adapter_op" where
  "update_engine_state env engineOn a =
     (let a1 = (if mEngineOn a \<noteq> engineOn then a\<lparr>mFirstMeasurementOfSessionReceived := False\<rparr> else a)
                 \<lparr>mEngineOn := engineOn\<rparr> in
      if engineOn then Returns ((), a1)
      else after (resend_all env (mResenders a1)) (\<lambda>_.
        after (changes (\<lambda>a2. a2\<lparr>mResenders := []\<rparr>)) (\<lambda>_. registerEventMask env)) a1)"

definition reportEngineState :: "'w adapter_env \<Rightarrow> int \<Rightarrow> ('w, unit) adapter_op" where
  "reportEngineState env s =
     (if s = enumerator qmiLocEngineStateEnumT_v02 ''eQMI_LOC_ENGINE_STATE_ON_V02''
      then update_engine_state env True
      else if s = enumerator qmiLocEngineStateEnumT_v02 ''eQMI_LOC_ENGINE_STATE_OFF_V02''
      then update_engine_state env False
      else gives ())"

definition reportPowerStateChangeInfo :: "'w adapter_env \<Rightarrow> struct \<Rightarrow> ('w, unit) adapter_op" where
  "reportPowerStateChangeInfo env info =
     (if num (info ''powerStateNew_valid'') \<noteq> 0
      then after (changes (\<lambda>a. a\<lparr>mPlatformPowerState := num (info ''powerStateNew'')\<rparr>))
        (\<lambda>_. registerEventMask env)
      else gives ())"

definition reportEngineLockStatus :: "'w adapter_env \<Rightarrow> int \<Rightarrow> ('w, unit) adapter_op" where
  "reportEngineLockStatus env s a =
     (let lockState = convertEngineLockState env s in
      if lockState \<noteq> engineLockState a
      then after (changes (\<lambda>a. a\<lparr>engineLockState := lockState\<rparr>))
        (\<lambda>_. calls_base (Base_reportEngineLockStatus lockState)) a
      else Returns ((), a))"

definition adapter_errorCb :: "'w adapter_env \<Rightarrow> locClientErrorEnumType \<Rightarrow> ('w, unit) adapter_op" where
  "adapter_errorCb env e =
     (if e = eLOC_CLIENT_ERROR_SERVICE_UNAVAILABLE then calls_base Base_handleEngineDownEvent else gives ())"

section \<open>Sessions\<close>

record tracking_options =
  minInterval :: "32 word"
  tracking_mode :: int
  powerMode :: int
  specialReq :: int

definition setOperationMode :: "'w adapter_env \<Rightarrow> int \<Rightarrow> ('w, unit) adapter_op" where
  "setOperationMode env mode =
     (let m = (if mode = hal env ''GNSS_SUPL_MODE_MSB'' then ''eQMI_LOC_OPER_MODE_MSB_V02''
               else if mode = hal env ''GNSS_SUPL_MODE_MSA'' then ''eQMI_LOC_OPER_MODE_MSA_V02''
               else ''eQMI_LOC_OPER_MODE_STANDALONE_V02'') in
      after (locSyncSendReq env (sync_request QMI_LOC_SET_OPERATION_MODE_REQ_V02
        QMI_LOC_SET_OPERATION_MODE_IND_V02
        (fresh(''operationMode'' := Num (enumerator qmiLocOperationModeEnumT_v02 m))))) (\<lambda>_. gives ()))"

definition convertPowerMode :: "'w adapter_env \<Rightarrow> int \<Rightarrow> int" where
  "convertPowerMode env mode = enumerator qmiLocPowerModeEnumT_v02
     (if mode = hal env ''GNSS_POWER_MODE_M1'' then ''eQMI_LOC_POWER_MODE_IMPROVED_ACCURACY_V02''
      else if mode = hal env ''GNSS_POWER_MODE_M2'' then ''eQMI_LOC_POWER_MODE_NORMAL_V02''
      else if mode = hal env ''GNSS_POWER_MODE_M3'' then ''eQMI_LOC_POWER_MODE_BACKGROUND_DEFINED_POWER_V02''
      else if mode = hal env ''GNSS_POWER_MODE_M4'' then ''eQMI_LOC_POWER_MODE_BACKGROUND_DEFINED_TIME_V02''
      else if mode = hal env ''GNSS_POWER_MODE_M5'' then ''eQMI_LOC_POWER_MODE_BACKGROUND_KEEP_WARM_V02''
      else ''QMILOCPOWERMODEENUMT_MIN_ENUM_VAL_V02'')"

definition start_msg :: "'w adapter_env \<Rightarrow> tracking_options \<Rightarrow> struct" where
  "start_msg env opts =
     (let background = powerMode opts \<in> {hal env ''GNSS_POWER_MODE_M3'', hal env ''GNSS_POWER_MODE_M4'',
            hal env ''GNSS_POWER_MODE_M5''};
          s = fresh(''sessionId'' := Num 1,
            ''minIntermediatePositionReportInterval_valid'' := Num 1,
            ''minIntermediatePositionReportInterval'' := Num (uint (minInterval opts)),
            ''minInterval_valid'' := Num 1, ''minInterval'' := Num (uint (minInterval opts)),
            ''horizontalAccuracyLevel_valid'' := Num 1,
            ''horizontalAccuracyLevel'' := Num (enumerator qmiLocAccuracyLevelEnumT_v02
              (if background then ''eQMI_LOC_ACCURACY_LOW_V02'' else ''eQMI_LOC_ACCURACY_HIGH_V02'')),
            ''fixRecurrence_valid'' := Num 1,
            ''fixRecurrence'' := Num (enumerator qmiLocFixRecurrenceEnumT_v02 ''eQMI_LOC_RECURRENCE_PERIODIC_V02''),
            ''configAltitudeAssumed_valid'' := Num 1,
            ''configAltitudeAssumed'' := Num (enumerator qmiLocConfigIncludeAltitudeAssumedInGnssSvInfoEnumT_v02
              ''eQMI_LOC_ALTITUDE_ASSUMED_IN_GNSS_SV_INFO_DISABLED_V02''),
            ''powerMode_valid'' := Num 1,
            ''powerMode'' := Obj (fresh(''powerMode'' := Num (convertPowerMode env (powerMode opts)),
              ''timeBetweenMeasurement'' := Num (uint (minInterval opts))))) in
      if specialReq opts \<noteq> hal env ''SPECIAL_REQ_INVALID'' \<and> specialReq opts = hal env ''SPECIAL_REQ_SHORT_CODE''
      then s(''specialReqType_valid'' := Num 1, ''specialReqType'' := Num (enumerator
        qmiLocSpecialReqEnumT_v02 ''eQMI_LOC_SPECIAL_REQUEST_SHORT_CODE_V02''))
      else s)"

text \<open>What a caller is told, if it left a response object.\<close>

definition respond :: "bool \<Rightarrow> int \<Rightarrow> ('w, unit) adapter_op" where
  "respond wanted err = (if wanted then calls_base (Base_returnToSender err) else gives ())"

definition start_error :: "'w adapter_env \<Rightarrow> 'w adapter \<Rightarrow> int" where
  "start_error env a = (if engineLockState a = hal env ''ENGINE_LOCK_STATE_DISABLED''
     then hal env ''LOCATION_ERROR_TZ_LOCKED'' else hal env ''LOCATION_ERROR_GENERAL_FAILURE'')"

definition startTimeBasedTracking :: "'w adapter_env \<Rightarrow> tracking_options \<Rightarrow> bool \<Rightarrow> ('w, unit) adapter_op" where
  "startTimeBasedTracking env opts wanted =
     after (changes (\<lambda>a. a\<lparr>mInSession := True\<rparr>)) (\<lambda>_.
     after (registerEventMask env) (\<lambda>_.
     after (setOperationMode env (tracking_mode opts)) (\<lambda>_.
     after (changes (\<lambda>a. a\<lparr>mMinInterval := minInterval opts, mPowerMode := powerMode opts\<rparr>)) (\<lambda>_.
     after (send_request env QMI_LOC_START_REQ_V02 (Some (qmiLocStartReqMsgT_v02, start_msg env opts))) (\<lambda>status a.
     respond wanted (if status \<noteq> eLOC_CLIENT_SUCCESS then start_error env a
       else hal env ''LOCATION_ERROR_SUCCESS'') a)))))"

definition stopTimeBasedTracking :: "'w adapter_env \<Rightarrow> bool \<Rightarrow> ('w, unit) adapter_op" where
  "stopTimeBasedTracking env wanted =
     after (send_request env QMI_LOC_STOP_REQ_V02 (Some (qmiLocStopReqMsgT_v02, fresh(''sessionId'' := Num 1))))
       (\<lambda>status.
         if status \<noteq> eLOC_CLIENT_SUCCESS then respond wanted (hal env ''LOCATION_ERROR_GENERAL_FAILURE'')
         else
           after (changes (\<lambda>a. a\<lparr>mIsFirstFinalFixReported := False, mInSession := False,
             mPowerMode := hal env ''GNSS_POWER_MODE_DEFAULT''\<rparr>)) (\<lambda>_.
           after (registerEventMask env) (\<lambda>_. respond wanted (hal env ''LOCATION_ERROR_SUCCESS''))))"

section \<open>Energy\<close>

definition energy_request :: request where
  "energy_request = sync_request QMI_LOC_QUERY_GNSS_ENERGY_CONSUMED_REQ_V02
     QMI_LOC_QUERY_GNSS_ENERGY_CONSUMED_IND_V02 fresh"

definition getGnssEnergyConsumed :: "'w adapter_env \<Rightarrow> ('w, unit) adapter_op" where
  "getGnssEnergyConsumed env =
     after (locSyncSendReq env energy_request)
       (\<lambda>(status, ind). calls_base (Base_reportGnssEngEnergyConsumedEvent
          (if status \<noteq> eLOC_CLIENT_SUCCESS then 0xffffffffffffffff
           else num (ind ''energyConsumedSinceFirstBoot''))))"

section \<open>Aiding data\<close>

definition sendRequestForAidingData :: "'w adapter_env \<Rightarrow> 64 word \<Rightarrow> ('w, unit) adapter_op" where
  "sendRequestForAidingData env m =
     (let ask = (\<lambda>f v d s. if m AND event_bit f \<noteq> 0 then s(v := Num 1, d := Num 1) else s);
          p = ask ''QMI_LOC_EVENT_MASK_GNSS_EVENT_REPORT_V02'' ''reportFullIonoDb_valid'' ''reportFullIonoDb''
             (ask ''QMI_LOC_EVENT_MASK_EPHEMERIS_REPORT_V02'' ''reportFullEphemerisDb_valid'' ''reportFullEphemerisDb''
             (ask ''QMI_LOC_EVENT_MASK_GNSS_SV_POLYNOMIAL_REPORT_V02'' ''reportFullSvPolyDb_valid''
               ''reportFullSvPolyDb'' fresh)) in
      after (locSyncSendReq env (sync_request QMI_LOC_SET_GNSS_CONSTELL_REPORT_CONFIG_V02
        QMI_LOC_SET_GNSS_CONSTELL_REPORT_CONFIG_IND_V02 p)) (\<lambda>_. gives ()))"

definition requestForAidingData :: "'w adapter_env \<Rightarrow> 32 word \<Rightarrow> ('w, unit) adapter_op" where
  "requestForAidingData env svDataMask =
     sendRequestForAidingData env (copy_flags
       [(hal env ''GNSS_AIDING_DATA_SV_POLY_BIT'', event_flag ''QMI_LOC_EVENT_MASK_GNSS_SV_POLYNOMIAL_REPORT_V02''),
        (hal env ''GNSS_AIDING_DATA_SV_EPHEMERIS_BIT'', event_flag ''QMI_LOC_EVENT_MASK_EPHEMERIS_REPORT_V02''),
        (hal env ''GNSS_AIDING_DATA_SV_IONOSPHERE_BIT'', event_flag ''QMI_LOC_EVENT_MASK_GNSS_EVENT_REPORT_V02'')]
       svDataMask)"

end
