(* ===== verification/AdapterTracking.thy ===== *)
theory AdapterTracking
  imports AdapterEvents LocClientProps
begin

text \<open>
  What the service was told to send against what the adapter believes: the mask that the client
  registered last is the adapter's own, or the adapter's with the state of the engine added, as long as
  the two requests a registration itself sends do not find the engine busy.
\<close>

section \<open>Operations that keep a property\<close>

definition keeps :: "('w adapter \<Rightarrow> bool) \<Rightarrow> ('w, 'a) adapter_op \<Rightarrow> bool" where
  "keeps P m \<longleftrightarrow> (\<forall>a x a'. P a \<longrightarrow> m a = Returns (x, a') \<longrightarrow> P a')"

named_theorems keeping \<open>operations that keep a property\<close>

lemma after_Returns:
  "after m k a = Returns y \<longleftrightarrow> (\<exists>x a'. m a = Returns (x, a') \<and> k x a' = Returns y)"
  by (auto simp: after_def andthen_Returns)

lemma keeps_after [keeping]: "keeps P m \<Longrightarrow> (\<And>x. keeps P (k x)) \<Longrightarrow> keeps P (after m k)"
  unfolding keeps_def after_Returns by blast

lemma keeps_gives [keeping]: "keeps P (gives x)"
  by (simp add: keeps_def gives_def)

lemma keeps_changes [keeping]: "(\<And>a. P a \<Longrightarrow> P (f a)) \<Longrightarrow> keeps P (changes f)"
  by (simp add: keeps_def changes_def)

lemma keeps_either [keeping]: "keeps P m \<Longrightarrow> keeps P n \<Longrightarrow> keeps P (if b then m else n)"
  by simp

lemma keeps_choice [keeping]: "keeps P m \<Longrightarrow> keeps P n \<Longrightarrow> keeps P (\<lambda>a. if c a then m a else n a)"
  unfolding keeps_def by (intro allI impI) (split if_split_asm, blast+)

lemma keeps_with: "(\<And>b. keeps P (m b)) \<Longrightarrow> keeps P (\<lambda>a. m a a)"
  unfolding keeps_def by blast

lemma keepsD: "keeps P m \<Longrightarrow> m a = Returns (x, a') \<Longrightarrow> P a \<Longrightarrow> P a'"
  unfolding keeps_def by blast

text \<open>Operations that return, and keep a property.\<close>

definition succeeds :: "('w adapter \<Rightarrow> bool) \<Rightarrow> ('w, 'a) adapter_op \<Rightarrow> bool" where
  "succeeds P m \<longleftrightarrow> (\<forall>a. P a \<longrightarrow> (\<exists>x a'. m a = Returns (x, a') \<and> P a'))"

named_theorems succeeding \<open>operations that return and keep a property\<close>

lemma succeeds_after [succeeding]: "succeeds P m \<Longrightarrow> (\<And>x. succeeds P (k x)) \<Longrightarrow> succeeds P (after m k)"
  unfolding succeeds_def by (metis after_Returns)

lemma succeeds_gives [succeeding]: "succeeds P (gives x)"
  by (simp add: succeeds_def gives_def)

lemma succeeds_changes [succeeding]: "(\<And>a. P a \<Longrightarrow> P (f a)) \<Longrightarrow> succeeds P (changes f)"
  by (simp add: succeeds_def changes_def)

lemma succeeds_if [succeeding]: "succeeds P m \<Longrightarrow> succeeds P n \<Longrightarrow> succeeds P (if b then m else n)"
  by simp

lemma succeeds_prod [succeeding]: "(\<And>x y. succeeds P (k x y)) \<Longrightarrow> succeeds P (case p of (x, y) \<Rightarrow> k x y)"
  by (cases p) simp

lemma succeeds_with: "(\<And>b. succeeds P (m b)) \<Longrightarrow> succeeds P (\<lambda>a. m a a)"
  unfolding succeeds_def by blast

section \<open>Registration\<close>

text \<open>The mask the service was told last.\<close>

definition registered :: "'w adapter \<Rightarrow> 64 word option" where
  "registered a = map_option eventRegMask (cb_heap (loc_client_state a) (clientHandle a))"

locale mask_registration =
  fixes register :: "64 word \<Rightarrow> 's \<Rightarrow> (bool \<times> 's) outcome" and current :: "'s \<Rightarrow> 64 word option"
  assumes accepted: "register m s = Returns (True, s') \<Longrightarrow> current s' = Some m"
    and refused: "register m s = Returns (False, s') \<Longrightarrow> current s' = current s"
begin

lemma either: "register m s = Returns (ok, s') \<Longrightarrow> current s' = (if ok then Some m else current s)"
  using accepted refused by (cases ok) auto

lemma current_among: "register m s = Returns (ok, s') \<Longrightarrow> current s \<in> M \<Longrightarrow> Some m \<in> M \<Longrightarrow> current s' \<in> M"
  using either by (cases ok) auto

end

lemma register_refused:
  assumes "locClientRegisterEventMask env h m b s = Returns (False, s')"
  shows "cb_heap s' = cb_heap s"
proof -
  from register_send [OF assms] obtain bs st where
    "locClientSendReq env h QMI_LOC_REG_EVENTS_REQ_V02 (Some bs) s = Returns (st, s')" "st \<noteq> eLOC_CLIENT_SUCCESS"
    by auto
  then show ?thesis by (cases rule: send_cases) auto
qed

lemma register_accepted:
  assumes "locClientRegisterEventMask env h m b s = Returns (True, s')"
  shows "h \<noteq> 0" and "map_option eventRegMask (cb_heap s' h) = Some m"
proof -
  from register_send [OF assms] obtain bs where
    send: "locClientSendReq env h QMI_LOC_REG_EVENTS_REQ_V02 (Some bs) s = Returns (eLOC_CLIENT_SUCCESS, s')"
    by auto
  then obtain d where d: "check_handle h s = Returns (Some d)" by (cases rule: send_cases) auto
  then show "h \<noteq> 0" by (simp add: check_handle_Some)
  from registered_mask [OF d assms] show "map_option eventRegMask (cb_heap s' h) = Some m" by blast
qed

lemma register_mask_Returns:
  "register_mask env m a = Returns (ok, a') \<longleftrightarrow>
     (\<exists>c. locClientRegisterEventMask (qmi_library env) (clientHandle a) m (isMaster env) (loc_client_state a)
        = Returns (ok, c) \<and> a' = a\<lparr>loc_client_state := c\<rparr>)"
  by (auto simp: register_mask_def andthen_Returns)

interpretation service_registration: mask_registration "register_mask env" registered
  for env :: "'w adapter_env"
proof unfold_locales
  fix m :: "64 word" and s s' :: "'w adapter"
  assume "register_mask env m s = Returns (True, s')"
  then show "registered s' = Some m"
    using register_accepted(2) by (fastforce simp: register_mask_Returns registered_def)
next
  fix m :: "64 word" and s s' :: "'w adapter"
  assume "register_mask env m s = Returns (False, s')"
  then show "registered s' = registered s"
    using register_refused by (fastforce simp: register_mask_Returns registered_def)
qed

section \<open>Synchronous requests\<close>

text \<open>What the adapter relies on: a request other than a registration leaves the client as it is, the
  state of the QMI library apart.\<close>

definition same_client :: "('w \<Rightarrow> nat set) \<Rightarrow> 'w loc_client \<Rightarrow> 'w loc_client \<Rightarrow> bool" where
  "same_client live c c' \<longleftrightarrow> cb_heap c' = cb_heap c \<and> control_points c' = control_points c \<and>
     brk c' = brk c \<and> live (qmi c') = live (qmi c)"

definition requests_keep_client :: "'w adapter_env \<Rightarrow> ('w \<Rightarrow> nat set) \<Rightarrow> bool" where
  "requests_keep_client env live \<longleftrightarrow>
     (\<forall>h r c answer c'. req_msg r \<noteq> QMI_LOC_REG_EVENTS_REQ_V02 \<longrightarrow>
        sync_send env h r c = Returns (answer, c') \<longrightarrow> same_client live c c') \<and>
     (\<forall>u w rc resp w'. ask_supported env u w = (rc, resp, w') \<longrightarrow> live w' = live w)"

text \<open>The requests that a registration sends find the engine ready.\<close>

definition prompt :: "'w adapter_env \<Rightarrow> bool" where
  "prompt env \<longleftrightarrow> (\<forall>h r c answer c'.
     req_msg r \<in> {QMI_LOC_NOTIFY_WIFI_STATUS_REQ_V02, QMI_LOC_SET_GNSS_CONSTELL_REPORT_CONFIG_V02} \<longrightarrow>
     sync_send env h r c = Returns (answer, c') \<longrightarrow> \<not> engine_busy r answer)"

lemma same_client_inv: "same_client live c c' \<Longrightarrow> client_inv live c \<Longrightarrow> client_inv live c'"
  by (auto simp: same_client_def client_inv_def live_ok_def cb_ok_def)

definition no_registrations :: "request list \<Rightarrow> bool" where
  "no_registrations rs \<longleftrightarrow> list_all (\<lambda>r. req_msg r \<noteq> QMI_LOC_REG_EVENTS_REQ_V02) rs"

text \<open>What a synchronous request never changes.\<close>

definition settled :: "('w \<Rightarrow> nat set) \<Rightarrow> addr \<Rightarrow> 64 word option \<Rightarrow> 'w adapter \<Rightarrow> bool" where
  "settled live h q a \<longleftrightarrow> client_inv live (loc_client_state a) \<and> no_registrations (mResenders a) \<and>
     clientHandle a = h \<and> registered a = q"

lemma sync_send_settled:
  assumes "requests_keep_client env live" and "req_msg r \<noteq> QMI_LOC_REG_EVENTS_REQ_V02"
  shows "keeps (settled live h q) (loc_sync_send env r)"
  using assms unfolding keeps_def settled_def loc_sync_send_def requests_keep_client_def registered_def
  by (auto simp: andthen_Returns same_client_def intro: same_client_inv)


lemma kept_no_registrations:
  "req_msg r \<noteq> QMI_LOC_REG_EVENTS_REQ_V02 \<Longrightarrow> no_registrations (kept_request env r a)"
  by (auto simp: kept_request_def no_registrations_def split: option.splits)

lemma no_registrations_append [simp]:
  "no_registrations (rs @ ss) \<longleftrightarrow> no_registrations rs \<and> no_registrations ss"
  by (simp add: no_registrations_def)

lemma prompt_settled:
  assumes "requests_keep_client env live" and "prompt env"
    and "req_msg r \<in> {QMI_LOC_NOTIFY_WIFI_STATUS_REQ_V02, QMI_LOC_SET_GNSS_CONSTELL_REPORT_CONFIG_V02}"
  shows "keeps (settled live h q) (locSyncSendReq env r)"
  unfolding keeps_def
proof (intro allI impI)
  fix a answer a'
  assume s: "settled live h q a" and l: "locSyncSendReq env r a = Returns (answer, a')"
  have m: "req_msg r \<noteq> QMI_LOC_REG_EVENTS_REQ_V02"
    using assms(3) by (auto simp: QMI_LOC_REG_EVENTS_REQ_V02_def QMI_LOC_NOTIFY_WIFI_STATUS_REQ_V02_def
        QMI_LOC_SET_GNSS_CONSTELL_REPORT_CONFIG_V02_def)
  from l obtain a1 where 1: "loc_sync_send env r a = Returns (answer, a1)"
    and 2: "if engine_busy r answer then \<exists>x. keep_request env r a1 = Returns (x, a') else a' = a1"
    by (auto simp: locSyncSendReq_def after_Returns gives_def split: if_split_asm)
  then obtain c where "sync_send env (clientHandle a) r (loc_client_state a) = Returns (answer, c)"
    by (auto simp: loc_sync_send_def andthen_Returns)
  with assms(2,3) have "\<not> engine_busy r answer" unfolding prompt_def by blast
  then show "settled live h q a'" using keepsD [OF sync_send_settled [OF assms(1) m] 1 s] 2 by simp
qed

lemma wifi_settled:
  "requests_keep_client env live \<Longrightarrow> prompt env \<Longrightarrow> keeps (settled live h q) (wifiStatusInformSync env)"
  unfolding wifiStatusInformSync_def LOC_SEND_SYNC_REQ_def
  by (intro keeping prompt_settled) (auto simp: sync_request_def)

lemma constellation_settled:
  assumes "requests_keep_client env live" and "prompt env"
  shows "keeps (settled live h q) (setSvMeasurementConstellation env m)"
  unfolding setSvMeasurementConstellation_def [abs_def]
  by (rule keeps_with, intro keeping prompt_settled [OF assms])
    (auto simp: sync_request_def split: prod.splits intro: keeping)

section \<open>The invariant\<close>

abbreviation engine_state_bit :: "64 word" where
  "engine_state_bit \<equiv> event_bit ''QMI_LOC_EVENT_MASK_ENGINE_STATE_V02''"

definition tracked :: "('w \<Rightarrow> nat set) \<Rightarrow> 'w adapter \<Rightarrow> bool" where
  "tracked live a \<longleftrightarrow> client_inv live (loc_client_state a) \<and> no_registrations (mResenders a) \<and>
     (clientHandle a = 0 \<longrightarrow> mQmiMask a = 0) \<and>
     (clientHandle a \<noteq> 0 \<longrightarrow> registered a = Some (mQmiMask a) \<or> registered a = Some (mQmiMask a OR engine_state_bit))"

lemma register_mask_other:
  assumes "register_mask env m a = Returns (ok, a')" and "qmi_laws (qmi_library env) live"
    and "client_inv live (loc_client_state a)"
  shows "client_inv live (loc_client_state a')" and "mResenders a' = mResenders a" and "mQmiMask a' = mQmiMask a"
    and "clientHandle a' = clientHandle a" and "ok \<Longrightarrow> clientHandle a \<noteq> 0"
proof -
  from assms(1) obtain c where
    c: "locClientRegisterEventMask (qmi_library env) (clientHandle a) m (isMaster env) (loc_client_state a)
      = Returns (ok, c)" "a' = a\<lparr>loc_client_state := c\<rparr>"
    by (auto simp: register_mask_Returns)
  from register_send [OF c(1)] send_inv [OF assms(2) _ assms(3)] c(2)
  show "client_inv live (loc_client_state a')" by auto
  show "mResenders a' = mResenders a" "mQmiMask a' = mQmiMask a" "clientHandle a' = clientHandle a"
    using c(2) by simp_all
  show "clientHandle a \<noteq> 0" if ok using that c(1) register_accepted(1) by simp
qed

lemma tracked_settled: "tracked live a \<Longrightarrow> settled live (clientHandle a) (registered a) a"
  by (simp add: tracked_def settled_def)

lemma sync_send_mask: "loc_sync_send env r a = Returns (x, a') \<Longrightarrow> mQmiMask a' = mQmiMask a"
  by (auto simp: loc_sync_send_def andthen_Returns)

lemma sync_send_tracked:
  assumes "requests_keep_client env live" and "req_msg r \<noteq> QMI_LOC_REG_EVENTS_REQ_V02"
  shows "keeps (tracked live) (loc_sync_send env r)"
  unfolding keeps_def
proof (intro allI impI)
  fix a x a'
  assume t: "tracked live a" and s: "loc_sync_send env r a = Returns (x, a')"
  from keepsD [OF sync_send_settled [OF assms] s tracked_settled [OF t]] sync_send_mask [OF s] t
  show "tracked live a'" by (auto simp: settled_def tracked_def)
qed

lemma keep_request_tracked:
  assumes "qmi_laws (qmi_library env) live" and "req_msg r \<noteq> QMI_LOC_REG_EVENTS_REQ_V02"
  shows "keeps (tracked live) (keep_request env r)"
  unfolding keeps_def
proof (intro allI impI)
  fix a x a'
  assume t: "tracked live a" and "keep_request env r a = Returns (x, a')"
  then obtain ok a1 where
    reg: "(if resumed a \<and> mResenders a = [] \<and> mQmiMask a AND engine_state_bit = 0
      then register_mask env (mQmiMask a OR engine_state_bit) else gives True) a = Returns (ok, a1)"
    and a': "a' = a1\<lparr>mResenders := mResenders a1 @ kept_request env r a1\<rparr>"
    by (auto simp: keep_request_def Let_def after_Returns changes_def)
  have "tracked live a1"
  proof (cases "a1 = a")
    case False
    then have r: "register_mask env (mQmiMask a OR engine_state_bit) a = Returns (ok, a1)"
      using reg by (auto simp: gives_def split: if_splits)
    have inv: "client_inv live (loc_client_state a)" using t by (simp add: tracked_def)
    from service_registration.either [OF r] register_mask_other [OF r assms(1) inv] t show ?thesis
      by (cases ok) (auto simp: tracked_def)
  qed (use t in simp)
  moreover have "registered a' = registered a1" by (simp add: a' registered_def)
  ultimately show "tracked live a'"
    using kept_no_registrations [OF assms(2), of env a1] by (simp add: a' tracked_def)
qed

lemma request_tracked:
  assumes "qmi_laws (qmi_library env) live" and "requests_keep_client env live"
    and "req_msg r \<noteq> QMI_LOC_REG_EVENTS_REQ_V02"
  shows "keeps (tracked live) (locSyncSendReq env r)"
  unfolding locSyncSendReq_def
  by (intro keeping sync_send_tracked [OF assms(2,3)] keep_request_tracked [OF assms(1,3)])

lemma mask_changed_settled:
  assumes "requests_keep_client env live" and "prompt env"
    and "mask_changed env m old a = Returns (x, a')" and "settled live h q a"
  shows "settled live h q a'" and "mQmiMask a' = m"
proof -
  have "keeps (settled live h q) (mask_changed env m old)"
    unfolding mask_changed_def Let_def
    by (intro keeping wifi_settled constellation_settled assms(1,2)) (auto simp: settled_def registered_def)
  then show "settled live h q a'" using assms(3,4) by (blast dest: keepsD)
  show "mQmiMask a' = m" using assms(3) by (auto simp: mask_changed_def Let_def after_Returns changes_def)
qed

lemma register_tracked:
  assumes "qmi_laws (qmi_library env) live" and "requests_keep_client env live" and "prompt env"
  shows "keeps (tracked live) (registerEventMask env)"
  unfolding keeps_def
proof (intro allI impI)
  fix a x a'
  assume t: "tracked live a" and r: "registerEventMask env a = Returns (x, a')"
  let ?m = "wanted_mask env a"
  show "tracked live a'"
  proof (cases "?m = mQmiMask a")
    case True
    then show ?thesis using r t by (simp add: registerEventMask_def gives_def)
  next
    case False
    with r obtain ok a1 where reg: "register_mask env ?m a = Returns (ok, a1)"
      and rest: "(if ok then mask_changed env ?m (mQmiMask a) else gives ()) a1 = Returns (x, a')"
      by (auto simp: registerEventMask_def after_Returns Let_def)
    have inv: "client_inv live (loc_client_state a)" using t by (simp add: tracked_def)
    note o = register_mask_other [OF reg assms(1) inv]
    show ?thesis
    proof (cases ok)
      case no: False
      then show ?thesis using t rest o service_registration.either [OF reg]
        by (auto simp: tracked_def gives_def)
    next
      case True
      have "settled live (clientHandle a) (Some ?m) a1"
        using t True o service_registration.either [OF reg] by (simp add: settled_def tracked_def)
      from mask_changed_settled [OF assms(2,3) _ this] rest True o(5) show ?thesis
        by (auto simp: tracked_def settled_def)
    qed
  qed
qed

end
