(* ===== verification/AdapterRuns.thy ===== *)
theory AdapterRuns
  imports AdapterTracking
begin

text \<open>
  The adapter as a system: its operations, the events of the service and the callbacks of the client in
  any order, and what holds of its subscription in all of them.
\<close>

section \<open>Steps\<close>

text \<open>The second argument tells whether the engine went off.\<close>

definition engine_off :: int where
  "engine_off = enumerator qmiLocEngineStateEnumT_v02 ''eQMI_LOC_ENGINE_STATE_OFF_V02''"

inductive adapter_step :: "'w adapter_env \<Rightarrow> bool \<Rightarrow> 'w adapter \<Rightarrow> 'w adapter \<Rightarrow> bool" for env where
  opens: "open_adapter env m a = Returns (x, a') \<Longrightarrow> adapter_step env False a a'"
| closes: "close_adapter env a = Returns (x, a') \<Longrightarrow> adapter_step env False a a'"
| engine: "reportEngineState env s a = Returns (x, a') \<Longrightarrow> adapter_step env (s = engine_off) a a'"
| power: "reportPowerStateChangeInfo env info a = Returns (x, a') \<Longrightarrow> adapter_step env False a a'"
| lock: "reportEngineLockStatus env s a = Returns (x, a') \<Longrightarrow> adapter_step env False a a'"
| error: "adapter_errorCb env e a = Returns (x, a') \<Longrightarrow> adapter_step env False a a'"
| starts: "startTimeBasedTracking env opts w a = Returns (x, a') \<Longrightarrow> adapter_step env False a a'"
| stops: "stopTimeBasedTracking env w a = Returns (x, a') \<Longrightarrow> adapter_step env False a a'"
| aiding: "requestForAidingData env d a = Returns (x, a') \<Longrightarrow> adapter_step env False a a'"
| energy: "getGnssEnergyConsumed env a = Returns (x, a') \<Longrightarrow> adapter_step env False a a'"
| requests: "locSyncSendReq env r a = Returns (x, a') \<Longrightarrow> req_msg r \<noteq> QMI_LOC_REG_EVENTS_REQ_V02 \<Longrightarrow>
    adapter_step env False a a'"
| indication: "locClientIndCb (qmi_library env) u i buf p (loc_client_state a) = Returns c \<Longrightarrow>
    adapter_step env False a (a\<lparr>loc_client_state := c\<rparr>)"

inductive adapter_reach :: "'w adapter_env \<Rightarrow> ('w \<Rightarrow> nat set) \<Rightarrow> 'w adapter \<Rightarrow> bool" for env live where
  created: "client_inv live c \<Longrightarrow> adapter_reach env live (LocApiV02_new env statics c)"
| stepped: "adapter_reach env live a \<Longrightarrow> adapter_step env ended a a' \<Longrightarrow> adapter_reach env live a'"

section \<open>Every step keeps the subscription\<close>

lemma sent_requests_differ:
  "QMI_LOC_SET_GNSS_CONSTELL_REPORT_CONFIG_V02 \<noteq> QMI_LOC_REG_EVENTS_REQ_V02"
  "QMI_LOC_REGISTER_MASTER_CLIENT_REQ_V02 \<noteq> QMI_LOC_REG_EVENTS_REQ_V02"
  "QMI_LOC_QUERY_AON_CONFIG_REQ_V02 \<noteq> QMI_LOC_REG_EVENTS_REQ_V02"
  "QMI_LOC_GET_SUPPORTED_FEATURE_REQ_V02 \<noteq> QMI_LOC_REG_EVENTS_REQ_V02"
  "QMI_LOC_GET_ENGINE_LOCK_REQ_V02 \<noteq> QMI_LOC_REG_EVENTS_REQ_V02"
  "QMI_LOC_SET_OPERATION_MODE_REQ_V02 \<noteq> QMI_LOC_REG_EVENTS_REQ_V02"
  "QMI_LOC_QUERY_GNSS_ENERGY_CONSUMED_REQ_V02 \<noteq> QMI_LOC_REG_EVENTS_REQ_V02"
  "QMI_LOC_START_REQ_V02 \<noteq> QMI_LOC_REG_EVENTS_REQ_V02"
  "QMI_LOC_STOP_REQ_V02 \<noteq> QMI_LOC_REG_EVENTS_REQ_V02"
  by code_simp+

lemma registered_cong:
  "loc_client_state a' = loc_client_state a \<Longrightarrow> clientHandle a' = clientHandle a \<Longrightarrow> registered a' = registered a"
  by (simp add: registered_def)

lemma tracked_cong:
  assumes "tracked live a" and "loc_client_state a' = loc_client_state a" and "clientHandle a' = clientHandle a"
    and "mQmiMask a' = mQmiMask a" and "mResenders a' = mResenders a"
  shows "tracked live a'"
proof -
  have "registered a' = registered a" by (rule registered_cong [OF assms(2,3)])
  then show ?thesis using assms by (simp add: tracked_def)
qed

lemma tracked_client:
  assumes "tracked live a" and "cb_heap c = cb_heap (loc_client_state a)" and "client_inv live c"
  shows "tracked live (a\<lparr>loc_client_state := c\<rparr>)"
proof -
  have "registered (a\<lparr>loc_client_state := c\<rparr>) = registered a" using assms(2) by (simp add: registered_def)
  then show ?thesis using assms(1,3) by (simp add: tracked_def)
qed

lemma support_check_client:
  assumes "locClientSupportMsgCheck ask h ms n statics s = Returns (st, r, statics', c)"
  shows "c = s \<or> (\<exists>u rc resp w. ask u (qmi s) = (rc, resp, w) \<and> c = s\<lparr>qmi := w\<rparr>)"
proof (cases "ms = None \<or> n \<or> isCheckedAlready statics")
  case True
  then show ?thesis using assms by (auto simp: locClientSupportMsgCheck_def split: if_splits)
next
  case False
  then obtain chk where chk: "check_handle h s = Returns chk"
    using assms by (auto simp: locClientSupportMsgCheck_def andthen_Returns)
  show ?thesis
  proof (cases chk)
    case None
    then show ?thesis using assms False chk by (auto simp: locClientSupportMsgCheck_def split: if_splits)
  next
    case (Some d)
    obtain rc resp w where a: "ask (userHandle d) (qmi s) = (rc, resp, w)" by (cases "ask (userHandle d) (qmi s)")
    then have "c = s\<lparr>qmi := w\<rparr>"
      using assms False chk Some by (auto simp: locClientSupportMsgCheck_def andthen_Returns split: if_splits)
    then show ?thesis using a by blast
  qed
qed

definition well_served :: "'w adapter_env \<Rightarrow> ('w \<Rightarrow> nat set) \<Rightarrow> bool" where
  "well_served env live \<longleftrightarrow> qmi_laws (qmi_library env) live \<and> requests_keep_client env live \<and> prompt env"

lemma request_keeps [keeping]:
  "well_served env live \<Longrightarrow> req_msg r \<noteq> QMI_LOC_REG_EVENTS_REQ_V02 \<Longrightarrow> keeps (tracked live) (locSyncSendReq env r)"
  by (simp add: well_served_def request_tracked)

lemma register_keeps [keeping]: "well_served env live \<Longrightarrow> keeps (tracked live) (registerEventMask env)"
  by (simp add: well_served_def register_tracked)

lemma base_keeps [keeping]: "keeps (tracked live) (calls_base c)"
  unfolding calls_base_def by (intro keeping) (auto intro: tracked_cong)

lemma respond_keeps [keeping]: "keeps (tracked live) (respond w e)"
  unfolding respond_def by (intro keeping)

lemma respond_keeps_with [keeping]: "keeps (tracked live) (\<lambda>a. respond w (f a) a)"
  by (rule keeps_with) (rule respond_keeps)

lemma prod_keeps [keeping]: "(\<And>x y. keeps P (k x y)) \<Longrightarrow> keeps P (case p of (x, y) \<Rightarrow> k x y)"
  by (cases p) simp

lemma send_other:
  assumes "locClientSendReq env h i p s = Returns (st, s')" and "i \<noteq> QMI_LOC_REG_EVENTS_REQ_V02"
  shows "cb_heap s' = cb_heap s"
  using assms(1)
proof (cases rule: send_cases)
  case (sent d x n r w)
  then show ?thesis using assms(2) by (simp add: update_mask_def split: option.splits)
qed auto

lemma send_request_keeps [keeping]:
  assumes "well_served env live" and "i \<noteq> QMI_LOC_REG_EVENTS_REQ_V02"
  shows "keeps (tracked live) (send_request env i p)"
  unfolding keeps_def
proof (intro allI impI)
  fix a x a'
  assume t: "tracked live a" and "send_request env i p a = Returns (x, a')"
  then obtain bs c where c: "locClientSendReq (qmi_library env) (clientHandle a) i bs (loc_client_state a) = Returns (x, c)"
    "a' = a\<lparr>loc_client_state := c\<rparr>"
    by (auto simp: send_request_def andthen_Returns)
  have "client_inv live c" using c(1) t assms(1) send_inv by (auto simp: well_served_def tracked_def)
  with c send_other [OF c(1) assms(2)] t show "tracked live a'" by (simp add: tracked_client)
qed

lemma constellation_keeps [keeping]:
  "well_served env live \<Longrightarrow> keeps (tracked live) (setSvMeasurementConstellation env m)"
  unfolding setSvMeasurementConstellation_def [abs_def]
  by (rule keeps_with, intro keeping) (simp_all add: sync_request_def sent_requests_differ)

lemma check_messages_keeps [keeping]:
  assumes "well_served env live"
  shows "keeps (tracked live) (check_messages env)"
  unfolding keeps_def
proof (intro allI impI)
  fix a x a'
  assume t: "tracked live a" and "check_messages env a = Returns (x, a')"
  then obtain st r statics c where
    c: "locClientSupportMsgCheck (ask_supported env) (clientHandle a) (Some checked_messages) False
      (support_statics a) (loc_client_state a) = Returns (st, r, statics, c)"
    "a' = a\<lparr>loc_client_state := c, support_statics := statics\<rparr>"
    by (auto simp: check_messages_def andthen_Returns)
  have "same_client live (loc_client_state a) c"
    using support_check_client [OF c(1)] assms
    by (auto simp: same_client_def well_served_def requests_keep_client_def)
  then have "cb_heap c = cb_heap (loc_client_state a)" "client_inv live c"
    using t same_client_inv by (auto simp: same_client_def tracked_def)
  with tracked_client [OF t this] show "tracked live a'" unfolding c(2) by (auto intro: tracked_cong)
qed

lemma query_service_keeps [keeping]:
  assumes "well_served env live"
  shows "keeps (tracked live) (query_service env)"
  unfolding query_service_def registerMasterClient_def cacheGnssMeasurementSupport_def query_aon_def
    query_features_def getEngineLockStateSync_def Let_def
  by (intro keeping assms) (auto simp: sync_request_def sent_requests_differ intro: tracked_cong)

lemma open_client_tracked:
  assumes "well_served env live" and "tracked live a" and "clientHandle a = 0"
    and "open_client env a = Returns (status, a1)"
  shows "if status \<noteq> eLOC_CLIENT_SUCCESS \<or> clientHandle a1 = 0
         then client_inv live (loc_client_state a1) \<and> clientHandle a1 = 0 \<and> no_registrations (mResenders a1)
         else tracked live a1"
proof -
  from assms(4) obtain h c where
    o: "locClientOpen (qmi_library env) (emulator_config env) (target env) 0 (Some (globalCallbacks env)) (Some 0)
        (this_address env) (loc_client_state a) = Returns (status, h, c)"
    and a1: "a1 = a\<lparr>loc_client_state := c, clientHandle := (case h of None \<Rightarrow> 0 | Some v \<Rightarrow> v)\<rparr>"
    by (auto simp: open_client_def andthen_Returns)
  have laws: "qmi_laws (qmi_library env) live" and inv: "client_inv live (loc_client_state a)"
    and q: "mQmiMask a = 0" "no_registrations (mResenders a)"
    using assms(1-3) by (auto simp: well_served_def tracked_def)
  have inv': "client_inv live c" by (rule open_inv [OF laws inv o])
  show ?thesis
  proof (cases "load_qmi_symbols (qmi_library env) (qmi (loc_client_state a))")
    case False
    then show ?thesis using o inv' q by (auto simp: locClientOpen_def a1)
  next
    case True
    with o have "open_loop (qmi_library env) 0 (service_instance (emulator_config env) (target env))
        (Some (globalCallbacks env)) (this_address env) LOC_CLIENT_MAX_OPEN_RETRIES (Some 0) (loc_client_state a)
        = Returns (status, h, c)"
      by (simp add: locClientOpen_def)
    from open_loop_inv [OF laws inv this] inv' q show ?thesis
      by (auto simp: a1 tracked_def registered_def opened_def split: if_splits)
  qed
qed

lemma subscribe_keeps [keeping]: "well_served env live \<Longrightarrow> keeps (tracked live) (subscribe env m)"
  unfolding subscribe_def by (intro keeping) (auto intro: tracked_cong)

lemma open_keeps:
  assumes "well_served env live"
  shows "keeps (tracked live) (open_adapter env m)"
  unfolding keeps_def
proof (intro allI impI)
  fix a x a'
  assume t: "tracked live a" and o: "open_adapter env m a = Returns (x, a')"
  let ?m = "m AND NOT (mExcludedMask env)"
  show "tracked live a'"
  proof (cases "clientHandle a = 0")
    case False
    then have "after (subscribe env ?m) (\<lambda>_. gives True) a = Returns (x, a')"
      using o by (simp add: open_adapter_def)
    moreover have "keeps (tracked live) (after (subscribe env ?m) (\<lambda>_. gives True))"
      by (intro keeping assms)
    ultimately show ?thesis using t by (blast dest: keepsD)
  next
    case True
    then obtain status a1 where c: "open_client env a = Returns (status, a1)"
      and r: "(if status \<noteq> eLOC_CLIENT_SUCCESS \<or> clientHandle a1 = 0
        then Returns (False, a1\<lparr>mMask := 0, mNmeaMask := 0, mQmiMask := 0\<rparr>)
        else after (query_service env) (\<lambda>status'.
          if status' = eLOC_CLIENT_SUCCESS then after (subscribe env ?m) (\<lambda>_. gives True)
          else gives True) a1) = Returns (x, a')"
      using o by (auto simp: open_adapter_def Let_def after_Returns)
    note t1 = open_client_tracked [OF assms t True c]
    show ?thesis
    proof (cases "status \<noteq> eLOC_CLIENT_SUCCESS \<or> clientHandle a1 = 0")
      case True
      then show ?thesis using t1 r by (auto simp: tracked_def split: if_splits)
    next
      case False
      moreover have "keeps (tracked live) (after (query_service env) (\<lambda>status'.
          if status' = eLOC_CLIENT_SUCCESS then after (subscribe env ?m) (\<lambda>_. gives True) else gives True))"
        by (intro keeping assms)
      ultimately show ?thesis using t1 r by (auto dest: keepsD)
    qed
  qed
qed

lemma close_keeps:
  assumes "well_served env live"
  shows "keeps (tracked live) (close_adapter env)"
  using assms close_inv unfolding keeps_def
  by (fastforce simp: close_adapter_def Let_def andthen_Returns tracked_def well_served_def split: if_splits)

lemma resend_keeps [keeping]:
  "well_served env live \<Longrightarrow> no_registrations rs \<Longrightarrow> keeps (tracked live) (resend_all env rs)"
  by (induction rs)
    (auto simp: no_registrations_def well_served_def intro!: keeping sync_send_tracked)

lemma engine_keeps [keeping]:
  assumes "well_served env live"
  shows "keeps (tracked live) (update_engine_state env b)"
  unfolding keeps_def
proof (intro allI impI)
  fix a x a'
  assume t: "tracked live a" and u: "update_engine_state env b a = Returns (x, a')"
  let ?a = "(if mEngineOn a \<noteq> b then a\<lparr>mFirstMeasurementOfSessionReceived := False\<rparr> else a)\<lparr>mEngineOn := b\<rparr>"
  have t1: "tracked live ?a" by (rule tracked_cong [OF t]) simp_all
  have "no_registrations (mResenders ?a)" using t1 by (simp add: tracked_def)
  then have "keeps (tracked live) (after (resend_all env (mResenders ?a)) (\<lambda>_.
      after (changes (\<lambda>a2. a2\<lparr>mResenders := []\<rparr>)) (\<lambda>_. registerEventMask env)))"
    by (intro keeping assms) (auto simp: tracked_def registered_def no_registrations_def)
  then show "tracked live a'"
    using t1 u by (auto simp: update_engine_state_def Let_def split: if_splits dest: keepsD)
qed

lemma step_keeps:
  assumes "well_served env live" and "adapter_step env ended a a'" and "tracked live a"
  shows "tracked live a'"
  using assms(2,3)
proof cases
  case (opens m x)
  then show ?thesis using assms(3) by (blast dest: keepsD [OF open_keeps [OF assms(1)]])
next
  case (closes x)
  then show ?thesis using assms(3) by (blast dest: keepsD [OF close_keeps [OF assms(1)]])
next
  case (engine s x)
  moreover have "keeps (tracked live) (reportEngineState env s)"
    unfolding reportEngineState_def by (intro keeping assms)
  ultimately show ?thesis using assms(3) by (blast dest: keepsD)
next
  case (power info x)
  moreover have "keeps (tracked live) (reportPowerStateChangeInfo env info)"
    unfolding reportPowerStateChangeInfo_def by (intro keeping assms) (auto intro: tracked_cong)
  ultimately show ?thesis using assms(3) by (blast dest: keepsD)
next
  case (lock s x)
  moreover have "keeps (tracked live) (reportEngineLockStatus env s)"
    unfolding reportEngineLockStatus_def Let_def keeps_def
    by (auto simp: after_Returns changes_def calls_base_def intro: tracked_cong split: if_splits)
  ultimately show ?thesis using assms(3) by (blast dest: keepsD)
next
  case (error e x)
  moreover have "keeps (tracked live) (adapter_errorCb env e)"
    unfolding adapter_errorCb_def by (intro keeping)
  ultimately show ?thesis using assms(3) by (blast dest: keepsD)
next
  case (starts opts w x)
  moreover have "keeps (tracked live) (startTimeBasedTracking env opts w)"
    unfolding startTimeBasedTracking_def setOperationMode_def Let_def
    by (intro keeping assms) (auto simp: sync_request_def sent_requests_differ intro: tracked_cong)
  ultimately show ?thesis using assms(3) by (blast dest: keepsD)
next
  case (stops w x)
  moreover have "keeps (tracked live) (stopTimeBasedTracking env w)"
    unfolding stopTimeBasedTracking_def
    by (intro keeping assms) (auto simp: sent_requests_differ intro: tracked_cong)
  ultimately show ?thesis using assms(3) by (blast dest: keepsD)
next
  case (aiding d x)
  moreover have "keeps (tracked live) (requestForAidingData env d)"
    unfolding requestForAidingData_def sendRequestForAidingData_def Let_def
    by (intro keeping assms) (auto simp: sync_request_def sent_requests_differ)
  ultimately show ?thesis using assms(3) by (blast dest: keepsD)
next
  case (energy x)
  moreover have "keeps (tracked live) (getGnssEnergyConsumed env)"
    unfolding getGnssEnergyConsumed_def energy_request_def
    by (intro keeping assms) (auto simp: sync_request_def sent_requests_differ)
  ultimately show ?thesis using assms(3) by (blast dest: keepsD)
next
  case (requests r x)
  then show ?thesis using assms(3) by (blast dest: keepsD [OF request_keeps [OF assms(1)]])
next
  case (indication u i buf p c)
  have "client_inv live c" using ind_inv indication(3) assms by (auto simp: well_served_def tracked_def)
  then show ?thesis using tracked_client [OF assms(3)] ind_same [OF indication(3)] indication(2) by simp
qed

lemma reach_tracked:
  assumes "well_served env live" and "adapter_reach env live a"
  shows "tracked live a"
  using assms(2)
proof induction
  case (created c statics)
  then show ?case by (simp add: tracked_def LocApiV02_new_def no_registrations_def)
next
  case (stepped a a')
  then show ?case using step_keeps [OF assms(1)] by blast
qed

end
