(* ===== verification/AdapterSubscription.thy ===== *)
theory AdapterSubscription
  imports AdapterRuns "HOL-Library.Sublist"
begin

unbundle bit_operations_syntax

text \<open>
  What holds of the adapter's subscription to events, and of the requests the engine was too busy for.
\<close>

section \<open>An adapter for the witnesses\<close>

text \<open>Requests sent by the client as \<open>LocClient\<close> has it leave the client as the adapter relies on.\<close>

definition sync_over_client :: "'w qmi_env \<Rightarrow> (request \<Rightarrow> 8 word list option) \<Rightarrow> (request \<Rightarrow> locClientStatusEnumType \<times> struct)
    \<Rightarrow> addr \<Rightarrow> request \<Rightarrow> 'w loc_client \<Rightarrow> ((locClientStatusEnumType \<times> struct) \<times> 'w loc_client) outcome" where
  "sync_over_client qenv encode answer h r c =
     andthen (locClientSendReq qenv h (req_msg r) (encode r) c) (\<lambda>(status, c').
     Returns (if status = eLOC_CLIENT_SUCCESS then answer r else (status, fresh), c'))"

lemma sync_over_client_keeps:
  assumes "qmi_laws qenv live" and "req_msg r \<noteq> QMI_LOC_REG_EVENTS_REQ_V02"
    and "sync_over_client qenv encode answer h r c = Returns (a, c')"
  shows "same_client live c c'"
proof -
  from assms(3) obtain st where s: "locClientSendReq qenv h (req_msg r) (encode r) c = Returns (st, c')"
    by (auto simp: sync_over_client_def andthen_Returns)
  from send_same [OF s] send_live [OF assms(1) s] send_other [OF s assms(2)] show ?thesis
    by (simp add: same_client_def same_but_mask_def)
qed

definition busy_answer :: "locClientStatusEnumType \<times> struct" where
  "busy_answer = (eLOC_CLIENT_SUCCESS, fresh(''status'' := Num 4))"

definition demo_adapter :: "(request \<Rightarrow> locClientStatusEnumType \<times> struct) \<Rightarrow> nat list adapter_env" where
  "demo_adapter answer = \<lparr>qmi_library = demo_env, emulator_config = 0, target = GNSS_other,
     sync_send = (\<lambda>h r c. Returns (answer r, c)),
     ask_supported = (\<lambda>u w. (0, demo_resp, w)),
     hal = (\<lambda>n. if n = ''LOC_API_ADAPTER_BIT_REQUEST_WIFI'' then 1 else 0),
     built_for_android = False, isMaster = False, mExcludedMask = 0, gnssConstellationConfig = False,
     isMessageSupported = (\<lambda>c n. False), isFeatureSupported = (\<lambda>c n. False),
     globalCallbacks = demo_cbs, this_address = 7\<rparr>"

definition ready_adapter :: "nat list adapter_env" where
  "ready_adapter = demo_adapter (\<lambda>r. (eLOC_CLIENT_SUCCESS, fresh))"

lemma ready_adapter_served: "well_served ready_adapter set"
  using demo_laws
  by (auto simp: ind_status_def well_served_def requests_keep_client_def prompt_def ready_adapter_def demo_adapter_def
      same_client_def engine_busy_def fresh_def)

text \<open>The library of the witnesses accepts every registration of a live handle.\<close>

lemma register_valid: "\<exists>n. validateRequest QMI_LOC_REG_EVENTS_REQ_V02 (Some p) = Some (Some p, n)"
  by (simp add: validateRequest_def request_sizes_def request_sizes_0_def QMI_LOC_REG_EVENTS_REQ_V02_def
      QMI_LOC_INFORM_CLIENT_REVISION_REQ_V02_def)

lemma demo_register:
  assumes "check_handle h s = Returns (Some d)"
  shows "locClientRegisterEventMask demo_env h m b s
    = Returns (True, s\<lparr>cb_heap := (cb_heap s)(h \<mapsto> d\<lparr>eventRegMask := m\<rparr>)\<rparr>)"
proof -
  let ?str = "if b then MASTER_HAL_string else HAL_string"
  have "(0 :: 8 word) \<in> set ?str" "length (cstring ?str) \<le> 4"
    by (simp_all add: MASTER_HAL_string_def HAL_string_def cstring_def)
  with strlcpy_cut [of ?str 5 "replicate 5 0"] obtain out n where
    out: "strlcpy (replicate 5 0) ?str 5 = Returns (out, n)" "length out = 5" by auto
  from register_valid [of "regEventsReq_struct m out"]
  obtain k where v: "validateRequest QMI_LOC_REG_EVENTS_REQ_V02 (Some (regEventsReq_struct m out))
      = Some (Some (regEventsReq_struct m out), k)" ..
  have loop: "send_sync_loop demo_env u i x l (Suc j) r w = (Inr \<lparr>result = 0, error = 0\<rparr>, w)" for u i x l j r w
    by (simp add: demo_env_def QMI_NO_ERR_def QMI_SERVICE_ERR_def QMI_ERR_SESSION_OWNERSHIP_V01_def)
  have fifty: "LOC_CLIENT_MAX_SYNC_RETRIES = Suc 49" by (simp add: LOC_CLIENT_MAX_SYNC_RETRIES_def)
  have loop': "send_sync_loop demo_env u i x l LOC_CLIENT_MAX_SYNC_RETRIES r w
      = (Inr \<lparr>result = 0, error = 0\<rparr>, w)" for u i x l r w unfolding fifty by (rule loop)
  have "cb_heap s h = Some d" using assms by (simp add: check_handle_Some)
  then show ?thesis
    using out v assms reg_events_fields(1) [OF out(2), of m]
    by (simp add: locClientRegisterEventMask_def QMI_LOC_MAX_CLIENT_ID_STRING_LENGTH_V02_def locClientSendReq_def
        loop' Let_def convertQmiResponseToLocStatus_def QMI_RESULT_SUCCESS_V01_def update_mask_def)
qed

definition no_check :: support_cache where "no_check = \<lparr>isCheckedAlready = False, supportedMsgChecked = 0\<rparr>"

definition new_adapter :: "nat list adapter" where
  "new_adapter = LocApiV02_new ready_adapter no_check (client_start [])"

text \<open>An adapter whose handle is live.\<close>

definition connected_adapter :: "nat list adapter \<Rightarrow> bool" where
  "connected_adapter a \<longleftrightarrow> (\<exists>d. check_handle (clientHandle a) (loc_client_state a) = Returns (Some d))"

lemma demo_register_succeeds [succeeding]:
  "succeeds connected_adapter (register_mask (demo_adapter answer) m)"
  unfolding succeeds_def
proof (intro allI impI)
  fix a assume "connected_adapter a"
  then obtain d where d: "check_handle (clientHandle a) (loc_client_state a) = Returns (Some d)"
    by (auto simp: connected_adapter_def)
  show "\<exists>x a'. register_mask (demo_adapter answer) m a = Returns (x, a') \<and> connected_adapter a'"
    using demo_register [OF d] d
    by (auto simp: register_mask_def demo_adapter_def connected_adapter_def check_handle_Some)
qed

lemma demo_request_succeeds [succeeding]:
  "succeeds connected_adapter (locSyncSendReq (demo_adapter answer) r)"
proof -
  have "succeeds connected_adapter (loc_sync_send (demo_adapter answer) r)"
    by (simp add: succeeds_def loc_sync_send_def demo_adapter_def connected_adapter_def)
  moreover have "succeeds connected_adapter (keep_request (demo_adapter answer) r)"
    unfolding keep_request_def [abs_def] Let_def
    by (rule succeeds_with, intro succeeding) (simp add: connected_adapter_def)
  ultimately show ?thesis unfolding locSyncSendReq_def by (intro succeeding)
qed

lemma demo_base_succeeds [succeeding]: "succeeds connected_adapter (calls_base c)"
  unfolding calls_base_def by (intro succeeding) (simp add: connected_adapter_def)

lemma demo_constellation_succeeds [succeeding]:
  "succeeds connected_adapter (setSvMeasurementConstellation (demo_adapter answer) m)"
  unfolding setSvMeasurementConstellation_def [abs_def] by (rule succeeds_with, intro succeeding)

lemma demo_mask_changed_succeeds [succeeding]:
  "succeeds connected_adapter (mask_changed (demo_adapter answer) m old)"
  unfolding mask_changed_def Let_def wifiStatusInformSync_def LOC_SEND_SYNC_REQ_def
  by (intro succeeding) (simp add: connected_adapter_def)

lemma demo_events_succeeds [succeeding]:
  "succeeds connected_adapter (registerEventMask (demo_adapter answer))"
proof -
  have "succeeds connected_adapter (\<lambda>a. (if c a then gives () else after (register_mask (demo_adapter answer) (w a))
     (\<lambda>ok. if ok then mask_changed (demo_adapter answer) (w a) (q a) else gives ())) a)" for c w q
    by (rule succeeds_with) (intro succeeding)
  from this [of "\<lambda>a. wanted_mask (demo_adapter answer) a = mQmiMask a" "wanted_mask (demo_adapter answer)" mQmiMask]
  show ?thesis by (simp add: registerEventMask_def [abs_def] Let_def if_distribR)
qed


lemma demo_adapter_fields [simp]:
  "calloc_fails demo_env w = False" "load_qmi_symbols demo_env w = True"
  "qmi_client_notifier_init demo_env w = (0, True, w)"
  "qmi_client_get_service_instance demo_env i w = (0, w)"
  "qmi_client_get_any_service demo_env w = (0, w)"
  "qmi_client_init demo_env p w = (0, Suc (sum_list w), Suc (sum_list w) # w)"
  "qmi_client_register_error_cb demo_env u p w = (0, w)"
  "release_notifier demo_env w = w"
  by (simp_all add: demo_env_def)

lemma demo_instance:
  "\<exists>s'. locClientOpenInstance demo_env m i (Some demo_cbs) (Some 0) 7 (client_start []) =
     Returns (eLOC_CLIENT_SUCCESS, Some 1, s') \<and> (\<exists>d. check_handle 1 s' = Returns (Some d))"
proof -
  have get: "loc_get_service_object_v02 = Some loc_qmi_idl_service_object_v02"
    by (simp add: loc_get_service_object_v02_def loc_get_service_object_internal_v02_def)
  have found: "find_service demo_env i w = Some w" for w
    by (subst find_service.simps) (simp add: QMI_NO_ERR_def Let_def)
  let ?s = "client_start [] :: nat list loc_client"
  let ?t = "(alloc_cb ?s)\<lparr>qmi := [1], control_points := [(1, 1)],
     cb_heap := (cb_heap (alloc_cb ?s))(1 := Some (zero_cb\<lparr>userHandle := 1\<rparr>))\<rparr>"
  have "locClientQmiCtrlPointInit demo_env 1 i (alloc_cb ?s) = Returns (eLOC_CLIENT_SUCCESS, ?t)"
    by (simp add: locClientQmiCtrlPointInit_def get found QMI_NO_ERR_def connect_client_def
        alloc_cb_def client_start_def Let_def)
  moreover have "check_handle 1 (set_cb 1 (pMe_update (\<lambda>_. 1)) ?t)
      = Returns (Some (zero_cb\<lparr>userHandle := 1, pMe := 1\<rparr>))"
    by (simp add: check_handle_def set_cb_def)
  ultimately show ?thesis
    using demo_register [of 1 "set_cb 1 (pMe_update (\<lambda>_. 1)) ?t"]
    by (simp add: locClientOpenInstance_def open_params_ok_def demo_cbs_def sizeof_locClientCallbacksType_def
        align_up_def client_start_def Let_def check_handle_def set_cb_def fill_cb_def)
qed

lemma demo_opens:
  "\<exists>a. open_client (demo_adapter answer) (LocApiV02_new (demo_adapter answer') no_check (client_start [])) =
     Returns (eLOC_CLIENT_SUCCESS, a) \<and> connected_adapter a \<and> clientHandle a = 1"
proof -
  obtain s' where o: "locClientOpenInstance demo_env 0 (-1) (Some demo_cbs) (Some 0) 7 (client_start []) =
     Returns (eLOC_CLIENT_SUCCESS, Some 1, s')" "\<exists>d. check_handle 1 s' = Returns (Some d)"
    using demo_instance by blast
  have twenty: "LOC_CLIENT_MAX_OPEN_RETRIES = Suc 19" by (simp add: LOC_CLIENT_MAX_OPEN_RETRIES_def)
  have "locClientOpen demo_env 0 GNSS_other 0 (Some demo_cbs) (Some 0) 7 (client_start []) =
     Returns (eLOC_CLIENT_SUCCESS, Some 1, s')"
    unfolding locClientOpen_def twenty open_loop.simps
    using o(1) by (simp add: service_instance_def eLOC_CLIENT_INSTANCE_ID_ANY_def)
  then show ?thesis
    using o(2) by (simp add: open_client_def demo_adapter_def LocApiV02_new_def connected_adapter_def)
qed

lemma demo_messages_succeed [succeeding]: "succeeds connected_adapter (check_messages (demo_adapter answer))"
  unfolding succeeds_def
proof (intro allI impI)
  fix a assume c: "connected_adapter a"
  have "resp_ok demo_resp" by (simp add: resp_ok_def demo_resp_def)
  have bits: "\<exists>r. check_msgs demo_resp 0 ids 0 = Returns r" if "length ids \<le> 3" for ids
  proof -
    have "0 + length ids \<le> 31" using that by simp
    from check_msgs_bits [OF \<open>resp_ok demo_resp\<close> this] show ?thesis by metis
  qed
  let ?n = "min (min (length checked_messages) (supported_msgs_len demo_resp)) 64"
  have "length checked_messages = 3" by (simp add: checked_messages_def)
  then have "length (take ?n checked_messages) \<le> 3" using length_take [of ?n checked_messages] by linarith
  from bits [OF this] have "\<exists>r. checkQmiMsgsSupported checked_messages demo_resp = Returns r"
    unfolding checkQmiMsgsSupported_def by (cases "supported_msgs_valid demo_resp") metis+
  then obtain r where r: "checkQmiMsgsSupported checked_messages demo_resp = Returns r" ..
  obtain d where d: "check_handle (clientHandle a) (loc_client_state a) = Returns (Some d)"
    using c by (auto simp: connected_adapter_def)
  have ok: "convertQmiResponseToLocStatus (supp_result demo_resp) = eLOC_CLIENT_SUCCESS"
    by (simp add: demo_resp_def convertQmiResponseToLocStatus_def QMI_RESULT_SUCCESS_V01_def)
  have ask: "ask_supported (demo_adapter answer) u w = (QMI_NO_ERR, demo_resp, w)" for u w
    by (simp add: demo_adapter_def QMI_NO_ERR_def)
  show "\<exists>x a'. check_messages (demo_adapter answer) a = Returns (x, a') \<and> connected_adapter a'"
    using d by (cases "isCheckedAlready (support_statics a)")
      (simp_all add: check_messages_def locClientSupportMsgCheck_def r ok ask connected_adapter_def)
qed

lemma demo_query_succeeds [succeeding]: "succeeds connected_adapter (query_service (demo_adapter answer))"
  unfolding query_service_def registerMasterClient_def cacheGnssMeasurementSupport_def query_aon_def
    query_features_def getEngineLockStateSync_def Let_def
  by (intro succeeding) (simp_all add: connected_adapter_def)

text \<open>So opening an adapter on that library succeeds, and leaves a live handle.\<close>

lemma demo_adapter_opens:
  "\<exists>a. open_adapter (demo_adapter answer) m (LocApiV02_new (demo_adapter answer') no_check (client_start [])) =
     Returns (True, a) \<and> connected_adapter a"
proof -
  let ?a = "LocApiV02_new (demo_adapter answer') no_check (client_start [])"
  obtain a1 where o: "open_client (demo_adapter answer) ?a = Returns (eLOC_CLIENT_SUCCESS, a1)"
    "connected_adapter a1" "clientHandle a1 = 1"
    using demo_opens by blast
  have new: "clientHandle ?a = 0" by (simp add: LocApiV02_new_def)
  let ?m = "m AND NOT (mExcludedMask (demo_adapter answer))"
  let ?rest = "after (query_service (demo_adapter answer)) (\<lambda>st.
     if st = eLOC_CLIENT_SUCCESS then after (subscribe (demo_adapter answer) ?m) (\<lambda>_. gives True) else gives True)"
  have "succeeds connected_adapter ?rest"
    unfolding subscribe_def by (intro succeeding) (simp add: connected_adapter_def)
  with o(2) obtain x a where r: "?rest a1 = Returns (x, a)" "connected_adapter a"
    unfolding succeeds_def by blast
  have "x = True" using r(1) by (auto simp: after_Returns gives_def split: if_splits)
  moreover have "open_adapter (demo_adapter answer) m ?a = ?rest a1"
    using o(1,3) by (simp add: open_adapter_def new after_def [of "open_client (demo_adapter answer)"])
  ultimately show ?thesis using r by auto
qed

lemma connected_live: "connected_adapter a \<Longrightarrow> clientHandle a \<noteq> 0"
  by (auto simp: connected_adapter_def check_handle_Some)

section \<open>The subscription\<close>

text \<open>C13: as long as the requests that a registration itself sends do not find the engine busy, what the service was
  told to send is, in every reachable state of an open adapter, what the adapter believes, with at most the
  state of the engine added.\<close>

theorem subscription_tracked:
  assumes "well_served env live" and "adapter_reach env live a" and "clientHandle a \<noteq> 0"
  shows "registered a = Some (mQmiMask a) \<or>
    registered a = Some (mQmiMask a OR event_bit ''QMI_LOC_EVENT_MASK_ENGINE_STATE_V02'')"
  using reach_tracked [OF assms(1,2)] assms(3) by (simp add: tracked_def)

theorem subscription_tracked_witness:
  "\<exists>a. open_adapter ready_adapter 3 new_adapter = Returns (True, a) \<and> clientHandle a \<noteq> 0 \<and>
     (registered a = Some (mQmiMask a) \<or>
      registered a = Some (mQmiMask a OR event_bit ''QMI_LOC_EVENT_MASK_ENGINE_STATE_V02''))"
proof -
  obtain a where a: "open_adapter ready_adapter 3 new_adapter = Returns (True, a)" "connected_adapter a"
    using demo_adapter_opens unfolding ready_adapter_def new_adapter_def by blast
  have "client_inv set (client_start [] :: nat list loc_client)"
    by (simp add: client_inv_def client_start_def live_ok_def cb_ok_def)
  then have "adapter_reach ready_adapter set new_adapter" unfolding new_adapter_def by (rule created)
  from stepped [OF this opens [OF a(1)]] have "adapter_reach ready_adapter set a" .
  from subscription_tracked [OF ready_adapter_served this connected_live [OF a(2)]] a connected_live [OF a(2)]
  show ?thesis by blast
qed

section \<open>Requests that find the engine busy\<close>

text \<open>A request joins the line at its end; only the end of the engine's work empties the line. What was sent stays
  sent.\<close>

abbreviation waiting :: "request list \<Rightarrow> request list \<Rightarrow> 'w adapter \<Rightarrow> bool" where
  "waiting q s a \<equiv> prefix q (mResenders a) \<and> prefix s (requests_sent a)"

lemma sent_waiting [keeping]: "keeps (waiting q s) (loc_sync_send env r)"
  by (auto simp: keeps_def loc_sync_send_def andthen_Returns intro: prefix_order.trans)

lemma register_waiting [keeping]: "keeps (waiting q s) (register_mask env m)"
  by (auto simp: keeps_def register_mask_Returns)

lemma keep_waiting [keeping]: "keeps (waiting q s) (keep_request env r)"
  unfolding keep_request_def [abs_def] Let_def
  by (rule keeps_with, intro keeping) (auto intro: prefix_order.trans)

lemma request_waiting [keeping]: "keeps (waiting q s) (locSyncSendReq env r)"
  unfolding locSyncSendReq_def by (intro keeping)

lemma base_waiting [keeping]: "keeps (waiting q s) (calls_base c)"
  unfolding calls_base_def by (intro keeping) simp

lemma constellation_waiting [keeping]: "keeps (waiting q s) (setSvMeasurementConstellation env m)"
  unfolding setSvMeasurementConstellation_def [abs_def] by (rule keeps_with, intro keeping prod_keeps)

lemma events_waiting [keeping]: "keeps (waiting q s) (registerEventMask env)"
proof -
  have "keeps (waiting q s) (\<lambda>a. (if c a then gives () else after (register_mask env (w a))
     (\<lambda>ok. if ok then mask_changed env (w a) (p a) else gives ())) a)" for c w p
    unfolding mask_changed_def Let_def wifiStatusInformSync_def LOC_SEND_SYNC_REQ_def
    by (rule keeps_with) (intro keeping; simp)
  from this [of "\<lambda>a. wanted_mask env a = mQmiMask a" "wanted_mask env" mQmiMask]
  show ?thesis by (simp add: registerEventMask_def [abs_def] Let_def if_distribR)
qed

lemma send_request_waiting [keeping]: "keeps (waiting q s) (send_request env i p)"
  by (auto simp: keeps_def send_request_def andthen_Returns)

lemma respond_waiting [keeping]: "keeps (waiting q s) (respond w e)" "keeps (waiting q s) (\<lambda>a. respond w (f a) a)"
  unfolding respond_def by (intro keeping, rule keeps_with, intro keeping)

lemma check_waiting [keeping]: "keeps (waiting q s) (check_messages env)"
  by (auto simp: keeps_def check_messages_def andthen_Returns)

lemma query_waiting [keeping]: "keeps (waiting q s) (query_service env)"
  unfolding query_service_def registerMasterClient_def cacheGnssMeasurementSupport_def query_aon_def
    query_features_def getEngineLockStateSync_def Let_def
  by (intro keeping) simp_all

lemma subscribe_waiting [keeping]: "keeps (waiting q s) (subscribe env m)"
  unfolding subscribe_def by (intro keeping) simp

lemma open_client_waiting [keeping]: "keeps (waiting q s) (open_client env)"
  by (auto simp: keeps_def open_client_def andthen_Returns)

lemma open_waiting: "keeps (waiting q s) (open_adapter env m)"
  unfolding open_adapter_def [abs_def] Let_def by (intro keeping) (simp add: keeps_def)

lemma close_waiting: "keeps (waiting q s) (close_adapter env)"
  by (auto simp: keeps_def close_adapter_def Let_def andthen_Returns)

lemma step_waiting:
  assumes "adapter_step env False a a'" and "waiting q s a"
  shows "waiting q s a'"
  using assms
proof cases
  case (engine s x)
  then have "s \<noteq> engine_off" by simp
  then show ?thesis using engine assms(2)
    by (auto simp: reportEngineState_def engine_off_def update_engine_state_def Let_def gives_def split: if_splits)
next
  case (power info x)
  moreover have "keeps (waiting q s) (reportPowerStateChangeInfo env info)"
    unfolding reportPowerStateChangeInfo_def by (intro keeping) simp
  ultimately show ?thesis using assms(2) by (blast dest: keepsD)
next
  case (lock s x)
  then show ?thesis using assms(2)
    by (auto simp: reportEngineLockStatus_def Let_def after_Returns changes_def calls_base_def split: if_splits)
next
  case (error e x)
  moreover have "keeps (waiting q s) (adapter_errorCb env e)" unfolding adapter_errorCb_def by (intro keeping)
  ultimately show ?thesis using assms(2) by (blast dest: keepsD)
next
  case (starts opts w x)
  moreover have "keeps (waiting q s) (startTimeBasedTracking env opts w)"
    unfolding startTimeBasedTracking_def setOperationMode_def Let_def by (intro keeping) simp_all
  ultimately show ?thesis using assms(2) by (blast dest: keepsD)
next
  case (stops w x)
  moreover have "keeps (waiting q s) (stopTimeBasedTracking env w)"
    unfolding stopTimeBasedTracking_def by (intro keeping) simp_all
  ultimately show ?thesis using assms(2) by (blast dest: keepsD)
next
  case (aiding d x)
  moreover have "keeps (waiting q s) (requestForAidingData env d)"
    unfolding requestForAidingData_def sendRequestForAidingData_def Let_def by (intro keeping)
  ultimately show ?thesis using assms(2) by (blast dest: keepsD)
next
  case (energy x)
  moreover have "keeps (waiting q s) (getGnssEnergyConsumed env)"
    unfolding getGnssEnergyConsumed_def by (intro keeping)
  ultimately show ?thesis using assms(2) by (blast dest: keepsD)
next
  case (opens m x)
  then show ?thesis using assms(2) by (blast dest: keepsD [OF open_waiting])
next
  case (closes x)
  then show ?thesis using assms(2) by (blast dest: keepsD [OF close_waiting])
next
  case (requests r x)
  then show ?thesis using assms(2) by (blast dest: keepsD [OF request_waiting])
next
  case (indication u i buf p c)
  then show ?thesis using assms(2) by simp
qed

text \<open>The copy of a request that is sent again.\<close>

definition copied :: "request \<Rightarrow> request" where
  "copied r = r\<lparr>req_payload := (case validateRequest (req_msg r) (req_payload r) of
     Some (p, n) \<Rightarrow> p | None \<Rightarrow> None)\<rparr>"

lemma sent_lines:
  "loc_sync_send env r a = Returns (x, a') \<Longrightarrow>
   mResenders a' = mResenders a \<and> requests_sent a' = requests_sent a @ [r]"
  by (auto simp: loc_sync_send_def andthen_Returns)

lemma busy_kept:
  assumes "locSyncSendReq env r a = Returns (answer, a1)" and "engine_busy r answer"
    and "malloc_fails (qmi_library env) = (\<lambda>w. False)"
  shows "mResenders a1 = mResenders a @ [copied r]"
proof -
  from assms(1) obtain answer' a0 where s: "loc_sync_send env r a = Returns (answer', a0)"
    and k: "(if engine_busy r answer' then after (keep_request env r) (\<lambda>_. gives answer') else gives answer') a0
      = Returns (answer, a1)"
    by (auto simp: locSyncSendReq_def after_Returns)
  have "answer' = answer" using k by (auto simp: after_Returns gives_def split: if_splits)
  with k assms(2) obtain ok b where
    r: "(if resumed a0 \<and> mResenders a0 = [] \<and> mQmiMask a0 AND engine_state_bit = 0
      then register_mask env (mQmiMask a0 OR engine_state_bit) else gives True) a0 = Returns (ok, b)"
    and a1: "a1 = b\<lparr>mResenders := mResenders b @ kept_request env r b\<rparr>"
    by (auto simp: keep_request_def Let_def after_Returns gives_def changes_def)
  have "mResenders b = mResenders a0"
    using r by (auto simp: register_mask_Returns gives_def split: if_splits)
  moreover have "kept_request env r b = [copied r]"
    using assms(3) by (auto simp: kept_request_def copied_def split: option.splits)
  ultimately show ?thesis using a1 sent_lines [OF s] by simp
qed

lemma resent:
  "resend_all env rs a = Returns (u, a') \<Longrightarrow> requests_sent a' = requests_sent a @ rs"
proof (induction rs arbitrary: a)
  case Nil
  then show ?case by (simp add: gives_def)
next
  case (Cons r rs)
  then obtain x b where b: "loc_sync_send env r a = Returns (x, b)" "resend_all env rs b = Returns (u, a')"
    by (auto simp: after_Returns)
  from Cons.IH [OF b(2)] sent_lines [OF b(1)] show ?case by simp
qed

lemma engine_off_differs: "engine_off \<noteq> enumerator qmiLocEngineStateEnumT_v02 ''eQMI_LOC_ENGINE_STATE_ON_V02''"
  by (simp add: engine_off_def enumerator_def qmiLocEngineStateEnumT_v02_def)

lemma flushed:
  assumes "reportEngineState env engine_off a = Returns (u, a')"
  shows "prefix (requests_sent a @ mResenders a) (requests_sent a')"
proof -
  let ?a = "(if mEngineOn a \<noteq> False then a\<lparr>mFirstMeasurementOfSessionReceived := False\<rparr> else a)\<lparr>mEngineOn := False\<rparr>"
  have "update_engine_state env False a = Returns (u, a')"
    using assms engine_off_differs by (simp add: reportEngineState_def flip: engine_off_def)
  then obtain u b where b: "resend_all env (mResenders ?a) ?a = Returns (u, b)"
    and r: "registerEventMask env (b\<lparr>mResenders := []\<rparr>) = Returns ((), a')"
    by (auto simp: update_engine_state_def Let_def after_Returns changes_def)
  have "requests_sent b = requests_sent a @ mResenders a" using resent [OF b] by simp
  moreover have "waiting [] (requests_sent b) a'"
    using keepsD [OF events_waiting [of "[]" "requests_sent b"] r] by simp
  ultimately show ?thesis by simp
qed

lemma steps_waiting: "(adapter_step env False)\<^sup>*\<^sup>* a a' \<Longrightarrow> waiting q s a \<Longrightarrow> waiting q s a'"
  by (induction rule: rtranclp_induct) (use step_waiting in blast)+

text \<open>C14: a request that finds the engine busy is not lost: whatever the adapter does meanwhile, when the engine goes
  off the request is sent again, after those that waited before it and in their order.\<close>

theorem busy_request_resent:
  assumes "locSyncSendReq env r a = Returns (answer, a1)" and "engine_busy r answer"
    and "malloc_fails (qmi_library env) = (\<lambda>w. False)"
    and "(adapter_step env False)\<^sup>*\<^sup>* a1 a2" and "reportEngineState env engine_off a2 = Returns (u, a3)"
  shows "\<exists>later. requests_sent a3 = requests_sent a2 @ mResenders a @ copied r # later"
proof -
  have "waiting (mResenders a @ [copied r]) [] a2"
    using steps_waiting [OF assms(4), of "mResenders a @ [copied r]" "[]"] busy_kept [OF assms(1-3)] by simp
  then obtain more where "mResenders a2 = mResenders a @ copied r # more" by (auto simp: prefix_def)
  with flushed [OF assms(5)] show ?thesis by (auto simp: prefix_def)
qed

definition busy_adapter :: "nat list adapter_env" where
  "busy_adapter = demo_adapter (\<lambda>r. busy_answer)"

definition demo_request :: request where
  "demo_request = sync_request QMI_LOC_GET_ENGINE_LOCK_REQ_V02 QMI_LOC_GET_ENGINE_LOCK_IND_V02 fresh"

lemma demo_resend_succeeds [succeeding]: "succeeds connected_adapter (resend_all (demo_adapter answer) rs)"
  by (induction rs) (auto intro!: succeeding simp: succeeds_def [of _ "loc_sync_send _ _"] loc_sync_send_def
      demo_adapter_def connected_adapter_def)

lemma demo_engine_off_succeeds: "succeeds connected_adapter (reportEngineState (demo_adapter answer) engine_off)"
proof -
  have "succeeds connected_adapter (after (resend_all (demo_adapter answer) rs) (\<lambda>_.
      after (changes (\<lambda>a2. a2\<lparr>mResenders := []\<rparr>)) (\<lambda>_. registerEventMask (demo_adapter answer))))" for rs
    by (intro succeeding) (simp add: connected_adapter_def)
  moreover have "connected_adapter (f a)" if "connected_adapter a" "loc_client_state (f a) = loc_client_state a"
    "clientHandle (f a) = clientHandle a" for f and a :: "nat list adapter"
    using that by (simp add: connected_adapter_def)
  ultimately show ?thesis
    using engine_off_differs
    by (simp add: succeeds_def reportEngineState_def update_engine_state_def Let_def flip: engine_off_def)
qed

lemma demo_answer:
  assumes "locSyncSendReq (demo_adapter answer) r a = Returns (x, a')"
  shows "x = answer r"
  using assms
  by (auto simp: locSyncSendReq_def after_Returns gives_def loc_sync_send_def demo_adapter_def split: if_splits)

lemma demo_busy: "engine_busy demo_request busy_answer"
  by (simp add: engine_busy_def busy_answer_def ind_status_def demo_request_def sync_request_def
      QMI_LOC_GET_ENGINE_LOCK_IND_V02_def QMI_LOC_QUERY_GNSS_ENERGY_CONSUMED_IND_V02_def)

theorem busy_request_resent_witness:
  "\<exists>a1 a2 later. locSyncSendReq busy_adapter demo_request a1 = Returns (busy_answer, a2) \<and>
     (\<exists>u a3. reportEngineState busy_adapter engine_off a2 = Returns (u, a3) \<and>
        requests_sent a3 = requests_sent a2 @ mResenders a1 @ copied demo_request # later)"
proof -
  obtain a where "connected_adapter a" using demo_adapter_opens by blast
  then obtain x a2 where s: "locSyncSendReq busy_adapter demo_request a = Returns (x, a2)" "connected_adapter a2"
    using demo_request_succeeds [of "\<lambda>r. busy_answer" demo_request] unfolding busy_adapter_def succeeds_def by blast
  then have x: "x = busy_answer" using demo_answer unfolding busy_adapter_def by blast
  obtain u a3 where e: "reportEngineState busy_adapter engine_off a2 = Returns (u, a3)"
    using demo_engine_off_succeeds s(2) unfolding busy_adapter_def succeeds_def by blast
  note demo_busy
  moreover have "malloc_fails (qmi_library busy_adapter) = (\<lambda>w. False)"
    by (simp add: busy_adapter_def demo_adapter_def demo_env_def)
  ultimately obtain later where "requests_sent a3 = requests_sent a2 @ mResenders a @ copied demo_request # later"
    using busy_request_resent [OF s(1) [unfolded x] _ _ rtranclp.rtrancl_refl e] by blast
  then show ?thesis using s(1) e unfolding x by blast
qed

text \<open>The first four bytes of the indication with the energy readings are no status: if the energy since the
  last boot is 4 in its low 32 bits, the query is kept to be sent again as if the engine were busy, although it
  was answered and the reading was reported.\<close>

theorem energy_reading_taken_for_busy:
  assumes "sync_send env (clientHandle a) energy_request (loc_client_state a) = Returns ((eLOC_CLIENT_SUCCESS, ind), c)"
    and "num (ind ''energyConsumedSinceLastBoot'') mod 2 ^ 32 = 4"
    and "malloc_fails (qmi_library env) = (\<lambda>w. False)"
    and "getGnssEnergyConsumed env a = Returns (u, a')"
  shows "mResenders a' = mResenders a @ [copied energy_request] \<and>
    base_calls a' = base_calls a @ [Base_reportGnssEngEnergyConsumedEvent (num (ind ''energyConsumedSinceFirstBoot''))]"
proof -
  have "(word_of_int (num (ind ''energyConsumedSinceLastBoot'')) :: 32 word) = 4"
    using assms(2) by (intro word_uint_eqI) (simp add: uint_word_of_int)
  then have busy: "engine_busy energy_request (eLOC_CLIENT_SUCCESS, ind)"
    by (simp add: engine_busy_def ind_status_def energy_request_def sync_request_def)
  obtain answer b where b: "locSyncSendReq env energy_request a = Returns (answer, b)"
    and a': "a' = b\<lparr>base_calls := base_calls b @ [Base_reportGnssEngEnergyConsumedEvent
      (if fst answer \<noteq> eLOC_CLIENT_SUCCESS then 0xffffffffffffffff
       else num (snd answer ''energyConsumedSinceFirstBoot''))]\<rparr>"
    using assms(4) by (auto simp: getGnssEnergyConsumed_def after_Returns calls_base_def changes_def)
  have answer: "answer = (eLOC_CLIENT_SUCCESS, ind)"
    using b assms(1) by (auto simp: locSyncSendReq_def after_Returns gives_def loc_sync_send_def split: if_splits)
  have "base_calls b = base_calls a"
    using b by (auto simp: locSyncSendReq_def after_Returns gives_def loc_sync_send_def keep_request_def Let_def
        changes_def register_mask_Returns andthen_Returns split: if_splits)
  with busy_kept [OF b(1) busy [folded answer] assms(3)] show ?thesis by (simp add: a' answer)
qed

definition energy_adapter :: "nat list adapter_env" where
  "energy_adapter = demo_adapter (\<lambda>r. (eLOC_CLIENT_SUCCESS,
     fresh(''energyConsumedSinceLastBoot'' := Num 4, ''energyConsumedSinceFirstBoot'' := Num 90)))"

theorem energy_reading_taken_for_busy_witness:
  "\<exists>a u a'. getGnssEnergyConsumed energy_adapter a = Returns (u, a') \<and> mResenders a' = mResenders a @ [copied energy_request] \<and>
     base_calls a' = base_calls a @ [Base_reportGnssEngEnergyConsumedEvent 90]"
proof -
  obtain a where a: "connected_adapter a" using demo_adapter_opens by blast
  have "succeeds connected_adapter (getGnssEnergyConsumed energy_adapter)"
    unfolding getGnssEnergyConsumed_def energy_adapter_def by (intro succeeding)
  with a obtain u a' where e: "getGnssEnergyConsumed energy_adapter a = Returns (u, a')"
    unfolding succeeds_def by blast
  have "sync_send energy_adapter (clientHandle a) energy_request (loc_client_state a) = Returns ((eLOC_CLIENT_SUCCESS,
     fresh(''energyConsumedSinceLastBoot'' := Num 4, ''energyConsumedSinceFirstBoot'' := Num 90)), loc_client_state a)"
    and "malloc_fails (qmi_library energy_adapter) = (\<lambda>w. False)"
    by (simp_all add: energy_adapter_def demo_adapter_def demo_env_def)
  from energy_reading_taken_for_busy [OF this(1) _ this(2) e] e show ?thesis by auto
qed

text \<open>What the mask is made of, beside the state of the platform and the line of requests.\<close>

definition same_wishes :: "'w adapter \<Rightarrow> 'w adapter \<Rightarrow> bool" where
  "same_wishes a b \<longleftrightarrow> mMask b = mMask a \<and> mInSession b = mInSession a \<and> mEngineOn b = mEngineOn a \<and>
     engine_capabilities b = engine_capabilities a"

lemma wanted_suspended:
  assumes "\<not> suspended a" and "mResenders a = []" and "suspended b" and "same_wishes a b"
  shows "wanted_mask env b = wanted_mask env a AND NOT waking_events"
  using assms by (simp add: same_wishes_def wanted_mask_def adjustLocClientEventMask_def Let_def)

lemma resumed_not_suspended: "resumed a \<Longrightarrow> \<not> suspended a"
  by (auto simp: resumed_def suspended_def power_state_def enumerator_def qmiLocPlatformPowerStateEnumT_v02_def)

lemma and_not_disjoint:
  assumes "(w :: 64 word) AND v = 0"
  shows "w AND NOT v = w"
proof (rule bit_word_eqI)
  fix n
  assume "n < LENGTH(64)"
  moreover have "\<not> bit (w AND v) n" using assms by simp
  ultimately show "bit (w AND NOT v) n \<longleftrightarrow> bit w n" by (auto simp: bit_simps)
qed

lemma waking_engine: "(w :: 64 word) AND waking_events = 0 \<Longrightarrow> w AND engine_state_bit = 0"
proof -
  assume w: "w AND waking_events = 0"
  have "engine_state_bit = waking_events AND engine_state_bit"
    by (intro bit_word_eqI) (auto simp: waking_events_def bit_simps)
  then have "w AND engine_state_bit = (w AND waking_events) AND engine_state_bit" by (simp add: and.assoc)
  then show ?thesis using w by simp
qed

lemma busy_registers:
  assumes "requests_keep_client env live" and "req_msg r \<noteq> QMI_LOC_REG_EVENTS_REQ_V02"
    and "resumed a" and "mResenders a = []" and "mQmiMask a AND engine_state_bit = 0"
    and "locSyncSendReq env r a = Returns (answer, a1)" and "engine_busy r answer"
  obtains ok a0 b where "loc_sync_send env r a = Returns (answer, a0)"
    and "register_mask env (mQmiMask a OR engine_state_bit) a0 = Returns (ok, b)"
    and "same_wishes a a1" and "mQmiMask a1 = mQmiMask a"
    and "registered a1 = (if ok then Some (mQmiMask a OR engine_state_bit) else registered a)"
proof -
  let ?m = "mQmiMask a OR engine_state_bit"
  from assms(6) obtain answer' a0 where s: "loc_sync_send env r a = Returns (answer', a0)"
    and k: "(if engine_busy r answer' then after (keep_request env r) (\<lambda>_. gives answer') else gives answer') a0
      = Returns (answer, a1)"
    by (auto simp: locSyncSendReq_def after_Returns)
  have same: "answer' = answer" using k by (auto simp: after_Returns gives_def split: if_splits)
  obtain c where c: "sync_send env (clientHandle a) r (loc_client_state a) = Returns (answer', c)"
    and a0: "a0 = a\<lparr>loc_client_state := c, requests_sent := requests_sent a @ [r]\<rparr>"
    using s by (auto simp: loc_sync_send_def andthen_Returns)
  have "cb_heap c = cb_heap (loc_client_state a)"
    using c assms(1,2) unfolding requests_keep_client_def same_client_def by blast
  then have r0: "registered a0 = registered a" by (simp add: registered_def a0)
  have "resumed a0 \<and> mResenders a0 = [] \<and> mQmiMask a0 AND engine_state_bit = 0"
    using assms(3-5) by (simp add: a0 resumed_def)
  with k same assms(7) obtain ok b where b: "register_mask env ?m a0 = Returns (ok, b)"
    and a1: "a1 = b\<lparr>mResenders := mResenders b @ kept_request env r b\<rparr>"
    by (auto simp: keep_request_def Let_def after_Returns gives_def changes_def a0)
  have rb: "registered a1 = registered b" by (simp add: a1 registered_def)
  show thesis
  proof (rule that [of a0 ok b])
    show "loc_sync_send env r a = Returns (answer, a0)" using s same by simp
    show "register_mask env ?m a0 = Returns (ok, b)" by (rule b)
    show "same_wishes a a1" "mQmiMask a1 = mQmiMask a"
      using b by (auto simp: same_wishes_def a1 a0 register_mask_Returns)
    show "registered a1 = (if ok then Some ?m else registered a)"
      using service_registration.either [OF b] r0 rb by simp
  qed
qed

text \<open>If a request finds the engine busy, its state is registered for without the adapter's mask saying so. If the
  device is then suspended while the adapter's mask holds no event that would wake it, nothing is registered anew:
  the service goes on to report the state of the engine to a suspended device.\<close>

theorem suspended_still_registered:
  assumes "requests_keep_client env live" and "req_msg r \<noteq> QMI_LOC_REG_EVENTS_REQ_V02"
    and "resumed a" and "mResenders a = []" and "wanted_mask env a = mQmiMask a" and "mQmiMask a AND waking_events = 0"
    and "locSyncSendReq env r a = Returns (answer, a1)" and "engine_busy r answer"
    and "registered a1 \<noteq> registered a"
    and "num (info ''powerStateNew_valid'') \<noteq> 0"
    and "num (info ''powerStateNew'') = power_state ''eQMI_LOC_POWER_STATE_SUSPENDED_V02''"
    and "reportPowerStateChangeInfo env info a1 = Returns (u, a2)"
  shows "suspended a2 \<and> mQmiMask a2 = mQmiMask a \<and>
    registered a2 = Some (mQmiMask a OR event_bit ''QMI_LOC_EVENT_MASK_ENGINE_STATE_V02'')"
proof -
  let ?m = "mQmiMask a OR engine_state_bit"
  have free: "mQmiMask a AND engine_state_bit = 0" by (rule waking_engine [OF assms(6)])
  from busy_registers [OF assms(1-4) free assms(7,8)] obtain ok where
    same: "same_wishes a a1" "mQmiMask a1 = mQmiMask a" "registered a1 = (if ok then Some ?m else registered a)"
    by metis
  then have r1: "registered a1 = Some ?m" using assms(9) by (auto split: if_splits)
  let ?a = "a1\<lparr>mPlatformPowerState := num (info ''powerStateNew'')\<rparr>"
  have fields: "same_wishes a ?a" "mQmiMask ?a = mQmiMask a" using same by (simp_all add: same_wishes_def)
  have sus: "suspended ?a" using assms(11) by (simp add: suspended_def)
  have "wanted_mask env ?a = mQmiMask ?a"
    using wanted_suspended [OF resumed_not_suspended [OF assms(3)] assms(4) sus fields(1)] assms(5)
      and_not_disjoint [OF assms(6)] fields(2) by simp
  then have "a2 = ?a"
    using assms(10,12) by (auto simp: reportPowerStateChangeInfo_def after_Returns changes_def
        registerEventMask_def gives_def)
  then show ?thesis using sus fields r1 by (simp add: registered_def)
qed

text \<open>A resumed device that listens to its power state only.\<close>

abbreviation power_bit :: "64 word" where
  "power_bit \<equiv> event_bit ''QMI_LOC_EVENT_MASK_PLATFORM_POWER_STATE_CHANGED_V02''"

lemma power_not_waking: "power_bit AND waking_events = 0"
  by (simp add: event_bit_def event_flag_def qmiLocEventRegMaskT_v02_flags_def waking_events_def)

lemma copy_flags_zero: "copy_flags rows (0 :: 'a::len word) = (0 :: 'b::len word)"
proof -
  have "copy_flags_to r rows (0 :: 'a word) = r" for r :: "'b word" by (induction rows arbitrary: r) auto
  then show ?thesis by (simp add: copy_flags_def)
qed

lemma demo_wanted:
  assumes "mMask a = 0" and "mInSession a" and "mResenders a = []" and "\<not> suspended a"
  shows "wanted_mask busy_adapter a = power_bit"
  using assms
  by (simp add: wanted_mask_def adjustLocClientEventMask_def Let_def convertLocClientEventMask_def copy_flags_zero
      busy_adapter_def demo_adapter_def)

lemma demo_register_accepts:
  assumes "connected_adapter a" and "register_mask (demo_adapter answer) m a = Returns (ok, a')"
  shows "ok"
proof -
  obtain d where "check_handle (clientHandle a) (loc_client_state a) = Returns (Some d)"
    using assms(1) by (auto simp: connected_adapter_def)
  from demo_register [OF this] assms(2) show ?thesis by (auto simp: register_mask_def demo_adapter_def)
qed

definition suspend_info :: struct where
  "suspend_info = fresh(''powerStateNew_valid'' := Num 1, ''powerStateNew'' := Num 1)"

lemma demo_resumed:
  obtains a where "connected_adapter a" and "resumed a" and "mResenders a = []" and "mQmiMask a = power_bit"
    and "wanted_mask busy_adapter a = mQmiMask a" and "registered a = Some power_bit"
proof -
  obtain a0 where "connected_adapter a0" using demo_adapter_opens by blast
  then obtain ok b where b: "register_mask busy_adapter power_bit a0 = Returns (ok, b)" "connected_adapter b"
    using demo_register_succeeds [of "\<lambda>r. busy_answer" power_bit] unfolding busy_adapter_def succeeds_def by blast
  have "ok" using demo_register_accepts [OF \<open>connected_adapter a0\<close>] b(1) unfolding busy_adapter_def by blast
  let ?a = "b\<lparr>mPlatformPowerState := power_state ''eQMI_LOC_POWER_STATE_RESUME_V02'', mResenders := [], mMask := 0,
     mInSession := True, mQmiMask := power_bit\<rparr>"
  have res: "resumed ?a" by (simp add: resumed_def)
  show thesis
  proof (rule that [of ?a])
    show "connected_adapter ?a" using b(2) by (simp add: connected_adapter_def)
    show "registered ?a = Some power_bit"
      using service_registration.accepted [of busy_adapter power_bit a0 b] b(1) \<open>ok\<close> by (simp add: registered_def)
    show "wanted_mask busy_adapter ?a = mQmiMask ?a"
      using demo_wanted [of ?a] resumed_not_suspended [OF res] by simp
  qed (use res in simp_all)
qed

theorem suspended_still_registered_witness:
  "\<exists>a a1. resumed a \<and> locSyncSendReq busy_adapter demo_request a = Returns (busy_answer, a1) \<and>
     (\<exists>u a2. reportPowerStateChangeInfo busy_adapter suspend_info a1 = Returns (u, a2) \<and> suspended a2 \<and>
        mQmiMask a2 = power_bit \<and>
        registered a2 = Some (power_bit OR event_bit ''QMI_LOC_EVENT_MASK_ENGINE_STATE_V02''))"
proof -
  obtain a where a: "connected_adapter a" "resumed a" "mResenders a = []" "mQmiMask a = power_bit"
    "wanted_mask busy_adapter a = mQmiMask a" "registered a = Some power_bit" by (rule demo_resumed)
  have free: "mQmiMask a AND waking_events = 0" using power_not_waking a(4) by simp
  obtain x a1 where s: "locSyncSendReq busy_adapter demo_request a = Returns (x, a1)" "connected_adapter a1"
    using demo_request_succeeds [of "\<lambda>r. busy_answer" demo_request] a(1)
    unfolding busy_adapter_def succeeds_def by blast
  have x: "x = busy_answer" using demo_answer s(1) unfolding busy_adapter_def by blast
  have keeps: "requests_keep_client busy_adapter set"
    by (auto simp: requests_keep_client_def busy_adapter_def demo_adapter_def same_client_def)
  have msg: "req_msg demo_request \<noteq> QMI_LOC_REG_EVENTS_REQ_V02"
    by (simp add: demo_request_def sync_request_def sent_requests_differ)
  have new: "registered a1 \<noteq> registered a"
  proof (rule busy_registers [OF keeps msg a(2,3) waking_engine [OF free] s(1) demo_busy [folded x]])
    fix ok2 a00 b2
    assume r: "loc_sync_send busy_adapter demo_request a = Returns (x, a00)"
      "register_mask busy_adapter (mQmiMask a OR engine_state_bit) a00 = Returns (ok2, b2)"
      "registered a1 = (if ok2 then Some (mQmiMask a OR engine_state_bit) else registered a)"
    have "connected_adapter a00"
      using r(1) a(1) by (auto simp: loc_sync_send_def busy_adapter_def demo_adapter_def connected_adapter_def)
    then have "ok2" using demo_register_accepts r(2) unfolding busy_adapter_def by blast
    moreover have "power_bit OR engine_state_bit \<noteq> power_bit"
      by (simp add: event_bit_def event_flag_def qmiLocEventRegMaskT_v02_flags_def)
    ultimately show ?thesis using r(3) a(4,6) by simp
  qed
  have "succeeds connected_adapter (reportPowerStateChangeInfo busy_adapter suspend_info)"
    unfolding reportPowerStateChangeInfo_def busy_adapter_def
    by (intro succeeding) (simp add: connected_adapter_def)
  with s(2) obtain u a2 where p: "reportPowerStateChangeInfo busy_adapter suspend_info a1 = Returns (u, a2)"
    unfolding succeeds_def by blast
  have info: "num (suspend_info ''powerStateNew_valid'') \<noteq> 0"
    "num (suspend_info ''powerStateNew'') = power_state ''eQMI_LOC_POWER_STATE_SUSPENDED_V02''"
    by (simp_all add: suspend_info_def power_state_def enumerator_def qmiLocPlatformPowerStateEnumT_v02_def)
  from suspended_still_registered [OF keeps msg a(2,3,5) free s(1) demo_busy [folded x] new info p] a(2,4) s(1) p
  show ?thesis unfolding x by auto
qed

end
