(* ===== verification/AdapterBatch.thy ===== *)
theory AdapterBatch
  imports AdapterEvents
begin

unbundle bit_operations_syntax

text \<open>
  Batches of positions in the adapter, \<open>loc_api/loc_api_v02/LocApiV02.cpp\<close>: the sizes of the buffers in the
  modem, the sessions that fill them, and how the positions are read back, a few at a time, and reported. A
  position of the HAL is a struct; its floating point members are carried as they are, as the assignments widen
  or keep them. \<open>new\<close> throws when there is no memory, so the tests of its result never hold.
\<close>

section \<open>Values\<close>

definition qmiLocBatchedReportValidFieldsMaskT_v02_flags :: "(string \<times> int) list" where
  "qmiLocBatchedReportValidFieldsMaskT_v02_flags = [
    (''QMI_LOC_BATCHED_REPORT_MASK_VALID_LATITUDE_V02'', 0x00000001),
    (''QMI_LOC_BATCHED_REPORT_MASK_VALID_LONGITUDE_V02'', 0x00000002),
    (''QMI_LOC_BATCHED_REPORT_MASK_VALID_HOR_CIR_UNC_V02'', 0x00000004),
    (''QMI_LOC_BATCHED_REPORT_MASK_VALID_SPEED_HOR_V02'', 0x00000008),
    (''QMI_LOC_BATCHED_REPORT_MASK_VALID_SPEED_UNC_V02'', 0x00000010),
    (''QMI_LOC_BATCHED_REPORT_MASK_VALID_ALT_WRT_ELP_V02'', 0x00000020),
    (''QMI_LOC_BATCHED_REPORT_MASK_VALID_SPEED_VER_V02'', 0x00000040),
    (''QMI_LOC_BATCHED_REPORT_MASK_VALID_HEADING_V02'', 0x00000080),
    (''QMI_LOC_BATCHED_REPORT_MASK_VALID_HEADING_UNC_V02'', 0x00000100),
    (''QMI_LOC_BATCHED_REPORT_MASK_VALID_TECH_MASK_V02'', 0x00000200),
    (''QMI_LOC_BATCHED_REPORT_MASK_VALID_TIMESTAMP_UTC_V02'', 0x00000400),
    (''QMI_LOC_BATCHED_REPORT_MASK_VALID_TIME_UNC_V02'', 0x00000800),
    (''QMI_LOC_BATCHED_REPORT_MASK_VALID_MAGNETIC_DEV_V02'', 0x00001000),
    (''QMI_LOC_BATCHED_REPORT_MASK_VALID_VERT_UNC_V02'', 0x00002000),
    (''QMI_LOC_BATCHED_REPORT_MASK_VALID_HOR_CONF_V02'', 0x00004000),
    (''QMI_LOC_BATCHED_REPORT_MASK_VALID_TIMESTAMP_GPS_V02'', 0x00008000)]"

definition qmiLocPosTechMaskT_v02_flags :: "(string \<times> int) list" where
  "qmiLocPosTechMaskT_v02_flags = [
    (''QMI_LOC_POS_TECH_MASK_SATELLITE_V02'', 0x00000001),
    (''QMI_LOC_POS_TECH_MASK_CELLID_V02'', 0x00000002),
    (''QMI_LOC_POS_TECH_MASK_WIFI_V02'', 0x00000004),
    (''QMI_LOC_POS_TECH_MASK_SENSORS_V02'', 0x00000008),
    (''QMI_LOC_POS_TECH_MASK_REFERENCE_LOCATION_V02'', 0x00000010),
    (''QMI_LOC_POS_TECH_MASK_INJECTED_COARSE_POSITION_V02'', 0x00000020),
    (''QMI_LOC_POS_TECH_MASK_AFLT_V02'', 0x00000040),
    (''QMI_LOC_POS_TECH_MASK_HYBRID_V02'', 0x00000080),
    (''QMI_LOC_POS_TECH_MASK_DRE_V02'', 0x00000100),
    (''QMI_LOC_POS_TECH_MASK_INS_V02'', 0x00000200),
    (''QMI_LOC_POS_TECH_MASK_PDR_V02'', 0x00000400),
    (''QMI_LOC_POS_TECH_MASK_PROPAGATED_V02'', 0x00000800)]"

definition FLP_BATCHING_MINIMUN_INTERVAL :: "32 word" where "FLP_BATCHING_MINIMUN_INTERVAL = 1000"
definition FLP_BATCHING_MIN_TRIP_DISTANCE :: "32 word" where "FLP_BATCHING_MIN_TRIP_DISTANCE = 1"

text \<open>What the service calls the two kinds of batches.\<close>

definition batch_type :: "string \<Rightarrow> cval" where
  "batch_type n = Num (enumerator qmiLocBatchingTypeEnumT_v02 n)"

definition batchType_of :: "BatchingMode \<Rightarrow> cval" where
  "batchType_of m = batch_type (if m = BATCHING_MODE_ROUTINE then ''eQMI_LOC_LOCATION_BATCHING_V02''
     else ''eQMI_LOC_OUTDOOR_TRIP_BATCHING_V02'')"

section \<open>Buffers\<close>

definition setBatchSize :: "64 word \<Rightarrow> ('w, unit) adapter_op" where
  "setBatchSize n = changes (\<lambda>a. a\<lparr>mDesiredBatchSize := n, mBatchSize := 0\<rparr>)"

definition setTripBatchSize :: "64 word \<Rightarrow> ('w, unit) adapter_op" where
  "setTripBatchSize n = changes (\<lambda>a. a\<lparr>mDesiredTripBatchSize := n, mTripBatchSize := 0\<rparr>)"

text \<open>The size the modem allocated, 0 if none; the query succeeded if it is not 0. If a trip wants more than the
  modem has, it is asked again for what it has.\<close>

definition batch_size_request :: "64 word \<Rightarrow> BatchingMode \<Rightarrow> struct" where
  "batch_size_request n m = fresh(''transactionId'' := Num 1, ''batchSize'' := Num (uint (ucast n :: 32 word)),
     ''batchType_valid'' := Num 1, ''batchType'' := batchType_of m)"

definition allocated :: "struct \<Rightarrow> 64 word" where
  "allocated ind = ucast (word_of_int (num (ind ''batchSize'')) :: 32 word)"

definition queryBatchBuffer :: "'w adapter_env \<Rightarrow> 64 word \<Rightarrow> BatchingMode \<Rightarrow> ('w, 64 word) adapter_op" where
  "queryBatchBuffer env desired m =
     after (LOC_SEND_SYNC_REQ env QMI_LOC_GET_BATCH_SIZE_REQ_V02 QMI_LOC_GET_BATCH_SIZE_IND_V02
       (batch_size_request desired m)) (\<lambda>(ok, ind).
     if ok then gives (allocated ind)
     else if m = BATCHING_MODE_TRIP \<and>
         num (ind ''status'') = enumerator qmiLocStatusEnumT_v02 ''eQMI_LOC_INVALID_PARAMETER_V02'' \<and>
         allocated ind > 0
     then after (LOC_SEND_SYNC_REQ env QMI_LOC_GET_BATCH_SIZE_REQ_V02 QMI_LOC_GET_BATCH_SIZE_IND_V02
         (batch_size_request (allocated ind) m))
       (\<lambda>(ok', ind'). gives (if ok' then allocated ind' else 0))
     else gives 0)"

definition releaseBatchBuffer :: "'w adapter_env \<Rightarrow> BatchingMode \<Rightarrow> ('w, int) adapter_op" where
  "releaseBatchBuffer env m =
     (case m of
        BATCHING_MODE_other i \<Rightarrow> gives (hal env ''LOCATION_ERROR_INVALID_PARAMETER'')
      | _ \<Rightarrow>
        after (LOC_SEND_SYNC_REQ env QMI_LOC_RELEASE_BATCH_REQ_V02 QMI_LOC_RELEASE_BATCH_IND_V02
          (fresh(''transactionId'' := Num 1, ''batchType_valid'' := Num 1, ''batchType'' := batchType_of m)))
          (\<lambda>(ok, ind).
            if ok then after (changes (\<lambda>a. a\<lparr>mTripBatchSize := 0\<rparr>)) (\<lambda>_. gives (hal env ''LOCATION_ERROR_SUCCESS''))
            else gives (hal env ''LOCATION_ERROR_GENERAL_FAILURE'')))"

section \<open>Sessions\<close>

definition startDistanceBasedTracking :: "'w adapter_env \<Rightarrow> 32 word \<Rightarrow> 32 word \<Rightarrow> 32 word \<Rightarrow> bool \<Rightarrow> ('w, unit) adapter_op" where
  "startDistanceBasedTracking env sessionId interval distance wanted =
     (let latency = interval div 1000;
          p = fresh(''reqId'' := Num (uint (ucast sessionId :: 8 word)), ''minDistance'' := Num (uint distance),
            ''maxLatency_valid'' := Num 1, ''maxLatency'' := Num (uint (if latency = 0 then 1 else latency)),
            ''distanceType'' := Num (enumerator qmiLocDbDistanceTypeEnumT_v02 ''eQMI_LOC_DBT_DISTANCE_TYPE_STRAIGHT_LINE_V02''),
            ''needOriginLocation'' := Num 0, ''usageType_valid'' := Num 1,
            ''usageType'' := Num (enumerator qmiLocDbtUsageEnumT_v02 ''eQMI_LOC_DBT_USAGE_NAVIGATION_V02'')) in
      after (locSyncSendReq env (sync_request QMI_LOC_START_DBT_REQ_V02 QMI_LOC_START_DBT_IND_V02 p)) (\<lambda>answer a.
        respond wanted (if answered_well answer then hal env ''LOCATION_ERROR_SUCCESS'' else start_error env a) a))"

text \<open>The response is not tested for null here.\<close>

definition stopDistanceBasedTracking :: "'w adapter_env \<Rightarrow> 32 word \<Rightarrow> bool \<Rightarrow> ('w, unit) adapter_op" where
  "stopDistanceBasedTracking env sessionId wanted =
     after (locSyncSendReq env (sync_request QMI_LOC_STOP_DBT_REQ_V02 QMI_LOC_STOP_DBT_IND_V02
       (fresh(''reqId'' := Num (uint (ucast sessionId :: 8 word)))))) (\<lambda>answer.
     if wanted then respond True (hal env (if answered_well answer then ''LOCATION_ERROR_SUCCESS''
       else ''LOCATION_ERROR_GENERAL_FAILURE''))
     else (\<lambda>a. Faults))"

definition adapter_startBatching :: "'w adapter_env \<Rightarrow> 32 word \<Rightarrow> tracking_options \<Rightarrow> 32 word \<Rightarrow> 32 word \<Rightarrow> bool \<Rightarrow> ('w, unit) adapter_op" where
  "adapter_startBatching env sessionId opts accuracy timeout wanted =
     (let general = hal env ''LOCATION_ERROR_GENERAL_FAILURE'';
          level = enumerator qmiLocAccuracyLevelEnumT_v02 (if accuracy = 1 then ''eQMI_LOC_ACCURACY_MED_V02''
            else if accuracy = 2 then ''eQMI_LOC_ACCURACY_HIGH_V02'' else ''eQMI_LOC_ACCURACY_LOW_V02'');
          p = fresh(''minInterval_valid'' := Num 1,
            ''minInterval'' := Num (uint (max (minInterval opts) FLP_BATCHING_MINIMUN_INTERVAL)),
            ''horizontalAccuracyLevel_valid'' := Num 1, ''horizontalAccuracyLevel'' := Num level,
            ''fixSessionTimeout_valid'' := Num (if timeout > 0 then 1 else 0),
            ''fixSessionTimeout'' := (if timeout > 0 then Num (uint timeout) else Unset),
            ''requestId_valid'' := Num 1, ''requestId'' := Num (uint sessionId),
            ''batchAllPos_valid'' := Num 1, ''batchAllPos'' := Num 1) in
      after (setOperationMode env (tracking_mode opts)) (\<lambda>_ a.
      after (if mBatchSize a = 0
             then after (queryBatchBuffer env (mDesiredBatchSize a) BATCHING_MODE_ROUTINE)
               (\<lambda>n. changes (\<lambda>a. a\<lparr>mBatchSize := n\<rparr>))
             else gives ()) (\<lambda>_ a1.
      if mBatchSize a1 = 0 then respond wanted general a1
      else after (LOC_SEND_SYNC_REQ env QMI_LOC_START_BATCHING_REQ_V02 QMI_LOC_START_BATCHING_IND_V02 p) (\<lambda>(ok, ind) a2.
        respond wanted (if ok then hal env ''LOCATION_ERROR_SUCCESS'' else start_error env a2) a2) a1) a))"

definition adapter_stopBatching :: "'w adapter_env \<Rightarrow> 32 word \<Rightarrow> bool \<Rightarrow> ('w, unit) adapter_op" where
  "adapter_stopBatching env sessionId wanted =
     after (LOC_SEND_SYNC_REQ env QMI_LOC_STOP_BATCHING_REQ_V02 QMI_LOC_STOP_BATCHING_IND_V02
       (fresh(''requestId_valid'' := Num 1, ''requestId'' := Num (uint sessionId), ''batchType_valid'' := Num 1,
          ''batchType'' := batchType_of BATCHING_MODE_ROUTINE)))
     (\<lambda>(ok, ind). respond wanted (hal env (if ok then ''LOCATION_ERROR_SUCCESS'' else ''LOCATION_ERROR_GENERAL_FAILURE'')))"

definition startOutdoorTripBatchingSync :: "'w adapter_env \<Rightarrow> 32 word \<Rightarrow> 32 word \<Rightarrow> 32 word \<Rightarrow> ('w, int) adapter_op" where
  "startOutdoorTripBatchingSync env tripDistance tripTbf timeout a =
     (let p = fresh(''batchDistance'' := Num (uint (if tripDistance > 0 then tripDistance else FLP_BATCHING_MIN_TRIP_DISTANCE)),
            ''minTimeInterval'' := Num (uint (max tripTbf FLP_BATCHING_MINIMUN_INTERVAL)),
            ''batchAllPos_valid'' := Num 1, ''batchAllPos'' := Num 1,
            ''fixSessionTimeout_valid'' := Num (if timeout > 0 then 1 else 0),
            ''fixSessionTimeout'' := (if timeout > 0 then Num (uint timeout) else Unset)) in
      after (if mTripBatchSize a = 0
             then after (queryBatchBuffer env (mDesiredTripBatchSize a) BATCHING_MODE_TRIP)
               (\<lambda>n. changes (\<lambda>a. a\<lparr>mTripBatchSize := n\<rparr>))
             else gives ()) (\<lambda>_ a1.
      if mTripBatchSize a1 = 0 then gives (hal env ''LOCATION_ERROR_GENERAL_FAILURE'') a1
      else after (LOC_SEND_SYNC_REQ env QMI_LOC_START_OUTDOOR_TRIP_BATCHING_REQ_V02
          QMI_LOC_START_OUTDOOR_TRIP_BATCHING_IND_V02 p) (\<lambda>(ok, ind) a2.
        gives (if ok then hal env ''LOCATION_ERROR_SUCCESS'' else start_error env a2) a2) a1) a)"

definition startOutdoorTripBatching :: "'w adapter_env \<Rightarrow> 32 word \<Rightarrow> 32 word \<Rightarrow> 32 word \<Rightarrow> bool \<Rightarrow> ('w, unit) adapter_op" where
  "startOutdoorTripBatching env tripDistance tripTbf timeout wanted =
     (if wanted then after (startOutdoorTripBatchingSync env tripDistance tripTbf timeout) (respond True) else gives ())"

definition stopOutdoorTripBatchingSync :: "'w adapter_env \<Rightarrow> bool \<Rightarrow> ('w, int) adapter_op" where
  "stopOutdoorTripBatchingSync env dealloc =
     after (LOC_SEND_SYNC_REQ env QMI_LOC_STOP_BATCHING_REQ_V02 QMI_LOC_STOP_BATCHING_IND_V02
       (fresh(''batchType_valid'' := Num 1, ''batchType'' := batchType_of BATCHING_MODE_TRIP)))
     (\<lambda>(ok, ind). if \<not> ok then gives (hal env ''LOCATION_ERROR_GENERAL_FAILURE'')
        else if dealloc then releaseBatchBuffer env BATCHING_MODE_TRIP
        else gives (hal env ''LOCATION_ERROR_SUCCESS''))"

definition stopOutdoorTripBatching :: "'w adapter_env \<Rightarrow> bool \<Rightarrow> bool \<Rightarrow> ('w, unit) adapter_op" where
  "stopOutdoorTripBatching env dealloc wanted =
     (if wanted then after (stopOutdoorTripBatchingSync env dealloc) (respond True) else gives ())"

text \<open>The accumulated distance and the number of positions, if the modem told them.\<close>

definition queryAccumulatedTripDistanceSync :: "'w adapter_env \<Rightarrow> ('w, (32 word \<times> 32 word) option) adapter_op" where
  "queryAccumulatedTripDistanceSync env =
     after (locSyncSendReq env (sync_request QMI_LOC_QUERY_OTB_ACCUMULATED_DISTANCE_REQ_V02
       QMI_LOC_QUERY_OTB_ACCUMULATED_DISTANCE_IND_V02 fresh))
     (\<lambda>answer. gives (if answered_well answer
        then Some (word_of_int (num (snd answer ''accumulatedDistance'')), word_of_int (num (snd answer ''batchedPosition'')))
        else None))"

definition queryAccumulatedTripDistance :: "'w adapter_env \<Rightarrow> bool \<Rightarrow> ('w, unit) adapter_op" where
  "queryAccumulatedTripDistance env wanted =
     after (queryAccumulatedTripDistanceSync env) (\<lambda>r.
       if wanted then calls_base (case r of
           None \<Rightarrow> Base_returnDistance (hal env ''LOCATION_ERROR_GENERAL_FAILURE'') None
         | Some d \<Rightarrow> Base_returnDistance (hal env ''LOCATION_ERROR_SUCCESS'') (Some d))
       else gives ())"

section \<open>Reading\<close>

definition with_flag :: "'w adapter_env \<Rightarrow> bool \<Rightarrow> string \<Rightarrow> string \<Rightarrow> cval \<Rightarrow> struct \<Rightarrow> struct" where
  "with_flag env c flag f v s =
     (if c then s(f := v, ''flags'' := Num (num (s ''flags'') OR hal env flag)) else s)"

definition technologies :: "'w adapter_env \<Rightarrow> 32 word \<Rightarrow> int" where
  "technologies env m = uint (copy_flags (map (\<lambda>(q, h). (flag_value qmiLocPosTechMaskT_v02_flags q, hal env h))
     [(''QMI_LOC_POS_TECH_MASK_SATELLITE_V02'', ''LOCATION_TECHNOLOGY_GNSS_BIT''),
      (''QMI_LOC_POS_TECH_MASK_CELLID_V02'', ''LOCATION_TECHNOLOGY_CELL_BIT''),
      (''QMI_LOC_POS_TECH_MASK_WIFI_V02'', ''LOCATION_TECHNOLOGY_WIFI_BIT''),
      (''QMI_LOC_POS_TECH_MASK_SENSORS_V02'', ''LOCATION_TECHNOLOGY_SENSORS_BIT'')]) m :: 32 word)"

definition read_location :: "'w adapter_env \<Rightarrow> struct \<Rightarrow> struct" where
  "read_location env e =
     (let has = (\<lambda>n. (word_of_int (num (e ''validFields'')) :: 64 word)
            AND word_of_int (flag_value qmiLocBatchedReportValidFieldsMaskT_v02_flags n) \<noteq> 0);
          put = (\<lambda>n flag f g. with_flag env (has n) flag f (e g));
          s0 = fresh(''size'' := Num (hal env ''sizeof(Location)''));
          s1 = (if has ''QMI_LOC_BATCHED_REPORT_MASK_VALID_LATITUDE_V02'' \<and>
                   has ''QMI_LOC_BATCHED_REPORT_MASK_VALID_LONGITUDE_V02''
                then s0(''latitude'' := e ''latitude'', ''longitude'' := e ''longitude'',
                  ''flags'' := Num (num (s0 ''flags'') OR hal env ''LOCATION_HAS_LAT_LONG_BIT'')) else s0);
          s2 = put ''QMI_LOC_BATCHED_REPORT_MASK_VALID_ALT_WRT_ELP_V02'' ''LOCATION_HAS_ALTITUDE_BIT''
                 ''altitude'' ''altitudeWrtEllipsoid'' s1;
          s3 = (if has ''QMI_LOC_BATCHED_REPORT_MASK_VALID_TIMESTAMP_UTC_V02''
                then s2(''timestamp'' := e ''timestampUtc'') else s2);
          s4 = put ''QMI_LOC_BATCHED_REPORT_MASK_VALID_HOR_CIR_UNC_V02'' ''LOCATION_HAS_ACCURACY_BIT''
                 ''accuracy'' ''horUncCircular'' s3;
          s5 = put ''QMI_LOC_BATCHED_REPORT_MASK_VALID_HEADING_V02'' ''LOCATION_HAS_BEARING_BIT'' ''bearing'' ''heading'' s4;
          s6 = put ''QMI_LOC_BATCHED_REPORT_MASK_VALID_SPEED_HOR_V02'' ''LOCATION_HAS_SPEED_BIT''
                 ''speed'' ''speedHorizontal'' s5;
          s7 = (if has ''QMI_LOC_BATCHED_REPORT_MASK_VALID_TECH_MASK_V02''
                then s6(''techMask'' := Num (technologies env (word_of_int (num (e ''technologyMask''))))) else s6);
          s8 = put ''QMI_LOC_BATCHED_REPORT_MASK_VALID_VERT_UNC_V02'' ''LOCATION_HAS_VERTICAL_ACCURACY_BIT''
                 ''verticalAccuracy'' ''vertUnc'' s7;
          s9 = put ''QMI_LOC_BATCHED_REPORT_MASK_VALID_SPEED_UNC_V02'' ''LOCATION_HAS_SPEED_ACCURACY_BIT''
                 ''speedAccuracy'' ''speedUnc'' s8 in
      put ''QMI_LOC_BATCHED_REPORT_MASK_VALID_HEADING_UNC_V02'' ''LOCATION_HAS_BEARING_ACCURACY_BIT''
        ''bearingAccuracy'' ''headingUnc'' s9)"

text \<open>Neither the list of the indication nor the array for the positions has more than five elements; the number
  of entries comes from the modem.\<close>

definition readModemLocations :: "'w adapter_env \<Rightarrow> 64 word \<Rightarrow> BatchingMode \<Rightarrow> ('w, struct list) adapter_op" where
  "readModemLocations env cnt m =
     (let p = fresh(''batchType_valid'' := Num 1, ''batchType'' := batchType_of m) in
      after (LOC_SEND_SYNC_REQ env QMI_LOC_READ_FROM_BATCH_REQ_V02 QMI_LOC_READ_FROM_BATCH_IND_V02
        (if cnt \<noteq> 0 then p(''numberOfEntries'' := Num (uint (ucast cnt :: 32 word)), ''transactionId'' := Num 1) else p))
        (\<lambda>(ok, ind).
          let n = unat (word_of_int (num (ind ''numberOfEntries'')) :: 32 word); es = elements (ind ''batchedReportList'') in
          if ok \<and> num (ind ''numberOfEntries_valid'') \<noteq> 0 \<and> num (ind ''batchedReportList_valid'') \<noteq> 0
          then if n \<le> nat QMI_LOC_READ_FROM_BATCH_MAX_SIZE_V02
            then gives (map (\<lambda>i. read_location env (if i < length es then obj (es ! i) else fresh)) [0..<n])
            else (\<lambda>a. Faults)
          else gives []))"

section \<open>Reporting\<close>

text \<open>The positions come newest first. They are stored from the end of an array of one element more than were
  asked for, and those of a trip from the start of an array of as many. An index that does not fit, as an
  unsigned number or as \<open>int\<close>, is dropped.\<close>

fun store_back :: "64 word \<Rightarrow> 64 word \<Rightarrow> struct list \<Rightarrow> struct list \<Rightarrow> struct list" where
  "store_back entries got [] arr = arr"
| "store_back entries got (l # ls) arr =
     (let index = entries - got in
      store_back entries (got + 1) ls
        (if index \<le> entries \<and> 0 \<le> sint (ucast index :: 32 word) then arr[unat index := l] else arr))"

fun store_forth :: "64 word \<Rightarrow> 64 word \<Rightarrow> struct list \<Rightarrow> struct list \<Rightarrow> struct list" where
  "store_forth entries idx [] arr = arr"
| "store_forth entries idx (l # ls) arr =
     store_forth entries (idx + 1) ls (if idx < entries then arr[unat idx := l] else arr)"

definition to_read :: "64 word \<Rightarrow> 64 word" where
  "to_read n = min n (word_of_int QMI_LOC_READ_FROM_BATCH_MAX_SIZE_V02)"

text \<open>The loop that reads. What is left to read is an unsigned difference. \<open>None\<close> if the modem never stops.\<close>

partial_function (option) read_loop :: "'w adapter_env \<Rightarrow> BatchingMode \<Rightarrow> (64 word \<Rightarrow> struct list \<Rightarrow> struct list \<Rightarrow> struct list)
    \<Rightarrow> 64 word \<Rightarrow> 64 word \<Rightarrow> 64 word \<Rightarrow> struct list \<Rightarrow> 'w adapter
    \<Rightarrow> ((struct list \<times> 64 word) \<times> 'w adapter) outcome option" where
  "read_loop env m store entries cnt got arr a =
     (case readModemLocations env cnt m a of
        Faults \<Rightarrow> Some Faults
      | Blocks \<Rightarrow> Some Blocks
      | Returns r \<Rightarrow>
          let ls = fst r; got' = got + of_nat (length ls); want = to_read (entries - got') in
          if ls \<noteq> [] \<and> 0 < want
          then read_loop env m store entries want got' (store got ls arr) (snd r)
          else Some (Returns ((store got ls arr, got'), snd r)))"

definition read_batch :: "'w adapter_env \<Rightarrow> BatchingMode \<Rightarrow> (64 word \<Rightarrow> struct list \<Rightarrow> struct list \<Rightarrow> struct list)
    \<Rightarrow> 64 word \<Rightarrow> struct list \<Rightarrow> ('w, struct list \<times> 64 word) adapter_op" where
  "read_batch env m store entries arr a =
     (case read_loop env m store entries (to_read entries) 0 arr a of None \<Rightarrow> Blocks | Some r \<Rightarrow> r)"

text \<open>If one position more came than was asked for, the one that is out of order moves to the end.\<close>

definition timestamp :: "struct \<Rightarrow> 64 word" where
  "timestamp l = word_of_int (num (l ''timestamp''))"

fun find_disorder :: "nat \<Rightarrow> 64 word \<Rightarrow> struct list \<Rightarrow> nat option" where
  "find_disorder 0 current arr = None"
| "find_disorder (Suc i) current arr =
     (if current < timestamp (arr ! i) then Some i else find_disorder i (timestamp (arr ! i)) arr)"

definition put_in_order :: "64 word \<Rightarrow> struct list \<Rightarrow> struct list" where
  "put_in_order entries arr =
     (case find_disorder (nat (sint (ucast (entries - 1) :: 32 word) + 1)) (timestamp (arr ! unat entries)) arr of
        None \<Rightarrow> arr
      | Some i \<Rightarrow> take i arr @ drop (Suc i) arr @ [arr ! i])"

text \<open>The base class reads as many positions as it is told.\<close>

definition report_locations :: "struct list \<Rightarrow> nat \<Rightarrow> 64 word \<Rightarrow> BatchingMode \<Rightarrow> ('w, unit) adapter_op" where
  "report_locations arr offset got m =
     (if offset + unat got \<le> length arr then calls_base (Base_reportLocations (take (unat got) (drop offset arr)) m)
      else (\<lambda>a. Faults))"

definition getBatchedLocationsSync :: "'w adapter_env \<Rightarrow> 64 word \<Rightarrow> ('w, int) adapter_op" where
  "getBatchedLocationsSync env cnt a =
     (let entries = min (mBatchSize a) cnt; fin = (\<lambda>_. gives (hal env ''LOCATION_ERROR_SUCCESS'')) in
      if entries = 0 then after (report_locations [] 0 0 BATCHING_MODE_ROUTINE) fin a
      else after (read_batch env BATCHING_MODE_ROUTINE (store_back entries) entries (replicate (unat entries + 1) fresh))
        (\<lambda>(arr, got). after (report_locations (if got > entries then put_in_order entries arr else arr)
            (if entries > got then unat (ucast (1 + entries - got) :: 32 word) else if got > entries then 0 else 1)
            got BATCHING_MODE_ROUTINE) fin) a)"

definition getBatchedLocations :: "'w adapter_env \<Rightarrow> 64 word \<Rightarrow> bool \<Rightarrow> ('w, unit) adapter_op" where
  "getBatchedLocations env cnt wanted =
     (if wanted then after (getBatchedLocationsSync env cnt) (respond True) else gives ())"

definition getBatchedTripLocationsSync :: "'w adapter_env \<Rightarrow> 64 word \<Rightarrow> 32 word \<Rightarrow> ('w, int) adapter_op" where
  "getBatchedTripLocationsSync env cnt distance a =
     (let entries = min (mTripBatchSize a) cnt; fin = (\<lambda>_. gives (hal env ''LOCATION_ERROR_SUCCESS'')) in
      if entries = 0 then after (report_locations [] 0 0 BATCHING_MODE_TRIP) fin a
      else after (read_batch env BATCHING_MODE_TRIP (store_forth entries) entries (replicate (unat entries) fresh))
        (\<lambda>(arr, got). after (report_locations arr 0 got BATCHING_MODE_TRIP) (\<lambda>_.
          after (if distance \<noteq> 0 then calls_base (Base_reportCompletedTrips distance) else gives ()) fin)) a)"

definition getBatchedTripLocations :: "'w adapter_env \<Rightarrow> 64 word \<Rightarrow> 32 word \<Rightarrow> bool \<Rightarrow> ('w, unit) adapter_op" where
  "getBatchedTripLocations env cnt distance wanted =
     (if wanted then after (getBatchedTripLocationsSync env cnt distance) (respond True) else gives ())"

definition reStartOutdoorTripBatching :: "'w adapter_env \<Rightarrow> 32 word \<Rightarrow> 32 word \<Rightarrow> 32 word \<Rightarrow> bool \<Rightarrow> ('w, unit) adapter_op" where
  "reStartOutdoorTripBatching env distance interval timeout wanted =
     after (queryAccumulatedTripDistanceSync env) (\<lambda>r.
     after (case r of
         None \<Rightarrow> gives (hal env ''LOCATION_ERROR_SUCCESS'')
       | Some (d, n) \<Rightarrow> if n \<noteq> 0 then getBatchedTripLocationsSync env (ucast n) 0
                        else gives (hal env ''LOCATION_ERROR_SUCCESS'')) (\<lambda>_.
     after (stopOutdoorTripBatchingSync env False) (\<lambda>_.
     after (startOutdoorTripBatchingSync env distance interval timeout) (respond wanted))))"

section \<open>Events\<close>

definition batchFullEvent :: "'w adapter_env \<Rightarrow> struct \<Rightarrow> ('w, int) adapter_op" where
  "batchFullEvent env info a =
     (let cnt = word_of_int (num (info ''batchCount'')) :: 32 word;
          t = (if num (info ''batchType_valid'') \<noteq> 0 then info ''batchType'' else batch_type ''eQMI_LOC_LOCATION_BATCHING_V02'');
          distance = (if num (info ''accumulatedDistance_valid'') \<noteq> 0
                      then word_of_int (num (info ''accumulatedDistance'')) else 0) in
      if num t = num (batch_type ''eQMI_LOC_OUTDOOR_TRIP_BATCHING_V02'') \<and>
         isMessageSupported env (engine_capabilities a) ''LOC_API_ADAPTER_MESSAGE_OUTDOOR_TRIP_BATCHING''
      then getBatchedTripLocationsSync env (ucast cnt) distance a
      else getBatchedLocationsSync env (ucast cnt) a)"

definition batchStatusEvent :: "'w adapter_env \<Rightarrow> struct \<Rightarrow> ('w, unit) adapter_op" where
  "batchStatusEvent env info = calls_base (Base_handleBatchStatusEvent
     (hal env (if num (info ''batchingStatus'') = enumerator qmiLocBatchingStatusEnumT_v02 ''eQMI_LOC_BATCH_POS_AVAILABLE_V02''
       then ''BATCHING_STATUS_POSITION_AVAILABE'' else ''BATCHING_STATUS_POSITION_UNAVAILABLE'')))"

end
