(* ===== verification/AdapterBatchProps.thy ===== *)
theory AdapterBatchProps
  imports AdapterBatch AdapterSubscription
begin

unbundle bit_operations_syntax

text \<open>
  What holds of reading a batch: which positions are reported, in which order, and what a modem that
  sends more of them than it was asked for does to the reader.
\<close>

section \<open>Reading as it should be\<close>

text \<open>The positions of a batch: as many as are wanted, at most five at a time, until none comes.\<close>

function read_all :: "'w adapter_env \<Rightarrow> BatchingMode \<Rightarrow> nat \<Rightarrow> 'w adapter \<Rightarrow> (struct list \<times> 'w adapter) outcome" where
  "read_all env m n a =
     (if n = 0 then Returns ([], a)
      else andthen (readModemLocations env (of_nat (min n 5)) m a) (\<lambda>(ls, a').
        if ls = [] then Returns ([], a')
        else andthen (read_all env m (n - length ls) a') (\<lambda>(ls', a''). Returns (ls @ ls', a''))))"
  by pat_completeness auto
termination
  by (relation "measure (\<lambda>(env, m, n, a). n)") auto

declare read_all.simps [simp del]

text \<open>A modem that gives at most as many positions as it is asked for.\<close>

definition reads_within :: "'w adapter_env \<Rightarrow> BatchingMode \<Rightarrow> bool" where
  "reads_within env m \<longleftrightarrow> (\<forall>n a. n \<le> 5 \<longrightarrow>
     (\<exists>ls a'. readModemLocations env (of_nat n) m a = Returns (ls, a') \<and> length ls \<le> n))"

lemma read_all_within:
  assumes "reads_within env m"
  shows "\<exists>ls a'. read_all env m n a = Returns (ls, a') \<and> length ls \<le> n"
proof (induction n arbitrary: a rule: less_induct)
  case (less n)
  show ?case
  proof (cases "n = 0")
    case True
    then show ?thesis by (simp add: read_all.simps)
  next
    case False
    have "min n 5 \<le> 5" by simp
    then obtain ls a' where r: "readModemLocations env (of_nat (min n 5)) m a = Returns (ls, a')" "length ls \<le> min n 5"
      using assms unfolding reads_within_def by blast
    show ?thesis
    proof (cases "ls = []")
      case True
      then show ?thesis using False r by (simp add: read_all.simps [of env m n a])
    next
      case ne: False
      with False have "n - length ls < n" by simp
      from less.IH [OF this, of a'] obtain ls' a'' where
        "read_all env m (n - length ls) a' = Returns (ls', a'')" "length ls' \<le> n - length ls" by blast
      moreover from this r(2) have "length (ls @ ls') \<le> n" by (simp add: le_diff_conv2)
      ultimately show ?thesis using False ne r(1) by (simp add: read_all.simps [of env m n a])
    qed
  qed
qed

text \<open>A place for positions that can be filled piece by piece.\<close>

locale piecewise =
  fixes store :: "64 word \<Rightarrow> struct list \<Rightarrow> struct list \<Rightarrow> struct list"
  assumes pieces: "store g (ls @ ls') arr = store (g + of_nat (length ls)) ls' (store g ls arr)"
    and nothing: "store g [] arr = arr"
begin

lemma loop_reads:
  assumes "reads_within env m" and "0 < n" and "unat got + n = unat entries"
    and "read_all env m n a = Returns (ls, a')"
  shows "read_loop env m store entries (of_nat (min n 5)) got arr a
    = Some (Returns ((store got ls arr, got + of_nat (length ls)), a'))"
  using assms(2-4)
proof (induction n arbitrary: got arr a ls a' rule: less_induct)
  case (less n)
  have "min n 5 \<le> 5" by simp
  then obtain ps b where r: "readModemLocations env (of_nat (min n 5)) m a = Returns (ps, b)" "length ps \<le> min n 5"
    using assms(1) unfolding reads_within_def by blast
  have small: "length ps \<le> n" using r(2) by simp
  have bound: "unat entries < 2 ^ 64" using unsigned_less [of entries] by simp
  show ?case
  proof (cases "ps = []")
    case True
    then have "ls = [] \<and> a' = b" using less.prems r by (simp add: read_all.simps [of env m n a])
    then show ?thesis using True r(1) nothing by (simp add: read_loop.simps)
  next
    case False
    from less.prems(1,3) r False obtain qs where
      q: "read_all env m (n - length ps) b = Returns (qs, a')" "ls = ps @ qs"
      by (auto simp: read_all.simps [of env m n a] andthen_Returns)
    have g: "unat (got + of_nat (length ps)) = unat got + length ps"
      using less.prems(2) small bound by (simp add: unat_word_ariths unat_of_nat)
    have left: "entries - (got + of_nat (length ps)) = of_nat (n - length ps)"
      using less.prems(2) small bound g
      by (intro word_unat_eq_iff [THEN iffD2]) (simp add: unat_sub word_le_nat_alt unat_of_nat)
    have want: "to_read (entries - (got + of_nat (length ps))) = of_nat (min (n - length ps) 5)"
    proof -
      have k: "unat (of_nat (n - length ps) :: 64 word) = n - length ps"
        using less.prems(2) bound by (simp add: unat_of_nat)
      show ?thesis unfolding left to_read_def QMI_LOC_READ_FROM_BATCH_MAX_SIZE_V02_def
        by (auto simp: min_def word_le_nat_alt k)
    qed
    show ?thesis
    proof (cases "n = length ps")
      case True
      then have "qs = []" "a' = b" using q(1) by (simp_all add: read_all.simps)
      then show ?thesis using True False r(1) q(2) want by (simp add: read_loop.simps [of env m store entries])
    next
      case False
      with small \<open>ps \<noteq> []\<close> have n': "0 < n - length ps" "n - length ps < n" by auto
      have w: "(0 :: 64 word) < of_nat (min (n - length ps) 5)"
        using n'(1) by (auto simp: word_less_nat_alt unat_of_nat min_def)
      have e: "unat (got + of_nat (length ps)) + (n - length ps) = unat entries"
        using less.prems(2) small g by simp
      from less.IH [OF n'(2,1) e q(1), of "store got ps arr"]
      have "read_loop env m store entries (of_nat (min (n - length ps) 5)) (got + of_nat (length ps)) (store got ps arr) b
        = Some (Returns ((store got ls arr, got + of_nat (length ls)), a'))"
        by (simp add: q(2) pieces add.assoc)
      then show ?thesis using r(1) \<open>ps \<noteq> []\<close> w want
        by (simp add: read_loop.simps [of env m store entries "of_nat (min n 5)"])
    qed
  qed
qed

lemma batch_reads:
  assumes "reads_within env m" and "entries \<noteq> 0" and "read_all env m (unat entries) a = Returns (ls, a')"
  shows "read_batch env m store entries arr a = Returns ((store 0 ls arr, of_nat (length ls)), a')"
proof -
  have n: "0 < unat entries" using assms(2) by (simp add: unat_gt_0)
  have "to_read entries = of_nat (min (unat entries) 5)"
    by (simp add: to_read_def QMI_LOC_READ_FROM_BATCH_MAX_SIZE_V02_def min_def word_le_nat_alt)
  with loop_reads [OF assms(1) n _ assms(3), of 0 entries arr] show ?thesis by (simp add: read_batch_def)
qed

end

lemma store_back_pieces:
  "store_back n g (ls @ ls') arr = store_back n (g + of_nat (length ls)) ls' (store_back n g ls arr)"
  by (induction ls arbitrary: g arr) (simp_all add: Let_def add.assoc)

lemma store_forth_pieces:
  "store_forth n g (ls @ ls') arr = store_forth n (g + of_nat (length ls)) ls' (store_forth n g ls arr)"
  by (induction ls arbitrary: g arr) (simp_all add: add.assoc)

interpretation backward: piecewise "store_back n" for n
  by unfold_locales (simp_all add: store_back_pieces)

interpretation forward: piecewise "store_forth n" for n
  by unfold_locales (simp_all add: store_forth_pieces)

section \<open>What is reported\<close>

lemma index_fits:
  assumes "unat (i :: 64 word) < 2 ^ 31"
  shows "0 \<le> sint (ucast i :: 32 word)"
proof -
  have "nat (uint i) < 2 ^ 31" using assms unfolding unat_eq_nat_uint .
  then have "uint i < int (2 ^ 31)" by (simp only: nat_less_iff [OF unsigned_greater_eq])
  then have small: "uint i < 2 ^ 31" by simp
  have "uint (ucast i :: 32 word) = take_bit 32 (uint i)" by (simp add: unsigned_ucast_eq)
  also have "... = uint i" using small by (simp add: take_bit_int_eq_self)
  finally have same: "uint (ucast i :: 32 word) = uint i" .
  have "- (2 ^ 31) \<le> uint i" by (rule order_trans [OF _ unsigned_greater_eq]) simp
  then have "signed_take_bit 31 (uint (ucast i :: 32 word)) = uint i"
    unfolding same using small by (rule signed_take_bit_int_eq_self)
  then show ?thesis by (simp add: sint_uint)
qed

lemma unat_next:
  assumes "unat g < unat (n :: 64 word)"
  shows "unat (g + 1 :: 64 word) = unat g + 1"
proof -
  have "unat n < 2 ^ 64" using unsigned_less [of n] by simp
  then have "unat g + 1 < 2 ^ 64" using assms by linarith
  then show ?thesis by (simp add: unat_word_ariths)
qed

lemma store_back_result:
  assumes "unat g + length ls \<le> unat n" and "unat n < 2 ^ 31" and "length arr = unat n + 1"
  shows "store_back n g ls arr = take (unat n + 1 - unat g - length ls) arr @ rev ls @ drop (unat n + 1 - unat g) arr"
  using assms
proof (induction ls arbitrary: g arr)
  case Nil
  then show ?case by simp
next
  case (Cons l ls)
  have g: "unat (g + 1) = unat g + 1"
    using Cons.prems(1) by (intro unat_next [of g n]) simp
  have le: "g \<le> n" using Cons.prems(1) by (simp add: word_le_nat_alt)
  then have i: "unat (n - g) = unat n - unat g" by (simp add: unat_sub)
  have ok: "n - g \<le> n \<and> 0 \<le> sint (ucast (n - g) :: 32 word)"
    using index_fits [of "n - g"] i Cons.prems(2) le by (simp add: word_le_nat_alt)
  let ?arr = "arr[unat n - unat g := l]"
  have "store_back n g (l # ls) arr = store_back n (g + 1) ls ?arr" using ok i by (simp add: Let_def)
  also have "... = take (unat n + 1 - unat (g + 1) - length ls) ?arr @ rev ls @ drop (unat n + 1 - unat (g + 1)) ?arr"
    using Cons.prems g by (intro Cons.IH) auto
  also have "... = take (unat n - unat g - length ls) arr @ rev ls @ l # drop (unat n + 1 - unat g) arr"
  proof -
    have "drop (unat n - unat g) ?arr = l # drop (Suc (unat n - unat g)) arr"
      using Cons.prems(3) by (simp add: drop_update_cancel Cons_nth_drop_Suc [symmetric])
    then show ?thesis using g Cons.prems(1) by (simp add: Suc_diff_le)
  qed
  finally show ?case by simp
qed

lemma store_forth_result:
  assumes "unat g + length ls \<le> unat n" and "length arr = unat n"
  shows "store_forth n g ls arr = take (unat g) arr @ ls @ drop (unat g + length ls) arr"
  using assms
proof (induction ls arbitrary: g arr)
  case Nil
  then show ?case by simp
next
  case (Cons l ls)
  have lt: "g < n" using Cons.prems(1) by (simp add: word_less_nat_alt)
  have g: "unat (g + 1) = unat g + 1"
    using lt by (intro unat_next [of g n]) (simp add: word_less_nat_alt)
  have "store_forth n g (l # ls) arr = store_forth n (g + 1) ls (arr[unat g := l])" using lt by simp
  also have "... = take (unat (g + 1)) (arr[unat g := l]) @ ls @ drop (unat (g + 1) + length ls) (arr[unat g := l])"
    using Cons.prems g by (intro Cons.IH) auto
  also have "... = take (unat g) arr @ l # ls @ drop (unat g + length (l # ls)) arr"
    using Cons.prems g by (simp add: take_Suc_conv_app_nth)
  finally show ?case by simp
qed

text \<open>If the modem gives at most as many positions as it is asked for, reading a batch ends, and reports all positions
  that came until none came or the batch was read, the last one first, whatever the pieces were in which they came.\<close>

theorem batched_locations_reported:
  assumes "reads_within env BATCHING_MODE_ROUTINE" and "min (mBatchSize a) cnt < 2 ^ 31"
  shows "getBatchedLocationsSync env cnt a =
    andthen (read_all env BATCHING_MODE_ROUTINE (unat (min (mBatchSize a) cnt)) a) (\<lambda>(ls, a').
      Returns (hal env ''LOCATION_ERROR_SUCCESS'',
        a'\<lparr>base_calls := base_calls a' @ [Base_reportLocations (rev ls) BATCHING_MODE_ROUTINE]\<rparr>))"
proof (cases "min (mBatchSize a) cnt = 0")
  case True
  then show ?thesis
    by (simp add: getBatchedLocationsSync_def read_all.simps report_locations_def after_def calls_base_def
        changes_def gives_def)
next
  case False
  let ?n = "min (mBatchSize a) cnt" and ?arr = "replicate (unat (min (mBatchSize a) cnt) + 1) fresh"
  obtain ls a' where r: "read_all env BATCHING_MODE_ROUTINE (unat ?n) a = Returns (ls, a')" "length ls \<le> unat ?n"
    using read_all_within [OF assms(1)] by blast
  have small: "unat ?n < 2 ^ 31" using assms(2) by (simp add: word_less_nat_alt)
  have got: "unat (of_nat (length ls) :: 64 word) = length ls"
    using r(2) small by (simp add: unat_of_nat)
  have arr: "store_back ?n 0 ls ?arr = take (unat ?n + 1 - length ls) ?arr @ rev ls"
    using store_back_result [of 0 ls ?n ?arr] r(2) small by simp
  have less: "\<not> ?n < of_nat (length ls)" using r(2) got by (simp add: word_less_nat_alt)
  have off: "(if of_nat (length ls) < ?n then unat (ucast (1 + ?n - of_nat (length ls)) :: 32 word) else 1)
      = unat ?n + 1 - length ls"
  proof (cases "of_nat (length ls) < ?n")
    case True
    then have "of_nat (length ls) \<le> 1 + ?n" "unat (1 + ?n) = 1 + unat ?n"
      using small got by (auto simp: word_le_nat_alt word_less_nat_alt unat_word_ariths)
    then have "unat (1 + ?n - of_nat (length ls)) = unat ?n + 1 - length ls" by (simp add: unat_sub got)
    moreover have "unat ?n + 1 - length ls < 2 ^ 32" using small by simp
    ultimately show ?thesis using True by (simp add: unsigned_ucast_eq take_bit_nat_eq_self)
  next
    case False
    then show ?thesis using r(2) got by (simp add: word_less_nat_alt not_less)
  qed
  have "getBatchedLocationsSync env cnt a = after (report_locations (store_back ?n 0 ls ?arr) (unat ?n + 1 - length ls)
      (of_nat (length ls)) BATCHING_MODE_ROUTINE) (\<lambda>_. gives (hal env ''LOCATION_ERROR_SUCCESS'')) a'"
    using backward.batch_reads [OF assms(1) False r(1)] less off False
    by (simp only: getBatchedLocationsSync_def Let_def if_False after_def [of "read_batch _ _ _ _ _"] andthen.simps prod.case)
  also have "... = Returns (hal env ''LOCATION_ERROR_SUCCESS'',
      a'\<lparr>base_calls := base_calls a' @ [Base_reportLocations (rev ls) BATCHING_MODE_ROUTINE]\<rparr>)"
    unfolding arr using r(2) by (simp add: got report_locations_def after_def calls_base_def changes_def gives_def)
  finally show ?thesis by (simp add: r(1))
qed

text \<open>A modem for the witnesses; the number of positions it gives depends on the number that is asked for.\<close>

definition asked :: "request \<Rightarrow> int" where
  "asked r = (case req_payload r of None \<Rightarrow> 0 | Some p \<Rightarrow> num (p ''numberOfEntries''))"

definition batch_adapter :: "(int \<Rightarrow> int) \<Rightarrow> nat list adapter_env" where
  "batch_adapter f = demo_adapter (\<lambda>r. (eLOC_CLIENT_SUCCESS, fresh(''numberOfEntries_valid'' := Num 1,
     ''numberOfEntries'' := Num (f (asked r)), ''batchedReportList_valid'' := Num 1)))"

definition full_batch :: "nat list adapter" where
  "full_batch = new_adapter\<lparr>mBatchSize := 7, mTripBatchSize := 1\<rparr>"

lemma demo_reads:
  assumes "0 \<le> f (uint (ucast cnt :: 32 word))" and "f (uint (ucast cnt :: 32 word)) \<le> 5"
  shows "\<exists>ls a'. readModemLocations (batch_adapter f) cnt m a = Returns (ls, a') \<and>
    length ls = nat (f (uint (ucast cnt :: 32 word)))"
proof -
  let ?k = "f (uint (ucast cnt :: 32 word))"
  have k: "unat (word_of_int ?k :: 32 word) = nat ?k"
    using assms by (simp add: unat_eq_nat_uint uint_word_of_int)
  then show ?thesis
    using assms
    by (auto simp: readModemLocations_def LOC_SEND_SYNC_REQ_def locSyncSendReq_def after_def gives_def loc_sync_send_def
        batch_adapter_def demo_adapter_def engine_busy_def ind_status_def sync_request_def answered_well_def asked_def
        fresh_def QMI_LOC_READ_FROM_BATCH_IND_V02_def QMI_LOC_QUERY_GNSS_ENERGY_CONSUMED_IND_V02_def
        QMI_LOC_READ_FROM_BATCH_MAX_SIZE_V02_def Let_def)
qed

theorem batched_locations_reported_witness:
  "\<exists>ls a'. read_all (batch_adapter (\<lambda>n. n)) BATCHING_MODE_ROUTINE 7 full_batch = Returns (ls, a') \<and>
     getBatchedLocationsSync (batch_adapter (\<lambda>n. n)) 9 full_batch = Returns (hal (batch_adapter (\<lambda>n. n)) ''LOCATION_ERROR_SUCCESS'',
       a'\<lparr>base_calls := base_calls a' @ [Base_reportLocations (rev ls) BATCHING_MODE_ROUTINE]\<rparr>)"
proof -
  have w: "reads_within (batch_adapter (\<lambda>n. n)) BATCHING_MODE_ROUTINE"
    unfolding reads_within_def
  proof (intro allI impI)
    fix n :: nat and a
    assume n: "n \<le> 5"
    have "uint (ucast (of_nat n :: 64 word) :: 32 word) = int n"
      using n by (simp add: unsigned_ucast_eq take_bit_int_eq_self uint_nat unat_of_nat take_bit_nat_eq_self)
    with n demo_reads [of "\<lambda>n. n" "of_nat n" BATCHING_MODE_ROUTINE a]
    show "\<exists>ls a'. readModemLocations (batch_adapter (\<lambda>n. n)) (of_nat n) BATCHING_MODE_ROUTINE a = Returns (ls, a') \<and>
        length ls \<le> n" by auto
  qed
  obtain ls a' where r: "read_all (batch_adapter (\<lambda>n. n)) BATCHING_MODE_ROUTINE 7 full_batch = Returns (ls, a')"
    using read_all_within [OF w] by blast
  have m: "min (mBatchSize full_batch) 9 = 7" by (simp add: full_batch_def)
  then have "min (mBatchSize full_batch) 9 < 2 ^ 31" by simp
  from batched_locations_reported [OF w this] r show ?thesis by (simp add: m)
qed

text \<open>A trip is reported in the order in which it is read.\<close>

lemma trip_locations_reported:
  assumes "reads_within env BATCHING_MODE_TRIP" and "min (mTripBatchSize a) cnt \<noteq> 0"
  shows "getBatchedTripLocationsSync env cnt distance a =
    andthen (read_all env BATCHING_MODE_TRIP (unat (min (mTripBatchSize a) cnt)) a) (\<lambda>(ls, a').
      Returns (hal env ''LOCATION_ERROR_SUCCESS'',
        a'\<lparr>base_calls := base_calls a' @ Base_reportLocations ls BATCHING_MODE_TRIP #
          (if distance \<noteq> 0 then [Base_reportCompletedTrips distance] else [])\<rparr>))"
proof -
  let ?n = "min (mTripBatchSize a) cnt"
  obtain ls a' where r: "read_all env BATCHING_MODE_TRIP (unat ?n) a = Returns (ls, a')" "length ls \<le> unat ?n"
    using read_all_within [OF assms(1)] by blast
  have "unat ?n < 2 ^ 64" using unsigned_less [of ?n] by simp
  then have got: "unat (of_nat (length ls) :: 64 word) = length ls" using r(2) by (simp add: unat_of_nat)
  have "store_forth ?n 0 ls (replicate (unat ?n) fresh) = ls @ drop (length ls) (replicate (unat ?n) fresh)"
    using store_forth_result [of 0 ls ?n "replicate (unat ?n) fresh"] r(2) by simp
  then show ?thesis
    using assms(2) r forward.batch_reads [OF assms r(1)] got
    by (simp add: getBatchedTripLocationsSync_def Let_def after_def report_locations_def calls_base_def changes_def gives_def)
qed

lemma read_five:
  assumes "readModemLocations env n m a = Returns (ls, a')"
  shows "length ls \<le> 5"
  using assms
  by (auto simp: readModemLocations_def Let_def after_Returns gives_def QMI_LOC_READ_FROM_BATCH_MAX_SIZE_V02_def
      split: if_splits)

lemma length_store_forth: "length (store_forth n g ls arr) = length arr"
  by (induction ls arbitrary: g arr) auto

text \<open>A modem that sends more positions of a trip than were asked for makes the report read past the array.\<close>

theorem trip_reader_overruns:
  assumes "entries = min (mTripBatchSize a) cnt" and "entries \<noteq> 0"
    and "readModemLocations env (to_read entries) BATCHING_MODE_TRIP a = Returns (ls, a1)" and "unat entries < length ls"
    and "readModemLocations env 5 BATCHING_MODE_TRIP a1 = Returns ([], a2)"
  shows "getBatchedTripLocationsSync env cnt distance a = Faults"
proof -
  let ?got = "of_nat (length ls) :: 64 word"
  have five: "length ls \<le> 5" by (rule read_five [OF assms(3)])
  then have got: "unat ?got = length ls" by (simp add: unat_of_nat)
  have ne: "ls \<noteq> []" using assms(4) by auto
  have "unat (entries - ?got) = 2 ^ 64 + unat entries - length ls"
    using assms(4) five got by (simp add: unat_sub_if_size word_le_nat_alt word_size)
  then have "5 < unat (entries - ?got)" using five by simp
  then have left: "to_read (entries - ?got) = 5"
    by (simp add: to_read_def QMI_LOC_READ_FROM_BATCH_MAX_SIZE_V02_def min_def word_le_nat_alt)
  have "read_loop env BATCHING_MODE_TRIP (store_forth entries) entries (to_read entries) 0 arr a =
      Some (Returns ((store_forth entries 0 ls arr, ?got), a2))" for arr
    using assms(3,5) ne left
    by (simp add: read_loop.simps [of _ _ _ _ "to_read entries"] read_loop.simps [of _ _ _ _ 5])
  then have "read_batch env BATCHING_MODE_TRIP (store_forth entries) entries arr a =
      Returns ((store_forth entries 0 ls arr, ?got), a2)" for arr by (simp add: read_batch_def)
  then show ?thesis
    using assms(1,2,4) got
    by (simp add: getBatchedTripLocationsSync_def Let_def after_def report_locations_def length_store_forth)
qed

theorem trip_reader_overruns_witness:
  "getBatchedTripLocationsSync (batch_adapter (\<lambda>n. if n = 5 then 0 else 2)) 1 0 full_batch = Faults"
proof -
  let ?env = "batch_adapter (\<lambda>n. if n = 5 then 0 else 2)"
  have m: "1 = min (mTripBatchSize full_batch) 1" by (simp add: full_batch_def)
  have t: "to_read 1 = 1" by (simp add: to_read_def QMI_LOC_READ_FROM_BATCH_MAX_SIZE_V02_def)
  obtain ls a1 where r: "readModemLocations ?env (to_read 1) BATCHING_MODE_TRIP full_batch = Returns (ls, a1)" "length ls = 2"
    using demo_reads [of "\<lambda>n. if n = 5 then 0 else 2" "to_read 1" BATCHING_MODE_TRIP full_batch] by (auto simp: t)
  obtain a2 where "readModemLocations ?env 5 BATCHING_MODE_TRIP a1 = Returns ([], a2)"
    using demo_reads [of "\<lambda>n. if n = 5 then 0 else 2" 5 BATCHING_MODE_TRIP a1] by auto
  from trip_reader_overruns [OF m _ r(1) _ this] r(2) show ?thesis by simp
qed

end
