(* ===== verification/Spec2Isabelle.thy ===== *)
theory Spec2Isabelle
  imports LocTables StringRoutines LocClientProps LocSupportedMsgs LocSyncReq BaseQueue GnssPps MemoryStream PbRoundTrip
    HalClaims HalClientProps PbClaims HalWire AdapterSubscription AdapterBatchProps
begin

text \<open>
The location stack under \<open>src/\<close>: a modem that speaks QMI, the HAL's client of it, a daemon that serves
  the HAL to processes on sockets, and utilities. A theory's first text says what it holds; this one
  says how they belong together, what the lemmas show, and what is left out.

  \<^bold>\<open>Parts and how they interact.\<close> The location service of the modem is described by tables of messages
  (\<open>loc_api/loc_api_v02/location_service_v02.c\<close> and \<open>.h\<close>). The client \<open>loc_api_v02_client.cpp\<close> opens a
  control point of the QMI library on that service, checks and sends requests by those tables, and hands
  indications to callbacks; \<open>loc_api_sync_req.cpp\<close> makes a request and its indication one blocking call.
  The adapter \<open>LocApiV02.cpp\<close> uses both to serve the HAL.
  The daemon \<open>location_hal_daemon\<close> receives messages of \<open>location_api_msg_proto\<close> on sockets, dispatches
  each to a handler of the service or of the client it came from, calls the HAL, and sends the answers
  and reports of the HAL back as such messages. \<open>utils/base_util\<close> and \<open>gnsspps\<close> stand beside them.

  \<^bold>\<open>Foundations.\<close> \<open>Prelude\<close> (rounding, lists), \<open>CLayout\<close> (sizes, alignments and offsets of C structs),
  \<open>Bytes\<close> (little endian words in buffers; the type \<open>outcome\<close> of calls that return, fault or block).

  \<^bold>\<open>The messages of the location service.\<close> \<open>QmiIdl\<close> models the tables of \<open>qmi_idl_lib_internal.h\<close>: type
  codes, encodings with their flags, offsets, lengths, and checks of a table against C structs. \<open>LocIds\<close>
  has the constants, \<open>LocTypes1\<close> to \<open>LocTypes4\<close> every struct and enumeration, \<open>LocTypeTable\<close> and
  \<open>LocMessages1\<close> to \<open>LocMessages4\<close> the bytes of the descriptions, \<open>LocService\<close> the service tables.
  \<open>LocChecks\<close> evaluates the checks entry by entry, \<open>LocTables\<close> states what follows: every type and message
  is described as its struct is laid out, the lengths of the service tables are those of the longest
  encodings, and a buffer of the size the client looks up holds the decoded indication.

  \<^bold>\<open>The QMI client.\<close> \<open>LocClientTables\<close> and \<open>LocClientSizes\<close> are the size tables and lookups of
  \<open>loc_api_v02_client.cpp\<close>, \<open>LocClient\<close> its operations and callbacks over an explicit heap of callback data,
  \<open>LocSupportedMsgs\<close> its check of supported messages. \<open>LocClientInv\<close> proves the invariants over every
  sequence of operations and callbacks, \<open>LocClientProps\<close> the guarantees of opening, closing, sending. In a
  run a callback is one step; its two parts, up to the checks and from them on, are definitions of their own,
  and \<open>LocClientProps\<close> shows what a close between them does.
  \<open>LocSyncReq\<close> has the eight slots of \<open>loc_api_sync_req.cpp\<close> and the interleavings of requesting threads
  with the one that delivers indications, spurious wake-ups included; the locale \<open>slot_pool\<close> is the
  contract of the slots.

  \<^bold>\<open>The adapter.\<close> \<open>AdapterState\<close> is the state of \<open>LocApiV02\<close> and its synchronous requests, with the line of
  those that found the engine busy; \<open>AdapterEvents\<close> the event masks, opening and closing, the events of the
  service and tracking; \<open>AdapterBatch\<close> batching. \<open>AdapterTracking\<close> says what the service was told against
  what the adapter believes (the locale \<open>mask_registration\<close>), \<open>AdapterRuns\<close> proves it of every run,
  \<open>AdapterSubscription\<close> and \<open>AdapterBatchProps\<close> state what follows. The adapter's thread handles one message at a
  time. A synchronous request is a parameter here: its status, its indication, and the client after it.

  \<^bold>\<open>Utilities.\<close> \<open>StringRoutines\<close>, \<open>BaseList\<close>, \<open>BaseQueue\<close> and \<open>MemoryStream\<close> are files of
  \<open>utils/base_util\<close>: bytes and heaps with every access out of bounds or to freed memory as a fault, the
  queue refining a list. \<open>GnssPps\<close> is \<open>gnsspps/gnsspps.c\<close>, with \<open>CDouble\<close> for its arithmetic.

  \<^bold>\<open>Messages between processes.\<close> \<open>PbConv\<close>, \<open>PbConstants\<close>, \<open>PbMasks\<close>, \<open>PbEnums\<close> and \<open>PbRoundTrip\<close> are the
  conversions of masks and enumerations of \<open>LocationApiPbMsgConv.cpp\<close> and their round trips; \<open>PbStruct\<close>
  has the values of C structs and of messages of protocol buffers, \<open>PbEncode\<close> and \<open>PbDecode\<close> the
  conversions of structures, \<open>PbLaws\<close> when a decoder undoes an encoder, \<open>PbKnown\<close> the values and flags of
  each member that come back, by the names of the headers and proved from the tables of the conversions,
  \<open>PbTrips\<close>, \<open>PbReports\<close> and \<open>PbPosition\<close> the round trips, \<open>PbClaims\<close> what arrives and what does not. \<open>PbWire\<close> is the header of a
  message, \<open>PbMessages\<close> and \<open>PbConfigMessages\<close> the 77 classes of \<open>LocationApiMsg.h\<close> with their constructors
  and serialisations. \<open>PbAlike\<close> shows that a decoder cannot tell a field of value zero from one left out,
  \<open>PbDelivery\<close> that 57 classes arrive whole. \<open>SockNode\<close> has the names of sockets.

  \<^bold>\<open>The daemon.\<close> \<open>HalClient\<close> is the state of \<open>LocHalDaemonClientHandler.cpp\<close>, \<open>HalService\<close> that of
  \<open>LocationApiService.cpp\<close>, \<open>HalRequests\<close> and \<open>HalCallbacks\<close> the handlers of requests and of the HAL's
  callbacks; \<open>PbDispatch\<close> and \<open>HalWire\<close> are \<open>processClientMsg\<close>, from bytes to the handlers. \<open>HalDaemon\<close> runs
  them in any order and proves the invariant; maintenance, which pings and deletes without the lock, runs
  there as single pings and deletions with other operations between them, and what a request in the middle of
  a deletion does is stated in \<open>HalClaims\<close>; \<open>HalSafety\<close> and \<open>HalProps\<close> what it gives, \<open>HalClaims\<close>,
  \<open>HalClientProps\<close> and \<open>PbRequests\<close> the claims.

  \<^bold>\<open>Bounds and fuel.\<close> Recursion over lists and over counters ends by itself. The retries of the client are
  counters with the code's bounds (fifty sends, twenty attempts to open). The wait for the service is a
  \<open>partial_function\<close>, so that waiting for ever is a value. The sizes of streams stay below \<open>2^64\<close>. Floats of
  intervals and thresholds are multiples of \<open>2^-149\<close>, those that are only passed on are their bits; the
  pulse times are doubles within the range in which the sums are exact.

  \<^bold>\<open>Parameters.\<close> The QMI library, the common type table, the library of protocol buffers (whose parsing is
  the hypothesis \<open>transmits\<close> where messages arrive), the HAL behind the daemon, the sockets, the clocks, and
  the values, types and array lengths of the HAL's headers, which are outside the repository, are arguments
  of the definitions.

  \<^bold>\<open>Not modelled.\<close> Log output. Memory that is only freed. Allocation that fails in \<open>new\<close> (it throws);
  addresses are not reused. Payloads of synchronous requests are as large as the indication. Of the daemon
  what holds the lock runs one call at a time. A reported accuracy that is not a number. The order of
  unordered maps is arbitrary but fixed. \<open>LocApiV02\<close>'s reports, geofences and configuration requests. The
  client and integration libraries, QAPI, Synergy and FIDL adapters convert between structs of headers outside the repository; \<open>libqmi_loader\<close>, sockets, \<open>nvparam_mgr\<close>,
  \<open>sync\<close> and \<open>log\<close> are system calls; generated code and test programs have no logic of their own.
\<close>

end
